(* ===== verification/Prelude.thy ===== *)
theory Prelude
  imports Main "HOL-Library.Word" "HOL-Library.List_Lexorder"
begin

text \<open>
  Shared vocabulary of the development.

  \<^item> \<open>qstring\<close> is \<^verbatim>\<open>QString\<close>: a sequence of 16-bit code units; \<open>qs\<close> turns a source literal
    (\<^verbatim>\<open>QStringLiteral\<close>, \<^verbatim>\<open>QLatin1String\<close>, \<^verbatim>\<open>QString::fromLatin1\<close>) into one.
  \<^item> \<open>bytes\<close> is \<^verbatim>\<open>QByteArray\<close> and every \<^verbatim>\<open>const char *\<close>: a sequence of 8-bit characters.
  \<^item> \<open>qmsg\<close> is an error message as the code builds it: the literal of the source and the
    arguments given to \<^verbatim>\<open>QString::arg\<close>, or a text that Qt supplied. A \<^verbatim>\<open>QString *error\<close>
    out-parameter is a \<open>qmsg option\<close>, \<open>None\<close> for the empty string.
  \<^item> \<open>reply\<close> is what \<^verbatim>\<open>success\<close> and \<^verbatim>\<open>failure\<close> build (Qt\_Json gives the JSON form).

  The collections \<open>qstring_simps\<close> (text comparisons) and \<open>reg_pres\<close> (operations that keep
  the registry invariant) grow along the development.
\<close>

named_theorems qstring_simps \<open>comparison and decomposition of literal texts\<close>
named_theorems reg_pres \<open>operations that keep the registry invariant\<close>
named_theorems frame_simps \<open>fields of the bridge state an operation leaves alone\<close>

type_synonym i32 = "32 word"
type_synonym i64 = "64 word"
type_synonym qchar = "16 word"
type_synonym qstring = "qchar list"
type_synonym bytes = string
type_synonym ptr = nat
type_synonym handle = int
type_synonym thread = nat

abbreviation nullptr :: ptr where
  "nullptr \<equiv> 0"

definition qch :: "char \<Rightarrow> qchar" where
  "qch c = word_of_nat (of_char c)"

definition qs :: "string \<Rightarrow> qstring" where
  "qs s = map qch s"

datatype marg = AStr qstring | ANum int

datatype qmsg = Msg string "marg list" | Raw qstring

text \<open>\<^verbatim>\<open>QString::indexOf(QLatin1Char)\<close>, \<open>None\<close> for -1.\<close>

fun indexOf :: "'a list \<Rightarrow> 'a \<Rightarrow> nat option" where
  "indexOf [] c = None"
| "indexOf (x # xs) c = (if x = c then Some 0 else map_option Suc (indexOf xs c))"

text \<open>\<^verbatim>\<open>QString::section(sep, -1)\<close>: the part after the last separator, the whole text without one.\<close>

definition section_last :: "'a \<Rightarrow> 'a list \<Rightarrow> 'a list" where
  "section_last c s = rev (takeWhile (\<lambda>x. x \<noteq> c) (rev s))"

text \<open>\<^verbatim>\<open>constData()\<close> handed to a C string parameter ends at the first NUL.\<close>

definition cstr :: "bytes \<Rightarrow> bytes" where
  "cstr b = takeWhile (\<lambda>c. c \<noteq> CHR 0x00) b"

text \<open>Splitting \<^verbatim>\<open>Module.Class\<close> at its first dot, as \<^verbatim>\<open>left(separator)\<close> and \<^verbatim>\<open>mid(separator + 1)\<close> do.\<close>

definition split_qualified :: "qstring \<Rightarrow> qstring \<times> qstring" where
  "split_qualified s =
     (case indexOf s (qch CHR ''.'') of
        None \<Rightarrow> ([], s)
      | Some i \<Rightarrow> (take i s, drop (Suc i) s))"

definition hasNul :: "qstring \<Rightarrow> bool" where
  "hasNul s \<longleftrightarrow> 0 \<in> set s"

lemma of_char_less_256: "of_char c < (256 :: nat)"
proof -
  have "of_char c mod 256 < (256 :: nat)"
    by (rule mod_less_divisor) simp
  then show ?thesis by simp
qed

lemma qch_inject [simp, qstring_simps]: "qch a = qch b \<longleftrightarrow> a = b"
proof
  assume "qch a = qch b"
  then have "unat (qch a) = unat (qch b)" by simp
  moreover have "of_char c < (65536 :: nat)" for c
    using of_char_less_256 [of c] by linarith
  ultimately have "of_char a = (of_char b :: nat)"
    by (simp add: qch_def unat_of_nat)
  then show "a = b" by simp
qed simp

lemma qs_inject [simp, qstring_simps]: "qs a = qs b \<longleftrightarrow> a = b"
  unfolding qs_def by (simp add: inj_map_eq_map inj_def)

lemma qs_Nil [simp]: "qs [] = []"
  by (simp add: qs_def)

lemma qs_eq_Nil [simp]: "qs s = [] \<longleftrightarrow> s = []" "[] = qs s \<longleftrightarrow> s = []"
  by (auto simp: qs_def)

lemma qs_Cons: "qs (c # s) = qch c # qs s"
  by (simp add: qs_def)

lemma qs_append: "qs (s @ t) = qs s @ qs t"
  by (simp add: qs_def)

lemma indexOf_None_iff [simp]: "indexOf xs c = None \<longleftrightarrow> c \<notin> set xs"
  by (induction xs) auto

lemma indexOf_SomeD:
  "indexOf xs c = Some i \<Longrightarrow> i < length xs \<and> xs ! i = c \<and> c \<notin> set (take i xs)"
  by (induction xs arbitrary: i) (auto split: if_splits)

lemma indexOf_append_dot: "c \<notin> set m \<Longrightarrow> indexOf (m @ c # n) c = Some (length m)"
  by (induction m) auto

lemma split_qualified_unqualified: "qch CHR ''.'' \<notin> set s \<Longrightarrow> split_qualified s = ([], s)"
proof -
  assume "qch CHR ''.'' \<notin> set s"
  then have e: "indexOf s (qch CHR ''.'') = None" by (simp only: indexOf_None_iff not_False_eq_True)
  show ?thesis unfolding split_qualified_def e by simp
qed

lemma split_qualified_dot:
  "qch CHR ''.'' \<notin> set m \<Longrightarrow> split_qualified (m @ qch CHR ''.'' # n) = (m, n)"
  by (simp add: split_qualified_def indexOf_append_dot)

lemma cstr_no_nul: "CHR 0x00 \<notin> set b \<Longrightarrow> cstr b = b"
  unfolding cstr_def by (subst takeWhile_eq_all_conv) auto

end
