(* ===== verification/Std_Map.thy ===== *)
theory Std_Map
  imports Prelude
begin

text \<open>
  \<^verbatim>\<open>std::map\<close>, \<^verbatim>\<open>QMap\<close> and \<^verbatim>\<open>QJsonObject\<close>: key-ordered containers, as association lists with
  strictly ascending keys, so that iteration (\<^verbatim>\<open>for (const auto &entry : objects)\<close>) is the list
  itself. The locale \<open>key_map\<close> is the contract the registry relies on (lookup after emplace
  and erase); it is interpreted by the list operations at the end.
\<close>

type_synonym ('k, 'v) smap = "('k \<times> 'v) list"

definition smap_ok :: "('k :: linorder, 'v) smap \<Rightarrow> bool" where
  "smap_ok m \<longleftrightarrow> sorted_wrt (<) (map fst m)"

definition smap_find :: "('k, 'v) smap \<Rightarrow> 'k \<Rightarrow> 'v option" where
  "smap_find m k = map_of m k"

text \<open>\<^verbatim>\<open>operator[] =\<close> / \<^verbatim>\<open>insert\<close>: replaces the value of a present key.\<close>

fun smap_put :: "'k :: linorder \<Rightarrow> 'v \<Rightarrow> ('k, 'v) smap \<Rightarrow> ('k, 'v) smap" where
  "smap_put k v [] = [(k, v)]"
| "smap_put k v ((a, b) # m) =
     (if k < a then (k, v) # (a, b) # m
      else if k = a then (k, v) # m
      else (a, b) # smap_put k v m)"

text \<open>\<^verbatim>\<open>std::map::emplace\<close>: keeps the value of a present key.\<close>

definition smap_emplace :: "'k :: linorder \<Rightarrow> 'v \<Rightarrow> ('k, 'v) smap \<Rightarrow> ('k, 'v) smap" where
  "smap_emplace k v m = (case smap_find m k of None \<Rightarrow> smap_put k v m | Some _ \<Rightarrow> m)"

definition smap_erase :: "'k \<Rightarrow> ('k, 'v) smap \<Rightarrow> ('k, 'v) smap" where
  "smap_erase k m = filter (\<lambda>(a, _). a \<noteq> k) m"

definition smap_of :: "('k :: linorder \<times> 'v) list \<Rightarrow> ('k, 'v) smap" where
  "smap_of kvs = fold (\<lambda>(k, v). smap_put k v) kvs []"

subsection \<open>The contract\<close>

locale key_map =
  fixes find :: "'m \<Rightarrow> 'k \<Rightarrow> 'v option"
    and emplace :: "'k \<Rightarrow> 'v \<Rightarrow> 'm \<Rightarrow> 'm"
    and put :: "'k \<Rightarrow> 'v \<Rightarrow> 'm \<Rightarrow> 'm"
    and erase :: "'k \<Rightarrow> 'm \<Rightarrow> 'm"
    and ok :: "'m \<Rightarrow> bool"
  assumes find_put: "find (put k v m) = (find m)(k \<mapsto> v)"
    and find_emplace: "find (emplace k v m) = (case find m k of None \<Rightarrow> (find m)(k \<mapsto> v) | Some _ \<Rightarrow> find m)"
    and find_erase: "find (erase k m) = (find m)(k := None)"
    and ok_put: "ok m \<Longrightarrow> ok (put k v m)"
    and ok_emplace: "ok m \<Longrightarrow> ok (emplace k v m)"
    and ok_erase: "ok m \<Longrightarrow> ok (erase k m)"
begin

lemma find_erase_all: "find (fold erase ks m) x = (if x \<in> set ks then None else find m x)"
  by (induction ks arbitrary: m) (auto simp: find_erase)

lemma ok_erase_all: "ok m \<Longrightarrow> ok (fold erase ks m)"
  by (induction ks arbitrary: m) (auto simp: ok_erase)

lemma find_emplace_fresh: "find m k = None \<Longrightarrow> find (emplace k v m) x = (if x = k then Some v else find m x)"
  by (simp add: find_emplace)

lemma dom_erase_subset: "dom (find (erase k m)) \<subseteq> dom (find m)"
  by (auto simp: find_erase)

end

subsection \<open>The lists meet the contract\<close>

lemma set_smap_put: "fst ` set (smap_put k v m) = insert k (fst ` set m)"
  by (induction k v m rule: smap_put.induct) auto

lemma smap_ok_Nil [simp]: "smap_ok []"
  by (simp add: smap_ok_def)

lemma smap_ok_Cons: "smap_ok ((a, b) # m) \<longleftrightarrow> (\<forall>x\<in>fst ` set m. a < x) \<and> smap_ok m"
  by (auto simp: smap_ok_def)

lemma smap_ok_put: "smap_ok m \<Longrightarrow> smap_ok (smap_put k v m)"
  by (induction k v m rule: smap_put.induct)
     (auto simp: smap_ok_Cons set_smap_put simp del: set_map)

lemma smap_find_put [simp]: "smap_find (smap_put k v m) x = (if x = k then Some v else smap_find m x)"
  unfolding smap_find_def
  by (induction k v m rule: smap_put.induct) auto

lemma smap_find_erase [simp]: "smap_find (smap_erase k m) x = (if x = k then None else smap_find m x)"
  unfolding smap_find_def smap_erase_def
  by (induction m) auto

lemma smap_ok_erase: "smap_ok m \<Longrightarrow> smap_ok (smap_erase k m)"
  unfolding smap_ok_def smap_erase_def
  by (induction m) (auto split: prod.splits)

lemma smap_find_Nil [simp]: "smap_find [] k = None"
  by (simp add: smap_find_def)

lemma smap_find_Some_in: "smap_find m k = Some v \<Longrightarrow> (k, v) \<in> set m"
  unfolding smap_find_def by (rule map_of_SomeD)

lemma smap_find_None_iff: "smap_find m k = None \<longleftrightarrow> k \<notin> fst ` set m"
  by (simp add: smap_find_def map_of_eq_None_iff)

lemma smap_ok_distinct: "smap_ok m \<Longrightarrow> distinct (map fst m)"
  unfolding smap_ok_def using strict_sorted_iff by blast

lemma smap_find_in: "smap_ok m \<Longrightarrow> (k, v) \<in> set m \<Longrightarrow> smap_find m k = Some v"
  unfolding smap_find_def by (simp add: smap_ok_distinct)

interpretation smap: key_map smap_find smap_emplace smap_put smap_erase smap_ok
  by unfold_locales
     (auto simp: fun_eq_iff smap_emplace_def smap_ok_put smap_ok_erase split: option.splits)

lemma smap_find_of: "smap_find (smap_of kvs) k = map_of (rev kvs) k"
proof -
  have "smap_find (fold (\<lambda>(k, v). smap_put k v) kvs m) k
        = (case map_of (rev kvs) k of None \<Rightarrow> smap_find m k | Some v \<Rightarrow> Some v)" for m
    by (induction kvs arbitrary: m) (auto simp: map_add_def split: option.splits)
  then show ?thesis
    by (simp add: smap_of_def split: option.splits)
qed

lemma smap_ok_of: "smap_ok (smap_of kvs)"
proof -
  have "smap_ok m \<Longrightarrow> smap_ok (fold (\<lambda>(k, v). smap_put k v) kvs m)" for m
    by (induction kvs arbitrary: m) (auto simp: smap_ok_put)
  then show ?thesis by (simp add: smap_of_def)
qed

lemma smap_erase_all_set: "set (fold smap_erase ks m) = {e \<in> set m. fst e \<notin> set ks}"
  by (induction ks arbitrary: m) (auto simp: smap_erase_def)

end
