(* ===== verification/Machine_Numbers.thy ===== *)
theory Machine_Numbers
  imports Prelude Complex_Main
begin

text \<open>
  \<^verbatim>\<open>double\<close> and the casts between it and the integer types. A finite double is its rational
  value (so -0.0 and 0.0 are one value); comparisons with NaN are false. \<open>int_to_dbl\<close> is
  \<^verbatim>\<open>static_cast<double>\<close> of a 64-bit integer, rounding to 53 significant bits, ties to even.
\<close>

datatype dbl = DFin rat | DInf bool | DNaN

fun dbl_isfinite :: "dbl \<Rightarrow> bool" where
  "dbl_isfinite (DFin r) = True"
| "dbl_isfinite _ = False"

text \<open>\<^verbatim>\<open>std::floor(raw) == raw\<close>; the floor of an infinity is itself.\<close>

fun dbl_integral :: "dbl \<Rightarrow> bool" where
  "dbl_integral (DFin r) = (of_int \<lfloor>r\<rfloor> = r)"
| "dbl_integral (DInf _) = True"
| "dbl_integral DNaN = False"

fun dbl_less :: "dbl \<Rightarrow> dbl \<Rightarrow> bool" where
  "dbl_less (DFin a) (DFin b) = (a < b)"
| "dbl_less (DFin a) (DInf n) = (\<not> n)"
| "dbl_less (DInf n) (DFin b) = n"
| "dbl_less (DInf m) (DInf n) = (m \<and> \<not> n)"
| "dbl_less _ _ = False"

fun dbl_abs :: "dbl \<Rightarrow> dbl" where
  "dbl_abs (DFin r) = DFin \<bar>r\<bar>"
| "dbl_abs (DInf _) = DInf False"
| "dbl_abs DNaN = DNaN"

text \<open>
  \<^verbatim>\<open>static_cast<qint64>(raw)\<close> of a finite value truncates; a non-finite value is undefined in
  C++ and every cast of the bridge stands behind a finiteness check.
\<close>

fun dbl_trunc :: "dbl \<Rightarrow> int" where
  "dbl_trunc (DFin r) = (if 0 \<le> r then \<lfloor>r\<rfloor> else \<lceil>r\<rceil>)"
| "dbl_trunc _ = 0"

fun nbits :: "nat \<Rightarrow> nat" where
  "nbits n = (if n = 0 then 0 else Suc (nbits (n div 2)))"

declare nbits.simps [simp del]

definition round53 :: "nat \<Rightarrow> nat" where
  "round53 n =
     (let s = nbits n - 53; q = n div 2 ^ s; r = n mod 2 ^ s in
      if s = 0 then n
      else if 2 * r > 2 ^ s \<or> (2 * r = 2 ^ s \<and> odd q) then (q + 1) * 2 ^ s
      else q * 2 ^ s)"

definition int_to_dbl :: "int \<Rightarrow> dbl" where
  "int_to_dbl n = DFin (of_int (sgn n * int (round53 (nat \<bar>n\<bar>))))"

text \<open>The largest integer the bridge accepts as an exact JSON number, 2^53 - 1.\<close>

abbreviation max_exact :: int where
  "max_exact \<equiv> 9007199254740991"

definition int_max :: int where "int_max = 2147483647"
definition int_min :: int where "int_min = -2147483648"
definition uint_max :: int where "uint_max = 4294967295"

text \<open>The recurring guard: finite, integral and within the closed range.\<close>

definition dbl_in_range :: "int \<Rightarrow> int \<Rightarrow> dbl \<Rightarrow> bool" where
  "dbl_in_range lo hi d \<longleftrightarrow>
     \<not> (\<not> dbl_isfinite d \<or> \<not> dbl_integral d \<or> dbl_less d (DFin (of_int lo)) \<or> dbl_less (DFin (of_int hi)) d)"

subsection \<open>Exactness\<close>

lemma nbits_le: "n < 2 ^ k \<Longrightarrow> nbits n \<le> k"
proof (induction n arbitrary: k rule: nbits.induct)
  case (1 n)
  show ?case
  proof (cases "n = 0")
    case True then show ?thesis by (simp add: nbits.simps)
  next
    case False
    with "1.prems" obtain j where k: "k = Suc j" by (cases k) auto
    have "n div 2 < 2 ^ j" using "1.prems" k by (simp add: less_mult_imp_div_less mult.commute)
    with "1.IH" [OF False] have "nbits (n div 2) \<le> j" by simp
    with False k show ?thesis by (simp add: nbits.simps [of n])
  qed
qed

lemma round53_exact: "n \<le> 2 ^ 53 - 1 \<Longrightarrow> round53 n = n"
proof -
  assume "n \<le> 2 ^ 53 - 1"
  then have "nbits n - 53 = 0" using nbits_le [of n 53] by simp
  then show ?thesis by (simp add: round53_def)
qed

lemma int_to_dbl_exact: "\<bar>n\<bar> \<le> max_exact \<Longrightarrow> int_to_dbl n = DFin (of_int n)"
proof -
  assume n: "\<bar>n\<bar> \<le> max_exact"
  then have "nat \<bar>n\<bar> \<le> 2 ^ 53 - 1" by simp
  then have "round53 (nat \<bar>n\<bar>) = nat \<bar>n\<bar>" by (rule round53_exact)
  then have "sgn n * int (round53 (nat \<bar>n\<bar>)) = n" by (simp add: sgn_mult_abs)
  then show ?thesis by (simp only: int_to_dbl_def)
qed

lemma dbl_in_range_iff:
  "dbl_in_range lo hi d \<longleftrightarrow> (\<exists>n. d = DFin (of_int n) \<and> lo \<le> n \<and> n \<le> hi)"
proof (cases d)
  case (DFin r)
  show ?thesis
  proof
    assume a: "dbl_in_range lo hi d"
    then have r: "of_int \<lfloor>r\<rfloor> = r" by (simp add: dbl_in_range_def DFin)
    from a have "\<not> r < of_int lo" "\<not> of_int hi < r" by (simp_all add: dbl_in_range_def DFin)
    then have "\<not> \<lfloor>r\<rfloor> < lo" "\<not> hi < \<lfloor>r\<rfloor>" using r by (metis of_int_less_iff)+
    with r show "\<exists>n. d = DFin (of_int n) \<and> lo \<le> n \<and> n \<le> hi"
      unfolding DFin by (metis not_less)
  qed (auto simp: dbl_in_range_def)
qed (auto simp: dbl_in_range_def)

lemma dbl_in_range_of_int [simp]: "dbl_in_range lo hi (DFin (of_int n)) \<longleftrightarrow> lo \<le> n \<and> n \<le> hi"
  unfolding dbl_in_range_iff by auto

lemma dbl_trunc_of_int [simp]: "dbl_trunc (DFin (of_int n)) = n"
  by simp

lemma dbl_in_range_trunc:
  "dbl_in_range lo hi d \<Longrightarrow> d = DFin (of_int (dbl_trunc d)) \<and> lo \<le> dbl_trunc d \<and> dbl_trunc d \<le> hi"
  unfolding dbl_in_range_iff by auto

lemma round53_rounds: "round53 9007199254740993 = 9007199254740992"
  by (simp add: round53_def nbits.simps Let_def)

end
