(* ===== verification/Qt_Json.thy ===== *)
theory Qt_Json
  imports Std_Map Machine_Numbers
begin

text \<open>
  \<^verbatim>\<open>QJsonValue\<close>, \<^verbatim>\<open>QJsonObject\<close>, \<^verbatim>\<open>QJsonArray\<close> and the replies built from them
  (\<^verbatim>\<open>success\<close>, \<^verbatim>\<open>failure\<close>, \<^verbatim>\<open>pointObject\<close>, \<^verbatim>\<open>sizeObject\<close>, \<^verbatim>\<open>rectObject\<close>, \<^verbatim>\<open>marginsObject\<close> of
  qt6\_bridge.cpp). A JSON object is a key-ordered map; reading a missing key gives
  \<open>JUndefined\<close>. A default-constructed \<^verbatim>\<open>QJsonValue()\<close> is \<open>JNull\<close>.
\<close>

datatype json =
    JNull | JBool bool | JDouble dbl | JString qstring
  | JArray "json list" | JObject "(qstring \<times> json) list" | JUndefined

type_synonym jobject = "(qstring, json) smap"

definition jvalue :: "jobject \<Rightarrow> string \<Rightarrow> json" where
  "jvalue obj key = (case smap_find obj (qs key) of None \<Rightarrow> JUndefined | Some v \<Rightarrow> v)"

definition jcontains :: "jobject \<Rightarrow> string \<Rightarrow> bool" where
  "jcontains obj key \<longleftrightarrow> smap_find obj (qs key) \<noteq> None"

text \<open>\<^verbatim>\<open>QJsonObject{{k, v}, ...}\<close> with literal keys.\<close>

definition jobj :: "(string \<times> json) list \<Rightarrow> json" where
  "jobj kvs = JObject (smap_of (map (\<lambda>(k, v). (qs k, v)) kvs))"

fun isUndefined :: "json \<Rightarrow> bool" where
  "isUndefined JUndefined = True" | "isUndefined _ = False"

fun isNull :: "json \<Rightarrow> bool" where
  "isNull JNull = True" | "isNull _ = False"

fun isDouble :: "json \<Rightarrow> bool" where
  "isDouble (JDouble _) = True" | "isDouble _ = False"

fun isString :: "json \<Rightarrow> bool" where
  "isString (JString _) = True" | "isString _ = False"

fun isBool :: "json \<Rightarrow> bool" where
  "isBool (JBool _) = True" | "isBool _ = False"

fun isArray :: "json \<Rightarrow> bool" where
  "isArray (JArray _) = True" | "isArray _ = False"

fun isObject :: "json \<Rightarrow> bool" where
  "isObject (JObject _) = True" | "isObject _ = False"

fun toDouble :: "json \<Rightarrow> dbl" where
  "toDouble (JDouble d) = d" | "toDouble _ = DFin 0"

fun toString :: "json \<Rightarrow> qstring" where
  "toString (JString s) = s" | "toString _ = []"

fun toBool :: "json \<Rightarrow> bool" where
  "toBool (JBool b) = b" | "toBool _ = False"

fun toArray :: "json \<Rightarrow> json list" where
  "toArray (JArray xs) = xs" | "toArray _ = []"

fun toObject :: "json \<Rightarrow> jobject" where
  "toObject (JObject kvs) = kvs" | "toObject _ = []"

text \<open>\<^verbatim>\<open>QJsonValue::toInt(defaultValue)\<close>: the integral value of a number that fits an int, else the default.\<close>

definition toInt :: "json \<Rightarrow> int \<Rightarrow> int" where
  "toInt v dflt =
     (case v of JDouble d \<Rightarrow> if dbl_in_range int_min int_max d then dbl_trunc d else dflt | _ \<Rightarrow> dflt)"

text \<open>\<^verbatim>\<open>QJsonValue(int)\<close> and \<^verbatim>\<open>QJsonValue(static_cast<double>(id))\<close>.\<close>

definition jint :: "int \<Rightarrow> json" where
  "jint n = JDouble (int_to_dbl n)"

datatype reply = Success json | Failure qmsg

definition success :: "json \<Rightarrow> reply" where
  "success v = Success v"

definition failure :: "qmsg \<Rightarrow> reply" where
  "failure m = Failure m"

text \<open>The object that goes on the wire; \<open>render\<close> is \<^verbatim>\<open>QString::arg\<close> applied to the message.\<close>

fun reply_json :: "(qmsg \<Rightarrow> qstring) \<Rightarrow> reply \<Rightarrow> json" where
  "reply_json render (Success v) = jobj [(''ok'', JBool True), (''value'', v)]"
| "reply_json render (Failure m) = jobj [(''ok'', JBool False), (''error'', JString (render m))]"

definition pointObject :: "dbl \<Rightarrow> dbl \<Rightarrow> json" where
  "pointObject x y = jobj [(''x'', JDouble x), (''y'', JDouble y)]"

definition sizeObject :: "dbl \<Rightarrow> dbl \<Rightarrow> json" where
  "sizeObject width height = jobj [(''width'', JDouble width), (''height'', JDouble height)]"

definition rectObject :: "dbl \<Rightarrow> dbl \<Rightarrow> dbl \<Rightarrow> dbl \<Rightarrow> json" where
  "rectObject x y width height =
     jobj [(''x'', JDouble x), (''y'', JDouble y), (''width'', JDouble width), (''height'', JDouble height)]"

definition marginsObject :: "dbl \<Rightarrow> dbl \<Rightarrow> dbl \<Rightarrow> dbl \<Rightarrow> json" where
  "marginsObject l t r b =
     jobj [(''left'', JDouble l), (''top'', JDouble t), (''right'', JDouble r), (''bottom'', JDouble b)]"

lemmas json_object_defs = pointObject_def sizeObject_def rectObject_def marginsObject_def

subsection \<open>Reading back a brace-initialised object\<close>

lemma map_of_map_qs: "map_of (map (\<lambda>(k, v). (qs k, v)) kvs) (qs k) = map_of kvs k"
  by (induction kvs) auto

lemma smap_find_jobj: "smap_find (toObject (jobj kvs)) (qs k) = map_of (rev kvs) k"
  by (simp add: jobj_def smap_find_of rev_map map_of_map_qs)

lemma isObject_jobj [simp]: "isObject (jobj kvs)"
  by (simp add: jobj_def)

lemma jvalue_jobj [simp]:
  "jvalue (toObject (jobj kvs)) k = (case map_of (rev kvs) k of None \<Rightarrow> JUndefined | Some v \<Rightarrow> v)"
  by (simp add: jvalue_def smap_find_jobj)

lemma jcontains_jobj [simp]: "jcontains (toObject (jobj kvs)) k \<longleftrightarrow> map_of (rev kvs) k \<noteq> None"
  by (simp add: jcontains_def smap_find_jobj)

lemma jint_exact: "\<bar>n\<bar> \<le> max_exact \<Longrightarrow> jint n = JDouble (DFin (of_int n))"
  by (simp add: jint_def int_to_dbl_exact)

text \<open>The two replies are told apart by the \<^verbatim>\<open>ok\<close> field, whatever the rendering is.\<close>

lemma reply_json_ok: "jvalue (toObject (reply_json render r)) ''ok'' = JBool (case r of Success _ \<Rightarrow> True | Failure _ \<Rightarrow> False)"
  by (cases r) simp_all

end
