(* ===== verification/Qt_Library.thy ===== *)
theory Qt_Library
  imports Qt_Json
begin

text \<open>
  The Qt library as the bridge sees it. Qt is not part of the repository: its classes are the
  parameter \<open>Q\<close> of every definition that calls them, a record of functions over an unknown
  world \<open>'w\<close> (all QObjects, the event queue, the application) and unknown value contents \<open>'o\<close>
  (what is inside a QColor, a QDate, ...). Data that the bridge itself takes apart is concrete:
  \<^verbatim>\<open>QMetaType\<close> (\<open>metatype\<close>, equality is Qt's), \<^verbatim>\<open>QVariant\<close> (\<open>qvariant\<close>), \<^verbatim>\<open>QMetaObject\<close> and its
  parts. A pointer is the identity of one object (an address is never given to a second
  object), 0 is \<^verbatim>\<open>nullptr\<close>; \<^verbatim>\<open>qobject_cast<T*>(p) != nullptr\<close> is \<open>qobject_cast Q ''T'' w p\<close>.
\<close>

datatype metatype =
    MtInvalid | MtVoid | MtNullptr | MtQVariant | MtBool | MtInt | MtUInt | MtLongLong | MtULongLong
  | MtDouble | MtQString | MtQStringList | MtQByteArray | MtQVariantList | MtQVariantMap | MtQVariantHash
  | MtStringMap | MtStringHash | MtQJsonValue | MtQJsonObject | MtQJsonArray
  | MtQPoint | MtQPointF | MtQSize | MtQSizeF | MtQRect | MtQRectF | MtQMargins | MtQMarginsF
  | MtQLine | MtQLineF | MtQVector2D | MtQVector3D | MtQVector4D
  | MtQUuid | MtQRegularExpression | MtQGeoCoordinate | MtQHostAddress | MtQNetworkRequest
  | MtQImage | MtQPixmap | MtQIcon | MtQColor | MtQDate | MtQTime | MtQDateTime | MtQUrl
  | MtQFont | MtQKeySequence | MtQObjectStar | MtOther bytes

text \<open>
  A QVariant: \<open>VInts\<close> holds the integer geometry types (QPoint, QSize, QRect, QMargins, QLine)
  by their constructor arguments, \<open>VReals\<close> the floating ones and the vectors, \<open>VPointer\<close> a
  pointer to a QObject type, \<open>VEnum\<close> the storage bits of an enum, \<open>VOpaque\<close> every other type.
\<close>

datatype 'o qvariant =
    VInvalid | VNullptr | VBool bool | VInt i32 | VUInt i32 | VLongLong i64 | VULongLong i64
  | VDouble dbl | VString qstring | VStringList "qstring list" | VByteArray bytes
  | VList "'o qvariant list"
  | VMap "(qstring \<times> 'o qvariant) list" | VHash "(qstring \<times> 'o qvariant) list"
  | VStringMap "(qstring \<times> qstring) list" | VStringHash "(qstring \<times> qstring) list"
  | VJsonValue json | VJsonObject jobject | VJsonArray "json list"
  | VInts metatype "i32 list" | VReals metatype "dbl list"
  | VPointer metatype ptr | VEnum metatype i64 | VOpaque metatype 'o

fun variant_type :: "'o qvariant \<Rightarrow> metatype" where
  "variant_type VInvalid = MtInvalid"
| "variant_type VNullptr = MtNullptr"
| "variant_type (VBool _) = MtBool"
| "variant_type (VInt _) = MtInt"
| "variant_type (VUInt _) = MtUInt"
| "variant_type (VLongLong _) = MtLongLong"
| "variant_type (VULongLong _) = MtULongLong"
| "variant_type (VDouble _) = MtDouble"
| "variant_type (VString _) = MtQString"
| "variant_type (VStringList _) = MtQStringList"
| "variant_type (VByteArray _) = MtQByteArray"
| "variant_type (VList _) = MtQVariantList"
| "variant_type (VMap _) = MtQVariantMap"
| "variant_type (VHash _) = MtQVariantHash"
| "variant_type (VStringMap _) = MtStringMap"
| "variant_type (VStringHash _) = MtStringHash"
| "variant_type (VJsonValue _) = MtQJsonValue"
| "variant_type (VJsonObject _) = MtQJsonObject"
| "variant_type (VJsonArray _) = MtQJsonArray"
| "variant_type (VInts t _) = t"
| "variant_type (VReals t _) = t"
| "variant_type (VPointer t _) = t"
| "variant_type (VEnum t _) = t"
| "variant_type (VOpaque t _) = t"

text \<open>\<^verbatim>\<open>QVariant::isValid()\<close>.\<close>

definition v_isValid :: "'o qvariant \<Rightarrow> bool" where
  "v_isValid v \<longleftrightarrow> variant_type v \<noteq> MtInvalid"

datatype method_kind = MkSignal | MkSlot | MkConstructor | MkMethod
datatype method_access = AccPrivate | AccProtected | AccPublic

record metaproperty =
  prop_name :: bytes
  prop_type :: metatype
  prop_readable :: bool
  prop_writable :: bool
  prop_designable :: bool
  prop_stored :: bool

record metamethod =
  meth_signature :: bytes
  meth_kind :: method_kind
  meth_access :: method_access
  meth_valid :: bool
  meth_typeName :: "bytes option"
  meth_returnType :: metatype
  meth_paramNames :: "bytes list"
  meth_paramTypes :: "bytes list"
  meth_paramMetaTypes :: "metatype list"

record metaenum =
  enum_name :: bytes
  enum_scope :: bytes
  enum_isFlag :: bool
  enum_keys :: "(bytes \<times> i32) list"

datatype metaobject = MetaObject
  (mo_className: bytes) (mo_superClass: "metaobject option") (mo_properties: "metaproperty list")
  (mo_methods: "metamethod list") (mo_enumerators: "metaenum list") (mo_constructors: "metamethod list")

text \<open>Text, numbers and wire formats.\<close>

record qt_text =
  toUtf8 :: "qstring \<Rightarrow> bytes"
  toLatin1 :: "qstring \<Rightarrow> bytes"
  fromUtf8 :: "bytes \<Rightarrow> qstring"
  render :: "qmsg \<Rightarrow> qstring"
  number :: "int \<Rightarrow> qstring"
  toLongLong :: "qstring \<Rightarrow> int option"
  toULongLong :: "qstring \<Rightarrow> int option"
  toBase64 :: "bytes \<Rightarrow> bytes"
  fromBase64 :: "bytes \<Rightarrow> bytes option"
  json_parse :: "bytes \<Rightarrow> (qstring + json)"
  noErrorString :: qstring
  json_compact :: "json \<Rightarrow> bytes"
  to_float :: "dbl \<Rightarrow> dbl"
  regex_matches :: "string \<Rightarrow> qstring \<Rightarrow> bool"
  normalizedSignature :: "bytes \<Rightarrow> bytes"

text \<open>Meta-types, meta-objects and value types.\<close>

record 'o qt_values = qt_text +
  mt_name :: "metatype \<Rightarrow> bytes option"
  mt_isPointer :: "metatype \<Rightarrow> bool"
  mt_isEnum :: "metatype \<Rightarrow> bool"
  mt_isGadget :: "metatype \<Rightarrow> bool"
  mt_size :: "metatype \<Rightarrow> nat"
  mt_metaObject :: "metatype \<Rightarrow> metaobject option"
  findProperty :: "metaobject \<Rightarrow> bytes \<Rightarrow> metaproperty option"
  findMethod :: "metaobject \<Rightarrow> bytes \<Rightarrow> metamethod option"
  findSignal :: "metaobject \<Rightarrow> bytes \<Rightarrow> metamethod option"
  keyToValue64 :: "metaenum \<Rightarrow> bytes \<Rightarrow> i64 option"
  keysToValue64 :: "metaenum \<Rightarrow> bytes \<Rightarrow> i64 option"
  v_convert :: "'o qvariant \<Rightarrow> metatype \<Rightarrow> bool \<times> 'o qvariant"
  v_default :: "metatype \<Rightarrow> 'o qvariant"
  toVariant :: "json \<Rightarrow> 'o qvariant"
  fromVariant :: "'o qvariant \<Rightarrow> json"
  ofText :: "string \<Rightarrow> qstring \<Rightarrow> bool \<times> 'o"
  toText :: "string \<Rightarrow> 'o \<Rightarrow> qstring"
  regex_new :: "qstring \<Rightarrow> i32 \<Rightarrow> qstring + 'o"
  regex_parts :: "'o \<Rightarrow> qstring \<times> i32"
  url_new :: "qstring \<Rightarrow> qstring + 'o"
  geo_new :: "dbl \<Rightarrow> dbl \<Rightarrow> dbl option \<Rightarrow> 'o"
  geo_parts :: "'o \<Rightarrow> (dbl \<times> dbl \<times> dbl) option"
  request_new :: "'o \<Rightarrow> (bytes \<times> bytes) list \<Rightarrow> 'o"
  request_parts :: "'o \<Rightarrow> qstring \<times> (bytes \<times> bytes) list"
  readOnGadget :: "metaproperty \<Rightarrow> 'o qvariant \<Rightarrow> 'o qvariant"
  writeOnGadget :: "metaproperty \<Rightarrow> 'o qvariant \<Rightarrow> 'o qvariant \<Rightarrow> bool \<times> 'o qvariant"

text \<open>Images.\<close>

record 'o qt_images = "'o qt_values" +
  image_fromData :: "bytes \<Rightarrow> 'o option"
  image_png :: "'o \<Rightarrow> bytes option"
  pixmap_fromImage :: "'o \<Rightarrow> 'o"
  icon_fromPixmap :: "'o \<Rightarrow> 'o"
  pixmap_toImage :: "'o \<Rightarrow> 'o"
  icon_toImage :: "'o \<Rightarrow> 'o"

text \<open>
  Objects, the application, signal spies. \<open>qt_call\<close> runs a member function by its qualified
  name; \<open>qt_get\<close> reads through a const member function.
\<close>

record ('w, 'o) qt = "'o qt_images" +
  image_load :: "qstring \<Rightarrow> 'w \<Rightarrow> 'o option"
  alive :: "'w \<Rightarrow> ptr \<Rightarrow> bool"
  parent_of :: "'w \<Rightarrow> ptr \<Rightarrow> ptr"
  delete_object :: "ptr \<Rightarrow> 'w \<Rightarrow> 'w"
  object_count :: "'w \<Rightarrow> nat"
  setParent :: "ptr \<Rightarrow> ptr \<Rightarrow> 'w \<Rightarrow> 'w"
  metaObject_of :: "'w \<Rightarrow> ptr \<Rightarrow> metaobject"
  objectName :: "'w \<Rightarrow> ptr \<Rightarrow> qstring"
  qobject_cast :: "string \<Rightarrow> 'w \<Rightarrow> ptr \<Rightarrow> bool"
  meta_cast :: "metaobject \<Rightarrow> 'w \<Rightarrow> ptr \<Rightarrow> bool"
  qt_call :: "string \<Rightarrow> ptr \<Rightarrow> 'o qvariant list \<Rightarrow> 'w \<Rightarrow> 'o qvariant \<times> 'w"
  qt_get :: "string \<Rightarrow> ptr \<Rightarrow> 'o qvariant list \<Rightarrow> 'w \<Rightarrow> 'o qvariant"
  qt_new :: "string \<Rightarrow> 'o qvariant list \<Rightarrow> ptr \<Rightarrow> 'w \<Rightarrow> ptr \<times> 'w"
  newInstance :: "metaobject \<Rightarrow> 'o qvariant list \<Rightarrow> 'w \<Rightarrow> ptr \<times> 'w"
  dynamic_set :: "ptr \<Rightarrow> bytes \<Rightarrow> 'o qvariant \<Rightarrow> 'w \<Rightarrow> 'w"
  dynamic_names :: "'w \<Rightarrow> ptr \<Rightarrow> bytes list"
  dynamic_get :: "'w \<Rightarrow> ptr \<Rightarrow> bytes \<Rightarrow> 'o qvariant"
  prop_read :: "metaproperty \<Rightarrow> ptr \<Rightarrow> 'w \<Rightarrow> 'o qvariant \<times> 'w"
  prop_write :: "metaproperty \<Rightarrow> ptr \<Rightarrow> 'o qvariant \<Rightarrow> 'w \<Rightarrow> bool \<times> 'w"
  meth_invoke :: "metamethod \<Rightarrow> ptr \<Rightarrow> 'o qvariant list \<Rightarrow> 'w \<Rightarrow> (bool \<times> 'o qvariant) \<times> 'w"
  meth_invokeOnGadget :: "metamethod \<Rightarrow> 'o qvariant \<Rightarrow> 'o qvariant list \<Rightarrow> 'w \<Rightarrow> (bool \<times> 'o qvariant \<times> 'o qvariant) \<times> 'w"
  app_new :: "'w \<Rightarrow> 'w"
  app_reset :: "'w \<Rightarrow> 'w"
  app_instance :: "'w \<Rightarrow> bool"
  run_events :: "int \<Rightarrow> 'w \<Rightarrow> 'w"
  spy_new :: "ptr \<Rightarrow> metamethod \<Rightarrow> 'w \<Rightarrow> nat \<times> 'w"
  spy_isValid :: "'w \<Rightarrow> nat \<Rightarrow> bool"
  spy_queue :: "'w \<Rightarrow> nat \<Rightarrow> 'o qvariant list list"
  spy_takeFirst :: "nat \<Rightarrow> 'w \<Rightarrow> 'w"
  spy_delete :: "nat \<Rightarrow> 'w \<Rightarrow> 'w"

lemma v_isValid_simps [simp]:
  "\<not> v_isValid VInvalid" "v_isValid VNullptr" "v_isValid (VLongLong n)" "v_isValid (VULongLong n)"
  "v_isValid (VByteArray b)" "v_isValid (VMap m)" "v_isValid (VHash m)"
  "v_isValid (VStringMap s)" "v_isValid (VStringHash s)"
  by (simp_all add: v_isValid_def)

end
