(* ===== verification/Registry.thy ===== *)
theory Registry
  imports Qt_Library
begin

text \<open>
  The state of the adapter (qt6\_bridge.cpp) and its handle registry:
  \<^verbatim>\<open>objects\<close>, \<^verbatim>\<open>values\<close>, \<^verbatim>\<open>subscriptions\<close> and the counter \<^verbatim>\<open>nextObjectId\<close>
  that both tables draw handles from. \<^verbatim>\<open>qint64\<close> handles are integers here: the counter only
  grows, by one, and overflowing it needs 2^63 registrations.
  \<open>reg_inv\<close> is the well-formedness invariant every request keeps.
\<close>

definition kMaxRequestBytes :: int where "kMaxRequestBytes = 16 * 1024 * 1024"
definition kMaxResponseBytes :: int where "kMaxResponseBytes = 16 * 1024 * 1024"
definition kMaxInvocationArguments :: nat where "kMaxInvocationArguments = 10"
definition kMaxEventsPerPoll :: int where "kMaxEventsPerPoll = 1000"
definition kMaxWaitMilliseconds :: int where "kMaxWaitMilliseconds = 30000"

record subscription =
  sub_objectId :: handle
  sub_signature :: bytes
  sub_spy :: nat

record ('w, 'o) bridge =
  world :: 'w
  application :: bool
  applicationThread :: thread
  objects :: "(handle, ptr) smap"
  bvalues :: "(handle, 'o qvariant) smap"
  subscriptions :: "(handle, subscription list) smap"
  nextObjectId :: handle

definition bridge_init :: "'w \<Rightarrow> ('w, 'o) bridge" where
  "bridge_init w = \<lparr>world = w, application = False, applicationThread = 0,
     objects = [], bvalues = [], subscriptions = [], nextObjectId = 1\<rparr>"

text \<open>\<^verbatim>\<open>QPointer::data()\<close>: null once the object is destroyed.\<close>

definition qpointer_data :: "('w, 'o) qt \<Rightarrow> 'w \<Rightarrow> ptr \<Rightarrow> ptr" where
  "qpointer_data Q w p = (if p \<noteq> nullptr \<and> alive Q w p then p else nullptr)"

definition objectForId :: "('w, 'o) qt \<Rightarrow> ('w, 'o) bridge \<Rightarrow> handle \<Rightarrow> ptr" where
  "objectForId Q st oid =
     (case smap_find (objects st) oid of
        None \<Rightarrow> nullptr
      | Some p \<Rightarrow> qpointer_data Q (world st) p)"

fun idForObject_in :: "('w, 'o) qt \<Rightarrow> 'w \<Rightarrow> (handle, ptr) smap \<Rightarrow> ptr \<Rightarrow> handle" where
  "idForObject_in Q w [] p = 0"
| "idForObject_in Q w ((oid, q) # es) p =
     (if qpointer_data Q w q = p then oid else idForObject_in Q w es p)"

definition idForObject :: "('w, 'o) qt \<Rightarrow> ('w, 'o) bridge \<Rightarrow> ptr \<Rightarrow> handle" where
  "idForObject Q st p = idForObject_in Q (world st) (objects st) p"

definition registerObject :: "('w, 'o) qt \<Rightarrow> ptr \<Rightarrow> ('w, 'o) bridge \<Rightarrow> handle \<times> ('w, 'o) bridge" where
  "registerObject Q p st =
     (if p = nullptr then (0, st)
      else let existing = idForObject Q st p in
        if existing \<noteq> 0 then (existing, st)
        else let oid = nextObjectId st in
          (oid, st\<lparr>nextObjectId := oid + 1, objects := smap_emplace oid p (objects st)\<rparr>))"

definition registerValue :: "'o qvariant \<Rightarrow> ('w, 'o) bridge \<Rightarrow> handle \<times> ('w, 'o) bridge" where
  "registerValue v st =
     (if \<not> v_isValid v then (0, st)
      else let oid = nextObjectId st in
        (oid, st\<lparr>nextObjectId := oid + 1, bvalues := smap_emplace oid v (bvalues st)\<rparr>))"

definition valueForId :: "('w, 'o) bridge \<Rightarrow> handle \<Rightarrow> 'o qvariant option" where
  "valueForId st oid = smap_find (bvalues st) oid"

definition objectHandleValue :: "('w, 'o) qt \<Rightarrow> ptr \<Rightarrow> ('w, 'o) bridge \<Rightarrow> json \<times> ('w, 'o) bridge" where
  "objectHandleValue Q p st =
     (let (oid, st') = registerObject Q p st in (jobj [(''object_id'', jint oid)], st'))"

text \<open>
  The parent walk of \<^verbatim>\<open>isDescendantOf\<close>. The fuel is Qt's number of live objects, which
  bounds every chain of parents (\<open>tree_ok\<close>).
\<close>

fun ancestor_walk :: "('w, 'o) qt \<Rightarrow> 'w \<Rightarrow> nat \<Rightarrow> ptr \<Rightarrow> ptr \<Rightarrow> bool" where
  "ancestor_walk Q w 0 p a = False"
| "ancestor_walk Q w (Suc n) p a =
     (if p = nullptr then False
      else if p = a then True
      else ancestor_walk Q w n (parent_of Q w p) a)"

definition isDescendantOf :: "('w, 'o) qt \<Rightarrow> 'w \<Rightarrow> ptr \<Rightarrow> ptr \<Rightarrow> bool" where
  "isDescendantOf Q w candidate a =
     ancestor_walk Q w (Suc (object_count Q w))
       (if candidate = nullptr then nullptr else parent_of Q w candidate) a"

text \<open>Documented: QObjects form a forest; every chain of parents ends.\<close>

definition tree_ok :: "('w, 'o) qt \<Rightarrow> 'w \<Rightarrow> bool" where
  "tree_ok Q w \<longleftrightarrow> (\<forall>p. \<exists>n \<le> object_count Q w. (parent_of Q w ^^ n) p = nullptr) \<and> parent_of Q w nullptr = nullptr"

definition reg_inv :: "('w, 'o) bridge \<Rightarrow> bool" where
  "reg_inv st \<longleftrightarrow>
     smap_ok (objects st) \<and> smap_ok (bvalues st) \<and> smap_ok (subscriptions st) \<and> 1 \<le> nextObjectId st
     \<and> (\<forall>oid\<in>fst ` set (objects st). 1 \<le> oid \<and> oid < nextObjectId st)
     \<and> (\<forall>oid\<in>fst ` set (bvalues st). 1 \<le> oid \<and> oid < nextObjectId st)
     \<and> fst ` set (objects st) \<inter> fst ` set (bvalues st) = {}
     \<and> fst ` set (subscriptions st) \<subseteq> fst ` set (objects st)
     \<and> (\<forall>(oid, subs)\<in>set (subscriptions st). \<forall>s\<in>set subs. sub_objectId s = oid)
     \<and> (\<not> application st \<longrightarrow> objects st = [] \<and> bvalues st = [] \<and> subscriptions st = [])"

subsection \<open>Lookup and registration\<close>

lemma objectForId_Some_iff:
  "objectForId Q st oid = p \<and> p \<noteq> nullptr \<longleftrightarrow>
     smap_find (objects st) oid = Some p \<and> p \<noteq> nullptr \<and> alive Q (world st) p"
  by (auto simp: objectForId_def qpointer_data_def split: option.splits)

lemma idForObject_in_Some:
  "p \<noteq> nullptr \<Longrightarrow> idForObject_in Q w m p = oid \<Longrightarrow> oid \<noteq> 0 \<Longrightarrow>
     (oid, p) \<in> set m \<and> alive Q w p"
  by (induction m) (auto simp: qpointer_data_def split: if_splits)

lemma idForObject_in_0:
  "p \<noteq> nullptr \<Longrightarrow> 0 \<notin> fst ` set m \<Longrightarrow> idForObject_in Q w m p = 0 \<Longrightarrow> alive Q w p \<Longrightarrow> p \<notin> snd ` set m"
proof (induction m)
  case (Cons e m)
  then show ?case
    by (cases e, simp add: qpointer_data_def split: if_splits) auto
qed simp

lemma set_smap_emplace_fresh:
  "k \<notin> fst ` set m \<Longrightarrow> fst ` set (smap_emplace k v m) = insert k (fst ` set m)"
  by (simp add: smap_emplace_def smap_find_None_iff [THEN iffD2] set_smap_put)

lemma reg_inv_fresh:
  "reg_inv st \<Longrightarrow> nextObjectId st \<notin> fst ` set (objects st) \<and> nextObjectId st \<notin> fst ` set (bvalues st)"
  by (force simp: reg_inv_def)

lemma reg_inv_add_object:
  assumes "reg_inv st" "application st"
  shows "reg_inv (st\<lparr>nextObjectId := nextObjectId st + 1, objects := smap_emplace (nextObjectId st) p (objects st)\<rparr>)"
proof -
  note fr = reg_inv_fresh [OF assms(1)]
  show ?thesis
    using assms fr
    by (auto simp: reg_inv_def set_smap_emplace_fresh smap.ok_emplace)
qed

lemma reg_inv_add_value:
  assumes "reg_inv st" "application st"
  shows "reg_inv (st\<lparr>nextObjectId := nextObjectId st + 1, bvalues := smap_emplace (nextObjectId st) v (bvalues st)\<rparr>)"
proof -
  note fr = reg_inv_fresh [OF assms(1)]
  show ?thesis
    using assms fr
    by (auto simp: reg_inv_def set_smap_emplace_fresh smap.ok_emplace)
qed

lemma reg_inv_world [simp]: "reg_inv (st\<lparr>world := w\<rparr>) = reg_inv st"
  by (simp add: reg_inv_def)

lemma reg_inv_init: "reg_inv (bridge_init w)"
  by (simp add: reg_inv_def bridge_init_def)

lemma ancestor_walk_iff:
  "parent_of Q w nullptr = nullptr \<Longrightarrow> (parent_of Q w ^^ n) p = nullptr \<Longrightarrow> n < fuel \<Longrightarrow> a \<noteq> nullptr \<Longrightarrow>
     ancestor_walk Q w fuel p a \<longleftrightarrow> (\<exists>k. (parent_of Q w ^^ k) p = a)"
proof (induction fuel arbitrary: p n)
  case 0 then show ?case by simp
next
  case (Suc fuel)
  have zero: "(parent_of Q w ^^ k) nullptr = nullptr" for k
    using Suc.prems(1) by (induction k) auto
  show ?case
  proof (cases "p = nullptr \<or> p = a")
    case True
    then show ?thesis
    proof
      assume "p = nullptr"
      then show ?thesis using zero Suc.prems(4) by auto
    next
      assume "p = a"
      moreover have "(parent_of Q w ^^ 0) p = p" by simp
      ultimately show ?thesis using Suc.prems(4) by (auto simp del: funpow_0 intro: exI [of _ 0])
    qed
  next
    case False
    then obtain m where n: "n = Suc m" using Suc.prems(2) by (cases n) auto
    have "(parent_of Q w ^^ m) (parent_of Q w p) = nullptr"
      using Suc.prems(2) by (simp add: n funpow_Suc_right del: funpow.simps)
    with Suc.IH [OF Suc.prems(1) this] Suc.prems(3,4)
    have "ancestor_walk Q w fuel (parent_of Q w p) a \<longleftrightarrow> (\<exists>k. (parent_of Q w ^^ k) (parent_of Q w p) = a)"
      by (simp add: n)
    also have "\<dots> \<longleftrightarrow> (\<exists>k. (parent_of Q w ^^ k) p = a)"
    proof
      assume "\<exists>k. (parent_of Q w ^^ k) (parent_of Q w p) = a"
      then show "\<exists>k. (parent_of Q w ^^ k) p = a" by (metis funpow_swap1 funpow.simps(2) comp_apply)
    next
      assume "\<exists>k. (parent_of Q w ^^ k) p = a"
      then obtain k where k: "(parent_of Q w ^^ k) p = a" ..
      with False obtain j where "k = Suc j" by (cases k) auto
      with k show "\<exists>k. (parent_of Q w ^^ k) (parent_of Q w p) = a"
        by (metis funpow_swap1 funpow.simps(2) comp_apply)
    qed
    finally show ?thesis using False by simp
  qed
qed

subsection \<open>What registration promises\<close>

lemma registerObject_frame [frame_simps]:
  assumes "registerObject Q p st = (h, st')"
  shows "world st' = world st" "application st' = application st" "applicationThread st' = applicationThread st"
    "bvalues st' = bvalues st" "subscriptions st' = subscriptions st" "nextObjectId st \<le> nextObjectId st'"
  using assms by (auto simp: registerObject_def Let_def split: if_splits)

lemma registerValue_frame [frame_simps]:
  assumes "registerValue v st = (h, st')"
  shows "world st' = world st" "application st' = application st" "applicationThread st' = applicationThread st"
    "objects st' = objects st" "subscriptions st' = subscriptions st" "nextObjectId st \<le> nextObjectId st'"
  using assms by (auto simp: registerValue_def Let_def split: if_splits)

lemma registerObject_reg_inv [reg_pres]:
  "reg_inv st \<Longrightarrow> application st \<Longrightarrow> registerObject Q p st = (h, st') \<Longrightarrow> reg_inv st'"
  by (auto simp: registerObject_def Let_def reg_inv_add_object split: if_splits)

lemma registerValue_reg_inv [reg_pres]:
  "reg_inv st \<Longrightarrow> application st \<Longrightarrow> registerValue v st = (h, st') \<Longrightarrow> reg_inv st'"
  by (auto simp: registerValue_def Let_def reg_inv_add_value split: if_splits)

lemma objectHandleValue_reg_inv [reg_pres]:
  "reg_inv st \<Longrightarrow> application st \<Longrightarrow> objectHandleValue Q p st = (j, st') \<Longrightarrow> reg_inv st'"
  by (auto simp: objectHandleValue_def split: prod.splits intro: registerObject_reg_inv)

lemma find_fresh:
  "reg_inv st \<Longrightarrow> smap_find (objects st) (nextObjectId st) = None \<and> smap_find (bvalues st) (nextObjectId st) = None"
  using reg_inv_fresh [of st] by (simp add: smap_find_None_iff)

lemma registerObject_resolves:
  assumes "reg_inv st" "p \<noteq> nullptr" "alive Q (world st) p" "registerObject Q p st = (h, st')"
  shows "objectForId Q st' h = p"
proof (cases "idForObject Q st p = 0")
  case True
  with assms(2,4) have h: "h = nextObjectId st"
    and st': "st' = st\<lparr>nextObjectId := h + 1, objects := smap_emplace h p (objects st)\<rparr>"
    by (auto simp: registerObject_def Let_def)
  have "smap_find (smap_emplace h p (objects st)) h = Some p"
    using find_fresh [OF assms(1)] by (simp add: h smap.find_emplace_fresh)
  then show ?thesis
    using assms(2,3) by (simp add: objectForId_def st' qpointer_data_def)
next
  case False
  with assms(2,4) have h: "h = idForObject Q st p" and st': "st' = st"
    by (auto simp: registerObject_def Let_def)
  from False have "idForObject_in Q (world st) (objects st) p = h" "h \<noteq> 0" by (simp_all add: h idForObject_def)
  from idForObject_in_Some [OF assms(2) this] have "(h, p) \<in> set (objects st)" by simp
  then have "smap_find (objects st) h = Some p"
    using assms(1) by (simp add: reg_inv_def smap_find_in)
  then show ?thesis using assms(2,3) by (simp add: objectForId_def st' qpointer_data_def)
qed

lemma registerObject_keeps:
  assumes "reg_inv st" "registerObject Q p st = (h, st')" "objectForId Q st k = q" "q \<noteq> nullptr"
  shows "objectForId Q st' k = q"
proof -
  have "smap_find (objects st) k = Some q" "alive Q (world st) q"
    using assms(3,4) objectForId_Some_iff [of Q st k q] by simp_all
  moreover have "smap_find (objects st) (nextObjectId st) = None"
    using find_fresh [OF assms(1)] by simp
  ultimately have "smap_find (objects st') k = Some q"
    using assms(2)
    by (auto simp: registerObject_def Let_def smap.find_emplace_fresh split: if_splits)
  moreover have "world st' = world st" using assms(2) by (rule registerObject_frame)
  ultimately show ?thesis
    using \<open>alive Q (world st) q\<close> assms(4) by (simp add: objectForId_def qpointer_data_def)
qed

text \<open>
  The contract the rest of the bridge uses, for both tables: a registered thing is found under
  its handle, earlier handles keep their meaning, and handles stay below the counter.
\<close>

locale handle_registry =
  fixes register :: "'x \<Rightarrow> 's \<Rightarrow> handle \<times> 's"
    and resolve :: "'s \<Rightarrow> handle \<Rightarrow> 'x option"
    and valid :: "'s \<Rightarrow> 'x \<Rightarrow> bool"
    and inv :: "'s \<Rightarrow> bool"
    and bound :: "'s \<Rightarrow> handle"
  assumes resolves: "inv s \<Longrightarrow> valid s x \<Longrightarrow> register x s = (h, s') \<Longrightarrow> resolve s' h = Some x"
    and keeps: "inv s \<Longrightarrow> register x s = (h, s') \<Longrightarrow> resolve s k = Some y \<Longrightarrow> resolve s' k = Some y"
    and inv_register: "inv s \<Longrightarrow> register x s = (h, s') \<Longrightarrow> inv s'"
    and valid_register: "register x s = (h, s') \<Longrightarrow> valid s' y = valid s y"
    and bounded: "inv s \<Longrightarrow> resolve s k = Some y \<Longrightarrow> 1 \<le> k \<and> k < bound s"
    and monotone: "register x s = (h, s') \<Longrightarrow> bound s \<le> bound s'"
begin

lemma register_finds:
  assumes "inv s" "valid s x" "register x s = (h, s')"
  shows "resolve s' h = Some x \<and> 1 \<le> h \<and> h < bound s' \<and> inv s'"
  using resolves [OF assms] bounded [OF inv_register [OF assms(1,3)]] inv_register [OF assms(1,3)] by blast

end

definition running :: "('w, 'o) bridge \<Rightarrow> bool" where
  "running st \<longleftrightarrow> reg_inv st \<and> application st"

definition resolve_object :: "('w, 'o) qt \<Rightarrow> ('w, 'o) bridge \<Rightarrow> handle \<Rightarrow> ptr option" where
  "resolve_object Q st h = (let p = objectForId Q st h in if p = nullptr then None else Some p)"

lemma resolve_object_Some_iff: "resolve_object Q st h = Some p \<longleftrightarrow> objectForId Q st h = p \<and> p \<noteq> nullptr"
  by (auto simp: resolve_object_def Let_def)

interpretation object_table: handle_registry "registerObject Q" "resolve_object Q"
  "\<lambda>st p. p \<noteq> nullptr \<and> alive Q (world st) p" running nextObjectId
proof (unfold_locales, goal_cases)
  case (1 s x h s') then show ?case
    by (auto simp: running_def resolve_object_Some_iff dest: registerObject_resolves)
next
  case (2 s x h s' k y) then show ?case
    by (auto simp: running_def resolve_object_Some_iff dest: registerObject_keeps)
next
  case (3 s x h s') then show ?case
    by (auto simp: running_def registerObject_reg_inv dest: registerObject_frame(2))
next
  case (4 x s h s' y) then show ?case by (simp add: registerObject_frame)
next
  case (5 s k y)
  then have "smap_find (objects s) k = Some y"
    using objectForId_Some_iff [of Q s k y] by (simp add: resolve_object_Some_iff)
  then have "k \<in> fst ` set (objects s)" by (force dest: smap_find_Some_in)
  with 5 show ?case by (auto simp: running_def reg_inv_def)
next
  case (6 x s h s') then show ?case by (rule registerObject_frame)
qed

interpretation value_table: handle_registry registerValue valueForId "\<lambda>_. v_isValid" running nextObjectId
proof (unfold_locales, goal_cases)
  case (1 s x h s') then show ?case
    using find_fresh [of s]
    by (auto simp: running_def registerValue_def valueForId_def Let_def smap.find_emplace_fresh)
next
  case (2 s x h s' k y) then show ?case
    using find_fresh [of s]
    by (auto simp: running_def registerValue_def valueForId_def Let_def smap.find_emplace_fresh split: if_splits)
next
  case (3 s x h s') then show ?case
    by (auto simp: running_def registerValue_reg_inv dest: registerValue_frame(2))
next
  case (5 s k y)
  then have "k \<in> fst ` set (bvalues s)" by (force simp: valueForId_def dest: smap_find_Some_in)
  with 5 show ?case by (auto simp: running_def reg_inv_def)
next
  case (6 x s h s') then show ?case by (rule registerValue_frame)
qed simp

end
