(* ===== verification/Arguments.thy ===== *)
theory Arguments
  imports Registry
begin

text \<open>
  Reading handles and numbers out of JSON: \<^verbatim>\<open>parseObjectId\<close>, \<^verbatim>\<open>objectArgument\<close>, \<^verbatim>\<open>readNumber\<close>,
  \<^verbatim>\<open>readInteger\<close>, \<^verbatim>\<open>readJsonInteger\<close> (qt6\_bridge.cpp) and the two argument
  lambdas of the \<^verbatim>\<open>call\<close> operation. A function with a \<^verbatim>\<open>QString *error\<close> parameter returns
  \<open>Inl\<close> the message it would store.
\<close>

definition parseObjectId :: "json \<Rightarrow> qmsg + handle" where
  "parseObjectId v =
     (if \<not> isDouble v then Inl (Msg ''object_id must be an integer handle'' [])
      else let raw = toDouble v in
        if \<not> dbl_isfinite raw \<or> \<not> dbl_integral raw \<or> dbl_less raw (DFin 1) \<or> dbl_less (DFin 9007199254740991) raw
        then Inl (Msg ''object_id is outside the supported range'' [])
        else Inr (dbl_trunc raw))"

definition objectArgument :: "('w, 'o) qt \<Rightarrow> ('w, 'o) bridge \<Rightarrow> json list \<Rightarrow> nat \<Rightarrow> qmsg + ptr" where
  \<open>objectArgument Q st arguments index =
     (if index \<ge> length arguments \<or> \<not> isObject (arguments ! index)
      then Inl (Msg ''Qt object arguments must be {"object_id": handle}'' [])
      else case parseObjectId (jvalue (toObject (arguments ! index)) ''object_id'') of
        Inl e \<Rightarrow> Inl e
      | Inr oid \<Rightarrow>
          let object = objectForId Q st oid in
          if object = nullptr then Inl (Msg ''Qt object handle is closed or unknown'' [])
          else Inr object)\<close>

definition readNumber :: "jobject \<Rightarrow> string \<Rightarrow> qmsg + dbl" where
  "readNumber object key =
     (let v = jvalue object key in
      if \<not> isDouble v \<or> \<not> dbl_isfinite (toDouble v)
      then Inl (Msg ''Qt value field %1 must be a finite JSON number'' [AStr (qs key)])
      else Inr (toDouble v))"

definition readInteger :: "jobject \<Rightarrow> string \<Rightarrow> qmsg + i32" where
  "readInteger object key =
     (case readNumber object key of
        Inl e \<Rightarrow> Inl e
      | Inr v \<Rightarrow>
          if \<not> dbl_integral v \<or> dbl_less v (DFin (of_int int_min)) \<or> dbl_less (DFin (of_int int_max)) v
          then Inl (Msg ''Qt value field %1 must be a 32-bit integer'' [AStr (qs key)])
          else Inr (word_of_int (dbl_trunc v)))"

definition readJsonInteger :: "json \<Rightarrow> i32 option" where
  "readJsonInteger v =
     (if \<not> isDouble v then None
      else let raw = toDouble v in
        if \<not> dbl_isfinite raw \<or> \<not> dbl_integral raw
           \<or> dbl_less raw (DFin (of_int int_min)) \<or> dbl_less (DFin (of_int int_max)) raw
        then None
        else Some (word_of_int (dbl_trunc raw)))"

definition integerArgument :: "json list \<Rightarrow> nat \<Rightarrow> i32 option" where
  "integerArgument args index =
     (if index < length args then readJsonInteger (args ! index) else None)"

definition integer64Argument :: "json list \<Rightarrow> nat \<Rightarrow> i64 option" where
  "integer64Argument args index =
     (if index \<ge> length args \<or> \<not> isDouble (args ! index) then None
      else let raw = toDouble (args ! index) in
        if \<not> dbl_isfinite raw \<or> \<not> dbl_integral raw \<or> dbl_less (DFin 9007199254740991) (dbl_abs raw)
        then None
        else Some (word_of_int (dbl_trunc raw)))"

subsection \<open>Handles\<close>

lemma parseObjectId_iff:
  "parseObjectId v = Inr h \<longleftrightarrow> v = JDouble (DFin (of_int h)) \<and> 1 \<le> h \<and> h \<le> max_exact"
proof -
  have "parseObjectId v = Inr h \<longleftrightarrow>
    (\<exists>d. v = JDouble d \<and> dbl_in_range 1 max_exact d \<and> dbl_trunc d = h)"
    by (cases v) (auto simp: parseObjectId_def dbl_in_range_def Let_def)
  also have "\<dots> \<longleftrightarrow> v = JDouble (DFin (of_int h)) \<and> 1 \<le> h \<and> h \<le> max_exact"
    by (auto simp: dbl_in_range_iff)
  finally show ?thesis .
qed

lemma parseObjectId_jint: "1 \<le> h \<Longrightarrow> h \<le> max_exact \<Longrightarrow> parseObjectId (jint h) = Inr h"
  by (simp add: parseObjectId_iff jint_exact)

lemma objectArgument_Inr:
  "objectArgument Q st args i = Inr p \<Longrightarrow>
     p \<noteq> nullptr \<and> alive Q (world st) p \<and> i < length args \<and>
     (\<exists>h. smap_find (objects st) h = Some p)"
  by (auto simp: objectArgument_def objectForId_def qpointer_data_def Let_def split: if_splits sum.splits option.splits)

subsection \<open>Integers\<close>

lemma sint32_range: "int_min \<le> sint (w :: i32) \<and> sint w \<le> int_max"
  using sint_range_size [of w] by (simp add: word_size int_min_def int_max_def)

lemma word32_of_sint [simp]: "word_of_int (sint (w :: i32)) = w"
  by simp

lemma readJsonInteger_iff:
  "readJsonInteger v = Some n \<longleftrightarrow> v = JDouble (DFin (of_int (sint n)))"
proof -
  have "readJsonInteger v = Some n \<longleftrightarrow>
    (\<exists>d. v = JDouble d \<and> dbl_in_range int_min int_max d \<and> word_of_int (dbl_trunc d) = n)"
    by (cases v) (auto simp: readJsonInteger_def dbl_in_range_def Let_def)
  also have "\<dots> \<longleftrightarrow> (\<exists>k. v = JDouble (DFin (of_int k)) \<and> int_min \<le> k \<and> k \<le> int_max \<and> word_of_int k = n)"
    by (auto simp: dbl_in_range_iff)
  also have "\<dots> \<longleftrightarrow> v = JDouble (DFin (of_int (sint n)))"
  proof
    assume "\<exists>k. v = JDouble (DFin (of_int k)) \<and> int_min \<le> k \<and> k \<le> int_max \<and> word_of_int k = n"
    then obtain k where k: "v = JDouble (DFin (of_int k))" "int_min \<le> k" "k \<le> int_max" "word_of_int k = n"
      by blast
    have "sint n = k"
      unfolding k(4) [symmetric] using k(2,3)
      by (subst signed_of_int) (simp add: signed_take_bit_int_eq_self_iff int_min_def int_max_def)
    with k(1) show "v = JDouble (DFin (of_int (sint n)))" by simp
  next
    assume "v = JDouble (DFin (of_int (sint n)))"
    then show "\<exists>k. v = JDouble (DFin (of_int k)) \<and> int_min \<le> k \<and> k \<le> int_max \<and> word_of_int k = n"
      using sint32_range [of n] by (intro exI [of _ "sint n"]) simp
  qed
  finally show ?thesis .
qed

lemma readInteger_iff: "readInteger obj k = Inr n \<longleftrightarrow> jvalue obj k = JDouble (DFin (of_int (sint n)))"
proof -
  have "readInteger obj k = Inr n \<longleftrightarrow> readJsonInteger (jvalue obj k) = Some n"
    by (auto simp: readInteger_def readNumber_def readJsonInteger_def Let_def split: sum.splits if_splits)
  then show ?thesis by (simp add: readJsonInteger_iff)
qed

lemma readNumber_iff: "readNumber obj k = Inr d \<longleftrightarrow> jvalue obj k = JDouble d \<and> dbl_isfinite d"
  by (cases "jvalue obj k") (auto simp: readNumber_def Let_def)

lemma integer64Argument_Some:
  "integer64Argument args i = Some n \<Longrightarrow>
     i < length args \<and> (\<exists>k. args ! i = JDouble (DFin (of_int k)) \<and> \<bar>k\<bar> \<le> max_exact \<and> n = word_of_int k)"
proof -
  assume a: "integer64Argument args i = Some n"
  then obtain d where d: "i < length args" "args ! i = JDouble d" "dbl_in_range (- max_exact) max_exact d"
    "n = word_of_int (dbl_trunc d)"
    by (cases "args ! i"; cases "toDouble (args ! i)")
       (auto simp: integer64Argument_def dbl_in_range_def Let_def abs_if split: if_splits)
  then show ?thesis by (auto simp: dbl_in_range_iff)
qed

end
