(* ===== verification/From_Json.thy ===== *)
theory From_Json
  imports Arguments
begin

text \<open>
  \<^verbatim>\<open>fromJson\<close> (qt6\_bridge.cpp) and its helpers \<^verbatim>\<open>decodePng\<close> and
  \<^verbatim>\<open>enumForMetaType\<close>: a JSON argument becomes a QVariant of the wanted meta-type. One
  definition per branch of the chain, composed by \<open>fromJson\<close> in the source's order.
  \<open>Inl\<close> is \<^verbatim>\<open>*error = ...; return {}\<close>.
\<close>

definition mt_qname :: "('w, 'o) qt \<Rightarrow> metatype \<Rightarrow> qstring" where
  "mt_qname Q t = (case mt_name Q t of None \<Rightarrow> [] | Some n \<Rightarrow> qs n)"

definition decodePng :: "('w, 'o) qt \<Rightarrow> 'w \<Rightarrow> json \<Rightarrow> qmsg + 'o" where
  \<open>decodePng Q w v =
     (if isString v then
        (case image_load Q (toString v) w of
           None \<Rightarrow> Inl (Msg ''Qt could not load image file %1'' [AStr (toString v)])
         | Some img \<Rightarrow> Inr img)
      else if \<not> isObject v \<or> \<not> isString (jvalue (toObject v) ''png_base64'')
      then Inl (Msg ''image values must be a file path or {"png_base64": "..."}'' [])
      else case fromBase64 Q (toLatin1 Q (toString (jvalue (toObject v) ''png_base64''))) of
        None \<Rightarrow> Inl (Msg ''image png_base64 data is malformed'' [])
      | Some bs \<Rightarrow>
          (case image_fromData Q bs of
             None \<Rightarrow> Inl (Msg ''Qt could not decode the supplied image data'' [])
           | Some img \<Rightarrow> Inr img))\<close>

text \<open>The text after the last \<^verbatim>\<open>::\<close>, if there is one.\<close>

fun after_last_scope :: "string \<Rightarrow> string option" where
  "after_last_scope (a # b # s) =
     (case after_last_scope (b # s) of
        Some r \<Rightarrow> Some r
      | None \<Rightarrow> if a = CHR '':'' \<and> b = CHR '':'' then Some s else None)"
| "after_last_scope _ = None"

definition enumForMetaType :: "('w, 'o) qt \<Rightarrow> metatype \<Rightarrow> metaenum option" where
  "enumForMetaType Q type =
     (case (mt_metaObject Q type, mt_name Q type) of
        (Some mo, Some name) \<Rightarrow>
          let typeName = (if take 7 name = ''QFlags<'' \<and> name \<noteq> [] \<and> last name = CHR ''>''
                          then take (length name - 8) (drop 7 name) else name);
              simpleName = (case after_last_scope typeName of Some s \<Rightarrow> s | None \<Rightarrow> typeName)
          in List.find (\<lambda>e. simpleName = enum_name e) (mo_enumerators mo)
      | _ \<Rightarrow> None)"

definition fromJson_pointer :: "('w, 'o) qt \<Rightarrow> ('w, 'o) bridge \<Rightarrow> json \<Rightarrow> metatype \<Rightarrow> qmsg + 'o qvariant" where
  \<open>fromJson_pointer Q st v target =
     (case mt_metaObject Q target of
        None \<Rightarrow> Inl (Msg ''Qt does not expose a class meta-object for pointer type %1'' [AStr (mt_qname Q target)])
      | Some targetClass \<Rightarrow>
          if isNull v then Inr (VPointer target nullptr)
          else if \<not> isObject v then Inl (Msg ''QObject arguments must be null or {"object_id": handle}'' [])
          else case parseObjectId (jvalue (toObject v) ''object_id'') of
            Inl e \<Rightarrow> Inl e
          | Inr oid \<Rightarrow>
              let nativeObject = objectForId Q st oid in
              if nativeObject = nullptr then Inl (Msg ''QObject handle is closed or unknown'' [])
              else if \<not> meta_cast Q targetClass (world st) nativeObject
              then Inl (Msg ''QObject handle is not compatible with argument type %1'' [AStr (mt_qname Q target)])
              else Inr (VPointer target nativeObject))\<close>

definition fromJson_valueHandle :: "('w, 'o) qt \<Rightarrow> ('w, 'o) bridge \<Rightarrow> json \<Rightarrow> metatype \<Rightarrow> qmsg + 'o qvariant" where
  "fromJson_valueHandle Q st v target =
     (let rawIdValue = jvalue (toObject v) ''value_id''; raw = toDouble rawIdValue in
      if \<not> isDouble rawIdValue \<or> \<not> dbl_isfinite raw \<or> \<not> dbl_integral raw
         \<or> dbl_less raw (DFin 1) \<or> dbl_less (DFin 9007199254740991) raw
      then Inl (Msg ''Qt value handle must be a positive integer value_id'' [])
      else case valueForId st (dbl_trunc raw) of
        None \<Rightarrow> Inl (Msg ''Qt value handle is closed or unknown'' [])
      | Some stored \<Rightarrow>
          if variant_type stored = target then Inr stored
          else let (ok, converted) = v_convert Q stored target in
            if ok then Inr converted
            else Inl (Msg ''Qt value type %1 cannot be converted to %2''
                   [AStr (mt_qname Q (variant_type converted)), AStr (mt_qname Q target)]))"

definition enum_store :: "('w, 'o) qt \<Rightarrow> metatype \<Rightarrow> i64 \<Rightarrow> qmsg + 'o qvariant" where
  "enum_store Q target rawBits =
     (if mt_size Q target = 1 then Inr (VEnum target (take_bit 8 rawBits))
      else if mt_size Q target = 2 then Inr (VEnum target (take_bit 16 rawBits))
      else if mt_size Q target = 4 then Inr (VEnum target (take_bit 32 rawBits))
      else if mt_size Q target = 8 then Inr (VEnum target rawBits)
      else Inl (Msg ''unsupported storage size for Qt enum type %1'' [AStr (mt_qname Q target)]))"

definition fromJson_enum :: "('w, 'o) qt \<Rightarrow> json \<Rightarrow> metatype \<Rightarrow> qmsg + 'o qvariant" where
  "fromJson_enum Q v target =
     (if isString v then
        (case enumForMetaType Q target of
           None \<Rightarrow> Inl (Msg ''Qt enum metadata is unavailable for type %1; pass its integer value'' [AStr (mt_qname Q target)])
         | Some enumeration \<Rightarrow>
             let key = filter (\<lambda>c. c \<noteq> CHR '' '') (toLatin1 Q (toString v));
                 parsed = (if enum_isFlag enumeration then keysToValue64 Q enumeration (cstr key)
                           else keyToValue64 Q enumeration (cstr key))
             in (case parsed of
                   None \<Rightarrow> Inl (Msg ''unknown key %1 for Qt enum %2'' [AStr (toString v), AStr (mt_qname Q target)])
                 | Some bits \<Rightarrow> enum_store Q target bits))
      else if isDouble v then
        (let raw = toDouble v in
         if \<not> dbl_isfinite raw \<or> \<not> dbl_integral raw \<or> dbl_less (DFin 9007199254740991) (dbl_abs raw)
         then Inl (Msg ''Qt enum values must be finite, integral JSON numbers within the exact integer range'' [])
         else enum_store Q target (word_of_int (dbl_trunc raw)))
      else Inl (Msg ''Qt enum values must be a key string or integer'' []))"

definition fromJson_variantMap :: "('w, 'o) qt \<Rightarrow> json \<Rightarrow> metatype \<Rightarrow> qmsg + 'o qvariant" where
  "fromJson_variantMap Q v target =
     (if \<not> isObject v then Inl (Msg ''Qt variant maps require a JSON object'' [])
      else let entries = map (\<lambda>(k, e). (k, toVariant Q e)) (toObject v) in
        Inr (if target = MtQVariantMap then VMap entries else VHash entries))"

fun string_entries :: "jobject \<Rightarrow> (qstring \<times> qstring) list option" where
  "string_entries [] = Some []"
| "string_entries ((k, e) # es) =
     (if \<not> isString e then None
      else map_option (\<lambda>r. (k, toString e) # r) (string_entries es))"

definition fromJson_stringMap :: "json \<Rightarrow> metatype \<Rightarrow> qmsg + 'o qvariant" where
  "fromJson_stringMap v target =
     (if \<not> isObject v then Inl (Msg ''Qt string maps require a JSON object of string values'' [])
      else case string_entries (toObject v) of
        None \<Rightarrow> Inl (Msg ''Qt string map values must be strings'' [])
      | Some entries \<Rightarrow> Inr (if target = MtStringMap then VStringMap entries else VStringHash entries))"

definition fromJson_jsonType :: "json \<Rightarrow> metatype \<Rightarrow> qmsg + 'o qvariant" where
  "fromJson_jsonType v target =
     (if target = MtQJsonValue then Inr (VJsonValue v)
      else if target = MtQJsonObject then
        (if \<not> isObject v then Inl (Msg ''QJsonObject arguments require a JSON object'' []) else Inr (VJsonObject (toObject v)))
      else
        (if \<not> isArray v then Inl (Msg ''QJsonArray arguments require a JSON array'' []) else Inr (VJsonArray (toArray v))))"

text \<open>The fields are read left to right and the first bad one ends the conversion.\<close>

fun read_fields :: "(jobject \<Rightarrow> string \<Rightarrow> qmsg + 'a) \<Rightarrow> jobject \<Rightarrow> string list \<Rightarrow> qmsg + 'a list" where
  "read_fields f object [] = Inr []"
| "read_fields f object (k # ks) =
     (case f object k of
        Inl e \<Rightarrow> Inl e
      | Inr x \<Rightarrow> (case read_fields f object ks of Inl e \<Rightarrow> Inl e | Inr xs \<Rightarrow> Inr (x # xs)))"

definition geometry_integral :: "metatype \<Rightarrow> bool" where
  "geometry_integral t \<longleftrightarrow> t \<in> {MtQPoint, MtQSize, MtQRect, MtQMargins, MtQLine}"

fun geometry_fields :: "metatype \<Rightarrow> string list" where
  "geometry_fields MtQPoint = [''x'', ''y'']"
| "geometry_fields MtQPointF = [''x'', ''y'']"
| "geometry_fields MtQSize = [''width'', ''height'']"
| "geometry_fields MtQSizeF = [''width'', ''height'']"
| "geometry_fields MtQRect = [''x'', ''y'', ''width'', ''height'']"
| "geometry_fields MtQRectF = [''x'', ''y'', ''width'', ''height'']"
| "geometry_fields MtQMargins = [''left'', ''top'', ''right'', ''bottom'']"
| "geometry_fields MtQMarginsF = [''left'', ''top'', ''right'', ''bottom'']"
| "geometry_fields MtQLine = [''x1'', ''y1'', ''x2'', ''y2'']"
| "geometry_fields MtQLineF = [''x1'', ''y1'', ''x2'', ''y2'']"
| "geometry_fields MtQVector2D = [''x'', ''y'']"
| "geometry_fields MtQVector3D = [''x'', ''y'', ''z'']"
| "geometry_fields MtQVector4D = [''x'', ''y'', ''z'', ''w'']"
| "geometry_fields _ = []"

definition read_geometry :: "jobject \<Rightarrow> metatype \<Rightarrow> qmsg + 'o qvariant" where
  "read_geometry object target =
     (if geometry_integral target then
        (case read_fields readInteger object (geometry_fields target) of
           Inl e \<Rightarrow> Inl e | Inr xs \<Rightarrow> Inr (VInts target xs))
      else
        (case read_fields readNumber object (geometry_fields target) of
           Inl e \<Rightarrow> Inl e | Inr xs \<Rightarrow> Inr (VReals target xs)))"

definition fromJson_geometry :: "json \<Rightarrow> metatype \<Rightarrow> qmsg + 'o qvariant" where
  "fromJson_geometry v target =
     (if \<not> isObject v then Inl (Msg ''Qt geometry values must be JSON objects'' [])
      else read_geometry (toObject v) target)"

definition fromJson_line :: "json \<Rightarrow> metatype \<Rightarrow> qmsg + 'o qvariant" where
  "fromJson_line v target =
     (if \<not> isObject v then Inl (Msg ''QLine values must be JSON objects with x1, y1, x2, and y2 fields'' [])
      else read_geometry (toObject v) target)"

text \<open>\<^verbatim>\<open>std::numeric_limits<float>::max()\<close>, (2^24 - 1) * 2^104.\<close>

definition maximumFloat :: rat where
  "maximumFloat = 340282346638528859811704183484516925440"

definition fromJson_vector :: "('w, 'o) qt \<Rightarrow> json \<Rightarrow> metatype \<Rightarrow> qmsg + 'o qvariant" where
  "fromJson_vector Q v target =
     (if \<not> isObject v then Inl (Msg ''Qt vector values must be JSON objects with x, y, z, and optionally w fields'' [])
      else case read_fields readNumber (toObject v) (geometry_fields target) of
        Inl e \<Rightarrow> Inl e
      | Inr xs \<Rightarrow>
          if \<exists>x\<in>set xs. dbl_less (DFin maximumFloat) (dbl_abs x)
          then Inl (Msg ''Qt vector values must fit in a finite 32-bit float'' [])
          else Inr (VReals target (map (to_float Q) xs)))"

definition uuid_pattern :: string where
  "uuid_pattern = ''^(?:[0-9A-Fa-f]{8}-[0-9A-Fa-f]{4}-[0-9A-Fa-f]{4}-[0-9A-Fa-f]{4}-[0-9A-Fa-f]{12}|[0-9A-Fa-f]{32})$''"

definition fromJson_uuid :: "('w, 'o) qt \<Rightarrow> json \<Rightarrow> qmsg + 'o qvariant" where
  "fromJson_uuid Q v =
     (if \<not> isString v then Inl (Msg ''QUuid values must use UUID string format'' [])
      else let t = toString v;
               opensBrace = (t \<noteq> [] \<and> hd t = qch CHR ''{'');
               closesBrace = (t \<noteq> [] \<and> last t = qch CHR ''}'')
        in if opensBrace \<noteq> closesBrace then Inl (Msg ''invalid UUID brace format'' [])
        else let uuidText = (if opensBrace then butlast (tl t) else t) in
          if \<not> regex_matches Q uuid_pattern uuidText then Inl (Msg ''invalid UUID string'' [])
          else Inr (VOpaque MtQUuid (snd (ofText Q ''QUuid'' uuidText))))"

definition fromJson_regex :: "('w, 'o) qt \<Rightarrow> json \<Rightarrow> qmsg + 'o qvariant" where
  \<open>fromJson_regex Q v =
     (let parts =
        (if isString v then Inr (toString v, 0)
         else if isObject v \<and> isString (jvalue (toObject v) ''pattern'') then
           (let pattern = toString (jvalue (toObject v) ''pattern'');
                optionValue = jvalue (toObject v) ''options''
            in if isUndefined optionValue then Inr (pattern, 0)
               else case readJsonInteger optionValue of
                 None \<Rightarrow> Inl (Msg ''QRegularExpression options must be a 32-bit integer bitmask'' [])
               | Some options \<Rightarrow> Inr (pattern, options))
         else Inl (Msg ''QRegularExpression values must be a pattern string or {"pattern": string, "options": integer}'' []))
      in case parts of
        Inl e \<Rightarrow> Inl e
      | Inr (pattern, options) \<Rightarrow>
          (case regex_new Q pattern options of
             Inl errorString \<Rightarrow> Inl (Msg ''invalid QRegularExpression: %1'' [AStr errorString])
           | Inr expression \<Rightarrow> Inr (VOpaque MtQRegularExpression expression)))\<close>

definition fromJson_geoCoordinate :: "('w, 'o) qt \<Rightarrow> json \<Rightarrow> qmsg + 'o qvariant" where
  "fromJson_geoCoordinate Q v =
     (if \<not> isObject v then Inl (Msg ''QGeoCoordinate values require a JSON object with latitude and longitude'' [])
      else case read_fields readNumber (toObject v) [''latitude'', ''longitude''] of
        Inl e \<Rightarrow> Inl e
      | Inr xs \<Rightarrow>
          let altitudeValue = jvalue (toObject v) ''altitude'';
              finish = (\<lambda>coordinate.
                 if geo_parts Q coordinate = None
                 then Inl (Msg ''QGeoCoordinate latitude or longitude is outside its valid range'' [])
                 else Inr (VOpaque MtQGeoCoordinate coordinate))
          in if isUndefined altitudeValue \<or> isNull altitudeValue
             then finish (geo_new Q (xs ! 0) (xs ! 1) None)
             else if \<not> isDouble altitudeValue \<or> \<not> dbl_isfinite (toDouble altitudeValue)
             then Inl (Msg ''QGeoCoordinate altitude must be a finite number or null'' [])
             else finish (geo_new Q (xs ! 0) (xs ! 1) (Some (toDouble altitudeValue))))"

definition bad_header_bytes :: "bytes \<Rightarrow> bool" where
  "bad_header_bytes b \<longleftrightarrow> CHR 0x0D \<in> set b \<or> CHR 0x0A \<in> set b \<or> CHR 0x00 \<in> set b"

fun read_headers :: "('w, 'o) qt \<Rightarrow> jobject \<Rightarrow> qmsg + (bytes \<times> bytes) list" where
  "read_headers Q [] = Inr []"
| "read_headers Q ((k, e) # es) =
     (if \<not> isString e then Inl (Msg ''QNetworkRequest header values must be strings'' [])
      else let name = toLatin1 Q k; content = toLatin1 Q (toString e) in
        if name = [] \<or> bad_header_bytes name \<or> bad_header_bytes content
        then Inl (Msg ''QNetworkRequest header names and values must not contain CR, LF, or NUL'' [])
        else case read_headers Q es of Inl m \<Rightarrow> Inl m | Inr hs \<Rightarrow> Inr ((name, content) # hs))"

definition fromJson_networkRequest :: "('w, 'o) qt \<Rightarrow> json \<Rightarrow> qmsg + 'o qvariant" where
  \<open>fromJson_networkRequest Q v =
     (let parts =
        (if isString v then Inr (toString v, [])
         else if isObject v \<and> isString (jvalue (toObject v) ''url'') then
           (let headersValue = jvalue (toObject v) ''headers'' in
            if \<not> isUndefined headersValue \<and> \<not> isObject headersValue
            then Inl (Msg ''QNetworkRequest headers must be a JSON object of string values'' [])
            else Inr (toString (jvalue (toObject v) ''url''), toObject headersValue))
         else Inl (Msg ''QNetworkRequest values must be a URL string or {"url": string, "headers": object}'' []))
      in case parts of
        Inl e \<Rightarrow> Inl e
      | Inr (urlText, headers) \<Rightarrow>
          (case url_new Q urlText of
             Inl errorString \<Rightarrow> Inl (Msg ''invalid QNetworkRequest URL: %1'' [AStr errorString])
           | Inr url \<Rightarrow>
               (case read_headers Q headers of
                  Inl e \<Rightarrow> Inl e
                | Inr hs \<Rightarrow> Inr (VOpaque MtQNetworkRequest (request_new Q url hs)))))\<close>

definition fromJson_image :: "('w, 'o) qt \<Rightarrow> 'w \<Rightarrow> json \<Rightarrow> metatype \<Rightarrow> qmsg + 'o qvariant" where
  "fromJson_image Q w v target =
     (case decodePng Q w v of
        Inl e \<Rightarrow> Inl e
      | Inr img \<Rightarrow>
          Inr (VOpaque target
            (if target = MtQImage then img
             else if target = MtQPixmap then pixmap_fromImage Q img
             else icon_fromPixmap Q (pixmap_fromImage Q img))))"

text \<open>The text formats: a string is wanted, then Qt's parser decides, with a second format for QTime and QDateTime.\<close>

definition text_value :: "('w, 'o) qt \<Rightarrow> json \<Rightarrow> metatype \<Rightarrow> string \<Rightarrow> string \<Rightarrow> string \<Rightarrow> qmsg + 'o qvariant" where
  "text_value Q v target fmt shapeError invalidError =
     (if \<not> isString v then Inl (Msg shapeError [])
      else let (valid, x) = ofText Q fmt (toString v) in
        if \<not> valid then Inl (Msg invalidError []) else Inr (VOpaque target x))"

definition text_value2 :: "('w, 'o) qt \<Rightarrow> json \<Rightarrow> metatype \<Rightarrow> string \<Rightarrow> string \<Rightarrow> string \<Rightarrow> string \<Rightarrow> qmsg + 'o qvariant" where
  "text_value2 Q v target fmt1 fmt2 shapeError invalidError =
     (if \<not> isString v then Inl (Msg shapeError [])
      else let (valid, x) = ofText Q fmt1 (toString v) in
        if valid then Inr (VOpaque target x)
        else let (valid2, y) = ofText Q fmt2 (toString v) in
          if \<not> valid2 then Inl (Msg invalidError []) else Inr (VOpaque target y))"

definition fromJson_text :: "('w, 'o) qt \<Rightarrow> json \<Rightarrow> metatype \<Rightarrow> qmsg + 'o qvariant" where
  "fromJson_text Q v target =
     (if target = MtQColor then
        text_value Q v target ''QColor::fromString''
          ''QColor values must be a color name or #RRGGBB/#AARRGGBB string''
          ''invalid QColor name or hexadecimal color string''
      else if target = MtQDate then
        text_value Q v target ''QDate::fromString ISODate''
          ''QDate values must use ISO date strings'' ''invalid ISO QDate value''
      else if target = MtQTime then
        text_value2 Q v target ''QTime::fromString HH:mm:ss.zzz'' ''QTime::fromString HH:mm:ss''
          ''QTime values must use HH:mm:ss[.zzz] strings'' ''invalid ISO QTime value''
      else if target = MtQDateTime then
        text_value2 Q v target ''QDateTime::fromString ISODateWithMs'' ''QDateTime::fromString ISODate''
          ''QDateTime values must use ISO date-time strings'' ''invalid ISO QDateTime value''
      else if target = MtQUrl then
        (if \<not> isString v then Inl (Msg ''QUrl values must be strings'' [])
         else case url_new Q (toString v) of
           Inl errorString \<Rightarrow> Inl (Msg ''invalid QUrl: %1'' [AStr errorString])
         | Inr url \<Rightarrow> Inr (VOpaque MtQUrl url))
      else if target = MtQFont then
        text_value Q v target ''QFont::fromString''
          ''QFont values must use QFont::toString() format'' ''invalid QFont serialized value''
      else
        (if \<not> isString v then Inl (Msg ''QKeySequence values must be PortableText strings'' [])
         else Inr (VOpaque MtQKeySequence (snd (ofText Q ''QKeySequence::fromString PortableText'' (toString v))))))"

definition fromJson_hostAddress :: "('w, 'o) qt \<Rightarrow> json \<Rightarrow> qmsg + 'o qvariant" where
  "fromJson_hostAddress Q v =
     text_value Q v MtQHostAddress ''QHostAddress::setAddress''
       ''QHostAddress values must be IPv4 or IPv6 address strings'' ''invalid IPv4 or IPv6 host address''"

definition fromJson_byteArray :: "('w, 'o) qt \<Rightarrow> json \<Rightarrow> qmsg + 'o qvariant" where
  \<open>fromJson_byteArray Q v =
     (if \<not> isObject v \<or> \<not> isString (jvalue (toObject v) ''base64'')
      then Inl (Msg ''QByteArray values must be {"base64": "..."}'' [])
      else case fromBase64 Q (toLatin1 Q (toString (jvalue (toObject v) ''base64''))) of
        None \<Rightarrow> Inl (Msg ''QByteArray base64 data is malformed'' [])
      | Some decoded \<Rightarrow> Inr (VByteArray decoded))\<close>

definition fromJson_longlong :: "('w, 'o) qt \<Rightarrow> json \<Rightarrow> qmsg + 'o qvariant" where
  "fromJson_longlong Q v =
     (if isDouble v then
        (let raw = toDouble v in
         if \<not> dbl_isfinite raw \<or> \<not> dbl_integral raw
            \<or> dbl_less raw (DFin (- 9007199254740991)) \<or> dbl_less (DFin 9007199254740991) raw
         then Inl (Msg ''64-bit integer JSON numbers must be integral and within the exact range; use a decimal string for larger values'' [])
         else Inr (VLongLong (word_of_int (dbl_trunc raw))))
      else if \<not> isString v then Inl (Msg ''64-bit integer arguments must be exact JSON numbers or decimal strings'' [])
      else case toLongLong Q (toString v) of
        None \<Rightarrow> Inl (Msg ''invalid signed 64-bit decimal integer'' [])
      | Some n \<Rightarrow> Inr (VLongLong (word_of_int n)))"

definition fromJson_ulonglong :: "('w, 'o) qt \<Rightarrow> json \<Rightarrow> qmsg + 'o qvariant" where
  "fromJson_ulonglong Q v =
     (if isDouble v then
        (let raw = toDouble v in
         if \<not> dbl_isfinite raw \<or> \<not> dbl_integral raw \<or> dbl_less raw (DFin 0) \<or> dbl_less (DFin 9007199254740991) raw
         then Inl (Msg ''unsigned 64-bit integer JSON numbers must be integral and within the exact range; use a decimal string for larger values'' [])
         else Inr (VULongLong (word_of_int (dbl_trunc raw))))
      else if \<not> isString v then Inl (Msg ''unsigned 64-bit integer arguments must be exact JSON numbers or decimal strings'' [])
      else case toULongLong Q (toString v) of
        None \<Rightarrow> Inl (Msg ''invalid unsigned 64-bit decimal integer'' [])
      | Some n \<Rightarrow> Inr (VULongLong (word_of_int n)))"

definition fromJson_other :: "('w, 'o) qt \<Rightarrow> json \<Rightarrow> metatype \<Rightarrow> qmsg + 'o qvariant" where
  "fromJson_other Q v target =
     (if target \<in> {MtInt, MtUInt, MtLongLong, MtULongLong} \<and> isDouble v
         \<and> (\<not> dbl_isfinite (toDouble v) \<or> \<not> dbl_integral (toDouble v))
      then Inl (Msg ''integer Qt arguments require a finite integral JSON number'' [])
      else if target = MtUInt \<and> isDouble v
         \<and> (dbl_less (toDouble v) (DFin 0) \<or> dbl_less (DFin (of_int uint_max)) (toDouble v))
      then Inl (Msg ''unsigned Qt integer arguments must fit in 32 bits'' [])
      else Inr (toVariant Q v))"

definition fromJson_branch :: "('w, 'o) qt \<Rightarrow> ('w, 'o) bridge \<Rightarrow> json \<Rightarrow> metatype \<Rightarrow> qmsg + 'o qvariant" where
  "fromJson_branch Q st v target =
     (if mt_isPointer Q target then fromJson_pointer Q st v target
      else if isObject v \<and> jcontains (toObject v) ''value_id'' then fromJson_valueHandle Q st v target
      else if mt_isEnum Q target then fromJson_enum Q v target
      else if target = MtQVariantMap \<or> target = MtQVariantHash then fromJson_variantMap Q v target
      else if target = MtStringMap \<or> target = MtStringHash then fromJson_stringMap v target
      else if target = MtQJsonValue \<or> target = MtQJsonObject \<or> target = MtQJsonArray then fromJson_jsonType v target
      else if target \<in> {MtQPoint, MtQPointF, MtQSize, MtQSizeF, MtQRect, MtQRectF, MtQMargins, MtQMarginsF}
        then fromJson_geometry v target
      else if target = MtQLine \<or> target = MtQLineF then fromJson_line v target
      else if target = MtQVector2D \<or> target = MtQVector3D \<or> target = MtQVector4D then fromJson_vector Q v target
      else if target = MtQUuid then fromJson_uuid Q v
      else if target = MtQRegularExpression then fromJson_regex Q v
      else if target = MtQGeoCoordinate then fromJson_geoCoordinate Q v
      else if target = MtQHostAddress then fromJson_hostAddress Q v
      else if target = MtQNetworkRequest then fromJson_networkRequest Q v
      else if target = MtQImage \<or> target = MtQPixmap \<or> target = MtQIcon then fromJson_image Q (world st) v target
      else if target \<in> {MtQColor, MtQDate, MtQTime, MtQDateTime, MtQUrl, MtQFont, MtQKeySequence}
        then fromJson_text Q v target
      else if target = MtQByteArray then fromJson_byteArray Q v
      else if target = MtLongLong then fromJson_longlong Q v
      else if target = MtULongLong then fromJson_ulonglong Q v
      else fromJson_other Q v target)"

definition fromJson :: "('w, 'o) qt \<Rightarrow> ('w, 'o) bridge \<Rightarrow> json \<Rightarrow> metatype \<Rightarrow> qmsg + 'o qvariant" where
  "fromJson Q st v target =
     (if target = MtInvalid then Inl (Msg ''Qt does not expose a meta-type for this argument'' [])
      else if target = MtQVariant then Inr (toVariant Q v)
      else case fromJson_branch Q st v target of
        Inl e \<Rightarrow> Inl e
      | Inr converted \<Rightarrow>
          if variant_type converted = target then Inr converted
          else let (ok, result) = v_convert Q converted target in
            if ok then Inr result
            else Inl (Msg ''JSON value cannot be converted to Qt type %1'' [AStr (mt_qname Q target)]))"

end
