(* ===== verification/Generated_Dispatch.thy ===== *)
theory Generated_Dispatch
  imports From_Json
begin

text \<open>
  The tables that join the generated translation units: the module table and its lookups
  (generated\_default\_constructors.h) and the four dispatchers
  (generated\_constructors/qt6\_constructors\_dispatch.cpp,
  generated\_value\_constructors/qt6\_value\_constructors\_dispatch.cpp,
  generated\_methods/qt6\_methods\_dispatch.cpp,
  generated\_value\_methods/qt6\_value\_methods\_dispatch.cpp). The shards they call, one
  function per generated file, are fields of the record \<open>G\<close>, which \<open>Generated_Tables\<close> fills: a shard
  gets the out-parameters and the bridge state and returns whether it handled the call;
  \<open>has_axcontainer\<close> is the build macro \<^verbatim>\<open>KRY_QT6_HAS_AXCONTAINER\<close>.
\<close>

record ('w, 'o) qmodule =
  m_name :: string
  m_hasClass :: "qstring \<Rightarrow> bool"
  m_construct :: "qstring \<Rightarrow> ptr \<Rightarrow> 'w \<Rightarrow> (ptr \<times> qmsg option) \<times> 'w"
  m_constructorNames :: "qstring list"
  m_valueType :: "qstring \<Rightarrow> metatype"
  m_valueTypeNames :: "qstring list"
  m_metaObject :: "qstring \<Rightarrow> metaobject option"
  m_metaObjectNames :: "qstring list"

type_synonym ('w, 'o) ctor_out = "ptr \<times> qmsg option \<times> ('w, 'o) bridge"
type_synonym 'o value_out = "'o qvariant \<times> qmsg option"
type_synonym ('w, 'o) call_out = "json \<times> qmsg option \<times> ('w, 'o) bridge"
type_synonym ('w, 'o) vcall_out = "'o qvariant \<times> json \<times> qmsg option \<times> ('w, 'o) bridge"

record ('w, 'o) gen =
  g_module :: "string \<Rightarrow> ('w, 'o) qmodule"
  construct_shard :: "string \<Rightarrow> qstring \<Rightarrow> qstring \<Rightarrow> ptr \<Rightarrow> json list \<Rightarrow> ('w, 'o) ctor_out \<Rightarrow> bool \<times> ('w, 'o) ctor_out"
  constructor_classes :: "string \<Rightarrow> qstring list"
  construct_value_shard :: "string \<Rightarrow> qstring \<Rightarrow> qstring \<Rightarrow> json list \<Rightarrow> ('w, 'o) bridge \<Rightarrow> 'o value_out \<Rightarrow> bool \<times> 'o value_out"
  value_constructor_classes :: "string \<Rightarrow> qstring list"
  invoke_shard :: "string \<Rightarrow> ptr \<Rightarrow> qstring \<Rightarrow> qstring \<Rightarrow> json list \<Rightarrow> ('w, 'o) call_out \<Rightarrow> bool \<times> ('w, 'o) call_out"
  invoke_value_shard :: "string \<Rightarrow> qstring \<Rightarrow> qstring \<Rightarrow> json list \<Rightarrow> ('w, 'o) vcall_out \<Rightarrow> bool \<times> ('w, 'o) vcall_out"
  direct_value_types :: "string \<Rightarrow> qstring list"
  direct_methods :: "qstring \<Rightarrow> qstring list option"
  has_axcontainer :: bool

definition module_names :: "string list" where
  "module_names = [
     ''QAxContainer'', ''Qt3DAnimation'', ''Qt3DCore'', ''Qt3DExtras'', ''Qt3DInput'', ''Qt3DLogic'',
     ''Qt3DRender'', ''QtBluetooth'', ''QtCharts'', ''QtCore'', ''QtDataVisualization'', ''QtDBus'',
     ''QtDesigner'', ''QtGraphs'', ''QtGraphsWidgets'', ''QtGui'', ''QtHelp'', ''QtMultimedia'',
     ''QtMultimediaWidgets'', ''QtNetwork'', ''QtNetworkAuth'', ''QtNfc'', ''QtOpenGL'', ''QtOpenGLWidgets'',
     ''QtPdf'', ''QtPdfWidgets'', ''QtPositioning'', ''QtPrintSupport'', ''QtQml'', ''QtQuick'',
     ''QtQuick3D'', ''QtQuickWidgets'', ''QtRemoteObjects'', ''QtSensors'', ''QtSerialPort'',
     ''QtSpatialAudio'', ''QtSql'', ''QtStateMachine'', ''QtSvg'', ''QtSvgWidgets'', ''QtTest'',
     ''QtTextToSpeech'', ''QtWebChannel'', ''QtWebEngineCore'', ''QtWebEngineQuick'', ''QtWebEngineWidgets'',
     ''QtWebSockets'', ''QtWidgets'', ''QtXml'']"

definition modules :: "('w, 'o) gen \<Rightarrow> ('w, 'o) qmodule list" where
  "modules G = map (\<lambda>n. (g_module G n)\<lparr>m_name := n\<rparr>) module_names"

definition module_has :: "('w, 'o) qmodule \<Rightarrow> qstring \<Rightarrow> bool" where
  "module_has m name \<longleftrightarrow> m_hasClass m name \<or> m_metaObject m name \<noteq> None"

definition hasClass :: "('w, 'o) gen \<Rightarrow> qstring \<Rightarrow> bool" where
  "hasClass G qualifiedName =
     (case indexOf qualifiedName (qch CHR ''.'') of
        Some separator \<Rightarrow>
          (case List.find (\<lambda>m. take separator qualifiedName = qs (m_name m)) (modules G) of
             Some m \<Rightarrow> module_has m (drop (Suc separator) qualifiedName)
           | None \<Rightarrow> False)
      | None \<Rightarrow> list_ex (\<lambda>m. module_has m qualifiedName) (modules G))"

text \<open>
  The selection loop of \<^verbatim>\<open>valueMetaType\<close>, \<^verbatim>\<open>classMetaObject\<close> and \<^verbatim>\<open>construct\<close>: \<open>Inl ()\<close> as soon as a
  second module matches.
\<close>

fun select_module :: "('m \<Rightarrow> bool) \<Rightarrow> 'm list \<Rightarrow> 'm option \<Rightarrow> unit + 'm option" where
  "select_module ok [] selected = Inr selected"
| "select_module ok (m # ms) selected =
     (if \<not> ok m then select_module ok ms selected
      else if selected \<noteq> None then Inl ()
      else select_module ok ms (Some m))"

definition in_module :: "qstring \<Rightarrow> ('w, 'o) qmodule \<Rightarrow> bool" where
  "in_module moduleName m \<longleftrightarrow> moduleName = [] \<or> moduleName = qs (m_name m)"

definition valueMetaType :: "('w, 'o) gen \<Rightarrow> qstring \<Rightarrow> qmsg + metatype" where
  "valueMetaType G qualifiedName =
     (let (moduleName, className) = split_qualified qualifiedName in
      case select_module (\<lambda>m. in_module moduleName m \<and> m_valueType m className \<noteq> MtInvalid) (modules G) None of
        Inl _ \<Rightarrow> Inl (Msg ''value type %1 is ambiguous across Qt modules; use Module.%1'' [AStr className])
      | Inr None \<Rightarrow> Inr MtInvalid
      | Inr (Some m) \<Rightarrow> Inr (m_valueType m className))"

definition classMetaObject :: "('w, 'o) gen \<Rightarrow> qstring \<Rightarrow> qmsg + metaobject option" where
  "classMetaObject G qualifiedName =
     (let (moduleName, className) = split_qualified qualifiedName in
      case select_module (\<lambda>m. in_module moduleName m \<and> m_metaObject m className \<noteq> None) (modules G) None of
        Inl _ \<Rightarrow> Inl (Msg ''class %1 is ambiguous across Qt modules; use Module.%1'' [AStr className])
      | Inr None \<Rightarrow> Inr None
      | Inr (Some m) \<Rightarrow> Inr (m_metaObject m className))"

text \<open>\<^verbatim>\<open>++counts[name]\<close> over a list of names, and the names counted once.\<close>

definition name_counts :: "qstring list \<Rightarrow> (qstring, nat) smap" where
  "name_counts names = fold (\<lambda>n m. smap_put n (Suc (case smap_find m n of None \<Rightarrow> 0 | Some c \<Rightarrow> c)) m) names []"

definition counted_once :: "qstring list \<Rightarrow> qstring list" where
  "counted_once names = map fst (filter (\<lambda>(n, c). c = 1) (name_counts names))"

definition qualify_name :: "string \<Rightarrow> qstring \<Rightarrow> qstring" where
  "qualify_name m n = qs m @ qch CHR ''.'' # n"

text \<open>\<^verbatim>\<open>QSet::values()\<close> followed by \<^verbatim>\<open>std::sort\<close>: the distinct names in ascending order.\<close>

definition sorted_unique :: "qstring list \<Rightarrow> qstring list" where
  "sorted_unique names = sort (remdups names)"

definition availableValueTypes :: "('w, 'o) gen \<Rightarrow> qstring list" where
  "availableValueTypes G =
     (let names = concat (map (\<lambda>m. m_valueTypeNames m) (modules G));
          allNames = concat (map (\<lambda>m. map (qualify_name (m_name m)) (m_valueTypeNames m)) (modules G))
      in sorted_unique (allNames @ counted_once names))"

definition availableMetaObjects :: "('w, 'o) gen \<Rightarrow> qstring list" where
  "availableMetaObjects G = concat (map (\<lambda>m. map (qualify_name (m_name m)) (m_metaObjectNames m)) (modules G))"

definition classCount :: "('w, 'o) gen \<Rightarrow> qstring \<Rightarrow> nat" where
  "classCount G name = length (filter (\<lambda>m. module_has m name) (modules G))"

definition explicit_constructors :: "(string \<times> string) list" where
  "explicit_constructors = [
     (''QAxContainer'', ''QAxObject''), (''QAxContainer'', ''QAxWidget''), (''QtCore'', ''QBuffer''),
     (''QtCore'', ''QConcatenateTablesProxyModel''), (''QtCore'', ''QEventLoop''), (''QtCore'', ''QFile''),
     (''QtCore'', ''QFileSystemWatcher''), (''QtCore'', ''QIdentityProxyModel''),
     (''QtCore'', ''QItemSelectionModel''), (''QtCore'', ''QLibrary''), (''QtCore'', ''QObject''),
     (''QtCore'', ''QPluginLoader''), (''QtCore'', ''QProcess''), (''QtCore'', ''QSaveFile''),
     (''QtCore'', ''QSettings''), (''QtCore'', ''QSignalMapper''), (''QtCore'', ''QSortFilterProxyModel''),
     (''QtCore'', ''QStringListModel''), (''QtCore'', ''QTemporaryFile''), (''QtCore'', ''QThread''),
     (''QtCore'', ''QThreadPool''), (''QtCore'', ''QTimer''), (''QtCore'', ''QTranslator''),
     (''QtCore'', ''QTransposeProxyModel''), (''QtGui'', ''QAction''), (''QtGui'', ''QMovie''),
     (''QtGui'', ''QShortcut''), (''QtGui'', ''QStandardItemModel''), (''QtGui'', ''QTextDocument''),
     (''QtGui'', ''QUndoGroup''), (''QtGui'', ''QUndoStack''), (''QtWidgets'', ''QButtonGroup''),
     (''QtWidgets'', ''QCalendarWidget''), (''QtWidgets'', ''QCheckBox''), (''QtWidgets'', ''QColorDialog''),
     (''QtWidgets'', ''QComboBox''), (''QtWidgets'', ''QCommandLinkButton''), (''QtWidgets'', ''QDateEdit''),
     (''QtWidgets'', ''QDateTimeEdit''), (''QtWidgets'', ''QDial''), (''QtWidgets'', ''QDialog''),
     (''QtWidgets'', ''QDialogButtonBox''), (''QtWidgets'', ''QDockWidget''),
     (''QtWidgets'', ''QDoubleSpinBox''), (''QtWidgets'', ''QFileDialog''),
     (''QtWidgets'', ''QFontComboBox''), (''QtWidgets'', ''QFontDialog''), (''QtWidgets'', ''QFormLayout''),
     (''QtWidgets'', ''QFrame''), (''QtWidgets'', ''QGraphicsScene''), (''QtWidgets'', ''QGraphicsView''),
     (''QtWidgets'', ''QGridLayout''), (''QtWidgets'', ''QGroupBox''), (''QtWidgets'', ''QHBoxLayout''),
     (''QtWidgets'', ''QInputDialog''), (''QtWidgets'', ''QKeySequenceEdit''),
     (''QtWidgets'', ''QLCDNumber''), (''QtWidgets'', ''QLabel''), (''QtWidgets'', ''QLineEdit''),
     (''QtWidgets'', ''QListView''), (''QtWidgets'', ''QListWidget''), (''QtWidgets'', ''QMainWindow''),
     (''QtWidgets'', ''QMdiArea''), (''QtWidgets'', ''QMenu''), (''QtWidgets'', ''QMenuBar''),
     (''QtWidgets'', ''QMessageBox''), (''QtWidgets'', ''QPlainTextEdit''),
     (''QtWidgets'', ''QProgressBar''), (''QtWidgets'', ''QProgressDialog''),
     (''QtWidgets'', ''QPushButton''), (''QtWidgets'', ''QRadioButton''), (''QtWidgets'', ''QScrollArea''),
     (''QtWidgets'', ''QScrollBar''), (''QtWidgets'', ''QSlider''), (''QtWidgets'', ''QSpinBox''),
     (''QtWidgets'', ''QSplitter''), (''QtWidgets'', ''QStackedWidget''), (''QtWidgets'', ''QStatusBar''),
     (''QtWidgets'', ''QTabBar''), (''QtWidgets'', ''QTabWidget''), (''QtWidgets'', ''QTableView''),
     (''QtWidgets'', ''QTableWidget''), (''QtWidgets'', ''QTextBrowser''), (''QtWidgets'', ''QTextEdit''),
     (''QtWidgets'', ''QTimeEdit''), (''QtWidgets'', ''QToolBar''), (''QtWidgets'', ''QToolButton''),
     (''QtWidgets'', ''QTreeView''), (''QtWidgets'', ''QTreeWidget''), (''QtWidgets'', ''QUndoView''),
     (''QtWidgets'', ''QVBoxLayout''), (''QtWidgets'', ''QWidget''), (''QtWidgets'', ''QWizard''),
     (''QtWidgets'', ''QWizardPage'')]"

definition isExplicitConstructor :: "qstring \<Rightarrow> qstring \<Rightarrow> bool" where
  "isExplicitConstructor moduleName name =
     list_ex (\<lambda>(m, n). moduleName = qs m \<and> name = qs n) explicit_constructors"

definition construct :: "('w, 'o) gen \<Rightarrow> qstring \<Rightarrow> ptr \<Rightarrow> 'w \<Rightarrow> (ptr \<times> qmsg option) \<times> 'w" where
  "construct G qualifiedName parent w =
     (let (moduleName, className) = split_qualified qualifiedName in
      case select_module (\<lambda>m. in_module moduleName m \<and> module_has m className) (modules G) None of
        Inl _ \<Rightarrow> ((nullptr, Some (Msg ''class %1 is ambiguous across Qt modules; use Module.%1'' [AStr className])), w)
      | Inr None \<Rightarrow> ((nullptr, None), w)
      | Inr (Some m) \<Rightarrow> m_construct m className parent w)"

definition availableConstructors :: "('w, 'o) gen \<Rightarrow> qstring list" where
  "availableConstructors G =
     (let names = concat (map (\<lambda>m. m_constructorNames m) (modules G));
          allNames = concat (map (\<lambda>m. map (qualify_name (m_name m)) (m_constructorNames m)) (modules G))
      in sorted_unique (allNames @ counted_once names))"

subsection \<open>The shard dispatchers\<close>

text \<open>\<^verbatim>\<open>if (shard(...)) return true;\<close> in sequence: the first shard that handles the call ends it.\<close>

fun try_shards :: "('x \<Rightarrow> bool \<times> 'x) list \<Rightarrow> 'x \<Rightarrow> bool \<times> 'x" where
  "try_shards [] x = (False, x)"
| "try_shards (f # fs) x = (let (handled, x') = f x in if handled then (True, x') else try_shards fs x')"

definition constructor_shards :: "(string \<times> string) list" where
  "constructor_shards = [
     (''qaxcontainer_0'', ''QAxContainer''), (''qt3danimation_0'', ''Qt3DAnimation''),
     (''qt3dcore_0'', ''Qt3DCore''), (''qt3dextras_0'', ''Qt3DExtras''), (''qt3dextras_1'', ''Qt3DExtras''),
     (''qt3dinput_0'', ''Qt3DInput''), (''qt3dlogic_0'', ''Qt3DLogic''), (''qt3drender_0'', ''Qt3DRender''),
     (''qt3drender_1'', ''Qt3DRender''), (''qt3drender_2'', ''Qt3DRender''),
     (''qt3drender_3'', ''Qt3DRender''), (''qt3drender_4'', ''Qt3DRender''),
     (''qtbluetooth_0'', ''QtBluetooth''), (''qtcharts_0'', ''QtCharts''), (''qtcharts_1'', ''QtCharts''),
     (''qtcore_0'', ''QtCore''), (''qtcore_1'', ''QtCore''),
     (''qtdatavisualization_0'', ''QtDataVisualization''), (''qtdbus_0'', ''QtDBus''),
     (''qtdesigner_0'', ''QtDesigner''), (''qtgraphs_0'', ''QtGraphs''), (''qtgraphs_1'', ''QtGraphs''),
     (''qtgraphswidgets_0'', ''QtGraphsWidgets''), (''qtgui_0'', ''QtGui''), (''qtgui_1'', ''QtGui''),
     (''qthelp_0'', ''QtHelp''), (''qtmultimedia_0'', ''QtMultimedia''),
     (''qtmultimediawidgets_0'', ''QtMultimediaWidgets''), (''qtnetwork_0'', ''QtNetwork''),
     (''qtnetworkauth_0'', ''QtNetworkAuth''), (''qtnfc_0'', ''QtNfc''), (''qtopengl_0'', ''QtOpenGL''),
     (''qtopenglwidgets_0'', ''QtOpenGLWidgets''), (''qtpdf_0'', ''QtPdf''),
     (''qtpdfwidgets_0'', ''QtPdfWidgets''), (''qtpositioning_0'', ''QtPositioning''),
     (''qtprintsupport_0'', ''QtPrintSupport''), (''qtqml_0'', ''QtQml''), (''qtquick3d_0'', ''QtQuick3D''),
     (''qtquick_0'', ''QtQuick''), (''qtquickwidgets_0'', ''QtQuickWidgets''),
     (''qtremoteobjects_0'', ''QtRemoteObjects''), (''qtsensors_0'', ''QtSensors''),
     (''qtserialport_0'', ''QtSerialPort''), (''qtspatialaudio_0'', ''QtSpatialAudio''),
     (''qtsql_0'', ''QtSql''), (''qtstatemachine_0'', ''QtStateMachine''), (''qtsvg_0'', ''QtSvg''),
     (''qtsvgwidgets_0'', ''QtSvgWidgets''), (''qttest_0'', ''QtTest''),
     (''qttexttospeech_0'', ''QtTextToSpeech''), (''qtwebchannel_0'', ''QtWebChannel''),
     (''qtwebenginecore_0'', ''QtWebEngineCore''), (''qtwebenginequick_0'', ''QtWebEngineQuick''),
     (''qtwebenginewidgets_0'', ''QtWebEngineWidgets''), (''qtwebsockets_0'', ''QtWebSockets''),
     (''qtwidgets_0'', ''QtWidgets''), (''qtwidgets_1'', ''QtWidgets''), (''qtwidgets_2'', ''QtWidgets''),
     (''qtwidgets_3'', ''QtWidgets''), (''qtwidgets_4'', ''QtWidgets'')]"

definition constructArguments ::
  "('w, 'o) gen \<Rightarrow> qstring \<Rightarrow> qstring \<Rightarrow> ptr \<Rightarrow> json list \<Rightarrow> qmsg option \<Rightarrow> ('w, 'o) bridge \<Rightarrow> bool \<times> ('w, 'o) ctor_out" where
  "constructArguments G moduleName className parent args error st =
     try_shards (map (\<lambda>(s, _). construct_shard G s moduleName className parent args) constructor_shards)
       (nullptr, error, st)"

definition hasArgumentConstructor :: "('w, 'o) gen \<Rightarrow> qstring \<Rightarrow> qstring \<Rightarrow> bool" where
  "hasArgumentConstructor G moduleName className =
     list_ex (\<lambda>(s, m). (moduleName = [] \<or> moduleName = qs m) \<and> className \<in> set (constructor_classes G s)) constructor_shards"

definition argumentConstructorModules :: "('w, 'o) gen \<Rightarrow> qstring \<Rightarrow> qstring list" where
  "argumentConstructorModules G className =
     map (\<lambda>(s, m). qs m) (filter (\<lambda>(s, m). className \<in> set (constructor_classes G s)) constructor_shards)"

definition availableArgumentConstructors :: "('w, 'o) gen \<Rightarrow> qstring list" where
  "availableArgumentConstructors G =
     (let names = concat (map (\<lambda>(s, m). constructor_classes G s) constructor_shards);
          qualifiedNames = concat (map (\<lambda>(s, m). map (qualify_name m) (constructor_classes G s)) constructor_shards)
      in sort (qualifiedNames @ counted_once names))"

definition value_constructor_shards :: "(string \<times> string) list" where
  "value_constructor_shards = [
     (''qt3danimation_0'', ''Qt3DAnimation''), (''qt3dcore_0'', ''Qt3DCore''),
     (''qt3drender_0'', ''Qt3DRender''), (''qtbluetooth_0'', ''QtBluetooth''),
     (''qtbluetooth_1'', ''QtBluetooth''), (''qtcore_0'', ''QtCore''), (''qtcore_1'', ''QtCore''),
     (''qtcore_10'', ''QtCore''), (''qtcore_11'', ''QtCore''), (''qtcore_12'', ''QtCore''),
     (''qtcore_2'', ''QtCore''), (''qtcore_3'', ''QtCore''), (''qtcore_4'', ''QtCore''),
     (''qtcore_5'', ''QtCore''), (''qtcore_6'', ''QtCore''), (''qtcore_7'', ''QtCore''),
     (''qtcore_8'', ''QtCore''), (''qtcore_9'', ''QtCore''), (''qtdbus_0'', ''QtDBus''),
     (''qtdbus_1'', ''QtDBus''), (''qtdesigner_0'', ''QtDesigner''), (''qtgraphs_0'', ''QtGraphs''),
     (''qtgui_0'', ''QtGui''), (''qtgui_1'', ''QtGui''), (''qtgui_10'', ''QtGui''),
     (''qtgui_11'', ''QtGui''), (''qtgui_12'', ''QtGui''), (''qtgui_13'', ''QtGui''),
     (''qtgui_2'', ''QtGui''), (''qtgui_3'', ''QtGui''), (''qtgui_4'', ''QtGui''), (''qtgui_5'', ''QtGui''),
     (''qtgui_6'', ''QtGui''), (''qtgui_7'', ''QtGui''), (''qtgui_8'', ''QtGui''), (''qtgui_9'', ''QtGui''),
     (''qthelp_0'', ''QtHelp''), (''qtmultimedia_0'', ''QtMultimedia''),
     (''qtmultimedia_1'', ''QtMultimedia''), (''qtnetwork_0'', ''QtNetwork''),
     (''qtnetwork_1'', ''QtNetwork''), (''qtnetwork_2'', ''QtNetwork''), (''qtnetwork_3'', ''QtNetwork''),
     (''qtnetwork_4'', ''QtNetwork''), (''qtnetworkauth_0'', ''QtNetworkAuth''), (''qtnfc_0'', ''QtNfc''),
     (''qtopengl_0'', ''QtOpenGL''), (''qtopengl_1'', ''QtOpenGL''), (''qtpdf_0'', ''QtPdf''),
     (''qtpositioning_0'', ''QtPositioning''), (''qtpositioning_1'', ''QtPositioning''),
     (''qtprintsupport_0'', ''QtPrintSupport''), (''qtqml_0'', ''QtQml''), (''qtqml_1'', ''QtQml''),
     (''qtquick_0'', ''QtQuick''), (''qtquick_1'', ''QtQuick''), (''qtserialport_0'', ''QtSerialPort''),
     (''qtsql_0'', ''QtSql''), (''qtsvg_0'', ''QtSvg''), (''qttest_0'', ''QtTest''),
     (''qttexttospeech_0'', ''QtTextToSpeech''), (''qtwebenginecore_0'', ''QtWebEngineCore''),
     (''qtwebenginecore_1'', ''QtWebEngineCore''), (''qtwebsockets_0'', ''QtWebSockets''),
     (''qtwidgets_0'', ''QtWidgets''), (''qtwidgets_1'', ''QtWidgets''), (''qtwidgets_2'', ''QtWidgets''),
     (''qtwidgets_3'', ''QtWidgets''), (''qtwidgets_4'', ''QtWidgets''), (''qtwidgets_5'', ''QtWidgets''),
     (''qtxml_0'', ''QtXml''), (''qtxml_1'', ''QtXml''), (''qtxml_2'', ''QtXml'')]"

definition constructValueArguments ::
  "('w, 'o) gen \<Rightarrow> ('w, 'o) bridge \<Rightarrow> qstring \<Rightarrow> qstring \<Rightarrow> json list \<Rightarrow> bool \<times> 'o value_out" where
  "constructValueArguments G st moduleName className args =
     try_shards
       (map (\<lambda>(s, m) out. if moduleName = [] \<or> moduleName = qs m
                          then construct_value_shard G s moduleName className args st out else (False, out))
          value_constructor_shards)
       (VInvalid, None)"

definition availableDirectValueConstructors :: "('w, 'o) gen \<Rightarrow> qstring list" where
  "availableDirectValueConstructors G =
     sorted_unique (concat (map (\<lambda>(s, m). value_constructor_classes G s) value_constructor_shards))"

definition method_shards :: "string list" where
  "method_shards = [
     ''qaxcontainer_0'', ''qt3danimation_0'', ''qt3dcore_0'', ''qt3dextras_0'', ''qt3dextras_1'',
     ''qt3dinput_0'', ''qt3dlogic_0'', ''qt3drender_0'', ''qt3drender_1'', ''qt3drender_2'',
     ''qt3drender_3'', ''qtbluetooth_0'', ''qtcharts_0'', ''qtcharts_1'', ''qtcore_0'', ''qtcore_1'',
     ''qtcore_2'', ''qtcore_3'', ''qtdatavisualization_0'', ''qtdatavisualization_1'', ''qtdbus_0'',
     ''qtdesigner_0'', ''qtgraphs_0'', ''qtgraphs_1'', ''qtgraphswidgets_0'', ''qtgui_0'', ''qtgui_1'',
     ''qtgui_2'', ''qthelp_0'', ''qtmultimedia_0'', ''qtmultimediawidgets_0'', ''qtnetwork_0'',
     ''qtnetworkauth_0'', ''qtnfc_0'', ''qtopengl_0'', ''qtopenglwidgets_0'', ''qtpdf_0'',
     ''qtpdfwidgets_0'', ''qtpositioning_0'', ''qtprintsupport_0'', ''qtqml_0'', ''qtquick3d_0'',
     ''qtquick_0'', ''qtquickwidgets_0'', ''qtremoteobjects_0'', ''qtsensors_0'', ''qtsensors_1'',
     ''qtserialport_0'', ''qtspatialaudio_0'', ''qtsql_0'', ''qtstatemachine_0'', ''qtsvg_0'',
     ''qtsvgwidgets_0'', ''qttest_0'', ''qttexttospeech_0'', ''qtwebchannel_0'', ''qtwebenginecore_0'',
     ''qtwebenginequick_0'', ''qtwebenginewidgets_0'', ''qtwebsockets_0'', ''qtwidgets_0'', ''qtwidgets_1'',
     ''qtwidgets_2'', ''qtwidgets_3'', ''qtwidgets_4'', ''qtxml_0'']"

definition invoke ::
  "('w, 'o) gen \<Rightarrow> ptr \<Rightarrow> qstring \<Rightarrow> qstring \<Rightarrow> json list \<Rightarrow> ('w, 'o) bridge \<Rightarrow> bool \<times> ('w, 'o) call_out" where
  "invoke G object className signature args st =
     try_shards (map (\<lambda>s. invoke_shard G s object className signature args) method_shards) (JNull, None, st)"

definition value_method_shards :: "string list" where
  "value_method_shards = [
     ''qaxcontainer_0'', ''qt3danimation_0'', ''qt3dcore_0'', ''qt3drender_0'', ''qtbluetooth_0'',
     ''qtbluetooth_1'', ''qtcore_0'', ''qtcore_1'', ''qtcore_10'', ''qtcore_11'', ''qtcore_12'',
     ''qtcore_2'', ''qtcore_3'', ''qtcore_4'', ''qtcore_5'', ''qtcore_6'', ''qtcore_7'', ''qtcore_8'',
     ''qtcore_9'', ''qtdbus_0'', ''qtdbus_1'', ''qtdesigner_0'', ''qtgraphs_0'', ''qtgui_0'', ''qtgui_1'',
     ''qtgui_10'', ''qtgui_11'', ''qtgui_12'', ''qtgui_13'', ''qtgui_14'', ''qtgui_2'', ''qtgui_3'',
     ''qtgui_4'', ''qtgui_5'', ''qtgui_6'', ''qtgui_7'', ''qtgui_8'', ''qtgui_9'', ''qthelp_0'',
     ''qtmultimedia_0'', ''qtmultimedia_1'', ''qtnetwork_0'', ''qtnetwork_1'', ''qtnetwork_2'',
     ''qtnetwork_3'', ''qtnetwork_4'', ''qtnetworkauth_0'', ''qtnfc_0'', ''qtopengl_0'', ''qtopengl_1'',
     ''qtpdf_0'', ''qtpositioning_0'', ''qtpositioning_1'', ''qtprintsupport_0'', ''qtqml_0'', ''qtqml_1'',
     ''qtquick_0'', ''qtquick_1'', ''qtquick_2'', ''qtserialport_0'', ''qtsql_0'', ''qtsvg_0'', ''qttest_0'',
     ''qttexttospeech_0'', ''qtwebenginecore_0'', ''qtwebenginecore_1'', ''qtwebsockets_0'', ''qtwidgets_0'',
     ''qtwidgets_1'', ''qtwidgets_2'', ''qtwidgets_3'', ''qtwidgets_4'', ''qtxml_0'', ''qtxml_1'', ''qtxml_2'']"

definition invokeValue ::
  "('w, 'o) gen \<Rightarrow> 'o qvariant \<Rightarrow> qstring \<Rightarrow> qstring \<Rightarrow> json list \<Rightarrow> ('w, 'o) bridge \<Rightarrow> bool \<times> ('w, 'o) vcall_out" where
  "invokeValue G v className signature args st =
     try_shards (map (\<lambda>s. invoke_value_shard G s className signature args) value_method_shards) (v, JNull, None, st)"

definition availableDirectValueTypes :: "('w, 'o) gen \<Rightarrow> qstring list" where
  "availableDirectValueTypes G = sorted_unique (concat (map (direct_value_types G) value_method_shards))"

text \<open>The table of \<^verbatim>\<open>describeDirectValueType\<close> is in \<open>Described_Types\<close> and reaches \<open>G\<close> by linking; an unknown class falls through to \<^verbatim>\<open>return QJsonValue()\<close>.\<close>

definition describeDirectValueType :: "('w, 'o) gen \<Rightarrow> qstring \<Rightarrow> json" where
  "describeDirectValueType G className =
     (case direct_methods G className of
        Some methods \<Rightarrow> jobj [(''type'', JString className), (''kind'', JString (qs ''value'')), (''methods'', JArray (map JString methods))]
      | None \<Rightarrow> JNull)"

subsection \<open>Facts about the tables\<close>

lemma select_module_spec:
  "select_module ok ms None =
     (case filter ok ms of [] \<Rightarrow> Inr None | [m] \<Rightarrow> Inr (Some m) | _ \<Rightarrow> Inl ())"
proof -
  have some: "select_module ok ms (Some x) = (if filter ok ms = [] then Inr (Some x) else Inl ())" for x ms
    by (induction ms) auto
  show ?thesis
    by (induction ms) (auto simp: some split: list.splits)
qed

lemma try_shards_invariant:
  assumes "\<And>f x b x'. f \<in> set fs \<Longrightarrow> I x \<Longrightarrow> f x = (b, x') \<Longrightarrow> I x'" and "I x" and "try_shards fs x = (b, x')"
  shows "I x'"
  using assms
proof (induction fs arbitrary: x)
  case (Cons f fs)
  obtain h y where f: "f x = (h, y)" by force
  have Iy: "I y" using Cons.prems(1,2) f by (metis list.set_intros(1))
  show ?case
  proof (cases h)
    case True with Iy f Cons.prems(3) show ?thesis by simp
  next
    case False
    with f Cons.prems(3) have "try_shards fs y = (b, x')" by simp
    then show ?thesis using Cons.IH [OF _ Iy] Cons.prems(1) by (metis list.set_intros(2))
  qed
qed simp

lemma try_shards_handled:
  "fst (try_shards fs x) \<Longrightarrow> \<exists>f\<in>set fs. \<exists>y. fst (f y) \<and> try_shards fs x = f y"
proof (induction fs arbitrary: x)
  case (Cons f fs)
  show ?case
  proof (cases "f x")
    case (Pair h y)
    show ?thesis
    proof (cases h)
      case True then show ?thesis using Pair by (auto intro!: bexI [of _ f] exI [of _ x])
    next
      case False
      with Pair Cons.prems have "fst (try_shards fs y)" by simp
      from Cons.IH [OF this] show ?thesis using Pair False by auto
    qed
  qed
qed simp

lemma sorted_unique_sorted [simp]: "sorted (sorted_unique xs)"
  by (simp add: sorted_unique_def)

lemma sorted_unique_distinct [simp]: "distinct (sorted_unique xs)"
  by (simp add: sorted_unique_def)

lemma set_sorted_unique [simp]: "set (sorted_unique xs) = set xs"
  by (simp add: sorted_unique_def)

lemma name_counts_find:
  "smap_find (name_counts names) n = (if n \<in> set names then Some (count_list names n) else None)"
proof -
  have step: "smap_find (fold (\<lambda>n m. smap_put n (Suc (case smap_find m n of None \<Rightarrow> 0 | Some c \<Rightarrow> c)) m) names m) n
    = (if n \<in> set names then Some ((case smap_find m n of None \<Rightarrow> 0 | Some c \<Rightarrow> c) + count_list names n)
       else smap_find m n)" for m
    by (induction names arbitrary: m) (auto split: option.splits)
  show ?thesis by (simp add: name_counts_def step)
qed

lemma name_counts_ok: "smap_ok (name_counts names)"
proof -
  have "smap_ok m \<Longrightarrow> smap_ok (fold (\<lambda>n m. smap_put n (Suc (case smap_find m n of None \<Rightarrow> 0 | Some c \<Rightarrow> c)) m) names m)" for m
    by (induction names arbitrary: m) (auto simp: smap_ok_put)
  then show ?thesis by (simp add: name_counts_def)
qed

lemma set_counted_once: "set (counted_once names) = {n. count_list names n = 1}"
proof (rule set_eqI)
  fix n
  have "n \<in> set (counted_once names) \<longleftrightarrow> (n, 1) \<in> set (name_counts names)"
    by (force simp: counted_once_def)
  also have "\<dots> \<longleftrightarrow> smap_find (name_counts names) n = Some 1"
    using smap_find_in [OF name_counts_ok] smap_find_Some_in by metis
  also have "\<dots> \<longleftrightarrow> n \<in> {n. count_list names n = 1}"
    by (cases "n \<in> set names") (auto simp: name_counts_find)
  finally show "n \<in> set (counted_once names) \<longleftrightarrow> n \<in> {n. count_list names n = 1}" .
qed

lemma module_names_distinct: "distinct module_names"
  by (simp add: module_names_def)

lemma m_name_modules: "map m_name (modules G) = module_names"
  by (simp add: modules_def comp_def)

end
