(* ===== verification/To_Json.thy ===== *)
theory To_Json
  imports Generated_Dispatch
begin

text \<open>
  \<^verbatim>\<open>toJson\<close> (qt6\_bridge.cpp) with \<^verbatim>\<open>pngBase64\<close>: a QVariant becomes JSON, in
  the source's order of tests. Gadgets and directly bound value types are stored in \<^verbatim>\<open>values\<close>
  and travel as handles, so the bridge state is threaded through.
\<close>

definition pngBase64 :: "('w, 'o) qt \<Rightarrow> 'o \<Rightarrow> bytes" where
  "pngBase64 Q img = (case image_png Q img of None \<Rightarrow> [] | Some encoded \<Rightarrow> toBase64 Q encoded)"

definition png_json :: "bytes \<Rightarrow> json" where
  "png_json encoded = (if encoded = [] then JNull else jobj [(''png_base64'', JString (qs encoded))])"

fun pointer_of :: "'o qvariant \<Rightarrow> ptr" where
  "pointer_of (VPointer _ p) = p"
| "pointer_of _ = nullptr"

definition toJson_pointer :: "('w, 'o) qt \<Rightarrow> 'o qvariant \<Rightarrow> ('w, 'o) bridge \<Rightarrow> json" where
  "toJson_pointer Q v st =
     (let (ok, objectValue) = (if variant_type v = MtQObjectStar then (True, v) else v_convert Q v MtQObjectStar) in
      if \<not> ok then JNull
      else let object = pointer_of objectValue in
        if object = nullptr then JNull
        else let oid = idForObject Q st object in
          if oid = 0
          then jobj [(''class'', JString (qs (mo_className (metaObject_of Q (world st) object)))),
                     (''object_name'', JString (objectName Q (world st) object))]
          else jobj [(''object_id'', jint oid)])"

definition toJson_geoCoordinate :: "('w, 'o) qt \<Rightarrow> 'o \<Rightarrow> json" where
  "toJson_geoCoordinate Q x =
     (case geo_parts Q x of
        None \<Rightarrow> JNull
      | Some (latitude, longitude, altitude) \<Rightarrow>
          jobj ([(''latitude'', JDouble latitude), (''longitude'', JDouble longitude)]
            @ (if dbl_isfinite altitude then [(''altitude'', JDouble altitude)] else [])))"

definition toJson_networkRequest :: "('w, 'o) qt \<Rightarrow> 'o \<Rightarrow> json" where
  "toJson_networkRequest Q x =
     (let (url, headers) = request_parts Q x in
      jobj [(''url'', JString url),
            (''headers'', JObject (smap_of (map (\<lambda>(n, c). (qs n, JString (qs c))) headers)))])"

definition value_handle :: "('w, 'o) qt \<Rightarrow> 'o qvariant \<Rightarrow> qstring \<Rightarrow> ('w, 'o) bridge \<Rightarrow> json \<times> ('w, 'o) bridge" where
  "value_handle Q v typeName st =
     (let (oid, st') = registerValue v st in
      (jobj [(''value_id'', jint oid), (''type'', JString typeName)], st'))"

fun enum_bits :: "'o qvariant \<Rightarrow> i64" where
  "enum_bits (VEnum _ b) = b"
| "enum_bits _ = 0"

definition toJson_enum :: "('w, 'o) qt \<Rightarrow> 'o qvariant \<Rightarrow> json" where
  "toJson_enum Q v =
     (let t = variant_type v;
          signed = (case enumForMetaType Q t of Some e \<Rightarrow> \<not> enum_isFlag e | None \<Rightarrow> False)
      in if mt_size Q t = 1 then
           (let raw = ucast (enum_bits v) :: 8 word in if signed then jint (sint raw) else jint (uint raw))
         else if mt_size Q t = 2 then
           (let raw = ucast (enum_bits v) :: 16 word in if signed then jint (sint raw) else jint (uint raw))
         else if mt_size Q t = 4 then
           (let raw = ucast (enum_bits v) :: 32 word in if signed then jint (sint raw) else jint (uint raw))
         else if mt_size Q t = 8 then jint (uint (enum_bits v))
         else JNull)"

definition toJson_longlong :: "('w, 'o) qt \<Rightarrow> i64 \<Rightarrow> json" where
  "toJson_longlong Q n =
     (let integer = sint n in
      if - max_exact \<le> integer \<and> integer \<le> max_exact then jint integer else JString (number Q integer))"

definition toJson_ulonglong :: "('w, 'o) qt \<Rightarrow> i64 \<Rightarrow> json" where
  "toJson_ulonglong Q n =
     (let integer = uint n in
      if integer \<le> max_exact then jint integer else JString (number Q integer))"

definition geometry_json2 :: "metatype \<Rightarrow> dbl \<Rightarrow> dbl \<Rightarrow> json option" where
  "geometry_json2 t a b =
     (if t = MtQPoint \<or> t = MtQPointF then Some (pointObject a b)
      else if t = MtQSize \<or> t = MtQSizeF then Some (sizeObject a b)
      else if t = MtQVector2D then Some (pointObject a b)
      else None)"

definition geometry_json4 :: "metatype \<Rightarrow> dbl \<Rightarrow> dbl \<Rightarrow> dbl \<Rightarrow> dbl \<Rightarrow> json option" where
  "geometry_json4 t a b c d =
     (if t = MtQRect \<or> t = MtQRectF then Some (rectObject a b c d)
      else if t = MtQLine \<or> t = MtQLineF then
        Some (jobj [(''x1'', JDouble a), (''y1'', JDouble b), (''x2'', JDouble c), (''y2'', JDouble d)])
      else if t = MtQVector4D then
        Some (jobj [(''x'', JDouble a), (''y'', JDouble b), (''z'', JDouble c), (''w'', JDouble d)])
      else if t = MtQMargins \<or> t = MtQMarginsF then Some (marginsObject a b c d)
      else None)"

fun geometry_json :: "metatype \<Rightarrow> dbl list \<Rightarrow> json option" where
  "geometry_json t [a, b] = geometry_json2 t a b"
| "geometry_json t [a, b, c] =
     (if t = MtQVector3D then Some (jobj [(''x'', JDouble a), (''y'', JDouble b), (''z'', JDouble c)]) else None)"
| "geometry_json t [a, b, c, d] = geometry_json4 t a b c d"
| "geometry_json t _ = None"

definition toJson_opaque :: "('w, 'o) qt \<Rightarrow> metatype \<Rightarrow> 'o \<Rightarrow> json option" where
  "toJson_opaque Q t x =
     (if t = MtQUuid then Some (JString (toText Q ''QUuid::toString WithoutBraces'' x))
      else if t = MtQRegularExpression then
        (let (pattern, options) = regex_parts Q x in
         Some (jobj [(''pattern'', JString pattern), (''options'', jint (sint options))]))
      else if t = MtQImage then Some (png_json (pngBase64 Q x))
      else if t = MtQPixmap then Some (png_json (pngBase64 Q (pixmap_toImage Q x)))
      else if t = MtQIcon then Some (png_json (pngBase64 Q (icon_toImage Q x)))
      else if t = MtQColor then Some (JString (toText Q ''QColor::name HexArgb'' x))
      else if t = MtQDate then Some (JString (toText Q ''QDate::toString ISODate'' x))
      else if t = MtQTime then Some (JString (toText Q ''QTime::toString HH:mm:ss.zzz'' x))
      else if t = MtQDateTime then Some (JString (toText Q ''QDateTime::toString ISODateWithMs'' x))
      else if t = MtQUrl then Some (JString (toText Q ''QUrl::toString FullyEncoded'' x))
      else if t = MtQFont then Some (JString (toText Q ''QFont::toString'' x))
      else if t = MtQKeySequence then Some (JString (toText Q ''QKeySequence::toString PortableText'' x))
      else None)"

text \<open>The branches that neither recurse nor register; \<open>None\<close> falls through to the direct value types.\<close>

fun toJson_plain :: "('w, 'o) qt \<Rightarrow> 'o qvariant \<Rightarrow> json option" where
  "toJson_plain Q (VLongLong n) = Some (toJson_longlong Q n)"
| "toJson_plain Q (VULongLong n) = Some (toJson_ulonglong Q n)"
| "toJson_plain Q (VJsonValue j) = Some j"
| "toJson_plain Q (VJsonObject obj) = Some (JObject obj)"
| "toJson_plain Q (VJsonArray xs) = Some (JArray xs)"
| "toJson_plain Q (VStringMap es) = Some (JObject (smap_of (map (\<lambda>(k, s). (k, JString s)) es)))"
| "toJson_plain Q (VStringHash es) = Some (JObject (smap_of (map (\<lambda>(k, s). (k, JString s)) es)))"
| "toJson_plain Q (VInts t xs) = geometry_json t (map (\<lambda>i. DFin (of_int (sint i))) xs)"
| "toJson_plain Q (VReals t xs) = geometry_json t xs"
| "toJson_plain Q (VByteArray b) = Some (jobj [(''base64'', JString (qs (toBase64 Q b)))])"
| "toJson_plain Q (VOpaque t x) = toJson_opaque Q t x"
| "toJson_plain Q _ = None"

definition toJson_rest :: "('w, 'o) qt \<Rightarrow> ('w, 'o) gen \<Rightarrow> 'o qvariant \<Rightarrow> ('w, 'o) bridge \<Rightarrow> json \<times> ('w, 'o) bridge" where
  "toJson_rest Q G v st =
     (case toJson_plain Q v of
        Some j \<Rightarrow> (j, st)
      | None \<Rightarrow>
          let className = mt_qname Q (variant_type v) in
          if className \<in> set (availableDirectValueTypes G) \<or> className \<in> set (availableDirectValueConstructors G)
          then value_handle Q v className st
          else let json = fromVariant Q v in (if isUndefined json then JNull else json, st))"

text \<open>The tests before the map types, in the source's order; \<open>None\<close> goes on.\<close>

definition toJson_special :: "('w, 'o) qt \<Rightarrow> 'o qvariant \<Rightarrow> json option" where
  "toJson_special Q v =
     (case v of
        VOpaque t x \<Rightarrow>
          if t = MtQGeoCoordinate then Some (toJson_geoCoordinate Q x)
          else if t = MtQHostAddress then Some (JString (toText Q ''QHostAddress::toString'' x))
          else if t = MtQNetworkRequest then Some (toJson_networkRequest Q x)
          else None
      | _ \<Rightarrow> None)"

definition toJson_first :: "('w, 'o) qt \<Rightarrow> 'o qvariant \<Rightarrow> ('w, 'o) bridge \<Rightarrow> (json \<times> ('w, 'o) bridge) option" where
  "toJson_first Q v st =
     (let t = variant_type v in
      if \<not> v_isValid v then Some (JNull, st)
      else if mt_isPointer Q t then Some (toJson_pointer Q v st, st)
      else case toJson_special Q v of
        Some j \<Rightarrow> Some (j, st)
      | None \<Rightarrow>
          if mt_isGadget Q t \<and> mt_metaObject Q t \<noteq> None then Some (value_handle Q v (mt_qname Q t) st)
          else if mt_isEnum Q t then Some (toJson_enum Q v, st)
          else None)"

fun toJson :: "('w, 'o) qt \<Rightarrow> ('w, 'o) gen \<Rightarrow> 'o qvariant \<Rightarrow> ('w, 'o) bridge \<Rightarrow> json \<times> ('w, 'o) bridge"
and toJson_entries :: "('w, 'o) qt \<Rightarrow> ('w, 'o) gen \<Rightarrow> (qstring \<times> 'o qvariant) list \<Rightarrow> ('w, 'o) bridge
      \<Rightarrow> (qstring \<times> json) list \<times> ('w, 'o) bridge" where
  "toJson Q G v st =
     (case toJson_first Q v st of
        Some r \<Rightarrow> r
      | None \<Rightarrow>
          (case v of
             VMap es \<Rightarrow> (let (js, st') = toJson_entries Q G es st in (JObject (smap_of js), st'))
           | VHash es \<Rightarrow> (let (js, st') = toJson_entries Q G es st in (JObject (smap_of js), st'))
           | _ \<Rightarrow> toJson_rest Q G v st))"
| "toJson_entries Q G [] st = ([], st)"
| "toJson_entries Q G ((k, e) # es) st =
     (let (j, st1) = toJson Q G e st; (js, st2) = toJson_entries Q G es st1 in ((k, j) # js, st2))"

declare toJson.simps [simp del]

fun toJson_list :: "('w, 'o) qt \<Rightarrow> ('w, 'o) gen \<Rightarrow> 'o qvariant list \<Rightarrow> ('w, 'o) bridge \<Rightarrow> json list \<times> ('w, 'o) bridge" where
  "toJson_list Q G [] st = ([], st)"
| "toJson_list Q G (v # vs) st =
     (let (j, st1) = toJson Q G v st; (js, st2) = toJson_list Q G vs st1 in (j # js, st2))"

subsection \<open>What a conversion may change\<close>

text \<open>Only the value table grows, under fresh handles: earlier handles keep their meaning, nothing else moves.\<close>

definition value_ext :: "('w, 'o) bridge \<Rightarrow> ('w, 'o) bridge \<Rightarrow> bool" where
  "value_ext st st' \<longleftrightarrow>
     world st' = world st \<and> application st' = application st \<and> applicationThread st' = applicationThread st
     \<and> objects st' = objects st \<and> subscriptions st' = subscriptions st \<and> nextObjectId st \<le> nextObjectId st'
     \<and> (\<forall>k<nextObjectId st. valueForId st' k = valueForId st k)
     \<and> (running st \<longrightarrow> running st')"

lemma value_ext_refl [simp, intro]: "value_ext st st"
  by (simp add: value_ext_def)

lemma value_ext_trans: "value_ext a b \<Longrightarrow> value_ext b c \<Longrightarrow> value_ext a c"
  unfolding value_ext_def by (auto intro: order_trans)

lemma registerValue_ext: "registerValue v st = (h, st') \<Longrightarrow> value_ext st st'"
  using registerValue_frame [of v st h st']
  by (auto simp: value_ext_def registerValue_def valueForId_def smap_emplace_def Let_def
      intro: value_table.inv_register split: if_splits option.splits)

lemma value_handle_ext: "value_handle Q v n st = (j, st') \<Longrightarrow> value_ext st st'"
  by (auto simp: value_handle_def split: prod.splits intro: registerValue_ext)

lemma toJson_first_ext: "toJson_first Q v st = Some (j, st') \<Longrightarrow> value_ext st st'"
  by (auto simp: toJson_first_def Let_def split: if_splits option.splits intro: value_handle_ext)

lemma toJson_rest_ext: "toJson_rest Q G v st = (j, st') \<Longrightarrow> value_ext st st'"
  by (auto simp: toJson_rest_def Let_def split: if_splits option.splits intro: value_handle_ext)

lemma toJson_step:
  "toJson_first Q v st = None \<Longrightarrow> \<forall>es. v \<noteq> VMap es \<and> v \<noteq> VHash es \<Longrightarrow> toJson Q G v st = toJson_rest Q G v st"
  by (cases v) (simp_all add: toJson.simps)

lemma toJson_ext_aux:
  shows "value_ext st (snd (toJson Q G v st))" and "value_ext st (snd (toJson_entries Q G es st))"
proof (induction Q G v st and Q G es st rule: toJson_toJson_entries.induct)
  case (1 Q G v st)
  show ?case
  proof (cases "toJson_first Q v st")
    case (Some r)
    then show ?thesis using toJson_first_ext [of Q v st "fst r" "snd r"] by (simp add: toJson.simps)
  next
    case None
    note first = None
    have rest: "value_ext st (snd (toJson_rest Q G v st))"
      using toJson_rest_ext [of Q G v st] by (cases "toJson_rest Q G v st") auto
    show ?thesis
    proof (cases "\<exists>es. v = VMap es \<or> v = VHash es")
      case True
      then obtain es where es: "v = VMap es \<or> v = VHash es" ..
      then have "value_ext st (snd (toJson_entries Q G es st))" using 1 first by blast
      then show ?thesis
        using es first by (auto simp: toJson.simps split: prod.splits)
    next
      case False
      then show ?thesis using rest toJson_step [OF first] by auto
    qed
  qed
next
  case (3 Q G k e es st)
  obtain j st1 where r: "toJson Q G e st = (j, st1)" by force
  have "value_ext st st1" using "3.IH"(1) r by simp
  moreover have "value_ext st1 (snd (toJson_entries Q G es st1))" using "3.IH"(2) r by force
  ultimately show ?case using r by (auto simp: Let_def split: prod.splits intro: value_ext_trans)
qed simp

lemma toJson_ext: "toJson Q G v st = (j, st') \<Longrightarrow> value_ext st st'"
  using toJson_ext_aux(1) [of st Q G v] by simp

lemma toJson_list_ext: "toJson_list Q G vs st = (js, st') \<Longrightarrow> value_ext st st'"
  by (induction vs arbitrary: st js)
     (auto simp: Let_def split: prod.splits dest!: toJson_ext intro: value_ext_trans)

end
