(* ===== verification/Registry_Steps.thy ===== *)
theory Registry_Steps
  imports To_Json
begin

text \<open>
  What a piece of the bridge may do to the registry while it serves a request: Qt's world may
  change in any way, fresh handles may be added, no handle is lost or redirected. Every operation
  except \<^verbatim>\<open>delete\<close>, \<^verbatim>\<open>value_delete\<close>, \<^verbatim>\<open>shutdown\<close>, \<^verbatim>\<open>connect\<close> and \<^verbatim>\<open>events\<close> is a \<open>reg_step\<close>, and so is
  every call into a generated shard (\<open>gen_ok\<close>, the contract of the generated code: it reaches the
  registry only through \<^verbatim>\<open>kry_qt6_direct::fromJson\<close>, \<^verbatim>\<open>toJson\<close> and \<^verbatim>\<open>objectHandle\<close>).
\<close>

definition reg_step :: "('w, 'o) bridge \<Rightarrow> ('w, 'o) bridge \<Rightarrow> bool" where
  "reg_step st st' \<longleftrightarrow>
     application st' = application st \<and> applicationThread st' = applicationThread st
     \<and> subscriptions st' = subscriptions st \<and> nextObjectId st \<le> nextObjectId st'
     \<and> (\<forall>k<nextObjectId st. smap_find (objects st') k = smap_find (objects st) k)
     \<and> (\<forall>k<nextObjectId st. valueForId st' k = None \<longleftrightarrow> valueForId st k = None)
     \<and> (running st \<longrightarrow> running st')"

definition set_world :: "'w \<Rightarrow> ('w, 'o) bridge \<Rightarrow> ('w, 'o) bridge" where
  "set_world w st = st\<lparr>world := w\<rparr>"

text \<open>\<^verbatim>\<open>objectHandle\<close> of the namespace \<^verbatim>\<open>kry_qt6_direct\<close>: null stays null.\<close>

definition objectHandle :: "('w, 'o) qt \<Rightarrow> ptr \<Rightarrow> ('w, 'o) bridge \<Rightarrow> json \<times> ('w, 'o) bridge" where
  "objectHandle Q p st = (if p = nullptr then (JNull, st) else objectHandleValue Q p st)"

text \<open>\<^verbatim>\<open>value->second.data()\<close> handed to Qt: the stored value is replaced in place.\<close>

definition store_value :: "handle \<Rightarrow> 'o qvariant \<Rightarrow> ('w, 'o) bridge \<Rightarrow> ('w, 'o) bridge" where
  "store_value oid v st = st\<lparr>bvalues := smap_put oid v (bvalues st)\<rparr>"

text \<open>An error string that may be empty.\<close>

definition error_text :: "qmsg option \<Rightarrow> qmsg" where
  "error_text e = (case e of None \<Rightarrow> Raw [] | Some m \<Rightarrow> m)"

lemma reg_step_refl [simp, intro]: "reg_step st st"
  by (simp add: reg_step_def)

lemma reg_step_trans [trans]: "reg_step a b \<Longrightarrow> reg_step b c \<Longrightarrow> reg_step a c"
  unfolding reg_step_def by (auto intro: order_trans)

lemma running_set_world [simp]: "running (set_world w st) = running st"
  by (simp add: running_def set_world_def)

lemma set_world_simps [simp]:
  "world (set_world w st) = w" "application (set_world w st) = application st"
  "applicationThread (set_world w st) = applicationThread st" "objects (set_world w st) = objects st"
  "bvalues (set_world w st) = bvalues st" "subscriptions (set_world w st) = subscriptions st"
  "nextObjectId (set_world w st) = nextObjectId st" "set_world w (set_world w' st) = set_world w st"
  by (simp_all add: set_world_def)

lemma reg_step_set_world [simp, intro]: "reg_step st (set_world w st)"
  by (simp add: reg_step_def valueForId_def)

lemma reg_step_world: "reg_step st st' \<Longrightarrow> reg_step st (set_world w st')"
  by (rule reg_step_trans) auto

lemma value_ext_reg_step: "value_ext st st' \<Longrightarrow> reg_step st st'"
  by (auto simp: value_ext_def reg_step_def)

lemmas toJson_reg_step = toJson_ext [THEN value_ext_reg_step]
lemmas registerValue_reg_step = registerValue_ext [THEN value_ext_reg_step]

lemma registerObject_reg_step:
  assumes "registerObject Q p st = (h, st')"
  shows "reg_step st st'"
proof -
  have "running st'" if "running st"
    using object_table.inv_register [OF that assms] .
  moreover have "smap_find (objects st') k = smap_find (objects st) k" if "k < nextObjectId st" for k
    using assms that
    by (auto simp: registerObject_def smap_emplace_def Let_def split: if_splits option.splits)
  ultimately show ?thesis
    using registerObject_frame [OF assms] by (simp add: reg_step_def valueForId_def)
qed

lemma objectHandleValue_reg_step: "objectHandleValue Q p st = (j, st') \<Longrightarrow> reg_step st st'"
  by (auto simp: objectHandleValue_def split: prod.splits intro: registerObject_reg_step)

lemma keys_smap_put: "fst ` set (smap_put k v m) = insert k (fst ` set m)"
  by (simp add: set_smap_put)

lemma running_store_value:
  assumes "running st" "valueForId st oid \<noteq> None"
  shows "running (store_value oid v st)"
proof -
  have "oid \<in> fst ` set (bvalues st)"
    using assms(2) by (force simp: valueForId_def dest: smap_find_Some_in)
  then have keys: "fst ` set (smap_put oid v (bvalues st)) = fst ` set (bvalues st)"
    by (auto simp: keys_smap_put)
  have "smap_ok (smap_put oid v (bvalues st))"
    using assms(1) by (simp add: running_def reg_inv_def smap_ok_put)
  then show ?thesis
    using assms(1) keys by (simp add: running_def reg_inv_def store_value_def)
qed

lemma store_value_reg_step: "valueForId st oid \<noteq> None \<Longrightarrow> reg_step st (store_value oid v st)"
  using running_store_value [of st oid v]
  by (auto simp: reg_step_def store_value_def valueForId_def)

text \<open>The contract of the generated shards.\<close>

definition gen_ok :: "('w, 'o) gen \<Rightarrow> bool" where
  "gen_ok G \<longleftrightarrow>
     (\<forall>s m c p args out. reg_step (snd (snd out)) (snd (snd (snd (construct_shard G s m c p args out)))))
     \<and> (\<forall>s p c sig args out. reg_step (snd (snd out)) (snd (snd (snd (invoke_shard G s p c sig args out)))))
     \<and> (\<forall>s c sig args out.
          reg_step (snd (snd (snd out))) (snd (snd (snd (snd (invoke_value_shard G s c sig args out))))))"

lemma try_shards_reg_step:
  assumes "\<forall>f\<in>set fs. \<forall>y. reg_step (proj y) (proj (snd (f y)))"
  shows "reg_step (proj x) (proj (snd (try_shards fs x)))"
proof (rule try_shards_invariant [where I = "\<lambda>y. reg_step (proj x) (proj y)"])
  fix f y b y'
  assume "f \<in> set fs" "reg_step (proj x) (proj y)" "f y = (b, y')"
  then show "reg_step (proj x) (proj y')"
    using assms by (metis reg_step_trans snd_conv)
qed (simp_all add: prod_eq_iff)

lemma constructArguments_reg_step:
  assumes "gen_ok G" "constructArguments G m c p args err st = (b, q, err', st')"
  shows "reg_step st st'"
proof -
  let ?fs = "map (\<lambda>(s, _). construct_shard G s m c p args) constructor_shards"
  have "\<forall>f\<in>set ?fs. \<forall>y. reg_step ((\<lambda>out. snd (snd out)) y) ((\<lambda>out. snd (snd out)) (snd (f y)))"
    using assms(1) by (auto simp: gen_ok_def)
  from try_shards_reg_step [where proj = "\<lambda>out. snd (snd out)" and fs = ?fs and x = "(nullptr, err, st)", OF this]
  show ?thesis using assms(2) by (simp add: constructArguments_def)
qed

lemma invoke_reg_step:
  assumes "gen_ok G" "invoke G p c sig args st = (b, j, err, st')"
  shows "reg_step st st'"
proof -
  let ?fs = "map (\<lambda>s. invoke_shard G s p c sig args) method_shards"
  have "\<forall>f\<in>set ?fs. \<forall>y. reg_step ((\<lambda>out. snd (snd out)) y) ((\<lambda>out. snd (snd out)) (snd (f y)))"
    using assms(1) by (auto simp: gen_ok_def)
  from try_shards_reg_step [where proj = "\<lambda>out. snd (snd out)" and fs = ?fs and x = "(JNull, None, st)", OF this]
  show ?thesis using assms(2) by (simp add: invoke_def)
qed

lemma invokeValue_reg_step:
  assumes "gen_ok G" "invokeValue G v c sig args st = (b, v', j, err, st')"
  shows "reg_step st st'"
proof -
  let ?fs = "map (\<lambda>s. invoke_value_shard G s c sig args) value_method_shards"
  have "\<forall>f\<in>set ?fs. \<forall>y. reg_step ((\<lambda>out. snd (snd (snd out))) y) ((\<lambda>out. snd (snd (snd out))) (snd (f y)))"
    using assms(1) by (auto simp: gen_ok_def)
  from try_shards_reg_step [where proj = "\<lambda>out. snd (snd (snd out))" and fs = ?fs and x = "(v, JNull, None, st)", OF this]
  show ?thesis using assms(2) by (simp add: invokeValue_def)
qed

end
