(* ===== verification/Conversion_Laws.thy ===== *)
theory Conversion_Laws
  imports To_Json
begin

text \<open>
  What \<^verbatim>\<open>fromJson\<close> and \<^verbatim>\<open>toJson\<close> promise each other: the type of a converted value, the
  round trips for the value shapes the bridge defines itself, the width of enum storage.
\<close>

text \<open>Documented: these meta-types are no pointers, enums or gadgets.\<close>

definition plain_type :: "('w, 'o) qt \<Rightarrow> metatype \<Rightarrow> bool" where
  "plain_type Q t \<longleftrightarrow> \<not> mt_isPointer Q t \<and> \<not> mt_isEnum Q t \<and> \<not> mt_isGadget Q t"

text \<open>Documented of \<^verbatim>\<open>QVariant::convert\<close>: on success the variant has the target type.\<close>

definition convert_ok :: "('w, 'o) qt \<Rightarrow> bool" where
  "convert_ok Q \<longleftrightarrow> (\<forall>v t v'. v_convert Q v t = (True, v') \<longrightarrow> variant_type v' = t)"

definition geometry_types :: "metatype list" where
  "geometry_types = [MtQPoint, MtQPointF, MtQSize, MtQSizeF, MtQRect, MtQRectF, MtQMargins, MtQMarginsF, MtQLine, MtQLineF]"

text \<open>A geometry value as Qt can hold it: the right number of fields, finite reals.\<close>

fun geometry_value :: "'o qvariant \<Rightarrow> bool" where
  "geometry_value (VInts t xs) \<longleftrightarrow> t \<in> set geometry_types \<and> geometry_integral t \<and> length xs = length (geometry_fields t)"
| "geometry_value (VReals t xs) \<longleftrightarrow> t \<in> set geometry_types \<and> \<not> geometry_integral t
     \<and> length xs = length (geometry_fields t) \<and> list_all dbl_isfinite xs"
| "geometry_value _ \<longleftrightarrow> False"

lemma fromJson_type:
  assumes "convert_ok Q" "fromJson Q st v t = Inr x" "t \<noteq> MtQVariant"
  shows "variant_type x = t"
  using assms
  by (auto simp: fromJson_def convert_ok_def Let_def split: if_splits sum.splits prod.splits)

lemma geometry_json_zip:
  assumes "t \<in> set geometry_types" "length xs = length (geometry_fields t)"
  shows "geometry_json t xs = Some (jobj (zip (geometry_fields t) (map JDouble xs)))"
proof -
  from assms have "length xs = 2 \<or> length xs = 4" by (auto simp: geometry_types_def)
  then obtain a b c d where "xs = [a, b] \<or> xs = [a, b, c, d]"
    by (auto simp: length_Suc_conv eval_nat_numeral)
  with assms show ?thesis
    by (auto simp: geometry_types_def geometry_json2_def geometry_json4_def json_object_defs)
qed

lemma geometry_fields_distinct: "distinct (geometry_fields t)"
  by (cases t) simp_all

lemma read_fields_zip:
  assumes "distinct ks" "length js = length ks"
    "\<And>k j x. f (toObject (jobj (zip ks js))) k = Inr x \<longleftrightarrow> P (jvalue (toObject (jobj (zip ks js))) k) x"
    "list_all2 P js xs"
  shows "read_fields f (toObject (jobj (zip ks js))) ks = Inr xs"
proof -
  define obj where "obj = toObject (jobj (zip ks js))"
  have val: "jvalue obj (ks ! i) = js ! i" if "i < length ks" for i
  proof -
    have "distinct (map fst (zip ks js))" using assms(1,2) by simp
    then have "map_of (rev (zip ks js)) (ks ! i) = map_of (zip ks js) (ks ! i)"
      by (metis distinct_rev map_of_inject_set rev_map set_rev)
    also have "\<dots> = Some (js ! i)" using assms(1,2) that by (simp add: map_of_zip_nth)
    finally show ?thesis by (simp add: obj_def)
  qed
  have gen: "(\<forall>i<length ks'. P (jvalue obj (ks' ! i)) (xs' ! i)) \<Longrightarrow> length xs' = length ks' \<Longrightarrow> read_fields f obj ks' = Inr xs'"
    for ks' xs'
  proof (induction ks' arbitrary: xs')
    case (Cons k ks')
    then obtain x xr where xs': "xs' = x # xr" by (cases xs') auto
    with Cons.prems(1) have "f obj k = Inr x" using assms(3) by (auto simp: obj_def dest!: spec [of _ 0])
    moreover have "P (jvalue obj (ks' ! i)) (xr ! i)" if "i < length ks'" for i
      using Cons.prems(1) that by (auto simp: xs' dest: spec [of _ "Suc i"])
    then have "read_fields f obj ks' = Inr xr"
      using Cons.prems(2) xs' by (intro Cons.IH) auto
    ultimately show ?case by (simp add: xs')
  qed simp
  show ?thesis
    unfolding obj_def [symmetric]
    using assms(2,4) val by (intro gen) (auto simp: list_all2_conv_all_nth)
qed

lemma read_geometry_json:
  assumes "geometry_value v" "variant_type v = t"
  shows "\<exists>j. toJson_plain Q v = Some j \<and> isObject j \<and> \<not> jcontains (toObject j) ''value_id'' \<and> read_geometry (toObject j) t = Inr v"
proof (cases v)
  case (VInts u xs)
  with assms have t: "t \<in> set geometry_types" "geometry_integral t" "length xs = length (geometry_fields t)" "v = VInts t xs"
    by auto
  define js where "js = map JDouble (map (\<lambda>i. DFin (of_int (sint i))) xs)"
  have j: "toJson_plain Q v = Some (jobj (zip (geometry_fields t) js))"
    using geometry_json_zip [OF t(1)] t(3,4) by (simp add: js_def)
  have "read_fields readInteger (toObject (jobj (zip (geometry_fields t) js))) (geometry_fields t) = Inr xs"
    by (rule read_fields_zip [where P = "\<lambda>j n. j = JDouble (DFin (of_int (sint n)))", OF geometry_fields_distinct])
       (auto simp: js_def t(3) readInteger_iff list_all2_conv_all_nth)
  moreover have "''value_id'' \<notin> set (geometry_fields t)" using t(1) by (auto simp: geometry_types_def)
  then have "map_of (rev (zip (geometry_fields t) js)) ''value_id'' = None"
    by (auto simp: map_of_eq_None_iff dest: set_zip_leftD)
  ultimately show ?thesis using t j by (simp add: read_geometry_def)
next
  case (VReals u xs)
  with assms have t: "t \<in> set geometry_types" "\<not> geometry_integral t" "length xs = length (geometry_fields t)"
    "list_all dbl_isfinite xs" "v = VReals t xs"
    by auto
  define js where "js = map JDouble xs"
  have j: "toJson_plain Q v = Some (jobj (zip (geometry_fields t) js))"
    using geometry_json_zip [OF t(1)] t(3,5) by (simp add: js_def)
  have "read_fields readNumber (toObject (jobj (zip (geometry_fields t) js))) (geometry_fields t) = Inr xs"
    by (rule read_fields_zip [where P = "\<lambda>j d. j = JDouble d \<and> dbl_isfinite d", OF geometry_fields_distinct])
       (use t(4) in \<open>auto simp: js_def t(3) readNumber_iff list_all2_conv_all_nth list_all_length\<close>)
  moreover have "''value_id'' \<notin> set (geometry_fields t)" using t(1) by (auto simp: geometry_types_def)
  then have "map_of (rev (zip (geometry_fields t) js)) ''value_id'' = None"
    by (auto simp: map_of_eq_None_iff dest: set_zip_leftD)
  ultimately show ?thesis using t j by (simp add: read_geometry_def)
qed (use assms in auto)

end
