(* ===== verification/Reflection.thy ===== *)
theory Reflection
  imports Registry_Steps Conversion_Laws
begin

text \<open>
  Reflective calls through Qt's meta-object system: \<^verbatim>\<open>buildArguments\<close>, \<^verbatim>\<open>metaInherits\<close>,
  \<^verbatim>\<open>constructInvokable\<close> (qt6\_bridge.cpp), \<^verbatim>\<open>invokeMethod\<close>, \<^verbatim>\<open>setProperty\<close> and
  \<^verbatim>\<open>metaObjectDescription\<close>. A \<open>bool\<close> result with an error out-parameter is
  a sum; the empty error text is \<open>Raw []\<close>.
\<close>

text \<open>
  The conversion loop. \<^verbatim>\<open>fromJson\<close> reports an error together with an invalid variant; an invalid
  variant ends the loop unless the parameter is a nullptr or a QVariant.
\<close>

fun build_values :: "('w, 'o) qt \<Rightarrow> ('w, 'o) bridge \<Rightarrow> qmsg option \<Rightarrow> json list \<Rightarrow> metatype list \<Rightarrow> qmsg + 'o qvariant list" where
  "build_values Q st error (j # js) (t # ts) =
     (let (converted, error') = (case fromJson Q st j t of Inl e \<Rightarrow> (VInvalid, Some e) | Inr v \<Rightarrow> (v, error)) in
      if \<not> v_isValid converted \<and> t \<noteq> MtNullptr \<and> t \<noteq> MtQVariant then Inl (error_text error')
      else case build_values Q st error' js ts of Inl e \<Rightarrow> Inl e | Inr vs \<Rightarrow> Inr (converted # vs))"
| "build_values Q st error _ _ = Inr []"

definition buildArguments :: "('w, 'o) qt \<Rightarrow> ('w, 'o) bridge \<Rightarrow> json list \<Rightarrow> metatype list \<Rightarrow> qmsg + 'o qvariant list" where
  "buildArguments Q st jsonArguments types =
     (if length jsonArguments \<noteq> length types
      then Inl (Msg ''expected %1 argument(s), got %2'' [ANum (int (length types)), ANum (int (length jsonArguments))])
      else if length jsonArguments > kMaxInvocationArguments
      then Inl (Msg ''this reflective call supports at most 10 arguments'' [])
      else build_values Q st None jsonArguments types)"

fun metaInherits :: "metaobject \<Rightarrow> bytes \<Rightarrow> bool" where
  "metaInherits (MetaObject cn super ps ms es cs) className =
     (if cn = className then True
      else case super of None \<Rightarrow> False | Some parentClass \<Rightarrow> metaInherits parentClass className)"

abbreviation vobject :: "ptr \<Rightarrow> 'o qvariant" where
  "vobject p \<equiv> VPointer MtQObjectStar p"

definition widget_layout :: "('w, 'o) qt \<Rightarrow> 'w \<Rightarrow> ptr \<Rightarrow> ptr" where
  "widget_layout Q w p = pointer_of (qt_get Q ''QWidget::layout'' p [] w)"

definition is_node_class :: "metaobject \<Rightarrow> bool" where
  "is_node_class mo \<longleftrightarrow> metaInherits mo ''QNode'' \<or> metaInherits mo ''Qt3DCore::QNode''"

text \<open>The parent checks before any constructor is tried.\<close>

definition check_parent :: "('w, 'o) qt \<Rightarrow> 'w \<Rightarrow> metaobject \<Rightarrow> ptr \<Rightarrow> qmsg option" where
  "check_parent Q w mo parent =
     (if parent = nullptr then None
      else if metaInherits mo ''QWidget'' \<and> \<not> qobject_cast Q ''QWidget'' w parent
      then Some (Msg ''widget constructors require a QWidget parent'' [])
      else if metaInherits mo ''QWindow'' \<and> \<not> qobject_cast Q ''QWindow'' w parent
      then Some (Msg ''window constructors require a QWindow parent'' [])
      else if metaInherits mo ''QLayout'' \<and> \<not> qobject_cast Q ''QWidget'' w parent
      then Some (Msg ''layout constructors require a QWidget parent'' [])
      else if metaInherits mo ''QLayout'' \<and> widget_layout Q w parent \<noteq> nullptr
      then Some (Msg ''QWidget already has a layout'' [])
      else if is_node_class mo \<and> \<not> qobject_cast Q ''Qt3DCore::QNode'' w parent
      then Some (Msg ''Qt 3D constructors require a Qt3DCore.QNode parent'' [])
      else None)"

fun try_constructors ::
  "('w, 'o) qt \<Rightarrow> metaobject \<Rightarrow> json list \<Rightarrow> metamethod list \<Rightarrow> qstring list \<Rightarrow> ('w, 'o) bridge
     \<Rightarrow> (ptr \<times> qstring list) \<times> ('w, 'o) bridge" where
  "try_constructors Q mo args [] considered st = ((nullptr, considered), st)"
| "try_constructors Q mo args (c # cs) considered st =
     (if meth_access c \<noteq> AccPublic \<or> length (meth_paramMetaTypes c) \<noteq> length args
      then try_constructors Q mo args cs considered st
      else case buildArguments Q st args (meth_paramMetaTypes c) of
        Inl _ \<Rightarrow> try_constructors Q mo args cs considered st
      | Inr vs \<Rightarrow>
          let considered' = considered @ [qs (meth_signature c)];
              (created, w) = newInstance Q mo vs (world st);
              st' = set_world w st
          in if created = nullptr then try_constructors Q mo args cs considered' st'
             else ((created, considered'), st'))"

definition attach_created :: "('w, 'o) qt \<Rightarrow> metaobject \<Rightarrow> ptr \<Rightarrow> ptr \<Rightarrow> ('w, 'o) bridge \<Rightarrow> ('w, 'o) bridge" where
  "attach_created Q mo parent created st =
     (if parent = nullptr \<or> parent_of Q (world st) created \<noteq> nullptr then st
      else set_world
        (if metaInherits mo ''QWidget'' then snd (qt_call Q ''QWidget::setParent'' created [vobject parent] (world st))
         else if metaInherits mo ''QWindow'' then snd (qt_call Q ''QWindow::setParent'' created [vobject parent] (world st))
         else if metaInherits mo ''QLayout'' then snd (qt_call Q ''QWidget::setLayout'' parent [vobject created] (world st))
         else if is_node_class mo then snd (qt_call Q ''Qt3DCore::QNode::setParent'' created [vobject parent] (world st))
         else setParent Q created parent (world st)) st)"

fun join_with :: "'a list \<Rightarrow> 'a list list \<Rightarrow> 'a list" where
  "join_with sep [] = []"
| "join_with sep [x] = x"
| "join_with sep (x # xs) = x @ sep @ join_with sep xs"

definition constructInvokable ::
  "('w, 'o) qt \<Rightarrow> metaobject \<Rightarrow> ptr \<Rightarrow> json list \<Rightarrow> ('w, 'o) bridge \<Rightarrow> (qmsg + ptr) \<times> ('w, 'o) bridge" where
  "constructInvokable Q mo parent args st =
     (if length args > kMaxInvocationArguments
      then (Inl (Msg ''this reflective constructor supports at most 10 arguments'' []), st)
      else case check_parent Q (world st) mo parent of
        Some e \<Rightarrow> (Inl e, st)
      | None \<Rightarrow>
          let ((created, considered), st') = try_constructors Q mo args (mo_constructors mo) [] st in
          if created \<noteq> nullptr then (Inr created, attach_created Q mo parent created st')
          else (Inl (if considered = []
                     then Msg ''%1 exposes no public Q_INVOKABLE constructor with %2 compatible argument(s)''
                            [AStr (qs (mo_className mo)), ANum (int (length args))]
                     else Msg ''Qt could not construct %1 with the matching invokable constructor(s): %2''
                            [AStr (qs (mo_className mo)), AStr (join_with (qs '', '') considered)]), st'))"

text \<open>\<^verbatim>\<open>invokeMethod\<close> runs on an object or, with a null object, on a stored gadget value.\<close>

datatype call_target = OnObject ptr | OnGadget handle

definition has_return :: "metamethod \<Rightarrow> bool" where
  "has_return m \<longleftrightarrow> meth_returnType m \<noteq> MtInvalid \<and> meth_returnType m \<noteq> MtVoid"

definition run_method ::
  "('w, 'o) qt \<Rightarrow> metamethod \<Rightarrow> call_target \<Rightarrow> 'o qvariant list \<Rightarrow> ('w, 'o) bridge \<Rightarrow> (bool \<times> 'o qvariant) \<times> ('w, 'o) bridge" where
  "run_method Q m target vs st =
     (case target of
        OnObject p \<Rightarrow> (let (r, w) = meth_invoke Q m p vs (world st) in (r, set_world w st))
      | OnGadget oid \<Rightarrow>
          (case valueForId st oid of
             None \<Rightarrow> ((False, VInvalid), st)
           | Some v \<Rightarrow>
               (let ((ok, ret, v'), w) = meth_invokeOnGadget Q m v vs (world st) in
                ((ok, ret), store_value oid v' (set_world w st)))))"

definition method_for_signature :: "('w, 'o) qt \<Rightarrow> metaobject \<Rightarrow> qstring \<Rightarrow> qmsg + bytes \<times> metamethod" where
  "method_for_signature Q mo rawSignature =
     (if hasNul rawSignature then Inl (Msg ''method signature must not contain NUL characters'' [])
      else let signature = normalizedSignature Q (toUtf8 Q rawSignature) in
        if signature = [] then Inl (Msg ''method must use a normalized signature, for example setText(QString)'' [])
        else case findMethod Q mo signature of
          None \<Rightarrow> Inl (Msg ''method %1 is not exposed as a Qt slot or invokable method'' [AStr (qs signature)])
        | Some m \<Rightarrow>
            if meth_kind m = MkSignal \<or> meth_access m \<noteq> AccPublic
            then Inl (Msg ''only public non-signal methods can be invoked'' [])
            else Inr (signature, m))"

definition invokeMethod ::
  "('w, 'o) qt \<Rightarrow> ('w, 'o) gen \<Rightarrow> metaobject \<Rightarrow> call_target \<Rightarrow> qstring \<Rightarrow> json list \<Rightarrow> ('w, 'o) bridge
     \<Rightarrow> (qmsg + json) \<times> ('w, 'o) bridge" where
  "invokeMethod Q G mo target rawSignature args st =
     (case method_for_signature Q mo rawSignature of
        Inl e \<Rightarrow> (Inl e, st)
      | Inr (signature, m) \<Rightarrow>
          (case buildArguments Q st args (meth_paramMetaTypes m) of
             Inl e \<Rightarrow> (Inl e, st)
           | Inr vs \<Rightarrow>
               if has_return m \<and> \<not> v_isValid (v_default Q (meth_returnType m))
               then (Inl (Msg ''Qt cannot construct return type %1'' [AStr (mt_qname Q (meth_returnType m))]), st)
               else
                 (let ((invoked, ret), st') = run_method Q m target vs st in
                  if \<not> invoked then (Inl (Msg ''Qt rejected the method arguments for %1'' [AStr (qs signature)]), st')
                  else if has_return m then (let (j, st'') = toJson Q G ret st' in (Inr j, st''))
                  else (Inr JNull, st'))))"

definition setProperty :: "('w, 'o) qt \<Rightarrow> ptr \<Rightarrow> qstring \<Rightarrow> json \<Rightarrow> ('w, 'o) bridge \<Rightarrow> (qmsg + unit) \<times> ('w, 'o) bridge" where
  "setProperty Q object name jsonValue st =
     (if name = [] \<or> hasNul name
      then (Inl (Msg ''property name must be non-empty and contain no NUL character'' []), st)
      else case findProperty Q (metaObject_of Q (world st) object) (toUtf8 Q name) of
        None \<Rightarrow>
          (let key = toUtf8 Q name; w = dynamic_set Q object key (toVariant Q jsonValue) (world st) in
           if key \<in> set (dynamic_names Q w object) then (Inr (), set_world w st)
           else (Inl (Msg ''unknown Qt property %1'' [AStr name]), set_world w st))
      | Some property \<Rightarrow>
          if \<not> prop_writable property then (Inl (Msg ''Qt property %1 is read-only'' [AStr name]), st)
          else
            let (converted, error) =
                  (case fromJson Q st jsonValue (prop_type property) of Inl e \<Rightarrow> (VInvalid, Some e) | Inr v \<Rightarrow> (v, None))
            in if \<not> v_isValid converted \<and> prop_type property \<noteq> MtNullptr then (Inl (error_text error), st)
               else let (written, w) = prop_write Q property object converted (world st) in
                 if \<not> written then (Inl (Msg ''Qt rejected a value for property %1'' [AStr name]), set_world w st)
                 else (Inr (), set_world w st))"

definition property_json :: "('w, 'o) qt \<Rightarrow> metaproperty \<Rightarrow> json" where
  "property_json Q p =
     jobj [(''name'', JString (qs (prop_name p))), (''type'', JString (mt_qname Q (prop_type p))),
           (''readable'', JBool (prop_readable p)), (''writable'', JBool (prop_writable p)),
           (''designable'', JBool (prop_designable p)), (''stored'', JBool (prop_stored p))]"

fun kind_name :: "method_kind \<Rightarrow> string" where
  "kind_name MkSignal = ''signal''" | "kind_name MkSlot = ''slot''"
| "kind_name MkConstructor = ''constructor''" | "kind_name MkMethod = ''method''"

fun access_name :: "method_access \<Rightarrow> string" where
  "access_name AccPrivate = ''private''" | "access_name AccProtected = ''protected''" | "access_name AccPublic = ''public''"

definition invokable :: "metamethod \<Rightarrow> bool" where
  "invokable m \<longleftrightarrow> meth_valid m \<and> meth_kind m \<noteq> MkSignal \<and> meth_kind m \<noteq> MkConstructor \<and> meth_access m = AccPublic"

text \<open>\<^verbatim>\<open>parameterNames.value(p)\<close>: a missing name is empty.\<close>

definition parameter_json :: "bytes list \<Rightarrow> nat \<Rightarrow> bytes \<Rightarrow> json" where
  "parameter_json names p type =
     jobj [(''name'', JString (qs (if p < length names then names ! p else []))), (''type'', JString (qs type))]"

definition method_json :: "metamethod \<Rightarrow> json" where
  "method_json m =
     jobj [(''signature'', JString (qs (meth_signature m))), (''kind'', JString (qs (kind_name (meth_kind m)))),
           (''access'', JString (qs (access_name (meth_access m)))),
           (''return_type'', JString (qs (case meth_typeName m of None \<Rightarrow> ''void'' | Some n \<Rightarrow> n))),
           (''parameters'', JArray (map (\<lambda>(p, t). parameter_json (meth_paramNames m) p t)
                                       (zip [0..<length (meth_paramTypes m)] (meth_paramTypes m)))),
           (''invokable'', JBool (invokable m))]"

definition enum_keys_json :: "metaenum \<Rightarrow> json" where
  "enum_keys_json e = JObject (smap_of (map (\<lambda>(k, v). (qs k, jint (sint v))) (enum_keys e)))"

definition enumerator_json :: "metaenum \<Rightarrow> json" where
  "enumerator_json e =
     jobj [(''name'', JString (qs (enum_name e))), (''scope'', JString (qs (enum_scope e))),
           (''is_flag'', JBool (enum_isFlag e)), (''keys'', enum_keys_json e)]"

definition metaObjectDescription :: "('w, 'o) qt \<Rightarrow> metaobject \<Rightarrow> json" where
  "metaObjectDescription Q mo =
     jobj [(''class'', JString (qs (mo_className mo))),
           (''superclass'', case mo_superClass mo of None \<Rightarrow> JNull | Some s \<Rightarrow> JString (qs (mo_className s))),
           (''properties'', JArray (map (property_json Q) (mo_properties mo))),
           (''methods'', JArray (map method_json (mo_methods mo))),
           (''enumerators'', JArray (map enumerator_json (mo_enumerators mo)))]"

subsection \<open>What the argument builder guarantees\<close>

lemma build_values_types:
  assumes "convert_ok Q" "build_values Q st err js ts = Inr vs" "length js = length ts"
  shows "list_all2 (\<lambda>t v. t = MtNullptr \<or> t = MtQVariant \<or> variant_type v = t) ts vs"
  using assms
proof (induction Q st err js ts arbitrary: vs rule: build_values.induct)
  case (1 Q st err j js t ts)
  then show ?case
    by (auto simp: Let_def split: sum.splits prod.splits if_splits dest: fromJson_type)
qed auto

lemma buildArguments_Inr:
  assumes "buildArguments Q st js ts = Inr vs"
  shows "length js = length ts \<and> length js \<le> kMaxInvocationArguments \<and> build_values Q st None js ts = Inr vs"
  using assms by (auto simp: buildArguments_def split: if_splits)

subsection \<open>Registry steps\<close>

lemma try_constructors_reg_step:
  "try_constructors Q mo args cs considered st = (r, st') \<Longrightarrow> reg_step st st'"
proof (induction Q mo args cs considered st rule: try_constructors.induct)
  case (2 Q mo args c cs considered st)
  show ?case
  proof (cases "meth_access c \<noteq> AccPublic \<or> length (meth_paramMetaTypes c) \<noteq> length args")
    case True with 2 show ?thesis by auto
  next
    case False
    show ?thesis
    proof (cases "buildArguments Q st args (meth_paramMetaTypes c)")
      case (Inl e) with False 2 show ?thesis by auto
    next
      case (Inr vs)
      obtain p w where n: "newInstance Q mo vs (world st) = (p, w)" by force
      note IH = "2.IH"(3) [OF False Inr _ n [symmetric]]
      show ?thesis
      proof (cases "p = nullptr")
        case True
        with False Inr n "2.prems" have "try_constructors Q mo args cs (considered @ [qs (meth_signature c)]) (set_world w st) = (r, st')"
          by simp
        from IH [OF refl refl refl True this] show ?thesis by (auto intro: reg_step_trans [OF reg_step_set_world])
      next
        case False
        with Inr n "2.prems" \<open>\<not> (meth_access c \<noteq> AccPublic \<or> length (meth_paramMetaTypes c) \<noteq> length args)\<close>
        show ?thesis by auto
      qed
    qed
  qed
qed simp

lemma attach_created_reg_step [simp]: "reg_step st (attach_created Q mo parent created st)"
  by (simp add: attach_created_def)

lemma constructInvokable_reg_step: "constructInvokable Q mo parent args st = (r, st') \<Longrightarrow> reg_step st st'"
  by (auto simp: constructInvokable_def Let_def split: if_splits option.splits prod.splits
      dest: try_constructors_reg_step intro: reg_step_trans [OF try_constructors_reg_step attach_created_reg_step])

lemma run_method_reg_step: "run_method Q m target vs st = (r, st') \<Longrightarrow> reg_step st st'"
  by (auto simp: run_method_def split: call_target.splits option.splits prod.splits
      intro!: reg_step_trans [OF reg_step_set_world store_value_reg_step] simp: valueForId_def)

lemma invokeMethod_reg_step: "invokeMethod Q G mo target sig args st = (r, st') \<Longrightarrow> reg_step st st'"
  by (auto simp: invokeMethod_def Let_def split: if_splits sum.splits prod.splits
      dest: run_method_reg_step intro: reg_step_trans [OF run_method_reg_step toJson_reg_step])

lemma setProperty_reg_step: "setProperty Q p name j st = (r, st') \<Longrightarrow> reg_step st st'"
  by (auto simp: setProperty_def Let_def split: if_splits sum.splits prod.splits option.splits)

end
