(* ===== verification/Create_Object.thy ===== *)
theory Create_Object
  imports Reflection
begin

text \<open>
  \<^verbatim>\<open>createObject\<close> (qt6\_bridge.cpp), the constructor lookup behind the \<^verbatim>\<open>new\<close>
  operation, and \<^verbatim>\<open>adopt\<close>, which the generated constructors use to attach
  what they made. The explicit constructor chain is a table in source order; its three
  entries with their own argument checks follow as definitions.
\<close>

definition widgetClasses :: "string list" where
  "widgetClasses = [
     ''QWidget'', ''QMainWindow'', ''QPushButton'', ''QToolButton'', ''QLabel'', ''QLineEdit'', ''QTextEdit'',
     ''QPlainTextEdit'', ''QCheckBox'', ''QRadioButton'', ''QComboBox'', ''QSpinBox'', ''QDoubleSpinBox'',
     ''QSlider'', ''QScrollBar'', ''QDial'', ''QProgressBar'', ''QGroupBox'', ''QTabWidget'', ''QTabBar'',
     ''QStackedWidget'', ''QVBoxLayout'', ''QHBoxLayout'', ''QFormLayout'', ''QGridLayout'', ''QStatusBar'',
     ''QDialog'', ''QDialogButtonBox'', ''QCalendarWidget'', ''QDateEdit'', ''QDateTimeEdit'', ''QTimeEdit'',
     ''QLCDNumber'', ''QScrollArea'', ''QSplitter'', ''QTableWidget'', ''QTreeWidget'', ''QListWidget'',
     ''QTableView'', ''QTreeView'', ''QListView'', ''QGraphicsView'', ''QMdiArea'', ''QToolBar'', ''QMenuBar'',
     ''QMenu'', ''QFrame'', ''QDockWidget'', ''QAxWidget'', ''QWizard'', ''QWizardPage'', ''QFontComboBox'',
     ''QKeySequenceEdit'', ''QMessageBox'', ''QFileDialog'', ''QColorDialog'', ''QFontDialog'', ''QInputDialog'',
     ''QProgressDialog'', ''QCommandLinkButton'', ''QTextBrowser'', ''QUndoView'']"

text \<open>\<^verbatim>\<open>noArgs\<close> or \<^verbatim>\<open>optionalText\<close>; the flag tells whether the parent is \<^verbatim>\<open>widgetParent\<close> or \<^verbatim>\<open>parent\<close>.\<close>

datatype arg_shape = ShNone | ShText

type_synonym 'o explicit_entry = "string \<times> arg_shape \<times> bool \<times> (qstring \<Rightarrow> 'o qvariant list)"

definition explicit_widgets :: "'o explicit_entry list" where
  "explicit_widgets = [
     (''QWidget'', ShNone, True, \<lambda>text. []), (''QMainWindow'', ShNone, True, \<lambda>text. []),
     (''QPushButton'', ShText, True, \<lambda>text. [VString text]),
     (''QToolButton'', ShNone, True, \<lambda>text. []), (''QLabel'', ShText, True, \<lambda>text. [VString text]),
     (''QLineEdit'', ShText, True, \<lambda>text. [VString text]),
     (''QTextEdit'', ShText, True, \<lambda>text. [VString text]),
     (''QPlainTextEdit'', ShText, True, \<lambda>text. [VString text]),
     (''QCheckBox'', ShText, True, \<lambda>text. [VString text]),
     (''QRadioButton'', ShText, True, \<lambda>text. [VString text]),
     (''QComboBox'', ShNone, True, \<lambda>text. []), (''QSpinBox'', ShNone, True, \<lambda>text. []),
     (''QDoubleSpinBox'', ShNone, True, \<lambda>text. []), (''QSlider'', ShNone, True, \<lambda>text. [VInt 1]),
     (''QScrollBar'', ShNone, True, \<lambda>text. [VInt 2]), (''QDial'', ShNone, True, \<lambda>text. []),
     (''QProgressBar'', ShNone, True, \<lambda>text. []),
     (''QGroupBox'', ShText, True, \<lambda>text. [VString text]),
     (''QTabWidget'', ShNone, True, \<lambda>text. []), (''QTabBar'', ShNone, True, \<lambda>text. []),
     (''QStackedWidget'', ShNone, True, \<lambda>text. []), (''QVBoxLayout'', ShNone, True, \<lambda>text. []),
     (''QHBoxLayout'', ShNone, True, \<lambda>text. []), (''QFormLayout'', ShNone, True, \<lambda>text. []),
     (''QGridLayout'', ShNone, True, \<lambda>text. []), (''QStatusBar'', ShNone, True, \<lambda>text. []),
     (''QDialog'', ShNone, True, \<lambda>text. []), (''QDialogButtonBox'', ShNone, True, \<lambda>text. []),
     (''QCalendarWidget'', ShNone, True, \<lambda>text. []), (''QDateEdit'', ShNone, True, \<lambda>text. []),
     (''QDateTimeEdit'', ShNone, True, \<lambda>text. []), (''QTimeEdit'', ShNone, True, \<lambda>text. []),
     (''QLCDNumber'', ShNone, True, \<lambda>text. []), (''QScrollArea'', ShNone, True, \<lambda>text. []),
     (''QSplitter'', ShNone, True, \<lambda>text. [VInt 1]), (''QTableWidget'', ShNone, True, \<lambda>text. []),
     (''QTreeWidget'', ShNone, True, \<lambda>text. []), (''QListWidget'', ShNone, True, \<lambda>text. []),
     (''QTableView'', ShNone, True, \<lambda>text. []), (''QTreeView'', ShNone, True, \<lambda>text. []),
     (''QListView'', ShNone, True, \<lambda>text. []), (''QGraphicsView'', ShNone, True, \<lambda>text. []),
     (''QMdiArea'', ShNone, True, \<lambda>text. []), (''QToolBar'', ShText, True, \<lambda>text. [VString text]),
     (''QMenuBar'', ShNone, True, \<lambda>text. []), (''QMenu'', ShText, True, \<lambda>text. [VString text]),
     (''QFrame'', ShNone, True, \<lambda>text. []), (''QDockWidget'', ShText, True, \<lambda>text. [VString text]),
     (''QWizard'', ShNone, True, \<lambda>text. []), (''QWizardPage'', ShNone, True, \<lambda>text. []),
     (''QFontComboBox'', ShNone, True, \<lambda>text. []), (''QKeySequenceEdit'', ShNone, True, \<lambda>text. []),
     (''QMessageBox'', ShNone, True, \<lambda>text. []), (''QFileDialog'', ShNone, True, \<lambda>text. []),
     (''QColorDialog'', ShNone, True, \<lambda>text. []), (''QFontDialog'', ShNone, True, \<lambda>text. []),
     (''QInputDialog'', ShNone, True, \<lambda>text. []), (''QProgressDialog'', ShNone, True, \<lambda>text. [])]"

text \<open>Only in builds with \<^verbatim>\<open>KRY_QT6_HAS_AXCONTAINER\<close>.\<close>

definition explicit_activex :: "'o explicit_entry list" where
  "explicit_activex = [
     (''QAxObject'', ShText, False, \<lambda>text. [VString text]),
     (''QAxWidget'', ShText, True, \<lambda>text. [VString text])]"

definition explicit_objects :: "'o explicit_entry list" where
  "explicit_objects = [
     (''QCommandLinkButton'', ShText, True, \<lambda>text. [VString text, VString []]),
     (''QTimer'', ShNone, False, \<lambda>text. []), (''QAction'', ShText, False, \<lambda>text. [VString text]),
     (''QButtonGroup'', ShNone, False, \<lambda>text. []),
     (''QStringListModel'', ShNone, False, \<lambda>text. []),
     (''QStandardItemModel'', ShNone, False, \<lambda>text. []),
     (''QSortFilterProxyModel'', ShNone, False, \<lambda>text. []),
     (''QObject'', ShNone, False, \<lambda>text. []), (''QBuffer'', ShNone, False, \<lambda>text. []),
     (''QConcatenateTablesProxyModel'', ShNone, False, \<lambda>text. []),
     (''QEventLoop'', ShNone, False, \<lambda>text. []), (''QFile'', ShNone, False, \<lambda>text. []),
     (''QFile'', ShText, False, \<lambda>text. [VString text]),
     (''QFileSystemWatcher'', ShNone, False, \<lambda>text. []),
     (''QIdentityProxyModel'', ShNone, False, \<lambda>text. []),
     (''QItemSelectionModel'', ShNone, False, \<lambda>text. [vobject nullptr]),
     (''QLibrary'', ShNone, False, \<lambda>text. []),
     (''QLibrary'', ShText, False, \<lambda>text. [VString text]),
     (''QPluginLoader'', ShNone, False, \<lambda>text. []),
     (''QPluginLoader'', ShText, False, \<lambda>text. [VString text]),
     (''QProcess'', ShNone, False, \<lambda>text. []), (''QSaveFile'', ShNone, False, \<lambda>text. []),
     (''QSaveFile'', ShText, False, \<lambda>text. [VString text]),
     (''QSettings'', ShNone, False, \<lambda>text. []),
     (''QSettings'', ShText, False, \<lambda>text. [VString text, VString []]),
     (''QSignalMapper'', ShNone, False, \<lambda>text. []), (''QTemporaryFile'', ShNone, False, \<lambda>text. []),
     (''QTemporaryFile'', ShText, False, \<lambda>text. [VString text]),
     (''QThread'', ShNone, False, \<lambda>text. []), (''QThreadPool'', ShNone, False, \<lambda>text. []),
     (''QTranslator'', ShNone, False, \<lambda>text. []),
     (''QTransposeProxyModel'', ShNone, False, \<lambda>text. []), (''QMovie'', ShNone, False, \<lambda>text. []),
     (''QMovie'', ShText, False, \<lambda>text. [VString text, VByteArray []]),
     (''QShortcut'', ShNone, False, \<lambda>text. []), (''QTextDocument'', ShNone, False, \<lambda>text. []),
     (''QTextDocument'', ShText, False, \<lambda>text. [VString text]),
     (''QUndoGroup'', ShNone, False, \<lambda>text. []), (''QUndoStack'', ShNone, False, \<lambda>text. []),
     (''QGraphicsScene'', ShNone, False, \<lambda>text. []), (''QTextBrowser'', ShNone, True, \<lambda>text. []),
     (''QUndoView'', ShNone, True, \<lambda>text. [])]"

fun shape_matches :: "arg_shape \<Rightarrow> json list \<Rightarrow> bool" where
  "shape_matches ShNone args \<longleftrightarrow> args = []"
| "shape_matches ShText args \<longleftrightarrow> args = [] \<or> (length args = 1 \<and> isString (hd args))"

definition explicit_lookup :: "('w, 'o) gen \<Rightarrow> qstring \<Rightarrow> json list \<Rightarrow> 'o explicit_entry option" where
  "explicit_lookup G className args =
     List.find (\<lambda>(name, shape, _). className = qs name \<and> shape_matches shape args)
       (explicit_widgets @ (if has_axcontainer G then explicit_activex else []) @ explicit_objects)"

definition table_count :: "json \<Rightarrow> bool" where
  "table_count v \<longleftrightarrow>
     (let d = toDouble v in dbl_isfinite d \<and> dbl_integral d \<and> \<not> dbl_less d (DFin 0) \<and> \<not> dbl_less (DFin (of_int int_max)) d)"

text \<open>The entries that check their own arguments; \<open>None\<close> goes on with the chain.\<close>

definition special_new ::
  "('w, 'o) qt \<Rightarrow> qstring \<Rightarrow> json list \<Rightarrow> ptr \<Rightarrow> ptr \<Rightarrow> ('w, 'o) bridge \<Rightarrow> (qmsg + string \<times> 'o qvariant list \<times> ptr) option" where
  "special_new Q className args parent widgetParent st =
     (if className = qs ''QTableWidget'' \<and> length args = 2 \<and> isDouble (args ! 0) \<and> isDouble (args ! 1) then
        Some (if table_count (args ! 0) \<and> table_count (args ! 1)
              then Inr (''QTableWidget'', [VInt (word_of_int (dbl_trunc (toDouble (args ! 0)))),
                                           VInt (word_of_int (dbl_trunc (toDouble (args ! 1))))], widgetParent)
              else Inl (Msg ''QTableWidget row and column counts must be non-negative 32-bit integers'' []))
      else if className = qs ''QItemSelectionModel'' \<and> length args = 1 then
        Some (case objectArgument Q st args 0 of
                Inl e \<Rightarrow> Inl e
              | Inr model \<Rightarrow>
                  if \<not> qobject_cast Q ''QAbstractItemModel'' (world st) model
                  then Inl (Msg ''QItemSelectionModel expects a QAbstractItemModel handle'' [])
                  else Inr (''QItemSelectionModel'', [vobject model], parent))
      else if className = qs ''QSettings'' \<and> length args = 2 \<and> isString (args ! 0) \<and> isString (args ! 1) then
        Some (Inr (''QSettings'', [VString (toString (args ! 0)), VString (toString (args ! 1))], parent))
      else None)"

definition explicit_new ::
  "('w, 'o) qt \<Rightarrow> ('w, 'o) gen \<Rightarrow> qstring \<Rightarrow> json list \<Rightarrow> ptr \<Rightarrow> ptr \<Rightarrow> ('w, 'o) bridge
     \<Rightarrow> (qmsg + string \<times> 'o qvariant list \<times> ptr) option" where
  "explicit_new Q G className args parent widgetParent st =
     (case explicit_lookup G className args of
        Some (name, shape, onWidget, arguments) \<Rightarrow>
          Some (Inr (name, arguments (if args = [] then [] else toString (hd args)), if onWidget then widgetParent else parent))
      | None \<Rightarrow> special_new Q className args parent widgetParent st)"

text \<open>Module lookup and the ambiguity check.\<close>

definition resolve_class :: "('w, 'o) gen \<Rightarrow> qstring \<Rightarrow> qmsg + qstring \<times> qstring" where
  "resolve_class G requestedClassName =
     (let (moduleName, className) = split_qualified requestedClassName in
      if qch CHR ''.'' \<in> set requestedClassName then
        (if \<not> hasClass G requestedClassName \<and> \<not> hasArgumentConstructor G moduleName className
         then Inl (Msg ''Qt class %1 has no native constructor in this package'' [AStr requestedClassName])
         else Inr (moduleName, className))
      else
        (let availableModules = remdups
               (map (\<lambda>m. qs (m_name m)) (filter (\<lambda>m. module_has m className) (modules G))
                @ argumentConstructorModules G className)
         in if length availableModules > 1
            then Inl (Msg ''class %1 is ambiguous across Qt modules; use Module.%1'' [AStr className])
            else Inr (moduleName, className)))"

definition createsWidgetLayout :: "qstring \<Rightarrow> bool" where
  "createsWidgetLayout className \<longleftrightarrow>
     className \<in> {qs ''QVBoxLayout'', qs ''QHBoxLayout'', qs ''QFormLayout'', qs ''QGridLayout''}"

definition check_widget_parent :: "('w, 'o) qt \<Rightarrow> 'w \<Rightarrow> qstring \<Rightarrow> ptr \<Rightarrow> ptr \<Rightarrow> qmsg option" where
  "check_widget_parent Q w className parent widgetParent =
     (if parent \<noteq> nullptr \<and> className \<in> qs ` set widgetClasses \<and> widgetParent = nullptr
      then Some (Msg ''class %1 requires a QWidget parent'' [AStr className])
      else if createsWidgetLayout className \<and> widgetParent \<noteq> nullptr \<and> widget_layout Q w widgetParent \<noteq> nullptr
      then Some (Msg ''QWidget already has a layout'' [])
      else None)"

text \<open>After the explicit chain: the generated default constructors, the generated argument constructors, reflection.\<close>

definition construct_default ::
  "('w, 'o) gen \<Rightarrow> qstring \<Rightarrow> ptr \<Rightarrow> json list \<Rightarrow> ('w, 'o) bridge \<Rightarrow> (qmsg + ptr) option \<times> ('w, 'o) bridge" where
  "construct_default G requestedClassName parent args st =
     (if args \<noteq> [] then (None, st)
      else let ((generated, error), w) = construct G requestedClassName parent (world st) in
        (if generated \<noteq> nullptr then Some (Inr generated)
         else case error of Some e \<Rightarrow> Some (Inl e) | None \<Rightarrow> None, set_world w st))"

definition construct_reflective ::
  "('w, 'o) qt \<Rightarrow> ('w, 'o) gen \<Rightarrow> qstring \<Rightarrow> qstring \<Rightarrow> ptr \<Rightarrow> json list \<Rightarrow> qmsg option \<Rightarrow> ('w, 'o) bridge
     \<Rightarrow> (qmsg + ptr) \<times> ('w, 'o) bridge" where
  "construct_reflective Q G requestedClassName className parent args error st =
     (case (classMetaObject G requestedClassName, error) of
        (Inl e, _) \<Rightarrow> (Inl e, st)
      | (Inr _, Some e) \<Rightarrow> (Inl e, st)
      | (Inr None, None) \<Rightarrow> (Inl (Msg ''class %1 has no native constructor binding yet'' [AStr className]), st)
      | (Inr (Some mo), None) \<Rightarrow> constructInvokable Q mo parent args st)"

definition construct_generated ::
  "('w, 'o) qt \<Rightarrow> ('w, 'o) gen \<Rightarrow> qstring \<Rightarrow> qstring \<Rightarrow> qstring \<Rightarrow> ptr \<Rightarrow> json list \<Rightarrow> ('w, 'o) bridge
     \<Rightarrow> (qmsg + ptr) \<times> ('w, 'o) bridge" where
  "construct_generated Q G requestedClassName moduleName className parent args st =
     (case construct_default G requestedClassName parent args st of
        (Some r, st1) \<Rightarrow> (r, st1)
      | (None, st1) \<Rightarrow>
          (let (handled, generated, error, st2) = constructArguments G moduleName className parent args None st1 in
           if handled \<and> generated \<noteq> nullptr then (Inr generated, st2)
           else if handled \<and> error \<noteq> None then (Inl (error_text error), st2)
           else construct_reflective Q G requestedClassName className parent args error st2))"

definition createObject ::
  "('w, 'o) qt \<Rightarrow> ('w, 'o) gen \<Rightarrow> qstring \<Rightarrow> ptr \<Rightarrow> json list \<Rightarrow> ('w, 'o) bridge \<Rightarrow> (qmsg + ptr) \<times> ('w, 'o) bridge" where
  "createObject Q G requestedClassName parent args st =
     (case resolve_class G requestedClassName of
        Inl e \<Rightarrow> (Inl e, st)
      | Inr (moduleName, className) \<Rightarrow>
          let widgetParent = (if parent \<noteq> nullptr \<and> qobject_cast Q ''QWidget'' (world st) parent then parent else nullptr) in
          (case check_widget_parent Q (world st) className parent widgetParent of
             Some e \<Rightarrow> (Inl e, st)
           | None \<Rightarrow>
               (case (if moduleName = [] \<or> isExplicitConstructor moduleName className
                      then explicit_new Q G className args parent widgetParent st else None) of
                  Some (Inl e) \<Rightarrow> (Inl e, st)
                | Some (Inr (name, vs, owner)) \<Rightarrow>
                    (let (created, w) = qt_new Q name vs owner (world st) in (Inr created, set_world w st))
                | None \<Rightarrow> construct_generated Q G requestedClassName moduleName className parent args st)))"

definition adopt :: "('w, 'o) qt \<Rightarrow> ptr \<Rightarrow> ptr \<Rightarrow> 'w \<Rightarrow> (qmsg + ptr) \<times> 'w" where
  "adopt Q object parent w =
     (if object = nullptr \<or> parent = nullptr then (Inr object, w)
      else if qobject_cast Q ''QWidget'' w object then
        (if parent_of Q w object = parent then (Inr object, w)
         else if \<not> qobject_cast Q ''QWidget'' w parent
         then (Inl (Msg ''widget constructors require a QWidget parent'' []), w)
         else (Inr object, snd (qt_call Q ''QWidget::setParent'' object [vobject parent] w)))
      else if qobject_cast Q ''QWindow'' w object then
        (if parent_of Q w object = parent then (Inr object, w)
         else if \<not> qobject_cast Q ''QWindow'' w parent
         then (Inl (Msg ''window constructors require a QWindow parent'' []), w)
         else (Inr object, snd (qt_call Q ''QWindow::setParent'' object [vobject parent] w)))
      else if qobject_cast Q ''QLayout'' w object then
        (if \<not> qobject_cast Q ''QWidget'' w parent
         then (Inl (Msg ''layout constructors require a QWidget parent'' []), w)
         else if widget_layout Q w parent = object then (Inr object, w)
         else if widget_layout Q w parent \<noteq> nullptr then (Inl (Msg ''QWidget already has a layout'' []), w)
         else (Inr object, snd (qt_call Q ''QWidget::setLayout'' parent [vobject object] w)))
      else if qobject_cast Q ''Qt3DCore::QNode'' w object then
        (if parent_of Q w object = parent then (Inr object, w)
         else if \<not> qobject_cast Q ''Qt3DCore::QNode'' w parent
         then (Inl (Msg ''Qt 3D constructors require a Qt3DCore.QNode parent'' []), w)
         else (Inr object, snd (qt_call Q ''Qt3DCore::QNode::setParent'' object [vobject parent] w)))
      else
        (if parent_of Q w object = parent then (Inr object, w)
         else (Inr object, setParent Q object parent w)))"

subsection \<open>Facts\<close>

lemma construct_default_reg_step: "construct_default G c p args st = (r, st') \<Longrightarrow> reg_step st st'"
  by (auto simp: construct_default_def Let_def split: if_splits prod.splits)

lemma construct_reflective_reg_step: "construct_reflective Q G c n p args e st = (r, st') \<Longrightarrow> reg_step st st'"
  by (auto simp: construct_reflective_def split: sum.splits option.splits dest: constructInvokable_reg_step)

lemma construct_generated_reg_step:
  assumes "gen_ok G" "construct_generated Q G rc m c p args st = (r, st')"
  shows "reg_step st st'"
proof -
  obtain d st1 where d: "construct_default G rc p args st = (d, st1)" by force
  obtain h g e st2 where a: "constructArguments G m c p args None st1 = (h, g, e, st2)" by (cases "constructArguments G m c p args None st1") auto
  have 1: "reg_step st st1" by (rule construct_default_reg_step [OF d])
  have 2: "reg_step st st2" using 1 constructArguments_reg_step [OF assms(1) a] by (rule reg_step_trans)
  show ?thesis
  proof (cases d)
    case (Some r') then show ?thesis using 1 d assms(2) by (simp add: construct_generated_def)
  next
    case None
    then show ?thesis
      using 2 d a assms(2)
      by (auto simp: construct_generated_def split: if_splits dest: construct_reflective_reg_step intro: reg_step_trans)
  qed
qed

lemma createObject_reg_step:
  assumes "gen_ok G" "createObject Q G rc p args st = (r, st')"
  shows "reg_step st st'"
  using assms construct_generated_reg_step [OF assms(1)]
  by (auto simp: createObject_def Let_def split: sum.splits prod.splits option.splits if_splits)

text \<open>Documented of C++: \<^verbatim>\<open>new\<close> does not return null.\<close>

definition new_ok :: "('w, 'o) qt \<Rightarrow> bool" where
  "new_ok Q \<longleftrightarrow> (\<forall>c vs p w. fst (qt_new Q c vs p w) \<noteq> nullptr)"

lemma constructInvokable_nonnull: "constructInvokable Q mo p args st = (Inr q, st') \<Longrightarrow> q \<noteq> nullptr"
  by (auto simp: constructInvokable_def Let_def split: if_splits option.splits prod.splits)

lemma construct_generated_nonnull: "construct_generated Q G rc m c p args st = (Inr q, st') \<Longrightarrow> q \<noteq> nullptr"
  by (auto simp: construct_generated_def construct_default_def construct_reflective_def Let_def
      split: if_splits option.splits prod.splits sum.splits dest: constructInvokable_nonnull)

lemma new_okD: "new_ok Q \<Longrightarrow> qt_new Q c vs p w = (q, w') \<Longrightarrow> q \<noteq> nullptr"
  unfolding new_ok_def by (metis fst_conv)

lemma createObject_nonnull:
  "new_ok Q \<Longrightarrow> createObject Q G rc p args st = (Inr q, st') \<Longrightarrow> q \<noteq> nullptr"
  by (auto simp: createObject_def Let_def split: sum.splits prod.splits option.splits if_splits
      dest: construct_generated_nonnull new_okD)

end
