(* ===== verification/Call_Support.thy ===== *)
theory Call_Support
  imports Create_Object
begin

text \<open>
  Idioms of the \<^verbatim>\<open>call\<close> operation (qt6\_bridge.cpp): each hand-written binding
  checks the class and the signature, then the arguments, then calls Qt. A binding is a
  function to \<open>option\<close>: \<open>None\<close> when its condition does not hold and the next one is tried.
\<close>

type_synonym ('w, 'o) outcome = "reply \<times> ('w, 'o) bridge"

text \<open>\<^verbatim>\<open>QJsonValue(x)\<close> for the scalar C++ types; \<^verbatim>\<open>static_cast<double>\<close> for the 64-bit ones.\<close>

fun scalar_json :: "'o qvariant \<Rightarrow> json" where
  "scalar_json (VBool b) = JBool b"
| "scalar_json (VInt n) = jint (sint n)"
| "scalar_json (VUInt n) = jint (uint n)"
| "scalar_json (VLongLong n) = jint (sint n)"
| "scalar_json (VULongLong n) = jint (uint n)"
| "scalar_json (VDouble d) = JDouble d"
| "scalar_json (VString s) = JString s"
| "scalar_json (VStringList ss) = JArray (map JString ss)"
| "scalar_json _ = JNull"

fun bool_of :: "'o qvariant \<Rightarrow> bool" where
  "bool_of (VBool b) = b"
| "bool_of _ = False"

fun int_of_variant :: "'o qvariant \<Rightarrow> int" where
  "int_of_variant (VInt n) = sint n"
| "int_of_variant (VLongLong n) = sint n"
| "int_of_variant _ = 0"

fun text_of :: "'o qvariant \<Rightarrow> qstring" where
  "text_of (VString s) = s"
| "text_of _ = []"

definition fail :: "string \<Rightarrow> ('w, 'o) bridge \<Rightarrow> ('w, 'o) outcome" where
  "fail m st = (failure (Msg m []), st)"

text \<open>\<^verbatim>\<open>if (!condition) return failure(message);\<close>\<close>

definition need :: "bool \<Rightarrow> string \<Rightarrow> ('w, 'o) bridge \<Rightarrow> ('w, 'o) outcome \<Rightarrow> ('w, 'o) outcome" where
  "need condition m st k = (if condition then k else fail m st)"

text \<open>\<^verbatim>\<open>object->f(args)\<close> as a statement, as a const getter, and with its result.\<close>

definition effect :: "('w, 'o) qt \<Rightarrow> string \<Rightarrow> ptr \<Rightarrow> 'o qvariant list \<Rightarrow> ('w, 'o) bridge \<Rightarrow> 'o qvariant \<times> ('w, 'o) bridge" where
  "effect Q f p vs st = (let (r, w) = qt_call Q f p vs (world st) in (r, set_world w st))"

definition void_reply :: "('w, 'o) qt \<Rightarrow> string \<Rightarrow> ptr \<Rightarrow> 'o qvariant list \<Rightarrow> ('w, 'o) bridge \<Rightarrow> ('w, 'o) outcome" where
  "void_reply Q f p vs st = (let (r, st') = effect Q f p vs st in (success JNull, st'))"

definition scalar_reply :: "('w, 'o) qt \<Rightarrow> string \<Rightarrow> ptr \<Rightarrow> 'o qvariant list \<Rightarrow> ('w, 'o) bridge \<Rightarrow> ('w, 'o) outcome" where
  "scalar_reply Q f p vs st = (let (r, st') = effect Q f p vs st in (success (scalar_json r), st'))"

definition value_reply :: "('w, 'o) qt \<Rightarrow> ('w, 'o) gen \<Rightarrow> string \<Rightarrow> ptr \<Rightarrow> 'o qvariant list \<Rightarrow> ('w, 'o) bridge \<Rightarrow> ('w, 'o) outcome" where
  "value_reply Q G f p vs st =
     (let (r, st1) = effect Q f p vs st; (j, st2) = toJson Q G r st1 in (success j, st2))"

definition handle_reply :: "('w, 'o) qt \<Rightarrow> string \<Rightarrow> ptr \<Rightarrow> 'o qvariant list \<Rightarrow> ('w, 'o) bridge \<Rightarrow> ('w, 'o) outcome" where
  "handle_reply Q f p vs st =
     (let (r, st1) = effect Q f p vs st; (j, st2) = objectHandleValue Q (pointer_of r) st1 in (success j, st2))"

text \<open>\<^verbatim>\<open>if (!object->f(args)) return failure(...); return success(QJsonValue(true));\<close>\<close>

definition checked_reply :: "('w, 'o) qt \<Rightarrow> string \<Rightarrow> ptr \<Rightarrow> 'o qvariant list \<Rightarrow> ('w \<Rightarrow> qmsg) \<Rightarrow> ('w, 'o) bridge \<Rightarrow> ('w, 'o) outcome" where
  "checked_reply Q f p vs err st =
     (let (r, st') = effect Q f p vs st in
      if \<not> bool_of r then (failure (err (world st')), st') else (success (JBool True), st'))"

definition get_scalar :: "('w, 'o) qt \<Rightarrow> string \<Rightarrow> ptr \<Rightarrow> 'o qvariant list \<Rightarrow> ('w, 'o) bridge \<Rightarrow> ('w, 'o) outcome" where
  "get_scalar Q f p vs st = (success (scalar_json (qt_get Q f p vs (world st))), st)"

definition get_value :: "('w, 'o) qt \<Rightarrow> ('w, 'o) gen \<Rightarrow> string \<Rightarrow> ptr \<Rightarrow> 'o qvariant list \<Rightarrow> ('w, 'o) bridge \<Rightarrow> ('w, 'o) outcome" where
  "get_value Q G f p vs st = (let (j, st') = toJson Q G (qt_get Q f p vs (world st)) st in (success j, st'))"

text \<open>\<^verbatim>\<open>fromJson(..., &error); if (!value.isValid()) return failure(error);\<close>\<close>

definition with_value ::
  "('w, 'o) qt \<Rightarrow> ('w, 'o) bridge \<Rightarrow> json \<Rightarrow> metatype \<Rightarrow> ('o qvariant \<Rightarrow> ('w, 'o) outcome) \<Rightarrow> ('w, 'o) outcome" where
  "with_value Q st j t k =
     (case fromJson Q st j t of
        Inl e \<Rightarrow> (failure e, st)
      | Inr v \<Rightarrow> if \<not> v_isValid v then (failure (Raw []), st) else k v)"

text \<open>\<^verbatim>\<open>qobject_cast<T *>(objectArgument(args, index, &error))\<close> with its two failures.\<close>

definition with_object ::
  "('w, 'o) qt \<Rightarrow> ('w, 'o) bridge \<Rightarrow> json list \<Rightarrow> nat \<Rightarrow> string \<Rightarrow> string \<Rightarrow> (ptr \<Rightarrow> ('w, 'o) outcome) \<Rightarrow> ('w, 'o) outcome" where
  "with_object Q st args index cls m k =
     (case objectArgument Q st args index of
        Inl e \<Rightarrow> (failure e, st)
      | Inr p \<Rightarrow> if \<not> qobject_cast Q cls (world st) p then fail m st else k p)"

text \<open>The older form: \<^verbatim>\<open>parseObjectId\<close> on the field, \<^verbatim>\<open>objectForId\<close>, one message for both.\<close>

definition with_child ::
  "('w, 'o) qt \<Rightarrow> ('w, 'o) bridge \<Rightarrow> json \<Rightarrow> string \<Rightarrow> string \<Rightarrow> (ptr \<Rightarrow> ('w, 'o) outcome) \<Rightarrow> ('w, 'o) outcome" where
  "with_child Q st v cls m k =
     (case parseObjectId (jvalue (toObject v) ''object_id'') of
        Inl e \<Rightarrow> (failure e, st)
      | Inr oid \<Rightarrow>
          let p = objectForId Q st oid in
          if p = nullptr \<or> \<not> qobject_cast Q cls (world st) p then fail m st else k p)"

text \<open>\<^verbatim>\<open>args.size() != n || !integerArgument(0, ...) || ...\<close>: all n arguments are 32-bit integers.\<close>

definition int_args :: "json list \<Rightarrow> nat list \<Rightarrow> i32 list option" where
  "int_args args is = those (map (integerArgument args) is)"

definition one_string :: "json list \<Rightarrow> bool" where
  "one_string args \<longleftrightarrow> length args = 1 \<and> isString (hd args)"

fun orelse :: "'a option \<Rightarrow> 'a option \<Rightarrow> 'a option" where
  "orelse (Some x) y = Some x"
| "orelse None y = y"

subsection \<open>The idioms are registry steps\<close>

named_theorems call_steps \<open>the outcome of a binding is a registry step\<close>

definition ostep :: "('w, 'o) bridge \<Rightarrow> ('w, 'o) outcome \<Rightarrow> bool" where
  "ostep st out \<longleftrightarrow> reg_step st (snd out)"

lemma ostep_same [call_steps]: "ostep st (r, st)"
  by (simp add: ostep_def)

lemma ostep_trans: "reg_step st st1 \<Longrightarrow> ostep st1 out \<Longrightarrow> ostep st out"
  by (auto simp: ostep_def intro: reg_step_trans)

lemma fail_step [call_steps]: "ostep st (fail m st)"
  by (simp add: fail_def ostep_def)

lemma need_step [call_steps]: "(c \<Longrightarrow> ostep st k) \<Longrightarrow> ostep st (need c m st k)"
  by (simp add: need_def fail_step)

lemma effect_reg_step: "effect Q f p vs st = (r, st') \<Longrightarrow> reg_step st st'"
  by (auto simp: effect_def split: prod.splits)

lemma void_reply_step [call_steps]: "ostep st (void_reply Q f p vs st)"
  by (auto simp: void_reply_def ostep_def split: prod.splits dest: effect_reg_step)

lemma scalar_reply_step [call_steps]: "ostep st (scalar_reply Q f p vs st)"
  by (auto simp: scalar_reply_def ostep_def split: prod.splits dest: effect_reg_step)

lemma checked_reply_step [call_steps]: "ostep st (checked_reply Q f p vs e st)"
  by (auto simp: checked_reply_def ostep_def split: prod.splits dest: effect_reg_step)

lemma value_reply_step [call_steps]: "ostep st (value_reply Q G f p vs st)"
  by (auto simp: value_reply_def ostep_def split: prod.splits
      intro: reg_step_trans [OF effect_reg_step toJson_reg_step])

lemma handle_reply_step [call_steps]: "ostep st (handle_reply Q f p vs st)"
  by (auto simp: handle_reply_def ostep_def split: prod.splits
      intro: reg_step_trans [OF effect_reg_step objectHandleValue_reg_step])

lemma get_scalar_step [call_steps]: "ostep st (get_scalar Q f p vs st)"
  by (simp add: get_scalar_def ostep_def)

lemma get_value_step [call_steps]: "ostep st (get_value Q G f p vs st)"
  by (auto simp: get_value_def ostep_def split: prod.splits dest: toJson_reg_step)

lemma with_value_step [call_steps]: "(\<And>v. ostep st (k v)) \<Longrightarrow> ostep st (with_value Q st j t k)"
  by (auto simp: with_value_def ostep_def split: sum.splits)

lemma with_object_step [call_steps]: "(\<And>p. ostep st (k p)) \<Longrightarrow> ostep st (with_object Q st args i cls m k)"
  by (auto simp: with_object_def fail_def ostep_def split: sum.splits)

lemma with_child_step [call_steps]: "(\<And>p. ostep st (k p)) \<Longrightarrow> ostep st (with_child Q st v cls m k)"
  by (auto simp: with_child_def fail_def ostep_def Let_def split: sum.splits)

lemma ints_step [call_steps]:
  "ostep st a \<Longrightarrow> (\<And>ns. ostep st (b ns)) \<Longrightarrow> ostep st (case x of None \<Rightarrow> a | Some ns \<Rightarrow> b ns)"
  by (cases x) auto

lemma if_step [call_steps]: "ostep st a \<Longrightarrow> ostep st b \<Longrightarrow> ostep st (if c then a else b)"
  by simp

text \<open>A group of bindings: every outcome it can produce is a registry step.\<close>

definition group_step :: "('w, 'o) bridge \<Rightarrow> ('w, 'o) outcome option \<Rightarrow> bool" where
  "group_step st r \<longleftrightarrow> (case r of None \<Rightarrow> True | Some out \<Rightarrow> ostep st out)"

lemma group_none [call_steps]: "group_step st None"
  by (simp add: group_step_def)

lemma group_some [call_steps]: "ostep st out \<Longrightarrow> group_step st (Some out)"
  by (simp add: group_step_def)

lemma group_if [call_steps]: "group_step st a \<Longrightarrow> group_step st b \<Longrightarrow> group_step st (if c then a else b)"
  by simp

lemma group_orelse [call_steps]: "group_step st a \<Longrightarrow> group_step st b \<Longrightarrow> group_step st (orelse a b)"
  by (cases a) (simp_all add: group_step_def)

end
