(* ===== verification/Call_Widgets.thy ===== *)
theory Call_Widgets
  imports Call_Support
begin

text \<open>
  Hand-written bindings of the \<^verbatim>\<open>call\<close> operation, first half (qt6\_bridge.cpp):
  widget geometry, ActiveX, the network classes, devices, settings, file watchers and processes.
\<close>

definition call_geometry_setters ::
  "('w, 'o) qt \<Rightarrow> ptr \<Rightarrow> qstring \<Rightarrow> json list \<Rightarrow> ('w, 'o) bridge \<Rightarrow> ('w, 'o) outcome option" where
  "call_geometry_setters Q object signature args st =
     (let widget = qobject_cast Q ''QWidget'' (world st) object; sig = (\<lambda>s. signature = qs s) in
      if widget \<and> (sig ''move(int,int)'' \<or> sig ''resize(int,int)'') then
        Some (need (length args = 2) ''QWidget move/resize expects two 32-bit integers'' st
          (case int_args args [0, 1] of
             None \<Rightarrow> fail ''QWidget move/resize expects two 32-bit integers'' st
           | Some ns \<Rightarrow> void_reply Q (if sig ''move(int,int)'' then ''QWidget::move'' else ''QWidget::resize'') object (map VInt ns) st))
      else if widget \<and> (sig ''move(QPoint)'' \<or> sig ''resize(QSize)'') then
        Some (need (length args = 1) ''QWidget move/resize expects one Qt geometry value'' st
          (if sig ''move(QPoint)'' then with_value Q st (hd args) MtQPoint (\<lambda>v. void_reply Q ''QWidget::move'' object [v] st)
           else with_value Q st (hd args) MtQSize (\<lambda>v. void_reply Q ''QWidget::resize'' object [v] st)))
      else if widget \<and> sig ''setGeometry(int,int,int,int)'' then
        Some (need (length args = 4) ''QWidget setGeometry expects four 32-bit integers'' st
          (case int_args args [0, 1, 2, 3] of
             None \<Rightarrow> fail ''QWidget setGeometry expects four 32-bit integers'' st
           | Some ns \<Rightarrow> void_reply Q ''QWidget::setGeometry'' object (map VInt ns) st))
      else if widget \<and> (sig ''setGeometry(QRect)'' \<or> sig ''setMinimumSize(QSize)'' \<or> sig ''setMaximumSize(QSize)''
                        \<or> sig ''setFixedSize(QSize)'') then
        Some (need (length args = 1) ''QWidget geometry setter expects one Qt geometry value'' st
          (if sig ''setGeometry(QRect)'' then with_value Q st (hd args) MtQRect (\<lambda>v. void_reply Q ''QWidget::setGeometry'' object [v] st)
           else with_value Q st (hd args) MtQSize
             (\<lambda>v. void_reply Q (if sig ''setMinimumSize(QSize)'' then ''QWidget::setMinimumSize''
                                else if sig ''setMaximumSize(QSize)'' then ''QWidget::setMaximumSize''
                                else ''QWidget::setFixedSize'') object [v] st)))
      else if widget \<and> (sig ''setMinimumSize(int,int)'' \<or> sig ''setMaximumSize(int,int)'' \<or> sig ''setFixedSize(int,int)'') then
        Some (need (length args = 2) ''QWidget size setter expects two 32-bit integers'' st
          (case int_args args [0, 1] of
             None \<Rightarrow> fail ''QWidget size setter expects two 32-bit integers'' st
           | Some ns \<Rightarrow> void_reply Q (if sig ''setMinimumSize(int,int)'' then ''QWidget::setMinimumSize''
                                      else if sig ''setMaximumSize(int,int)'' then ''QWidget::setMaximumSize''
                                      else ''QWidget::setFixedSize'') object (map VInt ns) st))
      else None)"

text \<open>\<^verbatim>\<open>width()\<close> and \<^verbatim>\<open>height()\<close> answer numbers, the others geometry objects.\<close>

definition geometry_getters :: "(string \<times> string) list" where
  "geometry_getters = [(''size()'', ''QWidget::size''), (''pos()'', ''QWidget::pos''), (''geometry()'', ''QWidget::geometry''),
     (''frameGeometry()'', ''QWidget::frameGeometry''), (''frameSize()'', ''QWidget::frameSize''),
     (''minimumSize()'', ''QWidget::minimumSize''), (''maximumSize()'', ''QWidget::maximumSize''),
     (''contentsRect()'', ''QWidget::contentsRect'')]"

definition call_geometry_getters ::
  "('w, 'o) qt \<Rightarrow> ('w, 'o) gen \<Rightarrow> ptr \<Rightarrow> qstring \<Rightarrow> json list \<Rightarrow> ('w, 'o) bridge \<Rightarrow> ('w, 'o) outcome option" where
  "call_geometry_getters Q G object signature args st =
     (let widget = qobject_cast Q ''QWidget'' (world st) object; sig = (\<lambda>s. signature = qs s) in
      if widget \<and> (sig ''width()'' \<or> sig ''height()'') then
        Some (need (args = []) ''QWidget geometry getter takes no arguments'' st
          (get_scalar Q (if sig ''width()'' then ''QWidget::width'' else ''QWidget::height'') object [] st))
      else case (if widget then List.find (\<lambda>(s, _). sig s) geometry_getters else None) of
        Some (_, getter) \<Rightarrow>
          Some (need (args = []) ''QWidget geometry getter takes no arguments'' st (get_value Q G getter object [] st))
      | None \<Rightarrow>
          if widget \<and> sig ''window()'' then
            Some (need (args = []) ''QWidget window() takes no arguments'' st
              (let (j, st') = objectHandleValue Q (pointer_of (qt_get Q ''QWidget::window'' object [] (world st))) st in (success j, st')))
          else None)"

definition query_sub_object :: "('w, 'o) qt \<Rightarrow> ptr \<Rightarrow> 'o qvariant list \<Rightarrow> ('w, 'o) bridge \<Rightarrow> ('w, 'o) outcome" where
  "query_sub_object Q object vs st =
     (let (child, st1) = effect Q ''QAxBase::querySubObject'' object vs st in
      if pointer_of child = nullptr then fail ''ActiveX querySubObject returned no object'' st1
      else let (j, st2) = objectHandleValue Q (pointer_of child) st1 in (success j, st2))"

text \<open>\<^verbatim>\<open>args.first().toString().toUtf8().constData()\<close>.\<close>

definition c_text :: "('w, 'o) qt \<Rightarrow> json \<Rightarrow> 'o qvariant" where
  "c_text Q j = VByteArray (cstr (toUtf8 Q (toString j)))"

definition call_ax_base ::
  "('w, 'o) qt \<Rightarrow> ('w, 'o) gen \<Rightarrow> ptr \<Rightarrow> qstring \<Rightarrow> json list \<Rightarrow> ('w, 'o) bridge \<Rightarrow> ('w, 'o) outcome option" where
  "call_ax_base Q G object signature args st =
     (let sig = (\<lambda>s. signature = qs s) in
      if sig ''control()'' then Some (need (args = []) ''control() takes no arguments'' st (get_scalar Q ''QAxBase::control'' object [] st))
      else if sig ''isNull()'' then Some (need (args = []) ''isNull() takes no arguments'' st (get_scalar Q ''QAxBase::isNull'' object [] st))
      else if sig ''setControl(QString)'' then
        Some (need (one_string args) ''setControl(QString) requires one string'' st
          (scalar_reply Q ''QAxBase::setControl'' object [VString (toString (hd args))] st))
      else if sig ''clear()'' then Some (need (args = []) ''clear() takes no arguments'' st (void_reply Q ''QAxBase::clear'' object [] st))
      else if sig ''classContext()'' then
        Some (need (args = []) ''classContext() takes no arguments'' st (get_scalar Q ''QAxBase::classContext'' object [] st))
      else if sig ''setClassContext(int)'' then
        Some (need (length args = 1) ''setClassContext(int) requires a non-negative 32-bit context value'' st
          (case integerArgument args 0 of
             None \<Rightarrow> fail ''setClassContext(int) requires a non-negative 32-bit context value'' st
           | Some context \<Rightarrow>
               need (\<not> sint context < 0) ''setClassContext(int) requires a non-negative 32-bit context value'' st
                 (void_reply Q ''QAxBase::setClassContext'' object [VInt context] st)))
      else if sig ''verbs()'' then Some (need (args = []) ''verbs() takes no arguments'' st (get_scalar Q ''QAxBase::verbs'' object [] st))
      else if sig ''propertyBag()'' then
        Some (need (args = []) ''propertyBag() takes no arguments'' st (get_value Q G ''QAxBase::propertyBag'' object [] st))
      else if sig ''setPropertyBag(QVariantMap)'' then
        Some (need (length args = 1 \<and> isObject (hd args)) ''setPropertyBag(QVariantMap) requires one object'' st
          (void_reply Q ''QAxBase::setPropertyBag'' object [VMap (map (\<lambda>(k, v). (k, toVariant Q v)) (toObject (hd args)))] st))
      else if sig ''dynamicCall(QString)'' then
        Some (need (one_string args) ''dynamicCall(QString) requires one method expression'' st
          (value_reply Q G ''QAxBase::dynamicCall'' object [c_text Q (hd args)] st))
      else if sig ''dynamicCall(QString,QVariantList)'' then
        Some (need (length args = 2 \<and> isString (args ! 0) \<and> isArray (args ! 1))
          ''dynamicCall(QString,QVariantList) requires a method expression and an argument array'' st
          (value_reply Q G ''QAxBase::dynamicCall'' object [c_text Q (args ! 0), VList (map (toVariant Q) (toArray (args ! 1)))] st))
      else if sig ''querySubObject(QString)'' then
        Some (need (one_string args) ''querySubObject(QString) requires one method expression'' st
          (query_sub_object Q object [c_text Q (hd args)] st))
      else if sig ''querySubObject(QString,QVariantList)'' then
        Some (need (length args = 2 \<and> isString (args ! 0) \<and> isArray (args ! 1))
          ''querySubObject(QString,QVariantList) requires a method expression and an argument array'' st
          (query_sub_object Q object [c_text Q (args ! 0), VList (map (toVariant Q) (toArray (args ! 1)))] st))
      else if sig ''propertyWritable(QString)'' then
        Some (need (one_string args) ''propertyWritable(QString) requires one property name'' st
          (get_scalar Q ''QAxBase::propertyWritable'' object [c_text Q (hd args)] st))
      else if sig ''setPropertyWritable(QString,bool)'' then
        Some (need (length args = 2 \<and> isString (args ! 0) \<and> isBool (args ! 1))
          ''setPropertyWritable(QString,bool) requires a property name and boolean'' st
          (void_reply Q ''QAxBase::setPropertyWritable'' object [c_text Q (args ! 0), VBool (toBool (args ! 1))] st))
      else if sig ''asVariant()'' then Some (need (args = []) ''asVariant() takes no arguments'' st (get_value Q G ''QAxBase::asVariant'' object [] st))
      else if sig ''generateDocumentation()'' then
        Some (need (args = []) ''generateDocumentation() takes no arguments'' st (scalar_reply Q ''QAxBase::generateDocumentation'' object [] st))
      else None)"

definition call_ax_verbs ::
  "('w, 'o) qt \<Rightarrow> ptr \<Rightarrow> qstring \<Rightarrow> json list \<Rightarrow> ('w, 'o) bridge \<Rightarrow> ('w, 'o) outcome option" where
  "call_ax_verbs Q object signature args st =
     (let axObject = qobject_cast Q ''QAxObject'' (world st) object; axWidget = qobject_cast Q ''QAxWidget'' (world st) object;
          sig = (\<lambda>s. signature = qs s) in
      if axObject \<and> sig ''doVerb(QString)'' then
        Some (need (one_string args) ''doVerb(QString) requires one verb name'' st
          (scalar_reply Q ''QAxObject::doVerb'' object [VString (toString (hd args))] st))
      else if axObject \<and> sig ''resetControl()'' then
        Some (need (args = []) ''resetControl() takes no arguments'' st (void_reply Q ''QAxObject::resetControl'' object [] st))
      else if axWidget \<and> sig ''doVerb(QString)'' then
        Some (need (one_string args) ''doVerb(QString) requires one verb name'' st
          (scalar_reply Q ''QAxWidget::doVerb'' object [VString (toString (hd args))] st))
      else if axWidget \<and> sig ''resetControl()'' then
        Some (need (args = []) ''resetControl() takes no arguments'' st (void_reply Q ''QAxWidget::resetControl'' object [] st))
      else None)"

definition call_activex ::
  "('w, 'o) qt \<Rightarrow> ('w, 'o) gen \<Rightarrow> ptr \<Rightarrow> qstring \<Rightarrow> json list \<Rightarrow> ('w, 'o) bridge \<Rightarrow> ('w, 'o) outcome option" where
  "call_activex Q G object signature args st =
     (if \<not> has_axcontainer G then None
      else orelse
        (if qobject_cast Q ''QAxObject'' (world st) object \<or> qobject_cast Q ''QAxWidget'' (world st) object
         then call_ax_base Q G object signature args st else None)
        (call_ax_verbs Q object signature args st))"

definition call_network ::
  "('w, 'o) qt \<Rightarrow> ('w, 'o) gen \<Rightarrow> ptr \<Rightarrow> qstring \<Rightarrow> json list \<Rightarrow> ('w, 'o) bridge \<Rightarrow> ('w, 'o) outcome option" where
  "call_network Q G object signature args st =
     (let manager = qobject_cast Q ''QNetworkAccessManager'' (world st) object;
          netReply = qobject_cast Q ''QNetworkReply'' (world st) object;
          server = qobject_cast Q ''QTcpServer'' (world st) object;
          sig = (\<lambda>s. signature = qs s) in
      if manager \<and> (sig ''get(QNetworkRequest)'' \<or> sig ''head(QNetworkRequest)'' \<or> sig ''deleteResource(QNetworkRequest)'') then
        Some (need (length args = 1) ''QNetworkAccessManager request methods expect one QNetworkRequest value'' st
          (with_value Q st (hd args) MtQNetworkRequest (\<lambda>request.
             handle_reply Q (if sig ''get(QNetworkRequest)'' then ''QNetworkAccessManager::get''
                             else if sig ''head(QNetworkRequest)'' then ''QNetworkAccessManager::head''
                             else ''QNetworkAccessManager::deleteResource'') object [request] st)))
      else if manager \<and> (sig ''post(QNetworkRequest,QByteArray)'' \<or> sig ''put(QNetworkRequest,QByteArray)'') then
        Some (need (length args = 2) ''QNetworkAccessManager post/put expect a request and QByteArray value'' st
          (with_value Q st (args ! 0) MtQNetworkRequest (\<lambda>request.
             with_value Q st (args ! 1) MtQByteArray (\<lambda>data.
               handle_reply Q (if sig ''post(QNetworkRequest,QByteArray)'' then ''QNetworkAccessManager::post''
                               else ''QNetworkAccessManager::put'') object [request, data] st))))
      else if netReply \<and> sig ''errorString()'' then
        Some (need (args = []) ''QNetworkReply errorString() takes no arguments'' st (get_scalar Q ''QNetworkReply::errorString'' object [] st))
      else if netReply \<and> sig ''attribute(QNetworkRequest::Attribute)'' then
        Some (need (length args = 1) ''QNetworkReply attribute expects one integer QNetworkRequest::Attribute'' st
          (case integerArgument args 0 of
             None \<Rightarrow> fail ''QNetworkReply attribute expects one integer QNetworkRequest::Attribute'' st
           | Some attribute \<Rightarrow> get_value Q G ''QNetworkReply::attribute'' object [VInt attribute] st))
      else if server \<and> (sig ''listen(QHostAddress,quint16)'' \<or> sig ''listen(QHostAddress,ushort)'') then
        Some (need (length args = 2 \<and> isString (args ! 0)) ''QTcpServer listen expects an IP address string and port in 0..65535'' st
          (case integerArgument args 1 of
             None \<Rightarrow> fail ''QTcpServer listen expects an IP address string and port in 0..65535'' st
           | Some port \<Rightarrow>
               need (\<not> sint port < 0 \<and> \<not> sint port > 65535) ''QTcpServer listen expects an IP address string and port in 0..65535'' st
                 (let (valid, address) = ofText Q ''QHostAddress::setAddress'' (toString (args ! 0)) in
                  need valid ''invalid QTcpServer IP address'' st
                    (checked_reply Q ''QTcpServer::listen'' object [VOpaque MtQHostAddress address, VUInt port]
                       (\<lambda>w. Raw (text_of (qt_get Q ''QTcpServer::errorString'' object [] w))) st))))
      else if server \<and> sig ''serverPort()'' then
        Some (need (args = []) ''QTcpServer serverPort() takes no arguments'' st (get_scalar Q ''QTcpServer::serverPort'' object [] st))
      else if server \<and> sig ''close()'' then
        Some (need (args = []) ''QTcpServer close() takes no arguments'' st (void_reply Q ''QTcpServer::close'' object [] st))
      else None)"

definition device_error :: "('w, 'o) qt \<Rightarrow> ptr \<Rightarrow> 'w \<Rightarrow> qmsg" where
  "device_error Q object w = Raw (text_of (qt_get Q ''QIODevice::errorString'' object [] w))"

definition call_device ::
  "('w, 'o) qt \<Rightarrow> ('w, 'o) gen \<Rightarrow> ptr \<Rightarrow> qstring \<Rightarrow> json list \<Rightarrow> ('w, 'o) bridge \<Rightarrow> ('w, 'o) outcome option" where
  "call_device Q G object signature args st =
     (let device = qobject_cast Q ''QIODevice'' (world st) object; sig = (\<lambda>s. device \<and> signature = qs s) in
      if sig ''open(QIODevice::OpenMode)'' then
        Some (need (length args = 1) ''QIODevice open expects an integer OpenMode bitmask'' st
          (case integerArgument args 0 of
             None \<Rightarrow> fail ''QIODevice open expects an integer OpenMode bitmask'' st
           | Some mode \<Rightarrow> checked_reply Q ''QIODevice::open'' object [VInt mode] (device_error Q object) st))
      else if sig ''close()'' then Some (need (args = []) ''QIODevice close() takes no arguments'' st (void_reply Q ''QIODevice::close'' object [] st))
      else if sig ''isOpen()'' then Some (need (args = []) ''QIODevice isOpen() takes no arguments'' st (get_scalar Q ''QIODevice::isOpen'' object [] st))
      else if sig ''isReadable()'' then
        Some (need (args = []) ''QIODevice isReadable() takes no arguments'' st (get_scalar Q ''QIODevice::isReadable'' object [] st))
      else if sig ''isWritable()'' then
        Some (need (args = []) ''QIODevice isWritable() takes no arguments'' st (get_scalar Q ''QIODevice::isWritable'' object [] st))
      else if sig ''atEnd()'' then Some (need (args = []) ''QIODevice atEnd() takes no arguments'' st (get_scalar Q ''QIODevice::atEnd'' object [] st))
      else if sig ''readAll()'' then Some (need (args = []) ''QIODevice readAll() takes no arguments'' st (value_reply Q G ''QIODevice::readAll'' object [] st))
      else if sig ''readLine()'' then
        Some (need (args = []) ''QIODevice readLine() takes no arguments'' st (value_reply Q G ''QIODevice::readLine'' object [] st))
      else if sig ''write(QByteArray)'' then
        Some (need (length args = 1) ''QIODevice write expects one QByteArray value'' st
          (with_value Q st (hd args) MtQByteArray (\<lambda>data.
             let (written, st') = effect Q ''QIODevice::write'' object [data] st in
             if int_of_variant written < 0 then (failure (device_error Q object (world st')), st')
             else (success (scalar_json written), st'))))
      else if sig ''pos()'' then Some (need (args = []) ''QIODevice pos() takes no arguments'' st (get_scalar Q ''QIODevice::pos'' object [] st))
      else if sig ''size()'' then Some (need (args = []) ''QIODevice size() takes no arguments'' st (get_scalar Q ''QIODevice::size'' object [] st))
      else if sig ''seek(qint64)'' then
        Some (need (length args = 1) ''QIODevice seek expects one safe-range integer position'' st
          (case integer64Argument args 0 of
             None \<Rightarrow> fail ''QIODevice seek expects one safe-range integer position'' st
           | Some position \<Rightarrow> checked_reply Q ''QIODevice::seek'' object [VLongLong position] (device_error Q object) st))
      else None)"

definition call_settings ::
  "('w, 'o) qt \<Rightarrow> ('w, 'o) gen \<Rightarrow> ptr \<Rightarrow> qstring \<Rightarrow> json list \<Rightarrow> ('w, 'o) bridge \<Rightarrow> ('w, 'o) outcome option" where
  "call_settings Q G object signature args st =
     (let settings = qobject_cast Q ''QSettings'' (world st) object; sig = (\<lambda>s. settings \<and> signature = qs s) in
      if sig ''value(QString)'' then
        Some (need (one_string args) ''QSettings value(QString) expects one string key'' st
          (get_value Q G ''QSettings::value'' object [VString (toString (hd args))] st))
      else if sig ''setValue(QString,QVariant)'' then
        Some (need (length args = 2 \<and> isString (args ! 0)) ''QSettings setValue expects a string key and JSON value'' st
          (void_reply Q ''QSettings::setValue'' object [VString (toString (args ! 0)), toVariant Q (args ! 1)] st))
      else if sig ''contains(QString)'' then
        Some (need (one_string args) ''QSettings contains(QString) expects one string key'' st
          (get_scalar Q ''QSettings::contains'' object [VString (toString (hd args))] st))
      else if sig ''remove(QString)'' then
        Some (need (one_string args) ''QSettings remove(QString) expects one string key'' st
          (void_reply Q ''QSettings::remove'' object [VString (toString (hd args))] st))
      else if sig ''allKeys()'' then
        Some (need (args = []) ''QSettings allKeys() takes no arguments'' st
          (success (fromVariant Q (qt_get Q ''QSettings::allKeys'' object [] (world st))), st))
      else if sig ''sync()'' then
        Some (need (args = []) ''QSettings sync() takes no arguments'' st
          (let (_, st') = effect Q ''QSettings::sync'' object [] st in
           need (int_of_variant (qt_get Q ''QSettings::status'' object [] (world st')) = 0)
             ''QSettings could not synchronize its backing store'' st' (success JNull, st')))
      else None)"

definition call_watcher ::
  "('w, 'o) qt \<Rightarrow> ptr \<Rightarrow> qstring \<Rightarrow> json list \<Rightarrow> ('w, 'o) bridge \<Rightarrow> ('w, 'o) outcome option" where
  "call_watcher Q object signature args st =
     (let watcher = qobject_cast Q ''QFileSystemWatcher'' (world st) object; sig = (\<lambda>s. watcher \<and> signature = qs s) in
      if sig ''addPath(QString)'' then
        Some (need (one_string args) ''QFileSystemWatcher addPath(QString) expects one path string'' st
          (checked_reply Q ''QFileSystemWatcher::addPath'' object [VString (toString (hd args))]
             (\<lambda>_. Msg ''QFileSystemWatcher could not watch the path'' []) st))
      else if sig ''removePath(QString)'' then
        Some (need (one_string args) ''QFileSystemWatcher removePath(QString) expects one path string'' st
          (checked_reply Q ''QFileSystemWatcher::removePath'' object [VString (toString (hd args))]
             (\<lambda>_. Msg ''QFileSystemWatcher was not watching the path'' []) st))
      else if sig ''files()'' then
        Some (need (args = []) ''QFileSystemWatcher files() takes no arguments'' st
          (success (fromVariant Q (qt_get Q ''QFileSystemWatcher::files'' object [] (world st))), st))
      else if sig ''directories()'' then
        Some (need (args = []) ''QFileSystemWatcher directories() takes no arguments'' st
          (success (fromVariant Q (qt_get Q ''QFileSystemWatcher::directories'' object [] (world st))), st))
      else None)"

definition call_process ::
  "('w, 'o) qt \<Rightarrow> ('w, 'o) gen \<Rightarrow> ptr \<Rightarrow> qstring \<Rightarrow> json list \<Rightarrow> ('w, 'o) bridge \<Rightarrow> ('w, 'o) outcome option" where
  "call_process Q G object signature args st =
     (let process = qobject_cast Q ''QProcess'' (world st) object; sig = (\<lambda>s. process \<and> signature = qs s) in
      if sig ''readAllStandardOutput()'' then
        Some (need (args = []) ''QProcess readAllStandardOutput() takes no arguments'' st
          (value_reply Q G ''QProcess::readAllStandardOutput'' object [] st))
      else if sig ''readAllStandardError()'' then
        Some (need (args = []) ''QProcess readAllStandardError() takes no arguments'' st
          (value_reply Q G ''QProcess::readAllStandardError'' object [] st))
      else if sig ''exitCode()'' then
        Some (need (args = []) ''QProcess exitCode() takes no arguments'' st (get_scalar Q ''QProcess::exitCode'' object [] st))
      else None)"

subsection \<open>Registry steps\<close>

lemma call_geometry_setters_step [call_steps]: "group_step st (call_geometry_setters Q p sig args st)"
  unfolding call_geometry_setters_def Let_def by (intro call_steps)

lemma handle_outcome_step [call_steps]: "ostep st (let (j, st') = objectHandleValue Q p st in (r j, st'))"
  by (auto simp: ostep_def split: prod.splits dest: objectHandleValue_reg_step)

lemma group_pair [call_steps]:
  "group_step st b \<Longrightarrow> (\<And>x y. group_step st (a x y)) \<Longrightarrow> group_step st (case z of None \<Rightarrow> b | Some (x, y) \<Rightarrow> a x y)"
  by (cases z) auto

lemma call_geometry_getters_step [call_steps]: "group_step st (call_geometry_getters Q G p sig args st)"
  unfolding call_geometry_getters_def Let_def
  by (intro call_steps handle_outcome_step [unfolded Let_def])

lemma query_sub_object_step [call_steps]: "ostep st (query_sub_object Q p vs st)"
  by (auto simp: query_sub_object_def ostep_def fail_def Let_def split: prod.splits
      dest: effect_reg_step intro: reg_step_trans [OF effect_reg_step objectHandleValue_reg_step])

lemma call_ax_base_step [call_steps]: "group_step st (call_ax_base Q G p sig args st)"
  unfolding call_ax_base_def Let_def by (intro call_steps)

lemma call_activex_step [call_steps]: "group_step st (call_activex Q G p sig args st)"
  unfolding call_activex_def call_ax_verbs_def Let_def by (intro call_steps)

lemma prod_step [call_steps]: "(\<And>x y. ostep st (a x y)) \<Longrightarrow> ostep st (case z of (x, y) \<Rightarrow> a x y)"
  by (cases z) auto

lemma call_network_step [call_steps]: "group_step st (call_network Q G p sig args st)"
  unfolding call_network_def Let_def by (intro call_steps)

lemma effect_bind_step: "(\<And>r st'. ostep st' (k r st')) \<Longrightarrow> ostep st (case effect Q f p vs st of (r, st') \<Rightarrow> k r st')"
  by (cases "effect Q f p vs st") (auto dest: effect_reg_step intro: ostep_trans)

lemma call_device_step [call_steps]: "group_step st (call_device Q G p sig args st)"
  unfolding call_device_def Let_def by (intro effect_bind_step call_steps)

lemma call_settings_step [call_steps]: "group_step st (call_settings Q G p sig args st)"
  unfolding call_settings_def Let_def by (intro effect_bind_step call_steps)

lemma call_watcher_step [call_steps]: "group_step st (call_watcher Q p sig args st)"
  unfolding call_watcher_def Let_def by (intro call_steps)

lemma call_process_step [call_steps]: "group_step st (call_process Q G p sig args st)"
  unfolding call_process_def Let_def by (intro call_steps)

end
