(* ===== verification/Call_Containers.thy ===== *)
theory Call_Containers
  imports Call_Widgets
begin

text \<open>
  Hand-written bindings of the \<^verbatim>\<open>call\<close> operation, second half (qt6\_bridge.cpp):
  main windows and layouts, item widgets, containers, menus; then \<open>call_method\<close>, the whole
  chain with its two fallbacks, the generated shards and reflection.
\<close>

definition call_main_window ::
  "('w, 'o) qt \<Rightarrow> ptr \<Rightarrow> qstring \<Rightarrow> json list \<Rightarrow> ('w, 'o) bridge \<Rightarrow> ('w, 'o) outcome option" where
  "call_main_window Q object signature args st =
     (let window = qobject_cast Q ''QMainWindow'' (world st) object; sig = (\<lambda>s. window \<and> signature = qs s) in
      if sig ''setMenuBar(QMenuBar*)'' then
        Some (need (length args = 1) ''setMenuBar expects one menu bar handle'' st
          (with_object Q st args 0 ''QMenuBar'' ''setMenuBar expects a QMenuBar handle''
             (\<lambda>menuBar. void_reply Q ''QMainWindow::setMenuBar'' object [vobject menuBar] st)))
      else if sig ''addToolBar(QToolBar*)'' then
        Some (need (length args = 1) ''addToolBar expects one toolbar handle'' st
          (with_object Q st args 0 ''QToolBar'' ''addToolBar expects a QToolBar handle''
             (\<lambda>toolbar. void_reply Q ''QMainWindow::addToolBar'' object [vobject toolbar] st)))
      else if sig ''addDockWidget(Qt::DockWidgetArea,QDockWidget*)'' then
        Some (need (length args = 2) ''addDockWidget expects a dock area and dock widget handle'' st
          (with_object Q st args 1 ''QDockWidget'' ''addDockWidget expects a QDockWidget handle''
             (\<lambda>dock. case integerArgument args 0 of
                None \<Rightarrow> fail ''dock area must be a Qt::DockWidgetArea integer value'' st
              | Some area \<Rightarrow>
                  need (area \<in> {1, 2, 4, 8}) ''dock area must be a Qt::DockWidgetArea integer value'' st
                    (void_reply Q ''QMainWindow::addDockWidget'' object [VInt area, vobject dock] st))))
      else None)"

definition call_layout ::
  "('w, 'o) qt \<Rightarrow> ptr \<Rightarrow> qstring \<Rightarrow> json list \<Rightarrow> ('w, 'o) bridge \<Rightarrow> ('w, 'o) outcome option" where
  "call_layout Q object signature args st =
     (let widget = qobject_cast Q ''QWidget'' (world st) object; layout = qobject_cast Q ''QLayout'' (world st) object;
          window = qobject_cast Q ''QMainWindow'' (world st) object; box = qobject_cast Q ''QBoxLayout'' (world st) object;
          sig = (\<lambda>s. signature = qs s) in
      if widget \<and> sig ''setLayout(QLayout*)'' then
        Some (need (length args = 1) ''setLayout expects one layout handle'' st
          (with_object Q st args 0 ''QLayout'' ''setLayout expects a QLayout handle''
             (\<lambda>l. if widget_layout Q (world st) object = l then (success JNull, st)
                  else if widget_layout Q (world st) object \<noteq> nullptr then fail ''QWidget already has a layout'' st
                  else void_reply Q ''QWidget::setLayout'' object [vobject l] st)))
      else if layout \<and> sig ''setSpacing(int)'' then
        Some (need (length args = 1) ''setSpacing expects one 32-bit integer'' st
          (case integerArgument args 0 of
             None \<Rightarrow> fail ''setSpacing expects one 32-bit integer'' st
           | Some spacing \<Rightarrow> void_reply Q ''QLayout::setSpacing'' object [VInt spacing] st))
      else if layout \<and> sig ''setContentsMargins(int,int,int,int)'' then
        Some (need (length args = 4) ''setContentsMargins expects four 32-bit integers'' st
          (case int_args args [0, 1, 2, 3] of
             None \<Rightarrow> fail ''setContentsMargins expects four 32-bit integers'' st
           | Some ns \<Rightarrow> void_reply Q ''QLayout::setContentsMargins'' object (map VInt ns) st))
      else if window \<and> sig ''setCentralWidget(QWidget*)'' then
        Some (need (length args = 1 \<and> isObject (hd args)) ''setCentralWidget requires one Qt object handle'' st
          (with_child Q st (hd args) ''QWidget'' ''setCentralWidget expects a QWidget handle''
             (\<lambda>child. void_reply Q ''QMainWindow::setCentralWidget'' object [vobject child] st)))
      else if layout \<and> sig ''addWidget(QWidget*)'' then
        Some (need (length args = 1 \<and> isObject (hd args)) ''addWidget requires one Qt object handle'' st
          (with_child Q st (hd args) ''QWidget'' ''addWidget expects a QWidget handle''
             (\<lambda>child. void_reply Q ''QLayout::addWidget'' object [vobject child] st)))
      else if box \<and> sig ''addLayout(QLayout*)'' then
        Some (need (length args = 1 \<and> isObject (hd args)) ''addLayout requires one Qt object handle'' st
          (with_child Q st (hd args) ''QLayout'' ''addLayout expects a QLayout handle''
             (\<lambda>child. void_reply Q ''QBoxLayout::addLayout'' object [vobject child] st)))
      else None)"

definition get_int :: "('w, 'o) qt \<Rightarrow> string \<Rightarrow> ptr \<Rightarrow> ('w, 'o) bridge \<Rightarrow> int" where
  "get_int Q f p st = int_of_variant (qt_get Q f p [] (world st))"

definition in_cells :: "('w, 'o) qt \<Rightarrow> ptr \<Rightarrow> ('w, 'o) bridge \<Rightarrow> i32 \<Rightarrow> i32 \<Rightarrow> bool" where
  "in_cells Q table st row column \<longleftrightarrow>
     \<not> (sint row < 0 \<or> sint row \<ge> get_int Q ''QTableWidget::rowCount'' table st
        \<or> sint column < 0 \<or> sint column \<ge> get_int Q ''QTableWidget::columnCount'' table st)"

definition cell_item :: "('w, 'o) qt \<Rightarrow> ptr \<Rightarrow> ('w, 'o) bridge \<Rightarrow> i32 \<Rightarrow> i32 \<Rightarrow> ptr" where
  "cell_item Q table st row column = pointer_of (qt_get Q ''QTableWidget::item'' table [VInt row, VInt column] (world st))"

definition call_lists ::
  "('w, 'o) qt \<Rightarrow> ptr \<Rightarrow> qstring \<Rightarrow> json list \<Rightarrow> ('w, 'o) bridge \<Rightarrow> ('w, 'o) outcome option" where
  "call_lists Q object signature args st =
     (let combo = qobject_cast Q ''QComboBox'' (world st) object; list = qobject_cast Q ''QListWidget'' (world st) object;
          sig = (\<lambda>s. signature = qs s) in
      if combo \<and> sig ''addItem(QString)'' then
        Some (need (one_string args) ''addItem(QString) requires one string'' st
          (void_reply Q ''QComboBox::addItem'' object [VString (toString (hd args))] st))
      else if list \<and> sig ''addItem(QString)'' then
        Some (need (one_string args) ''addItem(QString) requires one string'' st
          (let (_, st') = effect Q ''QListWidget::addItem'' object [VString (toString (hd args))] st in
           (success (jint (get_int Q ''QListWidget::count'' object st' - 1)), st')))
      else if list \<and> sig ''itemText(int)'' then
        Some (need (length args = 1) ''itemText(int) requires one 32-bit row index'' st
          (case integerArgument args 0 of
             None \<Rightarrow> fail ''itemText(int) requires one 32-bit row index'' st
           | Some row \<Rightarrow>
               need (\<not> (sint row < 0 \<or> sint row \<ge> get_int Q ''QListWidget::count'' object st))
                 ''QListWidget row is outside its current item range'' st
                 (get_scalar Q ''QListWidget::item(row)->text'' object [VInt row] st)))
      else None)"

definition call_tables ::
  "('w, 'o) qt \<Rightarrow> ptr \<Rightarrow> qstring \<Rightarrow> json list \<Rightarrow> ('w, 'o) bridge \<Rightarrow> ('w, 'o) outcome option" where
  "call_tables Q object signature args st =
     (let table = qobject_cast Q ''QTableWidget'' (world st) object; tree = qobject_cast Q ''QTreeWidget'' (world st) object;
          tabs = qobject_cast Q ''QTabWidget'' (world st) object; sig = (\<lambda>s. signature = qs s) in
      if table \<and> sig ''setCellText(int,int,QString)'' then
        Some (need (length args = 3 \<and> isString (args ! 2)) ''setCellText(int,int,QString) requires two 32-bit indices and a string'' st
          (case (integerArgument args 0, integerArgument args 1) of
             (Some row, Some column) \<Rightarrow>
               need (in_cells Q object st row column) ''QTableWidget cell is outside its current row or column range'' st
                 (let item = cell_item Q object st row column in
                  if item = nullptr
                  then void_reply Q ''QTableWidget::setItem new QTableWidgetItem'' object [VInt row, VInt column, VString (toString (args ! 2))] st
                  else void_reply Q ''QTableWidgetItem::setText'' item [VString (toString (args ! 2))] st)
           | _ \<Rightarrow> fail ''setCellText(int,int,QString) requires two 32-bit indices and a string'' st))
      else if table \<and> sig ''cellText(int,int)'' then
        Some (need (length args = 2) ''cellText(int,int) requires two 32-bit indices'' st
          (case (integerArgument args 0, integerArgument args 1) of
             (Some row, Some column) \<Rightarrow>
               need (in_cells Q object st row column) ''QTableWidget cell is outside its current row or column range'' st
                 (let item = cell_item Q object st row column in
                  if item = nullptr then (success (JString []), st) else get_scalar Q ''QTableWidgetItem::text'' item [] st)
           | _ \<Rightarrow> fail ''cellText(int,int) requires two 32-bit indices'' st))
      else if tree \<and> sig ''addTopLevelItem(QString)'' then
        Some (need (one_string args) ''addTopLevelItem(QString) requires one string'' st
          (let (item, st1) = effect Q ''new QTreeWidgetItem'' nullptr [VStringList [toString (hd args)]] st;
               (_, st2) = effect Q ''QTreeWidget::addTopLevelItem'' object [item] st1
           in (success (scalar_json (qt_get Q ''QTreeWidget::indexOfTopLevelItem'' object [item] (world st2))), st2)))
      else if tree \<and> sig ''topLevelItemText(int)'' then
        Some (need (length args = 1) ''topLevelItemText(int) requires one 32-bit row index'' st
          (case integerArgument args 0 of
             None \<Rightarrow> fail ''topLevelItemText(int) requires one 32-bit row index'' st
           | Some row \<Rightarrow>
               need (\<not> (sint row < 0 \<or> sint row \<ge> get_int Q ''QTreeWidget::topLevelItemCount'' object st))
                 ''QTreeWidget row is outside its current top-level item range'' st
                 (get_scalar Q ''QTreeWidget::topLevelItem(row)->text(0)'' object [VInt row] st)))
      else if tabs \<and> sig ''addTab(QWidget*,QString)'' then
        Some (need (length args = 2 \<and> isObject (args ! 0) \<and> isString (args ! 1)) ''addTab requires a Qt widget handle and a string'' st
          (with_child Q st (args ! 0) ''QWidget'' ''addTab expects a QWidget handle''
             (\<lambda>child. scalar_reply Q ''QTabWidget::addTab'' object [vobject child, VString (toString (args ! 1))] st)))
      else None)"

definition call_grid_form ::
  "('w, 'o) qt \<Rightarrow> ptr \<Rightarrow> qstring \<Rightarrow> json list \<Rightarrow> ('w, 'o) bridge \<Rightarrow> ('w, 'o) outcome option" where
  "call_grid_form Q object signature args st =
     (let grid = qobject_cast Q ''QGridLayout'' (world st) object; form = qobject_cast Q ''QFormLayout'' (world st) object;
          sig = (\<lambda>s. signature = qs s) in
      if grid \<and> (sig ''addWidget(QWidget*,int,int)'' \<or> sig ''addWidget(QWidget*,int,int,int,int)'') then
        (let expected = (if sig ''addWidget(QWidget*,int,int)'' then 3 else 5) in
         Some (need (length args = expected) ''QGridLayout addWidget received the wrong argument count'' st
           (with_object Q st args 0 ''QWidget'' ''QGridLayout expects a QWidget handle''
              (\<lambda>child. case int_args args (if expected = 3 then [1, 2] else [1, 2, 3, 4]) of
                 None \<Rightarrow> fail ''QGridLayout indices and spans must be 32-bit integers'' st
               | Some ns \<Rightarrow> void_reply Q ''QGridLayout::addWidget'' object (vobject child # map VInt ns) st))))
      else if form \<and> sig ''addRow(QString,QWidget*)'' then
        Some (need (length args = 2 \<and> isString (args ! 0)) ''QFormLayout addRow(QString,QWidget*) expects a string and a widget handle'' st
          (with_object Q st args 1 ''QWidget'' ''QFormLayout expects a QWidget handle''
             (\<lambda>field. void_reply Q ''QFormLayout::addRow'' object [VString (toString (args ! 0)), vobject field] st)))
      else if form \<and> sig ''addRow(QWidget*,QWidget*)'' then
        Some (need (length args = 2) ''QFormLayout addRow(QWidget*,QWidget*) expects two widget handles'' st
          (with_object Q st args 0 ''QWidget'' ''QFormLayout expects QWidget handles''
             (\<lambda>label. with_object Q st args 1 ''QWidget'' ''QFormLayout expects QWidget handles''
                (\<lambda>field. void_reply Q ''QFormLayout::addRow'' object [vobject label, vobject field] st))))
      else None)"

text \<open>Bindings that take exactly one handle of a fixed class and call one function with it.\<close>

datatype handle_result = ReplyVoid | ReplyScalar | ReplyHandle

definition one_handle ::
  "('w, 'o) qt \<Rightarrow> ptr \<Rightarrow> json list \<Rightarrow> ('w, 'o) bridge \<Rightarrow> string \<Rightarrow> string \<Rightarrow> string \<Rightarrow> string \<Rightarrow> handle_result \<Rightarrow> ('w, 'o) outcome" where
  "one_handle Q object args st countError cls classError f result =
     need (length args = 1) countError st
       (with_object Q st args 0 cls classError
          (\<lambda>p. case result of
                 ReplyVoid \<Rightarrow> void_reply Q f object [vobject p] st
               | ReplyScalar \<Rightarrow> scalar_reply Q f object [vobject p] st
               | ReplyHandle \<Rightarrow> handle_reply Q f object [vobject p] st))"

definition call_containers ::
  "('w, 'o) qt \<Rightarrow> ptr \<Rightarrow> qstring \<Rightarrow> json list \<Rightarrow> ('w, 'o) bridge \<Rightarrow> ('w, 'o) outcome option" where
  "call_containers Q object signature args st =
     (let on = (\<lambda>c s. qobject_cast Q c (world st) object \<and> signature = qs s) in
      if on ''QStackedWidget'' ''addWidget(QWidget*)'' then
        Some (one_handle Q object args st ''QStackedWidget addWidget expects one widget handle'' ''QWidget''
          ''QStackedWidget expects a QWidget handle'' ''QStackedWidget::addWidget'' ReplyScalar)
      else if on ''QSplitter'' ''addWidget(QWidget*)'' then
        Some (one_handle Q object args st ''QSplitter addWidget expects one widget handle'' ''QWidget''
          ''QSplitter expects a QWidget handle'' ''QSplitter::addWidget'' ReplyVoid)
      else if on ''QScrollArea'' ''setWidget(QWidget*)'' then
        Some (one_handle Q object args st ''QScrollArea setWidget expects one widget handle'' ''QWidget''
          ''QScrollArea expects a QWidget handle'' ''QScrollArea::setWidget'' ReplyVoid)
      else if on ''QGraphicsScene'' ''addWidget(QWidget*)'' then
        Some (one_handle Q object args st ''QGraphicsScene addWidget expects one widget handle'' ''QWidget''
          ''QGraphicsScene expects a QWidget handle'' ''QGraphicsScene::addWidget'' ReplyHandle)
      else if on ''QGraphicsView'' ''setScene(QGraphicsScene*)'' then
        Some (one_handle Q object args st ''QGraphicsView setScene expects one scene handle'' ''QGraphicsScene''
          ''QGraphicsView expects a QGraphicsScene handle'' ''QGraphicsView::setScene'' ReplyVoid)
      else if on ''QTextEdit'' ''setDocument(QTextDocument*)'' then
        Some (one_handle Q object args st ''QTextEdit setDocument expects one document handle'' ''QTextDocument''
          ''QTextEdit expects a QTextDocument handle'' ''QTextEdit::setDocument'' ReplyVoid)
      else if on ''QUndoView'' ''setStack(QUndoStack*)'' then
        Some (one_handle Q object args st ''QUndoView setStack expects one undo stack handle'' ''QUndoStack''
          ''QUndoView expects a QUndoStack handle'' ''QUndoView::setStack'' ReplyVoid)
      else if on ''QUndoView'' ''setGroup(QUndoGroup*)'' then
        Some (one_handle Q object args st ''QUndoView setGroup expects one undo group handle'' ''QUndoGroup''
          ''QUndoView expects a QUndoGroup handle'' ''QUndoView::setGroup'' ReplyVoid)
      else if on ''QWizard'' ''addPage(QWizardPage*)'' then
        Some (one_handle Q object args st ''QWizard addPage expects one page handle'' ''QWizardPage''
          ''QWizard expects a QWizardPage handle'' ''QWizard::addPage'' ReplyScalar)
      else None)"

definition call_menus ::
  "('w, 'o) qt \<Rightarrow> ptr \<Rightarrow> qstring \<Rightarrow> json list \<Rightarrow> ('w, 'o) bridge \<Rightarrow> ('w, 'o) outcome option" where
  "call_menus Q object signature args st =
     (let on = (\<lambda>c s. qobject_cast Q c (world st) object \<and> signature = qs s) in
      if on ''QButtonGroup'' ''addButton(QAbstractButton*)'' \<or> on ''QButtonGroup'' ''addButton(QAbstractButton*,int)'' then
        Some (need (length args = (if signature = qs ''addButton(QAbstractButton*)'' then 1 else 2))
                ''QButtonGroup addButton received the wrong argument count'' st
          (with_object Q st args 0 ''QAbstractButton'' ''QButtonGroup expects a QAbstractButton handle''
             (\<lambda>button. if length args = 2
                then (case integerArgument args 1 of
                        None \<Rightarrow> fail ''QButtonGroup id must be a 32-bit integer'' st
                      | Some buttonId \<Rightarrow> void_reply Q ''QButtonGroup::addButton'' object [vobject button, VInt buttonId] st)
                else void_reply Q ''QButtonGroup::addButton'' object [vobject button, VInt (- 1)] st)))
      else if on ''QTabBar'' ''addTab(QString)'' then
        Some (need (one_string args) ''QTabBar addTab(QString) expects one string'' st
          (scalar_reply Q ''QTabBar::addTab'' object [VString (toString (hd args))] st))
      else if on ''QMenu'' ''addAction(QString)'' then
        Some (need (one_string args) ''QMenu addAction(QString) expects one string'' st
          (handle_reply Q ''QMenu::addAction'' object [VString (toString (hd args))] st))
      else if on ''QMenu'' ''addAction(QAction*)'' then
        Some (one_handle Q object args st ''QMenu addAction(QAction*) expects one action handle'' ''QAction''
          ''QMenu expects a QAction handle'' ''QMenu::addAction'' ReplyVoid)
      else if on ''QMenuBar'' ''addMenu(QMenu*)'' then
        Some (one_handle Q object args st ''QMenuBar addMenu(QMenu*) expects one menu handle'' ''QMenu''
          ''QMenuBar expects a QMenu handle'' ''QMenuBar::addMenu'' ReplyHandle)
      else if on ''QMenuBar'' ''addMenu(QString)'' then
        Some (need (one_string args) ''QMenuBar addMenu(QString) expects one string'' st
          (handle_reply Q ''QMenuBar::addMenu'' object [VString (toString (hd args))] st))
      else if on ''QToolBar'' ''addAction(QString)'' then
        Some (need (one_string args) ''QToolBar addAction(QString) expects one string'' st
          (handle_reply Q ''QToolBar::addAction'' object [VString (toString (hd args))] st))
      else if on ''QToolBar'' ''addAction(QAction*)'' then
        Some (one_handle Q object args st ''QToolBar addAction(QAction*) expects one action handle'' ''QAction''
          ''QToolBar expects a QAction handle'' ''QToolBar::addAction'' ReplyVoid)
      else None)"

definition call_direct ::
  "('w, 'o) qt \<Rightarrow> ('w, 'o) gen \<Rightarrow> ptr \<Rightarrow> qstring \<Rightarrow> json list \<Rightarrow> ('w, 'o) bridge \<Rightarrow> ('w, 'o) outcome option" where
  "call_direct Q G object signature args st =
     orelse (call_geometry_setters Q object signature args st)
    (orelse (call_geometry_getters Q G object signature args st)
    (orelse (call_activex Q G object signature args st)
    (orelse (call_network Q G object signature args st)
    (orelse (call_device Q G object signature args st)
    (orelse (call_settings Q G object signature args st)
    (orelse (call_watcher Q object signature args st)
    (orelse (call_process Q G object signature args st)
    (orelse (call_main_window Q object signature args st)
    (orelse (call_layout Q object signature args st)
    (orelse (call_lists Q object signature args st)
    (orelse (call_tables Q object signature args st)
    (orelse (call_grid_form Q object signature args st)
    (orelse (call_containers Q object signature args st)
            (call_menus Q object signature args st))))))))))))))"

definition call_generated ::
  "('w, 'o) qt \<Rightarrow> ('w, 'o) gen \<Rightarrow> ptr \<Rightarrow> qstring \<Rightarrow> json list \<Rightarrow> ('w, 'o) bridge \<Rightarrow> ('w, 'o) outcome" where
  "call_generated Q G object signature args st =
     (let (handled, directResult, directError, st1) = invoke G object [] signature args st in
      if handled then
        (case directError of Some e \<Rightarrow> (failure e, st1) | None \<Rightarrow> (success directResult, st1))
      else case invokeMethod Q G (metaObject_of Q (world st1) object) (OnObject object) signature args st1 of
        (Inl e, st2) \<Rightarrow> (failure e, st2)
      | (Inr j, st2) \<Rightarrow> (success j, st2))"

definition call_method ::
  "('w, 'o) qt \<Rightarrow> ('w, 'o) gen \<Rightarrow> ptr \<Rightarrow> qstring \<Rightarrow> json list \<Rightarrow> ('w, 'o) bridge \<Rightarrow> ('w, 'o) outcome" where
  "call_method Q G object signature args st =
     (case call_direct Q G object signature args st of
        Some out \<Rightarrow> out
      | None \<Rightarrow> call_generated Q G object signature args st)"

subsection \<open>Registry steps\<close>

lemma call_main_window_step [call_steps]: "group_step st (call_main_window Q p sig args st)"
  unfolding call_main_window_def Let_def by (intro call_steps)

lemma call_layout_step [call_steps]: "group_step st (call_layout Q p sig args st)"
  unfolding call_layout_def Let_def by (intro call_steps)

lemma call_lists_step [call_steps]: "group_step st (call_lists Q p sig args st)"
  unfolding call_lists_def Let_def by (intro effect_bind_step call_steps)

lemma int_pair_step [call_steps]:
  "(\<And>a b. ostep st (k a b)) \<Longrightarrow> ostep st e \<Longrightarrow> ostep st (case (x, y) of (Some a, Some b) \<Rightarrow> k a b | _ \<Rightarrow> e)"
  by (cases x; cases y) auto

lemma call_tables_step [call_steps]: "group_step st (call_tables Q p sig args st)"
  unfolding call_tables_def Let_def
  by (intro effect_bind_step call_steps)

lemma call_grid_form_step [call_steps]: "group_step st (call_grid_form Q p sig args st)"
  unfolding call_grid_form_def Let_def by (intro call_steps)

lemma one_handle_step [call_steps]: "ostep st (one_handle Q p args st m1 c m2 f r)"
  unfolding one_handle_def by (cases r) (simp_all, (intro call_steps)+)

lemma call_containers_step [call_steps]: "group_step st (call_containers Q p sig args st)"
  unfolding call_containers_def Let_def by (intro call_steps)

lemma call_menus_step [call_steps]: "group_step st (call_menus Q p sig args st)"
  unfolding call_menus_def Let_def by (intro call_steps)

lemma call_direct_step [call_steps]: "group_step st (call_direct Q G p sig args st)"
  unfolding call_direct_def by (intro call_steps)

lemma call_generated_step: "gen_ok G \<Longrightarrow> ostep st (call_generated Q G p sig args st)"
  by (auto simp: call_generated_def ostep_def split: prod.splits option.splits sum.splits
      dest: invoke_reg_step intro: reg_step_trans [OF invoke_reg_step invokeMethod_reg_step])

lemma call_method_step: "gen_ok G \<Longrightarrow> ostep st (call_method Q G p sig args st)"
  using call_direct_step [of st Q G p sig args] call_generated_step [of G st Q p sig args]
  by (auto simp: call_method_def group_step_def split: option.splits)

end
