(* ===== verification/Value_Ops.thy ===== *)
theory Value_Ops
  imports Call_Containers
begin

text \<open>
  The operations on stored values (qt6\_bridge.cpp): \<^verbatim>\<open>value_new\<close> and the
  \<^verbatim>\<open>value_\<close> family. A request is the JSON object that was parsed.
\<close>

definition value_handle_json :: "handle \<Rightarrow> qstring \<Rightarrow> json" where
  "value_handle_json oid typeName = jobj [(''value_id'', jint oid), (''type'', JString typeName)]"

definition bad_args_field :: "json \<Rightarrow> bool" where
  "bad_args_field v \<longleftrightarrow> \<not> isUndefined v \<and> \<not> isArray v"

definition register_new_value :: "'o qvariant \<Rightarrow> qstring \<Rightarrow> ('w, 'o) bridge \<Rightarrow> ('w, 'o) outcome" where
  "register_new_value v typeName st =
     (let (oid, st') = registerValue v st in (success (value_handle_json oid typeName), st'))"

definition value_new_default :: "('w, 'o) qt \<Rightarrow> ('w, 'o) gen \<Rightarrow> qstring \<Rightarrow> ('w, 'o) bridge \<Rightarrow> ('w, 'o) outcome" where
  "value_new_default Q G requestedType st =
     (case valueMetaType G requestedType of
        Inl e \<Rightarrow> (failure e, st)
      | Inr type \<Rightarrow>
          if type = MtInvalid
          then (failure (Msg ''Qt gadget type %1 has no generated default value constructor'' [AStr requestedType]), st)
          else let v = v_default Q type in
            if \<not> v_isValid v then (failure (Msg ''Qt cannot default-construct value type %1'' [AStr requestedType]), st)
            else register_new_value v (mt_qname Q type) st)"

definition op_value_new :: "('w, 'o) qt \<Rightarrow> ('w, 'o) gen \<Rightarrow> jobject \<Rightarrow> ('w, 'o) bridge \<Rightarrow> ('w, 'o) outcome" where
  "op_value_new Q G request st =
     (let requestedType = toString (jvalue request ''type''); argsValue = jvalue request ''args'' in
      if requestedType = [] \<or> hasNul requestedType then fail ''value_new requires a non-empty Qt value type name'' st
      else if bad_args_field argsValue then fail ''value_new args must be a JSON array'' st
      else
        let (moduleName, className) = split_qualified requestedType;
            (handled, constructed, error) = constructValueArguments G st moduleName className (toArray argsValue)
        in if handled then
             (if \<not> v_isValid constructed
              then (failure (case error of
                               None \<Rightarrow> Msg ''Qt value type %1 has no matching native constructor'' [AStr requestedType]
                             | Some e \<Rightarrow> e), st)
              else register_new_value constructed (mt_qname Q (variant_type constructed)) st)
           else case error of
             Some e \<Rightarrow> (failure e, st)
           | None \<Rightarrow>
               if \<not> isUndefined argsValue \<and> toArray argsValue \<noteq> []
               then (failure (Msg ''Qt value type %1 has no generated constructor for %2 argument(s)''
                       [AStr requestedType, ANum (int (length (toArray argsValue)))]), st)
               else value_new_default Q G requestedType st)"

definition op_value_call ::
  "('w, 'o) qt \<Rightarrow> ('w, 'o) gen \<Rightarrow> jobject \<Rightarrow> handle \<Rightarrow> 'o qvariant \<Rightarrow> ('w, 'o) bridge \<Rightarrow> ('w, 'o) outcome" where
  "op_value_call Q G request valueId v st =
     (let signature = toString (jvalue request ''method''); argsValue = jvalue request ''args'';
          className = mt_qname Q (variant_type v)
      in if bad_args_field argsValue then fail ''value_call args must be a JSON array'' st
         else
           let (reflected, st1) =
                 (case mt_metaObject Q (variant_type v) of
                    None \<Rightarrow> (Inl None, st)
                  | Some mo \<Rightarrow>
                      (case invokeMethod Q G mo (OnGadget valueId) signature (toArray argsValue) st of
                         (Inl e, st') \<Rightarrow> (Inl (Some e), st')
                       | (Inr j, st') \<Rightarrow> (Inr j, st')))
           in case reflected of
             Inr result \<Rightarrow> (success result, st1)
           | Inl reflectionError \<Rightarrow>
               (let current = (case valueForId st1 valueId of None \<Rightarrow> v | Some v' \<Rightarrow> v');
                    (handled, v2, result, directError, st2) = invokeValue G current className signature (toArray argsValue) st1;
                    st3 = store_value valueId v2 st2
                in if handled then (success result, st3)
                   else case directError of
                     Some e \<Rightarrow> (failure e, st3)
                   | None \<Rightarrow>
                       (case reflectionError of
                          Some e \<Rightarrow> (failure e, st3)
                        | None \<Rightarrow> (failure (Msg ''Qt value type %1 has no generated method %2'' [AStr className, AStr signature]), st3))))"

definition gadget_property_json :: "('w, 'o) qt \<Rightarrow> metaproperty \<Rightarrow> json" where
  "gadget_property_json Q p =
     jobj [(''name'', JString (qs (prop_name p))), (''type'', JString (mt_qname Q (prop_type p))),
           (''readable'', JBool (prop_readable p)), (''writable'', JBool (prop_writable p))]"

definition gadget_method_json :: "metamethod \<Rightarrow> json" where
  "gadget_method_json m =
     jobj [(''signature'', JString (qs (meth_signature m))),
           (''kind'', JString (qs (if meth_kind m = MkSignal then ''signal'' else ''method''))),
           (''public'', JBool (meth_access m = AccPublic))]"

definition gadget_enum_json :: "metaenum \<Rightarrow> json" where
  "gadget_enum_json e =
     jobj [(''name'', JString (qs (enum_name e))), (''is_flag'', JBool (enum_isFlag e)), (''keys'', enum_keys_json e)]"

definition value_describe_json :: "('w, 'o) qt \<Rightarrow> metaobject \<Rightarrow> json" where
  "value_describe_json Q mo =
     jobj [(''class'', JString (qs (mo_className mo))),
           (''properties'', JArray (map (gadget_property_json Q) (mo_properties mo))),
           (''methods'', JArray (map gadget_method_json (mo_methods mo))),
           (''enumerators'', JArray (map gadget_enum_json (mo_enumerators mo)))]"

definition direct_description :: "qstring \<Rightarrow> json" where
  "direct_description className =
     jobj [(''type'', JString className), (''kind'', JString (qs ''value'')), (''methods'', JArray [])]"

definition op_value_describe_direct :: "('w, 'o) qt \<Rightarrow> ('w, 'o) gen \<Rightarrow> 'o qvariant \<Rightarrow> ('w, 'o) bridge \<Rightarrow> ('w, 'o) outcome" where
  "op_value_describe_direct Q G v st =
     (let className = mt_qname Q (variant_type v); direct = describeDirectValueType G className in
      if \<not> isUndefined direct then (success direct, st) else (success (direct_description className), st))"

definition gadget_property :: "('w, 'o) qt \<Rightarrow> metaobject \<Rightarrow> jobject \<Rightarrow> metaproperty option" where
  "gadget_property Q mo request = findProperty Q mo (cstr (toUtf8 Q (toString (jvalue request ''name''))))"

definition op_value_get ::
  "('w, 'o) qt \<Rightarrow> ('w, 'o) gen \<Rightarrow> jobject \<Rightarrow> metaobject \<Rightarrow> 'o qvariant \<Rightarrow> ('w, 'o) bridge \<Rightarrow> ('w, 'o) outcome" where
  "op_value_get Q G request mo v st =
     (let name = toString (jvalue request ''name'') in
      case gadget_property Q mo request of
        None \<Rightarrow> (failure (Msg ''unknown Qt gadget property %1'' [AStr name]), st)
      | Some property \<Rightarrow>
          if \<not> prop_readable property then (failure (Msg ''Qt gadget property %1 is not readable'' [AStr name]), st)
          else let (j, st') = toJson Q G (readOnGadget Q property v) st in (success j, st'))"

definition op_value_set ::
  "('w, 'o) qt \<Rightarrow> jobject \<Rightarrow> metaobject \<Rightarrow> handle \<Rightarrow> 'o qvariant \<Rightarrow> ('w, 'o) bridge \<Rightarrow> ('w, 'o) outcome" where
  "op_value_set Q request mo valueId v st =
     (let name = toString (jvalue request ''name'') in
      case gadget_property Q mo request of
        None \<Rightarrow> (failure (Msg ''unknown Qt gadget property %1'' [AStr name]), st)
      | Some property \<Rightarrow>
          if \<not> prop_writable property then (failure (Msg ''Qt gadget property %1 is read-only'' [AStr name]), st)
          else with_value Q st (jvalue request ''value'') (prop_type property)
            (\<lambda>converted.
               let (written, v') = writeOnGadget Q property v converted; st' = store_value valueId v' st in
               if \<not> written then (failure (Msg ''Qt rejected a value for gadget property %1'' [AStr name]), st')
               else (success JNull, st')))"

text \<open>The check on \<^verbatim>\<open>value_id\<close> is the range check of \<^verbatim>\<open>parseObjectId\<close> with one message.\<close>

definition parse_value_id :: "json \<Rightarrow> handle option" where
  "parse_value_id rawId =
     (if \<not> isDouble rawId \<or> \<not> dbl_isfinite (toDouble rawId) \<or> \<not> dbl_integral (toDouble rawId)
         \<or> dbl_less (toDouble rawId) (DFin 1) \<or> dbl_less (DFin 9007199254740991) (toDouble rawId)
      then None else Some (dbl_trunc (toDouble rawId)))"

definition op_value :: "('w, 'o) qt \<Rightarrow> ('w, 'o) gen \<Rightarrow> qstring \<Rightarrow> jobject \<Rightarrow> ('w, 'o) bridge \<Rightarrow> ('w, 'o) outcome" where
  "op_value Q G operation request st =
     (case parse_value_id (jvalue request ''value_id'') of
        None \<Rightarrow> fail ''value operation requires a positive integer value_id'' st
      | Some valueId \<Rightarrow>
          (case valueForId st valueId of
             None \<Rightarrow> fail ''Qt value handle is closed or unknown'' st
           | Some v \<Rightarrow>
               if operation = qs ''value_delete'' then (success JNull, st\<lparr>bvalues := smap_erase valueId (bvalues st)\<rparr>)
               else if operation = qs ''value_call'' then op_value_call Q G request valueId v st
               else
                 (case mt_metaObject Q (variant_type v) of
                    None \<Rightarrow>
                      if operation = qs ''value_describe'' then op_value_describe_direct Q G v st
                      else fail ''Qt value type has no gadget property meta-object'' st
                  | Some mo \<Rightarrow>
                      if operation = qs ''value_get'' then op_value_get Q G request mo v st
                      else if operation = qs ''value_set'' then op_value_set Q request mo valueId v st
                      else if operation = qs ''value_describe'' then (success (value_describe_json Q mo), st)
                      else (failure (Msg ''unknown Qt value operation %1'' [AStr operation]), st))))"

subsection \<open>Registry steps\<close>

lemma parse_value_id_iff: "parse_value_id j = Some oid \<longleftrightarrow> parseObjectId j = Inr oid"
  by (auto simp: parse_value_id_def parseObjectId_def Let_def)

lemma register_new_value_step: "ostep st (register_new_value v n st)"
  by (auto simp: register_new_value_def ostep_def split: prod.splits dest: registerValue_reg_step)

lemma op_value_new_step: "ostep st (op_value_new Q G request st)"
  unfolding op_value_new_def value_new_default_def Let_def
  by (auto simp: ostep_same fail_step register_new_value_step split: prod.splits option.splits sum.splits)

lemma op_value_get_step: "ostep st (op_value_get Q G request mo v st)"
  by (auto simp: op_value_get_def ostep_def Let_def split: option.splits prod.splits dest: toJson_reg_step)

lemma op_value_set_step:
  assumes "valueForId st valueId \<noteq> None"
  shows "ostep st (op_value_set Q request mo valueId v st)"
  using store_value_reg_step [OF assms]
  by (auto simp: op_value_set_def with_value_def ostep_def Let_def split: option.splits prod.splits sum.splits)

lemma reg_step_value_key: "reg_step st st' \<Longrightarrow> running st \<Longrightarrow> valueForId st k \<noteq> None \<Longrightarrow> valueForId st' k \<noteq> None"
  using value_table.bounded [of st k] by (auto simp: reg_step_def)

lemma op_value_call_step:
  assumes "gen_ok G" "running st" "valueForId st valueId \<noteq> None"
  shows "ostep st (op_value_call Q G request valueId v st)"
proof (cases "bad_args_field (jvalue request ''args'')")
  case True then show ?thesis by (simp add: op_value_call_def Let_def fail_step)
next
  case False
  define R where "R = (case mt_metaObject Q (variant_type v) of
                    None \<Rightarrow> (Inl None, st)
                  | Some mo \<Rightarrow>
                      (case invokeMethod Q G mo (OnGadget valueId) (toString (jvalue request ''method'')) (toArray (jvalue request ''args'')) st of
                         (Inl e, st') \<Rightarrow> (Inl (Some e), st')
                       | (Inr j, st') \<Rightarrow> (Inr j, st')))"
  obtain r st1 where R1: "R = (r, st1)" by force
  have 1: "reg_step st st1"
    using R1 by (auto simp: R_def split: option.splits prod.splits sum.splits dest: invokeMethod_reg_step)
  define current where "current = (case valueForId st1 valueId of None \<Rightarrow> v | Some v' \<Rightarrow> v')"
  obtain h v2 res de st2 where V: "invokeValue G current (mt_qname Q (variant_type v)) (toString (jvalue request ''method''))
      (toArray (jvalue request ''args'')) st1 = (h, v2, res, de, st2)"
    by (metis prod.exhaust)
  have 2: "reg_step st st2" using 1 invokeValue_reg_step [OF assms(1) V] by (rule reg_step_trans)
  have "valueForId st2 valueId \<noteq> None" by (rule reg_step_value_key [OF 2 assms(2,3)])
  then have 3: "reg_step st (store_value valueId v2 st2)"
    using reg_step_trans [OF 2 store_value_reg_step] by blast
  show ?thesis
    using False R1 V 1 3 unfolding op_value_call_def R_def [symmetric] Let_def current_def [symmetric]
    by (auto simp: ostep_def current_def split: sum.splits option.splits)
qed

lemma running_erase_value: "running st \<Longrightarrow> running (st\<lparr>bvalues := smap_erase k (bvalues st)\<rparr>)"
  using smap_erase_all_set [of "[k]" "bvalues st"]
  by (auto simp: running_def reg_inv_def smap.ok_erase)

end
