(* ===== verification/Object_Ops.thy ===== *)
theory Object_Ops
  imports Value_Ops
begin

text \<open>
  The operations on the application and on QObjects (qt6\_bridge.cpp): \<^verbatim>\<open>application\<close>, \<^verbatim>\<open>shutdown\<close>,
  \<^verbatim>\<open>new\<close>, \<^verbatim>\<open>events\<close>, \<^verbatim>\<open>describe\<close>, \<^verbatim>\<open>call_static\<close>, \<^verbatim>\<open>get\<close>, \<^verbatim>\<open>set\<close>,
  \<^verbatim>\<open>call\<close>, \<^verbatim>\<open>connect\<close> and \<^verbatim>\<open>delete\<close>.
\<close>

definition running_json :: json where
  "running_json = jobj [(''running'', JBool True)]"

definition op_application :: "('w, 'o) qt \<Rightarrow> thread \<Rightarrow> ('w, 'o) bridge \<Rightarrow> ('w, 'o) outcome" where
  "op_application Q currentThread st =
     (if application st then (success running_json, st)
      else (success running_json,
            st\<lparr>application := True, world := app_new Q (world st), applicationThread := currentThread\<rparr>))"

text \<open>Destroying subscriptions destroys their spies.\<close>

definition drop_spies :: "('w, 'o) qt \<Rightarrow> subscription list \<Rightarrow> 'w \<Rightarrow> 'w" where
  "drop_spies Q subs w = fold (\<lambda>s. spy_delete Q (sub_spy s)) subs w"

definition shutdown_roots :: "('w, 'o) qt \<Rightarrow> ('w, 'o) bridge \<Rightarrow> ptr list" where
  "shutdown_roots Q st =
     filter (\<lambda>p. p \<noteq> nullptr
               \<and> (let parent = parent_of Q (world st) p in parent = nullptr \<or> idForObject Q st parent = 0))
       (map (\<lambda>(_, p). qpointer_data Q (world st) p) (objects st))"

text \<open>\<^verbatim>\<open>if (!pointer.isNull()) delete pointer.data();\<close> over a list of QPointers.\<close>

definition delete_all :: "('w, 'o) qt \<Rightarrow> ptr list \<Rightarrow> 'w \<Rightarrow> 'w" where
  "delete_all Q ps w = fold (\<lambda>p w. if qpointer_data Q w p = nullptr then w else delete_object Q p w) ps w"

definition op_shutdown :: "('w, 'o) qt \<Rightarrow> thread \<Rightarrow> ('w, 'o) bridge \<Rightarrow> ('w, 'o) outcome" where
  "op_shutdown Q currentThread st =
     (if \<not> application st then (success JNull, st)
      else if currentThread \<noteq> applicationThread st then fail ''Qt shutdown must run on the application thread'' st
      else
        let w1 = drop_spies Q (concat (map snd (subscriptions st))) (world st);
            st1 = st\<lparr>world := w1, subscriptions := []\<rparr>;
            w2 = delete_all Q (shutdown_roots Q st1) w1;
            w3 = delete_all Q (map snd (objects st1)) w2
        in (success JNull,
            st1\<lparr>world := app_reset Q w3, objects := [], bvalues := [], application := False, applicationThread := 0\<rparr>))"

definition parent_field :: "('w, 'o) qt \<Rightarrow> ('w, 'o) bridge \<Rightarrow> json \<Rightarrow> qmsg + ptr" where
  "parent_field Q st parentValue =
     (if isUndefined parentValue \<or> isNull parentValue then Inr nullptr
      else case parseObjectId parentValue of
        Inl e \<Rightarrow> Inl e
      | Inr parentId \<Rightarrow>
          let parent = objectForId Q st parentId in
          if parent = nullptr then Inl (Msg ''parent object handle is closed or unknown'' []) else Inr parent)"

text \<open>\<^verbatim>\<open>new\<close> numbers the object without looking for an earlier handle.\<close>

definition register_created :: "('w, 'o) qt \<Rightarrow> ptr \<Rightarrow> ptr \<Rightarrow> ('w, 'o) bridge \<Rightarrow> ('w, 'o) outcome" where
  "register_created Q parent created st =
     (let st1 = (if parent \<noteq> nullptr \<and> parent_of Q (world st) created = nullptr
                 then set_world (setParent Q created parent (world st)) st else st);
          oid = nextObjectId st1;
          st2 = st1\<lparr>nextObjectId := oid + 1, objects := smap_emplace oid created (objects st1)\<rparr>
      in (success (jobj [(''object_id'', jint oid),
                         (''class'', JString (qs (mo_className (metaObject_of Q (world st2) created))))]), st2))"

definition op_new :: "('w, 'o) qt \<Rightarrow> ('w, 'o) gen \<Rightarrow> jobject \<Rightarrow> ('w, 'o) bridge \<Rightarrow> ('w, 'o) outcome" where
  "op_new Q G request st =
     (let className = toString (jvalue request ''class''); argsValue = jvalue request ''args'' in
      if className = [] \<or> hasNul className then fail ''new requires a non-empty Qt class name without NUL characters'' st
      else case parent_field Q st (jvalue request ''parent'') of
        Inl e \<Rightarrow> (failure e, st)
      | Inr parent \<Rightarrow>
          if bad_args_field argsValue then fail ''new field args must be a JSON array'' st
          else case createObject Q G className parent (toArray argsValue) st of
            (Inl e, st1) \<Rightarrow> (failure e, st1)
          | (Inr created, st1) \<Rightarrow>
              if created = nullptr then (failure (Raw []), st1) else register_created Q parent created st1)"

subsection \<open>Events\<close>

definition bad_event_number :: "json \<Rightarrow> bool" where
  "bad_event_number v \<longleftrightarrow>
     \<not> isUndefined v \<and> (let raw = toDouble v in
       \<not> dbl_isfinite raw \<or> \<not> dbl_integral raw \<or> dbl_less raw (DFin 0) \<or> dbl_less (DFin 2147483647) raw)"

definition event_json :: "subscription \<Rightarrow> json list \<Rightarrow> json" where
  "event_json s args =
     jobj [(''object_id'', jint (sub_objectId s)), (''signal'', JString (qs (sub_signature s))), (''args'', JArray args)]"

text \<open>
  The drain loops. The number is \<^verbatim>\<open>maximum - events.size()\<close>, what may still be appended; the
  inner loop consumes one unit per event and stops at an empty queue.
\<close>

fun drain_spy :: "('w, 'o) qt \<Rightarrow> ('w, 'o) gen \<Rightarrow> subscription \<Rightarrow> nat \<Rightarrow> ('w, 'o) bridge \<Rightarrow> json list \<times> nat \<times> ('w, 'o) bridge" where
  "drain_spy Q G s 0 st = ([], 0, st)"
| "drain_spy Q G s (Suc budget) st =
     (case spy_queue Q (world st) (sub_spy s) of
        [] \<Rightarrow> ([], Suc budget, st)
      | arguments # _ \<Rightarrow>
          let (jsonArguments, st1) = toJson_list Q G arguments (set_world (spy_takeFirst Q (sub_spy s) (world st)) st);
              (events, left, st2) = drain_spy Q G s budget st1
          in (event_json s jsonArguments # events, left, st2))"

fun drain_subscriptions ::
  "('w, 'o) qt \<Rightarrow> ('w, 'o) gen \<Rightarrow> subscription list \<Rightarrow> nat \<Rightarrow> ('w, 'o) bridge \<Rightarrow> json list \<times> nat \<times> ('w, 'o) bridge" where
  "drain_subscriptions Q G [] budget st = ([], budget, st)"
| "drain_subscriptions Q G (s # subs) budget st =
     (if \<not> spy_isValid Q (world st) (sub_spy s) then drain_subscriptions Q G subs budget st
      else let (events, left, st1) = drain_spy Q G s budget st in
        if left = 0 then (events, 0, st1)
        else let (more, left', st2) = drain_subscriptions Q G subs left st1 in (events @ more, left', st2))"

text \<open>Groups of closed objects are erased on the way; a full reply ends the loop and leaves the rest as it is.\<close>

fun drain_groups ::
  "('w, 'o) qt \<Rightarrow> ('w, 'o) gen \<Rightarrow> (handle, subscription list) smap \<Rightarrow> nat \<Rightarrow> ('w, 'o) bridge
     \<Rightarrow> json list \<times> (handle, subscription list) smap \<times> ('w, 'o) bridge" where
  "drain_groups Q G [] budget st = ([], [], st)"
| "drain_groups Q G ((oid, subs) # groups) budget st =
     (if objectForId Q st oid = nullptr then drain_groups Q G groups budget (set_world (drop_spies Q subs (world st)) st)
      else let (events, left, st1) = drain_subscriptions Q G subs budget st in
        if left = 0 then (events, (oid, subs) # groups, st1)
        else let (more, kept, st2) = drain_groups Q G groups left st1 in (events @ more, (oid, subs) # kept, st2))"

definition op_events :: "('w, 'o) qt \<Rightarrow> ('w, 'o) gen \<Rightarrow> jobject \<Rightarrow> ('w, 'o) bridge \<Rightarrow> ('w, 'o) outcome" where
  "op_events Q G request st =
     (let waitValue = jvalue request ''wait_ms''; maximumValue = jvalue request ''max'' in
      if (\<not> isUndefined waitValue \<and> \<not> isDouble waitValue) \<or> (\<not> isUndefined maximumValue \<and> \<not> isDouble maximumValue)
      then fail ''wait_ms and max must be integer JSON numbers'' st
      else if bad_event_number waitValue \<or> bad_event_number maximumValue
      then fail ''wait_ms and max must be non-negative 32-bit integers'' st
      else
        let waitMilliseconds = toInt waitValue 0; maximum = toInt maximumValue 64 in
        if waitMilliseconds < 0 \<or> waitMilliseconds > kMaxWaitMilliseconds then fail ''wait_ms must be in 0..30000'' st
        else if maximum < 1 \<or> maximum > kMaxEventsPerPoll then fail ''max must be in 1..1000'' st
        else
          let st1 = set_world (run_events Q waitMilliseconds (world st)) st;
              (events, kept, st2) = drain_groups Q G (subscriptions st1) (nat maximum) st1
          in (success (JArray events), st2\<lparr>subscriptions := kept\<rparr>))"

subsection \<open>Operations on one object\<close>

definition op_describe :: "('w, 'o) qt \<Rightarrow> jobject \<Rightarrow> ('w, 'o) bridge \<Rightarrow> ('w, 'o) outcome" where
  "op_describe Q request st =
     (case parseObjectId (jvalue request ''object_id'') of
        Inl e \<Rightarrow> (failure e, st)
      | Inr oid \<Rightarrow>
          let object = objectForId Q st oid in
          need (object \<noteq> nullptr) ''Qt object handle is closed or unknown'' st
            (success (metaObjectDescription Q (metaObject_of Q (world st) object)), st))"

definition op_call_static :: "('w, 'o) gen \<Rightarrow> jobject \<Rightarrow> ('w, 'o) bridge \<Rightarrow> ('w, 'o) outcome" where
  "op_call_static G request st =
     (let className = toString (jvalue request ''class''); signature = toString (jvalue request ''method'');
          argsValue = jvalue request ''args''
      in if \<not> isArray argsValue then fail ''call_static args must be a JSON array'' st
         else if className = [] \<or> hasNul className \<or> signature = [] \<or> hasNul signature
         then fail ''call_static requires class and method names without NUL characters'' st
         else
           let (handled, directResult, directError, st') = invoke G nullptr className signature (toArray argsValue) st in
           if \<not> handled then (failure (Msg ''static method %1 is not exposed for %2'' [AStr signature, AStr className]), st')
           else case directError of Some e \<Rightarrow> (failure e, st') | None \<Rightarrow> (success directResult, st'))"

definition op_get :: "('w, 'o) qt \<Rightarrow> ('w, 'o) gen \<Rightarrow> jobject \<Rightarrow> ptr \<Rightarrow> ('w, 'o) bridge \<Rightarrow> ('w, 'o) outcome" where
  "op_get Q G request object st =
     (let name = toString (jvalue request ''name''); key = toUtf8 Q name in
      if name = [] \<or> hasNul name then fail ''get requires a non-empty property name without NUL characters'' st
      else case findProperty Q (metaObject_of Q (world st) object) key of
        Some property \<Rightarrow>
          (let (v, w) = prop_read Q property object (world st); (j, st') = toJson Q G v (set_world w st) in (success j, st'))
      | None \<Rightarrow>
          if key \<in> set (dynamic_names Q (world st) object)
          then (let (j, st') = toJson Q G (dynamic_get Q (world st) object key) st in (success j, st'))
          else (failure (Msg ''unknown Qt property %1'' [AStr name]), st))"

definition op_set :: "('w, 'o) qt \<Rightarrow> jobject \<Rightarrow> ptr \<Rightarrow> ('w, 'o) bridge \<Rightarrow> ('w, 'o) outcome" where
  "op_set Q request object st =
     (case setProperty Q object (toString (jvalue request ''name'')) (jvalue request ''value'') st of
        (Inl e, st') \<Rightarrow> (failure e, st')
      | (Inr _, st') \<Rightarrow> (success JNull, st'))"

definition op_call :: "('w, 'o) qt \<Rightarrow> ('w, 'o) gen \<Rightarrow> jobject \<Rightarrow> ptr \<Rightarrow> ('w, 'o) bridge \<Rightarrow> ('w, 'o) outcome" where
  "op_call Q G request object st =
     (let signature = toString (jvalue request ''method''); argsValue = jvalue request ''args'' in
      if signature = [] then fail ''call requires a method signature'' st
      else if bad_args_field argsValue then fail ''call field args must be a JSON array'' st
      else call_method Q G object signature (toArray argsValue) st)"

definition add_subscription :: "handle \<Rightarrow> subscription \<Rightarrow> ('w, 'o) bridge \<Rightarrow> ('w, 'o) bridge" where
  "add_subscription oid s st =
     st\<lparr>subscriptions := smap_put oid ((case smap_find (subscriptions st) oid of None \<Rightarrow> [] | Some subs \<Rightarrow> subs) @ [s]) (subscriptions st)\<rparr>"

definition op_connect :: "('w, 'o) qt \<Rightarrow> jobject \<Rightarrow> handle \<Rightarrow> ptr \<Rightarrow> ('w, 'o) bridge \<Rightarrow> ('w, 'o) outcome" where
  "op_connect Q request oid object st =
     (let rawSignature = toString (jvalue request ''signal''); mo = metaObject_of Q (world st) object in
      if rawSignature = [] \<or> hasNul rawSignature then fail ''connect requires a signal signature without NUL characters'' st
      else
        let signature = normalizedSignature Q (toUtf8 Q rawSignature) in
        case findSignal Q mo signature of
          None \<Rightarrow> (failure (Msg ''signal %1 does not exist on %2'' [AStr rawSignature, AStr (qs (mo_className mo))]), st)
        | Some m \<Rightarrow>
            let (spy, w) = spy_new Q object m (world st) in
            if \<not> spy_isValid Q w spy
            then (failure (Msg ''Qt cannot capture signal %1 because one or more argument types are not registered'' [AStr rawSignature]),
                  set_world (spy_delete Q spy w) st)
            else (success JNull,
                  add_subscription oid \<lparr>sub_objectId = oid, sub_signature = signature, sub_spy = spy\<rparr> (set_world w st)))"

definition invalidated :: "('w, 'o) qt \<Rightarrow> ptr \<Rightarrow> ('w, 'o) bridge \<Rightarrow> handle list" where
  "invalidated Q object st =
     map fst (filter (\<lambda>(_, p). let candidate = qpointer_data Q (world st) p in
                candidate = nullptr \<or> candidate = object \<or> isDescendantOf Q (world st) candidate object) (objects st))"

definition erase_subscriptions :: "('w, 'o) qt \<Rightarrow> handle list \<Rightarrow> ('w, 'o) bridge \<Rightarrow> ('w, 'o) bridge" where
  "erase_subscriptions Q oids st =
     st\<lparr>world := drop_spies Q (concat (map snd (filter (\<lambda>(k, _). k \<in> set oids) (subscriptions st)))) (world st),
        subscriptions := fold smap_erase oids (subscriptions st)\<rparr>"

definition op_delete :: "('w, 'o) qt \<Rightarrow> ptr \<Rightarrow> ('w, 'o) bridge \<Rightarrow> ('w, 'o) outcome" where
  "op_delete Q object st =
     (let oids = invalidated Q object st;
          st1 = (erase_subscriptions Q oids st)\<lparr>objects := fold smap_erase oids (objects st)\<rparr>
      in (success JNull, set_world (delete_object Q object (world st1)) st1))"

end
