(* ===== verification/Handle_Request.thy ===== *)
theory Handle_Request
  imports Object_Ops
begin

text \<open>
  \<^verbatim>\<open>handleRequest\<close> (qt6\_bridge.cpp): the five questions about the linked
  package that need no application, the guards, and the dispatch over
  the operations, in the source's order.
\<close>

definition has_dot :: "qstring \<Rightarrow> bool" where
  "has_dot name \<longleftrightarrow> qch CHR ''.'' \<in> set name"

definition op_constructors :: "('w, 'o) gen \<Rightarrow> json" where
  "op_constructors G =
     (let qualifiedNames = remdups (filter has_dot (availableConstructors G @ availableArgumentConstructors G));
          shortNames = map (\<lambda>name. snd (split_qualified name)) qualifiedNames
      in JArray (map JString (sort (qualifiedNames @ counted_once shortNames))))"

definition op_value_types :: "('w, 'o) gen \<Rightarrow> json" where
  "op_value_types G =
     JArray (map JString (sorted_unique (availableValueTypes G @ availableDirectValueTypes G @ availableDirectValueConstructors G)))"

definition op_describe_class :: "('w, 'o) qt \<Rightarrow> ('w, 'o) gen \<Rightarrow> jobject \<Rightarrow> reply" where
  "op_describe_class Q G request =
     (let className = toString (jvalue request ''class'') in
      if className = [] \<or> hasNul className
      then failure (Msg ''describe_class requires a non-empty Qt class name without NUL characters'' [])
      else case classMetaObject G className of
        Inl e \<Rightarrow> failure e
      | Inr None \<Rightarrow> failure (Msg ''Qt class %1 has no linked QObject meta-object'' [AStr className])
      | Inr (Some mo) \<Rightarrow> success (metaObjectDescription Q mo))"

definition describe_direct_type :: "('w, 'o) gen \<Rightarrow> qstring \<Rightarrow> reply" where
  "describe_direct_type G typeName =
     (let shortName = section_last (qch CHR ''.'') typeName; direct = describeDirectValueType G shortName in
      if \<not> isUndefined direct then success direct
      else if shortName \<in> set (availableDirectValueConstructors G) then success (direct_description shortName)
      else failure (Msg ''Qt value type %1 has no generated meta-object or native method bindings'' [AStr typeName]))"

definition op_describe_value_type :: "('w, 'o) qt \<Rightarrow> ('w, 'o) gen \<Rightarrow> jobject \<Rightarrow> reply" where
  "op_describe_value_type Q G request =
     (let typeName = toString (jvalue request ''type'') in
      if typeName = [] \<or> hasNul typeName
      then failure (Msg ''describe_value_type requires a non-empty Qt value type name without NUL characters'' [])
      else case valueMetaType G typeName of
        Inl e \<Rightarrow> failure e
      | Inr type \<Rightarrow>
          (case (if type = MtInvalid then None else mt_metaObject Q type) of
             Some mo \<Rightarrow> success (metaObjectDescription Q mo)
           | None \<Rightarrow> describe_direct_type G typeName))"

text \<open>\<open>None\<close>: not one of the questions about the package.\<close>

definition package_query :: "('w, 'o) qt \<Rightarrow> ('w, 'o) gen \<Rightarrow> qstring \<Rightarrow> jobject \<Rightarrow> reply option" where
  "package_query Q G operation request =
     (if operation = qs ''constructors'' then Some (success (op_constructors G))
      else if operation = qs ''value_types'' then Some (success (op_value_types G))
      else if operation = qs ''meta_classes'' then Some (success (JArray (map JString (availableMetaObjects G))))
      else if operation = qs ''describe_class'' then Some (op_describe_class Q G request)
      else if operation = qs ''describe_value_type'' then Some (op_describe_value_type Q G request)
      else None)"

text \<open>The operations on an object named by \<^verbatim>\<open>object_id\<close>; any other operation fails last.\<close>

definition object_operation :: "('w, 'o) qt \<Rightarrow> ('w, 'o) gen \<Rightarrow> qstring \<Rightarrow> jobject \<Rightarrow> ('w, 'o) bridge \<Rightarrow> ('w, 'o) outcome" where
  "object_operation Q G operation request st =
     (case parseObjectId (jvalue request ''object_id'') of
        Inl e \<Rightarrow> (failure e, st)
      | Inr oid \<Rightarrow>
          let object = objectForId Q st oid in
          if object = nullptr then fail ''Qt object handle is closed or unknown'' st
          else if operation = qs ''get'' then op_get Q G request object st
          else if operation = qs ''set'' then op_set Q request object st
          else if operation = qs ''call'' then op_call Q G request object st
          else if operation = qs ''connect'' then op_connect Q request oid object st
          else if operation = qs ''delete'' then op_delete Q object st
          else (failure (Msg ''unsupported Qt operation: %1'' [AStr operation]), st))"

definition application_operation :: "('w, 'o) qt \<Rightarrow> ('w, 'o) gen \<Rightarrow> qstring \<Rightarrow> jobject \<Rightarrow> ('w, 'o) bridge \<Rightarrow> ('w, 'o) outcome" where
  "application_operation Q G operation request st =
     (if operation = qs ''value_new'' then op_value_new Q G request st
      else if operation = qs ''new'' then op_new Q G request st
      else if operation = qs ''events'' then op_events Q G request st
      else if operation = qs ''describe'' then op_describe Q request st
      else if take 6 operation = qs ''value_'' then op_value Q G operation request st
      else if operation = qs ''call_static'' then op_call_static G request st
      else object_operation Q G operation request st)"

definition guard_failure :: "('w, 'o) qt \<Rightarrow> thread \<Rightarrow> ('w, 'o) bridge \<Rightarrow> qmsg option" where
  "guard_failure Q currentThread st =
     (if \<not> application st \<or> \<not> app_instance Q (world st)
      then Some (Msg ''start the Qt application before creating or using Qt objects'' [])
      else if currentThread \<noteq> applicationThread st
      then Some (Msg ''Qt requests must run on the application thread'' [])
      else None)"

definition handleRequest :: "('w, 'o) qt \<Rightarrow> ('w, 'o) gen \<Rightarrow> thread \<Rightarrow> jobject \<Rightarrow> ('w, 'o) bridge \<Rightarrow> ('w, 'o) outcome" where
  "handleRequest Q G currentThread request st =
     (let operation = toString (jvalue request ''op'') in
      if operation = [] then fail ''request requires a string field named op'' st
      else case package_query Q G operation request of
        Some r \<Rightarrow> (r, st)
      | None \<Rightarrow>
          if operation = qs ''application'' then op_application Q currentThread st
          else if operation = qs ''shutdown'' then op_shutdown Q currentThread st
          else case guard_failure Q currentThread st of
            Some e \<Rightarrow> (failure e, st)
          | None \<Rightarrow> application_operation Q G operation request st)"

end
