(* ===== verification/Request_Invariant.thy ===== *)
theory Request_Invariant
  imports Handle_Request
begin

text \<open>
  Every request keeps the registry invariant, and handles are never redirected or reused:
  \<open>request_ok\<close> is shown for each operation and then for \<^verbatim>\<open>handleRequest\<close> as a whole.
\<close>

text \<open>What one request may do to a handle that was issued before it: close it, never redirect it.\<close>

definition handle_step :: "('w, 'o) bridge \<Rightarrow> ('w, 'o) bridge \<Rightarrow> bool" where
  "handle_step st st' \<longleftrightarrow>
     nextObjectId st \<le> nextObjectId st'
     \<and> (\<forall>k<nextObjectId st. smap_find (objects st') k = None \<or> smap_find (objects st') k = smap_find (objects st) k)
     \<and> (\<forall>k<nextObjectId st. valueForId st k = None \<longrightarrow> valueForId st' k = None)"

definition request_ok :: "('w, 'o) bridge \<Rightarrow> ('w, 'o) outcome \<Rightarrow> bool" where
  "request_ok st out \<longleftrightarrow> reg_inv (snd out) \<and> handle_step st (snd out)"

lemma handle_step_refl [simp]: "handle_step st st"
  by (simp add: handle_step_def)

lemma handle_step_trans: "handle_step a b \<Longrightarrow> handle_step b c \<Longrightarrow> handle_step a c"
  unfolding handle_step_def by (metis order_less_le_trans order_trans)

lemma reg_step_handle_step: "reg_step st st' \<Longrightarrow> handle_step st st'"
  by (auto simp: reg_step_def handle_step_def)

lemma request_ok_same [simp]: "reg_inv st \<Longrightarrow> request_ok st (r, st)"
  by (simp add: request_ok_def)

lemma ostep_request_ok: "running st \<Longrightarrow> ostep st out \<Longrightarrow> request_ok st out"
  by (auto simp: request_ok_def ostep_def reg_step_def running_def intro: reg_step_handle_step [unfolded reg_step_def])

subsection \<open>Creation\<close>

lemma register_created_ok:
  assumes "running st"
  shows "request_ok st (register_created Q parent created st)"
proof -
  define st1 where "st1 = (if parent \<noteq> nullptr \<and> parent_of Q (world st) created = nullptr
                 then set_world (setParent Q created parent (world st)) st else st)"
  have r: "running st1" and s: "reg_step st st1" using assms by (auto simp: st1_def)
  define st2 where "st2 = st1\<lparr>nextObjectId := nextObjectId st1 + 1, objects := smap_emplace (nextObjectId st1) created (objects st1)\<rparr>"
  have "reg_inv st2" using reg_inv_add_object [of st1] r by (simp add: st2_def running_def)
  moreover have "handle_step st1 st2"
    by (auto simp: st2_def handle_step_def smap_emplace_def valueForId_def split: option.splits)
  with s have "handle_step st st2" by (blast intro: handle_step_trans reg_step_handle_step)
  ultimately show ?thesis
    unfolding register_created_def Let_def st1_def [symmetric] st2_def [symmetric] by (simp add: request_ok_def)
qed

lemma op_new_ok:
  assumes "gen_ok G" "running st"
  shows "request_ok st (op_new Q G request st)"
proof -
  have inv: "reg_inv st" using assms(2) by (simp add: running_def)
  have made: "request_ok st (case createObject Q G c p args st of (Inl e, st1) \<Rightarrow> (failure e, st1)
      | (Inr created, st1) \<Rightarrow> if created = nullptr then (failure (Raw []), st1) else register_created Q p created st1)" for c p args
  proof -
    obtain r st1 where c: "createObject Q G c p args st = (r, st1)" by force
    have s: "reg_step st st1" by (rule createObject_reg_step [OF assms(1) c])
    then have r1: "running st1" using assms(2) by (simp add: reg_step_def)
    have "request_ok st (x, st1)" for x
      using r1 reg_step_handle_step [OF s] by (simp add: request_ok_def running_def)
    moreover have "request_ok st (register_created Q p q st1)" for q
      using register_created_ok [OF r1, of Q p q] reg_step_handle_step [OF s]
      by (auto simp: request_ok_def intro: handle_step_trans)
    ultimately show ?thesis using c by (auto split: sum.splits)
  qed
  show ?thesis
    using inv made by (auto simp: op_new_def fail_def Let_def split: sum.splits)
qed

subsection \<open>Events\<close>

lemma drain_spy_reg_step: "drain_spy Q G s n st = (es, left, st') \<Longrightarrow> reg_step st st' \<and> length es + left = n"
proof (induction Q G s n st arbitrary: es left st' rule: drain_spy.induct)
  case (2 Q G s budget st)
  show ?case
  proof (cases "spy_queue Q (world st) (sub_spy s)")
    case Nil with 2 show ?thesis by auto
  next
    case (Cons args rest)
    obtain js st1 where j: "toJson_list Q G args (set_world (spy_takeFirst Q (sub_spy s) (world st)) st) = (js, st1)" by force
    obtain es1 l1 st2 where d: "drain_spy Q G s budget st1 = (es1, l1, st2)" by (metis prod.exhaust)
    have "reg_step st st1"
      by (rule reg_step_trans [OF reg_step_set_world value_ext_reg_step [OF toJson_list_ext [OF j]]])
    moreover have "reg_step st1 st2 \<and> length es1 + l1 = budget"
      using 2(1) [OF Cons j [symmetric] refl] d by blast
    ultimately show ?thesis using 2(2) Cons j d by (auto intro: reg_step_trans)
  qed
qed simp

lemma drain_subscriptions_reg_step:
  "drain_subscriptions Q G subs n st = (es, left, st') \<Longrightarrow> reg_step st st' \<and> length es + left = n"
proof (induction Q G subs n st arbitrary: es left st' rule: drain_subscriptions.induct)
  case (2 Q G s subs budget st)
  show ?case
  proof (cases "spy_isValid Q (world st) (sub_spy s)")
    case False with 2 show ?thesis by simp
  next
    case True
    obtain es1 l1 st1 where d: "drain_spy Q G s budget st = (es1, l1, st1)" by (metis prod.exhaust)
    note d1 = drain_spy_reg_step [OF d]
    show ?thesis
    proof (cases "l1 = 0")
      case l: True with 2(3) True d d1 show ?thesis by auto
    next
      case False
      obtain es2 l2 st2 where r: "drain_subscriptions Q G subs l1 st1 = (es2, l2, st2)" by (metis prod.exhaust)
      have "reg_step st1 st2 \<and> length es2 + l2 = l1"
        using 2(2) [OF _ d [symmetric] refl refl False r] True by simp
      then show ?thesis using 2(3) True False d d1 r by (auto intro: reg_step_trans)
    qed
  qed
qed simp

lemma drain_groups_facts:
  "drain_groups Q G gs n st = (es, kept, st') \<Longrightarrow>
     reg_step st st' \<and> length es \<le> n \<and> set kept \<subseteq> set gs \<and> (smap_ok gs \<longrightarrow> smap_ok kept)"
proof (induction Q G gs n st arbitrary: es kept st' rule: drain_groups.induct)
  case (2 Q G oid subs groups budget st)
  show ?case
  proof (cases "objectForId Q st oid = nullptr")
    case True
    with 2(1) 2(3) show ?thesis
      by (auto simp: smap_ok_Cons intro: reg_step_trans [OF reg_step_set_world])
  next
    case False
    obtain es1 l1 st1 where d: "drain_subscriptions Q G subs budget st = (es1, l1, st1)" by (metis prod.exhaust)
    note d1 = drain_subscriptions_reg_step [OF d]
    show ?thesis
    proof (cases "l1 = 0")
      case True with 2(3) False d d1 show ?thesis by auto
    next
      case l: False
      obtain es2 k2 st2 where r: "drain_groups Q G groups l1 st1 = (es2, k2, st2)" by (metis prod.exhaust)
      have IH: "reg_step st1 st2 \<and> length es2 \<le> l1 \<and> set k2 \<subseteq> set groups \<and> (smap_ok groups \<longrightarrow> smap_ok k2)"
        using 2(2) [OF False d [symmetric] refl refl l r] .
      have "\<forall>x\<in>set k2. oid < fst x" if "\<forall>x\<in>set groups. oid < fst x" using IH that by blast
      then show ?thesis using 2(3) False l d d1 r IH by (auto simp: smap_ok_Cons intro: reg_step_trans)
    qed
  qed
qed simp

lemma running_kept:
  assumes "running st" "set kept \<subseteq> set (subscriptions st)" "smap_ok kept"
  shows "running (st\<lparr>subscriptions := kept\<rparr>)"
proof -
  have subs: "fst ` set (subscriptions st) \<subseteq> fst ` set (objects st)"
    "\<forall>(k, subs)\<in>set (subscriptions st). \<forall>s\<in>set subs. sub_objectId s = k"
    using assms(1) by (simp_all add: running_def reg_inv_def)
  have "fst ` set kept \<subseteq> fst ` set (objects st)" using subs(1) assms(2) by blast
  moreover have "\<forall>(k, subs)\<in>set kept. \<forall>s\<in>set subs. sub_objectId s = k" using subs(2) assms(2) by blast
  ultimately show ?thesis using assms(1,3) by (simp add: running_def reg_inv_def)
qed

lemma op_events_ok:
  assumes "running st"
  shows "request_ok st (op_events Q G request st)"
proof -
  have inv: "reg_inv st" using assms by (simp add: running_def)
  have "request_ok st (let st1 = set_world w st; (events, kept, st2) = drain_groups Q G (subscriptions st1) n st1
                       in (r events, st2\<lparr>subscriptions := kept\<rparr>))" for w n r
  proof -
    obtain es kept st2 where d: "drain_groups Q G (subscriptions st) n (set_world w st) = (es, kept, st2)" by (metis prod.exhaust)
    note f = drain_groups_facts [OF d]
    have s: "reg_step st st2" using f by (blast intro: reg_step_trans [OF reg_step_set_world])
    have r2: "running st2" and subs: "subscriptions st2 = subscriptions st" using s assms by (simp_all add: reg_step_def)
    have "running (st2\<lparr>subscriptions := kept\<rparr>)"
      using running_kept [OF r2] f inv subs by (simp add: reg_inv_def)
    moreover have "handle_step st (st2\<lparr>subscriptions := kept\<rparr>)"
      using reg_step_handle_step [OF s] by (simp add: handle_step_def valueForId_def)
    ultimately show ?thesis using d by (simp add: request_ok_def running_def)
  qed
  then show ?thesis using inv by (simp add: op_events_def fail_def Let_def)
qed

subsection \<open>Deletion and connection\<close>

lemma keys_erase_all: "fst ` set (fold smap_erase ks m) = fst ` set m - set ks"
  by (auto simp: smap_erase_all_set image_iff)

lemma op_delete_ok:
  assumes "running st"
  shows "request_ok st (op_delete Q object st)"
proof -
  define oids where "oids = invalidated Q object st"
  have inv: "reg_inv st" "application st" using assms by (simp_all add: running_def)
  define os ss where "os = fold smap_erase oids (objects st)" and "ss = fold smap_erase oids (subscriptions st)"
  have old: "fst ` set (subscriptions st) \<subseteq> fst ` set (objects st)"
    "\<forall>(k, subs)\<in>set (subscriptions st). \<forall>s\<in>set subs. sub_objectId s = k"
    "\<forall>k\<in>fst ` set (objects st). 1 \<le> k \<and> k < nextObjectId st" "fst ` set (objects st) \<inter> fst ` set (bvalues st) = {}"
    using inv by (simp_all add: reg_inv_def)
  have keys: "fst ` set os = fst ` set (objects st) - set oids" "fst ` set ss = fst ` set (subscriptions st) - set oids"
    by (simp_all add: os_def ss_def keys_erase_all)
  have sub: "set ss \<subseteq> set (subscriptions st)" by (auto simp: ss_def smap_erase_all_set)
  have "fst ` set ss \<subseteq> fst ` set os" using old(1) unfolding keys by blast
  moreover have "\<forall>(k, subs)\<in>set ss. \<forall>s\<in>set subs. sub_objectId s = k" using old(2) sub by blast
  moreover have "\<forall>k\<in>fst ` set os. 1 \<le> k \<and> k < nextObjectId st" "fst ` set os \<inter> fst ` set (bvalues st) = {}"
    using old(3,4) unfolding keys by blast+
  moreover have "smap_ok os" "smap_ok ss"
    using inv by (simp_all add: os_def ss_def reg_inv_def smap.ok_erase_all)
  ultimately have "reg_inv (snd (op_delete Q object st))"
    using inv unfolding op_delete_def Let_def oids_def [symmetric] erase_subscriptions_def os_def [symmetric] ss_def [symmetric]
    by (simp add: reg_inv_def)
  moreover have "handle_step st (snd (op_delete Q object st))"
    by (auto simp: op_delete_def Let_def erase_subscriptions_def handle_step_def valueForId_def smap.find_erase_all)
  ultimately show ?thesis by (simp add: request_ok_def)
qed

lemma running_add_subscription:
  assumes "running st" "smap_find (objects st) oid \<noteq> None" "sub_objectId s = oid"
  shows "running (add_subscription oid s st)"
proof -
  define old where "old = (case smap_find (subscriptions st) oid of None \<Rightarrow> [] | Some subs \<Rightarrow> subs)"
  have own: "\<forall>x\<in>set old. sub_objectId x = oid"
  proof (cases "smap_find (subscriptions st) oid")
    case (Some subs)
    then show ?thesis
      using assms(1) smap_find_Some_in [OF Some] by (auto simp: old_def running_def reg_inv_def)
  qed (simp add: old_def)
  have "oid \<in> fst ` set (objects st)" using assms(2) by (simp add: smap_find_None_iff)
  moreover have ok: "smap_ok (smap_put oid (old @ [s]) (subscriptions st))"
    using assms(1) by (simp add: running_def reg_inv_def smap_ok_put)
  moreover have "\<forall>(k, subs)\<in>set (smap_put oid (old @ [s]) (subscriptions st)). \<forall>x\<in>set subs. sub_objectId x = k"
  proof (intro ballI, safe)
    fix k subs x
    assume kin: "(k, subs) \<in> set (smap_put oid (old @ [s]) (subscriptions st))" and x: "x \<in> set subs"
    show "sub_objectId x = k"
    proof (cases "k = oid")
      case True
      with smap_find_in [OF ok kin] have "subs = old @ [s]" by simp
      with x own assms(3) True show ?thesis by auto
    next
      case False
      with smap_find_in [OF ok kin] have "(k, subs) \<in> set (subscriptions st)" by (auto dest: smap_find_Some_in)
      with assms(1) x show ?thesis by (auto simp: running_def reg_inv_def)
    qed
  qed
  ultimately show ?thesis
    using assms(1) by (auto simp: running_def reg_inv_def add_subscription_def keys_smap_put old_def)
qed

lemma op_connect_ok:
  assumes "running st" "objectForId Q st oid \<noteq> nullptr"
  shows "request_ok st (op_connect Q request oid object st)"
proof -
  have found: "smap_find (objects st) oid \<noteq> None" using assms(2) by (auto simp: objectForId_def split: option.splits)
  have "request_ok st (r, add_subscription oid \<lparr>sub_objectId = oid, sub_signature = b, sub_spy = n\<rparr> (set_world w st))" for r b n w
  proof -
    define s where "s = \<lparr>sub_objectId = oid, sub_signature = b, sub_spy = n\<rparr>"
    have "running (add_subscription oid s (set_world w st))"
      using running_add_subscription [of "set_world w st" oid s] assms(1) found by (simp add: s_def)
    moreover have "handle_step st (add_subscription oid s (set_world w st))"
      by (simp add: add_subscription_def handle_step_def valueForId_def)
    ultimately show ?thesis unfolding s_def [symmetric] by (simp add: request_ok_def running_def)
  qed
  moreover have "request_ok st (r, set_world w st)" for r w
    using ostep_request_ok [OF assms(1), of "(r, set_world w st)"] by (simp add: ostep_def)
  moreover have "request_ok st (r, st)" for r using assms(1) by (simp add: running_def)
  ultimately show ?thesis
    by (auto simp: op_connect_def fail_def Let_def split: option.splits prod.splits)
qed

subsection \<open>The remaining operations\<close>

lemma op_value_ok:
  assumes "gen_ok G" "running st"
  shows "request_ok st (op_value Q G operation request st)"
proof -
  have inv: "reg_inv st" using assms(2) by (simp add: running_def)
  have erase: "request_ok st (r, st\<lparr>bvalues := smap_erase k (bvalues st)\<rparr>)" for r k
    using running_erase_value [OF assms(2), of k]
    by (simp add: request_ok_def running_def handle_step_def valueForId_def)
  have "request_ok st (op_value_call Q G request k v st)" "request_ok st (op_value_set Q request mo k v st)"
    if "valueForId st k = Some v" for k v mo
    using that op_value_call_step [OF assms, of k Q request v] op_value_set_step [of st k Q request mo v]
    by (simp_all add: ostep_request_ok [OF assms(2)])
  moreover have "request_ok st (op_value_get Q G request mo v st)" for mo v
    by (rule ostep_request_ok [OF assms(2) op_value_get_step])
  ultimately show ?thesis
    using inv erase
    by (auto simp: op_value_def fail_def op_value_describe_direct_def Let_def split: option.splits)
qed

lemma op_get_ok: "running st \<Longrightarrow> request_ok st (op_get Q G request object st)"
  by (rule ostep_request_ok)
     (auto simp: op_get_def ostep_def fail_def Let_def split: option.splits prod.splits
       dest: toJson_reg_step intro: reg_step_trans [OF reg_step_set_world toJson_reg_step])

lemma op_set_ok: "running st \<Longrightarrow> request_ok st (op_set Q request object st)"
  by (rule ostep_request_ok)
     (auto simp: op_set_def ostep_def split: prod.splits sum.splits dest: setProperty_reg_step)

lemma op_call_ok: "gen_ok G \<Longrightarrow> running st \<Longrightarrow> request_ok st (op_call Q G request object st)"
  by (rule ostep_request_ok) (auto simp: op_call_def Let_def fail_step call_method_step)

lemma op_call_static_ok: "gen_ok G \<Longrightarrow> running st \<Longrightarrow> request_ok st (op_call_static G request st)"
  by (rule ostep_request_ok)
     (auto simp: op_call_static_def ostep_def fail_def Let_def split: prod.splits option.splits dest: invoke_reg_step)

lemma op_describe_ok: "running st \<Longrightarrow> request_ok st (op_describe Q request st)"
  by (rule ostep_request_ok) (auto simp: op_describe_def Let_def split: sum.splits intro!: call_steps)

lemma op_application_ok: "reg_inv st \<Longrightarrow> request_ok st (op_application Q t st)"
  by (auto simp: op_application_def request_ok_def reg_inv_def handle_step_def valueForId_def)

lemma op_shutdown_ok: "reg_inv st \<Longrightarrow> request_ok st (op_shutdown Q t st)"
  by (auto simp: op_shutdown_def fail_def request_ok_def reg_inv_def handle_step_def valueForId_def Let_def)

lemma object_operation_ok:
  assumes "gen_ok G" "running st"
  shows "request_ok st (object_operation Q G operation request st)"
  using assms op_connect_ok [OF assms(2)] op_delete_ok [OF assms(2)]
  by (auto simp: object_operation_def fail_def Let_def running_def op_get_ok op_set_ok op_call_ok split: sum.splits)

lemma application_operation_ok:
  assumes "gen_ok G" "running st"
  shows "request_ok st (application_operation Q G operation request st)"
  using assms ostep_request_ok [OF assms(2) op_value_new_step]
  by (simp add: application_operation_def op_new_ok op_events_ok op_describe_ok op_value_ok op_call_static_ok object_operation_ok)

lemma handleRequest_ok:
  assumes "gen_ok G" "reg_inv st"
  shows "request_ok st (handleRequest Q G t request st)"
proof -
  have "request_ok st (application_operation Q G operation request st)" if "guard_failure Q t st = None" for operation
    using that application_operation_ok [OF assms(1)] assms(2)
    by (auto simp: guard_failure_def running_def split: if_splits)
  then show ?thesis
    using assms by (auto simp: handleRequest_def fail_def op_application_ok op_shutdown_ok Let_def split: option.splits)
qed

end
