(* ===== verification/Wire.thy ===== *)
theory Wire
  imports Request_Invariant
begin

text \<open>
  The C interface (qt6\_bridge.cpp): \<^verbatim>\<open>writeResponse\<close>,
  \<^verbatim>\<open>kry_qt6_abi_version\<close> and \<^verbatim>\<open>kry_qt6_request\<close> with its catch blocks, and the mutex that
  serialises the callers, as a step relation over threads. \<^verbatim>\<open>int32_t\<close> is a 32-bit word.
\<close>

definition maximumJsonBytes :: int where
  "maximumJsonBytes = (kMaxResponseBytes div 4) * 3 - 3"

definition wire_limit_reply :: reply where
  "wire_limit_reply = failure (Msg ''Qt response exceeds the 16 MiB wire limit'' [])"

definition reply_text :: "('w, 'o) qt \<Rightarrow> reply \<Rightarrow> bytes" where
  "reply_text Q r = json_compact Q (reply_json (render Q) r)"

definition bounded_text :: "('w, 'o) qt \<Rightarrow> reply \<Rightarrow> bytes" where
  "bounded_text Q r =
     (if int (length (reply_text Q r)) > maximumJsonBytes then reply_text Q wire_limit_reply else reply_text Q r)"

text \<open>The returned number and the bytes copied to the buffer (\<open>None\<close>: the buffer is not touched).\<close>

definition writeResponse :: "('w, 'o) qt \<Rightarrow> reply \<Rightarrow> bool \<Rightarrow> i32 \<Rightarrow> i32 \<times> bytes option" where
  "writeResponse Q r hasOutput capacity =
     (let encoded = toBase64 Q (bounded_text Q r); len = word_of_int (int (length encoded)) in
      if \<not> hasOutput \<or> sint capacity < 0 \<or> sint capacity > kMaxResponseBytes then (0, None)
      else if int (length encoded) > sint capacity then (len, None)
      else (len, Some encoded))"

definition kry_qt6_abi_version :: i32 where
  "kry_qt6_abi_version = 1"

text \<open>How the handler ends: it returns, or an exception leaves the state where it was thrown.\<close>

datatype 's completion = Returned reply 's | ThrewStd bytes 's | ThrewOther 's

record wire_call =
  wc_request :: "bytes option"
  wc_requestLength :: i32
  wc_hasResponse :: bool
  wc_capacity :: i32

definition bad_call :: "wire_call \<Rightarrow> bool" where
  "bad_call c \<longleftrightarrow>
     wc_request c = None \<or> sint (wc_requestLength c) < 2 \<or> sint (wc_requestLength c) > kMaxRequestBytes
     \<or> \<not> wc_hasResponse c \<or> sint (wc_capacity c) < 1 \<or> sint (wc_capacity c) > kMaxResponseBytes"

text \<open>What \<^verbatim>\<open>QJsonDocument::fromJson\<close> made of the request: an object, or the text of the refusal.\<close>

definition parse_request :: "('w, 'o) qt \<Rightarrow> wire_call \<Rightarrow> qmsg + jobject" where
  "parse_request Q c =
     (case json_parse Q (take (nat (sint (wc_requestLength c))) (case wc_request c of None \<Rightarrow> [] | Some b \<Rightarrow> b)) of
        Inl errorString \<Rightarrow> Inl (Msg ''request must be a JSON object: %1'' [AStr errorString])
      | Inr j \<Rightarrow>
          if \<not> isObject j then Inl (Msg ''request must be a JSON object: %1'' [AStr (noErrorString Q)])
          else Inr (toObject j))"

definition completion_reply :: "('w, 'o) qt \<Rightarrow> 's completion \<Rightarrow> reply \<times> 's" where
  "completion_reply Q c =
     (case c of
        Returned r st \<Rightarrow> (r, st)
      | ThrewStd what st \<Rightarrow> (failure (Raw (fromUtf8 Q what)), st)
      | ThrewOther st \<Rightarrow> (failure (Msg ''unknown exception inside Qt bridge'' []), st))"

definition kry_qt6_request ::
  "('w, 'o) qt \<Rightarrow> (jobject \<Rightarrow> 's \<Rightarrow> 's completion) \<Rightarrow> wire_call \<Rightarrow> 's \<Rightarrow> (i32 \<times> bytes option) \<times> 's" where
  "kry_qt6_request Q run c st =
     (if bad_call c then ((0, None), st)
      else case parse_request Q c of
        Inl e \<Rightarrow> (writeResponse Q (failure e) (wc_hasResponse c) (wc_capacity c), st)
      | Inr request \<Rightarrow>
          (let (r, st') = completion_reply Q (run request st) in
           (writeResponse Q r (wc_hasResponse c) (wc_capacity c), st')))"

text \<open>The handler that runs to its end, on the calling thread.\<close>

definition serve :: "('w, 'o) qt \<Rightarrow> ('w, 'o) gen \<Rightarrow> thread \<Rightarrow> jobject \<Rightarrow> ('w, 'o) bridge \<Rightarrow> ('w, 'o) bridge completion" where
  "serve Q G t request st = (let (r, st') = handleRequest Q G t request st in Returned r st')"

subsection \<open>Callers and the mutex\<close>

text \<open>
  A caller enters with its request, waits for \<^verbatim>\<open>stateMutex\<close>, works on the state it found when it got
  the lock, and publishes its result when the lock guard goes out of scope. Working on a
  private copy makes the need for the lock visible: without it, updates would be lost.
\<close>

type_synonym answer = "i32 \<times> bytes option"

datatype ('w, 'o) pc =
    Idle | Waiting wire_call | Critical wire_call "('w, 'o) bridge" | Finished answer

record ('w, 'o) session =
  shared :: "('w, 'o) bridge"
  stateMutex :: "thread option"
  pcs :: "thread \<Rightarrow> ('w, 'o) pc"
  history :: "((thread \<times> wire_call) \<times> answer) list"

definition session_init :: "'w \<Rightarrow> ('w, 'o) session" where
  "session_init w = \<lparr>shared = bridge_init w, stateMutex = None, pcs = (\<lambda>_. Idle), history = []\<rparr>"

inductive session_step :: "('w, 'o) qt \<Rightarrow> ('w, 'o) gen \<Rightarrow> ('w, 'o) session \<Rightarrow> ('w, 'o) session \<Rightarrow> bool"
  for Q G where
  enter: "pcs s t = Idle \<Longrightarrow> session_step Q G s (s\<lparr>pcs := (pcs s)(t := Waiting c)\<rparr>)"
| acquire: "pcs s t = Waiting c \<Longrightarrow> stateMutex s = None \<Longrightarrow>
    session_step Q G s (s\<lparr>stateMutex := Some t, pcs := (pcs s)(t := Critical c (shared s))\<rparr>)"
| release: "pcs s t = Critical c st \<Longrightarrow> kry_qt6_request Q (serve Q G t) c st = (out, st') \<Longrightarrow>
    session_step Q G s (s\<lparr>shared := st', stateMutex := None, pcs := (pcs s)(t := Finished out),
      history := history s @ [((t, c), out)]\<rparr>)"
| leave: "pcs s t = Finished out \<Longrightarrow> session_step Q G s (s\<lparr>pcs := (pcs s)(t := Idle)\<rparr>)"

inductive_cases session_stepE: "session_step Q G s s'"

inductive reachable :: "('w, 'o) qt \<Rightarrow> ('w, 'o) gen \<Rightarrow> 'w \<Rightarrow> ('w, 'o) session \<Rightarrow> bool"
  for Q G w where
  start: "reachable Q G w (session_init w)"
| step: "reachable Q G w s \<Longrightarrow> session_step Q G s s' \<Longrightarrow> reachable Q G w s'"

text \<open>The requests one after the other, the specification of the concurrent interface.\<close>

fun sequential ::
  "('w, 'o) qt \<Rightarrow> ('w, 'o) gen \<Rightarrow> (thread \<times> wire_call) list \<Rightarrow> ('w, 'o) bridge \<Rightarrow> answer list \<times> ('w, 'o) bridge" where
  "sequential Q G [] st = ([], st)"
| "sequential Q G ((t, c) # calls) st =
     (let (out, st1) = kry_qt6_request Q (serve Q G t) c st; (outs, st2) = sequential Q G calls st1 in (out # outs, st2))"

lemma sequential_snoc:
  "sequential Q G (calls @ [(t, c)]) st =
     (let (outs, st1) = sequential Q G calls st; (out, st2) = kry_qt6_request Q (serve Q G t) c st1 in (outs @ [out], st2))"
  by (induction calls arbitrary: st) (auto split: prod.splits)

definition session_inv :: "('w, 'o) qt \<Rightarrow> ('w, 'o) gen \<Rightarrow> 'w \<Rightarrow> ('w, 'o) session \<Rightarrow> bool" where
  "session_inv Q G w s \<longleftrightarrow>
     (\<forall>t c st. pcs s t = Critical c st \<longrightarrow> stateMutex s = Some t \<and> st = shared s)
     \<and> (\<forall>t. stateMutex s = Some t \<longrightarrow> (\<exists>c. pcs s t = Critical c (shared s)))
     \<and> (\<forall>t out. pcs s t = Finished out \<longrightarrow> (\<exists>c. ((t, c), out) \<in> set (history s)))
     \<and> sequential Q G (map fst (history s)) (bridge_init w) = (map snd (history s), shared s)"

lemma session_invD:
  assumes "session_inv Q G w s"
  shows "pcs s t = Critical c st \<Longrightarrow> stateMutex s = Some t \<and> st = shared s"
    and "stateMutex s = Some t \<Longrightarrow> \<exists>c. pcs s t = Critical c (shared s)"
    and "pcs s t = Finished out \<Longrightarrow> \<exists>c. ((t, c), out) \<in> set (history s)"
    and "sequential Q G (map fst (history s)) (bridge_init w) = (map snd (history s), shared s)"
  using assms unfolding session_inv_def by blast+

lemma session_inv_release:
  assumes "session_inv Q G w s" "pcs s t = Critical c st" "kry_qt6_request Q (serve Q G t) c st = (out, st')"
  shows "session_inv Q G w (s\<lparr>shared := st', stateMutex := None, pcs := (pcs s)(t := Finished out),
      history := history s @ [((t, c), out)]\<rparr>)" (is "session_inv Q G w ?s'")
proof -
  note inv = session_invD [OF assms(1)]
  note lock = inv(1) [OF assms(2)]
  have "pcs ?s' t' \<noteq> Critical c' st2" for t' c' st2
    using inv(1) [of t' c' st2] lock by (cases "t' = t") auto
  moreover have "\<exists>c'. ((t', c'), out') \<in> set (history ?s')" if "pcs ?s' t' = Finished out'" for t' out'
    using that inv(3) [of t' out'] by (cases "t' = t") auto
  moreover have "sequential Q G (map fst (history ?s')) (bridge_init w) = (map snd (history ?s'), shared ?s')"
    using inv(4) assms(3) lock by (simp add: sequential_snoc)
  moreover have "stateMutex ?s' = None" by simp
  ultimately show ?thesis unfolding session_inv_def by (metis option.distinct(1))
qed

lemma session_inv_step: "session_step Q G s s' \<Longrightarrow> session_inv Q G w s \<Longrightarrow> session_inv Q G w s'"
proof (erule session_stepE)
  fix t c st out st'
  assume "session_inv Q G w s" "pcs s t = Critical c st" "kry_qt6_request Q (serve Q G t) c st = (out, st')"
    and s': "s' = s\<lparr>shared := st', stateMutex := None, pcs := (pcs s)(t := Finished out), history := history s @ [((t, c), out)]\<rparr>"
  then show "session_inv Q G w s'" unfolding s' by (intro session_inv_release)
qed (auto simp: session_inv_def)

lemma reachable_session_inv: "reachable Q G w s \<Longrightarrow> session_inv Q G w s"
proof (induction rule: reachable.induct)
  case start show ?case by (simp add: session_inv_def session_init_def)
next
  case (step s s') then show ?case by (blast intro: session_inv_step)
qed

lemma kry_qt6_request_ok:
  assumes "gen_ok G" "reg_inv st" "kry_qt6_request Q (serve Q G t) c st = (out, st')"
  shows "reg_inv st' \<and> handle_step st st'"
proof (cases "bad_call c")
  case True
  with assms show ?thesis by (simp add: kry_qt6_request_def)
next
  case False
  show ?thesis
  proof (cases "parse_request Q c")
    case (Inl e) with False assms show ?thesis by (simp add: kry_qt6_request_def)
  next
    case (Inr request)
    obtain r st2 where h: "handleRequest Q G t request st = (r, st2)" by force
    with handleRequest_ok [OF assms(1,2), of Q t request] have "reg_inv st2 \<and> handle_step st st2"
      by (simp add: request_ok_def)
    moreover have "st' = st2"
      using False Inr h assms(3) by (simp add: kry_qt6_request_def serve_def completion_reply_def)
    ultimately show ?thesis by simp
  qed
qed

lemma sequential_ok:
  assumes "gen_ok G" "reg_inv st"
  shows "reg_inv (snd (sequential Q G calls st)) \<and> handle_step st (snd (sequential Q G calls st))"
  using assms(2)
proof (induction calls arbitrary: st)
  case (Cons tc calls)
  obtain t c where tc: "tc = (t, c)" by force
  obtain out st' where k: "kry_qt6_request Q (serve Q G t) c st = (out, st')" by fastforce
  note ok = kry_qt6_request_ok [OF assms(1) Cons.prems k]
  with Cons.IH [of st'] show ?case
    by (auto simp: tc k intro: handle_step_trans split: prod.splits)
qed simp

text \<open>Some caller can always move a waiting one towards its answer: the holder of the lock, or itself.\<close>

lemma critical_finishes:
  assumes "pcs s t = Critical c st"
  shows "\<exists>s' out. session_step Q G s s' \<and> stateMutex s' = None \<and> pcs s' t = Finished out \<and> history s' = history s @ [((t, c), out)]
     \<and> (\<forall>t'. t' \<noteq> t \<longrightarrow> pcs s' t' = pcs s t')"
proof -
  obtain out st' where k: "kry_qt6_request Q (serve Q G t) c st = (out, st')" by fastforce
  show ?thesis by (intro exI conjI, rule release [OF assms k]) auto
qed

lemma waiting_finishes:
  assumes "pcs s t = Waiting c" "stateMutex s = None"
  shows "\<exists>s1 s2 out. session_step Q G s s1 \<and> session_step Q G s1 s2 \<and> pcs s2 t = Finished out \<and> last (history s2) = ((t, c), out)"
proof -
  define s1 where "s1 = s\<lparr>stateMutex := Some t, pcs := (pcs s)(t := Critical c (shared s))\<rparr>"
  have "session_step Q G s s1" unfolding s1_def by (rule acquire [OF assms])
  moreover have "pcs s1 t = Critical c (shared s)" by (simp add: s1_def)
  ultimately show ?thesis using critical_finishes [of s1 t] by (metis last_snoc)
qed

subsection \<open>The size of a response\<close>

text \<open>Documented: base64 turns every started group of three bytes into four characters.\<close>

definition base64_ok :: "('w, 'o) qt \<Rightarrow> bool" where
  "base64_ok Q \<longleftrightarrow> (\<forall>b. length (toBase64 Q b) = 4 * ((length b + 2) div 3) \<and> fromBase64 Q (toBase64 Q b) = Some b)"

text \<open>The refusal itself is a short text.\<close>

definition refusal_fits :: "('w, 'o) qt \<Rightarrow> bool" where
  "refusal_fits Q \<longleftrightarrow> int (length (reply_text Q wire_limit_reply)) \<le> maximumJsonBytes"

lemma bounded_text_length: "refusal_fits Q \<Longrightarrow> int (length (bounded_text Q r)) \<le> maximumJsonBytes"
  by (simp add: bounded_text_def refusal_fits_def)

lemma encoded_length:
  assumes "base64_ok Q" "refusal_fits Q"
  shows "int (length (toBase64 Q (bounded_text Q r))) \<le> kMaxResponseBytes - 4"
proof -
  have "int (length (bounded_text Q r)) \<le> 12582909"
    using bounded_text_length [OF assms(2), of r] by (simp add: maximumJsonBytes_def kMaxResponseBytes_def)
  then show ?thesis using assms(1) by (simp add: base64_ok_def kMaxResponseBytes_def)
qed

lemma sint_word_of_length:
  "n \<le> kMaxResponseBytes \<Longrightarrow> 0 \<le> n \<Longrightarrow> sint (word_of_int n :: i32) = n"
  by (simp add: kMaxResponseBytes_def signed_of_int signed_take_bit_int_eq_self)

end
