(* ===== verification/Demo.thy ===== *)
theory Demo
  imports Generated_Dispatch
begin

text \<open>
  A small concrete Qt (\<open>demo_qt\<close>) and a small concrete set of generated shards (\<open>demo_gen\<close>), on
  which the properties are exercised at concrete inputs: objects in a parent table, spies with
  queues, one meta-object with a property, a slot, a signal and a private slot. It is an
  instance of the documented behaviour the properties assume, not part of the model.
\<close>

record demo =
  d_objects :: "(ptr \<times> ptr) list"
  d_next :: nat
  d_app :: bool
  d_spies :: "(nat \<times> unit qvariant list list) list"
  d_calls :: "string list"

definition demo_init :: demo where
  "demo_init = \<lparr>d_objects = [], d_next = 1, d_app = False, d_spies = [], d_calls = []\<rparr>"

definition demo_parent :: "demo \<Rightarrow> ptr \<Rightarrow> ptr" where
  "demo_parent w p = (case map_of (d_objects w) p of None \<Rightarrow> 0 | Some q \<Rightarrow> q)"

fun demo_below :: "(ptr \<times> ptr) list \<Rightarrow> nat \<Rightarrow> ptr \<Rightarrow> ptr \<Rightarrow> bool" where
  "demo_below es 0 p a = False"
| "demo_below es (Suc n) p a =
     (p = a \<or> (case map_of es p of None \<Rightarrow> False | Some q \<Rightarrow> q \<noteq> 0 \<and> demo_below es n q a))"

definition demo_delete :: "ptr \<Rightarrow> demo \<Rightarrow> demo" where
  "demo_delete a w =
     w\<lparr>d_objects := filter (\<lambda>(p, _). \<not> demo_below (d_objects w) (Suc (length (d_objects w))) p a) (d_objects w)\<rparr>"

definition demo_create :: "ptr \<Rightarrow> demo \<Rightarrow> ptr \<times> demo" where
  "demo_create q w = (d_next w, w\<lparr>d_objects := (d_next w, q) # d_objects w, d_next := Suc (d_next w)\<rparr>)"

definition demo_slot :: metamethod where
  "demo_slot = \<lparr>meth_signature = ''resize(int)'', meth_kind = MkSlot, meth_access = AccPublic, meth_valid = True,
     meth_typeName = None, meth_returnType = MtVoid, meth_paramNames = [''w''], meth_paramTypes = [''int''],
     meth_paramMetaTypes = [MtInt]\<rparr>"

definition demo_signal :: metamethod where
  "demo_signal = \<lparr>meth_signature = ''clicked()'', meth_kind = MkSignal, meth_access = AccPublic, meth_valid = True,
     meth_typeName = None, meth_returnType = MtVoid, meth_paramNames = [], meth_paramTypes = [], meth_paramMetaTypes = []\<rparr>"

definition demo_private :: metamethod where
  "demo_private = demo_slot\<lparr>meth_signature := ''poll()'', meth_access := AccPrivate, meth_paramNames := [],
     meth_paramTypes := [], meth_paramMetaTypes := []\<rparr>"

definition demo_property :: metaproperty where
  "demo_property = \<lparr>prop_name = ''title'', prop_type = MtQString, prop_readable = True, prop_writable = True,
     prop_designable = True, prop_stored = True\<rparr>"

definition demo_fixed :: metaproperty where
  "demo_fixed = demo_property\<lparr>prop_name := ''fixed'', prop_writable := False\<rparr>"

definition demo_object :: metaobject where
  "demo_object = MetaObject ''QObject'' None [] [] [] []"

definition demo_class :: metaobject where
  "demo_class = MetaObject ''QWidget'' (Some demo_object) [demo_property, demo_fixed] [demo_slot, demo_signal, demo_private] [] [demo_slot]"

text \<open>An encoding with base64's lengths: the bytes, padding, and the length modulo three at the end.\<close>

definition demo_base64 :: "bytes \<Rightarrow> bytes" where
  "demo_base64 b =
     (if b = [] then []
      else b @ replicate (4 * ((length b + 2) div 3) - length b - 1) CHR ''='' @ [char_of (length b mod 3)])"

definition demo_unbase64 :: "bytes \<Rightarrow> bytes option" where
  "demo_unbase64 e =
     (if e = [] then Some []
      else let q = length e div 4; r = of_char (last e) in Some (take (if r = 0 then 3 * q else 3 * q - 3 + r) e))"

fun demo_digits :: "nat \<Rightarrow> qstring" where
  "demo_digits n = (if n < 10 then [word_of_nat (48 + n)] else demo_digits (n div 10) @ [word_of_nat (48 + n mod 10)])"

declare demo_digits.simps [simp del]

definition demo_value :: "qstring \<Rightarrow> nat" where
  "demo_value s = fold (\<lambda>c n. 10 * n + (unat c - 48)) s 0"

definition demo_number :: "int \<Rightarrow> qstring" where
  "demo_number n = (if n < 0 then [45] else []) @ demo_digits (nat \<bar>n\<bar>)"

definition demo_unnumber :: "qstring \<Rightarrow> int option" where
  "demo_unnumber s =
     (if s = [] then None
      else if hd s = 45 then Some (- int (demo_value (tl s)))
      else Some (int (demo_value s)))"

definition demo_latin1 :: "qstring \<Rightarrow> bytes" where
  "demo_latin1 s = map (\<lambda>c. char_of (unat c)) s"

definition demo_request_text :: bytes where
  "demo_request_text = ''{op:application}''"

definition demo_parse :: "bytes \<Rightarrow> qstring + json" where
  "demo_parse b =
     (if b = demo_request_text then Inr (jobj [(''op'', JString (qs ''application''))])
      else if b = ''[]'' then Inr (JArray []) else Inl (qs ''illegal value''))"

fun demo_compact :: "json \<Rightarrow> bytes" where
  "demo_compact (JObject es) = (case map_of es (qs ''ok'') of Some (JBool True) \<Rightarrow> ''{ok}'' | _ \<Rightarrow> ''{error}'')"
| "demo_compact _ = ''?''"

fun demo_render :: "qmsg \<Rightarrow> qstring" where
  "demo_render (Msg s args) = qs s"
| "demo_render (Raw s) = s"

fun demo_isEnum :: "metatype \<Rightarrow> bool" where
  "demo_isEnum (MtOther n) \<longleftrightarrow> n \<in> {''Small'', ''Wide''}"
| "demo_isEnum _ \<longleftrightarrow> False"

fun demo_isGadget :: "metatype \<Rightarrow> bool" where
  "demo_isGadget (MtOther n) \<longleftrightarrow> n = ''Gadget''"
| "demo_isGadget _ \<longleftrightarrow> False"

fun demo_size :: "metatype \<Rightarrow> nat" where
  "demo_size (MtOther n) = (if n = ''Small'' then 2 else 8)"
| "demo_size _ = 8"

fun demo_mt_name :: "metatype \<Rightarrow> bytes option" where
  "demo_mt_name (MtOther n) = Some n"
| "demo_mt_name MtInt = Some ''int''"
| "demo_mt_name MtQString = Some ''QString''"
| "demo_mt_name _ = None"

fun demo_mt_metaObject :: "metatype \<Rightarrow> metaobject option" where
  "demo_mt_metaObject (MtOther n) =
     (if n = ''Gadget'' then Some demo_class
      else if n = ''Small''
      then Some (MetaObject ''Qt'' None [] [] [\<lparr>enum_name = ''Small'', enum_scope = ''Qt'', enum_isFlag = False, enum_keys = [(''Low'', - 1)]\<rparr>] [])
      else None)"
| "demo_mt_metaObject _ = None"

fun demo_toVariant :: "json \<Rightarrow> unit qvariant" where
  "demo_toVariant (JBool b) = VBool b"
| "demo_toVariant (JDouble d) = VDouble d"
| "demo_toVariant (JString s) = VString s"
| "demo_toVariant _ = VNullptr"

fun demo_fromVariant :: "unit qvariant \<Rightarrow> json" where
  "demo_fromVariant (VInt n) = jint (sint n)"
| "demo_fromVariant (VString s) = JString s"
| "demo_fromVariant (VBool b) = JBool b"
| "demo_fromVariant _ = JNull"

fun demo_convert :: "unit qvariant \<Rightarrow> metatype \<Rightarrow> bool \<times> unit qvariant" where
  "demo_convert (VDouble d) t = (if t = MtInt then (True, VInt (word_of_int (dbl_trunc d))) else (False, VInvalid))"
| "demo_convert v t = (False, VInvalid)"

definition demo_queue :: "demo \<Rightarrow> nat \<Rightarrow> unit qvariant list list" where
  "demo_queue w s = (case map_of (d_spies w) s of None \<Rightarrow> [] | Some q \<Rightarrow> q)"

text \<open>Every pass of the event loop lets each spy record two emissions.\<close>

definition demo_run :: "int \<Rightarrow> demo \<Rightarrow> demo" where
  "demo_run ms w = w\<lparr>d_spies := map (\<lambda>(s, q). (s, q @ [[VInt 1], [VInt 2]])) (d_spies w)\<rparr>"

definition demo_call :: "string \<Rightarrow> ptr \<Rightarrow> unit qvariant list \<Rightarrow> demo \<Rightarrow> unit qvariant \<times> demo" where
  "demo_call f p vs w = (VBool True, w\<lparr>d_calls := d_calls w @ [f]\<rparr>)"

definition demo_get :: "string \<Rightarrow> ptr \<Rightarrow> unit qvariant list \<Rightarrow> demo \<Rightarrow> unit qvariant" where
  "demo_get f p vs w =
     (if f = ''QListWidget::count'' \<or> f = ''QWidget::width'' then VInt 2
      else if f = ''QWidget::size'' then VInts MtQSize [640, 480]
      else if f = ''QWidget::layout'' then VPointer MtQObjectStar 0
      else VString (qs ''text''))"

definition demo_cast :: "string \<Rightarrow> demo \<Rightarrow> ptr \<Rightarrow> bool" where
  "demo_cast c w p \<longleftrightarrow> c \<in> {''QObject'', ''QWidget'', ''QListWidget''} \<and> p \<in> fst ` set (d_objects w)"

definition demo_find :: "(metamethod \<Rightarrow> bool) \<Rightarrow> metaobject \<Rightarrow> bytes \<Rightarrow> metamethod option" where
  "demo_find ok mo s = List.find (\<lambda>m. meth_signature m = s \<and> ok m) (mo_methods mo)"

definition demo_qt :: "(demo, unit) qt" where
  "demo_qt = \<lparr>
     toUtf8 = demo_latin1, toLatin1 = demo_latin1, fromUtf8 = qs, render = demo_render, number = demo_number,
     toLongLong = demo_unnumber, toULongLong = demo_unnumber, toBase64 = demo_base64, fromBase64 = demo_unbase64,
     json_parse = demo_parse, noErrorString = qs ''no error occurred'', json_compact = demo_compact,
     to_float = (\<lambda>d. d), regex_matches = (\<lambda>_ _. True), normalizedSignature = (\<lambda>s. s),
     mt_name = demo_mt_name, mt_isPointer = (\<lambda>t. t = MtQObjectStar), mt_isEnum = demo_isEnum, mt_isGadget = demo_isGadget,
     mt_size = demo_size, mt_metaObject = demo_mt_metaObject,
     findProperty = (\<lambda>mo s. List.find (\<lambda>p. prop_name p = s) (mo_properties mo)),
     findMethod = demo_find (\<lambda>_. True), findSignal = demo_find (\<lambda>m. meth_kind m = MkSignal),
     keyToValue64 = (\<lambda>e k. map_option (\<lambda>v. word_of_int (sint v)) (map_of (enum_keys e) k)),
     keysToValue64 = (\<lambda>e k. None), v_convert = demo_convert,
     v_default = (\<lambda>t. if t = MtInvalid then VInvalid else VOpaque t ()), toVariant = demo_toVariant,
     fromVariant = demo_fromVariant, ofText = (\<lambda>_ s. (s \<noteq> [], ())), toText = (\<lambda>_ _. qs ''text''),
     regex_new = (\<lambda>_ _. Inr ()), regex_parts = (\<lambda>_. ([], 0)),
     url_new = (\<lambda>s. if s = [] then Inl (qs ''empty'') else Inr ()), geo_new = (\<lambda>_ _ _. ()),
     geo_parts = (\<lambda>_. Some (DFin 0, DFin 0, DFin 0)), request_new = (\<lambda>_ _. ()), request_parts = (\<lambda>_. ([], [])),
     readOnGadget = (\<lambda>p v. VInt 7), writeOnGadget = (\<lambda>p v x. (True, v)),
     image_fromData = (\<lambda>b. if b = [] then None else Some ()), image_png = (\<lambda>_. Some ''png''), pixmap_fromImage = (\<lambda>x. x),
     icon_fromPixmap = (\<lambda>x. x), pixmap_toImage = (\<lambda>x. x), icon_toImage = (\<lambda>x. x),
     image_load = (\<lambda>s w. if s = [] then None else Some ()),
     alive = (\<lambda>w p. p \<in> fst ` set (d_objects w)), parent_of = demo_parent, delete_object = demo_delete,
     object_count = (\<lambda>w. length (d_objects w)),
     setParent = (\<lambda>p q w. w\<lparr>d_objects := map (\<lambda>(a, b). if a = p then (a, q) else (a, b)) (d_objects w)\<rparr>),
     metaObject_of = (\<lambda>w p. demo_class), objectName = (\<lambda>w p. qs ''name''), qobject_cast = demo_cast,
     meta_cast = (\<lambda>mo w p. True), qt_call = demo_call, qt_get = demo_get,
     qt_new = (\<lambda>c vs q w. demo_create q w), newInstance = (\<lambda>mo vs w. demo_create 0 w),
     dynamic_set = (\<lambda>p k v w. w), dynamic_names = (\<lambda>w p. []), dynamic_get = (\<lambda>w p k. VInvalid),
     prop_read = (\<lambda>m p w. (VString (qs ''title''), w)), prop_write = (\<lambda>m p v w. (True, w\<lparr>d_calls := d_calls w @ [''write'']\<rparr>)),
     meth_invoke = (\<lambda>m p vs w. ((True, VInvalid), w\<lparr>d_calls := d_calls w @ [meth_signature m]\<rparr>)),
     meth_invokeOnGadget = (\<lambda>m v vs w. ((True, VInvalid, v), w)),
     app_new = (\<lambda>w. w\<lparr>d_app := True\<rparr>), app_reset = (\<lambda>w. w\<lparr>d_app := False\<rparr>), app_instance = d_app,
     run_events = demo_run,
     spy_new = (\<lambda>p m w. (d_next w, w\<lparr>d_next := Suc (d_next w), d_spies := (d_next w, []) # d_spies w\<rparr>)),
     spy_isValid = (\<lambda>w s. s \<in> fst ` set (d_spies w)), spy_queue = demo_queue,
     spy_takeFirst = (\<lambda>s w. w\<lparr>d_spies := map (\<lambda>(k, q). if k = s then (k, tl q) else (k, q)) (d_spies w)\<rparr>),
     spy_delete = (\<lambda>s w. w\<lparr>d_spies := filter (\<lambda>(k, _). k \<noteq> s) (d_spies w)\<rparr>)\<rparr>"

text \<open>
  Two modules share the class \<open>QThing\<close>; one shard constructs it with an argument, one method
  shard answers \<open>count()\<close> and one value shard refuses every call of \<open>Gadget\<close> values.
\<close>

definition demo_module :: "string \<Rightarrow> (demo, unit) qmodule" where
  "demo_module m =
     \<lparr>m_name = m,
      m_hasClass = (\<lambda>c. (c = qs ''QThing'' \<and> m \<in> {''QtGui'', ''QtXml''}) \<or> (c = qs ''QSolo'' \<and> m = ''QtXml'')),
      m_construct = (\<lambda>c p w. let (q, w') = demo_create p w in ((q, None), w')),
      m_constructorNames = (if m = ''QtGui'' then [qs ''QThing''] else if m = ''QtXml'' then [qs ''QSolo'', qs ''QThing''] else []),
      m_valueType = (\<lambda>c. if c = qs ''Gadget'' \<and> m = ''QtGui'' then MtOther ''Gadget'' else MtInvalid),
      m_valueTypeNames = (if m = ''QtGui'' then [qs ''Gadget''] else []),
      m_metaObject = (\<lambda>c. None), m_metaObjectNames = []\<rparr>"

definition demo_gen :: "(demo, unit) gen" where
  "demo_gen =
     \<lparr>g_module = demo_module,
      construct_shard = (\<lambda>s m c p args (q, e, st).
        if s = ''qtgui_0'' \<and> c = qs ''QThing'' \<and> args \<noteq> []
        then (let (q', w) = demo_create p (world st) in (True, q', e, st\<lparr>world := w\<rparr>)) else (False, q, e, st)),
      constructor_classes = (\<lambda>s. if s = ''qtgui_0'' then [qs ''QThing''] else []),
      construct_value_shard = (\<lambda>s m c args st out. (False, out)),
      value_constructor_classes = (\<lambda>s. []),
      invoke_shard = (\<lambda>s p c sig args (j, e, st).
        if s = ''qtcore_0'' \<and> sig = qs ''count()'' then (True, jint 3, e, st) else (False, j, e, st)),
      invoke_value_shard = (\<lambda>s c sig args (v, j, e, st).
        if s = ''qtcore_0'' then (True, v, j, Some (Msg ''argument 0 must be a boolean'' []), st) else (False, v, j, e, st)),
      direct_value_types = (\<lambda>s. []), direct_methods = (\<lambda>c. if c = qs ''Gadget'' then Some [qs ''f()''] else None),
      has_axcontainer = False\<rparr>"

subsection \<open>The instance keeps the contracts\<close>

lemma demo_qt_simps [simp]:
  "toUtf8 demo_qt = demo_latin1" "toLatin1 demo_qt = demo_latin1" "fromUtf8 demo_qt = qs" "render demo_qt = demo_render"
  "number demo_qt = demo_number" "toLongLong demo_qt = demo_unnumber" "toULongLong demo_qt = demo_unnumber"
  "toBase64 demo_qt = demo_base64" "fromBase64 demo_qt = demo_unbase64" "json_parse demo_qt = demo_parse"
  "json_compact demo_qt = demo_compact" "normalizedSignature demo_qt = (\<lambda>s. s)" "mt_name demo_qt = demo_mt_name"
  "mt_isPointer demo_qt = (\<lambda>t. t = MtQObjectStar)" "mt_isEnum demo_qt = demo_isEnum" "mt_isGadget demo_qt = demo_isGadget"
  "mt_size demo_qt = demo_size" "mt_metaObject demo_qt = demo_mt_metaObject" "v_convert demo_qt = demo_convert"
  "findProperty demo_qt = (\<lambda>mo s. List.find (\<lambda>p. prop_name p = s) (mo_properties mo))"
  "findMethod demo_qt = demo_find (\<lambda>_. True)" "findSignal demo_qt = demo_find (\<lambda>m. meth_kind m = MkSignal)"
  "toVariant demo_qt = demo_toVariant" "fromVariant demo_qt = demo_fromVariant" "noErrorString demo_qt = qs ''no error occurred''"
  by (simp_all add: demo_qt_def)

lemma demo_qt_simps2 [simp]:
  "alive demo_qt = (\<lambda>w p. p \<in> fst ` set (d_objects w))" "parent_of demo_qt = demo_parent" "delete_object demo_qt = demo_delete"
  "object_count demo_qt = (\<lambda>w. length (d_objects w))" "metaObject_of demo_qt = (\<lambda>w p. demo_class)"
  "qobject_cast demo_qt = demo_cast" "qt_call demo_qt = demo_call" "qt_get demo_qt = demo_get"
  "qt_new demo_qt = (\<lambda>c vs q w. demo_create q w)" "newInstance demo_qt = (\<lambda>mo vs w. demo_create 0 w)"
  "app_new demo_qt = (\<lambda>w. w\<lparr>d_app := True\<rparr>)" "app_reset demo_qt = (\<lambda>w. w\<lparr>d_app := False\<rparr>)" "app_instance demo_qt = d_app"
  "run_events demo_qt = demo_run" "spy_isValid demo_qt = (\<lambda>w s. s \<in> fst ` set (d_spies w))" "spy_queue demo_qt = demo_queue"
  "spy_takeFirst demo_qt = (\<lambda>s w. w\<lparr>d_spies := map (\<lambda>(k, q). if k = s then (k, tl q) else (k, q)) (d_spies w)\<rparr>)"
  "spy_delete demo_qt = (\<lambda>s w. w\<lparr>d_spies := filter (\<lambda>(k, _). k \<noteq> s) (d_spies w)\<rparr>)"
  "spy_new demo_qt = (\<lambda>p m w. (d_next w, w\<lparr>d_next := Suc (d_next w), d_spies := (d_next w, []) # d_spies w\<rparr>))"
  "prop_write demo_qt = (\<lambda>m p v w. (True, w\<lparr>d_calls := d_calls w @ [''write'']\<rparr>))"
  "meth_invoke demo_qt = (\<lambda>m p vs w. ((True, VInvalid), w\<lparr>d_calls := d_calls w @ [meth_signature m]\<rparr>))"
  "v_default demo_qt = (\<lambda>t. if t = MtInvalid then VInvalid else VOpaque t ())"
  "url_new demo_qt = (\<lambda>s. if s = [] then Inl (qs ''empty'') else Inr ())" "request_new demo_qt = (\<lambda>_ _. ())"
  "setParent demo_qt = (\<lambda>p q w. w\<lparr>d_objects := map (\<lambda>(a, b). if a = p then (a, q) else (a, b)) (d_objects w)\<rparr>)"
  by (simp_all add: demo_qt_def)

lemma demo_latin1_qs [simp]: "demo_latin1 (qs s) = s"
proof -
  have "unat (qch c) = of_char c" for c
  proof -
    have "of_char c < (65536 :: nat)" using of_char_less_256 [of c] by linarith
    then show ?thesis by (simp add: qch_def unat_of_nat)
  qed
  then show ?thesis by (induction s) (simp_all add: demo_latin1_def qs_def)
qed

lemma demo_digit: "d < 10 \<Longrightarrow> unat (word_of_nat (48 + d) :: qchar) = 48 + d"
  by (subst unat_of_nat) simp

lemma demo_value_digits: "demo_value (demo_digits n) = n"
proof (induction n rule: demo_digits.induct)
  case (1 n)
  show ?case
  proof (cases "n < 10")
    case True
    then have "demo_digits n = [word_of_nat (48 + n)]" by (subst demo_digits.simps) (simp only: if_True)
    then show ?thesis unfolding demo_value_def using demo_digit [OF True] by (simp only: fold.simps comp_apply id_apply)
  next
    case False
    then have "demo_value (demo_digits n) = 10 * demo_value (demo_digits (n div 10)) + (unat (word_of_nat (48 + n mod 10) :: qchar) - 48)"
      by (subst demo_digits.simps) (simp add: demo_value_def)
    also have "\<dots> = n" using 1 [OF False] demo_digit [of "n mod 10"] by simp
    finally show ?thesis .
  qed
qed

lemma demo_digits_start: "demo_digits n \<noteq> [] \<and> hd (demo_digits n) \<noteq> 45"
proof (induction n rule: demo_digits.induct)
  case (1 n)
  show ?case
  proof (cases "n < 10")
    case True
    have "unat (word_of_nat (48 + n) :: qchar) \<noteq> unat (45 :: qchar)" using demo_digit [OF True] by simp
    then have "(word_of_nat (48 + n) :: qchar) \<noteq> 45" by metis
    with True show ?thesis by (subst (1 2) demo_digits.simps) simp
  next
    case False
    with 1 show ?thesis by (subst (1 2) demo_digits.simps) simp
  qed
qed

lemma demo_number_inverse: "demo_unnumber (demo_number n) = Some n"
  using demo_digits_start [of "nat \<bar>n\<bar>"] demo_value_digits [of "nat \<bar>n\<bar>"]
  by (cases "n < 0") (auto simp: demo_unnumber_def demo_number_def)

lemma demo_base64_length: "length (demo_base64 b) = 4 * ((length b + 2) div 3)"
proof (cases "b = []")
  case False
  then have "length b + 1 \<le> 4 * ((length b + 2) div 3)" by (cases b) simp_all
  with False show ?thesis by (simp add: demo_base64_def)
qed (simp add: demo_base64_def)

lemma demo_base64_inverse: "demo_unbase64 (demo_base64 b) = Some b"
proof (cases "b = []")
  case False
  define q r where "q = (length b + 2) div 3" and "r = length b mod 3"
  have ne: "demo_base64 b \<noteq> []" using False by (simp add: demo_base64_def)
  have len: "length (demo_base64 b) div 4 = q" by (simp add: demo_base64_length q_def)
  have "last (demo_base64 b) = char_of r" using False by (simp add: demo_base64_def r_def)
  then have "of_char (last (demo_base64 b)) = r" by (simp add: r_def)
  moreover have "length b = (if r = 0 then 3 * q else 3 * q - 3 + r)"
  proof -
    define k where "k = length b div 3"
    have b: "length b = 3 * k + r" by (simp add: k_def r_def)
    have "r = 0 \<or> r = 1 \<or> r = 2" by (simp add: r_def) linarith
    then show ?thesis by (auto simp: q_def b)
  qed
  moreover have "take (length b) (demo_base64 b) = b" using False by (simp add: demo_base64_def)
  ultimately show ?thesis using ne len by (simp add: demo_unbase64_def Let_def)
qed (simp add: demo_base64_def demo_unbase64_def)

end
