(* ===== verification/Conversion_Properties.thy ===== *)
theory Conversion_Properties
  imports Conversion_Laws Demo
begin

text \<open>
  Properties of the two conversions: types, round trips, integer bounds, enum storage, header
  bytes and stored values. The first lemmas say which branch a value takes.
\<close>

lemma toJson_of_plain:
  assumes "plain_type Q (variant_type v)" "v_isValid v" "toJson_special Q v = None" "toJson_plain Q v = Some j"
    "\<forall>es. v \<noteq> VMap es \<and> v \<noteq> VHash es"
  shows "toJson Q G v st = (j, st)"
proof -
  have "toJson_first Q v st = None"
    using assms(1-3) by (simp add: toJson_first_def plain_type_def)
  then have "toJson Q G v st = toJson_rest Q G v st" using assms(5) by (rule toJson_step)
  then show ?thesis using assms(4) by (simp add: toJson_rest_def)
qed

lemma fromJson_branch_done:
  "fromJson_branch Q st j t = Inr v \<Longrightarrow> variant_type v = t \<Longrightarrow> t \<noteq> MtInvalid \<Longrightarrow> t \<noteq> MtQVariant \<Longrightarrow> fromJson Q st j t = Inr v"
  by (simp add: fromJson_def)

lemma geometry_branch:
  assumes "plain_type Q t" "t \<in> set geometry_types" "isObject j" "\<not> jcontains (toObject j) ''value_id''"
  shows "fromJson_branch Q st j t = read_geometry (toObject j) t"
  using assms
  by (auto simp: fromJson_branch_def plain_type_def geometry_types_def fromJson_geometry_def fromJson_line_def)

lemma geometry_value_type: "geometry_value v \<Longrightarrow> variant_type v \<in> set geometry_types"
  by (cases v) auto

lemma geometry_not_special: "geometry_value v \<Longrightarrow> toJson_special Q v = None"
  by (cases v) (auto simp: toJson_special_def)

text \<open>
  C15: A point, size, rectangle, margins or line, of integers or of finite floating coordinates, that
  \<^verbatim>\<open>toJson\<close> wrote is read back by \<^verbatim>\<open>fromJson\<close> as the same value, and writing it registers nothing. An
  infinite coordinate or a NaN is not covered: \<^verbatim>\<open>fromJson\<close> refuses it.
\<close>

theorem geometry_roundtrip:
  assumes "geometry_value v" "plain_type Q (variant_type v)"
  shows "\<exists>j. toJson Q G v st = (j, st) \<and> fromJson Q st' j (variant_type v) = Inr v"
proof -
  let ?t = "variant_type v"
  have t: "?t \<in> set geometry_types" by (rule geometry_value_type [OF assms(1)])
  then have n: "?t \<noteq> MtInvalid" "?t \<noteq> MtQVariant" by (auto simp: geometry_types_def)
  obtain j where j: "toJson_plain Q v = Some j" "isObject j" "\<not> jcontains (toObject j) ''value_id''"
    "read_geometry (toObject j) ?t = Inr v"
    using read_geometry_json [OF assms(1) refl] by blast
  have "toJson Q G v st = (j, st)"
    by (rule toJson_of_plain [OF assms(2) _ geometry_not_special [OF assms(1)] j(1)])
       (use n assms(1) in \<open>auto simp: v_isValid_def\<close>)
  moreover have "fromJson_branch Q st' j ?t = Inr v"
    using geometry_branch [OF assms(2) t j(2,3)] j(4) by simp
  then have "fromJson Q st' j ?t = Inr v" by (rule fromJson_branch_done) (use n in auto)
  ultimately show ?thesis by blast
qed

theorem geometry_roundtrip_witness:
  "\<exists>j. toJson demo_qt demo_gen (VInts MtQRect [1, - 2, 30, 40]) (bridge_init demo_init) = (j, bridge_init demo_init)
     \<and> fromJson demo_qt (bridge_init demo_init) j MtQRect = Inr (VInts MtQRect [1, - 2, 30, 40])"
  using geometry_roundtrip [of "VInts MtQRect [1, - 2, 30, 40]" demo_qt demo_gen "bridge_init demo_init" "bridge_init demo_init"]
  by (simp add: geometry_types_def geometry_integral_def plain_type_def)

subsection \<open>Integers\<close>

lemma word64_of_sint [simp]: "word_of_int (sint (w :: i64)) = w"
  by simp

lemma fromJson_longlong_number:
  "\<bar>k\<bar> \<le> max_exact \<Longrightarrow> fromJson_longlong Q (JDouble (DFin (of_int k))) = Inr (VLongLong (word_of_int k))"
  using dbl_in_range_of_int [of "- max_exact" max_exact k]
  by (simp add: fromJson_longlong_def dbl_in_range_def abs_le_iff)

lemma fromJson_ulonglong_number:
  "0 \<le> k \<Longrightarrow> k \<le> max_exact \<Longrightarrow> fromJson_ulonglong Q (JDouble (DFin (of_int k))) = Inr (VULongLong (word_of_int k))"
  using dbl_in_range_of_int [of 0 max_exact k]
  by (simp add: fromJson_ulonglong_def dbl_in_range_def)

text \<open>
  Every signed 64-bit integer survives the trip to JSON and back: small ones as exact JSON
  numbers, the others as decimal strings, provided Qt reads back the decimal text it wrote.
\<close>

lemma longlong_trip:
  assumes "plain_type Q MtLongLong" "toLongLong Q (number Q (sint n)) = Some (sint n)"
  shows "\<exists>j. toJson Q G (VLongLong n) st = (j, st) \<and> fromJson Q st' j MtLongLong = Inr (VLongLong n)
           \<and> (isDouble j \<longleftrightarrow> \<bar>sint n\<bar> \<le> max_exact)"
proof -
  let ?j = "toJson_longlong Q n"
  have w: "toJson Q G (VLongLong n) st = (?j, st)"
    by (rule toJson_of_plain) (use assms(1) in \<open>auto simp: toJson_special_def\<close>)
  have b: "fromJson_branch Q st' ?j MtLongLong = fromJson_longlong Q ?j"
  proof -
    have "\<not> isObject ?j" by (simp add: toJson_longlong_def jint_def Let_def)
    with assms(1) show ?thesis by (simp add: fromJson_branch_def plain_type_def)
  qed
  show ?thesis
  proof (cases "\<bar>sint n\<bar> \<le> max_exact")
    case True
    then have j: "?j = JDouble (DFin (of_int (sint n)))" by (simp add: toJson_longlong_def jint_exact abs_le_iff)
    have "fromJson_longlong Q ?j = Inr (VLongLong n)"
      unfolding j fromJson_longlong_number [OF True] by (simp only: word64_of_sint)
    then show ?thesis using w b True by (intro exI [of _ ?j] conjI fromJson_branch_done) (simp_all add: j)
  next
    case False
    then have j: "?j = JString (number Q (sint n))" by (auto simp: toJson_longlong_def abs_le_iff)
    have "fromJson_longlong Q ?j = Inr (VLongLong n)"
      unfolding j by (simp add: fromJson_longlong_def assms(2))
    then show ?thesis using w b False by (intro exI [of _ ?j] conjI fromJson_branch_done) (simp_all add: j)
  qed
qed

text \<open>
  Every unsigned 64-bit integer survives the trip as well, also those above 2^63, and is a
  JSON number exactly when it is at most 2^53 - 1.
\<close>

lemma ulonglong_trip:
  assumes "plain_type Q MtULongLong" "toULongLong Q (number Q (uint n)) = Some (uint n)"
  shows "\<exists>j. toJson Q G (VULongLong n) st = (j, st) \<and> fromJson Q st' j MtULongLong = Inr (VULongLong n)
           \<and> (isDouble j \<longleftrightarrow> uint n \<le> max_exact)"
proof -
  let ?j = "toJson_ulonglong Q n"
  have w: "toJson Q G (VULongLong n) st = (?j, st)"
    by (rule toJson_of_plain) (use assms(1) in \<open>auto simp: toJson_special_def\<close>)
  have b: "fromJson_branch Q st' ?j MtULongLong = fromJson_ulonglong Q ?j"
  proof -
    have "\<not> isObject ?j" by (simp add: toJson_ulonglong_def jint_def Let_def)
    with assms(1) show ?thesis by (simp add: fromJson_branch_def plain_type_def)
  qed
  show ?thesis
  proof (cases "uint n \<le> max_exact")
    case True
    then have j: "?j = JDouble (DFin (of_int (uint n)))" by (simp add: toJson_ulonglong_def jint_exact)
    have "fromJson_ulonglong Q ?j = Inr (VULongLong n)"
      unfolding j fromJson_ulonglong_number [OF uint_ge_0 True] by simp
    then show ?thesis using w b True by (intro exI [of _ ?j] conjI fromJson_branch_done) (simp_all add: j)
  next
    case False
    then have j: "?j = JString (number Q (uint n))" by (auto simp: toJson_ulonglong_def)
    have "fromJson_ulonglong Q ?j = Inr (VULongLong n)"
      unfolding j by (simp add: fromJson_ulonglong_def assms(2))
    then show ?thesis using w b False by (intro exI [of _ ?j] conjI fromJson_branch_done) (simp_all add: j)
  qed
qed

subsection \<open>Enums\<close>

lemma nbits_ge: "n \<noteq> 0 \<Longrightarrow> 2 ^ (nbits n - 1) \<le> n"
proof (induction n rule: nbits.induct)
  case (1 n)
  show ?case
  proof (cases "n div 2 = 0")
    case True
    with 1 show ?thesis by (simp add: nbits.simps)
  next
    case False
    obtain j where j: "nbits (n div 2) = Suc j" using False nbits.simps [of "n div 2"] by simp
    have "2 ^ j \<le> n div 2" using 1(1) [OF 1(2) False] j by simp
    then have "2 * 2 ^ j \<le> n" by linarith
    with 1(2) j show ?thesis by (simp add: nbits.simps [of n])
  qed
qed

lemma nbits_less: "n < 2 ^ nbits n"
proof (induction n rule: nbits.induct)
  case (1 n)
  show ?case
  proof (cases "n = 0")
    case False
    have "n div 2 < 2 ^ nbits (n div 2)" using 1 [OF False] .
    with False show ?thesis by (simp add: nbits.simps [of n])
  qed (simp add: nbits.simps)
qed

lemma round53_large: "2 ^ 53 \<le> n \<Longrightarrow> 2 ^ 53 \<le> round53 n"
proof -
  assume n: "2 ^ 53 \<le> n"
  define s where "s = nbits n - 53"
  have "(2 :: nat) ^ 53 < 2 ^ nbits n" using n nbits_less [of n] by linarith
  then have "\<not> nbits n \<le> 53" by (simp only: power_strict_increasing_iff one_less_numeral_iff semiring_norm)
  then have s: "s \<noteq> 0" "nbits n = s + 53" by (simp_all add: s_def)
  have "2 ^ (s + 52) \<le> n" using nbits_ge [of n] n s by (simp add: add.commute)
  then have "2 ^ 52 \<le> n div 2 ^ s" by (simp add: power_add less_eq_div_iff_mult_less_eq mult.commute)
  then have "2 ^ 52 * 2 ^ s \<le> n div 2 ^ s * 2 ^ s" by (rule mult_le_mono1)
  moreover have "n div 2 ^ s * 2 ^ s \<le> round53 n" using s by (simp add: round53_def s_def [symmetric] Let_def)
  moreover have "(2 :: nat) ^ 53 \<le> 2 ^ 52 * 2 ^ s" using s by (cases s) simp_all
  ultimately show ?thesis by linarith
qed

lemma fromJson_enum_number:
  "\<bar>k\<bar> \<le> max_exact \<Longrightarrow> fromJson_enum Q (JDouble (DFin (of_int k))) t = enum_store Q t (word_of_int k)"
proof -
  assume k: "\<bar>k\<bar> \<le> max_exact"
  then have "\<not> dbl_less (DFin 9007199254740991) (dbl_abs (DFin (of_int k)))"
    by simp
  then show ?thesis by (simp add: fromJson_enum_def)
qed

text \<open>Storing a narrow enum keeps exactly its own bits, whether they were read signed or unsigned.\<close>

lemma narrow_bits8: "take_bit 8 (word_of_int (sint (ucast b :: 8 word)) :: i64) = take_bit 8 b"
  "take_bit 8 (word_of_int (uint (ucast b :: 8 word)) :: i64) = take_bit 8 b" for b :: i64
proof (rule_tac [!] bit_word_eqI)
  fix n assume "n < LENGTH(64)"
  show "bit (take_bit 8 (word_of_int (sint (ucast b :: 8 word)) :: i64)) n = bit (take_bit 8 b) n"
    by (cases "n = 7") (auto simp: bit_simps min_def)
  show "bit (take_bit 8 (word_of_int (uint (ucast b :: 8 word)) :: i64)) n = bit (take_bit 8 b) n"
    by (auto simp: bit_simps)
qed

lemma narrow_bits16: "take_bit 16 (word_of_int (sint (ucast b :: 16 word)) :: i64) = take_bit 16 b"
  "take_bit 16 (word_of_int (uint (ucast b :: 16 word)) :: i64) = take_bit 16 b" for b :: i64
proof (rule_tac [!] bit_word_eqI)
  fix n assume "n < LENGTH(64)"
  show "bit (take_bit 16 (word_of_int (sint (ucast b :: 16 word)) :: i64)) n = bit (take_bit 16 b) n"
    by (cases "n = 15") (auto simp: bit_simps min_def)
  show "bit (take_bit 16 (word_of_int (uint (ucast b :: 16 word)) :: i64)) n = bit (take_bit 16 b) n"
    by (auto simp: bit_simps)
qed

lemma narrow_bits32: "take_bit 32 (word_of_int (sint (ucast b :: 32 word)) :: i64) = take_bit 32 b"
  "take_bit 32 (word_of_int (uint (ucast b :: 32 word)) :: i64) = take_bit 32 b" for b :: i64
proof (rule_tac [!] bit_word_eqI)
  fix n assume "n < LENGTH(64)"
  show "bit (take_bit 32 (word_of_int (sint (ucast b :: 32 word)) :: i64)) n = bit (take_bit 32 b) n"
    by (cases "n = 31") (auto simp: bit_simps min_def)
  show "bit (take_bit 32 (word_of_int (uint (ucast b :: 32 word)) :: i64)) n = bit (take_bit 32 b) n"
    by (auto simp: bit_simps)
qed

definition enum_type :: "('w, 'o) qt \<Rightarrow> metatype \<Rightarrow> bool" where
  "enum_type Q t \<longleftrightarrow> mt_isEnum Q t \<and> \<not> mt_isPointer Q t \<and> \<not> mt_isGadget Q t \<and> t \<noteq> MtInvalid \<and> t \<noteq> MtQVariant"

lemma toJson_of_enum: "enum_type Q t \<Longrightarrow> toJson Q G (VEnum t b) st = (toJson_enum Q (VEnum t b), st)"
  by (simp add: toJson.simps toJson_first_def enum_type_def v_isValid_def toJson_special_def)

lemma fromJson_of_enum: "enum_type Q t \<Longrightarrow> fromJson Q st (JDouble d) t =
    (case fromJson_enum Q (JDouble d) t of Inl e \<Rightarrow> Inl e | Inr v \<Rightarrow>
       if variant_type v = t then Inr v else (let (ok, r) = v_convert Q v t in
         if ok then Inr r else Inl (Msg ''JSON value cannot be converted to Qt type %1'' [AStr (mt_qname Q t)])))"
  by (simp add: fromJson_def fromJson_branch_def enum_type_def)

lemma narrow_sint_exact:
  "\<bar>sint (x :: 8 word)\<bar> \<le> max_exact" "\<bar>sint (y :: 16 word)\<bar> \<le> max_exact" "\<bar>sint (z :: 32 word)\<bar> \<le> max_exact"
  "\<bar>uint (x :: 8 word)\<bar> \<le> max_exact" "\<bar>uint (y :: 16 word)\<bar> \<le> max_exact" "\<bar>uint (z :: 32 word)\<bar> \<le> max_exact"
  using sint_range_size [of x] sint_range_size [of y] sint_range_size [of z] uint_range_size [of x] uint_range_size [of y] uint_range_size [of z]
  by (simp_all add: word_size abs_le_iff)

text \<open>
  C34: A Qt enum or flag stored in one, two or four bytes is written as a JSON number and read back
  as the same value, negative keys and all flag bits included.
\<close>

theorem narrow_enum_roundtrip:
  assumes "enum_type Q t" "mt_size Q t \<in> {1, 2, 4}" "take_bit (8 * mt_size Q t) b = b"
  shows "\<exists>j. toJson Q G (VEnum t b) st = (j, st) \<and> fromJson Q st' j t = Inr (VEnum t b)"
proof -
  define signed where "signed \<longleftrightarrow> (case enumForMetaType Q t of Some e \<Rightarrow> \<not> enum_isFlag e | None \<Rightarrow> False)"
  obtain k where k: "\<bar>k\<bar> \<le> max_exact" "toJson_enum Q (VEnum t b) = jint k" "enum_store Q t (word_of_int k) = Inr (VEnum t b)"
  proof -
    consider "mt_size Q t = 1" | "mt_size Q t = 2" | "mt_size Q t = 4" using assms(2) by auto
    then show ?thesis
    proof cases
      case 1
      show ?thesis
        by (rule that [of "if signed then sint (ucast b :: 8 word) else uint (ucast b :: 8 word)"])
           (use 1 assms(3) narrow_sint_exact narrow_bits8 [of b] in \<open>simp_all add: toJson_enum_def Let_def signed_def enum_store_def\<close>)
    next
      case 2
      show ?thesis
        by (rule that [of "if signed then sint (ucast b :: 16 word) else uint (ucast b :: 16 word)"])
           (use 2 assms(3) narrow_sint_exact narrow_bits16 [of b] in \<open>simp_all add: toJson_enum_def Let_def signed_def enum_store_def\<close>)
    next
      case 3
      show ?thesis
        by (rule that [of "if signed then sint (ucast b :: 32 word) else uint (ucast b :: 32 word)"])
           (use 3 assms(3) narrow_sint_exact narrow_bits32 [of b] in \<open>simp_all add: toJson_enum_def Let_def signed_def enum_store_def\<close>)
    qed
  qed
  have "fromJson Q st' (jint k) t = Inr (VEnum t b)"
    unfolding jint_exact [OF k(1)] fromJson_of_enum [OF assms(1)] fromJson_enum_number [OF k(1)] k(3) by simp
  then show ?thesis using toJson_of_enum [OF assms(1)] k(2) by simp
qed

theorem narrow_enum_roundtrip_witness:
  "\<exists>j. toJson demo_qt demo_gen (VEnum (MtOther ''Small'') 65535) (bridge_init demo_init) = (j, bridge_init demo_init)
     \<and> fromJson demo_qt (bridge_init demo_init) j (MtOther ''Small'') = Inr (VEnum (MtOther ''Small'') 65535)"
  using narrow_enum_roundtrip [of demo_qt "MtOther ''Small''" 65535 demo_gen "bridge_init demo_init" "bridge_init demo_init"]
  by (simp add: enum_type_def)

text \<open>
  An enum stored in eight bytes is written as the double of its unsigned bits with no check
  for exactness, so a value whose unsigned bits exceed 2^53 - 1, every negative key among
  them, is refused when it is handed back.
\<close>

lemma wide_enum_refused:
  assumes "enum_type Q t" "mt_size Q t = 8" "max_exact < uint b"
  shows "\<exists>d. toJson Q G (VEnum t b) st = (JDouble d, st)
     \<and> fromJson Q st' (JDouble d) t
         = Inl (Msg ''Qt enum values must be finite, integral JSON numbers within the exact integer range'' [])"
proof -
  have "2 ^ 53 \<le> nat (uint b)" using assms(3) by (subst le_nat_iff) simp_all
  then have big: "2 ^ 53 \<le> round53 (nat (uint b))" by (rule round53_large)
  define k where "k = int (round53 (nat (uint b)))"
  have k: "2 ^ 53 \<le> k" using big by (simp add: k_def)
  have "0 < uint b" using assms(3) by linarith
  then have "sgn (uint b) = 1" by (rule sgn_pos)
  then have d: "int_to_dbl (uint b) = DFin (of_int k)" by (simp add: int_to_dbl_def k_def)
  have "dbl_less (DFin 9007199254740991) (dbl_abs (DFin (of_int k)))"
  proof -
    have "(9007199254740991 :: int) < \<bar>k\<bar>" using k by simp
    then have "(of_int 9007199254740991 :: rat) < of_int \<bar>k\<bar>" by (simp only: of_int_less_iff)
    then show ?thesis by simp
  qed
  then have "fromJson_enum Q (JDouble (DFin (of_int k))) t
      = Inl (Msg ''Qt enum values must be finite, integral JSON numbers within the exact integer range'' [])"
    by (simp add: fromJson_enum_def Let_def)
  moreover have "toJson_enum Q (VEnum t b) = JDouble (DFin (of_int k))"
    using assms(2) by (simp add: toJson_enum_def jint_def d Let_def)
  ultimately show ?thesis
    using toJson_of_enum [OF assms(1), of G b st] fromJson_of_enum [OF assms(1)] by simp
qed

subsection \<open>Checked inputs\<close>

lemma read_headers_safe:
  "read_headers Q obj = Inr hs \<Longrightarrow> list_all (\<lambda>(n, c). n \<noteq> [] \<and> \<not> bad_header_bytes n \<and> \<not> bad_header_bytes c) hs"
  by (induction obj arbitrary: hs) (auto simp: Let_def split: if_splits sum.splits)

text \<open>
  C32: Whatever JSON it is given, a \<^verbatim>\<open>QNetworkRequest\<close> that \<^verbatim>\<open>fromJson\<close> builds carries only headers whose
  name is not empty and whose name and value contain no CR, LF or NUL byte (no header injection).
\<close>

theorem network_request_header_safe:
  assumes "fromJson_networkRequest Q j = Inr v"
  shows "\<exists>url headers. v = VOpaque MtQNetworkRequest (request_new Q url headers)
           \<and> (\<forall>(n, c)\<in>set headers. n \<noteq> [] \<and> {CHR 0x0D, CHR 0x0A, CHR 0x00} \<inter> (set n \<union> set c) = {})"
proof -
  have none: "read_headers Q [] = Inr []" by simp
  from assms obtain url obj hs where v: "v = VOpaque MtQNetworkRequest (request_new Q url hs)" and h: "read_headers Q obj = Inr hs"
    by (auto simp: fromJson_networkRequest_def Let_def split: if_splits sum.splits intro: none)
  have "\<forall>(n, c)\<in>set hs. n \<noteq> [] \<and> {CHR 0x0D, CHR 0x0A, CHR 0x00} \<inter> (set n \<union> set c) = {}"
    using read_headers_safe [OF h] by (auto simp: list_all_iff bad_header_bytes_def)
  with v show ?thesis by blast
qed

theorem network_request_header_safe_witness:
  "fromJson_networkRequest demo_qt (jobj [(''url'', JString (qs ''a'')), (''headers'', jobj [(''K'', JString (qs ''v''))])])
     = Inr (VOpaque MtQNetworkRequest ())
   \<and> (\<exists>url headers. VOpaque MtQNetworkRequest () = VOpaque MtQNetworkRequest (request_new demo_qt url headers)
         \<and> (\<forall>(n, c)\<in>set headers. n \<noteq> [] \<and> {CHR 0x0D, CHR 0x0A, CHR 0x00} \<inter> (set n \<union> set c) = {}))"
proof -
  have a: "fromJson_networkRequest demo_qt (jobj [(''url'', JString (qs ''a'')), (''headers'', jobj [(''K'', JString (qs ''v''))])])
     = Inr (VOpaque MtQNetworkRequest ())"
  proof -
    have "toObject (jobj [(''K'', JString (qs ''v''))]) = [(qs ''K'', JString (qs ''v''))]"
      by (simp add: jobj_def smap_of_def)
    moreover have "\<not> isString (jobj kvs)" for kvs by (simp add: jobj_def)
    ultimately show ?thesis by (simp add: fromJson_networkRequest_def bad_header_bytes_def Let_def)
  qed
  from network_request_header_safe [OF a] a show ?thesis by blast
qed

text \<open>
  C14: A successful conversion to a concrete meta-type yields a value of exactly that meta-type,
  given that \<^verbatim>\<open>QVariant::convert\<close> does when it reports success; so every argument array built for a
  reflective call matches the signature, except for nullptr and QVariant parameters.
\<close>

theorem conversion_type_sound:
  assumes "convert_ok Q" "fromJson Q st j t = Inr v" "t \<noteq> MtQVariant"
  shows "variant_type v = t \<and> t \<noteq> MtInvalid"
proof -
  have "t \<noteq> MtInvalid" using assms(2) by (auto simp: fromJson_def)
  with fromJson_type [OF assms] show ?thesis by blast
qed

lemma demo_convert_ok: "convert_ok demo_qt"
proof -
  have "demo_convert v t = (True, v') \<Longrightarrow> variant_type v' = t" for v t v'
    by (cases v) (auto split: if_splits)
  then show ?thesis by (simp add: convert_ok_def)
qed

theorem conversion_type_sound_witness:
  "fromJson demo_qt (bridge_init demo_init) (JDouble (DFin 5)) MtInt = Inr (VInt 5) \<and> variant_type (VInt 5 :: unit qvariant) = MtInt"
proof -
  have a: "fromJson demo_qt (bridge_init demo_init) (JDouble (DFin 5)) MtInt = Inr (VInt 5)"
    by (simp add: fromJson_def fromJson_branch_def fromJson_other_def)
  from conversion_type_sound [OF demo_convert_ok a] a show ?thesis by simp
qed

text \<open>
  A JSON number is accepted as a 32-bit argument exactly when it is an integer in
  -2^31 .. 2^31 - 1, and then nothing is lost: the word's signed value is the number itself
  (fractions, infinities, NaN and larger magnitudes are refused, never wrapped).
\<close>

lemma integer_argument_exact:
  "integerArgument args i = Some n \<longleftrightarrow> i < length args \<and> args ! i = JDouble (DFin (of_int (sint n)))"
  by (auto simp: integerArgument_def readJsonInteger_iff split: if_splits)

text \<open>
  Handles survive the wire: a handle in 1 .. 2^53 - 1 written as a JSON number parses to itself,
  and nothing parses to a handle but that number.
\<close>

lemma handle_parse_exact:
  "parseObjectId j = Inr h \<longleftrightarrow> 1 \<le> h \<and> h \<le> max_exact \<and> j = jint h"
proof
  assume "parseObjectId j = Inr h"
  then show "1 \<le> h \<and> h \<le> max_exact \<and> j = jint h" by (simp add: parseObjectId_iff jint_exact)
next
  assume "1 \<le> h \<and> h \<le> max_exact \<and> j = jint h"
  then show "parseObjectId j = Inr h" by (simp add: parseObjectId_jint)
qed

text \<open>
  A gadget value leaves the bridge as a handle: the reply names the next free handle, the
  handle then resolves to the very value, and every handle issued before keeps its value.
\<close>

lemma gadget_handle_resolves:
  assumes "running st" "v_isValid v" "\<not> mt_isPointer Q (variant_type v)" "toJson_special Q v = None"
    "mt_isGadget Q (variant_type v)" "mt_metaObject Q (variant_type v) \<noteq> None" "toJson Q G v st = (j, st')"
  shows "jvalue (toObject j) ''value_id'' = jint (nextObjectId st) \<and> valueForId st' (nextObjectId st) = Some v
     \<and> (\<forall>k<nextObjectId st. valueForId st' k = valueForId st k) \<and> running st'"
proof -
  have "toJson Q G v st = value_handle Q v (mt_qname Q (variant_type v)) st"
    using assms(2-6) by (simp add: toJson.simps toJson_first_def Let_def)
  with assms(7) have h: "value_handle Q v (mt_qname Q (variant_type v)) st = (j, st')" by simp
  have r: "registerValue v st = (nextObjectId st, st')" and j: "j = jobj [(''value_id'', jint (nextObjectId st)), (''type'', JString (mt_qname Q (variant_type v)))]"
    using h assms(2) by (auto simp: value_handle_def registerValue_def Let_def split: prod.splits)
  have "valueForId st' (nextObjectId st) = Some v"
    by (rule value_table.resolves [OF assms(1) _ r]) (simp add: assms(2))
  moreover have "value_ext st st'" by (rule registerValue_ext [OF r])
  ultimately show ?thesis using assms(1) by (simp add: value_ext_def j)
qed

definition demo_running :: "(demo, unit) bridge" where
  "demo_running = (bridge_init demo_init)\<lparr>application := True, world := demo_init\<lparr>d_app := True\<rparr>, applicationThread := 1\<rparr>"

lemma demo_running_running: "running demo_running"
  by (simp add: demo_running_def running_def reg_inv_def bridge_init_def)

text \<open>
  When a stored value cannot be converted to the wanted type and the failed
  \<^verbatim>\<open>QVariant::convert\<close> has already changed the variant's type to the target, as Qt documents, the
  error names the target type as the source type too.
\<close>

lemma value_conversion_error_text:
  assumes "parseObjectId (jvalue (toObject j) ''value_id'') = Inr h" "valueForId st h = Some v" "variant_type v \<noteq> t"
    "v_convert Q v t = (False, v')" "variant_type v' = t"
  shows "fromJson_valueHandle Q st j t
      = Inl (Msg ''Qt value type %1 cannot be converted to %2'' [AStr (mt_qname Q t), AStr (mt_qname Q t)])"
proof -
  have "jvalue (toObject j) ''value_id'' = jint h" "1 \<le> h \<and> h \<le> max_exact"
    using assms(1) by (simp_all add: parseObjectId_iff jint_exact)
  then have "jvalue (toObject j) ''value_id'' = JDouble (DFin (of_int h))" by (simp add: jint_exact)
  moreover have "dbl_in_range 1 max_exact (DFin (of_int h))"
    using \<open>1 \<le> h \<and> h \<le> max_exact\<close> by (simp only: dbl_in_range_of_int)
  ultimately show ?thesis
    using assms(2-5) by (simp add: fromJson_valueHandle_def dbl_in_range_def Let_def)
qed

end
