(* ===== verification/Registry_Properties.thy ===== *)
theory Registry_Properties
  imports Wire Conversion_Properties
begin

text \<open>
  Properties of the handle registry: creation, deletion, shutdown, and what a handle means over
  time, and which arguments become pointers. Qt's documented behaviour enters as \<open>tree_ok\<close> (Registry),
  \<open>forest_ok\<close> and \<open>lifetime_ok\<close>.
\<close>

text \<open>
  Documented of QObject and QPointer: deleting an object destroys it, and a destroyed object stays
  destroyed: neither deleting another object nor destroying the application brings it back. What else a
  deletion destroys (children, items of a scene, proxies) is left to Qt.
\<close>

definition descends :: "('w, 'o) qt \<Rightarrow> 'w \<Rightarrow> ptr \<Rightarrow> ptr \<Rightarrow> bool" where
  "descends Q w q p \<longleftrightarrow> (\<exists>k. (parent_of Q w ^^ k) q = p)"

definition lifetime_ok :: "('w, 'o) qt \<Rightarrow> bool" where
  "lifetime_ok Q \<longleftrightarrow>
     (\<forall>w p. p \<noteq> nullptr \<longrightarrow> \<not> alive Q (delete_object Q p w) p)
     \<and> (\<forall>w p q. q \<noteq> nullptr \<and> alive Q (delete_object Q p w) q \<longrightarrow> alive Q w q)
     \<and> (\<forall>w q. q \<noteq> nullptr \<and> alive Q (app_reset Q w) q \<longrightarrow> alive Q w q)"

lemma lifetime_dead: "lifetime_ok Q \<Longrightarrow> p \<noteq> nullptr \<Longrightarrow> \<not> alive Q (delete_object Q p w) p"
  unfolding lifetime_ok_def by blast

lemma lifetime_was: "lifetime_ok Q \<Longrightarrow> q \<noteq> nullptr \<Longrightarrow> alive Q (delete_object Q p w) q \<Longrightarrow> alive Q w q"
  unfolding lifetime_ok_def by blast

lemma lifetime_reset: "lifetime_ok Q \<Longrightarrow> q \<noteq> nullptr \<Longrightarrow> alive Q (app_reset Q w) q \<Longrightarrow> alive Q w q"
  unfolding lifetime_ok_def by blast

lemma descendant_walk:
  assumes "tree_ok Q w" "a \<noteq> nullptr"
  shows "isDescendantOf Q w c a \<longleftrightarrow> (\<exists>k. (parent_of Q w ^^ Suc k) c = a)"
proof -
  have null: "parent_of Q w nullptr = nullptr" using assms(1) by (simp add: tree_ok_def)
  obtain n where n: "n \<le> object_count Q w" "(parent_of Q w ^^ n) (parent_of Q w c) = nullptr"
    using assms(1) by (auto simp: tree_ok_def)
  have "(if c = nullptr then nullptr else parent_of Q w c) = parent_of Q w c" using null by simp
  then have "isDescendantOf Q w c a \<longleftrightarrow> ancestor_walk Q w (Suc (object_count Q w)) (parent_of Q w c) a"
    by (simp only: isDescendantOf_def)
  also have "\<dots> \<longleftrightarrow> (\<exists>k. (parent_of Q w ^^ k) (parent_of Q w c) = a)"
    by (rule ancestor_walk_iff [OF null n(2) _ assms(2)]) (use n(1) in simp)
  finally show ?thesis by (simp add: funpow_swap1)
qed

text \<open>
  C21: \<^verbatim>\<open>isDescendantOf\<close> decides the ancestor relation: on a forest of QObjects the bounded walk
  answers true exactly when some chain of one or more \<^verbatim>\<open>parent()\<close> steps leads from the
  candidate to the ancestor.
\<close>

theorem isDescendantOf_iff:
  assumes "tree_ok Q w" "a \<noteq> nullptr"
  shows "isDescendantOf Q w c a \<longleftrightarrow> (\<exists>k. (parent_of Q w ^^ Suc k) c = a)"
  using assms by (rule descendant_walk)

subsection \<open>The loop returns\<close>

text \<open>
  The loop of \<^verbatim>\<open>isDescendantOf\<close> as it is written, without a bound: not returning is \<open>None\<close>. What makes it
  return is documented of QObject trees: finitely many objects exist, the parent of an object is
  another object, and no object is above itself.
\<close>

partial_function (option) parent_loop :: "('w, 'o) qt \<Rightarrow> 'w \<Rightarrow> ptr \<Rightarrow> ptr \<Rightarrow> bool option" where
  "parent_loop Q w parent a =
     (if parent = nullptr then Some False
      else if parent = a then Some True
      else parent_loop Q w (parent_of Q w parent) a)"

definition child_of :: "('w, 'o) qt \<Rightarrow> 'w \<Rightarrow> (ptr \<times> ptr) set" where
  "child_of Q w = {(p, parent_of Q w p) |p. p \<noteq> nullptr \<and> alive Q w p \<and> parent_of Q w p \<noteq> nullptr}"

definition forest_ok :: "('w, 'o) qt \<Rightarrow> 'w \<Rightarrow> bool" where
  "forest_ok Q w \<longleftrightarrow> finite {p. p \<noteq> nullptr \<and> alive Q w p} \<and> acyclic (child_of Q w)
     \<and> (\<forall>p. p \<noteq> nullptr \<and> alive Q w p \<longrightarrow> parent_of Q w p = nullptr \<or> alive Q w (parent_of Q w p))"

lemma forest_parent:
  "forest_ok Q w \<Longrightarrow> p \<noteq> nullptr \<Longrightarrow> alive Q w p \<Longrightarrow> parent_of Q w p \<noteq> nullptr \<Longrightarrow> alive Q w (parent_of Q w p)"
  unfolding forest_ok_def by metis

lemma forest_wf:
  assumes "forest_ok Q w"
  shows "wf ((child_of Q w)\<inverse>)"
proof (rule finite_acyclic_wf)
  have "(child_of Q w)\<inverse> \<subseteq> {p. p \<noteq> nullptr \<and> alive Q w p} \<times> {p. p \<noteq> nullptr \<and> alive Q w p}"
    using assms by (auto simp: forest_ok_def child_of_def)
  then show "finite ((child_of Q w)\<inverse>)" using assms finite_subset unfolding forest_ok_def by blast
  show "acyclic ((child_of Q w)\<inverse>)" using assms by (simp add: forest_ok_def)
qed

lemma child_of_above:
  assumes "(p, q) \<in> child_of Q w"
  shows "(p, a) \<in> (child_of Q w)\<^sup>+ \<longleftrightarrow> (q, a) \<in> (child_of Q w)\<^sup>*"
proof
  assume "(p, a) \<in> (child_of Q w)\<^sup>+"
  then obtain r where "(p, r) \<in> child_of Q w" "(r, a) \<in> (child_of Q w)\<^sup>*" by (blast dest: tranclD)
  moreover from this assms have "r = q" by (simp add: child_of_def)
  ultimately show "(q, a) \<in> (child_of Q w)\<^sup>*" by simp
qed (rule rtrancl_into_trancl2 [OF assms])

lemma parent_loop_null: "parent_loop Q w nullptr a = Some False"
  by (subst parent_loop.simps) simp

lemma parent_loop_decides:
  assumes "forest_ok Q w"
  shows "p \<noteq> nullptr \<longrightarrow> alive Q w p \<Longrightarrow>
    parent_loop Q w p a = Some (p \<noteq> nullptr \<and> (p, a) \<in> (child_of Q w)\<^sup>*)"
proof (induction p rule: wf_induct_rule [OF forest_wf [OF assms]])
  case (1 p)
  show ?case
  proof (cases "p = nullptr \<or> p = a")
    case True then show ?thesis by (auto simp: parent_loop.simps [of Q w p])
  next
    case False
    let ?q = "parent_of Q w p"
    have loop: "parent_loop Q w p a = parent_loop Q w ?q a" using False by (simp add: parent_loop.simps [of Q w p])
    have live: "alive Q w p" using 1(2) False by simp
    show ?thesis
    proof (cases "?q = nullptr")
      case True
      have "(p, a) \<notin> (child_of Q w)\<^sup>*"
        using False True by (auto elim: converse_rtranclE simp: child_of_def)
      with True show ?thesis unfolding loop by (simp add: parent_loop_null)
    next
      case q: False
      with live False have step: "(p, ?q) \<in> child_of Q w" by (auto simp: child_of_def)
      have "p \<noteq> nullptr" using False by simp
      from forest_parent [OF assms this live q]
      have "parent_loop Q w ?q a = Some (?q \<noteq> nullptr \<and> (?q, a) \<in> (child_of Q w)\<^sup>*)"
        by (intro 1(1)) (simp_all add: step)
      moreover have "(p, a) \<in> (child_of Q w)\<^sup>* \<longleftrightarrow> (?q, a) \<in> (child_of Q w)\<^sup>*"
        unfolding child_of_above [OF step, symmetric] using False by (simp add: rtrancl_eq_or_trancl)
      ultimately show ?thesis unfolding loop using q False by simp
    qed
  qed
qed

text \<open>
  C19: The parent loop of \<^verbatim>\<open>isDescendantOf\<close>, which has no bound of its own, returns for every live or null
  candidate and every ancestor as long as the live objects are finitely many and no object is above
  itself; its answer is whether the ancestor is reached from the candidate by one or more steps from a
  live object to its parent.
\<close>

theorem parent_loop_returns:
  assumes "forest_ok Q w" "candidate \<noteq> nullptr \<longrightarrow> alive Q w candidate"
  shows "parent_loop Q w (if candidate = nullptr then nullptr else parent_of Q w candidate) a
    = Some ((candidate, a) \<in> (child_of Q w)\<^sup>+)"
proof (cases "candidate = nullptr \<or> parent_of Q w candidate = nullptr")
  case True
  then have "(candidate, a) \<notin> (child_of Q w)\<^sup>+" by (auto simp: child_of_def dest: tranclD)
  with True show ?thesis by (auto simp: parent_loop_null)
next
  case False
  let ?q = "parent_of Q w candidate"
  have step: "(candidate, ?q) \<in> child_of Q w" using False assms(2) by (auto simp: child_of_def)
  have "alive Q w ?q" by (rule forest_parent [OF assms(1)]) (use assms(2) False in simp_all)
  then have "parent_loop Q w ?q a = Some ((?q, a) \<in> (child_of Q w)\<^sup>*)"
    using parent_loop_decides [OF assms(1), of ?q a] False by simp
  then show ?thesis using False child_of_above [OF step, of a] by simp
qed

definition demo_family :: demo where
  "demo_family = demo_init\<lparr>d_objects := [(3, 2), (2, 1), (1, 0)], d_next := 4, d_app := True\<rparr>"

lemma demo_family_parent: "demo_parent demo_family p = (if p = 3 then 2 else if p = 2 then 1 else 0)"
  by (simp add: demo_parent_def demo_family_def)

lemma demo_family_tree: "tree_ok demo_qt demo_family"
proof -
  have "(demo_parent demo_family ^^ 3) p = 0" for p
    by (simp add: eval_nat_numeral demo_family_parent)
  then show ?thesis
    by (auto simp: tree_ok_def demo_family_parent demo_family_def [THEN arg_cong [where f = d_objects]] intro!: exI [of _ 3])
qed

lemma demo_family_alive: "alive demo_qt demo_family p \<longleftrightarrow> p \<in> {1, 2, 3}"
  by (auto simp: demo_family_def)

lemma demo_family_child: "child_of demo_qt demo_family = {(3, 2), (2, 1)}"
  unfolding child_of_def demo_family_alive unfolding demo_qt_simps2 demo_family_parent by auto

lemma demo_family_forest: "forest_ok demo_qt demo_family"
proof -
  have "child_of demo_qt demo_family \<subseteq> {(p, q). q < p}" by (auto simp: demo_family_child)
  moreover have "acyclic ({(p :: nat, q). p < q}\<inverse>)" using wf_acyclic [OF wf_less] unfolding acyclic_converse .
  then have "acyclic {(p :: nat, q). q < p}" by (simp add: converse_unfold)
  ultimately have "acyclic (child_of demo_qt demo_family)" using acyclic_subset by blast
  moreover have "finite {p. p \<noteq> 0 \<and> alive demo_qt demo_family p}" unfolding demo_family_alive by simp
  moreover have "\<forall>p. p \<noteq> 0 \<and> alive demo_qt demo_family p \<longrightarrow>
      parent_of demo_qt demo_family p = 0 \<or> alive demo_qt demo_family (parent_of demo_qt demo_family p)"
    unfolding demo_family_alive unfolding demo_qt_simps2 demo_family_parent by auto
  ultimately show ?thesis unfolding forest_ok_def by blast
qed

theorem parent_loop_returns_witness:
  "parent_loop demo_qt demo_family 2 1 = Some True \<and> parent_loop demo_qt demo_family 2 3 = Some False"
proof -
  have live: "3 \<noteq> nullptr \<longrightarrow> alive demo_qt demo_family 3" by (simp add: demo_family_def)
  have "(3, 1) \<in> (child_of demo_qt demo_family)\<^sup>+" unfolding demo_family_child
    by (rule trancl_into_trancl [where b = 2]) auto
  moreover have "(3, 3) \<notin> (child_of demo_qt demo_family)\<^sup>+"
    using demo_family_forest by (simp add: forest_ok_def acyclic_def)
  ultimately show ?thesis
    using parent_loop_returns [OF demo_family_forest live, of 1] parent_loop_returns [OF demo_family_forest live, of 3]
    by (simp add: demo_family_parent)
qed

theorem isDescendantOf_iff_witness:
  "isDescendantOf demo_qt demo_family 3 1 \<and> (\<exists>k. (parent_of demo_qt demo_family ^^ Suc k) 3 = 1)"
proof -
  have "(demo_parent demo_family ^^ Suc 1) 3 = 1" by (simp add: demo_family_parent)
  then have "\<exists>k. (parent_of demo_qt demo_family ^^ Suc k) 3 = 1" by (metis demo_qt_simps2(2))
  with isDescendantOf_iff [OF demo_family_tree, of 1 3] show ?thesis by simp
qed

text \<open>The handles \<^verbatim>\<open>delete\<close> collects are those of null or destroyed objects and of the subtree.\<close>

lemma invalidated_iff:
  assumes "tree_ok Q (world st)" "reg_inv st" "object \<noteq> nullptr" "smap_find (objects st) k = Some q"
  shows "k \<in> set (invalidated Q object st) \<longleftrightarrow> q = nullptr \<or> \<not> alive Q (world st) q \<or> descends Q (world st) q object"
proof -
  have desc: "descends Q (world st) q object \<longleftrightarrow> q = object \<or> isDescendantOf Q (world st) q object"
  proof -
    have "descends Q (world st) q object \<longleftrightarrow> q = object \<or> (\<exists>k. (parent_of Q (world st) ^^ Suc k) q = object)"
      unfolding descends_def by (metis funpow_0 not0_implies_Suc)
    then show ?thesis by (simp add: descendant_walk [OF assms(1,3)])
  qed
  define bad where "bad p \<longleftrightarrow> (let c = qpointer_data Q (world st) p in
      c = nullptr \<or> c = object \<or> isDescendantOf Q (world st) c object)" for p
  have "p = q" if "(k, p) \<in> set (objects st)" for p
    using smap_find_in [OF _ that] assms(4,2) by (simp add: reg_inv_def)
  moreover have "(k, q) \<in> set (objects st)" using assms(4) by (rule smap_find_Some_in)
  moreover have "k \<in> set (invalidated Q object st) \<longleftrightarrow> (\<exists>p. (k, p) \<in> set (objects st) \<and> bad p)"
    unfolding invalidated_def bad_def by force
  ultimately have "k \<in> set (invalidated Q object st) \<longleftrightarrow> bad q" by blast
  then show ?thesis using desc assms(3) by (simp add: bad_def qpointer_data_def)
qed

text \<open>The handles \<^verbatim>\<open>delete\<close> of an object is to close.\<close>

definition gone_or_below :: "('w, 'o) qt \<Rightarrow> ('w, 'o) bridge \<Rightarrow> ptr \<Rightarrow> handle \<Rightarrow> bool" where
  "gone_or_below Q st object k \<longleftrightarrow>
     (\<exists>q. smap_find (objects st) k = Some q \<and> (q = nullptr \<or> \<not> alive Q (world st) q \<or> descends Q (world st) q object))"

text \<open>
  C8: \<^verbatim>\<open>delete\<close> of an object closes exactly the handles of the object itself, of the objects below it, and
  of objects already gone: these leave the table of objects together with their subscriptions, every
  other entry of both maps stays as it was, stored values and the handle counter are not touched,
  and the object is destroyed.
\<close>

theorem delete_closes_exactly_the_subtree:
  assumes "tree_ok Q (world st)" "lifetime_ok Q" "reg_inv st" "object \<noteq> nullptr" "op_delete Q object st = (r, st')"
  shows "r = Success JNull
    \<and> (\<forall>k. smap_find (objects st') k = (if gone_or_below Q st object k then None else smap_find (objects st) k))
    \<and> (\<forall>k. smap_find (subscriptions st') k = (if gone_or_below Q st object k then None else smap_find (subscriptions st) k))
    \<and> bvalues st' = bvalues st \<and> nextObjectId st' = nextObjectId st \<and> application st' = application st
    \<and> \<not> alive Q (world st') object"
proof -
  define oids where "oids = invalidated Q object st"
  have sub: "k \<in> fst ` set (objects st)" if "k \<in> set oids" for k
    using that by (force simp: oids_def invalidated_def Let_def)
  have mem: "k \<in> set oids \<longleftrightarrow> gone_or_below Q st object k" for k
  proof (cases "smap_find (objects st) k")
    case None
    then have "k \<notin> fst ` set (objects st)" by (simp add: smap_find_None_iff)
    then show ?thesis using None sub by (auto simp: gone_or_below_def)
  next
    case (Some q)
    then show ?thesis using invalidated_iff [OF assms(1,3,4) Some] by (simp add: oids_def gone_or_below_def)
  qed
  obtain w1 where st': "r = Success JNull" "world st' = delete_object Q object w1" "objects st' = fold smap_erase oids (objects st)"
    "subscriptions st' = fold smap_erase oids (subscriptions st)" "bvalues st' = bvalues st" "nextObjectId st' = nextObjectId st"
    "application st' = application st"
    using assms(5) by (auto simp: op_delete_def erase_subscriptions_def success_def Let_def oids_def [symmetric])
  moreover have "\<not> alive Q (world st') object" unfolding st'(2) by (rule lifetime_dead [OF assms(2,4)])
  ultimately show ?thesis by (simp add: smap.find_erase_all mem)
qed

subsection \<open>The instance\<close>

lemma demo_lifetime: "lifetime_ok demo_qt"
proof -
  have alive: "p \<in> fst ` set (d_objects (demo_delete a w)) \<longleftrightarrow>
      p \<in> fst ` set (d_objects w) \<and> \<not> demo_below (d_objects w) (Suc (length (d_objects w))) p a" for p a w
    by (force simp: demo_delete_def simp del: demo_below.simps)
  show ?thesis
    unfolding lifetime_ok_def demo_qt_simps2
  proof (intro conjI allI impI; (elim conjE)?)
    fix p w show "\<not> p \<in> fst ` set (d_objects (demo_delete p w))" unfolding alive by simp
  next
    fix p q w assume "q \<in> fst ` set (d_objects (demo_delete p w))"
    then show "q \<in> fst ` set (d_objects w)" unfolding alive by (rule conjunct1)
  qed simp
qed

definition family_state :: "(demo, unit) bridge" where
  "family_state = (bridge_init demo_family)\<lparr>application := True, applicationThread := 1,
     objects := [(1, 1), (2, 2), (3, 3)], nextObjectId := 4\<rparr>"

lemma family_inv: "reg_inv family_state" "world family_state = demo_family"
  by (auto simp: family_state_def reg_inv_def bridge_init_def smap_ok_Cons)

lemma family_find: "objectForId demo_qt family_state k = (if k \<in> {1, 2, 3} then nat k else 0)"
  by (simp add: objectForId_def family_state_def smap_find_def qpointer_data_def bridge_init_def demo_family_def)

theorem delete_closes_exactly_the_subtree_witness:
  "\<exists>st'. op_delete demo_qt 2 family_state = (Success JNull, st') \<and> smap_find (objects st') 1 = Some 1
     \<and> smap_find (objects st') 2 = None \<and> smap_find (objects st') 3 = None \<and> \<not> alive demo_qt (world st') 2"
proof -
  obtain r st' where d: "op_delete demo_qt 2 family_state = (r, st')" by force
  have t: "tree_ok demo_qt (world family_state)" using demo_family_tree by (simp add: family_inv)
  note P = delete_closes_exactly_the_subtree [OF t demo_lifetime family_inv(1) _ d, unfolded family_inv]
  have f: "smap_find (objects family_state) k = (if k \<in> {1, 2, 3} then Some (nat k) else None)" for k
    by (simp add: family_state_def smap_find_def)
  have d1: "\<not> descends demo_qt demo_family 1 2"
  proof -
    have "(demo_parent demo_family ^^ k) 0 = 0" for k by (induction k) (simp_all add: demo_family_parent)
    then have "(demo_parent demo_family ^^ k) 1 \<noteq> 2" for k by (cases k) (simp_all add: funpow_swap1 demo_family_parent)
    then show ?thesis by (simp add: descends_def)
  qed
  have "(demo_parent demo_family ^^ 1) 3 = 2" "(demo_parent demo_family ^^ 0) 2 = 2" by (simp_all add: demo_family_parent)
  then have d3: "descends demo_qt demo_family 3 2" "descends demo_qt demo_family 2 2"
    unfolding descends_def by (metis demo_qt_simps2(2))+
  have "alive demo_qt demo_family 1" by (simp add: demo_family_def)
  with P d1 d3 d show ?thesis by (auto simp: f gone_or_below_def family_inv)
qed

subsection \<open>Shutdown\<close>

lemma delete_all_was: "lifetime_ok Q \<Longrightarrow> q \<noteq> nullptr \<Longrightarrow> alive Q (delete_all Q ps w) q \<Longrightarrow> alive Q w q"
proof (induction ps arbitrary: w)
  case (Cons p ps)
  have "alive Q (if qpointer_data Q w p = nullptr then w else delete_object Q p w) q"
    by (rule Cons.IH) (use Cons.prems in \<open>simp_all add: delete_all_def\<close>)
  then show ?case using lifetime_was [OF Cons.prems(1,2)] by (auto split: if_splits)
qed (simp add: delete_all_def)

lemma delete_all_dead: "lifetime_ok Q \<Longrightarrow> p \<in> set ps \<Longrightarrow> p \<noteq> nullptr \<Longrightarrow> \<not> alive Q (delete_all Q ps w) p"
proof (induction ps arbitrary: w)
  case (Cons q ps)
  define w1 where "w1 = (if qpointer_data Q w q = nullptr then w else delete_object Q q w)"
  have all: "delete_all Q (q # ps) w = delete_all Q ps w1" by (simp add: delete_all_def w1_def)
  show ?case
  proof (cases "p \<in> set ps")
    case True then show ?thesis using Cons.IH [OF Cons.prems(1) True Cons.prems(3)] all by simp
  next
    case False
    with Cons.prems have "p = q" by simp
    then have "\<not> alive Q w1 p"
      using lifetime_dead [OF Cons.prems(1,3)] Cons.prems(3) by (simp add: w1_def qpointer_data_def)
    then show ?thesis using delete_all_was [OF Cons.prems(1,3)] all by metis
  qed
qed simp

text \<open>
  C25: \<^verbatim>\<open>shutdown\<close> of a running application, called on the application thread, leaves nothing behind: all
  three tables are empty, the application is gone, every object that had a handle is destroyed, and the
  handle counter stays where it was, so handles of the old session are not given out again.
\<close>

theorem shutdown_destroys_everything:
  assumes "lifetime_ok Q" "application st" "op_shutdown Q (applicationThread st) st = (r, st')"
  shows "objects st' = [] \<and> bvalues st' = [] \<and> subscriptions st' = [] \<and> \<not> application st' \<and> r = Success JNull
     \<and> nextObjectId st' = nextObjectId st
     \<and> (\<forall>(k, p)\<in>set (objects st). p \<noteq> nullptr \<longrightarrow> \<not> alive Q (world st') p)"
proof -
  obtain ws where ws: "world st' = app_reset Q (delete_all Q (map snd (objects st)) ws)"
    "objects st' = []" "bvalues st' = []" "subscriptions st' = []" "\<not> application st'" "r = Success JNull"
    "nextObjectId st' = nextObjectId st"
    using assms(2,3) by (auto simp: op_shutdown_def success_def Let_def)
  have "\<not> alive Q (world st') p" if "(k, p) \<in> set (objects st)" "p \<noteq> nullptr" for k p
  proof -
    have "p \<in> set (map snd (objects st))" using that(1) by force
    from delete_all_dead [OF assms(1) this that(2)] show ?thesis
      unfolding ws(1) using lifetime_reset [OF assms(1) that(2)] by blast
  qed
  with ws show ?thesis by auto
qed

theorem shutdown_destroys_everything_witness:
  "\<exists>r st'. op_shutdown demo_qt 1 family_state = (r, st') \<and> objects st' = [] \<and> \<not> alive demo_qt (world st') 3"
proof -
  obtain r st' where s: "op_shutdown demo_qt (applicationThread family_state) family_state = (r, st')" by force
  have a: "application family_state" "applicationThread family_state = 1" "(3, 3) \<in> set (objects family_state)"
    by (simp_all add: family_state_def)
  show ?thesis
    using shutdown_destroys_everything [OF demo_lifetime a(1) s] s a by auto
qed

subsection \<open>Handles over time\<close>

lemma demo_gen_ok: "gen_ok demo_gen"
proof -
  have "reg_step st (st\<lparr>world := w\<rparr>)" for st :: "(demo, unit) bridge" and w
    using reg_step_set_world [of st w] unfolding set_world_def .
  then show ?thesis by (auto simp: gen_ok_def demo_gen_def split: prod.splits)
qed

text \<open>
  C2: Every request, whatever its content, its outcome and the calling thread, keeps the registry
  well formed and only moves the handle counter forward.
\<close>

theorem request_keeps_registry:
  assumes "gen_ok G" "reg_inv st" "handleRequest Q G t request st = (r, st')"
  shows "reg_inv st' \<and> nextObjectId st \<le> nextObjectId st'"
  using handleRequest_ok [OF assms(1,2), of Q t request] assms(3) by (simp add: request_ok_def handle_step_def)

theorem request_keeps_registry_witness:
  "\<exists>r st'. handleRequest demo_qt demo_gen 1 [(qs ''op'', JString (qs ''delete'')), (qs ''object_id'', jint 2)] family_state = (r, st') \<and> reg_inv st'"
proof -
  obtain r st' where h: "handleRequest demo_qt demo_gen 1 [(qs ''op'', JString (qs ''delete'')), (qs ''object_id'', jint 2)] family_state = (r, st')"
    by force
  with request_keeps_registry [OF demo_gen_ok family_inv(1) h] show ?thesis by blast
qed

text \<open>
  C1: Handles are never reused or redirected: through any sequence of calls from any threads
  (\<^verbatim>\<open>shutdown\<close> and a new application included), a handle issued before that is closed stays
  closed, and one that is still open denotes the object it denoted.
\<close>

theorem handles_never_reused:
  assumes "gen_ok G" "reg_inv st" "k < nextObjectId st"
  shows "(smap_find (objects st) k = None \<longrightarrow> smap_find (objects (snd (sequential Q G calls st))) k = None)
       \<and> (\<forall>p. smap_find (objects (snd (sequential Q G calls st))) k = Some p \<longrightarrow> smap_find (objects st) k = Some p)
       \<and> (valueForId st k = None \<longrightarrow> valueForId (snd (sequential Q G calls st)) k = None)"
  using sequential_ok [OF assms(1,2), of Q calls] assms(3) by (auto simp: handle_step_def)

theorem handles_never_reused_witness:
  "valueForId (snd (sequential demo_qt demo_gen [(1, \<lparr>wc_request = Some demo_request_text, wc_requestLength = 16, wc_hasResponse = True, wc_capacity = 64\<rparr>)]
      family_state)) 3 = None"
proof -
  have "3 < nextObjectId family_state" "valueForId family_state 3 = None"
    by (simp_all add: family_state_def valueForId_def smap_find_def bridge_init_def)
  with handles_never_reused [OF demo_gen_ok family_inv(1)] show ?thesis by blast
qed

text \<open>
  C28: A successful \<^verbatim>\<open>new\<close> answers a fresh handle, larger than every handle issued before it; the handle
  denotes a non-null object and no earlier handle changes its meaning.
\<close>

theorem new_issues_fresh_handle:
  assumes "gen_ok G" "new_ok Q" "running st" "op_new Q G request st = (Success j, st')"
  shows "\<exists>h p. nextObjectId st \<le> h \<and> h < nextObjectId st' \<and> jvalue (toObject j) ''object_id'' = jint h
     \<and> smap_find (objects st') h = Some p \<and> p \<noteq> nullptr
     \<and> (\<forall>k<nextObjectId st. smap_find (objects st') k = smap_find (objects st) k)"
proof -
  obtain className parent args created st1 where
    c: "createObject Q G className parent args st = (Inr created, st1)"
    and r: "register_created Q parent created st1 = (Success j, st')"
    using assms(4)
    by (auto simp: op_new_def fail_def failure_def Let_def split: if_splits sum.splits prod.splits)
  have p: "created \<noteq> nullptr" by (rule createObject_nonnull [OF assms(2) c])
  have s: "reg_step st st1" by (rule createObject_reg_step [OF assms(1) c])
  then have r1: "running st1" and n: "nextObjectId st \<le> nextObjectId st1" using assms(3) by (simp_all add: reg_step_def)
  have st': "objects st' = smap_emplace (nextObjectId st1) created (objects st1)" "nextObjectId st' = nextObjectId st1 + 1"
    "jvalue (toObject j) ''object_id'' = jint (nextObjectId st1)"
    using r by (auto simp: register_created_def success_def Let_def split: if_splits)
  have fresh: "smap_find (objects st1) (nextObjectId st1) = None" using find_fresh [of st1] r1 by (simp add: running_def)
  have "smap_find (objects st') k = smap_find (objects st) k" if "k < nextObjectId st" for k
    using s that n by (simp add: st' smap.find_emplace_fresh [OF fresh] reg_step_def)
  then show ?thesis
    using n p by (intro exI [of _ "nextObjectId st1"] exI [of _ created]) (simp add: st' smap.find_emplace_fresh [OF fresh])
qed

text \<open>
  C33: A JSON argument converts to a QObject pointer in exactly two ways: null to the null pointer, or an
  object whose \<^verbatim>\<open>object_id\<close> is a handle of the table to the live object registered under that handle,
  and only if Qt's cast to the class of the parameter accepts the object. So a closed handle, a handle of
  a destroyed object and an object of another class never become a pointer.
\<close>

theorem pointer_argument_resolves:
  assumes "mt_isPointer Q target" "target \<notin> {MtInvalid, MtQVariant}"
  shows "fromJson Q st j target = Inr v \<longleftrightarrow>
    (\<exists>cls. mt_metaObject Q target = Some cls \<and>
      (isNull j \<and> v = VPointer target nullptr
       \<or> (\<exists>h p. isObject j \<and> parseObjectId (jvalue (toObject j) ''object_id'') = Inr h
             \<and> (smap_find (objects st) h = Some p \<and> p \<noteq> nullptr \<and> alive Q (world st) p)
             \<and> meta_cast Q cls (world st) p \<and> v = VPointer target p)))"
proof -
  have null: "isNull j \<Longrightarrow> \<not> isObject j" by (cases j) simp_all
  have found: "smap_find (objects st) h = Some p \<and> p \<noteq> nullptr \<and> alive Q (world st) p \<longleftrightarrow> objectForId Q st h = p \<and> p \<noteq> nullptr" for h p
    by (rule objectForId_Some_iff [symmetric])
  have pointer: "fromJson Q st j target = fromJson_pointer Q st j target"
    using assms by (auto simp: fromJson_def fromJson_branch_def fromJson_pointer_def Let_def split: option.splits sum.splits)
  show ?thesis
    unfolding pointer found using null by (auto simp: fromJson_pointer_def Let_def split: option.splits sum.splits)
qed

definition cast_qt :: "(demo, unit) qt" where
  "cast_qt = demo_qt\<lparr>mt_metaObject := \<lambda>_. Some demo_class, meta_cast := \<lambda>cls w p. p = 2\<rparr>"

theorem pointer_argument_resolves_witness:
  "fromJson cast_qt family_state (jobj [(''object_id'', jint 2)]) MtQObjectStar = Inr (VPointer MtQObjectStar 2)
   \<and> fromJson cast_qt family_state (jobj [(''object_id'', jint 3)]) MtQObjectStar \<noteq> Inr (VPointer MtQObjectStar 3)"
proof -
  have c: "mt_isPointer cast_qt MtQObjectStar" "mt_metaObject cast_qt MtQObjectStar = Some demo_class"
    "meta_cast cast_qt cls w p = (p = 2)" "alive cast_qt = alive demo_qt" for cls w p
    by (simp_all add: cast_qt_def)
  have o: "isObject (jobj [(''object_id'', jint n)])" "jvalue (toObject (jobj [(''object_id'', jint n)])) ''object_id'' = jint n" for n
    by simp_all
  have f: "smap_find (objects family_state) 2 = Some 2" "alive demo_qt (world family_state) 2"
    by (simp_all add: family_state_def smap_find_def bridge_init_def demo_family_def)
  have "MtQObjectStar \<notin> {MtInvalid, MtQVariant}" by simp
  note P = pointer_argument_resolves [OF c(1) this]
  have "fromJson cast_qt family_state (jobj [(''object_id'', jint 2)]) MtQObjectStar = Inr (VPointer MtQObjectStar 2)"
    unfolding P using f by (simp add: c o parseObjectId_jint)
  moreover have "fromJson cast_qt family_state (jobj [(''object_id'', jint 3)]) MtQObjectStar \<noteq> Inr (VPointer MtQObjectStar 3)"
    unfolding P by (simp add: c)
  ultimately show ?thesis ..
qed

lemma set_smap_put_subset: "set (smap_put k v m) \<subseteq> insert (k, v) (set m)"
  by (induction k v m rule: smap_put.induct) auto

lemma idForObject_in_unique:
  "p \<noteq> nullptr \<Longrightarrow> alive Q w p \<Longrightarrow> (h, p) \<in> set m \<Longrightarrow> \<forall>k. (k, p) \<in> set m \<longrightarrow> k = h \<Longrightarrow> idForObject_in Q w m p = h"
proof (induction m)
  case (Cons e m)
  obtain oid q where e: "e = (oid, q)" by force
  show ?case
  proof (cases "q = p")
    case True
    then have "oid = h" using Cons.prems(4) list.set_intros(1) e by metis
    with True show ?thesis using Cons.prems(1,2) by (simp add: e qpointer_data_def)
  next
    case False
    have "(h, p) \<in> set m" using Cons.prems(3) False by (simp add: e)
    moreover have "\<forall>k. (k, p) \<in> set m \<longrightarrow> k = h" using Cons.prems(4) list.set_intros(2) by metis
    ultimately have "(h, p) \<in> set m" "\<forall>k. (k, p) \<in> set m \<longrightarrow> k = h" by blast+
    from Cons.IH [OF Cons.prems(1,2) this] show ?thesis
      using False Cons.prems(1) by (simp add: e qpointer_data_def)
  qed
qed simp

text \<open>The handle object \<^verbatim>\<open>objectHandleValue\<close> writes names a handle of the object.\<close>

lemma objectHandleValue_reads:
  assumes "running st" "p \<noteq> nullptr" "alive Q (world st) p" "nextObjectId st \<le> max_exact" "objectHandleValue Q p st = (j, st')"
  obtains h where "registerObject Q p st = (h, st')" "j = jobj [(''object_id'', jint h)]" "objectForId Q st' h = p"
    "running st'" "1 \<le> h" "h < nextObjectId st'" "h \<le> max_exact"
proof -
  obtain h where r: "registerObject Q p st = (h, st')" and j: "j = jobj [(''object_id'', jint h)]"
    using assms(5) by (auto simp: objectHandleValue_def split: prod.splits)
  have "p \<noteq> nullptr \<and> alive Q (world st) p" using assms(2,3) by blast
  from object_table.register_finds [OF assms(1) this r]
  have p: "objectForId Q st' h = p" and run: "running st'" and b: "1 \<le> h \<and> h < nextObjectId st'"
    by (simp_all add: resolve_object_Some_iff)
  have "nextObjectId st' \<le> nextObjectId st + 1" using r by (auto simp: registerObject_def Let_def split: if_splits)
  with b have "h \<le> max_exact" using assms(4) by linarith
  then show thesis using that [OF r j p run] b by blast
qed

text \<open>
  An object handle survives the round trip through JSON: the value \<^verbatim>\<open>objectHandleValue\<close> writes for
  a live object is read back by \<^verbatim>\<open>objectArgument\<close> as that object, as long as fewer than 2^53
  handles were issued; writing it twice gives the same handle and leaves the table alone.
\<close>

lemma object_handle_roundtrip:
  assumes "running st" "p \<noteq> nullptr" "alive Q (world st) p" "nextObjectId st \<le> max_exact" "objectHandleValue Q p st = (j, st')"
  shows "objectArgument Q st' [j] 0 = Inr p \<and> objectHandleValue Q p st' = (j, st')"
proof -
  from objectHandleValue_reads [OF assms] obtain h where r: "registerObject Q p st = (h, st')"
    and j: "j = jobj [(''object_id'', jint h)]" and p: "objectForId Q st' h = p" and run: "running st'"
    and h: "1 \<le> h" "h \<le> max_exact" and b: "h < nextObjectId st'" by metis
  have inv: "reg_inv st" using assms(1) by (simp add: running_def)
  have "objectArgument Q st' [j] 0 = Inr p"
    using parseObjectId_jint [OF h] assms(2) by (simp add: objectArgument_def j p)
  moreover have "idForObject Q st' p \<noteq> 0 \<and> idForObject Q st' p = h"
  proof (cases "idForObject Q st p = 0")
    case False
    with r assms(2) show ?thesis by (auto simp: registerObject_def Let_def)
  next
    case True
    have w: "world st' = world st" using r by (rule registerObject_frame)
    have "0 \<notin> fst ` set (objects st)" using inv by (force simp: reg_inv_def)
    from idForObject_in_0 [OF assms(2) this _ assms(3)] True have "p \<notin> snd ` set (objects st)" by (simp add: idForObject_def)
    moreover from True r assms(2) have "h = nextObjectId st" "objects st' = smap_emplace h p (objects st)"
      by (auto simp: registerObject_def Let_def)
    ultimately have uniq: "k = h" if "(k, p) \<in> set (objects st')" for k
      using that set_smap_put_subset [of h p "objects st"] by (force simp: smap_emplace_def split: option.splits)
    have f: "(h, p) \<in> set (objects st')" "alive Q (world st') p"
      using p assms(2) objectForId_Some_iff [of Q st' h p] by (auto dest: smap_find_Some_in)
    have "idForObject Q st' p = h"
      unfolding idForObject_def by (rule idForObject_in_unique [OF assms(2) f(2,1)]) (use uniq in blast)
    then show ?thesis using h by simp
  qed
  ultimately show ?thesis using assms(2) by (simp add: objectHandleValue_def registerObject_def j Let_def)
qed

lemma demo_new_ok: "new_ok (demo_qt\<lparr>qt_new := \<lambda>c vs q w. (5, w)\<rparr>)"
  by (simp add: new_ok_def)

theorem new_issues_fresh_handle_witness:
  "\<exists>j st' h p. op_new (demo_qt\<lparr>qt_new := \<lambda>c vs q w. (5, w)\<rparr>) demo_gen [(qs ''class'', JString (qs ''QTimer''))] family_state = (Success j, st')
     \<and> 4 \<le> h \<and> smap_find (objects st') h = Some p \<and> p \<noteq> nullptr"
proof -
  let ?Q = "demo_qt\<lparr>qt_new := \<lambda>c vs q w. (5 :: nat, w)\<rparr>"
  let ?req = "[(qs ''class'', JString (qs ''QTimer''))]"
  have run: "running family_state" using family_inv(1) by (simp add: running_def family_state_def)
  have cls: "jvalue ?req ''class'' = JString (qs ''QTimer'')" "jvalue ?req ''parent'' = JUndefined" "jvalue ?req ''args'' = JUndefined"
    by (simp_all add: jvalue_def smap_find_def)
  have nodot: "qch CHR ''.'' \<notin> set (qs ''QTimer'')" by (simp add: qs_def)
  have mods: "filter (\<lambda>m. module_has m (qs ''QTimer'')) (modules demo_gen) = []" 
    by (simp add: filter_empty_conv modules_def demo_gen_def demo_module_def module_has_def)
  have acm: "argumentConstructorModules demo_gen (qs ''QTimer'') = []"
    by (simp add: argumentConstructorModules_def filter_empty_conv demo_gen_def)
  have res: "resolve_class demo_gen (qs ''QTimer'') = Inr ([], qs ''QTimer'')"
    using nodot by (simp add: resolve_class_def split_qualified_unqualified mods acm)
  have look: "explicit_new ?Q demo_gen (qs ''QTimer'') [] 0 0 family_state = Some (Inr (''QTimer'', [], 0))"
    by (simp add: explicit_new_def explicit_lookup_def explicit_widgets_def explicit_objects_def demo_gen_def)
  have chk: "check_widget_parent ?Q (world family_state) (qs ''QTimer'') 0 0 = None"
    by (simp add: check_widget_parent_def)
  have made: "createObject ?Q demo_gen (qs ''QTimer'') 0 [] family_state = (Inr 5, set_world (world family_state) family_state)"
    by (simp add: createObject_def res chk look)
  obtain j st' where new: "op_new ?Q demo_gen ?req family_state = (Success j, st')"
  proof -
    have nul: "\<not> hasNul (qs ''QTimer'')"
    proof -
      have "qch c \<noteq> 0" if "c \<noteq> CHR 0x00" for c
        using qch_inject [of c "CHR 0x00"] that by (simp add: qch_def [of "CHR 0x00"])
      then show ?thesis by (auto simp: hasNul_def qs_def)
    qed
    show ?thesis
      by (rule that) (simp add: op_new_def cls nul parent_field_def bad_args_field_def made register_created_def success_def Let_def)
  qed
  show ?thesis
    using new_issues_fresh_handle [OF demo_gen_ok demo_new_ok run new] new by (fastforce simp: family_state_def)
qed

end
