(* ===== verification/Operation_Properties.thy ===== *)
theory Operation_Properties
  imports Registry_Properties
begin

text \<open>
  Properties of the operations: the guards before them, the event queue, reflective calls and
  property writes, object creation, and the answers about value types and constructors.
\<close>

subsection \<open>Guards\<close>

text \<open>
  C30: Before the application is started, once Qt has no application object, and on any thread but the
  application's own, every request other than \<^verbatim>\<open>application\<close>, \<^verbatim>\<open>shutdown\<close> and the questions about the
  linked package is refused with the message that says which of the two is missing: an application, or,
  only when there is one, the right thread. Whatever the request was, the bridge and Qt's world stay
  exactly as they were.
\<close>

theorem guard_blocks_requests:
  assumes "\<not> application st \<or> \<not> app_instance Q (world st) \<or> t \<noteq> applicationThread st"
    "toString (jvalue request ''op'') \<noteq> qs ''application''" "toString (jvalue request ''op'') \<noteq> qs ''shutdown''"
  shows "snd (handleRequest Q G t request st) = st
    \<and> (toString (jvalue request ''op'') \<noteq> [] \<and> package_query Q G (toString (jvalue request ''op'')) request = None \<longrightarrow>
         fst (handleRequest Q G t request st) =
           (if application st \<and> app_instance Q (world st)
            then Failure (Msg ''Qt requests must run on the application thread'' [])
            else Failure (Msg ''start the Qt application before creating or using Qt objects'' [])))"
  using assms
  by (auto simp: handleRequest_def guard_failure_def fail_def failure_def Let_def split: option.splits)

theorem guard_blocks_requests_witness:
  "handleRequest demo_qt demo_gen 2 [(qs ''op'', JString (qs ''new''))] family_state
     = (Failure (Msg ''Qt requests must run on the application thread'' []), family_state)
   \<and> handleRequest demo_qt demo_gen 1 [(qs ''op'', JString (qs ''new''))] (bridge_init demo_init)
     = (Failure (Msg ''start the Qt application before creating or using Qt objects'' []), bridge_init demo_init)"
proof -
  let ?req = "[(qs ''op'', JString (qs ''new''))]"
  have op: "toString (jvalue ?req ''op'') = qs ''new''" by (simp add: jvalue_def smap_find_def)
  have query: "package_query demo_qt demo_gen (qs ''new'') ?req = None" by (simp add: package_query_def)
  have "2 \<noteq> applicationThread family_state" "application family_state" "app_instance demo_qt (world family_state)"
    by (simp_all add: family_state_def bridge_init_def demo_family_def)
  then have "handleRequest demo_qt demo_gen 2 ?req family_state = (Failure (Msg ''Qt requests must run on the application thread'' []), family_state)"
    using guard_blocks_requests [of family_state demo_qt 2 ?req demo_gen] query
    by (intro prod_eqI) (simp_all add: op)
  moreover have "\<not> application (bridge_init demo_init :: (demo, unit) bridge)" by (simp add: bridge_init_def)
  then have "handleRequest demo_qt demo_gen 1 ?req (bridge_init demo_init)
      = (Failure (Msg ''start the Qt application before creating or using Qt objects'' []), bridge_init demo_init)"
    using guard_blocks_requests [of "bridge_init demo_init" demo_qt 1 ?req demo_gen] query
    by (intro prod_eqI) (simp_all add: op)
  ultimately show ?thesis ..
qed

subsection \<open>Events\<close>

definition wait_ok :: "json \<Rightarrow> bool" where
  "wait_ok v \<longleftrightarrow> v = JUndefined \<or> (\<exists>n. v = JDouble (DFin (of_int n)) \<and> 0 \<le> n \<and> n \<le> 30000)"

definition max_ok :: "json \<Rightarrow> bool" where
  "max_ok v \<longleftrightarrow> v = JUndefined \<or> (\<exists>n. v = JDouble (DFin (of_int n)) \<and> 1 \<le> n \<and> n \<le> 1000)"

lemma event_number:
  "isDouble v \<Longrightarrow> \<not> bad_event_number v \<longleftrightarrow> (\<exists>n. v = JDouble (DFin (of_int n)) \<and> 0 \<le> n \<and> n \<le> int_max)"
proof (cases v)
  case (JDouble d)
  have "\<not> bad_event_number v \<longleftrightarrow> dbl_in_range 0 int_max d"
    by (auto simp: JDouble bad_event_number_def dbl_in_range_def int_max_def Let_def)
  then show ?thesis by (simp add: JDouble dbl_in_range_iff)
qed simp_all

lemma toInt_of_int: "0 \<le> n \<Longrightarrow> n \<le> int_max \<Longrightarrow> toInt (JDouble (DFin (of_int n))) k = n"
proof -
  assume "0 \<le> n" "n \<le> int_max"
  then have "dbl_in_range int_min int_max (DFin (of_int n))" by (simp only: dbl_in_range_of_int) (simp add: int_min_def)
  then show ?thesis by (simp add: toInt_def)
qed

definition event_field :: "json \<Rightarrow> bool" where
  "event_field v \<longleftrightarrow> (isUndefined v \<or> isDouble v) \<and> \<not> bad_event_number v"

lemma event_field_iff:
  "event_field v \<longleftrightarrow> v = JUndefined \<or> (\<exists>n. v = JDouble (DFin (of_int n)) \<and> 0 \<le> n \<and> n \<le> int_max)"
proof (cases "isDouble v")
  case True
  then show ?thesis using event_number [OF True] by (auto simp: event_field_def)
next
  case False
  then show ?thesis by (cases v) (auto simp: event_field_def bad_event_number_def)
qed

lemma event_field_range:
  assumes "0 \<le> lo" "hi \<le> int_max" "lo \<le> k" "k \<le> hi"
  shows "event_field v \<and> lo \<le> toInt v k \<and> toInt v k \<le> hi
     \<longleftrightarrow> v = JUndefined \<or> (\<exists>n. v = JDouble (DFin (of_int n)) \<and> lo \<le> n \<and> n \<le> hi)"
proof
  assume "event_field v \<and> lo \<le> toInt v k \<and> toInt v k \<le> hi"
  then show "v = JUndefined \<or> (\<exists>n. v = JDouble (DFin (of_int n)) \<and> lo \<le> n \<and> n \<le> hi)"
    unfolding event_field_iff using toInt_of_int by metis
next
  assume r: "v = JUndefined \<or> (\<exists>n. v = JDouble (DFin (of_int n)) \<and> lo \<le> n \<and> n \<le> hi)"
  show "event_field v \<and> lo \<le> toInt v k \<and> toInt v k \<le> hi"
  proof (cases "v = JUndefined")
    case True
    then show ?thesis using assms(3,4) by (simp add: event_field_iff toInt_def)
  next
    case False
    with r obtain n where n: "v = JDouble (DFin (of_int n))" "lo \<le> n" "n \<le> hi" by blast
    then have "0 \<le> n" "n \<le> int_max" using assms(1,2) by linarith+
    with n show ?thesis unfolding event_field_iff using toInt_of_int [of n k] by auto
  qed
qed

lemma wait_ok_iff: "wait_ok v \<longleftrightarrow> event_field v \<and> 0 \<le> toInt v 0 \<and> toInt v 0 \<le> 30000"
  unfolding wait_ok_def by (rule event_field_range [symmetric]) (simp_all add: int_max_def)

lemma max_ok_iff: "max_ok v \<longleftrightarrow> event_field v \<and> 1 \<le> toInt v 64 \<and> toInt v 64 \<le> 1000"
  unfolding max_ok_def by (rule event_field_range [symmetric]) (simp_all add: int_max_def)

definition poll_world :: "('w, 'o) qt \<Rightarrow> jobject \<Rightarrow> ('w, 'o) bridge \<Rightarrow> ('w, 'o) bridge" where
  "poll_world Q request st = set_world (run_events Q (toInt (jvalue request ''wait_ms'') 0) (world st)) st"

lemma op_events_valid:
  assumes "wait_ok (jvalue request ''wait_ms'')" "max_ok (jvalue request ''max'')"
  shows "op_events Q G request st =
    (let (events, kept, st2) = drain_groups Q G (subscriptions st) (nat (toInt (jvalue request ''max'') 64)) (poll_world Q request st)
     in (Success (JArray events), st2\<lparr>subscriptions := kept\<rparr>))"
proof -
  define wv mv where "wv = jvalue request ''wait_ms''" and "mv = jvalue request ''max''"
  have "event_field wv" "event_field mv" "0 \<le> toInt wv 0" "toInt wv 0 \<le> 30000" "1 \<le> toInt mv 64" "toInt mv 64 \<le> 1000"
    using assms by (simp_all add: wv_def mv_def wait_ok_iff max_ok_iff)
  then show ?thesis
    unfolding op_events_def poll_world_def wv_def [symmetric] mv_def [symmetric]
    by (auto simp: event_field_def kMaxWaitMilliseconds_def kMaxEventsPerPoll_def success_def Let_def)
qed

lemma op_events_invalid:
  assumes "\<not> (wait_ok (jvalue request ''wait_ms'') \<and> max_ok (jvalue request ''max''))"
  shows "\<exists>e. op_events Q G request st = (Failure e, st)"
  using assms
  by (auto simp: op_events_def wait_ok_iff max_ok_iff event_field_def kMaxWaitMilliseconds_def kMaxEventsPerPoll_def
      fail_def failure_def Let_def)

text \<open>
  \<^verbatim>\<open>events\<close> accepts exactly the documented arguments, a \<^verbatim>\<open>wait_ms\<close> in 0 .. 30000 and a \<^verbatim>\<open>max\<close> in
  1 .. 1000, both whole numbers or absent; every other request fails and runs no event loop.
\<close>

lemma events_argument_bounds:
  "if wait_ok (jvalue request ''wait_ms'') \<and> max_ok (jvalue request ''max'')
   then \<exists>j st'. op_events Q G request st = (Success j, st')
   else \<exists>e. op_events Q G request st = (Failure e, st)"
  using op_events_valid [of request Q G st] op_events_invalid [of request Q G st]
  by (auto simp: Let_def split: prod.splits)

text \<open>Documented of \<^verbatim>\<open>QSignalSpy\<close>: \<^verbatim>\<open>takeFirst\<close> removes the oldest emission of that spy.\<close>

definition spy_ok :: "('w, 'o) qt \<Rightarrow> bool" where
  "spy_ok Q \<longleftrightarrow> (\<forall>w s a q. spy_queue Q w s = a # q \<longrightarrow> spy_queue Q (spy_takeFirst Q s w) s = q)"

lemma spy_okD: "spy_ok Q \<Longrightarrow> spy_queue Q w s = a # q \<Longrightarrow> spy_queue Q (spy_takeFirst Q s w) s = q"
  unfolding spy_ok_def by blast

text \<open>
  Draining a spy is first in, first out and loses nothing: it emits one event for each of the
  oldest emissions, in their order and with their arguments, up to the room left in the reply,
  and leaves exactly the younger ones queued for the next poll.
\<close>

lemma drain_spy_fifo:
  assumes "spy_ok Q" "drain_spy Q G s n st = (es, left, st')"
  shows "left = n - length (spy_queue Q (world st) (sub_spy s))
     \<and> length es = min n (length (spy_queue Q (world st) (sub_spy s)))
     \<and> spy_queue Q (world st') (sub_spy s) = drop n (spy_queue Q (world st) (sub_spy s))
     \<and> list_all2 (\<lambda>e args. \<exists>sti. e = event_json s (fst (toJson_list Q G args sti)))
          es (take n (spy_queue Q (world st) (sub_spy s)))"
  using assms(2)
proof (induction n arbitrary: st es left)
  case (Suc n)
  show ?case
  proof (cases "spy_queue Q (world st) (sub_spy s)")
    case Nil with Suc.prems show ?thesis by auto
  next
    case (Cons args q)
    define w1 where "w1 = spy_takeFirst Q (sub_spy s) (world st)"
    obtain js st1 where j: "toJson_list Q G args (set_world w1 st) = (js, st1)" by force
    obtain es1 l1 st2 where d: "drain_spy Q G s n st1 = (es1, l1, st2)" by (metis prod.exhaust)
    have w: "world st1 = w1" using toJson_list_ext [OF j] by (simp add: value_ext_def)
    have q: "spy_queue Q (world st1) (sub_spy s) = q"
      unfolding w w1_def by (rule spy_okD [OF assms(1) Cons])
    have r: "es = event_json s js # es1" "left = l1" "st' = st2"
      using Suc.prems Cons j d by (simp_all add: w1_def)
    have "js = fst (toJson_list Q G args (set_world w1 st))" by (simp add: j)
    then show ?thesis using Suc.IH [of st1 es1 l1] d q Cons r by auto
  qed
qed simp

definition demo_spied :: "(demo, unit) bridge" where
  "demo_spied = (bridge_init (demo_init\<lparr>d_app := True, d_objects := [(1, 0)], d_spies := [(7, [[VInt 1], [VInt 2], [VInt 3]])]\<rparr>))
     \<lparr>application := True, applicationThread := 1, objects := [(1, 1)],
       subscriptions := [(1, [\<lparr>sub_objectId = 1, sub_signature = ''clicked()'', sub_spy = 7\<rparr>])], nextObjectId := 2\<rparr>"

lemma map_of_update_one: "map_of (map (\<lambda>(k, q). if k = s then (k, f q) else (k, q)) m) s = map_option f (map_of m s)"
  by (induction m) auto

lemma demo_spy_ok: "spy_ok demo_qt"
  by (auto simp: spy_ok_def demo_queue_def map_of_update_one split: option.splits)

text \<open>Documented: reading or destroying a spy destroys no object.\<close>

definition spies_inert :: "('w, 'o) qt \<Rightarrow> bool" where
  "spies_inert Q \<longleftrightarrow> (\<forall>w s. alive Q (spy_takeFirst Q s w) = alive Q w \<and> alive Q (spy_delete Q s w) = alive Q w)"

lemma inert_take: "spies_inert Q \<Longrightarrow> alive Q (spy_takeFirst Q s w) = alive Q w"
  unfolding spies_inert_def by blast

lemma inert_drop: "spies_inert Q \<Longrightarrow> alive Q (drop_spies Q subs w) = alive Q w"
  unfolding drop_spies_def by (induction subs arbitrary: w) (simp_all add: spies_inert_def)

definition same_objects :: "('w, 'o) qt \<Rightarrow> ('w, 'o) bridge \<Rightarrow> ('w, 'o) bridge \<Rightarrow> bool" where
  "same_objects Q st st' \<longleftrightarrow> objects st' = objects st \<and> alive Q (world st') = alive Q (world st)"

lemma same_objects_resolve: "same_objects Q st st' \<Longrightarrow> objectForId Q st' = objectForId Q st"
  unfolding same_objects_def by (intro ext) (simp add: objectForId_def qpointer_data_def split: option.split)

lemma drain_spy_objects:
  assumes "spies_inert Q"
  shows "drain_spy Q G s n st = (es, left, st') \<Longrightarrow>
     same_objects Q st st' \<and> (\<forall>e\<in>set es. \<exists>args. e = event_json s args)"
proof (induction n arbitrary: st es left st')
  case (Suc n)
  show ?case
  proof (cases "spy_queue Q (world st) (sub_spy s)")
    case Nil with Suc.prems show ?thesis by (simp add: same_objects_def)
  next
    case (Cons args q)
    define w1 where "w1 = spy_takeFirst Q (sub_spy s) (world st)"
    obtain js st1 where j: "toJson_list Q G args (set_world w1 st) = (js, st1)" by force
    obtain es1 l1 st2 where d: "drain_spy Q G s n st1 = (es1, l1, st2)" by (metis prod.exhaust)
    have "same_objects Q st st1"
      using toJson_list_ext [OF j] inert_take [OF assms] by (simp add: value_ext_def same_objects_def w1_def)
    moreover have "es = event_json s js # es1" "st' = st2"
      using Suc.prems Cons j d by (simp_all add: w1_def)
    ultimately show ?thesis using Suc.IH [OF d] by (auto simp: same_objects_def)
  qed
qed (simp add: same_objects_def)

lemma drain_subscriptions_objects:
  assumes "spies_inert Q"
  shows "drain_subscriptions Q G subs n st = (es, left, st') \<Longrightarrow>
     same_objects Q st st' \<and> (\<forall>e\<in>set es. \<exists>s\<in>set subs. \<exists>args. e = event_json s args)"
proof (induction subs arbitrary: n st es left st')
  case (Cons s subs)
  show ?case
  proof (cases "spy_isValid Q (world st) (sub_spy s)")
    case False with Cons show ?thesis by fastforce
  next
    case True
    obtain es1 l1 st1 where d: "drain_spy Q G s n st = (es1, l1, st1)" by (metis prod.exhaust)
    note d1 = drain_spy_objects [OF assms d]
    obtain es2 l2 st2 where r: "drain_subscriptions Q G subs l1 st1 = (es2, l2, st2)" by (metis prod.exhaust)
    note IH = Cons.IH [OF r]
    show ?thesis
    proof (cases "l1 = 0")
      case z: True
      then have "es = es1" "st' = st1" using Cons.prems True d by simp_all
      then show ?thesis using d1 by auto
    next
      case False
      then have "es = es1 @ es2" "st' = st2" using Cons.prems True d r by simp_all
      then show ?thesis using d1 IH by (fastforce simp: same_objects_def)
    qed
  qed
qed (simp add: same_objects_def)

lemma drain_groups_objects:
  assumes "spies_inert Q"
  shows "drain_groups Q G gs n st = (es, kept, st') \<Longrightarrow>
     \<forall>e\<in>set es. \<exists>(oid, subs)\<in>set kept. objectForId Q st oid \<noteq> nullptr \<and> (\<exists>s\<in>set subs. \<exists>args. e = event_json s args)"
proof (induction gs arbitrary: n st es kept st')
  case (Cons g gs)
  obtain oid subs where g: "g = (oid, subs)" by force
  show ?case
  proof (cases "objectForId Q st oid = nullptr")
    case True
    have "same_objects Q st (set_world (drop_spies Q subs (world st)) st)"
      by (simp add: same_objects_def inert_drop [OF assms])
    then have eq: "objectForId Q (set_world (drop_spies Q subs (world st)) st) = objectForId Q st" by (rule same_objects_resolve)
    have "drain_groups Q G gs n (set_world (drop_spies Q subs (world st)) st) = (es, kept, st')"
      using Cons.prems True by (simp add: g)
    from Cons.IH [OF this] show ?thesis unfolding eq .
  next
    case False
    obtain es1 l1 st1 where d: "drain_subscriptions Q G subs n st = (es1, l1, st1)" by (metis prod.exhaust)
    note d1 = drain_subscriptions_objects [OF assms d]
    obtain es2 k2 st2 where r: "drain_groups Q G gs l1 st1 = (es2, k2, st2)" by (metis prod.exhaust)
    have IH: "\<forall>e\<in>set es2. \<exists>(oid, subs)\<in>set k2. objectForId Q st oid \<noteq> nullptr \<and> (\<exists>s\<in>set subs. \<exists>args. e = event_json s args)"
      using Cons.IH [OF r] unfolding same_objects_resolve [OF conjunct1 [OF d1]] .
    have first: "\<forall>e\<in>set es1. \<exists>(oid, subs)\<in>{(oid, subs)}. objectForId Q st oid \<noteq> nullptr \<and> (\<exists>s\<in>set subs. \<exists>args. e = event_json s args)"
      using d1 False by simp
    show ?thesis
    proof (cases "l1 = 0")
      case True
      then have "es = es1" "kept = (oid, subs) # gs" using Cons.prems False d g by simp_all
      then show ?thesis using first by auto
    next
      case l: False
      then have "es = es1 @ es2" "kept = (oid, subs) # k2" using Cons.prems False d r g by simp_all
      then show ?thesis using first IH by fastforce
    qed
  qed
qed simp

text \<open>
  C24: A poll never answers more than 1000 events, and every event it answers comes from an object
  that is still alive after the event loop ran and from a subscription that stays registered:
  events of closed objects are dropped with their subscriptions.
\<close>

theorem events_only_from_open_objects:
  assumes "running st" "spies_inert Q" "op_events Q G request st = (Success (JArray es), st')"
  shows "length es \<le> 1000
     \<and> (\<forall>e\<in>set es. \<exists>h. jvalue (toObject e) ''object_id'' = jint h \<and> objectForId Q (poll_world Q request st) h \<noteq> nullptr
           \<and> h \<in> fst ` set (subscriptions st'))"
proof -
  have ok: "wait_ok (jvalue request ''wait_ms'')" "max_ok (jvalue request ''max'')"
    using op_events_invalid [of request Q G st] assms(3) by auto
  define n where "n = toInt (jvalue request ''max'') 64"
  have n: "n \<le> 1000" using ok(2) by (simp add: max_ok_iff n_def)
  obtain kept st2 where d: "drain_groups Q G (subscriptions st) (nat n) (poll_world Q request st) = (es, kept, st2)"
    and s: "subscriptions st' = kept"
    using assms(3) op_events_valid [OF ok, of Q G st] by (auto simp: n_def Let_def split: prod.splits)
  note facts = drain_groups_facts [OF d] and evs = drain_groups_objects [OF assms(2) d]
  have "\<exists>h. jvalue (toObject e) ''object_id'' = jint h \<and> objectForId Q (poll_world Q request st) h \<noteq> nullptr
           \<and> h \<in> fst ` set (subscriptions st')" if "e \<in> set es" for e
  proof -
    obtain oid subs x args where g: "(oid, subs) \<in> set kept" "objectForId Q (poll_world Q request st) oid \<noteq> nullptr"
      "x \<in> set subs" "e = event_json x args"
      using evs \<open>e \<in> set es\<close> by fastforce
    have "(oid, subs) \<in> set (subscriptions st)" using g(1) facts by blast
    then have "sub_objectId x = oid" using assms(1) g(3) by (auto simp: running_def reg_inv_def)
    then have "jvalue (toObject e) ''object_id'' = jint oid" by (simp add: g(4) event_json_def)
    with g s show ?thesis by force
  qed
  moreover have "length es \<le> 1000" using facts n by linarith
  ultimately show ?thesis by blast
qed

lemma demo_inert: "spies_inert demo_qt"
  by (simp add: spies_inert_def)

lemma demo_spied_running: "running demo_spied"
  by (auto simp: demo_spied_def running_def reg_inv_def bridge_init_def smap_ok_Cons)

theorem events_only_from_open_objects_witness:
  "\<exists>es st'. op_events demo_qt demo_gen [(qs ''max'', jint 4)] demo_spied = (Success (JArray es), st') \<and> length es \<le> 1000
     \<and> (\<forall>e\<in>set es. \<exists>h. h \<in> fst ` set (subscriptions st'))"
proof -
  let ?req = "[(qs ''max'', jint 4)]"
  have m: "jvalue ?req ''max'' = JDouble (DFin (of_int 4))" "jvalue ?req ''wait_ms'' = JUndefined"
    by (simp_all add: jvalue_def smap_find_def jint_exact)
  then have "wait_ok (jvalue ?req ''wait_ms'')" "max_ok (jvalue ?req ''max'')"
    by (simp add: wait_ok_def) (unfold m max_ok_def, rule disjI2, rule exI [of _ 4], simp)
  then obtain es st' where e: "op_events demo_qt demo_gen ?req demo_spied = (Success (JArray es), st')"
    using op_events_valid [of ?req demo_qt demo_gen demo_spied] by (auto simp: Let_def split: prod.splits)
  with events_only_from_open_objects [OF demo_spied_running demo_inert e] show ?thesis by blast
qed

subsection \<open>Reflective calls\<close>

lemma method_for_signature_Inr:
  "method_for_signature Q mo sig = Inr (b, m) \<Longrightarrow>
     b = normalizedSignature Q (toUtf8 Q sig) \<and> findMethod Q mo b = Some m \<and> meth_kind m \<noteq> MkSignal \<and> meth_access m = AccPublic"
  by (auto simp: method_for_signature_def Let_def split: if_splits option.splits)

definition matches_parameters :: "metamethod \<Rightarrow> 'o qvariant list \<Rightarrow> bool" where
  "matches_parameters m vs \<longleftrightarrow>
     length vs \<le> 10 \<and> list_all2 (\<lambda>t v. t = MtNullptr \<or> t = MtQVariant \<or> variant_type v = t) (meth_paramMetaTypes m) vs"

lemma buildArguments_matches:
  assumes "convert_ok Q" "buildArguments Q st args (meth_paramMetaTypes m) = Inr vs"
  shows "matches_parameters m vs"
proof -
  note b = buildArguments_Inr [OF assms(2)]
  have "list_all2 (\<lambda>t v. t = MtNullptr \<or> t = MtQVariant \<or> variant_type v = t) (meth_paramMetaTypes m) vs"
    using build_values_types [OF assms(1)] b by blast
  moreover from this have "length vs = length (meth_paramMetaTypes m)" by (simp add: list_all2_lengthD)
  ultimately show ?thesis using b by (simp add: matches_parameters_def kMaxInvocationArguments_def)
qed

lemma run_method_world:
  assumes "run_method Q m target vs st = ((ok, ret), st1)"
  shows "(\<not> ok \<and> st1 = st)
    \<or> (case target of
         OnObject p \<Rightarrow> world st1 = snd (meth_invoke Q m p vs (world st))
       | OnGadget h \<Rightarrow> \<exists>v. valueForId st h = Some v \<and> world st1 = snd (meth_invokeOnGadget Q m v vs (world st)))"
  using assms
  by (auto simp: run_method_def store_value_def set_world_def split: call_target.splits prod.splits option.splits)

text \<open>
  C22: A reflective call, on an object or on a stored gadget value, reaches Qt only for a public method
  that is no signal, with what \<^verbatim>\<open>buildArguments\<close> made of the request's arguments: at most ten, of the
  types of the method's parameters; a gadget is the value stored under the handle. In every other case
  an error is reported, and neither the bridge nor Qt's world changes.
\<close>

theorem reflective_call_safe:
  assumes "convert_ok Q" "invokeMethod Q G mo target sig args st = (r, st')"
  shows "(st' = st \<and> (\<exists>e. r = Inl e))
     \<or> (\<exists>m vs. findMethod Q mo (normalizedSignature Q (toUtf8 Q sig)) = Some m \<and> meth_kind m \<noteq> MkSignal
          \<and> meth_access m = AccPublic \<and> buildArguments Q st args (meth_paramMetaTypes m) = Inr vs \<and> matches_parameters m vs
          \<and> (case target of
               OnObject p \<Rightarrow> world st' = snd (meth_invoke Q m p vs (world st))
             | OnGadget h \<Rightarrow> \<exists>v. valueForId st h = Some v \<and> world st' = snd (meth_invokeOnGadget Q m v vs (world st))))"
proof (cases "method_for_signature Q mo sig")
  case (Inl e) with assms(2) show ?thesis by (auto simp: invokeMethod_def)
next
  case (Inr bm)
  obtain b m where bm: "bm = (b, m)" by force
  note f = method_for_signature_Inr [OF Inr [unfolded bm]]
  show ?thesis
  proof (cases "buildArguments Q st args (meth_paramMetaTypes m)")
    case (Inl e) with assms(2) Inr bm show ?thesis by (auto simp: invokeMethod_def)
  next
    case args: (Inr vs)
    note mp = buildArguments_matches [OF assms(1) args]
    show ?thesis
    proof (cases "has_return m \<and> \<not> v_isValid (v_default Q (meth_returnType m))")
      case True with assms(2) Inr bm args show ?thesis by (auto simp: invokeMethod_def)
    next
      case False
      obtain ok ret st1 where run: "run_method Q m target vs st = ((ok, ret), st1)" by (metis prod.collapse)
      have "world st' = world st1 \<and> (\<not> ok \<longrightarrow> st' = st1 \<and> (\<exists>e. r = Inl e))"
        using assms(2) Inr bm args False run
        by (auto simp: invokeMethod_def Let_def value_ext_def split: if_splits prod.splits dest!: toJson_ext)
      with run_method_world [OF run] show ?thesis using f mp args by (auto split: call_target.splits)
    qed
  qed
qed

theorem reflective_call_safe_witness:
  "\<exists>e. invokeMethod demo_qt demo_gen demo_class (OnObject 1) (qs ''poll()'') [] demo_running = (Inl e, demo_running)"
proof -
  obtain r st' where i: "invokeMethod demo_qt demo_gen demo_class (OnObject 1) (qs ''poll()'') [] demo_running = (r, st')" by force
  have "findMethod demo_qt demo_class (normalizedSignature demo_qt (toUtf8 demo_qt (qs ''poll()''))) = Some demo_private"
    by (simp add: demo_find_def demo_class_def demo_slot_def demo_signal_def demo_private_def)
  moreover have "meth_access demo_private = AccPrivate" by (simp add: demo_private_def)
  ultimately show ?thesis using reflective_call_safe [OF demo_convert_ok i] i by auto
qed

text \<open>
  C31: Setting a declared property is refused without any effect, or reaches Qt with the value the JSON
  converted to: the property is writable, the value is the result of \<^verbatim>\<open>fromJson\<close> for the property's type
  and has that type (a property of type \<^verbatim>\<open>std::nullptr_t\<close> also takes an invalid value when nothing
  converts), the answer says whether Qt took it, and only Qt's world changes, as Qt changed it.
\<close>

theorem set_property_safe:
  assumes "convert_ok Q" "findProperty Q (metaObject_of Q (world st) object) (toUtf8 Q name) = Some property"
    "setProperty Q object name j st = (r, st')"
  shows "(st' = st \<and> (\<exists>e. r = Inl e))
     \<or> (prop_writable property \<and> (\<exists>v written w.
          (fromJson Q st j (prop_type property) = Inr v
             \<and> (prop_type property \<in> {MtNullptr, MtQVariant} \<or> variant_type v = prop_type property)
           \<or> (\<exists>e. fromJson Q st j (prop_type property) = Inl e) \<and> prop_type property = MtNullptr \<and> v = VInvalid)
          \<and> prop_write Q property object v (world st) = (written, w) \<and> st' = set_world w st
          \<and> r = (if written then Inr () else Inl (Msg ''Qt rejected a value for property %1'' [AStr name]))))"
proof -
  define v where "v = (case fromJson Q st j (prop_type property) of Inl e \<Rightarrow> VInvalid | Inr v \<Rightarrow> v)"
  obtain written w where wr: "prop_write Q property object v (world st) = (written, w)" by force
  have v: "fromJson Q st j (prop_type property) = Inr v
             \<and> (prop_type property \<in> {MtNullptr, MtQVariant} \<or> variant_type v = prop_type property)
           \<or> (\<exists>e. fromJson Q st j (prop_type property) = Inl e) \<and> prop_type property = MtNullptr \<and> v = VInvalid"
    if "v_isValid v \<or> prop_type property = MtNullptr"
    using that fromJson_type [OF assms(1)] by (auto simp: v_def split: sum.splits)
  from assms(2,3) wr have
    "(st' = st \<and> (\<exists>e. r = Inl e))
     \<or> (prop_writable property \<and> (v_isValid v \<or> prop_type property = MtNullptr) \<and> st' = set_world w st
        \<and> r = (if written then Inr () else Inl (Msg ''Qt rejected a value for property %1'' [AStr name])))"
    by (auto simp: setProperty_def v_def Let_def split: if_splits sum.splits)
  then show ?thesis using v wr by blast
qed

theorem set_property_safe_witness:
  "\<exists>e. setProperty demo_qt 1 (qs ''fixed'') (JString []) demo_running = (Inl e, demo_running)"
proof -
  obtain r st' where s: "setProperty demo_qt 1 (qs ''fixed'') (JString []) demo_running = (r, st')" by force
  have "findProperty demo_qt (metaObject_of demo_qt (world demo_running) 1) (toUtf8 demo_qt (qs ''fixed'')) = Some demo_fixed"
    by (simp add: demo_class_def demo_fixed_def demo_property_def)
  from set_property_safe [OF demo_convert_ok this s] have "st' = demo_running \<and> (\<exists>e. r = Inl e)"
    by (auto simp: demo_fixed_def)
  with s show ?thesis by metis
qed

subsection \<open>Values\<close>

definition demo_valued :: "(demo, unit) bridge" where
  "demo_valued = demo_running\<lparr>bvalues := [(1, VInt 5)], nextObjectId := 2\<rparr>"

text \<open>
  C39: \<^verbatim>\<open>describe_value_type\<close> never refuses a type it does not know: the fallback of the generated table is
  a JSON null, which is not undefined, so the answer is success with a null value and the
  source's two later branches (constructor list, failure) are not reached.
\<close>

theorem unknown_value_type_described_as_null:
  assumes "toString (jvalue request ''type'') = t" "t \<noteq> []" "\<not> hasNul t" "valueMetaType G t = Inr MtInvalid"
    "direct_methods G (section_last (qch CHR ''.'') t) = None"
  shows "op_describe_value_type Q G request = Success JNull"
  using assms by (simp add: op_describe_value_type_def describe_direct_type_def describeDirectValueType_def success_def Let_def)

lemma qs_no_nul: "CHR 0x00 \<notin> set s \<Longrightarrow> \<not> hasNul (qs s)"
proof -
  have "qch CHR 0x00 = 0" by (simp add: qch_def)
  then have zero: "qch c = 0 \<Longrightarrow> c = CHR 0x00" for c using qch_inject by metis
  assume "CHR 0x00 \<notin> set s"
  then have "0 \<notin> qch ` set s" using zero by (metis imageE)
  then show "\<not> hasNul (qs s)" by (simp add: hasNul_def qs_def)
qed

theorem unknown_value_type_described_as_null_witness:
  "op_describe_value_type demo_qt demo_gen [(qs ''type'', JString (qs ''Nothing''))] = Success JNull"
proof -
  have nodot: "qch CHR ''.'' \<notin> set (qs ''Nothing'')" by (simp add: qs_def)
  have none: "filter (\<lambda>m. in_module [] m \<and> m_valueType m (qs ''Nothing'') \<noteq> MtInvalid) (modules demo_gen) = []"
    by (simp add: filter_empty_conv modules_def demo_gen_def demo_module_def)
  have "valueMetaType demo_gen (qs ''Nothing'') = Inr MtInvalid"
    unfolding valueMetaType_def split_qualified_unqualified [OF nodot] by (simp add: select_module_spec none)
  moreover have "section_last (qch CHR ''.'') (qs ''Nothing'') = qs ''Nothing''"
    by (simp add: section_last_def qs_def)
  then have "direct_methods demo_gen (section_last (qch CHR ''.'') (qs ''Nothing'')) = None" by (simp add: demo_gen_def)
  ultimately show ?thesis
    using unknown_value_type_described_as_null [of "[(qs ''type'', JString (qs ''Nothing''))]" "qs ''Nothing''" demo_gen demo_qt] qs_no_nul [of "''Nothing''"]
    by (simp add: jvalue_def smap_find_def)
qed

subsection \<open>Classes\<close>

text \<open>
  C35: A class name without module that two linked modules know is never constructed: \<^verbatim>\<open>createObject\<close>
  reports the ambiguity before any constructor runs, also when only one of the two modules can
  construct the class.
\<close>

theorem ambiguous_class_refused:
  assumes "qch CHR ''.'' \<notin> set c" "m1 \<in> set (modules G)" "m2 \<in> set (modules G)" "m_name m1 \<noteq> m_name m2"
    "module_has m1 c" "module_has m2 c"
  shows "createObject Q G c parent args st
      = (Inl (Msg ''class %1 is ambiguous across Qt modules; use Module.%1'' [AStr c]), st)"
proof -
  define ms where "ms = remdups (map (\<lambda>m. qs (m_name m)) (filter (\<lambda>m. module_has m c) (modules G)) @ argumentConstructorModules G c)"
  have "{qs (m_name m1), qs (m_name m2)} \<subseteq> set ms" using assms(2,3,5,6) by (auto simp: ms_def)
  then have "card {qs (m_name m1), qs (m_name m2)} \<le> card (set ms)" by (rule card_mono [rotated]) simp
  moreover have "card {qs (m_name m1), qs (m_name m2)} = 2" using assms(4) by simp
  moreover have "card (set ms) = length ms" by (rule distinct_card) (simp add: ms_def)
  ultimately have "length ms > 1" by linarith
  then have "resolve_class G c = Inl (Msg ''class %1 is ambiguous across Qt modules; use Module.%1'' [AStr c])"
    unfolding resolve_class_def split_qualified_unqualified [OF assms(1)] using assms(1) by (simp add: ms_def Let_def)
  then show ?thesis by (simp add: createObject_def)
qed

theorem ambiguous_class_refused_witness:
  "\<exists>e. createObject demo_qt demo_gen (qs ''QThing'') 0 [] family_state = (Inl e, family_state)"
proof -
  have nodot: "qch CHR ''.'' \<notin> set (qs ''QThing'')" by (simp add: qs_def)
  have "demo_module ''QtGui'' \<in> set (modules demo_gen)" "demo_module ''QtXml'' \<in> set (modules demo_gen)"
    unfolding modules_def module_names_def by (simp_all add: demo_gen_def demo_module_def)
  with ambiguous_class_refused [OF nodot, of "demo_module ''QtGui''" demo_gen "demo_module ''QtXml''" demo_qt 0 "[]" family_state]
  show ?thesis by (simp add: module_has_def demo_module_def)
qed

lemma count_list_map_distinct: "distinct xs \<Longrightarrow> count_list (map f xs) y = card {x \<in> set xs. f x = y}"
proof -
  assume d: "distinct xs"
  have "count_list (map f xs) y = length (filter (\<lambda>x. f x = y) xs)" by (induction xs) auto
  also have "\<dots> = card (set (filter (\<lambda>x. f x = y) xs))"
    by (rule distinct_card [symmetric]) (rule distinct_filter [OF d])
  finally show ?thesis by (simp only: set_filter)
qed

text \<open>
  C36: The \<^verbatim>\<open>constructors\<close> answer is sorted, contains every qualified constructor name, and lists a bare
  class name exactly when one single module offers a constructor for it.
\<close>

theorem constructor_list_spec:
  assumes "names = availableConstructors G @ availableArgumentConstructors G"
  shows "\<exists>L. op_constructors G = JArray (map JString L) \<and> sorted L \<and> {q \<in> set names. has_dot q} \<subseteq> set L
     \<and> (\<forall>n. \<not> has_dot n \<longrightarrow> (n \<in> set L \<longleftrightarrow> card {q \<in> set names. has_dot q \<and> snd (split_qualified q) = n} = 1))"
proof -
  define quals where "quals = remdups (filter has_dot names)"
  define L where "L = sort (quals @ counted_once (map (\<lambda>name. snd (split_qualified name)) quals))"
  have "n \<in> set L \<longleftrightarrow> card {q \<in> set names. has_dot q \<and> snd (split_qualified q) = n} = 1" if "\<not> has_dot n" for n
  proof -
    have "n \<notin> set quals" using that by (auto simp: quals_def)
    then have "n \<in> set L \<longleftrightarrow> count_list (map (\<lambda>name. snd (split_qualified name)) quals) n = 1"
      by (simp add: L_def set_counted_once)
    also have "count_list (map (\<lambda>name. snd (split_qualified name)) quals) n = card {q \<in> set quals. snd (split_qualified q) = n}"
      by (rule count_list_map_distinct) (simp add: quals_def)
    also have "{q \<in> set quals. snd (split_qualified q) = n} = {q \<in> set names. has_dot q \<and> snd (split_qualified q) = n}"
      by (auto simp: quals_def)
    finally show ?thesis .
  qed
  moreover have "op_constructors G = JArray (map JString L)"
    by (simp add: op_constructors_def assms L_def quals_def Let_def)
  moreover have "sorted L" "{q \<in> set names. has_dot q} \<subseteq> set L" by (auto simp: L_def quals_def)
  ultimately show ?thesis by blast
qed

theorem constructor_list_spec_witness:
  "\<exists>L. op_constructors demo_gen = JArray (map JString L) \<and> sorted L"
  using constructor_list_spec [OF refl, of demo_gen] by blast

subsection \<open>Item access\<close>

text \<open>
  \<^verbatim>\<open>itemText(int)\<close> on a list widget asks Qt for the item's text only for a row that exists: a
  successful answer means the argument was a whole number between 0 and the current item count.
\<close>

lemma item_text_in_range:
  assumes "call_lists Q object (qs ''itemText(int)'') args st = Some (Success v, st')"
  shows "st' = st \<and> (\<exists>row. args = [JDouble (DFin (of_int (sint row)))] \<and> 0 \<le> sint row
     \<and> sint row < get_int Q ''QListWidget::count'' object st
     \<and> v = scalar_json (qt_get Q ''QListWidget::item(row)->text'' object [VInt row] (world st)))"
proof -
  from assms have len: "length args = 1"
    by (auto simp: call_lists_def need_def fail_def failure_def Let_def split: if_splits)
  then obtain j where args: "args = [j]" by (cases args) auto
  from assms obtain row where row: "integerArgument args 0 = Some row"
    by (auto simp: call_lists_def need_def fail_def failure_def Let_def split: if_splits option.splits)
  then have "j = JDouble (DFin (of_int (sint row)))" by (simp add: integerArgument_def args readJsonInteger_iff)
  with assms row args show ?thesis
    by (auto simp: call_lists_def need_def fail_def failure_def get_scalar_def success_def Let_def split: if_splits)
qed

text \<open>
  \<^verbatim>\<open>setCellText\<close> and \<^verbatim>\<open>cellText\<close> on a table widget succeed only for a cell inside the current rows and
  columns, so no item pointer of another cell is used.
\<close>

lemma table_cell_in_range:
  assumes "sig = qs ''setCellText(int,int,QString)'' \<or> sig = qs ''cellText(int,int)''"
    "call_tables Q object sig args st = Some (Success v, st')"
  shows "\<exists>row column. integerArgument args 0 = Some row \<and> integerArgument args 1 = Some column
     \<and> 0 \<le> sint row \<and> sint row < get_int Q ''QTableWidget::rowCount'' object st
     \<and> 0 \<le> sint column \<and> sint column < get_int Q ''QTableWidget::columnCount'' object st"
  using assms
  by (auto simp: call_tables_def need_def fail_def failure_def in_cells_def Let_def split: if_splits option.splits)

end
