(* ===== verification/Wire_Properties.thy ===== *)
theory Wire_Properties
  imports Operation_Properties
begin

text \<open>
  Properties of the C interface: what reaches the caller's buffer, what a retry sees, and how
  the callers of several threads are serialised.
\<close>

subsection \<open>The buffer\<close>

lemma writeResponse_valid:
  assumes "base64_ok Q" "refusal_fits Q" "1 \<le> sint cap" "sint cap \<le> kMaxResponseBytes"
    "encoded = toBase64 Q (bounded_text Q r)"
  shows "writeResponse Q r True cap = (word_of_int (int (length encoded)), if int (length encoded) \<le> sint cap then Some encoded else None)"
    and "sint (word_of_int (int (length encoded)) :: i32) = int (length encoded)"
    and "int (length encoded) \<le> kMaxResponseBytes - 4"
proof -
  show bound: "int (length encoded) \<le> kMaxResponseBytes - 4"
    using encoded_length [OF assms(1,2)] assms(5) by simp
  then show "sint (word_of_int (int (length encoded)) :: i32) = int (length encoded)"
    by (intro sint_word_of_length) simp_all
  show "writeResponse Q r True cap = (word_of_int (int (length encoded)), if int (length encoded) \<le> sint cap then Some encoded else None)"
    using assms(3,4) by (simp add: writeResponse_def assms(5) Let_def)
qed

lemma request_response:
  assumes "\<not> bad_call c"
  shows "\<exists>r. fst (kry_qt6_request Q run c st) = writeResponse Q r True (wc_capacity c)"
  using assms by (auto simp: kry_qt6_request_def bad_call_def split: sum.splits prod.splits)

lemma good_capacity: "\<not> bad_call c \<Longrightarrow> 1 \<le> sint (wc_capacity c) \<and> sint (wc_capacity c) \<le> kMaxResponseBytes"
  by (auto simp: bad_call_def)

text \<open>
  C7: \<^verbatim>\<open>kry_qt6_request\<close> never writes past the caller's buffer: the bytes it writes are as many as the
  number it returns and at most \<^verbatim>\<open>capacity\<close>; a response that does not fit is not written at all and
  the returned number, which never wraps in 32 bits, tells the capacity it needs; a call with
  bad arguments writes nothing, returns 0 and changes nothing.
\<close>

theorem response_fits_buffer:
  assumes "base64_ok Q" "refusal_fits Q" "kry_qt6_request Q run c st = ((n, out), st')"
  shows "0 \<le> sint n \<and> sint n \<le> kMaxResponseBytes
     \<and> (case out of Some b \<Rightarrow> \<not> bad_call c \<and> int (length b) = sint n \<and> sint n \<le> sint (wc_capacity c)
        | None \<Rightarrow> (bad_call c \<and> n = 0 \<and> st' = st) \<or> (\<not> bad_call c \<and> sint (wc_capacity c) < sint n))"
proof (cases "bad_call c")
  case True
  with assms(3) show ?thesis by (auto simp: kry_qt6_request_def kMaxResponseBytes_def)
next
  case False
  obtain r where "writeResponse Q r True (wc_capacity c) = (n, out)"
    using request_response [OF False, of Q run st] assms(3) by auto
  with writeResponse_valid [OF assms(1,2) good_capacity [OF False, THEN conjunct1] good_capacity [OF False, THEN conjunct2] refl, of r]
  show ?thesis using False by (auto split: if_splits)
qed

lemma demo_compact_length: "length (demo_compact j) \<le> 7"
  by (cases j) (auto split: option.splits json.splits bool.splits)

lemma demo_wire: "base64_ok demo_qt" "refusal_fits demo_qt"
proof -
  show "base64_ok demo_qt" by (simp add: base64_ok_def demo_base64_length demo_base64_inverse)
  have "maximumJsonBytes = 12582909" by (simp add: maximumJsonBytes_def kMaxResponseBytes_def)
  then show "refusal_fits demo_qt"
    using demo_compact_length [of "reply_json demo_render wire_limit_reply"] by (simp add: refusal_fits_def reply_text_def)
qed

definition demo_wire_call :: wire_call where
  "demo_wire_call = \<lparr>wc_request = Some demo_request_text, wc_requestLength = 16, wc_hasResponse = True, wc_capacity = 64\<rparr>"

lemma demo_call_good: "\<not> bad_call demo_wire_call"
  by (simp add: bad_call_def demo_wire_call_def kMaxRequestBytes_def kMaxResponseBytes_def)

theorem response_fits_buffer_witness:
  "\<exists>n out st'. kry_qt6_request demo_qt (serve demo_qt demo_gen 1) demo_wire_call (bridge_init demo_init) = ((n, out), st')
     \<and> 0 \<le> sint n \<and> sint n \<le> kMaxResponseBytes"
proof -
  obtain n out st' where
    k: "kry_qt6_request demo_qt (serve demo_qt demo_gen 1) demo_wire_call (bridge_init demo_init) = ((n, out), st')"
    by (metis surj_pair)
  from response_fits_buffer [OF demo_wire k] k show ?thesis by blast
qed

text \<open>
  C27: The two-call protocol of the client works: when a response did not fit, any buffer of at least
  the returned size receives the whole response, with the same returned number, and a buffer of
  the maximum size is always large enough (a response too long for the wire is replaced by a
  short refusal first).
\<close>

theorem larger_buffer_receives_all:
  assumes "base64_ok Q" "refusal_fits Q" "1 \<le> sint cap" "sint cap \<le> kMaxResponseBytes"
    "writeResponse Q r True cap = (n, out)" "1 \<le> sint cap2" "sint cap2 \<le> kMaxResponseBytes"
    "sint n \<le> sint cap2 \<or> sint cap2 = kMaxResponseBytes"
  shows "writeResponse Q r True cap2 = (n, Some (toBase64 Q (bounded_text Q r)))"
  using writeResponse_valid [OF assms(1-4) refl, of r] writeResponse_valid [OF assms(1,2,6,7) refl, of r] assms(5,8)
  by (auto split: if_splits)

theorem larger_buffer_receives_all_witness:
  "snd (writeResponse demo_qt (Success JNull) True 1) = None
     \<and> snd (writeResponse demo_qt (Success JNull) True 64) = Some (toBase64 demo_qt (bounded_text demo_qt (Success JNull)))"
proof -
  have c: "1 \<le> sint (1 :: i32)" "sint (1 :: i32) \<le> kMaxResponseBytes" "1 \<le> sint (64 :: i32)" "sint (64 :: i32) \<le> kMaxResponseBytes"
    by (simp_all add: kMaxResponseBytes_def)
  let ?e = "toBase64 demo_qt (bounded_text demo_qt (Success JNull))"
  have b: "bounded_text demo_qt (Success JNull) = ''{ok}''"
    by (simp add: bounded_text_def reply_text_def jobj_def smap_of_def maximumJsonBytes_def kMaxResponseBytes_def)
  then have e: "length ?e = 8" by (simp add: demo_base64_length)
  have w: "writeResponse demo_qt (Success JNull) True 1 = (8, None)"
    using writeResponse_valid(1) [OF demo_wire c(1,2) refl, of "Success JNull"] e by simp
  with larger_buffer_receives_all [OF demo_wire c(1,2) w c(3,4)] show ?thesis by simp
qed

text \<open>
  C23: The client gets back what the handler answered: decoding the written bytes gives the compact
  JSON text of the reply, or of the wire-limit refusal when that text is longer than
  12582909 bytes, the largest length whose base64 stays within 16 MiB.
\<close>

theorem client_decodes_reply:
  assumes "base64_ok Q" "writeResponse Q r hasOutput cap = (n, Some b)"
  shows "fromBase64 Q b = Some (reply_text Q (if length (reply_text Q r) \<le> 12582909 then r else wire_limit_reply))"
proof -
  have "b = toBase64 Q (bounded_text Q r)" using assms(2) by (auto simp: writeResponse_def Let_def split: if_splits)
  moreover have "maximumJsonBytes = 12582909" by (simp add: maximumJsonBytes_def kMaxResponseBytes_def)
  ultimately show ?thesis using assms(1) by (simp add: base64_ok_def bounded_text_def)
qed

theorem client_decodes_reply_witness:
  "fromBase64 demo_qt (toBase64 demo_qt (bounded_text demo_qt (Success JNull))) = Some ''{ok}''"
proof -
  let ?e = "toBase64 demo_qt (bounded_text demo_qt (Success JNull))"
  have r: "reply_text demo_qt (Success JNull) = ''{ok}''"
    by (simp add: reply_text_def jobj_def smap_of_def)
  then have "length ?e = 8" by (simp add: bounded_text_def demo_base64_length maximumJsonBytes_def kMaxResponseBytes_def)
  then have "writeResponse demo_qt (Success JNull) True 64 = (8, Some ?e)"
    by (simp add: writeResponse_def kMaxResponseBytes_def)
  from client_decodes_reply [OF demo_wire(1) this] show ?thesis by (simp add: r)
qed

text \<open>
  C37: What a request does to the bridge does not depend on the size of the response buffer: also a
  request whose response did not fit has been carried out, so that repeating it with a larger
  buffer carries it out a second time, on the state the first left.
\<close>

theorem effect_independent_of_capacity:
  assumes "\<not> bad_call c" "1 \<le> sint cap" "sint cap \<le> kMaxResponseBytes"
  shows "snd (kry_qt6_request Q run (c\<lparr>wc_capacity := cap\<rparr>) st) = snd (kry_qt6_request Q run c st)"
  using assms by (auto simp: kry_qt6_request_def bad_call_def parse_request_def Let_def split: sum.splits prod.splits)

theorem effect_independent_of_capacity_witness:
  "snd (kry_qt6_request demo_qt (serve demo_qt demo_gen 1) (demo_wire_call\<lparr>wc_capacity := 1\<rparr>) (bridge_init demo_init))
     = snd (kry_qt6_request demo_qt (serve demo_qt demo_gen 1) demo_wire_call (bridge_init demo_init))"
  by (rule effect_independent_of_capacity [OF demo_call_good]) (simp_all add: kMaxResponseBytes_def)

end
