(* ===== verification/Shard_Arguments.thy ===== *)
theory Shard_Arguments
  imports Call_Support
begin

text \<open>
  The language of the generated translation units. Every block of the shards under
  generated\_methods, generated\_value\_methods, generated\_constructors and
  generated\_value\_constructors is written by generate\_native\_methods.py from a few shapes; this
  theory holds the shapes of an argument (\<open>param\<close>, the text of \<^verbatim>\<open>emit_arg\<close>) and their meaning
  (\<open>convert_arg\<close>). The C++ build the shards are compiled in (which headers exist, what the type
  traits say of a Qt class, what a member function does to a value) is not part of the
  repository: it is the parameter \<open>B\<close>.
\<close>

text \<open>
  \<open>PString nullable\<close> may allow null; \<open>PWide\<close> is a 64-bit integer type, \<open>PConv\<close> a value or enum type,
  \<open>PNonNull\<close> a pointer to a Qt class; \<open>PList\<close> has elements of a built-in or pointer type, \<open>PListV\<close> of
  a value or enum type.
\<close>

datatype param =
    PBool | PInt | PUInt | PReal string | PString bool | PWide string | PConv string | PNonNull string
  | PVariant | PStringList | PList string | PListV string | PVariantList | PVariantMap

text \<open>The C++ type of a parameter, as the generator spells it in a signature.\<close>

fun param_type :: "param \<Rightarrow> string" where
  "param_type PBool = ''bool''"
| "param_type PInt = ''int''"
| "param_type PUInt = ''unsigned int''"
| "param_type (PReal T) = T"
| "param_type (PString _) = ''QString''"
| "param_type (PWide T) = T"
| "param_type (PConv T) = T"
| "param_type (PNonNull T) = T"
| "param_type PVariant = ''QVariant''"
| "param_type PStringList = ''QStringList''"
| "param_type (PList T) = ''QList<'' @ T @ ''>''"
| "param_type (PListV T) = ''QList<'' @ T @ ''>''"
| "param_type PVariantList = ''QList<QVariant>''"
| "param_type PVariantMap = ''QVariantMap''"

text \<open>The value types whose traits the block's \<^verbatim>\<open>if constexpr\<close> asks for.\<close>

fun param_traits :: "param \<Rightarrow> string list" where
  "param_traits (PConv T) = [T]"
| "param_traits (PListV T) = [T]"
| "param_traits _ = []"

text \<open>
  The build macros of a shard: \<open>TypeM\<close>, \<open>ValueM\<close> and \<open>EnumM\<close> stand for
  \<^verbatim>\<open>KRY_QT6_NATIVE_TYPE_\<close>, \<^verbatim>\<open>KRY_QT6_NATIVE_VALUE_TYPE_\<close> and \<^verbatim>\<open>KRY_QT6_NATIVE_ENUM_\<close> followed by the
  name; \<open>ClassM family module name\<close> is the macro of a bound class,
  \<^verbatim>\<open>KRY_QT6_NATIVE_METHODS_QTGUI_QColor\<close>.
\<close>

datatype macro = TypeM string | ValueM string | EnumM string | ClassM string string string

record ('w, 'o) build =
  has_include :: "string \<Rightarrow> bool"
  macro_defined :: "macro \<Rightarrow> bool"
  metatype_of :: "string \<Rightarrow> metatype"
  copyable :: "string \<Rightarrow> bool"
  default_ok :: "string \<Rightarrow> bool"
  is_complete :: "string \<Rightarrow> bool"
  is_abstract :: "string \<Rightarrow> bool"
  base_of :: "string \<Rightarrow> string \<Rightarrow> bool"
  static_meta :: "string \<Rightarrow> metaobject"
  is_gadget :: "string \<Rightarrow> bool"
  type_default :: "metatype \<Rightarrow> bool"
  constructible :: "string \<Rightarrow> string \<Rightarrow> bool"
  accepts :: "string \<Rightarrow> param list \<Rightarrow> (nat \<times> string) option \<Rightarrow> bool"
  static_call :: "string \<Rightarrow> 'o qvariant list \<Rightarrow> 'w \<Rightarrow> 'o qvariant \<times> 'w"
  value_call :: "string \<Rightarrow> 'o qvariant \<Rightarrow> 'o qvariant list \<Rightarrow> 'w \<Rightarrow> ('o qvariant \<times> 'o qvariant) \<times> 'w"
  make_value :: "string \<Rightarrow> 'o qvariant list \<Rightarrow> 'o qvariant"
  new_object :: "string \<Rightarrow> 'o qvariant list \<Rightarrow> 'w \<Rightarrow> ptr \<times> 'w"

text \<open>
  \<open>copyable B T\<close> is \<^verbatim>\<open>QMetaTypeId2<T>::Defined && std::is_copy_constructible_v<T>\<close>, \<open>default_ok B T\<close>
  is \<^verbatim>\<open>std::is_default_constructible_v<T>\<close>; a block needs both for every value type it converts to.
  \<open>constructible B T types\<close> is \<^verbatim>\<open>std::is_constructible_v<T, types...>\<close> with the types as the source
  writes them; \<open>accepts B T ps parent\<close> is the same trait for the types of converted arguments.
  \<open>is_complete B T\<close> is \<^verbatim>\<open>IsComplete<T>\<close>, \<open>base_of B C T\<close> is \<^verbatim>\<open>std::is_base_of_v<C, T>\<close>, \<open>static_meta B T\<close> is
  \<^verbatim>\<open>T::staticMetaObject\<close> and \<open>is_gadget B T\<close> is \<^verbatim>\<open>IsGadgetHelper<T>::IsGadgetOrDerivedFrom\<close>.
\<close>

definition traits_hold :: "('w, 'o) build \<Rightarrow> param list \<Rightarrow> bool" where
  "traits_hold B ps \<longleftrightarrow> (\<forall>p\<in>set ps. \<forall>t\<in>set (param_traits p). copyable B t \<and> default_ok B t)"

definition compiled :: "('w, 'o) build \<Rightarrow> macro list \<Rightarrow> param list \<Rightarrow> bool" where
  "compiled B guards ps \<longleftrightarrow> (\<forall>g\<in>set guards. macro_defined B g) \<and> traits_hold B ps"

text \<open>The name after the last \<^verbatim>\<open>::\<close>, the name the shards compare \<^verbatim>\<open>className\<close> with.\<close>

definition unscoped :: "string \<Rightarrow> string" where
  "unscoped cpp = (case after_last_scope cpp of Some n \<Rightarrow> n | None \<Rightarrow> cpp)"

text \<open>\<^verbatim>\<open>args.at(i)\<close> out of range is \<^verbatim>\<open>QJsonValue::Undefined\<close>.\<close>

definition arg_at :: "json list \<Rightarrow> nat \<Rightarrow> json" where
  "arg_at args i = (if i < length args then args ! i else JUndefined)"

definition arg_error :: "string \<Rightarrow> nat \<Rightarrow> qmsg" where
  "arg_error m i = Msg m [ANum (int i)]"

text \<open>
  The conversions thread the out-parameter \<^verbatim>\<open>error\<close>. \<open>None\<close> in the second component is the early
  return: usually with a message, without one when Qt hands back an invalid value silently.
\<close>

definition from_json :: "('w, 'o) qt \<Rightarrow> ('w, 'o) bridge \<Rightarrow> json \<Rightarrow> metatype \<Rightarrow> qmsg option \<Rightarrow> qmsg option \<times> 'o qvariant" where
  "from_json Q st v t err = (case fromJson Q st v t of Inl e \<Rightarrow> (Some e, VInvalid) | Inr x \<Rightarrow> (err, x))"

definition convert_value ::
  "('w, 'o) qt \<Rightarrow> ('w, 'o) build \<Rightarrow> ('w, 'o) bridge \<Rightarrow> string \<Rightarrow> json \<Rightarrow> qmsg option \<Rightarrow> qmsg option \<times> 'o qvariant option" where
  "convert_value Q B st T v err =
     (let (err', x) = from_json Q st v (metatype_of B T) err in (err', if v_isValid x then Some x else None))"

fun convert_values ::
  "('w, 'o) qt \<Rightarrow> ('w, 'o) build \<Rightarrow> ('w, 'o) bridge \<Rightarrow> string \<Rightarrow> json list \<Rightarrow> qmsg option
     \<Rightarrow> qmsg option \<times> 'o qvariant list option" where
  "convert_values Q B st T [] err = (err, Some [])"
| "convert_values Q B st T (v # vs) err =
     (case convert_value Q B st T v err of
        (err1, None) \<Rightarrow> (err1, None)
      | (err1, Some x) \<Rightarrow>
          (case convert_values Q B st T vs err1 of
             (err2, None) \<Rightarrow> (err2, None)
           | (err2, Some xs) \<Rightarrow> (err2, Some (x # xs))))"

definition convert_list ::
  "('w, 'o) qt \<Rightarrow> ('w, 'o) build \<Rightarrow> ('w, 'o) bridge \<Rightarrow> nat \<Rightarrow> string \<Rightarrow> json \<Rightarrow> qmsg option
     \<Rightarrow> qmsg option \<times> 'o qvariant option" where
  "convert_list Q B st i T v err =
     (if \<not> isArray v then (Some (arg_error ''argument %1 must be an array'' i), None)
      else case convert_values Q B st T (toArray v) err of
        (err', None) \<Rightarrow> (err', None) | (err', Some xs) \<Rightarrow> (err', Some (VList xs)))"

fun convert_arg ::
  "('w, 'o) qt \<Rightarrow> ('w, 'o) build \<Rightarrow> ('w, 'o) bridge \<Rightarrow> nat \<Rightarrow> param \<Rightarrow> json \<Rightarrow> qmsg option
     \<Rightarrow> qmsg option \<times> 'o qvariant option" where
  "convert_arg Q B st i PBool v err =
     (if \<not> isBool v then (Some (arg_error ''argument %1 must be a boolean'' i), None)
      else (err, Some (VBool (toBool v))))"
| "convert_arg Q B st i PInt v err =
     (if \<not> isDouble v \<or> \<not> dbl_in_range int_min int_max (toDouble v)
      then (Some (arg_error ''argument %1 must be a 32-bit integer'' i), None)
      else (err, Some (VInt (word_of_int (dbl_trunc (toDouble v))))))"
| "convert_arg Q B st i PUInt v err =
     (if \<not> isDouble v \<or> \<not> dbl_in_range 0 uint_max (toDouble v)
      then (Some (arg_error ''argument %1 must be an unsigned 32-bit integer'' i), None)
      else (err, Some (VUInt (word_of_int (dbl_trunc (toDouble v))))))"
| "convert_arg Q B st i (PReal T) v err =
     (if \<not> isDouble v \<or> \<not> dbl_isfinite (toDouble v)
      then (Some (arg_error ''argument %1 must be a finite number'' i), None)
      else (err, Some (VDouble (if T = ''float'' then to_float Q (toDouble v) else toDouble v))))"
| "convert_arg Q B st i (PString nullable) v err =
     (if \<not> (isString v \<or> (nullable \<and> isNull v))
      then (Some (arg_error (if nullable then ''argument %1 must be a string or null'' else ''argument %1 must be a string'') i), None)
      else (err, Some (VString (if isNull v then [] else toString v))))"
| "convert_arg Q B st i (PWide T) v err = convert_value Q B st T v err"
| "convert_arg Q B st i (PConv T) v err = convert_value Q B st T v err"
| "convert_arg Q B st i (PNonNull T) v err =
     (if isNull v then (Some (arg_error ''argument %1 cannot be null'' i), None)
      else convert_value Q B st T v err)"
| "convert_arg Q B st i PVariant v err =
     (let (err', x) = from_json Q st v MtQVariant err in (err', Some x))"
| "convert_arg Q B st i PStringList v err = convert_list Q B st i ''QString'' v err"
| "convert_arg Q B st i (PList T) v err = convert_list Q B st i T v err"
| "convert_arg Q B st i (PListV T) v err = convert_list Q B st i T v err"
| "convert_arg Q B st i PVariantList v err =
     (if \<not> isArray v then (Some (arg_error ''argument %1 must be an array'' i), None)
      else (err, Some (VList (map (toVariant Q) (toArray v)))))"
| "convert_arg Q B st i PVariantMap v err =
     (if \<not> isObject v then (Some (arg_error ''argument %1 must be a JSON object'' i), None)
      else (err, Some (VMap (map (\<lambda>(k, e). (k, toVariant Q e)) (toObject v)))))"

text \<open>The arguments are converted from left to right, from position \<open>i\<close> on.\<close>

fun convert_args ::
  "('w, 'o) qt \<Rightarrow> ('w, 'o) build \<Rightarrow> ('w, 'o) bridge \<Rightarrow> nat \<Rightarrow> param list \<Rightarrow> json list \<Rightarrow> qmsg option
     \<Rightarrow> qmsg option \<times> 'o qvariant list option" where
  "convert_args Q B st i [] args err = (err, Some [])"
| "convert_args Q B st i (p # ps) args err =
     (case convert_arg Q B st i p (arg_at args i) err of
        (err1, None) \<Rightarrow> (err1, None)
      | (err1, Some x) \<Rightarrow>
          (case convert_args Q B st (Suc i) ps args err1 of
             (err2, None) \<Rightarrow> (err2, None)
           | (err2, Some xs) \<Rightarrow> (err2, Some (x # xs))))"

text \<open>\<^verbatim>\<open>storeValue<T>\<close> (qt6\_direct.h).\<close>

definition storeValue :: "('w, 'o) build \<Rightarrow> string \<Rightarrow> 'o qvariant \<Rightarrow> 'o qvariant" where
  "storeValue B T x = (if copyable B T then x else VInvalid)"

subsection \<open>What a converted argument is\<close>

text \<open>The shape of the value handed to Qt for each parameter.\<close>

fun arg_shape_ok :: "param \<Rightarrow> 'o qvariant \<Rightarrow> bool" where
  "arg_shape_ok PBool x \<longleftrightarrow> (\<exists>b. x = VBool b)"
| "arg_shape_ok PInt x \<longleftrightarrow> (\<exists>n. x = VInt n)"
| "arg_shape_ok PUInt x \<longleftrightarrow> (\<exists>n. x = VUInt n)"
| "arg_shape_ok (PReal _) x \<longleftrightarrow> (\<exists>d. x = VDouble d)"
| "arg_shape_ok (PString _) x \<longleftrightarrow> (\<exists>s. x = VString s)"
| "arg_shape_ok (PWide _) x \<longleftrightarrow> v_isValid x"
| "arg_shape_ok (PConv _) x \<longleftrightarrow> v_isValid x"
| "arg_shape_ok (PNonNull _) x \<longleftrightarrow> v_isValid x"
| "arg_shape_ok PVariant x \<longleftrightarrow> True"
| "arg_shape_ok PStringList x \<longleftrightarrow> (\<exists>xs. x = VList xs \<and> (\<forall>y\<in>set xs. v_isValid y))"
| "arg_shape_ok (PList _) x \<longleftrightarrow> (\<exists>xs. x = VList xs \<and> (\<forall>y\<in>set xs. v_isValid y))"
| "arg_shape_ok (PListV _) x \<longleftrightarrow> (\<exists>xs. x = VList xs \<and> (\<forall>y\<in>set xs. v_isValid y))"
| "arg_shape_ok PVariantList x \<longleftrightarrow> (\<exists>xs. x = VList xs)"
| "arg_shape_ok PVariantMap x \<longleftrightarrow> (\<exists>es. x = VMap es)"

lemma convert_value_valid: "convert_value Q B st T v err = (err', Some x) \<Longrightarrow> v_isValid x"
  by (auto simp: convert_value_def split: prod.splits if_splits)

lemma convert_values_valid: "convert_values Q B st T vs err = (err', Some xs) \<Longrightarrow> y \<in> set xs \<Longrightarrow> v_isValid y"
  by (induction vs arbitrary: err err' xs)
     (auto split: prod.splits option.splits dest: convert_value_valid)

lemma convert_values_length: "convert_values Q B st T vs err = (err', Some xs) \<Longrightarrow> length xs = length vs"
  by (induction vs arbitrary: err err' xs) (auto split: prod.splits option.splits)

lemma convert_list_valid:
  "convert_list Q B st i T v err = (err', Some x) \<Longrightarrow> \<exists>xs. x = VList xs \<and> (\<forall>y\<in>set xs. v_isValid y)"
  by (auto simp: convert_list_def split: if_splits prod.splits option.splits intro: convert_values_valid)

lemma convert_arg_shape: "convert_arg Q B st i p v err = (err', Some x) \<Longrightarrow> arg_shape_ok p x"
  by (cases p) (auto split: if_splits prod.splits dest: convert_value_valid convert_list_valid)

lemma convert_args_shape:
  "convert_args Q B st i ps args err = (err', Some xs) \<Longrightarrow> list_all2 arg_shape_ok ps xs"
  by (induction ps arbitrary: i err err' xs)
     (auto split: prod.splits option.splits dest: convert_arg_shape)

text \<open>A rejected argument ends the conversion: the later ones are not looked at.\<close>

lemma convert_args_rejects:
  assumes "j < length ps" "\<And>e. snd (convert_arg Q B st (i + j) (ps ! j) (arg_at args (i + j)) e) = None"
  shows "snd (convert_args Q B st i ps args err) = None"
  using assms
proof (induction ps arbitrary: i j err)
  case (Cons p ps)
  show ?case
  proof (cases j)
    case 0
    then show ?thesis using Cons.prems(2) [of err] by (auto split: prod.splits option.splits)
  next
    case (Suc k)
    have "snd (convert_args Q B st (Suc i) ps args e) = None" for e
      by (rule Cons.IH [of k]) (use Suc Cons.prems in simp_all)
    then show ?thesis by (auto split: prod.splits option.splits) (metis snd_conv option.distinct(1))+
  qed
qed simp

text \<open>
  A numeric parameter takes exactly the integers of its width.
\<close>

lemma convert_int_iff:
  "snd (convert_arg Q B st i PInt v err) \<noteq> None \<longleftrightarrow> (\<exists>n. v = JDouble (DFin (of_int n)) \<and> int_min \<le> n \<and> n \<le> int_max)"
  by (cases v) (auto simp: dbl_in_range_iff)

lemma convert_uint_iff:
  "snd (convert_arg Q B st i PUInt v err) \<noteq> None \<longleftrightarrow> (\<exists>n. v = JDouble (DFin (of_int n)) \<and> 0 \<le> n \<and> n \<le> uint_max)"
  by (cases v) (auto simp: dbl_in_range_iff)

end
