(* ===== verification/Shard_Methods.thy ===== *)
theory Shard_Methods
  imports Shard_Arguments
begin

text \<open>
  The method shards (generated\_methods, generated\_value\_methods) and their interpreter. One
  \<open>binding\<close> is one block \<^verbatim>\<open>invoke_signature_k\<close> of a shard: the build macros it stands under, the
  name and the parameters that make its signature, how the C++ result
  becomes JSON, and the bound classes tried in order. \<open>run_binding\<close> is the text of the block,
  \<open>run_shard\<close> the function of the shard: its blocks in sequence.
\<close>

datatype item = IObject | IVariant | IValue string | IMeta string

datatype result =
    RVoid | RBool | RNumber | RString | RMeta string | RValue string | RVariant | RObject
  | RList item | RMap item

text \<open>
  \<open>OnObject C\<close>: \<^verbatim>\<open>dynamic_cast<C *>(object)\<close>; \<open>OnValue C\<close>: a stored value of the class; \<open>Static C\<close>: a
  static member function, asked for by the qualified class name.
\<close>

datatype candidate = OnObject string | OnValue string | Static string

datatype binding = Bind
  (b_guards: "macro list") (b_name: string) (b_params: "param list")
  (b_result: result) (b_candidates: "candidate list")

text \<open>
  The signature a block answers to: the name, which is also the member function called, and the
  types of the parameters in parentheses, separated by commas.
\<close>

fun commas :: "string list \<Rightarrow> string" where
  "commas [] = []"
| "commas [t] = t"
| "commas (t # ts) = t @ '','' @ commas ts"

definition b_signature :: "binding \<Rightarrow> string" where
  "b_signature b = b_name b @ ''('' @ commas (map param_type (b_params b)) @ '')''"

record shard =
  sh_module :: string
  sh_slug :: string
  sh_bindings :: "binding list"

subsection \<open>Results\<close>

fun number_of :: "'o qvariant \<Rightarrow> dbl" where
  "number_of (VInt n) = int_to_dbl (sint n)"
| "number_of (VUInt n) = int_to_dbl (uint n)"
| "number_of (VLongLong n) = int_to_dbl (sint n)"
| "number_of (VULongLong n) = int_to_dbl (uint n)"
| "number_of (VDouble d) = d"
| "number_of _ = DFin 0"

fun list_items :: "'o qvariant \<Rightarrow> 'o qvariant list" where
  "list_items (VList xs) = xs"
| "list_items (VStringList ss) = map VString ss"
| "list_items _ = []"

fun map_items :: "'o qvariant \<Rightarrow> (qstring \<times> 'o qvariant) list" where
  "map_items (VMap es) = es"
| "map_items (VHash es) = es"
| "map_items (VStringMap es) = map (\<lambda>(k, s). (k, VString s)) es"
| "map_items (VStringHash es) = map (\<lambda>(k, s). (k, VString s)) es"
| "map_items _ = []"

text \<open>One element of a returned list or map; \<open>None\<close> is a value the registry cannot store.\<close>

fun emit_item :: "('w, 'o) qt \<Rightarrow> ('w, 'o) gen \<Rightarrow> ('w, 'o) build \<Rightarrow> item \<Rightarrow> 'o qvariant \<Rightarrow> ('w, 'o) bridge
    \<Rightarrow> json option \<times> ('w, 'o) bridge" where
  "emit_item Q G B IObject x st = (let (j, st') = objectHandle Q (pointer_of x) st in (Some j, st'))"
| "emit_item Q G B IVariant x st = (let (j, st') = toJson Q G x st in (Some j, st'))"
| "emit_item Q G B (IMeta T) x st = (let (j, st') = toJson Q G x st in (Some j, st'))"
| "emit_item Q G B (IValue T) x st =
     (let convertedItem = storeValue B T x in
      if \<not> v_isValid convertedItem then (None, st)
      else let (j, st') = toJson Q G convertedItem st in (Some j, st'))"

fun emit_items :: "('w, 'o) qt \<Rightarrow> ('w, 'o) gen \<Rightarrow> ('w, 'o) build \<Rightarrow> item \<Rightarrow> 'o qvariant list \<Rightarrow> ('w, 'o) bridge
    \<Rightarrow> json list option \<times> ('w, 'o) bridge" where
  "emit_items Q G B it [] st = (Some [], st)"
| "emit_items Q G B it (x # xs) st =
     (case emit_item Q G B it x st of
        (None, st1) \<Rightarrow> (None, st1)
      | (Some j, st1) \<Rightarrow>
          (case emit_items Q G B it xs st1 of
             (None, st2) \<Rightarrow> (None, st2)
           | (Some js, st2) \<Rightarrow> (Some (j # js), st2)))"

text \<open>The text of \<^verbatim>\<open>emit_result\<close>: \<^verbatim>\<open>*output\<close>, \<^verbatim>\<open>*error\<close> and the bridge after the call.\<close>

fun emit_result :: "('w, 'o) qt \<Rightarrow> ('w, 'o) gen \<Rightarrow> ('w, 'o) build \<Rightarrow> result \<Rightarrow> 'o qvariant \<Rightarrow> ('w, 'o) call_out \<Rightarrow> ('w, 'o) call_out" where
  "emit_result Q G B RVoid x (j, err, st) = (JNull, err, st)"
| "emit_result Q G B RBool x (j, err, st) = (JBool (bool_of x), err, st)"
| "emit_result Q G B RNumber x (j, err, st) = (JDouble (number_of x), err, st)"
| "emit_result Q G B RString x (j, err, st) = (JString (text_of x), err, st)"
| "emit_result Q G B (RMeta T) x (j, err, st) = (let (j', st') = toJson Q G x st in (j', err, st'))"
| "emit_result Q G B (RValue T) x (j, err, st) =
     (let convertedResult = storeValue B T x in
      if \<not> v_isValid convertedResult then (j, Some (Msg ''Qt returned a value Kryndel cannot store'' []), st)
      else let (j', st') = toJson Q G convertedResult st in (j', err, st'))"
| "emit_result Q G B RVariant x (j, err, st) = (let (j', st') = toJson Q G x st in (j', err, st'))"
| "emit_result Q G B RObject x (j, err, st) = (let (j', st') = objectHandle Q (pointer_of x) st in (j', err, st'))"
| "emit_result Q G B (RList it) x (j, err, st) =
     (case emit_items Q G B it (list_items x) st of
        (None, st') \<Rightarrow> (j, Some (Msg ''Qt returned a list value Kryndel cannot store'' []), st')
      | (Some js, st') \<Rightarrow> (JArray js, err, st'))"
| "emit_result Q G B (RMap it) x (j, err, st) =
     (case emit_items Q G B it (map snd (map_items x)) st of
        (None, st') \<Rightarrow> (j, Some (Msg ''Qt returned a map value Kryndel cannot store'' []), st')
      | (Some js, st') \<Rightarrow> (JObject (smap_of (zip (map fst (map_items x)) js)), err, st'))"

subsection \<open>Calls\<close>

definition member :: "string \<Rightarrow> string \<Rightarrow> string" where
  "member cpp name = cpp @ ''::'' @ name"

definition dynamic_cast :: "('w, 'o) qt \<Rightarrow> string \<Rightarrow> 'w \<Rightarrow> ptr \<Rightarrow> bool" where
  "dynamic_cast Q cpp w object \<longleftrightarrow> object \<noteq> nullptr \<and> qobject_cast Q cpp w object"

definition method_macro :: "shard \<Rightarrow> string \<Rightarrow> macro" where
  "method_macro sh cpp = ClassM ''METHODS'' (sh_slug sh) (unscoped cpp)"

text \<open>Does the candidate take the call?\<close>

fun candidate_matches ::
  "('w, 'o) qt \<Rightarrow> ('w, 'o) build \<Rightarrow> shard \<Rightarrow> ptr \<Rightarrow> qstring \<Rightarrow> 'w \<Rightarrow> 'o qvariant \<Rightarrow> candidate \<Rightarrow> bool" where
  "candidate_matches Q B sh object className w v (OnObject cpp) \<longleftrightarrow>
     macro_defined B (method_macro sh cpp) \<and> dynamic_cast Q cpp w object"
| "candidate_matches Q B sh object className w v (OnValue cpp) \<longleftrightarrow>
     macro_defined B (method_macro sh cpp) \<and> className = qs (unscoped cpp) \<and> variant_type v = metatype_of B cpp"
| "candidate_matches Q B sh object className w v (Static cpp) \<longleftrightarrow>
     macro_defined B (method_macro sh cpp) \<and> className = qualify_name (sh_module sh) (qs (unscoped cpp))"

text \<open>The C++ call: its result, the target value afterwards, Qt's world afterwards.\<close>

fun candidate_call ::
  "('w, 'o) qt \<Rightarrow> ('w, 'o) build \<Rightarrow> ptr \<Rightarrow> string \<Rightarrow> 'o qvariant list \<Rightarrow> candidate \<Rightarrow> 'o qvariant \<Rightarrow> 'w
     \<Rightarrow> ('o qvariant \<times> 'o qvariant) \<times> 'w" where
  "candidate_call Q B object name xs (OnObject cpp) v w =
     (let (r, w') = qt_call Q (member cpp name) object xs w in ((r, v), w'))"
| "candidate_call Q B object name xs (OnValue cpp) v w = value_call B (member cpp name) v xs w"
| "candidate_call Q B object name xs (Static cpp) v w =
     (let (r, w') = static_call B (member cpp name) xs w in ((r, v), w'))"

text \<open>The candidates in order; when none takes the call the block falls through.\<close>

definition run_candidates ::
  "('w, 'o) qt \<Rightarrow> ('w, 'o) gen \<Rightarrow> ('w, 'o) build \<Rightarrow> shard \<Rightarrow> ptr \<Rightarrow> qstring \<Rightarrow> binding \<Rightarrow> 'o qvariant list
     \<Rightarrow> ('w, 'o) vcall_out \<Rightarrow> bool \<times> ('w, 'o) vcall_out" where
  "run_candidates Q G B sh object className b xs = (\<lambda>(v, j, err, st).
     (case List.find (candidate_matches Q B sh object className (world st) v) (b_candidates b) of
        None \<Rightarrow> (False, (v, j, err, st))
      | Some c \<Rightarrow>
          (let ((r, v'), w) = candidate_call Q B object (b_name b) xs c v (world st);
               (j', err', st') = emit_result Q G B (b_result b) r (j, err, set_world w st)
           in (True, (v', j', err', st')))))"

definition arity_error :: "binding \<Rightarrow> qmsg" where
  "arity_error b = Msg ''%1 expects %2 argument(s)'' [AStr (qs (b_signature b)), ANum (int (length (b_params b)))]"

definition run_binding ::
  "('w, 'o) qt \<Rightarrow> ('w, 'o) gen \<Rightarrow> ('w, 'o) build \<Rightarrow> shard \<Rightarrow> ptr \<Rightarrow> qstring \<Rightarrow> qstring \<Rightarrow> json list \<Rightarrow> binding
     \<Rightarrow> ('w, 'o) vcall_out \<Rightarrow> bool \<times> ('w, 'o) vcall_out" where
  "run_binding Q G B sh object className signature args b = (\<lambda>(v, j, err, st).
     (if \<not> compiled B (b_guards b) (b_params b) \<or> signature \<noteq> qs (b_signature b) then (False, (v, j, err, st))
      else if length args \<noteq> length (b_params b) then (True, (v, j, Some (arity_error b), st))
      else case convert_args Q B st 0 (b_params b) args err of
        (err', None) \<Rightarrow> (True, (v, j, err', st))
      | (err', Some xs) \<Rightarrow> run_candidates Q G B sh object className b xs (v, j, err', st)))"

definition run_shard ::
  "('w, 'o) qt \<Rightarrow> ('w, 'o) gen \<Rightarrow> ('w, 'o) build \<Rightarrow> shard \<Rightarrow> ptr \<Rightarrow> qstring \<Rightarrow> qstring \<Rightarrow> json list
     \<Rightarrow> ('w, 'o) vcall_out \<Rightarrow> bool \<times> ('w, 'o) vcall_out" where
  "run_shard Q G B sh object className signature args =
     try_shards (map (run_binding Q G B sh object className signature args) (sh_bindings sh))"

text \<open>The two entry points of a shard file: \<^verbatim>\<open>invoke_<shard>\<close> and \<^verbatim>\<open>invoke_value_<shard>\<close>.\<close>

definition run_method_shard ::
  "('w, 'o) qt \<Rightarrow> ('w, 'o) gen \<Rightarrow> ('w, 'o) build \<Rightarrow> shard \<Rightarrow> ptr \<Rightarrow> qstring \<Rightarrow> qstring \<Rightarrow> json list
     \<Rightarrow> ('w, 'o) call_out \<Rightarrow> bool \<times> ('w, 'o) call_out" where
  "run_method_shard Q G B sh object className signature args out =
     (let (handled, v, out') = run_shard Q G B sh object className signature args (VInvalid, out) in (handled, out'))"

definition run_value_shard ::
  "('w, 'o) qt \<Rightarrow> ('w, 'o) gen \<Rightarrow> ('w, 'o) build \<Rightarrow> shard \<Rightarrow> qstring \<Rightarrow> qstring \<Rightarrow> json list
     \<Rightarrow> ('w, 'o) vcall_out \<Rightarrow> bool \<times> ('w, 'o) vcall_out" where
  "run_value_shard Q G B sh = run_shard Q G B sh nullptr"

text \<open>\<^verbatim>\<open>direct_value_types_<shard>\<close>: the bound classes that can be stored by value.\<close>

definition run_value_types :: "('w, 'o) build \<Rightarrow> string \<Rightarrow> string list \<Rightarrow> qstring list" where
  "run_value_types B slug cpps =
     map (\<lambda>cpp. qs (unscoped cpp))
       (filter (\<lambda>cpp. macro_defined B (ClassM ''METHODS'' slug (unscoped cpp)) \<and> copyable B cpp) cpps)"

subsection \<open>What a table must satisfy\<close>

text \<open>
  A method shard only has candidates on objects and classes, a value shard only on stored values.
\<close>

fun on_value :: "candidate \<Rightarrow> bool" where
  "on_value (OnValue _) = True"
| "on_value (OnObject _) = False"
| "on_value (Static _) = False"

definition object_shard :: "shard \<Rightarrow> bool" where
  "object_shard sh \<longleftrightarrow> list_all (\<lambda>b. list_all (\<lambda>c. \<not> on_value c) (b_candidates b)) (sh_bindings sh)"

definition value_shard :: "shard \<Rightarrow> bool" where
  "value_shard sh \<longleftrightarrow> list_all (\<lambda>b. list_all on_value (b_candidates b)) (sh_bindings sh)"

text \<open>
  The generator writes the blocks of a shard in the order of their signatures. \<open>in_order\<close> tests
  neighbours: the signature of the second is larger at the first difference, or both blocks have the
  same name and the same parameters. Most neighbours differ in their names already, and then the
  parameters are not looked at.
\<close>

fun text_less :: "string \<Rightarrow> string \<Rightarrow> bool" where
  "text_less (x # xs) (y # ys) = (if x = y then text_less xs ys else of_char x < (of_char y :: nat))"
| "text_less _ _ = False"

definition parameter_text :: "param list \<Rightarrow> string" where
  "parameter_text ps = commas (map param_type ps) @ '')''"

fun same_or_less :: "param list \<Rightarrow> string \<Rightarrow> param list \<Rightarrow> string \<Rightarrow> bool" where
  "same_or_less ps (x # xs) rs (y # ys) = (if x = y then same_or_less ps xs rs ys else of_char x < (of_char y :: nat))"
| "same_or_less ps [] rs (y # ys) = (40 < (of_char y :: nat))"
| "same_or_less ps (x # xs) rs [] = (of_char x < (40 :: nat))"
| "same_or_less ps [] rs [] = (ps = rs \<or> text_less (parameter_text ps) (parameter_text rs))"

declare same_or_less.simps(1) [simp del]

lemma same_or_less_head [simp]:
  "same_or_less ps (x # xs) rs (x # ys) = same_or_less ps xs rs ys"
  "x \<noteq> y \<Longrightarrow> same_or_less ps (x # xs) rs (y # ys) = (of_char x < (of_char y :: nat))"
  by (simp_all add: same_or_less.simps(1))

fun in_order :: "binding list \<Rightarrow> bool" where
  "in_order (a # b # bs) \<longleftrightarrow> same_or_less (b_params a) (b_name a) (b_params b) (b_name b) \<and> in_order (b # bs)"
| "in_order _ \<longleftrightarrow> True"

definition object_blocks :: "shard \<Rightarrow> bool" where
  "object_blocks sh \<longleftrightarrow> object_shard sh \<and> in_order (sh_bindings sh)"

definition value_blocks :: "shard \<Rightarrow> bool" where
  "value_blocks sh \<longleftrightarrow> value_shard sh \<and> in_order (sh_bindings sh)"

subsection \<open>The registry under a shard\<close>

lemma objectHandle_reg_step: "objectHandle Q p st = (j, st') \<Longrightarrow> reg_step st st'"
  by (auto simp: objectHandle_def split: if_splits intro: objectHandleValue_reg_step)

lemma emit_item_reg_step: "emit_item Q G B it x st = (j, st') \<Longrightarrow> reg_step st st'"
  by (cases it) (auto simp: Let_def split: prod.splits if_splits intro: objectHandle_reg_step toJson_reg_step)

lemma emit_items_reg_step: "emit_items Q G B it xs st = (js, st') \<Longrightarrow> reg_step st st'"
proof (induction xs arbitrary: st js)
  case (Cons x xs)
  obtain j st1 where e: "emit_item Q G B it x st = (j, st1)" by force
  have 1: "reg_step st st1" by (rule emit_item_reg_step [OF e])
  show ?case
  proof (cases j)
    case None then show ?thesis using 1 e Cons.prems by simp
  next
    case (Some j')
    obtain r st2 where r: "emit_items Q G B it xs st1 = (r, st2)" by force
    have "st' = st2" using e Some r Cons.prems by (auto split: option.splits)
    then show ?thesis using 1 Cons.IH [of st1 r] r by (auto intro: reg_step_trans)
  qed
qed simp

lemma emit_result_reg_step: "emit_result Q G B r x (j, err, st) = (j', err', st') \<Longrightarrow> reg_step st st'"
  by (cases r)
     (auto simp: Let_def split: prod.splits if_splits option.splits
       intro: objectHandle_reg_step toJson_reg_step emit_items_reg_step)

lemma run_candidates_reg_step:
  assumes "run_candidates Q G B sh object className b xs (v, j, err, st) = (h, v', j', err', st')"
  shows "reg_step st st'"
proof (cases "List.find (candidate_matches Q B sh object className (world st) v) (b_candidates b)")
  case None then show ?thesis using assms by (simp add: run_candidates_def)
next
  case (Some c)
  obtain r v1 w where c: "candidate_call Q B object (b_name b) xs c v (world st) = ((r, v1), w)"
    by (metis prod.collapse)
  obtain j1 err1 st1 where e: "emit_result Q G B (b_result b) r (j, err, set_world w st) = (j1, err1, st1)"
    by (metis prod.collapse)
  have "st' = st1" using assms Some c e by (simp add: run_candidates_def)
  moreover have "reg_step st (set_world w st)" by simp
  ultimately show ?thesis using emit_result_reg_step [OF e] by (auto intro: reg_step_trans)
qed

lemma run_binding_reg_step:
  assumes "run_binding Q G B sh object className signature args b (v, j, err, st) = (h, v', j', err', st')"
  shows "reg_step st st'"
  using assms
  by (auto simp: run_binding_def split: if_splits prod.splits option.splits dest: run_candidates_reg_step)

lemma run_shard_reg_step:
  "reg_step (snd (snd (snd out))) (snd (snd (snd (snd (run_shard Q G B sh object className signature args out)))))"
proof -
  have "\<forall>f\<in>set (map (run_binding Q G B sh object className signature args) (sh_bindings sh)). \<forall>y.
      reg_step (snd (snd (snd y))) (snd (snd (snd (snd (f y)))))"
    by (clarsimp) (metis prod.collapse run_binding_reg_step)
  then show ?thesis
    unfolding run_shard_def by (rule try_shards_reg_step [where proj = "\<lambda>y. snd (snd (snd y))"])
qed

end
