(* ===== verification/Shard_Constructors.thy ===== *)
theory Shard_Constructors
  imports Shard_Methods
begin

text \<open>
  The constructor shards (generated\_constructors, generated\_value\_constructors) and their
  interpreter. A \<open>ctor_block\<close> is one \<^verbatim>\<open>if\<close> of a shard: a class, an argument count and the
  overloads tried in order; an \<open>overload\<close> is one \<^verbatim>\<open>construct_candidate\<close> (or \<^verbatim>\<open>build_candidate\<close>).
  \<open>o_parent = Some (k, C)\<close> says that the parent, cast to \<open>C\<close>, is the constructor's argument \<open>k\<close>.
\<close>

datatype overload = Overload
  (o_guards: "macro list") (o_params: "param list") (o_parent: "(nat \<times> string) option")

datatype ctor_block = CtorBlock (cb_cpp: string) (cb_arity: nat) (cb_overloads: "overload list")

text \<open>An entry of \<^verbatim>\<open>constructor_classes_<shard>\<close>: the class, further macros, the constructors asked for.\<close>

datatype class_entry = ClassEntry (ce_cpp: string) (ce_guards: "macro list") (ce_types: "string list")

record ctor_shard =
  cs_module :: string
  cs_slug :: string
  cs_blocks :: "ctor_block list"
  cs_classes :: "class_entry list"

definition ctor_macro :: "string \<Rightarrow> ctor_shard \<Rightarrow> string \<Rightarrow> macro" where
  "ctor_macro family sh cpp = ClassM family (cs_slug sh) (unscoped cpp)"

definition overload_compiled :: "('w, 'o) build \<Rightarrow> string \<Rightarrow> ctor_shard \<Rightarrow> string \<Rightarrow> overload \<Rightarrow> bool" where
  "overload_compiled B family sh cpp c \<longleftrightarrow> compiled B (ctor_macro family sh cpp # o_guards c) (o_params c)"

subsection \<open>Objects\<close>

text \<open>\<^verbatim>\<open>makeQObject<T>\<close>.\<close>

definition makeQObject ::
  "('w, 'o) build \<Rightarrow> string \<Rightarrow> overload \<Rightarrow> 'o qvariant list \<Rightarrow> 'w \<Rightarrow> ptr \<times> 'w" where
  "makeQObject B cpp c xs w =
     (if is_abstract B cpp \<or> \<not> accepts B cpp (o_params c) (o_parent c) then (nullptr, w)
      else new_object B cpp xs w)"

definition insert_at :: "nat \<Rightarrow> 'a \<Rightarrow> 'a list \<Rightarrow> 'a list" where
  "insert_at k x xs = take k xs @ x # drop k xs"

definition parent_argument ::
  "('w, 'o) qt \<Rightarrow> 'w \<Rightarrow> overload \<Rightarrow> ptr \<Rightarrow> 'o qvariant list \<Rightarrow> qmsg + 'o qvariant list" where
  "parent_argument Q w c parent xs =
     (case o_parent c of
        None \<Rightarrow> Inr xs
      | Some (k, cpp) \<Rightarrow>
          if parent \<noteq> nullptr \<and> \<not> qobject_cast Q cpp w parent
          then Inl (Msg (''parent must be a '' @ unscoped cpp @ '' object'') [])
          else Inr (insert_at k (vobject parent) xs))"

text \<open>One overload: \<^verbatim>\<open>candidateError\<close> and the object (null on failure). What \<^verbatim>\<open>adopt\<close> refuses is deleted.\<close>

definition construct_candidate ::
  "('w, 'o) qt \<Rightarrow> ('w, 'o) build \<Rightarrow> string \<Rightarrow> ptr \<Rightarrow> json list \<Rightarrow> overload \<Rightarrow> ('w, 'o) bridge
     \<Rightarrow> (qmsg option \<times> ptr) \<times> ('w, 'o) bridge" where
  "construct_candidate Q B cpp parent args c st =
     (case convert_args Q B st 0 (o_params c) args None of
        (err, None) \<Rightarrow> ((err, nullptr), st)
      | (err, Some xs) \<Rightarrow>
          (case parent_argument Q (world st) c parent xs of
             Inl e \<Rightarrow> ((Some e, nullptr), st)
           | Inr xs' \<Rightarrow>
               (let (instance, w) = makeQObject B cpp c xs' (world st) in
                if instance = nullptr then ((err, nullptr), set_world w st)
                else case adopt Q instance parent w of
                  (Inl e, w') \<Rightarrow> ((Some e, nullptr), set_world (delete_object Q instance w') st)
                | (Inr attached, w') \<Rightarrow>
                    if attached = nullptr then ((err, nullptr), set_world (delete_object Q instance w') st)
                    else ((err, attached), set_world w' st))))"

fun try_overloads ::
  "('w, 'o) qt \<Rightarrow> ('w, 'o) build \<Rightarrow> ctor_shard \<Rightarrow> string \<Rightarrow> ptr \<Rightarrow> json list \<Rightarrow> overload list \<Rightarrow> qmsg option
     \<Rightarrow> ('w, 'o) bridge \<Rightarrow> (qmsg option \<times> ptr) \<times> ('w, 'o) bridge" where
  "try_overloads Q B sh cpp parent args [] lastCandidateError st = ((lastCandidateError, nullptr), st)"
| "try_overloads Q B sh cpp parent args (c # cs) lastCandidateError st =
     (if \<not> overload_compiled B ''CONSTRUCTORS'' sh cpp c
      then try_overloads Q B sh cpp parent args cs lastCandidateError st
      else case construct_candidate Q B cpp parent args c st of
        ((candidateError, created), st') \<Rightarrow>
          if created \<noteq> nullptr then ((lastCandidateError, created), st')
          else try_overloads Q B sh cpp parent args cs
                 (if candidateError \<noteq> None then candidateError else lastCandidateError) st')"

definition block_matches :: "ctor_shard \<Rightarrow> qstring \<Rightarrow> qstring \<Rightarrow> json list \<Rightarrow> ctor_block \<Rightarrow> bool" where
  "block_matches sh moduleName className args b \<longleftrightarrow>
     (moduleName = [] \<or> moduleName = qs (cs_module sh)) \<and> className = qs (unscoped (cb_cpp b)) \<and> length args = cb_arity b"

definition run_ctor_block ::
  "('w, 'o) qt \<Rightarrow> ('w, 'o) build \<Rightarrow> ctor_shard \<Rightarrow> qstring \<Rightarrow> qstring \<Rightarrow> ptr \<Rightarrow> json list \<Rightarrow> ctor_block
     \<Rightarrow> ('w, 'o) ctor_out \<Rightarrow> bool \<times> ('w, 'o) ctor_out" where
  "run_ctor_block Q B sh moduleName className parent args b = (\<lambda>(output, error, st).
     (if \<not> block_matches sh moduleName className args b then (False, (output, error, st))
      else case try_overloads Q B sh (cb_cpp b) parent args (cb_overloads b) None st of
        ((lastCandidateError, created), st') \<Rightarrow>
          if created \<noteq> nullptr then (True, (created, error, st'))
          else (True, (output, if lastCandidateError \<noteq> None then lastCandidateError else error, st'))))"

definition run_ctor_shard ::
  "('w, 'o) qt \<Rightarrow> ('w, 'o) build \<Rightarrow> ctor_shard \<Rightarrow> qstring \<Rightarrow> qstring \<Rightarrow> ptr \<Rightarrow> json list
     \<Rightarrow> ('w, 'o) ctor_out \<Rightarrow> bool \<times> ('w, 'o) ctor_out" where
  "run_ctor_shard Q B sh moduleName className parent args =
     try_shards (map (run_ctor_block Q B sh moduleName className parent args) (cs_blocks sh))"

definition run_ctor_classes :: "('w, 'o) build \<Rightarrow> ctor_shard \<Rightarrow> qstring list" where
  "run_ctor_classes B sh =
     map (\<lambda>e. qs (unscoped (ce_cpp e)))
       (filter (\<lambda>e. (\<forall>g\<in>set (ctor_macro ''CONSTRUCTORS'' sh (ce_cpp e) # ce_guards e). macro_defined B g)
            \<and> \<not> is_abstract B (ce_cpp e) \<and> (\<exists>t\<in>set (ce_types e). constructible B (ce_cpp e) t))
         (cs_classes sh))"

subsection \<open>Values\<close>

text \<open>\<^verbatim>\<open>makeQtValue<T>\<close>.\<close>

definition makeQtValue :: "('w, 'o) build \<Rightarrow> string \<Rightarrow> overload \<Rightarrow> 'o qvariant list \<Rightarrow> 'o qvariant" where
  "makeQtValue B cpp c xs = (if copyable B cpp \<and> accepts B cpp (o_params c) (o_parent c) then make_value B cpp xs else VInvalid)"

definition build_candidate ::
  "('w, 'o) qt \<Rightarrow> ('w, 'o) build \<Rightarrow> string \<Rightarrow> json list \<Rightarrow> overload \<Rightarrow> ('w, 'o) bridge \<Rightarrow> 'o value_out" where
  "build_candidate Q B cpp args c st =
     (case convert_args Q B st 0 (o_params c) args None of
        (err, None) \<Rightarrow> (VInvalid, err)
      | (err, Some xs) \<Rightarrow> (makeQtValue B cpp c xs, err))"

fun try_value_overloads ::
  "('w, 'o) qt \<Rightarrow> ('w, 'o) build \<Rightarrow> ctor_shard \<Rightarrow> string \<Rightarrow> json list \<Rightarrow> overload list \<Rightarrow> qmsg option
     \<Rightarrow> ('w, 'o) bridge \<Rightarrow> 'o value_out" where
  "try_value_overloads Q B sh cpp args [] lastCandidateError st = (VInvalid, lastCandidateError)"
| "try_value_overloads Q B sh cpp args (c # cs) lastCandidateError st =
     (if \<not> overload_compiled B ''VALUE_CONSTRUCTORS'' sh cpp c
      then try_value_overloads Q B sh cpp args cs lastCandidateError st
      else case build_candidate Q B cpp args c st of
        (created, candidateError) \<Rightarrow>
          if v_isValid created then (created, lastCandidateError)
          else try_value_overloads Q B sh cpp args cs
                 (if candidateError \<noteq> None then candidateError else lastCandidateError) st)"

definition run_value_ctor_block ::
  "('w, 'o) qt \<Rightarrow> ('w, 'o) build \<Rightarrow> ctor_shard \<Rightarrow> qstring \<Rightarrow> qstring \<Rightarrow> json list \<Rightarrow> ('w, 'o) bridge \<Rightarrow> ctor_block
     \<Rightarrow> 'o value_out \<Rightarrow> bool \<times> 'o value_out" where
  "run_value_ctor_block Q B sh moduleName className args st b = (\<lambda>(output, error).
     (if \<not> block_matches sh moduleName className args b then (False, (output, error))
      else case try_value_overloads Q B sh (cb_cpp b) args (cb_overloads b) None st of
        (created, lastCandidateError) \<Rightarrow>
          if v_isValid created then (True, (created, error))
          else (True, (output, if lastCandidateError \<noteq> None then lastCandidateError else error))))"

definition run_value_ctor_shard ::
  "('w, 'o) qt \<Rightarrow> ('w, 'o) build \<Rightarrow> ctor_shard \<Rightarrow> qstring \<Rightarrow> qstring \<Rightarrow> json list \<Rightarrow> ('w, 'o) bridge
     \<Rightarrow> 'o value_out \<Rightarrow> bool \<times> 'o value_out" where
  "run_value_ctor_shard Q B sh moduleName className args st =
     try_shards (map (run_value_ctor_block Q B sh moduleName className args st) (cs_blocks sh))"

definition run_value_ctor_classes :: "('w, 'o) build \<Rightarrow> ctor_shard \<Rightarrow> qstring list" where
  "run_value_ctor_classes B sh =
     map (\<lambda>e. qs (unscoped (ce_cpp e)))
       (filter (\<lambda>e. (\<forall>g\<in>set (ctor_macro ''VALUE_CONSTRUCTORS'' sh (ce_cpp e) # ce_guards e). macro_defined B g)
            \<and> copyable B (ce_cpp e) \<and> (\<exists>t\<in>set (ce_types e). constructible B (ce_cpp e) t))
         (cs_classes sh))"

text \<open>Every overload of a block has as many parameters as the block asks for arguments.\<close>

definition fitting_shard :: "ctor_shard \<Rightarrow> bool" where
  "fitting_shard sh \<longleftrightarrow>
     list_all (\<lambda>b. list_all (\<lambda>c. length (o_params c) = cb_arity b) (cb_overloads b)) (cs_blocks sh)"

subsection \<open>Only Qt's world changes\<close>

definition world_step :: "('w, 'o) bridge \<Rightarrow> ('w, 'o) bridge \<Rightarrow> bool" where
  "world_step st st' \<longleftrightarrow> (\<exists>w. st' = set_world w st)"

lemma world_step_refl [simp, intro]: "world_step st st"
  by (auto simp: world_step_def set_world_def intro!: exI [of _ "world st"])

lemma world_step_trans: "world_step a b \<Longrightarrow> world_step b c \<Longrightarrow> world_step a c"
  by (auto simp: world_step_def)

lemma world_step_reg_step: "world_step st st' \<Longrightarrow> reg_step st st'"
  by (auto simp: world_step_def)

lemma construct_candidate_world: "construct_candidate Q B cpp parent args c st = (r, st') \<Longrightarrow> world_step st st'"
  unfolding construct_candidate_def world_step_def
  by (auto simp: Let_def split: prod.splits option.splits sum.splits if_splits)
     (auto simp: set_world_def intro!: exI [of _ "world st"])

lemma try_overloads_world: "try_overloads Q B sh cpp parent args cs lastError st = (r, st') \<Longrightarrow> world_step st st'"
  by (induction cs arbitrary: lastError st)
     (auto split: if_splits prod.splits dest!: construct_candidate_world intro: world_step_trans)

lemma run_ctor_block_world:
  "run_ctor_block Q B sh m n parent args b (p, e, st) = (h, p', e', st') \<Longrightarrow> world_step st st'"
  by (auto simp: run_ctor_block_def split: if_splits prod.splits dest: try_overloads_world)

lemma run_ctor_shard_reg_step:
  "reg_step (snd (snd out)) (snd (snd (snd (run_ctor_shard Q B sh m n parent args out))))"
proof -
  have "\<forall>f\<in>set (map (run_ctor_block Q B sh m n parent args) (cs_blocks sh)). \<forall>y. reg_step (snd (snd y)) (snd (snd (snd (f y))))"
    by clarsimp (metis prod.collapse run_ctor_block_world world_step_reg_step)
  then show ?thesis
    unfolding run_ctor_shard_def by (rule try_shards_reg_step [where proj = "\<lambda>y. snd (snd y)"])
qed

end
