(* ===== verification/Module_Factories.thy ===== *)
theory Module_Factories
  imports Shard_Arguments
begin

text \<open>
  The templates of generated\_default\_constructors.h and the functions of a module's translation
  unit (generated\_modules), parametric in the module's class table. A class is known by its C++
  name; the tables themselves are in the theories \<open>Modules_*\<close>.
\<close>

definition factory_for :: "('w, 'o) build \<Rightarrow> string \<Rightarrow> string \<Rightarrow> string \<Rightarrow> bool" where
  "factory_for B base parentType cpp \<longleftrightarrow>
     base_of B base cpp \<and> \<not> is_abstract B cpp \<and> (constructible B cpp parentType \<or> default_ok B cpp)"

text \<open>\<^verbatim>\<open>factory<T>() != nullptr\<close>.\<close>

definition has_factory :: "('w, 'o) build \<Rightarrow> string \<Rightarrow> bool" where
  "has_factory B cpp \<longleftrightarrow>
     is_complete B cpp \<and>
     (factory_for B ''QWidget'' ''QWidget *'' cpp
      \<or> factory_for B ''QWindow'' ''QWindow *'' cpp
      \<or> factory_for B ''QLayout'' ''QWidget *'' cpp
      \<or> factory_for B ''Qt3DCore::QNode'' ''Qt3DCore::QNode *'' cpp
      \<or> factory_for B ''QObject'' ''QObject *'' cpp)"

text \<open>
  \<^verbatim>\<open>if constexpr (std::is_constructible_v<T, P>) return new T(parent); else if constexpr
  (std::is_default_constructible_v<T>) { new T(); attach; }\<close>; neither leaves the chain.
\<close>

definition new_with_parent ::
  "('w, 'o) build \<Rightarrow> string \<Rightarrow> string \<Rightarrow> ptr \<Rightarrow> (ptr \<Rightarrow> 'w \<Rightarrow> 'w) \<Rightarrow> 'w \<Rightarrow> (ptr \<times> qmsg option) \<times> 'w" where
  "new_with_parent B cpp parentType parent attach w =
     (if constructible B cpp parentType
      then let (instance, w') = new_object B cpp [vobject parent] w in ((instance, None), w')
      else if default_ok B cpp
      then let (instance, w') = new_object B cpp [] w
           in ((instance, None), if parent \<noteq> nullptr then attach instance w' else w')
      else ((nullptr, None), w))"

definition create ::
  "('w, 'o) qt \<Rightarrow> ('w, 'o) build \<Rightarrow> string \<Rightarrow> ptr \<Rightarrow> 'w \<Rightarrow> (ptr \<times> qmsg option) \<times> 'w" where
  "create Q B cpp parent w =
     (let refuse = (\<lambda>m. ((nullptr, Some (Msg m [])), w));
          foreign = (\<lambda>base. parent \<noteq> nullptr \<and> \<not> qobject_cast Q base w parent)
      in if base_of B ''QWidget'' cpp then
           (if foreign ''QWidget'' then refuse ''class requires a QWidget parent''
            else new_with_parent B cpp ''QWidget *'' parent (\<lambda>p w'. snd (qt_call Q ''QWidget::setParent'' p [vobject parent] w')) w)
         else if base_of B ''QWindow'' cpp then
           (if foreign ''QWindow'' then refuse ''window constructors require a QWindow parent''
            else new_with_parent B cpp ''QWindow *'' parent (\<lambda>p w'. snd (qt_call Q ''QWindow::setParent'' p [vobject parent] w')) w)
         else if base_of B ''QLayout'' cpp then
           (if foreign ''QWidget'' then refuse ''layout constructors require a QWidget parent''
            else if parent \<noteq> nullptr \<and> widget_layout Q w parent \<noteq> nullptr then refuse ''QWidget already has a layout''
            else new_with_parent B cpp ''QWidget *'' parent (\<lambda>p w'. snd (qt_call Q ''QWidget::setLayout'' parent [vobject p] w')) w)
         else if base_of B ''Qt3DCore::QNode'' cpp then
           (if foreign ''Qt3DCore::QNode'' then refuse ''Qt3D objects require a Qt3DCore.QNode parent''
            else new_with_parent B cpp ''Qt3DCore::QNode *'' parent (\<lambda>p w'. snd (qt_call Q ''Qt3DCore::QNode::setParent'' p [vobject parent] w')) w)
         else if base_of B ''QObject'' cpp then
           new_with_parent B cpp ''QObject *'' parent (\<lambda>p w'. setParent Q p parent w') w
         else ((nullptr, None), w))"

definition qObjectMetaObject :: "('w, 'o) build \<Rightarrow> string \<Rightarrow> metaobject option" where
  "qObjectMetaObject B cpp = (if is_complete B cpp \<and> base_of B ''QObject'' cpp then Some (static_meta B cpp) else None)"

definition exactQObjectMetaObject :: "('w, 'o) qt \<Rightarrow> ('w, 'o) build \<Rightarrow> string \<Rightarrow> qstring \<Rightarrow> metaobject option" where
  "exactQObjectMetaObject Q B cpp name =
     (case qObjectMetaObject B cpp of
        None \<Rightarrow> None
      | Some meta \<Rightarrow> if unscoped (mo_className meta) = toLatin1 Q name then Some meta else None)"

definition hasPublicInvokableConstructor :: "metaobject option \<Rightarrow> bool" where
  "hasPublicInvokableConstructor mo =
     (case mo of None \<Rightarrow> False | Some m \<Rightarrow> list_ex (\<lambda>c. meth_access c = AccPublic) (mo_constructors m))"

definition hasInvokableConstructor :: "('w, 'o) qt \<Rightarrow> ('w, 'o) build \<Rightarrow> string \<Rightarrow> qstring \<Rightarrow> bool" where
  "hasInvokableConstructor Q B cpp name \<longleftrightarrow>
     is_complete B cpp \<and> base_of B ''QObject'' cpp \<and> \<not> is_abstract B cpp
     \<and> hasPublicInvokableConstructor (exactQObjectMetaObject Q B cpp name)"

definition gadgetMetaType :: "('w, 'o) build \<Rightarrow> string \<Rightarrow> metatype" where
  "gadgetMetaType B cpp =
     (if is_complete B cpp \<and> is_gadget B cpp \<and> type_default B (metatype_of B cpp) then metatype_of B cpp else MtInvalid)"

subsection \<open>The functions of one module\<close>

definition class_name :: "string \<Rightarrow> qstring" where
  "class_name cpp = qs (unscoped cpp)"

text \<open>The header that decides whether the class is compiled in; the two base names of ActiveQt share theirs.\<close>

definition class_header :: "string \<Rightarrow> string \<Rightarrow> string" where
  "class_header m cpp =
     (if m = ''QAxContainer'' then ''QtAxContainer/''
        @ (if cpp = ''QAxBaseObject'' then ''QAxObject'' else if cpp = ''QAxBaseWidget'' then ''QAxWidget'' else cpp)
      else m @ ''/'' @ unscoped cpp)"

definition present :: "('w, 'o) build \<Rightarrow> string \<Rightarrow> string \<Rightarrow> bool" where
  "present B m cpp \<longleftrightarrow> has_include B (class_header m cpp)"

definition find_class :: "('w, 'o) build \<Rightarrow> string \<Rightarrow> string list \<Rightarrow> (string \<Rightarrow> bool) \<Rightarrow> qstring \<Rightarrow> string option" where
  "find_class B m cpps ok name = List.find (\<lambda>cpp. present B m cpp \<and> name = class_name cpp \<and> ok cpp) cpps"

definition has_in :: "('w, 'o) build \<Rightarrow> string \<Rightarrow> string list \<Rightarrow> string list \<Rightarrow> qstring \<Rightarrow> bool" where
  "has_in B m cpps always name \<longleftrightarrow> find_class B m cpps (has_factory B) name \<noteq> None \<or> name \<in> set (map qs always)"

definition construct_in ::
  "('w, 'o) qt \<Rightarrow> ('w, 'o) build \<Rightarrow> string \<Rightarrow> string list \<Rightarrow> qstring \<Rightarrow> ptr \<Rightarrow> 'w \<Rightarrow> (ptr \<times> qmsg option) \<times> 'w" where
  "construct_in Q B m cpps name parent w =
     (case find_class B m cpps (has_factory B) name of
        Some cpp \<Rightarrow> create Q B cpp parent w
      | None \<Rightarrow> ((nullptr, None), w))"

definition constructors_in :: "('w, 'o) qt \<Rightarrow> ('w, 'o) build \<Rightarrow> string \<Rightarrow> string list \<Rightarrow> string list \<Rightarrow> qstring list" where
  "constructors_in Q B m cpps always =
     sorted_unique
       (map class_name (filter (\<lambda>cpp. present B m cpp \<and> (has_factory B cpp \<or> hasInvokableConstructor Q B cpp (class_name cpp))) cpps)
        @ map qs always)"

definition meta_object_in :: "('w, 'o) qt \<Rightarrow> ('w, 'o) build \<Rightarrow> string \<Rightarrow> string list \<Rightarrow> qstring \<Rightarrow> metaobject option" where
  "meta_object_in Q B m cpps name =
     (case find_class B m cpps (\<lambda>_. True) name of
        Some cpp \<Rightarrow> exactQObjectMetaObject Q B cpp name
      | None \<Rightarrow> None)"

definition meta_object_names_in :: "('w, 'o) qt \<Rightarrow> ('w, 'o) build \<Rightarrow> string \<Rightarrow> string list \<Rightarrow> qstring list" where
  "meta_object_names_in Q B m cpps =
     map class_name (filter (\<lambda>cpp. present B m cpp \<and> exactQObjectMetaObject Q B cpp (class_name cpp) \<noteq> None) cpps)"

definition value_type_in :: "('w, 'o) build \<Rightarrow> string \<Rightarrow> string list \<Rightarrow> qstring \<Rightarrow> metatype" where
  "value_type_in B m cpps name =
     (case find_class B m cpps (\<lambda>_. True) name of
        Some cpp \<Rightarrow> gadgetMetaType B cpp
      | None \<Rightarrow> MtInvalid)"

definition value_types_in :: "('w, 'o) build \<Rightarrow> string \<Rightarrow> string list \<Rightarrow> qstring list" where
  "value_types_in B m cpps = filter (\<lambda>name. value_type_in B m cpps name \<noteq> MtInvalid) (map class_name cpps)"

subsection \<open>Laws of a module\<close>

lemma find_class_Some:
  "find_class B m cpps ok name = Some cpp \<Longrightarrow> cpp \<in> set cpps \<and> present B m cpp \<and> name = class_name cpp \<and> ok cpp"
  by (auto simp: find_class_def find_Some_iff in_set_conv_nth)

lemma find_class_None:
  "find_class B m cpps ok name = None \<longleftrightarrow> (\<forall>cpp\<in>set cpps. present B m cpp \<longrightarrow> name = class_name cpp \<longrightarrow> \<not> ok cpp)"
  by (auto simp: find_class_def find_None_iff)

text \<open>The pointer type the first matching base of \<^verbatim>\<open>create\<close> passes on.\<close>

definition parent_type :: "('w, 'o) build \<Rightarrow> string \<Rightarrow> string" where
  "parent_type B cpp =
     (if base_of B ''QWidget'' cpp then ''QWidget *''
      else if base_of B ''QWindow'' cpp then ''QWindow *''
      else if base_of B ''QLayout'' cpp then ''QWidget *''
      else if base_of B ''Qt3DCore::QNode'' cpp then ''Qt3DCore::QNode *'' else ''QObject *'')"

lemma has_factory_base: "has_factory B cpp \<Longrightarrow> base_of B ''QWidget'' cpp \<or> base_of B ''QWindow'' cpp
    \<or> base_of B ''QLayout'' cpp \<or> base_of B ''Qt3DCore::QNode'' cpp \<or> base_of B ''QObject'' cpp"
  by (auto simp: has_factory_def factory_for_def)

lemma new_with_parent_built:
  assumes "constructible B cpp t \<or> default_ok B cpp" "\<And>vs w. fst (new_object B cpp vs w) \<noteq> nullptr"
  shows "fst (fst (new_with_parent B cpp t parent attach w)) \<noteq> nullptr"
  using assms(1) assms(2) [of "[vobject parent]" w] assms(2) [of "[]" w]
  by (auto simp: new_with_parent_def Let_def split: prod.splits)

text \<open>A class with a factory is built, or its parent is refused with a message.\<close>

lemma create_complete:
  assumes "has_factory B cpp" "constructible B cpp (parent_type B cpp) \<or> default_ok B cpp"
    and "\<And>vs w. fst (new_object B cpp vs w) \<noteq> nullptr"
  shows "fst (fst (create Q B cpp parent w)) \<noteq> nullptr \<or> snd (fst (create Q B cpp parent w)) \<noteq> None"
proof -
  have built: "fst (fst (new_with_parent B cpp (parent_type B cpp) p attach w)) \<noteq> nullptr" for p attach
    by (rule new_with_parent_built [OF assms(2,3)])
  let ?b = "\<lambda>c. base_of B c cpp"
  consider "?b ''QWidget''" | "\<not> ?b ''QWidget''" "?b ''QWindow''" | "\<not> ?b ''QWidget''" "\<not> ?b ''QWindow''" "?b ''QLayout''"
    | "\<not> ?b ''QWidget''" "\<not> ?b ''QWindow''" "\<not> ?b ''QLayout''" "?b ''Qt3DCore::QNode''"
    | "\<not> ?b ''QWidget''" "\<not> ?b ''QWindow''" "\<not> ?b ''QLayout''" "\<not> ?b ''Qt3DCore::QNode''" "?b ''QObject''"
    using has_factory_base [OF assms(1)] by blast
  then show ?thesis
    by cases (use built in \<open>simp_all add: create_def parent_type_def Let_def del: neq0_conv\<close>)
qed

lemma meta_object_names_sound:
  assumes "name \<in> set (meta_object_names_in Q B m cpps)" "distinct (map class_name cpps)"
  shows "meta_object_in Q B m cpps name \<noteq> None"
proof -
  from assms(1) obtain cpp where c: "cpp \<in> set cpps" "present B m cpp" "name = class_name cpp"
    "exactQObjectMetaObject Q B cpp name \<noteq> None"
    by (auto simp: meta_object_names_in_def)
  obtain d where d: "find_class B m cpps (\<lambda>_. True) name = Some d"
    using c(1-3) find_class_None [of B m cpps "\<lambda>_. True" name] by blast
  then have "d \<in> set cpps" "class_name d = class_name cpp" using find_class_Some c(3) by metis+
  then have "d = cpp" using c(1) assms(2) by (metis distinct_map inj_onD)
  then show ?thesis using c(4) d by (simp add: meta_object_in_def)
qed

lemma value_types_valid: "name \<in> set (value_types_in B m cpps) \<longleftrightarrow> name \<in> class_name ` set cpps \<and> value_type_in B m cpps name \<noteq> MtInvalid"
  by (auto simp: value_types_in_def)

end
