(* ===== verification/Shard_Laws.thy ===== *)
theory Shard_Laws
  imports Shard_Constructors Module_Factories
begin

text \<open>
  Laws of the shard interpreters: what a call may change before a block takes it, how the chain of
  blocks reduces to the one block of the signature, and what a failed construction leaves behind.
\<close>

subsection \<open>Before a block takes the call\<close>

text \<open>The value and the bridge of a call in progress.\<close>

definition call_state :: "('w, 'o) vcall_out \<Rightarrow> 'o qvariant \<times> ('w, 'o) bridge" where
  "call_state out = (fst out, snd (snd (snd out)))"

lemma call_state_simps [simp]: "call_state (v, j, err, st) = (v, st)"
  by (simp add: call_state_def)

text \<open>What must hold for a block to hand a call to Qt.\<close>

definition takes_call ::
  "('w, 'o) qt \<Rightarrow> ('w, 'o) build \<Rightarrow> shard \<Rightarrow> ptr \<Rightarrow> qstring \<Rightarrow> qstring \<Rightarrow> json list \<Rightarrow> 'o qvariant \<Rightarrow> ('w, 'o) bridge
     \<Rightarrow> binding \<Rightarrow> candidate \<Rightarrow> 'o qvariant list \<Rightarrow> bool" where
  "takes_call Q B sh object className signature args v st b c xs \<longleftrightarrow>
     compiled B (b_guards b) (b_params b) \<and> signature = qs (b_signature b) \<and> length args = length (b_params b)
     \<and> (\<exists>err. snd (convert_args Q B st 0 (b_params b) args err) = Some xs) \<and> list_all2 arg_shape_ok (b_params b) xs
     \<and> c \<in> set (b_candidates b) \<and> candidate_matches Q B sh object className (world st) v c"

lemma run_candidates_cases:
  assumes "run_candidates Q G B sh object className b xs (v, j, err, st) = (h, out)"
  obtains "\<not> h" "out = (v, j, err, st)"
  | c where "h" "c \<in> set (b_candidates b)" "candidate_matches Q B sh object className (world st) v c"
proof (cases "List.find (candidate_matches Q B sh object className (world st) v) (b_candidates b)")
  case None then show thesis using assms that(1) by (simp add: run_candidates_def)
next
  case (Some c)
  then have "c \<in> set (b_candidates b)" "candidate_matches Q B sh object className (world st) v c"
    by (auto simp: find_Some_iff in_set_conv_nth)
  moreover have h by (use assms Some in \<open>auto simp: run_candidates_def split: prod.splits\<close>)
  ultimately show thesis by (rule that(2) [rotated])
qed

lemma run_binding_untouched:
  assumes "run_binding Q G B sh object className signature args b out = (h, out')"
    and "\<not> (\<exists>c xs. takes_call Q B sh object className signature args (fst out) (snd (call_state out)) b c xs)"
  shows "call_state out' = call_state out"
proof -
  obtain v j err st where o: "out = (v, j, err, st)" by (cases out) auto
  show ?thesis
  proof (cases "compiled B (b_guards b) (b_params b) \<and> signature = qs (b_signature b) \<and> length args = length (b_params b)")
    case False
    then show ?thesis using assms(1) o by (auto simp: run_binding_def split: if_splits)
  next
    case True
    obtain err1 r where r: "convert_args Q B st 0 (b_params b) args err = (err1, r)" by force
    show ?thesis
    proof (cases r)
      case None then show ?thesis using True r assms(1) o by (auto simp: run_binding_def)
    next
      case (Some xs)
      have shape: "list_all2 arg_shape_ok (b_params b) xs" using convert_args_shape r Some by metis
      have run: "run_candidates Q G B sh object className b xs (v, j, err1, st) = (h, out')"
        using True r Some assms(1) o by (simp add: run_binding_def)
      show ?thesis
      proof (rule run_candidates_cases [OF run])
        assume "out' = (v, j, err1, st)" then show ?thesis using o by simp
      next
        fix c assume "c \<in> set (b_candidates b)" "candidate_matches Q B sh object className (world st) v c"
        moreover have "\<exists>e. snd (convert_args Q B st 0 (b_params b) args e) = Some xs" using r Some by (metis snd_conv)
        ultimately have "takes_call Q B sh object className signature args v st b c xs"
          unfolding takes_call_def using True shape by blast
        then show ?thesis using assms(2) o by auto
      qed
    qed
  qed
qed

lemma run_binding_unhandled:
  "run_binding Q G B sh object className signature args b out = (False, out') \<Longrightarrow> call_state out' = call_state out"
  by (cases out)
     (auto simp: run_binding_def run_candidates_def split: if_splits prod.splits option.splits)

lemma try_blocks_untouched:
  assumes "try_shards (map (run_binding Q G B sh object className signature args) bs) out = (h, out')"
    and "call_state out' \<noteq> call_state out"
  shows "\<exists>b\<in>set bs. \<exists>c xs. takes_call Q B sh object className signature args (fst out) (snd (call_state out)) b c xs"
  using assms
proof (induction bs arbitrary: out)
  case (Cons b bs)
  obtain h1 out1 where r: "run_binding Q G B sh object className signature args b out = (h1, out1)" by (metis prod.collapse)
  show ?case
  proof (cases h1)
    case True
    then have "out' = out1" using r Cons.prems(1) by simp
    then show ?thesis using run_binding_untouched [OF r] Cons.prems(2) by auto
  next
    case False
    have same: "call_state out1 = call_state out" using r False by (auto dest: run_binding_unhandled)
    then have "fst out1 = fst out" by (simp add: call_state_def)
    moreover have "try_shards (map (run_binding Q G B sh object className signature args) bs) out1 = (h, out')"
      using r False Cons.prems(1) by simp
    ultimately show ?thesis using Cons.IH [of out1] same Cons.prems(2) by auto
  qed
qed simp

subsection \<open>Converting twice\<close>

text \<open>
  A conversion treats the error it is handed uniformly: it leaves it or sets it to a text that does
  not depend on it. So converting the same arguments again changes nothing.
\<close>

definition err_uniform :: "(qmsg option \<Rightarrow> qmsg option \<times> 'a) \<Rightarrow> bool" where
  "err_uniform f \<longleftrightarrow> (\<exists>r. (\<forall>e. f e = (e, r)) \<or> (\<exists>c. \<forall>e. f e = (c, r)))"

lemma err_uniform_again: "err_uniform f \<Longrightarrow> f e = (e', r) \<Longrightarrow> f e' = (e', r)"
  by (auto simp: err_uniform_def)

lemma err_uniform_const [intro]: "err_uniform (\<lambda>e. (c, r))" "err_uniform (\<lambda>e. (e, r))"
  by (auto simp: err_uniform_def)

lemma err_uniform_if [intro]: "err_uniform f \<Longrightarrow> err_uniform g \<Longrightarrow> err_uniform (\<lambda>e. if P then f e else g e)"
  by (cases P) simp_all

lemma err_uniform_ext: "(\<And>e. f e = g e) \<Longrightarrow> err_uniform g \<Longrightarrow> err_uniform f"
  by (simp add: err_uniform_def)

lemma err_uniform_map [intro]: "err_uniform f \<Longrightarrow> err_uniform (\<lambda>e. case f e of (e', r) \<Rightarrow> (e', h r))"
  unfolding err_uniform_def by fastforce

lemma err_uniform_bind:
  assumes "err_uniform f" "\<And>x. err_uniform (g x)"
  shows "err_uniform (\<lambda>e. case f e of (e1, None) \<Rightarrow> (e1, None)
    | (e1, Some x) \<Rightarrow> (case g x e1 of (e2, None) \<Rightarrow> (e2, None) | (e2, Some y) \<Rightarrow> (e2, Some (h x y))))"
proof -
  obtain r where f: "(\<forall>e. f e = (e, r)) \<or> (\<exists>c. \<forall>e. f e = (c, r))" using assms(1) unfolding err_uniform_def ..
  show ?thesis
  proof (cases r)
    case None then show ?thesis using f by (auto simp: err_uniform_def)
  next
    case (Some x)
    obtain s where g: "(\<forall>e. g x e = (e, s)) \<or> (\<exists>c. \<forall>e. g x e = (c, s))" using assms(2) unfolding err_uniform_def by blast
    show ?thesis using f g Some by (cases s) (auto simp: err_uniform_def)
  qed
qed

lemma err_uniform_from_json [intro]: "err_uniform (from_json Q st v t)"
  by (rule err_uniform_ext, rule from_json_def) (cases "fromJson Q st v t", simp_all add: err_uniform_const)

lemma err_uniform_convert_value [intro]: "err_uniform (convert_value Q B st T v)"
  by (rule err_uniform_ext, rule convert_value_def) (unfold Let_def, intro err_uniform_map err_uniform_from_json)

lemma err_uniform_convert_values [intro]: "err_uniform (convert_values Q B st T vs)"
proof (induction vs)
  case Nil show ?case by (rule err_uniform_ext, rule convert_values.simps) (rule err_uniform_const)
next
  case (Cons v vs)
  show ?case
    by (rule err_uniform_ext, rule convert_values.simps) (rule err_uniform_bind [OF err_uniform_convert_value Cons])
qed

lemma convert_list_map:
  "convert_list Q B st i T v e = (if \<not> isArray v then (Some (arg_error ''argument %1 must be an array'' i), None)
     else case convert_values Q B st T (toArray v) e of (e', r) \<Rightarrow> (e', map_option VList r))"
  by (auto simp: convert_list_def split: prod.splits option.splits)

lemma err_uniform_convert_list [intro]: "err_uniform (convert_list Q B st i T v)"
  by (rule err_uniform_ext, rule convert_list_map)
     (intro err_uniform_if err_uniform_const err_uniform_map err_uniform_convert_values)

lemma err_uniform_convert_arg [intro]: "err_uniform (convert_arg Q B st i p v)"
  by (cases p)
     (erule ssubst, rule err_uniform_ext, rule convert_arg.simps, (simp only: Let_def)?,
      intro err_uniform_if err_uniform_const err_uniform_map err_uniform_from_json err_uniform_convert_value err_uniform_convert_list)+

lemma err_uniform_convert_args: "err_uniform (convert_args Q B st i ps args)"
proof (induction ps arbitrary: i)
  case Nil show ?case by (rule err_uniform_ext, rule convert_args.simps) (rule err_uniform_const)
next
  case (Cons p ps)
  show ?case by (rule err_uniform_ext, rule convert_args.simps) (rule err_uniform_bind [OF err_uniform_convert_arg Cons])
qed

subsection \<open>The blocks of a signature\<close>

text \<open>
  The reference dispatch: of the blocks that are compiled in and answer to the signature, the first
  one's parameters decide whether the arguments are accepted, once; then the first with a candidate
  for the target makes the call.
\<close>

definition answers :: "('w, 'o) build \<Rightarrow> qstring \<Rightarrow> binding \<Rightarrow> bool" where
  "answers B signature b \<longleftrightarrow> compiled B (b_guards b) (b_params b) \<and> signature = qs (b_signature b)"

definition takes_target ::
  "('w, 'o) qt \<Rightarrow> ('w, 'o) build \<Rightarrow> shard \<Rightarrow> ptr \<Rightarrow> qstring \<Rightarrow> 'w \<Rightarrow> 'o qvariant \<Rightarrow> binding \<Rightarrow> bool" where
  "takes_target Q B sh object className w v b \<longleftrightarrow> list_ex (candidate_matches Q B sh object className w v) (b_candidates b)"

definition dispatch_spec ::
  "('w, 'o) qt \<Rightarrow> ('w, 'o) gen \<Rightarrow> ('w, 'o) build \<Rightarrow> shard \<Rightarrow> ptr \<Rightarrow> qstring \<Rightarrow> qstring \<Rightarrow> json list
     \<Rightarrow> ('w, 'o) vcall_out \<Rightarrow> bool \<times> ('w, 'o) vcall_out" where
  "dispatch_spec Q G B sh object className signature args = (\<lambda>(v, j, err, st).
     (let bs = filter (answers B signature) (sh_bindings sh) in
      if bs = [] then (False, (v, j, err, st))
      else if length args \<noteq> length (b_params (hd bs)) then (True, (v, j, Some (arity_error (hd bs)), st))
      else case convert_args Q B st 0 (b_params (hd bs)) args err of
        (err', None) \<Rightarrow> (True, (v, j, err', st))
      | (err', Some xs) \<Rightarrow>
          (case List.find (takes_target Q B sh object className (world st) v) bs of
             None \<Rightarrow> (False, (v, j, err', st))
           | Some b \<Rightarrow> run_candidates Q G B sh object className b xs (v, j, err', st))))"

text \<open>Blocks of one signature convert the same parameters.\<close>

definition same_params :: "binding list \<Rightarrow> bool" where
  "same_params bs \<longleftrightarrow> (\<forall>b\<in>set bs. \<forall>b'\<in>set bs. b_signature b = b_signature b' \<longrightarrow> b_params b = b_params b')"

lemma text_less_trans: "text_less x y \<Longrightarrow> text_less y z \<Longrightarrow> text_less x z"
proof (induction x y arbitrary: z rule: text_less.induct)
  case (1 x xs y ys)
  then show ?case by (cases z) (auto split: if_splits)
qed simp_all

lemma text_less_irrefl: "\<not> text_less x x"
  by (induction x) auto

lemma same_or_less_signature:
  "same_or_less ps n rs m \<Longrightarrow> (n = m \<and> ps = rs) \<or> text_less (n @ ''('' @ parameter_text ps) (m @ ''('' @ parameter_text rs)"
  by (induction ps n rs m rule: same_or_less.induct) (auto simp: same_or_less.simps split: if_splits)

lemma b_signature_text: "b_signature b = b_name b @ ''('' @ parameter_text (b_params b)"
  by (simp add: b_signature_def parameter_text_def)

lemma in_order_later:
  "in_order (a # bs) \<Longrightarrow> b \<in> set bs \<Longrightarrow>
     (b_signature a = b_signature b \<and> b_params a = b_params b) \<or> text_less (b_signature a) (b_signature b)"
proof (induction bs arbitrary: a)
  case (Cons c bs)
  from Cons.prems(1) have ac: "(b_signature a = b_signature c \<and> b_params a = b_params c) \<or> text_less (b_signature a) (b_signature c)"
    using same_or_less_signature [of "b_params a" "b_name a" "b_params c" "b_name c"] by (auto simp: b_signature_text)
  show ?case
  proof (cases "b = c")
    case True then show ?thesis using ac by simp
  next
    case False
    then have "b \<in> set bs" using Cons.prems(2) by simp
    moreover have "in_order (c # bs)" using Cons.prems(1) by simp
    ultimately show ?thesis using Cons.IH ac text_less_trans by metis
  qed
qed simp

text \<open>So blocks in the order of their signatures have the same parameters when they have the same signature.\<close>

lemma in_order_same_params: "in_order bs \<Longrightarrow> same_params bs"
proof (induction bs)
  case (Cons a bs)
  have "in_order bs" using Cons.prems by (cases bs) auto
  then have "same_params bs" by (rule Cons.IH)
  moreover have "b_params a = b_params b" if "b \<in> set bs" "b_signature a = b_signature b" for b
    using in_order_later [OF Cons.prems that(1)] text_less_irrefl that(2) by metis
  ultimately show ?case unfolding same_params_def by (metis set_ConsD)
qed (simp add: same_params_def)

lemma run_binding_other: "\<not> answers B signature b \<Longrightarrow> run_binding Q G B sh object className signature args b out = (False, out)"
  by (cases out) (auto simp: run_binding_def answers_def)

lemma try_blocks_filter:
  "try_shards (map (run_binding Q G B sh object className signature args) bs) out =
   try_shards (map (run_binding Q G B sh object className signature args) (filter (answers B signature) bs)) out"
  by (induction bs arbitrary: out) (simp_all add: run_binding_other split: prod.splits)

lemma takes_target_handled:
  assumes "takes_target Q B sh object className (world st) v b"
  shows "fst (run_candidates Q G B sh object className b xs (v, j, err, st))"
proof -
  have "List.find (candidate_matches Q B sh object className (world st) v) (b_candidates b) \<noteq> None"
    using assms by (auto simp: find_None_iff takes_target_def list_ex_iff)
  then show ?thesis by (auto simp: run_candidates_def split: prod.splits)
qed

lemma takes_target_unhandled:
  assumes "\<not> takes_target Q B sh object className (world st) v b"
  shows "run_candidates Q G B sh object className b xs (v, j, err, st) = (False, (v, j, err, st))"
proof -
  have "List.find (candidate_matches Q B sh object className (world st) v) (b_candidates b) = None"
    using assms by (auto simp: find_None_iff takes_target_def list_ex_iff)
  then show ?thesis by (simp add: run_candidates_def)
qed

lemma try_blocks_of_signature:
  assumes "\<forall>b\<in>set bs. answers B signature b \<and> b_params b = ps" "bs \<noteq> []" "length args = length ps"
    and "convert_args Q B st 0 ps args err = (err', Some xs)"
  shows "try_shards (map (run_binding Q G B sh object className signature args) bs) (v, j, err, st) =
    (case List.find (takes_target Q B sh object className (world st) v) bs of
       None \<Rightarrow> (False, (v, j, err', st))
     | Some b \<Rightarrow> run_candidates Q G B sh object className b xs (v, j, err', st))"
  using assms
proof (induction bs arbitrary: err)
  case (Cons b bs)
  have step: "run_binding Q G B sh object className signature args b (v, j, err, st)
      = run_candidates Q G B sh object className b xs (v, j, err', st)"
    using Cons.prems by (auto simp: run_binding_def answers_def)
  show ?case
  proof (cases "takes_target Q B sh object className (world st) v b")
    case True
    obtain out where "run_candidates Q G B sh object className b xs (v, j, err', st) = (True, out)"
      using takes_target_handled [OF True, of G xs j err'] by (metis prod.collapse)
    then show ?thesis using step True by simp
  next
    case False
    have again: "convert_args Q B st 0 ps args err' = (err', Some xs)"
      using err_uniform_again [OF err_uniform_convert_args Cons.prems(4)] .
    show ?thesis
      using step takes_target_unhandled [OF False, of G xs j err'] Cons.IH [OF _ _ Cons.prems(3) again] Cons.prems(1) False
      by (cases "bs = []") simp_all
  qed
qed simp

lemma dispatch_reference:
  assumes "same_params (sh_bindings sh)"
  shows "run_shard Q G B sh object className signature args out = dispatch_spec Q G B sh object className signature args out"
proof -
  obtain v j err st where out: "out = (v, j, err, st)" by (cases out) auto
  define bs where "bs = filter (answers B signature) (sh_bindings sh)"
  have run: "run_shard Q G B sh object className signature args out =
      try_shards (map (run_binding Q G B sh object className signature args) bs) out"
    unfolding run_shard_def bs_def by (rule try_blocks_filter)
  show ?thesis
  proof (cases bs)
    case Nil then show ?thesis using run out by (simp add: dispatch_spec_def bs_def [symmetric])
  next
    case (Cons b bs')
    have b: "answers B signature b" using Cons bs_def by (metis filter_eq_ConsD)
    have params: "\<forall>c\<in>set bs. answers B signature c \<and> b_params c = b_params b"
    proof
      fix c assume "c \<in> set bs"
      then have c: "answers B signature c" "c \<in> set (sh_bindings sh)" by (auto simp: bs_def)
      moreover have "b \<in> set (sh_bindings sh)" using Cons by (metis bs_def filter_is_subset list.set_intros(1) subsetD)
      moreover have "b_signature c = b_signature b" using b c(1) by (simp add: answers_def)
      ultimately show "answers B signature c \<and> b_params c = b_params b" using assms unfolding same_params_def by blast
    qed
    show ?thesis
    proof (cases "length args = length (b_params b)")
      case False
      then have "run_binding Q G B sh object className signature args b out = (True, (v, j, Some (arity_error b), st))"
        using b out by (simp add: run_binding_def answers_def)
      then show ?thesis using run Cons False out by (simp add: dispatch_spec_def bs_def [symmetric])
    next
      case True
      obtain err' r where r: "convert_args Q B st 0 (b_params b) args err = (err', r)" by force
      show ?thesis
      proof (cases r)
        case None
        then have "run_binding Q G B sh object className signature args b out = (True, (v, j, err', st))"
          using b out True r by (simp add: run_binding_def answers_def)
        then show ?thesis using run Cons True out r None by (simp add: dispatch_spec_def bs_def [symmetric])
      next
        case (Some xs)
        have "bs \<noteq> []" using Cons by simp
        from try_blocks_of_signature [OF params this True r [unfolded Some]]
        show ?thesis using run Cons True out r Some by (simp add: dispatch_spec_def bs_def [symmetric])
      qed
    qed
  qed
qed

subsection \<open>Construction without leaks\<close>

text \<open>
  Documented of C++ and of QObject: \<^verbatim>\<open>new\<close> does not return null, and deleting the object it made
  brings the number of objects back.
\<close>

definition build_ok :: "('w, 'o) qt \<Rightarrow> ('w, 'o) build \<Rightarrow> bool" where
  "build_ok Q B \<longleftrightarrow>
     (\<forall>cpp xs w. fst (new_object B cpp xs w) \<noteq> nullptr
        \<and> object_count Q (delete_object Q (fst (new_object B cpp xs w)) (snd (new_object B cpp xs w))) = object_count Q w)"

lemma build_okD:
  assumes "build_ok Q B" "new_object B cpp xs w = (p, w')"
  shows "p \<noteq> nullptr" "object_count Q (delete_object Q p w') = object_count Q w"
  using assms unfolding build_ok_def by (metis fst_conv, metis fst_conv snd_conv)

lemma adopt_refused: "adopt Q object parent w = (Inl e, w') \<Longrightarrow> w' = w"
  by (auto simp: adopt_def split: if_splits)

lemma adopt_returns: "adopt Q object parent w = (Inr q, w') \<Longrightarrow> q = object"
  by (auto simp: adopt_def split: if_splits)

lemma construct_candidate_no_leak:
  assumes "build_ok Q B" "construct_candidate Q B cpp parent args c st = ((e, nullptr), st')"
  shows "object_count Q (world st') = object_count Q (world st)"
proof (cases "convert_args Q B st 0 (o_params c) args None")
  case (Pair err r)
  show ?thesis
  proof (cases r)
    case None then show ?thesis using Pair assms(2) by (simp add: construct_candidate_def)
  next
    case (Some xs)
    show ?thesis
    proof (cases "parent_argument Q (world st) c parent xs")
      case (Inl m) then show ?thesis using Pair Some assms(2) by (simp add: construct_candidate_def)
    next
      case (Inr xs')
      obtain p w where m: "makeQObject B cpp c xs' (world st) = (p, w)" by force
      obtain a w' where a: "adopt Q p parent w = (a, w')" by force
      show ?thesis
      proof (cases "p = nullptr")
        case True
        then have "w = world st"
          using m build_okD(1) [OF assms(1), of cpp xs' "world st" p w] by (auto simp: makeQObject_def split: if_splits)
        then show ?thesis using Pair Some Inr m True assms(2) by (auto simp: construct_candidate_def)
      next
        case False
        then have n: "new_object B cpp xs' (world st) = (p, w)" using m by (auto simp: makeQObject_def split: if_splits)
        obtain e' where a': "a = Inl e'"
          using Pair Some Inr m False a assms(2) adopt_returns [of Q p parent w _ w']
          by (cases a) (auto simp: construct_candidate_def)
        then have "w' = w" using a adopt_refused by metis
        then show ?thesis
          using Pair Some Inr m False a a' assms(2) build_okD(2) [OF assms(1) n] by (auto simp: construct_candidate_def)
      qed
    qed
  qed
qed

lemma try_overloads_no_leak:
  assumes "build_ok Q B" "try_overloads Q B sh cpp parent args cs lastError st = ((e, nullptr), st')"
  shows "object_count Q (world st') = object_count Q (world st)"
  using assms(2)
proof (induction cs arbitrary: lastError st)
  case (Cons c cs)
  show ?case
  proof (cases "overload_compiled B ''CONSTRUCTORS'' sh cpp c")
    case False then show ?thesis using Cons.prems Cons.IH by auto
  next
    case True
    obtain err p st1 where r: "construct_candidate Q B cpp parent args c st = ((err, p), st1)" by (metis prod.collapse)
    have "p = nullptr" using True r Cons.prems by (auto split: if_splits)
    moreover then have "object_count Q (world st1) = object_count Q (world st)"
      using construct_candidate_no_leak assms(1) r by blast
    ultimately show ?thesis using True r Cons.prems Cons.IH by auto
  qed
qed simp

definition block_keeps_count :: "('w, 'o) qt \<Rightarrow> (('w, 'o) ctor_out \<Rightarrow> bool \<times> ('w, 'o) ctor_out) \<Rightarrow> bool" where
  "block_keeps_count Q f \<longleftrightarrow>
     (\<forall>e st h p e' st'. f (nullptr, e, st) = (h, p, e', st') \<longrightarrow> p = nullptr \<longrightarrow> object_count Q (world st') = object_count Q (world st))
     \<and> (\<forall>e st p e' st'. f (nullptr, e, st) = (False, p, e', st') \<longrightarrow> p = nullptr)"

lemma run_ctor_block_no_leak:
  "build_ok Q B \<Longrightarrow> block_keeps_count Q (run_ctor_block Q B sh m n parent args b)"
  by (auto simp: block_keeps_count_def run_ctor_block_def split: if_splits prod.splits dest: try_overloads_no_leak)

lemma try_blocks_no_leak:
  assumes "\<forall>f\<in>set fs. block_keeps_count Q f" "try_shards fs (nullptr, e, st) = (h, nullptr, e', st')"
  shows "object_count Q (world st') = object_count Q (world st)"
  using assms
proof (induction fs arbitrary: e st)
  case (Cons f fs)
  obtain h1 p1 e1 st1 where r: "f (nullptr, e, st) = (h1, p1, e1, st1)" by (metis prod.collapse)
  have keep: "block_keeps_count Q f" using Cons.prems(1) by simp
  show ?case
  proof (cases h1)
    case True
    then show ?thesis using r keep Cons.prems(2) unfolding block_keeps_count_def by fastforce
  next
    case False
    then have f: "f (nullptr, e, st) = (False, p1, e1, st1)" using r by simp
    then have p: "p1 = nullptr" using keep unfolding block_keeps_count_def by blast
    then have "object_count Q (world st1) = object_count Q (world st)" using f keep unfolding block_keeps_count_def by blast
    moreover have "try_shards fs (nullptr, e1, st1) = (h, nullptr, e', st')" using r False p Cons.prems(2) by simp
    ultimately show ?thesis using Cons.IH [of e1 st1] Cons.prems(1) by simp
  qed
qed simp

lemma run_ctor_shard_no_leak:
  assumes "build_ok Q B" "run_ctor_shard Q B sh m n parent args (nullptr, e, st) = (h, nullptr, e', st')"
  shows "object_count Q (world st') = object_count Q (world st)"
  using assms run_ctor_block_no_leak [OF assms(1)]
  unfolding run_ctor_shard_def by (intro try_blocks_no_leak [of _ Q e st h e' st']) auto

lemma try_blocks_world:
  assumes "\<forall>f\<in>set fs. \<forall>y. world_step (snd (snd y)) (snd (snd (snd (f y))))"
  shows "world_step (snd (snd y)) (snd (snd (snd (try_shards fs y))))"
  using assms
proof (induction fs arbitrary: y)
  case (Cons f fs)
  obtain h z where f: "f y = (h, z)" by (metis prod.collapse)
  have "world_step (snd (snd y)) (snd (snd z))" using Cons.prems f by (metis list.set_intros(1) snd_conv)
  moreover have "world_step (snd (snd z)) (snd (snd (snd (try_shards fs z))))" using Cons by simp
  ultimately show ?case using f by (auto intro: world_step_trans)
qed simp

lemma run_ctor_shard_world:
  assumes "run_ctor_shard Q B sh m n parent args (p, e, st) = (h, p', e', st')"
  shows "world_step st st'"
proof -
  have "\<forall>f\<in>set (map (run_ctor_block Q B sh m n parent args) (cs_blocks sh)). \<forall>y. world_step (snd (snd y)) (snd (snd (snd (f y))))"
    by clarsimp (metis prod.collapse run_ctor_block_world)
  from try_blocks_world [OF this, of "(p, e, st)"] show ?thesis using assms by (simp add: run_ctor_shard_def)
qed

end
