(* ===== verification/Qt_Names.thy ===== *)
theory Qt_Names
  imports Shard_Arguments
begin

text \<open>
  Names that recur in the tables: C++ types (\<open>QObject_ptr\<close> is \<^verbatim>\<open>QObject*\<close>, \<open>Qt_Orientation\<close> is
  \<^verbatim>\<open>Qt::Orientation\<close>) and build macros (\<open>TypeM QTGUI_QWINDOW\<close> is \<^verbatim>\<open>KRY_QT6_NATIVE_TYPE_QTGUI_QWINDOW\<close>).
\<close>

definition Q3DGraphsWidgetItem :: string where "Q3DGraphsWidgetItem = ''Q3DGraphsWidgetItem''"
definition Q3DScene :: string where "Q3DScene = ''Q3DScene''"
definition Q3DTheme :: string where "Q3DTheme = ''Q3DTheme''"
definition QAbstract3DAxis :: string where "QAbstract3DAxis = ''QAbstract3DAxis''"
definition QAbstract3DGraph :: string where "QAbstract3DGraph = ''QAbstract3DGraph''"
definition QAbstract3DSeries :: string where "QAbstract3DSeries = ''QAbstract3DSeries''"
definition QAbstractAnimation :: string where "QAbstractAnimation = ''QAbstractAnimation''"
definition QAbstractAxis :: string where "QAbstractAxis = ''QAbstractAxis''"
definition QAbstractBarSeries :: string where "QAbstractBarSeries = ''QAbstractBarSeries''"
definition QAbstractButton :: string where "QAbstractButton = ''QAbstractButton''"
definition QAbstractItemModel :: string where "QAbstractItemModel = ''QAbstractItemModel''"
definition QAbstractItemModel_ptr :: string where "QAbstractItemModel_ptr = ''QAbstractItemModel*''"
definition QAbstractItemModelReplica :: string where "QAbstractItemModelReplica = ''QAbstractItemModelReplica''"
definition QAbstractItemView :: string where "QAbstractItemView = ''QAbstractItemView''"
definition QAbstractOAuth2 :: string where "QAbstractOAuth2 = ''QAbstractOAuth2''"
definition QAbstractProxyModel :: string where "QAbstractProxyModel = ''QAbstractProxyModel''"
definition QAbstractScrollArea :: string where "QAbstractScrollArea = ''QAbstractScrollArea''"
definition QAbstractSeries :: string where "QAbstractSeries = ''QAbstractSeries''"
definition QAbstractSlider :: string where "QAbstractSlider = ''QAbstractSlider''"
definition QAbstractSocket :: string where "QAbstractSocket = ''QAbstractSocket''"
definition QAbstractSpinBox :: string where "QAbstractSpinBox = ''QAbstractSpinBox''"
definition QAbstractTextDocumentLayout :: string where "QAbstractTextDocumentLayout = ''QAbstractTextDocumentLayout''"
definition QAction :: string where "QAction = ''QAction''"
definition QApplication :: string where "QApplication = ''QApplication''"
definition QAreaSeries :: string where "QAreaSeries = ''QAreaSeries''"
definition QAudioBuffer :: string where "QAudioBuffer = ''QAudioBuffer''"
definition QAudioDecoder :: string where "QAudioDecoder = ''QAudioDecoder''"
definition QAudioDevice :: string where "QAudioDevice = ''QAudioDevice''"
definition QAudioEngine :: string where "QAudioEngine = ''QAudioEngine''"
definition QAudioFormat :: string where "QAudioFormat = ''QAudioFormat''"
definition QAudioSource :: string where "QAudioSource = ''QAudioSource''"
definition QAuthenticator :: string where "QAuthenticator = ''QAuthenticator''"
definition QBar3DSeries :: string where "QBar3DSeries = ''QBar3DSeries''"
definition QBarCategoryAxis :: string where "QBarCategoryAxis = ''QBarCategoryAxis''"
definition QBarModelMapper :: string where "QBarModelMapper = ''QBarModelMapper''"
definition QBarSeries :: string where "QBarSeries = ''QBarSeries''"
definition QBarSet :: string where "QBarSet = ''QBarSet''"
definition QBitArray :: string where "QBitArray = ''QBitArray''"
definition QBluetoothAddress :: string where "QBluetoothAddress = ''QBluetoothAddress''"
definition QBluetoothDeviceDiscoveryAgent :: string where "QBluetoothDeviceDiscoveryAgent = ''QBluetoothDeviceDiscoveryAgent''"
definition QBluetoothDeviceInfo :: string where "QBluetoothDeviceInfo = ''QBluetoothDeviceInfo''"
definition QBluetoothLocalDevice :: string where "QBluetoothLocalDevice = ''QBluetoothLocalDevice''"
definition QBluetoothServiceDiscoveryAgent :: string where "QBluetoothServiceDiscoveryAgent = ''QBluetoothServiceDiscoveryAgent''"
definition QBluetoothServiceInfo :: string where "QBluetoothServiceInfo = ''QBluetoothServiceInfo''"
definition QBluetoothSocket :: string where "QBluetoothSocket = ''QBluetoothSocket''"
definition QBluetoothUuid :: string where "QBluetoothUuid = ''QBluetoothUuid''"
definition QBoxLayout :: string where "QBoxLayout = ''QBoxLayout''"
definition QBoxPlotSeries :: string where "QBoxPlotSeries = ''QBoxPlotSeries''"
definition QBrush :: string where "QBrush = ''QBrush''"
definition QByteArray :: string where "QByteArray = ''QByteArray''"
definition QCalendar :: string where "QCalendar = ''QCalendar''"
definition QCalendarWidget :: string where "QCalendarWidget = ''QCalendarWidget''"
definition QCamera :: string where "QCamera = ''QCamera''"
definition QCameraDevice :: string where "QCameraDevice = ''QCameraDevice''"
definition QCandlestickSeries :: string where "QCandlestickSeries = ''QCandlestickSeries''"
definition QCandlestickSet :: string where "QCandlestickSet = ''QCandlestickSet''"
definition QCapturableWindow :: string where "QCapturableWindow = ''QCapturableWindow''"
definition QCborStreamReader :: string where "QCborStreamReader = ''QCborStreamReader''"
definition QCborStreamWriter :: string where "QCborStreamWriter = ''QCborStreamWriter''"
definition QChart :: string where "QChart = ''QChart''"
definition QColor :: string where "QColor = ''QColor''"
definition QColorSpace :: string where "QColorSpace = ''QColorSpace''"
definition QColorSpace_TransferFunction :: string where "QColorSpace_TransferFunction = ''QColorSpace::TransferFunction''"
definition QComboBox :: string where "QComboBox = ''QComboBox''"
definition QCommandLineOption :: string where "QCommandLineOption = ''QCommandLineOption''"
definition QCommandLineParser :: string where "QCommandLineParser = ''QCommandLineParser''"
definition QCompleter :: string where "QCompleter = ''QCompleter''"
definition QCompressedHelpInfo :: string where "QCompressedHelpInfo = ''QCompressedHelpInfo''"
definition QConcatenateTablesProxyModel :: string where "QConcatenateTablesProxyModel = ''QConcatenateTablesProxyModel''"
definition QCoreApplication :: string where "QCoreApplication = ''QCoreApplication''"
definition QCursor :: string where "QCursor = ''QCursor''"
definition QCustom3DItem :: string where "QCustom3DItem = ''QCustom3DItem''"
definition QCustom3DLabel :: string where "QCustom3DLabel = ''QCustom3DLabel''"
definition QCustom3DVolume :: string where "QCustom3DVolume = ''QCustom3DVolume''"
definition QDBusAbstractInterface :: string where "QDBusAbstractInterface = ''QDBusAbstractInterface''"
definition QDBusArgument :: string where "QDBusArgument = ''QDBusArgument''"
definition QDBusConnection :: string where "QDBusConnection = ''QDBusConnection''"
definition QDBusMessage :: string where "QDBusMessage = ''QDBusMessage''"
definition QDBusPendingCall :: string where "QDBusPendingCall = ''QDBusPendingCall''"
definition QDBusUnixFileDescriptor :: string where "QDBusUnixFileDescriptor = ''QDBusUnixFileDescriptor''"
definition QDataStream :: string where "QDataStream = ''QDataStream''"
definition QDataWidgetMapper :: string where "QDataWidgetMapper = ''QDataWidgetMapper''"
definition QDate :: string where "QDate = ''QDate''"
definition QDateTime :: string where "QDateTime = ''QDateTime''"
definition QDateTimeAxis :: string where "QDateTimeAxis = ''QDateTimeAxis''"
definition QDateTimeEdit :: string where "QDateTimeEdit = ''QDateTimeEdit''"
definition QDeadlineTimer :: string where "QDeadlineTimer = ''QDeadlineTimer''"
definition QDesignerFormEditorInterface :: string where "QDesignerFormEditorInterface = ''QDesignerFormEditorInterface''"
definition QDialogButtonBox :: string where "QDialogButtonBox = ''QDialogButtonBox''"
definition QDir :: string where "QDir = ''QDir''"
definition QDnsDomainNameRecord :: string where "QDnsDomainNameRecord = ''QDnsDomainNameRecord''"
definition QDnsHostAddressRecord :: string where "QDnsHostAddressRecord = ''QDnsHostAddressRecord''"
definition QDnsLookup :: string where "QDnsLookup = ''QDnsLookup''"
definition QDnsMailExchangeRecord :: string where "QDnsMailExchangeRecord = ''QDnsMailExchangeRecord''"
definition QDnsTlsAssociationRecord :: string where "QDnsTlsAssociationRecord = ''QDnsTlsAssociationRecord''"
definition QDomDocument :: string where "QDomDocument = ''QDomDocument''"
definition QDomDocumentType :: string where "QDomDocumentType = ''QDomDocumentType''"
definition QDomElement :: string where "QDomElement = ''QDomElement''"
definition QDomImplementation :: string where "QDomImplementation = ''QDomImplementation''"
definition QDomNamedNodeMap :: string where "QDomNamedNodeMap = ''QDomNamedNodeMap''"
definition QDomNode :: string where "QDomNode = ''QDomNode''"
definition QDomProcessingInstruction :: string where "QDomProcessingInstruction = ''QDomProcessingInstruction''"
definition QDoubleSpinBox :: string where "QDoubleSpinBox = ''QDoubleSpinBox''"
definition QEasingCurve :: string where "QEasingCurve = ''QEasingCurve''"
definition QElapsedTimer :: string where "QElapsedTimer = ''QElapsedTimer''"
definition QEvent_Type :: string where "QEvent_Type = ''QEvent::Type''"
definition QEventPoint :: string where "QEventPoint = ''QEventPoint''"
definition QFileDialog :: string where "QFileDialog = ''QFileDialog''"
definition QFileInfo :: string where "QFileInfo = ''QFileInfo''"
definition QFileSystemModel :: string where "QFileSystemModel = ''QFileSystemModel''"
definition QFont :: string where "QFont = ''QFont''"
definition QFontDatabase :: string where "QFontDatabase = ''QFontDatabase''"
definition QFontDatabase_WritingSystem :: string where "QFontDatabase_WritingSystem = ''QFontDatabase::WritingSystem''"
definition QFontMetrics :: string where "QFontMetrics = ''QFontMetrics''"
definition QFontMetricsF :: string where "QFontMetricsF = ''QFontMetricsF''"
definition QFontVariableAxis :: string where "QFontVariableAxis = ''QFontVariableAxis''"
definition QFormLayout :: string where "QFormLayout = ''QFormLayout''"
definition QGeoAddress :: string where "QGeoAddress = ''QGeoAddress''"
definition QGeoAreaMonitorInfo :: string where "QGeoAreaMonitorInfo = ''QGeoAreaMonitorInfo''"
definition QGeoCoordinate :: string where "QGeoCoordinate = ''QGeoCoordinate''"
definition QGeoPolygon :: string where "QGeoPolygon = ''QGeoPolygon''"
definition QGeoPositionInfo :: string where "QGeoPositionInfo = ''QGeoPositionInfo''"
definition QGeoRectangle :: string where "QGeoRectangle = ''QGeoRectangle''"
definition QGeoSatelliteInfo :: string where "QGeoSatelliteInfo = ''QGeoSatelliteInfo''"
definition QGeoSatelliteInfoSource :: string where "QGeoSatelliteInfoSource = ''QGeoSatelliteInfoSource''"
definition QGeoShape :: string where "QGeoShape = ''QGeoShape''"
definition QGestureEvent :: string where "QGestureEvent = ''QGestureEvent''"
definition QGlyphRun :: string where "QGlyphRun = ''QGlyphRun''"
definition QGraphicsAnchorLayout :: string where "QGraphicsAnchorLayout = ''QGraphicsAnchorLayout''"
definition QGraphicsDropShadowEffect :: string where "QGraphicsDropShadowEffect = ''QGraphicsDropShadowEffect''"
definition QGraphicsEllipseItem :: string where "QGraphicsEllipseItem = ''QGraphicsEllipseItem''"
definition QGraphicsGridLayout :: string where "QGraphicsGridLayout = ''QGraphicsGridLayout''"
definition QGraphicsItem :: string where "QGraphicsItem = ''QGraphicsItem''"
definition QGraphicsLayoutItem :: string where "QGraphicsLayoutItem = ''QGraphicsLayoutItem''"
definition QGraphicsLinearLayout :: string where "QGraphicsLinearLayout = ''QGraphicsLinearLayout''"
definition QGraphicsPixmapItem :: string where "QGraphicsPixmapItem = ''QGraphicsPixmapItem''"
definition QGraphicsScene :: string where "QGraphicsScene = ''QGraphicsScene''"
definition QGraphicsSceneDragDropEvent :: string where "QGraphicsSceneDragDropEvent = ''QGraphicsSceneDragDropEvent''"
definition QGraphicsSceneMouseEvent :: string where "QGraphicsSceneMouseEvent = ''QGraphicsSceneMouseEvent''"
definition QGraphicsSceneWheelEvent :: string where "QGraphicsSceneWheelEvent = ''QGraphicsSceneWheelEvent''"
definition QGraphicsSimpleTextItem :: string where "QGraphicsSimpleTextItem = ''QGraphicsSimpleTextItem''"
definition QGraphicsTextItem :: string where "QGraphicsTextItem = ''QGraphicsTextItem''"
definition QGraphicsView :: string where "QGraphicsView = ''QGraphicsView''"
definition QGraphicsWidget :: string where "QGraphicsWidget = ''QGraphicsWidget''"
definition QGraphsLine :: string where "QGraphsLine = ''QGraphsLine''"
definition QGraphsTheme :: string where "QGraphsTheme = ''QGraphsTheme''"
definition QGridLayout :: string where "QGridLayout = ''QGridLayout''"
definition QGuiApplication :: string where "QGuiApplication = ''QGuiApplication''"
definition QHBoxPlotModelMapper :: string where "QHBoxPlotModelMapper = ''QHBoxPlotModelMapper''"
definition QHCandlestickModelMapper :: string where "QHCandlestickModelMapper = ''QHCandlestickModelMapper''"
definition QHeaderView :: string where "QHeaderView = ''QHeaderView''"
definition QHeightMapSurfaceDataProxy :: string where "QHeightMapSurfaceDataProxy = ''QHeightMapSurfaceDataProxy''"
definition QHelpEngineCore :: string where "QHelpEngineCore = ''QHelpEngineCore''"
definition QHostAddress :: string where "QHostAddress = ''QHostAddress''"
definition QHttp1Configuration :: string where "QHttp1Configuration = ''QHttp1Configuration''"
definition QHttp2Configuration :: string where "QHttp2Configuration = ''QHttp2Configuration''"
definition QHttpHeaders :: string where "QHttpHeaders = ''QHttpHeaders''"
definition QIODevice :: string where "QIODevice = ''QIODevice''"
definition QIODevice_ptr :: string where "QIODevice_ptr = ''QIODevice*''"
definition QIcon :: string where "QIcon = ''QIcon''"
definition QIdentityProxyModel :: string where "QIdentityProxyModel = ''QIdentityProxyModel''"
definition QImage :: string where "QImage = ''QImage''"
definition QImageCapture :: string where "QImageCapture = ''QImageCapture''"
definition QImageIOHandler :: string where "QImageIOHandler = ''QImageIOHandler''"
definition QImageReader :: string where "QImageReader = ''QImageReader''"
definition QImageWriter :: string where "QImageWriter = ''QImageWriter''"
definition QInputDialog :: string where "QInputDialog = ''QInputDialog''"
definition QInputMethod :: string where "QInputMethod = ''QInputMethod''"
definition QItemModelBarDataProxy :: string where "QItemModelBarDataProxy = ''QItemModelBarDataProxy''"
definition QItemModelScatterDataProxy :: string where "QItemModelScatterDataProxy = ''QItemModelScatterDataProxy''"
definition QItemModelSurfaceDataProxy :: string where "QItemModelSurfaceDataProxy = ''QItemModelSurfaceDataProxy''"
definition QItemSelection :: string where "QItemSelection = ''QItemSelection''"
definition QItemSelectionModel :: string where "QItemSelectionModel = ''QItemSelectionModel''"
definition QItemSelectionRange :: string where "QItemSelectionRange = ''QItemSelectionRange''"
definition QJSManagedValue :: string where "QJSManagedValue = ''QJSManagedValue''"
definition QJSPrimitiveValue :: string where "QJSPrimitiveValue = ''QJSPrimitiveValue''"
definition QJSValue :: string where "QJSValue = ''QJSValue''"
definition QJsonDocument :: string where "QJsonDocument = ''QJsonDocument''"
definition QJsonValue :: string where "QJsonValue = ''QJsonValue''"
definition QKeyCombination :: string where "QKeyCombination = ''QKeyCombination''"
definition QKeySequence :: string where "QKeySequence = ''QKeySequence''"
definition QLCDNumber :: string where "QLCDNumber = ''QLCDNumber''"
definition QLayout :: string where "QLayout = ''QLayout''"
definition QLineEdit :: string where "QLineEdit = ''QLineEdit''"
definition QLineF :: string where "QLineF = ''QLineF''"
definition QLinearGradient :: string where "QLinearGradient = ''QLinearGradient''"
definition QListView :: string where "QListView = ''QListView''"
definition QListWidgetItem :: string where "QListWidgetItem = ''QListWidgetItem''"
definition QLocalSocket :: string where "QLocalSocket = ''QLocalSocket''"
definition QLocale :: string where "QLocale = ''QLocale''"
definition QLocale_FormatType :: string where "QLocale_FormatType = ''QLocale::FormatType''"
definition QLogValue3DAxisFormatter :: string where "QLogValue3DAxisFormatter = ''QLogValue3DAxisFormatter''"
definition QLowEnergyAdvertisingData :: string where "QLowEnergyAdvertisingData = ''QLowEnergyAdvertisingData''"
definition QLowEnergyAdvertisingParameters :: string where "QLowEnergyAdvertisingParameters = ''QLowEnergyAdvertisingParameters''"
definition QLowEnergyCharacteristic :: string where "QLowEnergyCharacteristic = ''QLowEnergyCharacteristic''"
definition QLowEnergyCharacteristicData :: string where "QLowEnergyCharacteristicData = ''QLowEnergyCharacteristicData''"
definition QLowEnergyConnectionParameters :: string where "QLowEnergyConnectionParameters = ''QLowEnergyConnectionParameters''"
definition QLowEnergyController :: string where "QLowEnergyController = ''QLowEnergyController''"
definition QLowEnergyDescriptor :: string where "QLowEnergyDescriptor = ''QLowEnergyDescriptor''"
definition QLowEnergyDescriptorData :: string where "QLowEnergyDescriptorData = ''QLowEnergyDescriptorData''"
definition QLowEnergyService :: string where "QLowEnergyService = ''QLowEnergyService''"
definition QLowEnergyServiceData :: string where "QLowEnergyServiceData = ''QLowEnergyServiceData''"
definition QMainWindow :: string where "QMainWindow = ''QMainWindow''"
definition QMargins :: string where "QMargins = ''QMargins''"
definition QMarginsF :: string where "QMarginsF = ''QMarginsF''"
definition QMatrix4x4 :: string where "QMatrix4x4 = ''QMatrix4x4''"
definition QMdiArea :: string where "QMdiArea = ''QMdiArea''"
definition QMediaCaptureSession :: string where "QMediaCaptureSession = ''QMediaCaptureSession''"
definition QMediaFormat :: string where "QMediaFormat = ''QMediaFormat''"
definition QMediaPlayer :: string where "QMediaPlayer = ''QMediaPlayer''"
definition QMediaRecorder :: string where "QMediaRecorder = ''QMediaRecorder''"
definition QMediaTimeRange :: string where "QMediaTimeRange = ''QMediaTimeRange''"
definition QMessageBox :: string where "QMessageBox = ''QMessageBox''"
definition QMessageBox_StandardButton :: string where "QMessageBox_StandardButton = ''QMessageBox::StandardButton''"
definition QMetaMethod :: string where "QMetaMethod = ''QMetaMethod''"
definition QMetaProperty :: string where "QMetaProperty = ''QMetaProperty''"
definition QMetaType :: string where "QMetaType = ''QMetaType''"
definition QMimeType :: string where "QMimeType = ''QMimeType''"
definition QModelIndex :: string where "QModelIndex = ''QModelIndex''"
definition QNativeIpcKey :: string where "QNativeIpcKey = ''QNativeIpcKey''"
definition QNdefNfcSmartPosterRecord :: string where "QNdefNfcSmartPosterRecord = ''QNdefNfcSmartPosterRecord''"
definition QNdefNfcTextRecord :: string where "QNdefNfcTextRecord = ''QNdefNfcTextRecord''"
definition QNdefRecord :: string where "QNdefRecord = ''QNdefRecord''"
definition QNetworkAccessManager :: string where "QNetworkAccessManager = ''QNetworkAccessManager''"
definition QNetworkAddressEntry :: string where "QNetworkAddressEntry = ''QNetworkAddressEntry''"
definition QNetworkCacheMetaData :: string where "QNetworkCacheMetaData = ''QNetworkCacheMetaData''"
definition QNetworkCookie :: string where "QNetworkCookie = ''QNetworkCookie''"
definition QNetworkDatagram :: string where "QNetworkDatagram = ''QNetworkDatagram''"
definition QNetworkDiskCache :: string where "QNetworkDiskCache = ''QNetworkDiskCache''"
definition QNetworkInterface :: string where "QNetworkInterface = ''QNetworkInterface''"
definition QNetworkProxy :: string where "QNetworkProxy = ''QNetworkProxy''"
definition QNetworkProxyQuery :: string where "QNetworkProxyQuery = ''QNetworkProxyQuery''"
definition QNetworkReply :: string where "QNetworkReply = ''QNetworkReply''"
definition QNetworkRequest :: string where "QNetworkRequest = ''QNetworkRequest''"
definition QNetworkRequestFactory :: string where "QNetworkRequestFactory = ''QNetworkRequestFactory''"
definition QNmeaPositionInfoSource :: string where "QNmeaPositionInfoSource = ''QNmeaPositionInfoSource''"
definition QNmeaSatelliteInfoSource :: string where "QNmeaSatelliteInfoSource = ''QNmeaSatelliteInfoSource''"
definition QOAuth1Signature :: string where "QOAuth1Signature = ''QOAuth1Signature''"
definition QOAuth2AuthorizationCodeFlow :: string where "QOAuth2AuthorizationCodeFlow = ''QOAuth2AuthorizationCodeFlow''"
definition QOAuthHttpServerReplyHandler :: string where "QOAuthHttpServerReplyHandler = ''QOAuthHttpServerReplyHandler''"
definition QObject :: string where "QObject = ''QObject''"
definition QObject_ptr :: string where "QObject_ptr = ''QObject*''"
definition QOpenGLBuffer :: string where "QOpenGLBuffer = ''QOpenGLBuffer''"
definition QOpenGLContext :: string where "QOpenGLContext = ''QOpenGLContext''"
definition QOpenGLDebugLogger :: string where "QOpenGLDebugLogger = ''QOpenGLDebugLogger''"
definition QOpenGLDebugMessage :: string where "QOpenGLDebugMessage = ''QOpenGLDebugMessage''"
definition QOpenGLFramebufferObject :: string where "QOpenGLFramebufferObject = ''QOpenGLFramebufferObject''"
definition QOpenGLFramebufferObjectFormat :: string where "QOpenGLFramebufferObjectFormat = ''QOpenGLFramebufferObjectFormat''"
definition QOpenGLPaintDevice :: string where "QOpenGLPaintDevice = ''QOpenGLPaintDevice''"
definition QOpenGLPixelTransferOptions :: string where "QOpenGLPixelTransferOptions = ''QOpenGLPixelTransferOptions''"
definition QOpenGLShaderProgram :: string where "QOpenGLShaderProgram = ''QOpenGLShaderProgram''"
definition QOpenGLTexture :: string where "QOpenGLTexture = ''QOpenGLTexture''"
definition QOpenGLTextureBlitter :: string where "QOpenGLTextureBlitter = ''QOpenGLTextureBlitter''"
definition QOpenGLVersionProfile :: string where "QOpenGLVersionProfile = ''QOpenGLVersionProfile''"
definition QOperatingSystemVersion :: string where "QOperatingSystemVersion = ''QOperatingSystemVersion''"
definition QPageLayout :: string where "QPageLayout = ''QPageLayout''"
definition QPageRanges :: string where "QPageRanges = ''QPageRanges''"
definition QPageSize :: string where "QPageSize = ''QPageSize''"
definition QPageSize_PageSizeId :: string where "QPageSize_PageSizeId = ''QPageSize::PageSizeId''"
definition QPaintEngineState :: string where "QPaintEngineState = ''QPaintEngineState''"
definition QPainter :: string where "QPainter = ''QPainter''"
definition QPainterPath :: string where "QPainterPath = ''QPainterPath''"
definition QPainterPathStroker :: string where "QPainterPathStroker = ''QPainterPathStroker''"
definition QPalette :: string where "QPalette = ''QPalette''"
definition QPalette_ColorRole :: string where "QPalette_ColorRole = ''QPalette::ColorRole''"
definition QPdfDocumentRenderOptions :: string where "QPdfDocumentRenderOptions = ''QPdfDocumentRenderOptions''"
definition QPdfOutputIntent :: string where "QPdfOutputIntent = ''QPdfOutputIntent''"
definition QPdfSelection :: string where "QPdfSelection = ''QPdfSelection''"
definition QPen :: string where "QPen = ''QPen''"
definition QPersistentModelIndex :: string where "QPersistentModelIndex = ''QPersistentModelIndex''"
definition QPieModelMapper :: string where "QPieModelMapper = ''QPieModelMapper''"
definition QPieSeries :: string where "QPieSeries = ''QPieSeries''"
definition QPieSlice :: string where "QPieSlice = ''QPieSlice''"
definition QPinchGesture :: string where "QPinchGesture = ''QPinchGesture''"
definition QPixmap :: string where "QPixmap = ''QPixmap''"
definition QPlainTextDocumentLayout :: string where "QPlainTextDocumentLayout = ''QPlainTextDocumentLayout''"
definition QPlainTextEdit :: string where "QPlainTextEdit = ''QPlainTextEdit''"
definition QPlaybackOptions :: string where "QPlaybackOptions = ''QPlaybackOptions''"
definition QPoint :: string where "QPoint = ''QPoint''"
definition QPointF :: string where "QPointF = ''QPointF''"
definition QPointingDeviceUniqueId :: string where "QPointingDeviceUniqueId = ''QPointingDeviceUniqueId''"
definition QPolygon :: string where "QPolygon = ''QPolygon''"
definition QPolygonF :: string where "QPolygonF = ''QPolygonF''"
definition QPrintPreviewWidget :: string where "QPrintPreviewWidget = ''QPrintPreviewWidget''"
definition QPrinter :: string where "QPrinter = ''QPrinter''"
definition QPrinterInfo :: string where "QPrinterInfo = ''QPrinterInfo''"
definition QProcess :: string where "QProcess = ''QProcess''"
definition QProcessEnvironment :: string where "QProcessEnvironment = ''QProcessEnvironment''"
definition QProgressBar :: string where "QProgressBar = ''QProgressBar''"
definition QProgressDialog :: string where "QProgressDialog = ''QProgressDialog''"
definition QQmlComponent :: string where "QQmlComponent = ''QQmlComponent''"
definition QQmlEngine :: string where "QQmlEngine = ''QQmlEngine''"
definition QQmlError :: string where "QQmlError = ''QQmlError''"
definition QQmlExpression :: string where "QQmlExpression = ''QQmlExpression''"
definition QQmlListReference :: string where "QQmlListReference = ''QQmlListReference''"
definition QQmlProperty :: string where "QQmlProperty = ''QQmlProperty''"
definition QQuaternion :: string where "QQuaternion = ''QQuaternion''"
definition QQuick3DGeometry :: string where "QQuick3DGeometry = ''QQuick3DGeometry''"
definition QQuickGraphicsConfiguration :: string where "QQuickGraphicsConfiguration = ''QQuickGraphicsConfiguration''"
definition QQuickGraphicsDevice :: string where "QQuickGraphicsDevice = ''QQuickGraphicsDevice''"
definition QQuickItem :: string where "QQuickItem = ''QQuickItem''"
definition QQuickPaintedItem :: string where "QQuickPaintedItem = ''QQuickPaintedItem''"
definition QQuickRenderControl :: string where "QQuickRenderControl = ''QQuickRenderControl''"
definition QQuickRenderTarget :: string where "QQuickRenderTarget = ''QQuickRenderTarget''"
definition QQuickWebEngineProfile :: string where "QQuickWebEngineProfile = ''QQuickWebEngineProfile''"
definition QQuickWindow :: string where "QQuickWindow = ''QQuickWindow''"
definition QRadialGradient :: string where "QRadialGradient = ''QRadialGradient''"
definition QRawFont :: string where "QRawFont = ''QRawFont''"
definition QRect :: string where "QRect = ''QRect''"
definition QRectF :: string where "QRectF = ''QRectF''"
definition QRegion :: string where "QRegion = ''QRegion''"
definition QRegularExpression :: string where "QRegularExpression = ''QRegularExpression''"
definition QRegularExpressionMatch :: string where "QRegularExpressionMatch = ''QRegularExpressionMatch''"
definition QRegularExpressionMatchIterator :: string where "QRegularExpressionMatchIterator = ''QRegularExpressionMatchIterator''"
definition QRemoteObjectNode :: string where "QRemoteObjectNode = ''QRemoteObjectNode''"
definition QRestAccessManager :: string where "QRestAccessManager = ''QRestAccessManager''"
definition QSGGeometry :: string where "QSGGeometry = ''QSGGeometry''"
definition QSGOpaqueTextureMaterial :: string where "QSGOpaqueTextureMaterial = ''QSGOpaqueTextureMaterial''"
definition QSGSimpleTextureNode :: string where "QSGSimpleTextureNode = ''QSGSimpleTextureNode''"
definition QScatter3DSeries :: string where "QScatter3DSeries = ''QScatter3DSeries''"
definition QScatterSeries :: string where "QScatterSeries = ''QScatterSeries''"
definition QScrollerProperties :: string where "QScrollerProperties = ''QScrollerProperties''"
definition QSensor :: string where "QSensor = ''QSensor''"
definition QSerialPort :: string where "QSerialPort = ''QSerialPort''"
definition QSerialPortInfo :: string where "QSerialPortInfo = ''QSerialPortInfo''"
definition QSessionManager :: string where "QSessionManager = ''QSessionManager''"
definition QSettings :: string where "QSettings = ''QSettings''"
definition QSharedMemory :: string where "QSharedMemory = ''QSharedMemory''"
definition QSize :: string where "QSize = ''QSize''"
definition QSizeF :: string where "QSizeF = ''QSizeF''"
definition QSizePolicy :: string where "QSizePolicy = ''QSizePolicy''"
definition QSizePolicy_Policy :: string where "QSizePolicy_Policy = ''QSizePolicy::Policy''"
definition QSortFilterProxyModel :: string where "QSortFilterProxyModel = ''QSortFilterProxyModel''"
definition QSoundEffect :: string where "QSoundEffect = ''QSoundEffect''"
definition QSpatialSound :: string where "QSpatialSound = ''QSpatialSound''"
definition QSplitter :: string where "QSplitter = ''QSplitter''"
definition QSqlDatabase :: string where "QSqlDatabase = ''QSqlDatabase''"
definition QSqlField :: string where "QSqlField = ''QSqlField''"
definition QSqlQuery :: string where "QSqlQuery = ''QSqlQuery''"
definition QSqlQueryModel :: string where "QSqlQueryModel = ''QSqlQueryModel''"
definition QSqlRecord :: string where "QSqlRecord = ''QSqlRecord''"
definition QSqlRelationalTableModel :: string where "QSqlRelationalTableModel = ''QSqlRelationalTableModel''"
definition QSqlTableModel :: string where "QSqlTableModel = ''QSqlTableModel''"
definition QSslCertificate :: string where "QSslCertificate = ''QSslCertificate''"
definition QSslCertificateExtension :: string where "QSslCertificateExtension = ''QSslCertificateExtension''"
definition QSslConfiguration :: string where "QSslConfiguration = ''QSslConfiguration''"
definition QSslDiffieHellmanParameters :: string where "QSslDiffieHellmanParameters = ''QSslDiffieHellmanParameters''"
definition QSslEllipticCurve :: string where "QSslEllipticCurve = ''QSslEllipticCurve''"
definition QSslPreSharedKeyAuthenticator :: string where "QSslPreSharedKeyAuthenticator = ''QSslPreSharedKeyAuthenticator''"
definition QSslSocket :: string where "QSslSocket = ''QSslSocket''"
definition QStandardItem :: string where "QStandardItem = ''QStandardItem''"
definition QStandardItemModel :: string where "QStandardItemModel = ''QStandardItemModel''"
definition QStaticText :: string where "QStaticText = ''QStaticText''"
definition QStorageInfo :: string where "QStorageInfo = ''QStorageInfo''"
definition QString :: string where "QString = ''QString''"
definition QStringListModel :: string where "QStringListModel = ''QStringListModel''"
definition QStyleHints :: string where "QStyleHints = ''QStyleHints''"
definition QStyleOptionViewItem :: string where "QStyleOptionViewItem = ''QStyleOptionViewItem''"
definition QSurface3DSeries :: string where "QSurface3DSeries = ''QSurface3DSeries''"
definition QSurfaceDataProxy :: string where "QSurfaceDataProxy = ''QSurfaceDataProxy''"
definition QSurfaceFormat :: string where "QSurfaceFormat = ''QSurfaceFormat''"
definition QSvgGenerator :: string where "QSvgGenerator = ''QSvgGenerator''"
definition QSvgRenderer :: string where "QSvgRenderer = ''QSvgRenderer''"
definition QSystemSemaphore :: string where "QSystemSemaphore = ''QSystemSemaphore''"
definition QSystemTrayIcon :: string where "QSystemTrayIcon = ''QSystemTrayIcon''"
definition QT3DANIMATION_QABSTRACTCLIPBLENDNODE :: string where "QT3DANIMATION_QABSTRACTCLIPBLENDNODE = ''QT3DANIMATION_QABSTRACTCLIPBLENDNODE''"
definition QT3DCORE_QATTRIBUTE :: string where "QT3DCORE_QATTRIBUTE = ''QT3DCORE_QATTRIBUTE''"
definition QT3DCORE_QNODE :: string where "QT3DCORE_QNODE = ''QT3DCORE_QNODE''"
definition QT3DRENDER_QABSTRACTTEXTURE :: string where "QT3DRENDER_QABSTRACTTEXTURE = ''QT3DRENDER_QABSTRACTTEXTURE''"
definition QT3DRENDER_QBLENDEQUATIONARGUMENTS :: string where "QT3DRENDER_QBLENDEQUATIONARGUMENTS = ''QT3DRENDER_QBLENDEQUATIONARGUMENTS''"
definition QT3DRENDER_QRENDERTARGETOUTPUT :: string where "QT3DRENDER_QRENDERTARGETOUTPUT = ''QT3DRENDER_QRENDERTARGETOUTPUT''"
definition QT3DRENDER_QSTENCILOPERATIONARGUMENTS :: string where "QT3DRENDER_QSTENCILOPERATIONARGUMENTS = ''QT3DRENDER_QSTENCILOPERATIONARGUMENTS''"
definition QT3DRENDER_QTEXTUREWRAPMODE :: string where "QT3DRENDER_QTEXTUREWRAPMODE = ''QT3DRENDER_QTEXTUREWRAPMODE''"
definition QTBLUETOOTH_QBLUETOOTHADDRESS :: string where "QTBLUETOOTH_QBLUETOOTHADDRESS = ''QTBLUETOOTH_QBLUETOOTHADDRESS''"
definition QTBLUETOOTH_QBLUETOOTHSERVICEINFO :: string where "QTBLUETOOTH_QBLUETOOTHSERVICEINFO = ''QTBLUETOOTH_QBLUETOOTHSERVICEINFO''"
definition QTBLUETOOTH_QBLUETOOTHUUID :: string where "QTBLUETOOTH_QBLUETOOTHUUID = ''QTBLUETOOTH_QBLUETOOTHUUID''"
definition QTBLUETOOTH_QLOWENERGYADVERTISINGPARAMETERS :: string where "QTBLUETOOTH_QLOWENERGYADVERTISINGPARAMETERS = ''QTBLUETOOTH_QLOWENERGYADVERTISINGPARAMETERS''"
definition QTBLUETOOTH_QLOWENERGYCONTROLLER :: string where "QTBLUETOOTH_QLOWENERGYCONTROLLER = ''QTBLUETOOTH_QLOWENERGYCONTROLLER''"
definition QTBLUETOOTH_QLOWENERGYSERVICE :: string where "QTBLUETOOTH_QLOWENERGYSERVICE = ''QTBLUETOOTH_QLOWENERGYSERVICE''"
definition QTCHARTS_QLEGEND :: string where "QTCHARTS_QLEGEND = ''QTCHARTS_QLEGEND''"
definition QTCORE_QABSTRACTANIMATION :: string where "QTCORE_QABSTRACTANIMATION = ''QTCORE_QABSTRACTANIMATION''"
definition QTCORE_QABSTRACTITEMMODEL :: string where "QTCORE_QABSTRACTITEMMODEL = ''QTCORE_QABSTRACTITEMMODEL''"
definition QTCORE_QBYTEARRAY :: string where "QTCORE_QBYTEARRAY = ''QTCORE_QBYTEARRAY''"
definition QTCORE_QCALENDAR :: string where "QTCORE_QCALENDAR = ''QTCORE_QCALENDAR''"
definition QTCORE_QCOMMANDLINEOPTION :: string where "QTCORE_QCOMMANDLINEOPTION = ''QTCORE_QCOMMANDLINEOPTION''"
definition QTCORE_QDATASTREAM :: string where "QTCORE_QDATASTREAM = ''QTCORE_QDATASTREAM''"
definition QTCORE_QDATE :: string where "QTCORE_QDATE = ''QTCORE_QDATE''"
definition QTCORE_QDATETIME :: string where "QTCORE_QDATETIME = ''QTCORE_QDATETIME''"
definition QTCORE_QDEADLINETIMER :: string where "QTCORE_QDEADLINETIMER = ''QTCORE_QDEADLINETIMER''"
definition QTCORE_QDIR :: string where "QTCORE_QDIR = ''QTCORE_QDIR''"
definition QTCORE_QEASINGCURVE :: string where "QTCORE_QEASINGCURVE = ''QTCORE_QEASINGCURVE''"
definition QTCORE_QEVENT :: string where "QTCORE_QEVENT = ''QTCORE_QEVENT''"
definition QTCORE_QIODEVICE :: string where "QTCORE_QIODEVICE = ''QTCORE_QIODEVICE''"
definition QTCORE_QITEMSELECTIONRANGE :: string where "QTCORE_QITEMSELECTIONRANGE = ''QTCORE_QITEMSELECTIONRANGE''"
definition QTCORE_QLOCALE :: string where "QTCORE_QLOCALE = ''QTCORE_QLOCALE''"
definition QTCORE_QMARGINS :: string where "QTCORE_QMARGINS = ''QTCORE_QMARGINS''"
definition QTCORE_QMARGINSF :: string where "QTCORE_QMARGINSF = ''QTCORE_QMARGINSF''"
definition QTCORE_QMETATYPE :: string where "QTCORE_QMETATYPE = ''QTCORE_QMETATYPE''"
definition QTCORE_QMIMEDATA :: string where "QTCORE_QMIMEDATA = ''QTCORE_QMIMEDATA''"
definition QTCORE_QMODELINDEX :: string where "QTCORE_QMODELINDEX = ''QTCORE_QMODELINDEX''"
definition QTCORE_QNATIVEIPCKEY :: string where "QTCORE_QNATIVEIPCKEY = ''QTCORE_QNATIVEIPCKEY''"
definition QTCORE_QOBJECT :: string where "QTCORE_QOBJECT = ''QTCORE_QOBJECT''"
definition QTCORE_QPOINT :: string where "QTCORE_QPOINT = ''QTCORE_QPOINT''"
definition QTCORE_QPOINTF :: string where "QTCORE_QPOINTF = ''QTCORE_QPOINTF''"
definition QTCORE_QRECT :: string where "QTCORE_QRECT = ''QTCORE_QRECT''"
definition QTCORE_QRECTF :: string where "QTCORE_QRECTF = ''QTCORE_QRECTF''"
definition QTCORE_QREGULAREXPRESSION :: string where "QTCORE_QREGULAREXPRESSION = ''QTCORE_QREGULAREXPRESSION''"
definition QTCORE_QSIZE :: string where "QTCORE_QSIZE = ''QTCORE_QSIZE''"
definition QTCORE_QSIZEF :: string where "QTCORE_QSIZEF = ''QTCORE_QSIZEF''"
definition QTCORE_QSYSTEMSEMAPHORE :: string where "QTCORE_QSYSTEMSEMAPHORE = ''QTCORE_QSYSTEMSEMAPHORE''"
definition QTCORE_QTIME :: string where "QTCORE_QTIME = ''QTCORE_QTIME''"
definition QTCORE_QTIMEZONE :: string where "QTCORE_QTIMEZONE = ''QTCORE_QTIMEZONE''"
definition QTCORE_QURL :: string where "QTCORE_QURL = ''QTCORE_QURL''"
definition QTCORE_QXMLSTREAMATTRIBUTE :: string where "QTCORE_QXMLSTREAMATTRIBUTE = ''QTCORE_QXMLSTREAMATTRIBUTE''"
definition QTDATAVISUALIZATION_Q3DTHEME :: string where "QTDATAVISUALIZATION_Q3DTHEME = ''QTDATAVISUALIZATION_Q3DTHEME''"
definition QTDATAVISUALIZATION_QABSTRACT3DINPUTHANDLER :: string where "QTDATAVISUALIZATION_QABSTRACT3DINPUTHANDLER = ''QTDATAVISUALIZATION_QABSTRACT3DINPUTHANDLER''"
definition QTDATAVISUALIZATION_QVALUE3DAXIS :: string where "QTDATAVISUALIZATION_QVALUE3DAXIS = ''QTDATAVISUALIZATION_QVALUE3DAXIS''"
definition QTDBUS_QDBUSCONNECTION :: string where "QTDBUS_QDBUSCONNECTION = ''QTDBUS_QDBUSCONNECTION''"
definition QTDBUS_QDBUSMESSAGE :: string where "QTDBUS_QDBUSMESSAGE = ''QTDBUS_QDBUSMESSAGE''"
definition QTGRAPHS_QPIESLICE :: string where "QTGRAPHS_QPIESLICE = ''QTGRAPHS_QPIESLICE''"
definition QTGUI_QBRUSH :: string where "QTGUI_QBRUSH = ''QTGUI_QBRUSH''"
definition QTGUI_QCOLOR :: string where "QTGUI_QCOLOR = ''QTGUI_QCOLOR''"
definition QTGUI_QCOLORSPACE :: string where "QTGUI_QCOLORSPACE = ''QTGUI_QCOLORSPACE''"
definition QTGUI_QFONT :: string where "QTGUI_QFONT = ''QTGUI_QFONT''"
definition QTGUI_QICON :: string where "QTGUI_QICON = ''QTGUI_QICON''"
definition QTGUI_QIMAGE :: string where "QTGUI_QIMAGE = ''QTGUI_QIMAGE''"
definition QTGUI_QINPUTDEVICE :: string where "QTGUI_QINPUTDEVICE = ''QTGUI_QINPUTDEVICE''"
definition QTGUI_QKEYSEQUENCE :: string where "QTGUI_QKEYSEQUENCE = ''QTGUI_QKEYSEQUENCE''"
definition QTGUI_QLINEARGRADIENT :: string where "QTGUI_QLINEARGRADIENT = ''QTGUI_QLINEARGRADIENT''"
definition QTGUI_QMATRIX4X4 :: string where "QTGUI_QMATRIX4X4 = ''QTGUI_QMATRIX4X4''"
definition QTGUI_QOPENGLCONTEXT :: string where "QTGUI_QOPENGLCONTEXT = ''QTGUI_QOPENGLCONTEXT''"
definition QTGUI_QPAGELAYOUT :: string where "QTGUI_QPAGELAYOUT = ''QTGUI_QPAGELAYOUT''"
definition QTGUI_QPAGESIZE :: string where "QTGUI_QPAGESIZE = ''QTGUI_QPAGESIZE''"
definition QTGUI_QPAINTERPATH :: string where "QTGUI_QPAINTERPATH = ''QTGUI_QPAINTERPATH''"
definition QTGUI_QPALETTE :: string where "QTGUI_QPALETTE = ''QTGUI_QPALETTE''"
definition QTGUI_QPEN :: string where "QTGUI_QPEN = ''QTGUI_QPEN''"
definition QTGUI_QPIXMAP :: string where "QTGUI_QPIXMAP = ''QTGUI_QPIXMAP''"
definition QTGUI_QPOINTINGDEVICE :: string where "QTGUI_QPOINTINGDEVICE = ''QTGUI_QPOINTINGDEVICE''"
definition QTGUI_QPOLYGON :: string where "QTGUI_QPOLYGON = ''QTGUI_QPOLYGON''"
definition QTGUI_QPOLYGONF :: string where "QTGUI_QPOLYGONF = ''QTGUI_QPOLYGONF''"
definition QTGUI_QQUATERNION :: string where "QTGUI_QQUATERNION = ''QTGUI_QQUATERNION''"
definition QTGUI_QREGION :: string where "QTGUI_QREGION = ''QTGUI_QREGION''"
definition QTGUI_QSCREEN :: string where "QTGUI_QSCREEN = ''QTGUI_QSCREEN''"
definition QTGUI_QSURFACEFORMAT :: string where "QTGUI_QSURFACEFORMAT = ''QTGUI_QSURFACEFORMAT''"
definition QTGUI_QTEXTBLOCK :: string where "QTGUI_QTEXTBLOCK = ''QTGUI_QTEXTBLOCK''"
definition QTGUI_QTEXTCHARFORMAT :: string where "QTGUI_QTEXTCHARFORMAT = ''QTGUI_QTEXTCHARFORMAT''"
definition QTGUI_QTEXTCURSOR :: string where "QTGUI_QTEXTCURSOR = ''QTGUI_QTEXTCURSOR''"
definition QTGUI_QTEXTDOCUMENT :: string where "QTGUI_QTEXTDOCUMENT = ''QTGUI_QTEXTDOCUMENT''"
definition QTGUI_QTEXTFRAMEFORMAT :: string where "QTGUI_QTEXTFRAMEFORMAT = ''QTGUI_QTEXTFRAMEFORMAT''"
definition QTGUI_QTEXTOPTION :: string where "QTGUI_QTEXTOPTION = ''QTGUI_QTEXTOPTION''"
definition QTGUI_QTRANSFORM :: string where "QTGUI_QTRANSFORM = ''QTGUI_QTRANSFORM''"
definition QTGUI_QVECTOR2D :: string where "QTGUI_QVECTOR2D = ''QTGUI_QVECTOR2D''"
definition QTGUI_QVECTOR3D :: string where "QTGUI_QVECTOR3D = ''QTGUI_QVECTOR3D''"
definition QTGUI_QVECTOR4D :: string where "QTGUI_QVECTOR4D = ''QTGUI_QVECTOR4D''"
definition QTGUI_QWINDOW :: string where "QTGUI_QWINDOW = ''QTGUI_QWINDOW''"
definition QTMULTIMEDIA_QAUDIODEVICE :: string where "QTMULTIMEDIA_QAUDIODEVICE = ''QTMULTIMEDIA_QAUDIODEVICE''"
definition QTMULTIMEDIA_QAUDIOFORMAT :: string where "QTMULTIMEDIA_QAUDIOFORMAT = ''QTMULTIMEDIA_QAUDIOFORMAT''"
definition QTMULTIMEDIA_QCAMERA :: string where "QTMULTIMEDIA_QCAMERA = ''QTMULTIMEDIA_QCAMERA''"
definition QTMULTIMEDIA_QCAMERADEVICE :: string where "QTMULTIMEDIA_QCAMERADEVICE = ''QTMULTIMEDIA_QCAMERADEVICE''"
definition QTMULTIMEDIA_QIMAGECAPTURE :: string where "QTMULTIMEDIA_QIMAGECAPTURE = ''QTMULTIMEDIA_QIMAGECAPTURE''"
definition QTMULTIMEDIA_QMEDIAFORMAT :: string where "QTMULTIMEDIA_QMEDIAFORMAT = ''QTMULTIMEDIA_QMEDIAFORMAT''"
definition QTMULTIMEDIA_QMEDIAMETADATA :: string where "QTMULTIMEDIA_QMEDIAMETADATA = ''QTMULTIMEDIA_QMEDIAMETADATA''"
definition QTMULTIMEDIA_QMEDIATIMERANGE :: string where "QTMULTIMEDIA_QMEDIATIMERANGE = ''QTMULTIMEDIA_QMEDIATIMERANGE''"
definition QTMULTIMEDIA_QVIDEOFRAMEFORMAT :: string where "QTMULTIMEDIA_QVIDEOFRAMEFORMAT = ''QTMULTIMEDIA_QVIDEOFRAMEFORMAT''"
definition QTNETWORK_QABSTRACTSOCKET :: string where "QTNETWORK_QABSTRACTSOCKET = ''QTNETWORK_QABSTRACTSOCKET''"
definition QTNETWORK_QHOSTADDRESS :: string where "QTNETWORK_QHOSTADDRESS = ''QTNETWORK_QHOSTADDRESS''"
definition QTNETWORK_QHTTPHEADERS :: string where "QTNETWORK_QHTTPHEADERS = ''QTNETWORK_QHTTPHEADERS''"
definition QTNETWORK_QNETWORKACCESSMANAGER :: string where "QTNETWORK_QNETWORKACCESSMANAGER = ''QTNETWORK_QNETWORKACCESSMANAGER''"
definition QTNETWORK_QNETWORKCOOKIE :: string where "QTNETWORK_QNETWORKCOOKIE = ''QTNETWORK_QNETWORKCOOKIE''"
definition QTNETWORK_QNETWORKINTERFACE :: string where "QTNETWORK_QNETWORKINTERFACE = ''QTNETWORK_QNETWORKINTERFACE''"
definition QTNETWORK_QNETWORKPROXY :: string where "QTNETWORK_QNETWORKPROXY = ''QTNETWORK_QNETWORKPROXY''"
definition QTNETWORK_QNETWORKPROXYQUERY :: string where "QTNETWORK_QNETWORKPROXYQUERY = ''QTNETWORK_QNETWORKPROXYQUERY''"
definition QTNETWORK_QNETWORKREPLY :: string where "QTNETWORK_QNETWORKREPLY = ''QTNETWORK_QNETWORKREPLY''"
definition QTNETWORK_QNETWORKREQUEST :: string where "QTNETWORK_QNETWORKREQUEST = ''QTNETWORK_QNETWORKREQUEST''"
definition QTNETWORK_QSSLCERTIFICATE :: string where "QTNETWORK_QSSLCERTIFICATE = ''QTNETWORK_QSSLCERTIFICATE''"
definition QTNETWORK_QSSLCONFIGURATION :: string where "QTNETWORK_QSSLCONFIGURATION = ''QTNETWORK_QSSLCONFIGURATION''"
definition QTNFC_QNDEFRECORD :: string where "QTNFC_QNDEFRECORD = ''QTNFC_QNDEFRECORD''"
definition QTOPENGL_QOPENGLDEBUGMESSAGE :: string where "QTOPENGL_QOPENGLDEBUGMESSAGE = ''QTOPENGL_QOPENGLDEBUGMESSAGE''"
definition QTOPENGL_QOPENGLTEXTURE :: string where "QTOPENGL_QOPENGLTEXTURE = ''QTOPENGL_QOPENGLTEXTURE''"
definition QTPOSITIONING_QGEOCOORDINATE :: string where "QTPOSITIONING_QGEOCOORDINATE = ''QTPOSITIONING_QGEOCOORDINATE''"
definition QTPOSITIONING_QGEOSATELLITEINFO :: string where "QTPOSITIONING_QGEOSATELLITEINFO = ''QTPOSITIONING_QGEOSATELLITEINFO''"
definition QTPOSITIONING_QGEOSHAPE :: string where "QTPOSITIONING_QGEOSHAPE = ''QTPOSITIONING_QGEOSHAPE''"
definition QTPRINTSUPPORT_QPRINTER :: string where "QTPRINTSUPPORT_QPRINTER = ''QTPRINTSUPPORT_QPRINTER''"
definition QTQML_QJSVALUE :: string where "QTQML_QJSVALUE = ''QTQML_QJSVALUE''"
definition QTQML_QQMLCONTEXT :: string where "QTQML_QQMLCONTEXT = ''QTQML_QQMLCONTEXT''"
definition QTQML_QQMLENGINE :: string where "QTQML_QQMLENGINE = ''QTQML_QQMLENGINE''"
definition QTQUICK_QQUICKITEM :: string where "QTQUICK_QQUICKITEM = ''QTQUICK_QQUICKITEM''"
definition QTQUICK_QSGTEXTURE :: string where "QTQUICK_QSGTEXTURE = ''QTQUICK_QSGTEXTURE''"
definition QTSPATIALAUDIO_QAUDIOENGINE :: string where "QTSPATIALAUDIO_QAUDIOENGINE = ''QTSPATIALAUDIO_QAUDIOENGINE''"
definition QTSQL_QSQLDATABASE :: string where "QTSQL_QSQLDATABASE = ''QTSQL_QSQLDATABASE''"
definition QTSTATEMACHINE_QABSTRACTSTATE :: string where "QTSTATEMACHINE_QABSTRACTSTATE = ''QTSTATEMACHINE_QABSTRACTSTATE''"
definition QTSTATEMACHINE_QABSTRACTTRANSITION :: string where "QTSTATEMACHINE_QABSTRACTTRANSITION = ''QTSTATEMACHINE_QABSTRACTTRANSITION''"
definition QTSTATEMACHINE_QSTATE :: string where "QTSTATEMACHINE_QSTATE = ''QTSTATEMACHINE_QSTATE''"
definition QTWEBENGINECORE_QWEBENGINEHISTORYITEM :: string where "QTWEBENGINECORE_QWEBENGINEHISTORYITEM = ''QTWEBENGINECORE_QWEBENGINEHISTORYITEM''"
definition QTWEBENGINECORE_QWEBENGINEHTTPREQUEST :: string where "QTWEBENGINECORE_QWEBENGINEHTTPREQUEST = ''QTWEBENGINECORE_QWEBENGINEHTTPREQUEST''"
definition QTWEBENGINECORE_QWEBENGINEPAGE :: string where "QTWEBENGINECORE_QWEBENGINEPAGE = ''QTWEBENGINECORE_QWEBENGINEPAGE''"
definition QTWEBENGINECORE_QWEBENGINEPROFILE :: string where "QTWEBENGINECORE_QWEBENGINEPROFILE = ''QTWEBENGINECORE_QWEBENGINEPROFILE''"
definition QTWEBENGINECORE_QWEBENGINESCRIPT :: string where "QTWEBENGINECORE_QWEBENGINESCRIPT = ''QTWEBENGINECORE_QWEBENGINESCRIPT''"
definition QTWEBENGINECORE_QWEBENGINESETTINGS :: string where "QTWEBENGINECORE_QWEBENGINESETTINGS = ''QTWEBENGINECORE_QWEBENGINESETTINGS''"
definition QTWEBENGINECORE_QWEBENGINEURLSCHEME :: string where "QTWEBENGINECORE_QWEBENGINEURLSCHEME = ''QTWEBENGINECORE_QWEBENGINEURLSCHEME''"
definition QTWIDGETS_QABSTRACTBUTTON :: string where "QTWIDGETS_QABSTRACTBUTTON = ''QTWIDGETS_QABSTRACTBUTTON''"
definition QTWIDGETS_QABSTRACTITEMDELEGATE :: string where "QTWIDGETS_QABSTRACTITEMDELEGATE = ''QTWIDGETS_QABSTRACTITEMDELEGATE''"
definition QTWIDGETS_QABSTRACTITEMVIEW :: string where "QTWIDGETS_QABSTRACTITEMVIEW = ''QTWIDGETS_QABSTRACTITEMVIEW''"
definition QTWIDGETS_QDIALOGBUTTONBOX :: string where "QTWIDGETS_QDIALOGBUTTONBOX = ''QTWIDGETS_QDIALOGBUTTONBOX''"
definition QTWIDGETS_QFILEDIALOG :: string where "QTWIDGETS_QFILEDIALOG = ''QTWIDGETS_QFILEDIALOG''"
definition QTWIDGETS_QGESTURE :: string where "QTWIDGETS_QGESTURE = ''QTWIDGETS_QGESTURE''"
definition QTWIDGETS_QGRAPHICSVIEW :: string where "QTWIDGETS_QGRAPHICSVIEW = ''QTWIDGETS_QGRAPHICSVIEW''"
definition QTWIDGETS_QLAYOUT :: string where "QTWIDGETS_QLAYOUT = ''QTWIDGETS_QLAYOUT''"
definition QTWIDGETS_QMESSAGEBOX :: string where "QTWIDGETS_QMESSAGEBOX = ''QTWIDGETS_QMESSAGEBOX''"
definition QTWIDGETS_QSIZEPOLICY :: string where "QTWIDGETS_QSIZEPOLICY = ''QTWIDGETS_QSIZEPOLICY''"
definition QTWIDGETS_QSTYLE :: string where "QTWIDGETS_QSTYLE = ''QTWIDGETS_QSTYLE''"
definition QTWIDGETS_QSTYLEOPTIONVIEWITEM :: string where "QTWIDGETS_QSTYLEOPTIONVIEWITEM = ''QTWIDGETS_QSTYLEOPTIONVIEWITEM''"
definition QTWIDGETS_QWIDGET :: string where "QTWIDGETS_QWIDGET = ''QTWIDGETS_QWIDGET''"
definition QTXML_QDOMNODE :: string where "QTXML_QDOMNODE = ''QTXML_QDOMNODE''"
definition QT_ASPECTRATIOMODE :: string where "QT_ASPECTRATIOMODE = ''QT_ASPECTRATIOMODE''"
definition QT_DROPACTION :: string where "QT_DROPACTION = ''QT_DROPACTION''"
definition QT_DROPACTIONS :: string where "QT_DROPACTIONS = ''QT_DROPACTIONS''"
definition QT_KEYBOARDMODIFIERS :: string where "QT_KEYBOARDMODIFIERS = ''QT_KEYBOARDMODIFIERS''"
definition QT_LAYOUTDIRECTION :: string where "QT_LAYOUTDIRECTION = ''QT_LAYOUTDIRECTION''"
definition QT_MOUSEBUTTON :: string where "QT_MOUSEBUTTON = ''QT_MOUSEBUTTON''"
definition QT_MOUSEBUTTONS :: string where "QT_MOUSEBUTTONS = ''QT_MOUSEBUTTONS''"
definition QT_ORIENTATION :: string where "QT_ORIENTATION = ''QT_ORIENTATION''"
definition QT_TRANSFORMATIONMODE :: string where "QT_TRANSFORMATIONMODE = ''QT_TRANSFORMATIONMODE''"
definition QT_WINDOWFLAGS :: string where "QT_WINDOWFLAGS = ''QT_WINDOWFLAGS''"
definition QTabBar :: string where "QTabBar = ''QTabBar''"
definition QTabWidget :: string where "QTabWidget = ''QTabWidget''"
definition QTableView :: string where "QTableView = ''QTableView''"
definition QTableWidget :: string where "QTableWidget = ''QTableWidget''"
definition QTableWidgetItem :: string where "QTableWidgetItem = ''QTableWidgetItem''"
definition QTableWidgetSelectionRange :: string where "QTableWidgetSelectionRange = ''QTableWidgetSelectionRange''"
definition QTextBlock :: string where "QTextBlock = ''QTextBlock''"
definition QTextBlockFormat :: string where "QTextBlockFormat = ''QTextBlockFormat''"
definition QTextBoundaryFinder :: string where "QTextBoundaryFinder = ''QTextBoundaryFinder''"
definition QTextBrowser :: string where "QTextBrowser = ''QTextBrowser''"
definition QTextCharFormat :: string where "QTextCharFormat = ''QTextCharFormat''"
definition QTextCursor :: string where "QTextCursor = ''QTextCursor''"
definition QTextDocument :: string where "QTextDocument = ''QTextDocument''"
definition QTextDocument_ptr :: string where "QTextDocument_ptr = ''QTextDocument*''"
definition QTextDocumentFragment :: string where "QTextDocumentFragment = ''QTextDocumentFragment''"
definition QTextDocumentWriter :: string where "QTextDocumentWriter = ''QTextDocumentWriter''"
definition QTextEdit :: string where "QTextEdit = ''QTextEdit''"
definition QTextFormat :: string where "QTextFormat = ''QTextFormat''"
definition QTextFrameFormat :: string where "QTextFrameFormat = ''QTextFrameFormat''"
definition QTextFrameFormat_BorderStyle :: string where "QTextFrameFormat_BorderStyle = ''QTextFrameFormat::BorderStyle''"
definition QTextImageFormat :: string where "QTextImageFormat = ''QTextImageFormat''"
definition QTextInlineObject :: string where "QTextInlineObject = ''QTextInlineObject''"
definition QTextLayout :: string where "QTextLayout = ''QTextLayout''"
definition QTextLine :: string where "QTextLine = ''QTextLine''"
definition QTextListFormat :: string where "QTextListFormat = ''QTextListFormat''"
definition QTextOption :: string where "QTextOption = ''QTextOption''"
definition QTextStream :: string where "QTextStream = ''QTextStream''"
definition QTextTableCell :: string where "QTextTableCell = ''QTextTableCell''"
definition QTextTableCellFormat :: string where "QTextTableCellFormat = ''QTextTableCellFormat''"
definition QTextTableFormat :: string where "QTextTableFormat = ''QTextTableFormat''"
definition QTextToSpeech :: string where "QTextToSpeech = ''QTextToSpeech''"
definition QTime :: string where "QTime = ''QTime''"
definition QTimeLine :: string where "QTimeLine = ''QTimeLine''"
definition QTimeZone :: string where "QTimeZone = ''QTimeZone''"
definition QTransform :: string where "QTransform = ''QTransform''"
definition QTransposeProxyModel :: string where "QTransposeProxyModel = ''QTransposeProxyModel''"
definition QTreeView :: string where "QTreeView = ''QTreeView''"
definition QTreeWidgetItem :: string where "QTreeWidgetItem = ''QTreeWidgetItem''"
definition QUndoStack :: string where "QUndoStack = ''QUndoStack''"
definition QUrl :: string where "QUrl = ''QUrl''"
definition QVBoxPlotModelMapper :: string where "QVBoxPlotModelMapper = ''QVBoxPlotModelMapper''"
definition QVCandlestickModelMapper :: string where "QVCandlestickModelMapper = ''QVCandlestickModelMapper''"
definition QValue3DAxis :: string where "QValue3DAxis = ''QValue3DAxis''"
definition QValueAxis :: string where "QValueAxis = ''QValueAxis''"
definition QVector2D :: string where "QVector2D = ''QVector2D''"
definition QVector3D :: string where "QVector3D = ''QVector3D''"
definition QVector4D :: string where "QVector4D = ''QVector4D''"
definition QVersionNumber :: string where "QVersionNumber = ''QVersionNumber''"
definition QVideoFrame :: string where "QVideoFrame = ''QVideoFrame''"
definition QVideoFrameFormat :: string where "QVideoFrameFormat = ''QVideoFrameFormat''"
definition QWebEngineCertificateError :: string where "QWebEngineCertificateError = ''QWebEngineCertificateError''"
definition QWebEngineClientCertificateSelection :: string where "QWebEngineClientCertificateSelection = ''QWebEngineClientCertificateSelection''"
definition QWebEngineContextMenuRequest :: string where "QWebEngineContextMenuRequest = ''QWebEngineContextMenuRequest''"
definition QWebEngineDownloadRequest :: string where "QWebEngineDownloadRequest = ''QWebEngineDownloadRequest''"
definition QWebEngineFullScreenRequest :: string where "QWebEngineFullScreenRequest = ''QWebEngineFullScreenRequest''"
definition QWebEngineHistory :: string where "QWebEngineHistory = ''QWebEngineHistory''"
definition QWebEngineHistoryItem :: string where "QWebEngineHistoryItem = ''QWebEngineHistoryItem''"
definition QWebEngineHttpRequest :: string where "QWebEngineHttpRequest = ''QWebEngineHttpRequest''"
definition QWebEngineLoadingInfo :: string where "QWebEngineLoadingInfo = ''QWebEngineLoadingInfo''"
definition QWebEngineNotification :: string where "QWebEngineNotification = ''QWebEngineNotification''"
definition QWebEnginePage :: string where "QWebEnginePage = ''QWebEnginePage''"
definition QWebEngineProfile :: string where "QWebEngineProfile = ''QWebEngineProfile''"
definition QWebEngineRegisterProtocolHandlerRequest :: string where "QWebEngineRegisterProtocolHandlerRequest = ''QWebEngineRegisterProtocolHandlerRequest''"
definition QWebEngineScript :: string where "QWebEngineScript = ''QWebEngineScript''"
definition QWebEngineScriptCollection :: string where "QWebEngineScriptCollection = ''QWebEngineScriptCollection''"
definition QWebEngineSettings :: string where "QWebEngineSettings = ''QWebEngineSettings''"
definition QWebEngineUrlRequestInfo :: string where "QWebEngineUrlRequestInfo = ''QWebEngineUrlRequestInfo''"
definition QWebEngineUrlScheme :: string where "QWebEngineUrlScheme = ''QWebEngineUrlScheme''"
definition QWebEngineView :: string where "QWebEngineView = ''QWebEngineView''"
definition QWebSocket :: string where "QWebSocket = ''QWebSocket''"
definition QWebSocketCorsAuthenticator :: string where "QWebSocketCorsAuthenticator = ''QWebSocketCorsAuthenticator''"
definition QWebSocketHandshakeOptions :: string where "QWebSocketHandshakeOptions = ''QWebSocketHandshakeOptions''"
definition QWebSocketServer :: string where "QWebSocketServer = ''QWebSocketServer''"
definition QWidget :: string where "QWidget = ''QWidget''"
definition QWidget_ptr :: string where "QWidget_ptr = ''QWidget*''"
definition QWindow :: string where "QWindow = ''QWindow''"
definition QWizard :: string where "QWizard = ''QWizard''"
definition QXYSeries :: string where "QXYSeries = ''QXYSeries''"
definition QXmlStreamAttribute :: string where "QXmlStreamAttribute = ''QXmlStreamAttribute''"
definition QXmlStreamAttributes :: string where "QXmlStreamAttributes = ''QXmlStreamAttributes''"
definition QXmlStreamReader :: string where "QXmlStreamReader = ''QXmlStreamReader''"
definition QXmlStreamWriter :: string where "QXmlStreamWriter = ''QXmlStreamWriter''"
definition Qt3DAnimation_QAbstractClipAnimator :: string where "Qt3DAnimation_QAbstractClipAnimator = ''Qt3DAnimation::QAbstractClipAnimator''"
definition Qt3DAnimation_QAdditiveClipBlend :: string where "Qt3DAnimation_QAdditiveClipBlend = ''Qt3DAnimation::QAdditiveClipBlend''"
definition Qt3DAnimation_QAnimationClipData :: string where "Qt3DAnimation_QAnimationClipData = ''Qt3DAnimation::QAnimationClipData''"
definition Qt3DAnimation_QAnimationController :: string where "Qt3DAnimation_QAnimationController = ''Qt3DAnimation::QAnimationController''"
definition Qt3DAnimation_QAnimationGroup :: string where "Qt3DAnimation_QAnimationGroup = ''Qt3DAnimation::QAnimationGroup''"
definition Qt3DAnimation_QChannel :: string where "Qt3DAnimation_QChannel = ''Qt3DAnimation::QChannel''"
definition Qt3DAnimation_QChannelComponent :: string where "Qt3DAnimation_QChannelComponent = ''Qt3DAnimation::QChannelComponent''"
definition Qt3DAnimation_QChannelMapping :: string where "Qt3DAnimation_QChannelMapping = ''Qt3DAnimation::QChannelMapping''"
definition Qt3DAnimation_QKeyFrame :: string where "Qt3DAnimation_QKeyFrame = ''Qt3DAnimation::QKeyFrame''"
definition Qt3DAnimation_QKeyframeAnimation :: string where "Qt3DAnimation_QKeyframeAnimation = ''Qt3DAnimation::QKeyframeAnimation''"
definition Qt3DAnimation_QLerpClipBlend :: string where "Qt3DAnimation_QLerpClipBlend = ''Qt3DAnimation::QLerpClipBlend''"
definition Qt3DAnimation_QMorphingAnimation :: string where "Qt3DAnimation_QMorphingAnimation = ''Qt3DAnimation::QMorphingAnimation''"
definition Qt3DAnimation_QVertexBlendAnimation :: string where "Qt3DAnimation_QVertexBlendAnimation = ''Qt3DAnimation::QVertexBlendAnimation''"
definition Qt3DCore_QAspectEngine :: string where "Qt3DCore_QAspectEngine = ''Qt3DCore::QAspectEngine''"
definition Qt3DCore_QAttribute :: string where "Qt3DCore_QAttribute = ''Qt3DCore::QAttribute''"
definition Qt3DCore_QAttribute_VertexBaseType :: string where "Qt3DCore_QAttribute_VertexBaseType = ''Qt3DCore::QAttribute::VertexBaseType''"
definition Qt3DCore_QBoundingVolume :: string where "Qt3DCore_QBoundingVolume = ''Qt3DCore::QBoundingVolume''"
definition Qt3DCore_QGeometryView :: string where "Qt3DCore_QGeometryView = ''Qt3DCore::QGeometryView''"
definition Qt3DCore_QJoint :: string where "Qt3DCore_QJoint = ''Qt3DCore::QJoint''"
definition Qt3DCore_QNode_ptr :: string where "Qt3DCore_QNode_ptr = ''Qt3DCore::QNode*''"
definition Qt3DCore_QTransform :: string where "Qt3DCore_QTransform = ''Qt3DCore::QTransform''"
definition Qt3DExtras_QAbstractCameraController :: string where "Qt3DExtras_QAbstractCameraController = ''Qt3DExtras::QAbstractCameraController''"
definition Qt3DExtras_QConeGeometry :: string where "Qt3DExtras_QConeGeometry = ''Qt3DExtras::QConeGeometry''"
definition Qt3DExtras_QConeGeometryView :: string where "Qt3DExtras_QConeGeometryView = ''Qt3DExtras::QConeGeometryView''"
definition Qt3DExtras_QConeMesh :: string where "Qt3DExtras_QConeMesh = ''Qt3DExtras::QConeMesh''"
definition Qt3DExtras_QCuboidGeometry :: string where "Qt3DExtras_QCuboidGeometry = ''Qt3DExtras::QCuboidGeometry''"
definition Qt3DExtras_QCuboidGeometryView :: string where "Qt3DExtras_QCuboidGeometryView = ''Qt3DExtras::QCuboidGeometryView''"
definition Qt3DExtras_QCuboidMesh :: string where "Qt3DExtras_QCuboidMesh = ''Qt3DExtras::QCuboidMesh''"
definition Qt3DExtras_QCylinderGeometry :: string where "Qt3DExtras_QCylinderGeometry = ''Qt3DExtras::QCylinderGeometry''"
definition Qt3DExtras_QCylinderGeometryView :: string where "Qt3DExtras_QCylinderGeometryView = ''Qt3DExtras::QCylinderGeometryView''"
definition Qt3DExtras_QCylinderMesh :: string where "Qt3DExtras_QCylinderMesh = ''Qt3DExtras::QCylinderMesh''"
definition Qt3DExtras_QDiffuseMapMaterial :: string where "Qt3DExtras_QDiffuseMapMaterial = ''Qt3DExtras::QDiffuseMapMaterial''"
definition Qt3DExtras_QDiffuseSpecularMapMaterial :: string where "Qt3DExtras_QDiffuseSpecularMapMaterial = ''Qt3DExtras::QDiffuseSpecularMapMaterial''"
definition Qt3DExtras_QDiffuseSpecularMaterial :: string where "Qt3DExtras_QDiffuseSpecularMaterial = ''Qt3DExtras::QDiffuseSpecularMaterial''"
definition Qt3DExtras_QExtrudedTextGeometry :: string where "Qt3DExtras_QExtrudedTextGeometry = ''Qt3DExtras::QExtrudedTextGeometry''"
definition Qt3DExtras_QExtrudedTextMesh :: string where "Qt3DExtras_QExtrudedTextMesh = ''Qt3DExtras::QExtrudedTextMesh''"
definition Qt3DExtras_QForwardRenderer :: string where "Qt3DExtras_QForwardRenderer = ''Qt3DExtras::QForwardRenderer''"
definition Qt3DExtras_QGoochMaterial :: string where "Qt3DExtras_QGoochMaterial = ''Qt3DExtras::QGoochMaterial''"
definition Qt3DExtras_QMetalRoughMaterial :: string where "Qt3DExtras_QMetalRoughMaterial = ''Qt3DExtras::QMetalRoughMaterial''"
definition Qt3DExtras_QMorphPhongMaterial :: string where "Qt3DExtras_QMorphPhongMaterial = ''Qt3DExtras::QMorphPhongMaterial''"
definition Qt3DExtras_QNormalDiffuseMapMaterial :: string where "Qt3DExtras_QNormalDiffuseMapMaterial = ''Qt3DExtras::QNormalDiffuseMapMaterial''"
definition Qt3DExtras_QNormalDiffuseSpecularMapMaterial :: string where "Qt3DExtras_QNormalDiffuseSpecularMapMaterial = ''Qt3DExtras::QNormalDiffuseSpecularMapMaterial''"
definition Qt3DExtras_QPhongAlphaMaterial :: string where "Qt3DExtras_QPhongAlphaMaterial = ''Qt3DExtras::QPhongAlphaMaterial''"
definition Qt3DExtras_QPhongMaterial :: string where "Qt3DExtras_QPhongMaterial = ''Qt3DExtras::QPhongMaterial''"
definition Qt3DExtras_QPlaneGeometry :: string where "Qt3DExtras_QPlaneGeometry = ''Qt3DExtras::QPlaneGeometry''"
definition Qt3DExtras_QPlaneGeometryView :: string where "Qt3DExtras_QPlaneGeometryView = ''Qt3DExtras::QPlaneGeometryView''"
definition Qt3DExtras_QSphereGeometry :: string where "Qt3DExtras_QSphereGeometry = ''Qt3DExtras::QSphereGeometry''"
definition Qt3DExtras_QSphereGeometryView :: string where "Qt3DExtras_QSphereGeometryView = ''Qt3DExtras::QSphereGeometryView''"
definition Qt3DExtras_QSphereMesh :: string where "Qt3DExtras_QSphereMesh = ''Qt3DExtras::QSphereMesh''"
definition Qt3DExtras_QSpriteSheetItem :: string where "Qt3DExtras_QSpriteSheetItem = ''Qt3DExtras::QSpriteSheetItem''"
definition Qt3DExtras_QText2DEntity :: string where "Qt3DExtras_QText2DEntity = ''Qt3DExtras::QText2DEntity''"
definition Qt3DExtras_QTextureMaterial :: string where "Qt3DExtras_QTextureMaterial = ''Qt3DExtras::QTextureMaterial''"
definition Qt3DExtras_QTorusGeometry :: string where "Qt3DExtras_QTorusGeometry = ''Qt3DExtras::QTorusGeometry''"
definition Qt3DExtras_QTorusGeometryView :: string where "Qt3DExtras_QTorusGeometryView = ''Qt3DExtras::QTorusGeometryView''"
definition Qt3DInput_QAbstractPhysicalDevice :: string where "Qt3DInput_QAbstractPhysicalDevice = ''Qt3DInput::QAbstractPhysicalDevice''"
definition Qt3DInput_QAxisAccumulator :: string where "Qt3DInput_QAxisAccumulator = ''Qt3DInput::QAxisAccumulator''"
definition Qt3DInput_QButtonAxisInput :: string where "Qt3DInput_QButtonAxisInput = ''Qt3DInput::QButtonAxisInput''"
definition Qt3DRender_QAbstractRayCaster :: string where "Qt3DRender_QAbstractRayCaster = ''Qt3DRender::QAbstractRayCaster''"
definition Qt3DRender_QAbstractTexture :: string where "Qt3DRender_QAbstractTexture = ''Qt3DRender::QAbstractTexture''"
definition Qt3DRender_QAbstractTexture_ptr :: string where "Qt3DRender_QAbstractTexture_ptr = ''Qt3DRender::QAbstractTexture*''"
definition Qt3DRender_QAbstractTexture_Filter :: string where "Qt3DRender_QAbstractTexture_Filter = ''Qt3DRender::QAbstractTexture::Filter''"
definition Qt3DRender_QAbstractTextureImage :: string where "Qt3DRender_QAbstractTextureImage = ''Qt3DRender::QAbstractTextureImage''"
definition Qt3DRender_QBlendEquationArguments :: string where "Qt3DRender_QBlendEquationArguments = ''Qt3DRender::QBlendEquationArguments''"
definition Qt3DRender_QBlendEquationArguments_Blending :: string where "Qt3DRender_QBlendEquationArguments_Blending = ''Qt3DRender::QBlendEquationArguments::Blending''"
definition Qt3DRender_QBlitFramebuffer :: string where "Qt3DRender_QBlitFramebuffer = ''Qt3DRender::QBlitFramebuffer''"
definition Qt3DRender_QCamera :: string where "Qt3DRender_QCamera = ''Qt3DRender::QCamera''"
definition Qt3DRender_QCameraLens :: string where "Qt3DRender_QCameraLens = ''Qt3DRender::QCameraLens''"
definition Qt3DRender_QClearBuffers :: string where "Qt3DRender_QClearBuffers = ''Qt3DRender::QClearBuffers''"
definition Qt3DRender_QComputeCommand :: string where "Qt3DRender_QComputeCommand = ''Qt3DRender::QComputeCommand''"
definition Qt3DRender_QGeometryRenderer :: string where "Qt3DRender_QGeometryRenderer = ''Qt3DRender::QGeometryRenderer''"
definition Qt3DRender_QGraphicsApiFilter :: string where "Qt3DRender_QGraphicsApiFilter = ''Qt3DRender::QGraphicsApiFilter''"
definition Qt3DRender_QLevelOfDetail :: string where "Qt3DRender_QLevelOfDetail = ''Qt3DRender::QLevelOfDetail''"
definition Qt3DRender_QLevelOfDetailBoundingSphere :: string where "Qt3DRender_QLevelOfDetailBoundingSphere = ''Qt3DRender::QLevelOfDetailBoundingSphere''"
definition Qt3DRender_QObjectPicker :: string where "Qt3DRender_QObjectPicker = ''Qt3DRender::QObjectPicker''"
definition Qt3DRender_QPaintedTextureImage :: string where "Qt3DRender_QPaintedTextureImage = ''Qt3DRender::QPaintedTextureImage''"
definition Qt3DRender_QPickEvent :: string where "Qt3DRender_QPickEvent = ''Qt3DRender::QPickEvent''"
definition Qt3DRender_QPickTriangleEvent :: string where "Qt3DRender_QPickTriangleEvent = ''Qt3DRender::QPickTriangleEvent''"
definition Qt3DRender_QPickingSettings :: string where "Qt3DRender_QPickingSettings = ''Qt3DRender::QPickingSettings''"
definition Qt3DRender_QProximityFilter :: string where "Qt3DRender_QProximityFilter = ''Qt3DRender::QProximityFilter''"
definition Qt3DRender_QRayCasterHit :: string where "Qt3DRender_QRayCasterHit = ''Qt3DRender::QRayCasterHit''"
definition Qt3DRender_QRenderCapabilities :: string where "Qt3DRender_QRenderCapabilities = ''Qt3DRender::QRenderCapabilities''"
definition Qt3DRender_QRenderPass :: string where "Qt3DRender_QRenderPass = ''Qt3DRender::QRenderPass''"
definition Qt3DRender_QRenderSurfaceSelector :: string where "Qt3DRender_QRenderSurfaceSelector = ''Qt3DRender::QRenderSurfaceSelector''"
definition Qt3DRender_QRenderTargetOutput :: string where "Qt3DRender_QRenderTargetOutput = ''Qt3DRender::QRenderTargetOutput''"
definition Qt3DRender_QRenderTargetOutput_AttachmentPoint :: string where "Qt3DRender_QRenderTargetOutput_AttachmentPoint = ''Qt3DRender::QRenderTargetOutput::AttachmentPoint''"
definition Qt3DRender_QScissorTest :: string where "Qt3DRender_QScissorTest = ''Qt3DRender::QScissorTest''"
definition Qt3DRender_QShaderImage :: string where "Qt3DRender_QShaderImage = ''Qt3DRender::QShaderImage''"
definition Qt3DRender_QShaderProgram :: string where "Qt3DRender_QShaderProgram = ''Qt3DRender::QShaderProgram''"
definition Qt3DRender_QShaderProgramBuilder :: string where "Qt3DRender_QShaderProgramBuilder = ''Qt3DRender::QShaderProgramBuilder''"
definition Qt3DRender_QSpotLight :: string where "Qt3DRender_QSpotLight = ''Qt3DRender::QSpotLight''"
definition Qt3DRender_QStencilOperationArguments :: string where "Qt3DRender_QStencilOperationArguments = ''Qt3DRender::QStencilOperationArguments''"
definition Qt3DRender_QStencilOperationArguments_Operation :: string where "Qt3DRender_QStencilOperationArguments_Operation = ''Qt3DRender::QStencilOperationArguments::Operation''"
definition Qt3DRender_QStencilTestArguments :: string where "Qt3DRender_QStencilTestArguments = ''Qt3DRender::QStencilTestArguments''"
definition Qt3DRender_QTextureData :: string where "Qt3DRender_QTextureData = ''Qt3DRender::QTextureData''"
definition Qt3DRender_QTextureDataUpdate :: string where "Qt3DRender_QTextureDataUpdate = ''Qt3DRender::QTextureDataUpdate''"
definition Qt3DRender_QTextureImageData :: string where "Qt3DRender_QTextureImageData = ''Qt3DRender::QTextureImageData''"
definition Qt3DRender_QTextureWrapMode :: string where "Qt3DRender_QTextureWrapMode = ''Qt3DRender::QTextureWrapMode''"
definition Qt3DRender_QTextureWrapMode_WrapMode :: string where "Qt3DRender_QTextureWrapMode_WrapMode = ''Qt3DRender::QTextureWrapMode::WrapMode''"
definition Qt_AspectRatioMode :: string where "Qt_AspectRatioMode = ''Qt::AspectRatioMode''"
definition Qt_DropAction :: string where "Qt_DropAction = ''Qt::DropAction''"
definition Qt_DropActions :: string where "Qt_DropActions = ''Qt::DropActions''"
definition Qt_KeyboardModifiers :: string where "Qt_KeyboardModifiers = ''Qt::KeyboardModifiers''"
definition Qt_LayoutDirection :: string where "Qt_LayoutDirection = ''Qt::LayoutDirection''"
definition Qt_MouseButtons :: string where "Qt_MouseButtons = ''Qt::MouseButtons''"
definition Qt_Orientation :: string where "Qt_Orientation = ''Qt::Orientation''"
definition Qt_ScreenOrientation :: string where "Qt_ScreenOrientation = ''Qt::ScreenOrientation''"
definition Qt_TransformationMode :: string where "Qt_TransformationMode = ''Qt::TransformationMode''"
definition Qt_WindowFlags :: string where "Qt_WindowFlags = ''Qt::WindowFlags''"

lemmas qt_name_defs =
  Q3DGraphsWidgetItem_def Q3DScene_def Q3DTheme_def QAbstract3DAxis_def QAbstract3DGraph_def
  QAbstract3DSeries_def QAbstractAnimation_def QAbstractAxis_def QAbstractBarSeries_def QAbstractButton_def
  QAbstractItemModel_def QAbstractItemModel_ptr_def QAbstractItemModelReplica_def QAbstractItemView_def
  QAbstractOAuth2_def QAbstractProxyModel_def QAbstractScrollArea_def QAbstractSeries_def QAbstractSlider_def
  QAbstractSocket_def QAbstractSpinBox_def QAbstractTextDocumentLayout_def QAction_def QApplication_def
  QAreaSeries_def QAudioBuffer_def QAudioDecoder_def QAudioDevice_def QAudioEngine_def QAudioFormat_def
  QAudioSource_def QAuthenticator_def QBar3DSeries_def QBarCategoryAxis_def QBarModelMapper_def QBarSeries_def
  QBarSet_def QBitArray_def QBluetoothAddress_def QBluetoothDeviceDiscoveryAgent_def QBluetoothDeviceInfo_def
  QBluetoothLocalDevice_def QBluetoothServiceDiscoveryAgent_def QBluetoothServiceInfo_def QBluetoothSocket_def
  QBluetoothUuid_def QBoxLayout_def QBoxPlotSeries_def QBrush_def QByteArray_def QCalendar_def
  QCalendarWidget_def QCamera_def QCameraDevice_def QCandlestickSeries_def QCandlestickSet_def
  QCapturableWindow_def QCborStreamReader_def QCborStreamWriter_def QChart_def QColor_def QColorSpace_def
  QColorSpace_TransferFunction_def QComboBox_def QCommandLineOption_def QCommandLineParser_def QCompleter_def
  QCompressedHelpInfo_def QConcatenateTablesProxyModel_def QCoreApplication_def QCursor_def QCustom3DItem_def
  QCustom3DLabel_def QCustom3DVolume_def QDBusAbstractInterface_def QDBusArgument_def QDBusConnection_def
  QDBusMessage_def QDBusPendingCall_def QDBusUnixFileDescriptor_def QDataStream_def QDataWidgetMapper_def
  QDate_def QDateTime_def QDateTimeAxis_def QDateTimeEdit_def QDeadlineTimer_def
  QDesignerFormEditorInterface_def QDialogButtonBox_def QDir_def QDnsDomainNameRecord_def
  QDnsHostAddressRecord_def QDnsLookup_def QDnsMailExchangeRecord_def QDnsTlsAssociationRecord_def
  QDomDocument_def QDomDocumentType_def QDomElement_def QDomImplementation_def QDomNamedNodeMap_def QDomNode_def
  QDomProcessingInstruction_def QDoubleSpinBox_def QEasingCurve_def QElapsedTimer_def QEvent_Type_def
  QEventPoint_def QFileDialog_def QFileInfo_def QFileSystemModel_def QFont_def QFontDatabase_def
  QFontDatabase_WritingSystem_def QFontMetrics_def QFontMetricsF_def QFontVariableAxis_def QFormLayout_def
  QGeoAddress_def QGeoAreaMonitorInfo_def QGeoCoordinate_def QGeoPolygon_def QGeoPositionInfo_def
  QGeoRectangle_def QGeoSatelliteInfo_def QGeoSatelliteInfoSource_def QGeoShape_def QGestureEvent_def
  QGlyphRun_def QGraphicsAnchorLayout_def QGraphicsDropShadowEffect_def QGraphicsEllipseItem_def
  QGraphicsGridLayout_def QGraphicsItem_def QGraphicsLayoutItem_def QGraphicsLinearLayout_def
  QGraphicsPixmapItem_def QGraphicsScene_def QGraphicsSceneDragDropEvent_def QGraphicsSceneMouseEvent_def
  QGraphicsSceneWheelEvent_def QGraphicsSimpleTextItem_def QGraphicsTextItem_def QGraphicsView_def
  QGraphicsWidget_def QGraphsLine_def QGraphsTheme_def QGridLayout_def QGuiApplication_def
  QHBoxPlotModelMapper_def QHCandlestickModelMapper_def QHeaderView_def QHeightMapSurfaceDataProxy_def
  QHelpEngineCore_def QHostAddress_def QHttp1Configuration_def QHttp2Configuration_def QHttpHeaders_def
  QIODevice_def QIODevice_ptr_def QIcon_def QIdentityProxyModel_def QImage_def QImageCapture_def
  QImageIOHandler_def QImageReader_def QImageWriter_def QInputDialog_def QInputMethod_def
  QItemModelBarDataProxy_def QItemModelScatterDataProxy_def QItemModelSurfaceDataProxy_def QItemSelection_def
  QItemSelectionModel_def QItemSelectionRange_def QJSManagedValue_def QJSPrimitiveValue_def QJSValue_def
  QJsonDocument_def QJsonValue_def QKeyCombination_def QKeySequence_def QLCDNumber_def QLayout_def QLineEdit_def
  QLineF_def QLinearGradient_def QListView_def QListWidgetItem_def QLocalSocket_def QLocale_def
  QLocale_FormatType_def QLogValue3DAxisFormatter_def QLowEnergyAdvertisingData_def
  QLowEnergyAdvertisingParameters_def QLowEnergyCharacteristic_def QLowEnergyCharacteristicData_def
  QLowEnergyConnectionParameters_def QLowEnergyController_def QLowEnergyDescriptor_def
  QLowEnergyDescriptorData_def QLowEnergyService_def QLowEnergyServiceData_def QMainWindow_def QMargins_def
  QMarginsF_def QMatrix4x4_def QMdiArea_def QMediaCaptureSession_def QMediaFormat_def QMediaPlayer_def
  QMediaRecorder_def QMediaTimeRange_def QMessageBox_def QMessageBox_StandardButton_def QMetaMethod_def
  QMetaProperty_def QMetaType_def QMimeType_def QModelIndex_def QNativeIpcKey_def QNdefNfcSmartPosterRecord_def
  QNdefNfcTextRecord_def QNdefRecord_def QNetworkAccessManager_def QNetworkAddressEntry_def
  QNetworkCacheMetaData_def QNetworkCookie_def QNetworkDatagram_def QNetworkDiskCache_def QNetworkInterface_def
  QNetworkProxy_def QNetworkProxyQuery_def QNetworkReply_def QNetworkRequest_def QNetworkRequestFactory_def
  QNmeaPositionInfoSource_def QNmeaSatelliteInfoSource_def QOAuth1Signature_def QOAuth2AuthorizationCodeFlow_def
  QOAuthHttpServerReplyHandler_def QObject_def QObject_ptr_def QOpenGLBuffer_def QOpenGLContext_def
  QOpenGLDebugLogger_def QOpenGLDebugMessage_def QOpenGLFramebufferObject_def QOpenGLFramebufferObjectFormat_def
  QOpenGLPaintDevice_def QOpenGLPixelTransferOptions_def QOpenGLShaderProgram_def QOpenGLTexture_def
  QOpenGLTextureBlitter_def QOpenGLVersionProfile_def QOperatingSystemVersion_def QPageLayout_def
  QPageRanges_def QPageSize_def QPageSize_PageSizeId_def QPaintEngineState_def QPainter_def QPainterPath_def
  QPainterPathStroker_def QPalette_def QPalette_ColorRole_def QPdfDocumentRenderOptions_def QPdfOutputIntent_def
  QPdfSelection_def QPen_def QPersistentModelIndex_def QPieModelMapper_def QPieSeries_def QPieSlice_def
  QPinchGesture_def QPixmap_def QPlainTextDocumentLayout_def QPlainTextEdit_def QPlaybackOptions_def QPoint_def
  QPointF_def QPointingDeviceUniqueId_def QPolygon_def QPolygonF_def QPrintPreviewWidget_def QPrinter_def
  QPrinterInfo_def QProcess_def QProcessEnvironment_def QProgressBar_def QProgressDialog_def QQmlComponent_def
  QQmlEngine_def QQmlError_def QQmlExpression_def QQmlListReference_def QQmlProperty_def QQuaternion_def
  QQuick3DGeometry_def QQuickGraphicsConfiguration_def QQuickGraphicsDevice_def QQuickItem_def
  QQuickPaintedItem_def QQuickRenderControl_def QQuickRenderTarget_def QQuickWebEngineProfile_def
  QQuickWindow_def QRadialGradient_def QRawFont_def QRect_def QRectF_def QRegion_def QRegularExpression_def
  QRegularExpressionMatch_def QRegularExpressionMatchIterator_def QRemoteObjectNode_def QRestAccessManager_def
  QSGGeometry_def QSGOpaqueTextureMaterial_def QSGSimpleTextureNode_def QScatter3DSeries_def QScatterSeries_def
  QScrollerProperties_def QSensor_def QSerialPort_def QSerialPortInfo_def QSessionManager_def QSettings_def
  QSharedMemory_def QSize_def QSizeF_def QSizePolicy_def QSizePolicy_Policy_def QSortFilterProxyModel_def
  QSoundEffect_def QSpatialSound_def QSplitter_def QSqlDatabase_def QSqlField_def QSqlQuery_def
  QSqlQueryModel_def QSqlRecord_def QSqlRelationalTableModel_def QSqlTableModel_def QSslCertificate_def
  QSslCertificateExtension_def QSslConfiguration_def QSslDiffieHellmanParameters_def QSslEllipticCurve_def
  QSslPreSharedKeyAuthenticator_def QSslSocket_def QStandardItem_def QStandardItemModel_def QStaticText_def
  QStorageInfo_def QString_def QStringListModel_def QStyleHints_def QStyleOptionViewItem_def
  QSurface3DSeries_def QSurfaceDataProxy_def QSurfaceFormat_def QSvgGenerator_def QSvgRenderer_def
  QSystemSemaphore_def QSystemTrayIcon_def QT3DANIMATION_QABSTRACTCLIPBLENDNODE_def QT3DCORE_QATTRIBUTE_def
  QT3DCORE_QNODE_def QT3DRENDER_QABSTRACTTEXTURE_def QT3DRENDER_QBLENDEQUATIONARGUMENTS_def
  QT3DRENDER_QRENDERTARGETOUTPUT_def QT3DRENDER_QSTENCILOPERATIONARGUMENTS_def QT3DRENDER_QTEXTUREWRAPMODE_def
  QTBLUETOOTH_QBLUETOOTHADDRESS_def QTBLUETOOTH_QBLUETOOTHSERVICEINFO_def QTBLUETOOTH_QBLUETOOTHUUID_def
  QTBLUETOOTH_QLOWENERGYADVERTISINGPARAMETERS_def QTBLUETOOTH_QLOWENERGYCONTROLLER_def
  QTBLUETOOTH_QLOWENERGYSERVICE_def QTCHARTS_QLEGEND_def QTCORE_QABSTRACTANIMATION_def
  QTCORE_QABSTRACTITEMMODEL_def QTCORE_QBYTEARRAY_def QTCORE_QCALENDAR_def QTCORE_QCOMMANDLINEOPTION_def
  QTCORE_QDATASTREAM_def QTCORE_QDATE_def QTCORE_QDATETIME_def QTCORE_QDEADLINETIMER_def QTCORE_QDIR_def
  QTCORE_QEASINGCURVE_def QTCORE_QEVENT_def QTCORE_QIODEVICE_def QTCORE_QITEMSELECTIONRANGE_def
  QTCORE_QLOCALE_def QTCORE_QMARGINS_def QTCORE_QMARGINSF_def QTCORE_QMETATYPE_def QTCORE_QMIMEDATA_def
  QTCORE_QMODELINDEX_def QTCORE_QNATIVEIPCKEY_def QTCORE_QOBJECT_def QTCORE_QPOINT_def QTCORE_QPOINTF_def
  QTCORE_QRECT_def QTCORE_QRECTF_def QTCORE_QREGULAREXPRESSION_def QTCORE_QSIZE_def QTCORE_QSIZEF_def
  QTCORE_QSYSTEMSEMAPHORE_def QTCORE_QTIME_def QTCORE_QTIMEZONE_def QTCORE_QURL_def
  QTCORE_QXMLSTREAMATTRIBUTE_def QTDATAVISUALIZATION_Q3DTHEME_def
  QTDATAVISUALIZATION_QABSTRACT3DINPUTHANDLER_def QTDATAVISUALIZATION_QVALUE3DAXIS_def
  QTDBUS_QDBUSCONNECTION_def QTDBUS_QDBUSMESSAGE_def QTGRAPHS_QPIESLICE_def QTGUI_QBRUSH_def QTGUI_QCOLOR_def
  QTGUI_QCOLORSPACE_def QTGUI_QFONT_def QTGUI_QICON_def QTGUI_QIMAGE_def QTGUI_QINPUTDEVICE_def
  QTGUI_QKEYSEQUENCE_def QTGUI_QLINEARGRADIENT_def QTGUI_QMATRIX4X4_def QTGUI_QOPENGLCONTEXT_def
  QTGUI_QPAGELAYOUT_def QTGUI_QPAGESIZE_def QTGUI_QPAINTERPATH_def QTGUI_QPALETTE_def QTGUI_QPEN_def
  QTGUI_QPIXMAP_def QTGUI_QPOINTINGDEVICE_def QTGUI_QPOLYGON_def QTGUI_QPOLYGONF_def QTGUI_QQUATERNION_def
  QTGUI_QREGION_def QTGUI_QSCREEN_def QTGUI_QSURFACEFORMAT_def QTGUI_QTEXTBLOCK_def QTGUI_QTEXTCHARFORMAT_def
  QTGUI_QTEXTCURSOR_def QTGUI_QTEXTDOCUMENT_def QTGUI_QTEXTFRAMEFORMAT_def QTGUI_QTEXTOPTION_def
  QTGUI_QTRANSFORM_def QTGUI_QVECTOR2D_def QTGUI_QVECTOR3D_def QTGUI_QVECTOR4D_def QTGUI_QWINDOW_def
  QTMULTIMEDIA_QAUDIODEVICE_def QTMULTIMEDIA_QAUDIOFORMAT_def QTMULTIMEDIA_QCAMERA_def
  QTMULTIMEDIA_QCAMERADEVICE_def QTMULTIMEDIA_QIMAGECAPTURE_def QTMULTIMEDIA_QMEDIAFORMAT_def
  QTMULTIMEDIA_QMEDIAMETADATA_def QTMULTIMEDIA_QMEDIATIMERANGE_def QTMULTIMEDIA_QVIDEOFRAMEFORMAT_def
  QTNETWORK_QABSTRACTSOCKET_def QTNETWORK_QHOSTADDRESS_def QTNETWORK_QHTTPHEADERS_def
  QTNETWORK_QNETWORKACCESSMANAGER_def QTNETWORK_QNETWORKCOOKIE_def QTNETWORK_QNETWORKINTERFACE_def
  QTNETWORK_QNETWORKPROXY_def QTNETWORK_QNETWORKPROXYQUERY_def QTNETWORK_QNETWORKREPLY_def
  QTNETWORK_QNETWORKREQUEST_def QTNETWORK_QSSLCERTIFICATE_def QTNETWORK_QSSLCONFIGURATION_def
  QTNFC_QNDEFRECORD_def QTOPENGL_QOPENGLDEBUGMESSAGE_def QTOPENGL_QOPENGLTEXTURE_def
  QTPOSITIONING_QGEOCOORDINATE_def QTPOSITIONING_QGEOSATELLITEINFO_def QTPOSITIONING_QGEOSHAPE_def
  QTPRINTSUPPORT_QPRINTER_def QTQML_QJSVALUE_def QTQML_QQMLCONTEXT_def QTQML_QQMLENGINE_def
  QTQUICK_QQUICKITEM_def QTQUICK_QSGTEXTURE_def QTSPATIALAUDIO_QAUDIOENGINE_def QTSQL_QSQLDATABASE_def
  QTSTATEMACHINE_QABSTRACTSTATE_def QTSTATEMACHINE_QABSTRACTTRANSITION_def QTSTATEMACHINE_QSTATE_def
  QTWEBENGINECORE_QWEBENGINEHISTORYITEM_def QTWEBENGINECORE_QWEBENGINEHTTPREQUEST_def
  QTWEBENGINECORE_QWEBENGINEPAGE_def QTWEBENGINECORE_QWEBENGINEPROFILE_def QTWEBENGINECORE_QWEBENGINESCRIPT_def
  QTWEBENGINECORE_QWEBENGINESETTINGS_def QTWEBENGINECORE_QWEBENGINEURLSCHEME_def QTWIDGETS_QABSTRACTBUTTON_def
  QTWIDGETS_QABSTRACTITEMDELEGATE_def QTWIDGETS_QABSTRACTITEMVIEW_def QTWIDGETS_QDIALOGBUTTONBOX_def
  QTWIDGETS_QFILEDIALOG_def QTWIDGETS_QGESTURE_def QTWIDGETS_QGRAPHICSVIEW_def QTWIDGETS_QLAYOUT_def
  QTWIDGETS_QMESSAGEBOX_def QTWIDGETS_QSIZEPOLICY_def QTWIDGETS_QSTYLE_def QTWIDGETS_QSTYLEOPTIONVIEWITEM_def
  QTWIDGETS_QWIDGET_def QTXML_QDOMNODE_def QT_ASPECTRATIOMODE_def QT_DROPACTION_def QT_DROPACTIONS_def
  QT_KEYBOARDMODIFIERS_def QT_LAYOUTDIRECTION_def QT_MOUSEBUTTON_def QT_MOUSEBUTTONS_def QT_ORIENTATION_def
  QT_TRANSFORMATIONMODE_def QT_WINDOWFLAGS_def QTabBar_def QTabWidget_def QTableView_def QTableWidget_def
  QTableWidgetItem_def QTableWidgetSelectionRange_def QTextBlock_def QTextBlockFormat_def
  QTextBoundaryFinder_def QTextBrowser_def QTextCharFormat_def QTextCursor_def QTextDocument_def
  QTextDocument_ptr_def QTextDocumentFragment_def QTextDocumentWriter_def QTextEdit_def QTextFormat_def
  QTextFrameFormat_def QTextFrameFormat_BorderStyle_def QTextImageFormat_def QTextInlineObject_def
  QTextLayout_def QTextLine_def QTextListFormat_def QTextOption_def QTextStream_def QTextTableCell_def
  QTextTableCellFormat_def QTextTableFormat_def QTextToSpeech_def QTime_def QTimeLine_def QTimeZone_def
  QTransform_def QTransposeProxyModel_def QTreeView_def QTreeWidgetItem_def QUndoStack_def QUrl_def
  QVBoxPlotModelMapper_def QVCandlestickModelMapper_def QValue3DAxis_def QValueAxis_def QVector2D_def
  QVector3D_def QVector4D_def QVersionNumber_def QVideoFrame_def QVideoFrameFormat_def
  QWebEngineCertificateError_def QWebEngineClientCertificateSelection_def QWebEngineContextMenuRequest_def
  QWebEngineDownloadRequest_def QWebEngineFullScreenRequest_def QWebEngineHistory_def QWebEngineHistoryItem_def
  QWebEngineHttpRequest_def QWebEngineLoadingInfo_def QWebEngineNotification_def QWebEnginePage_def
  QWebEngineProfile_def QWebEngineRegisterProtocolHandlerRequest_def QWebEngineScript_def
  QWebEngineScriptCollection_def QWebEngineSettings_def QWebEngineUrlRequestInfo_def QWebEngineUrlScheme_def
  QWebEngineView_def QWebSocket_def QWebSocketCorsAuthenticator_def QWebSocketHandshakeOptions_def
  QWebSocketServer_def QWidget_def QWidget_ptr_def QWindow_def QWizard_def QXYSeries_def QXmlStreamAttribute_def
  QXmlStreamAttributes_def QXmlStreamReader_def QXmlStreamWriter_def Qt3DAnimation_QAbstractClipAnimator_def
  Qt3DAnimation_QAdditiveClipBlend_def Qt3DAnimation_QAnimationClipData_def
  Qt3DAnimation_QAnimationController_def Qt3DAnimation_QAnimationGroup_def Qt3DAnimation_QChannel_def
  Qt3DAnimation_QChannelComponent_def Qt3DAnimation_QChannelMapping_def Qt3DAnimation_QKeyFrame_def
  Qt3DAnimation_QKeyframeAnimation_def Qt3DAnimation_QLerpClipBlend_def Qt3DAnimation_QMorphingAnimation_def
  Qt3DAnimation_QVertexBlendAnimation_def Qt3DCore_QAspectEngine_def Qt3DCore_QAttribute_def
  Qt3DCore_QAttribute_VertexBaseType_def Qt3DCore_QBoundingVolume_def Qt3DCore_QGeometryView_def
  Qt3DCore_QJoint_def Qt3DCore_QNode_ptr_def Qt3DCore_QTransform_def Qt3DExtras_QAbstractCameraController_def
  Qt3DExtras_QConeGeometry_def Qt3DExtras_QConeGeometryView_def Qt3DExtras_QConeMesh_def
  Qt3DExtras_QCuboidGeometry_def Qt3DExtras_QCuboidGeometryView_def Qt3DExtras_QCuboidMesh_def
  Qt3DExtras_QCylinderGeometry_def Qt3DExtras_QCylinderGeometryView_def Qt3DExtras_QCylinderMesh_def
  Qt3DExtras_QDiffuseMapMaterial_def Qt3DExtras_QDiffuseSpecularMapMaterial_def
  Qt3DExtras_QDiffuseSpecularMaterial_def Qt3DExtras_QExtrudedTextGeometry_def Qt3DExtras_QExtrudedTextMesh_def
  Qt3DExtras_QForwardRenderer_def Qt3DExtras_QGoochMaterial_def Qt3DExtras_QMetalRoughMaterial_def
  Qt3DExtras_QMorphPhongMaterial_def Qt3DExtras_QNormalDiffuseMapMaterial_def
  Qt3DExtras_QNormalDiffuseSpecularMapMaterial_def Qt3DExtras_QPhongAlphaMaterial_def
  Qt3DExtras_QPhongMaterial_def Qt3DExtras_QPlaneGeometry_def Qt3DExtras_QPlaneGeometryView_def
  Qt3DExtras_QSphereGeometry_def Qt3DExtras_QSphereGeometryView_def Qt3DExtras_QSphereMesh_def
  Qt3DExtras_QSpriteSheetItem_def Qt3DExtras_QText2DEntity_def Qt3DExtras_QTextureMaterial_def
  Qt3DExtras_QTorusGeometry_def Qt3DExtras_QTorusGeometryView_def Qt3DInput_QAbstractPhysicalDevice_def
  Qt3DInput_QAxisAccumulator_def Qt3DInput_QButtonAxisInput_def Qt3DRender_QAbstractRayCaster_def
  Qt3DRender_QAbstractTexture_def Qt3DRender_QAbstractTexture_ptr_def Qt3DRender_QAbstractTexture_Filter_def
  Qt3DRender_QAbstractTextureImage_def Qt3DRender_QBlendEquationArguments_def
  Qt3DRender_QBlendEquationArguments_Blending_def Qt3DRender_QBlitFramebuffer_def Qt3DRender_QCamera_def
  Qt3DRender_QCameraLens_def Qt3DRender_QClearBuffers_def Qt3DRender_QComputeCommand_def
  Qt3DRender_QGeometryRenderer_def Qt3DRender_QGraphicsApiFilter_def Qt3DRender_QLevelOfDetail_def
  Qt3DRender_QLevelOfDetailBoundingSphere_def Qt3DRender_QObjectPicker_def Qt3DRender_QPaintedTextureImage_def
  Qt3DRender_QPickEvent_def Qt3DRender_QPickTriangleEvent_def Qt3DRender_QPickingSettings_def
  Qt3DRender_QProximityFilter_def Qt3DRender_QRayCasterHit_def Qt3DRender_QRenderCapabilities_def
  Qt3DRender_QRenderPass_def Qt3DRender_QRenderSurfaceSelector_def Qt3DRender_QRenderTargetOutput_def
  Qt3DRender_QRenderTargetOutput_AttachmentPoint_def Qt3DRender_QScissorTest_def Qt3DRender_QShaderImage_def
  Qt3DRender_QShaderProgram_def Qt3DRender_QShaderProgramBuilder_def Qt3DRender_QSpotLight_def
  Qt3DRender_QStencilOperationArguments_def Qt3DRender_QStencilOperationArguments_Operation_def
  Qt3DRender_QStencilTestArguments_def Qt3DRender_QTextureData_def Qt3DRender_QTextureDataUpdate_def
  Qt3DRender_QTextureImageData_def Qt3DRender_QTextureWrapMode_def Qt3DRender_QTextureWrapMode_WrapMode_def
  Qt_AspectRatioMode_def Qt_DropAction_def Qt_DropActions_def Qt_KeyboardModifiers_def Qt_LayoutDirection_def
  Qt_MouseButtons_def Qt_Orientation_def Qt_ScreenOrientation_def Qt_TransformationMode_def Qt_WindowFlags_def

end
