(* ===== verification/Modules_A.thy ===== *)
theory Modules_A
  imports Module_Factories Qt_Names
begin

text \<open>
  The class tables of the module factories (generated\_modules), QAxContainer to QtOpenGL. A table lists the
  classes in the file's order; a module with many classes names its functions as the file does, a
  small one collects them in its record.
\<close>

definition classes_qaxcontainer :: "string list" where
  "classes_qaxcontainer = [
     ''QAxBase'', ''QAxBaseObject'', ''QAxBaseWidget'', ''QAxObject'', ''QAxObjectInterface'', ''QAxWidget'']"

definition always_qaxcontainer :: "string list" where
  "always_qaxcontainer = [
     ''QAxObject'', ''QAxWidget'']"

definition module_qaxcontainer :: "('w, 'o) qt \<Rightarrow> ('w, 'o) build \<Rightarrow> ('w, 'o) qmodule" where
  "module_qaxcontainer Q B = \<lparr>
     m_name = ''QAxContainer'',
     m_hasClass = has_in B ''QAxContainer'' classes_qaxcontainer always_qaxcontainer,
     m_construct = construct_in Q B ''QAxContainer'' classes_qaxcontainer,
     m_constructorNames = constructors_in Q B ''QAxContainer'' classes_qaxcontainer always_qaxcontainer,
     m_valueType = value_type_in B ''QAxContainer'' classes_qaxcontainer,
     m_valueTypeNames = value_types_in B ''QAxContainer'' classes_qaxcontainer,
     m_metaObject = meta_object_in Q B ''QAxContainer'' classes_qaxcontainer,
     m_metaObjectNames = meta_object_names_in Q B ''QAxContainer'' classes_qaxcontainer\<rparr>"

definition classes_qt3danimation :: "string list" where
  "classes_qt3danimation = [
     ''Qt3DAnimation::QAbstractAnimation'', ''Qt3DAnimation::QAbstractAnimationClip'',
     ''Qt3DAnimation::QAbstractChannelMapping'', Qt3DAnimation_QAbstractClipAnimator,
     ''Qt3DAnimation::QAbstractClipBlendNode'', Qt3DAnimation_QAdditiveClipBlend, ''Qt3DAnimation::QAnimationAspect'',
     ''Qt3DAnimation::QAnimationClip'', Qt3DAnimation_QAnimationClipData, ''Qt3DAnimation::QAnimationClipLoader'',
     Qt3DAnimation_QAnimationController, Qt3DAnimation_QAnimationGroup, ''Qt3DAnimation::QBlendedClipAnimator'',
     Qt3DAnimation_QChannel, Qt3DAnimation_QChannelComponent, ''Qt3DAnimation::QChannelMapper'',
     Qt3DAnimation_QChannelMapping, ''Qt3DAnimation::QClipAnimator'', ''Qt3DAnimation::QClipBlendValue'',
     ''Qt3DAnimation::QClock'', Qt3DAnimation_QKeyFrame, Qt3DAnimation_QKeyframeAnimation, Qt3DAnimation_QLerpClipBlend,
     ''Qt3DAnimation::QMorphTarget'', Qt3DAnimation_QMorphingAnimation, ''Qt3DAnimation::QSkeletonMapping'',
     Qt3DAnimation_QVertexBlendAnimation]"

definition module_qt3danimation :: "('w, 'o) qt \<Rightarrow> ('w, 'o) build \<Rightarrow> ('w, 'o) qmodule" where
  "module_qt3danimation Q B = \<lparr>
     m_name = ''Qt3DAnimation'',
     m_hasClass = has_in B ''Qt3DAnimation'' classes_qt3danimation [],
     m_construct = construct_in Q B ''Qt3DAnimation'' classes_qt3danimation,
     m_constructorNames = constructors_in Q B ''Qt3DAnimation'' classes_qt3danimation [],
     m_valueType = value_type_in B ''Qt3DAnimation'' classes_qt3danimation,
     m_valueTypeNames = value_types_in B ''Qt3DAnimation'' classes_qt3danimation,
     m_metaObject = meta_object_in Q B ''Qt3DAnimation'' classes_qt3danimation,
     m_metaObjectNames = meta_object_names_in Q B ''Qt3DAnimation'' classes_qt3danimation\<rparr>"

definition classes_qt3dcore :: "string list" where
  "classes_qt3dcore = [
     ''Qt3DCore::QAbstractAspect'', ''Qt3DCore::QAbstractFunctor'', ''Qt3DCore::QAbstractSkeleton'',
     ''Qt3DCore::QArmature'', Qt3DCore_QAspectEngine, Qt3DCore_QAttribute, ''Qt3DCore::QBackendNode'',
     ''Qt3DCore::QBackendNodeMapper'', Qt3DCore_QBoundingVolume, ''Qt3DCore::QBuffer'', ''Qt3DCore::QComponent'',
     ''Qt3DCore::QCoreSettings'', ''Qt3DCore::QEntity'', ''Qt3DCore::QGeometry'', Qt3DCore_QGeometryView, Qt3DCore_QJoint,
     ''Qt3DCore::QNode'', ''Qt3DCore::QNodeId'', ''Qt3DCore::QNodeIdTypePair'', ''Qt3DCore::QSkeleton'',
     ''Qt3DCore::QSkeletonLoader'', Qt3DCore_QTransform]"

definition module_qt3dcore :: "('w, 'o) qt \<Rightarrow> ('w, 'o) build \<Rightarrow> ('w, 'o) qmodule" where
  "module_qt3dcore Q B = \<lparr>
     m_name = ''Qt3DCore'',
     m_hasClass = has_in B ''Qt3DCore'' classes_qt3dcore [],
     m_construct = construct_in Q B ''Qt3DCore'' classes_qt3dcore,
     m_constructorNames = constructors_in Q B ''Qt3DCore'' classes_qt3dcore [],
     m_valueType = value_type_in B ''Qt3DCore'' classes_qt3dcore,
     m_valueTypeNames = value_types_in B ''Qt3DCore'' classes_qt3dcore,
     m_metaObject = meta_object_in Q B ''Qt3DCore'' classes_qt3dcore,
     m_metaObjectNames = meta_object_names_in Q B ''Qt3DCore'' classes_qt3dcore\<rparr>"

definition classes_qt3dextras_0 :: "string list" where
  "classes_qt3dextras_0 = [
     Qt3DExtras_QAbstractCameraController, ''Qt3DExtras::QAbstractSpriteSheet'', Qt3DExtras_QConeGeometry,
     Qt3DExtras_QConeGeometryView, Qt3DExtras_QConeMesh, Qt3DExtras_QCuboidGeometry, Qt3DExtras_QCuboidGeometryView,
     Qt3DExtras_QCuboidMesh, Qt3DExtras_QCylinderGeometry, Qt3DExtras_QCylinderGeometryView, Qt3DExtras_QCylinderMesh,
     Qt3DExtras_QDiffuseMapMaterial, Qt3DExtras_QDiffuseSpecularMapMaterial, Qt3DExtras_QDiffuseSpecularMaterial,
     Qt3DExtras_QExtrudedTextGeometry, Qt3DExtras_QExtrudedTextMesh, ''Qt3DExtras::QFirstPersonCameraController'',
     Qt3DExtras_QForwardRenderer, Qt3DExtras_QGoochMaterial, Qt3DExtras_QMetalRoughMaterial,
     Qt3DExtras_QMorphPhongMaterial, ''Qt3DExtras::QNormalDiffuseMapAlphaMaterial'', Qt3DExtras_QNormalDiffuseMapMaterial,
     Qt3DExtras_QNormalDiffuseSpecularMapMaterial, ''Qt3DExtras::QOrbitCameraController'',
     ''Qt3DExtras::QPerVertexColorMaterial'', Qt3DExtras_QPhongAlphaMaterial, Qt3DExtras_QPhongMaterial,
     Qt3DExtras_QPlaneGeometry, Qt3DExtras_QPlaneGeometryView, ''Qt3DExtras::QPlaneMesh'', ''Qt3DExtras::QSkyboxEntity'',
     Qt3DExtras_QSphereGeometry, Qt3DExtras_QSphereGeometryView, Qt3DExtras_QSphereMesh, ''Qt3DExtras::QSpriteGrid'',
     ''Qt3DExtras::QSpriteSheet'']"

definition classes_qt3dextras_1 :: "string list" where
  "classes_qt3dextras_1 = [
     Qt3DExtras_QSpriteSheetItem, Qt3DExtras_QText2DEntity, Qt3DExtras_QTextureMaterial, Qt3DExtras_QTorusGeometry,
     Qt3DExtras_QTorusGeometryView, ''Qt3DExtras::QTorusMesh'']"

definition classes_qt3dextras :: "string list" where
  "classes_qt3dextras = concat [classes_qt3dextras_0, classes_qt3dextras_1]"

definition has_qt3dextras :: "('w, 'o) build \<Rightarrow> qstring \<Rightarrow> bool" where
  "has_qt3dextras B = has_in B ''Qt3DExtras'' classes_qt3dextras []"

definition construct_qt3dextras :: "('w, 'o) qt \<Rightarrow> ('w, 'o) build \<Rightarrow> qstring \<Rightarrow> ptr \<Rightarrow> 'w \<Rightarrow> (ptr \<times> qmsg option) \<times> 'w" where
  "construct_qt3dextras Q B = construct_in Q B ''Qt3DExtras'' classes_qt3dextras"

definition constructors_qt3dextras :: "('w, 'o) qt \<Rightarrow> ('w, 'o) build \<Rightarrow> qstring list" where
  "constructors_qt3dextras Q B = constructors_in Q B ''Qt3DExtras'' classes_qt3dextras []"

definition value_type_qt3dextras :: "('w, 'o) build \<Rightarrow> qstring \<Rightarrow> metatype" where
  "value_type_qt3dextras B = value_type_in B ''Qt3DExtras'' classes_qt3dextras"

definition value_types_qt3dextras :: "('w, 'o) build \<Rightarrow> qstring list" where
  "value_types_qt3dextras B = value_types_in B ''Qt3DExtras'' classes_qt3dextras"

definition meta_object_qt3dextras :: "('w, 'o) qt \<Rightarrow> ('w, 'o) build \<Rightarrow> qstring \<Rightarrow> metaobject option" where
  "meta_object_qt3dextras Q B = meta_object_in Q B ''Qt3DExtras'' classes_qt3dextras"

definition meta_object_names_qt3dextras :: "('w, 'o) qt \<Rightarrow> ('w, 'o) build \<Rightarrow> qstring list" where
  "meta_object_names_qt3dextras Q B = meta_object_names_in Q B ''Qt3DExtras'' classes_qt3dextras"

definition module_qt3dextras :: "('w, 'o) qt \<Rightarrow> ('w, 'o) build \<Rightarrow> ('w, 'o) qmodule" where
  "module_qt3dextras Q B = \<lparr>
     m_name = ''Qt3DExtras'',
     m_hasClass = has_qt3dextras B,
     m_construct = construct_qt3dextras Q B,
     m_constructorNames = constructors_qt3dextras Q B,
     m_valueType = value_type_qt3dextras B,
     m_valueTypeNames = value_types_qt3dextras B,
     m_metaObject = meta_object_qt3dextras Q B,
     m_metaObjectNames = meta_object_names_qt3dextras Q B\<rparr>"

definition classes_qt3dinput :: "string list" where
  "classes_qt3dinput = [
     ''Qt3DInput::QAbstractActionInput'', ''Qt3DInput::QAbstractAxisInput'', Qt3DInput_QAbstractPhysicalDevice,
     ''Qt3DInput::QAction'', ''Qt3DInput::QActionInput'', ''Qt3DInput::QAnalogAxisInput'', ''Qt3DInput::QAxis'',
     Qt3DInput_QAxisAccumulator, ''Qt3DInput::QAxisSetting'', Qt3DInput_QButtonAxisInput, ''Qt3DInput::QInputAspect'',
     ''Qt3DInput::QInputChord'', ''Qt3DInput::QInputSequence'', ''Qt3DInput::QInputSettings'', ''Qt3DInput::QKeyEvent'',
     ''Qt3DInput::QKeyboardDevice'', ''Qt3DInput::QKeyboardHandler'', ''Qt3DInput::QLogicalDevice'',
     ''Qt3DInput::QMouseDevice'', ''Qt3DInput::QMouseEvent'', ''Qt3DInput::QMouseHandler'', ''Qt3DInput::QWheelEvent'']"

definition module_qt3dinput :: "('w, 'o) qt \<Rightarrow> ('w, 'o) build \<Rightarrow> ('w, 'o) qmodule" where
  "module_qt3dinput Q B = \<lparr>
     m_name = ''Qt3DInput'',
     m_hasClass = has_in B ''Qt3DInput'' classes_qt3dinput [],
     m_construct = construct_in Q B ''Qt3DInput'' classes_qt3dinput,
     m_constructorNames = constructors_in Q B ''Qt3DInput'' classes_qt3dinput [],
     m_valueType = value_type_in B ''Qt3DInput'' classes_qt3dinput,
     m_valueTypeNames = value_types_in B ''Qt3DInput'' classes_qt3dinput,
     m_metaObject = meta_object_in Q B ''Qt3DInput'' classes_qt3dinput,
     m_metaObjectNames = meta_object_names_in Q B ''Qt3DInput'' classes_qt3dinput\<rparr>"

definition classes_qt3dlogic :: "string list" where
  "classes_qt3dlogic = [
     ''Qt3DLogic::QFrameAction'', ''Qt3DLogic::QLogicAspect'']"

definition module_qt3dlogic :: "('w, 'o) qt \<Rightarrow> ('w, 'o) build \<Rightarrow> ('w, 'o) qmodule" where
  "module_qt3dlogic Q B = \<lparr>
     m_name = ''Qt3DLogic'',
     m_hasClass = has_in B ''Qt3DLogic'' classes_qt3dlogic [],
     m_construct = construct_in Q B ''Qt3DLogic'' classes_qt3dlogic,
     m_constructorNames = constructors_in Q B ''Qt3DLogic'' classes_qt3dlogic [],
     m_valueType = value_type_in B ''Qt3DLogic'' classes_qt3dlogic,
     m_valueTypeNames = value_types_in B ''Qt3DLogic'' classes_qt3dlogic,
     m_metaObject = meta_object_in Q B ''Qt3DLogic'' classes_qt3dlogic,
     m_metaObjectNames = meta_object_names_in Q B ''Qt3DLogic'' classes_qt3dlogic\<rparr>"

definition classes_qt3drender_0 :: "string list" where
  "classes_qt3drender_0 = [
     ''Qt3DRender::QAbstractLight'', Qt3DRender_QAbstractRayCaster, Qt3DRender_QAbstractTexture,
     Qt3DRender_QAbstractTextureImage, ''Qt3DRender::QAlphaCoverage'', ''Qt3DRender::QAlphaTest'',
     ''Qt3DRender::QBlendEquation'', Qt3DRender_QBlendEquationArguments, Qt3DRender_QBlitFramebuffer, Qt3DRender_QCamera,
     Qt3DRender_QCameraLens, ''Qt3DRender::QCameraSelector'', Qt3DRender_QClearBuffers, ''Qt3DRender::QClipPlane'',
     ''Qt3DRender::QColorMask'', Qt3DRender_QComputeCommand, ''Qt3DRender::QCullFace'', ''Qt3DRender::QDepthRange'',
     ''Qt3DRender::QDepthTest'', ''Qt3DRender::QDirectionalLight'', ''Qt3DRender::QDispatchCompute'',
     ''Qt3DRender::QDithering'', ''Qt3DRender::QEffect'', ''Qt3DRender::QEnvironmentLight'', ''Qt3DRender::QFilterKey'',
     ''Qt3DRender::QFrameGraphNode'', ''Qt3DRender::QFrontFace'', ''Qt3DRender::QFrustumCulling'',
     Qt3DRender_QGeometryRenderer, Qt3DRender_QGraphicsApiFilter, ''Qt3DRender::QLayer'', ''Qt3DRender::QLayerFilter'',
     Qt3DRender_QLevelOfDetail, Qt3DRender_QLevelOfDetailBoundingSphere, ''Qt3DRender::QLevelOfDetailSwitch'',
     ''Qt3DRender::QLineWidth'', ''Qt3DRender::QMaterial'']"

definition classes_qt3drender_1 :: "string list" where
  "classes_qt3drender_1 = [
     ''Qt3DRender::QMemoryBarrier'', ''Qt3DRender::QMesh'', ''Qt3DRender::QMultiSampleAntiAliasing'',
     ''Qt3DRender::QNoDepthMask'', ''Qt3DRender::QNoDraw'', ''Qt3DRender::QNoPicking'', Qt3DRender_QObjectPicker,
     Qt3DRender_QPaintedTextureImage, ''Qt3DRender::QParameter'', Qt3DRender_QPickEvent, ''Qt3DRender::QPickLineEvent'',
     ''Qt3DRender::QPickPointEvent'', Qt3DRender_QPickTriangleEvent, ''Qt3DRender::QPickingProxy'',
     Qt3DRender_QPickingSettings, ''Qt3DRender::QPointLight'', ''Qt3DRender::QPointSize'', ''Qt3DRender::QPolygonOffset'',
     Qt3DRender_QProximityFilter, ''Qt3DRender::QRasterMode'', ''Qt3DRender::QRayCaster'', Qt3DRender_QRayCasterHit,
     ''Qt3DRender::QRenderAspect'', Qt3DRender_QRenderCapabilities, ''Qt3DRender::QRenderCapture'',
     ''Qt3DRender::QRenderCaptureReply'', Qt3DRender_QRenderPass, ''Qt3DRender::QRenderPassFilter'',
     ''Qt3DRender::QRenderSettings'', ''Qt3DRender::QRenderState'', ''Qt3DRender::QRenderStateSet'',
     Qt3DRender_QRenderSurfaceSelector, ''Qt3DRender::QRenderTarget'', Qt3DRender_QRenderTargetOutput,
     ''Qt3DRender::QRenderTargetSelector'', ''Qt3DRender::QSceneLoader'', Qt3DRender_QScissorTest]"

definition classes_qt3drender_2 :: "string list" where
  "classes_qt3drender_2 = [
     ''Qt3DRender::QScreenRayCaster'', ''Qt3DRender::QSeamlessCubemap'', ''Qt3DRender::QSetFence'',
     ''Qt3DRender::QShaderData'', Qt3DRender_QShaderImage, Qt3DRender_QShaderProgram, Qt3DRender_QShaderProgramBuilder,
     ''Qt3DRender::QSharedGLTexture'', ''Qt3DRender::QSortPolicy'', Qt3DRender_QSpotLight, ''Qt3DRender::QStencilMask'',
     ''Qt3DRender::QStencilOperation'', Qt3DRender_QStencilOperationArguments, ''Qt3DRender::QStencilTest'',
     Qt3DRender_QStencilTestArguments, ''Qt3DRender::QSubtreeEnabler'', ''Qt3DRender::QTechnique'',
     ''Qt3DRender::QTechniqueFilter'', ''Qt3DRender::QTexture1D'', ''Qt3DRender::QTexture1DArray'',
     ''Qt3DRender::QTexture2D'', ''Qt3DRender::QTexture2DArray'', ''Qt3DRender::QTexture2DMultisample'',
     ''Qt3DRender::QTexture2DMultisampleArray'', ''Qt3DRender::QTexture3D'', ''Qt3DRender::QTextureBuffer'',
     ''Qt3DRender::QTextureCubeMap'', ''Qt3DRender::QTextureCubeMapArray'', Qt3DRender_QTextureData,
     Qt3DRender_QTextureDataUpdate, ''Qt3DRender::QTextureImage'', Qt3DRender_QTextureImageData,
     ''Qt3DRender::QTextureImageDataGenerator'', ''Qt3DRender::QTextureLoader'', ''Qt3DRender::QTextureRectangle'',
     Qt3DRender_QTextureWrapMode, ''Qt3DRender::QViewport'']"

definition classes_qt3drender_3 :: "string list" where
  "classes_qt3drender_3 = [
     ''Qt3DRender::QWaitFence'']"

definition classes_qt3drender :: "string list" where
  "classes_qt3drender = concat [classes_qt3drender_0, classes_qt3drender_1, classes_qt3drender_2, classes_qt3drender_3]"

definition has_qt3drender :: "('w, 'o) build \<Rightarrow> qstring \<Rightarrow> bool" where
  "has_qt3drender B = has_in B ''Qt3DRender'' classes_qt3drender []"

definition construct_qt3drender :: "('w, 'o) qt \<Rightarrow> ('w, 'o) build \<Rightarrow> qstring \<Rightarrow> ptr \<Rightarrow> 'w \<Rightarrow> (ptr \<times> qmsg option) \<times> 'w" where
  "construct_qt3drender Q B = construct_in Q B ''Qt3DRender'' classes_qt3drender"

definition constructors_qt3drender :: "('w, 'o) qt \<Rightarrow> ('w, 'o) build \<Rightarrow> qstring list" where
  "constructors_qt3drender Q B = constructors_in Q B ''Qt3DRender'' classes_qt3drender []"

definition value_type_qt3drender :: "('w, 'o) build \<Rightarrow> qstring \<Rightarrow> metatype" where
  "value_type_qt3drender B = value_type_in B ''Qt3DRender'' classes_qt3drender"

definition value_types_qt3drender :: "('w, 'o) build \<Rightarrow> qstring list" where
  "value_types_qt3drender B = value_types_in B ''Qt3DRender'' classes_qt3drender"

definition meta_object_qt3drender :: "('w, 'o) qt \<Rightarrow> ('w, 'o) build \<Rightarrow> qstring \<Rightarrow> metaobject option" where
  "meta_object_qt3drender Q B = meta_object_in Q B ''Qt3DRender'' classes_qt3drender"

definition meta_object_names_qt3drender :: "('w, 'o) qt \<Rightarrow> ('w, 'o) build \<Rightarrow> qstring list" where
  "meta_object_names_qt3drender Q B = meta_object_names_in Q B ''Qt3DRender'' classes_qt3drender"

definition module_qt3drender :: "('w, 'o) qt \<Rightarrow> ('w, 'o) build \<Rightarrow> ('w, 'o) qmodule" where
  "module_qt3drender Q B = \<lparr>
     m_name = ''Qt3DRender'',
     m_hasClass = has_qt3drender B,
     m_construct = construct_qt3drender Q B,
     m_constructorNames = constructors_qt3drender Q B,
     m_valueType = value_type_qt3drender B,
     m_valueTypeNames = value_types_qt3drender B,
     m_metaObject = meta_object_qt3drender Q B,
     m_metaObjectNames = meta_object_names_qt3drender Q B\<rparr>"

definition classes_qtbluetooth :: "string list" where
  "classes_qtbluetooth = [
     ''QBluetooth'', QBluetoothAddress, QBluetoothDeviceDiscoveryAgent, QBluetoothDeviceInfo, ''QBluetoothHostInfo'',
     QBluetoothLocalDevice, ''QBluetoothServer'', QBluetoothServiceDiscoveryAgent, QBluetoothServiceInfo,
     QBluetoothSocket, QBluetoothUuid, QLowEnergyAdvertisingData, QLowEnergyAdvertisingParameters,
     QLowEnergyCharacteristic, QLowEnergyCharacteristicData, QLowEnergyConnectionParameters, QLowEnergyController,
     QLowEnergyDescriptor, QLowEnergyDescriptorData, QLowEnergyService, QLowEnergyServiceData]"

definition module_qtbluetooth :: "('w, 'o) qt \<Rightarrow> ('w, 'o) build \<Rightarrow> ('w, 'o) qmodule" where
  "module_qtbluetooth Q B = \<lparr>
     m_name = ''QtBluetooth'',
     m_hasClass = has_in B ''QtBluetooth'' classes_qtbluetooth [],
     m_construct = construct_in Q B ''QtBluetooth'' classes_qtbluetooth,
     m_constructorNames = constructors_in Q B ''QtBluetooth'' classes_qtbluetooth [],
     m_valueType = value_type_in B ''QtBluetooth'' classes_qtbluetooth,
     m_valueTypeNames = value_types_in B ''QtBluetooth'' classes_qtbluetooth,
     m_metaObject = meta_object_in Q B ''QtBluetooth'' classes_qtbluetooth,
     m_metaObjectNames = meta_object_names_in Q B ''QtBluetooth'' classes_qtbluetooth\<rparr>"

definition classes_qtcharts_0 :: "string list" where
  "classes_qtcharts_0 = [
     QAbstractAxis, QAbstractBarSeries, QAbstractSeries, ''QAreaLegendMarker'', QAreaSeries, QBarCategoryAxis,
     ''QBarLegendMarker'', QBarSeries, QBarSet, ''QBoxPlotLegendMarker'', QBoxPlotSeries, ''QBoxSet'',
     ''QCandlestickLegendMarker'', ''QCandlestickModelMapper'', QCandlestickSeries, QCandlestickSet, ''QCategoryAxis'',
     QChart, ''QChartView'', ''QColorAxis'', QDateTimeAxis, ''QHBarModelMapper'', QHBoxPlotModelMapper,
     QHCandlestickModelMapper, ''QHPieModelMapper'', ''QHXYModelMapper'', ''QHorizontalBarSeries'',
     ''QHorizontalPercentBarSeries'', ''QHorizontalStackedBarSeries'', ''QLegend'', ''QLegendMarker'', ''QLineSeries'',
     ''QLogValueAxis'', ''QPercentBarSeries'', ''QPieLegendMarker'', QPieSeries, QPieSlice]"

definition classes_qtcharts_1 :: "string list" where
  "classes_qtcharts_1 = [
     ''QPolarChart'', QScatterSeries, ''QSplineSeries'', ''QStackedBarSeries'', ''QVBarModelMapper'',
     QVBoxPlotModelMapper, QVCandlestickModelMapper, ''QVPieModelMapper'', ''QVXYModelMapper'', QValueAxis,
     ''QXYLegendMarker'', QXYSeries]"

definition classes_qtcharts :: "string list" where
  "classes_qtcharts = concat [classes_qtcharts_0, classes_qtcharts_1]"

definition has_qtcharts :: "('w, 'o) build \<Rightarrow> qstring \<Rightarrow> bool" where
  "has_qtcharts B = has_in B ''QtCharts'' classes_qtcharts []"

definition construct_qtcharts :: "('w, 'o) qt \<Rightarrow> ('w, 'o) build \<Rightarrow> qstring \<Rightarrow> ptr \<Rightarrow> 'w \<Rightarrow> (ptr \<times> qmsg option) \<times> 'w" where
  "construct_qtcharts Q B = construct_in Q B ''QtCharts'' classes_qtcharts"

definition constructors_qtcharts :: "('w, 'o) qt \<Rightarrow> ('w, 'o) build \<Rightarrow> qstring list" where
  "constructors_qtcharts Q B = constructors_in Q B ''QtCharts'' classes_qtcharts []"

definition value_type_qtcharts :: "('w, 'o) build \<Rightarrow> qstring \<Rightarrow> metatype" where
  "value_type_qtcharts B = value_type_in B ''QtCharts'' classes_qtcharts"

definition value_types_qtcharts :: "('w, 'o) build \<Rightarrow> qstring list" where
  "value_types_qtcharts B = value_types_in B ''QtCharts'' classes_qtcharts"

definition meta_object_qtcharts :: "('w, 'o) qt \<Rightarrow> ('w, 'o) build \<Rightarrow> qstring \<Rightarrow> metaobject option" where
  "meta_object_qtcharts Q B = meta_object_in Q B ''QtCharts'' classes_qtcharts"

definition meta_object_names_qtcharts :: "('w, 'o) qt \<Rightarrow> ('w, 'o) build \<Rightarrow> qstring list" where
  "meta_object_names_qtcharts Q B = meta_object_names_in Q B ''QtCharts'' classes_qtcharts"

definition module_qtcharts :: "('w, 'o) qt \<Rightarrow> ('w, 'o) build \<Rightarrow> ('w, 'o) qmodule" where
  "module_qtcharts Q B = \<lparr>
     m_name = ''QtCharts'',
     m_hasClass = has_qtcharts B,
     m_construct = construct_qtcharts Q B,
     m_constructorNames = constructors_qtcharts Q B,
     m_valueType = value_type_qtcharts B,
     m_valueTypeNames = value_types_qtcharts B,
     m_metaObject = meta_object_qtcharts Q B,
     m_metaObjectNames = meta_object_names_qtcharts Q B\<rparr>"

definition classes_qtcore_0 :: "string list" where
  "classes_qtcore_0 = [
     QAbstractAnimation, ''QAbstractEventDispatcher'', QAbstractItemModel, ''QAbstractListModel'',
     ''QAbstractNativeEventFilter'', QAbstractProxyModel, ''QAbstractTableModel'', ''QAnimationGroup'', ''QBasicTimer'',
     QBitArray, ''QBluetoothPermission'', ''QBuffer'', QByteArray, ''QByteArrayMatcher'', QCalendar,
     ''QCalendarPermission'', ''QCameraPermission'', ''QCborError'', QCborStreamReader, QCborStreamWriter, ''QChar'',
     ''QChildEvent'', ''QCollator'', ''QCollatorSortKey'', QCommandLineOption, QCommandLineParser,
     QConcatenateTablesProxyModel, ''QContactsPermission'', QCoreApplication, ''QCryptographicHash'', QDataStream, QDate,
     QDateTime, QDeadlineTimer, QDir, ''QDirIterator'', ''QDynamicPropertyChangeEvent'']"

definition classes_qtcore_1 :: "string list" where
  "classes_qtcore_1 = [
     QEasingCurve, QElapsedTimer, ''QEvent'', ''QEventLoop'', ''QEventLoopLocker'', ''QFile'', ''QFileDevice'', QFileInfo,
     ''QFileSelector'', ''QFileSystemWatcher'', ''QGenericArgument'', ''QGenericReturnArgument'', QIODevice,
     ''QIODeviceBase'', QIdentityProxyModel, QItemSelection, QItemSelectionModel, QItemSelectionRange, QJsonDocument,
     ''QJsonParseError'', QJsonValue, QKeyCombination, ''QLibrary'', ''QLibraryInfo'', ''QLine'', QLineF, QLocale,
     ''QLocationPermission'', ''QLockFile'', ''QLoggingCategory'', QMargins, QMarginsF, ''QMessageAuthenticationCode'',
     ''QMessageLogContext'', ''QMessageLogger'', ''QMetaClassInfo'', ''QMetaEnum'']"

definition classes_qtcore_2 :: "string list" where
  "classes_qtcore_2 = [
     QMetaMethod, ''QMetaObject'', QMetaProperty, QMetaType, ''QMicrophonePermission'', ''QMimeData'', ''QMimeDatabase'',
     QMimeType, QModelIndex, ''QModelRoleData'', ''QModelRoleDataSpan'', ''QMutex'', ''QNativeInterface'', QNativeIpcKey,
     QObject, ''QObjectCleanupHandler'', QOperatingSystemVersion, ''QOperatingSystemVersionBase'',
     ''QParallelAnimationGroup'', ''QPauseAnimation'', ''QPermission'', QPersistentModelIndex, ''QPluginLoader'', QPoint,
     QPointF, QProcess, QProcessEnvironment, ''QPropertyAnimation'', ''QRandomGenerator'', ''QRangeModel'',
     ''QReadLocker'', ''QReadWriteLock'', QRect, QRectF, ''QRecursiveMutex'', QRegularExpression, QRegularExpressionMatch]"

definition classes_qtcore_3 :: "string list" where
  "classes_qtcore_3 = [
     QRegularExpressionMatchIterator, ''QResource'', ''QRunnable'', ''QSaveFile'', ''QSemaphore'', ''QSemaphoreReleaser'',
     ''QSequentialAnimationGroup'', QSettings, QSharedMemory, ''QSignalBlocker'', ''QSignalMapper'', QSize, QSizeF,
     ''QSocketNotifier'', QSortFilterProxyModel, ''QStandardPaths'', QStorageInfo, ''QStringConverter'',
     ''QStringDecoder'', ''QStringEncoder'', QStringListModel, ''QSysInfo'', QSystemSemaphore, ''QTemporaryDir'',
     ''QTemporaryFile'', QTextBoundaryFinder, QTextStream, ''QThread'', ''QThreadPool'', QTime, QTimeLine, QTimeZone,
     ''QTimer'', ''QTimerEvent'', ''QTranslator'', QTransposeProxyModel, ''QTypeRevision'']"

definition classes_qtcore_4 :: "string list" where
  "classes_qtcore_4 = [
     QUrl, ''QUrlQuery'', ''QUuid'', ''QVariant'', ''QVariantAnimation'', QVersionNumber, ''QWaitCondition'',
     ''QWinEventNotifier'', ''QWriteLocker'', QXmlStreamAttribute, QXmlStreamAttributes, ''QXmlStreamEntityDeclaration'',
     ''QXmlStreamEntityResolver'', ''QXmlStreamNamespaceDeclaration'', ''QXmlStreamNotationDeclaration'',
     QXmlStreamReader, QXmlStreamWriter]"

definition classes_qtcore :: "string list" where
  "classes_qtcore = concat [classes_qtcore_0, classes_qtcore_1, classes_qtcore_2, classes_qtcore_3, classes_qtcore_4]"

definition always_qtcore :: "string list" where
  "always_qtcore = [
     ''QBuffer'', QConcatenateTablesProxyModel, ''QEventLoop'', ''QFile'', ''QFileSystemWatcher'', QIdentityProxyModel,
     QItemSelectionModel, ''QLibrary'', QObject, ''QPluginLoader'', QProcess, ''QSaveFile'', QSettings, ''QSignalMapper'',
     QSortFilterProxyModel, QStringListModel, ''QTemporaryFile'', ''QThread'', ''QThreadPool'', ''QTimer'',
     ''QTranslator'', QTransposeProxyModel]"

definition has_qtcore :: "('w, 'o) build \<Rightarrow> qstring \<Rightarrow> bool" where
  "has_qtcore B = has_in B ''QtCore'' classes_qtcore always_qtcore"

definition construct_qtcore :: "('w, 'o) qt \<Rightarrow> ('w, 'o) build \<Rightarrow> qstring \<Rightarrow> ptr \<Rightarrow> 'w \<Rightarrow> (ptr \<times> qmsg option) \<times> 'w" where
  "construct_qtcore Q B = construct_in Q B ''QtCore'' classes_qtcore"

definition constructors_qtcore :: "('w, 'o) qt \<Rightarrow> ('w, 'o) build \<Rightarrow> qstring list" where
  "constructors_qtcore Q B = constructors_in Q B ''QtCore'' classes_qtcore always_qtcore"

definition value_type_qtcore :: "('w, 'o) build \<Rightarrow> qstring \<Rightarrow> metatype" where
  "value_type_qtcore B = value_type_in B ''QtCore'' classes_qtcore"

definition value_types_qtcore :: "('w, 'o) build \<Rightarrow> qstring list" where
  "value_types_qtcore B = value_types_in B ''QtCore'' classes_qtcore"

definition meta_object_qtcore :: "('w, 'o) qt \<Rightarrow> ('w, 'o) build \<Rightarrow> qstring \<Rightarrow> metaobject option" where
  "meta_object_qtcore Q B = meta_object_in Q B ''QtCore'' classes_qtcore"

definition meta_object_names_qtcore :: "('w, 'o) qt \<Rightarrow> ('w, 'o) build \<Rightarrow> qstring list" where
  "meta_object_names_qtcore Q B = meta_object_names_in Q B ''QtCore'' classes_qtcore"

definition module_qtcore :: "('w, 'o) qt \<Rightarrow> ('w, 'o) build \<Rightarrow> ('w, 'o) qmodule" where
  "module_qtcore Q B = \<lparr>
     m_name = ''QtCore'',
     m_hasClass = has_qtcore B,
     m_construct = construct_qtcore Q B,
     m_constructorNames = constructors_qtcore Q B,
     m_valueType = value_type_qtcore B,
     m_valueTypeNames = value_types_qtcore B,
     m_metaObject = meta_object_qtcore Q B,
     m_metaObjectNames = meta_object_names_qtcore Q B\<rparr>"

definition classes_qtdatavisualization :: "string list" where
  "classes_qtdatavisualization = [
     QAbstract3DAxis, QAbstract3DGraph, ''QAbstract3DInputHandler'', QAbstract3DSeries, ''QAbstractDataProxy'',
     QBar3DSeries, ''QBarDataItem'', ''QBarDataProxy'', ''QCategory3DAxis'', QCustom3DItem, QCustom3DLabel,
     QCustom3DVolume, QHeightMapSurfaceDataProxy, QItemModelBarDataProxy, QItemModelScatterDataProxy,
     QItemModelSurfaceDataProxy, QLogValue3DAxisFormatter, QScatter3DSeries, ''QScatterDataItem'', ''QScatterDataProxy'',
     QSurface3DSeries, ''QSurfaceDataItem'', QSurfaceDataProxy, ''QTouch3DInputHandler'', QValue3DAxis,
     ''QValue3DAxisFormatter'']"

definition module_qtdatavisualization :: "('w, 'o) qt \<Rightarrow> ('w, 'o) build \<Rightarrow> ('w, 'o) qmodule" where
  "module_qtdatavisualization Q B = \<lparr>
     m_name = ''QtDataVisualization'',
     m_hasClass = has_in B ''QtDataVisualization'' classes_qtdatavisualization [],
     m_construct = construct_in Q B ''QtDataVisualization'' classes_qtdatavisualization,
     m_constructorNames = constructors_in Q B ''QtDataVisualization'' classes_qtdatavisualization [],
     m_valueType = value_type_in B ''QtDataVisualization'' classes_qtdatavisualization,
     m_valueTypeNames = value_types_in B ''QtDataVisualization'' classes_qtdatavisualization,
     m_metaObject = meta_object_in Q B ''QtDataVisualization'' classes_qtdatavisualization,
     m_metaObjectNames = meta_object_names_in Q B ''QtDataVisualization'' classes_qtdatavisualization\<rparr>"

definition classes_qtdbus :: "string list" where
  "classes_qtdbus = [
     ''QDBus'', ''QDBusAbstractAdaptor'', QDBusAbstractInterface, QDBusArgument, QDBusConnection,
     ''QDBusConnectionInterface'', ''QDBusError'', ''QDBusInterface'', QDBusMessage, ''QDBusObjectPath'',
     QDBusPendingCall, ''QDBusPendingCallWatcher'', ''QDBusServiceWatcher'', ''QDBusSignature'', QDBusUnixFileDescriptor,
     ''QDBusVariant'']"

definition module_qtdbus :: "('w, 'o) qt \<Rightarrow> ('w, 'o) build \<Rightarrow> ('w, 'o) qmodule" where
  "module_qtdbus Q B = \<lparr>
     m_name = ''QtDBus'',
     m_hasClass = has_in B ''QtDBus'' classes_qtdbus [],
     m_construct = construct_in Q B ''QtDBus'' classes_qtdbus,
     m_constructorNames = constructors_in Q B ''QtDBus'' classes_qtdbus [],
     m_valueType = value_type_in B ''QtDBus'' classes_qtdbus,
     m_valueTypeNames = value_types_in B ''QtDBus'' classes_qtdbus,
     m_metaObject = meta_object_in Q B ''QtDBus'' classes_qtdbus,
     m_metaObjectNames = meta_object_names_in Q B ''QtDBus'' classes_qtdbus\<rparr>"

definition classes_qtdesigner :: "string list" where
  "classes_qtdesigner = [
     ''QAbstractExtensionFactory'', ''QAbstractExtensionManager'', ''QAbstractFormBuilder'',
     ''QDesignerActionEditorInterface'', ''QDesignerContainerExtension'', ''QDesignerCustomWidgetCollectionInterface'',
     ''QDesignerCustomWidgetInterface'', QDesignerFormEditorInterface, ''QDesignerFormWindowCursorInterface'',
     ''QDesignerFormWindowInterface'', ''QDesignerFormWindowManagerInterface'', ''QDesignerMemberSheetExtension'',
     ''QDesignerObjectInspectorInterface'', ''QDesignerPropertyEditorInterface'', ''QDesignerPropertySheetExtension'',
     ''QDesignerTaskMenuExtension'', ''QDesignerWidgetBoxInterface'', ''QExtensionFactory'', ''QExtensionManager'',
     ''QFormBuilder'']"

definition module_qtdesigner :: "('w, 'o) qt \<Rightarrow> ('w, 'o) build \<Rightarrow> ('w, 'o) qmodule" where
  "module_qtdesigner Q B = \<lparr>
     m_name = ''QtDesigner'',
     m_hasClass = has_in B ''QtDesigner'' classes_qtdesigner [],
     m_construct = construct_in Q B ''QtDesigner'' classes_qtdesigner,
     m_constructorNames = constructors_in Q B ''QtDesigner'' classes_qtdesigner [],
     m_valueType = value_type_in B ''QtDesigner'' classes_qtdesigner,
     m_valueTypeNames = value_types_in B ''QtDesigner'' classes_qtdesigner,
     m_metaObject = meta_object_in Q B ''QtDesigner'' classes_qtdesigner,
     m_metaObjectNames = meta_object_names_in Q B ''QtDesigner'' classes_qtdesigner\<rparr>"

definition classes_qtgraphs_0 :: "string list" where
  "classes_qtgraphs_0 = [
     QAbstract3DAxis, QAbstract3DSeries, QAbstractAxis, ''QAbstractDataProxy'', QAbstractSeries, QAreaSeries,
     QBar3DSeries, QBarCategoryAxis, ''QBarDataItem'', ''QBarDataProxy'', QBarModelMapper, QBarSeries, QBarSet,
     ''QCategory3DAxis'', QCustom3DItem, QCustom3DLabel, QCustom3DVolume, ''QCustomSeries'', QDateTimeAxis, QGraphsLine,
     QGraphsTheme, QHeightMapSurfaceDataProxy, QItemModelBarDataProxy, QItemModelScatterDataProxy,
     QItemModelSurfaceDataProxy, ''QLegendData'', ''QLineSeries'', QLogValue3DAxisFormatter, QPieModelMapper, QPieSeries,
     QPieSlice, QScatter3DSeries, ''QScatterDataItem'', ''QScatterDataProxy'', QScatterSeries, ''QSpline3DSeries'',
     ''QSplineSeries'']"

definition classes_qtgraphs_1 :: "string list" where
  "classes_qtgraphs_1 = [
     QSurface3DSeries, ''QSurfaceDataItem'', QSurfaceDataProxy, QValue3DAxis, ''QValue3DAxisFormatter'', QValueAxis,
     ''QXYModelMapper'', QXYSeries]"

definition classes_qtgraphs :: "string list" where
  "classes_qtgraphs = concat [classes_qtgraphs_0, classes_qtgraphs_1]"

definition has_qtgraphs :: "('w, 'o) build \<Rightarrow> qstring \<Rightarrow> bool" where
  "has_qtgraphs B = has_in B ''QtGraphs'' classes_qtgraphs []"

definition construct_qtgraphs :: "('w, 'o) qt \<Rightarrow> ('w, 'o) build \<Rightarrow> qstring \<Rightarrow> ptr \<Rightarrow> 'w \<Rightarrow> (ptr \<times> qmsg option) \<times> 'w" where
  "construct_qtgraphs Q B = construct_in Q B ''QtGraphs'' classes_qtgraphs"

definition constructors_qtgraphs :: "('w, 'o) qt \<Rightarrow> ('w, 'o) build \<Rightarrow> qstring list" where
  "constructors_qtgraphs Q B = constructors_in Q B ''QtGraphs'' classes_qtgraphs []"

definition value_type_qtgraphs :: "('w, 'o) build \<Rightarrow> qstring \<Rightarrow> metatype" where
  "value_type_qtgraphs B = value_type_in B ''QtGraphs'' classes_qtgraphs"

definition value_types_qtgraphs :: "('w, 'o) build \<Rightarrow> qstring list" where
  "value_types_qtgraphs B = value_types_in B ''QtGraphs'' classes_qtgraphs"

definition meta_object_qtgraphs :: "('w, 'o) qt \<Rightarrow> ('w, 'o) build \<Rightarrow> qstring \<Rightarrow> metaobject option" where
  "meta_object_qtgraphs Q B = meta_object_in Q B ''QtGraphs'' classes_qtgraphs"

definition meta_object_names_qtgraphs :: "('w, 'o) qt \<Rightarrow> ('w, 'o) build \<Rightarrow> qstring list" where
  "meta_object_names_qtgraphs Q B = meta_object_names_in Q B ''QtGraphs'' classes_qtgraphs"

definition module_qtgraphs :: "('w, 'o) qt \<Rightarrow> ('w, 'o) build \<Rightarrow> ('w, 'o) qmodule" where
  "module_qtgraphs Q B = \<lparr>
     m_name = ''QtGraphs'',
     m_hasClass = has_qtgraphs B,
     m_construct = construct_qtgraphs Q B,
     m_constructorNames = constructors_qtgraphs Q B,
     m_valueType = value_type_qtgraphs B,
     m_valueTypeNames = value_types_qtgraphs B,
     m_metaObject = meta_object_qtgraphs Q B,
     m_metaObjectNames = meta_object_names_qtgraphs Q B\<rparr>"

definition classes_qtgraphswidgets :: "string list" where
  "classes_qtgraphswidgets = []"

definition module_qtgraphswidgets :: "('w, 'o) qt \<Rightarrow> ('w, 'o) build \<Rightarrow> ('w, 'o) qmodule" where
  "module_qtgraphswidgets Q B = \<lparr>
     m_name = ''QtGraphsWidgets'',
     m_hasClass = has_in B ''QtGraphsWidgets'' classes_qtgraphswidgets [],
     m_construct = construct_in Q B ''QtGraphsWidgets'' classes_qtgraphswidgets,
     m_constructorNames = constructors_in Q B ''QtGraphsWidgets'' classes_qtgraphswidgets [],
     m_valueType = value_type_in B ''QtGraphsWidgets'' classes_qtgraphswidgets,
     m_valueTypeNames = value_types_in B ''QtGraphsWidgets'' classes_qtgraphswidgets,
     m_metaObject = meta_object_in Q B ''QtGraphsWidgets'' classes_qtgraphswidgets,
     m_metaObjectNames = meta_object_names_in Q B ''QtGraphsWidgets'' classes_qtgraphswidgets\<rparr>"

definition classes_qtgui_0 :: "string list" where
  "classes_qtgui_0 = [
     ''QAbstractFileIconProvider'', QAbstractTextDocumentLayout, ''QAccessibilityHints'', QAction, ''QActionEvent'',
     ''QActionGroup'', ''QBackingStore'', ''QBitmap'', QBrush, ''QChildWindowEvent'', ''QClipboard'', ''QCloseEvent'',
     QColor, ''QColorConstants'', QColorSpace, ''QColorTransform'', ''QConicalGradient'', ''QContextMenuEvent'', QCursor,
     ''QDesktopServices'', ''QDoubleValidator'', ''QDrag'', ''QDragEnterEvent'', ''QDragLeaveEvent'', ''QDragMoveEvent'',
     ''QDropEvent'', ''QEnterEvent'', QEventPoint, ''QExposeEvent'', ''QFileOpenEvent'', QFileSystemModel,
     ''QFocusEvent'', QFont, QFontDatabase, ''QFontInfo'', QFontMetrics, QFontMetricsF]"

definition classes_qtgui_1 :: "string list" where
  "classes_qtgui_1 = [
     QFontVariableAxis, QGlyphRun, ''QGradient'', QGuiApplication, ''QHelpEvent'', ''QHideEvent'', ''QHoverEvent'', QIcon,
     ''QIconDragEvent'', ''QIconEngine'', QImage, QImageIOHandler, QImageReader, QImageWriter, ''QInputDevice'',
     ''QInputEvent'', QInputMethod, ''QInputMethodEvent'', ''QInputMethodQueryEvent'', ''QIntValidator'', ''QKeyEvent'',
     QKeySequence, QLinearGradient, ''QMatrix2x2'', ''QMatrix2x3'', ''QMatrix2x4'', ''QMatrix3x2'', ''QMatrix3x3'',
     ''QMatrix3x4'', ''QMatrix4x2'', ''QMatrix4x3'', QMatrix4x4, ''QMouseEvent'', ''QMoveEvent'', ''QMovie'',
     ''QNativeGestureEvent'', ''QOffscreenSurface'']"

definition classes_qtgui_2 :: "string list" where
  "classes_qtgui_2 = [
     QOpenGLContext, ''QOpenGLContextGroup'', QPageLayout, QPageRanges, QPageSize, ''QPagedPaintDevice'',
     ''QPaintDevice'', ''QPaintDeviceWindow'', ''QPaintEngine'', QPaintEngineState, ''QPaintEvent'', QPainter,
     QPainterPath, QPainterPathStroker, ''QPainterStateGuard'', QPalette, QPdfOutputIntent, ''QPdfWriter'', QPen,
     ''QPicture'', ''QPixelFormat'', QPixmap, ''QPixmapCache'', ''QPlatformSurfaceEvent'', ''QPointerEvent'',
     ''QPointingDevice'', QPointingDeviceUniqueId, QPolygon, QPolygonF, QQuaternion, QRadialGradient, ''QRasterWindow'',
     QRawFont, QRegion, ''QRegularExpressionValidator'', ''QResizeEvent'', ''QRgba64'']"

definition classes_qtgui_3 :: "string list" where
  "classes_qtgui_3 = [
     ''QScreen'', ''QScrollEvent'', ''QScrollPrepareEvent'', QSessionManager, ''QShortcut'', ''QShortcutEvent'',
     ''QShowEvent'', ''QSinglePointEvent'', QStandardItem, QStandardItemModel, QStaticText, ''QStatusTipEvent'',
     QStyleHints, ''QSurface'', QSurfaceFormat, ''QSyntaxHighlighter'', ''QTabletEvent'', QTextBlock, QTextBlockFormat,
     ''QTextBlockGroup'', ''QTextBlockUserData'', QTextCharFormat, QTextCursor, QTextDocument, QTextDocumentFragment,
     QTextDocumentWriter, QTextFormat, ''QTextFragment'', ''QTextFrame'', QTextFrameFormat, QTextImageFormat,
     QTextInlineObject, ''QTextItem'', QTextLayout, ''QTextLength'', QTextLine, ''QTextList'']"

definition classes_qtgui_4 :: "string list" where
  "classes_qtgui_4 = [
     QTextListFormat, ''QTextObject'', ''QTextObjectInterface'', QTextOption, ''QTextTable'', QTextTableCell,
     QTextTableCellFormat, QTextTableFormat, ''QTouchEvent'', QTransform, ''QUndoCommand'', ''QUndoGroup'', QUndoStack,
     ''QUtiMimeConverter'', ''QValidator'', QVector2D, QVector3D, QVector4D, ''QWaylandApplication'',
     ''QWhatsThisClickedEvent'', ''QWheelEvent'', QWindow, ''QWindowStateChangeEvent'', ''QX11Application'']"

definition classes_qtgui :: "string list" where
  "classes_qtgui = concat [classes_qtgui_0, classes_qtgui_1, classes_qtgui_2, classes_qtgui_3, classes_qtgui_4]"

definition always_qtgui :: "string list" where
  "always_qtgui = [
     QAction, ''QMovie'', ''QShortcut'', QStandardItemModel, QTextDocument, ''QUndoGroup'', QUndoStack]"

definition has_qtgui :: "('w, 'o) build \<Rightarrow> qstring \<Rightarrow> bool" where
  "has_qtgui B = has_in B ''QtGui'' classes_qtgui always_qtgui"

definition construct_qtgui :: "('w, 'o) qt \<Rightarrow> ('w, 'o) build \<Rightarrow> qstring \<Rightarrow> ptr \<Rightarrow> 'w \<Rightarrow> (ptr \<times> qmsg option) \<times> 'w" where
  "construct_qtgui Q B = construct_in Q B ''QtGui'' classes_qtgui"

definition constructors_qtgui :: "('w, 'o) qt \<Rightarrow> ('w, 'o) build \<Rightarrow> qstring list" where
  "constructors_qtgui Q B = constructors_in Q B ''QtGui'' classes_qtgui always_qtgui"

definition value_type_qtgui :: "('w, 'o) build \<Rightarrow> qstring \<Rightarrow> metatype" where
  "value_type_qtgui B = value_type_in B ''QtGui'' classes_qtgui"

definition value_types_qtgui :: "('w, 'o) build \<Rightarrow> qstring list" where
  "value_types_qtgui B = value_types_in B ''QtGui'' classes_qtgui"

definition meta_object_qtgui :: "('w, 'o) qt \<Rightarrow> ('w, 'o) build \<Rightarrow> qstring \<Rightarrow> metaobject option" where
  "meta_object_qtgui Q B = meta_object_in Q B ''QtGui'' classes_qtgui"

definition meta_object_names_qtgui :: "('w, 'o) qt \<Rightarrow> ('w, 'o) build \<Rightarrow> qstring list" where
  "meta_object_names_qtgui Q B = meta_object_names_in Q B ''QtGui'' classes_qtgui"

definition module_qtgui :: "('w, 'o) qt \<Rightarrow> ('w, 'o) build \<Rightarrow> ('w, 'o) qmodule" where
  "module_qtgui Q B = \<lparr>
     m_name = ''QtGui'',
     m_hasClass = has_qtgui B,
     m_construct = construct_qtgui Q B,
     m_constructorNames = constructors_qtgui Q B,
     m_valueType = value_type_qtgui B,
     m_valueTypeNames = value_types_qtgui B,
     m_metaObject = meta_object_qtgui Q B,
     m_metaObjectNames = meta_object_names_qtgui Q B\<rparr>"

definition classes_qthelp :: "string list" where
  "classes_qthelp = [
     QCompressedHelpInfo, ''QHelpContentItem'', ''QHelpContentModel'', ''QHelpContentWidget'', ''QHelpEngine'',
     QHelpEngineCore, ''QHelpFilterData'', ''QHelpFilterEngine'', ''QHelpFilterSettingsWidget'', ''QHelpIndexModel'',
     ''QHelpIndexWidget'', ''QHelpLink'', ''QHelpSearchEngine'', ''QHelpSearchEngineCore'', ''QHelpSearchQuery'',
     ''QHelpSearchQueryWidget'', ''QHelpSearchResult'', ''QHelpSearchResultWidget'']"

definition module_qthelp :: "('w, 'o) qt \<Rightarrow> ('w, 'o) build \<Rightarrow> ('w, 'o) qmodule" where
  "module_qthelp Q B = \<lparr>
     m_name = ''QtHelp'',
     m_hasClass = has_in B ''QtHelp'' classes_qthelp [],
     m_construct = construct_in Q B ''QtHelp'' classes_qthelp,
     m_constructorNames = constructors_in Q B ''QtHelp'' classes_qthelp [],
     m_valueType = value_type_in B ''QtHelp'' classes_qthelp,
     m_valueTypeNames = value_types_in B ''QtHelp'' classes_qthelp,
     m_metaObject = meta_object_in Q B ''QtHelp'' classes_qthelp,
     m_metaObjectNames = meta_object_names_in Q B ''QtHelp'' classes_qthelp\<rparr>"

definition classes_qtmultimedia :: "string list" where
  "classes_qtmultimedia = [
     QAudioBuffer, ''QAudioBufferInput'', ''QAudioBufferOutput'', QAudioDecoder, QAudioDevice, QAudioFormat,
     ''QAudioInput'', ''QAudioOutput'', ''QAudioSink'', QAudioSource, QCamera, QCameraDevice, ''QCameraFormat'',
     QCapturableWindow, QImageCapture, QMediaCaptureSession, ''QMediaDevices'', QMediaFormat, ''QMediaMetaData'',
     QMediaPlayer, QMediaRecorder, QMediaTimeRange, QPlaybackOptions, ''QScreenCapture'', QSoundEffect, QVideoFrame,
     QVideoFrameFormat, ''QVideoFrameInput'', ''QVideoSink'', ''QWindowCapture'']"

definition module_qtmultimedia :: "('w, 'o) qt \<Rightarrow> ('w, 'o) build \<Rightarrow> ('w, 'o) qmodule" where
  "module_qtmultimedia Q B = \<lparr>
     m_name = ''QtMultimedia'',
     m_hasClass = has_in B ''QtMultimedia'' classes_qtmultimedia [],
     m_construct = construct_in Q B ''QtMultimedia'' classes_qtmultimedia,
     m_constructorNames = constructors_in Q B ''QtMultimedia'' classes_qtmultimedia [],
     m_valueType = value_type_in B ''QtMultimedia'' classes_qtmultimedia,
     m_valueTypeNames = value_types_in B ''QtMultimedia'' classes_qtmultimedia,
     m_metaObject = meta_object_in Q B ''QtMultimedia'' classes_qtmultimedia,
     m_metaObjectNames = meta_object_names_in Q B ''QtMultimedia'' classes_qtmultimedia\<rparr>"

definition classes_qtmultimediawidgets :: "string list" where
  "classes_qtmultimediawidgets = [
     ''QGraphicsVideoItem'', ''QVideoWidget'']"

definition module_qtmultimediawidgets :: "('w, 'o) qt \<Rightarrow> ('w, 'o) build \<Rightarrow> ('w, 'o) qmodule" where
  "module_qtmultimediawidgets Q B = \<lparr>
     m_name = ''QtMultimediaWidgets'',
     m_hasClass = has_in B ''QtMultimediaWidgets'' classes_qtmultimediawidgets [],
     m_construct = construct_in Q B ''QtMultimediaWidgets'' classes_qtmultimediawidgets,
     m_constructorNames = constructors_in Q B ''QtMultimediaWidgets'' classes_qtmultimediawidgets [],
     m_valueType = value_type_in B ''QtMultimediaWidgets'' classes_qtmultimediawidgets,
     m_valueTypeNames = value_types_in B ''QtMultimediaWidgets'' classes_qtmultimediawidgets,
     m_metaObject = meta_object_in Q B ''QtMultimediaWidgets'' classes_qtmultimediawidgets,
     m_metaObjectNames = meta_object_names_in Q B ''QtMultimediaWidgets'' classes_qtmultimediawidgets\<rparr>"

definition classes_qtnetwork_0 :: "string list" where
  "classes_qtnetwork_0 = [
     ''QAbstractNetworkCache'', QAbstractSocket, QAuthenticator, QDnsDomainNameRecord, QDnsHostAddressRecord, QDnsLookup,
     QDnsMailExchangeRecord, ''QDnsServiceRecord'', ''QDnsTextRecord'', QDnsTlsAssociationRecord, ''QFormDataBuilder'',
     ''QFormDataPartBuilder'', QHostAddress, ''QHostInfo'', ''QHstsPolicy'', QHttp1Configuration, QHttp2Configuration,
     QHttpHeaders, ''QHttpMultiPart'', ''QHttpPart'', ''QLocalServer'', QLocalSocket, QNetworkAccessManager,
     QNetworkAddressEntry, QNetworkCacheMetaData, QNetworkCookie, ''QNetworkCookieJar'', QNetworkDatagram,
     QNetworkDiskCache, ''QNetworkInformation'', QNetworkInterface, QNetworkProxy, ''QNetworkProxyFactory'',
     QNetworkProxyQuery, QNetworkReply, QNetworkRequest, QNetworkRequestFactory]"

definition classes_qtnetwork_1 :: "string list" where
  "classes_qtnetwork_1 = [
     ''QOcspResponse'', QRestAccessManager, ''QRestReply'', QSslCertificate, QSslCertificateExtension, ''QSslCipher'',
     QSslConfiguration, QSslDiffieHellmanParameters, QSslEllipticCurve, ''QSslError'', ''QSslKey'',
     QSslPreSharedKeyAuthenticator, ''QSslServer'', QSslSocket, ''QTcpServer'', ''QTcpSocket'', ''QUdpSocket'']"

definition classes_qtnetwork :: "string list" where
  "classes_qtnetwork = concat [classes_qtnetwork_0, classes_qtnetwork_1]"

definition has_qtnetwork :: "('w, 'o) build \<Rightarrow> qstring \<Rightarrow> bool" where
  "has_qtnetwork B = has_in B ''QtNetwork'' classes_qtnetwork []"

definition construct_qtnetwork :: "('w, 'o) qt \<Rightarrow> ('w, 'o) build \<Rightarrow> qstring \<Rightarrow> ptr \<Rightarrow> 'w \<Rightarrow> (ptr \<times> qmsg option) \<times> 'w" where
  "construct_qtnetwork Q B = construct_in Q B ''QtNetwork'' classes_qtnetwork"

definition constructors_qtnetwork :: "('w, 'o) qt \<Rightarrow> ('w, 'o) build \<Rightarrow> qstring list" where
  "constructors_qtnetwork Q B = constructors_in Q B ''QtNetwork'' classes_qtnetwork []"

definition value_type_qtnetwork :: "('w, 'o) build \<Rightarrow> qstring \<Rightarrow> metatype" where
  "value_type_qtnetwork B = value_type_in B ''QtNetwork'' classes_qtnetwork"

definition value_types_qtnetwork :: "('w, 'o) build \<Rightarrow> qstring list" where
  "value_types_qtnetwork B = value_types_in B ''QtNetwork'' classes_qtnetwork"

definition meta_object_qtnetwork :: "('w, 'o) qt \<Rightarrow> ('w, 'o) build \<Rightarrow> qstring \<Rightarrow> metaobject option" where
  "meta_object_qtnetwork Q B = meta_object_in Q B ''QtNetwork'' classes_qtnetwork"

definition meta_object_names_qtnetwork :: "('w, 'o) qt \<Rightarrow> ('w, 'o) build \<Rightarrow> qstring list" where
  "meta_object_names_qtnetwork Q B = meta_object_names_in Q B ''QtNetwork'' classes_qtnetwork"

definition module_qtnetwork :: "('w, 'o) qt \<Rightarrow> ('w, 'o) build \<Rightarrow> ('w, 'o) qmodule" where
  "module_qtnetwork Q B = \<lparr>
     m_name = ''QtNetwork'',
     m_hasClass = has_qtnetwork B,
     m_construct = construct_qtnetwork Q B,
     m_constructorNames = constructors_qtnetwork Q B,
     m_valueType = value_type_qtnetwork B,
     m_valueTypeNames = value_types_qtnetwork B,
     m_metaObject = meta_object_qtnetwork Q B,
     m_metaObjectNames = meta_object_names_qtnetwork Q B\<rparr>"

definition classes_qtnetworkauth :: "string list" where
  "classes_qtnetworkauth = [
     ''QAbstractOAuth'', QAbstractOAuth2, ''QAbstractOAuthReplyHandler'', ''QOAuth1'', QOAuth1Signature,
     QOAuth2AuthorizationCodeFlow, ''QOAuth2DeviceAuthorizationFlow'', QOAuthHttpServerReplyHandler,
     ''QOAuthOobReplyHandler'', ''QOAuthUriSchemeReplyHandler'']"

definition module_qtnetworkauth :: "('w, 'o) qt \<Rightarrow> ('w, 'o) build \<Rightarrow> ('w, 'o) qmodule" where
  "module_qtnetworkauth Q B = \<lparr>
     m_name = ''QtNetworkAuth'',
     m_hasClass = has_in B ''QtNetworkAuth'' classes_qtnetworkauth [],
     m_construct = construct_in Q B ''QtNetworkAuth'' classes_qtnetworkauth,
     m_constructorNames = constructors_in Q B ''QtNetworkAuth'' classes_qtnetworkauth [],
     m_valueType = value_type_in B ''QtNetworkAuth'' classes_qtnetworkauth,
     m_valueTypeNames = value_types_in B ''QtNetworkAuth'' classes_qtnetworkauth,
     m_metaObject = meta_object_in Q B ''QtNetworkAuth'' classes_qtnetworkauth,
     m_metaObjectNames = meta_object_names_in Q B ''QtNetworkAuth'' classes_qtnetworkauth\<rparr>"

definition classes_qtnfc :: "string list" where
  "classes_qtnfc = [
     ''QNdefFilter'', ''QNdefMessage'', ''QNdefNfcIconRecord'', QNdefNfcSmartPosterRecord, QNdefNfcTextRecord,
     ''QNdefNfcUriRecord'', QNdefRecord, ''QNearFieldManager'', ''QNearFieldTarget'']"

definition module_qtnfc :: "('w, 'o) qt \<Rightarrow> ('w, 'o) build \<Rightarrow> ('w, 'o) qmodule" where
  "module_qtnfc Q B = \<lparr>
     m_name = ''QtNfc'',
     m_hasClass = has_in B ''QtNfc'' classes_qtnfc [],
     m_construct = construct_in Q B ''QtNfc'' classes_qtnfc,
     m_constructorNames = constructors_in Q B ''QtNfc'' classes_qtnfc [],
     m_valueType = value_type_in B ''QtNfc'' classes_qtnfc,
     m_valueTypeNames = value_types_in B ''QtNfc'' classes_qtnfc,
     m_metaObject = meta_object_in Q B ''QtNfc'' classes_qtnfc,
     m_metaObjectNames = meta_object_names_in Q B ''QtNfc'' classes_qtnfc\<rparr>"

definition classes_qtopengl :: "string list" where
  "classes_qtopengl = [
     ''QAbstractOpenGLFunctions'', QOpenGLBuffer, QOpenGLDebugLogger, QOpenGLDebugMessage, QOpenGLFramebufferObject,
     QOpenGLFramebufferObjectFormat, ''QOpenGLFunctions_2_0'', ''QOpenGLFunctions_2_1'', ''QOpenGLFunctions_4_1_Core'',
     QOpenGLPaintDevice, QOpenGLPixelTransferOptions, ''QOpenGLShader'', QOpenGLShaderProgram, QOpenGLTexture,
     QOpenGLTextureBlitter, ''QOpenGLTimeMonitor'', ''QOpenGLTimerQuery'', ''QOpenGLVersionFunctionsFactory'',
     QOpenGLVersionProfile, ''QOpenGLVertexArrayObject'', ''QOpenGLWindow'']"

definition module_qtopengl :: "('w, 'o) qt \<Rightarrow> ('w, 'o) build \<Rightarrow> ('w, 'o) qmodule" where
  "module_qtopengl Q B = \<lparr>
     m_name = ''QtOpenGL'',
     m_hasClass = has_in B ''QtOpenGL'' classes_qtopengl [],
     m_construct = construct_in Q B ''QtOpenGL'' classes_qtopengl,
     m_constructorNames = constructors_in Q B ''QtOpenGL'' classes_qtopengl [],
     m_valueType = value_type_in B ''QtOpenGL'' classes_qtopengl,
     m_valueTypeNames = value_types_in B ''QtOpenGL'' classes_qtopengl,
     m_metaObject = meta_object_in Q B ''QtOpenGL'' classes_qtopengl,
     m_metaObjectNames = meta_object_names_in Q B ''QtOpenGL'' classes_qtopengl\<rparr>"

definition classes_qtopenglwidgets :: "string list" where
  "classes_qtopenglwidgets = [
     ''QOpenGLWidget'']"

definition module_qtopenglwidgets :: "('w, 'o) qt \<Rightarrow> ('w, 'o) build \<Rightarrow> ('w, 'o) qmodule" where
  "module_qtopenglwidgets Q B = \<lparr>
     m_name = ''QtOpenGLWidgets'',
     m_hasClass = has_in B ''QtOpenGLWidgets'' classes_qtopenglwidgets [],
     m_construct = construct_in Q B ''QtOpenGLWidgets'' classes_qtopenglwidgets,
     m_constructorNames = constructors_in Q B ''QtOpenGLWidgets'' classes_qtopenglwidgets [],
     m_valueType = value_type_in B ''QtOpenGLWidgets'' classes_qtopenglwidgets,
     m_valueTypeNames = value_types_in B ''QtOpenGLWidgets'' classes_qtopenglwidgets,
     m_metaObject = meta_object_in Q B ''QtOpenGLWidgets'' classes_qtopenglwidgets,
     m_metaObjectNames = meta_object_names_in Q B ''QtOpenGLWidgets'' classes_qtopenglwidgets\<rparr>"

end
