(* ===== verification/Modules_B.thy ===== *)
theory Modules_B
  imports Module_Factories Qt_Names
begin

text \<open>
  The class tables of the module factories (generated\_modules), QtPdf to QtXml. A table lists the
  classes in the file's order; a module with many classes names its functions as the file does, a
  small one collects them in its record.
\<close>

definition classes_qtpdf :: "string list" where
  "classes_qtpdf = [
     ''QPdfBookmarkModel'', ''QPdfDocument'', QPdfDocumentRenderOptions, ''QPdfLink'', ''QPdfLinkModel'',
     ''QPdfPageNavigator'', ''QPdfPageRenderer'', ''QPdfSearchModel'', QPdfSelection]"

definition module_qtpdf :: "('w, 'o) qt \<Rightarrow> ('w, 'o) build \<Rightarrow> ('w, 'o) qmodule" where
  "module_qtpdf Q B = \<lparr>
     m_name = ''QtPdf'',
     m_hasClass = has_in B ''QtPdf'' classes_qtpdf [],
     m_construct = construct_in Q B ''QtPdf'' classes_qtpdf,
     m_constructorNames = constructors_in Q B ''QtPdf'' classes_qtpdf [],
     m_valueType = value_type_in B ''QtPdf'' classes_qtpdf,
     m_valueTypeNames = value_types_in B ''QtPdf'' classes_qtpdf,
     m_metaObject = meta_object_in Q B ''QtPdf'' classes_qtpdf,
     m_metaObjectNames = meta_object_names_in Q B ''QtPdf'' classes_qtpdf\<rparr>"

definition classes_qtpdfwidgets :: "string list" where
  "classes_qtpdfwidgets = [
     ''QPdfPageSelector'', ''QPdfView'']"

definition module_qtpdfwidgets :: "('w, 'o) qt \<Rightarrow> ('w, 'o) build \<Rightarrow> ('w, 'o) qmodule" where
  "module_qtpdfwidgets Q B = \<lparr>
     m_name = ''QtPdfWidgets'',
     m_hasClass = has_in B ''QtPdfWidgets'' classes_qtpdfwidgets [],
     m_construct = construct_in Q B ''QtPdfWidgets'' classes_qtpdfwidgets,
     m_constructorNames = constructors_in Q B ''QtPdfWidgets'' classes_qtpdfwidgets [],
     m_valueType = value_type_in B ''QtPdfWidgets'' classes_qtpdfwidgets,
     m_valueTypeNames = value_types_in B ''QtPdfWidgets'' classes_qtpdfwidgets,
     m_metaObject = meta_object_in Q B ''QtPdfWidgets'' classes_qtpdfwidgets,
     m_metaObjectNames = meta_object_names_in Q B ''QtPdfWidgets'' classes_qtpdfwidgets\<rparr>"

definition classes_qtpositioning :: "string list" where
  "classes_qtpositioning = [
     QGeoAddress, QGeoAreaMonitorInfo, ''QGeoAreaMonitorSource'', ''QGeoCircle'', QGeoCoordinate, ''QGeoLocation'',
     ''QGeoPath'', QGeoPolygon, QGeoPositionInfo, ''QGeoPositionInfoSource'', QGeoRectangle, QGeoSatelliteInfo,
     QGeoSatelliteInfoSource, QGeoShape, QNmeaPositionInfoSource, QNmeaSatelliteInfoSource]"

definition module_qtpositioning :: "('w, 'o) qt \<Rightarrow> ('w, 'o) build \<Rightarrow> ('w, 'o) qmodule" where
  "module_qtpositioning Q B = \<lparr>
     m_name = ''QtPositioning'',
     m_hasClass = has_in B ''QtPositioning'' classes_qtpositioning [],
     m_construct = construct_in Q B ''QtPositioning'' classes_qtpositioning,
     m_constructorNames = constructors_in Q B ''QtPositioning'' classes_qtpositioning [],
     m_valueType = value_type_in B ''QtPositioning'' classes_qtpositioning,
     m_valueTypeNames = value_types_in B ''QtPositioning'' classes_qtpositioning,
     m_metaObject = meta_object_in Q B ''QtPositioning'' classes_qtpositioning,
     m_metaObjectNames = meta_object_names_in Q B ''QtPositioning'' classes_qtpositioning\<rparr>"

definition classes_qtprintsupport :: "string list" where
  "classes_qtprintsupport = [
     ''QAbstractPrintDialog'', ''QPageSetupDialog'', ''QPrintDialog'', ''QPrintEngine'', ''QPrintPreviewDialog'',
     QPrintPreviewWidget, QPrinter, QPrinterInfo]"

definition module_qtprintsupport :: "('w, 'o) qt \<Rightarrow> ('w, 'o) build \<Rightarrow> ('w, 'o) qmodule" where
  "module_qtprintsupport Q B = \<lparr>
     m_name = ''QtPrintSupport'',
     m_hasClass = has_in B ''QtPrintSupport'' classes_qtprintsupport [],
     m_construct = construct_in Q B ''QtPrintSupport'' classes_qtprintsupport,
     m_constructorNames = constructors_in Q B ''QtPrintSupport'' classes_qtprintsupport [],
     m_valueType = value_type_in B ''QtPrintSupport'' classes_qtprintsupport,
     m_valueTypeNames = value_types_in B ''QtPrintSupport'' classes_qtprintsupport,
     m_metaObject = meta_object_in Q B ''QtPrintSupport'' classes_qtprintsupport,
     m_metaObjectNames = meta_object_names_in Q B ''QtPrintSupport'' classes_qtprintsupport\<rparr>"

definition classes_qtqml :: "string list" where
  "classes_qtqml = [
     ''QJSEngine'', QJSManagedValue, ''QJSPrimitiveNull'', ''QJSPrimitiveUndefined'', QJSPrimitiveValue, QJSValue,
     ''QJSValueIterator'', ''QQmlAbstractUrlInterceptor'', ''QQmlApplicationEngine'', QQmlComponent, ''QQmlContext'',
     QQmlEngine, ''QQmlEngineExtensionPlugin'', QQmlError, QQmlExpression, ''QQmlExtensionPlugin'', ''QQmlFileSelector'',
     ''QQmlImageProviderBase'', ''QQmlIncubationController'', ''QQmlIncubator'', QQmlListReference,
     ''QQmlNetworkAccessManagerFactory'', ''QQmlParserStatus'', QQmlProperty, ''QQmlPropertyMap'',
     ''QQmlPropertyValueSource'', ''QQmlScriptString'']"

definition module_qtqml :: "('w, 'o) qt \<Rightarrow> ('w, 'o) build \<Rightarrow> ('w, 'o) qmodule" where
  "module_qtqml Q B = \<lparr>
     m_name = ''QtQml'',
     m_hasClass = has_in B ''QtQml'' classes_qtqml [],
     m_construct = construct_in Q B ''QtQml'' classes_qtqml,
     m_constructorNames = constructors_in Q B ''QtQml'' classes_qtqml [],
     m_valueType = value_type_in B ''QtQml'' classes_qtqml,
     m_valueTypeNames = value_types_in B ''QtQml'' classes_qtqml,
     m_metaObject = meta_object_in Q B ''QtQml'' classes_qtqml,
     m_metaObjectNames = meta_object_names_in Q B ''QtQml'' classes_qtqml\<rparr>"

definition classes_qtquick_0 :: "string list" where
  "classes_qtquick_0 = [
     ''QQuickAsyncImageProvider'', ''QQuickFramebufferObject'', QQuickGraphicsConfiguration, QQuickGraphicsDevice,
     ''QQuickImageProvider'', ''QQuickImageResponse'', QQuickItem, ''QQuickItemGrabResult'', QQuickPaintedItem,
     QQuickRenderControl, QQuickRenderTarget, ''QQuickTextDocument'', ''QQuickTextureFactory'', ''QQuickView'',
     QQuickWindow, ''QSGBasicGeometryNode'', ''QSGClipNode'', ''QSGDynamicTexture'', ''QSGFlatColorMaterial'',
     QSGGeometry, ''QSGGeometryNode'', ''QSGImageNode'', ''QSGMaterial'', ''QSGMaterialShader'', ''QSGMaterialType'',
     ''QSGNode'', ''QSGOpacityNode'', QSGOpaqueTextureMaterial, ''QSGOpenGLTexture'', ''QSGRectangleNode'',
     ''QSGRenderNode'', ''QSGRendererInterface'', ''QSGSimpleRectNode'', QSGSimpleTextureNode, ''QSGTextNode'',
     ''QSGTexture'', ''QSGTextureMaterial'']"

definition classes_qtquick_1 :: "string list" where
  "classes_qtquick_1 = [
     ''QSGTextureProvider'', ''QSGTransformNode'', ''QSGVertexColorMaterial'']"

definition classes_qtquick :: "string list" where
  "classes_qtquick = concat [classes_qtquick_0, classes_qtquick_1]"

definition has_qtquick :: "('w, 'o) build \<Rightarrow> qstring \<Rightarrow> bool" where
  "has_qtquick B = has_in B ''QtQuick'' classes_qtquick []"

definition construct_qtquick :: "('w, 'o) qt \<Rightarrow> ('w, 'o) build \<Rightarrow> qstring \<Rightarrow> ptr \<Rightarrow> 'w \<Rightarrow> (ptr \<times> qmsg option) \<times> 'w" where
  "construct_qtquick Q B = construct_in Q B ''QtQuick'' classes_qtquick"

definition constructors_qtquick :: "('w, 'o) qt \<Rightarrow> ('w, 'o) build \<Rightarrow> qstring list" where
  "constructors_qtquick Q B = constructors_in Q B ''QtQuick'' classes_qtquick []"

definition value_type_qtquick :: "('w, 'o) build \<Rightarrow> qstring \<Rightarrow> metatype" where
  "value_type_qtquick B = value_type_in B ''QtQuick'' classes_qtquick"

definition value_types_qtquick :: "('w, 'o) build \<Rightarrow> qstring list" where
  "value_types_qtquick B = value_types_in B ''QtQuick'' classes_qtquick"

definition meta_object_qtquick :: "('w, 'o) qt \<Rightarrow> ('w, 'o) build \<Rightarrow> qstring \<Rightarrow> metaobject option" where
  "meta_object_qtquick Q B = meta_object_in Q B ''QtQuick'' classes_qtquick"

definition meta_object_names_qtquick :: "('w, 'o) qt \<Rightarrow> ('w, 'o) build \<Rightarrow> qstring list" where
  "meta_object_names_qtquick Q B = meta_object_names_in Q B ''QtQuick'' classes_qtquick"

definition module_qtquick :: "('w, 'o) qt \<Rightarrow> ('w, 'o) build \<Rightarrow> ('w, 'o) qmodule" where
  "module_qtquick Q B = \<lparr>
     m_name = ''QtQuick'',
     m_hasClass = has_qtquick B,
     m_construct = construct_qtquick Q B,
     m_constructorNames = constructors_qtquick Q B,
     m_valueType = value_type_qtquick B,
     m_valueTypeNames = value_types_qtquick B,
     m_metaObject = meta_object_qtquick Q B,
     m_metaObjectNames = meta_object_names_qtquick Q B\<rparr>"

definition classes_qtquick3d :: "string list" where
  "classes_qtquick3d = [
     ''QQuick3D'', QQuick3DGeometry, ''QQuick3DObject'', ''QQuick3DTextureData'']"

definition module_qtquick3d :: "('w, 'o) qt \<Rightarrow> ('w, 'o) build \<Rightarrow> ('w, 'o) qmodule" where
  "module_qtquick3d Q B = \<lparr>
     m_name = ''QtQuick3D'',
     m_hasClass = has_in B ''QtQuick3D'' classes_qtquick3d [],
     m_construct = construct_in Q B ''QtQuick3D'' classes_qtquick3d,
     m_constructorNames = constructors_in Q B ''QtQuick3D'' classes_qtquick3d [],
     m_valueType = value_type_in B ''QtQuick3D'' classes_qtquick3d,
     m_valueTypeNames = value_types_in B ''QtQuick3D'' classes_qtquick3d,
     m_metaObject = meta_object_in Q B ''QtQuick3D'' classes_qtquick3d,
     m_metaObjectNames = meta_object_names_in Q B ''QtQuick3D'' classes_qtquick3d\<rparr>"

definition classes_qtquickwidgets :: "string list" where
  "classes_qtquickwidgets = [
     ''QQuickWidget'']"

definition module_qtquickwidgets :: "('w, 'o) qt \<Rightarrow> ('w, 'o) build \<Rightarrow> ('w, 'o) qmodule" where
  "module_qtquickwidgets Q B = \<lparr>
     m_name = ''QtQuickWidgets'',
     m_hasClass = has_in B ''QtQuickWidgets'' classes_qtquickwidgets [],
     m_construct = construct_in Q B ''QtQuickWidgets'' classes_qtquickwidgets,
     m_constructorNames = constructors_in Q B ''QtQuickWidgets'' classes_qtquickwidgets [],
     m_valueType = value_type_in B ''QtQuickWidgets'' classes_qtquickwidgets,
     m_valueTypeNames = value_types_in B ''QtQuickWidgets'' classes_qtquickwidgets,
     m_metaObject = meta_object_in Q B ''QtQuickWidgets'' classes_qtquickwidgets,
     m_metaObjectNames = meta_object_names_in Q B ''QtQuickWidgets'' classes_qtquickwidgets\<rparr>"

definition classes_qtremoteobjects :: "string list" where
  "classes_qtremoteobjects = [
     QAbstractItemModelReplica, ''QRemoteObjectAbstractPersistedStore'', ''QRemoteObjectDynamicReplica'',
     ''QRemoteObjectHost'', ''QRemoteObjectHostBase'', QRemoteObjectNode, ''QRemoteObjectRegistry'',
     ''QRemoteObjectRegistryHost'', ''QRemoteObjectReplica'', ''QRemoteObjectSourceLocationInfo'']"

definition module_qtremoteobjects :: "('w, 'o) qt \<Rightarrow> ('w, 'o) build \<Rightarrow> ('w, 'o) qmodule" where
  "module_qtremoteobjects Q B = \<lparr>
     m_name = ''QtRemoteObjects'',
     m_hasClass = has_in B ''QtRemoteObjects'' classes_qtremoteobjects [],
     m_construct = construct_in Q B ''QtRemoteObjects'' classes_qtremoteobjects,
     m_constructorNames = constructors_in Q B ''QtRemoteObjects'' classes_qtremoteobjects [],
     m_valueType = value_type_in B ''QtRemoteObjects'' classes_qtremoteobjects,
     m_valueTypeNames = value_types_in B ''QtRemoteObjects'' classes_qtremoteobjects,
     m_metaObject = meta_object_in Q B ''QtRemoteObjects'' classes_qtremoteobjects,
     m_metaObjectNames = meta_object_names_in Q B ''QtRemoteObjects'' classes_qtremoteobjects\<rparr>"

definition classes_qtsensors_0 :: "string list" where
  "classes_qtsensors_0 = [
     ''QAccelerometer'', ''QAccelerometerFilter'', ''QAccelerometerReading'', ''QAmbientLightFilter'',
     ''QAmbientLightReading'', ''QAmbientLightSensor'', ''QAmbientTemperatureFilter'', ''QAmbientTemperatureReading'',
     ''QAmbientTemperatureSensor'', ''QCompass'', ''QCompassFilter'', ''QCompassReading'', ''QGyroscope'',
     ''QGyroscopeFilter'', ''QGyroscopeReading'', ''QHumidityFilter'', ''QHumidityReading'', ''QHumiditySensor'',
     ''QIRProximityFilter'', ''QIRProximityReading'', ''QIRProximitySensor'', ''QLidFilter'', ''QLidReading'',
     ''QLidSensor'', ''QLightFilter'', ''QLightReading'', ''QLightSensor'', ''QMagnetometer'', ''QMagnetometerFilter'',
     ''QMagnetometerReading'', ''QOrientationFilter'', ''QOrientationReading'', ''QOrientationSensor'',
     ''QPressureFilter'', ''QPressureReading'', ''QPressureSensor'', ''QProximityFilter'']"

definition classes_qtsensors_1 :: "string list" where
  "classes_qtsensors_1 = [
     ''QProximityReading'', ''QProximitySensor'', ''QRotationFilter'', ''QRotationReading'', ''QRotationSensor'', QSensor,
     ''QSensorFilter'', ''QSensorReading'', ''QTapFilter'', ''QTapReading'', ''QTapSensor'', ''QTiltFilter'',
     ''QTiltReading'', ''QTiltSensor'']"

definition classes_qtsensors :: "string list" where
  "classes_qtsensors = concat [classes_qtsensors_0, classes_qtsensors_1]"

definition has_qtsensors :: "('w, 'o) build \<Rightarrow> qstring \<Rightarrow> bool" where
  "has_qtsensors B = has_in B ''QtSensors'' classes_qtsensors []"

definition construct_qtsensors :: "('w, 'o) qt \<Rightarrow> ('w, 'o) build \<Rightarrow> qstring \<Rightarrow> ptr \<Rightarrow> 'w \<Rightarrow> (ptr \<times> qmsg option) \<times> 'w" where
  "construct_qtsensors Q B = construct_in Q B ''QtSensors'' classes_qtsensors"

definition constructors_qtsensors :: "('w, 'o) qt \<Rightarrow> ('w, 'o) build \<Rightarrow> qstring list" where
  "constructors_qtsensors Q B = constructors_in Q B ''QtSensors'' classes_qtsensors []"

definition value_type_qtsensors :: "('w, 'o) build \<Rightarrow> qstring \<Rightarrow> metatype" where
  "value_type_qtsensors B = value_type_in B ''QtSensors'' classes_qtsensors"

definition value_types_qtsensors :: "('w, 'o) build \<Rightarrow> qstring list" where
  "value_types_qtsensors B = value_types_in B ''QtSensors'' classes_qtsensors"

definition meta_object_qtsensors :: "('w, 'o) qt \<Rightarrow> ('w, 'o) build \<Rightarrow> qstring \<Rightarrow> metaobject option" where
  "meta_object_qtsensors Q B = meta_object_in Q B ''QtSensors'' classes_qtsensors"

definition meta_object_names_qtsensors :: "('w, 'o) qt \<Rightarrow> ('w, 'o) build \<Rightarrow> qstring list" where
  "meta_object_names_qtsensors Q B = meta_object_names_in Q B ''QtSensors'' classes_qtsensors"

definition module_qtsensors :: "('w, 'o) qt \<Rightarrow> ('w, 'o) build \<Rightarrow> ('w, 'o) qmodule" where
  "module_qtsensors Q B = \<lparr>
     m_name = ''QtSensors'',
     m_hasClass = has_qtsensors B,
     m_construct = construct_qtsensors Q B,
     m_constructorNames = constructors_qtsensors Q B,
     m_valueType = value_type_qtsensors B,
     m_valueTypeNames = value_types_qtsensors B,
     m_metaObject = meta_object_qtsensors Q B,
     m_metaObjectNames = meta_object_names_qtsensors Q B\<rparr>"

definition classes_qtserialport :: "string list" where
  "classes_qtserialport = [
     QSerialPort, QSerialPortInfo]"

definition module_qtserialport :: "('w, 'o) qt \<Rightarrow> ('w, 'o) build \<Rightarrow> ('w, 'o) qmodule" where
  "module_qtserialport Q B = \<lparr>
     m_name = ''QtSerialPort'',
     m_hasClass = has_in B ''QtSerialPort'' classes_qtserialport [],
     m_construct = construct_in Q B ''QtSerialPort'' classes_qtserialport,
     m_constructorNames = constructors_in Q B ''QtSerialPort'' classes_qtserialport [],
     m_valueType = value_type_in B ''QtSerialPort'' classes_qtserialport,
     m_valueTypeNames = value_types_in B ''QtSerialPort'' classes_qtserialport,
     m_metaObject = meta_object_in Q B ''QtSerialPort'' classes_qtserialport,
     m_metaObjectNames = meta_object_names_in Q B ''QtSerialPort'' classes_qtserialport\<rparr>"

definition classes_qtspatialaudio :: "string list" where
  "classes_qtspatialaudio = [
     ''QAmbientSound'', QAudioEngine, ''QAudioListener'', ''QAudioRoom'', QSpatialSound]"

definition module_qtspatialaudio :: "('w, 'o) qt \<Rightarrow> ('w, 'o) build \<Rightarrow> ('w, 'o) qmodule" where
  "module_qtspatialaudio Q B = \<lparr>
     m_name = ''QtSpatialAudio'',
     m_hasClass = has_in B ''QtSpatialAudio'' classes_qtspatialaudio [],
     m_construct = construct_in Q B ''QtSpatialAudio'' classes_qtspatialaudio,
     m_constructorNames = constructors_in Q B ''QtSpatialAudio'' classes_qtspatialaudio [],
     m_valueType = value_type_in B ''QtSpatialAudio'' classes_qtspatialaudio,
     m_valueTypeNames = value_types_in B ''QtSpatialAudio'' classes_qtspatialaudio,
     m_metaObject = meta_object_in Q B ''QtSpatialAudio'' classes_qtspatialaudio,
     m_metaObjectNames = meta_object_names_in Q B ''QtSpatialAudio'' classes_qtspatialaudio\<rparr>"

definition classes_qtsql :: "string list" where
  "classes_qtsql = [
     QSqlDatabase, ''QSqlDriver'', ''QSqlDriverCreatorBase'', ''QSqlError'', QSqlField, ''QSqlIndex'', QSqlQuery,
     QSqlQueryModel, QSqlRecord, ''QSqlRelation'', ''QSqlRelationalDelegate'', QSqlRelationalTableModel, ''QSqlResult'',
     QSqlTableModel]"

definition module_qtsql :: "('w, 'o) qt \<Rightarrow> ('w, 'o) build \<Rightarrow> ('w, 'o) qmodule" where
  "module_qtsql Q B = \<lparr>
     m_name = ''QtSql'',
     m_hasClass = has_in B ''QtSql'' classes_qtsql [],
     m_construct = construct_in Q B ''QtSql'' classes_qtsql,
     m_constructorNames = constructors_in Q B ''QtSql'' classes_qtsql [],
     m_valueType = value_type_in B ''QtSql'' classes_qtsql,
     m_valueTypeNames = value_types_in B ''QtSql'' classes_qtsql,
     m_metaObject = meta_object_in Q B ''QtSql'' classes_qtsql,
     m_metaObjectNames = meta_object_names_in Q B ''QtSql'' classes_qtsql\<rparr>"

definition classes_qtstatemachine :: "string list" where
  "classes_qtstatemachine = [
     ''QAbstractState'', ''QAbstractTransition'', ''QEventTransition'', ''QFinalState'', ''QHistoryState'',
     ''QKeyEventTransition'', ''QMouseEventTransition'', ''QSignalTransition'', ''QState'', ''QStateMachine'']"

definition module_qtstatemachine :: "('w, 'o) qt \<Rightarrow> ('w, 'o) build \<Rightarrow> ('w, 'o) qmodule" where
  "module_qtstatemachine Q B = \<lparr>
     m_name = ''QtStateMachine'',
     m_hasClass = has_in B ''QtStateMachine'' classes_qtstatemachine [],
     m_construct = construct_in Q B ''QtStateMachine'' classes_qtstatemachine,
     m_constructorNames = constructors_in Q B ''QtStateMachine'' classes_qtstatemachine [],
     m_valueType = value_type_in B ''QtStateMachine'' classes_qtstatemachine,
     m_valueTypeNames = value_types_in B ''QtStateMachine'' classes_qtstatemachine,
     m_metaObject = meta_object_in Q B ''QtStateMachine'' classes_qtstatemachine,
     m_metaObjectNames = meta_object_names_in Q B ''QtStateMachine'' classes_qtstatemachine\<rparr>"

definition classes_qtsvg :: "string list" where
  "classes_qtsvg = [
     QSvgGenerator, QSvgRenderer]"

definition module_qtsvg :: "('w, 'o) qt \<Rightarrow> ('w, 'o) build \<Rightarrow> ('w, 'o) qmodule" where
  "module_qtsvg Q B = \<lparr>
     m_name = ''QtSvg'',
     m_hasClass = has_in B ''QtSvg'' classes_qtsvg [],
     m_construct = construct_in Q B ''QtSvg'' classes_qtsvg,
     m_constructorNames = constructors_in Q B ''QtSvg'' classes_qtsvg [],
     m_valueType = value_type_in B ''QtSvg'' classes_qtsvg,
     m_valueTypeNames = value_types_in B ''QtSvg'' classes_qtsvg,
     m_metaObject = meta_object_in Q B ''QtSvg'' classes_qtsvg,
     m_metaObjectNames = meta_object_names_in Q B ''QtSvg'' classes_qtsvg\<rparr>"

definition classes_qtsvgwidgets :: "string list" where
  "classes_qtsvgwidgets = [
     ''QGraphicsSvgItem'', ''QSvgWidget'']"

definition module_qtsvgwidgets :: "('w, 'o) qt \<Rightarrow> ('w, 'o) build \<Rightarrow> ('w, 'o) qmodule" where
  "module_qtsvgwidgets Q B = \<lparr>
     m_name = ''QtSvgWidgets'',
     m_hasClass = has_in B ''QtSvgWidgets'' classes_qtsvgwidgets [],
     m_construct = construct_in Q B ''QtSvgWidgets'' classes_qtsvgwidgets,
     m_constructorNames = constructors_in Q B ''QtSvgWidgets'' classes_qtsvgwidgets [],
     m_valueType = value_type_in B ''QtSvgWidgets'' classes_qtsvgwidgets,
     m_valueTypeNames = value_types_in B ''QtSvgWidgets'' classes_qtsvgwidgets,
     m_metaObject = meta_object_in Q B ''QtSvgWidgets'' classes_qtsvgwidgets,
     m_metaObjectNames = meta_object_names_in Q B ''QtSvgWidgets'' classes_qtsvgwidgets\<rparr>"

definition classes_qttest :: "string list" where
  "classes_qttest = [
     ''QAbstractItemModelTester'', ''QSignalSpy'']"

definition module_qttest :: "('w, 'o) qt \<Rightarrow> ('w, 'o) build \<Rightarrow> ('w, 'o) qmodule" where
  "module_qttest Q B = \<lparr>
     m_name = ''QtTest'',
     m_hasClass = has_in B ''QtTest'' classes_qttest [],
     m_construct = construct_in Q B ''QtTest'' classes_qttest,
     m_constructorNames = constructors_in Q B ''QtTest'' classes_qttest [],
     m_valueType = value_type_in B ''QtTest'' classes_qttest,
     m_valueTypeNames = value_types_in B ''QtTest'' classes_qttest,
     m_metaObject = meta_object_in Q B ''QtTest'' classes_qttest,
     m_metaObjectNames = meta_object_names_in Q B ''QtTest'' classes_qttest\<rparr>"

definition classes_qttexttospeech :: "string list" where
  "classes_qttexttospeech = [
     QTextToSpeech, ''QVoice'']"

definition module_qttexttospeech :: "('w, 'o) qt \<Rightarrow> ('w, 'o) build \<Rightarrow> ('w, 'o) qmodule" where
  "module_qttexttospeech Q B = \<lparr>
     m_name = ''QtTextToSpeech'',
     m_hasClass = has_in B ''QtTextToSpeech'' classes_qttexttospeech [],
     m_construct = construct_in Q B ''QtTextToSpeech'' classes_qttexttospeech,
     m_constructorNames = constructors_in Q B ''QtTextToSpeech'' classes_qttexttospeech [],
     m_valueType = value_type_in B ''QtTextToSpeech'' classes_qttexttospeech,
     m_valueTypeNames = value_types_in B ''QtTextToSpeech'' classes_qttexttospeech,
     m_metaObject = meta_object_in Q B ''QtTextToSpeech'' classes_qttexttospeech,
     m_metaObjectNames = meta_object_names_in Q B ''QtTextToSpeech'' classes_qttexttospeech\<rparr>"

definition classes_qtwebchannel :: "string list" where
  "classes_qtwebchannel = [
     ''QWebChannel'', ''QWebChannelAbstractTransport'']"

definition module_qtwebchannel :: "('w, 'o) qt \<Rightarrow> ('w, 'o) build \<Rightarrow> ('w, 'o) qmodule" where
  "module_qtwebchannel Q B = \<lparr>
     m_name = ''QtWebChannel'',
     m_hasClass = has_in B ''QtWebChannel'' classes_qtwebchannel [],
     m_construct = construct_in Q B ''QtWebChannel'' classes_qtwebchannel,
     m_constructorNames = constructors_in Q B ''QtWebChannel'' classes_qtwebchannel [],
     m_valueType = value_type_in B ''QtWebChannel'' classes_qtwebchannel,
     m_valueTypeNames = value_types_in B ''QtWebChannel'' classes_qtwebchannel,
     m_metaObject = meta_object_in Q B ''QtWebChannel'' classes_qtwebchannel,
     m_metaObjectNames = meta_object_names_in Q B ''QtWebChannel'' classes_qtwebchannel\<rparr>"

definition classes_qtwebenginecore_0 :: "string list" where
  "classes_qtwebenginecore_0 = [
     QWebEngineCertificateError, QWebEngineClientCertificateSelection, ''QWebEngineClientCertificateStore'',
     ''QWebEngineClientHints'', QWebEngineContextMenuRequest, ''QWebEngineCookieStore'',
     ''QWebEngineDesktopMediaRequest'', QWebEngineDownloadRequest, ''QWebEngineExtensionInfo'',
     ''QWebEngineExtensionManager'', ''QWebEngineFileSystemAccessRequest'', ''QWebEngineFindTextResult'',
     ''QWebEngineFrame'', QWebEngineFullScreenRequest, ''QWebEngineGlobalSettings'', QWebEngineHistory,
     QWebEngineHistoryItem, ''QWebEngineHistoryModel'', QWebEngineHttpRequest, QWebEngineLoadingInfo,
     ''QWebEngineNavigationRequest'', ''QWebEngineNewWindowRequest'', QWebEngineNotification, QWebEnginePage,
     ''QWebEnginePermission'', QWebEngineProfile, ''QWebEngineProfileBuilder'', ''QWebEngineQuotaRequest'',
     QWebEngineRegisterProtocolHandlerRequest, QWebEngineScript, QWebEngineScriptCollection, QWebEngineSettings,
     QWebEngineUrlRequestInfo, ''QWebEngineUrlRequestInterceptor'', ''QWebEngineUrlRequestJob'', QWebEngineUrlScheme,
     ''QWebEngineUrlSchemeHandler'']"

definition classes_qtwebenginecore_1 :: "string list" where
  "classes_qtwebenginecore_1 = [
     ''QWebEngineWebAuthPinRequest'', ''QWebEngineWebAuthUxRequest'']"

definition classes_qtwebenginecore :: "string list" where
  "classes_qtwebenginecore = concat [classes_qtwebenginecore_0, classes_qtwebenginecore_1]"

definition has_qtwebenginecore :: "('w, 'o) build \<Rightarrow> qstring \<Rightarrow> bool" where
  "has_qtwebenginecore B = has_in B ''QtWebEngineCore'' classes_qtwebenginecore []"

definition construct_qtwebenginecore :: "('w, 'o) qt \<Rightarrow> ('w, 'o) build \<Rightarrow> qstring \<Rightarrow> ptr \<Rightarrow> 'w \<Rightarrow> (ptr \<times> qmsg option) \<times> 'w" where
  "construct_qtwebenginecore Q B = construct_in Q B ''QtWebEngineCore'' classes_qtwebenginecore"

definition constructors_qtwebenginecore :: "('w, 'o) qt \<Rightarrow> ('w, 'o) build \<Rightarrow> qstring list" where
  "constructors_qtwebenginecore Q B = constructors_in Q B ''QtWebEngineCore'' classes_qtwebenginecore []"

definition value_type_qtwebenginecore :: "('w, 'o) build \<Rightarrow> qstring \<Rightarrow> metatype" where
  "value_type_qtwebenginecore B = value_type_in B ''QtWebEngineCore'' classes_qtwebenginecore"

definition value_types_qtwebenginecore :: "('w, 'o) build \<Rightarrow> qstring list" where
  "value_types_qtwebenginecore B = value_types_in B ''QtWebEngineCore'' classes_qtwebenginecore"

definition meta_object_qtwebenginecore :: "('w, 'o) qt \<Rightarrow> ('w, 'o) build \<Rightarrow> qstring \<Rightarrow> metaobject option" where
  "meta_object_qtwebenginecore Q B = meta_object_in Q B ''QtWebEngineCore'' classes_qtwebenginecore"

definition meta_object_names_qtwebenginecore :: "('w, 'o) qt \<Rightarrow> ('w, 'o) build \<Rightarrow> qstring list" where
  "meta_object_names_qtwebenginecore Q B = meta_object_names_in Q B ''QtWebEngineCore'' classes_qtwebenginecore"

definition module_qtwebenginecore :: "('w, 'o) qt \<Rightarrow> ('w, 'o) build \<Rightarrow> ('w, 'o) qmodule" where
  "module_qtwebenginecore Q B = \<lparr>
     m_name = ''QtWebEngineCore'',
     m_hasClass = has_qtwebenginecore B,
     m_construct = construct_qtwebenginecore Q B,
     m_constructorNames = constructors_qtwebenginecore Q B,
     m_valueType = value_type_qtwebenginecore B,
     m_valueTypeNames = value_types_qtwebenginecore B,
     m_metaObject = meta_object_qtwebenginecore Q B,
     m_metaObjectNames = meta_object_names_qtwebenginecore Q B\<rparr>"

definition classes_qtwebenginequick :: "string list" where
  "classes_qtwebenginequick = [
     QQuickWebEngineProfile]"

definition module_qtwebenginequick :: "('w, 'o) qt \<Rightarrow> ('w, 'o) build \<Rightarrow> ('w, 'o) qmodule" where
  "module_qtwebenginequick Q B = \<lparr>
     m_name = ''QtWebEngineQuick'',
     m_hasClass = has_in B ''QtWebEngineQuick'' classes_qtwebenginequick [],
     m_construct = construct_in Q B ''QtWebEngineQuick'' classes_qtwebenginequick,
     m_constructorNames = constructors_in Q B ''QtWebEngineQuick'' classes_qtwebenginequick [],
     m_valueType = value_type_in B ''QtWebEngineQuick'' classes_qtwebenginequick,
     m_valueTypeNames = value_types_in B ''QtWebEngineQuick'' classes_qtwebenginequick,
     m_metaObject = meta_object_in Q B ''QtWebEngineQuick'' classes_qtwebenginequick,
     m_metaObjectNames = meta_object_names_in Q B ''QtWebEngineQuick'' classes_qtwebenginequick\<rparr>"

definition classes_qtwebenginewidgets :: "string list" where
  "classes_qtwebenginewidgets = [
     QWebEngineView]"

definition module_qtwebenginewidgets :: "('w, 'o) qt \<Rightarrow> ('w, 'o) build \<Rightarrow> ('w, 'o) qmodule" where
  "module_qtwebenginewidgets Q B = \<lparr>
     m_name = ''QtWebEngineWidgets'',
     m_hasClass = has_in B ''QtWebEngineWidgets'' classes_qtwebenginewidgets [],
     m_construct = construct_in Q B ''QtWebEngineWidgets'' classes_qtwebenginewidgets,
     m_constructorNames = constructors_in Q B ''QtWebEngineWidgets'' classes_qtwebenginewidgets [],
     m_valueType = value_type_in B ''QtWebEngineWidgets'' classes_qtwebenginewidgets,
     m_valueTypeNames = value_types_in B ''QtWebEngineWidgets'' classes_qtwebenginewidgets,
     m_metaObject = meta_object_in Q B ''QtWebEngineWidgets'' classes_qtwebenginewidgets,
     m_metaObjectNames = meta_object_names_in Q B ''QtWebEngineWidgets'' classes_qtwebenginewidgets\<rparr>"

definition classes_qtwebsockets :: "string list" where
  "classes_qtwebsockets = [
     ''QMaskGenerator'', QWebSocket, QWebSocketCorsAuthenticator, QWebSocketHandshakeOptions, QWebSocketServer]"

definition module_qtwebsockets :: "('w, 'o) qt \<Rightarrow> ('w, 'o) build \<Rightarrow> ('w, 'o) qmodule" where
  "module_qtwebsockets Q B = \<lparr>
     m_name = ''QtWebSockets'',
     m_hasClass = has_in B ''QtWebSockets'' classes_qtwebsockets [],
     m_construct = construct_in Q B ''QtWebSockets'' classes_qtwebsockets,
     m_constructorNames = constructors_in Q B ''QtWebSockets'' classes_qtwebsockets [],
     m_valueType = value_type_in B ''QtWebSockets'' classes_qtwebsockets,
     m_valueTypeNames = value_types_in B ''QtWebSockets'' classes_qtwebsockets,
     m_metaObject = meta_object_in Q B ''QtWebSockets'' classes_qtwebsockets,
     m_metaObjectNames = meta_object_names_in Q B ''QtWebSockets'' classes_qtwebsockets\<rparr>"

definition classes_qtwidgets_0 :: "string list" where
  "classes_qtwidgets_0 = [
     QAbstractButton, ''QAbstractGraphicsShapeItem'', ''QAbstractItemDelegate'', QAbstractItemView, QAbstractScrollArea,
     QAbstractSlider, QAbstractSpinBox, QApplication, QBoxLayout, ''QButtonGroup'', QCalendarWidget, ''QCheckBox'',
     ''QColorDialog'', ''QColumnView'', QComboBox, ''QCommandLinkButton'', ''QCommonStyle'', QCompleter,
     QDataWidgetMapper, ''QDateEdit'', QDateTimeEdit, ''QDial'', ''QDialog'', QDialogButtonBox, ''QDockWidget'',
     QDoubleSpinBox, ''QErrorMessage'', QFileDialog, ''QFileIconProvider'', ''QFocusFrame'', ''QFontComboBox'',
     ''QFontDialog'', QFormLayout, ''QFrame'', ''QGesture'', QGestureEvent, ''QGestureRecognizer'']"

definition classes_qtwidgets_1 :: "string list" where
  "classes_qtwidgets_1 = [
     ''QGraphicsAnchor'', QGraphicsAnchorLayout, ''QGraphicsBlurEffect'', ''QGraphicsColorizeEffect'',
     QGraphicsDropShadowEffect, ''QGraphicsEffect'', QGraphicsEllipseItem, QGraphicsGridLayout, QGraphicsItem,
     ''QGraphicsItemGroup'', ''QGraphicsLayout'', QGraphicsLayoutItem, ''QGraphicsLineItem'', QGraphicsLinearLayout,
     ''QGraphicsObject'', ''QGraphicsOpacityEffect'', ''QGraphicsPathItem'', QGraphicsPixmapItem,
     ''QGraphicsPolygonItem'', ''QGraphicsProxyWidget'', ''QGraphicsRectItem'', ''QGraphicsRotation'', ''QGraphicsScale'',
     QGraphicsScene, ''QGraphicsSceneContextMenuEvent'', QGraphicsSceneDragDropEvent, ''QGraphicsSceneEvent'',
     ''QGraphicsSceneHelpEvent'', ''QGraphicsSceneHoverEvent'', QGraphicsSceneMouseEvent, ''QGraphicsSceneMoveEvent'',
     ''QGraphicsSceneResizeEvent'', QGraphicsSceneWheelEvent, QGraphicsSimpleTextItem, QGraphicsTextItem,
     ''QGraphicsTransform'', QGraphicsView]"

definition classes_qtwidgets_2 :: "string list" where
  "classes_qtwidgets_2 = [
     QGraphicsWidget, QGridLayout, ''QGroupBox'', ''QHBoxLayout'', QHeaderView, QInputDialog, ''QItemDelegate'',
     ''QItemEditorCreatorBase'', ''QItemEditorFactory'', ''QKeySequenceEdit'', QLCDNumber, ''QLabel'', QLayout,
     ''QLayoutItem'', QLineEdit, QListView, ''QListWidget'', QListWidgetItem, QMainWindow, QMdiArea, ''QMdiSubWindow'',
     ''QMenu'', ''QMenuBar'', QMessageBox, ''QPanGesture'', QPinchGesture, QPlainTextDocumentLayout, QPlainTextEdit,
     QProgressBar, QProgressDialog, ''QProxyStyle'', ''QPushButton'', ''QRadioButton'', ''QRubberBand'', ''QScrollArea'',
     ''QScrollBar'', ''QScroller'']"

definition classes_qtwidgets_3 :: "string list" where
  "classes_qtwidgets_3 = [
     QScrollerProperties, ''QSizeGrip'', QSizePolicy, ''QSlider'', ''QSpacerItem'', ''QSpinBox'', ''QSplashScreen'',
     QSplitter, ''QSplitterHandle'', ''QStackedLayout'', ''QStackedWidget'', ''QStatusBar'', ''QStyle'',
     ''QStyleFactory'', ''QStyleHintReturn'', ''QStyleHintReturnMask'', ''QStyleHintReturnVariant'', ''QStyleOption'',
     ''QStyleOptionButton'', ''QStyleOptionComboBox'', ''QStyleOptionComplex'', ''QStyleOptionDockWidget'',
     ''QStyleOptionFocusRect'', ''QStyleOptionFrame'', ''QStyleOptionGraphicsItem'', ''QStyleOptionGroupBox'',
     ''QStyleOptionHeader'', ''QStyleOptionHeaderV2'', ''QStyleOptionMenuItem'', ''QStyleOptionMenuItemV2'',
     ''QStyleOptionProgressBar'', ''QStyleOptionRubberBand'', ''QStyleOptionSizeGrip'', ''QStyleOptionSlider'',
     ''QStyleOptionSpinBox'', ''QStyleOptionTab'', ''QStyleOptionTabBarBase'']"

definition classes_qtwidgets_4 :: "string list" where
  "classes_qtwidgets_4 = [
     ''QStyleOptionTabWidgetFrame'', ''QStyleOptionTitleBar'', ''QStyleOptionToolBar'', ''QStyleOptionToolBox'',
     ''QStyleOptionToolButton'', QStyleOptionViewItem, ''QStylePainter'', ''QStyledItemDelegate'', ''QSwipeGesture'',
     QSystemTrayIcon, QTabBar, QTabWidget, QTableView, QTableWidget, QTableWidgetItem, QTableWidgetSelectionRange,
     ''QTapAndHoldGesture'', ''QTapGesture'', QTextBrowser, QTextEdit, ''QTimeEdit'', ''QToolBar'', ''QToolBox'',
     ''QToolButton'', ''QToolTip'', QTreeView, ''QTreeWidget'', QTreeWidgetItem, ''QTreeWidgetItemIterator'',
     ''QUndoView'', ''QVBoxLayout'', ''QWhatsThis'', QWidget, ''QWidgetAction'', ''QWidgetItem'', QWizard, ''QWizardPage'']"

definition classes_qtwidgets :: "string list" where
  "classes_qtwidgets = concat [classes_qtwidgets_0, classes_qtwidgets_1, classes_qtwidgets_2, classes_qtwidgets_3, classes_qtwidgets_4]"

definition always_qtwidgets :: "string list" where
  "always_qtwidgets = [
     ''QButtonGroup'', QCalendarWidget, ''QCheckBox'', ''QColorDialog'', QComboBox, ''QCommandLinkButton'', ''QDateEdit'',
     QDateTimeEdit, ''QDial'', ''QDialog'', QDialogButtonBox, ''QDockWidget'', QDoubleSpinBox, QFileDialog,
     ''QFontComboBox'', ''QFontDialog'', QFormLayout, ''QFrame'', QGraphicsScene, QGraphicsView, QGridLayout,
     ''QGroupBox'', ''QHBoxLayout'', QInputDialog, ''QKeySequenceEdit'', QLCDNumber, ''QLabel'', QLineEdit, QListView,
     ''QListWidget'', QMainWindow, QMdiArea, ''QMenu'', ''QMenuBar'', QMessageBox, QPlainTextEdit, QProgressBar,
     QProgressDialog, ''QPushButton'', ''QRadioButton'', ''QScrollArea'', ''QScrollBar'', ''QSlider'', ''QSpinBox'',
     QSplitter, ''QStackedWidget'', ''QStatusBar'', QTabBar, QTabWidget, QTableView, QTableWidget, QTextBrowser,
     QTextEdit, ''QTimeEdit'', ''QToolBar'', ''QToolButton'', QTreeView, ''QTreeWidget'', ''QUndoView'', ''QVBoxLayout'',
     QWidget, QWizard, ''QWizardPage'']"

definition has_qtwidgets :: "('w, 'o) build \<Rightarrow> qstring \<Rightarrow> bool" where
  "has_qtwidgets B = has_in B ''QtWidgets'' classes_qtwidgets always_qtwidgets"

definition construct_qtwidgets :: "('w, 'o) qt \<Rightarrow> ('w, 'o) build \<Rightarrow> qstring \<Rightarrow> ptr \<Rightarrow> 'w \<Rightarrow> (ptr \<times> qmsg option) \<times> 'w" where
  "construct_qtwidgets Q B = construct_in Q B ''QtWidgets'' classes_qtwidgets"

definition constructors_qtwidgets :: "('w, 'o) qt \<Rightarrow> ('w, 'o) build \<Rightarrow> qstring list" where
  "constructors_qtwidgets Q B = constructors_in Q B ''QtWidgets'' classes_qtwidgets always_qtwidgets"

definition value_type_qtwidgets :: "('w, 'o) build \<Rightarrow> qstring \<Rightarrow> metatype" where
  "value_type_qtwidgets B = value_type_in B ''QtWidgets'' classes_qtwidgets"

definition value_types_qtwidgets :: "('w, 'o) build \<Rightarrow> qstring list" where
  "value_types_qtwidgets B = value_types_in B ''QtWidgets'' classes_qtwidgets"

definition meta_object_qtwidgets :: "('w, 'o) qt \<Rightarrow> ('w, 'o) build \<Rightarrow> qstring \<Rightarrow> metaobject option" where
  "meta_object_qtwidgets Q B = meta_object_in Q B ''QtWidgets'' classes_qtwidgets"

definition meta_object_names_qtwidgets :: "('w, 'o) qt \<Rightarrow> ('w, 'o) build \<Rightarrow> qstring list" where
  "meta_object_names_qtwidgets Q B = meta_object_names_in Q B ''QtWidgets'' classes_qtwidgets"

definition module_qtwidgets :: "('w, 'o) qt \<Rightarrow> ('w, 'o) build \<Rightarrow> ('w, 'o) qmodule" where
  "module_qtwidgets Q B = \<lparr>
     m_name = ''QtWidgets'',
     m_hasClass = has_qtwidgets B,
     m_construct = construct_qtwidgets Q B,
     m_constructorNames = constructors_qtwidgets Q B,
     m_valueType = value_type_qtwidgets B,
     m_valueTypeNames = value_types_qtwidgets B,
     m_metaObject = meta_object_qtwidgets Q B,
     m_metaObjectNames = meta_object_names_qtwidgets Q B\<rparr>"

definition classes_qtxml :: "string list" where
  "classes_qtxml = [
     ''QDomAttr'', ''QDomCDATASection'', ''QDomCharacterData'', ''QDomComment'', QDomDocument, ''QDomDocumentFragment'',
     QDomDocumentType, QDomElement, ''QDomEntity'', ''QDomEntityReference'', QDomImplementation, QDomNamedNodeMap,
     QDomNode, ''QDomNodeList'', ''QDomNotation'', QDomProcessingInstruction, ''QDomText'']"

definition module_qtxml :: "('w, 'o) qt \<Rightarrow> ('w, 'o) build \<Rightarrow> ('w, 'o) qmodule" where
  "module_qtxml Q B = \<lparr>
     m_name = ''QtXml'',
     m_hasClass = has_in B ''QtXml'' classes_qtxml [],
     m_construct = construct_in Q B ''QtXml'' classes_qtxml,
     m_constructorNames = constructors_in Q B ''QtXml'' classes_qtxml [],
     m_valueType = value_type_in B ''QtXml'' classes_qtxml,
     m_valueTypeNames = value_types_in B ''QtXml'' classes_qtxml,
     m_metaObject = meta_object_in Q B ''QtXml'' classes_qtxml,
     m_metaObjectNames = meta_object_names_in Q B ''QtXml'' classes_qtxml\<rparr>"

end
