(* ===== verification/Constructors_A.thy ===== *)
theory Constructors_A
  imports Shard_Constructors Qt_Names
begin

text \<open>
  Tables of the object constructor shards (generated\_constructors): the blocks of every shard in the file's
  order, and the classes it lists.
\<close>

definition ctor_qaxcontainer_0_0 :: "ctor_block list" where
  "ctor_qaxcontainer_0_0 = [
     CtorBlock ''QAxObject'' 0 [
       Overload [TypeM QTCORE_QOBJECT] [] None],
     CtorBlock ''QAxObject'' 1 [
       Overload [TypeM QTCORE_QOBJECT] [PString False] None],
     CtorBlock ''QAxWidget'' 0 [
       Overload [EnumM QT_WINDOWFLAGS, TypeM QTWIDGETS_QWIDGET] [] None],
     CtorBlock ''QAxWidget'' 1 [
       Overload [EnumM QT_WINDOWFLAGS, TypeM QTWIDGETS_QWIDGET] [PConv Qt_WindowFlags] (Some (0, QWidget)),
       Overload [EnumM QT_WINDOWFLAGS, TypeM QTWIDGETS_QWIDGET] [PString False] None]]"

definition ctor_qaxcontainer_0_1 :: "ctor_block list" where
  "ctor_qaxcontainer_0_1 = [
     CtorBlock ''QAxWidget'' 2 [
       Overload [EnumM QT_WINDOWFLAGS, TypeM QTWIDGETS_QWIDGET] [PString False, PConv Qt_WindowFlags] (Some (1, QWidget))]]"

definition ctor_classes_qaxcontainer_0 :: "class_entry list" where
  "ctor_classes_qaxcontainer_0 = [
     ClassEntry ''QAxObject'' [TypeM QTCORE_QOBJECT] [QObject_ptr, ''QString, QObject*''],
     ClassEntry ''QAxWidget'' [EnumM QT_WINDOWFLAGS, TypeM QTWIDGETS_QWIDGET] [''QWidget*, Qt::WindowFlags'', ''QString, QWidget*, Qt::WindowFlags'']]"

definition ctor_qt3danimation_0_0 :: "ctor_block list" where
  "ctor_qt3danimation_0_0 = [
     CtorBlock Qt3DAnimation_QAdditiveClipBlend 0 [
       Overload [TypeM QT3DCORE_QNODE] [] None],
     CtorBlock ''Qt3DAnimation::QAnimationAspect'' 0 [
       Overload [TypeM QTCORE_QOBJECT] [] None],
     CtorBlock ''Qt3DAnimation::QAnimationClip'' 0 [
       Overload [TypeM QT3DCORE_QNODE] [] None],
     CtorBlock ''Qt3DAnimation::QAnimationClipLoader'' 0 [
       Overload [TypeM QT3DCORE_QNODE] [] None],
     CtorBlock ''Qt3DAnimation::QAnimationClipLoader'' 1 [
       Overload [TypeM QT3DCORE_QNODE, ValueM QTCORE_QURL] [PConv QUrl] None]]"

definition ctor_qt3danimation_0_1 :: "ctor_block list" where
  "ctor_qt3danimation_0_1 = [
     CtorBlock Qt3DAnimation_QAnimationController 0 [
       Overload [TypeM QTCORE_QOBJECT] [] None],
     CtorBlock Qt3DAnimation_QAnimationGroup 0 [
       Overload [TypeM QTCORE_QOBJECT] [] None],
     CtorBlock ''Qt3DAnimation::QBlendedClipAnimator'' 0 [
       Overload [TypeM QT3DCORE_QNODE] [] None],
     CtorBlock ''Qt3DAnimation::QChannelMapper'' 0 [
       Overload [TypeM QT3DCORE_QNODE] [] None],
     CtorBlock Qt3DAnimation_QChannelMapping 0 [
       Overload [TypeM QT3DCORE_QNODE] [] None]]"

definition ctor_qt3danimation_0_2 :: "ctor_block list" where
  "ctor_qt3danimation_0_2 = [
     CtorBlock ''Qt3DAnimation::QClipAnimator'' 0 [
       Overload [TypeM QT3DCORE_QNODE] [] None],
     CtorBlock ''Qt3DAnimation::QClipBlendValue'' 0 [
       Overload [TypeM QT3DCORE_QNODE] [] None],
     CtorBlock ''Qt3DAnimation::QClipBlendValue'' 1 [
       Overload [TypeM ''QT3DANIMATION_QABSTRACTANIMATIONCLIP'', TypeM QT3DCORE_QNODE] [PNonNull ''Qt3DAnimation::QAbstractAnimationClip*''] None],
     CtorBlock ''Qt3DAnimation::QClock'' 0 [
       Overload [TypeM QT3DCORE_QNODE] [] None],
     CtorBlock Qt3DAnimation_QKeyframeAnimation 0 [
       Overload [TypeM QTCORE_QOBJECT] [] None]]"

definition ctor_qt3danimation_0_3 :: "ctor_block list" where
  "ctor_qt3danimation_0_3 = [
     CtorBlock Qt3DAnimation_QLerpClipBlend 0 [
       Overload [TypeM QT3DCORE_QNODE] [] None],
     CtorBlock ''Qt3DAnimation::QMorphTarget'' 0 [
       Overload [TypeM QTCORE_QOBJECT] [] None],
     CtorBlock Qt3DAnimation_QMorphingAnimation 0 [
       Overload [TypeM QTCORE_QOBJECT] [] None],
     CtorBlock ''Qt3DAnimation::QSkeletonMapping'' 0 [
       Overload [TypeM QT3DCORE_QNODE] [] None],
     CtorBlock Qt3DAnimation_QVertexBlendAnimation 0 [
       Overload [TypeM QTCORE_QOBJECT] [] None]]"

definition ctor_classes_qt3danimation_0 :: "class_entry list" where
  "ctor_classes_qt3danimation_0 = [
     ClassEntry Qt3DAnimation_QAdditiveClipBlend [TypeM QT3DCORE_QNODE] [Qt3DCore_QNode_ptr],
     ClassEntry ''Qt3DAnimation::QAnimationAspect'' [TypeM QTCORE_QOBJECT] [QObject_ptr],
     ClassEntry ''Qt3DAnimation::QAnimationClip'' [TypeM QT3DCORE_QNODE] [Qt3DCore_QNode_ptr],
     ClassEntry ''Qt3DAnimation::QAnimationClipLoader'' [TypeM QT3DCORE_QNODE, ValueM QTCORE_QURL] [Qt3DCore_QNode_ptr, ''QUrl, Qt3DCore::QNode*''],
     ClassEntry Qt3DAnimation_QAnimationController [TypeM QTCORE_QOBJECT] [QObject_ptr],
     ClassEntry Qt3DAnimation_QAnimationGroup [TypeM QTCORE_QOBJECT] [QObject_ptr],
     ClassEntry ''Qt3DAnimation::QBlendedClipAnimator'' [TypeM QT3DCORE_QNODE] [Qt3DCore_QNode_ptr],
     ClassEntry ''Qt3DAnimation::QChannelMapper'' [TypeM QT3DCORE_QNODE] [Qt3DCore_QNode_ptr],
     ClassEntry Qt3DAnimation_QChannelMapping [TypeM QT3DCORE_QNODE] [Qt3DCore_QNode_ptr],
     ClassEntry ''Qt3DAnimation::QClipAnimator'' [TypeM QT3DCORE_QNODE] [Qt3DCore_QNode_ptr],
     ClassEntry ''Qt3DAnimation::QClipBlendValue'' [TypeM ''QT3DANIMATION_QABSTRACTANIMATIONCLIP'', TypeM QT3DCORE_QNODE] [Qt3DCore_QNode_ptr, ''Qt3DAnimation::QAbstractAnimationClip*, Qt3DCore::QNode*''],
     ClassEntry ''Qt3DAnimation::QClock'' [TypeM QT3DCORE_QNODE] [Qt3DCore_QNode_ptr],
     ClassEntry Qt3DAnimation_QKeyframeAnimation [TypeM QTCORE_QOBJECT] [QObject_ptr],
     ClassEntry Qt3DAnimation_QLerpClipBlend [TypeM QT3DCORE_QNODE] [Qt3DCore_QNode_ptr],
     ClassEntry ''Qt3DAnimation::QMorphTarget'' [TypeM QTCORE_QOBJECT] [QObject_ptr],
     ClassEntry Qt3DAnimation_QMorphingAnimation [TypeM QTCORE_QOBJECT] [QObject_ptr],
     ClassEntry ''Qt3DAnimation::QSkeletonMapping'' [TypeM QT3DCORE_QNODE] [Qt3DCore_QNode_ptr],
     ClassEntry Qt3DAnimation_QVertexBlendAnimation [TypeM QTCORE_QOBJECT] [QObject_ptr]]"

definition ctor_qt3dcore_0_0 :: "ctor_block list" where
  "ctor_qt3dcore_0_0 = [
     CtorBlock ''Qt3DCore::QAbstractAspect'' 0 [
       Overload [TypeM QTCORE_QOBJECT] [] None],
     CtorBlock ''Qt3DCore::QArmature'' 0 [
       Overload [TypeM QT3DCORE_QNODE] [] None],
     CtorBlock Qt3DCore_QAspectEngine 0 [
       Overload [TypeM QTCORE_QOBJECT] [] None],
     CtorBlock Qt3DCore_QAttribute 0 [
       Overload [TypeM QT3DCORE_QNODE] [] None],
     CtorBlock Qt3DCore_QAttribute 4 [
       Overload [TypeM QT3DCORE_QATTRIBUTE, TypeM ''QT3DCORE_QBUFFER'', TypeM QT3DCORE_QNODE] [PNonNull ''Qt3DCore::QBuffer*'', PConv Qt3DCore_QAttribute_VertexBaseType, PUInt, PUInt] None]]"

definition ctor_qt3dcore_0_1 :: "ctor_block list" where
  "ctor_qt3dcore_0_1 = [
     CtorBlock Qt3DCore_QAttribute 5 [
       Overload [TypeM QT3DCORE_QATTRIBUTE, TypeM ''QT3DCORE_QBUFFER'', TypeM QT3DCORE_QNODE] [PNonNull ''Qt3DCore::QBuffer*'', PConv Qt3DCore_QAttribute_VertexBaseType, PUInt, PUInt, PUInt] None,
       Overload [TypeM QT3DCORE_QATTRIBUTE, TypeM ''QT3DCORE_QBUFFER'', TypeM QT3DCORE_QNODE] [PNonNull ''Qt3DCore::QBuffer*'', PString False, PConv Qt3DCore_QAttribute_VertexBaseType, PUInt, PUInt] None],
     CtorBlock Qt3DCore_QAttribute 6 [
       Overload [TypeM QT3DCORE_QATTRIBUTE, TypeM ''QT3DCORE_QBUFFER'', TypeM QT3DCORE_QNODE] [PNonNull ''Qt3DCore::QBuffer*'', PConv Qt3DCore_QAttribute_VertexBaseType, PUInt, PUInt, PUInt, PUInt] None,
       Overload [TypeM QT3DCORE_QATTRIBUTE, TypeM ''QT3DCORE_QBUFFER'', TypeM QT3DCORE_QNODE] [PNonNull ''Qt3DCore::QBuffer*'', PString False, PConv Qt3DCore_QAttribute_VertexBaseType, PUInt, PUInt, PUInt] None]]"

definition ctor_qt3dcore_0_2 :: "ctor_block list" where
  "ctor_qt3dcore_0_2 = [
     CtorBlock Qt3DCore_QAttribute 7 [
       Overload [TypeM QT3DCORE_QATTRIBUTE, TypeM ''QT3DCORE_QBUFFER'', TypeM QT3DCORE_QNODE] [PNonNull ''Qt3DCore::QBuffer*'', PString False, PConv Qt3DCore_QAttribute_VertexBaseType, PUInt, PUInt, PUInt, PUInt] None],
     CtorBlock Qt3DCore_QBoundingVolume 0 [
       Overload [TypeM QT3DCORE_QNODE] [] None],
     CtorBlock ''Qt3DCore::QBuffer'' 0 [
       Overload [TypeM QT3DCORE_QNODE] [] None],
     CtorBlock ''Qt3DCore::QComponent'' 0 [
       Overload [TypeM QT3DCORE_QNODE] [] None],
     CtorBlock ''Qt3DCore::QCoreSettings'' 0 [
       Overload [TypeM QT3DCORE_QNODE] [] None]]"

definition ctor_qt3dcore_0_3 :: "ctor_block list" where
  "ctor_qt3dcore_0_3 = [
     CtorBlock ''Qt3DCore::QEntity'' 0 [
       Overload [TypeM QT3DCORE_QNODE] [] None],
     CtorBlock ''Qt3DCore::QGeometry'' 0 [
       Overload [TypeM QT3DCORE_QNODE] [] None],
     CtorBlock Qt3DCore_QGeometryView 0 [
       Overload [TypeM QT3DCORE_QNODE] [] None],
     CtorBlock Qt3DCore_QJoint 0 [
       Overload [TypeM QT3DCORE_QNODE] [] None],
     CtorBlock ''Qt3DCore::QNode'' 0 [
       Overload [TypeM QT3DCORE_QNODE] [] None]]"

definition ctor_qt3dcore_0_4 :: "ctor_block list" where
  "ctor_qt3dcore_0_4 = [
     CtorBlock ''Qt3DCore::QSkeleton'' 0 [
       Overload [TypeM QT3DCORE_QNODE] [] None],
     CtorBlock ''Qt3DCore::QSkeletonLoader'' 0 [
       Overload [TypeM QT3DCORE_QNODE] [] None],
     CtorBlock ''Qt3DCore::QSkeletonLoader'' 1 [
       Overload [TypeM QT3DCORE_QNODE, ValueM QTCORE_QURL] [PConv QUrl] None],
     CtorBlock Qt3DCore_QTransform 0 [
       Overload [TypeM QT3DCORE_QNODE] [] None]]"

definition ctor_classes_qt3dcore_0 :: "class_entry list" where
  "ctor_classes_qt3dcore_0 = [
     ClassEntry ''Qt3DCore::QAbstractAspect'' [TypeM QTCORE_QOBJECT] [QObject_ptr],
     ClassEntry ''Qt3DCore::QArmature'' [TypeM QT3DCORE_QNODE] [Qt3DCore_QNode_ptr],
     ClassEntry Qt3DCore_QAspectEngine [TypeM QTCORE_QOBJECT] [QObject_ptr],
     ClassEntry Qt3DCore_QAttribute [TypeM QT3DCORE_QATTRIBUTE, TypeM ''QT3DCORE_QBUFFER'', TypeM QT3DCORE_QNODE] [Qt3DCore_QNode_ptr, ''Qt3DCore::QBuffer*, Qt3DCore::QAttribute::VertexBaseType, unsigned int, unsigned int, unsigned int, unsigned int, Qt3DCore::QNode*'', ''Qt3DCore::QBuffer*, QString, Qt3DCore::QAttribute::VertexBaseType, unsigned int, unsigned int, unsigned int, unsigned int, Qt3DCore::QNode*''],
     ClassEntry Qt3DCore_QBoundingVolume [TypeM QT3DCORE_QNODE] [Qt3DCore_QNode_ptr],
     ClassEntry ''Qt3DCore::QBuffer'' [TypeM QT3DCORE_QNODE] [Qt3DCore_QNode_ptr],
     ClassEntry ''Qt3DCore::QComponent'' [TypeM QT3DCORE_QNODE] [Qt3DCore_QNode_ptr],
     ClassEntry ''Qt3DCore::QCoreSettings'' [TypeM QT3DCORE_QNODE] [Qt3DCore_QNode_ptr],
     ClassEntry ''Qt3DCore::QEntity'' [TypeM QT3DCORE_QNODE] [Qt3DCore_QNode_ptr],
     ClassEntry ''Qt3DCore::QGeometry'' [TypeM QT3DCORE_QNODE] [Qt3DCore_QNode_ptr],
     ClassEntry Qt3DCore_QGeometryView [TypeM QT3DCORE_QNODE] [Qt3DCore_QNode_ptr],
     ClassEntry Qt3DCore_QJoint [TypeM QT3DCORE_QNODE] [Qt3DCore_QNode_ptr],
     ClassEntry ''Qt3DCore::QNode'' [TypeM QT3DCORE_QNODE] [Qt3DCore_QNode_ptr],
     ClassEntry ''Qt3DCore::QSkeleton'' [TypeM QT3DCORE_QNODE] [Qt3DCore_QNode_ptr],
     ClassEntry ''Qt3DCore::QSkeletonLoader'' [TypeM QT3DCORE_QNODE, ValueM QTCORE_QURL] [Qt3DCore_QNode_ptr, ''QUrl, Qt3DCore::QNode*''],
     ClassEntry Qt3DCore_QTransform [TypeM QT3DCORE_QNODE] [Qt3DCore_QNode_ptr]]"

definition ctor_qt3dextras_0_0 :: "ctor_block list" where
  "ctor_qt3dextras_0_0 = [
     CtorBlock Qt3DExtras_QConeGeometry 0 [
       Overload [TypeM QT3DCORE_QNODE] [] None],
     CtorBlock Qt3DExtras_QConeGeometryView 0 [
       Overload [TypeM QT3DCORE_QNODE] [] None],
     CtorBlock Qt3DExtras_QConeMesh 0 [
       Overload [TypeM QT3DCORE_QNODE] [] None],
     CtorBlock Qt3DExtras_QCuboidGeometry 0 [
       Overload [TypeM QT3DCORE_QNODE] [] None],
     CtorBlock Qt3DExtras_QCuboidGeometryView 0 [
       Overload [TypeM QT3DCORE_QNODE] [] None]]"

definition ctor_qt3dextras_0_1 :: "ctor_block list" where
  "ctor_qt3dextras_0_1 = [
     CtorBlock Qt3DExtras_QCuboidMesh 0 [
       Overload [TypeM QT3DCORE_QNODE] [] None],
     CtorBlock Qt3DExtras_QCylinderGeometry 0 [
       Overload [TypeM QT3DCORE_QNODE] [] None],
     CtorBlock Qt3DExtras_QCylinderGeometryView 0 [
       Overload [TypeM QT3DCORE_QNODE] [] None],
     CtorBlock Qt3DExtras_QCylinderMesh 0 [
       Overload [TypeM QT3DCORE_QNODE] [] None],
     CtorBlock Qt3DExtras_QDiffuseMapMaterial 0 [
       Overload [TypeM QT3DCORE_QNODE] [] None]]"

definition ctor_qt3dextras_0_2 :: "ctor_block list" where
  "ctor_qt3dextras_0_2 = [
     CtorBlock Qt3DExtras_QDiffuseSpecularMapMaterial 0 [
       Overload [TypeM QT3DCORE_QNODE] [] None],
     CtorBlock Qt3DExtras_QDiffuseSpecularMaterial 0 [
       Overload [TypeM QT3DCORE_QNODE] [] None],
     CtorBlock Qt3DExtras_QExtrudedTextGeometry 0 [
       Overload [TypeM QT3DCORE_QNODE] [] None],
     CtorBlock Qt3DExtras_QExtrudedTextMesh 0 [
       Overload [TypeM QT3DCORE_QNODE] [] None],
     CtorBlock ''Qt3DExtras::QFirstPersonCameraController'' 0 [
       Overload [TypeM QT3DCORE_QNODE] [] None]]"

definition ctor_qt3dextras_0_3 :: "ctor_block list" where
  "ctor_qt3dextras_0_3 = [
     CtorBlock Qt3DExtras_QForwardRenderer 0 [
       Overload [TypeM QT3DCORE_QNODE] [] None],
     CtorBlock Qt3DExtras_QGoochMaterial 0 [
       Overload [TypeM QT3DCORE_QNODE] [] None],
     CtorBlock Qt3DExtras_QMetalRoughMaterial 0 [
       Overload [TypeM QT3DCORE_QNODE] [] None],
     CtorBlock Qt3DExtras_QMorphPhongMaterial 0 [
       Overload [TypeM QT3DCORE_QNODE] [] None],
     CtorBlock ''Qt3DExtras::QNormalDiffuseMapAlphaMaterial'' 0 [
       Overload [TypeM QT3DCORE_QNODE] [] None]]"

definition ctor_qt3dextras_0_4 :: "ctor_block list" where
  "ctor_qt3dextras_0_4 = [
     CtorBlock Qt3DExtras_QNormalDiffuseMapMaterial 0 [
       Overload [TypeM QT3DCORE_QNODE] [] None],
     CtorBlock Qt3DExtras_QNormalDiffuseSpecularMapMaterial 0 [
       Overload [TypeM QT3DCORE_QNODE] [] None],
     CtorBlock ''Qt3DExtras::QOrbitCameraController'' 0 [
       Overload [TypeM QT3DCORE_QNODE] [] None],
     CtorBlock ''Qt3DExtras::QPerVertexColorMaterial'' 0 [
       Overload [TypeM QT3DCORE_QNODE] [] None]]"

definition ctor_classes_qt3dextras_0 :: "class_entry list" where
  "ctor_classes_qt3dextras_0 = [
     ClassEntry Qt3DExtras_QConeGeometry [TypeM QT3DCORE_QNODE] [Qt3DCore_QNode_ptr],
     ClassEntry Qt3DExtras_QConeGeometryView [TypeM QT3DCORE_QNODE] [Qt3DCore_QNode_ptr],
     ClassEntry Qt3DExtras_QConeMesh [TypeM QT3DCORE_QNODE] [Qt3DCore_QNode_ptr],
     ClassEntry Qt3DExtras_QCuboidGeometry [TypeM QT3DCORE_QNODE] [Qt3DCore_QNode_ptr],
     ClassEntry Qt3DExtras_QCuboidGeometryView [TypeM QT3DCORE_QNODE] [Qt3DCore_QNode_ptr],
     ClassEntry Qt3DExtras_QCuboidMesh [TypeM QT3DCORE_QNODE] [Qt3DCore_QNode_ptr],
     ClassEntry Qt3DExtras_QCylinderGeometry [TypeM QT3DCORE_QNODE] [Qt3DCore_QNode_ptr],
     ClassEntry Qt3DExtras_QCylinderGeometryView [TypeM QT3DCORE_QNODE] [Qt3DCore_QNode_ptr],
     ClassEntry Qt3DExtras_QCylinderMesh [TypeM QT3DCORE_QNODE] [Qt3DCore_QNode_ptr],
     ClassEntry Qt3DExtras_QDiffuseMapMaterial [TypeM QT3DCORE_QNODE] [Qt3DCore_QNode_ptr],
     ClassEntry Qt3DExtras_QDiffuseSpecularMapMaterial [TypeM QT3DCORE_QNODE] [Qt3DCore_QNode_ptr],
     ClassEntry Qt3DExtras_QDiffuseSpecularMaterial [TypeM QT3DCORE_QNODE] [Qt3DCore_QNode_ptr],
     ClassEntry Qt3DExtras_QExtrudedTextGeometry [TypeM QT3DCORE_QNODE] [Qt3DCore_QNode_ptr],
     ClassEntry Qt3DExtras_QExtrudedTextMesh [TypeM QT3DCORE_QNODE] [Qt3DCore_QNode_ptr],
     ClassEntry ''Qt3DExtras::QFirstPersonCameraController'' [TypeM QT3DCORE_QNODE] [Qt3DCore_QNode_ptr],
     ClassEntry Qt3DExtras_QForwardRenderer [TypeM QT3DCORE_QNODE] [Qt3DCore_QNode_ptr],
     ClassEntry Qt3DExtras_QGoochMaterial [TypeM QT3DCORE_QNODE] [Qt3DCore_QNode_ptr],
     ClassEntry Qt3DExtras_QMetalRoughMaterial [TypeM QT3DCORE_QNODE] [Qt3DCore_QNode_ptr],
     ClassEntry Qt3DExtras_QMorphPhongMaterial [TypeM QT3DCORE_QNODE] [Qt3DCore_QNode_ptr],
     ClassEntry ''Qt3DExtras::QNormalDiffuseMapAlphaMaterial'' [TypeM QT3DCORE_QNODE] [Qt3DCore_QNode_ptr],
     ClassEntry Qt3DExtras_QNormalDiffuseMapMaterial [TypeM QT3DCORE_QNODE] [Qt3DCore_QNode_ptr],
     ClassEntry Qt3DExtras_QNormalDiffuseSpecularMapMaterial [TypeM QT3DCORE_QNODE] [Qt3DCore_QNode_ptr],
     ClassEntry ''Qt3DExtras::QOrbitCameraController'' [TypeM QT3DCORE_QNODE] [Qt3DCore_QNode_ptr],
     ClassEntry ''Qt3DExtras::QPerVertexColorMaterial'' [TypeM QT3DCORE_QNODE] [Qt3DCore_QNode_ptr]]"

definition ctor_qt3dextras_1_0 :: "ctor_block list" where
  "ctor_qt3dextras_1_0 = [
     CtorBlock Qt3DExtras_QPhongAlphaMaterial 0 [
       Overload [TypeM QT3DCORE_QNODE] [] None],
     CtorBlock Qt3DExtras_QPhongMaterial 0 [
       Overload [TypeM QT3DCORE_QNODE] [] None],
     CtorBlock Qt3DExtras_QPlaneGeometry 0 [
       Overload [TypeM QT3DCORE_QNODE] [] None],
     CtorBlock Qt3DExtras_QPlaneGeometryView 0 [
       Overload [TypeM QT3DCORE_QNODE] [] None],
     CtorBlock ''Qt3DExtras::QPlaneMesh'' 0 [
       Overload [TypeM QT3DCORE_QNODE] [] None]]"

definition ctor_qt3dextras_1_1 :: "ctor_block list" where
  "ctor_qt3dextras_1_1 = [
     CtorBlock ''Qt3DExtras::QSkyboxEntity'' 0 [
       Overload [TypeM QT3DCORE_QNODE] [] None],
     CtorBlock Qt3DExtras_QSphereGeometry 0 [
       Overload [TypeM QT3DCORE_QNODE] [] None],
     CtorBlock Qt3DExtras_QSphereGeometryView 0 [
       Overload [TypeM QT3DCORE_QNODE] [] None],
     CtorBlock Qt3DExtras_QSphereMesh 0 [
       Overload [TypeM QT3DCORE_QNODE] [] None],
     CtorBlock ''Qt3DExtras::QSpriteGrid'' 0 [
       Overload [TypeM QT3DCORE_QNODE] [] None]]"

definition ctor_qt3dextras_1_2 :: "ctor_block list" where
  "ctor_qt3dextras_1_2 = [
     CtorBlock ''Qt3DExtras::QSpriteSheet'' 0 [
       Overload [TypeM QT3DCORE_QNODE] [] None],
     CtorBlock Qt3DExtras_QSpriteSheetItem 0 [
       Overload [TypeM QT3DCORE_QNODE] [] None],
     CtorBlock Qt3DExtras_QText2DEntity 0 [
       Overload [TypeM QT3DCORE_QNODE] [] None],
     CtorBlock Qt3DExtras_QTextureMaterial 0 [
       Overload [TypeM QT3DCORE_QNODE] [] None],
     CtorBlock Qt3DExtras_QTorusGeometry 0 [
       Overload [TypeM QT3DCORE_QNODE] [] None]]"

definition ctor_qt3dextras_1_3 :: "ctor_block list" where
  "ctor_qt3dextras_1_3 = [
     CtorBlock Qt3DExtras_QTorusGeometryView 0 [
       Overload [TypeM QT3DCORE_QNODE] [] None],
     CtorBlock ''Qt3DExtras::QTorusMesh'' 0 [
       Overload [TypeM QT3DCORE_QNODE] [] None]]"

definition ctor_classes_qt3dextras_1 :: "class_entry list" where
  "ctor_classes_qt3dextras_1 = [
     ClassEntry Qt3DExtras_QPhongAlphaMaterial [TypeM QT3DCORE_QNODE] [Qt3DCore_QNode_ptr],
     ClassEntry Qt3DExtras_QPhongMaterial [TypeM QT3DCORE_QNODE] [Qt3DCore_QNode_ptr],
     ClassEntry Qt3DExtras_QPlaneGeometry [TypeM QT3DCORE_QNODE] [Qt3DCore_QNode_ptr],
     ClassEntry Qt3DExtras_QPlaneGeometryView [TypeM QT3DCORE_QNODE] [Qt3DCore_QNode_ptr],
     ClassEntry ''Qt3DExtras::QPlaneMesh'' [TypeM QT3DCORE_QNODE] [Qt3DCore_QNode_ptr],
     ClassEntry ''Qt3DExtras::QSkyboxEntity'' [TypeM QT3DCORE_QNODE] [Qt3DCore_QNode_ptr],
     ClassEntry Qt3DExtras_QSphereGeometry [TypeM QT3DCORE_QNODE] [Qt3DCore_QNode_ptr],
     ClassEntry Qt3DExtras_QSphereGeometryView [TypeM QT3DCORE_QNODE] [Qt3DCore_QNode_ptr],
     ClassEntry Qt3DExtras_QSphereMesh [TypeM QT3DCORE_QNODE] [Qt3DCore_QNode_ptr],
     ClassEntry ''Qt3DExtras::QSpriteGrid'' [TypeM QT3DCORE_QNODE] [Qt3DCore_QNode_ptr],
     ClassEntry ''Qt3DExtras::QSpriteSheet'' [TypeM QT3DCORE_QNODE] [Qt3DCore_QNode_ptr],
     ClassEntry Qt3DExtras_QSpriteSheetItem [TypeM QT3DCORE_QNODE] [Qt3DCore_QNode_ptr],
     ClassEntry Qt3DExtras_QText2DEntity [TypeM QT3DCORE_QNODE] [Qt3DCore_QNode_ptr],
     ClassEntry Qt3DExtras_QTextureMaterial [TypeM QT3DCORE_QNODE] [Qt3DCore_QNode_ptr],
     ClassEntry Qt3DExtras_QTorusGeometry [TypeM QT3DCORE_QNODE] [Qt3DCore_QNode_ptr],
     ClassEntry Qt3DExtras_QTorusGeometryView [TypeM QT3DCORE_QNODE] [Qt3DCore_QNode_ptr],
     ClassEntry ''Qt3DExtras::QTorusMesh'' [TypeM QT3DCORE_QNODE] [Qt3DCore_QNode_ptr]]"

definition ctor_qt3dinput_0_0 :: "ctor_block list" where
  "ctor_qt3dinput_0_0 = [
     CtorBlock Qt3DInput_QAbstractPhysicalDevice 0 [
       Overload [TypeM QT3DCORE_QNODE] [] None],
     CtorBlock ''Qt3DInput::QAction'' 0 [
       Overload [TypeM QT3DCORE_QNODE] [] None],
     CtorBlock ''Qt3DInput::QActionInput'' 0 [
       Overload [TypeM QT3DCORE_QNODE] [] None],
     CtorBlock ''Qt3DInput::QAnalogAxisInput'' 0 [
       Overload [TypeM QT3DCORE_QNODE] [] None],
     CtorBlock ''Qt3DInput::QAxis'' 0 [
       Overload [TypeM QT3DCORE_QNODE] [] None]]"

definition ctor_qt3dinput_0_1 :: "ctor_block list" where
  "ctor_qt3dinput_0_1 = [
     CtorBlock Qt3DInput_QAxisAccumulator 0 [
       Overload [TypeM QT3DCORE_QNODE] [] None],
     CtorBlock ''Qt3DInput::QAxisSetting'' 0 [
       Overload [TypeM QT3DCORE_QNODE] [] None],
     CtorBlock Qt3DInput_QButtonAxisInput 0 [
       Overload [TypeM QT3DCORE_QNODE] [] None],
     CtorBlock ''Qt3DInput::QInputAspect'' 0 [
       Overload [TypeM QTCORE_QOBJECT] [] None],
     CtorBlock ''Qt3DInput::QInputChord'' 0 [
       Overload [TypeM QT3DCORE_QNODE] [] None]]"

definition ctor_qt3dinput_0_2 :: "ctor_block list" where
  "ctor_qt3dinput_0_2 = [
     CtorBlock ''Qt3DInput::QInputSequence'' 0 [
       Overload [TypeM QT3DCORE_QNODE] [] None],
     CtorBlock ''Qt3DInput::QInputSettings'' 0 [
       Overload [TypeM QT3DCORE_QNODE] [] None],
     CtorBlock ''Qt3DInput::QKeyboardDevice'' 0 [
       Overload [TypeM QT3DCORE_QNODE] [] None],
     CtorBlock ''Qt3DInput::QKeyboardHandler'' 0 [
       Overload [TypeM QT3DCORE_QNODE] [] None],
     CtorBlock ''Qt3DInput::QLogicalDevice'' 0 [
       Overload [TypeM QT3DCORE_QNODE] [] None]]"

definition ctor_qt3dinput_0_3 :: "ctor_block list" where
  "ctor_qt3dinput_0_3 = [
     CtorBlock ''Qt3DInput::QMouseDevice'' 0 [
       Overload [TypeM QT3DCORE_QNODE] [] None],
     CtorBlock ''Qt3DInput::QMouseHandler'' 0 [
       Overload [TypeM QT3DCORE_QNODE] [] None]]"

definition ctor_classes_qt3dinput_0 :: "class_entry list" where
  "ctor_classes_qt3dinput_0 = [
     ClassEntry Qt3DInput_QAbstractPhysicalDevice [TypeM QT3DCORE_QNODE] [Qt3DCore_QNode_ptr],
     ClassEntry ''Qt3DInput::QAction'' [TypeM QT3DCORE_QNODE] [Qt3DCore_QNode_ptr],
     ClassEntry ''Qt3DInput::QActionInput'' [TypeM QT3DCORE_QNODE] [Qt3DCore_QNode_ptr],
     ClassEntry ''Qt3DInput::QAnalogAxisInput'' [TypeM QT3DCORE_QNODE] [Qt3DCore_QNode_ptr],
     ClassEntry ''Qt3DInput::QAxis'' [TypeM QT3DCORE_QNODE] [Qt3DCore_QNode_ptr],
     ClassEntry Qt3DInput_QAxisAccumulator [TypeM QT3DCORE_QNODE] [Qt3DCore_QNode_ptr],
     ClassEntry ''Qt3DInput::QAxisSetting'' [TypeM QT3DCORE_QNODE] [Qt3DCore_QNode_ptr],
     ClassEntry Qt3DInput_QButtonAxisInput [TypeM QT3DCORE_QNODE] [Qt3DCore_QNode_ptr],
     ClassEntry ''Qt3DInput::QInputAspect'' [TypeM QTCORE_QOBJECT] [QObject_ptr],
     ClassEntry ''Qt3DInput::QInputChord'' [TypeM QT3DCORE_QNODE] [Qt3DCore_QNode_ptr],
     ClassEntry ''Qt3DInput::QInputSequence'' [TypeM QT3DCORE_QNODE] [Qt3DCore_QNode_ptr],
     ClassEntry ''Qt3DInput::QInputSettings'' [TypeM QT3DCORE_QNODE] [Qt3DCore_QNode_ptr],
     ClassEntry ''Qt3DInput::QKeyboardDevice'' [TypeM QT3DCORE_QNODE] [Qt3DCore_QNode_ptr],
     ClassEntry ''Qt3DInput::QKeyboardHandler'' [TypeM QT3DCORE_QNODE] [Qt3DCore_QNode_ptr],
     ClassEntry ''Qt3DInput::QLogicalDevice'' [TypeM QT3DCORE_QNODE] [Qt3DCore_QNode_ptr],
     ClassEntry ''Qt3DInput::QMouseDevice'' [TypeM QT3DCORE_QNODE] [Qt3DCore_QNode_ptr],
     ClassEntry ''Qt3DInput::QMouseHandler'' [TypeM QT3DCORE_QNODE] [Qt3DCore_QNode_ptr]]"

definition ctor_qt3dlogic_0_0 :: "ctor_block list" where
  "ctor_qt3dlogic_0_0 = [
     CtorBlock ''Qt3DLogic::QFrameAction'' 0 [
       Overload [TypeM QT3DCORE_QNODE] [] None],
     CtorBlock ''Qt3DLogic::QLogicAspect'' 0 [
       Overload [TypeM QTCORE_QOBJECT] [] None]]"

definition ctor_classes_qt3dlogic_0 :: "class_entry list" where
  "ctor_classes_qt3dlogic_0 = [
     ClassEntry ''Qt3DLogic::QFrameAction'' [TypeM QT3DCORE_QNODE] [Qt3DCore_QNode_ptr],
     ClassEntry ''Qt3DLogic::QLogicAspect'' [TypeM QTCORE_QOBJECT] [QObject_ptr]]"

definition ctor_qt3drender_0_0 :: "ctor_block list" where
  "ctor_qt3drender_0_0 = [
     CtorBlock Qt3DRender_QAbstractRayCaster 0 [
       Overload [TypeM QT3DCORE_QNODE] [] None],
     CtorBlock Qt3DRender_QAbstractTextureImage 0 [
       Overload [TypeM QT3DCORE_QNODE] [] None],
     CtorBlock ''Qt3DRender::QAlphaCoverage'' 0 [
       Overload [TypeM QT3DCORE_QNODE] [] None],
     CtorBlock ''Qt3DRender::QAlphaTest'' 0 [
       Overload [TypeM QT3DCORE_QNODE] [] None],
     CtorBlock ''Qt3DRender::QBlendEquation'' 0 [
       Overload [TypeM QT3DCORE_QNODE] [] None]]"

definition ctor_qt3drender_0_1 :: "ctor_block list" where
  "ctor_qt3drender_0_1 = [
     CtorBlock Qt3DRender_QBlendEquationArguments 0 [
       Overload [TypeM QT3DCORE_QNODE] [] None],
     CtorBlock Qt3DRender_QBlitFramebuffer 0 [
       Overload [TypeM QT3DCORE_QNODE] [] None],
     CtorBlock Qt3DRender_QCamera 0 [
       Overload [TypeM QT3DCORE_QNODE] [] None],
     CtorBlock Qt3DRender_QCameraLens 0 [
       Overload [TypeM QT3DCORE_QNODE] [] None],
     CtorBlock ''Qt3DRender::QCameraSelector'' 0 [
       Overload [TypeM QT3DCORE_QNODE] [] None]]"

definition ctor_qt3drender_0_2 :: "ctor_block list" where
  "ctor_qt3drender_0_2 = [
     CtorBlock Qt3DRender_QClearBuffers 0 [
       Overload [TypeM QT3DCORE_QNODE] [] None],
     CtorBlock ''Qt3DRender::QClipPlane'' 0 [
       Overload [TypeM QT3DCORE_QNODE] [] None],
     CtorBlock ''Qt3DRender::QColorMask'' 0 [
       Overload [TypeM QT3DCORE_QNODE] [] None],
     CtorBlock Qt3DRender_QComputeCommand 0 [
       Overload [TypeM QT3DCORE_QNODE] [] None],
     CtorBlock ''Qt3DRender::QCullFace'' 0 [
       Overload [TypeM QT3DCORE_QNODE] [] None]]"

definition ctor_qt3drender_0_3 :: "ctor_block list" where
  "ctor_qt3drender_0_3 = [
     CtorBlock ''Qt3DRender::QDepthRange'' 0 [
       Overload [TypeM QT3DCORE_QNODE] [] None],
     CtorBlock ''Qt3DRender::QDepthTest'' 0 [
       Overload [TypeM QT3DCORE_QNODE] [] None],
     CtorBlock ''Qt3DRender::QDirectionalLight'' 0 [
       Overload [TypeM QT3DCORE_QNODE] [] None],
     CtorBlock ''Qt3DRender::QDispatchCompute'' 0 [
       Overload [TypeM QT3DCORE_QNODE] [] None],
     CtorBlock ''Qt3DRender::QDithering'' 0 [
       Overload [TypeM QT3DCORE_QNODE] [] None]]"

definition ctor_qt3drender_0_4 :: "ctor_block list" where
  "ctor_qt3drender_0_4 = [
     CtorBlock ''Qt3DRender::QEffect'' 0 [
       Overload [TypeM QT3DCORE_QNODE] [] None],
     CtorBlock ''Qt3DRender::QEnvironmentLight'' 0 [
       Overload [TypeM QT3DCORE_QNODE] [] None],
     CtorBlock ''Qt3DRender::QFilterKey'' 0 [
       Overload [TypeM QT3DCORE_QNODE] [] None],
     CtorBlock ''Qt3DRender::QFrameGraphNode'' 0 [
       Overload [TypeM QT3DCORE_QNODE] [] None]]"

definition ctor_classes_qt3drender_0 :: "class_entry list" where
  "ctor_classes_qt3drender_0 = [
     ClassEntry Qt3DRender_QAbstractRayCaster [TypeM QT3DCORE_QNODE] [Qt3DCore_QNode_ptr],
     ClassEntry Qt3DRender_QAbstractTextureImage [TypeM QT3DCORE_QNODE] [Qt3DCore_QNode_ptr],
     ClassEntry ''Qt3DRender::QAlphaCoverage'' [TypeM QT3DCORE_QNODE] [Qt3DCore_QNode_ptr],
     ClassEntry ''Qt3DRender::QAlphaTest'' [TypeM QT3DCORE_QNODE] [Qt3DCore_QNode_ptr],
     ClassEntry ''Qt3DRender::QBlendEquation'' [TypeM QT3DCORE_QNODE] [Qt3DCore_QNode_ptr],
     ClassEntry Qt3DRender_QBlendEquationArguments [TypeM QT3DCORE_QNODE] [Qt3DCore_QNode_ptr],
     ClassEntry Qt3DRender_QBlitFramebuffer [TypeM QT3DCORE_QNODE] [Qt3DCore_QNode_ptr],
     ClassEntry Qt3DRender_QCamera [TypeM QT3DCORE_QNODE] [Qt3DCore_QNode_ptr],
     ClassEntry Qt3DRender_QCameraLens [TypeM QT3DCORE_QNODE] [Qt3DCore_QNode_ptr],
     ClassEntry ''Qt3DRender::QCameraSelector'' [TypeM QT3DCORE_QNODE] [Qt3DCore_QNode_ptr],
     ClassEntry Qt3DRender_QClearBuffers [TypeM QT3DCORE_QNODE] [Qt3DCore_QNode_ptr],
     ClassEntry ''Qt3DRender::QClipPlane'' [TypeM QT3DCORE_QNODE] [Qt3DCore_QNode_ptr],
     ClassEntry ''Qt3DRender::QColorMask'' [TypeM QT3DCORE_QNODE] [Qt3DCore_QNode_ptr],
     ClassEntry Qt3DRender_QComputeCommand [TypeM QT3DCORE_QNODE] [Qt3DCore_QNode_ptr],
     ClassEntry ''Qt3DRender::QCullFace'' [TypeM QT3DCORE_QNODE] [Qt3DCore_QNode_ptr],
     ClassEntry ''Qt3DRender::QDepthRange'' [TypeM QT3DCORE_QNODE] [Qt3DCore_QNode_ptr],
     ClassEntry ''Qt3DRender::QDepthTest'' [TypeM QT3DCORE_QNODE] [Qt3DCore_QNode_ptr],
     ClassEntry ''Qt3DRender::QDirectionalLight'' [TypeM QT3DCORE_QNODE] [Qt3DCore_QNode_ptr],
     ClassEntry ''Qt3DRender::QDispatchCompute'' [TypeM QT3DCORE_QNODE] [Qt3DCore_QNode_ptr],
     ClassEntry ''Qt3DRender::QDithering'' [TypeM QT3DCORE_QNODE] [Qt3DCore_QNode_ptr],
     ClassEntry ''Qt3DRender::QEffect'' [TypeM QT3DCORE_QNODE] [Qt3DCore_QNode_ptr],
     ClassEntry ''Qt3DRender::QEnvironmentLight'' [TypeM QT3DCORE_QNODE] [Qt3DCore_QNode_ptr],
     ClassEntry ''Qt3DRender::QFilterKey'' [TypeM QT3DCORE_QNODE] [Qt3DCore_QNode_ptr],
     ClassEntry ''Qt3DRender::QFrameGraphNode'' [TypeM QT3DCORE_QNODE] [Qt3DCore_QNode_ptr]]"

definition ctor_qt3drender_1_0 :: "ctor_block list" where
  "ctor_qt3drender_1_0 = [
     CtorBlock ''Qt3DRender::QFrontFace'' 0 [
       Overload [TypeM QT3DCORE_QNODE] [] None],
     CtorBlock ''Qt3DRender::QFrustumCulling'' 0 [
       Overload [TypeM QT3DCORE_QNODE] [] None],
     CtorBlock Qt3DRender_QGeometryRenderer 0 [
       Overload [TypeM QT3DCORE_QNODE] [] None],
     CtorBlock Qt3DRender_QGraphicsApiFilter 0 [
       Overload [TypeM QTCORE_QOBJECT] [] None],
     CtorBlock ''Qt3DRender::QLayer'' 0 [
       Overload [TypeM QT3DCORE_QNODE] [] None]]"

definition ctor_qt3drender_1_1 :: "ctor_block list" where
  "ctor_qt3drender_1_1 = [
     CtorBlock ''Qt3DRender::QLayerFilter'' 0 [
       Overload [TypeM QT3DCORE_QNODE] [] None],
     CtorBlock Qt3DRender_QLevelOfDetail 0 [
       Overload [TypeM QT3DCORE_QNODE] [] None],
     CtorBlock ''Qt3DRender::QLevelOfDetailSwitch'' 0 [
       Overload [TypeM QT3DCORE_QNODE] [] None],
     CtorBlock ''Qt3DRender::QLineWidth'' 0 [
       Overload [TypeM QT3DCORE_QNODE] [] None],
     CtorBlock ''Qt3DRender::QMaterial'' 0 [
       Overload [TypeM QT3DCORE_QNODE] [] None]]"

definition ctor_qt3drender_1_2 :: "ctor_block list" where
  "ctor_qt3drender_1_2 = [
     CtorBlock ''Qt3DRender::QMemoryBarrier'' 0 [
       Overload [TypeM QT3DCORE_QNODE] [] None],
     CtorBlock ''Qt3DRender::QMesh'' 0 [
       Overload [TypeM QT3DCORE_QNODE] [] None],
     CtorBlock ''Qt3DRender::QMultiSampleAntiAliasing'' 0 [
       Overload [TypeM QT3DCORE_QNODE] [] None],
     CtorBlock ''Qt3DRender::QNoDepthMask'' 0 [
       Overload [TypeM QT3DCORE_QNODE] [] None],
     CtorBlock ''Qt3DRender::QNoDraw'' 0 [
       Overload [TypeM QT3DCORE_QNODE] [] None]]"

definition ctor_qt3drender_1_3 :: "ctor_block list" where
  "ctor_qt3drender_1_3 = [
     CtorBlock ''Qt3DRender::QNoPicking'' 0 [
       Overload [TypeM QT3DCORE_QNODE] [] None],
     CtorBlock Qt3DRender_QObjectPicker 0 [
       Overload [TypeM QT3DCORE_QNODE] [] None],
     CtorBlock Qt3DRender_QPaintedTextureImage 0 [
       Overload [TypeM QT3DCORE_QNODE] [] None],
     CtorBlock ''Qt3DRender::QParameter'' 0 [
       Overload [TypeM QT3DCORE_QNODE] [] None]]"

definition ctor_qt3drender_1_4 :: "ctor_block list" where
  "ctor_qt3drender_1_4 = [
     CtorBlock ''Qt3DRender::QParameter'' 2 [
       Overload [TypeM QT3DCORE_QNODE] [PString False, PVariant] None,
       Overload [TypeM QT3DCORE_QNODE, TypeM QT3DRENDER_QABSTRACTTEXTURE] [PString False, PNonNull Qt3DRender_QAbstractTexture_ptr] None],
     CtorBlock Qt3DRender_QPickEvent 0 [
       Overload [] [] None],
     CtorBlock Qt3DRender_QPickEvent 4 [
       Overload [ValueM QTCORE_QPOINTF, ValueM QTGUI_QVECTOR3D] [PConv QPointF, PConv QVector3D, PConv QVector3D, PReal ''float''] None]]"

definition ctor_qt3drender_1_5 :: "ctor_block list" where
  "ctor_qt3drender_1_5 = [
     CtorBlock Qt3DRender_QPickEvent 7 [
       Overload [TypeM ''QT3DRENDER_QPICKEVENT'', ValueM QTCORE_QPOINTF, ValueM QTGUI_QVECTOR3D] [PConv QPointF, PConv QVector3D, PConv QVector3D, PReal ''float'', PConv ''Qt3DRender::QPickEvent::Buttons'', PInt, PInt] None],
     CtorBlock ''Qt3DRender::QPickLineEvent'' 0 [
       Overload [] [] None],
     CtorBlock ''Qt3DRender::QPickLineEvent'' 10 [
       Overload [TypeM ''QT3DRENDER_QPICKEVENT'', ValueM QTCORE_QPOINTF, ValueM QTGUI_QVECTOR3D] [PConv QPointF, PConv QVector3D, PConv QVector3D, PReal ''float'', PUInt, PUInt, PUInt, PConv ''Qt3DRender::QPickEvent::Buttons'', PInt, PInt] None],
     CtorBlock ''Qt3DRender::QPickPointEvent'' 0 [
       Overload [] [] None]]"

definition ctor_qt3drender_1_6 :: "ctor_block list" where
  "ctor_qt3drender_1_6 = [
     CtorBlock ''Qt3DRender::QPickPointEvent'' 8 [
       Overload [TypeM ''QT3DRENDER_QPICKEVENT'', ValueM QTCORE_QPOINTF, ValueM QTGUI_QVECTOR3D] [PConv QPointF, PConv QVector3D, PConv QVector3D, PReal ''float'', PUInt, PConv ''Qt3DRender::QPickEvent::Buttons'', PInt, PInt] None],
     CtorBlock Qt3DRender_QPickTriangleEvent 0 [
       Overload [] [] None],
     CtorBlock Qt3DRender_QPickTriangleEvent 8 [
       Overload [ValueM QTCORE_QPOINTF, ValueM QTGUI_QVECTOR3D] [PConv QPointF, PConv QVector3D, PConv QVector3D, PReal ''float'', PUInt, PUInt, PUInt, PUInt] None]]"

definition ctor_qt3drender_1_7 :: "ctor_block list" where
  "ctor_qt3drender_1_7 = [
     CtorBlock Qt3DRender_QPickTriangleEvent 12 [
       Overload [TypeM ''QT3DRENDER_QPICKEVENT'', ValueM QTCORE_QPOINTF, ValueM QTGUI_QVECTOR3D] [PConv QPointF, PConv QVector3D, PConv QVector3D, PReal ''float'', PUInt, PUInt, PUInt, PUInt, PConv ''Qt3DRender::QPickEvent::Buttons'', PInt, PInt, PConv QVector3D] None],
     CtorBlock ''Qt3DRender::QPickingProxy'' 0 [
       Overload [TypeM QT3DCORE_QNODE] [] None]]"

definition ctor_classes_qt3drender_1 :: "class_entry list" where
  "ctor_classes_qt3drender_1 = [
     ClassEntry ''Qt3DRender::QFrontFace'' [TypeM QT3DCORE_QNODE] [Qt3DCore_QNode_ptr],
     ClassEntry ''Qt3DRender::QFrustumCulling'' [TypeM QT3DCORE_QNODE] [Qt3DCore_QNode_ptr],
     ClassEntry Qt3DRender_QGeometryRenderer [TypeM QT3DCORE_QNODE] [Qt3DCore_QNode_ptr],
     ClassEntry Qt3DRender_QGraphicsApiFilter [TypeM QTCORE_QOBJECT] [QObject_ptr],
     ClassEntry ''Qt3DRender::QLayer'' [TypeM QT3DCORE_QNODE] [Qt3DCore_QNode_ptr],
     ClassEntry ''Qt3DRender::QLayerFilter'' [TypeM QT3DCORE_QNODE] [Qt3DCore_QNode_ptr],
     ClassEntry Qt3DRender_QLevelOfDetail [TypeM QT3DCORE_QNODE] [Qt3DCore_QNode_ptr],
     ClassEntry ''Qt3DRender::QLevelOfDetailSwitch'' [TypeM QT3DCORE_QNODE] [Qt3DCore_QNode_ptr],
     ClassEntry ''Qt3DRender::QLineWidth'' [TypeM QT3DCORE_QNODE] [Qt3DCore_QNode_ptr],
     ClassEntry ''Qt3DRender::QMaterial'' [TypeM QT3DCORE_QNODE] [Qt3DCore_QNode_ptr],
     ClassEntry ''Qt3DRender::QMemoryBarrier'' [TypeM QT3DCORE_QNODE] [Qt3DCore_QNode_ptr],
     ClassEntry ''Qt3DRender::QMesh'' [TypeM QT3DCORE_QNODE] [Qt3DCore_QNode_ptr],
     ClassEntry ''Qt3DRender::QMultiSampleAntiAliasing'' [TypeM QT3DCORE_QNODE] [Qt3DCore_QNode_ptr],
     ClassEntry ''Qt3DRender::QNoDepthMask'' [TypeM QT3DCORE_QNODE] [Qt3DCore_QNode_ptr],
     ClassEntry ''Qt3DRender::QNoDraw'' [TypeM QT3DCORE_QNODE] [Qt3DCore_QNode_ptr],
     ClassEntry ''Qt3DRender::QNoPicking'' [TypeM QT3DCORE_QNODE] [Qt3DCore_QNode_ptr],
     ClassEntry Qt3DRender_QObjectPicker [TypeM QT3DCORE_QNODE] [Qt3DCore_QNode_ptr],
     ClassEntry Qt3DRender_QPaintedTextureImage [TypeM QT3DCORE_QNODE] [Qt3DCore_QNode_ptr],
     ClassEntry ''Qt3DRender::QParameter'' [TypeM QT3DCORE_QNODE, TypeM QT3DRENDER_QABSTRACTTEXTURE] [Qt3DCore_QNode_ptr, ''QString, QVariant, Qt3DCore::QNode*'', ''QString, Qt3DRender::QAbstractTexture*, Qt3DCore::QNode*''],
     ClassEntry Qt3DRender_QPickEvent [TypeM ''QT3DRENDER_QPICKEVENT'', ValueM QTCORE_QPOINTF, ValueM QTGUI_QVECTOR3D] ['''', ''QPointF, QVector3D, QVector3D, float'', ''QPointF, QVector3D, QVector3D, float, Qt3DRender::QPickEvent::Buttons, int, int''],
     ClassEntry ''Qt3DRender::QPickLineEvent'' [TypeM ''QT3DRENDER_QPICKEVENT'', ValueM QTCORE_QPOINTF, ValueM QTGUI_QVECTOR3D] ['''', ''QPointF, QVector3D, QVector3D, float, unsigned int, unsigned int, unsigned int, Qt3DRender::QPickEvent::Buttons, int, int''],
     ClassEntry ''Qt3DRender::QPickPointEvent'' [TypeM ''QT3DRENDER_QPICKEVENT'', ValueM QTCORE_QPOINTF, ValueM QTGUI_QVECTOR3D] ['''', ''QPointF, QVector3D, QVector3D, float, unsigned int, Qt3DRender::QPickEvent::Buttons, int, int''],
     ClassEntry Qt3DRender_QPickTriangleEvent [TypeM ''QT3DRENDER_QPICKEVENT'', ValueM QTCORE_QPOINTF, ValueM QTGUI_QVECTOR3D] ['''', ''QPointF, QVector3D, QVector3D, float, unsigned int, unsigned int, unsigned int, unsigned int'', ''QPointF, QVector3D, QVector3D, float, unsigned int, unsigned int, unsigned int, unsigned int, Qt3DRender::QPickEvent::Buttons, int, int, QVector3D''],
     ClassEntry ''Qt3DRender::QPickingProxy'' [TypeM QT3DCORE_QNODE] [Qt3DCore_QNode_ptr]]"

definition ctor_qt3drender_2_0 :: "ctor_block list" where
  "ctor_qt3drender_2_0 = [
     CtorBlock Qt3DRender_QPickingSettings 0 [
       Overload [TypeM QT3DCORE_QNODE] [] None],
     CtorBlock ''Qt3DRender::QPointLight'' 0 [
       Overload [TypeM QT3DCORE_QNODE] [] None],
     CtorBlock ''Qt3DRender::QPointSize'' 0 [
       Overload [TypeM QT3DCORE_QNODE] [] None],
     CtorBlock ''Qt3DRender::QPolygonOffset'' 0 [
       Overload [TypeM QT3DCORE_QNODE] [] None],
     CtorBlock Qt3DRender_QProximityFilter 0 [
       Overload [TypeM QT3DCORE_QNODE] [] None]]"

definition ctor_qt3drender_2_1 :: "ctor_block list" where
  "ctor_qt3drender_2_1 = [
     CtorBlock ''Qt3DRender::QRasterMode'' 0 [
       Overload [TypeM QT3DCORE_QNODE] [] None],
     CtorBlock ''Qt3DRender::QRayCaster'' 0 [
       Overload [TypeM QT3DCORE_QNODE] [] None],
     CtorBlock ''Qt3DRender::QRenderAspect'' 0 [
       Overload [TypeM QTCORE_QOBJECT] [] None],
     CtorBlock ''Qt3DRender::QRenderAspect'' 1 [
       Overload [TypeM ''QT3DRENDER_QRENDERASPECT'', TypeM QTCORE_QOBJECT] [PConv ''Qt3DRender::QRenderAspect::SubmissionType''] None],
     CtorBlock Qt3DRender_QRenderCapabilities 0 [
       Overload [TypeM QTCORE_QOBJECT] [] None]]"

definition ctor_qt3drender_2_2 :: "ctor_block list" where
  "ctor_qt3drender_2_2 = [
     CtorBlock ''Qt3DRender::QRenderCapture'' 0 [
       Overload [TypeM QT3DCORE_QNODE] [] None],
     CtorBlock Qt3DRender_QRenderPass 0 [
       Overload [TypeM QT3DCORE_QNODE] [] None],
     CtorBlock ''Qt3DRender::QRenderPassFilter'' 0 [
       Overload [TypeM QT3DCORE_QNODE] [] None],
     CtorBlock ''Qt3DRender::QRenderSettings'' 0 [
       Overload [TypeM QT3DCORE_QNODE] [] None],
     CtorBlock ''Qt3DRender::QRenderStateSet'' 0 [
       Overload [TypeM QT3DCORE_QNODE] [] None]]"

definition ctor_qt3drender_2_3 :: "ctor_block list" where
  "ctor_qt3drender_2_3 = [
     CtorBlock Qt3DRender_QRenderSurfaceSelector 0 [
       Overload [TypeM QT3DCORE_QNODE] [] None],
     CtorBlock ''Qt3DRender::QRenderTarget'' 0 [
       Overload [TypeM QT3DCORE_QNODE] [] None],
     CtorBlock Qt3DRender_QRenderTargetOutput 0 [
       Overload [TypeM QT3DCORE_QNODE] [] None],
     CtorBlock ''Qt3DRender::QRenderTargetSelector'' 0 [
       Overload [TypeM QT3DCORE_QNODE] [] None],
     CtorBlock ''Qt3DRender::QSceneLoader'' 0 [
       Overload [TypeM QT3DCORE_QNODE] [] None]]"

definition ctor_qt3drender_2_4 :: "ctor_block list" where
  "ctor_qt3drender_2_4 = [
     CtorBlock Qt3DRender_QScissorTest 0 [
       Overload [TypeM QT3DCORE_QNODE] [] None],
     CtorBlock ''Qt3DRender::QScreenRayCaster'' 0 [
       Overload [TypeM QT3DCORE_QNODE] [] None],
     CtorBlock ''Qt3DRender::QSeamlessCubemap'' 0 [
       Overload [TypeM QT3DCORE_QNODE] [] None],
     CtorBlock ''Qt3DRender::QSetFence'' 0 [
       Overload [TypeM QT3DCORE_QNODE] [] None],
     CtorBlock ''Qt3DRender::QShaderData'' 0 [
       Overload [TypeM QT3DCORE_QNODE] [] None]]"

definition ctor_classes_qt3drender_2 :: "class_entry list" where
  "ctor_classes_qt3drender_2 = [
     ClassEntry Qt3DRender_QPickingSettings [TypeM QT3DCORE_QNODE] [Qt3DCore_QNode_ptr],
     ClassEntry ''Qt3DRender::QPointLight'' [TypeM QT3DCORE_QNODE] [Qt3DCore_QNode_ptr],
     ClassEntry ''Qt3DRender::QPointSize'' [TypeM QT3DCORE_QNODE] [Qt3DCore_QNode_ptr],
     ClassEntry ''Qt3DRender::QPolygonOffset'' [TypeM QT3DCORE_QNODE] [Qt3DCore_QNode_ptr],
     ClassEntry Qt3DRender_QProximityFilter [TypeM QT3DCORE_QNODE] [Qt3DCore_QNode_ptr],
     ClassEntry ''Qt3DRender::QRasterMode'' [TypeM QT3DCORE_QNODE] [Qt3DCore_QNode_ptr],
     ClassEntry ''Qt3DRender::QRayCaster'' [TypeM QT3DCORE_QNODE] [Qt3DCore_QNode_ptr],
     ClassEntry ''Qt3DRender::QRenderAspect'' [TypeM ''QT3DRENDER_QRENDERASPECT'', TypeM QTCORE_QOBJECT] [QObject_ptr, ''Qt3DRender::QRenderAspect::SubmissionType, QObject*''],
     ClassEntry Qt3DRender_QRenderCapabilities [TypeM QTCORE_QOBJECT] [QObject_ptr],
     ClassEntry ''Qt3DRender::QRenderCapture'' [TypeM QT3DCORE_QNODE] [Qt3DCore_QNode_ptr],
     ClassEntry Qt3DRender_QRenderPass [TypeM QT3DCORE_QNODE] [Qt3DCore_QNode_ptr],
     ClassEntry ''Qt3DRender::QRenderPassFilter'' [TypeM QT3DCORE_QNODE] [Qt3DCore_QNode_ptr],
     ClassEntry ''Qt3DRender::QRenderSettings'' [TypeM QT3DCORE_QNODE] [Qt3DCore_QNode_ptr],
     ClassEntry ''Qt3DRender::QRenderStateSet'' [TypeM QT3DCORE_QNODE] [Qt3DCore_QNode_ptr],
     ClassEntry Qt3DRender_QRenderSurfaceSelector [TypeM QT3DCORE_QNODE] [Qt3DCore_QNode_ptr],
     ClassEntry ''Qt3DRender::QRenderTarget'' [TypeM QT3DCORE_QNODE] [Qt3DCore_QNode_ptr],
     ClassEntry Qt3DRender_QRenderTargetOutput [TypeM QT3DCORE_QNODE] [Qt3DCore_QNode_ptr],
     ClassEntry ''Qt3DRender::QRenderTargetSelector'' [TypeM QT3DCORE_QNODE] [Qt3DCore_QNode_ptr],
     ClassEntry ''Qt3DRender::QSceneLoader'' [TypeM QT3DCORE_QNODE] [Qt3DCore_QNode_ptr],
     ClassEntry Qt3DRender_QScissorTest [TypeM QT3DCORE_QNODE] [Qt3DCore_QNode_ptr],
     ClassEntry ''Qt3DRender::QScreenRayCaster'' [TypeM QT3DCORE_QNODE] [Qt3DCore_QNode_ptr],
     ClassEntry ''Qt3DRender::QSeamlessCubemap'' [TypeM QT3DCORE_QNODE] [Qt3DCore_QNode_ptr],
     ClassEntry ''Qt3DRender::QSetFence'' [TypeM QT3DCORE_QNODE] [Qt3DCore_QNode_ptr],
     ClassEntry ''Qt3DRender::QShaderData'' [TypeM QT3DCORE_QNODE] [Qt3DCore_QNode_ptr]]"

definition ctor_qt3drender_3_0 :: "ctor_block list" where
  "ctor_qt3drender_3_0 = [
     CtorBlock Qt3DRender_QShaderImage 0 [
       Overload [TypeM QT3DCORE_QNODE] [] None],
     CtorBlock Qt3DRender_QShaderProgram 0 [
       Overload [TypeM QT3DCORE_QNODE] [] None],
     CtorBlock Qt3DRender_QShaderProgramBuilder 0 [
       Overload [TypeM QT3DCORE_QNODE] [] None],
     CtorBlock ''Qt3DRender::QSharedGLTexture'' 0 [
       Overload [TypeM QT3DCORE_QNODE] [] None],
     CtorBlock ''Qt3DRender::QSortPolicy'' 0 [
       Overload [TypeM QT3DCORE_QNODE] [] None]]"

definition ctor_qt3drender_3_1 :: "ctor_block list" where
  "ctor_qt3drender_3_1 = [
     CtorBlock Qt3DRender_QSpotLight 0 [
       Overload [TypeM QT3DCORE_QNODE] [] None],
     CtorBlock ''Qt3DRender::QStencilMask'' 0 [
       Overload [TypeM QT3DCORE_QNODE] [] None],
     CtorBlock ''Qt3DRender::QStencilOperation'' 0 [
       Overload [TypeM QT3DCORE_QNODE] [] None],
     CtorBlock ''Qt3DRender::QStencilTest'' 0 [
       Overload [TypeM QT3DCORE_QNODE] [] None],
     CtorBlock ''Qt3DRender::QSubtreeEnabler'' 0 [
       Overload [TypeM QT3DCORE_QNODE] [] None]]"

definition ctor_qt3drender_3_2 :: "ctor_block list" where
  "ctor_qt3drender_3_2 = [
     CtorBlock ''Qt3DRender::QTechnique'' 0 [
       Overload [TypeM QT3DCORE_QNODE] [] None],
     CtorBlock ''Qt3DRender::QTechniqueFilter'' 0 [
       Overload [TypeM QT3DCORE_QNODE] [] None],
     CtorBlock ''Qt3DRender::QTexture1D'' 0 [
       Overload [TypeM QT3DCORE_QNODE] [] None],
     CtorBlock ''Qt3DRender::QTexture1DArray'' 0 [
       Overload [TypeM QT3DCORE_QNODE] [] None],
     CtorBlock ''Qt3DRender::QTexture2D'' 0 [
       Overload [TypeM QT3DCORE_QNODE] [] None]]"

definition ctor_qt3drender_3_3 :: "ctor_block list" where
  "ctor_qt3drender_3_3 = [
     CtorBlock ''Qt3DRender::QTexture2DArray'' 0 [
       Overload [TypeM QT3DCORE_QNODE] [] None],
     CtorBlock ''Qt3DRender::QTexture2DMultisample'' 0 [
       Overload [TypeM QT3DCORE_QNODE] [] None],
     CtorBlock ''Qt3DRender::QTexture2DMultisampleArray'' 0 [
       Overload [TypeM QT3DCORE_QNODE] [] None],
     CtorBlock ''Qt3DRender::QTexture3D'' 0 [
       Overload [TypeM QT3DCORE_QNODE] [] None],
     CtorBlock ''Qt3DRender::QTextureBuffer'' 0 [
       Overload [TypeM QT3DCORE_QNODE] [] None]]"

definition ctor_qt3drender_3_4 :: "ctor_block list" where
  "ctor_qt3drender_3_4 = [
     CtorBlock ''Qt3DRender::QTextureCubeMap'' 0 [
       Overload [TypeM QT3DCORE_QNODE] [] None],
     CtorBlock ''Qt3DRender::QTextureCubeMapArray'' 0 [
       Overload [TypeM QT3DCORE_QNODE] [] None],
     CtorBlock ''Qt3DRender::QTextureImage'' 0 [
       Overload [TypeM QT3DCORE_QNODE] [] None],
     CtorBlock ''Qt3DRender::QTextureLoader'' 0 [
       Overload [TypeM QT3DCORE_QNODE] [] None]]"

definition ctor_classes_qt3drender_3 :: "class_entry list" where
  "ctor_classes_qt3drender_3 = [
     ClassEntry Qt3DRender_QShaderImage [TypeM QT3DCORE_QNODE] [Qt3DCore_QNode_ptr],
     ClassEntry Qt3DRender_QShaderProgram [TypeM QT3DCORE_QNODE] [Qt3DCore_QNode_ptr],
     ClassEntry Qt3DRender_QShaderProgramBuilder [TypeM QT3DCORE_QNODE] [Qt3DCore_QNode_ptr],
     ClassEntry ''Qt3DRender::QSharedGLTexture'' [TypeM QT3DCORE_QNODE] [Qt3DCore_QNode_ptr],
     ClassEntry ''Qt3DRender::QSortPolicy'' [TypeM QT3DCORE_QNODE] [Qt3DCore_QNode_ptr],
     ClassEntry Qt3DRender_QSpotLight [TypeM QT3DCORE_QNODE] [Qt3DCore_QNode_ptr],
     ClassEntry ''Qt3DRender::QStencilMask'' [TypeM QT3DCORE_QNODE] [Qt3DCore_QNode_ptr],
     ClassEntry ''Qt3DRender::QStencilOperation'' [TypeM QT3DCORE_QNODE] [Qt3DCore_QNode_ptr],
     ClassEntry ''Qt3DRender::QStencilTest'' [TypeM QT3DCORE_QNODE] [Qt3DCore_QNode_ptr],
     ClassEntry ''Qt3DRender::QSubtreeEnabler'' [TypeM QT3DCORE_QNODE] [Qt3DCore_QNode_ptr],
     ClassEntry ''Qt3DRender::QTechnique'' [TypeM QT3DCORE_QNODE] [Qt3DCore_QNode_ptr],
     ClassEntry ''Qt3DRender::QTechniqueFilter'' [TypeM QT3DCORE_QNODE] [Qt3DCore_QNode_ptr],
     ClassEntry ''Qt3DRender::QTexture1D'' [TypeM QT3DCORE_QNODE] [Qt3DCore_QNode_ptr],
     ClassEntry ''Qt3DRender::QTexture1DArray'' [TypeM QT3DCORE_QNODE] [Qt3DCore_QNode_ptr],
     ClassEntry ''Qt3DRender::QTexture2D'' [TypeM QT3DCORE_QNODE] [Qt3DCore_QNode_ptr],
     ClassEntry ''Qt3DRender::QTexture2DArray'' [TypeM QT3DCORE_QNODE] [Qt3DCore_QNode_ptr],
     ClassEntry ''Qt3DRender::QTexture2DMultisample'' [TypeM QT3DCORE_QNODE] [Qt3DCore_QNode_ptr],
     ClassEntry ''Qt3DRender::QTexture2DMultisampleArray'' [TypeM QT3DCORE_QNODE] [Qt3DCore_QNode_ptr],
     ClassEntry ''Qt3DRender::QTexture3D'' [TypeM QT3DCORE_QNODE] [Qt3DCore_QNode_ptr],
     ClassEntry ''Qt3DRender::QTextureBuffer'' [TypeM QT3DCORE_QNODE] [Qt3DCore_QNode_ptr],
     ClassEntry ''Qt3DRender::QTextureCubeMap'' [TypeM QT3DCORE_QNODE] [Qt3DCore_QNode_ptr],
     ClassEntry ''Qt3DRender::QTextureCubeMapArray'' [TypeM QT3DCORE_QNODE] [Qt3DCore_QNode_ptr],
     ClassEntry ''Qt3DRender::QTextureImage'' [TypeM QT3DCORE_QNODE] [Qt3DCore_QNode_ptr],
     ClassEntry ''Qt3DRender::QTextureLoader'' [TypeM QT3DCORE_QNODE] [Qt3DCore_QNode_ptr]]"

definition ctor_qt3drender_4_0 :: "ctor_block list" where
  "ctor_qt3drender_4_0 = [
     CtorBlock ''Qt3DRender::QTextureRectangle'' 0 [
       Overload [TypeM QT3DCORE_QNODE] [] None],
     CtorBlock Qt3DRender_QTextureWrapMode 0 [
       Overload [TypeM QT3DRENDER_QTEXTUREWRAPMODE, TypeM QTCORE_QOBJECT] [] None],
     CtorBlock Qt3DRender_QTextureWrapMode 1 [
       Overload [TypeM QT3DRENDER_QTEXTUREWRAPMODE, TypeM QTCORE_QOBJECT] [PConv Qt3DRender_QTextureWrapMode_WrapMode] None],
     CtorBlock Qt3DRender_QTextureWrapMode 3 [
       Overload [TypeM QT3DRENDER_QTEXTUREWRAPMODE, TypeM QTCORE_QOBJECT] [PConv Qt3DRender_QTextureWrapMode_WrapMode, PConv Qt3DRender_QTextureWrapMode_WrapMode, PConv Qt3DRender_QTextureWrapMode_WrapMode] None],
     CtorBlock ''Qt3DRender::QViewport'' 0 [
       Overload [TypeM QT3DCORE_QNODE] [] None]]"

definition ctor_qt3drender_4_1 :: "ctor_block list" where
  "ctor_qt3drender_4_1 = [
     CtorBlock ''Qt3DRender::QWaitFence'' 0 [
       Overload [TypeM QT3DCORE_QNODE] [] None]]"

definition ctor_classes_qt3drender_4 :: "class_entry list" where
  "ctor_classes_qt3drender_4 = [
     ClassEntry ''Qt3DRender::QTextureRectangle'' [TypeM QT3DCORE_QNODE] [Qt3DCore_QNode_ptr],
     ClassEntry Qt3DRender_QTextureWrapMode [TypeM QT3DRENDER_QTEXTUREWRAPMODE, TypeM QTCORE_QOBJECT] [''Qt3DRender::QTextureWrapMode::WrapMode, QObject*'', ''Qt3DRender::QTextureWrapMode::WrapMode, Qt3DRender::QTextureWrapMode::WrapMode, Qt3DRender::QTextureWrapMode::WrapMode, QObject*''],
     ClassEntry ''Qt3DRender::QViewport'' [TypeM QT3DCORE_QNODE] [Qt3DCore_QNode_ptr],
     ClassEntry ''Qt3DRender::QWaitFence'' [TypeM QT3DCORE_QNODE] [Qt3DCore_QNode_ptr]]"

definition ctor_qtbluetooth_0_0 :: "ctor_block list" where
  "ctor_qtbluetooth_0_0 = [
     CtorBlock QBluetoothDeviceDiscoveryAgent 0 [
       Overload [TypeM QTCORE_QOBJECT] [] None],
     CtorBlock QBluetoothDeviceDiscoveryAgent 1 [
       Overload [TypeM QTCORE_QOBJECT, ValueM QTBLUETOOTH_QBLUETOOTHADDRESS] [PConv QBluetoothAddress] None],
     CtorBlock QBluetoothLocalDevice 0 [
       Overload [TypeM QTCORE_QOBJECT] [] None],
     CtorBlock QBluetoothLocalDevice 1 [
       Overload [TypeM QTCORE_QOBJECT, ValueM QTBLUETOOTH_QBLUETOOTHADDRESS] [PConv QBluetoothAddress] None],
     CtorBlock ''QBluetoothServer'' 1 [
       Overload [TypeM QTBLUETOOTH_QBLUETOOTHSERVICEINFO, TypeM QTCORE_QOBJECT] [PConv ''QBluetoothServiceInfo::Protocol''] None]]"

definition ctor_qtbluetooth_0_1 :: "ctor_block list" where
  "ctor_qtbluetooth_0_1 = [
     CtorBlock QBluetoothServiceDiscoveryAgent 0 [
       Overload [TypeM QTCORE_QOBJECT] [] None],
     CtorBlock QBluetoothServiceDiscoveryAgent 1 [
       Overload [TypeM QTCORE_QOBJECT, ValueM QTBLUETOOTH_QBLUETOOTHADDRESS] [PConv QBluetoothAddress] None],
     CtorBlock QBluetoothSocket 0 [
       Overload [TypeM QTCORE_QOBJECT] [] None],
     CtorBlock QBluetoothSocket 1 [
       Overload [TypeM QTBLUETOOTH_QBLUETOOTHSERVICEINFO, TypeM QTCORE_QOBJECT] [PConv ''QBluetoothServiceInfo::Protocol''] None]]"

definition ctor_classes_qtbluetooth_0 :: "class_entry list" where
  "ctor_classes_qtbluetooth_0 = [
     ClassEntry QBluetoothDeviceDiscoveryAgent [TypeM QTCORE_QOBJECT, ValueM QTBLUETOOTH_QBLUETOOTHADDRESS] [QObject_ptr, ''QBluetoothAddress, QObject*''],
     ClassEntry QBluetoothLocalDevice [TypeM QTCORE_QOBJECT, ValueM QTBLUETOOTH_QBLUETOOTHADDRESS] [QObject_ptr, ''QBluetoothAddress, QObject*''],
     ClassEntry ''QBluetoothServer'' [TypeM QTBLUETOOTH_QBLUETOOTHSERVICEINFO, TypeM QTCORE_QOBJECT] [''QBluetoothServiceInfo::Protocol, QObject*''],
     ClassEntry QBluetoothServiceDiscoveryAgent [TypeM QTCORE_QOBJECT, ValueM QTBLUETOOTH_QBLUETOOTHADDRESS] [QObject_ptr, ''QBluetoothAddress, QObject*''],
     ClassEntry QBluetoothSocket [TypeM QTBLUETOOTH_QBLUETOOTHSERVICEINFO, TypeM QTCORE_QOBJECT] [''QBluetoothServiceInfo::Protocol, QObject*'', QObject_ptr]]"

definition ctor_qtcharts_0_0 :: "ctor_block list" where
  "ctor_qtcharts_0_0 = [
     CtorBlock ''QAreaLegendMarker'' 2 [
       Overload [TypeM ''QTCHARTS_QAREASERIES'', TypeM QTCHARTS_QLEGEND, TypeM QTCORE_QOBJECT] [PNonNull ''QAreaSeries*'', PNonNull ''QLegend*''] None],
     CtorBlock QAreaSeries 0 [
       Overload [TypeM QTCORE_QOBJECT] [] None],
     CtorBlock QAreaSeries 1 [
       Overload [TypeM ''QTCHARTS_QLINESERIES''] [PNonNull ''QLineSeries*''] None],
     CtorBlock QAreaSeries 2 [
       Overload [TypeM ''QTCHARTS_QLINESERIES''] [PNonNull ''QLineSeries*'', PNonNull ''QLineSeries*''] None],
     CtorBlock QBarCategoryAxis 0 [
       Overload [TypeM QTCORE_QOBJECT] [] None]]"

definition ctor_qtcharts_0_1 :: "ctor_block list" where
  "ctor_qtcharts_0_1 = [
     CtorBlock ''QBarLegendMarker'' 3 [
       Overload [TypeM ''QTCHARTS_QABSTRACTBARSERIES'', TypeM ''QTCHARTS_QBARSET'', TypeM QTCHARTS_QLEGEND, TypeM QTCORE_QOBJECT] [PNonNull ''QAbstractBarSeries*'', PNonNull ''QBarSet*'', PNonNull ''QLegend*''] None],
     CtorBlock QBarSeries 0 [
       Overload [TypeM QTCORE_QOBJECT] [] None],
     CtorBlock QBarSet 1 [
       Overload [TypeM QTCORE_QOBJECT] [PString False] None],
     CtorBlock ''QBoxPlotLegendMarker'' 2 [
       Overload [TypeM ''QTCHARTS_QBOXPLOTSERIES'', TypeM QTCHARTS_QLEGEND, TypeM QTCORE_QOBJECT] [PNonNull ''QBoxPlotSeries*'', PNonNull ''QLegend*''] None]]"

definition ctor_qtcharts_0_2 :: "ctor_block list" where
  "ctor_qtcharts_0_2 = [
     CtorBlock QBoxPlotSeries 0 [
       Overload [TypeM QTCORE_QOBJECT] [] None],
     CtorBlock ''QBoxSet'' 0 [
       Overload [TypeM QTCORE_QOBJECT] [] None],
     CtorBlock ''QBoxSet'' 1 [
       Overload [TypeM QTCORE_QOBJECT] [PString False] None],
     CtorBlock ''QBoxSet'' 5 [
       Overload [TypeM QTCORE_QOBJECT] [PReal ''qreal'', PReal ''qreal'', PReal ''qreal'', PReal ''qreal'', PReal ''qreal''] None]]"

definition ctor_qtcharts_0_3 :: "ctor_block list" where
  "ctor_qtcharts_0_3 = [
     CtorBlock ''QBoxSet'' 6 [
       Overload [TypeM QTCORE_QOBJECT] [PReal ''qreal'', PReal ''qreal'', PReal ''qreal'', PReal ''qreal'', PReal ''qreal'', PString False] None],
     CtorBlock ''QCandlestickLegendMarker'' 2 [
       Overload [TypeM ''QTCHARTS_QCANDLESTICKSERIES'', TypeM QTCHARTS_QLEGEND, TypeM QTCORE_QOBJECT] [PNonNull ''QCandlestickSeries*'', PNonNull ''QLegend*''] None],
     CtorBlock ''QCandlestickModelMapper'' 0 [
       Overload [TypeM QTCORE_QOBJECT] [] None],
     CtorBlock QCandlestickSeries 0 [
       Overload [TypeM QTCORE_QOBJECT] [] None],
     CtorBlock QCandlestickSet 0 [
       Overload [TypeM QTCORE_QOBJECT] [] None]]"

definition ctor_qtcharts_0_4 :: "ctor_block list" where
  "ctor_qtcharts_0_4 = [
     CtorBlock QCandlestickSet 1 [
       Overload [TypeM QTCORE_QOBJECT] [PReal ''qreal''] None],
     CtorBlock QCandlestickSet 4 [
       Overload [TypeM QTCORE_QOBJECT] [PReal ''qreal'', PReal ''qreal'', PReal ''qreal'', PReal ''qreal''] None],
     CtorBlock QCandlestickSet 5 [
       Overload [TypeM QTCORE_QOBJECT] [PReal ''qreal'', PReal ''qreal'', PReal ''qreal'', PReal ''qreal'', PReal ''qreal''] None],
     CtorBlock ''QCategoryAxis'' 0 [
       Overload [TypeM QTCORE_QOBJECT] [] None],
     CtorBlock ''QChartView'' 0 [
       Overload [TypeM QTWIDGETS_QWIDGET] [] None]]"

definition ctor_qtcharts_0_5 :: "ctor_block list" where
  "ctor_qtcharts_0_5 = [
     CtorBlock ''QChartView'' 1 [
       Overload [TypeM ''QTCHARTS_QCHART'', TypeM QTWIDGETS_QWIDGET] [PNonNull ''QChart*''] None],
     CtorBlock QDateTimeAxis 0 [
       Overload [TypeM QTCORE_QOBJECT] [] None],
     CtorBlock ''QHBarModelMapper'' 0 [
       Overload [TypeM QTCORE_QOBJECT] [] None],
     CtorBlock QHBoxPlotModelMapper 0 [
       Overload [TypeM QTCORE_QOBJECT] [] None],
     CtorBlock QHCandlestickModelMapper 0 [
       Overload [TypeM QTCORE_QOBJECT] [] None]]"

definition ctor_qtcharts_0_6 :: "ctor_block list" where
  "ctor_qtcharts_0_6 = [
     CtorBlock ''QHPieModelMapper'' 0 [
       Overload [TypeM QTCORE_QOBJECT] [] None],
     CtorBlock ''QHXYModelMapper'' 0 [
       Overload [TypeM QTCORE_QOBJECT] [] None],
     CtorBlock ''QHorizontalBarSeries'' 0 [
       Overload [TypeM QTCORE_QOBJECT] [] None],
     CtorBlock ''QHorizontalPercentBarSeries'' 0 [
       Overload [TypeM QTCORE_QOBJECT] [] None],
     CtorBlock ''QHorizontalStackedBarSeries'' 0 [
       Overload [TypeM QTCORE_QOBJECT] [] None]]"

definition ctor_classes_qtcharts_0 :: "class_entry list" where
  "ctor_classes_qtcharts_0 = [
     ClassEntry ''QAreaLegendMarker'' [TypeM ''QTCHARTS_QAREASERIES'', TypeM QTCHARTS_QLEGEND, TypeM QTCORE_QOBJECT] [''QAreaSeries*, QLegend*, QObject*''],
     ClassEntry QAreaSeries [TypeM ''QTCHARTS_QLINESERIES'', TypeM QTCORE_QOBJECT] [QObject_ptr, ''QLineSeries*, QLineSeries*''],
     ClassEntry QBarCategoryAxis [TypeM QTCORE_QOBJECT] [QObject_ptr],
     ClassEntry ''QBarLegendMarker'' [TypeM ''QTCHARTS_QABSTRACTBARSERIES'', TypeM ''QTCHARTS_QBARSET'', TypeM QTCHARTS_QLEGEND, TypeM QTCORE_QOBJECT] [''QAbstractBarSeries*, QBarSet*, QLegend*, QObject*''],
     ClassEntry QBarSeries [TypeM QTCORE_QOBJECT] [QObject_ptr],
     ClassEntry QBarSet [TypeM QTCORE_QOBJECT] [''QString, QObject*''],
     ClassEntry ''QBoxPlotLegendMarker'' [TypeM ''QTCHARTS_QBOXPLOTSERIES'', TypeM QTCHARTS_QLEGEND, TypeM QTCORE_QOBJECT] [''QBoxPlotSeries*, QLegend*, QObject*''],
     ClassEntry QBoxPlotSeries [TypeM QTCORE_QOBJECT] [QObject_ptr],
     ClassEntry ''QBoxSet'' [TypeM QTCORE_QOBJECT] [''QString, QObject*'', ''qreal, qreal, qreal, qreal, qreal, QString, QObject*''],
     ClassEntry ''QCandlestickLegendMarker'' [TypeM ''QTCHARTS_QCANDLESTICKSERIES'', TypeM QTCHARTS_QLEGEND, TypeM QTCORE_QOBJECT] [''QCandlestickSeries*, QLegend*, QObject*''],
     ClassEntry ''QCandlestickModelMapper'' [TypeM QTCORE_QOBJECT] [QObject_ptr],
     ClassEntry QCandlestickSeries [TypeM QTCORE_QOBJECT] [QObject_ptr],
     ClassEntry QCandlestickSet [TypeM QTCORE_QOBJECT] [''qreal, QObject*'', ''qreal, qreal, qreal, qreal, qreal, QObject*''],
     ClassEntry ''QCategoryAxis'' [TypeM QTCORE_QOBJECT] [QObject_ptr],
     ClassEntry ''QChartView'' [TypeM ''QTCHARTS_QCHART'', TypeM QTWIDGETS_QWIDGET] [QWidget_ptr, ''QChart*, QWidget*''],
     ClassEntry QDateTimeAxis [TypeM QTCORE_QOBJECT] [QObject_ptr],
     ClassEntry ''QHBarModelMapper'' [TypeM QTCORE_QOBJECT] [QObject_ptr],
     ClassEntry QHBoxPlotModelMapper [TypeM QTCORE_QOBJECT] [QObject_ptr],
     ClassEntry QHCandlestickModelMapper [TypeM QTCORE_QOBJECT] [QObject_ptr],
     ClassEntry ''QHPieModelMapper'' [TypeM QTCORE_QOBJECT] [QObject_ptr],
     ClassEntry ''QHXYModelMapper'' [TypeM QTCORE_QOBJECT] [QObject_ptr],
     ClassEntry ''QHorizontalBarSeries'' [TypeM QTCORE_QOBJECT] [QObject_ptr],
     ClassEntry ''QHorizontalPercentBarSeries'' [TypeM QTCORE_QOBJECT] [QObject_ptr],
     ClassEntry ''QHorizontalStackedBarSeries'' [TypeM QTCORE_QOBJECT] [QObject_ptr]]"

definition ctor_qtcharts_1_0 :: "ctor_block list" where
  "ctor_qtcharts_1_0 = [
     CtorBlock ''QLineSeries'' 0 [
       Overload [TypeM QTCORE_QOBJECT] [] None],
     CtorBlock ''QLogValueAxis'' 0 [
       Overload [TypeM QTCORE_QOBJECT] [] None],
     CtorBlock ''QPercentBarSeries'' 0 [
       Overload [TypeM QTCORE_QOBJECT] [] None],
     CtorBlock ''QPieLegendMarker'' 3 [
       Overload [TypeM QTCHARTS_QLEGEND, TypeM ''QTCHARTS_QPIESERIES'', TypeM ''QTCHARTS_QPIESLICE'', TypeM QTCORE_QOBJECT] [PNonNull ''QPieSeries*'', PNonNull ''QPieSlice*'', PNonNull ''QLegend*''] None],
     CtorBlock QPieSeries 0 [
       Overload [TypeM QTCORE_QOBJECT] [] None]]"

definition ctor_qtcharts_1_1 :: "ctor_block list" where
  "ctor_qtcharts_1_1 = [
     CtorBlock QPieSlice 0 [
       Overload [TypeM QTCORE_QOBJECT] [] None],
     CtorBlock QPieSlice 2 [
       Overload [TypeM QTCORE_QOBJECT] [PString False, PReal ''qreal''] None],
     CtorBlock QScatterSeries 0 [
       Overload [TypeM QTCORE_QOBJECT] [] None],
     CtorBlock ''QSplineSeries'' 0 [
       Overload [TypeM QTCORE_QOBJECT] [] None],
     CtorBlock ''QStackedBarSeries'' 0 [
       Overload [TypeM QTCORE_QOBJECT] [] None]]"

definition ctor_qtcharts_1_2 :: "ctor_block list" where
  "ctor_qtcharts_1_2 = [
     CtorBlock ''QVBarModelMapper'' 0 [
       Overload [TypeM QTCORE_QOBJECT] [] None],
     CtorBlock QVBoxPlotModelMapper 0 [
       Overload [TypeM QTCORE_QOBJECT] [] None],
     CtorBlock QVCandlestickModelMapper 0 [
       Overload [TypeM QTCORE_QOBJECT] [] None],
     CtorBlock ''QVPieModelMapper'' 0 [
       Overload [TypeM QTCORE_QOBJECT] [] None],
     CtorBlock ''QVXYModelMapper'' 0 [
       Overload [TypeM QTCORE_QOBJECT] [] None]]"

definition ctor_qtcharts_1_3 :: "ctor_block list" where
  "ctor_qtcharts_1_3 = [
     CtorBlock QValueAxis 0 [
       Overload [TypeM QTCORE_QOBJECT] [] None],
     CtorBlock ''QXYLegendMarker'' 2 [
       Overload [TypeM QTCHARTS_QLEGEND, TypeM ''QTCHARTS_QXYSERIES'', TypeM QTCORE_QOBJECT] [PNonNull ''QXYSeries*'', PNonNull ''QLegend*''] None]]"

definition ctor_classes_qtcharts_1 :: "class_entry list" where
  "ctor_classes_qtcharts_1 = [
     ClassEntry ''QLineSeries'' [TypeM QTCORE_QOBJECT] [QObject_ptr],
     ClassEntry ''QLogValueAxis'' [TypeM QTCORE_QOBJECT] [QObject_ptr],
     ClassEntry ''QPercentBarSeries'' [TypeM QTCORE_QOBJECT] [QObject_ptr],
     ClassEntry ''QPieLegendMarker'' [TypeM QTCHARTS_QLEGEND, TypeM ''QTCHARTS_QPIESERIES'', TypeM ''QTCHARTS_QPIESLICE'', TypeM QTCORE_QOBJECT] [''QPieSeries*, QPieSlice*, QLegend*, QObject*''],
     ClassEntry QPieSeries [TypeM QTCORE_QOBJECT] [QObject_ptr],
     ClassEntry QPieSlice [TypeM QTCORE_QOBJECT] [QObject_ptr, ''QString, qreal, QObject*''],
     ClassEntry QScatterSeries [TypeM QTCORE_QOBJECT] [QObject_ptr],
     ClassEntry ''QSplineSeries'' [TypeM QTCORE_QOBJECT] [QObject_ptr],
     ClassEntry ''QStackedBarSeries'' [TypeM QTCORE_QOBJECT] [QObject_ptr],
     ClassEntry ''QVBarModelMapper'' [TypeM QTCORE_QOBJECT] [QObject_ptr],
     ClassEntry QVBoxPlotModelMapper [TypeM QTCORE_QOBJECT] [QObject_ptr],
     ClassEntry QVCandlestickModelMapper [TypeM QTCORE_QOBJECT] [QObject_ptr],
     ClassEntry ''QVPieModelMapper'' [TypeM QTCORE_QOBJECT] [QObject_ptr],
     ClassEntry ''QVXYModelMapper'' [TypeM QTCORE_QOBJECT] [QObject_ptr],
     ClassEntry QValueAxis [TypeM QTCORE_QOBJECT] [QObject_ptr],
     ClassEntry ''QXYLegendMarker'' [TypeM QTCHARTS_QLEGEND, TypeM ''QTCHARTS_QXYSERIES'', TypeM QTCORE_QOBJECT] [''QXYSeries*, QLegend*, QObject*'']]"

definition ctor_qtcore_0_0 :: "ctor_block list" where
  "ctor_qtcore_0_0 = [
     CtorBlock QAbstractAnimation 0 [
       Overload [TypeM QTCORE_QOBJECT] [] None],
     CtorBlock ''QAbstractEventDispatcher'' 0 [
       Overload [TypeM QTCORE_QOBJECT] [] None],
     CtorBlock QAbstractItemModel 0 [
       Overload [TypeM QTCORE_QOBJECT] [] None],
     CtorBlock ''QAbstractListModel'' 0 [
       Overload [TypeM QTCORE_QOBJECT] [] None],
     CtorBlock QAbstractProxyModel 0 [
       Overload [TypeM QTCORE_QOBJECT] [] None]]"

definition ctor_qtcore_0_1 :: "ctor_block list" where
  "ctor_qtcore_0_1 = [
     CtorBlock ''QAbstractTableModel'' 0 [
       Overload [TypeM QTCORE_QOBJECT] [] None],
     CtorBlock ''QAnimationGroup'' 0 [
       Overload [TypeM QTCORE_QOBJECT] [] None],
     CtorBlock ''QBuffer'' 0 [
       Overload [TypeM QTCORE_QOBJECT] [] None],
     CtorBlock QConcatenateTablesProxyModel 0 [
       Overload [TypeM QTCORE_QOBJECT] [] None],
     CtorBlock ''QEventLoop'' 0 [
       Overload [TypeM QTCORE_QOBJECT] [] None]]"

definition ctor_qtcore_0_2 :: "ctor_block list" where
  "ctor_qtcore_0_2 = [
     CtorBlock ''QFile'' 0 [
       Overload [] [] None,
       Overload [TypeM QTCORE_QOBJECT] [] (Some (0, QObject))],
     CtorBlock ''QFile'' 1 [
       Overload [] [PString False] None,
       Overload [TypeM QTCORE_QOBJECT] [PString False] (Some (1, QObject))],
     CtorBlock ''QFileSelector'' 0 [
       Overload [TypeM QTCORE_QOBJECT] [] None]]"

definition ctor_qtcore_0_3 :: "ctor_block list" where
  "ctor_qtcore_0_3 = [
     CtorBlock ''QFileSystemWatcher'' 0 [
       Overload [TypeM QTCORE_QOBJECT] [] None],
     CtorBlock ''QFileSystemWatcher'' 1 [
       Overload [TypeM QTCORE_QOBJECT] [PStringList] None],
     CtorBlock QIODevice 0 [
       Overload [] [] None,
       Overload [TypeM QTCORE_QOBJECT] [] (Some (0, QObject))],
     CtorBlock QIdentityProxyModel 0 [
       Overload [TypeM QTCORE_QOBJECT] [] None]]"

definition ctor_qtcore_0_4 :: "ctor_block list" where
  "ctor_qtcore_0_4 = [
     CtorBlock QItemSelectionModel 0 [
       Overload [TypeM QTCORE_QABSTRACTITEMMODEL] [] None],
     CtorBlock QItemSelectionModel 1 [
       Overload [TypeM QTCORE_QABSTRACTITEMMODEL] [PNonNull QAbstractItemModel_ptr] None,
       Overload [TypeM QTCORE_QABSTRACTITEMMODEL, TypeM QTCORE_QOBJECT] [PNonNull QAbstractItemModel_ptr] (Some (1, QObject))],
     CtorBlock ''QLibrary'' 0 [
       Overload [TypeM QTCORE_QOBJECT] [] None],
     CtorBlock ''QLibrary'' 1 [
       Overload [TypeM QTCORE_QOBJECT] [PString False] None]]"

definition ctor_qtcore_0_5 :: "ctor_block list" where
  "ctor_qtcore_0_5 = [
     CtorBlock ''QLibrary'' 2 [
       Overload [TypeM QTCORE_QOBJECT] [PString False, PInt] None,
       Overload [TypeM QTCORE_QOBJECT] [PString False, PString False] None],
     CtorBlock ''QMimeData'' 0 [
       Overload [] [] None],
     CtorBlock QObject 0 [
       Overload [TypeM QTCORE_QOBJECT] [] None],
     CtorBlock ''QObjectCleanupHandler'' 0 [
       Overload [] [] None]]"

definition ctor_qtcore_0_6 :: "ctor_block list" where
  "ctor_qtcore_0_6 = [
     CtorBlock ''QParallelAnimationGroup'' 0 [
       Overload [TypeM QTCORE_QOBJECT] [] None],
     CtorBlock ''QPauseAnimation'' 0 [
       Overload [TypeM QTCORE_QOBJECT] [] None],
     CtorBlock ''QPauseAnimation'' 1 [
       Overload [TypeM QTCORE_QOBJECT] [PInt] None],
     CtorBlock ''QPluginLoader'' 0 [
       Overload [TypeM QTCORE_QOBJECT] [] None],
     CtorBlock ''QPluginLoader'' 1 [
       Overload [TypeM QTCORE_QOBJECT] [PString False] None]]"

definition ctor_qtcore_0_7 :: "ctor_block list" where
  "ctor_qtcore_0_7 = [
     CtorBlock QProcess 0 [
       Overload [TypeM QTCORE_QOBJECT] [] None]]"

definition ctor_classes_qtcore_0 :: "class_entry list" where
  "ctor_classes_qtcore_0 = [
     ClassEntry QAbstractAnimation [TypeM QTCORE_QOBJECT] [QObject_ptr],
     ClassEntry ''QAbstractEventDispatcher'' [TypeM QTCORE_QOBJECT] [QObject_ptr],
     ClassEntry QAbstractItemModel [TypeM QTCORE_QOBJECT] [QObject_ptr],
     ClassEntry ''QAbstractListModel'' [TypeM QTCORE_QOBJECT] [QObject_ptr],
     ClassEntry QAbstractProxyModel [TypeM QTCORE_QOBJECT] [QObject_ptr],
     ClassEntry ''QAbstractTableModel'' [TypeM QTCORE_QOBJECT] [QObject_ptr],
     ClassEntry ''QAnimationGroup'' [TypeM QTCORE_QOBJECT] [QObject_ptr],
     ClassEntry ''QBuffer'' [TypeM QTCORE_QOBJECT] [QObject_ptr],
     ClassEntry QConcatenateTablesProxyModel [TypeM QTCORE_QOBJECT] [QObject_ptr],
     ClassEntry ''QEventLoop'' [TypeM QTCORE_QOBJECT] [QObject_ptr],
     ClassEntry ''QFile'' [TypeM QTCORE_QOBJECT] ['''', QString, QObject_ptr, ''QString, QObject*''],
     ClassEntry ''QFileSelector'' [TypeM QTCORE_QOBJECT] [QObject_ptr],
     ClassEntry ''QFileSystemWatcher'' [TypeM QTCORE_QOBJECT] [QObject_ptr, ''QStringList, QObject*''],
     ClassEntry QIODevice [TypeM QTCORE_QOBJECT] ['''', QObject_ptr],
     ClassEntry QIdentityProxyModel [TypeM QTCORE_QOBJECT] [QObject_ptr],
     ClassEntry QItemSelectionModel [TypeM QTCORE_QABSTRACTITEMMODEL, TypeM QTCORE_QOBJECT] [QAbstractItemModel_ptr, ''QAbstractItemModel*, QObject*''],
     ClassEntry ''QLibrary'' [TypeM QTCORE_QOBJECT] [QObject_ptr, ''QString, QObject*'', ''QString, int, QObject*'', ''QString, QString, QObject*''],
     ClassEntry ''QMimeData'' [] [''''],
     ClassEntry QObject [TypeM QTCORE_QOBJECT] [QObject_ptr],
     ClassEntry ''QObjectCleanupHandler'' [] [''''],
     ClassEntry ''QParallelAnimationGroup'' [TypeM QTCORE_QOBJECT] [QObject_ptr],
     ClassEntry ''QPauseAnimation'' [TypeM QTCORE_QOBJECT] [QObject_ptr, ''int, QObject*''],
     ClassEntry ''QPluginLoader'' [TypeM QTCORE_QOBJECT] [QObject_ptr, ''QString, QObject*''],
     ClassEntry QProcess [TypeM QTCORE_QOBJECT] [QObject_ptr]]"

definition ctor_qtcore_1_0 :: "ctor_block list" where
  "ctor_qtcore_1_0 = [
     CtorBlock ''QPropertyAnimation'' 0 [
       Overload [TypeM QTCORE_QOBJECT] [] None],
     CtorBlock ''QPropertyAnimation'' 2 [
       Overload [TypeM QTCORE_QOBJECT, ValueM QTCORE_QBYTEARRAY] [PNonNull QObject_ptr, PConv QByteArray] None],
     CtorBlock ''QSaveFile'' 0 [
       Overload [TypeM QTCORE_QOBJECT] [] None],
     CtorBlock ''QSaveFile'' 1 [
       Overload [TypeM QTCORE_QOBJECT] [PString False] None],
     CtorBlock ''QSequentialAnimationGroup'' 0 [
       Overload [TypeM QTCORE_QOBJECT] [] None]]"

definition ctor_qtcore_1_1 :: "ctor_block list" where
  "ctor_qtcore_1_1 = [
     CtorBlock QSettings 0 [
       Overload [TypeM QTCORE_QOBJECT] [] None],
     CtorBlock QSettings 1 [
       Overload [TypeM QTCORE_QOBJECT] [PString False] None,
       Overload [TypeM QTCORE_QOBJECT, TypeM ''QTCORE_QSETTINGS''] [PConv ''QSettings::Scope''] None]]"

definition ctor_qtcore_1_2 :: "ctor_block list" where
  "ctor_qtcore_1_2 = [
     CtorBlock QSettings 2 [
       Overload [TypeM QTCORE_QOBJECT] [PString False, PString False] None,
       Overload [TypeM QTCORE_QOBJECT, TypeM ''QTCORE_QSETTINGS''] [PConv ''QSettings::Scope'', PString False] None,
       Overload [TypeM QTCORE_QOBJECT, TypeM ''QTCORE_QSETTINGS''] [PString False, PConv ''QSettings::Format''] None],
     CtorBlock QSettings 3 [
       Overload [TypeM QTCORE_QOBJECT, TypeM ''QTCORE_QSETTINGS''] [PConv ''QSettings::Scope'', PString False, PString False] None,
       Overload [TypeM QTCORE_QOBJECT, TypeM ''QTCORE_QSETTINGS''] [PConv ''QSettings::Format'', PConv ''QSettings::Scope'', PString False] None]]"

definition ctor_qtcore_1_3 :: "ctor_block list" where
  "ctor_qtcore_1_3 = [
     CtorBlock QSettings 4 [
       Overload [TypeM QTCORE_QOBJECT, TypeM ''QTCORE_QSETTINGS''] [PConv ''QSettings::Format'', PConv ''QSettings::Scope'', PString False, PString False] None],
     CtorBlock QSharedMemory 0 [
       Overload [TypeM QTCORE_QOBJECT] [] None],
     CtorBlock QSharedMemory 1 [
       Overload [TypeM QTCORE_QOBJECT, ValueM QTCORE_QNATIVEIPCKEY] [PConv QNativeIpcKey] None,
       Overload [TypeM QTCORE_QOBJECT] [PString False] None],
     CtorBlock ''QSignalMapper'' 0 [
       Overload [TypeM QTCORE_QOBJECT] [] None]]"

definition ctor_qtcore_1_4 :: "ctor_block list" where
  "ctor_qtcore_1_4 = [
     CtorBlock ''QSocketNotifier'' 1 [
       Overload [TypeM QTCORE_QOBJECT, TypeM ''QTCORE_QSOCKETNOTIFIER''] [PConv ''QSocketNotifier::Type''] None],
     CtorBlock QSortFilterProxyModel 0 [
       Overload [TypeM QTCORE_QOBJECT] [] None],
     CtorBlock QStringListModel 0 [
       Overload [TypeM QTCORE_QOBJECT] [] None],
     CtorBlock QStringListModel 1 [
       Overload [TypeM QTCORE_QOBJECT] [PStringList] None]]"

definition ctor_qtcore_1_5 :: "ctor_block list" where
  "ctor_qtcore_1_5 = [
     CtorBlock ''QTemporaryFile'' 0 [
       Overload [] [] None,
       Overload [TypeM QTCORE_QOBJECT] [] (Some (0, QObject))],
     CtorBlock ''QTemporaryFile'' 1 [
       Overload [] [PString False] None,
       Overload [TypeM QTCORE_QOBJECT] [PString False] (Some (1, QObject))],
     CtorBlock ''QThread'' 0 [
       Overload [TypeM QTCORE_QOBJECT] [] None]]"

definition ctor_qtcore_1_6 :: "ctor_block list" where
  "ctor_qtcore_1_6 = [
     CtorBlock ''QThreadPool'' 0 [
       Overload [TypeM QTCORE_QOBJECT] [] None],
     CtorBlock QTimeLine 0 [
       Overload [TypeM QTCORE_QOBJECT] [] None],
     CtorBlock QTimeLine 1 [
       Overload [TypeM QTCORE_QOBJECT] [PInt] None],
     CtorBlock ''QTimer'' 0 [
       Overload [TypeM QTCORE_QOBJECT] [] None],
     CtorBlock ''QTranslator'' 0 [
       Overload [TypeM QTCORE_QOBJECT] [] None]]"

definition ctor_qtcore_1_7 :: "ctor_block list" where
  "ctor_qtcore_1_7 = [
     CtorBlock QTransposeProxyModel 0 [
       Overload [TypeM QTCORE_QOBJECT] [] None],
     CtorBlock ''QVariantAnimation'' 0 [
       Overload [TypeM QTCORE_QOBJECT] [] None],
     CtorBlock ''QWinEventNotifier'' 0 [
       Overload [TypeM QTCORE_QOBJECT] [] None],
     CtorBlock ''QWinEventNotifier'' 1 [
       Overload [EnumM ''QT_HANDLE'', TypeM QTCORE_QOBJECT] [PConv ''Qt::HANDLE''] None]]"

definition ctor_classes_qtcore_1 :: "class_entry list" where
  "ctor_classes_qtcore_1 = [
     ClassEntry ''QPropertyAnimation'' [TypeM QTCORE_QOBJECT, ValueM QTCORE_QBYTEARRAY] [QObject_ptr, ''QObject*, QByteArray, QObject*''],
     ClassEntry ''QSaveFile'' [TypeM QTCORE_QOBJECT] [''QString, QObject*'', QObject_ptr],
     ClassEntry ''QSequentialAnimationGroup'' [TypeM QTCORE_QOBJECT] [QObject_ptr],
     ClassEntry QSettings [TypeM QTCORE_QOBJECT, TypeM ''QTCORE_QSETTINGS''] [''QString, QString, QObject*'', ''QSettings::Scope, QString, QString, QObject*'', ''QSettings::Format, QSettings::Scope, QString, QString, QObject*'', ''QString, QSettings::Format, QObject*'', ''QSettings::Scope, QObject*'', QObject_ptr],
     ClassEntry QSharedMemory [TypeM QTCORE_QOBJECT, ValueM QTCORE_QNATIVEIPCKEY] [QObject_ptr, ''QNativeIpcKey, QObject*'', ''QString, QObject*''],
     ClassEntry ''QSignalMapper'' [TypeM QTCORE_QOBJECT] [QObject_ptr],
     ClassEntry ''QSocketNotifier'' [TypeM QTCORE_QOBJECT, TypeM ''QTCORE_QSOCKETNOTIFIER''] [''QSocketNotifier::Type, QObject*''],
     ClassEntry QSortFilterProxyModel [TypeM QTCORE_QOBJECT] [QObject_ptr],
     ClassEntry QStringListModel [TypeM QTCORE_QOBJECT] [QObject_ptr, ''QStringList, QObject*''],
     ClassEntry ''QTemporaryFile'' [TypeM QTCORE_QOBJECT] ['''', QString, QObject_ptr, ''QString, QObject*''],
     ClassEntry ''QThread'' [TypeM QTCORE_QOBJECT] [QObject_ptr],
     ClassEntry ''QThreadPool'' [TypeM QTCORE_QOBJECT] [QObject_ptr],
     ClassEntry QTimeLine [TypeM QTCORE_QOBJECT] [''int, QObject*''],
     ClassEntry ''QTimer'' [TypeM QTCORE_QOBJECT] [QObject_ptr],
     ClassEntry ''QTranslator'' [TypeM QTCORE_QOBJECT] [QObject_ptr],
     ClassEntry QTransposeProxyModel [TypeM QTCORE_QOBJECT] [QObject_ptr],
     ClassEntry ''QVariantAnimation'' [TypeM QTCORE_QOBJECT] [QObject_ptr],
     ClassEntry ''QWinEventNotifier'' [EnumM ''QT_HANDLE'', TypeM QTCORE_QOBJECT] [QObject_ptr, ''Qt::HANDLE, QObject*'']]"

definition ctor_qtdatavisualization_0_0 :: "ctor_block list" where
  "ctor_qtdatavisualization_0_0 = [
     CtorBlock ''Q3DCamera'' 0 [
       Overload [TypeM QTCORE_QOBJECT] [] None],
     CtorBlock ''Q3DInputHandler'' 0 [
       Overload [TypeM QTCORE_QOBJECT] [] None],
     CtorBlock ''Q3DLight'' 0 [
       Overload [TypeM QTCORE_QOBJECT] [] None],
     CtorBlock ''Q3DObject'' 0 [
       Overload [TypeM QTCORE_QOBJECT] [] None],
     CtorBlock Q3DScene 0 [
       Overload [TypeM QTCORE_QOBJECT] [] None]]"

definition ctor_qtdatavisualization_0_1 :: "ctor_block list" where
  "ctor_qtdatavisualization_0_1 = [
     CtorBlock Q3DTheme 0 [
       Overload [TypeM QTCORE_QOBJECT] [] None],
     CtorBlock Q3DTheme 1 [
       Overload [TypeM QTCORE_QOBJECT, TypeM QTDATAVISUALIZATION_Q3DTHEME] [PConv ''Q3DTheme::Theme''] None],
     CtorBlock QBar3DSeries 0 [
       Overload [TypeM QTCORE_QOBJECT] [] None],
     CtorBlock QBar3DSeries 1 [
       Overload [TypeM QTCORE_QOBJECT, TypeM ''QTDATAVISUALIZATION_QBARDATAPROXY''] [PNonNull ''QBarDataProxy*''] None],
     CtorBlock ''QBarDataProxy'' 0 [
       Overload [TypeM QTCORE_QOBJECT] [] None]]"

definition ctor_qtdatavisualization_0_2 :: "ctor_block list" where
  "ctor_qtdatavisualization_0_2 = [
     CtorBlock ''QCategory3DAxis'' 0 [
       Overload [TypeM QTCORE_QOBJECT] [] None],
     CtorBlock QCustom3DItem 0 [
       Overload [TypeM QTCORE_QOBJECT] [] None],
     CtorBlock QCustom3DItem 5 [
       Overload [TypeM QTCORE_QOBJECT, ValueM QTGUI_QIMAGE, ValueM QTGUI_QQUATERNION, ValueM QTGUI_QVECTOR3D] [PString False, PConv QVector3D, PConv QVector3D, PConv QQuaternion, PConv QImage] None],
     CtorBlock QCustom3DLabel 0 [
       Overload [TypeM QTCORE_QOBJECT] [] None]]"

definition ctor_qtdatavisualization_0_3 :: "ctor_block list" where
  "ctor_qtdatavisualization_0_3 = [
     CtorBlock QCustom3DLabel 5 [
       Overload [TypeM QTCORE_QOBJECT, ValueM QTGUI_QFONT, ValueM QTGUI_QQUATERNION, ValueM QTGUI_QVECTOR3D] [PString False, PConv QFont, PConv QVector3D, PConv QVector3D, PConv QQuaternion] None],
     CtorBlock QCustom3DVolume 0 [
       Overload [TypeM QTCORE_QOBJECT] [] None],
     CtorBlock QHeightMapSurfaceDataProxy 0 [
       Overload [TypeM QTCORE_QOBJECT] [] None],
     CtorBlock QHeightMapSurfaceDataProxy 1 [
       Overload [TypeM QTCORE_QOBJECT, ValueM QTGUI_QIMAGE] [PConv QImage] None,
       Overload [TypeM QTCORE_QOBJECT] [PString False] None]]"

definition ctor_qtdatavisualization_0_4 :: "ctor_block list" where
  "ctor_qtdatavisualization_0_4 = [
     CtorBlock QItemModelBarDataProxy 0 [
       Overload [TypeM QTCORE_QOBJECT] [] None],
     CtorBlock QItemModelBarDataProxy 1 [
       Overload [TypeM QTCORE_QABSTRACTITEMMODEL, TypeM QTCORE_QOBJECT] [PNonNull QAbstractItemModel_ptr] None],
     CtorBlock QItemModelBarDataProxy 2 [
       Overload [TypeM QTCORE_QABSTRACTITEMMODEL, TypeM QTCORE_QOBJECT] [PNonNull QAbstractItemModel_ptr, PString False] None],
     CtorBlock QItemModelBarDataProxy 4 [
       Overload [TypeM QTCORE_QABSTRACTITEMMODEL, TypeM QTCORE_QOBJECT] [PNonNull QAbstractItemModel_ptr, PString False, PString False, PString False] None]]"

definition ctor_qtdatavisualization_0_5 :: "ctor_block list" where
  "ctor_qtdatavisualization_0_5 = [
     CtorBlock QItemModelBarDataProxy 5 [
       Overload [TypeM QTCORE_QABSTRACTITEMMODEL, TypeM QTCORE_QOBJECT] [PNonNull QAbstractItemModel_ptr, PString False, PString False, PString False, PString False] None],
     CtorBlock QItemModelBarDataProxy 6 [
       Overload [TypeM QTCORE_QABSTRACTITEMMODEL, TypeM QTCORE_QOBJECT] [PNonNull QAbstractItemModel_ptr, PString False, PString False, PString False, PStringList, PStringList] None],
     CtorBlock QItemModelBarDataProxy 7 [
       Overload [TypeM QTCORE_QABSTRACTITEMMODEL, TypeM QTCORE_QOBJECT] [PNonNull QAbstractItemModel_ptr, PString False, PString False, PString False, PString False, PStringList, PStringList] None]]"

definition ctor_qtdatavisualization_0_6 :: "ctor_block list" where
  "ctor_qtdatavisualization_0_6 = [
     CtorBlock QItemModelScatterDataProxy 0 [
       Overload [TypeM QTCORE_QOBJECT] [] None],
     CtorBlock QItemModelScatterDataProxy 1 [
       Overload [TypeM QTCORE_QABSTRACTITEMMODEL, TypeM QTCORE_QOBJECT] [PNonNull QAbstractItemModel_ptr] None],
     CtorBlock QItemModelScatterDataProxy 4 [
       Overload [TypeM QTCORE_QABSTRACTITEMMODEL, TypeM QTCORE_QOBJECT] [PNonNull QAbstractItemModel_ptr, PString False, PString False, PString False] None],
     CtorBlock QItemModelScatterDataProxy 5 [
       Overload [TypeM QTCORE_QABSTRACTITEMMODEL, TypeM QTCORE_QOBJECT] [PNonNull QAbstractItemModel_ptr, PString False, PString False, PString False, PString False] None]]"

definition ctor_qtdatavisualization_0_7 :: "ctor_block list" where
  "ctor_qtdatavisualization_0_7 = [
     CtorBlock QItemModelSurfaceDataProxy 0 [
       Overload [TypeM QTCORE_QOBJECT] [] None],
     CtorBlock QItemModelSurfaceDataProxy 1 [
       Overload [TypeM QTCORE_QABSTRACTITEMMODEL, TypeM QTCORE_QOBJECT] [PNonNull QAbstractItemModel_ptr] None],
     CtorBlock QItemModelSurfaceDataProxy 2 [
       Overload [TypeM QTCORE_QABSTRACTITEMMODEL, TypeM QTCORE_QOBJECT] [PNonNull QAbstractItemModel_ptr, PString False] None],
     CtorBlock QItemModelSurfaceDataProxy 4 [
       Overload [TypeM QTCORE_QABSTRACTITEMMODEL, TypeM QTCORE_QOBJECT] [PNonNull QAbstractItemModel_ptr, PString False, PString False, PString False] None]]"

definition ctor_qtdatavisualization_0_8 :: "ctor_block list" where
  "ctor_qtdatavisualization_0_8 = [
     CtorBlock QItemModelSurfaceDataProxy 6 [
       Overload [TypeM QTCORE_QABSTRACTITEMMODEL, TypeM QTCORE_QOBJECT] [PNonNull QAbstractItemModel_ptr, PString False, PString False, PString False, PStringList, PStringList] None,
       Overload [TypeM QTCORE_QABSTRACTITEMMODEL, TypeM QTCORE_QOBJECT] [PNonNull QAbstractItemModel_ptr, PString False, PString False, PString False, PString False, PString False] None],
     CtorBlock QItemModelSurfaceDataProxy 8 [
       Overload [TypeM QTCORE_QABSTRACTITEMMODEL, TypeM QTCORE_QOBJECT] [PNonNull QAbstractItemModel_ptr, PString False, PString False, PString False, PString False, PString False, PStringList, PStringList] None]]"

definition ctor_qtdatavisualization_0_9 :: "ctor_block list" where
  "ctor_qtdatavisualization_0_9 = [
     CtorBlock QLogValue3DAxisFormatter 0 [
       Overload [TypeM QTCORE_QOBJECT] [] None],
     CtorBlock QScatter3DSeries 0 [
       Overload [TypeM QTCORE_QOBJECT] [] None],
     CtorBlock QScatter3DSeries 1 [
       Overload [TypeM QTCORE_QOBJECT, TypeM ''QTDATAVISUALIZATION_QSCATTERDATAPROXY''] [PNonNull ''QScatterDataProxy*''] None],
     CtorBlock ''QScatterDataProxy'' 0 [
       Overload [TypeM QTCORE_QOBJECT] [] None],
     CtorBlock QSurface3DSeries 0 [
       Overload [TypeM QTCORE_QOBJECT] [] None]]"

definition ctor_qtdatavisualization_0_10 :: "ctor_block list" where
  "ctor_qtdatavisualization_0_10 = [
     CtorBlock QSurface3DSeries 1 [
       Overload [TypeM QTCORE_QOBJECT, TypeM ''QTDATAVISUALIZATION_QSURFACEDATAPROXY''] [PNonNull ''QSurfaceDataProxy*''] None],
     CtorBlock QSurfaceDataProxy 0 [
       Overload [TypeM QTCORE_QOBJECT] [] None],
     CtorBlock ''QTouch3DInputHandler'' 0 [
       Overload [TypeM QTCORE_QOBJECT] [] None],
     CtorBlock QValue3DAxis 0 [
       Overload [TypeM QTCORE_QOBJECT] [] None],
     CtorBlock ''QValue3DAxisFormatter'' 0 [
       Overload [TypeM QTCORE_QOBJECT] [] None]]"

definition ctor_classes_qtdatavisualization_0 :: "class_entry list" where
  "ctor_classes_qtdatavisualization_0 = [
     ClassEntry ''Q3DCamera'' [TypeM QTCORE_QOBJECT] [QObject_ptr],
     ClassEntry ''Q3DInputHandler'' [TypeM QTCORE_QOBJECT] [QObject_ptr],
     ClassEntry ''Q3DLight'' [TypeM QTCORE_QOBJECT] [QObject_ptr],
     ClassEntry ''Q3DObject'' [TypeM QTCORE_QOBJECT] [QObject_ptr],
     ClassEntry Q3DScene [TypeM QTCORE_QOBJECT] [QObject_ptr],
     ClassEntry Q3DTheme [TypeM QTCORE_QOBJECT, TypeM QTDATAVISUALIZATION_Q3DTHEME] [QObject_ptr, ''Q3DTheme::Theme, QObject*''],
     ClassEntry QBar3DSeries [TypeM QTCORE_QOBJECT, TypeM ''QTDATAVISUALIZATION_QBARDATAPROXY''] [''QBarDataProxy*, QObject*'', QObject_ptr],
     ClassEntry ''QBarDataProxy'' [TypeM QTCORE_QOBJECT] [QObject_ptr],
     ClassEntry ''QCategory3DAxis'' [TypeM QTCORE_QOBJECT] [QObject_ptr],
     ClassEntry QCustom3DItem [TypeM QTCORE_QOBJECT, ValueM QTGUI_QIMAGE, ValueM QTGUI_QQUATERNION, ValueM QTGUI_QVECTOR3D] [QObject_ptr, ''QString, QVector3D, QVector3D, QQuaternion, QImage, QObject*''],
     ClassEntry QCustom3DLabel [TypeM QTCORE_QOBJECT, ValueM QTGUI_QFONT, ValueM QTGUI_QQUATERNION, ValueM QTGUI_QVECTOR3D] [QObject_ptr, ''QString, QFont, QVector3D, QVector3D, QQuaternion, QObject*''],
     ClassEntry QCustom3DVolume [TypeM QTCORE_QOBJECT] [QObject_ptr],
     ClassEntry QHeightMapSurfaceDataProxy [TypeM QTCORE_QOBJECT, ValueM QTGUI_QIMAGE] [QObject_ptr, ''QImage, QObject*'', ''QString, QObject*''],
     ClassEntry QItemModelBarDataProxy [TypeM QTCORE_QABSTRACTITEMMODEL, TypeM QTCORE_QOBJECT] [''QAbstractItemModel*, QObject*'', ''QAbstractItemModel*, QString, QObject*'', ''QAbstractItemModel*, QString, QString, QString, QObject*'', ''QAbstractItemModel*, QString, QString, QString, QString, QObject*'', ''QAbstractItemModel*, QString, QString, QString, QStringList, QStringList, QObject*'', ''QAbstractItemModel*, QString, QString, QString, QString, QStringList, QStringList, QObject*'', QObject_ptr],
     ClassEntry QItemModelScatterDataProxy [TypeM QTCORE_QABSTRACTITEMMODEL, TypeM QTCORE_QOBJECT] [''QAbstractItemModel*, QObject*'', ''QAbstractItemModel*, QString, QString, QString, QObject*'', ''QAbstractItemModel*, QString, QString, QString, QString, QObject*'', QObject_ptr],
     ClassEntry QItemModelSurfaceDataProxy [TypeM QTCORE_QABSTRACTITEMMODEL, TypeM QTCORE_QOBJECT] [''QAbstractItemModel*, QObject*'', ''QAbstractItemModel*, QString, QObject*'', ''QAbstractItemModel*, QString, QString, QString, QObject*'', ''QAbstractItemModel*, QString, QString, QString, QStringList, QStringList, QObject*'', ''QAbstractItemModel*, QString, QString, QString, QString, QString, QObject*'', ''QAbstractItemModel*, QString, QString, QString, QString, QString, QStringList, QStringList, QObject*'', QObject_ptr],
     ClassEntry QLogValue3DAxisFormatter [TypeM QTCORE_QOBJECT] [QObject_ptr],
     ClassEntry QScatter3DSeries [TypeM QTCORE_QOBJECT, TypeM ''QTDATAVISUALIZATION_QSCATTERDATAPROXY''] [''QScatterDataProxy*, QObject*'', QObject_ptr],
     ClassEntry ''QScatterDataProxy'' [TypeM QTCORE_QOBJECT] [QObject_ptr],
     ClassEntry QSurface3DSeries [TypeM QTCORE_QOBJECT, TypeM ''QTDATAVISUALIZATION_QSURFACEDATAPROXY''] [''QSurfaceDataProxy*, QObject*'', QObject_ptr],
     ClassEntry QSurfaceDataProxy [TypeM QTCORE_QOBJECT] [QObject_ptr],
     ClassEntry ''QTouch3DInputHandler'' [TypeM QTCORE_QOBJECT] [QObject_ptr],
     ClassEntry QValue3DAxis [TypeM QTCORE_QOBJECT] [QObject_ptr],
     ClassEntry ''QValue3DAxisFormatter'' [TypeM QTCORE_QOBJECT] [QObject_ptr]]"

definition ctor_qtdbus_0_0 :: "ctor_block list" where
  "ctor_qtdbus_0_0 = [
     CtorBlock ''QDBusInterface'' 2 [
       Overload [TypeM QTCORE_QOBJECT, ValueM QTDBUS_QDBUSCONNECTION] [PString False, PString False] None],
     CtorBlock ''QDBusInterface'' 3 [
       Overload [TypeM QTCORE_QOBJECT, ValueM QTDBUS_QDBUSCONNECTION] [PString False, PString False, PString False] None],
     CtorBlock ''QDBusInterface'' 4 [
       Overload [TypeM QTCORE_QOBJECT, ValueM QTDBUS_QDBUSCONNECTION] [PString False, PString False, PString False, PConv QDBusConnection] None],
     CtorBlock ''QDBusPendingCallWatcher'' 1 [
       Overload [TypeM QTCORE_QOBJECT, ValueM ''QTDBUS_QDBUSPENDINGCALL''] [PConv QDBusPendingCall] None]]"

definition ctor_qtdbus_0_1 :: "ctor_block list" where
  "ctor_qtdbus_0_1 = [
     CtorBlock ''QDBusServiceWatcher'' 0 [
       Overload [TypeM QTCORE_QOBJECT] [] None],
     CtorBlock ''QDBusServiceWatcher'' 2 [
       Overload [TypeM QTCORE_QOBJECT, TypeM ''QTDBUS_QDBUSSERVICEWATCHER'', ValueM QTDBUS_QDBUSCONNECTION] [PString False, PConv QDBusConnection] None],
     CtorBlock ''QDBusServiceWatcher'' 3 [
       Overload [TypeM QTCORE_QOBJECT, TypeM ''QTDBUS_QDBUSSERVICEWATCHER'', ValueM QTDBUS_QDBUSCONNECTION] [PString False, PConv QDBusConnection, PConv ''QDBusServiceWatcher::WatchMode''] None]]"

definition ctor_classes_qtdbus_0 :: "class_entry list" where
  "ctor_classes_qtdbus_0 = [
     ClassEntry ''QDBusInterface'' [TypeM QTCORE_QOBJECT, ValueM QTDBUS_QDBUSCONNECTION] [''QString, QString, QString, QDBusConnection, QObject*''],
     ClassEntry ''QDBusPendingCallWatcher'' [TypeM QTCORE_QOBJECT, ValueM ''QTDBUS_QDBUSPENDINGCALL''] [''QDBusPendingCall, QObject*''],
     ClassEntry ''QDBusServiceWatcher'' [TypeM QTCORE_QOBJECT, TypeM ''QTDBUS_QDBUSSERVICEWATCHER'', ValueM QTDBUS_QDBUSCONNECTION] [QObject_ptr, ''QString, QDBusConnection, QDBusServiceWatcher::WatchMode, QObject*'']]"

definition ctor_qtdesigner_0_0 :: "ctor_block list" where
  "ctor_qtdesigner_0_0 = [
     CtorBlock ''QDesignerActionEditorInterface'' 0 [
       Overload [EnumM QT_WINDOWFLAGS, TypeM QTWIDGETS_QWIDGET] [] (Some (0, QWidget))],
     CtorBlock ''QDesignerActionEditorInterface'' 1 [
       Overload [EnumM QT_WINDOWFLAGS, TypeM QTWIDGETS_QWIDGET] [PConv Qt_WindowFlags] (Some (0, QWidget))],
     CtorBlock QDesignerFormEditorInterface 0 [
       Overload [TypeM QTCORE_QOBJECT] [] None],
     CtorBlock ''QDesignerFormWindowInterface'' 0 [
       Overload [EnumM QT_WINDOWFLAGS, TypeM QTWIDGETS_QWIDGET] [] None],
     CtorBlock ''QDesignerFormWindowInterface'' 1 [
       Overload [EnumM QT_WINDOWFLAGS, TypeM QTWIDGETS_QWIDGET] [PConv Qt_WindowFlags] (Some (0, QWidget))]]"

definition ctor_qtdesigner_0_1 :: "ctor_block list" where
  "ctor_qtdesigner_0_1 = [
     CtorBlock ''QDesignerFormWindowManagerInterface'' 0 [
       Overload [TypeM QTCORE_QOBJECT] [] None],
     CtorBlock ''QDesignerObjectInspectorInterface'' 0 [
       Overload [EnumM QT_WINDOWFLAGS, TypeM QTWIDGETS_QWIDGET] [] (Some (0, QWidget))],
     CtorBlock ''QDesignerObjectInspectorInterface'' 1 [
       Overload [EnumM QT_WINDOWFLAGS, TypeM QTWIDGETS_QWIDGET] [PConv Qt_WindowFlags] (Some (0, QWidget))],
     CtorBlock ''QDesignerPropertyEditorInterface'' 0 [
       Overload [EnumM QT_WINDOWFLAGS, TypeM QTWIDGETS_QWIDGET] [] (Some (0, QWidget))],
     CtorBlock ''QDesignerPropertyEditorInterface'' 1 [
       Overload [EnumM QT_WINDOWFLAGS, TypeM QTWIDGETS_QWIDGET] [PConv Qt_WindowFlags] (Some (0, QWidget))]]"

definition ctor_qtdesigner_0_2 :: "ctor_block list" where
  "ctor_qtdesigner_0_2 = [
     CtorBlock ''QDesignerWidgetBoxInterface'' 0 [
       Overload [EnumM QT_WINDOWFLAGS, TypeM QTWIDGETS_QWIDGET] [] None],
     CtorBlock ''QDesignerWidgetBoxInterface'' 1 [
       Overload [EnumM QT_WINDOWFLAGS, TypeM QTWIDGETS_QWIDGET] [PConv Qt_WindowFlags] (Some (0, QWidget))],
     CtorBlock ''QExtensionFactory'' 0 [
       Overload [TypeM ''QTDESIGNER_QEXTENSIONMANAGER''] [] None],
     CtorBlock ''QExtensionManager'' 0 [
       Overload [TypeM QTCORE_QOBJECT] [] None],
     CtorBlock ''QPyDesignerContainerExtension'' 0 [
       Overload [TypeM QTCORE_QOBJECT] [] (Some (0, QObject))]]"

definition ctor_qtdesigner_0_3 :: "ctor_block list" where
  "ctor_qtdesigner_0_3 = [
     CtorBlock ''QPyDesignerCustomWidgetCollectionPlugin'' 0 [
       Overload [TypeM QTCORE_QOBJECT] [] None],
     CtorBlock ''QPyDesignerCustomWidgetPlugin'' 0 [
       Overload [TypeM QTCORE_QOBJECT] [] None],
     CtorBlock ''QPyDesignerMemberSheetExtension'' 0 [
       Overload [TypeM QTCORE_QOBJECT] [] (Some (0, QObject))],
     CtorBlock ''QPyDesignerPropertySheetExtension'' 0 [
       Overload [TypeM QTCORE_QOBJECT] [] (Some (0, QObject))],
     CtorBlock ''QPyDesignerTaskMenuExtension'' 0 [
       Overload [TypeM QTCORE_QOBJECT] [] (Some (0, QObject))]]"

definition ctor_classes_qtdesigner_0 :: "class_entry list" where
  "ctor_classes_qtdesigner_0 = [
     ClassEntry ''QDesignerActionEditorInterface'' [EnumM QT_WINDOWFLAGS, TypeM QTWIDGETS_QWIDGET] [''QWidget*, Qt::WindowFlags''],
     ClassEntry QDesignerFormEditorInterface [TypeM QTCORE_QOBJECT] [QObject_ptr],
     ClassEntry ''QDesignerFormWindowInterface'' [EnumM QT_WINDOWFLAGS, TypeM QTWIDGETS_QWIDGET] [''QWidget*, Qt::WindowFlags''],
     ClassEntry ''QDesignerFormWindowManagerInterface'' [TypeM QTCORE_QOBJECT] [QObject_ptr],
     ClassEntry ''QDesignerObjectInspectorInterface'' [EnumM QT_WINDOWFLAGS, TypeM QTWIDGETS_QWIDGET] [''QWidget*, Qt::WindowFlags''],
     ClassEntry ''QDesignerPropertyEditorInterface'' [EnumM QT_WINDOWFLAGS, TypeM QTWIDGETS_QWIDGET] [''QWidget*, Qt::WindowFlags''],
     ClassEntry ''QDesignerWidgetBoxInterface'' [EnumM QT_WINDOWFLAGS, TypeM QTWIDGETS_QWIDGET] [''QWidget*, Qt::WindowFlags''],
     ClassEntry ''QExtensionFactory'' [TypeM ''QTDESIGNER_QEXTENSIONMANAGER''] [''QExtensionManager*''],
     ClassEntry ''QExtensionManager'' [TypeM QTCORE_QOBJECT] [QObject_ptr],
     ClassEntry ''QPyDesignerContainerExtension'' [TypeM QTCORE_QOBJECT] [QObject_ptr],
     ClassEntry ''QPyDesignerCustomWidgetCollectionPlugin'' [TypeM QTCORE_QOBJECT] [QObject_ptr],
     ClassEntry ''QPyDesignerCustomWidgetPlugin'' [TypeM QTCORE_QOBJECT] [QObject_ptr],
     ClassEntry ''QPyDesignerMemberSheetExtension'' [TypeM QTCORE_QOBJECT] [QObject_ptr],
     ClassEntry ''QPyDesignerPropertySheetExtension'' [TypeM QTCORE_QOBJECT] [QObject_ptr],
     ClassEntry ''QPyDesignerTaskMenuExtension'' [TypeM QTCORE_QOBJECT] [QObject_ptr]]"

definition ctor_qtgraphs_0_0 :: "ctor_block list" where
  "ctor_qtgraphs_0_0 = [
     CtorBlock Q3DScene 0 [
       Overload [TypeM QTCORE_QOBJECT] [] None],
     CtorBlock QAreaSeries 0 [
       Overload [TypeM QTCORE_QOBJECT] [] None],
     CtorBlock QBar3DSeries 0 [
       Overload [TypeM QTCORE_QOBJECT] [] None],
     CtorBlock QBar3DSeries 1 [
       Overload [TypeM QTCORE_QOBJECT, TypeM ''QTGRAPHS_QBARDATAPROXY''] [PNonNull ''QBarDataProxy*''] None],
     CtorBlock QBarCategoryAxis 0 [
       Overload [TypeM QTCORE_QOBJECT] [] None]]"

definition ctor_qtgraphs_0_1 :: "ctor_block list" where
  "ctor_qtgraphs_0_1 = [
     CtorBlock ''QBarDataProxy'' 0 [
       Overload [TypeM QTCORE_QOBJECT] [] None],
     CtorBlock QBarModelMapper 0 [
       Overload [TypeM QTCORE_QOBJECT] [] None],
     CtorBlock QBarSeries 0 [
       Overload [TypeM QTCORE_QOBJECT] [] None],
     CtorBlock QBarSet 0 [
       Overload [TypeM QTCORE_QOBJECT] [] None],
     CtorBlock QBarSet 1 [
       Overload [TypeM QTCORE_QOBJECT] [PString False] None]]"

definition ctor_qtgraphs_0_2 :: "ctor_block list" where
  "ctor_qtgraphs_0_2 = [
     CtorBlock ''QCategory3DAxis'' 0 [
       Overload [TypeM QTCORE_QOBJECT] [] None],
     CtorBlock QCustom3DItem 0 [
       Overload [TypeM QTCORE_QOBJECT] [] None],
     CtorBlock QCustom3DItem 5 [
       Overload [TypeM QTCORE_QOBJECT, ValueM QTGUI_QIMAGE, ValueM QTGUI_QQUATERNION, ValueM QTGUI_QVECTOR3D] [PString False, PConv QVector3D, PConv QVector3D, PConv QQuaternion, PConv QImage] None],
     CtorBlock QCustom3DLabel 0 [
       Overload [TypeM QTCORE_QOBJECT] [] None]]"

definition ctor_qtgraphs_0_3 :: "ctor_block list" where
  "ctor_qtgraphs_0_3 = [
     CtorBlock QCustom3DLabel 5 [
       Overload [TypeM QTCORE_QOBJECT, ValueM QTGUI_QFONT, ValueM QTGUI_QQUATERNION, ValueM QTGUI_QVECTOR3D] [PString False, PConv QFont, PConv QVector3D, PConv QVector3D, PConv QQuaternion] None],
     CtorBlock QCustom3DVolume 0 [
       Overload [TypeM QTCORE_QOBJECT] [] None],
     CtorBlock QDateTimeAxis 0 [
       Overload [TypeM QTCORE_QOBJECT] [] None],
     CtorBlock QGraphsTheme 0 [
       Overload [TypeM QTCORE_QOBJECT] [] None],
     CtorBlock QHeightMapSurfaceDataProxy 0 [
       Overload [TypeM QTCORE_QOBJECT] [] None]]"

definition ctor_qtgraphs_0_4 :: "ctor_block list" where
  "ctor_qtgraphs_0_4 = [
     CtorBlock QHeightMapSurfaceDataProxy 1 [
       Overload [TypeM QTCORE_QOBJECT, ValueM QTGUI_QIMAGE] [PConv QImage] None,
       Overload [TypeM QTCORE_QOBJECT] [PString False] None],
     CtorBlock QItemModelBarDataProxy 0 [
       Overload [TypeM QTCORE_QOBJECT] [] None],
     CtorBlock QItemModelBarDataProxy 1 [
       Overload [TypeM QTCORE_QABSTRACTITEMMODEL, TypeM QTCORE_QOBJECT] [PNonNull QAbstractItemModel_ptr] None],
     CtorBlock QItemModelBarDataProxy 2 [
       Overload [TypeM QTCORE_QABSTRACTITEMMODEL, TypeM QTCORE_QOBJECT] [PNonNull QAbstractItemModel_ptr, PString False] None]]"

definition ctor_qtgraphs_0_5 :: "ctor_block list" where
  "ctor_qtgraphs_0_5 = [
     CtorBlock QItemModelBarDataProxy 4 [
       Overload [TypeM QTCORE_QABSTRACTITEMMODEL, TypeM QTCORE_QOBJECT] [PNonNull QAbstractItemModel_ptr, PString False, PString False, PString False] None],
     CtorBlock QItemModelBarDataProxy 5 [
       Overload [TypeM QTCORE_QABSTRACTITEMMODEL, TypeM QTCORE_QOBJECT] [PNonNull QAbstractItemModel_ptr, PString False, PString False, PString False, PString False] None],
     CtorBlock QItemModelBarDataProxy 6 [
       Overload [TypeM QTCORE_QABSTRACTITEMMODEL, TypeM QTCORE_QOBJECT] [PNonNull QAbstractItemModel_ptr, PString False, PString False, PString False, PStringList, PStringList] None]]"

definition ctor_qtgraphs_0_6 :: "ctor_block list" where
  "ctor_qtgraphs_0_6 = [
     CtorBlock QItemModelBarDataProxy 7 [
       Overload [TypeM QTCORE_QABSTRACTITEMMODEL, TypeM QTCORE_QOBJECT] [PNonNull QAbstractItemModel_ptr, PString False, PString False, PString False, PString False, PStringList, PStringList] None],
     CtorBlock QItemModelScatterDataProxy 0 [
       Overload [TypeM QTCORE_QOBJECT] [] None],
     CtorBlock QItemModelScatterDataProxy 1 [
       Overload [TypeM QTCORE_QABSTRACTITEMMODEL, TypeM QTCORE_QOBJECT] [PNonNull QAbstractItemModel_ptr] None],
     CtorBlock QItemModelScatterDataProxy 4 [
       Overload [TypeM QTCORE_QABSTRACTITEMMODEL, TypeM QTCORE_QOBJECT] [PNonNull QAbstractItemModel_ptr, PString False, PString False, PString False] None]]"

definition ctor_qtgraphs_0_7 :: "ctor_block list" where
  "ctor_qtgraphs_0_7 = [
     CtorBlock QItemModelScatterDataProxy 5 [
       Overload [TypeM QTCORE_QABSTRACTITEMMODEL, TypeM QTCORE_QOBJECT] [PNonNull QAbstractItemModel_ptr, PString False, PString False, PString False, PString False] None],
     CtorBlock QItemModelSurfaceDataProxy 0 [
       Overload [TypeM QTCORE_QOBJECT] [] None],
     CtorBlock QItemModelSurfaceDataProxy 1 [
       Overload [TypeM QTCORE_QABSTRACTITEMMODEL, TypeM QTCORE_QOBJECT] [PNonNull QAbstractItemModel_ptr] None],
     CtorBlock QItemModelSurfaceDataProxy 2 [
       Overload [TypeM QTCORE_QABSTRACTITEMMODEL, TypeM QTCORE_QOBJECT] [PNonNull QAbstractItemModel_ptr, PString False] None]]"

definition ctor_qtgraphs_0_8 :: "ctor_block list" where
  "ctor_qtgraphs_0_8 = [
     CtorBlock QItemModelSurfaceDataProxy 4 [
       Overload [TypeM QTCORE_QABSTRACTITEMMODEL, TypeM QTCORE_QOBJECT] [PNonNull QAbstractItemModel_ptr, PString False, PString False, PString False] None],
     CtorBlock QItemModelSurfaceDataProxy 6 [
       Overload [TypeM QTCORE_QABSTRACTITEMMODEL, TypeM QTCORE_QOBJECT] [PNonNull QAbstractItemModel_ptr, PString False, PString False, PString False, PString False, PString False] None,
       Overload [TypeM QTCORE_QABSTRACTITEMMODEL, TypeM QTCORE_QOBJECT] [PNonNull QAbstractItemModel_ptr, PString False, PString False, PString False, PStringList, PStringList] None]]"

definition ctor_qtgraphs_0_9 :: "ctor_block list" where
  "ctor_qtgraphs_0_9 = [
     CtorBlock QItemModelSurfaceDataProxy 8 [
       Overload [TypeM QTCORE_QABSTRACTITEMMODEL, TypeM QTCORE_QOBJECT] [PNonNull QAbstractItemModel_ptr, PString False, PString False, PString False, PString False, PString False, PStringList, PStringList] None],
     CtorBlock ''QLineSeries'' 0 [
       Overload [TypeM QTCORE_QOBJECT] [] None],
     CtorBlock QLogValue3DAxisFormatter 0 [
       Overload [TypeM QTCORE_QOBJECT] [] None],
     CtorBlock QPieModelMapper 0 [
       Overload [TypeM QTCORE_QOBJECT] [] None]]"

definition ctor_qtgraphs_0_10 :: "ctor_block list" where
  "ctor_qtgraphs_0_10 = [
     CtorBlock QPieSeries 0 [
       Overload [TypeM QTCORE_QOBJECT] [] None],
     CtorBlock QPieSlice 0 [
       Overload [TypeM QTCORE_QOBJECT] [] None],
     CtorBlock QPieSlice 2 [
       Overload [TypeM QTCORE_QOBJECT] [PString False, PReal ''qreal''] None],
     CtorBlock QScatter3DSeries 0 [
       Overload [TypeM QTCORE_QOBJECT] [] None],
     CtorBlock QScatter3DSeries 1 [
       Overload [TypeM QTCORE_QOBJECT, TypeM ''QTGRAPHS_QSCATTERDATAPROXY''] [PNonNull ''QScatterDataProxy*''] None]]"

definition ctor_classes_qtgraphs_0 :: "class_entry list" where
  "ctor_classes_qtgraphs_0 = [
     ClassEntry Q3DScene [TypeM QTCORE_QOBJECT] [QObject_ptr],
     ClassEntry QAreaSeries [TypeM QTCORE_QOBJECT] [QObject_ptr],
     ClassEntry QBar3DSeries [TypeM QTCORE_QOBJECT, TypeM ''QTGRAPHS_QBARDATAPROXY''] [''QBarDataProxy*, QObject*'', QObject_ptr],
     ClassEntry QBarCategoryAxis [TypeM QTCORE_QOBJECT] [QObject_ptr],
     ClassEntry ''QBarDataProxy'' [TypeM QTCORE_QOBJECT] [QObject_ptr],
     ClassEntry QBarModelMapper [TypeM QTCORE_QOBJECT] [QObject_ptr],
     ClassEntry QBarSeries [TypeM QTCORE_QOBJECT] [QObject_ptr],
     ClassEntry QBarSet [TypeM QTCORE_QOBJECT] [QObject_ptr, ''QString, QObject*''],
     ClassEntry ''QCategory3DAxis'' [TypeM QTCORE_QOBJECT] [QObject_ptr],
     ClassEntry QCustom3DItem [TypeM QTCORE_QOBJECT, ValueM QTGUI_QIMAGE, ValueM QTGUI_QQUATERNION, ValueM QTGUI_QVECTOR3D] [QObject_ptr, ''QString, QVector3D, QVector3D, QQuaternion, QImage, QObject*''],
     ClassEntry QCustom3DLabel [TypeM QTCORE_QOBJECT, ValueM QTGUI_QFONT, ValueM QTGUI_QQUATERNION, ValueM QTGUI_QVECTOR3D] [QObject_ptr, ''QString, QFont, QVector3D, QVector3D, QQuaternion, QObject*''],
     ClassEntry QCustom3DVolume [TypeM QTCORE_QOBJECT] [QObject_ptr],
     ClassEntry QDateTimeAxis [TypeM QTCORE_QOBJECT] [QObject_ptr],
     ClassEntry QGraphsTheme [TypeM QTCORE_QOBJECT] [QObject_ptr],
     ClassEntry QHeightMapSurfaceDataProxy [TypeM QTCORE_QOBJECT, ValueM QTGUI_QIMAGE] [QObject_ptr, ''QImage, QObject*'', ''QString, QObject*''],
     ClassEntry QItemModelBarDataProxy [TypeM QTCORE_QABSTRACTITEMMODEL, TypeM QTCORE_QOBJECT] [QObject_ptr, ''QAbstractItemModel*, QObject*'', ''QAbstractItemModel*, QString, QObject*'', ''QAbstractItemModel*, QString, QString, QString, QObject*'', ''QAbstractItemModel*, QString, QString, QString, QString, QObject*'', ''QAbstractItemModel*, QString, QString, QString, QStringList, QStringList, QObject*'', ''QAbstractItemModel*, QString, QString, QString, QString, QStringList, QStringList, QObject*''],
     ClassEntry QItemModelScatterDataProxy [TypeM QTCORE_QABSTRACTITEMMODEL, TypeM QTCORE_QOBJECT] [QObject_ptr, ''QAbstractItemModel*, QObject*'', ''QAbstractItemModel*, QString, QString, QString, QObject*'', ''QAbstractItemModel*, QString, QString, QString, QString, QObject*''],
     ClassEntry QItemModelSurfaceDataProxy [TypeM QTCORE_QABSTRACTITEMMODEL, TypeM QTCORE_QOBJECT] [QObject_ptr, ''QAbstractItemModel*, QObject*'', ''QAbstractItemModel*, QString, QObject*'', ''QAbstractItemModel*, QString, QString, QString, QObject*'', ''QAbstractItemModel*, QString, QString, QString, QString, QString, QObject*'', ''QAbstractItemModel*, QString, QString, QString, QStringList, QStringList, QObject*'', ''QAbstractItemModel*, QString, QString, QString, QString, QString, QStringList, QStringList, QObject*''],
     ClassEntry ''QLineSeries'' [TypeM QTCORE_QOBJECT] [QObject_ptr],
     ClassEntry QLogValue3DAxisFormatter [TypeM QTCORE_QOBJECT] [QObject_ptr],
     ClassEntry QPieModelMapper [TypeM QTCORE_QOBJECT] [QObject_ptr],
     ClassEntry QPieSeries [TypeM QTCORE_QOBJECT] [QObject_ptr],
     ClassEntry QPieSlice [TypeM QTCORE_QOBJECT] [QObject_ptr, ''QString, qreal, QObject*''],
     ClassEntry QScatter3DSeries [TypeM QTCORE_QOBJECT, TypeM ''QTGRAPHS_QSCATTERDATAPROXY''] [QObject_ptr, ''QScatterDataProxy*, QObject*'']]"

definition ctor_qtgraphs_1_0 :: "ctor_block list" where
  "ctor_qtgraphs_1_0 = [
     CtorBlock ''QScatterDataProxy'' 0 [
       Overload [TypeM QTCORE_QOBJECT] [] None],
     CtorBlock QScatterSeries 0 [
       Overload [TypeM QTCORE_QOBJECT] [] None],
     CtorBlock ''QSplineSeries'' 0 [
       Overload [TypeM QTCORE_QOBJECT] [] None],
     CtorBlock QSurface3DSeries 0 [
       Overload [TypeM QTCORE_QOBJECT] [] None],
     CtorBlock QSurface3DSeries 1 [
       Overload [TypeM QTCORE_QOBJECT, TypeM ''QTGRAPHS_QSURFACEDATAPROXY''] [PNonNull ''QSurfaceDataProxy*''] None]]"

definition ctor_qtgraphs_1_1 :: "ctor_block list" where
  "ctor_qtgraphs_1_1 = [
     CtorBlock QSurfaceDataProxy 0 [
       Overload [TypeM QTCORE_QOBJECT] [] None],
     CtorBlock QValue3DAxis 0 [
       Overload [TypeM QTCORE_QOBJECT] [] None],
     CtorBlock ''QValue3DAxisFormatter'' 0 [
       Overload [TypeM QTCORE_QOBJECT] [] None],
     CtorBlock QValueAxis 0 [
       Overload [TypeM QTCORE_QOBJECT] [] None],
     CtorBlock ''QXYModelMapper'' 0 [
       Overload [TypeM QTCORE_QOBJECT] [] None]]"

definition ctor_classes_qtgraphs_1 :: "class_entry list" where
  "ctor_classes_qtgraphs_1 = [
     ClassEntry ''QScatterDataProxy'' [TypeM QTCORE_QOBJECT] [QObject_ptr],
     ClassEntry QScatterSeries [TypeM QTCORE_QOBJECT] [QObject_ptr],
     ClassEntry ''QSplineSeries'' [TypeM QTCORE_QOBJECT] [QObject_ptr],
     ClassEntry QSurface3DSeries [TypeM QTCORE_QOBJECT, TypeM ''QTGRAPHS_QSURFACEDATAPROXY''] [QObject_ptr, ''QSurfaceDataProxy*, QObject*''],
     ClassEntry QSurfaceDataProxy [TypeM QTCORE_QOBJECT] [QObject_ptr],
     ClassEntry QValue3DAxis [TypeM QTCORE_QOBJECT] [QObject_ptr],
     ClassEntry ''QValue3DAxisFormatter'' [TypeM QTCORE_QOBJECT] [QObject_ptr],
     ClassEntry QValueAxis [TypeM QTCORE_QOBJECT] [QObject_ptr],
     ClassEntry ''QXYModelMapper'' [TypeM QTCORE_QOBJECT] [QObject_ptr]]"

definition ctor_qtgraphswidgets_0_0 :: "ctor_block list" where
  "ctor_qtgraphswidgets_0_0 = [
     CtorBlock ''Q3DBarsWidgetItem'' 0 [
       Overload [TypeM QTCORE_QOBJECT] [] None],
     CtorBlock ''Q3DScatterWidgetItem'' 0 [
       Overload [TypeM QTCORE_QOBJECT] [] None],
     CtorBlock ''Q3DSurfaceWidgetItem'' 0 [
       Overload [TypeM QTCORE_QOBJECT] [] None]]"

definition ctor_classes_qtgraphswidgets_0 :: "class_entry list" where
  "ctor_classes_qtgraphswidgets_0 = [
     ClassEntry ''Q3DBarsWidgetItem'' [TypeM QTCORE_QOBJECT] [QObject_ptr],
     ClassEntry ''Q3DScatterWidgetItem'' [TypeM QTCORE_QOBJECT] [QObject_ptr],
     ClassEntry ''Q3DSurfaceWidgetItem'' [TypeM QTCORE_QOBJECT] [QObject_ptr]]"

definition ctor_qtgui_0_0 :: "ctor_block list" where
  "ctor_qtgui_0_0 = [
     CtorBlock QAbstractTextDocumentLayout 1 [
       Overload [TypeM QTGUI_QTEXTDOCUMENT] [PNonNull QTextDocument_ptr] None],
     CtorBlock ''QAccessibilityHints'' 0 [
       Overload [TypeM QTCORE_QOBJECT] [] None],
     CtorBlock QAction 0 [
       Overload [TypeM QTCORE_QOBJECT] [] None],
     CtorBlock QAction 1 [
       Overload [TypeM QTCORE_QOBJECT] [PString False] None],
     CtorBlock QAction 2 [
       Overload [TypeM QTCORE_QOBJECT, ValueM QTGUI_QICON] [PConv QIcon, PString False] None]]"

definition ctor_qtgui_0_1 :: "ctor_block list" where
  "ctor_qtgui_0_1 = [
     CtorBlock ''QActionGroup'' 0 [
       Overload [TypeM QTCORE_QOBJECT] [] (Some (0, QObject))],
     CtorBlock ''QDoubleValidator'' 0 [
       Overload [TypeM QTCORE_QOBJECT] [] None],
     CtorBlock ''QDoubleValidator'' 3 [
       Overload [TypeM QTCORE_QOBJECT] [PReal ''double'', PReal ''double'', PInt] None],
     CtorBlock ''QDrag'' 1 [
       Overload [TypeM QTCORE_QOBJECT] [PNonNull QObject_ptr] None],
     CtorBlock QFileSystemModel 0 [
       Overload [TypeM QTCORE_QOBJECT] [] None]]"

definition ctor_qtgui_0_2 :: "ctor_block list" where
  "ctor_qtgui_0_2 = [
     CtorBlock ''QInputDevice'' 0 [
       Overload [TypeM QTCORE_QOBJECT] [] None],
     CtorBlock ''QInputDevice'' 3 [
       Overload [TypeM QTCORE_QOBJECT, TypeM QTGUI_QINPUTDEVICE] [PString False, PWide ''qint64'', PConv ''QInputDevice::DeviceType''] None],
     CtorBlock ''QInputDevice'' 4 [
       Overload [TypeM QTCORE_QOBJECT, TypeM QTGUI_QINPUTDEVICE] [PString False, PWide ''qint64'', PConv ''QInputDevice::DeviceType'', PString False] None],
     CtorBlock ''QIntValidator'' 0 [
       Overload [TypeM QTCORE_QOBJECT] [] None]]"

definition ctor_qtgui_0_3 :: "ctor_block list" where
  "ctor_qtgui_0_3 = [
     CtorBlock ''QIntValidator'' 2 [
       Overload [TypeM QTCORE_QOBJECT] [PInt, PInt] None],
     CtorBlock ''QMovie'' 0 [
       Overload [TypeM QTCORE_QOBJECT] [] None],
     CtorBlock ''QMovie'' 1 [
       Overload [TypeM QTCORE_QIODEVICE, TypeM QTCORE_QOBJECT, ValueM QTCORE_QBYTEARRAY] [PNonNull QIODevice_ptr] None,
       Overload [TypeM QTCORE_QOBJECT, ValueM QTCORE_QBYTEARRAY] [PString False] None]]"

definition ctor_qtgui_0_4 :: "ctor_block list" where
  "ctor_qtgui_0_4 = [
     CtorBlock ''QMovie'' 2 [
       Overload [TypeM QTCORE_QIODEVICE, TypeM QTCORE_QOBJECT, ValueM QTCORE_QBYTEARRAY] [PNonNull QIODevice_ptr, PConv QByteArray] None,
       Overload [TypeM QTCORE_QOBJECT, ValueM QTCORE_QBYTEARRAY] [PString False, PConv QByteArray] None],
     CtorBlock ''QOffscreenSurface'' 0 [
       Overload [TypeM QTCORE_QOBJECT, TypeM QTGUI_QSCREEN] [] None],
     CtorBlock ''QOffscreenSurface'' 1 [
       Overload [TypeM QTCORE_QOBJECT, TypeM QTGUI_QSCREEN] [PNonNull ''QScreen*''] None],
     CtorBlock QOpenGLContext 0 [
       Overload [TypeM QTCORE_QOBJECT] [] None]]"

definition ctor_qtgui_0_5 :: "ctor_block list" where
  "ctor_qtgui_0_5 = [
     CtorBlock ''QPdfWriter'' 1 [
       Overload [] [PString False] None,
       Overload [TypeM QTCORE_QIODEVICE] [PNonNull QIODevice_ptr] None],
     CtorBlock ''QPointingDevice'' 0 [
       Overload [TypeM QTCORE_QOBJECT] [] None],
     CtorBlock ''QPointingDevice'' 7 [
       Overload [TypeM QTCORE_QOBJECT, TypeM QTGUI_QINPUTDEVICE, TypeM QTGUI_QPOINTINGDEVICE, ValueM ''QTGUI_QPOINTINGDEVICEUNIQUEID''] [PString False, PWide ''qint64'', PConv ''QInputDevice::DeviceType'', PConv ''QPointingDevice::PointerType'', PConv ''QInputDevice::Capabilities'', PInt, PInt] None]]"

definition ctor_qtgui_0_6 :: "ctor_block list" where
  "ctor_qtgui_0_6 = [
     CtorBlock ''QPointingDevice'' 8 [
       Overload [TypeM QTCORE_QOBJECT, TypeM QTGUI_QINPUTDEVICE, TypeM QTGUI_QPOINTINGDEVICE, ValueM ''QTGUI_QPOINTINGDEVICEUNIQUEID''] [PString False, PWide ''qint64'', PConv ''QInputDevice::DeviceType'', PConv ''QPointingDevice::PointerType'', PConv ''QInputDevice::Capabilities'', PInt, PInt, PString False] None],
     CtorBlock ''QPointingDevice'' 9 [
       Overload [TypeM QTCORE_QOBJECT, TypeM QTGUI_QINPUTDEVICE, TypeM QTGUI_QPOINTINGDEVICE, ValueM ''QTGUI_QPOINTINGDEVICEUNIQUEID''] [PString False, PWide ''qint64'', PConv ''QInputDevice::DeviceType'', PConv ''QPointingDevice::PointerType'', PConv ''QInputDevice::Capabilities'', PInt, PInt, PString False, PConv QPointingDeviceUniqueId] None],
     CtorBlock ''QRasterWindow'' 0 [
       Overload [TypeM QTGUI_QWINDOW] [] None]]"

definition ctor_qtgui_0_7 :: "ctor_block list" where
  "ctor_qtgui_0_7 = [
     CtorBlock ''QRegularExpressionValidator'' 0 [
       Overload [TypeM QTCORE_QOBJECT] [] None],
     CtorBlock ''QRegularExpressionValidator'' 1 [
       Overload [TypeM QTCORE_QOBJECT, ValueM QTCORE_QREGULAREXPRESSION] [PConv QRegularExpression] None],
     CtorBlock ''QShortcut'' 0 [
       Overload [TypeM QTCORE_QOBJECT] [] (Some (0, QObject))],
     CtorBlock QStandardItemModel 0 [
       Overload [TypeM QTCORE_QOBJECT] [] None],
     CtorBlock QStandardItemModel 2 [
       Overload [TypeM QTCORE_QOBJECT] [PInt, PInt] None]]"

definition ctor_qtgui_0_8 :: "ctor_block list" where
  "ctor_qtgui_0_8 = [
     CtorBlock ''QSyntaxHighlighter'' 0 [
       Overload [TypeM QTGUI_QTEXTDOCUMENT] [] (Some (0, QTextDocument)),
       Overload [TypeM QTCORE_QOBJECT] [] (Some (0, QObject))],
     CtorBlock QTextDocument 0 [
       Overload [TypeM QTCORE_QOBJECT] [] None],
     CtorBlock QTextDocument 1 [
       Overload [TypeM QTCORE_QOBJECT] [PString False] None],
     CtorBlock ''QTextFrame'' 1 [
       Overload [TypeM QTGUI_QTEXTDOCUMENT] [PNonNull QTextDocument_ptr] None]]"

definition ctor_qtgui_0_9 :: "ctor_block list" where
  "ctor_qtgui_0_9 = [
     CtorBlock ''QTextList'' 1 [
       Overload [TypeM QTGUI_QTEXTDOCUMENT] [PNonNull QTextDocument_ptr] None],
     CtorBlock ''QTextTable'' 1 [
       Overload [TypeM QTGUI_QTEXTDOCUMENT] [PNonNull QTextDocument_ptr] None],
     CtorBlock ''QUndoGroup'' 0 [
       Overload [TypeM QTCORE_QOBJECT] [] None]]"

definition ctor_classes_qtgui_0 :: "class_entry list" where
  "ctor_classes_qtgui_0 = [
     ClassEntry QAbstractTextDocumentLayout [TypeM QTGUI_QTEXTDOCUMENT] [QTextDocument_ptr],
     ClassEntry ''QAccessibilityHints'' [TypeM QTCORE_QOBJECT] [QObject_ptr],
     ClassEntry QAction [TypeM QTCORE_QOBJECT, ValueM QTGUI_QICON] [QObject_ptr, ''QString, QObject*'', ''QIcon, QString, QObject*''],
     ClassEntry ''QActionGroup'' [TypeM QTCORE_QOBJECT] [QObject_ptr],
     ClassEntry ''QDoubleValidator'' [TypeM QTCORE_QOBJECT] [QObject_ptr, ''double, double, int, QObject*''],
     ClassEntry ''QDrag'' [TypeM QTCORE_QOBJECT] [QObject_ptr],
     ClassEntry QFileSystemModel [TypeM QTCORE_QOBJECT] [QObject_ptr],
     ClassEntry ''QInputDevice'' [TypeM QTCORE_QOBJECT, TypeM QTGUI_QINPUTDEVICE] [''QString, qint64, QInputDevice::DeviceType, QString, QObject*'', QObject_ptr],
     ClassEntry ''QIntValidator'' [TypeM QTCORE_QOBJECT] [QObject_ptr, ''int, int, QObject*''],
     ClassEntry ''QMovie'' [TypeM QTCORE_QIODEVICE, TypeM QTCORE_QOBJECT, ValueM QTCORE_QBYTEARRAY] [QObject_ptr, ''QIODevice*, QByteArray, QObject*'', ''QString, QByteArray, QObject*''],
     ClassEntry ''QOffscreenSurface'' [TypeM QTCORE_QOBJECT, TypeM QTGUI_QSCREEN] [''QScreen*, QObject*''],
     ClassEntry QOpenGLContext [TypeM QTCORE_QOBJECT] [QObject_ptr],
     ClassEntry ''QPdfWriter'' [TypeM QTCORE_QIODEVICE] [QString, QIODevice_ptr],
     ClassEntry ''QPointingDevice'' [TypeM QTCORE_QOBJECT, TypeM QTGUI_QINPUTDEVICE, TypeM QTGUI_QPOINTINGDEVICE, ValueM ''QTGUI_QPOINTINGDEVICEUNIQUEID''] [''QString, qint64, QInputDevice::DeviceType, QPointingDevice::PointerType, QInputDevice::Capabilities, int, int, QString, QPointingDeviceUniqueId, QObject*'', QObject_ptr],
     ClassEntry ''QRasterWindow'' [TypeM QTGUI_QWINDOW] [''QWindow*''],
     ClassEntry ''QRegularExpressionValidator'' [TypeM QTCORE_QOBJECT, ValueM QTCORE_QREGULAREXPRESSION] [QObject_ptr, ''QRegularExpression, QObject*''],
     ClassEntry ''QShortcut'' [TypeM QTCORE_QOBJECT] [QObject_ptr],
     ClassEntry QStandardItemModel [TypeM QTCORE_QOBJECT] [QObject_ptr, ''int, int, QObject*''],
     ClassEntry ''QSyntaxHighlighter'' [TypeM QTCORE_QOBJECT, TypeM QTGUI_QTEXTDOCUMENT] [QTextDocument_ptr, QObject_ptr],
     ClassEntry QTextDocument [TypeM QTCORE_QOBJECT] [QObject_ptr, ''QString, QObject*''],
     ClassEntry ''QTextFrame'' [TypeM QTGUI_QTEXTDOCUMENT] [QTextDocument_ptr],
     ClassEntry ''QTextList'' [TypeM QTGUI_QTEXTDOCUMENT] [QTextDocument_ptr],
     ClassEntry ''QTextTable'' [TypeM QTGUI_QTEXTDOCUMENT] [QTextDocument_ptr],
     ClassEntry ''QUndoGroup'' [TypeM QTCORE_QOBJECT] [QObject_ptr]]"

definition ctor_qtgui_1_0 :: "ctor_block list" where
  "ctor_qtgui_1_0 = [
     CtorBlock QUndoStack 0 [
       Overload [TypeM QTCORE_QOBJECT] [] None],
     CtorBlock ''QValidator'' 0 [
       Overload [TypeM QTCORE_QOBJECT] [] None],
     CtorBlock QWindow 0 [
       Overload [TypeM QTGUI_QSCREEN] [] None,
       Overload [TypeM QTGUI_QWINDOW] [] (Some (0, QWindow))],
     CtorBlock QWindow 1 [
       Overload [TypeM QTGUI_QSCREEN] [PNonNull ''QScreen*''] None]]"

definition ctor_classes_qtgui_1 :: "class_entry list" where
  "ctor_classes_qtgui_1 = [
     ClassEntry QUndoStack [TypeM QTCORE_QOBJECT] [QObject_ptr],
     ClassEntry ''QValidator'' [TypeM QTCORE_QOBJECT] [QObject_ptr],
     ClassEntry QWindow [TypeM QTGUI_QSCREEN, TypeM QTGUI_QWINDOW] [''QScreen*'', ''QWindow*'']]"

definition ctor_qthelp_0_0 :: "ctor_block list" where
  "ctor_qthelp_0_0 = [
     CtorBlock ''QHelpEngine'' 1 [
       Overload [TypeM QTCORE_QOBJECT] [PString False] None],
     CtorBlock QHelpEngineCore 1 [
       Overload [TypeM QTCORE_QOBJECT] [PString False] None],
     CtorBlock ''QHelpFilterSettingsWidget'' 0 [
       Overload [TypeM QTWIDGETS_QWIDGET] [] None],
     CtorBlock ''QHelpSearchEngine'' 1 [
       Overload [TypeM QTCORE_QOBJECT, TypeM ''QTHELP_QHELPENGINECORE''] [PNonNull ''QHelpEngineCore*''] None],
     CtorBlock ''QHelpSearchEngineCore'' 1 [
       Overload [TypeM QTCORE_QOBJECT, TypeM ''QTHELP_QHELPENGINECORE''] [PNonNull ''QHelpEngineCore*''] None]]"

definition ctor_qthelp_0_1 :: "ctor_block list" where
  "ctor_qthelp_0_1 = [
     CtorBlock ''QHelpSearchQueryWidget'' 0 [
       Overload [TypeM QTWIDGETS_QWIDGET] [] None]]"

definition ctor_classes_qthelp_0 :: "class_entry list" where
  "ctor_classes_qthelp_0 = [
     ClassEntry ''QHelpEngine'' [TypeM QTCORE_QOBJECT] [''QString, QObject*''],
     ClassEntry QHelpEngineCore [TypeM QTCORE_QOBJECT] [''QString, QObject*''],
     ClassEntry ''QHelpFilterSettingsWidget'' [TypeM QTWIDGETS_QWIDGET] [QWidget_ptr],
     ClassEntry ''QHelpSearchEngine'' [TypeM QTCORE_QOBJECT, TypeM ''QTHELP_QHELPENGINECORE''] [''QHelpEngineCore*, QObject*''],
     ClassEntry ''QHelpSearchEngineCore'' [TypeM QTCORE_QOBJECT, TypeM ''QTHELP_QHELPENGINECORE''] [''QHelpEngineCore*, QObject*''],
     ClassEntry ''QHelpSearchQueryWidget'' [TypeM QTWIDGETS_QWIDGET] [QWidget_ptr]]"

definition ctor_qtmultimedia_0_0 :: "ctor_block list" where
  "ctor_qtmultimedia_0_0 = [
     CtorBlock ''QAudioBufferInput'' 0 [
       Overload [TypeM QTCORE_QOBJECT] [] None],
     CtorBlock ''QAudioBufferInput'' 1 [
       Overload [TypeM QTCORE_QOBJECT, ValueM QTMULTIMEDIA_QAUDIOFORMAT] [PConv QAudioFormat] None],
     CtorBlock ''QAudioBufferOutput'' 0 [
       Overload [TypeM QTCORE_QOBJECT] [] None],
     CtorBlock ''QAudioBufferOutput'' 1 [
       Overload [TypeM QTCORE_QOBJECT, ValueM QTMULTIMEDIA_QAUDIOFORMAT] [PConv QAudioFormat] None],
     CtorBlock QAudioDecoder 0 [
       Overload [TypeM QTCORE_QOBJECT] [] None]]"

definition ctor_qtmultimedia_0_1 :: "ctor_block list" where
  "ctor_qtmultimedia_0_1 = [
     CtorBlock ''QAudioInput'' 0 [
       Overload [TypeM QTCORE_QOBJECT] [] None],
     CtorBlock ''QAudioInput'' 1 [
       Overload [TypeM QTCORE_QOBJECT, ValueM QTMULTIMEDIA_QAUDIODEVICE] [PConv QAudioDevice] None],
     CtorBlock ''QAudioOutput'' 0 [
       Overload [TypeM QTCORE_QOBJECT] [] None],
     CtorBlock ''QAudioOutput'' 1 [
       Overload [TypeM QTCORE_QOBJECT, ValueM QTMULTIMEDIA_QAUDIODEVICE] [PConv QAudioDevice] None],
     CtorBlock ''QAudioSink'' 0 [
       Overload [TypeM QTCORE_QOBJECT, ValueM QTMULTIMEDIA_QAUDIOFORMAT] [] None]]"

definition ctor_qtmultimedia_0_2 :: "ctor_block list" where
  "ctor_qtmultimedia_0_2 = [
     CtorBlock ''QAudioSink'' 1 [
       Overload [TypeM QTCORE_QOBJECT, ValueM QTMULTIMEDIA_QAUDIODEVICE, ValueM QTMULTIMEDIA_QAUDIOFORMAT] [PConv QAudioDevice] None,
       Overload [TypeM QTCORE_QOBJECT, ValueM QTMULTIMEDIA_QAUDIOFORMAT] [PConv QAudioFormat] None],
     CtorBlock ''QAudioSink'' 2 [
       Overload [TypeM QTCORE_QOBJECT, ValueM QTMULTIMEDIA_QAUDIODEVICE, ValueM QTMULTIMEDIA_QAUDIOFORMAT] [PConv QAudioDevice, PConv QAudioFormat] None],
     CtorBlock QAudioSource 0 [
       Overload [TypeM QTCORE_QOBJECT, ValueM QTMULTIMEDIA_QAUDIOFORMAT] [] None]]"

definition ctor_qtmultimedia_0_3 :: "ctor_block list" where
  "ctor_qtmultimedia_0_3 = [
     CtorBlock QAudioSource 1 [
       Overload [TypeM QTCORE_QOBJECT, ValueM QTMULTIMEDIA_QAUDIODEVICE, ValueM QTMULTIMEDIA_QAUDIOFORMAT] [PConv QAudioDevice] None,
       Overload [TypeM QTCORE_QOBJECT, ValueM QTMULTIMEDIA_QAUDIOFORMAT] [PConv QAudioFormat] None],
     CtorBlock QAudioSource 2 [
       Overload [TypeM QTCORE_QOBJECT, ValueM QTMULTIMEDIA_QAUDIODEVICE, ValueM QTMULTIMEDIA_QAUDIOFORMAT] [PConv QAudioDevice, PConv QAudioFormat] None],
     CtorBlock QCamera 0 [
       Overload [TypeM QTCORE_QOBJECT] [] None]]"

definition ctor_qtmultimedia_0_4 :: "ctor_block list" where
  "ctor_qtmultimedia_0_4 = [
     CtorBlock QCamera 1 [
       Overload [TypeM QTCORE_QOBJECT, ValueM QTMULTIMEDIA_QCAMERADEVICE] [PConv QCameraDevice] None,
       Overload [TypeM QTCORE_QOBJECT, TypeM QTMULTIMEDIA_QCAMERADEVICE] [PConv ''QCameraDevice::Position''] None],
     CtorBlock QImageCapture 0 [
       Overload [TypeM QTCORE_QOBJECT] [] None],
     CtorBlock QMediaCaptureSession 0 [
       Overload [TypeM QTCORE_QOBJECT] [] None],
     CtorBlock ''QMediaDevices'' 0 [
       Overload [TypeM QTCORE_QOBJECT] [] None]]"

definition ctor_qtmultimedia_0_5 :: "ctor_block list" where
  "ctor_qtmultimedia_0_5 = [
     CtorBlock QMediaPlayer 0 [
       Overload [TypeM QTCORE_QOBJECT] [] None],
     CtorBlock QMediaRecorder 0 [
       Overload [TypeM QTCORE_QOBJECT] [] None],
     CtorBlock ''QScreenCapture'' 0 [
       Overload [TypeM QTCORE_QOBJECT] [] None],
     CtorBlock QSoundEffect 0 [
       Overload [TypeM QTCORE_QOBJECT] [] None],
     CtorBlock QSoundEffect 1 [
       Overload [TypeM QTCORE_QOBJECT, ValueM QTMULTIMEDIA_QAUDIODEVICE] [PConv QAudioDevice] None]]"

definition ctor_qtmultimedia_0_6 :: "ctor_block list" where
  "ctor_qtmultimedia_0_6 = [
     CtorBlock ''QVideoFrameInput'' 0 [
       Overload [TypeM QTCORE_QOBJECT] [] None],
     CtorBlock ''QVideoFrameInput'' 1 [
       Overload [TypeM QTCORE_QOBJECT, ValueM QTMULTIMEDIA_QVIDEOFRAMEFORMAT] [PConv QVideoFrameFormat] None],
     CtorBlock ''QVideoSink'' 0 [
       Overload [TypeM QTCORE_QOBJECT] [] None],
     CtorBlock ''QWindowCapture'' 0 [
       Overload [TypeM QTCORE_QOBJECT] [] None]]"

definition ctor_classes_qtmultimedia_0 :: "class_entry list" where
  "ctor_classes_qtmultimedia_0 = [
     ClassEntry ''QAudioBufferInput'' [TypeM QTCORE_QOBJECT, ValueM QTMULTIMEDIA_QAUDIOFORMAT] [QObject_ptr, ''QAudioFormat, QObject*''],
     ClassEntry ''QAudioBufferOutput'' [TypeM QTCORE_QOBJECT, ValueM QTMULTIMEDIA_QAUDIOFORMAT] [QObject_ptr, ''QAudioFormat, QObject*''],
     ClassEntry QAudioDecoder [TypeM QTCORE_QOBJECT] [QObject_ptr],
     ClassEntry ''QAudioInput'' [TypeM QTCORE_QOBJECT, ValueM QTMULTIMEDIA_QAUDIODEVICE] [''QAudioDevice, QObject*'', QObject_ptr],
     ClassEntry ''QAudioOutput'' [TypeM QTCORE_QOBJECT, ValueM QTMULTIMEDIA_QAUDIODEVICE] [''QAudioDevice, QObject*'', QObject_ptr],
     ClassEntry ''QAudioSink'' [TypeM QTCORE_QOBJECT, ValueM QTMULTIMEDIA_QAUDIODEVICE, ValueM QTMULTIMEDIA_QAUDIOFORMAT] [''QAudioDevice, QAudioFormat, QObject*'', ''QAudioFormat, QObject*''],
     ClassEntry QAudioSource [TypeM QTCORE_QOBJECT, ValueM QTMULTIMEDIA_QAUDIODEVICE, ValueM QTMULTIMEDIA_QAUDIOFORMAT] [''QAudioDevice, QAudioFormat, QObject*'', ''QAudioFormat, QObject*''],
     ClassEntry QCamera [TypeM QTCORE_QOBJECT, TypeM QTMULTIMEDIA_QCAMERADEVICE, ValueM QTMULTIMEDIA_QCAMERADEVICE] [''QCameraDevice, QObject*'', ''QCameraDevice::Position, QObject*'', QObject_ptr],
     ClassEntry QImageCapture [TypeM QTCORE_QOBJECT] [QObject_ptr],
     ClassEntry QMediaCaptureSession [TypeM QTCORE_QOBJECT] [QObject_ptr],
     ClassEntry ''QMediaDevices'' [TypeM QTCORE_QOBJECT] [QObject_ptr],
     ClassEntry QMediaPlayer [TypeM QTCORE_QOBJECT] [QObject_ptr],
     ClassEntry QMediaRecorder [TypeM QTCORE_QOBJECT] [QObject_ptr],
     ClassEntry ''QScreenCapture'' [TypeM QTCORE_QOBJECT] [QObject_ptr],
     ClassEntry QSoundEffect [TypeM QTCORE_QOBJECT, ValueM QTMULTIMEDIA_QAUDIODEVICE] [''QAudioDevice, QObject*'', QObject_ptr],
     ClassEntry ''QVideoFrameInput'' [TypeM QTCORE_QOBJECT, ValueM QTMULTIMEDIA_QVIDEOFRAMEFORMAT] [QObject_ptr, ''QVideoFrameFormat, QObject*''],
     ClassEntry ''QVideoSink'' [TypeM QTCORE_QOBJECT] [QObject_ptr],
     ClassEntry ''QWindowCapture'' [TypeM QTCORE_QOBJECT] [QObject_ptr]]"

definition ctor_qtmultimediawidgets_0_0 :: "ctor_block list" where
  "ctor_qtmultimediawidgets_0_0 = [
     CtorBlock ''QVideoWidget'' 0 [
       Overload [TypeM QTWIDGETS_QWIDGET] [] None]]"

definition ctor_classes_qtmultimediawidgets_0 :: "class_entry list" where
  "ctor_classes_qtmultimediawidgets_0 = [
     ClassEntry ''QVideoWidget'' [TypeM QTWIDGETS_QWIDGET] [QWidget_ptr]]"

definition ctor_table_a :: "(string \<times> ctor_shard) list" where
  "ctor_table_a = [
     (''qaxcontainer_0'', \<lparr>cs_module = ''QAxContainer'', cs_slug = ''QAXCONTAINER'',
        cs_blocks = concat [ctor_qaxcontainer_0_0, ctor_qaxcontainer_0_1],
        cs_classes = ctor_classes_qaxcontainer_0\<rparr>),
     (''qt3danimation_0'', \<lparr>cs_module = ''Qt3DAnimation'', cs_slug = ''QT3DANIMATION'',
        cs_blocks = concat [ctor_qt3danimation_0_0, ctor_qt3danimation_0_1, ctor_qt3danimation_0_2, ctor_qt3danimation_0_3],
        cs_classes = ctor_classes_qt3danimation_0\<rparr>),
     (''qt3dcore_0'', \<lparr>cs_module = ''Qt3DCore'', cs_slug = ''QT3DCORE'',
        cs_blocks = concat [ctor_qt3dcore_0_0, ctor_qt3dcore_0_1, ctor_qt3dcore_0_2, ctor_qt3dcore_0_3, ctor_qt3dcore_0_4],
        cs_classes = ctor_classes_qt3dcore_0\<rparr>),
     (''qt3dextras_0'', \<lparr>cs_module = ''Qt3DExtras'', cs_slug = ''QT3DEXTRAS'',
        cs_blocks = concat [ctor_qt3dextras_0_0, ctor_qt3dextras_0_1, ctor_qt3dextras_0_2, ctor_qt3dextras_0_3, ctor_qt3dextras_0_4],
        cs_classes = ctor_classes_qt3dextras_0\<rparr>),
     (''qt3dextras_1'', \<lparr>cs_module = ''Qt3DExtras'', cs_slug = ''QT3DEXTRAS'',
        cs_blocks = concat [ctor_qt3dextras_1_0, ctor_qt3dextras_1_1, ctor_qt3dextras_1_2, ctor_qt3dextras_1_3],
        cs_classes = ctor_classes_qt3dextras_1\<rparr>),
     (''qt3dinput_0'', \<lparr>cs_module = ''Qt3DInput'', cs_slug = ''QT3DINPUT'',
        cs_blocks = concat [ctor_qt3dinput_0_0, ctor_qt3dinput_0_1, ctor_qt3dinput_0_2, ctor_qt3dinput_0_3],
        cs_classes = ctor_classes_qt3dinput_0\<rparr>),
     (''qt3dlogic_0'', \<lparr>cs_module = ''Qt3DLogic'', cs_slug = ''QT3DLOGIC'',
        cs_blocks = concat [ctor_qt3dlogic_0_0],
        cs_classes = ctor_classes_qt3dlogic_0\<rparr>),
     (''qt3drender_0'', \<lparr>cs_module = ''Qt3DRender'', cs_slug = ''QT3DRENDER'',
        cs_blocks = concat [ctor_qt3drender_0_0, ctor_qt3drender_0_1, ctor_qt3drender_0_2, ctor_qt3drender_0_3, ctor_qt3drender_0_4],
        cs_classes = ctor_classes_qt3drender_0\<rparr>),
     (''qt3drender_1'', \<lparr>cs_module = ''Qt3DRender'', cs_slug = ''QT3DRENDER'',
        cs_blocks = concat [ctor_qt3drender_1_0, ctor_qt3drender_1_1, ctor_qt3drender_1_2, ctor_qt3drender_1_3, ctor_qt3drender_1_4, ctor_qt3drender_1_5, ctor_qt3drender_1_6, ctor_qt3drender_1_7],
        cs_classes = ctor_classes_qt3drender_1\<rparr>),
     (''qt3drender_2'', \<lparr>cs_module = ''Qt3DRender'', cs_slug = ''QT3DRENDER'',
        cs_blocks = concat [ctor_qt3drender_2_0, ctor_qt3drender_2_1, ctor_qt3drender_2_2, ctor_qt3drender_2_3, ctor_qt3drender_2_4],
        cs_classes = ctor_classes_qt3drender_2\<rparr>),
     (''qt3drender_3'', \<lparr>cs_module = ''Qt3DRender'', cs_slug = ''QT3DRENDER'',
        cs_blocks = concat [ctor_qt3drender_3_0, ctor_qt3drender_3_1, ctor_qt3drender_3_2, ctor_qt3drender_3_3, ctor_qt3drender_3_4],
        cs_classes = ctor_classes_qt3drender_3\<rparr>),
     (''qt3drender_4'', \<lparr>cs_module = ''Qt3DRender'', cs_slug = ''QT3DRENDER'',
        cs_blocks = concat [ctor_qt3drender_4_0, ctor_qt3drender_4_1],
        cs_classes = ctor_classes_qt3drender_4\<rparr>),
     (''qtbluetooth_0'', \<lparr>cs_module = ''QtBluetooth'', cs_slug = ''QTBLUETOOTH'',
        cs_blocks = concat [ctor_qtbluetooth_0_0, ctor_qtbluetooth_0_1],
        cs_classes = ctor_classes_qtbluetooth_0\<rparr>),
     (''qtcharts_0'', \<lparr>cs_module = ''QtCharts'', cs_slug = ''QTCHARTS'',
        cs_blocks = concat [ctor_qtcharts_0_0, ctor_qtcharts_0_1, ctor_qtcharts_0_2, ctor_qtcharts_0_3, ctor_qtcharts_0_4, ctor_qtcharts_0_5, ctor_qtcharts_0_6],
        cs_classes = ctor_classes_qtcharts_0\<rparr>),
     (''qtcharts_1'', \<lparr>cs_module = ''QtCharts'', cs_slug = ''QTCHARTS'',
        cs_blocks = concat [ctor_qtcharts_1_0, ctor_qtcharts_1_1, ctor_qtcharts_1_2, ctor_qtcharts_1_3],
        cs_classes = ctor_classes_qtcharts_1\<rparr>),
     (''qtcore_0'', \<lparr>cs_module = ''QtCore'', cs_slug = ''QTCORE'',
        cs_blocks = concat [ctor_qtcore_0_0, ctor_qtcore_0_1, ctor_qtcore_0_2, ctor_qtcore_0_3, ctor_qtcore_0_4, ctor_qtcore_0_5, ctor_qtcore_0_6, ctor_qtcore_0_7],
        cs_classes = ctor_classes_qtcore_0\<rparr>),
     (''qtcore_1'', \<lparr>cs_module = ''QtCore'', cs_slug = ''QTCORE'',
        cs_blocks = concat [ctor_qtcore_1_0, ctor_qtcore_1_1, ctor_qtcore_1_2, ctor_qtcore_1_3, ctor_qtcore_1_4, ctor_qtcore_1_5, ctor_qtcore_1_6, ctor_qtcore_1_7],
        cs_classes = ctor_classes_qtcore_1\<rparr>),
     (''qtdatavisualization_0'', \<lparr>cs_module = ''QtDataVisualization'', cs_slug = ''QTDATAVISUALIZATION'',
        cs_blocks = concat [ctor_qtdatavisualization_0_0, ctor_qtdatavisualization_0_1, ctor_qtdatavisualization_0_2, ctor_qtdatavisualization_0_3, ctor_qtdatavisualization_0_4, ctor_qtdatavisualization_0_5, ctor_qtdatavisualization_0_6, ctor_qtdatavisualization_0_7, ctor_qtdatavisualization_0_8, ctor_qtdatavisualization_0_9, ctor_qtdatavisualization_0_10],
        cs_classes = ctor_classes_qtdatavisualization_0\<rparr>),
     (''qtdbus_0'', \<lparr>cs_module = ''QtDBus'', cs_slug = ''QTDBUS'',
        cs_blocks = concat [ctor_qtdbus_0_0, ctor_qtdbus_0_1],
        cs_classes = ctor_classes_qtdbus_0\<rparr>),
     (''qtdesigner_0'', \<lparr>cs_module = ''QtDesigner'', cs_slug = ''QTDESIGNER'',
        cs_blocks = concat [ctor_qtdesigner_0_0, ctor_qtdesigner_0_1, ctor_qtdesigner_0_2, ctor_qtdesigner_0_3],
        cs_classes = ctor_classes_qtdesigner_0\<rparr>),
     (''qtgraphs_0'', \<lparr>cs_module = ''QtGraphs'', cs_slug = ''QTGRAPHS'',
        cs_blocks = concat [ctor_qtgraphs_0_0, ctor_qtgraphs_0_1, ctor_qtgraphs_0_2, ctor_qtgraphs_0_3, ctor_qtgraphs_0_4, ctor_qtgraphs_0_5, ctor_qtgraphs_0_6, ctor_qtgraphs_0_7, ctor_qtgraphs_0_8, ctor_qtgraphs_0_9, ctor_qtgraphs_0_10],
        cs_classes = ctor_classes_qtgraphs_0\<rparr>),
     (''qtgraphs_1'', \<lparr>cs_module = ''QtGraphs'', cs_slug = ''QTGRAPHS'',
        cs_blocks = concat [ctor_qtgraphs_1_0, ctor_qtgraphs_1_1],
        cs_classes = ctor_classes_qtgraphs_1\<rparr>),
     (''qtgraphswidgets_0'', \<lparr>cs_module = ''QtGraphsWidgets'', cs_slug = ''QTGRAPHSWIDGETS'',
        cs_blocks = concat [ctor_qtgraphswidgets_0_0],
        cs_classes = ctor_classes_qtgraphswidgets_0\<rparr>),
     (''qtgui_0'', \<lparr>cs_module = ''QtGui'', cs_slug = ''QTGUI'',
        cs_blocks = concat [ctor_qtgui_0_0, ctor_qtgui_0_1, ctor_qtgui_0_2, ctor_qtgui_0_3, ctor_qtgui_0_4, ctor_qtgui_0_5, ctor_qtgui_0_6, ctor_qtgui_0_7, ctor_qtgui_0_8, ctor_qtgui_0_9],
        cs_classes = ctor_classes_qtgui_0\<rparr>),
     (''qtgui_1'', \<lparr>cs_module = ''QtGui'', cs_slug = ''QTGUI'',
        cs_blocks = concat [ctor_qtgui_1_0],
        cs_classes = ctor_classes_qtgui_1\<rparr>),
     (''qthelp_0'', \<lparr>cs_module = ''QtHelp'', cs_slug = ''QTHELP'',
        cs_blocks = concat [ctor_qthelp_0_0, ctor_qthelp_0_1],
        cs_classes = ctor_classes_qthelp_0\<rparr>),
     (''qtmultimedia_0'', \<lparr>cs_module = ''QtMultimedia'', cs_slug = ''QTMULTIMEDIA'',
        cs_blocks = concat [ctor_qtmultimedia_0_0, ctor_qtmultimedia_0_1, ctor_qtmultimedia_0_2, ctor_qtmultimedia_0_3, ctor_qtmultimedia_0_4, ctor_qtmultimedia_0_5, ctor_qtmultimedia_0_6],
        cs_classes = ctor_classes_qtmultimedia_0\<rparr>),
     (''qtmultimediawidgets_0'', \<lparr>cs_module = ''QtMultimediaWidgets'', cs_slug = ''QTMULTIMEDIAWIDGETS'',
        cs_blocks = concat [ctor_qtmultimediawidgets_0_0],
        cs_classes = ctor_classes_qtmultimediawidgets_0\<rparr>)]"

lemmas ctor_table_a_defs =
  ctor_qaxcontainer_0_0_def ctor_qaxcontainer_0_1_def ctor_qt3danimation_0_0_def ctor_qt3danimation_0_1_def
  ctor_qt3danimation_0_2_def ctor_qt3danimation_0_3_def ctor_qt3dcore_0_0_def ctor_qt3dcore_0_1_def
  ctor_qt3dcore_0_2_def ctor_qt3dcore_0_3_def ctor_qt3dcore_0_4_def ctor_qt3dextras_0_0_def
  ctor_qt3dextras_0_1_def ctor_qt3dextras_0_2_def ctor_qt3dextras_0_3_def ctor_qt3dextras_0_4_def
  ctor_qt3dextras_1_0_def ctor_qt3dextras_1_1_def ctor_qt3dextras_1_2_def ctor_qt3dextras_1_3_def
  ctor_qt3dinput_0_0_def ctor_qt3dinput_0_1_def ctor_qt3dinput_0_2_def ctor_qt3dinput_0_3_def
  ctor_qt3dlogic_0_0_def ctor_qt3drender_0_0_def ctor_qt3drender_0_1_def ctor_qt3drender_0_2_def
  ctor_qt3drender_0_3_def ctor_qt3drender_0_4_def ctor_qt3drender_1_0_def ctor_qt3drender_1_1_def
  ctor_qt3drender_1_2_def ctor_qt3drender_1_3_def ctor_qt3drender_1_4_def ctor_qt3drender_1_5_def
  ctor_qt3drender_1_6_def ctor_qt3drender_1_7_def ctor_qt3drender_2_0_def ctor_qt3drender_2_1_def
  ctor_qt3drender_2_2_def ctor_qt3drender_2_3_def ctor_qt3drender_2_4_def ctor_qt3drender_3_0_def
  ctor_qt3drender_3_1_def ctor_qt3drender_3_2_def ctor_qt3drender_3_3_def ctor_qt3drender_3_4_def
  ctor_qt3drender_4_0_def ctor_qt3drender_4_1_def ctor_qtbluetooth_0_0_def ctor_qtbluetooth_0_1_def
  ctor_qtcharts_0_0_def ctor_qtcharts_0_1_def ctor_qtcharts_0_2_def ctor_qtcharts_0_3_def ctor_qtcharts_0_4_def
  ctor_qtcharts_0_5_def ctor_qtcharts_0_6_def ctor_qtcharts_1_0_def ctor_qtcharts_1_1_def ctor_qtcharts_1_2_def
  ctor_qtcharts_1_3_def ctor_qtcore_0_0_def ctor_qtcore_0_1_def ctor_qtcore_0_2_def ctor_qtcore_0_3_def
  ctor_qtcore_0_4_def ctor_qtcore_0_5_def ctor_qtcore_0_6_def ctor_qtcore_0_7_def ctor_qtcore_1_0_def
  ctor_qtcore_1_1_def ctor_qtcore_1_2_def ctor_qtcore_1_3_def ctor_qtcore_1_4_def ctor_qtcore_1_5_def
  ctor_qtcore_1_6_def ctor_qtcore_1_7_def ctor_qtdatavisualization_0_0_def ctor_qtdatavisualization_0_1_def
  ctor_qtdatavisualization_0_2_def ctor_qtdatavisualization_0_3_def ctor_qtdatavisualization_0_4_def
  ctor_qtdatavisualization_0_5_def ctor_qtdatavisualization_0_6_def ctor_qtdatavisualization_0_7_def
  ctor_qtdatavisualization_0_8_def ctor_qtdatavisualization_0_9_def ctor_qtdatavisualization_0_10_def
  ctor_qtdbus_0_0_def ctor_qtdbus_0_1_def ctor_qtdesigner_0_0_def ctor_qtdesigner_0_1_def
  ctor_qtdesigner_0_2_def ctor_qtdesigner_0_3_def ctor_qtgraphs_0_0_def ctor_qtgraphs_0_1_def
  ctor_qtgraphs_0_2_def ctor_qtgraphs_0_3_def ctor_qtgraphs_0_4_def ctor_qtgraphs_0_5_def ctor_qtgraphs_0_6_def
  ctor_qtgraphs_0_7_def ctor_qtgraphs_0_8_def ctor_qtgraphs_0_9_def ctor_qtgraphs_0_10_def ctor_qtgraphs_1_0_def
  ctor_qtgraphs_1_1_def ctor_qtgraphswidgets_0_0_def ctor_qtgui_0_0_def ctor_qtgui_0_1_def ctor_qtgui_0_2_def
  ctor_qtgui_0_3_def ctor_qtgui_0_4_def ctor_qtgui_0_5_def ctor_qtgui_0_6_def ctor_qtgui_0_7_def
  ctor_qtgui_0_8_def ctor_qtgui_0_9_def ctor_qtgui_1_0_def ctor_qthelp_0_0_def ctor_qthelp_0_1_def
  ctor_qtmultimedia_0_0_def ctor_qtmultimedia_0_1_def ctor_qtmultimedia_0_2_def ctor_qtmultimedia_0_3_def
  ctor_qtmultimedia_0_4_def ctor_qtmultimedia_0_5_def ctor_qtmultimedia_0_6_def ctor_qtmultimediawidgets_0_0_def

lemma ctor_table_a_fitting_shard: "list_all (\<lambda>(s, sh). fitting_shard sh) ctor_table_a"
  by (simp add: ctor_table_a_def ctor_table_a_defs fitting_shard_def)

end
