(* ===== verification/Constructors_B.thy ===== *)
theory Constructors_B
  imports Shard_Constructors Qt_Names
begin

text \<open>
  Tables of the object constructor shards (generated\_constructors): the blocks of every shard in the file's
  order, and the classes it lists.
\<close>

definition ctor_qtnetwork_0_0 :: "ctor_block list" where
  "ctor_qtnetwork_0_0 = [
     CtorBlock QAbstractSocket 1 [
       Overload [TypeM QTCORE_QOBJECT, TypeM QTNETWORK_QABSTRACTSOCKET] [PConv ''QAbstractSocket::SocketType''] (Some (1, QObject))],
     CtorBlock QDnsLookup 0 [
       Overload [TypeM QTCORE_QOBJECT] [] None],
     CtorBlock QDnsLookup 2 [
       Overload [TypeM QTCORE_QOBJECT, TypeM ''QTNETWORK_QDNSLOOKUP''] [PConv ''QDnsLookup::Type'', PString False] None],
     CtorBlock QDnsLookup 3 [
       Overload [TypeM QTCORE_QOBJECT, TypeM ''QTNETWORK_QDNSLOOKUP'', ValueM QTNETWORK_QHOSTADDRESS] [PConv ''QDnsLookup::Type'', PString False, PConv QHostAddress] None],
     CtorBlock ''QHttpMultiPart'' 0 [
       Overload [TypeM QTCORE_QOBJECT] [] None]]"

definition ctor_qtnetwork_0_1 :: "ctor_block list" where
  "ctor_qtnetwork_0_1 = [
     CtorBlock ''QHttpMultiPart'' 1 [
       Overload [TypeM QTCORE_QOBJECT, TypeM ''QTNETWORK_QHTTPMULTIPART''] [PConv ''QHttpMultiPart::ContentType''] None],
     CtorBlock ''QLocalServer'' 0 [
       Overload [TypeM QTCORE_QOBJECT] [] None],
     CtorBlock QLocalSocket 0 [
       Overload [TypeM QTCORE_QOBJECT] [] None],
     CtorBlock QNetworkAccessManager 0 [
       Overload [TypeM QTCORE_QOBJECT] [] None],
     CtorBlock ''QNetworkCookieJar'' 0 [
       Overload [TypeM QTCORE_QOBJECT] [] None]]"

definition ctor_qtnetwork_0_2 :: "ctor_block list" where
  "ctor_qtnetwork_0_2 = [
     CtorBlock QNetworkDiskCache 0 [
       Overload [TypeM QTCORE_QOBJECT] [] None],
     CtorBlock QRestAccessManager 1 [
       Overload [TypeM QTCORE_QOBJECT, TypeM QTNETWORK_QNETWORKACCESSMANAGER] [PNonNull ''QNetworkAccessManager*''] None],
     CtorBlock ''QSslServer'' 0 [
       Overload [TypeM QTCORE_QOBJECT] [] None],
     CtorBlock QSslSocket 0 [
       Overload [TypeM QTCORE_QOBJECT] [] None],
     CtorBlock ''QTcpServer'' 0 [
       Overload [TypeM QTCORE_QOBJECT] [] None]]"

definition ctor_qtnetwork_0_3 :: "ctor_block list" where
  "ctor_qtnetwork_0_3 = [
     CtorBlock ''QTcpSocket'' 0 [
       Overload [TypeM QTCORE_QOBJECT] [] None],
     CtorBlock ''QUdpSocket'' 0 [
       Overload [TypeM QTCORE_QOBJECT] [] None]]"

definition ctor_classes_qtnetwork_0 :: "class_entry list" where
  "ctor_classes_qtnetwork_0 = [
     ClassEntry QAbstractSocket [TypeM QTCORE_QOBJECT, TypeM QTNETWORK_QABSTRACTSOCKET] [''QAbstractSocket::SocketType, QObject*''],
     ClassEntry QDnsLookup [TypeM QTCORE_QOBJECT, TypeM ''QTNETWORK_QDNSLOOKUP'', ValueM QTNETWORK_QHOSTADDRESS] [QObject_ptr, ''QDnsLookup::Type, QString, QObject*'', ''QDnsLookup::Type, QString, QHostAddress, QObject*''],
     ClassEntry ''QHttpMultiPart'' [TypeM QTCORE_QOBJECT, TypeM ''QTNETWORK_QHTTPMULTIPART''] [QObject_ptr, ''QHttpMultiPart::ContentType, QObject*''],
     ClassEntry ''QLocalServer'' [TypeM QTCORE_QOBJECT] [QObject_ptr],
     ClassEntry QLocalSocket [TypeM QTCORE_QOBJECT] [QObject_ptr],
     ClassEntry QNetworkAccessManager [TypeM QTCORE_QOBJECT] [QObject_ptr],
     ClassEntry ''QNetworkCookieJar'' [TypeM QTCORE_QOBJECT] [QObject_ptr],
     ClassEntry QNetworkDiskCache [TypeM QTCORE_QOBJECT] [QObject_ptr],
     ClassEntry QRestAccessManager [TypeM QTCORE_QOBJECT, TypeM QTNETWORK_QNETWORKACCESSMANAGER] [''QNetworkAccessManager*, QObject*''],
     ClassEntry ''QSslServer'' [TypeM QTCORE_QOBJECT] [QObject_ptr],
     ClassEntry QSslSocket [TypeM QTCORE_QOBJECT] [QObject_ptr],
     ClassEntry ''QTcpServer'' [TypeM QTCORE_QOBJECT] [QObject_ptr],
     ClassEntry ''QTcpSocket'' [TypeM QTCORE_QOBJECT] [QObject_ptr],
     ClassEntry ''QUdpSocket'' [TypeM QTCORE_QOBJECT] [QObject_ptr]]"

definition ctor_qtnetworkauth_0_0 :: "ctor_block list" where
  "ctor_qtnetworkauth_0_0 = [
     CtorBlock QAbstractOAuth2 0 [
       Overload [TypeM QTCORE_QOBJECT] [] None],
     CtorBlock QAbstractOAuth2 1 [
       Overload [TypeM QTCORE_QOBJECT, TypeM QTNETWORK_QNETWORKACCESSMANAGER] [PNonNull ''QNetworkAccessManager*''] None],
     CtorBlock ''QAbstractOAuthReplyHandler'' 0 [
       Overload [TypeM QTCORE_QOBJECT] [] None],
     CtorBlock ''QOAuth1'' 0 [
       Overload [TypeM QTCORE_QOBJECT] [] None],
     CtorBlock ''QOAuth1'' 1 [
       Overload [TypeM QTCORE_QOBJECT, TypeM QTNETWORK_QNETWORKACCESSMANAGER] [PNonNull ''QNetworkAccessManager*''] None]]"

definition ctor_qtnetworkauth_0_1 :: "ctor_block list" where
  "ctor_qtnetworkauth_0_1 = [
     CtorBlock ''QOAuth1'' 3 [
       Overload [TypeM QTCORE_QOBJECT, TypeM QTNETWORK_QNETWORKACCESSMANAGER] [PString False, PString False, PNonNull ''QNetworkAccessManager*''] None],
     CtorBlock QOAuth2AuthorizationCodeFlow 0 [
       Overload [TypeM QTCORE_QOBJECT] [] None],
     CtorBlock QOAuth2AuthorizationCodeFlow 1 [
       Overload [TypeM QTCORE_QOBJECT, TypeM QTNETWORK_QNETWORKACCESSMANAGER] [PNonNull ''QNetworkAccessManager*''] None],
     CtorBlock QOAuth2AuthorizationCodeFlow 2 [
       Overload [TypeM QTCORE_QOBJECT, TypeM QTNETWORK_QNETWORKACCESSMANAGER] [PString False, PNonNull ''QNetworkAccessManager*''] None]]"

definition ctor_qtnetworkauth_0_2 :: "ctor_block list" where
  "ctor_qtnetworkauth_0_2 = [
     CtorBlock QOAuth2AuthorizationCodeFlow 3 [
       Overload [TypeM QTCORE_QOBJECT, TypeM QTNETWORK_QNETWORKACCESSMANAGER, ValueM QTCORE_QURL] [PConv QUrl, PConv QUrl, PNonNull ''QNetworkAccessManager*''] None],
     CtorBlock QOAuth2AuthorizationCodeFlow 4 [
       Overload [TypeM QTCORE_QOBJECT, TypeM QTNETWORK_QNETWORKACCESSMANAGER, ValueM QTCORE_QURL] [PString False, PConv QUrl, PConv QUrl, PNonNull ''QNetworkAccessManager*''] None],
     CtorBlock QOAuthHttpServerReplyHandler 0 [
       Overload [TypeM QTCORE_QOBJECT] [] None],
     CtorBlock ''QOAuthOobReplyHandler'' 0 [
       Overload [TypeM QTCORE_QOBJECT] [] None]]"

definition ctor_classes_qtnetworkauth_0 :: "class_entry list" where
  "ctor_classes_qtnetworkauth_0 = [
     ClassEntry QAbstractOAuth2 [TypeM QTCORE_QOBJECT, TypeM QTNETWORK_QNETWORKACCESSMANAGER] [QObject_ptr, ''QNetworkAccessManager*, QObject*''],
     ClassEntry ''QAbstractOAuthReplyHandler'' [TypeM QTCORE_QOBJECT] [QObject_ptr],
     ClassEntry ''QOAuth1'' [TypeM QTCORE_QOBJECT, TypeM QTNETWORK_QNETWORKACCESSMANAGER] [QObject_ptr, ''QNetworkAccessManager*, QObject*'', ''QString, QString, QNetworkAccessManager*, QObject*''],
     ClassEntry QOAuth2AuthorizationCodeFlow [TypeM QTCORE_QOBJECT, TypeM QTNETWORK_QNETWORKACCESSMANAGER, ValueM QTCORE_QURL] [QObject_ptr, ''QNetworkAccessManager*, QObject*'', ''QString, QNetworkAccessManager*, QObject*'', ''QUrl, QUrl, QNetworkAccessManager*, QObject*'', ''QString, QUrl, QUrl, QNetworkAccessManager*, QObject*''],
     ClassEntry QOAuthHttpServerReplyHandler [TypeM QTCORE_QOBJECT] [QObject_ptr],
     ClassEntry ''QOAuthOobReplyHandler'' [TypeM QTCORE_QOBJECT] [QObject_ptr]]"

definition ctor_qtnfc_0_0 :: "ctor_block list" where
  "ctor_qtnfc_0_0 = [
     CtorBlock ''QNearFieldManager'' 0 [
       Overload [TypeM QTCORE_QOBJECT] [] None],
     CtorBlock ''QNearFieldTarget'' 0 [
       Overload [TypeM QTCORE_QOBJECT] [] None]]"

definition ctor_classes_qtnfc_0 :: "class_entry list" where
  "ctor_classes_qtnfc_0 = [
     ClassEntry ''QNearFieldManager'' [TypeM QTCORE_QOBJECT] [QObject_ptr],
     ClassEntry ''QNearFieldTarget'' [TypeM QTCORE_QOBJECT] [QObject_ptr]]"

definition ctor_qtopengl_0_0 :: "ctor_block list" where
  "ctor_qtopengl_0_0 = [
     CtorBlock QOpenGLDebugLogger 0 [
       Overload [TypeM QTCORE_QOBJECT] [] None],
     CtorBlock ''QOpenGLShader'' 1 [
       Overload [TypeM QTCORE_QOBJECT, TypeM ''QTOPENGL_QOPENGLSHADER''] [PConv ''QOpenGLShader::ShaderType''] None],
     CtorBlock QOpenGLShaderProgram 0 [
       Overload [TypeM QTCORE_QOBJECT] [] None],
     CtorBlock ''QOpenGLTimeMonitor'' 0 [
       Overload [TypeM QTCORE_QOBJECT] [] None],
     CtorBlock ''QOpenGLTimerQuery'' 0 [
       Overload [TypeM QTCORE_QOBJECT] [] None]]"

definition ctor_qtopengl_0_1 :: "ctor_block list" where
  "ctor_qtopengl_0_1 = [
     CtorBlock ''QOpenGLVertexArrayObject'' 0 [
       Overload [TypeM QTCORE_QOBJECT] [] None],
     CtorBlock ''QOpenGLWindow'' 0 [
       Overload [TypeM QTGUI_QWINDOW, TypeM ''QTOPENGL_QOPENGLWINDOW''] [] None],
     CtorBlock ''QOpenGLWindow'' 1 [
       Overload [TypeM QTGUI_QWINDOW, TypeM ''QTOPENGL_QOPENGLWINDOW''] [PConv ''QOpenGLWindow::UpdateBehavior''] None,
       Overload [TypeM QTGUI_QOPENGLCONTEXT, TypeM QTGUI_QWINDOW, TypeM ''QTOPENGL_QOPENGLWINDOW''] [PNonNull ''QOpenGLContext*''] None],
     CtorBlock ''QOpenGLWindow'' 2 [
       Overload [TypeM QTGUI_QOPENGLCONTEXT, TypeM QTGUI_QWINDOW, TypeM ''QTOPENGL_QOPENGLWINDOW''] [PNonNull ''QOpenGLContext*'', PConv ''QOpenGLWindow::UpdateBehavior''] None]]"

definition ctor_classes_qtopengl_0 :: "class_entry list" where
  "ctor_classes_qtopengl_0 = [
     ClassEntry QOpenGLDebugLogger [TypeM QTCORE_QOBJECT] [QObject_ptr],
     ClassEntry ''QOpenGLShader'' [TypeM QTCORE_QOBJECT, TypeM ''QTOPENGL_QOPENGLSHADER''] [''QOpenGLShader::ShaderType, QObject*''],
     ClassEntry QOpenGLShaderProgram [TypeM QTCORE_QOBJECT] [QObject_ptr],
     ClassEntry ''QOpenGLTimeMonitor'' [TypeM QTCORE_QOBJECT] [QObject_ptr],
     ClassEntry ''QOpenGLTimerQuery'' [TypeM QTCORE_QOBJECT] [QObject_ptr],
     ClassEntry ''QOpenGLVertexArrayObject'' [TypeM QTCORE_QOBJECT] [QObject_ptr],
     ClassEntry ''QOpenGLWindow'' [TypeM QTGUI_QOPENGLCONTEXT, TypeM QTGUI_QWINDOW, TypeM ''QTOPENGL_QOPENGLWINDOW''] [''QOpenGLWindow::UpdateBehavior, QWindow*'', ''QOpenGLContext*, QOpenGLWindow::UpdateBehavior, QWindow*'']]"

definition ctor_qtopenglwidgets_0_0 :: "ctor_block list" where
  "ctor_qtopenglwidgets_0_0 = [
     CtorBlock ''QOpenGLWidget'' 0 [
       Overload [EnumM QT_WINDOWFLAGS, TypeM QTWIDGETS_QWIDGET] [] None],
     CtorBlock ''QOpenGLWidget'' 1 [
       Overload [EnumM QT_WINDOWFLAGS, TypeM QTWIDGETS_QWIDGET] [PConv Qt_WindowFlags] (Some (0, QWidget))]]"

definition ctor_classes_qtopenglwidgets_0 :: "class_entry list" where
  "ctor_classes_qtopenglwidgets_0 = [
     ClassEntry ''QOpenGLWidget'' [EnumM QT_WINDOWFLAGS, TypeM QTWIDGETS_QWIDGET] [''QWidget*, Qt::WindowFlags'']]"

definition ctor_qtpdf_0_0 :: "ctor_block list" where
  "ctor_qtpdf_0_0 = [
     CtorBlock ''QPdfBookmarkModel'' 0 [
       Overload [TypeM QTCORE_QOBJECT] [] (Some (0, QObject))],
     CtorBlock ''QPdfDocument'' 0 [
       Overload [TypeM QTCORE_QOBJECT] [] (Some (0, QObject))],
     CtorBlock ''QPdfLinkModel'' 0 [
       Overload [TypeM QTCORE_QOBJECT] [] None],
     CtorBlock ''QPdfPageNavigator'' 0 [
       Overload [TypeM QTCORE_QOBJECT] [] (Some (0, QObject))],
     CtorBlock ''QPdfPageRenderer'' 0 [
       Overload [TypeM QTCORE_QOBJECT] [] (Some (0, QObject))]]"

definition ctor_qtpdf_0_1 :: "ctor_block list" where
  "ctor_qtpdf_0_1 = [
     CtorBlock ''QPdfSearchModel'' 0 [
       Overload [TypeM QTCORE_QOBJECT] [] (Some (0, QObject))]]"

definition ctor_classes_qtpdf_0 :: "class_entry list" where
  "ctor_classes_qtpdf_0 = [
     ClassEntry ''QPdfBookmarkModel'' [TypeM QTCORE_QOBJECT] [QObject_ptr],
     ClassEntry ''QPdfDocument'' [TypeM QTCORE_QOBJECT] [QObject_ptr],
     ClassEntry ''QPdfLinkModel'' [TypeM QTCORE_QOBJECT] [QObject_ptr],
     ClassEntry ''QPdfPageNavigator'' [TypeM QTCORE_QOBJECT] [QObject_ptr],
     ClassEntry ''QPdfPageRenderer'' [TypeM QTCORE_QOBJECT] [QObject_ptr],
     ClassEntry ''QPdfSearchModel'' [TypeM QTCORE_QOBJECT] [QObject_ptr]]"

definition ctor_qtpdfwidgets_0_0 :: "ctor_block list" where
  "ctor_qtpdfwidgets_0_0 = [
     CtorBlock ''QPdfPageSelector'' 0 [
       Overload [TypeM QTWIDGETS_QWIDGET] [] (Some (0, QWidget))],
     CtorBlock ''QPdfView'' 0 [
       Overload [TypeM QTWIDGETS_QWIDGET] [] (Some (0, QWidget))]]"

definition ctor_classes_qtpdfwidgets_0 :: "class_entry list" where
  "ctor_classes_qtpdfwidgets_0 = [
     ClassEntry ''QPdfPageSelector'' [TypeM QTWIDGETS_QWIDGET] [QWidget_ptr],
     ClassEntry ''QPdfView'' [TypeM QTWIDGETS_QWIDGET] [QWidget_ptr]]"

definition ctor_qtpositioning_0_0 :: "ctor_block list" where
  "ctor_qtpositioning_0_0 = [
     CtorBlock ''QGeoAreaMonitorSource'' 0 [
       Overload [TypeM QTCORE_QOBJECT] [] (Some (0, QObject))],
     CtorBlock ''QGeoPositionInfoSource'' 0 [
       Overload [TypeM QTCORE_QOBJECT] [] (Some (0, QObject))],
     CtorBlock QGeoSatelliteInfoSource 0 [
       Overload [TypeM QTCORE_QOBJECT] [] (Some (0, QObject))],
     CtorBlock QNmeaPositionInfoSource 1 [
       Overload [TypeM QTCORE_QOBJECT, TypeM ''QTPOSITIONING_QNMEAPOSITIONINFOSOURCE''] [PConv ''QNmeaPositionInfoSource::UpdateMode''] None],
     CtorBlock QNmeaSatelliteInfoSource 1 [
       Overload [TypeM QTCORE_QOBJECT, TypeM ''QTPOSITIONING_QNMEASATELLITEINFOSOURCE''] [PConv ''QNmeaSatelliteInfoSource::UpdateMode''] None]]"

definition ctor_classes_qtpositioning_0 :: "class_entry list" where
  "ctor_classes_qtpositioning_0 = [
     ClassEntry ''QGeoAreaMonitorSource'' [TypeM QTCORE_QOBJECT] [QObject_ptr],
     ClassEntry ''QGeoPositionInfoSource'' [TypeM QTCORE_QOBJECT] [QObject_ptr],
     ClassEntry QGeoSatelliteInfoSource [TypeM QTCORE_QOBJECT] [QObject_ptr],
     ClassEntry QNmeaPositionInfoSource [TypeM QTCORE_QOBJECT, TypeM ''QTPOSITIONING_QNMEAPOSITIONINFOSOURCE''] [''QNmeaPositionInfoSource::UpdateMode, QObject*''],
     ClassEntry QNmeaSatelliteInfoSource [TypeM QTCORE_QOBJECT, TypeM ''QTPOSITIONING_QNMEASATELLITEINFOSOURCE''] [''QNmeaSatelliteInfoSource::UpdateMode, QObject*'']]"

definition ctor_qtprintsupport_0_0 :: "ctor_block list" where
  "ctor_qtprintsupport_0_0 = [
     CtorBlock ''QPageSetupDialog'' 0 [
       Overload [TypeM QTWIDGETS_QWIDGET] [] None],
     CtorBlock ''QPrintDialog'' 0 [
       Overload [TypeM QTWIDGETS_QWIDGET] [] None],
     CtorBlock ''QPrintPreviewDialog'' 0 [
       Overload [EnumM QT_WINDOWFLAGS, TypeM QTWIDGETS_QWIDGET] [] None],
     CtorBlock ''QPrintPreviewDialog'' 1 [
       Overload [EnumM QT_WINDOWFLAGS, TypeM QTWIDGETS_QWIDGET] [PConv Qt_WindowFlags] (Some (0, QWidget))],
     CtorBlock QPrintPreviewWidget 0 [
       Overload [EnumM QT_WINDOWFLAGS, TypeM QTWIDGETS_QWIDGET] [] None]]"

definition ctor_qtprintsupport_0_1 :: "ctor_block list" where
  "ctor_qtprintsupport_0_1 = [
     CtorBlock QPrintPreviewWidget 1 [
       Overload [EnumM QT_WINDOWFLAGS, TypeM QTWIDGETS_QWIDGET] [PConv Qt_WindowFlags] (Some (0, QWidget))]]"

definition ctor_classes_qtprintsupport_0 :: "class_entry list" where
  "ctor_classes_qtprintsupport_0 = [
     ClassEntry ''QPageSetupDialog'' [TypeM QTWIDGETS_QWIDGET] [QWidget_ptr],
     ClassEntry ''QPrintDialog'' [TypeM QTWIDGETS_QWIDGET] [QWidget_ptr],
     ClassEntry ''QPrintPreviewDialog'' [EnumM QT_WINDOWFLAGS, TypeM QTWIDGETS_QWIDGET] [''QWidget*, Qt::WindowFlags''],
     ClassEntry QPrintPreviewWidget [EnumM QT_WINDOWFLAGS, TypeM QTWIDGETS_QWIDGET] [''QWidget*, Qt::WindowFlags'']]"

definition ctor_qtqml_0_0 :: "ctor_block list" where
  "ctor_qtqml_0_0 = [
     CtorBlock ''QJSEngine'' 0 [
       Overload [] [] None,
       Overload [TypeM QTCORE_QOBJECT] [] (Some (0, QObject))],
     CtorBlock ''QQmlApplicationEngine'' 0 [
       Overload [TypeM QTCORE_QOBJECT] [] None],
     CtorBlock ''QQmlApplicationEngine'' 1 [
       Overload [TypeM QTCORE_QOBJECT, ValueM QTCORE_QURL] [PConv QUrl] None,
       Overload [TypeM QTCORE_QOBJECT] [PString False] None]]"

definition ctor_qtqml_0_1 :: "ctor_block list" where
  "ctor_qtqml_0_1 = [
     CtorBlock QQmlComponent 0 [
       Overload [TypeM QTCORE_QOBJECT] [] None],
     CtorBlock QQmlComponent 1 [
       Overload [TypeM QTCORE_QOBJECT, TypeM QTQML_QQMLENGINE] [PNonNull ''QQmlEngine*''] None],
     CtorBlock QQmlComponent 2 [
       Overload [TypeM QTCORE_QOBJECT, TypeM QTQML_QQMLENGINE] [PNonNull ''QQmlEngine*'', PString False] None,
       Overload [TypeM QTCORE_QOBJECT, TypeM QTQML_QQMLENGINE, ValueM QTCORE_QURL] [PNonNull ''QQmlEngine*'', PConv QUrl] None]]"

definition ctor_qtqml_0_2 :: "ctor_block list" where
  "ctor_qtqml_0_2 = [
     CtorBlock QQmlComponent 3 [
       Overload [TypeM QTCORE_QOBJECT, TypeM ''QTQML_QQMLCOMPONENT'', TypeM QTQML_QQMLENGINE] [PNonNull ''QQmlEngine*'', PString False, PConv ''QQmlComponent::CompilationMode''] None,
       Overload [TypeM QTCORE_QOBJECT, TypeM ''QTQML_QQMLCOMPONENT'', TypeM QTQML_QQMLENGINE, ValueM QTCORE_QURL] [PNonNull ''QQmlEngine*'', PConv QUrl, PConv ''QQmlComponent::CompilationMode''] None],
     CtorBlock ''QQmlContext'' 1 [
       Overload [TypeM QTCORE_QOBJECT, TypeM QTQML_QQMLENGINE] [PNonNull ''QQmlEngine*''] None,
       Overload [TypeM QTCORE_QOBJECT, TypeM QTQML_QQMLCONTEXT] [PNonNull ''QQmlContext*''] None],
     CtorBlock QQmlEngine 0 [
       Overload [TypeM QTCORE_QOBJECT] [] None]]"

definition ctor_qtqml_0_3 :: "ctor_block list" where
  "ctor_qtqml_0_3 = [
     CtorBlock ''QQmlEngineExtensionPlugin'' 0 [
       Overload [TypeM QTCORE_QOBJECT] [] None],
     CtorBlock QQmlExpression 0 [
       Overload [] [] None],
     CtorBlock QQmlExpression 1 [
       Overload [TypeM QTCORE_QOBJECT, TypeM QTQML_QQMLCONTEXT, ValueM ''QTQML_QQMLSCRIPTSTRING''] [PConv ''QQmlScriptString''] None],
     CtorBlock QQmlExpression 2 [
       Overload [TypeM QTCORE_QOBJECT, TypeM QTQML_QQMLCONTEXT, ValueM ''QTQML_QQMLSCRIPTSTRING''] [PConv ''QQmlScriptString'', PNonNull ''QQmlContext*''] None]]"

definition ctor_qtqml_0_4 :: "ctor_block list" where
  "ctor_qtqml_0_4 = [
     CtorBlock QQmlExpression 3 [
       Overload [TypeM QTCORE_QOBJECT, TypeM QTQML_QQMLCONTEXT] [PNonNull ''QQmlContext*'', PNonNull QObject_ptr, PString False] None,
       Overload [TypeM QTCORE_QOBJECT, TypeM QTQML_QQMLCONTEXT, ValueM ''QTQML_QQMLSCRIPTSTRING''] [PConv ''QQmlScriptString'', PNonNull ''QQmlContext*'', PNonNull QObject_ptr] None],
     CtorBlock ''QQmlExtensionPlugin'' 0 [
       Overload [TypeM QTCORE_QOBJECT] [] None],
     CtorBlock ''QQmlFileSelector'' 1 [
       Overload [TypeM QTCORE_QOBJECT, TypeM QTQML_QQMLENGINE] [PNonNull ''QQmlEngine*''] None],
     CtorBlock ''QQmlPropertyMap'' 0 [
       Overload [TypeM QTCORE_QOBJECT] [] None]]"

definition ctor_classes_qtqml_0 :: "class_entry list" where
  "ctor_classes_qtqml_0 = [
     ClassEntry ''QJSEngine'' [TypeM QTCORE_QOBJECT] ['''', QObject_ptr],
     ClassEntry ''QQmlApplicationEngine'' [TypeM QTCORE_QOBJECT, ValueM QTCORE_QURL] [QObject_ptr, ''QUrl, QObject*'', ''QString, QObject*''],
     ClassEntry QQmlComponent [TypeM QTCORE_QOBJECT, TypeM ''QTQML_QQMLCOMPONENT'', TypeM QTQML_QQMLENGINE, ValueM QTCORE_QURL] [''QQmlEngine*, QObject*'', ''QQmlEngine*, QString, QObject*'', ''QQmlEngine*, QString, QQmlComponent::CompilationMode, QObject*'', ''QQmlEngine*, QUrl, QObject*'', ''QQmlEngine*, QUrl, QQmlComponent::CompilationMode, QObject*'', QObject_ptr],
     ClassEntry ''QQmlContext'' [TypeM QTCORE_QOBJECT, TypeM QTQML_QQMLCONTEXT, TypeM QTQML_QQMLENGINE] [''QQmlEngine*, QObject*'', ''QQmlContext*, QObject*''],
     ClassEntry QQmlEngine [TypeM QTCORE_QOBJECT] [QObject_ptr],
     ClassEntry ''QQmlEngineExtensionPlugin'' [TypeM QTCORE_QOBJECT] [QObject_ptr],
     ClassEntry QQmlExpression [TypeM QTCORE_QOBJECT, TypeM QTQML_QQMLCONTEXT, ValueM ''QTQML_QQMLSCRIPTSTRING''] ['''', ''QQmlContext*, QObject*, QString, QObject*'', ''QQmlScriptString, QQmlContext*, QObject*, QObject*''],
     ClassEntry ''QQmlExtensionPlugin'' [TypeM QTCORE_QOBJECT] [QObject_ptr],
     ClassEntry ''QQmlFileSelector'' [TypeM QTCORE_QOBJECT, TypeM QTQML_QQMLENGINE] [''QQmlEngine*, QObject*''],
     ClassEntry ''QQmlPropertyMap'' [TypeM QTCORE_QOBJECT] [QObject_ptr]]"

definition ctor_qtquick3d_0_0 :: "ctor_block list" where
  "ctor_qtquick3d_0_0 = [
     CtorBlock QQuick3DGeometry 0 [
       Overload [TypeM ''QTQUICK3D_QQUICK3DOBJECT''] [] None],
     CtorBlock ''QQuick3DObject'' 0 [
       Overload [TypeM ''QTQUICK3D_QQUICK3DOBJECT''] [] None],
     CtorBlock ''QQuick3DTextureData'' 0 [
       Overload [TypeM ''QTQUICK3D_QQUICK3DOBJECT''] [] None]]"

definition ctor_classes_qtquick3d_0 :: "class_entry list" where
  "ctor_classes_qtquick3d_0 = [
     ClassEntry QQuick3DGeometry [TypeM ''QTQUICK3D_QQUICK3DOBJECT''] [''QQuick3DObject*''],
     ClassEntry ''QQuick3DObject'' [TypeM ''QTQUICK3D_QQUICK3DOBJECT''] [''QQuick3DObject*''],
     ClassEntry ''QQuick3DTextureData'' [TypeM ''QTQUICK3D_QQUICK3DOBJECT''] [''QQuick3DObject*'']]"

definition ctor_qtquick_0_0 :: "ctor_block list" where
  "ctor_qtquick_0_0 = [
     CtorBlock ''QQuickAsyncImageProvider'' 0 [
       Overload [] [] None],
     CtorBlock ''QQuickImageProvider'' 1 [
       Overload [TypeM ''QTQML_QQMLIMAGEPROVIDERBASE''] [PConv ''QQmlImageProviderBase::ImageType''] None],
     CtorBlock ''QQuickImageProvider'' 2 [
       Overload [TypeM ''QTQML_QQMLIMAGEPROVIDERBASE''] [PConv ''QQmlImageProviderBase::ImageType'', PConv ''QQmlImageProviderBase::Flags''] None],
     CtorBlock ''QQuickImageResponse'' 0 [
       Overload [] [] None],
     CtorBlock QQuickItem 0 [
       Overload [TypeM QTQUICK_QQUICKITEM] [] None]]"

definition ctor_qtquick_0_1 :: "ctor_block list" where
  "ctor_qtquick_0_1 = [
     CtorBlock QQuickPaintedItem 0 [
       Overload [TypeM QTQUICK_QQUICKITEM] [] None],
     CtorBlock QQuickRenderControl 0 [
       Overload [TypeM QTCORE_QOBJECT] [] None],
     CtorBlock ''QQuickTextDocument'' 0 [
       Overload [TypeM QTQUICK_QQUICKITEM] [] (Some (0, QQuickItem))],
     CtorBlock ''QQuickTextureFactory'' 0 [
       Overload [] [] None],
     CtorBlock ''QQuickView'' 0 [
       Overload [TypeM QTGUI_QWINDOW] [] None]]"

definition ctor_qtquick_0_2 :: "ctor_block list" where
  "ctor_qtquick_0_2 = [
     CtorBlock ''QQuickView'' 1 [
       Overload [TypeM QTGUI_QWINDOW, TypeM QTQML_QQMLENGINE] [PNonNull ''QQmlEngine*''] (Some (1, QWindow)),
       Overload [TypeM QTGUI_QWINDOW, ValueM QTCORE_QURL] [PConv QUrl] None],
     CtorBlock QQuickWindow 0 [
       Overload [TypeM QTGUI_QWINDOW] [] None],
     CtorBlock ''QSGDynamicTexture'' 0 [
       Overload [] [] None],
     CtorBlock ''QSGTexture'' 0 [
       Overload [] [] None]]"

definition ctor_classes_qtquick_0 :: "class_entry list" where
  "ctor_classes_qtquick_0 = [
     ClassEntry ''QQuickAsyncImageProvider'' [] [''''],
     ClassEntry ''QQuickImageProvider'' [TypeM ''QTQML_QQMLIMAGEPROVIDERBASE''] [''QQmlImageProviderBase::ImageType, QQmlImageProviderBase::Flags''],
     ClassEntry ''QQuickImageResponse'' [] [''''],
     ClassEntry QQuickItem [TypeM QTQUICK_QQUICKITEM] [''QQuickItem*''],
     ClassEntry QQuickPaintedItem [TypeM QTQUICK_QQUICKITEM] [''QQuickItem*''],
     ClassEntry QQuickRenderControl [TypeM QTCORE_QOBJECT] [QObject_ptr],
     ClassEntry ''QQuickTextDocument'' [TypeM QTQUICK_QQUICKITEM] [''QQuickItem*''],
     ClassEntry ''QQuickTextureFactory'' [] [''''],
     ClassEntry ''QQuickView'' [TypeM QTGUI_QWINDOW, TypeM QTQML_QQMLENGINE, ValueM QTCORE_QURL] [''QWindow*'', ''QQmlEngine*, QWindow*'', ''QUrl, QWindow*''],
     ClassEntry QQuickWindow [TypeM QTGUI_QWINDOW] [''QWindow*''],
     ClassEntry ''QSGDynamicTexture'' [] [''''],
     ClassEntry ''QSGTexture'' [] ['''']]"

definition ctor_qtquickwidgets_0_0 :: "ctor_block list" where
  "ctor_qtquickwidgets_0_0 = [
     CtorBlock ''QQuickWidget'' 0 [
       Overload [TypeM QTWIDGETS_QWIDGET] [] None],
     CtorBlock ''QQuickWidget'' 1 [
       Overload [TypeM QTQML_QQMLENGINE, TypeM QTWIDGETS_QWIDGET] [PNonNull ''QQmlEngine*''] (Some (1, QWidget)),
       Overload [TypeM QTWIDGETS_QWIDGET, ValueM QTCORE_QURL] [PConv QUrl] None]]"

definition ctor_classes_qtquickwidgets_0 :: "class_entry list" where
  "ctor_classes_qtquickwidgets_0 = [
     ClassEntry ''QQuickWidget'' [TypeM QTQML_QQMLENGINE, TypeM QTWIDGETS_QWIDGET, ValueM QTCORE_QURL] [QWidget_ptr, ''QQmlEngine*, QWidget*'', ''QUrl, QWidget*'']]"

definition ctor_qtremoteobjects_0_0 :: "ctor_block list" where
  "ctor_qtremoteobjects_0_0 = [
     CtorBlock ''QRemoteObjectAbstractPersistedStore'' 0 [
       Overload [TypeM QTCORE_QOBJECT] [] None],
     CtorBlock ''QRemoteObjectHost'' 0 [
       Overload [TypeM QTCORE_QOBJECT] [] None],
     CtorBlock ''QRemoteObjectHost'' 1 [
       Overload [TypeM QTCORE_QOBJECT, TypeM ''QTREMOTEOBJECTS_QREMOTEOBJECTHOSTBASE'', ValueM QTCORE_QURL] [PConv QUrl] None,
       Overload [TypeM QTCORE_QOBJECT, ValueM QTCORE_QURL] [PConv QUrl] (Some (1, QObject))],
     CtorBlock ''QRemoteObjectHost'' 2 [
       Overload [TypeM QTCORE_QOBJECT, TypeM ''QTREMOTEOBJECTS_QREMOTEOBJECTHOSTBASE'', ValueM QTCORE_QURL] [PConv QUrl, PConv QUrl] None]]"

definition ctor_qtremoteobjects_0_1 :: "ctor_block list" where
  "ctor_qtremoteobjects_0_1 = [
     CtorBlock ''QRemoteObjectHost'' 3 [
       Overload [TypeM QTCORE_QOBJECT, TypeM ''QTREMOTEOBJECTS_QREMOTEOBJECTHOSTBASE'', ValueM QTCORE_QURL] [PConv QUrl, PConv QUrl, PConv ''QRemoteObjectHostBase::AllowedSchemas''] None],
     CtorBlock QRemoteObjectNode 0 [
       Overload [TypeM QTCORE_QOBJECT] [] None],
     CtorBlock QRemoteObjectNode 1 [
       Overload [TypeM QTCORE_QOBJECT, ValueM QTCORE_QURL] [PConv QUrl] None],
     CtorBlock ''QRemoteObjectRegistryHost'' 0 [
       Overload [TypeM QTCORE_QOBJECT, ValueM QTCORE_QURL] [] None],
     CtorBlock ''QRemoteObjectRegistryHost'' 1 [
       Overload [TypeM QTCORE_QOBJECT, ValueM QTCORE_QURL] [PConv QUrl] None]]"

definition ctor_classes_qtremoteobjects_0 :: "class_entry list" where
  "ctor_classes_qtremoteobjects_0 = [
     ClassEntry ''QRemoteObjectAbstractPersistedStore'' [TypeM QTCORE_QOBJECT] [QObject_ptr],
     ClassEntry ''QRemoteObjectHost'' [TypeM QTCORE_QOBJECT, TypeM ''QTREMOTEOBJECTS_QREMOTEOBJECTHOSTBASE'', ValueM QTCORE_QURL] [QObject_ptr, ''QUrl, QUrl, QRemoteObjectHostBase::AllowedSchemas, QObject*'', ''QUrl, QObject*''],
     ClassEntry QRemoteObjectNode [TypeM QTCORE_QOBJECT, ValueM QTCORE_QURL] [QObject_ptr, ''QUrl, QObject*''],
     ClassEntry ''QRemoteObjectRegistryHost'' [TypeM QTCORE_QOBJECT, ValueM QTCORE_QURL] [''QUrl, QObject*'']]"

definition ctor_qtsensors_0_0 :: "ctor_block list" where
  "ctor_qtsensors_0_0 = [
     CtorBlock ''QAccelerometer'' 0 [
       Overload [TypeM QTCORE_QOBJECT] [] None],
     CtorBlock ''QAmbientLightSensor'' 0 [
       Overload [TypeM QTCORE_QOBJECT] [] None],
     CtorBlock ''QAmbientTemperatureSensor'' 0 [
       Overload [TypeM QTCORE_QOBJECT] [] None],
     CtorBlock ''QCompass'' 0 [
       Overload [TypeM QTCORE_QOBJECT] [] None],
     CtorBlock ''QGyroscope'' 0 [
       Overload [TypeM QTCORE_QOBJECT] [] None]]"

definition ctor_qtsensors_0_1 :: "ctor_block list" where
  "ctor_qtsensors_0_1 = [
     CtorBlock ''QHumiditySensor'' 0 [
       Overload [TypeM QTCORE_QOBJECT] [] None],
     CtorBlock ''QIRProximitySensor'' 0 [
       Overload [TypeM QTCORE_QOBJECT] [] None],
     CtorBlock ''QLidSensor'' 0 [
       Overload [TypeM QTCORE_QOBJECT] [] None],
     CtorBlock ''QLightSensor'' 0 [
       Overload [TypeM QTCORE_QOBJECT] [] None],
     CtorBlock ''QMagnetometer'' 0 [
       Overload [TypeM QTCORE_QOBJECT] [] None]]"

definition ctor_qtsensors_0_2 :: "ctor_block list" where
  "ctor_qtsensors_0_2 = [
     CtorBlock ''QOrientationSensor'' 0 [
       Overload [TypeM QTCORE_QOBJECT] [] None],
     CtorBlock ''QPressureSensor'' 0 [
       Overload [TypeM QTCORE_QOBJECT] [] None],
     CtorBlock ''QProximitySensor'' 0 [
       Overload [TypeM QTCORE_QOBJECT] [] None],
     CtorBlock ''QRotationSensor'' 0 [
       Overload [TypeM QTCORE_QOBJECT] [] None],
     CtorBlock QSensor 1 [
       Overload [TypeM QTCORE_QOBJECT, ValueM QTCORE_QBYTEARRAY] [PConv QByteArray] None]]"

definition ctor_qtsensors_0_3 :: "ctor_block list" where
  "ctor_qtsensors_0_3 = [
     CtorBlock ''QTapSensor'' 0 [
       Overload [TypeM QTCORE_QOBJECT] [] None],
     CtorBlock ''QTiltSensor'' 0 [
       Overload [TypeM QTCORE_QOBJECT] [] None]]"

definition ctor_classes_qtsensors_0 :: "class_entry list" where
  "ctor_classes_qtsensors_0 = [
     ClassEntry ''QAccelerometer'' [TypeM QTCORE_QOBJECT] [QObject_ptr],
     ClassEntry ''QAmbientLightSensor'' [TypeM QTCORE_QOBJECT] [QObject_ptr],
     ClassEntry ''QAmbientTemperatureSensor'' [TypeM QTCORE_QOBJECT] [QObject_ptr],
     ClassEntry ''QCompass'' [TypeM QTCORE_QOBJECT] [QObject_ptr],
     ClassEntry ''QGyroscope'' [TypeM QTCORE_QOBJECT] [QObject_ptr],
     ClassEntry ''QHumiditySensor'' [TypeM QTCORE_QOBJECT] [QObject_ptr],
     ClassEntry ''QIRProximitySensor'' [TypeM QTCORE_QOBJECT] [QObject_ptr],
     ClassEntry ''QLidSensor'' [TypeM QTCORE_QOBJECT] [QObject_ptr],
     ClassEntry ''QLightSensor'' [TypeM QTCORE_QOBJECT] [QObject_ptr],
     ClassEntry ''QMagnetometer'' [TypeM QTCORE_QOBJECT] [QObject_ptr],
     ClassEntry ''QOrientationSensor'' [TypeM QTCORE_QOBJECT] [QObject_ptr],
     ClassEntry ''QPressureSensor'' [TypeM QTCORE_QOBJECT] [QObject_ptr],
     ClassEntry ''QProximitySensor'' [TypeM QTCORE_QOBJECT] [QObject_ptr],
     ClassEntry ''QRotationSensor'' [TypeM QTCORE_QOBJECT] [QObject_ptr],
     ClassEntry QSensor [TypeM QTCORE_QOBJECT, ValueM QTCORE_QBYTEARRAY] [''QByteArray, QObject*''],
     ClassEntry ''QTapSensor'' [TypeM QTCORE_QOBJECT] [QObject_ptr],
     ClassEntry ''QTiltSensor'' [TypeM QTCORE_QOBJECT] [QObject_ptr]]"

definition ctor_qtserialport_0_0 :: "ctor_block list" where
  "ctor_qtserialport_0_0 = [
     CtorBlock QSerialPort 0 [
       Overload [TypeM QTCORE_QOBJECT] [] None],
     CtorBlock QSerialPort 1 [
       Overload [TypeM QTCORE_QOBJECT] [PString False] None,
       Overload [TypeM QTCORE_QOBJECT, ValueM ''QTSERIALPORT_QSERIALPORTINFO''] [PConv QSerialPortInfo] None]]"

definition ctor_classes_qtserialport_0 :: "class_entry list" where
  "ctor_classes_qtserialport_0 = [
     ClassEntry QSerialPort [TypeM QTCORE_QOBJECT, ValueM ''QTSERIALPORT_QSERIALPORTINFO''] [QObject_ptr, ''QString, QObject*'', ''QSerialPortInfo, QObject*'']]"

definition ctor_qtspatialaudio_0_0 :: "ctor_block list" where
  "ctor_qtspatialaudio_0_0 = [
     CtorBlock ''QAmbientSound'' 1 [
       Overload [TypeM QTSPATIALAUDIO_QAUDIOENGINE] [PNonNull ''QAudioEngine*''] None],
     CtorBlock QAudioEngine 0 [
       Overload [] [] None,
       Overload [TypeM QTCORE_QOBJECT] [] (Some (0, QObject))],
     CtorBlock QAudioEngine 1 [
       Overload [TypeM QTCORE_QOBJECT] [PInt] None],
     CtorBlock ''QAudioListener'' 1 [
       Overload [TypeM QTSPATIALAUDIO_QAUDIOENGINE] [PNonNull ''QAudioEngine*''] None]]"

definition ctor_qtspatialaudio_0_1 :: "ctor_block list" where
  "ctor_qtspatialaudio_0_1 = [
     CtorBlock ''QAudioRoom'' 1 [
       Overload [TypeM QTSPATIALAUDIO_QAUDIOENGINE] [PNonNull ''QAudioEngine*''] None],
     CtorBlock QSpatialSound 1 [
       Overload [TypeM QTSPATIALAUDIO_QAUDIOENGINE] [PNonNull ''QAudioEngine*''] None]]"

definition ctor_classes_qtspatialaudio_0 :: "class_entry list" where
  "ctor_classes_qtspatialaudio_0 = [
     ClassEntry ''QAmbientSound'' [TypeM QTSPATIALAUDIO_QAUDIOENGINE] [''QAudioEngine*''],
     ClassEntry QAudioEngine [TypeM QTCORE_QOBJECT] ['''', QObject_ptr, ''int, QObject*''],
     ClassEntry ''QAudioListener'' [TypeM QTSPATIALAUDIO_QAUDIOENGINE] [''QAudioEngine*''],
     ClassEntry ''QAudioRoom'' [TypeM QTSPATIALAUDIO_QAUDIOENGINE] [''QAudioEngine*''],
     ClassEntry QSpatialSound [TypeM QTSPATIALAUDIO_QAUDIOENGINE] [''QAudioEngine*'']]"

definition ctor_qtsql_0_0 :: "ctor_block list" where
  "ctor_qtsql_0_0 = [
     CtorBlock ''QSqlDriver'' 0 [
       Overload [TypeM QTCORE_QOBJECT] [] None],
     CtorBlock QSqlQueryModel 0 [
       Overload [TypeM QTCORE_QOBJECT] [] None],
     CtorBlock ''QSqlRelationalDelegate'' 0 [
       Overload [TypeM QTCORE_QOBJECT] [] None],
     CtorBlock QSqlRelationalTableModel 0 [
       Overload [TypeM QTCORE_QOBJECT, ValueM QTSQL_QSQLDATABASE] [] None],
     CtorBlock QSqlRelationalTableModel 1 [
       Overload [TypeM QTCORE_QOBJECT, ValueM QTSQL_QSQLDATABASE] [PConv QSqlDatabase] (Some (0, QObject))]]"

definition ctor_qtsql_0_1 :: "ctor_block list" where
  "ctor_qtsql_0_1 = [
     CtorBlock QSqlTableModel 0 [
       Overload [TypeM QTCORE_QOBJECT, ValueM QTSQL_QSQLDATABASE] [] None],
     CtorBlock QSqlTableModel 1 [
       Overload [TypeM QTCORE_QOBJECT, ValueM QTSQL_QSQLDATABASE] [PConv QSqlDatabase] (Some (0, QObject))]]"

definition ctor_classes_qtsql_0 :: "class_entry list" where
  "ctor_classes_qtsql_0 = [
     ClassEntry ''QSqlDriver'' [TypeM QTCORE_QOBJECT] [QObject_ptr],
     ClassEntry QSqlQueryModel [TypeM QTCORE_QOBJECT] [QObject_ptr],
     ClassEntry ''QSqlRelationalDelegate'' [TypeM QTCORE_QOBJECT] [QObject_ptr],
     ClassEntry QSqlRelationalTableModel [TypeM QTCORE_QOBJECT, ValueM QTSQL_QSQLDATABASE] [''QObject*, QSqlDatabase''],
     ClassEntry QSqlTableModel [TypeM QTCORE_QOBJECT, ValueM QTSQL_QSQLDATABASE] [''QObject*, QSqlDatabase'']]"

definition ctor_qtstatemachine_0_0 :: "ctor_block list" where
  "ctor_qtstatemachine_0_0 = [
     CtorBlock ''QAbstractTransition'' 0 [
       Overload [TypeM QTSTATEMACHINE_QSTATE] [] None],
     CtorBlock ''QAbstractTransition'' 1 [
       Overload [TypeM QTSTATEMACHINE_QSTATE] [PNonNull ''QState*''] None],
     CtorBlock ''QEventTransition'' 0 [
       Overload [TypeM QTSTATEMACHINE_QSTATE] [] None],
     CtorBlock ''QEventTransition'' 1 [
       Overload [TypeM QTSTATEMACHINE_QSTATE] [PNonNull ''QState*''] None],
     CtorBlock ''QEventTransition'' 2 [
       Overload [TypeM QTCORE_QEVENT, TypeM QTCORE_QOBJECT, TypeM QTSTATEMACHINE_QSTATE] [PNonNull QObject_ptr, PConv QEvent_Type] None]]"

definition ctor_qtstatemachine_0_1 :: "ctor_block list" where
  "ctor_qtstatemachine_0_1 = [
     CtorBlock ''QEventTransition'' 3 [
       Overload [TypeM QTCORE_QEVENT, TypeM QTCORE_QOBJECT, TypeM QTSTATEMACHINE_QSTATE] [PNonNull QObject_ptr, PConv QEvent_Type, PNonNull ''QState*''] None],
     CtorBlock ''QFinalState'' 0 [
       Overload [TypeM QTSTATEMACHINE_QSTATE] [] None],
     CtorBlock ''QHistoryState'' 0 [
       Overload [TypeM QTSTATEMACHINE_QSTATE] [] None],
     CtorBlock ''QHistoryState'' 1 [
       Overload [TypeM ''QTSTATEMACHINE_QHISTORYSTATE'', TypeM QTSTATEMACHINE_QSTATE] [PConv ''QHistoryState::HistoryType''] None],
     CtorBlock ''QKeyEventTransition'' 0 [
       Overload [TypeM QTSTATEMACHINE_QSTATE] [] None]]"

definition ctor_qtstatemachine_0_2 :: "ctor_block list" where
  "ctor_qtstatemachine_0_2 = [
     CtorBlock ''QKeyEventTransition'' 1 [
       Overload [TypeM QTSTATEMACHINE_QSTATE] [PNonNull ''QState*''] None],
     CtorBlock ''QKeyEventTransition'' 3 [
       Overload [TypeM QTCORE_QEVENT, TypeM QTCORE_QOBJECT, TypeM QTSTATEMACHINE_QSTATE] [PNonNull QObject_ptr, PConv QEvent_Type, PInt] None],
     CtorBlock ''QKeyEventTransition'' 4 [
       Overload [TypeM QTCORE_QEVENT, TypeM QTCORE_QOBJECT, TypeM QTSTATEMACHINE_QSTATE] [PNonNull QObject_ptr, PConv QEvent_Type, PInt, PNonNull ''QState*''] None],
     CtorBlock ''QMouseEventTransition'' 0 [
       Overload [TypeM QTSTATEMACHINE_QSTATE] [] None]]"

definition ctor_qtstatemachine_0_3 :: "ctor_block list" where
  "ctor_qtstatemachine_0_3 = [
     CtorBlock ''QMouseEventTransition'' 1 [
       Overload [TypeM QTSTATEMACHINE_QSTATE] [PNonNull ''QState*''] None],
     CtorBlock ''QMouseEventTransition'' 3 [
       Overload [EnumM QT_MOUSEBUTTON, TypeM QTCORE_QEVENT, TypeM QTCORE_QOBJECT, TypeM QTSTATEMACHINE_QSTATE] [PNonNull QObject_ptr, PConv QEvent_Type, PConv ''Qt::MouseButton''] None],
     CtorBlock ''QMouseEventTransition'' 4 [
       Overload [EnumM QT_MOUSEBUTTON, TypeM QTCORE_QEVENT, TypeM QTCORE_QOBJECT, TypeM QTSTATEMACHINE_QSTATE] [PNonNull QObject_ptr, PConv QEvent_Type, PConv ''Qt::MouseButton'', PNonNull ''QState*''] None],
     CtorBlock ''QSignalTransition'' 0 [
       Overload [TypeM QTSTATEMACHINE_QSTATE] [] None]]"

definition ctor_qtstatemachine_0_4 :: "ctor_block list" where
  "ctor_qtstatemachine_0_4 = [
     CtorBlock ''QSignalTransition'' 1 [
       Overload [TypeM QTSTATEMACHINE_QSTATE] [PNonNull ''QState*''] None],
     CtorBlock ''QState'' 0 [
       Overload [TypeM QTSTATEMACHINE_QSTATE] [] None],
     CtorBlock ''QState'' 1 [
       Overload [TypeM QTSTATEMACHINE_QSTATE] [PConv ''QState::ChildMode''] None],
     CtorBlock ''QStateMachine'' 0 [
       Overload [TypeM QTCORE_QOBJECT] [] None],
     CtorBlock ''QStateMachine'' 1 [
       Overload [TypeM QTCORE_QOBJECT, TypeM QTSTATEMACHINE_QSTATE] [PConv ''QState::ChildMode''] None]]"

definition ctor_classes_qtstatemachine_0 :: "class_entry list" where
  "ctor_classes_qtstatemachine_0 = [
     ClassEntry ''QAbstractTransition'' [TypeM QTSTATEMACHINE_QSTATE] [''QState*''],
     ClassEntry ''QEventTransition'' [TypeM QTCORE_QEVENT, TypeM QTCORE_QOBJECT, TypeM QTSTATEMACHINE_QSTATE] [''QState*'', ''QObject*, QEvent::Type, QState*''],
     ClassEntry ''QFinalState'' [TypeM QTSTATEMACHINE_QSTATE] [''QState*''],
     ClassEntry ''QHistoryState'' [TypeM ''QTSTATEMACHINE_QHISTORYSTATE'', TypeM QTSTATEMACHINE_QSTATE] [''QState*'', ''QHistoryState::HistoryType, QState*''],
     ClassEntry ''QKeyEventTransition'' [TypeM QTCORE_QEVENT, TypeM QTCORE_QOBJECT, TypeM QTSTATEMACHINE_QSTATE] [''QState*'', ''QObject*, QEvent::Type, int, QState*''],
     ClassEntry ''QMouseEventTransition'' [EnumM QT_MOUSEBUTTON, TypeM QTCORE_QEVENT, TypeM QTCORE_QOBJECT, TypeM QTSTATEMACHINE_QSTATE] [''QState*'', ''QObject*, QEvent::Type, Qt::MouseButton, QState*''],
     ClassEntry ''QSignalTransition'' [TypeM QTSTATEMACHINE_QSTATE] [''QState*''],
     ClassEntry ''QState'' [TypeM QTSTATEMACHINE_QSTATE] [''QState*'', ''QState::ChildMode, QState*''],
     ClassEntry ''QStateMachine'' [TypeM QTCORE_QOBJECT, TypeM QTSTATEMACHINE_QSTATE] [QObject_ptr, ''QState::ChildMode, QObject*'']]"

definition ctor_qtsvg_0_0 :: "ctor_block list" where
  "ctor_qtsvg_0_0 = [
     CtorBlock QSvgRenderer 0 [
       Overload [TypeM QTCORE_QOBJECT] [] None],
     CtorBlock QSvgRenderer 1 [
       Overload [TypeM QTCORE_QOBJECT] [PString False] None,
       Overload [TypeM QTCORE_QOBJECT, ValueM QTCORE_QBYTEARRAY] [PConv QByteArray] None]]"

definition ctor_classes_qtsvg_0 :: "class_entry list" where
  "ctor_classes_qtsvg_0 = [
     ClassEntry QSvgRenderer [TypeM QTCORE_QOBJECT, ValueM QTCORE_QBYTEARRAY] [QObject_ptr, ''QString, QObject*'', ''QByteArray, QObject*'']]"

definition ctor_qtsvgwidgets_0_0 :: "ctor_block list" where
  "ctor_qtsvgwidgets_0_0 = [
     CtorBlock ''QSvgWidget'' 0 [
       Overload [TypeM QTWIDGETS_QWIDGET] [] None],
     CtorBlock ''QSvgWidget'' 1 [
       Overload [TypeM QTWIDGETS_QWIDGET] [PString False] None]]"

definition ctor_classes_qtsvgwidgets_0 :: "class_entry list" where
  "ctor_classes_qtsvgwidgets_0 = [
     ClassEntry ''QSvgWidget'' [TypeM QTWIDGETS_QWIDGET] [QWidget_ptr, ''QString, QWidget*'']]"

definition ctor_qttest_0_0 :: "ctor_block list" where
  "ctor_qttest_0_0 = [
     CtorBlock ''QAbstractItemModelTester'' 1 [
       Overload [TypeM QTCORE_QABSTRACTITEMMODEL, TypeM QTCORE_QOBJECT] [PNonNull QAbstractItemModel_ptr] None],
     CtorBlock ''QAbstractItemModelTester'' 2 [
       Overload [TypeM QTCORE_QABSTRACTITEMMODEL, TypeM QTCORE_QOBJECT, TypeM ''QTTEST_QABSTRACTITEMMODELTESTER''] [PNonNull QAbstractItemModel_ptr, PConv ''QAbstractItemModelTester::FailureReportingMode''] None]]"

definition ctor_classes_qttest_0 :: "class_entry list" where
  "ctor_classes_qttest_0 = [
     ClassEntry ''QAbstractItemModelTester'' [TypeM QTCORE_QABSTRACTITEMMODEL, TypeM QTCORE_QOBJECT, TypeM ''QTTEST_QABSTRACTITEMMODELTESTER''] [''QAbstractItemModel*, QObject*'', ''QAbstractItemModel*, QAbstractItemModelTester::FailureReportingMode, QObject*'']]"

definition ctor_qttexttospeech_0_0 :: "ctor_block list" where
  "ctor_qttexttospeech_0_0 = [
     CtorBlock QTextToSpeech 0 [
       Overload [TypeM QTCORE_QOBJECT] [] None],
     CtorBlock QTextToSpeech 1 [
       Overload [TypeM QTCORE_QOBJECT] [PString False] None],
     CtorBlock QTextToSpeech 2 [
       Overload [TypeM QTCORE_QOBJECT] [PString False, PVariantMap] None]]"

definition ctor_classes_qttexttospeech_0 :: "class_entry list" where
  "ctor_classes_qttexttospeech_0 = [
     ClassEntry QTextToSpeech [TypeM QTCORE_QOBJECT] [''QString, QVariantMap, QObject*'', QObject_ptr, ''QString, QObject*'']]"

definition ctor_qtwebchannel_0_0 :: "ctor_block list" where
  "ctor_qtwebchannel_0_0 = [
     CtorBlock ''QWebChannel'' 0 [
       Overload [TypeM QTCORE_QOBJECT] [] None],
     CtorBlock ''QWebChannelAbstractTransport'' 0 [
       Overload [TypeM QTCORE_QOBJECT] [] None]]"

definition ctor_classes_qtwebchannel_0 :: "class_entry list" where
  "ctor_classes_qtwebchannel_0 = [
     ClassEntry ''QWebChannel'' [TypeM QTCORE_QOBJECT] [QObject_ptr],
     ClassEntry ''QWebChannelAbstractTransport'' [TypeM QTCORE_QOBJECT] [QObject_ptr]]"

definition ctor_qtwebenginecore_0_0 :: "ctor_block list" where
  "ctor_qtwebenginecore_0_0 = [
     CtorBlock QWebEnginePage 0 [
       Overload [TypeM QTCORE_QOBJECT] [] None],
     CtorBlock QWebEnginePage 1 [
       Overload [TypeM QTCORE_QOBJECT, TypeM QTWEBENGINECORE_QWEBENGINEPROFILE] [PNonNull ''QWebEngineProfile*''] None],
     CtorBlock QWebEngineProfile 0 [
       Overload [TypeM QTCORE_QOBJECT] [] None],
     CtorBlock QWebEngineProfile 1 [
       Overload [TypeM QTCORE_QOBJECT] [PString False] None],
     CtorBlock ''QWebEngineUrlRequestInterceptor'' 0 [
       Overload [TypeM QTCORE_QOBJECT] [] None]]"

definition ctor_qtwebenginecore_0_1 :: "ctor_block list" where
  "ctor_qtwebenginecore_0_1 = [
     CtorBlock ''QWebEngineUrlSchemeHandler'' 0 [
       Overload [TypeM QTCORE_QOBJECT] [] None]]"

definition ctor_classes_qtwebenginecore_0 :: "class_entry list" where
  "ctor_classes_qtwebenginecore_0 = [
     ClassEntry QWebEnginePage [TypeM QTCORE_QOBJECT, TypeM QTWEBENGINECORE_QWEBENGINEPROFILE] [''QWebEngineProfile*, QObject*'', QObject_ptr],
     ClassEntry QWebEngineProfile [TypeM QTCORE_QOBJECT] [QObject_ptr, ''QString, QObject*''],
     ClassEntry ''QWebEngineUrlRequestInterceptor'' [TypeM QTCORE_QOBJECT] [QObject_ptr],
     ClassEntry ''QWebEngineUrlSchemeHandler'' [TypeM QTCORE_QOBJECT] [QObject_ptr]]"

definition ctor_qtwebenginequick_0_0 :: "ctor_block list" where
  "ctor_qtwebenginequick_0_0 = [
     CtorBlock QQuickWebEngineProfile 0 [
       Overload [TypeM QTCORE_QOBJECT] [] None]]"

definition ctor_classes_qtwebenginequick_0 :: "class_entry list" where
  "ctor_classes_qtwebenginequick_0 = [
     ClassEntry QQuickWebEngineProfile [TypeM QTCORE_QOBJECT] [QObject_ptr]]"

definition ctor_qtwebenginewidgets_0_0 :: "ctor_block list" where
  "ctor_qtwebenginewidgets_0_0 = [
     CtorBlock QWebEngineView 0 [
       Overload [TypeM QTWIDGETS_QWIDGET] [] None]]"

definition ctor_classes_qtwebenginewidgets_0 :: "class_entry list" where
  "ctor_classes_qtwebenginewidgets_0 = [
     ClassEntry QWebEngineView [TypeM QTWIDGETS_QWIDGET] [QWidget_ptr]]"

definition ctor_qtwebsockets_0_0 :: "ctor_block list" where
  "ctor_qtwebsockets_0_0 = [
     CtorBlock ''QMaskGenerator'' 0 [
       Overload [TypeM QTCORE_QOBJECT] [] None],
     CtorBlock QWebSocketServer 2 [
       Overload [TypeM QTCORE_QOBJECT, TypeM ''QTWEBSOCKETS_QWEBSOCKETSERVER''] [PString False, PConv ''QWebSocketServer::SslMode''] None]]"

definition ctor_classes_qtwebsockets_0 :: "class_entry list" where
  "ctor_classes_qtwebsockets_0 = [
     ClassEntry ''QMaskGenerator'' [TypeM QTCORE_QOBJECT] [QObject_ptr],
     ClassEntry QWebSocketServer [TypeM QTCORE_QOBJECT, TypeM ''QTWEBSOCKETS_QWEBSOCKETSERVER''] [''QString, QWebSocketServer::SslMode, QObject*'']]"

definition ctor_qtwidgets_0_0 :: "ctor_block list" where
  "ctor_qtwidgets_0_0 = [
     CtorBlock QAbstractButton 0 [
       Overload [TypeM QTWIDGETS_QWIDGET] [] None],
     CtorBlock ''QAbstractItemDelegate'' 0 [
       Overload [TypeM QTCORE_QOBJECT] [] None],
     CtorBlock QAbstractItemView 0 [
       Overload [TypeM QTWIDGETS_QWIDGET] [] None],
     CtorBlock QAbstractScrollArea 0 [
       Overload [TypeM QTWIDGETS_QWIDGET] [] None],
     CtorBlock QAbstractSlider 0 [
       Overload [TypeM QTWIDGETS_QWIDGET] [] None]]"

definition ctor_qtwidgets_0_1 :: "ctor_block list" where
  "ctor_qtwidgets_0_1 = [
     CtorBlock QAbstractSpinBox 0 [
       Overload [TypeM QTWIDGETS_QWIDGET] [] None],
     CtorBlock QBoxLayout 1 [
       Overload [TypeM ''QTWIDGETS_QBOXLAYOUT'', TypeM QTWIDGETS_QWIDGET] [PConv ''QBoxLayout::Direction''] None],
     CtorBlock ''QButtonGroup'' 0 [
       Overload [TypeM QTCORE_QOBJECT] [] None],
     CtorBlock QCalendarWidget 0 [
       Overload [TypeM QTWIDGETS_QWIDGET] [] None],
     CtorBlock ''QCheckBox'' 0 [
       Overload [TypeM QTWIDGETS_QWIDGET] [] None]]"

definition ctor_qtwidgets_0_2 :: "ctor_block list" where
  "ctor_qtwidgets_0_2 = [
     CtorBlock ''QCheckBox'' 1 [
       Overload [TypeM QTWIDGETS_QWIDGET] [PString False] None],
     CtorBlock ''QColorDialog'' 0 [
       Overload [TypeM QTWIDGETS_QWIDGET] [] None],
     CtorBlock ''QColorDialog'' 1 [
       Overload [TypeM QTWIDGETS_QWIDGET, ValueM QTGUI_QCOLOR] [PConv QColor] None],
     CtorBlock ''QColumnView'' 0 [
       Overload [TypeM QTWIDGETS_QWIDGET] [] None],
     CtorBlock QComboBox 0 [
       Overload [TypeM QTWIDGETS_QWIDGET] [] None]]"

definition ctor_qtwidgets_0_3 :: "ctor_block list" where
  "ctor_qtwidgets_0_3 = [
     CtorBlock ''QCommandLinkButton'' 0 [
       Overload [TypeM QTWIDGETS_QWIDGET] [] None],
     CtorBlock ''QCommandLinkButton'' 1 [
       Overload [TypeM QTWIDGETS_QWIDGET] [PString False] None],
     CtorBlock ''QCommandLinkButton'' 2 [
       Overload [TypeM QTWIDGETS_QWIDGET] [PString False, PString False] None],
     CtorBlock ''QCommonStyle'' 0 [
       Overload [] [] None],
     CtorBlock QCompleter 0 [
       Overload [TypeM QTCORE_QOBJECT] [] None]]"

definition ctor_qtwidgets_0_4 :: "ctor_block list" where
  "ctor_qtwidgets_0_4 = [
     CtorBlock QCompleter 1 [
       Overload [TypeM QTCORE_QABSTRACTITEMMODEL, TypeM QTCORE_QOBJECT] [PNonNull QAbstractItemModel_ptr] None,
       Overload [TypeM QTCORE_QOBJECT] [PStringList] None],
     CtorBlock QDataWidgetMapper 0 [
       Overload [TypeM QTCORE_QOBJECT] [] None],
     CtorBlock ''QDateEdit'' 0 [
       Overload [TypeM QTWIDGETS_QWIDGET] [] None],
     CtorBlock ''QDateEdit'' 1 [
       Overload [TypeM QTWIDGETS_QWIDGET, ValueM QTCORE_QDATE] [PConv QDate] None]]"

definition ctor_qtwidgets_0_5 :: "ctor_block list" where
  "ctor_qtwidgets_0_5 = [
     CtorBlock QDateTimeEdit 0 [
       Overload [TypeM QTWIDGETS_QWIDGET] [] None],
     CtorBlock QDateTimeEdit 1 [
       Overload [TypeM QTWIDGETS_QWIDGET, ValueM QTCORE_QDATETIME] [PConv QDateTime] None,
       Overload [TypeM QTWIDGETS_QWIDGET, ValueM QTCORE_QDATE] [PConv QDate] None,
       Overload [TypeM QTWIDGETS_QWIDGET, ValueM QTCORE_QTIME] [PConv QTime] None],
     CtorBlock ''QDial'' 0 [
       Overload [TypeM QTWIDGETS_QWIDGET] [] None]]"

definition ctor_qtwidgets_0_6 :: "ctor_block list" where
  "ctor_qtwidgets_0_6 = [
     CtorBlock ''QDialog'' 0 [
       Overload [EnumM QT_WINDOWFLAGS, TypeM QTWIDGETS_QWIDGET] [] None],
     CtorBlock ''QDialog'' 1 [
       Overload [EnumM QT_WINDOWFLAGS, TypeM QTWIDGETS_QWIDGET] [PConv Qt_WindowFlags] (Some (0, QWidget))],
     CtorBlock QDialogButtonBox 0 [
       Overload [TypeM QTWIDGETS_QWIDGET] [] None],
     CtorBlock QDialogButtonBox 1 [
       Overload [EnumM QT_ORIENTATION, TypeM QTWIDGETS_QWIDGET] [PConv Qt_Orientation] None,
       Overload [TypeM QTWIDGETS_QDIALOGBUTTONBOX, TypeM QTWIDGETS_QWIDGET] [PConv ''QDialogButtonBox::StandardButtons''] None]]"

definition ctor_qtwidgets_0_7 :: "ctor_block list" where
  "ctor_qtwidgets_0_7 = [
     CtorBlock QDialogButtonBox 2 [
       Overload [EnumM QT_ORIENTATION, TypeM QTWIDGETS_QDIALOGBUTTONBOX, TypeM QTWIDGETS_QWIDGET] [PConv ''QDialogButtonBox::StandardButtons'', PConv Qt_Orientation] None],
     CtorBlock ''QDockWidget'' 0 [
       Overload [EnumM QT_WINDOWFLAGS, TypeM QTWIDGETS_QWIDGET] [] None],
     CtorBlock ''QDockWidget'' 1 [
       Overload [EnumM QT_WINDOWFLAGS, TypeM QTWIDGETS_QWIDGET] [PString False] None,
       Overload [EnumM QT_WINDOWFLAGS, TypeM QTWIDGETS_QWIDGET] [PConv Qt_WindowFlags] (Some (0, QWidget))],
     CtorBlock ''QDockWidget'' 2 [
       Overload [EnumM QT_WINDOWFLAGS, TypeM QTWIDGETS_QWIDGET] [PString False, PConv Qt_WindowFlags] (Some (1, QWidget))]]"

definition ctor_qtwidgets_0_8 :: "ctor_block list" where
  "ctor_qtwidgets_0_8 = [
     CtorBlock QDoubleSpinBox 0 [
       Overload [TypeM QTWIDGETS_QWIDGET] [] None]]"

definition ctor_classes_qtwidgets_0 :: "class_entry list" where
  "ctor_classes_qtwidgets_0 = [
     ClassEntry QAbstractButton [TypeM QTWIDGETS_QWIDGET] [QWidget_ptr],
     ClassEntry ''QAbstractItemDelegate'' [TypeM QTCORE_QOBJECT] [QObject_ptr],
     ClassEntry QAbstractItemView [TypeM QTWIDGETS_QWIDGET] [QWidget_ptr],
     ClassEntry QAbstractScrollArea [TypeM QTWIDGETS_QWIDGET] [QWidget_ptr],
     ClassEntry QAbstractSlider [TypeM QTWIDGETS_QWIDGET] [QWidget_ptr],
     ClassEntry QAbstractSpinBox [TypeM QTWIDGETS_QWIDGET] [QWidget_ptr],
     ClassEntry QBoxLayout [TypeM ''QTWIDGETS_QBOXLAYOUT'', TypeM QTWIDGETS_QWIDGET] [''QBoxLayout::Direction, QWidget*''],
     ClassEntry ''QButtonGroup'' [TypeM QTCORE_QOBJECT] [QObject_ptr],
     ClassEntry QCalendarWidget [TypeM QTWIDGETS_QWIDGET] [QWidget_ptr],
     ClassEntry ''QCheckBox'' [TypeM QTWIDGETS_QWIDGET] [QWidget_ptr, ''QString, QWidget*''],
     ClassEntry ''QColorDialog'' [TypeM QTWIDGETS_QWIDGET, ValueM QTGUI_QCOLOR] [QWidget_ptr, ''QColor, QWidget*''],
     ClassEntry ''QColumnView'' [TypeM QTWIDGETS_QWIDGET] [QWidget_ptr],
     ClassEntry QComboBox [TypeM QTWIDGETS_QWIDGET] [QWidget_ptr],
     ClassEntry ''QCommandLinkButton'' [TypeM QTWIDGETS_QWIDGET] [QWidget_ptr, ''QString, QWidget*'', ''QString, QString, QWidget*''],
     ClassEntry ''QCommonStyle'' [] [''''],
     ClassEntry QCompleter [TypeM QTCORE_QABSTRACTITEMMODEL, TypeM QTCORE_QOBJECT] [''QAbstractItemModel*, QObject*'', ''QStringList, QObject*'', QObject_ptr],
     ClassEntry QDataWidgetMapper [TypeM QTCORE_QOBJECT] [QObject_ptr],
     ClassEntry ''QDateEdit'' [TypeM QTWIDGETS_QWIDGET, ValueM QTCORE_QDATE] [QWidget_ptr, ''QDate, QWidget*''],
     ClassEntry QDateTimeEdit [TypeM QTWIDGETS_QWIDGET, ValueM QTCORE_QDATE, ValueM QTCORE_QDATETIME, ValueM QTCORE_QTIME] [QWidget_ptr, ''QDateTime, QWidget*'', ''QDate, QWidget*'', ''QTime, QWidget*''],
     ClassEntry ''QDial'' [TypeM QTWIDGETS_QWIDGET] [QWidget_ptr],
     ClassEntry ''QDialog'' [EnumM QT_WINDOWFLAGS, TypeM QTWIDGETS_QWIDGET] [''QWidget*, Qt::WindowFlags''],
     ClassEntry QDialogButtonBox [EnumM QT_ORIENTATION, TypeM QTWIDGETS_QDIALOGBUTTONBOX, TypeM QTWIDGETS_QWIDGET] [QWidget_ptr, ''Qt::Orientation, QWidget*'', ''QDialogButtonBox::StandardButtons, QWidget*'', ''QDialogButtonBox::StandardButtons, Qt::Orientation, QWidget*''],
     ClassEntry ''QDockWidget'' [EnumM QT_WINDOWFLAGS, TypeM QTWIDGETS_QWIDGET] [''QString, QWidget*, Qt::WindowFlags'', ''QWidget*, Qt::WindowFlags''],
     ClassEntry QDoubleSpinBox [TypeM QTWIDGETS_QWIDGET] [QWidget_ptr]]"

definition ctor_qtwidgets_1_0 :: "ctor_block list" where
  "ctor_qtwidgets_1_0 = [
     CtorBlock ''QErrorMessage'' 0 [
       Overload [TypeM QTWIDGETS_QWIDGET] [] None],
     CtorBlock QFileDialog 0 [
       Overload [TypeM QTWIDGETS_QWIDGET] [] None],
     CtorBlock QFileDialog 1 [
       Overload [TypeM QTWIDGETS_QWIDGET] [PString False] (Some (0, QWidget))],
     CtorBlock QFileDialog 2 [
       Overload [TypeM QTWIDGETS_QWIDGET] [PString False, PString False] (Some (0, QWidget))],
     CtorBlock QFileDialog 3 [
       Overload [TypeM QTWIDGETS_QWIDGET] [PString False, PString False, PString False] (Some (0, QWidget))]]"

definition ctor_qtwidgets_1_1 :: "ctor_block list" where
  "ctor_qtwidgets_1_1 = [
     CtorBlock ''QFocusFrame'' 0 [
       Overload [TypeM QTWIDGETS_QWIDGET] [] None],
     CtorBlock ''QFontComboBox'' 0 [
       Overload [TypeM QTWIDGETS_QWIDGET] [] None],
     CtorBlock ''QFontDialog'' 0 [
       Overload [TypeM QTWIDGETS_QWIDGET] [] None],
     CtorBlock ''QFontDialog'' 1 [
       Overload [TypeM QTWIDGETS_QWIDGET, ValueM QTGUI_QFONT] [PConv QFont] None],
     CtorBlock QFormLayout 0 [
       Overload [TypeM QTWIDGETS_QWIDGET] [] None]]"

definition ctor_qtwidgets_1_2 :: "ctor_block list" where
  "ctor_qtwidgets_1_2 = [
     CtorBlock ''QFrame'' 0 [
       Overload [EnumM QT_WINDOWFLAGS, TypeM QTWIDGETS_QWIDGET] [] None],
     CtorBlock ''QFrame'' 1 [
       Overload [EnumM QT_WINDOWFLAGS, TypeM QTWIDGETS_QWIDGET] [PConv Qt_WindowFlags] (Some (0, QWidget))],
     CtorBlock ''QGesture'' 0 [
       Overload [TypeM QTCORE_QOBJECT] [] None],
     CtorBlock ''QGraphicsBlurEffect'' 0 [
       Overload [TypeM QTCORE_QOBJECT] [] None],
     CtorBlock ''QGraphicsColorizeEffect'' 0 [
       Overload [TypeM QTCORE_QOBJECT] [] None]]"

definition ctor_qtwidgets_1_3 :: "ctor_block list" where
  "ctor_qtwidgets_1_3 = [
     CtorBlock QGraphicsDropShadowEffect 0 [
       Overload [TypeM QTCORE_QOBJECT] [] None],
     CtorBlock ''QGraphicsEffect'' 0 [
       Overload [TypeM QTCORE_QOBJECT] [] None],
     CtorBlock ''QGraphicsOpacityEffect'' 0 [
       Overload [TypeM QTCORE_QOBJECT] [] None],
     CtorBlock ''QGraphicsRotation'' 0 [
       Overload [TypeM QTCORE_QOBJECT] [] None],
     CtorBlock ''QGraphicsScale'' 0 [
       Overload [TypeM QTCORE_QOBJECT] [] None]]"

definition ctor_qtwidgets_1_4 :: "ctor_block list" where
  "ctor_qtwidgets_1_4 = [
     CtorBlock QGraphicsScene 0 [
       Overload [TypeM QTCORE_QOBJECT] [] None],
     CtorBlock QGraphicsScene 1 [
       Overload [TypeM QTCORE_QOBJECT, ValueM QTCORE_QRECTF] [PConv QRectF] None],
     CtorBlock QGraphicsScene 4 [
       Overload [TypeM QTCORE_QOBJECT] [PReal ''qreal'', PReal ''qreal'', PReal ''qreal'', PReal ''qreal''] None],
     CtorBlock ''QGraphicsTransform'' 0 [
       Overload [TypeM QTCORE_QOBJECT] [] None],
     CtorBlock QGraphicsView 0 [
       Overload [TypeM QTWIDGETS_QWIDGET] [] None]]"

definition ctor_qtwidgets_1_5 :: "ctor_block list" where
  "ctor_qtwidgets_1_5 = [
     CtorBlock QGraphicsView 1 [
       Overload [TypeM ''QTWIDGETS_QGRAPHICSSCENE'', TypeM QTWIDGETS_QWIDGET] [PNonNull ''QGraphicsScene*''] None],
     CtorBlock QGridLayout 0 [
       Overload [TypeM QTWIDGETS_QWIDGET] [] None],
     CtorBlock ''QGroupBox'' 0 [
       Overload [TypeM QTWIDGETS_QWIDGET] [] None],
     CtorBlock ''QGroupBox'' 1 [
       Overload [TypeM QTWIDGETS_QWIDGET] [PString False] None]]"

definition ctor_qtwidgets_1_6 :: "ctor_block list" where
  "ctor_qtwidgets_1_6 = [
     CtorBlock ''QHBoxLayout'' 0 [
       Overload [] [] None,
       Overload [TypeM QTWIDGETS_QWIDGET] [] (Some (0, QWidget))],
     CtorBlock QHeaderView 1 [
       Overload [EnumM QT_ORIENTATION, TypeM QTWIDGETS_QWIDGET] [PConv Qt_Orientation] None],
     CtorBlock QInputDialog 0 [
       Overload [EnumM QT_WINDOWFLAGS, TypeM QTWIDGETS_QWIDGET] [] None],
     CtorBlock QInputDialog 1 [
       Overload [EnumM QT_WINDOWFLAGS, TypeM QTWIDGETS_QWIDGET] [PConv Qt_WindowFlags] (Some (0, QWidget))]]"

definition ctor_qtwidgets_1_7 :: "ctor_block list" where
  "ctor_qtwidgets_1_7 = [
     CtorBlock ''QItemDelegate'' 0 [
       Overload [TypeM QTCORE_QOBJECT] [] None]]"

definition ctor_classes_qtwidgets_1 :: "class_entry list" where
  "ctor_classes_qtwidgets_1 = [
     ClassEntry ''QErrorMessage'' [TypeM QTWIDGETS_QWIDGET] [QWidget_ptr],
     ClassEntry QFileDialog [EnumM QT_WINDOWFLAGS, TypeM QTWIDGETS_QWIDGET] [''QWidget*, Qt::WindowFlags'', ''QWidget*, QString, QString, QString''],
     ClassEntry ''QFocusFrame'' [TypeM QTWIDGETS_QWIDGET] [QWidget_ptr],
     ClassEntry ''QFontComboBox'' [TypeM QTWIDGETS_QWIDGET] [QWidget_ptr],
     ClassEntry ''QFontDialog'' [TypeM QTWIDGETS_QWIDGET, ValueM QTGUI_QFONT] [QWidget_ptr, ''QFont, QWidget*''],
     ClassEntry QFormLayout [TypeM QTWIDGETS_QWIDGET] [QWidget_ptr],
     ClassEntry ''QFrame'' [EnumM QT_WINDOWFLAGS, TypeM QTWIDGETS_QWIDGET] [''QWidget*, Qt::WindowFlags''],
     ClassEntry ''QGesture'' [TypeM QTCORE_QOBJECT] [QObject_ptr],
     ClassEntry ''QGraphicsBlurEffect'' [TypeM QTCORE_QOBJECT] [QObject_ptr],
     ClassEntry ''QGraphicsColorizeEffect'' [TypeM QTCORE_QOBJECT] [QObject_ptr],
     ClassEntry QGraphicsDropShadowEffect [TypeM QTCORE_QOBJECT] [QObject_ptr],
     ClassEntry ''QGraphicsEffect'' [TypeM QTCORE_QOBJECT] [QObject_ptr],
     ClassEntry ''QGraphicsOpacityEffect'' [TypeM QTCORE_QOBJECT] [QObject_ptr],
     ClassEntry ''QGraphicsRotation'' [TypeM QTCORE_QOBJECT] [QObject_ptr],
     ClassEntry ''QGraphicsScale'' [TypeM QTCORE_QOBJECT] [QObject_ptr],
     ClassEntry QGraphicsScene [TypeM QTCORE_QOBJECT, ValueM QTCORE_QRECTF] [QObject_ptr, ''QRectF, QObject*'', ''qreal, qreal, qreal, qreal, QObject*''],
     ClassEntry ''QGraphicsTransform'' [TypeM QTCORE_QOBJECT] [QObject_ptr],
     ClassEntry QGraphicsView [TypeM ''QTWIDGETS_QGRAPHICSSCENE'', TypeM QTWIDGETS_QWIDGET] [QWidget_ptr, ''QGraphicsScene*, QWidget*''],
     ClassEntry QGridLayout [TypeM QTWIDGETS_QWIDGET] [QWidget_ptr],
     ClassEntry ''QGroupBox'' [TypeM QTWIDGETS_QWIDGET] [QWidget_ptr, ''QString, QWidget*''],
     ClassEntry ''QHBoxLayout'' [TypeM QTWIDGETS_QWIDGET] ['''', QWidget_ptr],
     ClassEntry QHeaderView [EnumM QT_ORIENTATION, TypeM QTWIDGETS_QWIDGET] [''Qt::Orientation, QWidget*''],
     ClassEntry QInputDialog [EnumM QT_WINDOWFLAGS, TypeM QTWIDGETS_QWIDGET] [''QWidget*, Qt::WindowFlags''],
     ClassEntry ''QItemDelegate'' [TypeM QTCORE_QOBJECT] [QObject_ptr]]"

definition ctor_qtwidgets_2_0 :: "ctor_block list" where
  "ctor_qtwidgets_2_0 = [
     CtorBlock ''QKeySequenceEdit'' 0 [
       Overload [TypeM QTWIDGETS_QWIDGET] [] None],
     CtorBlock ''QKeySequenceEdit'' 1 [
       Overload [TypeM QTWIDGETS_QWIDGET, ValueM QTGUI_QKEYSEQUENCE] [PConv QKeySequence] None],
     CtorBlock QLCDNumber 0 [
       Overload [TypeM QTWIDGETS_QWIDGET] [] None],
     CtorBlock QLCDNumber 1 [
       Overload [TypeM QTWIDGETS_QWIDGET] [PUInt] None],
     CtorBlock ''QLabel'' 0 [
       Overload [EnumM QT_WINDOWFLAGS, TypeM QTWIDGETS_QWIDGET] [] None]]"

definition ctor_qtwidgets_2_1 :: "ctor_block list" where
  "ctor_qtwidgets_2_1 = [
     CtorBlock ''QLabel'' 1 [
       Overload [EnumM QT_WINDOWFLAGS, TypeM QTWIDGETS_QWIDGET] [PConv Qt_WindowFlags] (Some (0, QWidget)),
       Overload [EnumM QT_WINDOWFLAGS, TypeM QTWIDGETS_QWIDGET] [PString False] None],
     CtorBlock ''QLabel'' 2 [
       Overload [EnumM QT_WINDOWFLAGS, TypeM QTWIDGETS_QWIDGET] [PString False, PConv Qt_WindowFlags] (Some (1, QWidget))],
     CtorBlock QLayout 0 [
       Overload [TypeM QTWIDGETS_QWIDGET] [] None],
     CtorBlock QLineEdit 0 [
       Overload [TypeM QTWIDGETS_QWIDGET] [] None]]"

definition ctor_qtwidgets_2_2 :: "ctor_block list" where
  "ctor_qtwidgets_2_2 = [
     CtorBlock QLineEdit 1 [
       Overload [TypeM QTWIDGETS_QWIDGET] [PString False] None],
     CtorBlock QListView 0 [
       Overload [TypeM QTWIDGETS_QWIDGET] [] None],
     CtorBlock ''QListWidget'' 0 [
       Overload [TypeM QTWIDGETS_QWIDGET] [] None],
     CtorBlock QMainWindow 0 [
       Overload [EnumM QT_WINDOWFLAGS, TypeM QTWIDGETS_QWIDGET] [] None],
     CtorBlock QMainWindow 1 [
       Overload [EnumM QT_WINDOWFLAGS, TypeM QTWIDGETS_QWIDGET] [PConv Qt_WindowFlags] (Some (0, QWidget))]]"

definition ctor_qtwidgets_2_3 :: "ctor_block list" where
  "ctor_qtwidgets_2_3 = [
     CtorBlock QMdiArea 0 [
       Overload [TypeM QTWIDGETS_QWIDGET] [] None],
     CtorBlock ''QMdiSubWindow'' 0 [
       Overload [EnumM QT_WINDOWFLAGS, TypeM QTWIDGETS_QWIDGET] [] None],
     CtorBlock ''QMdiSubWindow'' 1 [
       Overload [EnumM QT_WINDOWFLAGS, TypeM QTWIDGETS_QWIDGET] [PConv Qt_WindowFlags] (Some (0, QWidget))],
     CtorBlock ''QMenu'' 0 [
       Overload [TypeM QTWIDGETS_QWIDGET] [] None],
     CtorBlock ''QMenu'' 1 [
       Overload [TypeM QTWIDGETS_QWIDGET] [PString False] None]]"

definition ctor_qtwidgets_2_4 :: "ctor_block list" where
  "ctor_qtwidgets_2_4 = [
     CtorBlock ''QMenuBar'' 0 [
       Overload [TypeM QTWIDGETS_QWIDGET] [] None],
     CtorBlock QMessageBox 0 [
       Overload [TypeM QTWIDGETS_QWIDGET] [] None],
     CtorBlock QMessageBox 3 [
       Overload [EnumM QT_WINDOWFLAGS, TypeM QTWIDGETS_QMESSAGEBOX, TypeM QTWIDGETS_QWIDGET] [PConv ''QMessageBox::Icon'', PString False, PString False] None],
     CtorBlock QMessageBox 4 [
       Overload [EnumM QT_WINDOWFLAGS, TypeM QTWIDGETS_QMESSAGEBOX, TypeM QTWIDGETS_QWIDGET] [PConv ''QMessageBox::Icon'', PString False, PString False, PConv ''QMessageBox::StandardButtons''] None]]"

definition ctor_qtwidgets_2_5 :: "ctor_block list" where
  "ctor_qtwidgets_2_5 = [
     CtorBlock QMessageBox 5 [
       Overload [EnumM QT_WINDOWFLAGS, TypeM QTWIDGETS_QMESSAGEBOX, TypeM QTWIDGETS_QWIDGET] [PConv ''QMessageBox::Icon'', PString False, PString False, PConv ''QMessageBox::StandardButtons'', PConv Qt_WindowFlags] (Some (4, QWidget))],
     CtorBlock ''QPanGesture'' 0 [
       Overload [TypeM QTCORE_QOBJECT] [] None],
     CtorBlock QPinchGesture 0 [
       Overload [TypeM QTCORE_QOBJECT] [] None],
     CtorBlock QPlainTextDocumentLayout 1 [
       Overload [TypeM QTGUI_QTEXTDOCUMENT] [PNonNull QTextDocument_ptr] None],
     CtorBlock QPlainTextEdit 0 [
       Overload [TypeM QTWIDGETS_QWIDGET] [] None]]"

definition ctor_qtwidgets_2_6 :: "ctor_block list" where
  "ctor_qtwidgets_2_6 = [
     CtorBlock QPlainTextEdit 1 [
       Overload [TypeM QTWIDGETS_QWIDGET] [PString False] None],
     CtorBlock QProgressBar 0 [
       Overload [TypeM QTWIDGETS_QWIDGET] [] None],
     CtorBlock QProgressDialog 0 [
       Overload [EnumM QT_WINDOWFLAGS, TypeM QTWIDGETS_QWIDGET] [] None],
     CtorBlock QProgressDialog 1 [
       Overload [EnumM QT_WINDOWFLAGS, TypeM QTWIDGETS_QWIDGET] [PConv Qt_WindowFlags] (Some (0, QWidget))],
     CtorBlock QProgressDialog 4 [
       Overload [EnumM QT_WINDOWFLAGS, TypeM QTWIDGETS_QWIDGET] [PString False, PString False, PInt, PInt] None]]"

definition ctor_qtwidgets_2_7 :: "ctor_block list" where
  "ctor_qtwidgets_2_7 = [
     CtorBlock QProgressDialog 5 [
       Overload [EnumM QT_WINDOWFLAGS, TypeM QTWIDGETS_QWIDGET] [PString False, PString False, PInt, PInt, PConv Qt_WindowFlags] (Some (4, QWidget))],
     CtorBlock ''QProxyStyle'' 0 [
       Overload [TypeM QTWIDGETS_QSTYLE] [] None],
     CtorBlock ''QProxyStyle'' 1 [
       Overload [TypeM QTWIDGETS_QSTYLE] [PNonNull ''QStyle*''] None,
       Overload [] [PString False] None],
     CtorBlock ''QPushButton'' 0 [
       Overload [TypeM QTWIDGETS_QWIDGET] [] None]]"

definition ctor_qtwidgets_2_8 :: "ctor_block list" where
  "ctor_qtwidgets_2_8 = [
     CtorBlock ''QPushButton'' 1 [
       Overload [TypeM QTWIDGETS_QWIDGET] [PString False] None],
     CtorBlock ''QPushButton'' 2 [
       Overload [TypeM QTWIDGETS_QWIDGET, ValueM QTGUI_QICON] [PConv QIcon, PString False] None],
     CtorBlock ''QRadioButton'' 0 [
       Overload [TypeM QTWIDGETS_QWIDGET] [] None],
     CtorBlock ''QRadioButton'' 1 [
       Overload [TypeM QTWIDGETS_QWIDGET] [PString False] None],
     CtorBlock ''QRubberBand'' 1 [
       Overload [TypeM ''QTWIDGETS_QRUBBERBAND'', TypeM QTWIDGETS_QWIDGET] [PConv ''QRubberBand::Shape''] None]]"

definition ctor_qtwidgets_2_9 :: "ctor_block list" where
  "ctor_qtwidgets_2_9 = [
     CtorBlock ''QScrollArea'' 0 [
       Overload [TypeM QTWIDGETS_QWIDGET] [] None]]"

definition ctor_classes_qtwidgets_2 :: "class_entry list" where
  "ctor_classes_qtwidgets_2 = [
     ClassEntry ''QKeySequenceEdit'' [TypeM QTWIDGETS_QWIDGET, ValueM QTGUI_QKEYSEQUENCE] [QWidget_ptr, ''QKeySequence, QWidget*''],
     ClassEntry QLCDNumber [TypeM QTWIDGETS_QWIDGET] [QWidget_ptr, ''unsigned int, QWidget*''],
     ClassEntry ''QLabel'' [EnumM QT_WINDOWFLAGS, TypeM QTWIDGETS_QWIDGET] [''QWidget*, Qt::WindowFlags'', ''QString, QWidget*, Qt::WindowFlags''],
     ClassEntry QLayout [TypeM QTWIDGETS_QWIDGET] [QWidget_ptr],
     ClassEntry QLineEdit [TypeM QTWIDGETS_QWIDGET] [QWidget_ptr, ''QString, QWidget*''],
     ClassEntry QListView [TypeM QTWIDGETS_QWIDGET] [QWidget_ptr],
     ClassEntry ''QListWidget'' [TypeM QTWIDGETS_QWIDGET] [QWidget_ptr],
     ClassEntry QMainWindow [EnumM QT_WINDOWFLAGS, TypeM QTWIDGETS_QWIDGET] [''QWidget*, Qt::WindowFlags''],
     ClassEntry QMdiArea [TypeM QTWIDGETS_QWIDGET] [QWidget_ptr],
     ClassEntry ''QMdiSubWindow'' [EnumM QT_WINDOWFLAGS, TypeM QTWIDGETS_QWIDGET] [''QWidget*, Qt::WindowFlags''],
     ClassEntry ''QMenu'' [TypeM QTWIDGETS_QWIDGET] [QWidget_ptr, ''QString, QWidget*''],
     ClassEntry ''QMenuBar'' [TypeM QTWIDGETS_QWIDGET] [QWidget_ptr],
     ClassEntry QMessageBox [EnumM QT_WINDOWFLAGS, TypeM QTWIDGETS_QMESSAGEBOX, TypeM QTWIDGETS_QWIDGET] [QWidget_ptr, ''QMessageBox::Icon, QString, QString, QMessageBox::StandardButtons, QWidget*, Qt::WindowFlags''],
     ClassEntry ''QPanGesture'' [TypeM QTCORE_QOBJECT] [QObject_ptr],
     ClassEntry QPinchGesture [TypeM QTCORE_QOBJECT] [QObject_ptr],
     ClassEntry QPlainTextDocumentLayout [TypeM QTGUI_QTEXTDOCUMENT] [QTextDocument_ptr],
     ClassEntry QPlainTextEdit [TypeM QTWIDGETS_QWIDGET] [QWidget_ptr, ''QString, QWidget*''],
     ClassEntry QProgressBar [TypeM QTWIDGETS_QWIDGET] [QWidget_ptr],
     ClassEntry QProgressDialog [EnumM QT_WINDOWFLAGS, TypeM QTWIDGETS_QWIDGET] [''QWidget*, Qt::WindowFlags'', ''QString, QString, int, int, QWidget*, Qt::WindowFlags''],
     ClassEntry ''QProxyStyle'' [TypeM QTWIDGETS_QSTYLE] [''QStyle*'', QString],
     ClassEntry ''QPushButton'' [TypeM QTWIDGETS_QWIDGET, ValueM QTGUI_QICON] [QWidget_ptr, ''QString, QWidget*'', ''QIcon, QString, QWidget*''],
     ClassEntry ''QRadioButton'' [TypeM QTWIDGETS_QWIDGET] [QWidget_ptr, ''QString, QWidget*''],
     ClassEntry ''QRubberBand'' [TypeM ''QTWIDGETS_QRUBBERBAND'', TypeM QTWIDGETS_QWIDGET] [''QRubberBand::Shape, QWidget*''],
     ClassEntry ''QScrollArea'' [TypeM QTWIDGETS_QWIDGET] [QWidget_ptr]]"

definition ctor_qtwidgets_3_0 :: "ctor_block list" where
  "ctor_qtwidgets_3_0 = [
     CtorBlock ''QScrollBar'' 0 [
       Overload [TypeM QTWIDGETS_QWIDGET] [] None],
     CtorBlock ''QScrollBar'' 1 [
       Overload [EnumM QT_ORIENTATION, TypeM QTWIDGETS_QWIDGET] [PConv Qt_Orientation] None],
     CtorBlock ''QSizeGrip'' 0 [
       Overload [TypeM QTWIDGETS_QWIDGET] [] (Some (0, QWidget))],
     CtorBlock ''QSlider'' 0 [
       Overload [TypeM QTWIDGETS_QWIDGET] [] None],
     CtorBlock ''QSlider'' 1 [
       Overload [EnumM QT_ORIENTATION, TypeM QTWIDGETS_QWIDGET] [PConv Qt_Orientation] None]]"

definition ctor_qtwidgets_3_1 :: "ctor_block list" where
  "ctor_qtwidgets_3_1 = [
     CtorBlock ''QSpinBox'' 0 [
       Overload [TypeM QTWIDGETS_QWIDGET] [] None],
     CtorBlock ''QSplashScreen'' 0 [
       Overload [EnumM QT_WINDOWFLAGS, ValueM QTGUI_QPIXMAP] [] None],
     CtorBlock ''QSplashScreen'' 1 [
       Overload [EnumM QT_WINDOWFLAGS, ValueM QTGUI_QPIXMAP] [PConv QPixmap] None,
       Overload [EnumM QT_WINDOWFLAGS, TypeM QTGUI_QSCREEN, ValueM QTGUI_QPIXMAP] [PNonNull ''QScreen*''] None]]"

definition ctor_qtwidgets_3_2 :: "ctor_block list" where
  "ctor_qtwidgets_3_2 = [
     CtorBlock ''QSplashScreen'' 2 [
       Overload [EnumM QT_WINDOWFLAGS, ValueM QTGUI_QPIXMAP] [PConv QPixmap, PConv Qt_WindowFlags] None,
       Overload [EnumM QT_WINDOWFLAGS, TypeM QTGUI_QSCREEN, ValueM QTGUI_QPIXMAP] [PNonNull ''QScreen*'', PConv QPixmap] None],
     CtorBlock ''QSplashScreen'' 3 [
       Overload [EnumM QT_WINDOWFLAGS, TypeM QTGUI_QSCREEN, ValueM QTGUI_QPIXMAP] [PNonNull ''QScreen*'', PConv QPixmap, PConv Qt_WindowFlags] None],
     CtorBlock QSplitter 0 [
       Overload [TypeM QTWIDGETS_QWIDGET] [] None],
     CtorBlock QSplitter 1 [
       Overload [EnumM QT_ORIENTATION, TypeM QTWIDGETS_QWIDGET] [PConv Qt_Orientation] None]]"

definition ctor_qtwidgets_3_3 :: "ctor_block list" where
  "ctor_qtwidgets_3_3 = [
     CtorBlock ''QSplitterHandle'' 1 [
       Overload [EnumM QT_ORIENTATION, TypeM ''QTWIDGETS_QSPLITTER''] [PConv Qt_Orientation] (Some (1, QSplitter))],
     CtorBlock ''QStackedLayout'' 0 [
       Overload [] [] None,
       Overload [TypeM QTWIDGETS_QWIDGET] [] (Some (0, QWidget))],
     CtorBlock ''QStackedLayout'' 1 [
       Overload [TypeM QTWIDGETS_QLAYOUT] [PNonNull ''QLayout*''] None],
     CtorBlock ''QStackedWidget'' 0 [
       Overload [TypeM QTWIDGETS_QWIDGET] [] None]]"

definition ctor_qtwidgets_3_4 :: "ctor_block list" where
  "ctor_qtwidgets_3_4 = [
     CtorBlock ''QStatusBar'' 0 [
       Overload [TypeM QTWIDGETS_QWIDGET] [] None],
     CtorBlock ''QStyle'' 0 [
       Overload [] [] None],
     CtorBlock ''QStyledItemDelegate'' 0 [
       Overload [TypeM QTCORE_QOBJECT] [] None],
     CtorBlock ''QSwipeGesture'' 0 [
       Overload [TypeM QTCORE_QOBJECT] [] None],
     CtorBlock QSystemTrayIcon 0 [
       Overload [TypeM QTCORE_QOBJECT] [] None]]"

definition ctor_qtwidgets_3_5 :: "ctor_block list" where
  "ctor_qtwidgets_3_5 = [
     CtorBlock QSystemTrayIcon 1 [
       Overload [TypeM QTCORE_QOBJECT, ValueM QTGUI_QICON] [PConv QIcon] None],
     CtorBlock QTabBar 0 [
       Overload [TypeM QTWIDGETS_QWIDGET] [] None],
     CtorBlock QTabWidget 0 [
       Overload [TypeM QTWIDGETS_QWIDGET] [] None],
     CtorBlock QTableView 0 [
       Overload [TypeM QTWIDGETS_QWIDGET] [] None],
     CtorBlock QTableWidget 0 [
       Overload [TypeM QTWIDGETS_QWIDGET] [] None]]"

definition ctor_qtwidgets_3_6 :: "ctor_block list" where
  "ctor_qtwidgets_3_6 = [
     CtorBlock QTableWidget 2 [
       Overload [TypeM QTWIDGETS_QWIDGET] [PInt, PInt] None],
     CtorBlock ''QTapAndHoldGesture'' 0 [
       Overload [TypeM QTCORE_QOBJECT] [] None],
     CtorBlock ''QTapGesture'' 0 [
       Overload [TypeM QTCORE_QOBJECT] [] None],
     CtorBlock QTextBrowser 0 [
       Overload [TypeM QTWIDGETS_QWIDGET] [] None],
     CtorBlock QTextEdit 0 [
       Overload [TypeM QTWIDGETS_QWIDGET] [] None]]"

definition ctor_qtwidgets_3_7 :: "ctor_block list" where
  "ctor_qtwidgets_3_7 = [
     CtorBlock QTextEdit 1 [
       Overload [TypeM QTWIDGETS_QWIDGET] [PString False] None],
     CtorBlock ''QTimeEdit'' 0 [
       Overload [TypeM QTWIDGETS_QWIDGET] [] None],
     CtorBlock ''QTimeEdit'' 1 [
       Overload [TypeM QTWIDGETS_QWIDGET, ValueM QTCORE_QTIME] [PConv QTime] None],
     CtorBlock ''QToolBar'' 0 [
       Overload [TypeM QTWIDGETS_QWIDGET] [] None],
     CtorBlock ''QToolBar'' 1 [
       Overload [TypeM QTWIDGETS_QWIDGET] [PString False] None]]"

definition ctor_classes_qtwidgets_3 :: "class_entry list" where
  "ctor_classes_qtwidgets_3 = [
     ClassEntry ''QScrollBar'' [EnumM QT_ORIENTATION, TypeM QTWIDGETS_QWIDGET] [QWidget_ptr, ''Qt::Orientation, QWidget*''],
     ClassEntry ''QSizeGrip'' [TypeM QTWIDGETS_QWIDGET] [QWidget_ptr],
     ClassEntry ''QSlider'' [EnumM QT_ORIENTATION, TypeM QTWIDGETS_QWIDGET] [QWidget_ptr, ''Qt::Orientation, QWidget*''],
     ClassEntry ''QSpinBox'' [TypeM QTWIDGETS_QWIDGET] [QWidget_ptr],
     ClassEntry ''QSplashScreen'' [EnumM QT_WINDOWFLAGS, TypeM QTGUI_QSCREEN, ValueM QTGUI_QPIXMAP] [''QPixmap, Qt::WindowFlags'', ''QScreen*, QPixmap, Qt::WindowFlags''],
     ClassEntry QSplitter [EnumM QT_ORIENTATION, TypeM QTWIDGETS_QWIDGET] [QWidget_ptr, ''Qt::Orientation, QWidget*''],
     ClassEntry ''QSplitterHandle'' [EnumM QT_ORIENTATION, TypeM ''QTWIDGETS_QSPLITTER''] [''Qt::Orientation, QSplitter*''],
     ClassEntry ''QStackedLayout'' [TypeM QTWIDGETS_QLAYOUT, TypeM QTWIDGETS_QWIDGET] ['''', QWidget_ptr, ''QLayout*''],
     ClassEntry ''QStackedWidget'' [TypeM QTWIDGETS_QWIDGET] [QWidget_ptr],
     ClassEntry ''QStatusBar'' [TypeM QTWIDGETS_QWIDGET] [QWidget_ptr],
     ClassEntry ''QStyle'' [] [''''],
     ClassEntry ''QStyledItemDelegate'' [TypeM QTCORE_QOBJECT] [QObject_ptr],
     ClassEntry ''QSwipeGesture'' [TypeM QTCORE_QOBJECT] [QObject_ptr],
     ClassEntry QSystemTrayIcon [TypeM QTCORE_QOBJECT, ValueM QTGUI_QICON] [QObject_ptr, ''QIcon, QObject*''],
     ClassEntry QTabBar [TypeM QTWIDGETS_QWIDGET] [QWidget_ptr],
     ClassEntry QTabWidget [TypeM QTWIDGETS_QWIDGET] [QWidget_ptr],
     ClassEntry QTableView [TypeM QTWIDGETS_QWIDGET] [QWidget_ptr],
     ClassEntry QTableWidget [TypeM QTWIDGETS_QWIDGET] [QWidget_ptr, ''int, int, QWidget*''],
     ClassEntry ''QTapAndHoldGesture'' [TypeM QTCORE_QOBJECT] [QObject_ptr],
     ClassEntry ''QTapGesture'' [TypeM QTCORE_QOBJECT] [QObject_ptr],
     ClassEntry QTextBrowser [TypeM QTWIDGETS_QWIDGET] [QWidget_ptr],
     ClassEntry QTextEdit [TypeM QTWIDGETS_QWIDGET] [QWidget_ptr, ''QString, QWidget*''],
     ClassEntry ''QTimeEdit'' [TypeM QTWIDGETS_QWIDGET, ValueM QTCORE_QTIME] [QWidget_ptr, ''QTime, QWidget*''],
     ClassEntry ''QToolBar'' [TypeM QTWIDGETS_QWIDGET] [''QString, QWidget*'', QWidget_ptr]]"

definition ctor_qtwidgets_4_0 :: "ctor_block list" where
  "ctor_qtwidgets_4_0 = [
     CtorBlock ''QToolBox'' 0 [
       Overload [EnumM QT_WINDOWFLAGS, TypeM QTWIDGETS_QWIDGET] [] None],
     CtorBlock ''QToolBox'' 1 [
       Overload [EnumM QT_WINDOWFLAGS, TypeM QTWIDGETS_QWIDGET] [PConv Qt_WindowFlags] (Some (0, QWidget))],
     CtorBlock ''QToolButton'' 0 [
       Overload [TypeM QTWIDGETS_QWIDGET] [] None],
     CtorBlock QTreeView 0 [
       Overload [TypeM QTWIDGETS_QWIDGET] [] None],
     CtorBlock ''QTreeWidget'' 0 [
       Overload [TypeM QTWIDGETS_QWIDGET] [] None]]"

definition ctor_qtwidgets_4_1 :: "ctor_block list" where
  "ctor_qtwidgets_4_1 = [
     CtorBlock ''QUndoView'' 0 [
       Overload [TypeM QTWIDGETS_QWIDGET] [] None],
     CtorBlock ''QUndoView'' 1 [
       Overload [TypeM ''QTGUI_QUNDOSTACK'', TypeM QTWIDGETS_QWIDGET] [PNonNull ''QUndoStack*''] None,
       Overload [TypeM ''QTGUI_QUNDOGROUP'', TypeM QTWIDGETS_QWIDGET] [PNonNull ''QUndoGroup*''] None],
     CtorBlock ''QVBoxLayout'' 0 [
       Overload [] [] None,
       Overload [TypeM QTWIDGETS_QWIDGET] [] (Some (0, QWidget))]]"

definition ctor_qtwidgets_4_2 :: "ctor_block list" where
  "ctor_qtwidgets_4_2 = [
     CtorBlock QWidget 0 [
       Overload [EnumM QT_WINDOWFLAGS, TypeM QTWIDGETS_QWIDGET] [] None],
     CtorBlock QWidget 1 [
       Overload [EnumM QT_WINDOWFLAGS, TypeM QTWIDGETS_QWIDGET] [PConv Qt_WindowFlags] (Some (0, QWidget))],
     CtorBlock ''QWidgetAction'' 0 [
       Overload [TypeM QTCORE_QOBJECT] [] (Some (0, QObject))],
     CtorBlock QWizard 0 [
       Overload [EnumM QT_WINDOWFLAGS, TypeM QTWIDGETS_QWIDGET] [] None],
     CtorBlock QWizard 1 [
       Overload [EnumM QT_WINDOWFLAGS, TypeM QTWIDGETS_QWIDGET] [PConv Qt_WindowFlags] (Some (0, QWidget))]]"

definition ctor_qtwidgets_4_3 :: "ctor_block list" where
  "ctor_qtwidgets_4_3 = [
     CtorBlock ''QWizardPage'' 0 [
       Overload [TypeM QTWIDGETS_QWIDGET] [] None]]"

definition ctor_classes_qtwidgets_4 :: "class_entry list" where
  "ctor_classes_qtwidgets_4 = [
     ClassEntry ''QToolBox'' [EnumM QT_WINDOWFLAGS, TypeM QTWIDGETS_QWIDGET] [''QWidget*, Qt::WindowFlags''],
     ClassEntry ''QToolButton'' [TypeM QTWIDGETS_QWIDGET] [QWidget_ptr],
     ClassEntry QTreeView [TypeM QTWIDGETS_QWIDGET] [QWidget_ptr],
     ClassEntry ''QTreeWidget'' [TypeM QTWIDGETS_QWIDGET] [QWidget_ptr],
     ClassEntry ''QUndoView'' [TypeM ''QTGUI_QUNDOGROUP'', TypeM ''QTGUI_QUNDOSTACK'', TypeM QTWIDGETS_QWIDGET] [QWidget_ptr, ''QUndoStack*, QWidget*'', ''QUndoGroup*, QWidget*''],
     ClassEntry ''QVBoxLayout'' [TypeM QTWIDGETS_QWIDGET] ['''', QWidget_ptr],
     ClassEntry QWidget [EnumM QT_WINDOWFLAGS, TypeM QTWIDGETS_QWIDGET] [''QWidget*, Qt::WindowFlags''],
     ClassEntry ''QWidgetAction'' [TypeM QTCORE_QOBJECT] [QObject_ptr],
     ClassEntry QWizard [EnumM QT_WINDOWFLAGS, TypeM QTWIDGETS_QWIDGET] [''QWidget*, Qt::WindowFlags''],
     ClassEntry ''QWizardPage'' [TypeM QTWIDGETS_QWIDGET] [QWidget_ptr]]"

definition ctor_table_b :: "(string \<times> ctor_shard) list" where
  "ctor_table_b = [
     (''qtnetwork_0'', \<lparr>cs_module = ''QtNetwork'', cs_slug = ''QTNETWORK'',
        cs_blocks = concat [ctor_qtnetwork_0_0, ctor_qtnetwork_0_1, ctor_qtnetwork_0_2, ctor_qtnetwork_0_3],
        cs_classes = ctor_classes_qtnetwork_0\<rparr>),
     (''qtnetworkauth_0'', \<lparr>cs_module = ''QtNetworkAuth'', cs_slug = ''QTNETWORKAUTH'',
        cs_blocks = concat [ctor_qtnetworkauth_0_0, ctor_qtnetworkauth_0_1, ctor_qtnetworkauth_0_2],
        cs_classes = ctor_classes_qtnetworkauth_0\<rparr>),
     (''qtnfc_0'', \<lparr>cs_module = ''QtNfc'', cs_slug = ''QTNFC'',
        cs_blocks = concat [ctor_qtnfc_0_0],
        cs_classes = ctor_classes_qtnfc_0\<rparr>),
     (''qtopengl_0'', \<lparr>cs_module = ''QtOpenGL'', cs_slug = ''QTOPENGL'',
        cs_blocks = concat [ctor_qtopengl_0_0, ctor_qtopengl_0_1],
        cs_classes = ctor_classes_qtopengl_0\<rparr>),
     (''qtopenglwidgets_0'', \<lparr>cs_module = ''QtOpenGLWidgets'', cs_slug = ''QTOPENGLWIDGETS'',
        cs_blocks = concat [ctor_qtopenglwidgets_0_0],
        cs_classes = ctor_classes_qtopenglwidgets_0\<rparr>),
     (''qtpdf_0'', \<lparr>cs_module = ''QtPdf'', cs_slug = ''QTPDF'',
        cs_blocks = concat [ctor_qtpdf_0_0, ctor_qtpdf_0_1],
        cs_classes = ctor_classes_qtpdf_0\<rparr>),
     (''qtpdfwidgets_0'', \<lparr>cs_module = ''QtPdfWidgets'', cs_slug = ''QTPDFWIDGETS'',
        cs_blocks = concat [ctor_qtpdfwidgets_0_0],
        cs_classes = ctor_classes_qtpdfwidgets_0\<rparr>),
     (''qtpositioning_0'', \<lparr>cs_module = ''QtPositioning'', cs_slug = ''QTPOSITIONING'',
        cs_blocks = concat [ctor_qtpositioning_0_0],
        cs_classes = ctor_classes_qtpositioning_0\<rparr>),
     (''qtprintsupport_0'', \<lparr>cs_module = ''QtPrintSupport'', cs_slug = ''QTPRINTSUPPORT'',
        cs_blocks = concat [ctor_qtprintsupport_0_0, ctor_qtprintsupport_0_1],
        cs_classes = ctor_classes_qtprintsupport_0\<rparr>),
     (''qtqml_0'', \<lparr>cs_module = ''QtQml'', cs_slug = ''QTQML'',
        cs_blocks = concat [ctor_qtqml_0_0, ctor_qtqml_0_1, ctor_qtqml_0_2, ctor_qtqml_0_3, ctor_qtqml_0_4],
        cs_classes = ctor_classes_qtqml_0\<rparr>),
     (''qtquick3d_0'', \<lparr>cs_module = ''QtQuick3D'', cs_slug = ''QTQUICK3D'',
        cs_blocks = concat [ctor_qtquick3d_0_0],
        cs_classes = ctor_classes_qtquick3d_0\<rparr>),
     (''qtquick_0'', \<lparr>cs_module = ''QtQuick'', cs_slug = ''QTQUICK'',
        cs_blocks = concat [ctor_qtquick_0_0, ctor_qtquick_0_1, ctor_qtquick_0_2],
        cs_classes = ctor_classes_qtquick_0\<rparr>),
     (''qtquickwidgets_0'', \<lparr>cs_module = ''QtQuickWidgets'', cs_slug = ''QTQUICKWIDGETS'',
        cs_blocks = concat [ctor_qtquickwidgets_0_0],
        cs_classes = ctor_classes_qtquickwidgets_0\<rparr>),
     (''qtremoteobjects_0'', \<lparr>cs_module = ''QtRemoteObjects'', cs_slug = ''QTREMOTEOBJECTS'',
        cs_blocks = concat [ctor_qtremoteobjects_0_0, ctor_qtremoteobjects_0_1],
        cs_classes = ctor_classes_qtremoteobjects_0\<rparr>),
     (''qtsensors_0'', \<lparr>cs_module = ''QtSensors'', cs_slug = ''QTSENSORS'',
        cs_blocks = concat [ctor_qtsensors_0_0, ctor_qtsensors_0_1, ctor_qtsensors_0_2, ctor_qtsensors_0_3],
        cs_classes = ctor_classes_qtsensors_0\<rparr>),
     (''qtserialport_0'', \<lparr>cs_module = ''QtSerialPort'', cs_slug = ''QTSERIALPORT'',
        cs_blocks = concat [ctor_qtserialport_0_0],
        cs_classes = ctor_classes_qtserialport_0\<rparr>),
     (''qtspatialaudio_0'', \<lparr>cs_module = ''QtSpatialAudio'', cs_slug = ''QTSPATIALAUDIO'',
        cs_blocks = concat [ctor_qtspatialaudio_0_0, ctor_qtspatialaudio_0_1],
        cs_classes = ctor_classes_qtspatialaudio_0\<rparr>),
     (''qtsql_0'', \<lparr>cs_module = ''QtSql'', cs_slug = ''QTSQL'',
        cs_blocks = concat [ctor_qtsql_0_0, ctor_qtsql_0_1],
        cs_classes = ctor_classes_qtsql_0\<rparr>),
     (''qtstatemachine_0'', \<lparr>cs_module = ''QtStateMachine'', cs_slug = ''QTSTATEMACHINE'',
        cs_blocks = concat [ctor_qtstatemachine_0_0, ctor_qtstatemachine_0_1, ctor_qtstatemachine_0_2, ctor_qtstatemachine_0_3, ctor_qtstatemachine_0_4],
        cs_classes = ctor_classes_qtstatemachine_0\<rparr>),
     (''qtsvg_0'', \<lparr>cs_module = ''QtSvg'', cs_slug = ''QTSVG'',
        cs_blocks = concat [ctor_qtsvg_0_0],
        cs_classes = ctor_classes_qtsvg_0\<rparr>),
     (''qtsvgwidgets_0'', \<lparr>cs_module = ''QtSvgWidgets'', cs_slug = ''QTSVGWIDGETS'',
        cs_blocks = concat [ctor_qtsvgwidgets_0_0],
        cs_classes = ctor_classes_qtsvgwidgets_0\<rparr>),
     (''qttest_0'', \<lparr>cs_module = ''QtTest'', cs_slug = ''QTTEST'',
        cs_blocks = concat [ctor_qttest_0_0],
        cs_classes = ctor_classes_qttest_0\<rparr>),
     (''qttexttospeech_0'', \<lparr>cs_module = ''QtTextToSpeech'', cs_slug = ''QTTEXTTOSPEECH'',
        cs_blocks = concat [ctor_qttexttospeech_0_0],
        cs_classes = ctor_classes_qttexttospeech_0\<rparr>),
     (''qtwebchannel_0'', \<lparr>cs_module = ''QtWebChannel'', cs_slug = ''QTWEBCHANNEL'',
        cs_blocks = concat [ctor_qtwebchannel_0_0],
        cs_classes = ctor_classes_qtwebchannel_0\<rparr>),
     (''qtwebenginecore_0'', \<lparr>cs_module = ''QtWebEngineCore'', cs_slug = ''QTWEBENGINECORE'',
        cs_blocks = concat [ctor_qtwebenginecore_0_0, ctor_qtwebenginecore_0_1],
        cs_classes = ctor_classes_qtwebenginecore_0\<rparr>),
     (''qtwebenginequick_0'', \<lparr>cs_module = ''QtWebEngineQuick'', cs_slug = ''QTWEBENGINEQUICK'',
        cs_blocks = concat [ctor_qtwebenginequick_0_0],
        cs_classes = ctor_classes_qtwebenginequick_0\<rparr>),
     (''qtwebenginewidgets_0'', \<lparr>cs_module = ''QtWebEngineWidgets'', cs_slug = ''QTWEBENGINEWIDGETS'',
        cs_blocks = concat [ctor_qtwebenginewidgets_0_0],
        cs_classes = ctor_classes_qtwebenginewidgets_0\<rparr>),
     (''qtwebsockets_0'', \<lparr>cs_module = ''QtWebSockets'', cs_slug = ''QTWEBSOCKETS'',
        cs_blocks = concat [ctor_qtwebsockets_0_0],
        cs_classes = ctor_classes_qtwebsockets_0\<rparr>),
     (''qtwidgets_0'', \<lparr>cs_module = ''QtWidgets'', cs_slug = ''QTWIDGETS'',
        cs_blocks = concat [ctor_qtwidgets_0_0, ctor_qtwidgets_0_1, ctor_qtwidgets_0_2, ctor_qtwidgets_0_3, ctor_qtwidgets_0_4, ctor_qtwidgets_0_5, ctor_qtwidgets_0_6, ctor_qtwidgets_0_7, ctor_qtwidgets_0_8],
        cs_classes = ctor_classes_qtwidgets_0\<rparr>),
     (''qtwidgets_1'', \<lparr>cs_module = ''QtWidgets'', cs_slug = ''QTWIDGETS'',
        cs_blocks = concat [ctor_qtwidgets_1_0, ctor_qtwidgets_1_1, ctor_qtwidgets_1_2, ctor_qtwidgets_1_3, ctor_qtwidgets_1_4, ctor_qtwidgets_1_5, ctor_qtwidgets_1_6, ctor_qtwidgets_1_7],
        cs_classes = ctor_classes_qtwidgets_1\<rparr>),
     (''qtwidgets_2'', \<lparr>cs_module = ''QtWidgets'', cs_slug = ''QTWIDGETS'',
        cs_blocks = concat [ctor_qtwidgets_2_0, ctor_qtwidgets_2_1, ctor_qtwidgets_2_2, ctor_qtwidgets_2_3, ctor_qtwidgets_2_4, ctor_qtwidgets_2_5, ctor_qtwidgets_2_6, ctor_qtwidgets_2_7, ctor_qtwidgets_2_8, ctor_qtwidgets_2_9],
        cs_classes = ctor_classes_qtwidgets_2\<rparr>),
     (''qtwidgets_3'', \<lparr>cs_module = ''QtWidgets'', cs_slug = ''QTWIDGETS'',
        cs_blocks = concat [ctor_qtwidgets_3_0, ctor_qtwidgets_3_1, ctor_qtwidgets_3_2, ctor_qtwidgets_3_3, ctor_qtwidgets_3_4, ctor_qtwidgets_3_5, ctor_qtwidgets_3_6, ctor_qtwidgets_3_7],
        cs_classes = ctor_classes_qtwidgets_3\<rparr>),
     (''qtwidgets_4'', \<lparr>cs_module = ''QtWidgets'', cs_slug = ''QTWIDGETS'',
        cs_blocks = concat [ctor_qtwidgets_4_0, ctor_qtwidgets_4_1, ctor_qtwidgets_4_2, ctor_qtwidgets_4_3],
        cs_classes = ctor_classes_qtwidgets_4\<rparr>)]"

lemmas ctor_table_b_defs =
  ctor_qtnetwork_0_0_def ctor_qtnetwork_0_1_def ctor_qtnetwork_0_2_def ctor_qtnetwork_0_3_def
  ctor_qtnetworkauth_0_0_def ctor_qtnetworkauth_0_1_def ctor_qtnetworkauth_0_2_def ctor_qtnfc_0_0_def
  ctor_qtopengl_0_0_def ctor_qtopengl_0_1_def ctor_qtopenglwidgets_0_0_def ctor_qtpdf_0_0_def ctor_qtpdf_0_1_def
  ctor_qtpdfwidgets_0_0_def ctor_qtpositioning_0_0_def ctor_qtprintsupport_0_0_def ctor_qtprintsupport_0_1_def
  ctor_qtqml_0_0_def ctor_qtqml_0_1_def ctor_qtqml_0_2_def ctor_qtqml_0_3_def ctor_qtqml_0_4_def
  ctor_qtquick3d_0_0_def ctor_qtquick_0_0_def ctor_qtquick_0_1_def ctor_qtquick_0_2_def
  ctor_qtquickwidgets_0_0_def ctor_qtremoteobjects_0_0_def ctor_qtremoteobjects_0_1_def ctor_qtsensors_0_0_def
  ctor_qtsensors_0_1_def ctor_qtsensors_0_2_def ctor_qtsensors_0_3_def ctor_qtserialport_0_0_def
  ctor_qtspatialaudio_0_0_def ctor_qtspatialaudio_0_1_def ctor_qtsql_0_0_def ctor_qtsql_0_1_def
  ctor_qtstatemachine_0_0_def ctor_qtstatemachine_0_1_def ctor_qtstatemachine_0_2_def
  ctor_qtstatemachine_0_3_def ctor_qtstatemachine_0_4_def ctor_qtsvg_0_0_def ctor_qtsvgwidgets_0_0_def
  ctor_qttest_0_0_def ctor_qttexttospeech_0_0_def ctor_qtwebchannel_0_0_def ctor_qtwebenginecore_0_0_def
  ctor_qtwebenginecore_0_1_def ctor_qtwebenginequick_0_0_def ctor_qtwebenginewidgets_0_0_def
  ctor_qtwebsockets_0_0_def ctor_qtwidgets_0_0_def ctor_qtwidgets_0_1_def ctor_qtwidgets_0_2_def
  ctor_qtwidgets_0_3_def ctor_qtwidgets_0_4_def ctor_qtwidgets_0_5_def ctor_qtwidgets_0_6_def
  ctor_qtwidgets_0_7_def ctor_qtwidgets_0_8_def ctor_qtwidgets_1_0_def ctor_qtwidgets_1_1_def
  ctor_qtwidgets_1_2_def ctor_qtwidgets_1_3_def ctor_qtwidgets_1_4_def ctor_qtwidgets_1_5_def
  ctor_qtwidgets_1_6_def ctor_qtwidgets_1_7_def ctor_qtwidgets_2_0_def ctor_qtwidgets_2_1_def
  ctor_qtwidgets_2_2_def ctor_qtwidgets_2_3_def ctor_qtwidgets_2_4_def ctor_qtwidgets_2_5_def
  ctor_qtwidgets_2_6_def ctor_qtwidgets_2_7_def ctor_qtwidgets_2_8_def ctor_qtwidgets_2_9_def
  ctor_qtwidgets_3_0_def ctor_qtwidgets_3_1_def ctor_qtwidgets_3_2_def ctor_qtwidgets_3_3_def
  ctor_qtwidgets_3_4_def ctor_qtwidgets_3_5_def ctor_qtwidgets_3_6_def ctor_qtwidgets_3_7_def
  ctor_qtwidgets_4_0_def ctor_qtwidgets_4_1_def ctor_qtwidgets_4_2_def ctor_qtwidgets_4_3_def

lemma ctor_table_b_fitting_shard: "list_all (\<lambda>(s, sh). fitting_shard sh) ctor_table_b"
  by (simp add: ctor_table_b_def ctor_table_b_defs fitting_shard_def)

end
