(* ===== verification/Value_Constructors_Rest.thy ===== *)
theory Value_Constructors_Rest
  imports Shard_Constructors Qt_Names
begin

text \<open>
  Tables of the value constructor shards (generated\_value\_constructors): the blocks of every shard in the file's
  order, and the classes it lists.
\<close>

definition vctor_qt3danimation_0_0 :: "ctor_block list" where
  "vctor_qt3danimation_0_0 = [
     CtorBlock Qt3DAnimation_QAnimationClipData 0 [
       Overload [] [] None],
     CtorBlock Qt3DAnimation_QChannel 0 [
       Overload [] [] None],
     CtorBlock Qt3DAnimation_QChannel 1 [
       Overload [] [PString False] None],
     CtorBlock Qt3DAnimation_QChannelComponent 0 [
       Overload [] [] None],
     CtorBlock Qt3DAnimation_QChannelComponent 1 [
       Overload [] [PString False] None],
     CtorBlock Qt3DAnimation_QKeyFrame 0 [
       Overload [] [] None]]"

definition vctor_qt3danimation_0_1 :: "ctor_block list" where
  "vctor_qt3danimation_0_1 = [
     CtorBlock Qt3DAnimation_QKeyFrame 1 [
       Overload [ValueM QTGUI_QVECTOR2D] [PConv QVector2D] None],
     CtorBlock Qt3DAnimation_QKeyFrame 3 [
       Overload [ValueM QTGUI_QVECTOR2D] [PConv QVector2D, PConv QVector2D, PConv QVector2D] None]]"

definition vctor_classes_qt3danimation_0 :: "class_entry list" where
  "vctor_classes_qt3danimation_0 = [
     ClassEntry Qt3DAnimation_QAnimationClipData [] [''''],
     ClassEntry Qt3DAnimation_QChannel [] ['''', QString],
     ClassEntry Qt3DAnimation_QChannelComponent [] ['''', QString],
     ClassEntry Qt3DAnimation_QKeyFrame [ValueM QTGUI_QVECTOR2D] ['''', QVector2D, ''QVector2D, QVector2D, QVector2D'']]"

definition vctor_qt3dcore_0_0 :: "ctor_block list" where
  "vctor_qt3dcore_0_0 = [
     CtorBlock ''Qt3DCore::QAbstractFunctor'' 0 [
       Overload [] [] None],
     CtorBlock ''Qt3DCore::QBackendNode'' 0 [
       Overload [TypeM ''QT3DCORE_QBACKENDNODE''] [] None],
     CtorBlock ''Qt3DCore::QBackendNode'' 1 [
       Overload [TypeM ''QT3DCORE_QBACKENDNODE''] [PConv ''Qt3DCore::QBackendNode::Mode''] None],
     CtorBlock ''Qt3DCore::QNodeId'' 0 [
       Overload [] [] None],
     CtorBlock Qt3DCore_QTransform 0 [
       Overload [TypeM QT3DCORE_QNODE] [] None],
     CtorBlock Qt3DCore_QTransform 1 [
       Overload [TypeM QT3DCORE_QNODE] [PNonNull Qt3DCore_QNode_ptr] None]]"

definition vctor_classes_qt3dcore_0 :: "class_entry list" where
  "vctor_classes_qt3dcore_0 = [
     ClassEntry ''Qt3DCore::QAbstractFunctor'' [] [''''],
     ClassEntry ''Qt3DCore::QBackendNode'' [TypeM ''QT3DCORE_QBACKENDNODE''] [''Qt3DCore::QBackendNode::Mode''],
     ClassEntry ''Qt3DCore::QNodeId'' [] [''''],
     ClassEntry Qt3DCore_QTransform [TypeM QT3DCORE_QNODE] [Qt3DCore_QNode_ptr]]"

definition vctor_qt3drender_0_0 :: "ctor_block list" where
  "vctor_qt3drender_0_0 = [
     CtorBlock Qt3DRender_QLevelOfDetailBoundingSphere 0 [
       Overload [ValueM QTGUI_QVECTOR3D] [] None],
     CtorBlock Qt3DRender_QLevelOfDetailBoundingSphere 1 [
       Overload [ValueM QTGUI_QVECTOR3D] [PConv QVector3D] None],
     CtorBlock Qt3DRender_QLevelOfDetailBoundingSphere 2 [
       Overload [ValueM QTGUI_QVECTOR3D] [PConv QVector3D, PReal ''float''] None],
     CtorBlock Qt3DRender_QProximityFilter 0 [
       Overload [TypeM QT3DCORE_QNODE] [] None],
     CtorBlock Qt3DRender_QProximityFilter 1 [
       Overload [TypeM QT3DCORE_QNODE] [PNonNull Qt3DCore_QNode_ptr] None],
     CtorBlock Qt3DRender_QRayCasterHit 0 [
       Overload [] [] None]]"

definition vctor_qt3drender_0_1 :: "ctor_block list" where
  "vctor_qt3drender_0_1 = [
     CtorBlock Qt3DRender_QTextureData 0 [
       Overload [] [] None],
     CtorBlock Qt3DRender_QTextureDataUpdate 0 [
       Overload [] [] None],
     CtorBlock Qt3DRender_QTextureImageData 0 [
       Overload [] [] None]]"

definition vctor_classes_qt3drender_0 :: "class_entry list" where
  "vctor_classes_qt3drender_0 = [
     ClassEntry Qt3DRender_QLevelOfDetailBoundingSphere [ValueM QTGUI_QVECTOR3D] [''QVector3D, float''],
     ClassEntry Qt3DRender_QProximityFilter [TypeM QT3DCORE_QNODE] [Qt3DCore_QNode_ptr],
     ClassEntry Qt3DRender_QRayCasterHit [] [''''],
     ClassEntry Qt3DRender_QTextureData [] [''''],
     ClassEntry Qt3DRender_QTextureDataUpdate [] [''''],
     ClassEntry Qt3DRender_QTextureImageData [] ['''']]"

definition vctor_qtbluetooth_0_0 :: "ctor_block list" where
  "vctor_qtbluetooth_0_0 = [
     CtorBlock QBluetoothAddress 0 [
       Overload [] [] None],
     CtorBlock QBluetoothAddress 1 [
       Overload [] [PWide ''quint64''] None,
       Overload [] [PString False] None,
       Overload [ValueM QTBLUETOOTH_QBLUETOOTHADDRESS] [PConv QBluetoothAddress] None],
     CtorBlock QBluetoothDeviceInfo 0 [
       Overload [] [] None],
     CtorBlock QBluetoothDeviceInfo 1 [
       Overload [ValueM ''QTBLUETOOTH_QBLUETOOTHDEVICEINFO''] [PConv QBluetoothDeviceInfo] None]]"

definition vctor_qtbluetooth_0_1 :: "ctor_block list" where
  "vctor_qtbluetooth_0_1 = [
     CtorBlock ''QBluetoothHostInfo'' 0 [
       Overload [] [] None],
     CtorBlock ''QBluetoothHostInfo'' 1 [
       Overload [ValueM ''QTBLUETOOTH_QBLUETOOTHHOSTINFO''] [PConv ''QBluetoothHostInfo''] None],
     CtorBlock QBluetoothServiceInfo 0 [
       Overload [] [] None],
     CtorBlock QBluetoothServiceInfo 1 [
       Overload [ValueM QTBLUETOOTH_QBLUETOOTHSERVICEINFO] [PConv QBluetoothServiceInfo] None],
     CtorBlock QBluetoothUuid 0 [
       Overload [] [] None]]"

definition vctor_qtbluetooth_0_2 :: "ctor_block list" where
  "vctor_qtbluetooth_0_2 = [
     CtorBlock QBluetoothUuid 1 [
       Overload [TypeM QTBLUETOOTH_QBLUETOOTHUUID] [PConv ''QBluetoothUuid::ProtocolUuid''] None,
       Overload [TypeM QTBLUETOOTH_QBLUETOOTHUUID] [PConv ''QBluetoothUuid::ServiceClassUuid''] None,
       Overload [TypeM QTBLUETOOTH_QBLUETOOTHUUID] [PConv ''QBluetoothUuid::CharacteristicType''] None,
       Overload [TypeM QTBLUETOOTH_QBLUETOOTHUUID] [PConv ''QBluetoothUuid::DescriptorType''] None,
       Overload [] [PString False] None,
       Overload [ValueM QTBLUETOOTH_QBLUETOOTHUUID] [PConv QBluetoothUuid] None,
       Overload [ValueM ''QTCORE_QUUID''] [PConv ''QUuid''] None]]"

definition vctor_qtbluetooth_0_3 :: "ctor_block list" where
  "vctor_qtbluetooth_0_3 = [
     CtorBlock QLowEnergyAdvertisingData 0 [
       Overload [] [] None],
     CtorBlock QLowEnergyAdvertisingData 1 [
       Overload [ValueM ''QTBLUETOOTH_QLOWENERGYADVERTISINGDATA''] [PConv QLowEnergyAdvertisingData] None],
     CtorBlock QLowEnergyAdvertisingParameters 0 [
       Overload [] [] None],
     CtorBlock QLowEnergyAdvertisingParameters 1 [
       Overload [ValueM QTBLUETOOTH_QLOWENERGYADVERTISINGPARAMETERS] [PConv QLowEnergyAdvertisingParameters] None],
     CtorBlock QLowEnergyCharacteristic 0 [
       Overload [] [] None],
     CtorBlock QLowEnergyCharacteristic 1 [
       Overload [ValueM ''QTBLUETOOTH_QLOWENERGYCHARACTERISTIC''] [PConv QLowEnergyCharacteristic] None]]"

definition vctor_classes_qtbluetooth_0 :: "class_entry list" where
  "vctor_classes_qtbluetooth_0 = [
     ClassEntry QBluetoothAddress [ValueM QTBLUETOOTH_QBLUETOOTHADDRESS] ['''', ''quint64'', QString, QBluetoothAddress],
     ClassEntry QBluetoothDeviceInfo [ValueM ''QTBLUETOOTH_QBLUETOOTHDEVICEINFO''] ['''', QBluetoothDeviceInfo],
     ClassEntry ''QBluetoothHostInfo'' [ValueM ''QTBLUETOOTH_QBLUETOOTHHOSTINFO''] ['''', ''QBluetoothHostInfo''],
     ClassEntry QBluetoothServiceInfo [ValueM QTBLUETOOTH_QBLUETOOTHSERVICEINFO] ['''', QBluetoothServiceInfo],
     ClassEntry QBluetoothUuid [TypeM QTBLUETOOTH_QBLUETOOTHUUID, ValueM QTBLUETOOTH_QBLUETOOTHUUID, ValueM ''QTCORE_QUUID''] ['''', ''QBluetoothUuid::ProtocolUuid'', ''QBluetoothUuid::ServiceClassUuid'', ''QBluetoothUuid::CharacteristicType'', ''QBluetoothUuid::DescriptorType'', QString, QBluetoothUuid, ''QUuid''],
     ClassEntry QLowEnergyAdvertisingData [ValueM ''QTBLUETOOTH_QLOWENERGYADVERTISINGDATA''] ['''', QLowEnergyAdvertisingData],
     ClassEntry QLowEnergyAdvertisingParameters [ValueM QTBLUETOOTH_QLOWENERGYADVERTISINGPARAMETERS] ['''', QLowEnergyAdvertisingParameters],
     ClassEntry QLowEnergyCharacteristic [ValueM ''QTBLUETOOTH_QLOWENERGYCHARACTERISTIC''] ['''', QLowEnergyCharacteristic]]"

definition vctor_qtbluetooth_1_0 :: "ctor_block list" where
  "vctor_qtbluetooth_1_0 = [
     CtorBlock QLowEnergyCharacteristicData 0 [
       Overload [] [] None],
     CtorBlock QLowEnergyCharacteristicData 1 [
       Overload [ValueM ''QTBLUETOOTH_QLOWENERGYCHARACTERISTICDATA''] [PConv QLowEnergyCharacteristicData] None],
     CtorBlock QLowEnergyConnectionParameters 0 [
       Overload [] [] None],
     CtorBlock QLowEnergyConnectionParameters 1 [
       Overload [ValueM ''QTBLUETOOTH_QLOWENERGYCONNECTIONPARAMETERS''] [PConv QLowEnergyConnectionParameters] None],
     CtorBlock QLowEnergyDescriptor 0 [
       Overload [] [] None],
     CtorBlock QLowEnergyDescriptor 1 [
       Overload [ValueM ''QTBLUETOOTH_QLOWENERGYDESCRIPTOR''] [PConv QLowEnergyDescriptor] None]]"

definition vctor_qtbluetooth_1_1 :: "ctor_block list" where
  "vctor_qtbluetooth_1_1 = [
     CtorBlock QLowEnergyDescriptorData 0 [
       Overload [] [] None],
     CtorBlock QLowEnergyDescriptorData 1 [
       Overload [ValueM ''QTBLUETOOTH_QLOWENERGYDESCRIPTORDATA''] [PConv QLowEnergyDescriptorData] None],
     CtorBlock QLowEnergyDescriptorData 2 [
       Overload [ValueM QTBLUETOOTH_QBLUETOOTHUUID, ValueM QTCORE_QBYTEARRAY] [PConv QBluetoothUuid, PConv QByteArray] None],
     CtorBlock QLowEnergyServiceData 0 [
       Overload [] [] None],
     CtorBlock QLowEnergyServiceData 1 [
       Overload [ValueM ''QTBLUETOOTH_QLOWENERGYSERVICEDATA''] [PConv QLowEnergyServiceData] None]]"

definition vctor_classes_qtbluetooth_1 :: "class_entry list" where
  "vctor_classes_qtbluetooth_1 = [
     ClassEntry QLowEnergyCharacteristicData [ValueM ''QTBLUETOOTH_QLOWENERGYCHARACTERISTICDATA''] ['''', QLowEnergyCharacteristicData],
     ClassEntry QLowEnergyConnectionParameters [ValueM ''QTBLUETOOTH_QLOWENERGYCONNECTIONPARAMETERS''] ['''', QLowEnergyConnectionParameters],
     ClassEntry QLowEnergyDescriptor [ValueM ''QTBLUETOOTH_QLOWENERGYDESCRIPTOR''] ['''', QLowEnergyDescriptor],
     ClassEntry QLowEnergyDescriptorData [ValueM QTBLUETOOTH_QBLUETOOTHUUID, ValueM ''QTBLUETOOTH_QLOWENERGYDESCRIPTORDATA'', ValueM QTCORE_QBYTEARRAY] ['''', ''QBluetoothUuid, QByteArray'', QLowEnergyDescriptorData],
     ClassEntry QLowEnergyServiceData [ValueM ''QTBLUETOOTH_QLOWENERGYSERVICEDATA''] ['''', QLowEnergyServiceData]]"

definition vctor_qtdbus_0_0 :: "ctor_block list" where
  "vctor_qtdbus_0_0 = [
     CtorBlock QDBusArgument 0 [
       Overload [] [] None],
     CtorBlock QDBusArgument 1 [
       Overload [ValueM ''QTDBUS_QDBUSARGUMENT''] [PConv QDBusArgument] None],
     CtorBlock QDBusConnection 1 [
       Overload [] [PString False] None,
       Overload [ValueM QTDBUS_QDBUSCONNECTION] [PConv QDBusConnection] None],
     CtorBlock ''QDBusError'' 1 [
       Overload [ValueM ''QTDBUS_QDBUSERROR''] [PConv ''QDBusError''] None],
     CtorBlock QDBusMessage 0 [
       Overload [] [] None]]"

definition vctor_qtdbus_0_1 :: "ctor_block list" where
  "vctor_qtdbus_0_1 = [
     CtorBlock QDBusMessage 1 [
       Overload [ValueM QTDBUS_QDBUSMESSAGE] [PConv QDBusMessage] None],
     CtorBlock ''QDBusObjectPath'' 0 [
       Overload [] [] None],
     CtorBlock ''QDBusObjectPath'' 1 [
       Overload [] [PString False] None],
     CtorBlock QDBusPendingCall 1 [
       Overload [ValueM ''QTDBUS_QDBUSPENDINGCALL''] [PConv QDBusPendingCall] None],
     CtorBlock ''QDBusSignature'' 0 [
       Overload [] [] None],
     CtorBlock ''QDBusSignature'' 1 [
       Overload [] [PString False] None]]"

definition vctor_qtdbus_0_2 :: "ctor_block list" where
  "vctor_qtdbus_0_2 = [
     CtorBlock QDBusUnixFileDescriptor 0 [
       Overload [] [] None],
     CtorBlock QDBusUnixFileDescriptor 1 [
       Overload [] [PInt] None,
       Overload [ValueM ''QTDBUS_QDBUSUNIXFILEDESCRIPTOR''] [PConv QDBusUnixFileDescriptor] None]]"

definition vctor_classes_qtdbus_0 :: "class_entry list" where
  "vctor_classes_qtdbus_0 = [
     ClassEntry QDBusArgument [ValueM ''QTDBUS_QDBUSARGUMENT''] ['''', QDBusArgument],
     ClassEntry QDBusConnection [ValueM QTDBUS_QDBUSCONNECTION] [QString, QDBusConnection],
     ClassEntry ''QDBusError'' [ValueM ''QTDBUS_QDBUSERROR''] [''QDBusError''],
     ClassEntry QDBusMessage [ValueM QTDBUS_QDBUSMESSAGE] ['''', QDBusMessage],
     ClassEntry ''QDBusObjectPath'' [] ['''', QString],
     ClassEntry QDBusPendingCall [ValueM ''QTDBUS_QDBUSPENDINGCALL''] [QDBusPendingCall],
     ClassEntry ''QDBusSignature'' [] ['''', QString],
     ClassEntry QDBusUnixFileDescriptor [ValueM ''QTDBUS_QDBUSUNIXFILEDESCRIPTOR''] ['''', ''int'', QDBusUnixFileDescriptor]]"

definition vctor_qtdbus_1_0 :: "ctor_block list" where
  "vctor_qtdbus_1_0 = [
     CtorBlock ''QDBusVariant'' 0 [
       Overload [] [] None],
     CtorBlock ''QDBusVariant'' 1 [
       Overload [] [PVariant] None]]"

definition vctor_classes_qtdbus_1 :: "class_entry list" where
  "vctor_classes_qtdbus_1 = [
     ClassEntry ''QDBusVariant'' [] ['''', ''QVariant'']]"

definition vctor_qtdesigner_0_0 :: "ctor_block list" where
  "vctor_qtdesigner_0_0 = [
     CtorBlock ''QAbstractFormBuilder'' 0 [
       Overload [] [] None],
     CtorBlock ''QDesignerContainerExtension'' 0 [
       Overload [] [] None],
     CtorBlock ''QDesignerFormWindowCursorInterface'' 0 [
       Overload [] [] None],
     CtorBlock ''QDesignerMemberSheetExtension'' 0 [
       Overload [] [] None],
     CtorBlock ''QDesignerPropertySheetExtension'' 0 [
       Overload [] [] None],
     CtorBlock ''QDesignerTaskMenuExtension'' 0 [
       Overload [] [] None]]"

definition vctor_qtdesigner_0_1 :: "ctor_block list" where
  "vctor_qtdesigner_0_1 = [
     CtorBlock ''QFormBuilder'' 0 [
       Overload [] [] None]]"

definition vctor_classes_qtdesigner_0 :: "class_entry list" where
  "vctor_classes_qtdesigner_0 = [
     ClassEntry ''QAbstractFormBuilder'' [] [''''],
     ClassEntry ''QDesignerContainerExtension'' [] [''''],
     ClassEntry ''QDesignerFormWindowCursorInterface'' [] [''''],
     ClassEntry ''QDesignerMemberSheetExtension'' [] [''''],
     ClassEntry ''QDesignerPropertySheetExtension'' [] [''''],
     ClassEntry ''QDesignerTaskMenuExtension'' [] [''''],
     ClassEntry ''QFormBuilder'' [] ['''']]"

definition vctor_qtgraphs_0_0 :: "ctor_block list" where
  "vctor_qtgraphs_0_0 = [
     CtorBlock QGraphsLine 0 [
       Overload [] [] None],
     CtorBlock QGraphsLine 1 [
       Overload [ValueM ''QTGRAPHS_QGRAPHSLINE''] [PConv QGraphsLine] None]]"

definition vctor_classes_qtgraphs_0 :: "class_entry list" where
  "vctor_classes_qtgraphs_0 = [
     ClassEntry QGraphsLine [ValueM ''QTGRAPHS_QGRAPHSLINE''] ['''', QGraphsLine]]"

definition vctor_qthelp_0_0 :: "ctor_block list" where
  "vctor_qthelp_0_0 = [
     CtorBlock QCompressedHelpInfo 0 [
       Overload [] [] None],
     CtorBlock QCompressedHelpInfo 1 [
       Overload [ValueM ''QTHELP_QCOMPRESSEDHELPINFO''] [PConv QCompressedHelpInfo] None],
     CtorBlock ''QHelpFilterData'' 0 [
       Overload [] [] None],
     CtorBlock ''QHelpFilterData'' 1 [
       Overload [ValueM ''QTHELP_QHELPFILTERDATA''] [PConv ''QHelpFilterData''] None],
     CtorBlock ''QHelpSearchQuery'' 0 [
       Overload [] [] None],
     CtorBlock ''QHelpSearchQuery'' 2 [
       Overload [TypeM ''QTHELP_QHELPSEARCHQUERY''] [PConv ''QHelpSearchQuery::FieldName'', PStringList] None]]"

definition vctor_qthelp_0_1 :: "ctor_block list" where
  "vctor_qthelp_0_1 = [
     CtorBlock ''QHelpSearchResult'' 0 [
       Overload [] [] None],
     CtorBlock ''QHelpSearchResult'' 1 [
       Overload [ValueM ''QTHELP_QHELPSEARCHRESULT''] [PConv ''QHelpSearchResult''] None],
     CtorBlock ''QHelpSearchResult'' 3 [
       Overload [ValueM QTCORE_QURL] [PConv QUrl, PString False, PString False] None]]"

definition vctor_classes_qthelp_0 :: "class_entry list" where
  "vctor_classes_qthelp_0 = [
     ClassEntry QCompressedHelpInfo [ValueM ''QTHELP_QCOMPRESSEDHELPINFO''] ['''', QCompressedHelpInfo],
     ClassEntry ''QHelpFilterData'' [ValueM ''QTHELP_QHELPFILTERDATA''] ['''', ''QHelpFilterData''],
     ClassEntry ''QHelpSearchQuery'' [TypeM ''QTHELP_QHELPSEARCHQUERY''] ['''', ''QHelpSearchQuery::FieldName, QStringList''],
     ClassEntry ''QHelpSearchResult'' [ValueM QTCORE_QURL, ValueM ''QTHELP_QHELPSEARCHRESULT''] ['''', ''QHelpSearchResult'', ''QUrl, QString, QString'']]"

definition vctor_qtmultimedia_0_0 :: "ctor_block list" where
  "vctor_qtmultimedia_0_0 = [
     CtorBlock QAudioBuffer 0 [
       Overload [] [] None],
     CtorBlock QAudioBuffer 1 [
       Overload [ValueM ''QTMULTIMEDIA_QAUDIOBUFFER''] [PConv QAudioBuffer] None],
     CtorBlock QAudioBuffer 2 [
       Overload [ValueM QTCORE_QBYTEARRAY, ValueM QTMULTIMEDIA_QAUDIOFORMAT] [PConv QByteArray, PConv QAudioFormat] None,
       Overload [ValueM QTMULTIMEDIA_QAUDIOFORMAT] [PInt, PConv QAudioFormat] None]]"

definition vctor_qtmultimedia_0_1 :: "ctor_block list" where
  "vctor_qtmultimedia_0_1 = [
     CtorBlock QAudioBuffer 3 [
       Overload [ValueM QTCORE_QBYTEARRAY, ValueM QTMULTIMEDIA_QAUDIOFORMAT] [PConv QByteArray, PConv QAudioFormat, PWide ''qint64''] None,
       Overload [ValueM QTMULTIMEDIA_QAUDIOFORMAT] [PInt, PConv QAudioFormat, PWide ''qint64''] None],
     CtorBlock QAudioDevice 0 [
       Overload [] [] None],
     CtorBlock QAudioDevice 1 [
       Overload [ValueM QTMULTIMEDIA_QAUDIODEVICE] [PConv QAudioDevice] None],
     CtorBlock QCameraDevice 0 [
       Overload [] [] None],
     CtorBlock QCameraDevice 1 [
       Overload [ValueM QTMULTIMEDIA_QCAMERADEVICE] [PConv QCameraDevice] None]]"

definition vctor_qtmultimedia_0_2 :: "ctor_block list" where
  "vctor_qtmultimedia_0_2 = [
     CtorBlock ''QCameraFormat'' 0 [
       Overload [] [] None],
     CtorBlock ''QCameraFormat'' 1 [
       Overload [ValueM ''QTMULTIMEDIA_QCAMERAFORMAT''] [PConv ''QCameraFormat''] None],
     CtorBlock QCapturableWindow 0 [
       Overload [] [] None],
     CtorBlock QCapturableWindow 1 [
       Overload [TypeM QTGUI_QWINDOW] [PNonNull ''QWindow*''] None,
       Overload [ValueM ''QTMULTIMEDIA_QCAPTURABLEWINDOW''] [PConv QCapturableWindow] None],
     CtorBlock QMediaFormat 0 [
       Overload [TypeM QTMULTIMEDIA_QMEDIAFORMAT] [] None]]"

definition vctor_qtmultimedia_0_3 :: "ctor_block list" where
  "vctor_qtmultimedia_0_3 = [
     CtorBlock QMediaFormat 1 [
       Overload [TypeM QTMULTIMEDIA_QMEDIAFORMAT] [PConv ''QMediaFormat::FileFormat''] None,
       Overload [ValueM QTMULTIMEDIA_QMEDIAFORMAT] [PConv QMediaFormat] None],
     CtorBlock QMediaTimeRange 0 [
       Overload [] [] None],
     CtorBlock QMediaTimeRange 1 [
       Overload [TypeM QTMULTIMEDIA_QMEDIATIMERANGE] [PConv ''QMediaTimeRange::Interval''] None,
       Overload [ValueM QTMULTIMEDIA_QMEDIATIMERANGE] [PConv QMediaTimeRange] None],
     CtorBlock QMediaTimeRange 2 [
       Overload [] [PWide ''qint64'', PWide ''qint64''] None]]"

definition vctor_qtmultimedia_0_4 :: "ctor_block list" where
  "vctor_qtmultimedia_0_4 = [
     CtorBlock QPlaybackOptions 0 [
       Overload [] [] None],
     CtorBlock QPlaybackOptions 1 [
       Overload [ValueM ''QTMULTIMEDIA_QPLAYBACKOPTIONS''] [PConv QPlaybackOptions] None]]"

definition vctor_classes_qtmultimedia_0 :: "class_entry list" where
  "vctor_classes_qtmultimedia_0 = [
     ClassEntry QAudioBuffer [ValueM QTCORE_QBYTEARRAY, ValueM ''QTMULTIMEDIA_QAUDIOBUFFER'', ValueM QTMULTIMEDIA_QAUDIOFORMAT] ['''', ''QByteArray, QAudioFormat, qint64'', ''int, QAudioFormat, qint64'', QAudioBuffer],
     ClassEntry QAudioDevice [ValueM QTMULTIMEDIA_QAUDIODEVICE] ['''', QAudioDevice],
     ClassEntry QCameraDevice [ValueM QTMULTIMEDIA_QCAMERADEVICE] ['''', QCameraDevice],
     ClassEntry ''QCameraFormat'' [ValueM ''QTMULTIMEDIA_QCAMERAFORMAT''] ['''', ''QCameraFormat''],
     ClassEntry QCapturableWindow [TypeM QTGUI_QWINDOW, ValueM ''QTMULTIMEDIA_QCAPTURABLEWINDOW''] ['''', ''QWindow*'', QCapturableWindow],
     ClassEntry QMediaFormat [TypeM QTMULTIMEDIA_QMEDIAFORMAT, ValueM QTMULTIMEDIA_QMEDIAFORMAT] [''QMediaFormat::FileFormat'', QMediaFormat],
     ClassEntry QMediaTimeRange [TypeM QTMULTIMEDIA_QMEDIATIMERANGE, ValueM QTMULTIMEDIA_QMEDIATIMERANGE] ['''', ''QMediaTimeRange::Interval'', ''qint64, qint64'', QMediaTimeRange],
     ClassEntry QPlaybackOptions [ValueM ''QTMULTIMEDIA_QPLAYBACKOPTIONS''] ['''', QPlaybackOptions]]"

definition vctor_qtmultimedia_1_0 :: "ctor_block list" where
  "vctor_qtmultimedia_1_0 = [
     CtorBlock QVideoFrame 0 [
       Overload [] [] None],
     CtorBlock QVideoFrame 1 [
       Overload [ValueM QTMULTIMEDIA_QVIDEOFRAMEFORMAT] [PConv QVideoFrameFormat] None,
       Overload [ValueM QTGUI_QIMAGE] [PConv QImage] None,
       Overload [ValueM ''QTMULTIMEDIA_QVIDEOFRAME''] [PConv QVideoFrame] None],
     CtorBlock QVideoFrameFormat 0 [
       Overload [] [] None],
     CtorBlock QVideoFrameFormat 1 [
       Overload [ValueM QTMULTIMEDIA_QVIDEOFRAMEFORMAT] [PConv QVideoFrameFormat] None]]"

definition vctor_qtmultimedia_1_1 :: "ctor_block list" where
  "vctor_qtmultimedia_1_1 = [
     CtorBlock QVideoFrameFormat 2 [
       Overload [TypeM QTMULTIMEDIA_QVIDEOFRAMEFORMAT, ValueM QTCORE_QSIZE] [PConv QSize, PConv ''QVideoFrameFormat::PixelFormat''] None]]"

definition vctor_classes_qtmultimedia_1 :: "class_entry list" where
  "vctor_classes_qtmultimedia_1 = [
     ClassEntry QVideoFrame [ValueM QTGUI_QIMAGE, ValueM ''QTMULTIMEDIA_QVIDEOFRAME'', ValueM QTMULTIMEDIA_QVIDEOFRAMEFORMAT] ['''', QVideoFrameFormat, QImage, QVideoFrame],
     ClassEntry QVideoFrameFormat [TypeM QTMULTIMEDIA_QVIDEOFRAMEFORMAT, ValueM QTCORE_QSIZE, ValueM QTMULTIMEDIA_QVIDEOFRAMEFORMAT] ['''', ''QSize, QVideoFrameFormat::PixelFormat'', QVideoFrameFormat]]"

definition vctor_qtnetwork_0_0 :: "ctor_block list" where
  "vctor_qtnetwork_0_0 = [
     CtorBlock QAuthenticator 0 [
       Overload [] [] None],
     CtorBlock QAuthenticator 1 [
       Overload [ValueM ''QTNETWORK_QAUTHENTICATOR''] [PConv QAuthenticator] None],
     CtorBlock QDnsDomainNameRecord 0 [
       Overload [] [] None],
     CtorBlock QDnsDomainNameRecord 1 [
       Overload [ValueM ''QTNETWORK_QDNSDOMAINNAMERECORD''] [PConv QDnsDomainNameRecord] None],
     CtorBlock QDnsHostAddressRecord 0 [
       Overload [] [] None],
     CtorBlock QDnsHostAddressRecord 1 [
       Overload [ValueM ''QTNETWORK_QDNSHOSTADDRESSRECORD''] [PConv QDnsHostAddressRecord] None]]"

definition vctor_qtnetwork_0_1 :: "ctor_block list" where
  "vctor_qtnetwork_0_1 = [
     CtorBlock QDnsMailExchangeRecord 0 [
       Overload [] [] None],
     CtorBlock QDnsMailExchangeRecord 1 [
       Overload [ValueM ''QTNETWORK_QDNSMAILEXCHANGERECORD''] [PConv QDnsMailExchangeRecord] None],
     CtorBlock ''QDnsServiceRecord'' 0 [
       Overload [] [] None],
     CtorBlock ''QDnsServiceRecord'' 1 [
       Overload [ValueM ''QTNETWORK_QDNSSERVICERECORD''] [PConv ''QDnsServiceRecord''] None],
     CtorBlock ''QDnsTextRecord'' 0 [
       Overload [] [] None],
     CtorBlock ''QDnsTextRecord'' 1 [
       Overload [ValueM ''QTNETWORK_QDNSTEXTRECORD''] [PConv ''QDnsTextRecord''] None]]"

definition vctor_qtnetwork_0_2 :: "ctor_block list" where
  "vctor_qtnetwork_0_2 = [
     CtorBlock QDnsTlsAssociationRecord 0 [
       Overload [] [] None],
     CtorBlock QDnsTlsAssociationRecord 1 [
       Overload [ValueM ''QTNETWORK_QDNSTLSASSOCIATIONRECORD''] [PConv QDnsTlsAssociationRecord] None],
     CtorBlock ''QFormDataBuilder'' 0 [
       Overload [] [] None]]"

definition vctor_classes_qtnetwork_0 :: "class_entry list" where
  "vctor_classes_qtnetwork_0 = [
     ClassEntry QAuthenticator [ValueM ''QTNETWORK_QAUTHENTICATOR''] ['''', QAuthenticator],
     ClassEntry QDnsDomainNameRecord [ValueM ''QTNETWORK_QDNSDOMAINNAMERECORD''] ['''', QDnsDomainNameRecord],
     ClassEntry QDnsHostAddressRecord [ValueM ''QTNETWORK_QDNSHOSTADDRESSRECORD''] ['''', QDnsHostAddressRecord],
     ClassEntry QDnsMailExchangeRecord [ValueM ''QTNETWORK_QDNSMAILEXCHANGERECORD''] ['''', QDnsMailExchangeRecord],
     ClassEntry ''QDnsServiceRecord'' [ValueM ''QTNETWORK_QDNSSERVICERECORD''] ['''', ''QDnsServiceRecord''],
     ClassEntry ''QDnsTextRecord'' [ValueM ''QTNETWORK_QDNSTEXTRECORD''] ['''', ''QDnsTextRecord''],
     ClassEntry QDnsTlsAssociationRecord [ValueM ''QTNETWORK_QDNSTLSASSOCIATIONRECORD''] ['''', QDnsTlsAssociationRecord],
     ClassEntry ''QFormDataBuilder'' [] ['''']]"

definition vctor_qtnetwork_1_0 :: "ctor_block list" where
  "vctor_qtnetwork_1_0 = [
     CtorBlock ''QFormDataPartBuilder'' 0 [
       Overload [] [] None],
     CtorBlock QHostAddress 0 [
       Overload [] [] None],
     CtorBlock QHostAddress 1 [
       Overload [TypeM QTNETWORK_QHOSTADDRESS] [PConv ''QHostAddress::SpecialAddress''] None,
       Overload [] [PString False] None,
       Overload [ValueM QTNETWORK_QHOSTADDRESS] [PConv QHostAddress] None],
     CtorBlock ''QHostInfo'' 0 [
       Overload [] [] None]]"

definition vctor_qtnetwork_1_1 :: "ctor_block list" where
  "vctor_qtnetwork_1_1 = [
     CtorBlock ''QHostInfo'' 1 [
       Overload [] [PInt] None,
       Overload [ValueM ''QTNETWORK_QHOSTINFO''] [PConv ''QHostInfo''] None],
     CtorBlock ''QHstsPolicy'' 0 [
       Overload [] [] None],
     CtorBlock ''QHstsPolicy'' 1 [
       Overload [ValueM ''QTNETWORK_QHSTSPOLICY''] [PConv ''QHstsPolicy''] None],
     CtorBlock ''QHstsPolicy'' 3 [
       Overload [TypeM QTCORE_QURL, TypeM ''QTNETWORK_QHSTSPOLICY'', ValueM QTCORE_QDATETIME] [PConv QDateTime, PConv ''QHstsPolicy::PolicyFlags'', PString False] None]]"

definition vctor_qtnetwork_1_2 :: "ctor_block list" where
  "vctor_qtnetwork_1_2 = [
     CtorBlock ''QHstsPolicy'' 4 [
       Overload [TypeM QTCORE_QURL, TypeM ''QTNETWORK_QHSTSPOLICY'', ValueM QTCORE_QDATETIME] [PConv QDateTime, PConv ''QHstsPolicy::PolicyFlags'', PString False, PConv ''QUrl::ParsingMode''] None],
     CtorBlock QHttp1Configuration 0 [
       Overload [] [] None],
     CtorBlock QHttp1Configuration 1 [
       Overload [ValueM ''QTNETWORK_QHTTP1CONFIGURATION''] [PConv QHttp1Configuration] None],
     CtorBlock QHttp2Configuration 0 [
       Overload [] [] None],
     CtorBlock QHttp2Configuration 1 [
       Overload [ValueM ''QTNETWORK_QHTTP2CONFIGURATION''] [PConv QHttp2Configuration] None],
     CtorBlock QHttpHeaders 0 [
       Overload [] [] None]]"

definition vctor_qtnetwork_1_3 :: "ctor_block list" where
  "vctor_qtnetwork_1_3 = [
     CtorBlock QHttpHeaders 1 [
       Overload [ValueM QTNETWORK_QHTTPHEADERS] [PConv QHttpHeaders] None],
     CtorBlock ''QHttpPart'' 0 [
       Overload [] [] None],
     CtorBlock ''QHttpPart'' 1 [
       Overload [ValueM ''QTNETWORK_QHTTPPART''] [PConv ''QHttpPart''] None]]"

definition vctor_classes_qtnetwork_1 :: "class_entry list" where
  "vctor_classes_qtnetwork_1 = [
     ClassEntry ''QFormDataPartBuilder'' [] [''''],
     ClassEntry QHostAddress [TypeM QTNETWORK_QHOSTADDRESS, ValueM QTNETWORK_QHOSTADDRESS] ['''', ''QHostAddress::SpecialAddress'', QString, QHostAddress],
     ClassEntry ''QHostInfo'' [ValueM ''QTNETWORK_QHOSTINFO''] [''int'', ''QHostInfo''],
     ClassEntry ''QHstsPolicy'' [TypeM QTCORE_QURL, TypeM ''QTNETWORK_QHSTSPOLICY'', ValueM QTCORE_QDATETIME, ValueM ''QTNETWORK_QHSTSPOLICY''] ['''', ''QDateTime, QHstsPolicy::PolicyFlags, QString, QUrl::ParsingMode'', ''QHstsPolicy''],
     ClassEntry QHttp1Configuration [ValueM ''QTNETWORK_QHTTP1CONFIGURATION''] ['''', QHttp1Configuration],
     ClassEntry QHttp2Configuration [ValueM ''QTNETWORK_QHTTP2CONFIGURATION''] ['''', QHttp2Configuration],
     ClassEntry QHttpHeaders [ValueM QTNETWORK_QHTTPHEADERS] ['''', QHttpHeaders],
     ClassEntry ''QHttpPart'' [ValueM ''QTNETWORK_QHTTPPART''] ['''', ''QHttpPart'']]"

definition vctor_qtnetwork_2_0 :: "ctor_block list" where
  "vctor_qtnetwork_2_0 = [
     CtorBlock QNetworkAddressEntry 0 [
       Overload [] [] None],
     CtorBlock QNetworkAddressEntry 1 [
       Overload [ValueM ''QTNETWORK_QNETWORKADDRESSENTRY''] [PConv QNetworkAddressEntry] None],
     CtorBlock QNetworkCacheMetaData 0 [
       Overload [] [] None],
     CtorBlock QNetworkCacheMetaData 1 [
       Overload [ValueM ''QTNETWORK_QNETWORKCACHEMETADATA''] [PConv QNetworkCacheMetaData] None],
     CtorBlock QNetworkCookie 0 [
       Overload [ValueM QTCORE_QBYTEARRAY] [] None]]"

definition vctor_qtnetwork_2_1 :: "ctor_block list" where
  "vctor_qtnetwork_2_1 = [
     CtorBlock QNetworkCookie 1 [
       Overload [ValueM QTCORE_QBYTEARRAY] [PConv QByteArray] None,
       Overload [ValueM QTNETWORK_QNETWORKCOOKIE] [PConv QNetworkCookie] None],
     CtorBlock QNetworkCookie 2 [
       Overload [ValueM QTCORE_QBYTEARRAY] [PConv QByteArray, PConv QByteArray] None],
     CtorBlock QNetworkDatagram 0 [
       Overload [] [] None],
     CtorBlock QNetworkDatagram 1 [
       Overload [ValueM ''QTNETWORK_QNETWORKDATAGRAM''] [PConv QNetworkDatagram] None],
     CtorBlock QNetworkInterface 0 [
       Overload [] [] None]]"

definition vctor_qtnetwork_2_2 :: "ctor_block list" where
  "vctor_qtnetwork_2_2 = [
     CtorBlock QNetworkInterface 1 [
       Overload [ValueM QTNETWORK_QNETWORKINTERFACE] [PConv QNetworkInterface] None],
     CtorBlock QNetworkProxy 0 [
       Overload [] [] None],
     CtorBlock QNetworkProxy 1 [
       Overload [ValueM QTNETWORK_QNETWORKPROXY] [PConv QNetworkProxy] None],
     CtorBlock ''QNetworkProxyFactory'' 0 [
       Overload [] [] None],
     CtorBlock QNetworkProxyQuery 0 [
       Overload [] [] None]]"

definition vctor_qtnetwork_2_3 :: "ctor_block list" where
  "vctor_qtnetwork_2_3 = [
     CtorBlock QNetworkProxyQuery 1 [
       Overload [TypeM QTNETWORK_QNETWORKPROXYQUERY, ValueM QTCORE_QURL] [PConv QUrl] None,
       Overload [ValueM QTNETWORK_QNETWORKPROXYQUERY] [PConv QNetworkProxyQuery] None],
     CtorBlock QNetworkProxyQuery 2 [
       Overload [TypeM QTNETWORK_QNETWORKPROXYQUERY, ValueM QTCORE_QURL] [PConv QUrl, PConv ''QNetworkProxyQuery::QueryType''] None,
       Overload [TypeM QTNETWORK_QNETWORKPROXYQUERY] [PString False, PInt] None],
     CtorBlock QNetworkProxyQuery 3 [
       Overload [TypeM QTNETWORK_QNETWORKPROXYQUERY] [PString False, PInt, PString False] None]]"

definition vctor_qtnetwork_2_4 :: "ctor_block list" where
  "vctor_qtnetwork_2_4 = [
     CtorBlock QNetworkProxyQuery 4 [
       Overload [TypeM QTNETWORK_QNETWORKPROXYQUERY] [PString False, PInt, PString False, PConv ''QNetworkProxyQuery::QueryType''] None]]"

definition vctor_classes_qtnetwork_2 :: "class_entry list" where
  "vctor_classes_qtnetwork_2 = [
     ClassEntry QNetworkAddressEntry [ValueM ''QTNETWORK_QNETWORKADDRESSENTRY''] ['''', QNetworkAddressEntry],
     ClassEntry QNetworkCacheMetaData [ValueM ''QTNETWORK_QNETWORKCACHEMETADATA''] ['''', QNetworkCacheMetaData],
     ClassEntry QNetworkCookie [ValueM QTCORE_QBYTEARRAY, ValueM QTNETWORK_QNETWORKCOOKIE] [''QByteArray, QByteArray'', QNetworkCookie],
     ClassEntry QNetworkDatagram [ValueM ''QTNETWORK_QNETWORKDATAGRAM''] ['''', QNetworkDatagram],
     ClassEntry QNetworkInterface [ValueM QTNETWORK_QNETWORKINTERFACE] ['''', QNetworkInterface],
     ClassEntry QNetworkProxy [ValueM QTNETWORK_QNETWORKPROXY] ['''', QNetworkProxy],
     ClassEntry ''QNetworkProxyFactory'' [] [''''],
     ClassEntry QNetworkProxyQuery [TypeM QTNETWORK_QNETWORKPROXYQUERY, ValueM QTCORE_QURL, ValueM QTNETWORK_QNETWORKPROXYQUERY] ['''', ''QUrl, QNetworkProxyQuery::QueryType'', ''QString, int, QString, QNetworkProxyQuery::QueryType'', QNetworkProxyQuery]]"

definition vctor_qtnetwork_3_0 :: "ctor_block list" where
  "vctor_qtnetwork_3_0 = [
     CtorBlock QNetworkRequest 0 [
       Overload [] [] None],
     CtorBlock QNetworkRequest 1 [
       Overload [ValueM QTCORE_QURL] [PConv QUrl] None,
       Overload [ValueM QTNETWORK_QNETWORKREQUEST] [PConv QNetworkRequest] None],
     CtorBlock QNetworkRequestFactory 0 [
       Overload [] [] None],
     CtorBlock QNetworkRequestFactory 1 [
       Overload [ValueM QTCORE_QURL] [PConv QUrl] None,
       Overload [ValueM ''QTNETWORK_QNETWORKREQUESTFACTORY''] [PConv QNetworkRequestFactory] None]]"

definition vctor_qtnetwork_3_1 :: "ctor_block list" where
  "vctor_qtnetwork_3_1 = [
     CtorBlock ''QOcspResponse'' 0 [
       Overload [] [] None],
     CtorBlock ''QOcspResponse'' 1 [
       Overload [ValueM ''QTNETWORK_QOCSPRESPONSE''] [PConv ''QOcspResponse''] None],
     CtorBlock ''QRestReply'' 1 [
       Overload [TypeM QTNETWORK_QNETWORKREPLY] [PNonNull ''QNetworkReply*''] None],
     CtorBlock QSslCertificate 1 [
       Overload [ValueM QTNETWORK_QSSLCERTIFICATE] [PConv QSslCertificate] None],
     CtorBlock QSslCertificateExtension 0 [
       Overload [] [] None],
     CtorBlock QSslCertificateExtension 1 [
       Overload [ValueM ''QTNETWORK_QSSLCERTIFICATEEXTENSION''] [PConv QSslCertificateExtension] None]]"

definition vctor_qtnetwork_3_2 :: "ctor_block list" where
  "vctor_qtnetwork_3_2 = [
     CtorBlock ''QSslCipher'' 0 [
       Overload [] [] None],
     CtorBlock ''QSslCipher'' 1 [
       Overload [] [PString False] None,
       Overload [ValueM ''QTNETWORK_QSSLCIPHER''] [PConv ''QSslCipher''] None],
     CtorBlock QSslConfiguration 0 [
       Overload [] [] None],
     CtorBlock QSslConfiguration 1 [
       Overload [ValueM QTNETWORK_QSSLCONFIGURATION] [PConv QSslConfiguration] None]]"

definition vctor_classes_qtnetwork_3 :: "class_entry list" where
  "vctor_classes_qtnetwork_3 = [
     ClassEntry QNetworkRequest [ValueM QTCORE_QURL, ValueM QTNETWORK_QNETWORKREQUEST] [QUrl, '''', QNetworkRequest],
     ClassEntry QNetworkRequestFactory [ValueM QTCORE_QURL, ValueM ''QTNETWORK_QNETWORKREQUESTFACTORY''] ['''', QUrl, QNetworkRequestFactory],
     ClassEntry ''QOcspResponse'' [ValueM ''QTNETWORK_QOCSPRESPONSE''] ['''', ''QOcspResponse''],
     ClassEntry ''QRestReply'' [TypeM QTNETWORK_QNETWORKREPLY] [''QNetworkReply*''],
     ClassEntry QSslCertificate [ValueM QTNETWORK_QSSLCERTIFICATE] [QSslCertificate],
     ClassEntry QSslCertificateExtension [ValueM ''QTNETWORK_QSSLCERTIFICATEEXTENSION''] ['''', QSslCertificateExtension],
     ClassEntry ''QSslCipher'' [ValueM ''QTNETWORK_QSSLCIPHER''] ['''', QString, ''QSslCipher''],
     ClassEntry QSslConfiguration [ValueM QTNETWORK_QSSLCONFIGURATION] ['''', QSslConfiguration]]"

definition vctor_qtnetwork_4_0 :: "ctor_block list" where
  "vctor_qtnetwork_4_0 = [
     CtorBlock QSslDiffieHellmanParameters 0 [
       Overload [] [] None],
     CtorBlock QSslDiffieHellmanParameters 1 [
       Overload [ValueM ''QTNETWORK_QSSLDIFFIEHELLMANPARAMETERS''] [PConv QSslDiffieHellmanParameters] None],
     CtorBlock QSslEllipticCurve 0 [
       Overload [] [] None],
     CtorBlock ''QSslError'' 0 [
       Overload [] [] None],
     CtorBlock ''QSslError'' 1 [
       Overload [TypeM ''QTNETWORK_QSSLERROR''] [PConv ''QSslError::SslError''] None,
       Overload [ValueM ''QTNETWORK_QSSLERROR''] [PConv ''QSslError''] None]]"

definition vctor_qtnetwork_4_1 :: "ctor_block list" where
  "vctor_qtnetwork_4_1 = [
     CtorBlock ''QSslError'' 2 [
       Overload [TypeM ''QTNETWORK_QSSLERROR'', ValueM QTNETWORK_QSSLCERTIFICATE] [PConv ''QSslError::SslError'', PConv QSslCertificate] None],
     CtorBlock ''QSslKey'' 0 [
       Overload [] [] None],
     CtorBlock ''QSslKey'' 1 [
       Overload [ValueM ''QTNETWORK_QSSLKEY''] [PConv ''QSslKey''] None],
     CtorBlock QSslPreSharedKeyAuthenticator 0 [
       Overload [] [] None],
     CtorBlock QSslPreSharedKeyAuthenticator 1 [
       Overload [ValueM ''QTNETWORK_QSSLPRESHAREDKEYAUTHENTICATOR''] [PConv QSslPreSharedKeyAuthenticator] None]]"

definition vctor_classes_qtnetwork_4 :: "class_entry list" where
  "vctor_classes_qtnetwork_4 = [
     ClassEntry QSslDiffieHellmanParameters [ValueM ''QTNETWORK_QSSLDIFFIEHELLMANPARAMETERS''] ['''', QSslDiffieHellmanParameters],
     ClassEntry QSslEllipticCurve [] [''''],
     ClassEntry ''QSslError'' [TypeM ''QTNETWORK_QSSLERROR'', ValueM QTNETWORK_QSSLCERTIFICATE, ValueM ''QTNETWORK_QSSLERROR''] ['''', ''QSslError::SslError'', ''QSslError::SslError, QSslCertificate'', ''QSslError''],
     ClassEntry ''QSslKey'' [ValueM ''QTNETWORK_QSSLKEY''] ['''', ''QSslKey''],
     ClassEntry QSslPreSharedKeyAuthenticator [ValueM ''QTNETWORK_QSSLPRESHAREDKEYAUTHENTICATOR''] ['''', QSslPreSharedKeyAuthenticator]]"

definition vctor_qtnetworkauth_0_0 :: "ctor_block list" where
  "vctor_qtnetworkauth_0_0 = [
     CtorBlock QOAuth1Signature 1 [
       Overload [ValueM ''QTNETWORKAUTH_QOAUTH1SIGNATURE''] [PConv QOAuth1Signature] None]]"

definition vctor_classes_qtnetworkauth_0 :: "class_entry list" where
  "vctor_classes_qtnetworkauth_0 = [
     ClassEntry QOAuth1Signature [ValueM ''QTNETWORKAUTH_QOAUTH1SIGNATURE''] [QOAuth1Signature]]"

definition vctor_qtnfc_0_0 :: "ctor_block list" where
  "vctor_qtnfc_0_0 = [
     CtorBlock ''QNdefFilter'' 0 [
       Overload [] [] None],
     CtorBlock ''QNdefFilter'' 1 [
       Overload [ValueM ''QTNFC_QNDEFFILTER''] [PConv ''QNdefFilter''] None],
     CtorBlock ''QNdefMessage'' 0 [
       Overload [] [] None],
     CtorBlock ''QNdefMessage'' 1 [
       Overload [ValueM QTNFC_QNDEFRECORD] [PConv QNdefRecord] None,
       Overload [ValueM ''QTNFC_QNDEFMESSAGE''] [PConv ''QNdefMessage''] None,
       Overload [ValueM QTNFC_QNDEFRECORD] [PListV QNdefRecord] None]]"

definition vctor_qtnfc_0_1 :: "ctor_block list" where
  "vctor_qtnfc_0_1 = [
     CtorBlock ''QNdefNfcIconRecord'' 0 [
       Overload [] [] None],
     CtorBlock ''QNdefNfcIconRecord'' 1 [
       Overload [ValueM QTNFC_QNDEFRECORD] [PConv QNdefRecord] None],
     CtorBlock QNdefNfcSmartPosterRecord 0 [
       Overload [] [] None],
     CtorBlock QNdefNfcSmartPosterRecord 1 [
       Overload [ValueM ''QTNFC_QNDEFNFCSMARTPOSTERRECORD''] [PConv QNdefNfcSmartPosterRecord] None,
       Overload [ValueM QTNFC_QNDEFRECORD] [PConv QNdefRecord] None],
     CtorBlock QNdefNfcTextRecord 0 [
       Overload [] [] None]]"

definition vctor_qtnfc_0_2 :: "ctor_block list" where
  "vctor_qtnfc_0_2 = [
     CtorBlock QNdefNfcTextRecord 1 [
       Overload [ValueM QTNFC_QNDEFRECORD] [PConv QNdefRecord] None],
     CtorBlock ''QNdefNfcUriRecord'' 0 [
       Overload [] [] None],
     CtorBlock ''QNdefNfcUriRecord'' 1 [
       Overload [ValueM QTNFC_QNDEFRECORD] [PConv QNdefRecord] None],
     CtorBlock QNdefRecord 0 [
       Overload [] [] None],
     CtorBlock QNdefRecord 1 [
       Overload [ValueM QTNFC_QNDEFRECORD] [PConv QNdefRecord] None]]"

definition vctor_classes_qtnfc_0 :: "class_entry list" where
  "vctor_classes_qtnfc_0 = [
     ClassEntry ''QNdefFilter'' [ValueM ''QTNFC_QNDEFFILTER''] ['''', ''QNdefFilter''],
     ClassEntry ''QNdefMessage'' [ValueM ''QTNFC_QNDEFMESSAGE'', ValueM QTNFC_QNDEFRECORD] ['''', QNdefRecord, ''QNdefMessage'', ''QList<QNdefRecord>''],
     ClassEntry ''QNdefNfcIconRecord'' [ValueM QTNFC_QNDEFRECORD] ['''', QNdefRecord],
     ClassEntry QNdefNfcSmartPosterRecord [ValueM ''QTNFC_QNDEFNFCSMARTPOSTERRECORD'', ValueM QTNFC_QNDEFRECORD] ['''', QNdefNfcSmartPosterRecord, QNdefRecord],
     ClassEntry QNdefNfcTextRecord [ValueM QTNFC_QNDEFRECORD] ['''', QNdefRecord],
     ClassEntry ''QNdefNfcUriRecord'' [ValueM QTNFC_QNDEFRECORD] ['''', QNdefRecord],
     ClassEntry QNdefRecord [ValueM QTNFC_QNDEFRECORD] ['''', QNdefRecord]]"

definition vctor_qtopengl_0_0 :: "ctor_block list" where
  "vctor_qtopengl_0_0 = [
     CtorBlock QOpenGLBuffer 0 [
       Overload [] [] None],
     CtorBlock QOpenGLBuffer 1 [
       Overload [TypeM ''QTOPENGL_QOPENGLBUFFER''] [PConv ''QOpenGLBuffer::Type''] None,
       Overload [ValueM ''QTOPENGL_QOPENGLBUFFER''] [PConv QOpenGLBuffer] None],
     CtorBlock QOpenGLDebugMessage 0 [
       Overload [] [] None],
     CtorBlock QOpenGLDebugMessage 1 [
       Overload [ValueM QTOPENGL_QOPENGLDEBUGMESSAGE] [PConv QOpenGLDebugMessage] None],
     CtorBlock QOpenGLFramebufferObject 2 [
       Overload [ValueM QTCORE_QSIZE, ValueM ''QTOPENGL_QOPENGLFRAMEBUFFEROBJECTFORMAT''] [PConv QSize, PConv QOpenGLFramebufferObjectFormat] None]]"

definition vctor_qtopengl_0_1 :: "ctor_block list" where
  "vctor_qtopengl_0_1 = [
     CtorBlock QOpenGLFramebufferObject 3 [
       Overload [ValueM ''QTOPENGL_QOPENGLFRAMEBUFFEROBJECTFORMAT''] [PInt, PInt, PConv QOpenGLFramebufferObjectFormat] None],
     CtorBlock QOpenGLFramebufferObjectFormat 0 [
       Overload [] [] None],
     CtorBlock QOpenGLFramebufferObjectFormat 1 [
       Overload [ValueM ''QTOPENGL_QOPENGLFRAMEBUFFEROBJECTFORMAT''] [PConv QOpenGLFramebufferObjectFormat] None],
     CtorBlock ''QOpenGLFunctions_2_0'' 0 [
       Overload [] [] None],
     CtorBlock ''QOpenGLFunctions_2_1'' 0 [
       Overload [] [] None],
     CtorBlock ''QOpenGLFunctions_4_1_Core'' 0 [
       Overload [] [] None]]"

definition vctor_qtopengl_0_2 :: "ctor_block list" where
  "vctor_qtopengl_0_2 = [
     CtorBlock QOpenGLPaintDevice 0 [
       Overload [] [] None],
     CtorBlock QOpenGLPaintDevice 1 [
       Overload [ValueM QTCORE_QSIZE] [PConv QSize] None],
     CtorBlock QOpenGLPaintDevice 2 [
       Overload [] [PInt, PInt] None]]"

definition vctor_classes_qtopengl_0 :: "class_entry list" where
  "vctor_classes_qtopengl_0 = [
     ClassEntry QOpenGLBuffer [TypeM ''QTOPENGL_QOPENGLBUFFER'', ValueM ''QTOPENGL_QOPENGLBUFFER''] ['''', ''QOpenGLBuffer::Type'', QOpenGLBuffer],
     ClassEntry QOpenGLDebugMessage [ValueM QTOPENGL_QOPENGLDEBUGMESSAGE] ['''', QOpenGLDebugMessage],
     ClassEntry QOpenGLFramebufferObject [ValueM QTCORE_QSIZE, ValueM ''QTOPENGL_QOPENGLFRAMEBUFFEROBJECTFORMAT''] [''QSize, QOpenGLFramebufferObjectFormat'', ''int, int, QOpenGLFramebufferObjectFormat''],
     ClassEntry QOpenGLFramebufferObjectFormat [ValueM ''QTOPENGL_QOPENGLFRAMEBUFFEROBJECTFORMAT''] ['''', QOpenGLFramebufferObjectFormat],
     ClassEntry ''QOpenGLFunctions_2_0'' [] [''''],
     ClassEntry ''QOpenGLFunctions_2_1'' [] [''''],
     ClassEntry ''QOpenGLFunctions_4_1_Core'' [] [''''],
     ClassEntry QOpenGLPaintDevice [ValueM QTCORE_QSIZE] ['''', QSize, ''int, int'']]"

definition vctor_qtopengl_1_0 :: "ctor_block list" where
  "vctor_qtopengl_1_0 = [
     CtorBlock QOpenGLPixelTransferOptions 0 [
       Overload [] [] None],
     CtorBlock QOpenGLPixelTransferOptions 1 [
       Overload [ValueM ''QTOPENGL_QOPENGLPIXELTRANSFEROPTIONS''] [PConv QOpenGLPixelTransferOptions] None],
     CtorBlock QOpenGLTexture 1 [
       Overload [TypeM QTOPENGL_QOPENGLTEXTURE] [PConv ''QOpenGLTexture::Target''] None,
       Overload [TypeM QTOPENGL_QOPENGLTEXTURE, ValueM QTGUI_QIMAGE] [PConv QImage] None],
     CtorBlock QOpenGLTexture 2 [
       Overload [TypeM QTOPENGL_QOPENGLTEXTURE, ValueM QTGUI_QIMAGE] [PConv QImage, PConv ''QOpenGLTexture::MipMapGeneration''] None],
     CtorBlock QOpenGLTextureBlitter 0 [
       Overload [] [] None]]"

definition vctor_qtopengl_1_1 :: "ctor_block list" where
  "vctor_qtopengl_1_1 = [
     CtorBlock QOpenGLVersionProfile 0 [
       Overload [] [] None],
     CtorBlock QOpenGLVersionProfile 1 [
       Overload [ValueM QTGUI_QSURFACEFORMAT] [PConv QSurfaceFormat] None,
       Overload [ValueM ''QTOPENGL_QOPENGLVERSIONPROFILE''] [PConv QOpenGLVersionProfile] None]]"

definition vctor_classes_qtopengl_1 :: "class_entry list" where
  "vctor_classes_qtopengl_1 = [
     ClassEntry QOpenGLPixelTransferOptions [ValueM ''QTOPENGL_QOPENGLPIXELTRANSFEROPTIONS''] ['''', QOpenGLPixelTransferOptions],
     ClassEntry QOpenGLTexture [TypeM QTOPENGL_QOPENGLTEXTURE, ValueM QTGUI_QIMAGE] [''QOpenGLTexture::Target'', ''QImage, QOpenGLTexture::MipMapGeneration''],
     ClassEntry QOpenGLTextureBlitter [] [''''],
     ClassEntry QOpenGLVersionProfile [ValueM QTGUI_QSURFACEFORMAT, ValueM ''QTOPENGL_QOPENGLVERSIONPROFILE''] ['''', QSurfaceFormat, QOpenGLVersionProfile]]"

definition vctor_qtpdf_0_0 :: "ctor_block list" where
  "vctor_qtpdf_0_0 = [
     CtorBlock QPdfDocumentRenderOptions 0 [
       Overload [] [] None],
     CtorBlock ''QPdfLink'' 0 [
       Overload [] [] None],
     CtorBlock ''QPdfLink'' 1 [
       Overload [ValueM ''QTPDF_QPDFLINK''] [PConv ''QPdfLink''] None],
     CtorBlock QPdfSelection 1 [
       Overload [ValueM ''QTPDF_QPDFSELECTION''] [PConv QPdfSelection] None]]"

definition vctor_classes_qtpdf_0 :: "class_entry list" where
  "vctor_classes_qtpdf_0 = [
     ClassEntry QPdfDocumentRenderOptions [] [''''],
     ClassEntry ''QPdfLink'' [ValueM ''QTPDF_QPDFLINK''] ['''', ''QPdfLink''],
     ClassEntry QPdfSelection [ValueM ''QTPDF_QPDFSELECTION''] [QPdfSelection]]"

definition vctor_qtpositioning_0_0 :: "ctor_block list" where
  "vctor_qtpositioning_0_0 = [
     CtorBlock QGeoAddress 0 [
       Overload [] [] None],
     CtorBlock QGeoAddress 1 [
       Overload [ValueM ''QTPOSITIONING_QGEOADDRESS''] [PConv QGeoAddress] None],
     CtorBlock QGeoAreaMonitorInfo 0 [
       Overload [] [] None],
     CtorBlock QGeoAreaMonitorInfo 1 [
       Overload [] [PString False] None,
       Overload [ValueM ''QTPOSITIONING_QGEOAREAMONITORINFO''] [PConv QGeoAreaMonitorInfo] None],
     CtorBlock ''QGeoCircle'' 0 [
       Overload [] [] None]]"

definition vctor_qtpositioning_0_1 :: "ctor_block list" where
  "vctor_qtpositioning_0_1 = [
     CtorBlock ''QGeoCircle'' 1 [
       Overload [ValueM QTPOSITIONING_QGEOCOORDINATE] [PConv QGeoCoordinate] None,
       Overload [ValueM ''QTPOSITIONING_QGEOCIRCLE''] [PConv ''QGeoCircle''] None,
       Overload [ValueM QTPOSITIONING_QGEOSHAPE] [PConv QGeoShape] None],
     CtorBlock ''QGeoCircle'' 2 [
       Overload [ValueM QTPOSITIONING_QGEOCOORDINATE] [PConv QGeoCoordinate, PReal ''qreal''] None],
     CtorBlock QGeoCoordinate 0 [
       Overload [] [] None],
     CtorBlock QGeoCoordinate 1 [
       Overload [ValueM QTPOSITIONING_QGEOCOORDINATE] [PConv QGeoCoordinate] None]]"

definition vctor_qtpositioning_0_2 :: "ctor_block list" where
  "vctor_qtpositioning_0_2 = [
     CtorBlock QGeoCoordinate 2 [
       Overload [] [PReal ''double'', PReal ''double''] None],
     CtorBlock QGeoCoordinate 3 [
       Overload [] [PReal ''double'', PReal ''double'', PReal ''double''] None],
     CtorBlock ''QGeoLocation'' 0 [
       Overload [] [] None],
     CtorBlock ''QGeoLocation'' 1 [
       Overload [ValueM ''QTPOSITIONING_QGEOLOCATION''] [PConv ''QGeoLocation''] None],
     CtorBlock ''QGeoPath'' 0 [
       Overload [] [] None]]"

definition vctor_qtpositioning_0_3 :: "ctor_block list" where
  "vctor_qtpositioning_0_3 = [
     CtorBlock ''QGeoPath'' 1 [
       Overload [ValueM QTPOSITIONING_QGEOCOORDINATE] [PListV QGeoCoordinate] None,
       Overload [ValueM ''QTPOSITIONING_QGEOPATH''] [PConv ''QGeoPath''] None,
       Overload [ValueM QTPOSITIONING_QGEOSHAPE] [PConv QGeoShape] None],
     CtorBlock ''QGeoPath'' 2 [
       Overload [ValueM QTPOSITIONING_QGEOCOORDINATE] [PListV QGeoCoordinate, PReal ''qreal''] None],
     CtorBlock QGeoPolygon 0 [
       Overload [] [] None]]"

definition vctor_qtpositioning_0_4 :: "ctor_block list" where
  "vctor_qtpositioning_0_4 = [
     CtorBlock QGeoPolygon 1 [
       Overload [ValueM QTPOSITIONING_QGEOCOORDINATE] [PListV QGeoCoordinate] None,
       Overload [ValueM ''QTPOSITIONING_QGEOPOLYGON''] [PConv QGeoPolygon] None,
       Overload [ValueM QTPOSITIONING_QGEOSHAPE] [PConv QGeoShape] None],
     CtorBlock QGeoPositionInfo 0 [
       Overload [] [] None],
     CtorBlock QGeoPositionInfo 1 [
       Overload [ValueM ''QTPOSITIONING_QGEOPOSITIONINFO''] [PConv QGeoPositionInfo] None],
     CtorBlock QGeoPositionInfo 2 [
       Overload [ValueM QTCORE_QDATETIME, ValueM QTPOSITIONING_QGEOCOORDINATE] [PConv QGeoCoordinate, PConv QDateTime] None]]"

definition vctor_classes_qtpositioning_0 :: "class_entry list" where
  "vctor_classes_qtpositioning_0 = [
     ClassEntry QGeoAddress [ValueM ''QTPOSITIONING_QGEOADDRESS''] ['''', QGeoAddress],
     ClassEntry QGeoAreaMonitorInfo [ValueM ''QTPOSITIONING_QGEOAREAMONITORINFO''] [QString, QGeoAreaMonitorInfo],
     ClassEntry ''QGeoCircle'' [ValueM ''QTPOSITIONING_QGEOCIRCLE'', ValueM QTPOSITIONING_QGEOCOORDINATE, ValueM QTPOSITIONING_QGEOSHAPE] ['''', ''QGeoCoordinate, qreal'', ''QGeoCircle'', QGeoShape],
     ClassEntry QGeoCoordinate [ValueM QTPOSITIONING_QGEOCOORDINATE] ['''', ''double, double'', ''double, double, double'', QGeoCoordinate],
     ClassEntry ''QGeoLocation'' [ValueM ''QTPOSITIONING_QGEOLOCATION''] ['''', ''QGeoLocation''],
     ClassEntry ''QGeoPath'' [ValueM QTPOSITIONING_QGEOCOORDINATE, ValueM ''QTPOSITIONING_QGEOPATH'', ValueM QTPOSITIONING_QGEOSHAPE] ['''', ''QList<QGeoCoordinate>, qreal'', ''QGeoPath'', QGeoShape],
     ClassEntry QGeoPolygon [ValueM QTPOSITIONING_QGEOCOORDINATE, ValueM ''QTPOSITIONING_QGEOPOLYGON'', ValueM QTPOSITIONING_QGEOSHAPE] ['''', ''QList<QGeoCoordinate>'', QGeoPolygon, QGeoShape],
     ClassEntry QGeoPositionInfo [ValueM QTCORE_QDATETIME, ValueM QTPOSITIONING_QGEOCOORDINATE, ValueM ''QTPOSITIONING_QGEOPOSITIONINFO''] ['''', ''QGeoCoordinate, QDateTime'', QGeoPositionInfo]]"

definition vctor_qtpositioning_1_0 :: "ctor_block list" where
  "vctor_qtpositioning_1_0 = [
     CtorBlock QGeoRectangle 0 [
       Overload [] [] None],
     CtorBlock QGeoRectangle 1 [
       Overload [ValueM QTPOSITIONING_QGEOCOORDINATE] [PListV QGeoCoordinate] None,
       Overload [ValueM ''QTPOSITIONING_QGEORECTANGLE''] [PConv QGeoRectangle] None,
       Overload [ValueM QTPOSITIONING_QGEOSHAPE] [PConv QGeoShape] None],
     CtorBlock QGeoRectangle 2 [
       Overload [ValueM QTPOSITIONING_QGEOCOORDINATE] [PConv QGeoCoordinate, PConv QGeoCoordinate] None],
     CtorBlock QGeoRectangle 3 [
       Overload [ValueM QTPOSITIONING_QGEOCOORDINATE] [PConv QGeoCoordinate, PReal ''double'', PReal ''double''] None]]"

definition vctor_qtpositioning_1_1 :: "ctor_block list" where
  "vctor_qtpositioning_1_1 = [
     CtorBlock QGeoSatelliteInfo 0 [
       Overload [] [] None],
     CtorBlock QGeoSatelliteInfo 1 [
       Overload [ValueM QTPOSITIONING_QGEOSATELLITEINFO] [PConv QGeoSatelliteInfo] None],
     CtorBlock QGeoShape 0 [
       Overload [] [] None],
     CtorBlock QGeoShape 1 [
       Overload [ValueM QTPOSITIONING_QGEOSHAPE] [PConv QGeoShape] None]]"

definition vctor_classes_qtpositioning_1 :: "class_entry list" where
  "vctor_classes_qtpositioning_1 = [
     ClassEntry QGeoRectangle [ValueM QTPOSITIONING_QGEOCOORDINATE, ValueM ''QTPOSITIONING_QGEORECTANGLE'', ValueM QTPOSITIONING_QGEOSHAPE] ['''', ''QGeoCoordinate, double, double'', ''QGeoCoordinate, QGeoCoordinate'', ''QList<QGeoCoordinate>'', QGeoRectangle, QGeoShape],
     ClassEntry QGeoSatelliteInfo [ValueM QTPOSITIONING_QGEOSATELLITEINFO] ['''', QGeoSatelliteInfo],
     ClassEntry QGeoShape [ValueM QTPOSITIONING_QGEOSHAPE] ['''', QGeoShape]]"

definition vctor_qtprintsupport_0_0 :: "ctor_block list" where
  "vctor_qtprintsupport_0_0 = [
     CtorBlock QPrinter 0 [
       Overload [TypeM QTPRINTSUPPORT_QPRINTER] [] None],
     CtorBlock QPrinter 1 [
       Overload [TypeM QTPRINTSUPPORT_QPRINTER] [PConv ''QPrinter::PrinterMode''] None,
       Overload [TypeM QTPRINTSUPPORT_QPRINTER, ValueM ''QTPRINTSUPPORT_QPRINTERINFO''] [PConv QPrinterInfo] None],
     CtorBlock QPrinter 2 [
       Overload [TypeM QTPRINTSUPPORT_QPRINTER, ValueM ''QTPRINTSUPPORT_QPRINTERINFO''] [PConv QPrinterInfo, PConv ''QPrinter::PrinterMode''] None],
     CtorBlock QPrinterInfo 0 [
       Overload [] [] None]]"

definition vctor_qtprintsupport_0_1 :: "ctor_block list" where
  "vctor_qtprintsupport_0_1 = [
     CtorBlock QPrinterInfo 1 [
       Overload [ValueM ''QTPRINTSUPPORT_QPRINTERINFO''] [PConv QPrinterInfo] None,
       Overload [ValueM QTPRINTSUPPORT_QPRINTER] [PConv QPrinter] None]]"

definition vctor_classes_qtprintsupport_0 :: "class_entry list" where
  "vctor_classes_qtprintsupport_0 = [
     ClassEntry QPrinter [TypeM QTPRINTSUPPORT_QPRINTER, ValueM ''QTPRINTSUPPORT_QPRINTERINFO''] [''QPrinter::PrinterMode'', ''QPrinterInfo, QPrinter::PrinterMode''],
     ClassEntry QPrinterInfo [ValueM QTPRINTSUPPORT_QPRINTER, ValueM ''QTPRINTSUPPORT_QPRINTERINFO''] ['''', QPrinterInfo, QPrinter]]"

definition vctor_qtqml_0_0 :: "ctor_block list" where
  "vctor_qtqml_0_0 = [
     CtorBlock QJSManagedValue 0 [
       Overload [] [] None],
     CtorBlock QJSManagedValue 2 [
       Overload [TypeM ''QTQML_QJSENGINE'', ValueM QTQML_QJSVALUE] [PConv QJSValue, PNonNull ''QJSEngine*''] None,
       Overload [TypeM ''QTQML_QJSENGINE'', ValueM ''QTQML_QJSPRIMITIVEVALUE''] [PConv QJSPrimitiveValue, PNonNull ''QJSEngine*''] None,
       Overload [TypeM ''QTQML_QJSENGINE''] [PString False, PNonNull ''QJSEngine*''] None,
       Overload [TypeM ''QTQML_QJSENGINE''] [PVariant, PNonNull ''QJSEngine*''] None],
     CtorBlock QJSPrimitiveValue 0 [
       Overload [] [] None]]"

definition vctor_qtqml_0_1 :: "ctor_block list" where
  "vctor_qtqml_0_1 = [
     CtorBlock QJSPrimitiveValue 1 [
       Overload [] [PBool] None,
       Overload [] [PInt] None,
       Overload [] [PReal ''double''] None,
       Overload [] [PString False] None],
     CtorBlock QJSValue 0 [
       Overload [TypeM QTQML_QJSVALUE] [] None],
     CtorBlock QJSValue 1 [
       Overload [TypeM QTQML_QJSVALUE] [PConv ''QJSValue::SpecialValue''] None,
       Overload [ValueM QTQML_QJSVALUE] [PConv QJSValue] None]]"

definition vctor_qtqml_0_2 :: "ctor_block list" where
  "vctor_qtqml_0_2 = [
     CtorBlock ''QJSValueIterator'' 1 [
       Overload [ValueM QTQML_QJSVALUE] [PConv QJSValue] None],
     CtorBlock ''QQmlAbstractUrlInterceptor'' 0 [
       Overload [] [] None],
     CtorBlock QQmlError 0 [
       Overload [] [] None],
     CtorBlock QQmlError 1 [
       Overload [ValueM ''QTQML_QQMLERROR''] [PConv QQmlError] None],
     CtorBlock ''QQmlIncubationController'' 0 [
       Overload [] [] None],
     CtorBlock ''QQmlIncubator'' 0 [
       Overload [TypeM ''QTQML_QQMLINCUBATOR''] [] None]]"

definition vctor_qtqml_0_3 :: "ctor_block list" where
  "vctor_qtqml_0_3 = [
     CtorBlock ''QQmlIncubator'' 1 [
       Overload [TypeM ''QTQML_QQMLINCUBATOR''] [PConv ''QQmlIncubator::IncubationMode''] None]]"

definition vctor_classes_qtqml_0 :: "class_entry list" where
  "vctor_classes_qtqml_0 = [
     ClassEntry QJSManagedValue [TypeM ''QTQML_QJSENGINE'', ValueM ''QTQML_QJSPRIMITIVEVALUE'', ValueM QTQML_QJSVALUE] ['''', ''QJSValue, QJSEngine*'', ''QJSPrimitiveValue, QJSEngine*'', ''QString, QJSEngine*'', ''QVariant, QJSEngine*''],
     ClassEntry QJSPrimitiveValue [] ['''', ''bool'', ''int'', ''double'', QString],
     ClassEntry QJSValue [TypeM QTQML_QJSVALUE, ValueM QTQML_QJSVALUE] [''QJSValue::SpecialValue'', QJSValue],
     ClassEntry ''QJSValueIterator'' [ValueM QTQML_QJSVALUE] [QJSValue],
     ClassEntry ''QQmlAbstractUrlInterceptor'' [] [''''],
     ClassEntry QQmlError [ValueM ''QTQML_QQMLERROR''] ['''', QQmlError],
     ClassEntry ''QQmlIncubationController'' [] [''''],
     ClassEntry ''QQmlIncubator'' [TypeM ''QTQML_QQMLINCUBATOR''] [''QQmlIncubator::IncubationMode'']]"

definition vctor_qtqml_1_0 :: "ctor_block list" where
  "vctor_qtqml_1_0 = [
     CtorBlock QQmlListReference 0 [
       Overload [] [] None],
     CtorBlock QQmlListReference 1 [
       Overload [ValueM ''QTQML_QQMLLISTREFERENCE''] [PConv QQmlListReference] None,
       Overload [TypeM QTQML_QQMLENGINE] [PVariant] None],
     CtorBlock QQmlListReference 2 [
       Overload [TypeM QTQML_QQMLENGINE] [PVariant, PNonNull ''QQmlEngine*''] None],
     CtorBlock ''QQmlParserStatus'' 0 [
       Overload [] [] None],
     CtorBlock QQmlProperty 0 [
       Overload [] [] None]]"

definition vctor_qtqml_1_1 :: "ctor_block list" where
  "vctor_qtqml_1_1 = [
     CtorBlock QQmlProperty 1 [
       Overload [TypeM QTCORE_QOBJECT] [PNonNull QObject_ptr] None,
       Overload [ValueM ''QTQML_QQMLPROPERTY''] [PConv QQmlProperty] None],
     CtorBlock QQmlProperty 2 [
       Overload [TypeM QTCORE_QOBJECT, TypeM QTQML_QQMLCONTEXT] [PNonNull QObject_ptr, PNonNull ''QQmlContext*''] None,
       Overload [TypeM QTCORE_QOBJECT, TypeM QTQML_QQMLENGINE] [PNonNull QObject_ptr, PNonNull ''QQmlEngine*''] None,
       Overload [TypeM QTCORE_QOBJECT] [PNonNull QObject_ptr, PString False] None]]"

definition vctor_qtqml_1_2 :: "ctor_block list" where
  "vctor_qtqml_1_2 = [
     CtorBlock QQmlProperty 3 [
       Overload [TypeM QTCORE_QOBJECT, TypeM QTQML_QQMLCONTEXT] [PNonNull QObject_ptr, PString False, PNonNull ''QQmlContext*''] None,
       Overload [TypeM QTCORE_QOBJECT, TypeM QTQML_QQMLENGINE] [PNonNull QObject_ptr, PString False, PNonNull ''QQmlEngine*''] None],
     CtorBlock ''QQmlPropertyValueSource'' 0 [
       Overload [] [] None],
     CtorBlock ''QQmlScriptString'' 0 [
       Overload [] [] None],
     CtorBlock ''QQmlScriptString'' 1 [
       Overload [ValueM ''QTQML_QQMLSCRIPTSTRING''] [PConv ''QQmlScriptString''] None]]"

definition vctor_classes_qtqml_1 :: "class_entry list" where
  "vctor_classes_qtqml_1 = [
     ClassEntry QQmlListReference [TypeM QTQML_QQMLENGINE, ValueM ''QTQML_QQMLLISTREFERENCE''] ['''', QQmlListReference, ''QVariant, QQmlEngine*''],
     ClassEntry ''QQmlParserStatus'' [] [''''],
     ClassEntry QQmlProperty [TypeM QTCORE_QOBJECT, TypeM QTQML_QQMLCONTEXT, TypeM QTQML_QQMLENGINE, ValueM ''QTQML_QQMLPROPERTY''] ['''', QObject_ptr, ''QObject*, QQmlContext*'', ''QObject*, QQmlEngine*'', ''QObject*, QString'', ''QObject*, QString, QQmlContext*'', ''QObject*, QString, QQmlEngine*'', QQmlProperty],
     ClassEntry ''QQmlPropertyValueSource'' [] [''''],
     ClassEntry ''QQmlScriptString'' [ValueM ''QTQML_QQMLSCRIPTSTRING''] ['''', ''QQmlScriptString'']]"

definition vctor_qtquick_0_0 :: "ctor_block list" where
  "vctor_qtquick_0_0 = [
     CtorBlock QQuickGraphicsConfiguration 0 [
       Overload [] [] None],
     CtorBlock QQuickGraphicsConfiguration 1 [
       Overload [ValueM ''QTQUICK_QQUICKGRAPHICSCONFIGURATION''] [PConv QQuickGraphicsConfiguration] None],
     CtorBlock QQuickGraphicsDevice 0 [
       Overload [] [] None],
     CtorBlock QQuickGraphicsDevice 1 [
       Overload [ValueM ''QTQUICK_QQUICKGRAPHICSDEVICE''] [PConv QQuickGraphicsDevice] None],
     CtorBlock QQuickRenderTarget 0 [
       Overload [] [] None],
     CtorBlock QQuickRenderTarget 1 [
       Overload [ValueM ''QTQUICK_QQUICKRENDERTARGET''] [PConv QQuickRenderTarget] None]]"

definition vctor_qtquick_0_1 :: "ctor_block list" where
  "vctor_qtquick_0_1 = [
     CtorBlock ''QSGClipNode'' 0 [
       Overload [] [] None],
     CtorBlock ''QSGFlatColorMaterial'' 0 [
       Overload [] [] None],
     CtorBlock QSGGeometry 2 [
       Overload [TypeM ''QTQUICK_QSGGEOMETRY''] [PConv ''QSGGeometry::AttributeSet'', PInt] None],
     CtorBlock QSGGeometry 3 [
       Overload [TypeM ''QTQUICK_QSGGEOMETRY''] [PConv ''QSGGeometry::AttributeSet'', PInt, PInt] None],
     CtorBlock QSGGeometry 4 [
       Overload [TypeM ''QTQUICK_QSGGEOMETRY''] [PConv ''QSGGeometry::AttributeSet'', PInt, PInt, PInt] None]]"

definition vctor_qtquick_0_2 :: "ctor_block list" where
  "vctor_qtquick_0_2 = [
     CtorBlock ''QSGGeometryNode'' 0 [
       Overload [] [] None],
     CtorBlock ''QSGMaterial'' 0 [
       Overload [] [] None]]"

definition vctor_classes_qtquick_0 :: "class_entry list" where
  "vctor_classes_qtquick_0 = [
     ClassEntry QQuickGraphicsConfiguration [ValueM ''QTQUICK_QQUICKGRAPHICSCONFIGURATION''] ['''', QQuickGraphicsConfiguration],
     ClassEntry QQuickGraphicsDevice [ValueM ''QTQUICK_QQUICKGRAPHICSDEVICE''] ['''', QQuickGraphicsDevice],
     ClassEntry QQuickRenderTarget [ValueM ''QTQUICK_QQUICKRENDERTARGET''] ['''', QQuickRenderTarget],
     ClassEntry ''QSGClipNode'' [] [''''],
     ClassEntry ''QSGFlatColorMaterial'' [] [''''],
     ClassEntry QSGGeometry [TypeM ''QTQUICK_QSGGEOMETRY''] [''QSGGeometry::AttributeSet, int, int, int''],
     ClassEntry ''QSGGeometryNode'' [] [''''],
     ClassEntry ''QSGMaterial'' [] ['''']]"

definition vctor_qtquick_1_0 :: "ctor_block list" where
  "vctor_qtquick_1_0 = [
     CtorBlock ''QSGMaterialShader'' 0 [
       Overload [] [] None],
     CtorBlock ''QSGNode'' 0 [
       Overload [] [] None],
     CtorBlock ''QSGOpacityNode'' 0 [
       Overload [] [] None],
     CtorBlock QSGOpaqueTextureMaterial 0 [
       Overload [] [] None],
     CtorBlock ''QSGSimpleRectNode'' 0 [
       Overload [] [] None],
     CtorBlock ''QSGSimpleRectNode'' 2 [
       Overload [ValueM QTCORE_QRECTF, ValueM QTGUI_QCOLOR] [PConv QRectF, PConv QColor] None]]"

definition vctor_qtquick_1_1 :: "ctor_block list" where
  "vctor_qtquick_1_1 = [
     CtorBlock QSGSimpleTextureNode 0 [
       Overload [] [] None],
     CtorBlock ''QSGTransformNode'' 0 [
       Overload [] [] None],
     CtorBlock ''QSGVertexColorMaterial'' 0 [
       Overload [] [] None]]"

definition vctor_classes_qtquick_1 :: "class_entry list" where
  "vctor_classes_qtquick_1 = [
     ClassEntry ''QSGMaterialShader'' [] [''''],
     ClassEntry ''QSGNode'' [] [''''],
     ClassEntry ''QSGOpacityNode'' [] [''''],
     ClassEntry QSGOpaqueTextureMaterial [] [''''],
     ClassEntry ''QSGSimpleRectNode'' [ValueM QTCORE_QRECTF, ValueM QTGUI_QCOLOR] [''QRectF, QColor'', ''''],
     ClassEntry QSGSimpleTextureNode [] [''''],
     ClassEntry ''QSGTransformNode'' [] [''''],
     ClassEntry ''QSGVertexColorMaterial'' [] ['''']]"

definition vctor_qtserialport_0_0 :: "ctor_block list" where
  "vctor_qtserialport_0_0 = [
     CtorBlock QSerialPortInfo 0 [
       Overload [] [] None],
     CtorBlock QSerialPortInfo 1 [
       Overload [] [PString False] None,
       Overload [ValueM ''QTSERIALPORT_QSERIALPORTINFO''] [PConv QSerialPortInfo] None]]"

definition vctor_classes_qtserialport_0 :: "class_entry list" where
  "vctor_classes_qtserialport_0 = [
     ClassEntry QSerialPortInfo [ValueM ''QTSERIALPORT_QSERIALPORTINFO''] ['''', QString, QSerialPortInfo]]"

definition vctor_qtsql_0_0 :: "ctor_block list" where
  "vctor_qtsql_0_0 = [
     CtorBlock QSqlDatabase 0 [
       Overload [] [] None],
     CtorBlock QSqlDatabase 1 [
       Overload [ValueM QTSQL_QSQLDATABASE] [PConv QSqlDatabase] None],
     CtorBlock ''QSqlError'' 0 [
       Overload [TypeM ''QTSQL_QSQLERROR''] [] None],
     CtorBlock ''QSqlError'' 1 [
       Overload [TypeM ''QTSQL_QSQLERROR''] [PString False] None,
       Overload [ValueM ''QTSQL_QSQLERROR''] [PConv ''QSqlError''] None],
     CtorBlock ''QSqlError'' 2 [
       Overload [TypeM ''QTSQL_QSQLERROR''] [PString False, PString False] None]]"

definition vctor_qtsql_0_1 :: "ctor_block list" where
  "vctor_qtsql_0_1 = [
     CtorBlock ''QSqlError'' 3 [
       Overload [TypeM ''QTSQL_QSQLERROR''] [PString False, PString False, PConv ''QSqlError::ErrorType''] None],
     CtorBlock ''QSqlError'' 4 [
       Overload [TypeM ''QTSQL_QSQLERROR''] [PString False, PString False, PConv ''QSqlError::ErrorType'', PString False] None],
     CtorBlock QSqlField 0 [
       Overload [ValueM QTCORE_QMETATYPE] [] None],
     CtorBlock QSqlField 1 [
       Overload [ValueM QTCORE_QMETATYPE] [PString False] None,
       Overload [ValueM ''QTSQL_QSQLFIELD''] [PConv QSqlField] None]]"

definition vctor_qtsql_0_2 :: "ctor_block list" where
  "vctor_qtsql_0_2 = [
     CtorBlock QSqlField 2 [
       Overload [ValueM QTCORE_QMETATYPE] [PString False, PConv QMetaType] None],
     CtorBlock QSqlField 3 [
       Overload [ValueM QTCORE_QMETATYPE] [PString False, PConv QMetaType, PString False] None],
     CtorBlock ''QSqlIndex'' 0 [
       Overload [] [] None],
     CtorBlock ''QSqlIndex'' 1 [
       Overload [] [PString False] None,
       Overload [ValueM ''QTSQL_QSQLINDEX''] [PConv ''QSqlIndex''] None],
     CtorBlock ''QSqlIndex'' 2 [
       Overload [] [PString False, PString False] None]]"

definition vctor_qtsql_0_3 :: "ctor_block list" where
  "vctor_qtsql_0_3 = [
     CtorBlock QSqlQuery 0 [
       Overload [ValueM QTSQL_QSQLDATABASE] [] None],
     CtorBlock QSqlQuery 1 [
       Overload [ValueM QTSQL_QSQLDATABASE] [PConv QSqlDatabase] None,
       Overload [ValueM QTSQL_QSQLDATABASE] [PString False] None,
       Overload [ValueM ''QTSQL_QSQLQUERY''] [PConv QSqlQuery] None],
     CtorBlock QSqlQuery 2 [
       Overload [ValueM QTSQL_QSQLDATABASE] [PString False, PConv QSqlDatabase] None],
     CtorBlock QSqlRecord 0 [
       Overload [] [] None]]"

definition vctor_qtsql_0_4 :: "ctor_block list" where
  "vctor_qtsql_0_4 = [
     CtorBlock QSqlRecord 1 [
       Overload [ValueM ''QTSQL_QSQLRECORD''] [PConv QSqlRecord] None],
     CtorBlock ''QSqlRelation'' 0 [
       Overload [] [] None],
     CtorBlock ''QSqlRelation'' 3 [
       Overload [] [PString False, PString False, PString False] None]]"

definition vctor_classes_qtsql_0 :: "class_entry list" where
  "vctor_classes_qtsql_0 = [
     ClassEntry QSqlDatabase [ValueM QTSQL_QSQLDATABASE] ['''', QSqlDatabase],
     ClassEntry ''QSqlError'' [TypeM ''QTSQL_QSQLERROR'', ValueM ''QTSQL_QSQLERROR''] [''QString, QString, QSqlError::ErrorType, QString'', ''QSqlError''],
     ClassEntry QSqlField [ValueM QTCORE_QMETATYPE, ValueM ''QTSQL_QSQLFIELD''] [''QString, QMetaType, QString'', QSqlField],
     ClassEntry ''QSqlIndex'' [ValueM ''QTSQL_QSQLINDEX''] [''QString, QString'', ''QSqlIndex''],
     ClassEntry QSqlQuery [ValueM QTSQL_QSQLDATABASE, ValueM ''QTSQL_QSQLQUERY''] [QSqlDatabase, ''QString, QSqlDatabase'', QSqlQuery],
     ClassEntry QSqlRecord [ValueM ''QTSQL_QSQLRECORD''] ['''', QSqlRecord],
     ClassEntry ''QSqlRelation'' [] ['''', ''QString, QString, QString'']]"

definition vctor_qtsvg_0_0 :: "ctor_block list" where
  "vctor_qtsvg_0_0 = [
     CtorBlock QSvgGenerator 0 [
       Overload [] [] None],
     CtorBlock QSvgGenerator 1 [
       Overload [TypeM ''QTSVG_QSVGGENERATOR''] [PConv ''QSvgGenerator::SvgVersion''] None]]"

definition vctor_classes_qtsvg_0 :: "class_entry list" where
  "vctor_classes_qtsvg_0 = [
     ClassEntry QSvgGenerator [TypeM ''QTSVG_QSVGGENERATOR''] ['''', ''QSvgGenerator::SvgVersion'']]"

definition vctor_qttest_0_0 :: "ctor_block list" where
  "vctor_qttest_0_0 = [
     CtorBlock ''QSignalSpy'' 2 [
       Overload [TypeM QTCORE_QOBJECT, ValueM ''QTCORE_QMETAMETHOD''] [PNonNull QObject_ptr, PConv QMetaMethod] None]]"

definition vctor_classes_qttest_0 :: "class_entry list" where
  "vctor_classes_qttest_0 = [
     ClassEntry ''QSignalSpy'' [TypeM QTCORE_QOBJECT, ValueM ''QTCORE_QMETAMETHOD''] [''QObject*, QMetaMethod'']]"

definition vctor_qttexttospeech_0_0 :: "ctor_block list" where
  "vctor_qttexttospeech_0_0 = [
     CtorBlock ''QVoice'' 0 [
       Overload [] [] None],
     CtorBlock ''QVoice'' 1 [
       Overload [ValueM ''QTTEXTTOSPEECH_QVOICE''] [PConv ''QVoice''] None]]"

definition vctor_classes_qttexttospeech_0 :: "class_entry list" where
  "vctor_classes_qttexttospeech_0 = [
     ClassEntry ''QVoice'' [ValueM ''QTTEXTTOSPEECH_QVOICE''] ['''', ''QVoice'']]"

definition vctor_qtwebenginecore_0_0 :: "ctor_block list" where
  "vctor_qtwebenginecore_0_0 = [
     CtorBlock QWebEngineCertificateError 1 [
       Overload [ValueM ''QTWEBENGINECORE_QWEBENGINECERTIFICATEERROR''] [PConv QWebEngineCertificateError] None],
     CtorBlock QWebEngineClientCertificateSelection 1 [
       Overload [ValueM ''QTWEBENGINECORE_QWEBENGINECLIENTCERTIFICATESELECTION''] [PConv QWebEngineClientCertificateSelection] None],
     CtorBlock ''QWebEngineFindTextResult'' 0 [
       Overload [] [] None],
     CtorBlock ''QWebEngineFindTextResult'' 1 [
       Overload [ValueM ''QTWEBENGINECORE_QWEBENGINEFINDTEXTRESULT''] [PConv ''QWebEngineFindTextResult''] None],
     CtorBlock QWebEngineFullScreenRequest 1 [
       Overload [ValueM ''QTWEBENGINECORE_QWEBENGINEFULLSCREENREQUEST''] [PConv QWebEngineFullScreenRequest] None],
     CtorBlock QWebEngineHistoryItem 1 [
       Overload [ValueM QTWEBENGINECORE_QWEBENGINEHISTORYITEM] [PConv QWebEngineHistoryItem] None]]"

definition vctor_qtwebenginecore_0_1 :: "ctor_block list" where
  "vctor_qtwebenginecore_0_1 = [
     CtorBlock QWebEngineHttpRequest 0 [
       Overload [TypeM QTWEBENGINECORE_QWEBENGINEHTTPREQUEST, ValueM QTCORE_QURL] [] None],
     CtorBlock QWebEngineHttpRequest 1 [
       Overload [TypeM QTWEBENGINECORE_QWEBENGINEHTTPREQUEST, ValueM QTCORE_QURL] [PConv QUrl] None,
       Overload [ValueM QTWEBENGINECORE_QWEBENGINEHTTPREQUEST] [PConv QWebEngineHttpRequest] None],
     CtorBlock QWebEngineHttpRequest 2 [
       Overload [TypeM QTWEBENGINECORE_QWEBENGINEHTTPREQUEST, ValueM QTCORE_QURL] [PConv QUrl, PConv ''QWebEngineHttpRequest::Method''] None],
     CtorBlock QWebEngineLoadingInfo 1 [
       Overload [ValueM ''QTWEBENGINECORE_QWEBENGINELOADINGINFO''] [PConv QWebEngineLoadingInfo] None],
     CtorBlock ''QWebEngineQuotaRequest'' 0 [
       Overload [] [] None]]"

definition vctor_classes_qtwebenginecore_0 :: "class_entry list" where
  "vctor_classes_qtwebenginecore_0 = [
     ClassEntry QWebEngineCertificateError [ValueM ''QTWEBENGINECORE_QWEBENGINECERTIFICATEERROR''] [QWebEngineCertificateError],
     ClassEntry QWebEngineClientCertificateSelection [ValueM ''QTWEBENGINECORE_QWEBENGINECLIENTCERTIFICATESELECTION''] [QWebEngineClientCertificateSelection],
     ClassEntry ''QWebEngineFindTextResult'' [ValueM ''QTWEBENGINECORE_QWEBENGINEFINDTEXTRESULT''] ['''', ''QWebEngineFindTextResult''],
     ClassEntry QWebEngineFullScreenRequest [ValueM ''QTWEBENGINECORE_QWEBENGINEFULLSCREENREQUEST''] [QWebEngineFullScreenRequest],
     ClassEntry QWebEngineHistoryItem [ValueM QTWEBENGINECORE_QWEBENGINEHISTORYITEM] [QWebEngineHistoryItem],
     ClassEntry QWebEngineHttpRequest [TypeM QTWEBENGINECORE_QWEBENGINEHTTPREQUEST, ValueM QTCORE_QURL, ValueM QTWEBENGINECORE_QWEBENGINEHTTPREQUEST] [''QUrl, QWebEngineHttpRequest::Method'', QWebEngineHttpRequest],
     ClassEntry QWebEngineLoadingInfo [ValueM ''QTWEBENGINECORE_QWEBENGINELOADINGINFO''] [QWebEngineLoadingInfo],
     ClassEntry ''QWebEngineQuotaRequest'' [] ['''']]"

definition vctor_qtwebenginecore_1_0 :: "ctor_block list" where
  "vctor_qtwebenginecore_1_0 = [
     CtorBlock QWebEngineRegisterProtocolHandlerRequest 0 [
       Overload [] [] None],
     CtorBlock QWebEngineScript 0 [
       Overload [] [] None],
     CtorBlock QWebEngineScript 1 [
       Overload [ValueM QTWEBENGINECORE_QWEBENGINESCRIPT] [PConv QWebEngineScript] None],
     CtorBlock QWebEngineUrlScheme 0 [
       Overload [] [] None],
     CtorBlock QWebEngineUrlScheme 1 [
       Overload [ValueM QTCORE_QBYTEARRAY] [PConv QByteArray] None,
       Overload [ValueM QTWEBENGINECORE_QWEBENGINEURLSCHEME] [PConv QWebEngineUrlScheme] None]]"

definition vctor_classes_qtwebenginecore_1 :: "class_entry list" where
  "vctor_classes_qtwebenginecore_1 = [
     ClassEntry QWebEngineRegisterProtocolHandlerRequest [] [''''],
     ClassEntry QWebEngineScript [ValueM QTWEBENGINECORE_QWEBENGINESCRIPT] ['''', QWebEngineScript],
     ClassEntry QWebEngineUrlScheme [ValueM QTCORE_QBYTEARRAY, ValueM QTWEBENGINECORE_QWEBENGINEURLSCHEME] ['''', QByteArray, QWebEngineUrlScheme]]"

definition vctor_qtwebsockets_0_0 :: "ctor_block list" where
  "vctor_qtwebsockets_0_0 = [
     CtorBlock QWebSocketCorsAuthenticator 1 [
       Overload [] [PString False] None,
       Overload [ValueM ''QTWEBSOCKETS_QWEBSOCKETCORSAUTHENTICATOR''] [PConv QWebSocketCorsAuthenticator] None],
     CtorBlock QWebSocketHandshakeOptions 0 [
       Overload [] [] None],
     CtorBlock QWebSocketHandshakeOptions 1 [
       Overload [ValueM ''QTWEBSOCKETS_QWEBSOCKETHANDSHAKEOPTIONS''] [PConv QWebSocketHandshakeOptions] None]]"

definition vctor_classes_qtwebsockets_0 :: "class_entry list" where
  "vctor_classes_qtwebsockets_0 = [
     ClassEntry QWebSocketCorsAuthenticator [ValueM ''QTWEBSOCKETS_QWEBSOCKETCORSAUTHENTICATOR''] [QString, QWebSocketCorsAuthenticator],
     ClassEntry QWebSocketHandshakeOptions [ValueM ''QTWEBSOCKETS_QWEBSOCKETHANDSHAKEOPTIONS''] ['''', QWebSocketHandshakeOptions]]"

definition vctor_qtxml_0_0 :: "ctor_block list" where
  "vctor_qtxml_0_0 = [
     CtorBlock ''QDomAttr'' 0 [
       Overload [] [] None],
     CtorBlock ''QDomAttr'' 1 [
       Overload [ValueM ''QTXML_QDOMATTR''] [PConv ''QDomAttr''] None],
     CtorBlock ''QDomCDATASection'' 0 [
       Overload [] [] None],
     CtorBlock ''QDomCDATASection'' 1 [
       Overload [ValueM ''QTXML_QDOMCDATASECTION''] [PConv ''QDomCDATASection''] None],
     CtorBlock ''QDomCharacterData'' 0 [
       Overload [] [] None],
     CtorBlock ''QDomCharacterData'' 1 [
       Overload [ValueM ''QTXML_QDOMCHARACTERDATA''] [PConv ''QDomCharacterData''] None]]"

definition vctor_qtxml_0_1 :: "ctor_block list" where
  "vctor_qtxml_0_1 = [
     CtorBlock ''QDomComment'' 0 [
       Overload [] [] None],
     CtorBlock ''QDomComment'' 1 [
       Overload [ValueM ''QTXML_QDOMCOMMENT''] [PConv ''QDomComment''] None],
     CtorBlock QDomDocument 0 [
       Overload [] [] None],
     CtorBlock QDomDocument 1 [
       Overload [] [PString False] None,
       Overload [ValueM ''QTXML_QDOMDOCUMENTTYPE''] [PConv QDomDocumentType] None,
       Overload [ValueM ''QTXML_QDOMDOCUMENT''] [PConv QDomDocument] None]]"

definition vctor_qtxml_0_2 :: "ctor_block list" where
  "vctor_qtxml_0_2 = [
     CtorBlock ''QDomDocumentFragment'' 0 [
       Overload [] [] None],
     CtorBlock ''QDomDocumentFragment'' 1 [
       Overload [ValueM ''QTXML_QDOMDOCUMENTFRAGMENT''] [PConv ''QDomDocumentFragment''] None],
     CtorBlock QDomDocumentType 0 [
       Overload [] [] None],
     CtorBlock QDomDocumentType 1 [
       Overload [ValueM ''QTXML_QDOMDOCUMENTTYPE''] [PConv QDomDocumentType] None],
     CtorBlock QDomElement 0 [
       Overload [] [] None],
     CtorBlock QDomElement 1 [
       Overload [ValueM ''QTXML_QDOMELEMENT''] [PConv QDomElement] None]]"

definition vctor_classes_qtxml_0 :: "class_entry list" where
  "vctor_classes_qtxml_0 = [
     ClassEntry ''QDomAttr'' [ValueM ''QTXML_QDOMATTR''] ['''', ''QDomAttr''],
     ClassEntry ''QDomCDATASection'' [ValueM ''QTXML_QDOMCDATASECTION''] ['''', ''QDomCDATASection''],
     ClassEntry ''QDomCharacterData'' [ValueM ''QTXML_QDOMCHARACTERDATA''] ['''', ''QDomCharacterData''],
     ClassEntry ''QDomComment'' [ValueM ''QTXML_QDOMCOMMENT''] ['''', ''QDomComment''],
     ClassEntry QDomDocument [ValueM ''QTXML_QDOMDOCUMENT'', ValueM ''QTXML_QDOMDOCUMENTTYPE''] ['''', QString, QDomDocumentType, QDomDocument],
     ClassEntry ''QDomDocumentFragment'' [ValueM ''QTXML_QDOMDOCUMENTFRAGMENT''] ['''', ''QDomDocumentFragment''],
     ClassEntry QDomDocumentType [ValueM ''QTXML_QDOMDOCUMENTTYPE''] ['''', QDomDocumentType],
     ClassEntry QDomElement [ValueM ''QTXML_QDOMELEMENT''] ['''', QDomElement]]"

definition vctor_qtxml_1_0 :: "ctor_block list" where
  "vctor_qtxml_1_0 = [
     CtorBlock ''QDomEntity'' 0 [
       Overload [] [] None],
     CtorBlock ''QDomEntity'' 1 [
       Overload [ValueM ''QTXML_QDOMENTITY''] [PConv ''QDomEntity''] None],
     CtorBlock ''QDomEntityReference'' 0 [
       Overload [] [] None],
     CtorBlock ''QDomEntityReference'' 1 [
       Overload [ValueM ''QTXML_QDOMENTITYREFERENCE''] [PConv ''QDomEntityReference''] None],
     CtorBlock QDomImplementation 0 [
       Overload [] [] None],
     CtorBlock QDomImplementation 1 [
       Overload [ValueM ''QTXML_QDOMIMPLEMENTATION''] [PConv QDomImplementation] None]]"

definition vctor_qtxml_1_1 :: "ctor_block list" where
  "vctor_qtxml_1_1 = [
     CtorBlock QDomNamedNodeMap 0 [
       Overload [] [] None],
     CtorBlock QDomNamedNodeMap 1 [
       Overload [ValueM ''QTXML_QDOMNAMEDNODEMAP''] [PConv QDomNamedNodeMap] None],
     CtorBlock QDomNode 0 [
       Overload [] [] None],
     CtorBlock QDomNode 1 [
       Overload [ValueM QTXML_QDOMNODE] [PConv QDomNode] None],
     CtorBlock ''QDomNodeList'' 0 [
       Overload [] [] None],
     CtorBlock ''QDomNodeList'' 1 [
       Overload [ValueM ''QTXML_QDOMNODELIST''] [PConv ''QDomNodeList''] None]]"

definition vctor_qtxml_1_2 :: "ctor_block list" where
  "vctor_qtxml_1_2 = [
     CtorBlock ''QDomNotation'' 0 [
       Overload [] [] None],
     CtorBlock ''QDomNotation'' 1 [
       Overload [ValueM ''QTXML_QDOMNOTATION''] [PConv ''QDomNotation''] None],
     CtorBlock QDomProcessingInstruction 0 [
       Overload [] [] None],
     CtorBlock QDomProcessingInstruction 1 [
       Overload [ValueM ''QTXML_QDOMPROCESSINGINSTRUCTION''] [PConv QDomProcessingInstruction] None]]"

definition vctor_classes_qtxml_1 :: "class_entry list" where
  "vctor_classes_qtxml_1 = [
     ClassEntry ''QDomEntity'' [ValueM ''QTXML_QDOMENTITY''] ['''', ''QDomEntity''],
     ClassEntry ''QDomEntityReference'' [ValueM ''QTXML_QDOMENTITYREFERENCE''] ['''', ''QDomEntityReference''],
     ClassEntry QDomImplementation [ValueM ''QTXML_QDOMIMPLEMENTATION''] ['''', QDomImplementation],
     ClassEntry QDomNamedNodeMap [ValueM ''QTXML_QDOMNAMEDNODEMAP''] ['''', QDomNamedNodeMap],
     ClassEntry QDomNode [ValueM QTXML_QDOMNODE] ['''', QDomNode],
     ClassEntry ''QDomNodeList'' [ValueM ''QTXML_QDOMNODELIST''] ['''', ''QDomNodeList''],
     ClassEntry ''QDomNotation'' [ValueM ''QTXML_QDOMNOTATION''] ['''', ''QDomNotation''],
     ClassEntry QDomProcessingInstruction [ValueM ''QTXML_QDOMPROCESSINGINSTRUCTION''] ['''', QDomProcessingInstruction]]"

definition vctor_qtxml_2_0 :: "ctor_block list" where
  "vctor_qtxml_2_0 = [
     CtorBlock ''QDomText'' 0 [
       Overload [] [] None],
     CtorBlock ''QDomText'' 1 [
       Overload [ValueM ''QTXML_QDOMTEXT''] [PConv ''QDomText''] None]]"

definition vctor_classes_qtxml_2 :: "class_entry list" where
  "vctor_classes_qtxml_2 = [
     ClassEntry ''QDomText'' [ValueM ''QTXML_QDOMTEXT''] ['''', ''QDomText'']]"

definition vctor_table_rest :: "(string \<times> ctor_shard) list" where
  "vctor_table_rest = [
     (''qt3danimation_0'', \<lparr>cs_module = ''Qt3DAnimation'', cs_slug = ''QT3DANIMATION'',
        cs_blocks = concat [vctor_qt3danimation_0_0, vctor_qt3danimation_0_1],
        cs_classes = vctor_classes_qt3danimation_0\<rparr>),
     (''qt3dcore_0'', \<lparr>cs_module = ''Qt3DCore'', cs_slug = ''QT3DCORE'',
        cs_blocks = concat [vctor_qt3dcore_0_0],
        cs_classes = vctor_classes_qt3dcore_0\<rparr>),
     (''qt3drender_0'', \<lparr>cs_module = ''Qt3DRender'', cs_slug = ''QT3DRENDER'',
        cs_blocks = concat [vctor_qt3drender_0_0, vctor_qt3drender_0_1],
        cs_classes = vctor_classes_qt3drender_0\<rparr>),
     (''qtbluetooth_0'', \<lparr>cs_module = ''QtBluetooth'', cs_slug = ''QTBLUETOOTH'',
        cs_blocks = concat [vctor_qtbluetooth_0_0, vctor_qtbluetooth_0_1, vctor_qtbluetooth_0_2, vctor_qtbluetooth_0_3],
        cs_classes = vctor_classes_qtbluetooth_0\<rparr>),
     (''qtbluetooth_1'', \<lparr>cs_module = ''QtBluetooth'', cs_slug = ''QTBLUETOOTH'',
        cs_blocks = concat [vctor_qtbluetooth_1_0, vctor_qtbluetooth_1_1],
        cs_classes = vctor_classes_qtbluetooth_1\<rparr>),
     (''qtdbus_0'', \<lparr>cs_module = ''QtDBus'', cs_slug = ''QTDBUS'',
        cs_blocks = concat [vctor_qtdbus_0_0, vctor_qtdbus_0_1, vctor_qtdbus_0_2],
        cs_classes = vctor_classes_qtdbus_0\<rparr>),
     (''qtdbus_1'', \<lparr>cs_module = ''QtDBus'', cs_slug = ''QTDBUS'',
        cs_blocks = concat [vctor_qtdbus_1_0],
        cs_classes = vctor_classes_qtdbus_1\<rparr>),
     (''qtdesigner_0'', \<lparr>cs_module = ''QtDesigner'', cs_slug = ''QTDESIGNER'',
        cs_blocks = concat [vctor_qtdesigner_0_0, vctor_qtdesigner_0_1],
        cs_classes = vctor_classes_qtdesigner_0\<rparr>),
     (''qtgraphs_0'', \<lparr>cs_module = ''QtGraphs'', cs_slug = ''QTGRAPHS'',
        cs_blocks = concat [vctor_qtgraphs_0_0],
        cs_classes = vctor_classes_qtgraphs_0\<rparr>),
     (''qthelp_0'', \<lparr>cs_module = ''QtHelp'', cs_slug = ''QTHELP'',
        cs_blocks = concat [vctor_qthelp_0_0, vctor_qthelp_0_1],
        cs_classes = vctor_classes_qthelp_0\<rparr>),
     (''qtmultimedia_0'', \<lparr>cs_module = ''QtMultimedia'', cs_slug = ''QTMULTIMEDIA'',
        cs_blocks = concat [vctor_qtmultimedia_0_0, vctor_qtmultimedia_0_1, vctor_qtmultimedia_0_2, vctor_qtmultimedia_0_3, vctor_qtmultimedia_0_4],
        cs_classes = vctor_classes_qtmultimedia_0\<rparr>),
     (''qtmultimedia_1'', \<lparr>cs_module = ''QtMultimedia'', cs_slug = ''QTMULTIMEDIA'',
        cs_blocks = concat [vctor_qtmultimedia_1_0, vctor_qtmultimedia_1_1],
        cs_classes = vctor_classes_qtmultimedia_1\<rparr>),
     (''qtnetwork_0'', \<lparr>cs_module = ''QtNetwork'', cs_slug = ''QTNETWORK'',
        cs_blocks = concat [vctor_qtnetwork_0_0, vctor_qtnetwork_0_1, vctor_qtnetwork_0_2],
        cs_classes = vctor_classes_qtnetwork_0\<rparr>),
     (''qtnetwork_1'', \<lparr>cs_module = ''QtNetwork'', cs_slug = ''QTNETWORK'',
        cs_blocks = concat [vctor_qtnetwork_1_0, vctor_qtnetwork_1_1, vctor_qtnetwork_1_2, vctor_qtnetwork_1_3],
        cs_classes = vctor_classes_qtnetwork_1\<rparr>),
     (''qtnetwork_2'', \<lparr>cs_module = ''QtNetwork'', cs_slug = ''QTNETWORK'',
        cs_blocks = concat [vctor_qtnetwork_2_0, vctor_qtnetwork_2_1, vctor_qtnetwork_2_2, vctor_qtnetwork_2_3, vctor_qtnetwork_2_4],
        cs_classes = vctor_classes_qtnetwork_2\<rparr>),
     (''qtnetwork_3'', \<lparr>cs_module = ''QtNetwork'', cs_slug = ''QTNETWORK'',
        cs_blocks = concat [vctor_qtnetwork_3_0, vctor_qtnetwork_3_1, vctor_qtnetwork_3_2],
        cs_classes = vctor_classes_qtnetwork_3\<rparr>),
     (''qtnetwork_4'', \<lparr>cs_module = ''QtNetwork'', cs_slug = ''QTNETWORK'',
        cs_blocks = concat [vctor_qtnetwork_4_0, vctor_qtnetwork_4_1],
        cs_classes = vctor_classes_qtnetwork_4\<rparr>),
     (''qtnetworkauth_0'', \<lparr>cs_module = ''QtNetworkAuth'', cs_slug = ''QTNETWORKAUTH'',
        cs_blocks = concat [vctor_qtnetworkauth_0_0],
        cs_classes = vctor_classes_qtnetworkauth_0\<rparr>),
     (''qtnfc_0'', \<lparr>cs_module = ''QtNfc'', cs_slug = ''QTNFC'',
        cs_blocks = concat [vctor_qtnfc_0_0, vctor_qtnfc_0_1, vctor_qtnfc_0_2],
        cs_classes = vctor_classes_qtnfc_0\<rparr>),
     (''qtopengl_0'', \<lparr>cs_module = ''QtOpenGL'', cs_slug = ''QTOPENGL'',
        cs_blocks = concat [vctor_qtopengl_0_0, vctor_qtopengl_0_1, vctor_qtopengl_0_2],
        cs_classes = vctor_classes_qtopengl_0\<rparr>),
     (''qtopengl_1'', \<lparr>cs_module = ''QtOpenGL'', cs_slug = ''QTOPENGL'',
        cs_blocks = concat [vctor_qtopengl_1_0, vctor_qtopengl_1_1],
        cs_classes = vctor_classes_qtopengl_1\<rparr>),
     (''qtpdf_0'', \<lparr>cs_module = ''QtPdf'', cs_slug = ''QTPDF'',
        cs_blocks = concat [vctor_qtpdf_0_0],
        cs_classes = vctor_classes_qtpdf_0\<rparr>),
     (''qtpositioning_0'', \<lparr>cs_module = ''QtPositioning'', cs_slug = ''QTPOSITIONING'',
        cs_blocks = concat [vctor_qtpositioning_0_0, vctor_qtpositioning_0_1, vctor_qtpositioning_0_2, vctor_qtpositioning_0_3, vctor_qtpositioning_0_4],
        cs_classes = vctor_classes_qtpositioning_0\<rparr>),
     (''qtpositioning_1'', \<lparr>cs_module = ''QtPositioning'', cs_slug = ''QTPOSITIONING'',
        cs_blocks = concat [vctor_qtpositioning_1_0, vctor_qtpositioning_1_1],
        cs_classes = vctor_classes_qtpositioning_1\<rparr>),
     (''qtprintsupport_0'', \<lparr>cs_module = ''QtPrintSupport'', cs_slug = ''QTPRINTSUPPORT'',
        cs_blocks = concat [vctor_qtprintsupport_0_0, vctor_qtprintsupport_0_1],
        cs_classes = vctor_classes_qtprintsupport_0\<rparr>),
     (''qtqml_0'', \<lparr>cs_module = ''QtQml'', cs_slug = ''QTQML'',
        cs_blocks = concat [vctor_qtqml_0_0, vctor_qtqml_0_1, vctor_qtqml_0_2, vctor_qtqml_0_3],
        cs_classes = vctor_classes_qtqml_0\<rparr>),
     (''qtqml_1'', \<lparr>cs_module = ''QtQml'', cs_slug = ''QTQML'',
        cs_blocks = concat [vctor_qtqml_1_0, vctor_qtqml_1_1, vctor_qtqml_1_2],
        cs_classes = vctor_classes_qtqml_1\<rparr>),
     (''qtquick_0'', \<lparr>cs_module = ''QtQuick'', cs_slug = ''QTQUICK'',
        cs_blocks = concat [vctor_qtquick_0_0, vctor_qtquick_0_1, vctor_qtquick_0_2],
        cs_classes = vctor_classes_qtquick_0\<rparr>),
     (''qtquick_1'', \<lparr>cs_module = ''QtQuick'', cs_slug = ''QTQUICK'',
        cs_blocks = concat [vctor_qtquick_1_0, vctor_qtquick_1_1],
        cs_classes = vctor_classes_qtquick_1\<rparr>),
     (''qtserialport_0'', \<lparr>cs_module = ''QtSerialPort'', cs_slug = ''QTSERIALPORT'',
        cs_blocks = concat [vctor_qtserialport_0_0],
        cs_classes = vctor_classes_qtserialport_0\<rparr>),
     (''qtsql_0'', \<lparr>cs_module = ''QtSql'', cs_slug = ''QTSQL'',
        cs_blocks = concat [vctor_qtsql_0_0, vctor_qtsql_0_1, vctor_qtsql_0_2, vctor_qtsql_0_3, vctor_qtsql_0_4],
        cs_classes = vctor_classes_qtsql_0\<rparr>),
     (''qtsvg_0'', \<lparr>cs_module = ''QtSvg'', cs_slug = ''QTSVG'',
        cs_blocks = concat [vctor_qtsvg_0_0],
        cs_classes = vctor_classes_qtsvg_0\<rparr>),
     (''qttest_0'', \<lparr>cs_module = ''QtTest'', cs_slug = ''QTTEST'',
        cs_blocks = concat [vctor_qttest_0_0],
        cs_classes = vctor_classes_qttest_0\<rparr>),
     (''qttexttospeech_0'', \<lparr>cs_module = ''QtTextToSpeech'', cs_slug = ''QTTEXTTOSPEECH'',
        cs_blocks = concat [vctor_qttexttospeech_0_0],
        cs_classes = vctor_classes_qttexttospeech_0\<rparr>),
     (''qtwebenginecore_0'', \<lparr>cs_module = ''QtWebEngineCore'', cs_slug = ''QTWEBENGINECORE'',
        cs_blocks = concat [vctor_qtwebenginecore_0_0, vctor_qtwebenginecore_0_1],
        cs_classes = vctor_classes_qtwebenginecore_0\<rparr>),
     (''qtwebenginecore_1'', \<lparr>cs_module = ''QtWebEngineCore'', cs_slug = ''QTWEBENGINECORE'',
        cs_blocks = concat [vctor_qtwebenginecore_1_0],
        cs_classes = vctor_classes_qtwebenginecore_1\<rparr>),
     (''qtwebsockets_0'', \<lparr>cs_module = ''QtWebSockets'', cs_slug = ''QTWEBSOCKETS'',
        cs_blocks = concat [vctor_qtwebsockets_0_0],
        cs_classes = vctor_classes_qtwebsockets_0\<rparr>),
     (''qtxml_0'', \<lparr>cs_module = ''QtXml'', cs_slug = ''QTXML'',
        cs_blocks = concat [vctor_qtxml_0_0, vctor_qtxml_0_1, vctor_qtxml_0_2],
        cs_classes = vctor_classes_qtxml_0\<rparr>),
     (''qtxml_1'', \<lparr>cs_module = ''QtXml'', cs_slug = ''QTXML'',
        cs_blocks = concat [vctor_qtxml_1_0, vctor_qtxml_1_1, vctor_qtxml_1_2],
        cs_classes = vctor_classes_qtxml_1\<rparr>),
     (''qtxml_2'', \<lparr>cs_module = ''QtXml'', cs_slug = ''QTXML'',
        cs_blocks = concat [vctor_qtxml_2_0],
        cs_classes = vctor_classes_qtxml_2\<rparr>)]"

lemmas vctor_table_rest_defs =
  vctor_qt3danimation_0_0_def vctor_qt3danimation_0_1_def vctor_qt3dcore_0_0_def vctor_qt3drender_0_0_def
  vctor_qt3drender_0_1_def vctor_qtbluetooth_0_0_def vctor_qtbluetooth_0_1_def vctor_qtbluetooth_0_2_def
  vctor_qtbluetooth_0_3_def vctor_qtbluetooth_1_0_def vctor_qtbluetooth_1_1_def vctor_qtdbus_0_0_def
  vctor_qtdbus_0_1_def vctor_qtdbus_0_2_def vctor_qtdbus_1_0_def vctor_qtdesigner_0_0_def
  vctor_qtdesigner_0_1_def vctor_qtgraphs_0_0_def vctor_qthelp_0_0_def vctor_qthelp_0_1_def
  vctor_qtmultimedia_0_0_def vctor_qtmultimedia_0_1_def vctor_qtmultimedia_0_2_def vctor_qtmultimedia_0_3_def
  vctor_qtmultimedia_0_4_def vctor_qtmultimedia_1_0_def vctor_qtmultimedia_1_1_def vctor_qtnetwork_0_0_def
  vctor_qtnetwork_0_1_def vctor_qtnetwork_0_2_def vctor_qtnetwork_1_0_def vctor_qtnetwork_1_1_def
  vctor_qtnetwork_1_2_def vctor_qtnetwork_1_3_def vctor_qtnetwork_2_0_def vctor_qtnetwork_2_1_def
  vctor_qtnetwork_2_2_def vctor_qtnetwork_2_3_def vctor_qtnetwork_2_4_def vctor_qtnetwork_3_0_def
  vctor_qtnetwork_3_1_def vctor_qtnetwork_3_2_def vctor_qtnetwork_4_0_def vctor_qtnetwork_4_1_def
  vctor_qtnetworkauth_0_0_def vctor_qtnfc_0_0_def vctor_qtnfc_0_1_def vctor_qtnfc_0_2_def vctor_qtopengl_0_0_def
  vctor_qtopengl_0_1_def vctor_qtopengl_0_2_def vctor_qtopengl_1_0_def vctor_qtopengl_1_1_def
  vctor_qtpdf_0_0_def vctor_qtpositioning_0_0_def vctor_qtpositioning_0_1_def vctor_qtpositioning_0_2_def
  vctor_qtpositioning_0_3_def vctor_qtpositioning_0_4_def vctor_qtpositioning_1_0_def
  vctor_qtpositioning_1_1_def vctor_qtprintsupport_0_0_def vctor_qtprintsupport_0_1_def vctor_qtqml_0_0_def
  vctor_qtqml_0_1_def vctor_qtqml_0_2_def vctor_qtqml_0_3_def vctor_qtqml_1_0_def vctor_qtqml_1_1_def
  vctor_qtqml_1_2_def vctor_qtquick_0_0_def vctor_qtquick_0_1_def vctor_qtquick_0_2_def vctor_qtquick_1_0_def
  vctor_qtquick_1_1_def vctor_qtserialport_0_0_def vctor_qtsql_0_0_def vctor_qtsql_0_1_def vctor_qtsql_0_2_def
  vctor_qtsql_0_3_def vctor_qtsql_0_4_def vctor_qtsvg_0_0_def vctor_qttest_0_0_def vctor_qttexttospeech_0_0_def
  vctor_qtwebenginecore_0_0_def vctor_qtwebenginecore_0_1_def vctor_qtwebenginecore_1_0_def
  vctor_qtwebsockets_0_0_def vctor_qtxml_0_0_def vctor_qtxml_0_1_def vctor_qtxml_0_2_def vctor_qtxml_1_0_def
  vctor_qtxml_1_1_def vctor_qtxml_1_2_def vctor_qtxml_2_0_def

lemma vctor_table_rest_fitting_shard: "list_all (\<lambda>(s, sh). fitting_shard sh) vctor_table_rest"
  by (simp add: vctor_table_rest_def vctor_table_rest_defs fitting_shard_def)

end
