(* ===== verification/Value_Constructors_Core.thy ===== *)
theory Value_Constructors_Core
  imports Shard_Constructors Qt_Names
begin

text \<open>
  Tables of the value constructor shards (generated\_value\_constructors): the blocks of every shard in the file's
  order, and the classes it lists.
\<close>

definition vctor_qtcore_0_0 :: "ctor_block list" where
  "vctor_qtcore_0_0 = [
     CtorBlock ''Connection'' 0 [
       Overload [] [] None],
     CtorBlock ''QAbstractNativeEventFilter'' 0 [
       Overload [] [] None],
     CtorBlock ''QBasicTimer'' 0 [
       Overload [] [] None],
     CtorBlock QBitArray 0 [
       Overload [] [] None],
     CtorBlock QBitArray 1 [
       Overload [] [PWide ''qsizetype''] None,
       Overload [ValueM ''QTCORE_QBITARRAY''] [PConv QBitArray] None]]"

definition vctor_qtcore_0_1 :: "ctor_block list" where
  "vctor_qtcore_0_1 = [
     CtorBlock QBitArray 2 [
       Overload [] [PWide ''qsizetype'', PBool] None],
     CtorBlock ''QBluetoothPermission'' 0 [
       Overload [] [] None],
     CtorBlock ''QBluetoothPermission'' 1 [
       Overload [ValueM ''QTCORE_QBLUETOOTHPERMISSION''] [PConv ''QBluetoothPermission''] None],
     CtorBlock QByteArray 0 [
       Overload [] [] None],
     CtorBlock QByteArray 1 [
       Overload [ValueM QTCORE_QBYTEARRAY] [PConv QByteArray] None],
     CtorBlock ''QByteArrayMatcher'' 0 [
       Overload [] [] None]]"

definition vctor_qtcore_0_2 :: "ctor_block list" where
  "vctor_qtcore_0_2 = [
     CtorBlock ''QByteArrayMatcher'' 1 [
       Overload [ValueM ''QTCORE_QBYTEARRAYMATCHER''] [PConv ''QByteArrayMatcher''] None],
     CtorBlock QCalendar 0 [
       Overload [] [] None],
     CtorBlock QCalendar 1 [
       Overload [TypeM QTCORE_QCALENDAR] [PConv ''QCalendar::System''] None]]"

definition vctor_classes_qtcore_0 :: "class_entry list" where
  "vctor_classes_qtcore_0 = [
     ClassEntry ''Connection'' [] [''''],
     ClassEntry ''QAbstractNativeEventFilter'' [] [''''],
     ClassEntry ''QBasicTimer'' [] [''''],
     ClassEntry QBitArray [ValueM ''QTCORE_QBITARRAY''] ['''', ''qsizetype, bool'', QBitArray],
     ClassEntry ''QBluetoothPermission'' [ValueM ''QTCORE_QBLUETOOTHPERMISSION''] ['''', ''QBluetoothPermission''],
     ClassEntry QByteArray [ValueM QTCORE_QBYTEARRAY] ['''', QByteArray],
     ClassEntry ''QByteArrayMatcher'' [ValueM ''QTCORE_QBYTEARRAYMATCHER''] ['''', ''QByteArrayMatcher''],
     ClassEntry QCalendar [TypeM QTCORE_QCALENDAR] ['''', ''QCalendar::System'']]"

definition vctor_qtcore_1_0 :: "ctor_block list" where
  "vctor_qtcore_1_0 = [
     CtorBlock ''QCalendarPermission'' 0 [
       Overload [] [] None],
     CtorBlock ''QCalendarPermission'' 1 [
       Overload [ValueM ''QTCORE_QCALENDARPERMISSION''] [PConv ''QCalendarPermission''] None],
     CtorBlock ''QCameraPermission'' 0 [
       Overload [] [] None],
     CtorBlock ''QCameraPermission'' 1 [
       Overload [ValueM ''QTCORE_QCAMERAPERMISSION''] [PConv ''QCameraPermission''] None],
     CtorBlock QCborStreamReader 0 [
       Overload [] [] None]]"

definition vctor_qtcore_1_1 :: "ctor_block list" where
  "vctor_qtcore_1_1 = [
     CtorBlock QCborStreamReader 1 [
       Overload [ValueM QTCORE_QBYTEARRAY] [PConv QByteArray] None,
       Overload [TypeM QTCORE_QIODEVICE] [PNonNull QIODevice_ptr] None],
     CtorBlock QCborStreamWriter 1 [
       Overload [TypeM QTCORE_QIODEVICE] [PNonNull QIODevice_ptr] None],
     CtorBlock ''QChildEvent'' 2 [
       Overload [TypeM QTCORE_QEVENT, TypeM QTCORE_QOBJECT] [PConv QEvent_Type, PNonNull QObject_ptr] None],
     CtorBlock ''QCollator'' 0 [
       Overload [] [] None]]"

definition vctor_qtcore_1_2 :: "ctor_block list" where
  "vctor_qtcore_1_2 = [
     CtorBlock ''QCollator'' 1 [
       Overload [ValueM QTCORE_QLOCALE] [PConv QLocale] None,
       Overload [ValueM ''QTCORE_QCOLLATOR''] [PConv ''QCollator''] None],
     CtorBlock ''QCollatorSortKey'' 1 [
       Overload [ValueM ''QTCORE_QCOLLATORSORTKEY''] [PConv ''QCollatorSortKey''] None],
     CtorBlock QCommandLineOption 1 [
       Overload [] [PString False] None,
       Overload [] [PStringList] None,
       Overload [ValueM QTCORE_QCOMMANDLINEOPTION] [PConv QCommandLineOption] None]]"

definition vctor_qtcore_1_3 :: "ctor_block list" where
  "vctor_qtcore_1_3 = [
     CtorBlock QCommandLineOption 2 [
       Overload [] [PString False, PString False] None,
       Overload [] [PStringList, PString False] None],
     CtorBlock QCommandLineOption 3 [
       Overload [] [PString False, PString False, PString False] None,
       Overload [] [PStringList, PString False, PString False] None]]"

definition vctor_qtcore_1_4 :: "ctor_block list" where
  "vctor_qtcore_1_4 = [
     CtorBlock QCommandLineOption 4 [
       Overload [] [PString False, PString False, PString False, PString False] None,
       Overload [] [PStringList, PString False, PString False, PString False] None]]"

definition vctor_classes_qtcore_1 :: "class_entry list" where
  "vctor_classes_qtcore_1 = [
     ClassEntry ''QCalendarPermission'' [ValueM ''QTCORE_QCALENDARPERMISSION''] ['''', ''QCalendarPermission''],
     ClassEntry ''QCameraPermission'' [ValueM ''QTCORE_QCAMERAPERMISSION''] ['''', ''QCameraPermission''],
     ClassEntry QCborStreamReader [TypeM QTCORE_QIODEVICE, ValueM QTCORE_QBYTEARRAY] ['''', QByteArray, QIODevice_ptr],
     ClassEntry QCborStreamWriter [TypeM QTCORE_QIODEVICE] [QIODevice_ptr],
     ClassEntry ''QChildEvent'' [TypeM QTCORE_QEVENT, TypeM QTCORE_QOBJECT] [''QEvent::Type, QObject*''],
     ClassEntry ''QCollator'' [ValueM ''QTCORE_QCOLLATOR'', ValueM QTCORE_QLOCALE] ['''', QLocale, ''QCollator''],
     ClassEntry ''QCollatorSortKey'' [ValueM ''QTCORE_QCOLLATORSORTKEY''] [''QCollatorSortKey''],
     ClassEntry QCommandLineOption [ValueM QTCORE_QCOMMANDLINEOPTION] [QString, ''QStringList'', ''QString, QString, QString, QString'', ''QStringList, QString, QString, QString'', QCommandLineOption]]"

definition vctor_qtcore_10_0 :: "ctor_block list" where
  "vctor_qtcore_10_0 = [
     CtorBlock ''QStringEncoder'' 0 [
       Overload [] [] None],
     CtorBlock ''QStringEncoder'' 1 [
       Overload [TypeM ''QTCORE_QSTRINGCONVERTER'', TypeM ''QTCORE_QSTRINGCONVERTERBASE''] [PConv ''QStringConverter::Encoding''] None],
     CtorBlock ''QStringEncoder'' 2 [
       Overload [TypeM ''QTCORE_QSTRINGCONVERTER'', TypeM ''QTCORE_QSTRINGCONVERTERBASE''] [PConv ''QStringConverter::Encoding'', PConv ''QStringConverterBase::Flags''] None],
     CtorBlock QSystemSemaphore 1 [
       Overload [TypeM QTCORE_QSYSTEMSEMAPHORE, ValueM QTCORE_QNATIVEIPCKEY] [PConv QNativeIpcKey] None,
       Overload [TypeM QTCORE_QSYSTEMSEMAPHORE] [PString False] None]]"

definition vctor_qtcore_10_1 :: "ctor_block list" where
  "vctor_qtcore_10_1 = [
     CtorBlock QSystemSemaphore 2 [
       Overload [TypeM QTCORE_QSYSTEMSEMAPHORE, ValueM QTCORE_QNATIVEIPCKEY] [PConv QNativeIpcKey, PInt] None,
       Overload [TypeM QTCORE_QSYSTEMSEMAPHORE] [PString False, PInt] None],
     CtorBlock QSystemSemaphore 3 [
       Overload [TypeM QTCORE_QSYSTEMSEMAPHORE, ValueM QTCORE_QNATIVEIPCKEY] [PConv QNativeIpcKey, PInt, PConv ''QSystemSemaphore::AccessMode''] None,
       Overload [TypeM QTCORE_QSYSTEMSEMAPHORE] [PString False, PInt, PConv ''QSystemSemaphore::AccessMode''] None],
     CtorBlock ''QTemporaryDir'' 0 [
       Overload [] [] None],
     CtorBlock ''QTemporaryDir'' 1 [
       Overload [] [PString False] None]]"

definition vctor_qtcore_10_2 :: "ctor_block list" where
  "vctor_qtcore_10_2 = [
     CtorBlock QTextBoundaryFinder 0 [
       Overload [] [] None],
     CtorBlock QTextBoundaryFinder 1 [
       Overload [ValueM ''QTCORE_QTEXTBOUNDARYFINDER''] [PConv QTextBoundaryFinder] None],
     CtorBlock QTextBoundaryFinder 2 [
       Overload [TypeM ''QTCORE_QTEXTBOUNDARYFINDER''] [PConv ''QTextBoundaryFinder::BoundaryType'', PString False] None],
     CtorBlock QTextStream 0 [
       Overload [] [] None],
     CtorBlock QTextStream 1 [
       Overload [TypeM QTCORE_QIODEVICE] [PNonNull QIODevice_ptr] None],
     CtorBlock QTime 0 [
       Overload [] [] None]]"

definition vctor_qtcore_10_3 :: "ctor_block list" where
  "vctor_qtcore_10_3 = [
     CtorBlock QTime 2 [
       Overload [] [PInt, PInt] None],
     CtorBlock QTime 3 [
       Overload [] [PInt, PInt, PInt] None],
     CtorBlock QTime 4 [
       Overload [] [PInt, PInt, PInt, PInt] None],
     CtorBlock QTimeZone 0 [
       Overload [] [] None]]"

definition vctor_qtcore_10_4 :: "ctor_block list" where
  "vctor_qtcore_10_4 = [
     CtorBlock QTimeZone 1 [
       Overload [TypeM QTCORE_QTIMEZONE] [PConv ''QTimeZone::Initialization''] None,
       Overload [ValueM QTCORE_QBYTEARRAY] [PConv QByteArray] None,
       Overload [] [PInt] None,
       Overload [ValueM QTCORE_QTIMEZONE] [PConv QTimeZone] None],
     CtorBlock QTimeZone 4 [
       Overload [TypeM QTCORE_QLOCALE, ValueM QTCORE_QBYTEARRAY] [PConv QByteArray, PInt, PString False, PString False] None],
     CtorBlock QTimeZone 5 [
       Overload [TypeM QTCORE_QLOCALE, ValueM QTCORE_QBYTEARRAY] [PConv QByteArray, PInt, PString False, PString False, PConv ''QLocale::Territory''] None]]"

definition vctor_qtcore_10_5 :: "ctor_block list" where
  "vctor_qtcore_10_5 = [
     CtorBlock QTimeZone 6 [
       Overload [TypeM QTCORE_QLOCALE, ValueM QTCORE_QBYTEARRAY] [PConv QByteArray, PInt, PString False, PString False, PConv ''QLocale::Territory'', PString False] None],
     CtorBlock ''QTimerEvent'' 1 [
       Overload [] [PInt] None]]"

definition vctor_classes_qtcore_10 :: "class_entry list" where
  "vctor_classes_qtcore_10 = [
     ClassEntry ''QStringEncoder'' [TypeM ''QTCORE_QSTRINGCONVERTER'', TypeM ''QTCORE_QSTRINGCONVERTERBASE''] ['''', ''QStringConverter::Encoding, QStringConverterBase::Flags''],
     ClassEntry QSystemSemaphore [TypeM QTCORE_QSYSTEMSEMAPHORE, ValueM QTCORE_QNATIVEIPCKEY] [''QNativeIpcKey, int, QSystemSemaphore::AccessMode'', ''QString, int, QSystemSemaphore::AccessMode''],
     ClassEntry ''QTemporaryDir'' [] ['''', QString],
     ClassEntry QTextBoundaryFinder [TypeM ''QTCORE_QTEXTBOUNDARYFINDER'', ValueM ''QTCORE_QTEXTBOUNDARYFINDER''] ['''', QTextBoundaryFinder, ''QTextBoundaryFinder::BoundaryType, QString''],
     ClassEntry QTextStream [TypeM QTCORE_QIODEVICE] ['''', QIODevice_ptr],
     ClassEntry QTime [] ['''', ''int, int, int, int''],
     ClassEntry QTimeZone [TypeM QTCORE_QLOCALE, TypeM QTCORE_QTIMEZONE, ValueM QTCORE_QBYTEARRAY, ValueM QTCORE_QTIMEZONE] [''QTimeZone::Initialization'', ''QByteArray, int, QString, QString, QLocale::Territory, QString'', QByteArray, ''int'', QTimeZone, ''''],
     ClassEntry ''QTimerEvent'' [] [''int'']]"

definition vctor_qtcore_11_0 :: "ctor_block list" where
  "vctor_qtcore_11_0 = [
     CtorBlock ''QTypeRevision'' 0 [
       Overload [] [] None],
     CtorBlock QUrl 0 [
       Overload [] [] None],
     CtorBlock QUrl 1 [
       Overload [TypeM QTCORE_QURL] [PString False] None,
       Overload [ValueM QTCORE_QURL] [PConv QUrl] None],
     CtorBlock QUrl 2 [
       Overload [TypeM QTCORE_QURL] [PString False, PConv ''QUrl::ParsingMode''] None],
     CtorBlock ''QUrlQuery'' 0 [
       Overload [] [] None]]"

definition vctor_qtcore_11_1 :: "ctor_block list" where
  "vctor_qtcore_11_1 = [
     CtorBlock ''QUrlQuery'' 1 [
       Overload [ValueM QTCORE_QURL] [PConv QUrl] None,
       Overload [] [PString False] None,
       Overload [ValueM ''QTCORE_QURLQUERY''] [PConv ''QUrlQuery''] None],
     CtorBlock ''QUuid'' 0 [
       Overload [] [] None],
     CtorBlock ''QUuid'' 1 [
       Overload [TypeM ''QTCORE_QSYSINFO'', TypeM ''QTCORE_QUUID''] [PConv ''QUuid::Id128Bytes''] None],
     CtorBlock ''QUuid'' 2 [
       Overload [TypeM ''QTCORE_QSYSINFO'', TypeM ''QTCORE_QUUID''] [PConv ''QUuid::Id128Bytes'', PConv ''QSysInfo::Endian''] None]]"

definition vctor_qtcore_11_2 :: "ctor_block list" where
  "vctor_qtcore_11_2 = [
     CtorBlock ''QVariant'' 0 [
       Overload [] [] None],
     CtorBlock QVersionNumber 0 [
       Overload [] [] None],
     CtorBlock QVersionNumber 1 [
       Overload [] [PList ''int''] None,
       Overload [] [PInt] None],
     CtorBlock QVersionNumber 2 [
       Overload [] [PInt, PInt] None]]"

definition vctor_qtcore_11_3 :: "ctor_block list" where
  "vctor_qtcore_11_3 = [
     CtorBlock QVersionNumber 3 [
       Overload [] [PInt, PInt, PInt] None],
     CtorBlock ''QWaitCondition'' 0 [
       Overload [] [] None],
     CtorBlock QXmlStreamAttribute 0 [
       Overload [] [] None],
     CtorBlock QXmlStreamAttribute 2 [
       Overload [] [PString False, PString False] None],
     CtorBlock QXmlStreamAttribute 3 [
       Overload [] [PString False, PString False, PString False] None]]"

definition vctor_classes_qtcore_11 :: "class_entry list" where
  "vctor_classes_qtcore_11 = [
     ClassEntry ''QTypeRevision'' [] [''''],
     ClassEntry QUrl [TypeM QTCORE_QURL, ValueM QTCORE_QURL] ['''', ''QString, QUrl::ParsingMode'', QUrl],
     ClassEntry ''QUrlQuery'' [ValueM QTCORE_QURL, ValueM ''QTCORE_QURLQUERY''] ['''', QUrl, QString, ''QUrlQuery''],
     ClassEntry ''QUuid'' [TypeM ''QTCORE_QSYSINFO'', TypeM ''QTCORE_QUUID''] ['''', ''QUuid::Id128Bytes, QSysInfo::Endian''],
     ClassEntry ''QVariant'' [] [''''],
     ClassEntry QVersionNumber [] ['''', ''QList<int>'', ''int'', ''int, int'', ''int, int, int''],
     ClassEntry ''QWaitCondition'' [] [''''],
     ClassEntry QXmlStreamAttribute [] ['''', ''QString, QString'', ''QString, QString, QString'']]"

definition vctor_qtcore_12_0 :: "ctor_block list" where
  "vctor_qtcore_12_0 = [
     CtorBlock QXmlStreamAttributes 0 [
       Overload [] [] None],
     CtorBlock ''QXmlStreamEntityDeclaration'' 0 [
       Overload [] [] None],
     CtorBlock ''QXmlStreamEntityResolver'' 0 [
       Overload [] [] None],
     CtorBlock ''QXmlStreamNamespaceDeclaration'' 0 [
       Overload [] [] None],
     CtorBlock ''QXmlStreamNamespaceDeclaration'' 2 [
       Overload [] [PString False, PString False] None],
     CtorBlock ''QXmlStreamNotationDeclaration'' 0 [
       Overload [] [] None]]"

definition vctor_qtcore_12_1 :: "ctor_block list" where
  "vctor_qtcore_12_1 = [
     CtorBlock QXmlStreamReader 0 [
       Overload [] [] None],
     CtorBlock QXmlStreamReader 1 [
       Overload [TypeM QTCORE_QIODEVICE] [PNonNull QIODevice_ptr] None],
     CtorBlock QXmlStreamWriter 0 [
       Overload [] [] None],
     CtorBlock QXmlStreamWriter 1 [
       Overload [TypeM QTCORE_QIODEVICE] [PNonNull QIODevice_ptr] None]]"

definition vctor_classes_qtcore_12 :: "class_entry list" where
  "vctor_classes_qtcore_12 = [
     ClassEntry QXmlStreamAttributes [] [''''],
     ClassEntry ''QXmlStreamEntityDeclaration'' [] [''''],
     ClassEntry ''QXmlStreamEntityResolver'' [] [''''],
     ClassEntry ''QXmlStreamNamespaceDeclaration'' [] ['''', ''QString, QString''],
     ClassEntry ''QXmlStreamNotationDeclaration'' [] [''''],
     ClassEntry QXmlStreamReader [TypeM QTCORE_QIODEVICE] ['''', QIODevice_ptr],
     ClassEntry QXmlStreamWriter [TypeM QTCORE_QIODEVICE] ['''', QIODevice_ptr]]"

definition vctor_qtcore_2_0 :: "ctor_block list" where
  "vctor_qtcore_2_0 = [
     CtorBlock QCommandLineParser 0 [
       Overload [] [] None],
     CtorBlock ''QContactsPermission'' 0 [
       Overload [] [] None],
     CtorBlock ''QContactsPermission'' 1 [
       Overload [ValueM ''QTCORE_QCONTACTSPERMISSION''] [PConv ''QContactsPermission''] None],
     CtorBlock ''QCryptographicHash'' 1 [
       Overload [TypeM ''QTCORE_QCRYPTOGRAPHICHASH''] [PConv ''QCryptographicHash::Algorithm''] None],
     CtorBlock QDataStream 0 [
       Overload [] [] None]]"

definition vctor_qtcore_2_1 :: "ctor_block list" where
  "vctor_qtcore_2_1 = [
     CtorBlock QDataStream 1 [
       Overload [TypeM QTCORE_QIODEVICE] [PNonNull QIODevice_ptr] None,
       Overload [ValueM QTCORE_QBYTEARRAY] [PConv QByteArray] None],
     CtorBlock QDate 0 [
       Overload [] [] None],
     CtorBlock QDate 3 [
       Overload [] [PInt, PInt, PInt] None],
     CtorBlock QDate 4 [
       Overload [ValueM QTCORE_QCALENDAR] [PInt, PInt, PInt, PConv QCalendar] None]]"

definition vctor_qtcore_2_2 :: "ctor_block list" where
  "vctor_qtcore_2_2 = [
     CtorBlock QDateTime 0 [
       Overload [] [] None],
     CtorBlock QDateTime 1 [
       Overload [ValueM QTCORE_QDATETIME] [PConv QDateTime] None],
     CtorBlock QDateTime 2 [
       Overload [EnumM ''QT_TIMESPEC'', ValueM QTCORE_QDATE, ValueM QTCORE_QTIME] [PConv QDate, PConv QTime] None],
     CtorBlock QDateTime 3 [
       Overload [EnumM ''QT_TIMESPEC'', ValueM QTCORE_QDATE, ValueM QTCORE_QTIME] [PConv QDate, PConv QTime, PConv ''Qt::TimeSpec''] None,
       Overload [TypeM QTCORE_QDATETIME, ValueM QTCORE_QDATE, ValueM QTCORE_QTIME, ValueM QTCORE_QTIMEZONE] [PConv QDate, PConv QTime, PConv QTimeZone] None]]"

definition vctor_qtcore_2_3 :: "ctor_block list" where
  "vctor_qtcore_2_3 = [
     CtorBlock QDateTime 4 [
       Overload [EnumM ''QT_TIMESPEC'', ValueM QTCORE_QDATE, ValueM QTCORE_QTIME] [PConv QDate, PConv QTime, PConv ''Qt::TimeSpec'', PInt] None,
       Overload [TypeM QTCORE_QDATETIME, ValueM QTCORE_QDATE, ValueM QTCORE_QTIME, ValueM QTCORE_QTIMEZONE] [PConv QDate, PConv QTime, PConv QTimeZone, PConv ''QDateTime::TransitionResolution''] None],
     CtorBlock QDeadlineTimer 0 [
       Overload [EnumM ''QT_TIMERTYPE''] [] None],
     CtorBlock QDeadlineTimer 1 [
       Overload [EnumM ''QT_TIMERTYPE''] [PConv ''Qt::TimerType''] None,
       Overload [EnumM ''QT_TIMERTYPE'', TypeM QTCORE_QDEADLINETIMER] [PConv ''QDeadlineTimer::ForeverConstant''] None,
       Overload [EnumM ''QT_TIMERTYPE''] [PWide ''qint64''] None]]"

definition vctor_qtcore_2_4 :: "ctor_block list" where
  "vctor_qtcore_2_4 = [
     CtorBlock QDeadlineTimer 2 [
       Overload [EnumM ''QT_TIMERTYPE'', TypeM QTCORE_QDEADLINETIMER] [PConv ''QDeadlineTimer::ForeverConstant'', PConv ''Qt::TimerType''] None,
       Overload [EnumM ''QT_TIMERTYPE''] [PWide ''qint64'', PConv ''Qt::TimerType''] None],
     CtorBlock QDir 0 [
       Overload [] [] None],
     CtorBlock QDir 1 [
       Overload [ValueM QTCORE_QDIR] [PConv QDir] None,
       Overload [] [PString False] None],
     CtorBlock QDir 2 [
       Overload [TypeM QTCORE_QDIR] [PString False, PString False] None]]"

definition vctor_qtcore_2_5 :: "ctor_block list" where
  "vctor_qtcore_2_5 = [
     CtorBlock QDir 3 [
       Overload [TypeM QTCORE_QDIR] [PString False, PString False, PConv ''QDir::SortFlags''] None],
     CtorBlock QDir 4 [
       Overload [TypeM QTCORE_QDIR] [PString False, PString False, PConv ''QDir::SortFlags'', PConv ''QDir::Filters''] None]]"

definition vctor_classes_qtcore_2 :: "class_entry list" where
  "vctor_classes_qtcore_2 = [
     ClassEntry QCommandLineParser [] [''''],
     ClassEntry ''QContactsPermission'' [ValueM ''QTCORE_QCONTACTSPERMISSION''] ['''', ''QContactsPermission''],
     ClassEntry ''QCryptographicHash'' [TypeM ''QTCORE_QCRYPTOGRAPHICHASH''] [''QCryptographicHash::Algorithm''],
     ClassEntry QDataStream [TypeM QTCORE_QIODEVICE, ValueM QTCORE_QBYTEARRAY] ['''', QIODevice_ptr, QByteArray],
     ClassEntry QDate [ValueM QTCORE_QCALENDAR] ['''', ''int, int, int'', ''int, int, int, QCalendar''],
     ClassEntry QDateTime [EnumM ''QT_TIMESPEC'', TypeM QTCORE_QDATETIME, ValueM QTCORE_QDATE, ValueM QTCORE_QDATETIME, ValueM QTCORE_QTIME, ValueM QTCORE_QTIMEZONE] ['''', QDateTime, ''QDate, QTime, Qt::TimeSpec, int'', ''QDate, QTime, QTimeZone, QDateTime::TransitionResolution''],
     ClassEntry QDeadlineTimer [EnumM ''QT_TIMERTYPE'', TypeM QTCORE_QDEADLINETIMER] [''Qt::TimerType'', ''QDeadlineTimer::ForeverConstant, Qt::TimerType'', ''qint64, Qt::TimerType''],
     ClassEntry QDir [TypeM QTCORE_QDIR, ValueM QTCORE_QDIR] [''QString, QString, QDir::SortFlags, QDir::Filters'', QDir, QString]]"

definition vctor_qtcore_3_0 :: "ctor_block list" where
  "vctor_qtcore_3_0 = [
     CtorBlock ''QDirIterator'' 1 [
       Overload [TypeM ''QTCORE_QDIRITERATOR'', ValueM QTCORE_QDIR] [PConv QDir] None,
       Overload [TypeM ''QTCORE_QDIRITERATOR''] [PString False] None],
     CtorBlock ''QDirIterator'' 2 [
       Overload [TypeM ''QTCORE_QDIRITERATOR'', ValueM QTCORE_QDIR] [PConv QDir, PConv ''QDirIterator::IteratorFlags''] None,
       Overload [TypeM ''QTCORE_QDIRITERATOR''] [PString False, PConv ''QDirIterator::IteratorFlags''] None,
       Overload [TypeM QTCORE_QDIR, TypeM ''QTCORE_QDIRITERATOR''] [PString False, PConv ''QDir::Filters''] None,
       Overload [TypeM QTCORE_QDIR, TypeM ''QTCORE_QDIRITERATOR''] [PString False, PStringList] None]]"

definition vctor_qtcore_3_1 :: "ctor_block list" where
  "vctor_qtcore_3_1 = [
     CtorBlock ''QDirIterator'' 3 [
       Overload [TypeM QTCORE_QDIR, TypeM ''QTCORE_QDIRITERATOR''] [PString False, PConv ''QDir::Filters'', PConv ''QDirIterator::IteratorFlags''] None,
       Overload [TypeM QTCORE_QDIR, TypeM ''QTCORE_QDIRITERATOR''] [PString False, PStringList, PConv ''QDir::Filters''] None],
     CtorBlock ''QDirIterator'' 4 [
       Overload [TypeM QTCORE_QDIR, TypeM ''QTCORE_QDIRITERATOR''] [PString False, PStringList, PConv ''QDir::Filters'', PConv ''QDirIterator::IteratorFlags''] None],
     CtorBlock ''QDynamicPropertyChangeEvent'' 1 [
       Overload [ValueM QTCORE_QBYTEARRAY] [PConv QByteArray] None],
     CtorBlock QEasingCurve 0 [
       Overload [TypeM QTCORE_QEASINGCURVE] [] None]]"

definition vctor_qtcore_3_2 :: "ctor_block list" where
  "vctor_qtcore_3_2 = [
     CtorBlock QEasingCurve 1 [
       Overload [TypeM QTCORE_QEASINGCURVE] [PConv ''QEasingCurve::Type''] None,
       Overload [ValueM QTCORE_QEASINGCURVE] [PConv QEasingCurve] None],
     CtorBlock QElapsedTimer 0 [
       Overload [] [] None],
     CtorBlock ''QEvent'' 1 [
       Overload [TypeM QTCORE_QEVENT] [PConv QEvent_Type] None],
     CtorBlock ''QEventLoopLocker'' 0 [
       Overload [] [] None]]"

definition vctor_qtcore_3_3 :: "ctor_block list" where
  "vctor_qtcore_3_3 = [
     CtorBlock ''QEventLoopLocker'' 1 [
       Overload [TypeM ''QTCORE_QEVENTLOOP''] [PNonNull ''QEventLoop*''] None,
       Overload [TypeM ''QTCORE_QTHREAD''] [PNonNull ''QThread*''] None],
     CtorBlock QFileInfo 0 [
       Overload [] [] None],
     CtorBlock QFileInfo 1 [
       Overload [] [PString False] None,
       Overload [ValueM ''QTCORE_QFILEINFO''] [PConv QFileInfo] None],
     CtorBlock QFileInfo 2 [
       Overload [ValueM QTCORE_QDIR] [PConv QDir, PString False] None]]"

definition vctor_qtcore_3_4 :: "ctor_block list" where
  "vctor_qtcore_3_4 = [
     CtorBlock QItemSelection 0 [
       Overload [] [] None],
     CtorBlock QItemSelection 2 [
       Overload [ValueM QTCORE_QMODELINDEX] [PConv QModelIndex, PConv QModelIndex] None]]"

definition vctor_classes_qtcore_3 :: "class_entry list" where
  "vctor_classes_qtcore_3 = [
     ClassEntry ''QDirIterator'' [TypeM QTCORE_QDIR, TypeM ''QTCORE_QDIRITERATOR'', ValueM QTCORE_QDIR] [''QDir, QDirIterator::IteratorFlags'', ''QString, QDirIterator::IteratorFlags'', ''QString, QDir::Filters, QDirIterator::IteratorFlags'', ''QString, QStringList, QDir::Filters, QDirIterator::IteratorFlags''],
     ClassEntry ''QDynamicPropertyChangeEvent'' [ValueM QTCORE_QBYTEARRAY] [QByteArray],
     ClassEntry QEasingCurve [TypeM QTCORE_QEASINGCURVE, ValueM QTCORE_QEASINGCURVE] [''QEasingCurve::Type'', QEasingCurve],
     ClassEntry QElapsedTimer [] [''''],
     ClassEntry ''QEvent'' [TypeM QTCORE_QEVENT] [QEvent_Type],
     ClassEntry ''QEventLoopLocker'' [TypeM ''QTCORE_QEVENTLOOP'', TypeM ''QTCORE_QTHREAD''] ['''', ''QEventLoop*'', ''QThread*''],
     ClassEntry QFileInfo [ValueM QTCORE_QDIR, ValueM ''QTCORE_QFILEINFO''] ['''', QString, ''QDir, QString'', QFileInfo],
     ClassEntry QItemSelection [ValueM QTCORE_QMODELINDEX] ['''', ''QModelIndex, QModelIndex'']]"

definition vctor_qtcore_4_0 :: "ctor_block list" where
  "vctor_qtcore_4_0 = [
     CtorBlock QItemSelectionRange 0 [
       Overload [] [] None],
     CtorBlock QItemSelectionRange 1 [
       Overload [ValueM QTCORE_QMODELINDEX] [PConv QModelIndex] None],
     CtorBlock QItemSelectionRange 2 [
       Overload [ValueM QTCORE_QMODELINDEX] [PConv QModelIndex, PConv QModelIndex] None],
     CtorBlock QJsonDocument 0 [
       Overload [] [] None]]"

definition vctor_qtcore_4_1 :: "ctor_block list" where
  "vctor_qtcore_4_1 = [
     CtorBlock QJsonDocument 1 [
       Overload [] [PConv ''QJsonObject''] None,
       Overload [] [PConv ''QJsonArray''] None,
       Overload [ValueM ''QTCORE_QJSONDOCUMENT''] [PConv QJsonDocument] None],
     CtorBlock QJsonValue 0 [
       Overload [TypeM ''QTCORE_QJSONVALUE''] [] None],
     CtorBlock QJsonValue 1 [
       Overload [TypeM ''QTCORE_QJSONVALUE''] [PConv ''QJsonValue::Type''] None,
       Overload [ValueM ''QTCORE_QJSONVALUE''] [PConv QJsonValue] None]]"

definition vctor_qtcore_4_2 :: "ctor_block list" where
  "vctor_qtcore_4_2 = [
     CtorBlock QKeyCombination 0 [
       Overload [EnumM ''QT_KEY''] [] None],
     CtorBlock QKeyCombination 1 [
       Overload [EnumM ''QT_KEY''] [PConv ''Qt::Key''] None,
       Overload [EnumM ''QT_KEY'', EnumM ''QT_MODIFIERS''] [PConv ''Qt::Modifiers''] None,
       Overload [EnumM ''QT_KEY'', EnumM QT_KEYBOARDMODIFIERS] [PConv Qt_KeyboardModifiers] None],
     CtorBlock QKeyCombination 2 [
       Overload [EnumM ''QT_KEY'', EnumM ''QT_MODIFIERS''] [PConv ''Qt::Modifiers'', PConv ''Qt::Key''] None,
       Overload [EnumM ''QT_KEY'', EnumM QT_KEYBOARDMODIFIERS] [PConv Qt_KeyboardModifiers, PConv ''Qt::Key''] None]]"

definition vctor_qtcore_4_3 :: "ctor_block list" where
  "vctor_qtcore_4_3 = [
     CtorBlock ''QLine'' 0 [
       Overload [] [] None],
     CtorBlock ''QLine'' 2 [
       Overload [ValueM QTCORE_QPOINT] [PConv QPoint, PConv QPoint] None],
     CtorBlock ''QLine'' 4 [
       Overload [] [PInt, PInt, PInt, PInt] None],
     CtorBlock QLineF 0 [
       Overload [] [] None],
     CtorBlock QLineF 1 [
       Overload [ValueM ''QTCORE_QLINE''] [PConv ''QLine''] None]]"

definition vctor_qtcore_4_4 :: "ctor_block list" where
  "vctor_qtcore_4_4 = [
     CtorBlock QLineF 2 [
       Overload [ValueM QTCORE_QPOINTF] [PConv QPointF, PConv QPointF] None],
     CtorBlock QLineF 4 [
       Overload [] [PReal ''qreal'', PReal ''qreal'', PReal ''qreal'', PReal ''qreal''] None],
     CtorBlock QLocale 0 [
       Overload [] [] None],
     CtorBlock QLocale 1 [
       Overload [] [PString False] None,
       Overload [TypeM QTCORE_QLOCALE] [PConv ''QLocale::Language''] None,
       Overload [ValueM QTCORE_QLOCALE] [PConv QLocale] None]]"

definition vctor_qtcore_4_5 :: "ctor_block list" where
  "vctor_qtcore_4_5 = [
     CtorBlock QLocale 2 [
       Overload [TypeM QTCORE_QLOCALE] [PConv ''QLocale::Language'', PConv ''QLocale::Country''] None],
     CtorBlock QLocale 3 [
       Overload [TypeM QTCORE_QLOCALE] [PConv ''QLocale::Language'', PConv ''QLocale::Script'', PConv ''QLocale::Country''] None],
     CtorBlock ''QLocationPermission'' 0 [
       Overload [] [] None],
     CtorBlock ''QLocationPermission'' 1 [
       Overload [ValueM ''QTCORE_QLOCATIONPERMISSION''] [PConv ''QLocationPermission''] None]]"

definition vctor_classes_qtcore_4 :: "class_entry list" where
  "vctor_classes_qtcore_4 = [
     ClassEntry QItemSelectionRange [ValueM QTCORE_QMODELINDEX] ['''', ''QModelIndex, QModelIndex'', QModelIndex],
     ClassEntry QJsonDocument [ValueM ''QTCORE_QJSONDOCUMENT''] ['''', ''QJsonObject'', ''QJsonArray'', QJsonDocument],
     ClassEntry QJsonValue [TypeM ''QTCORE_QJSONVALUE'', ValueM ''QTCORE_QJSONVALUE''] [''QJsonValue::Type'', QJsonValue],
     ClassEntry QKeyCombination [EnumM ''QT_KEY'', EnumM QT_KEYBOARDMODIFIERS, EnumM ''QT_MODIFIERS''] [''Qt::Key'', ''Qt::Modifiers, Qt::Key'', ''Qt::KeyboardModifiers, Qt::Key''],
     ClassEntry ''QLine'' [ValueM QTCORE_QPOINT] ['''', ''QPoint, QPoint'', ''int, int, int, int''],
     ClassEntry QLineF [ValueM ''QTCORE_QLINE'', ValueM QTCORE_QPOINTF] [''QLine'', '''', ''QPointF, QPointF'', ''qreal, qreal, qreal, qreal''],
     ClassEntry QLocale [TypeM QTCORE_QLOCALE, ValueM QTCORE_QLOCALE] ['''', QString, ''QLocale::Language, QLocale::Country'', ''QLocale::Language, QLocale::Script, QLocale::Country'', QLocale],
     ClassEntry ''QLocationPermission'' [ValueM ''QTCORE_QLOCATIONPERMISSION''] ['''', ''QLocationPermission'']]"

definition vctor_qtcore_5_0 :: "ctor_block list" where
  "vctor_qtcore_5_0 = [
     CtorBlock ''QLockFile'' 1 [
       Overload [] [PString False] None],
     CtorBlock QMargins 0 [
       Overload [] [] None],
     CtorBlock QMargins 4 [
       Overload [] [PInt, PInt, PInt, PInt] None],
     CtorBlock QMarginsF 0 [
       Overload [] [] None],
     CtorBlock QMarginsF 1 [
       Overload [ValueM QTCORE_QMARGINS] [PConv QMargins] None]]"

definition vctor_qtcore_5_1 :: "ctor_block list" where
  "vctor_qtcore_5_1 = [
     CtorBlock QMarginsF 4 [
       Overload [] [PReal ''qreal'', PReal ''qreal'', PReal ''qreal'', PReal ''qreal''] None],
     CtorBlock ''QMessageLogger'' 0 [
       Overload [] [] None],
     CtorBlock ''QMetaClassInfo'' 0 [
       Overload [] [] None],
     CtorBlock ''QMetaEnum'' 0 [
       Overload [] [] None],
     CtorBlock QMetaMethod 0 [
       Overload [] [] None],
     CtorBlock QMetaProperty 0 [
       Overload [] [] None]]"

definition vctor_classes_qtcore_5 :: "class_entry list" where
  "vctor_classes_qtcore_5 = [
     ClassEntry ''QLockFile'' [] [QString],
     ClassEntry QMargins [] ['''', ''int, int, int, int''],
     ClassEntry QMarginsF [ValueM QTCORE_QMARGINS] ['''', ''qreal, qreal, qreal, qreal'', QMargins],
     ClassEntry ''QMessageLogger'' [] [''''],
     ClassEntry ''QMetaClassInfo'' [] [''''],
     ClassEntry ''QMetaEnum'' [] [''''],
     ClassEntry QMetaMethod [] [''''],
     ClassEntry QMetaProperty [] ['''']]"

definition vctor_qtcore_6_0 :: "ctor_block list" where
  "vctor_qtcore_6_0 = [
     CtorBlock QMetaType 0 [
       Overload [] [] None],
     CtorBlock QMetaType 1 [
       Overload [] [PInt] None],
     CtorBlock ''QMicrophonePermission'' 0 [
       Overload [] [] None],
     CtorBlock ''QMicrophonePermission'' 1 [
       Overload [ValueM ''QTCORE_QMICROPHONEPERMISSION''] [PConv ''QMicrophonePermission''] None],
     CtorBlock ''QMimeDatabase'' 0 [
       Overload [] [] None],
     CtorBlock QMimeType 0 [
       Overload [] [] None]]"

definition vctor_qtcore_6_1 :: "ctor_block list" where
  "vctor_qtcore_6_1 = [
     CtorBlock QMimeType 1 [
       Overload [ValueM ''QTCORE_QMIMETYPE''] [PConv QMimeType] None],
     CtorBlock QModelIndex 0 [
       Overload [] [] None],
     CtorBlock ''QModelRoleData'' 1 [
       Overload [] [PInt] None],
     CtorBlock ''QModelRoleDataSpan'' 0 [
       Overload [] [] None],
     CtorBlock ''QModelRoleDataSpan'' 1 [
       Overload [ValueM ''QTCORE_QMODELROLEDATA''] [PConv ''QModelRoleData''] None],
     CtorBlock ''QMutex'' 0 [
       Overload [] [] None]]"

definition vctor_classes_qtcore_6 :: "class_entry list" where
  "vctor_classes_qtcore_6 = [
     ClassEntry QMetaType [] ['''', ''int''],
     ClassEntry ''QMicrophonePermission'' [ValueM ''QTCORE_QMICROPHONEPERMISSION''] ['''', ''QMicrophonePermission''],
     ClassEntry ''QMimeDatabase'' [] [''''],
     ClassEntry QMimeType [ValueM ''QTCORE_QMIMETYPE''] ['''', QMimeType],
     ClassEntry QModelIndex [] [''''],
     ClassEntry ''QModelRoleData'' [] [''int''],
     ClassEntry ''QModelRoleDataSpan'' [ValueM ''QTCORE_QMODELROLEDATA''] ['''', ''QModelRoleData''],
     ClassEntry ''QMutex'' [] ['''']]"

definition vctor_qtcore_7_0 :: "ctor_block list" where
  "vctor_qtcore_7_0 = [
     CtorBlock QNativeIpcKey 0 [
       Overload [] [] None],
     CtorBlock QNativeIpcKey 1 [
       Overload [TypeM QTCORE_QNATIVEIPCKEY] [PConv ''QNativeIpcKey::Type''] None,
       Overload [TypeM QTCORE_QNATIVEIPCKEY] [PString False] None,
       Overload [ValueM QTCORE_QNATIVEIPCKEY] [PConv QNativeIpcKey] None],
     CtorBlock QNativeIpcKey 2 [
       Overload [TypeM QTCORE_QNATIVEIPCKEY] [PString False, PConv ''QNativeIpcKey::Type''] None],
     CtorBlock QOperatingSystemVersion 2 [
       Overload [TypeM ''QTCORE_QOPERATINGSYSTEMVERSION''] [PConv ''QOperatingSystemVersion::OSType'', PInt] None]]"

definition vctor_qtcore_7_1 :: "ctor_block list" where
  "vctor_qtcore_7_1 = [
     CtorBlock QOperatingSystemVersion 3 [
       Overload [TypeM ''QTCORE_QOPERATINGSYSTEMVERSION''] [PConv ''QOperatingSystemVersion::OSType'', PInt, PInt] None],
     CtorBlock QOperatingSystemVersion 4 [
       Overload [TypeM ''QTCORE_QOPERATINGSYSTEMVERSION''] [PConv ''QOperatingSystemVersion::OSType'', PInt, PInt, PInt] None],
     CtorBlock ''QPermission'' 0 [
       Overload [] [] None],
     CtorBlock QPersistentModelIndex 0 [
       Overload [] [] None]]"

definition vctor_qtcore_7_2 :: "ctor_block list" where
  "vctor_qtcore_7_2 = [
     CtorBlock QPersistentModelIndex 1 [
       Overload [ValueM QTCORE_QMODELINDEX] [PConv QModelIndex] None,
       Overload [ValueM ''QTCORE_QPERSISTENTMODELINDEX''] [PConv QPersistentModelIndex] None],
     CtorBlock QPoint 0 [
       Overload [] [] None],
     CtorBlock QPoint 2 [
       Overload [] [PInt, PInt] None],
     CtorBlock QPointF 0 [
       Overload [] [] None],
     CtorBlock QPointF 1 [
       Overload [ValueM QTCORE_QPOINT] [PConv QPoint] None]]"

definition vctor_qtcore_7_3 :: "ctor_block list" where
  "vctor_qtcore_7_3 = [
     CtorBlock QPointF 2 [
       Overload [] [PReal ''qreal'', PReal ''qreal''] None],
     CtorBlock QProcessEnvironment 0 [
       Overload [] [] None],
     CtorBlock QProcessEnvironment 1 [
       Overload [TypeM ''QTCORE_QPROCESSENVIRONMENT''] [PConv ''QProcessEnvironment::Initialization''] None,
       Overload [ValueM ''QTCORE_QPROCESSENVIRONMENT''] [PConv QProcessEnvironment] None],
     CtorBlock ''QRandomGenerator'' 1 [
       Overload [ValueM ''QTCORE_QRANDOMGENERATOR''] [PConv ''QRandomGenerator''] None]]"

definition vctor_classes_qtcore_7 :: "class_entry list" where
  "vctor_classes_qtcore_7 = [
     ClassEntry QNativeIpcKey [TypeM QTCORE_QNATIVEIPCKEY, ValueM QTCORE_QNATIVEIPCKEY] ['''', ''QNativeIpcKey::Type'', ''QString, QNativeIpcKey::Type'', QNativeIpcKey],
     ClassEntry QOperatingSystemVersion [TypeM ''QTCORE_QOPERATINGSYSTEMVERSION''] [''QOperatingSystemVersion::OSType, int, int, int''],
     ClassEntry ''QPermission'' [] [''''],
     ClassEntry QPersistentModelIndex [ValueM QTCORE_QMODELINDEX, ValueM ''QTCORE_QPERSISTENTMODELINDEX''] ['''', QModelIndex, QPersistentModelIndex],
     ClassEntry QPoint [] ['''', ''int, int''],
     ClassEntry QPointF [ValueM QTCORE_QPOINT] ['''', ''qreal, qreal'', QPoint],
     ClassEntry QProcessEnvironment [TypeM ''QTCORE_QPROCESSENVIRONMENT'', ValueM ''QTCORE_QPROCESSENVIRONMENT''] [''QProcessEnvironment::Initialization'', '''', QProcessEnvironment],
     ClassEntry ''QRandomGenerator'' [ValueM ''QTCORE_QRANDOMGENERATOR''] [''QRandomGenerator'']]"

definition vctor_qtcore_8_0 :: "ctor_block list" where
  "vctor_qtcore_8_0 = [
     CtorBlock ''QReadWriteLock'' 0 [
       Overload [TypeM ''QTCORE_QREADWRITELOCK''] [] None],
     CtorBlock ''QReadWriteLock'' 1 [
       Overload [TypeM ''QTCORE_QREADWRITELOCK''] [PConv ''QReadWriteLock::RecursionMode''] None],
     CtorBlock QRect 0 [
       Overload [] [] None],
     CtorBlock QRect 2 [
       Overload [ValueM QTCORE_QPOINT] [PConv QPoint, PConv QPoint] None,
       Overload [ValueM QTCORE_QPOINT, ValueM QTCORE_QSIZE] [PConv QPoint, PConv QSize] None]]"

definition vctor_qtcore_8_1 :: "ctor_block list" where
  "vctor_qtcore_8_1 = [
     CtorBlock QRect 4 [
       Overload [] [PInt, PInt, PInt, PInt] None],
     CtorBlock QRectF 0 [
       Overload [] [] None],
     CtorBlock QRectF 1 [
       Overload [ValueM QTCORE_QRECT] [PConv QRect] None],
     CtorBlock QRectF 2 [
       Overload [ValueM QTCORE_QPOINTF, ValueM QTCORE_QSIZEF] [PConv QPointF, PConv QSizeF] None,
       Overload [ValueM QTCORE_QPOINTF] [PConv QPointF, PConv QPointF] None]]"

definition vctor_qtcore_8_2 :: "ctor_block list" where
  "vctor_qtcore_8_2 = [
     CtorBlock QRectF 4 [
       Overload [] [PReal ''qreal'', PReal ''qreal'', PReal ''qreal'', PReal ''qreal''] None],
     CtorBlock ''QRecursiveMutex'' 0 [
       Overload [] [] None],
     CtorBlock QRegularExpression 0 [
       Overload [] [] None],
     CtorBlock QRegularExpression 1 [
       Overload [TypeM QTCORE_QREGULAREXPRESSION] [PString False] None,
       Overload [ValueM QTCORE_QREGULAREXPRESSION] [PConv QRegularExpression] None],
     CtorBlock QRegularExpression 2 [
       Overload [TypeM QTCORE_QREGULAREXPRESSION] [PString False, PConv ''QRegularExpression::PatternOptions''] None]]"

definition vctor_qtcore_8_3 :: "ctor_block list" where
  "vctor_qtcore_8_3 = [
     CtorBlock QRegularExpressionMatch 0 [
       Overload [] [] None],
     CtorBlock QRegularExpressionMatch 1 [
       Overload [ValueM ''QTCORE_QREGULAREXPRESSIONMATCH''] [PConv QRegularExpressionMatch] None],
     CtorBlock QRegularExpressionMatchIterator 0 [
       Overload [] [] None],
     CtorBlock QRegularExpressionMatchIterator 1 [
       Overload [ValueM ''QTCORE_QREGULAREXPRESSIONMATCHITERATOR''] [PConv QRegularExpressionMatchIterator] None],
     CtorBlock ''QResource'' 0 [
       Overload [ValueM QTCORE_QLOCALE] [] None],
     CtorBlock ''QResource'' 1 [
       Overload [ValueM QTCORE_QLOCALE] [PString False] None]]"

definition vctor_qtcore_8_4 :: "ctor_block list" where
  "vctor_qtcore_8_4 = [
     CtorBlock ''QResource'' 2 [
       Overload [ValueM QTCORE_QLOCALE] [PString False, PConv QLocale] None]]"

definition vctor_classes_qtcore_8 :: "class_entry list" where
  "vctor_classes_qtcore_8 = [
     ClassEntry ''QReadWriteLock'' [TypeM ''QTCORE_QREADWRITELOCK''] [''QReadWriteLock::RecursionMode''],
     ClassEntry QRect [ValueM QTCORE_QPOINT, ValueM QTCORE_QSIZE] ['''', ''int, int, int, int'', ''QPoint, QPoint'', ''QPoint, QSize''],
     ClassEntry QRectF [ValueM QTCORE_QPOINTF, ValueM QTCORE_QRECT, ValueM QTCORE_QSIZEF] ['''', ''QPointF, QSizeF'', ''QPointF, QPointF'', ''qreal, qreal, qreal, qreal'', QRect],
     ClassEntry ''QRecursiveMutex'' [] [''''],
     ClassEntry QRegularExpression [TypeM QTCORE_QREGULAREXPRESSION, ValueM QTCORE_QREGULAREXPRESSION] ['''', ''QString, QRegularExpression::PatternOptions'', QRegularExpression],
     ClassEntry QRegularExpressionMatch [ValueM ''QTCORE_QREGULAREXPRESSIONMATCH''] ['''', QRegularExpressionMatch],
     ClassEntry QRegularExpressionMatchIterator [ValueM ''QTCORE_QREGULAREXPRESSIONMATCHITERATOR''] ['''', QRegularExpressionMatchIterator],
     ClassEntry ''QResource'' [ValueM QTCORE_QLOCALE] [''QString, QLocale'']]"

definition vctor_qtcore_9_0 :: "ctor_block list" where
  "vctor_qtcore_9_0 = [
     CtorBlock ''QRunnable'' 0 [
       Overload [] [] None],
     CtorBlock ''QSemaphore'' 0 [
       Overload [] [] None],
     CtorBlock ''QSemaphore'' 1 [
       Overload [] [PInt] None],
     CtorBlock ''QSemaphoreReleaser'' 0 [
       Overload [] [] None],
     CtorBlock ''QSignalBlocker'' 1 [
       Overload [TypeM QTCORE_QOBJECT] [PNonNull QObject_ptr] None],
     CtorBlock QSize 0 [
       Overload [] [] None]]"

definition vctor_qtcore_9_1 :: "ctor_block list" where
  "vctor_qtcore_9_1 = [
     CtorBlock QSize 2 [
       Overload [] [PInt, PInt] None],
     CtorBlock QSizeF 0 [
       Overload [] [] None],
     CtorBlock QSizeF 1 [
       Overload [ValueM QTCORE_QSIZE] [PConv QSize] None],
     CtorBlock QSizeF 2 [
       Overload [] [PReal ''qreal'', PReal ''qreal''] None],
     CtorBlock QStorageInfo 0 [
       Overload [] [] None]]"

definition vctor_qtcore_9_2 :: "ctor_block list" where
  "vctor_qtcore_9_2 = [
     CtorBlock QStorageInfo 1 [
       Overload [] [PString False] None,
       Overload [ValueM QTCORE_QDIR] [PConv QDir] None,
       Overload [ValueM ''QTCORE_QSTORAGEINFO''] [PConv QStorageInfo] None],
     CtorBlock ''QStringDecoder'' 0 [
       Overload [] [] None],
     CtorBlock ''QStringDecoder'' 1 [
       Overload [TypeM ''QTCORE_QSTRINGCONVERTER'', TypeM ''QTCORE_QSTRINGCONVERTERBASE''] [PConv ''QStringConverter::Encoding''] None],
     CtorBlock ''QStringDecoder'' 2 [
       Overload [TypeM ''QTCORE_QSTRINGCONVERTER'', TypeM ''QTCORE_QSTRINGCONVERTERBASE''] [PConv ''QStringConverter::Encoding'', PConv ''QStringConverterBase::Flags''] None]]"

definition vctor_classes_qtcore_9 :: "class_entry list" where
  "vctor_classes_qtcore_9 = [
     ClassEntry ''QRunnable'' [] [''''],
     ClassEntry ''QSemaphore'' [] [''int''],
     ClassEntry ''QSemaphoreReleaser'' [] [''''],
     ClassEntry ''QSignalBlocker'' [TypeM QTCORE_QOBJECT] [QObject_ptr],
     ClassEntry QSize [] ['''', ''int, int''],
     ClassEntry QSizeF [ValueM QTCORE_QSIZE] ['''', QSize, ''qreal, qreal''],
     ClassEntry QStorageInfo [ValueM QTCORE_QDIR, ValueM ''QTCORE_QSTORAGEINFO''] ['''', QString, QDir, QStorageInfo],
     ClassEntry ''QStringDecoder'' [TypeM ''QTCORE_QSTRINGCONVERTER'', TypeM ''QTCORE_QSTRINGCONVERTERBASE''] ['''', ''QStringConverter::Encoding, QStringConverterBase::Flags'']]"

definition vctor_table_core :: "(string \<times> ctor_shard) list" where
  "vctor_table_core = [
     (''qtcore_0'', \<lparr>cs_module = ''QtCore'', cs_slug = ''QTCORE'',
        cs_blocks = concat [vctor_qtcore_0_0, vctor_qtcore_0_1, vctor_qtcore_0_2],
        cs_classes = vctor_classes_qtcore_0\<rparr>),
     (''qtcore_1'', \<lparr>cs_module = ''QtCore'', cs_slug = ''QTCORE'',
        cs_blocks = concat [vctor_qtcore_1_0, vctor_qtcore_1_1, vctor_qtcore_1_2, vctor_qtcore_1_3, vctor_qtcore_1_4],
        cs_classes = vctor_classes_qtcore_1\<rparr>),
     (''qtcore_10'', \<lparr>cs_module = ''QtCore'', cs_slug = ''QTCORE'',
        cs_blocks = concat [vctor_qtcore_10_0, vctor_qtcore_10_1, vctor_qtcore_10_2, vctor_qtcore_10_3, vctor_qtcore_10_4, vctor_qtcore_10_5],
        cs_classes = vctor_classes_qtcore_10\<rparr>),
     (''qtcore_11'', \<lparr>cs_module = ''QtCore'', cs_slug = ''QTCORE'',
        cs_blocks = concat [vctor_qtcore_11_0, vctor_qtcore_11_1, vctor_qtcore_11_2, vctor_qtcore_11_3],
        cs_classes = vctor_classes_qtcore_11\<rparr>),
     (''qtcore_12'', \<lparr>cs_module = ''QtCore'', cs_slug = ''QTCORE'',
        cs_blocks = concat [vctor_qtcore_12_0, vctor_qtcore_12_1],
        cs_classes = vctor_classes_qtcore_12\<rparr>),
     (''qtcore_2'', \<lparr>cs_module = ''QtCore'', cs_slug = ''QTCORE'',
        cs_blocks = concat [vctor_qtcore_2_0, vctor_qtcore_2_1, vctor_qtcore_2_2, vctor_qtcore_2_3, vctor_qtcore_2_4, vctor_qtcore_2_5],
        cs_classes = vctor_classes_qtcore_2\<rparr>),
     (''qtcore_3'', \<lparr>cs_module = ''QtCore'', cs_slug = ''QTCORE'',
        cs_blocks = concat [vctor_qtcore_3_0, vctor_qtcore_3_1, vctor_qtcore_3_2, vctor_qtcore_3_3, vctor_qtcore_3_4],
        cs_classes = vctor_classes_qtcore_3\<rparr>),
     (''qtcore_4'', \<lparr>cs_module = ''QtCore'', cs_slug = ''QTCORE'',
        cs_blocks = concat [vctor_qtcore_4_0, vctor_qtcore_4_1, vctor_qtcore_4_2, vctor_qtcore_4_3, vctor_qtcore_4_4, vctor_qtcore_4_5],
        cs_classes = vctor_classes_qtcore_4\<rparr>),
     (''qtcore_5'', \<lparr>cs_module = ''QtCore'', cs_slug = ''QTCORE'',
        cs_blocks = concat [vctor_qtcore_5_0, vctor_qtcore_5_1],
        cs_classes = vctor_classes_qtcore_5\<rparr>),
     (''qtcore_6'', \<lparr>cs_module = ''QtCore'', cs_slug = ''QTCORE'',
        cs_blocks = concat [vctor_qtcore_6_0, vctor_qtcore_6_1],
        cs_classes = vctor_classes_qtcore_6\<rparr>),
     (''qtcore_7'', \<lparr>cs_module = ''QtCore'', cs_slug = ''QTCORE'',
        cs_blocks = concat [vctor_qtcore_7_0, vctor_qtcore_7_1, vctor_qtcore_7_2, vctor_qtcore_7_3],
        cs_classes = vctor_classes_qtcore_7\<rparr>),
     (''qtcore_8'', \<lparr>cs_module = ''QtCore'', cs_slug = ''QTCORE'',
        cs_blocks = concat [vctor_qtcore_8_0, vctor_qtcore_8_1, vctor_qtcore_8_2, vctor_qtcore_8_3, vctor_qtcore_8_4],
        cs_classes = vctor_classes_qtcore_8\<rparr>),
     (''qtcore_9'', \<lparr>cs_module = ''QtCore'', cs_slug = ''QTCORE'',
        cs_blocks = concat [vctor_qtcore_9_0, vctor_qtcore_9_1, vctor_qtcore_9_2],
        cs_classes = vctor_classes_qtcore_9\<rparr>)]"

lemmas vctor_table_core_defs =
  vctor_qtcore_0_0_def vctor_qtcore_0_1_def vctor_qtcore_0_2_def vctor_qtcore_1_0_def vctor_qtcore_1_1_def
  vctor_qtcore_1_2_def vctor_qtcore_1_3_def vctor_qtcore_1_4_def vctor_qtcore_10_0_def vctor_qtcore_10_1_def
  vctor_qtcore_10_2_def vctor_qtcore_10_3_def vctor_qtcore_10_4_def vctor_qtcore_10_5_def vctor_qtcore_11_0_def
  vctor_qtcore_11_1_def vctor_qtcore_11_2_def vctor_qtcore_11_3_def vctor_qtcore_12_0_def vctor_qtcore_12_1_def
  vctor_qtcore_2_0_def vctor_qtcore_2_1_def vctor_qtcore_2_2_def vctor_qtcore_2_3_def vctor_qtcore_2_4_def
  vctor_qtcore_2_5_def vctor_qtcore_3_0_def vctor_qtcore_3_1_def vctor_qtcore_3_2_def vctor_qtcore_3_3_def
  vctor_qtcore_3_4_def vctor_qtcore_4_0_def vctor_qtcore_4_1_def vctor_qtcore_4_2_def vctor_qtcore_4_3_def
  vctor_qtcore_4_4_def vctor_qtcore_4_5_def vctor_qtcore_5_0_def vctor_qtcore_5_1_def vctor_qtcore_6_0_def
  vctor_qtcore_6_1_def vctor_qtcore_7_0_def vctor_qtcore_7_1_def vctor_qtcore_7_2_def vctor_qtcore_7_3_def
  vctor_qtcore_8_0_def vctor_qtcore_8_1_def vctor_qtcore_8_2_def vctor_qtcore_8_3_def vctor_qtcore_8_4_def
  vctor_qtcore_9_0_def vctor_qtcore_9_1_def vctor_qtcore_9_2_def

lemma vctor_table_core_fitting_shard: "list_all (\<lambda>(s, sh). fitting_shard sh) vctor_table_core"
  by (simp add: vctor_table_core_def vctor_table_core_defs fitting_shard_def)

end
