(* ===== verification/Value_Constructors_Gui.thy ===== *)
theory Value_Constructors_Gui
  imports Shard_Constructors Qt_Names
begin

text \<open>
  Tables of the value constructor shards (generated\_value\_constructors): the blocks of every shard in the file's
  order, and the classes it lists.
\<close>

definition vctor_qtgui_0_0 :: "ctor_block list" where
  "vctor_qtgui_0_0 = [
     CtorBlock ''QAbstractFileIconProvider'' 0 [
       Overload [] [] None],
     CtorBlock ''QActionEvent'' 2 [
       Overload [TypeM ''QTGUI_QACTION''] [PInt, PNonNull ''QAction*''] None],
     CtorBlock ''QActionEvent'' 3 [
       Overload [TypeM ''QTGUI_QACTION''] [PInt, PNonNull ''QAction*'', PNonNull ''QAction*''] None],
     CtorBlock ''QBackingStore'' 1 [
       Overload [TypeM QTGUI_QWINDOW] [PNonNull ''QWindow*''] None],
     CtorBlock ''QBitmap'' 0 [
       Overload [] [] None]]"

definition vctor_qtgui_0_1 :: "ctor_block list" where
  "vctor_qtgui_0_1 = [
     CtorBlock ''QBitmap'' 1 [
       Overload [ValueM QTCORE_QSIZE] [PConv QSize] None],
     CtorBlock ''QBitmap'' 2 [
       Overload [] [PInt, PInt] None],
     CtorBlock QBrush 0 [
       Overload [] [] None]]"

definition vctor_qtgui_0_2 :: "ctor_block list" where
  "vctor_qtgui_0_2 = [
     CtorBlock QBrush 1 [
       Overload [EnumM ''QT_BRUSHSTYLE''] [PConv ''Qt::BrushStyle''] None,
       Overload [EnumM ''QT_BRUSHSTYLE'', ValueM QTGUI_QCOLOR] [PConv QColor] None,
       Overload [ValueM QTGUI_QPIXMAP] [PConv QPixmap] None,
       Overload [ValueM QTGUI_QIMAGE] [PConv QImage] None,
       Overload [ValueM QTGUI_QBRUSH] [PConv QBrush] None]]"

definition vctor_qtgui_0_3 :: "ctor_block list" where
  "vctor_qtgui_0_3 = [
     CtorBlock QBrush 2 [
       Overload [EnumM ''QT_BRUSHSTYLE'', ValueM QTGUI_QCOLOR] [PConv QColor, PConv ''Qt::BrushStyle''] None,
       Overload [ValueM QTGUI_QCOLOR, ValueM QTGUI_QPIXMAP] [PConv QColor, PConv QPixmap] None],
     CtorBlock ''QChildWindowEvent'' 2 [
       Overload [TypeM QTCORE_QEVENT, TypeM QTGUI_QWINDOW] [PConv QEvent_Type, PNonNull ''QWindow*''] None],
     CtorBlock ''QCloseEvent'' 0 [
       Overload [] [] None],
     CtorBlock QColor 0 [
       Overload [] [] None]]"

definition vctor_qtgui_0_4 :: "ctor_block list" where
  "vctor_qtgui_0_4 = [
     CtorBlock QColor 1 [
       Overload [EnumM ''QT_GLOBALCOLOR''] [PConv ''Qt::GlobalColor''] None,
       Overload [ValueM ''QTGUI_QRGBA64''] [PConv ''QRgba64''] None],
     CtorBlock QColor 3 [
       Overload [] [PInt, PInt, PInt] None],
     CtorBlock QColor 4 [
       Overload [] [PInt, PInt, PInt, PInt] None]]"

definition vctor_classes_qtgui_0 :: "class_entry list" where
  "vctor_classes_qtgui_0 = [
     ClassEntry ''QAbstractFileIconProvider'' [] [''''],
     ClassEntry ''QActionEvent'' [TypeM ''QTGUI_QACTION''] [''int, QAction*, QAction*''],
     ClassEntry ''QBackingStore'' [TypeM QTGUI_QWINDOW] [''QWindow*''],
     ClassEntry ''QBitmap'' [ValueM QTCORE_QSIZE] ['''', ''int, int'', QSize],
     ClassEntry QBrush [EnumM ''QT_BRUSHSTYLE'', ValueM QTGUI_QBRUSH, ValueM QTGUI_QCOLOR, ValueM QTGUI_QIMAGE, ValueM QTGUI_QPIXMAP] ['''', ''Qt::BrushStyle'', ''QColor, Qt::BrushStyle'', ''QColor, QPixmap'', QPixmap, QImage, QBrush],
     ClassEntry ''QChildWindowEvent'' [TypeM QTCORE_QEVENT, TypeM QTGUI_QWINDOW] [''QEvent::Type, QWindow*''],
     ClassEntry ''QCloseEvent'' [] [''''],
     ClassEntry QColor [EnumM ''QT_GLOBALCOLOR'', ValueM ''QTGUI_QRGBA64''] [''Qt::GlobalColor'', ''QRgba64'', '''', ''int, int, int, int'']]"

definition vctor_qtgui_1_0 :: "ctor_block list" where
  "vctor_qtgui_1_0 = [
     CtorBlock QColorSpace 0 [
       Overload [] [] None],
     CtorBlock QColorSpace 1 [
       Overload [TypeM QTGUI_QCOLORSPACE] [PConv ''QColorSpace::NamedColorSpace''] None,
       Overload [ValueM QTGUI_QCOLORSPACE] [PConv QColorSpace] None]]"

definition vctor_qtgui_1_1 :: "ctor_block list" where
  "vctor_qtgui_1_1 = [
     CtorBlock QColorSpace 2 [
       Overload [TypeM QTGUI_QCOLORSPACE] [PConv ''QColorSpace::Primaries'', PConv QColorSpace_TransferFunction] None,
       Overload [TypeM QTGUI_QCOLORSPACE] [PConv ''QColorSpace::Primaries'', PReal ''float''] None,
       Overload [TypeM QTGUI_QCOLORSPACE, ValueM QTCORE_QPOINTF] [PConv QPointF, PConv QColorSpace_TransferFunction] None,
       Overload [TypeM QTGUI_QCOLORSPACE] [PConv ''QColorSpace::PrimaryPoints'', PConv QColorSpace_TransferFunction] None]]"

definition vctor_qtgui_1_2 :: "ctor_block list" where
  "vctor_qtgui_1_2 = [
     CtorBlock QColorSpace 3 [
       Overload [TypeM QTGUI_QCOLORSPACE] [PConv ''QColorSpace::Primaries'', PConv QColorSpace_TransferFunction, PReal ''float''] None,
       Overload [TypeM QTGUI_QCOLORSPACE, ValueM QTCORE_QPOINTF] [PConv QPointF, PConv QColorSpace_TransferFunction, PReal ''float''] None,
       Overload [TypeM QTGUI_QCOLORSPACE] [PConv ''QColorSpace::PrimaryPoints'', PConv QColorSpace_TransferFunction, PReal ''float''] None],
     CtorBlock QColorSpace 5 [
       Overload [TypeM QTGUI_QCOLORSPACE, ValueM QTCORE_QPOINTF] [PConv QPointF, PConv QPointF, PConv QPointF, PConv QPointF, PConv QColorSpace_TransferFunction] None]]"

definition vctor_qtgui_1_3 :: "ctor_block list" where
  "vctor_qtgui_1_3 = [
     CtorBlock QColorSpace 6 [
       Overload [TypeM QTGUI_QCOLORSPACE, ValueM QTCORE_QPOINTF] [PConv QPointF, PConv QPointF, PConv QPointF, PConv QPointF, PConv QColorSpace_TransferFunction, PReal ''float''] None],
     CtorBlock ''QColorTransform'' 0 [
       Overload [] [] None],
     CtorBlock ''QColorTransform'' 1 [
       Overload [ValueM ''QTGUI_QCOLORTRANSFORM''] [PConv ''QColorTransform''] None],
     CtorBlock ''QConicalGradient'' 0 [
       Overload [] [] None],
     CtorBlock ''QConicalGradient'' 2 [
       Overload [ValueM QTCORE_QPOINTF] [PConv QPointF, PReal ''qreal''] None]]"

definition vctor_qtgui_1_4 :: "ctor_block list" where
  "vctor_qtgui_1_4 = [
     CtorBlock ''QConicalGradient'' 3 [
       Overload [] [PReal ''qreal'', PReal ''qreal'', PReal ''qreal''] None],
     CtorBlock ''QContextMenuEvent'' 2 [
       Overload [TypeM ''QTGUI_QCONTEXTMENUEVENT'', ValueM QTCORE_QPOINT] [PConv ''QContextMenuEvent::Reason'', PConv QPoint] None],
     CtorBlock ''QContextMenuEvent'' 3 [
       Overload [EnumM QT_KEYBOARDMODIFIERS, TypeM ''QTGUI_QCONTEXTMENUEVENT'', ValueM QTCORE_QPOINT] [PConv ''QContextMenuEvent::Reason'', PConv QPoint, PConv QPoint] None],
     CtorBlock ''QContextMenuEvent'' 4 [
       Overload [EnumM QT_KEYBOARDMODIFIERS, TypeM ''QTGUI_QCONTEXTMENUEVENT'', ValueM QTCORE_QPOINT] [PConv ''QContextMenuEvent::Reason'', PConv QPoint, PConv QPoint, PConv Qt_KeyboardModifiers] None],
     CtorBlock QCursor 0 [
       Overload [] [] None]]"

definition vctor_qtgui_1_5 :: "ctor_block list" where
  "vctor_qtgui_1_5 = [
     CtorBlock QCursor 1 [
       Overload [ValueM QTGUI_QPIXMAP] [PConv QPixmap] None,
       Overload [ValueM ''QTGUI_QCURSOR''] [PConv QCursor] None],
     CtorBlock QCursor 2 [
       Overload [ValueM ''QTGUI_QBITMAP''] [PConv ''QBitmap'', PConv ''QBitmap''] None,
       Overload [ValueM QTGUI_QPIXMAP] [PConv QPixmap, PInt] None],
     CtorBlock QCursor 3 [
       Overload [ValueM ''QTGUI_QBITMAP''] [PConv ''QBitmap'', PConv ''QBitmap'', PInt] None,
       Overload [ValueM QTGUI_QPIXMAP] [PConv QPixmap, PInt, PInt] None]]"

definition vctor_qtgui_1_6 :: "ctor_block list" where
  "vctor_qtgui_1_6 = [
     CtorBlock QCursor 4 [
       Overload [ValueM ''QTGUI_QBITMAP''] [PConv ''QBitmap'', PConv ''QBitmap'', PInt, PInt] None],
     CtorBlock ''QDragEnterEvent'' 5 [
       Overload [EnumM QT_DROPACTIONS, EnumM QT_KEYBOARDMODIFIERS, EnumM QT_MOUSEBUTTONS, TypeM QTCORE_QMIMEDATA, ValueM QTCORE_QPOINT] [PConv QPoint, PConv Qt_DropActions, PNonNull ''QMimeData*'', PConv Qt_MouseButtons, PConv Qt_KeyboardModifiers] None],
     CtorBlock ''QDragLeaveEvent'' 0 [
       Overload [] [] None],
     CtorBlock ''QDragMoveEvent'' 5 [
       Overload [EnumM QT_DROPACTIONS, EnumM QT_KEYBOARDMODIFIERS, EnumM QT_MOUSEBUTTONS, TypeM QTCORE_QEVENT, TypeM QTCORE_QMIMEDATA, ValueM QTCORE_QPOINT] [PConv QPoint, PConv Qt_DropActions, PNonNull ''QMimeData*'', PConv Qt_MouseButtons, PConv Qt_KeyboardModifiers] None]]"

definition vctor_qtgui_1_7 :: "ctor_block list" where
  "vctor_qtgui_1_7 = [
     CtorBlock ''QDragMoveEvent'' 6 [
       Overload [EnumM QT_DROPACTIONS, EnumM QT_KEYBOARDMODIFIERS, EnumM QT_MOUSEBUTTONS, TypeM QTCORE_QEVENT, TypeM QTCORE_QMIMEDATA, ValueM QTCORE_QPOINT] [PConv QPoint, PConv Qt_DropActions, PNonNull ''QMimeData*'', PConv Qt_MouseButtons, PConv Qt_KeyboardModifiers, PConv QEvent_Type] None]]"

definition vctor_classes_qtgui_1 :: "class_entry list" where
  "vctor_classes_qtgui_1 = [
     ClassEntry QColorSpace [TypeM QTGUI_QCOLORSPACE, ValueM QTCORE_QPOINTF, ValueM QTGUI_QCOLORSPACE] ['''', ''QColorSpace::NamedColorSpace'', ''QColorSpace::Primaries, QColorSpace::TransferFunction, float'', ''QColorSpace::Primaries, float'', ''QPointF, QPointF, QPointF, QPointF, QColorSpace::TransferFunction, float'', ''QPointF, QColorSpace::TransferFunction, float'', QColorSpace, ''QColorSpace::PrimaryPoints, QColorSpace::TransferFunction, float''],
     ClassEntry ''QColorTransform'' [ValueM ''QTGUI_QCOLORTRANSFORM''] ['''', ''QColorTransform''],
     ClassEntry ''QConicalGradient'' [ValueM QTCORE_QPOINTF] ['''', ''QPointF, qreal'', ''qreal, qreal, qreal''],
     ClassEntry ''QContextMenuEvent'' [EnumM QT_KEYBOARDMODIFIERS, TypeM ''QTGUI_QCONTEXTMENUEVENT'', ValueM QTCORE_QPOINT] [''QContextMenuEvent::Reason, QPoint, QPoint, Qt::KeyboardModifiers'', ''QContextMenuEvent::Reason, QPoint''],
     ClassEntry QCursor [ValueM ''QTGUI_QBITMAP'', ValueM ''QTGUI_QCURSOR'', ValueM QTGUI_QPIXMAP] ['''', ''QBitmap, QBitmap, int, int'', ''QPixmap, int, int'', QCursor],
     ClassEntry ''QDragEnterEvent'' [EnumM QT_DROPACTIONS, EnumM QT_KEYBOARDMODIFIERS, EnumM QT_MOUSEBUTTONS, TypeM QTCORE_QMIMEDATA, ValueM QTCORE_QPOINT] [''QPoint, Qt::DropActions, QMimeData*, Qt::MouseButtons, Qt::KeyboardModifiers''],
     ClassEntry ''QDragLeaveEvent'' [] [''''],
     ClassEntry ''QDragMoveEvent'' [EnumM QT_DROPACTIONS, EnumM QT_KEYBOARDMODIFIERS, EnumM QT_MOUSEBUTTONS, TypeM QTCORE_QEVENT, TypeM QTCORE_QMIMEDATA, ValueM QTCORE_QPOINT] [''QPoint, Qt::DropActions, QMimeData*, Qt::MouseButtons, Qt::KeyboardModifiers, QEvent::Type'']]"

definition vctor_qtgui_10_0 :: "ctor_block list" where
  "vctor_qtgui_10_0 = [
     CtorBlock ''QShortcutEvent'' 1 [
       Overload [TypeM ''QTGUI_QSHORTCUT'', ValueM QTGUI_QKEYSEQUENCE] [PConv QKeySequence] None],
     CtorBlock ''QShortcutEvent'' 2 [
       Overload [ValueM QTGUI_QKEYSEQUENCE] [PConv QKeySequence, PInt] None,
       Overload [TypeM ''QTGUI_QSHORTCUT'', ValueM QTGUI_QKEYSEQUENCE] [PConv QKeySequence, PNonNull ''QShortcut*''] None],
     CtorBlock ''QShortcutEvent'' 3 [
       Overload [ValueM QTGUI_QKEYSEQUENCE] [PConv QKeySequence, PInt, PBool] None,
       Overload [TypeM ''QTGUI_QSHORTCUT'', ValueM QTGUI_QKEYSEQUENCE] [PConv QKeySequence, PNonNull ''QShortcut*'', PBool] None]]"

definition vctor_qtgui_10_1 :: "ctor_block list" where
  "vctor_qtgui_10_1 = [
     CtorBlock ''QShowEvent'' 0 [
       Overload [] [] None],
     CtorBlock QStandardItem 0 [
       Overload [] [] None],
     CtorBlock QStandardItem 1 [
       Overload [] [PString False] None,
       Overload [] [PInt] None],
     CtorBlock QStandardItem 2 [
       Overload [ValueM QTGUI_QICON] [PConv QIcon, PString False] None,
       Overload [] [PInt, PInt] None]]"

definition vctor_qtgui_10_2 :: "ctor_block list" where
  "vctor_qtgui_10_2 = [
     CtorBlock QStaticText 0 [
       Overload [] [] None],
     CtorBlock QStaticText 1 [
       Overload [] [PString False] None,
       Overload [ValueM ''QTGUI_QSTATICTEXT''] [PConv QStaticText] None],
     CtorBlock ''QStatusTipEvent'' 1 [
       Overload [] [PString False] None],
     CtorBlock QSurfaceFormat 0 [
       Overload [] [] None]]"

definition vctor_qtgui_10_3 :: "ctor_block list" where
  "vctor_qtgui_10_3 = [
     CtorBlock QSurfaceFormat 1 [
       Overload [TypeM QTGUI_QSURFACEFORMAT] [PConv ''QSurfaceFormat::FormatOptions''] None,
       Overload [ValueM QTGUI_QSURFACEFORMAT] [PConv QSurfaceFormat] None],
     CtorBlock ''QTabletEvent'' 13 [
       Overload [EnumM QT_KEYBOARDMODIFIERS, EnumM QT_MOUSEBUTTON, EnumM QT_MOUSEBUTTONS, TypeM QTCORE_QEVENT, TypeM QTGUI_QPOINTINGDEVICE, ValueM QTCORE_QPOINTF] [PConv QEvent_Type, PNonNull ''QPointingDevice*'', PConv QPointF, PConv QPointF, PReal ''qreal'', PReal ''float'', PReal ''float'', PReal ''float'', PReal ''qreal'', PReal ''float'', PConv Qt_KeyboardModifiers, PConv ''Qt::MouseButton'', PConv Qt_MouseButtons] None],
     CtorBlock QTextBlock 0 [
       Overload [] [] None],
     CtorBlock QTextBlock 1 [
       Overload [ValueM QTGUI_QTEXTBLOCK] [PConv QTextBlock] None]]"

definition vctor_classes_qtgui_10 :: "class_entry list" where
  "vctor_classes_qtgui_10 = [
     ClassEntry ''QShortcutEvent'' [TypeM ''QTGUI_QSHORTCUT'', ValueM QTGUI_QKEYSEQUENCE] [''QKeySequence, int, bool'', ''QKeySequence, QShortcut*, bool''],
     ClassEntry ''QShowEvent'' [] [''''],
     ClassEntry QStandardItem [ValueM QTGUI_QICON] ['''', QString, ''QIcon, QString'', ''int, int''],
     ClassEntry QStaticText [ValueM ''QTGUI_QSTATICTEXT''] ['''', QString, QStaticText],
     ClassEntry ''QStatusTipEvent'' [] [QString],
     ClassEntry QSurfaceFormat [TypeM QTGUI_QSURFACEFORMAT, ValueM QTGUI_QSURFACEFORMAT] ['''', ''QSurfaceFormat::FormatOptions'', QSurfaceFormat],
     ClassEntry ''QTabletEvent'' [EnumM QT_KEYBOARDMODIFIERS, EnumM QT_MOUSEBUTTON, EnumM QT_MOUSEBUTTONS, TypeM QTCORE_QEVENT, TypeM QTGUI_QPOINTINGDEVICE, ValueM QTCORE_QPOINTF] [''QEvent::Type, QPointingDevice*, QPointF, QPointF, qreal, float, float, float, qreal, float, Qt::KeyboardModifiers, Qt::MouseButton, Qt::MouseButtons''],
     ClassEntry QTextBlock [ValueM QTGUI_QTEXTBLOCK] ['''', QTextBlock]]"

definition vctor_qtgui_11_0 :: "ctor_block list" where
  "vctor_qtgui_11_0 = [
     CtorBlock QTextBlockFormat 0 [
       Overload [] [] None],
     CtorBlock QTextCharFormat 0 [
       Overload [] [] None],
     CtorBlock QTextCursor 0 [
       Overload [] [] None],
     CtorBlock QTextCursor 1 [
       Overload [TypeM QTGUI_QTEXTDOCUMENT] [PNonNull QTextDocument_ptr] None,
       Overload [TypeM ''QTGUI_QTEXTFRAME''] [PNonNull ''QTextFrame*''] None,
       Overload [ValueM QTGUI_QTEXTBLOCK] [PConv QTextBlock] None,
       Overload [ValueM QTGUI_QTEXTCURSOR] [PConv QTextCursor] None]]"

definition vctor_qtgui_11_1 :: "ctor_block list" where
  "vctor_qtgui_11_1 = [
     CtorBlock QTextDocumentFragment 0 [
       Overload [] [] None],
     CtorBlock QTextDocumentFragment 1 [
       Overload [TypeM QTGUI_QTEXTDOCUMENT] [PNonNull QTextDocument_ptr] None,
       Overload [ValueM QTGUI_QTEXTCURSOR] [PConv QTextCursor] None,
       Overload [ValueM ''QTGUI_QTEXTDOCUMENTFRAGMENT''] [PConv QTextDocumentFragment] None],
     CtorBlock QTextDocumentWriter 0 [
       Overload [] [] None],
     CtorBlock QTextDocumentWriter 1 [
       Overload [ValueM QTCORE_QBYTEARRAY] [PString False] None]]"

definition vctor_qtgui_11_2 :: "ctor_block list" where
  "vctor_qtgui_11_2 = [
     CtorBlock QTextDocumentWriter 2 [
       Overload [TypeM QTCORE_QIODEVICE, ValueM QTCORE_QBYTEARRAY] [PNonNull QIODevice_ptr, PConv QByteArray] None,
       Overload [ValueM QTCORE_QBYTEARRAY] [PString False, PConv QByteArray] None],
     CtorBlock QTextFormat 0 [
       Overload [] [] None],
     CtorBlock QTextFormat 1 [
       Overload [] [PInt] None,
       Overload [ValueM ''QTGUI_QTEXTFORMAT''] [PConv QTextFormat] None],
     CtorBlock ''QTextFragment'' 0 [
       Overload [] [] None]]"

definition vctor_qtgui_11_3 :: "ctor_block list" where
  "vctor_qtgui_11_3 = [
     CtorBlock ''QTextFragment'' 1 [
       Overload [ValueM ''QTGUI_QTEXTFRAGMENT''] [PConv ''QTextFragment''] None],
     CtorBlock QTextFrameFormat 0 [
       Overload [] [] None]]"

definition vctor_classes_qtgui_11 :: "class_entry list" where
  "vctor_classes_qtgui_11 = [
     ClassEntry QTextBlockFormat [] [''''],
     ClassEntry QTextCharFormat [] [''''],
     ClassEntry QTextCursor [TypeM QTGUI_QTEXTDOCUMENT, TypeM ''QTGUI_QTEXTFRAME'', ValueM QTGUI_QTEXTBLOCK, ValueM QTGUI_QTEXTCURSOR] ['''', QTextDocument_ptr, ''QTextFrame*'', QTextBlock, QTextCursor],
     ClassEntry QTextDocumentFragment [TypeM QTGUI_QTEXTDOCUMENT, ValueM QTGUI_QTEXTCURSOR, ValueM ''QTGUI_QTEXTDOCUMENTFRAGMENT''] ['''', QTextDocument_ptr, QTextCursor, QTextDocumentFragment],
     ClassEntry QTextDocumentWriter [TypeM QTCORE_QIODEVICE, ValueM QTCORE_QBYTEARRAY] ['''', ''QIODevice*, QByteArray'', ''QString, QByteArray''],
     ClassEntry QTextFormat [ValueM ''QTGUI_QTEXTFORMAT''] ['''', ''int'', QTextFormat],
     ClassEntry ''QTextFragment'' [ValueM ''QTGUI_QTEXTFRAGMENT''] ['''', ''QTextFragment''],
     ClassEntry QTextFrameFormat [] ['''']]"

definition vctor_qtgui_12_0 :: "ctor_block list" where
  "vctor_qtgui_12_0 = [
     CtorBlock QTextImageFormat 0 [
       Overload [] [] None],
     CtorBlock QTextLayout 0 [
       Overload [] [] None],
     CtorBlock QTextLayout 1 [
       Overload [] [PString False] None,
       Overload [ValueM QTGUI_QTEXTBLOCK] [PConv QTextBlock] None],
     CtorBlock ''QTextLength'' 0 [
       Overload [] [] None],
     CtorBlock ''QTextLength'' 2 [
       Overload [TypeM ''QTGUI_QTEXTLENGTH''] [PConv ''QTextLength::Type'', PReal ''qreal''] None]]"

definition vctor_qtgui_12_1 :: "ctor_block list" where
  "vctor_qtgui_12_1 = [
     CtorBlock QTextLine 0 [
       Overload [] [] None],
     CtorBlock QTextListFormat 0 [
       Overload [] [] None],
     CtorBlock QTextOption 0 [
       Overload [] [] None],
     CtorBlock QTextOption 1 [
       Overload [EnumM ''QT_ALIGNMENT''] [PConv ''Qt::Alignment''] None,
       Overload [ValueM QTGUI_QTEXTOPTION] [PConv QTextOption] None],
     CtorBlock QTextTableCell 0 [
       Overload [] [] None]]"

definition vctor_qtgui_12_2 :: "ctor_block list" where
  "vctor_qtgui_12_2 = [
     CtorBlock QTextTableCell 1 [
       Overload [ValueM ''QTGUI_QTEXTTABLECELL''] [PConv QTextTableCell] None],
     CtorBlock QTextTableCellFormat 0 [
       Overload [] [] None]]"

definition vctor_classes_qtgui_12 :: "class_entry list" where
  "vctor_classes_qtgui_12 = [
     ClassEntry QTextImageFormat [] [''''],
     ClassEntry QTextLayout [ValueM QTGUI_QTEXTBLOCK] ['''', QString, QTextBlock],
     ClassEntry ''QTextLength'' [TypeM ''QTGUI_QTEXTLENGTH''] ['''', ''QTextLength::Type, qreal''],
     ClassEntry QTextLine [] [''''],
     ClassEntry QTextListFormat [] [''''],
     ClassEntry QTextOption [EnumM ''QT_ALIGNMENT'', ValueM QTGUI_QTEXTOPTION] ['''', ''Qt::Alignment'', QTextOption],
     ClassEntry QTextTableCell [ValueM ''QTGUI_QTEXTTABLECELL''] ['''', QTextTableCell],
     ClassEntry QTextTableCellFormat [] ['''']]"

definition vctor_qtgui_13_0 :: "ctor_block list" where
  "vctor_qtgui_13_0 = [
     CtorBlock QTextTableFormat 0 [
       Overload [] [] None],
     CtorBlock ''QTouchEvent'' 1 [
       Overload [EnumM QT_KEYBOARDMODIFIERS, TypeM QTCORE_QEVENT, TypeM QTGUI_QPOINTINGDEVICE, ValueM ''QTGUI_QEVENTPOINT''] [PConv QEvent_Type] None],
     CtorBlock ''QTouchEvent'' 2 [
       Overload [EnumM QT_KEYBOARDMODIFIERS, TypeM QTCORE_QEVENT, TypeM QTGUI_QPOINTINGDEVICE, ValueM ''QTGUI_QEVENTPOINT''] [PConv QEvent_Type, PNonNull ''QPointingDevice*''] None],
     CtorBlock ''QTouchEvent'' 3 [
       Overload [EnumM QT_KEYBOARDMODIFIERS, TypeM QTCORE_QEVENT, TypeM QTGUI_QPOINTINGDEVICE, ValueM ''QTGUI_QEVENTPOINT''] [PConv QEvent_Type, PNonNull ''QPointingDevice*'', PConv Qt_KeyboardModifiers] None],
     CtorBlock ''QTouchEvent'' 4 [
       Overload [EnumM QT_KEYBOARDMODIFIERS, TypeM QTCORE_QEVENT, TypeM QTGUI_QPOINTINGDEVICE, ValueM ''QTGUI_QEVENTPOINT''] [PConv QEvent_Type, PNonNull ''QPointingDevice*'', PConv Qt_KeyboardModifiers, PListV QEventPoint] None]]"

definition vctor_qtgui_13_1 :: "ctor_block list" where
  "vctor_qtgui_13_1 = [
     CtorBlock QTransform 0 [
       Overload [] [] None],
     CtorBlock QTransform 1 [
       Overload [ValueM QTGUI_QTRANSFORM] [PConv QTransform] None],
     CtorBlock QTransform 6 [
       Overload [] [PReal ''qreal'', PReal ''qreal'', PReal ''qreal'', PReal ''qreal'', PReal ''qreal'', PReal ''qreal''] None],
     CtorBlock QTransform 9 [
       Overload [] [PReal ''qreal'', PReal ''qreal'', PReal ''qreal'', PReal ''qreal'', PReal ''qreal'', PReal ''qreal'', PReal ''qreal'', PReal ''qreal'', PReal ''qreal''] None],
     CtorBlock QVector2D 0 [
       Overload [] [] None]]"

definition vctor_qtgui_13_2 :: "ctor_block list" where
  "vctor_qtgui_13_2 = [
     CtorBlock QVector2D 1 [
       Overload [ValueM QTCORE_QPOINT] [PConv QPoint] None,
       Overload [ValueM QTCORE_QPOINTF] [PConv QPointF] None,
       Overload [ValueM QTGUI_QVECTOR3D] [PConv QVector3D] None,
       Overload [ValueM QTGUI_QVECTOR4D] [PConv QVector4D] None],
     CtorBlock QVector2D 2 [
       Overload [] [PReal ''float'', PReal ''float''] None],
     CtorBlock QVector3D 0 [
       Overload [] [] None]]"

definition vctor_qtgui_13_3 :: "ctor_block list" where
  "vctor_qtgui_13_3 = [
     CtorBlock QVector3D 1 [
       Overload [ValueM QTCORE_QPOINT] [PConv QPoint] None,
       Overload [ValueM QTCORE_QPOINTF] [PConv QPointF] None,
       Overload [ValueM QTGUI_QVECTOR2D] [PConv QVector2D] None,
       Overload [ValueM QTGUI_QVECTOR4D] [PConv QVector4D] None],
     CtorBlock QVector3D 2 [
       Overload [ValueM QTGUI_QVECTOR2D] [PConv QVector2D, PReal ''float''] None],
     CtorBlock QVector3D 3 [
       Overload [] [PReal ''float'', PReal ''float'', PReal ''float''] None]]"

definition vctor_qtgui_13_4 :: "ctor_block list" where
  "vctor_qtgui_13_4 = [
     CtorBlock QVector4D 0 [
       Overload [] [] None],
     CtorBlock QVector4D 1 [
       Overload [ValueM QTCORE_QPOINT] [PConv QPoint] None,
       Overload [ValueM QTCORE_QPOINTF] [PConv QPointF] None,
       Overload [ValueM QTGUI_QVECTOR2D] [PConv QVector2D] None,
       Overload [ValueM QTGUI_QVECTOR3D] [PConv QVector3D] None],
     CtorBlock QVector4D 2 [
       Overload [ValueM QTGUI_QVECTOR3D] [PConv QVector3D, PReal ''float''] None]]"

definition vctor_qtgui_13_5 :: "ctor_block list" where
  "vctor_qtgui_13_5 = [
     CtorBlock QVector4D 3 [
       Overload [ValueM QTGUI_QVECTOR2D] [PConv QVector2D, PReal ''float'', PReal ''float''] None],
     CtorBlock QVector4D 4 [
       Overload [] [PReal ''float'', PReal ''float'', PReal ''float'', PReal ''float''] None],
     CtorBlock ''QWhatsThisClickedEvent'' 1 [
       Overload [] [PString False] None],
     CtorBlock ''QWheelEvent'' 8 [
       Overload [EnumM QT_KEYBOARDMODIFIERS, EnumM QT_MOUSEBUTTONS, EnumM ''QT_MOUSEEVENTSOURCE'', EnumM ''QT_SCROLLPHASE'', TypeM QTGUI_QPOINTINGDEVICE, ValueM QTCORE_QPOINT, ValueM QTCORE_QPOINTF] [PConv QPointF, PConv QPointF, PConv QPoint, PConv QPoint, PConv Qt_MouseButtons, PConv Qt_KeyboardModifiers, PConv ''Qt::ScrollPhase'', PBool] None]]"

definition vctor_qtgui_13_6 :: "ctor_block list" where
  "vctor_qtgui_13_6 = [
     CtorBlock ''QWheelEvent'' 9 [
       Overload [EnumM QT_KEYBOARDMODIFIERS, EnumM QT_MOUSEBUTTONS, EnumM ''QT_MOUSEEVENTSOURCE'', EnumM ''QT_SCROLLPHASE'', TypeM QTGUI_QPOINTINGDEVICE, ValueM QTCORE_QPOINT, ValueM QTCORE_QPOINTF] [PConv QPointF, PConv QPointF, PConv QPoint, PConv QPoint, PConv Qt_MouseButtons, PConv Qt_KeyboardModifiers, PConv ''Qt::ScrollPhase'', PBool, PConv ''Qt::MouseEventSource''] None],
     CtorBlock ''QWheelEvent'' 10 [
       Overload [EnumM QT_KEYBOARDMODIFIERS, EnumM QT_MOUSEBUTTONS, EnumM ''QT_MOUSEEVENTSOURCE'', EnumM ''QT_SCROLLPHASE'', TypeM QTGUI_QPOINTINGDEVICE, ValueM QTCORE_QPOINT, ValueM QTCORE_QPOINTF] [PConv QPointF, PConv QPointF, PConv QPoint, PConv QPoint, PConv Qt_MouseButtons, PConv Qt_KeyboardModifiers, PConv ''Qt::ScrollPhase'', PBool, PConv ''Qt::MouseEventSource'', PNonNull ''QPointingDevice*''] None]]"

definition vctor_classes_qtgui_13 :: "class_entry list" where
  "vctor_classes_qtgui_13 = [
     ClassEntry QTextTableFormat [] [''''],
     ClassEntry ''QTouchEvent'' [EnumM QT_KEYBOARDMODIFIERS, TypeM QTCORE_QEVENT, TypeM QTGUI_QPOINTINGDEVICE, ValueM ''QTGUI_QEVENTPOINT''] [''QEvent::Type, QPointingDevice*, Qt::KeyboardModifiers, QList<QEventPoint>''],
     ClassEntry QTransform [ValueM QTGUI_QTRANSFORM] ['''', ''qreal, qreal, qreal, qreal, qreal, qreal, qreal, qreal, qreal'', ''qreal, qreal, qreal, qreal, qreal, qreal'', QTransform],
     ClassEntry QVector2D [ValueM QTCORE_QPOINT, ValueM QTCORE_QPOINTF, ValueM QTGUI_QVECTOR3D, ValueM QTGUI_QVECTOR4D] ['''', ''float, float'', QPoint, QPointF, QVector3D, QVector4D],
     ClassEntry QVector3D [ValueM QTCORE_QPOINT, ValueM QTCORE_QPOINTF, ValueM QTGUI_QVECTOR2D, ValueM QTGUI_QVECTOR4D] ['''', ''float, float, float'', QPoint, QPointF, ''QVector2D, float'', QVector2D, QVector4D],
     ClassEntry QVector4D [ValueM QTCORE_QPOINT, ValueM QTCORE_QPOINTF, ValueM QTGUI_QVECTOR2D, ValueM QTGUI_QVECTOR3D] ['''', ''float, float, float, float'', QPoint, QPointF, QVector2D, ''QVector2D, float, float'', QVector3D, ''QVector3D, float''],
     ClassEntry ''QWhatsThisClickedEvent'' [] [QString],
     ClassEntry ''QWheelEvent'' [EnumM QT_KEYBOARDMODIFIERS, EnumM QT_MOUSEBUTTONS, EnumM ''QT_MOUSEEVENTSOURCE'', EnumM ''QT_SCROLLPHASE'', TypeM QTGUI_QPOINTINGDEVICE, ValueM QTCORE_QPOINT, ValueM QTCORE_QPOINTF] [''QPointF, QPointF, QPoint, QPoint, Qt::MouseButtons, Qt::KeyboardModifiers, Qt::ScrollPhase, bool, Qt::MouseEventSource, QPointingDevice*'']]"

definition vctor_qtgui_2_0 :: "ctor_block list" where
  "vctor_qtgui_2_0 = [
     CtorBlock ''QDropEvent'' 5 [
       Overload [EnumM QT_DROPACTIONS, EnumM QT_KEYBOARDMODIFIERS, EnumM QT_MOUSEBUTTONS, TypeM QTCORE_QEVENT, TypeM QTCORE_QMIMEDATA, ValueM QTCORE_QPOINTF] [PConv QPointF, PConv Qt_DropActions, PNonNull ''QMimeData*'', PConv Qt_MouseButtons, PConv Qt_KeyboardModifiers] None],
     CtorBlock ''QDropEvent'' 6 [
       Overload [EnumM QT_DROPACTIONS, EnumM QT_KEYBOARDMODIFIERS, EnumM QT_MOUSEBUTTONS, TypeM QTCORE_QEVENT, TypeM QTCORE_QMIMEDATA, ValueM QTCORE_QPOINTF] [PConv QPointF, PConv Qt_DropActions, PNonNull ''QMimeData*'', PConv Qt_MouseButtons, PConv Qt_KeyboardModifiers, PConv QEvent_Type] None],
     CtorBlock ''QEnterEvent'' 3 [
       Overload [TypeM QTGUI_QPOINTINGDEVICE, ValueM QTCORE_QPOINTF] [PConv QPointF, PConv QPointF, PConv QPointF] None],
     CtorBlock ''QEnterEvent'' 4 [
       Overload [TypeM QTGUI_QPOINTINGDEVICE, ValueM QTCORE_QPOINTF] [PConv QPointF, PConv QPointF, PConv QPointF, PNonNull ''QPointingDevice*''] None]]"

definition vctor_qtgui_2_1 :: "ctor_block list" where
  "vctor_qtgui_2_1 = [
     CtorBlock QEventPoint 1 [
       Overload [ValueM ''QTGUI_QEVENTPOINT''] [PConv QEventPoint] None],
     CtorBlock QEventPoint 4 [
       Overload [TypeM ''QTGUI_QEVENTPOINT'', ValueM QTCORE_QPOINTF] [PInt, PConv ''QEventPoint::State'', PConv QPointF, PConv QPointF] None],
     CtorBlock ''QExposeEvent'' 1 [
       Overload [ValueM QTGUI_QREGION] [PConv QRegion] None],
     CtorBlock ''QFocusEvent'' 1 [
       Overload [EnumM ''QT_FOCUSREASON'', TypeM QTCORE_QEVENT] [PConv QEvent_Type] None],
     CtorBlock ''QFocusEvent'' 2 [
       Overload [EnumM ''QT_FOCUSREASON'', TypeM QTCORE_QEVENT] [PConv QEvent_Type, PConv ''Qt::FocusReason''] None]]"

definition vctor_qtgui_2_2 :: "ctor_block list" where
  "vctor_qtgui_2_2 = [
     CtorBlock QFont 0 [
       Overload [] [] None],
     CtorBlock QFont 1 [
       Overload [] [PStringList] None,
       Overload [] [PString False] None,
       Overload [ValueM QTGUI_QFONT] [PConv QFont] None],
     CtorBlock QFont 2 [
       Overload [] [PStringList, PInt] None,
       Overload [] [PString False, PInt] None]]"

definition vctor_qtgui_2_3 :: "ctor_block list" where
  "vctor_qtgui_2_3 = [
     CtorBlock QFont 3 [
       Overload [] [PStringList, PInt, PInt] None,
       Overload [] [PString False, PInt, PInt] None],
     CtorBlock QFont 4 [
       Overload [] [PStringList, PInt, PInt, PBool] None,
       Overload [] [PString False, PInt, PInt, PBool] None]]"

definition vctor_qtgui_2_4 :: "ctor_block list" where
  "vctor_qtgui_2_4 = [
     CtorBlock ''QFontInfo'' 1 [
       Overload [ValueM QTGUI_QFONT] [PConv QFont] None,
       Overload [ValueM ''QTGUI_QFONTINFO''] [PConv ''QFontInfo''] None],
     CtorBlock QFontMetrics 1 [
       Overload [ValueM QTGUI_QFONT] [PConv QFont] None,
       Overload [ValueM ''QTGUI_QFONTMETRICS''] [PConv QFontMetrics] None]]"

definition vctor_classes_qtgui_2 :: "class_entry list" where
  "vctor_classes_qtgui_2 = [
     ClassEntry ''QDropEvent'' [EnumM QT_DROPACTIONS, EnumM QT_KEYBOARDMODIFIERS, EnumM QT_MOUSEBUTTONS, TypeM QTCORE_QEVENT, TypeM QTCORE_QMIMEDATA, ValueM QTCORE_QPOINTF] [''QPointF, Qt::DropActions, QMimeData*, Qt::MouseButtons, Qt::KeyboardModifiers, QEvent::Type''],
     ClassEntry ''QEnterEvent'' [TypeM QTGUI_QPOINTINGDEVICE, ValueM QTCORE_QPOINTF] [''QPointF, QPointF, QPointF, QPointingDevice*''],
     ClassEntry QEventPoint [TypeM ''QTGUI_QEVENTPOINT'', ValueM QTCORE_QPOINTF, ValueM ''QTGUI_QEVENTPOINT''] [''int, QEventPoint::State, QPointF, QPointF'', QEventPoint],
     ClassEntry ''QExposeEvent'' [ValueM QTGUI_QREGION] [QRegion],
     ClassEntry ''QFocusEvent'' [EnumM ''QT_FOCUSREASON'', TypeM QTCORE_QEVENT] [''QEvent::Type, Qt::FocusReason''],
     ClassEntry QFont [ValueM QTGUI_QFONT] ['''', ''QStringList, int, int, bool'', ''QString, int, int, bool'', QFont],
     ClassEntry ''QFontInfo'' [ValueM QTGUI_QFONT, ValueM ''QTGUI_QFONTINFO''] [QFont, ''QFontInfo''],
     ClassEntry QFontMetrics [ValueM QTGUI_QFONT, ValueM ''QTGUI_QFONTMETRICS''] [QFont, QFontMetrics]]"

definition vctor_qtgui_3_0 :: "ctor_block list" where
  "vctor_qtgui_3_0 = [
     CtorBlock QFontMetricsF 1 [
       Overload [ValueM QTGUI_QFONT] [PConv QFont] None,
       Overload [ValueM ''QTGUI_QFONTMETRICS''] [PConv QFontMetrics] None,
       Overload [ValueM ''QTGUI_QFONTMETRICSF''] [PConv QFontMetricsF] None],
     CtorBlock QFontVariableAxis 0 [
       Overload [] [] None],
     CtorBlock QFontVariableAxis 1 [
       Overload [ValueM ''QTGUI_QFONTVARIABLEAXIS''] [PConv QFontVariableAxis] None],
     CtorBlock QGlyphRun 0 [
       Overload [] [] None]]"

definition vctor_qtgui_3_1 :: "ctor_block list" where
  "vctor_qtgui_3_1 = [
     CtorBlock QGlyphRun 1 [
       Overload [ValueM ''QTGUI_QGLYPHRUN''] [PConv QGlyphRun] None],
     CtorBlock ''QGradient'' 0 [
       Overload [] [] None],
     CtorBlock ''QGradient'' 1 [
       Overload [TypeM ''QTGUI_QGRADIENT''] [PConv ''QGradient::Preset''] None],
     CtorBlock ''QHelpEvent'' 3 [
       Overload [TypeM QTCORE_QEVENT, ValueM QTCORE_QPOINT] [PConv QEvent_Type, PConv QPoint, PConv QPoint] None],
     CtorBlock ''QHideEvent'' 0 [
       Overload [] [] None]]"

definition vctor_qtgui_3_2 :: "ctor_block list" where
  "vctor_qtgui_3_2 = [
     CtorBlock ''QHoverEvent'' 3 [
       Overload [EnumM QT_KEYBOARDMODIFIERS, TypeM QTCORE_QEVENT, TypeM QTGUI_QPOINTINGDEVICE, ValueM QTCORE_QPOINTF] [PConv QEvent_Type, PConv QPointF, PConv QPointF] None],
     CtorBlock ''QHoverEvent'' 4 [
       Overload [EnumM QT_KEYBOARDMODIFIERS, TypeM QTCORE_QEVENT, TypeM QTGUI_QPOINTINGDEVICE, ValueM QTCORE_QPOINTF] [PConv QEvent_Type, PConv QPointF, PConv QPointF, PConv QPointF] None,
       Overload [EnumM QT_KEYBOARDMODIFIERS, TypeM QTCORE_QEVENT, TypeM QTGUI_QPOINTINGDEVICE, ValueM QTCORE_QPOINTF] [PConv QEvent_Type, PConv QPointF, PConv QPointF, PConv Qt_KeyboardModifiers] None]]"

definition vctor_qtgui_3_3 :: "ctor_block list" where
  "vctor_qtgui_3_3 = [
     CtorBlock ''QHoverEvent'' 5 [
       Overload [EnumM QT_KEYBOARDMODIFIERS, TypeM QTCORE_QEVENT, TypeM QTGUI_QPOINTINGDEVICE, ValueM QTCORE_QPOINTF] [PConv QEvent_Type, PConv QPointF, PConv QPointF, PConv QPointF, PConv Qt_KeyboardModifiers] None,
       Overload [EnumM QT_KEYBOARDMODIFIERS, TypeM QTCORE_QEVENT, TypeM QTGUI_QPOINTINGDEVICE, ValueM QTCORE_QPOINTF] [PConv QEvent_Type, PConv QPointF, PConv QPointF, PConv Qt_KeyboardModifiers, PNonNull ''QPointingDevice*''] None],
     CtorBlock ''QHoverEvent'' 6 [
       Overload [EnumM QT_KEYBOARDMODIFIERS, TypeM QTCORE_QEVENT, TypeM QTGUI_QPOINTINGDEVICE, ValueM QTCORE_QPOINTF] [PConv QEvent_Type, PConv QPointF, PConv QPointF, PConv QPointF, PConv Qt_KeyboardModifiers, PNonNull ''QPointingDevice*''] None],
     CtorBlock QIcon 0 [
       Overload [] [] None]]"

definition vctor_qtgui_3_4 :: "ctor_block list" where
  "vctor_qtgui_3_4 = [
     CtorBlock QIcon 1 [
       Overload [ValueM QTGUI_QPIXMAP] [PConv QPixmap] None,
       Overload [ValueM QTGUI_QICON] [PConv QIcon] None,
       Overload [] [PString False] None]]"

definition vctor_classes_qtgui_3 :: "class_entry list" where
  "vctor_classes_qtgui_3 = [
     ClassEntry QFontMetricsF [ValueM QTGUI_QFONT, ValueM ''QTGUI_QFONTMETRICS'', ValueM ''QTGUI_QFONTMETRICSF''] [QFont, QFontMetrics, QFontMetricsF],
     ClassEntry QFontVariableAxis [ValueM ''QTGUI_QFONTVARIABLEAXIS''] ['''', QFontVariableAxis],
     ClassEntry QGlyphRun [ValueM ''QTGUI_QGLYPHRUN''] ['''', QGlyphRun],
     ClassEntry ''QGradient'' [TypeM ''QTGUI_QGRADIENT''] ['''', ''QGradient::Preset''],
     ClassEntry ''QHelpEvent'' [TypeM QTCORE_QEVENT, ValueM QTCORE_QPOINT] [''QEvent::Type, QPoint, QPoint''],
     ClassEntry ''QHideEvent'' [] [''''],
     ClassEntry ''QHoverEvent'' [EnumM QT_KEYBOARDMODIFIERS, TypeM QTCORE_QEVENT, TypeM QTGUI_QPOINTINGDEVICE, ValueM QTCORE_QPOINTF] [''QEvent::Type, QPointF, QPointF, QPointF, Qt::KeyboardModifiers, QPointingDevice*'', ''QEvent::Type, QPointF, QPointF, Qt::KeyboardModifiers, QPointingDevice*''],
     ClassEntry QIcon [ValueM QTGUI_QICON, ValueM QTGUI_QPIXMAP] ['''', QPixmap, QIcon, QString]]"

definition vctor_qtgui_4_0 :: "ctor_block list" where
  "vctor_qtgui_4_0 = [
     CtorBlock ''QIconDragEvent'' 0 [
       Overload [] [] None],
     CtorBlock ''QIconEngine'' 0 [
       Overload [] [] None],
     CtorBlock QImage 0 [
       Overload [] [] None],
     CtorBlock QImage 1 [
       Overload [ValueM QTGUI_QIMAGE] [PConv QImage] None],
     CtorBlock QImage 2 [
       Overload [TypeM QTGUI_QIMAGE, ValueM QTCORE_QSIZE] [PConv QSize, PConv ''QImage::Format''] None],
     CtorBlock QImage 3 [
       Overload [TypeM QTGUI_QIMAGE] [PInt, PInt, PConv ''QImage::Format''] None]]"

definition vctor_qtgui_4_1 :: "ctor_block list" where
  "vctor_qtgui_4_1 = [
     CtorBlock QImageIOHandler 0 [
       Overload [] [] None],
     CtorBlock QImageReader 0 [
       Overload [] [] None],
     CtorBlock QImageReader 1 [
       Overload [TypeM QTCORE_QIODEVICE, ValueM QTCORE_QBYTEARRAY] [PNonNull QIODevice_ptr] None,
       Overload [ValueM QTCORE_QBYTEARRAY] [PString False] None],
     CtorBlock QImageReader 2 [
       Overload [TypeM QTCORE_QIODEVICE, ValueM QTCORE_QBYTEARRAY] [PNonNull QIODevice_ptr, PConv QByteArray] None,
       Overload [ValueM QTCORE_QBYTEARRAY] [PString False, PConv QByteArray] None]]"

definition vctor_qtgui_4_2 :: "ctor_block list" where
  "vctor_qtgui_4_2 = [
     CtorBlock QImageWriter 0 [
       Overload [] [] None],
     CtorBlock QImageWriter 1 [
       Overload [ValueM QTCORE_QBYTEARRAY] [PString False] None],
     CtorBlock QImageWriter 2 [
       Overload [TypeM QTCORE_QIODEVICE, ValueM QTCORE_QBYTEARRAY] [PNonNull QIODevice_ptr, PConv QByteArray] None,
       Overload [ValueM QTCORE_QBYTEARRAY] [PString False, PConv QByteArray] None],
     CtorBlock ''QInputMethodEvent'' 0 [
       Overload [] [] None],
     CtorBlock ''QInputMethodEvent'' 2 [
       Overload [TypeM ''QTGUI_QINPUTMETHODEVENT''] [PString False, PListV ''QInputMethodEvent::Attribute''] None]]"

definition vctor_qtgui_4_3 :: "ctor_block list" where
  "vctor_qtgui_4_3 = [
     CtorBlock ''QInputMethodQueryEvent'' 1 [
       Overload [EnumM ''QT_INPUTMETHODQUERIES''] [PConv ''Qt::InputMethodQueries''] None]]"

definition vctor_classes_qtgui_4 :: "class_entry list" where
  "vctor_classes_qtgui_4 = [
     ClassEntry ''QIconDragEvent'' [] [''''],
     ClassEntry ''QIconEngine'' [] [''''],
     ClassEntry QImage [TypeM QTGUI_QIMAGE, ValueM QTCORE_QSIZE, ValueM QTGUI_QIMAGE] ['''', ''QSize, QImage::Format'', ''int, int, QImage::Format'', QImage],
     ClassEntry QImageIOHandler [] [''''],
     ClassEntry QImageReader [TypeM QTCORE_QIODEVICE, ValueM QTCORE_QBYTEARRAY] ['''', ''QIODevice*, QByteArray'', ''QString, QByteArray''],
     ClassEntry QImageWriter [TypeM QTCORE_QIODEVICE, ValueM QTCORE_QBYTEARRAY] ['''', ''QIODevice*, QByteArray'', ''QString, QByteArray''],
     ClassEntry ''QInputMethodEvent'' [TypeM ''QTGUI_QINPUTMETHODEVENT''] ['''', ''QString, QList<QInputMethodEvent::Attribute>''],
     ClassEntry ''QInputMethodQueryEvent'' [EnumM ''QT_INPUTMETHODQUERIES''] [''Qt::InputMethodQueries'']]"

definition vctor_qtgui_5_0 :: "ctor_block list" where
  "vctor_qtgui_5_0 = [
     CtorBlock QKeySequence 0 [
       Overload [] [] None],
     CtorBlock QKeySequence 1 [
       Overload [ValueM QTGUI_QKEYSEQUENCE] [PConv QKeySequence] None,
       Overload [TypeM QTGUI_QKEYSEQUENCE] [PConv ''QKeySequence::StandardKey''] None,
       Overload [TypeM QTGUI_QKEYSEQUENCE] [PString False] None,
       Overload [] [PInt] None,
       Overload [ValueM ''QTCORE_QKEYCOMBINATION''] [PConv QKeyCombination] None]]"

definition vctor_qtgui_5_1 :: "ctor_block list" where
  "vctor_qtgui_5_1 = [
     CtorBlock QKeySequence 2 [
       Overload [TypeM QTGUI_QKEYSEQUENCE] [PString False, PConv ''QKeySequence::SequenceFormat''] None,
       Overload [] [PInt, PInt] None,
       Overload [ValueM ''QTCORE_QKEYCOMBINATION''] [PConv QKeyCombination, PConv QKeyCombination] None],
     CtorBlock QKeySequence 3 [
       Overload [] [PInt, PInt, PInt] None,
       Overload [ValueM ''QTCORE_QKEYCOMBINATION''] [PConv QKeyCombination, PConv QKeyCombination, PConv QKeyCombination] None]]"

definition vctor_qtgui_5_2 :: "ctor_block list" where
  "vctor_qtgui_5_2 = [
     CtorBlock QKeySequence 4 [
       Overload [] [PInt, PInt, PInt, PInt] None,
       Overload [ValueM ''QTCORE_QKEYCOMBINATION''] [PConv QKeyCombination, PConv QKeyCombination, PConv QKeyCombination, PConv QKeyCombination] None],
     CtorBlock QLinearGradient 0 [
       Overload [] [] None],
     CtorBlock QLinearGradient 2 [
       Overload [ValueM QTCORE_QPOINTF] [PConv QPointF, PConv QPointF] None],
     CtorBlock QLinearGradient 4 [
       Overload [] [PReal ''qreal'', PReal ''qreal'', PReal ''qreal'', PReal ''qreal''] None]]"

definition vctor_qtgui_5_3 :: "ctor_block list" where
  "vctor_qtgui_5_3 = [
     CtorBlock ''QMatrix2x2'' 0 [
       Overload [] [] None],
     CtorBlock ''QMatrix2x2'' 1 [
       Overload [ValueM ''QTGUI_QMATRIX2X2''] [PConv ''QMatrix2x2''] None],
     CtorBlock ''QMatrix2x3'' 0 [
       Overload [] [] None],
     CtorBlock ''QMatrix2x3'' 1 [
       Overload [ValueM ''QTGUI_QMATRIX2X3''] [PConv ''QMatrix2x3''] None],
     CtorBlock ''QMatrix2x4'' 0 [
       Overload [] [] None],
     CtorBlock ''QMatrix2x4'' 1 [
       Overload [ValueM ''QTGUI_QMATRIX2X4''] [PConv ''QMatrix2x4''] None]]"

definition vctor_qtgui_5_4 :: "ctor_block list" where
  "vctor_qtgui_5_4 = [
     CtorBlock ''QMatrix3x2'' 0 [
       Overload [] [] None],
     CtorBlock ''QMatrix3x2'' 1 [
       Overload [ValueM ''QTGUI_QMATRIX3X2''] [PConv ''QMatrix3x2''] None],
     CtorBlock ''QMatrix3x3'' 0 [
       Overload [] [] None],
     CtorBlock ''QMatrix3x3'' 1 [
       Overload [ValueM ''QTGUI_QMATRIX3X3''] [PConv ''QMatrix3x3''] None],
     CtorBlock ''QMatrix3x4'' 0 [
       Overload [] [] None],
     CtorBlock ''QMatrix3x4'' 1 [
       Overload [ValueM ''QTGUI_QMATRIX3X4''] [PConv ''QMatrix3x4''] None]]"

definition vctor_classes_qtgui_5 :: "class_entry list" where
  "vctor_classes_qtgui_5 = [
     ClassEntry QKeySequence [TypeM QTGUI_QKEYSEQUENCE, ValueM ''QTCORE_QKEYCOMBINATION'', ValueM QTGUI_QKEYSEQUENCE] ['''', QKeySequence, ''QKeySequence::StandardKey'', ''QString, QKeySequence::SequenceFormat'', ''int, int, int, int'', ''QKeyCombination, QKeyCombination, QKeyCombination, QKeyCombination''],
     ClassEntry QLinearGradient [ValueM QTCORE_QPOINTF] ['''', ''QPointF, QPointF'', ''qreal, qreal, qreal, qreal''],
     ClassEntry ''QMatrix2x2'' [ValueM ''QTGUI_QMATRIX2X2''] ['''', ''QMatrix2x2''],
     ClassEntry ''QMatrix2x3'' [ValueM ''QTGUI_QMATRIX2X3''] ['''', ''QMatrix2x3''],
     ClassEntry ''QMatrix2x4'' [ValueM ''QTGUI_QMATRIX2X4''] ['''', ''QMatrix2x4''],
     ClassEntry ''QMatrix3x2'' [ValueM ''QTGUI_QMATRIX3X2''] ['''', ''QMatrix3x2''],
     ClassEntry ''QMatrix3x3'' [ValueM ''QTGUI_QMATRIX3X3''] ['''', ''QMatrix3x3''],
     ClassEntry ''QMatrix3x4'' [ValueM ''QTGUI_QMATRIX3X4''] ['''', ''QMatrix3x4'']]"

definition vctor_qtgui_6_0 :: "ctor_block list" where
  "vctor_qtgui_6_0 = [
     CtorBlock ''QMatrix4x2'' 0 [
       Overload [] [] None],
     CtorBlock ''QMatrix4x2'' 1 [
       Overload [ValueM ''QTGUI_QMATRIX4X2''] [PConv ''QMatrix4x2''] None],
     CtorBlock ''QMatrix4x3'' 0 [
       Overload [] [] None],
     CtorBlock ''QMatrix4x3'' 1 [
       Overload [ValueM ''QTGUI_QMATRIX4X3''] [PConv ''QMatrix4x3''] None],
     CtorBlock QMatrix4x4 0 [
       Overload [] [] None],
     CtorBlock QMatrix4x4 1 [
       Overload [ValueM QTGUI_QTRANSFORM] [PConv QTransform] None]]"

definition vctor_qtgui_6_1 :: "ctor_block list" where
  "vctor_qtgui_6_1 = [
     CtorBlock QMatrix4x4 16 [
       Overload [] [PReal ''float'', PReal ''float'', PReal ''float'', PReal ''float'', PReal ''float'', PReal ''float'', PReal ''float'', PReal ''float'', PReal ''float'', PReal ''float'', PReal ''float'', PReal ''float'', PReal ''float'', PReal ''float'', PReal ''float'', PReal ''float''] None],
     CtorBlock ''QMouseEvent'' 5 [
       Overload [EnumM QT_KEYBOARDMODIFIERS, EnumM QT_MOUSEBUTTON, EnumM QT_MOUSEBUTTONS, TypeM QTCORE_QEVENT, TypeM QTGUI_QPOINTINGDEVICE, ValueM QTCORE_QPOINTF] [PConv QEvent_Type, PConv QPointF, PConv ''Qt::MouseButton'', PConv Qt_MouseButtons, PConv Qt_KeyboardModifiers] None]]"

definition vctor_qtgui_6_2 :: "ctor_block list" where
  "vctor_qtgui_6_2 = [
     CtorBlock ''QMouseEvent'' 6 [
       Overload [EnumM QT_KEYBOARDMODIFIERS, EnumM QT_MOUSEBUTTON, EnumM QT_MOUSEBUTTONS, TypeM QTCORE_QEVENT, TypeM QTGUI_QPOINTINGDEVICE, ValueM QTCORE_QPOINTF] [PConv QEvent_Type, PConv QPointF, PConv ''Qt::MouseButton'', PConv Qt_MouseButtons, PConv Qt_KeyboardModifiers, PNonNull ''QPointingDevice*''] None,
       Overload [EnumM QT_KEYBOARDMODIFIERS, EnumM QT_MOUSEBUTTON, EnumM QT_MOUSEBUTTONS, TypeM QTCORE_QEVENT, TypeM QTGUI_QPOINTINGDEVICE, ValueM QTCORE_QPOINTF] [PConv QEvent_Type, PConv QPointF, PConv QPointF, PConv ''Qt::MouseButton'', PConv Qt_MouseButtons, PConv Qt_KeyboardModifiers] None]]"

definition vctor_qtgui_6_3 :: "ctor_block list" where
  "vctor_qtgui_6_3 = [
     CtorBlock ''QMouseEvent'' 7 [
       Overload [EnumM QT_KEYBOARDMODIFIERS, EnumM QT_MOUSEBUTTON, EnumM QT_MOUSEBUTTONS, TypeM QTCORE_QEVENT, TypeM QTGUI_QPOINTINGDEVICE, ValueM QTCORE_QPOINTF] [PConv QEvent_Type, PConv QPointF, PConv QPointF, PConv ''Qt::MouseButton'', PConv Qt_MouseButtons, PConv Qt_KeyboardModifiers, PNonNull ''QPointingDevice*''] None,
       Overload [EnumM QT_KEYBOARDMODIFIERS, EnumM QT_MOUSEBUTTON, EnumM QT_MOUSEBUTTONS, TypeM QTCORE_QEVENT, TypeM QTGUI_QPOINTINGDEVICE, ValueM QTCORE_QPOINTF] [PConv QEvent_Type, PConv QPointF, PConv QPointF, PConv QPointF, PConv ''Qt::MouseButton'', PConv Qt_MouseButtons, PConv Qt_KeyboardModifiers] None],
     CtorBlock ''QMouseEvent'' 8 [
       Overload [EnumM QT_KEYBOARDMODIFIERS, EnumM QT_MOUSEBUTTON, EnumM QT_MOUSEBUTTONS, TypeM QTCORE_QEVENT, TypeM QTGUI_QPOINTINGDEVICE, ValueM QTCORE_QPOINTF] [PConv QEvent_Type, PConv QPointF, PConv QPointF, PConv QPointF, PConv ''Qt::MouseButton'', PConv Qt_MouseButtons, PConv Qt_KeyboardModifiers, PNonNull ''QPointingDevice*''] None]]"

definition vctor_qtgui_6_4 :: "ctor_block list" where
  "vctor_qtgui_6_4 = [
     CtorBlock ''QMoveEvent'' 2 [
       Overload [ValueM QTCORE_QPOINT] [PConv QPoint, PConv QPoint] None],
     CtorBlock ''QNativeGestureEvent'' 8 [
       Overload [EnumM ''QT_NATIVEGESTURETYPE'', TypeM QTGUI_QPOINTINGDEVICE, ValueM QTCORE_QPOINTF] [PConv ''Qt::NativeGestureType'', PNonNull ''QPointingDevice*'', PInt, PConv QPointF, PConv QPointF, PConv QPointF, PReal ''qreal'', PConv QPointF] None,
       Overload [EnumM ''QT_NATIVEGESTURETYPE'', TypeM QTGUI_QPOINTINGDEVICE, ValueM QTCORE_QPOINTF] [PConv ''Qt::NativeGestureType'', PNonNull ''QPointingDevice*'', PConv QPointF, PConv QPointF, PConv QPointF, PReal ''qreal'', PWide ''quint64'', PWide ''quint64''] None]]"

definition vctor_qtgui_6_5 :: "ctor_block list" where
  "vctor_qtgui_6_5 = [
     CtorBlock ''QNativeGestureEvent'' 9 [
       Overload [EnumM ''QT_NATIVEGESTURETYPE'', TypeM QTGUI_QPOINTINGDEVICE, ValueM QTCORE_QPOINTF] [PConv ''Qt::NativeGestureType'', PNonNull ''QPointingDevice*'', PInt, PConv QPointF, PConv QPointF, PConv QPointF, PReal ''qreal'', PConv QPointF, PWide ''quint64''] None],
     CtorBlock QPageLayout 0 [
       Overload [] [] None],
     CtorBlock QPageLayout 1 [
       Overload [ValueM QTGUI_QPAGELAYOUT] [PConv QPageLayout] None],
     CtorBlock QPageLayout 3 [
       Overload [TypeM QTGUI_QPAGELAYOUT, ValueM QTCORE_QMARGINSF, ValueM QTGUI_QPAGESIZE] [PConv QPageSize, PConv ''QPageLayout::Orientation'', PConv QMarginsF] None]]"

definition vctor_qtgui_6_6 :: "ctor_block list" where
  "vctor_qtgui_6_6 = [
     CtorBlock QPageLayout 4 [
       Overload [TypeM QTGUI_QPAGELAYOUT, ValueM QTCORE_QMARGINSF, ValueM QTGUI_QPAGESIZE] [PConv QPageSize, PConv ''QPageLayout::Orientation'', PConv QMarginsF, PConv ''QPageLayout::Unit''] None],
     CtorBlock QPageLayout 5 [
       Overload [TypeM QTGUI_QPAGELAYOUT, ValueM QTCORE_QMARGINSF, ValueM QTGUI_QPAGESIZE] [PConv QPageSize, PConv ''QPageLayout::Orientation'', PConv QMarginsF, PConv ''QPageLayout::Unit'', PConv QMarginsF] None],
     CtorBlock QPageRanges 0 [
       Overload [] [] None],
     CtorBlock QPageRanges 1 [
       Overload [ValueM ''QTGUI_QPAGERANGES''] [PConv QPageRanges] None]]"

definition vctor_classes_qtgui_6 :: "class_entry list" where
  "vctor_classes_qtgui_6 = [
     ClassEntry ''QMatrix4x2'' [ValueM ''QTGUI_QMATRIX4X2''] ['''', ''QMatrix4x2''],
     ClassEntry ''QMatrix4x3'' [ValueM ''QTGUI_QMATRIX4X3''] ['''', ''QMatrix4x3''],
     ClassEntry QMatrix4x4 [ValueM QTGUI_QTRANSFORM] ['''', ''float, float, float, float, float, float, float, float, float, float, float, float, float, float, float, float'', QTransform],
     ClassEntry ''QMouseEvent'' [EnumM QT_KEYBOARDMODIFIERS, EnumM QT_MOUSEBUTTON, EnumM QT_MOUSEBUTTONS, TypeM QTCORE_QEVENT, TypeM QTGUI_QPOINTINGDEVICE, ValueM QTCORE_QPOINTF] [''QEvent::Type, QPointF, Qt::MouseButton, Qt::MouseButtons, Qt::KeyboardModifiers, QPointingDevice*'', ''QEvent::Type, QPointF, QPointF, Qt::MouseButton, Qt::MouseButtons, Qt::KeyboardModifiers, QPointingDevice*'', ''QEvent::Type, QPointF, QPointF, QPointF, Qt::MouseButton, Qt::MouseButtons, Qt::KeyboardModifiers, QPointingDevice*''],
     ClassEntry ''QMoveEvent'' [ValueM QTCORE_QPOINT] [''QPoint, QPoint''],
     ClassEntry ''QNativeGestureEvent'' [EnumM ''QT_NATIVEGESTURETYPE'', TypeM QTGUI_QPOINTINGDEVICE, ValueM QTCORE_QPOINTF] [''Qt::NativeGestureType, QPointingDevice*, int, QPointF, QPointF, QPointF, qreal, QPointF, quint64'', ''Qt::NativeGestureType, QPointingDevice*, QPointF, QPointF, QPointF, qreal, quint64, quint64''],
     ClassEntry QPageLayout [TypeM QTGUI_QPAGELAYOUT, ValueM QTCORE_QMARGINSF, ValueM QTGUI_QPAGELAYOUT, ValueM QTGUI_QPAGESIZE] ['''', ''QPageSize, QPageLayout::Orientation, QMarginsF, QPageLayout::Unit, QMarginsF'', QPageLayout],
     ClassEntry QPageRanges [ValueM ''QTGUI_QPAGERANGES''] ['''', QPageRanges]]"

definition vctor_qtgui_7_0 :: "ctor_block list" where
  "vctor_qtgui_7_0 = [
     CtorBlock QPageSize 0 [
       Overload [] [] None],
     CtorBlock QPageSize 1 [
       Overload [TypeM QTGUI_QPAGESIZE] [PConv QPageSize_PageSizeId] None,
       Overload [TypeM QTGUI_QPAGESIZE, ValueM QTCORE_QSIZE] [PConv QSize] None,
       Overload [ValueM QTGUI_QPAGESIZE] [PConv QPageSize] None],
     CtorBlock QPageSize 2 [
       Overload [TypeM QTGUI_QPAGESIZE, ValueM QTCORE_QSIZE] [PConv QSize, PString False] None,
       Overload [TypeM QTGUI_QPAGESIZE, ValueM QTCORE_QSIZEF] [PConv QSizeF, PConv ''QPageSize::Unit''] None]]"

definition vctor_qtgui_7_1 :: "ctor_block list" where
  "vctor_qtgui_7_1 = [
     CtorBlock QPageSize 3 [
       Overload [TypeM QTGUI_QPAGESIZE, ValueM QTCORE_QSIZE] [PConv QSize, PString False, PConv ''QPageSize::SizeMatchPolicy''] None,
       Overload [TypeM QTGUI_QPAGESIZE, ValueM QTCORE_QSIZEF] [PConv QSizeF, PConv ''QPageSize::Unit'', PString False] None],
     CtorBlock QPageSize 4 [
       Overload [TypeM QTGUI_QPAGESIZE, ValueM QTCORE_QSIZEF] [PConv QSizeF, PConv ''QPageSize::Unit'', PString False, PConv ''QPageSize::SizeMatchPolicy''] None],
     CtorBlock ''QPaintEngine'' 0 [
       Overload [TypeM ''QTGUI_QPAINTENGINE''] [] None],
     CtorBlock ''QPaintEngine'' 1 [
       Overload [TypeM ''QTGUI_QPAINTENGINE''] [PConv ''QPaintEngine::PaintEngineFeatures''] None]]"

definition vctor_qtgui_7_2 :: "ctor_block list" where
  "vctor_qtgui_7_2 = [
     CtorBlock ''QPaintEvent'' 1 [
       Overload [ValueM QTGUI_QREGION] [PConv QRegion] None,
       Overload [ValueM QTCORE_QRECT] [PConv QRect] None],
     CtorBlock QPainter 0 [
       Overload [] [] None],
     CtorBlock QPainterPath 0 [
       Overload [] [] None],
     CtorBlock QPainterPath 1 [
       Overload [ValueM QTCORE_QPOINTF] [PConv QPointF] None,
       Overload [ValueM QTGUI_QPAINTERPATH] [PConv QPainterPath] None]]"

definition vctor_qtgui_7_3 :: "ctor_block list" where
  "vctor_qtgui_7_3 = [
     CtorBlock QPainterPathStroker 0 [
       Overload [] [] None],
     CtorBlock QPainterPathStroker 1 [
       Overload [ValueM QTGUI_QPEN] [PConv QPen] None],
     CtorBlock QPalette 0 [
       Overload [] [] None],
     CtorBlock QPalette 1 [
       Overload [ValueM QTGUI_QCOLOR] [PConv QColor] None,
       Overload [EnumM ''QT_GLOBALCOLOR''] [PConv ''Qt::GlobalColor''] None,
       Overload [ValueM QTGUI_QPALETTE] [PConv QPalette] None]]"

definition vctor_qtgui_7_4 :: "ctor_block list" where
  "vctor_qtgui_7_4 = [
     CtorBlock QPalette 2 [
       Overload [ValueM QTGUI_QCOLOR] [PConv QColor, PConv QColor] None],
     CtorBlock QPalette 9 [
       Overload [ValueM QTGUI_QBRUSH] [PConv QBrush, PConv QBrush, PConv QBrush, PConv QBrush, PConv QBrush, PConv QBrush, PConv QBrush, PConv QBrush, PConv QBrush] None],
     CtorBlock QPdfOutputIntent 0 [
       Overload [] [] None],
     CtorBlock QPdfOutputIntent 1 [
       Overload [ValueM ''QTGUI_QPDFOUTPUTINTENT''] [PConv QPdfOutputIntent] None]]"

definition vctor_classes_qtgui_7 :: "class_entry list" where
  "vctor_classes_qtgui_7 = [
     ClassEntry QPageSize [TypeM QTGUI_QPAGESIZE, ValueM QTCORE_QSIZE, ValueM QTCORE_QSIZEF, ValueM QTGUI_QPAGESIZE] ['''', QPageSize_PageSizeId, ''QSize, QString, QPageSize::SizeMatchPolicy'', ''QSizeF, QPageSize::Unit, QString, QPageSize::SizeMatchPolicy'', QPageSize],
     ClassEntry ''QPaintEngine'' [TypeM ''QTGUI_QPAINTENGINE''] [''QPaintEngine::PaintEngineFeatures''],
     ClassEntry ''QPaintEvent'' [ValueM QTCORE_QRECT, ValueM QTGUI_QREGION] [QRegion, QRect],
     ClassEntry QPainter [] [''''],
     ClassEntry QPainterPath [ValueM QTCORE_QPOINTF, ValueM QTGUI_QPAINTERPATH] ['''', QPointF, QPainterPath],
     ClassEntry QPainterPathStroker [ValueM QTGUI_QPEN] ['''', QPen],
     ClassEntry QPalette [EnumM ''QT_GLOBALCOLOR'', ValueM QTGUI_QBRUSH, ValueM QTGUI_QCOLOR, ValueM QTGUI_QPALETTE] ['''', QColor, ''Qt::GlobalColor'', ''QColor, QColor'', ''QBrush, QBrush, QBrush, QBrush, QBrush, QBrush, QBrush, QBrush, QBrush'', QPalette],
     ClassEntry QPdfOutputIntent [ValueM ''QTGUI_QPDFOUTPUTINTENT''] ['''', QPdfOutputIntent]]"

definition vctor_qtgui_8_0 :: "ctor_block list" where
  "vctor_qtgui_8_0 = [
     CtorBlock QPen 0 [
       Overload [] [] None],
     CtorBlock QPen 1 [
       Overload [EnumM ''QT_PENSTYLE''] [PConv ''Qt::PenStyle''] None,
       Overload [ValueM QTGUI_QPEN] [PConv QPen] None],
     CtorBlock QPen 2 [
       Overload [EnumM ''QT_PENCAPSTYLE'', EnumM ''QT_PENJOINSTYLE'', EnumM ''QT_PENSTYLE'', ValueM QTGUI_QBRUSH] [PConv QBrush, PReal ''qreal''] None],
     CtorBlock QPen 3 [
       Overload [EnumM ''QT_PENCAPSTYLE'', EnumM ''QT_PENJOINSTYLE'', EnumM ''QT_PENSTYLE'', ValueM QTGUI_QBRUSH] [PConv QBrush, PReal ''qreal'', PConv ''Qt::PenStyle''] None]]"

definition vctor_qtgui_8_1 :: "ctor_block list" where
  "vctor_qtgui_8_1 = [
     CtorBlock QPen 4 [
       Overload [EnumM ''QT_PENCAPSTYLE'', EnumM ''QT_PENJOINSTYLE'', EnumM ''QT_PENSTYLE'', ValueM QTGUI_QBRUSH] [PConv QBrush, PReal ''qreal'', PConv ''Qt::PenStyle'', PConv ''Qt::PenCapStyle''] None],
     CtorBlock QPen 5 [
       Overload [EnumM ''QT_PENCAPSTYLE'', EnumM ''QT_PENJOINSTYLE'', EnumM ''QT_PENSTYLE'', ValueM QTGUI_QBRUSH] [PConv QBrush, PReal ''qreal'', PConv ''Qt::PenStyle'', PConv ''Qt::PenCapStyle'', PConv ''Qt::PenJoinStyle''] None],
     CtorBlock ''QPicture'' 0 [
       Overload [] [] None],
     CtorBlock ''QPicture'' 1 [
       Overload [] [PInt] None,
       Overload [ValueM ''QTGUI_QPICTURE''] [PConv ''QPicture''] None]]"

definition vctor_qtgui_8_2 :: "ctor_block list" where
  "vctor_qtgui_8_2 = [
     CtorBlock ''QPixelFormat'' 0 [
       Overload [] [] None],
     CtorBlock QPixmap 0 [
       Overload [] [] None],
     CtorBlock QPixmap 1 [
       Overload [ValueM QTCORE_QSIZE] [PConv QSize] None,
       Overload [ValueM QTGUI_QPIXMAP] [PConv QPixmap] None],
     CtorBlock QPixmap 2 [
       Overload [] [PInt, PInt] None],
     CtorBlock ''QPlatformSurfaceEvent'' 1 [
       Overload [TypeM ''QTGUI_QPLATFORMSURFACEEVENT''] [PConv ''QPlatformSurfaceEvent::SurfaceEventType''] None]]"

definition vctor_qtgui_8_3 :: "ctor_block list" where
  "vctor_qtgui_8_3 = [
     CtorBlock QPointingDeviceUniqueId 0 [
       Overload [] [] None],
     CtorBlock QPolygon 0 [
       Overload [] [] None],
     CtorBlock QPolygon 1 [
       Overload [ValueM QTCORE_QRECT] [PConv QRect] None,
       Overload [ValueM QTCORE_QPOINT] [PListV QPoint] None],
     CtorBlock QPolygon 2 [
       Overload [ValueM QTCORE_QRECT] [PConv QRect, PBool] None],
     CtorBlock QPolygonF 0 [
       Overload [] [] None]]"

definition vctor_qtgui_8_4 :: "ctor_block list" where
  "vctor_qtgui_8_4 = [
     CtorBlock QPolygonF 1 [
       Overload [ValueM QTCORE_QPOINTF] [PListV QPointF] None,
       Overload [ValueM QTCORE_QRECTF] [PConv QRectF] None,
       Overload [ValueM QTGUI_QPOLYGON] [PConv QPolygon] None]]"

definition vctor_classes_qtgui_8 :: "class_entry list" where
  "vctor_classes_qtgui_8 = [
     ClassEntry QPen [EnumM ''QT_PENCAPSTYLE'', EnumM ''QT_PENJOINSTYLE'', EnumM ''QT_PENSTYLE'', ValueM QTGUI_QBRUSH, ValueM QTGUI_QPEN] ['''', ''Qt::PenStyle'', ''QBrush, qreal, Qt::PenStyle, Qt::PenCapStyle, Qt::PenJoinStyle'', QPen],
     ClassEntry ''QPicture'' [ValueM ''QTGUI_QPICTURE''] [''int'', ''QPicture''],
     ClassEntry ''QPixelFormat'' [] [''''],
     ClassEntry QPixmap [ValueM QTCORE_QSIZE, ValueM QTGUI_QPIXMAP] ['''', ''int, int'', QSize, QPixmap],
     ClassEntry ''QPlatformSurfaceEvent'' [TypeM ''QTGUI_QPLATFORMSURFACEEVENT''] [''QPlatformSurfaceEvent::SurfaceEventType''],
     ClassEntry QPointingDeviceUniqueId [] [''''],
     ClassEntry QPolygon [ValueM QTCORE_QPOINT, ValueM QTCORE_QRECT] ['''', ''QRect, bool'', ''QList<QPoint>''],
     ClassEntry QPolygonF [ValueM QTCORE_QPOINTF, ValueM QTCORE_QRECTF, ValueM QTGUI_QPOLYGON] ['''', ''QList<QPointF>'', QRectF, QPolygon]]"

definition vctor_qtgui_9_0 :: "ctor_block list" where
  "vctor_qtgui_9_0 = [
     CtorBlock QQuaternion 0 [
       Overload [] [] None],
     CtorBlock QQuaternion 1 [
       Overload [ValueM QTGUI_QVECTOR4D] [PConv QVector4D] None],
     CtorBlock QQuaternion 2 [
       Overload [ValueM QTGUI_QVECTOR3D] [PReal ''float'', PConv QVector3D] None],
     CtorBlock QQuaternion 4 [
       Overload [] [PReal ''float'', PReal ''float'', PReal ''float'', PReal ''float''] None],
     CtorBlock QRadialGradient 0 [
       Overload [] [] None]]"

definition vctor_qtgui_9_1 :: "ctor_block list" where
  "vctor_qtgui_9_1 = [
     CtorBlock QRadialGradient 2 [
       Overload [ValueM QTCORE_QPOINTF] [PConv QPointF, PReal ''qreal''] None],
     CtorBlock QRadialGradient 3 [
       Overload [ValueM QTCORE_QPOINTF] [PConv QPointF, PReal ''qreal'', PConv QPointF] None,
       Overload [] [PReal ''qreal'', PReal ''qreal'', PReal ''qreal''] None],
     CtorBlock QRadialGradient 4 [
       Overload [ValueM QTCORE_QPOINTF] [PConv QPointF, PReal ''qreal'', PConv QPointF, PReal ''qreal''] None],
     CtorBlock QRadialGradient 5 [
       Overload [] [PReal ''qreal'', PReal ''qreal'', PReal ''qreal'', PReal ''qreal'', PReal ''qreal''] None]]"

definition vctor_qtgui_9_2 :: "ctor_block list" where
  "vctor_qtgui_9_2 = [
     CtorBlock QRadialGradient 6 [
       Overload [] [PReal ''qreal'', PReal ''qreal'', PReal ''qreal'', PReal ''qreal'', PReal ''qreal'', PReal ''qreal''] None],
     CtorBlock QRawFont 0 [
       Overload [] [] None],
     CtorBlock QRawFont 1 [
       Overload [ValueM ''QTGUI_QRAWFONT''] [PConv QRawFont] None],
     CtorBlock QRawFont 2 [
       Overload [TypeM QTGUI_QFONT] [PString False, PReal ''qreal''] None,
       Overload [TypeM QTGUI_QFONT, ValueM QTCORE_QBYTEARRAY] [PConv QByteArray, PReal ''qreal''] None]]"

definition vctor_qtgui_9_3 :: "ctor_block list" where
  "vctor_qtgui_9_3 = [
     CtorBlock QRawFont 3 [
       Overload [TypeM QTGUI_QFONT] [PString False, PReal ''qreal'', PConv ''QFont::HintingPreference''] None,
       Overload [TypeM QTGUI_QFONT, ValueM QTCORE_QBYTEARRAY] [PConv QByteArray, PReal ''qreal'', PConv ''QFont::HintingPreference''] None],
     CtorBlock QRegion 0 [
       Overload [] [] None]]"

definition vctor_qtgui_9_4 :: "ctor_block list" where
  "vctor_qtgui_9_4 = [
     CtorBlock QRegion 1 [
       Overload [TypeM QTGUI_QREGION, ValueM QTCORE_QRECT] [PConv QRect] None,
       Overload [EnumM ''QT_FILLRULE'', ValueM QTGUI_QPOLYGON] [PConv QPolygon] None,
       Overload [ValueM ''QTGUI_QBITMAP''] [PConv ''QBitmap''] None,
       Overload [ValueM QTGUI_QREGION] [PConv QRegion] None],
     CtorBlock QRegion 2 [
       Overload [TypeM QTGUI_QREGION, ValueM QTCORE_QRECT] [PConv QRect, PConv ''QRegion::RegionType''] None,
       Overload [EnumM ''QT_FILLRULE'', ValueM QTGUI_QPOLYGON] [PConv QPolygon, PConv ''Qt::FillRule''] None]]"

definition vctor_qtgui_9_5 :: "ctor_block list" where
  "vctor_qtgui_9_5 = [
     CtorBlock QRegion 4 [
       Overload [TypeM QTGUI_QREGION] [PInt, PInt, PInt, PInt] None],
     CtorBlock QRegion 5 [
       Overload [TypeM QTGUI_QREGION] [PInt, PInt, PInt, PInt, PConv ''QRegion::RegionType''] None],
     CtorBlock ''QResizeEvent'' 2 [
       Overload [ValueM QTCORE_QSIZE] [PConv QSize, PConv QSize] None],
     CtorBlock ''QRgba64'' 0 [
       Overload [] [] None]]"

definition vctor_qtgui_9_6 :: "ctor_block list" where
  "vctor_qtgui_9_6 = [
     CtorBlock ''QScrollEvent'' 3 [
       Overload [TypeM ''QTGUI_QSCROLLEVENT'', ValueM QTCORE_QPOINTF] [PConv QPointF, PConv QPointF, PConv ''QScrollEvent::ScrollState''] None],
     CtorBlock ''QScrollPrepareEvent'' 1 [
       Overload [ValueM QTCORE_QPOINTF] [PConv QPointF] None]]"

definition vctor_classes_qtgui_9 :: "class_entry list" where
  "vctor_classes_qtgui_9 = [
     ClassEntry QQuaternion [ValueM QTGUI_QVECTOR3D, ValueM QTGUI_QVECTOR4D] ['''', ''float, float, float, float'', ''float, QVector3D'', QVector4D],
     ClassEntry QRadialGradient [ValueM QTCORE_QPOINTF] ['''', ''QPointF, qreal, QPointF'', ''QPointF, qreal, QPointF, qreal'', ''QPointF, qreal'', ''qreal, qreal, qreal, qreal, qreal'', ''qreal, qreal, qreal, qreal, qreal, qreal'', ''qreal, qreal, qreal''],
     ClassEntry QRawFont [TypeM QTGUI_QFONT, ValueM QTCORE_QBYTEARRAY, ValueM ''QTGUI_QRAWFONT''] ['''', ''QString, qreal, QFont::HintingPreference'', ''QByteArray, qreal, QFont::HintingPreference'', QRawFont],
     ClassEntry QRegion [EnumM ''QT_FILLRULE'', TypeM QTGUI_QREGION, ValueM QTCORE_QRECT, ValueM ''QTGUI_QBITMAP'', ValueM QTGUI_QPOLYGON, ValueM QTGUI_QREGION] ['''', ''int, int, int, int, QRegion::RegionType'', ''QRect, QRegion::RegionType'', ''QPolygon, Qt::FillRule'', ''QBitmap'', QRegion],
     ClassEntry ''QResizeEvent'' [ValueM QTCORE_QSIZE] [''QSize, QSize''],
     ClassEntry ''QRgba64'' [] [''''],
     ClassEntry ''QScrollEvent'' [TypeM ''QTGUI_QSCROLLEVENT'', ValueM QTCORE_QPOINTF] [''QPointF, QPointF, QScrollEvent::ScrollState''],
     ClassEntry ''QScrollPrepareEvent'' [ValueM QTCORE_QPOINTF] [QPointF]]"

definition vctor_table_gui :: "(string \<times> ctor_shard) list" where
  "vctor_table_gui = [
     (''qtgui_0'', \<lparr>cs_module = ''QtGui'', cs_slug = ''QTGUI'',
        cs_blocks = concat [vctor_qtgui_0_0, vctor_qtgui_0_1, vctor_qtgui_0_2, vctor_qtgui_0_3, vctor_qtgui_0_4],
        cs_classes = vctor_classes_qtgui_0\<rparr>),
     (''qtgui_1'', \<lparr>cs_module = ''QtGui'', cs_slug = ''QTGUI'',
        cs_blocks = concat [vctor_qtgui_1_0, vctor_qtgui_1_1, vctor_qtgui_1_2, vctor_qtgui_1_3, vctor_qtgui_1_4, vctor_qtgui_1_5, vctor_qtgui_1_6, vctor_qtgui_1_7],
        cs_classes = vctor_classes_qtgui_1\<rparr>),
     (''qtgui_10'', \<lparr>cs_module = ''QtGui'', cs_slug = ''QTGUI'',
        cs_blocks = concat [vctor_qtgui_10_0, vctor_qtgui_10_1, vctor_qtgui_10_2, vctor_qtgui_10_3],
        cs_classes = vctor_classes_qtgui_10\<rparr>),
     (''qtgui_11'', \<lparr>cs_module = ''QtGui'', cs_slug = ''QTGUI'',
        cs_blocks = concat [vctor_qtgui_11_0, vctor_qtgui_11_1, vctor_qtgui_11_2, vctor_qtgui_11_3],
        cs_classes = vctor_classes_qtgui_11\<rparr>),
     (''qtgui_12'', \<lparr>cs_module = ''QtGui'', cs_slug = ''QTGUI'',
        cs_blocks = concat [vctor_qtgui_12_0, vctor_qtgui_12_1, vctor_qtgui_12_2],
        cs_classes = vctor_classes_qtgui_12\<rparr>),
     (''qtgui_13'', \<lparr>cs_module = ''QtGui'', cs_slug = ''QTGUI'',
        cs_blocks = concat [vctor_qtgui_13_0, vctor_qtgui_13_1, vctor_qtgui_13_2, vctor_qtgui_13_3, vctor_qtgui_13_4, vctor_qtgui_13_5, vctor_qtgui_13_6],
        cs_classes = vctor_classes_qtgui_13\<rparr>),
     (''qtgui_2'', \<lparr>cs_module = ''QtGui'', cs_slug = ''QTGUI'',
        cs_blocks = concat [vctor_qtgui_2_0, vctor_qtgui_2_1, vctor_qtgui_2_2, vctor_qtgui_2_3, vctor_qtgui_2_4],
        cs_classes = vctor_classes_qtgui_2\<rparr>),
     (''qtgui_3'', \<lparr>cs_module = ''QtGui'', cs_slug = ''QTGUI'',
        cs_blocks = concat [vctor_qtgui_3_0, vctor_qtgui_3_1, vctor_qtgui_3_2, vctor_qtgui_3_3, vctor_qtgui_3_4],
        cs_classes = vctor_classes_qtgui_3\<rparr>),
     (''qtgui_4'', \<lparr>cs_module = ''QtGui'', cs_slug = ''QTGUI'',
        cs_blocks = concat [vctor_qtgui_4_0, vctor_qtgui_4_1, vctor_qtgui_4_2, vctor_qtgui_4_3],
        cs_classes = vctor_classes_qtgui_4\<rparr>),
     (''qtgui_5'', \<lparr>cs_module = ''QtGui'', cs_slug = ''QTGUI'',
        cs_blocks = concat [vctor_qtgui_5_0, vctor_qtgui_5_1, vctor_qtgui_5_2, vctor_qtgui_5_3, vctor_qtgui_5_4],
        cs_classes = vctor_classes_qtgui_5\<rparr>),
     (''qtgui_6'', \<lparr>cs_module = ''QtGui'', cs_slug = ''QTGUI'',
        cs_blocks = concat [vctor_qtgui_6_0, vctor_qtgui_6_1, vctor_qtgui_6_2, vctor_qtgui_6_3, vctor_qtgui_6_4, vctor_qtgui_6_5, vctor_qtgui_6_6],
        cs_classes = vctor_classes_qtgui_6\<rparr>),
     (''qtgui_7'', \<lparr>cs_module = ''QtGui'', cs_slug = ''QTGUI'',
        cs_blocks = concat [vctor_qtgui_7_0, vctor_qtgui_7_1, vctor_qtgui_7_2, vctor_qtgui_7_3, vctor_qtgui_7_4],
        cs_classes = vctor_classes_qtgui_7\<rparr>),
     (''qtgui_8'', \<lparr>cs_module = ''QtGui'', cs_slug = ''QTGUI'',
        cs_blocks = concat [vctor_qtgui_8_0, vctor_qtgui_8_1, vctor_qtgui_8_2, vctor_qtgui_8_3, vctor_qtgui_8_4],
        cs_classes = vctor_classes_qtgui_8\<rparr>),
     (''qtgui_9'', \<lparr>cs_module = ''QtGui'', cs_slug = ''QTGUI'',
        cs_blocks = concat [vctor_qtgui_9_0, vctor_qtgui_9_1, vctor_qtgui_9_2, vctor_qtgui_9_3, vctor_qtgui_9_4, vctor_qtgui_9_5, vctor_qtgui_9_6],
        cs_classes = vctor_classes_qtgui_9\<rparr>)]"

lemmas vctor_table_gui_defs =
  vctor_qtgui_0_0_def vctor_qtgui_0_1_def vctor_qtgui_0_2_def vctor_qtgui_0_3_def vctor_qtgui_0_4_def
  vctor_qtgui_1_0_def vctor_qtgui_1_1_def vctor_qtgui_1_2_def vctor_qtgui_1_3_def vctor_qtgui_1_4_def
  vctor_qtgui_1_5_def vctor_qtgui_1_6_def vctor_qtgui_1_7_def vctor_qtgui_10_0_def vctor_qtgui_10_1_def
  vctor_qtgui_10_2_def vctor_qtgui_10_3_def vctor_qtgui_11_0_def vctor_qtgui_11_1_def vctor_qtgui_11_2_def
  vctor_qtgui_11_3_def vctor_qtgui_12_0_def vctor_qtgui_12_1_def vctor_qtgui_12_2_def vctor_qtgui_13_0_def
  vctor_qtgui_13_1_def vctor_qtgui_13_2_def vctor_qtgui_13_3_def vctor_qtgui_13_4_def vctor_qtgui_13_5_def
  vctor_qtgui_13_6_def vctor_qtgui_2_0_def vctor_qtgui_2_1_def vctor_qtgui_2_2_def vctor_qtgui_2_3_def
  vctor_qtgui_2_4_def vctor_qtgui_3_0_def vctor_qtgui_3_1_def vctor_qtgui_3_2_def vctor_qtgui_3_3_def
  vctor_qtgui_3_4_def vctor_qtgui_4_0_def vctor_qtgui_4_1_def vctor_qtgui_4_2_def vctor_qtgui_4_3_def
  vctor_qtgui_5_0_def vctor_qtgui_5_1_def vctor_qtgui_5_2_def vctor_qtgui_5_3_def vctor_qtgui_5_4_def
  vctor_qtgui_6_0_def vctor_qtgui_6_1_def vctor_qtgui_6_2_def vctor_qtgui_6_3_def vctor_qtgui_6_4_def
  vctor_qtgui_6_5_def vctor_qtgui_6_6_def vctor_qtgui_7_0_def vctor_qtgui_7_1_def vctor_qtgui_7_2_def
  vctor_qtgui_7_3_def vctor_qtgui_7_4_def vctor_qtgui_8_0_def vctor_qtgui_8_1_def vctor_qtgui_8_2_def
  vctor_qtgui_8_3_def vctor_qtgui_8_4_def vctor_qtgui_9_0_def vctor_qtgui_9_1_def vctor_qtgui_9_2_def
  vctor_qtgui_9_3_def vctor_qtgui_9_4_def vctor_qtgui_9_5_def vctor_qtgui_9_6_def

lemma vctor_table_gui_fitting_shard: "list_all (\<lambda>(s, sh). fitting_shard sh) vctor_table_gui"
  by (simp add: vctor_table_gui_def vctor_table_gui_defs fitting_shard_def)

end
