(* ===== verification/Value_Constructors_Widgets.thy ===== *)
theory Value_Constructors_Widgets
  imports Shard_Constructors Qt_Names
begin

text \<open>
  Tables of the value constructor shards (generated\_value\_constructors): the blocks of every shard in the file's
  order, and the classes it lists.
\<close>

definition vctor_qtwidgets_0_0 :: "ctor_block list" where
  "vctor_qtwidgets_0_0 = [
     CtorBlock ''QFileIconProvider'' 0 [
       Overload [] [] None],
     CtorBlock QGestureEvent 1 [
       Overload [TypeM QTWIDGETS_QGESTURE] [PList ''QGesture*''] None],
     CtorBlock ''QGestureRecognizer'' 0 [
       Overload [] [] None],
     CtorBlock ''QGraphicsSceneMoveEvent'' 0 [
       Overload [] [] None],
     CtorBlock ''QGraphicsSceneResizeEvent'' 0 [
       Overload [] [] None],
     CtorBlock ''QItemEditorFactory'' 0 [
       Overload [] [] None]]"

definition vctor_qtwidgets_0_1 :: "ctor_block list" where
  "vctor_qtwidgets_0_1 = [
     CtorBlock ''QLayoutItem'' 0 [
       Overload [EnumM ''QT_ALIGNMENT''] [] None],
     CtorBlock ''QLayoutItem'' 1 [
       Overload [EnumM ''QT_ALIGNMENT''] [PConv ''Qt::Alignment''] None],
     CtorBlock QListWidgetItem 0 [
       Overload [TypeM ''QTWIDGETS_QLISTWIDGET''] [] None],
     CtorBlock QListWidgetItem 1 [
       Overload [TypeM ''QTWIDGETS_QLISTWIDGET''] [PNonNull ''QListWidget*''] None,
       Overload [TypeM ''QTWIDGETS_QLISTWIDGET''] [PString False] None,
       Overload [ValueM ''QTWIDGETS_QLISTWIDGETITEM''] [PConv QListWidgetItem] None]]"

definition vctor_qtwidgets_0_2 :: "ctor_block list" where
  "vctor_qtwidgets_0_2 = [
     CtorBlock QListWidgetItem 2 [
       Overload [TypeM ''QTWIDGETS_QLISTWIDGET''] [PNonNull ''QListWidget*'', PInt] None,
       Overload [TypeM ''QTWIDGETS_QLISTWIDGET''] [PString False, PNonNull ''QListWidget*''] None,
       Overload [TypeM ''QTWIDGETS_QLISTWIDGET'', ValueM QTGUI_QICON] [PConv QIcon, PString False] None],
     CtorBlock QListWidgetItem 3 [
       Overload [TypeM ''QTWIDGETS_QLISTWIDGET''] [PString False, PNonNull ''QListWidget*'', PInt] None,
       Overload [TypeM ''QTWIDGETS_QLISTWIDGET'', ValueM QTGUI_QICON] [PConv QIcon, PString False, PNonNull ''QListWidget*''] None]]"

definition vctor_qtwidgets_0_3 :: "ctor_block list" where
  "vctor_qtwidgets_0_3 = [
     CtorBlock QListWidgetItem 4 [
       Overload [TypeM ''QTWIDGETS_QLISTWIDGET'', ValueM QTGUI_QICON] [PConv QIcon, PString False, PNonNull ''QListWidget*'', PInt] None]]"

definition vctor_classes_qtwidgets_0 :: "class_entry list" where
  "vctor_classes_qtwidgets_0 = [
     ClassEntry ''QFileIconProvider'' [] [''''],
     ClassEntry QGestureEvent [TypeM QTWIDGETS_QGESTURE] [''QList<QGesture*>''],
     ClassEntry ''QGestureRecognizer'' [] [''''],
     ClassEntry ''QGraphicsSceneMoveEvent'' [] [''''],
     ClassEntry ''QGraphicsSceneResizeEvent'' [] [''''],
     ClassEntry ''QItemEditorFactory'' [] [''''],
     ClassEntry ''QLayoutItem'' [EnumM ''QT_ALIGNMENT''] [''Qt::Alignment''],
     ClassEntry QListWidgetItem [TypeM ''QTWIDGETS_QLISTWIDGET'', ValueM QTGUI_QICON, ValueM ''QTWIDGETS_QLISTWIDGETITEM''] [''QListWidget*, int'', ''QString, QListWidget*, int'', ''QIcon, QString, QListWidget*, int'', QListWidgetItem]]"

definition vctor_qtwidgets_1_0 :: "ctor_block list" where
  "vctor_qtwidgets_1_0 = [
     CtorBlock QScrollerProperties 0 [
       Overload [] [] None],
     CtorBlock QScrollerProperties 1 [
       Overload [ValueM ''QTWIDGETS_QSCROLLERPROPERTIES''] [PConv QScrollerProperties] None],
     CtorBlock QSizePolicy 0 [
       Overload [] [] None],
     CtorBlock QSizePolicy 2 [
       Overload [TypeM QTWIDGETS_QSIZEPOLICY] [PConv QSizePolicy_Policy, PConv QSizePolicy_Policy] None],
     CtorBlock QSizePolicy 3 [
       Overload [TypeM QTWIDGETS_QSIZEPOLICY] [PConv QSizePolicy_Policy, PConv QSizePolicy_Policy, PConv ''QSizePolicy::ControlType''] None]]"

definition vctor_qtwidgets_1_1 :: "ctor_block list" where
  "vctor_qtwidgets_1_1 = [
     CtorBlock ''QSpacerItem'' 2 [
       Overload [TypeM QTWIDGETS_QSIZEPOLICY] [PInt, PInt] None],
     CtorBlock ''QSpacerItem'' 3 [
       Overload [TypeM QTWIDGETS_QSIZEPOLICY] [PInt, PInt, PConv QSizePolicy_Policy] None],
     CtorBlock ''QSpacerItem'' 4 [
       Overload [TypeM QTWIDGETS_QSIZEPOLICY] [PInt, PInt, PConv QSizePolicy_Policy, PConv QSizePolicy_Policy] None],
     CtorBlock ''QStyleHintReturn'' 0 [
       Overload [] [] None],
     CtorBlock ''QStyleHintReturn'' 1 [
       Overload [] [PInt] None]]"

definition vctor_qtwidgets_1_2 :: "ctor_block list" where
  "vctor_qtwidgets_1_2 = [
     CtorBlock ''QStyleHintReturn'' 2 [
       Overload [] [PInt, PInt] None],
     CtorBlock ''QStyleHintReturnMask'' 0 [
       Overload [] [] None],
     CtorBlock ''QStyleHintReturnVariant'' 0 [
       Overload [] [] None],
     CtorBlock ''QStyleOption'' 0 [
       Overload [] [] None],
     CtorBlock ''QStyleOption'' 1 [
       Overload [] [PInt] None,
       Overload [ValueM ''QTWIDGETS_QSTYLEOPTION''] [PConv ''QStyleOption''] None]]"

definition vctor_qtwidgets_1_3 :: "ctor_block list" where
  "vctor_qtwidgets_1_3 = [
     CtorBlock ''QStyleOption'' 2 [
       Overload [] [PInt, PInt] None],
     CtorBlock ''QStyleOptionButton'' 0 [
       Overload [] [] None],
     CtorBlock ''QStyleOptionButton'' 1 [
       Overload [ValueM ''QTWIDGETS_QSTYLEOPTIONBUTTON''] [PConv ''QStyleOptionButton''] None]]"

definition vctor_classes_qtwidgets_1 :: "class_entry list" where
  "vctor_classes_qtwidgets_1 = [
     ClassEntry QScrollerProperties [ValueM ''QTWIDGETS_QSCROLLERPROPERTIES''] ['''', QScrollerProperties],
     ClassEntry QSizePolicy [TypeM QTWIDGETS_QSIZEPOLICY] ['''', ''QSizePolicy::Policy, QSizePolicy::Policy, QSizePolicy::ControlType''],
     ClassEntry ''QSpacerItem'' [TypeM QTWIDGETS_QSIZEPOLICY] [''int, int, QSizePolicy::Policy, QSizePolicy::Policy''],
     ClassEntry ''QStyleHintReturn'' [] [''int, int''],
     ClassEntry ''QStyleHintReturnMask'' [] [''''],
     ClassEntry ''QStyleHintReturnVariant'' [] [''''],
     ClassEntry ''QStyleOption'' [ValueM ''QTWIDGETS_QSTYLEOPTION''] [''int, int'', ''QStyleOption''],
     ClassEntry ''QStyleOptionButton'' [ValueM ''QTWIDGETS_QSTYLEOPTIONBUTTON''] ['''', ''QStyleOptionButton'']]"

definition vctor_qtwidgets_2_0 :: "ctor_block list" where
  "vctor_qtwidgets_2_0 = [
     CtorBlock ''QStyleOptionComboBox'' 0 [
       Overload [] [] None],
     CtorBlock ''QStyleOptionComboBox'' 1 [
       Overload [ValueM ''QTWIDGETS_QSTYLEOPTIONCOMBOBOX''] [PConv ''QStyleOptionComboBox''] None],
     CtorBlock ''QStyleOptionComplex'' 0 [
       Overload [] [] None],
     CtorBlock ''QStyleOptionComplex'' 1 [
       Overload [] [PInt] None,
       Overload [ValueM ''QTWIDGETS_QSTYLEOPTIONCOMPLEX''] [PConv ''QStyleOptionComplex''] None],
     CtorBlock ''QStyleOptionComplex'' 2 [
       Overload [] [PInt, PInt] None]]"

definition vctor_qtwidgets_2_1 :: "ctor_block list" where
  "vctor_qtwidgets_2_1 = [
     CtorBlock ''QStyleOptionDockWidget'' 0 [
       Overload [] [] None],
     CtorBlock ''QStyleOptionDockWidget'' 1 [
       Overload [ValueM ''QTWIDGETS_QSTYLEOPTIONDOCKWIDGET''] [PConv ''QStyleOptionDockWidget''] None],
     CtorBlock ''QStyleOptionFocusRect'' 0 [
       Overload [] [] None],
     CtorBlock ''QStyleOptionFocusRect'' 1 [
       Overload [ValueM ''QTWIDGETS_QSTYLEOPTIONFOCUSRECT''] [PConv ''QStyleOptionFocusRect''] None],
     CtorBlock ''QStyleOptionFrame'' 0 [
       Overload [] [] None],
     CtorBlock ''QStyleOptionFrame'' 1 [
       Overload [ValueM ''QTWIDGETS_QSTYLEOPTIONFRAME''] [PConv ''QStyleOptionFrame''] None]]"

definition vctor_qtwidgets_2_2 :: "ctor_block list" where
  "vctor_qtwidgets_2_2 = [
     CtorBlock ''QStyleOptionGraphicsItem'' 0 [
       Overload [] [] None],
     CtorBlock ''QStyleOptionGraphicsItem'' 1 [
       Overload [ValueM ''QTWIDGETS_QSTYLEOPTIONGRAPHICSITEM''] [PConv ''QStyleOptionGraphicsItem''] None],
     CtorBlock ''QStyleOptionGroupBox'' 0 [
       Overload [] [] None],
     CtorBlock ''QStyleOptionGroupBox'' 1 [
       Overload [ValueM ''QTWIDGETS_QSTYLEOPTIONGROUPBOX''] [PConv ''QStyleOptionGroupBox''] None],
     CtorBlock ''QStyleOptionHeader'' 0 [
       Overload [] [] None],
     CtorBlock ''QStyleOptionHeader'' 1 [
       Overload [ValueM ''QTWIDGETS_QSTYLEOPTIONHEADER''] [PConv ''QStyleOptionHeader''] None]]"

definition vctor_classes_qtwidgets_2 :: "class_entry list" where
  "vctor_classes_qtwidgets_2 = [
     ClassEntry ''QStyleOptionComboBox'' [ValueM ''QTWIDGETS_QSTYLEOPTIONCOMBOBOX''] ['''', ''QStyleOptionComboBox''],
     ClassEntry ''QStyleOptionComplex'' [ValueM ''QTWIDGETS_QSTYLEOPTIONCOMPLEX''] [''int, int'', ''QStyleOptionComplex''],
     ClassEntry ''QStyleOptionDockWidget'' [ValueM ''QTWIDGETS_QSTYLEOPTIONDOCKWIDGET''] ['''', ''QStyleOptionDockWidget''],
     ClassEntry ''QStyleOptionFocusRect'' [ValueM ''QTWIDGETS_QSTYLEOPTIONFOCUSRECT''] ['''', ''QStyleOptionFocusRect''],
     ClassEntry ''QStyleOptionFrame'' [ValueM ''QTWIDGETS_QSTYLEOPTIONFRAME''] ['''', ''QStyleOptionFrame''],
     ClassEntry ''QStyleOptionGraphicsItem'' [ValueM ''QTWIDGETS_QSTYLEOPTIONGRAPHICSITEM''] ['''', ''QStyleOptionGraphicsItem''],
     ClassEntry ''QStyleOptionGroupBox'' [ValueM ''QTWIDGETS_QSTYLEOPTIONGROUPBOX''] ['''', ''QStyleOptionGroupBox''],
     ClassEntry ''QStyleOptionHeader'' [ValueM ''QTWIDGETS_QSTYLEOPTIONHEADER''] ['''', ''QStyleOptionHeader'']]"

definition vctor_qtwidgets_3_0 :: "ctor_block list" where
  "vctor_qtwidgets_3_0 = [
     CtorBlock ''QStyleOptionHeaderV2'' 0 [
       Overload [] [] None],
     CtorBlock ''QStyleOptionHeaderV2'' 1 [
       Overload [ValueM ''QTWIDGETS_QSTYLEOPTIONHEADERV2''] [PConv ''QStyleOptionHeaderV2''] None],
     CtorBlock ''QStyleOptionMenuItem'' 0 [
       Overload [] [] None],
     CtorBlock ''QStyleOptionMenuItem'' 1 [
       Overload [ValueM ''QTWIDGETS_QSTYLEOPTIONMENUITEM''] [PConv ''QStyleOptionMenuItem''] None],
     CtorBlock ''QStyleOptionMenuItemV2'' 0 [
       Overload [] [] None],
     CtorBlock ''QStyleOptionMenuItemV2'' 1 [
       Overload [ValueM ''QTWIDGETS_QSTYLEOPTIONMENUITEMV2''] [PConv ''QStyleOptionMenuItemV2''] None]]"

definition vctor_qtwidgets_3_1 :: "ctor_block list" where
  "vctor_qtwidgets_3_1 = [
     CtorBlock ''QStyleOptionProgressBar'' 0 [
       Overload [] [] None],
     CtorBlock ''QStyleOptionProgressBar'' 1 [
       Overload [ValueM ''QTWIDGETS_QSTYLEOPTIONPROGRESSBAR''] [PConv ''QStyleOptionProgressBar''] None],
     CtorBlock ''QStyleOptionRubberBand'' 0 [
       Overload [] [] None],
     CtorBlock ''QStyleOptionRubberBand'' 1 [
       Overload [ValueM ''QTWIDGETS_QSTYLEOPTIONRUBBERBAND''] [PConv ''QStyleOptionRubberBand''] None],
     CtorBlock ''QStyleOptionSizeGrip'' 0 [
       Overload [] [] None],
     CtorBlock ''QStyleOptionSizeGrip'' 1 [
       Overload [ValueM ''QTWIDGETS_QSTYLEOPTIONSIZEGRIP''] [PConv ''QStyleOptionSizeGrip''] None]]"

definition vctor_qtwidgets_3_2 :: "ctor_block list" where
  "vctor_qtwidgets_3_2 = [
     CtorBlock ''QStyleOptionSlider'' 0 [
       Overload [] [] None],
     CtorBlock ''QStyleOptionSlider'' 1 [
       Overload [ValueM ''QTWIDGETS_QSTYLEOPTIONSLIDER''] [PConv ''QStyleOptionSlider''] None],
     CtorBlock ''QStyleOptionSpinBox'' 0 [
       Overload [] [] None],
     CtorBlock ''QStyleOptionSpinBox'' 1 [
       Overload [ValueM ''QTWIDGETS_QSTYLEOPTIONSPINBOX''] [PConv ''QStyleOptionSpinBox''] None]]"

definition vctor_classes_qtwidgets_3 :: "class_entry list" where
  "vctor_classes_qtwidgets_3 = [
     ClassEntry ''QStyleOptionHeaderV2'' [ValueM ''QTWIDGETS_QSTYLEOPTIONHEADERV2''] ['''', ''QStyleOptionHeaderV2''],
     ClassEntry ''QStyleOptionMenuItem'' [ValueM ''QTWIDGETS_QSTYLEOPTIONMENUITEM''] ['''', ''QStyleOptionMenuItem''],
     ClassEntry ''QStyleOptionMenuItemV2'' [ValueM ''QTWIDGETS_QSTYLEOPTIONMENUITEMV2''] ['''', ''QStyleOptionMenuItemV2''],
     ClassEntry ''QStyleOptionProgressBar'' [ValueM ''QTWIDGETS_QSTYLEOPTIONPROGRESSBAR''] ['''', ''QStyleOptionProgressBar''],
     ClassEntry ''QStyleOptionRubberBand'' [ValueM ''QTWIDGETS_QSTYLEOPTIONRUBBERBAND''] ['''', ''QStyleOptionRubberBand''],
     ClassEntry ''QStyleOptionSizeGrip'' [ValueM ''QTWIDGETS_QSTYLEOPTIONSIZEGRIP''] ['''', ''QStyleOptionSizeGrip''],
     ClassEntry ''QStyleOptionSlider'' [ValueM ''QTWIDGETS_QSTYLEOPTIONSLIDER''] ['''', ''QStyleOptionSlider''],
     ClassEntry ''QStyleOptionSpinBox'' [ValueM ''QTWIDGETS_QSTYLEOPTIONSPINBOX''] ['''', ''QStyleOptionSpinBox'']]"

definition vctor_qtwidgets_4_0 :: "ctor_block list" where
  "vctor_qtwidgets_4_0 = [
     CtorBlock ''QStyleOptionTab'' 0 [
       Overload [] [] None],
     CtorBlock ''QStyleOptionTab'' 1 [
       Overload [ValueM ''QTWIDGETS_QSTYLEOPTIONTAB''] [PConv ''QStyleOptionTab''] None],
     CtorBlock ''QStyleOptionTabBarBase'' 0 [
       Overload [] [] None],
     CtorBlock ''QStyleOptionTabBarBase'' 1 [
       Overload [ValueM ''QTWIDGETS_QSTYLEOPTIONTABBARBASE''] [PConv ''QStyleOptionTabBarBase''] None],
     CtorBlock ''QStyleOptionTabWidgetFrame'' 0 [
       Overload [] [] None],
     CtorBlock ''QStyleOptionTabWidgetFrame'' 1 [
       Overload [ValueM ''QTWIDGETS_QSTYLEOPTIONTABWIDGETFRAME''] [PConv ''QStyleOptionTabWidgetFrame''] None]]"

definition vctor_qtwidgets_4_1 :: "ctor_block list" where
  "vctor_qtwidgets_4_1 = [
     CtorBlock ''QStyleOptionTitleBar'' 0 [
       Overload [] [] None],
     CtorBlock ''QStyleOptionTitleBar'' 1 [
       Overload [ValueM ''QTWIDGETS_QSTYLEOPTIONTITLEBAR''] [PConv ''QStyleOptionTitleBar''] None],
     CtorBlock ''QStyleOptionToolBar'' 0 [
       Overload [] [] None],
     CtorBlock ''QStyleOptionToolBar'' 1 [
       Overload [ValueM ''QTWIDGETS_QSTYLEOPTIONTOOLBAR''] [PConv ''QStyleOptionToolBar''] None],
     CtorBlock ''QStyleOptionToolBox'' 0 [
       Overload [] [] None],
     CtorBlock ''QStyleOptionToolBox'' 1 [
       Overload [ValueM ''QTWIDGETS_QSTYLEOPTIONTOOLBOX''] [PConv ''QStyleOptionToolBox''] None]]"

definition vctor_qtwidgets_4_2 :: "ctor_block list" where
  "vctor_qtwidgets_4_2 = [
     CtorBlock ''QStyleOptionToolButton'' 0 [
       Overload [] [] None],
     CtorBlock ''QStyleOptionToolButton'' 1 [
       Overload [ValueM ''QTWIDGETS_QSTYLEOPTIONTOOLBUTTON''] [PConv ''QStyleOptionToolButton''] None],
     CtorBlock QStyleOptionViewItem 0 [
       Overload [] [] None],
     CtorBlock QStyleOptionViewItem 1 [
       Overload [ValueM QTWIDGETS_QSTYLEOPTIONVIEWITEM] [PConv QStyleOptionViewItem] None]]"

definition vctor_classes_qtwidgets_4 :: "class_entry list" where
  "vctor_classes_qtwidgets_4 = [
     ClassEntry ''QStyleOptionTab'' [ValueM ''QTWIDGETS_QSTYLEOPTIONTAB''] ['''', ''QStyleOptionTab''],
     ClassEntry ''QStyleOptionTabBarBase'' [ValueM ''QTWIDGETS_QSTYLEOPTIONTABBARBASE''] ['''', ''QStyleOptionTabBarBase''],
     ClassEntry ''QStyleOptionTabWidgetFrame'' [ValueM ''QTWIDGETS_QSTYLEOPTIONTABWIDGETFRAME''] ['''', ''QStyleOptionTabWidgetFrame''],
     ClassEntry ''QStyleOptionTitleBar'' [ValueM ''QTWIDGETS_QSTYLEOPTIONTITLEBAR''] ['''', ''QStyleOptionTitleBar''],
     ClassEntry ''QStyleOptionToolBar'' [ValueM ''QTWIDGETS_QSTYLEOPTIONTOOLBAR''] ['''', ''QStyleOptionToolBar''],
     ClassEntry ''QStyleOptionToolBox'' [ValueM ''QTWIDGETS_QSTYLEOPTIONTOOLBOX''] ['''', ''QStyleOptionToolBox''],
     ClassEntry ''QStyleOptionToolButton'' [ValueM ''QTWIDGETS_QSTYLEOPTIONTOOLBUTTON''] ['''', ''QStyleOptionToolButton''],
     ClassEntry QStyleOptionViewItem [ValueM QTWIDGETS_QSTYLEOPTIONVIEWITEM] ['''', QStyleOptionViewItem]]"

definition vctor_qtwidgets_5_0 :: "ctor_block list" where
  "vctor_qtwidgets_5_0 = [
     CtorBlock ''QStylePainter'' 0 [
       Overload [] [] None],
     CtorBlock ''QStylePainter'' 1 [
       Overload [TypeM QTWIDGETS_QWIDGET] [PNonNull QWidget_ptr] None],
     CtorBlock QTableWidgetItem 0 [
       Overload [] [] None],
     CtorBlock QTableWidgetItem 1 [
       Overload [] [PInt] None,
       Overload [] [PString False] None,
       Overload [ValueM ''QTWIDGETS_QTABLEWIDGETITEM''] [PConv QTableWidgetItem] None]]"

definition vctor_qtwidgets_5_1 :: "ctor_block list" where
  "vctor_qtwidgets_5_1 = [
     CtorBlock QTableWidgetItem 2 [
       Overload [] [PString False, PInt] None,
       Overload [ValueM QTGUI_QICON] [PConv QIcon, PString False] None],
     CtorBlock QTableWidgetItem 3 [
       Overload [ValueM QTGUI_QICON] [PConv QIcon, PString False, PInt] None],
     CtorBlock QTableWidgetSelectionRange 0 [
       Overload [] [] None],
     CtorBlock QTableWidgetSelectionRange 4 [
       Overload [] [PInt, PInt, PInt, PInt] None]]"

definition vctor_qtwidgets_5_2 :: "ctor_block list" where
  "vctor_qtwidgets_5_2 = [
     CtorBlock QTreeWidgetItem 0 [
       Overload [] [] None],
     CtorBlock QTreeWidgetItem 1 [
       Overload [TypeM ''QTWIDGETS_QTREEWIDGET''] [PNonNull ''QTreeWidget*''] None,
       Overload [] [PStringList] None,
       Overload [] [PInt] None,
       Overload [ValueM ''QTWIDGETS_QTREEWIDGETITEM''] [PConv QTreeWidgetItem] None]]"

definition vctor_qtwidgets_5_3 :: "ctor_block list" where
  "vctor_qtwidgets_5_3 = [
     CtorBlock QTreeWidgetItem 2 [
       Overload [TypeM ''QTWIDGETS_QTREEWIDGET''] [PNonNull ''QTreeWidget*'', PStringList] None,
       Overload [TypeM ''QTWIDGETS_QTREEWIDGET''] [PNonNull ''QTreeWidget*'', PInt] None,
       Overload [] [PStringList, PInt] None],
     CtorBlock QTreeWidgetItem 3 [
       Overload [TypeM ''QTWIDGETS_QTREEWIDGET''] [PNonNull ''QTreeWidget*'', PStringList, PInt] None]]"

definition vctor_qtwidgets_5_4 :: "ctor_block list" where
  "vctor_qtwidgets_5_4 = [
     CtorBlock ''QTreeWidgetItemIterator'' 1 [
       Overload [TypeM ''QTWIDGETS_QTREEWIDGET'', TypeM ''QTWIDGETS_QTREEWIDGETITEMITERATOR''] [PNonNull ''QTreeWidget*''] None,
       Overload [ValueM ''QTWIDGETS_QTREEWIDGETITEMITERATOR''] [PConv ''QTreeWidgetItemIterator''] None],
     CtorBlock ''QTreeWidgetItemIterator'' 2 [
       Overload [TypeM ''QTWIDGETS_QTREEWIDGET'', TypeM ''QTWIDGETS_QTREEWIDGETITEMITERATOR''] [PNonNull ''QTreeWidget*'', PConv ''QTreeWidgetItemIterator::IteratorFlags''] None],
     CtorBlock ''QWidgetItem'' 1 [
       Overload [TypeM QTWIDGETS_QWIDGET] [PNonNull QWidget_ptr] None]]"

definition vctor_classes_qtwidgets_5 :: "class_entry list" where
  "vctor_classes_qtwidgets_5 = [
     ClassEntry ''QStylePainter'' [TypeM QTWIDGETS_QWIDGET] ['''', QWidget_ptr],
     ClassEntry QTableWidgetItem [ValueM QTGUI_QICON, ValueM ''QTWIDGETS_QTABLEWIDGETITEM''] [''int'', ''QString, int'', ''QIcon, QString, int'', QTableWidgetItem],
     ClassEntry QTableWidgetSelectionRange [] ['''', ''int, int, int, int''],
     ClassEntry QTreeWidgetItem [TypeM ''QTWIDGETS_QTREEWIDGET'', ValueM ''QTWIDGETS_QTREEWIDGETITEM''] [''QTreeWidget*, QStringList, int'', ''QTreeWidget*, int'', ''QStringList, int'', ''int'', QTreeWidgetItem],
     ClassEntry ''QTreeWidgetItemIterator'' [TypeM ''QTWIDGETS_QTREEWIDGET'', TypeM ''QTWIDGETS_QTREEWIDGETITEMITERATOR'', ValueM ''QTWIDGETS_QTREEWIDGETITEMITERATOR''] [''QTreeWidget*, QTreeWidgetItemIterator::IteratorFlags'', ''QTreeWidgetItemIterator''],
     ClassEntry ''QWidgetItem'' [TypeM QTWIDGETS_QWIDGET] [QWidget_ptr]]"

definition vctor_table_widgets :: "(string \<times> ctor_shard) list" where
  "vctor_table_widgets = [
     (''qtwidgets_0'', \<lparr>cs_module = ''QtWidgets'', cs_slug = ''QTWIDGETS'',
        cs_blocks = concat [vctor_qtwidgets_0_0, vctor_qtwidgets_0_1, vctor_qtwidgets_0_2, vctor_qtwidgets_0_3],
        cs_classes = vctor_classes_qtwidgets_0\<rparr>),
     (''qtwidgets_1'', \<lparr>cs_module = ''QtWidgets'', cs_slug = ''QTWIDGETS'',
        cs_blocks = concat [vctor_qtwidgets_1_0, vctor_qtwidgets_1_1, vctor_qtwidgets_1_2, vctor_qtwidgets_1_3],
        cs_classes = vctor_classes_qtwidgets_1\<rparr>),
     (''qtwidgets_2'', \<lparr>cs_module = ''QtWidgets'', cs_slug = ''QTWIDGETS'',
        cs_blocks = concat [vctor_qtwidgets_2_0, vctor_qtwidgets_2_1, vctor_qtwidgets_2_2],
        cs_classes = vctor_classes_qtwidgets_2\<rparr>),
     (''qtwidgets_3'', \<lparr>cs_module = ''QtWidgets'', cs_slug = ''QTWIDGETS'',
        cs_blocks = concat [vctor_qtwidgets_3_0, vctor_qtwidgets_3_1, vctor_qtwidgets_3_2],
        cs_classes = vctor_classes_qtwidgets_3\<rparr>),
     (''qtwidgets_4'', \<lparr>cs_module = ''QtWidgets'', cs_slug = ''QTWIDGETS'',
        cs_blocks = concat [vctor_qtwidgets_4_0, vctor_qtwidgets_4_1, vctor_qtwidgets_4_2],
        cs_classes = vctor_classes_qtwidgets_4\<rparr>),
     (''qtwidgets_5'', \<lparr>cs_module = ''QtWidgets'', cs_slug = ''QTWIDGETS'',
        cs_blocks = concat [vctor_qtwidgets_5_0, vctor_qtwidgets_5_1, vctor_qtwidgets_5_2, vctor_qtwidgets_5_3, vctor_qtwidgets_5_4],
        cs_classes = vctor_classes_qtwidgets_5\<rparr>)]"

lemmas vctor_table_widgets_defs =
  vctor_qtwidgets_0_0_def vctor_qtwidgets_0_1_def vctor_qtwidgets_0_2_def vctor_qtwidgets_0_3_def
  vctor_qtwidgets_1_0_def vctor_qtwidgets_1_1_def vctor_qtwidgets_1_2_def vctor_qtwidgets_1_3_def
  vctor_qtwidgets_2_0_def vctor_qtwidgets_2_1_def vctor_qtwidgets_2_2_def vctor_qtwidgets_3_0_def
  vctor_qtwidgets_3_1_def vctor_qtwidgets_3_2_def vctor_qtwidgets_4_0_def vctor_qtwidgets_4_1_def
  vctor_qtwidgets_4_2_def vctor_qtwidgets_5_0_def vctor_qtwidgets_5_1_def vctor_qtwidgets_5_2_def
  vctor_qtwidgets_5_3_def vctor_qtwidgets_5_4_def

lemma vctor_table_widgets_fitting_shard: "list_all (\<lambda>(s, sh). fitting_shard sh) vctor_table_widgets"
  by (simp add: vctor_table_widgets_def vctor_table_widgets_defs fitting_shard_def)

end
