(* ===== verification/Methods_Rest_A.thy ===== *)
theory Methods_Rest_A
  imports Shard_Methods Qt_Names
begin

text \<open>
  Tables of the method shards (generated\_methods): the blocks of every shard in the file's order.
\<close>

definition meth_qaxcontainer_0_0 :: "binding list" where
  "meth_qaxcontainer_0_0 = [
     Bind [] ''clear'' [] RVoid [OnObject ''QAxObject'', OnObject ''QAxWidget''],
     Bind [] ''control'' [] RString [OnObject ''QAxObject'', OnObject ''QAxWidget''],
     Bind [] ''doVerb'' [PString True] RBool [OnObject ''QAxObject'', OnObject ''QAxWidget''],
     Bind [ValueM QTCORE_QSIZE] ''minimumSizeHint'' [] (RValue QSize) [OnObject ''QAxWidget''],
     Bind [] ''resetControl'' [] RVoid [OnObject ''QAxObject'', OnObject ''QAxWidget''],
     Bind [] ''setControl'' [PString True] RBool [OnObject ''QAxObject'', OnObject ''QAxWidget'']]"

definition meth_qaxcontainer_0_1 :: "binding list" where
  "meth_qaxcontainer_0_1 = [
     Bind [ValueM QTCORE_QSIZE] ''sizeHint'' [] (RValue QSize) [OnObject ''QAxWidget'']]"

definition meth_qtdbus_0_0 :: "binding list" where
  "meth_qtdbus_0_0 = [
     Bind [] ''addWatchedService'' [PString True] RVoid [OnObject ''QDBusServiceWatcher''],
     Bind [ValueM ''QTDBUS_QDBUSPENDINGCALL''] ''asyncCallWithArgumentList'' [PString True, PVariantList] (RValue QDBusPendingCall) [OnObject QDBusAbstractInterface],
     Bind [TypeM QTDBUS_QDBUSCONNECTION, ValueM QTDBUS_QDBUSCONNECTION] ''connectToBus'' [PConv ''QDBusConnection::BusType'', PString True] (RValue QDBusConnection) [Static QDBusConnection],
     Bind [ValueM QTDBUS_QDBUSCONNECTION] ''connectToBus'' [PString True, PString True] (RValue QDBusConnection) [Static QDBusConnection],
     Bind [ValueM QTDBUS_QDBUSCONNECTION] ''connectToPeer'' [PString True, PString True] (RValue QDBusConnection) [Static QDBusConnection],
     Bind [ValueM QTDBUS_QDBUSCONNECTION] ''connection'' [] (RValue QDBusConnection) [OnObject QDBusAbstractInterface, OnObject ''QDBusServiceWatcher'']]"

definition meth_qtdbus_0_1 :: "binding list" where
  "meth_qtdbus_0_1 = [
     Bind [ValueM ''QTDBUS_QDBUSERROR'', ValueM QTDBUS_QDBUSMESSAGE] ''createError'' [PConv ''QDBusError''] (RValue QDBusMessage) [Static QDBusMessage],
     Bind [TypeM ''QTDBUS_QDBUSERROR'', ValueM QTDBUS_QDBUSMESSAGE] ''createError'' [PConv ''QDBusError::ErrorType'', PString True] (RValue QDBusMessage) [Static QDBusMessage],
     Bind [ValueM QTDBUS_QDBUSMESSAGE] ''createError'' [PString True, PString True] (RValue QDBusMessage) [Static QDBusMessage],
     Bind [ValueM QTDBUS_QDBUSMESSAGE] ''createMethodCall'' [PString True, PString True, PString True, PString True] (RValue QDBusMessage) [Static QDBusMessage],
     Bind [ValueM QTDBUS_QDBUSMESSAGE] ''createSignal'' [PString True, PString True, PString True] (RValue QDBusMessage) [Static QDBusMessage]]"

definition meth_qtdbus_0_2 :: "binding list" where
  "meth_qtdbus_0_2 = [
     Bind [ValueM QTDBUS_QDBUSMESSAGE] ''createTargetedSignal'' [PString True, PString True, PString True, PString True] (RValue QDBusMessage) [Static QDBusMessage],
     Bind [] ''disconnectFromBus'' [PString True] RVoid [Static QDBusConnection],
     Bind [] ''disconnectFromPeer'' [PString True] RVoid [Static QDBusConnection],
     Bind [TypeM ''QTDBUS_QDBUSERROR''] ''errorString'' [PConv ''QDBusError::ErrorType''] RString [Static ''QDBusError''],
     Bind [ValueM QTDBUS_QDBUSMESSAGE, ValueM ''QTDBUS_QDBUSPENDINGCALL''] ''fromCompletedCall'' [PConv QDBusMessage] (RValue QDBusPendingCall) [Static QDBusPendingCall],
     Bind [ValueM ''QTDBUS_QDBUSERROR'', ValueM ''QTDBUS_QDBUSPENDINGCALL''] ''fromError'' [PConv ''QDBusError''] (RValue QDBusPendingCall) [Static QDBusPendingCall],
     Bind [] ''interface'' [] RString [OnObject QDBusAbstractInterface]]"

definition meth_qtdbus_0_3 :: "binding list" where
  "meth_qtdbus_0_3 = [
     Bind [] ''isFinished'' [] RBool [OnObject ''QDBusPendingCallWatcher''],
     Bind [] ''isInteractiveAuthorizationAllowed'' [] RBool [OnObject QDBusAbstractInterface],
     Bind [] ''isSupported'' [] RBool [Static QDBusUnixFileDescriptor],
     Bind [] ''isValid'' [] RBool [OnObject QDBusAbstractInterface],
     Bind [ValueM ''QTDBUS_QDBUSERROR''] ''lastError'' [] (RValue ''QDBusError'') [OnObject QDBusAbstractInterface],
     Bind [ValueM QTCORE_QBYTEARRAY] ''localMachineId'' [] (RValue QByteArray) [Static QDBusConnection],
     Bind [] ''path'' [] RString [OnObject QDBusAbstractInterface],
     Bind [] ''removeWatchedService'' [PString True] RBool [OnObject ''QDBusServiceWatcher'']]"

definition meth_qtdbus_0_4 :: "binding list" where
  "meth_qtdbus_0_4 = [
     Bind [] ''service'' [] RString [OnObject QDBusAbstractInterface],
     Bind [ValueM QTDBUS_QDBUSCONNECTION] ''sessionBus'' [] (RValue QDBusConnection) [Static QDBusConnection],
     Bind [ValueM QTDBUS_QDBUSCONNECTION] ''setConnection'' [PConv QDBusConnection] RVoid [OnObject ''QDBusServiceWatcher''],
     Bind [] ''setInteractiveAuthorizationAllowed'' [PBool] RVoid [OnObject QDBusAbstractInterface],
     Bind [] ''setTimeout'' [PInt] RVoid [OnObject QDBusAbstractInterface],
     Bind [] ''setWatchedServices'' [PStringList] RVoid [OnObject ''QDBusServiceWatcher''],
     Bind [ValueM QTDBUS_QDBUSCONNECTION] ''systemBus'' [] (RValue QDBusConnection) [Static QDBusConnection]]"

definition meth_qtdbus_0_5 :: "binding list" where
  "meth_qtdbus_0_5 = [
     Bind [] ''timeout'' [] RNumber [OnObject QDBusAbstractInterface],
     Bind [] ''waitForFinished'' [] RVoid [OnObject ''QDBusPendingCallWatcher''],
     Bind [] ''watchedServices'' [] (RList (IMeta QString)) [OnObject ''QDBusServiceWatcher'']]"

definition meth_qtdesigner_0_0 :: "binding list" where
  "meth_qtdesigner_0_0 = [
     Bind [TypeM ''QTDESIGNER_QDESIGNERACTIONEDITORINTERFACE''] ''actionEditor'' [] RObject [OnObject QDesignerFormEditorInterface],
     Bind [] ''activeResourceFilePaths'' [] (RList (IMeta QString)) [OnObject ''QDesignerFormWindowInterface''],
     Bind [TypeM ''QTDESIGNER_QDESIGNERFORMEDITORINTERFACE''] ''core'' [] RObject [OnObject ''QDesignerActionEditorInterface'', OnObject ''QDesignerFormWindowInterface'', OnObject ''QDesignerObjectInspectorInterface'', OnObject ''QDesignerPropertyEditorInterface''],
     Bind [TypeM QTCORE_QOBJECT] ''extension'' [PNonNull QObject_ptr, PString True] RObject [OnObject ''QExtensionFactory'', OnObject ''QExtensionManager''],
     Bind [TypeM ''QTDESIGNER_QEXTENSIONMANAGER''] ''extensionManager'' [] RObject [OnObject QDesignerFormEditorInterface, OnObject ''QExtensionFactory''],
     Bind [TypeM QTCORE_QOBJECT, TypeM ''QTDESIGNER_QDESIGNERFORMWINDOWINTERFACE''] ''findFormWindow'' [PNonNull QObject_ptr] RObject [Static ''QDesignerFormWindowInterface'']]"

definition meth_qtdesigner_0_1 :: "binding list" where
  "meth_qtdesigner_0_1 = [
     Bind [TypeM ''QTDESIGNER_QDESIGNERFORMWINDOWINTERFACE'', TypeM QTWIDGETS_QWIDGET] ''findFormWindow'' [PNonNull QWidget_ptr] RObject [Static ''QDesignerFormWindowInterface''],
     Bind [TypeM ''QTDESIGNER_QDESIGNERFORMWINDOWMANAGERINTERFACE''] ''formWindowManager'' [] RObject [OnObject QDesignerFormEditorInterface],
     Bind [TypeM ''QTDESIGNER_QDESIGNEROBJECTINSPECTORINTERFACE''] ''objectInspector'' [] RObject [OnObject QDesignerFormEditorInterface],
     Bind [TypeM ''QTDESIGNER_QDESIGNERPROPERTYEDITORINTERFACE''] ''propertyEditor'' [] RObject [OnObject QDesignerFormEditorInterface],
     Bind [TypeM ''QTDESIGNER_QDESIGNERACTIONEDITORINTERFACE''] ''setActionEditor'' [PNonNull ''QDesignerActionEditorInterface*''] RVoid [OnObject QDesignerFormEditorInterface],
     Bind [TypeM ''QTDESIGNER_QDESIGNEROBJECTINSPECTORINTERFACE''] ''setObjectInspector'' [PNonNull ''QDesignerObjectInspectorInterface*''] RVoid [OnObject QDesignerFormEditorInterface],
     Bind [TypeM ''QTDESIGNER_QDESIGNERPROPERTYEDITORINTERFACE''] ''setPropertyEditor'' [PNonNull ''QDesignerPropertyEditorInterface*''] RVoid [OnObject QDesignerFormEditorInterface]]"

definition meth_qtdesigner_0_2 :: "binding list" where
  "meth_qtdesigner_0_2 = [
     Bind [TypeM ''QTDESIGNER_QDESIGNERWIDGETBOXINTERFACE''] ''setWidgetBox'' [PNonNull ''QDesignerWidgetBoxInterface*''] RVoid [OnObject QDesignerFormEditorInterface],
     Bind [TypeM QTWIDGETS_QWIDGET] ''topLevel'' [] RObject [OnObject QDesignerFormEditorInterface],
     Bind [TypeM ''QTDESIGNER_QDESIGNERWIDGETBOXINTERFACE''] ''widgetBox'' [] RObject [OnObject QDesignerFormEditorInterface]]"

definition meth_qthelp_0_0 :: "binding list" where
  "meth_qthelp_0_0 = [
     Bind [] ''activateCurrentItem'' [] RVoid [OnObject ''QHelpIndexWidget''],
     Bind [] ''activeFilter'' [] RString [OnObject ''QHelpFilterEngine''],
     Bind [TypeM ''QTHELP_QHELPFILTERENGINE''] ''applySettings'' [PNonNull ''QHelpFilterEngine*''] RBool [OnObject ''QHelpFilterSettingsWidget''],
     Bind [] ''autoSaveFilter'' [] RBool [OnObject QHelpEngineCore],
     Bind [] ''availableComponents'' [] (RList (IMeta QString)) [OnObject ''QHelpFilterEngine''],
     Bind [ValueM ''QTCORE_QVERSIONNUMBER''] ''availableVersions'' [] (RList (IValue QVersionNumber)) [OnObject ''QHelpFilterEngine''],
     Bind [] ''cancelIndexing'' [] RVoid [OnObject ''QHelpSearchEngine'', OnObject ''QHelpSearchEngineCore'']]"

definition meth_qthelp_0_1 :: "binding list" where
  "meth_qthelp_0_1 = [
     Bind [] ''cancelSearching'' [] RVoid [OnObject ''QHelpSearchEngine'', OnObject ''QHelpSearchEngineCore''],
     Bind [] ''collapseExtendedSearch'' [] RVoid [OnObject ''QHelpSearchQueryWidget''],
     Bind [] ''collectionFile'' [] RString [OnObject QHelpEngineCore],
     Bind [ValueM QTCORE_QMODELINDEX] ''columnCount'' [PConv QModelIndex] RNumber [OnObject ''QHelpContentModel''],
     Bind [TypeM ''QTHELP_QHELPCONTENTMODEL''] ''contentModel'' [] RObject [OnObject ''QHelpEngine''],
     Bind [TypeM ''QTHELP_QHELPCONTENTWIDGET''] ''contentWidget'' [] RObject [OnObject ''QHelpEngine''],
     Bind [] ''copyCollectionFile'' [PString True] RBool [OnObject QHelpEngineCore]]"

definition meth_qthelp_0_2 :: "binding list" where
  "meth_qthelp_0_2 = [
     Bind [] ''createContents'' [PString True] RVoid [OnObject ''QHelpContentModel''],
     Bind [] ''createContentsForCurrentFilter'' [] RVoid [OnObject ''QHelpContentModel''],
     Bind [] ''createIndex'' [PString True] RVoid [OnObject ''QHelpIndexModel''],
     Bind [] ''createIndexForCurrentFilter'' [] RVoid [OnObject ''QHelpIndexModel''],
     Bind [] ''customValue'' [PString True, PVariant] RVariant [OnObject QHelpEngineCore],
     Bind [ValueM QTCORE_QMODELINDEX] ''data'' [PConv QModelIndex, PInt] RVariant [OnObject ''QHelpContentModel''],
     Bind [] ''documentationFileName'' [PString True] RString [OnObject QHelpEngineCore],
     Bind [] ''error'' [] RString [OnObject QHelpEngineCore]]"

definition meth_qthelp_0_3 :: "binding list" where
  "meth_qthelp_0_3 = [
     Bind [] ''expandExtendedSearch'' [] RVoid [OnObject ''QHelpSearchQueryWidget''],
     Bind [ValueM QTCORE_QBYTEARRAY, ValueM QTCORE_QURL] ''fileData'' [PConv QUrl] (RValue QByteArray) [OnObject QHelpEngineCore],
     Bind [ValueM QTCORE_QURL] ''files'' [PString True, PString True, PString True] (RList (IValue QUrl)) [OnObject QHelpEngineCore],
     Bind [ValueM QTCORE_QMODELINDEX] ''filter'' [PString True, PString True] (RValue QModelIndex) [OnObject ''QHelpIndexModel''],
     Bind [ValueM ''QTHELP_QHELPFILTERDATA''] ''filterData'' [PString True] (RValue ''QHelpFilterData'') [OnObject ''QHelpFilterEngine''],
     Bind [TypeM ''QTHELP_QHELPFILTERENGINE''] ''filterEngine'' [] RObject [OnObject QHelpEngineCore]]"

definition meth_qthelp_0_4 :: "binding list" where
  "meth_qthelp_0_4 = [
     Bind [] ''filterIndices'' [PString True, PString True] RVoid [OnObject ''QHelpIndexWidget''],
     Bind [] ''filters'' [] (RList (IMeta QString)) [OnObject ''QHelpFilterEngine''],
     Bind [ValueM QTCORE_QURL] ''findFile'' [PConv QUrl] (RValue QUrl) [OnObject QHelpEngineCore],
     Bind [ValueM ''QTHELP_QCOMPRESSEDHELPINFO''] ''fromCompressedHelpFile'' [PString True] (RValue QCompressedHelpInfo) [Static QCompressedHelpInfo],
     Bind [TypeM ''QTHELP_QHELPENGINECORE''] ''helpEngine'' [] RObject [OnObject ''QHelpIndexModel''],
     Bind [ValueM QTCORE_QMODELINDEX] ''index'' [PInt, PInt, PConv QModelIndex] (RValue QModelIndex) [OnObject ''QHelpContentModel'']]"

definition meth_qthelp_0_5 :: "binding list" where
  "meth_qthelp_0_5 = [
     Bind [TypeM ''QTHELP_QHELPINDEXMODEL''] ''indexModel'' [] RObject [OnObject ''QHelpEngine''],
     Bind [ValueM QTCORE_QMODELINDEX, ValueM QTCORE_QURL] ''indexOf'' [PConv QUrl] (RValue QModelIndex) [OnObject ''QHelpContentWidget''],
     Bind [TypeM ''QTHELP_QHELPINDEXWIDGET''] ''indexWidget'' [] RObject [OnObject ''QHelpEngine''],
     Bind [] ''indices'' [] (RList (IMeta QString)) [OnObject ''QHelpFilterEngine''],
     Bind [] ''indices'' [PString True] (RList (IMeta QString)) [OnObject ''QHelpFilterEngine''],
     Bind [] ''isCompactMode'' [] RBool [OnObject ''QHelpSearchQueryWidget''],
     Bind [] ''isCreatingContents'' [] RBool [OnObject ''QHelpContentModel''],
     Bind [] ''isCreatingIndex'' [] RBool [OnObject ''QHelpIndexModel'']]"

definition meth_qthelp_0_6 :: "binding list" where
  "meth_qthelp_0_6 = [
     Bind [] ''isReadOnly'' [] RBool [OnObject QHelpEngineCore],
     Bind [ValueM QTCORE_QPOINT, ValueM QTCORE_QURL] ''linkAt'' [PConv QPoint] (RValue QUrl) [OnObject ''QHelpSearchResultWidget''],
     Bind [] ''metaData'' [PString True, PString True] RVariant [Static QHelpEngineCore],
     Bind [] ''namespaceName'' [PString True] RString [Static QHelpEngineCore],
     Bind [] ''namespaceToComponent'' [] (RMap (IMeta QString)) [OnObject ''QHelpFilterEngine''],
     Bind [] ''namespacesForFilter'' [PString True] (RList (IMeta QString)) [OnObject ''QHelpFilterEngine''],
     Bind [ValueM QTCORE_QMODELINDEX] ''parent'' [PConv QModelIndex] (RValue QModelIndex) [OnObject ''QHelpContentModel'']]"

definition meth_qthelp_0_7 :: "binding list" where
  "meth_qthelp_0_7 = [
     Bind [TypeM ''QTHELP_QHELPSEARCHQUERYWIDGET''] ''queryWidget'' [] RObject [OnObject ''QHelpSearchEngine''],
     Bind [TypeM ''QTHELP_QHELPFILTERENGINE''] ''readSettings'' [PNonNull ''QHelpFilterEngine*''] RVoid [OnObject ''QHelpFilterSettingsWidget''],
     Bind [] ''registerDocumentation'' [PString True] RBool [OnObject QHelpEngineCore],
     Bind [] ''registeredDocumentations'' [] (RList (IMeta QString)) [OnObject QHelpEngineCore],
     Bind [] ''reindexDocumentation'' [] RVoid [OnObject ''QHelpSearchEngine'', OnObject ''QHelpSearchEngineCore''],
     Bind [] ''removeCustomValue'' [PString True] RBool [OnObject QHelpEngineCore],
     Bind [] ''removeFilter'' [PString True] RBool [OnObject ''QHelpFilterEngine'']]"

definition meth_qthelp_0_8 :: "binding list" where
  "meth_qthelp_0_8 = [
     Bind [TypeM ''QTHELP_QHELPSEARCHRESULTWIDGET''] ''resultWidget'' [] RObject [OnObject ''QHelpSearchEngine''],
     Bind [ValueM QTCORE_QMODELINDEX] ''rowCount'' [PConv QModelIndex] RNumber [OnObject ''QHelpContentModel''],
     Bind [] ''search'' [PString True] RVoid [OnObject ''QHelpSearchEngine'', OnObject ''QHelpSearchEngineCore''],
     Bind [TypeM ''QTHELP_QHELPSEARCHENGINE''] ''searchEngine'' [] RObject [OnObject ''QHelpEngine''],
     Bind [] ''searchInput'' [] RString [OnObject ''QHelpSearchEngine'', OnObject ''QHelpSearchEngineCore'', OnObject ''QHelpSearchQueryWidget''],
     Bind [] ''searchResultCount'' [] RNumber [OnObject ''QHelpSearchEngine'', OnObject ''QHelpSearchEngineCore'']]"

definition meth_qthelp_0_9 :: "binding list" where
  "meth_qthelp_0_9 = [
     Bind [ValueM ''QTHELP_QHELPSEARCHRESULT''] ''searchResults'' [PInt, PInt] (RList (IValue ''QHelpSearchResult'')) [OnObject ''QHelpSearchEngine'', OnObject ''QHelpSearchEngineCore''],
     Bind [] ''setActiveFilter'' [PString True] RBool [OnObject ''QHelpFilterEngine''],
     Bind [] ''setAutoSaveFilter'' [PBool] RVoid [OnObject QHelpEngineCore],
     Bind [] ''setAvailableComponents'' [PStringList] RVoid [OnObject ''QHelpFilterSettingsWidget''],
     Bind [ValueM ''QTCORE_QVERSIONNUMBER''] ''setAvailableVersions'' [PListV QVersionNumber] RVoid [OnObject ''QHelpFilterSettingsWidget''],
     Bind [] ''setCollectionFile'' [PString True] RVoid [OnObject QHelpEngineCore]]"

definition meth_qthelp_0_10 :: "binding list" where
  "meth_qthelp_0_10 = [
     Bind [] ''setCompactMode'' [PBool] RVoid [OnObject ''QHelpSearchQueryWidget''],
     Bind [] ''setCustomValue'' [PString True, PVariant] RBool [OnObject QHelpEngineCore],
     Bind [ValueM ''QTHELP_QHELPFILTERDATA''] ''setFilterData'' [PString True, PConv ''QHelpFilterData''] RBool [OnObject ''QHelpFilterEngine''],
     Bind [] ''setReadOnly'' [PBool] RVoid [OnObject QHelpEngineCore],
     Bind [] ''setSearchInput'' [PString True] RVoid [OnObject ''QHelpSearchQueryWidget''],
     Bind [] ''setUsesFilterEngine'' [PBool] RVoid [OnObject QHelpEngineCore],
     Bind [] ''setupData'' [] RBool [OnObject QHelpEngineCore]]"

definition meth_qthelp_0_11 :: "binding list" where
  "meth_qthelp_0_11 = [
     Bind [] ''unregisterDocumentation'' [PString True] RBool [OnObject QHelpEngineCore],
     Bind [] ''usesFilterEngine'' [] RBool [OnObject QHelpEngineCore]]"

definition meth_qtmultimedia_0_0 :: "binding list" where
  "meth_qtmultimedia_0_0 = [
     Bind [] ''activeAudioTrack'' [] RNumber [OnObject QMediaPlayer],
     Bind [] ''activeSubtitleTrack'' [] RNumber [OnObject QMediaPlayer],
     Bind [] ''activeVideoTrack'' [] RNumber [OnObject QMediaPlayer],
     Bind [ValueM QTCORE_QURL] ''actualLocation'' [] (RValue QUrl) [OnObject QMediaRecorder],
     Bind [ValueM QTMULTIMEDIA_QMEDIAMETADATA] ''addMetaData'' [PConv ''QMediaMetaData''] RVoid [OnObject QImageCapture],
     Bind [] ''audioBitRate'' [] RNumber [OnObject QMediaRecorder],
     Bind [TypeM ''QTMULTIMEDIA_QAUDIOBUFFERINPUT''] ''audioBufferInput'' [] RObject [OnObject QMediaCaptureSession],
     Bind [TypeM ''QTMULTIMEDIA_QAUDIOBUFFEROUTPUT''] ''audioBufferOutput'' [] RObject [OnObject QMediaPlayer]]"

definition meth_qtmultimedia_0_1 :: "binding list" where
  "meth_qtmultimedia_0_1 = [
     Bind [] ''audioChannelCount'' [] RNumber [OnObject QMediaRecorder],
     Bind [TypeM QTMULTIMEDIA_QMEDIAFORMAT] ''audioCodecDescription'' [PConv ''QMediaFormat::AudioCodec''] RString [Static QMediaFormat],
     Bind [TypeM QTMULTIMEDIA_QMEDIAFORMAT] ''audioCodecName'' [PConv ''QMediaFormat::AudioCodec''] RString [Static QMediaFormat],
     Bind [ValueM QTMULTIMEDIA_QAUDIODEVICE] ''audioDevice'' [] (RValue QAudioDevice) [OnObject QSoundEffect],
     Bind [ValueM QTMULTIMEDIA_QAUDIOFORMAT] ''audioFormat'' [] (RValue QAudioFormat) [OnObject QAudioDecoder],
     Bind [TypeM ''QTMULTIMEDIA_QAUDIOINPUT''] ''audioInput'' [] RObject [OnObject QMediaCaptureSession],
     Bind [ValueM QTMULTIMEDIA_QAUDIODEVICE] ''audioInputs'' [] (RList (IValue QAudioDevice)) [Static ''QMediaDevices'']]"

definition meth_qtmultimedia_0_2 :: "binding list" where
  "meth_qtmultimedia_0_2 = [
     Bind [TypeM ''QTMULTIMEDIA_QAUDIOOUTPUT''] ''audioOutput'' [] RObject [OnObject QMediaCaptureSession, OnObject QMediaPlayer],
     Bind [ValueM QTMULTIMEDIA_QAUDIODEVICE] ''audioOutputs'' [] (RList (IValue QAudioDevice)) [Static ''QMediaDevices''],
     Bind [] ''audioSampleRate'' [] RNumber [OnObject QMediaRecorder],
     Bind [ValueM QTMULTIMEDIA_QMEDIAMETADATA] ''audioTracks'' [] (RList (IValue ''QMediaMetaData'')) [OnObject QMediaPlayer],
     Bind [] ''autoStop'' [] RBool [OnObject QMediaRecorder],
     Bind [] ''bufferAvailable'' [] RBool [OnObject QAudioDecoder],
     Bind [] ''bufferFrameCount'' [] (RMeta ''qsizetype'') [OnObject ''QAudioSink'', OnObject QAudioSource]]"

definition meth_qtmultimedia_0_3 :: "binding list" where
  "meth_qtmultimedia_0_3 = [
     Bind [] ''bufferProgress'' [] RNumber [OnObject QMediaPlayer],
     Bind [] ''bufferSize'' [] (RMeta ''qsizetype'') [OnObject ''QAudioSink'', OnObject QAudioSource],
     Bind [ValueM QTMULTIMEDIA_QMEDIATIMERANGE] ''bufferedTimeRange'' [] (RValue QMediaTimeRange) [OnObject QMediaPlayer],
     Bind [] ''bytesAvailable'' [] (RMeta ''qsizetype'') [OnObject QAudioSource],
     Bind [] ''bytesFree'' [] (RMeta ''qsizetype'') [OnObject ''QAudioSink''],
     Bind [TypeM QTMULTIMEDIA_QCAMERA] ''camera'' [] RObject [OnObject QMediaCaptureSession],
     Bind [ValueM QTMULTIMEDIA_QCAMERADEVICE] ''cameraDevice'' [] (RValue QCameraDevice) [OnObject QCamera],
     Bind [ValueM ''QTMULTIMEDIA_QCAMERAFORMAT''] ''cameraFormat'' [] (RValue ''QCameraFormat'') [OnObject QCamera]]"

definition meth_qtmultimedia_0_4 :: "binding list" where
  "meth_qtmultimedia_0_4 = [
     Bind [ValueM ''QTMULTIMEDIA_QCAPTURABLEWINDOW''] ''capturableWindows'' [] (RList (IValue QCapturableWindow)) [Static ''QWindowCapture''],
     Bind [] ''capture'' [] RNumber [OnObject QImageCapture],
     Bind [TypeM ''QTMULTIMEDIA_QMEDIACAPTURESESSION''] ''captureSession'' [] RObject [OnObject ''QAudioBufferInput'', OnObject QCamera, OnObject QImageCapture, OnObject QMediaRecorder, OnObject ''QScreenCapture'', OnObject ''QVideoFrameInput''],
     Bind [] ''captureToFile'' [PString True] RNumber [OnObject QImageCapture],
     Bind [] ''colorTemperature'' [] RNumber [OnObject QCamera],
     Bind [ValueM QTCORE_QPOINTF] ''customFocusPoint'' [] (RValue QPointF) [OnObject QCamera]]"

definition meth_qtmultimedia_0_5 :: "binding list" where
  "meth_qtmultimedia_0_5 = [
     Bind [ValueM QTMULTIMEDIA_QAUDIODEVICE] ''defaultAudioInput'' [] (RValue QAudioDevice) [Static ''QMediaDevices''],
     Bind [ValueM QTMULTIMEDIA_QAUDIODEVICE] ''defaultAudioOutput'' [] (RValue QAudioDevice) [Static ''QMediaDevices''],
     Bind [TypeM QTMULTIMEDIA_QAUDIOFORMAT] ''defaultChannelConfigForChannelCount'' [PInt] (RMeta ''QAudioFormat::ChannelConfig'') [Static QAudioFormat],
     Bind [ValueM QTMULTIMEDIA_QCAMERADEVICE] ''defaultVideoInput'' [] (RValue QCameraDevice) [Static ''QMediaDevices''],
     Bind [ValueM QTMULTIMEDIA_QAUDIODEVICE] ''device'' [] (RValue QAudioDevice) [OnObject ''QAudioInput'', OnObject ''QAudioOutput''],
     Bind [] ''duration'' [] (RMeta ''qint64'') [OnObject QAudioDecoder, OnObject QMediaPlayer, OnObject QMediaRecorder]]"

definition meth_qtmultimedia_0_6 :: "binding list" where
  "meth_qtmultimedia_0_6 = [
     Bind [] ''elapsedUSecs'' [] (RMeta ''qint64'') [OnObject ''QAudioSink'', OnObject QAudioSource],
     Bind [TypeM ''QTMULTIMEDIA_QMEDIARECORDER''] ''encodingMode'' [] (RMeta ''QMediaRecorder::EncodingMode'') [OnObject QMediaRecorder],
     Bind [TypeM ''QTMULTIMEDIA_QAUDIODECODER''] ''error'' [] (RMeta ''QAudioDecoder::Error'') [OnObject QAudioDecoder],
     Bind [TypeM QTMULTIMEDIA_QCAMERA] ''error'' [] (RMeta ''QCamera::Error'') [OnObject QCamera],
     Bind [TypeM QTMULTIMEDIA_QIMAGECAPTURE] ''error'' [] (RMeta ''QImageCapture::Error'') [OnObject QImageCapture],
     Bind [TypeM ''QTMULTIMEDIA_QMEDIAPLAYER''] ''error'' [] (RMeta ''QMediaPlayer::Error'') [OnObject QMediaPlayer],
     Bind [TypeM ''QTMULTIMEDIA_QMEDIARECORDER''] ''error'' [] (RMeta ''QMediaRecorder::Error'') [OnObject QMediaRecorder],
     Bind [TypeM ''QTMULTIMEDIA_QSCREENCAPTURE''] ''error'' [] (RMeta ''QScreenCapture::Error'') [OnObject ''QScreenCapture'']]"

definition meth_qtmultimedia_0_7 :: "binding list" where
  "meth_qtmultimedia_0_7 = [
     Bind [TypeM ''QTMULTIMEDIA_QWINDOWCAPTURE''] ''error'' [] (RMeta ''QWindowCapture::Error'') [OnObject ''QWindowCapture''],
     Bind [] ''errorString'' [] RString [OnObject QAudioDecoder, OnObject QCamera, OnObject QImageCapture, OnObject QMediaPlayer, OnObject QMediaRecorder, OnObject ''QScreenCapture'', OnObject ''QWindowCapture''],
     Bind [] ''exposureCompensation'' [] RNumber [OnObject QCamera],
     Bind [TypeM QTMULTIMEDIA_QCAMERA] ''exposureMode'' [] (RMeta ''QCamera::ExposureMode'') [OnObject QCamera],
     Bind [] ''exposureTime'' [] RNumber [OnObject QCamera],
     Bind [TypeM QTMULTIMEDIA_QIMAGECAPTURE] ''fileFormat'' [] (RMeta ''QImageCapture::FileFormat'') [OnObject QImageCapture]]"

definition meth_qtmultimedia_0_8 :: "binding list" where
  "meth_qtmultimedia_0_8 = [
     Bind [TypeM QTMULTIMEDIA_QIMAGECAPTURE] ''fileFormatDescription'' [PConv ''QImageCapture::FileFormat''] RString [Static QImageCapture],
     Bind [TypeM QTMULTIMEDIA_QMEDIAFORMAT] ''fileFormatDescription'' [PConv ''QMediaFormat::FileFormat''] RString [Static QMediaFormat],
     Bind [TypeM QTMULTIMEDIA_QIMAGECAPTURE] ''fileFormatName'' [PConv ''QImageCapture::FileFormat''] RString [Static QImageCapture],
     Bind [TypeM QTMULTIMEDIA_QMEDIAFORMAT] ''fileFormatName'' [PConv ''QMediaFormat::FileFormat''] RString [Static QMediaFormat],
     Bind [TypeM QTMULTIMEDIA_QCAMERA] ''flashMode'' [] (RMeta ''QCamera::FlashMode'') [OnObject QCamera],
     Bind [] ''focusDistance'' [] RNumber [OnObject QCamera],
     Bind [TypeM QTMULTIMEDIA_QCAMERA] ''focusMode'' [] (RMeta ''QCamera::FocusMode'') [OnObject QCamera]]"

definition meth_qtmultimedia_0_9 :: "binding list" where
  "meth_qtmultimedia_0_9 = [
     Bind [ValueM QTCORE_QPOINTF] ''focusPoint'' [] (RValue QPointF) [OnObject QCamera],
     Bind [ValueM QTMULTIMEDIA_QAUDIOFORMAT] ''format'' [] (RValue QAudioFormat) [OnObject ''QAudioBufferInput'', OnObject ''QAudioBufferOutput'', OnObject ''QAudioSink'', OnObject QAudioSource],
     Bind [ValueM QTMULTIMEDIA_QVIDEOFRAMEFORMAT] ''format'' [] (RValue QVideoFrameFormat) [OnObject ''QVideoFrameInput''],
     Bind [] ''framesAvailable'' [] (RMeta ''qsizetype'') [OnObject QAudioSource],
     Bind [] ''framesFree'' [] (RMeta ''qsizetype'') [OnObject ''QAudioSink''],
     Bind [] ''hasAudio'' [] RBool [OnObject QMediaPlayer],
     Bind [] ''hasVideo'' [] RBool [OnObject QMediaPlayer]]"

definition meth_qtmultimedia_0_10 :: "binding list" where
  "meth_qtmultimedia_0_10 = [
     Bind [TypeM QTMULTIMEDIA_QIMAGECAPTURE] ''imageCapture'' [] RObject [OnObject QMediaCaptureSession],
     Bind [TypeM QTGUI_QIMAGE, TypeM QTMULTIMEDIA_QVIDEOFRAMEFORMAT] ''imageFormatFromPixelFormat'' [PConv ''QVideoFrameFormat::PixelFormat''] (RMeta ''QImage::Format'') [Static QVideoFrameFormat],
     Bind [] ''isActive'' [] RBool [OnObject QCamera, OnObject ''QScreenCapture'', OnObject ''QWindowCapture''],
     Bind [] ''isAvailable'' [] RBool [OnObject QCamera, OnObject QImageCapture, OnObject QMediaPlayer, OnObject QMediaRecorder],
     Bind [] ''isDecoding'' [] RBool [OnObject QAudioDecoder],
     Bind [TypeM QTMULTIMEDIA_QCAMERA] ''isExposureModeSupported'' [PConv ''QCamera::ExposureMode''] RBool [OnObject QCamera]]"

definition meth_qtmultimedia_0_11 :: "binding list" where
  "meth_qtmultimedia_0_11 = [
     Bind [TypeM QTMULTIMEDIA_QCAMERA] ''isFlashModeSupported'' [PConv ''QCamera::FlashMode''] RBool [OnObject QCamera],
     Bind [] ''isFlashReady'' [] RBool [OnObject QCamera],
     Bind [TypeM QTMULTIMEDIA_QCAMERA] ''isFocusModeSupported'' [PConv ''QCamera::FocusMode''] RBool [OnObject QCamera],
     Bind [] ''isLoaded'' [] RBool [OnObject QSoundEffect],
     Bind [] ''isMuted'' [] RBool [OnObject ''QAudioInput'', OnObject ''QAudioOutput'', OnObject QSoundEffect],
     Bind [] ''isPlaying'' [] RBool [OnObject QMediaPlayer, OnObject QSoundEffect],
     Bind [] ''isReadyForCapture'' [] RBool [OnObject QImageCapture]]"

definition meth_qtmultimedia_0_12 :: "binding list" where
  "meth_qtmultimedia_0_12 = [
     Bind [] ''isSeekable'' [] RBool [OnObject QMediaPlayer],
     Bind [] ''isSupported'' [] RBool [OnObject QAudioDecoder],
     Bind [TypeM QTMULTIMEDIA_QCAMERA] ''isTorchModeSupported'' [PConv ''QCamera::TorchMode''] RBool [OnObject QCamera],
     Bind [TypeM QTMULTIMEDIA_QCAMERA] ''isWhiteBalanceModeSupported'' [PConv ''QCamera::WhiteBalanceMode''] RBool [OnObject QCamera],
     Bind [] ''isoSensitivity'' [] RNumber [OnObject QCamera],
     Bind [] ''loopCount'' [] RNumber [OnObject QSoundEffect],
     Bind [] ''loops'' [] RNumber [OnObject QMediaPlayer],
     Bind [] ''loopsRemaining'' [] RNumber [OnObject QSoundEffect]]"

definition meth_qtmultimedia_0_13 :: "binding list" where
  "meth_qtmultimedia_0_13 = [
     Bind [] ''manualExposureTime'' [] RNumber [OnObject QCamera],
     Bind [] ''manualIsoSensitivity'' [] RNumber [OnObject QCamera],
     Bind [] ''maximumExposureTime'' [] RNumber [OnObject QCamera],
     Bind [] ''maximumIsoSensitivity'' [] RNumber [OnObject QCamera],
     Bind [] ''maximumZoomFactor'' [] RNumber [OnObject QCamera],
     Bind [ValueM QTMULTIMEDIA_QMEDIAFORMAT] ''mediaFormat'' [] (RValue QMediaFormat) [OnObject QMediaRecorder],
     Bind [TypeM ''QTMULTIMEDIA_QMEDIAPLAYER''] ''mediaStatus'' [] (RMeta ''QMediaPlayer::MediaStatus'') [OnObject QMediaPlayer]]"

definition meth_qtmultimedia_0_14 :: "binding list" where
  "meth_qtmultimedia_0_14 = [
     Bind [ValueM QTMULTIMEDIA_QMEDIAMETADATA] ''metaData'' [] (RValue ''QMediaMetaData'') [OnObject QImageCapture, OnObject QMediaPlayer, OnObject QMediaRecorder],
     Bind [TypeM QTMULTIMEDIA_QMEDIAMETADATA] ''metaDataKeyToString'' [PConv ''QMediaMetaData::Key''] RString [Static ''QMediaMetaData''],
     Bind [] ''minimumExposureTime'' [] RNumber [OnObject QCamera],
     Bind [] ''minimumIsoSensitivity'' [] RNumber [OnObject QCamera],
     Bind [] ''minimumZoomFactor'' [] RNumber [OnObject QCamera],
     Bind [TypeM QTCORE_QIODEVICE] ''outputDevice'' [] RObject [OnObject QMediaRecorder],
     Bind [ValueM QTCORE_QURL] ''outputLocation'' [] (RValue QUrl) [OnObject QMediaRecorder]]"

definition meth_qtmultimedia_0_15 :: "binding list" where
  "meth_qtmultimedia_0_15 = [
     Bind [] ''pause'' [] RVoid [OnObject QMediaPlayer, OnObject QMediaRecorder],
     Bind [] ''pitchCompensation'' [] RBool [OnObject QMediaPlayer],
     Bind [TypeM ''QTMULTIMEDIA_QMEDIAPLAYER''] ''pitchCompensationAvailability'' [] (RMeta ''QMediaPlayer::PitchCompensationAvailability'') [OnObject QMediaPlayer],
     Bind [TypeM QTGUI_QIMAGE, TypeM QTMULTIMEDIA_QVIDEOFRAMEFORMAT] ''pixelFormatFromImageFormat'' [PConv ''QImage::Format''] (RMeta ''QVideoFrameFormat::PixelFormat'') [Static QVideoFrameFormat],
     Bind [TypeM QTMULTIMEDIA_QVIDEOFRAMEFORMAT] ''pixelFormatToString'' [PConv ''QVideoFrameFormat::PixelFormat''] RString [Static QVideoFrameFormat],
     Bind [] ''play'' [] RVoid [OnObject QMediaPlayer, OnObject QSoundEffect],
     Bind [ValueM ''QTMULTIMEDIA_QPLAYBACKOPTIONS''] ''playbackOptions'' [] (RValue QPlaybackOptions) [OnObject QMediaPlayer]]"

definition meth_qtmultimedia_0_16 :: "binding list" where
  "meth_qtmultimedia_0_16 = [
     Bind [] ''playbackRate'' [] RNumber [OnObject QMediaPlayer],
     Bind [TypeM ''QTMULTIMEDIA_QMEDIAPLAYER''] ''playbackState'' [] (RMeta ''QMediaPlayer::PlaybackState'') [OnObject QMediaPlayer],
     Bind [] ''position'' [] (RMeta ''qint64'') [OnObject QAudioDecoder, OnObject QMediaPlayer],
     Bind [] ''processedUSecs'' [] (RMeta ''qint64'') [OnObject ''QAudioSink'', OnObject QAudioSource],
     Bind [TypeM QTMULTIMEDIA_QIMAGECAPTURE] ''quality'' [] (RMeta ''QImageCapture::Quality'') [OnObject QImageCapture],
     Bind [TypeM ''QTMULTIMEDIA_QMEDIARECORDER''] ''quality'' [] (RMeta ''QMediaRecorder::Quality'') [OnObject QMediaRecorder],
     Bind [ValueM ''QTMULTIMEDIA_QAUDIOBUFFER''] ''read'' [] (RValue QAudioBuffer) [OnObject QAudioDecoder]]"

definition meth_qtmultimedia_0_17 :: "binding list" where
  "meth_qtmultimedia_0_17 = [
     Bind [] ''record'' [] RVoid [OnObject QMediaRecorder],
     Bind [TypeM ''QTMULTIMEDIA_QMEDIARECORDER''] ''recorder'' [] RObject [OnObject QMediaCaptureSession],
     Bind [TypeM ''QTMULTIMEDIA_QMEDIARECORDER''] ''recorderState'' [] (RMeta ''QMediaRecorder::RecorderState'') [OnObject QMediaRecorder],
     Bind [] ''reset'' [] RVoid [OnObject ''QAudioSink'', OnObject QAudioSource],
     Bind [] ''resetPlaybackOptions'' [] RVoid [OnObject QMediaPlayer],
     Bind [ValueM QTCORE_QSIZE] ''resolution'' [] (RValue QSize) [OnObject QImageCapture],
     Bind [] ''resume'' [] RVoid [OnObject ''QAudioSink'', OnObject QAudioSource]]"

definition meth_qtmultimedia_0_18 :: "binding list" where
  "meth_qtmultimedia_0_18 = [
     Bind [TypeM QTGUI_QSCREEN] ''screen'' [] RObject [OnObject ''QScreenCapture''],
     Bind [TypeM ''QTMULTIMEDIA_QSCREENCAPTURE''] ''screenCapture'' [] RObject [OnObject QMediaCaptureSession],
     Bind [ValueM ''QTMULTIMEDIA_QAUDIOBUFFER''] ''sendAudioBuffer'' [PConv QAudioBuffer] RBool [OnObject ''QAudioBufferInput''],
     Bind [ValueM ''QTMULTIMEDIA_QVIDEOFRAME''] ''sendVideoFrame'' [PConv QVideoFrame] RBool [OnObject ''QVideoFrameInput''],
     Bind [] ''setActive'' [PBool] RVoid [OnObject QCamera, OnObject ''QScreenCapture'', OnObject ''QWindowCapture''],
     Bind [] ''setActiveAudioTrack'' [PInt] RVoid [OnObject QMediaPlayer]]"

definition meth_qtmultimedia_0_19 :: "binding list" where
  "meth_qtmultimedia_0_19 = [
     Bind [] ''setActiveSubtitleTrack'' [PInt] RVoid [OnObject QMediaPlayer],
     Bind [] ''setActiveVideoTrack'' [PInt] RVoid [OnObject QMediaPlayer],
     Bind [] ''setAudioBitRate'' [PInt] RVoid [OnObject QMediaRecorder],
     Bind [TypeM ''QTMULTIMEDIA_QAUDIOBUFFERINPUT''] ''setAudioBufferInput'' [PNonNull ''QAudioBufferInput*''] RVoid [OnObject QMediaCaptureSession],
     Bind [TypeM ''QTMULTIMEDIA_QAUDIOBUFFEROUTPUT''] ''setAudioBufferOutput'' [PNonNull ''QAudioBufferOutput*''] RVoid [OnObject QMediaPlayer],
     Bind [] ''setAudioChannelCount'' [PInt] RVoid [OnObject QMediaRecorder],
     Bind [ValueM QTMULTIMEDIA_QAUDIODEVICE] ''setAudioDevice'' [PConv QAudioDevice] RVoid [OnObject QSoundEffect]]"

definition meth_qtmultimedia_0_20 :: "binding list" where
  "meth_qtmultimedia_0_20 = [
     Bind [ValueM QTMULTIMEDIA_QAUDIOFORMAT] ''setAudioFormat'' [PConv QAudioFormat] RVoid [OnObject QAudioDecoder],
     Bind [TypeM ''QTMULTIMEDIA_QAUDIOINPUT''] ''setAudioInput'' [PNonNull ''QAudioInput*''] RVoid [OnObject QMediaCaptureSession],
     Bind [TypeM ''QTMULTIMEDIA_QAUDIOOUTPUT''] ''setAudioOutput'' [PNonNull ''QAudioOutput*''] RVoid [OnObject QMediaCaptureSession, OnObject QMediaPlayer],
     Bind [] ''setAudioSampleRate'' [PInt] RVoid [OnObject QMediaRecorder],
     Bind [] ''setAutoExposureTime'' [] RVoid [OnObject QCamera],
     Bind [] ''setAutoIsoSensitivity'' [] RVoid [OnObject QCamera],
     Bind [] ''setAutoStop'' [PBool] RVoid [OnObject QMediaRecorder]]"

definition meth_qtmultimedia_0_21 :: "binding list" where
  "meth_qtmultimedia_0_21 = [
     Bind [] ''setBufferFrameCount'' [PWide ''qsizetype''] RVoid [OnObject ''QAudioSink'', OnObject QAudioSource],
     Bind [] ''setBufferSize'' [PWide ''qsizetype''] RVoid [OnObject ''QAudioSink'', OnObject QAudioSource],
     Bind [TypeM QTMULTIMEDIA_QCAMERA] ''setCamera'' [PNonNull ''QCamera*''] RVoid [OnObject QMediaCaptureSession],
     Bind [ValueM QTMULTIMEDIA_QCAMERADEVICE] ''setCameraDevice'' [PConv QCameraDevice] RVoid [OnObject QCamera],
     Bind [ValueM ''QTMULTIMEDIA_QCAMERAFORMAT''] ''setCameraFormat'' [PConv ''QCameraFormat''] RVoid [OnObject QCamera],
     Bind [] ''setColorTemperature'' [PInt] RVoid [OnObject QCamera]]"

definition meth_qtmultimedia_0_22 :: "binding list" where
  "meth_qtmultimedia_0_22 = [
     Bind [ValueM QTCORE_QPOINTF] ''setCustomFocusPoint'' [PConv QPointF] RVoid [OnObject QCamera],
     Bind [ValueM QTMULTIMEDIA_QAUDIODEVICE] ''setDevice'' [PConv QAudioDevice] RVoid [OnObject ''QAudioInput'', OnObject ''QAudioOutput''],
     Bind [TypeM ''QTMULTIMEDIA_QMEDIARECORDER''] ''setEncodingMode'' [PConv ''QMediaRecorder::EncodingMode''] RVoid [OnObject QMediaRecorder],
     Bind [] ''setExposureCompensation'' [PReal ''float''] RVoid [OnObject QCamera],
     Bind [TypeM QTMULTIMEDIA_QCAMERA] ''setExposureMode'' [PConv ''QCamera::ExposureMode''] RVoid [OnObject QCamera],
     Bind [TypeM QTMULTIMEDIA_QIMAGECAPTURE] ''setFileFormat'' [PConv ''QImageCapture::FileFormat''] RVoid [OnObject QImageCapture]]"

definition meth_qtmultimedia_0_23 :: "binding list" where
  "meth_qtmultimedia_0_23 = [
     Bind [TypeM QTMULTIMEDIA_QCAMERA] ''setFlashMode'' [PConv ''QCamera::FlashMode''] RVoid [OnObject QCamera],
     Bind [] ''setFocusDistance'' [PReal ''float''] RVoid [OnObject QCamera],
     Bind [TypeM QTMULTIMEDIA_QCAMERA] ''setFocusMode'' [PConv ''QCamera::FocusMode''] RVoid [OnObject QCamera],
     Bind [TypeM QTMULTIMEDIA_QIMAGECAPTURE] ''setImageCapture'' [PNonNull ''QImageCapture*''] RVoid [OnObject QMediaCaptureSession],
     Bind [] ''setLoopCount'' [PInt] RVoid [OnObject QSoundEffect],
     Bind [] ''setLoops'' [PInt] RVoid [OnObject QMediaPlayer],
     Bind [] ''setManualExposureTime'' [PReal ''float''] RVoid [OnObject QCamera]]"

definition meth_qtmultimedia_0_24 :: "binding list" where
  "meth_qtmultimedia_0_24 = [
     Bind [] ''setManualIsoSensitivity'' [PInt] RVoid [OnObject QCamera],
     Bind [ValueM QTMULTIMEDIA_QMEDIAFORMAT] ''setMediaFormat'' [PConv QMediaFormat] RVoid [OnObject QMediaRecorder],
     Bind [ValueM QTMULTIMEDIA_QMEDIAMETADATA] ''setMetaData'' [PConv ''QMediaMetaData''] RVoid [OnObject QImageCapture, OnObject QMediaRecorder],
     Bind [] ''setMuted'' [PBool] RVoid [OnObject ''QAudioInput'', OnObject ''QAudioOutput'', OnObject QSoundEffect],
     Bind [TypeM QTCORE_QIODEVICE] ''setOutputDevice'' [PNonNull QIODevice_ptr] RVoid [OnObject QMediaRecorder],
     Bind [ValueM QTCORE_QURL] ''setOutputLocation'' [PConv QUrl] RVoid [OnObject QMediaRecorder]]"

definition meth_qtmultimedia_0_25 :: "binding list" where
  "meth_qtmultimedia_0_25 = [
     Bind [] ''setPitchCompensation'' [PBool] RVoid [OnObject QMediaPlayer],
     Bind [ValueM ''QTMULTIMEDIA_QPLAYBACKOPTIONS''] ''setPlaybackOptions'' [PConv QPlaybackOptions] RVoid [OnObject QMediaPlayer],
     Bind [] ''setPlaybackRate'' [PReal ''qreal''] RVoid [OnObject QMediaPlayer],
     Bind [] ''setPosition'' [PWide ''qint64''] RVoid [OnObject QMediaPlayer],
     Bind [TypeM QTMULTIMEDIA_QIMAGECAPTURE] ''setQuality'' [PConv ''QImageCapture::Quality''] RVoid [OnObject QImageCapture],
     Bind [TypeM ''QTMULTIMEDIA_QMEDIARECORDER''] ''setQuality'' [PConv ''QMediaRecorder::Quality''] RVoid [OnObject QMediaRecorder],
     Bind [TypeM ''QTMULTIMEDIA_QMEDIARECORDER''] ''setRecorder'' [PNonNull ''QMediaRecorder*''] RVoid [OnObject QMediaCaptureSession]]"

definition meth_qtmultimedia_0_26 :: "binding list" where
  "meth_qtmultimedia_0_26 = [
     Bind [ValueM QTCORE_QSIZE] ''setResolution'' [PConv QSize] RVoid [OnObject QImageCapture],
     Bind [] ''setResolution'' [PInt, PInt] RVoid [OnObject QImageCapture],
     Bind [TypeM QTGUI_QSCREEN] ''setScreen'' [PNonNull ''QScreen*''] RVoid [OnObject ''QScreenCapture''],
     Bind [TypeM ''QTMULTIMEDIA_QSCREENCAPTURE''] ''setScreenCapture'' [PNonNull ''QScreenCapture*''] RVoid [OnObject QMediaCaptureSession],
     Bind [ValueM QTCORE_QURL] ''setSource'' [PConv QUrl] RVoid [OnObject QAudioDecoder, OnObject QMediaPlayer, OnObject QSoundEffect],
     Bind [TypeM QTCORE_QIODEVICE] ''setSourceDevice'' [PNonNull QIODevice_ptr] RVoid [OnObject QAudioDecoder]]"

definition meth_qtmultimedia_0_27 :: "binding list" where
  "meth_qtmultimedia_0_27 = [
     Bind [TypeM QTCORE_QIODEVICE, ValueM QTCORE_QURL] ''setSourceDevice'' [PNonNull QIODevice_ptr, PConv QUrl] RVoid [OnObject QMediaPlayer],
     Bind [] ''setSubtitleText'' [PString True] RVoid [OnObject ''QVideoSink''],
     Bind [TypeM QTMULTIMEDIA_QCAMERA] ''setTorchMode'' [PConv ''QCamera::TorchMode''] RVoid [OnObject QCamera],
     Bind [] ''setVideoBitRate'' [PInt] RVoid [OnObject QMediaRecorder],
     Bind [ValueM ''QTMULTIMEDIA_QVIDEOFRAME''] ''setVideoFrame'' [PConv QVideoFrame] RVoid [OnObject ''QVideoSink''],
     Bind [TypeM ''QTMULTIMEDIA_QVIDEOFRAMEINPUT''] ''setVideoFrameInput'' [PNonNull ''QVideoFrameInput*''] RVoid [OnObject QMediaCaptureSession]]"

definition meth_qtmultimedia_0_28 :: "binding list" where
  "meth_qtmultimedia_0_28 = [
     Bind [] ''setVideoFrameRate'' [PReal ''qreal''] RVoid [OnObject QMediaRecorder],
     Bind [TypeM QTCORE_QOBJECT] ''setVideoOutput'' [PNonNull QObject_ptr] RVoid [OnObject QMediaCaptureSession, OnObject QMediaPlayer],
     Bind [ValueM QTCORE_QSIZE] ''setVideoResolution'' [PConv QSize] RVoid [OnObject QMediaRecorder],
     Bind [] ''setVideoResolution'' [PInt, PInt] RVoid [OnObject QMediaRecorder],
     Bind [TypeM ''QTMULTIMEDIA_QVIDEOSINK''] ''setVideoSink'' [PNonNull ''QVideoSink*''] RVoid [OnObject QMediaCaptureSession, OnObject QMediaPlayer]]"

definition meth_qtmultimedia_0_29 :: "binding list" where
  "meth_qtmultimedia_0_29 = [
     Bind [] ''setVolume'' [PReal ''float''] RVoid [OnObject ''QAudioInput'', OnObject ''QAudioOutput'', OnObject QSoundEffect],
     Bind [] ''setVolume'' [PReal ''qreal''] RVoid [OnObject ''QAudioSink'', OnObject QAudioSource],
     Bind [TypeM QTMULTIMEDIA_QCAMERA] ''setWhiteBalanceMode'' [PConv ''QCamera::WhiteBalanceMode''] RVoid [OnObject QCamera],
     Bind [ValueM ''QTMULTIMEDIA_QCAPTURABLEWINDOW''] ''setWindow'' [PConv QCapturableWindow] RVoid [OnObject ''QWindowCapture''],
     Bind [TypeM ''QTMULTIMEDIA_QWINDOWCAPTURE''] ''setWindowCapture'' [PNonNull ''QWindowCapture*''] RVoid [OnObject QMediaCaptureSession],
     Bind [] ''setZoomFactor'' [PReal ''float''] RVoid [OnObject QCamera]]"

definition meth_qtmultimedia_0_30 :: "binding list" where
  "meth_qtmultimedia_0_30 = [
     Bind [ValueM QTCORE_QURL] ''source'' [] (RValue QUrl) [OnObject QAudioDecoder, OnObject QMediaPlayer, OnObject QSoundEffect],
     Bind [TypeM QTCORE_QIODEVICE] ''sourceDevice'' [] RObject [OnObject QAudioDecoder, OnObject QMediaPlayer],
     Bind [TypeM QTCORE_QIODEVICE] ''start'' [] RObject [OnObject ''QAudioSink'', OnObject QAudioSource],
     Bind [] ''start'' [] RVoid [OnObject QAudioDecoder, OnObject QCamera, OnObject ''QScreenCapture'', OnObject ''QWindowCapture'']]"

definition meth_qtmultimedia_0_31 :: "binding list" where
  "meth_qtmultimedia_0_31 = [
     Bind [TypeM QTCORE_QIODEVICE] ''start'' [PNonNull QIODevice_ptr] RVoid [OnObject ''QAudioSink'', OnObject QAudioSource],
     Bind [TypeM ''QTMULTIMEDIA_QSOUNDEFFECT''] ''status'' [] (RMeta ''QSoundEffect::Status'') [OnObject QSoundEffect],
     Bind [] ''stop'' [] RVoid [OnObject QAudioDecoder, OnObject ''QAudioSink'', OnObject QAudioSource, OnObject QCamera, OnObject QMediaPlayer, OnObject QMediaRecorder, OnObject ''QScreenCapture'', OnObject QSoundEffect, OnObject ''QWindowCapture''],
     Bind [] ''subtitleText'' [] RString [OnObject ''QVideoSink'']]"

definition meth_qtmultimedia_0_32 :: "binding list" where
  "meth_qtmultimedia_0_32 = [
     Bind [ValueM QTMULTIMEDIA_QMEDIAMETADATA] ''subtitleTracks'' [] (RList (IValue ''QMediaMetaData'')) [OnObject QMediaPlayer],
     Bind [TypeM QTMULTIMEDIA_QCAMERA] ''supportedFeatures'' [] (RMeta ''QCamera::Features'') [OnObject QCamera],
     Bind [TypeM QTMULTIMEDIA_QIMAGECAPTURE] ''supportedFormats'' [] (RList (IMeta ''QImageCapture::FileFormat'')) [Static QImageCapture],
     Bind [] ''supportedMimeTypes'' [] (RList (IMeta QString)) [Static QSoundEffect],
     Bind [] ''suspend'' [] RVoid [OnObject ''QAudioSink'', OnObject QAudioSource],
     Bind [TypeM QTMULTIMEDIA_QCAMERA] ''torchMode'' [] (RMeta ''QCamera::TorchMode'') [OnObject QCamera],
     Bind [] ''videoBitRate'' [] RNumber [OnObject QMediaRecorder]]"

definition meth_qtmultimedia_0_33 :: "binding list" where
  "meth_qtmultimedia_0_33 = [
     Bind [TypeM QTMULTIMEDIA_QMEDIAFORMAT] ''videoCodecDescription'' [PConv ''QMediaFormat::VideoCodec''] RString [Static QMediaFormat],
     Bind [TypeM QTMULTIMEDIA_QMEDIAFORMAT] ''videoCodecName'' [PConv ''QMediaFormat::VideoCodec''] RString [Static QMediaFormat],
     Bind [ValueM ''QTMULTIMEDIA_QVIDEOFRAME''] ''videoFrame'' [] (RValue QVideoFrame) [OnObject ''QVideoSink''],
     Bind [TypeM ''QTMULTIMEDIA_QVIDEOFRAMEINPUT''] ''videoFrameInput'' [] RObject [OnObject QMediaCaptureSession],
     Bind [] ''videoFrameRate'' [] RNumber [OnObject QMediaRecorder],
     Bind [ValueM QTMULTIMEDIA_QCAMERADEVICE] ''videoInputs'' [] (RList (IValue QCameraDevice)) [Static ''QMediaDevices''],
     Bind [TypeM QTCORE_QOBJECT] ''videoOutput'' [] RObject [OnObject QMediaCaptureSession, OnObject QMediaPlayer]]"

definition meth_qtmultimedia_0_34 :: "binding list" where
  "meth_qtmultimedia_0_34 = [
     Bind [ValueM QTCORE_QSIZE] ''videoResolution'' [] (RValue QSize) [OnObject QMediaRecorder],
     Bind [TypeM ''QTMULTIMEDIA_QVIDEOSINK''] ''videoSink'' [] RObject [OnObject QMediaCaptureSession, OnObject QMediaPlayer],
     Bind [ValueM QTCORE_QSIZE] ''videoSize'' [] (RValue QSize) [OnObject ''QVideoSink''],
     Bind [ValueM QTMULTIMEDIA_QMEDIAMETADATA] ''videoTracks'' [] (RList (IValue ''QMediaMetaData'')) [OnObject QMediaPlayer],
     Bind [] ''volume'' [] RNumber [OnObject ''QAudioInput'', OnObject ''QAudioOutput'', OnObject QSoundEffect],
     Bind [] ''volume'' [] RNumber [OnObject ''QAudioSink'', OnObject QAudioSource]]"

definition meth_qtmultimedia_0_35 :: "binding list" where
  "meth_qtmultimedia_0_35 = [
     Bind [TypeM QTMULTIMEDIA_QCAMERA] ''whiteBalanceMode'' [] (RMeta ''QCamera::WhiteBalanceMode'') [OnObject QCamera],
     Bind [ValueM ''QTMULTIMEDIA_QCAPTURABLEWINDOW''] ''window'' [] (RValue QCapturableWindow) [OnObject ''QWindowCapture''],
     Bind [TypeM ''QTMULTIMEDIA_QWINDOWCAPTURE''] ''windowCapture'' [] RObject [OnObject QMediaCaptureSession],
     Bind [] ''zoomFactor'' [] RNumber [OnObject QCamera],
     Bind [] ''zoomTo'' [PReal ''float'', PReal ''float''] RVoid [OnObject QCamera]]"

definition meth_qtmultimediawidgets_0_0 :: "binding list" where
  "meth_qtmultimediawidgets_0_0 = [
     Bind [EnumM QT_ASPECTRATIOMODE] ''aspectRatioMode'' [] (RMeta Qt_AspectRatioMode) [OnObject ''QGraphicsVideoItem'', OnObject ''QVideoWidget''],
     Bind [ValueM QTCORE_QRECTF] ''boundingRect'' [] (RValue QRectF) [OnObject ''QGraphicsVideoItem''],
     Bind [] ''isFullScreen'' [] RBool [OnObject ''QVideoWidget''],
     Bind [ValueM QTCORE_QSIZEF] ''nativeSize'' [] (RValue QSizeF) [OnObject ''QGraphicsVideoItem''],
     Bind [ValueM QTCORE_QPOINTF] ''offset'' [] (RValue QPointF) [OnObject ''QGraphicsVideoItem''],
     Bind [EnumM QT_ASPECTRATIOMODE] ''setAspectRatioMode'' [PConv Qt_AspectRatioMode] RVoid [OnObject ''QGraphicsVideoItem'', OnObject ''QVideoWidget''],
     Bind [] ''setFullScreen'' [PBool] RVoid [OnObject ''QVideoWidget'']]"

definition meth_qtmultimediawidgets_0_1 :: "binding list" where
  "meth_qtmultimediawidgets_0_1 = [
     Bind [ValueM QTCORE_QPOINTF] ''setOffset'' [PConv QPointF] RVoid [OnObject ''QGraphicsVideoItem''],
     Bind [ValueM QTCORE_QSIZEF] ''setSize'' [PConv QSizeF] RVoid [OnObject ''QGraphicsVideoItem''],
     Bind [ValueM QTCORE_QSIZEF] ''size'' [] (RValue QSizeF) [OnObject ''QGraphicsVideoItem''],
     Bind [ValueM QTCORE_QSIZE] ''sizeHint'' [] (RValue QSize) [OnObject ''QVideoWidget''],
     Bind [] ''type'' [] RNumber [OnObject ''QGraphicsVideoItem''],
     Bind [TypeM ''QTMULTIMEDIA_QVIDEOSINK''] ''videoSink'' [] RObject [OnObject ''QGraphicsVideoItem'', OnObject ''QVideoWidget'']]"

definition meth_qtnetworkauth_0_0 :: "binding list" where
  "meth_qtnetworkauth_0_0 = [
     Bind [ValueM QTCORE_QURL] ''accessTokenUrl'' [] (RValue QUrl) [OnObject QOAuth2AuthorizationCodeFlow],
     Bind [ValueM QTCORE_QURL] ''authorizationUrl'' [] (RValue QUrl) [OnObject ''QAbstractOAuth''],
     Bind [] ''callback'' [] RString [OnObject QOAuthHttpServerReplyHandler, OnObject ''QOAuthOobReplyHandler''],
     Bind [] ''callbackPath'' [] RString [OnObject QOAuthHttpServerReplyHandler],
     Bind [] ''callbackText'' [] RString [OnObject QOAuthHttpServerReplyHandler],
     Bind [] ''clientIdentifier'' [] RString [OnObject ''QAbstractOAuth''],
     Bind [] ''clientIdentifierSharedKey'' [] RString [OnObject QAbstractOAuth2],
     Bind [] ''clientSharedSecret'' [] RString [OnObject ''QOAuth1'']]"

definition meth_qtnetworkauth_0_1 :: "binding list" where
  "meth_qtnetworkauth_0_1 = [
     Bind [] ''close'' [] RVoid [OnObject QOAuthHttpServerReplyHandler],
     Bind [TypeM ''QTNETWORKAUTH_QABSTRACTOAUTH''] ''contentType'' [] (RMeta ''QAbstractOAuth::ContentType'') [OnObject ''QAbstractOAuth''],
     Bind [] ''continueGrantWithVerifier'' [PString True] RVoid [OnObject ''QOAuth1''],
     Bind [ValueM QTCORE_QDATETIME] ''expirationAt'' [] (RValue QDateTime) [OnObject QAbstractOAuth2],
     Bind [] ''extraTokens'' [] (RMap IVariant) [OnObject ''QAbstractOAuth''],
     Bind [] ''grant'' [] RVoid [OnObject ''QOAuth1'', OnObject QOAuth2AuthorizationCodeFlow],
     Bind [] ''isListening'' [] RBool [OnObject QOAuthHttpServerReplyHandler]]"

definition meth_qtnetworkauth_0_2 :: "binding list" where
  "meth_qtnetworkauth_0_2 = [
     Bind [TypeM QTNETWORK_QNETWORKACCESSMANAGER] ''networkAccessManager'' [] RObject [OnObject ''QAbstractOAuth''],
     Bind [ValueM QTCORE_QBYTEARRAY] ''plainText'' [PString True, PString True] (RValue QByteArray) [Static QOAuth1Signature],
     Bind [TypeM QTNETWORK_QNETWORKREPLY, ValueM QTCORE_QBYTEARRAY, ValueM QTCORE_QURL] ''post'' [PConv QUrl, PConv QByteArray] RObject [OnObject QAbstractOAuth2],
     Bind [TypeM ''QTNETWORK_QHTTPMULTIPART'', TypeM QTNETWORK_QNETWORKREPLY, ValueM QTCORE_QURL] ''post'' [PConv QUrl, PNonNull ''QHttpMultiPart*''] RObject [OnObject QAbstractOAuth2],
     Bind [TypeM QTNETWORK_QNETWORKREPLY, ValueM QTCORE_QBYTEARRAY, ValueM QTCORE_QURL] ''put'' [PConv QUrl, PConv QByteArray] RObject [OnObject QAbstractOAuth2],
     Bind [TypeM ''QTNETWORK_QHTTPMULTIPART'', TypeM QTNETWORK_QNETWORKREPLY, ValueM QTCORE_QURL] ''put'' [PConv QUrl, PNonNull ''QHttpMultiPart*''] RObject [OnObject QAbstractOAuth2]]"

definition meth_qtnetworkauth_0_3 :: "binding list" where
  "meth_qtnetworkauth_0_3 = [
     Bind [] ''refreshAccessToken'' [] RVoid [OnObject QOAuth2AuthorizationCodeFlow],
     Bind [] ''refreshToken'' [] RString [OnObject QAbstractOAuth2],
     Bind [TypeM ''QTNETWORKAUTH_QABSTRACTOAUTHREPLYHANDLER''] ''replyHandler'' [] RObject [OnObject ''QAbstractOAuth''],
     Bind [] ''responseType'' [] RString [OnObject QAbstractOAuth2],
     Bind [] ''scope'' [] RString [OnObject QAbstractOAuth2],
     Bind [ValueM QTCORE_QURL] ''setAccessTokenUrl'' [PConv QUrl] RVoid [OnObject QOAuth2AuthorizationCodeFlow],
     Bind [ValueM QTCORE_QURL] ''setAuthorizationUrl'' [PConv QUrl] RVoid [OnObject ''QAbstractOAuth''],
     Bind [] ''setCallbackPath'' [PString True] RVoid [OnObject QOAuthHttpServerReplyHandler]]"

definition meth_qtnetworkauth_0_4 :: "binding list" where
  "meth_qtnetworkauth_0_4 = [
     Bind [] ''setCallbackText'' [PString True] RVoid [OnObject QOAuthHttpServerReplyHandler],
     Bind [] ''setClientCredentials'' [PString True, PString True] RVoid [OnObject ''QOAuth1''],
     Bind [] ''setClientIdentifier'' [PString True] RVoid [OnObject ''QAbstractOAuth''],
     Bind [] ''setClientIdentifierSharedKey'' [PString True] RVoid [OnObject QAbstractOAuth2],
     Bind [] ''setClientSharedSecret'' [PString True] RVoid [OnObject ''QOAuth1''],
     Bind [TypeM ''QTNETWORKAUTH_QABSTRACTOAUTH''] ''setContentType'' [PConv ''QAbstractOAuth::ContentType''] RVoid [OnObject ''QAbstractOAuth''],
     Bind [TypeM QTNETWORK_QNETWORKACCESSMANAGER] ''setNetworkAccessManager'' [PNonNull ''QNetworkAccessManager*''] RVoid [OnObject ''QAbstractOAuth'']]"

definition meth_qtnetworkauth_0_5 :: "binding list" where
  "meth_qtnetworkauth_0_5 = [
     Bind [] ''setRefreshToken'' [PString True] RVoid [OnObject QAbstractOAuth2],
     Bind [TypeM ''QTNETWORKAUTH_QABSTRACTOAUTHREPLYHANDLER''] ''setReplyHandler'' [PNonNull ''QAbstractOAuthReplyHandler*''] RVoid [OnObject ''QAbstractOAuth''],
     Bind [] ''setScope'' [PString True] RVoid [OnObject QAbstractOAuth2],
     Bind [TypeM ''QTNETWORKAUTH_QOAUTH1''] ''setSignatureMethod'' [PConv ''QOAuth1::SignatureMethod''] RVoid [OnObject ''QOAuth1''],
     Bind [] ''setState'' [PString True] RVoid [OnObject QAbstractOAuth2],
     Bind [ValueM QTCORE_QURL] ''setTemporaryCredentialsUrl'' [PConv QUrl] RVoid [OnObject ''QOAuth1''],
     Bind [] ''setToken'' [PString True] RVoid [OnObject ''QAbstractOAuth'']]"

definition meth_qtnetworkauth_0_6 :: "binding list" where
  "meth_qtnetworkauth_0_6 = [
     Bind [] ''setTokenCredentials'' [PString True, PString True] RVoid [OnObject ''QOAuth1''],
     Bind [ValueM QTCORE_QURL] ''setTokenCredentialsUrl'' [PConv QUrl] RVoid [OnObject ''QOAuth1''],
     Bind [] ''setTokenSecret'' [PString True] RVoid [OnObject ''QOAuth1''],
     Bind [] ''setUserAgent'' [PString True] RVoid [OnObject QAbstractOAuth2],
     Bind [TypeM ''QTNETWORKAUTH_QOAUTH1''] ''signatureMethod'' [] (RMeta ''QOAuth1::SignatureMethod'') [OnObject ''QOAuth1''],
     Bind [] ''state'' [] RString [OnObject QAbstractOAuth2],
     Bind [TypeM ''QTNETWORKAUTH_QABSTRACTOAUTH''] ''status'' [] (RMeta ''QAbstractOAuth::Status'') [OnObject ''QAbstractOAuth'']]"

definition meth_qtnetworkauth_0_7 :: "binding list" where
  "meth_qtnetworkauth_0_7 = [
     Bind [ValueM QTCORE_QURL] ''temporaryCredentialsUrl'' [] (RValue QUrl) [OnObject ''QOAuth1''],
     Bind [] ''token'' [] RString [OnObject ''QAbstractOAuth''],
     Bind [ValueM QTCORE_QURL] ''tokenCredentialsUrl'' [] (RValue QUrl) [OnObject ''QOAuth1''],
     Bind [] ''tokenSecret'' [] RString [OnObject ''QOAuth1''],
     Bind [] ''userAgent'' [] RString [OnObject QAbstractOAuth2]]"

definition meth_qtpdf_0_0 :: "binding list" where
  "meth_qtpdf_0_0 = [
     Bind [] ''back'' [] RVoid [OnObject ''QPdfPageNavigator''],
     Bind [] ''backAvailable'' [] RBool [OnObject ''QPdfPageNavigator''],
     Bind [] ''clear'' [] RVoid [OnObject ''QPdfPageNavigator''],
     Bind [] ''close'' [] RVoid [OnObject ''QPdfDocument''],
     Bind [ValueM QTCORE_QMODELINDEX] ''columnCount'' [PConv QModelIndex] RNumber [OnObject ''QPdfBookmarkModel''],
     Bind [] ''count'' [] RNumber [OnObject ''QPdfSearchModel''],
     Bind [ValueM QTCORE_QPOINTF] ''currentLocation'' [] (RValue QPointF) [OnObject ''QPdfPageNavigator''],
     Bind [] ''currentPage'' [] RNumber [OnObject ''QPdfPageNavigator'']]"

definition meth_qtpdf_0_1 :: "binding list" where
  "meth_qtpdf_0_1 = [
     Bind [] ''currentZoom'' [] RNumber [OnObject ''QPdfPageNavigator''],
     Bind [ValueM QTCORE_QMODELINDEX] ''data'' [PConv QModelIndex, PInt] RVariant [OnObject ''QPdfBookmarkModel'', OnObject ''QPdfLinkModel'', OnObject ''QPdfSearchModel''],
     Bind [TypeM ''QTPDF_QPDFDOCUMENT''] ''document'' [] RObject [OnObject ''QPdfBookmarkModel'', OnObject ''QPdfLinkModel'', OnObject ''QPdfPageRenderer'', OnObject ''QPdfSearchModel''],
     Bind [TypeM ''QTPDF_QPDFDOCUMENT''] ''error'' [] (RMeta ''QPdfDocument::Error'') [OnObject ''QPdfDocument''],
     Bind [] ''forward'' [] RVoid [OnObject ''QPdfPageNavigator''],
     Bind [] ''forwardAvailable'' [] RBool [OnObject ''QPdfPageNavigator'']]"

definition meth_qtpdf_0_2 :: "binding list" where
  "meth_qtpdf_0_2 = [
     Bind [ValueM ''QTPDF_QPDFSELECTION''] ''getAllText'' [PInt] (RValue QPdfSelection) [OnObject ''QPdfDocument''],
     Bind [ValueM QTCORE_QPOINTF, ValueM ''QTPDF_QPDFSELECTION''] ''getSelection'' [PInt, PConv QPointF, PConv QPointF] (RValue QPdfSelection) [OnObject ''QPdfDocument''],
     Bind [ValueM ''QTPDF_QPDFSELECTION''] ''getSelectionAtIndex'' [PInt, PInt, PInt] (RValue QPdfSelection) [OnObject ''QPdfDocument''],
     Bind [ValueM QTCORE_QMODELINDEX] ''index'' [PInt, PInt, PConv QModelIndex] (RValue QModelIndex) [OnObject ''QPdfBookmarkModel''],
     Bind [ValueM ''QTPDF_QPDFLINK''] ''jump'' [PConv ''QPdfLink''] RVoid [OnObject ''QPdfPageNavigator'']]"

definition meth_qtpdf_0_3 :: "binding list" where
  "meth_qtpdf_0_3 = [
     Bind [ValueM QTCORE_QPOINTF] ''jump'' [PInt, PConv QPointF, PReal ''qreal''] RVoid [OnObject ''QPdfPageNavigator''],
     Bind [ValueM QTCORE_QPOINTF, ValueM ''QTPDF_QPDFLINK''] ''linkAt'' [PConv QPointF] (RValue ''QPdfLink'') [OnObject ''QPdfLinkModel''],
     Bind [TypeM QTCORE_QIODEVICE] ''load'' [PNonNull QIODevice_ptr] RVoid [OnObject ''QPdfDocument''],
     Bind [TypeM ''QTPDF_QPDFDOCUMENT''] ''load'' [PString True] (RMeta ''QPdfDocument::Error'') [OnObject ''QPdfDocument''],
     Bind [TypeM ''QTPDF_QPDFDOCUMENT''] ''metaData'' [PConv ''QPdfDocument::MetaDataField''] RVariant [OnObject ''QPdfDocument''],
     Bind [] ''page'' [] RNumber [OnObject ''QPdfLinkModel''],
     Bind [] ''pageCount'' [] RNumber [OnObject ''QPdfDocument'']]"

definition meth_qtpdf_0_4 :: "binding list" where
  "meth_qtpdf_0_4 = [
     Bind [] ''pageIndexForLabel'' [PString True] RNumber [OnObject ''QPdfDocument''],
     Bind [] ''pageLabel'' [PInt] RString [OnObject ''QPdfDocument''],
     Bind [TypeM ''QTCORE_QABSTRACTLISTMODEL''] ''pageModel'' [] RObject [OnObject ''QPdfDocument''],
     Bind [ValueM QTCORE_QSIZEF] ''pagePointSize'' [PInt] (RValue QSizeF) [OnObject ''QPdfDocument''],
     Bind [ValueM QTCORE_QMODELINDEX] ''parent'' [PConv QModelIndex] (RValue QModelIndex) [OnObject ''QPdfBookmarkModel''],
     Bind [] ''password'' [] RString [OnObject ''QPdfDocument''],
     Bind [ValueM QTCORE_QSIZE, ValueM QTGUI_QIMAGE, ValueM ''QTPDF_QPDFDOCUMENTRENDEROPTIONS''] ''render'' [PInt, PConv QSize, PConv QPdfDocumentRenderOptions] (RValue QImage) [OnObject ''QPdfDocument'']]"

definition meth_qtpdf_0_5 :: "binding list" where
  "meth_qtpdf_0_5 = [
     Bind [TypeM ''QTPDF_QPDFPAGERENDERER''] ''renderMode'' [] (RMeta ''QPdfPageRenderer::RenderMode'') [OnObject ''QPdfPageRenderer''],
     Bind [ValueM QTCORE_QSIZE, ValueM ''QTPDF_QPDFDOCUMENTRENDEROPTIONS''] ''requestPage'' [PInt, PConv QSize, PConv QPdfDocumentRenderOptions] (RMeta ''quint64'') [OnObject ''QPdfPageRenderer''],
     Bind [ValueM ''QTPDF_QPDFLINK''] ''resultAtIndex'' [PInt] (RValue ''QPdfLink'') [OnObject ''QPdfSearchModel''],
     Bind [ValueM ''QTPDF_QPDFLINK''] ''resultsOnPage'' [PInt] (RList (IValue ''QPdfLink'')) [OnObject ''QPdfSearchModel''],
     Bind [ValueM QTCORE_QMODELINDEX] ''rowCount'' [PConv QModelIndex] RNumber [OnObject ''QPdfBookmarkModel'', OnObject ''QPdfLinkModel'', OnObject ''QPdfSearchModel''],
     Bind [] ''searchString'' [] RString [OnObject ''QPdfSearchModel'']]"

definition meth_qtpdf_0_6 :: "binding list" where
  "meth_qtpdf_0_6 = [
     Bind [TypeM ''QTPDF_QPDFDOCUMENT''] ''setDocument'' [PNonNull ''QPdfDocument*''] RVoid [OnObject ''QPdfBookmarkModel'', OnObject ''QPdfLinkModel'', OnObject ''QPdfPageRenderer'', OnObject ''QPdfSearchModel''],
     Bind [] ''setPage'' [PInt] RVoid [OnObject ''QPdfLinkModel''],
     Bind [] ''setPassword'' [PString True] RVoid [OnObject ''QPdfDocument''],
     Bind [TypeM ''QTPDF_QPDFPAGERENDERER''] ''setRenderMode'' [PConv ''QPdfPageRenderer::RenderMode''] RVoid [OnObject ''QPdfPageRenderer''],
     Bind [] ''setSearchString'' [PString True] RVoid [OnObject ''QPdfSearchModel''],
     Bind [TypeM ''QTPDF_QPDFDOCUMENT''] ''status'' [] (RMeta ''QPdfDocument::Status'') [OnObject ''QPdfDocument'']]"

definition meth_qtpdf_0_7 :: "binding list" where
  "meth_qtpdf_0_7 = [
     Bind [ValueM QTCORE_QPOINTF] ''update'' [PInt, PConv QPointF, PReal ''qreal''] RVoid [OnObject ''QPdfPageNavigator'']]"

definition meth_qtpdfwidgets_0_0 :: "binding list" where
  "meth_qtpdfwidgets_0_0 = [
     Bind [] ''currentPage'' [] RNumber [OnObject ''QPdfPageSelector''],
     Bind [] ''currentPageLabel'' [] RString [OnObject ''QPdfPageSelector''],
     Bind [] ''currentSearchResultIndex'' [] RNumber [OnObject ''QPdfView''],
     Bind [TypeM ''QTPDF_QPDFDOCUMENT''] ''document'' [] RObject [OnObject ''QPdfPageSelector'', OnObject ''QPdfView''],
     Bind [ValueM QTCORE_QMARGINS] ''documentMargins'' [] (RValue QMargins) [OnObject ''QPdfView''],
     Bind [TypeM ''QTPDFWIDGETS_QPDFVIEW''] ''pageMode'' [] (RMeta ''QPdfView::PageMode'') [OnObject ''QPdfView''],
     Bind [TypeM ''QTPDF_QPDFPAGENAVIGATOR''] ''pageNavigator'' [] RObject [OnObject ''QPdfView''],
     Bind [] ''pageSpacing'' [] RNumber [OnObject ''QPdfView'']]"

definition meth_qtpdfwidgets_0_1 :: "binding list" where
  "meth_qtpdfwidgets_0_1 = [
     Bind [TypeM ''QTPDF_QPDFSEARCHMODEL''] ''searchModel'' [] RObject [OnObject ''QPdfView''],
     Bind [] ''setCurrentPage'' [PInt] RVoid [OnObject ''QPdfPageSelector''],
     Bind [] ''setCurrentSearchResultIndex'' [PInt] RVoid [OnObject ''QPdfView''],
     Bind [TypeM ''QTPDF_QPDFDOCUMENT''] ''setDocument'' [PNonNull ''QPdfDocument*''] RVoid [OnObject ''QPdfPageSelector'', OnObject ''QPdfView''],
     Bind [ValueM QTCORE_QMARGINS] ''setDocumentMargins'' [PConv QMargins] RVoid [OnObject ''QPdfView''],
     Bind [TypeM ''QTPDFWIDGETS_QPDFVIEW''] ''setPageMode'' [PConv ''QPdfView::PageMode''] RVoid [OnObject ''QPdfView'']]"

definition meth_qtpdfwidgets_0_2 :: "binding list" where
  "meth_qtpdfwidgets_0_2 = [
     Bind [] ''setPageSpacing'' [PInt] RVoid [OnObject ''QPdfView''],
     Bind [TypeM ''QTPDF_QPDFSEARCHMODEL''] ''setSearchModel'' [PNonNull ''QPdfSearchModel*''] RVoid [OnObject ''QPdfView''],
     Bind [] ''setZoomFactor'' [PReal ''qreal''] RVoid [OnObject ''QPdfView''],
     Bind [TypeM ''QTPDFWIDGETS_QPDFVIEW''] ''setZoomMode'' [PConv ''QPdfView::ZoomMode''] RVoid [OnObject ''QPdfView''],
     Bind [] ''zoomFactor'' [] RNumber [OnObject ''QPdfView''],
     Bind [TypeM ''QTPDFWIDGETS_QPDFVIEW''] ''zoomMode'' [] (RMeta ''QPdfView::ZoomMode'') [OnObject ''QPdfView'']]"

definition meth_qtpositioning_0_0 :: "binding list" where
  "meth_qtpositioning_0_0 = [
     Bind [] ''availableSources'' [] (RList (IMeta QString)) [Static ''QGeoAreaMonitorSource'', Static ''QGeoPositionInfoSource'', Static QGeoSatelliteInfoSource],
     Bind [] ''backendProperty'' [PString True] RVariant [OnObject ''QGeoAreaMonitorSource'', OnObject ''QGeoPositionInfoSource'', OnObject QGeoSatelliteInfoSource, OnObject QNmeaSatelliteInfoSource],
     Bind [TypeM QTCORE_QOBJECT, TypeM ''QTPOSITIONING_QGEOAREAMONITORSOURCE''] ''createDefaultSource'' [PNonNull QObject_ptr] RObject [Static ''QGeoAreaMonitorSource''],
     Bind [TypeM QTCORE_QOBJECT, TypeM ''QTPOSITIONING_QGEOPOSITIONINFOSOURCE''] ''createDefaultSource'' [PNonNull QObject_ptr] RObject [Static ''QGeoPositionInfoSource''],
     Bind [TypeM QTCORE_QOBJECT, TypeM ''QTPOSITIONING_QGEOSATELLITEINFOSOURCE''] ''createDefaultSource'' [PNonNull QObject_ptr] RObject [Static QGeoSatelliteInfoSource]]"

definition meth_qtpositioning_0_1 :: "binding list" where
  "meth_qtpositioning_0_1 = [
     Bind [TypeM QTCORE_QOBJECT, TypeM ''QTPOSITIONING_QGEOAREAMONITORSOURCE''] ''createSource'' [PString True, PNonNull QObject_ptr] RObject [Static ''QGeoAreaMonitorSource''],
     Bind [TypeM QTCORE_QOBJECT, TypeM ''QTPOSITIONING_QGEOPOSITIONINFOSOURCE''] ''createSource'' [PString True, PNonNull QObject_ptr] RObject [Static ''QGeoPositionInfoSource''],
     Bind [TypeM QTCORE_QOBJECT, TypeM ''QTPOSITIONING_QGEOSATELLITEINFOSOURCE''] ''createSource'' [PString True, PNonNull QObject_ptr] RObject [Static QGeoSatelliteInfoSource],
     Bind [TypeM QTCORE_QIODEVICE] ''device'' [] RObject [OnObject QNmeaPositionInfoSource, OnObject QNmeaSatelliteInfoSource],
     Bind [TypeM ''QTPOSITIONING_QGEOPOSITIONINFOSOURCE''] ''error'' [] (RMeta ''QGeoPositionInfoSource::Error'') [OnObject QNmeaPositionInfoSource],
     Bind [TypeM ''QTPOSITIONING_QGEOSATELLITEINFOSOURCE''] ''error'' [] (RMeta ''QGeoSatelliteInfoSource::Error'') [OnObject QNmeaSatelliteInfoSource]]"

definition meth_qtpositioning_0_2 :: "binding list" where
  "meth_qtpositioning_0_2 = [
     Bind [ValueM ''QTPOSITIONING_QGEOPOSITIONINFO''] ''lastKnownPosition'' [PBool] (RValue QGeoPositionInfo) [OnObject QNmeaPositionInfoSource],
     Bind [] ''minimumUpdateInterval'' [] RNumber [OnObject QNmeaPositionInfoSource, OnObject QNmeaSatelliteInfoSource],
     Bind [TypeM ''QTPOSITIONING_QGEOPOSITIONINFOSOURCE''] ''positionInfoSource'' [] RObject [OnObject ''QGeoAreaMonitorSource''],
     Bind [] ''requestUpdate'' [PInt] RVoid [OnObject QNmeaPositionInfoSource, OnObject QNmeaSatelliteInfoSource],
     Bind [] ''setBackendProperty'' [PString True, PVariant] RBool [OnObject ''QGeoAreaMonitorSource'', OnObject ''QGeoPositionInfoSource'', OnObject QGeoSatelliteInfoSource, OnObject QNmeaSatelliteInfoSource]]"

definition meth_qtpositioning_0_3 :: "binding list" where
  "meth_qtpositioning_0_3 = [
     Bind [TypeM QTCORE_QIODEVICE] ''setDevice'' [PNonNull QIODevice_ptr] RVoid [OnObject QNmeaPositionInfoSource, OnObject QNmeaSatelliteInfoSource],
     Bind [TypeM ''QTPOSITIONING_QGEOPOSITIONINFOSOURCE''] ''setPositionInfoSource'' [PNonNull ''QGeoPositionInfoSource*''] RVoid [OnObject ''QGeoAreaMonitorSource''],
     Bind [] ''setUpdateInterval'' [PInt] RVoid [OnObject ''QGeoPositionInfoSource'', OnObject QGeoSatelliteInfoSource, OnObject QNmeaPositionInfoSource, OnObject QNmeaSatelliteInfoSource],
     Bind [] ''setUserEquivalentRangeError'' [PReal ''double''] RVoid [OnObject QNmeaPositionInfoSource],
     Bind [] ''sourceName'' [] RString [OnObject ''QGeoAreaMonitorSource'', OnObject ''QGeoPositionInfoSource'', OnObject QGeoSatelliteInfoSource]]"

definition meth_qtpositioning_0_4 :: "binding list" where
  "meth_qtpositioning_0_4 = [
     Bind [] ''startUpdates'' [] RVoid [OnObject QNmeaPositionInfoSource, OnObject QNmeaSatelliteInfoSource],
     Bind [] ''stopUpdates'' [] RVoid [OnObject QNmeaPositionInfoSource, OnObject QNmeaSatelliteInfoSource],
     Bind [] ''updateInterval'' [] RNumber [OnObject ''QGeoPositionInfoSource'', OnObject QGeoSatelliteInfoSource],
     Bind [TypeM ''QTPOSITIONING_QNMEAPOSITIONINFOSOURCE''] ''updateMode'' [] (RMeta ''QNmeaPositionInfoSource::UpdateMode'') [OnObject QNmeaPositionInfoSource],
     Bind [TypeM ''QTPOSITIONING_QNMEASATELLITEINFOSOURCE''] ''updateMode'' [] (RMeta ''QNmeaSatelliteInfoSource::UpdateMode'') [OnObject QNmeaSatelliteInfoSource],
     Bind [] ''userEquivalentRangeError'' [] RNumber [OnObject QNmeaPositionInfoSource]]"

definition meth_qtprintsupport_0_0 :: "binding list" where
  "meth_qtprintsupport_0_0 = [
     Bind [] ''availablePrinterNames'' [] (RList (IMeta QString)) [Static QPrinterInfo],
     Bind [ValueM ''QTPRINTSUPPORT_QPRINTERINFO''] ''availablePrinters'' [] (RList (IValue QPrinterInfo)) [Static QPrinterInfo],
     Bind [] ''currentPage'' [] RNumber [OnObject QPrintPreviewWidget],
     Bind [ValueM ''QTPRINTSUPPORT_QPRINTERINFO''] ''defaultPrinter'' [] (RValue QPrinterInfo) [Static QPrinterInfo],
     Bind [] ''defaultPrinterName'' [] RString [Static QPrinterInfo],
     Bind [] ''done'' [PInt] RVoid [OnObject ''QPageSetupDialog'', OnObject ''QPrintDialog'', OnObject ''QPrintPreviewDialog''],
     Bind [] ''fitInView'' [] RVoid [OnObject QPrintPreviewWidget]]"

definition meth_qtprintsupport_0_1 :: "binding list" where
  "meth_qtprintsupport_0_1 = [
     Bind [] ''fitToWidth'' [] RVoid [OnObject QPrintPreviewWidget],
     Bind [] ''fromPage'' [] RNumber [OnObject ''QAbstractPrintDialog''],
     Bind [] ''maxPage'' [] RNumber [OnObject ''QAbstractPrintDialog''],
     Bind [] ''minPage'' [] RNumber [OnObject ''QAbstractPrintDialog''],
     Bind [] ''open'' [] RVoid [OnObject ''QPageSetupDialog'', OnObject ''QPrintDialog'', OnObject ''QPrintPreviewDialog''],
     Bind [TypeM ''QTPRINTSUPPORT_QABSTRACTPRINTDIALOG''] ''options'' [] (RMeta ''QAbstractPrintDialog::PrintDialogOptions'') [OnObject ''QPrintDialog''],
     Bind [TypeM QTGUI_QPAGELAYOUT] ''orientation'' [] (RMeta ''QPageLayout::Orientation'') [OnObject QPrintPreviewWidget],
     Bind [] ''pageCount'' [] RNumber [OnObject QPrintPreviewWidget]]"

definition meth_qtprintsupport_0_2 :: "binding list" where
  "meth_qtprintsupport_0_2 = [
     Bind [] ''print'' [] RVoid [OnObject QPrintPreviewWidget],
     Bind [TypeM ''QTPRINTSUPPORT_QABSTRACTPRINTDIALOG''] ''printRange'' [] (RMeta ''QAbstractPrintDialog::PrintRange'') [OnObject ''QAbstractPrintDialog''],
     Bind [ValueM ''QTPRINTSUPPORT_QPRINTERINFO''] ''printerInfo'' [PString True] (RValue QPrinterInfo) [Static QPrinterInfo],
     Bind [] ''setAllPagesViewMode'' [] RVoid [OnObject QPrintPreviewWidget],
     Bind [] ''setCurrentPage'' [PInt] RVoid [OnObject QPrintPreviewWidget],
     Bind [] ''setFacingPagesViewMode'' [] RVoid [OnObject QPrintPreviewWidget],
     Bind [] ''setFromTo'' [PInt, PInt] RVoid [OnObject ''QAbstractPrintDialog'']]"

definition meth_qtprintsupport_0_3 :: "binding list" where
  "meth_qtprintsupport_0_3 = [
     Bind [] ''setLandscapeOrientation'' [] RVoid [OnObject QPrintPreviewWidget],
     Bind [] ''setMinMax'' [PInt, PInt] RVoid [OnObject ''QAbstractPrintDialog''],
     Bind [TypeM ''QTPRINTSUPPORT_QABSTRACTPRINTDIALOG''] ''setOption'' [PConv ''QAbstractPrintDialog::PrintDialogOption'', PBool] RVoid [OnObject ''QPrintDialog''],
     Bind [TypeM QTWIDGETS_QWIDGET] ''setOptionTabs'' [PList QWidget_ptr] RVoid [OnObject ''QAbstractPrintDialog''],
     Bind [TypeM ''QTPRINTSUPPORT_QABSTRACTPRINTDIALOG''] ''setOptions'' [PConv ''QAbstractPrintDialog::PrintDialogOptions''] RVoid [OnObject ''QPrintDialog''],
     Bind [TypeM QTGUI_QPAGELAYOUT] ''setOrientation'' [PConv ''QPageLayout::Orientation''] RVoid [OnObject QPrintPreviewWidget]]"

definition meth_qtprintsupport_0_4 :: "binding list" where
  "meth_qtprintsupport_0_4 = [
     Bind [] ''setPortraitOrientation'' [] RVoid [OnObject QPrintPreviewWidget],
     Bind [TypeM ''QTPRINTSUPPORT_QABSTRACTPRINTDIALOG''] ''setPrintRange'' [PConv ''QAbstractPrintDialog::PrintRange''] RVoid [OnObject ''QAbstractPrintDialog''],
     Bind [] ''setSinglePageViewMode'' [] RVoid [OnObject QPrintPreviewWidget],
     Bind [TypeM ''QTPRINTSUPPORT_QPRINTPREVIEWWIDGET''] ''setViewMode'' [PConv ''QPrintPreviewWidget::ViewMode''] RVoid [OnObject QPrintPreviewWidget],
     Bind [] ''setVisible'' [PBool] RVoid [OnObject ''QPageSetupDialog'', OnObject ''QPrintDialog'', OnObject ''QPrintPreviewDialog'', OnObject QPrintPreviewWidget],
     Bind [] ''setZoomFactor'' [PReal ''qreal''] RVoid [OnObject QPrintPreviewWidget]]"

definition meth_qtprintsupport_0_5 :: "binding list" where
  "meth_qtprintsupport_0_5 = [
     Bind [TypeM ''QTPRINTSUPPORT_QPRINTPREVIEWWIDGET''] ''setZoomMode'' [PConv ''QPrintPreviewWidget::ZoomMode''] RVoid [OnObject QPrintPreviewWidget],
     Bind [TypeM ''QTPRINTSUPPORT_QABSTRACTPRINTDIALOG''] ''testOption'' [PConv ''QAbstractPrintDialog::PrintDialogOption''] RBool [OnObject ''QPrintDialog''],
     Bind [] ''toPage'' [] RNumber [OnObject ''QAbstractPrintDialog''],
     Bind [] ''updatePreview'' [] RVoid [OnObject QPrintPreviewWidget],
     Bind [TypeM ''QTPRINTSUPPORT_QPRINTPREVIEWWIDGET''] ''viewMode'' [] (RMeta ''QPrintPreviewWidget::ViewMode'') [OnObject QPrintPreviewWidget],
     Bind [] ''zoomFactor'' [] RNumber [OnObject QPrintPreviewWidget],
     Bind [] ''zoomIn'' [PReal ''qreal''] RVoid [OnObject QPrintPreviewWidget],
     Bind [TypeM ''QTPRINTSUPPORT_QPRINTPREVIEWWIDGET''] ''zoomMode'' [] (RMeta ''QPrintPreviewWidget::ZoomMode'') [OnObject QPrintPreviewWidget]]"

definition meth_qtprintsupport_0_6 :: "binding list" where
  "meth_qtprintsupport_0_6 = [
     Bind [] ''zoomOut'' [PReal ''qreal''] RVoid [OnObject QPrintPreviewWidget]]"

definition meth_table_rest_a :: "(string \<times> shard) list" where
  "meth_table_rest_a = [
     (''qaxcontainer_0'', \<lparr>sh_module = ''QAxContainer'', sh_slug = ''QAXCONTAINER'',
        sh_bindings = concat [meth_qaxcontainer_0_0, meth_qaxcontainer_0_1]\<rparr>),
     (''qt3dlogic_0'', \<lparr>sh_module = ''Qt3DLogic'', sh_slug = ''QT3DLOGIC'',
        sh_bindings = []\<rparr>),
     (''qtdbus_0'', \<lparr>sh_module = ''QtDBus'', sh_slug = ''QTDBUS'',
        sh_bindings = concat [meth_qtdbus_0_0, meth_qtdbus_0_1, meth_qtdbus_0_2, meth_qtdbus_0_3, meth_qtdbus_0_4, meth_qtdbus_0_5]\<rparr>),
     (''qtdesigner_0'', \<lparr>sh_module = ''QtDesigner'', sh_slug = ''QTDESIGNER'',
        sh_bindings = concat [meth_qtdesigner_0_0, meth_qtdesigner_0_1, meth_qtdesigner_0_2]\<rparr>),
     (''qthelp_0'', \<lparr>sh_module = ''QtHelp'', sh_slug = ''QTHELP'',
        sh_bindings = concat [meth_qthelp_0_0, meth_qthelp_0_1, meth_qthelp_0_2, meth_qthelp_0_3, meth_qthelp_0_4, meth_qthelp_0_5, meth_qthelp_0_6, meth_qthelp_0_7, meth_qthelp_0_8, meth_qthelp_0_9, meth_qthelp_0_10, meth_qthelp_0_11]\<rparr>),
     (''qtmultimedia_0'', \<lparr>sh_module = ''QtMultimedia'', sh_slug = ''QTMULTIMEDIA'',
        sh_bindings = concat [meth_qtmultimedia_0_0, meth_qtmultimedia_0_1, meth_qtmultimedia_0_2, meth_qtmultimedia_0_3, meth_qtmultimedia_0_4, meth_qtmultimedia_0_5, meth_qtmultimedia_0_6, meth_qtmultimedia_0_7, meth_qtmultimedia_0_8, meth_qtmultimedia_0_9, meth_qtmultimedia_0_10, meth_qtmultimedia_0_11, meth_qtmultimedia_0_12, meth_qtmultimedia_0_13, meth_qtmultimedia_0_14, meth_qtmultimedia_0_15, meth_qtmultimedia_0_16, meth_qtmultimedia_0_17, meth_qtmultimedia_0_18, meth_qtmultimedia_0_19, meth_qtmultimedia_0_20, meth_qtmultimedia_0_21, meth_qtmultimedia_0_22, meth_qtmultimedia_0_23, meth_qtmultimedia_0_24, meth_qtmultimedia_0_25, meth_qtmultimedia_0_26, meth_qtmultimedia_0_27, meth_qtmultimedia_0_28, meth_qtmultimedia_0_29, meth_qtmultimedia_0_30, meth_qtmultimedia_0_31, meth_qtmultimedia_0_32, meth_qtmultimedia_0_33, meth_qtmultimedia_0_34, meth_qtmultimedia_0_35]\<rparr>),
     (''qtmultimediawidgets_0'', \<lparr>sh_module = ''QtMultimediaWidgets'', sh_slug = ''QTMULTIMEDIAWIDGETS'',
        sh_bindings = concat [meth_qtmultimediawidgets_0_0, meth_qtmultimediawidgets_0_1]\<rparr>),
     (''qtnetworkauth_0'', \<lparr>sh_module = ''QtNetworkAuth'', sh_slug = ''QTNETWORKAUTH'',
        sh_bindings = concat [meth_qtnetworkauth_0_0, meth_qtnetworkauth_0_1, meth_qtnetworkauth_0_2, meth_qtnetworkauth_0_3, meth_qtnetworkauth_0_4, meth_qtnetworkauth_0_5, meth_qtnetworkauth_0_6, meth_qtnetworkauth_0_7]\<rparr>),
     (''qtpdf_0'', \<lparr>sh_module = ''QtPdf'', sh_slug = ''QTPDF'',
        sh_bindings = concat [meth_qtpdf_0_0, meth_qtpdf_0_1, meth_qtpdf_0_2, meth_qtpdf_0_3, meth_qtpdf_0_4, meth_qtpdf_0_5, meth_qtpdf_0_6, meth_qtpdf_0_7]\<rparr>),
     (''qtpdfwidgets_0'', \<lparr>sh_module = ''QtPdfWidgets'', sh_slug = ''QTPDFWIDGETS'',
        sh_bindings = concat [meth_qtpdfwidgets_0_0, meth_qtpdfwidgets_0_1, meth_qtpdfwidgets_0_2]\<rparr>),
     (''qtpositioning_0'', \<lparr>sh_module = ''QtPositioning'', sh_slug = ''QTPOSITIONING'',
        sh_bindings = concat [meth_qtpositioning_0_0, meth_qtpositioning_0_1, meth_qtpositioning_0_2, meth_qtpositioning_0_3, meth_qtpositioning_0_4]\<rparr>),
     (''qtprintsupport_0'', \<lparr>sh_module = ''QtPrintSupport'', sh_slug = ''QTPRINTSUPPORT'',
        sh_bindings = concat [meth_qtprintsupport_0_0, meth_qtprintsupport_0_1, meth_qtprintsupport_0_2, meth_qtprintsupport_0_3, meth_qtprintsupport_0_4, meth_qtprintsupport_0_5, meth_qtprintsupport_0_6]\<rparr>)]"

lemmas meth_table_rest_a_defs =
  meth_qaxcontainer_0_0_def meth_qaxcontainer_0_1_def meth_qtdbus_0_0_def meth_qtdbus_0_1_def
  meth_qtdbus_0_2_def meth_qtdbus_0_3_def meth_qtdbus_0_4_def meth_qtdbus_0_5_def meth_qtdesigner_0_0_def
  meth_qtdesigner_0_1_def meth_qtdesigner_0_2_def meth_qthelp_0_0_def meth_qthelp_0_1_def meth_qthelp_0_2_def
  meth_qthelp_0_3_def meth_qthelp_0_4_def meth_qthelp_0_5_def meth_qthelp_0_6_def meth_qthelp_0_7_def
  meth_qthelp_0_8_def meth_qthelp_0_9_def meth_qthelp_0_10_def meth_qthelp_0_11_def meth_qtmultimedia_0_0_def
  meth_qtmultimedia_0_1_def meth_qtmultimedia_0_2_def meth_qtmultimedia_0_3_def meth_qtmultimedia_0_4_def
  meth_qtmultimedia_0_5_def meth_qtmultimedia_0_6_def meth_qtmultimedia_0_7_def meth_qtmultimedia_0_8_def
  meth_qtmultimedia_0_9_def meth_qtmultimedia_0_10_def meth_qtmultimedia_0_11_def meth_qtmultimedia_0_12_def
  meth_qtmultimedia_0_13_def meth_qtmultimedia_0_14_def meth_qtmultimedia_0_15_def meth_qtmultimedia_0_16_def
  meth_qtmultimedia_0_17_def meth_qtmultimedia_0_18_def meth_qtmultimedia_0_19_def meth_qtmultimedia_0_20_def
  meth_qtmultimedia_0_21_def meth_qtmultimedia_0_22_def meth_qtmultimedia_0_23_def meth_qtmultimedia_0_24_def
  meth_qtmultimedia_0_25_def meth_qtmultimedia_0_26_def meth_qtmultimedia_0_27_def meth_qtmultimedia_0_28_def
  meth_qtmultimedia_0_29_def meth_qtmultimedia_0_30_def meth_qtmultimedia_0_31_def meth_qtmultimedia_0_32_def
  meth_qtmultimedia_0_33_def meth_qtmultimedia_0_34_def meth_qtmultimedia_0_35_def
  meth_qtmultimediawidgets_0_0_def meth_qtmultimediawidgets_0_1_def meth_qtnetworkauth_0_0_def
  meth_qtnetworkauth_0_1_def meth_qtnetworkauth_0_2_def meth_qtnetworkauth_0_3_def meth_qtnetworkauth_0_4_def
  meth_qtnetworkauth_0_5_def meth_qtnetworkauth_0_6_def meth_qtnetworkauth_0_7_def meth_qtpdf_0_0_def
  meth_qtpdf_0_1_def meth_qtpdf_0_2_def meth_qtpdf_0_3_def meth_qtpdf_0_4_def meth_qtpdf_0_5_def
  meth_qtpdf_0_6_def meth_qtpdf_0_7_def meth_qtpdfwidgets_0_0_def meth_qtpdfwidgets_0_1_def
  meth_qtpdfwidgets_0_2_def meth_qtpositioning_0_0_def meth_qtpositioning_0_1_def meth_qtpositioning_0_2_def
  meth_qtpositioning_0_3_def meth_qtpositioning_0_4_def meth_qtprintsupport_0_0_def meth_qtprintsupport_0_1_def
  meth_qtprintsupport_0_2_def meth_qtprintsupport_0_3_def meth_qtprintsupport_0_4_def
  meth_qtprintsupport_0_5_def meth_qtprintsupport_0_6_def

lemma meth_table_rest_a_object_blocks: "list_all (\<lambda>(s, sh). object_blocks sh) meth_table_rest_a"
  by (simp add: meth_table_rest_a_def meth_table_rest_a_defs object_blocks_def object_shard_def; (simp add: parameter_text_def qt_name_defs)?)

end
