(* ===== verification/Methods_Qt3D_A.thy ===== *)
theory Methods_Qt3D_A
  imports Shard_Methods Qt_Names
begin

text \<open>
  Tables of the method shards (generated\_methods): the blocks of every shard in the file's order.
\<close>

definition meth_qt3danimation_0_0 :: "binding list" where
  "meth_qt3danimation_0_0 = [
     Bind [] ''activeAnimationGroup'' [] RNumber [OnObject Qt3DAnimation_QAnimationController],
     Bind [TypeM ''QT3DANIMATION_QABSTRACTANIMATION''] ''addAnimation'' [PNonNull ''Qt3DAnimation::QAbstractAnimation*''] RVoid [OnObject Qt3DAnimation_QAnimationGroup],
     Bind [TypeM ''QT3DANIMATION_QANIMATIONGROUP''] ''addAnimationGroup'' [PNonNull ''Qt3DAnimation::QAnimationGroup*''] RVoid [OnObject Qt3DAnimation_QAnimationController],
     Bind [TypeM QT3DCORE_QATTRIBUTE] ''addAttribute'' [PNonNull ''Qt3DCore::QAttribute*''] RVoid [OnObject ''Qt3DAnimation::QMorphTarget''],
     Bind [TypeM ''QT3DANIMATION_QABSTRACTCHANNELMAPPING''] ''addMapping'' [PNonNull ''Qt3DAnimation::QAbstractChannelMapping*''] RVoid [OnObject ''Qt3DAnimation::QChannelMapper''],
     Bind [TypeM ''QT3DANIMATION_QMORPHTARGET''] ''addMorphTarget'' [PNonNull ''Qt3DAnimation::QMorphTarget*''] RVoid [OnObject Qt3DAnimation_QMorphingAnimation, OnObject Qt3DAnimation_QVertexBlendAnimation],
     Bind [TypeM QT3DANIMATION_QABSTRACTCLIPBLENDNODE] ''additiveClip'' [] RObject [OnObject Qt3DAnimation_QAdditiveClipBlend],
     Bind [] ''additiveFactor'' [] RNumber [OnObject Qt3DAnimation_QAdditiveClipBlend],
     Bind [TypeM ''QT3DANIMATION_QANIMATIONGROUP''] ''animationGroupList'' [] (RList IObject) [OnObject Qt3DAnimation_QAnimationController],
     Bind [TypeM ''QT3DANIMATION_QABSTRACTANIMATION''] ''animationList'' [] (RList IObject) [OnObject Qt3DAnimation_QAnimationGroup],
     Bind [] ''animationName'' [] RString [OnObject ''Qt3DAnimation::QAbstractAnimation''],
     Bind [TypeM ''QT3DANIMATION_QABSTRACTANIMATION''] ''animationType'' [] (RMeta ''Qt3DAnimation::QAbstractAnimation::AnimationType'') [OnObject ''Qt3DAnimation::QAbstractAnimation''],
     Bind [TypeM QT3DCORE_QATTRIBUTE] ''attributeList'' [] (RList IObject) [OnObject ''Qt3DAnimation::QMorphTarget''],
     Bind [] ''attributeNames'' [] (RList (IMeta QString)) [OnObject ''Qt3DAnimation::QMorphTarget''],
     Bind [TypeM QT3DANIMATION_QABSTRACTCLIPBLENDNODE] ''baseClip'' [] RObject [OnObject Qt3DAnimation_QAdditiveClipBlend],
     Bind [] ''blendFactor'' [] RNumber [OnObject Qt3DAnimation_QLerpClipBlend],
     Bind [TypeM QT3DANIMATION_QABSTRACTCLIPBLENDNODE] ''blendTree'' [] RObject [OnObject ''Qt3DAnimation::QBlendedClipAnimator''],
     Bind [TypeM ''QT3DANIMATION_QCHANNELMAPPER''] ''channelMapper'' [] RObject [OnObject Qt3DAnimation_QAbstractClipAnimator],
     Bind [] ''channelName'' [] RString [OnObject Qt3DAnimation_QChannelMapping],
     Bind [TypeM ''QT3DANIMATION_QABSTRACTANIMATIONCLIP''] ''clip'' [] RObject [OnObject ''Qt3DAnimation::QClipAnimator'', OnObject ''Qt3DAnimation::QClipBlendValue''],
     Bind [TypeM ''QT3DANIMATION_QCLOCK''] ''clock'' [] RObject [OnObject Qt3DAnimation_QAbstractClipAnimator],
     Bind [] ''duration'' [] RNumber [OnObject ''Qt3DAnimation::QAbstractAnimation'', OnObject ''Qt3DAnimation::QAbstractAnimationClip'', OnObject Qt3DAnimation_QAnimationGroup],
     Bind [ValueM QTCORE_QEASINGCURVE] ''easing'' [] (RValue QEasingCurve) [OnObject Qt3DAnimation_QKeyframeAnimation, OnObject Qt3DAnimation_QMorphingAnimation],
     Bind [TypeM QT3DANIMATION_QABSTRACTCLIPBLENDNODE] ''endClip'' [] RObject [OnObject Qt3DAnimation_QLerpClipBlend],
     Bind [TypeM ''QT3DANIMATION_QKEYFRAMEANIMATION''] ''endMode'' [] (RMeta ''Qt3DAnimation::QKeyframeAnimation::RepeatMode'') [OnObject Qt3DAnimation_QKeyframeAnimation],
     Bind [TypeM ''QT3DCORE_QENTITY''] ''entity'' [] RObject [OnObject Qt3DAnimation_QAnimationController],
     Bind [] ''framePositions'' [] (RList (IMeta ''float'')) [OnObject Qt3DAnimation_QKeyframeAnimation],
     Bind [TypeM ''QT3DANIMATION_QMORPHTARGET'', TypeM ''QT3DCORE_QGEOMETRY''] ''fromGeometry'' [PNonNull ''Qt3DCore::QGeometry*'', PStringList] RObject [Static ''Qt3DAnimation::QMorphTarget''],
     Bind [] ''getAnimationIndex'' [PString True] RNumber [OnObject Qt3DAnimation_QAnimationController],
     Bind [TypeM ''QT3DANIMATION_QANIMATIONGROUP''] ''getGroup'' [PInt] RObject [OnObject Qt3DAnimation_QAnimationController],
     Bind [] ''getWeights'' [PInt] (RList (IMeta ''float'')) [OnObject Qt3DAnimation_QMorphingAnimation],
     Bind [] ''interpolator'' [] RNumber [OnObject Qt3DAnimation_QMorphingAnimation, OnObject Qt3DAnimation_QVertexBlendAnimation],
     Bind [] ''isRunning'' [] RBool [OnObject Qt3DAnimation_QAbstractClipAnimator],
     Bind [] ''loopCount'' [] RNumber [OnObject Qt3DAnimation_QAbstractClipAnimator],
     Bind [TypeM ''QT3DANIMATION_QABSTRACTCHANNELMAPPING''] ''mappings'' [] (RList IObject) [OnObject ''Qt3DAnimation::QChannelMapper''],
     Bind [TypeM ''QT3DANIMATION_QMORPHINGANIMATION''] ''method'' [] (RMeta ''Qt3DAnimation::QMorphingAnimation::Method'') [OnObject Qt3DAnimation_QMorphingAnimation],
     Bind [TypeM ''QT3DANIMATION_QMORPHTARGET''] ''morphTargetList'' [] (RList IObject) [OnObject Qt3DAnimation_QMorphingAnimation, OnObject Qt3DAnimation_QVertexBlendAnimation],
     Bind [] ''name'' [] RString [OnObject Qt3DAnimation_QAnimationGroup],
     Bind [] ''normalizedTime'' [] RNumber [OnObject Qt3DAnimation_QAbstractClipAnimator],
     Bind [] ''playbackRate'' [] RNumber [OnObject ''Qt3DAnimation::QClock''],
     Bind [] ''position'' [] RNumber [OnObject ''Qt3DAnimation::QAbstractAnimation'', OnObject Qt3DAnimation_QAnimationController, OnObject Qt3DAnimation_QAnimationGroup],
     Bind [] ''positionOffset'' [] RNumber [OnObject Qt3DAnimation_QAnimationController],
     Bind [] ''positionScale'' [] RNumber [OnObject Qt3DAnimation_QAnimationController],
     Bind [] ''property'' [] RString [OnObject Qt3DAnimation_QChannelMapping],
     Bind [] ''recursive'' [] RBool [OnObject Qt3DAnimation_QAnimationController],
     Bind [TypeM ''QT3DANIMATION_QABSTRACTANIMATION''] ''removeAnimation'' [PNonNull ''Qt3DAnimation::QAbstractAnimation*''] RVoid [OnObject Qt3DAnimation_QAnimationGroup],
     Bind [TypeM ''QT3DANIMATION_QANIMATIONGROUP''] ''removeAnimationGroup'' [PNonNull ''Qt3DAnimation::QAnimationGroup*''] RVoid [OnObject Qt3DAnimation_QAnimationController],
     Bind [TypeM QT3DCORE_QATTRIBUTE] ''removeAttribute'' [PNonNull ''Qt3DCore::QAttribute*''] RVoid [OnObject ''Qt3DAnimation::QMorphTarget''],
     Bind [TypeM ''QT3DANIMATION_QABSTRACTCHANNELMAPPING''] ''removeMapping'' [PNonNull ''Qt3DAnimation::QAbstractChannelMapping*''] RVoid [OnObject ''Qt3DAnimation::QChannelMapper''],
     Bind [TypeM ''QT3DANIMATION_QMORPHTARGET''] ''removeMorphTarget'' [PNonNull ''Qt3DAnimation::QMorphTarget*''] RVoid [OnObject Qt3DAnimation_QMorphingAnimation, OnObject Qt3DAnimation_QVertexBlendAnimation],
     Bind [] ''setActiveAnimationGroup'' [PInt] RVoid [OnObject Qt3DAnimation_QAnimationController],
     Bind [TypeM QT3DANIMATION_QABSTRACTCLIPBLENDNODE] ''setAdditiveClip'' [PNonNull ''Qt3DAnimation::QAbstractClipBlendNode*''] RVoid [OnObject Qt3DAnimation_QAdditiveClipBlend],
     Bind [] ''setAdditiveFactor'' [PReal ''float''] RVoid [OnObject Qt3DAnimation_QAdditiveClipBlend],
     Bind [TypeM ''QT3DANIMATION_QANIMATIONGROUP''] ''setAnimationGroups'' [PList ''Qt3DAnimation::QAnimationGroup*''] RVoid [OnObject Qt3DAnimation_QAnimationController],
     Bind [] ''setAnimationName'' [PString True] RVoid [OnObject ''Qt3DAnimation::QAbstractAnimation''],
     Bind [TypeM ''QT3DANIMATION_QABSTRACTANIMATION''] ''setAnimations'' [PList ''Qt3DAnimation::QAbstractAnimation*''] RVoid [OnObject Qt3DAnimation_QAnimationGroup],
     Bind [TypeM QT3DCORE_QATTRIBUTE] ''setAttributes'' [PList ''Qt3DCore::QAttribute*''] RVoid [OnObject ''Qt3DAnimation::QMorphTarget''],
     Bind [TypeM QT3DANIMATION_QABSTRACTCLIPBLENDNODE] ''setBaseClip'' [PNonNull ''Qt3DAnimation::QAbstractClipBlendNode*''] RVoid [OnObject Qt3DAnimation_QAdditiveClipBlend],
     Bind [] ''setBlendFactor'' [PReal ''float''] RVoid [OnObject Qt3DAnimation_QLerpClipBlend],
     Bind [TypeM QT3DANIMATION_QABSTRACTCLIPBLENDNODE] ''setBlendTree'' [PNonNull ''Qt3DAnimation::QAbstractClipBlendNode*''] RVoid [OnObject ''Qt3DAnimation::QBlendedClipAnimator''],
     Bind [TypeM ''QT3DANIMATION_QCHANNELMAPPER''] ''setChannelMapper'' [PNonNull ''Qt3DAnimation::QChannelMapper*''] RVoid [OnObject Qt3DAnimation_QAbstractClipAnimator],
     Bind [] ''setChannelName'' [PString True] RVoid [OnObject Qt3DAnimation_QChannelMapping],
     Bind [TypeM ''QT3DANIMATION_QABSTRACTANIMATIONCLIP''] ''setClip'' [PNonNull ''Qt3DAnimation::QAbstractAnimationClip*''] RVoid [OnObject ''Qt3DAnimation::QClipAnimator'', OnObject ''Qt3DAnimation::QClipBlendValue''],
     Bind [TypeM ''QT3DANIMATION_QCLOCK''] ''setClock'' [PNonNull ''Qt3DAnimation::QClock*''] RVoid [OnObject Qt3DAnimation_QAbstractClipAnimator],
     Bind [ValueM QTCORE_QEASINGCURVE] ''setEasing'' [PConv QEasingCurve] RVoid [OnObject Qt3DAnimation_QKeyframeAnimation, OnObject Qt3DAnimation_QMorphingAnimation],
     Bind [TypeM QT3DANIMATION_QABSTRACTCLIPBLENDNODE] ''setEndClip'' [PNonNull ''Qt3DAnimation::QAbstractClipBlendNode*''] RVoid [OnObject Qt3DAnimation_QLerpClipBlend],
     Bind [TypeM ''QT3DANIMATION_QKEYFRAMEANIMATION''] ''setEndMode'' [PConv ''Qt3DAnimation::QKeyframeAnimation::RepeatMode''] RVoid [OnObject Qt3DAnimation_QKeyframeAnimation],
     Bind [TypeM ''QT3DCORE_QENTITY''] ''setEntity'' [PNonNull ''Qt3DCore::QEntity*''] RVoid [OnObject Qt3DAnimation_QAnimationController],
     Bind [] ''setFramePositions'' [PList ''float''] RVoid [OnObject Qt3DAnimation_QKeyframeAnimation],
     Bind [] ''setLoopCount'' [PInt] RVoid [OnObject Qt3DAnimation_QAbstractClipAnimator],
     Bind [TypeM ''QT3DANIMATION_QMORPHINGANIMATION''] ''setMethod'' [PConv ''Qt3DAnimation::QMorphingAnimation::Method''] RVoid [OnObject Qt3DAnimation_QMorphingAnimation],
     Bind [TypeM ''QT3DANIMATION_QMORPHTARGET''] ''setMorphTargets'' [PList ''Qt3DAnimation::QMorphTarget*''] RVoid [OnObject Qt3DAnimation_QMorphingAnimation, OnObject Qt3DAnimation_QVertexBlendAnimation],
     Bind [] ''setName'' [PString True] RVoid [OnObject Qt3DAnimation_QAnimationGroup],
     Bind [] ''setNormalizedTime'' [PReal ''float''] RVoid [OnObject Qt3DAnimation_QAbstractClipAnimator],
     Bind [] ''setPlaybackRate'' [PReal ''double''] RVoid [OnObject ''Qt3DAnimation::QClock''],
     Bind [] ''setPosition'' [PReal ''float''] RVoid [OnObject ''Qt3DAnimation::QAbstractAnimation'', OnObject Qt3DAnimation_QAnimationController, OnObject Qt3DAnimation_QAnimationGroup],
     Bind [] ''setPositionOffset'' [PReal ''float''] RVoid [OnObject Qt3DAnimation_QAnimationController],
     Bind [] ''setPositionScale'' [PReal ''float''] RVoid [OnObject Qt3DAnimation_QAnimationController],
     Bind [] ''setProperty'' [PString True] RVoid [OnObject Qt3DAnimation_QChannelMapping],
     Bind [] ''setRecursive'' [PBool] RVoid [OnObject Qt3DAnimation_QAnimationController],
     Bind [] ''setRunning'' [PBool] RVoid [OnObject Qt3DAnimation_QAbstractClipAnimator],
     Bind [TypeM ''QT3DCORE_QABSTRACTSKELETON''] ''setSkeleton'' [PNonNull ''Qt3DCore::QAbstractSkeleton*''] RVoid [OnObject ''Qt3DAnimation::QSkeletonMapping''],
     Bind [ValueM QTCORE_QURL] ''setSource'' [PConv QUrl] RVoid [OnObject ''Qt3DAnimation::QAnimationClipLoader''],
     Bind [TypeM QT3DANIMATION_QABSTRACTCLIPBLENDNODE] ''setStartClip'' [PNonNull ''Qt3DAnimation::QAbstractClipBlendNode*''] RVoid [OnObject Qt3DAnimation_QLerpClipBlend],
     Bind [TypeM ''QT3DANIMATION_QKEYFRAMEANIMATION''] ''setStartMode'' [PConv ''Qt3DAnimation::QKeyframeAnimation::RepeatMode''] RVoid [OnObject Qt3DAnimation_QKeyframeAnimation],
     Bind [TypeM QT3DCORE_QNODE] ''setTarget'' [PNonNull Qt3DCore_QNode_ptr] RVoid [OnObject Qt3DAnimation_QChannelMapping],
     Bind [TypeM ''QT3DRENDER_QGEOMETRYRENDERER''] ''setTarget'' [PNonNull ''Qt3DRender::QGeometryRenderer*''] RVoid [OnObject Qt3DAnimation_QMorphingAnimation, OnObject Qt3DAnimation_QVertexBlendAnimation]]"

definition meth_qt3danimation_0_1 :: "binding list" where
  "meth_qt3danimation_0_1 = [
     Bind [] ''setTargetName'' [PString True] RVoid [OnObject Qt3DAnimation_QKeyframeAnimation, OnObject Qt3DAnimation_QMorphingAnimation, OnObject Qt3DAnimation_QVertexBlendAnimation],
     Bind [] ''setTargetPositions'' [PList ''float''] RVoid [OnObject Qt3DAnimation_QMorphingAnimation, OnObject Qt3DAnimation_QVertexBlendAnimation],
     Bind [] ''setWeights'' [PInt, PList ''float''] RVoid [OnObject Qt3DAnimation_QMorphingAnimation],
     Bind [TypeM ''QT3DCORE_QABSTRACTSKELETON''] ''skeleton'' [] RObject [OnObject ''Qt3DAnimation::QSkeletonMapping''],
     Bind [ValueM QTCORE_QURL] ''source'' [] (RValue QUrl) [OnObject ''Qt3DAnimation::QAnimationClipLoader''],
     Bind [] ''start'' [] RVoid [OnObject Qt3DAnimation_QAbstractClipAnimator],
     Bind [TypeM QT3DANIMATION_QABSTRACTCLIPBLENDNODE] ''startClip'' [] RObject [OnObject Qt3DAnimation_QLerpClipBlend],
     Bind [TypeM ''QT3DANIMATION_QKEYFRAMEANIMATION''] ''startMode'' [] (RMeta ''Qt3DAnimation::QKeyframeAnimation::RepeatMode'') [OnObject Qt3DAnimation_QKeyframeAnimation],
     Bind [TypeM ''QT3DANIMATION_QANIMATIONCLIPLOADER''] ''status'' [] (RMeta ''Qt3DAnimation::QAnimationClipLoader::Status'') [OnObject ''Qt3DAnimation::QAnimationClipLoader''],
     Bind [] ''stop'' [] RVoid [OnObject Qt3DAnimation_QAbstractClipAnimator],
     Bind [TypeM QT3DCORE_QNODE] ''target'' [] RObject [OnObject Qt3DAnimation_QChannelMapping],
     Bind [TypeM ''QT3DRENDER_QGEOMETRYRENDERER''] ''target'' [] RObject [OnObject Qt3DAnimation_QMorphingAnimation, OnObject Qt3DAnimation_QVertexBlendAnimation],
     Bind [] ''targetName'' [] RString [OnObject Qt3DAnimation_QKeyframeAnimation, OnObject Qt3DAnimation_QMorphingAnimation, OnObject Qt3DAnimation_QVertexBlendAnimation],
     Bind [] ''targetPositions'' [] (RList (IMeta ''float'')) [OnObject Qt3DAnimation_QMorphingAnimation, OnObject Qt3DAnimation_QVertexBlendAnimation]]"

definition meth_qt3dcore_0_0 :: "binding list" where
  "meth_qt3dcore_0_0 = [
     Bind [TypeM ''QT3DCORE_QBUFFER''] ''accessType'' [] (RMeta ''Qt3DCore::QBuffer::AccessType'') [OnObject ''Qt3DCore::QBuffer''],
     Bind [TypeM ''QT3DCORE_QJOINT''] ''addChildJoint'' [PNonNull ''Qt3DCore::QJoint*''] RVoid [OnObject Qt3DCore_QJoint],
     Bind [] ''areImplicitPointsValid'' [] RBool [OnObject Qt3DCore_QBoundingVolume],
     Bind [TypeM ''QT3DCORE_QABSTRACTASPECT''] ''aspect'' [PString True] RObject [OnObject Qt3DCore_QAspectEngine],
     Bind [TypeM ''QT3DCORE_QABSTRACTASPECT''] ''aspects'' [] (RList IObject) [OnObject Qt3DCore_QAspectEngine],
     Bind [TypeM QT3DCORE_QATTRIBUTE] ''attributeType'' [] (RMeta ''Qt3DCore::QAttribute::AttributeType'') [OnObject Qt3DCore_QAttribute],
     Bind [TypeM QT3DCORE_QATTRIBUTE] ''attributes'' [] (RList IObject) [OnObject ''Qt3DCore::QGeometry''],
     Bind [] ''blockNotifications'' [PBool] RBool [OnObject ''Qt3DCore::QNode''],
     Bind [TypeM QT3DCORE_QATTRIBUTE] ''boundingVolumePositionAttribute'' [] RObject [OnObject ''Qt3DCore::QGeometry''],
     Bind [] ''boundingVolumesEnabled'' [] RBool [OnObject ''Qt3DCore::QCoreSettings''],
     Bind [TypeM ''QT3DCORE_QBUFFER''] ''buffer'' [] RObject [OnObject Qt3DCore_QAttribute],
     Bind [] ''byteOffset'' [] RNumber [OnObject Qt3DCore_QAttribute],
     Bind [] ''byteStride'' [] RNumber [OnObject Qt3DCore_QAttribute],
     Bind [TypeM ''QT3DCORE_QJOINT''] ''childJoints'' [] (RList IObject) [OnObject Qt3DCore_QJoint],
     Bind [] ''count'' [] RNumber [OnObject Qt3DCore_QAttribute],
     Bind [ValueM QTCORE_QBYTEARRAY] ''data'' [] (RValue QByteArray) [OnObject ''Qt3DCore::QBuffer''],
     Bind [] ''defaultColorAttributeName'' [] RString [Static Qt3DCore_QAttribute],
     Bind [] ''defaultJointIndicesAttributeName'' [] RString [Static Qt3DCore_QAttribute],
     Bind [] ''defaultJointWeightsAttributeName'' [] RString [Static Qt3DCore_QAttribute],
     Bind [] ''defaultNormalAttributeName'' [] RString [Static Qt3DCore_QAttribute],
     Bind [] ''defaultPositionAttributeName'' [] RString [Static Qt3DCore_QAttribute],
     Bind [] ''defaultTangentAttributeName'' [] RString [Static Qt3DCore_QAttribute],
     Bind [] ''defaultTextureCoordinate1AttributeName'' [] RString [Static Qt3DCore_QAttribute],
     Bind [] ''defaultTextureCoordinate2AttributeName'' [] RString [Static Qt3DCore_QAttribute],
     Bind [] ''defaultTextureCoordinateAttributeName'' [] RString [Static Qt3DCore_QAttribute],
     Bind [] ''divisor'' [] RNumber [OnObject Qt3DCore_QAttribute],
     Bind [TypeM ''QT3DCORE_QENTITY''] ''entities'' [] (RList IObject) [OnObject ''Qt3DCore::QComponent''],
     Bind [] ''executeCommand'' [PString True] RVariant [OnObject Qt3DCore_QAspectEngine],
     Bind [] ''firstInstance'' [] RNumber [OnObject Qt3DCore_QGeometryView],
     Bind [] ''firstVertex'' [] RNumber [OnObject Qt3DCore_QGeometryView],
     Bind [ValueM QTGUI_QQUATERNION, ValueM QTGUI_QVECTOR3D] ''fromAxes'' [PConv QVector3D, PConv QVector3D, PConv QVector3D] (RValue QQuaternion) [Static Qt3DCore_QTransform],
     Bind [ValueM QTGUI_QQUATERNION, ValueM QTGUI_QVECTOR3D] ''fromAxesAndAngles'' [PConv QVector3D, PReal ''float'', PConv QVector3D, PReal ''float''] (RValue QQuaternion) [Static Qt3DCore_QTransform],
     Bind [ValueM QTGUI_QQUATERNION, ValueM QTGUI_QVECTOR3D] ''fromAxesAndAngles'' [PConv QVector3D, PReal ''float'', PConv QVector3D, PReal ''float'', PConv QVector3D, PReal ''float''] (RValue QQuaternion) [Static Qt3DCore_QTransform],
     Bind [ValueM QTGUI_QQUATERNION, ValueM QTGUI_QVECTOR3D] ''fromAxisAndAngle'' [PConv QVector3D, PReal ''float''] (RValue QQuaternion) [Static Qt3DCore_QTransform],
     Bind [ValueM QTGUI_QQUATERNION] ''fromAxisAndAngle'' [PReal ''float'', PReal ''float'', PReal ''float'', PReal ''float''] (RValue QQuaternion) [Static Qt3DCore_QTransform],
     Bind [ValueM QTGUI_QQUATERNION, ValueM QTGUI_QVECTOR3D] ''fromEulerAngles'' [PConv QVector3D] (RValue QQuaternion) [Static Qt3DCore_QTransform],
     Bind [ValueM QTGUI_QQUATERNION] ''fromEulerAngles'' [PReal ''float'', PReal ''float'', PReal ''float''] (RValue QQuaternion) [Static Qt3DCore_QTransform],
     Bind [TypeM ''QT3DCORE_QGEOMETRY''] ''geometry'' [] RObject [OnObject Qt3DCore_QGeometryView],
     Bind [ValueM QTGUI_QVECTOR3D] ''implicitMaxPoint'' [] (RValue QVector3D) [OnObject Qt3DCore_QBoundingVolume],
     Bind [ValueM QTGUI_QVECTOR3D] ''implicitMinPoint'' [] (RValue QVector3D) [OnObject Qt3DCore_QBoundingVolume],
     Bind [] ''indexBufferByteOffset'' [] RNumber [OnObject Qt3DCore_QGeometryView],
     Bind [] ''indexOffset'' [] RNumber [OnObject Qt3DCore_QGeometryView],
     Bind [] ''instanceCount'' [] RNumber [OnObject Qt3DCore_QGeometryView],
     Bind [ValueM QTGUI_QMATRIX4X4] ''inverseBindMatrix'' [] (RValue QMatrix4x4) [OnObject Qt3DCore_QJoint],
     Bind [] ''isCreateJointsEnabled'' [] RBool [OnObject ''Qt3DCore::QSkeletonLoader''],
     Bind [] ''isEnabled'' [] RBool [OnObject ''Qt3DCore::QNode''],
     Bind [] ''isShareable'' [] RBool [OnObject ''Qt3DCore::QComponent''],
     Bind [] ''jointCount'' [] RNumber [OnObject ''Qt3DCore::QAbstractSkeleton''],
     Bind [ValueM QTGUI_QMATRIX4X4] ''matrix'' [] (RValue QMatrix4x4) [OnObject Qt3DCore_QTransform],
     Bind [ValueM QTGUI_QVECTOR3D] ''maxExtent'' [] (RValue QVector3D) [OnObject ''Qt3DCore::QGeometry''],
     Bind [ValueM QTGUI_QVECTOR3D] ''maxPoint'' [] (RValue QVector3D) [OnObject Qt3DCore_QBoundingVolume],
     Bind [ValueM QTGUI_QVECTOR3D] ''minExtent'' [] (RValue QVector3D) [OnObject ''Qt3DCore::QGeometry''],
     Bind [ValueM QTGUI_QVECTOR3D] ''minPoint'' [] (RValue QVector3D) [OnObject Qt3DCore_QBoundingVolume],
     Bind [] ''name'' [] RString [OnObject Qt3DCore_QAttribute, OnObject Qt3DCore_QJoint],
     Bind [] ''notificationsBlocked'' [] RBool [OnObject ''Qt3DCore::QNode''],
     Bind [TypeM ''QT3DCORE_QENTITY''] ''parentEntity'' [] RObject [OnObject ''Qt3DCore::QEntity''],
     Bind [TypeM QT3DCORE_QNODE] ''parentNode'' [] RObject [OnObject ''Qt3DCore::QNode''],
     Bind [] ''primitiveRestartEnabled'' [] RBool [OnObject Qt3DCore_QGeometryView],
     Bind [TypeM ''QT3DCORE_QGEOMETRYVIEW''] ''primitiveType'' [] (RMeta ''Qt3DCore::QGeometryView::PrimitiveType'') [OnObject Qt3DCore_QGeometryView],
     Bind [] ''processFrame'' [] RVoid [OnObject Qt3DCore_QAspectEngine],
     Bind [] ''registerAspect'' [PString True] RVoid [OnObject Qt3DCore_QAspectEngine],
     Bind [TypeM ''QT3DCORE_QABSTRACTASPECT''] ''registerAspect'' [PNonNull ''Qt3DCore::QAbstractAspect*''] RVoid [OnObject Qt3DCore_QAspectEngine],
     Bind [TypeM QT3DCORE_QATTRIBUTE] ''removeAttribute'' [PNonNull ''Qt3DCore::QAttribute*''] RVoid [OnObject ''Qt3DCore::QGeometry''],
     Bind [TypeM ''QT3DCORE_QJOINT''] ''removeChildJoint'' [PNonNull ''Qt3DCore::QJoint*''] RVoid [OnObject Qt3DCore_QJoint],
     Bind [TypeM ''QT3DCORE_QCOMPONENT''] ''removeComponent'' [PNonNull ''Qt3DCore::QComponent*''] RVoid [OnObject ''Qt3DCore::QEntity''],
     Bind [] ''restartIndexValue'' [] RNumber [OnObject Qt3DCore_QGeometryView],
     Bind [TypeM ''QT3DCORE_QJOINT''] ''rootJoint'' [] RObject [OnObject ''Qt3DCore::QSkeleton'', OnObject ''Qt3DCore::QSkeletonLoader''],
     Bind [ValueM QTGUI_QMATRIX4X4, ValueM QTGUI_QVECTOR3D] ''rotateAround'' [PConv QVector3D, PReal ''float'', PConv QVector3D] (RValue QMatrix4x4) [Static Qt3DCore_QTransform],
     Bind [ValueM QTGUI_QMATRIX4X4, ValueM QTGUI_QVECTOR3D] ''rotateFromAxes'' [PConv QVector3D, PConv QVector3D, PConv QVector3D] (RValue QMatrix4x4) [Static Qt3DCore_QTransform],
     Bind [ValueM QTGUI_QQUATERNION] ''rotation'' [] (RValue QQuaternion) [OnObject Qt3DCore_QJoint, OnObject Qt3DCore_QTransform],
     Bind [] ''rotationX'' [] RNumber [OnObject Qt3DCore_QJoint, OnObject Qt3DCore_QTransform],
     Bind [] ''rotationY'' [] RNumber [OnObject Qt3DCore_QJoint, OnObject Qt3DCore_QTransform],
     Bind [] ''rotationZ'' [] RNumber [OnObject Qt3DCore_QJoint, OnObject Qt3DCore_QTransform],
     Bind [TypeM ''QT3DCORE_QASPECTENGINE''] ''runMode'' [] (RMeta ''Qt3DCore::QAspectEngine::RunMode'') [OnObject Qt3DCore_QAspectEngine],
     Bind [ValueM QTGUI_QVECTOR3D] ''scale'' [] (RValue QVector3D) [OnObject Qt3DCore_QJoint],
     Bind [] ''scale'' [] RNumber [OnObject Qt3DCore_QTransform],
     Bind [ValueM QTGUI_QVECTOR3D] ''scale3D'' [] (RValue QVector3D) [OnObject Qt3DCore_QTransform],
     Bind [TypeM ''QT3DCORE_QBUFFER''] ''setAccessType'' [PConv ''Qt3DCore::QBuffer::AccessType''] RVoid [OnObject ''Qt3DCore::QBuffer''],
     Bind [TypeM QT3DCORE_QATTRIBUTE] ''setAttributeType'' [PConv ''Qt3DCore::QAttribute::AttributeType''] RVoid [OnObject Qt3DCore_QAttribute],
     Bind [TypeM QT3DCORE_QATTRIBUTE] ''setBoundingVolumePositionAttribute'' [PNonNull ''Qt3DCore::QAttribute*''] RVoid [OnObject ''Qt3DCore::QGeometry''],
     Bind [] ''setBoundingVolumesEnabled'' [PBool] RVoid [OnObject ''Qt3DCore::QCoreSettings''],
     Bind [TypeM ''QT3DCORE_QBUFFER''] ''setBuffer'' [PNonNull ''Qt3DCore::QBuffer*''] RVoid [OnObject Qt3DCore_QAttribute],
     Bind [] ''setByteOffset'' [PUInt] RVoid [OnObject Qt3DCore_QAttribute],
     Bind [] ''setByteStride'' [PUInt] RVoid [OnObject Qt3DCore_QAttribute],
     Bind [] ''setCount'' [PUInt] RVoid [OnObject Qt3DCore_QAttribute],
     Bind [] ''setCreateJointsEnabled'' [PBool] RVoid [OnObject ''Qt3DCore::QSkeletonLoader''],
     Bind [ValueM QTCORE_QBYTEARRAY] ''setData'' [PConv QByteArray] RVoid [OnObject ''Qt3DCore::QBuffer''],
     Bind [] ''setDivisor'' [PUInt] RVoid [OnObject Qt3DCore_QAttribute],
     Bind [] ''setEnabled'' [PBool] RVoid [OnObject ''Qt3DCore::QNode''],
     Bind [] ''setFirstInstance'' [PInt] RVoid [OnObject Qt3DCore_QGeometryView],
     Bind [] ''setFirstVertex'' [PInt] RVoid [OnObject Qt3DCore_QGeometryView],
     Bind [TypeM ''QT3DCORE_QGEOMETRY''] ''setGeometry'' [PNonNull ''Qt3DCore::QGeometry*''] RVoid [OnObject Qt3DCore_QGeometryView],
     Bind [] ''setIndexBufferByteOffset'' [PInt] RVoid [OnObject Qt3DCore_QGeometryView],
     Bind [] ''setIndexOffset'' [PInt] RVoid [OnObject Qt3DCore_QGeometryView],
     Bind [] ''setInstanceCount'' [PInt] RVoid [OnObject Qt3DCore_QGeometryView]]"

definition meth_qt3dcore_0_1 :: "binding list" where
  "meth_qt3dcore_0_1 = [
     Bind [ValueM QTGUI_QMATRIX4X4] ''setInverseBindMatrix'' [PConv QMatrix4x4] RVoid [OnObject Qt3DCore_QJoint],
     Bind [ValueM QTGUI_QMATRIX4X4] ''setMatrix'' [PConv QMatrix4x4] RVoid [OnObject Qt3DCore_QTransform],
     Bind [ValueM QTGUI_QVECTOR3D] ''setMaxPoint'' [PConv QVector3D] RVoid [OnObject Qt3DCore_QBoundingVolume],
     Bind [ValueM QTGUI_QVECTOR3D] ''setMinPoint'' [PConv QVector3D] RVoid [OnObject Qt3DCore_QBoundingVolume],
     Bind [] ''setName'' [PString True] RVoid [OnObject Qt3DCore_QAttribute, OnObject Qt3DCore_QJoint],
     Bind [TypeM QT3DCORE_QNODE] ''setParent'' [PNonNull Qt3DCore_QNode_ptr] RVoid [OnObject ''Qt3DCore::QNode''],
     Bind [] ''setPrimitiveRestartEnabled'' [PBool] RVoid [OnObject Qt3DCore_QGeometryView],
     Bind [TypeM ''QT3DCORE_QGEOMETRYVIEW''] ''setPrimitiveType'' [PConv ''Qt3DCore::QGeometryView::PrimitiveType''] RVoid [OnObject Qt3DCore_QGeometryView],
     Bind [] ''setRestartIndexValue'' [PInt] RVoid [OnObject Qt3DCore_QGeometryView],
     Bind [TypeM ''QT3DCORE_QJOINT''] ''setRootJoint'' [PNonNull ''Qt3DCore::QJoint*''] RVoid [OnObject ''Qt3DCore::QSkeleton''],
     Bind [ValueM QTGUI_QQUATERNION] ''setRotation'' [PConv QQuaternion] RVoid [OnObject Qt3DCore_QJoint, OnObject Qt3DCore_QTransform],
     Bind [] ''setRotationX'' [PReal ''float''] RVoid [OnObject Qt3DCore_QJoint, OnObject Qt3DCore_QTransform],
     Bind [] ''setRotationY'' [PReal ''float''] RVoid [OnObject Qt3DCore_QJoint, OnObject Qt3DCore_QTransform],
     Bind [] ''setRotationZ'' [PReal ''float''] RVoid [OnObject Qt3DCore_QJoint, OnObject Qt3DCore_QTransform],
     Bind [TypeM ''QT3DCORE_QASPECTENGINE''] ''setRunMode'' [PConv ''Qt3DCore::QAspectEngine::RunMode''] RVoid [OnObject Qt3DCore_QAspectEngine],
     Bind [ValueM QTGUI_QVECTOR3D] ''setScale'' [PConv QVector3D] RVoid [OnObject Qt3DCore_QJoint],
     Bind [] ''setScale'' [PReal ''float''] RVoid [OnObject Qt3DCore_QTransform],
     Bind [ValueM QTGUI_QVECTOR3D] ''setScale3D'' [PConv QVector3D] RVoid [OnObject Qt3DCore_QTransform],
     Bind [] ''setShareable'' [PBool] RVoid [OnObject ''Qt3DCore::QComponent''],
     Bind [TypeM ''QT3DCORE_QABSTRACTSKELETON''] ''setSkeleton'' [PNonNull ''Qt3DCore::QAbstractSkeleton*''] RVoid [OnObject ''Qt3DCore::QArmature''],
     Bind [ValueM QTCORE_QURL] ''setSource'' [PConv QUrl] RVoid [OnObject ''Qt3DCore::QSkeletonLoader''],
     Bind [] ''setToIdentity'' [] RVoid [OnObject Qt3DCore_QJoint],
     Bind [ValueM QTGUI_QVECTOR3D] ''setTranslation'' [PConv QVector3D] RVoid [OnObject Qt3DCore_QJoint, OnObject Qt3DCore_QTransform],
     Bind [TypeM ''QT3DCORE_QBUFFER''] ''setUsage'' [PConv ''Qt3DCore::QBuffer::UsageType''] RVoid [OnObject ''Qt3DCore::QBuffer''],
     Bind [TypeM QT3DCORE_QATTRIBUTE] ''setVertexBaseType'' [PConv Qt3DCore_QAttribute_VertexBaseType] RVoid [OnObject Qt3DCore_QAttribute],
     Bind [] ''setVertexCount'' [PInt] RVoid [OnObject Qt3DCore_QGeometryView],
     Bind [] ''setVertexSize'' [PUInt] RVoid [OnObject Qt3DCore_QAttribute],
     Bind [] ''setVerticesPerPatch'' [PInt] RVoid [OnObject Qt3DCore_QGeometryView],
     Bind [TypeM ''QT3DCORE_QGEOMETRYVIEW''] ''setView'' [PNonNull ''Qt3DCore::QGeometryView*''] RVoid [OnObject Qt3DCore_QBoundingVolume],
     Bind [TypeM ''QT3DCORE_QABSTRACTSKELETON''] ''skeleton'' [] RObject [OnObject ''Qt3DCore::QArmature''],
     Bind [ValueM QTCORE_QURL] ''source'' [] (RValue QUrl) [OnObject ''Qt3DCore::QSkeletonLoader''],
     Bind [TypeM ''QT3DCORE_QSKELETONLOADER''] ''status'' [] (RMeta ''Qt3DCore::QSkeletonLoader::Status'') [OnObject ''Qt3DCore::QSkeletonLoader''],
     Bind [ValueM QTGUI_QVECTOR3D] ''translation'' [] (RValue QVector3D) [OnObject Qt3DCore_QJoint, OnObject Qt3DCore_QTransform],
     Bind [] ''unregisterAspect'' [PString True] RVoid [OnObject Qt3DCore_QAspectEngine],
     Bind [TypeM ''QT3DCORE_QABSTRACTASPECT''] ''unregisterAspect'' [PNonNull ''Qt3DCore::QAbstractAspect*''] RVoid [OnObject Qt3DCore_QAspectEngine],
     Bind [ValueM QTCORE_QBYTEARRAY] ''updateData'' [PInt, PConv QByteArray] RVoid [OnObject ''Qt3DCore::QBuffer''],
     Bind [] ''updateImplicitBounds'' [] RBool [OnObject Qt3DCore_QBoundingVolume],
     Bind [TypeM ''QT3DCORE_QBUFFER''] ''usage'' [] (RMeta ''Qt3DCore::QBuffer::UsageType'') [OnObject ''Qt3DCore::QBuffer''],
     Bind [TypeM QT3DCORE_QATTRIBUTE] ''vertexBaseType'' [] (RMeta Qt3DCore_QAttribute_VertexBaseType) [OnObject Qt3DCore_QAttribute],
     Bind [] ''vertexCount'' [] RNumber [OnObject Qt3DCore_QGeometryView],
     Bind [] ''vertexSize'' [] RNumber [OnObject Qt3DCore_QAttribute],
     Bind [] ''verticesPerPatch'' [] RNumber [OnObject Qt3DCore_QGeometryView],
     Bind [TypeM ''QT3DCORE_QGEOMETRYVIEW''] ''view'' [] RObject [OnObject Qt3DCore_QBoundingVolume],
     Bind [ValueM QTGUI_QMATRIX4X4] ''worldMatrix'' [] (RValue QMatrix4x4) [OnObject Qt3DCore_QTransform]]"

definition meth_qt3dextras_0_0 :: "binding list" where
  "meth_qt3dextras_0_0 = [
     Bind [] ''acceleration'' [] RNumber [OnObject Qt3DExtras_QAbstractCameraController],
     Bind [] ''alpha'' [] RNumber [OnObject Qt3DExtras_QGoochMaterial, OnObject Qt3DExtras_QPhongAlphaMaterial],
     Bind [ValueM QTGUI_QCOLOR] ''ambient'' [] (RValue QColor) [OnObject Qt3DExtras_QDiffuseMapMaterial, OnObject Qt3DExtras_QDiffuseSpecularMapMaterial, OnObject Qt3DExtras_QDiffuseSpecularMaterial, OnObject Qt3DExtras_QMorphPhongMaterial, OnObject Qt3DExtras_QNormalDiffuseMapMaterial, OnObject Qt3DExtras_QNormalDiffuseSpecularMapMaterial, OnObject Qt3DExtras_QPhongAlphaMaterial],
     Bind [] ''ambientOcclusion'' [] RVariant [OnObject Qt3DExtras_QMetalRoughMaterial],
     Bind [] ''baseColor'' [] RVariant [OnObject Qt3DExtras_QMetalRoughMaterial],
     Bind [] ''beta'' [] RNumber [OnObject Qt3DExtras_QGoochMaterial],
     Bind [TypeM ''QT3DRENDER_QBLENDEQUATION''] ''blendFunctionArg'' [] (RMeta ''Qt3DRender::QBlendEquation::BlendFunction'') [OnObject Qt3DExtras_QPhongAlphaMaterial],
     Bind [] ''bottomRadius'' [] RNumber [OnObject Qt3DExtras_QConeGeometry, OnObject Qt3DExtras_QConeGeometryView, OnObject Qt3DExtras_QConeMesh],
     Bind [TypeM ''QT3DRENDER_QCLEARBUFFERS''] ''buffersToClear'' [] (RMeta ''Qt3DRender::QClearBuffers::BufferType'') [OnObject Qt3DExtras_QForwardRenderer],
     Bind [TypeM ''QT3DCORE_QENTITY''] ''camera'' [] RObject [OnObject Qt3DExtras_QForwardRenderer],
     Bind [ValueM QTGUI_QCOLOR] ''clearColor'' [] (RValue QColor) [OnObject Qt3DExtras_QForwardRenderer],
     Bind [ValueM QTGUI_QCOLOR] ''cool'' [] (RValue QColor) [OnObject Qt3DExtras_QGoochMaterial],
     Bind [] ''currentIndex'' [] RNumber [OnObject ''Qt3DExtras::QAbstractSpriteSheet''],
     Bind [] ''deceleration'' [] RNumber [OnObject Qt3DExtras_QAbstractCameraController],
     Bind [] ''depth'' [] RNumber [OnObject Qt3DExtras_QExtrudedTextMesh],
     Bind [TypeM QT3DRENDER_QBLENDEQUATIONARGUMENTS] ''destinationAlphaArg'' [] (RMeta Qt3DRender_QBlendEquationArguments_Blending) [OnObject Qt3DExtras_QPhongAlphaMaterial],
     Bind [TypeM QT3DRENDER_QBLENDEQUATIONARGUMENTS] ''destinationRgbArg'' [] (RMeta Qt3DRender_QBlendEquationArguments_Blending) [OnObject Qt3DExtras_QPhongAlphaMaterial],
     Bind [ValueM QTGUI_QCOLOR] ''diffuse'' [] (RValue QColor) [OnObject Qt3DExtras_QGoochMaterial, OnObject Qt3DExtras_QMorphPhongMaterial, OnObject Qt3DExtras_QPhongAlphaMaterial],
     Bind [] ''diffuse'' [] RVariant [OnObject Qt3DExtras_QDiffuseSpecularMaterial],
     Bind [TypeM QT3DRENDER_QABSTRACTTEXTURE] ''diffuse'' [] RObject [OnObject Qt3DExtras_QDiffuseMapMaterial, OnObject Qt3DExtras_QDiffuseSpecularMapMaterial, OnObject Qt3DExtras_QNormalDiffuseMapMaterial, OnObject Qt3DExtras_QNormalDiffuseSpecularMapMaterial],
     Bind [ValueM QTCORE_QSIZE] ''externalRenderTargetSize'' [] (RValue QSize) [OnObject Qt3DExtras_QForwardRenderer],
     Bind [] ''extrusionLength'' [] RNumber [OnObject Qt3DExtras_QExtrudedTextGeometry],
     Bind [ValueM QTGUI_QFONT] ''font'' [] (RValue QFont) [OnObject Qt3DExtras_QExtrudedTextGeometry, OnObject Qt3DExtras_QExtrudedTextMesh],
     Bind [] ''gamma'' [] RNumber [OnObject Qt3DExtras_QForwardRenderer],
     Bind [] ''hasBottomEndcap'' [] RBool [OnObject Qt3DExtras_QConeGeometry, OnObject Qt3DExtras_QConeGeometryView, OnObject Qt3DExtras_QConeMesh],
     Bind [] ''hasTopEndcap'' [] RBool [OnObject Qt3DExtras_QConeGeometry, OnObject Qt3DExtras_QConeGeometryView, OnObject Qt3DExtras_QConeMesh],
     Bind [TypeM QT3DCORE_QATTRIBUTE] ''indexAttribute'' [] RObject [OnObject Qt3DExtras_QConeGeometry, OnObject Qt3DExtras_QCuboidGeometry, OnObject Qt3DExtras_QCylinderGeometry, OnObject Qt3DExtras_QExtrudedTextGeometry],
     Bind [] ''interpolator'' [] RNumber [OnObject Qt3DExtras_QMorphPhongMaterial],
     Bind [] ''isAlphaBlendingEnabled'' [] RBool [OnObject Qt3DExtras_QDiffuseSpecularMaterial],
     Bind [] ''isFrustumCullingEnabled'' [] RBool [OnObject Qt3DExtras_QForwardRenderer],
     Bind [] ''length'' [] RNumber [OnObject Qt3DExtras_QConeGeometry, OnObject Qt3DExtras_QConeGeometryView, OnObject Qt3DExtras_QConeMesh, OnObject Qt3DExtras_QCylinderGeometry, OnObject Qt3DExtras_QCylinderGeometryView, OnObject Qt3DExtras_QCylinderMesh],
     Bind [] ''linearSpeed'' [] RNumber [OnObject Qt3DExtras_QAbstractCameraController],
     Bind [] ''lookSpeed'' [] RNumber [OnObject Qt3DExtras_QAbstractCameraController],
     Bind [] ''metalness'' [] RVariant [OnObject Qt3DExtras_QMetalRoughMaterial],
     Bind [] ''normal'' [] RVariant [OnObject Qt3DExtras_QDiffuseSpecularMaterial, OnObject Qt3DExtras_QMetalRoughMaterial],
     Bind [TypeM QT3DRENDER_QABSTRACTTEXTURE] ''normal'' [] RObject [OnObject Qt3DExtras_QNormalDiffuseMapMaterial, OnObject Qt3DExtras_QNormalDiffuseSpecularMapMaterial],
     Bind [TypeM QT3DCORE_QATTRIBUTE] ''normalAttribute'' [] RObject [OnObject Qt3DExtras_QConeGeometry, OnObject Qt3DExtras_QCuboidGeometry, OnObject Qt3DExtras_QCylinderGeometry, OnObject Qt3DExtras_QExtrudedTextGeometry],
     Bind [TypeM QT3DCORE_QATTRIBUTE] ''positionAttribute'' [] RObject [OnObject Qt3DExtras_QConeGeometry, OnObject Qt3DExtras_QCuboidGeometry, OnObject Qt3DExtras_QCylinderGeometry, OnObject Qt3DExtras_QExtrudedTextGeometry],
     Bind [] ''radius'' [] RNumber [OnObject Qt3DExtras_QCylinderGeometry, OnObject Qt3DExtras_QCylinderGeometryView, OnObject Qt3DExtras_QCylinderMesh],
     Bind [] ''rings'' [] RNumber [OnObject Qt3DExtras_QConeGeometry, OnObject Qt3DExtras_QConeGeometryView, OnObject Qt3DExtras_QConeMesh, OnObject Qt3DExtras_QCylinderGeometry, OnObject Qt3DExtras_QCylinderGeometryView, OnObject Qt3DExtras_QCylinderMesh],
     Bind [] ''roughness'' [] RVariant [OnObject Qt3DExtras_QMetalRoughMaterial],
     Bind [] ''setAcceleration'' [PReal ''float''] RVoid [OnObject Qt3DExtras_QAbstractCameraController],
     Bind [] ''setAlpha'' [PReal ''float''] RVoid [OnObject Qt3DExtras_QGoochMaterial, OnObject Qt3DExtras_QPhongAlphaMaterial],
     Bind [] ''setAlphaBlendingEnabled'' [PBool] RVoid [OnObject Qt3DExtras_QDiffuseSpecularMaterial],
     Bind [ValueM QTGUI_QCOLOR] ''setAmbient'' [PConv QColor] RVoid [OnObject Qt3DExtras_QDiffuseMapMaterial, OnObject Qt3DExtras_QDiffuseSpecularMapMaterial, OnObject Qt3DExtras_QDiffuseSpecularMaterial, OnObject Qt3DExtras_QMorphPhongMaterial, OnObject Qt3DExtras_QNormalDiffuseMapMaterial, OnObject Qt3DExtras_QNormalDiffuseSpecularMapMaterial, OnObject Qt3DExtras_QPhongAlphaMaterial],
     Bind [] ''setAmbientOcclusion'' [PVariant] RVoid [OnObject Qt3DExtras_QMetalRoughMaterial],
     Bind [] ''setBaseColor'' [PVariant] RVoid [OnObject Qt3DExtras_QMetalRoughMaterial],
     Bind [] ''setBeta'' [PReal ''float''] RVoid [OnObject Qt3DExtras_QGoochMaterial],
     Bind [TypeM ''QT3DRENDER_QBLENDEQUATION''] ''setBlendFunctionArg'' [PConv ''Qt3DRender::QBlendEquation::BlendFunction''] RVoid [OnObject Qt3DExtras_QPhongAlphaMaterial],
     Bind [] ''setBottomRadius'' [PReal ''float''] RVoid [OnObject Qt3DExtras_QConeGeometry, OnObject Qt3DExtras_QConeGeometryView, OnObject Qt3DExtras_QConeMesh],
     Bind [TypeM ''QT3DRENDER_QCLEARBUFFERS''] ''setBuffersToClear'' [PConv ''Qt3DRender::QClearBuffers::BufferType''] RVoid [OnObject Qt3DExtras_QForwardRenderer],
     Bind [TypeM ''QT3DCORE_QENTITY''] ''setCamera'' [PNonNull ''Qt3DCore::QEntity*''] RVoid [OnObject Qt3DExtras_QForwardRenderer],
     Bind [ValueM QTGUI_QCOLOR] ''setClearColor'' [PConv QColor] RVoid [OnObject Qt3DExtras_QForwardRenderer],
     Bind [ValueM QTGUI_QCOLOR] ''setCool'' [PConv QColor] RVoid [OnObject Qt3DExtras_QGoochMaterial],
     Bind [] ''setCurrentIndex'' [PInt] RVoid [OnObject ''Qt3DExtras::QAbstractSpriteSheet''],
     Bind [] ''setDeceleration'' [PReal ''float''] RVoid [OnObject Qt3DExtras_QAbstractCameraController],
     Bind [] ''setDepth'' [PReal ''float''] RVoid [OnObject Qt3DExtras_QExtrudedTextGeometry, OnObject Qt3DExtras_QExtrudedTextMesh],
     Bind [TypeM QT3DRENDER_QBLENDEQUATIONARGUMENTS] ''setDestinationAlphaArg'' [PConv Qt3DRender_QBlendEquationArguments_Blending] RVoid [OnObject Qt3DExtras_QPhongAlphaMaterial],
     Bind [TypeM QT3DRENDER_QBLENDEQUATIONARGUMENTS] ''setDestinationRgbArg'' [PConv Qt3DRender_QBlendEquationArguments_Blending] RVoid [OnObject Qt3DExtras_QPhongAlphaMaterial],
     Bind [ValueM QTGUI_QCOLOR] ''setDiffuse'' [PConv QColor] RVoid [OnObject Qt3DExtras_QGoochMaterial, OnObject Qt3DExtras_QMorphPhongMaterial, OnObject Qt3DExtras_QPhongAlphaMaterial],
     Bind [] ''setDiffuse'' [PVariant] RVoid [OnObject Qt3DExtras_QDiffuseSpecularMaterial],
     Bind [TypeM QT3DRENDER_QABSTRACTTEXTURE] ''setDiffuse'' [PNonNull Qt3DRender_QAbstractTexture_ptr] RVoid [OnObject Qt3DExtras_QDiffuseMapMaterial, OnObject Qt3DExtras_QDiffuseSpecularMapMaterial, OnObject Qt3DExtras_QNormalDiffuseMapMaterial, OnObject Qt3DExtras_QNormalDiffuseSpecularMapMaterial],
     Bind [ValueM QTCORE_QSIZE] ''setExternalRenderTargetSize'' [PConv QSize] RVoid [OnObject Qt3DExtras_QForwardRenderer],
     Bind [ValueM QTGUI_QFONT] ''setFont'' [PConv QFont] RVoid [OnObject Qt3DExtras_QExtrudedTextGeometry, OnObject Qt3DExtras_QExtrudedTextMesh],
     Bind [] ''setFrustumCullingEnabled'' [PBool] RVoid [OnObject Qt3DExtras_QForwardRenderer],
     Bind [] ''setGamma'' [PReal ''float''] RVoid [OnObject Qt3DExtras_QForwardRenderer],
     Bind [] ''setHasBottomEndcap'' [PBool] RVoid [OnObject Qt3DExtras_QConeGeometry, OnObject Qt3DExtras_QConeGeometryView, OnObject Qt3DExtras_QConeMesh],
     Bind [] ''setHasTopEndcap'' [PBool] RVoid [OnObject Qt3DExtras_QConeGeometry, OnObject Qt3DExtras_QConeGeometryView, OnObject Qt3DExtras_QConeMesh],
     Bind [] ''setInterpolator'' [PReal ''float''] RVoid [OnObject Qt3DExtras_QMorphPhongMaterial],
     Bind [] ''setLength'' [PReal ''float''] RVoid [OnObject Qt3DExtras_QConeGeometry, OnObject Qt3DExtras_QConeGeometryView, OnObject Qt3DExtras_QConeMesh, OnObject Qt3DExtras_QCylinderGeometry, OnObject Qt3DExtras_QCylinderGeometryView, OnObject Qt3DExtras_QCylinderMesh],
     Bind [] ''setLinearSpeed'' [PReal ''float''] RVoid [OnObject Qt3DExtras_QAbstractCameraController],
     Bind [] ''setLookSpeed'' [PReal ''float''] RVoid [OnObject Qt3DExtras_QAbstractCameraController],
     Bind [] ''setMetalness'' [PVariant] RVoid [OnObject Qt3DExtras_QMetalRoughMaterial],
     Bind [] ''setNormal'' [PVariant] RVoid [OnObject Qt3DExtras_QDiffuseSpecularMaterial, OnObject Qt3DExtras_QMetalRoughMaterial],
     Bind [TypeM QT3DRENDER_QABSTRACTTEXTURE] ''setNormal'' [PNonNull Qt3DRender_QAbstractTexture_ptr] RVoid [OnObject Qt3DExtras_QNormalDiffuseMapMaterial, OnObject Qt3DExtras_QNormalDiffuseSpecularMapMaterial],
     Bind [] ''setRadius'' [PReal ''float''] RVoid [OnObject Qt3DExtras_QCylinderGeometry, OnObject Qt3DExtras_QCylinderGeometryView, OnObject Qt3DExtras_QCylinderMesh]]"

definition meth_qt3dextras_0_1 :: "binding list" where
  "meth_qt3dextras_0_1 = [
     Bind [] ''setRings'' [PInt] RVoid [OnObject Qt3DExtras_QConeGeometry, OnObject Qt3DExtras_QConeGeometryView, OnObject Qt3DExtras_QConeMesh, OnObject Qt3DExtras_QCylinderGeometry, OnObject Qt3DExtras_QCylinderGeometryView, OnObject Qt3DExtras_QCylinderMesh],
     Bind [] ''setRoughness'' [PVariant] RVoid [OnObject Qt3DExtras_QMetalRoughMaterial],
     Bind [] ''setShininess'' [PReal ''float''] RVoid [OnObject Qt3DExtras_QDiffuseMapMaterial, OnObject Qt3DExtras_QDiffuseSpecularMapMaterial, OnObject Qt3DExtras_QDiffuseSpecularMaterial, OnObject Qt3DExtras_QGoochMaterial, OnObject Qt3DExtras_QMorphPhongMaterial, OnObject Qt3DExtras_QNormalDiffuseMapMaterial, OnObject Qt3DExtras_QNormalDiffuseSpecularMapMaterial, OnObject Qt3DExtras_QPhongAlphaMaterial],
     Bind [] ''setShowDebugOverlay'' [PBool] RVoid [OnObject Qt3DExtras_QForwardRenderer],
     Bind [] ''setSlices'' [PInt] RVoid [OnObject Qt3DExtras_QConeGeometry, OnObject Qt3DExtras_QConeGeometryView, OnObject Qt3DExtras_QConeMesh, OnObject Qt3DExtras_QCylinderGeometry, OnObject Qt3DExtras_QCylinderGeometryView, OnObject Qt3DExtras_QCylinderMesh],
     Bind [TypeM QT3DRENDER_QBLENDEQUATIONARGUMENTS] ''setSourceAlphaArg'' [PConv Qt3DRender_QBlendEquationArguments_Blending] RVoid [OnObject Qt3DExtras_QPhongAlphaMaterial],
     Bind [TypeM QT3DRENDER_QBLENDEQUATIONARGUMENTS] ''setSourceRgbArg'' [PConv Qt3DRender_QBlendEquationArguments_Blending] RVoid [OnObject Qt3DExtras_QPhongAlphaMaterial],
     Bind [ValueM QTGUI_QCOLOR] ''setSpecular'' [PConv QColor] RVoid [OnObject Qt3DExtras_QDiffuseMapMaterial, OnObject Qt3DExtras_QGoochMaterial, OnObject Qt3DExtras_QMorphPhongMaterial, OnObject Qt3DExtras_QNormalDiffuseMapMaterial, OnObject Qt3DExtras_QPhongAlphaMaterial],
     Bind [] ''setSpecular'' [PVariant] RVoid [OnObject Qt3DExtras_QDiffuseSpecularMaterial],
     Bind [TypeM QT3DRENDER_QABSTRACTTEXTURE] ''setSpecular'' [PNonNull Qt3DRender_QAbstractTexture_ptr] RVoid [OnObject Qt3DExtras_QDiffuseSpecularMapMaterial, OnObject Qt3DExtras_QNormalDiffuseSpecularMapMaterial],
     Bind [TypeM QTCORE_QOBJECT] ''setSurface'' [PNonNull QObject_ptr] RVoid [OnObject Qt3DExtras_QForwardRenderer],
     Bind [] ''setText'' [PString True] RVoid [OnObject Qt3DExtras_QExtrudedTextGeometry, OnObject Qt3DExtras_QExtrudedTextMesh],
     Bind [TypeM QT3DRENDER_QABSTRACTTEXTURE] ''setTexture'' [PNonNull Qt3DRender_QAbstractTexture_ptr] RVoid [OnObject ''Qt3DExtras::QAbstractSpriteSheet''],
     Bind [] ''setTextureScale'' [PReal ''float''] RVoid [OnObject Qt3DExtras_QDiffuseMapMaterial, OnObject Qt3DExtras_QDiffuseSpecularMapMaterial, OnObject Qt3DExtras_QDiffuseSpecularMaterial, OnObject Qt3DExtras_QMetalRoughMaterial, OnObject Qt3DExtras_QNormalDiffuseMapMaterial, OnObject Qt3DExtras_QNormalDiffuseSpecularMapMaterial],
     Bind [] ''setTopRadius'' [PReal ''float''] RVoid [OnObject Qt3DExtras_QConeGeometry, OnObject Qt3DExtras_QConeGeometryView, OnObject Qt3DExtras_QConeMesh],
     Bind [ValueM QTCORE_QRECTF] ''setViewportRect'' [PConv QRectF] RVoid [OnObject Qt3DExtras_QForwardRenderer],
     Bind [ValueM QTGUI_QCOLOR] ''setWarm'' [PConv QColor] RVoid [OnObject Qt3DExtras_QGoochMaterial],
     Bind [] ''setXExtent'' [PReal ''float''] RVoid [OnObject Qt3DExtras_QCuboidGeometry, OnObject Qt3DExtras_QCuboidGeometryView, OnObject Qt3DExtras_QCuboidMesh],
     Bind [ValueM QTCORE_QSIZE] ''setXYMeshResolution'' [PConv QSize] RVoid [OnObject Qt3DExtras_QCuboidGeometry, OnObject Qt3DExtras_QCuboidGeometryView, OnObject Qt3DExtras_QCuboidMesh],
     Bind [ValueM QTCORE_QSIZE] ''setXZMeshResolution'' [PConv QSize] RVoid [OnObject Qt3DExtras_QCuboidGeometry, OnObject Qt3DExtras_QCuboidGeometryView, OnObject Qt3DExtras_QCuboidMesh],
     Bind [] ''setYExtent'' [PReal ''float''] RVoid [OnObject Qt3DExtras_QCuboidGeometry, OnObject Qt3DExtras_QCuboidGeometryView, OnObject Qt3DExtras_QCuboidMesh],
     Bind [ValueM QTCORE_QSIZE] ''setYZMeshResolution'' [PConv QSize] RVoid [OnObject Qt3DExtras_QCuboidGeometry, OnObject Qt3DExtras_QCuboidGeometryView, OnObject Qt3DExtras_QCuboidMesh],
     Bind [] ''setZExtent'' [PReal ''float''] RVoid [OnObject Qt3DExtras_QCuboidGeometry, OnObject Qt3DExtras_QCuboidGeometryView, OnObject Qt3DExtras_QCuboidMesh],
     Bind [] ''setZoomInLimit'' [PReal ''float''] RVoid [OnObject ''Qt3DExtras::QOrbitCameraController''],
     Bind [] ''shininess'' [] RNumber [OnObject Qt3DExtras_QDiffuseMapMaterial, OnObject Qt3DExtras_QDiffuseSpecularMapMaterial, OnObject Qt3DExtras_QDiffuseSpecularMaterial, OnObject Qt3DExtras_QGoochMaterial, OnObject Qt3DExtras_QMorphPhongMaterial, OnObject Qt3DExtras_QNormalDiffuseMapMaterial, OnObject Qt3DExtras_QNormalDiffuseSpecularMapMaterial, OnObject Qt3DExtras_QPhongAlphaMaterial],
     Bind [] ''showDebugOverlay'' [] RBool [OnObject Qt3DExtras_QForwardRenderer],
     Bind [] ''slices'' [] RNumber [OnObject Qt3DExtras_QConeGeometry, OnObject Qt3DExtras_QConeGeometryView, OnObject Qt3DExtras_QConeMesh, OnObject Qt3DExtras_QCylinderGeometry, OnObject Qt3DExtras_QCylinderGeometryView, OnObject Qt3DExtras_QCylinderMesh],
     Bind [TypeM QT3DRENDER_QBLENDEQUATIONARGUMENTS] ''sourceAlphaArg'' [] (RMeta Qt3DRender_QBlendEquationArguments_Blending) [OnObject Qt3DExtras_QPhongAlphaMaterial],
     Bind [TypeM QT3DRENDER_QBLENDEQUATIONARGUMENTS] ''sourceRgbArg'' [] (RMeta Qt3DRender_QBlendEquationArguments_Blending) [OnObject Qt3DExtras_QPhongAlphaMaterial],
     Bind [ValueM QTGUI_QCOLOR] ''specular'' [] (RValue QColor) [OnObject Qt3DExtras_QDiffuseMapMaterial, OnObject Qt3DExtras_QGoochMaterial, OnObject Qt3DExtras_QMorphPhongMaterial, OnObject Qt3DExtras_QNormalDiffuseMapMaterial, OnObject Qt3DExtras_QPhongAlphaMaterial],
     Bind [] ''specular'' [] RVariant [OnObject Qt3DExtras_QDiffuseSpecularMaterial],
     Bind [TypeM QT3DRENDER_QABSTRACTTEXTURE] ''specular'' [] RObject [OnObject Qt3DExtras_QDiffuseSpecularMapMaterial, OnObject Qt3DExtras_QNormalDiffuseSpecularMapMaterial],
     Bind [TypeM QTCORE_QOBJECT] ''surface'' [] RObject [OnObject Qt3DExtras_QForwardRenderer],
     Bind [TypeM QT3DCORE_QATTRIBUTE] ''tangentAttribute'' [] RObject [OnObject Qt3DExtras_QCuboidGeometry],
     Bind [TypeM QT3DCORE_QATTRIBUTE] ''texCoordAttribute'' [] RObject [OnObject Qt3DExtras_QConeGeometry, OnObject Qt3DExtras_QCuboidGeometry, OnObject Qt3DExtras_QCylinderGeometry],
     Bind [] ''text'' [] RString [OnObject Qt3DExtras_QExtrudedTextGeometry, OnObject Qt3DExtras_QExtrudedTextMesh],
     Bind [TypeM QT3DRENDER_QABSTRACTTEXTURE] ''texture'' [] RObject [OnObject ''Qt3DExtras::QAbstractSpriteSheet''],
     Bind [] ''textureScale'' [] RNumber [OnObject Qt3DExtras_QDiffuseMapMaterial, OnObject Qt3DExtras_QDiffuseSpecularMapMaterial, OnObject Qt3DExtras_QDiffuseSpecularMaterial, OnObject Qt3DExtras_QMetalRoughMaterial, OnObject Qt3DExtras_QNormalDiffuseMapMaterial, OnObject Qt3DExtras_QNormalDiffuseSpecularMapMaterial],
     Bind [ValueM ''QTGUI_QMATRIX3X3''] ''textureTransform'' [] (RValue ''QMatrix3x3'') [OnObject ''Qt3DExtras::QAbstractSpriteSheet''],
     Bind [] ''topRadius'' [] RNumber [OnObject Qt3DExtras_QConeGeometry, OnObject Qt3DExtras_QConeGeometryView, OnObject Qt3DExtras_QConeMesh],
     Bind [] ''updateIndices'' [] RVoid [OnObject Qt3DExtras_QConeGeometry, OnObject Qt3DExtras_QCuboidGeometry, OnObject Qt3DExtras_QCylinderGeometry],
     Bind [] ''updateVertices'' [] RVoid [OnObject Qt3DExtras_QConeGeometry, OnObject Qt3DExtras_QCuboidGeometry, OnObject Qt3DExtras_QCylinderGeometry],
     Bind [ValueM QTCORE_QRECTF] ''viewportRect'' [] (RValue QRectF) [OnObject Qt3DExtras_QForwardRenderer],
     Bind [ValueM QTGUI_QCOLOR] ''warm'' [] (RValue QColor) [OnObject Qt3DExtras_QGoochMaterial],
     Bind [] ''xExtent'' [] RNumber [OnObject Qt3DExtras_QCuboidGeometry, OnObject Qt3DExtras_QCuboidGeometryView, OnObject Qt3DExtras_QCuboidMesh],
     Bind [ValueM QTCORE_QSIZE] ''xyMeshResolution'' [] (RValue QSize) [OnObject Qt3DExtras_QCuboidGeometry, OnObject Qt3DExtras_QCuboidGeometryView, OnObject Qt3DExtras_QCuboidMesh],
     Bind [ValueM QTCORE_QSIZE] ''xzMeshResolution'' [] (RValue QSize) [OnObject Qt3DExtras_QCuboidGeometry, OnObject Qt3DExtras_QCuboidGeometryView, OnObject Qt3DExtras_QCuboidMesh],
     Bind [] ''yExtent'' [] RNumber [OnObject Qt3DExtras_QCuboidGeometry, OnObject Qt3DExtras_QCuboidGeometryView, OnObject Qt3DExtras_QCuboidMesh],
     Bind [ValueM QTCORE_QSIZE] ''yzMeshResolution'' [] (RValue QSize) [OnObject Qt3DExtras_QCuboidGeometry, OnObject Qt3DExtras_QCuboidGeometryView, OnObject Qt3DExtras_QCuboidMesh],
     Bind [] ''zExtent'' [] RNumber [OnObject Qt3DExtras_QCuboidGeometry, OnObject Qt3DExtras_QCuboidGeometryView, OnObject Qt3DExtras_QCuboidMesh],
     Bind [] ''zoomInLimit'' [] RNumber [OnObject ''Qt3DExtras::QOrbitCameraController'']]"

definition meth_qt3dextras_1_0 :: "binding list" where
  "meth_qt3dextras_1_0 = [
     Bind [TypeM ''QT3DRENDER_QFRAMEGRAPHNODE''] ''activeFrameGraph'' [] RObject [OnObject ''Qt3DExtras::Qt3DWindow''],
     Bind [TypeM ''QT3DEXTRAS_QSPRITESHEETITEM''] ''addSprite'' [PNonNull ''Qt3DExtras::QSpriteSheetItem*''] RVoid [OnObject ''Qt3DExtras::QSpriteSheet''],
     Bind [TypeM ''QT3DEXTRAS_QSPRITESHEETITEM''] ''addSprite'' [PInt, PInt, PInt, PInt] RObject [OnObject ''Qt3DExtras::QSpriteSheet''],
     Bind [ValueM QTGUI_QCOLOR] ''ambient'' [] (RValue QColor) [OnObject Qt3DExtras_QPhongMaterial],
     Bind [] ''baseName'' [] RString [OnObject ''Qt3DExtras::QSkyboxEntity''],
     Bind [ValueM QTGUI_QCOLOR] ''color'' [] (RValue QColor) [OnObject Qt3DExtras_QText2DEntity],
     Bind [] ''columns'' [] RNumber [OnObject ''Qt3DExtras::QSpriteGrid''],
     Bind [TypeM ''QT3DEXTRAS_QFORWARDRENDERER''] ''defaultFrameGraph'' [] RObject [OnObject ''Qt3DExtras::Qt3DWindow''],
     Bind [ValueM QTGUI_QCOLOR] ''diffuse'' [] (RValue QColor) [OnObject Qt3DExtras_QPhongMaterial],
     Bind [] ''extension'' [] RString [OnObject ''Qt3DExtras::QSkyboxEntity''],
     Bind [ValueM QTGUI_QFONT] ''font'' [] (RValue QFont) [OnObject Qt3DExtras_QText2DEntity],
     Bind [] ''generateTangents'' [] RBool [OnObject Qt3DExtras_QSphereGeometry, OnObject Qt3DExtras_QSphereGeometryView, OnObject Qt3DExtras_QSphereMesh],
     Bind [] ''height'' [] RNumber [OnObject Qt3DExtras_QPlaneGeometry, OnObject Qt3DExtras_QPlaneGeometryView, OnObject ''Qt3DExtras::QPlaneMesh'', OnObject Qt3DExtras_QText2DEntity],
     Bind [] ''height'' [] RNumber [OnObject Qt3DExtras_QSpriteSheetItem],
     Bind [TypeM QT3DCORE_QATTRIBUTE] ''indexAttribute'' [] RObject [OnObject Qt3DExtras_QPlaneGeometry, OnObject Qt3DExtras_QSphereGeometry, OnObject Qt3DExtras_QTorusGeometry],
     Bind [] ''isAlphaBlendingEnabled'' [] RBool [OnObject Qt3DExtras_QTextureMaterial],
     Bind [] ''isGammaCorrectEnabled'' [] RBool [OnObject ''Qt3DExtras::QSkyboxEntity''],
     Bind [ValueM QTCORE_QSIZE] ''meshResolution'' [] (RValue QSize) [OnObject Qt3DExtras_QPlaneGeometryView, OnObject ''Qt3DExtras::QPlaneMesh''],
     Bind [] ''minorRadius'' [] RNumber [OnObject Qt3DExtras_QTorusGeometry, OnObject Qt3DExtras_QTorusGeometryView, OnObject ''Qt3DExtras::QTorusMesh''],
     Bind [] ''mirrored'' [] RBool [OnObject Qt3DExtras_QPlaneGeometry, OnObject Qt3DExtras_QPlaneGeometryView, OnObject ''Qt3DExtras::QPlaneMesh''],
     Bind [TypeM QT3DCORE_QATTRIBUTE] ''normalAttribute'' [] RObject [OnObject Qt3DExtras_QPlaneGeometry, OnObject Qt3DExtras_QSphereGeometry, OnObject Qt3DExtras_QTorusGeometry],
     Bind [TypeM QT3DCORE_QATTRIBUTE] ''positionAttribute'' [] RObject [OnObject Qt3DExtras_QPlaneGeometry, OnObject Qt3DExtras_QSphereGeometry, OnObject Qt3DExtras_QTorusGeometry],
     Bind [] ''radius'' [] RNumber [OnObject Qt3DExtras_QSphereGeometry, OnObject Qt3DExtras_QSphereGeometryView, OnObject Qt3DExtras_QSphereMesh, OnObject Qt3DExtras_QTorusGeometry, OnObject Qt3DExtras_QTorusGeometryView, OnObject ''Qt3DExtras::QTorusMesh''],
     Bind [] ''registerAspect'' [PString True] RVoid [OnObject ''Qt3DExtras::Qt3DWindow''],
     Bind [TypeM ''QT3DCORE_QABSTRACTASPECT''] ''registerAspect'' [PNonNull ''Qt3DCore::QAbstractAspect*''] RVoid [OnObject ''Qt3DExtras::Qt3DWindow''],
     Bind [TypeM ''QT3DEXTRAS_QSPRITESHEETITEM''] ''removeSprite'' [PNonNull ''Qt3DExtras::QSpriteSheetItem*''] RVoid [OnObject ''Qt3DExtras::QSpriteSheet''],
     Bind [TypeM ''QT3DRENDER_QRENDERSETTINGS''] ''renderSettings'' [] RObject [OnObject ''Qt3DExtras::Qt3DWindow''],
     Bind [ValueM QTCORE_QSIZE] ''resolution'' [] (RValue QSize) [OnObject Qt3DExtras_QPlaneGeometry],
     Bind [] ''rings'' [] RNumber [OnObject Qt3DExtras_QSphereGeometry, OnObject Qt3DExtras_QSphereGeometryView, OnObject Qt3DExtras_QSphereMesh, OnObject Qt3DExtras_QTorusGeometry, OnObject Qt3DExtras_QTorusGeometryView, OnObject ''Qt3DExtras::QTorusMesh''],
     Bind [] ''rows'' [] RNumber [OnObject ''Qt3DExtras::QSpriteGrid''],
     Bind [TypeM ''QT3DRENDER_QFRAMEGRAPHNODE''] ''setActiveFrameGraph'' [PNonNull ''Qt3DRender::QFrameGraphNode*''] RVoid [OnObject ''Qt3DExtras::Qt3DWindow''],
     Bind [] ''setAlphaBlendingEnabled'' [PBool] RVoid [OnObject Qt3DExtras_QTextureMaterial],
     Bind [ValueM QTGUI_QCOLOR] ''setAmbient'' [PConv QColor] RVoid [OnObject Qt3DExtras_QPhongMaterial],
     Bind [] ''setBaseName'' [PString True] RVoid [OnObject ''Qt3DExtras::QSkyboxEntity''],
     Bind [ValueM QTGUI_QCOLOR] ''setColor'' [PConv QColor] RVoid [OnObject Qt3DExtras_QText2DEntity],
     Bind [] ''setColumns'' [PInt] RVoid [OnObject ''Qt3DExtras::QSpriteGrid''],
     Bind [ValueM QTGUI_QCOLOR] ''setDiffuse'' [PConv QColor] RVoid [OnObject Qt3DExtras_QPhongMaterial],
     Bind [] ''setExtension'' [PString True] RVoid [OnObject ''Qt3DExtras::QSkyboxEntity''],
     Bind [ValueM QTGUI_QFONT] ''setFont'' [PConv QFont] RVoid [OnObject Qt3DExtras_QText2DEntity],
     Bind [] ''setGammaCorrectEnabled'' [PBool] RVoid [OnObject ''Qt3DExtras::QSkyboxEntity''],
     Bind [] ''setGenerateTangents'' [PBool] RVoid [OnObject Qt3DExtras_QSphereGeometry, OnObject Qt3DExtras_QSphereGeometryView, OnObject Qt3DExtras_QSphereMesh],
     Bind [] ''setHeight'' [PReal ''float''] RVoid [OnObject Qt3DExtras_QPlaneGeometry, OnObject Qt3DExtras_QPlaneGeometryView, OnObject ''Qt3DExtras::QPlaneMesh'', OnObject Qt3DExtras_QText2DEntity],
     Bind [] ''setHeight'' [PInt] RVoid [OnObject Qt3DExtras_QSpriteSheetItem],
     Bind [ValueM QTCORE_QSIZE] ''setMeshResolution'' [PConv QSize] RVoid [OnObject Qt3DExtras_QPlaneGeometryView, OnObject ''Qt3DExtras::QPlaneMesh''],
     Bind [] ''setMinorRadius'' [PReal ''float''] RVoid [OnObject Qt3DExtras_QTorusGeometry, OnObject Qt3DExtras_QTorusGeometryView, OnObject ''Qt3DExtras::QTorusMesh''],
     Bind [] ''setMirrored'' [PBool] RVoid [OnObject Qt3DExtras_QPlaneGeometry, OnObject Qt3DExtras_QPlaneGeometryView, OnObject ''Qt3DExtras::QPlaneMesh''],
     Bind [] ''setRadius'' [PReal ''float''] RVoid [OnObject Qt3DExtras_QSphereGeometry, OnObject Qt3DExtras_QSphereGeometryView, OnObject Qt3DExtras_QSphereMesh, OnObject Qt3DExtras_QTorusGeometry, OnObject Qt3DExtras_QTorusGeometryView, OnObject ''Qt3DExtras::QTorusMesh''],
     Bind [ValueM QTCORE_QSIZE] ''setResolution'' [PConv QSize] RVoid [OnObject Qt3DExtras_QPlaneGeometry],
     Bind [] ''setRings'' [PInt] RVoid [OnObject Qt3DExtras_QSphereGeometry, OnObject Qt3DExtras_QSphereGeometryView, OnObject Qt3DExtras_QSphereMesh, OnObject Qt3DExtras_QTorusGeometry, OnObject Qt3DExtras_QTorusGeometryView, OnObject ''Qt3DExtras::QTorusMesh''],
     Bind [TypeM ''QT3DCORE_QENTITY''] ''setRootEntity'' [PNonNull ''Qt3DCore::QEntity*''] RVoid [OnObject ''Qt3DExtras::Qt3DWindow''],
     Bind [] ''setRows'' [PInt] RVoid [OnObject ''Qt3DExtras::QSpriteGrid''],
     Bind [] ''setShininess'' [PReal ''float''] RVoid [OnObject Qt3DExtras_QPhongMaterial],
     Bind [] ''setSlices'' [PInt] RVoid [OnObject Qt3DExtras_QSphereGeometry, OnObject Qt3DExtras_QSphereGeometryView, OnObject Qt3DExtras_QSphereMesh, OnObject Qt3DExtras_QTorusGeometry, OnObject Qt3DExtras_QTorusGeometryView, OnObject ''Qt3DExtras::QTorusMesh''],
     Bind [ValueM QTGUI_QCOLOR] ''setSpecular'' [PConv QColor] RVoid [OnObject Qt3DExtras_QPhongMaterial],
     Bind [TypeM ''QT3DEXTRAS_QSPRITESHEETITEM''] ''setSprites'' [PList ''Qt3DExtras::QSpriteSheetItem*''] RVoid [OnObject ''Qt3DExtras::QSpriteSheet''],
     Bind [] ''setText'' [PString True] RVoid [OnObject Qt3DExtras_QText2DEntity],
     Bind [TypeM QT3DRENDER_QABSTRACTTEXTURE] ''setTexture'' [PNonNull Qt3DRender_QAbstractTexture_ptr] RVoid [OnObject Qt3DExtras_QTextureMaterial],
     Bind [ValueM QTGUI_QVECTOR2D] ''setTextureOffset'' [PConv QVector2D] RVoid [OnObject Qt3DExtras_QTextureMaterial],
     Bind [ValueM ''QTGUI_QMATRIX3X3''] ''setTextureTransform'' [PConv ''QMatrix3x3''] RVoid [OnObject Qt3DExtras_QTextureMaterial],
     Bind [] ''setWidth'' [PReal ''float''] RVoid [OnObject Qt3DExtras_QPlaneGeometry, OnObject Qt3DExtras_QPlaneGeometryView, OnObject ''Qt3DExtras::QPlaneMesh'', OnObject Qt3DExtras_QText2DEntity],
     Bind [] ''setWidth'' [PInt] RVoid [OnObject Qt3DExtras_QSpriteSheetItem],
     Bind [] ''setX'' [PInt] RVoid [OnObject Qt3DExtras_QSpriteSheetItem],
     Bind [] ''setY'' [PInt] RVoid [OnObject Qt3DExtras_QSpriteSheetItem],
     Bind [] ''shininess'' [] RNumber [OnObject Qt3DExtras_QPhongMaterial],
     Bind [] ''slices'' [] RNumber [OnObject Qt3DExtras_QSphereGeometry, OnObject Qt3DExtras_QSphereGeometryView, OnObject Qt3DExtras_QSphereMesh, OnObject Qt3DExtras_QTorusGeometry, OnObject Qt3DExtras_QTorusGeometryView, OnObject ''Qt3DExtras::QTorusMesh''],
     Bind [ValueM QTGUI_QCOLOR] ''specular'' [] (RValue QColor) [OnObject Qt3DExtras_QPhongMaterial],
     Bind [TypeM ''QT3DEXTRAS_QSPRITESHEETITEM''] ''sprites'' [] (RList IObject) [OnObject ''Qt3DExtras::QSpriteSheet''],
     Bind [TypeM QT3DCORE_QATTRIBUTE] ''tangentAttribute'' [] RObject [OnObject Qt3DExtras_QPlaneGeometry, OnObject Qt3DExtras_QSphereGeometry],
     Bind [TypeM QT3DCORE_QATTRIBUTE] ''texCoordAttribute'' [] RObject [OnObject Qt3DExtras_QPlaneGeometry, OnObject Qt3DExtras_QSphereGeometry, OnObject Qt3DExtras_QTorusGeometry],
     Bind [] ''text'' [] RString [OnObject Qt3DExtras_QText2DEntity],
     Bind [TypeM QT3DRENDER_QABSTRACTTEXTURE] ''texture'' [] RObject [OnObject Qt3DExtras_QTextureMaterial],
     Bind [ValueM QTGUI_QVECTOR2D] ''textureOffset'' [] (RValue QVector2D) [OnObject Qt3DExtras_QTextureMaterial],
     Bind [ValueM ''QTGUI_QMATRIX3X3''] ''textureTransform'' [] (RValue ''QMatrix3x3'') [OnObject Qt3DExtras_QTextureMaterial],
     Bind [] ''updateIndices'' [] RVoid [OnObject Qt3DExtras_QPlaneGeometry, OnObject Qt3DExtras_QSphereGeometry, OnObject Qt3DExtras_QTorusGeometry],
     Bind [] ''updateVertices'' [] RVoid [OnObject Qt3DExtras_QPlaneGeometry, OnObject Qt3DExtras_QSphereGeometry, OnObject Qt3DExtras_QTorusGeometry]]"

definition meth_qt3dextras_1_1 :: "binding list" where
  "meth_qt3dextras_1_1 = [
     Bind [] ''width'' [] RNumber [OnObject Qt3DExtras_QPlaneGeometry, OnObject Qt3DExtras_QPlaneGeometryView, OnObject ''Qt3DExtras::QPlaneMesh'', OnObject Qt3DExtras_QText2DEntity],
     Bind [] ''width'' [] RNumber [OnObject Qt3DExtras_QSpriteSheetItem],
     Bind [] ''x'' [] RNumber [OnObject Qt3DExtras_QSpriteSheetItem],
     Bind [] ''y'' [] RNumber [OnObject Qt3DExtras_QSpriteSheetItem]]"

definition meth_qt3dinput_0_0 :: "binding list" where
  "meth_qt3dinput_0_0 = [
     Bind [] ''acceleration'' [] RNumber [OnObject Qt3DInput_QButtonAxisInput],
     Bind [TypeM ''QT3DINPUT_QACTION''] ''actions'' [] (RList IObject) [OnObject ''Qt3DInput::QLogicalDevice''],
     Bind [TypeM ''QT3DINPUT_QKEYBOARDHANDLER''] ''activeInput'' [] RObject [OnObject ''Qt3DInput::QKeyboardDevice''],
     Bind [TypeM ''QT3DINPUT_QAXISSETTING''] ''addAxisSetting'' [PNonNull ''Qt3DInput::QAxisSetting*''] RVoid [OnObject Qt3DInput_QAbstractPhysicalDevice],
     Bind [ValueM QTCORE_QPOINT] ''angleDelta'' [] (RValue QPoint) [OnObject ''Qt3DInput::QWheelEvent''],
     Bind [] ''availablePhysicalDevices'' [] (RList (IMeta QString)) [OnObject ''Qt3DInput::QInputAspect''],
     Bind [TypeM ''QT3DINPUT_QAXIS''] ''axes'' [] (RList IObject) [OnObject ''Qt3DInput::QLogicalDevice''],
     Bind [] ''axes'' [] (RList (IMeta ''int'')) [OnObject ''Qt3DInput::QAxisSetting''],
     Bind [] ''axis'' [] RNumber [OnObject ''Qt3DInput::QAnalogAxisInput''],
     Bind [] ''axisCount'' [] RNumber [OnObject Qt3DInput_QAbstractPhysicalDevice],
     Bind [] ''axisIdentifier'' [PString True] RNumber [OnObject Qt3DInput_QAbstractPhysicalDevice],
     Bind [] ''axisNames'' [] (RList (IMeta QString)) [OnObject Qt3DInput_QAbstractPhysicalDevice],
     Bind [TypeM ''QT3DINPUT_QAXISSETTING''] ''axisSettings'' [] (RList IObject) [OnObject Qt3DInput_QAbstractPhysicalDevice],
     Bind [TypeM ''QT3DINPUT_QMOUSEEVENT''] ''button'' [] (RMeta ''Qt3DInput::QMouseEvent::Buttons'') [OnObject ''Qt3DInput::QMouseEvent''],
     Bind [] ''buttonCount'' [] RNumber [OnObject Qt3DInput_QAbstractPhysicalDevice],
     Bind [] ''buttonIdentifier'' [PString True] RNumber [OnObject Qt3DInput_QAbstractPhysicalDevice],
     Bind [] ''buttonInterval'' [] RNumber [OnObject ''Qt3DInput::QInputSequence''],
     Bind [] ''buttonNames'' [] (RList (IMeta QString)) [OnObject Qt3DInput_QAbstractPhysicalDevice],
     Bind [] ''buttons'' [] (RList (IMeta ''int'')) [OnObject ''Qt3DInput::QActionInput'', OnObject Qt3DInput_QButtonAxisInput],
     Bind [] ''buttons'' [] RNumber [OnObject ''Qt3DInput::QMouseEvent'', OnObject ''Qt3DInput::QWheelEvent''],
     Bind [TypeM ''QT3DINPUT_QABSTRACTACTIONINPUT''] ''chords'' [] (RList IObject) [OnObject ''Qt3DInput::QInputChord''],
     Bind [] ''containsMouse'' [] RBool [OnObject ''Qt3DInput::QMouseHandler''],
     Bind [] ''count'' [] RNumber [OnObject ''Qt3DInput::QKeyEvent''],
     Bind [TypeM ''QT3DINPUT_QABSTRACTPHYSICALDEVICE''] ''createPhysicalDevice'' [PString True] RObject [OnObject ''Qt3DInput::QInputAspect''],
     Bind [] ''deadZoneRadius'' [] RNumber [OnObject ''Qt3DInput::QAxisSetting''],
     Bind [] ''deceleration'' [] RNumber [OnObject Qt3DInput_QButtonAxisInput],
     Bind [TypeM QTCORE_QOBJECT] ''eventSource'' [] RObject [OnObject ''Qt3DInput::QInputSettings''],
     Bind [] ''focus'' [] RBool [OnObject ''Qt3DInput::QKeyboardHandler''],
     Bind [TypeM ''QT3DINPUT_QABSTRACTACTIONINPUT''] ''inputs'' [] (RList IObject) [OnObject ''Qt3DInput::QAction''],
     Bind [TypeM ''QT3DINPUT_QABSTRACTAXISINPUT''] ''inputs'' [] (RList IObject) [OnObject ''Qt3DInput::QAxis''],
     Bind [] ''isAccepted'' [] RBool [OnObject ''Qt3DInput::QKeyEvent'', OnObject ''Qt3DInput::QMouseEvent'', OnObject ''Qt3DInput::QWheelEvent''],
     Bind [] ''isActive'' [] RBool [OnObject ''Qt3DInput::QAction''],
     Bind [] ''isAutoRepeat'' [] RBool [OnObject ''Qt3DInput::QKeyEvent''],
     Bind [] ''isSmoothEnabled'' [] RBool [OnObject ''Qt3DInput::QAxisSetting''],
     Bind [] ''key'' [] RNumber [OnObject ''Qt3DInput::QKeyEvent''],
     Bind [TypeM QTGUI_QKEYSEQUENCE] ''matches'' [PConv ''QKeySequence::StandardKey''] RBool [OnObject ''Qt3DInput::QKeyEvent''],
     Bind [TypeM ''QT3DINPUT_QMOUSEEVENT''] ''modifiers'' [] (RMeta ''Qt3DInput::QMouseEvent::Modifiers'') [OnObject ''Qt3DInput::QMouseEvent''],
     Bind [TypeM ''QT3DINPUT_QWHEELEVENT''] ''modifiers'' [] (RMeta ''Qt3DInput::QWheelEvent::Modifiers'') [OnObject ''Qt3DInput::QWheelEvent''],
     Bind [] ''modifiers'' [] RNumber [OnObject ''Qt3DInput::QKeyEvent''],
     Bind [TypeM ''QT3DINPUT_QACTION''] ''removeAction'' [PNonNull ''Qt3DInput::QAction*''] RVoid [OnObject ''Qt3DInput::QLogicalDevice''],
     Bind [TypeM ''QT3DINPUT_QAXIS''] ''removeAxis'' [PNonNull ''Qt3DInput::QAxis*''] RVoid [OnObject ''Qt3DInput::QLogicalDevice''],
     Bind [TypeM ''QT3DINPUT_QAXISSETTING''] ''removeAxisSetting'' [PNonNull ''Qt3DInput::QAxisSetting*''] RVoid [OnObject Qt3DInput_QAbstractPhysicalDevice],
     Bind [TypeM ''QT3DINPUT_QABSTRACTACTIONINPUT''] ''removeChord'' [PNonNull ''Qt3DInput::QAbstractActionInput*''] RVoid [OnObject ''Qt3DInput::QInputChord''],
     Bind [TypeM ''QT3DINPUT_QABSTRACTACTIONINPUT''] ''removeInput'' [PNonNull ''Qt3DInput::QAbstractActionInput*''] RVoid [OnObject ''Qt3DInput::QAction''],
     Bind [TypeM ''QT3DINPUT_QABSTRACTAXISINPUT''] ''removeInput'' [PNonNull ''Qt3DInput::QAbstractAxisInput*''] RVoid [OnObject ''Qt3DInput::QAxis''],
     Bind [TypeM ''QT3DINPUT_QABSTRACTACTIONINPUT''] ''removeSequence'' [PNonNull ''Qt3DInput::QAbstractActionInput*''] RVoid [OnObject ''Qt3DInput::QInputSequence''],
     Bind [] ''scale'' [] RNumber [OnObject Qt3DInput_QAxisAccumulator, OnObject Qt3DInput_QButtonAxisInput],
     Bind [] ''sensitivity'' [] RNumber [OnObject ''Qt3DInput::QMouseDevice''],
     Bind [TypeM ''QT3DINPUT_QABSTRACTACTIONINPUT''] ''sequences'' [] (RList IObject) [OnObject ''Qt3DInput::QInputSequence''],
     Bind [] ''setAcceleration'' [PReal ''float''] RVoid [OnObject Qt3DInput_QButtonAxisInput],
     Bind [] ''setAccepted'' [PBool] RVoid [OnObject ''Qt3DInput::QKeyEvent'', OnObject ''Qt3DInput::QMouseEvent'', OnObject ''Qt3DInput::QWheelEvent''],
     Bind [] ''setAxes'' [PList ''int''] RVoid [OnObject ''Qt3DInput::QAxisSetting''],
     Bind [] ''setAxis'' [PInt] RVoid [OnObject ''Qt3DInput::QAnalogAxisInput''],
     Bind [] ''setButtonInterval'' [PInt] RVoid [OnObject ''Qt3DInput::QInputSequence''],
     Bind [] ''setButtons'' [PList ''int''] RVoid [OnObject ''Qt3DInput::QActionInput'', OnObject Qt3DInput_QButtonAxisInput],
     Bind [] ''setDeadZoneRadius'' [PReal ''float''] RVoid [OnObject ''Qt3DInput::QAxisSetting''],
     Bind [] ''setDeceleration'' [PReal ''float''] RVoid [OnObject Qt3DInput_QButtonAxisInput],
     Bind [TypeM QTCORE_QOBJECT] ''setEventSource'' [PNonNull QObject_ptr] RVoid [OnObject ''Qt3DInput::QInputSettings''],
     Bind [] ''setFocus'' [PBool] RVoid [OnObject ''Qt3DInput::QKeyboardHandler''],
     Bind [] ''setScale'' [PReal ''float''] RVoid [OnObject Qt3DInput_QAxisAccumulator, OnObject Qt3DInput_QButtonAxisInput],
     Bind [] ''setSensitivity'' [PReal ''float''] RVoid [OnObject ''Qt3DInput::QMouseDevice''],
     Bind [] ''setSmoothEnabled'' [PBool] RVoid [OnObject ''Qt3DInput::QAxisSetting''],
     Bind [TypeM ''QT3DINPUT_QAXIS''] ''setSourceAxis'' [PNonNull ''Qt3DInput::QAxis*''] RVoid [OnObject Qt3DInput_QAxisAccumulator],
     Bind [TypeM ''QT3DINPUT_QAXISACCUMULATOR''] ''setSourceAxisType'' [PConv ''Qt3DInput::QAxisAccumulator::SourceAxisType''] RVoid [OnObject Qt3DInput_QAxisAccumulator],
     Bind [TypeM ''QT3DINPUT_QABSTRACTPHYSICALDEVICE''] ''setSourceDevice'' [PNonNull ''Qt3DInput::QAbstractPhysicalDevice*''] RVoid [OnObject ''Qt3DInput::QAbstractAxisInput'', OnObject ''Qt3DInput::QActionInput''],
     Bind [TypeM ''QT3DINPUT_QKEYBOARDDEVICE''] ''setSourceDevice'' [PNonNull ''Qt3DInput::QKeyboardDevice*''] RVoid [OnObject ''Qt3DInput::QKeyboardHandler''],
     Bind [TypeM ''QT3DINPUT_QMOUSEDEVICE''] ''setSourceDevice'' [PNonNull ''Qt3DInput::QMouseDevice*''] RVoid [OnObject ''Qt3DInput::QMouseHandler''],
     Bind [] ''setTimeout'' [PInt] RVoid [OnObject ''Qt3DInput::QInputChord'', OnObject ''Qt3DInput::QInputSequence''],
     Bind [] ''setUpdateAxesContinuously'' [PBool] RVoid [OnObject ''Qt3DInput::QMouseDevice''],
     Bind [TypeM ''QT3DINPUT_QAXIS''] ''sourceAxis'' [] RObject [OnObject Qt3DInput_QAxisAccumulator],
     Bind [TypeM ''QT3DINPUT_QAXISACCUMULATOR''] ''sourceAxisType'' [] (RMeta ''Qt3DInput::QAxisAccumulator::SourceAxisType'') [OnObject Qt3DInput_QAxisAccumulator],
     Bind [TypeM ''QT3DINPUT_QABSTRACTPHYSICALDEVICE''] ''sourceDevice'' [] RObject [OnObject ''Qt3DInput::QAbstractAxisInput'', OnObject ''Qt3DInput::QActionInput''],
     Bind [TypeM ''QT3DINPUT_QKEYBOARDDEVICE''] ''sourceDevice'' [] RObject [OnObject ''Qt3DInput::QKeyboardHandler''],
     Bind [TypeM ''QT3DINPUT_QMOUSEDEVICE''] ''sourceDevice'' [] RObject [OnObject ''Qt3DInput::QMouseHandler''],
     Bind [] ''text'' [] RString [OnObject ''Qt3DInput::QKeyEvent''],
     Bind [] ''timeout'' [] RNumber [OnObject ''Qt3DInput::QInputChord'', OnObject ''Qt3DInput::QInputSequence''],
     Bind [TypeM QTCORE_QEVENT] ''type'' [] (RMeta QEvent_Type) [OnObject ''Qt3DInput::QKeyEvent'', OnObject ''Qt3DInput::QMouseEvent'', OnObject ''Qt3DInput::QWheelEvent''],
     Bind [] ''updateAxesContinuously'' [] RBool [OnObject ''Qt3DInput::QMouseDevice''],
     Bind [] ''value'' [] RNumber [OnObject ''Qt3DInput::QAxis'', OnObject Qt3DInput_QAxisAccumulator],
     Bind [] ''velocity'' [] RNumber [OnObject Qt3DInput_QAxisAccumulator],
     Bind [] ''wasHeld'' [] RBool [OnObject ''Qt3DInput::QMouseEvent''],
     Bind [] ''x'' [] RNumber [OnObject ''Qt3DInput::QMouseEvent'', OnObject ''Qt3DInput::QWheelEvent''],
     Bind [] ''y'' [] RNumber [OnObject ''Qt3DInput::QMouseEvent'', OnObject ''Qt3DInput::QWheelEvent'']]"

definition meth_table_qt3d_a :: "(string \<times> shard) list" where
  "meth_table_qt3d_a = [
     (''qt3danimation_0'', \<lparr>sh_module = ''Qt3DAnimation'', sh_slug = ''QT3DANIMATION'',
        sh_bindings = concat [meth_qt3danimation_0_0, meth_qt3danimation_0_1]\<rparr>),
     (''qt3dcore_0'', \<lparr>sh_module = ''Qt3DCore'', sh_slug = ''QT3DCORE'',
        sh_bindings = concat [meth_qt3dcore_0_0, meth_qt3dcore_0_1]\<rparr>),
     (''qt3dextras_0'', \<lparr>sh_module = ''Qt3DExtras'', sh_slug = ''QT3DEXTRAS'',
        sh_bindings = concat [meth_qt3dextras_0_0, meth_qt3dextras_0_1]\<rparr>),
     (''qt3dextras_1'', \<lparr>sh_module = ''Qt3DExtras'', sh_slug = ''QT3DEXTRAS'',
        sh_bindings = concat [meth_qt3dextras_1_0, meth_qt3dextras_1_1]\<rparr>),
     (''qt3dinput_0'', \<lparr>sh_module = ''Qt3DInput'', sh_slug = ''QT3DINPUT'',
        sh_bindings = concat [meth_qt3dinput_0_0]\<rparr>)]"

lemmas meth_table_qt3d_a_defs =
  meth_qt3danimation_0_0_def meth_qt3danimation_0_1_def meth_qt3dcore_0_0_def meth_qt3dcore_0_1_def
  meth_qt3dextras_0_0_def meth_qt3dextras_0_1_def meth_qt3dextras_1_0_def meth_qt3dextras_1_1_def
  meth_qt3dinput_0_0_def

lemma meth_table_qt3d_a_object_blocks: "list_all (\<lambda>(s, sh). object_blocks sh) meth_table_qt3d_a"
  by (simp add: meth_table_qt3d_a_def meth_table_qt3d_a_defs object_blocks_def object_shard_def; (simp add: parameter_text_def qt_name_defs)?)

end
