(* ===== verification/Methods_Qt3D_B.thy ===== *)
theory Methods_Qt3D_B
  imports Shard_Methods Qt_Names
begin

text \<open>
  Tables of the method shards (generated\_methods): the blocks of every shard in the file's order.
\<close>

definition meth_qt3drender_0_0 :: "binding list" where
  "meth_qt3drender_0_0 = [
     Bind [TypeM ''QT3DRENDER_QALPHATEST''] ''alphaFunction'' [] (RMeta ''Qt3DRender::QAlphaTest::AlphaFunction'') [OnObject ''Qt3DRender::QAlphaTest''],
     Bind [] ''aspectRatio'' [] RNumber [OnObject Qt3DRender_QCamera, OnObject Qt3DRender_QCameraLens],
     Bind [TypeM ''QT3DRENDER_QBLENDEQUATION''] ''blendFunction'' [] (RMeta ''Qt3DRender::QBlendEquation::BlendFunction'') [OnObject ''Qt3DRender::QBlendEquation''],
     Bind [] ''bottom'' [] RNumber [OnObject Qt3DRender_QCamera, OnObject Qt3DRender_QCameraLens],
     Bind [] ''bufferIndex'' [] RNumber [OnObject Qt3DRender_QBlendEquationArguments],
     Bind [TypeM ''QT3DRENDER_QCLEARBUFFERS''] ''buffers'' [] (RMeta ''Qt3DRender::QClearBuffers::BufferType'') [OnObject Qt3DRender_QClearBuffers],
     Bind [TypeM ''QT3DCORE_QENTITY''] ''camera'' [] RObject [OnObject ''Qt3DRender::QCameraSelector''],
     Bind [ValueM QTGUI_QCOLOR] ''clearColor'' [] (RValue QColor) [OnObject Qt3DRender_QClearBuffers],
     Bind [] ''clearDepthValue'' [] RNumber [OnObject Qt3DRender_QClearBuffers],
     Bind [] ''clearStencilValue'' [] RNumber [OnObject Qt3DRender_QClearBuffers],
     Bind [ValueM QTGUI_QCOLOR] ''color'' [] (RValue QColor) [OnObject ''Qt3DRender::QAbstractLight''],
     Bind [TypeM QT3DRENDER_QRENDERTARGETOUTPUT] ''colorBuffer'' [] RObject [OnObject Qt3DRender_QClearBuffers],
     Bind [TypeM QT3DRENDER_QABSTRACTTEXTURE] ''comparisonFunction'' [] (RMeta ''Qt3DRender::QAbstractTexture::ComparisonFunction'') [OnObject Qt3DRender_QAbstractTexture],
     Bind [TypeM QT3DRENDER_QABSTRACTTEXTURE] ''comparisonMode'' [] (RMeta ''Qt3DRender::QAbstractTexture::ComparisonMode'') [OnObject Qt3DRender_QAbstractTexture],
     Bind [] ''depth'' [] RNumber [OnObject Qt3DRender_QAbstractTexture],
     Bind [TypeM ''QT3DRENDER_QDEPTHTEST''] ''depthFunction'' [] (RMeta ''Qt3DRender::QDepthTest::DepthFunction'') [OnObject ''Qt3DRender::QDepthTest''],
     Bind [TypeM ''QT3DRENDER_QRENDERTARGET''] ''destination'' [] RObject [OnObject Qt3DRender_QBlitFramebuffer],
     Bind [TypeM QT3DRENDER_QBLENDEQUATIONARGUMENTS] ''destinationAlpha'' [] (RMeta Qt3DRender_QBlendEquationArguments_Blending) [OnObject Qt3DRender_QBlendEquationArguments],
     Bind [TypeM QT3DRENDER_QRENDERTARGETOUTPUT] ''destinationAttachmentPoint'' [] (RMeta Qt3DRender_QRenderTargetOutput_AttachmentPoint) [OnObject Qt3DRender_QBlitFramebuffer],
     Bind [ValueM QTCORE_QRECTF] ''destinationRect'' [] (RValue QRectF) [OnObject Qt3DRender_QBlitFramebuffer],
     Bind [TypeM QT3DRENDER_QBLENDEQUATIONARGUMENTS] ''destinationRgb'' [] (RMeta Qt3DRender_QBlendEquationArguments_Blending) [OnObject Qt3DRender_QBlendEquationArguments],
     Bind [] ''distance'' [] RNumber [OnObject ''Qt3DRender::QClipPlane''],
     Bind [] ''exposure'' [] RNumber [OnObject Qt3DRender_QCamera, OnObject Qt3DRender_QCameraLens],
     Bind [TypeM QT3DRENDER_QABSTRACTTEXTURE] ''face'' [] (RMeta ''Qt3DRender::QAbstractTexture::CubeMapFace'') [OnObject Qt3DRender_QAbstractTextureImage],
     Bind [] ''farPlane'' [] RNumber [OnObject Qt3DRender_QCamera, OnObject Qt3DRender_QCameraLens],
     Bind [] ''farValue'' [] RNumber [OnObject ''Qt3DRender::QDepthRange''],
     Bind [] ''fieldOfView'' [] RNumber [OnObject Qt3DRender_QCamera, OnObject Qt3DRender_QCameraLens],
     Bind [TypeM ''QT3DRENDER_QABSTRACTRAYCASTER''] ''filterMode'' [] (RMeta ''Qt3DRender::QAbstractRayCaster::FilterMode'') [OnObject Qt3DRender_QAbstractRayCaster],
     Bind [TypeM QT3DRENDER_QABSTRACTTEXTURE] ''format'' [] (RMeta ''Qt3DRender::QAbstractTexture::TextureFormat'') [OnObject Qt3DRender_QAbstractTexture],
     Bind [] ''generateMipMaps'' [] RBool [OnObject Qt3DRender_QAbstractTexture],
     Bind [] ''handle'' [] RVariant [OnObject Qt3DRender_QAbstractTexture],
     Bind [TypeM QT3DRENDER_QABSTRACTTEXTURE] ''handleType'' [] (RMeta ''Qt3DRender::QAbstractTexture::HandleType'') [OnObject Qt3DRender_QAbstractTexture],
     Bind [] ''height'' [] RNumber [OnObject Qt3DRender_QAbstractTexture],
     Bind [] ''intensity'' [] RNumber [OnObject ''Qt3DRender::QAbstractLight''],
     Bind [TypeM ''QT3DRENDER_QBLITFRAMEBUFFER''] ''interpolationMethod'' [] (RMeta ''Qt3DRender::QBlitFramebuffer::InterpolationMethod'') [OnObject Qt3DRender_QBlitFramebuffer],
     Bind [TypeM QT3DRENDER_QABSTRACTTEXTURE] ''irradiance'' [] RObject [OnObject ''Qt3DRender::QEnvironmentLight''],
     Bind [] ''isAlphaMasked'' [] RBool [OnObject ''Qt3DRender::QColorMask''],
     Bind [] ''isBlueMasked'' [] RBool [OnObject ''Qt3DRender::QColorMask''],
     Bind [] ''isGreenMasked'' [] RBool [OnObject ''Qt3DRender::QColorMask''],
     Bind [] ''isRedMasked'' [] RBool [OnObject ''Qt3DRender::QColorMask''],
     Bind [] ''layer'' [] RNumber [OnObject Qt3DRender_QAbstractTextureImage],
     Bind [TypeM ''QT3DRENDER_QLAYER''] ''layers'' [] (RList IObject) [OnObject Qt3DRender_QAbstractRayCaster],
     Bind [] ''layers'' [] RNumber [OnObject Qt3DRender_QAbstractTexture],
     Bind [] ''left'' [] RNumber [OnObject Qt3DRender_QCamera, OnObject Qt3DRender_QCameraLens],
     Bind [TypeM ''QT3DRENDER_QCAMERALENS''] ''lens'' [] RObject [OnObject Qt3DRender_QCamera],
     Bind [TypeM QT3DRENDER_QABSTRACTTEXTURE] ''magnificationFilter'' [] (RMeta Qt3DRender_QAbstractTexture_Filter) [OnObject Qt3DRender_QAbstractTexture],
     Bind [] ''maximumAnisotropy'' [] RNumber [OnObject Qt3DRender_QAbstractTexture],
     Bind [TypeM QT3DRENDER_QABSTRACTTEXTURE] ''minificationFilter'' [] (RMeta Qt3DRender_QAbstractTexture_Filter) [OnObject Qt3DRender_QAbstractTexture],
     Bind [] ''mipLevel'' [] RNumber [OnObject Qt3DRender_QAbstractTextureImage],
     Bind [] ''mipLevels'' [] RNumber [OnObject Qt3DRender_QAbstractTexture],
     Bind [TypeM ''QT3DRENDER_QCULLFACE''] ''mode'' [] (RMeta ''Qt3DRender::QCullFace::CullingMode'') [OnObject ''Qt3DRender::QCullFace''],
     Bind [] ''name'' [] RString [OnObject ''Qt3DRender::QFilterKey''],
     Bind [] ''nearPlane'' [] RNumber [OnObject Qt3DRender_QCamera, OnObject Qt3DRender_QCameraLens],
     Bind [] ''nearValue'' [] RNumber [OnObject ''Qt3DRender::QDepthRange''],
     Bind [ValueM QTGUI_QVECTOR3D] ''normal'' [] (RValue QVector3D) [OnObject ''Qt3DRender::QClipPlane''],
     Bind [] ''pan'' [PReal ''float''] RVoid [OnObject Qt3DRender_QCamera],
     Bind [ValueM QTGUI_QVECTOR3D] ''pan'' [PReal ''float'', PConv QVector3D] RVoid [OnObject Qt3DRender_QCamera],
     Bind [] ''panAboutViewCenter'' [PReal ''float''] RVoid [OnObject Qt3DRender_QCamera],
     Bind [ValueM QTGUI_QVECTOR3D] ''panAboutViewCenter'' [PReal ''float'', PConv QVector3D] RVoid [OnObject Qt3DRender_QCamera],
     Bind [ValueM QTGUI_QQUATERNION] ''panRotation'' [PReal ''float''] (RValue QQuaternion) [OnObject Qt3DRender_QCamera],
     Bind [TypeM ''QT3DRENDER_QPARAMETER''] ''parameters'' [] (RList IObject) [OnObject ''Qt3DRender::QEffect''],
     Bind [TypeM ''QT3DRENDER_QFRAMEGRAPHNODE''] ''parentFrameGraphNode'' [] RObject [OnObject ''Qt3DRender::QFrameGraphNode''],
     Bind [] ''planeIndex'' [] RNumber [OnObject ''Qt3DRender::QClipPlane''],
     Bind [ValueM QTGUI_QVECTOR3D] ''position'' [] (RValue QVector3D) [OnObject Qt3DRender_QCamera],
     Bind [ValueM QTGUI_QMATRIX4X4] ''projectionMatrix'' [] (RValue QMatrix4x4) [OnObject Qt3DRender_QCamera, OnObject Qt3DRender_QCameraLens],
     Bind [TypeM ''QT3DRENDER_QCAMERALENS''] ''projectionType'' [] (RMeta ''Qt3DRender::QCameraLens::ProjectionType'') [OnObject Qt3DRender_QCamera, OnObject Qt3DRender_QCameraLens],
     Bind [] ''referenceValue'' [] RNumber [OnObject ''Qt3DRender::QAlphaTest''],
     Bind [TypeM ''QT3DRENDER_QLAYER''] ''removeLayer'' [PNonNull ''Qt3DRender::QLayer*''] RVoid [OnObject Qt3DRender_QAbstractRayCaster],
     Bind [TypeM ''QT3DRENDER_QPARAMETER''] ''removeParameter'' [PNonNull ''Qt3DRender::QParameter*''] RVoid [OnObject ''Qt3DRender::QEffect''],
     Bind [TypeM ''QT3DRENDER_QTECHNIQUE''] ''removeTechnique'' [PNonNull ''Qt3DRender::QTechnique*''] RVoid [OnObject ''Qt3DRender::QEffect''],
     Bind [TypeM ''QT3DRENDER_QABSTRACTTEXTUREIMAGE''] ''removeTextureImage'' [PNonNull ''Qt3DRender::QAbstractTextureImage*''] RVoid [OnObject Qt3DRender_QAbstractTexture],
     Bind [] ''right'' [] RNumber [OnObject Qt3DRender_QCamera, OnObject Qt3DRender_QCameraLens],
     Bind [] ''roll'' [PReal ''float''] RVoid [OnObject Qt3DRender_QCamera],
     Bind [] ''rollAboutViewCenter'' [PReal ''float''] RVoid [OnObject Qt3DRender_QCamera],
     Bind [ValueM QTGUI_QQUATERNION] ''rollRotation'' [PReal ''float''] (RValue QQuaternion) [OnObject Qt3DRender_QCamera],
     Bind [ValueM QTGUI_QQUATERNION] ''rotate'' [PConv QQuaternion] RVoid [OnObject Qt3DRender_QCamera],
     Bind [ValueM QTGUI_QQUATERNION] ''rotateAboutViewCenter'' [PConv QQuaternion] RVoid [OnObject Qt3DRender_QCamera],
     Bind [ValueM QTGUI_QQUATERNION, ValueM QTGUI_QVECTOR3D] ''rotation'' [PReal ''float'', PConv QVector3D] (RValue QQuaternion) [OnObject Qt3DRender_QCamera],
     Bind [TypeM ''QT3DRENDER_QABSTRACTRAYCASTER''] ''runMode'' [] (RMeta ''Qt3DRender::QAbstractRayCaster::RunMode'') [OnObject Qt3DRender_QAbstractRayCaster],
     Bind [TypeM ''QT3DRENDER_QCOMPUTECOMMAND''] ''runType'' [] (RMeta ''Qt3DRender::QComputeCommand::RunType'') [OnObject Qt3DRender_QComputeCommand],
     Bind [] ''samples'' [] RNumber [OnObject Qt3DRender_QAbstractTexture],
     Bind [TypeM ''QT3DRENDER_QALPHATEST''] ''setAlphaFunction'' [PConv ''Qt3DRender::QAlphaTest::AlphaFunction''] RVoid [OnObject ''Qt3DRender::QAlphaTest''],
     Bind [] ''setAlphaMasked'' [PBool] RVoid [OnObject ''Qt3DRender::QColorMask''],
     Bind [] ''setAspectRatio'' [PReal ''float''] RVoid [OnObject Qt3DRender_QCamera, OnObject Qt3DRender_QCameraLens],
     Bind [TypeM ''QT3DRENDER_QBLENDEQUATION''] ''setBlendFunction'' [PConv ''Qt3DRender::QBlendEquation::BlendFunction''] RVoid [OnObject ''Qt3DRender::QBlendEquation''],
     Bind [] ''setBlueMasked'' [PBool] RVoid [OnObject ''Qt3DRender::QColorMask''],
     Bind [] ''setBottom'' [PReal ''float''] RVoid [OnObject Qt3DRender_QCamera, OnObject Qt3DRender_QCameraLens],
     Bind [] ''setBufferIndex'' [PInt] RVoid [OnObject Qt3DRender_QBlendEquationArguments],
     Bind [TypeM ''QT3DRENDER_QCLEARBUFFERS''] ''setBuffers'' [PConv ''Qt3DRender::QClearBuffers::BufferType''] RVoid [OnObject Qt3DRender_QClearBuffers],
     Bind [TypeM ''QT3DCORE_QENTITY''] ''setCamera'' [PNonNull ''Qt3DCore::QEntity*''] RVoid [OnObject ''Qt3DRender::QCameraSelector''],
     Bind [ValueM QTGUI_QCOLOR] ''setClearColor'' [PConv QColor] RVoid [OnObject Qt3DRender_QClearBuffers],
     Bind [] ''setClearDepthValue'' [PReal ''float''] RVoid [OnObject Qt3DRender_QClearBuffers],
     Bind [] ''setClearStencilValue'' [PInt] RVoid [OnObject Qt3DRender_QClearBuffers],
     Bind [ValueM QTGUI_QCOLOR] ''setColor'' [PConv QColor] RVoid [OnObject ''Qt3DRender::QAbstractLight''],
     Bind [TypeM QT3DRENDER_QRENDERTARGETOUTPUT] ''setColorBuffer'' [PNonNull ''Qt3DRender::QRenderTargetOutput*''] RVoid [OnObject Qt3DRender_QClearBuffers],
     Bind [TypeM QT3DRENDER_QABSTRACTTEXTURE] ''setComparisonFunction'' [PConv ''Qt3DRender::QAbstractTexture::ComparisonFunction''] RVoid [OnObject Qt3DRender_QAbstractTexture],
     Bind [TypeM QT3DRENDER_QABSTRACTTEXTURE] ''setComparisonMode'' [PConv ''Qt3DRender::QAbstractTexture::ComparisonMode''] RVoid [OnObject Qt3DRender_QAbstractTexture]]"

definition meth_qt3drender_0_1 :: "binding list" where
  "meth_qt3drender_0_1 = [
     Bind [] ''setDepth'' [PInt] RVoid [OnObject Qt3DRender_QAbstractTexture],
     Bind [TypeM ''QT3DRENDER_QDEPTHTEST''] ''setDepthFunction'' [PConv ''Qt3DRender::QDepthTest::DepthFunction''] RVoid [OnObject ''Qt3DRender::QDepthTest''],
     Bind [TypeM ''QT3DRENDER_QRENDERTARGET''] ''setDestination'' [PNonNull ''Qt3DRender::QRenderTarget*''] RVoid [OnObject Qt3DRender_QBlitFramebuffer],
     Bind [TypeM QT3DRENDER_QBLENDEQUATIONARGUMENTS] ''setDestinationAlpha'' [PConv Qt3DRender_QBlendEquationArguments_Blending] RVoid [OnObject Qt3DRender_QBlendEquationArguments],
     Bind [TypeM QT3DRENDER_QRENDERTARGETOUTPUT] ''setDestinationAttachmentPoint'' [PConv Qt3DRender_QRenderTargetOutput_AttachmentPoint] RVoid [OnObject Qt3DRender_QBlitFramebuffer],
     Bind [ValueM QTCORE_QRECTF] ''setDestinationRect'' [PConv QRectF] RVoid [OnObject Qt3DRender_QBlitFramebuffer],
     Bind [TypeM QT3DRENDER_QBLENDEQUATIONARGUMENTS] ''setDestinationRgb'' [PConv Qt3DRender_QBlendEquationArguments_Blending] RVoid [OnObject Qt3DRender_QBlendEquationArguments],
     Bind [TypeM QT3DRENDER_QBLENDEQUATIONARGUMENTS] ''setDestinationRgba'' [PConv Qt3DRender_QBlendEquationArguments_Blending] RVoid [OnObject Qt3DRender_QBlendEquationArguments],
     Bind [] ''setDistance'' [PReal ''float''] RVoid [OnObject ''Qt3DRender::QClipPlane''],
     Bind [] ''setExposure'' [PReal ''float''] RVoid [OnObject Qt3DRender_QCamera, OnObject Qt3DRender_QCameraLens],
     Bind [TypeM QT3DRENDER_QABSTRACTTEXTURE] ''setFace'' [PConv ''Qt3DRender::QAbstractTexture::CubeMapFace''] RVoid [OnObject Qt3DRender_QAbstractTextureImage],
     Bind [] ''setFarPlane'' [PReal ''float''] RVoid [OnObject Qt3DRender_QCamera, OnObject Qt3DRender_QCameraLens],
     Bind [] ''setFarValue'' [PReal ''double''] RVoid [OnObject ''Qt3DRender::QDepthRange''],
     Bind [] ''setFieldOfView'' [PReal ''float''] RVoid [OnObject Qt3DRender_QCamera, OnObject Qt3DRender_QCameraLens],
     Bind [TypeM ''QT3DRENDER_QABSTRACTRAYCASTER''] ''setFilterMode'' [PConv ''Qt3DRender::QAbstractRayCaster::FilterMode''] RVoid [OnObject Qt3DRender_QAbstractRayCaster],
     Bind [TypeM QT3DRENDER_QABSTRACTTEXTURE] ''setFormat'' [PConv ''Qt3DRender::QAbstractTexture::TextureFormat''] RVoid [OnObject Qt3DRender_QAbstractTexture],
     Bind [] ''setFrustumProjection'' [PReal ''float'', PReal ''float'', PReal ''float'', PReal ''float'', PReal ''float'', PReal ''float''] RVoid [OnObject Qt3DRender_QCameraLens],
     Bind [] ''setGenerateMipMaps'' [PBool] RVoid [OnObject Qt3DRender_QAbstractTexture],
     Bind [] ''setGreenMasked'' [PBool] RVoid [OnObject ''Qt3DRender::QColorMask''],
     Bind [] ''setHeight'' [PInt] RVoid [OnObject Qt3DRender_QAbstractTexture],
     Bind [] ''setIntensity'' [PReal ''float''] RVoid [OnObject ''Qt3DRender::QAbstractLight''],
     Bind [TypeM ''QT3DRENDER_QBLITFRAMEBUFFER''] ''setInterpolationMethod'' [PConv ''Qt3DRender::QBlitFramebuffer::InterpolationMethod''] RVoid [OnObject Qt3DRender_QBlitFramebuffer],
     Bind [TypeM QT3DRENDER_QABSTRACTTEXTURE] ''setIrradiance'' [PNonNull Qt3DRender_QAbstractTexture_ptr] RVoid [OnObject ''Qt3DRender::QEnvironmentLight''],
     Bind [] ''setLayer'' [PInt] RVoid [OnObject Qt3DRender_QAbstractTextureImage],
     Bind [] ''setLayers'' [PInt] RVoid [OnObject Qt3DRender_QAbstractTexture],
     Bind [] ''setLeft'' [PReal ''float''] RVoid [OnObject Qt3DRender_QCamera, OnObject Qt3DRender_QCameraLens],
     Bind [TypeM QT3DRENDER_QABSTRACTTEXTURE] ''setMagnificationFilter'' [PConv Qt3DRender_QAbstractTexture_Filter] RVoid [OnObject Qt3DRender_QAbstractTexture],
     Bind [] ''setMaximumAnisotropy'' [PReal ''float''] RVoid [OnObject Qt3DRender_QAbstractTexture],
     Bind [TypeM QT3DRENDER_QABSTRACTTEXTURE] ''setMinificationFilter'' [PConv Qt3DRender_QAbstractTexture_Filter] RVoid [OnObject Qt3DRender_QAbstractTexture],
     Bind [] ''setMipLevel'' [PInt] RVoid [OnObject Qt3DRender_QAbstractTextureImage],
     Bind [] ''setMipLevels'' [PInt] RVoid [OnObject Qt3DRender_QAbstractTexture],
     Bind [TypeM ''QT3DRENDER_QCULLFACE''] ''setMode'' [PConv ''Qt3DRender::QCullFace::CullingMode''] RVoid [OnObject ''Qt3DRender::QCullFace''],
     Bind [] ''setName'' [PString True] RVoid [OnObject ''Qt3DRender::QFilterKey''],
     Bind [] ''setNearPlane'' [PReal ''float''] RVoid [OnObject Qt3DRender_QCamera, OnObject Qt3DRender_QCameraLens],
     Bind [] ''setNearValue'' [PReal ''double''] RVoid [OnObject ''Qt3DRender::QDepthRange''],
     Bind [ValueM QTGUI_QVECTOR3D] ''setNormal'' [PConv QVector3D] RVoid [OnObject ''Qt3DRender::QClipPlane''],
     Bind [] ''setOrthographicProjection'' [PReal ''float'', PReal ''float'', PReal ''float'', PReal ''float'', PReal ''float'', PReal ''float''] RVoid [OnObject Qt3DRender_QCameraLens],
     Bind [] ''setPerspectiveProjection'' [PReal ''float'', PReal ''float'', PReal ''float'', PReal ''float''] RVoid [OnObject Qt3DRender_QCameraLens],
     Bind [] ''setPlaneIndex'' [PInt] RVoid [OnObject ''Qt3DRender::QClipPlane''],
     Bind [ValueM QTGUI_QVECTOR3D] ''setPosition'' [PConv QVector3D] RVoid [OnObject Qt3DRender_QCamera],
     Bind [ValueM QTGUI_QMATRIX4X4] ''setProjectionMatrix'' [PConv QMatrix4x4] RVoid [OnObject Qt3DRender_QCamera, OnObject Qt3DRender_QCameraLens],
     Bind [TypeM ''QT3DRENDER_QCAMERALENS''] ''setProjectionType'' [PConv ''Qt3DRender::QCameraLens::ProjectionType''] RVoid [OnObject Qt3DRender_QCamera, OnObject Qt3DRender_QCameraLens],
     Bind [] ''setRedMasked'' [PBool] RVoid [OnObject ''Qt3DRender::QColorMask''],
     Bind [] ''setReferenceValue'' [PReal ''float''] RVoid [OnObject ''Qt3DRender::QAlphaTest''],
     Bind [] ''setRight'' [PReal ''float''] RVoid [OnObject Qt3DRender_QCamera, OnObject Qt3DRender_QCameraLens],
     Bind [TypeM ''QT3DRENDER_QABSTRACTRAYCASTER''] ''setRunMode'' [PConv ''Qt3DRender::QAbstractRayCaster::RunMode''] RVoid [OnObject Qt3DRender_QAbstractRayCaster],
     Bind [TypeM ''QT3DRENDER_QCOMPUTECOMMAND''] ''setRunType'' [PConv ''Qt3DRender::QComputeCommand::RunType''] RVoid [OnObject Qt3DRender_QComputeCommand],
     Bind [] ''setSamples'' [PInt] RVoid [OnObject Qt3DRender_QAbstractTexture],
     Bind [] ''setSize'' [PInt, PInt, PInt] RVoid [OnObject Qt3DRender_QAbstractTexture],
     Bind [TypeM ''QT3DRENDER_QRENDERTARGET''] ''setSource'' [PNonNull ''Qt3DRender::QRenderTarget*''] RVoid [OnObject Qt3DRender_QBlitFramebuffer],
     Bind [TypeM QT3DRENDER_QBLENDEQUATIONARGUMENTS] ''setSourceAlpha'' [PConv Qt3DRender_QBlendEquationArguments_Blending] RVoid [OnObject Qt3DRender_QBlendEquationArguments],
     Bind [TypeM QT3DRENDER_QRENDERTARGETOUTPUT] ''setSourceAttachmentPoint'' [PConv Qt3DRender_QRenderTargetOutput_AttachmentPoint] RVoid [OnObject Qt3DRender_QBlitFramebuffer],
     Bind [ValueM QTCORE_QRECTF] ''setSourceRect'' [PConv QRectF] RVoid [OnObject Qt3DRender_QBlitFramebuffer],
     Bind [TypeM QT3DRENDER_QBLENDEQUATIONARGUMENTS] ''setSourceRgb'' [PConv Qt3DRender_QBlendEquationArguments_Blending] RVoid [OnObject Qt3DRender_QBlendEquationArguments],
     Bind [TypeM QT3DRENDER_QBLENDEQUATIONARGUMENTS] ''setSourceRgba'' [PConv Qt3DRender_QBlendEquationArguments_Blending] RVoid [OnObject Qt3DRender_QBlendEquationArguments],
     Bind [TypeM QT3DRENDER_QABSTRACTTEXTURE] ''setSpecular'' [PNonNull Qt3DRender_QAbstractTexture_ptr] RVoid [OnObject ''Qt3DRender::QEnvironmentLight''],
     Bind [] ''setTop'' [PReal ''float''] RVoid [OnObject Qt3DRender_QCamera, OnObject Qt3DRender_QCameraLens],
     Bind [ValueM QTGUI_QVECTOR3D] ''setUpVector'' [PConv QVector3D] RVoid [OnObject Qt3DRender_QCamera],
     Bind [] ''setValue'' [PVariant] RVoid [OnObject ''Qt3DRender::QFilterKey''],
     Bind [ValueM QTGUI_QVECTOR3D] ''setViewCenter'' [PConv QVector3D] RVoid [OnObject Qt3DRender_QCamera],
     Bind [] ''setWidth'' [PInt] RVoid [OnObject Qt3DRender_QAbstractTexture],
     Bind [] ''setWorkGroupX'' [PInt] RVoid [OnObject Qt3DRender_QComputeCommand, OnObject ''Qt3DRender::QDispatchCompute''],
     Bind [] ''setWorkGroupY'' [PInt] RVoid [OnObject Qt3DRender_QComputeCommand, OnObject ''Qt3DRender::QDispatchCompute''],
     Bind [] ''setWorkGroupZ'' [PInt] RVoid [OnObject Qt3DRender_QComputeCommand, OnObject ''Qt3DRender::QDispatchCompute''],
     Bind [ValueM QTGUI_QVECTOR3D] ''setWorldDirection'' [PConv QVector3D] RVoid [OnObject ''Qt3DRender::QDirectionalLight''],
     Bind [TypeM ''QT3DRENDER_QRENDERTARGET''] ''source'' [] RObject [OnObject Qt3DRender_QBlitFramebuffer],
     Bind [TypeM QT3DRENDER_QBLENDEQUATIONARGUMENTS] ''sourceAlpha'' [] (RMeta Qt3DRender_QBlendEquationArguments_Blending) [OnObject Qt3DRender_QBlendEquationArguments],
     Bind [TypeM QT3DRENDER_QRENDERTARGETOUTPUT] ''sourceAttachmentPoint'' [] (RMeta Qt3DRender_QRenderTargetOutput_AttachmentPoint) [OnObject Qt3DRender_QBlitFramebuffer],
     Bind [ValueM QTCORE_QRECTF] ''sourceRect'' [] (RValue QRectF) [OnObject Qt3DRender_QBlitFramebuffer],
     Bind [TypeM QT3DRENDER_QBLENDEQUATIONARGUMENTS] ''sourceRgb'' [] (RMeta Qt3DRender_QBlendEquationArguments_Blending) [OnObject Qt3DRender_QBlendEquationArguments],
     Bind [TypeM QT3DRENDER_QABSTRACTTEXTURE] ''specular'' [] RObject [OnObject ''Qt3DRender::QEnvironmentLight''],
     Bind [TypeM QT3DRENDER_QABSTRACTTEXTURE] ''status'' [] (RMeta ''Qt3DRender::QAbstractTexture::Status'') [OnObject Qt3DRender_QAbstractTexture],
     Bind [TypeM QT3DRENDER_QABSTRACTTEXTURE] ''target'' [] (RMeta ''Qt3DRender::QAbstractTexture::Target'') [OnObject Qt3DRender_QAbstractTexture],
     Bind [TypeM ''QT3DRENDER_QTECHNIQUE''] ''techniques'' [] (RList IObject) [OnObject ''Qt3DRender::QEffect''],
     Bind [TypeM ''QT3DRENDER_QABSTRACTTEXTUREIMAGE''] ''textureImages'' [] (RList IObject) [OnObject Qt3DRender_QAbstractTexture],
     Bind [] ''tilt'' [PReal ''float''] RVoid [OnObject Qt3DRender_QCamera],
     Bind [] ''tiltAboutViewCenter'' [PReal ''float''] RVoid [OnObject Qt3DRender_QCamera],
     Bind [ValueM QTGUI_QQUATERNION] ''tiltRotation'' [PReal ''float''] (RValue QQuaternion) [OnObject Qt3DRender_QCamera],
     Bind [] ''top'' [] RNumber [OnObject Qt3DRender_QCamera, OnObject Qt3DRender_QCameraLens],
     Bind [TypeM ''QT3DRENDER_QCAMERA'', ValueM QTGUI_QVECTOR3D] ''translate'' [PConv QVector3D, PConv ''Qt3DRender::QCamera::CameraTranslationOption''] RVoid [OnObject Qt3DRender_QCamera],
     Bind [TypeM ''QT3DRENDER_QCAMERA'', ValueM QTGUI_QVECTOR3D] ''translateWorld'' [PConv QVector3D, PConv ''Qt3DRender::QCamera::CameraTranslationOption''] RVoid [OnObject Qt3DRender_QCamera],
     Bind [] ''trigger'' [PInt] RVoid [OnObject Qt3DRender_QComputeCommand],
     Bind [] ''trigger'' [PInt, PInt, PInt, PInt] RVoid [OnObject Qt3DRender_QComputeCommand],
     Bind [TypeM ''QT3DRENDER_QABSTRACTLIGHT''] ''type'' [] (RMeta ''Qt3DRender::QAbstractLight::Type'') [OnObject ''Qt3DRender::QAbstractLight''],
     Bind [ValueM QTGUI_QVECTOR3D] ''upVector'' [] (RValue QVector3D) [OnObject Qt3DRender_QCamera],
     Bind [] ''value'' [] RVariant [OnObject ''Qt3DRender::QFilterKey'']]"

definition meth_qt3drender_0_2 :: "binding list" where
  "meth_qt3drender_0_2 = [
     Bind [] ''viewAll'' [] RVoid [OnObject Qt3DRender_QCamera],
     Bind [ValueM QTGUI_QVECTOR3D] ''viewCenter'' [] (RValue QVector3D) [OnObject Qt3DRender_QCamera],
     Bind [TypeM ''QT3DCORE_QENTITY''] ''viewEntity'' [PNonNull ''Qt3DCore::QEntity*''] RVoid [OnObject Qt3DRender_QCamera],
     Bind [ValueM QTGUI_QMATRIX4X4] ''viewMatrix'' [] (RValue QMatrix4x4) [OnObject Qt3DRender_QCamera],
     Bind [ValueM QTGUI_QVECTOR3D] ''viewSphere'' [PConv QVector3D, PReal ''float''] RVoid [OnObject Qt3DRender_QCamera],
     Bind [ValueM QTGUI_QVECTOR3D] ''viewVector'' [] (RValue QVector3D) [OnObject Qt3DRender_QCamera],
     Bind [] ''width'' [] RNumber [OnObject Qt3DRender_QAbstractTexture],
     Bind [] ''workGroupX'' [] RNumber [OnObject Qt3DRender_QComputeCommand, OnObject ''Qt3DRender::QDispatchCompute''],
     Bind [] ''workGroupY'' [] RNumber [OnObject Qt3DRender_QComputeCommand, OnObject ''Qt3DRender::QDispatchCompute''],
     Bind [] ''workGroupZ'' [] RNumber [OnObject Qt3DRender_QComputeCommand, OnObject ''Qt3DRender::QDispatchCompute''],
     Bind [ValueM QTGUI_QVECTOR3D] ''worldDirection'' [] (RValue QVector3D) [OnObject ''Qt3DRender::QDirectionalLight''],
     Bind [TypeM QT3DRENDER_QTEXTUREWRAPMODE] ''wrapMode'' [] RObject [OnObject Qt3DRender_QAbstractTexture]]"

definition meth_qt3drender_1_0 :: "binding list" where
  "meth_qt3drender_1_0 = [
     Bind [TypeM ''QT3DRENDER_QPARAMETER''] ''addParameter'' [PNonNull ''Qt3DRender::QParameter*''] RVoid [OnObject ''Qt3DRender::QMaterial''],
     Bind [TypeM ''QT3DRENDER_QGRAPHICSAPIFILTER''] ''api'' [] (RMeta ''Qt3DRender::QGraphicsApiFilter::Api'') [OnObject Qt3DRender_QGraphicsApiFilter],
     Bind [TypeM ''QT3DRENDER_QPICKEVENT''] ''button'' [] (RMeta ''Qt3DRender::QPickEvent::Buttons'') [OnObject Qt3DRender_QPickEvent],
     Bind [] ''buttons'' [] RNumber [OnObject Qt3DRender_QPickEvent],
     Bind [TypeM ''QT3DRENDER_QCAMERA''] ''camera'' [] RObject [OnObject Qt3DRender_QLevelOfDetail],
     Bind [] ''constantAttenuation'' [] RNumber [OnObject ''Qt3DRender::QPointLight''],
     Bind [] ''containsMouse'' [] RBool [OnObject Qt3DRender_QObjectPicker],
     Bind [] ''currentIndex'' [] RNumber [OnObject Qt3DRender_QLevelOfDetail],
     Bind [] ''depthSteps'' [] RNumber [OnObject ''Qt3DRender::QPolygonOffset''],
     Bind [ValueM QTGUI_QVECTOR3D] ''direction'' [] (RValue QVector3D) [OnObject ''Qt3DRender::QRayCaster''],
     Bind [TypeM ''QT3DRENDER_QFRONTFACE''] ''direction'' [] (RMeta ''Qt3DRender::QFrontFace::WindingDirection'') [OnObject ''Qt3DRender::QFrontFace''],
     Bind [] ''distance'' [] RNumber [OnObject Qt3DRender_QPickEvent],
     Bind [] ''distanceThreshold'' [] RNumber [OnObject Qt3DRender_QProximityFilter],
     Bind [] ''edgeIndex'' [] RNumber [OnObject ''Qt3DRender::QPickLineEvent''],
     Bind [TypeM ''QT3DRENDER_QEFFECT''] ''effect'' [] RObject [OnObject ''Qt3DRender::QMaterial''],
     Bind [TypeM ''QT3DCORE_QENTITY''] ''entity'' [] RObject [OnObject Qt3DRender_QPickEvent, OnObject Qt3DRender_QProximityFilter],
     Bind [] ''extensions'' [] (RList (IMeta QString)) [OnObject Qt3DRender_QGraphicsApiFilter],
     Bind [TypeM ''QT3DRENDER_QRASTERMODE''] ''faceMode'' [] (RMeta ''Qt3DRender::QRasterMode::FaceMode'') [OnObject ''Qt3DRender::QRasterMode''],
     Bind [TypeM ''QT3DRENDER_QPICKINGSETTINGS''] ''faceOrientationPickingMode'' [] (RMeta ''Qt3DRender::QPickingSettings::FaceOrientationPickingMode'') [OnObject Qt3DRender_QPickingSettings],
     Bind [TypeM ''QT3DRENDER_QLAYERFILTER''] ''filterMode'' [] (RMeta ''Qt3DRender::QLayerFilter::FilterMode'') [OnObject ''Qt3DRender::QLayerFilter''],
     Bind [] ''firstInstance'' [] RNumber [OnObject Qt3DRender_QGeometryRenderer],
     Bind [] ''firstVertex'' [] RNumber [OnObject Qt3DRender_QGeometryRenderer],
     Bind [TypeM ''QT3DCORE_QGEOMETRY''] ''geometry'' [] RObject [OnObject Qt3DRender_QGeometryRenderer],
     Bind [] ''height'' [] RNumber [OnObject Qt3DRender_QPaintedTextureImage],
     Bind [] ''indexBufferByteOffset'' [] RNumber [OnObject Qt3DRender_QGeometryRenderer],
     Bind [] ''indexOffset'' [] RNumber [OnObject Qt3DRender_QGeometryRenderer],
     Bind [] ''instanceCount'' [] RNumber [OnObject Qt3DRender_QGeometryRenderer],
     Bind [] ''isAccepted'' [] RBool [OnObject Qt3DRender_QPickEvent],
     Bind [] ''isDragEnabled'' [] RBool [OnObject Qt3DRender_QObjectPicker],
     Bind [] ''isHoverEnabled'' [] RBool [OnObject Qt3DRender_QObjectPicker],
     Bind [] ''isPressed'' [] RBool [OnObject Qt3DRender_QObjectPicker],
     Bind [TypeM ''QT3DRENDER_QLAYER''] ''layers'' [] (RList IObject) [OnObject ''Qt3DRender::QLayerFilter''],
     Bind [] ''length'' [] RNumber [OnObject ''Qt3DRender::QRayCaster''],
     Bind [] ''linearAttenuation'' [] RNumber [OnObject ''Qt3DRender::QPointLight''],
     Bind [ValueM QTGUI_QVECTOR3D] ''localIntersection'' [] (RValue QVector3D) [OnObject Qt3DRender_QPickEvent],
     Bind [] ''majorVersion'' [] RNumber [OnObject Qt3DRender_QGraphicsApiFilter],
     Bind [] ''meshName'' [] RString [OnObject ''Qt3DRender::QMesh''],
     Bind [] ''minorVersion'' [] RNumber [OnObject Qt3DRender_QGraphicsApiFilter],
     Bind [] ''modifiers'' [] RNumber [OnObject Qt3DRender_QPickEvent],
     Bind [] ''name'' [] RString [OnObject ''Qt3DRender::QParameter''],
     Bind [ValueM QTGUI_QVECTOR3D] ''origin'' [] (RValue QVector3D) [OnObject ''Qt3DRender::QRayCaster''],
     Bind [TypeM ''QT3DRENDER_QPARAMETER''] ''parameters'' [] (RList IObject) [OnObject ''Qt3DRender::QMaterial''],
     Bind [TypeM ''QT3DRENDER_QPICKINGSETTINGS''] ''pickMethod'' [] (RMeta ''Qt3DRender::QPickingSettings::PickMethod'') [OnObject Qt3DRender_QPickingSettings],
     Bind [TypeM ''QT3DRENDER_QPICKINGSETTINGS''] ''pickResultMode'' [] (RMeta ''Qt3DRender::QPickingSettings::PickResultMode'') [OnObject Qt3DRender_QPickingSettings],
     Bind [] ''pointIndex'' [] RNumber [OnObject ''Qt3DRender::QPickPointEvent''],
     Bind [ValueM QTCORE_QPOINTF] ''position'' [] (RValue QPointF) [OnObject Qt3DRender_QPickEvent],
     Bind [] ''primitiveRestartEnabled'' [] RBool [OnObject Qt3DRender_QGeometryRenderer],
     Bind [TypeM ''QT3DRENDER_QGEOMETRYRENDERER''] ''primitiveType'' [] (RMeta ''Qt3DRender::QGeometryRenderer::PrimitiveType'') [OnObject Qt3DRender_QGeometryRenderer],
     Bind [] ''priority'' [] RNumber [OnObject Qt3DRender_QObjectPicker],
     Bind [TypeM ''QT3DRENDER_QGRAPHICSAPIFILTER''] ''profile'' [] (RMeta ''Qt3DRender::QGraphicsApiFilter::OpenGLProfile'') [OnObject Qt3DRender_QGraphicsApiFilter],
     Bind [] ''quadraticAttenuation'' [] RNumber [OnObject ''Qt3DRender::QPointLight''],
     Bind [TypeM ''QT3DRENDER_QRASTERMODE''] ''rasterMode'' [] (RMeta ''Qt3DRender::QRasterMode::RasterMode'') [OnObject ''Qt3DRender::QRasterMode''],
     Bind [] ''recursive'' [] RBool [OnObject ''Qt3DRender::QLayer''],
     Bind [TypeM ''QT3DRENDER_QLAYER''] ''removeLayer'' [PNonNull ''Qt3DRender::QLayer*''] RVoid [OnObject ''Qt3DRender::QLayerFilter''],
     Bind [TypeM ''QT3DRENDER_QPARAMETER''] ''removeParameter'' [PNonNull ''Qt3DRender::QParameter*''] RVoid [OnObject ''Qt3DRender::QMaterial''],
     Bind [] ''restartIndexValue'' [] RNumber [OnObject Qt3DRender_QGeometryRenderer],
     Bind [] ''scaleFactor'' [] RNumber [OnObject ''Qt3DRender::QPolygonOffset''],
     Bind [] ''setAccepted'' [PBool] RVoid [OnObject Qt3DRender_QPickEvent],
     Bind [TypeM ''QT3DRENDER_QGRAPHICSAPIFILTER''] ''setApi'' [PConv ''Qt3DRender::QGraphicsApiFilter::Api''] RVoid [OnObject Qt3DRender_QGraphicsApiFilter],
     Bind [TypeM ''QT3DRENDER_QCAMERA''] ''setCamera'' [PNonNull ''Qt3DRender::QCamera*''] RVoid [OnObject Qt3DRender_QLevelOfDetail],
     Bind [] ''setConstantAttenuation'' [PReal ''float''] RVoid [OnObject ''Qt3DRender::QPointLight''],
     Bind [] ''setCurrentIndex'' [PInt] RVoid [OnObject Qt3DRender_QLevelOfDetail],
     Bind [] ''setDepthSteps'' [PReal ''float''] RVoid [OnObject ''Qt3DRender::QPolygonOffset''],
     Bind [ValueM QTGUI_QVECTOR3D] ''setDirection'' [PConv QVector3D] RVoid [OnObject ''Qt3DRender::QRayCaster''],
     Bind [TypeM ''QT3DRENDER_QFRONTFACE''] ''setDirection'' [PConv ''Qt3DRender::QFrontFace::WindingDirection''] RVoid [OnObject ''Qt3DRender::QFrontFace''],
     Bind [] ''setDistanceThreshold'' [PReal ''float''] RVoid [OnObject Qt3DRender_QProximityFilter],
     Bind [] ''setDragEnabled'' [PBool] RVoid [OnObject Qt3DRender_QObjectPicker],
     Bind [TypeM ''QT3DRENDER_QEFFECT''] ''setEffect'' [PNonNull ''Qt3DRender::QEffect*''] RVoid [OnObject ''Qt3DRender::QMaterial''],
     Bind [TypeM ''QT3DCORE_QENTITY''] ''setEntity'' [PNonNull ''Qt3DCore::QEntity*''] RVoid [OnObject Qt3DRender_QProximityFilter],
     Bind [] ''setExtensions'' [PStringList] RVoid [OnObject Qt3DRender_QGraphicsApiFilter],
     Bind [TypeM ''QT3DRENDER_QRASTERMODE''] ''setFaceMode'' [PConv ''Qt3DRender::QRasterMode::FaceMode''] RVoid [OnObject ''Qt3DRender::QRasterMode''],
     Bind [TypeM ''QT3DRENDER_QPICKINGSETTINGS''] ''setFaceOrientationPickingMode'' [PConv ''Qt3DRender::QPickingSettings::FaceOrientationPickingMode''] RVoid [OnObject Qt3DRender_QPickingSettings],
     Bind [TypeM ''QT3DRENDER_QLAYERFILTER''] ''setFilterMode'' [PConv ''Qt3DRender::QLayerFilter::FilterMode''] RVoid [OnObject ''Qt3DRender::QLayerFilter''],
     Bind [] ''setFirstInstance'' [PInt] RVoid [OnObject Qt3DRender_QGeometryRenderer],
     Bind [] ''setFirstVertex'' [PInt] RVoid [OnObject Qt3DRender_QGeometryRenderer],
     Bind [TypeM ''QT3DCORE_QGEOMETRY''] ''setGeometry'' [PNonNull ''Qt3DCore::QGeometry*''] RVoid [OnObject Qt3DRender_QGeometryRenderer],
     Bind [] ''setHeight'' [PInt] RVoid [OnObject Qt3DRender_QPaintedTextureImage],
     Bind [] ''setHoverEnabled'' [PBool] RVoid [OnObject Qt3DRender_QObjectPicker],
     Bind [] ''setIndexBufferByteOffset'' [PInt] RVoid [OnObject Qt3DRender_QGeometryRenderer],
     Bind [] ''setIndexOffset'' [PInt] RVoid [OnObject Qt3DRender_QGeometryRenderer],
     Bind [] ''setInstanceCount'' [PInt] RVoid [OnObject Qt3DRender_QGeometryRenderer],
     Bind [] ''setLength'' [PReal ''float''] RVoid [OnObject ''Qt3DRender::QRayCaster''],
     Bind [] ''setLinearAttenuation'' [PReal ''float''] RVoid [OnObject ''Qt3DRender::QPointLight''],
     Bind [] ''setMajorVersion'' [PInt] RVoid [OnObject Qt3DRender_QGraphicsApiFilter],
     Bind [] ''setMeshName'' [PString True] RVoid [OnObject ''Qt3DRender::QMesh''],
     Bind [] ''setMinorVersion'' [PInt] RVoid [OnObject Qt3DRender_QGraphicsApiFilter],
     Bind [] ''setName'' [PString True] RVoid [OnObject ''Qt3DRender::QParameter''],
     Bind [ValueM QTGUI_QVECTOR3D] ''setOrigin'' [PConv QVector3D] RVoid [OnObject ''Qt3DRender::QRayCaster''],
     Bind [TypeM ''QT3DRENDER_QPICKINGSETTINGS''] ''setPickMethod'' [PConv ''Qt3DRender::QPickingSettings::PickMethod''] RVoid [OnObject Qt3DRender_QPickingSettings],
     Bind [TypeM ''QT3DRENDER_QPICKINGSETTINGS''] ''setPickResultMode'' [PConv ''Qt3DRender::QPickingSettings::PickResultMode''] RVoid [OnObject Qt3DRender_QPickingSettings],
     Bind [] ''setPrimitiveRestartEnabled'' [PBool] RVoid [OnObject Qt3DRender_QGeometryRenderer],
     Bind [TypeM ''QT3DRENDER_QGEOMETRYRENDERER''] ''setPrimitiveType'' [PConv ''Qt3DRender::QGeometryRenderer::PrimitiveType''] RVoid [OnObject Qt3DRender_QGeometryRenderer],
     Bind [] ''setPriority'' [PInt] RVoid [OnObject Qt3DRender_QObjectPicker],
     Bind [TypeM ''QT3DRENDER_QGRAPHICSAPIFILTER''] ''setProfile'' [PConv ''Qt3DRender::QGraphicsApiFilter::OpenGLProfile''] RVoid [OnObject Qt3DRender_QGraphicsApiFilter],
     Bind [] ''setQuadraticAttenuation'' [PReal ''float''] RVoid [OnObject ''Qt3DRender::QPointLight''],
     Bind [TypeM ''QT3DRENDER_QRASTERMODE''] ''setRasterMode'' [PConv ''Qt3DRender::QRasterMode::RasterMode''] RVoid [OnObject ''Qt3DRender::QRasterMode''],
     Bind [] ''setRecursive'' [PBool] RVoid [OnObject ''Qt3DRender::QLayer''],
     Bind [] ''setRestartIndexValue'' [PInt] RVoid [OnObject Qt3DRender_QGeometryRenderer],
     Bind [] ''setScaleFactor'' [PReal ''float''] RVoid [OnObject ''Qt3DRender::QPolygonOffset''],
     Bind [ValueM QTCORE_QSIZE] ''setSize'' [PConv QSize] RVoid [OnObject Qt3DRender_QPaintedTextureImage]]"

definition meth_qt3drender_1_1 :: "binding list" where
  "meth_qt3drender_1_1 = [
     Bind [TypeM ''QT3DRENDER_QPOINTSIZE''] ''setSizeMode'' [PConv ''Qt3DRender::QPointSize::SizeMode''] RVoid [OnObject ''Qt3DRender::QPointSize''],
     Bind [] ''setSmooth'' [PBool] RVoid [OnObject ''Qt3DRender::QLineWidth''],
     Bind [ValueM QTCORE_QURL] ''setSource'' [PConv QUrl] RVoid [OnObject ''Qt3DRender::QMesh''],
     Bind [TypeM ''QT3DRENDER_QLEVELOFDETAIL''] ''setThresholdType'' [PConv ''Qt3DRender::QLevelOfDetail::ThresholdType''] RVoid [OnObject Qt3DRender_QLevelOfDetail],
     Bind [] ''setThresholds'' [PList ''qreal''] RVoid [OnObject Qt3DRender_QLevelOfDetail],
     Bind [] ''setValue'' [PVariant] RVoid [OnObject ''Qt3DRender::QParameter''],
     Bind [] ''setValue'' [PReal ''float''] RVoid [OnObject ''Qt3DRender::QLineWidth'', OnObject ''Qt3DRender::QPointSize''],
     Bind [] ''setVendor'' [PString True] RVoid [OnObject Qt3DRender_QGraphicsApiFilter],
     Bind [] ''setVertexCount'' [PInt] RVoid [OnObject Qt3DRender_QGeometryRenderer],
     Bind [] ''setVerticesPerPatch'' [PInt] RVoid [OnObject Qt3DRender_QGeometryRenderer],
     Bind [TypeM ''QT3DRENDER_QMEMORYBARRIER''] ''setWaitOperations'' [PConv ''Qt3DRender::QMemoryBarrier::Operations''] RVoid [OnObject ''Qt3DRender::QMemoryBarrier''],
     Bind [] ''setWidth'' [PInt] RVoid [OnObject Qt3DRender_QPaintedTextureImage],
     Bind [] ''setWorldSpaceTolerance'' [PReal ''float''] RVoid [OnObject Qt3DRender_QPickingSettings],
     Bind [ValueM QTCORE_QSIZE] ''size'' [] (RValue QSize) [OnObject Qt3DRender_QPaintedTextureImage],
     Bind [TypeM ''QT3DRENDER_QPOINTSIZE''] ''sizeMode'' [] (RMeta ''Qt3DRender::QPointSize::SizeMode'') [OnObject ''Qt3DRender::QPointSize''],
     Bind [] ''smooth'' [] RBool [OnObject ''Qt3DRender::QLineWidth''],
     Bind [ValueM QTCORE_QURL] ''source'' [] (RValue QUrl) [OnObject ''Qt3DRender::QMesh''],
     Bind [TypeM ''QT3DRENDER_QMESH''] ''status'' [] (RMeta ''Qt3DRender::QMesh::Status'') [OnObject ''Qt3DRender::QMesh''],
     Bind [TypeM ''QT3DRENDER_QLEVELOFDETAIL''] ''thresholdType'' [] (RMeta ''Qt3DRender::QLevelOfDetail::ThresholdType'') [OnObject Qt3DRender_QLevelOfDetail],
     Bind [] ''thresholds'' [] (RList (IMeta ''qreal'')) [OnObject Qt3DRender_QLevelOfDetail],
     Bind [] ''triangleIndex'' [] RNumber [OnObject Qt3DRender_QPickTriangleEvent],
     Bind [] ''trigger'' [] RVoid [OnObject ''Qt3DRender::QRayCaster''],
     Bind [ValueM QTGUI_QVECTOR3D] ''trigger'' [PConv QVector3D, PConv QVector3D, PReal ''float''] RVoid [OnObject ''Qt3DRender::QRayCaster''],
     Bind [ValueM QTCORE_QRECT] ''update'' [PConv QRect] RVoid [OnObject Qt3DRender_QPaintedTextureImage],
     Bind [ValueM QTGUI_QVECTOR3D] ''uvw'' [] (RValue QVector3D) [OnObject Qt3DRender_QPickTriangleEvent],
     Bind [] ''value'' [] RVariant [OnObject ''Qt3DRender::QParameter''],
     Bind [] ''value'' [] RNumber [OnObject ''Qt3DRender::QLineWidth'', OnObject ''Qt3DRender::QPointSize''],
     Bind [] ''vendor'' [] RString [OnObject Qt3DRender_QGraphicsApiFilter],
     Bind [] ''vertex1Index'' [] RNumber [OnObject ''Qt3DRender::QPickLineEvent'', OnObject Qt3DRender_QPickTriangleEvent],
     Bind [] ''vertex2Index'' [] RNumber [OnObject ''Qt3DRender::QPickLineEvent'', OnObject Qt3DRender_QPickTriangleEvent],
     Bind [] ''vertex3Index'' [] RNumber [OnObject Qt3DRender_QPickTriangleEvent],
     Bind [] ''vertexCount'' [] RNumber [OnObject Qt3DRender_QGeometryRenderer],
     Bind [] ''verticesPerPatch'' [] RNumber [OnObject Qt3DRender_QGeometryRenderer],
     Bind [TypeM ''QT3DRENDER_QVIEWPORT''] ''viewport'' [] RObject [OnObject Qt3DRender_QPickEvent],
     Bind [TypeM ''QT3DRENDER_QMEMORYBARRIER''] ''waitOperations'' [] (RMeta ''Qt3DRender::QMemoryBarrier::Operations'') [OnObject ''Qt3DRender::QMemoryBarrier''],
     Bind [] ''width'' [] RNumber [OnObject Qt3DRender_QPaintedTextureImage],
     Bind [ValueM QTGUI_QVECTOR3D] ''worldIntersection'' [] (RValue QVector3D) [OnObject Qt3DRender_QPickEvent],
     Bind [] ''worldSpaceTolerance'' [] RNumber [OnObject Qt3DRender_QPickingSettings]]"

definition meth_qt3drender_2_0 :: "binding list" where
  "meth_qt3drender_2_0 = [
     Bind [TypeM ''QT3DRENDER_QSHADERIMAGE''] ''access'' [] (RMeta ''Qt3DRender::QShaderImage::Access'') [OnObject Qt3DRender_QShaderImage],
     Bind [TypeM ''QT3DRENDER_QFRAMEGRAPHNODE''] ''activeFrameGraph'' [] RObject [OnObject ''Qt3DRender::QRenderSettings''],
     Bind [TypeM QT3DRENDER_QSTENCILOPERATIONARGUMENTS] ''allTestsPassOperation'' [] (RMeta Qt3DRender_QStencilOperationArguments_Operation) [OnObject Qt3DRender_QStencilOperationArguments],
     Bind [TypeM ''QT3DRENDER_QRENDERCAPABILITIES''] ''api'' [] (RMeta ''Qt3DRender::QRenderCapabilities::API'') [OnObject Qt3DRender_QRenderCapabilities],
     Bind [TypeM QT3DRENDER_QRENDERTARGETOUTPUT] ''attachmentPoint'' [] (RMeta Qt3DRender_QRenderTargetOutput_AttachmentPoint) [OnObject Qt3DRender_QRenderTargetOutput],
     Bind [TypeM QT3DRENDER_QSTENCILOPERATIONARGUMENTS] ''back'' [] RObject [OnObject ''Qt3DRender::QStencilOperation''],
     Bind [] ''backOutputMask'' [] RNumber [OnObject ''Qt3DRender::QStencilMask''],
     Bind [] ''bottom'' [] RNumber [OnObject Qt3DRender_QScissorTest],
     Bind [TypeM ''QT3DCORE_QCOMPONENT'', TypeM ''QT3DRENDER_QSCENELOADER''] ''component'' [PString True, PConv ''Qt3DRender::QSceneLoader::ComponentType''] RObject [OnObject ''Qt3DRender::QSceneLoader''],
     Bind [ValueM QTCORE_QBYTEARRAY] ''computeShaderCode'' [] (RValue QByteArray) [OnObject Qt3DRender_QShaderProgram, OnObject Qt3DRender_QShaderProgramBuilder],
     Bind [ValueM QTCORE_QURL] ''computeShaderGraph'' [] (RValue QUrl) [OnObject Qt3DRender_QShaderProgramBuilder],
     Bind [] ''constantAttenuation'' [] RNumber [OnObject Qt3DRender_QSpotLight],
     Bind [] ''cutOffAngle'' [] RNumber [OnObject Qt3DRender_QSpotLight],
     Bind [TypeM QT3DRENDER_QSTENCILOPERATIONARGUMENTS] ''depthTestFailureOperation'' [] (RMeta Qt3DRender_QStencilOperationArguments_Operation) [OnObject Qt3DRender_QStencilOperationArguments],
     Bind [] ''driverVersion'' [] RString [OnObject Qt3DRender_QRenderCapabilities],
     Bind [] ''enabledLayers'' [] (RList (IMeta QString)) [OnObject Qt3DRender_QShaderProgramBuilder],
     Bind [TypeM ''QT3DCORE_QENTITY''] ''entity'' [PString True] RObject [OnObject ''Qt3DRender::QSceneLoader''],
     Bind [] ''entityNames'' [] (RList (IMeta QString)) [OnObject ''Qt3DRender::QSceneLoader''],
     Bind [] ''extensions'' [] (RList (IMeta QString)) [OnObject Qt3DRender_QRenderCapabilities],
     Bind [ValueM QTCORE_QSIZE] ''externalRenderTargetSize'' [] (RValue QSize) [OnObject Qt3DRender_QRenderSurfaceSelector],
     Bind [TypeM QT3DRENDER_QABSTRACTTEXTURE] ''face'' [] (RMeta ''Qt3DRender::QAbstractTexture::CubeMapFace'') [OnObject Qt3DRender_QRenderTargetOutput],
     Bind [TypeM QT3DRENDER_QSTENCILOPERATIONARGUMENTS] ''faceMode'' [] (RMeta ''Qt3DRender::QStencilOperationArguments::FaceMode'') [OnObject Qt3DRender_QStencilOperationArguments],
     Bind [TypeM ''QT3DRENDER_QFILTERKEY''] ''filterKeys'' [] (RList IObject) [OnObject Qt3DRender_QRenderPass],
     Bind [TypeM ''QT3DRENDER_QSHADERIMAGE''] ''format'' [] (RMeta ''Qt3DRender::QShaderImage::ImageFormat'') [OnObject Qt3DRender_QShaderImage],
     Bind [TypeM ''QT3DRENDER_QSHADERPROGRAM''] ''format'' [] (RMeta ''Qt3DRender::QShaderProgram::Format'') [OnObject Qt3DRender_QShaderProgram],
     Bind [ValueM QTCORE_QBYTEARRAY] ''fragmentShaderCode'' [] (RValue QByteArray) [OnObject Qt3DRender_QShaderProgram, OnObject Qt3DRender_QShaderProgramBuilder],
     Bind [ValueM QTCORE_QURL] ''fragmentShaderGraph'' [] (RValue QUrl) [OnObject Qt3DRender_QShaderProgramBuilder],
     Bind [TypeM QT3DRENDER_QSTENCILOPERATIONARGUMENTS] ''front'' [] RObject [OnObject ''Qt3DRender::QStencilOperation''],
     Bind [] ''frontOutputMask'' [] RNumber [OnObject ''Qt3DRender::QStencilMask''],
     Bind [ValueM QTCORE_QBYTEARRAY] ''geometryShaderCode'' [] (RValue QByteArray) [OnObject Qt3DRender_QShaderProgram, OnObject Qt3DRender_QShaderProgramBuilder],
     Bind [ValueM QTCORE_QURL] ''geometryShaderGraph'' [] (RValue QUrl) [OnObject Qt3DRender_QShaderProgramBuilder],
     Bind [] ''glslVersion'' [] RString [OnObject Qt3DRender_QRenderCapabilities],
     Bind [] ''handle'' [] RVariant [OnObject ''Qt3DRender::QSetFence''],
     Bind [TypeM ''QT3DRENDER_QSETFENCE''] ''handleType'' [] (RMeta ''Qt3DRender::QSetFence::HandleType'') [OnObject ''Qt3DRender::QSetFence''],
     Bind [] ''height'' [] RNumber [OnObject Qt3DRender_QScissorTest],
     Bind [ValueM QTGUI_QIMAGE] ''image'' [] (RValue QImage) [OnObject ''Qt3DRender::QRenderCaptureReply''],
     Bind [] ''isComplete'' [] RBool [OnObject ''Qt3DRender::QRenderCaptureReply''],
     Bind [] ''isValid'' [] RBool [OnObject Qt3DRender_QRenderCapabilities],
     Bind [] ''layer'' [] RNumber [OnObject Qt3DRender_QRenderTargetOutput, OnObject Qt3DRender_QShaderImage],
     Bind [] ''layered'' [] RBool [OnObject Qt3DRender_QShaderImage],
     Bind [] ''left'' [] RNumber [OnObject Qt3DRender_QScissorTest],
     Bind [] ''linearAttenuation'' [] RNumber [OnObject Qt3DRender_QSpotLight],
     Bind [ValueM QTCORE_QBYTEARRAY, ValueM QTCORE_QURL] ''loadSource'' [PConv QUrl] (RValue QByteArray) [Static Qt3DRender_QShaderProgram],
     Bind [ValueM QTGUI_QVECTOR3D] ''localDirection'' [] (RValue QVector3D) [OnObject Qt3DRender_QSpotLight],
     Bind [] ''log'' [] RString [OnObject Qt3DRender_QShaderProgram],
     Bind [] ''majorVersion'' [] RNumber [OnObject Qt3DRender_QRenderCapabilities],
     Bind [TypeM ''QT3DRENDER_QFILTERKEY''] ''matchAny'' [] (RList IObject) [OnObject ''Qt3DRender::QRenderPassFilter''],
     Bind [] ''maxComputeInvocations'' [] RNumber [OnObject Qt3DRender_QRenderCapabilities],
     Bind [] ''maxComputeSharedMemorySize'' [] RNumber [OnObject Qt3DRender_QRenderCapabilities],
     Bind [] ''maxImageUnits'' [] RNumber [OnObject Qt3DRender_QRenderCapabilities],
     Bind [] ''maxSSBOBindings'' [] RNumber [OnObject Qt3DRender_QRenderCapabilities],
     Bind [] ''maxSSBOSize'' [] RNumber [OnObject Qt3DRender_QRenderCapabilities],
     Bind [] ''maxSamples'' [] RNumber [OnObject Qt3DRender_QRenderCapabilities],
     Bind [] ''maxTextureLayers'' [] RNumber [OnObject Qt3DRender_QRenderCapabilities],
     Bind [] ''maxTextureSize'' [] RNumber [OnObject Qt3DRender_QRenderCapabilities],
     Bind [] ''maxTextureUnits'' [] RNumber [OnObject Qt3DRender_QRenderCapabilities],
     Bind [] ''maxUBOBindings'' [] RNumber [OnObject Qt3DRender_QRenderCapabilities],
     Bind [] ''maxUBOSize'' [] RNumber [OnObject Qt3DRender_QRenderCapabilities],
     Bind [] ''maxWorkGroupCountX'' [] RNumber [OnObject Qt3DRender_QRenderCapabilities],
     Bind [] ''maxWorkGroupCountY'' [] RNumber [OnObject Qt3DRender_QRenderCapabilities],
     Bind [] ''maxWorkGroupCountZ'' [] RNumber [OnObject Qt3DRender_QRenderCapabilities],
     Bind [] ''maxWorkGroupSizeX'' [] RNumber [OnObject Qt3DRender_QRenderCapabilities],
     Bind [] ''maxWorkGroupSizeY'' [] RNumber [OnObject Qt3DRender_QRenderCapabilities],
     Bind [] ''maxWorkGroupSizeZ'' [] RNumber [OnObject Qt3DRender_QRenderCapabilities],
     Bind [] ''minorVersion'' [] RNumber [OnObject Qt3DRender_QRenderCapabilities],
     Bind [] ''mipLevel'' [] RNumber [OnObject Qt3DRender_QRenderTargetOutput, OnObject Qt3DRender_QShaderImage],
     Bind [TypeM QT3DRENDER_QRENDERTARGETOUTPUT] ''outputs'' [] (RList IObject) [OnObject ''Qt3DRender::QRenderTarget''],
     Bind [TypeM ''QT3DRENDER_QPARAMETER''] ''parameters'' [] (RList IObject) [OnObject Qt3DRender_QRenderPass, OnObject ''Qt3DRender::QRenderPassFilter''],
     Bind [TypeM ''QT3DRENDER_QPICKINGSETTINGS''] ''pickingSettings'' [] RObject [OnObject ''Qt3DRender::QRenderSettings''],
     Bind [ValueM QTCORE_QPOINT] ''position'' [] (RValue QPoint) [OnObject ''Qt3DRender::QScreenRayCaster''],
     Bind [TypeM ''QT3DRENDER_QRENDERCAPABILITIES''] ''profile'' [] (RMeta ''Qt3DRender::QRenderCapabilities::Profile'') [OnObject Qt3DRender_QRenderCapabilities],
     Bind [] ''quadraticAttenuation'' [] RNumber [OnObject Qt3DRender_QSpotLight],
     Bind [TypeM ''QT3DRENDER_QFILTERKEY''] ''removeFilterKey'' [PNonNull ''Qt3DRender::QFilterKey*''] RVoid [OnObject Qt3DRender_QRenderPass],
     Bind [TypeM ''QT3DRENDER_QFILTERKEY''] ''removeMatch'' [PNonNull ''Qt3DRender::QFilterKey*''] RVoid [OnObject ''Qt3DRender::QRenderPassFilter''],
     Bind [TypeM QT3DRENDER_QRENDERTARGETOUTPUT] ''removeOutput'' [PNonNull ''Qt3DRender::QRenderTargetOutput*''] RVoid [OnObject ''Qt3DRender::QRenderTarget''],
     Bind [TypeM ''QT3DRENDER_QPARAMETER''] ''removeParameter'' [PNonNull ''Qt3DRender::QParameter*''] RVoid [OnObject Qt3DRender_QRenderPass, OnObject ''Qt3DRender::QRenderPassFilter''],
     Bind [TypeM ''QT3DRENDER_QRENDERSTATE''] ''removeRenderState'' [PNonNull ''Qt3DRender::QRenderState*''] RVoid [OnObject Qt3DRender_QRenderPass, OnObject ''Qt3DRender::QRenderStateSet''],
     Bind [TypeM ''QT3DRENDER_QRENDERCAPABILITIES''] ''renderCapabilities'' [] RObject [OnObject ''Qt3DRender::QRenderSettings''],
     Bind [TypeM ''QT3DRENDER_QRENDERSETTINGS''] ''renderPolicy'' [] (RMeta ''Qt3DRender::QRenderSettings::RenderPolicy'') [OnObject ''Qt3DRender::QRenderSettings''],
     Bind [TypeM ''QT3DRENDER_QRENDERSTATE''] ''renderStates'' [] (RList IObject) [OnObject Qt3DRender_QRenderPass, OnObject ''Qt3DRender::QRenderStateSet''],
     Bind [] ''renderer'' [] RString [OnObject Qt3DRender_QRenderCapabilities],
     Bind [TypeM ''QT3DRENDER_QRENDERCAPTUREREPLY''] ''requestCapture'' [] RObject [OnObject ''Qt3DRender::QRenderCapture''],
     Bind [TypeM ''QT3DRENDER_QRENDERCAPTUREREPLY'', ValueM QTCORE_QRECT] ''requestCapture'' [PConv QRect] RObject [OnObject ''Qt3DRender::QRenderCapture''],
     Bind [TypeM ''QT3DRENDER_QRENDERCAPTUREREPLY''] ''requestCapture'' [PInt] RObject [OnObject ''Qt3DRender::QRenderCapture''],
     Bind [] ''saveImage'' [PString True] RBool [OnObject ''Qt3DRender::QRenderCaptureReply''],
     Bind [TypeM ''QT3DRENDER_QSHADERIMAGE''] ''setAccess'' [PConv ''Qt3DRender::QShaderImage::Access''] RVoid [OnObject Qt3DRender_QShaderImage],
     Bind [TypeM ''QT3DRENDER_QFRAMEGRAPHNODE''] ''setActiveFrameGraph'' [PNonNull ''Qt3DRender::QFrameGraphNode*''] RVoid [OnObject ''Qt3DRender::QRenderSettings''],
     Bind [TypeM QT3DRENDER_QSTENCILOPERATIONARGUMENTS] ''setAllTestsPassOperation'' [PConv Qt3DRender_QStencilOperationArguments_Operation] RVoid [OnObject Qt3DRender_QStencilOperationArguments],
     Bind [TypeM QT3DRENDER_QRENDERTARGETOUTPUT] ''setAttachmentPoint'' [PConv Qt3DRender_QRenderTargetOutput_AttachmentPoint] RVoid [OnObject Qt3DRender_QRenderTargetOutput],
     Bind [] ''setBackOutputMask'' [PUInt] RVoid [OnObject ''Qt3DRender::QStencilMask''],
     Bind [] ''setBottom'' [PInt] RVoid [OnObject Qt3DRender_QScissorTest],
     Bind [ValueM QTCORE_QBYTEARRAY] ''setComputeShaderCode'' [PConv QByteArray] RVoid [OnObject Qt3DRender_QShaderProgram],
     Bind [ValueM QTCORE_QURL] ''setComputeShaderGraph'' [PConv QUrl] RVoid [OnObject Qt3DRender_QShaderProgramBuilder],
     Bind [] ''setConstantAttenuation'' [PReal ''float''] RVoid [OnObject Qt3DRender_QSpotLight],
     Bind [] ''setCutOffAngle'' [PReal ''float''] RVoid [OnObject Qt3DRender_QSpotLight],
     Bind [TypeM QT3DRENDER_QSTENCILOPERATIONARGUMENTS] ''setDepthTestFailureOperation'' [PConv Qt3DRender_QStencilOperationArguments_Operation] RVoid [OnObject Qt3DRender_QStencilOperationArguments],
     Bind [] ''setEnabledLayers'' [PStringList] RVoid [OnObject Qt3DRender_QShaderProgramBuilder],
     Bind [ValueM QTCORE_QSIZE] ''setExternalRenderTargetSize'' [PConv QSize] RVoid [OnObject Qt3DRender_QRenderSurfaceSelector]]"

definition meth_qt3drender_2_1 :: "binding list" where
  "meth_qt3drender_2_1 = [
     Bind [TypeM QT3DRENDER_QABSTRACTTEXTURE] ''setFace'' [PConv ''Qt3DRender::QAbstractTexture::CubeMapFace''] RVoid [OnObject Qt3DRender_QRenderTargetOutput],
     Bind [TypeM ''QT3DRENDER_QSHADERIMAGE''] ''setFormat'' [PConv ''Qt3DRender::QShaderImage::ImageFormat''] RVoid [OnObject Qt3DRender_QShaderImage],
     Bind [TypeM ''QT3DRENDER_QSHADERPROGRAM''] ''setFormat'' [PConv ''Qt3DRender::QShaderProgram::Format''] RVoid [OnObject Qt3DRender_QShaderProgram],
     Bind [ValueM QTCORE_QBYTEARRAY] ''setFragmentShaderCode'' [PConv QByteArray] RVoid [OnObject Qt3DRender_QShaderProgram],
     Bind [ValueM QTCORE_QURL] ''setFragmentShaderGraph'' [PConv QUrl] RVoid [OnObject Qt3DRender_QShaderProgramBuilder],
     Bind [] ''setFrontOutputMask'' [PUInt] RVoid [OnObject ''Qt3DRender::QStencilMask''],
     Bind [ValueM QTCORE_QBYTEARRAY] ''setGeometryShaderCode'' [PConv QByteArray] RVoid [OnObject Qt3DRender_QShaderProgram],
     Bind [ValueM QTCORE_QURL] ''setGeometryShaderGraph'' [PConv QUrl] RVoid [OnObject Qt3DRender_QShaderProgramBuilder],
     Bind [] ''setHeight'' [PInt] RVoid [OnObject Qt3DRender_QScissorTest],
     Bind [] ''setLayer'' [PInt] RVoid [OnObject Qt3DRender_QRenderTargetOutput, OnObject Qt3DRender_QShaderImage],
     Bind [] ''setLayered'' [PBool] RVoid [OnObject Qt3DRender_QShaderImage],
     Bind [] ''setLeft'' [PInt] RVoid [OnObject Qt3DRender_QScissorTest],
     Bind [] ''setLinearAttenuation'' [PReal ''float''] RVoid [OnObject Qt3DRender_QSpotLight],
     Bind [ValueM QTGUI_QVECTOR3D] ''setLocalDirection'' [PConv QVector3D] RVoid [OnObject Qt3DRender_QSpotLight],
     Bind [] ''setMipLevel'' [PInt] RVoid [OnObject Qt3DRender_QRenderTargetOutput, OnObject Qt3DRender_QShaderImage],
     Bind [ValueM QTCORE_QPOINT] ''setPosition'' [PConv QPoint] RVoid [OnObject ''Qt3DRender::QScreenRayCaster''],
     Bind [] ''setQuadraticAttenuation'' [PReal ''float''] RVoid [OnObject Qt3DRender_QSpotLight],
     Bind [TypeM ''QT3DRENDER_QRENDERSETTINGS''] ''setRenderPolicy'' [PConv ''Qt3DRender::QRenderSettings::RenderPolicy''] RVoid [OnObject ''Qt3DRender::QRenderSettings''],
     Bind [TypeM ''QT3DRENDER_QSHADERPROGRAM'', ValueM QTCORE_QBYTEARRAY] ''setShaderCode'' [PConv ''Qt3DRender::QShaderProgram::ShaderType'', PConv QByteArray] RVoid [OnObject Qt3DRender_QShaderProgram],
     Bind [TypeM ''QT3DRENDER_QSHADERPROGRAM''] ''setShaderProgram'' [PNonNull ''Qt3DRender::QShaderProgram*''] RVoid [OnObject Qt3DRender_QRenderPass, OnObject Qt3DRender_QShaderProgramBuilder],
     Bind [TypeM ''QT3DRENDER_QSORTPOLICY''] ''setSortTypes'' [PListV ''Qt3DRender::QSortPolicy::SortType''] RVoid [OnObject ''Qt3DRender::QSortPolicy''],
     Bind [] ''setSortTypes'' [PList ''int''] RVoid [OnObject ''Qt3DRender::QSortPolicy''],
     Bind [ValueM QTCORE_QURL] ''setSource'' [PConv QUrl] RVoid [OnObject ''Qt3DRender::QSceneLoader''],
     Bind [TypeM QT3DRENDER_QSTENCILOPERATIONARGUMENTS] ''setStencilTestFailureOperation'' [PConv Qt3DRender_QStencilOperationArguments_Operation] RVoid [OnObject Qt3DRender_QStencilOperationArguments],
     Bind [TypeM QTCORE_QOBJECT] ''setSurface'' [PNonNull QObject_ptr] RVoid [OnObject Qt3DRender_QRenderSurfaceSelector],
     Bind [] ''setSurfacePixelRatio'' [PReal ''float''] RVoid [OnObject Qt3DRender_QRenderSurfaceSelector],
     Bind [TypeM ''QT3DRENDER_QRENDERTARGET''] ''setTarget'' [PNonNull ''Qt3DRender::QRenderTarget*''] RVoid [OnObject ''Qt3DRender::QRenderTargetSelector''],
     Bind [ValueM QTCORE_QBYTEARRAY] ''setTessellationControlShaderCode'' [PConv QByteArray] RVoid [OnObject Qt3DRender_QShaderProgram],
     Bind [ValueM QTCORE_QURL] ''setTessellationControlShaderGraph'' [PConv QUrl] RVoid [OnObject Qt3DRender_QShaderProgramBuilder],
     Bind [ValueM QTCORE_QBYTEARRAY] ''setTessellationEvaluationShaderCode'' [PConv QByteArray] RVoid [OnObject Qt3DRender_QShaderProgram],
     Bind [ValueM QTCORE_QURL] ''setTessellationEvaluationShaderGraph'' [PConv QUrl] RVoid [OnObject Qt3DRender_QShaderProgramBuilder],
     Bind [TypeM QT3DRENDER_QABSTRACTTEXTURE] ''setTexture'' [PNonNull Qt3DRender_QAbstractTexture_ptr] RVoid [OnObject Qt3DRender_QRenderTargetOutput, OnObject Qt3DRender_QShaderImage],
     Bind [] ''setTextureId'' [PInt] RVoid [OnObject ''Qt3DRender::QSharedGLTexture''],
     Bind [ValueM QTCORE_QBYTEARRAY] ''setVertexShaderCode'' [PConv QByteArray] RVoid [OnObject Qt3DRender_QShaderProgram],
     Bind [ValueM QTCORE_QURL] ''setVertexShaderGraph'' [PConv QUrl] RVoid [OnObject Qt3DRender_QShaderProgramBuilder],
     Bind [] ''setWidth'' [PInt] RVoid [OnObject Qt3DRender_QScissorTest],
     Bind [TypeM ''QT3DRENDER_QSHADERPROGRAM'', ValueM QTCORE_QBYTEARRAY] ''shaderCode'' [PConv ''Qt3DRender::QShaderProgram::ShaderType''] (RValue QByteArray) [OnObject Qt3DRender_QShaderProgram],
     Bind [TypeM ''QT3DRENDER_QSHADERPROGRAM''] ''shaderProgram'' [] RObject [OnObject Qt3DRender_QRenderPass, OnObject Qt3DRender_QShaderProgramBuilder],
     Bind [TypeM ''QT3DRENDER_QSORTPOLICY''] ''sortTypes'' [] (RList (IMeta ''Qt3DRender::QSortPolicy::SortType'')) [OnObject ''Qt3DRender::QSortPolicy''],
     Bind [] ''sortTypesInt'' [] (RList (IMeta ''int'')) [OnObject ''Qt3DRender::QSortPolicy''],
     Bind [ValueM QTCORE_QURL] ''source'' [] (RValue QUrl) [OnObject ''Qt3DRender::QSceneLoader''],
     Bind [TypeM ''QT3DRENDER_QSCENELOADER''] ''status'' [] (RMeta ''Qt3DRender::QSceneLoader::Status'') [OnObject ''Qt3DRender::QSceneLoader''],
     Bind [TypeM ''QT3DRENDER_QSHADERPROGRAM''] ''status'' [] (RMeta ''Qt3DRender::QShaderProgram::Status'') [OnObject Qt3DRender_QShaderProgram],
     Bind [TypeM QT3DRENDER_QSTENCILOPERATIONARGUMENTS] ''stencilTestFailureOperation'' [] (RMeta Qt3DRender_QStencilOperationArguments_Operation) [OnObject Qt3DRender_QStencilOperationArguments],
     Bind [] ''supportsCompute'' [] RBool [OnObject Qt3DRender_QRenderCapabilities],
     Bind [] ''supportsImageStore'' [] RBool [OnObject Qt3DRender_QRenderCapabilities],
     Bind [] ''supportsSSBO'' [] RBool [OnObject Qt3DRender_QRenderCapabilities],
     Bind [] ''supportsUBO'' [] RBool [OnObject Qt3DRender_QRenderCapabilities],
     Bind [TypeM QTCORE_QOBJECT] ''surface'' [] RObject [OnObject Qt3DRender_QRenderSurfaceSelector],
     Bind [] ''surfacePixelRatio'' [] RNumber [OnObject Qt3DRender_QRenderSurfaceSelector],
     Bind [TypeM ''QT3DRENDER_QRENDERTARGET''] ''target'' [] RObject [OnObject ''Qt3DRender::QRenderTargetSelector''],
     Bind [ValueM QTCORE_QBYTEARRAY] ''tessellationControlShaderCode'' [] (RValue QByteArray) [OnObject Qt3DRender_QShaderProgram, OnObject Qt3DRender_QShaderProgramBuilder],
     Bind [ValueM QTCORE_QURL] ''tessellationControlShaderGraph'' [] (RValue QUrl) [OnObject Qt3DRender_QShaderProgramBuilder],
     Bind [ValueM QTCORE_QBYTEARRAY] ''tessellationEvaluationShaderCode'' [] (RValue QByteArray) [OnObject Qt3DRender_QShaderProgram, OnObject Qt3DRender_QShaderProgramBuilder],
     Bind [ValueM QTCORE_QURL] ''tessellationEvaluationShaderGraph'' [] (RValue QUrl) [OnObject Qt3DRender_QShaderProgramBuilder],
     Bind [TypeM QT3DRENDER_QABSTRACTTEXTURE] ''texture'' [] RObject [OnObject Qt3DRender_QRenderTargetOutput, OnObject Qt3DRender_QShaderImage],
     Bind [] ''textureId'' [] RNumber [OnObject ''Qt3DRender::QSharedGLTexture''],
     Bind [] ''trigger'' [] RVoid [OnObject ''Qt3DRender::QScreenRayCaster''],
     Bind [ValueM QTCORE_QPOINT] ''trigger'' [PConv QPoint] RVoid [OnObject ''Qt3DRender::QScreenRayCaster''],
     Bind [] ''vendor'' [] RString [OnObject Qt3DRender_QRenderCapabilities],
     Bind [ValueM QTCORE_QBYTEARRAY] ''vertexShaderCode'' [] (RValue QByteArray) [OnObject Qt3DRender_QShaderProgram, OnObject Qt3DRender_QShaderProgramBuilder],
     Bind [ValueM QTCORE_QURL] ''vertexShaderGraph'' [] (RValue QUrl) [OnObject Qt3DRender_QShaderProgramBuilder],
     Bind [] ''width'' [] RNumber [OnObject Qt3DRender_QScissorTest]]"

definition meth_qt3drender_3_0 :: "binding list" where
  "meth_qt3drender_3_0 = [
     Bind [TypeM ''QT3DRENDER_QSTENCILTESTARGUMENTS''] ''back'' [] RObject [OnObject ''Qt3DRender::QStencilTest''],
     Bind [] ''comparisonMask'' [] RNumber [OnObject Qt3DRender_QStencilTestArguments],
     Bind [TypeM ''QT3DRENDER_QSUBTREEENABLER''] ''enablement'' [] (RMeta ''Qt3DRender::QSubtreeEnabler::Enablement'') [OnObject ''Qt3DRender::QSubtreeEnabler''],
     Bind [TypeM ''QT3DRENDER_QSTENCILTESTARGUMENTS''] ''faceMode'' [] (RMeta ''Qt3DRender::QStencilTestArguments::StencilFaceMode'') [OnObject Qt3DRender_QStencilTestArguments],
     Bind [TypeM ''QT3DRENDER_QFILTERKEY''] ''filterKeys'' [] (RList IObject) [OnObject ''Qt3DRender::QTechnique''],
     Bind [TypeM ''QT3DRENDER_QSTENCILTESTARGUMENTS''] ''front'' [] RObject [OnObject ''Qt3DRender::QStencilTest''],
     Bind [] ''gamma'' [] RNumber [OnObject ''Qt3DRender::QViewport''],
     Bind [TypeM ''QT3DRENDER_QGRAPHICSAPIFILTER''] ''graphicsApiFilter'' [] RObject [OnObject ''Qt3DRender::QTechnique''],
     Bind [] ''handle'' [] RVariant [OnObject ''Qt3DRender::QWaitFence''],
     Bind [TypeM ''QT3DRENDER_QWAITFENCE''] ''handleType'' [] (RMeta ''Qt3DRender::QWaitFence::HandleType'') [OnObject ''Qt3DRender::QWaitFence''],
     Bind [] ''isMirrored'' [] RBool [OnObject ''Qt3DRender::QTextureImage'', OnObject ''Qt3DRender::QTextureLoader''],
     Bind [TypeM ''QT3DRENDER_QFILTERKEY''] ''matchAll'' [] (RList IObject) [OnObject ''Qt3DRender::QTechniqueFilter''],
     Bind [ValueM QTCORE_QRECTF] ''normalizedRect'' [] (RValue QRectF) [OnObject ''Qt3DRender::QViewport''],
     Bind [TypeM ''QT3DRENDER_QPARAMETER''] ''parameters'' [] (RList IObject) [OnObject ''Qt3DRender::QTechnique'', OnObject ''Qt3DRender::QTechniqueFilter''],
     Bind [] ''referenceValue'' [] RNumber [OnObject Qt3DRender_QStencilTestArguments],
     Bind [TypeM ''QT3DRENDER_QFILTERKEY''] ''removeFilterKey'' [PNonNull ''Qt3DRender::QFilterKey*''] RVoid [OnObject ''Qt3DRender::QTechnique''],
     Bind [TypeM ''QT3DRENDER_QFILTERKEY''] ''removeMatch'' [PNonNull ''Qt3DRender::QFilterKey*''] RVoid [OnObject ''Qt3DRender::QTechniqueFilter''],
     Bind [TypeM ''QT3DRENDER_QPARAMETER''] ''removeParameter'' [PNonNull ''Qt3DRender::QParameter*''] RVoid [OnObject ''Qt3DRender::QTechnique'', OnObject ''Qt3DRender::QTechniqueFilter''],
     Bind [TypeM ''QT3DRENDER_QRENDERPASS''] ''removeRenderPass'' [PNonNull ''Qt3DRender::QRenderPass*''] RVoid [OnObject ''Qt3DRender::QTechnique''],
     Bind [TypeM ''QT3DRENDER_QRENDERPASS''] ''renderPasses'' [] (RList IObject) [OnObject ''Qt3DRender::QTechnique''],
     Bind [] ''requestUpdate'' [] RVoid [OnObject ''Qt3DRender::QSubtreeEnabler''],
     Bind [] ''setComparisonMask'' [PUInt] RVoid [OnObject Qt3DRender_QStencilTestArguments],
     Bind [TypeM ''QT3DRENDER_QSUBTREEENABLER''] ''setEnablement'' [PConv ''Qt3DRender::QSubtreeEnabler::Enablement''] RVoid [OnObject ''Qt3DRender::QSubtreeEnabler''],
     Bind [] ''setGamma'' [PReal ''float''] RVoid [OnObject ''Qt3DRender::QViewport''],
     Bind [] ''setHandle'' [PVariant] RVoid [OnObject ''Qt3DRender::QWaitFence''],
     Bind [TypeM ''QT3DRENDER_QWAITFENCE''] ''setHandleType'' [PConv ''Qt3DRender::QWaitFence::HandleType''] RVoid [OnObject ''Qt3DRender::QWaitFence''],
     Bind [] ''setMirrored'' [PBool] RVoid [OnObject ''Qt3DRender::QTextureImage'', OnObject ''Qt3DRender::QTextureLoader''],
     Bind [ValueM QTCORE_QRECTF] ''setNormalizedRect'' [PConv QRectF] RVoid [OnObject ''Qt3DRender::QViewport''],
     Bind [] ''setReferenceValue'' [PInt] RVoid [OnObject Qt3DRender_QStencilTestArguments],
     Bind [ValueM QTCORE_QURL] ''setSource'' [PConv QUrl] RVoid [OnObject ''Qt3DRender::QTextureImage'', OnObject ''Qt3DRender::QTextureLoader''],
     Bind [TypeM ''QT3DRENDER_QSTENCILTESTARGUMENTS''] ''setStencilFunction'' [PConv ''Qt3DRender::QStencilTestArguments::StencilFunction''] RVoid [OnObject Qt3DRender_QStencilTestArguments],
     Bind [] ''setTimeout'' [PWide ''quint64''] RVoid [OnObject ''Qt3DRender::QWaitFence''],
     Bind [] ''setWaitOnCPU'' [PBool] RVoid [OnObject ''Qt3DRender::QWaitFence''],
     Bind [TypeM QT3DRENDER_QTEXTUREWRAPMODE] ''setX'' [PConv Qt3DRender_QTextureWrapMode_WrapMode] RVoid [OnObject Qt3DRender_QTextureWrapMode],
     Bind [TypeM QT3DRENDER_QTEXTUREWRAPMODE] ''setY'' [PConv Qt3DRender_QTextureWrapMode_WrapMode] RVoid [OnObject Qt3DRender_QTextureWrapMode],
     Bind [TypeM QT3DRENDER_QTEXTUREWRAPMODE] ''setZ'' [PConv Qt3DRender_QTextureWrapMode_WrapMode] RVoid [OnObject Qt3DRender_QTextureWrapMode],
     Bind [ValueM QTCORE_QURL] ''source'' [] (RValue QUrl) [OnObject ''Qt3DRender::QTextureImage'', OnObject ''Qt3DRender::QTextureLoader''],
     Bind [TypeM ''QT3DRENDER_QTEXTUREIMAGE''] ''status'' [] (RMeta ''Qt3DRender::QTextureImage::Status'') [OnObject ''Qt3DRender::QTextureImage''],
     Bind [TypeM ''QT3DRENDER_QSTENCILTESTARGUMENTS''] ''stencilFunction'' [] (RMeta ''Qt3DRender::QStencilTestArguments::StencilFunction'') [OnObject Qt3DRender_QStencilTestArguments],
     Bind [] ''timeout'' [] (RMeta ''quint64'') [OnObject ''Qt3DRender::QWaitFence''],
     Bind [] ''waitOnCPU'' [] RBool [OnObject ''Qt3DRender::QWaitFence''],
     Bind [TypeM QT3DRENDER_QTEXTUREWRAPMODE] ''x'' [] (RMeta Qt3DRender_QTextureWrapMode_WrapMode) [OnObject Qt3DRender_QTextureWrapMode],
     Bind [TypeM QT3DRENDER_QTEXTUREWRAPMODE] ''y'' [] (RMeta Qt3DRender_QTextureWrapMode_WrapMode) [OnObject Qt3DRender_QTextureWrapMode],
     Bind [TypeM QT3DRENDER_QTEXTUREWRAPMODE] ''z'' [] (RMeta Qt3DRender_QTextureWrapMode_WrapMode) [OnObject Qt3DRender_QTextureWrapMode]]"

definition meth_table_qt3d_b :: "(string \<times> shard) list" where
  "meth_table_qt3d_b = [
     (''qt3drender_0'', \<lparr>sh_module = ''Qt3DRender'', sh_slug = ''QT3DRENDER'',
        sh_bindings = concat [meth_qt3drender_0_0, meth_qt3drender_0_1, meth_qt3drender_0_2]\<rparr>),
     (''qt3drender_1'', \<lparr>sh_module = ''Qt3DRender'', sh_slug = ''QT3DRENDER'',
        sh_bindings = concat [meth_qt3drender_1_0, meth_qt3drender_1_1]\<rparr>),
     (''qt3drender_2'', \<lparr>sh_module = ''Qt3DRender'', sh_slug = ''QT3DRENDER'',
        sh_bindings = concat [meth_qt3drender_2_0, meth_qt3drender_2_1]\<rparr>),
     (''qt3drender_3'', \<lparr>sh_module = ''Qt3DRender'', sh_slug = ''QT3DRENDER'',
        sh_bindings = concat [meth_qt3drender_3_0]\<rparr>)]"

lemmas meth_table_qt3d_b_defs =
  meth_qt3drender_0_0_def meth_qt3drender_0_1_def meth_qt3drender_0_2_def meth_qt3drender_1_0_def
  meth_qt3drender_1_1_def meth_qt3drender_2_0_def meth_qt3drender_2_1_def meth_qt3drender_3_0_def

lemma meth_table_qt3d_b_object_blocks: "list_all (\<lambda>(s, sh). object_blocks sh) meth_table_qt3d_b"
  by (simp add: meth_table_qt3d_b_def meth_table_qt3d_b_defs object_blocks_def object_shard_def; (simp add: parameter_text_def qt_name_defs)?)

end
