(* ===== verification/Methods_Devices_A.thy ===== *)
theory Methods_Devices_A
  imports Shard_Methods Qt_Names
begin

text \<open>
  Tables of the method shards (generated\_methods): the blocks of every shard in the file's order.
\<close>

definition meth_qtbluetooth_0_0 :: "binding list" where
  "meth_qtbluetooth_0_0 = [
     Bind [] ''abort'' [] RVoid [OnObject QBluetoothSocket],
     Bind [TypeM QTBLUETOOTH_QLOWENERGYSERVICE, TypeM QTCORE_QOBJECT, ValueM ''QTBLUETOOTH_QLOWENERGYSERVICEDATA''] ''addService'' [PConv QLowEnergyServiceData, PNonNull QObject_ptr] RObject [OnObject QLowEnergyController],
     Bind [ValueM QTBLUETOOTH_QBLUETOOTHADDRESS] ''address'' [] (RValue QBluetoothAddress) [OnObject QBluetoothLocalDevice],
     Bind [ValueM ''QTBLUETOOTH_QBLUETOOTHHOSTINFO''] ''allDevices'' [] (RList (IValue ''QBluetoothHostInfo'')) [Static QBluetoothLocalDevice],
     Bind [] ''bytesAvailable'' [] (RMeta ''qint64'') [OnObject QBluetoothSocket],
     Bind [] ''bytesToWrite'' [] (RMeta ''qint64'') [OnObject QBluetoothSocket],
     Bind [] ''canReadLine'' [] RBool [OnObject QBluetoothSocket],
     Bind [ValueM QTBLUETOOTH_QBLUETOOTHUUID, ValueM ''QTBLUETOOTH_QLOWENERGYCHARACTERISTIC''] ''characteristic'' [PConv QBluetoothUuid] (RValue QLowEnergyCharacteristic) [OnObject QLowEnergyService],
     Bind [TypeM QTBLUETOOTH_QBLUETOOTHUUID] ''characteristicToString'' [PConv ''QBluetoothUuid::CharacteristicType''] RString [Static QBluetoothUuid],
     Bind [ValueM ''QTBLUETOOTH_QLOWENERGYCHARACTERISTIC''] ''characteristics'' [] (RList (IValue QLowEnergyCharacteristic)) [OnObject QLowEnergyService],
     Bind [] ''clear'' [] RVoid [OnObject QBluetoothServiceDiscoveryAgent],
     Bind [] ''close'' [] RVoid [OnObject ''QBluetoothServer'', OnObject QBluetoothSocket],
     Bind [] ''connectToDevice'' [] RVoid [OnObject QLowEnergyController],
     Bind [ValueM QTBLUETOOTH_QBLUETOOTHADDRESS] ''connectedDevices'' [] (RList (IValue QBluetoothAddress)) [OnObject QBluetoothLocalDevice],
     Bind [ValueM ''QTBLUETOOTH_QLOWENERGYCHARACTERISTIC''] ''contains'' [PConv QLowEnergyCharacteristic] RBool [OnObject QLowEnergyService],
     Bind [ValueM ''QTBLUETOOTH_QLOWENERGYDESCRIPTOR''] ''contains'' [PConv QLowEnergyDescriptor] RBool [OnObject QLowEnergyService],
     Bind [TypeM QTBLUETOOTH_QLOWENERGYCONTROLLER, TypeM QTCORE_QOBJECT, ValueM QTBLUETOOTH_QBLUETOOTHADDRESS, ValueM ''QTBLUETOOTH_QBLUETOOTHDEVICEINFO''] ''createCentral'' [PConv QBluetoothDeviceInfo, PConv QBluetoothAddress, PNonNull QObject_ptr] RObject [Static QLowEnergyController],
     Bind [TypeM QTBLUETOOTH_QLOWENERGYCONTROLLER, TypeM QTCORE_QOBJECT, ValueM ''QTBLUETOOTH_QBLUETOOTHDEVICEINFO''] ''createCentral'' [PConv QBluetoothDeviceInfo, PNonNull QObject_ptr] RObject [Static QLowEnergyController],
     Bind [TypeM QTBLUETOOTH_QLOWENERGYCONTROLLER, TypeM QTCORE_QOBJECT, ValueM QTBLUETOOTH_QBLUETOOTHADDRESS] ''createPeripheral'' [PConv QBluetoothAddress, PNonNull QObject_ptr] RObject [Static QLowEnergyController],
     Bind [TypeM QTBLUETOOTH_QLOWENERGYCONTROLLER, TypeM QTCORE_QOBJECT] ''createPeripheral'' [PNonNull QObject_ptr] RObject [Static QLowEnergyController],
     Bind [TypeM QTBLUETOOTH_QLOWENERGYSERVICE, TypeM QTCORE_QOBJECT, ValueM QTBLUETOOTH_QBLUETOOTHUUID] ''createServiceObject'' [PConv QBluetoothUuid, PNonNull QObject_ptr] RObject [OnObject QLowEnergyController],
     Bind [TypeM QTBLUETOOTH_QBLUETOOTHUUID] ''descriptorToString'' [PConv ''QBluetoothUuid::DescriptorType''] RString [Static QBluetoothUuid],
     Bind [] ''disconnectFromDevice'' [] RVoid [OnObject QLowEnergyController],
     Bind [] ''disconnectFromService'' [] RVoid [OnObject QBluetoothSocket],
     Bind [TypeM QTBLUETOOTH_QLOWENERGYSERVICE] ''discoverDetails'' [PConv ''QLowEnergyService::DiscoveryMode''] RVoid [OnObject QLowEnergyService],
     Bind [] ''discoverServices'' [] RVoid [OnObject QLowEnergyController],
     Bind [ValueM ''QTBLUETOOTH_QBLUETOOTHDEVICEINFO''] ''discoveredDevices'' [] (RList (IValue QBluetoothDeviceInfo)) [OnObject QBluetoothDeviceDiscoveryAgent],
     Bind [ValueM QTBLUETOOTH_QBLUETOOTHSERVICEINFO] ''discoveredServices'' [] (RList (IValue QBluetoothServiceInfo)) [OnObject QBluetoothServiceDiscoveryAgent],
     Bind [TypeM ''QTBLUETOOTH_QBLUETOOTHDEVICEDISCOVERYAGENT''] ''error'' [] (RMeta ''QBluetoothDeviceDiscoveryAgent::Error'') [OnObject QBluetoothDeviceDiscoveryAgent],
     Bind [TypeM ''QTBLUETOOTH_QBLUETOOTHSERVER''] ''error'' [] (RMeta ''QBluetoothServer::Error'') [OnObject ''QBluetoothServer''],
     Bind [TypeM ''QTBLUETOOTH_QBLUETOOTHSERVICEDISCOVERYAGENT''] ''error'' [] (RMeta ''QBluetoothServiceDiscoveryAgent::Error'') [OnObject QBluetoothServiceDiscoveryAgent],
     Bind [TypeM ''QTBLUETOOTH_QBLUETOOTHSOCKET''] ''error'' [] (RMeta ''QBluetoothSocket::SocketError'') [OnObject QBluetoothSocket],
     Bind [TypeM QTBLUETOOTH_QLOWENERGYCONTROLLER] ''error'' [] (RMeta ''QLowEnergyController::Error'') [OnObject QLowEnergyController],
     Bind [TypeM QTBLUETOOTH_QLOWENERGYSERVICE] ''error'' [] (RMeta ''QLowEnergyService::ServiceError'') [OnObject QLowEnergyService],
     Bind [] ''errorString'' [] RString [OnObject QBluetoothDeviceDiscoveryAgent, OnObject QBluetoothServiceDiscoveryAgent, OnObject QBluetoothSocket, OnObject QLowEnergyController],
     Bind [] ''hasPendingConnections'' [] RBool [OnObject ''QBluetoothServer''],
     Bind [TypeM ''QTBLUETOOTH_QBLUETOOTHLOCALDEVICE''] ''hostMode'' [] (RMeta ''QBluetoothLocalDevice::HostMode'') [OnObject QBluetoothLocalDevice],
     Bind [ValueM QTBLUETOOTH_QBLUETOOTHUUID] ''includedServices'' [] (RList (IValue QBluetoothUuid)) [OnObject QLowEnergyService],
     Bind [] ''isActive'' [] RBool [OnObject QBluetoothDeviceDiscoveryAgent, OnObject QBluetoothServiceDiscoveryAgent],
     Bind [] ''isListening'' [] RBool [OnObject ''QBluetoothServer''],
     Bind [] ''isSequential'' [] RBool [OnObject QBluetoothSocket],
     Bind [] ''isValid'' [] RBool [OnObject QBluetoothLocalDevice],
     Bind [ValueM QTBLUETOOTH_QBLUETOOTHSERVICEINFO, ValueM QTBLUETOOTH_QBLUETOOTHUUID] ''listen'' [PConv QBluetoothUuid, PString True] (RValue QBluetoothServiceInfo) [OnObject ''QBluetoothServer''],
     Bind [ValueM QTBLUETOOTH_QBLUETOOTHADDRESS] ''localAddress'' [] (RValue QBluetoothAddress) [OnObject QBluetoothSocket, OnObject QLowEnergyController],
     Bind [] ''localName'' [] RString [OnObject QBluetoothSocket],
     Bind [] ''lowEnergyDiscoveryTimeout'' [] RNumber [OnObject QBluetoothDeviceDiscoveryAgent],
     Bind [] ''maxPendingConnections'' [] RNumber [OnObject ''QBluetoothServer''],
     Bind [] ''mtu'' [] RNumber [OnObject QLowEnergyController],
     Bind [] ''name'' [] RString [OnObject QBluetoothLocalDevice],
     Bind [TypeM ''QTBLUETOOTH_QBLUETOOTHSOCKET''] ''nextPendingConnection'' [] RObject [OnObject ''QBluetoothServer''],
     Bind [TypeM ''QTBLUETOOTH_QBLUETOOTHLOCALDEVICE'', ValueM QTBLUETOOTH_QBLUETOOTHADDRESS] ''pairingStatus'' [PConv QBluetoothAddress] (RMeta ''QBluetoothLocalDevice::Pairing'') [OnObject QBluetoothLocalDevice],
     Bind [ValueM QTBLUETOOTH_QBLUETOOTHADDRESS] ''peerAddress'' [] (RValue QBluetoothAddress) [OnObject QBluetoothSocket],
     Bind [] ''peerName'' [] RString [OnObject QBluetoothSocket],
     Bind [] ''powerOn'' [] RVoid [OnObject QBluetoothLocalDevice],
     Bind [TypeM QTBLUETOOTH_QBLUETOOTHUUID] ''protocolToString'' [PConv ''QBluetoothUuid::ProtocolUuid''] RString [Static QBluetoothUuid],
     Bind [ValueM ''QTBLUETOOTH_QLOWENERGYCHARACTERISTIC''] ''readCharacteristic'' [PConv QLowEnergyCharacteristic] RVoid [OnObject QLowEnergyService],
     Bind [ValueM ''QTBLUETOOTH_QLOWENERGYDESCRIPTOR''] ''readDescriptor'' [PConv QLowEnergyDescriptor] RVoid [OnObject QLowEnergyService],
     Bind [] ''readRssi'' [] RVoid [OnObject QLowEnergyController],
     Bind [ValueM QTBLUETOOTH_QBLUETOOTHADDRESS] ''remoteAddress'' [] (RValue QBluetoothAddress) [OnObject QBluetoothServiceDiscoveryAgent, OnObject QLowEnergyController],
     Bind [TypeM QTBLUETOOTH_QLOWENERGYCONTROLLER] ''remoteAddressType'' [] (RMeta ''QLowEnergyController::RemoteAddressType'') [OnObject QLowEnergyController],
     Bind [ValueM QTBLUETOOTH_QBLUETOOTHUUID] ''remoteDeviceUuid'' [] (RValue QBluetoothUuid) [OnObject QLowEnergyController],
     Bind [] ''remoteName'' [] RString [OnObject QLowEnergyController],
     Bind [ValueM ''QTBLUETOOTH_QLOWENERGYCONNECTIONPARAMETERS''] ''requestConnectionUpdate'' [PConv QLowEnergyConnectionParameters] RVoid [OnObject QLowEnergyController],
     Bind [TypeM ''QTBLUETOOTH_QBLUETOOTHLOCALDEVICE'', ValueM QTBLUETOOTH_QBLUETOOTHADDRESS] ''requestPairing'' [PConv QBluetoothAddress, PConv ''QBluetoothLocalDevice::Pairing''] RVoid [OnObject QBluetoothLocalDevice],
     Bind [TypeM QTBLUETOOTH_QLOWENERGYCONTROLLER] ''role'' [] (RMeta ''QLowEnergyController::Role'') [OnObject QLowEnergyController],
     Bind [ValueM QTBLUETOOTH_QBLUETOOTHADDRESS] ''serverAddress'' [] (RValue QBluetoothAddress) [OnObject ''QBluetoothServer''],
     Bind [TypeM QTBLUETOOTH_QBLUETOOTHSERVICEINFO] ''serverType'' [] (RMeta ''QBluetoothServiceInfo::Protocol'') [OnObject ''QBluetoothServer''],
     Bind [TypeM QTBLUETOOTH_QBLUETOOTHUUID] ''serviceClassToString'' [PConv ''QBluetoothUuid::ServiceClassUuid''] RString [Static QBluetoothUuid],
     Bind [] ''serviceName'' [] RString [OnObject QLowEnergyService],
     Bind [ValueM QTBLUETOOTH_QBLUETOOTHUUID] ''serviceUuid'' [] (RValue QBluetoothUuid) [OnObject QLowEnergyService],
     Bind [ValueM QTBLUETOOTH_QBLUETOOTHUUID] ''services'' [] (RList (IValue QBluetoothUuid)) [OnObject QLowEnergyController],
     Bind [TypeM ''QTBLUETOOTH_QBLUETOOTHLOCALDEVICE''] ''setHostMode'' [PConv ''QBluetoothLocalDevice::HostMode''] RVoid [OnObject QBluetoothLocalDevice],
     Bind [] ''setLowEnergyDiscoveryTimeout'' [PInt] RVoid [OnObject QBluetoothDeviceDiscoveryAgent],
     Bind [] ''setMaxPendingConnections'' [PInt] RVoid [OnObject ''QBluetoothServer''],
     Bind [ValueM QTBLUETOOTH_QBLUETOOTHADDRESS] ''setRemoteAddress'' [PConv QBluetoothAddress] RBool [OnObject QBluetoothServiceDiscoveryAgent],
     Bind [TypeM QTBLUETOOTH_QLOWENERGYCONTROLLER] ''setRemoteAddressType'' [PConv ''QLowEnergyController::RemoteAddressType''] RVoid [OnObject QLowEnergyController],
     Bind [ValueM QTBLUETOOTH_QBLUETOOTHUUID] ''setUuidFilter'' [PConv QBluetoothUuid] RVoid [OnObject QBluetoothServiceDiscoveryAgent],
     Bind [ValueM QTBLUETOOTH_QBLUETOOTHUUID] ''setUuidFilter'' [PListV QBluetoothUuid] RVoid [OnObject QBluetoothServiceDiscoveryAgent],
     Bind [] ''socketDescriptor'' [] RNumber [OnObject QBluetoothSocket],
     Bind [TypeM QTBLUETOOTH_QBLUETOOTHSERVICEINFO] ''socketType'' [] (RMeta ''QBluetoothServiceInfo::Protocol'') [OnObject QBluetoothSocket],
     Bind [] ''start'' [] RVoid [OnObject QBluetoothDeviceDiscoveryAgent],
     Bind [TypeM ''QTBLUETOOTH_QBLUETOOTHSERVICEDISCOVERYAGENT''] ''start'' [PConv ''QBluetoothServiceDiscoveryAgent::DiscoveryMode''] RVoid [OnObject QBluetoothServiceDiscoveryAgent],
     Bind [ValueM ''QTBLUETOOTH_QLOWENERGYADVERTISINGDATA'', ValueM QTBLUETOOTH_QLOWENERGYADVERTISINGPARAMETERS] ''startAdvertising'' [PConv QLowEnergyAdvertisingParameters, PConv QLowEnergyAdvertisingData, PConv QLowEnergyAdvertisingData] RVoid [OnObject QLowEnergyController],
     Bind [TypeM ''QTBLUETOOTH_QBLUETOOTHSOCKET''] ''state'' [] (RMeta ''QBluetoothSocket::SocketState'') [OnObject QBluetoothSocket],
     Bind [TypeM QTBLUETOOTH_QLOWENERGYCONTROLLER] ''state'' [] (RMeta ''QLowEnergyController::ControllerState'') [OnObject QLowEnergyController],
     Bind [TypeM QTBLUETOOTH_QLOWENERGYSERVICE] ''state'' [] (RMeta ''QLowEnergyService::ServiceState'') [OnObject QLowEnergyService],
     Bind [] ''stop'' [] RVoid [OnObject QBluetoothDeviceDiscoveryAgent, OnObject QBluetoothServiceDiscoveryAgent],
     Bind [] ''stopAdvertising'' [] RVoid [OnObject QLowEnergyController],
     Bind [TypeM QTBLUETOOTH_QLOWENERGYSERVICE] ''type'' [] (RMeta ''QLowEnergyService::ServiceTypes'') [OnObject QLowEnergyService],
     Bind [ValueM QTBLUETOOTH_QBLUETOOTHUUID] ''uuidFilter'' [] (RList (IValue QBluetoothUuid)) [OnObject QBluetoothServiceDiscoveryAgent],
     Bind [TypeM QTBLUETOOTH_QLOWENERGYSERVICE, ValueM ''QTBLUETOOTH_QLOWENERGYCHARACTERISTIC'', ValueM QTCORE_QBYTEARRAY] ''writeCharacteristic'' [PConv QLowEnergyCharacteristic, PConv QByteArray, PConv ''QLowEnergyService::WriteMode''] RVoid [OnObject QLowEnergyService],
     Bind [ValueM ''QTBLUETOOTH_QLOWENERGYDESCRIPTOR'', ValueM QTCORE_QBYTEARRAY] ''writeDescriptor'' [PConv QLowEnergyDescriptor, PConv QByteArray] RVoid [OnObject QLowEnergyService]]"

definition meth_qtnfc_0_0 :: "binding list" where
  "meth_qtnfc_0_0 = [
     Bind [TypeM ''QTNFC_QNEARFIELDTARGET''] ''accessMethods'' [] (RMeta ''QNearFieldTarget::AccessMethods'') [OnObject ''QNearFieldTarget''],
     Bind [] ''disconnect'' [] RBool [OnObject ''QNearFieldTarget''],
     Bind [ValueM QTCORE_QBYTEARRAY, ValueM ''QTNFC_QNDEFMESSAGE''] ''fromByteArray'' [PConv QByteArray] (RValue ''QNdefMessage'') [Static ''QNdefMessage''],
     Bind [] ''hasNdefMessage'' [] RBool [OnObject ''QNearFieldTarget''],
     Bind [] ''isEnabled'' [] RBool [OnObject ''QNearFieldManager''],
     Bind [TypeM ''QTNFC_QNEARFIELDTARGET''] ''isSupported'' [PConv ''QNearFieldTarget::AccessMethod''] RBool [OnObject ''QNearFieldManager''],
     Bind [] ''maxCommandLength'' [] RNumber [OnObject ''QNearFieldTarget''],
     Bind [TypeM ''QTNFC_QNEARFIELDTARGET''] ''readNdefMessages'' [] (RMeta ''QNearFieldTarget::RequestId'') [OnObject ''QNearFieldTarget''],
     Bind [TypeM ''QTNFC_QNEARFIELDTARGET''] ''requestResponse'' [PConv ''QNearFieldTarget::RequestId''] RVariant [OnObject ''QNearFieldTarget''],
     Bind [TypeM ''QTNFC_QNEARFIELDTARGET'', ValueM QTCORE_QBYTEARRAY] ''sendCommand'' [PConv QByteArray] (RMeta ''QNearFieldTarget::RequestId'') [OnObject ''QNearFieldTarget''],
     Bind [] ''setUserInformation'' [PString True] RVoid [OnObject ''QNearFieldManager''],
     Bind [TypeM ''QTNFC_QNEARFIELDTARGET''] ''startTargetDetection'' [PConv ''QNearFieldTarget::AccessMethod''] RBool [OnObject ''QNearFieldManager''],
     Bind [] ''stopTargetDetection'' [PString True] RVoid [OnObject ''QNearFieldManager''],
     Bind [TypeM ''QTNFC_QNEARFIELDTARGET''] ''type'' [] (RMeta ''QNearFieldTarget::Type'') [OnObject ''QNearFieldTarget''],
     Bind [ValueM QTCORE_QBYTEARRAY] ''uid'' [] (RValue QByteArray) [OnObject ''QNearFieldTarget''],
     Bind [TypeM ''QTNFC_QNEARFIELDTARGET''] ''waitForRequestCompleted'' [PConv ''QNearFieldTarget::RequestId'', PInt] RBool [OnObject ''QNearFieldTarget''],
     Bind [TypeM ''QTNFC_QNEARFIELDTARGET'', ValueM ''QTNFC_QNDEFMESSAGE''] ''writeNdefMessages'' [PListV ''QNdefMessage''] (RMeta ''QNearFieldTarget::RequestId'') [OnObject ''QNearFieldTarget'']]"

definition meth_qtopengl_0_0 :: "binding list" where
  "meth_qtopengl_0_0 = [
     Bind [TypeM ''QTOPENGL_QOPENGLSHADER''] ''addShader'' [PNonNull ''QOpenGLShader*''] RBool [OnObject QOpenGLShaderProgram],
     Bind [ValueM QTCORE_QBYTEARRAY] ''attributeLocation'' [PConv QByteArray] RNumber [OnObject QOpenGLShaderProgram],
     Bind [] ''attributeLocation'' [PString True] RNumber [OnObject QOpenGLShaderProgram],
     Bind [] ''begin'' [] RVoid [OnObject ''QOpenGLTimerQuery''],
     Bind [] ''bind'' [] RBool [OnObject QOpenGLShaderProgram],
     Bind [] ''bind'' [] RVoid [OnObject ''QOpenGLVertexArrayObject''],
     Bind [ValueM QTCORE_QBYTEARRAY] ''bindAttributeLocation'' [PConv QByteArray, PInt] RVoid [OnObject QOpenGLShaderProgram],
     Bind [] ''bindAttributeLocation'' [PString True, PInt] RVoid [OnObject QOpenGLShaderProgram],
     Bind [] ''bindDefault'' [] RBool [Static QOpenGLFramebufferObject],
     Bind [ValueM QTCORE_QBYTEARRAY] ''compileSourceCode'' [PConv QByteArray] RBool [OnObject ''QOpenGLShader''],
     Bind [] ''compileSourceCode'' [PString True] RBool [OnObject ''QOpenGLShader''],
     Bind [] ''compileSourceFile'' [PString True] RBool [OnObject ''QOpenGLShader''],
     Bind [TypeM QTGUI_QOPENGLCONTEXT] ''context'' [] RObject [OnObject ''QOpenGLWindow''],
     Bind [] ''create'' [] RBool [OnObject QOpenGLShaderProgram, OnObject ''QOpenGLTimeMonitor'', OnObject ''QOpenGLTimerQuery'', OnObject ''QOpenGLVertexArrayObject''],
     Bind [] ''defaultInnerTessellationLevels'' [] (RList (IMeta ''float'')) [OnObject QOpenGLShaderProgram],
     Bind [] ''defaultOuterTessellationLevels'' [] (RList (IMeta ''float'')) [OnObject QOpenGLShaderProgram],
     Bind [] ''destroy'' [] RVoid [OnObject ''QOpenGLTimeMonitor'', OnObject ''QOpenGLTimerQuery'', OnObject ''QOpenGLVertexArrayObject''],
     Bind [] ''disableAttributeArray'' [PInt] RVoid [OnObject QOpenGLShaderProgram],
     Bind [TypeM QTOPENGL_QOPENGLDEBUGMESSAGE] ''disableMessages'' [PList ''unsigned int'', PConv ''QOpenGLDebugMessage::Sources'', PConv ''QOpenGLDebugMessage::Types''] RVoid [OnObject QOpenGLDebugLogger],
     Bind [TypeM QTOPENGL_QOPENGLDEBUGMESSAGE] ''disableMessages'' [PConv ''QOpenGLDebugMessage::Sources'', PConv ''QOpenGLDebugMessage::Types'', PConv ''QOpenGLDebugMessage::Severities''] RVoid [OnObject QOpenGLDebugLogger],
     Bind [] ''doneCurrent'' [] RVoid [OnObject ''QOpenGLWindow''],
     Bind [] ''enableAttributeArray'' [PInt] RVoid [OnObject QOpenGLShaderProgram],
     Bind [TypeM QTOPENGL_QOPENGLDEBUGMESSAGE] ''enableMessages'' [PList ''unsigned int'', PConv ''QOpenGLDebugMessage::Sources'', PConv ''QOpenGLDebugMessage::Types''] RVoid [OnObject QOpenGLDebugLogger],
     Bind [TypeM QTOPENGL_QOPENGLDEBUGMESSAGE] ''enableMessages'' [PConv ''QOpenGLDebugMessage::Sources'', PConv ''QOpenGLDebugMessage::Types'', PConv ''QOpenGLDebugMessage::Severities''] RVoid [OnObject QOpenGLDebugLogger],
     Bind [] ''end'' [] RVoid [OnObject ''QOpenGLTimerQuery''],
     Bind [ValueM QTGUI_QIMAGE] ''grabFramebuffer'' [] (RValue QImage) [OnObject ''QOpenGLWindow''],
     Bind [TypeM QTOPENGL_QOPENGLTEXTURE] ''hasFeature'' [PConv ''QOpenGLTexture::Feature''] RBool [Static QOpenGLTexture],
     Bind [] ''hasOpenGLFramebufferBlit'' [] RBool [Static QOpenGLFramebufferObject],
     Bind [] ''hasOpenGLFramebufferObjects'' [] RBool [Static QOpenGLFramebufferObject],
     Bind [TypeM QTGUI_QOPENGLCONTEXT] ''hasOpenGLShaderPrograms'' [PNonNull ''QOpenGLContext*''] RBool [Static QOpenGLShaderProgram],
     Bind [] ''initialize'' [] RBool [OnObject QOpenGLDebugLogger],
     Bind [] ''isCompiled'' [] RBool [OnObject ''QOpenGLShader''],
     Bind [] ''isCreated'' [] RBool [OnObject ''QOpenGLTimeMonitor'', OnObject ''QOpenGLTimerQuery'', OnObject ''QOpenGLVertexArrayObject''],
     Bind [] ''isLinked'' [] RBool [OnObject QOpenGLShaderProgram],
     Bind [] ''isLogging'' [] RBool [OnObject QOpenGLDebugLogger],
     Bind [] ''isResultAvailable'' [] RBool [OnObject ''QOpenGLTimeMonitor'', OnObject ''QOpenGLTimerQuery''],
     Bind [] ''isValid'' [] RBool [OnObject ''QOpenGLWindow''],
     Bind [] ''link'' [] RBool [OnObject QOpenGLShaderProgram],
     Bind [] ''log'' [] RString [OnObject ''QOpenGLShader'', OnObject QOpenGLShaderProgram],
     Bind [ValueM QTOPENGL_QOPENGLDEBUGMESSAGE] ''logMessage'' [PConv QOpenGLDebugMessage] RVoid [OnObject QOpenGLDebugLogger],
     Bind [ValueM QTOPENGL_QOPENGLDEBUGMESSAGE] ''loggedMessages'' [] (RList (IValue QOpenGLDebugMessage)) [OnObject QOpenGLDebugLogger],
     Bind [TypeM ''QTOPENGL_QOPENGLDEBUGLOGGER''] ''loggingMode'' [] (RMeta ''QOpenGLDebugLogger::LoggingMode'') [OnObject QOpenGLDebugLogger],
     Bind [] ''makeCurrent'' [] RVoid [OnObject ''QOpenGLWindow''],
     Bind [] ''maxGeometryOutputVertices'' [] RNumber [OnObject QOpenGLShaderProgram],
     Bind [] ''maximumMessageLength'' [] (RMeta ''qint64'') [OnObject QOpenGLDebugLogger],
     Bind [] ''objectIds'' [] (RList (IMeta ''unsigned int'')) [OnObject ''QOpenGLTimeMonitor''],
     Bind [] ''patchVertexCount'' [] RNumber [OnObject QOpenGLShaderProgram],
     Bind [] ''popGroup'' [] RVoid [OnObject QOpenGLDebugLogger],
     Bind [] ''recordSample'' [] RNumber [OnObject ''QOpenGLTimeMonitor''],
     Bind [] ''recordTimestamp'' [] RVoid [OnObject ''QOpenGLTimerQuery''],
     Bind [] ''release'' [] RVoid [OnObject QOpenGLShaderProgram, OnObject ''QOpenGLVertexArrayObject'', OnObject ''QOpenGLVertexArrayObject''],
     Bind [TypeM ''QTOPENGL_QOPENGLBUFFER''] ''release'' [PConv ''QOpenGLBuffer::Type''] RVoid [Static QOpenGLBuffer],
     Bind [] ''removeAllShaders'' [] RVoid [OnObject QOpenGLShaderProgram],
     Bind [TypeM ''QTOPENGL_QOPENGLSHADER''] ''removeShader'' [PNonNull ''QOpenGLShader*''] RVoid [OnObject QOpenGLShaderProgram],
     Bind [] ''reset'' [] RVoid [OnObject ''QOpenGLTimeMonitor''],
     Bind [] ''sampleCount'' [] RNumber [OnObject ''QOpenGLTimeMonitor''],
     Bind [ValueM QTGUI_QCOLOR] ''setAttributeValue'' [PInt, PConv QColor] RVoid [OnObject QOpenGLShaderProgram],
     Bind [ValueM QTGUI_QVECTOR2D] ''setAttributeValue'' [PInt, PConv QVector2D] RVoid [OnObject QOpenGLShaderProgram],
     Bind [ValueM QTGUI_QVECTOR3D] ''setAttributeValue'' [PInt, PConv QVector3D] RVoid [OnObject QOpenGLShaderProgram],
     Bind [ValueM QTGUI_QVECTOR4D] ''setAttributeValue'' [PInt, PConv QVector4D] RVoid [OnObject QOpenGLShaderProgram],
     Bind [] ''setDefaultInnerTessellationLevels'' [PList ''float''] RVoid [OnObject QOpenGLShaderProgram],
     Bind [] ''setDefaultOuterTessellationLevels'' [PList ''float''] RVoid [OnObject QOpenGLShaderProgram],
     Bind [] ''setPatchVertexCount'' [PInt] RVoid [OnObject QOpenGLShaderProgram],
     Bind [] ''setSampleCount'' [PInt] RVoid [OnObject ''QOpenGLTimeMonitor''],
     Bind [ValueM QTGUI_QCOLOR] ''setUniformValue'' [PInt, PConv QColor] RVoid [OnObject QOpenGLShaderProgram],
     Bind [ValueM ''QTGUI_QMATRIX2X2''] ''setUniformValue'' [PInt, PConv ''QMatrix2x2''] RVoid [OnObject QOpenGLShaderProgram],
     Bind [ValueM ''QTGUI_QMATRIX2X3''] ''setUniformValue'' [PInt, PConv ''QMatrix2x3''] RVoid [OnObject QOpenGLShaderProgram],
     Bind [ValueM ''QTGUI_QMATRIX2X4''] ''setUniformValue'' [PInt, PConv ''QMatrix2x4''] RVoid [OnObject QOpenGLShaderProgram],
     Bind [ValueM ''QTGUI_QMATRIX3X2''] ''setUniformValue'' [PInt, PConv ''QMatrix3x2''] RVoid [OnObject QOpenGLShaderProgram],
     Bind [ValueM ''QTGUI_QMATRIX3X3''] ''setUniformValue'' [PInt, PConv ''QMatrix3x3''] RVoid [OnObject QOpenGLShaderProgram],
     Bind [ValueM ''QTGUI_QMATRIX3X4''] ''setUniformValue'' [PInt, PConv ''QMatrix3x4''] RVoid [OnObject QOpenGLShaderProgram],
     Bind [ValueM ''QTGUI_QMATRIX4X2''] ''setUniformValue'' [PInt, PConv ''QMatrix4x2''] RVoid [OnObject QOpenGLShaderProgram],
     Bind [ValueM ''QTGUI_QMATRIX4X3''] ''setUniformValue'' [PInt, PConv ''QMatrix4x3''] RVoid [OnObject QOpenGLShaderProgram],
     Bind [ValueM QTGUI_QMATRIX4X4] ''setUniformValue'' [PInt, PConv QMatrix4x4] RVoid [OnObject QOpenGLShaderProgram],
     Bind [ValueM QTCORE_QPOINT] ''setUniformValue'' [PInt, PConv QPoint] RVoid [OnObject QOpenGLShaderProgram],
     Bind [ValueM QTCORE_QPOINTF] ''setUniformValue'' [PInt, PConv QPointF] RVoid [OnObject QOpenGLShaderProgram],
     Bind [ValueM QTCORE_QSIZE] ''setUniformValue'' [PInt, PConv QSize] RVoid [OnObject QOpenGLShaderProgram],
     Bind [ValueM QTCORE_QSIZEF] ''setUniformValue'' [PInt, PConv QSizeF] RVoid [OnObject QOpenGLShaderProgram],
     Bind [ValueM QTGUI_QTRANSFORM] ''setUniformValue'' [PInt, PConv QTransform] RVoid [OnObject QOpenGLShaderProgram],
     Bind [ValueM QTGUI_QVECTOR2D] ''setUniformValue'' [PInt, PConv QVector2D] RVoid [OnObject QOpenGLShaderProgram],
     Bind [ValueM QTGUI_QVECTOR3D] ''setUniformValue'' [PInt, PConv QVector3D] RVoid [OnObject QOpenGLShaderProgram],
     Bind [ValueM QTGUI_QVECTOR4D] ''setUniformValue'' [PInt, PConv QVector4D] RVoid [OnObject QOpenGLShaderProgram],
     Bind [TypeM ''QTOPENGL_QOPENGLSHADER''] ''shaders'' [] (RList IObject) [OnObject QOpenGLShaderProgram],
     Bind [TypeM QTGUI_QOPENGLCONTEXT] ''shareContext'' [] RObject [OnObject ''QOpenGLWindow''],
     Bind [ValueM QTCORE_QBYTEARRAY] ''sourceCode'' [] (RValue QByteArray) [OnObject ''QOpenGLShader''],
     Bind [TypeM ''QTOPENGL_QOPENGLTEXTUREBLITTER'', ValueM QTCORE_QRECTF, ValueM QTCORE_QSIZE, ValueM ''QTGUI_QMATRIX3X3''] ''sourceTransform'' [PConv QRectF, PConv QSize, PConv ''QOpenGLTextureBlitter::Origin''] (RValue ''QMatrix3x3'') [Static QOpenGLTextureBlitter],
     Bind [TypeM ''QTOPENGL_QOPENGLDEBUGLOGGER''] ''startLogging'' [PConv ''QOpenGLDebugLogger::LoggingMode''] RVoid [OnObject QOpenGLDebugLogger]]"

definition meth_qtopengl_0_1 :: "binding list" where
  "meth_qtopengl_0_1 = [
     Bind [] ''stopLogging'' [] RVoid [OnObject QOpenGLDebugLogger],
     Bind [ValueM QTCORE_QRECT, ValueM QTCORE_QRECTF, ValueM QTGUI_QMATRIX4X4] ''targetTransform'' [PConv QRectF, PConv QRect] (RValue QMatrix4x4) [Static QOpenGLTextureBlitter],
     Bind [ValueM QTCORE_QBYTEARRAY] ''uniformLocation'' [PConv QByteArray] RNumber [OnObject QOpenGLShaderProgram],
     Bind [] ''uniformLocation'' [PString True] RNumber [OnObject QOpenGLShaderProgram],
     Bind [TypeM ''QTOPENGL_QOPENGLWINDOW''] ''updateBehavior'' [] (RMeta ''QOpenGLWindow::UpdateBehavior'') [OnObject ''QOpenGLWindow'']]"

definition meth_qtopenglwidgets_0_0 :: "binding list" where
  "meth_qtopenglwidgets_0_0 = [
     Bind [TypeM QTGUI_QOPENGLCONTEXT] ''context'' [] RObject [OnObject ''QOpenGLWidget''],
     Bind [TypeM ''QTOPENGLWIDGETS_QOPENGLWIDGET''] ''currentTargetBuffer'' [] (RMeta ''QOpenGLWidget::TargetBuffer'') [OnObject ''QOpenGLWidget''],
     Bind [] ''doneCurrent'' [] RVoid [OnObject ''QOpenGLWidget''],
     Bind [ValueM QTGUI_QSURFACEFORMAT] ''format'' [] (RValue QSurfaceFormat) [OnObject ''QOpenGLWidget''],
     Bind [ValueM QTGUI_QIMAGE] ''grabFramebuffer'' [] (RValue QImage) [OnObject ''QOpenGLWidget''],
     Bind [TypeM ''QTOPENGLWIDGETS_QOPENGLWIDGET'', ValueM QTGUI_QIMAGE] ''grabFramebuffer'' [PConv ''QOpenGLWidget::TargetBuffer''] (RValue QImage) [OnObject ''QOpenGLWidget''],
     Bind [] ''isValid'' [] RBool [OnObject ''QOpenGLWidget''],
     Bind [] ''makeCurrent'' [] RVoid [OnObject ''QOpenGLWidget''],
     Bind [TypeM ''QTOPENGLWIDGETS_QOPENGLWIDGET''] ''makeCurrent'' [PConv ''QOpenGLWidget::TargetBuffer''] RVoid [OnObject ''QOpenGLWidget''],
     Bind [ValueM QTGUI_QSURFACEFORMAT] ''setFormat'' [PConv QSurfaceFormat] RVoid [OnObject ''QOpenGLWidget''],
     Bind [TypeM ''QTOPENGLWIDGETS_QOPENGLWIDGET''] ''setUpdateBehavior'' [PConv ''QOpenGLWidget::UpdateBehavior''] RVoid [OnObject ''QOpenGLWidget''],
     Bind [TypeM ''QTOPENGLWIDGETS_QOPENGLWIDGET''] ''updateBehavior'' [] (RMeta ''QOpenGLWidget::UpdateBehavior'') [OnObject ''QOpenGLWidget'']]"

definition meth_qtquick3d_0_0 :: "binding list" where
  "meth_qtquick3d_0_0 = [
     Bind [TypeM ''QTQUICK3D_QQUICK3DGEOMETRY''] ''addAttribute'' [PConv ''QQuick3DGeometry::Attribute''] RVoid [OnObject QQuick3DGeometry],
     Bind [ValueM QTGUI_QVECTOR3D] ''addSubset'' [PInt, PInt, PConv QVector3D, PConv QVector3D, PString True] RVoid [OnObject QQuick3DGeometry],
     Bind [TypeM ''QTQUICK3D_QQUICK3DGEOMETRY''] ''addTargetAttribute'' [PConv ''QQuick3DGeometry::TargetAttribute''] RVoid [OnObject QQuick3DGeometry],
     Bind [TypeM ''QTQUICK3D_QQUICK3DGEOMETRY''] ''attribute'' [PInt] (RMeta ''QQuick3DGeometry::Attribute'') [OnObject QQuick3DGeometry],
     Bind [] ''attributeCount'' [] RNumber [OnObject QQuick3DGeometry],
     Bind [ValueM QTGUI_QVECTOR3D] ''boundsMax'' [] (RValue QVector3D) [OnObject QQuick3DGeometry],
     Bind [ValueM QTGUI_QVECTOR3D] ''boundsMin'' [] (RValue QVector3D) [OnObject QQuick3DGeometry],
     Bind [] ''clear'' [] RVoid [OnObject QQuick3DGeometry],
     Bind [] ''depth'' [] RNumber [OnObject ''QQuick3DTextureData''],
     Bind [TypeM ''QTQUICK3D_QQUICK3DTEXTUREDATA''] ''format'' [] (RMeta ''QQuick3DTextureData::Format'') [OnObject ''QQuick3DTextureData''],
     Bind [] ''hasTransparency'' [] RBool [OnObject ''QQuick3DTextureData''],
     Bind [ValueM QTGUI_QSURFACEFORMAT] ''idealSurfaceFormat'' [PInt] (RValue QSurfaceFormat) [Static ''QQuick3D''],
     Bind [ValueM QTCORE_QBYTEARRAY] ''indexData'' [] (RValue QByteArray) [OnObject QQuick3DGeometry],
     Bind [TypeM ''QTQUICK3D_QQUICK3DOBJECT''] ''parentItem'' [] RObject [OnObject ''QQuick3DObject''],
     Bind [TypeM ''QTQUICK3D_QQUICK3DGEOMETRY''] ''primitiveType'' [] (RMeta ''QQuick3DGeometry::PrimitiveType'') [OnObject QQuick3DGeometry],
     Bind [ValueM QTGUI_QVECTOR3D] ''setBounds'' [PConv QVector3D, PConv QVector3D] RVoid [OnObject QQuick3DGeometry],
     Bind [] ''setDepth'' [PInt] RVoid [OnObject ''QQuick3DTextureData''],
     Bind [TypeM ''QTQUICK3D_QQUICK3DTEXTUREDATA''] ''setFormat'' [PConv ''QQuick3DTextureData::Format''] RVoid [OnObject ''QQuick3DTextureData''],
     Bind [] ''setHasTransparency'' [PBool] RVoid [OnObject ''QQuick3DTextureData''],
     Bind [ValueM QTCORE_QBYTEARRAY] ''setIndexData'' [PConv QByteArray] RVoid [OnObject QQuick3DGeometry],
     Bind [ValueM QTCORE_QBYTEARRAY] ''setIndexData'' [PInt, PConv QByteArray] RVoid [OnObject QQuick3DGeometry],
     Bind [TypeM ''QTQUICK3D_QQUICK3DOBJECT''] ''setParentItem'' [PNonNull ''QQuick3DObject*''] RVoid [OnObject ''QQuick3DObject''],
     Bind [TypeM ''QTQUICK3D_QQUICK3DGEOMETRY''] ''setPrimitiveType'' [PConv ''QQuick3DGeometry::PrimitiveType''] RVoid [OnObject QQuick3DGeometry],
     Bind [ValueM QTCORE_QSIZE] ''setSize'' [PConv QSize] RVoid [OnObject ''QQuick3DTextureData''],
     Bind [] ''setState'' [PString True] RVoid [OnObject ''QQuick3DObject''],
     Bind [] ''setStride'' [PInt] RVoid [OnObject QQuick3DGeometry],
     Bind [ValueM QTCORE_QBYTEARRAY] ''setTargetData'' [PConv QByteArray] RVoid [OnObject QQuick3DGeometry],
     Bind [ValueM QTCORE_QBYTEARRAY] ''setTargetData'' [PInt, PConv QByteArray] RVoid [OnObject QQuick3DGeometry],
     Bind [ValueM QTCORE_QBYTEARRAY] ''setTextureData'' [PConv QByteArray] RVoid [OnObject ''QQuick3DTextureData''],
     Bind [ValueM QTCORE_QBYTEARRAY] ''setVertexData'' [PConv QByteArray] RVoid [OnObject QQuick3DGeometry],
     Bind [ValueM QTCORE_QBYTEARRAY] ''setVertexData'' [PInt, PConv QByteArray] RVoid [OnObject QQuick3DGeometry],
     Bind [ValueM QTCORE_QSIZE] ''size'' [] (RValue QSize) [OnObject ''QQuick3DTextureData''],
     Bind [] ''state'' [] RString [OnObject ''QQuick3DObject''],
     Bind [] ''stride'' [] RNumber [OnObject QQuick3DGeometry],
     Bind [ValueM QTGUI_QVECTOR3D] ''subsetBoundsMax'' [PInt] (RValue QVector3D) [OnObject QQuick3DGeometry],
     Bind [ValueM QTGUI_QVECTOR3D] ''subsetBoundsMin'' [PInt] (RValue QVector3D) [OnObject QQuick3DGeometry],
     Bind [] ''subsetCount'' [] RNumber [OnObject QQuick3DGeometry],
     Bind [] ''subsetCount'' [PInt] RNumber [OnObject QQuick3DGeometry],
     Bind [] ''subsetName'' [PInt] RString [OnObject QQuick3DGeometry],
     Bind [] ''subsetOffset'' [PInt] RNumber [OnObject QQuick3DGeometry],
     Bind [TypeM ''QTQUICK3D_QQUICK3DGEOMETRY''] ''targetAttribute'' [PInt] (RMeta ''QQuick3DGeometry::TargetAttribute'') [OnObject QQuick3DGeometry],
     Bind [] ''targetAttributeCount'' [] RNumber [OnObject QQuick3DGeometry],
     Bind [ValueM QTCORE_QBYTEARRAY] ''targetData'' [] (RValue QByteArray) [OnObject QQuick3DGeometry],
     Bind [ValueM QTCORE_QBYTEARRAY] ''textureData'' [] (RValue QByteArray) [OnObject ''QQuick3DTextureData''],
     Bind [ValueM QTCORE_QBYTEARRAY] ''vertexData'' [] (RValue QByteArray) [OnObject QQuick3DGeometry]]"

definition meth_qtsensors_0_0 :: "binding list" where
  "meth_qtsensors_0_0 = [
     Bind [] ''absoluteHumidity'' [] RNumber [OnObject ''QHumidityReading''],
     Bind [TypeM ''QTSENSORS_QACCELEROMETER''] ''accelerationMode'' [] (RMeta ''QAccelerometer::AccelerationMode'') [OnObject ''QAccelerometer''],
     Bind [] ''azimuth'' [] RNumber [OnObject ''QCompassReading''],
     Bind [] ''backLidClosed'' [] RBool [OnObject ''QLidReading''],
     Bind [] ''calibrationLevel'' [] RNumber [OnObject ''QCompassReading'', OnObject ''QMagnetometerReading''],
     Bind [] ''fieldOfView'' [] RNumber [OnObject ''QLightSensor''],
     Bind [] ''frontLidClosed'' [] RBool [OnObject ''QLidReading''],
     Bind [TypeM ''QTSENSORS_QAMBIENTLIGHTREADING''] ''lightLevel'' [] (RMeta ''QAmbientLightReading::LightLevel'') [OnObject ''QAmbientLightReading''],
     Bind [] ''lux'' [] RNumber [OnObject ''QLightReading''],
     Bind [TypeM ''QTSENSORS_QORIENTATIONREADING''] ''orientation'' [] (RMeta ''QOrientationReading::Orientation'') [OnObject ''QOrientationReading''],
     Bind [] ''pressure'' [] RNumber [OnObject ''QPressureReading''],
     Bind [TypeM ''QTSENSORS_QACCELEROMETERREADING''] ''reading'' [] RObject [OnObject ''QAccelerometer''],
     Bind [TypeM ''QTSENSORS_QAMBIENTLIGHTREADING''] ''reading'' [] RObject [OnObject ''QAmbientLightSensor''],
     Bind [TypeM ''QTSENSORS_QAMBIENTTEMPERATUREREADING''] ''reading'' [] RObject [OnObject ''QAmbientTemperatureSensor''],
     Bind [TypeM ''QTSENSORS_QCOMPASSREADING''] ''reading'' [] RObject [OnObject ''QCompass''],
     Bind [TypeM ''QTSENSORS_QGYROSCOPEREADING''] ''reading'' [] RObject [OnObject ''QGyroscope''],
     Bind [TypeM ''QTSENSORS_QHUMIDITYREADING''] ''reading'' [] RObject [OnObject ''QHumiditySensor''],
     Bind [TypeM ''QTSENSORS_QIRPROXIMITYREADING''] ''reading'' [] RObject [OnObject ''QIRProximitySensor''],
     Bind [TypeM ''QTSENSORS_QLIDREADING''] ''reading'' [] RObject [OnObject ''QLidSensor''],
     Bind [TypeM ''QTSENSORS_QLIGHTREADING''] ''reading'' [] RObject [OnObject ''QLightSensor''],
     Bind [TypeM ''QTSENSORS_QMAGNETOMETERREADING''] ''reading'' [] RObject [OnObject ''QMagnetometer''],
     Bind [TypeM ''QTSENSORS_QORIENTATIONREADING''] ''reading'' [] RObject [OnObject ''QOrientationSensor''],
     Bind [TypeM ''QTSENSORS_QPRESSUREREADING''] ''reading'' [] RObject [OnObject ''QPressureSensor''],
     Bind [] ''reflectance'' [] RNumber [OnObject ''QIRProximityReading''],
     Bind [] ''relativeHumidity'' [] RNumber [OnObject ''QHumidityReading''],
     Bind [] ''returnGeoValues'' [] RBool [OnObject ''QMagnetometer''],
     Bind [] ''setAbsoluteHumidity'' [PReal ''qreal''] RVoid [OnObject ''QHumidityReading''],
     Bind [TypeM ''QTSENSORS_QACCELEROMETER''] ''setAccelerationMode'' [PConv ''QAccelerometer::AccelerationMode''] RVoid [OnObject ''QAccelerometer''],
     Bind [] ''setAzimuth'' [PReal ''qreal''] RVoid [OnObject ''QCompassReading''],
     Bind [] ''setBackLidClosed'' [PBool] RVoid [OnObject ''QLidReading''],
     Bind [] ''setCalibrationLevel'' [PReal ''qreal''] RVoid [OnObject ''QCompassReading'', OnObject ''QMagnetometerReading''],
     Bind [] ''setFieldOfView'' [PReal ''qreal''] RVoid [OnObject ''QLightSensor''],
     Bind [] ''setFrontLidClosed'' [PBool] RVoid [OnObject ''QLidReading''],
     Bind [TypeM ''QTSENSORS_QAMBIENTLIGHTREADING''] ''setLightLevel'' [PConv ''QAmbientLightReading::LightLevel''] RVoid [OnObject ''QAmbientLightReading''],
     Bind [] ''setLux'' [PReal ''qreal''] RVoid [OnObject ''QLightReading''],
     Bind [TypeM ''QTSENSORS_QORIENTATIONREADING''] ''setOrientation'' [PConv ''QOrientationReading::Orientation''] RVoid [OnObject ''QOrientationReading''],
     Bind [] ''setPressure'' [PReal ''qreal''] RVoid [OnObject ''QPressureReading''],
     Bind [] ''setReflectance'' [PReal ''qreal''] RVoid [OnObject ''QIRProximityReading''],
     Bind [] ''setRelativeHumidity'' [PReal ''qreal''] RVoid [OnObject ''QHumidityReading''],
     Bind [] ''setReturnGeoValues'' [PBool] RVoid [OnObject ''QMagnetometer''],
     Bind [] ''setTemperature'' [PReal ''qreal''] RVoid [OnObject ''QAmbientTemperatureReading'', OnObject ''QPressureReading''],
     Bind [] ''setX'' [PReal ''qreal''] RVoid [OnObject ''QAccelerometerReading'', OnObject ''QGyroscopeReading'', OnObject ''QMagnetometerReading''],
     Bind [] ''setY'' [PReal ''qreal''] RVoid [OnObject ''QAccelerometerReading'', OnObject ''QGyroscopeReading'', OnObject ''QMagnetometerReading''],
     Bind [] ''setZ'' [PReal ''qreal''] RVoid [OnObject ''QAccelerometerReading'', OnObject ''QGyroscopeReading'', OnObject ''QMagnetometerReading''],
     Bind [] ''temperature'' [] RNumber [OnObject ''QAmbientTemperatureReading'', OnObject ''QPressureReading''],
     Bind [] ''x'' [] RNumber [OnObject ''QAccelerometerReading'', OnObject ''QGyroscopeReading'', OnObject ''QMagnetometerReading''],
     Bind [] ''y'' [] RNumber [OnObject ''QAccelerometerReading'', OnObject ''QGyroscopeReading'', OnObject ''QMagnetometerReading''],
     Bind [] ''z'' [] RNumber [OnObject ''QAccelerometerReading'', OnObject ''QGyroscopeReading'', OnObject ''QMagnetometerReading'']]"

definition meth_qtsensors_1_0 :: "binding list" where
  "meth_qtsensors_1_0 = [
     Bind [TypeM ''QTSENSORS_QSENSOR''] ''axesOrientationMode'' [] (RMeta ''QSensor::AxesOrientationMode'') [OnObject QSensor],
     Bind [] ''bufferSize'' [] RNumber [OnObject QSensor],
     Bind [] ''calibrate'' [] RVoid [OnObject ''QTiltSensor''],
     Bind [] ''close'' [] RBool [OnObject ''QProximityReading''],
     Bind [] ''connectToBackend'' [] RBool [OnObject QSensor],
     Bind [] ''currentOrientation'' [] RNumber [OnObject QSensor],
     Bind [] ''dataRate'' [] RNumber [OnObject QSensor],
     Bind [ValueM QTCORE_QBYTEARRAY] ''defaultSensorForType'' [PConv QByteArray] (RValue QByteArray) [Static QSensor],
     Bind [] ''description'' [] RString [OnObject QSensor],
     Bind [] ''efficientBufferSize'' [] RNumber [OnObject QSensor],
     Bind [] ''error'' [] RNumber [OnObject QSensor],
     Bind [] ''hasZ'' [] RBool [OnObject ''QRotationSensor''],
     Bind [ValueM QTCORE_QBYTEARRAY] ''identifier'' [] (RValue QByteArray) [OnObject QSensor],
     Bind [] ''isActive'' [] RBool [OnObject QSensor],
     Bind [] ''isAlwaysOn'' [] RBool [OnObject QSensor],
     Bind [] ''isBusy'' [] RBool [OnObject QSensor],
     Bind [] ''isConnectedToBackend'' [] RBool [OnObject QSensor],
     Bind [] ''isDoubleTap'' [] RBool [OnObject ''QTapReading''],
     Bind [TypeM ''QTSENSORS_QSENSOR''] ''isFeatureSupported'' [PConv ''QSensor::Feature''] RBool [OnObject QSensor],
     Bind [] ''maxBufferSize'' [] RNumber [OnObject QSensor],
     Bind [] ''outputRange'' [] RNumber [OnObject QSensor],
     Bind [TypeM ''QTSENSORS_QPROXIMITYREADING''] ''reading'' [] RObject [OnObject ''QProximitySensor''],
     Bind [TypeM ''QTSENSORS_QROTATIONREADING''] ''reading'' [] RObject [OnObject ''QRotationSensor''],
     Bind [TypeM ''QTSENSORS_QSENSORREADING''] ''reading'' [] RObject [OnObject QSensor],
     Bind [TypeM ''QTSENSORS_QTAPREADING''] ''reading'' [] RObject [OnObject ''QTapSensor''],
     Bind [TypeM ''QTSENSORS_QTILTREADING''] ''reading'' [] RObject [OnObject ''QTiltSensor''],
     Bind [] ''returnDoubleTapEvents'' [] RBool [OnObject ''QTapSensor''],
     Bind [ValueM QTCORE_QBYTEARRAY] ''sensorTypes'' [] (RList (IValue QByteArray)) [Static QSensor],
     Bind [ValueM QTCORE_QBYTEARRAY] ''sensorsForType'' [PConv QByteArray] (RList (IValue QByteArray)) [Static QSensor],
     Bind [] ''setActive'' [PBool] RVoid [OnObject QSensor],
     Bind [] ''setAlwaysOn'' [PBool] RVoid [OnObject QSensor],
     Bind [TypeM ''QTSENSORS_QSENSOR''] ''setAxesOrientationMode'' [PConv ''QSensor::AxesOrientationMode''] RVoid [OnObject QSensor],
     Bind [] ''setBufferSize'' [PInt] RVoid [OnObject QSensor],
     Bind [] ''setClose'' [PBool] RVoid [OnObject ''QProximityReading''],
     Bind [] ''setCurrentOrientation'' [PInt] RVoid [OnObject QSensor],
     Bind [] ''setDataRate'' [PInt] RVoid [OnObject QSensor],
     Bind [] ''setDoubleTap'' [PBool] RVoid [OnObject ''QTapReading''],
     Bind [] ''setEfficientBufferSize'' [PInt] RVoid [OnObject QSensor],
     Bind [] ''setFromEuler'' [PReal ''qreal'', PReal ''qreal'', PReal ''qreal''] RVoid [OnObject ''QRotationReading''],
     Bind [] ''setHasZ'' [PBool] RVoid [OnObject ''QRotationSensor''],
     Bind [ValueM QTCORE_QBYTEARRAY] ''setIdentifier'' [PConv QByteArray] RVoid [OnObject QSensor],
     Bind [] ''setMaxBufferSize'' [PInt] RVoid [OnObject QSensor],
     Bind [] ''setOutputRange'' [PInt] RVoid [OnObject QSensor],
     Bind [] ''setReturnDoubleTapEvents'' [PBool] RVoid [OnObject ''QTapSensor''],
     Bind [] ''setSkipDuplicates'' [PBool] RVoid [OnObject QSensor],
     Bind [TypeM ''QTSENSORS_QTAPREADING''] ''setTapDirection'' [PConv ''QTapReading::TapDirection''] RVoid [OnObject ''QTapReading''],
     Bind [] ''setTimestamp'' [PWide ''quint64''] RVoid [OnObject ''QSensorReading''],
     Bind [] ''setUserOrientation'' [PInt] RVoid [OnObject QSensor],
     Bind [] ''setXRotation'' [PReal ''qreal''] RVoid [OnObject ''QTiltReading''],
     Bind [] ''setYRotation'' [PReal ''qreal''] RVoid [OnObject ''QTiltReading''],
     Bind [] ''skipDuplicates'' [] RBool [OnObject QSensor],
     Bind [] ''start'' [] RBool [OnObject QSensor],
     Bind [] ''stop'' [] RVoid [OnObject QSensor],
     Bind [TypeM ''QTSENSORS_QTAPREADING''] ''tapDirection'' [] (RMeta ''QTapReading::TapDirection'') [OnObject ''QTapReading''],
     Bind [] ''timestamp'' [] (RMeta ''quint64'') [OnObject ''QSensorReading''],
     Bind [ValueM QTCORE_QBYTEARRAY] ''type'' [] (RValue QByteArray) [OnObject QSensor],
     Bind [] ''userOrientation'' [] RNumber [OnObject QSensor],
     Bind [] ''value'' [PInt] RVariant [OnObject ''QSensorReading''],
     Bind [] ''valueCount'' [] RNumber [OnObject ''QSensorReading''],
     Bind [] ''x'' [] RNumber [OnObject ''QRotationReading''],
     Bind [] ''xRotation'' [] RNumber [OnObject ''QTiltReading''],
     Bind [] ''y'' [] RNumber [OnObject ''QRotationReading''],
     Bind [] ''yRotation'' [] RNumber [OnObject ''QTiltReading''],
     Bind [] ''z'' [] RNumber [OnObject ''QRotationReading'']]"

definition meth_qtspatialaudio_0_0 :: "binding list" where
  "meth_qtspatialaudio_0_0 = [
     Bind [] ''autoPlay'' [] RBool [OnObject ''QAmbientSound'', OnObject QSpatialSound],
     Bind [ValueM QTGUI_QVECTOR3D] ''dimensions'' [] (RValue QVector3D) [OnObject ''QAudioRoom''],
     Bind [] ''directivity'' [] RNumber [OnObject QSpatialSound],
     Bind [] ''directivityOrder'' [] RNumber [OnObject QSpatialSound],
     Bind [] ''distanceCutoff'' [] RNumber [OnObject QSpatialSound],
     Bind [TypeM ''QTSPATIALAUDIO_QSPATIALSOUND''] ''distanceModel'' [] (RMeta ''QSpatialSound::DistanceModel'') [OnObject QSpatialSound],
     Bind [] ''distanceScale'' [] RNumber [OnObject QAudioEngine],
     Bind [TypeM QTSPATIALAUDIO_QAUDIOENGINE] ''engine'' [] RObject [OnObject ''QAmbientSound'', OnObject ''QAudioListener'', OnObject QSpatialSound],
     Bind [] ''loops'' [] RNumber [OnObject ''QAmbientSound'', OnObject QSpatialSound],
     Bind [] ''manualAttenuation'' [] RNumber [OnObject QSpatialSound],
     Bind [] ''masterVolume'' [] RNumber [OnObject QAudioEngine],
     Bind [] ''nearFieldGain'' [] RNumber [OnObject QSpatialSound],
     Bind [] ''occlusionIntensity'' [] RNumber [OnObject QSpatialSound],
     Bind [ValueM QTMULTIMEDIA_QAUDIODEVICE] ''outputDevice'' [] (RValue QAudioDevice) [OnObject QAudioEngine],
     Bind [TypeM QTSPATIALAUDIO_QAUDIOENGINE] ''outputMode'' [] (RMeta ''QAudioEngine::OutputMode'') [OnObject QAudioEngine],
     Bind [] ''pause'' [] RVoid [OnObject ''QAmbientSound'', OnObject QAudioEngine, OnObject QSpatialSound],
     Bind [] ''paused'' [] RBool [OnObject QAudioEngine],
     Bind [] ''play'' [] RVoid [OnObject ''QAmbientSound'', OnObject QSpatialSound],
     Bind [ValueM QTGUI_QVECTOR3D] ''position'' [] (RValue QVector3D) [OnObject ''QAudioListener'', OnObject ''QAudioRoom'', OnObject QSpatialSound],
     Bind [] ''reflectionGain'' [] RNumber [OnObject ''QAudioRoom''],
     Bind [] ''resume'' [] RVoid [OnObject QAudioEngine],
     Bind [] ''reverbBrightness'' [] RNumber [OnObject ''QAudioRoom''],
     Bind [] ''reverbGain'' [] RNumber [OnObject ''QAudioRoom''],
     Bind [] ''reverbTime'' [] RNumber [OnObject ''QAudioRoom''],
     Bind [] ''roomEffectsEnabled'' [] RBool [OnObject QAudioEngine],
     Bind [ValueM QTGUI_QQUATERNION] ''rotation'' [] (RValue QQuaternion) [OnObject ''QAudioListener'', OnObject ''QAudioRoom'', OnObject QSpatialSound],
     Bind [] ''sampleRate'' [] RNumber [OnObject QAudioEngine],
     Bind [] ''setAutoPlay'' [PBool] RVoid [OnObject ''QAmbientSound'', OnObject QSpatialSound],
     Bind [ValueM QTGUI_QVECTOR3D] ''setDimensions'' [PConv QVector3D] RVoid [OnObject ''QAudioRoom''],
     Bind [] ''setDirectivity'' [PReal ''float''] RVoid [OnObject QSpatialSound],
     Bind [] ''setDirectivityOrder'' [PReal ''float''] RVoid [OnObject QSpatialSound],
     Bind [] ''setDistanceCutoff'' [PReal ''float''] RVoid [OnObject QSpatialSound],
     Bind [TypeM ''QTSPATIALAUDIO_QSPATIALSOUND''] ''setDistanceModel'' [PConv ''QSpatialSound::DistanceModel''] RVoid [OnObject QSpatialSound],
     Bind [] ''setDistanceScale'' [PReal ''float''] RVoid [OnObject QAudioEngine],
     Bind [] ''setLoops'' [PInt] RVoid [OnObject ''QAmbientSound'', OnObject QSpatialSound],
     Bind [] ''setManualAttenuation'' [PReal ''float''] RVoid [OnObject QSpatialSound],
     Bind [] ''setMasterVolume'' [PReal ''float''] RVoid [OnObject QAudioEngine],
     Bind [] ''setNearFieldGain'' [PReal ''float''] RVoid [OnObject QSpatialSound],
     Bind [] ''setOcclusionIntensity'' [PReal ''float''] RVoid [OnObject QSpatialSound],
     Bind [ValueM QTMULTIMEDIA_QAUDIODEVICE] ''setOutputDevice'' [PConv QAudioDevice] RVoid [OnObject QAudioEngine],
     Bind [TypeM QTSPATIALAUDIO_QAUDIOENGINE] ''setOutputMode'' [PConv ''QAudioEngine::OutputMode''] RVoid [OnObject QAudioEngine],
     Bind [] ''setPaused'' [PBool] RVoid [OnObject QAudioEngine],
     Bind [ValueM QTGUI_QVECTOR3D] ''setPosition'' [PConv QVector3D] RVoid [OnObject ''QAudioListener'', OnObject ''QAudioRoom'', OnObject QSpatialSound],
     Bind [] ''setReflectionGain'' [PReal ''float''] RVoid [OnObject ''QAudioRoom''],
     Bind [] ''setReverbBrightness'' [PReal ''float''] RVoid [OnObject ''QAudioRoom''],
     Bind [] ''setReverbGain'' [PReal ''float''] RVoid [OnObject ''QAudioRoom''],
     Bind [] ''setReverbTime'' [PReal ''float''] RVoid [OnObject ''QAudioRoom''],
     Bind [] ''setRoomEffectsEnabled'' [PBool] RVoid [OnObject QAudioEngine],
     Bind [ValueM QTGUI_QQUATERNION] ''setRotation'' [PConv QQuaternion] RVoid [OnObject ''QAudioListener'', OnObject ''QAudioRoom'', OnObject QSpatialSound],
     Bind [] ''setSize'' [PReal ''float''] RVoid [OnObject QSpatialSound],
     Bind [ValueM QTCORE_QURL] ''setSource'' [PConv QUrl] RVoid [OnObject ''QAmbientSound'', OnObject QSpatialSound],
     Bind [] ''setVolume'' [PReal ''float''] RVoid [OnObject ''QAmbientSound'', OnObject QSpatialSound],
     Bind [TypeM ''QTSPATIALAUDIO_QAUDIOROOM''] ''setWallMaterial'' [PConv ''QAudioRoom::Wall'', PConv ''QAudioRoom::Material''] RVoid [OnObject ''QAudioRoom''],
     Bind [] ''size'' [] RNumber [OnObject QSpatialSound],
     Bind [ValueM QTCORE_QURL] ''source'' [] (RValue QUrl) [OnObject ''QAmbientSound'', OnObject QSpatialSound],
     Bind [] ''start'' [] RVoid [OnObject QAudioEngine],
     Bind [] ''stop'' [] RVoid [OnObject ''QAmbientSound'', OnObject QAudioEngine, OnObject QSpatialSound],
     Bind [] ''volume'' [] RNumber [OnObject ''QAmbientSound'', OnObject QSpatialSound],
     Bind [TypeM ''QTSPATIALAUDIO_QAUDIOROOM''] ''wallMaterial'' [PConv ''QAudioRoom::Wall''] (RMeta ''QAudioRoom::Material'') [OnObject ''QAudioRoom'']]"

definition meth_qtwebenginecore_0_0 :: "binding list" where
  "meth_qtwebenginecore_0_0 = [
     Bind [] ''accept'' [] RVoid [OnObject QWebEngineDownloadRequest, OnObject ''QWebEngineNavigationRequest''],
     Bind [] ''back'' [] RVoid [OnObject QWebEngineHistory],
     Bind [ValueM QTWEBENGINECORE_QWEBENGINEHISTORYITEM] ''backItem'' [] (RValue QWebEngineHistoryItem) [OnObject QWebEngineHistory],
     Bind [ValueM QTWEBENGINECORE_QWEBENGINEHISTORYITEM] ''backItems'' [PInt] (RList (IValue QWebEngineHistoryItem)) [OnObject QWebEngineHistory],
     Bind [TypeM ''QTWEBENGINECORE_QWEBENGINEHISTORYMODEL''] ''backItemsModel'' [] RObject [OnObject QWebEngineHistory],
     Bind [ValueM QTGUI_QCOLOR] ''backgroundColor'' [] (RValue QColor) [OnObject QWebEnginePage],
     Bind [] ''cachePath'' [] RString [OnObject QWebEngineProfile],
     Bind [] ''canGoBack'' [] RBool [OnObject QWebEngineHistory],
     Bind [] ''canGoForward'' [] RBool [OnObject QWebEngineHistory],
     Bind [] ''cancel'' [] RVoid [OnObject QWebEngineDownloadRequest],
     Bind [] ''clear'' [] RVoid [OnObject QWebEngineHistory],
     Bind [] ''clearAllVisitedLinks'' [] RVoid [OnObject QWebEngineProfile],
     Bind [] ''clearHttpCache'' [] RVoid [OnObject QWebEngineProfile],
     Bind [ValueM QTCORE_QURL] ''clearVisitedLinks'' [PListV QUrl] RVoid [OnObject QWebEngineProfile],
     Bind [] ''click'' [] RVoid [OnObject QWebEngineNotification],
     Bind [] ''close'' [] RVoid [OnObject QWebEngineNotification],
     Bind [ValueM QTCORE_QSIZEF] ''contentsSize'' [] (RValue QSizeF) [OnObject QWebEnginePage],
     Bind [TypeM ''QTWEBENGINECORE_QWEBENGINECOOKIESTORE''] ''cookieStore'' [] RObject [OnObject QWebEngineProfile],
     Bind [] ''count'' [] RNumber [OnObject QWebEngineHistory],
     Bind [ValueM QTWEBENGINECORE_QWEBENGINEHISTORYITEM] ''currentItem'' [] (RValue QWebEngineHistoryItem) [OnObject QWebEngineHistory],
     Bind [] ''currentItemIndex'' [] RNumber [OnObject QWebEngineHistory],
     Bind [ValueM QTCORE_QMODELINDEX] ''data'' [PConv QModelIndex, PInt] RVariant [OnObject ''QWebEngineHistoryModel''],
     Bind [TypeM QTWEBENGINECORE_QWEBENGINEPROFILE] ''defaultProfile'' [] RObject [Static QWebEngineProfile],
     Bind [] ''deleteAllCookies'' [] RVoid [OnObject ''QWebEngineCookieStore''],
     Bind [ValueM QTCORE_QURL, ValueM QTNETWORK_QNETWORKCOOKIE] ''deleteCookie'' [PConv QNetworkCookie, PConv QUrl] RVoid [OnObject ''QWebEngineCookieStore''],
     Bind [] ''deleteSessionCookies'' [] RVoid [OnObject ''QWebEngineCookieStore''],
     Bind [TypeM ''QTWEBENGINECORE_QWEBENGINENEWWINDOWREQUEST''] ''destination'' [] (RMeta ''QWebEngineNewWindowRequest::DestinationType'') [OnObject ''QWebEngineNewWindowRequest''],
     Bind [TypeM QTWEBENGINECORE_QWEBENGINEPAGE] ''devToolsPage'' [] RObject [OnObject QWebEnginePage],
     Bind [EnumM QT_LAYOUTDIRECTION] ''direction'' [] (RMeta Qt_LayoutDirection) [OnObject QWebEngineNotification],
     Bind [ValueM QTCORE_QURL] ''download'' [PConv QUrl, PString True] RVoid [OnObject QWebEnginePage],
     Bind [] ''downloadDirectory'' [] RString [OnObject QWebEngineDownloadRequest],
     Bind [] ''downloadFileName'' [] RString [OnObject QWebEngineDownloadRequest],
     Bind [] ''downloadPath'' [] RString [OnObject QWebEngineProfile],
     Bind [TypeM ''QTWEBENGINECORE_QWEBENGINEURLREQUESTJOB''] ''fail'' [PConv ''QWebEngineUrlRequestJob::Error''] RVoid [OnObject ''QWebEngineUrlRequestJob''],
     Bind [] ''forward'' [] RVoid [OnObject QWebEngineHistory],
     Bind [ValueM QTWEBENGINECORE_QWEBENGINEHISTORYITEM] ''forwardItem'' [] (RValue QWebEngineHistoryItem) [OnObject QWebEngineHistory],
     Bind [ValueM QTWEBENGINECORE_QWEBENGINEHISTORYITEM] ''forwardItems'' [PInt] (RList (IValue QWebEngineHistoryItem)) [OnObject QWebEngineHistory],
     Bind [TypeM ''QTWEBENGINECORE_QWEBENGINEHISTORYMODEL''] ''forwardItemsModel'' [] RObject [OnObject QWebEngineHistory],
     Bind [ValueM QTWEBENGINECORE_QWEBENGINEHISTORYITEM] ''goToItem'' [PConv QWebEngineHistoryItem] RVoid [OnObject QWebEngineHistory],
     Bind [] ''hasSelection'' [] RBool [OnObject QWebEnginePage],
     Bind [TypeM ''QTWEBENGINECORE_QWEBENGINEHISTORY''] ''history'' [] RObject [OnObject QWebEnginePage],
     Bind [] ''httpAcceptLanguage'' [] RString [OnObject QWebEngineProfile],
     Bind [] ''httpCacheMaximumSize'' [] RNumber [OnObject QWebEngineProfile],
     Bind [TypeM QTWEBENGINECORE_QWEBENGINEPROFILE] ''httpCacheType'' [] (RMeta ''QWebEngineProfile::HttpCacheType'') [OnObject QWebEngineProfile],
     Bind [] ''httpUserAgent'' [] RString [OnObject QWebEngineProfile],
     Bind [ValueM QTGUI_QICON] ''icon'' [] (RValue QIcon) [OnObject QWebEnginePage],
     Bind [ValueM QTGUI_QIMAGE] ''icon'' [] (RValue QImage) [OnObject QWebEngineNotification],
     Bind [ValueM QTCORE_QURL] ''iconUrl'' [] (RValue QUrl) [OnObject QWebEnginePage],
     Bind [ValueM QTCORE_QURL] ''initiator'' [] (RValue QUrl) [OnObject ''QWebEngineUrlRequestJob''],
     Bind [TypeM QTWEBENGINECORE_QWEBENGINEPAGE] ''inspectedPage'' [] RObject [OnObject QWebEnginePage],
     Bind [TypeM ''QTWEBENGINECORE_QWEBENGINEURLSCHEMEHANDLER'', ValueM QTCORE_QBYTEARRAY] ''installUrlSchemeHandler'' [PConv QByteArray, PNonNull ''QWebEngineUrlSchemeHandler*''] RVoid [OnObject QWebEngineProfile],
     Bind [TypeM ''QTWEBENGINECORE_QWEBENGINEDOWNLOADREQUEST''] ''interruptReason'' [] (RMeta ''QWebEngineDownloadRequest::DownloadInterruptReason'') [OnObject QWebEngineDownloadRequest],
     Bind [] ''interruptReasonString'' [] RString [OnObject QWebEngineDownloadRequest],
     Bind [] ''isAccepted'' [] RBool [OnObject QWebEngineContextMenuRequest],
     Bind [] ''isAudioMuted'' [] RBool [OnObject QWebEnginePage],
     Bind [] ''isContentEditable'' [] RBool [OnObject QWebEngineContextMenuRequest],
     Bind [] ''isFinished'' [] RBool [OnObject QWebEngineDownloadRequest],
     Bind [] ''isLoading'' [] RBool [OnObject QWebEnginePage],
     Bind [] ''isMainFrame'' [] RBool [OnObject ''QWebEngineNavigationRequest''],
     Bind [] ''isOffTheRecord'' [] RBool [OnObject QWebEngineProfile],
     Bind [] ''isPaused'' [] RBool [OnObject QWebEngineDownloadRequest],
     Bind [] ''isSavePageDownload'' [] RBool [OnObject QWebEngineDownloadRequest],
     Bind [] ''isSpellCheckEnabled'' [] RBool [OnObject QWebEngineProfile],
     Bind [] ''isUserInitiated'' [] RBool [OnObject ''QWebEngineNewWindowRequest''],
     Bind [] ''isVisible'' [] RBool [OnObject QWebEnginePage],
     Bind [ValueM QTWEBENGINECORE_QWEBENGINEHISTORYITEM] ''itemAt'' [PInt] (RValue QWebEngineHistoryItem) [OnObject QWebEngineHistory],
     Bind [ValueM QTWEBENGINECORE_QWEBENGINEHISTORYITEM] ''items'' [] (RList (IValue QWebEngineHistoryItem)) [OnObject QWebEngineHistory],
     Bind [TypeM ''QTWEBENGINECORE_QWEBENGINEHISTORYMODEL''] ''itemsModel'' [] RObject [OnObject QWebEngineHistory],
     Bind [] ''language'' [] RString [OnObject QWebEngineNotification],
     Bind [TypeM QTWEBENGINECORE_QWEBENGINEPAGE] ''lifecycleState'' [] (RMeta ''QWebEnginePage::LifecycleState'') [OnObject QWebEnginePage],
     Bind [] ''linkText'' [] RString [OnObject QWebEngineContextMenuRequest],
     Bind [ValueM QTCORE_QURL] ''linkUrl'' [] (RValue QUrl) [OnObject QWebEngineContextMenuRequest],
     Bind [ValueM QTCORE_QURL] ''load'' [PConv QUrl] RVoid [OnObject QWebEnginePage],
     Bind [ValueM QTWEBENGINECORE_QWEBENGINEHTTPREQUEST] ''load'' [PConv QWebEngineHttpRequest] RVoid [OnObject QWebEnginePage],
     Bind [] ''loadAllCookies'' [] RVoid [OnObject ''QWebEngineCookieStore''],
     Bind [TypeM ''QTWEBENGINECORE_QWEBENGINENOTIFICATION''] ''matches'' [PNonNull ''QWebEngineNotification*''] RBool [OnObject QWebEngineNotification],
     Bind [TypeM ''QTWEBENGINECORE_QWEBENGINECONTEXTMENUREQUEST''] ''mediaType'' [] (RMeta ''QWebEngineContextMenuRequest::MediaType'') [OnObject QWebEngineContextMenuRequest],
     Bind [ValueM QTCORE_QURL] ''mediaUrl'' [] (RValue QUrl) [OnObject QWebEngineContextMenuRequest],
     Bind [] ''message'' [] RString [OnObject QWebEngineNotification],
     Bind [] ''mimeType'' [] RString [OnObject QWebEngineDownloadRequest],
     Bind [] ''misspelledWord'' [] RString [OnObject QWebEngineContextMenuRequest],
     Bind [TypeM ''QTWEBENGINECORE_QWEBENGINENAVIGATIONREQUEST''] ''navigationType'' [] (RMeta ''QWebEngineNavigationRequest::NavigationType'') [OnObject ''QWebEngineNavigationRequest''],
     Bind [TypeM QTWEBENGINECORE_QWEBENGINEPAGE] ''openIn'' [PNonNull ''QWebEnginePage*''] RVoid [OnObject ''QWebEngineNewWindowRequest''],
     Bind [ValueM QTCORE_QURL] ''origin'' [] (RValue QUrl) [OnObject QWebEngineNotification],
     Bind [TypeM QTWEBENGINECORE_QWEBENGINEPAGE] ''page'' [] RObject [OnObject QWebEngineDownloadRequest],
     Bind [] ''pause'' [] RVoid [OnObject QWebEngineDownloadRequest],
     Bind [TypeM QTWEBENGINECORE_QWEBENGINEPROFILE] ''persistentCookiesPolicy'' [] (RMeta ''QWebEngineProfile::PersistentCookiesPolicy'') [OnObject QWebEngineProfile],
     Bind [] ''persistentStoragePath'' [] RString [OnObject QWebEngineProfile],
     Bind [ValueM QTCORE_QPOINT] ''position'' [] (RValue QPoint) [OnObject QWebEngineContextMenuRequest],
     Bind [ValueM QTGUI_QPAGELAYOUT, ValueM ''QTGUI_QPAGERANGES''] ''printToPdf'' [PString True, PConv QPageLayout, PConv QPageRanges] RVoid [OnObject QWebEnginePage],
     Bind [TypeM QTWEBENGINECORE_QWEBENGINEPROFILE] ''profile'' [] RObject [OnObject QWebEnginePage],
     Bind [] ''receivedBytes'' [] (RMeta ''qint64'') [OnObject QWebEngineDownloadRequest],
     Bind [] ''recentlyAudible'' [] RBool [OnObject QWebEnginePage],
     Bind [TypeM QTWEBENGINECORE_QWEBENGINEPAGE] ''recommendedState'' [] (RMeta ''QWebEnginePage::LifecycleState'') [OnObject QWebEnginePage],
     Bind [ValueM QTCORE_QURL] ''redirect'' [PConv QUrl] RVoid [OnObject ''QWebEngineUrlRequestJob''],
     Bind [ValueM QTWEBENGINECORE_QWEBENGINEURLSCHEME] ''registerScheme'' [PConv QWebEngineUrlScheme] RVoid [Static QWebEngineUrlScheme],
     Bind [] ''reject'' [] RVoid [OnObject ''QWebEngineNavigationRequest''],
     Bind [] ''removeAllUrlSchemeHandlers'' [] RVoid [OnObject QWebEngineProfile],
     Bind [ValueM QTCORE_QBYTEARRAY] ''removeUrlScheme'' [PConv QByteArray] RVoid [OnObject QWebEngineProfile],
     Bind [TypeM ''QTWEBENGINECORE_QWEBENGINEURLSCHEMEHANDLER''] ''removeUrlSchemeHandler'' [PNonNull ''QWebEngineUrlSchemeHandler*''] RVoid [OnObject QWebEngineProfile],
     Bind [] ''renderProcessPid'' [] (RMeta ''qint64'') [OnObject QWebEnginePage]]"

definition meth_qtwebenginecore_0_1 :: "binding list" where
  "meth_qtwebenginecore_0_1 = [
     Bind [] ''replaceMisspelledWord'' [PString True] RVoid [OnObject QWebEnginePage],
     Bind [TypeM QTCORE_QIODEVICE, ValueM QTCORE_QBYTEARRAY] ''reply'' [PConv QByteArray, PNonNull QIODevice_ptr] RVoid [OnObject ''QWebEngineUrlRequestJob''],
     Bind [ValueM QTCORE_QBYTEARRAY] ''requestMethod'' [] (RValue QByteArray) [OnObject ''QWebEngineUrlRequestJob''],
     Bind [ValueM QTCORE_QURL] ''requestUrl'' [] (RValue QUrl) [OnObject ''QWebEngineUrlRequestJob''],
     Bind [ValueM QTCORE_QRECT] ''requestedGeometry'' [] (RValue QRect) [OnObject ''QWebEngineNewWindowRequest''],
     Bind [ValueM QTCORE_QURL] ''requestedUrl'' [] (RValue QUrl) [OnObject ''QWebEngineNewWindowRequest'', OnObject QWebEnginePage],
     Bind [] ''reset'' [] RVoid [OnObject ''QWebEngineHistoryModel''],
     Bind [] ''resume'' [] RVoid [OnObject QWebEngineDownloadRequest],
     Bind [ValueM QTCORE_QMODELINDEX] ''rowCount'' [PConv QModelIndex] RNumber [OnObject ''QWebEngineHistoryModel''],
     Bind [TypeM ''QTWEBENGINECORE_QWEBENGINEDOWNLOADREQUEST''] ''save'' [PString True, PConv ''QWebEngineDownloadRequest::SavePageFormat''] RVoid [OnObject QWebEnginePage],
     Bind [TypeM ''QTWEBENGINECORE_QWEBENGINEDOWNLOADREQUEST''] ''savePageFormat'' [] (RMeta ''QWebEngineDownloadRequest::SavePageFormat'') [OnObject QWebEngineDownloadRequest],
     Bind [ValueM QTCORE_QBYTEARRAY, ValueM QTWEBENGINECORE_QWEBENGINEURLSCHEME] ''schemeByName'' [PConv QByteArray] (RValue QWebEngineUrlScheme) [Static QWebEngineUrlScheme],
     Bind [ValueM ''QTWEBENGINECORE_QWEBENGINESCRIPTCOLLECTION''] ''scripts'' [] (RValue QWebEngineScriptCollection) [OnObject QWebEnginePage],
     Bind [ValueM QTCORE_QPOINTF] ''scrollPosition'' [] (RValue QPointF) [OnObject QWebEnginePage],
     Bind [] ''selectedText'' [] RString [OnObject QWebEngineContextMenuRequest, OnObject QWebEnginePage],
     Bind [] ''setAccepted'' [PBool] RVoid [OnObject QWebEngineContextMenuRequest],
     Bind [] ''setAudioMuted'' [PBool] RVoid [OnObject QWebEnginePage],
     Bind [ValueM QTGUI_QCOLOR] ''setBackgroundColor'' [PConv QColor] RVoid [OnObject QWebEnginePage],
     Bind [] ''setCachePath'' [PString True] RVoid [OnObject QWebEngineProfile],
     Bind [ValueM QTCORE_QBYTEARRAY, ValueM QTCORE_QURL] ''setContent'' [PConv QByteArray, PString True, PConv QUrl] RVoid [OnObject QWebEnginePage],
     Bind [ValueM QTCORE_QURL, ValueM QTNETWORK_QNETWORKCOOKIE] ''setCookie'' [PConv QNetworkCookie, PConv QUrl] RVoid [OnObject ''QWebEngineCookieStore''],
     Bind [TypeM QTWEBENGINECORE_QWEBENGINEPAGE] ''setDevToolsPage'' [PNonNull ''QWebEnginePage*''] RVoid [OnObject QWebEnginePage],
     Bind [] ''setDownloadDirectory'' [PString True] RVoid [OnObject QWebEngineDownloadRequest],
     Bind [] ''setDownloadFileName'' [PString True] RVoid [OnObject QWebEngineDownloadRequest],
     Bind [] ''setDownloadPath'' [PString True] RVoid [OnObject QWebEngineProfile],
     Bind [TypeM QTWEBENGINECORE_QWEBENGINEPAGE, ValueM QTCORE_QURL] ''setFeaturePermission'' [PConv QUrl, PConv ''QWebEnginePage::Feature'', PConv ''QWebEnginePage::PermissionPolicy''] RVoid [OnObject QWebEnginePage],
     Bind [ValueM QTCORE_QURL] ''setHtml'' [PString True, PConv QUrl] RVoid [OnObject QWebEnginePage],
     Bind [] ''setHttpAcceptLanguage'' [PString True] RVoid [OnObject QWebEngineProfile],
     Bind [] ''setHttpCacheMaximumSize'' [PInt] RVoid [OnObject QWebEngineProfile],
     Bind [TypeM QTWEBENGINECORE_QWEBENGINEPROFILE] ''setHttpCacheType'' [PConv ''QWebEngineProfile::HttpCacheType''] RVoid [OnObject QWebEngineProfile],
     Bind [] ''setHttpUserAgent'' [PString True] RVoid [OnObject QWebEngineProfile],
     Bind [TypeM QTWEBENGINECORE_QWEBENGINEPAGE] ''setInspectedPage'' [PNonNull ''QWebEnginePage*''] RVoid [OnObject QWebEnginePage],
     Bind [TypeM QTWEBENGINECORE_QWEBENGINEPAGE] ''setLifecycleState'' [PConv ''QWebEnginePage::LifecycleState''] RVoid [OnObject QWebEnginePage],
     Bind [TypeM QTWEBENGINECORE_QWEBENGINEPROFILE] ''setPersistentCookiesPolicy'' [PConv ''QWebEngineProfile::PersistentCookiesPolicy''] RVoid [OnObject QWebEngineProfile],
     Bind [] ''setPersistentStoragePath'' [PString True] RVoid [OnObject QWebEngineProfile],
     Bind [TypeM ''QTWEBENGINECORE_QWEBENGINEDOWNLOADREQUEST''] ''setSavePageFormat'' [PConv ''QWebEngineDownloadRequest::SavePageFormat''] RVoid [OnObject QWebEngineDownloadRequest],
     Bind [] ''setSpellCheckEnabled'' [PBool] RVoid [OnObject QWebEngineProfile],
     Bind [] ''setSpellCheckLanguages'' [PStringList] RVoid [OnObject QWebEngineProfile],
     Bind [ValueM QTCORE_QURL] ''setUrl'' [PConv QUrl] RVoid [OnObject QWebEnginePage],
     Bind [TypeM ''QTWEBENGINECORE_QWEBENGINEURLREQUESTINTERCEPTOR''] ''setUrlRequestInterceptor'' [PNonNull ''QWebEngineUrlRequestInterceptor*''] RVoid [OnObject QWebEnginePage, OnObject QWebEngineProfile],
     Bind [] ''setVisible'' [PBool] RVoid [OnObject QWebEnginePage],
     Bind [] ''setZoomFactor'' [PReal ''qreal''] RVoid [OnObject QWebEnginePage],
     Bind [] ''show'' [] RVoid [OnObject QWebEngineNotification],
     Bind [] ''spellCheckLanguages'' [] (RList (IMeta QString)) [OnObject QWebEngineProfile],
     Bind [] ''spellCheckerSuggestions'' [] (RList (IMeta QString)) [OnObject QWebEngineContextMenuRequest],
     Bind [TypeM ''QTWEBENGINECORE_QWEBENGINEDOWNLOADREQUEST''] ''state'' [] (RMeta ''QWebEngineDownloadRequest::DownloadState'') [OnObject QWebEngineDownloadRequest],
     Bind [] ''storageName'' [] RString [OnObject QWebEngineProfile],
     Bind [] ''suggestedFileName'' [] RString [OnObject QWebEngineDownloadRequest],
     Bind [] ''tag'' [] RString [OnObject QWebEngineNotification],
     Bind [] ''title'' [] RString [OnObject QWebEngineNotification, OnObject QWebEnginePage],
     Bind [] ''totalBytes'' [] (RMeta ''qint64'') [OnObject QWebEngineDownloadRequest],
     Bind [TypeM QTWEBENGINECORE_QWEBENGINEPAGE] ''triggerAction'' [PConv ''QWebEnginePage::WebAction'', PBool] RVoid [OnObject QWebEnginePage],
     Bind [ValueM QTCORE_QURL] ''url'' [] (RValue QUrl) [OnObject QWebEngineDownloadRequest, OnObject ''QWebEngineNavigationRequest'', OnObject QWebEnginePage],
     Bind [TypeM ''QTWEBENGINECORE_QWEBENGINEURLSCHEMEHANDLER'', ValueM QTCORE_QBYTEARRAY] ''urlSchemeHandler'' [PConv QByteArray] RObject [OnObject QWebEngineProfile],
     Bind [ValueM QTCORE_QURL] ''visitedLinksContainsUrl'' [PConv QUrl] RBool [OnObject QWebEngineProfile],
     Bind [TypeM ''QTWEBCHANNEL_QWEBCHANNEL''] ''webChannel'' [] RObject [OnObject QWebEnginePage],
     Bind [] ''zoomFactor'' [] RNumber [OnObject QWebEnginePage]]"

definition meth_qtwebenginequick_0_0 :: "binding list" where
  "meth_qtwebenginequick_0_0 = [
     Bind [] ''cachePath'' [] RString [OnObject QQuickWebEngineProfile],
     Bind [] ''clearHttpCache'' [] RVoid [OnObject QQuickWebEngineProfile],
     Bind [TypeM ''QTWEBENGINECORE_QWEBENGINECOOKIESTORE''] ''cookieStore'' [] RObject [OnObject QQuickWebEngineProfile],
     Bind [TypeM ''QTWEBENGINEQUICK_QQUICKWEBENGINEPROFILE''] ''defaultProfile'' [] RObject [Static QQuickWebEngineProfile],
     Bind [] ''downloadPath'' [] RString [OnObject QQuickWebEngineProfile],
     Bind [] ''httpAcceptLanguage'' [] RString [OnObject QQuickWebEngineProfile],
     Bind [] ''httpCacheMaximumSize'' [] RNumber [OnObject QQuickWebEngineProfile],
     Bind [TypeM ''QTWEBENGINEQUICK_QQUICKWEBENGINEPROFILE''] ''httpCacheType'' [] (RMeta ''QQuickWebEngineProfile::HttpCacheType'') [OnObject QQuickWebEngineProfile],
     Bind [] ''httpUserAgent'' [] RString [OnObject QQuickWebEngineProfile],
     Bind [TypeM ''QTWEBENGINECORE_QWEBENGINEURLSCHEMEHANDLER'', ValueM QTCORE_QBYTEARRAY] ''installUrlSchemeHandler'' [PConv QByteArray, PNonNull ''QWebEngineUrlSchemeHandler*''] RVoid [OnObject QQuickWebEngineProfile],
     Bind [] ''isOffTheRecord'' [] RBool [OnObject QQuickWebEngineProfile],
     Bind [] ''isSpellCheckEnabled'' [] RBool [OnObject QQuickWebEngineProfile],
     Bind [TypeM ''QTWEBENGINEQUICK_QQUICKWEBENGINEPROFILE''] ''persistentCookiesPolicy'' [] (RMeta ''QQuickWebEngineProfile::PersistentCookiesPolicy'') [OnObject QQuickWebEngineProfile],
     Bind [] ''persistentStoragePath'' [] RString [OnObject QQuickWebEngineProfile],
     Bind [] ''removeAllUrlSchemeHandlers'' [] RVoid [OnObject QQuickWebEngineProfile],
     Bind [ValueM QTCORE_QBYTEARRAY] ''removeUrlScheme'' [PConv QByteArray] RVoid [OnObject QQuickWebEngineProfile],
     Bind [TypeM ''QTWEBENGINECORE_QWEBENGINEURLSCHEMEHANDLER''] ''removeUrlSchemeHandler'' [PNonNull ''QWebEngineUrlSchemeHandler*''] RVoid [OnObject QQuickWebEngineProfile],
     Bind [] ''setCachePath'' [PString True] RVoid [OnObject QQuickWebEngineProfile],
     Bind [] ''setDownloadPath'' [PString True] RVoid [OnObject QQuickWebEngineProfile],
     Bind [] ''setHttpAcceptLanguage'' [PString True] RVoid [OnObject QQuickWebEngineProfile],
     Bind [] ''setHttpCacheMaximumSize'' [PInt] RVoid [OnObject QQuickWebEngineProfile],
     Bind [TypeM ''QTWEBENGINEQUICK_QQUICKWEBENGINEPROFILE''] ''setHttpCacheType'' [PConv ''QQuickWebEngineProfile::HttpCacheType''] RVoid [OnObject QQuickWebEngineProfile],
     Bind [] ''setHttpUserAgent'' [PString True] RVoid [OnObject QQuickWebEngineProfile],
     Bind [] ''setOffTheRecord'' [PBool] RVoid [OnObject QQuickWebEngineProfile],
     Bind [TypeM ''QTWEBENGINEQUICK_QQUICKWEBENGINEPROFILE''] ''setPersistentCookiesPolicy'' [PConv ''QQuickWebEngineProfile::PersistentCookiesPolicy''] RVoid [OnObject QQuickWebEngineProfile],
     Bind [] ''setPersistentStoragePath'' [PString True] RVoid [OnObject QQuickWebEngineProfile],
     Bind [] ''setSpellCheckEnabled'' [PBool] RVoid [OnObject QQuickWebEngineProfile],
     Bind [] ''setSpellCheckLanguages'' [PStringList] RVoid [OnObject QQuickWebEngineProfile],
     Bind [] ''setStorageName'' [PString True] RVoid [OnObject QQuickWebEngineProfile],
     Bind [TypeM ''QTWEBENGINECORE_QWEBENGINEURLREQUESTINTERCEPTOR''] ''setUrlRequestInterceptor'' [PNonNull ''QWebEngineUrlRequestInterceptor*''] RVoid [OnObject QQuickWebEngineProfile],
     Bind [] ''spellCheckLanguages'' [] (RList (IMeta QString)) [OnObject QQuickWebEngineProfile],
     Bind [] ''storageName'' [] RString [OnObject QQuickWebEngineProfile],
     Bind [TypeM ''QTWEBENGINECORE_QWEBENGINEURLSCHEMEHANDLER'', ValueM QTCORE_QBYTEARRAY] ''urlSchemeHandler'' [PConv QByteArray] RObject [OnObject QQuickWebEngineProfile]]"

definition meth_qtwebenginewidgets_0_0 :: "binding list" where
  "meth_qtwebenginewidgets_0_0 = [
     Bind [] ''back'' [] RVoid [OnObject QWebEngineView],
     Bind [TypeM ''QTWIDGETS_QMENU''] ''createStandardContextMenu'' [] RObject [OnObject QWebEngineView],
     Bind [TypeM QTWEBENGINECORE_QWEBENGINEPAGE, TypeM ''QTWEBENGINEWIDGETS_QWEBENGINEVIEW''] ''forPage'' [PNonNull ''QWebEnginePage*''] RObject [Static QWebEngineView],
     Bind [] ''forward'' [] RVoid [OnObject QWebEngineView],
     Bind [] ''hasSelection'' [] RBool [OnObject QWebEngineView],
     Bind [TypeM ''QTWEBENGINECORE_QWEBENGINEHISTORY''] ''history'' [] RObject [OnObject QWebEngineView],
     Bind [ValueM QTGUI_QICON] ''icon'' [] (RValue QIcon) [OnObject QWebEngineView],
     Bind [ValueM QTCORE_QURL] ''iconUrl'' [] (RValue QUrl) [OnObject QWebEngineView],
     Bind [TypeM ''QTWEBENGINECORE_QWEBENGINECONTEXTMENUREQUEST''] ''lastContextMenuRequest'' [] RObject [OnObject QWebEngineView],
     Bind [ValueM QTCORE_QURL] ''load'' [PConv QUrl] RVoid [OnObject QWebEngineView],
     Bind [ValueM QTWEBENGINECORE_QWEBENGINEHTTPREQUEST] ''load'' [PConv QWebEngineHttpRequest] RVoid [OnObject QWebEngineView],
     Bind [TypeM QTWEBENGINECORE_QWEBENGINEPAGE] ''page'' [] RObject [OnObject QWebEngineView],
     Bind [ValueM QTGUI_QPAGELAYOUT, ValueM ''QTGUI_QPAGERANGES''] ''printToPdf'' [PString True, PConv QPageLayout, PConv QPageRanges] RVoid [OnObject QWebEngineView],
     Bind [] ''reload'' [] RVoid [OnObject QWebEngineView],
     Bind [] ''selectedText'' [] RString [OnObject QWebEngineView],
     Bind [ValueM QTCORE_QBYTEARRAY, ValueM QTCORE_QURL] ''setContent'' [PConv QByteArray, PString True, PConv QUrl] RVoid [OnObject QWebEngineView],
     Bind [ValueM QTCORE_QURL] ''setHtml'' [PString True, PConv QUrl] RVoid [OnObject QWebEngineView],
     Bind [TypeM QTWEBENGINECORE_QWEBENGINEPAGE] ''setPage'' [PNonNull ''QWebEnginePage*''] RVoid [OnObject QWebEngineView],
     Bind [ValueM QTCORE_QURL] ''setUrl'' [PConv QUrl] RVoid [OnObject QWebEngineView],
     Bind [] ''setZoomFactor'' [PReal ''qreal''] RVoid [OnObject QWebEngineView],
     Bind [ValueM QTCORE_QSIZE] ''sizeHint'' [] (RValue QSize) [OnObject QWebEngineView],
     Bind [] ''stop'' [] RVoid [OnObject QWebEngineView],
     Bind [] ''title'' [] RString [OnObject QWebEngineView],
     Bind [TypeM QTWEBENGINECORE_QWEBENGINEPAGE] ''triggerPageAction'' [PConv ''QWebEnginePage::WebAction'', PBool] RVoid [OnObject QWebEngineView],
     Bind [ValueM QTCORE_QURL] ''url'' [] (RValue QUrl) [OnObject QWebEngineView],
     Bind [] ''zoomFactor'' [] RNumber [OnObject QWebEngineView]]"

definition meth_table_devices_a :: "(string \<times> shard) list" where
  "meth_table_devices_a = [
     (''qtbluetooth_0'', \<lparr>sh_module = ''QtBluetooth'', sh_slug = ''QTBLUETOOTH'',
        sh_bindings = concat [meth_qtbluetooth_0_0]\<rparr>),
     (''qtnfc_0'', \<lparr>sh_module = ''QtNfc'', sh_slug = ''QTNFC'',
        sh_bindings = concat [meth_qtnfc_0_0]\<rparr>),
     (''qtopengl_0'', \<lparr>sh_module = ''QtOpenGL'', sh_slug = ''QTOPENGL'',
        sh_bindings = concat [meth_qtopengl_0_0, meth_qtopengl_0_1]\<rparr>),
     (''qtopenglwidgets_0'', \<lparr>sh_module = ''QtOpenGLWidgets'', sh_slug = ''QTOPENGLWIDGETS'',
        sh_bindings = concat [meth_qtopenglwidgets_0_0]\<rparr>),
     (''qtquick3d_0'', \<lparr>sh_module = ''QtQuick3D'', sh_slug = ''QTQUICK3D'',
        sh_bindings = concat [meth_qtquick3d_0_0]\<rparr>),
     (''qtsensors_0'', \<lparr>sh_module = ''QtSensors'', sh_slug = ''QTSENSORS'',
        sh_bindings = concat [meth_qtsensors_0_0]\<rparr>),
     (''qtsensors_1'', \<lparr>sh_module = ''QtSensors'', sh_slug = ''QTSENSORS'',
        sh_bindings = concat [meth_qtsensors_1_0]\<rparr>),
     (''qtspatialaudio_0'', \<lparr>sh_module = ''QtSpatialAudio'', sh_slug = ''QTSPATIALAUDIO'',
        sh_bindings = concat [meth_qtspatialaudio_0_0]\<rparr>),
     (''qtwebenginecore_0'', \<lparr>sh_module = ''QtWebEngineCore'', sh_slug = ''QTWEBENGINECORE'',
        sh_bindings = concat [meth_qtwebenginecore_0_0, meth_qtwebenginecore_0_1]\<rparr>),
     (''qtwebenginequick_0'', \<lparr>sh_module = ''QtWebEngineQuick'', sh_slug = ''QTWEBENGINEQUICK'',
        sh_bindings = concat [meth_qtwebenginequick_0_0]\<rparr>),
     (''qtwebenginewidgets_0'', \<lparr>sh_module = ''QtWebEngineWidgets'', sh_slug = ''QTWEBENGINEWIDGETS'',
        sh_bindings = concat [meth_qtwebenginewidgets_0_0]\<rparr>)]"

lemmas meth_table_devices_a_defs =
  meth_qtbluetooth_0_0_def meth_qtnfc_0_0_def meth_qtopengl_0_0_def meth_qtopengl_0_1_def
  meth_qtopenglwidgets_0_0_def meth_qtquick3d_0_0_def meth_qtsensors_0_0_def meth_qtsensors_1_0_def
  meth_qtspatialaudio_0_0_def meth_qtwebenginecore_0_0_def meth_qtwebenginecore_0_1_def
  meth_qtwebenginequick_0_0_def meth_qtwebenginewidgets_0_0_def

lemma meth_table_devices_a_object_blocks: "list_all (\<lambda>(s, sh). object_blocks sh) meth_table_devices_a"
  by (simp add: meth_table_devices_a_def meth_table_devices_a_defs object_blocks_def object_shard_def; (simp add: parameter_text_def qt_name_defs)?)

end
