(* ===== verification/Methods_Charts_A.thy ===== *)
theory Methods_Charts_A
  imports Shard_Methods Qt_Names
begin

text \<open>
  Tables of the method shards (generated\_methods): the blocks of every shard in the file's order.
\<close>

definition meth_qtcharts_0_0 :: "binding list" where
  "meth_qtcharts_0_0 = [
     Bind [TypeM ''QTCHARTS_QABSTRACTSERIES''] ''addSeries'' [PNonNull ''QAbstractSeries*''] RVoid [OnObject QChart],
     Bind [] ''animationDuration'' [] RNumber [OnObject QChart],
     Bind [ValueM QTCORE_QEASINGCURVE] ''animationEasingCurve'' [] (RValue QEasingCurve) [OnObject QChart],
     Bind [TypeM ''QTCHARTS_QBARSET''] ''append'' [PNonNull ''QBarSet*''] RBool [OnObject QAbstractBarSeries],
     Bind [TypeM ''QTCHARTS_QBOXSET''] ''append'' [PNonNull ''QBoxSet*''] RBool [OnObject QBoxPlotSeries],
     Bind [TypeM ''QTCHARTS_QCANDLESTICKSET''] ''append'' [PNonNull ''QCandlestickSet*''] RBool [OnObject QCandlestickSeries],
     Bind [TypeM ''QTCHARTS_QBARSET''] ''append'' [PList ''QBarSet*''] RBool [OnObject QAbstractBarSeries],
     Bind [TypeM ''QTCHARTS_QBOXSET''] ''append'' [PList ''QBoxSet*''] RBool [OnObject QBoxPlotSeries],
     Bind [TypeM ''QTCHARTS_QCANDLESTICKSET''] ''append'' [PList ''QCandlestickSet*''] RBool [OnObject QCandlestickSeries],
     Bind [] ''append'' [PList ''qreal''] RVoid [OnObject QBarSet, OnObject ''QBoxSet''],
     Bind [] ''append'' [PString True] RVoid [OnObject QBarCategoryAxis],
     Bind [] ''append'' [PString True, PReal ''qreal''] RVoid [OnObject ''QCategoryAxis''],
     Bind [] ''append'' [PStringList] RVoid [OnObject QBarCategoryAxis],
     Bind [] ''append'' [PReal ''qreal''] RVoid [OnObject QBarSet, OnObject ''QBoxSet''],
     Bind [] ''at'' [PInt] RString [OnObject QBarCategoryAxis],
     Bind [] ''at'' [PInt] RNumber [OnObject QBarSet, OnObject ''QBoxSet''],
     Bind [TypeM ''QTCHARTS_QABSTRACTAXIS''] ''attachAxis'' [PNonNull ''QAbstractAxis*''] RBool [OnObject QAbstractSeries],
     Bind [TypeM ''QTCHARTS_QABSTRACTAXIS''] ''attachedAxes'' [] (RList IObject) [OnObject QAbstractSeries],
     Bind [EnumM ''QT_ORIENTATIONS'', TypeM ''QTCHARTS_QABSTRACTAXIS'', TypeM ''QTCHARTS_QABSTRACTSERIES''] ''axes'' [PConv ''Qt::Orientations'', PNonNull ''QAbstractSeries*''] (RList IObject) [OnObject QChart],
     Bind [ValueM QTGUI_QBRUSH] ''backgroundBrush'' [] (RValue QBrush) [OnObject QChart],
     Bind [ValueM QTGUI_QPEN] ''backgroundPen'' [] (RValue QPen) [OnObject QChart],
     Bind [] ''backgroundRoundness'' [] RNumber [OnObject QChart],
     Bind [TypeM ''QTCHARTS_QBARSET''] ''barSets'' [] (RList IObject) [OnObject QAbstractBarSeries],
     Bind [] ''barWidth'' [] RNumber [OnObject QAbstractBarSeries],
     Bind [TypeM ''QTCHARTS_QBARSET''] ''barset'' [] RObject [OnObject ''QBarLegendMarker''],
     Bind [] ''bodyOutlineVisible'' [] RBool [OnObject QCandlestickSeries],
     Bind [] ''bodyWidth'' [] RNumber [OnObject QCandlestickSeries],
     Bind [ValueM QTGUI_QCOLOR] ''borderColor'' [] (RValue QColor) [OnObject QAreaSeries, OnObject QBarSet],
     Bind [] ''boxOutlineVisible'' [] RBool [OnObject QBoxPlotSeries],
     Bind [TypeM ''QTCHARTS_QBOXSET''] ''boxSets'' [] (RList IObject) [OnObject QBoxPlotSeries],
     Bind [] ''boxWidth'' [] RNumber [OnObject QBoxPlotSeries],
     Bind [ValueM QTGUI_QBRUSH] ''brush'' [] (RValue QBrush) [OnObject QAreaSeries, OnObject QBarSet, OnObject QBoxPlotSeries, OnObject ''QBoxSet'', OnObject QCandlestickSeries, OnObject QCandlestickSet],
     Bind [] ''capsVisible'' [] RBool [OnObject QCandlestickSeries],
     Bind [] ''capsWidth'' [] RNumber [OnObject QCandlestickSeries],
     Bind [] ''categories'' [] (RList (IMeta QString)) [OnObject QBarCategoryAxis],
     Bind [] ''categoriesLabels'' [] (RList (IMeta QString)) [OnObject ''QCategoryAxis''],
     Bind [TypeM ''QTCHARTS_QCHART''] ''chart'' [] RObject [OnObject QAbstractSeries, OnObject ''QChartView''],
     Bind [TypeM ''QTCHARTS_QCHART''] ''chartType'' [] (RMeta ''QChart::ChartType'') [OnObject QChart],
     Bind [] ''clear'' [] RVoid [OnObject QAbstractBarSeries, OnObject QBarCategoryAxis, OnObject QBoxPlotSeries, OnObject ''QBoxSet'', OnObject QCandlestickSeries],
     Bind [] ''close'' [] RNumber [OnObject QCandlestickSet],
     Bind [] ''closeColumn'' [] RNumber [OnObject QHCandlestickModelMapper],
     Bind [ValueM QTGUI_QCOLOR] ''color'' [] (RValue QColor) [OnObject QAreaSeries, OnObject QBarSet],
     Bind [] ''columnCount'' [] RNumber [OnObject ''QHBarModelMapper'', OnObject QHBoxPlotModelMapper, OnObject ''QHPieModelMapper''],
     Bind [] ''count'' [] RNumber [OnObject QAbstractBarSeries, OnObject QBarCategoryAxis, OnObject QBarSet, OnObject QBoxPlotSeries, OnObject ''QBoxSet'', OnObject QCandlestickSeries, OnObject ''QCategoryAxis''],
     Bind [] ''createDefaultAxes'' [] RVoid [OnObject QChart],
     Bind [ValueM QTGUI_QCOLOR] ''decreasingColor'' [] (RValue QColor) [OnObject QCandlestickSeries],
     Bind [TypeM ''QTCHARTS_QABSTRACTAXIS''] ''detachAxis'' [PNonNull ''QAbstractAxis*''] RBool [OnObject QAbstractSeries],
     Bind [] ''endValue'' [PString True] RNumber [OnObject ''QCategoryAxis''],
     Bind [] ''firstBarSetRow'' [] RNumber [OnObject ''QHBarModelMapper''],
     Bind [] ''firstBoxSetRow'' [] RNumber [OnObject QHBoxPlotModelMapper],
     Bind [] ''firstColumn'' [] RNumber [OnObject ''QHBarModelMapper'', OnObject QHBoxPlotModelMapper, OnObject ''QHPieModelMapper''],
     Bind [] ''firstSetRow'' [] RNumber [OnObject QHCandlestickModelMapper],
     Bind [] ''format'' [] RString [OnObject QDateTimeAxis],
     Bind [ValueM QTGUI_QCOLOR] ''gridLineColor'' [] (RValue QColor) [OnObject QAbstractAxis],
     Bind [ValueM QTGUI_QPEN] ''gridLinePen'' [] (RValue QPen) [OnObject QAbstractAxis],
     Bind [] ''hide'' [] RVoid [OnObject QAbstractAxis, OnObject QAbstractSeries],
     Bind [] ''high'' [] RNumber [OnObject QCandlestickSet],
     Bind [] ''highColumn'' [] RNumber [OnObject QHCandlestickModelMapper],
     Bind [ValueM QTGUI_QCOLOR] ''increasingColor'' [] (RValue QColor) [OnObject QCandlestickSeries],
     Bind [TypeM ''QTCHARTS_QBARSET''] ''insert'' [PInt, PNonNull ''QBarSet*''] RBool [OnObject QAbstractBarSeries],
     Bind [TypeM ''QTCHARTS_QBOXSET''] ''insert'' [PInt, PNonNull ''QBoxSet*''] RBool [OnObject QBoxPlotSeries],
     Bind [TypeM ''QTCHARTS_QCANDLESTICKSET''] ''insert'' [PInt, PNonNull ''QCandlestickSet*''] RBool [OnObject QCandlestickSeries],
     Bind [] ''insert'' [PInt, PString True] RVoid [OnObject QBarCategoryAxis],
     Bind [] ''insert'' [PInt, PReal ''qreal''] RVoid [OnObject QBarSet],
     Bind [] ''isBackgroundVisible'' [] RBool [OnObject QChart],
     Bind [] ''isDropShadowEnabled'' [] RBool [OnObject QChart],
     Bind [] ''isGridLineVisible'' [] RBool [OnObject QAbstractAxis],
     Bind [] ''isLabelsVisible'' [] RBool [OnObject QAbstractBarSeries],
     Bind [] ''isLineVisible'' [] RBool [OnObject QAbstractAxis],
     Bind [] ''isMinorGridLineVisible'' [] RBool [OnObject QAbstractAxis],
     Bind [] ''isPlotAreaBackgroundVisible'' [] RBool [OnObject QChart],
     Bind [] ''isReverse'' [] RBool [OnObject QAbstractAxis],
     Bind [] ''isTitleVisible'' [] RBool [OnObject QAbstractAxis],
     Bind [] ''isVisible'' [] RBool [OnObject QAbstractAxis, OnObject QAbstractSeries],
     Bind [] ''isZoomed'' [] RBool [OnObject QChart],
     Bind [] ''label'' [] RString [OnObject QBarSet, OnObject ''QBoxSet''],
     Bind [ValueM QTGUI_QBRUSH] ''labelBrush'' [] (RValue QBrush) [OnObject QBarSet],
     Bind [ValueM QTGUI_QCOLOR] ''labelColor'' [] (RValue QColor) [OnObject QBarSet],
     Bind [ValueM QTGUI_QFONT] ''labelFont'' [] (RValue QFont) [OnObject QBarSet],
     Bind [] ''labelsAngle'' [] RNumber [OnObject QAbstractAxis],
     Bind [] ''labelsAngle'' [] RNumber [OnObject QAbstractBarSeries],
     Bind [ValueM QTGUI_QBRUSH] ''labelsBrush'' [] (RValue QBrush) [OnObject QAbstractAxis],
     Bind [ValueM QTGUI_QCOLOR] ''labelsColor'' [] (RValue QColor) [OnObject QAbstractAxis],
     Bind [] ''labelsEditable'' [] RBool [OnObject QAbstractAxis],
     Bind [ValueM QTGUI_QFONT] ''labelsFont'' [] (RValue QFont) [OnObject QAbstractAxis],
     Bind [] ''labelsFormat'' [] RString [OnObject QAbstractBarSeries],
     Bind [TypeM ''QTCHARTS_QABSTRACTBARSERIES''] ''labelsPosition'' [] (RMeta ''QAbstractBarSeries::LabelsPosition'') [OnObject QAbstractBarSeries],
     Bind [TypeM ''QTCHARTS_QCATEGORYAXIS''] ''labelsPosition'' [] (RMeta ''QCategoryAxis::AxisLabelsPosition'') [OnObject ''QCategoryAxis''],
     Bind [] ''labelsPrecision'' [] RNumber [OnObject QAbstractBarSeries],
     Bind [] ''labelsRow'' [] RNumber [OnObject ''QHPieModelMapper''],
     Bind [] ''labelsVisible'' [] RBool [OnObject QAbstractAxis]]"

definition meth_qtcharts_0_1 :: "binding list" where
  "meth_qtcharts_0_1 = [
     Bind [] ''lastBarSetRow'' [] RNumber [OnObject ''QHBarModelMapper''],
     Bind [] ''lastBoxSetRow'' [] RNumber [OnObject QHBoxPlotModelMapper],
     Bind [] ''lastSetRow'' [] RNumber [OnObject QHCandlestickModelMapper],
     Bind [TypeM QTCHARTS_QLEGEND] ''legend'' [] RObject [OnObject QChart],
     Bind [ValueM QTGUI_QPEN] ''linePen'' [] (RValue QPen) [OnObject QAbstractAxis],
     Bind [ValueM QTGUI_QCOLOR] ''linePenColor'' [] (RValue QColor) [OnObject QAbstractAxis],
     Bind [ValueM QTCORE_QLOCALE] ''locale'' [] (RValue QLocale) [OnObject QChart],
     Bind [] ''localizeNumbers'' [] RBool [OnObject QChart],
     Bind [] ''low'' [] RNumber [OnObject QCandlestickSet],
     Bind [] ''lowColumn'' [] RNumber [OnObject QHCandlestickModelMapper],
     Bind [TypeM ''QTCHARTS_QLINESERIES''] ''lowerSeries'' [] RObject [OnObject QAreaSeries],
     Bind [TypeM ''QTCHARTS_QABSTRACTSERIES'', ValueM QTCORE_QPOINTF] ''mapToPosition'' [PConv QPointF, PNonNull ''QAbstractSeries*''] (RValue QPointF) [OnObject QChart],
     Bind [TypeM ''QTCHARTS_QABSTRACTSERIES'', ValueM QTCORE_QPOINTF] ''mapToValue'' [PConv QPointF, PNonNull ''QAbstractSeries*''] (RValue QPointF) [OnObject QChart],
     Bind [ValueM QTCORE_QMARGINS] ''margins'' [] (RValue QMargins) [OnObject QChart],
     Bind [ValueM QTCORE_QDATETIME] ''max'' [] (RValue QDateTime) [OnObject QDateTimeAxis],
     Bind [] ''max'' [] RString [OnObject QBarCategoryAxis],
     Bind [] ''maximumColumnWidth'' [] RNumber [OnObject QCandlestickSeries],
     Bind [ValueM QTCORE_QDATETIME] ''min'' [] (RValue QDateTime) [OnObject QDateTimeAxis],
     Bind [] ''min'' [] RString [OnObject QBarCategoryAxis],
     Bind [] ''minimumColumnWidth'' [] RNumber [OnObject QCandlestickSeries],
     Bind [ValueM QTGUI_QCOLOR] ''minorGridLineColor'' [] (RValue QColor) [OnObject QAbstractAxis],
     Bind [ValueM QTGUI_QPEN] ''minorGridLinePen'' [] (RValue QPen) [OnObject QAbstractAxis],
     Bind [TypeM QTCORE_QABSTRACTITEMMODEL] ''model'' [] RObject [OnObject ''QCandlestickModelMapper'', OnObject ''QHBarModelMapper'', OnObject QHBoxPlotModelMapper, OnObject ''QHPieModelMapper''],
     Bind [] ''name'' [] RString [OnObject QAbstractSeries],
     Bind [] ''opacity'' [] RNumber [OnObject QAbstractSeries],
     Bind [] ''open'' [] RNumber [OnObject QCandlestickSet],
     Bind [] ''openColumn'' [] RNumber [OnObject QHCandlestickModelMapper],
     Bind [EnumM QT_ORIENTATION] ''orientation'' [] (RMeta Qt_Orientation) [OnObject QAbstractAxis, OnObject QHCandlestickModelMapper],
     Bind [ValueM QTGUI_QPEN] ''pen'' [] (RValue QPen) [OnObject QAreaSeries, OnObject QBarSet, OnObject QBoxPlotSeries, OnObject ''QBoxSet'', OnObject QCandlestickSeries, OnObject QCandlestickSet],
     Bind [ValueM QTCORE_QRECTF] ''plotArea'' [] (RValue QRectF) [OnObject QChart],
     Bind [ValueM QTGUI_QBRUSH] ''plotAreaBackgroundBrush'' [] (RValue QBrush) [OnObject QChart],
     Bind [ValueM QTGUI_QPEN] ''plotAreaBackgroundPen'' [] (RValue QPen) [OnObject QChart],
     Bind [] ''pointLabelsClipping'' [] RBool [OnObject QAreaSeries],
     Bind [ValueM QTGUI_QCOLOR] ''pointLabelsColor'' [] (RValue QColor) [OnObject QAreaSeries],
     Bind [ValueM QTGUI_QFONT] ''pointLabelsFont'' [] (RValue QFont) [OnObject QAreaSeries],
     Bind [] ''pointLabelsFormat'' [] RString [OnObject QAreaSeries],
     Bind [] ''pointLabelsVisible'' [] RBool [OnObject QAreaSeries],
     Bind [] ''pointsVisible'' [] RBool [OnObject QAreaSeries],
     Bind [TypeM ''QTCHARTS_QBARSET''] ''remove'' [PNonNull ''QBarSet*''] RBool [OnObject QAbstractBarSeries],
     Bind [TypeM ''QTCHARTS_QBOXSET''] ''remove'' [PNonNull ''QBoxSet*''] RBool [OnObject QBoxPlotSeries],
     Bind [TypeM ''QTCHARTS_QCANDLESTICKSET''] ''remove'' [PNonNull ''QCandlestickSet*''] RBool [OnObject QCandlestickSeries],
     Bind [TypeM ''QTCHARTS_QCANDLESTICKSET''] ''remove'' [PList ''QCandlestickSet*''] RBool [OnObject QCandlestickSeries],
     Bind [] ''remove'' [PString True] RVoid [OnObject QBarCategoryAxis, OnObject ''QCategoryAxis''],
     Bind [] ''remove'' [PInt, PInt] RVoid [OnObject QBarSet],
     Bind [] ''removeAllSeries'' [] RVoid [OnObject QChart],
     Bind [TypeM ''QTCHARTS_QABSTRACTAXIS''] ''removeAxis'' [PNonNull ''QAbstractAxis*''] RVoid [OnObject QChart],
     Bind [TypeM ''QTCHARTS_QABSTRACTSERIES''] ''removeSeries'' [PNonNull ''QAbstractSeries*''] RVoid [OnObject QChart],
     Bind [] ''replace'' [PString True, PString True] RVoid [OnObject QBarCategoryAxis],
     Bind [] ''replace'' [PInt, PReal ''qreal''] RVoid [OnObject QBarSet],
     Bind [] ''replaceLabel'' [PString True, PString True] RVoid [OnObject ''QCategoryAxis''],
     Bind [] ''scroll'' [PReal ''qreal'', PReal ''qreal''] RVoid [OnObject QChart],
     Bind [TypeM ''QTCHARTS_QABSTRACTBARSERIES''] ''series'' [] RObject [OnObject ''QBarLegendMarker'', OnObject ''QHBarModelMapper''],
     Bind [TypeM ''QTCHARTS_QAREASERIES''] ''series'' [] RObject [OnObject ''QAreaLegendMarker''],
     Bind [TypeM ''QTCHARTS_QBOXPLOTSERIES''] ''series'' [] RObject [OnObject ''QBoxPlotLegendMarker'', OnObject QHBoxPlotModelMapper],
     Bind [TypeM ''QTCHARTS_QCANDLESTICKSERIES''] ''series'' [] RObject [OnObject ''QCandlestickLegendMarker'', OnObject ''QCandlestickModelMapper''],
     Bind [TypeM ''QTCHARTS_QABSTRACTSERIES''] ''series'' [] (RList IObject) [OnObject QChart],
     Bind [TypeM ''QTCHARTS_QPIESERIES''] ''series'' [] RObject [OnObject ''QHPieModelMapper''],
     Bind [] ''setAnimationDuration'' [PInt] RVoid [OnObject QChart],
     Bind [ValueM QTCORE_QEASINGCURVE] ''setAnimationEasingCurve'' [PConv QEasingCurve] RVoid [OnObject QChart],
     Bind [ValueM QTGUI_QBRUSH] ''setBackgroundBrush'' [PConv QBrush] RVoid [OnObject QChart],
     Bind [ValueM QTGUI_QPEN] ''setBackgroundPen'' [PConv QPen] RVoid [OnObject QChart],
     Bind [] ''setBackgroundRoundness'' [PReal ''qreal''] RVoid [OnObject QChart],
     Bind [] ''setBackgroundVisible'' [PBool] RVoid [OnObject QChart],
     Bind [] ''setBarWidth'' [PReal ''qreal''] RVoid [OnObject QAbstractBarSeries],
     Bind [] ''setBodyOutlineVisible'' [PBool] RVoid [OnObject QCandlestickSeries],
     Bind [] ''setBodyWidth'' [PReal ''qreal''] RVoid [OnObject QCandlestickSeries],
     Bind [ValueM QTGUI_QCOLOR] ''setBorderColor'' [PConv QColor] RVoid [OnObject QAreaSeries, OnObject QBarSet],
     Bind [] ''setBoxOutlineVisible'' [PBool] RVoid [OnObject QBoxPlotSeries],
     Bind [] ''setBoxWidth'' [PReal ''qreal''] RVoid [OnObject QBoxPlotSeries],
     Bind [ValueM QTGUI_QBRUSH] ''setBrush'' [PConv QBrush] RVoid [OnObject QAreaSeries, OnObject QBarSet, OnObject QBoxPlotSeries, OnObject ''QBoxSet'', OnObject QCandlestickSeries, OnObject QCandlestickSet],
     Bind [] ''setCapsVisible'' [PBool] RVoid [OnObject QCandlestickSeries],
     Bind [] ''setCapsWidth'' [PReal ''qreal''] RVoid [OnObject QCandlestickSeries],
     Bind [] ''setCategories'' [PStringList] RVoid [OnObject QBarCategoryAxis],
     Bind [] ''setClose'' [PReal ''qreal''] RVoid [OnObject QCandlestickSet],
     Bind [] ''setCloseColumn'' [PInt] RVoid [OnObject QHCandlestickModelMapper],
     Bind [ValueM QTGUI_QCOLOR] ''setColor'' [PConv QColor] RVoid [OnObject QAreaSeries, OnObject QBarSet],
     Bind [] ''setColumnCount'' [PInt] RVoid [OnObject ''QHBarModelMapper'', OnObject QHBoxPlotModelMapper, OnObject ''QHPieModelMapper''],
     Bind [ValueM QTGUI_QCOLOR] ''setDecreasingColor'' [PConv QColor] RVoid [OnObject QCandlestickSeries],
     Bind [] ''setDropShadowEnabled'' [PBool] RVoid [OnObject QChart],
     Bind [] ''setFirstBarSetRow'' [PInt] RVoid [OnObject ''QHBarModelMapper''],
     Bind [] ''setFirstBoxSetRow'' [PInt] RVoid [OnObject QHBoxPlotModelMapper],
     Bind [] ''setFirstColumn'' [PInt] RVoid [OnObject ''QHBarModelMapper'', OnObject QHBoxPlotModelMapper, OnObject ''QHPieModelMapper''],
     Bind [] ''setFirstSetRow'' [PInt] RVoid [OnObject QHCandlestickModelMapper],
     Bind [] ''setFormat'' [PString True] RVoid [OnObject QDateTimeAxis],
     Bind [ValueM QTGUI_QCOLOR] ''setGridLineColor'' [PConv QColor] RVoid [OnObject QAbstractAxis],
     Bind [ValueM QTGUI_QPEN] ''setGridLinePen'' [PConv QPen] RVoid [OnObject QAbstractAxis],
     Bind [] ''setGridLineVisible'' [PBool] RVoid [OnObject QAbstractAxis],
     Bind [] ''setHigh'' [PReal ''qreal''] RVoid [OnObject QCandlestickSet]]"

definition meth_qtcharts_0_2 :: "binding list" where
  "meth_qtcharts_0_2 = [
     Bind [] ''setHighColumn'' [PInt] RVoid [OnObject QHCandlestickModelMapper],
     Bind [ValueM QTGUI_QCOLOR] ''setIncreasingColor'' [PConv QColor] RVoid [OnObject QCandlestickSeries],
     Bind [] ''setLabel'' [PString True] RVoid [OnObject QBarSet, OnObject ''QBoxSet''],
     Bind [ValueM QTGUI_QBRUSH] ''setLabelBrush'' [PConv QBrush] RVoid [OnObject QBarSet],
     Bind [ValueM QTGUI_QCOLOR] ''setLabelColor'' [PConv QColor] RVoid [OnObject QBarSet],
     Bind [ValueM QTGUI_QFONT] ''setLabelFont'' [PConv QFont] RVoid [OnObject QBarSet],
     Bind [] ''setLabelsAngle'' [PInt] RVoid [OnObject QAbstractAxis],
     Bind [] ''setLabelsAngle'' [PReal ''qreal''] RVoid [OnObject QAbstractBarSeries],
     Bind [ValueM QTGUI_QBRUSH] ''setLabelsBrush'' [PConv QBrush] RVoid [OnObject QAbstractAxis],
     Bind [ValueM QTGUI_QCOLOR] ''setLabelsColor'' [PConv QColor] RVoid [OnObject QAbstractAxis],
     Bind [] ''setLabelsEditable'' [PBool] RVoid [OnObject QAbstractAxis],
     Bind [ValueM QTGUI_QFONT] ''setLabelsFont'' [PConv QFont] RVoid [OnObject QAbstractAxis],
     Bind [] ''setLabelsFormat'' [PString True] RVoid [OnObject QAbstractBarSeries],
     Bind [TypeM ''QTCHARTS_QABSTRACTBARSERIES''] ''setLabelsPosition'' [PConv ''QAbstractBarSeries::LabelsPosition''] RVoid [OnObject QAbstractBarSeries],
     Bind [TypeM ''QTCHARTS_QCATEGORYAXIS''] ''setLabelsPosition'' [PConv ''QCategoryAxis::AxisLabelsPosition''] RVoid [OnObject ''QCategoryAxis''],
     Bind [] ''setLabelsPrecision'' [PInt] RVoid [OnObject QAbstractBarSeries],
     Bind [] ''setLabelsRow'' [PInt] RVoid [OnObject ''QHPieModelMapper''],
     Bind [] ''setLabelsVisible'' [PBool] RVoid [OnObject QAbstractAxis, OnObject QAbstractBarSeries],
     Bind [] ''setLastBarSetRow'' [PInt] RVoid [OnObject ''QHBarModelMapper''],
     Bind [] ''setLastBoxSetRow'' [PInt] RVoid [OnObject QHBoxPlotModelMapper],
     Bind [] ''setLastSetRow'' [PInt] RVoid [OnObject QHCandlestickModelMapper],
     Bind [ValueM QTGUI_QPEN] ''setLinePen'' [PConv QPen] RVoid [OnObject QAbstractAxis],
     Bind [ValueM QTGUI_QCOLOR] ''setLinePenColor'' [PConv QColor] RVoid [OnObject QAbstractAxis],
     Bind [] ''setLineVisible'' [PBool] RVoid [OnObject QAbstractAxis],
     Bind [ValueM QTCORE_QLOCALE] ''setLocale'' [PConv QLocale] RVoid [OnObject QChart],
     Bind [] ''setLocalizeNumbers'' [PBool] RVoid [OnObject QChart],
     Bind [] ''setLow'' [PReal ''qreal''] RVoid [OnObject QCandlestickSet],
     Bind [] ''setLowColumn'' [PInt] RVoid [OnObject QHCandlestickModelMapper],
     Bind [TypeM ''QTCHARTS_QLINESERIES''] ''setLowerSeries'' [PNonNull ''QLineSeries*''] RVoid [OnObject QAreaSeries],
     Bind [ValueM QTCORE_QMARGINS] ''setMargins'' [PConv QMargins] RVoid [OnObject QChart],
     Bind [ValueM QTCORE_QDATETIME] ''setMax'' [PConv QDateTime] RVoid [OnObject QDateTimeAxis],
     Bind [] ''setMax'' [PString True] RVoid [OnObject QBarCategoryAxis],
     Bind [] ''setMax'' [PVariant] RVoid [OnObject QAbstractAxis],
     Bind [] ''setMaximumColumnWidth'' [PReal ''qreal''] RVoid [OnObject QCandlestickSeries],
     Bind [ValueM QTCORE_QDATETIME] ''setMin'' [PConv QDateTime] RVoid [OnObject QDateTimeAxis],
     Bind [] ''setMin'' [PString True] RVoid [OnObject QBarCategoryAxis],
     Bind [] ''setMin'' [PVariant] RVoid [OnObject QAbstractAxis],
     Bind [] ''setMinimumColumnWidth'' [PReal ''qreal''] RVoid [OnObject QCandlestickSeries],
     Bind [ValueM QTGUI_QCOLOR] ''setMinorGridLineColor'' [PConv QColor] RVoid [OnObject QAbstractAxis],
     Bind [ValueM QTGUI_QPEN] ''setMinorGridLinePen'' [PConv QPen] RVoid [OnObject QAbstractAxis],
     Bind [] ''setMinorGridLineVisible'' [PBool] RVoid [OnObject QAbstractAxis],
     Bind [TypeM QTCORE_QABSTRACTITEMMODEL] ''setModel'' [PNonNull QAbstractItemModel_ptr] RVoid [OnObject ''QCandlestickModelMapper'', OnObject ''QHBarModelMapper'', OnObject QHBoxPlotModelMapper, OnObject ''QHPieModelMapper''],
     Bind [] ''setName'' [PString True] RVoid [OnObject QAbstractSeries],
     Bind [] ''setOpacity'' [PReal ''qreal''] RVoid [OnObject QAbstractSeries],
     Bind [] ''setOpen'' [PReal ''qreal''] RVoid [OnObject QCandlestickSet],
     Bind [] ''setOpenColumn'' [PInt] RVoid [OnObject QHCandlestickModelMapper],
     Bind [ValueM QTGUI_QPEN] ''setPen'' [PConv QPen] RVoid [OnObject QAreaSeries, OnObject QBarSet, OnObject QBoxPlotSeries, OnObject ''QBoxSet'', OnObject QCandlestickSeries, OnObject QCandlestickSet],
     Bind [ValueM QTCORE_QRECTF] ''setPlotArea'' [PConv QRectF] RVoid [OnObject QChart],
     Bind [ValueM QTGUI_QBRUSH] ''setPlotAreaBackgroundBrush'' [PConv QBrush] RVoid [OnObject QChart],
     Bind [ValueM QTGUI_QPEN] ''setPlotAreaBackgroundPen'' [PConv QPen] RVoid [OnObject QChart],
     Bind [] ''setPlotAreaBackgroundVisible'' [PBool] RVoid [OnObject QChart],
     Bind [] ''setPointLabelsClipping'' [PBool] RVoid [OnObject QAreaSeries],
     Bind [ValueM QTGUI_QCOLOR] ''setPointLabelsColor'' [PConv QColor] RVoid [OnObject QAreaSeries],
     Bind [ValueM QTGUI_QFONT] ''setPointLabelsFont'' [PConv QFont] RVoid [OnObject QAreaSeries],
     Bind [] ''setPointLabelsFormat'' [PString True] RVoid [OnObject QAreaSeries],
     Bind [] ''setPointLabelsVisible'' [PBool] RVoid [OnObject QAreaSeries],
     Bind [] ''setPointsVisible'' [PBool] RVoid [OnObject QAreaSeries],
     Bind [ValueM QTCORE_QDATETIME] ''setRange'' [PConv QDateTime, PConv QDateTime] RVoid [OnObject QDateTimeAxis],
     Bind [] ''setRange'' [PString True, PString True] RVoid [OnObject QBarCategoryAxis],
     Bind [] ''setRange'' [PVariant, PVariant] RVoid [OnObject QAbstractAxis],
     Bind [] ''setReverse'' [PBool] RVoid [OnObject QAbstractAxis],
     Bind [TypeM ''QTCHARTS_QABSTRACTBARSERIES''] ''setSeries'' [PNonNull ''QAbstractBarSeries*''] RVoid [OnObject ''QHBarModelMapper''],
     Bind [TypeM ''QTCHARTS_QBOXPLOTSERIES''] ''setSeries'' [PNonNull ''QBoxPlotSeries*''] RVoid [OnObject QHBoxPlotModelMapper],
     Bind [TypeM ''QTCHARTS_QCANDLESTICKSERIES''] ''setSeries'' [PNonNull ''QCandlestickSeries*''] RVoid [OnObject ''QCandlestickModelMapper''],
     Bind [TypeM ''QTCHARTS_QPIESERIES''] ''setSeries'' [PNonNull ''QPieSeries*''] RVoid [OnObject ''QHPieModelMapper''],
     Bind [ValueM QTGUI_QCOLOR] ''setShadesBorderColor'' [PConv QColor] RVoid [OnObject QAbstractAxis],
     Bind [ValueM QTGUI_QBRUSH] ''setShadesBrush'' [PConv QBrush] RVoid [OnObject QAbstractAxis],
     Bind [ValueM QTGUI_QCOLOR] ''setShadesColor'' [PConv QColor] RVoid [OnObject QAbstractAxis],
     Bind [ValueM QTGUI_QPEN] ''setShadesPen'' [PConv QPen] RVoid [OnObject QAbstractAxis],
     Bind [] ''setShadesVisible'' [PBool] RVoid [OnObject QAbstractAxis],
     Bind [] ''setStartValue'' [PReal ''qreal''] RVoid [OnObject ''QCategoryAxis''],
     Bind [TypeM ''QTCHARTS_QCHART''] ''setTheme'' [PConv ''QChart::ChartTheme''] RVoid [OnObject QChart],
     Bind [] ''setTickCount'' [PInt] RVoid [OnObject QDateTimeAxis],
     Bind [] ''setTimestamp'' [PReal ''qreal''] RVoid [OnObject QCandlestickSet],
     Bind [] ''setTimestampColumn'' [PInt] RVoid [OnObject QHCandlestickModelMapper],
     Bind [] ''setTitle'' [PString True] RVoid [OnObject QChart],
     Bind [ValueM QTGUI_QBRUSH] ''setTitleBrush'' [PConv QBrush] RVoid [OnObject QAbstractAxis, OnObject QChart],
     Bind [ValueM QTGUI_QFONT] ''setTitleFont'' [PConv QFont] RVoid [OnObject QAbstractAxis, OnObject QChart],
     Bind [] ''setTitleText'' [PString True] RVoid [OnObject QAbstractAxis],
     Bind [] ''setTitleVisible'' [PBool] RVoid [OnObject QAbstractAxis],
     Bind [TypeM ''QTCHARTS_QLINESERIES''] ''setUpperSeries'' [PNonNull ''QLineSeries*''] RVoid [OnObject QAreaSeries],
     Bind [] ''setUseOpenGL'' [PBool] RVoid [OnObject QAbstractSeries],
     Bind [] ''setValue'' [PInt, PReal ''qreal''] RVoid [OnObject ''QBoxSet''],
     Bind [] ''setValuesRow'' [PInt] RVoid [OnObject ''QHPieModelMapper''],
     Bind [] ''setVisible'' [PBool] RVoid [OnObject QAbstractAxis, OnObject QAbstractSeries],
     Bind [TypeM ''QTCHARTS_QCANDLESTICKSET''] ''sets'' [] (RList IObject) [OnObject QCandlestickSeries],
     Bind [ValueM QTGUI_QCOLOR] ''shadesBorderColor'' [] (RValue QColor) [OnObject QAbstractAxis]]"

definition meth_qtcharts_0_3 :: "binding list" where
  "meth_qtcharts_0_3 = [
     Bind [ValueM QTGUI_QBRUSH] ''shadesBrush'' [] (RValue QBrush) [OnObject QAbstractAxis],
     Bind [ValueM QTGUI_QCOLOR] ''shadesColor'' [] (RValue QColor) [OnObject QAbstractAxis],
     Bind [ValueM QTGUI_QPEN] ''shadesPen'' [] (RValue QPen) [OnObject QAbstractAxis],
     Bind [] ''shadesVisible'' [] RBool [OnObject QAbstractAxis],
     Bind [] ''show'' [] RVoid [OnObject QAbstractAxis, OnObject QAbstractSeries],
     Bind [] ''startValue'' [PString True] RNumber [OnObject ''QCategoryAxis''],
     Bind [] ''sum'' [] RNumber [OnObject QBarSet],
     Bind [TypeM ''QTCHARTS_QBARSET''] ''take'' [PNonNull ''QBarSet*''] RBool [OnObject QAbstractBarSeries],
     Bind [TypeM ''QTCHARTS_QBOXSET''] ''take'' [PNonNull ''QBoxSet*''] RBool [OnObject QBoxPlotSeries],
     Bind [TypeM ''QTCHARTS_QCANDLESTICKSET''] ''take'' [PNonNull ''QCandlestickSet*''] RBool [OnObject QCandlestickSeries],
     Bind [TypeM ''QTCHARTS_QCHART''] ''theme'' [] (RMeta ''QChart::ChartTheme'') [OnObject QChart],
     Bind [] ''tickCount'' [] RNumber [OnObject QDateTimeAxis],
     Bind [] ''timestamp'' [] RNumber [OnObject QCandlestickSet],
     Bind [] ''timestampColumn'' [] RNumber [OnObject QHCandlestickModelMapper],
     Bind [] ''title'' [] RString [OnObject QChart],
     Bind [ValueM QTGUI_QBRUSH] ''titleBrush'' [] (RValue QBrush) [OnObject QAbstractAxis, OnObject QChart],
     Bind [ValueM QTGUI_QFONT] ''titleFont'' [] (RValue QFont) [OnObject QAbstractAxis, OnObject QChart],
     Bind [] ''titleText'' [] RString [OnObject QAbstractAxis],
     Bind [TypeM ''QTCHARTS_QABSTRACTAXIS''] ''type'' [] (RMeta ''QAbstractAxis::AxisType'') [OnObject QBarCategoryAxis, OnObject ''QCategoryAxis'', OnObject QDateTimeAxis],
     Bind [TypeM ''QTCHARTS_QABSTRACTSERIES''] ''type'' [] (RMeta ''QAbstractSeries::SeriesType'') [OnObject QAreaSeries, OnObject QBarSeries, OnObject QBoxPlotSeries, OnObject QCandlestickSeries],
     Bind [TypeM ''QTCHARTS_QLEGENDMARKER''] ''type'' [] (RMeta ''QLegendMarker::LegendMarkerType'') [OnObject ''QAreaLegendMarker'', OnObject ''QBarLegendMarker'', OnObject ''QBoxPlotLegendMarker'', OnObject ''QCandlestickLegendMarker''],
     Bind [TypeM ''QTCHARTS_QLINESERIES''] ''upperSeries'' [] RObject [OnObject QAreaSeries],
     Bind [] ''useOpenGL'' [] RBool [OnObject QAbstractSeries],
     Bind [] ''valuesRow'' [] RNumber [OnObject ''QHPieModelMapper''],
     Bind [] ''zoom'' [PReal ''qreal''] RVoid [OnObject QChart],
     Bind [] ''zoomIn'' [] RVoid [OnObject QChart],
     Bind [ValueM QTCORE_QRECTF] ''zoomIn'' [PConv QRectF] RVoid [OnObject QChart],
     Bind [] ''zoomOut'' [] RVoid [OnObject QChart],
     Bind [] ''zoomReset'' [] RVoid [OnObject QChart]]"

definition meth_qtcharts_1_0 :: "binding list" where
  "meth_qtcharts_1_0 = [
     Bind [TypeM ''QTCHARTS_QABSTRACTAXIS'', TypeM ''QTCHARTS_QPOLARCHART''] ''addAxis'' [PNonNull ''QAbstractAxis*'', PConv ''QPolarChart::PolarOrientation''] RVoid [OnObject ''QPolarChart''],
     Bind [] ''angleSpan'' [] RNumber [OnObject QPieSlice],
     Bind [TypeM ''QTCHARTS_QPIESLICE''] ''append'' [PList ''QPieSlice*''] RBool [OnObject QPieSeries],
     Bind [ValueM QTCORE_QPOINTF] ''append'' [PListV QPointF] RVoid [OnObject QXYSeries],
     Bind [TypeM ''QTCHARTS_QPIESLICE''] ''append'' [PNonNull ''QPieSlice*''] RBool [OnObject QPieSeries],
     Bind [ValueM QTCORE_QPOINTF] ''append'' [PConv QPointF] RVoid [OnObject QXYSeries],
     Bind [TypeM ''QTCHARTS_QPIESLICE''] ''append'' [PString True, PReal ''qreal''] RObject [OnObject QPieSeries],
     Bind [] ''append'' [PReal ''qreal'', PReal ''qreal''] RVoid [OnObject QXYSeries],
     Bind [] ''applyNiceNumbers'' [] RVoid [OnObject QValueAxis],
     Bind [ValueM QTCORE_QPOINTF] ''at'' [PInt] (RValue QPointF) [OnObject QXYSeries],
     Bind [] ''attachToChart'' [] RVoid [OnObject ''QLegend''],
     Bind [TypeM ''QTCHARTS_QABSTRACTAXIS'', TypeM ''QTCHARTS_QABSTRACTSERIES'', TypeM ''QTCHARTS_QPOLARCHART''] ''axes'' [PConv ''QPolarChart::PolarOrientations'', PNonNull ''QAbstractSeries*''] (RList IObject) [OnObject ''QPolarChart''],
     Bind [TypeM ''QTCHARTS_QABSTRACTAXIS'', TypeM ''QTCHARTS_QPOLARCHART''] ''axisPolarOrientation'' [PNonNull ''QAbstractAxis*''] (RMeta ''QPolarChart::PolarOrientation'') [Static ''QPolarChart''],
     Bind [] ''base'' [] RNumber [OnObject ''QLogValueAxis''],
     Bind [ValueM QTGUI_QCOLOR] ''borderColor'' [] (RValue QColor) [OnObject ''QLegend'', OnObject QPieSlice, OnObject QScatterSeries],
     Bind [] ''borderWidth'' [] RNumber [OnObject QPieSlice],
     Bind [ValueM QTGUI_QBRUSH] ''brush'' [] (RValue QBrush) [OnObject ''QLegend'', OnObject ''QLegendMarker'', OnObject QPieSlice, OnObject QScatterSeries, OnObject QXYSeries],
     Bind [] ''clear'' [] RVoid [OnObject QPieSeries, OnObject QXYSeries],
     Bind [] ''closeRow'' [] RNumber [OnObject QVCandlestickModelMapper],
     Bind [ValueM QTGUI_QCOLOR] ''color'' [] (RValue QColor) [OnObject ''QLegend'', OnObject QPieSlice, OnObject QScatterSeries, OnObject QXYSeries],
     Bind [] ''columnCount'' [] RNumber [OnObject ''QHXYModelMapper''],
     Bind [] ''count'' [] RNumber [OnObject QPieSeries, OnObject QXYSeries],
     Bind [] ''detachFromChart'' [] RVoid [OnObject ''QLegend''],
     Bind [] ''explodeDistanceFactor'' [] RNumber [OnObject QPieSlice],
     Bind [] ''firstBarSetColumn'' [] RNumber [OnObject ''QVBarModelMapper''],
     Bind [] ''firstBoxSetColumn'' [] RNumber [OnObject QVBoxPlotModelMapper],
     Bind [] ''firstColumn'' [] RNumber [OnObject ''QHXYModelMapper''],
     Bind [] ''firstRow'' [] RNumber [OnObject ''QVBarModelMapper'', OnObject QVBoxPlotModelMapper, OnObject ''QVPieModelMapper'', OnObject ''QVXYModelMapper''],
     Bind [] ''firstSetColumn'' [] RNumber [OnObject QVCandlestickModelMapper],
     Bind [ValueM QTGUI_QFONT] ''font'' [] (RValue QFont) [OnObject ''QLegend'', OnObject ''QLegendMarker''],
     Bind [] ''highRow'' [] RNumber [OnObject QVCandlestickModelMapper],
     Bind [] ''holeSize'' [] RNumber [OnObject QPieSeries],
     Bind [] ''horizontalPosition'' [] RNumber [OnObject QPieSeries],
     Bind [TypeM ''QTCHARTS_QPIESLICE''] ''insert'' [PInt, PNonNull ''QPieSlice*''] RBool [OnObject QPieSeries],
     Bind [ValueM QTCORE_QPOINTF] ''insert'' [PInt, PConv QPointF] RVoid [OnObject QXYSeries],
     Bind [] ''isAttachedToChart'' [] RBool [OnObject ''QLegend''],
     Bind [] ''isBackgroundVisible'' [] RBool [OnObject ''QLegend''],
     Bind [] ''isEmpty'' [] RBool [OnObject QPieSeries],
     Bind [] ''isExploded'' [] RBool [OnObject QPieSlice],
     Bind [] ''isLabelVisible'' [] RBool [OnObject QPieSlice],
     Bind [] ''isVisible'' [] RBool [OnObject ''QLegendMarker''],
     Bind [] ''label'' [] RString [OnObject ''QLegendMarker'', OnObject QPieSlice],
     Bind [] ''labelArmLengthFactor'' [] RNumber [OnObject QPieSlice],
     Bind [ValueM QTGUI_QBRUSH] ''labelBrush'' [] (RValue QBrush) [OnObject ''QLegend'', OnObject ''QLegendMarker'', OnObject QPieSlice],
     Bind [ValueM QTGUI_QCOLOR] ''labelColor'' [] (RValue QColor) [OnObject ''QLegend'', OnObject QPieSlice],
     Bind [ValueM QTGUI_QFONT] ''labelFont'' [] (RValue QFont) [OnObject QPieSlice],
     Bind [] ''labelFormat'' [] RString [OnObject ''QLogValueAxis'', OnObject QValueAxis],
     Bind [TypeM ''QTCHARTS_QPIESLICE''] ''labelPosition'' [] (RMeta ''QPieSlice::LabelPosition'') [OnObject QPieSlice],
     Bind [] ''labelsColumn'' [] RNumber [OnObject ''QVPieModelMapper''],
     Bind [] ''lastBarSetColumn'' [] RNumber [OnObject ''QVBarModelMapper''],
     Bind [] ''lastBoxSetColumn'' [] RNumber [OnObject QVBoxPlotModelMapper],
     Bind [] ''lastSetColumn'' [] RNumber [OnObject QVCandlestickModelMapper],
     Bind [] ''lowRow'' [] RNumber [OnObject QVCandlestickModelMapper],
     Bind [TypeM QTCHARTS_QLEGEND] ''markerShape'' [] (RMeta ''QLegend::MarkerShape'') [OnObject ''QLegend''],
     Bind [TypeM ''QTCHARTS_QSCATTERSERIES''] ''markerShape'' [] (RMeta ''QScatterSeries::MarkerShape'') [OnObject QScatterSeries],
     Bind [] ''markerSize'' [] RNumber [OnObject QScatterSeries],
     Bind [TypeM ''QTCHARTS_QABSTRACTSERIES'', TypeM ''QTCHARTS_QLEGENDMARKER''] ''markers'' [PNonNull ''QAbstractSeries*''] (RList IObject) [OnObject ''QLegend''],
     Bind [] ''max'' [] RNumber [OnObject ''QLogValueAxis'', OnObject QValueAxis],
     Bind [] ''min'' [] RNumber [OnObject ''QLogValueAxis'', OnObject QValueAxis],
     Bind [] ''minorTickCount'' [] RNumber [OnObject ''QLogValueAxis'', OnObject QValueAxis],
     Bind [TypeM QTCORE_QABSTRACTITEMMODEL] ''model'' [] RObject [OnObject ''QHXYModelMapper'', OnObject ''QVBarModelMapper'', OnObject QVBoxPlotModelMapper, OnObject ''QVPieModelMapper'', OnObject ''QVXYModelMapper''],
     Bind [] ''openRow'' [] RNumber [OnObject QVCandlestickModelMapper],
     Bind [EnumM QT_ORIENTATION] ''orientation'' [] (RMeta Qt_Orientation) [OnObject QVCandlestickModelMapper],
     Bind [ValueM QTGUI_QPEN] ''pen'' [] (RValue QPen) [OnObject ''QLegend'', OnObject ''QLegendMarker'', OnObject QPieSlice, OnObject QXYSeries],
     Bind [] ''percentage'' [] RNumber [OnObject QPieSlice],
     Bind [] ''pieEndAngle'' [] RNumber [OnObject QPieSeries],
     Bind [] ''pieSize'' [] RNumber [OnObject QPieSeries],
     Bind [] ''pieStartAngle'' [] RNumber [OnObject QPieSeries],
     Bind [] ''pointLabelsClipping'' [] RBool [OnObject QXYSeries],
     Bind [ValueM QTGUI_QCOLOR] ''pointLabelsColor'' [] (RValue QColor) [OnObject QXYSeries],
     Bind [ValueM QTGUI_QFONT] ''pointLabelsFont'' [] (RValue QFont) [OnObject QXYSeries],
     Bind [] ''pointLabelsFormat'' [] RString [OnObject QXYSeries],
     Bind [] ''pointLabelsVisible'' [] RBool [OnObject QXYSeries],
     Bind [ValueM QTCORE_QPOINTF] ''points'' [] (RList (IValue QPointF)) [OnObject QXYSeries],
     Bind [] ''pointsVisible'' [] RBool [OnObject QXYSeries],
     Bind [TypeM ''QTCHARTS_QPIESLICE''] ''remove'' [PNonNull ''QPieSlice*''] RBool [OnObject QPieSeries],
     Bind [ValueM QTCORE_QPOINTF] ''remove'' [PConv QPointF] RVoid [OnObject QXYSeries],
     Bind [] ''remove'' [PInt] RVoid [OnObject QXYSeries],
     Bind [] ''remove'' [PReal ''qreal'', PReal ''qreal''] RVoid [OnObject QXYSeries],
     Bind [] ''removePoints'' [PInt, PInt] RVoid [OnObject QXYSeries],
     Bind [ValueM QTCORE_QPOINTF] ''replace'' [PListV QPointF] RVoid [OnObject QXYSeries],
     Bind [ValueM QTCORE_QPOINTF] ''replace'' [PConv QPointF, PConv QPointF] RVoid [OnObject QXYSeries],
     Bind [ValueM QTCORE_QPOINTF] ''replace'' [PInt, PConv QPointF] RVoid [OnObject QXYSeries],
     Bind [] ''replace'' [PInt, PReal ''qreal'', PReal ''qreal''] RVoid [OnObject QXYSeries],
     Bind [] ''replace'' [PReal ''qreal'', PReal ''qreal'', PReal ''qreal'', PReal ''qreal''] RVoid [OnObject QXYSeries],
     Bind [] ''reverseMarkers'' [] RBool [OnObject ''QLegend''],
     Bind [] ''rowCount'' [] RNumber [OnObject ''QVBarModelMapper'', OnObject QVBoxPlotModelMapper, OnObject ''QVPieModelMapper'', OnObject ''QVXYModelMapper''],
     Bind [TypeM ''QTCHARTS_QABSTRACTBARSERIES''] ''series'' [] RObject [OnObject ''QVBarModelMapper''],
     Bind [TypeM ''QTCHARTS_QBOXPLOTSERIES''] ''series'' [] RObject [OnObject QVBoxPlotModelMapper]]"

definition meth_qtcharts_1_1 :: "binding list" where
  "meth_qtcharts_1_1 = [
     Bind [TypeM ''QTCHARTS_QPIESERIES''] ''series'' [] RObject [OnObject ''QPieLegendMarker'', OnObject QPieSlice, OnObject ''QVPieModelMapper''],
     Bind [TypeM ''QTCHARTS_QXYSERIES''] ''series'' [] RObject [OnObject ''QHXYModelMapper'', OnObject ''QVXYModelMapper'', OnObject ''QXYLegendMarker''],
     Bind [] ''setBackgroundVisible'' [PBool] RVoid [OnObject ''QLegend''],
     Bind [] ''setBase'' [PReal ''qreal''] RVoid [OnObject ''QLogValueAxis''],
     Bind [ValueM QTGUI_QCOLOR] ''setBorderColor'' [PConv QColor] RVoid [OnObject ''QLegend'', OnObject QPieSlice, OnObject QScatterSeries],
     Bind [] ''setBorderWidth'' [PInt] RVoid [OnObject QPieSlice],
     Bind [ValueM QTGUI_QBRUSH] ''setBrush'' [PConv QBrush] RVoid [OnObject ''QLegend'', OnObject ''QLegendMarker'', OnObject QPieSlice, OnObject QScatterSeries, OnObject QXYSeries],
     Bind [] ''setCloseRow'' [PInt] RVoid [OnObject QVCandlestickModelMapper],
     Bind [ValueM QTGUI_QCOLOR] ''setColor'' [PConv QColor] RVoid [OnObject ''QLegend'', OnObject QPieSlice, OnObject QScatterSeries, OnObject QXYSeries],
     Bind [] ''setColumnCount'' [PInt] RVoid [OnObject ''QHXYModelMapper''],
     Bind [] ''setExplodeDistanceFactor'' [PReal ''qreal''] RVoid [OnObject QPieSlice],
     Bind [] ''setExploded'' [PBool] RVoid [OnObject QPieSlice],
     Bind [] ''setFirstBarSetColumn'' [PInt] RVoid [OnObject ''QVBarModelMapper''],
     Bind [] ''setFirstBoxSetColumn'' [PInt] RVoid [OnObject QVBoxPlotModelMapper],
     Bind [] ''setFirstColumn'' [PInt] RVoid [OnObject ''QHXYModelMapper''],
     Bind [] ''setFirstRow'' [PInt] RVoid [OnObject ''QVBarModelMapper'', OnObject QVBoxPlotModelMapper, OnObject ''QVPieModelMapper'', OnObject ''QVXYModelMapper''],
     Bind [] ''setFirstSetColumn'' [PInt] RVoid [OnObject QVCandlestickModelMapper],
     Bind [ValueM QTGUI_QFONT] ''setFont'' [PConv QFont] RVoid [OnObject ''QLegend'', OnObject ''QLegendMarker''],
     Bind [] ''setHighRow'' [PInt] RVoid [OnObject QVCandlestickModelMapper],
     Bind [] ''setHoleSize'' [PReal ''qreal''] RVoid [OnObject QPieSeries],
     Bind [] ''setHorizontalPosition'' [PReal ''qreal''] RVoid [OnObject QPieSeries],
     Bind [] ''setLabel'' [PString True] RVoid [OnObject ''QLegendMarker'', OnObject QPieSlice],
     Bind [] ''setLabelArmLengthFactor'' [PReal ''qreal''] RVoid [OnObject QPieSlice],
     Bind [ValueM QTGUI_QBRUSH] ''setLabelBrush'' [PConv QBrush] RVoid [OnObject ''QLegend'', OnObject ''QLegendMarker'', OnObject QPieSlice],
     Bind [ValueM QTGUI_QCOLOR] ''setLabelColor'' [PConv QColor] RVoid [OnObject ''QLegend'', OnObject QPieSlice],
     Bind [ValueM QTGUI_QFONT] ''setLabelFont'' [PConv QFont] RVoid [OnObject QPieSlice],
     Bind [] ''setLabelFormat'' [PString True] RVoid [OnObject ''QLogValueAxis'', OnObject QValueAxis],
     Bind [TypeM ''QTCHARTS_QPIESLICE''] ''setLabelPosition'' [PConv ''QPieSlice::LabelPosition''] RVoid [OnObject QPieSlice],
     Bind [] ''setLabelVisible'' [PBool] RVoid [OnObject QPieSlice],
     Bind [] ''setLabelsColumn'' [PInt] RVoid [OnObject ''QVPieModelMapper''],
     Bind [TypeM ''QTCHARTS_QPIESLICE''] ''setLabelsPosition'' [PConv ''QPieSlice::LabelPosition''] RVoid [OnObject QPieSeries],
     Bind [] ''setLabelsVisible'' [PBool] RVoid [OnObject QPieSeries],
     Bind [] ''setLastBarSetColumn'' [PInt] RVoid [OnObject ''QVBarModelMapper''],
     Bind [] ''setLastBoxSetColumn'' [PInt] RVoid [OnObject QVBoxPlotModelMapper],
     Bind [] ''setLastSetColumn'' [PInt] RVoid [OnObject QVCandlestickModelMapper],
     Bind [] ''setLowRow'' [PInt] RVoid [OnObject QVCandlestickModelMapper],
     Bind [TypeM QTCHARTS_QLEGEND] ''setMarkerShape'' [PConv ''QLegend::MarkerShape''] RVoid [OnObject ''QLegend''],
     Bind [TypeM ''QTCHARTS_QSCATTERSERIES''] ''setMarkerShape'' [PConv ''QScatterSeries::MarkerShape''] RVoid [OnObject QScatterSeries],
     Bind [] ''setMarkerSize'' [PReal ''qreal''] RVoid [OnObject QScatterSeries],
     Bind [] ''setMax'' [PReal ''qreal''] RVoid [OnObject ''QLogValueAxis'', OnObject QValueAxis],
     Bind [] ''setMin'' [PReal ''qreal''] RVoid [OnObject ''QLogValueAxis'', OnObject QValueAxis],
     Bind [] ''setMinorTickCount'' [PInt] RVoid [OnObject ''QLogValueAxis'', OnObject QValueAxis],
     Bind [TypeM QTCORE_QABSTRACTITEMMODEL] ''setModel'' [PNonNull QAbstractItemModel_ptr] RVoid [OnObject ''QHXYModelMapper'', OnObject ''QVBarModelMapper'', OnObject QVBoxPlotModelMapper, OnObject ''QVPieModelMapper'', OnObject ''QVXYModelMapper''],
     Bind [] ''setOpenRow'' [PInt] RVoid [OnObject QVCandlestickModelMapper],
     Bind [ValueM QTGUI_QPEN] ''setPen'' [PConv QPen] RVoid [OnObject ''QLegend'', OnObject ''QLegendMarker'', OnObject QPieSlice, OnObject QScatterSeries, OnObject QXYSeries],
     Bind [] ''setPieEndAngle'' [PReal ''qreal''] RVoid [OnObject QPieSeries],
     Bind [] ''setPieSize'' [PReal ''qreal''] RVoid [OnObject QPieSeries],
     Bind [] ''setPieStartAngle'' [PReal ''qreal''] RVoid [OnObject QPieSeries],
     Bind [] ''setPointLabelsClipping'' [PBool] RVoid [OnObject QXYSeries],
     Bind [ValueM QTGUI_QCOLOR] ''setPointLabelsColor'' [PConv QColor] RVoid [OnObject QXYSeries],
     Bind [ValueM QTGUI_QFONT] ''setPointLabelsFont'' [PConv QFont] RVoid [OnObject QXYSeries],
     Bind [] ''setPointLabelsFormat'' [PString True] RVoid [OnObject QXYSeries],
     Bind [] ''setPointLabelsVisible'' [PBool] RVoid [OnObject QXYSeries],
     Bind [] ''setPointsVisible'' [PBool] RVoid [OnObject QXYSeries],
     Bind [] ''setRange'' [PReal ''qreal'', PReal ''qreal''] RVoid [OnObject ''QLogValueAxis'', OnObject QValueAxis],
     Bind [] ''setReverseMarkers'' [PBool] RVoid [OnObject ''QLegend''],
     Bind [] ''setRowCount'' [PInt] RVoid [OnObject ''QVBarModelMapper'', OnObject QVBoxPlotModelMapper, OnObject ''QVPieModelMapper'', OnObject ''QVXYModelMapper''],
     Bind [TypeM ''QTCHARTS_QABSTRACTBARSERIES''] ''setSeries'' [PNonNull ''QAbstractBarSeries*''] RVoid [OnObject ''QVBarModelMapper''],
     Bind [TypeM ''QTCHARTS_QBOXPLOTSERIES''] ''setSeries'' [PNonNull ''QBoxPlotSeries*''] RVoid [OnObject QVBoxPlotModelMapper],
     Bind [TypeM ''QTCHARTS_QPIESERIES''] ''setSeries'' [PNonNull ''QPieSeries*''] RVoid [OnObject ''QVPieModelMapper''],
     Bind [TypeM ''QTCHARTS_QXYSERIES''] ''setSeries'' [PNonNull ''QXYSeries*''] RVoid [OnObject ''QHXYModelMapper'', OnObject ''QVXYModelMapper''],
     Bind [TypeM QTCHARTS_QLEGEND] ''setShape'' [PConv ''QLegend::MarkerShape''] RVoid [OnObject ''QLegendMarker''],
     Bind [] ''setShowToolTips'' [PBool] RVoid [OnObject ''QLegend''],
     Bind [] ''setTickAnchor'' [PReal ''qreal''] RVoid [OnObject QValueAxis],
     Bind [] ''setTickCount'' [PInt] RVoid [OnObject QValueAxis],
     Bind [] ''setTickInterval'' [PReal ''qreal''] RVoid [OnObject QValueAxis],
     Bind [TypeM ''QTCHARTS_QVALUEAXIS''] ''setTickType'' [PConv ''QValueAxis::TickType''] RVoid [OnObject QValueAxis],
     Bind [] ''setTimestampRow'' [PInt] RVoid [OnObject QVCandlestickModelMapper],
     Bind [] ''setValue'' [PReal ''qreal''] RVoid [OnObject QPieSlice],
     Bind [] ''setValuesColumn'' [PInt] RVoid [OnObject ''QVPieModelMapper''],
     Bind [] ''setVerticalPosition'' [PReal ''qreal''] RVoid [OnObject QPieSeries],
     Bind [] ''setVisible'' [PBool] RVoid [OnObject ''QLegendMarker''],
     Bind [] ''setXColumn'' [PInt] RVoid [OnObject ''QVXYModelMapper''],
     Bind [] ''setXRow'' [PInt] RVoid [OnObject ''QHXYModelMapper''],
     Bind [] ''setYColumn'' [PInt] RVoid [OnObject ''QVXYModelMapper''],
     Bind [] ''setYRow'' [PInt] RVoid [OnObject ''QHXYModelMapper''],
     Bind [TypeM QTCHARTS_QLEGEND] ''shape'' [] (RMeta ''QLegend::MarkerShape'') [OnObject ''QLegendMarker''],
     Bind [] ''showToolTips'' [] RBool [OnObject ''QLegend''],
     Bind [TypeM ''QTCHARTS_QPIESLICE''] ''slice'' [] RObject [OnObject ''QPieLegendMarker''],
     Bind [TypeM ''QTCHARTS_QPIESLICE''] ''slices'' [] (RList IObject) [OnObject QPieSeries],
     Bind [] ''startAngle'' [] RNumber [OnObject QPieSlice]]"

definition meth_qtcharts_1_2 :: "binding list" where
  "meth_qtcharts_1_2 = [
     Bind [] ''sum'' [] RNumber [OnObject QPieSeries],
     Bind [TypeM ''QTCHARTS_QPIESLICE''] ''take'' [PNonNull ''QPieSlice*''] RBool [OnObject QPieSeries],
     Bind [] ''tickAnchor'' [] RNumber [OnObject QValueAxis],
     Bind [] ''tickCount'' [] RNumber [OnObject ''QLogValueAxis'', OnObject QValueAxis],
     Bind [] ''tickInterval'' [] RNumber [OnObject QValueAxis],
     Bind [TypeM ''QTCHARTS_QVALUEAXIS''] ''tickType'' [] (RMeta ''QValueAxis::TickType'') [OnObject QValueAxis],
     Bind [] ''timestampRow'' [] RNumber [OnObject QVCandlestickModelMapper],
     Bind [TypeM ''QTCHARTS_QABSTRACTAXIS''] ''type'' [] (RMeta ''QAbstractAxis::AxisType'') [OnObject ''QLogValueAxis'', OnObject QValueAxis],
     Bind [TypeM ''QTCHARTS_QABSTRACTSERIES''] ''type'' [] (RMeta ''QAbstractSeries::SeriesType'') [OnObject ''QHorizontalBarSeries'', OnObject ''QHorizontalPercentBarSeries'', OnObject ''QHorizontalStackedBarSeries'', OnObject ''QLineSeries'', OnObject ''QPercentBarSeries'', OnObject QPieSeries, OnObject QScatterSeries, OnObject ''QSplineSeries'', OnObject ''QStackedBarSeries''],
     Bind [TypeM ''QTCHARTS_QLEGENDMARKER''] ''type'' [] (RMeta ''QLegendMarker::LegendMarkerType'') [OnObject ''QPieLegendMarker'', OnObject ''QXYLegendMarker''],
     Bind [] ''value'' [] RNumber [OnObject QPieSlice],
     Bind [] ''valuesColumn'' [] RNumber [OnObject ''QVPieModelMapper''],
     Bind [] ''verticalPosition'' [] RNumber [OnObject QPieSeries],
     Bind [] ''xColumn'' [] RNumber [OnObject ''QVXYModelMapper''],
     Bind [] ''xRow'' [] RNumber [OnObject ''QHXYModelMapper''],
     Bind [] ''yColumn'' [] RNumber [OnObject ''QVXYModelMapper''],
     Bind [] ''yRow'' [] RNumber [OnObject ''QHXYModelMapper'']]"

definition meth_table_charts_a :: "(string \<times> shard) list" where
  "meth_table_charts_a = [
     (''qtcharts_0'', \<lparr>sh_module = ''QtCharts'', sh_slug = ''QTCHARTS'',
        sh_bindings = concat [meth_qtcharts_0_0, meth_qtcharts_0_1, meth_qtcharts_0_2, meth_qtcharts_0_3]\<rparr>),
     (''qtcharts_1'', \<lparr>sh_module = ''QtCharts'', sh_slug = ''QTCHARTS'',
        sh_bindings = concat [meth_qtcharts_1_0, meth_qtcharts_1_1, meth_qtcharts_1_2]\<rparr>)]"

lemmas meth_table_charts_a_defs =
  meth_qtcharts_0_0_def meth_qtcharts_0_1_def meth_qtcharts_0_2_def meth_qtcharts_0_3_def meth_qtcharts_1_0_def
  meth_qtcharts_1_1_def meth_qtcharts_1_2_def

lemma meth_table_charts_a_object_blocks: "list_all (\<lambda>(s, sh). object_blocks sh) meth_table_charts_a"
  by (simp add: meth_table_charts_a_def meth_table_charts_a_defs object_blocks_def object_shard_def; (simp add: parameter_text_def qt_name_defs)?)

end
