(* ===== verification/Methods_Core_A.thy ===== *)
theory Methods_Core_A
  imports Shard_Methods Qt_Names
begin

text \<open>
  Tables of the method shards (generated\_methods): the blocks of every shard in the file's order.
\<close>

definition meth_qtcore_0_0 :: "binding list" where
  "meth_qtcore_0_0 = [
     Bind [TypeM QTCORE_QABSTRACTANIMATION] ''addAnimation'' [PNonNull ''QAbstractAnimation*''] RVoid [OnObject ''QAnimationGroup''],
     Bind [] ''addLibraryPath'' [PString True] RVoid [Static QCoreApplication],
     Bind [ValueM QTCORE_QDEADLINETIMER] ''addNSecs'' [PConv QDeadlineTimer, PWide ''qint64''] (RValue QDeadlineTimer) [Static QDeadlineTimer],
     Bind [] ''addSearchPath'' [PString True, PString True] RVoid [Static QDir],
     Bind [TypeM QTCORE_QABSTRACTANIMATION] ''animationAt'' [PInt] RObject [OnObject ''QAnimationGroup''],
     Bind [] ''animationCount'' [] RNumber [OnObject ''QAnimationGroup''],
     Bind [] ''applicationDirPath'' [] RString [Static QCoreApplication]]"

definition meth_qtcore_0_1 :: "binding list" where
  "meth_qtcore_0_1 = [
     Bind [] ''applicationFilePath'' [] RString [Static QCoreApplication],
     Bind [] ''applicationName'' [] RString [Static QCoreApplication],
     Bind [] ''applicationPid'' [] (RMeta ''qint64'') [Static QCoreApplication],
     Bind [] ''applicationVersion'' [] RString [Static QCoreApplication],
     Bind [] ''arguments'' [] (RList (IMeta QString)) [Static QCoreApplication],
     Bind [] ''atEnd'' [] RBool [OnObject ''QBuffer'', OnObject ''QFileDevice''],
     Bind [] ''availableCalendars'' [] (RList (IMeta QString)) [Static QCalendar]]"

definition meth_qtcore_0_2 :: "binding list" where
  "meth_qtcore_0_2 = [
     Bind [ValueM QTCORE_QMODELINDEX] ''buddy'' [PConv QModelIndex] (RValue QModelIndex) [OnObject QAbstractItemModel, OnObject QAbstractProxyModel],
     Bind [ValueM QTCORE_QBYTEARRAY] ''buffer'' [] (RValue QByteArray) [OnObject ''QBuffer''],
     Bind [EnumM QT_DROPACTION, TypeM QTCORE_QMIMEDATA, ValueM QTCORE_QMODELINDEX] ''canDropMimeData'' [PNonNull ''QMimeData*'', PConv Qt_DropAction, PInt, PInt, PConv QModelIndex] RBool [OnObject QAbstractItemModel, OnObject QAbstractProxyModel, OnObject QConcatenateTablesProxyModel],
     Bind [ValueM QTCORE_QMODELINDEX] ''canFetchMore'' [PConv QModelIndex] RBool [OnObject QAbstractItemModel, OnObject QAbstractProxyModel],
     Bind [] ''canReadLine'' [] RBool [OnObject ''QBuffer'']]"

definition meth_qtcore_0_3 :: "binding list" where
  "meth_qtcore_0_3 = [
     Bind [] ''cleanPath'' [PString True] RString [Static QDir],
     Bind [] ''clear'' [] RVoid [OnObject ''QAnimationGroup''],
     Bind [ValueM QTCORE_QMODELINDEX] ''clearItemData'' [PConv QModelIndex] RBool [OnObject QAbstractItemModel, OnObject QAbstractProxyModel],
     Bind [TypeM ''QTCORE_QELAPSEDTIMER''] ''clockType'' [] (RMeta ''QElapsedTimer::ClockType'') [Static QElapsedTimer],
     Bind [] ''close'' [] RVoid [OnObject ''QBuffer'', OnObject ''QFileDevice''],
     Bind [] ''closingDown'' [] RBool [Static QCoreApplication],
     Bind [] ''closingDown'' [] RVoid [OnObject ''QAbstractEventDispatcher'']]"

definition meth_qtcore_0_4 :: "binding list" where
  "meth_qtcore_0_4 = [
     Bind [ValueM QTCORE_QMODELINDEX] ''columnCount'' [PConv QModelIndex] RNumber [OnObject QConcatenateTablesProxyModel],
     Bind [] ''copy'' [PString True] RBool [OnObject ''QFile''],
     Bind [] ''copy'' [PString True, PString True] RBool [Static ''QFile''],
     Bind [ValueM QTCORE_QDIR] ''current'' [] (RValue QDir) [Static QDir],
     Bind [EnumM ''QT_TIMERTYPE'', ValueM QTCORE_QDEADLINETIMER] ''current'' [PConv ''Qt::TimerType''] (RValue QDeadlineTimer) [Static QDeadlineTimer],
     Bind [ValueM QTCORE_QDATE] ''currentDate'' [] (RValue QDate) [Static QDate],
     Bind [ValueM QTCORE_QDATETIME] ''currentDateTime'' [] (RValue QDateTime) [Static QDateTime]]"

definition meth_qtcore_0_5 :: "binding list" where
  "meth_qtcore_0_5 = [
     Bind [ValueM QTCORE_QDATETIME, ValueM QTCORE_QTIMEZONE] ''currentDateTime'' [PConv QTimeZone] (RValue QDateTime) [Static QDateTime],
     Bind [ValueM QTCORE_QDATETIME] ''currentDateTimeUtc'' [] (RValue QDateTime) [Static QDateTime],
     Bind [] ''currentLoop'' [] RNumber [OnObject QAbstractAnimation],
     Bind [] ''currentLoopTime'' [] RNumber [OnObject QAbstractAnimation],
     Bind [] ''currentMSecsSinceEpoch'' [] (RMeta ''qint64'') [Static QDateTime],
     Bind [] ''currentPath'' [] RString [Static QDir],
     Bind [] ''currentSecsSinceEpoch'' [] (RMeta ''qint64'') [Static QDateTime],
     Bind [] ''currentTime'' [] RNumber [OnObject QAbstractAnimation]]"

definition meth_qtcore_0_6 :: "binding list" where
  "meth_qtcore_0_6 = [
     Bind [ValueM QTCORE_QBYTEARRAY] ''data'' [] (RValue QByteArray) [OnObject ''QBuffer''],
     Bind [ValueM QTCORE_QMODELINDEX] ''data'' [PConv QModelIndex, PInt] RVariant [OnObject QAbstractProxyModel, OnObject QConcatenateTablesProxyModel],
     Bind [ValueM QTCORE_QBYTEARRAY] ''decodeName'' [PConv QByteArray] RString [Static ''QFile''],
     Bind [TypeM QTCORE_QABSTRACTANIMATION] ''direction'' [] (RMeta ''QAbstractAnimation::Direction'') [OnObject QAbstractAnimation],
     Bind [EnumM QT_DROPACTION, TypeM QTCORE_QMIMEDATA, ValueM QTCORE_QMODELINDEX] ''dropMimeData'' [PNonNull ''QMimeData*'', PConv Qt_DropAction, PInt, PInt, PConv QModelIndex] RBool [OnObject QAbstractItemModel, OnObject ''QAbstractListModel'', OnObject QAbstractProxyModel, OnObject ''QAbstractTableModel'', OnObject QConcatenateTablesProxyModel]]"

definition meth_qtcore_0_7 :: "binding list" where
  "meth_qtcore_0_7 = [
     Bind [ValueM QTCORE_QBYTEARRAY] ''encodeName'' [PString True] (RValue QByteArray) [Static ''QFile''],
     Bind [TypeM ''QTCORE_QFILEDEVICE''] ''error'' [] (RMeta ''QFileDevice::FileError'') [OnObject ''QFileDevice''],
     Bind [TypeM ''QTCORE_QABSTRACTEVENTDISPATCHER''] ''eventDispatcher'' [] RObject [Static QCoreApplication],
     Bind [] ''exec'' [] RNumber [Static QCoreApplication],
     Bind [] ''exists'' [] RBool [OnObject ''QFile''],
     Bind [] ''exists'' [PString True] RBool [Static ''QFile'', Static QFileInfo],
     Bind [] ''exit'' [PInt] RVoid [OnObject ''QEventLoop'']]"

definition meth_qtcore_0_8 :: "binding list" where
  "meth_qtcore_0_8 = [
     Bind [] ''exit'' [PInt] RVoid [Static QCoreApplication],
     Bind [ValueM QTCORE_QMODELINDEX] ''fetchMore'' [PConv QModelIndex] RVoid [OnObject QAbstractItemModel, OnObject QAbstractProxyModel],
     Bind [] ''fileName'' [] RString [OnObject ''QFile'', OnObject ''QFileDevice''],
     Bind [TypeM ''QTCORE_QFILEDEVICE'', ValueM QTCORE_QDATETIME] ''fileTime'' [PConv ''QFileDevice::FileTime''] (RValue QDateTime) [OnObject ''QFileDevice''],
     Bind [] ''flush'' [] RBool [OnObject ''QFileDevice''],
     Bind [ValueM QTCORE_QBYTEARRAY] ''fromHex'' [PConv QByteArray] (RValue QByteArray) [Static QByteArray]]"

definition meth_qtcore_0_9 :: "binding list" where
  "meth_qtcore_0_9 = [
     Bind [ValueM QTCORE_QDATE] ''fromJulianDay'' [PWide ''qint64''] (RValue QDate) [Static QDate],
     Bind [ValueM QTCORE_QDATETIME, ValueM QTCORE_QTIMEZONE] ''fromMSecsSinceEpoch'' [PWide ''qint64'', PConv QTimeZone] (RValue QDateTime) [Static QDateTime],
     Bind [EnumM ''QT_TIMESPEC'', ValueM QTCORE_QDATETIME] ''fromMSecsSinceEpoch'' [PWide ''qint64'', PConv ''Qt::TimeSpec'', PInt] (RValue QDateTime) [Static QDateTime],
     Bind [] ''fromNativeSeparators'' [PString True] RString [Static QDir],
     Bind [ValueM QTCORE_QDATETIME, ValueM QTCORE_QTIMEZONE] ''fromSecsSinceEpoch'' [PWide ''qint64'', PConv QTimeZone] (RValue QDateTime) [Static QDateTime]]"

definition meth_qtcore_0_10 :: "binding list" where
  "meth_qtcore_0_10 = [
     Bind [EnumM ''QT_TIMESPEC'', ValueM QTCORE_QDATETIME] ''fromSecsSinceEpoch'' [PWide ''qint64'', PConv ''Qt::TimeSpec'', PInt] (RValue QDateTime) [Static QDateTime],
     Bind [ValueM QTCORE_QCALENDAR, ValueM QTCORE_QDATE] ''fromString'' [PString True, PString True, PConv QCalendar] (RValue QDate) [Static QDate],
     Bind [ValueM QTCORE_QCALENDAR, ValueM QTCORE_QDATETIME] ''fromString'' [PString True, PString True, PConv QCalendar] (RValue QDateTime) [Static QDateTime],
     Bind [ValueM QTCORE_QCALENDAR, ValueM QTCORE_QDATE] ''fromString'' [PString True, PString True, PInt, PConv QCalendar] (RValue QDate) [Static QDate],
     Bind [ValueM QTCORE_QCALENDAR, ValueM QTCORE_QDATETIME] ''fromString'' [PString True, PString True, PInt, PConv QCalendar] (RValue QDateTime) [Static QDateTime]]"

definition meth_qtcore_0_11 :: "binding list" where
  "meth_qtcore_0_11 = [
     Bind [EnumM ''QT_DATEFORMAT'', ValueM QTCORE_QDATE] ''fromString'' [PString True, PConv ''Qt::DateFormat''] (RValue QDate) [Static QDate],
     Bind [EnumM ''QT_DATEFORMAT'', ValueM QTCORE_QDATETIME] ''fromString'' [PString True, PConv ''Qt::DateFormat''] (RValue QDateTime) [Static QDateTime],
     Bind [TypeM ''QTCORE_QANIMATIONGROUP''] ''group'' [] RObject [OnObject QAbstractAnimation],
     Bind [] ''handle'' [] RNumber [OnObject ''QFileDevice''],
     Bind [ValueM QTCORE_QMODELINDEX] ''hasChildren'' [PConv QModelIndex] RBool [OnObject QAbstractItemModel, OnObject QAbstractProxyModel],
     Bind [ValueM QTCORE_QMODELINDEX] ''hasIndex'' [PInt, PInt, PConv QModelIndex] RBool [OnObject QAbstractItemModel]]"

definition meth_qtcore_0_12 :: "binding list" where
  "meth_qtcore_0_12 = [
     Bind [TypeM ''QTCORE_QCRYPTOGRAPHICHASH''] ''hashLength'' [PConv ''QCryptographicHash::Algorithm''] RNumber [Static ''QCryptographicHash''],
     Bind [EnumM QT_ORIENTATION] ''headerData'' [PInt, PConv Qt_Orientation, PInt] RVariant [OnObject QAbstractItemModel, OnObject QAbstractProxyModel, OnObject QConcatenateTablesProxyModel],
     Bind [ValueM QTCORE_QDIR] ''home'' [] (RValue QDir) [Static QDir],
     Bind [] ''homePath'' [] RString [Static QDir],
     Bind [ValueM QTCORE_QMODELINDEX] ''index'' [PInt, PInt, PConv QModelIndex] (RValue QModelIndex) [OnObject ''QAbstractListModel'', OnObject ''QAbstractTableModel'', OnObject QConcatenateTablesProxyModel]]"

definition meth_qtcore_0_13 :: "binding list" where
  "meth_qtcore_0_13 = [
     Bind [TypeM QTCORE_QABSTRACTANIMATION] ''indexOfAnimation'' [PNonNull ''QAbstractAnimation*''] RNumber [OnObject ''QAnimationGroup''],
     Bind [TypeM QTCORE_QABSTRACTANIMATION] ''insertAnimation'' [PInt, PNonNull ''QAbstractAnimation*''] RVoid [OnObject ''QAnimationGroup''],
     Bind [ValueM QTCORE_QMODELINDEX] ''insertColumn'' [PInt, PConv QModelIndex] RBool [OnObject QAbstractItemModel],
     Bind [ValueM QTCORE_QMODELINDEX] ''insertColumns'' [PInt, PInt, PConv QModelIndex] RBool [OnObject QAbstractItemModel],
     Bind [ValueM QTCORE_QMODELINDEX] ''insertRow'' [PInt, PConv QModelIndex] RBool [OnObject QAbstractItemModel],
     Bind [ValueM QTCORE_QMODELINDEX] ''insertRows'' [PInt, PInt, PConv QModelIndex] RBool [OnObject QAbstractItemModel]]"

definition meth_qtcore_0_14 :: "binding list" where
  "meth_qtcore_0_14 = [
     Bind [TypeM ''QTCORE_QTRANSLATOR''] ''installTranslator'' [PNonNull ''QTranslator*''] RBool [Static QCoreApplication],
     Bind [TypeM ''QTCORE_QCOREAPPLICATION''] ''instance'' [] RObject [Static QCoreApplication],
     Bind [TypeM ''QTCORE_QABSTRACTEVENTDISPATCHER'', TypeM ''QTCORE_QTHREAD''] ''instance'' [PNonNull ''QThread*''] RObject [Static ''QAbstractEventDispatcher''],
     Bind [] ''isAbsolutePath'' [PString True] RBool [Static QDir],
     Bind [] ''isLeapYear'' [PInt] RBool [Static QDate],
     Bind [] ''isMonotonic'' [] RBool [Static QElapsedTimer],
     Bind [] ''isQuitLockEnabled'' [] RBool [Static QCoreApplication],
     Bind [] ''isRelativePath'' [PString True] RBool [Static QDir]]"

definition meth_qtcore_0_15 :: "binding list" where
  "meth_qtcore_0_15 = [
     Bind [] ''isRunning'' [] RBool [OnObject ''QEventLoop''],
     Bind [] ''isSequential'' [] RBool [OnObject ''QFileDevice''],
     Bind [] ''isSetuidAllowed'' [] RBool [Static QCoreApplication],
     Bind [] ''isValid'' [PInt, PInt, PInt] RBool [Static QDate],
     Bind [] ''libraryPaths'' [] (RList (IMeta QString)) [Static QCoreApplication],
     Bind [] ''link'' [PString True] RBool [OnObject ''QFile''],
     Bind [] ''link'' [PString True, PString True] RBool [Static ''QFile''],
     Bind [] ''loopCount'' [] RNumber [OnObject QAbstractAnimation]]"

definition meth_qtcore_0_16 :: "binding list" where
  "meth_qtcore_0_16 = [
     Bind [ValueM QTCORE_QMODELINDEX] ''mapFromSource'' [PConv QModelIndex] (RValue QModelIndex) [OnObject QConcatenateTablesProxyModel],
     Bind [ValueM ''QTCORE_QITEMSELECTION''] ''mapSelectionFromSource'' [PConv QItemSelection] (RValue QItemSelection) [OnObject QAbstractProxyModel],
     Bind [ValueM ''QTCORE_QITEMSELECTION''] ''mapSelectionToSource'' [PConv QItemSelection] (RValue QItemSelection) [OnObject QAbstractProxyModel],
     Bind [ValueM QTCORE_QMODELINDEX] ''mapToSource'' [PConv QModelIndex] (RValue QModelIndex) [OnObject QConcatenateTablesProxyModel],
     Bind [] ''match'' [PString True, PString True] RBool [Static QDir],
     Bind [] ''match'' [PStringList, PString True] RBool [Static QDir]]"

definition meth_qtcore_0_17 :: "binding list" where
  "meth_qtcore_0_17 = [
     Bind [] ''maxSize'' [] (RMeta ''qsizetype'') [Static QByteArray],
     Bind [] ''mimeTypes'' [] (RList (IMeta QString)) [OnObject QAbstractItemModel, OnObject QAbstractProxyModel, OnObject QConcatenateTablesProxyModel],
     Bind [ValueM QTCORE_QMODELINDEX] ''moveColumn'' [PConv QModelIndex, PInt, PConv QModelIndex, PInt] RBool [OnObject QAbstractItemModel],
     Bind [ValueM QTCORE_QMODELINDEX] ''moveColumns'' [PConv QModelIndex, PInt, PInt, PConv QModelIndex, PInt] RBool [OnObject QAbstractItemModel],
     Bind [ValueM QTCORE_QMODELINDEX] ''moveRow'' [PConv QModelIndex, PInt, PConv QModelIndex, PInt] RBool [OnObject QAbstractItemModel]]"

definition meth_qtcore_0_18 :: "binding list" where
  "meth_qtcore_0_18 = [
     Bind [ValueM QTCORE_QMODELINDEX] ''moveRows'' [PConv QModelIndex, PInt, PInt, PConv QModelIndex, PInt] RBool [OnObject QAbstractItemModel],
     Bind [] ''moveToTrash'' [] RBool [OnObject ''QFile''],
     Bind [ValueM QTCORE_QMODELINDEX, ValueM ''QTCORE_QMODELROLEDATASPAN''] ''multiData'' [PConv QModelIndex, PConv ''QModelRoleDataSpan''] RVoid [OnObject QAbstractItemModel],
     Bind [] ''organizationDomain'' [] RString [Static QCoreApplication],
     Bind [] ''organizationName'' [] RString [Static QCoreApplication],
     Bind [TypeM QTCORE_QOBJECT] ''parent'' [] RObject [OnObject QAbstractItemModel, OnObject ''QAbstractListModel'', OnObject ''QAbstractTableModel'']]"

definition meth_qtcore_0_19 :: "binding list" where
  "meth_qtcore_0_19 = [
     Bind [ValueM QTCORE_QMODELINDEX] ''parent'' [PConv QModelIndex] (RValue QModelIndex) [OnObject QConcatenateTablesProxyModel],
     Bind [] ''pause'' [] RVoid [OnObject QAbstractAnimation],
     Bind [] ''pos'' [] (RMeta ''qint64'') [OnObject ''QBuffer'', OnObject ''QFileDevice''],
     Bind [] ''quit'' [] RVoid [OnObject ''QEventLoop''],
     Bind [] ''quit'' [] RVoid [Static QCoreApplication],
     Bind [] ''registerEventType'' [PInt] RNumber [Static ''QEvent''],
     Bind [EnumM ''QT_TIMERTYPE'', TypeM QTCORE_QOBJECT] ''registerTimer'' [PWide ''qint64'', PConv ''Qt::TimerType'', PNonNull QObject_ptr] RNumber [OnObject ''QAbstractEventDispatcher'']]"

definition meth_qtcore_0_20 :: "binding list" where
  "meth_qtcore_0_20 = [
     Bind [] ''remove'' [] RBool [OnObject ''QFile''],
     Bind [] ''remove'' [PString True] RBool [Static ''QFile''],
     Bind [TypeM QTCORE_QABSTRACTANIMATION] ''removeAnimation'' [PNonNull ''QAbstractAnimation*''] RVoid [OnObject ''QAnimationGroup''],
     Bind [ValueM QTCORE_QMODELINDEX] ''removeColumn'' [PInt, PConv QModelIndex] RBool [OnObject QAbstractItemModel],
     Bind [ValueM QTCORE_QMODELINDEX] ''removeColumns'' [PInt, PInt, PConv QModelIndex] RBool [OnObject QAbstractItemModel],
     Bind [] ''removeLibraryPath'' [PString True] RVoid [Static QCoreApplication]]"

definition meth_qtcore_0_21 :: "binding list" where
  "meth_qtcore_0_21 = [
     Bind [TypeM QTCORE_QOBJECT] ''removePostedEvents'' [PNonNull QObject_ptr, PInt] RVoid [Static QCoreApplication],
     Bind [ValueM QTCORE_QMODELINDEX] ''removeRow'' [PInt, PConv QModelIndex] RBool [OnObject QAbstractItemModel],
     Bind [ValueM QTCORE_QMODELINDEX] ''removeRows'' [PInt, PInt, PConv QModelIndex] RBool [OnObject QAbstractItemModel],
     Bind [TypeM ''QTCORE_QTRANSLATOR''] ''removeTranslator'' [PNonNull ''QTranslator*''] RBool [Static QCoreApplication],
     Bind [] ''rename'' [PString True] RBool [OnObject ''QFile''],
     Bind [] ''rename'' [PString True, PString True] RBool [Static ''QFile'']]"

definition meth_qtcore_0_22 :: "binding list" where
  "meth_qtcore_0_22 = [
     Bind [] ''resize'' [PString True, PWide ''qint64''] RBool [Static ''QFile''],
     Bind [] ''resize'' [PWide ''qint64''] RBool [OnObject ''QFile'', OnObject ''QFileDevice''],
     Bind [] ''resume'' [] RVoid [OnObject QAbstractAnimation],
     Bind [] ''revert'' [] RVoid [OnObject QAbstractItemModel, OnObject QAbstractProxyModel],
     Bind [ValueM QTCORE_QDIR] ''root'' [] (RValue QDir) [Static QDir],
     Bind [] ''rootPath'' [] RString [Static QDir],
     Bind [ValueM QTCORE_QMODELINDEX] ''rowCount'' [PConv QModelIndex] RNumber [OnObject QConcatenateTablesProxyModel]]"

definition meth_qtcore_0_23 :: "binding list" where
  "meth_qtcore_0_23 = [
     Bind [] ''searchPaths'' [PString True] (RList (IMeta QString)) [Static QDir],
     Bind [] ''seek'' [PWide ''qint64''] RBool [OnObject ''QBuffer'', OnObject ''QFileDevice''],
     Bind [TypeM QTCORE_QOBJECT] ''sendPostedEvents'' [PNonNull QObject_ptr, PInt] RVoid [Static QCoreApplication],
     Bind [] ''setApplicationName'' [PString True] RVoid [Static QCoreApplication],
     Bind [] ''setApplicationVersion'' [PString True] RVoid [Static QCoreApplication],
     Bind [EnumM ''QT_APPLICATIONATTRIBUTE''] ''setAttribute'' [PConv ''Qt::ApplicationAttribute'', PBool] RVoid [Static QCoreApplication]]"

definition meth_qtcore_0_24 :: "binding list" where
  "meth_qtcore_0_24 = [
     Bind [] ''setCurrent'' [PString True] RBool [Static QDir],
     Bind [] ''setCurrentTime'' [PInt] RVoid [OnObject QAbstractAnimation],
     Bind [ValueM QTCORE_QBYTEARRAY] ''setData'' [PConv QByteArray] RVoid [OnObject ''QBuffer'', OnObject ''QBuffer''],
     Bind [ValueM QTCORE_QMODELINDEX] ''setData'' [PConv QModelIndex, PVariant, PInt] RBool [OnObject QAbstractItemModel, OnObject QAbstractProxyModel, OnObject QConcatenateTablesProxyModel],
     Bind [TypeM QTCORE_QABSTRACTANIMATION] ''setDirection'' [PConv ''QAbstractAnimation::Direction''] RVoid [OnObject QAbstractAnimation],
     Bind [TypeM ''QTCORE_QABSTRACTEVENTDISPATCHER''] ''setEventDispatcher'' [PNonNull ''QAbstractEventDispatcher*''] RVoid [Static QCoreApplication]]"

definition meth_qtcore_0_25 :: "binding list" where
  "meth_qtcore_0_25 = [
     Bind [] ''setFileName'' [PString True] RVoid [OnObject ''QFile''],
     Bind [TypeM ''QTCORE_QFILEDEVICE'', ValueM QTCORE_QDATETIME] ''setFileTime'' [PConv QDateTime, PConv ''QFileDevice::FileTime''] RBool [OnObject ''QFileDevice''],
     Bind [EnumM QT_ORIENTATION] ''setHeaderData'' [PInt, PConv Qt_Orientation, PVariant, PInt] RBool [OnObject QAbstractItemModel, OnObject QAbstractProxyModel],
     Bind [] ''setLibraryPaths'' [PStringList] RVoid [Static QCoreApplication],
     Bind [] ''setLoopCount'' [PInt] RVoid [OnObject QAbstractAnimation],
     Bind [] ''setOrganizationDomain'' [PString True] RVoid [Static QCoreApplication]]"

definition meth_qtcore_0_26 :: "binding list" where
  "meth_qtcore_0_26 = [
     Bind [] ''setOrganizationName'' [PString True] RVoid [Static QCoreApplication],
     Bind [] ''setPaused'' [PBool] RVoid [OnObject QAbstractAnimation],
     Bind [] ''setQuitLockEnabled'' [PBool] RVoid [Static QCoreApplication],
     Bind [] ''setSearchPaths'' [PString True, PStringList] RVoid [Static QDir],
     Bind [] ''setSetuidAllowed'' [PBool] RVoid [Static QCoreApplication],
     Bind [TypeM QTCORE_QABSTRACTITEMMODEL] ''setSourceModel'' [PNonNull QAbstractItemModel_ptr] RVoid [OnObject QAbstractProxyModel]]"

definition meth_qtcore_0_27 :: "binding list" where
  "meth_qtcore_0_27 = [
     Bind [TypeM ''QTCORE_QCOMMANDLINEPARSER''] ''showMessageAndExit'' [PConv ''QCommandLineParser::MessageType'', PString True, PInt] RVoid [Static QCommandLineParser],
     Bind [ValueM QTCORE_QMODELINDEX] ''sibling'' [PInt, PInt, PConv QModelIndex] (RValue QModelIndex) [OnObject QAbstractItemModel, OnObject ''QAbstractListModel'', OnObject QAbstractProxyModel, OnObject ''QAbstractTableModel''],
     Bind [] ''size'' [] (RMeta ''qint64'') [OnObject ''QBuffer'', OnObject ''QFile'', OnObject ''QFileDevice''],
     Bind [EnumM ''QT_SORTORDER''] ''sort'' [PInt, PConv ''Qt::SortOrder''] RVoid [OnObject QAbstractItemModel, OnObject QAbstractProxyModel]]"

definition meth_qtcore_0_28 :: "binding list" where
  "meth_qtcore_0_28 = [
     Bind [TypeM QTCORE_QABSTRACTITEMMODEL] ''sourceModel'' [] RObject [OnObject QAbstractProxyModel],
     Bind [TypeM QTCORE_QABSTRACTITEMMODEL] ''sourceModels'' [] (RList IObject) [OnObject QConcatenateTablesProxyModel],
     Bind [ValueM QTCORE_QMODELINDEX, ValueM QTCORE_QSIZE] ''span'' [PConv QModelIndex] (RValue QSize) [OnObject QAbstractItemModel, OnObject QAbstractProxyModel, OnObject QConcatenateTablesProxyModel],
     Bind [TypeM QTCORE_QABSTRACTANIMATION] ''start'' [PConv ''QAbstractAnimation::DeletionPolicy''] RVoid [OnObject QAbstractAnimation],
     Bind [] ''startingUp'' [] RBool [Static QCoreApplication],
     Bind [] ''startingUp'' [] RVoid [OnObject ''QAbstractEventDispatcher'']]"

definition meth_qtcore_0_29 :: "binding list" where
  "meth_qtcore_0_29 = [
     Bind [TypeM QTCORE_QABSTRACTANIMATION] ''state'' [] (RMeta ''QAbstractAnimation::State'') [OnObject QAbstractAnimation],
     Bind [] ''stop'' [] RVoid [OnObject QAbstractAnimation],
     Bind [] ''submit'' [] RBool [OnObject QAbstractItemModel, OnObject QAbstractProxyModel],
     Bind [EnumM QT_DROPACTIONS] ''supportedDragActions'' [] (RMeta Qt_DropActions) [OnObject QAbstractItemModel, OnObject QAbstractProxyModel],
     Bind [EnumM QT_DROPACTIONS] ''supportedDropActions'' [] (RMeta Qt_DropActions) [OnObject QAbstractItemModel, OnObject QAbstractProxyModel],
     Bind [TypeM ''QTCORE_QCRYPTOGRAPHICHASH''] ''supportsAlgorithm'' [PConv ''QCryptographicHash::Algorithm''] RBool [Static ''QCryptographicHash''],
     Bind [] ''supportsMoveToTrash'' [] RBool [Static ''QFile'']]"

definition meth_qtcore_0_30 :: "binding list" where
  "meth_qtcore_0_30 = [
     Bind [] ''symLinkTarget'' [] RString [OnObject ''QFile''],
     Bind [] ''symLinkTarget'' [PString True] RString [Static ''QFile''],
     Bind [TypeM QTCORE_QABSTRACTANIMATION] ''takeAnimation'' [PInt] RObject [OnObject ''QAnimationGroup''],
     Bind [ValueM QTCORE_QDIR] ''temp'' [] (RValue QDir) [Static QDir],
     Bind [] ''tempPath'' [] RString [Static QDir],
     Bind [EnumM ''QT_APPLICATIONATTRIBUTE''] ''testAttribute'' [PConv ''Qt::ApplicationAttribute''] RBool [Static QCoreApplication],
     Bind [] ''toNativeSeparators'' [PString True] RString [Static QDir],
     Bind [] ''totalDuration'' [] RNumber [OnObject QAbstractAnimation]]"

definition meth_qtcore_0_31 :: "binding list" where
  "meth_qtcore_0_31 = [
     Bind [] ''unsetError'' [] RVoid [OnObject ''QFileDevice''],
     Bind [] ''wakeUp'' [] RVoid [OnObject ''QEventLoop'']]"

definition meth_qtcore_1_0 :: "binding list" where
  "meth_qtcore_1_0 = [
     Bind [TypeM QTCORE_QOBJECT] ''add'' [PNonNull QObject_ptr] RObject [OnObject ''QObjectCleanupHandler''],
     Bind [] ''addPath'' [PString True] RBool [OnObject ''QFileSystemWatcher''],
     Bind [] ''addPaths'' [PStringList] (RList (IMeta QString)) [OnObject ''QFileSystemWatcher''],
     Bind [] ''allSelectors'' [] (RList (IMeta QString)) [OnObject ''QFileSelector''],
     Bind [] ''atEnd'' [] RBool [OnObject QIODevice],
     Bind [] ''blockSignals'' [PBool] RBool [OnObject QObject],
     Bind [] ''bytesAvailable'' [] (RMeta ''qint64'') [OnObject QIODevice]]"

definition meth_qtcore_1_1 :: "binding list" where
  "meth_qtcore_1_1 = [
     Bind [] ''bytesToWrite'' [] (RMeta ''qint64'') [OnObject QIODevice],
     Bind [ValueM QTCORE_QLOCALE] ''c'' [] (RValue QLocale) [Static QLocale],
     Bind [ValueM QTCORE_QMETATYPE] ''canConvert'' [PConv QMetaType, PConv QMetaType] RBool [Static QMetaType],
     Bind [] ''canReadLine'' [] RBool [OnObject QIODevice],
     Bind [ValueM QTCORE_QMETATYPE] ''canView'' [PConv QMetaType, PConv QMetaType] RBool [Static QMetaType],
     Bind [TypeM QTCORE_QOBJECT] ''children'' [] (RList IObject) [OnObject QObject]]"

definition meth_qtcore_1_2 :: "binding list" where
  "meth_qtcore_1_2 = [
     Bind [] ''clear'' [] RVoid [OnObject QItemSelectionModel, OnObject ''QMimeData'', OnObject ''QObjectCleanupHandler''],
     Bind [] ''clearCurrentIndex'' [] RVoid [OnObject QItemSelectionModel],
     Bind [] ''clearSelection'' [] RVoid [OnObject QItemSelectionModel],
     Bind [] ''close'' [] RVoid [OnObject QIODevice],
     Bind [] ''colorData'' [] RVariant [OnObject ''QMimeData''],
     Bind [ValueM QTCORE_QMODELINDEX] ''columnCount'' [PConv QModelIndex] RNumber [OnObject QIdentityProxyModel],
     Bind [ValueM QTCORE_QMODELINDEX] ''columnIntersectsSelection'' [PInt, PConv QModelIndex] RBool [OnObject QItemSelectionModel]]"

definition meth_qtcore_1_3 :: "binding list" where
  "meth_qtcore_1_3 = [
     Bind [] ''commitTransaction'' [] RVoid [OnObject QIODevice],
     Bind [TypeM QTCORE_QLOCALE] ''countryToCode'' [PConv ''QLocale::Country''] RString [Static QLocale],
     Bind [TypeM QTCORE_QLOCALE] ''countryToString'' [PConv ''QLocale::Country''] RString [Static QLocale],
     Bind [ValueM ''QTCORE_QOPERATINGSYSTEMVERSION''] ''current'' [] (RValue QOperatingSystemVersion) [Static QOperatingSystemVersion],
     Bind [ValueM QTCORE_QMODELINDEX] ''currentIndex'' [] (RValue QModelIndex) [OnObject QItemSelectionModel],
     Bind [] ''currentReadChannel'' [] RNumber [OnObject QIODevice],
     Bind [TypeM ''QTCORE_QOPERATINGSYSTEMVERSION''] ''currentType'' [] (RMeta ''QOperatingSystemVersion::OSType'') [Static QOperatingSystemVersion],
     Bind [] ''currentWriteChannel'' [] RNumber [OnObject QIODevice]]"

definition meth_qtcore_1_4 :: "binding list" where
  "meth_qtcore_1_4 = [
     Bind [ValueM QTCORE_QBYTEARRAY] ''data'' [PString True] (RValue QByteArray) [OnObject ''QMimeData''],
     Bind [] ''deleteLater'' [] RVoid [OnObject QObject],
     Bind [] ''directories'' [] (RList (IMeta QString)) [OnObject ''QFileSystemWatcher''],
     Bind [ValueM QTCORE_QPOINT] ''dotProduct'' [PConv QPoint, PConv QPoint] RNumber [Static QPoint],
     Bind [ValueM QTCORE_QPOINTF] ''dotProduct'' [PConv QPointF, PConv QPointF] RNumber [Static QPointF],
     Bind [EnumM QT_DROPACTION, TypeM QTCORE_QMIMEDATA, ValueM QTCORE_QMODELINDEX] ''dropMimeData'' [PNonNull ''QMimeData*'', PConv Qt_DropAction, PInt, PInt, PConv QModelIndex] RBool [OnObject QIdentityProxyModel]]"

definition meth_qtcore_1_5 :: "binding list" where
  "meth_qtcore_1_5 = [
     Bind [] ''dumpObjectInfo'' [] RVoid [OnObject QObject],
     Bind [] ''dumpObjectTree'' [] RVoid [OnObject QObject],
     Bind [] ''duration'' [] RNumber [OnObject ''QParallelAnimationGroup'', OnObject ''QPauseAnimation''],
     Bind [ValueM QTCORE_QBYTEARRAY] ''dynamicPropertyNames'' [] (RList (IValue QByteArray)) [OnObject QObject],
     Bind [] ''errorString'' [] RString [OnObject QIODevice, OnObject ''QLibrary'', OnObject ''QPluginLoader''],
     Bind [] ''extraSelectors'' [] (RList (IMeta QString)) [OnObject ''QFileSelector''],
     Bind [] ''fileName'' [] RString [OnObject ''QLibrary'', OnObject ''QPluginLoader'']]"

definition meth_qtcore_1_6 :: "binding list" where
  "meth_qtcore_1_6 = [
     Bind [] ''files'' [] (RList (IMeta QString)) [OnObject ''QFileSystemWatcher''],
     Bind [] ''formats'' [] (RList (IMeta QString)) [OnObject ''QMimeData''],
     Bind [ValueM ''QTCORE_QKEYCOMBINATION''] ''fromCombined'' [PInt] (RValue QKeyCombination) [Static QKeyCombination],
     Bind [ValueM ''QTCORE_QLINEF''] ''fromPolar'' [PReal ''qreal'', PReal ''qreal''] (RValue QLineF) [Static QLineF],
     Bind [ValueM QTCORE_QNATIVEIPCKEY] ''fromString'' [PString True] (RValue QNativeIpcKey) [Static QNativeIpcKey],
     Bind [ValueM ''QTCORE_QJSONDOCUMENT''] ''fromVariant'' [PVariant] (RValue QJsonDocument) [Static QJsonDocument]]"

definition meth_qtcore_1_7 :: "binding list" where
  "meth_qtcore_1_7 = [
     Bind [ValueM ''QTCORE_QJSONVALUE''] ''fromVariant'' [PVariant] (RValue QJsonValue) [Static QJsonValue],
     Bind [] ''handleSourceDataChanges'' [] RBool [OnObject QIdentityProxyModel],
     Bind [] ''handleSourceLayoutChanges'' [] RBool [OnObject QIdentityProxyModel],
     Bind [] ''hasColor'' [] RBool [OnObject ''QMimeData''],
     Bind [] ''hasFormat'' [PString True] RBool [OnObject ''QMimeData''],
     Bind [] ''hasHtml'' [] RBool [OnObject ''QMimeData''],
     Bind [] ''hasImage'' [] RBool [OnObject ''QMimeData''],
     Bind [] ''hasSelection'' [] RBool [OnObject QItemSelectionModel]]"

definition meth_qtcore_1_8 :: "binding list" where
  "meth_qtcore_1_8 = [
     Bind [] ''hasText'' [] RBool [OnObject ''QMimeData''],
     Bind [] ''hasUrls'' [] RBool [OnObject ''QMimeData''],
     Bind [EnumM QT_ORIENTATION] ''headerData'' [PInt, PConv Qt_Orientation, PInt] RVariant [OnObject QIdentityProxyModel],
     Bind [] ''html'' [] RString [OnObject ''QMimeData''],
     Bind [] ''imageData'' [] RVariant [OnObject ''QMimeData''],
     Bind [ValueM QTCORE_QMODELINDEX] ''index'' [PInt, PInt, PConv QModelIndex] (RValue QModelIndex) [OnObject QIdentityProxyModel],
     Bind [ValueM QTCORE_QMODELINDEX] ''insertColumns'' [PInt, PInt, PConv QModelIndex] RBool [OnObject QIdentityProxyModel]]"

definition meth_qtcore_1_9 :: "binding list" where
  "meth_qtcore_1_9 = [
     Bind [ValueM QTCORE_QMODELINDEX] ''insertRows'' [PInt, PInt, PConv QModelIndex] RBool [OnObject QIdentityProxyModel],
     Bind [TypeM QTCORE_QOBJECT] ''installEventFilter'' [PNonNull QObject_ptr] RVoid [OnObject QObject],
     Bind [TypeM QTCORE_QOBJECT] ''instance'' [] RObject [OnObject ''QPluginLoader''],
     Bind [ValueM QTCORE_QMODELINDEX] ''isColumnSelected'' [PInt, PConv QModelIndex] RBool [OnObject QItemSelectionModel],
     Bind [] ''isDebugBuild'' [] RBool [Static ''QLibraryInfo''],
     Bind [] ''isEmpty'' [] RBool [OnObject ''QObjectCleanupHandler''],
     Bind [] ''isLibrary'' [PString True] RBool [Static ''QLibrary'']]"

definition meth_qtcore_1_10 :: "binding list" where
  "meth_qtcore_1_10 = [
     Bind [] ''isLoaded'' [] RBool [OnObject ''QLibrary'', OnObject ''QPluginLoader''],
     Bind [] ''isOpen'' [] RBool [OnObject QIODevice],
     Bind [] ''isQmlExposed'' [] RBool [OnObject QObject],
     Bind [] ''isQuickItemType'' [] RBool [OnObject QObject],
     Bind [] ''isReadable'' [] RBool [OnObject QIODevice],
     Bind [] ''isRegistered'' [PInt] RBool [Static QMetaType],
     Bind [ValueM QTCORE_QMODELINDEX] ''isRowSelected'' [PInt, PConv QModelIndex] RBool [OnObject QItemSelectionModel],
     Bind [ValueM QTCORE_QMODELINDEX] ''isSelected'' [PConv QModelIndex] RBool [OnObject QItemSelectionModel]]"

definition meth_qtcore_1_11 :: "binding list" where
  "meth_qtcore_1_11 = [
     Bind [] ''isSequential'' [] RBool [OnObject QIODevice],
     Bind [] ''isSharedBuild'' [] RBool [Static ''QLibraryInfo''],
     Bind [] ''isTextModeEnabled'' [] RBool [OnObject QIODevice],
     Bind [] ''isTransactionStarted'' [] RBool [OnObject QIODevice],
     Bind [] ''isWidgetType'' [] RBool [OnObject QObject],
     Bind [] ''isWindowType'' [] RBool [OnObject QObject],
     Bind [] ''isWritable'' [] RBool [OnObject QIODevice],
     Bind [] ''killTimer'' [PInt] RVoid [OnObject QObject]]"

definition meth_qtcore_1_12 :: "binding list" where
  "meth_qtcore_1_12 = [
     Bind [TypeM QTCORE_QLOCALE] ''languageToString'' [PConv ''QLocale::Language''] RString [Static QLocale],
     Bind [TypeM QTCORE_QNATIVEIPCKEY] ''legacyDefaultTypeForOs'' [] (RMeta ''QNativeIpcKey::Type'') [Static QNativeIpcKey],
     Bind [] ''load'' [] RBool [OnObject ''QLibrary'', OnObject ''QPluginLoader''],
     Bind [ValueM QTCORE_QMODELINDEX] ''mapFromSource'' [PConv QModelIndex] (RValue QModelIndex) [OnObject QIdentityProxyModel],
     Bind [ValueM ''QTCORE_QITEMSELECTION''] ''mapSelectionFromSource'' [PConv QItemSelection] (RValue QItemSelection) [OnObject QIdentityProxyModel],
     Bind [ValueM ''QTCORE_QITEMSELECTION''] ''mapSelectionToSource'' [PConv QItemSelection] (RValue QItemSelection) [OnObject QIdentityProxyModel]]"

definition meth_qtcore_1_13 :: "binding list" where
  "meth_qtcore_1_13 = [
     Bind [ValueM QTCORE_QMODELINDEX] ''mapToSource'' [PConv QModelIndex] (RValue QModelIndex) [OnObject QIdentityProxyModel],
     Bind [TypeM QTCORE_QLOCALE, ValueM QTCORE_QLOCALE] ''matchingLocales'' [PConv ''QLocale::Language'', PConv ''QLocale::Script'', PConv ''QLocale::Territory''] (RList (IValue QLocale)) [Static QLocale],
     Bind [TypeM QTCORE_QABSTRACTITEMMODEL] ''model'' [] RObject [OnObject QItemSelectionModel],
     Bind [ValueM QTCORE_QMODELINDEX] ''moveColumns'' [PConv QModelIndex, PInt, PInt, PConv QModelIndex, PInt] RBool [OnObject QIdentityProxyModel],
     Bind [ValueM QTCORE_QMODELINDEX] ''moveRows'' [PConv QModelIndex, PInt, PInt, PConv QModelIndex, PInt] RBool [OnObject QIdentityProxyModel]]"

definition meth_qtcore_1_14 :: "binding list" where
  "meth_qtcore_1_14 = [
     Bind [TypeM ''QTCORE_QTHREAD''] ''moveToThread'' [PNonNull ''QThread*''] RVoid [OnObject QObject],
     Bind [] ''objectName'' [] RString [OnObject QObject],
     Bind [TypeM QTCORE_QOBJECT] ''parent'' [] RObject [OnObject QObject],
     Bind [ValueM QTCORE_QMODELINDEX] ''parent'' [PConv QModelIndex] (RValue QModelIndex) [OnObject QIdentityProxyModel],
     Bind [TypeM ''QTCORE_QLIBRARYINFO''] ''path'' [PConv ''QLibraryInfo::LibraryPath''] RString [Static ''QLibraryInfo''],
     Bind [TypeM ''QTCORE_QLIBRARYINFO''] ''paths'' [PConv ''QLibraryInfo::LibraryPath''] (RList (IMeta QString)) [Static ''QLibraryInfo''],
     Bind [] ''pos'' [] (RMeta ''qint64'') [OnObject QIODevice]]"

definition meth_qtcore_1_15 :: "binding list" where
  "meth_qtcore_1_15 = [
     Bind [ValueM QTCORE_QBYTEARRAY] ''readAll'' [] (RValue QByteArray) [OnObject QIODevice],
     Bind [] ''readChannelCount'' [] RNumber [OnObject QIODevice],
     Bind [TypeM QTCORE_QOBJECT] ''remove'' [PNonNull QObject_ptr] RVoid [OnObject ''QObjectCleanupHandler''],
     Bind [ValueM QTCORE_QMODELINDEX] ''removeColumns'' [PInt, PInt, PConv QModelIndex] RBool [OnObject QIdentityProxyModel],
     Bind [TypeM QTCORE_QOBJECT] ''removeEventFilter'' [PNonNull QObject_ptr] RVoid [OnObject QObject],
     Bind [] ''removeFormat'' [PString True] RVoid [OnObject ''QMimeData''],
     Bind [] ''removePath'' [PString True] RBool [OnObject ''QFileSystemWatcher'']]"

definition meth_qtcore_1_16 :: "binding list" where
  "meth_qtcore_1_16 = [
     Bind [] ''removePaths'' [PStringList] (RList (IMeta QString)) [OnObject ''QFileSystemWatcher''],
     Bind [ValueM QTCORE_QMODELINDEX] ''removeRows'' [PInt, PInt, PConv QModelIndex] RBool [OnObject QIdentityProxyModel],
     Bind [] ''reset'' [] RBool [OnObject QIODevice],
     Bind [] ''reset'' [] RVoid [OnObject QItemSelectionModel],
     Bind [] ''rollbackTransaction'' [] RVoid [OnObject QIODevice],
     Bind [ValueM QTCORE_QMODELINDEX] ''rowCount'' [PConv QModelIndex] RNumber [OnObject QIdentityProxyModel],
     Bind [ValueM QTCORE_QMODELINDEX] ''rowIntersectsSelection'' [PInt, PConv QModelIndex] RBool [OnObject QItemSelectionModel]]"

definition meth_qtcore_1_17 :: "binding list" where
  "meth_qtcore_1_17 = [
     Bind [TypeM QTCORE_QLOCALE] ''scriptToCode'' [PConv ''QLocale::Script''] RString [Static QLocale],
     Bind [TypeM QTCORE_QLOCALE] ''scriptToString'' [PConv ''QLocale::Script''] RString [Static QLocale],
     Bind [] ''seek'' [PWide ''qint64''] RBool [OnObject QIODevice],
     Bind [] ''select'' [PString True] RString [OnObject ''QFileSelector''],
     Bind [ValueM QTCORE_QURL] ''select'' [PConv QUrl] (RValue QUrl) [OnObject ''QFileSelector''],
     Bind [ValueM ''QTCORE_QITEMSELECTION''] ''selection'' [] (RValue QItemSelection) [OnObject QItemSelectionModel],
     Bind [] ''setColorData'' [PVariant] RVoid [OnObject ''QMimeData'']]"

definition meth_qtcore_1_18 :: "binding list" where
  "meth_qtcore_1_18 = [
     Bind [] ''setCurrentReadChannel'' [PInt] RVoid [OnObject QIODevice],
     Bind [] ''setCurrentWriteChannel'' [PInt] RVoid [OnObject QIODevice],
     Bind [ValueM QTCORE_QBYTEARRAY] ''setData'' [PString True, PConv QByteArray] RVoid [OnObject ''QMimeData''],
     Bind [ValueM QTCORE_QLOCALE] ''setDefault'' [PConv QLocale] RVoid [Static QLocale],
     Bind [] ''setDuration'' [PInt] RVoid [OnObject ''QPauseAnimation''],
     Bind [] ''setExtraSelectors'' [PStringList] RVoid [OnObject ''QFileSelector'']]"

definition meth_qtcore_1_19 :: "binding list" where
  "meth_qtcore_1_19 = [
     Bind [] ''setFileName'' [PString True] RVoid [OnObject ''QLibrary'', OnObject ''QPluginLoader''],
     Bind [] ''setFileNameAndVersion'' [PString True, PString True] RVoid [OnObject ''QLibrary''],
     Bind [] ''setFileNameAndVersion'' [PString True, PInt] RVoid [OnObject ''QLibrary''],
     Bind [] ''setFilterRules'' [PString True] RVoid [Static ''QLoggingCategory''],
     Bind [] ''setHtml'' [PString True] RVoid [OnObject ''QMimeData''],
     Bind [] ''setImageData'' [PVariant] RVoid [OnObject ''QMimeData''],
     Bind [TypeM QTCORE_QABSTRACTITEMMODEL] ''setModel'' [PNonNull QAbstractItemModel_ptr] RVoid [OnObject QItemSelectionModel]]"

definition meth_qtcore_1_20 :: "binding list" where
  "meth_qtcore_1_20 = [
     Bind [TypeM QTCORE_QOBJECT] ''setParent'' [PNonNull QObject_ptr] RVoid [OnObject QObject],
     Bind [TypeM QTCORE_QABSTRACTITEMMODEL] ''setSourceModel'' [PNonNull QAbstractItemModel_ptr] RVoid [OnObject QIdentityProxyModel],
     Bind [] ''setText'' [PString True] RVoid [OnObject ''QMimeData''],
     Bind [] ''setTextModeEnabled'' [PBool] RVoid [OnObject QIODevice],
     Bind [ValueM QTCORE_QURL] ''setUrls'' [PListV QUrl] RVoid [OnObject ''QMimeData''],
     Bind [ValueM QTCORE_QMODELINDEX] ''sibling'' [PInt, PInt, PConv QModelIndex] (RValue QModelIndex) [OnObject QIdentityProxyModel]]"

definition meth_qtcore_1_21 :: "binding list" where
  "meth_qtcore_1_21 = [
     Bind [] ''signalsBlocked'' [] RBool [OnObject QObject],
     Bind [] ''size'' [] (RMeta ''qint64'') [OnObject QIODevice],
     Bind [] ''skip'' [PWide ''qint64''] (RMeta ''qint64'') [OnObject QIODevice],
     Bind [EnumM ''QT_TIMERTYPE''] ''startTimer'' [PInt, PConv ''Qt::TimerType''] RNumber [OnObject QObject],
     Bind [] ''startTransaction'' [] RVoid [OnObject QIODevice],
     Bind [TypeM QTCORE_QOBJECT] ''staticInstances'' [] (RList IObject) [Static ''QPluginLoader''],
     Bind [ValueM QTCORE_QLOCALE] ''system'' [] (RValue QLocale) [Static QLocale]]"

definition meth_qtcore_1_22 :: "binding list" where
  "meth_qtcore_1_22 = [
     Bind [TypeM QTCORE_QLOCALE] ''territoryToCode'' [PConv ''QLocale::Territory''] RString [Static QLocale],
     Bind [TypeM QTCORE_QLOCALE] ''territoryToString'' [PConv ''QLocale::Territory''] RString [Static QLocale],
     Bind [] ''text'' [] RString [OnObject ''QMimeData''],
     Bind [TypeM ''QTCORE_QTHREAD''] ''thread'' [] RObject [OnObject QObject],
     Bind [] ''unload'' [] RBool [OnObject ''QLibrary'', OnObject ''QPluginLoader''],
     Bind [ValueM QTCORE_QURL] ''urls'' [] (RList (IValue QUrl)) [OnObject ''QMimeData''],
     Bind [ValueM ''QTCORE_QVERSIONNUMBER''] ''version'' [] (RValue QVersionNumber) [Static ''QLibraryInfo'']]"

definition meth_qtcore_1_23 :: "binding list" where
  "meth_qtcore_1_23 = [
     Bind [] ''waitForBytesWritten'' [PInt] RBool [OnObject QIODevice],
     Bind [] ''waitForReadyRead'' [PInt] RBool [OnObject QIODevice],
     Bind [] ''writeChannelCount'' [] RNumber [OnObject QIODevice]]"

definition meth_qtcore_2_0 :: "binding list" where
  "meth_qtcore_2_0 = [
     Bind [] ''activeThreadCount'' [] RNumber [OnObject ''QThreadPool''],
     Bind [TypeM ''QTCORE_QPAUSEANIMATION''] ''addPause'' [PInt] RObject [OnObject ''QSequentialAnimationGroup''],
     Bind [] ''allKeys'' [] (RList (IMeta QString)) [OnObject QSettings],
     Bind [] ''anchoredPattern'' [PString True] RString [Static QRegularExpression],
     Bind [] ''applicationName'' [] RString [OnObject QSettings],
     Bind [] ''arguments'' [] (RList (IMeta QString)) [OnObject QProcess],
     Bind [TypeM ''QTCORE_QSHAREDMEMORY''] ''attach'' [PConv ''QSharedMemory::AccessMode''] RBool [OnObject QSharedMemory],
     Bind [] ''autoAcceptChildRows'' [] RBool [OnObject QSortFilterProxyModel]]"

definition meth_qtcore_2_1 :: "binding list" where
  "meth_qtcore_2_1 = [
     Bind [TypeM ''QTCORE_QRANGEMODEL''] ''autoConnectPolicy'' [] (RMeta ''QRangeModel::AutoConnectPolicy'') [OnObject ''QRangeModel''],
     Bind [] ''autoRemove'' [] RBool [OnObject ''QTemporaryFile''],
     Bind [] ''availableCodecs'' [] (RList (IMeta QString)) [Static ''QStringConverter''],
     Bind [ValueM QTCORE_QBYTEARRAY] ''bootUniqueId'' [] (RValue QByteArray) [Static ''QSysInfo''],
     Bind [ValueM QTCORE_QMODELINDEX] ''buddy'' [PConv QModelIndex] (RValue QModelIndex) [OnObject ''QRangeModel'', OnObject QSortFilterProxyModel],
     Bind [] ''buildAbi'' [] RString [Static ''QSysInfo''],
     Bind [] ''buildCpuArchitecture'' [] RString [Static ''QSysInfo'']]"

definition meth_qtcore_2_2 :: "binding list" where
  "meth_qtcore_2_2 = [
     Bind [] ''bytesToWrite'' [] (RMeta ''qint64'') [OnObject QProcess],
     Bind [EnumM QT_DROPACTION, TypeM QTCORE_QMIMEDATA, ValueM QTCORE_QMODELINDEX] ''canDropMimeData'' [PNonNull ''QMimeData*'', PConv Qt_DropAction, PInt, PInt, PConv QModelIndex] RBool [OnObject ''QRangeModel''],
     Bind [ValueM QTCORE_QMODELINDEX] ''canFetchMore'' [PConv QModelIndex] RBool [OnObject ''QRangeModel'', OnObject QSortFilterProxyModel],
     Bind [] ''cancelWriting'' [] RVoid [OnObject ''QSaveFile''],
     Bind [] ''childGroups'' [] (RList (IMeta QString)) [OnObject QSettings],
     Bind [] ''childKeys'' [] (RList (IMeta QString)) [OnObject QSettings]]"

definition meth_qtcore_2_3 :: "binding list" where
  "meth_qtcore_2_3 = [
     Bind [] ''clear'' [] RVoid [OnObject QSettings, OnObject ''QThreadPool''],
     Bind [ValueM QTCORE_QMODELINDEX] ''clearItemData'' [PConv QModelIndex] RBool [OnObject ''QRangeModel'', OnObject QStringListModel],
     Bind [] ''close'' [] RVoid [OnObject QProcess],
     Bind [TypeM ''QTCORE_QPROCESS''] ''closeReadChannel'' [PConv ''QProcess::ProcessChannel''] RVoid [OnObject QProcess],
     Bind [] ''closeWriteChannel'' [] RVoid [OnObject QProcess],
     Bind [ValueM QTCORE_QMODELINDEX] ''columnCount'' [PConv QModelIndex] RNumber [OnObject QSortFilterProxyModel],
     Bind [] ''commit'' [] RBool [OnObject ''QSaveFile'']]"

definition meth_qtcore_2_4 :: "binding list" where
  "meth_qtcore_2_4 = [
     Bind [TypeM ''QTCORE_QTHREAD''] ''contains'' [PNonNull ''QThread*''] RBool [OnObject ''QThreadPool''],
     Bind [TypeM ''QTCORE_QSHAREDMEMORY''] ''create'' [PWide ''qsizetype'', PConv ''QSharedMemory::AccessMode''] RBool [OnObject QSharedMemory],
     Bind [TypeM ''QTCORE_QTEMPORARYFILE''] ''createNativeFile'' [PString True] RObject [Static ''QTemporaryFile''],
     Bind [TypeM QTCORE_QABSTRACTANIMATION] ''currentAnimation'' [] RObject [OnObject ''QSequentialAnimationGroup''],
     Bind [] ''currentCpuArchitecture'' [] RString [Static ''QSysInfo''],
     Bind [TypeM ''QTCORE_QTHREAD''] ''currentThread'' [] RObject [Static ''QThread'']]"

definition meth_qtcore_2_5 :: "binding list" where
  "meth_qtcore_2_5 = [
     Bind [ValueM QTCORE_QMODELINDEX] ''data'' [PConv QModelIndex, PInt] RVariant [OnObject ''QRangeModel'', OnObject QSortFilterProxyModel, OnObject QStringListModel],
     Bind [TypeM ''QTCORE_QSETTINGS''] ''defaultFormat'' [] (RMeta ''QSettings::Format'') [Static QSettings],
     Bind [] ''detach'' [] RBool [OnObject QSharedMemory],
     Bind [] ''directWriteFallback'' [] RBool [OnObject ''QSaveFile''],
     Bind [TypeM ''QTCORE_QSTANDARDPATHS''] ''displayName'' [PConv ''QStandardPaths::StandardLocation''] RString [Static ''QStandardPaths''],
     Bind [EnumM QT_DROPACTION, TypeM QTCORE_QMIMEDATA, ValueM QTCORE_QMODELINDEX] ''dropMimeData'' [PNonNull ''QMimeData*'', PConv Qt_DropAction, PInt, PInt, PConv QModelIndex] RBool [OnObject ''QRangeModel'', OnObject QSortFilterProxyModel]]"

definition meth_qtcore_2_6 :: "binding list" where
  "meth_qtcore_2_6 = [
     Bind [] ''duration'' [] RNumber [OnObject ''QSequentialAnimationGroup''],
     Bind [] ''dynamicSortFilter'' [] RBool [OnObject QSortFilterProxyModel],
     Bind [] ''endArray'' [] RVoid [OnObject QSettings],
     Bind [] ''endGroup'' [] RVoid [OnObject QSettings],
     Bind [TypeM ''QTCORE_QPROCESS''] ''error'' [] (RMeta ''QProcess::ProcessError'') [OnObject QProcess],
     Bind [TypeM ''QTCORE_QSHAREDMEMORY''] ''error'' [] (RMeta ''QSharedMemory::SharedMemoryError'') [OnObject QSharedMemory],
     Bind [] ''errorString'' [] RString [OnObject QSharedMemory],
     Bind [] ''escape'' [PString True] RString [Static QRegularExpression]]"

definition meth_qtcore_2_7 :: "binding list" where
  "meth_qtcore_2_7 = [
     Bind [TypeM ''QTCORE_QABSTRACTEVENTDISPATCHER''] ''eventDispatcher'' [] RObject [OnObject ''QThread''],
     Bind [] ''execute'' [PString True, PStringList] RNumber [Static QProcess],
     Bind [] ''exit'' [PInt] RVoid [OnObject ''QThread''],
     Bind [] ''exitCode'' [] RNumber [OnObject QProcess],
     Bind [TypeM ''QTCORE_QPROCESS''] ''exitStatus'' [] (RMeta ''QProcess::ExitStatus'') [OnObject QProcess],
     Bind [] ''expiryTimeout'' [] RNumber [OnObject ''QThreadPool''],
     Bind [] ''fallbacksEnabled'' [] RBool [OnObject QSettings]]"

definition meth_qtcore_2_8 :: "binding list" where
  "meth_qtcore_2_8 = [
     Bind [ValueM QTCORE_QMODELINDEX] ''fetchMore'' [PConv QModelIndex] RVoid [OnObject ''QRangeModel'', OnObject QSortFilterProxyModel],
     Bind [] ''fileName'' [] RString [OnObject ''QSaveFile'', OnObject QSettings, OnObject ''QTemporaryFile''],
     Bind [] ''fileTemplate'' [] RString [OnObject ''QTemporaryFile''],
     Bind [EnumM ''QT_CASESENSITIVITY''] ''filterCaseSensitivity'' [] (RMeta ''Qt::CaseSensitivity'') [OnObject QSortFilterProxyModel],
     Bind [] ''filterKeyColumn'' [] RNumber [OnObject QSortFilterProxyModel],
     Bind [ValueM QTCORE_QREGULAREXPRESSION] ''filterRegularExpression'' [] (RValue QRegularExpression) [OnObject QSortFilterProxyModel],
     Bind [] ''filterRole'' [] RNumber [OnObject QSortFilterProxyModel]]"

definition meth_qtcore_2_9 :: "binding list" where
  "meth_qtcore_2_9 = [
     Bind [] ''findExecutable'' [PString True, PStringList] RString [Static ''QStandardPaths''],
     Bind [TypeM ''QTCORE_QSETTINGS''] ''format'' [] (RMeta ''QSettings::Format'') [OnObject QSettings],
     Bind [TypeM ''QTCORE_QTHREADPOOL''] ''globalInstance'' [] RObject [Static ''QThreadPool''],
     Bind [] ''group'' [] RString [OnObject QSettings],
     Bind [ValueM QTCORE_QMODELINDEX] ''hasChildren'' [PConv QModelIndex] RBool [OnObject QSortFilterProxyModel],
     Bind [EnumM QT_ORIENTATION] ''headerData'' [PInt, PConv Qt_Orientation, PInt] RVariant [OnObject ''QRangeModel'', OnObject QSortFilterProxyModel],
     Bind [] ''idealThreadCount'' [] RNumber [Static ''QThread'']]"

definition meth_qtcore_2_10 :: "binding list" where
  "meth_qtcore_2_10 = [
     Bind [ValueM QTCORE_QMODELINDEX] ''index'' [PInt, PInt, PConv QModelIndex] (RValue QModelIndex) [OnObject QSortFilterProxyModel],
     Bind [TypeM ''QTCORE_QPROCESS''] ''inputChannelMode'' [] (RMeta ''QProcess::InputChannelMode'') [OnObject QProcess],
     Bind [ValueM QTCORE_QMODELINDEX] ''insertColumns'' [PInt, PInt, PConv QModelIndex] RBool [OnObject QSortFilterProxyModel],
     Bind [TypeM ''QTCORE_QPAUSEANIMATION''] ''insertPause'' [PInt, PInt] RObject [OnObject ''QSequentialAnimationGroup''],
     Bind [ValueM QTCORE_QMODELINDEX] ''insertRows'' [PInt, PInt, PConv QModelIndex] RBool [OnObject QSortFilterProxyModel, OnObject QStringListModel],
     Bind [] ''invalidate'' [] RVoid [OnObject QSortFilterProxyModel]]"

definition meth_qtcore_2_11 :: "binding list" where
  "meth_qtcore_2_11 = [
     Bind [] ''isAtomicSyncRequired'' [] RBool [OnObject QSettings],
     Bind [] ''isAttached'' [] RBool [OnObject QSharedMemory],
     Bind [] ''isCurrentThread'' [] RBool [OnObject ''QThread''],
     Bind [] ''isEnabled'' [] RBool [OnObject ''QSocketNotifier''],
     Bind [] ''isFinished'' [] RBool [OnObject ''QThread''],
     Bind [] ''isInterruptionRequested'' [] RBool [OnObject ''QThread''],
     Bind [TypeM QTCORE_QNATIVEIPCKEY] ''isKeyTypeSupported'' [PConv ''QNativeIpcKey::Type''] RBool [Static QSharedMemory, Static QSystemSemaphore],
     Bind [] ''isMainThread'' [] RBool [Static ''QThread'']]"

definition meth_qtcore_2_12 :: "binding list" where
  "meth_qtcore_2_12 = [
     Bind [] ''isRecursiveFilteringEnabled'' [] RBool [OnObject QSortFilterProxyModel],
     Bind [] ''isRunning'' [] RBool [OnObject ''QThread''],
     Bind [] ''isSequential'' [] RBool [OnObject QProcess],
     Bind [] ''isSortLocaleAware'' [] RBool [OnObject QSortFilterProxyModel],
     Bind [] ''isValid'' [] RBool [OnObject ''QSocketNotifier''],
     Bind [] ''isWritable'' [] RBool [OnObject QSettings],
     Bind [] ''kernelType'' [] RString [Static ''QSysInfo''],
     Bind [] ''kernelVersion'' [] RString [Static ''QSysInfo''],
     Bind [] ''key'' [] RString [OnObject QSharedMemory]]"

definition meth_qtcore_2_13 :: "binding list" where
  "meth_qtcore_2_13 = [
     Bind [] ''kill'' [] RVoid [OnObject QProcess],
     Bind [TypeM QTCORE_QNATIVEIPCKEY, ValueM QTCORE_QNATIVEIPCKEY] ''legacyNativeKey'' [PString True, PConv ''QNativeIpcKey::Type''] (RValue QNativeIpcKey) [Static QSharedMemory, Static QSystemSemaphore],
     Bind [] ''lock'' [] RBool [OnObject QSharedMemory],
     Bind [] ''loopLevel'' [] RNumber [OnObject ''QThread''],
     Bind [] ''machineHostName'' [] RString [Static ''QSysInfo''],
     Bind [ValueM QTCORE_QBYTEARRAY] ''machineUniqueId'' [] (RValue QByteArray) [Static ''QSysInfo''],
     Bind [] ''map'' [] RVoid [OnObject ''QSignalMapper'']]"

definition meth_qtcore_2_14 :: "binding list" where
  "meth_qtcore_2_14 = [
     Bind [TypeM QTCORE_QOBJECT] ''map'' [PNonNull QObject_ptr] RVoid [OnObject ''QSignalMapper''],
     Bind [ValueM QTCORE_QMODELINDEX] ''mapFromSource'' [PConv QModelIndex] (RValue QModelIndex) [OnObject QSortFilterProxyModel],
     Bind [ValueM ''QTCORE_QITEMSELECTION''] ''mapSelectionFromSource'' [PConv QItemSelection] (RValue QItemSelection) [OnObject QSortFilterProxyModel],
     Bind [ValueM ''QTCORE_QITEMSELECTION''] ''mapSelectionToSource'' [PConv QItemSelection] (RValue QItemSelection) [OnObject QSortFilterProxyModel],
     Bind [ValueM QTCORE_QMODELINDEX] ''mapToSource'' [PConv QModelIndex] (RValue QModelIndex) [OnObject QSortFilterProxyModel],
     Bind [TypeM QTCORE_QOBJECT] ''mapping'' [PNonNull QObject_ptr] RObject [OnObject ''QSignalMapper'']]"

definition meth_qtcore_2_15 :: "binding list" where
  "meth_qtcore_2_15 = [
     Bind [TypeM QTCORE_QOBJECT] ''mapping'' [PString True] RObject [OnObject ''QSignalMapper''],
     Bind [TypeM QTCORE_QOBJECT] ''mapping'' [PInt] RObject [OnObject ''QSignalMapper''],
     Bind [] ''maxThreadCount'' [] RNumber [OnObject ''QThreadPool''],
     Bind [] ''mimeTypes'' [] (RList (IMeta QString)) [OnObject ''QRangeModel'', OnObject QSortFilterProxyModel],
     Bind [ValueM ''QTCORE_QSTORAGEINFO''] ''mountedVolumes'' [] (RList (IValue QStorageInfo)) [Static QStorageInfo],
     Bind [ValueM QTCORE_QMODELINDEX] ''moveRows'' [PConv QModelIndex, PInt, PInt, PConv QModelIndex, PInt] RBool [OnObject QStringListModel]]"

definition meth_qtcore_2_16 :: "binding list" where
  "meth_qtcore_2_16 = [
     Bind [ValueM QTCORE_QMODELINDEX, ValueM ''QTCORE_QMODELROLEDATASPAN''] ''multiData'' [PConv QModelIndex, PConv ''QModelRoleDataSpan''] RVoid [OnObject ''QRangeModel''],
     Bind [] ''nativeArguments'' [] RString [OnObject QProcess],
     Bind [ValueM QTCORE_QNATIVEIPCKEY] ''nativeIpcKey'' [] (RValue QNativeIpcKey) [OnObject QSharedMemory],
     Bind [] ''nativeKey'' [] RString [OnObject QSharedMemory],
     Bind [] ''nullDevice'' [] RString [Static QProcess],
     Bind [] ''open'' [] RBool [OnObject ''QTemporaryFile''],
     Bind [] ''organizationName'' [] RString [OnObject QSettings],
     Bind [TypeM QTCORE_QOBJECT] ''parent'' [] RObject [OnObject QSortFilterProxyModel]]"

definition meth_qtcore_2_17 :: "binding list" where
  "meth_qtcore_2_17 = [
     Bind [ValueM QTCORE_QMODELINDEX] ''parent'' [PConv QModelIndex] (RValue QModelIndex) [OnObject QSortFilterProxyModel],
     Bind [TypeM QTCORE_QNATIVEIPCKEY, ValueM QTCORE_QNATIVEIPCKEY] ''platformSafeKey'' [PString True, PConv ''QNativeIpcKey::Type''] (RValue QNativeIpcKey) [Static QSharedMemory, Static QSystemSemaphore],
     Bind [] ''prettyProductName'' [] RString [Static ''QSysInfo''],
     Bind [TypeM ''QTCORE_QTHREAD''] ''priority'' [] (RMeta ''QThread::Priority'') [OnObject ''QThread''],
     Bind [TypeM ''QTCORE_QPROCESS''] ''processChannelMode'' [] (RMeta ''QProcess::ProcessChannelMode'') [OnObject QProcess],
     Bind [ValueM ''QTCORE_QPROCESSENVIRONMENT''] ''processEnvironment'' [] (RValue QProcessEnvironment) [OnObject QProcess],
     Bind [] ''processId'' [] (RMeta ''qint64'') [OnObject QProcess]]"

definition meth_qtcore_2_18 :: "binding list" where
  "meth_qtcore_2_18 = [
     Bind [] ''productType'' [] RString [Static ''QSysInfo''],
     Bind [] ''productVersion'' [] RString [Static ''QSysInfo''],
     Bind [] ''program'' [] RString [OnObject QProcess],
     Bind [ValueM QTCORE_QBYTEARRAY] ''propertyName'' [] (RValue QByteArray) [OnObject ''QPropertyAnimation''],
     Bind [] ''quit'' [] RVoid [OnObject ''QThread''],
     Bind [ValueM QTCORE_QBYTEARRAY] ''readAllStandardError'' [] (RValue QByteArray) [OnObject QProcess],
     Bind [ValueM QTCORE_QBYTEARRAY] ''readAllStandardOutput'' [] (RValue QByteArray) [OnObject QProcess],
     Bind [TypeM ''QTCORE_QPROCESS''] ''readChannel'' [] (RMeta ''QProcess::ProcessChannel'') [OnObject QProcess]]"

definition meth_qtcore_2_19 :: "binding list" where
  "meth_qtcore_2_19 = [
     Bind [] ''registerResource'' [PString True, PString True] RBool [Static ''QResource''],
     Bind [] ''releaseThread'' [] RVoid [OnObject ''QThreadPool''],
     Bind [ValueM QTCORE_QMODELINDEX] ''removeColumns'' [PInt, PInt, PConv QModelIndex] RBool [OnObject QSortFilterProxyModel],
     Bind [TypeM QTCORE_QOBJECT] ''removeMappings'' [PNonNull QObject_ptr] RVoid [OnObject ''QSignalMapper''],
     Bind [ValueM QTCORE_QMODELINDEX] ''removeRows'' [PInt, PInt, PConv QModelIndex] RBool [OnObject QSortFilterProxyModel, OnObject QStringListModel],
     Bind [] ''rename'' [PString True] RBool [OnObject ''QTemporaryFile'']]"

definition meth_qtcore_2_20 :: "binding list" where
  "meth_qtcore_2_20 = [
     Bind [] ''renameOverwrite'' [PString True] RBool [OnObject ''QTemporaryFile''],
     Bind [] ''requestInterruption'' [] RVoid [OnObject ''QThread''],
     Bind [] ''reserveThread'' [] RVoid [OnObject ''QThreadPool''],
     Bind [] ''resetRoleNames'' [] RVoid [OnObject ''QRangeModel''],
     Bind [ValueM ''QTCORE_QSTORAGEINFO''] ''root'' [] (RValue QStorageInfo) [Static QStorageInfo],
     Bind [ValueM QTCORE_QMODELINDEX] ''rowCount'' [PConv QModelIndex] RNumber [OnObject QSortFilterProxyModel, OnObject QStringListModel],
     Bind [TypeM ''QTCORE_QSETTINGS''] ''scope'' [] (RMeta ''QSettings::Scope'') [OnObject QSettings]]"

definition meth_qtcore_2_21 :: "binding list" where
  "meth_qtcore_2_21 = [
     Bind [ValueM ''QTCORE_QRANDOMGENERATOR''] ''securelySeeded'' [] (RValue ''QRandomGenerator'') [Static ''QRandomGenerator''],
     Bind [TypeM ''QTCORE_QTHREAD''] ''serviceLevel'' [] (RMeta ''QThread::QualityOfService'') [OnObject ''QThread'', OnObject ''QThreadPool''],
     Bind [] ''setArguments'' [PStringList] RVoid [OnObject QProcess],
     Bind [] ''setArrayIndex'' [PInt] RVoid [OnObject QSettings],
     Bind [] ''setAtomicSyncRequired'' [PBool] RVoid [OnObject QSettings],
     Bind [] ''setAutoAcceptChildRows'' [PBool] RVoid [OnObject QSortFilterProxyModel],
     Bind [TypeM ''QTCORE_QRANGEMODEL''] ''setAutoConnectPolicy'' [PConv ''QRangeModel::AutoConnectPolicy''] RVoid [OnObject ''QRangeModel'']]"

definition meth_qtcore_2_22 :: "binding list" where
  "meth_qtcore_2_22 = [
     Bind [] ''setAutoRemove'' [PBool] RVoid [OnObject ''QTemporaryFile''],
     Bind [ValueM QTCORE_QMODELINDEX] ''setData'' [PConv QModelIndex, PVariant, PInt] RBool [OnObject ''QRangeModel'', OnObject QSortFilterProxyModel, OnObject QStringListModel],
     Bind [TypeM ''QTCORE_QSETTINGS''] ''setDefaultFormat'' [PConv ''QSettings::Format''] RVoid [Static QSettings],
     Bind [] ''setDirectWriteFallback'' [PBool] RVoid [OnObject ''QSaveFile''],
     Bind [] ''setDynamicSortFilter'' [PBool] RVoid [OnObject QSortFilterProxyModel],
     Bind [] ''setEnabled'' [PBool] RVoid [OnObject ''QSocketNotifier'']]"

definition meth_qtcore_2_23 :: "binding list" where
  "meth_qtcore_2_23 = [
     Bind [TypeM ''QTCORE_QABSTRACTEVENTDISPATCHER''] ''setEventDispatcher'' [PNonNull ''QAbstractEventDispatcher*''] RVoid [OnObject ''QThread''],
     Bind [] ''setExpiryTimeout'' [PInt] RVoid [OnObject ''QThreadPool''],
     Bind [] ''setFallbacksEnabled'' [PBool] RVoid [OnObject QSettings],
     Bind [] ''setFileName'' [PString True] RVoid [OnObject ''QSaveFile''],
     Bind [] ''setFileTemplate'' [PString True] RVoid [OnObject ''QTemporaryFile''],
     Bind [EnumM ''QT_CASESENSITIVITY''] ''setFilterCaseSensitivity'' [PConv ''Qt::CaseSensitivity''] RVoid [OnObject QSortFilterProxyModel],
     Bind [] ''setFilterFixedString'' [PString True] RVoid [OnObject QSortFilterProxyModel]]"

definition meth_qtcore_2_24 :: "binding list" where
  "meth_qtcore_2_24 = [
     Bind [] ''setFilterKeyColumn'' [PInt] RVoid [OnObject QSortFilterProxyModel],
     Bind [ValueM QTCORE_QREGULAREXPRESSION] ''setFilterRegularExpression'' [PConv QRegularExpression] RVoid [OnObject QSortFilterProxyModel],
     Bind [] ''setFilterRegularExpression'' [PString True] RVoid [OnObject QSortFilterProxyModel],
     Bind [] ''setFilterRole'' [PInt] RVoid [OnObject QSortFilterProxyModel],
     Bind [] ''setFilterWildcard'' [PString True] RVoid [OnObject QSortFilterProxyModel],
     Bind [EnumM QT_ORIENTATION] ''setHeaderData'' [PInt, PConv Qt_Orientation, PVariant, PInt] RBool [OnObject ''QRangeModel'', OnObject QSortFilterProxyModel]]"

definition meth_qtcore_2_25 :: "binding list" where
  "meth_qtcore_2_25 = [
     Bind [TypeM ''QTCORE_QPROCESS''] ''setInputChannelMode'' [PConv ''QProcess::InputChannelMode''] RVoid [OnObject QProcess],
     Bind [] ''setKey'' [PString True] RVoid [OnObject QSharedMemory],
     Bind [TypeM QTCORE_QOBJECT] ''setMapping'' [PNonNull QObject_ptr, PNonNull QObject_ptr] RVoid [OnObject ''QSignalMapper''],
     Bind [TypeM QTCORE_QOBJECT] ''setMapping'' [PNonNull QObject_ptr, PString True] RVoid [OnObject ''QSignalMapper''],
     Bind [TypeM QTCORE_QOBJECT] ''setMapping'' [PNonNull QObject_ptr, PInt] RVoid [OnObject ''QSignalMapper''],
     Bind [] ''setMaxThreadCount'' [PInt] RVoid [OnObject ''QThreadPool'']]"

definition meth_qtcore_2_26 :: "binding list" where
  "meth_qtcore_2_26 = [
     Bind [] ''setNativeArguments'' [PString True] RVoid [OnObject QProcess],
     Bind [ValueM QTCORE_QNATIVEIPCKEY] ''setNativeKey'' [PConv QNativeIpcKey] RVoid [OnObject QSharedMemory],
     Bind [TypeM QTCORE_QNATIVEIPCKEY] ''setNativeKey'' [PString True, PConv ''QNativeIpcKey::Type''] RVoid [OnObject QSharedMemory],
     Bind [TypeM ''QTCORE_QSETTINGS''] ''setPath'' [PConv ''QSettings::Format'', PConv ''QSettings::Scope'', PString True] RVoid [Static QSettings],
     Bind [TypeM ''QTCORE_QTHREAD''] ''setPriority'' [PConv ''QThread::Priority''] RVoid [OnObject ''QThread''],
     Bind [TypeM ''QTCORE_QPROCESS''] ''setProcessChannelMode'' [PConv ''QProcess::ProcessChannelMode''] RVoid [OnObject QProcess]]"

definition meth_qtcore_2_27 :: "binding list" where
  "meth_qtcore_2_27 = [
     Bind [ValueM ''QTCORE_QPROCESSENVIRONMENT''] ''setProcessEnvironment'' [PConv QProcessEnvironment] RVoid [OnObject QProcess],
     Bind [] ''setProgram'' [PString True] RVoid [OnObject QProcess],
     Bind [ValueM QTCORE_QBYTEARRAY] ''setPropertyName'' [PConv QByteArray] RVoid [OnObject ''QPropertyAnimation''],
     Bind [TypeM ''QTCORE_QPROCESS''] ''setReadChannel'' [PConv ''QProcess::ProcessChannel''] RVoid [OnObject QProcess],
     Bind [] ''setRecursiveFilteringEnabled'' [PBool] RVoid [OnObject QSortFilterProxyModel],
     Bind [TypeM ''QTCORE_QTHREAD''] ''setServiceLevel'' [PConv ''QThread::QualityOfService''] RVoid [OnObject ''QThread'', OnObject ''QThreadPool'']]"

definition meth_qtcore_2_28 :: "binding list" where
  "meth_qtcore_2_28 = [
     Bind [EnumM ''QT_CASESENSITIVITY''] ''setSortCaseSensitivity'' [PConv ''Qt::CaseSensitivity''] RVoid [OnObject QSortFilterProxyModel],
     Bind [] ''setSortLocaleAware'' [PBool] RVoid [OnObject QSortFilterProxyModel],
     Bind [] ''setSortRole'' [PInt] RVoid [OnObject QSortFilterProxyModel],
     Bind [TypeM QTCORE_QABSTRACTITEMMODEL] ''setSourceModel'' [PNonNull QAbstractItemModel_ptr] RVoid [OnObject QSortFilterProxyModel],
     Bind [] ''setStackSize'' [PUInt] RVoid [OnObject ''QThread'', OnObject ''QThreadPool''],
     Bind [] ''setStandardInputFile'' [PString True] RVoid [OnObject QProcess]]"

definition meth_qtcore_2_29 :: "binding list" where
  "meth_qtcore_2_29 = [
     Bind [TypeM ''QTCORE_QPROCESS''] ''setStandardOutputProcess'' [PNonNull ''QProcess*''] RVoid [OnObject QProcess],
     Bind [] ''setStringList'' [PStringList] RVoid [OnObject QStringListModel],
     Bind [TypeM QTCORE_QOBJECT] ''setTargetObject'' [PNonNull QObject_ptr] RVoid [OnObject ''QPropertyAnimation''],
     Bind [] ''setTestModeEnabled'' [PBool] RVoid [Static ''QStandardPaths''],
     Bind [TypeM ''QTCORE_QTHREAD''] ''setThreadPriority'' [PConv ''QThread::Priority''] RVoid [OnObject ''QThreadPool''],
     Bind [] ''setWorkingDirectory'' [PString True] RVoid [OnObject QProcess]]"

definition meth_qtcore_2_30 :: "binding list" where
  "meth_qtcore_2_30 = [
     Bind [ValueM QTCORE_QMODELINDEX] ''sibling'' [PInt, PInt, PConv QModelIndex] (RValue QModelIndex) [OnObject QSortFilterProxyModel, OnObject QStringListModel],
     Bind [] ''size'' [] (RMeta ''qsizetype'') [OnObject QSharedMemory],
     Bind [EnumM ''QT_SORTORDER''] ''sort'' [PInt, PConv ''Qt::SortOrder''] RVoid [OnObject ''QRangeModel'', OnObject QSortFilterProxyModel, OnObject QStringListModel],
     Bind [EnumM ''QT_CASESENSITIVITY''] ''sortCaseSensitivity'' [] (RMeta ''Qt::CaseSensitivity'') [OnObject QSortFilterProxyModel],
     Bind [] ''sortColumn'' [] RNumber [OnObject QSortFilterProxyModel],
     Bind [EnumM ''QT_SORTORDER''] ''sortOrder'' [] (RMeta ''Qt::SortOrder'') [OnObject QSortFilterProxyModel]]"

definition meth_qtcore_2_31 :: "binding list" where
  "meth_qtcore_2_31 = [
     Bind [] ''sortRole'' [] RNumber [OnObject QSortFilterProxyModel],
     Bind [ValueM QTCORE_QMODELINDEX, ValueM QTCORE_QSIZE] ''span'' [PConv QModelIndex] (RValue QSize) [OnObject ''QRangeModel'', OnObject QSortFilterProxyModel],
     Bind [ValueM QTCORE_QPOINT, ValueM QTCORE_QRECT] ''span'' [PConv QPoint, PConv QPoint] (RValue QRect) [Static QRect],
     Bind [] ''stackSize'' [] RNumber [OnObject ''QThread'', OnObject ''QThreadPool''],
     Bind [TypeM ''QTCORE_QSTANDARDPATHS''] ''standardLocations'' [PConv ''QStandardPaths::StandardLocation''] (RList (IMeta QString)) [Static ''QStandardPaths''],
     Bind [TypeM ''QTCORE_QTHREAD''] ''start'' [PConv ''QThread::Priority''] RVoid [OnObject ''QThread'']]"

definition meth_qtcore_2_32 :: "binding list" where
  "meth_qtcore_2_32 = [
     Bind [TypeM ''QTCORE_QPROCESS''] ''state'' [] (RMeta ''QProcess::ProcessState'') [OnObject QProcess],
     Bind [TypeM ''QTCORE_QSETTINGS''] ''status'' [] (RMeta ''QSettings::Status'') [OnObject QSettings],
     Bind [] ''stringList'' [] (RList (IMeta QString)) [OnObject QStringListModel],
     Bind [EnumM QT_DROPACTIONS] ''supportedDragActions'' [] (RMeta Qt_DropActions) [OnObject ''QRangeModel''],
     Bind [EnumM QT_DROPACTIONS] ''supportedDropActions'' [] (RMeta Qt_DropActions) [OnObject ''QRangeModel'', OnObject QSortFilterProxyModel, OnObject QStringListModel],
     Bind [] ''sync'' [] RVoid [OnObject QSettings],
     Bind [ValueM ''QTCORE_QPROCESSENVIRONMENT''] ''systemEnvironment'' [] (RValue QProcessEnvironment) [Static QProcessEnvironment]]"

definition meth_qtcore_2_33 :: "binding list" where
  "meth_qtcore_2_33 = [
     Bind [] ''systemEnvironment'' [] (RList (IMeta QString)) [Static QProcess],
     Bind [TypeM QTCORE_QOBJECT] ''targetObject'' [] RObject [OnObject ''QPropertyAnimation''],
     Bind [] ''terminate'' [] RVoid [OnObject QProcess, OnObject ''QThread''],
     Bind [TypeM ''QTCORE_QTHREAD''] ''threadPriority'' [] (RMeta ''QThread::Priority'') [OnObject ''QThreadPool''],
     Bind [TypeM ''QTCORE_QSOCKETNOTIFIER''] ''type'' [] (RMeta ''QSocketNotifier::Type'') [OnObject ''QSocketNotifier''],
     Bind [] ''unlock'' [] RBool [OnObject QSharedMemory],
     Bind [] ''unregisterResource'' [PString True, PString True] RBool [Static ''QResource'']]"

definition meth_qtcore_2_34 :: "binding list" where
  "meth_qtcore_2_34 = [
     Bind [ValueM QTCORE_QDEADLINETIMER] ''wait'' [PConv QDeadlineTimer] RBool [OnObject ''QThread''],
     Bind [] ''waitForBytesWritten'' [PInt] RBool [OnObject QProcess],
     Bind [] ''waitForDone'' [PInt] RBool [OnObject ''QThreadPool''],
     Bind [] ''waitForFinished'' [PInt] RBool [OnObject QProcess],
     Bind [] ''waitForReadyRead'' [PInt] RBool [OnObject QProcess],
     Bind [] ''waitForStarted'' [PInt] RBool [OnObject QProcess],
     Bind [] ''workingDirectory'' [] RString [OnObject QProcess]]"

definition meth_qtcore_2_35 :: "binding list" where
  "meth_qtcore_2_35 = [
     Bind [TypeM ''QTCORE_QSTANDARDPATHS''] ''writableLocation'' [PConv ''QStandardPaths::StandardLocation''] RString [Static ''QStandardPaths''],
     Bind [] ''yieldCurrentThread'' [] RVoid [Static ''QThread'']]"

definition meth_table_core_a :: "(string \<times> shard) list" where
  "meth_table_core_a = [
     (''qtcore_0'', \<lparr>sh_module = ''QtCore'', sh_slug = ''QTCORE'',
        sh_bindings = concat [meth_qtcore_0_0, meth_qtcore_0_1, meth_qtcore_0_2, meth_qtcore_0_3, meth_qtcore_0_4, meth_qtcore_0_5, meth_qtcore_0_6, meth_qtcore_0_7, meth_qtcore_0_8, meth_qtcore_0_9, meth_qtcore_0_10, meth_qtcore_0_11, meth_qtcore_0_12, meth_qtcore_0_13, meth_qtcore_0_14, meth_qtcore_0_15, meth_qtcore_0_16, meth_qtcore_0_17, meth_qtcore_0_18, meth_qtcore_0_19, meth_qtcore_0_20, meth_qtcore_0_21, meth_qtcore_0_22, meth_qtcore_0_23, meth_qtcore_0_24, meth_qtcore_0_25, meth_qtcore_0_26, meth_qtcore_0_27, meth_qtcore_0_28, meth_qtcore_0_29, meth_qtcore_0_30, meth_qtcore_0_31]\<rparr>),
     (''qtcore_1'', \<lparr>sh_module = ''QtCore'', sh_slug = ''QTCORE'',
        sh_bindings = concat [meth_qtcore_1_0, meth_qtcore_1_1, meth_qtcore_1_2, meth_qtcore_1_3, meth_qtcore_1_4, meth_qtcore_1_5, meth_qtcore_1_6, meth_qtcore_1_7, meth_qtcore_1_8, meth_qtcore_1_9, meth_qtcore_1_10, meth_qtcore_1_11, meth_qtcore_1_12, meth_qtcore_1_13, meth_qtcore_1_14, meth_qtcore_1_15, meth_qtcore_1_16, meth_qtcore_1_17, meth_qtcore_1_18, meth_qtcore_1_19, meth_qtcore_1_20, meth_qtcore_1_21, meth_qtcore_1_22, meth_qtcore_1_23]\<rparr>),
     (''qtcore_2'', \<lparr>sh_module = ''QtCore'', sh_slug = ''QTCORE'',
        sh_bindings = concat [meth_qtcore_2_0, meth_qtcore_2_1, meth_qtcore_2_2, meth_qtcore_2_3, meth_qtcore_2_4, meth_qtcore_2_5, meth_qtcore_2_6, meth_qtcore_2_7, meth_qtcore_2_8, meth_qtcore_2_9, meth_qtcore_2_10, meth_qtcore_2_11, meth_qtcore_2_12, meth_qtcore_2_13, meth_qtcore_2_14, meth_qtcore_2_15, meth_qtcore_2_16, meth_qtcore_2_17, meth_qtcore_2_18, meth_qtcore_2_19, meth_qtcore_2_20, meth_qtcore_2_21, meth_qtcore_2_22, meth_qtcore_2_23, meth_qtcore_2_24, meth_qtcore_2_25, meth_qtcore_2_26, meth_qtcore_2_27, meth_qtcore_2_28, meth_qtcore_2_29, meth_qtcore_2_30, meth_qtcore_2_31, meth_qtcore_2_32, meth_qtcore_2_33, meth_qtcore_2_34, meth_qtcore_2_35]\<rparr>)]"

lemmas meth_table_core_a_defs =
  meth_qtcore_0_0_def meth_qtcore_0_1_def meth_qtcore_0_2_def meth_qtcore_0_3_def meth_qtcore_0_4_def
  meth_qtcore_0_5_def meth_qtcore_0_6_def meth_qtcore_0_7_def meth_qtcore_0_8_def meth_qtcore_0_9_def
  meth_qtcore_0_10_def meth_qtcore_0_11_def meth_qtcore_0_12_def meth_qtcore_0_13_def meth_qtcore_0_14_def
  meth_qtcore_0_15_def meth_qtcore_0_16_def meth_qtcore_0_17_def meth_qtcore_0_18_def meth_qtcore_0_19_def
  meth_qtcore_0_20_def meth_qtcore_0_21_def meth_qtcore_0_22_def meth_qtcore_0_23_def meth_qtcore_0_24_def
  meth_qtcore_0_25_def meth_qtcore_0_26_def meth_qtcore_0_27_def meth_qtcore_0_28_def meth_qtcore_0_29_def
  meth_qtcore_0_30_def meth_qtcore_0_31_def meth_qtcore_1_0_def meth_qtcore_1_1_def meth_qtcore_1_2_def
  meth_qtcore_1_3_def meth_qtcore_1_4_def meth_qtcore_1_5_def meth_qtcore_1_6_def meth_qtcore_1_7_def
  meth_qtcore_1_8_def meth_qtcore_1_9_def meth_qtcore_1_10_def meth_qtcore_1_11_def meth_qtcore_1_12_def
  meth_qtcore_1_13_def meth_qtcore_1_14_def meth_qtcore_1_15_def meth_qtcore_1_16_def meth_qtcore_1_17_def
  meth_qtcore_1_18_def meth_qtcore_1_19_def meth_qtcore_1_20_def meth_qtcore_1_21_def meth_qtcore_1_22_def
  meth_qtcore_1_23_def meth_qtcore_2_0_def meth_qtcore_2_1_def meth_qtcore_2_2_def meth_qtcore_2_3_def
  meth_qtcore_2_4_def meth_qtcore_2_5_def meth_qtcore_2_6_def meth_qtcore_2_7_def meth_qtcore_2_8_def
  meth_qtcore_2_9_def meth_qtcore_2_10_def meth_qtcore_2_11_def meth_qtcore_2_12_def meth_qtcore_2_13_def
  meth_qtcore_2_14_def meth_qtcore_2_15_def meth_qtcore_2_16_def meth_qtcore_2_17_def meth_qtcore_2_18_def
  meth_qtcore_2_19_def meth_qtcore_2_20_def meth_qtcore_2_21_def meth_qtcore_2_22_def meth_qtcore_2_23_def
  meth_qtcore_2_24_def meth_qtcore_2_25_def meth_qtcore_2_26_def meth_qtcore_2_27_def meth_qtcore_2_28_def
  meth_qtcore_2_29_def meth_qtcore_2_30_def meth_qtcore_2_31_def meth_qtcore_2_32_def meth_qtcore_2_33_def
  meth_qtcore_2_34_def meth_qtcore_2_35_def

lemma meth_table_core_a_object_blocks: "list_all (\<lambda>(s, sh). object_blocks sh) meth_table_core_a"
  by (simp add: meth_table_core_a_def meth_table_core_a_defs object_blocks_def object_shard_def; (simp add: parameter_text_def qt_name_defs)?)

end
