(* ===== verification/Methods_Core_B.thy ===== *)
theory Methods_Core_B
  imports Shard_Methods Qt_Names
begin

text \<open>
  Tables of the method shards (generated\_methods): the blocks of every shard in the file's order.
\<close>

definition meth_qtcore_3_0 :: "binding list" where
  "meth_qtcore_3_0 = [
     Bind [ValueM QTCORE_QBYTEARRAY] ''availableTimeZoneIds'' [] (RList (IValue QByteArray)) [Static QTimeZone],
     Bind [TypeM QTCORE_QLOCALE, ValueM QTCORE_QBYTEARRAY] ''availableTimeZoneIds'' [PConv ''QLocale::Territory''] (RList (IValue QByteArray)) [Static QTimeZone],
     Bind [ValueM QTCORE_QBYTEARRAY] ''availableTimeZoneIds'' [PInt] (RList (IValue QByteArray)) [Static QTimeZone],
     Bind [ValueM QTCORE_QMODELINDEX] ''columnCount'' [PConv QModelIndex] RNumber [OnObject QTransposeProxyModel],
     Bind [ValueM ''QTCORE_QVERSIONNUMBER''] ''commonPrefix'' [PConv QVersionNumber, PConv QVersionNumber] (RValue QVersionNumber) [Static QVersionNumber],
     Bind [ValueM ''QTCORE_QVERSIONNUMBER''] ''compare'' [PConv QVersionNumber, PConv QVersionNumber] RNumber [Static QVersionNumber]]"

definition meth_qtcore_3_1 :: "binding list" where
  "meth_qtcore_3_1 = [
     Bind [ValueM ''QTCORE_QUUID''] ''createUuid'' [] (RValue ''QUuid'') [Static ''QUuid''],
     Bind [ValueM ''QTCORE_QUUID''] ''createUuidV3'' [PConv ''QUuid'', PString True] (RValue ''QUuid'') [Static ''QUuid''],
     Bind [ValueM ''QTCORE_QUUID''] ''createUuidV5'' [PConv ''QUuid'', PString True] (RValue ''QUuid'') [Static ''QUuid''],
     Bind [ValueM ''QTCORE_QUUID''] ''createUuidV7'' [] (RValue ''QUuid'') [Static ''QUuid''],
     Bind [] ''currentFrame'' [] RNumber [OnObject QTimeLine],
     Bind [ValueM QTCORE_QTIME] ''currentTime'' [] (RValue QTime) [Static QTime],
     Bind [] ''currentTime'' [] RNumber [OnObject QTimeLine]]"

definition meth_qtcore_3_2 :: "binding list" where
  "meth_qtcore_3_2 = [
     Bind [] ''currentValue'' [] RVariant [OnObject ''QVariantAnimation''],
     Bind [] ''currentValue'' [] RNumber [OnObject QTimeLine],
     Bind [TypeM ''QTCORE_QTIMELINE''] ''direction'' [] (RMeta ''QTimeLine::Direction'') [OnObject QTimeLine],
     Bind [] ''duration'' [] RNumber [OnObject QTimeLine, OnObject ''QVariantAnimation''],
     Bind [ValueM QTCORE_QEASINGCURVE] ''easingCurve'' [] (RValue QEasingCurve) [OnObject QTimeLine, OnObject ''QVariantAnimation''],
     Bind [] ''endFrame'' [] RNumber [OnObject QTimeLine],
     Bind [] ''endValue'' [] RVariant [OnObject ''QVariantAnimation''],
     Bind [] ''filePath'' [] RString [OnObject ''QTranslator'']]"

definition meth_qtcore_3_3 :: "binding list" where
  "meth_qtcore_3_3 = [
     Bind [] ''frameForTime'' [PInt] RNumber [OnObject QTimeLine],
     Bind [ValueM ''QTCORE_QTYPEREVISION''] ''fromEncodedVersion'' [PInt] (RValue ''QTypeRevision'') [Static ''QTypeRevision''],
     Bind [ValueM QTCORE_QURL] ''fromLocalFile'' [PString True] (RValue QUrl) [Static QUrl],
     Bind [ValueM QTCORE_QTIME] ''fromMSecsSinceStartOfDay'' [PInt] (RValue QTime) [Static QTime],
     Bind [ValueM QTCORE_QBYTEARRAY] ''fromPercentEncoding'' [PConv QByteArray] RString [Static QUrl],
     Bind [ValueM QTCORE_QTIMEZONE] ''fromSecondsAheadOfUtc'' [PInt] (RValue QTimeZone) [Static QTimeZone]]"

definition meth_qtcore_3_4 :: "binding list" where
  "meth_qtcore_3_4 = [
     Bind [ValueM QTCORE_QTIME] ''fromString'' [PString True, PString True] (RValue QTime) [Static QTime],
     Bind [EnumM ''QT_DATEFORMAT'', ValueM QTCORE_QTIME] ''fromString'' [PString True, PConv ''Qt::DateFormat''] (RValue QTime) [Static QTime],
     Bind [TypeM QTCORE_QURL, ValueM QTCORE_QURL] ''fromStringList'' [PStringList, PConv ''QUrl::ParsingMode''] (RList (IValue QUrl)) [Static QUrl],
     Bind [EnumM QT_ORIENTATION] ''headerData'' [PInt, PConv Qt_Orientation, PInt] RVariant [OnObject QTransposeProxyModel],
     Bind [ValueM QTCORE_QBYTEARRAY] ''ianaIdToWindowsId'' [PConv QByteArray] (RValue QByteArray) [Static QTimeZone]]"

definition meth_qtcore_3_5 :: "binding list" where
  "meth_qtcore_3_5 = [
     Bind [] ''idnWhitelist'' [] (RList (IMeta QString)) [Static QUrl],
     Bind [ValueM QTCORE_QMODELINDEX] ''index'' [PInt, PInt, PConv QModelIndex] (RValue QModelIndex) [OnObject QTransposeProxyModel],
     Bind [ValueM QTCORE_QMODELINDEX] ''insertColumns'' [PInt, PInt, PConv QModelIndex] RBool [OnObject QTransposeProxyModel],
     Bind [ValueM QTCORE_QMODELINDEX] ''insertRows'' [PInt, PInt, PConv QModelIndex] RBool [OnObject QTransposeProxyModel],
     Bind [] ''interval'' [] RNumber [OnObject ''QTimer''],
     Bind [] ''isActive'' [] RBool [OnObject ''QTimer'']]"

definition meth_qtcore_3_6 :: "binding list" where
  "meth_qtcore_3_6 = [
     Bind [] ''isEmpty'' [] RBool [OnObject ''QTranslator''],
     Bind [] ''isEnabled'' [] RBool [OnObject ''QWinEventNotifier''],
     Bind [] ''isSingleShot'' [] RBool [OnObject ''QTimer''],
     Bind [ValueM QTCORE_QBYTEARRAY] ''isTimeZoneIdAvailable'' [PConv QByteArray] RBool [Static QTimeZone],
     Bind [EnumM ''QT_TIMESPEC''] ''isUtcOrFixedOffset'' [PConv ''Qt::TimeSpec''] RBool [Static QTimeZone],
     Bind [] ''isValid'' [PInt, PInt, PInt, PInt] RBool [Static QTime],
     Bind [] ''keyValueAt'' [PReal ''qreal''] RVariant [OnObject ''QVariantAnimation'']]"

definition meth_qtcore_3_7 :: "binding list" where
  "meth_qtcore_3_7 = [
     Bind [] ''language'' [] RString [OnObject ''QTranslator''],
     Bind [ValueM QTCORE_QLOCALE] ''load'' [PConv QLocale, PString True, PString True, PString True, PString True] RBool [OnObject ''QTranslator''],
     Bind [] ''load'' [PString True, PString True, PString True, PString True] RBool [OnObject ''QTranslator''],
     Bind [] ''loopCount'' [] RNumber [OnObject QTimeLine],
     Bind [ValueM QTCORE_QMODELINDEX] ''mapFromSource'' [PConv QModelIndex] (RValue QModelIndex) [OnObject QTransposeProxyModel],
     Bind [ValueM QTCORE_QMODELINDEX] ''mapToSource'' [PConv QModelIndex] (RValue QModelIndex) [OnObject QTransposeProxyModel]]"

definition meth_qtcore_3_8 :: "binding list" where
  "meth_qtcore_3_8 = [
     Bind [ValueM QTCORE_QMODELINDEX] ''moveColumns'' [PConv QModelIndex, PInt, PInt, PConv QModelIndex, PInt] RBool [OnObject QTransposeProxyModel],
     Bind [ValueM QTCORE_QMODELINDEX] ''moveRows'' [PConv QModelIndex, PInt, PInt, PConv QModelIndex, PInt] RBool [OnObject QTransposeProxyModel],
     Bind [ValueM QTCORE_QMODELINDEX] ''parent'' [PConv QModelIndex] (RValue QModelIndex) [OnObject QTransposeProxyModel],
     Bind [] ''remainingTime'' [] RNumber [OnObject ''QTimer''],
     Bind [ValueM QTCORE_QMODELINDEX] ''removeColumns'' [PInt, PInt, PConv QModelIndex] RBool [OnObject QTransposeProxyModel]]"

definition meth_qtcore_3_9 :: "binding list" where
  "meth_qtcore_3_9 = [
     Bind [ValueM QTCORE_QMODELINDEX] ''removeRows'' [PInt, PInt, PConv QModelIndex] RBool [OnObject QTransposeProxyModel],
     Bind [] ''resume'' [] RVoid [OnObject QTimeLine],
     Bind [ValueM QTCORE_QMODELINDEX] ''rowCount'' [PConv QModelIndex] RNumber [OnObject QTransposeProxyModel],
     Bind [] ''setCurrentTime'' [PInt] RVoid [OnObject QTimeLine],
     Bind [TypeM ''QTCORE_QTIMELINE''] ''setDirection'' [PConv ''QTimeLine::Direction''] RVoid [OnObject QTimeLine],
     Bind [] ''setDuration'' [PInt] RVoid [OnObject QTimeLine, OnObject ''QVariantAnimation'']]"

definition meth_qtcore_3_10 :: "binding list" where
  "meth_qtcore_3_10 = [
     Bind [ValueM QTCORE_QEASINGCURVE] ''setEasingCurve'' [PConv QEasingCurve] RVoid [OnObject QTimeLine, OnObject ''QVariantAnimation''],
     Bind [] ''setEnabled'' [PBool] RVoid [OnObject ''QWinEventNotifier''],
     Bind [] ''setEndFrame'' [PInt] RVoid [OnObject QTimeLine],
     Bind [] ''setEndValue'' [PVariant] RVoid [OnObject ''QVariantAnimation''],
     Bind [] ''setFrameRange'' [PInt, PInt] RVoid [OnObject QTimeLine],
     Bind [EnumM QT_ORIENTATION] ''setHeaderData'' [PInt, PConv Qt_Orientation, PVariant, PInt] RBool [OnObject QTransposeProxyModel]]"

definition meth_qtcore_3_11 :: "binding list" where
  "meth_qtcore_3_11 = [
     Bind [] ''setIdnWhitelist'' [PStringList] RVoid [Static QUrl],
     Bind [] ''setInterval'' [PInt] RVoid [OnObject ''QTimer''],
     Bind [] ''setKeyValueAt'' [PReal ''qreal'', PVariant] RVoid [OnObject ''QVariantAnimation''],
     Bind [] ''setLoopCount'' [PInt] RVoid [OnObject QTimeLine],
     Bind [] ''setPaused'' [PBool] RVoid [OnObject QTimeLine],
     Bind [] ''setSingleShot'' [PBool] RVoid [OnObject ''QTimer''],
     Bind [TypeM QTCORE_QABSTRACTITEMMODEL] ''setSourceModel'' [PNonNull QAbstractItemModel_ptr] RVoid [OnObject QTransposeProxyModel]]"

definition meth_qtcore_3_12 :: "binding list" where
  "meth_qtcore_3_12 = [
     Bind [] ''setStartFrame'' [PInt] RVoid [OnObject QTimeLine],
     Bind [] ''setStartValue'' [PVariant] RVoid [OnObject ''QVariantAnimation''],
     Bind [EnumM ''QT_TIMERTYPE''] ''setTimerType'' [PConv ''Qt::TimerType''] RVoid [OnObject ''QTimer''],
     Bind [] ''setUpdateInterval'' [PInt] RVoid [OnObject QTimeLine],
     Bind [EnumM ''QT_SORTORDER''] ''sort'' [PInt, PConv ''Qt::SortOrder''] RVoid [OnObject QTransposeProxyModel],
     Bind [ValueM QTCORE_QMODELINDEX, ValueM QTCORE_QSIZE] ''span'' [PConv QModelIndex] (RValue QSize) [OnObject QTransposeProxyModel]]"

definition meth_qtcore_3_13 :: "binding list" where
  "meth_qtcore_3_13 = [
     Bind [] ''start'' [] RVoid [OnObject QTimeLine, OnObject ''QTimer''],
     Bind [] ''start'' [PInt] RVoid [OnObject ''QTimer''],
     Bind [] ''startFrame'' [] RNumber [OnObject QTimeLine],
     Bind [] ''startValue'' [] RVariant [OnObject ''QVariantAnimation''],
     Bind [TypeM ''QTCORE_QTIMELINE''] ''state'' [] (RMeta ''QTimeLine::State'') [OnObject QTimeLine],
     Bind [] ''stop'' [] RVoid [OnObject QTimeLine, OnObject ''QTimer''],
     Bind [ValueM QTCORE_QTIMEZONE] ''systemTimeZone'' [] (RValue QTimeZone) [Static QTimeZone]]"

definition meth_qtcore_3_14 :: "binding list" where
  "meth_qtcore_3_14 = [
     Bind [ValueM QTCORE_QBYTEARRAY] ''systemTimeZoneId'' [] (RValue QByteArray) [Static QTimeZone],
     Bind [] ''timerId'' [] RNumber [OnObject ''QTimer''],
     Bind [EnumM ''QT_TIMERTYPE''] ''timerType'' [] (RMeta ''Qt::TimerType'') [OnObject ''QTimer''],
     Bind [ValueM QTCORE_QBYTEARRAY] ''toPercentEncoding'' [PString True, PConv QByteArray, PConv QByteArray] (RValue QByteArray) [Static QUrl],
     Bind [] ''toggleDirection'' [] RVoid [OnObject QTimeLine],
     Bind [] ''updateInterval'' [] RNumber [OnObject QTimeLine],
     Bind [ValueM QTCORE_QTIMEZONE] ''utc'' [] (RValue QTimeZone) [Static QTimeZone]]"

definition meth_qtcore_3_15 :: "binding list" where
  "meth_qtcore_3_15 = [
     Bind [] ''valueForTime'' [PInt] RNumber [OnObject QTimeLine],
     Bind [ValueM QTCORE_QBYTEARRAY] ''windowsIdToDefaultIanaId'' [PConv QByteArray] (RValue QByteArray) [Static QTimeZone],
     Bind [TypeM QTCORE_QLOCALE, ValueM QTCORE_QBYTEARRAY] ''windowsIdToDefaultIanaId'' [PConv QByteArray, PConv ''QLocale::Territory''] (RValue QByteArray) [Static QTimeZone],
     Bind [ValueM QTCORE_QBYTEARRAY] ''windowsIdToIanaIds'' [PConv QByteArray] (RList (IValue QByteArray)) [Static QTimeZone],
     Bind [TypeM QTCORE_QLOCALE, ValueM QTCORE_QBYTEARRAY] ''windowsIdToIanaIds'' [PConv QByteArray, PConv ''QLocale::Territory''] (RList (IValue QByteArray)) [Static QTimeZone],
     Bind [ValueM ''QTCORE_QTYPEREVISION''] ''zero'' [] (RValue ''QTypeRevision'') [Static ''QTypeRevision'']]"

definition meth_table_core_b :: "(string \<times> shard) list" where
  "meth_table_core_b = [
     (''qtcore_3'', \<lparr>sh_module = ''QtCore'', sh_slug = ''QTCORE'',
        sh_bindings = concat [meth_qtcore_3_0, meth_qtcore_3_1, meth_qtcore_3_2, meth_qtcore_3_3, meth_qtcore_3_4, meth_qtcore_3_5, meth_qtcore_3_6, meth_qtcore_3_7, meth_qtcore_3_8, meth_qtcore_3_9, meth_qtcore_3_10, meth_qtcore_3_11, meth_qtcore_3_12, meth_qtcore_3_13, meth_qtcore_3_14, meth_qtcore_3_15]\<rparr>)]"

lemmas meth_table_core_b_defs =
  meth_qtcore_3_0_def meth_qtcore_3_1_def meth_qtcore_3_2_def meth_qtcore_3_3_def meth_qtcore_3_4_def
  meth_qtcore_3_5_def meth_qtcore_3_6_def meth_qtcore_3_7_def meth_qtcore_3_8_def meth_qtcore_3_9_def
  meth_qtcore_3_10_def meth_qtcore_3_11_def meth_qtcore_3_12_def meth_qtcore_3_13_def meth_qtcore_3_14_def
  meth_qtcore_3_15_def

lemma meth_table_core_b_object_blocks: "list_all (\<lambda>(s, sh). object_blocks sh) meth_table_core_b"
  by (simp add: meth_table_core_b_def meth_table_core_b_defs object_blocks_def object_shard_def; (simp add: parameter_text_def qt_name_defs)?)

end
