(* ===== verification/Methods_Charts_B.thy ===== *)
theory Methods_Charts_B
  imports Shard_Methods Qt_Names
begin

text \<open>
  Tables of the method shards (generated\_methods): the blocks of every shard in the file's order.
\<close>

definition meth_qtdatavisualization_0_0 :: "binding list" where
  "meth_qtdatavisualization_0_0 = [
     Bind [TypeM ''QTDATAVISUALIZATION_Q3DCAMERA''] ''activeCamera'' [] RObject [OnObject Q3DScene],
     Bind [TypeM QTDATAVISUALIZATION_QABSTRACT3DINPUTHANDLER] ''activeInputHandler'' [] RObject [OnObject QAbstract3DGraph],
     Bind [TypeM ''QTDATAVISUALIZATION_Q3DLIGHT''] ''activeLight'' [] RObject [OnObject Q3DScene],
     Bind [TypeM QTDATAVISUALIZATION_Q3DTHEME] ''activeTheme'' [] RObject [OnObject QAbstract3DGraph],
     Bind [TypeM ''QTDATAVISUALIZATION_QABSTRACT3DAXIS''] ''addAxis'' [PNonNull ''QAbstract3DAxis*''] RVoid [OnObject ''Q3DBars''],
     Bind [TypeM QTDATAVISUALIZATION_QVALUE3DAXIS] ''addAxis'' [PNonNull ''QValue3DAxis*''] RVoid [OnObject ''Q3DScatter'', OnObject ''Q3DSurface''],
     Bind [TypeM ''QTDATAVISUALIZATION_QCUSTOM3DITEM''] ''addCustomItem'' [PNonNull ''QCustom3DItem*''] RNumber [OnObject QAbstract3DGraph],
     Bind [TypeM QTDATAVISUALIZATION_QABSTRACT3DINPUTHANDLER] ''addInputHandler'' [PNonNull ''QAbstract3DInputHandler*''] RVoid [OnObject QAbstract3DGraph],
     Bind [TypeM ''QTDATAVISUALIZATION_QBAR3DSERIES''] ''addSeries'' [PNonNull ''QBar3DSeries*''] RVoid [OnObject ''Q3DBars''],
     Bind [TypeM ''QTDATAVISUALIZATION_QSCATTER3DSERIES''] ''addSeries'' [PNonNull ''QScatter3DSeries*''] RVoid [OnObject ''Q3DScatter''],
     Bind [TypeM ''QTDATAVISUALIZATION_QSURFACE3DSERIES''] ''addSeries'' [PNonNull ''QSurface3DSeries*''] RVoid [OnObject ''Q3DSurface''],
     Bind [TypeM QTDATAVISUALIZATION_Q3DTHEME] ''addTheme'' [PNonNull ''Q3DTheme*''] RVoid [OnObject QAbstract3DGraph],
     Bind [] ''alphaMultiplier'' [] RNumber [OnObject QCustom3DVolume],
     Bind [] ''ambientLightStrength'' [] RNumber [OnObject Q3DTheme],
     Bind [] ''aspectRatio'' [] RNumber [OnObject QAbstract3DGraph],
     Bind [] ''autoColumnCategories'' [] RBool [OnObject QItemModelBarDataProxy, OnObject QItemModelSurfaceDataProxy],
     Bind [] ''autoRowCategories'' [] RBool [OnObject QItemModelBarDataProxy, OnObject QItemModelSurfaceDataProxy],
     Bind [TypeM ''QTDATAVISUALIZATION_QABSTRACT3DAXIS''] ''axes'' [] (RList IObject) [OnObject ''Q3DBars''],
     Bind [TypeM QTDATAVISUALIZATION_QVALUE3DAXIS] ''axes'' [] (RList IObject) [OnObject ''Q3DScatter'', OnObject ''Q3DSurface''],
     Bind [TypeM QTDATAVISUALIZATION_QVALUE3DAXIS] ''axisX'' [] RObject [OnObject ''Q3DScatter'', OnObject ''Q3DSurface''],
     Bind [TypeM QTDATAVISUALIZATION_QVALUE3DAXIS] ''axisY'' [] RObject [OnObject ''Q3DScatter'', OnObject ''Q3DSurface''],
     Bind [TypeM QTDATAVISUALIZATION_QVALUE3DAXIS] ''axisZ'' [] RObject [OnObject ''Q3DScatter'', OnObject ''Q3DSurface''],
     Bind [ValueM QTGUI_QCOLOR] ''backgroundColor'' [] (RValue QColor) [OnObject Q3DTheme, OnObject QCustom3DLabel],
     Bind [ValueM QTCORE_QSIZEF] ''barSpacing'' [] (RValue QSizeF) [OnObject ''Q3DBars''],
     Bind [] ''barThickness'' [] RNumber [OnObject ''Q3DBars''],
     Bind [ValueM QTGUI_QCOLOR] ''baseColor'' [] (RValue QColor) [OnObject QAbstract3DSeries],
     Bind [ValueM QTGUI_QCOLOR] ''baseColors'' [] (RList (IValue QColor)) [OnObject Q3DTheme],
     Bind [ValueM QTGUI_QLINEARGRADIENT] ''baseGradient'' [] (RValue QLinearGradient) [OnObject QAbstract3DSeries],
     Bind [ValueM QTGUI_QLINEARGRADIENT] ''baseGradients'' [] (RList (IValue QLinearGradient)) [OnObject Q3DTheme],
     Bind [TypeM ''QTDATAVISUALIZATION_Q3DCAMERA''] ''cameraPreset'' [] (RMeta ''Q3DCamera::CameraPreset'') [OnObject ''Q3DCamera''],
     Bind [] ''clearSelection'' [] RVoid [OnObject QAbstract3DGraph],
     Bind [TypeM QTDATAVISUALIZATION_Q3DTHEME] ''colorStyle'' [] (RMeta ''Q3DTheme::ColorStyle'') [OnObject Q3DTheme, OnObject QAbstract3DSeries],
     Bind [] ''colorTable'' [] (RList (IMeta ''unsigned int'')) [OnObject QCustom3DVolume],
     Bind [TypeM ''QTDATAVISUALIZATION_QCATEGORY3DAXIS''] ''columnAxis'' [] RObject [OnObject ''Q3DBars''],
     Bind [] ''columnCategories'' [] (RList (IMeta QString)) [OnObject QItemModelBarDataProxy, OnObject QItemModelSurfaceDataProxy],
     Bind [] ''columnCategoryIndex'' [PString True] RNumber [OnObject QItemModelBarDataProxy, OnObject QItemModelSurfaceDataProxy],
     Bind [] ''columnLabels'' [] (RList (IMeta QString)) [OnObject ''QBarDataProxy''],
     Bind [] ''columnRole'' [] RString [OnObject QItemModelBarDataProxy, OnObject QItemModelSurfaceDataProxy],
     Bind [ValueM QTCORE_QREGULAREXPRESSION] ''columnRolePattern'' [] (RValue QRegularExpression) [OnObject QItemModelBarDataProxy, OnObject QItemModelSurfaceDataProxy],
     Bind [] ''columnRoleReplace'' [] RString [OnObject QItemModelBarDataProxy, OnObject QItemModelSurfaceDataProxy],
     Bind [] ''currentFps'' [] RNumber [OnObject QAbstract3DGraph],
     Bind [TypeM ''QTDATAVISUALIZATION_QCUSTOM3DITEM''] ''customItems'' [] (RList IObject) [OnObject QAbstract3DGraph],
     Bind [TypeM ''QTDATAVISUALIZATION_QBARDATAPROXY''] ''dataProxy'' [] RObject [OnObject QBar3DSeries],
     Bind [] ''devicePixelRatio'' [] RNumber [OnObject Q3DScene],
     Bind [] ''drawSliceFrames'' [] RBool [OnObject QCustom3DVolume],
     Bind [] ''drawSlices'' [] RBool [OnObject QCustom3DVolume],
     Bind [] ''flipHorizontalGrid'' [] RBool [OnObject ''Q3DSurface''],
     Bind [] ''floorLevel'' [] RNumber [OnObject ''Q3DBars''],
     Bind [ValueM QTGUI_QFONT] ''font'' [] (RValue QFont) [OnObject Q3DTheme, OnObject QCustom3DLabel],
     Bind [ValueM QTCORE_QPOINT] ''graphPositionQuery'' [] (RValue QPoint) [OnObject Q3DScene],
     Bind [ValueM QTGUI_QCOLOR] ''gridLineColor'' [] (RValue QColor) [OnObject Q3DTheme],
     Bind [] ''hasContext'' [] RBool [OnObject QAbstract3DGraph],
     Bind [ValueM QTGUI_QIMAGE] ''heightMap'' [] (RValue QImage) [OnObject QHeightMapSurfaceDataProxy],
     Bind [] ''heightMapFile'' [] RString [OnObject QHeightMapSurfaceDataProxy],
     Bind [] ''highlightLightStrength'' [] RNumber [OnObject Q3DTheme],
     Bind [] ''horizontalAspectRatio'' [] RNumber [OnObject QAbstract3DGraph],
     Bind [TypeM QTDATAVISUALIZATION_QABSTRACT3DINPUTHANDLER] ''inputHandlers'' [] (RList IObject) [OnObject QAbstract3DGraph],
     Bind [ValueM QTCORE_QPOINT] ''inputPosition'' [] (RValue QPoint) [OnObject ''QAbstract3DInputHandler''],
     Bind [TypeM QTDATAVISUALIZATION_QABSTRACT3DINPUTHANDLER] ''inputView'' [] (RMeta ''QAbstract3DInputHandler::InputView'') [OnObject ''QAbstract3DInputHandler''],
     Bind [TypeM ''QTDATAVISUALIZATION_QBAR3DSERIES''] ''insertSeries'' [PInt, PNonNull ''QBar3DSeries*''] RVoid [OnObject ''Q3DBars''],
     Bind [ValueM QTCORE_QPOINT] ''invalidSelectionPoint'' [] (RValue QPoint) [Static Q3DScene],
     Bind [ValueM QTCORE_QPOINT] ''invalidSelectionPosition'' [] (RValue QPoint) [Static QBar3DSeries],
     Bind [] ''isAutoAdjustRange'' [] RBool [OnObject QAbstract3DAxis],
     Bind [] ''isAutoPosition'' [] RBool [OnObject ''Q3DLight''],
     Bind [] ''isBackgroundEnabled'' [] RBool [OnObject Q3DTheme, OnObject QCustom3DLabel],
     Bind [] ''isBarSpacingRelative'' [] RBool [OnObject ''Q3DBars''],
     Bind [] ''isBorderEnabled'' [] RBool [OnObject QCustom3DLabel],
     Bind [] ''isFacingCamera'' [] RBool [OnObject QCustom3DLabel],
     Bind [] ''isGridEnabled'' [] RBool [OnObject Q3DTheme],
     Bind [] ''isItemLabelVisible'' [] RBool [OnObject QAbstract3DSeries],
     Bind [] ''isLabelBackgroundEnabled'' [] RBool [OnObject Q3DTheme],
     Bind [] ''isLabelBorderEnabled'' [] RBool [OnObject Q3DTheme],
     Bind [] ''isMeshSmooth'' [] RBool [OnObject QAbstract3DSeries],
     Bind [] ''isMultiSeriesUniform'' [] RBool [OnObject ''Q3DBars''],
     Bind [] ''isOrthoProjection'' [] RBool [OnObject QAbstract3DGraph],
     Bind [ValueM QTCORE_QPOINT] ''isPointInPrimarySubView'' [PConv QPoint] RBool [OnObject Q3DScene],
     Bind [ValueM QTCORE_QPOINT] ''isPointInSecondarySubView'' [PConv QPoint] RBool [OnObject Q3DScene],
     Bind [] ''isPolar'' [] RBool [OnObject QAbstract3DGraph],
     Bind [] ''isPositionAbsolute'' [] RBool [OnObject QCustom3DItem],
     Bind [] ''isReflection'' [] RBool [OnObject QAbstract3DGraph],
     Bind [] ''isRotationEnabled'' [] RBool [OnObject ''Q3DInputHandler''],
     Bind [] ''isScalingAbsolute'' [] RBool [OnObject QCustom3DItem],
     Bind [] ''isSecondarySubviewOnTop'' [] RBool [OnObject Q3DScene],
     Bind [] ''isSelectionEnabled'' [] RBool [OnObject ''Q3DInputHandler''],
     Bind [] ''isShadowCasting'' [] RBool [OnObject QCustom3DItem],
     Bind [] ''isSlicingActive'' [] RBool [OnObject Q3DScene],
     Bind [] ''isTitleFixed'' [] RBool [OnObject QAbstract3DAxis],
     Bind [] ''isTitleVisible'' [] RBool [OnObject QAbstract3DAxis],
     Bind [] ''isVisible'' [] RBool [OnObject QAbstract3DSeries, OnObject QCustom3DItem],
     Bind [] ''isZoomAtTargetEnabled'' [] RBool [OnObject ''Q3DInputHandler''],
     Bind [] ''isZoomEnabled'' [] RBool [OnObject ''Q3DInputHandler''],
     Bind [] ''itemLabel'' [] RString [OnObject QAbstract3DSeries],
     Bind [] ''itemLabelFormat'' [] RString [OnObject QAbstract3DSeries],
     Bind [TypeM QTCORE_QABSTRACTITEMMODEL] ''itemModel'' [] RObject [OnObject QItemModelBarDataProxy, OnObject QItemModelScatterDataProxy, OnObject QItemModelSurfaceDataProxy],
     Bind [] ''labelAutoRotation'' [] RNumber [OnObject QAbstract3DAxis],
     Bind [ValueM QTGUI_QCOLOR] ''labelBackgroundColor'' [] (RValue QColor) [OnObject Q3DTheme],
     Bind [ValueM QTGUI_QCOLOR] ''labelTextColor'' [] (RValue QColor) [OnObject Q3DTheme]]"

definition meth_qtdatavisualization_0_1 :: "binding list" where
  "meth_qtdatavisualization_0_1 = [
     Bind [] ''labels'' [] (RList (IMeta QString)) [OnObject QAbstract3DAxis, OnObject ''QCategory3DAxis''],
     Bind [ValueM QTGUI_QCOLOR] ''lightColor'' [] (RValue QColor) [OnObject Q3DTheme],
     Bind [] ''lightStrength'' [] RNumber [OnObject Q3DTheme],
     Bind [ValueM QTCORE_QLOCALE] ''locale'' [] (RValue QLocale) [OnObject QAbstract3DGraph],
     Bind [] ''margin'' [] RNumber [OnObject QAbstract3DGraph],
     Bind [] ''max'' [] RNumber [OnObject QAbstract3DAxis],
     Bind [] ''maxXValue'' [] RNumber [OnObject QHeightMapSurfaceDataProxy],
     Bind [] ''maxZValue'' [] RNumber [OnObject QHeightMapSurfaceDataProxy],
     Bind [] ''maxZoomLevel'' [] RNumber [OnObject ''Q3DCamera''],
     Bind [] ''measureFps'' [] RBool [OnObject QAbstract3DGraph],
     Bind [TypeM ''QTDATAVISUALIZATION_QABSTRACT3DSERIES''] ''mesh'' [] (RMeta ''QAbstract3DSeries::Mesh'') [OnObject QAbstract3DSeries],
     Bind [] ''meshAngle'' [] RNumber [OnObject QBar3DSeries],
     Bind [] ''meshFile'' [] RString [OnObject QCustom3DItem],
     Bind [ValueM QTGUI_QQUATERNION] ''meshRotation'' [] (RValue QQuaternion) [OnObject QAbstract3DSeries],
     Bind [] ''min'' [] RNumber [OnObject QAbstract3DAxis],
     Bind [] ''minXValue'' [] RNumber [OnObject QHeightMapSurfaceDataProxy],
     Bind [] ''minZValue'' [] RNumber [OnObject QHeightMapSurfaceDataProxy],
     Bind [] ''minZoomLevel'' [] RNumber [OnObject ''Q3DCamera''],
     Bind [ValueM QTGUI_QCOLOR] ''multiHighlightColor'' [] (RValue QColor) [OnObject Q3DTheme, OnObject QAbstract3DSeries],
     Bind [ValueM QTGUI_QLINEARGRADIENT] ''multiHighlightGradient'' [] (RValue QLinearGradient) [OnObject Q3DTheme, OnObject QAbstract3DSeries],
     Bind [TypeM ''QTDATAVISUALIZATION_QITEMMODELBARDATAPROXY''] ''multiMatchBehavior'' [] (RMeta ''QItemModelBarDataProxy::MultiMatchBehavior'') [OnObject QItemModelBarDataProxy],
     Bind [TypeM ''QTDATAVISUALIZATION_QITEMMODELSURFACEDATAPROXY''] ''multiMatchBehavior'' [] (RMeta ''QItemModelSurfaceDataProxy::MultiMatchBehavior'') [OnObject QItemModelSurfaceDataProxy],
     Bind [] ''name'' [] RString [OnObject QAbstract3DSeries],
     Bind [TypeM ''QTDATAVISUALIZATION_QABSTRACT3DGRAPH''] ''optimizationHints'' [] (RMeta ''QAbstract3DGraph::OptimizationHints'') [OnObject QAbstract3DGraph],
     Bind [TypeM ''QTDATAVISUALIZATION_QABSTRACT3DAXIS''] ''orientation'' [] (RMeta ''QAbstract3DAxis::AxisOrientation'') [OnObject QAbstract3DAxis],
     Bind [TypeM ''QTDATAVISUALIZATION_Q3DSCENE''] ''parentScene'' [] RObject [OnObject ''Q3DObject''],
     Bind [ValueM QTGUI_QVECTOR3D] ''position'' [] (RValue QVector3D) [OnObject ''Q3DObject'', OnObject QCustom3DItem],
     Bind [] ''preserveOpacity'' [] RBool [OnObject QCustom3DVolume],
     Bind [TypeM ''QTDATAVISUALIZATION_QBAR3DSERIES''] ''primarySeries'' [] RObject [OnObject ''Q3DBars''],
     Bind [ValueM QTCORE_QRECT] ''primarySubViewport'' [] (RValue QRect) [OnObject Q3DScene],
     Bind [ValueM QTGUI_QVECTOR3D] ''queriedGraphPosition'' [] (RValue QVector3D) [OnObject QAbstract3DGraph],
     Bind [] ''radialLabelOffset'' [] RNumber [OnObject QAbstract3DGraph],
     Bind [] ''reflectivity'' [] RNumber [OnObject QAbstract3DGraph],
     Bind [TypeM ''QTDATAVISUALIZATION_QABSTRACT3DAXIS''] ''releaseAxis'' [PNonNull ''QAbstract3DAxis*''] RVoid [OnObject ''Q3DBars''],
     Bind [TypeM QTDATAVISUALIZATION_QVALUE3DAXIS] ''releaseAxis'' [PNonNull ''QValue3DAxis*''] RVoid [OnObject ''Q3DScatter'', OnObject ''Q3DSurface''],
     Bind [TypeM ''QTDATAVISUALIZATION_QCUSTOM3DITEM''] ''releaseCustomItem'' [PNonNull ''QCustom3DItem*''] RVoid [OnObject QAbstract3DGraph],
     Bind [TypeM QTDATAVISUALIZATION_QABSTRACT3DINPUTHANDLER] ''releaseInputHandler'' [PNonNull ''QAbstract3DInputHandler*''] RVoid [OnObject QAbstract3DGraph],
     Bind [TypeM QTDATAVISUALIZATION_Q3DTHEME] ''releaseTheme'' [PNonNull ''Q3DTheme*''] RVoid [OnObject QAbstract3DGraph],
     Bind [] ''remap'' [PString True, PString True, PString True, PString True] RVoid [OnObject QItemModelScatterDataProxy],
     Bind [] ''remap'' [PString True, PString True, PString True, PString True, PString True, PStringList, PStringList] RVoid [OnObject QItemModelSurfaceDataProxy],
     Bind [] ''remap'' [PString True, PString True, PString True, PString True, PStringList, PStringList] RVoid [OnObject QItemModelBarDataProxy],
     Bind [TypeM ''QTDATAVISUALIZATION_QCUSTOM3DITEM''] ''removeCustomItem'' [PNonNull ''QCustom3DItem*''] RVoid [OnObject QAbstract3DGraph],
     Bind [ValueM QTGUI_QVECTOR3D] ''removeCustomItemAt'' [PConv QVector3D] RVoid [OnObject QAbstract3DGraph],
     Bind [] ''removeCustomItems'' [] RVoid [OnObject QAbstract3DGraph],
     Bind [] ''removeRows'' [PInt, PInt, PBool] RVoid [OnObject ''QBarDataProxy''],
     Bind [TypeM ''QTDATAVISUALIZATION_QBAR3DSERIES''] ''removeSeries'' [PNonNull ''QBar3DSeries*''] RVoid [OnObject ''Q3DBars''],
     Bind [TypeM ''QTDATAVISUALIZATION_QSCATTER3DSERIES''] ''removeSeries'' [PNonNull ''QScatter3DSeries*''] RVoid [OnObject ''Q3DScatter''],
     Bind [TypeM ''QTDATAVISUALIZATION_QSURFACE3DSERIES''] ''removeSeries'' [PNonNull ''QSurface3DSeries*''] RVoid [OnObject ''Q3DSurface''],
     Bind [EnumM ''QT_AXIS'', ValueM QTGUI_QIMAGE] ''renderSlice'' [PConv ''Qt::Axis'', PInt] (RValue QImage) [OnObject QCustom3DVolume],
     Bind [ValueM QTCORE_QSIZE, ValueM QTGUI_QIMAGE] ''renderToImage'' [PInt, PConv QSize] (RValue QImage) [OnObject QAbstract3DGraph],
     Bind [] ''resetArray'' [] RVoid [OnObject ''QBarDataProxy''],
     Bind [ValueM QTGUI_QQUATERNION] ''rotation'' [] (RValue QQuaternion) [OnObject QCustom3DItem],
     Bind [] ''rotationRole'' [] RString [OnObject QItemModelBarDataProxy, OnObject QItemModelScatterDataProxy],
     Bind [ValueM QTCORE_QREGULAREXPRESSION] ''rotationRolePattern'' [] (RValue QRegularExpression) [OnObject QItemModelBarDataProxy, OnObject QItemModelScatterDataProxy],
     Bind [] ''rotationRoleReplace'' [] RString [OnObject QItemModelBarDataProxy, OnObject QItemModelScatterDataProxy],
     Bind [TypeM ''QTDATAVISUALIZATION_QCATEGORY3DAXIS''] ''rowAxis'' [] RObject [OnObject ''Q3DBars''],
     Bind [] ''rowCategories'' [] (RList (IMeta QString)) [OnObject QItemModelBarDataProxy, OnObject QItemModelSurfaceDataProxy],
     Bind [] ''rowCategoryIndex'' [PString True] RNumber [OnObject QItemModelBarDataProxy, OnObject QItemModelSurfaceDataProxy],
     Bind [] ''rowCount'' [] RNumber [OnObject ''QBarDataProxy''],
     Bind [] ''rowLabels'' [] (RList (IMeta QString)) [OnObject ''QBarDataProxy''],
     Bind [] ''rowRole'' [] RString [OnObject QItemModelBarDataProxy, OnObject QItemModelSurfaceDataProxy],
     Bind [ValueM QTCORE_QREGULAREXPRESSION] ''rowRolePattern'' [] (RValue QRegularExpression) [OnObject QItemModelBarDataProxy, OnObject QItemModelSurfaceDataProxy],
     Bind [] ''rowRoleReplace'' [] RString [OnObject QItemModelBarDataProxy, OnObject QItemModelSurfaceDataProxy],
     Bind [ValueM QTGUI_QVECTOR3D] ''scaling'' [] (RValue QVector3D) [OnObject QCustom3DItem],
     Bind [TypeM ''QTDATAVISUALIZATION_Q3DSCENE''] ''scene'' [] RObject [OnObject QAbstract3DGraph, OnObject ''QAbstract3DInputHandler''],
     Bind [ValueM QTCORE_QRECT] ''secondarySubViewport'' [] (RValue QRect) [OnObject Q3DScene],
     Bind [TypeM ''QTDATAVISUALIZATION_QABSTRACT3DAXIS''] ''selectedAxis'' [] RObject [OnObject QAbstract3DGraph],
     Bind [ValueM QTCORE_QPOINT] ''selectedBar'' [] (RValue QPoint) [OnObject QBar3DSeries],
     Bind [TypeM ''QTDATAVISUALIZATION_QCUSTOM3DITEM''] ''selectedCustomItem'' [] RObject [OnObject QAbstract3DGraph],
     Bind [] ''selectedCustomItemIndex'' [] RNumber [OnObject QAbstract3DGraph],
     Bind [TypeM ''QTDATAVISUALIZATION_QABSTRACT3DGRAPH''] ''selectedElement'' [] (RMeta ''QAbstract3DGraph::ElementType'') [OnObject QAbstract3DGraph],
     Bind [] ''selectedLabelIndex'' [] RNumber [OnObject QAbstract3DGraph],
     Bind [TypeM ''QTDATAVISUALIZATION_QBAR3DSERIES''] ''selectedSeries'' [] RObject [OnObject ''Q3DBars''],
     Bind [TypeM ''QTDATAVISUALIZATION_QSCATTER3DSERIES''] ''selectedSeries'' [] RObject [OnObject ''Q3DScatter''],
     Bind [TypeM ''QTDATAVISUALIZATION_QSURFACE3DSERIES''] ''selectedSeries'' [] RObject [OnObject ''Q3DSurface''],
     Bind [ValueM QTCORE_QPOINT] ''selectionQueryPosition'' [] (RValue QPoint) [OnObject Q3DScene],
     Bind [TypeM ''QTDATAVISUALIZATION_QBAR3DSERIES''] ''series'' [] RObject [OnObject ''QBarDataProxy''],
     Bind [TypeM ''QTDATAVISUALIZATION_QBAR3DSERIES''] ''seriesList'' [] (RList IObject) [OnObject ''Q3DBars''],
     Bind [TypeM ''QTDATAVISUALIZATION_QSCATTER3DSERIES''] ''seriesList'' [] (RList IObject) [OnObject ''Q3DScatter''],
     Bind [TypeM ''QTDATAVISUALIZATION_QSURFACE3DSERIES''] ''seriesList'' [] (RList IObject) [OnObject ''Q3DSurface''],
     Bind [TypeM ''QTDATAVISUALIZATION_Q3DCAMERA''] ''setActiveCamera'' [PNonNull ''Q3DCamera*''] RVoid [OnObject Q3DScene],
     Bind [TypeM QTDATAVISUALIZATION_QABSTRACT3DINPUTHANDLER] ''setActiveInputHandler'' [PNonNull ''QAbstract3DInputHandler*''] RVoid [OnObject QAbstract3DGraph],
     Bind [TypeM ''QTDATAVISUALIZATION_Q3DLIGHT''] ''setActiveLight'' [PNonNull ''Q3DLight*''] RVoid [OnObject Q3DScene],
     Bind [TypeM QTDATAVISUALIZATION_Q3DTHEME] ''setActiveTheme'' [PNonNull ''Q3DTheme*''] RVoid [OnObject QAbstract3DGraph],
     Bind [] ''setAlphaMultiplier'' [PReal ''float''] RVoid [OnObject QCustom3DVolume],
     Bind [] ''setAmbientLightStrength'' [PReal ''float''] RVoid [OnObject Q3DTheme],
     Bind [] ''setAspectRatio'' [PReal ''qreal''] RVoid [OnObject QAbstract3DGraph],
     Bind [] ''setAutoAdjustRange'' [PBool] RVoid [OnObject QAbstract3DAxis],
     Bind [] ''setAutoColumnCategories'' [PBool] RVoid [OnObject QItemModelBarDataProxy, OnObject QItemModelSurfaceDataProxy],
     Bind [] ''setAutoPosition'' [PBool] RVoid [OnObject ''Q3DLight'']]"

definition meth_qtdatavisualization_0_2 :: "binding list" where
  "meth_qtdatavisualization_0_2 = [
     Bind [] ''setAutoRowCategories'' [PBool] RVoid [OnObject QItemModelBarDataProxy, OnObject QItemModelSurfaceDataProxy],
     Bind [TypeM QTDATAVISUALIZATION_QVALUE3DAXIS] ''setAxisX'' [PNonNull ''QValue3DAxis*''] RVoid [OnObject ''Q3DScatter'', OnObject ''Q3DSurface''],
     Bind [TypeM QTDATAVISUALIZATION_QVALUE3DAXIS] ''setAxisY'' [PNonNull ''QValue3DAxis*''] RVoid [OnObject ''Q3DScatter'', OnObject ''Q3DSurface''],
     Bind [TypeM QTDATAVISUALIZATION_QVALUE3DAXIS] ''setAxisZ'' [PNonNull ''QValue3DAxis*''] RVoid [OnObject ''Q3DScatter'', OnObject ''Q3DSurface''],
     Bind [ValueM QTGUI_QCOLOR] ''setBackgroundColor'' [PConv QColor] RVoid [OnObject Q3DTheme, OnObject QCustom3DLabel],
     Bind [] ''setBackgroundEnabled'' [PBool] RVoid [OnObject Q3DTheme, OnObject QCustom3DLabel],
     Bind [ValueM QTCORE_QSIZEF] ''setBarSpacing'' [PConv QSizeF] RVoid [OnObject ''Q3DBars''],
     Bind [] ''setBarSpacingRelative'' [PBool] RVoid [OnObject ''Q3DBars''],
     Bind [] ''setBarThickness'' [PReal ''float''] RVoid [OnObject ''Q3DBars''],
     Bind [ValueM QTGUI_QCOLOR] ''setBaseColor'' [PConv QColor] RVoid [OnObject QAbstract3DSeries],
     Bind [ValueM QTGUI_QCOLOR] ''setBaseColors'' [PListV QColor] RVoid [OnObject Q3DTheme],
     Bind [ValueM QTGUI_QLINEARGRADIENT] ''setBaseGradient'' [PConv QLinearGradient] RVoid [OnObject QAbstract3DSeries],
     Bind [ValueM QTGUI_QLINEARGRADIENT] ''setBaseGradients'' [PListV QLinearGradient] RVoid [OnObject Q3DTheme],
     Bind [] ''setBorderEnabled'' [PBool] RVoid [OnObject QCustom3DLabel],
     Bind [] ''setCameraPosition'' [PReal ''float'', PReal ''float'', PReal ''float''] RVoid [OnObject ''Q3DCamera''],
     Bind [TypeM ''QTDATAVISUALIZATION_Q3DCAMERA''] ''setCameraPreset'' [PConv ''Q3DCamera::CameraPreset''] RVoid [OnObject ''Q3DCamera''],
     Bind [TypeM QTDATAVISUALIZATION_Q3DTHEME] ''setColorStyle'' [PConv ''Q3DTheme::ColorStyle''] RVoid [OnObject Q3DTheme, OnObject QAbstract3DSeries],
     Bind [] ''setColorTable'' [PList ''unsigned int''] RVoid [OnObject QCustom3DVolume],
     Bind [TypeM ''QTDATAVISUALIZATION_QCATEGORY3DAXIS''] ''setColumnAxis'' [PNonNull ''QCategory3DAxis*''] RVoid [OnObject ''Q3DBars''],
     Bind [] ''setColumnCategories'' [PStringList] RVoid [OnObject QItemModelBarDataProxy, OnObject QItemModelSurfaceDataProxy],
     Bind [] ''setColumnLabels'' [PStringList] RVoid [OnObject ''QBarDataProxy''],
     Bind [] ''setColumnRole'' [PString True] RVoid [OnObject QItemModelBarDataProxy, OnObject QItemModelSurfaceDataProxy],
     Bind [ValueM QTCORE_QREGULAREXPRESSION] ''setColumnRolePattern'' [PConv QRegularExpression] RVoid [OnObject QItemModelBarDataProxy, OnObject QItemModelSurfaceDataProxy],
     Bind [] ''setColumnRoleReplace'' [PString True] RVoid [OnObject QItemModelBarDataProxy, OnObject QItemModelSurfaceDataProxy],
     Bind [TypeM ''QTDATAVISUALIZATION_QBARDATAPROXY''] ''setDataProxy'' [PNonNull ''QBarDataProxy*''] RVoid [OnObject QBar3DSeries],
     Bind [] ''setDevicePixelRatio'' [PReal ''float''] RVoid [OnObject Q3DScene],
     Bind [] ''setDrawSliceFrames'' [PBool] RVoid [OnObject QCustom3DVolume],
     Bind [] ''setDrawSlices'' [PBool] RVoid [OnObject QCustom3DVolume],
     Bind [] ''setFacingCamera'' [PBool] RVoid [OnObject QCustom3DLabel],
     Bind [] ''setFlipHorizontalGrid'' [PBool] RVoid [OnObject ''Q3DSurface''],
     Bind [] ''setFloorLevel'' [PReal ''float''] RVoid [OnObject ''Q3DBars''],
     Bind [ValueM QTGUI_QFONT] ''setFont'' [PConv QFont] RVoid [OnObject Q3DTheme, OnObject QCustom3DLabel],
     Bind [ValueM QTCORE_QPOINT] ''setGraphPositionQuery'' [PConv QPoint] RVoid [OnObject Q3DScene],
     Bind [] ''setGridEnabled'' [PBool] RVoid [OnObject Q3DTheme],
     Bind [ValueM QTGUI_QCOLOR] ''setGridLineColor'' [PConv QColor] RVoid [OnObject Q3DTheme],
     Bind [ValueM QTGUI_QIMAGE] ''setHeightMap'' [PConv QImage] RVoid [OnObject QHeightMapSurfaceDataProxy],
     Bind [] ''setHeightMapFile'' [PString True] RVoid [OnObject QHeightMapSurfaceDataProxy],
     Bind [] ''setHighlightLightStrength'' [PReal ''float''] RVoid [OnObject Q3DTheme],
     Bind [] ''setHorizontalAspectRatio'' [PReal ''qreal''] RVoid [OnObject QAbstract3DGraph],
     Bind [ValueM QTCORE_QPOINT] ''setInputPosition'' [PConv QPoint] RVoid [OnObject ''QAbstract3DInputHandler''],
     Bind [TypeM QTDATAVISUALIZATION_QABSTRACT3DINPUTHANDLER] ''setInputView'' [PConv ''QAbstract3DInputHandler::InputView''] RVoid [OnObject ''QAbstract3DInputHandler''],
     Bind [] ''setItemLabelFormat'' [PString True] RVoid [OnObject QAbstract3DSeries],
     Bind [] ''setItemLabelVisible'' [PBool] RVoid [OnObject QAbstract3DSeries],
     Bind [TypeM QTCORE_QABSTRACTITEMMODEL] ''setItemModel'' [PNonNull QAbstractItemModel_ptr] RVoid [OnObject QItemModelBarDataProxy, OnObject QItemModelScatterDataProxy, OnObject QItemModelSurfaceDataProxy],
     Bind [] ''setLabelAutoRotation'' [PReal ''float''] RVoid [OnObject QAbstract3DAxis],
     Bind [ValueM QTGUI_QCOLOR] ''setLabelBackgroundColor'' [PConv QColor] RVoid [OnObject Q3DTheme],
     Bind [] ''setLabelBackgroundEnabled'' [PBool] RVoid [OnObject Q3DTheme],
     Bind [] ''setLabelBorderEnabled'' [PBool] RVoid [OnObject Q3DTheme],
     Bind [ValueM QTGUI_QCOLOR] ''setLabelTextColor'' [PConv QColor] RVoid [OnObject Q3DTheme],
     Bind [] ''setLabels'' [PStringList] RVoid [OnObject QAbstract3DAxis, OnObject ''QCategory3DAxis''],
     Bind [ValueM QTGUI_QCOLOR] ''setLightColor'' [PConv QColor] RVoid [OnObject Q3DTheme],
     Bind [] ''setLightStrength'' [PReal ''float''] RVoid [OnObject Q3DTheme],
     Bind [ValueM QTCORE_QLOCALE] ''setLocale'' [PConv QLocale] RVoid [OnObject QAbstract3DGraph],
     Bind [] ''setMargin'' [PReal ''qreal''] RVoid [OnObject QAbstract3DGraph],
     Bind [] ''setMax'' [PReal ''float''] RVoid [OnObject QAbstract3DAxis],
     Bind [] ''setMaxXValue'' [PReal ''float''] RVoid [OnObject QHeightMapSurfaceDataProxy],
     Bind [] ''setMaxZValue'' [PReal ''float''] RVoid [OnObject QHeightMapSurfaceDataProxy],
     Bind [] ''setMaxZoomLevel'' [PReal ''float''] RVoid [OnObject ''Q3DCamera''],
     Bind [] ''setMeasureFps'' [PBool] RVoid [OnObject QAbstract3DGraph],
     Bind [TypeM ''QTDATAVISUALIZATION_QABSTRACT3DSERIES''] ''setMesh'' [PConv ''QAbstract3DSeries::Mesh''] RVoid [OnObject QAbstract3DSeries],
     Bind [] ''setMeshAngle'' [PReal ''float''] RVoid [OnObject QBar3DSeries],
     Bind [ValueM QTGUI_QVECTOR3D] ''setMeshAxisAndAngle'' [PConv QVector3D, PReal ''float''] RVoid [OnObject QAbstract3DSeries],
     Bind [] ''setMeshFile'' [PString True] RVoid [OnObject QCustom3DItem],
     Bind [ValueM QTGUI_QQUATERNION] ''setMeshRotation'' [PConv QQuaternion] RVoid [OnObject QAbstract3DSeries],
     Bind [] ''setMeshSmooth'' [PBool] RVoid [OnObject QAbstract3DSeries],
     Bind [] ''setMin'' [PReal ''float''] RVoid [OnObject QAbstract3DAxis],
     Bind [] ''setMinXValue'' [PReal ''float''] RVoid [OnObject QHeightMapSurfaceDataProxy],
     Bind [] ''setMinZValue'' [PReal ''float''] RVoid [OnObject QHeightMapSurfaceDataProxy],
     Bind [] ''setMinZoomLevel'' [PReal ''float''] RVoid [OnObject ''Q3DCamera''],
     Bind [ValueM QTGUI_QCOLOR] ''setMultiHighlightColor'' [PConv QColor] RVoid [OnObject Q3DTheme, OnObject QAbstract3DSeries],
     Bind [ValueM QTGUI_QLINEARGRADIENT] ''setMultiHighlightGradient'' [PConv QLinearGradient] RVoid [OnObject Q3DTheme, OnObject QAbstract3DSeries],
     Bind [TypeM ''QTDATAVISUALIZATION_QITEMMODELBARDATAPROXY''] ''setMultiMatchBehavior'' [PConv ''QItemModelBarDataProxy::MultiMatchBehavior''] RVoid [OnObject QItemModelBarDataProxy],
     Bind [TypeM ''QTDATAVISUALIZATION_QITEMMODELSURFACEDATAPROXY''] ''setMultiMatchBehavior'' [PConv ''QItemModelSurfaceDataProxy::MultiMatchBehavior''] RVoid [OnObject QItemModelSurfaceDataProxy],
     Bind [] ''setMultiSeriesUniform'' [PBool] RVoid [OnObject ''Q3DBars''],
     Bind [] ''setName'' [PString True] RVoid [OnObject QAbstract3DSeries],
     Bind [TypeM ''QTDATAVISUALIZATION_QABSTRACT3DGRAPH''] ''setOptimizationHints'' [PConv ''QAbstract3DGraph::OptimizationHints''] RVoid [OnObject QAbstract3DGraph],
     Bind [] ''setOrthoProjection'' [PBool] RVoid [OnObject QAbstract3DGraph],
     Bind [] ''setPolar'' [PBool] RVoid [OnObject QAbstract3DGraph],
     Bind [ValueM QTGUI_QVECTOR3D] ''setPosition'' [PConv QVector3D] RVoid [OnObject ''Q3DObject'', OnObject QCustom3DItem],
     Bind [] ''setPositionAbsolute'' [PBool] RVoid [OnObject QCustom3DItem],
     Bind [] ''setPreserveOpacity'' [PBool] RVoid [OnObject QCustom3DVolume],
     Bind [TypeM ''QTDATAVISUALIZATION_QBAR3DSERIES''] ''setPrimarySeries'' [PNonNull ''QBar3DSeries*''] RVoid [OnObject ''Q3DBars''],
     Bind [ValueM QTCORE_QRECT] ''setPrimarySubViewport'' [PConv QRect] RVoid [OnObject Q3DScene],
     Bind [] ''setRadialLabelOffset'' [PReal ''float''] RVoid [OnObject QAbstract3DGraph],
     Bind [] ''setRange'' [PReal ''float'', PReal ''float''] RVoid [OnObject QAbstract3DAxis]]"

definition meth_qtdatavisualization_0_3 :: "binding list" where
  "meth_qtdatavisualization_0_3 = [
     Bind [] ''setReflection'' [PBool] RVoid [OnObject QAbstract3DGraph],
     Bind [] ''setReflectivity'' [PReal ''qreal''] RVoid [OnObject QAbstract3DGraph],
     Bind [ValueM QTGUI_QQUATERNION] ''setRotation'' [PConv QQuaternion] RVoid [OnObject QCustom3DItem],
     Bind [ValueM QTGUI_QVECTOR3D] ''setRotationAxisAndAngle'' [PConv QVector3D, PReal ''float''] RVoid [OnObject QCustom3DItem],
     Bind [] ''setRotationEnabled'' [PBool] RVoid [OnObject ''Q3DInputHandler''],
     Bind [] ''setRotationRole'' [PString True] RVoid [OnObject QItemModelBarDataProxy, OnObject QItemModelScatterDataProxy],
     Bind [ValueM QTCORE_QREGULAREXPRESSION] ''setRotationRolePattern'' [PConv QRegularExpression] RVoid [OnObject QItemModelBarDataProxy, OnObject QItemModelScatterDataProxy],
     Bind [] ''setRotationRoleReplace'' [PString True] RVoid [OnObject QItemModelBarDataProxy, OnObject QItemModelScatterDataProxy],
     Bind [TypeM ''QTDATAVISUALIZATION_QCATEGORY3DAXIS''] ''setRowAxis'' [PNonNull ''QCategory3DAxis*''] RVoid [OnObject ''Q3DBars''],
     Bind [] ''setRowCategories'' [PStringList] RVoid [OnObject QItemModelBarDataProxy, OnObject QItemModelSurfaceDataProxy],
     Bind [] ''setRowLabels'' [PStringList] RVoid [OnObject ''QBarDataProxy''],
     Bind [] ''setRowRole'' [PString True] RVoid [OnObject QItemModelBarDataProxy, OnObject QItemModelSurfaceDataProxy],
     Bind [ValueM QTCORE_QREGULAREXPRESSION] ''setRowRolePattern'' [PConv QRegularExpression] RVoid [OnObject QItemModelBarDataProxy, OnObject QItemModelSurfaceDataProxy],
     Bind [] ''setRowRoleReplace'' [PString True] RVoid [OnObject QItemModelBarDataProxy, OnObject QItemModelSurfaceDataProxy],
     Bind [ValueM QTGUI_QVECTOR3D] ''setScaling'' [PConv QVector3D] RVoid [OnObject QCustom3DItem],
     Bind [] ''setScalingAbsolute'' [PBool] RVoid [OnObject QCustom3DItem],
     Bind [TypeM ''QTDATAVISUALIZATION_Q3DSCENE''] ''setScene'' [PNonNull ''Q3DScene*''] RVoid [OnObject ''QAbstract3DInputHandler''],
     Bind [ValueM QTCORE_QRECT] ''setSecondarySubViewport'' [PConv QRect] RVoid [OnObject Q3DScene],
     Bind [] ''setSecondarySubviewOnTop'' [PBool] RVoid [OnObject Q3DScene],
     Bind [ValueM QTCORE_QPOINT] ''setSelectedBar'' [PConv QPoint] RVoid [OnObject QBar3DSeries],
     Bind [] ''setSelectionEnabled'' [PBool] RVoid [OnObject ''Q3DInputHandler''],
     Bind [ValueM QTCORE_QPOINT] ''setSelectionQueryPosition'' [PConv QPoint] RVoid [OnObject Q3DScene],
     Bind [] ''setShadowCasting'' [PBool] RVoid [OnObject QCustom3DItem],
     Bind [TypeM ''QTDATAVISUALIZATION_QABSTRACT3DGRAPH''] ''setShadowQuality'' [PConv ''QAbstract3DGraph::ShadowQuality''] RVoid [OnObject QAbstract3DGraph],
     Bind [ValueM QTGUI_QCOLOR] ''setSingleHighlightColor'' [PConv QColor] RVoid [OnObject Q3DTheme, OnObject QAbstract3DSeries],
     Bind [ValueM QTGUI_QLINEARGRADIENT] ''setSingleHighlightGradient'' [PConv QLinearGradient] RVoid [OnObject Q3DTheme, OnObject QAbstract3DSeries],
     Bind [ValueM QTGUI_QCOLOR] ''setSliceFrameColor'' [PConv QColor] RVoid [OnObject QCustom3DVolume],
     Bind [ValueM QTGUI_QVECTOR3D] ''setSliceFrameGaps'' [PConv QVector3D] RVoid [OnObject QCustom3DVolume],
     Bind [ValueM QTGUI_QVECTOR3D] ''setSliceFrameThicknesses'' [PConv QVector3D] RVoid [OnObject QCustom3DVolume],
     Bind [ValueM QTGUI_QVECTOR3D] ''setSliceFrameWidths'' [PConv QVector3D] RVoid [OnObject QCustom3DVolume],
     Bind [] ''setSliceIndexX'' [PInt] RVoid [OnObject QCustom3DVolume],
     Bind [] ''setSliceIndexY'' [PInt] RVoid [OnObject QCustom3DVolume],
     Bind [] ''setSliceIndexZ'' [PInt] RVoid [OnObject QCustom3DVolume],
     Bind [] ''setSliceIndices'' [PInt, PInt, PInt] RVoid [OnObject QCustom3DVolume],
     Bind [] ''setSlicingActive'' [PBool] RVoid [OnObject Q3DScene],
     Bind [EnumM ''QT_AXIS'', ValueM QTGUI_QIMAGE] ''setSubTextureData'' [PConv ''Qt::Axis'', PInt, PConv QImage] RVoid [OnObject QCustom3DVolume],
     Bind [ValueM QTGUI_QVECTOR3D] ''setTarget'' [PConv QVector3D] RVoid [OnObject ''Q3DCamera''],
     Bind [] ''setText'' [PString True] RVoid [OnObject QCustom3DLabel],
     Bind [ValueM QTGUI_QCOLOR] ''setTextColor'' [PConv QColor] RVoid [OnObject QCustom3DLabel],
     Bind [] ''setTextureDepth'' [PInt] RVoid [OnObject QCustom3DVolume],
     Bind [] ''setTextureDimensions'' [PInt, PInt, PInt] RVoid [OnObject QCustom3DVolume],
     Bind [] ''setTextureFile'' [PString True] RVoid [OnObject QCustom3DItem],
     Bind [TypeM QTGUI_QIMAGE] ''setTextureFormat'' [PConv ''QImage::Format''] RVoid [OnObject QCustom3DVolume],
     Bind [] ''setTextureHeight'' [PInt] RVoid [OnObject QCustom3DVolume],
     Bind [ValueM QTGUI_QIMAGE] ''setTextureImage'' [PConv QImage] RVoid [OnObject QCustom3DItem],
     Bind [] ''setTextureWidth'' [PInt] RVoid [OnObject QCustom3DVolume],
     Bind [] ''setTitle'' [PString True] RVoid [OnObject QAbstract3DAxis],
     Bind [] ''setTitleFixed'' [PBool] RVoid [OnObject QAbstract3DAxis],
     Bind [] ''setTitleVisible'' [PBool] RVoid [OnObject QAbstract3DAxis],
     Bind [TypeM QTDATAVISUALIZATION_Q3DTHEME] ''setType'' [PConv ''Q3DTheme::Theme''] RVoid [OnObject Q3DTheme],
     Bind [] ''setUseHighDefShader'' [PBool] RVoid [OnObject QCustom3DVolume],
     Bind [] ''setUseModelCategories'' [PBool] RVoid [OnObject QItemModelBarDataProxy, OnObject QItemModelSurfaceDataProxy],
     Bind [] ''setUserDefinedMesh'' [PString True] RVoid [OnObject QAbstract3DSeries],
     Bind [TypeM QTDATAVISUALIZATION_QVALUE3DAXIS] ''setValueAxis'' [PNonNull ''QValue3DAxis*''] RVoid [OnObject ''Q3DBars''],
     Bind [] ''setValueRanges'' [PReal ''float'', PReal ''float'', PReal ''float'', PReal ''float''] RVoid [OnObject QHeightMapSurfaceDataProxy],
     Bind [] ''setValueRole'' [PString True] RVoid [OnObject QItemModelBarDataProxy],
     Bind [ValueM QTCORE_QREGULAREXPRESSION] ''setValueRolePattern'' [PConv QRegularExpression] RVoid [OnObject QItemModelBarDataProxy],
     Bind [] ''setValueRoleReplace'' [PString True] RVoid [OnObject QItemModelBarDataProxy],
     Bind [] ''setVisible'' [PBool] RVoid [OnObject QAbstract3DSeries, OnObject QCustom3DItem],
     Bind [ValueM QTGUI_QCOLOR] ''setWindowColor'' [PConv QColor] RVoid [OnObject Q3DTheme],
     Bind [] ''setWrapXRotation'' [PBool] RVoid [OnObject ''Q3DCamera''],
     Bind [] ''setWrapYRotation'' [PBool] RVoid [OnObject ''Q3DCamera''],
     Bind [] ''setXPosRole'' [PString True] RVoid [OnObject QItemModelScatterDataProxy, OnObject QItemModelSurfaceDataProxy],
     Bind [ValueM QTCORE_QREGULAREXPRESSION] ''setXPosRolePattern'' [PConv QRegularExpression] RVoid [OnObject QItemModelScatterDataProxy, OnObject QItemModelSurfaceDataProxy],
     Bind [] ''setXPosRoleReplace'' [PString True] RVoid [OnObject QItemModelScatterDataProxy, OnObject QItemModelSurfaceDataProxy],
     Bind [] ''setXRotation'' [PReal ''float''] RVoid [OnObject ''Q3DCamera''],
     Bind [] ''setYPosRole'' [PString True] RVoid [OnObject QItemModelScatterDataProxy, OnObject QItemModelSurfaceDataProxy],
     Bind [ValueM QTCORE_QREGULAREXPRESSION] ''setYPosRolePattern'' [PConv QRegularExpression] RVoid [OnObject QItemModelScatterDataProxy, OnObject QItemModelSurfaceDataProxy],
     Bind [] ''setYPosRoleReplace'' [PString True] RVoid [OnObject QItemModelScatterDataProxy, OnObject QItemModelSurfaceDataProxy],
     Bind [] ''setYRotation'' [PReal ''float''] RVoid [OnObject ''Q3DCamera''],
     Bind [] ''setZPosRole'' [PString True] RVoid [OnObject QItemModelScatterDataProxy, OnObject QItemModelSurfaceDataProxy],
     Bind [ValueM QTCORE_QREGULAREXPRESSION] ''setZPosRolePattern'' [PConv QRegularExpression] RVoid [OnObject QItemModelScatterDataProxy, OnObject QItemModelSurfaceDataProxy],
     Bind [] ''setZPosRoleReplace'' [PString True] RVoid [OnObject QItemModelScatterDataProxy, OnObject QItemModelSurfaceDataProxy],
     Bind [] ''setZoomAtTargetEnabled'' [PBool] RVoid [OnObject ''Q3DInputHandler''],
     Bind [] ''setZoomEnabled'' [PBool] RVoid [OnObject ''Q3DInputHandler''],
     Bind [] ''setZoomLevel'' [PReal ''float''] RVoid [OnObject ''Q3DCamera''],
     Bind [TypeM ''QTDATAVISUALIZATION_QABSTRACT3DGRAPH''] ''shadowQuality'' [] (RMeta ''QAbstract3DGraph::ShadowQuality'') [OnObject QAbstract3DGraph],
     Bind [] ''shadowsSupported'' [] RBool [OnObject QAbstract3DGraph],
     Bind [ValueM QTGUI_QCOLOR] ''singleHighlightColor'' [] (RValue QColor) [OnObject Q3DTheme, OnObject QAbstract3DSeries],
     Bind [ValueM QTGUI_QLINEARGRADIENT] ''singleHighlightGradient'' [] (RValue QLinearGradient) [OnObject Q3DTheme, OnObject QAbstract3DSeries],
     Bind [ValueM QTGUI_QCOLOR] ''sliceFrameColor'' [] (RValue QColor) [OnObject QCustom3DVolume],
     Bind [ValueM QTGUI_QVECTOR3D] ''sliceFrameGaps'' [] (RValue QVector3D) [OnObject QCustom3DVolume],
     Bind [ValueM QTGUI_QVECTOR3D] ''sliceFrameThicknesses'' [] (RValue QVector3D) [OnObject QCustom3DVolume],
     Bind [ValueM QTGUI_QVECTOR3D] ''sliceFrameWidths'' [] (RValue QVector3D) [OnObject QCustom3DVolume]]"

definition meth_qtdatavisualization_0_4 :: "binding list" where
  "meth_qtdatavisualization_0_4 = [
     Bind [] ''sliceIndexX'' [] RNumber [OnObject QCustom3DVolume],
     Bind [] ''sliceIndexY'' [] RNumber [OnObject QCustom3DVolume],
     Bind [] ''sliceIndexZ'' [] RNumber [OnObject QCustom3DVolume],
     Bind [ValueM QTGUI_QVECTOR3D] ''target'' [] (RValue QVector3D) [OnObject ''Q3DCamera''],
     Bind [] ''text'' [] RString [OnObject QCustom3DLabel],
     Bind [ValueM QTGUI_QCOLOR] ''textColor'' [] (RValue QColor) [OnObject QCustom3DLabel],
     Bind [] ''textureDataWidth'' [] RNumber [OnObject QCustom3DVolume],
     Bind [] ''textureDepth'' [] RNumber [OnObject QCustom3DVolume],
     Bind [] ''textureFile'' [] RString [OnObject QCustom3DItem],
     Bind [TypeM QTGUI_QIMAGE] ''textureFormat'' [] (RMeta ''QImage::Format'') [OnObject QCustom3DVolume],
     Bind [] ''textureHeight'' [] RNumber [OnObject QCustom3DVolume],
     Bind [] ''textureWidth'' [] RNumber [OnObject QCustom3DVolume],
     Bind [TypeM QTDATAVISUALIZATION_Q3DTHEME] ''themes'' [] (RList IObject) [OnObject QAbstract3DGraph],
     Bind [] ''title'' [] RString [OnObject QAbstract3DAxis],
     Bind [TypeM QTDATAVISUALIZATION_Q3DTHEME] ''type'' [] (RMeta ''Q3DTheme::Theme'') [OnObject Q3DTheme],
     Bind [TypeM ''QTDATAVISUALIZATION_QABSTRACT3DAXIS''] ''type'' [] (RMeta ''QAbstract3DAxis::AxisType'') [OnObject QAbstract3DAxis],
     Bind [TypeM ''QTDATAVISUALIZATION_QABSTRACT3DSERIES''] ''type'' [] (RMeta ''QAbstract3DSeries::SeriesType'') [OnObject QAbstract3DSeries],
     Bind [TypeM ''QTDATAVISUALIZATION_QABSTRACTDATAPROXY''] ''type'' [] (RMeta ''QAbstractDataProxy::DataType'') [OnObject ''QAbstractDataProxy''],
     Bind [] ''useHighDefShader'' [] RBool [OnObject QCustom3DVolume],
     Bind [] ''useModelCategories'' [] RBool [OnObject QItemModelBarDataProxy, OnObject QItemModelSurfaceDataProxy],
     Bind [] ''userDefinedMesh'' [] RString [OnObject QAbstract3DSeries],
     Bind [TypeM QTDATAVISUALIZATION_QVALUE3DAXIS] ''valueAxis'' [] RObject [OnObject ''Q3DBars''],
     Bind [] ''valueRole'' [] RString [OnObject QItemModelBarDataProxy],
     Bind [ValueM QTCORE_QREGULAREXPRESSION] ''valueRolePattern'' [] (RValue QRegularExpression) [OnObject QItemModelBarDataProxy],
     Bind [] ''valueRoleReplace'' [] RString [OnObject QItemModelBarDataProxy],
     Bind [ValueM QTCORE_QRECT] ''viewport'' [] (RValue QRect) [OnObject Q3DScene],
     Bind [ValueM QTGUI_QCOLOR] ''windowColor'' [] (RValue QColor) [OnObject Q3DTheme],
     Bind [] ''wrapXRotation'' [] RBool [OnObject ''Q3DCamera''],
     Bind [] ''wrapYRotation'' [] RBool [OnObject ''Q3DCamera''],
     Bind [] ''xPosRole'' [] RString [OnObject QItemModelScatterDataProxy, OnObject QItemModelSurfaceDataProxy],
     Bind [ValueM QTCORE_QREGULAREXPRESSION] ''xPosRolePattern'' [] (RValue QRegularExpression) [OnObject QItemModelScatterDataProxy, OnObject QItemModelSurfaceDataProxy],
     Bind [] ''xPosRoleReplace'' [] RString [OnObject QItemModelScatterDataProxy, OnObject QItemModelSurfaceDataProxy],
     Bind [] ''xRotation'' [] RNumber [OnObject ''Q3DCamera''],
     Bind [] ''yPosRole'' [] RString [OnObject QItemModelScatterDataProxy, OnObject QItemModelSurfaceDataProxy],
     Bind [ValueM QTCORE_QREGULAREXPRESSION] ''yPosRolePattern'' [] (RValue QRegularExpression) [OnObject QItemModelScatterDataProxy, OnObject QItemModelSurfaceDataProxy],
     Bind [] ''yPosRoleReplace'' [] RString [OnObject QItemModelScatterDataProxy, OnObject QItemModelSurfaceDataProxy],
     Bind [] ''yRotation'' [] RNumber [OnObject ''Q3DCamera''],
     Bind [] ''zPosRole'' [] RString [OnObject QItemModelScatterDataProxy, OnObject QItemModelSurfaceDataProxy],
     Bind [ValueM QTCORE_QREGULAREXPRESSION] ''zPosRolePattern'' [] (RValue QRegularExpression) [OnObject QItemModelScatterDataProxy, OnObject QItemModelSurfaceDataProxy],
     Bind [] ''zPosRoleReplace'' [] RString [OnObject QItemModelScatterDataProxy, OnObject QItemModelSurfaceDataProxy],
     Bind [] ''zoomLevel'' [] RNumber [OnObject ''Q3DCamera'']]"

definition meth_qtdatavisualization_1_0 :: "binding list" where
  "meth_qtdatavisualization_1_0 = [
     Bind [] ''autoSubGrid'' [] RBool [OnObject QLogValue3DAxisFormatter],
     Bind [] ''base'' [] RNumber [OnObject QLogValue3DAxisFormatter],
     Bind [] ''columnCount'' [] RNumber [OnObject QSurfaceDataProxy],
     Bind [TypeM ''QTDATAVISUALIZATION_QSCATTERDATAPROXY''] ''dataProxy'' [] RObject [OnObject QScatter3DSeries],
     Bind [TypeM ''QTDATAVISUALIZATION_QSURFACEDATAPROXY''] ''dataProxy'' [] RObject [OnObject QSurface3DSeries],
     Bind [TypeM ''QTDATAVISUALIZATION_QVALUE3DAXISFORMATTER''] ''formatter'' [] RObject [OnObject QValue3DAxis],
     Bind [] ''invalidSelectionIndex'' [] RNumber [Static QScatter3DSeries],
     Bind [ValueM QTCORE_QPOINT] ''invalidSelectionPosition'' [] (RValue QPoint) [Static QSurface3DSeries],
     Bind [] ''isFlatShadingEnabled'' [] RBool [OnObject QSurface3DSeries],
     Bind [] ''isFlatShadingSupported'' [] RBool [OnObject QSurface3DSeries],
     Bind [] ''itemCount'' [] RNumber [OnObject ''QScatterDataProxy''],
     Bind [] ''itemSize'' [] RNumber [OnObject QScatter3DSeries],
     Bind [] ''labelFormat'' [] RString [OnObject QValue3DAxis],
     Bind [] ''removeItems'' [PInt, PInt] RVoid [OnObject ''QScatterDataProxy''],
     Bind [] ''removeRows'' [PInt, PInt] RVoid [OnObject QSurfaceDataProxy],
     Bind [] ''reversed'' [] RBool [OnObject QValue3DAxis],
     Bind [] ''rowCount'' [] RNumber [OnObject QSurfaceDataProxy],
     Bind [] ''segmentCount'' [] RNumber [OnObject QValue3DAxis],
     Bind [] ''selectedItem'' [] RNumber [OnObject QScatter3DSeries],
     Bind [ValueM QTCORE_QPOINT] ''selectedPoint'' [] (RValue QPoint) [OnObject QSurface3DSeries],
     Bind [TypeM ''QTDATAVISUALIZATION_QSCATTER3DSERIES''] ''series'' [] RObject [OnObject ''QScatterDataProxy''],
     Bind [TypeM ''QTDATAVISUALIZATION_QSURFACE3DSERIES''] ''series'' [] RObject [OnObject QSurfaceDataProxy],
     Bind [] ''setAutoSubGrid'' [PBool] RVoid [OnObject QLogValue3DAxisFormatter],
     Bind [] ''setBase'' [PReal ''qreal''] RVoid [OnObject QLogValue3DAxisFormatter],
     Bind [TypeM ''QTDATAVISUALIZATION_QSCATTERDATAPROXY''] ''setDataProxy'' [PNonNull ''QScatterDataProxy*''] RVoid [OnObject QScatter3DSeries],
     Bind [TypeM ''QTDATAVISUALIZATION_QSURFACEDATAPROXY''] ''setDataProxy'' [PNonNull ''QSurfaceDataProxy*''] RVoid [OnObject QSurface3DSeries],
     Bind [] ''setFlatShadingEnabled'' [PBool] RVoid [OnObject QSurface3DSeries],
     Bind [TypeM ''QTDATAVISUALIZATION_QVALUE3DAXISFORMATTER''] ''setFormatter'' [PNonNull ''QValue3DAxisFormatter*''] RVoid [OnObject QValue3DAxis],
     Bind [] ''setItemSize'' [PReal ''float''] RVoid [OnObject QScatter3DSeries],
     Bind [] ''setLabelFormat'' [PString True] RVoid [OnObject QValue3DAxis],
     Bind [] ''setReversed'' [PBool] RVoid [OnObject QValue3DAxis],
     Bind [] ''setSegmentCount'' [PInt] RVoid [OnObject QValue3DAxis],
     Bind [] ''setSelectedItem'' [PInt] RVoid [OnObject QScatter3DSeries],
     Bind [ValueM QTCORE_QPOINT] ''setSelectedPoint'' [PConv QPoint] RVoid [OnObject QSurface3DSeries],
     Bind [] ''setShowEdgeLabels'' [PBool] RVoid [OnObject QLogValue3DAxisFormatter],
     Bind [] ''setSubSegmentCount'' [PInt] RVoid [OnObject QValue3DAxis],
     Bind [ValueM QTGUI_QIMAGE] ''setTexture'' [PConv QImage] RVoid [OnObject QSurface3DSeries],
     Bind [] ''setTextureFile'' [PString True] RVoid [OnObject QSurface3DSeries],
     Bind [] ''showEdgeLabels'' [] RBool [OnObject QLogValue3DAxisFormatter],
     Bind [] ''subSegmentCount'' [] RNumber [OnObject QValue3DAxis],
     Bind [ValueM QTGUI_QIMAGE] ''texture'' [] (RValue QImage) [OnObject QSurface3DSeries],
     Bind [] ''textureFile'' [] RString [OnObject QSurface3DSeries]]"

definition meth_table_charts_b :: "(string \<times> shard) list" where
  "meth_table_charts_b = [
     (''qtdatavisualization_0'', \<lparr>sh_module = ''QtDataVisualization'', sh_slug = ''QTDATAVISUALIZATION'',
        sh_bindings = concat [meth_qtdatavisualization_0_0, meth_qtdatavisualization_0_1, meth_qtdatavisualization_0_2, meth_qtdatavisualization_0_3, meth_qtdatavisualization_0_4]\<rparr>),
     (''qtdatavisualization_1'', \<lparr>sh_module = ''QtDataVisualization'', sh_slug = ''QTDATAVISUALIZATION'',
        sh_bindings = concat [meth_qtdatavisualization_1_0]\<rparr>)]"

lemmas meth_table_charts_b_defs =
  meth_qtdatavisualization_0_0_def meth_qtdatavisualization_0_1_def meth_qtdatavisualization_0_2_def
  meth_qtdatavisualization_0_3_def meth_qtdatavisualization_0_4_def meth_qtdatavisualization_1_0_def

lemma meth_table_charts_b_object_blocks: "list_all (\<lambda>(s, sh). object_blocks sh) meth_table_charts_b"
  by (simp add: meth_table_charts_b_def meth_table_charts_b_defs object_blocks_def object_shard_def; (simp add: parameter_text_def qt_name_defs)?)

end
