(* ===== verification/Methods_Charts_C.thy ===== *)
theory Methods_Charts_C
  imports Shard_Methods Qt_Names
begin

text \<open>
  Tables of the method shards (generated\_methods): the blocks of every shard in the file's order.
\<close>

definition meth_qtgraphs_0_0 :: "binding list" where
  "meth_qtgraphs_0_0 = [
     Bind [] ''alphaMultiplier'' [] RNumber [OnObject QCustom3DVolume],
     Bind [TypeM ''QTGRAPHS_QBARSET''] ''append'' [PNonNull ''QBarSet*''] RBool [OnObject QBarSeries],
     Bind [TypeM ''QTGRAPHS_QBARSET''] ''append'' [PList ''QBarSet*''] RBool [OnObject QBarSeries],
     Bind [] ''append'' [PList ''qreal''] RVoid [OnObject QBarSet],
     Bind [] ''append'' [PString True] RVoid [OnObject QBarCategoryAxis],
     Bind [] ''append'' [PStringList] RVoid [OnObject QBarCategoryAxis],
     Bind [] ''append'' [PReal ''qreal''] RVoid [OnObject QBarSet],
     Bind [TypeM ''QTGRAPHS_QBARSET''] ''at'' [PWide ''qsizetype''] RObject [OnObject QBarSeries],
     Bind [] ''at'' [PWide ''qsizetype''] RString [OnObject QBarCategoryAxis],
     Bind [] ''at'' [PWide ''qsizetype''] RNumber [OnObject QBarSet],
     Bind [] ''autoColumnCategories'' [] RBool [OnObject QItemModelBarDataProxy, OnObject QItemModelSurfaceDataProxy],
     Bind [] ''autoRowCategories'' [] RBool [OnObject QItemModelBarDataProxy, OnObject QItemModelSurfaceDataProxy],
     Bind [] ''autoScaleY'' [] RBool [OnObject QHeightMapSurfaceDataProxy],
     Bind [ValueM ''QTGRAPHS_QGRAPHSLINE''] ''axisX'' [] (RValue QGraphsLine) [OnObject QGraphsTheme],
     Bind [ValueM QTGUI_QFONT] ''axisXLabelFont'' [] (RValue QFont) [OnObject QGraphsTheme],
     Bind [ValueM ''QTGRAPHS_QGRAPHSLINE''] ''axisY'' [] (RValue QGraphsLine) [OnObject QGraphsTheme],
     Bind [ValueM QTGUI_QFONT] ''axisYLabelFont'' [] (RValue QFont) [OnObject QGraphsTheme],
     Bind [ValueM ''QTGRAPHS_QGRAPHSLINE''] ''axisZ'' [] (RValue QGraphsLine) [OnObject QGraphsTheme],
     Bind [ValueM QTGUI_QFONT] ''axisZLabelFont'' [] (RValue QFont) [OnObject QGraphsTheme],
     Bind [ValueM QTGUI_QCOLOR] ''backgroundColor'' [] (RValue QColor) [OnObject QCustom3DLabel, OnObject QGraphsTheme],
     Bind [TypeM ''QTQML_QQMLCOMPONENT''] ''barDelegate'' [] RObject [OnObject QBarSeries],
     Bind [TypeM ''QTGRAPHS_QBARSET''] ''barSets'' [] (RList IObject) [OnObject QBarSeries],
     Bind [] ''barWidth'' [] RNumber [OnObject QBarSeries],
     Bind [TypeM ''QTGRAPHS_QBARSERIES''] ''barsType'' [] (RMeta ''QBarSeries::BarsType'') [OnObject QBarSeries],
     Bind [ValueM QTGUI_QCOLOR] ''baseColor'' [] (RValue QColor) [OnObject QAbstract3DSeries],
     Bind [ValueM QTGUI_QLINEARGRADIENT] ''baseGradient'' [] (RValue QLinearGradient) [OnObject QAbstract3DSeries],
     Bind [ValueM QTGUI_QCOLOR] ''borderColor'' [] (RValue QColor) [OnObject QAreaSeries, OnObject QBarSet],
     Bind [ValueM QTGUI_QCOLOR] ''borderColors'' [] (RList (IValue QColor)) [OnObject QBarSeries, OnObject QGraphsTheme],
     Bind [] ''borderWidth'' [] RNumber [OnObject QAreaSeries, OnObject QBarSet, OnObject QGraphsTheme],
     Bind [EnumM ''QT_PENCAPSTYLE''] ''capStyle'' [] (RMeta ''Qt::PenCapStyle'') [OnObject ''QLineSeries''],
     Bind [] ''categories'' [] (RList (IMeta QString)) [OnObject QBarCategoryAxis],
     Bind [] ''clear'' [] RVoid [OnObject QBarCategoryAxis, OnObject QBarSeries, OnObject QBarSet],
     Bind [] ''clearArray'' [] RVoid [OnObject QBar3DSeries],
     Bind [] ''clearRow'' [PWide ''qsizetype''] RVoid [OnObject QBar3DSeries],
     Bind [] ''colCount'' [] (RMeta ''qsizetype'') [OnObject ''QBarDataProxy''],
     Bind [ValueM QTGUI_QCOLOR] ''color'' [] (RValue QColor) [OnObject QAreaSeries, OnObject QBarSet],
     Bind [TypeM ''QTGRAPHS_QGRAPHSTHEME''] ''colorScheme'' [] (RMeta ''QGraphsTheme::ColorScheme'') [OnObject QGraphsTheme],
     Bind [TypeM ''QTGRAPHS_QGRAPHSTHEME''] ''colorStyle'' [] (RMeta ''QGraphsTheme::ColorStyle'') [OnObject QAbstract3DSeries, OnObject QGraphsTheme],
     Bind [] ''colorTable'' [] (RList (IMeta ''unsigned int'')) [OnObject QCustom3DVolume],
     Bind [] ''columnCategories'' [] (RList (IMeta QString)) [OnObject QItemModelBarDataProxy, OnObject QItemModelSurfaceDataProxy],
     Bind [] ''columnCategoryIndex'' [PString True] (RMeta ''qsizetype'') [OnObject QItemModelBarDataProxy, OnObject QItemModelSurfaceDataProxy],
     Bind [] ''columnLabels'' [] (RList (IMeta QString)) [OnObject QBar3DSeries],
     Bind [] ''columnRole'' [] RString [OnObject QItemModelBarDataProxy, OnObject QItemModelSurfaceDataProxy],
     Bind [ValueM QTCORE_QREGULAREXPRESSION] ''columnRolePattern'' [] (RValue QRegularExpression) [OnObject QItemModelBarDataProxy, OnObject QItemModelSurfaceDataProxy],
     Bind [] ''columnRoleReplace'' [] RString [OnObject QItemModelBarDataProxy, OnObject QItemModelSurfaceDataProxy],
     Bind [] ''count'' [] (RMeta ''qsizetype'') [OnObject QBarCategoryAxis, OnObject QBarModelMapper, OnObject QBarSeries, OnObject QBarSet],
     Bind [TypeM ''QTGRAPHS_QBARDATAPROXY''] ''dataProxy'' [] RObject [OnObject QBar3DSeries],
     Bind [] ''deselectAllBars'' [] RVoid [OnObject QBarSet],
     Bind [] ''deselectBar'' [PWide ''qsizetype''] RVoid [OnObject QBarSet],
     Bind [] ''deselectBars'' [PList ''qsizetype''] RVoid [OnObject QBarSet],
     Bind [] ''devicePixelRatio'' [] RNumber [OnObject Q3DScene],
     Bind [] ''drawSliceFrames'' [] RBool [OnObject QCustom3DVolume],
     Bind [] ''drawSlices'' [] RBool [OnObject QCustom3DVolume],
     Bind [TypeM ''QTGRAPHS_QBARSET''] ''find'' [PNonNull ''QBarSet*''] (RMeta ''qsizetype'') [OnObject QBarSeries],
     Bind [] ''first'' [] (RMeta ''qsizetype'') [OnObject QBarModelMapper],
     Bind [] ''firstBarSetSection'' [] (RMeta ''qsizetype'') [OnObject QBarModelMapper],
     Bind [ValueM QTGUI_QFONT] ''font'' [] (RValue QFont) [OnObject QCustom3DLabel],
     Bind [ValueM QTCORE_QPOINT] ''graphPositionQuery'' [] (RValue QPoint) [OnObject Q3DScene],
     Bind [ValueM ''QTGRAPHS_QGRAPHSLINE''] ''grid'' [] (RValue QGraphsLine) [OnObject QGraphsTheme],
     Bind [ValueM QTGUI_QIMAGE] ''heightMap'' [] (RValue QImage) [OnObject QHeightMapSurfaceDataProxy],
     Bind [] ''heightMapFile'' [] RString [OnObject QHeightMapSurfaceDataProxy],
     Bind [] ''hide'' [] RVoid [OnObject QAbstractAxis, OnObject QAbstractSeries],
     Bind [TypeM ''QTGRAPHS_QBARSET''] ''insert'' [PWide ''qsizetype'', PNonNull ''QBarSet*''] RBool [OnObject QBarSeries],
     Bind [] ''insert'' [PWide ''qsizetype'', PString True] RVoid [OnObject QBarCategoryAxis],
     Bind [] ''insert'' [PWide ''qsizetype'', PReal ''qreal''] RVoid [OnObject QBarSet],
     Bind [ValueM QTCORE_QPOINT] ''invalidSelectionPoint'' [] (RValue QPoint) [OnObject Q3DScene],
     Bind [ValueM QTCORE_QPOINT] ''invalidSelectionPosition'' [] (RValue QPoint) [Static QBar3DSeries],
     Bind [] ''isAutoAdjustRange'' [] RBool [OnObject QAbstract3DAxis],
     Bind [] ''isBackgroundVisible'' [] RBool [OnObject QCustom3DLabel, OnObject QGraphsTheme],
     Bind [] ''isBarSelected'' [PWide ''qsizetype''] RBool [OnObject QBarSet],
     Bind [] ''isBorderVisible'' [] RBool [OnObject QCustom3DLabel],
     Bind [] ''isFacingCamera'' [] RBool [OnObject QCustom3DLabel],
     Bind [] ''isGridVisible'' [] RBool [OnObject QAbstractAxis, OnObject QGraphsTheme],
     Bind [] ''isHoverable'' [] RBool [OnObject QAbstractSeries],
     Bind [] ''isItemLabelVisible'' [] RBool [OnObject QAbstract3DSeries],
     Bind [] ''isLabelBackgroundVisible'' [] RBool [OnObject QGraphsTheme],
     Bind [] ''isLabelBorderVisible'' [] RBool [OnObject QGraphsTheme],
     Bind [] ''isLineVisible'' [] RBool [OnObject QAbstractAxis],
     Bind [] ''isMeshSmooth'' [] RBool [OnObject QAbstract3DSeries],
     Bind [] ''isPlotAreaBackgroundVisible'' [] RBool [OnObject QGraphsTheme],
     Bind [ValueM QTCORE_QPOINT] ''isPointInPrimarySubView'' [PConv QPoint] RBool [OnObject Q3DScene],
     Bind [ValueM QTCORE_QPOINT] ''isPointInSecondarySubView'' [PConv QPoint] RBool [OnObject Q3DScene],
     Bind [] ''isPositionAbsolute'' [] RBool [OnObject QCustom3DItem],
     Bind [] ''isScalingAbsolute'' [] RBool [OnObject QCustom3DItem],
     Bind [] ''isSecondarySubviewOnTop'' [] RBool [OnObject Q3DScene],
     Bind [] ''isSelectable'' [] RBool [OnObject QAbstractSeries],
     Bind [] ''isSelected'' [] RBool [OnObject QAreaSeries],
     Bind [] ''isShadowCasting'' [] RBool [OnObject QCustom3DItem],
     Bind [] ''isSlicingActive'' [] RBool [OnObject Q3DScene],
     Bind [] ''isSubGridVisible'' [] RBool [OnObject QAbstractAxis],
     Bind [] ''isTitleFixed'' [] RBool [OnObject QAbstract3DAxis],
     Bind [] ''isTitleVisible'' [] RBool [OnObject QAbstract3DAxis, OnObject QAbstractAxis],
     Bind [] ''isVisible'' [] RBool [OnObject QAbstract3DSeries, OnObject QAbstractAxis, OnObject QAbstractSeries, OnObject QCustom3DItem]]"

definition meth_qtgraphs_0_1 :: "binding list" where
  "meth_qtgraphs_0_1 = [
     Bind [] ''itemLabel'' [] RString [OnObject QAbstract3DSeries],
     Bind [] ''itemLabelFormat'' [] RString [OnObject QAbstract3DSeries],
     Bind [TypeM QTCORE_QABSTRACTITEMMODEL] ''itemModel'' [] RObject [OnObject QItemModelBarDataProxy, OnObject QItemModelScatterDataProxy, OnObject QItemModelSurfaceDataProxy],
     Bind [] ''label'' [] RString [OnObject QBarSet],
     Bind [] ''labelAutoAngle'' [] RNumber [OnObject QAbstract3DAxis],
     Bind [ValueM QTGUI_QCOLOR] ''labelBackgroundColor'' [] (RValue QColor) [OnObject QGraphsTheme],
     Bind [ValueM QTGUI_QCOLOR] ''labelColor'' [] (RValue QColor) [OnObject QBarSet],
     Bind [TypeM ''QTQML_QQMLCOMPONENT''] ''labelDelegate'' [] RObject [OnObject QAbstractAxis],
     Bind [ValueM QTGUI_QFONT] ''labelFont'' [] (RValue QFont) [OnObject QGraphsTheme],
     Bind [] ''labelFormat'' [] RString [OnObject QDateTimeAxis],
     Bind [ValueM QTGUI_QCOLOR] ''labelTextColor'' [] (RValue QColor) [OnObject QGraphsTheme],
     Bind [] ''labels'' [] (RList (IMeta QString)) [OnObject QAbstract3DAxis, OnObject ''QCategory3DAxis''],
     Bind [] ''labelsAngle'' [] RNumber [OnObject QAbstractAxis, OnObject QBarSeries],
     Bind [] ''labelsFormat'' [] RString [OnObject QBarSeries],
     Bind [] ''labelsMargin'' [] RNumber [OnObject QBarSeries],
     Bind [TypeM ''QTGRAPHS_QBARSERIES''] ''labelsPosition'' [] (RMeta ''QBarSeries::LabelsPosition'') [OnObject QBarSeries],
     Bind [] ''labelsPrecision'' [] RNumber [OnObject QBarSeries],
     Bind [] ''labelsVisible'' [] RBool [OnObject QAbstract3DAxis, OnObject QAbstractAxis, OnObject QBarSeries, OnObject QGraphsTheme],
     Bind [] ''lastBarSetSection'' [] (RMeta ''qsizetype'') [OnObject QBarModelMapper],
     Bind [TypeM ''QTGRAPHS_QXYSERIES''] ''lowerSeries'' [] RObject [OnObject QAreaSeries],
     Bind [ValueM QTCORE_QDATETIME] ''max'' [] (RValue QDateTime) [OnObject QDateTimeAxis],
     Bind [] ''max'' [] RString [OnObject QBarCategoryAxis],
     Bind [] ''max'' [] RNumber [OnObject QAbstract3DAxis],
     Bind [] ''maxXValue'' [] RNumber [OnObject QHeightMapSurfaceDataProxy],
     Bind [] ''maxYValue'' [] RNumber [OnObject QHeightMapSurfaceDataProxy],
     Bind [] ''maxZValue'' [] RNumber [OnObject QHeightMapSurfaceDataProxy],
     Bind [TypeM ''QTGRAPHS_QABSTRACT3DSERIES''] ''mesh'' [] (RMeta ''QAbstract3DSeries::Mesh'') [OnObject QAbstract3DSeries],
     Bind [] ''meshAngle'' [] RNumber [OnObject QBar3DSeries],
     Bind [] ''meshFile'' [] RString [OnObject QCustom3DItem],
     Bind [ValueM QTGUI_QQUATERNION] ''meshRotation'' [] (RValue QQuaternion) [OnObject QAbstract3DSeries],
     Bind [ValueM QTCORE_QDATETIME] ''min'' [] (RValue QDateTime) [OnObject QDateTimeAxis],
     Bind [] ''min'' [] RString [OnObject QBarCategoryAxis],
     Bind [] ''min'' [] RNumber [OnObject QAbstract3DAxis],
     Bind [] ''minXValue'' [] RNumber [OnObject QHeightMapSurfaceDataProxy],
     Bind [] ''minYValue'' [] RNumber [OnObject QHeightMapSurfaceDataProxy],
     Bind [] ''minZValue'' [] RNumber [OnObject QHeightMapSurfaceDataProxy],
     Bind [TypeM QTCORE_QABSTRACTITEMMODEL] ''model'' [] RObject [OnObject QBarModelMapper],
     Bind [ValueM QTGUI_QCOLOR] ''multiHighlightColor'' [] (RValue QColor) [OnObject QAbstract3DSeries, OnObject QGraphsTheme],
     Bind [ValueM QTGUI_QLINEARGRADIENT] ''multiHighlightGradient'' [] (RValue QLinearGradient) [OnObject QAbstract3DSeries, OnObject QGraphsTheme],
     Bind [TypeM ''QTGRAPHS_QITEMMODELBARDATAPROXY''] ''multiMatchBehavior'' [] (RMeta ''QItemModelBarDataProxy::MultiMatchBehavior'') [OnObject QItemModelBarDataProxy],
     Bind [TypeM ''QTGRAPHS_QITEMMODELSURFACEDATAPROXY''] ''multiMatchBehavior'' [] (RMeta ''QItemModelSurfaceDataProxy::MultiMatchBehavior'') [OnObject QItemModelSurfaceDataProxy],
     Bind [] ''name'' [] RString [OnObject QAbstract3DSeries, OnObject QAbstractSeries],
     Bind [] ''opacity'' [] RNumber [OnObject QAbstractSeries],
     Bind [TypeM ''QTGRAPHS_QABSTRACT3DAXIS''] ''orientation'' [] (RMeta ''QAbstract3DAxis::AxisOrientation'') [OnObject QAbstract3DAxis],
     Bind [EnumM QT_ORIENTATION] ''orientation'' [] (RMeta Qt_Orientation) [OnObject QBarModelMapper],
     Bind [ValueM QTGUI_QCOLOR] ''plotAreaBackgroundColor'' [] (RValue QColor) [OnObject QGraphsTheme],
     Bind [ValueM QTGUI_QVECTOR3D] ''position'' [] (RValue QVector3D) [OnObject QCustom3DItem],
     Bind [] ''preserveOpacity'' [] RBool [OnObject QCustom3DVolume],
     Bind [ValueM QTCORE_QRECT] ''primarySubViewport'' [] (RValue QRect) [OnObject Q3DScene],
     Bind [] ''remap'' [PString True, PString True, PString True, PString True] RVoid [OnObject QItemModelScatterDataProxy],
     Bind [] ''remap'' [PString True, PString True, PString True, PString True, PString True, PStringList, PStringList] RVoid [OnObject QItemModelSurfaceDataProxy],
     Bind [] ''remap'' [PString True, PString True, PString True, PString True, PStringList, PStringList] RVoid [OnObject QItemModelBarDataProxy],
     Bind [TypeM ''QTGRAPHS_QBARSET''] ''remove'' [PNonNull ''QBarSet*''] RBool [OnObject QBarSeries],
     Bind [] ''remove'' [PString True] RVoid [OnObject QBarCategoryAxis],
     Bind [] ''remove'' [PWide ''qsizetype''] RBool [OnObject QBarSeries],
     Bind [] ''remove'' [PWide ''qsizetype''] RVoid [OnObject QBarCategoryAxis],
     Bind [] ''remove'' [PWide ''qsizetype'', PWide ''qsizetype''] RVoid [OnObject QBarSet],
     Bind [] ''removeMultiple'' [PWide ''qsizetype'', PWide ''qsizetype''] RVoid [OnObject QBarSeries],
     Bind [EnumM ''QT_AXIS'', ValueM QTGUI_QIMAGE] ''renderSlice'' [PConv ''Qt::Axis'', PInt] (RValue QImage) [OnObject QCustom3DVolume],
     Bind [TypeM ''QTGRAPHS_QBARSET''] ''replace'' [PNonNull ''QBarSet*'', PNonNull ''QBarSet*''] RBool [OnObject QBarSeries],
     Bind [TypeM ''QTGRAPHS_QBARSET''] ''replace'' [PList ''QBarSet*''] RBool [OnObject QBarSeries],
     Bind [] ''replace'' [PString True, PString True] RVoid [OnObject QBarCategoryAxis],
     Bind [TypeM ''QTGRAPHS_QBARSET''] ''replace'' [PWide ''qsizetype'', PNonNull ''QBarSet*''] RVoid [OnObject QBarSeries],
     Bind [] ''replace'' [PWide ''qsizetype'', PReal ''qreal''] RVoid [OnObject QBarSet],
     Bind [] ''resetArray'' [] RVoid [OnObject ''QBarDataProxy''],
     Bind [ValueM QTGUI_QQUATERNION] ''rotation'' [] (RValue QQuaternion) [OnObject QCustom3DItem],
     Bind [] ''rotationRole'' [] RString [OnObject QItemModelBarDataProxy, OnObject QItemModelScatterDataProxy],
     Bind [ValueM QTCORE_QREGULAREXPRESSION] ''rotationRolePattern'' [] (RValue QRegularExpression) [OnObject QItemModelBarDataProxy, OnObject QItemModelScatterDataProxy],
     Bind [] ''rotationRoleReplace'' [] RString [OnObject QItemModelBarDataProxy, OnObject QItemModelScatterDataProxy],
     Bind [] ''rowCategories'' [] (RList (IMeta QString)) [OnObject QItemModelBarDataProxy, OnObject QItemModelSurfaceDataProxy],
     Bind [] ''rowCategoryIndex'' [PString True] (RMeta ''qsizetype'') [OnObject QItemModelBarDataProxy, OnObject QItemModelSurfaceDataProxy],
     Bind [ValueM QTGUI_QCOLOR] ''rowColors'' [] (RList (IValue QColor)) [OnObject QBar3DSeries],
     Bind [] ''rowCount'' [] (RMeta ''qsizetype'') [OnObject ''QBarDataProxy''],
     Bind [] ''rowLabels'' [] (RList (IMeta QString)) [OnObject QBar3DSeries],
     Bind [] ''rowRole'' [] RString [OnObject QItemModelBarDataProxy, OnObject QItemModelSurfaceDataProxy],
     Bind [ValueM QTCORE_QREGULAREXPRESSION] ''rowRolePattern'' [] (RValue QRegularExpression) [OnObject QItemModelBarDataProxy, OnObject QItemModelSurfaceDataProxy],
     Bind [] ''rowRoleReplace'' [] RString [OnObject QItemModelBarDataProxy, OnObject QItemModelSurfaceDataProxy],
     Bind [ValueM QTGUI_QVECTOR3D] ''scaling'' [] (RValue QVector3D) [OnObject QCustom3DItem],
     Bind [ValueM QTCORE_QRECT] ''secondarySubViewport'' [] (RValue QRect) [OnObject Q3DScene],
     Bind [] ''selectAllBars'' [] RVoid [OnObject QBarSet],
     Bind [] ''selectBar'' [PWide ''qsizetype''] RVoid [OnObject QBarSet],
     Bind [] ''selectBars'' [PList ''qsizetype''] RVoid [OnObject QBarSet],
     Bind [ValueM QTCORE_QPOINT] ''selectedBar'' [] (RValue QPoint) [OnObject QBar3DSeries],
     Bind [] ''selectedBars'' [] (RList (IMeta ''qsizetype'')) [OnObject QBarSet],
     Bind [ValueM QTGUI_QCOLOR] ''selectedBorderColor'' [] (RValue QColor) [OnObject QAreaSeries],
     Bind [ValueM QTGUI_QCOLOR] ''selectedColor'' [] (RValue QColor) [OnObject QAreaSeries, OnObject QBarSet],
     Bind [ValueM QTCORE_QPOINT] ''selectionQueryPosition'' [] (RValue QPoint) [OnObject Q3DScene],
     Bind [TypeM ''QTGRAPHS_QBAR3DSERIES''] ''series'' [] RObject [OnObject ''QBarDataProxy''],
     Bind [TypeM ''QTGRAPHS_QBARSERIES''] ''series'' [] RObject [OnObject QBarModelMapper],
     Bind [ValueM QTGUI_QCOLOR] ''seriesColors'' [] (RList (IValue QColor)) [OnObject QBarSeries, OnObject QGraphsTheme]]"

definition meth_qtgraphs_0_2 :: "binding list" where
  "meth_qtgraphs_0_2 = [
     Bind [ValueM QTGUI_QLINEARGRADIENT] ''seriesGradients'' [] (RList (IValue QLinearGradient)) [OnObject QGraphsTheme],
     Bind [] ''setAlphaMultiplier'' [PReal ''float''] RVoid [OnObject QCustom3DVolume],
     Bind [] ''setAutoAdjustRange'' [PBool] RVoid [OnObject QAbstract3DAxis],
     Bind [] ''setAutoColumnCategories'' [PBool] RVoid [OnObject QItemModelBarDataProxy, OnObject QItemModelSurfaceDataProxy],
     Bind [] ''setAutoRowCategories'' [PBool] RVoid [OnObject QItemModelBarDataProxy, OnObject QItemModelSurfaceDataProxy],
     Bind [] ''setAutoScaleY'' [PBool] RVoid [OnObject QHeightMapSurfaceDataProxy],
     Bind [ValueM ''QTGRAPHS_QGRAPHSLINE''] ''setAxisX'' [PConv QGraphsLine] RVoid [OnObject QGraphsTheme],
     Bind [ValueM QTGUI_QFONT] ''setAxisXLabelFont'' [PConv QFont] RVoid [OnObject QGraphsTheme],
     Bind [ValueM ''QTGRAPHS_QGRAPHSLINE''] ''setAxisY'' [PConv QGraphsLine] RVoid [OnObject QGraphsTheme],
     Bind [ValueM QTGUI_QFONT] ''setAxisYLabelFont'' [PConv QFont] RVoid [OnObject QGraphsTheme],
     Bind [ValueM ''QTGRAPHS_QGRAPHSLINE''] ''setAxisZ'' [PConv QGraphsLine] RVoid [OnObject QGraphsTheme],
     Bind [ValueM QTGUI_QFONT] ''setAxisZLabelFont'' [PConv QFont] RVoid [OnObject QGraphsTheme],
     Bind [ValueM QTGUI_QCOLOR] ''setBackgroundColor'' [PConv QColor] RVoid [OnObject QCustom3DLabel, OnObject QGraphsTheme],
     Bind [] ''setBackgroundVisible'' [PBool] RVoid [OnObject QCustom3DLabel, OnObject QGraphsTheme],
     Bind [TypeM ''QTQML_QQMLCOMPONENT''] ''setBarDelegate'' [PNonNull ''QQmlComponent*''] RVoid [OnObject QBarSeries],
     Bind [] ''setBarSelected'' [PWide ''qsizetype'', PBool] RVoid [OnObject QBarSet],
     Bind [] ''setBarWidth'' [PReal ''qreal''] RVoid [OnObject QBarSeries],
     Bind [TypeM ''QTGRAPHS_QBARSERIES''] ''setBarsType'' [PConv ''QBarSeries::BarsType''] RVoid [OnObject QBarSeries],
     Bind [ValueM QTGUI_QCOLOR] ''setBaseColor'' [PConv QColor] RVoid [OnObject QAbstract3DSeries],
     Bind [ValueM QTGUI_QLINEARGRADIENT] ''setBaseGradient'' [PConv QLinearGradient] RVoid [OnObject QAbstract3DSeries],
     Bind [ValueM QTGUI_QCOLOR] ''setBorderColor'' [PConv QColor] RVoid [OnObject QAreaSeries, OnObject QBarSet],
     Bind [ValueM QTGUI_QCOLOR] ''setBorderColors'' [PListV QColor] RVoid [OnObject QBarSeries, OnObject QGraphsTheme],
     Bind [] ''setBorderVisible'' [PBool] RVoid [OnObject QCustom3DLabel],
     Bind [] ''setBorderWidth'' [PReal ''qreal''] RVoid [OnObject QAreaSeries, OnObject QBarSet, OnObject QGraphsTheme],
     Bind [EnumM ''QT_PENCAPSTYLE''] ''setCapStyle'' [PConv ''Qt::PenCapStyle''] RVoid [OnObject ''QLineSeries''],
     Bind [] ''setCategories'' [PStringList] RVoid [OnObject QBarCategoryAxis],
     Bind [ValueM QTGUI_QCOLOR] ''setColor'' [PConv QColor] RVoid [OnObject QAreaSeries, OnObject QBarSet],
     Bind [TypeM ''QTGRAPHS_QGRAPHSTHEME''] ''setColorScheme'' [PConv ''QGraphsTheme::ColorScheme''] RVoid [OnObject QGraphsTheme],
     Bind [TypeM ''QTGRAPHS_QGRAPHSTHEME''] ''setColorStyle'' [PConv ''QGraphsTheme::ColorStyle''] RVoid [OnObject QAbstract3DSeries, OnObject QGraphsTheme],
     Bind [] ''setColorTable'' [PList ''unsigned int''] RVoid [OnObject QCustom3DVolume],
     Bind [] ''setColumnCategories'' [PStringList] RVoid [OnObject QItemModelBarDataProxy, OnObject QItemModelSurfaceDataProxy],
     Bind [] ''setColumnLabels'' [PStringList] RVoid [OnObject QBar3DSeries],
     Bind [] ''setColumnRole'' [PString True] RVoid [OnObject QItemModelBarDataProxy, OnObject QItemModelSurfaceDataProxy],
     Bind [ValueM QTCORE_QREGULAREXPRESSION] ''setColumnRolePattern'' [PConv QRegularExpression] RVoid [OnObject QItemModelBarDataProxy, OnObject QItemModelSurfaceDataProxy],
     Bind [] ''setColumnRoleReplace'' [PString True] RVoid [OnObject QItemModelBarDataProxy, OnObject QItemModelSurfaceDataProxy],
     Bind [] ''setCount'' [PWide ''qsizetype''] RVoid [OnObject QBarModelMapper],
     Bind [TypeM ''QTGRAPHS_QBARDATAPROXY''] ''setDataProxy'' [PNonNull ''QBarDataProxy*''] RVoid [OnObject QBar3DSeries],
     Bind [] ''setDevicePixelRatio'' [PReal ''qreal''] RVoid [OnObject Q3DScene],
     Bind [] ''setDrawSliceFrames'' [PBool] RVoid [OnObject QCustom3DVolume],
     Bind [] ''setDrawSlices'' [PBool] RVoid [OnObject QCustom3DVolume],
     Bind [] ''setFacingCamera'' [PBool] RVoid [OnObject QCustom3DLabel],
     Bind [] ''setFirst'' [PWide ''qsizetype''] RVoid [OnObject QBarModelMapper],
     Bind [] ''setFirstBarSetSection'' [PWide ''qsizetype''] RVoid [OnObject QBarModelMapper],
     Bind [ValueM QTGUI_QFONT] ''setFont'' [PConv QFont] RVoid [OnObject QCustom3DLabel],
     Bind [ValueM QTCORE_QPOINT] ''setGraphPositionQuery'' [PConv QPoint] RVoid [OnObject Q3DScene],
     Bind [ValueM ''QTGRAPHS_QGRAPHSLINE''] ''setGrid'' [PConv QGraphsLine] RVoid [OnObject QGraphsTheme],
     Bind [] ''setGridVisible'' [PBool] RVoid [OnObject QAbstractAxis, OnObject QGraphsTheme],
     Bind [ValueM QTGUI_QIMAGE] ''setHeightMap'' [PConv QImage] RVoid [OnObject QHeightMapSurfaceDataProxy],
     Bind [] ''setHeightMapFile'' [PString True] RVoid [OnObject QHeightMapSurfaceDataProxy],
     Bind [] ''setHoverable'' [PBool] RVoid [OnObject QAbstractSeries],
     Bind [] ''setItemLabelFormat'' [PString True] RVoid [OnObject QAbstract3DSeries],
     Bind [] ''setItemLabelVisible'' [PBool] RVoid [OnObject QAbstract3DSeries],
     Bind [TypeM QTCORE_QABSTRACTITEMMODEL] ''setItemModel'' [PNonNull QAbstractItemModel_ptr] RVoid [OnObject QItemModelBarDataProxy, OnObject QItemModelScatterDataProxy, OnObject QItemModelSurfaceDataProxy],
     Bind [] ''setLabel'' [PString True] RVoid [OnObject QBarSet],
     Bind [] ''setLabelAutoAngle'' [PReal ''float''] RVoid [OnObject QAbstract3DAxis],
     Bind [ValueM QTGUI_QCOLOR] ''setLabelBackgroundColor'' [PConv QColor] RVoid [OnObject QGraphsTheme],
     Bind [] ''setLabelBackgroundVisible'' [PBool] RVoid [OnObject QGraphsTheme],
     Bind [] ''setLabelBorderVisible'' [PBool] RVoid [OnObject QGraphsTheme],
     Bind [ValueM QTGUI_QCOLOR] ''setLabelColor'' [PConv QColor] RVoid [OnObject QBarSet],
     Bind [TypeM ''QTQML_QQMLCOMPONENT''] ''setLabelDelegate'' [PNonNull ''QQmlComponent*''] RVoid [OnObject QAbstractAxis],
     Bind [ValueM QTGUI_QFONT] ''setLabelFont'' [PConv QFont] RVoid [OnObject QGraphsTheme],
     Bind [] ''setLabelFormat'' [PString True] RVoid [OnObject QDateTimeAxis],
     Bind [ValueM QTGUI_QCOLOR] ''setLabelTextColor'' [PConv QColor] RVoid [OnObject QGraphsTheme],
     Bind [] ''setLabels'' [PStringList] RVoid [OnObject QAbstract3DAxis, OnObject ''QCategory3DAxis''],
     Bind [] ''setLabelsAngle'' [PReal ''qreal''] RVoid [OnObject QAbstractAxis, OnObject QBarSeries],
     Bind [] ''setLabelsFormat'' [PString True] RVoid [OnObject QBarSeries],
     Bind [] ''setLabelsMargin'' [PReal ''qreal''] RVoid [OnObject QBarSeries],
     Bind [TypeM ''QTGRAPHS_QBARSERIES''] ''setLabelsPosition'' [PConv ''QBarSeries::LabelsPosition''] RVoid [OnObject QBarSeries],
     Bind [] ''setLabelsPrecision'' [PInt] RVoid [OnObject QBarSeries],
     Bind [] ''setLabelsVisible'' [PBool] RVoid [OnObject QAbstract3DAxis, OnObject QAbstractAxis, OnObject QBarSeries, OnObject QGraphsTheme],
     Bind [] ''setLastBarSetSection'' [PWide ''qsizetype''] RVoid [OnObject QBarModelMapper],
     Bind [] ''setLineVisible'' [PBool] RVoid [OnObject QAbstractAxis],
     Bind [TypeM ''QTGRAPHS_QXYSERIES''] ''setLowerSeries'' [PNonNull ''QXYSeries*''] RVoid [OnObject QAreaSeries],
     Bind [ValueM QTCORE_QDATETIME] ''setMax'' [PConv QDateTime] RVoid [OnObject QDateTimeAxis],
     Bind [] ''setMax'' [PString True] RVoid [OnObject QBarCategoryAxis],
     Bind [] ''setMax'' [PVariant] RVoid [OnObject QAbstractAxis],
     Bind [] ''setMax'' [PReal ''float''] RVoid [OnObject QAbstract3DAxis],
     Bind [] ''setMaxXValue'' [PReal ''float''] RVoid [OnObject QHeightMapSurfaceDataProxy],
     Bind [] ''setMaxYValue'' [PReal ''float''] RVoid [OnObject QHeightMapSurfaceDataProxy],
     Bind [] ''setMaxZValue'' [PReal ''float''] RVoid [OnObject QHeightMapSurfaceDataProxy],
     Bind [TypeM ''QTGRAPHS_QABSTRACT3DSERIES''] ''setMesh'' [PConv ''QAbstract3DSeries::Mesh''] RVoid [OnObject QAbstract3DSeries],
     Bind [] ''setMeshAngle'' [PReal ''float''] RVoid [OnObject QBar3DSeries],
     Bind [ValueM QTGUI_QVECTOR3D] ''setMeshAxisAndAngle'' [PConv QVector3D, PReal ''float''] RVoid [OnObject QAbstract3DSeries]]"

definition meth_qtgraphs_0_3 :: "binding list" where
  "meth_qtgraphs_0_3 = [
     Bind [] ''setMeshFile'' [PString True] RVoid [OnObject QCustom3DItem],
     Bind [ValueM QTGUI_QQUATERNION] ''setMeshRotation'' [PConv QQuaternion] RVoid [OnObject QAbstract3DSeries],
     Bind [] ''setMeshSmooth'' [PBool] RVoid [OnObject QAbstract3DSeries],
     Bind [ValueM QTCORE_QDATETIME] ''setMin'' [PConv QDateTime] RVoid [OnObject QDateTimeAxis],
     Bind [] ''setMin'' [PString True] RVoid [OnObject QBarCategoryAxis],
     Bind [] ''setMin'' [PVariant] RVoid [OnObject QAbstractAxis],
     Bind [] ''setMin'' [PReal ''float''] RVoid [OnObject QAbstract3DAxis],
     Bind [] ''setMinXValue'' [PReal ''float''] RVoid [OnObject QHeightMapSurfaceDataProxy],
     Bind [] ''setMinYValue'' [PReal ''float''] RVoid [OnObject QHeightMapSurfaceDataProxy],
     Bind [] ''setMinZValue'' [PReal ''float''] RVoid [OnObject QHeightMapSurfaceDataProxy],
     Bind [TypeM QTCORE_QABSTRACTITEMMODEL] ''setModel'' [PNonNull QAbstractItemModel_ptr] RVoid [OnObject QBarModelMapper],
     Bind [ValueM QTGUI_QCOLOR] ''setMultiHighlightColor'' [PConv QColor] RVoid [OnObject QAbstract3DSeries, OnObject QGraphsTheme],
     Bind [ValueM QTGUI_QLINEARGRADIENT] ''setMultiHighlightGradient'' [PConv QLinearGradient] RVoid [OnObject QAbstract3DSeries, OnObject QGraphsTheme],
     Bind [TypeM ''QTGRAPHS_QITEMMODELBARDATAPROXY''] ''setMultiMatchBehavior'' [PConv ''QItemModelBarDataProxy::MultiMatchBehavior''] RVoid [OnObject QItemModelBarDataProxy],
     Bind [TypeM ''QTGRAPHS_QITEMMODELSURFACEDATAPROXY''] ''setMultiMatchBehavior'' [PConv ''QItemModelSurfaceDataProxy::MultiMatchBehavior''] RVoid [OnObject QItemModelSurfaceDataProxy],
     Bind [] ''setName'' [PString True] RVoid [OnObject QAbstract3DSeries, OnObject QAbstractSeries],
     Bind [] ''setOpacity'' [PReal ''qreal''] RVoid [OnObject QAbstractSeries],
     Bind [EnumM QT_ORIENTATION] ''setOrientation'' [PConv Qt_Orientation] RVoid [OnObject QBarModelMapper],
     Bind [ValueM QTGUI_QCOLOR] ''setPlotAreaBackgroundColor'' [PConv QColor] RVoid [OnObject QGraphsTheme],
     Bind [] ''setPlotAreaBackgroundVisible'' [PBool] RVoid [OnObject QGraphsTheme],
     Bind [ValueM QTGUI_QVECTOR3D] ''setPosition'' [PConv QVector3D] RVoid [OnObject QCustom3DItem],
     Bind [] ''setPositionAbsolute'' [PBool] RVoid [OnObject QCustom3DItem],
     Bind [] ''setPreserveOpacity'' [PBool] RVoid [OnObject QCustom3DVolume],
     Bind [ValueM QTCORE_QRECT] ''setPrimarySubViewport'' [PConv QRect] RVoid [OnObject Q3DScene],
     Bind [] ''setRange'' [PString True, PString True] RVoid [OnObject QBarCategoryAxis],
     Bind [] ''setRange'' [PVariant, PVariant] RVoid [OnObject QAbstractAxis],
     Bind [] ''setRange'' [PReal ''float'', PReal ''float''] RVoid [OnObject QAbstract3DAxis],
     Bind [ValueM QTGUI_QQUATERNION] ''setRotation'' [PConv QQuaternion] RVoid [OnObject QCustom3DItem],
     Bind [ValueM QTGUI_QVECTOR3D] ''setRotationAxisAndAngle'' [PConv QVector3D, PReal ''float''] RVoid [OnObject QCustom3DItem],
     Bind [] ''setRotationRole'' [PString True] RVoid [OnObject QItemModelBarDataProxy, OnObject QItemModelScatterDataProxy],
     Bind [ValueM QTCORE_QREGULAREXPRESSION] ''setRotationRolePattern'' [PConv QRegularExpression] RVoid [OnObject QItemModelBarDataProxy, OnObject QItemModelScatterDataProxy],
     Bind [] ''setRotationRoleReplace'' [PString True] RVoid [OnObject QItemModelBarDataProxy, OnObject QItemModelScatterDataProxy],
     Bind [] ''setRowCategories'' [PStringList] RVoid [OnObject QItemModelBarDataProxy, OnObject QItemModelSurfaceDataProxy],
     Bind [ValueM QTGUI_QCOLOR] ''setRowColors'' [PListV QColor] RVoid [OnObject QBar3DSeries],
     Bind [] ''setRowLabels'' [PStringList] RVoid [OnObject QBar3DSeries],
     Bind [] ''setRowRole'' [PString True] RVoid [OnObject QItemModelBarDataProxy, OnObject QItemModelSurfaceDataProxy],
     Bind [ValueM QTCORE_QREGULAREXPRESSION] ''setRowRolePattern'' [PConv QRegularExpression] RVoid [OnObject QItemModelBarDataProxy, OnObject QItemModelSurfaceDataProxy],
     Bind [] ''setRowRoleReplace'' [PString True] RVoid [OnObject QItemModelBarDataProxy, OnObject QItemModelSurfaceDataProxy],
     Bind [ValueM QTGUI_QVECTOR3D] ''setScaling'' [PConv QVector3D] RVoid [OnObject QCustom3DItem],
     Bind [] ''setScalingAbsolute'' [PBool] RVoid [OnObject QCustom3DItem],
     Bind [ValueM QTCORE_QRECT] ''setSecondarySubViewport'' [PConv QRect] RVoid [OnObject Q3DScene],
     Bind [] ''setSecondarySubviewOnTop'' [PBool] RVoid [OnObject Q3DScene],
     Bind [] ''setSelectable'' [PBool] RVoid [OnObject QAbstractSeries],
     Bind [] ''setSelected'' [PBool] RVoid [OnObject QAreaSeries],
     Bind [ValueM QTCORE_QPOINT] ''setSelectedBar'' [PConv QPoint] RVoid [OnObject QBar3DSeries],
     Bind [ValueM QTGUI_QCOLOR] ''setSelectedBorderColor'' [PConv QColor] RVoid [OnObject QAreaSeries],
     Bind [ValueM QTGUI_QCOLOR] ''setSelectedColor'' [PConv QColor] RVoid [OnObject QAreaSeries, OnObject QBarSet],
     Bind [ValueM QTCORE_QPOINT] ''setSelectionQueryPosition'' [PConv QPoint] RVoid [OnObject Q3DScene],
     Bind [TypeM ''QTGRAPHS_QBARSERIES''] ''setSeries'' [PNonNull ''QBarSeries*''] RVoid [OnObject QBarModelMapper],
     Bind [ValueM QTGUI_QCOLOR] ''setSeriesColors'' [PListV QColor] RVoid [OnObject QBarSeries, OnObject QGraphsTheme],
     Bind [ValueM QTGUI_QLINEARGRADIENT] ''setSeriesGradients'' [PListV QLinearGradient] RVoid [OnObject QGraphsTheme],
     Bind [] ''setShadowCasting'' [PBool] RVoid [OnObject QCustom3DItem],
     Bind [ValueM QTGUI_QCOLOR] ''setSingleHighlightColor'' [PConv QColor] RVoid [OnObject QAbstract3DSeries, OnObject QGraphsTheme],
     Bind [ValueM QTGUI_QLINEARGRADIENT] ''setSingleHighlightGradient'' [PConv QLinearGradient] RVoid [OnObject QAbstract3DSeries, OnObject QGraphsTheme],
     Bind [ValueM QTGUI_QCOLOR] ''setSliceFrameColor'' [PConv QColor] RVoid [OnObject QCustom3DVolume],
     Bind [ValueM QTGUI_QVECTOR3D] ''setSliceFrameGaps'' [PConv QVector3D] RVoid [OnObject QCustom3DVolume],
     Bind [ValueM QTGUI_QVECTOR3D] ''setSliceFrameThicknesses'' [PConv QVector3D] RVoid [OnObject QCustom3DVolume],
     Bind [ValueM QTGUI_QVECTOR3D] ''setSliceFrameWidths'' [PConv QVector3D] RVoid [OnObject QCustom3DVolume],
     Bind [] ''setSliceIndexX'' [PInt] RVoid [OnObject QCustom3DVolume],
     Bind [] ''setSliceIndexY'' [PInt] RVoid [OnObject QCustom3DVolume],
     Bind [] ''setSliceIndexZ'' [PInt] RVoid [OnObject QCustom3DVolume],
     Bind [] ''setSliceIndices'' [PInt, PInt, PInt] RVoid [OnObject QCustom3DVolume],
     Bind [] ''setSlicingActive'' [PBool] RVoid [OnObject Q3DScene],
     Bind [] ''setSubGridVisible'' [PBool] RVoid [OnObject QAbstractAxis],
     Bind [EnumM ''QT_AXIS'', ValueM QTGUI_QIMAGE] ''setSubTextureData'' [PConv ''Qt::Axis'', PInt, PConv QImage] RVoid [OnObject QCustom3DVolume],
     Bind [] ''setSubTickCount'' [PInt] RVoid [OnObject QDateTimeAxis],
     Bind [] ''setText'' [PString True] RVoid [OnObject QCustom3DLabel],
     Bind [ValueM QTGUI_QCOLOR] ''setTextColor'' [PConv QColor] RVoid [OnObject QCustom3DLabel],
     Bind [] ''setTextureDepth'' [PInt] RVoid [OnObject QCustom3DVolume],
     Bind [] ''setTextureDimensions'' [PInt, PInt, PInt] RVoid [OnObject QCustom3DVolume],
     Bind [] ''setTextureFile'' [PString True] RVoid [OnObject QCustom3DItem],
     Bind [TypeM QTGUI_QIMAGE] ''setTextureFormat'' [PConv ''QImage::Format''] RVoid [OnObject QCustom3DVolume],
     Bind [] ''setTextureHeight'' [PInt] RVoid [OnObject QCustom3DVolume],
     Bind [ValueM QTGUI_QIMAGE] ''setTextureImage'' [PConv QImage] RVoid [OnObject QCustom3DItem],
     Bind [] ''setTextureWidth'' [PInt] RVoid [OnObject QCustom3DVolume],
     Bind [] ''setTickInterval'' [PReal ''qreal''] RVoid [OnObject QDateTimeAxis],
     Bind [] ''setTitle'' [PString True] RVoid [OnObject QAbstract3DAxis],
     Bind [ValueM QTGUI_QCOLOR] ''setTitleColor'' [PConv QColor] RVoid [OnObject QAbstractAxis],
     Bind [] ''setTitleFixed'' [PBool] RVoid [OnObject QAbstract3DAxis],
     Bind [ValueM QTGUI_QFONT] ''setTitleFont'' [PConv QFont] RVoid [OnObject QAbstractAxis],
     Bind [] ''setTitleOffset'' [PReal ''float''] RVoid [OnObject QAbstract3DAxis],
     Bind [] ''setTitleText'' [PString True] RVoid [OnObject QAbstractAxis],
     Bind [] ''setTitleVisible'' [PBool] RVoid [OnObject QAbstract3DAxis, OnObject QAbstractAxis],
     Bind [TypeM ''QTGRAPHS_QXYSERIES''] ''setUpperSeries'' [PNonNull ''QXYSeries*''] RVoid [OnObject QAreaSeries],
     Bind [] ''setUseHighDefShader'' [PBool] RVoid [OnObject QCustom3DVolume]]"

definition meth_qtgraphs_0_4 :: "binding list" where
  "meth_qtgraphs_0_4 = [
     Bind [] ''setUseModelCategories'' [PBool] RVoid [OnObject QItemModelBarDataProxy, OnObject QItemModelSurfaceDataProxy],
     Bind [] ''setUserDefinedMesh'' [PString True] RVoid [OnObject QAbstract3DSeries],
     Bind [] ''setValueRanges'' [PReal ''float'', PReal ''float'', PReal ''float'', PReal ''float''] RVoid [OnObject QHeightMapSurfaceDataProxy],
     Bind [] ''setValueRole'' [PString True] RVoid [OnObject QItemModelBarDataProxy],
     Bind [ValueM QTCORE_QREGULAREXPRESSION] ''setValueRolePattern'' [PConv QRegularExpression] RVoid [OnObject QItemModelBarDataProxy],
     Bind [] ''setValueRoleReplace'' [PString True] RVoid [OnObject QItemModelBarDataProxy],
     Bind [] ''setValuesMultiplier'' [PReal ''qreal''] RVoid [OnObject QAbstractSeries],
     Bind [] ''setVisible'' [PBool] RVoid [OnObject QAbstract3DSeries, OnObject QAbstractAxis, OnObject QAbstractSeries, OnObject QCustom3DItem],
     Bind [] ''setWidth'' [PReal ''qreal''] RVoid [OnObject ''QLineSeries''],
     Bind [] ''setXPosRole'' [PString True] RVoid [OnObject QItemModelScatterDataProxy, OnObject QItemModelSurfaceDataProxy],
     Bind [ValueM QTCORE_QREGULAREXPRESSION] ''setXPosRolePattern'' [PConv QRegularExpression] RVoid [OnObject QItemModelScatterDataProxy, OnObject QItemModelSurfaceDataProxy],
     Bind [] ''setXPosRoleReplace'' [PString True] RVoid [OnObject QItemModelScatterDataProxy, OnObject QItemModelSurfaceDataProxy],
     Bind [] ''setYPosRole'' [PString True] RVoid [OnObject QItemModelScatterDataProxy, OnObject QItemModelSurfaceDataProxy],
     Bind [ValueM QTCORE_QREGULAREXPRESSION] ''setYPosRolePattern'' [PConv QRegularExpression] RVoid [OnObject QItemModelScatterDataProxy, OnObject QItemModelSurfaceDataProxy],
     Bind [] ''setYPosRoleReplace'' [PString True] RVoid [OnObject QItemModelScatterDataProxy, OnObject QItemModelSurfaceDataProxy],
     Bind [] ''setZPosRole'' [PString True] RVoid [OnObject QItemModelScatterDataProxy, OnObject QItemModelSurfaceDataProxy],
     Bind [ValueM QTCORE_QREGULAREXPRESSION] ''setZPosRolePattern'' [PConv QRegularExpression] RVoid [OnObject QItemModelScatterDataProxy, OnObject QItemModelSurfaceDataProxy],
     Bind [] ''setZPosRoleReplace'' [PString True] RVoid [OnObject QItemModelScatterDataProxy, OnObject QItemModelSurfaceDataProxy],
     Bind [] ''show'' [] RVoid [OnObject QAbstractAxis, OnObject QAbstractSeries],
     Bind [ValueM QTGUI_QCOLOR] ''singleHighlightColor'' [] (RValue QColor) [OnObject QAbstract3DSeries, OnObject QGraphsTheme],
     Bind [ValueM QTGUI_QLINEARGRADIENT] ''singleHighlightGradient'' [] (RValue QLinearGradient) [OnObject QAbstract3DSeries, OnObject QGraphsTheme],
     Bind [ValueM QTGUI_QCOLOR] ''sliceFrameColor'' [] (RValue QColor) [OnObject QCustom3DVolume],
     Bind [ValueM QTGUI_QVECTOR3D] ''sliceFrameGaps'' [] (RValue QVector3D) [OnObject QCustom3DVolume],
     Bind [ValueM QTGUI_QVECTOR3D] ''sliceFrameThicknesses'' [] (RValue QVector3D) [OnObject QCustom3DVolume],
     Bind [ValueM QTGUI_QVECTOR3D] ''sliceFrameWidths'' [] (RValue QVector3D) [OnObject QCustom3DVolume],
     Bind [] ''sliceIndexX'' [] RNumber [OnObject QCustom3DVolume],
     Bind [] ''sliceIndexY'' [] RNumber [OnObject QCustom3DVolume],
     Bind [] ''sliceIndexZ'' [] RNumber [OnObject QCustom3DVolume],
     Bind [] ''subTickCount'' [] RNumber [OnObject QDateTimeAxis],
     Bind [] ''sum'' [] RNumber [OnObject QBarSet],
     Bind [TypeM ''QTGRAPHS_QBARSET''] ''take'' [PNonNull ''QBarSet*''] RBool [OnObject QBarSeries],
     Bind [] ''text'' [] RString [OnObject QCustom3DLabel],
     Bind [ValueM QTGUI_QCOLOR] ''textColor'' [] (RValue QColor) [OnObject QCustom3DLabel],
     Bind [] ''textureDataWidth'' [] RNumber [OnObject QCustom3DVolume],
     Bind [] ''textureDepth'' [] RNumber [OnObject QCustom3DVolume],
     Bind [] ''textureFile'' [] RString [OnObject QCustom3DItem],
     Bind [TypeM QTGUI_QIMAGE] ''textureFormat'' [] (RMeta ''QImage::Format'') [OnObject QCustom3DVolume],
     Bind [] ''textureHeight'' [] RNumber [OnObject QCustom3DVolume],
     Bind [] ''textureWidth'' [] RNumber [OnObject QCustom3DVolume],
     Bind [TypeM ''QTGRAPHS_QGRAPHSTHEME''] ''theme'' [] (RMeta ''QGraphsTheme::Theme'') [OnObject QGraphsTheme],
     Bind [] ''tickInterval'' [] RNumber [OnObject QDateTimeAxis],
     Bind [] ''title'' [] RString [OnObject QAbstract3DAxis],
     Bind [ValueM QTGUI_QCOLOR] ''titleColor'' [] (RValue QColor) [OnObject QAbstractAxis],
     Bind [ValueM QTGUI_QFONT] ''titleFont'' [] (RValue QFont) [OnObject QAbstractAxis],
     Bind [] ''titleOffset'' [] RNumber [OnObject QAbstract3DAxis],
     Bind [] ''titleText'' [] RString [OnObject QAbstractAxis],
     Bind [] ''toggleSelection'' [PList ''qsizetype''] RVoid [OnObject QBarSet],
     Bind [TypeM ''QTGRAPHS_QABSTRACT3DAXIS''] ''type'' [] (RMeta ''QAbstract3DAxis::AxisType'') [OnObject QAbstract3DAxis],
     Bind [TypeM ''QTGRAPHS_QABSTRACT3DSERIES''] ''type'' [] (RMeta ''QAbstract3DSeries::SeriesType'') [OnObject QAbstract3DSeries],
     Bind [TypeM ''QTGRAPHS_QABSTRACTAXIS''] ''type'' [] (RMeta ''QAbstractAxis::AxisType'') [OnObject QBarCategoryAxis, OnObject QDateTimeAxis],
     Bind [TypeM ''QTGRAPHS_QABSTRACTDATAPROXY''] ''type'' [] (RMeta ''QAbstractDataProxy::DataType'') [OnObject ''QAbstractDataProxy''],
     Bind [TypeM ''QTGRAPHS_QABSTRACTSERIES''] ''type'' [] (RMeta ''QAbstractSeries::SeriesType'') [OnObject QAreaSeries, OnObject QBarSeries, OnObject ''QLineSeries''],
     Bind [TypeM ''QTGRAPHS_QXYSERIES''] ''upperSeries'' [] RObject [OnObject QAreaSeries],
     Bind [] ''useHighDefShader'' [] RBool [OnObject QCustom3DVolume],
     Bind [] ''useModelCategories'' [] RBool [OnObject QItemModelBarDataProxy, OnObject QItemModelSurfaceDataProxy],
     Bind [] ''userDefinedMesh'' [] RString [OnObject QAbstract3DSeries],
     Bind [] ''valueRole'' [] RString [OnObject QItemModelBarDataProxy],
     Bind [ValueM QTCORE_QREGULAREXPRESSION] ''valueRolePattern'' [] (RValue QRegularExpression) [OnObject QItemModelBarDataProxy],
     Bind [] ''valueRoleReplace'' [] RString [OnObject QItemModelBarDataProxy],
     Bind [] ''valuesMultiplier'' [] RNumber [OnObject QAbstractSeries],
     Bind [ValueM QTCORE_QRECT] ''viewport'' [] (RValue QRect) [OnObject Q3DScene],
     Bind [] ''width'' [] RNumber [OnObject ''QLineSeries''],
     Bind [] ''xPosRole'' [] RString [OnObject QItemModelScatterDataProxy, OnObject QItemModelSurfaceDataProxy],
     Bind [ValueM QTCORE_QREGULAREXPRESSION] ''xPosRolePattern'' [] (RValue QRegularExpression) [OnObject QItemModelScatterDataProxy, OnObject QItemModelSurfaceDataProxy],
     Bind [] ''xPosRoleReplace'' [] RString [OnObject QItemModelScatterDataProxy, OnObject QItemModelSurfaceDataProxy],
     Bind [] ''yPosRole'' [] RString [OnObject QItemModelScatterDataProxy, OnObject QItemModelSurfaceDataProxy],
     Bind [ValueM QTCORE_QREGULAREXPRESSION] ''yPosRolePattern'' [] (RValue QRegularExpression) [OnObject QItemModelScatterDataProxy, OnObject QItemModelSurfaceDataProxy],
     Bind [] ''yPosRoleReplace'' [] RString [OnObject QItemModelScatterDataProxy, OnObject QItemModelSurfaceDataProxy],
     Bind [] ''zPosRole'' [] RString [OnObject QItemModelScatterDataProxy, OnObject QItemModelSurfaceDataProxy],
     Bind [ValueM QTCORE_QREGULAREXPRESSION] ''zPosRolePattern'' [] (RValue QRegularExpression) [OnObject QItemModelScatterDataProxy, OnObject QItemModelSurfaceDataProxy],
     Bind [] ''zPosRoleReplace'' [] RString [OnObject QItemModelScatterDataProxy, OnObject QItemModelSurfaceDataProxy]]"

definition meth_qtgraphs_1_0 :: "binding list" where
  "meth_qtgraphs_1_0 = [
     Bind [] ''angleSpan'' [] RNumber [OnObject QPieSlice],
     Bind [TypeM QTGRAPHS_QPIESLICE] ''append'' [PList ''QPieSlice*''] RBool [OnObject QPieSeries],
     Bind [ValueM QTCORE_QPOINTF] ''append'' [PListV QPointF] RVoid [OnObject QXYSeries],
     Bind [TypeM QTGRAPHS_QPIESLICE] ''append'' [PNonNull ''QPieSlice*''] RBool [OnObject QPieSeries],
     Bind [ValueM QTCORE_QPOINTF] ''append'' [PConv QPointF] RVoid [OnObject QXYSeries],
     Bind [TypeM QTGRAPHS_QPIESLICE] ''append'' [PString True, PReal ''qreal''] RObject [OnObject QPieSeries],
     Bind [] ''append'' [PReal ''qreal'', PReal ''qreal''] RVoid [OnObject QXYSeries],
     Bind [TypeM QTGRAPHS_QPIESLICE] ''at'' [PWide ''qsizetype''] RObject [OnObject QPieSeries],
     Bind [ValueM QTCORE_QPOINTF] ''at'' [PWide ''qsizetype''] (RValue QPointF) [OnObject QXYSeries],
     Bind [] ''autoSubGrid'' [] RBool [OnObject QLogValue3DAxisFormatter],
     Bind [] ''base'' [] RNumber [OnObject QLogValue3DAxisFormatter],
     Bind [ValueM QTGUI_QCOLOR] ''borderColor'' [] (RValue QColor) [OnObject QPieSlice],
     Bind [] ''borderWidth'' [] RNumber [OnObject QPieSlice],
     Bind [EnumM ''QT_PENCAPSTYLE''] ''capStyle'' [] (RMeta ''Qt::PenCapStyle'') [OnObject ''QSplineSeries''],
     Bind [] ''clear'' [] RVoid [OnObject QPieSeries, OnObject QXYSeries],
     Bind [] ''clearArray'' [] RVoid [OnObject QScatter3DSeries, OnObject QSurface3DSeries],
     Bind [] ''clearRow'' [PWide ''qsizetype''] RVoid [OnObject QSurface3DSeries],
     Bind [ValueM QTGUI_QCOLOR] ''color'' [] (RValue QColor) [OnObject QPieSlice, OnObject QXYSeries],
     Bind [] ''columnCount'' [] (RMeta ''qsizetype'') [OnObject QSurfaceDataProxy],
     Bind [] ''count'' [] (RMeta ''qsizetype'') [OnObject QPieModelMapper, OnObject QPieSeries, OnObject ''QXYModelMapper'', OnObject QXYSeries],
     Bind [TypeM ''QTGRAPHS_QSCATTERDATAPROXY''] ''dataProxy'' [] RObject [OnObject QScatter3DSeries],
     Bind [TypeM ''QTGRAPHS_QSURFACEDATAPROXY''] ''dataProxy'' [] RObject [OnObject QSurface3DSeries],
     Bind [] ''deselectAllPoints'' [] RVoid [OnObject QXYSeries],
     Bind [] ''deselectPoint'' [PWide ''qsizetype''] RVoid [OnObject QXYSeries],
     Bind [] ''deselectPoints'' [PList ''qsizetype''] RVoid [OnObject QXYSeries],
     Bind [] ''edgeLabelsVisible'' [] RBool [OnObject QLogValue3DAxisFormatter],
     Bind [] ''endAngle'' [] RNumber [OnObject QPieSeries],
     Bind [] ''explodeDistanceFactor'' [] RNumber [OnObject QPieSlice],
     Bind [ValueM QTCORE_QPOINTF] ''find'' [PConv QPointF] (RMeta ''qsizetype'') [OnObject QXYSeries],
     Bind [TypeM QTGRAPHS_QPIESLICE] ''find'' [PString True] RObject [OnObject QPieSeries],
     Bind [] ''first'' [] (RMeta ''qsizetype'') [OnObject QPieModelMapper, OnObject ''QXYModelMapper''],
     Bind [TypeM ''QTGRAPHS_QVALUE3DAXISFORMATTER''] ''formatter'' [] RObject [OnObject QValue3DAxis],
     Bind [] ''holeSize'' [] RNumber [OnObject QPieSeries],
     Bind [] ''horizontalPosition'' [] RNumber [OnObject QPieSeries],
     Bind [TypeM QTGRAPHS_QPIESLICE] ''insert'' [PWide ''qsizetype'', PNonNull ''QPieSlice*''] RBool [OnObject QPieSeries],
     Bind [ValueM QTCORE_QPOINTF] ''insert'' [PWide ''qsizetype'', PConv QPointF] RVoid [OnObject QXYSeries],
     Bind [] ''invalidSelectionIndex'' [] (RMeta ''qsizetype'') [Static QScatter3DSeries],
     Bind [ValueM QTCORE_QPOINT] ''invalidSelectionPosition'' [] (RValue QPoint) [Static QSurface3DSeries],
     Bind [] ''isDraggable'' [] RBool [OnObject QXYSeries],
     Bind [] ''isEmpty'' [] RBool [OnObject QPieSeries],
     Bind [] ''isExploded'' [] RBool [OnObject QPieSlice],
     Bind [] ''isFlatShadingSupported'' [] RBool [OnObject QSurface3DSeries],
     Bind [] ''isLabelVisible'' [] RBool [OnObject QPieSlice],
     Bind [] ''isPointSelected'' [PWide ''qsizetype''] RBool [OnObject QXYSeries],
     Bind [] ''itemCount'' [] (RMeta ''qsizetype'') [OnObject ''QScatterDataProxy''],
     Bind [] ''itemSize'' [] RNumber [OnObject QScatter3DSeries],
     Bind [] ''label'' [] RString [OnObject QPieSlice],
     Bind [] ''labelArmLengthFactor'' [] RNumber [OnObject QPieSlice],
     Bind [ValueM QTGUI_QCOLOR] ''labelColor'' [] (RValue QColor) [OnObject QPieSlice],
     Bind [] ''labelDecimals'' [] RNumber [OnObject QValueAxis],
     Bind [ValueM QTGUI_QFONT] ''labelFont'' [] (RValue QFont) [OnObject QPieSlice],
     Bind [] ''labelFormat'' [] RString [OnObject QValue3DAxis, OnObject QValueAxis],
     Bind [TypeM QTGRAPHS_QPIESLICE] ''labelPosition'' [] (RMeta ''QPieSlice::LabelPosition'') [OnObject QPieSlice],
     Bind [] ''labelsSection'' [] (RMeta ''qsizetype'') [OnObject QPieModelMapper],
     Bind [] ''max'' [] RNumber [OnObject QValueAxis],
     Bind [] ''min'' [] RNumber [OnObject QValueAxis],
     Bind [TypeM QTCORE_QABSTRACTITEMMODEL] ''model'' [] RObject [OnObject QPieModelMapper, OnObject ''QXYModelMapper''],
     Bind [EnumM QT_ORIENTATION] ''orientation'' [] (RMeta Qt_Orientation) [OnObject QPieModelMapper, OnObject ''QXYModelMapper''],
     Bind [] ''percentage'' [] RNumber [OnObject QPieSlice],
     Bind [] ''pieSize'' [] RNumber [OnObject QPieSeries],
     Bind [TypeM ''QTQML_QQMLCOMPONENT''] ''pointDelegate'' [] RObject [OnObject QXYSeries],
     Bind [ValueM QTCORE_QPOINTF] ''points'' [] (RList (IValue QPointF)) [OnObject QXYSeries],
     Bind [TypeM QTGRAPHS_QPIESLICE] ''remove'' [PNonNull ''QPieSlice*''] RBool [OnObject QPieSeries],
     Bind [ValueM QTCORE_QPOINTF] ''remove'' [PConv QPointF] RVoid [OnObject QXYSeries],
     Bind [] ''remove'' [PReal ''qreal'', PReal ''qreal''] RVoid [OnObject QXYSeries],
     Bind [] ''remove'' [PWide ''qsizetype''] RBool [OnObject QPieSeries],
     Bind [] ''remove'' [PWide ''qsizetype''] RVoid [OnObject QXYSeries],
     Bind [] ''removeItems'' [PWide ''qsizetype'', PWide ''qsizetype''] RVoid [OnObject ''QScatterDataProxy''],
     Bind [] ''removeMultiple'' [PWide ''qsizetype'', PInt] RVoid [OnObject QPieSeries],
     Bind [] ''removeMultiple'' [PWide ''qsizetype'', PWide ''qsizetype''] RVoid [OnObject QXYSeries],
     Bind [] ''removeRows'' [PWide ''qsizetype'', PWide ''qsizetype''] RVoid [OnObject QSurfaceDataProxy],
     Bind [TypeM QTGRAPHS_QPIESLICE] ''replace'' [PList ''QPieSlice*''] RBool [OnObject QPieSeries],
     Bind [ValueM QTCORE_QPOINTF] ''replace'' [PListV QPointF] RVoid [OnObject QXYSeries],
     Bind [TypeM QTGRAPHS_QPIESLICE] ''replace'' [PNonNull ''QPieSlice*'', PNonNull ''QPieSlice*''] RBool [OnObject QPieSeries],
     Bind [ValueM QTCORE_QPOINTF] ''replace'' [PConv QPointF, PConv QPointF] RVoid [OnObject QXYSeries],
     Bind [] ''replace'' [PReal ''qreal'', PReal ''qreal'', PReal ''qreal'', PReal ''qreal''] RVoid [OnObject QXYSeries],
     Bind [TypeM QTGRAPHS_QPIESLICE] ''replace'' [PWide ''qsizetype'', PNonNull ''QPieSlice*''] RBool [OnObject QPieSeries],
     Bind [ValueM QTCORE_QPOINTF] ''replace'' [PWide ''qsizetype'', PConv QPointF] RVoid [OnObject QXYSeries],
     Bind [] ''replace'' [PWide ''qsizetype'', PReal ''qreal'', PReal ''qreal''] RVoid [OnObject QXYSeries],
     Bind [] ''resetArray'' [] RVoid [OnObject ''QScatterDataProxy'', OnObject QSurfaceDataProxy],
     Bind [] ''reversed'' [] RBool [OnObject QValue3DAxis],
     Bind [] ''rowCount'' [] (RMeta ''qsizetype'') [OnObject QSurfaceDataProxy],
     Bind [] ''segmentCount'' [] (RMeta ''qsizetype'') [OnObject QValue3DAxis],
     Bind [] ''selectAllPoints'' [] RVoid [OnObject QXYSeries],
     Bind [] ''selectPoint'' [PWide ''qsizetype''] RVoid [OnObject QXYSeries],
     Bind [] ''selectPoints'' [PList ''qsizetype''] RVoid [OnObject QXYSeries],
     Bind [ValueM QTGUI_QCOLOR] ''selectedColor'' [] (RValue QColor) [OnObject QXYSeries],
     Bind [] ''selectedItem'' [] (RMeta ''qsizetype'') [OnObject QScatter3DSeries],
     Bind [ValueM QTCORE_QPOINT] ''selectedPoint'' [] (RValue QPoint) [OnObject QSurface3DSeries],
     Bind [] ''selectedPoints'' [] (RList (IMeta ''qsizetype'')) [OnObject QXYSeries],
     Bind [TypeM ''QTGRAPHS_QPIESERIES''] ''series'' [] RObject [OnObject QPieModelMapper, OnObject QPieSlice],
     Bind [TypeM ''QTGRAPHS_QSCATTER3DSERIES''] ''series'' [] RObject [OnObject ''QScatterDataProxy''],
     Bind [TypeM ''QTGRAPHS_QSURFACE3DSERIES''] ''series'' [] RObject [OnObject QSurfaceDataProxy],
     Bind [TypeM ''QTGRAPHS_QXYSERIES''] ''series'' [] RObject [OnObject ''QXYModelMapper'']]"

definition meth_qtgraphs_1_1 :: "binding list" where
  "meth_qtgraphs_1_1 = [
     Bind [] ''setAutoSubGrid'' [PBool] RVoid [OnObject QLogValue3DAxisFormatter],
     Bind [] ''setBase'' [PReal ''qreal''] RVoid [OnObject QLogValue3DAxisFormatter],
     Bind [ValueM QTGUI_QCOLOR] ''setBorderColor'' [PConv QColor] RVoid [OnObject QPieSlice],
     Bind [] ''setBorderWidth'' [PReal ''qreal''] RVoid [OnObject QPieSlice],
     Bind [EnumM ''QT_PENCAPSTYLE''] ''setCapStyle'' [PConv ''Qt::PenCapStyle''] RVoid [OnObject ''QSplineSeries''],
     Bind [ValueM QTGUI_QCOLOR] ''setColor'' [PConv QColor] RVoid [OnObject QPieSlice, OnObject QXYSeries],
     Bind [] ''setCount'' [PWide ''qsizetype''] RVoid [OnObject QPieModelMapper, OnObject ''QXYModelMapper''],
     Bind [TypeM ''QTGRAPHS_QSCATTERDATAPROXY''] ''setDataProxy'' [PNonNull ''QScatterDataProxy*''] RVoid [OnObject QScatter3DSeries],
     Bind [TypeM ''QTGRAPHS_QSURFACEDATAPROXY''] ''setDataProxy'' [PNonNull ''QSurfaceDataProxy*''] RVoid [OnObject QSurface3DSeries],
     Bind [] ''setDraggable'' [PBool] RVoid [OnObject QXYSeries],
     Bind [] ''setEdgeLabelsVisible'' [PBool] RVoid [OnObject QLogValue3DAxisFormatter],
     Bind [] ''setEndAngle'' [PReal ''qreal''] RVoid [OnObject QPieSeries],
     Bind [] ''setExplodeDistanceFactor'' [PReal ''qreal''] RVoid [OnObject QPieSlice],
     Bind [] ''setExploded'' [PBool] RVoid [OnObject QPieSlice],
     Bind [] ''setFirst'' [PWide ''qsizetype''] RVoid [OnObject QPieModelMapper, OnObject ''QXYModelMapper''],
     Bind [TypeM ''QTGRAPHS_QVALUE3DAXISFORMATTER''] ''setFormatter'' [PNonNull ''QValue3DAxisFormatter*''] RVoid [OnObject QValue3DAxis],
     Bind [] ''setHoleSize'' [PReal ''qreal''] RVoid [OnObject QPieSeries],
     Bind [] ''setHorizontalPosition'' [PReal ''qreal''] RVoid [OnObject QPieSeries],
     Bind [] ''setItemSize'' [PReal ''float''] RVoid [OnObject QScatter3DSeries],
     Bind [] ''setLabel'' [PString True] RVoid [OnObject QPieSlice],
     Bind [] ''setLabelArmLengthFactor'' [PReal ''qreal''] RVoid [OnObject QPieSlice],
     Bind [ValueM QTGUI_QCOLOR] ''setLabelColor'' [PConv QColor] RVoid [OnObject QPieSlice],
     Bind [] ''setLabelDecimals'' [PInt] RVoid [OnObject QValueAxis],
     Bind [ValueM QTGUI_QFONT] ''setLabelFont'' [PConv QFont] RVoid [OnObject QPieSlice],
     Bind [] ''setLabelFormat'' [PString True] RVoid [OnObject QValue3DAxis, OnObject QValueAxis],
     Bind [TypeM QTGRAPHS_QPIESLICE] ''setLabelPosition'' [PConv ''QPieSlice::LabelPosition''] RVoid [OnObject QPieSlice],
     Bind [] ''setLabelVisible'' [PBool] RVoid [OnObject QPieSlice],
     Bind [TypeM QTGRAPHS_QPIESLICE] ''setLabelsPosition'' [PConv ''QPieSlice::LabelPosition''] RVoid [OnObject QPieSeries],
     Bind [] ''setLabelsSection'' [PWide ''qsizetype''] RVoid [OnObject QPieModelMapper],
     Bind [] ''setLabelsVisible'' [PBool] RVoid [OnObject QPieSeries],
     Bind [] ''setMax'' [PReal ''qreal''] RVoid [OnObject QValueAxis],
     Bind [] ''setMin'' [PReal ''qreal''] RVoid [OnObject QValueAxis],
     Bind [TypeM QTCORE_QABSTRACTITEMMODEL] ''setModel'' [PNonNull QAbstractItemModel_ptr] RVoid [OnObject QPieModelMapper, OnObject ''QXYModelMapper''],
     Bind [EnumM QT_ORIENTATION] ''setOrientation'' [PConv Qt_Orientation] RVoid [OnObject QPieModelMapper, OnObject ''QXYModelMapper''],
     Bind [] ''setPieSize'' [PReal ''qreal''] RVoid [OnObject QPieSeries],
     Bind [TypeM ''QTQML_QQMLCOMPONENT''] ''setPointDelegate'' [PNonNull ''QQmlComponent*''] RVoid [OnObject QXYSeries],
     Bind [] ''setPointSelected'' [PWide ''qsizetype'', PBool] RVoid [OnObject QXYSeries],
     Bind [] ''setRange'' [PReal ''qreal'', PReal ''qreal''] RVoid [OnObject QValueAxis],
     Bind [] ''setReversed'' [PBool] RVoid [OnObject QValue3DAxis],
     Bind [] ''setSegmentCount'' [PWide ''qsizetype''] RVoid [OnObject QValue3DAxis],
     Bind [ValueM QTGUI_QCOLOR] ''setSelectedColor'' [PConv QColor] RVoid [OnObject QXYSeries],
     Bind [] ''setSelectedItem'' [PWide ''qsizetype''] RVoid [OnObject QScatter3DSeries],
     Bind [ValueM QTCORE_QPOINT] ''setSelectedPoint'' [PConv QPoint] RVoid [OnObject QSurface3DSeries],
     Bind [TypeM ''QTGRAPHS_QPIESERIES''] ''setSeries'' [PNonNull ''QPieSeries*''] RVoid [OnObject QPieModelMapper],
     Bind [TypeM ''QTGRAPHS_QXYSERIES''] ''setSeries'' [PNonNull ''QXYSeries*''] RVoid [OnObject ''QXYModelMapper''],
     Bind [TypeM ''QTGRAPHS_QSURFACE3DSERIES''] ''setShading'' [PConv ''QSurface3DSeries::Shading''] RVoid [OnObject QSurface3DSeries],
     Bind [] ''setStartAngle'' [PReal ''qreal''] RVoid [OnObject QPieSeries],
     Bind [] ''setSubSegmentCount'' [PWide ''qsizetype''] RVoid [OnObject QValue3DAxis],
     Bind [] ''setSubTickCount'' [PWide ''qsizetype''] RVoid [OnObject QValueAxis],
     Bind [ValueM QTGUI_QIMAGE] ''setTexture'' [PConv QImage] RVoid [OnObject QSurface3DSeries],
     Bind [] ''setTextureFile'' [PString True] RVoid [OnObject QSurface3DSeries],
     Bind [] ''setTickAnchor'' [PReal ''qreal''] RVoid [OnObject QValueAxis],
     Bind [] ''setTickInterval'' [PReal ''qreal''] RVoid [OnObject QValueAxis],
     Bind [] ''setValue'' [PReal ''qreal''] RVoid [OnObject QPieSlice],
     Bind [] ''setValuesSection'' [PWide ''qsizetype''] RVoid [OnObject QPieModelMapper],
     Bind [] ''setVerticalPosition'' [PReal ''qreal''] RVoid [OnObject QPieSeries],
     Bind [] ''setWidth'' [PReal ''qreal''] RVoid [OnObject ''QSplineSeries''],
     Bind [ValueM QTGUI_QCOLOR] ''setWireframeColor'' [PConv QColor] RVoid [OnObject QSurface3DSeries],
     Bind [] ''setXSection'' [PWide ''qsizetype''] RVoid [OnObject ''QXYModelMapper''],
     Bind [] ''setYSection'' [PWide ''qsizetype''] RVoid [OnObject ''QXYModelMapper''],
     Bind [TypeM ''QTGRAPHS_QSURFACE3DSERIES''] ''shading'' [] (RMeta ''QSurface3DSeries::Shading'') [OnObject QSurface3DSeries],
     Bind [TypeM QTGRAPHS_QPIESLICE] ''slices'' [] (RList IObject) [OnObject QPieSeries],
     Bind [] ''startAngle'' [] RNumber [OnObject QPieSeries, OnObject QPieSlice],
     Bind [] ''subSegmentCount'' [] (RMeta ''qsizetype'') [OnObject QValue3DAxis],
     Bind [] ''subTickCount'' [] (RMeta ''qsizetype'') [OnObject QValueAxis],
     Bind [] ''sum'' [] RNumber [OnObject QPieSeries],
     Bind [TypeM QTGRAPHS_QPIESLICE] ''take'' [PNonNull ''QPieSlice*''] RBool [OnObject QPieSeries],
     Bind [ValueM QTCORE_QPOINTF] ''take'' [PConv QPointF] RBool [OnObject QXYSeries],
     Bind [ValueM QTGUI_QIMAGE] ''texture'' [] (RValue QImage) [OnObject QSurface3DSeries],
     Bind [] ''textureFile'' [] RString [OnObject QSurface3DSeries],
     Bind [] ''tickAnchor'' [] RNumber [OnObject QValueAxis],
     Bind [] ''tickInterval'' [] RNumber [OnObject QValueAxis],
     Bind [] ''toggleSelection'' [PList ''qsizetype''] RVoid [OnObject QXYSeries],
     Bind [TypeM ''QTGRAPHS_QABSTRACTAXIS''] ''type'' [] (RMeta ''QAbstractAxis::AxisType'') [OnObject QValueAxis],
     Bind [TypeM ''QTGRAPHS_QABSTRACTSERIES''] ''type'' [] (RMeta ''QAbstractSeries::SeriesType'') [OnObject QPieSeries, OnObject QScatterSeries, OnObject ''QSplineSeries''],
     Bind [] ''value'' [] RNumber [OnObject QPieSlice],
     Bind [] ''valuesSection'' [] (RMeta ''qsizetype'') [OnObject QPieModelMapper],
     Bind [] ''verticalPosition'' [] RNumber [OnObject QPieSeries],
     Bind [] ''width'' [] RNumber [OnObject ''QSplineSeries''],
     Bind [ValueM QTGUI_QCOLOR] ''wireframeColor'' [] (RValue QColor) [OnObject QSurface3DSeries],
     Bind [] ''xSection'' [] (RMeta ''qsizetype'') [OnObject ''QXYModelMapper''],
     Bind [] ''ySection'' [] (RMeta ''qsizetype'') [OnObject ''QXYModelMapper'']]"

definition meth_table_charts_c :: "(string \<times> shard) list" where
  "meth_table_charts_c = [
     (''qtgraphs_0'', \<lparr>sh_module = ''QtGraphs'', sh_slug = ''QTGRAPHS'',
        sh_bindings = concat [meth_qtgraphs_0_0, meth_qtgraphs_0_1, meth_qtgraphs_0_2, meth_qtgraphs_0_3, meth_qtgraphs_0_4]\<rparr>),
     (''qtgraphs_1'', \<lparr>sh_module = ''QtGraphs'', sh_slug = ''QTGRAPHS'',
        sh_bindings = concat [meth_qtgraphs_1_0, meth_qtgraphs_1_1]\<rparr>)]"

lemmas meth_table_charts_c_defs =
  meth_qtgraphs_0_0_def meth_qtgraphs_0_1_def meth_qtgraphs_0_2_def meth_qtgraphs_0_3_def meth_qtgraphs_0_4_def
  meth_qtgraphs_1_0_def meth_qtgraphs_1_1_def

lemma meth_table_charts_c_object_blocks: "list_all (\<lambda>(s, sh). object_blocks sh) meth_table_charts_c"
  by (simp add: meth_table_charts_c_def meth_table_charts_c_defs object_blocks_def object_shard_def; (simp add: parameter_text_def qt_name_defs)?)

end
