(* ===== verification/Methods_Charts_D.thy ===== *)
theory Methods_Charts_D
  imports Shard_Methods Qt_Names
begin

text \<open>
  Tables of the method shards (generated\_methods): the blocks of every shard in the file's order.
\<close>

definition meth_qtgraphswidgets_0_0 :: "binding list" where
  "meth_qtgraphswidgets_0_0 = [
     Bind [TypeM ''QTGRAPHS_QGRAPHSTHEME''] ''activeTheme'' [] RObject [OnObject Q3DGraphsWidgetItem],
     Bind [TypeM ''QTGRAPHS_QGRAPHSTHEME''] ''addTheme'' [PNonNull ''QGraphsTheme*''] RVoid [OnObject Q3DGraphsWidgetItem],
     Bind [] ''ambientLightStrength'' [] RNumber [OnObject Q3DGraphsWidgetItem],
     Bind [] ''aspectRatio'' [] RNumber [OnObject Q3DGraphsWidgetItem],
     Bind [ValueM QTCORE_QSIZEF] ''barSeriesMargin'' [] (RValue QSizeF) [OnObject ''Q3DBarsWidgetItem''],
     Bind [ValueM QTCORE_QSIZEF] ''barSpacing'' [] (RValue QSizeF) [OnObject ''Q3DBarsWidgetItem''],
     Bind [] ''barThickness'' [] RNumber [OnObject ''Q3DBarsWidgetItem''],
     Bind [ValueM QTGUI_QVECTOR3D] ''cameraTargetPosition'' [] (RValue QVector3D) [OnObject Q3DGraphsWidgetItem],
     Bind [] ''cameraXRotation'' [] RNumber [OnObject Q3DGraphsWidgetItem],
     Bind [] ''cameraYRotation'' [] RNumber [OnObject Q3DGraphsWidgetItem],
     Bind [] ''cameraZoomLevel'' [] RNumber [OnObject Q3DGraphsWidgetItem],
     Bind [] ''clearSelection'' [] RVoid [OnObject Q3DGraphsWidgetItem],
     Bind [] ''currentFps'' [] RNumber [OnObject Q3DGraphsWidgetItem],
     Bind [] ''flipHorizontalGrid'' [] RBool [OnObject ''Q3DSurfaceWidgetItem''],
     Bind [] ''floorLevel'' [] RNumber [OnObject ''Q3DBarsWidgetItem''],
     Bind [] ''horizontalAspectRatio'' [] RNumber [OnObject Q3DGraphsWidgetItem],
     Bind [] ''isBarSpacingRelative'' [] RBool [OnObject ''Q3DBarsWidgetItem''],
     Bind [] ''isMultiSeriesUniform'' [] RBool [OnObject ''Q3DBarsWidgetItem''],
     Bind [] ''isOrthoProjection'' [] RBool [OnObject Q3DGraphsWidgetItem],
     Bind [] ''isPolar'' [] RBool [OnObject Q3DGraphsWidgetItem],
     Bind [] ''isRotationEnabled'' [] RBool [OnObject Q3DGraphsWidgetItem],
     Bind [] ''isSelectionEnabled'' [] RBool [OnObject Q3DGraphsWidgetItem],
     Bind [] ''isZoomAtTargetEnabled'' [] RBool [OnObject Q3DGraphsWidgetItem],
     Bind [] ''isZoomEnabled'' [] RBool [OnObject Q3DGraphsWidgetItem],
     Bind [] ''labelMargin'' [] RNumber [OnObject Q3DGraphsWidgetItem],
     Bind [ValueM QTGUI_QCOLOR] ''lightColor'' [] (RValue QColor) [OnObject Q3DGraphsWidgetItem],
     Bind [] ''lightStrength'' [] RNumber [OnObject Q3DGraphsWidgetItem],
     Bind [ValueM QTCORE_QLOCALE] ''locale'' [] (RValue QLocale) [OnObject Q3DGraphsWidgetItem],
     Bind [] ''margin'' [] RNumber [OnObject Q3DGraphsWidgetItem],
     Bind [] ''maxCameraXRotation'' [] RNumber [OnObject Q3DGraphsWidgetItem],
     Bind [] ''maxCameraYRotation'' [] RNumber [OnObject Q3DGraphsWidgetItem],
     Bind [] ''maxCameraZoomLevel'' [] RNumber [OnObject Q3DGraphsWidgetItem],
     Bind [] ''measureFps'' [] RBool [OnObject Q3DGraphsWidgetItem],
     Bind [] ''minCameraXRotation'' [] RNumber [OnObject Q3DGraphsWidgetItem],
     Bind [] ''minCameraYRotation'' [] RNumber [OnObject Q3DGraphsWidgetItem],
     Bind [] ''minCameraZoomLevel'' [] RNumber [OnObject Q3DGraphsWidgetItem],
     Bind [] ''msaaSamples'' [] RNumber [OnObject Q3DGraphsWidgetItem],
     Bind [ValueM QTGUI_QVECTOR3D] ''queriedGraphPosition'' [] (RValue QVector3D) [OnObject Q3DGraphsWidgetItem],
     Bind [] ''radialLabelOffset'' [] RNumber [OnObject Q3DGraphsWidgetItem],
     Bind [TypeM ''QTGRAPHS_QGRAPHSTHEME''] ''releaseTheme'' [PNonNull ''QGraphsTheme*''] RVoid [OnObject Q3DGraphsWidgetItem],
     Bind [ValueM QTGUI_QVECTOR3D] ''removeCustomItemAt'' [PConv QVector3D] RVoid [OnObject Q3DGraphsWidgetItem],
     Bind [] ''removeCustomItems'' [] RVoid [OnObject Q3DGraphsWidgetItem],
     Bind [] ''selectedCustomItemIndex'' [] (RMeta ''qsizetype'') [OnObject Q3DGraphsWidgetItem],
     Bind [] ''selectedLabelIndex'' [] RNumber [OnObject Q3DGraphsWidgetItem],
     Bind [TypeM ''QTGRAPHS_QGRAPHSTHEME''] ''setActiveTheme'' [PNonNull ''QGraphsTheme*''] RVoid [OnObject Q3DGraphsWidgetItem],
     Bind [] ''setAmbientLightStrength'' [PReal ''float''] RVoid [OnObject Q3DGraphsWidgetItem],
     Bind [] ''setAspectRatio'' [PReal ''qreal''] RVoid [OnObject Q3DGraphsWidgetItem],
     Bind [ValueM QTCORE_QSIZEF] ''setBarSeriesMargin'' [PConv QSizeF] RVoid [OnObject ''Q3DBarsWidgetItem''],
     Bind [ValueM QTCORE_QSIZEF] ''setBarSpacing'' [PConv QSizeF] RVoid [OnObject ''Q3DBarsWidgetItem''],
     Bind [] ''setBarSpacingRelative'' [PBool] RVoid [OnObject ''Q3DBarsWidgetItem''],
     Bind [] ''setBarThickness'' [PReal ''float''] RVoid [OnObject ''Q3DBarsWidgetItem''],
     Bind [] ''setCameraPosition'' [PReal ''float'', PReal ''float'', PReal ''float''] RVoid [OnObject Q3DGraphsWidgetItem],
     Bind [ValueM QTGUI_QVECTOR3D] ''setCameraTargetPosition'' [PConv QVector3D] RVoid [OnObject Q3DGraphsWidgetItem],
     Bind [] ''setCameraXRotation'' [PReal ''float''] RVoid [OnObject Q3DGraphsWidgetItem],
     Bind [] ''setCameraYRotation'' [PReal ''float''] RVoid [OnObject Q3DGraphsWidgetItem],
     Bind [] ''setCameraZoomLevel'' [PReal ''float''] RVoid [OnObject Q3DGraphsWidgetItem],
     Bind [] ''setFlipHorizontalGrid'' [PBool] RVoid [OnObject ''Q3DSurfaceWidgetItem''],
     Bind [] ''setFloorLevel'' [PReal ''float''] RVoid [OnObject ''Q3DBarsWidgetItem''],
     Bind [] ''setHorizontalAspectRatio'' [PReal ''qreal''] RVoid [OnObject Q3DGraphsWidgetItem],
     Bind [] ''setLabelMargin'' [PReal ''float''] RVoid [OnObject Q3DGraphsWidgetItem],
     Bind [ValueM QTGUI_QCOLOR] ''setLightColor'' [PConv QColor] RVoid [OnObject Q3DGraphsWidgetItem],
     Bind [] ''setLightStrength'' [PReal ''float''] RVoid [OnObject Q3DGraphsWidgetItem],
     Bind [ValueM QTCORE_QLOCALE] ''setLocale'' [PConv QLocale] RVoid [OnObject Q3DGraphsWidgetItem],
     Bind [] ''setMargin'' [PReal ''qreal''] RVoid [OnObject Q3DGraphsWidgetItem],
     Bind [] ''setMaxCameraXRotation'' [PReal ''float''] RVoid [OnObject Q3DGraphsWidgetItem],
     Bind [] ''setMaxCameraYRotation'' [PReal ''float''] RVoid [OnObject Q3DGraphsWidgetItem],
     Bind [] ''setMaxCameraZoomLevel'' [PReal ''float''] RVoid [OnObject Q3DGraphsWidgetItem],
     Bind [] ''setMeasureFps'' [PBool] RVoid [OnObject Q3DGraphsWidgetItem],
     Bind [] ''setMinCameraXRotation'' [PReal ''float''] RVoid [OnObject Q3DGraphsWidgetItem],
     Bind [] ''setMinCameraYRotation'' [PReal ''float''] RVoid [OnObject Q3DGraphsWidgetItem],
     Bind [] ''setMinCameraZoomLevel'' [PReal ''float''] RVoid [OnObject Q3DGraphsWidgetItem],
     Bind [] ''setMsaaSamples'' [PInt] RVoid [OnObject Q3DGraphsWidgetItem],
     Bind [] ''setMultiSeriesUniform'' [PBool] RVoid [OnObject ''Q3DBarsWidgetItem''],
     Bind [] ''setOrthoProjection'' [PBool] RVoid [OnObject Q3DGraphsWidgetItem],
     Bind [] ''setPolar'' [PBool] RVoid [OnObject Q3DGraphsWidgetItem],
     Bind [] ''setRadialLabelOffset'' [PReal ''float''] RVoid [OnObject Q3DGraphsWidgetItem],
     Bind [] ''setRotationEnabled'' [PBool] RVoid [OnObject Q3DGraphsWidgetItem],
     Bind [] ''setSelectionEnabled'' [PBool] RVoid [OnObject Q3DGraphsWidgetItem],
     Bind [] ''setShadowStrength'' [PReal ''float''] RVoid [OnObject Q3DGraphsWidgetItem],
     Bind [TypeM ''QTQUICKWIDGETS_QQUICKWIDGET''] ''setWidget'' [PNonNull ''QQuickWidget*''] RVoid [OnObject Q3DGraphsWidgetItem],
     Bind [] ''setWrapCameraXRotation'' [PBool] RVoid [OnObject Q3DGraphsWidgetItem],
     Bind [] ''setWrapCameraYRotation'' [PBool] RVoid [OnObject Q3DGraphsWidgetItem],
     Bind [] ''setZoomAtTargetEnabled'' [PBool] RVoid [OnObject Q3DGraphsWidgetItem],
     Bind [] ''setZoomEnabled'' [PBool] RVoid [OnObject Q3DGraphsWidgetItem],
     Bind [] ''shadowStrength'' [] RNumber [OnObject Q3DGraphsWidgetItem],
     Bind [TypeM ''QTGRAPHS_QGRAPHSTHEME''] ''themes'' [] (RList IObject) [OnObject Q3DGraphsWidgetItem],
     Bind [TypeM ''QTQUICKWIDGETS_QQUICKWIDGET''] ''widget'' [] RObject [OnObject Q3DGraphsWidgetItem],
     Bind [] ''wrapCameraXRotation'' [] RBool [OnObject Q3DGraphsWidgetItem],
     Bind [] ''wrapCameraYRotation'' [] RBool [OnObject Q3DGraphsWidgetItem]]"

definition meth_table_charts_d :: "(string \<times> shard) list" where
  "meth_table_charts_d = [
     (''qtgraphswidgets_0'', \<lparr>sh_module = ''QtGraphsWidgets'', sh_slug = ''QTGRAPHSWIDGETS'',
        sh_bindings = concat [meth_qtgraphswidgets_0_0]\<rparr>)]"

lemmas meth_table_charts_d_defs =
  meth_qtgraphswidgets_0_0_def

lemma meth_table_charts_d_object_blocks: "list_all (\<lambda>(s, sh). object_blocks sh) meth_table_charts_d"
  by (simp add: meth_table_charts_d_def meth_table_charts_d_defs object_blocks_def object_shard_def; (simp add: parameter_text_def qt_name_defs)?)

end
