(* ===== verification/Methods_Gui_A.thy ===== *)
theory Methods_Gui_A
  imports Shard_Methods Qt_Names
begin

text \<open>
  Tables of the method shards (generated\_methods): the blocks of every shard in the file's order.
\<close>

definition meth_qtgui_0_0 :: "binding list" where
  "meth_qtgui_0_0 = [
     Bind [TypeM ''QTGUI_QACTIONGROUP''] ''actionGroup'' [] RObject [OnObject QAction],
     Bind [TypeM ''QTGUI_QACTION''] ''actions'' [] (RList IObject) [OnObject ''QActionGroup''],
     Bind [TypeM ''QTGUI_QACTION''] ''activate'' [PConv ''QAction::ActionEvent''] RVoid [OnObject QAction],
     Bind [TypeM ''QTGUI_QACTION''] ''addAction'' [PNonNull ''QAction*''] RObject [OnObject ''QActionGroup''],
     Bind [TypeM ''QTGUI_QACTION'', ValueM QTGUI_QICON] ''addAction'' [PConv QIcon, PString True] RObject [OnObject ''QActionGroup''],
     Bind [TypeM ''QTGUI_QACTION''] ''addAction'' [PString True] RObject [OnObject ''QActionGroup''],
     Bind [] ''addApplicationEmojiFontFamily'' [PString True] RVoid [Static QFontDatabase]]"

definition meth_qtgui_0_1 :: "binding list" where
  "meth_qtgui_0_1 = [
     Bind [TypeM ''QTCORE_QCHAR''] ''addApplicationFallbackFontFamily'' [PConv ''QChar::Script'', PString True] RVoid [Static QFontDatabase],
     Bind [] ''addApplicationFont'' [PString True] RNumber [Static QFontDatabase],
     Bind [ValueM QTCORE_QBYTEARRAY] ''addApplicationFontFromData'' [PConv QByteArray] RNumber [Static QFontDatabase],
     Bind [] ''allocationLimit'' [] RNumber [Static QImageReader],
     Bind [ValueM QTCORE_QPOINTF] ''anchorAt'' [PConv QPointF] RString [OnObject QAbstractTextDocumentLayout],
     Bind [ValueM QTCORE_QRECTF] ''anchorRectangle'' [] (RValue QRectF) [OnObject QInputMethod],
     Bind [] ''applicationDisplayName'' [] RString [Static QGuiApplication]]"

definition meth_qtgui_0_2 :: "binding list" where
  "meth_qtgui_0_2 = [
     Bind [] ''applicationEmojiFontFamilies'' [] (RList (IMeta QString)) [Static QFontDatabase],
     Bind [TypeM ''QTCORE_QCHAR''] ''applicationFallbackFontFamilies'' [PConv ''QChar::Script''] (RList (IMeta QString)) [Static QFontDatabase],
     Bind [] ''applicationFontFamilies'' [PInt] (RList (IMeta QString)) [Static QFontDatabase],
     Bind [EnumM ''QT_APPLICATIONSTATE''] ''applicationState'' [] (RMeta ''Qt::ApplicationState'') [Static QGuiApplication],
     Bind [TypeM QTCORE_QOBJECT] ''associatedObjects'' [] (RList IObject) [OnObject QAction],
     Bind [] ''autoRepeat'' [] RBool [OnObject QAction],
     Bind [ValueM QTCORE_QRECT] ''availableVirtualGeometry'' [] (RValue QRect) [OnObject ''QInputDevice'']]"

definition meth_qtgui_0_3 :: "binding list" where
  "meth_qtgui_0_3 = [
     Bind [ValueM QTCORE_QPOINTF, ValueM QTGUI_QTEXTBLOCK] ''blockWithMarkerAt'' [PConv QPointF] (RValue QTextBlock) [OnObject QAbstractTextDocumentLayout],
     Bind [] ''bold'' [PString True, PString True] RBool [Static QFontDatabase],
     Bind [] ''bottom'' [] RNumber [OnObject ''QDoubleValidator''],
     Bind [] ''bottom'' [] RNumber [OnObject ''QIntValidator''],
     Bind [] ''cacheStatistics'' [] RVoid [Static QFont],
     Bind [ValueM QTCORE_QMODELINDEX] ''canFetchMore'' [PConv QModelIndex] RBool [OnObject QFileSystemModel],
     Bind [] ''cancel'' [] RVoid [Static ''QDrag''],
     Bind [TypeM QTGUI_QINPUTDEVICE] ''capabilities'' [] (RMeta ''QInputDevice::Capabilities'') [OnObject ''QInputDevice'']]"

definition meth_qtgui_0_4 :: "binding list" where
  "meth_qtgui_0_4 = [
     Bind [ValueM ''QTGUI_QCURSOR''] ''changeOverrideCursor'' [PConv QCursor] RVoid [Static QGuiApplication],
     Bind [TypeM ''QTGUI_QACTION''] ''checkedAction'' [] RObject [OnObject ''QActionGroup''],
     Bind [] ''cleanup'' [] RVoid [Static QFont],
     Bind [TypeM ''QTGUI_QCLIPBOARD''] ''clear'' [PConv ''QClipboard::Mode''] RVoid [OnObject ''QClipboard''],
     Bind [TypeM ''QTGUI_QCLIPBOARD''] ''clipboard'' [] RObject [Static QGuiApplication],
     Bind [] ''colorNames'' [] (RList (IMeta QString)) [Static QColor],
     Bind [ValueM QTCORE_QMODELINDEX] ''columnCount'' [PConv QModelIndex] RNumber [OnObject QFileSystemModel]]"

definition meth_qtgui_0_5 :: "binding list" where
  "meth_qtgui_0_5 = [
     Bind [] ''commit'' [] RVoid [OnObject QInputMethod],
     Bind [EnumM ''QT_CONTRASTPREFERENCE''] ''contrastPreference'' [] (RMeta ''Qt::ContrastPreference'') [OnObject ''QAccessibilityHints''],
     Bind [EnumM ''QT_CONTRASTPREFERENCE''] ''contrastPreferenceChanged'' [PConv ''Qt::ContrastPreference''] RVoid [OnObject ''QAccessibilityHints''],
     Bind [ValueM QTCORE_QRECTF] ''cursorRectangle'' [] (RValue QRectF) [OnObject QInputMethod],
     Bind [] ''data'' [] RVariant [OnObject QAction],
     Bind [ValueM QTCORE_QMODELINDEX] ''data'' [PConv QModelIndex, PInt] RVariant [OnObject QFileSystemModel],
     Bind [] ''decimals'' [] RNumber [OnObject ''QDoubleValidator'']]"

definition meth_qtgui_0_6 :: "binding list" where
  "meth_qtgui_0_6 = [
     Bind [EnumM QT_DROPACTION] ''defaultAction'' [] (RMeta Qt_DropAction) [OnObject ''QDrag''],
     Bind [] ''desktopFileName'' [] RString [Static QGuiApplication],
     Bind [] ''desktopSettingsAware'' [] RBool [Static QGuiApplication],
     Bind [] ''devicePixelRatio'' [] RNumber [OnObject QGuiApplication],
     Bind [TypeM QTGUI_QINPUTDEVICE] ''devices'' [] (RList IObject) [Static ''QInputDevice''],
     Bind [TypeM QTGUI_QTEXTDOCUMENT] ''document'' [] RObject [OnObject QAbstractTextDocumentLayout],
     Bind [EnumM QT_DROPACTION, ValueM QTGUI_QPIXMAP] ''dragCursor'' [PConv Qt_DropAction] (RValue QPixmap) [OnObject ''QDrag'']]"

definition meth_qtgui_0_7 :: "binding list" where
  "meth_qtgui_0_7 = [
     Bind [EnumM QT_DROPACTION, TypeM QTCORE_QMIMEDATA, ValueM QTCORE_QMODELINDEX] ''dropMimeData'' [PNonNull ''QMimeData*'', PConv Qt_DropAction, PInt, PInt, PConv QModelIndex] RBool [OnObject QFileSystemModel],
     Bind [TypeM ''QTGUI_QACTIONGROUP''] ''exclusionPolicy'' [] (RMeta ''QActionGroup::ExclusionPolicy'') [OnObject ''QActionGroup''],
     Bind [] ''exec'' [] RNumber [Static QGuiApplication],
     Bind [EnumM QT_DROPACTION, EnumM QT_DROPACTIONS] ''exec'' [PConv Qt_DropActions] (RMeta Qt_DropAction) [OnObject ''QDrag''],
     Bind [EnumM QT_DROPACTION, EnumM QT_DROPACTIONS] ''exec'' [PConv Qt_DropActions, PConv Qt_DropAction] (RMeta Qt_DropAction) [OnObject ''QDrag''],
     Bind [] ''fallbackSearchPaths'' [] (RList (IMeta QString)) [Static QIcon],
     Bind [] ''fallbackThemeName'' [] RString [Static QIcon]]"

definition meth_qtgui_0_8 :: "binding list" where
  "meth_qtgui_0_8 = [
     Bind [TypeM ''QTGUI_QFONTDATABASE''] ''families'' [PConv QFontDatabase_WritingSystem] (RList (IMeta QString)) [Static QFontDatabase],
     Bind [ValueM QTCORE_QMODELINDEX] ''fetchMore'' [PConv QModelIndex] RVoid [OnObject QFileSystemModel],
     Bind [ValueM QTCORE_QMODELINDEX, ValueM QTGUI_QICON] ''fileIcon'' [PConv QModelIndex] (RValue QIcon) [OnObject QFileSystemModel],
     Bind [ValueM ''QTCORE_QFILEINFO'', ValueM QTCORE_QMODELINDEX] ''fileInfo'' [PConv QModelIndex] (RValue QFileInfo) [OnObject QFileSystemModel],
     Bind [ValueM QTCORE_QMODELINDEX] ''fileName'' [PConv QModelIndex] RString [OnObject QFileSystemModel],
     Bind [ValueM QTCORE_QMODELINDEX] ''filePath'' [PConv QModelIndex] RString [OnObject QFileSystemModel]]"

definition meth_qtgui_0_9 :: "binding list" where
  "meth_qtgui_0_9 = [
     Bind [TypeM QTCORE_QDIR] ''filter'' [] (RMeta ''QDir::Filters'') [OnObject QFileSystemModel],
     Bind [] ''fixup'' [PString True] RVoid [OnObject ''QDoubleValidator''],
     Bind [TypeM QTCORE_QOBJECT] ''focusObject'' [] RObject [Static QGuiApplication],
     Bind [TypeM QTGUI_QWINDOW] ''focusWindow'' [] RObject [Static QGuiApplication],
     Bind [ValueM QTGUI_QFONT] ''font'' [] (RValue QFont) [OnObject QAction],
     Bind [ValueM QTGUI_QFONT] ''font'' [] (RValue QFont) [Static QGuiApplication],
     Bind [ValueM QTGUI_QFONT] ''font'' [PString True, PString True, PInt] (RValue QFont) [Static QFontDatabase]]"

definition meth_qtgui_0_10 :: "binding list" where
  "meth_qtgui_0_10 = [
     Bind [ValueM QTCORE_QPOINTF, ValueM ''QTGUI_QTEXTFORMAT''] ''formatAt'' [PConv QPointF] (RValue QTextFormat) [OnObject QAbstractTextDocumentLayout],
     Bind [ValueM QTGUI_QCOLOR] ''fromCmyk'' [PInt, PInt, PInt, PInt, PInt] (RValue QColor) [Static QColor],
     Bind [ValueM QTGUI_QCOLOR] ''fromCmykF'' [PReal ''float'', PReal ''float'', PReal ''float'', PReal ''float'', PReal ''float''] (RValue QColor) [Static QColor],
     Bind [ValueM QTGUI_QCOLOR] ''fromHsl'' [PInt, PInt, PInt, PInt] (RValue QColor) [Static QColor],
     Bind [ValueM QTGUI_QCOLOR] ''fromHslF'' [PReal ''float'', PReal ''float'', PReal ''float'', PReal ''float''] (RValue QColor) [Static QColor]]"

definition meth_qtgui_0_11 :: "binding list" where
  "meth_qtgui_0_11 = [
     Bind [ValueM QTGUI_QCOLOR] ''fromHsv'' [PInt, PInt, PInt, PInt] (RValue QColor) [Static QColor],
     Bind [ValueM QTGUI_QCOLOR] ''fromHsvF'' [PReal ''float'', PReal ''float'', PReal ''float'', PReal ''float''] (RValue QColor) [Static QColor],
     Bind [ValueM QTCORE_QBYTEARRAY, ValueM QTGUI_QCOLORSPACE] ''fromIccProfile'' [PConv QByteArray] (RValue QColorSpace) [Static QColorSpace],
     Bind [ValueM ''QTGUI_QBITMAP'', ValueM QTGUI_QPIXMAP] ''fromPixmap'' [PConv QPixmap] (RValue ''QBitmap'') [Static ''QBitmap''],
     Bind [ValueM QTGUI_QCOLOR] ''fromRgb'' [PInt, PInt, PInt, PInt] (RValue QColor) [Static QColor]]"

definition meth_qtgui_0_12 :: "binding list" where
  "meth_qtgui_0_12 = [
     Bind [ValueM QTGUI_QCOLOR] ''fromRgbF'' [PReal ''float'', PReal ''float'', PReal ''float'', PReal ''float''] (RValue QColor) [Static QColor],
     Bind [ValueM QTGUI_QCOLOR, ValueM ''QTGUI_QRGBA64''] ''fromRgba64'' [PConv ''QRgba64''] (RValue QColor) [Static QColor],
     Bind [TypeM QTGUI_QKEYSEQUENCE, ValueM QTGUI_QKEYSEQUENCE] ''fromString'' [PString True, PConv ''QKeySequence::SequenceFormat''] (RValue QKeySequence) [Static QKeySequence],
     Bind [TypeM QTGUI_QICON, ValueM QTGUI_QICON] ''fromTheme'' [PConv ''QIcon::ThemeIcon''] (RValue QIcon) [Static QIcon],
     Bind [TypeM QTGUI_QICON, ValueM QTGUI_QICON] ''fromTheme'' [PConv ''QIcon::ThemeIcon'', PConv QIcon] (RValue QIcon) [Static QIcon],
     Bind [ValueM QTGUI_QICON] ''fromTheme'' [PString True] (RValue QIcon) [Static QIcon]]"

definition meth_qtgui_0_13 :: "binding list" where
  "meth_qtgui_0_13 = [
     Bind [ValueM QTGUI_QICON] ''fromTheme'' [PString True, PConv QIcon] (RValue QIcon) [Static QIcon],
     Bind [TypeM QTGUI_QINPUTDEVICE] ''hasCapability'' [PConv ''QInputDevice::Capability''] RBool [OnObject ''QInputDevice''],
     Bind [ValueM QTCORE_QMODELINDEX] ''hasChildren'' [PConv QModelIndex] RBool [OnObject QFileSystemModel],
     Bind [TypeM QTGUI_QICON] ''hasThemeIcon'' [PConv ''QIcon::ThemeIcon''] RBool [Static QIcon],
     Bind [] ''hasThemeIcon'' [PString True] RBool [Static QIcon],
     Bind [EnumM QT_ORIENTATION] ''headerData'' [PInt, PConv Qt_Orientation, PInt] RVariant [OnObject QFileSystemModel],
     Bind [] ''hide'' [] RVoid [OnObject QInputMethod]]"

definition meth_qtgui_0_14 :: "binding list" where
  "meth_qtgui_0_14 = [
     Bind [EnumM ''QT_HIGHDPISCALEFACTORROUNDINGPOLICY''] ''highDpiScaleFactorRoundingPolicy'' [] (RMeta ''Qt::HighDpiScaleFactorRoundingPolicy'') [Static QGuiApplication],
     Bind [ValueM QTCORE_QPOINT] ''hotSpot'' [] (RValue QPoint) [OnObject ''QDrag''],
     Bind [] ''hover'' [] RVoid [OnObject QAction],
     Bind [ValueM QTGUI_QICON] ''icon'' [] (RValue QIcon) [OnObject QAction],
     Bind [] ''iconText'' [] RString [OnObject QAction],
     Bind [TypeM ''QTGUI_QCLIPBOARD'', ValueM QTGUI_QIMAGE] ''image'' [PConv ''QClipboard::Mode''] (RValue QImage) [OnObject ''QClipboard''],
     Bind [ValueM QTCORE_QPOINTF] ''imageAt'' [PConv QPointF] RString [OnObject QAbstractTextDocumentLayout]]"

definition meth_qtgui_0_15 :: "binding list" where
  "meth_qtgui_0_15 = [
     Bind [TypeM QTCORE_QIODEVICE, ValueM QTCORE_QBYTEARRAY] ''imageFormat'' [PNonNull QIODevice_ptr] (RValue QByteArray) [Static QImageReader],
     Bind [ValueM QTCORE_QBYTEARRAY] ''imageFormat'' [PString True] (RValue QByteArray) [Static QImageReader],
     Bind [ValueM QTCORE_QBYTEARRAY] ''imageFormatsForMimeType'' [PConv QByteArray] (RList (IValue QByteArray)) [Static QImageReader, Static QImageWriter],
     Bind [ValueM QTCORE_QMODELINDEX] ''index'' [PString True, PInt] (RValue QModelIndex) [OnObject QFileSystemModel],
     Bind [ValueM QTCORE_QMODELINDEX] ''index'' [PInt, PInt, PConv QModelIndex] (RValue QModelIndex) [OnObject QFileSystemModel]]"

definition meth_qtgui_0_16 :: "binding list" where
  "meth_qtgui_0_16 = [
     Bind [] ''initialize'' [] RVoid [Static QFont],
     Bind [EnumM QT_LAYOUTDIRECTION] ''inputDirection'' [] (RMeta Qt_LayoutDirection) [OnObject QInputMethod],
     Bind [ValueM QTCORE_QRECTF] ''inputItemClipRectangle'' [] (RValue QRectF) [OnObject QInputMethod],
     Bind [ValueM QTCORE_QRECTF] ''inputItemRectangle'' [] (RValue QRectF) [OnObject QInputMethod],
     Bind [ValueM QTGUI_QTRANSFORM] ''inputItemTransform'' [] (RValue QTransform) [OnObject QInputMethod],
     Bind [TypeM ''QTGUI_QINPUTMETHOD''] ''inputMethod'' [] RObject [Static QGuiApplication],
     Bind [] ''insertSubstitution'' [PString True, PString True] RVoid [Static QFont]]"

definition meth_qtgui_0_17 :: "binding list" where
  "meth_qtgui_0_17 = [
     Bind [] ''insertSubstitutions'' [PString True, PStringList] RVoid [Static QFont],
     Bind [TypeM ''QTGUI_QINPUTMETHOD''] ''invokeAction'' [PConv ''QInputMethod::Action'', PInt] RVoid [OnObject QInputMethod],
     Bind [] ''isAnimating'' [] RBool [OnObject QInputMethod],
     Bind [] ''isBitmapScalable'' [PString True, PString True] RBool [Static QFontDatabase],
     Bind [] ''isCheckable'' [] RBool [OnObject QAction],
     Bind [] ''isChecked'' [] RBool [OnObject QAction],
     Bind [ValueM QTCORE_QMODELINDEX] ''isDir'' [PConv QModelIndex] RBool [OnObject QFileSystemModel]]"

definition meth_qtgui_0_18 :: "binding list" where
  "meth_qtgui_0_18 = [
     Bind [] ''isEnabled'' [] RBool [OnObject QAction, OnObject ''QActionGroup''],
     Bind [] ''isExclusive'' [] RBool [OnObject ''QActionGroup''],
     Bind [] ''isFixedPitch'' [PString True, PString True] RBool [Static QFontDatabase],
     Bind [] ''isIconVisibleInMenu'' [] RBool [OnObject QAction],
     Bind [] ''isLeftToRight'' [] RBool [Static QGuiApplication],
     Bind [] ''isPrivateFamily'' [PString True] RBool [Static QFontDatabase],
     Bind [] ''isReadOnly'' [] RBool [OnObject QFileSystemModel],
     Bind [] ''isRightToLeft'' [] RBool [Static QGuiApplication]]"

definition meth_qtgui_0_19 :: "binding list" where
  "meth_qtgui_0_19 = [
     Bind [] ''isSavingSession'' [] RBool [OnObject QGuiApplication],
     Bind [] ''isScalable'' [PString True, PString True] RBool [Static QFontDatabase],
     Bind [] ''isSeparator'' [] RBool [OnObject QAction],
     Bind [] ''isSessionRestored'' [] RBool [OnObject QGuiApplication],
     Bind [] ''isShortcutVisibleInContextMenu'' [] RBool [OnObject QAction],
     Bind [] ''isSmoothlyScalable'' [PString True, PString True] RBool [Static QFontDatabase],
     Bind [] ''isValidColor'' [PString True] RBool [Static QColor],
     Bind [] ''isVisible'' [] RBool [OnObject QAction, OnObject ''QActionGroup'', OnObject QInputMethod]]"

definition meth_qtgui_0_20 :: "binding list" where
  "meth_qtgui_0_20 = [
     Bind [] ''italic'' [PString True, PString True] RBool [Static QFontDatabase],
     Bind [TypeM QTGUI_QKEYSEQUENCE, ValueM QTGUI_QKEYSEQUENCE] ''keyBindings'' [PConv ''QKeySequence::StandardKey''] (RList (IValue QKeySequence)) [Static QKeySequence],
     Bind [ValueM QTCORE_QRECTF] ''keyboardRectangle'' [] (RValue QRectF) [OnObject QInputMethod],
     Bind [ValueM QTCORE_QDATETIME, ValueM QTCORE_QMODELINDEX] ''lastModified'' [PConv QModelIndex] (RValue QDateTime) [OnObject QFileSystemModel],
     Bind [ValueM QTCORE_QDATETIME, ValueM QTCORE_QMODELINDEX, ValueM QTCORE_QTIMEZONE] ''lastModified'' [PConv QModelIndex, PConv QTimeZone] (RValue QDateTime) [OnObject QFileSystemModel],
     Bind [EnumM QT_LAYOUTDIRECTION] ''layoutDirection'' [] (RMeta Qt_LayoutDirection) [Static QGuiApplication]]"

definition meth_qtgui_0_21 :: "binding list" where
  "meth_qtgui_0_21 = [
     Bind [TypeM QTGUI_QKEYSEQUENCE, ValueM QTGUI_QKEYSEQUENCE] ''listFromString'' [PString True, PConv ''QKeySequence::SequenceFormat''] (RList (IValue QKeySequence)) [Static QKeySequence],
     Bind [TypeM QTGUI_QKEYSEQUENCE, ValueM QTGUI_QKEYSEQUENCE] ''listToString'' [PListV QKeySequence, PConv ''QKeySequence::SequenceFormat''] RString [Static QKeySequence],
     Bind [ValueM QTCORE_QLOCALE] ''locale'' [] (RValue QLocale) [OnObject QInputMethod],
     Bind [TypeM ''QTGUI_QACTION''] ''menuRole'' [] (RMeta ''QAction::MenuRole'') [OnObject QAction],
     Bind [TypeM QTCORE_QMIMEDATA] ''mimeData'' [] RObject [OnObject ''QDrag''],
     Bind [TypeM QTCORE_QMIMEDATA, TypeM ''QTGUI_QCLIPBOARD''] ''mimeData'' [PConv ''QClipboard::Mode''] RObject [OnObject ''QClipboard'']]"

definition meth_qtgui_0_22 :: "binding list" where
  "meth_qtgui_0_22 = [
     Bind [] ''mimeTypes'' [] (RList (IMeta QString)) [OnObject QFileSystemModel],
     Bind [ValueM QTCORE_QMODELINDEX] ''mkdir'' [PConv QModelIndex, PString True] (RValue QModelIndex) [OnObject QFileSystemModel],
     Bind [ValueM QTGUI_QKEYSEQUENCE] ''mnemonic'' [PString True] (RValue QKeySequence) [Static QKeySequence],
     Bind [TypeM QTGUI_QWINDOW] ''modalWindow'' [] RObject [Static QGuiApplication],
     Bind [EnumM QT_MOUSEBUTTONS] ''mouseButtons'' [] (RMeta Qt_MouseButtons) [Static QGuiApplication],
     Bind [] ''myComputer'' [PInt] RVariant [OnObject QFileSystemModel],
     Bind [] ''name'' [] RString [OnObject ''QInputDevice'']]"

definition meth_qtgui_0_23 :: "binding list" where
  "meth_qtgui_0_23 = [
     Bind [] ''nameFilterDisables'' [] RBool [OnObject QFileSystemModel],
     Bind [] ''nameFilters'' [] (RList (IMeta QString)) [OnObject QFileSystemModel],
     Bind [TypeM ''QTGUI_QDOUBLEVALIDATOR''] ''notation'' [] (RMeta ''QDoubleValidator::Notation'') [OnObject ''QDoubleValidator''],
     Bind [ValueM QTCORE_QURL] ''openUrl'' [PConv QUrl] RBool [Static ''QDesktopServices''],
     Bind [TypeM ''QTGUI_QFILESYSTEMMODEL''] ''options'' [] (RMeta ''QFileSystemModel::Options'') [OnObject QFileSystemModel],
     Bind [] ''ownsClipboard'' [] RBool [OnObject ''QClipboard''],
     Bind [] ''ownsFindBuffer'' [] RBool [OnObject ''QClipboard''],
     Bind [] ''ownsSelection'' [] RBool [OnObject ''QClipboard'']]"

definition meth_qtgui_0_24 :: "binding list" where
  "meth_qtgui_0_24 = [
     Bind [ValueM QTGUI_QPALETTE] ''palette'' [] (RValue QPalette) [Static QGuiApplication],
     Bind [ValueM QTCORE_QMODELINDEX] ''parent'' [PConv QModelIndex] (RValue QModelIndex) [OnObject QFileSystemModel],
     Bind [ValueM QTGUI_QPIXMAP] ''pixmap'' [] (RValue QPixmap) [OnObject ''QDrag''],
     Bind [TypeM ''QTGUI_QCLIPBOARD'', ValueM QTGUI_QPIXMAP] ''pixmap'' [PConv ''QClipboard::Mode''] (RValue QPixmap) [OnObject ''QClipboard''],
     Bind [] ''platformName'' [] RString [Static QGuiApplication],
     Bind [] ''pointSizes'' [PString True, PString True] (RList (IMeta ''int'')) [Static QFontDatabase],
     Bind [ValueM QTCORE_QPOINT] ''pos'' [] (RValue QPoint) [Static QCursor]]"

definition meth_qtgui_0_25 :: "binding list" where
  "meth_qtgui_0_25 = [
     Bind [TypeM QTGUI_QSCREEN, ValueM QTCORE_QPOINT] ''pos'' [PNonNull ''QScreen*''] (RValue QPoint) [Static QCursor],
     Bind [TypeM QTGUI_QINPUTDEVICE] ''primaryKeyboard'' [PString True] RObject [Static ''QInputDevice''],
     Bind [TypeM QTGUI_QSCREEN] ''primaryScreen'' [] RObject [Static QGuiApplication],
     Bind [TypeM ''QTGUI_QACTION''] ''priority'' [] (RMeta ''QAction::Priority'') [OnObject QAction],
     Bind [EnumM ''QT_INPUTMETHODQUERY''] ''queryFocusObject'' [PConv ''Qt::InputMethodQuery'', PVariant] RVariant [Static QInputMethod],
     Bind [] ''quitOnLastWindowClosed'' [] RBool [Static QGuiApplication],
     Bind [TypeM QTCORE_QOBJECT] ''registerHandler'' [PInt, PNonNull QObject_ptr] RVoid [OnObject QAbstractTextDocumentLayout]]"

definition meth_qtgui_0_26 :: "binding list" where
  "meth_qtgui_0_26 = [
     Bind [ValueM QTCORE_QMODELINDEX] ''remove'' [PConv QModelIndex] RBool [OnObject QFileSystemModel],
     Bind [TypeM ''QTGUI_QACTION''] ''removeAction'' [PNonNull ''QAction*''] RVoid [OnObject ''QActionGroup''],
     Bind [] ''removeAllApplicationFonts'' [] RBool [Static QFontDatabase],
     Bind [] ''removeApplicationEmojiFontFamily'' [PString True] RBool [Static QFontDatabase],
     Bind [TypeM ''QTCORE_QCHAR''] ''removeApplicationFallbackFontFamily'' [PConv ''QChar::Script'', PString True] RBool [Static QFontDatabase],
     Bind [] ''removeApplicationFont'' [PInt] RBool [Static QFontDatabase],
     Bind [] ''removeSubstitutions'' [PString True] RVoid [Static QFont]]"

definition meth_qtgui_0_27 :: "binding list" where
  "meth_qtgui_0_27 = [
     Bind [] ''reset'' [] RVoid [OnObject QInputMethod],
     Bind [] ''resetEnabled'' [] RVoid [OnObject QAction],
     Bind [] ''resolveSymlinks'' [] RBool [OnObject QFileSystemModel],
     Bind [] ''restoreOverrideCursor'' [] RVoid [Static QGuiApplication],
     Bind [ValueM QTCORE_QMODELINDEX] ''rmdir'' [PConv QModelIndex] RBool [OnObject QFileSystemModel],
     Bind [ValueM QTCORE_QDIR] ''rootDirectory'' [] (RValue QDir) [OnObject QFileSystemModel],
     Bind [] ''rootPath'' [] RString [OnObject QFileSystemModel],
     Bind [ValueM QTCORE_QMODELINDEX] ''rowCount'' [PConv QModelIndex] RNumber [OnObject QFileSystemModel]]"

definition meth_qtgui_0_28 :: "binding list" where
  "meth_qtgui_0_28 = [
     Bind [TypeM QTGUI_QSCREEN, ValueM QTCORE_QPOINT] ''screenAt'' [PConv QPoint] RObject [Static QGuiApplication],
     Bind [TypeM QTGUI_QSCREEN] ''screens'' [] (RList IObject) [Static QGuiApplication],
     Bind [] ''seatName'' [] RString [OnObject ''QInputDevice''],
     Bind [] ''seatNames'' [] (RList (IMeta QString)) [Static ''QInputDevice''],
     Bind [] ''sessionId'' [] RString [OnObject QGuiApplication],
     Bind [] ''sessionKey'' [] RString [OnObject QGuiApplication],
     Bind [TypeM ''QTGUI_QACTIONGROUP''] ''setActionGroup'' [PNonNull ''QActionGroup*''] RVoid [OnObject QAction]]"

definition meth_qtgui_0_29 :: "binding list" where
  "meth_qtgui_0_29 = [
     Bind [] ''setAllocationLimit'' [PInt] RVoid [Static QImageReader],
     Bind [] ''setApplicationDisplayName'' [PString True] RVoid [Static QGuiApplication],
     Bind [] ''setApplicationEmojiFontFamilies'' [PStringList] RVoid [Static QFontDatabase],
     Bind [TypeM ''QTCORE_QCHAR''] ''setApplicationFallbackFontFamilies'' [PConv ''QChar::Script'', PStringList] RVoid [Static QFontDatabase],
     Bind [] ''setAutoRepeat'' [PBool] RVoid [OnObject QAction],
     Bind [] ''setBadgeNumber'' [PWide ''qint64''] RVoid [OnObject QGuiApplication],
     Bind [] ''setBottom'' [PReal ''double''] RVoid [OnObject ''QDoubleValidator'']]"

definition meth_qtgui_0_30 :: "binding list" where
  "meth_qtgui_0_30 = [
     Bind [] ''setBottom'' [PInt] RVoid [OnObject ''QIntValidator''],
     Bind [] ''setCheckable'' [PBool] RVoid [OnObject QAction],
     Bind [] ''setChecked'' [PBool] RVoid [OnObject QAction],
     Bind [ValueM QTCORE_QMODELINDEX] ''setData'' [PConv QModelIndex, PVariant, PInt] RBool [OnObject QFileSystemModel],
     Bind [] ''setData'' [PVariant] RVoid [OnObject QAction],
     Bind [] ''setDecimals'' [PInt] RVoid [OnObject ''QDoubleValidator''],
     Bind [] ''setDesktopFileName'' [PString True] RVoid [Static QGuiApplication]]"

definition meth_qtgui_0_31 :: "binding list" where
  "meth_qtgui_0_31 = [
     Bind [] ''setDesktopSettingsAware'' [PBool] RVoid [Static QGuiApplication],
     Bind [] ''setDisabled'' [PBool] RVoid [OnObject QAction, OnObject ''QActionGroup''],
     Bind [EnumM QT_DROPACTION, ValueM QTGUI_QPIXMAP] ''setDragCursor'' [PConv QPixmap, PConv Qt_DropAction] RVoid [OnObject ''QDrag''],
     Bind [] ''setEnabled'' [PBool] RVoid [OnObject QAction, OnObject ''QActionGroup''],
     Bind [TypeM ''QTGUI_QACTIONGROUP''] ''setExclusionPolicy'' [PConv ''QActionGroup::ExclusionPolicy''] RVoid [OnObject ''QActionGroup''],
     Bind [] ''setExclusive'' [PBool] RVoid [OnObject ''QActionGroup'']]"

definition meth_qtgui_0_32 :: "binding list" where
  "meth_qtgui_0_32 = [
     Bind [] ''setFallbackSearchPaths'' [PStringList] RVoid [Static QIcon],
     Bind [] ''setFallbackThemeName'' [PString True] RVoid [Static QIcon],
     Bind [TypeM QTCORE_QDIR] ''setFilter'' [PConv ''QDir::Filters''] RVoid [OnObject QFileSystemModel],
     Bind [ValueM QTGUI_QFONT] ''setFont'' [PConv QFont] RVoid [OnObject QAction],
     Bind [ValueM QTGUI_QFONT] ''setFont'' [PConv QFont] RVoid [Static QGuiApplication],
     Bind [EnumM ''QT_HIGHDPISCALEFACTORROUNDINGPOLICY''] ''setHighDpiScaleFactorRoundingPolicy'' [PConv ''Qt::HighDpiScaleFactorRoundingPolicy''] RVoid [Static QGuiApplication]]"

definition meth_qtgui_0_33 :: "binding list" where
  "meth_qtgui_0_33 = [
     Bind [ValueM QTCORE_QPOINT] ''setHotSpot'' [PConv QPoint] RVoid [OnObject ''QDrag''],
     Bind [ValueM QTGUI_QICON] ''setIcon'' [PConv QIcon] RVoid [OnObject QAction],
     Bind [] ''setIconText'' [PString True] RVoid [OnObject QAction],
     Bind [] ''setIconVisibleInMenu'' [PBool] RVoid [OnObject QAction],
     Bind [TypeM ''QTGUI_QCLIPBOARD'', ValueM QTGUI_QIMAGE] ''setImage'' [PConv QImage, PConv ''QClipboard::Mode''] RVoid [OnObject ''QClipboard''],
     Bind [ValueM QTCORE_QRECTF] ''setInputItemRectangle'' [PConv QRectF] RVoid [OnObject QInputMethod]]"

definition meth_qtgui_0_34 :: "binding list" where
  "meth_qtgui_0_34 = [
     Bind [ValueM QTGUI_QTRANSFORM] ''setInputItemTransform'' [PConv QTransform] RVoid [OnObject QInputMethod],
     Bind [EnumM QT_LAYOUTDIRECTION] ''setLayoutDirection'' [PConv Qt_LayoutDirection] RVoid [Static QGuiApplication],
     Bind [TypeM ''QTGUI_QACTION''] ''setMenuRole'' [PConv ''QAction::MenuRole''] RVoid [OnObject QAction],
     Bind [TypeM QTCORE_QMIMEDATA] ''setMimeData'' [PNonNull ''QMimeData*''] RVoid [OnObject ''QDrag''],
     Bind [] ''setNameFilterDisables'' [PBool] RVoid [OnObject QFileSystemModel],
     Bind [] ''setNameFilters'' [PStringList] RVoid [OnObject QFileSystemModel]]"

definition meth_qtgui_0_35 :: "binding list" where
  "meth_qtgui_0_35 = [
     Bind [TypeM ''QTGUI_QDOUBLEVALIDATOR''] ''setNotation'' [PConv ''QDoubleValidator::Notation''] RVoid [OnObject ''QDoubleValidator''],
     Bind [TypeM ''QTGUI_QFILESYSTEMMODEL''] ''setOption'' [PConv ''QFileSystemModel::Option'', PBool] RVoid [OnObject QFileSystemModel],
     Bind [TypeM ''QTGUI_QFILESYSTEMMODEL''] ''setOptions'' [PConv ''QFileSystemModel::Options''] RVoid [OnObject QFileSystemModel],
     Bind [ValueM ''QTGUI_QCURSOR''] ''setOverrideCursor'' [PConv QCursor] RVoid [Static QGuiApplication],
     Bind [ValueM QTGUI_QPALETTE] ''setPalette'' [PConv QPalette] RVoid [Static QGuiApplication],
     Bind [ValueM QTGUI_QPIXMAP] ''setPixmap'' [PConv QPixmap] RVoid [OnObject ''QDrag'']]"

definition meth_qtgui_0_36 :: "binding list" where
  "meth_qtgui_0_36 = [
     Bind [TypeM ''QTGUI_QCLIPBOARD'', ValueM QTGUI_QPIXMAP] ''setPixmap'' [PConv QPixmap, PConv ''QClipboard::Mode''] RVoid [OnObject ''QClipboard''],
     Bind [ValueM QTCORE_QPOINT] ''setPos'' [PConv QPoint] RVoid [Static QCursor],
     Bind [TypeM QTGUI_QSCREEN, ValueM QTCORE_QPOINT] ''setPos'' [PNonNull ''QScreen*'', PConv QPoint] RVoid [Static QCursor],
     Bind [TypeM QTGUI_QSCREEN] ''setPos'' [PNonNull ''QScreen*'', PInt, PInt] RVoid [Static QCursor],
     Bind [] ''setPos'' [PInt, PInt] RVoid [Static QCursor],
     Bind [TypeM ''QTGUI_QACTION''] ''setPriority'' [PConv ''QAction::Priority''] RVoid [OnObject QAction]]"

definition meth_qtgui_0_37 :: "binding list" where
  "meth_qtgui_0_37 = [
     Bind [] ''setQuitOnLastWindowClosed'' [PBool] RVoid [Static QGuiApplication],
     Bind [] ''setRange'' [PReal ''double'', PReal ''double'', PInt] RVoid [OnObject ''QDoubleValidator''],
     Bind [] ''setRange'' [PInt, PInt] RVoid [OnObject ''QIntValidator''],
     Bind [] ''setReadOnly'' [PBool] RVoid [OnObject QFileSystemModel],
     Bind [] ''setResolveSymlinks'' [PBool] RVoid [OnObject QFileSystemModel],
     Bind [ValueM QTCORE_QMODELINDEX] ''setRootPath'' [PString True] (RValue QModelIndex) [OnObject QFileSystemModel],
     Bind [] ''setSeparator'' [PBool] RVoid [OnObject QAction]]"

definition meth_qtgui_0_38 :: "binding list" where
  "meth_qtgui_0_38 = [
     Bind [ValueM QTGUI_QKEYSEQUENCE] ''setShortcut'' [PConv QKeySequence] RVoid [OnObject QAction],
     Bind [EnumM ''QT_SHORTCUTCONTEXT''] ''setShortcutContext'' [PConv ''Qt::ShortcutContext''] RVoid [OnObject QAction],
     Bind [] ''setShortcutVisibleInContextMenu'' [PBool] RVoid [OnObject QAction],
     Bind [TypeM QTGUI_QKEYSEQUENCE] ''setShortcuts'' [PConv ''QKeySequence::StandardKey''] RVoid [OnObject QAction],
     Bind [ValueM QTGUI_QKEYSEQUENCE] ''setShortcuts'' [PListV QKeySequence] RVoid [OnObject QAction],
     Bind [] ''setStatusTip'' [PString True] RVoid [OnObject QAction],
     Bind [] ''setText'' [PString True] RVoid [OnObject QAction]]"

definition meth_qtgui_0_39 :: "binding list" where
  "meth_qtgui_0_39 = [
     Bind [TypeM ''QTGUI_QCLIPBOARD''] ''setText'' [PString True, PConv ''QClipboard::Mode''] RVoid [OnObject ''QClipboard''],
     Bind [] ''setThemeName'' [PString True] RVoid [Static QIcon],
     Bind [] ''setThemeSearchPaths'' [PStringList] RVoid [Static QIcon],
     Bind [] ''setToolTip'' [PString True] RVoid [OnObject QAction],
     Bind [] ''setTop'' [PReal ''double''] RVoid [OnObject ''QDoubleValidator''],
     Bind [] ''setTop'' [PInt] RVoid [OnObject ''QIntValidator'']]"

definition meth_qtgui_0_40 :: "binding list" where
  "meth_qtgui_0_40 = [
     Bind [] ''setVisible'' [PBool] RVoid [OnObject QAction, OnObject ''QActionGroup'', OnObject QInputMethod],
     Bind [] ''setWhatsThis'' [PString True] RVoid [OnObject QAction],
     Bind [ValueM QTGUI_QICON] ''setWindowIcon'' [PConv QIcon] RVoid [Static QGuiApplication],
     Bind [ValueM QTGUI_QKEYSEQUENCE] ''shortcut'' [] (RValue QKeySequence) [OnObject QAction],
     Bind [EnumM ''QT_SHORTCUTCONTEXT''] ''shortcutContext'' [] (RMeta ''Qt::ShortcutContext'') [OnObject QAction],
     Bind [ValueM QTGUI_QKEYSEQUENCE] ''shortcuts'' [] (RList (IValue QKeySequence)) [OnObject QAction]]"

definition meth_qtgui_0_41 :: "binding list" where
  "meth_qtgui_0_41 = [
     Bind [] ''show'' [] RVoid [OnObject QInputMethod],
     Bind [TypeM QTCORE_QOBJECT] ''showStatusText'' [PNonNull QObject_ptr] RBool [OnObject QAction],
     Bind [ValueM QTCORE_QMODELINDEX] ''sibling'' [PInt, PInt, PConv QModelIndex] (RValue QModelIndex) [OnObject QFileSystemModel],
     Bind [ValueM QTCORE_QMODELINDEX] ''size'' [PConv QModelIndex] (RMeta ''qint64'') [OnObject QFileSystemModel],
     Bind [] ''smoothSizes'' [PString True, PString True] (RList (IMeta ''int'')) [Static QFontDatabase],
     Bind [EnumM ''QT_SORTORDER''] ''sort'' [PInt, PConv ''Qt::SortOrder''] RVoid [OnObject QFileSystemModel]]"

definition meth_qtgui_0_42 :: "binding list" where
  "meth_qtgui_0_42 = [
     Bind [TypeM QTCORE_QOBJECT] ''source'' [] RObject [OnObject ''QDrag''],
     Bind [] ''standardSizes'' [] (RList (IMeta ''int'')) [Static QFontDatabase],
     Bind [] ''statusTip'' [] RString [OnObject QAction],
     Bind [TypeM ''QTGUI_QSTYLEHINTS''] ''styleHints'' [] RObject [Static QGuiApplication],
     Bind [ValueM QTGUI_QFONT] ''styleString'' [PConv QFont] RString [Static QFontDatabase],
     Bind [ValueM ''QTGUI_QFONTINFO''] ''styleString'' [PConv ''QFontInfo''] RString [Static QFontDatabase],
     Bind [] ''styles'' [PString True] (RList (IMeta QString)) [Static QFontDatabase]]"

definition meth_qtgui_0_43 :: "binding list" where
  "meth_qtgui_0_43 = [
     Bind [] ''substitute'' [PString True] RString [Static QFont],
     Bind [] ''substitutes'' [PString True] (RList (IMeta QString)) [Static QFont],
     Bind [] ''substitutions'' [] (RList (IMeta QString)) [Static QFont],
     Bind [EnumM QT_DROPACTIONS] ''supportedActions'' [] (RMeta Qt_DropActions) [OnObject ''QDrag''],
     Bind [EnumM QT_DROPACTIONS] ''supportedDropActions'' [] (RMeta Qt_DropActions) [OnObject QFileSystemModel],
     Bind [ValueM QTCORE_QBYTEARRAY] ''supportedImageFormats'' [] (RList (IValue QByteArray)) [Static QImageReader, Static QImageWriter]]"

definition meth_qtgui_0_44 :: "binding list" where
  "meth_qtgui_0_44 = [
     Bind [ValueM QTCORE_QBYTEARRAY] ''supportedMimeTypes'' [] (RList (IValue QByteArray)) [Static QImageReader, Static QImageWriter],
     Bind [] ''supportsFindBuffer'' [] RBool [OnObject ''QClipboard''],
     Bind [] ''supportsSelection'' [] RBool [OnObject ''QClipboard''],
     Bind [] ''sync'' [] RVoid [Static QGuiApplication],
     Bind [TypeM ''QTGUI_QFONTDATABASE'', ValueM QTGUI_QFONT] ''systemFont'' [PConv ''QFontDatabase::SystemFont''] (RValue QFont) [Static QFontDatabase],
     Bind [] ''systemId'' [] (RMeta ''qint64'') [OnObject ''QInputDevice''],
     Bind [TypeM QTCORE_QOBJECT] ''target'' [] RObject [OnObject ''QDrag'']]"

definition meth_qtgui_0_45 :: "binding list" where
  "meth_qtgui_0_45 = [
     Bind [TypeM ''QTGUI_QFILESYSTEMMODEL''] ''testOption'' [PConv ''QFileSystemModel::Option''] RBool [OnObject QFileSystemModel],
     Bind [] ''text'' [] RString [OnObject QAction],
     Bind [TypeM ''QTGUI_QCLIPBOARD''] ''text'' [PConv ''QClipboard::Mode''] RString [OnObject ''QClipboard''],
     Bind [] ''themeName'' [] RString [Static QIcon],
     Bind [] ''themeSearchPaths'' [] (RList (IMeta QString)) [Static QIcon],
     Bind [TypeM QTGUI_QIMAGE, ValueM ''QTGUI_QPIXELFORMAT''] ''toImageFormat'' [PConv ''QPixelFormat''] (RMeta ''QImage::Format'') [Static QImage],
     Bind [TypeM QTGUI_QIMAGE, ValueM ''QTGUI_QPIXELFORMAT''] ''toPixelFormat'' [PConv ''QImage::Format''] (RValue ''QPixelFormat'') [Static QImage]]"

definition meth_qtgui_0_46 :: "binding list" where
  "meth_qtgui_0_46 = [
     Bind [] ''toggle'' [] RVoid [OnObject QAction],
     Bind [] ''toolTip'' [] RString [OnObject QAction],
     Bind [] ''top'' [] RNumber [OnObject ''QDoubleValidator''],
     Bind [] ''top'' [] RNumber [OnObject ''QIntValidator''],
     Bind [TypeM QTGUI_QWINDOW, ValueM QTCORE_QPOINT] ''topLevelAt'' [PConv QPoint] RObject [Static QGuiApplication],
     Bind [] ''trigger'' [] RVoid [OnObject QAction],
     Bind [ValueM QTGUI_QTRANSFORM] ''trueMatrix'' [PConv QTransform, PInt, PInt] (RValue QTransform) [Static QImage],
     Bind [TypeM QTGUI_QINPUTDEVICE] ''type'' [] (RMeta ''QInputDevice::DeviceType'') [OnObject ''QInputDevice'']]"

definition meth_qtgui_0_47 :: "binding list" where
  "meth_qtgui_0_47 = [
     Bind [ValueM QTCORE_QMODELINDEX] ''type'' [PConv QModelIndex] RString [OnObject QFileSystemModel],
     Bind [TypeM QTCORE_QOBJECT] ''unregisterHandler'' [PInt, PNonNull QObject_ptr] RVoid [OnObject QAbstractTextDocumentLayout],
     Bind [] ''unsetUrlHandler'' [PString True] RVoid [Static ''QDesktopServices''],
     Bind [EnumM ''QT_INPUTMETHODQUERIES''] ''update'' [PConv ''Qt::InputMethodQueries''] RVoid [OnObject QInputMethod],
     Bind [] ''weight'' [PString True, PString True] RNumber [Static QFontDatabase],
     Bind [] ''whatsThis'' [] RString [OnObject QAction],
     Bind [ValueM QTGUI_QICON] ''windowIcon'' [] (RValue QIcon) [Static QGuiApplication]]"

definition meth_qtgui_0_48 :: "binding list" where
  "meth_qtgui_0_48 = [
     Bind [TypeM ''QTGUI_QFONTDATABASE''] ''writingSystemName'' [PConv QFontDatabase_WritingSystem] RString [Static QFontDatabase],
     Bind [TypeM ''QTGUI_QFONTDATABASE''] ''writingSystemSample'' [PConv QFontDatabase_WritingSystem] RString [Static QFontDatabase],
     Bind [TypeM ''QTGUI_QFONTDATABASE''] ''writingSystems'' [] (RList (IMeta QFontDatabase_WritingSystem)) [Static QFontDatabase],
     Bind [TypeM ''QTGUI_QFONTDATABASE''] ''writingSystems'' [PString True] (RList (IMeta QFontDatabase_WritingSystem)) [Static QFontDatabase]]"

definition meth_qtgui_1_0 :: "binding list" where
  "meth_qtgui_1_0 = [
     Bind [TypeM ''QTGUI_QACCESSIBILITYHINTS''] ''accessibility'' [] RObject [OnObject QStyleHints],
     Bind [ValueM QTCORE_QBYTEARRAY] ''addFileAttachment'' [PString True, PConv QByteArray, PString True] RVoid [OnObject ''QPdfWriter''],
     Bind [] ''allowsErrorInteraction'' [] RBool [OnObject QSessionManager],
     Bind [] ''allowsInteraction'' [] RBool [OnObject QSessionManager],
     Bind [EnumM ''QT_SCREENORIENTATION''] ''angleBetween'' [PConv Qt_ScreenOrientation, PConv Qt_ScreenOrientation] RNumber [OnObject ''QScreen''],
     Bind [TypeM QTGUI_QOPENGLCONTEXT] ''areSharing'' [PNonNull ''QOpenGLContext*'', PNonNull ''QOpenGLContext*''] RBool [Static QOpenGLContext],
     Bind [] ''author'' [] RString [OnObject ''QPdfWriter'']]"

definition meth_qtgui_1_1 :: "binding list" where
  "meth_qtgui_1_1 = [
     Bind [] ''autoRepeat'' [] RBool [OnObject ''QShortcut''],
     Bind [ValueM QTCORE_QRECT] ''availableGeometry'' [] (RValue QRect) [OnObject ''QScreen''],
     Bind [ValueM QTCORE_QSIZE] ''availableSize'' [] (RValue QSize) [OnObject ''QScreen''],
     Bind [ValueM QTCORE_QRECT] ''availableVirtualGeometry'' [] (RValue QRect) [OnObject ''QScreen''],
     Bind [ValueM QTCORE_QSIZE] ''availableVirtualSize'' [] (RValue QSize) [OnObject ''QScreen''],
     Bind [ValueM QTGUI_QCOLOR] ''backgroundColor'' [] (RValue QColor) [OnObject ''QMovie''],
     Bind [] ''buttonCount'' [] RNumber [OnObject ''QPointingDevice''],
     Bind [] ''cacheLimit'' [] RNumber [Static ''QPixmapCache'']]"

definition meth_qtgui_1_2 :: "binding list" where
  "meth_qtgui_1_2 = [
     Bind [TypeM ''QTGUI_QMOVIE''] ''cacheMode'' [] (RMeta ''QMovie::CacheMode'') [OnObject ''QMovie''],
     Bind [] ''cancel'' [] RVoid [OnObject QSessionManager],
     Bind [] ''clear'' [] RVoid [OnObject QStandardItemModel],
     Bind [] ''clear'' [] RVoid [Static ''QPixmapCache''],
     Bind [ValueM QTCORE_QMODELINDEX] ''clearItemData'' [PConv QModelIndex] RBool [OnObject QStandardItemModel],
     Bind [TypeM ''QTGUI_QPDFWRITER''] ''colorModel'' [] (RMeta ''QPdfWriter::ColorModel'') [OnObject ''QPdfWriter''],
     Bind [EnumM ''QT_COLORSCHEME''] ''colorScheme'' [] (RMeta ''Qt::ColorScheme'') [OnObject QStyleHints],
     Bind [ValueM QTCORE_QMODELINDEX] ''columnCount'' [PConv QModelIndex] RNumber [OnObject QStandardItemModel]]"

definition meth_qtgui_1_3 :: "binding list" where
  "meth_qtgui_1_3 = [
     Bind [EnumM ''QT_SHORTCUTCONTEXT''] ''context'' [] (RMeta ''Qt::ShortcutContext'') [OnObject ''QShortcut''],
     Bind [EnumM ''QT_CONTEXTMENUTRIGGER''] ''contextMenuTrigger'' [] (RMeta ''Qt::ContextMenuTrigger'') [OnObject QStyleHints],
     Bind [] ''create'' [] RBool [OnObject QOpenGLContext],
     Bind [] ''create'' [] RVoid [OnObject ''QOffscreenSurface''],
     Bind [] ''creator'' [] RString [OnObject ''QPdfWriter''],
     Bind [TypeM QTGUI_QOPENGLCONTEXT] ''currentContext'' [] RObject [Static QOpenGLContext],
     Bind [TypeM ''QTGUI_QOPENGLCONTEXTGROUP''] ''currentContextGroup'' [] RObject [Static ''QOpenGLContextGroup''],
     Bind [] ''currentFrameNumber'' [] RNumber [OnObject ''QMovie'']]"

definition meth_qtgui_1_4 :: "binding list" where
  "meth_qtgui_1_4 = [
     Bind [ValueM QTGUI_QIMAGE] ''currentImage'' [] (RValue QImage) [OnObject ''QMovie''],
     Bind [ValueM QTGUI_QPIXMAP] ''currentPixmap'' [] (RValue QPixmap) [OnObject ''QMovie''],
     Bind [] ''cursorFlashTime'' [] RNumber [OnObject QStyleHints],
     Bind [ValueM QTCORE_QMODELINDEX] ''data'' [PConv QModelIndex, PInt] RVariant [OnObject QStandardItemModel],
     Bind [] ''defaultDepth'' [] RNumber [Static QPixmap],
     Bind [ValueM QTGUI_QSURFACEFORMAT] ''defaultFormat'' [] (RValue QSurfaceFormat) [Static QSurfaceFormat],
     Bind [TypeM QTGUI_QPAGESIZE, ValueM QTCORE_QSIZEF] ''definitionSize'' [PConv QPageSize_PageSizeId] (RValue QSizeF) [Static QPageSize]]"

definition meth_qtgui_1_5 :: "binding list" where
  "meth_qtgui_1_5 = [
     Bind [TypeM QTGUI_QPAGESIZE] ''definitionUnits'' [PConv QPageSize_PageSizeId] (RMeta ''QPageSize::Unit'') [Static QPageSize],
     Bind [] ''depth'' [] RNumber [OnObject ''QScreen''],
     Bind [] ''destroy'' [] RVoid [OnObject ''QOffscreenSurface''],
     Bind [TypeM QTCORE_QIODEVICE] ''device'' [] RObject [OnObject ''QMovie''],
     Bind [] ''devicePixelRatio'' [] RNumber [OnObject ''QScreen''],
     Bind [] ''devicePixelRatioFScale'' [] RNumber [Static ''QPaintDevice''],
     Bind [] ''discardCommand'' [] (RList (IMeta QString)) [OnObject QSessionManager],
     Bind [TypeM QTGUI_QTEXTDOCUMENT] ''document'' [] RObject [OnObject ''QSyntaxHighlighter'']]"

definition meth_qtgui_1_6 :: "binding list" where
  "meth_qtgui_1_6 = [
     Bind [ValueM ''QTCORE_QUUID''] ''documentId'' [] (RValue ''QUuid'') [OnObject ''QPdfWriter''],
     Bind [ValueM QTCORE_QBYTEARRAY] ''documentXmpMetadata'' [] (RValue QByteArray) [OnObject ''QPdfWriter''],
     Bind [] ''doneCurrent'' [] RVoid [OnObject QOpenGLContext],
     Bind [ValueM QTGUI_QQUATERNION] ''dotProduct'' [PConv QQuaternion, PConv QQuaternion] RNumber [Static QQuaternion],
     Bind [EnumM QT_DROPACTION, TypeM QTCORE_QMIMEDATA, ValueM QTCORE_QMODELINDEX] ''dropMimeData'' [PNonNull ''QMimeData*'', PConv Qt_DropAction, PInt, PInt, PConv QModelIndex] RBool [OnObject QStandardItemModel],
     Bind [] ''fileName'' [] RString [OnObject ''QMovie''],
     Bind [] ''fontSmoothingGamma'' [] RNumber [OnObject QStyleHints]]"

definition meth_qtgui_1_7 :: "binding list" where
  "meth_qtgui_1_7 = [
     Bind [ValueM QTCORE_QBYTEARRAY] ''format'' [] (RValue QByteArray) [OnObject ''QMovie''],
     Bind [ValueM QTGUI_QSURFACEFORMAT] ''format'' [] (RValue QSurfaceFormat) [OnObject ''QOffscreenSurface'', OnObject QOpenGLContext],
     Bind [] ''frameCount'' [] RNumber [OnObject ''QMovie''],
     Bind [ValueM QTCORE_QRECT] ''frameRect'' [] (RValue QRect) [OnObject ''QMovie''],
     Bind [ValueM ''QTGUI_QRGBA64''] ''fromArgb32'' [PUInt] (RValue ''QRgba64'') [Static ''QRgba64''],
     Bind [TypeM QTGUI_QQUATERNION, ValueM QTGUI_QQUATERNION] ''fromAxes'' [PConv ''QQuaternion::Axes''] (RValue QQuaternion) [Static QQuaternion]]"

definition meth_qtgui_1_8 :: "binding list" where
  "meth_qtgui_1_8 = [
     Bind [ValueM QTGUI_QQUATERNION, ValueM QTGUI_QVECTOR3D] ''fromAxes'' [PConv QVector3D, PConv QVector3D, PConv QVector3D] (RValue QQuaternion) [Static QQuaternion],
     Bind [ValueM QTGUI_QQUATERNION, ValueM QTGUI_QVECTOR3D] ''fromAxisAndAngle'' [PConv QVector3D, PReal ''float''] (RValue QQuaternion) [Static QQuaternion],
     Bind [ValueM QTGUI_QQUATERNION] ''fromAxisAndAngle'' [PReal ''float'', PReal ''float'', PReal ''float'', PReal ''float''] (RValue QQuaternion) [Static QQuaternion],
     Bind [ValueM QTGUI_QQUATERNION, ValueM QTGUI_QVECTOR3D] ''fromDirection'' [PConv QVector3D, PConv QVector3D] (RValue QQuaternion) [Static QQuaternion],
     Bind [ValueM QTGUI_QQUATERNION, ValueM QTGUI_QVECTOR3D] ''fromEulerAngles'' [PConv QVector3D] (RValue QQuaternion) [Static QQuaternion]]"

definition meth_qtgui_1_9 :: "binding list" where
  "meth_qtgui_1_9 = [
     Bind [ValueM QTGUI_QQUATERNION] ''fromEulerAngles'' [PReal ''float'', PReal ''float'', PReal ''float''] (RValue QQuaternion) [Static QQuaternion],
     Bind [TypeM ''QTGUI_QFONTDATABASE'', ValueM QTGUI_QFONT, ValueM ''QTGUI_QRAWFONT''] ''fromFont'' [PConv QFont, PConv QFontDatabase_WritingSystem] (RValue QRawFont) [Static QRawFont],
     Bind [ValueM ''QTGUI_QPOINTINGDEVICEUNIQUEID''] ''fromNumericId'' [PWide ''qint64''] (RValue QPointingDeviceUniqueId) [Static QPointingDeviceUniqueId],
     Bind [ValueM ''QTGUI_QRGBA64''] ''fromRgba64'' [PWide ''quint64''] (RValue ''QRgba64'') [Static ''QRgba64''],
     Bind [ValueM ''QTGUI_QMATRIX3X3'', ValueM QTGUI_QQUATERNION] ''fromRotationMatrix'' [PConv ''QMatrix3x3''] (RValue QQuaternion) [Static QQuaternion],
     Bind [ValueM ''QTGUI_QPAGERANGES''] ''fromString'' [PString True] (RValue QPageRanges) [Static QPageRanges]]"

definition meth_qtgui_1_10 :: "binding list" where
  "meth_qtgui_1_10 = [
     Bind [ValueM QTCORE_QRECT] ''geometry'' [] (RValue QRect) [OnObject ''QScreen''],
     Bind [TypeM QTGUI_QOPENGLCONTEXT] ''globalShareContext'' [] RObject [Static QOpenGLContext],
     Bind [ValueM QTCORE_QMODELINDEX] ''hasChildren'' [PConv QModelIndex] RBool [OnObject QStandardItemModel],
     Bind [ValueM QTCORE_QBYTEARRAY] ''hasExtension'' [PConv QByteArray] RBool [OnObject QOpenGLContext],
     Bind [EnumM QT_ORIENTATION] ''headerData'' [PInt, PConv Qt_Orientation, PInt] RVariant [OnObject QStandardItemModel],
     Bind [TypeM QTGUI_QPAGESIZE, ValueM QTCORE_QSIZE] ''id'' [PConv QSize, PConv ''QPageSize::SizeMatchPolicy''] (RMeta QPageSize_PageSizeId) [Static QPageSize]]"

definition meth_qtgui_1_11 :: "binding list" where
  "meth_qtgui_1_11 = [
     Bind [TypeM QTGUI_QPAGESIZE, ValueM QTCORE_QSIZEF] ''id'' [PConv QSizeF, PConv ''QPageSize::Unit'', PConv ''QPageSize::SizeMatchPolicy''] (RMeta QPageSize_PageSizeId) [Static QPageSize],
     Bind [TypeM QTGUI_QPAGESIZE] ''id'' [PInt] (RMeta QPageSize_PageSizeId) [Static QPageSize],
     Bind [ValueM QTCORE_QMODELINDEX] ''index'' [PInt, PInt, PConv QModelIndex] (RValue QModelIndex) [OnObject QStandardItemModel],
     Bind [TypeM ''QTGUI_QPIXMAPCACHE'', ValueM QTGUI_QPIXMAP] ''insert'' [PConv QPixmap] (RMeta ''QPixmapCache::Key'') [Static ''QPixmapCache''],
     Bind [ValueM QTGUI_QPIXMAP] ''insert'' [PString True, PConv QPixmap] RBool [Static ''QPixmapCache''],
     Bind [ValueM QTCORE_QMODELINDEX] ''insertColumn'' [PInt, PConv QModelIndex] RBool [OnObject QStandardItemModel]]"

definition meth_qtgui_1_12 :: "binding list" where
  "meth_qtgui_1_12 = [
     Bind [ValueM QTCORE_QMODELINDEX] ''insertColumns'' [PInt, PInt, PConv QModelIndex] RBool [OnObject QStandardItemModel],
     Bind [ValueM QTCORE_QMODELINDEX] ''insertRow'' [PInt, PConv QModelIndex] RBool [OnObject QStandardItemModel],
     Bind [ValueM QTCORE_QMODELINDEX] ''insertRows'' [PInt, PInt, PConv QModelIndex] RBool [OnObject QStandardItemModel],
     Bind [] ''isEnabled'' [] RBool [OnObject ''QShortcut''],
     Bind [EnumM ''QT_SCREENORIENTATION''] ''isLandscape'' [PConv Qt_ScreenOrientation] RBool [OnObject ''QScreen''],
     Bind [] ''isOpenGLES'' [] RBool [OnObject QOpenGLContext],
     Bind [] ''isPhase2'' [] RBool [OnObject QSessionManager]]"

definition meth_qtgui_1_13 :: "binding list" where
  "meth_qtgui_1_13 = [
     Bind [EnumM ''QT_SCREENORIENTATION''] ''isPortrait'' [PConv Qt_ScreenOrientation] RBool [OnObject ''QScreen''],
     Bind [] ''isValid'' [] RBool [OnObject ''QMovie'', OnObject ''QOffscreenSurface'', OnObject QOpenGLContext],
     Bind [] ''jumpToFrame'' [PInt] RBool [OnObject ''QMovie''],
     Bind [] ''jumpToNextFrame'' [] RBool [OnObject ''QMovie''],
     Bind [ValueM QTGUI_QKEYSEQUENCE] ''key'' [] (RValue QKeySequence) [OnObject ''QShortcut''],
     Bind [TypeM QTGUI_QPAGESIZE] ''key'' [PConv QPageSize_PageSizeId] RString [Static QPageSize],
     Bind [] ''keyboardAutoRepeatRate'' [] RNumber [OnObject QStyleHints]]"

definition meth_qtgui_1_14 :: "binding list" where
  "meth_qtgui_1_14 = [
     Bind [] ''keyboardAutoRepeatRateF'' [] RNumber [OnObject QStyleHints],
     Bind [] ''keyboardInputInterval'' [] RNumber [OnObject QStyleHints],
     Bind [ValueM QTGUI_QKEYSEQUENCE] ''keys'' [] (RList (IValue QKeySequence)) [OnObject ''QShortcut''],
     Bind [TypeM ''QTGUI_QIMAGEREADER''] ''lastError'' [] (RMeta ''QImageReader::ImageReaderError'') [OnObject ''QMovie''],
     Bind [] ''lastErrorString'' [] RString [OnObject ''QMovie''],
     Bind [] ''logicalDotsPerInch'' [] RNumber [OnObject ''QScreen''],
     Bind [] ''logicalDotsPerInchX'' [] RNumber [OnObject ''QScreen''],
     Bind [] ''logicalDotsPerInchY'' [] RNumber [OnObject ''QScreen'']]"

definition meth_qtgui_1_15 :: "binding list" where
  "meth_qtgui_1_15 = [
     Bind [] ''loopCount'' [] RNumber [OnObject ''QMovie''],
     Bind [] ''manufacturer'' [] RString [OnObject ''QScreen''],
     Bind [EnumM ''QT_SCREENORIENTATION'', ValueM QTCORE_QRECT] ''mapBetween'' [PConv Qt_ScreenOrientation, PConv Qt_ScreenOrientation, PConv QRect] (RValue QRect) [OnObject ''QScreen''],
     Bind [] ''maximumPoints'' [] RNumber [OnObject ''QPointingDevice''],
     Bind [] ''menuSelectionWraps'' [] RBool [OnObject QStyleHints],
     Bind [] ''mimeTypes'' [] (RList (IMeta QString)) [OnObject QStandardItemModel],
     Bind [] ''model'' [] RString [OnObject ''QScreen''],
     Bind [] ''mouseDoubleClickDistance'' [] RNumber [OnObject QStyleHints]]"

definition meth_qtgui_1_16 :: "binding list" where
  "meth_qtgui_1_16 = [
     Bind [] ''mouseDoubleClickInterval'' [] RNumber [OnObject QStyleHints],
     Bind [] ''mousePressAndHoldInterval'' [] RNumber [OnObject QStyleHints],
     Bind [] ''mouseQuickSelectionThreshold'' [] RNumber [OnObject QStyleHints],
     Bind [] ''name'' [] RString [OnObject ''QScreen''],
     Bind [TypeM QTGUI_QPAGESIZE] ''name'' [PConv QPageSize_PageSizeId] RString [Static QPageSize],
     Bind [EnumM ''QT_SCREENORIENTATION''] ''nativeOrientation'' [] (RMeta Qt_ScreenOrientation) [OnObject ''QScreen''],
     Bind [] ''newPage'' [] RBool [OnObject ''QPdfWriter''],
     Bind [] ''nextFrameDelay'' [] RNumber [OnObject ''QMovie'']]"

definition meth_qtgui_1_17 :: "binding list" where
  "meth_qtgui_1_17 = [
     Bind [ValueM QTGUI_QQUATERNION] ''nlerp'' [PConv QQuaternion, PConv QQuaternion, PReal ''float''] (RValue QQuaternion) [Static QQuaternion],
     Bind [TypeM QTGUI_QOPENGLCONTEXT] ''openGLModuleType'' [] (RMeta ''QOpenGLContext::OpenGLModuleType'') [Static QOpenGLContext],
     Bind [EnumM ''QT_SCREENORIENTATION''] ''orientation'' [] (RMeta Qt_ScreenOrientation) [OnObject ''QScreen''],
     Bind [ValueM ''QTGUI_QPDFOUTPUTINTENT''] ''outputIntent'' [] (RValue QPdfOutputIntent) [OnObject ''QPdfWriter''],
     Bind [TypeM QTCORE_QOBJECT] ''parent'' [] RObject [OnObject QStandardItemModel],
     Bind [ValueM QTCORE_QMODELINDEX] ''parent'' [PConv QModelIndex] (RValue QModelIndex) [OnObject QStandardItemModel],
     Bind [] ''passwordMaskDelay'' [] RNumber [OnObject QStyleHints]]"

definition meth_qtgui_1_18 :: "binding list" where
  "meth_qtgui_1_18 = [
     Bind [TypeM ''QTGUI_QPAGEDPAINTDEVICE''] ''pdfVersion'' [] (RMeta ''QPagedPaintDevice::PdfVersion'') [OnObject ''QPdfWriter''],
     Bind [] ''physicalDotsPerInch'' [] RNumber [OnObject ''QScreen''],
     Bind [] ''physicalDotsPerInchX'' [] RNumber [OnObject ''QScreen''],
     Bind [] ''physicalDotsPerInchY'' [] RNumber [OnObject ''QScreen''],
     Bind [ValueM QTCORE_QSIZEF] ''physicalSize'' [] (RValue QSizeF) [OnObject ''QScreen''],
     Bind [TypeM QTGUI_QPOINTINGDEVICE] ''pointerType'' [] (RMeta ''QPointingDevice::PointerType'') [OnObject ''QPointingDevice''],
     Bind [EnumM ''QT_SCREENORIENTATION''] ''primaryOrientation'' [] (RMeta Qt_ScreenOrientation) [OnObject ''QScreen''],
     Bind [TypeM QTGUI_QPOINTINGDEVICE] ''primaryPointingDevice'' [PString True] RObject [Static ''QPointingDevice'']]"

definition meth_qtgui_1_19 :: "binding list" where
  "meth_qtgui_1_19 = [
     Bind [] ''refreshRate'' [] RNumber [OnObject ''QScreen''],
     Bind [ValueM QTCORE_QREGULAREXPRESSION] ''regularExpression'' [] (RValue QRegularExpression) [OnObject ''QRegularExpressionValidator''],
     Bind [] ''rehighlight'' [] RVoid [OnObject ''QSyntaxHighlighter''],
     Bind [ValueM QTGUI_QTEXTBLOCK] ''rehighlightBlock'' [PConv QTextBlock] RVoid [OnObject ''QSyntaxHighlighter''],
     Bind [] ''release'' [] RVoid [OnObject QSessionManager],
     Bind [TypeM ''QTGUI_QPIXMAPCACHE''] ''remove'' [PConv ''QPixmapCache::Key''] RVoid [Static ''QPixmapCache''],
     Bind [] ''remove'' [PString True] RVoid [Static ''QPixmapCache'']]"

definition meth_qtgui_1_20 :: "binding list" where
  "meth_qtgui_1_20 = [
     Bind [ValueM QTCORE_QMODELINDEX] ''removeColumns'' [PInt, PInt, PConv QModelIndex] RBool [OnObject QStandardItemModel],
     Bind [ValueM QTCORE_QMODELINDEX] ''removeRows'' [PInt, PInt, PConv QModelIndex] RBool [OnObject QStandardItemModel],
     Bind [TypeM ''QTGUI_QPIXMAPCACHE'', ValueM QTGUI_QPIXMAP] ''replace'' [PConv ''QPixmapCache::Key'', PConv QPixmap] RBool [Static ''QPixmapCache''],
     Bind [] ''requestPhase2'' [] RVoid [OnObject QSessionManager],
     Bind [ValueM QTGUI_QSURFACEFORMAT] ''requestedFormat'' [] (RValue QSurfaceFormat) [OnObject ''QOffscreenSurface''],
     Bind [] ''resolution'' [] RNumber [OnObject ''QPdfWriter'']]"

definition meth_qtgui_1_21 :: "binding list" where
  "meth_qtgui_1_21 = [
     Bind [] ''restartCommand'' [] (RList (IMeta QString)) [OnObject QSessionManager],
     Bind [TypeM ''QTGUI_QSESSIONMANAGER''] ''restartHint'' [] (RMeta ''QSessionManager::RestartHint'') [OnObject QSessionManager],
     Bind [ValueM QTGUI_QQUATERNION, ValueM QTGUI_QVECTOR3D] ''rotationTo'' [PConv QVector3D, PConv QVector3D] (RValue QQuaternion) [Static QQuaternion],
     Bind [ValueM QTCORE_QMODELINDEX] ''rowCount'' [PConv QModelIndex] RNumber [OnObject QStandardItemModel],
     Bind [ValueM QTCORE_QSIZE] ''scaledSize'' [] (RValue QSize) [OnObject ''QMovie''],
     Bind [TypeM QTGUI_QSCREEN] ''screen'' [] RObject [OnObject ''QOffscreenSurface'', OnObject QOpenGLContext],
     Bind [] ''serialNumber'' [] RString [OnObject ''QScreen'']]"

definition meth_qtgui_1_22 :: "binding list" where
  "meth_qtgui_1_22 = [
     Bind [] ''sessionId'' [] RString [OnObject QSessionManager],
     Bind [] ''sessionKey'' [] RString [OnObject QSessionManager],
     Bind [] ''setAuthor'' [PString True] RVoid [OnObject ''QPdfWriter''],
     Bind [] ''setAutoRepeat'' [PBool] RVoid [OnObject ''QShortcut''],
     Bind [ValueM QTGUI_QCOLOR] ''setBackgroundColor'' [PConv QColor] RVoid [OnObject ''QMovie''],
     Bind [] ''setCacheLimit'' [PInt] RVoid [Static ''QPixmapCache''],
     Bind [TypeM ''QTGUI_QMOVIE''] ''setCacheMode'' [PConv ''QMovie::CacheMode''] RVoid [OnObject ''QMovie'']]"

definition meth_qtgui_1_23 :: "binding list" where
  "meth_qtgui_1_23 = [
     Bind [TypeM ''QTGUI_QPDFWRITER''] ''setColorModel'' [PConv ''QPdfWriter::ColorModel''] RVoid [OnObject ''QPdfWriter''],
     Bind [EnumM ''QT_COLORSCHEME''] ''setColorScheme'' [PConv ''Qt::ColorScheme''] RVoid [OnObject QStyleHints],
     Bind [] ''setColumnCount'' [PInt] RVoid [OnObject QStandardItemModel],
     Bind [EnumM ''QT_SHORTCUTCONTEXT''] ''setContext'' [PConv ''Qt::ShortcutContext''] RVoid [OnObject ''QShortcut''],
     Bind [EnumM ''QT_CONTEXTMENUTRIGGER''] ''setContextMenuTrigger'' [PConv ''Qt::ContextMenuTrigger''] RVoid [OnObject QStyleHints],
     Bind [] ''setCreator'' [PString True] RVoid [OnObject ''QPdfWriter'']]"

definition meth_qtgui_1_24 :: "binding list" where
  "meth_qtgui_1_24 = [
     Bind [ValueM QTCORE_QMODELINDEX] ''setData'' [PConv QModelIndex, PVariant, PInt] RBool [OnObject QStandardItemModel],
     Bind [ValueM QTGUI_QSURFACEFORMAT] ''setDefaultFormat'' [PConv QSurfaceFormat] RVoid [Static QSurfaceFormat],
     Bind [TypeM QTCORE_QIODEVICE] ''setDevice'' [PNonNull QIODevice_ptr] RVoid [OnObject ''QMovie''],
     Bind [] ''setDiscardCommand'' [PStringList] RVoid [OnObject QSessionManager],
     Bind [TypeM QTGUI_QTEXTDOCUMENT] ''setDocument'' [PNonNull QTextDocument_ptr] RVoid [OnObject ''QSyntaxHighlighter''],
     Bind [ValueM ''QTCORE_QUUID''] ''setDocumentId'' [PConv ''QUuid''] RVoid [OnObject ''QPdfWriter'']]"

definition meth_qtgui_1_25 :: "binding list" where
  "meth_qtgui_1_25 = [
     Bind [ValueM QTCORE_QBYTEARRAY] ''setDocumentXmpMetadata'' [PConv QByteArray] RVoid [OnObject ''QPdfWriter''],
     Bind [] ''setEnabled'' [PBool] RVoid [OnObject ''QShortcut''],
     Bind [] ''setFileName'' [PString True] RVoid [OnObject ''QMovie''],
     Bind [] ''setFocusOnTouchRelease'' [] RBool [OnObject QStyleHints],
     Bind [ValueM QTCORE_QBYTEARRAY] ''setFormat'' [PConv QByteArray] RVoid [OnObject ''QMovie''],
     Bind [ValueM QTGUI_QSURFACEFORMAT] ''setFormat'' [PConv QSurfaceFormat] RVoid [OnObject ''QOffscreenSurface'', OnObject QOpenGLContext]]"

definition meth_qtgui_1_26 :: "binding list" where
  "meth_qtgui_1_26 = [
     Bind [EnumM QT_ORIENTATION] ''setHeaderData'' [PInt, PConv Qt_Orientation, PVariant, PInt] RBool [OnObject QStandardItemModel],
     Bind [] ''setHorizontalHeaderLabels'' [PStringList] RVoid [OnObject QStandardItemModel],
     Bind [ValueM QTGUI_QKEYSEQUENCE] ''setKey'' [PConv QKeySequence] RVoid [OnObject ''QShortcut''],
     Bind [TypeM QTGUI_QKEYSEQUENCE] ''setKeys'' [PConv ''QKeySequence::StandardKey''] RVoid [OnObject ''QShortcut''],
     Bind [ValueM QTGUI_QKEYSEQUENCE] ''setKeys'' [PListV QKeySequence] RVoid [OnObject ''QShortcut''],
     Bind [] ''setManagerProperty'' [PString True, PString True] RVoid [OnObject QSessionManager]]"

definition meth_qtgui_1_27 :: "binding list" where
  "meth_qtgui_1_27 = [
     Bind [] ''setManagerProperty'' [PString True, PStringList] RVoid [OnObject QSessionManager],
     Bind [ValueM ''QTGUI_QPDFOUTPUTINTENT''] ''setOutputIntent'' [PConv QPdfOutputIntent] RVoid [OnObject ''QPdfWriter''],
     Bind [] ''setPaused'' [PBool] RVoid [OnObject ''QMovie''],
     Bind [TypeM ''QTGUI_QPAGEDPAINTDEVICE''] ''setPdfVersion'' [PConv ''QPagedPaintDevice::PdfVersion''] RVoid [OnObject ''QPdfWriter''],
     Bind [ValueM QTCORE_QREGULAREXPRESSION] ''setRegularExpression'' [PConv QRegularExpression] RVoid [OnObject ''QRegularExpressionValidator''],
     Bind [] ''setResolution'' [PInt] RVoid [OnObject ''QPdfWriter'']]"

definition meth_qtgui_1_28 :: "binding list" where
  "meth_qtgui_1_28 = [
     Bind [] ''setRestartCommand'' [PStringList] RVoid [OnObject QSessionManager],
     Bind [TypeM ''QTGUI_QSESSIONMANAGER''] ''setRestartHint'' [PConv ''QSessionManager::RestartHint''] RVoid [OnObject QSessionManager],
     Bind [] ''setRowCount'' [PInt] RVoid [OnObject QStandardItemModel],
     Bind [ValueM QTCORE_QSIZE] ''setScaledSize'' [PConv QSize] RVoid [OnObject ''QMovie''],
     Bind [TypeM QTGUI_QSCREEN] ''setScreen'' [PNonNull ''QScreen*''] RVoid [OnObject ''QOffscreenSurface'', OnObject QOpenGLContext],
     Bind [TypeM QTGUI_QOPENGLCONTEXT] ''setShareContext'' [PNonNull ''QOpenGLContext*''] RVoid [OnObject QOpenGLContext]]"

definition meth_qtgui_1_29 :: "binding list" where
  "meth_qtgui_1_29 = [
     Bind [] ''setShowShortcutsInContextMenus'' [PBool] RVoid [OnObject QStyleHints],
     Bind [] ''setSortRole'' [PInt] RVoid [OnObject QStandardItemModel],
     Bind [] ''setSpeed'' [PInt] RVoid [OnObject ''QMovie''],
     Bind [] ''setTitle'' [PString True] RVoid [OnObject ''QPdfWriter''],
     Bind [] ''setUseHoverEffects'' [PBool] RVoid [OnObject QStyleHints],
     Bind [] ''setVerticalHeaderLabels'' [PStringList] RVoid [OnObject QStandardItemModel],
     Bind [] ''setWhatsThis'' [PString True] RVoid [OnObject ''QShortcut'']]"

definition meth_qtgui_1_30 :: "binding list" where
  "meth_qtgui_1_30 = [
     Bind [TypeM QTGUI_QOPENGLCONTEXT] ''shareContext'' [] RObject [OnObject QOpenGLContext],
     Bind [TypeM ''QTGUI_QOPENGLCONTEXTGROUP''] ''shareGroup'' [] RObject [OnObject QOpenGLContext],
     Bind [TypeM QTGUI_QOPENGLCONTEXT] ''shares'' [] (RList IObject) [OnObject ''QOpenGLContextGroup''],
     Bind [] ''showIsFullScreen'' [] RBool [OnObject QStyleHints],
     Bind [] ''showIsMaximized'' [] RBool [OnObject QStyleHints],
     Bind [] ''showShortcutsInContextMenus'' [] RBool [OnObject QStyleHints],
     Bind [] ''singleClickActivation'' [] RBool [OnObject QStyleHints],
     Bind [ValueM QTCORE_QSIZE] ''size'' [] (RValue QSize) [OnObject ''QOffscreenSurface'', OnObject ''QScreen'']]"

definition meth_qtgui_1_31 :: "binding list" where
  "meth_qtgui_1_31 = [
     Bind [TypeM QTGUI_QPAGESIZE, ValueM QTCORE_QSIZEF] ''size'' [PConv QPageSize_PageSizeId, PConv ''QPageSize::Unit''] (RValue QSizeF) [Static QPageSize],
     Bind [TypeM QTGUI_QPAGESIZE, ValueM QTCORE_QSIZE] ''sizePixels'' [PConv QPageSize_PageSizeId, PInt] (RValue QSize) [Static QPageSize],
     Bind [TypeM QTGUI_QPAGESIZE, ValueM QTCORE_QSIZE] ''sizePoints'' [PConv QPageSize_PageSizeId] (RValue QSize) [Static QPageSize],
     Bind [ValueM QTGUI_QQUATERNION] ''slerp'' [PConv QQuaternion, PConv QQuaternion, PReal ''float''] (RValue QQuaternion) [Static QQuaternion],
     Bind [EnumM ''QT_SORTORDER''] ''sort'' [PInt, PConv ''Qt::SortOrder''] RVoid [OnObject QStandardItemModel],
     Bind [] ''sortRole'' [] RNumber [OnObject QStandardItemModel]]"

definition meth_qtgui_1_32 :: "binding list" where
  "meth_qtgui_1_32 = [
     Bind [] ''speed'' [] RNumber [OnObject ''QMovie''],
     Bind [] ''start'' [] RVoid [OnObject ''QMovie''],
     Bind [] ''startDragDistance'' [] RNumber [OnObject QStyleHints],
     Bind [] ''startDragTime'' [] RNumber [OnObject QStyleHints],
     Bind [] ''startDragVelocity'' [] RNumber [OnObject QStyleHints],
     Bind [TypeM ''QTGUI_QMOVIE''] ''state'' [] (RMeta ''QMovie::MovieState'') [OnObject ''QMovie''],
     Bind [] ''stop'' [] RVoid [OnObject ''QMovie''],
     Bind [EnumM QT_DROPACTIONS] ''supportedDropActions'' [] (RMeta Qt_DropActions) [OnObject QStandardItemModel]]"

definition meth_qtgui_1_33 :: "binding list" where
  "meth_qtgui_1_33 = [
     Bind [ValueM QTCORE_QBYTEARRAY] ''supportedFormats'' [] (RList (IValue QByteArray)) [Static ''QMovie''],
     Bind [] ''supportsThreadedOpenGL'' [] RBool [Static QOpenGLContext],
     Bind [TypeM ''QTGUI_QSURFACE''] ''surfaceType'' [] (RMeta ''QSurface::SurfaceType'') [OnObject ''QOffscreenSurface''],
     Bind [EnumM ''QT_TABFOCUSBEHAVIOR''] ''tabFocusBehavior'' [] (RMeta ''Qt::TabFocusBehavior'') [OnObject QStyleHints],
     Bind [] ''title'' [] RString [OnObject ''QPdfWriter''],
     Bind [] ''touchDoubleTapDistance'' [] RNumber [OnObject QStyleHints],
     Bind [EnumM ''QT_SCREENORIENTATION'', ValueM QTCORE_QRECT, ValueM QTGUI_QTRANSFORM] ''transformBetween'' [PConv Qt_ScreenOrientation, PConv Qt_ScreenOrientation, PConv QRect] (RValue QTransform) [OnObject ''QScreen'']]"

definition meth_qtgui_1_34 :: "binding list" where
  "meth_qtgui_1_34 = [
     Bind [ValueM QTGUI_QTRANSFORM] ''trueMatrix'' [PConv QTransform, PInt, PInt] (RValue QTransform) [Static QPixmap],
     Bind [ValueM ''QTGUI_QPOINTINGDEVICEUNIQUEID''] ''uniqueId'' [] (RValue QPointingDeviceUniqueId) [OnObject ''QPointingDevice''],
     Bind [] ''unsetColorScheme'' [] RVoid [OnObject QStyleHints],
     Bind [] ''update'' [] RVoid [OnObject ''QPaintDeviceWindow''],
     Bind [ValueM QTCORE_QRECT] ''update'' [PConv QRect] RVoid [OnObject ''QPaintDeviceWindow''],
     Bind [ValueM QTGUI_QREGION] ''update'' [PConv QRegion] RVoid [OnObject ''QPaintDeviceWindow''],
     Bind [] ''useHoverEffects'' [] RBool [OnObject QStyleHints]]"

definition meth_qtgui_1_35 :: "binding list" where
  "meth_qtgui_1_35 = [
     Bind [] ''useRtlExtensions'' [] RBool [OnObject QStyleHints],
     Bind [ValueM QTCORE_QRECT] ''virtualGeometry'' [] (RValue QRect) [OnObject ''QScreen''],
     Bind [TypeM QTGUI_QSCREEN, ValueM QTCORE_QPOINT] ''virtualSiblingAt'' [PConv QPoint] RObject [OnObject ''QScreen''],
     Bind [TypeM QTGUI_QSCREEN] ''virtualSiblings'' [] (RList IObject) [OnObject ''QScreen''],
     Bind [ValueM QTCORE_QSIZE] ''virtualSize'' [] (RValue QSize) [OnObject ''QScreen''],
     Bind [] ''whatsThis'' [] RString [OnObject ''QShortcut''],
     Bind [] ''wheelScrollLines'' [] RNumber [OnObject QStyleHints]]"

definition meth_qtgui_1_36 :: "binding list" where
  "meth_qtgui_1_36 = [
     Bind [TypeM QTGUI_QPAGESIZE] ''windowsId'' [PConv QPageSize_PageSizeId] RNumber [Static QPageSize]]"

definition meth_table_gui_a :: "(string \<times> shard) list" where
  "meth_table_gui_a = [
     (''qtgui_0'', \<lparr>sh_module = ''QtGui'', sh_slug = ''QTGUI'',
        sh_bindings = concat [meth_qtgui_0_0, meth_qtgui_0_1, meth_qtgui_0_2, meth_qtgui_0_3, meth_qtgui_0_4, meth_qtgui_0_5, meth_qtgui_0_6, meth_qtgui_0_7, meth_qtgui_0_8, meth_qtgui_0_9, meth_qtgui_0_10, meth_qtgui_0_11, meth_qtgui_0_12, meth_qtgui_0_13, meth_qtgui_0_14, meth_qtgui_0_15, meth_qtgui_0_16, meth_qtgui_0_17, meth_qtgui_0_18, meth_qtgui_0_19, meth_qtgui_0_20, meth_qtgui_0_21, meth_qtgui_0_22, meth_qtgui_0_23, meth_qtgui_0_24, meth_qtgui_0_25, meth_qtgui_0_26, meth_qtgui_0_27, meth_qtgui_0_28, meth_qtgui_0_29, meth_qtgui_0_30, meth_qtgui_0_31, meth_qtgui_0_32, meth_qtgui_0_33, meth_qtgui_0_34, meth_qtgui_0_35, meth_qtgui_0_36, meth_qtgui_0_37, meth_qtgui_0_38, meth_qtgui_0_39, meth_qtgui_0_40, meth_qtgui_0_41, meth_qtgui_0_42, meth_qtgui_0_43, meth_qtgui_0_44, meth_qtgui_0_45, meth_qtgui_0_46, meth_qtgui_0_47, meth_qtgui_0_48]\<rparr>),
     (''qtgui_1'', \<lparr>sh_module = ''QtGui'', sh_slug = ''QTGUI'',
        sh_bindings = concat [meth_qtgui_1_0, meth_qtgui_1_1, meth_qtgui_1_2, meth_qtgui_1_3, meth_qtgui_1_4, meth_qtgui_1_5, meth_qtgui_1_6, meth_qtgui_1_7, meth_qtgui_1_8, meth_qtgui_1_9, meth_qtgui_1_10, meth_qtgui_1_11, meth_qtgui_1_12, meth_qtgui_1_13, meth_qtgui_1_14, meth_qtgui_1_15, meth_qtgui_1_16, meth_qtgui_1_17, meth_qtgui_1_18, meth_qtgui_1_19, meth_qtgui_1_20, meth_qtgui_1_21, meth_qtgui_1_22, meth_qtgui_1_23, meth_qtgui_1_24, meth_qtgui_1_25, meth_qtgui_1_26, meth_qtgui_1_27, meth_qtgui_1_28, meth_qtgui_1_29, meth_qtgui_1_30, meth_qtgui_1_31, meth_qtgui_1_32, meth_qtgui_1_33, meth_qtgui_1_34, meth_qtgui_1_35, meth_qtgui_1_36]\<rparr>)]"

lemmas meth_table_gui_a_defs =
  meth_qtgui_0_0_def meth_qtgui_0_1_def meth_qtgui_0_2_def meth_qtgui_0_3_def meth_qtgui_0_4_def
  meth_qtgui_0_5_def meth_qtgui_0_6_def meth_qtgui_0_7_def meth_qtgui_0_8_def meth_qtgui_0_9_def
  meth_qtgui_0_10_def meth_qtgui_0_11_def meth_qtgui_0_12_def meth_qtgui_0_13_def meth_qtgui_0_14_def
  meth_qtgui_0_15_def meth_qtgui_0_16_def meth_qtgui_0_17_def meth_qtgui_0_18_def meth_qtgui_0_19_def
  meth_qtgui_0_20_def meth_qtgui_0_21_def meth_qtgui_0_22_def meth_qtgui_0_23_def meth_qtgui_0_24_def
  meth_qtgui_0_25_def meth_qtgui_0_26_def meth_qtgui_0_27_def meth_qtgui_0_28_def meth_qtgui_0_29_def
  meth_qtgui_0_30_def meth_qtgui_0_31_def meth_qtgui_0_32_def meth_qtgui_0_33_def meth_qtgui_0_34_def
  meth_qtgui_0_35_def meth_qtgui_0_36_def meth_qtgui_0_37_def meth_qtgui_0_38_def meth_qtgui_0_39_def
  meth_qtgui_0_40_def meth_qtgui_0_41_def meth_qtgui_0_42_def meth_qtgui_0_43_def meth_qtgui_0_44_def
  meth_qtgui_0_45_def meth_qtgui_0_46_def meth_qtgui_0_47_def meth_qtgui_0_48_def meth_qtgui_1_0_def
  meth_qtgui_1_1_def meth_qtgui_1_2_def meth_qtgui_1_3_def meth_qtgui_1_4_def meth_qtgui_1_5_def
  meth_qtgui_1_6_def meth_qtgui_1_7_def meth_qtgui_1_8_def meth_qtgui_1_9_def meth_qtgui_1_10_def
  meth_qtgui_1_11_def meth_qtgui_1_12_def meth_qtgui_1_13_def meth_qtgui_1_14_def meth_qtgui_1_15_def
  meth_qtgui_1_16_def meth_qtgui_1_17_def meth_qtgui_1_18_def meth_qtgui_1_19_def meth_qtgui_1_20_def
  meth_qtgui_1_21_def meth_qtgui_1_22_def meth_qtgui_1_23_def meth_qtgui_1_24_def meth_qtgui_1_25_def
  meth_qtgui_1_26_def meth_qtgui_1_27_def meth_qtgui_1_28_def meth_qtgui_1_29_def meth_qtgui_1_30_def
  meth_qtgui_1_31_def meth_qtgui_1_32_def meth_qtgui_1_33_def meth_qtgui_1_34_def meth_qtgui_1_35_def
  meth_qtgui_1_36_def

lemma meth_table_gui_a_object_blocks: "list_all (\<lambda>(s, sh). object_blocks sh) meth_table_gui_a"
  by (simp add: meth_table_gui_a_def meth_table_gui_a_defs object_blocks_def object_shard_def; (simp add: parameter_text_def qt_name_defs)?)

end
