(* ===== verification/Methods_Gui_B.thy ===== *)
theory Methods_Gui_B
  imports Shard_Methods Qt_Names
begin

text \<open>
  Tables of the method shards (generated\_methods): the blocks of every shard in the file's order.
\<close>

definition meth_qtgui_2_0 :: "binding list" where
  "meth_qtgui_2_0 = [
     Bind [TypeM ''QTGUI_QUNDOSTACK''] ''activeStack'' [] RObject [OnObject ''QUndoGroup''],
     Bind [ValueM QTGUI_QTEXTBLOCK] ''add'' [PConv QTextBlock] RVoid [OnObject ''QTextList''],
     Bind [ValueM QTCORE_QURL] ''addResource'' [PInt, PConv QUrl, PVariant] RVoid [OnObject QTextDocument],
     Bind [TypeM ''QTGUI_QUNDOSTACK''] ''addStack'' [PNonNull ''QUndoStack*''] RVoid [OnObject ''QUndoGroup''],
     Bind [] ''adjustSize'' [] RVoid [OnObject QTextDocument],
     Bind [] ''alert'' [PInt] RVoid [OnObject QWindow]]"

definition meth_qtgui_2_1 :: "binding list" where
  "meth_qtgui_2_1 = [
     Bind [ValueM ''QTGUI_QTEXTFORMAT''] ''allFormats'' [] (RList (IValue QTextFormat)) [OnObject QTextDocument],
     Bind [] ''appendColumns'' [PInt] RVoid [OnObject ''QTextTable''],
     Bind [] ''appendRows'' [PInt] RVoid [OnObject ''QTextTable''],
     Bind [] ''availableRedoSteps'' [] RNumber [OnObject QTextDocument],
     Bind [] ''availableUndoSteps'' [] RNumber [OnObject QTextDocument],
     Bind [ValueM QTCORE_QSIZE] ''baseSize'' [] (RValue QSize) [OnObject QWindow],
     Bind [ValueM QTCORE_QURL] ''baseUrl'' [] (RValue QUrl) [OnObject QTextDocument]]"

definition meth_qtgui_2_2 :: "binding list" where
  "meth_qtgui_2_2 = [
     Bind [] ''baselineOffset'' [] RNumber [OnObject QTextDocument],
     Bind [ValueM QTGUI_QTEXTBLOCK] ''begin'' [] (RValue QTextBlock) [OnObject QTextDocument],
     Bind [TypeM ''QTGUI_QTEXTFRAME''] ''begin'' [] (RMeta ''QTextFrame::iterator'') [OnObject ''QTextFrame''],
     Bind [] ''beginMacro'' [PString True] RVoid [OnObject QUndoStack],
     Bind [] ''blockCount'' [] RNumber [OnObject QTextDocument],
     Bind [] ''canRedo'' [] RBool [OnObject ''QUndoGroup'', OnObject QUndoStack],
     Bind [] ''canUndo'' [] RBool [OnObject ''QUndoGroup'', OnObject QUndoStack]]"

definition meth_qtgui_2_3 :: "binding list" where
  "meth_qtgui_2_3 = [
     Bind [ValueM QTGUI_QTEXTCURSOR, ValueM ''QTGUI_QTEXTTABLECELL''] ''cellAt'' [PConv QTextCursor] (RValue QTextTableCell) [OnObject ''QTextTable''],
     Bind [ValueM ''QTGUI_QTEXTTABLECELL''] ''cellAt'' [PInt] (RValue QTextTableCell) [OnObject ''QTextTable''],
     Bind [ValueM ''QTGUI_QTEXTTABLECELL''] ''cellAt'' [PInt, PInt] (RValue QTextTableCell) [OnObject ''QTextTable''],
     Bind [] ''characterCount'' [] RNumber [OnObject QTextDocument],
     Bind [TypeM ''QTGUI_QTEXTFRAME''] ''childFrames'' [] (RList IObject) [OnObject ''QTextFrame''],
     Bind [] ''cleanIndex'' [] RNumber [OnObject QUndoStack],
     Bind [] ''clear'' [] RVoid [OnObject QTextDocument, OnObject QUndoStack]]"

definition meth_qtgui_2_4 :: "binding list" where
  "meth_qtgui_2_4 = [
     Bind [TypeM QTGUI_QTEXTDOCUMENT] ''clearUndoRedoStacks'' [PConv ''QTextDocument::Stacks''] RVoid [OnObject QTextDocument],
     Bind [TypeM QTCORE_QOBJECT, TypeM QTGUI_QTEXTDOCUMENT] ''clone'' [PNonNull QObject_ptr] RObject [OnObject QTextDocument],
     Bind [] ''close'' [] RBool [OnObject QWindow],
     Bind [] ''columns'' [] RNumber [OnObject ''QTextTable''],
     Bind [EnumM ''QT_SCREENORIENTATION''] ''contentOrientation'' [] (RMeta Qt_ScreenOrientation) [OnObject QWindow],
     Bind [] ''count'' [] RNumber [OnObject ''QTextList'', OnObject QUndoStack],
     Bind [] ''create'' [] RVoid [OnObject QWindow]]"

definition meth_qtgui_2_5 :: "binding list" where
  "meth_qtgui_2_5 = [
     Bind [TypeM QTCORE_QOBJECT, TypeM ''QTGUI_QACTION''] ''createRedoAction'' [PNonNull QObject_ptr, PString True] RObject [OnObject ''QUndoGroup'', OnObject QUndoStack],
     Bind [TypeM QTCORE_QOBJECT, TypeM ''QTGUI_QACTION''] ''createUndoAction'' [PNonNull QObject_ptr, PString True] RObject [OnObject ''QUndoGroup'', OnObject QUndoStack],
     Bind [ValueM QTGUI_QVECTOR3D] ''crossProduct'' [PConv QVector3D, PConv QVector3D] (RValue QVector3D) [Static QVector3D],
     Bind [ValueM ''QTGUI_QCURSOR''] ''cursor'' [] (RValue QCursor) [OnObject QWindow],
     Bind [EnumM ''QT_CURSORMOVESTYLE''] ''defaultCursorMoveStyle'' [] (RMeta ''Qt::CursorMoveStyle'') [OnObject QTextDocument],
     Bind [ValueM QTGUI_QFONT] ''defaultFont'' [] (RValue QFont) [OnObject QTextDocument]]"

definition meth_qtgui_2_6 :: "binding list" where
  "meth_qtgui_2_6 = [
     Bind [] ''defaultStyleSheet'' [] RString [OnObject QTextDocument],
     Bind [ValueM QTGUI_QTEXTOPTION] ''defaultTextOption'' [] (RValue QTextOption) [OnObject QTextDocument],
     Bind [] ''destroy'' [] RVoid [OnObject QWindow],
     Bind [] ''devicePixelRatio'' [] RNumber [OnObject QWindow],
     Bind [TypeM QTGUI_QTEXTDOCUMENT] ''document'' [] RObject [OnObject ''QTextObject''],
     Bind [TypeM ''QTGUI_QABSTRACTTEXTDOCUMENTLAYOUT''] ''documentLayout'' [] RObject [OnObject QTextDocument],
     Bind [] ''documentMargin'' [] RNumber [OnObject QTextDocument],
     Bind [ValueM QTGUI_QVECTOR2D] ''dotProduct'' [PConv QVector2D, PConv QVector2D] RNumber [Static QVector2D]]"

definition meth_qtgui_2_7 :: "binding list" where
  "meth_qtgui_2_7 = [
     Bind [ValueM QTGUI_QVECTOR3D] ''dotProduct'' [PConv QVector3D, PConv QVector3D] RNumber [Static QVector3D],
     Bind [ValueM QTGUI_QVECTOR4D] ''dotProduct'' [PConv QVector4D, PConv QVector4D] RNumber [Static QVector4D],
     Bind [ValueM QTGUI_QTEXTBLOCK] ''end'' [] (RValue QTextBlock) [OnObject QTextDocument],
     Bind [TypeM ''QTGUI_QTEXTFRAME''] ''end'' [] (RMeta ''QTextFrame::iterator'') [OnObject ''QTextFrame''],
     Bind [] ''endMacro'' [] RVoid [OnObject QUndoStack],
     Bind [] ''filePath'' [] RString [OnObject QWindow],
     Bind [ValueM QTGUI_QTEXTBLOCK] ''findBlock'' [PInt] (RValue QTextBlock) [OnObject QTextDocument]]"

definition meth_qtgui_2_8 :: "binding list" where
  "meth_qtgui_2_8 = [
     Bind [ValueM QTGUI_QTEXTBLOCK] ''findBlockByLineNumber'' [PInt] (RValue QTextBlock) [OnObject QTextDocument],
     Bind [ValueM QTGUI_QTEXTBLOCK] ''findBlockByNumber'' [PInt] (RValue QTextBlock) [OnObject QTextDocument],
     Bind [ValueM QTGUI_QTEXTBLOCK] ''firstBlock'' [] (RValue QTextBlock) [OnObject QTextDocument],
     Bind [ValueM QTGUI_QTEXTCURSOR] ''firstCursorPosition'' [] (RValue QTextCursor) [OnObject ''QTextFrame''],
     Bind [] ''firstPosition'' [] RNumber [OnObject ''QTextFrame''],
     Bind [EnumM QT_WINDOWFLAGS] ''flags'' [] (RMeta Qt_WindowFlags) [OnObject QWindow],
     Bind [TypeM QTCORE_QOBJECT] ''focusObject'' [] RObject [OnObject QWindow]]"

definition meth_qtgui_2_9 :: "binding list" where
  "meth_qtgui_2_9 = [
     Bind [ValueM QTGUI_QSURFACEFORMAT] ''format'' [] (RValue QSurfaceFormat) [OnObject QWindow],
     Bind [ValueM ''QTGUI_QTEXTFORMAT''] ''format'' [] (RValue QTextFormat) [OnObject ''QTextObject''],
     Bind [ValueM ''QTGUI_QTEXTLISTFORMAT''] ''format'' [] (RValue QTextListFormat) [OnObject ''QTextList''],
     Bind [ValueM ''QTGUI_QTEXTTABLEFORMAT''] ''format'' [] (RValue QTextTableFormat) [OnObject ''QTextTable''],
     Bind [] ''formatIndex'' [] RNumber [OnObject ''QTextObject''],
     Bind [ValueM QTGUI_QTEXTFRAMEFORMAT] ''frameFormat'' [] (RValue QTextFrameFormat) [OnObject ''QTextFrame''],
     Bind [ValueM QTCORE_QRECT] ''frameGeometry'' [] (RValue QRect) [OnObject QWindow]]"

definition meth_qtgui_2_10 :: "binding list" where
  "meth_qtgui_2_10 = [
     Bind [ValueM QTCORE_QMARGINS] ''frameMargins'' [] (RValue QMargins) [OnObject QWindow],
     Bind [ValueM QTCORE_QPOINT] ''framePosition'' [] (RValue QPoint) [OnObject QWindow],
     Bind [TypeM QTGUI_QTEXTDOCUMENT, ValueM ''QTGUI_QTEXTDOCUMENTFRAGMENT''] ''fromHtml'' [PString True, PNonNull QTextDocument_ptr] (RValue QTextDocumentFragment) [Static QTextDocumentFragment],
     Bind [ValueM ''QTGUI_QTEXTDOCUMENTFRAGMENT''] ''fromPlainText'' [PString True] (RValue QTextDocumentFragment) [Static QTextDocumentFragment],
     Bind [ValueM QTGUI_QTRANSFORM] ''fromScale'' [PReal ''qreal'', PReal ''qreal''] (RValue QTransform) [Static QTransform],
     Bind [ValueM QTGUI_QTRANSFORM] ''fromTranslate'' [PReal ''qreal'', PReal ''qreal''] (RValue QTransform) [Static QTransform]]"

definition meth_qtgui_2_11 :: "binding list" where
  "meth_qtgui_2_11 = [
     Bind [ValueM QTCORE_QRECT] ''geometry'' [] (RValue QRect) [OnObject QWindow],
     Bind [] ''height'' [] RNumber [OnObject QWindow],
     Bind [] ''hide'' [] RVoid [OnObject QWindow],
     Bind [ValueM QTGUI_QICON] ''icon'' [] (RValue QIcon) [OnObject QWindow],
     Bind [] ''idealWidth'' [] RNumber [OnObject QTextDocument],
     Bind [] ''indentWidth'' [] RNumber [OnObject QTextDocument],
     Bind [] ''index'' [] RNumber [OnObject QUndoStack],
     Bind [] ''insertColumns'' [PInt, PInt] RVoid [OnObject ''QTextTable'']]"

definition meth_qtgui_2_12 :: "binding list" where
  "meth_qtgui_2_12 = [
     Bind [] ''insertRows'' [PInt, PInt] RVoid [OnObject ''QTextTable''],
     Bind [] ''isActive'' [] RBool [OnObject QUndoStack, OnObject QWindow],
     Bind [TypeM QTGUI_QWINDOW] ''isAncestorOf'' [PNonNull ''QWindow*'', PConv ''QWindow::AncestorMode''] RBool [OnObject QWindow],
     Bind [] ''isClean'' [] RBool [OnObject ''QUndoGroup'', OnObject QUndoStack],
     Bind [] ''isEmpty'' [] RBool [OnObject QTextDocument],
     Bind [] ''isExposed'' [] RBool [OnObject QWindow],
     Bind [] ''isLayoutEnabled'' [] RBool [OnObject QTextDocument]]"

definition meth_qtgui_2_13 :: "binding list" where
  "meth_qtgui_2_13 = [
     Bind [] ''isModal'' [] RBool [OnObject QWindow],
     Bind [] ''isModified'' [] RBool [OnObject QTextDocument],
     Bind [] ''isRedoAvailable'' [] RBool [OnObject QTextDocument],
     Bind [] ''isTopLevel'' [] RBool [OnObject QWindow],
     Bind [] ''isUndoAvailable'' [] RBool [OnObject QTextDocument],
     Bind [] ''isUndoRedoEnabled'' [] RBool [OnObject QTextDocument],
     Bind [] ''isVisible'' [] RBool [OnObject QWindow],
     Bind [ValueM QTGUI_QTEXTBLOCK] ''item'' [PInt] (RValue QTextBlock) [OnObject ''QTextList'']]"

definition meth_qtgui_2_14 :: "binding list" where
  "meth_qtgui_2_14 = [
     Bind [ValueM QTGUI_QTEXTBLOCK] ''itemNumber'' [PConv QTextBlock] RNumber [OnObject ''QTextList''],
     Bind [ValueM QTGUI_QTEXTBLOCK] ''itemText'' [PConv QTextBlock] RString [OnObject ''QTextList''],
     Bind [ValueM QTGUI_QTEXTBLOCK] ''lastBlock'' [] (RValue QTextBlock) [OnObject QTextDocument],
     Bind [ValueM QTGUI_QTEXTCURSOR] ''lastCursorPosition'' [] (RValue QTextCursor) [OnObject ''QTextFrame''],
     Bind [] ''lastPosition'' [] RNumber [OnObject ''QTextFrame''],
     Bind [] ''lineCount'' [] RNumber [OnObject QTextDocument],
     Bind [ValueM QTCORE_QLOCALE] ''locale'' [] (RValue QLocale) [OnObject ''QValidator'']]"

definition meth_qtgui_2_15 :: "binding list" where
  "meth_qtgui_2_15 = [
     Bind [] ''lower'' [] RVoid [OnObject QWindow],
     Bind [ValueM QTCORE_QPOINT] ''mapFromGlobal'' [PConv QPoint] (RValue QPoint) [OnObject QWindow],
     Bind [ValueM QTCORE_QPOINTF] ''mapFromGlobal'' [PConv QPointF] (RValue QPointF) [OnObject QWindow],
     Bind [ValueM QTCORE_QPOINT] ''mapToGlobal'' [PConv QPoint] (RValue QPoint) [OnObject QWindow],
     Bind [ValueM QTCORE_QPOINTF] ''mapToGlobal'' [PConv QPointF] (RValue QPointF) [OnObject QWindow],
     Bind [] ''markContentsDirty'' [PInt, PInt] RVoid [OnObject QTextDocument]]"

definition meth_qtgui_2_16 :: "binding list" where
  "meth_qtgui_2_16 = [
     Bind [ValueM QTGUI_QREGION] ''mask'' [] (RValue QRegion) [OnObject QWindow],
     Bind [] ''maximumBlockCount'' [] RNumber [OnObject QTextDocument],
     Bind [] ''maximumHeight'' [] RNumber [OnObject QWindow],
     Bind [ValueM QTCORE_QSIZE] ''maximumSize'' [] (RValue QSize) [OnObject QWindow],
     Bind [] ''maximumWidth'' [] RNumber [OnObject QWindow],
     Bind [ValueM QTGUI_QTEXTCURSOR] ''mergeCells'' [PConv QTextCursor] RVoid [OnObject ''QTextTable''],
     Bind [] ''mergeCells'' [PInt, PInt, PInt, PInt] RVoid [OnObject ''QTextTable'']]"

definition meth_qtgui_2_17 :: "binding list" where
  "meth_qtgui_2_17 = [
     Bind [TypeM QTGUI_QTEXTDOCUMENT] ''metaInformation'' [PConv ''QTextDocument::MetaInformation''] RString [OnObject QTextDocument],
     Bind [] ''minimumHeight'' [] RNumber [OnObject QWindow],
     Bind [ValueM QTCORE_QSIZE] ''minimumSize'' [] (RValue QSize) [OnObject QWindow],
     Bind [] ''minimumWidth'' [] RNumber [OnObject QWindow],
     Bind [EnumM ''QT_WINDOWMODALITY''] ''modality'' [] (RMeta ''Qt::WindowModality'') [OnObject QWindow],
     Bind [ValueM QTGUI_QVECTOR3D] ''normal'' [PConv QVector3D, PConv QVector3D] (RValue QVector3D) [Static QVector3D],
     Bind [ValueM QTGUI_QVECTOR3D] ''normal'' [PConv QVector3D, PConv QVector3D, PConv QVector3D] (RValue QVector3D) [Static QVector3D]]"

definition meth_qtgui_2_18 :: "binding list" where
  "meth_qtgui_2_18 = [
     Bind [TypeM ''QTGUI_QTEXTOBJECT''] ''object'' [PInt] RObject [OnObject QTextDocument],
     Bind [TypeM ''QTGUI_QTEXTOBJECT'', ValueM ''QTGUI_QTEXTFORMAT''] ''objectForFormat'' [PConv QTextFormat] RObject [OnObject QTextDocument],
     Bind [] ''objectIndex'' [] RNumber [OnObject ''QTextObject''],
     Bind [] ''opacity'' [] RNumber [OnObject QWindow],
     Bind [] ''pageCount'' [] RNumber [OnObject QTextDocument],
     Bind [ValueM QTCORE_QSIZEF] ''pageSize'' [] (RValue QSizeF) [OnObject QTextDocument],
     Bind [TypeM QTGUI_QWINDOW] ''parent'' [PConv ''QWindow::AncestorMode''] RObject [OnObject QWindow]]"

definition meth_qtgui_2_19 :: "binding list" where
  "meth_qtgui_2_19 = [
     Bind [TypeM ''QTGUI_QTEXTFRAME''] ''parentFrame'' [] RObject [OnObject ''QTextFrame'', OnObject ''QTextFrame''],
     Bind [ValueM QTCORE_QPOINT] ''position'' [] (RValue QPoint) [OnObject QWindow],
     Bind [ValueM QTGUI_QPOLYGONF, ValueM QTGUI_QTRANSFORM] ''quadToQuad'' [PConv QPolygonF, PConv QPolygonF, PConv QTransform] RBool [Static QTransform],
     Bind [ValueM QTGUI_QPOLYGONF, ValueM QTGUI_QTRANSFORM] ''quadToSquare'' [PConv QPolygonF, PConv QTransform] RBool [Static QTransform],
     Bind [] ''redo'' [] RVoid [OnObject QTextDocument, OnObject ''QUndoGroup'', OnObject QUndoStack],
     Bind [] ''redoText'' [] RString [OnObject ''QUndoGroup'', OnObject QUndoStack]]"

definition meth_qtgui_2_20 :: "binding list" where
  "meth_qtgui_2_20 = [
     Bind [ValueM QTGUI_QTEXTBLOCK] ''remove'' [PConv QTextBlock] RVoid [OnObject ''QTextList''],
     Bind [] ''removeColumns'' [PInt, PInt] RVoid [OnObject ''QTextTable''],
     Bind [] ''removeItem'' [PInt] RVoid [OnObject ''QTextList''],
     Bind [] ''removeRows'' [PInt, PInt] RVoid [OnObject ''QTextTable''],
     Bind [TypeM ''QTGUI_QUNDOSTACK''] ''removeStack'' [PNonNull ''QUndoStack*''] RVoid [OnObject ''QUndoGroup''],
     Bind [EnumM ''QT_SCREENORIENTATION''] ''reportContentOrientationChange'' [PConv Qt_ScreenOrientation] RVoid [OnObject QWindow],
     Bind [] ''requestActivate'' [] RVoid [OnObject QWindow]]"

definition meth_qtgui_2_21 :: "binding list" where
  "meth_qtgui_2_21 = [
     Bind [] ''requestUpdate'' [] RVoid [OnObject QWindow],
     Bind [ValueM QTGUI_QSURFACEFORMAT] ''requestedFormat'' [] (RValue QSurfaceFormat) [OnObject QWindow],
     Bind [] ''resetClean'' [] RVoid [OnObject QUndoStack],
     Bind [ValueM QTCORE_QSIZE] ''resize'' [PConv QSize] RVoid [OnObject QWindow],
     Bind [] ''resize'' [PInt, PInt] RVoid [OnObject ''QTextTable'', OnObject QWindow],
     Bind [ValueM QTCORE_QURL] ''resource'' [PInt, PConv QUrl] RVariant [OnObject QTextDocument],
     Bind [] ''revision'' [] RNumber [OnObject QTextDocument]]"

definition meth_qtgui_2_22 :: "binding list" where
  "meth_qtgui_2_22 = [
     Bind [TypeM ''QTGUI_QTEXTFRAME''] ''rootFrame'' [] RObject [OnObject QTextDocument],
     Bind [ValueM QTGUI_QTEXTCURSOR] ''rowEnd'' [PConv QTextCursor] (RValue QTextCursor) [OnObject ''QTextTable''],
     Bind [ValueM QTGUI_QTEXTCURSOR] ''rowStart'' [PConv QTextCursor] (RValue QTextCursor) [OnObject ''QTextTable''],
     Bind [] ''rows'' [] RNumber [OnObject ''QTextTable''],
     Bind [ValueM QTCORE_QMARGINS] ''safeAreaMargins'' [] (RValue QMargins) [OnObject QWindow],
     Bind [TypeM QTGUI_QSCREEN] ''screen'' [] RObject [OnObject QWindow],
     Bind [] ''setActive'' [PBool] RVoid [OnObject QUndoStack]]"

definition meth_qtgui_2_23 :: "binding list" where
  "meth_qtgui_2_23 = [
     Bind [TypeM ''QTGUI_QUNDOSTACK''] ''setActiveStack'' [PNonNull ''QUndoStack*''] RVoid [OnObject ''QUndoGroup''],
     Bind [ValueM QTCORE_QSIZE] ''setBaseSize'' [PConv QSize] RVoid [OnObject QWindow],
     Bind [ValueM QTCORE_QURL] ''setBaseUrl'' [PConv QUrl] RVoid [OnObject QTextDocument],
     Bind [] ''setBaselineOffset'' [PReal ''qreal''] RVoid [OnObject QTextDocument],
     Bind [] ''setClean'' [] RVoid [OnObject QUndoStack],
     Bind [ValueM ''QTGUI_QCURSOR''] ''setCursor'' [PConv QCursor] RVoid [OnObject QWindow],
     Bind [EnumM ''QT_CURSORMOVESTYLE''] ''setDefaultCursorMoveStyle'' [PConv ''Qt::CursorMoveStyle''] RVoid [OnObject QTextDocument]]"

definition meth_qtgui_2_24 :: "binding list" where
  "meth_qtgui_2_24 = [
     Bind [ValueM QTGUI_QFONT] ''setDefaultFont'' [PConv QFont] RVoid [OnObject QTextDocument],
     Bind [] ''setDefaultStyleSheet'' [PString True] RVoid [OnObject QTextDocument],
     Bind [ValueM QTGUI_QTEXTOPTION] ''setDefaultTextOption'' [PConv QTextOption] RVoid [OnObject QTextDocument],
     Bind [TypeM ''QTGUI_QABSTRACTTEXTDOCUMENTLAYOUT''] ''setDocumentLayout'' [PNonNull ''QAbstractTextDocumentLayout*''] RVoid [OnObject QTextDocument],
     Bind [] ''setDocumentMargin'' [PReal ''qreal''] RVoid [OnObject QTextDocument],
     Bind [] ''setFilePath'' [PString True] RVoid [OnObject QWindow],
     Bind [EnumM ''QT_WINDOWTYPE''] ''setFlag'' [PConv ''Qt::WindowType'', PBool] RVoid [OnObject QWindow]]"

definition meth_qtgui_2_25 :: "binding list" where
  "meth_qtgui_2_25 = [
     Bind [EnumM QT_WINDOWFLAGS] ''setFlags'' [PConv Qt_WindowFlags] RVoid [OnObject QWindow],
     Bind [ValueM QTGUI_QSURFACEFORMAT] ''setFormat'' [PConv QSurfaceFormat] RVoid [OnObject QWindow],
     Bind [ValueM ''QTGUI_QTEXTLISTFORMAT''] ''setFormat'' [PConv QTextListFormat] RVoid [OnObject ''QTextList''],
     Bind [ValueM ''QTGUI_QTEXTTABLEFORMAT''] ''setFormat'' [PConv QTextTableFormat] RVoid [OnObject ''QTextTable''],
     Bind [ValueM QTGUI_QTEXTFRAMEFORMAT] ''setFrameFormat'' [PConv QTextFrameFormat] RVoid [OnObject ''QTextFrame''],
     Bind [ValueM QTCORE_QPOINT] ''setFramePosition'' [PConv QPoint] RVoid [OnObject QWindow]]"

definition meth_qtgui_2_26 :: "binding list" where
  "meth_qtgui_2_26 = [
     Bind [ValueM QTCORE_QRECT] ''setGeometry'' [PConv QRect] RVoid [OnObject QWindow],
     Bind [] ''setGeometry'' [PInt, PInt, PInt, PInt] RVoid [OnObject QWindow],
     Bind [] ''setHeight'' [PInt] RVoid [OnObject QWindow],
     Bind [] ''setHtml'' [PString True] RVoid [OnObject QTextDocument],
     Bind [ValueM QTGUI_QICON] ''setIcon'' [PConv QIcon] RVoid [OnObject QWindow],
     Bind [] ''setIndentWidth'' [PReal ''qreal''] RVoid [OnObject QTextDocument]]"

definition meth_qtgui_2_27 :: "binding list" where
  "meth_qtgui_2_27 = [
     Bind [] ''setIndex'' [PInt] RVoid [OnObject QUndoStack],
     Bind [] ''setKeyboardGrabEnabled'' [PBool] RBool [OnObject QWindow],
     Bind [] ''setLayoutEnabled'' [PBool] RVoid [OnObject QTextDocument],
     Bind [ValueM QTCORE_QLOCALE] ''setLocale'' [PConv QLocale] RVoid [OnObject ''QValidator''],
     Bind [ValueM QTGUI_QREGION] ''setMask'' [PConv QRegion] RVoid [OnObject QWindow],
     Bind [] ''setMaximumBlockCount'' [PInt] RVoid [OnObject QTextDocument],
     Bind [] ''setMaximumHeight'' [PInt] RVoid [OnObject QWindow]]"

definition meth_qtgui_2_28 :: "binding list" where
  "meth_qtgui_2_28 = [
     Bind [ValueM QTCORE_QSIZE] ''setMaximumSize'' [PConv QSize] RVoid [OnObject QWindow],
     Bind [] ''setMaximumWidth'' [PInt] RVoid [OnObject QWindow],
     Bind [TypeM QTGUI_QTEXTDOCUMENT] ''setMetaInformation'' [PConv ''QTextDocument::MetaInformation'', PString True] RVoid [OnObject QTextDocument],
     Bind [] ''setMinimumHeight'' [PInt] RVoid [OnObject QWindow],
     Bind [ValueM QTCORE_QSIZE] ''setMinimumSize'' [PConv QSize] RVoid [OnObject QWindow],
     Bind [] ''setMinimumWidth'' [PInt] RVoid [OnObject QWindow],
     Bind [EnumM ''QT_WINDOWMODALITY''] ''setModality'' [PConv ''Qt::WindowModality''] RVoid [OnObject QWindow]]"

definition meth_qtgui_2_29 :: "binding list" where
  "meth_qtgui_2_29 = [
     Bind [] ''setModified'' [PBool] RVoid [OnObject QTextDocument],
     Bind [] ''setMouseGrabEnabled'' [PBool] RBool [OnObject QWindow],
     Bind [] ''setOpacity'' [PReal ''qreal''] RVoid [OnObject QWindow],
     Bind [ValueM QTCORE_QSIZEF] ''setPageSize'' [PConv QSizeF] RVoid [OnObject QTextDocument],
     Bind [TypeM QTGUI_QWINDOW] ''setParent'' [PNonNull ''QWindow*''] RVoid [OnObject QWindow],
     Bind [] ''setPlainText'' [PString True] RVoid [OnObject QTextDocument],
     Bind [ValueM QTCORE_QPOINT] ''setPosition'' [PConv QPoint] RVoid [OnObject QWindow]]"

definition meth_qtgui_2_30 :: "binding list" where
  "meth_qtgui_2_30 = [
     Bind [] ''setPosition'' [PInt, PInt] RVoid [OnObject QWindow],
     Bind [TypeM QTGUI_QSCREEN] ''setScreen'' [PNonNull ''QScreen*''] RVoid [OnObject QWindow],
     Bind [ValueM QTCORE_QSIZE] ''setSizeIncrement'' [PConv QSize] RVoid [OnObject QWindow],
     Bind [] ''setSubScriptBaseline'' [PReal ''qreal''] RVoid [OnObject QTextDocument],
     Bind [] ''setSuperScriptBaseline'' [PReal ''qreal''] RVoid [OnObject QTextDocument],
     Bind [TypeM ''QTGUI_QSURFACE''] ''setSurfaceType'' [PConv ''QSurface::SurfaceType''] RVoid [OnObject QWindow],
     Bind [] ''setTextWidth'' [PReal ''qreal''] RVoid [OnObject QTextDocument]]"

definition meth_qtgui_2_31 :: "binding list" where
  "meth_qtgui_2_31 = [
     Bind [] ''setTitle'' [PString True] RVoid [OnObject QWindow],
     Bind [TypeM QTGUI_QWINDOW] ''setTransientParent'' [PNonNull ''QWindow*''] RVoid [OnObject QWindow],
     Bind [] ''setUndoLimit'' [PInt] RVoid [OnObject QUndoStack],
     Bind [] ''setUndoRedoEnabled'' [PBool] RVoid [OnObject QTextDocument],
     Bind [] ''setUseDesignMetrics'' [PBool] RVoid [OnObject QTextDocument],
     Bind [TypeM QTGUI_QWINDOW] ''setVisibility'' [PConv ''QWindow::Visibility''] RVoid [OnObject QWindow],
     Bind [] ''setVisible'' [PBool] RVoid [OnObject QWindow]]"

definition meth_qtgui_2_32 :: "binding list" where
  "meth_qtgui_2_32 = [
     Bind [] ''setWidth'' [PInt] RVoid [OnObject QWindow],
     Bind [EnumM ''QT_WINDOWSTATE''] ''setWindowState'' [PConv ''Qt::WindowState''] RVoid [OnObject QWindow],
     Bind [EnumM ''QT_WINDOWSTATES''] ''setWindowStates'' [PConv ''Qt::WindowStates''] RVoid [OnObject QWindow],
     Bind [] ''setX'' [PInt] RVoid [OnObject QWindow],
     Bind [] ''setY'' [PInt] RVoid [OnObject QWindow],
     Bind [] ''show'' [] RVoid [OnObject QWindow],
     Bind [] ''showFullScreen'' [] RVoid [OnObject QWindow]]"

definition meth_qtgui_2_33 :: "binding list" where
  "meth_qtgui_2_33 = [
     Bind [] ''showMaximized'' [] RVoid [OnObject QWindow],
     Bind [] ''showMinimized'' [] RVoid [OnObject QWindow],
     Bind [] ''showNormal'' [] RVoid [OnObject QWindow],
     Bind [ValueM QTCORE_QSIZE] ''size'' [] (RValue QSize) [OnObject QWindow],
     Bind [ValueM QTCORE_QSIZEF] ''size'' [] (RValue QSizeF) [OnObject QTextDocument],
     Bind [ValueM QTCORE_QSIZE] ''sizeIncrement'' [] (RValue QSize) [OnObject QWindow],
     Bind [] ''splitCell'' [PInt, PInt, PInt, PInt] RVoid [OnObject ''QTextTable'']]"

definition meth_qtgui_2_34 :: "binding list" where
  "meth_qtgui_2_34 = [
     Bind [ValueM QTGUI_QPOLYGONF, ValueM QTGUI_QTRANSFORM] ''squareToQuad'' [PConv QPolygonF, PConv QTransform] RBool [Static QTransform],
     Bind [TypeM ''QTGUI_QUNDOSTACK''] ''stacks'' [] (RList IObject) [OnObject ''QUndoGroup''],
     Bind [] ''startSystemMove'' [] RBool [OnObject QWindow],
     Bind [EnumM ''QT_EDGES''] ''startSystemResize'' [PConv ''Qt::Edges''] RBool [OnObject QWindow],
     Bind [] ''subScriptBaseline'' [] RNumber [OnObject QTextDocument],
     Bind [] ''superScriptBaseline'' [] RNumber [OnObject QTextDocument],
     Bind [ValueM QTCORE_QBYTEARRAY] ''supportedDocumentFormats'' [] (RList (IValue QByteArray)) [Static QTextDocumentWriter]]"

definition meth_qtgui_2_35 :: "binding list" where
  "meth_qtgui_2_35 = [
     Bind [TypeM ''QTGUI_QSURFACE''] ''surfaceType'' [] (RMeta ''QSurface::SurfaceType'') [OnObject QWindow],
     Bind [] ''text'' [PInt] RString [OnObject QUndoStack],
     Bind [] ''textWidth'' [] RNumber [OnObject QTextDocument],
     Bind [] ''title'' [] RString [OnObject QWindow],
     Bind [] ''toHtml'' [] RString [OnObject QTextDocument],
     Bind [] ''toPlainText'' [] RString [OnObject QTextDocument],
     Bind [] ''toRawText'' [] RString [OnObject QTextDocument],
     Bind [TypeM QTGUI_QWINDOW] ''transientParent'' [] RObject [OnObject QWindow]]"

definition meth_qtgui_2_36 :: "binding list" where
  "meth_qtgui_2_36 = [
     Bind [EnumM ''QT_WINDOWTYPE''] ''type'' [] (RMeta ''Qt::WindowType'') [OnObject QWindow],
     Bind [] ''undo'' [] RVoid [OnObject QTextDocument, OnObject ''QUndoGroup'', OnObject QUndoStack],
     Bind [] ''undoLimit'' [] RNumber [OnObject QUndoStack],
     Bind [] ''undoText'' [] RString [OnObject ''QUndoGroup'', OnObject QUndoStack],
     Bind [] ''unsetCursor'' [] RVoid [OnObject QWindow],
     Bind [] ''useDesignMetrics'' [] RBool [OnObject QTextDocument],
     Bind [TypeM QTGUI_QWINDOW] ''visibility'' [] (RMeta ''QWindow::Visibility'') [OnObject QWindow]]"

definition meth_qtgui_2_37 :: "binding list" where
  "meth_qtgui_2_37 = [
     Bind [] ''width'' [] RNumber [OnObject QWindow],
     Bind [EnumM ''QT_WINDOWSTATE''] ''windowState'' [] (RMeta ''Qt::WindowState'') [OnObject QWindow],
     Bind [EnumM ''QT_WINDOWSTATES''] ''windowStates'' [] (RMeta ''Qt::WindowStates'') [OnObject QWindow],
     Bind [] ''x'' [] RNumber [OnObject QWindow],
     Bind [] ''y'' [] RNumber [OnObject QWindow]]"

definition meth_table_gui_b :: "(string \<times> shard) list" where
  "meth_table_gui_b = [
     (''qtgui_2'', \<lparr>sh_module = ''QtGui'', sh_slug = ''QTGUI'',
        sh_bindings = concat [meth_qtgui_2_0, meth_qtgui_2_1, meth_qtgui_2_2, meth_qtgui_2_3, meth_qtgui_2_4, meth_qtgui_2_5, meth_qtgui_2_6, meth_qtgui_2_7, meth_qtgui_2_8, meth_qtgui_2_9, meth_qtgui_2_10, meth_qtgui_2_11, meth_qtgui_2_12, meth_qtgui_2_13, meth_qtgui_2_14, meth_qtgui_2_15, meth_qtgui_2_16, meth_qtgui_2_17, meth_qtgui_2_18, meth_qtgui_2_19, meth_qtgui_2_20, meth_qtgui_2_21, meth_qtgui_2_22, meth_qtgui_2_23, meth_qtgui_2_24, meth_qtgui_2_25, meth_qtgui_2_26, meth_qtgui_2_27, meth_qtgui_2_28, meth_qtgui_2_29, meth_qtgui_2_30, meth_qtgui_2_31, meth_qtgui_2_32, meth_qtgui_2_33, meth_qtgui_2_34, meth_qtgui_2_35, meth_qtgui_2_36, meth_qtgui_2_37]\<rparr>)]"

lemmas meth_table_gui_b_defs =
  meth_qtgui_2_0_def meth_qtgui_2_1_def meth_qtgui_2_2_def meth_qtgui_2_3_def meth_qtgui_2_4_def
  meth_qtgui_2_5_def meth_qtgui_2_6_def meth_qtgui_2_7_def meth_qtgui_2_8_def meth_qtgui_2_9_def
  meth_qtgui_2_10_def meth_qtgui_2_11_def meth_qtgui_2_12_def meth_qtgui_2_13_def meth_qtgui_2_14_def
  meth_qtgui_2_15_def meth_qtgui_2_16_def meth_qtgui_2_17_def meth_qtgui_2_18_def meth_qtgui_2_19_def
  meth_qtgui_2_20_def meth_qtgui_2_21_def meth_qtgui_2_22_def meth_qtgui_2_23_def meth_qtgui_2_24_def
  meth_qtgui_2_25_def meth_qtgui_2_26_def meth_qtgui_2_27_def meth_qtgui_2_28_def meth_qtgui_2_29_def
  meth_qtgui_2_30_def meth_qtgui_2_31_def meth_qtgui_2_32_def meth_qtgui_2_33_def meth_qtgui_2_34_def
  meth_qtgui_2_35_def meth_qtgui_2_36_def meth_qtgui_2_37_def

lemma meth_table_gui_b_object_blocks: "list_all (\<lambda>(s, sh). object_blocks sh) meth_table_gui_b"
  by (simp add: meth_table_gui_b_def meth_table_gui_b_defs object_blocks_def object_shard_def; (simp add: parameter_text_def qt_name_defs)?)

end
