(* ===== verification/Methods_Network_A.thy ===== *)
theory Methods_Network_A
  imports Shard_Methods Qt_Names
begin

text \<open>
  Tables of the method shards (generated\_methods): the blocks of every shard in the file's order.
\<close>

definition meth_qtnetwork_0_0 :: "binding list" where
  "meth_qtnetwork_0_0 = [
     Bind [] ''abort'' [] RVoid [OnObject QAbstractSocket, OnObject QDnsLookup, OnObject QLocalSocket],
     Bind [] ''abortHostLookup'' [PInt] RVoid [Static ''QHostInfo''],
     Bind [] ''activeBackend'' [] RString [Static QSslSocket],
     Bind [ValueM ''QTNETWORK_QHSTSPOLICY''] ''addStrictTransportSecurityHosts'' [PListV ''QHstsPolicy''] RVoid [OnObject QNetworkAccessManager],
     Bind [ValueM QTNETWORK_QHOSTADDRESS] ''allAddresses'' [] (RList (IValue QHostAddress)) [Static QNetworkInterface],
     Bind [ValueM QTNETWORK_QNETWORKINTERFACE] ''allInterfaces'' [] (RList (IValue QNetworkInterface)) [Static QNetworkInterface]]"

definition meth_qtnetwork_0_1 :: "binding list" where
  "meth_qtnetwork_0_1 = [
     Bind [ValueM ''QTNETWORK_QHTTPPART''] ''append'' [PConv ''QHttpPart''] RVoid [OnObject ''QHttpMultiPart''],
     Bind [ValueM QTNETWORK_QNETWORKPROXY] ''applicationProxy'' [] (RValue QNetworkProxy) [Static QNetworkProxy],
     Bind [] ''atEnd'' [] RBool [OnObject QSslSocket],
     Bind [TypeM QTNETWORK_QNETWORKREQUEST] ''attribute'' [PConv ''QNetworkRequest::Attribute''] RVariant [OnObject QNetworkReply],
     Bind [] ''autoDeleteReplies'' [] RBool [OnObject QNetworkAccessManager],
     Bind [] ''availableBackends'' [] (RList (IMeta QString)) [Static QSslSocket],
     Bind [] ''availableBackends'' [] (RList (IMeta QString)) [Static ''QNetworkInformation'']]"

definition meth_qtnetwork_0_2 :: "binding list" where
  "meth_qtnetwork_0_2 = [
     Bind [] ''backendName'' [] RString [OnObject ''QNetworkInformation''],
     Bind [ValueM QTCORE_QBYTEARRAY] ''boundary'' [] (RValue QByteArray) [OnObject ''QHttpMultiPart''],
     Bind [] ''bytesAvailable'' [] (RMeta ''qint64'') [OnObject QAbstractSocket, OnObject QLocalSocket, OnObject QSslSocket],
     Bind [] ''bytesToWrite'' [] (RMeta ''qint64'') [OnObject QAbstractSocket, OnObject QLocalSocket, OnObject QSslSocket],
     Bind [TypeM ''QTNETWORK_QABSTRACTNETWORKCACHE''] ''cache'' [] RObject [OnObject QNetworkAccessManager],
     Bind [] ''cacheDirectory'' [] RString [OnObject QNetworkDiskCache],
     Bind [] ''cacheSize'' [] (RMeta ''qint64'') [OnObject QNetworkDiskCache]]"

definition meth_qtnetwork_0_3 :: "binding list" where
  "meth_qtnetwork_0_3 = [
     Bind [] ''canReadLine'' [] RBool [OnObject QLocalSocket, OnObject QSslSocket],
     Bind [ValueM ''QTNETWORK_QDNSDOMAINNAMERECORD''] ''canonicalNameRecords'' [] (RList (IValue QDnsDomainNameRecord)) [OnObject QDnsLookup],
     Bind [] ''clear'' [] RVoid [OnObject QNetworkDiskCache],
     Bind [] ''clearAccessCache'' [] RVoid [OnObject QNetworkAccessManager],
     Bind [] ''clearConnectionCache'' [] RVoid [OnObject QNetworkAccessManager],
     Bind [] ''close'' [] RVoid [OnObject QAbstractSocket, OnObject ''QLocalServer'', OnObject QLocalSocket, OnObject QNetworkReply, OnObject QSslSocket, OnObject ''QTcpServer'']]"

definition meth_qtnetwork_0_4 :: "binding list" where
  "meth_qtnetwork_0_4 = [
     Bind [] ''continueInterruptedHandshake'' [] RVoid [OnObject QSslSocket],
     Bind [TypeM ''QTNETWORK_QNETWORKCOOKIEJAR''] ''cookieJar'' [] RObject [OnObject QNetworkAccessManager],
     Bind [ValueM QTCORE_QURL, ValueM QTNETWORK_QNETWORKCOOKIE] ''cookiesForUrl'' [PConv QUrl] (RList (IValue QNetworkCookie)) [OnObject ''QNetworkCookieJar''],
     Bind [TypeM QTCORE_QIODEVICE, ValueM QTCORE_QURL] ''data'' [PConv QUrl] RObject [OnObject QNetworkDiskCache],
     Bind [ValueM QTNETWORK_QSSLCONFIGURATION] ''defaultConfiguration'' [] (RValue QSslConfiguration) [Static QSslConfiguration],
     Bind [ValueM QTNETWORK_QSSLCONFIGURATION] ''defaultDtlsConfiguration'' [] (RValue QSslConfiguration) [Static QSslConfiguration],
     Bind [ValueM ''QTNETWORK_QSSLDIFFIEHELLMANPARAMETERS''] ''defaultParameters'' [] (RValue QSslDiffieHellmanParameters) [Static QSslDiffieHellmanParameters]]"

definition meth_qtnetwork_0_5 :: "binding list" where
  "meth_qtnetwork_0_5 = [
     Bind [ValueM QTNETWORK_QNETWORKCOOKIE] ''deleteCookie'' [PConv QNetworkCookie] RBool [OnObject ''QNetworkCookieJar''],
     Bind [TypeM QTNETWORK_QNETWORKREPLY, ValueM QTNETWORK_QNETWORKREQUEST] ''deleteResource'' [PConv QNetworkRequest] RObject [OnObject QNetworkAccessManager, OnObject QRestAccessManager],
     Bind [] ''disconnectFromHost'' [] RVoid [OnObject QAbstractSocket, OnObject QSslSocket],
     Bind [] ''disconnectFromServer'' [] RVoid [OnObject QLocalSocket],
     Bind [] ''enableStrictTransportSecurityStore'' [PBool, PString True] RVoid [OnObject QNetworkAccessManager],
     Bind [] ''encryptedBytesAvailable'' [] (RMeta ''qint64'') [OnObject QSslSocket],
     Bind [] ''encryptedBytesToWrite'' [] (RMeta ''qint64'') [OnObject QSslSocket]]"

definition meth_qtnetwork_0_6 :: "binding list" where
  "meth_qtnetwork_0_6 = [
     Bind [TypeM QTNETWORK_QABSTRACTSOCKET] ''error'' [] (RMeta ''QAbstractSocket::SocketError'') [OnObject QAbstractSocket],
     Bind [TypeM ''QTNETWORK_QDNSLOOKUP''] ''error'' [] (RMeta ''QDnsLookup::Error'') [OnObject QDnsLookup],
     Bind [TypeM ''QTNETWORK_QLOCALSOCKET''] ''error'' [] (RMeta ''QLocalSocket::LocalSocketError'') [OnObject QLocalSocket],
     Bind [TypeM QTNETWORK_QNETWORKREPLY] ''error'' [] (RMeta ''QNetworkReply::NetworkError'') [OnObject QNetworkReply],
     Bind [] ''errorString'' [] RString [OnObject QDnsLookup, OnObject ''QLocalServer'', OnObject ''QTcpServer''],
     Bind [ValueM ''QTNETWORK_QNETWORKCACHEMETADATA''] ''fileMetaData'' [PString True] (RValue QNetworkCacheMetaData) [OnObject QNetworkDiskCache],
     Bind [] ''flush'' [] RBool [OnObject QAbstractSocket, OnObject QLocalSocket]]"

definition meth_qtnetwork_0_7 :: "binding list" where
  "meth_qtnetwork_0_7 = [
     Bind [ValueM ''QTNETWORK_QSSLELLIPTICCURVE''] ''fromLongName'' [PString True] (RValue QSslEllipticCurve) [Static QSslEllipticCurve],
     Bind [ValueM ''QTNETWORK_QHOSTINFO''] ''fromName'' [PString True] (RValue ''QHostInfo'') [Static ''QHostInfo''],
     Bind [ValueM ''QTNETWORK_QSSLELLIPTICCURVE''] ''fromShortName'' [PString True] (RValue QSslEllipticCurve) [Static QSslEllipticCurve],
     Bind [] ''fullServerName'' [] RString [OnObject ''QLocalServer'', OnObject QLocalSocket],
     Bind [TypeM QTNETWORK_QNETWORKREPLY, ValueM QTNETWORK_QNETWORKREQUEST] ''get'' [PConv QNetworkRequest] RObject [OnObject QNetworkAccessManager, OnObject QRestAccessManager],
     Bind [TypeM QTNETWORK_QNETWORKREPLY, ValueM QTCORE_QBYTEARRAY, ValueM QTNETWORK_QNETWORKREQUEST] ''get'' [PConv QNetworkRequest, PConv QByteArray] RObject [OnObject QNetworkAccessManager, OnObject QRestAccessManager]]"

definition meth_qtnetwork_0_8 :: "binding list" where
  "meth_qtnetwork_0_8 = [
     Bind [TypeM QTCORE_QIODEVICE, TypeM QTNETWORK_QNETWORKREPLY, ValueM QTNETWORK_QNETWORKREQUEST] ''get'' [PConv QNetworkRequest, PNonNull QIODevice_ptr] RObject [OnObject QNetworkAccessManager, OnObject QRestAccessManager],
     Bind [TypeM QTNETWORK_QNETWORKREPLY, ValueM ''QTCORE_QJSONDOCUMENT'', ValueM QTNETWORK_QNETWORKREQUEST] ''get'' [PConv QNetworkRequest, PConv QJsonDocument] RObject [OnObject QRestAccessManager],
     Bind [] ''handshakeTimeout'' [] RNumber [OnObject ''QSslServer''],
     Bind [] ''hasPendingConnections'' [] RBool [OnObject ''QLocalServer'', OnObject ''QTcpServer''],
     Bind [] ''hasPendingDatagrams'' [] RBool [OnObject ''QUdpSocket''],
     Bind [TypeM QTNETWORK_QNETWORKREPLY, ValueM QTNETWORK_QNETWORKREQUEST] ''head'' [PConv QNetworkRequest] RObject [OnObject QNetworkAccessManager, OnObject QRestAccessManager]]"

definition meth_qtnetwork_0_9 :: "binding list" where
  "meth_qtnetwork_0_9 = [
     Bind [TypeM QTNETWORK_QNETWORKREQUEST] ''header'' [PConv ''QNetworkRequest::KnownHeaders''] RVariant [OnObject QNetworkReply],
     Bind [ValueM QTNETWORK_QHTTPHEADERS] ''headers'' [] (RValue QHttpHeaders) [OnObject QNetworkReply],
     Bind [ValueM ''QTNETWORK_QDNSHOSTADDRESSRECORD''] ''hostAddressRecords'' [] (RList (IValue QDnsHostAddressRecord)) [OnObject QDnsLookup],
     Bind [] ''ignoreSslErrors'' [] RVoid [OnObject QNetworkReply, OnObject QSslSocket],
     Bind [ValueM ''QTNETWORK_QSSLERROR''] ''ignoreSslErrors'' [PListV ''QSslError''] RVoid [OnObject QNetworkReply, OnObject QSslSocket],
     Bind [TypeM QTCORE_QIODEVICE] ''insert'' [PNonNull QIODevice_ptr] RVoid [OnObject QNetworkDiskCache]]"

definition meth_qtnetwork_0_10 :: "binding list" where
  "meth_qtnetwork_0_10 = [
     Bind [ValueM QTNETWORK_QNETWORKCOOKIE] ''insertCookie'' [PConv QNetworkCookie] RBool [OnObject ''QNetworkCookieJar''],
     Bind [TypeM ''QTNETWORK_QNETWORKINFORMATION''] ''instance'' [] RObject [Static ''QNetworkInformation''],
     Bind [ValueM QTNETWORK_QNETWORKINTERFACE] ''interfaceFromIndex'' [PInt] (RValue QNetworkInterface) [Static QNetworkInterface],
     Bind [ValueM QTNETWORK_QNETWORKINTERFACE] ''interfaceFromName'' [PString True] (RValue QNetworkInterface) [Static QNetworkInterface],
     Bind [] ''interfaceIndexFromName'' [PString True] RNumber [Static QNetworkInterface],
     Bind [] ''interfaceNameFromIndex'' [PInt] RString [Static QNetworkInterface],
     Bind [] ''isAuthenticData'' [] RBool [OnObject QDnsLookup]]"

definition meth_qtnetwork_0_11 :: "binding list" where
  "meth_qtnetwork_0_11 = [
     Bind [] ''isBehindCaptivePortal'' [] RBool [OnObject ''QNetworkInformation''],
     Bind [] ''isEncrypted'' [] RBool [OnObject QSslSocket],
     Bind [] ''isFinished'' [] RBool [OnObject QDnsLookup, OnObject QNetworkReply],
     Bind [] ''isListening'' [] RBool [OnObject ''QLocalServer'', OnObject ''QTcpServer''],
     Bind [] ''isMetered'' [] RBool [OnObject ''QNetworkInformation''],
     Bind [TypeM ''QTNETWORK_QDNSLOOKUP''] ''isProtocolSupported'' [PConv ''QDnsLookup::Protocol''] RBool [Static QDnsLookup],
     Bind [] ''isRunning'' [] RBool [OnObject QNetworkReply]]"

definition meth_qtnetwork_0_12 :: "binding list" where
  "meth_qtnetwork_0_12 = [
     Bind [] ''isSequential'' [] RBool [OnObject QAbstractSocket, OnObject QLocalSocket, OnObject QNetworkReply],
     Bind [] ''isStrictTransportSecurityEnabled'' [] RBool [OnObject QNetworkAccessManager],
     Bind [] ''isStrictTransportSecurityStoreEnabled'' [] RBool [OnObject QNetworkAccessManager],
     Bind [] ''isValid'' [] RBool [OnObject QAbstractSocket, OnObject QLocalSocket],
     Bind [ValueM QTNETWORK_QHOSTADDRESS] ''joinMulticastGroup'' [PConv QHostAddress] RBool [OnObject ''QUdpSocket''],
     Bind [ValueM QTNETWORK_QHOSTADDRESS, ValueM QTNETWORK_QNETWORKINTERFACE] ''joinMulticastGroup'' [PConv QHostAddress, PConv QNetworkInterface] RBool [OnObject ''QUdpSocket''],
     Bind [ValueM QTNETWORK_QHOSTADDRESS] ''leaveMulticastGroup'' [PConv QHostAddress] RBool [OnObject ''QUdpSocket'']]"

definition meth_qtnetwork_0_13 :: "binding list" where
  "meth_qtnetwork_0_13 = [
     Bind [ValueM QTNETWORK_QHOSTADDRESS, ValueM QTNETWORK_QNETWORKINTERFACE] ''leaveMulticastGroup'' [PConv QHostAddress, PConv QNetworkInterface] RBool [OnObject ''QUdpSocket''],
     Bind [] ''listen'' [PString True] RBool [OnObject ''QLocalServer''],
     Bind [] ''listenBacklogSize'' [] RNumber [OnObject ''QLocalServer'', OnObject ''QTcpServer''],
     Bind [TypeM ''QTNETWORK_QNETWORKINFORMATION''] ''load'' [PConv ''QNetworkInformation::Features''] RBool [Static ''QNetworkInformation''],
     Bind [TypeM ''QTNETWORK_QNETWORKINFORMATION''] ''loadBackendByFeatures'' [PConv ''QNetworkInformation::Features''] RBool [Static ''QNetworkInformation''],
     Bind [] ''loadDefaultBackend'' [] RBool [Static ''QNetworkInformation''],
     Bind [ValueM QTNETWORK_QHOSTADDRESS] ''localAddress'' [] (RValue QHostAddress) [OnObject QAbstractSocket]]"

definition meth_qtnetwork_0_14 :: "binding list" where
  "meth_qtnetwork_0_14 = [
     Bind [ValueM QTNETWORK_QSSLCERTIFICATE] ''localCertificate'' [] (RValue QSslCertificate) [OnObject QSslSocket],
     Bind [ValueM QTNETWORK_QSSLCERTIFICATE] ''localCertificateChain'' [] (RList (IValue QSslCertificate)) [OnObject QSslSocket],
     Bind [] ''localDomainName'' [] RString [Static ''QHostInfo''],
     Bind [] ''localHostName'' [] RString [Static ''QHostInfo''],
     Bind [] ''lookup'' [] RVoid [OnObject QDnsLookup],
     Bind [ValueM ''QTNETWORK_QDNSMAILEXCHANGERECORD''] ''mailExchangeRecords'' [] (RList (IValue QDnsMailExchangeRecord)) [OnObject QDnsLookup],
     Bind [TypeM QTNETWORK_QNETWORKACCESSMANAGER] ''manager'' [] RObject [OnObject QNetworkReply]]"

definition meth_qtnetwork_0_15 :: "binding list" where
  "meth_qtnetwork_0_15 = [
     Bind [] ''maxPendingConnections'' [] RNumber [OnObject ''QLocalServer'', OnObject ''QTcpServer''],
     Bind [] ''maximumCacheSize'' [] (RMeta ''qint64'') [OnObject QNetworkDiskCache],
     Bind [ValueM QTCORE_QURL, ValueM ''QTNETWORK_QNETWORKCACHEMETADATA''] ''metaData'' [PConv QUrl] (RValue QNetworkCacheMetaData) [OnObject QNetworkDiskCache],
     Bind [TypeM ''QTNETWORK_QSSLSOCKET''] ''mode'' [] (RMeta ''QSslSocket::SslMode'') [OnObject QSslSocket],
     Bind [ValueM QTNETWORK_QNETWORKINTERFACE] ''multicastInterface'' [] (RValue QNetworkInterface) [OnObject ''QUdpSocket''],
     Bind [] ''name'' [] RString [OnObject QDnsLookup],
     Bind [ValueM ''QTNETWORK_QDNSDOMAINNAMERECORD''] ''nameServerRecords'' [] (RList (IValue QDnsDomainNameRecord)) [OnObject QDnsLookup]]"

definition meth_qtnetwork_0_16 :: "binding list" where
  "meth_qtnetwork_0_16 = [
     Bind [ValueM QTNETWORK_QHOSTADDRESS] ''nameserver'' [] (RValue QHostAddress) [OnObject QDnsLookup],
     Bind [TypeM ''QTNETWORK_QDNSLOOKUP''] ''nameserverProtocol'' [] (RMeta ''QDnsLookup::Protocol'') [OnObject QDnsLookup],
     Bind [TypeM QTNETWORK_QNETWORKACCESSMANAGER] ''networkAccessManager'' [] RObject [OnObject QRestAccessManager],
     Bind [TypeM ''QTNETWORK_QLOCALSOCKET''] ''nextPendingConnection'' [] RObject [OnObject ''QLocalServer''],
     Bind [TypeM ''QTNETWORK_QTCPSOCKET''] ''nextPendingConnection'' [] RObject [OnObject ''QTcpServer''],
     Bind [ValueM ''QTNETWORK_QOCSPRESPONSE''] ''ocspResponses'' [] (RList (IValue ''QOcspResponse'')) [OnObject QSslSocket],
     Bind [TypeM QTNETWORK_QNETWORKACCESSMANAGER] ''operation'' [] (RMeta ''QNetworkAccessManager::Operation'') [OnObject QNetworkReply]]"

definition meth_qtnetwork_0_17 :: "binding list" where
  "meth_qtnetwork_0_17 = [
     Bind [TypeM QTNETWORK_QNETWORKREPLY, ValueM QTCORE_QBYTEARRAY, ValueM QTNETWORK_QNETWORKREQUEST] ''patch'' [PConv QNetworkRequest, PConv QByteArray] RObject [OnObject QRestAccessManager],
     Bind [TypeM QTCORE_QIODEVICE, TypeM QTNETWORK_QNETWORKREPLY, ValueM QTNETWORK_QNETWORKREQUEST] ''patch'' [PConv QNetworkRequest, PNonNull QIODevice_ptr] RObject [OnObject QRestAccessManager],
     Bind [TypeM QTNETWORK_QNETWORKREPLY, ValueM ''QTCORE_QJSONDOCUMENT'', ValueM QTNETWORK_QNETWORKREQUEST] ''patch'' [PConv QNetworkRequest, PConv QJsonDocument] RObject [OnObject QRestAccessManager],
     Bind [] ''pauseAccepting'' [] RVoid [OnObject ''QTcpServer''],
     Bind [ValueM QTNETWORK_QHOSTADDRESS] ''peerAddress'' [] (RValue QHostAddress) [OnObject QAbstractSocket],
     Bind [ValueM QTNETWORK_QSSLCERTIFICATE] ''peerCertificate'' [] (RValue QSslCertificate) [OnObject QSslSocket]]"

definition meth_qtnetwork_0_18 :: "binding list" where
  "meth_qtnetwork_0_18 = [
     Bind [ValueM QTNETWORK_QSSLCERTIFICATE] ''peerCertificateChain'' [] (RList (IValue QSslCertificate)) [OnObject QSslSocket],
     Bind [] ''peerName'' [] RString [OnObject QAbstractSocket],
     Bind [] ''peerVerifyDepth'' [] RNumber [OnObject QSslSocket],
     Bind [TypeM ''QTNETWORK_QSSLSOCKET''] ''peerVerifyMode'' [] (RMeta ''QSslSocket::PeerVerifyMode'') [OnObject QSslSocket],
     Bind [] ''peerVerifyName'' [] RString [OnObject QSslSocket],
     Bind [] ''pendingDatagramSize'' [] (RMeta ''qint64'') [OnObject ''QUdpSocket''],
     Bind [ValueM ''QTNETWORK_QDNSDOMAINNAMERECORD''] ''pointerRecords'' [] (RList (IValue QDnsDomainNameRecord)) [OnObject QDnsLookup]]"

definition meth_qtnetwork_0_19 :: "binding list" where
  "meth_qtnetwork_0_19 = [
     Bind [TypeM QTNETWORK_QNETWORKREPLY, ValueM QTCORE_QBYTEARRAY, ValueM QTNETWORK_QNETWORKREQUEST] ''post'' [PConv QNetworkRequest, PConv QByteArray] RObject [OnObject QNetworkAccessManager, OnObject QRestAccessManager],
     Bind [TypeM ''QTNETWORK_QHTTPMULTIPART'', TypeM QTNETWORK_QNETWORKREPLY, ValueM QTNETWORK_QNETWORKREQUEST] ''post'' [PConv QNetworkRequest, PNonNull ''QHttpMultiPart*''] RObject [OnObject QNetworkAccessManager, OnObject QRestAccessManager],
     Bind [TypeM QTCORE_QIODEVICE, TypeM QTNETWORK_QNETWORKREPLY, ValueM QTNETWORK_QNETWORKREQUEST] ''post'' [PConv QNetworkRequest, PNonNull QIODevice_ptr] RObject [OnObject QNetworkAccessManager, OnObject QRestAccessManager],
     Bind [TypeM QTNETWORK_QNETWORKREPLY, ValueM ''QTCORE_QJSONDOCUMENT'', ValueM QTNETWORK_QNETWORKREQUEST] ''post'' [PConv QNetworkRequest, PConv QJsonDocument] RObject [OnObject QRestAccessManager],
     Bind [TypeM QTCORE_QIODEVICE, ValueM ''QTNETWORK_QNETWORKCACHEMETADATA''] ''prepare'' [PConv QNetworkCacheMetaData] RObject [OnObject QNetworkDiskCache]]"

definition meth_qtnetwork_0_20 :: "binding list" where
  "meth_qtnetwork_0_20 = [
     Bind [ValueM ''QTNETWORK_QSSLKEY''] ''privateKey'' [] (RValue ''QSslKey'') [OnObject QSslSocket],
     Bind [] ''protocolTag'' [] RString [OnObject QAbstractSocket],
     Bind [ValueM QTNETWORK_QNETWORKPROXY] ''proxy'' [] (RValue QNetworkProxy) [OnObject QAbstractSocket, OnObject QNetworkAccessManager, OnObject ''QTcpServer''],
     Bind [ValueM QTNETWORK_QNETWORKPROXY, ValueM QTNETWORK_QNETWORKPROXYQUERY] ''proxyForQuery'' [PConv QNetworkProxyQuery] (RList (IValue QNetworkProxy)) [Static ''QNetworkProxyFactory''],
     Bind [TypeM QTNETWORK_QNETWORKREPLY, ValueM QTCORE_QBYTEARRAY, ValueM QTNETWORK_QNETWORKREQUEST] ''put'' [PConv QNetworkRequest, PConv QByteArray] RObject [OnObject QNetworkAccessManager, OnObject QRestAccessManager]]"

definition meth_qtnetwork_0_21 :: "binding list" where
  "meth_qtnetwork_0_21 = [
     Bind [TypeM ''QTNETWORK_QHTTPMULTIPART'', TypeM QTNETWORK_QNETWORKREPLY, ValueM QTNETWORK_QNETWORKREQUEST] ''put'' [PConv QNetworkRequest, PNonNull ''QHttpMultiPart*''] RObject [OnObject QNetworkAccessManager, OnObject QRestAccessManager],
     Bind [TypeM QTCORE_QIODEVICE, TypeM QTNETWORK_QNETWORKREPLY, ValueM QTNETWORK_QNETWORKREQUEST] ''put'' [PConv QNetworkRequest, PNonNull QIODevice_ptr] RObject [OnObject QNetworkAccessManager, OnObject QRestAccessManager],
     Bind [TypeM QTNETWORK_QNETWORKREPLY, ValueM ''QTCORE_QJSONDOCUMENT'', ValueM QTNETWORK_QNETWORKREQUEST] ''put'' [PConv QNetworkRequest, PConv QJsonDocument] RObject [OnObject QRestAccessManager],
     Bind [ValueM QTCORE_QBYTEARRAY] ''rawHeaderList'' [] (RList (IValue QByteArray)) [OnObject QNetworkReply],
     Bind [TypeM ''QTNETWORK_QNETWORKINFORMATION''] ''reachability'' [] (RMeta ''QNetworkInformation::Reachability'') [OnObject ''QNetworkInformation'']]"

definition meth_qtnetwork_0_22 :: "binding list" where
  "meth_qtnetwork_0_22 = [
     Bind [] ''readBufferSize'' [] (RMeta ''qint64'') [OnObject QAbstractSocket, OnObject QLocalSocket, OnObject QNetworkReply],
     Bind [ValueM ''QTNETWORK_QNETWORKDATAGRAM''] ''receiveDatagram'' [PWide ''qint64''] (RValue QNetworkDatagram) [OnObject ''QUdpSocket''],
     Bind [TypeM QTNETWORK_QNETWORKREQUEST] ''redirectPolicy'' [] (RMeta ''QNetworkRequest::RedirectPolicy'') [OnObject QNetworkAccessManager],
     Bind [ValueM QTCORE_QURL] ''remove'' [PConv QUrl] RBool [OnObject QNetworkDiskCache],
     Bind [] ''removeServer'' [PString True] RBool [Static ''QLocalServer''],
     Bind [ValueM QTNETWORK_QNETWORKREQUEST] ''request'' [] (RValue QNetworkRequest) [OnObject QNetworkReply]]"

definition meth_qtnetwork_0_23 :: "binding list" where
  "meth_qtnetwork_0_23 = [
     Bind [] ''resume'' [] RVoid [OnObject QAbstractSocket, OnObject QSslSocket],
     Bind [] ''resumeAccepting'' [] RVoid [OnObject ''QTcpServer''],
     Bind [TypeM QTNETWORK_QNETWORKREPLY, ValueM QTCORE_QBYTEARRAY, ValueM QTNETWORK_QNETWORKREQUEST] ''sendCustomRequest'' [PConv QNetworkRequest, PConv QByteArray, PConv QByteArray] RObject [OnObject QNetworkAccessManager, OnObject QRestAccessManager],
     Bind [TypeM ''QTNETWORK_QHTTPMULTIPART'', TypeM QTNETWORK_QNETWORKREPLY, ValueM QTCORE_QBYTEARRAY, ValueM QTNETWORK_QNETWORKREQUEST] ''sendCustomRequest'' [PConv QNetworkRequest, PConv QByteArray, PNonNull ''QHttpMultiPart*''] RObject [OnObject QNetworkAccessManager, OnObject QRestAccessManager],
     Bind [TypeM QTCORE_QIODEVICE, TypeM QTNETWORK_QNETWORKREPLY, ValueM QTCORE_QBYTEARRAY, ValueM QTNETWORK_QNETWORKREQUEST] ''sendCustomRequest'' [PConv QNetworkRequest, PConv QByteArray, PNonNull QIODevice_ptr] RObject [OnObject QNetworkAccessManager, OnObject QRestAccessManager]]"

definition meth_qtnetwork_0_24 :: "binding list" where
  "meth_qtnetwork_0_24 = [
     Bind [ValueM QTNETWORK_QHOSTADDRESS] ''serverAddress'' [] (RValue QHostAddress) [OnObject ''QTcpServer''],
     Bind [TypeM QTNETWORK_QABSTRACTSOCKET] ''serverError'' [] (RMeta ''QAbstractSocket::SocketError'') [OnObject ''QLocalServer'', OnObject ''QTcpServer''],
     Bind [] ''serverName'' [] RString [OnObject ''QLocalServer'', OnObject QLocalSocket],
     Bind [ValueM ''QTNETWORK_QDNSSERVICERECORD''] ''serviceRecords'' [] (RList (IValue ''QDnsServiceRecord'')) [OnObject QDnsLookup],
     Bind [ValueM ''QTNETWORK_QSSLCIPHER''] ''sessionCipher'' [] (RValue ''QSslCipher'') [OnObject QSslSocket],
     Bind [] ''setActiveBackend'' [PString True] RBool [Static QSslSocket],
     Bind [ValueM QTNETWORK_QNETWORKPROXY] ''setApplicationProxy'' [PConv QNetworkProxy] RVoid [Static QNetworkProxy]]"

definition meth_qtnetwork_0_25 :: "binding list" where
  "meth_qtnetwork_0_25 = [
     Bind [] ''setAutoDeleteReplies'' [PBool] RVoid [OnObject QNetworkAccessManager],
     Bind [ValueM QTCORE_QBYTEARRAY] ''setBoundary'' [PConv QByteArray] RVoid [OnObject ''QHttpMultiPart''],
     Bind [TypeM ''QTNETWORK_QABSTRACTNETWORKCACHE''] ''setCache'' [PNonNull ''QAbstractNetworkCache*''] RVoid [OnObject QNetworkAccessManager],
     Bind [] ''setCacheDirectory'' [PString True] RVoid [OnObject QNetworkDiskCache],
     Bind [TypeM ''QTNETWORK_QHTTPMULTIPART''] ''setContentType'' [PConv ''QHttpMultiPart::ContentType''] RVoid [OnObject ''QHttpMultiPart''],
     Bind [TypeM ''QTNETWORK_QNETWORKCOOKIEJAR''] ''setCookieJar'' [PNonNull ''QNetworkCookieJar*''] RVoid [OnObject QNetworkAccessManager]]"

definition meth_qtnetwork_0_26 :: "binding list" where
  "meth_qtnetwork_0_26 = [
     Bind [ValueM QTCORE_QURL, ValueM QTNETWORK_QNETWORKCOOKIE] ''setCookiesFromUrl'' [PListV QNetworkCookie, PConv QUrl] RBool [OnObject ''QNetworkCookieJar''],
     Bind [ValueM QTNETWORK_QSSLCONFIGURATION] ''setDefaultConfiguration'' [PConv QSslConfiguration] RVoid [Static QSslConfiguration],
     Bind [ValueM QTNETWORK_QSSLCONFIGURATION] ''setDefaultDtlsConfiguration'' [PConv QSslConfiguration] RVoid [Static QSslConfiguration],
     Bind [] ''setHandshakeTimeout'' [PInt] RVoid [OnObject ''QSslServer''],
     Bind [] ''setListenBacklogSize'' [PInt] RVoid [OnObject ''QLocalServer'', OnObject ''QTcpServer''],
     Bind [ValueM QTNETWORK_QSSLCERTIFICATE] ''setLocalCertificate'' [PConv QSslCertificate] RVoid [OnObject QSslSocket]]"

definition meth_qtnetwork_0_27 :: "binding list" where
  "meth_qtnetwork_0_27 = [
     Bind [ValueM QTNETWORK_QSSLCERTIFICATE] ''setLocalCertificateChain'' [PListV QSslCertificate] RVoid [OnObject QSslSocket],
     Bind [] ''setMaxPendingConnections'' [PInt] RVoid [OnObject ''QLocalServer'', OnObject ''QTcpServer''],
     Bind [] ''setMaximumCacheSize'' [PWide ''qint64''] RVoid [OnObject QNetworkDiskCache],
     Bind [ValueM QTNETWORK_QNETWORKINTERFACE] ''setMulticastInterface'' [PConv QNetworkInterface] RVoid [OnObject ''QUdpSocket''],
     Bind [] ''setName'' [PString True] RVoid [OnObject QDnsLookup],
     Bind [ValueM QTNETWORK_QHOSTADDRESS] ''setNameserver'' [PConv QHostAddress] RVoid [OnObject QDnsLookup]]"

definition meth_qtnetwork_0_28 :: "binding list" where
  "meth_qtnetwork_0_28 = [
     Bind [TypeM ''QTNETWORK_QDNSLOOKUP''] ''setNameserverProtocol'' [PConv ''QDnsLookup::Protocol''] RVoid [OnObject QDnsLookup],
     Bind [] ''setPeerVerifyDepth'' [PInt] RVoid [OnObject QSslSocket],
     Bind [TypeM ''QTNETWORK_QSSLSOCKET''] ''setPeerVerifyMode'' [PConv ''QSslSocket::PeerVerifyMode''] RVoid [OnObject QSslSocket],
     Bind [] ''setPeerVerifyName'' [PString True] RVoid [OnObject QSslSocket],
     Bind [ValueM ''QTNETWORK_QSSLKEY''] ''setPrivateKey'' [PConv ''QSslKey''] RVoid [OnObject QSslSocket],
     Bind [] ''setProtocolTag'' [PString True] RVoid [OnObject QAbstractSocket]]"

definition meth_qtnetwork_0_29 :: "binding list" where
  "meth_qtnetwork_0_29 = [
     Bind [ValueM QTNETWORK_QNETWORKPROXY] ''setProxy'' [PConv QNetworkProxy] RVoid [OnObject QAbstractSocket, OnObject QNetworkAccessManager, OnObject ''QTcpServer''],
     Bind [] ''setReadBufferSize'' [PWide ''qint64''] RVoid [OnObject QAbstractSocket, OnObject QLocalSocket, OnObject QNetworkReply, OnObject QSslSocket],
     Bind [TypeM QTNETWORK_QNETWORKREQUEST] ''setRedirectPolicy'' [PConv ''QNetworkRequest::RedirectPolicy''] RVoid [OnObject QNetworkAccessManager],
     Bind [] ''setServerName'' [PString True] RVoid [OnObject QLocalSocket],
     Bind [TypeM QTNETWORK_QABSTRACTSOCKET] ''setSocketOption'' [PConv ''QAbstractSocket::SocketOption'', PVariant] RVoid [OnObject QAbstractSocket, OnObject QSslSocket]]"

definition meth_qtnetwork_0_30 :: "binding list" where
  "meth_qtnetwork_0_30 = [
     Bind [TypeM ''QTNETWORK_QLOCALSERVER''] ''setSocketOptions'' [PConv ''QLocalServer::SocketOptions''] RVoid [OnObject ''QLocalServer''],
     Bind [TypeM ''QTNETWORK_QLOCALSOCKET''] ''setSocketOptions'' [PConv ''QLocalSocket::SocketOptions''] RVoid [OnObject QLocalSocket],
     Bind [ValueM QTNETWORK_QSSLCONFIGURATION] ''setSslConfiguration'' [PConv QSslConfiguration] RVoid [OnObject QDnsLookup, OnObject QNetworkReply, OnObject ''QSslServer'', OnObject QSslSocket],
     Bind [] ''setStrictTransportSecurityEnabled'' [PBool] RVoid [OnObject QNetworkAccessManager],
     Bind [] ''setTransferTimeout'' [PInt] RVoid [OnObject QNetworkAccessManager],
     Bind [TypeM ''QTNETWORK_QDNSLOOKUP''] ''setType'' [PConv ''QDnsLookup::Type''] RVoid [OnObject QDnsLookup]]"

definition meth_qtnetwork_0_31 :: "binding list" where
  "meth_qtnetwork_0_31 = [
     Bind [] ''setUseSystemConfiguration'' [PBool] RVoid [Static ''QNetworkProxyFactory''],
     Bind [TypeM QTNETWORK_QABSTRACTSOCKET] ''socketOption'' [PConv ''QAbstractSocket::SocketOption''] RVariant [OnObject QAbstractSocket, OnObject QSslSocket],
     Bind [TypeM ''QTNETWORK_QLOCALSERVER''] ''socketOptions'' [] (RMeta ''QLocalServer::SocketOptions'') [OnObject ''QLocalServer''],
     Bind [TypeM ''QTNETWORK_QLOCALSOCKET''] ''socketOptions'' [] (RMeta ''QLocalSocket::SocketOptions'') [OnObject QLocalSocket],
     Bind [TypeM QTNETWORK_QABSTRACTSOCKET] ''socketType'' [] (RMeta ''QAbstractSocket::SocketType'') [OnObject QAbstractSocket],
     Bind [ValueM QTNETWORK_QSSLCONFIGURATION] ''sslConfiguration'' [] (RValue QSslConfiguration) [OnObject QDnsLookup, OnObject QNetworkReply, OnObject ''QSslServer'', OnObject QSslSocket]]"

definition meth_qtnetwork_0_32 :: "binding list" where
  "meth_qtnetwork_0_32 = [
     Bind [ValueM ''QTNETWORK_QSSLERROR''] ''sslHandshakeErrors'' [] (RList (IValue ''QSslError'')) [OnObject QSslSocket],
     Bind [] ''sslLibraryBuildVersionString'' [] RString [Static QSslSocket],
     Bind [] ''sslLibraryVersionString'' [] RString [Static QSslSocket],
     Bind [] ''startClientEncryption'' [] RVoid [OnObject QSslSocket],
     Bind [] ''startServerEncryption'' [] RVoid [OnObject QSslSocket],
     Bind [TypeM QTNETWORK_QABSTRACTSOCKET] ''state'' [] (RMeta ''QAbstractSocket::SocketState'') [OnObject QAbstractSocket],
     Bind [TypeM ''QTNETWORK_QLOCALSOCKET''] ''state'' [] (RMeta ''QLocalSocket::LocalSocketState'') [OnObject QLocalSocket],
     Bind [ValueM ''QTNETWORK_QHSTSPOLICY''] ''strictTransportSecurityHosts'' [] (RList (IValue ''QHstsPolicy'')) [OnObject QNetworkAccessManager]]"

definition meth_qtnetwork_0_33 :: "binding list" where
  "meth_qtnetwork_0_33 = [
     Bind [ValueM ''QTNETWORK_QSSLCIPHER''] ''supportedCiphers'' [] (RList (IValue ''QSslCipher'')) [Static QSslConfiguration],
     Bind [ValueM ''QTNETWORK_QSSLELLIPTICCURVE''] ''supportedEllipticCurves'' [] (RList (IValue QSslEllipticCurve)) [Static QSslConfiguration],
     Bind [TypeM ''QTNETWORK_QNETWORKINFORMATION''] ''supportedFeatures'' [] (RMeta ''QNetworkInformation::Features'') [OnObject ''QNetworkInformation''],
     Bind [] ''supportedSchemes'' [] (RList (IMeta QString)) [OnObject QNetworkAccessManager],
     Bind [TypeM ''QTNETWORK_QNETWORKINFORMATION''] ''supports'' [PConv ''QNetworkInformation::Features''] RBool [OnObject ''QNetworkInformation''],
     Bind [] ''supportsSsl'' [] RBool [Static QSslSocket],
     Bind [ValueM QTNETWORK_QSSLCERTIFICATE] ''systemCaCertificates'' [] (RList (IValue QSslCertificate)) [Static QSslConfiguration]]"

definition meth_qtnetwork_0_34 :: "binding list" where
  "meth_qtnetwork_0_34 = [
     Bind [ValueM QTNETWORK_QNETWORKPROXY, ValueM QTNETWORK_QNETWORKPROXYQUERY] ''systemProxyForQuery'' [PConv QNetworkProxyQuery] (RList (IValue QNetworkProxy)) [Static ''QNetworkProxyFactory''],
     Bind [ValueM ''QTNETWORK_QDNSTEXTRECORD''] ''textRecords'' [] (RList (IValue ''QDnsTextRecord'')) [OnObject QDnsLookup],
     Bind [ValueM ''QTNETWORK_QDNSTLSASSOCIATIONRECORD''] ''tlsAssociationRecords'' [] (RList (IValue QDnsTlsAssociationRecord)) [OnObject QDnsLookup],
     Bind [] ''transferTimeout'' [] RNumber [OnObject QNetworkAccessManager],
     Bind [TypeM ''QTNETWORK_QNETWORKINFORMATION''] ''transportMedium'' [] (RMeta ''QNetworkInformation::TransportMedium'') [OnObject ''QNetworkInformation''],
     Bind [TypeM ''QTNETWORK_QDNSLOOKUP''] ''type'' [] (RMeta ''QDnsLookup::Type'') [OnObject QDnsLookup],
     Bind [ValueM QTNETWORK_QNETWORKCOOKIE] ''updateCookie'' [PConv QNetworkCookie] RBool [OnObject ''QNetworkCookieJar'']]"

definition meth_qtnetwork_0_35 :: "binding list" where
  "meth_qtnetwork_0_35 = [
     Bind [ValueM ''QTNETWORK_QNETWORKCACHEMETADATA''] ''updateMetaData'' [PConv QNetworkCacheMetaData] RVoid [OnObject QNetworkDiskCache],
     Bind [ValueM QTCORE_QURL] ''url'' [] (RValue QUrl) [OnObject QNetworkReply],
     Bind [] ''usesSystemConfiguration'' [] RBool [Static ''QNetworkProxyFactory''],
     Bind [ValueM QTNETWORK_QSSLCERTIFICATE, ValueM ''QTNETWORK_QSSLERROR''] ''verify'' [PListV QSslCertificate, PString True] (RList (IValue ''QSslError'')) [Static QSslCertificate],
     Bind [] ''waitForBytesWritten'' [PInt] RBool [OnObject QAbstractSocket, OnObject QLocalSocket, OnObject QSslSocket]]"

definition meth_qtnetwork_0_36 :: "binding list" where
  "meth_qtnetwork_0_36 = [
     Bind [] ''waitForConnected'' [PInt] RBool [OnObject QAbstractSocket, OnObject QLocalSocket, OnObject QSslSocket],
     Bind [] ''waitForDisconnected'' [PInt] RBool [OnObject QAbstractSocket, OnObject QLocalSocket, OnObject QSslSocket],
     Bind [] ''waitForEncrypted'' [PInt] RBool [OnObject QSslSocket],
     Bind [] ''waitForReadyRead'' [PInt] RBool [OnObject QAbstractSocket, OnObject QLocalSocket, OnObject QSslSocket],
     Bind [ValueM ''QTNETWORK_QNETWORKDATAGRAM''] ''writeDatagram'' [PConv QNetworkDatagram] (RMeta ''qint64'') [OnObject ''QUdpSocket'']]"

definition meth_table_network_a :: "(string \<times> shard) list" where
  "meth_table_network_a = [
     (''qtnetwork_0'', \<lparr>sh_module = ''QtNetwork'', sh_slug = ''QTNETWORK'',
        sh_bindings = concat [meth_qtnetwork_0_0, meth_qtnetwork_0_1, meth_qtnetwork_0_2, meth_qtnetwork_0_3, meth_qtnetwork_0_4, meth_qtnetwork_0_5, meth_qtnetwork_0_6, meth_qtnetwork_0_7, meth_qtnetwork_0_8, meth_qtnetwork_0_9, meth_qtnetwork_0_10, meth_qtnetwork_0_11, meth_qtnetwork_0_12, meth_qtnetwork_0_13, meth_qtnetwork_0_14, meth_qtnetwork_0_15, meth_qtnetwork_0_16, meth_qtnetwork_0_17, meth_qtnetwork_0_18, meth_qtnetwork_0_19, meth_qtnetwork_0_20, meth_qtnetwork_0_21, meth_qtnetwork_0_22, meth_qtnetwork_0_23, meth_qtnetwork_0_24, meth_qtnetwork_0_25, meth_qtnetwork_0_26, meth_qtnetwork_0_27, meth_qtnetwork_0_28, meth_qtnetwork_0_29, meth_qtnetwork_0_30, meth_qtnetwork_0_31, meth_qtnetwork_0_32, meth_qtnetwork_0_33, meth_qtnetwork_0_34, meth_qtnetwork_0_35, meth_qtnetwork_0_36]\<rparr>)]"

lemmas meth_table_network_a_defs =
  meth_qtnetwork_0_0_def meth_qtnetwork_0_1_def meth_qtnetwork_0_2_def meth_qtnetwork_0_3_def
  meth_qtnetwork_0_4_def meth_qtnetwork_0_5_def meth_qtnetwork_0_6_def meth_qtnetwork_0_7_def
  meth_qtnetwork_0_8_def meth_qtnetwork_0_9_def meth_qtnetwork_0_10_def meth_qtnetwork_0_11_def
  meth_qtnetwork_0_12_def meth_qtnetwork_0_13_def meth_qtnetwork_0_14_def meth_qtnetwork_0_15_def
  meth_qtnetwork_0_16_def meth_qtnetwork_0_17_def meth_qtnetwork_0_18_def meth_qtnetwork_0_19_def
  meth_qtnetwork_0_20_def meth_qtnetwork_0_21_def meth_qtnetwork_0_22_def meth_qtnetwork_0_23_def
  meth_qtnetwork_0_24_def meth_qtnetwork_0_25_def meth_qtnetwork_0_26_def meth_qtnetwork_0_27_def
  meth_qtnetwork_0_28_def meth_qtnetwork_0_29_def meth_qtnetwork_0_30_def meth_qtnetwork_0_31_def
  meth_qtnetwork_0_32_def meth_qtnetwork_0_33_def meth_qtnetwork_0_34_def meth_qtnetwork_0_35_def
  meth_qtnetwork_0_36_def

lemma meth_table_network_a_object_blocks: "list_all (\<lambda>(s, sh). object_blocks sh) meth_table_network_a"
  by (simp add: meth_table_network_a_def meth_table_network_a_defs object_blocks_def object_shard_def; (simp add: parameter_text_def qt_name_defs)?)

end
