(* ===== verification/Methods_Rest_B.thy ===== *)
theory Methods_Rest_B
  imports Shard_Methods Qt_Names
begin

text \<open>
  Tables of the method shards (generated\_methods): the blocks of every shard in the file's order.
\<close>

definition meth_qtqml_0_0 :: "binding list" where
  "meth_qtqml_0_0 = [
     Bind [TypeM ''QTQML_QQMLIMAGEPROVIDERBASE''] ''addImageProvider'' [PString True, PNonNull ''QQmlImageProviderBase*''] RVoid [OnObject QQmlEngine],
     Bind [] ''addImportPath'' [PString True] RVoid [OnObject QQmlEngine],
     Bind [] ''addPluginPath'' [PString True] RVoid [OnObject QQmlEngine],
     Bind [ValueM QTCORE_QURL] ''baseUrl'' [] (RValue QUrl) [OnObject ''QQmlContext'', OnObject QQmlEngine, OnObject ''QQmlExtensionPlugin''],
     Bind [TypeM QTCORE_QOBJECT, TypeM QTQML_QQMLCONTEXT] ''beginCreate'' [PNonNull ''QQmlContext*''] RObject [OnObject QQmlComponent],
     Bind [ValueM QTQML_QJSVALUE] ''catchError'' [] (RValue QJSValue) [OnObject ''QJSEngine'']]"

definition meth_qtqml_0_1 :: "binding list" where
  "meth_qtqml_0_1 = [
     Bind [TypeM QTQML_QQMLCONTEXT] ''childContexts'' [] (RList IObject) [OnObject ''QQmlContext''],
     Bind [] ''clear'' [PString True] RVoid [OnObject ''QQmlPropertyMap''],
     Bind [] ''clearComponentCache'' [] RVoid [OnObject QQmlEngine],
     Bind [] ''clearError'' [] RVoid [OnObject QQmlExpression],
     Bind [] ''clearSingletons'' [] RVoid [OnObject QQmlEngine],
     Bind [] ''collectGarbage'' [] RVoid [OnObject ''QJSEngine''],
     Bind [] ''columnNumber'' [] RNumber [OnObject QQmlExpression],
     Bind [] ''completeCreate'' [] RVoid [OnObject QQmlComponent]]"

definition meth_qtqml_0_2 :: "binding list" where
  "meth_qtqml_0_2 = [
     Bind [] ''contains'' [PString True] RBool [OnObject ''QQmlPropertyMap''],
     Bind [TypeM QTQML_QQMLCONTEXT] ''context'' [] RObject [OnObject QQmlExpression],
     Bind [TypeM QTCORE_QOBJECT, TypeM QTQML_QQMLCONTEXT] ''contextForObject'' [PNonNull QObject_ptr] RObject [Static QQmlEngine],
     Bind [TypeM QTCORE_QOBJECT] ''contextObject'' [] RObject [OnObject ''QQmlContext''],
     Bind [] ''contextProperty'' [PString True] RVariant [OnObject ''QQmlContext''],
     Bind [] ''count'' [] RNumber [OnObject ''QQmlPropertyMap''],
     Bind [TypeM QTCORE_QOBJECT, TypeM QTQML_QQMLCONTEXT] ''create'' [PNonNull ''QQmlContext*''] RObject [OnObject QQmlComponent]]"

definition meth_qtqml_0_3 :: "binding list" where
  "meth_qtqml_0_3 = [
     Bind [TypeM QTQML_QQMLCONTEXT, ValueM ''QTQML_QQMLINCUBATOR''] ''create'' [PConv ''QQmlIncubator'', PNonNull ''QQmlContext*'', PNonNull ''QQmlContext*''] RVoid [OnObject QQmlComponent],
     Bind [TypeM QTQML_QQMLCONTEXT] ''creationContext'' [] RObject [OnObject QQmlComponent],
     Bind [TypeM QTQML_QQMLENGINE] ''engine'' [] RObject [OnObject QQmlComponent, OnObject ''QQmlContext'', OnObject QQmlExpression],
     Bind [ValueM ''QTQML_QQMLERROR''] ''error'' [] (RValue QQmlError) [OnObject QQmlExpression],
     Bind [ValueM ''QTQML_QQMLERROR''] ''errors'' [] (RList (IValue QQmlError)) [OnObject QQmlComponent],
     Bind [] ''expression'' [] RString [OnObject QQmlExpression]]"

definition meth_qtqml_0_4 :: "binding list" where
  "meth_qtqml_0_4 = [
     Bind [TypeM QTCORE_QOBJECT] ''findObjectRecursively'' [PString True] RObject [OnObject ''QQmlContext''],
     Bind [TypeM QTCORE_QOBJECT] ''findObjectsRecursively'' [PString True] (RList IObject) [OnObject ''QQmlContext''],
     Bind [] ''freeze'' [] RVoid [OnObject ''QQmlPropertyMap''],
     Bind [ValueM QTQML_QJSVALUE] ''globalObject'' [] (RValue QJSValue) [OnObject ''QJSEngine''],
     Bind [] ''hasError'' [] RBool [OnObject ''QJSEngine'', OnObject QQmlExpression],
     Bind [TypeM ''QTQML_QQMLIMAGEPROVIDERBASE''] ''imageProvider'' [PString True] RObject [OnObject QQmlEngine],
     Bind [ValueM QTQML_QJSVALUE] ''importModule'' [PString True] (RValue QJSValue) [OnObject ''QJSEngine'']]"

definition meth_qtqml_0_5 :: "binding list" where
  "meth_qtqml_0_5 = [
     Bind [] ''importPathList'' [] (RList (IMeta QString)) [OnObject QQmlEngine],
     Bind [] ''insert'' [PString True, PVariant] RVoid [OnObject ''QQmlPropertyMap''],
     Bind [TypeM ''QTQML_QQMLABSTRACTURLINTERCEPTOR'', ValueM QTCORE_QURL] ''interceptUrl'' [PConv QUrl, PConv ''QQmlAbstractUrlInterceptor::DataType''] (RValue QUrl) [OnObject QQmlEngine],
     Bind [] ''isBound'' [] RBool [OnObject QQmlComponent],
     Bind [] ''isEmpty'' [] RBool [OnObject ''QQmlPropertyMap''],
     Bind [] ''isError'' [] RBool [OnObject QQmlComponent],
     Bind [] ''isInterrupted'' [] RBool [OnObject ''QJSEngine''],
     Bind [] ''isLoading'' [] RBool [OnObject QQmlComponent]]"

definition meth_qtqml_0_6 :: "binding list" where
  "meth_qtqml_0_6 = [
     Bind [] ''isNull'' [] RBool [OnObject QQmlComponent],
     Bind [] ''isReady'' [] RBool [OnObject QQmlComponent],
     Bind [] ''isValid'' [] RBool [OnObject ''QQmlContext''],
     Bind [] ''keys'' [] (RList (IMeta QString)) [OnObject ''QQmlPropertyMap''],
     Bind [] ''lineNumber'' [] RNumber [OnObject QQmlExpression],
     Bind [] ''load'' [PString True] RVoid [OnObject ''QQmlApplicationEngine''],
     Bind [ValueM QTCORE_QURL] ''load'' [PConv QUrl] RVoid [OnObject ''QQmlApplicationEngine''],
     Bind [ValueM QTCORE_QBYTEARRAY, ValueM QTCORE_QURL] ''loadData'' [PConv QByteArray, PConv QUrl] RVoid [OnObject ''QQmlApplicationEngine'']]"

definition meth_qtqml_0_7 :: "binding list" where
  "meth_qtqml_0_7 = [
     Bind [ValueM QTCORE_QURL] ''loadUrl'' [PConv QUrl] RVoid [OnObject QQmlComponent],
     Bind [TypeM ''QTQML_QQMLCOMPONENT'', ValueM QTCORE_QURL] ''loadUrl'' [PConv QUrl, PConv ''QQmlComponent::CompilationMode''] RVoid [OnObject QQmlComponent],
     Bind [] ''markCurrentFunctionAsTranslationBinding'' [] RVoid [OnObject QQmlEngine],
     Bind [TypeM QTCORE_QOBJECT] ''nameForObject'' [PNonNull QObject_ptr] RString [OnObject ''QQmlContext''],
     Bind [TypeM QTNETWORK_QNETWORKACCESSMANAGER] ''networkAccessManager'' [] RObject [OnObject QQmlEngine],
     Bind [ValueM QTQML_QJSVALUE] ''newArray'' [PUInt] (RValue QJSValue) [OnObject ''QJSEngine'']]"

definition meth_qtqml_0_8 :: "binding list" where
  "meth_qtqml_0_8 = [
     Bind [TypeM QTQML_QJSVALUE, ValueM QTQML_QJSVALUE] ''newErrorObject'' [PConv ''QJSValue::ErrorType'', PString True] (RValue QJSValue) [OnObject ''QJSEngine''],
     Bind [ValueM QTQML_QJSVALUE] ''newObject'' [] (RValue QJSValue) [OnObject ''QJSEngine''],
     Bind [TypeM QTCORE_QOBJECT, ValueM QTQML_QJSVALUE] ''newQObject'' [PNonNull QObject_ptr] (RValue QJSValue) [OnObject ''QJSEngine''],
     Bind [ValueM QTQML_QJSVALUE] ''newSymbol'' [PString True] (RValue QJSValue) [OnObject ''QJSEngine''],
     Bind [] ''notifyOnValueChanged'' [] RBool [OnObject QQmlExpression],
     Bind [TypeM QTCORE_QOBJECT] ''objectForName'' [PString True] RObject [OnObject ''QQmlContext''],
     Bind [TypeM QTCORE_QOBJECT, TypeM ''QTQML_QJSENGINE''] ''objectOwnership'' [PNonNull QObject_ptr] (RMeta ''QJSEngine::ObjectOwnership'') [Static ''QJSEngine'']]"

definition meth_qtqml_0_9 :: "binding list" where
  "meth_qtqml_0_9 = [
     Bind [] ''offlineStorageDatabaseFilePath'' [PString True] RString [OnObject QQmlEngine],
     Bind [] ''offlineStoragePath'' [] RString [OnObject QQmlEngine],
     Bind [] ''outputWarningsToStandardError'' [] RBool [OnObject QQmlEngine],
     Bind [TypeM QTQML_QQMLCONTEXT] ''parentContext'' [] RObject [OnObject ''QQmlContext''],
     Bind [] ''pluginPathList'' [] (RList (IMeta QString)) [OnObject QQmlEngine],
     Bind [] ''progress'' [] RNumber [OnObject QQmlComponent],
     Bind [TypeM QTCORE_QOBJECT] ''read'' [PNonNull QObject_ptr, PString True] RVariant [Static QQmlProperty]]"

definition meth_qtqml_0_10 :: "binding list" where
  "meth_qtqml_0_10 = [
     Bind [TypeM QTCORE_QOBJECT, TypeM QTQML_QQMLCONTEXT] ''read'' [PNonNull QObject_ptr, PString True, PNonNull ''QQmlContext*''] RVariant [Static QQmlProperty],
     Bind [TypeM QTCORE_QOBJECT, TypeM QTQML_QQMLENGINE] ''read'' [PNonNull QObject_ptr, PString True, PNonNull ''QQmlEngine*''] RVariant [Static QQmlProperty],
     Bind [ValueM QTQML_QJSVALUE] ''registerModule'' [PString True, PConv QJSValue] RBool [OnObject ''QJSEngine''],
     Bind [] ''removeImageProvider'' [PString True] RVoid [OnObject QQmlEngine],
     Bind [ValueM QTCORE_QURL] ''resolvedUrl'' [PConv QUrl] (RValue QUrl) [OnObject ''QQmlContext''],
     Bind [] ''retranslate'' [] RVoid [OnObject QQmlEngine]]"

definition meth_qtqml_0_11 :: "binding list" where
  "meth_qtqml_0_11 = [
     Bind [TypeM QTQML_QQMLCONTEXT] ''rootContext'' [] RObject [OnObject QQmlEngine],
     Bind [TypeM QTCORE_QOBJECT] ''rootObjects'' [] (RList IObject) [OnObject ''QQmlApplicationEngine''],
     Bind [TypeM QTCORE_QOBJECT] ''scopeObject'' [] RObject [OnObject QQmlExpression],
     Bind [TypeM ''QTCORE_QFILESELECTOR''] ''selector'' [] RObject [OnObject ''QQmlFileSelector''],
     Bind [ValueM QTCORE_QURL] ''setBaseUrl'' [PConv QUrl] RVoid [OnObject ''QQmlContext'', OnObject QQmlEngine],
     Bind [TypeM QTCORE_QOBJECT, TypeM QTQML_QQMLCONTEXT] ''setContextForObject'' [PNonNull QObject_ptr, PNonNull ''QQmlContext*''] RVoid [Static QQmlEngine]]"

definition meth_qtqml_0_12 :: "binding list" where
  "meth_qtqml_0_12 = [
     Bind [TypeM QTCORE_QOBJECT] ''setContextObject'' [PNonNull QObject_ptr] RVoid [OnObject ''QQmlContext''],
     Bind [TypeM QTCORE_QOBJECT] ''setContextProperty'' [PString True, PNonNull QObject_ptr] RVoid [OnObject ''QQmlContext''],
     Bind [] ''setContextProperty'' [PString True, PVariant] RVoid [OnObject ''QQmlContext''],
     Bind [ValueM QTCORE_QBYTEARRAY, ValueM QTCORE_QURL] ''setData'' [PConv QByteArray, PConv QUrl] RVoid [OnObject QQmlComponent],
     Bind [] ''setExpression'' [PString True] RVoid [OnObject QQmlExpression],
     Bind [] ''setExtraFileSelectors'' [PStringList] RVoid [OnObject ''QQmlApplicationEngine'']]"

definition meth_qtqml_0_13 :: "binding list" where
  "meth_qtqml_0_13 = [
     Bind [] ''setExtraSelectors'' [PStringList] RVoid [OnObject ''QQmlFileSelector''],
     Bind [] ''setImportPathList'' [PStringList] RVoid [OnObject QQmlEngine],
     Bind [] ''setInterrupted'' [PBool] RVoid [OnObject ''QJSEngine''],
     Bind [] ''setNotifyOnValueChanged'' [PBool] RVoid [OnObject QQmlExpression],
     Bind [] ''setOfflineStoragePath'' [PString True] RVoid [OnObject QQmlEngine],
     Bind [] ''setOutputWarningsToStandardError'' [PBool] RVoid [OnObject QQmlEngine],
     Bind [] ''setPluginPathList'' [PStringList] RVoid [OnObject QQmlEngine]]"

definition meth_qtqml_0_14 :: "binding list" where
  "meth_qtqml_0_14 = [
     Bind [TypeM ''QTCORE_QFILESELECTOR''] ''setSelector'' [PNonNull ''QFileSelector*''] RVoid [OnObject ''QQmlFileSelector''],
     Bind [] ''setSourceLocation'' [PString True, PInt, PInt] RVoid [OnObject QQmlExpression],
     Bind [] ''setUiLanguage'' [PString True] RVoid [OnObject ''QJSEngine''],
     Bind [] ''size'' [] RNumber [OnObject ''QQmlPropertyMap''],
     Bind [] ''sourceFile'' [] RString [OnObject QQmlExpression],
     Bind [TypeM ''QTQML_QQMLCOMPONENT''] ''status'' [] (RMeta ''QQmlComponent::Status'') [OnObject QQmlComponent],
     Bind [ValueM QTQML_QJSVALUE] ''throwError'' [PConv QJSValue] RVoid [OnObject ''QJSEngine'']]"

definition meth_qtqml_0_15 :: "binding list" where
  "meth_qtqml_0_15 = [
     Bind [TypeM QTQML_QJSVALUE] ''throwError'' [PConv ''QJSValue::ErrorType'', PString True] RVoid [OnObject ''QJSEngine''],
     Bind [] ''throwError'' [PString True] RVoid [OnObject ''QJSEngine'', OnObject ''QJSEngine''],
     Bind [ValueM ''QTQML_QJSMANAGEDVALUE''] ''toManagedValue'' [PVariant] (RValue QJSManagedValue) [OnObject ''QJSEngine''],
     Bind [ValueM ''QTQML_QJSPRIMITIVEVALUE''] ''toPrimitiveValue'' [PVariant] (RValue QJSPrimitiveValue) [OnObject ''QJSEngine''],
     Bind [ValueM QTQML_QJSVALUE] ''toScriptValue'' [PVariant] (RValue QJSValue) [OnObject ''QJSEngine''],
     Bind [] ''trimComponentCache'' [] RVoid [OnObject QQmlEngine],
     Bind [] ''uiLanguage'' [] RString [OnObject ''QJSEngine'']]"

definition meth_qtqml_0_16 :: "binding list" where
  "meth_qtqml_0_16 = [
     Bind [] ''unregisterTypes'' [] RVoid [OnObject ''QQmlExtensionPlugin''],
     Bind [ValueM QTCORE_QURL] ''url'' [] (RValue QUrl) [OnObject QQmlComponent],
     Bind [] ''value'' [PString True] RVariant [OnObject ''QQmlPropertyMap''],
     Bind [TypeM QTCORE_QOBJECT] ''write'' [PNonNull QObject_ptr, PString True, PVariant] RBool [Static QQmlProperty],
     Bind [TypeM QTCORE_QOBJECT, TypeM QTQML_QQMLCONTEXT] ''write'' [PNonNull QObject_ptr, PString True, PVariant, PNonNull ''QQmlContext*''] RBool [Static QQmlProperty],
     Bind [TypeM QTCORE_QOBJECT, TypeM QTQML_QQMLENGINE] ''write'' [PNonNull QObject_ptr, PString True, PVariant, PNonNull ''QQmlEngine*''] RBool [Static QQmlProperty]]"

definition meth_qtquick_0_0 :: "binding list" where
  "meth_qtquick_0_0 = [
     Bind [] ''acceptHoverEvents'' [] RBool [OnObject QQuickItem],
     Bind [] ''acceptTouchEvents'' [] RBool [OnObject QQuickItem],
     Bind [EnumM QT_MOUSEBUTTONS] ''acceptedMouseButtons'' [] (RMeta Qt_MouseButtons) [OnObject QQuickItem],
     Bind [TypeM QTQUICK_QQUICKITEM] ''activeFocusItem'' [] RObject [OnObject QQuickWindow],
     Bind [] ''activeFocusOnTab'' [] RBool [OnObject QQuickItem],
     Bind [TypeM QTQUICK_QSGTEXTURE] ''anisotropyLevel'' [] (RMeta ''QSGTexture::AnisotropyLevel'') [OnObject ''QSGTexture''],
     Bind [] ''antialiasing'' [] RBool [OnObject QQuickItem, OnObject QQuickPaintedItem],
     Bind [] ''baselineOffset'' [] RNumber [OnObject QQuickItem]]"

definition meth_qtquick_0_1 :: "binding list" where
  "meth_qtquick_0_1 = [
     Bind [] ''beginExternalCommands'' [] RVoid [OnObject QQuickWindow],
     Bind [] ''beginFrame'' [] RVoid [OnObject QQuickRenderControl],
     Bind [] ''cancel'' [] RVoid [OnObject ''QQuickImageResponse''],
     Bind [TypeM QTQUICK_QQUICKITEM] ''childAt'' [PReal ''qreal'', PReal ''qreal''] RObject [OnObject QQuickItem],
     Bind [TypeM QTQUICK_QQUICKITEM] ''childItems'' [] (RList IObject) [OnObject QQuickItem],
     Bind [ValueM QTCORE_QRECTF] ''childrenRect'' [] (RValue QRectF) [OnObject QQuickItem],
     Bind [] ''clip'' [] RBool [OnObject QQuickItem]]"

definition meth_qtquick_0_2 :: "binding list" where
  "meth_qtquick_0_2 = [
     Bind [ValueM QTGUI_QCOLOR] ''color'' [] (RValue QColor) [OnObject QQuickWindow],
     Bind [TypeM QTCORE_QOBJECT] ''containmentMask'' [] RObject [OnObject QQuickItem],
     Bind [ValueM QTCORE_QPOINTF] ''contains'' [PConv QPointF] RBool [OnObject QQuickItem],
     Bind [TypeM QTQUICK_QQUICKITEM] ''contentItem'' [] RObject [OnObject QQuickWindow],
     Bind [ValueM QTCORE_QRECTF] ''contentsBoundingRect'' [] (RValue QRectF) [OnObject QQuickPaintedItem],
     Bind [] ''contentsScale'' [] RNumber [OnObject QQuickPaintedItem],
     Bind [ValueM QTCORE_QSIZE] ''contentsSize'' [] (RValue QSize) [OnObject QQuickPaintedItem]]"

definition meth_qtquick_0_3 :: "binding list" where
  "meth_qtquick_0_3 = [
     Bind [ValueM QTCORE_QRECTF] ''convertToNormalizedSourceRect'' [PConv QRectF] (RValue QRectF) [OnObject ''QSGTexture''],
     Bind [TypeM QTQUICK_QSGTEXTURE, ValueM QTGUI_QIMAGE] ''createTextureFromImage'' [PConv QImage] RObject [OnObject QQuickWindow],
     Bind [ValueM ''QTGUI_QCURSOR''] ''cursor'' [] (RValue QCursor) [OnObject QQuickItem],
     Bind [TypeM ''QTQUICK_QSGGEOMETRY''] ''defaultAttributes_ColoredPoint2D'' [] (RMeta ''QSGGeometry::AttributeSet'') [Static QSGGeometry],
     Bind [TypeM ''QTQUICK_QSGGEOMETRY''] ''defaultAttributes_Point2D'' [] (RMeta ''QSGGeometry::AttributeSet'') [Static QSGGeometry],
     Bind [TypeM ''QTQUICK_QSGGEOMETRY''] ''defaultAttributes_TexturedPoint2D'' [] (RMeta ''QSGGeometry::AttributeSet'') [Static QSGGeometry],
     Bind [] ''dumpItemTree'' [] RVoid [OnObject QQuickItem]]"

definition meth_qtquick_0_4 :: "binding list" where
  "meth_qtquick_0_4 = [
     Bind [] ''effectiveDevicePixelRatio'' [] RNumber [OnObject QQuickWindow],
     Bind [] ''endExternalCommands'' [] RVoid [OnObject QQuickWindow],
     Bind [] ''endFrame'' [] RVoid [OnObject QQuickRenderControl],
     Bind [TypeM QTQML_QQMLENGINE] ''engine'' [] RObject [OnObject ''QQuickView''],
     Bind [] ''ensurePolished'' [] RVoid [OnObject QQuickItem],
     Bind [] ''errorString'' [] RString [OnObject ''QQuickImageResponse'', OnObject ''QQuickTextDocument''],
     Bind [ValueM ''QTQML_QQMLERROR''] ''errors'' [] (RList (IValue QQmlError)) [OnObject ''QQuickView'']]"

definition meth_qtquick_0_5 :: "binding list" where
  "meth_qtquick_0_5 = [
     Bind [ValueM QTGUI_QCOLOR] ''fillColor'' [] (RValue QColor) [OnObject QQuickPaintedItem],
     Bind [TypeM QTQUICK_QSGTEXTURE] ''filtering'' [] (RMeta ''QSGTexture::Filtering'') [OnObject ''QSGTexture''],
     Bind [] ''filtersChildMouseEvents'' [] RBool [OnObject QQuickItem],
     Bind [TypeM ''QTQML_QQMLIMAGEPROVIDERBASE''] ''flags'' [] (RMeta ''QQmlImageProviderBase::Flags'') [OnObject ''QQuickImageProvider''],
     Bind [TypeM QTQUICK_QQUICKITEM] ''flags'' [] (RMeta ''QQuickItem::Flags'') [OnObject QQuickItem],
     Bind [TypeM QTCORE_QOBJECT] ''focusObject'' [] RObject [OnObject QQuickWindow],
     Bind [EnumM ''QT_FOCUSPOLICY''] ''focusPolicy'' [] (RMeta ''Qt::FocusPolicy'') [OnObject QQuickItem],
     Bind [] ''forceActiveFocus'' [] RVoid [OnObject QQuickItem]]"

definition meth_qtquick_0_6 :: "binding list" where
  "meth_qtquick_0_6 = [
     Bind [EnumM ''QT_FOCUSREASON''] ''forceActiveFocus'' [PConv ''Qt::FocusReason''] RVoid [OnObject QQuickItem],
     Bind [TypeM QTGUI_QOPENGLCONTEXT, ValueM ''QTQUICK_QQUICKGRAPHICSDEVICE''] ''fromOpenGLContext'' [PNonNull ''QOpenGLContext*''] (RValue QQuickGraphicsDevice) [Static QQuickGraphicsDevice],
     Bind [ValueM QTCORE_QSIZE, ValueM ''QTQUICK_QQUICKRENDERTARGET''] ''fromOpenGLRenderBuffer'' [PUInt, PConv QSize, PInt] (RValue QQuickRenderTarget) [Static QQuickRenderTarget],
     Bind [ValueM QTCORE_QSIZE, ValueM ''QTQUICK_QQUICKRENDERTARGET''] ''fromOpenGLTexture'' [PUInt, PConv QSize, PInt] (RValue QQuickRenderTarget) [Static QQuickRenderTarget],
     Bind [ValueM QTCORE_QSIZE, ValueM ''QTQUICK_QQUICKRENDERTARGET''] ''fromOpenGLTexture'' [PUInt, PUInt, PConv QSize, PInt] (RValue QQuickRenderTarget) [Static QQuickRenderTarget]]"

definition meth_qtquick_0_7 :: "binding list" where
  "meth_qtquick_0_7 = [
     Bind [TypeM ''QTQUICK_QQUICKRENDERTARGET'', ValueM QTCORE_QSIZE, ValueM ''QTQUICK_QQUICKRENDERTARGET''] ''fromOpenGLTexture'' [PUInt, PUInt, PConv QSize, PInt, PInt, PConv ''QQuickRenderTarget::Flags''] (RValue QQuickRenderTarget) [Static QQuickRenderTarget],
     Bind [] ''grabMouse'' [] RVoid [OnObject QQuickItem],
     Bind [] ''grabTouchPoints'' [PList ''int''] RVoid [OnObject QQuickItem],
     Bind [ValueM QTGUI_QIMAGE] ''grabWindow'' [] (RValue QImage) [OnObject QQuickWindow],
     Bind [TypeM ''QTQUICK_QSGRENDERERINTERFACE''] ''graphicsApi'' [] (RMeta ''QSGRendererInterface::GraphicsApi'') [Static QQuickWindow],
     Bind [ValueM ''QTQUICK_QQUICKGRAPHICSCONFIGURATION''] ''graphicsConfiguration'' [] (RValue QQuickGraphicsConfiguration) [OnObject QQuickWindow]]"

definition meth_qtquick_0_8 :: "binding list" where
  "meth_qtquick_0_8 = [
     Bind [ValueM ''QTQUICK_QQUICKGRAPHICSDEVICE''] ''graphicsDevice'' [] (RValue QQuickGraphicsDevice) [OnObject QQuickWindow],
     Bind [] ''hasActiveFocus'' [] RBool [OnObject QQuickItem],
     Bind [] ''hasDefaultAlphaBuffer'' [] RBool [Static QQuickWindow],
     Bind [] ''hasFocus'' [] RBool [OnObject QQuickItem],
     Bind [] ''height'' [] RNumber [OnObject QQuickItem],
     Bind [TypeM QTQUICK_QSGTEXTURE] ''horizontalWrapMode'' [] (RMeta ''QSGTexture::WrapMode'') [OnObject ''QSGTexture''],
     Bind [ValueM QTGUI_QIMAGE] ''image'' [] (RValue QImage) [OnObject ''QQuickItemGrabResult'', OnObject ''QQuickTextureFactory''],
     Bind [TypeM ''QTQML_QQMLIMAGEPROVIDERBASE''] ''imageType'' [] (RMeta ''QQmlImageProviderBase::ImageType'') [OnObject ''QQuickImageProvider'']]"

definition meth_qtquick_0_9 :: "binding list" where
  "meth_qtquick_0_9 = [
     Bind [] ''implicitHeight'' [] RNumber [OnObject QQuickItem],
     Bind [] ''implicitWidth'' [] RNumber [OnObject QQuickItem],
     Bind [ValueM QTCORE_QSIZE] ''initialSize'' [] (RValue QSize) [OnObject ''QQuickView''],
     Bind [] ''initialize'' [] RBool [OnObject QQuickRenderControl],
     Bind [EnumM ''QT_INPUTMETHODQUERY''] ''inputMethodQuery'' [PConv ''Qt::InputMethodQuery''] RVariant [OnObject QQuickItem],
     Bind [] ''invalidate'' [] RVoid [OnObject QQuickRenderControl],
     Bind [TypeM QTQUICK_QQUICKITEM] ''isAncestorOf'' [PNonNull ''QQuickItem*''] RBool [OnObject QQuickItem],
     Bind [TypeM ''QTQUICK_QSGRENDERERINTERFACE''] ''isApiRhiBased'' [PConv ''QSGRendererInterface::GraphicsApi''] RBool [Static ''QSGRendererInterface'']]"

definition meth_qtquick_0_10 :: "binding list" where
  "meth_qtquick_0_10 = [
     Bind [] ''isAtlasTexture'' [] RBool [OnObject ''QSGTexture''],
     Bind [] ''isEnabled'' [] RBool [OnObject QQuickItem],
     Bind [] ''isFocusScope'' [] RBool [OnObject QQuickItem],
     Bind [] ''isModified'' [] RBool [OnObject ''QQuickTextDocument''],
     Bind [] ''isPersistentGraphics'' [] RBool [OnObject QQuickWindow],
     Bind [] ''isPersistentSceneGraph'' [] RBool [OnObject QQuickWindow],
     Bind [] ''isSceneGraphInitialized'' [] RBool [OnObject QQuickWindow],
     Bind [] ''isTextureProvider'' [] RBool [OnObject ''QQuickFramebufferObject'', OnObject QQuickPaintedItem],
     Bind [] ''isVisible'' [] RBool [OnObject QQuickItem]]"

definition meth_qtquick_0_11 :: "binding list" where
  "meth_qtquick_0_11 = [
     Bind [] ''keepMouseGrab'' [] RBool [OnObject QQuickItem],
     Bind [] ''keepTouchGrab'' [] RBool [OnObject QQuickItem],
     Bind [ValueM QTCORE_QPOINTF] ''mapFromGlobal'' [PConv QPointF] (RValue QPointF) [OnObject QQuickItem],
     Bind [TypeM QTQUICK_QQUICKITEM, ValueM QTCORE_QPOINTF] ''mapFromItem'' [PNonNull ''QQuickItem*'', PConv QPointF] (RValue QPointF) [OnObject QQuickItem],
     Bind [ValueM QTCORE_QPOINTF] ''mapFromScene'' [PConv QPointF] (RValue QPointF) [OnObject QQuickItem],
     Bind [TypeM QTQUICK_QQUICKITEM, ValueM QTCORE_QRECTF] ''mapRectFromItem'' [PNonNull ''QQuickItem*'', PConv QRectF] (RValue QRectF) [OnObject QQuickItem]]"

definition meth_qtquick_0_12 :: "binding list" where
  "meth_qtquick_0_12 = [
     Bind [ValueM QTCORE_QRECTF] ''mapRectFromScene'' [PConv QRectF] (RValue QRectF) [OnObject QQuickItem],
     Bind [TypeM QTQUICK_QQUICKITEM, ValueM QTCORE_QRECTF] ''mapRectToItem'' [PNonNull ''QQuickItem*'', PConv QRectF] (RValue QRectF) [OnObject QQuickItem],
     Bind [ValueM QTCORE_QRECTF] ''mapRectToScene'' [PConv QRectF] (RValue QRectF) [OnObject QQuickItem],
     Bind [ValueM QTCORE_QPOINTF] ''mapToGlobal'' [PConv QPointF] (RValue QPointF) [OnObject QQuickItem],
     Bind [TypeM QTQUICK_QQUICKITEM, ValueM QTCORE_QPOINTF] ''mapToItem'' [PNonNull ''QQuickItem*'', PConv QPointF] (RValue QPointF) [OnObject QQuickItem],
     Bind [ValueM QTCORE_QPOINTF] ''mapToScene'' [PConv QPointF] (RValue QPointF) [OnObject QQuickItem]]"

definition meth_qtquick_0_13 :: "binding list" where
  "meth_qtquick_0_13 = [
     Bind [] ''mipmap'' [] RBool [OnObject QQuickPaintedItem],
     Bind [TypeM QTQUICK_QSGTEXTURE] ''mipmapFiltering'' [] (RMeta ''QSGTexture::Filtering'') [OnObject ''QSGTexture''],
     Bind [] ''mirrorVertically'' [] RBool [OnObject ''QQuickFramebufferObject''],
     Bind [TypeM QTQUICK_QQUICKITEM] ''mouseGrabberItem'' [] RObject [OnObject QQuickWindow],
     Bind [TypeM QTQUICK_QQUICKITEM] ''nextItemInFocusChain'' [PBool] RObject [OnObject QQuickItem],
     Bind [ValueM QTCORE_QRECTF] ''normalizedTextureSubRect'' [] (RValue QRectF) [OnObject ''QSGTexture''],
     Bind [] ''opacity'' [] RNumber [OnObject QQuickItem],
     Bind [] ''opaquePainting'' [] RBool [OnObject QQuickPaintedItem]]"

definition meth_qtquick_0_14 :: "binding list" where
  "meth_qtquick_0_14 = [
     Bind [TypeM QTQUICK_QQUICKITEM] ''parentItem'' [] RObject [OnObject QQuickItem],
     Bind [TypeM ''QTQUICK_QQUICKPAINTEDITEM''] ''performanceHints'' [] (RMeta ''QQuickPaintedItem::PerformanceHints'') [OnObject QQuickPaintedItem],
     Bind [] ''polish'' [] RVoid [OnObject QQuickItem],
     Bind [] ''polishItems'' [] RVoid [OnObject QQuickRenderControl],
     Bind [TypeM ''QTCORE_QTHREAD''] ''prepareThread'' [PNonNull ''QThread*''] RVoid [OnObject QQuickRenderControl],
     Bind [] ''releaseResources'' [] RVoid [OnObject ''QQuickFramebufferObject'', OnObject QQuickWindow],
     Bind [] ''render'' [] RVoid [OnObject QQuickRenderControl]]"

definition meth_qtquick_0_15 :: "binding list" where
  "meth_qtquick_0_15 = [
     Bind [TypeM ''QTQUICK_QQUICKPAINTEDITEM''] ''renderTarget'' [] (RMeta ''QQuickPaintedItem::RenderTarget'') [OnObject QQuickPaintedItem],
     Bind [ValueM ''QTQUICK_QQUICKRENDERTARGET''] ''renderTarget'' [] (RValue QQuickRenderTarget) [OnObject QQuickWindow],
     Bind [] ''resetAntialiasing'' [] RVoid [OnObject QQuickItem],
     Bind [] ''resetContentsSize'' [] RVoid [OnObject QQuickPaintedItem],
     Bind [] ''resetHeight'' [] RVoid [OnObject QQuickItem],
     Bind [] ''resetWidth'' [] RVoid [OnObject QQuickItem],
     Bind [TypeM ''QTQUICK_QQUICKVIEW''] ''resizeMode'' [] (RMeta ''QQuickView::ResizeMode'') [OnObject ''QQuickView''],
     Bind [TypeM QTQML_QQMLCONTEXT] ''rootContext'' [] RObject [OnObject ''QQuickView'']]"

definition meth_qtquick_0_16 :: "binding list" where
  "meth_qtquick_0_16 = [
     Bind [TypeM QTQUICK_QQUICKITEM] ''rootObject'' [] RObject [OnObject ''QQuickView''],
     Bind [] ''rotation'' [] RNumber [OnObject QQuickItem],
     Bind [] ''samples'' [] RNumber [OnObject QQuickRenderControl],
     Bind [] ''save'' [] RVoid [OnObject ''QQuickTextDocument''],
     Bind [ValueM QTCORE_QURL] ''saveAs'' [PConv QUrl] RVoid [OnObject ''QQuickTextDocument''],
     Bind [] ''saveToFile'' [PString True] RBool [OnObject ''QQuickItemGrabResult''],
     Bind [ValueM QTCORE_QURL] ''saveToFile'' [PConv QUrl] RBool [OnObject ''QQuickItemGrabResult''],
     Bind [] ''scale'' [] RNumber [OnObject QQuickItem]]"

definition meth_qtquick_0_17 :: "binding list" where
  "meth_qtquick_0_17 = [
     Bind [] ''sceneGraphBackend'' [] RString [Static QQuickWindow],
     Bind [TypeM QTQUICK_QQUICKITEM] ''scopedFocusItem'' [] RObject [OnObject QQuickItem],
     Bind [] ''setAcceptHoverEvents'' [PBool] RVoid [OnObject QQuickItem],
     Bind [] ''setAcceptTouchEvents'' [PBool] RVoid [OnObject QQuickItem],
     Bind [EnumM QT_MOUSEBUTTONS] ''setAcceptedMouseButtons'' [PConv Qt_MouseButtons] RVoid [OnObject QQuickItem],
     Bind [] ''setActiveFocusOnTab'' [PBool] RVoid [OnObject QQuickItem],
     Bind [TypeM QTQUICK_QSGTEXTURE] ''setAnisotropyLevel'' [PConv ''QSGTexture::AnisotropyLevel''] RVoid [OnObject ''QSGTexture'']]"

definition meth_qtquick_0_18 :: "binding list" where
  "meth_qtquick_0_18 = [
     Bind [] ''setAntialiasing'' [PBool] RVoid [OnObject QQuickItem, OnObject QQuickPaintedItem],
     Bind [] ''setBaselineOffset'' [PReal ''qreal''] RVoid [OnObject QQuickItem],
     Bind [] ''setClip'' [PBool] RVoid [OnObject QQuickItem],
     Bind [ValueM QTGUI_QCOLOR] ''setColor'' [PConv QColor] RVoid [OnObject QQuickWindow],
     Bind [TypeM QTCORE_QOBJECT] ''setContainmentMask'' [PNonNull QObject_ptr] RVoid [OnObject QQuickItem],
     Bind [] ''setContentsScale'' [PReal ''qreal''] RVoid [OnObject QQuickPaintedItem],
     Bind [ValueM QTCORE_QSIZE] ''setContentsSize'' [PConv QSize] RVoid [OnObject QQuickPaintedItem]]"

definition meth_qtquick_0_19 :: "binding list" where
  "meth_qtquick_0_19 = [
     Bind [ValueM ''QTGUI_QCURSOR''] ''setCursor'' [PConv QCursor] RVoid [OnObject QQuickItem],
     Bind [] ''setDefaultAlphaBuffer'' [PBool] RVoid [Static QQuickWindow],
     Bind [] ''setEnabled'' [PBool] RVoid [OnObject QQuickItem],
     Bind [ValueM QTGUI_QCOLOR] ''setFillColor'' [PConv QColor] RVoid [OnObject QQuickPaintedItem],
     Bind [TypeM QTQUICK_QSGTEXTURE] ''setFiltering'' [PConv ''QSGTexture::Filtering''] RVoid [OnObject ''QSGTexture''],
     Bind [] ''setFiltersChildMouseEvents'' [PBool] RVoid [OnObject QQuickItem],
     Bind [TypeM QTQUICK_QQUICKITEM] ''setFlag'' [PConv ''QQuickItem::Flag'', PBool] RVoid [OnObject QQuickItem]]"

definition meth_qtquick_0_20 :: "binding list" where
  "meth_qtquick_0_20 = [
     Bind [TypeM QTQUICK_QQUICKITEM] ''setFlags'' [PConv ''QQuickItem::Flags''] RVoid [OnObject QQuickItem],
     Bind [] ''setFocus'' [PBool] RVoid [OnObject QQuickItem],
     Bind [EnumM ''QT_FOCUSREASON''] ''setFocus'' [PBool, PConv ''Qt::FocusReason''] RVoid [OnObject QQuickItem],
     Bind [EnumM ''QT_FOCUSPOLICY''] ''setFocusPolicy'' [PConv ''Qt::FocusPolicy''] RVoid [OnObject QQuickItem],
     Bind [TypeM ''QTQUICK_QSGRENDERERINTERFACE''] ''setGraphicsApi'' [PConv ''QSGRendererInterface::GraphicsApi''] RVoid [Static QQuickWindow],
     Bind [ValueM ''QTQUICK_QQUICKGRAPHICSCONFIGURATION''] ''setGraphicsConfiguration'' [PConv QQuickGraphicsConfiguration] RVoid [OnObject QQuickWindow]]"

definition meth_qtquick_0_21 :: "binding list" where
  "meth_qtquick_0_21 = [
     Bind [ValueM ''QTQUICK_QQUICKGRAPHICSDEVICE''] ''setGraphicsDevice'' [PConv QQuickGraphicsDevice] RVoid [OnObject QQuickWindow],
     Bind [] ''setHeight'' [PReal ''qreal''] RVoid [OnObject QQuickItem],
     Bind [TypeM QTQUICK_QSGTEXTURE] ''setHorizontalWrapMode'' [PConv ''QSGTexture::WrapMode''] RVoid [OnObject ''QSGTexture''],
     Bind [] ''setImplicitHeight'' [PReal ''qreal''] RVoid [OnObject QQuickItem],
     Bind [] ''setImplicitWidth'' [PReal ''qreal''] RVoid [OnObject QQuickItem],
     Bind [] ''setKeepMouseGrab'' [PBool] RVoid [OnObject QQuickItem],
     Bind [] ''setKeepTouchGrab'' [PBool] RVoid [OnObject QQuickItem]]"

definition meth_qtquick_0_22 :: "binding list" where
  "meth_qtquick_0_22 = [
     Bind [] ''setMipmap'' [PBool] RVoid [OnObject QQuickPaintedItem],
     Bind [TypeM QTQUICK_QSGTEXTURE] ''setMipmapFiltering'' [PConv ''QSGTexture::Filtering''] RVoid [OnObject ''QSGTexture''],
     Bind [] ''setMirrorVertically'' [PBool] RVoid [OnObject ''QQuickFramebufferObject''],
     Bind [] ''setModified'' [PBool] RVoid [OnObject ''QQuickTextDocument''],
     Bind [] ''setOpacity'' [PReal ''qreal''] RVoid [OnObject QQuickItem],
     Bind [] ''setOpaquePainting'' [PBool] RVoid [OnObject QQuickPaintedItem],
     Bind [TypeM QTQUICK_QQUICKITEM] ''setParentItem'' [PNonNull ''QQuickItem*''] RVoid [OnObject QQuickItem]]"

definition meth_qtquick_0_23 :: "binding list" where
  "meth_qtquick_0_23 = [
     Bind [TypeM ''QTQUICK_QQUICKPAINTEDITEM''] ''setPerformanceHint'' [PConv ''QQuickPaintedItem::PerformanceHint'', PBool] RVoid [OnObject QQuickPaintedItem],
     Bind [TypeM ''QTQUICK_QQUICKPAINTEDITEM''] ''setPerformanceHints'' [PConv ''QQuickPaintedItem::PerformanceHints''] RVoid [OnObject QQuickPaintedItem],
     Bind [] ''setPersistentGraphics'' [PBool] RVoid [OnObject QQuickWindow],
     Bind [] ''setPersistentSceneGraph'' [PBool] RVoid [OnObject QQuickWindow],
     Bind [TypeM ''QTQUICK_QQUICKPAINTEDITEM''] ''setRenderTarget'' [PConv ''QQuickPaintedItem::RenderTarget''] RVoid [OnObject QQuickPaintedItem],
     Bind [ValueM ''QTQUICK_QQUICKRENDERTARGET''] ''setRenderTarget'' [PConv QQuickRenderTarget] RVoid [OnObject QQuickWindow],
     Bind [TypeM ''QTQUICK_QQUICKVIEW''] ''setResizeMode'' [PConv ''QQuickView::ResizeMode''] RVoid [OnObject ''QQuickView'']]"

definition meth_qtquick_0_24 :: "binding list" where
  "meth_qtquick_0_24 = [
     Bind [] ''setRotation'' [PReal ''qreal''] RVoid [OnObject QQuickItem],
     Bind [] ''setSamples'' [PInt] RVoid [OnObject QQuickRenderControl],
     Bind [] ''setScale'' [PReal ''qreal''] RVoid [OnObject QQuickItem],
     Bind [] ''setSceneGraphBackend'' [PString True] RVoid [Static QQuickWindow],
     Bind [ValueM QTCORE_QSIZEF] ''setSize'' [PConv QSizeF] RVoid [OnObject QQuickItem],
     Bind [] ''setSmooth'' [PBool] RVoid [OnObject QQuickItem],
     Bind [ValueM QTCORE_QURL] ''setSource'' [PConv QUrl] RVoid [OnObject ''QQuickTextDocument'', OnObject ''QQuickView'']]"

definition meth_qtquick_0_25 :: "binding list" where
  "meth_qtquick_0_25 = [
     Bind [] ''setState'' [PString True] RVoid [OnObject QQuickItem],
     Bind [TypeM QTGUI_QTEXTDOCUMENT] ''setTextDocument'' [PNonNull QTextDocument_ptr] RVoid [OnObject ''QQuickTextDocument''],
     Bind [TypeM ''QTQUICK_QQUICKWINDOW''] ''setTextRenderType'' [PConv ''QQuickWindow::TextRenderType''] RVoid [Static QQuickWindow],
     Bind [ValueM QTCORE_QSIZE] ''setTextureSize'' [PConv QSize] RVoid [OnObject QQuickPaintedItem],
     Bind [TypeM QTQUICK_QQUICKITEM] ''setTransformOrigin'' [PConv ''QQuickItem::TransformOrigin''] RVoid [OnObject QQuickItem],
     Bind [TypeM QTQUICK_QSGTEXTURE] ''setVerticalWrapMode'' [PConv ''QSGTexture::WrapMode''] RVoid [OnObject ''QSGTexture''],
     Bind [] ''setVisible'' [PBool] RVoid [OnObject QQuickItem]]"

definition meth_qtquick_0_26 :: "binding list" where
  "meth_qtquick_0_26 = [
     Bind [] ''setWidth'' [PReal ''qreal''] RVoid [OnObject QQuickItem],
     Bind [] ''setX'' [PReal ''qreal''] RVoid [OnObject QQuickItem],
     Bind [] ''setY'' [PReal ''qreal''] RVoid [OnObject QQuickItem],
     Bind [] ''setZ'' [PReal ''qreal''] RVoid [OnObject QQuickItem],
     Bind [ValueM QTCORE_QSIZEF] ''size'' [] (RValue QSizeF) [OnObject QQuickItem],
     Bind [] ''smooth'' [] RBool [OnObject QQuickItem],
     Bind [ValueM QTCORE_QURL] ''source'' [] (RValue QUrl) [OnObject ''QQuickTextDocument'', OnObject ''QQuickView'']]"

definition meth_qtquick_0_27 :: "binding list" where
  "meth_qtquick_0_27 = [
     Bind [TypeM QTQUICK_QQUICKITEM] ''stackAfter'' [PNonNull ''QQuickItem*''] RVoid [OnObject QQuickItem],
     Bind [TypeM QTQUICK_QQUICKITEM] ''stackBefore'' [PNonNull ''QQuickItem*''] RVoid [OnObject QQuickItem],
     Bind [] ''state'' [] RString [OnObject QQuickItem],
     Bind [TypeM ''QTQUICK_QQUICKTEXTDOCUMENT''] ''status'' [] (RMeta ''QQuickTextDocument::Status'') [OnObject ''QQuickTextDocument''],
     Bind [TypeM ''QTQUICK_QQUICKVIEW''] ''status'' [] (RMeta ''QQuickView::Status'') [OnObject ''QQuickView''],
     Bind [] ''sync'' [] RBool [OnObject QQuickRenderControl],
     Bind [TypeM QTGUI_QTEXTDOCUMENT] ''textDocument'' [] RObject [OnObject ''QQuickTextDocument''],
     Bind [TypeM ''QTQUICK_QQUICKWINDOW''] ''textRenderType'' [] (RMeta ''QQuickWindow::TextRenderType'') [Static QQuickWindow]]"

definition meth_qtquick_0_28 :: "binding list" where
  "meth_qtquick_0_28 = [
     Bind [TypeM ''QTQUICK_QQUICKTEXTUREFACTORY'', ValueM QTGUI_QIMAGE] ''textureFactoryForImage'' [PConv QImage] RObject [Static ''QQuickTextureFactory''],
     Bind [TypeM ''QTQUICK_QSGTEXTUREPROVIDER''] ''textureProvider'' [] RObject [OnObject ''QQuickFramebufferObject'', OnObject QQuickPaintedItem],
     Bind [ValueM QTCORE_QSIZE] ''textureSize'' [] (RValue QSize) [OnObject QQuickPaintedItem],
     Bind [TypeM QTQUICK_QQUICKITEM] ''transformOrigin'' [] (RMeta ''QQuickItem::TransformOrigin'') [OnObject QQuickItem],
     Bind [] ''ungrabMouse'' [] RVoid [OnObject QQuickItem],
     Bind [] ''ungrabTouchPoints'' [] RVoid [OnObject QQuickItem],
     Bind [] ''unsetCursor'' [] RVoid [OnObject QQuickItem]]"

definition meth_qtquick_0_29 :: "binding list" where
  "meth_qtquick_0_29 = [
     Bind [] ''update'' [] RVoid [OnObject QQuickItem, OnObject QQuickWindow],
     Bind [ValueM QTCORE_QRECT] ''update'' [PConv QRect] RVoid [OnObject QQuickPaintedItem],
     Bind [ValueM QTCORE_QURL] ''url'' [] (RValue QUrl) [OnObject ''QQuickItemGrabResult''],
     Bind [TypeM QTQUICK_QSGTEXTURE] ''verticalWrapMode'' [] (RMeta ''QSGTexture::WrapMode'') [OnObject ''QSGTexture''],
     Bind [TypeM QTQUICK_QQUICKITEM] ''viewportItem'' [] RObject [OnObject QQuickItem],
     Bind [] ''width'' [] RNumber [OnObject QQuickItem],
     Bind [TypeM ''QTQUICK_QQUICKWINDOW''] ''window'' [] RObject [OnObject QQuickItem, OnObject QQuickRenderControl]]"

definition meth_qtquick_0_30 :: "binding list" where
  "meth_qtquick_0_30 = [
     Bind [] ''x'' [] RNumber [OnObject QQuickItem],
     Bind [] ''y'' [] RNumber [OnObject QQuickItem],
     Bind [] ''z'' [] RNumber [OnObject QQuickItem]]"

definition meth_qtquickwidgets_0_0 :: "binding list" where
  "meth_qtquickwidgets_0_0 = [
     Bind [TypeM QTQML_QQMLENGINE] ''engine'' [] RObject [OnObject ''QQuickWidget''],
     Bind [ValueM ''QTQML_QQMLERROR''] ''errors'' [] (RList (IValue QQmlError)) [OnObject ''QQuickWidget''],
     Bind [ValueM QTGUI_QSURFACEFORMAT] ''format'' [] (RValue QSurfaceFormat) [OnObject ''QQuickWidget''],
     Bind [ValueM QTGUI_QIMAGE] ''grabFramebuffer'' [] (RValue QImage) [OnObject ''QQuickWidget''],
     Bind [ValueM QTCORE_QSIZE] ''initialSize'' [] (RValue QSize) [OnObject ''QQuickWidget''],
     Bind [TypeM ''QTQUICK_QQUICKWINDOW''] ''quickWindow'' [] RObject [OnObject ''QQuickWidget''],
     Bind [TypeM ''QTQUICKWIDGETS_QQUICKWIDGET''] ''resizeMode'' [] (RMeta ''QQuickWidget::ResizeMode'') [OnObject ''QQuickWidget'']]"

definition meth_qtquickwidgets_0_1 :: "binding list" where
  "meth_qtquickwidgets_0_1 = [
     Bind [TypeM QTQML_QQMLCONTEXT] ''rootContext'' [] RObject [OnObject ''QQuickWidget''],
     Bind [TypeM QTQUICK_QQUICKITEM] ''rootObject'' [] RObject [OnObject ''QQuickWidget''],
     Bind [ValueM QTGUI_QCOLOR] ''setClearColor'' [PConv QColor] RVoid [OnObject ''QQuickWidget''],
     Bind [ValueM QTGUI_QSURFACEFORMAT] ''setFormat'' [PConv QSurfaceFormat] RVoid [OnObject ''QQuickWidget''],
     Bind [TypeM ''QTQUICKWIDGETS_QQUICKWIDGET''] ''setResizeMode'' [PConv ''QQuickWidget::ResizeMode''] RVoid [OnObject ''QQuickWidget''],
     Bind [ValueM QTCORE_QURL] ''setSource'' [PConv QUrl] RVoid [OnObject ''QQuickWidget''],
     Bind [ValueM QTCORE_QSIZE] ''sizeHint'' [] (RValue QSize) [OnObject ''QQuickWidget'']]"

definition meth_qtquickwidgets_0_2 :: "binding list" where
  "meth_qtquickwidgets_0_2 = [
     Bind [ValueM QTCORE_QURL] ''source'' [] (RValue QUrl) [OnObject ''QQuickWidget''],
     Bind [TypeM ''QTQUICKWIDGETS_QQUICKWIDGET''] ''status'' [] (RMeta ''QQuickWidget::Status'') [OnObject ''QQuickWidget'']]"

definition meth_qtremoteobjects_0_0 :: "binding list" where
  "meth_qtremoteobjects_0_0 = [
     Bind [TypeM ''QTREMOTEOBJECTS_QREMOTEOBJECTDYNAMICREPLICA''] ''acquireDynamic'' [PString True] RObject [OnObject QRemoteObjectNode],
     Bind [TypeM QTCORE_QIODEVICE] ''addClientSideConnection'' [PNonNull QIODevice_ptr] RVoid [OnObject QRemoteObjectNode],
     Bind [TypeM QTCORE_QIODEVICE] ''addHostSideConnection'' [PNonNull QIODevice_ptr] RVoid [OnObject ''QRemoteObjectHostBase''],
     Bind [] ''availableRoles'' [] (RList (IMeta ''int'')) [OnObject QAbstractItemModelReplica],
     Bind [ValueM QTCORE_QMODELINDEX] ''columnCount'' [PConv QModelIndex] RNumber [OnObject QAbstractItemModelReplica],
     Bind [ValueM QTCORE_QURL] ''connectToNode'' [PConv QUrl] RBool [OnObject QRemoteObjectNode]]"

definition meth_qtremoteobjects_0_1 :: "binding list" where
  "meth_qtremoteobjects_0_1 = [
     Bind [ValueM QTCORE_QMODELINDEX] ''data'' [PConv QModelIndex, PInt] RVariant [OnObject QAbstractItemModelReplica],
     Bind [TypeM QTCORE_QOBJECT] ''disableRemoting'' [PNonNull QObject_ptr] RBool [OnObject ''QRemoteObjectHostBase''],
     Bind [TypeM QTCORE_QABSTRACTITEMMODEL, TypeM ''QTCORE_QITEMSELECTIONMODEL''] ''enableRemoting'' [PNonNull QAbstractItemModel_ptr, PString True, PList ''int'', PNonNull ''QItemSelectionModel*''] RBool [OnObject ''QRemoteObjectHostBase''],
     Bind [TypeM QTCORE_QOBJECT] ''enableRemoting'' [PNonNull QObject_ptr, PString True] RBool [OnObject ''QRemoteObjectHostBase''],
     Bind [ValueM QTCORE_QMODELINDEX] ''hasChildren'' [PConv QModelIndex] RBool [OnObject QAbstractItemModelReplica],
     Bind [ValueM QTCORE_QMODELINDEX] ''hasData'' [PConv QModelIndex, PInt] RBool [OnObject QAbstractItemModelReplica]]"

definition meth_qtremoteobjects_0_2 :: "binding list" where
  "meth_qtremoteobjects_0_2 = [
     Bind [EnumM QT_ORIENTATION] ''headerData'' [PInt, PConv Qt_Orientation, PInt] RVariant [OnObject QAbstractItemModelReplica],
     Bind [] ''heartbeatInterval'' [] RNumber [OnObject QRemoteObjectNode],
     Bind [ValueM QTCORE_QURL] ''hostUrl'' [] (RValue QUrl) [OnObject ''QRemoteObjectHost''],
     Bind [ValueM QTCORE_QMODELINDEX] ''index'' [PInt, PInt, PConv QModelIndex] (RValue QModelIndex) [OnObject QAbstractItemModelReplica],
     Bind [] ''isInitialized'' [] RBool [OnObject QAbstractItemModelReplica, OnObject ''QRemoteObjectReplica''],
     Bind [] ''isReplicaValid'' [] RBool [OnObject ''QRemoteObjectReplica''],
     Bind [TypeM ''QTREMOTEOBJECTS_QREMOTEOBJECTNODE''] ''lastError'' [] (RMeta ''QRemoteObjectNode::ErrorCode'') [OnObject QRemoteObjectNode]]"

definition meth_qtremoteobjects_0_3 :: "binding list" where
  "meth_qtremoteobjects_0_3 = [
     Bind [TypeM ''QTREMOTEOBJECTS_QREMOTEOBJECTNODE''] ''node'' [] RObject [OnObject ''QRemoteObjectReplica''],
     Bind [ValueM QTCORE_QMODELINDEX] ''parent'' [PConv QModelIndex] (RValue QModelIndex) [OnObject QAbstractItemModelReplica],
     Bind [TypeM ''QTREMOTEOBJECTS_QREMOTEOBJECTABSTRACTPERSISTEDSTORE''] ''persistedStore'' [] RObject [OnObject QRemoteObjectNode],
     Bind [ValueM QTCORE_QURL] ''proxy'' [PConv QUrl, PConv QUrl] RBool [OnObject ''QRemoteObjectHostBase''],
     Bind [TypeM ''QTREMOTEOBJECTS_QREMOTEOBJECTREGISTRY''] ''registry'' [] RObject [OnObject QRemoteObjectNode],
     Bind [ValueM QTCORE_QURL] ''registryUrl'' [] (RValue QUrl) [OnObject QRemoteObjectNode],
     Bind [] ''reverseProxy'' [] RBool [OnObject ''QRemoteObjectHostBase'']]"

definition meth_qtremoteobjects_0_4 :: "binding list" where
  "meth_qtremoteobjects_0_4 = [
     Bind [ValueM QTCORE_QMODELINDEX] ''rowCount'' [PConv QModelIndex] RNumber [OnObject QAbstractItemModelReplica],
     Bind [TypeM ''QTCORE_QITEMSELECTIONMODEL''] ''selectionModel'' [] RObject [OnObject QAbstractItemModelReplica],
     Bind [ValueM QTCORE_QMODELINDEX] ''setData'' [PConv QModelIndex, PVariant, PInt] RBool [OnObject QAbstractItemModelReplica],
     Bind [] ''setHeartbeatInterval'' [PInt] RVoid [OnObject QRemoteObjectNode],
     Bind [TypeM ''QTREMOTEOBJECTS_QREMOTEOBJECTHOSTBASE'', ValueM QTCORE_QURL] ''setHostUrl'' [PConv QUrl, PConv ''QRemoteObjectHostBase::AllowedSchemas''] RBool [OnObject ''QRemoteObjectHost''],
     Bind [TypeM ''QTNETWORK_QLOCALSERVER''] ''setLocalServerOptions'' [PConv ''QLocalServer::SocketOptions''] RVoid [Static ''QRemoteObjectHost'']]"

definition meth_qtremoteobjects_0_5 :: "binding list" where
  "meth_qtremoteobjects_0_5 = [
     Bind [] ''setName'' [PString True] RVoid [OnObject ''QRemoteObjectHostBase'', OnObject QRemoteObjectNode],
     Bind [TypeM ''QTREMOTEOBJECTS_QREMOTEOBJECTNODE''] ''setNode'' [PNonNull ''QRemoteObjectNode*''] RVoid [OnObject ''QRemoteObjectReplica''],
     Bind [TypeM ''QTREMOTEOBJECTS_QREMOTEOBJECTABSTRACTPERSISTEDSTORE''] ''setPersistedStore'' [PNonNull ''QRemoteObjectAbstractPersistedStore*''] RVoid [OnObject QRemoteObjectNode],
     Bind [ValueM QTCORE_QURL] ''setRegistryUrl'' [PConv QUrl] RBool [OnObject QRemoteObjectNode, OnObject ''QRemoteObjectRegistryHost''],
     Bind [TypeM ''QTREMOTEOBJECTS_QREMOTEOBJECTREPLICA''] ''state'' [] (RMeta ''QRemoteObjectReplica::State'') [OnObject ''QRemoteObjectReplica''],
     Bind [] ''waitForRegistry'' [PInt] RBool [OnObject QRemoteObjectNode]]"

definition meth_qtremoteobjects_0_6 :: "binding list" where
  "meth_qtremoteobjects_0_6 = [
     Bind [] ''waitForSource'' [PInt] RBool [OnObject ''QRemoteObjectReplica'']]"

definition meth_qtserialport_0_0 :: "binding list" where
  "meth_qtserialport_0_0 = [
     Bind [ValueM ''QTSERIALPORT_QSERIALPORTINFO''] ''availablePorts'' [] (RList (IValue QSerialPortInfo)) [Static QSerialPortInfo],
     Bind [] ''bytesAvailable'' [] (RMeta ''qint64'') [OnObject QSerialPort],
     Bind [] ''bytesToWrite'' [] (RMeta ''qint64'') [OnObject QSerialPort],
     Bind [] ''canReadLine'' [] RBool [OnObject QSerialPort],
     Bind [TypeM ''QTSERIALPORT_QSERIALPORT''] ''clear'' [PConv ''QSerialPort::Directions''] RBool [OnObject QSerialPort],
     Bind [] ''clearError'' [] RVoid [OnObject QSerialPort],
     Bind [] ''close'' [] RVoid [OnObject QSerialPort],
     Bind [TypeM ''QTSERIALPORT_QSERIALPORT''] ''dataBits'' [] (RMeta ''QSerialPort::DataBits'') [OnObject QSerialPort]]"

definition meth_qtserialport_0_1 :: "binding list" where
  "meth_qtserialport_0_1 = [
     Bind [TypeM ''QTSERIALPORT_QSERIALPORT''] ''error'' [] (RMeta ''QSerialPort::SerialPortError'') [OnObject QSerialPort],
     Bind [TypeM ''QTSERIALPORT_QSERIALPORT''] ''flowControl'' [] (RMeta ''QSerialPort::FlowControl'') [OnObject QSerialPort],
     Bind [] ''flush'' [] RBool [OnObject QSerialPort],
     Bind [] ''isBreakEnabled'' [] RBool [OnObject QSerialPort],
     Bind [] ''isDataTerminalReady'' [] RBool [OnObject QSerialPort],
     Bind [] ''isRequestToSend'' [] RBool [OnObject QSerialPort],
     Bind [] ''isSequential'' [] RBool [OnObject QSerialPort],
     Bind [TypeM ''QTSERIALPORT_QSERIALPORT''] ''parity'' [] (RMeta ''QSerialPort::Parity'') [OnObject QSerialPort],
     Bind [] ''portName'' [] RString [OnObject QSerialPort]]"

definition meth_qtserialport_0_2 :: "binding list" where
  "meth_qtserialport_0_2 = [
     Bind [] ''readBufferSize'' [] (RMeta ''qint64'') [OnObject QSerialPort],
     Bind [] ''setBreakEnabled'' [PBool] RBool [OnObject QSerialPort],
     Bind [TypeM ''QTSERIALPORT_QSERIALPORT''] ''setDataBits'' [PConv ''QSerialPort::DataBits''] RBool [OnObject QSerialPort],
     Bind [] ''setDataTerminalReady'' [PBool] RBool [OnObject QSerialPort],
     Bind [TypeM ''QTSERIALPORT_QSERIALPORT''] ''setFlowControl'' [PConv ''QSerialPort::FlowControl''] RBool [OnObject QSerialPort],
     Bind [TypeM ''QTSERIALPORT_QSERIALPORT''] ''setParity'' [PConv ''QSerialPort::Parity''] RBool [OnObject QSerialPort],
     Bind [ValueM ''QTSERIALPORT_QSERIALPORTINFO''] ''setPort'' [PConv QSerialPortInfo] RVoid [OnObject QSerialPort]]"

definition meth_qtserialport_0_3 :: "binding list" where
  "meth_qtserialport_0_3 = [
     Bind [] ''setPortName'' [PString True] RVoid [OnObject QSerialPort],
     Bind [] ''setReadBufferSize'' [PWide ''qint64''] RVoid [OnObject QSerialPort],
     Bind [] ''setRequestToSend'' [PBool] RBool [OnObject QSerialPort],
     Bind [] ''setSettingsRestoredOnClose'' [PBool] RVoid [OnObject QSerialPort],
     Bind [TypeM ''QTSERIALPORT_QSERIALPORT''] ''setStopBits'' [PConv ''QSerialPort::StopBits''] RBool [OnObject QSerialPort],
     Bind [] ''setWriteBufferSize'' [PWide ''qint64''] RVoid [OnObject QSerialPort],
     Bind [] ''settingsRestoredOnClose'' [] RBool [OnObject QSerialPort]]"

definition meth_qtserialport_0_4 :: "binding list" where
  "meth_qtserialport_0_4 = [
     Bind [] ''standardBaudRates'' [] (RList (IMeta ''int'')) [Static QSerialPortInfo],
     Bind [TypeM ''QTSERIALPORT_QSERIALPORT''] ''stopBits'' [] (RMeta ''QSerialPort::StopBits'') [OnObject QSerialPort],
     Bind [] ''waitForBytesWritten'' [PInt] RBool [OnObject QSerialPort],
     Bind [] ''waitForReadyRead'' [PInt] RBool [OnObject QSerialPort],
     Bind [] ''writeBufferSize'' [] (RMeta ''qint64'') [OnObject QSerialPort]]"

definition meth_qtsql_0_0 :: "binding list" where
  "meth_qtsql_0_0 = [
     Bind [TypeM ''QTSQL_QSQLDRIVER'', ValueM QTSQL_QSQLDATABASE] ''addDatabase'' [PNonNull ''QSqlDriver*'', PString True] (RValue QSqlDatabase) [Static QSqlDatabase],
     Bind [ValueM QTSQL_QSQLDATABASE] ''addDatabase'' [PString True, PString True] (RValue QSqlDatabase) [Static QSqlDatabase],
     Bind [] ''beginTransaction'' [] RBool [OnObject ''QSqlDriver''],
     Bind [ValueM QTCORE_QMODELINDEX] ''canFetchMore'' [PConv QModelIndex] RBool [OnObject QSqlQueryModel],
     Bind [] ''clear'' [] RVoid [OnObject QSqlQueryModel, OnObject QSqlRelationalTableModel, OnObject QSqlTableModel],
     Bind [ValueM QTCORE_QMODELINDEX] ''clearItemData'' [PConv QModelIndex] RBool [OnObject QSqlTableModel]]"

definition meth_qtsql_0_1 :: "binding list" where
  "meth_qtsql_0_1 = [
     Bind [ValueM QTSQL_QSQLDATABASE] ''cloneDatabase'' [PConv QSqlDatabase, PString True] (RValue QSqlDatabase) [Static QSqlDatabase],
     Bind [ValueM QTSQL_QSQLDATABASE] ''cloneDatabase'' [PString True, PString True] (RValue QSqlDatabase) [Static QSqlDatabase],
     Bind [ValueM QTCORE_QMODELINDEX] ''columnCount'' [PConv QModelIndex] RNumber [OnObject QSqlQueryModel],
     Bind [] ''commitTransaction'' [] RBool [OnObject ''QSqlDriver''],
     Bind [] ''connectionName'' [] RString [OnObject ''QSqlDriver''],
     Bind [] ''connectionNames'' [] (RList (IMeta QString)) [Static QSqlDatabase],
     Bind [] ''contains'' [PString True] RBool [Static QSqlDatabase]]"

definition meth_qtsql_0_2 :: "binding list" where
  "meth_qtsql_0_2 = [
     Bind [TypeM QTWIDGETS_QWIDGET, ValueM QTCORE_QMODELINDEX, ValueM QTWIDGETS_QSTYLEOPTIONVIEWITEM] ''createEditor'' [PNonNull QWidget_ptr, PConv QStyleOptionViewItem, PConv QModelIndex] RObject [OnObject ''QSqlRelationalDelegate''],
     Bind [ValueM QTCORE_QMODELINDEX] ''data'' [PConv QModelIndex, PInt] RVariant [OnObject QSqlQueryModel, OnObject QSqlRelationalTableModel, OnObject QSqlTableModel],
     Bind [ValueM QTSQL_QSQLDATABASE] ''database'' [] (RValue QSqlDatabase) [OnObject QSqlTableModel],
     Bind [ValueM QTSQL_QSQLDATABASE] ''database'' [PString True, PBool] (RValue QSqlDatabase) [Static QSqlDatabase],
     Bind [TypeM ''QTSQL_QSQLDRIVER''] ''dbmsType'' [] (RMeta ''QSqlDriver::DbmsType'') [OnObject ''QSqlDriver''],
     Bind [] ''drivers'' [] (RList (IMeta QString)) [Static QSqlDatabase]]"

definition meth_qtsql_0_3 :: "binding list" where
  "meth_qtsql_0_3 = [
     Bind [TypeM ''QTSQL_QSQLTABLEMODEL''] ''editStrategy'' [] (RMeta ''QSqlTableModel::EditStrategy'') [OnObject QSqlTableModel],
     Bind [TypeM ''QTSQL_QSQLDRIVER''] ''escapeIdentifier'' [PString True, PConv ''QSqlDriver::IdentifierType''] RString [OnObject ''QSqlDriver''],
     Bind [ValueM QTCORE_QMODELINDEX] ''fetchMore'' [PConv QModelIndex] RVoid [OnObject QSqlQueryModel],
     Bind [] ''fieldIndex'' [PString True] RNumber [OnObject QSqlTableModel],
     Bind [] ''filter'' [] RString [OnObject QSqlTableModel],
     Bind [ValueM ''QTSQL_QSQLFIELD''] ''formatValue'' [PConv QSqlField, PBool] RString [OnObject ''QSqlDriver''],
     Bind [] ''handle'' [] RVariant [OnObject ''QSqlDriver'']]"

definition meth_qtsql_0_4 :: "binding list" where
  "meth_qtsql_0_4 = [
     Bind [EnumM QT_ORIENTATION] ''headerData'' [PInt, PConv Qt_Orientation, PInt] RVariant [OnObject QSqlQueryModel, OnObject QSqlTableModel],
     Bind [ValueM QTCORE_QMODELINDEX] ''insertColumns'' [PInt, PInt, PConv QModelIndex] RBool [OnObject QSqlQueryModel],
     Bind [ValueM ''QTSQL_QSQLRECORD''] ''insertRecord'' [PInt, PConv QSqlRecord] RBool [OnObject QSqlTableModel],
     Bind [ValueM QTCORE_QMODELINDEX] ''insertRows'' [PInt, PInt, PConv QModelIndex] RBool [OnObject QSqlTableModel],
     Bind [] ''isDirty'' [] RBool [OnObject QSqlTableModel],
     Bind [ValueM QTCORE_QMODELINDEX] ''isDirty'' [PConv QModelIndex] RBool [OnObject QSqlTableModel]]"

definition meth_qtsql_0_5 :: "binding list" where
  "meth_qtsql_0_5 = [
     Bind [] ''isDriverAvailable'' [PString True] RBool [Static QSqlDatabase],
     Bind [TypeM ''QTSQL_QSQLDRIVER''] ''isIdentifierEscaped'' [PString True, PConv ''QSqlDriver::IdentifierType''] RBool [OnObject ''QSqlDriver''],
     Bind [] ''isOpen'' [] RBool [OnObject ''QSqlDriver''],
     Bind [] ''isOpenError'' [] RBool [OnObject ''QSqlDriver''],
     Bind [ValueM ''QTSQL_QSQLERROR''] ''lastError'' [] (RValue ''QSqlError'') [OnObject ''QSqlDriver'', OnObject QSqlQueryModel],
     Bind [TypeM ''QTSQL_QSQLDRIVER''] ''maximumIdentifierLength'' [PConv ''QSqlDriver::IdentifierType''] RNumber [OnObject ''QSqlDriver''],
     Bind [ValueM ''QTSQL_QSQLINDEX''] ''primaryIndex'' [PString True] (RValue ''QSqlIndex'') [OnObject ''QSqlDriver'']]"

definition meth_qtsql_0_6 :: "binding list" where
  "meth_qtsql_0_6 = [
     Bind [ValueM ''QTSQL_QSQLINDEX''] ''primaryKey'' [] (RValue ''QSqlIndex'') [OnObject QSqlTableModel],
     Bind [ValueM ''QTSQL_QSQLRECORD''] ''record'' [] (RValue QSqlRecord) [OnObject QSqlQueryModel, OnObject QSqlTableModel],
     Bind [ValueM ''QTSQL_QSQLRECORD''] ''record'' [PString True] (RValue QSqlRecord) [OnObject ''QSqlDriver''],
     Bind [ValueM ''QTSQL_QSQLRECORD''] ''record'' [PInt] (RValue QSqlRecord) [OnObject QSqlQueryModel, OnObject QSqlTableModel],
     Bind [] ''refresh'' [] RVoid [OnObject QSqlQueryModel],
     Bind [ValueM ''QTSQL_QSQLRELATION''] ''relation'' [PInt] (RValue ''QSqlRelation'') [OnObject QSqlRelationalTableModel]]"

definition meth_qtsql_0_7 :: "binding list" where
  "meth_qtsql_0_7 = [
     Bind [TypeM ''QTSQL_QSQLTABLEMODEL''] ''relationModel'' [PInt] RObject [OnObject QSqlRelationalTableModel],
     Bind [ValueM QTCORE_QMODELINDEX] ''removeColumns'' [PInt, PInt, PConv QModelIndex] RBool [OnObject QSqlQueryModel, OnObject QSqlRelationalTableModel, OnObject QSqlTableModel],
     Bind [] ''removeDatabase'' [PString True] RVoid [Static QSqlDatabase],
     Bind [ValueM QTCORE_QMODELINDEX] ''removeRows'' [PInt, PInt, PConv QModelIndex] RBool [OnObject QSqlTableModel],
     Bind [] ''revert'' [] RVoid [OnObject QSqlTableModel],
     Bind [] ''revertAll'' [] RVoid [OnObject QSqlTableModel]]"

definition meth_qtsql_0_8 :: "binding list" where
  "meth_qtsql_0_8 = [
     Bind [] ''revertRow'' [PInt] RVoid [OnObject QSqlRelationalTableModel, OnObject QSqlTableModel],
     Bind [] ''rollbackTransaction'' [] RBool [OnObject ''QSqlDriver''],
     Bind [ValueM QTCORE_QMODELINDEX] ''rowCount'' [PConv QModelIndex] RNumber [OnObject QSqlQueryModel, OnObject QSqlTableModel],
     Bind [] ''select'' [] RBool [OnObject QSqlRelationalTableModel, OnObject QSqlTableModel],
     Bind [] ''selectRow'' [PInt] RBool [OnObject QSqlTableModel],
     Bind [ValueM QTCORE_QMODELINDEX] ''setData'' [PConv QModelIndex, PVariant, PInt] RBool [OnObject QSqlRelationalTableModel, OnObject QSqlTableModel]]"

definition meth_qtsql_0_9 :: "binding list" where
  "meth_qtsql_0_9 = [
     Bind [TypeM ''QTSQL_QSQLTABLEMODEL''] ''setEditStrategy'' [PConv ''QSqlTableModel::EditStrategy''] RVoid [OnObject QSqlTableModel],
     Bind [TypeM QTWIDGETS_QWIDGET, ValueM QTCORE_QMODELINDEX] ''setEditorData'' [PNonNull QWidget_ptr, PConv QModelIndex] RVoid [OnObject ''QSqlRelationalDelegate''],
     Bind [] ''setFilter'' [PString True] RVoid [OnObject QSqlTableModel],
     Bind [EnumM QT_ORIENTATION] ''setHeaderData'' [PInt, PConv Qt_Orientation, PVariant, PInt] RBool [OnObject QSqlQueryModel],
     Bind [TypeM ''QTSQL_QSQLRELATIONALTABLEMODEL''] ''setJoinMode'' [PConv ''QSqlRelationalTableModel::JoinMode''] RVoid [OnObject QSqlRelationalTableModel],
     Bind [TypeM QTCORE_QABSTRACTITEMMODEL, TypeM QTWIDGETS_QWIDGET, ValueM QTCORE_QMODELINDEX] ''setModelData'' [PNonNull QWidget_ptr, PNonNull QAbstractItemModel_ptr, PConv QModelIndex] RVoid [OnObject ''QSqlRelationalDelegate'']]"

definition meth_qtsql_0_10 :: "binding list" where
  "meth_qtsql_0_10 = [
     Bind [ValueM ''QTSQL_QSQLQUERY''] ''setQuery'' [PConv QSqlQuery] RVoid [OnObject QSqlQueryModel],
     Bind [ValueM QTSQL_QSQLDATABASE] ''setQuery'' [PString True, PConv QSqlDatabase] RVoid [OnObject QSqlQueryModel],
     Bind [ValueM ''QTSQL_QSQLRECORD''] ''setRecord'' [PInt, PConv QSqlRecord] RBool [OnObject QSqlTableModel],
     Bind [ValueM ''QTSQL_QSQLRELATION''] ''setRelation'' [PInt, PConv ''QSqlRelation''] RVoid [OnObject QSqlRelationalTableModel],
     Bind [EnumM ''QT_SORTORDER''] ''setSort'' [PInt, PConv ''Qt::SortOrder''] RVoid [OnObject QSqlTableModel],
     Bind [] ''setTable'' [PString True] RVoid [OnObject QSqlRelationalTableModel, OnObject QSqlTableModel]]"

definition meth_qtsql_0_11 :: "binding list" where
  "meth_qtsql_0_11 = [
     Bind [EnumM ''QT_SORTORDER''] ''sort'' [PInt, PConv ''Qt::SortOrder''] RVoid [OnObject QSqlTableModel],
     Bind [TypeM ''QTSQL_QSQLDRIVER'', ValueM ''QTSQL_QSQLRECORD''] ''sqlStatement'' [PConv ''QSqlDriver::StatementType'', PString True, PConv QSqlRecord, PBool] RString [OnObject ''QSqlDriver''],
     Bind [TypeM ''QTSQL_QSQLDRIVER''] ''stripDelimiters'' [PString True, PConv ''QSqlDriver::IdentifierType''] RString [OnObject ''QSqlDriver''],
     Bind [] ''submit'' [] RBool [OnObject QSqlTableModel],
     Bind [] ''submitAll'' [] RBool [OnObject QSqlTableModel],
     Bind [] ''subscribeToNotification'' [PString True] RBool [OnObject ''QSqlDriver''],
     Bind [] ''subscribedToNotifications'' [] (RList (IMeta QString)) [OnObject ''QSqlDriver'']]"

definition meth_qtsql_0_12 :: "binding list" where
  "meth_qtsql_0_12 = [
     Bind [] ''tableName'' [] RString [OnObject QSqlTableModel],
     Bind [] ''unsubscribeFromNotification'' [PString True] RBool [OnObject ''QSqlDriver'']]"

definition meth_qtstatemachine_0_0 :: "binding list" where
  "meth_qtstatemachine_0_0 = [
     Bind [] ''active'' [] RBool [OnObject ''QAbstractState''],
     Bind [TypeM QTSTATEMACHINE_QABSTRACTSTATE] ''addState'' [PNonNull ''QAbstractState*''] RVoid [OnObject ''QStateMachine''],
     Bind [TypeM QTSTATEMACHINE_QABSTRACTSTATE, TypeM QTSTATEMACHINE_QABSTRACTTRANSITION] ''addTransition'' [PNonNull ''QAbstractState*''] RObject [OnObject ''QState''],
     Bind [TypeM QTSTATEMACHINE_QABSTRACTTRANSITION] ''addTransition'' [PNonNull ''QAbstractTransition*''] RVoid [OnObject ''QState''],
     Bind [EnumM QT_MOUSEBUTTON] ''button'' [] (RMeta ''Qt::MouseButton'') [OnObject ''QMouseEventTransition''],
     Bind [] ''cancelDelayedEvent'' [PInt] RBool [OnObject ''QStateMachine''],
     Bind [TypeM QTSTATEMACHINE_QSTATE] ''childMode'' [] (RMeta ''QState::ChildMode'') [OnObject ''QState'']]"

definition meth_qtstatemachine_0_1 :: "binding list" where
  "meth_qtstatemachine_0_1 = [
     Bind [] ''clearError'' [] RVoid [OnObject ''QStateMachine''],
     Bind [TypeM QTSTATEMACHINE_QABSTRACTSTATE] ''defaultState'' [] RObject [OnObject ''QHistoryState''],
     Bind [TypeM QTSTATEMACHINE_QABSTRACTTRANSITION] ''defaultTransition'' [] RObject [OnObject ''QHistoryState''],
     Bind [TypeM ''QTSTATEMACHINE_QSTATEMACHINE''] ''error'' [] (RMeta ''QStateMachine::Error'') [OnObject ''QStateMachine''],
     Bind [TypeM QTSTATEMACHINE_QABSTRACTSTATE] ''errorState'' [] RObject [OnObject ''QState''],
     Bind [] ''errorString'' [] RString [OnObject ''QStateMachine''],
     Bind [TypeM QTCORE_QOBJECT] ''eventSource'' [] RObject [OnObject ''QEventTransition''],
     Bind [TypeM QTCORE_QEVENT] ''eventType'' [] (RMeta QEvent_Type) [OnObject ''QEventTransition'']]"

definition meth_qtstatemachine_0_2 :: "binding list" where
  "meth_qtstatemachine_0_2 = [
     Bind [TypeM QTSTATEMACHINE_QSTATE] ''globalRestorePolicy'' [] (RMeta ''QState::RestorePolicy'') [OnObject ''QStateMachine''],
     Bind [TypeM ''QTSTATEMACHINE_QHISTORYSTATE''] ''historyType'' [] (RMeta ''QHistoryState::HistoryType'') [OnObject ''QHistoryState''],
     Bind [ValueM QTGUI_QPAINTERPATH] ''hitTestPath'' [] (RValue QPainterPath) [OnObject ''QMouseEventTransition''],
     Bind [TypeM QTSTATEMACHINE_QABSTRACTSTATE] ''initialState'' [] RObject [OnObject ''QState''],
     Bind [] ''isAnimated'' [] RBool [OnObject ''QStateMachine''],
     Bind [] ''isRunning'' [] RBool [OnObject ''QStateMachine''],
     Bind [] ''key'' [] RNumber [OnObject ''QKeyEventTransition''],
     Bind [TypeM ''QTSTATEMACHINE_QSTATEMACHINE''] ''machine'' [] RObject [OnObject ''QAbstractState'', OnObject ''QAbstractTransition'']]"

definition meth_qtstatemachine_0_3 :: "binding list" where
  "meth_qtstatemachine_0_3 = [
     Bind [TypeM QTSTATEMACHINE_QSTATE] ''parentState'' [] RObject [OnObject ''QAbstractState''],
     Bind [TypeM QTSTATEMACHINE_QABSTRACTSTATE] ''removeState'' [PNonNull ''QAbstractState*''] RVoid [OnObject ''QStateMachine''],
     Bind [TypeM QTSTATEMACHINE_QABSTRACTTRANSITION] ''removeTransition'' [PNonNull ''QAbstractTransition*''] RVoid [OnObject ''QState''],
     Bind [TypeM QTCORE_QOBJECT] ''senderObject'' [] RObject [OnObject ''QSignalTransition''],
     Bind [] ''setAnimated'' [PBool] RVoid [OnObject ''QStateMachine''],
     Bind [EnumM QT_MOUSEBUTTON] ''setButton'' [PConv ''Qt::MouseButton''] RVoid [OnObject ''QMouseEventTransition''],
     Bind [TypeM QTSTATEMACHINE_QSTATE] ''setChildMode'' [PConv ''QState::ChildMode''] RVoid [OnObject ''QState'']]"

definition meth_qtstatemachine_0_4 :: "binding list" where
  "meth_qtstatemachine_0_4 = [
     Bind [TypeM QTSTATEMACHINE_QABSTRACTSTATE] ''setDefaultState'' [PNonNull ''QAbstractState*''] RVoid [OnObject ''QHistoryState''],
     Bind [TypeM QTSTATEMACHINE_QABSTRACTTRANSITION] ''setDefaultTransition'' [PNonNull ''QAbstractTransition*''] RVoid [OnObject ''QHistoryState''],
     Bind [TypeM QTSTATEMACHINE_QABSTRACTSTATE] ''setErrorState'' [PNonNull ''QAbstractState*''] RVoid [OnObject ''QState''],
     Bind [TypeM QTCORE_QOBJECT] ''setEventSource'' [PNonNull QObject_ptr] RVoid [OnObject ''QEventTransition''],
     Bind [TypeM QTCORE_QEVENT] ''setEventType'' [PConv QEvent_Type] RVoid [OnObject ''QEventTransition''],
     Bind [TypeM QTSTATEMACHINE_QSTATE] ''setGlobalRestorePolicy'' [PConv ''QState::RestorePolicy''] RVoid [OnObject ''QStateMachine'']]"

definition meth_qtstatemachine_0_5 :: "binding list" where
  "meth_qtstatemachine_0_5 = [
     Bind [TypeM ''QTSTATEMACHINE_QHISTORYSTATE''] ''setHistoryType'' [PConv ''QHistoryState::HistoryType''] RVoid [OnObject ''QHistoryState''],
     Bind [ValueM QTGUI_QPAINTERPATH] ''setHitTestPath'' [PConv QPainterPath] RVoid [OnObject ''QMouseEventTransition''],
     Bind [TypeM QTSTATEMACHINE_QABSTRACTSTATE] ''setInitialState'' [PNonNull ''QAbstractState*''] RVoid [OnObject ''QState''],
     Bind [] ''setKey'' [PInt] RVoid [OnObject ''QKeyEventTransition''],
     Bind [] ''setRunning'' [PBool] RVoid [OnObject ''QStateMachine''],
     Bind [TypeM QTCORE_QOBJECT] ''setSenderObject'' [PNonNull QObject_ptr] RVoid [OnObject ''QSignalTransition'']]"

definition meth_qtstatemachine_0_6 :: "binding list" where
  "meth_qtstatemachine_0_6 = [
     Bind [ValueM QTCORE_QBYTEARRAY] ''setSignal'' [PConv QByteArray] RVoid [OnObject ''QSignalTransition''],
     Bind [TypeM QTSTATEMACHINE_QABSTRACTSTATE] ''setTargetState'' [PNonNull ''QAbstractState*''] RVoid [OnObject ''QAbstractTransition''],
     Bind [TypeM QTSTATEMACHINE_QABSTRACTSTATE] ''setTargetStates'' [PList ''QAbstractState*''] RVoid [OnObject ''QAbstractTransition''],
     Bind [TypeM QTSTATEMACHINE_QABSTRACTTRANSITION] ''setTransitionType'' [PConv ''QAbstractTransition::TransitionType''] RVoid [OnObject ''QAbstractTransition''],
     Bind [ValueM QTCORE_QBYTEARRAY] ''signal'' [] (RValue QByteArray) [OnObject ''QSignalTransition''],
     Bind [TypeM QTSTATEMACHINE_QSTATE] ''sourceState'' [] RObject [OnObject ''QAbstractTransition''],
     Bind [] ''start'' [] RVoid [OnObject ''QStateMachine'']]"

definition meth_qtstatemachine_0_7 :: "binding list" where
  "meth_qtstatemachine_0_7 = [
     Bind [] ''stop'' [] RVoid [OnObject ''QStateMachine''],
     Bind [TypeM QTSTATEMACHINE_QABSTRACTSTATE] ''targetState'' [] RObject [OnObject ''QAbstractTransition''],
     Bind [TypeM QTSTATEMACHINE_QABSTRACTSTATE] ''targetStates'' [] (RList IObject) [OnObject ''QAbstractTransition''],
     Bind [TypeM QTSTATEMACHINE_QABSTRACTTRANSITION] ''transitionType'' [] (RMeta ''QAbstractTransition::TransitionType'') [OnObject ''QAbstractTransition''],
     Bind [TypeM QTSTATEMACHINE_QABSTRACTTRANSITION] ''transitions'' [] (RList IObject) [OnObject ''QState'']]"

definition meth_qtsvg_0_0 :: "binding list" where
  "meth_qtsvg_0_0 = [
     Bind [] ''animated'' [] RBool [OnObject QSvgRenderer],
     Bind [] ''animationDuration'' [] RNumber [OnObject QSvgRenderer],
     Bind [EnumM QT_ASPECTRATIOMODE] ''aspectRatioMode'' [] (RMeta Qt_AspectRatioMode) [OnObject QSvgRenderer],
     Bind [ValueM QTCORE_QRECTF] ''boundsOnElement'' [PString True] (RValue QRectF) [OnObject QSvgRenderer],
     Bind [] ''currentFrame'' [] RNumber [OnObject QSvgRenderer],
     Bind [ValueM QTCORE_QSIZE] ''defaultSize'' [] (RValue QSize) [OnObject QSvgRenderer],
     Bind [] ''elementExists'' [PString True] RBool [OnObject QSvgRenderer],
     Bind [] ''framesPerSecond'' [] RNumber [OnObject QSvgRenderer]]"

definition meth_qtsvg_0_1 :: "binding list" where
  "meth_qtsvg_0_1 = [
     Bind [] ''isAnimationEnabled'' [] RBool [OnObject QSvgRenderer],
     Bind [] ''isValid'' [] RBool [OnObject QSvgRenderer],
     Bind [ValueM QTCORE_QBYTEARRAY] ''load'' [PConv QByteArray] RBool [OnObject QSvgRenderer],
     Bind [] ''load'' [PString True] RBool [OnObject QSvgRenderer],
     Bind [] ''setAnimationEnabled'' [PBool] RVoid [OnObject QSvgRenderer],
     Bind [EnumM QT_ASPECTRATIOMODE] ''setAspectRatioMode'' [PConv Qt_AspectRatioMode] RVoid [OnObject QSvgRenderer],
     Bind [] ''setCurrentFrame'' [PInt] RVoid [OnObject QSvgRenderer]]"

definition meth_qtsvg_0_2 :: "binding list" where
  "meth_qtsvg_0_2 = [
     Bind [] ''setFramesPerSecond'' [PInt] RVoid [OnObject QSvgRenderer],
     Bind [ValueM QTCORE_QRECT] ''setViewBox'' [PConv QRect] RVoid [OnObject QSvgRenderer],
     Bind [ValueM QTCORE_QRECTF] ''setViewBox'' [PConv QRectF] RVoid [OnObject QSvgRenderer],
     Bind [ValueM QTGUI_QTRANSFORM] ''transformForElement'' [PString True] (RValue QTransform) [OnObject QSvgRenderer],
     Bind [ValueM QTCORE_QRECT] ''viewBox'' [] (RValue QRect) [OnObject QSvgRenderer],
     Bind [ValueM QTCORE_QRECTF] ''viewBoxF'' [] (RValue QRectF) [OnObject QSvgRenderer]]"

definition meth_qtsvgwidgets_0_0 :: "binding list" where
  "meth_qtsvgwidgets_0_0 = [
     Bind [ValueM QTCORE_QRECTF] ''boundingRect'' [] (RValue QRectF) [OnObject ''QGraphicsSvgItem''],
     Bind [] ''elementId'' [] RString [OnObject ''QGraphicsSvgItem''],
     Bind [ValueM QTCORE_QBYTEARRAY] ''load'' [PConv QByteArray] RVoid [OnObject ''QSvgWidget''],
     Bind [] ''load'' [PString True] RVoid [OnObject ''QSvgWidget''],
     Bind [ValueM QTCORE_QSIZE] ''maximumCacheSize'' [] (RValue QSize) [OnObject ''QGraphicsSvgItem''],
     Bind [TypeM ''QTSVG_QSVGRENDERER''] ''renderer'' [] RObject [OnObject ''QGraphicsSvgItem'', OnObject ''QSvgWidget''],
     Bind [] ''setElementId'' [PString True] RVoid [OnObject ''QGraphicsSvgItem'']]"

definition meth_qtsvgwidgets_0_1 :: "binding list" where
  "meth_qtsvgwidgets_0_1 = [
     Bind [ValueM QTCORE_QSIZE] ''setMaximumCacheSize'' [PConv QSize] RVoid [OnObject ''QGraphicsSvgItem''],
     Bind [TypeM ''QTSVG_QSVGRENDERER''] ''setSharedRenderer'' [PNonNull ''QSvgRenderer*''] RVoid [OnObject ''QGraphicsSvgItem''],
     Bind [ValueM QTCORE_QSIZE] ''sizeHint'' [] (RValue QSize) [OnObject ''QSvgWidget''],
     Bind [] ''type'' [] RNumber [OnObject ''QGraphicsSvgItem'']]"

definition meth_qttest_0_0 :: "binding list" where
  "meth_qttest_0_0 = [
     Bind [TypeM ''QTTEST_QABSTRACTITEMMODELTESTER''] ''failureReportingMode'' [] (RMeta ''QAbstractItemModelTester::FailureReportingMode'') [OnObject ''QAbstractItemModelTester''],
     Bind [TypeM QTCORE_QABSTRACTITEMMODEL] ''model'' [] RObject [OnObject ''QAbstractItemModelTester''],
     Bind [] ''setUseFetchMore'' [PBool] RVoid [OnObject ''QAbstractItemModelTester'']]"

definition meth_qttexttospeech_0_0 :: "binding list" where
  "meth_qttexttospeech_0_0 = [
     Bind [TypeM ''QTTEXTTOSPEECH_QVOICE''] ''ageName'' [PConv ''QVoice::Age''] RString [Static ''QVoice''],
     Bind [] ''availableEngines'' [] (RList (IMeta QString)) [Static QTextToSpeech],
     Bind [ValueM QTCORE_QLOCALE] ''availableLocales'' [] (RList (IValue QLocale)) [OnObject QTextToSpeech],
     Bind [ValueM ''QTTEXTTOSPEECH_QVOICE''] ''availableVoices'' [] (RList (IValue ''QVoice'')) [OnObject QTextToSpeech],
     Bind [] ''engine'' [] RString [OnObject QTextToSpeech],
     Bind [TypeM ''QTTEXTTOSPEECH_QTEXTTOSPEECH''] ''engineCapabilities'' [] (RMeta ''QTextToSpeech::Capabilities'') [OnObject QTextToSpeech],
     Bind [] ''enqueue'' [PString True] (RMeta ''qsizetype'') [OnObject QTextToSpeech]]"

definition meth_qttexttospeech_0_1 :: "binding list" where
  "meth_qttexttospeech_0_1 = [
     Bind [TypeM ''QTTEXTTOSPEECH_QTEXTTOSPEECH''] ''errorReason'' [] (RMeta ''QTextToSpeech::ErrorReason'') [OnObject QTextToSpeech],
     Bind [] ''errorString'' [] RString [OnObject QTextToSpeech],
     Bind [TypeM ''QTTEXTTOSPEECH_QVOICE''] ''genderName'' [PConv ''QVoice::Gender''] RString [Static ''QVoice''],
     Bind [ValueM QTCORE_QLOCALE] ''locale'' [] (RValue QLocale) [OnObject QTextToSpeech],
     Bind [TypeM ''QTTEXTTOSPEECH_QTEXTTOSPEECH''] ''pause'' [PConv ''QTextToSpeech::BoundaryHint''] RVoid [OnObject QTextToSpeech],
     Bind [] ''pitch'' [] RNumber [OnObject QTextToSpeech],
     Bind [] ''rate'' [] RNumber [OnObject QTextToSpeech],
     Bind [] ''resume'' [] RVoid [OnObject QTextToSpeech]]"

definition meth_qttexttospeech_0_2 :: "binding list" where
  "meth_qttexttospeech_0_2 = [
     Bind [] ''say'' [PString True] RVoid [OnObject QTextToSpeech],
     Bind [ValueM QTCORE_QLOCALE] ''setLocale'' [PConv QLocale] RVoid [OnObject QTextToSpeech],
     Bind [] ''setPitch'' [PReal ''double''] RVoid [OnObject QTextToSpeech],
     Bind [] ''setRate'' [PReal ''double''] RVoid [OnObject QTextToSpeech],
     Bind [ValueM ''QTTEXTTOSPEECH_QVOICE''] ''setVoice'' [PConv ''QVoice''] RVoid [OnObject QTextToSpeech],
     Bind [] ''setVolume'' [PReal ''double''] RVoid [OnObject QTextToSpeech],
     Bind [TypeM ''QTTEXTTOSPEECH_QTEXTTOSPEECH''] ''state'' [] (RMeta ''QTextToSpeech::State'') [OnObject QTextToSpeech]]"

definition meth_qttexttospeech_0_3 :: "binding list" where
  "meth_qttexttospeech_0_3 = [
     Bind [TypeM ''QTTEXTTOSPEECH_QTEXTTOSPEECH''] ''stop'' [PConv ''QTextToSpeech::BoundaryHint''] RVoid [OnObject QTextToSpeech],
     Bind [ValueM ''QTTEXTTOSPEECH_QVOICE''] ''voice'' [] (RValue ''QVoice'') [OnObject QTextToSpeech],
     Bind [] ''volume'' [] RNumber [OnObject QTextToSpeech]]"

definition meth_qtwebchannel_0_0 :: "binding list" where
  "meth_qtwebchannel_0_0 = [
     Bind [] ''blockUpdates'' [] RBool [OnObject ''QWebChannel''],
     Bind [TypeM ''QTWEBCHANNEL_QWEBCHANNELABSTRACTTRANSPORT''] ''connectTo'' [PNonNull ''QWebChannelAbstractTransport*''] RVoid [OnObject ''QWebChannel''],
     Bind [TypeM QTCORE_QOBJECT] ''deregisterObject'' [PNonNull QObject_ptr] RVoid [OnObject ''QWebChannel''],
     Bind [TypeM ''QTWEBCHANNEL_QWEBCHANNELABSTRACTTRANSPORT''] ''disconnectFrom'' [PNonNull ''QWebChannelAbstractTransport*''] RVoid [OnObject ''QWebChannel''],
     Bind [] ''propertyUpdateInterval'' [] RNumber [OnObject ''QWebChannel''],
     Bind [TypeM QTCORE_QOBJECT] ''registerObject'' [PString True, PNonNull QObject_ptr] RVoid [OnObject ''QWebChannel''],
     Bind [] ''setBlockUpdates'' [PBool] RVoid [OnObject ''QWebChannel'']]"

definition meth_qtwebchannel_0_1 :: "binding list" where
  "meth_qtwebchannel_0_1 = [
     Bind [] ''setPropertyUpdateInterval'' [PInt] RVoid [OnObject ''QWebChannel'']]"

definition meth_qtwebsockets_0_0 :: "binding list" where
  "meth_qtwebsockets_0_0 = [
     Bind [] ''abort'' [] RVoid [OnObject QWebSocket],
     Bind [] ''bytesToWrite'' [] (RMeta ''qint64'') [OnObject QWebSocket],
     Bind [] ''close'' [] RVoid [OnObject QWebSocketServer],
     Bind [] ''closeReason'' [] RString [OnObject QWebSocket],
     Bind [] ''continueInterruptedHandshake'' [] RVoid [OnObject QWebSocket],
     Bind [TypeM QTNETWORK_QABSTRACTSOCKET] ''error'' [] (RMeta ''QAbstractSocket::SocketError'') [OnObject QWebSocket],
     Bind [] ''errorString'' [] RString [OnObject QWebSocket, OnObject QWebSocketServer],
     Bind [] ''flush'' [] RBool [OnObject QWebSocket]]"

definition meth_qtwebsockets_0_1 :: "binding list" where
  "meth_qtwebsockets_0_1 = [
     Bind [TypeM ''QTNETWORK_QTCPSOCKET''] ''handleConnection'' [PNonNull ''QTcpSocket*''] RVoid [OnObject QWebSocketServer],
     Bind [ValueM ''QTWEBSOCKETS_QWEBSOCKETHANDSHAKEOPTIONS''] ''handshakeOptions'' [] (RValue QWebSocketHandshakeOptions) [OnObject QWebSocket],
     Bind [] ''handshakeTimeoutMS'' [] RNumber [OnObject QWebSocketServer],
     Bind [] ''hasPendingConnections'' [] RBool [OnObject QWebSocketServer],
     Bind [] ''ignoreSslErrors'' [] RVoid [OnObject QWebSocket],
     Bind [ValueM ''QTNETWORK_QSSLERROR''] ''ignoreSslErrors'' [PListV ''QSslError''] RVoid [OnObject QWebSocket],
     Bind [] ''isListening'' [] RBool [OnObject QWebSocketServer],
     Bind [] ''isValid'' [] RBool [OnObject QWebSocket]]"

definition meth_qtwebsockets_0_2 :: "binding list" where
  "meth_qtwebsockets_0_2 = [
     Bind [ValueM QTNETWORK_QHOSTADDRESS] ''localAddress'' [] (RValue QHostAddress) [OnObject QWebSocket],
     Bind [TypeM ''QTWEBSOCKETS_QMASKGENERATOR''] ''maskGenerator'' [] RObject [OnObject QWebSocket],
     Bind [] ''maxAllowedIncomingFrameSize'' [] (RMeta ''quint64'') [OnObject QWebSocket],
     Bind [] ''maxAllowedIncomingMessageSize'' [] (RMeta ''quint64'') [OnObject QWebSocket],
     Bind [] ''maxIncomingFrameSize'' [] (RMeta ''quint64'') [Static QWebSocket],
     Bind [] ''maxIncomingMessageSize'' [] (RMeta ''quint64'') [Static QWebSocket],
     Bind [] ''maxOutgoingFrameSize'' [] (RMeta ''quint64'') [Static QWebSocket],
     Bind [] ''maxPendingConnections'' [] RNumber [OnObject QWebSocketServer]]"

definition meth_qtwebsockets_0_3 :: "binding list" where
  "meth_qtwebsockets_0_3 = [
     Bind [TypeM ''QTWEBSOCKETS_QWEBSOCKET''] ''nextPendingConnection'' [] RObject [OnObject QWebSocketServer],
     Bind [ValueM QTNETWORK_QNETWORKREQUEST] ''open'' [PConv QNetworkRequest] RVoid [OnObject QWebSocket],
     Bind [ValueM QTNETWORK_QNETWORKREQUEST, ValueM ''QTWEBSOCKETS_QWEBSOCKETHANDSHAKEOPTIONS''] ''open'' [PConv QNetworkRequest, PConv QWebSocketHandshakeOptions] RVoid [OnObject QWebSocket],
     Bind [ValueM QTCORE_QURL] ''open'' [PConv QUrl] RVoid [OnObject QWebSocket],
     Bind [ValueM QTCORE_QURL, ValueM ''QTWEBSOCKETS_QWEBSOCKETHANDSHAKEOPTIONS''] ''open'' [PConv QUrl, PConv QWebSocketHandshakeOptions] RVoid [OnObject QWebSocket],
     Bind [] ''origin'' [] RString [OnObject QWebSocket],
     Bind [] ''outgoingFrameSize'' [] (RMeta ''quint64'') [OnObject QWebSocket]]"

definition meth_qtwebsockets_0_4 :: "binding list" where
  "meth_qtwebsockets_0_4 = [
     Bind [] ''pauseAccepting'' [] RVoid [OnObject QWebSocketServer],
     Bind [ValueM QTNETWORK_QHOSTADDRESS] ''peerAddress'' [] (RValue QHostAddress) [OnObject QWebSocket],
     Bind [] ''peerName'' [] RString [OnObject QWebSocket],
     Bind [ValueM QTCORE_QBYTEARRAY] ''ping'' [PConv QByteArray] RVoid [OnObject QWebSocket],
     Bind [ValueM QTNETWORK_QNETWORKPROXY] ''proxy'' [] (RValue QNetworkProxy) [OnObject QWebSocket, OnObject QWebSocketServer],
     Bind [] ''readBufferSize'' [] (RMeta ''qint64'') [OnObject QWebSocket],
     Bind [ValueM QTNETWORK_QNETWORKREQUEST] ''request'' [] (RValue QNetworkRequest) [OnObject QWebSocket]]"

definition meth_qtwebsockets_0_5 :: "binding list" where
  "meth_qtwebsockets_0_5 = [
     Bind [ValueM QTCORE_QURL] ''requestUrl'' [] (RValue QUrl) [OnObject QWebSocket],
     Bind [] ''resourceName'' [] RString [OnObject QWebSocket],
     Bind [] ''resume'' [] RVoid [OnObject QWebSocket],
     Bind [] ''resumeAccepting'' [] RVoid [OnObject QWebSocketServer],
     Bind [TypeM ''QTWEBSOCKETS_QWEBSOCKETSERVER''] ''secureMode'' [] (RMeta ''QWebSocketServer::SslMode'') [OnObject QWebSocketServer],
     Bind [ValueM QTCORE_QBYTEARRAY] ''sendBinaryMessage'' [PConv QByteArray] (RMeta ''qint64'') [OnObject QWebSocket],
     Bind [] ''sendTextMessage'' [PString True] (RMeta ''qint64'') [OnObject QWebSocket],
     Bind [ValueM QTNETWORK_QHOSTADDRESS] ''serverAddress'' [] (RValue QHostAddress) [OnObject QWebSocketServer]]"

definition meth_qtwebsockets_0_6 :: "binding list" where
  "meth_qtwebsockets_0_6 = [
     Bind [] ''serverName'' [] RString [OnObject QWebSocketServer],
     Bind [ValueM QTCORE_QURL] ''serverUrl'' [] (RValue QUrl) [OnObject QWebSocketServer],
     Bind [] ''setHandshakeTimeout'' [PInt] RVoid [OnObject QWebSocketServer],
     Bind [TypeM ''QTWEBSOCKETS_QMASKGENERATOR''] ''setMaskGenerator'' [PNonNull ''QMaskGenerator*''] RVoid [OnObject QWebSocket],
     Bind [] ''setMaxAllowedIncomingFrameSize'' [PWide ''quint64''] RVoid [OnObject QWebSocket],
     Bind [] ''setMaxAllowedIncomingMessageSize'' [PWide ''quint64''] RVoid [OnObject QWebSocket],
     Bind [] ''setMaxPendingConnections'' [PInt] RVoid [OnObject QWebSocketServer]]"

definition meth_qtwebsockets_0_7 :: "binding list" where
  "meth_qtwebsockets_0_7 = [
     Bind [] ''setOutgoingFrameSize'' [PWide ''quint64''] RVoid [OnObject QWebSocket],
     Bind [ValueM QTNETWORK_QNETWORKPROXY] ''setProxy'' [PConv QNetworkProxy] RVoid [OnObject QWebSocket, OnObject QWebSocketServer],
     Bind [] ''setReadBufferSize'' [PWide ''qint64''] RVoid [OnObject QWebSocket],
     Bind [] ''setServerName'' [PString True] RVoid [OnObject QWebSocketServer],
     Bind [ValueM QTNETWORK_QSSLCONFIGURATION] ''setSslConfiguration'' [PConv QSslConfiguration] RVoid [OnObject QWebSocket, OnObject QWebSocketServer],
     Bind [] ''setSupportedSubprotocols'' [PStringList] RVoid [OnObject QWebSocketServer]]"

definition meth_qtwebsockets_0_8 :: "binding list" where
  "meth_qtwebsockets_0_8 = [
     Bind [ValueM QTNETWORK_QSSLCONFIGURATION] ''sslConfiguration'' [] (RValue QSslConfiguration) [OnObject QWebSocket, OnObject QWebSocketServer],
     Bind [TypeM QTNETWORK_QABSTRACTSOCKET] ''state'' [] (RMeta ''QAbstractSocket::SocketState'') [OnObject QWebSocket],
     Bind [] ''subprotocol'' [] RString [OnObject QWebSocket],
     Bind [] ''supportedSubprotocols'' [] (RList (IMeta QString)) [OnObject QWebSocketServer]]"

definition meth_table_rest_b :: "(string \<times> shard) list" where
  "meth_table_rest_b = [
     (''qtqml_0'', \<lparr>sh_module = ''QtQml'', sh_slug = ''QTQML'',
        sh_bindings = concat [meth_qtqml_0_0, meth_qtqml_0_1, meth_qtqml_0_2, meth_qtqml_0_3, meth_qtqml_0_4, meth_qtqml_0_5, meth_qtqml_0_6, meth_qtqml_0_7, meth_qtqml_0_8, meth_qtqml_0_9, meth_qtqml_0_10, meth_qtqml_0_11, meth_qtqml_0_12, meth_qtqml_0_13, meth_qtqml_0_14, meth_qtqml_0_15, meth_qtqml_0_16]\<rparr>),
     (''qtquick_0'', \<lparr>sh_module = ''QtQuick'', sh_slug = ''QTQUICK'',
        sh_bindings = concat [meth_qtquick_0_0, meth_qtquick_0_1, meth_qtquick_0_2, meth_qtquick_0_3, meth_qtquick_0_4, meth_qtquick_0_5, meth_qtquick_0_6, meth_qtquick_0_7, meth_qtquick_0_8, meth_qtquick_0_9, meth_qtquick_0_10, meth_qtquick_0_11, meth_qtquick_0_12, meth_qtquick_0_13, meth_qtquick_0_14, meth_qtquick_0_15, meth_qtquick_0_16, meth_qtquick_0_17, meth_qtquick_0_18, meth_qtquick_0_19, meth_qtquick_0_20, meth_qtquick_0_21, meth_qtquick_0_22, meth_qtquick_0_23, meth_qtquick_0_24, meth_qtquick_0_25, meth_qtquick_0_26, meth_qtquick_0_27, meth_qtquick_0_28, meth_qtquick_0_29, meth_qtquick_0_30]\<rparr>),
     (''qtquickwidgets_0'', \<lparr>sh_module = ''QtQuickWidgets'', sh_slug = ''QTQUICKWIDGETS'',
        sh_bindings = concat [meth_qtquickwidgets_0_0, meth_qtquickwidgets_0_1, meth_qtquickwidgets_0_2]\<rparr>),
     (''qtremoteobjects_0'', \<lparr>sh_module = ''QtRemoteObjects'', sh_slug = ''QTREMOTEOBJECTS'',
        sh_bindings = concat [meth_qtremoteobjects_0_0, meth_qtremoteobjects_0_1, meth_qtremoteobjects_0_2, meth_qtremoteobjects_0_3, meth_qtremoteobjects_0_4, meth_qtremoteobjects_0_5, meth_qtremoteobjects_0_6]\<rparr>),
     (''qtserialport_0'', \<lparr>sh_module = ''QtSerialPort'', sh_slug = ''QTSERIALPORT'',
        sh_bindings = concat [meth_qtserialport_0_0, meth_qtserialport_0_1, meth_qtserialport_0_2, meth_qtserialport_0_3, meth_qtserialport_0_4]\<rparr>),
     (''qtsql_0'', \<lparr>sh_module = ''QtSql'', sh_slug = ''QTSQL'',
        sh_bindings = concat [meth_qtsql_0_0, meth_qtsql_0_1, meth_qtsql_0_2, meth_qtsql_0_3, meth_qtsql_0_4, meth_qtsql_0_5, meth_qtsql_0_6, meth_qtsql_0_7, meth_qtsql_0_8, meth_qtsql_0_9, meth_qtsql_0_10, meth_qtsql_0_11, meth_qtsql_0_12]\<rparr>),
     (''qtstatemachine_0'', \<lparr>sh_module = ''QtStateMachine'', sh_slug = ''QTSTATEMACHINE'',
        sh_bindings = concat [meth_qtstatemachine_0_0, meth_qtstatemachine_0_1, meth_qtstatemachine_0_2, meth_qtstatemachine_0_3, meth_qtstatemachine_0_4, meth_qtstatemachine_0_5, meth_qtstatemachine_0_6, meth_qtstatemachine_0_7]\<rparr>),
     (''qtsvg_0'', \<lparr>sh_module = ''QtSvg'', sh_slug = ''QTSVG'',
        sh_bindings = concat [meth_qtsvg_0_0, meth_qtsvg_0_1, meth_qtsvg_0_2]\<rparr>),
     (''qtsvgwidgets_0'', \<lparr>sh_module = ''QtSvgWidgets'', sh_slug = ''QTSVGWIDGETS'',
        sh_bindings = concat [meth_qtsvgwidgets_0_0, meth_qtsvgwidgets_0_1]\<rparr>),
     (''qttest_0'', \<lparr>sh_module = ''QtTest'', sh_slug = ''QTTEST'',
        sh_bindings = concat [meth_qttest_0_0]\<rparr>),
     (''qttexttospeech_0'', \<lparr>sh_module = ''QtTextToSpeech'', sh_slug = ''QTTEXTTOSPEECH'',
        sh_bindings = concat [meth_qttexttospeech_0_0, meth_qttexttospeech_0_1, meth_qttexttospeech_0_2, meth_qttexttospeech_0_3]\<rparr>),
     (''qtwebchannel_0'', \<lparr>sh_module = ''QtWebChannel'', sh_slug = ''QTWEBCHANNEL'',
        sh_bindings = concat [meth_qtwebchannel_0_0, meth_qtwebchannel_0_1]\<rparr>),
     (''qtwebsockets_0'', \<lparr>sh_module = ''QtWebSockets'', sh_slug = ''QTWEBSOCKETS'',
        sh_bindings = concat [meth_qtwebsockets_0_0, meth_qtwebsockets_0_1, meth_qtwebsockets_0_2, meth_qtwebsockets_0_3, meth_qtwebsockets_0_4, meth_qtwebsockets_0_5, meth_qtwebsockets_0_6, meth_qtwebsockets_0_7, meth_qtwebsockets_0_8]\<rparr>)]"

lemmas meth_table_rest_b_defs =
  meth_qtqml_0_0_def meth_qtqml_0_1_def meth_qtqml_0_2_def meth_qtqml_0_3_def meth_qtqml_0_4_def
  meth_qtqml_0_5_def meth_qtqml_0_6_def meth_qtqml_0_7_def meth_qtqml_0_8_def meth_qtqml_0_9_def
  meth_qtqml_0_10_def meth_qtqml_0_11_def meth_qtqml_0_12_def meth_qtqml_0_13_def meth_qtqml_0_14_def
  meth_qtqml_0_15_def meth_qtqml_0_16_def meth_qtquick_0_0_def meth_qtquick_0_1_def meth_qtquick_0_2_def
  meth_qtquick_0_3_def meth_qtquick_0_4_def meth_qtquick_0_5_def meth_qtquick_0_6_def meth_qtquick_0_7_def
  meth_qtquick_0_8_def meth_qtquick_0_9_def meth_qtquick_0_10_def meth_qtquick_0_11_def meth_qtquick_0_12_def
  meth_qtquick_0_13_def meth_qtquick_0_14_def meth_qtquick_0_15_def meth_qtquick_0_16_def meth_qtquick_0_17_def
  meth_qtquick_0_18_def meth_qtquick_0_19_def meth_qtquick_0_20_def meth_qtquick_0_21_def meth_qtquick_0_22_def
  meth_qtquick_0_23_def meth_qtquick_0_24_def meth_qtquick_0_25_def meth_qtquick_0_26_def meth_qtquick_0_27_def
  meth_qtquick_0_28_def meth_qtquick_0_29_def meth_qtquick_0_30_def meth_qtquickwidgets_0_0_def
  meth_qtquickwidgets_0_1_def meth_qtquickwidgets_0_2_def meth_qtremoteobjects_0_0_def
  meth_qtremoteobjects_0_1_def meth_qtremoteobjects_0_2_def meth_qtremoteobjects_0_3_def
  meth_qtremoteobjects_0_4_def meth_qtremoteobjects_0_5_def meth_qtremoteobjects_0_6_def
  meth_qtserialport_0_0_def meth_qtserialport_0_1_def meth_qtserialport_0_2_def meth_qtserialport_0_3_def
  meth_qtserialport_0_4_def meth_qtsql_0_0_def meth_qtsql_0_1_def meth_qtsql_0_2_def meth_qtsql_0_3_def
  meth_qtsql_0_4_def meth_qtsql_0_5_def meth_qtsql_0_6_def meth_qtsql_0_7_def meth_qtsql_0_8_def
  meth_qtsql_0_9_def meth_qtsql_0_10_def meth_qtsql_0_11_def meth_qtsql_0_12_def meth_qtstatemachine_0_0_def
  meth_qtstatemachine_0_1_def meth_qtstatemachine_0_2_def meth_qtstatemachine_0_3_def
  meth_qtstatemachine_0_4_def meth_qtstatemachine_0_5_def meth_qtstatemachine_0_6_def
  meth_qtstatemachine_0_7_def meth_qtsvg_0_0_def meth_qtsvg_0_1_def meth_qtsvg_0_2_def meth_qtsvgwidgets_0_0_def
  meth_qtsvgwidgets_0_1_def meth_qttest_0_0_def meth_qttexttospeech_0_0_def meth_qttexttospeech_0_1_def
  meth_qttexttospeech_0_2_def meth_qttexttospeech_0_3_def meth_qtwebchannel_0_0_def meth_qtwebchannel_0_1_def
  meth_qtwebsockets_0_0_def meth_qtwebsockets_0_1_def meth_qtwebsockets_0_2_def meth_qtwebsockets_0_3_def
  meth_qtwebsockets_0_4_def meth_qtwebsockets_0_5_def meth_qtwebsockets_0_6_def meth_qtwebsockets_0_7_def
  meth_qtwebsockets_0_8_def

lemma meth_table_rest_b_object_blocks: "list_all (\<lambda>(s, sh). object_blocks sh) meth_table_rest_b"
  by (simp add: meth_table_rest_b_def meth_table_rest_b_defs object_blocks_def object_shard_def; (simp add: parameter_text_def qt_name_defs)?)

end
