(* ===== verification/Methods_Widgets_A.thy ===== *)
theory Methods_Widgets_A
  imports Shard_Methods Qt_Names
begin

text \<open>
  Tables of the method shards (generated\_methods): the blocks of every shard in the file's order.
\<close>

definition meth_qtwidgets_0_0 :: "binding list" where
  "meth_qtwidgets_0_0 = [
     Bind [] ''aboutQt'' [] RVoid [Static QApplication],
     Bind [] ''accept'' [] RVoid [OnObject ''QDialog''],
     Bind [TypeM QTWIDGETS_QWIDGET] ''activeModalWidget'' [] RObject [Static QApplication],
     Bind [TypeM QTWIDGETS_QWIDGET] ''activePopupWidget'' [] RObject [Static QApplication],
     Bind [TypeM QTWIDGETS_QWIDGET] ''activeWindow'' [] RObject [Static QApplication],
     Bind [TypeM QTWIDGETS_QABSTRACTBUTTON, TypeM QTWIDGETS_QDIALOGBUTTONBOX] ''addButton'' [PNonNull ''QAbstractButton*'', PConv ''QDialogButtonBox::ButtonRole''] RVoid [OnObject QDialogButtonBox],
     Bind [TypeM QTWIDGETS_QABSTRACTBUTTON] ''addButton'' [PNonNull ''QAbstractButton*'', PInt] RVoid [OnObject ''QButtonGroup'']]"

definition meth_qtwidgets_0_1 :: "binding list" where
  "meth_qtwidgets_0_1 = [
     Bind [TypeM QTWIDGETS_QDIALOGBUTTONBOX, TypeM ''QTWIDGETS_QPUSHBUTTON''] ''addButton'' [PConv ''QDialogButtonBox::StandardButton''] RObject [OnObject QDialogButtonBox],
     Bind [TypeM QTWIDGETS_QDIALOGBUTTONBOX, TypeM ''QTWIDGETS_QPUSHBUTTON''] ''addButton'' [PString True, PConv ''QDialogButtonBox::ButtonRole''] RObject [OnObject QDialogButtonBox],
     Bind [ValueM QTGUI_QICON] ''addItem'' [PConv QIcon, PString True, PVariant] RVoid [OnObject QComboBox],
     Bind [] ''addItem'' [PString True, PVariant] RVoid [OnObject QComboBox],
     Bind [] ''addItems'' [PStringList] RVoid [OnObject QComboBox],
     Bind [TypeM QTWIDGETS_QLAYOUT] ''addLayout'' [PNonNull ''QLayout*'', PInt] RVoid [OnObject QBoxLayout]]"

definition meth_qtwidgets_0_2 :: "binding list" where
  "meth_qtwidgets_0_2 = [
     Bind [TypeM QTWIDGETS_QWIDGET] ''addMapping'' [PNonNull QWidget_ptr, PInt] RVoid [OnObject QDataWidgetMapper],
     Bind [TypeM QTWIDGETS_QWIDGET, ValueM QTCORE_QBYTEARRAY] ''addMapping'' [PNonNull QWidget_ptr, PInt, PConv QByteArray] RVoid [OnObject QDataWidgetMapper],
     Bind [] ''addSpacing'' [PInt] RVoid [OnObject QBoxLayout],
     Bind [] ''addStretch'' [PInt] RVoid [OnObject QBoxLayout],
     Bind [] ''addStrut'' [PInt] RVoid [OnObject QBoxLayout],
     Bind [TypeM QTWIDGETS_QWIDGET] ''alert'' [PNonNull QWidget_ptr, PInt] RVoid [Static QApplication]]"

definition meth_qtwidgets_0_3 :: "binding list" where
  "meth_qtwidgets_0_3 = [
     Bind [EnumM ''QT_DOCKWIDGETAREAS''] ''allowedAreas'' [] (RMeta ''Qt::DockWidgetAreas'') [OnObject ''QDockWidget''],
     Bind [] ''alternatingRowColors'' [] RBool [OnObject QAbstractItemView],
     Bind [] ''animateClick'' [] RVoid [OnObject QAbstractButton],
     Bind [] ''autoExclusive'' [] RBool [OnObject QAbstractButton],
     Bind [] ''autoRepeat'' [] RBool [OnObject QAbstractButton],
     Bind [] ''autoRepeatDelay'' [] RNumber [OnObject QAbstractButton],
     Bind [] ''autoRepeatInterval'' [] RNumber [OnObject QAbstractButton],
     Bind [] ''autoScrollMargin'' [] RNumber [OnObject QAbstractItemView],
     Bind [] ''autoSipEnabled'' [] RBool [OnObject QApplication]]"

definition meth_qtwidgets_0_4 :: "binding list" where
  "meth_qtwidgets_0_4 = [
     Bind [] ''beep'' [] RVoid [Static QApplication],
     Bind [TypeM QTWIDGETS_QDIALOGBUTTONBOX, TypeM ''QTWIDGETS_QPUSHBUTTON''] ''button'' [PConv ''QDialogButtonBox::StandardButton''] RObject [OnObject QDialogButtonBox],
     Bind [TypeM QTWIDGETS_QABSTRACTBUTTON] ''button'' [PInt] RObject [OnObject ''QButtonGroup''],
     Bind [TypeM QTWIDGETS_QABSTRACTBUTTON, TypeM QTWIDGETS_QDIALOGBUTTONBOX] ''buttonRole'' [PNonNull ''QAbstractButton*''] (RMeta ''QDialogButtonBox::ButtonRole'') [OnObject QDialogButtonBox],
     Bind [TypeM ''QTWIDGETS_QABSTRACTSPINBOX''] ''buttonSymbols'' [] (RMeta ''QAbstractSpinBox::ButtonSymbols'') [OnObject QAbstractSpinBox],
     Bind [TypeM QTWIDGETS_QABSTRACTBUTTON] ''buttons'' [] (RList IObject) [OnObject ''QButtonGroup'', OnObject QDialogButtonBox]]"

definition meth_qtwidgets_0_5 :: "binding list" where
  "meth_qtwidgets_0_5 = [
     Bind [ValueM QTCORE_QCALENDAR] ''calendar'' [] (RValue QCalendar) [OnObject QCalendarWidget, OnObject QDateTimeEdit],
     Bind [] ''calendarPopup'' [] RBool [OnObject QDateTimeEdit],
     Bind [TypeM ''QTWIDGETS_QCALENDARWIDGET''] ''calendarWidget'' [] RObject [OnObject QDateTimeEdit],
     Bind [EnumM ''QT_CASESENSITIVITY''] ''caseSensitivity'' [] (RMeta ''Qt::CaseSensitivity'') [OnObject QCompleter],
     Bind [] ''centerButtons'' [] RBool [OnObject QDialogButtonBox],
     Bind [EnumM ''QT_CHECKSTATE''] ''checkState'' [] (RMeta ''Qt::CheckState'') [OnObject ''QCheckBox''],
     Bind [TypeM QTWIDGETS_QABSTRACTBUTTON] ''checkedButton'' [] RObject [OnObject ''QButtonGroup''],
     Bind [] ''checkedId'' [] RNumber [OnObject ''QButtonGroup'']]"

definition meth_qtwidgets_0_6 :: "binding list" where
  "meth_qtwidgets_0_6 = [
     Bind [] ''cleanText'' [] RString [OnObject QDoubleSpinBox],
     Bind [] ''clear'' [] RVoid [OnObject QAbstractSpinBox, OnObject QComboBox, OnObject QDateTimeEdit, OnObject QDialogButtonBox],
     Bind [] ''clearEditText'' [] RVoid [OnObject QComboBox],
     Bind [] ''clearMapping'' [] RVoid [OnObject QDataWidgetMapper],
     Bind [] ''clearMaximumDate'' [] RVoid [OnObject QCalendarWidget, OnObject QDateTimeEdit],
     Bind [] ''clearMaximumDateTime'' [] RVoid [OnObject QDateTimeEdit],
     Bind [] ''clearMaximumTime'' [] RVoid [OnObject QDateTimeEdit]]"

definition meth_qtwidgets_0_7 :: "binding list" where
  "meth_qtwidgets_0_7 = [
     Bind [] ''clearMinimumDate'' [] RVoid [OnObject QCalendarWidget, OnObject QDateTimeEdit],
     Bind [] ''clearMinimumDateTime'' [] RVoid [OnObject QDateTimeEdit],
     Bind [] ''clearMinimumTime'' [] RVoid [OnObject QDateTimeEdit],
     Bind [] ''clearSelection'' [] RVoid [OnObject QAbstractItemView],
     Bind [] ''click'' [] RVoid [OnObject QAbstractButton],
     Bind [] ''closeAllWindows'' [] RVoid [Static QApplication],
     Bind [ValueM QTCORE_QMODELINDEX] ''closePersistentEditor'' [PConv QModelIndex] RVoid [OnObject QAbstractItemView]]"

definition meth_qtwidgets_0_8 :: "binding list" where
  "meth_qtwidgets_0_8 = [
     Bind [] ''columnWidths'' [] (RList (IMeta ''int'')) [OnObject ''QColumnView''],
     Bind [ValueM QTCORE_QRECT] ''complete'' [PConv QRect] RVoid [OnObject QCompleter],
     Bind [TypeM ''QTWIDGETS_QCOMPLETER''] ''completer'' [] RObject [OnObject QComboBox],
     Bind [] ''completionColumn'' [] RNumber [OnObject QCompleter],
     Bind [] ''completionCount'' [] RNumber [OnObject QCompleter],
     Bind [TypeM ''QTWIDGETS_QCOMPLETER''] ''completionMode'' [] (RMeta ''QCompleter::CompletionMode'') [OnObject QCompleter],
     Bind [TypeM QTCORE_QABSTRACTITEMMODEL] ''completionModel'' [] RObject [OnObject QCompleter],
     Bind [] ''completionPrefix'' [] RString [OnObject QCompleter]]"

definition meth_qtwidgets_0_9 :: "binding list" where
  "meth_qtwidgets_0_9 = [
     Bind [] ''completionRole'' [] RNumber [OnObject QCompleter],
     Bind [TypeM QTWIDGETS_QWIDGET] ''cornerWidget'' [] RObject [OnObject QAbstractScrollArea],
     Bind [TypeM ''QTWIDGETS_QABSTRACTSPINBOX''] ''correctionMode'' [] (RMeta ''QAbstractSpinBox::CorrectionMode'') [OnObject QAbstractSpinBox],
     Bind [] ''count'' [] RNumber [OnObject QBoxLayout, OnObject QComboBox],
     Bind [TypeM QTWIDGETS_QWIDGET, ValueM QTCORE_QMODELINDEX, ValueM QTWIDGETS_QSTYLEOPTIONVIEWITEM] ''createEditor'' [PNonNull QWidget_ptr, PConv QStyleOptionViewItem, PConv QModelIndex] RObject [OnObject ''QAbstractItemDelegate''],
     Bind [ValueM QTGUI_QCOLOR] ''currentColor'' [] (RValue QColor) [OnObject ''QColorDialog''],
     Bind [] ''currentCompletion'' [] RString [OnObject QCompleter]]"

definition meth_qtwidgets_0_10 :: "binding list" where
  "meth_qtwidgets_0_10 = [
     Bind [] ''currentData'' [PInt] RVariant [OnObject QComboBox],
     Bind [ValueM QTCORE_QMODELINDEX] ''currentIndex'' [] (RValue QModelIndex) [OnObject QAbstractItemView, OnObject QCompleter],
     Bind [] ''currentIndex'' [] RNumber [OnObject QComboBox, OnObject QDataWidgetMapper],
     Bind [] ''currentRow'' [] RNumber [OnObject QCompleter],
     Bind [TypeM ''QTWIDGETS_QDATETIMEEDIT''] ''currentSection'' [] (RMeta ''QDateTimeEdit::Section'') [OnObject QDateTimeEdit],
     Bind [] ''currentSectionIndex'' [] RNumber [OnObject QDateTimeEdit],
     Bind [] ''currentText'' [] RString [OnObject QComboBox]]"

definition meth_qtwidgets_0_11 :: "binding list" where
  "meth_qtwidgets_0_11 = [
     Bind [] ''cursorFlashTime'' [] RNumber [Static QApplication],
     Bind [ValueM QTGUI_QCOLOR] ''customColor'' [PInt] (RValue QColor) [Static ''QColorDialog''],
     Bind [] ''customCount'' [] RNumber [Static ''QColorDialog''],
     Bind [ValueM QTCORE_QDATE] ''date'' [] (RValue QDate) [OnObject QDateTimeEdit],
     Bind [] ''dateEditAcceptDelay'' [] RNumber [OnObject QCalendarWidget],
     Bind [ValueM QTCORE_QDATE, ValueM QTGUI_QTEXTCHARFORMAT] ''dateTextFormat'' [PConv QDate] (RValue QTextCharFormat) [OnObject QCalendarWidget],
     Bind [ValueM QTCORE_QDATETIME] ''dateTime'' [] (RValue QDateTime) [OnObject QDateTimeEdit],
     Bind [] ''decimals'' [] RNumber [OnObject QDoubleSpinBox]]"

definition meth_qtwidgets_0_12 :: "binding list" where
  "meth_qtwidgets_0_12 = [
     Bind [EnumM QT_DROPACTION] ''defaultDropAction'' [] (RMeta Qt_DropAction) [OnObject QAbstractItemView],
     Bind [] ''description'' [] RString [OnObject ''QCommandLinkButton''],
     Bind [TypeM QTWIDGETS_QWIDGET, ValueM QTCORE_QMODELINDEX] ''destroyEditor'' [PNonNull QWidget_ptr, PConv QModelIndex] RVoid [OnObject ''QAbstractItemDelegate''],
     Bind [TypeM ''QTWIDGETS_QBOXLAYOUT''] ''direction'' [] (RMeta ''QBoxLayout::Direction'') [OnObject QBoxLayout],
     Bind [] ''displayFormat'' [] RString [OnObject QDateTimeEdit],
     Bind [TypeM ''QTWIDGETS_QDATETIMEEDIT''] ''displayedSections'' [] (RMeta ''QDateTimeEdit::Sections'') [OnObject QDateTimeEdit],
     Bind [EnumM ''QT_DOCKWIDGETAREA''] ''dockLocation'' [] (RMeta ''Qt::DockWidgetArea'') [OnObject ''QDockWidget''],
     Bind [] ''done'' [PInt] RVoid [OnObject ''QDialog'']]"

definition meth_qtwidgets_0_13 :: "binding list" where
  "meth_qtwidgets_0_13 = [
     Bind [] ''doubleClickInterval'' [] RNumber [Static QApplication],
     Bind [TypeM QTWIDGETS_QABSTRACTITEMVIEW] ''dragDropMode'' [] (RMeta ''QAbstractItemView::DragDropMode'') [OnObject QAbstractItemView],
     Bind [] ''dragDropOverwriteMode'' [] RBool [OnObject QAbstractItemView],
     Bind [] ''dragEnabled'' [] RBool [OnObject QAbstractItemView],
     Bind [] ''duplicatesEnabled'' [] RBool [OnObject QComboBox],
     Bind [ValueM QTCORE_QMODELINDEX] ''edit'' [PConv QModelIndex] RVoid [OnObject QAbstractItemView],
     Bind [] ''exclusive'' [] RBool [OnObject ''QButtonGroup''],
     Bind [] ''exec'' [] RNumber [Static QApplication]]"

definition meth_qtwidgets_0_14 :: "binding list" where
  "meth_qtwidgets_0_14 = [
     Bind [EnumM ''QT_ORIENTATIONS''] ''expandingDirections'' [] (RMeta ''Qt::Orientations'') [OnObject QBoxLayout],
     Bind [EnumM ''QT_DAYOFWEEK''] ''firstDayOfWeek'' [] (RMeta ''Qt::DayOfWeek'') [OnObject QCalendarWidget],
     Bind [TypeM QTWIDGETS_QWIDGET] ''focusWidget'' [] RObject [Static QApplication],
     Bind [ValueM QTGUI_QFONT] ''font'' [] (RValue QFont) [Static QApplication],
     Bind [TypeM QTWIDGETS_QWIDGET, ValueM QTGUI_QFONT] ''font'' [PNonNull QWidget_ptr] (RValue QFont) [Static QApplication],
     Bind [TypeM ''QTWIDGETS_QCOLORDIALOG'', TypeM QTWIDGETS_QWIDGET, ValueM QTGUI_QCOLOR] ''getColor'' [PConv QColor, PNonNull QWidget_ptr, PString True, PConv ''QColorDialog::ColorDialogOptions''] (RValue QColor) [Static ''QColorDialog''],
     Bind [TypeM ''QTWIDGETS_QBUTTONGROUP''] ''group'' [] RObject [OnObject QAbstractButton]]"

definition meth_qtwidgets_0_15 :: "binding list" where
  "meth_qtwidgets_0_15 = [
     Bind [] ''hasAcceptableInput'' [] RBool [OnObject QAbstractSpinBox],
     Bind [] ''hasAutoScroll'' [] RBool [OnObject QAbstractItemView],
     Bind [] ''hasFrame'' [] RBool [OnObject QAbstractSpinBox, OnObject QComboBox],
     Bind [] ''hasHeightForWidth'' [] RBool [OnObject QBoxLayout],
     Bind [] ''hasTracking'' [] RBool [OnObject QAbstractSlider],
     Bind [ValueM QTGUI_QTEXTCHARFORMAT] ''headerTextFormat'' [] (RValue QTextCharFormat) [OnObject QCalendarWidget],
     Bind [] ''heightForWidth'' [PInt] RNumber [OnObject QBoxLayout, OnObject ''QCommandLinkButton''],
     Bind [] ''hidePopup'' [] RVoid [OnObject QComboBox]]"

definition meth_qtwidgets_0_16 :: "binding list" where
  "meth_qtwidgets_0_16 = [
     Bind [TypeM ''QTWIDGETS_QCALENDARWIDGET''] ''horizontalHeaderFormat'' [] (RMeta ''QCalendarWidget::HorizontalHeaderFormat'') [OnObject QCalendarWidget],
     Bind [TypeM ''QTWIDGETS_QSCROLLBAR''] ''horizontalScrollBar'' [] RObject [OnObject QAbstractScrollArea],
     Bind [EnumM ''QT_SCROLLBARPOLICY''] ''horizontalScrollBarPolicy'' [] (RMeta ''Qt::ScrollBarPolicy'') [OnObject QAbstractScrollArea],
     Bind [TypeM QTWIDGETS_QABSTRACTITEMVIEW] ''horizontalScrollMode'' [] (RMeta ''QAbstractItemView::ScrollMode'') [OnObject QAbstractItemView],
     Bind [ValueM QTGUI_QICON] ''icon'' [] (RValue QIcon) [OnObject QAbstractButton],
     Bind [ValueM QTCORE_QSIZE] ''iconSize'' [] (RValue QSize) [OnObject QAbstractButton, OnObject QAbstractItemView, OnObject QComboBox],
     Bind [TypeM QTWIDGETS_QABSTRACTBUTTON] ''id'' [PNonNull ''QAbstractButton*''] RNumber [OnObject ''QButtonGroup'']]"

definition meth_qtwidgets_0_17 :: "binding list" where
  "meth_qtwidgets_0_17 = [
     Bind [ValueM QTCORE_QMODELINDEX, ValueM QTCORE_QPOINT] ''indexAt'' [PConv QPoint] (RValue QModelIndex) [OnObject ''QColumnView''],
     Bind [TypeM QTWIDGETS_QWIDGET, ValueM QTCORE_QMODELINDEX] ''indexWidget'' [PConv QModelIndex] RObject [OnObject QAbstractItemView],
     Bind [EnumM ''QT_INPUTMETHODQUERY''] ''inputMethodQuery'' [PConv ''Qt::InputMethodQuery''] RVariant [OnObject QAbstractItemView, OnObject QAbstractSpinBox, OnObject QComboBox],
     Bind [EnumM ''QT_INPUTMETHODQUERY''] ''inputMethodQuery'' [PConv ''Qt::InputMethodQuery'', PVariant] RVariant [OnObject QComboBox],
     Bind [ValueM QTGUI_QICON] ''insertItem'' [PInt, PConv QIcon, PString True, PVariant] RVoid [OnObject QComboBox]]"

definition meth_qtwidgets_0_18 :: "binding list" where
  "meth_qtwidgets_0_18 = [
     Bind [] ''insertItem'' [PInt, PString True, PVariant] RVoid [OnObject QComboBox],
     Bind [] ''insertItems'' [PInt, PStringList] RVoid [OnObject QComboBox],
     Bind [TypeM QTWIDGETS_QLAYOUT] ''insertLayout'' [PInt, PNonNull ''QLayout*'', PInt] RVoid [OnObject QBoxLayout],
     Bind [TypeM ''QTWIDGETS_QCOMBOBOX''] ''insertPolicy'' [] (RMeta ''QComboBox::InsertPolicy'') [OnObject QComboBox],
     Bind [] ''insertSeparator'' [PInt] RVoid [OnObject QComboBox],
     Bind [] ''insertSpacing'' [PInt, PInt] RVoid [OnObject QBoxLayout]]"

definition meth_qtwidgets_0_19 :: "binding list" where
  "meth_qtwidgets_0_19 = [
     Bind [] ''insertStretch'' [PInt, PInt] RVoid [OnObject QBoxLayout],
     Bind [] ''interpretText'' [] RVoid [OnObject QAbstractSpinBox],
     Bind [] ''invalidate'' [] RVoid [OnObject QBoxLayout],
     Bind [] ''invertedAppearance'' [] RBool [OnObject QAbstractSlider],
     Bind [] ''invertedControls'' [] RBool [OnObject QAbstractSlider],
     Bind [] ''isAccelerated'' [] RBool [OnObject QAbstractSpinBox],
     Bind [EnumM ''QT_DOCKWIDGETAREA''] ''isAreaAllowed'' [PConv ''Qt::DockWidgetArea''] RBool [OnObject ''QDockWidget''],
     Bind [] ''isCheckable'' [] RBool [OnObject QAbstractButton]]"

definition meth_qtwidgets_0_20 :: "binding list" where
  "meth_qtwidgets_0_20 = [
     Bind [] ''isChecked'' [] RBool [OnObject QAbstractButton],
     Bind [] ''isDateEditEnabled'' [] RBool [OnObject QCalendarWidget],
     Bind [] ''isDown'' [] RBool [OnObject QAbstractButton],
     Bind [] ''isEditable'' [] RBool [OnObject QComboBox],
     Bind [EnumM ''QT_UIEFFECT''] ''isEffectEnabled'' [PConv ''Qt::UIEffect''] RBool [Static QApplication],
     Bind [] ''isFloating'' [] RBool [OnObject ''QDockWidget''],
     Bind [] ''isGridVisible'' [] RBool [OnObject QCalendarWidget],
     Bind [] ''isGroupSeparatorShown'' [] RBool [OnObject QAbstractSpinBox],
     Bind [] ''isNavigationBarVisible'' [] RBool [OnObject QCalendarWidget]]"

definition meth_qtwidgets_0_21 :: "binding list" where
  "meth_qtwidgets_0_21 = [
     Bind [ValueM QTCORE_QMODELINDEX] ''isPersistentEditorOpen'' [PConv QModelIndex] RBool [OnObject QAbstractItemView],
     Bind [] ''isPreviewColumnVisible'' [] RBool [OnObject ''QColumnView''],
     Bind [] ''isReadOnly'' [] RBool [OnObject QAbstractSpinBox],
     Bind [] ''isSizeGripEnabled'' [] RBool [OnObject ''QDialog''],
     Bind [] ''isSliderDown'' [] RBool [OnObject QAbstractSlider],
     Bind [] ''isTristate'' [] RBool [OnObject ''QCheckBox''],
     Bind [] ''itemData'' [PInt, PInt] RVariant [OnObject QComboBox]]"

definition meth_qtwidgets_0_22 :: "binding list" where
  "meth_qtwidgets_0_22 = [
     Bind [TypeM QTWIDGETS_QABSTRACTITEMDELEGATE] ''itemDelegate'' [] RObject [OnObject QAbstractItemView, OnObject QComboBox, OnObject QDataWidgetMapper],
     Bind [TypeM QTWIDGETS_QABSTRACTITEMDELEGATE] ''itemDelegateForColumn'' [PInt] RObject [OnObject QAbstractItemView],
     Bind [TypeM QTWIDGETS_QABSTRACTITEMDELEGATE, ValueM QTCORE_QMODELINDEX] ''itemDelegateForIndex'' [PConv QModelIndex] RObject [OnObject QAbstractItemView],
     Bind [TypeM QTWIDGETS_QABSTRACTITEMDELEGATE] ''itemDelegateForRow'' [PInt] RObject [OnObject QAbstractItemView],
     Bind [ValueM QTGUI_QICON] ''itemIcon'' [PInt] (RValue QIcon) [OnObject QComboBox],
     Bind [] ''itemText'' [PInt] RString [OnObject QComboBox]]"

definition meth_qtwidgets_0_23 :: "binding list" where
  "meth_qtwidgets_0_23 = [
     Bind [] ''keyboardInputInterval'' [] RNumber [Static QApplication],
     Bind [] ''keyboardSearch'' [PString True] RVoid [OnObject QAbstractItemView],
     Bind [] ''keyboardTracking'' [] RBool [OnObject QAbstractSpinBox],
     Bind [TypeM ''QTWIDGETS_QCOMBOBOX''] ''labelDrawingMode'' [] (RMeta ''QComboBox::LabelDrawingMode'') [OnObject QComboBox],
     Bind [TypeM ''QTWIDGETS_QLINEEDIT''] ''lineEdit'' [] RObject [OnObject QComboBox],
     Bind [TypeM QTWIDGETS_QWIDGET, ValueM QTCORE_QBYTEARRAY] ''mappedPropertyName'' [PNonNull QWidget_ptr] (RValue QByteArray) [OnObject QDataWidgetMapper],
     Bind [TypeM QTWIDGETS_QWIDGET] ''mappedSection'' [PNonNull QWidget_ptr] RNumber [OnObject QDataWidgetMapper]]"

definition meth_qtwidgets_0_24 :: "binding list" where
  "meth_qtwidgets_0_24 = [
     Bind [TypeM QTWIDGETS_QWIDGET] ''mappedWidgetAt'' [PInt] RObject [OnObject QDataWidgetMapper],
     Bind [] ''maxCount'' [] RNumber [OnObject QComboBox],
     Bind [] ''maxVisibleItems'' [] RNumber [OnObject QComboBox, OnObject QCompleter],
     Bind [] ''maximum'' [] RNumber [OnObject QDoubleSpinBox],
     Bind [] ''maximum'' [] RNumber [OnObject QAbstractSlider],
     Bind [ValueM QTCORE_QDATE] ''maximumDate'' [] (RValue QDate) [OnObject QCalendarWidget, OnObject QDateTimeEdit],
     Bind [ValueM QTCORE_QDATETIME] ''maximumDateTime'' [] (RValue QDateTime) [OnObject QDateTimeEdit]]"

definition meth_qtwidgets_0_25 :: "binding list" where
  "meth_qtwidgets_0_25 = [
     Bind [ValueM QTCORE_QSIZE] ''maximumSize'' [] (RValue QSize) [OnObject QBoxLayout],
     Bind [ValueM QTCORE_QTIME] ''maximumTime'' [] (RValue QTime) [OnObject QDateTimeEdit],
     Bind [ValueM QTCORE_QSIZE] ''maximumViewportSize'' [] (RValue QSize) [OnObject QAbstractScrollArea],
     Bind [] ''minimum'' [] RNumber [OnObject QDoubleSpinBox],
     Bind [] ''minimum'' [] RNumber [OnObject QAbstractSlider],
     Bind [] ''minimumContentsLength'' [] RNumber [OnObject QComboBox],
     Bind [ValueM QTCORE_QDATE] ''minimumDate'' [] (RValue QDate) [OnObject QCalendarWidget, OnObject QDateTimeEdit]]"

definition meth_qtwidgets_0_26 :: "binding list" where
  "meth_qtwidgets_0_26 = [
     Bind [ValueM QTCORE_QDATETIME] ''minimumDateTime'' [] (RValue QDateTime) [OnObject QDateTimeEdit],
     Bind [] ''minimumHeightForWidth'' [PInt] RNumber [OnObject QBoxLayout],
     Bind [ValueM QTCORE_QSIZE] ''minimumSize'' [] (RValue QSize) [OnObject QBoxLayout],
     Bind [ValueM QTCORE_QSIZE] ''minimumSizeHint'' [] (RValue QSize) [OnObject QAbstractScrollArea, OnObject QAbstractSpinBox, OnObject QCalendarWidget, OnObject ''QCheckBox'', OnObject QComboBox, OnObject ''QCommandLinkButton'', OnObject ''QDial'', OnObject ''QDialog'']]"

definition meth_qtwidgets_0_27 :: "binding list" where
  "meth_qtwidgets_0_27 = [
     Bind [ValueM QTCORE_QTIME] ''minimumTime'' [] (RValue QTime) [OnObject QDateTimeEdit],
     Bind [TypeM QTCORE_QABSTRACTITEMMODEL] ''model'' [] RObject [OnObject QAbstractItemView, OnObject QComboBox, OnObject QCompleter, OnObject QDataWidgetMapper],
     Bind [] ''modelColumn'' [] RNumber [OnObject QComboBox],
     Bind [TypeM ''QTWIDGETS_QCOMPLETER''] ''modelSorting'' [] (RMeta ''QCompleter::ModelSorting'') [OnObject QCompleter],
     Bind [] ''monthShown'' [] RNumber [OnObject QCalendarWidget],
     Bind [] ''notchSize'' [] RNumber [OnObject ''QDial''],
     Bind [] ''notchTarget'' [] RNumber [OnObject ''QDial'']]"

definition meth_qtwidgets_0_28 :: "binding list" where
  "meth_qtwidgets_0_28 = [
     Bind [] ''notchesVisible'' [] RBool [OnObject ''QDial''],
     Bind [] ''open'' [] RVoid [OnObject ''QColorDialog'', OnObject ''QDialog''],
     Bind [ValueM QTCORE_QMODELINDEX] ''openPersistentEditor'' [PConv QModelIndex] RVoid [OnObject QAbstractItemView],
     Bind [TypeM ''QTWIDGETS_QCOLORDIALOG''] ''options'' [] (RMeta ''QColorDialog::ColorDialogOptions'') [OnObject ''QColorDialog''],
     Bind [EnumM QT_ORIENTATION] ''orientation'' [] (RMeta Qt_Orientation) [OnObject QAbstractSlider, OnObject QDataWidgetMapper, OnObject QDialogButtonBox],
     Bind [] ''pageStep'' [] RNumber [OnObject QAbstractSlider],
     Bind [ValueM QTGUI_QPALETTE] ''palette'' [] (RValue QPalette) [Static QApplication]]"

definition meth_qtwidgets_0_29 :: "binding list" where
  "meth_qtwidgets_0_29 = [
     Bind [TypeM QTWIDGETS_QWIDGET, ValueM QTGUI_QPALETTE] ''palette'' [PNonNull QWidget_ptr] (RValue QPalette) [Static QApplication],
     Bind [ValueM QTCORE_QMODELINDEX] ''pathFromIndex'' [PConv QModelIndex] RString [OnObject QCompleter],
     Bind [] ''placeholderText'' [] RString [OnObject QComboBox],
     Bind [TypeM ''QTWIDGETS_QAPPLICATION''] ''polish'' [PNonNull ''QApplication*''] RVoid [OnObject ''QCommonStyle''],
     Bind [TypeM QTWIDGETS_QWIDGET] ''polish'' [PNonNull QWidget_ptr] RVoid [OnObject ''QCommonStyle''],
     Bind [TypeM QTWIDGETS_QABSTRACTITEMVIEW] ''popup'' [] RObject [OnObject QCompleter],
     Bind [] ''prefix'' [] RString [OnObject QDoubleSpinBox]]"

definition meth_qtwidgets_0_30 :: "binding list" where
  "meth_qtwidgets_0_30 = [
     Bind [TypeM QTWIDGETS_QWIDGET] ''previewWidget'' [] RObject [OnObject ''QColumnView''],
     Bind [] ''reject'' [] RVoid [OnObject ''QDialog''],
     Bind [TypeM QTWIDGETS_QABSTRACTBUTTON] ''removeButton'' [PNonNull ''QAbstractButton*''] RVoid [OnObject ''QButtonGroup'', OnObject QDialogButtonBox],
     Bind [] ''removeItem'' [PInt] RVoid [OnObject QComboBox],
     Bind [TypeM QTWIDGETS_QWIDGET] ''removeMapping'' [PNonNull QWidget_ptr] RVoid [OnObject QDataWidgetMapper],
     Bind [] ''reset'' [] RVoid [OnObject QAbstractItemView],
     Bind [] ''resetHorizontalScrollMode'' [] RVoid [OnObject QAbstractItemView]]"

definition meth_qtwidgets_0_31 :: "binding list" where
  "meth_qtwidgets_0_31 = [
     Bind [] ''resetVerticalScrollMode'' [] RVoid [OnObject QAbstractItemView],
     Bind [] ''resizeGripsVisible'' [] RBool [OnObject ''QColumnView''],
     Bind [] ''result'' [] RNumber [OnObject ''QDialog''],
     Bind [] ''revert'' [] RVoid [OnObject QDataWidgetMapper],
     Bind [ValueM QTCORE_QMODELINDEX] ''rootIndex'' [] (RValue QModelIndex) [OnObject QAbstractItemView, OnObject QDataWidgetMapper],
     Bind [ValueM QTCORE_QMODELINDEX] ''rootModelIndex'' [] (RValue QModelIndex) [OnObject QComboBox],
     Bind [TypeM QTWIDGETS_QABSTRACTITEMVIEW, ValueM QTCORE_QMODELINDEX] ''scrollTo'' [PConv QModelIndex, PConv ''QAbstractItemView::ScrollHint''] RVoid [OnObject ''QColumnView'']]"

definition meth_qtwidgets_0_32 :: "binding list" where
  "meth_qtwidgets_0_32 = [
     Bind [] ''scrollToBottom'' [] RVoid [OnObject QAbstractItemView],
     Bind [] ''scrollToTop'' [] RVoid [OnObject QAbstractItemView],
     Bind [TypeM ''QTWIDGETS_QDATETIMEEDIT''] ''sectionAt'' [PInt] (RMeta ''QDateTimeEdit::Section'') [OnObject QDateTimeEdit],
     Bind [] ''sectionCount'' [] RNumber [OnObject QDateTimeEdit],
     Bind [TypeM ''QTWIDGETS_QDATETIMEEDIT''] ''sectionText'' [PConv ''QDateTimeEdit::Section''] RString [OnObject QDateTimeEdit],
     Bind [] ''selectAll'' [] RVoid [OnObject QAbstractItemView, OnObject QAbstractSpinBox, OnObject ''QColumnView''],
     Bind [ValueM QTGUI_QCOLOR] ''selectedColor'' [] (RValue QColor) [OnObject ''QColorDialog'']]"

definition meth_qtwidgets_0_33 :: "binding list" where
  "meth_qtwidgets_0_33 = [
     Bind [ValueM QTCORE_QDATE] ''selectedDate'' [] (RValue QDate) [OnObject QCalendarWidget],
     Bind [TypeM QTWIDGETS_QABSTRACTITEMVIEW] ''selectionBehavior'' [] (RMeta ''QAbstractItemView::SelectionBehavior'') [OnObject QAbstractItemView],
     Bind [TypeM QTWIDGETS_QABSTRACTITEMVIEW] ''selectionMode'' [] (RMeta ''QAbstractItemView::SelectionMode'') [OnObject QAbstractItemView],
     Bind [TypeM ''QTWIDGETS_QCALENDARWIDGET''] ''selectionMode'' [] (RMeta ''QCalendarWidget::SelectionMode'') [OnObject QCalendarWidget],
     Bind [TypeM ''QTCORE_QITEMSELECTIONMODEL''] ''selectionModel'' [] RObject [OnObject QAbstractItemView],
     Bind [] ''setAccelerated'' [PBool] RVoid [OnObject QAbstractSpinBox],
     Bind [TypeM QTWIDGETS_QWIDGET] ''setActiveWindow'' [PNonNull QWidget_ptr] RVoid [Static QApplication]]"

definition meth_qtwidgets_0_34 :: "binding list" where
  "meth_qtwidgets_0_34 = [
     Bind [EnumM ''QT_DOCKWIDGETAREAS''] ''setAllowedAreas'' [PConv ''Qt::DockWidgetAreas''] RVoid [OnObject ''QDockWidget''],
     Bind [] ''setAlternatingRowColors'' [PBool] RVoid [OnObject QAbstractItemView],
     Bind [] ''setAutoExclusive'' [PBool] RVoid [OnObject QAbstractButton],
     Bind [] ''setAutoRepeat'' [PBool] RVoid [OnObject QAbstractButton],
     Bind [] ''setAutoRepeatDelay'' [PInt] RVoid [OnObject QAbstractButton],
     Bind [] ''setAutoRepeatInterval'' [PInt] RVoid [OnObject QAbstractButton],
     Bind [] ''setAutoScroll'' [PBool] RVoid [OnObject QAbstractItemView]]"

definition meth_qtwidgets_0_35 :: "binding list" where
  "meth_qtwidgets_0_35 = [
     Bind [] ''setAutoScrollMargin'' [PInt] RVoid [OnObject QAbstractItemView],
     Bind [] ''setAutoSipEnabled'' [PBool] RVoid [OnObject QApplication],
     Bind [TypeM ''QTWIDGETS_QABSTRACTSPINBOX''] ''setButtonSymbols'' [PConv ''QAbstractSpinBox::ButtonSymbols''] RVoid [OnObject QAbstractSpinBox],
     Bind [ValueM QTCORE_QCALENDAR] ''setCalendar'' [PConv QCalendar] RVoid [OnObject QCalendarWidget, OnObject QDateTimeEdit],
     Bind [] ''setCalendarPopup'' [PBool] RVoid [OnObject QDateTimeEdit],
     Bind [TypeM ''QTWIDGETS_QCALENDARWIDGET''] ''setCalendarWidget'' [PNonNull ''QCalendarWidget*''] RVoid [OnObject QDateTimeEdit]]"

definition meth_qtwidgets_0_36 :: "binding list" where
  "meth_qtwidgets_0_36 = [
     Bind [EnumM ''QT_CASESENSITIVITY''] ''setCaseSensitivity'' [PConv ''Qt::CaseSensitivity''] RVoid [OnObject QCompleter],
     Bind [] ''setCenterButtons'' [PBool] RVoid [OnObject QDialogButtonBox],
     Bind [EnumM ''QT_CHECKSTATE''] ''setCheckState'' [PConv ''Qt::CheckState''] RVoid [OnObject ''QCheckBox''],
     Bind [] ''setCheckable'' [PBool] RVoid [OnObject QAbstractButton],
     Bind [] ''setChecked'' [PBool] RVoid [OnObject QAbstractButton],
     Bind [] ''setColumnWidths'' [PList ''int''] RVoid [OnObject ''QColumnView''],
     Bind [TypeM ''QTWIDGETS_QCOMPLETER''] ''setCompleter'' [PNonNull ''QCompleter*''] RVoid [OnObject QComboBox]]"

definition meth_qtwidgets_0_37 :: "binding list" where
  "meth_qtwidgets_0_37 = [
     Bind [] ''setCompletionColumn'' [PInt] RVoid [OnObject QCompleter],
     Bind [TypeM ''QTWIDGETS_QCOMPLETER''] ''setCompletionMode'' [PConv ''QCompleter::CompletionMode''] RVoid [OnObject QCompleter],
     Bind [] ''setCompletionPrefix'' [PString True] RVoid [OnObject QCompleter],
     Bind [] ''setCompletionRole'' [PInt] RVoid [OnObject QCompleter],
     Bind [TypeM QTWIDGETS_QWIDGET] ''setCornerWidget'' [PNonNull QWidget_ptr] RVoid [OnObject QAbstractScrollArea],
     Bind [TypeM ''QTWIDGETS_QABSTRACTSPINBOX''] ''setCorrectionMode'' [PConv ''QAbstractSpinBox::CorrectionMode''] RVoid [OnObject QAbstractSpinBox],
     Bind [ValueM QTGUI_QCOLOR] ''setCurrentColor'' [PConv QColor] RVoid [OnObject ''QColorDialog'']]"

definition meth_qtwidgets_0_38 :: "binding list" where
  "meth_qtwidgets_0_38 = [
     Bind [ValueM QTCORE_QMODELINDEX] ''setCurrentIndex'' [PConv QModelIndex] RVoid [OnObject QAbstractItemView],
     Bind [] ''setCurrentIndex'' [PInt] RVoid [OnObject QComboBox, OnObject QDataWidgetMapper],
     Bind [ValueM QTCORE_QMODELINDEX] ''setCurrentModelIndex'' [PConv QModelIndex] RVoid [OnObject QDataWidgetMapper],
     Bind [] ''setCurrentPage'' [PInt, PInt] RVoid [OnObject QCalendarWidget],
     Bind [] ''setCurrentRow'' [PInt] RBool [OnObject QCompleter],
     Bind [TypeM ''QTWIDGETS_QDATETIMEEDIT''] ''setCurrentSection'' [PConv ''QDateTimeEdit::Section''] RVoid [OnObject QDateTimeEdit]]"

definition meth_qtwidgets_0_39 :: "binding list" where
  "meth_qtwidgets_0_39 = [
     Bind [] ''setCurrentSectionIndex'' [PInt] RVoid [OnObject QDateTimeEdit],
     Bind [] ''setCurrentText'' [PString True] RVoid [OnObject QComboBox],
     Bind [] ''setCursorFlashTime'' [PInt] RVoid [Static QApplication],
     Bind [ValueM QTGUI_QCOLOR] ''setCustomColor'' [PInt, PConv QColor] RVoid [Static ''QColorDialog''],
     Bind [ValueM QTCORE_QDATE] ''setDate'' [PConv QDate] RVoid [OnObject QDateTimeEdit],
     Bind [] ''setDateEditAcceptDelay'' [PInt] RVoid [OnObject QCalendarWidget],
     Bind [] ''setDateEditEnabled'' [PBool] RVoid [OnObject QCalendarWidget]]"

definition meth_qtwidgets_0_40 :: "binding list" where
  "meth_qtwidgets_0_40 = [
     Bind [ValueM QTCORE_QDATE] ''setDateRange'' [PConv QDate, PConv QDate] RVoid [OnObject QCalendarWidget, OnObject QDateTimeEdit],
     Bind [ValueM QTCORE_QDATE, ValueM QTGUI_QTEXTCHARFORMAT] ''setDateTextFormat'' [PConv QDate, PConv QTextCharFormat] RVoid [OnObject QCalendarWidget],
     Bind [ValueM QTCORE_QDATETIME] ''setDateTime'' [PConv QDateTime] RVoid [OnObject QDateTimeEdit],
     Bind [ValueM QTCORE_QDATETIME] ''setDateTimeRange'' [PConv QDateTime, PConv QDateTime] RVoid [OnObject QDateTimeEdit],
     Bind [] ''setDecimals'' [PInt] RVoid [OnObject QDoubleSpinBox],
     Bind [EnumM QT_DROPACTION] ''setDefaultDropAction'' [PConv Qt_DropAction] RVoid [OnObject QAbstractItemView]]"

definition meth_qtwidgets_0_41 :: "binding list" where
  "meth_qtwidgets_0_41 = [
     Bind [] ''setDescription'' [PString True] RVoid [OnObject ''QCommandLinkButton''],
     Bind [TypeM ''QTWIDGETS_QBOXLAYOUT''] ''setDirection'' [PConv ''QBoxLayout::Direction''] RVoid [OnObject QBoxLayout],
     Bind [] ''setDisplayFormat'' [PString True] RVoid [OnObject QDateTimeEdit],
     Bind [EnumM ''QT_DOCKWIDGETAREA''] ''setDockLocation'' [PConv ''Qt::DockWidgetArea''] RVoid [OnObject ''QDockWidget''],
     Bind [] ''setDoubleClickInterval'' [PInt] RVoid [Static QApplication],
     Bind [] ''setDown'' [PBool] RVoid [OnObject QAbstractButton],
     Bind [TypeM QTWIDGETS_QABSTRACTITEMVIEW] ''setDragDropMode'' [PConv ''QAbstractItemView::DragDropMode''] RVoid [OnObject QAbstractItemView]]"

definition meth_qtwidgets_0_42 :: "binding list" where
  "meth_qtwidgets_0_42 = [
     Bind [] ''setDragDropOverwriteMode'' [PBool] RVoid [OnObject QAbstractItemView],
     Bind [] ''setDragEnabled'' [PBool] RVoid [OnObject QAbstractItemView],
     Bind [] ''setDropIndicatorShown'' [PBool] RVoid [OnObject QAbstractItemView],
     Bind [] ''setDuplicatesEnabled'' [PBool] RVoid [OnObject QComboBox],
     Bind [] ''setEditText'' [PString True] RVoid [OnObject QComboBox],
     Bind [] ''setEditable'' [PBool] RVoid [OnObject QComboBox],
     Bind [TypeM QTWIDGETS_QWIDGET, ValueM QTCORE_QMODELINDEX] ''setEditorData'' [PNonNull QWidget_ptr, PConv QModelIndex] RVoid [OnObject ''QAbstractItemDelegate'']]"

definition meth_qtwidgets_0_43 :: "binding list" where
  "meth_qtwidgets_0_43 = [
     Bind [EnumM ''QT_UIEFFECT''] ''setEffectEnabled'' [PConv ''Qt::UIEffect'', PBool] RVoid [Static QApplication],
     Bind [] ''setExclusive'' [PBool] RVoid [OnObject ''QButtonGroup''],
     Bind [EnumM ''QT_DAYOFWEEK''] ''setFirstDayOfWeek'' [PConv ''Qt::DayOfWeek''] RVoid [OnObject QCalendarWidget],
     Bind [] ''setFloating'' [PBool] RVoid [OnObject ''QDockWidget''],
     Bind [] ''setFrame'' [PBool] RVoid [OnObject QAbstractSpinBox, OnObject QComboBox],
     Bind [ValueM QTCORE_QRECT] ''setGeometry'' [PConv QRect] RVoid [OnObject QBoxLayout]]"

definition meth_qtwidgets_0_44 :: "binding list" where
  "meth_qtwidgets_0_44 = [
     Bind [] ''setGridVisible'' [PBool] RVoid [OnObject QCalendarWidget],
     Bind [] ''setGroupSeparatorShown'' [PBool] RVoid [OnObject QAbstractSpinBox],
     Bind [ValueM QTGUI_QTEXTCHARFORMAT] ''setHeaderTextFormat'' [PConv QTextCharFormat] RVoid [OnObject QCalendarWidget],
     Bind [TypeM ''QTWIDGETS_QCALENDARWIDGET''] ''setHorizontalHeaderFormat'' [PConv ''QCalendarWidget::HorizontalHeaderFormat''] RVoid [OnObject QCalendarWidget],
     Bind [TypeM ''QTWIDGETS_QSCROLLBAR''] ''setHorizontalScrollBar'' [PNonNull ''QScrollBar*''] RVoid [OnObject QAbstractScrollArea],
     Bind [EnumM ''QT_SCROLLBARPOLICY''] ''setHorizontalScrollBarPolicy'' [PConv ''Qt::ScrollBarPolicy''] RVoid [OnObject QAbstractScrollArea],
     Bind [TypeM QTWIDGETS_QABSTRACTITEMVIEW] ''setHorizontalScrollMode'' [PConv ''QAbstractItemView::ScrollMode''] RVoid [OnObject QAbstractItemView]]"

definition meth_qtwidgets_0_45 :: "binding list" where
  "meth_qtwidgets_0_45 = [
     Bind [ValueM QTGUI_QICON] ''setIcon'' [PConv QIcon] RVoid [OnObject QAbstractButton],
     Bind [ValueM QTCORE_QSIZE] ''setIconSize'' [PConv QSize] RVoid [OnObject QAbstractButton, OnObject QAbstractItemView, OnObject QComboBox],
     Bind [TypeM QTWIDGETS_QABSTRACTBUTTON] ''setId'' [PNonNull ''QAbstractButton*'', PInt] RVoid [OnObject ''QButtonGroup''],
     Bind [TypeM ''QTWIDGETS_QCOMBOBOX''] ''setInsertPolicy'' [PConv ''QComboBox::InsertPolicy''] RVoid [OnObject QComboBox],
     Bind [] ''setInvertedAppearance'' [PBool] RVoid [OnObject QAbstractSlider],
     Bind [] ''setInvertedControls'' [PBool] RVoid [OnObject QAbstractSlider]]"

definition meth_qtwidgets_0_46 :: "binding list" where
  "meth_qtwidgets_0_46 = [
     Bind [] ''setItemData'' [PInt, PVariant, PInt] RVoid [OnObject QComboBox],
     Bind [TypeM QTWIDGETS_QABSTRACTITEMDELEGATE] ''setItemDelegate'' [PNonNull ''QAbstractItemDelegate*''] RVoid [OnObject QAbstractItemView, OnObject QComboBox, OnObject QDataWidgetMapper],
     Bind [TypeM QTWIDGETS_QABSTRACTITEMDELEGATE] ''setItemDelegateForColumn'' [PInt, PNonNull ''QAbstractItemDelegate*''] RVoid [OnObject QAbstractItemView],
     Bind [TypeM QTWIDGETS_QABSTRACTITEMDELEGATE] ''setItemDelegateForRow'' [PInt, PNonNull ''QAbstractItemDelegate*''] RVoid [OnObject QAbstractItemView],
     Bind [ValueM QTGUI_QICON] ''setItemIcon'' [PInt, PConv QIcon] RVoid [OnObject QComboBox]]"

definition meth_qtwidgets_0_47 :: "binding list" where
  "meth_qtwidgets_0_47 = [
     Bind [] ''setItemText'' [PInt, PString True] RVoid [OnObject QComboBox],
     Bind [] ''setKeyboardInputInterval'' [PInt] RVoid [Static QApplication],
     Bind [] ''setKeyboardTracking'' [PBool] RVoid [OnObject QAbstractSpinBox],
     Bind [TypeM ''QTWIDGETS_QCOMBOBOX''] ''setLabelDrawingMode'' [PConv ''QComboBox::LabelDrawingMode''] RVoid [OnObject QComboBox],
     Bind [TypeM ''QTWIDGETS_QLINEEDIT''] ''setLineEdit'' [PNonNull ''QLineEdit*''] RVoid [OnObject QComboBox],
     Bind [] ''setMaxCount'' [PInt] RVoid [OnObject QComboBox]]"

definition meth_qtwidgets_0_48 :: "binding list" where
  "meth_qtwidgets_0_48 = [
     Bind [] ''setMaxVisibleItems'' [PInt] RVoid [OnObject QComboBox, OnObject QCompleter],
     Bind [] ''setMaximum'' [PReal ''double''] RVoid [OnObject QDoubleSpinBox],
     Bind [] ''setMaximum'' [PInt] RVoid [OnObject QAbstractSlider],
     Bind [ValueM QTCORE_QDATE] ''setMaximumDate'' [PConv QDate] RVoid [OnObject QCalendarWidget, OnObject QDateTimeEdit],
     Bind [ValueM QTCORE_QDATETIME] ''setMaximumDateTime'' [PConv QDateTime] RVoid [OnObject QDateTimeEdit],
     Bind [ValueM QTCORE_QTIME] ''setMaximumTime'' [PConv QTime] RVoid [OnObject QDateTimeEdit]]"

definition meth_qtwidgets_0_49 :: "binding list" where
  "meth_qtwidgets_0_49 = [
     Bind [] ''setMinimum'' [PReal ''double''] RVoid [OnObject QDoubleSpinBox],
     Bind [] ''setMinimum'' [PInt] RVoid [OnObject QAbstractSlider],
     Bind [] ''setMinimumContentsLength'' [PInt] RVoid [OnObject QComboBox],
     Bind [ValueM QTCORE_QDATE] ''setMinimumDate'' [PConv QDate] RVoid [OnObject QCalendarWidget, OnObject QDateTimeEdit],
     Bind [ValueM QTCORE_QDATETIME] ''setMinimumDateTime'' [PConv QDateTime] RVoid [OnObject QDateTimeEdit],
     Bind [ValueM QTCORE_QTIME] ''setMinimumTime'' [PConv QTime] RVoid [OnObject QDateTimeEdit]]"

definition meth_qtwidgets_0_50 :: "binding list" where
  "meth_qtwidgets_0_50 = [
     Bind [] ''setModal'' [PBool] RVoid [OnObject ''QDialog''],
     Bind [TypeM QTCORE_QABSTRACTITEMMODEL] ''setModel'' [PNonNull QAbstractItemModel_ptr] RVoid [OnObject QAbstractItemView, OnObject ''QColumnView'', OnObject QComboBox, OnObject QCompleter, OnObject QDataWidgetMapper],
     Bind [] ''setModelColumn'' [PInt] RVoid [OnObject QComboBox],
     Bind [TypeM QTCORE_QABSTRACTITEMMODEL, TypeM QTWIDGETS_QWIDGET, ValueM QTCORE_QMODELINDEX] ''setModelData'' [PNonNull QWidget_ptr, PNonNull QAbstractItemModel_ptr, PConv QModelIndex] RVoid [OnObject ''QAbstractItemDelegate''],
     Bind [TypeM ''QTWIDGETS_QCOMPLETER''] ''setModelSorting'' [PConv ''QCompleter::ModelSorting''] RVoid [OnObject QCompleter]]"

definition meth_qtwidgets_0_51 :: "binding list" where
  "meth_qtwidgets_0_51 = [
     Bind [] ''setNavigationBarVisible'' [PBool] RVoid [OnObject QCalendarWidget],
     Bind [] ''setNotchTarget'' [PReal ''double''] RVoid [OnObject ''QDial''],
     Bind [] ''setNotchesVisible'' [PBool] RVoid [OnObject ''QDial''],
     Bind [TypeM ''QTWIDGETS_QCOLORDIALOG''] ''setOption'' [PConv ''QColorDialog::ColorDialogOption'', PBool] RVoid [OnObject ''QColorDialog''],
     Bind [TypeM ''QTWIDGETS_QCOLORDIALOG''] ''setOptions'' [PConv ''QColorDialog::ColorDialogOptions''] RVoid [OnObject ''QColorDialog''],
     Bind [EnumM QT_ORIENTATION] ''setOrientation'' [PConv Qt_Orientation] RVoid [OnObject QAbstractSlider, OnObject QDataWidgetMapper, OnObject QDialogButtonBox]]"

definition meth_qtwidgets_0_52 :: "binding list" where
  "meth_qtwidgets_0_52 = [
     Bind [] ''setPageStep'' [PInt] RVoid [OnObject QAbstractSlider],
     Bind [] ''setPlaceholderText'' [PString True] RVoid [OnObject QComboBox],
     Bind [TypeM QTWIDGETS_QABSTRACTITEMVIEW] ''setPopup'' [PNonNull ''QAbstractItemView*''] RVoid [OnObject QCompleter],
     Bind [] ''setPrefix'' [PString True] RVoid [OnObject QDoubleSpinBox],
     Bind [] ''setPreviewColumnVisible'' [PBool] RVoid [OnObject ''QColumnView''],
     Bind [TypeM QTWIDGETS_QWIDGET] ''setPreviewWidget'' [PNonNull QWidget_ptr] RVoid [OnObject ''QColumnView''],
     Bind [] ''setRange'' [PReal ''double'', PReal ''double''] RVoid [OnObject QDoubleSpinBox]]"

definition meth_qtwidgets_0_53 :: "binding list" where
  "meth_qtwidgets_0_53 = [
     Bind [] ''setRange'' [PInt, PInt] RVoid [OnObject QAbstractSlider],
     Bind [] ''setReadOnly'' [PBool] RVoid [OnObject QAbstractSpinBox],
     Bind [] ''setResizeGripsVisible'' [PBool] RVoid [OnObject ''QColumnView''],
     Bind [] ''setResult'' [PInt] RVoid [OnObject ''QDialog''],
     Bind [ValueM QTCORE_QMODELINDEX] ''setRootIndex'' [PConv QModelIndex] RVoid [OnObject QAbstractItemView, OnObject ''QColumnView'', OnObject QDataWidgetMapper],
     Bind [ValueM QTCORE_QMODELINDEX] ''setRootModelIndex'' [PConv QModelIndex] RVoid [OnObject QComboBox]]"

definition meth_qtwidgets_0_54 :: "binding list" where
  "meth_qtwidgets_0_54 = [
     Bind [ValueM QTCORE_QDATE] ''setSelectedDate'' [PConv QDate] RVoid [OnObject QCalendarWidget],
     Bind [TypeM ''QTWIDGETS_QDATETIMEEDIT''] ''setSelectedSection'' [PConv ''QDateTimeEdit::Section''] RVoid [OnObject QDateTimeEdit],
     Bind [TypeM QTWIDGETS_QABSTRACTITEMVIEW] ''setSelectionBehavior'' [PConv ''QAbstractItemView::SelectionBehavior''] RVoid [OnObject QAbstractItemView],
     Bind [TypeM QTWIDGETS_QABSTRACTITEMVIEW] ''setSelectionMode'' [PConv ''QAbstractItemView::SelectionMode''] RVoid [OnObject QAbstractItemView],
     Bind [TypeM ''QTWIDGETS_QCALENDARWIDGET''] ''setSelectionMode'' [PConv ''QCalendarWidget::SelectionMode''] RVoid [OnObject QCalendarWidget],
     Bind [TypeM ''QTCORE_QITEMSELECTIONMODEL''] ''setSelectionModel'' [PNonNull ''QItemSelectionModel*''] RVoid [OnObject QAbstractItemView, OnObject ''QColumnView'']]"

definition meth_qtwidgets_0_55 :: "binding list" where
  "meth_qtwidgets_0_55 = [
     Bind [ValueM QTGUI_QKEYSEQUENCE] ''setShortcut'' [PConv QKeySequence] RVoid [OnObject QAbstractButton],
     Bind [] ''setSingleStep'' [PReal ''double''] RVoid [OnObject QDoubleSpinBox],
     Bind [] ''setSingleStep'' [PInt] RVoid [OnObject QAbstractSlider],
     Bind [TypeM ''QTWIDGETS_QABSTRACTSCROLLAREA''] ''setSizeAdjustPolicy'' [PConv ''QAbstractScrollArea::SizeAdjustPolicy''] RVoid [OnObject QAbstractScrollArea],
     Bind [TypeM ''QTWIDGETS_QCOMBOBOX''] ''setSizeAdjustPolicy'' [PConv ''QComboBox::SizeAdjustPolicy''] RVoid [OnObject QComboBox],
     Bind [] ''setSizeGripEnabled'' [PBool] RVoid [OnObject ''QDialog''],
     Bind [] ''setSliderDown'' [PBool] RVoid [OnObject QAbstractSlider]]"

definition meth_qtwidgets_0_56 :: "binding list" where
  "meth_qtwidgets_0_56 = [
     Bind [] ''setSliderPosition'' [PInt] RVoid [OnObject QAbstractSlider],
     Bind [] ''setSpacing'' [PInt] RVoid [OnObject QBoxLayout],
     Bind [] ''setSpecialValueText'' [PString True] RVoid [OnObject QAbstractSpinBox],
     Bind [TypeM QTWIDGETS_QDIALOGBUTTONBOX] ''setStandardButtons'' [PConv ''QDialogButtonBox::StandardButtons''] RVoid [OnObject QDialogButtonBox],
     Bind [ValueM QTGUI_QCOLOR] ''setStandardColor'' [PInt, PConv QColor] RVoid [Static ''QColorDialog''],
     Bind [] ''setStartDragDistance'' [PInt] RVoid [Static QApplication],
     Bind [] ''setStartDragTime'' [PInt] RVoid [Static QApplication]]"

definition meth_qtwidgets_0_57 :: "binding list" where
  "meth_qtwidgets_0_57 = [
     Bind [TypeM ''QTWIDGETS_QABSTRACTSPINBOX''] ''setStepType'' [PConv ''QAbstractSpinBox::StepType''] RVoid [OnObject QDoubleSpinBox],
     Bind [] ''setStretch'' [PInt, PInt] RVoid [OnObject QBoxLayout],
     Bind [TypeM QTWIDGETS_QLAYOUT] ''setStretchFactor'' [PNonNull ''QLayout*'', PInt] RBool [OnObject QBoxLayout],
     Bind [TypeM QTWIDGETS_QWIDGET] ''setStretchFactor'' [PNonNull QWidget_ptr, PInt] RBool [OnObject QBoxLayout],
     Bind [TypeM QTWIDGETS_QSTYLE] ''setStyle'' [PString True] RObject [Static QApplication],
     Bind [TypeM QTWIDGETS_QSTYLE] ''setStyle'' [PNonNull ''QStyle*''] RVoid [Static QApplication]]"

definition meth_qtwidgets_0_58 :: "binding list" where
  "meth_qtwidgets_0_58 = [
     Bind [] ''setStyleSheet'' [PString True] RVoid [OnObject QApplication],
     Bind [TypeM ''QTWIDGETS_QDATAWIDGETMAPPER''] ''setSubmitPolicy'' [PConv ''QDataWidgetMapper::SubmitPolicy''] RVoid [OnObject QDataWidgetMapper],
     Bind [] ''setSuffix'' [PString True] RVoid [OnObject QDoubleSpinBox],
     Bind [] ''setTabKeyNavigation'' [PBool] RVoid [OnObject QAbstractItemView],
     Bind [] ''setText'' [PString True] RVoid [OnObject QAbstractButton],
     Bind [EnumM ''QT_TEXTELIDEMODE''] ''setTextElideMode'' [PConv ''Qt::TextElideMode''] RVoid [OnObject QAbstractItemView],
     Bind [ValueM QTCORE_QTIME] ''setTime'' [PConv QTime] RVoid [OnObject QDateTimeEdit]]"

definition meth_qtwidgets_0_59 :: "binding list" where
  "meth_qtwidgets_0_59 = [
     Bind [ValueM QTCORE_QTIME] ''setTimeRange'' [PConv QTime, PConv QTime] RVoid [OnObject QDateTimeEdit],
     Bind [EnumM ''QT_TIMESPEC''] ''setTimeSpec'' [PConv ''Qt::TimeSpec''] RVoid [OnObject QDateTimeEdit],
     Bind [ValueM QTCORE_QTIMEZONE] ''setTimeZone'' [PConv QTimeZone] RVoid [OnObject QDateTimeEdit],
     Bind [TypeM QTWIDGETS_QWIDGET] ''setTitleBarWidget'' [PNonNull QWidget_ptr] RVoid [OnObject ''QDockWidget''],
     Bind [] ''setTracking'' [PBool] RVoid [OnObject QAbstractSlider],
     Bind [] ''setTristate'' [PBool] RVoid [OnObject ''QCheckBox''],
     Bind [] ''setUpdateThreshold'' [PInt] RVoid [OnObject QAbstractItemView]]"

definition meth_qtwidgets_0_60 :: "binding list" where
  "meth_qtwidgets_0_60 = [
     Bind [TypeM ''QTGUI_QVALIDATOR''] ''setValidator'' [PNonNull ''QValidator*''] RVoid [OnObject QComboBox],
     Bind [] ''setValue'' [PReal ''double''] RVoid [OnObject QDoubleSpinBox],
     Bind [] ''setValue'' [PInt] RVoid [OnObject QAbstractSlider],
     Bind [TypeM ''QTWIDGETS_QCALENDARWIDGET''] ''setVerticalHeaderFormat'' [PConv ''QCalendarWidget::VerticalHeaderFormat''] RVoid [OnObject QCalendarWidget],
     Bind [TypeM ''QTWIDGETS_QSCROLLBAR''] ''setVerticalScrollBar'' [PNonNull ''QScrollBar*''] RVoid [OnObject QAbstractScrollArea],
     Bind [EnumM ''QT_SCROLLBARPOLICY''] ''setVerticalScrollBarPolicy'' [PConv ''Qt::ScrollBarPolicy''] RVoid [OnObject QAbstractScrollArea]]"

definition meth_qtwidgets_0_61 :: "binding list" where
  "meth_qtwidgets_0_61 = [
     Bind [TypeM QTWIDGETS_QABSTRACTITEMVIEW] ''setVerticalScrollMode'' [PConv ''QAbstractItemView::ScrollMode''] RVoid [OnObject QAbstractItemView],
     Bind [TypeM QTWIDGETS_QABSTRACTITEMVIEW] ''setView'' [PNonNull ''QAbstractItemView*''] RVoid [OnObject QComboBox],
     Bind [TypeM QTWIDGETS_QWIDGET] ''setViewport'' [PNonNull QWidget_ptr] RVoid [OnObject QAbstractScrollArea],
     Bind [] ''setVisible'' [PBool] RVoid [OnObject ''QColorDialog'', OnObject ''QDialog''],
     Bind [EnumM ''QT_DAYOFWEEK'', ValueM QTGUI_QTEXTCHARFORMAT] ''setWeekdayTextFormat'' [PConv ''Qt::DayOfWeek'', PConv QTextCharFormat] RVoid [OnObject QCalendarWidget],
     Bind [] ''setWheelScrollLines'' [PInt] RVoid [Static QApplication]]"

definition meth_qtwidgets_0_62 :: "binding list" where
  "meth_qtwidgets_0_62 = [
     Bind [TypeM QTWIDGETS_QWIDGET] ''setWidget'' [PNonNull QWidget_ptr] RVoid [OnObject QCompleter, OnObject ''QDockWidget''],
     Bind [] ''setWrapAround'' [PBool] RVoid [OnObject QCompleter],
     Bind [] ''setWrapping'' [PBool] RVoid [OnObject QAbstractSpinBox, OnObject ''QDial''],
     Bind [TypeM QTWIDGETS_QWIDGET] ''setupViewport'' [PNonNull QWidget_ptr] RVoid [OnObject QAbstractScrollArea],
     Bind [ValueM QTGUI_QKEYSEQUENCE] ''shortcut'' [] (RValue QKeySequence) [OnObject QAbstractButton],
     Bind [] ''showDropIndicator'' [] RBool [OnObject QAbstractItemView]]"

definition meth_qtwidgets_0_63 :: "binding list" where
  "meth_qtwidgets_0_63 = [
     Bind [] ''showNextMonth'' [] RVoid [OnObject QCalendarWidget],
     Bind [] ''showNextYear'' [] RVoid [OnObject QCalendarWidget],
     Bind [] ''showPopup'' [] RVoid [OnObject QComboBox],
     Bind [] ''showPreviousMonth'' [] RVoid [OnObject QCalendarWidget],
     Bind [] ''showPreviousYear'' [] RVoid [OnObject QCalendarWidget],
     Bind [] ''showSelectedDate'' [] RVoid [OnObject QCalendarWidget],
     Bind [] ''showToday'' [] RVoid [OnObject QCalendarWidget],
     Bind [] ''singleStep'' [] RNumber [OnObject QDoubleSpinBox]]"

definition meth_qtwidgets_0_64 :: "binding list" where
  "meth_qtwidgets_0_64 = [
     Bind [] ''singleStep'' [] RNumber [OnObject QAbstractSlider],
     Bind [TypeM ''QTWIDGETS_QABSTRACTSCROLLAREA''] ''sizeAdjustPolicy'' [] (RMeta ''QAbstractScrollArea::SizeAdjustPolicy'') [OnObject QAbstractScrollArea],
     Bind [TypeM ''QTWIDGETS_QCOMBOBOX''] ''sizeAdjustPolicy'' [] (RMeta ''QComboBox::SizeAdjustPolicy'') [OnObject QComboBox]]"

definition meth_qtwidgets_0_65 :: "binding list" where
  "meth_qtwidgets_0_65 = [
     Bind [ValueM QTCORE_QSIZE] ''sizeHint'' [] (RValue QSize) [OnObject QAbstractScrollArea, OnObject QAbstractSpinBox, OnObject QBoxLayout, OnObject QCalendarWidget, OnObject ''QCheckBox'', OnObject ''QColumnView'', OnObject QComboBox, OnObject ''QCommandLinkButton'', OnObject QDateTimeEdit, OnObject ''QDial'', OnObject ''QDialog''],
     Bind [] ''sizeHintForColumn'' [PInt] RNumber [OnObject QAbstractItemView],
     Bind [ValueM QTCORE_QMODELINDEX, ValueM QTCORE_QSIZE] ''sizeHintForIndex'' [PConv QModelIndex] (RValue QSize) [OnObject QAbstractItemView]]"

definition meth_qtwidgets_0_66 :: "binding list" where
  "meth_qtwidgets_0_66 = [
     Bind [] ''sizeHintForRow'' [PInt] RNumber [OnObject QAbstractItemView],
     Bind [] ''sliderPosition'' [] RNumber [OnObject QAbstractSlider],
     Bind [] ''spacing'' [] RNumber [OnObject QBoxLayout],
     Bind [] ''specialValueText'' [] RString [OnObject QAbstractSpinBox],
     Bind [] ''splitPath'' [PString True] (RList (IMeta QString)) [OnObject QCompleter],
     Bind [TypeM QTWIDGETS_QABSTRACTBUTTON, TypeM QTWIDGETS_QDIALOGBUTTONBOX] ''standardButton'' [PNonNull ''QAbstractButton*''] (RMeta ''QDialogButtonBox::StandardButton'') [OnObject QDialogButtonBox],
     Bind [TypeM QTWIDGETS_QDIALOGBUTTONBOX] ''standardButtons'' [] (RMeta ''QDialogButtonBox::StandardButtons'') [OnObject QDialogButtonBox]]"

definition meth_qtwidgets_0_67 :: "binding list" where
  "meth_qtwidgets_0_67 = [
     Bind [ValueM QTGUI_QCOLOR] ''standardColor'' [PInt] (RValue QColor) [Static ''QColorDialog''],
     Bind [] ''startDragDistance'' [] RNumber [Static QApplication],
     Bind [] ''startDragTime'' [] RNumber [Static QApplication],
     Bind [] ''stepBy'' [PInt] RVoid [OnObject QAbstractSpinBox, OnObject QDateTimeEdit],
     Bind [] ''stepDown'' [] RVoid [OnObject QAbstractSpinBox],
     Bind [TypeM ''QTWIDGETS_QABSTRACTSPINBOX''] ''stepType'' [] (RMeta ''QAbstractSpinBox::StepType'') [OnObject QDoubleSpinBox],
     Bind [] ''stepUp'' [] RVoid [OnObject QAbstractSpinBox]]"

definition meth_qtwidgets_0_68 :: "binding list" where
  "meth_qtwidgets_0_68 = [
     Bind [] ''stretch'' [PInt] RNumber [OnObject QBoxLayout],
     Bind [TypeM QTWIDGETS_QSTYLE] ''style'' [] RObject [Static QApplication],
     Bind [] ''styleSheet'' [] RString [OnObject QApplication],
     Bind [] ''submit'' [] RBool [OnObject QDataWidgetMapper],
     Bind [TypeM ''QTWIDGETS_QDATAWIDGETMAPPER''] ''submitPolicy'' [] (RMeta ''QDataWidgetMapper::SubmitPolicy'') [OnObject QDataWidgetMapper],
     Bind [] ''suffix'' [] RString [OnObject QDoubleSpinBox],
     Bind [] ''tabKeyNavigation'' [] RBool [OnObject QAbstractItemView],
     Bind [TypeM ''QTWIDGETS_QCOLORDIALOG''] ''testOption'' [PConv ''QColorDialog::ColorDialogOption''] RBool [OnObject ''QColorDialog'']]"

definition meth_qtwidgets_0_69 :: "binding list" where
  "meth_qtwidgets_0_69 = [
     Bind [] ''text'' [] RString [OnObject QAbstractButton, OnObject QAbstractSpinBox],
     Bind [EnumM ''QT_TEXTELIDEMODE''] ''textElideMode'' [] (RMeta ''Qt::TextElideMode'') [OnObject QAbstractItemView],
     Bind [] ''textFromValue'' [PReal ''double''] RString [OnObject QDoubleSpinBox],
     Bind [ValueM QTCORE_QTIME] ''time'' [] (RValue QTime) [OnObject QDateTimeEdit],
     Bind [EnumM ''QT_TIMESPEC''] ''timeSpec'' [] (RMeta ''Qt::TimeSpec'') [OnObject QDateTimeEdit],
     Bind [ValueM QTCORE_QTIMEZONE] ''timeZone'' [] (RValue QTimeZone) [OnObject QDateTimeEdit],
     Bind [TypeM QTWIDGETS_QWIDGET] ''titleBarWidget'' [] RObject [OnObject ''QDockWidget'']]"

definition meth_qtwidgets_0_70 :: "binding list" where
  "meth_qtwidgets_0_70 = [
     Bind [] ''toFirst'' [] RVoid [OnObject QDataWidgetMapper],
     Bind [] ''toLast'' [] RVoid [OnObject QDataWidgetMapper],
     Bind [] ''toNext'' [] RVoid [OnObject QDataWidgetMapper],
     Bind [] ''toPrevious'' [] RVoid [OnObject QDataWidgetMapper],
     Bind [] ''toggle'' [] RVoid [OnObject QAbstractButton],
     Bind [TypeM QTWIDGETS_QWIDGET, ValueM QTCORE_QPOINT] ''topLevelAt'' [PConv QPoint] RObject [Static QApplication],
     Bind [TypeM QTWIDGETS_QWIDGET] ''topLevelAt'' [PInt, PInt] RObject [Static QApplication]]"

definition meth_qtwidgets_0_71 :: "binding list" where
  "meth_qtwidgets_0_71 = [
     Bind [TypeM ''QTWIDGETS_QABSTRACTSLIDER''] ''triggerAction'' [PConv ''QAbstractSlider::SliderAction''] RVoid [OnObject QAbstractSlider],
     Bind [TypeM ''QTWIDGETS_QAPPLICATION''] ''unpolish'' [PNonNull ''QApplication*''] RVoid [OnObject ''QCommonStyle''],
     Bind [TypeM QTWIDGETS_QWIDGET] ''unpolish'' [PNonNull QWidget_ptr] RVoid [OnObject ''QCommonStyle''],
     Bind [] ''update'' [] RVoid [OnObject QAbstractItemView],
     Bind [ValueM QTCORE_QMODELINDEX] ''update'' [PConv QModelIndex] RVoid [OnObject QAbstractItemView],
     Bind [TypeM QTWIDGETS_QWIDGET, ValueM QTCORE_QMODELINDEX, ValueM QTWIDGETS_QSTYLEOPTIONVIEWITEM] ''updateEditorGeometry'' [PNonNull QWidget_ptr, PConv QStyleOptionViewItem, PConv QModelIndex] RVoid [OnObject ''QAbstractItemDelegate'']]"

definition meth_qtwidgets_0_72 :: "binding list" where
  "meth_qtwidgets_0_72 = [
     Bind [] ''updateThreshold'' [] RNumber [OnObject QAbstractItemView],
     Bind [TypeM ''QTGUI_QVALIDATOR''] ''validator'' [] RObject [OnObject QComboBox],
     Bind [] ''value'' [] RNumber [OnObject QDoubleSpinBox],
     Bind [] ''value'' [] RNumber [OnObject QAbstractSlider],
     Bind [] ''valueFromText'' [PString True] RNumber [OnObject QDoubleSpinBox],
     Bind [TypeM ''QTWIDGETS_QCALENDARWIDGET''] ''verticalHeaderFormat'' [] (RMeta ''QCalendarWidget::VerticalHeaderFormat'') [OnObject QCalendarWidget],
     Bind [TypeM ''QTWIDGETS_QSCROLLBAR''] ''verticalScrollBar'' [] RObject [OnObject QAbstractScrollArea],
     Bind [EnumM ''QT_SCROLLBARPOLICY''] ''verticalScrollBarPolicy'' [] (RMeta ''Qt::ScrollBarPolicy'') [OnObject QAbstractScrollArea]]"

definition meth_qtwidgets_0_73 :: "binding list" where
  "meth_qtwidgets_0_73 = [
     Bind [TypeM QTWIDGETS_QABSTRACTITEMVIEW] ''verticalScrollMode'' [] (RMeta ''QAbstractItemView::ScrollMode'') [OnObject QAbstractItemView],
     Bind [TypeM QTWIDGETS_QABSTRACTITEMVIEW] ''view'' [] RObject [OnObject QComboBox],
     Bind [TypeM QTWIDGETS_QWIDGET] ''viewport'' [] RObject [OnObject QAbstractScrollArea],
     Bind [ValueM QTCORE_QMODELINDEX, ValueM QTCORE_QRECT] ''visualRect'' [PConv QModelIndex] (RValue QRect) [OnObject ''QColumnView''],
     Bind [EnumM ''QT_DAYOFWEEK'', ValueM QTGUI_QTEXTCHARFORMAT] ''weekdayTextFormat'' [PConv ''Qt::DayOfWeek''] (RValue QTextCharFormat) [OnObject QCalendarWidget],
     Bind [] ''wheelScrollLines'' [] RNumber [Static QApplication],
     Bind [TypeM QTWIDGETS_QWIDGET] ''widget'' [] RObject [OnObject QCompleter, OnObject ''QDockWidget'']]"

definition meth_qtwidgets_0_74 :: "binding list" where
  "meth_qtwidgets_0_74 = [
     Bind [TypeM QTWIDGETS_QWIDGET, ValueM QTCORE_QPOINT] ''widgetAt'' [PConv QPoint] RObject [Static QApplication],
     Bind [TypeM QTWIDGETS_QWIDGET] ''widgetAt'' [PInt, PInt] RObject [Static QApplication],
     Bind [] ''wrapAround'' [] RBool [OnObject QCompleter],
     Bind [] ''wrapping'' [] RBool [OnObject QAbstractSpinBox, OnObject ''QDial''],
     Bind [] ''yearShown'' [] RNumber [OnObject QCalendarWidget]]"

definition meth_table_widgets_a :: "(string \<times> shard) list" where
  "meth_table_widgets_a = [
     (''qtwidgets_0'', \<lparr>sh_module = ''QtWidgets'', sh_slug = ''QTWIDGETS'',
        sh_bindings = concat [meth_qtwidgets_0_0, meth_qtwidgets_0_1, meth_qtwidgets_0_2, meth_qtwidgets_0_3, meth_qtwidgets_0_4, meth_qtwidgets_0_5, meth_qtwidgets_0_6, meth_qtwidgets_0_7, meth_qtwidgets_0_8, meth_qtwidgets_0_9, meth_qtwidgets_0_10, meth_qtwidgets_0_11, meth_qtwidgets_0_12, meth_qtwidgets_0_13, meth_qtwidgets_0_14, meth_qtwidgets_0_15, meth_qtwidgets_0_16, meth_qtwidgets_0_17, meth_qtwidgets_0_18, meth_qtwidgets_0_19, meth_qtwidgets_0_20, meth_qtwidgets_0_21, meth_qtwidgets_0_22, meth_qtwidgets_0_23, meth_qtwidgets_0_24, meth_qtwidgets_0_25, meth_qtwidgets_0_26, meth_qtwidgets_0_27, meth_qtwidgets_0_28, meth_qtwidgets_0_29, meth_qtwidgets_0_30, meth_qtwidgets_0_31, meth_qtwidgets_0_32, meth_qtwidgets_0_33, meth_qtwidgets_0_34, meth_qtwidgets_0_35, meth_qtwidgets_0_36, meth_qtwidgets_0_37, meth_qtwidgets_0_38, meth_qtwidgets_0_39, meth_qtwidgets_0_40, meth_qtwidgets_0_41, meth_qtwidgets_0_42, meth_qtwidgets_0_43, meth_qtwidgets_0_44, meth_qtwidgets_0_45, meth_qtwidgets_0_46, meth_qtwidgets_0_47, meth_qtwidgets_0_48, meth_qtwidgets_0_49, meth_qtwidgets_0_50, meth_qtwidgets_0_51, meth_qtwidgets_0_52, meth_qtwidgets_0_53, meth_qtwidgets_0_54, meth_qtwidgets_0_55, meth_qtwidgets_0_56, meth_qtwidgets_0_57, meth_qtwidgets_0_58, meth_qtwidgets_0_59, meth_qtwidgets_0_60, meth_qtwidgets_0_61, meth_qtwidgets_0_62, meth_qtwidgets_0_63, meth_qtwidgets_0_64, meth_qtwidgets_0_65, meth_qtwidgets_0_66, meth_qtwidgets_0_67, meth_qtwidgets_0_68, meth_qtwidgets_0_69, meth_qtwidgets_0_70, meth_qtwidgets_0_71, meth_qtwidgets_0_72, meth_qtwidgets_0_73, meth_qtwidgets_0_74]\<rparr>)]"

lemmas meth_table_widgets_a_defs =
  meth_qtwidgets_0_0_def meth_qtwidgets_0_1_def meth_qtwidgets_0_2_def meth_qtwidgets_0_3_def
  meth_qtwidgets_0_4_def meth_qtwidgets_0_5_def meth_qtwidgets_0_6_def meth_qtwidgets_0_7_def
  meth_qtwidgets_0_8_def meth_qtwidgets_0_9_def meth_qtwidgets_0_10_def meth_qtwidgets_0_11_def
  meth_qtwidgets_0_12_def meth_qtwidgets_0_13_def meth_qtwidgets_0_14_def meth_qtwidgets_0_15_def
  meth_qtwidgets_0_16_def meth_qtwidgets_0_17_def meth_qtwidgets_0_18_def meth_qtwidgets_0_19_def
  meth_qtwidgets_0_20_def meth_qtwidgets_0_21_def meth_qtwidgets_0_22_def meth_qtwidgets_0_23_def
  meth_qtwidgets_0_24_def meth_qtwidgets_0_25_def meth_qtwidgets_0_26_def meth_qtwidgets_0_27_def
  meth_qtwidgets_0_28_def meth_qtwidgets_0_29_def meth_qtwidgets_0_30_def meth_qtwidgets_0_31_def
  meth_qtwidgets_0_32_def meth_qtwidgets_0_33_def meth_qtwidgets_0_34_def meth_qtwidgets_0_35_def
  meth_qtwidgets_0_36_def meth_qtwidgets_0_37_def meth_qtwidgets_0_38_def meth_qtwidgets_0_39_def
  meth_qtwidgets_0_40_def meth_qtwidgets_0_41_def meth_qtwidgets_0_42_def meth_qtwidgets_0_43_def
  meth_qtwidgets_0_44_def meth_qtwidgets_0_45_def meth_qtwidgets_0_46_def meth_qtwidgets_0_47_def
  meth_qtwidgets_0_48_def meth_qtwidgets_0_49_def meth_qtwidgets_0_50_def meth_qtwidgets_0_51_def
  meth_qtwidgets_0_52_def meth_qtwidgets_0_53_def meth_qtwidgets_0_54_def meth_qtwidgets_0_55_def
  meth_qtwidgets_0_56_def meth_qtwidgets_0_57_def meth_qtwidgets_0_58_def meth_qtwidgets_0_59_def
  meth_qtwidgets_0_60_def meth_qtwidgets_0_61_def meth_qtwidgets_0_62_def meth_qtwidgets_0_63_def
  meth_qtwidgets_0_64_def meth_qtwidgets_0_65_def meth_qtwidgets_0_66_def meth_qtwidgets_0_67_def
  meth_qtwidgets_0_68_def meth_qtwidgets_0_69_def meth_qtwidgets_0_70_def meth_qtwidgets_0_71_def
  meth_qtwidgets_0_72_def meth_qtwidgets_0_73_def meth_qtwidgets_0_74_def

lemma meth_table_widgets_a_object_blocks: "list_all (\<lambda>(s, sh). object_blocks sh) meth_table_widgets_a"
  by (simp add: meth_table_widgets_a_def meth_table_widgets_a_defs object_blocks_def object_shard_def; (simp add: parameter_text_def qt_name_defs)?)

end
