(* ===== verification/Methods_Widgets_B.thy ===== *)
theory Methods_Widgets_B
  imports Shard_Methods Qt_Names
begin

text \<open>
  Tables of the method shards (generated\_methods): the blocks of every shard in the file's order.
\<close>

definition meth_qtwidgets_1_0 :: "binding list" where
  "meth_qtwidgets_1_0 = [
     Bind [TypeM QTWIDGETS_QFILEDIALOG] ''acceptMode'' [] (RMeta ''QFileDialog::AcceptMode'') [OnObject QFileDialog],
     Bind [TypeM ''QTWIDGETS_QGRAPHICSWIDGET''] ''activeWindow'' [] RObject [OnObject QGraphicsScene],
     Bind [TypeM QTWIDGETS_QLAYOUT] ''addRow'' [PNonNull ''QLayout*''] RVoid [OnObject QFormLayout],
     Bind [TypeM QTWIDGETS_QLAYOUT] ''addRow'' [PString True, PNonNull ''QLayout*''] RVoid [OnObject QFormLayout],
     Bind [TypeM QTWIDGETS_QWIDGET] ''addRow'' [PString True, PNonNull QWidget_ptr] RVoid [OnObject QFormLayout],
     Bind [TypeM QTWIDGETS_QWIDGET] ''addRow'' [PNonNull QWidget_ptr] RVoid [OnObject QFormLayout]]"

definition meth_qtwidgets_1_1 :: "binding list" where
  "meth_qtwidgets_1_1 = [
     Bind [TypeM QTWIDGETS_QLAYOUT, TypeM QTWIDGETS_QWIDGET] ''addRow'' [PNonNull QWidget_ptr, PNonNull ''QLayout*''] RVoid [OnObject QFormLayout],
     Bind [TypeM QTWIDGETS_QWIDGET] ''addRow'' [PNonNull QWidget_ptr, PNonNull QWidget_ptr] RVoid [OnObject QFormLayout],
     Bind [TypeM ''QTWIDGETS_QGRAPHICSTEXTITEM'', ValueM QTGUI_QFONT] ''addText'' [PString True, PConv QFont] RObject [OnObject QGraphicsScene],
     Bind [EnumM QT_WINDOWFLAGS, TypeM ''QTWIDGETS_QGRAPHICSPROXYWIDGET'', TypeM QTWIDGETS_QWIDGET] ''addWidget'' [PNonNull QWidget_ptr, PConv Qt_WindowFlags] RObject [OnObject QGraphicsScene],
     Bind [] ''adjustSize'' [] RVoid [OnObject QGraphicsTextItem, OnObject QGraphicsWidget],
     Bind [] ''advance'' [] RVoid [OnObject QGraphicsScene]]"

definition meth_qtwidgets_1_2 :: "binding list" where
  "meth_qtwidgets_1_2 = [
     Bind [] ''angle'' [] RNumber [OnObject ''QGraphicsRotation''],
     Bind [] ''autoFillBackground'' [] RBool [OnObject QGraphicsWidget],
     Bind [ValueM QTGUI_QVECTOR3D] ''axis'' [] (RValue QVector3D) [OnObject ''QGraphicsRotation''],
     Bind [ValueM QTGUI_QBRUSH] ''backgroundBrush'' [] (RValue QBrush) [OnObject QGraphicsScene, OnObject QGraphicsView],
     Bind [] ''blurRadius'' [] RNumber [OnObject ''QGraphicsBlurEffect'', OnObject QGraphicsDropShadowEffect],
     Bind [ValueM QTCORE_QRECTF] ''boundingRect'' [] (RValue QRectF) [OnObject ''QGraphicsEffect'', OnObject QGraphicsTextItem, OnObject QGraphicsWidget]]"

definition meth_qtwidgets_1_3 :: "binding list" where
  "meth_qtwidgets_1_3 = [
     Bind [ValueM QTCORE_QRECTF] ''boundingRectFor'' [PConv QRectF] (RValue QRectF) [OnObject ''QGraphicsBlurEffect'', OnObject QGraphicsDropShadowEffect, OnObject ''QGraphicsEffect''],
     Bind [] ''bspTreeDepth'' [] RNumber [OnObject QGraphicsScene],
     Bind [ValueM QTCORE_QRECT] ''cellRect'' [PInt, PInt] (RValue QRect) [OnObject QGridLayout],
     Bind [ValueM QTCORE_QPOINTF] ''centerOn'' [PConv QPointF] RVoid [OnObject QGraphicsView],
     Bind [] ''centerOn'' [PReal ''qreal'', PReal ''qreal''] RVoid [OnObject QGraphicsView],
     Bind [] ''clear'' [] RVoid [OnObject QGraphicsScene]]"

definition meth_qtwidgets_1_4 :: "binding list" where
  "meth_qtwidgets_1_4 = [
     Bind [] ''clearFocus'' [] RVoid [OnObject QGraphicsScene],
     Bind [] ''clearSelection'' [] RVoid [OnObject QGraphicsScene],
     Bind [] ''close'' [] RBool [OnObject QGraphicsWidget],
     Bind [ValueM QTGUI_QCOLOR] ''color'' [] (RValue QColor) [OnObject ''QGraphicsColorizeEffect'', OnObject QGraphicsDropShadowEffect],
     Bind [] ''columnCount'' [] RNumber [OnObject QGridLayout],
     Bind [] ''columnMinimumWidth'' [PInt] RNumber [OnObject QGridLayout],
     Bind [] ''columnStretch'' [PInt] RNumber [OnObject QGridLayout]]"

definition meth_qtwidgets_1_5 :: "binding list" where
  "meth_qtwidgets_1_5 = [
     Bind [ValueM QTCORE_QPOINTF] ''contains'' [PConv QPointF] RBool [OnObject QGraphicsTextItem],
     Bind [] ''count'' [] RNumber [OnObject QFormLayout, OnObject QGridLayout],
     Bind [TypeM ''QTWIDGETS_QGRAPHICSPROXYWIDGET'', TypeM QTWIDGETS_QWIDGET] ''createProxyForChildWidget'' [PNonNull QWidget_ptr] RObject [OnObject ''QGraphicsProxyWidget''],
     Bind [ValueM QTGUI_QFONT] ''currentFont'' [] (RValue QFont) [OnObject ''QFontComboBox'', OnObject ''QFontDialog''],
     Bind [] ''defaultSuffix'' [] RString [OnObject QFileDialog],
     Bind [ValueM QTGUI_QCOLOR] ''defaultTextColor'' [] (RValue QColor) [OnObject QGraphicsTextItem],
     Bind [ValueM QTCORE_QDIR] ''directory'' [] (RValue QDir) [OnObject QFileDialog]]"

definition meth_qtwidgets_1_6 :: "binding list" where
  "meth_qtwidgets_1_6 = [
     Bind [ValueM QTCORE_QURL] ''directoryUrl'' [] (RValue QUrl) [OnObject QFileDialog],
     Bind [TypeM QTGUI_QTEXTDOCUMENT] ''document'' [] RObject [OnObject QGraphicsTextItem],
     Bind [TypeM QTWIDGETS_QGRAPHICSVIEW] ''dragMode'' [] (RMeta ''QGraphicsView::DragMode'') [OnObject QGraphicsView],
     Bind [ValueM QTCORE_QRECTF] ''ensureVisible'' [PConv QRectF, PInt, PInt] RVoid [OnObject QGraphicsView],
     Bind [] ''ensureVisible'' [PReal ''qreal'', PReal ''qreal'', PReal ''qreal'', PReal ''qreal'', PInt, PInt] RVoid [OnObject QGraphicsView],
     Bind [EnumM ''QT_ORIENTATIONS''] ''expandingDirections'' [] (RMeta ''Qt::Orientations'') [OnObject QFormLayout, OnObject QGridLayout]]"

definition meth_qtwidgets_1_7 :: "binding list" where
  "meth_qtwidgets_1_7 = [
     Bind [TypeM ''QTWIDGETS_QFORMLAYOUT''] ''fieldGrowthPolicy'' [] (RMeta ''QFormLayout::FieldGrowthPolicy'') [OnObject QFormLayout],
     Bind [TypeM QTWIDGETS_QFILEDIALOG] ''fileMode'' [] (RMeta ''QFileDialog::FileMode'') [OnObject QFileDialog],
     Bind [TypeM QTCORE_QDIR] ''filter'' [] (RMeta ''QDir::Filters'') [OnObject QFileDialog],
     Bind [EnumM QT_ASPECTRATIOMODE, ValueM QTCORE_QRECTF] ''fitInView'' [PConv QRectF, PConv Qt_AspectRatioMode] RVoid [OnObject QGraphicsView],
     Bind [EnumM QT_ASPECTRATIOMODE] ''fitInView'' [PReal ''qreal'', PReal ''qreal'', PReal ''qreal'', PReal ''qreal'', PConv Qt_AspectRatioMode] RVoid [OnObject QGraphicsView],
     Bind [] ''focusOnTouch'' [] RBool [OnObject QGraphicsScene],
     Bind [EnumM ''QT_FOCUSPOLICY''] ''focusPolicy'' [] (RMeta ''Qt::FocusPolicy'') [OnObject QGraphicsWidget]]"

definition meth_qtwidgets_1_8 :: "binding list" where
  "meth_qtwidgets_1_8 = [
     Bind [TypeM ''QTWIDGETS_QGRAPHICSWIDGET''] ''focusWidget'' [] RObject [OnObject QGraphicsWidget],
     Bind [ValueM QTGUI_QFONT] ''font'' [] (RValue QFont) [OnObject QGraphicsScene, OnObject QGraphicsTextItem, OnObject QGraphicsWidget],
     Bind [ValueM QTGUI_QBRUSH] ''foregroundBrush'' [] (RValue QBrush) [OnObject QGraphicsScene, OnObject QGraphicsView],
     Bind [ValueM QTCORE_QRECT] ''frameRect'' [] (RValue QRect) [OnObject ''QFrame''],
     Bind [TypeM ''QTWIDGETS_QFRAME''] ''frameShadow'' [] (RMeta ''QFrame::Shadow'') [OnObject ''QFrame''],
     Bind [TypeM ''QTWIDGETS_QFRAME''] ''frameShape'' [] (RMeta ''QFrame::Shape'') [OnObject ''QFrame'']]"

definition meth_qtwidgets_1_9 :: "binding list" where
  "meth_qtwidgets_1_9 = [
     Bind [] ''frameStyle'' [] RNumber [OnObject ''QFrame''],
     Bind [] ''frameWidth'' [] RNumber [OnObject ''QFrame''],
     Bind [TypeM QTWIDGETS_QGESTURE] ''gestureCancelPolicy'' [] (RMeta ''QGesture::GestureCancelPolicy'') [OnObject ''QGesture''],
     Bind [EnumM ''QT_GESTURETYPE''] ''gestureType'' [] (RMeta ''Qt::GestureType'') [OnObject ''QGesture''],
     Bind [TypeM QTWIDGETS_QFILEDIALOG, TypeM QTWIDGETS_QWIDGET] ''getExistingDirectory'' [PNonNull QWidget_ptr, PString True, PString True, PConv ''QFileDialog::Options''] RString [Static QFileDialog],
     Bind [TypeM QTWIDGETS_QFILEDIALOG, TypeM QTWIDGETS_QWIDGET, ValueM QTCORE_QURL] ''getExistingDirectoryUrl'' [PNonNull QWidget_ptr, PString True, PConv QUrl, PConv ''QFileDialog::Options'', PStringList] (RValue QUrl) [Static QFileDialog]]"

definition meth_qtwidgets_1_10 :: "binding list" where
  "meth_qtwidgets_1_10 = [
     Bind [EnumM ''QT_SHORTCUTCONTEXT'', ValueM QTGUI_QKEYSEQUENCE] ''grabShortcut'' [PConv QKeySequence, PConv ''Qt::ShortcutContext''] RNumber [OnObject QGraphicsWidget],
     Bind [] ''hasFocus'' [] RBool [OnObject QGraphicsScene],
     Bind [] ''hasHeightForWidth'' [] RBool [OnObject QFormLayout, OnObject QGridLayout],
     Bind [] ''hasHotSpot'' [] RBool [OnObject ''QGesture''],
     Bind [] ''height'' [] RNumber [OnObject QGraphicsScene],
     Bind [] ''heightForWidth'' [PInt] RNumber [OnObject QFormLayout, OnObject QGridLayout],
     Bind [] ''history'' [] (RList (IMeta QString)) [OnObject QFileDialog]]"

definition meth_qtwidgets_1_11 :: "binding list" where
  "meth_qtwidgets_1_11 = [
     Bind [] ''horizontalSpacing'' [] RNumber [OnObject QFormLayout, OnObject QGridLayout],
     Bind [ValueM QTCORE_QPOINTF] ''hotSpot'' [] (RValue QPointF) [OnObject ''QGesture''],
     Bind [EnumM ''QT_INPUTMETHODQUERY''] ''inputMethodQuery'' [PConv ''Qt::InputMethodQuery''] RVariant [OnObject QGraphicsScene, OnObject QGraphicsView],
     Bind [TypeM QTWIDGETS_QLAYOUT] ''insertRow'' [PInt, PNonNull ''QLayout*''] RVoid [OnObject QFormLayout],
     Bind [TypeM QTWIDGETS_QLAYOUT] ''insertRow'' [PInt, PString True, PNonNull ''QLayout*''] RVoid [OnObject QFormLayout]]"

definition meth_qtwidgets_1_12 :: "binding list" where
  "meth_qtwidgets_1_12 = [
     Bind [TypeM QTWIDGETS_QWIDGET] ''insertRow'' [PInt, PString True, PNonNull QWidget_ptr] RVoid [OnObject QFormLayout],
     Bind [TypeM QTWIDGETS_QWIDGET] ''insertRow'' [PInt, PNonNull QWidget_ptr] RVoid [OnObject QFormLayout],
     Bind [TypeM QTWIDGETS_QLAYOUT, TypeM QTWIDGETS_QWIDGET] ''insertRow'' [PInt, PNonNull QWidget_ptr, PNonNull ''QLayout*''] RVoid [OnObject QFormLayout],
     Bind [TypeM QTWIDGETS_QWIDGET] ''insertRow'' [PInt, PNonNull QWidget_ptr, PNonNull QWidget_ptr] RVoid [OnObject QFormLayout],
     Bind [] ''invalidate'' [] RVoid [OnObject QFormLayout, OnObject QGridLayout]]"

definition meth_qtwidgets_1_13 :: "binding list" where
  "meth_qtwidgets_1_13 = [
     Bind [] ''isActive'' [] RBool [OnObject QGraphicsScene],
     Bind [] ''isActiveWindow'' [] RBool [OnObject QGraphicsWidget],
     Bind [] ''isEnabled'' [] RBool [OnObject ''QGraphicsEffect''],
     Bind [] ''isInteractive'' [] RBool [OnObject QGraphicsView],
     Bind [TypeM QTWIDGETS_QLAYOUT] ''isRowVisible'' [PNonNull ''QLayout*''] RBool [OnObject QFormLayout],
     Bind [TypeM QTWIDGETS_QWIDGET] ''isRowVisible'' [PNonNull QWidget_ptr] RBool [OnObject QFormLayout],
     Bind [] ''isRowVisible'' [PInt] RBool [OnObject QFormLayout],
     Bind [] ''isTransformed'' [] RBool [OnObject QGraphicsView]]"

definition meth_qtwidgets_1_14 :: "binding list" where
  "meth_qtwidgets_1_14 = [
     Bind [TypeM QTWIDGETS_QABSTRACTITEMDELEGATE] ''itemDelegate'' [] RObject [OnObject QFileDialog],
     Bind [TypeM ''QTWIDGETS_QGRAPHICSSCENE''] ''itemIndexMethod'' [] (RMeta ''QGraphicsScene::ItemIndexMethod'') [OnObject QGraphicsScene],
     Bind [ValueM QTCORE_QRECTF] ''itemsBoundingRect'' [] (RValue QRectF) [OnObject QGraphicsScene],
     Bind [TypeM QTWIDGETS_QLAYOUT, TypeM QTWIDGETS_QWIDGET] ''labelForField'' [PNonNull ''QLayout*''] RObject [OnObject QFormLayout],
     Bind [TypeM QTWIDGETS_QWIDGET] ''labelForField'' [PNonNull QWidget_ptr] RObject [OnObject QFormLayout],
     Bind [TypeM QTWIDGETS_QFILEDIALOG] ''labelText'' [PConv ''QFileDialog::DialogLabel''] RString [OnObject QFileDialog],
     Bind [EnumM QT_LAYOUTDIRECTION] ''layoutDirection'' [] (RMeta Qt_LayoutDirection) [OnObject QGraphicsWidget]]"

definition meth_qtwidgets_1_15 :: "binding list" where
  "meth_qtwidgets_1_15 = [
     Bind [] ''lineWidth'' [] RNumber [OnObject ''QFrame''],
     Bind [ValueM QTGUI_QPAINTERPATH] ''mapFromScene'' [PConv QPainterPath] (RValue QPainterPath) [OnObject QGraphicsView],
     Bind [ValueM QTCORE_QPOINT, ValueM QTCORE_QPOINTF] ''mapFromScene'' [PConv QPointF] (RValue QPoint) [OnObject QGraphicsView],
     Bind [ValueM QTGUI_QPOLYGON, ValueM QTGUI_QPOLYGONF] ''mapFromScene'' [PConv QPolygonF] (RValue QPolygon) [OnObject QGraphicsView],
     Bind [ValueM QTCORE_QRECTF, ValueM QTGUI_QPOLYGON] ''mapFromScene'' [PConv QRectF] (RValue QPolygon) [OnObject QGraphicsView],
     Bind [ValueM QTCORE_QPOINT] ''mapFromScene'' [PReal ''qreal'', PReal ''qreal''] (RValue QPoint) [OnObject QGraphicsView]]"

definition meth_qtwidgets_1_16 :: "binding list" where
  "meth_qtwidgets_1_16 = [
     Bind [ValueM QTGUI_QPOLYGON] ''mapFromScene'' [PReal ''qreal'', PReal ''qreal'', PReal ''qreal'', PReal ''qreal''] (RValue QPolygon) [OnObject QGraphicsView],
     Bind [ValueM QTGUI_QPAINTERPATH] ''mapToScene'' [PConv QPainterPath] (RValue QPainterPath) [OnObject QGraphicsView],
     Bind [ValueM QTCORE_QPOINT, ValueM QTCORE_QPOINTF] ''mapToScene'' [PConv QPoint] (RValue QPointF) [OnObject QGraphicsView],
     Bind [ValueM QTGUI_QPOLYGON, ValueM QTGUI_QPOLYGONF] ''mapToScene'' [PConv QPolygon] (RValue QPolygonF) [OnObject QGraphicsView],
     Bind [ValueM QTCORE_QRECT, ValueM QTGUI_QPOLYGONF] ''mapToScene'' [PConv QRect] (RValue QPolygonF) [OnObject QGraphicsView],
     Bind [ValueM QTCORE_QPOINTF] ''mapToScene'' [PInt, PInt] (RValue QPointF) [OnObject QGraphicsView]]"

definition meth_qtwidgets_1_17 :: "binding list" where
  "meth_qtwidgets_1_17 = [
     Bind [ValueM QTGUI_QPOLYGONF] ''mapToScene'' [PInt, PInt, PInt, PInt] (RValue QPolygonF) [OnObject QGraphicsView],
     Bind [ValueM QTCORE_QSIZE] ''maximumSize'' [] (RValue QSize) [OnObject QGridLayout],
     Bind [] ''midLineWidth'' [] RNumber [OnObject ''QFrame''],
     Bind [] ''mimeTypeFilters'' [] (RList (IMeta QString)) [OnObject QFileDialog],
     Bind [] ''minimumHeightForWidth'' [PInt] RNumber [OnObject QGridLayout],
     Bind [] ''minimumRenderSize'' [] RNumber [OnObject QGraphicsScene]]"

definition meth_qtwidgets_1_18 :: "binding list" where
  "meth_qtwidgets_1_18 = [
     Bind [ValueM QTCORE_QSIZE] ''minimumSize'' [] (RValue QSize) [OnObject QFormLayout, OnObject QGridLayout],
     Bind [] ''nameFilters'' [] (RList (IMeta QString)) [OnObject QFileDialog],
     Bind [ValueM QTCORE_QPOINTF] ''offset'' [] (RValue QPointF) [OnObject QGraphicsDropShadowEffect],
     Bind [] ''opacity'' [] RNumber [OnObject ''QGraphicsOpacityEffect''],
     Bind [ValueM QTGUI_QBRUSH] ''opacityMask'' [] (RValue QBrush) [OnObject ''QGraphicsOpacityEffect''],
     Bind [ValueM QTGUI_QPAINTERPATH] ''opaqueArea'' [] (RValue QPainterPath) [OnObject QGraphicsTextItem],
     Bind [] ''open'' [] RVoid [OnObject QFileDialog, OnObject ''QFontDialog'']]"

definition meth_qtwidgets_1_19 :: "binding list" where
  "meth_qtwidgets_1_19 = [
     Bind [] ''openExternalLinks'' [] RBool [OnObject QGraphicsTextItem],
     Bind [TypeM QTWIDGETS_QGRAPHICSVIEW] ''optimizationFlags'' [] (RMeta ''QGraphicsView::OptimizationFlags'') [OnObject QGraphicsView],
     Bind [TypeM QTWIDGETS_QFILEDIALOG] ''options'' [] (RMeta ''QFileDialog::Options'') [OnObject QFileDialog],
     Bind [TypeM ''QTWIDGETS_QFONTDIALOG''] ''options'' [] (RMeta ''QFontDialog::FontDialogOptions'') [OnObject ''QFontDialog''],
     Bind [ValueM QTGUI_QVECTOR3D] ''origin'' [] (RValue QVector3D) [OnObject ''QGraphicsRotation'', OnObject ''QGraphicsScale''],
     Bind [EnumM ''QT_CORNER''] ''originCorner'' [] (RMeta ''Qt::Corner'') [OnObject QGridLayout],
     Bind [ValueM QTGUI_QPALETTE] ''palette'' [] (RValue QPalette) [OnObject QGraphicsScene, OnObject QGraphicsWidget]]"

definition meth_qtwidgets_1_20 :: "binding list" where
  "meth_qtwidgets_1_20 = [
     Bind [TypeM ''QTCORE_QABSTRACTPROXYMODEL''] ''proxyModel'' [] RObject [OnObject QFileDialog],
     Bind [TypeM ''QTWIDGETS_QERRORMESSAGE''] ''qtHandler'' [] RObject [Static ''QErrorMessage''],
     Bind [ValueM QTCORE_QRECTF] ''rect'' [] (RValue QRectF) [OnObject QGraphicsWidget],
     Bind [] ''releaseShortcut'' [PInt] RVoid [OnObject QGraphicsWidget],
     Bind [TypeM QTWIDGETS_QLAYOUT] ''removeRow'' [PNonNull ''QLayout*''] RVoid [OnObject QFormLayout],
     Bind [TypeM QTWIDGETS_QWIDGET] ''removeRow'' [PNonNull QWidget_ptr] RVoid [OnObject QFormLayout],
     Bind [] ''removeRow'' [PInt] RVoid [OnObject QFormLayout]]"

definition meth_qtwidgets_1_21 :: "binding list" where
  "meth_qtwidgets_1_21 = [
     Bind [TypeM ''QTGUI_QPAINTER''] ''renderHints'' [] (RMeta ''QPainter::RenderHints'') [OnObject QGraphicsView],
     Bind [] ''resetCachedContent'' [] RVoid [OnObject QGraphicsView],
     Bind [] ''resetTransform'' [] RVoid [OnObject QGraphicsView],
     Bind [ValueM QTCORE_QSIZEF] ''resize'' [PConv QSizeF] RVoid [OnObject QGraphicsWidget],
     Bind [] ''resize'' [PReal ''qreal'', PReal ''qreal''] RVoid [OnObject QGraphicsWidget],
     Bind [TypeM QTWIDGETS_QGRAPHICSVIEW] ''resizeAnchor'' [] (RMeta ''QGraphicsView::ViewportAnchor'') [OnObject QGraphicsView],
     Bind [ValueM QTCORE_QBYTEARRAY] ''restoreState'' [PConv QByteArray] RBool [OnObject QFileDialog]]"

definition meth_qtwidgets_1_22 :: "binding list" where
  "meth_qtwidgets_1_22 = [
     Bind [] ''rotate'' [PReal ''qreal''] RVoid [OnObject QGraphicsView],
     Bind [] ''rowCount'' [] RNumber [OnObject QFormLayout, OnObject QGridLayout],
     Bind [] ''rowMinimumHeight'' [PInt] RNumber [OnObject QGridLayout],
     Bind [] ''rowStretch'' [PInt] RNumber [OnObject QGridLayout],
     Bind [TypeM ''QTWIDGETS_QFORMLAYOUT''] ''rowWrapPolicy'' [] (RMeta ''QFormLayout::RowWrapPolicy'') [OnObject QFormLayout],
     Bind [ValueM QTCORE_QRECT] ''rubberBandRect'' [] (RValue QRect) [OnObject QGraphicsView],
     Bind [EnumM ''QT_ITEMSELECTIONMODE''] ''rubberBandSelectionMode'' [] (RMeta ''Qt::ItemSelectionMode'') [OnObject QGraphicsView]]"

definition meth_qtwidgets_1_23 :: "binding list" where
  "meth_qtwidgets_1_23 = [
     Bind [] ''sampleTextForFont'' [PString True] RString [OnObject ''QFontComboBox''],
     Bind [TypeM ''QTGUI_QFONTDATABASE''] ''sampleTextForSystem'' [PConv QFontDatabase_WritingSystem] RString [OnObject ''QFontComboBox''],
     Bind [ValueM QTCORE_QBYTEARRAY] ''saveFileContent'' [PConv QByteArray, PString True] RVoid [Static QFileDialog],
     Bind [TypeM QTWIDGETS_QWIDGET, ValueM QTCORE_QBYTEARRAY] ''saveFileContent'' [PConv QByteArray, PString True, PNonNull QWidget_ptr] RVoid [Static QFileDialog],
     Bind [ValueM QTCORE_QBYTEARRAY] ''saveState'' [] (RValue QByteArray) [OnObject QFileDialog],
     Bind [] ''scale'' [PReal ''qreal'', PReal ''qreal''] RVoid [OnObject QGraphicsView],
     Bind [TypeM ''QTWIDGETS_QGRAPHICSSCENE''] ''scene'' [] RObject [OnObject QGraphicsView]]"

definition meth_qtwidgets_1_24 :: "binding list" where
  "meth_qtwidgets_1_24 = [
     Bind [ValueM QTCORE_QRECTF] ''sceneRect'' [] (RValue QRectF) [OnObject QGraphicsScene, OnObject QGraphicsView],
     Bind [] ''selectFile'' [PString True] RVoid [OnObject QFileDialog],
     Bind [] ''selectMimeTypeFilter'' [PString True] RVoid [OnObject QFileDialog],
     Bind [] ''selectNameFilter'' [PString True] RVoid [OnObject QFileDialog],
     Bind [ValueM QTCORE_QURL] ''selectUrl'' [PConv QUrl] RVoid [OnObject QFileDialog],
     Bind [] ''selectedFiles'' [] (RList (IMeta QString)) [OnObject QFileDialog],
     Bind [ValueM QTGUI_QFONT] ''selectedFont'' [] (RValue QFont) [OnObject ''QFontDialog'']]"

definition meth_qtwidgets_1_25 :: "binding list" where
  "meth_qtwidgets_1_25 = [
     Bind [] ''selectedMimeTypeFilter'' [] RString [OnObject QFileDialog],
     Bind [] ''selectedNameFilter'' [] RString [OnObject QFileDialog],
     Bind [ValueM QTCORE_QURL] ''selectedUrls'' [] (RList (IValue QUrl)) [OnObject QFileDialog],
     Bind [ValueM QTGUI_QPAINTERPATH] ''selectionArea'' [] (RValue QPainterPath) [OnObject QGraphicsScene],
     Bind [TypeM QTWIDGETS_QFILEDIALOG] ''setAcceptMode'' [PConv ''QFileDialog::AcceptMode''] RVoid [OnObject QFileDialog],
     Bind [TypeM ''QTWIDGETS_QGRAPHICSWIDGET''] ''setActiveWindow'' [PNonNull ''QGraphicsWidget*''] RVoid [OnObject QGraphicsScene],
     Bind [] ''setAngle'' [PReal ''qreal''] RVoid [OnObject ''QGraphicsRotation'']]"

definition meth_qtwidgets_1_26 :: "binding list" where
  "meth_qtwidgets_1_26 = [
     Bind [EnumM ''QT_WIDGETATTRIBUTE''] ''setAttribute'' [PConv ''Qt::WidgetAttribute'', PBool] RVoid [OnObject QGraphicsWidget],
     Bind [] ''setAutoFillBackground'' [PBool] RVoid [OnObject QGraphicsWidget],
     Bind [ValueM QTGUI_QVECTOR3D] ''setAxis'' [PConv QVector3D] RVoid [OnObject ''QGraphicsRotation''],
     Bind [EnumM ''QT_AXIS''] ''setAxis'' [PConv ''Qt::Axis''] RVoid [OnObject ''QGraphicsRotation''],
     Bind [ValueM QTGUI_QBRUSH] ''setBackgroundBrush'' [PConv QBrush] RVoid [OnObject QGraphicsScene, OnObject QGraphicsView],
     Bind [] ''setBlurRadius'' [PReal ''qreal''] RVoid [OnObject ''QGraphicsBlurEffect'', OnObject QGraphicsDropShadowEffect]]"

definition meth_qtwidgets_1_27 :: "binding list" where
  "meth_qtwidgets_1_27 = [
     Bind [] ''setBspTreeDepth'' [PInt] RVoid [OnObject QGraphicsScene],
     Bind [ValueM QTGUI_QCOLOR] ''setColor'' [PConv QColor] RVoid [OnObject ''QGraphicsColorizeEffect'', OnObject QGraphicsDropShadowEffect],
     Bind [] ''setColumnMinimumWidth'' [PInt, PInt] RVoid [OnObject QGridLayout],
     Bind [] ''setColumnStretch'' [PInt, PInt] RVoid [OnObject QGridLayout],
     Bind [ValueM QTCORE_QMARGINSF] ''setContentsMargins'' [PConv QMarginsF] RVoid [OnObject QGraphicsWidget],
     Bind [] ''setContentsMargins'' [PReal ''qreal'', PReal ''qreal'', PReal ''qreal'', PReal ''qreal''] RVoid [OnObject QGraphicsWidget]]"

definition meth_qtwidgets_1_28 :: "binding list" where
  "meth_qtwidgets_1_28 = [
     Bind [ValueM QTGUI_QFONT] ''setCurrentFont'' [PConv QFont] RVoid [OnObject ''QFontComboBox'', OnObject ''QFontDialog''],
     Bind [EnumM QT_ORIENTATION] ''setDefaultPositioning'' [PInt, PConv Qt_Orientation] RVoid [OnObject QGridLayout],
     Bind [] ''setDefaultSuffix'' [PString True] RVoid [OnObject QFileDialog],
     Bind [ValueM QTGUI_QCOLOR] ''setDefaultTextColor'' [PConv QColor] RVoid [OnObject QGraphicsTextItem],
     Bind [ValueM QTCORE_QDIR] ''setDirectory'' [PConv QDir] RVoid [OnObject QFileDialog],
     Bind [] ''setDirectory'' [PString True] RVoid [OnObject QFileDialog]]"

definition meth_qtwidgets_1_29 :: "binding list" where
  "meth_qtwidgets_1_29 = [
     Bind [ValueM QTCORE_QURL] ''setDirectoryUrl'' [PConv QUrl] RVoid [OnObject QFileDialog],
     Bind [ValueM QTGUI_QFONT] ''setDisplayFont'' [PString True, PConv QFont] RVoid [OnObject ''QFontComboBox''],
     Bind [TypeM QTGUI_QTEXTDOCUMENT] ''setDocument'' [PNonNull QTextDocument_ptr] RVoid [OnObject QGraphicsTextItem],
     Bind [TypeM QTWIDGETS_QGRAPHICSVIEW] ''setDragMode'' [PConv ''QGraphicsView::DragMode''] RVoid [OnObject QGraphicsView],
     Bind [] ''setEnabled'' [PBool] RVoid [OnObject ''QGraphicsEffect''],
     Bind [TypeM ''QTWIDGETS_QFORMLAYOUT''] ''setFieldGrowthPolicy'' [PConv ''QFormLayout::FieldGrowthPolicy''] RVoid [OnObject QFormLayout]]"

definition meth_qtwidgets_1_30 :: "binding list" where
  "meth_qtwidgets_1_30 = [
     Bind [TypeM QTWIDGETS_QFILEDIALOG] ''setFileMode'' [PConv ''QFileDialog::FileMode''] RVoid [OnObject QFileDialog],
     Bind [TypeM QTCORE_QDIR] ''setFilter'' [PConv ''QDir::Filters''] RVoid [OnObject QFileDialog],
     Bind [EnumM ''QT_FOCUSREASON''] ''setFocus'' [PConv ''Qt::FocusReason''] RVoid [OnObject QGraphicsScene],
     Bind [] ''setFocusOnTouch'' [PBool] RVoid [OnObject QGraphicsScene],
     Bind [EnumM ''QT_FOCUSPOLICY''] ''setFocusPolicy'' [PConv ''Qt::FocusPolicy''] RVoid [OnObject QGraphicsWidget],
     Bind [ValueM QTGUI_QFONT] ''setFont'' [PConv QFont] RVoid [OnObject QGraphicsScene, OnObject QGraphicsTextItem, OnObject QGraphicsWidget]]"

definition meth_qtwidgets_1_31 :: "binding list" where
  "meth_qtwidgets_1_31 = [
     Bind [ValueM QTGUI_QBRUSH] ''setForegroundBrush'' [PConv QBrush] RVoid [OnObject QGraphicsScene, OnObject QGraphicsView],
     Bind [ValueM QTCORE_QRECT] ''setFrameRect'' [PConv QRect] RVoid [OnObject ''QFrame''],
     Bind [TypeM ''QTWIDGETS_QFRAME''] ''setFrameShadow'' [PConv ''QFrame::Shadow''] RVoid [OnObject ''QFrame''],
     Bind [TypeM ''QTWIDGETS_QFRAME''] ''setFrameShape'' [PConv ''QFrame::Shape''] RVoid [OnObject ''QFrame''],
     Bind [] ''setFrameStyle'' [PInt] RVoid [OnObject ''QFrame''],
     Bind [ValueM QTCORE_QRECT] ''setGeometry'' [PConv QRect] RVoid [OnObject QFormLayout, OnObject QGridLayout]]"

definition meth_qtwidgets_1_32 :: "binding list" where
  "meth_qtwidgets_1_32 = [
     Bind [ValueM QTCORE_QRECTF] ''setGeometry'' [PConv QRectF] RVoid [OnObject ''QGraphicsProxyWidget'', OnObject QGraphicsWidget],
     Bind [] ''setGeometry'' [PReal ''qreal'', PReal ''qreal'', PReal ''qreal'', PReal ''qreal''] RVoid [OnObject QGraphicsWidget],
     Bind [TypeM QTWIDGETS_QGESTURE] ''setGestureCancelPolicy'' [PConv ''QGesture::GestureCancelPolicy''] RVoid [OnObject ''QGesture''],
     Bind [] ''setHistory'' [PStringList] RVoid [OnObject QFileDialog],
     Bind [] ''setHorizontalSpacing'' [PInt] RVoid [OnObject QFormLayout, OnObject QGridLayout],
     Bind [ValueM QTCORE_QPOINTF] ''setHotSpot'' [PConv QPointF] RVoid [OnObject ''QGesture'']]"

definition meth_qtwidgets_1_33 :: "binding list" where
  "meth_qtwidgets_1_33 = [
     Bind [] ''setHtml'' [PString True] RVoid [OnObject QGraphicsTextItem],
     Bind [] ''setInteractive'' [PBool] RVoid [OnObject QGraphicsView],
     Bind [TypeM QTWIDGETS_QABSTRACTITEMDELEGATE] ''setItemDelegate'' [PNonNull ''QAbstractItemDelegate*''] RVoid [OnObject QFileDialog],
     Bind [TypeM ''QTWIDGETS_QGRAPHICSSCENE''] ''setItemIndexMethod'' [PConv ''QGraphicsScene::ItemIndexMethod''] RVoid [OnObject QGraphicsScene],
     Bind [TypeM QTWIDGETS_QFILEDIALOG] ''setLabelText'' [PConv ''QFileDialog::DialogLabel'', PString True] RVoid [OnObject QFileDialog],
     Bind [TypeM ''QTWIDGETS_QFORMLAYOUT'', TypeM QTWIDGETS_QLAYOUT] ''setLayout'' [PInt, PConv ''QFormLayout::ItemRole'', PNonNull ''QLayout*''] RVoid [OnObject QFormLayout]]"

definition meth_qtwidgets_1_34 :: "binding list" where
  "meth_qtwidgets_1_34 = [
     Bind [EnumM QT_LAYOUTDIRECTION] ''setLayoutDirection'' [PConv Qt_LayoutDirection] RVoid [OnObject QGraphicsWidget],
     Bind [] ''setLineWidth'' [PInt] RVoid [OnObject ''QFrame''],
     Bind [] ''setMidLineWidth'' [PInt] RVoid [OnObject ''QFrame''],
     Bind [] ''setMimeTypeFilters'' [PStringList] RVoid [OnObject QFileDialog],
     Bind [] ''setMinimumRenderSize'' [PReal ''qreal''] RVoid [OnObject QGraphicsScene],
     Bind [] ''setNameFilter'' [PString True] RVoid [OnObject QFileDialog],
     Bind [] ''setNameFilters'' [PStringList] RVoid [OnObject QFileDialog]]"

definition meth_qtwidgets_1_35 :: "binding list" where
  "meth_qtwidgets_1_35 = [
     Bind [ValueM QTCORE_QPOINTF] ''setOffset'' [PConv QPointF] RVoid [OnObject QGraphicsDropShadowEffect],
     Bind [] ''setOffset'' [PReal ''qreal''] RVoid [OnObject QGraphicsDropShadowEffect],
     Bind [] ''setOffset'' [PReal ''qreal'', PReal ''qreal''] RVoid [OnObject QGraphicsDropShadowEffect],
     Bind [] ''setOpacity'' [PReal ''qreal''] RVoid [OnObject ''QGraphicsOpacityEffect''],
     Bind [ValueM QTGUI_QBRUSH] ''setOpacityMask'' [PConv QBrush] RVoid [OnObject ''QGraphicsOpacityEffect''],
     Bind [] ''setOpenExternalLinks'' [PBool] RVoid [OnObject QGraphicsTextItem],
     Bind [TypeM QTWIDGETS_QGRAPHICSVIEW] ''setOptimizationFlag'' [PConv ''QGraphicsView::OptimizationFlag'', PBool] RVoid [OnObject QGraphicsView]]"

definition meth_qtwidgets_1_36 :: "binding list" where
  "meth_qtwidgets_1_36 = [
     Bind [TypeM QTWIDGETS_QGRAPHICSVIEW] ''setOptimizationFlags'' [PConv ''QGraphicsView::OptimizationFlags''] RVoid [OnObject QGraphicsView],
     Bind [TypeM QTWIDGETS_QFILEDIALOG] ''setOption'' [PConv ''QFileDialog::Option'', PBool] RVoid [OnObject QFileDialog],
     Bind [TypeM ''QTWIDGETS_QFONTDIALOG''] ''setOption'' [PConv ''QFontDialog::FontDialogOption'', PBool] RVoid [OnObject ''QFontDialog''],
     Bind [TypeM QTWIDGETS_QFILEDIALOG] ''setOptions'' [PConv ''QFileDialog::Options''] RVoid [OnObject QFileDialog],
     Bind [TypeM ''QTWIDGETS_QFONTDIALOG''] ''setOptions'' [PConv ''QFontDialog::FontDialogOptions''] RVoid [OnObject ''QFontDialog''],
     Bind [ValueM QTGUI_QVECTOR3D] ''setOrigin'' [PConv QVector3D] RVoid [OnObject ''QGraphicsRotation'', OnObject ''QGraphicsScale'']]"

definition meth_qtwidgets_1_37 :: "binding list" where
  "meth_qtwidgets_1_37 = [
     Bind [EnumM ''QT_CORNER''] ''setOriginCorner'' [PConv ''Qt::Corner''] RVoid [OnObject QGridLayout],
     Bind [ValueM QTGUI_QPALETTE] ''setPalette'' [PConv QPalette] RVoid [OnObject QGraphicsScene, OnObject QGraphicsWidget],
     Bind [] ''setPlainText'' [PString True] RVoid [OnObject QGraphicsTextItem],
     Bind [TypeM ''QTCORE_QABSTRACTPROXYMODEL''] ''setProxyModel'' [PNonNull ''QAbstractProxyModel*''] RVoid [OnObject QFileDialog],
     Bind [TypeM ''QTGUI_QPAINTER''] ''setRenderHint'' [PConv ''QPainter::RenderHint'', PBool] RVoid [OnObject QGraphicsView],
     Bind [TypeM ''QTGUI_QPAINTER''] ''setRenderHints'' [PConv ''QPainter::RenderHints''] RVoid [OnObject QGraphicsView]]"

definition meth_qtwidgets_1_38 :: "binding list" where
  "meth_qtwidgets_1_38 = [
     Bind [TypeM QTWIDGETS_QGRAPHICSVIEW] ''setResizeAnchor'' [PConv ''QGraphicsView::ViewportAnchor''] RVoid [OnObject QGraphicsView],
     Bind [] ''setRowMinimumHeight'' [PInt, PInt] RVoid [OnObject QGridLayout],
     Bind [] ''setRowStretch'' [PInt, PInt] RVoid [OnObject QGridLayout],
     Bind [TypeM QTWIDGETS_QLAYOUT] ''setRowVisible'' [PNonNull ''QLayout*'', PBool] RVoid [OnObject QFormLayout],
     Bind [TypeM QTWIDGETS_QWIDGET] ''setRowVisible'' [PNonNull QWidget_ptr, PBool] RVoid [OnObject QFormLayout],
     Bind [] ''setRowVisible'' [PInt, PBool] RVoid [OnObject QFormLayout]]"

definition meth_qtwidgets_1_39 :: "binding list" where
  "meth_qtwidgets_1_39 = [
     Bind [TypeM ''QTWIDGETS_QFORMLAYOUT''] ''setRowWrapPolicy'' [PConv ''QFormLayout::RowWrapPolicy''] RVoid [OnObject QFormLayout],
     Bind [EnumM ''QT_ITEMSELECTIONMODE''] ''setRubberBandSelectionMode'' [PConv ''Qt::ItemSelectionMode''] RVoid [OnObject QGraphicsView],
     Bind [] ''setSampleTextForFont'' [PString True, PString True] RVoid [OnObject ''QFontComboBox''],
     Bind [TypeM ''QTGUI_QFONTDATABASE''] ''setSampleTextForSystem'' [PConv QFontDatabase_WritingSystem, PString True] RVoid [OnObject ''QFontComboBox''],
     Bind [TypeM ''QTWIDGETS_QGRAPHICSSCENE''] ''setScene'' [PNonNull ''QGraphicsScene*''] RVoid [OnObject QGraphicsView],
     Bind [ValueM QTCORE_QRECTF] ''setSceneRect'' [PConv QRectF] RVoid [OnObject QGraphicsScene, OnObject QGraphicsView]]"

definition meth_qtwidgets_1_40 :: "binding list" where
  "meth_qtwidgets_1_40 = [
     Bind [] ''setSceneRect'' [PReal ''qreal'', PReal ''qreal'', PReal ''qreal'', PReal ''qreal''] RVoid [OnObject QGraphicsScene, OnObject QGraphicsView],
     Bind [ValueM QTGUI_QPAINTERPATH, ValueM QTGUI_QTRANSFORM] ''setSelectionArea'' [PConv QPainterPath, PConv QTransform] RVoid [OnObject QGraphicsScene],
     Bind [EnumM ''QT_ITEMSELECTIONMODE'', EnumM ''QT_ITEMSELECTIONOPERATION'', ValueM QTGUI_QPAINTERPATH, ValueM QTGUI_QTRANSFORM] ''setSelectionArea'' [PConv QPainterPath, PConv ''Qt::ItemSelectionOperation'', PConv ''Qt::ItemSelectionMode'', PConv QTransform] RVoid [OnObject QGraphicsScene],
     Bind [] ''setShortcutAutoRepeat'' [PInt, PBool] RVoid [OnObject QGraphicsWidget],
     Bind [] ''setShortcutEnabled'' [PInt, PBool] RVoid [OnObject QGraphicsWidget]]"

definition meth_qtwidgets_1_41 :: "binding list" where
  "meth_qtwidgets_1_41 = [
     Bind [ValueM QTCORE_QURL] ''setSidebarUrls'' [PListV QUrl] RVoid [OnObject QFileDialog],
     Bind [TypeM QTWIDGETS_QSIZEPOLICY] ''setSizePolicy'' [PConv QSizePolicy_Policy] RVoid [OnObject ''QGraphicsAnchor''],
     Bind [] ''setSpacing'' [PInt] RVoid [OnObject QFormLayout, OnObject QGridLayout],
     Bind [] ''setSpacing'' [PReal ''qreal''] RVoid [OnObject ''QGraphicsAnchor''],
     Bind [] ''setStickyFocus'' [PBool] RVoid [OnObject QGraphicsScene],
     Bind [] ''setStrength'' [PReal ''qreal''] RVoid [OnObject ''QGraphicsColorizeEffect'']]"

definition meth_qtwidgets_1_42 :: "binding list" where
  "meth_qtwidgets_1_42 = [
     Bind [TypeM QTWIDGETS_QSTYLE] ''setStyle'' [PNonNull ''QStyle*''] RVoid [OnObject QGraphicsScene, OnObject QGraphicsWidget],
     Bind [] ''setSupportedSchemes'' [PStringList] RVoid [OnObject QFileDialog],
     Bind [] ''setTabChangesFocus'' [PBool] RVoid [OnObject QGraphicsTextItem],
     Bind [TypeM ''QTWIDGETS_QGRAPHICSWIDGET''] ''setTabOrder'' [PNonNull ''QGraphicsWidget*'', PNonNull ''QGraphicsWidget*''] RVoid [Static QGraphicsWidget],
     Bind [ValueM QTGUI_QTEXTCURSOR] ''setTextCursor'' [PConv QTextCursor] RVoid [OnObject QGraphicsTextItem],
     Bind [] ''setTextWidth'' [PReal ''qreal''] RVoid [OnObject QGraphicsTextItem]]"

definition meth_qtwidgets_1_43 :: "binding list" where
  "meth_qtwidgets_1_43 = [
     Bind [ValueM QTGUI_QTRANSFORM] ''setTransform'' [PConv QTransform, PBool] RVoid [OnObject QGraphicsView],
     Bind [TypeM QTWIDGETS_QGRAPHICSVIEW] ''setTransformationAnchor'' [PConv ''QGraphicsView::ViewportAnchor''] RVoid [OnObject QGraphicsView],
     Bind [] ''setVerticalSpacing'' [PInt] RVoid [OnObject QFormLayout, OnObject QGridLayout],
     Bind [TypeM QTWIDGETS_QFILEDIALOG] ''setViewMode'' [PConv ''QFileDialog::ViewMode''] RVoid [OnObject QFileDialog],
     Bind [TypeM QTWIDGETS_QGRAPHICSVIEW] ''setViewportUpdateMode'' [PConv ''QGraphicsView::ViewportUpdateMode''] RVoid [OnObject QGraphicsView],
     Bind [] ''setVisible'' [PBool] RVoid [OnObject QFileDialog, OnObject ''QFontDialog'']]"

definition meth_qtwidgets_1_44 :: "binding list" where
  "meth_qtwidgets_1_44 = [
     Bind [TypeM QTWIDGETS_QWIDGET] ''setWidget'' [PNonNull QWidget_ptr] RVoid [OnObject ''QFocusFrame''],
     Bind [TypeM ''QTWIDGETS_QFORMLAYOUT'', TypeM QTWIDGETS_QWIDGET] ''setWidget'' [PInt, PConv ''QFormLayout::ItemRole'', PNonNull QWidget_ptr] RVoid [OnObject QFormLayout],
     Bind [EnumM QT_WINDOWFLAGS] ''setWindowFlags'' [PConv Qt_WindowFlags] RVoid [OnObject QGraphicsWidget],
     Bind [ValueM QTCORE_QMARGINSF] ''setWindowFrameMargins'' [PConv QMarginsF] RVoid [OnObject QGraphicsWidget],
     Bind [] ''setWindowFrameMargins'' [PReal ''qreal'', PReal ''qreal'', PReal ''qreal'', PReal ''qreal''] RVoid [OnObject QGraphicsWidget],
     Bind [] ''setWindowTitle'' [PString True] RVoid [OnObject QGraphicsWidget]]"

definition meth_qtwidgets_1_45 :: "binding list" where
  "meth_qtwidgets_1_45 = [
     Bind [TypeM ''QTGUI_QFONTDATABASE''] ''setWritingSystem'' [PConv QFontDatabase_WritingSystem] RVoid [OnObject ''QFontComboBox''],
     Bind [] ''setXOffset'' [PReal ''qreal''] RVoid [OnObject QGraphicsDropShadowEffect],
     Bind [] ''setXScale'' [PReal ''qreal''] RVoid [OnObject ''QGraphicsScale''],
     Bind [] ''setYOffset'' [PReal ''qreal''] RVoid [OnObject QGraphicsDropShadowEffect],
     Bind [] ''setYScale'' [PReal ''qreal''] RVoid [OnObject ''QGraphicsScale''],
     Bind [] ''setZScale'' [PReal ''qreal''] RVoid [OnObject ''QGraphicsScale''],
     Bind [ValueM QTGUI_QPAINTERPATH] ''shape'' [] (RValue QPainterPath) [OnObject QGraphicsTextItem, OnObject QGraphicsWidget]]"

definition meth_qtwidgets_1_46 :: "binding list" where
  "meth_qtwidgets_1_46 = [
     Bind [] ''shear'' [PReal ''qreal'', PReal ''qreal''] RVoid [OnObject QGraphicsView],
     Bind [] ''showMessage'' [PString True] RVoid [OnObject ''QErrorMessage''],
     Bind [] ''showMessage'' [PString True, PString True] RVoid [OnObject ''QErrorMessage''],
     Bind [ValueM QTCORE_QURL] ''sidebarUrls'' [] (RList (IValue QUrl)) [OnObject QFileDialog],
     Bind [ValueM QTCORE_QSIZEF] ''size'' [] (RValue QSizeF) [OnObject QGraphicsWidget]]"

definition meth_qtwidgets_1_47 :: "binding list" where
  "meth_qtwidgets_1_47 = [
     Bind [ValueM QTCORE_QSIZE] ''sizeHint'' [] (RValue QSize) [OnObject ''QFontComboBox'', OnObject QFormLayout, OnObject ''QFrame'', OnObject QGraphicsView, OnObject QGridLayout],
     Bind [TypeM QTWIDGETS_QSIZEPOLICY] ''sizePolicy'' [] (RMeta QSizePolicy_Policy) [OnObject ''QGraphicsAnchor''],
     Bind [] ''spacing'' [] RNumber [OnObject QFormLayout, OnObject QGridLayout],
     Bind [] ''spacing'' [] RNumber [OnObject ''QGraphicsAnchor''],
     Bind [EnumM ''QT_GESTURESTATE''] ''state'' [] (RMeta ''Qt::GestureState'') [OnObject ''QGesture''],
     Bind [] ''stickyFocus'' [] RBool [OnObject QGraphicsScene]]"

definition meth_qtwidgets_1_48 :: "binding list" where
  "meth_qtwidgets_1_48 = [
     Bind [] ''strength'' [] RNumber [OnObject ''QGraphicsColorizeEffect''],
     Bind [TypeM QTWIDGETS_QSTYLE] ''style'' [] RObject [OnObject QGraphicsScene, OnObject QGraphicsWidget],
     Bind [TypeM QTWIDGETS_QWIDGET, ValueM QTCORE_QRECTF] ''subWidgetRect'' [PNonNull QWidget_ptr] (RValue QRectF) [OnObject ''QGraphicsProxyWidget''],
     Bind [] ''supportedSchemes'' [] (RList (IMeta QString)) [OnObject QFileDialog],
     Bind [] ''tabChangesFocus'' [] RBool [OnObject QGraphicsTextItem],
     Bind [TypeM ''QTWIDGETS_QFORMLAYOUT'', TypeM QTWIDGETS_QLAYOUT] ''takeRow'' [PNonNull ''QLayout*''] (RMeta ''QFormLayout::TakeRowResult'') [OnObject QFormLayout],
     Bind [TypeM ''QTWIDGETS_QFORMLAYOUT'', TypeM QTWIDGETS_QWIDGET] ''takeRow'' [PNonNull QWidget_ptr] (RMeta ''QFormLayout::TakeRowResult'') [OnObject QFormLayout]]"

definition meth_qtwidgets_1_49 :: "binding list" where
  "meth_qtwidgets_1_49 = [
     Bind [TypeM ''QTWIDGETS_QFORMLAYOUT''] ''takeRow'' [PInt] (RMeta ''QFormLayout::TakeRowResult'') [OnObject QFormLayout],
     Bind [EnumM ''QT_WIDGETATTRIBUTE''] ''testAttribute'' [PConv ''Qt::WidgetAttribute''] RBool [OnObject QGraphicsWidget],
     Bind [TypeM QTWIDGETS_QFILEDIALOG] ''testOption'' [PConv ''QFileDialog::Option''] RBool [OnObject QFileDialog],
     Bind [TypeM ''QTWIDGETS_QFONTDIALOG''] ''testOption'' [PConv ''QFontDialog::FontDialogOption''] RBool [OnObject ''QFontDialog''],
     Bind [ValueM QTGUI_QTEXTCURSOR] ''textCursor'' [] (RValue QTextCursor) [OnObject QGraphicsTextItem],
     Bind [] ''textWidth'' [] RNumber [OnObject QGraphicsTextItem],
     Bind [] ''toHtml'' [] RString [OnObject QGraphicsTextItem]]"

definition meth_qtwidgets_1_50 :: "binding list" where
  "meth_qtwidgets_1_50 = [
     Bind [] ''toPlainText'' [] RString [OnObject QGraphicsTextItem],
     Bind [ValueM QTGUI_QTRANSFORM] ''transform'' [] (RValue QTransform) [OnObject QGraphicsView],
     Bind [TypeM QTWIDGETS_QGRAPHICSVIEW] ''transformationAnchor'' [] (RMeta ''QGraphicsView::ViewportAnchor'') [OnObject QGraphicsView],
     Bind [] ''translate'' [PReal ''qreal'', PReal ''qreal''] RVoid [OnObject QGraphicsView],
     Bind [] ''type'' [] RNumber [OnObject ''QGraphicsProxyWidget'', OnObject QGraphicsTextItem, OnObject QGraphicsWidget],
     Bind [EnumM ''QT_GESTURETYPE''] ''ungrabGesture'' [PConv ''Qt::GestureType''] RVoid [OnObject ''QGraphicsObject''],
     Bind [EnumM ''QT_GESTURETYPE''] ''unregisterRecognizer'' [PConv ''Qt::GestureType''] RVoid [Static ''QGestureRecognizer'']]"

definition meth_qtwidgets_1_51 :: "binding list" where
  "meth_qtwidgets_1_51 = [
     Bind [] ''unsetHotSpot'' [] RVoid [OnObject ''QGesture''],
     Bind [] ''unsetLayoutDirection'' [] RVoid [OnObject QGraphicsWidget],
     Bind [] ''unsetSpacing'' [] RVoid [OnObject ''QGraphicsAnchor''],
     Bind [] ''unsetWindowFrameMargins'' [] RVoid [OnObject QGraphicsWidget],
     Bind [] ''update'' [] RVoid [OnObject ''QGraphicsEffect''],
     Bind [ValueM QTCORE_QRECTF] ''update'' [PConv QRectF] RVoid [OnObject QGraphicsScene],
     Bind [] ''update'' [PReal ''qreal'', PReal ''qreal'', PReal ''qreal'', PReal ''qreal''] RVoid [OnObject QGraphicsScene]]"

definition meth_qtwidgets_1_52 :: "binding list" where
  "meth_qtwidgets_1_52 = [
     Bind [ValueM QTCORE_QRECTF] ''updateScene'' [PListV QRectF] RVoid [OnObject QGraphicsView],
     Bind [ValueM QTCORE_QRECTF] ''updateSceneRect'' [PConv QRectF] RVoid [OnObject QGraphicsView],
     Bind [] ''verticalSpacing'' [] RNumber [OnObject QFormLayout, OnObject QGridLayout],
     Bind [TypeM QTWIDGETS_QFILEDIALOG] ''viewMode'' [] (RMeta ''QFileDialog::ViewMode'') [OnObject QFileDialog],
     Bind [ValueM QTGUI_QTRANSFORM] ''viewportTransform'' [] (RValue QTransform) [OnObject QGraphicsView],
     Bind [TypeM QTWIDGETS_QGRAPHICSVIEW] ''viewportUpdateMode'' [] (RMeta ''QGraphicsView::ViewportUpdateMode'') [OnObject QGraphicsView],
     Bind [TypeM QTWIDGETS_QGRAPHICSVIEW] ''views'' [] (RList IObject) [OnObject QGraphicsScene]]"

definition meth_qtwidgets_1_53 :: "binding list" where
  "meth_qtwidgets_1_53 = [
     Bind [TypeM QTWIDGETS_QWIDGET] ''widget'' [] RObject [OnObject ''QFocusFrame'', OnObject ''QGraphicsProxyWidget''],
     Bind [] ''width'' [] RNumber [OnObject QGraphicsScene],
     Bind [EnumM QT_WINDOWFLAGS] ''windowFlags'' [] (RMeta Qt_WindowFlags) [OnObject QGraphicsWidget],
     Bind [ValueM QTCORE_QRECTF] ''windowFrameGeometry'' [] (RValue QRectF) [OnObject QGraphicsWidget],
     Bind [ValueM QTCORE_QRECTF] ''windowFrameRect'' [] (RValue QRectF) [OnObject QGraphicsWidget],
     Bind [] ''windowTitle'' [] RString [OnObject QGraphicsWidget],
     Bind [EnumM ''QT_WINDOWTYPE''] ''windowType'' [] (RMeta ''Qt::WindowType'') [OnObject QGraphicsWidget],
     Bind [TypeM ''QTGUI_QFONTDATABASE''] ''writingSystem'' [] (RMeta QFontDatabase_WritingSystem) [OnObject ''QFontComboBox'']]"

definition meth_qtwidgets_1_54 :: "binding list" where
  "meth_qtwidgets_1_54 = [
     Bind [] ''xOffset'' [] RNumber [OnObject QGraphicsDropShadowEffect],
     Bind [] ''xScale'' [] RNumber [OnObject ''QGraphicsScale''],
     Bind [] ''yOffset'' [] RNumber [OnObject QGraphicsDropShadowEffect],
     Bind [] ''yScale'' [] RNumber [OnObject ''QGraphicsScale''],
     Bind [] ''zScale'' [] RNumber [OnObject ''QGraphicsScale'']]"

definition meth_table_widgets_b :: "(string \<times> shard) list" where
  "meth_table_widgets_b = [
     (''qtwidgets_1'', \<lparr>sh_module = ''QtWidgets'', sh_slug = ''QTWIDGETS'',
        sh_bindings = concat [meth_qtwidgets_1_0, meth_qtwidgets_1_1, meth_qtwidgets_1_2, meth_qtwidgets_1_3, meth_qtwidgets_1_4, meth_qtwidgets_1_5, meth_qtwidgets_1_6, meth_qtwidgets_1_7, meth_qtwidgets_1_8, meth_qtwidgets_1_9, meth_qtwidgets_1_10, meth_qtwidgets_1_11, meth_qtwidgets_1_12, meth_qtwidgets_1_13, meth_qtwidgets_1_14, meth_qtwidgets_1_15, meth_qtwidgets_1_16, meth_qtwidgets_1_17, meth_qtwidgets_1_18, meth_qtwidgets_1_19, meth_qtwidgets_1_20, meth_qtwidgets_1_21, meth_qtwidgets_1_22, meth_qtwidgets_1_23, meth_qtwidgets_1_24, meth_qtwidgets_1_25, meth_qtwidgets_1_26, meth_qtwidgets_1_27, meth_qtwidgets_1_28, meth_qtwidgets_1_29, meth_qtwidgets_1_30, meth_qtwidgets_1_31, meth_qtwidgets_1_32, meth_qtwidgets_1_33, meth_qtwidgets_1_34, meth_qtwidgets_1_35, meth_qtwidgets_1_36, meth_qtwidgets_1_37, meth_qtwidgets_1_38, meth_qtwidgets_1_39, meth_qtwidgets_1_40, meth_qtwidgets_1_41, meth_qtwidgets_1_42, meth_qtwidgets_1_43, meth_qtwidgets_1_44, meth_qtwidgets_1_45, meth_qtwidgets_1_46, meth_qtwidgets_1_47, meth_qtwidgets_1_48, meth_qtwidgets_1_49, meth_qtwidgets_1_50, meth_qtwidgets_1_51, meth_qtwidgets_1_52, meth_qtwidgets_1_53, meth_qtwidgets_1_54]\<rparr>)]"

lemmas meth_table_widgets_b_defs =
  meth_qtwidgets_1_0_def meth_qtwidgets_1_1_def meth_qtwidgets_1_2_def meth_qtwidgets_1_3_def
  meth_qtwidgets_1_4_def meth_qtwidgets_1_5_def meth_qtwidgets_1_6_def meth_qtwidgets_1_7_def
  meth_qtwidgets_1_8_def meth_qtwidgets_1_9_def meth_qtwidgets_1_10_def meth_qtwidgets_1_11_def
  meth_qtwidgets_1_12_def meth_qtwidgets_1_13_def meth_qtwidgets_1_14_def meth_qtwidgets_1_15_def
  meth_qtwidgets_1_16_def meth_qtwidgets_1_17_def meth_qtwidgets_1_18_def meth_qtwidgets_1_19_def
  meth_qtwidgets_1_20_def meth_qtwidgets_1_21_def meth_qtwidgets_1_22_def meth_qtwidgets_1_23_def
  meth_qtwidgets_1_24_def meth_qtwidgets_1_25_def meth_qtwidgets_1_26_def meth_qtwidgets_1_27_def
  meth_qtwidgets_1_28_def meth_qtwidgets_1_29_def meth_qtwidgets_1_30_def meth_qtwidgets_1_31_def
  meth_qtwidgets_1_32_def meth_qtwidgets_1_33_def meth_qtwidgets_1_34_def meth_qtwidgets_1_35_def
  meth_qtwidgets_1_36_def meth_qtwidgets_1_37_def meth_qtwidgets_1_38_def meth_qtwidgets_1_39_def
  meth_qtwidgets_1_40_def meth_qtwidgets_1_41_def meth_qtwidgets_1_42_def meth_qtwidgets_1_43_def
  meth_qtwidgets_1_44_def meth_qtwidgets_1_45_def meth_qtwidgets_1_46_def meth_qtwidgets_1_47_def
  meth_qtwidgets_1_48_def meth_qtwidgets_1_49_def meth_qtwidgets_1_50_def meth_qtwidgets_1_51_def
  meth_qtwidgets_1_52_def meth_qtwidgets_1_53_def meth_qtwidgets_1_54_def

lemma meth_table_widgets_b_object_blocks: "list_all (\<lambda>(s, sh). object_blocks sh) meth_table_widgets_b"
  by (simp add: meth_table_widgets_b_def meth_table_widgets_b_defs object_blocks_def object_shard_def; (simp add: parameter_text_def qt_name_defs)?)

end
