(* ===== verification/Methods_Widgets_C.thy ===== *)
theory Methods_Widgets_C
  imports Shard_Methods Qt_Names
begin

text \<open>
  Tables of the method shards (generated\_methods): the blocks of every shard in the file's order.
\<close>

definition meth_qtwidgets_2_0 :: "binding list" where
  "meth_qtwidgets_2_0 = [
     Bind [TypeM QTWIDGETS_QWIDGET] ''about'' [PNonNull QWidget_ptr, PString True, PString True] RVoid [Static QMessageBox],
     Bind [TypeM QTWIDGETS_QWIDGET] ''aboutQt'' [PNonNull QWidget_ptr, PString True] RVoid [Static QMessageBox],
     Bind [] ''acceleration'' [] RNumber [OnObject ''QPanGesture''],
     Bind [] ''activate'' [] RBool [OnObject QLayout],
     Bind [] ''activateNextSubWindow'' [] RVoid [OnObject QMdiArea],
     Bind [] ''activatePreviousSubWindow'' [] RVoid [OnObject QMdiArea],
     Bind [TypeM ''QTWIDGETS_QMDIAREA''] ''activationOrder'' [] (RMeta ''QMdiArea::WindowOrder'') [OnObject QMdiArea]]"

definition meth_qtwidgets_2_1 :: "binding list" where
  "meth_qtwidgets_2_1 = [
     Bind [TypeM ''QTWIDGETS_QMDISUBWINDOW''] ''activeSubWindow'' [] RObject [OnObject QMdiArea],
     Bind [TypeM QTWIDGETS_QABSTRACTBUTTON, TypeM QTWIDGETS_QMESSAGEBOX] ''addButton'' [PNonNull ''QAbstractButton*'', PConv ''QMessageBox::ButtonRole''] RVoid [OnObject QMessageBox],
     Bind [TypeM QTWIDGETS_QMESSAGEBOX, TypeM ''QTWIDGETS_QPUSHBUTTON''] ''addButton'' [PConv QMessageBox_StandardButton] RObject [OnObject QMessageBox],
     Bind [TypeM QTWIDGETS_QMESSAGEBOX, TypeM ''QTWIDGETS_QPUSHBUTTON''] ''addButton'' [PString True, PConv ''QMessageBox::ButtonRole''] RObject [OnObject QMessageBox],
     Bind [EnumM ''QT_DOCKWIDGETAREA'', TypeM ''QTWIDGETS_QDOCKWIDGET''] ''addDockWidget'' [PConv ''Qt::DockWidgetArea'', PNonNull ''QDockWidget*''] RVoid [OnObject QMainWindow],
     Bind [EnumM ''QT_DOCKWIDGETAREA'', EnumM QT_ORIENTATION, TypeM ''QTWIDGETS_QDOCKWIDGET''] ''addDockWidget'' [PConv ''Qt::DockWidgetArea'', PNonNull ''QDockWidget*'', PConv Qt_Orientation] RVoid [OnObject QMainWindow]]"

definition meth_qtwidgets_2_2 :: "binding list" where
  "meth_qtwidgets_2_2 = [
     Bind [] ''addItem'' [PString True] RVoid [OnObject ''QListWidget''],
     Bind [] ''addItems'' [PStringList] RVoid [OnObject ''QListWidget''],
     Bind [TypeM ''QTWIDGETS_QMENU'', ValueM QTGUI_QICON] ''addMenu'' [PConv QIcon, PString True] RObject [OnObject ''QMenu'', OnObject ''QMenuBar''],
     Bind [TypeM ''QTWIDGETS_QMENU''] ''addMenu'' [PString True] RObject [OnObject ''QMenu'', OnObject ''QMenuBar''],
     Bind [EnumM QT_WINDOWFLAGS, TypeM ''QTWIDGETS_QMDISUBWINDOW'', TypeM QTWIDGETS_QWIDGET] ''addSubWindow'' [PNonNull QWidget_ptr, PConv Qt_WindowFlags] RObject [OnObject QMdiArea],
     Bind [TypeM ''QTWIDGETS_QTOOLBAR''] ''addToolBar'' [PString True] RObject [OnObject QMainWindow]]"

definition meth_qtwidgets_2_3 :: "binding list" where
  "meth_qtwidgets_2_3 = [
     Bind [TypeM ''QTWIDGETS_QTOOLBAR''] ''addToolBar'' [PNonNull ''QToolBar*''] RVoid [OnObject QMainWindow],
     Bind [EnumM ''QT_TOOLBARAREA'', TypeM ''QTWIDGETS_QTOOLBAR''] ''addToolBar'' [PConv ''Qt::ToolBarArea'', PNonNull ''QToolBar*''] RVoid [OnObject QMainWindow],
     Bind [EnumM ''QT_TOOLBARAREA''] ''addToolBarBreak'' [PConv ''Qt::ToolBarArea''] RVoid [OnObject QMainWindow],
     Bind [ValueM QTCORE_QPOINT] ''anchorAt'' [PConv QPoint] RString [OnObject QPlainTextEdit],
     Bind [] ''appendHtml'' [PString True] RVoid [OnObject QPlainTextEdit],
     Bind [] ''appendPlainText'' [PString True] RVoid [OnObject QPlainTextEdit],
     Bind [] ''autoClose'' [] RBool [OnObject QProgressDialog]]"

definition meth_qtwidgets_2_4 :: "binding list" where
  "meth_qtwidgets_2_4 = [
     Bind [] ''autoReset'' [] RBool [OnObject QProgressDialog],
     Bind [ValueM QTGUI_QBRUSH] ''background'' [] (RValue QBrush) [OnObject QMdiArea],
     Bind [] ''backgroundVisible'' [] RBool [OnObject QPlainTextEdit],
     Bind [] ''backspace'' [] RVoid [OnObject QLineEdit],
     Bind [TypeM QTWIDGETS_QSTYLE] ''baseStyle'' [] RObject [OnObject ''QProxyStyle''],
     Bind [] ''batchSize'' [] RNumber [OnObject QListView],
     Bind [ValueM QTCORE_QRECTF, ValueM QTGUI_QTEXTBLOCK] ''blockBoundingRect'' [PConv QTextBlock] (RValue QRectF) [OnObject QPlainTextDocumentLayout],
     Bind [] ''blockCount'' [] RNumber [OnObject QPlainTextEdit]]"

definition meth_qtwidgets_2_5 :: "binding list" where
  "meth_qtwidgets_2_5 = [
     Bind [TypeM QTWIDGETS_QWIDGET] ''buddy'' [] RObject [OnObject ''QLabel''],
     Bind [TypeM QTWIDGETS_QABSTRACTBUTTON, TypeM QTWIDGETS_QMESSAGEBOX] ''button'' [PConv QMessageBox_StandardButton] RObject [OnObject QMessageBox],
     Bind [TypeM QTWIDGETS_QABSTRACTBUTTON, TypeM QTWIDGETS_QMESSAGEBOX] ''buttonRole'' [PNonNull ''QAbstractButton*''] (RMeta ''QMessageBox::ButtonRole'') [OnObject QMessageBox],
     Bind [TypeM QTWIDGETS_QABSTRACTBUTTON] ''buttons'' [] (RList IObject) [OnObject QMessageBox],
     Bind [] ''canPaste'' [] RBool [OnObject QPlainTextEdit],
     Bind [] ''cancel'' [] RVoid [OnObject QProgressDialog],
     Bind [] ''cancelButtonText'' [] RString [OnObject QInputDialog],
     Bind [] ''cascadeSubWindows'' [] RVoid [OnObject QMdiArea]]"

definition meth_qtwidgets_2_6 :: "binding list" where
  "meth_qtwidgets_2_6 = [
     Bind [] ''cascadingSectionResizes'' [] RBool [OnObject QHeaderView],
     Bind [] ''centerCursor'' [] RVoid [OnObject QPlainTextEdit],
     Bind [] ''centerOnScroll'' [] RBool [OnObject QPlainTextEdit],
     Bind [ValueM QTCORE_QPOINTF] ''centerPoint'' [] (RValue QPointF) [OnObject QPinchGesture],
     Bind [TypeM QTWIDGETS_QWIDGET] ''centralWidget'' [] RObject [OnObject QMainWindow],
     Bind [TypeM ''QTWIDGETS_QCHECKBOX''] ''checkBox'' [] RObject [OnObject QMessageBox],
     Bind [] ''checkOverflow'' [PReal ''double''] RBool [OnObject QLCDNumber],
     Bind [] ''checkOverflow'' [PInt] RBool [OnObject QLCDNumber]]"

definition meth_qtwidgets_2_7 :: "binding list" where
  "meth_qtwidgets_2_7 = [
     Bind [] ''clear'' [] RVoid [OnObject ''QKeySequenceEdit'', OnObject ''QLabel'', OnObject QLineEdit, OnObject ''QListWidget'', OnObject ''QMenu'', OnObject ''QMenuBar'', OnObject QPlainTextEdit],
     Bind [] ''clearPropertyFlags'' [] RVoid [OnObject QListView],
     Bind [TypeM QTWIDGETS_QABSTRACTBUTTON] ''clickedButton'' [] RObject [OnObject QMessageBox],
     Bind [] ''closeActiveSubWindow'' [] RVoid [OnObject QMdiArea],
     Bind [] ''closeAllSubWindows'' [] RVoid [OnObject QMdiArea]]"

definition meth_qtwidgets_2_8 :: "binding list" where
  "meth_qtwidgets_2_8 = [
     Bind [TypeM QTWIDGETS_QWIDGET, ValueM QTCORE_QSIZE] ''closestAcceptableSize'' [PNonNull QWidget_ptr, PConv QSize] (RValue QSize) [Static QLayout],
     Bind [] ''comboBoxItems'' [] (RList (IMeta QString)) [OnObject QInputDialog],
     Bind [TypeM ''QTWIDGETS_QCOMPLETER''] ''completer'' [] RObject [OnObject QLineEdit],
     Bind [ValueM QTCORE_QMARGINS] ''contentsMargins'' [] (RValue QMargins) [OnObject QLayout],
     Bind [ValueM QTCORE_QRECT] ''contentsRect'' [] (RValue QRect) [OnObject QLayout],
     Bind [TypeM QTWIDGETS_QSIZEPOLICY] ''controlTypes'' [] (RMeta ''QSizePolicy::ControlTypes'') [OnObject QLayout],
     Bind [] ''copy'' [] RVoid [OnObject QLineEdit, OnObject QPlainTextEdit]]"

definition meth_qtwidgets_2_9 :: "binding list" where
  "meth_qtwidgets_2_9 = [
     Bind [EnumM ''QT_CORNER'', EnumM ''QT_DOCKWIDGETAREA''] ''corner'' [PConv ''Qt::Corner''] (RMeta ''Qt::DockWidgetArea'') [OnObject QMainWindow],
     Bind [EnumM ''QT_CORNER'', TypeM QTWIDGETS_QWIDGET] ''cornerWidget'' [PConv ''Qt::Corner''] RObject [OnObject ''QMenuBar''],
     Bind [] ''count'' [] RNumber [OnObject QHeaderView, OnObject ''QListWidget''],
     Bind [TypeM QTWIDGETS_QWIDGET, ValueM QTCORE_QMODELINDEX, ValueM QTWIDGETS_QSTYLEOPTIONVIEWITEM] ''createEditor'' [PNonNull QWidget_ptr, PConv QStyleOptionViewItem, PConv QModelIndex] RObject [OnObject ''QItemDelegate''],
     Bind [TypeM ''QTWIDGETS_QMENU''] ''createPopupMenu'' [] RObject [OnObject QMainWindow],
     Bind [TypeM ''QTWIDGETS_QMENU''] ''createStandardContextMenu'' [] RObject [OnObject QLineEdit, OnObject QPlainTextEdit]]"

definition meth_qtwidgets_2_10 :: "binding list" where
  "meth_qtwidgets_2_10 = [
     Bind [TypeM ''QTWIDGETS_QMENU'', ValueM QTCORE_QPOINT] ''createStandardContextMenu'' [PConv QPoint] RObject [OnObject QPlainTextEdit],
     Bind [TypeM QTWIDGETS_QMESSAGEBOX, TypeM QTWIDGETS_QWIDGET] ''critical'' [PNonNull QWidget_ptr, PString True, PString True, PConv ''QMessageBox::StandardButtons'', PConv QMessageBox_StandardButton] (RMeta QMessageBox_StandardButton) [Static QMessageBox],
     Bind [ValueM QTGUI_QTEXTCHARFORMAT] ''currentCharFormat'' [] (RValue QTextCharFormat) [OnObject QPlainTextEdit],
     Bind [] ''currentRow'' [] RNumber [OnObject ''QListWidget''],
     Bind [TypeM ''QTWIDGETS_QMDISUBWINDOW''] ''currentSubWindow'' [] RObject [OnObject QMdiArea],
     Bind [] ''cursorBackward'' [PBool, PInt] RVoid [OnObject QLineEdit]]"

definition meth_qtwidgets_2_11 :: "binding list" where
  "meth_qtwidgets_2_11 = [
     Bind [ValueM QTCORE_QPOINT, ValueM QTGUI_QTEXTCURSOR] ''cursorForPosition'' [PConv QPoint] (RValue QTextCursor) [OnObject QPlainTextEdit],
     Bind [] ''cursorForward'' [PBool, PInt] RVoid [OnObject QLineEdit],
     Bind [EnumM ''QT_CURSORMOVESTYLE''] ''cursorMoveStyle'' [] (RMeta ''Qt::CursorMoveStyle'') [OnObject QLineEdit],
     Bind [] ''cursorPosition'' [] RNumber [OnObject QLineEdit],
     Bind [ValueM QTCORE_QPOINT] ''cursorPositionAt'' [PConv QPoint] RNumber [OnObject QLineEdit],
     Bind [ValueM QTCORE_QRECT] ''cursorRect'' [] (RValue QRect) [OnObject QPlainTextEdit],
     Bind [ValueM QTCORE_QRECT, ValueM QTGUI_QTEXTCURSOR] ''cursorRect'' [PConv QTextCursor] (RValue QRect) [OnObject QPlainTextEdit]]"

definition meth_qtwidgets_2_12 :: "binding list" where
  "meth_qtwidgets_2_12 = [
     Bind [] ''cursorWidth'' [] RNumber [OnObject QPlainTextDocumentLayout, OnObject QPlainTextEdit],
     Bind [] ''cursorWordBackward'' [PBool] RVoid [OnObject QLineEdit],
     Bind [] ''cursorWordForward'' [PBool] RVoid [OnObject QLineEdit],
     Bind [] ''cut'' [] RVoid [OnObject QLineEdit, OnObject QPlainTextEdit],
     Bind [TypeM ''QTWIDGETS_QPUSHBUTTON''] ''defaultButton'' [] RObject [OnObject QMessageBox],
     Bind [] ''defaultSectionSize'' [] RNumber [OnObject QHeaderView],
     Bind [ValueM QTCORE_QPOINTF] ''delta'' [] (RValue QPointF) [OnObject ''QPanGesture'']]"

definition meth_qtwidgets_2_13 :: "binding list" where
  "meth_qtwidgets_2_13 = [
     Bind [] ''deselect'' [] RVoid [OnObject QLineEdit],
     Bind [] ''detailedText'' [] RString [OnObject QMessageBox],
     Bind [] ''digitCount'' [] RNumber [OnObject QLCDNumber],
     Bind [] ''display'' [PString True] RVoid [OnObject QLCDNumber],
     Bind [] ''display'' [PReal ''double''] RVoid [OnObject QLCDNumber],
     Bind [] ''display'' [PInt] RVoid [OnObject QLCDNumber],
     Bind [] ''displayText'' [] RString [OnObject QLineEdit],
     Bind [EnumM ''QT_DOCKWIDGETAREA'', TypeM ''QTWIDGETS_QDOCKWIDGET''] ''dockWidgetArea'' [PNonNull ''QDockWidget*''] (RMeta ''Qt::DockWidgetArea'') [OnObject QMainWindow]]"

definition meth_qtwidgets_2_14 :: "binding list" where
  "meth_qtwidgets_2_14 = [
     Bind [TypeM QTGUI_QTEXTDOCUMENT] ''document'' [] RObject [OnObject QPlainTextEdit],
     Bind [] ''documentMode'' [] RBool [OnObject QMainWindow, OnObject QMdiArea],
     Bind [ValueM QTCORE_QSIZEF] ''documentSize'' [] (RValue QSizeF) [OnObject QPlainTextDocumentLayout],
     Bind [] ''documentTitle'' [] RString [OnObject QPlainTextEdit],
     Bind [] ''done'' [PInt] RVoid [OnObject QInputDialog],
     Bind [] ''doubleDecimals'' [] RNumber [OnObject QInputDialog],
     Bind [] ''doubleMaximum'' [] RNumber [OnObject QInputDialog],
     Bind [] ''doubleMinimum'' [] RNumber [OnObject QInputDialog]]"

definition meth_qtwidgets_2_15 :: "binding list" where
  "meth_qtwidgets_2_15 = [
     Bind [] ''doubleStep'' [] RNumber [OnObject QInputDialog],
     Bind [] ''doubleValue'' [] RNumber [OnObject QInputDialog],
     Bind [] ''dragEnabled'' [] RBool [OnObject QLineEdit],
     Bind [TypeM ''QTWIDGETS_QLINEEDIT''] ''echoMode'' [] (RMeta ''QLineEdit::EchoMode'') [OnObject QLineEdit],
     Bind [] ''end'' [PBool] RVoid [OnObject QLineEdit],
     Bind [ValueM QTGUI_QTEXTBLOCK] ''ensureBlockLayout'' [PConv QTextBlock] RVoid [OnObject QPlainTextDocumentLayout],
     Bind [] ''ensureCursorVisible'' [] RVoid [OnObject QPlainTextEdit],
     Bind [TypeM QTWIDGETS_QABSTRACTBUTTON] ''escapeButton'' [] RObject [OnObject QMessageBox]]"

definition meth_qtwidgets_2_16 :: "binding list" where
  "meth_qtwidgets_2_16 = [
     Bind [EnumM ''QT_ORIENTATIONS''] ''expandingDirections'' [] (RMeta ''Qt::Orientations'') [OnObject QLayout],
     Bind [ValueM ''QTCORE_QKEYCOMBINATION''] ''finishingKeyCombinations'' [] (RList (IValue QKeyCombination)) [OnObject ''QKeySequenceEdit''],
     Bind [TypeM ''QTWIDGETS_QLISTVIEW''] ''flow'' [] (RMeta ''QListView::Flow'') [OnObject QListView],
     Bind [] ''format'' [] RString [OnObject QProgressBar],
     Bind [TypeM ''QTGUI_QTEXTFRAME'', ValueM QTCORE_QRECTF] ''frameBoundingRect'' [PNonNull ''QTextFrame*''] (RValue QRectF) [OnObject QPlainTextDocumentLayout],
     Bind [ValueM QTCORE_QRECT] ''geometry'' [] (RValue QRect) [OnObject QLayout],
     Bind [ValueM QTCORE_QSIZE] ''gridSize'' [] (RValue QSize) [OnObject QListView]]"

definition meth_qtwidgets_2_17 :: "binding list" where
  "meth_qtwidgets_2_17 = [
     Bind [] ''hasAcceptableInput'' [] RBool [OnObject QLineEdit],
     Bind [] ''hasClipping'' [] RBool [OnObject ''QItemDelegate''],
     Bind [] ''hasFrame'' [] RBool [OnObject QLineEdit],
     Bind [] ''hasScaledContents'' [] RBool [OnObject ''QLabel''],
     Bind [] ''hasSelectedText'' [] RBool [OnObject ''QLabel'', OnObject QLineEdit],
     Bind [EnumM QT_ORIENTATION] ''headerDataChanged'' [PConv Qt_Orientation, PInt, PInt] RVoid [OnObject QHeaderView],
     Bind [] ''heightForWidth'' [PInt] RNumber [OnObject ''QLabel'', OnObject ''QMenuBar'']]"

definition meth_qtwidgets_2_18 :: "binding list" where
  "meth_qtwidgets_2_18 = [
     Bind [] ''hiddenSectionCount'' [] RNumber [OnObject QHeaderView],
     Bind [] ''hideSection'' [PInt] RVoid [OnObject QHeaderView],
     Bind [] ''hideTearOffMenu'' [] RVoid [OnObject ''QMenu''],
     Bind [] ''highlightSections'' [] RBool [OnObject QHeaderView],
     Bind [EnumM ''QT_HITTESTACCURACY'', ValueM QTCORE_QPOINTF] ''hitTest'' [PConv QPointF, PConv ''Qt::HitTestAccuracy''] RNumber [OnObject QPlainTextDocumentLayout],
     Bind [] ''home'' [PBool] RVoid [OnObject QLineEdit],
     Bind [TypeM QTWIDGETS_QLAYOUT] ''horizontalSizeConstraint'' [] (RMeta ''QLayout::SizeConstraint'') [OnObject QLayout],
     Bind [ValueM QTGUI_QICON] ''icon'' [] (RValue QIcon) [OnObject ''QMenu'']]"

definition meth_qtwidgets_2_19 :: "binding list" where
  "meth_qtwidgets_2_19 = [
     Bind [TypeM QTWIDGETS_QMESSAGEBOX] ''icon'' [] (RMeta ''QMessageBox::Icon'') [OnObject QMessageBox],
     Bind [ValueM QTGUI_QPIXMAP] ''iconPixmap'' [] (RValue QPixmap) [OnObject QMessageBox],
     Bind [ValueM QTCORE_QSIZE] ''iconSize'' [] (RValue QSize) [OnObject QMainWindow],
     Bind [] ''indent'' [] RNumber [OnObject ''QLabel''],
     Bind [ValueM QTCORE_QMODELINDEX, ValueM QTCORE_QPOINT] ''indexAt'' [PConv QPoint] (RValue QModelIndex) [OnObject QListView],
     Bind [TypeM QTWIDGETS_QWIDGET] ''indexOf'' [PNonNull QWidget_ptr] RNumber [OnObject QLayout]]"

definition meth_qtwidgets_2_20 :: "binding list" where
  "meth_qtwidgets_2_20 = [
     Bind [TypeM QTWIDGETS_QMESSAGEBOX, TypeM QTWIDGETS_QWIDGET] ''information'' [PNonNull QWidget_ptr, PString True, PString True, PConv ''QMessageBox::StandardButtons'', PConv QMessageBox_StandardButton] (RMeta QMessageBox_StandardButton) [Static QMessageBox],
     Bind [] ''informativeText'' [] RString [OnObject QMessageBox],
     Bind [] ''inputMask'' [] RString [OnObject QLineEdit],
     Bind [EnumM ''QT_INPUTMETHODQUERY''] ''inputMethodQuery'' [PConv ''Qt::InputMethodQuery''] RVariant [OnObject QLineEdit, OnObject QPlainTextEdit],
     Bind [EnumM ''QT_INPUTMETHODQUERY''] ''inputMethodQuery'' [PConv ''Qt::InputMethodQuery'', PVariant] RVariant [OnObject QLineEdit, OnObject QPlainTextEdit],
     Bind [TypeM ''QTWIDGETS_QINPUTDIALOG''] ''inputMode'' [] (RMeta ''QInputDialog::InputMode'') [OnObject QInputDialog]]"

definition meth_qtwidgets_2_21 :: "binding list" where
  "meth_qtwidgets_2_21 = [
     Bind [] ''insert'' [PString True] RVoid [OnObject QLineEdit],
     Bind [] ''insertItem'' [PInt, PString True] RVoid [OnObject ''QListWidget''],
     Bind [] ''insertItems'' [PInt, PStringList] RVoid [OnObject ''QListWidget''],
     Bind [] ''insertPlainText'' [PString True] RVoid [OnObject QPlainTextEdit],
     Bind [TypeM ''QTWIDGETS_QTOOLBAR''] ''insertToolBar'' [PNonNull ''QToolBar*'', PNonNull ''QToolBar*''] RVoid [OnObject QMainWindow],
     Bind [TypeM ''QTWIDGETS_QTOOLBAR''] ''insertToolBarBreak'' [PNonNull ''QToolBar*''] RVoid [OnObject QMainWindow]]"

definition meth_qtwidgets_2_22 :: "binding list" where
  "meth_qtwidgets_2_22 = [
     Bind [] ''intMaximum'' [] RNumber [OnObject QInputDialog],
     Bind [] ''intMinimum'' [] RNumber [OnObject QInputDialog],
     Bind [] ''intStep'' [] RNumber [OnObject QInputDialog],
     Bind [] ''intValue'' [] RNumber [OnObject QInputDialog, OnObject QLCDNumber],
     Bind [] ''invalidate'' [] RVoid [OnObject QLayout],
     Bind [] ''isAnimated'' [] RBool [OnObject QMainWindow],
     Bind [] ''isCheckable'' [] RBool [OnObject ''QGroupBox''],
     Bind [] ''isChecked'' [] RBool [OnObject ''QGroupBox'']]"

definition meth_qtwidgets_2_23 :: "binding list" where
  "meth_qtwidgets_2_23 = [
     Bind [] ''isClearButtonEnabled'' [] RBool [OnObject ''QKeySequenceEdit'', OnObject QLineEdit],
     Bind [] ''isComboBoxEditable'' [] RBool [OnObject QInputDialog],
     Bind [] ''isDefaultUp'' [] RBool [OnObject ''QMenuBar''],
     Bind [] ''isDockNestingEnabled'' [] RBool [OnObject QMainWindow],
     Bind [] ''isEmpty'' [] RBool [OnObject QLayout, OnObject ''QMenu''],
     Bind [] ''isEnabled'' [] RBool [OnObject QLayout],
     Bind [] ''isFirstSectionMovable'' [] RBool [OnObject QHeaderView],
     Bind [] ''isFlat'' [] RBool [OnObject ''QGroupBox'']]"

definition meth_qtwidgets_2_24 :: "binding list" where
  "meth_qtwidgets_2_24 = [
     Bind [] ''isModified'' [] RBool [OnObject QLineEdit],
     Bind [] ''isNativeMenuBar'' [] RBool [OnObject ''QMenuBar''],
     Bind [] ''isReadOnly'' [] RBool [OnObject QLineEdit, OnObject QPlainTextEdit],
     Bind [] ''isRedoAvailable'' [] RBool [OnObject QLineEdit],
     Bind [] ''isRowHidden'' [PInt] RBool [OnObject QListView],
     Bind [] ''isSectionHidden'' [PInt] RBool [OnObject QHeaderView],
     Bind [] ''isSelectionRectVisible'' [] RBool [OnObject QListView],
     Bind [ValueM QTCORE_QPOINT] ''isSeparator'' [PConv QPoint] RBool [OnObject QMainWindow]]"

definition meth_qtwidgets_2_25 :: "binding list" where
  "meth_qtwidgets_2_25 = [
     Bind [] ''isShaded'' [] RBool [OnObject ''QMdiSubWindow''],
     Bind [] ''isSortIndicatorClearable'' [] RBool [OnObject QHeaderView],
     Bind [] ''isSortIndicatorShown'' [] RBool [OnObject QHeaderView],
     Bind [] ''isSortingEnabled'' [] RBool [OnObject ''QListWidget''],
     Bind [] ''isTearOffEnabled'' [] RBool [OnObject ''QMenu''],
     Bind [] ''isTearOffMenuVisible'' [] RBool [OnObject ''QMenu''],
     Bind [] ''isTextVisible'' [] RBool [OnObject QProgressBar],
     Bind [] ''isUndoAvailable'' [] RBool [OnObject QLineEdit],
     Bind [] ''isUndoRedoEnabled'' [] RBool [OnObject QPlainTextEdit]]"

definition meth_qtwidgets_2_26 :: "binding list" where
  "meth_qtwidgets_2_26 = [
     Bind [] ''isWrapping'' [] RBool [OnObject QListView],
     Bind [ValueM QTCORE_QRECT, ValueM QTGUI_QPIXMAP] ''itemPixmapRect'' [PConv QRect, PInt, PConv QPixmap] (RValue QRect) [OnObject ''QProxyStyle''],
     Bind [ValueM QTCORE_QRECT, ValueM ''QTGUI_QFONTMETRICS''] ''itemTextRect'' [PConv QFontMetrics, PConv QRect, PInt, PBool, PString True] (RValue QRect) [OnObject ''QProxyStyle''],
     Bind [ValueM QTGUI_QKEYSEQUENCE] ''keySequence'' [] (RValue QKeySequence) [OnObject ''QKeySequenceEdit''],
     Bind [] ''keyboardPageStep'' [] RNumber [OnObject ''QMdiSubWindow''],
     Bind [] ''keyboardSingleStep'' [] RNumber [OnObject ''QMdiSubWindow'']]"

definition meth_qtwidgets_2_27 :: "binding list" where
  "meth_qtwidgets_2_27 = [
     Bind [] ''labelText'' [] RString [OnObject QInputDialog, OnObject QProgressDialog],
     Bind [ValueM QTCORE_QPOINTF] ''lastCenterPoint'' [] (RValue QPointF) [OnObject QPinchGesture],
     Bind [ValueM QTCORE_QPOINTF] ''lastOffset'' [] (RValue QPointF) [OnObject ''QPanGesture''],
     Bind [] ''lastRotationAngle'' [] RNumber [OnObject QPinchGesture],
     Bind [] ''lastScaleFactor'' [] RNumber [OnObject QPinchGesture],
     Bind [TypeM QTWIDGETS_QLAYOUT] ''layout'' [] RObject [OnObject QLayout],
     Bind [TypeM ''QTWIDGETS_QLISTVIEW''] ''layoutMode'' [] (RMeta ''QListView::LayoutMode'') [OnObject QListView],
     Bind [] ''length'' [] RNumber [OnObject QHeaderView]]"

definition meth_qtwidgets_2_28 :: "binding list" where
  "meth_qtwidgets_2_28 = [
     Bind [TypeM ''QTWIDGETS_QPLAINTEXTEDIT''] ''lineWrapMode'' [] (RMeta ''QPlainTextEdit::LineWrapMode'') [OnObject QPlainTextEdit],
     Bind [ValueM QTCORE_QURL] ''loadResource'' [PInt, PConv QUrl] RVariant [OnObject QPlainTextEdit],
     Bind [] ''logicalIndex'' [PInt] RNumber [OnObject QHeaderView],
     Bind [ValueM QTCORE_QPOINT] ''logicalIndexAt'' [PConv QPoint] RNumber [OnObject QHeaderView],
     Bind [] ''logicalIndexAt'' [PInt] RNumber [OnObject QHeaderView],
     Bind [] ''logicalIndexAt'' [PInt, PInt] RNumber [OnObject QHeaderView],
     Bind [] ''margin'' [] RNumber [OnObject ''QLabel'']]"

definition meth_qtwidgets_2_29 :: "binding list" where
  "meth_qtwidgets_2_29 = [
     Bind [] ''maxLength'' [] RNumber [OnObject QLineEdit],
     Bind [] ''maximum'' [] RNumber [OnObject QProgressBar, OnObject QProgressDialog],
     Bind [] ''maximumBlockCount'' [] RNumber [OnObject QPlainTextEdit],
     Bind [] ''maximumSectionSize'' [] RNumber [OnObject QHeaderView],
     Bind [] ''maximumSequenceLength'' [] (RMeta ''qsizetype'') [OnObject ''QKeySequenceEdit''],
     Bind [ValueM QTCORE_QSIZE] ''maximumSize'' [] (RValue QSize) [OnObject QLayout],
     Bind [TypeM ''QTWIDGETS_QMDIAREA''] ''mdiArea'' [] RObject [OnObject ''QMdiSubWindow''],
     Bind [TypeM ''QTWIDGETS_QMENUBAR''] ''menuBar'' [] RObject [OnObject QMainWindow]]"

definition meth_qtwidgets_2_30 :: "binding list" where
  "meth_qtwidgets_2_30 = [
     Bind [TypeM QTWIDGETS_QWIDGET] ''menuBar'' [] RObject [OnObject QLayout],
     Bind [TypeM QTWIDGETS_QWIDGET] ''menuWidget'' [] RObject [OnObject QMainWindow],
     Bind [ValueM QTGUI_QTEXTCHARFORMAT] ''mergeCurrentCharFormat'' [PConv QTextCharFormat] RVoid [OnObject QPlainTextEdit],
     Bind [] ''minimum'' [] RNumber [OnObject QProgressBar, OnObject QProgressDialog],
     Bind [] ''minimumDuration'' [] RNumber [OnObject QProgressDialog],
     Bind [] ''minimumSectionSize'' [] RNumber [OnObject QHeaderView],
     Bind [ValueM QTCORE_QSIZE] ''minimumSize'' [] (RValue QSize) [OnObject QLayout]]"

definition meth_qtwidgets_2_31 :: "binding list" where
  "meth_qtwidgets_2_31 = [
     Bind [ValueM QTCORE_QSIZE] ''minimumSizeHint'' [] (RValue QSize) [OnObject ''QGroupBox'', OnObject QInputDialog, OnObject ''QLabel'', OnObject QLineEdit, OnObject QMdiArea, OnObject ''QMdiSubWindow'', OnObject ''QMenuBar'', OnObject QProgressBar],
     Bind [TypeM ''QTWIDGETS_QLCDNUMBER''] ''mode'' [] (RMeta ''QLCDNumber::Mode'') [OnObject QLCDNumber],
     Bind [] ''modelColumn'' [] RNumber [OnObject QListView],
     Bind [TypeM QTGUI_QTEXTCURSOR] ''moveCursor'' [PConv ''QTextCursor::MoveOperation'', PConv ''QTextCursor::MoveMode''] RVoid [OnObject QPlainTextEdit]]"

definition meth_qtwidgets_2_32 :: "binding list" where
  "meth_qtwidgets_2_32 = [
     Bind [] ''moveSection'' [PInt, PInt] RVoid [OnObject QHeaderView],
     Bind [TypeM ''QTWIDGETS_QLISTVIEW''] ''movement'' [] (RMeta ''QListView::Movement'') [OnObject QListView],
     Bind [TypeM ''QTGUI_QMOVIE''] ''movie'' [] RObject [OnObject ''QLabel''],
     Bind [ValueM QTCORE_QPOINTF] ''offset'' [] (RValue QPointF) [OnObject ''QPanGesture''],
     Bind [] ''offset'' [] RNumber [OnObject QHeaderView],
     Bind [] ''okButtonText'' [] RString [OnObject QInputDialog],
     Bind [] ''open'' [] RVoid [OnObject QInputDialog, OnObject QMessageBox, OnObject QProgressDialog]]"

definition meth_qtwidgets_2_33 :: "binding list" where
  "meth_qtwidgets_2_33 = [
     Bind [] ''openExternalLinks'' [] RBool [OnObject ''QLabel''],
     Bind [TypeM ''QTWIDGETS_QINPUTDIALOG''] ''options'' [] (RMeta ''QInputDialog::InputDialogOptions'') [OnObject QInputDialog],
     Bind [TypeM QTWIDGETS_QMESSAGEBOX] ''options'' [] (RMeta ''QMessageBox::Options'') [OnObject QMessageBox],
     Bind [EnumM QT_ORIENTATION] ''orientation'' [] (RMeta Qt_Orientation) [OnObject QHeaderView, OnObject QProgressBar],
     Bind [] ''overwriteMode'' [] RBool [OnObject QPlainTextEdit],
     Bind [] ''pageCount'' [] RNumber [OnObject QPlainTextDocumentLayout],
     Bind [TypeM QTWIDGETS_QWIDGET] ''parentWidget'' [] RObject [OnObject QLayout],
     Bind [] ''paste'' [] RVoid [OnObject QLineEdit, OnObject QPlainTextEdit]]"

definition meth_qtwidgets_2_34 :: "binding list" where
  "meth_qtwidgets_2_34 = [
     Bind [ValueM ''QTGUI_QPICTURE''] ''picture'' [] (RValue ''QPicture'') [OnObject ''QLabel''],
     Bind [ValueM QTGUI_QPIXMAP] ''pixmap'' [] (RValue QPixmap) [OnObject ''QLabel''],
     Bind [] ''placeholderText'' [] RString [OnObject QLineEdit, OnObject QPlainTextEdit],
     Bind [TypeM ''QTWIDGETS_QAPPLICATION''] ''polish'' [PNonNull ''QApplication*''] RVoid [OnObject ''QProxyStyle''],
     Bind [TypeM QTWIDGETS_QWIDGET] ''polish'' [PNonNull QWidget_ptr] RVoid [OnObject ''QProxyStyle''],
     Bind [TypeM QTWIDGETS_QMESSAGEBOX, TypeM QTWIDGETS_QWIDGET] ''question'' [PNonNull QWidget_ptr, PString True, PString True, PConv ''QMessageBox::StandardButtons'', PConv QMessageBox_StandardButton] (RMeta QMessageBox_StandardButton) [Static QMessageBox]]"

definition meth_qtwidgets_2_35 :: "binding list" where
  "meth_qtwidgets_2_35 = [
     Bind [] ''redo'' [] RVoid [OnObject QLineEdit, OnObject QPlainTextEdit],
     Bind [TypeM QTWIDGETS_QABSTRACTBUTTON] ''removeButton'' [PNonNull ''QAbstractButton*''] RVoid [OnObject QMessageBox],
     Bind [TypeM ''QTWIDGETS_QDOCKWIDGET''] ''removeDockWidget'' [PNonNull ''QDockWidget*''] RVoid [OnObject QMainWindow],
     Bind [TypeM ''QTWIDGETS_QTOOLBAR''] ''removeToolBar'' [PNonNull ''QToolBar*''] RVoid [OnObject QMainWindow],
     Bind [TypeM ''QTWIDGETS_QTOOLBAR''] ''removeToolBarBreak'' [PNonNull ''QToolBar*''] RVoid [OnObject QMainWindow],
     Bind [TypeM QTWIDGETS_QWIDGET] ''removeWidget'' [PNonNull QWidget_ptr] RVoid [OnObject QLayout]]"

definition meth_qtwidgets_2_36 :: "binding list" where
  "meth_qtwidgets_2_36 = [
     Bind [] ''requestUpdate'' [] RVoid [OnObject QPlainTextDocumentLayout],
     Bind [] ''reset'' [] RVoid [OnObject QHeaderView, OnObject QListView, OnObject QProgressBar, OnObject QProgressDialog],
     Bind [] ''resetDefaultSectionSize'' [] RVoid [OnObject QHeaderView],
     Bind [] ''resetFormat'' [] RVoid [OnObject QProgressBar],
     Bind [] ''resizeContentsPrecision'' [] RNumber [OnObject QHeaderView],
     Bind [EnumM QT_ORIENTATION, TypeM ''QTWIDGETS_QDOCKWIDGET''] ''resizeDocks'' [PList ''QDockWidget*'', PList ''int'', PConv Qt_Orientation] RVoid [OnObject QMainWindow]]"

definition meth_qtwidgets_2_37 :: "binding list" where
  "meth_qtwidgets_2_37 = [
     Bind [TypeM ''QTWIDGETS_QLISTVIEW''] ''resizeMode'' [] (RMeta ''QListView::ResizeMode'') [OnObject QListView],
     Bind [] ''resizeSection'' [PInt, PInt] RVoid [OnObject QHeaderView],
     Bind [TypeM ''QTWIDGETS_QHEADERVIEW''] ''resizeSections'' [PConv ''QHeaderView::ResizeMode''] RVoid [OnObject QHeaderView],
     Bind [TypeM ''QTWIDGETS_QDOCKWIDGET''] ''restoreDockWidget'' [PNonNull ''QDockWidget*''] RBool [OnObject QMainWindow],
     Bind [ValueM QTCORE_QBYTEARRAY] ''restoreState'' [PConv QByteArray] RBool [OnObject QHeaderView],
     Bind [ValueM QTCORE_QBYTEARRAY] ''restoreState'' [PConv QByteArray, PInt] RBool [OnObject QMainWindow],
     Bind [] ''rotationAngle'' [] RNumber [OnObject QPinchGesture]]"

definition meth_qtwidgets_2_38 :: "binding list" where
  "meth_qtwidgets_2_38 = [
     Bind [ValueM QTCORE_QBYTEARRAY] ''saveState'' [] (RValue QByteArray) [OnObject QHeaderView],
     Bind [ValueM QTCORE_QBYTEARRAY] ''saveState'' [PInt] (RValue QByteArray) [OnObject QMainWindow],
     Bind [] ''scaleFactor'' [] RNumber [OnObject QPinchGesture],
     Bind [TypeM QTWIDGETS_QABSTRACTITEMVIEW, ValueM QTCORE_QMODELINDEX] ''scrollTo'' [PConv QModelIndex, PConv ''QAbstractItemView::ScrollHint''] RVoid [OnObject QListView],
     Bind [] ''sectionPosition'' [PInt] RNumber [OnObject QHeaderView],
     Bind [TypeM ''QTWIDGETS_QHEADERVIEW''] ''sectionResizeMode'' [PInt] (RMeta ''QHeaderView::ResizeMode'') [OnObject QHeaderView],
     Bind [] ''sectionSize'' [PInt] RNumber [OnObject QHeaderView]]"

definition meth_qtwidgets_2_39 :: "binding list" where
  "meth_qtwidgets_2_39 = [
     Bind [] ''sectionSizeHint'' [PInt] RNumber [OnObject QHeaderView],
     Bind [] ''sectionViewportPosition'' [PInt] RNumber [OnObject QHeaderView],
     Bind [] ''sectionsClickable'' [] RBool [OnObject QHeaderView],
     Bind [] ''sectionsHidden'' [] RBool [OnObject QHeaderView],
     Bind [] ''sectionsMovable'' [] RBool [OnObject QHeaderView],
     Bind [] ''sectionsMoved'' [] RBool [OnObject QHeaderView],
     Bind [TypeM ''QTWIDGETS_QLCDNUMBER''] ''segmentStyle'' [] (RMeta ''QLCDNumber::SegmentStyle'') [OnObject QLCDNumber],
     Bind [] ''selectAll'' [] RVoid [OnObject QLineEdit, OnObject QPlainTextEdit]]"

definition meth_qtwidgets_2_40 :: "binding list" where
  "meth_qtwidgets_2_40 = [
     Bind [] ''selectedText'' [] RString [OnObject ''QLabel'', OnObject QLineEdit],
     Bind [] ''selectionEnd'' [] RNumber [OnObject QLineEdit],
     Bind [] ''selectionLength'' [] RNumber [OnObject QLineEdit],
     Bind [] ''selectionStart'' [] RNumber [OnObject ''QLabel'', OnObject QLineEdit],
     Bind [] ''separatorsCollapsible'' [] RBool [OnObject ''QMenu''],
     Bind [] ''setAcceleration'' [PReal ''qreal''] RVoid [OnObject ''QPanGesture''],
     Bind [TypeM ''QTWIDGETS_QMDIAREA''] ''setActivationOrder'' [PConv ''QMdiArea::WindowOrder''] RVoid [OnObject QMdiArea]]"

definition meth_qtwidgets_2_41 :: "binding list" where
  "meth_qtwidgets_2_41 = [
     Bind [TypeM ''QTWIDGETS_QMDISUBWINDOW''] ''setActiveSubWindow'' [PNonNull ''QMdiSubWindow*''] RVoid [OnObject QMdiArea],
     Bind [] ''setAlignment'' [PInt] RVoid [OnObject ''QGroupBox''],
     Bind [] ''setAnimated'' [PBool] RVoid [OnObject QMainWindow],
     Bind [] ''setAutoClose'' [PBool] RVoid [OnObject QProgressDialog],
     Bind [] ''setAutoReset'' [PBool] RVoid [OnObject QProgressDialog],
     Bind [ValueM QTGUI_QBRUSH] ''setBackground'' [PConv QBrush] RVoid [OnObject QMdiArea],
     Bind [] ''setBackgroundVisible'' [PBool] RVoid [OnObject QPlainTextEdit]]"

definition meth_qtwidgets_2_42 :: "binding list" where
  "meth_qtwidgets_2_42 = [
     Bind [TypeM ''QTWIDGETS_QPROGRESSBAR''] ''setBar'' [PNonNull ''QProgressBar*''] RVoid [OnObject QProgressDialog],
     Bind [TypeM QTWIDGETS_QSTYLE] ''setBaseStyle'' [PNonNull ''QStyle*''] RVoid [OnObject ''QProxyStyle''],
     Bind [] ''setBatchSize'' [PInt] RVoid [OnObject QListView],
     Bind [] ''setBinMode'' [] RVoid [OnObject QLCDNumber],
     Bind [TypeM QTWIDGETS_QWIDGET] ''setBuddy'' [PNonNull QWidget_ptr] RVoid [OnObject ''QLabel''],
     Bind [TypeM ''QTWIDGETS_QPUSHBUTTON''] ''setCancelButton'' [PNonNull ''QPushButton*''] RVoid [OnObject QProgressDialog]]"

definition meth_qtwidgets_2_43 :: "binding list" where
  "meth_qtwidgets_2_43 = [
     Bind [] ''setCancelButtonText'' [PString True] RVoid [OnObject QInputDialog, OnObject QProgressDialog],
     Bind [] ''setCascadingSectionResizes'' [PBool] RVoid [OnObject QHeaderView],
     Bind [] ''setCenterOnScroll'' [PBool] RVoid [OnObject QPlainTextEdit],
     Bind [ValueM QTCORE_QPOINTF] ''setCenterPoint'' [PConv QPointF] RVoid [OnObject QPinchGesture],
     Bind [TypeM QTWIDGETS_QWIDGET] ''setCentralWidget'' [PNonNull QWidget_ptr] RVoid [OnObject QMainWindow],
     Bind [TypeM ''QTWIDGETS_QCHECKBOX''] ''setCheckBox'' [PNonNull ''QCheckBox*''] RVoid [OnObject QMessageBox]]"

definition meth_qtwidgets_2_44 :: "binding list" where
  "meth_qtwidgets_2_44 = [
     Bind [] ''setCheckable'' [PBool] RVoid [OnObject ''QGroupBox''],
     Bind [] ''setChecked'' [PBool] RVoid [OnObject ''QGroupBox''],
     Bind [] ''setClearButtonEnabled'' [PBool] RVoid [OnObject ''QKeySequenceEdit'', OnObject QLineEdit],
     Bind [] ''setClipping'' [PBool] RVoid [OnObject ''QItemDelegate''],
     Bind [] ''setComboBoxEditable'' [PBool] RVoid [OnObject QInputDialog],
     Bind [] ''setComboBoxItems'' [PStringList] RVoid [OnObject QInputDialog],
     Bind [TypeM ''QTWIDGETS_QCOMPLETER''] ''setCompleter'' [PNonNull ''QCompleter*''] RVoid [OnObject QLineEdit]]"

definition meth_qtwidgets_2_45 :: "binding list" where
  "meth_qtwidgets_2_45 = [
     Bind [ValueM QTCORE_QMARGINS] ''setContentsMargins'' [PConv QMargins] RVoid [OnObject QLayout],
     Bind [] ''setContentsMargins'' [PInt, PInt, PInt, PInt] RVoid [OnObject QLayout],
     Bind [EnumM ''QT_CORNER'', EnumM ''QT_DOCKWIDGETAREA''] ''setCorner'' [PConv ''Qt::Corner'', PConv ''Qt::DockWidgetArea''] RVoid [OnObject QMainWindow],
     Bind [EnumM ''QT_CORNER'', TypeM QTWIDGETS_QWIDGET] ''setCornerWidget'' [PNonNull QWidget_ptr, PConv ''Qt::Corner''] RVoid [OnObject ''QMenuBar''],
     Bind [ValueM QTGUI_QTEXTCHARFORMAT] ''setCurrentCharFormat'' [PConv QTextCharFormat] RVoid [OnObject QPlainTextEdit],
     Bind [] ''setCurrentRow'' [PInt] RVoid [OnObject ''QListWidget'']]"

definition meth_qtwidgets_2_46 :: "binding list" where
  "meth_qtwidgets_2_46 = [
     Bind [EnumM ''QT_CURSORMOVESTYLE''] ''setCursorMoveStyle'' [PConv ''Qt::CursorMoveStyle''] RVoid [OnObject QLineEdit],
     Bind [] ''setCursorPosition'' [PInt] RVoid [OnObject QLineEdit],
     Bind [] ''setCursorWidth'' [PInt] RVoid [OnObject QPlainTextDocumentLayout, OnObject QPlainTextEdit],
     Bind [] ''setDecMode'' [] RVoid [OnObject QLCDNumber],
     Bind [TypeM QTWIDGETS_QMESSAGEBOX] ''setDefaultButton'' [PConv QMessageBox_StandardButton] RVoid [OnObject QMessageBox],
     Bind [TypeM ''QTWIDGETS_QPUSHBUTTON''] ''setDefaultButton'' [PNonNull ''QPushButton*''] RVoid [OnObject QMessageBox]]"

definition meth_qtwidgets_2_47 :: "binding list" where
  "meth_qtwidgets_2_47 = [
     Bind [] ''setDefaultSectionSize'' [PInt] RVoid [OnObject QHeaderView],
     Bind [] ''setDefaultUp'' [PBool] RVoid [OnObject ''QMenuBar''],
     Bind [] ''setDetailedText'' [PString True] RVoid [OnObject QMessageBox],
     Bind [] ''setDigitCount'' [PInt] RVoid [OnObject QLCDNumber],
     Bind [] ''setDockNestingEnabled'' [PBool] RVoid [OnObject QMainWindow],
     Bind [TypeM QTGUI_QTEXTDOCUMENT] ''setDocument'' [PNonNull QTextDocument_ptr] RVoid [OnObject QPlainTextEdit],
     Bind [] ''setDocumentMode'' [PBool] RVoid [OnObject QMainWindow, OnObject QMdiArea]]"

definition meth_qtwidgets_2_48 :: "binding list" where
  "meth_qtwidgets_2_48 = [
     Bind [] ''setDocumentTitle'' [PString True] RVoid [OnObject QPlainTextEdit],
     Bind [] ''setDoubleDecimals'' [PInt] RVoid [OnObject QInputDialog],
     Bind [] ''setDoubleMaximum'' [PReal ''double''] RVoid [OnObject QInputDialog],
     Bind [] ''setDoubleMinimum'' [PReal ''double''] RVoid [OnObject QInputDialog],
     Bind [] ''setDoubleRange'' [PReal ''double'', PReal ''double''] RVoid [OnObject QInputDialog],
     Bind [] ''setDoubleStep'' [PReal ''double''] RVoid [OnObject QInputDialog],
     Bind [] ''setDoubleValue'' [PReal ''double''] RVoid [OnObject QInputDialog]]"

definition meth_qtwidgets_2_49 :: "binding list" where
  "meth_qtwidgets_2_49 = [
     Bind [] ''setDragEnabled'' [PBool] RVoid [OnObject QLineEdit],
     Bind [TypeM ''QTWIDGETS_QLINEEDIT''] ''setEchoMode'' [PConv ''QLineEdit::EchoMode''] RVoid [OnObject QLineEdit],
     Bind [TypeM QTWIDGETS_QWIDGET, ValueM QTCORE_QMODELINDEX] ''setEditorData'' [PNonNull QWidget_ptr, PConv QModelIndex] RVoid [OnObject ''QItemDelegate''],
     Bind [] ''setEnabled'' [PBool] RVoid [OnObject QLayout],
     Bind [TypeM QTWIDGETS_QABSTRACTBUTTON] ''setEscapeButton'' [PNonNull ''QAbstractButton*''] RVoid [OnObject QMessageBox],
     Bind [TypeM QTWIDGETS_QMESSAGEBOX] ''setEscapeButton'' [PConv QMessageBox_StandardButton] RVoid [OnObject QMessageBox]]"

definition meth_qtwidgets_2_50 :: "binding list" where
  "meth_qtwidgets_2_50 = [
     Bind [ValueM ''QTCORE_QKEYCOMBINATION''] ''setFinishingKeyCombinations'' [PListV QKeyCombination] RVoid [OnObject ''QKeySequenceEdit''],
     Bind [] ''setFirstSectionMovable'' [PBool] RVoid [OnObject QHeaderView],
     Bind [] ''setFlat'' [PBool] RVoid [OnObject ''QGroupBox''],
     Bind [TypeM ''QTWIDGETS_QLISTVIEW''] ''setFlow'' [PConv ''QListView::Flow''] RVoid [OnObject QListView],
     Bind [] ''setFormat'' [PString True] RVoid [OnObject QProgressBar],
     Bind [] ''setFrame'' [PBool] RVoid [OnObject QLineEdit],
     Bind [ValueM QTCORE_QRECT] ''setGeometry'' [PConv QRect] RVoid [OnObject QLayout]]"

definition meth_qtwidgets_2_51 :: "binding list" where
  "meth_qtwidgets_2_51 = [
     Bind [ValueM QTCORE_QSIZE] ''setGridSize'' [PConv QSize] RVoid [OnObject QListView],
     Bind [] ''setHexMode'' [] RVoid [OnObject QLCDNumber],
     Bind [] ''setHighlightSections'' [PBool] RVoid [OnObject QHeaderView],
     Bind [TypeM QTWIDGETS_QLAYOUT] ''setHorizontalSizeConstraint'' [PConv ''QLayout::SizeConstraint''] RVoid [OnObject QLayout],
     Bind [ValueM QTGUI_QICON] ''setIcon'' [PConv QIcon] RVoid [OnObject ''QMenu''],
     Bind [TypeM QTWIDGETS_QMESSAGEBOX] ''setIcon'' [PConv ''QMessageBox::Icon''] RVoid [OnObject QMessageBox],
     Bind [ValueM QTGUI_QPIXMAP] ''setIconPixmap'' [PConv QPixmap] RVoid [OnObject QMessageBox]]"

definition meth_qtwidgets_2_52 :: "binding list" where
  "meth_qtwidgets_2_52 = [
     Bind [ValueM QTCORE_QSIZE] ''setIconSize'' [PConv QSize] RVoid [OnObject QMainWindow],
     Bind [] ''setIndent'' [PInt] RVoid [OnObject ''QLabel''],
     Bind [] ''setInformativeText'' [PString True] RVoid [OnObject QMessageBox],
     Bind [] ''setInputMask'' [PString True] RVoid [OnObject QLineEdit],
     Bind [TypeM ''QTWIDGETS_QINPUTDIALOG''] ''setInputMode'' [PConv ''QInputDialog::InputMode''] RVoid [OnObject QInputDialog],
     Bind [] ''setIntMaximum'' [PInt] RVoid [OnObject QInputDialog],
     Bind [] ''setIntMinimum'' [PInt] RVoid [OnObject QInputDialog]]"

definition meth_qtwidgets_2_53 :: "binding list" where
  "meth_qtwidgets_2_53 = [
     Bind [] ''setIntRange'' [PInt, PInt] RVoid [OnObject QInputDialog],
     Bind [] ''setIntStep'' [PInt] RVoid [OnObject QInputDialog],
     Bind [] ''setIntValue'' [PInt] RVoid [OnObject QInputDialog],
     Bind [] ''setInvertedAppearance'' [PBool] RVoid [OnObject QProgressBar],
     Bind [ValueM QTGUI_QKEYSEQUENCE] ''setKeySequence'' [PConv QKeySequence] RVoid [OnObject ''QKeySequenceEdit''],
     Bind [] ''setKeyboardPageStep'' [PInt] RVoid [OnObject ''QMdiSubWindow''],
     Bind [] ''setKeyboardSingleStep'' [PInt] RVoid [OnObject ''QMdiSubWindow'']]"

definition meth_qtwidgets_2_54 :: "binding list" where
  "meth_qtwidgets_2_54 = [
     Bind [TypeM ''QTWIDGETS_QLABEL''] ''setLabel'' [PNonNull ''QLabel*''] RVoid [OnObject QProgressDialog],
     Bind [] ''setLabelText'' [PString True] RVoid [OnObject QInputDialog, OnObject QProgressDialog],
     Bind [ValueM QTCORE_QPOINTF] ''setLastCenterPoint'' [PConv QPointF] RVoid [OnObject QPinchGesture],
     Bind [ValueM QTCORE_QPOINTF] ''setLastOffset'' [PConv QPointF] RVoid [OnObject ''QPanGesture''],
     Bind [] ''setLastRotationAngle'' [PReal ''qreal''] RVoid [OnObject QPinchGesture],
     Bind [] ''setLastScaleFactor'' [PReal ''qreal''] RVoid [OnObject QPinchGesture]]"

definition meth_qtwidgets_2_55 :: "binding list" where
  "meth_qtwidgets_2_55 = [
     Bind [TypeM ''QTWIDGETS_QLISTVIEW''] ''setLayoutMode'' [PConv ''QListView::LayoutMode''] RVoid [OnObject QListView],
     Bind [TypeM ''QTWIDGETS_QPLAINTEXTEDIT''] ''setLineWrapMode'' [PConv ''QPlainTextEdit::LineWrapMode''] RVoid [OnObject QPlainTextEdit],
     Bind [] ''setMargin'' [PInt] RVoid [OnObject ''QLabel''],
     Bind [] ''setMaxLength'' [PInt] RVoid [OnObject QLineEdit],
     Bind [] ''setMaximum'' [PInt] RVoid [OnObject QProgressBar, OnObject QProgressDialog],
     Bind [] ''setMaximumBlockCount'' [PInt] RVoid [OnObject QPlainTextEdit]]"

definition meth_qtwidgets_2_56 :: "binding list" where
  "meth_qtwidgets_2_56 = [
     Bind [] ''setMaximumSectionSize'' [PInt] RVoid [OnObject QHeaderView],
     Bind [] ''setMaximumSequenceLength'' [PWide ''qsizetype''] RVoid [OnObject ''QKeySequenceEdit''],
     Bind [TypeM ''QTWIDGETS_QMENUBAR''] ''setMenuBar'' [PNonNull ''QMenuBar*''] RVoid [OnObject QMainWindow],
     Bind [TypeM QTWIDGETS_QWIDGET] ''setMenuWidget'' [PNonNull QWidget_ptr] RVoid [OnObject QMainWindow],
     Bind [] ''setMinimum'' [PInt] RVoid [OnObject QProgressBar, OnObject QProgressDialog],
     Bind [] ''setMinimumDuration'' [PInt] RVoid [OnObject QProgressDialog]]"

definition meth_qtwidgets_2_57 :: "binding list" where
  "meth_qtwidgets_2_57 = [
     Bind [] ''setMinimumSectionSize'' [PInt] RVoid [OnObject QHeaderView],
     Bind [TypeM ''QTWIDGETS_QLCDNUMBER''] ''setMode'' [PConv ''QLCDNumber::Mode''] RVoid [OnObject QLCDNumber],
     Bind [TypeM QTCORE_QABSTRACTITEMMODEL] ''setModel'' [PNonNull QAbstractItemModel_ptr] RVoid [OnObject QHeaderView],
     Bind [] ''setModelColumn'' [PInt] RVoid [OnObject QListView],
     Bind [TypeM QTCORE_QABSTRACTITEMMODEL, TypeM QTWIDGETS_QWIDGET, ValueM QTCORE_QMODELINDEX] ''setModelData'' [PNonNull QWidget_ptr, PNonNull QAbstractItemModel_ptr, PConv QModelIndex] RVoid [OnObject ''QItemDelegate''],
     Bind [] ''setModified'' [PBool] RVoid [OnObject QLineEdit]]"

definition meth_qtwidgets_2_58 :: "binding list" where
  "meth_qtwidgets_2_58 = [
     Bind [TypeM ''QTWIDGETS_QLISTVIEW''] ''setMovement'' [PConv ''QListView::Movement''] RVoid [OnObject QListView],
     Bind [TypeM ''QTGUI_QMOVIE''] ''setMovie'' [PNonNull ''QMovie*''] RVoid [OnObject ''QLabel''],
     Bind [] ''setNativeMenuBar'' [PBool] RVoid [OnObject ''QMenuBar''],
     Bind [TypeM QTWIDGETS_QWIDGET] ''setNoReplayFor'' [PNonNull QWidget_ptr] RVoid [OnObject ''QMenu''],
     Bind [] ''setNum'' [PReal ''double''] RVoid [OnObject ''QLabel''],
     Bind [] ''setNum'' [PInt] RVoid [OnObject ''QLabel''],
     Bind [] ''setOctMode'' [] RVoid [OnObject QLCDNumber]]"

definition meth_qtwidgets_2_59 :: "binding list" where
  "meth_qtwidgets_2_59 = [
     Bind [ValueM QTCORE_QPOINTF] ''setOffset'' [PConv QPointF] RVoid [OnObject ''QPanGesture''],
     Bind [] ''setOffset'' [PInt] RVoid [OnObject QHeaderView],
     Bind [] ''setOffsetToLastSection'' [] RVoid [OnObject QHeaderView],
     Bind [] ''setOffsetToSectionPosition'' [PInt] RVoid [OnObject QHeaderView],
     Bind [] ''setOkButtonText'' [PString True] RVoid [OnObject QInputDialog],
     Bind [] ''setOpenExternalLinks'' [PBool] RVoid [OnObject ''QLabel''],
     Bind [TypeM ''QTWIDGETS_QINPUTDIALOG''] ''setOption'' [PConv ''QInputDialog::InputDialogOption'', PBool] RVoid [OnObject QInputDialog]]"

definition meth_qtwidgets_2_60 :: "binding list" where
  "meth_qtwidgets_2_60 = [
     Bind [TypeM ''QTWIDGETS_QMDIAREA''] ''setOption'' [PConv ''QMdiArea::AreaOption'', PBool] RVoid [OnObject QMdiArea],
     Bind [TypeM ''QTWIDGETS_QMDISUBWINDOW''] ''setOption'' [PConv ''QMdiSubWindow::SubWindowOption'', PBool] RVoid [OnObject ''QMdiSubWindow''],
     Bind [TypeM QTWIDGETS_QMESSAGEBOX] ''setOption'' [PConv ''QMessageBox::Option'', PBool] RVoid [OnObject QMessageBox],
     Bind [TypeM ''QTWIDGETS_QINPUTDIALOG''] ''setOptions'' [PConv ''QInputDialog::InputDialogOptions''] RVoid [OnObject QInputDialog],
     Bind [TypeM QTWIDGETS_QMESSAGEBOX] ''setOptions'' [PConv ''QMessageBox::Options''] RVoid [OnObject QMessageBox],
     Bind [EnumM QT_ORIENTATION] ''setOrientation'' [PConv Qt_Orientation] RVoid [OnObject QProgressBar]]"

definition meth_qtwidgets_2_61 :: "binding list" where
  "meth_qtwidgets_2_61 = [
     Bind [] ''setOverwriteMode'' [PBool] RVoid [OnObject QPlainTextEdit],
     Bind [ValueM ''QTGUI_QPICTURE''] ''setPicture'' [PConv ''QPicture''] RVoid [OnObject ''QLabel''],
     Bind [ValueM QTGUI_QPIXMAP] ''setPixmap'' [PConv QPixmap] RVoid [OnObject ''QLabel''],
     Bind [] ''setPlaceholderText'' [PString True] RVoid [OnObject QLineEdit, OnObject QPlainTextEdit],
     Bind [] ''setPlainText'' [PString True] RVoid [OnObject QPlainTextEdit],
     Bind [] ''setRange'' [PInt, PInt] RVoid [OnObject QProgressBar, OnObject QProgressDialog]]"

definition meth_qtwidgets_2_62 :: "binding list" where
  "meth_qtwidgets_2_62 = [
     Bind [] ''setReadOnly'' [PBool] RVoid [OnObject QLineEdit, OnObject QPlainTextEdit],
     Bind [] ''setResizeContentsPrecision'' [PInt] RVoid [OnObject QHeaderView],
     Bind [TypeM ''QTWIDGETS_QLISTVIEW''] ''setResizeMode'' [PConv ''QListView::ResizeMode''] RVoid [OnObject QListView],
     Bind [ValueM QTCORE_QMODELINDEX] ''setRootIndex'' [PConv QModelIndex] RVoid [OnObject QListView],
     Bind [] ''setRotationAngle'' [PReal ''qreal''] RVoid [OnObject QPinchGesture],
     Bind [] ''setRowHidden'' [PInt, PBool] RVoid [OnObject QListView],
     Bind [] ''setScaleFactor'' [PReal ''qreal''] RVoid [OnObject QPinchGesture]]"

definition meth_qtwidgets_2_63 :: "binding list" where
  "meth_qtwidgets_2_63 = [
     Bind [] ''setScaledContents'' [PBool] RVoid [OnObject ''QLabel''],
     Bind [] ''setSectionHidden'' [PInt, PBool] RVoid [OnObject QHeaderView],
     Bind [TypeM ''QTWIDGETS_QHEADERVIEW''] ''setSectionResizeMode'' [PConv ''QHeaderView::ResizeMode''] RVoid [OnObject QHeaderView],
     Bind [TypeM ''QTWIDGETS_QHEADERVIEW''] ''setSectionResizeMode'' [PInt, PConv ''QHeaderView::ResizeMode''] RVoid [OnObject QHeaderView],
     Bind [] ''setSectionsClickable'' [PBool] RVoid [OnObject QHeaderView],
     Bind [] ''setSectionsMovable'' [PBool] RVoid [OnObject QHeaderView],
     Bind [TypeM ''QTWIDGETS_QLCDNUMBER''] ''setSegmentStyle'' [PConv ''QLCDNumber::SegmentStyle''] RVoid [OnObject QLCDNumber]]"

definition meth_qtwidgets_2_64 :: "binding list" where
  "meth_qtwidgets_2_64 = [
     Bind [] ''setSelection'' [PInt, PInt] RVoid [OnObject ''QLabel'', OnObject QLineEdit],
     Bind [TypeM ''QTCORE_QITEMSELECTIONMODEL''] ''setSelectionModel'' [PNonNull ''QItemSelectionModel*''] RVoid [OnObject ''QListWidget''],
     Bind [] ''setSelectionRectVisible'' [PBool] RVoid [OnObject QListView],
     Bind [] ''setSeparatorsCollapsible'' [PBool] RVoid [OnObject ''QMenu''],
     Bind [TypeM QTWIDGETS_QLAYOUT] ''setSizeConstraint'' [PConv ''QLayout::SizeConstraint''] RVoid [OnObject QLayout],
     Bind [TypeM QTWIDGETS_QLAYOUT] ''setSizeConstraints'' [PConv ''QLayout::SizeConstraint'', PConv ''QLayout::SizeConstraint''] RVoid [OnObject QLayout]]"

definition meth_qtwidgets_2_65 :: "binding list" where
  "meth_qtwidgets_2_65 = [
     Bind [] ''setSmallDecimalPoint'' [PBool] RVoid [OnObject QLCDNumber],
     Bind [EnumM ''QT_SORTORDER''] ''setSortIndicator'' [PInt, PConv ''Qt::SortOrder''] RVoid [OnObject QHeaderView],
     Bind [] ''setSortIndicatorClearable'' [PBool] RVoid [OnObject QHeaderView],
     Bind [] ''setSortIndicatorShown'' [PBool] RVoid [OnObject QHeaderView],
     Bind [] ''setSortingEnabled'' [PBool] RVoid [OnObject ''QListWidget''],
     Bind [] ''setSpacing'' [PInt] RVoid [OnObject QLayout, OnObject QListView],
     Bind [TypeM QTWIDGETS_QMESSAGEBOX] ''setStandardButtons'' [PConv ''QMessageBox::StandardButtons''] RVoid [OnObject QMessageBox]]"

definition meth_qtwidgets_2_66 :: "binding list" where
  "meth_qtwidgets_2_66 = [
     Bind [ValueM QTCORE_QPOINTF] ''setStartCenterPoint'' [PConv QPointF] RVoid [OnObject QPinchGesture],
     Bind [TypeM ''QTWIDGETS_QSTATUSBAR''] ''setStatusBar'' [PNonNull ''QStatusBar*''] RVoid [OnObject QMainWindow],
     Bind [] ''setStretchLastSection'' [PBool] RVoid [OnObject QHeaderView],
     Bind [EnumM QT_DROPACTIONS] ''setSupportedDragActions'' [PConv Qt_DropActions] RVoid [OnObject ''QListWidget''],
     Bind [] ''setTabChangesFocus'' [PBool] RVoid [OnObject QPlainTextEdit],
     Bind [TypeM ''QTWIDGETS_QTABWIDGET''] ''setTabPosition'' [PConv ''QTabWidget::TabPosition''] RVoid [OnObject QMdiArea]]"

definition meth_qtwidgets_2_67 :: "binding list" where
  "meth_qtwidgets_2_67 = [
     Bind [EnumM ''QT_DOCKWIDGETAREAS'', TypeM ''QTWIDGETS_QTABWIDGET''] ''setTabPosition'' [PConv ''Qt::DockWidgetAreas'', PConv ''QTabWidget::TabPosition''] RVoid [OnObject QMainWindow],
     Bind [TypeM ''QTWIDGETS_QTABWIDGET''] ''setTabShape'' [PConv ''QTabWidget::TabShape''] RVoid [OnObject QMainWindow, OnObject QMdiArea],
     Bind [] ''setTabStopDistance'' [PReal ''qreal''] RVoid [OnObject QPlainTextEdit],
     Bind [] ''setTabsClosable'' [PBool] RVoid [OnObject QMdiArea],
     Bind [] ''setTabsMovable'' [PBool] RVoid [OnObject QMdiArea],
     Bind [] ''setTearOffEnabled'' [PBool] RVoid [OnObject ''QMenu'']]"

definition meth_qtwidgets_2_68 :: "binding list" where
  "meth_qtwidgets_2_68 = [
     Bind [] ''setText'' [PString True] RVoid [OnObject ''QLabel'', OnObject QLineEdit, OnObject QMessageBox],
     Bind [ValueM QTGUI_QTEXTCURSOR] ''setTextCursor'' [PConv QTextCursor] RVoid [OnObject QPlainTextEdit],
     Bind [TypeM ''QTWIDGETS_QPROGRESSBAR''] ''setTextDirection'' [PConv ''QProgressBar::Direction''] RVoid [OnObject QProgressBar],
     Bind [TypeM ''QTWIDGETS_QLINEEDIT''] ''setTextEchoMode'' [PConv ''QLineEdit::EchoMode''] RVoid [OnObject QInputDialog],
     Bind [EnumM ''QT_TEXTFORMAT''] ''setTextFormat'' [PConv ''Qt::TextFormat''] RVoid [OnObject ''QLabel'', OnObject QMessageBox],
     Bind [ValueM QTCORE_QMARGINS] ''setTextMargins'' [PConv QMargins] RVoid [OnObject QLineEdit]]"

definition meth_qtwidgets_2_69 :: "binding list" where
  "meth_qtwidgets_2_69 = [
     Bind [] ''setTextMargins'' [PInt, PInt, PInt, PInt] RVoid [OnObject QLineEdit],
     Bind [] ''setTextValue'' [PString True] RVoid [OnObject QInputDialog],
     Bind [] ''setTextVisible'' [PBool] RVoid [OnObject QProgressBar],
     Bind [] ''setTitle'' [PString True] RVoid [OnObject ''QGroupBox'', OnObject ''QMenu''],
     Bind [EnumM ''QT_TOOLBUTTONSTYLE''] ''setToolButtonStyle'' [PConv ''Qt::ToolButtonStyle''] RVoid [OnObject QMainWindow],
     Bind [] ''setToolTipsVisible'' [PBool] RVoid [OnObject ''QMenu'']]"

definition meth_qtwidgets_2_70 :: "binding list" where
  "meth_qtwidgets_2_70 = [
     Bind [] ''setTotalRotationAngle'' [PReal ''qreal''] RVoid [OnObject QPinchGesture],
     Bind [] ''setTotalScaleFactor'' [PReal ''qreal''] RVoid [OnObject QPinchGesture],
     Bind [] ''setUndoRedoEnabled'' [PBool] RVoid [OnObject QPlainTextEdit],
     Bind [] ''setUnifiedTitleAndToolBarOnMac'' [PBool] RVoid [OnObject QMainWindow],
     Bind [] ''setUniformItemSizes'' [PBool] RVoid [OnObject QListView],
     Bind [TypeM ''QTGUI_QVALIDATOR''] ''setValidator'' [PNonNull ''QValidator*''] RVoid [OnObject QLineEdit],
     Bind [] ''setValue'' [PInt] RVoid [OnObject QProgressBar, OnObject QProgressDialog]]"

definition meth_qtwidgets_2_71 :: "binding list" where
  "meth_qtwidgets_2_71 = [
     Bind [TypeM QTWIDGETS_QLAYOUT] ''setVerticalSizeConstraint'' [PConv ''QLayout::SizeConstraint''] RVoid [OnObject QLayout],
     Bind [TypeM ''QTWIDGETS_QLISTVIEW''] ''setViewMode'' [PConv ''QListView::ViewMode''] RVoid [OnObject QListView],
     Bind [TypeM ''QTWIDGETS_QMDIAREA''] ''setViewMode'' [PConv ''QMdiArea::ViewMode''] RVoid [OnObject QMdiArea],
     Bind [] ''setVisible'' [PBool] RVoid [OnObject QHeaderView, OnObject QInputDialog, OnObject ''QMenuBar''],
     Bind [EnumM ''QT_WINDOWMODALITY''] ''setWindowModality'' [PConv ''Qt::WindowModality''] RVoid [OnObject QMessageBox],
     Bind [] ''setWindowTitle'' [PString True] RVoid [OnObject QMessageBox]]"

definition meth_qtwidgets_2_72 :: "binding list" where
  "meth_qtwidgets_2_72 = [
     Bind [] ''setWordWrap'' [PBool] RVoid [OnObject ''QLabel'', OnObject QListView],
     Bind [TypeM QTGUI_QTEXTOPTION] ''setWordWrapMode'' [PConv ''QTextOption::WrapMode''] RVoid [OnObject QPlainTextEdit],
     Bind [] ''setWrapping'' [PBool] RVoid [OnObject QListView],
     Bind [] ''showSection'' [PInt] RVoid [OnObject QHeaderView],
     Bind [] ''showShaded'' [] RVoid [OnObject ''QMdiSubWindow''],
     Bind [] ''showSystemMenu'' [] RVoid [OnObject ''QMdiSubWindow''],
     Bind [] ''showTearOffMenu'' [] RVoid [OnObject ''QMenu'']]"

definition meth_qtwidgets_2_73 :: "binding list" where
  "meth_qtwidgets_2_73 = [
     Bind [ValueM QTCORE_QPOINT] ''showTearOffMenu'' [PConv QPoint] RVoid [OnObject ''QMenu''],
     Bind [TypeM QTWIDGETS_QLAYOUT] ''sizeConstraint'' [] (RMeta ''QLayout::SizeConstraint'') [OnObject QLayout],
     Bind [ValueM QTCORE_QSIZE] ''sizeHint'' [] (RValue QSize) [OnObject QHeaderView, OnObject QInputDialog, OnObject QLCDNumber, OnObject ''QLabel'', OnObject QLineEdit, OnObject QMdiArea, OnObject ''QMdiSubWindow'', OnObject ''QMenu'', OnObject ''QMenuBar'', OnObject QProgressBar, OnObject QProgressDialog]]"

definition meth_qtwidgets_2_74 :: "binding list" where
  "meth_qtwidgets_2_74 = [
     Bind [ValueM QTCORE_QMODELINDEX, ValueM QTCORE_QSIZE, ValueM QTWIDGETS_QSTYLEOPTIONVIEWITEM] ''sizeHint'' [PConv QStyleOptionViewItem, PConv QModelIndex] (RValue QSize) [OnObject ''QItemDelegate''],
     Bind [] ''smallDecimalPoint'' [] RBool [OnObject QLCDNumber],
     Bind [EnumM ''QT_SORTORDER''] ''sortIndicatorOrder'' [] (RMeta ''Qt::SortOrder'') [OnObject QHeaderView],
     Bind [] ''sortIndicatorSection'' [] RNumber [OnObject QHeaderView],
     Bind [EnumM ''QT_SORTORDER''] ''sortItems'' [PConv ''Qt::SortOrder''] RVoid [OnObject ''QListWidget''],
     Bind [] ''spacing'' [] RNumber [OnObject QLayout, OnObject QListView],
     Bind [EnumM QT_ORIENTATION, TypeM ''QTWIDGETS_QDOCKWIDGET''] ''splitDockWidget'' [PNonNull ''QDockWidget*'', PNonNull ''QDockWidget*'', PConv Qt_Orientation] RVoid [OnObject QMainWindow]]"

definition meth_qtwidgets_2_75 :: "binding list" where
  "meth_qtwidgets_2_75 = [
     Bind [TypeM QTWIDGETS_QABSTRACTBUTTON, TypeM QTWIDGETS_QMESSAGEBOX] ''standardButton'' [PNonNull ''QAbstractButton*''] (RMeta QMessageBox_StandardButton) [OnObject QMessageBox],
     Bind [TypeM QTWIDGETS_QMESSAGEBOX] ''standardButtons'' [] (RMeta ''QMessageBox::StandardButtons'') [OnObject QMessageBox],
     Bind [TypeM QTWIDGETS_QMESSAGEBOX, ValueM QTGUI_QPIXMAP] ''standardIcon'' [PConv ''QMessageBox::Icon''] (RValue QPixmap) [Static QMessageBox],
     Bind [ValueM QTGUI_QPALETTE] ''standardPalette'' [] (RValue QPalette) [OnObject ''QProxyStyle''],
     Bind [ValueM QTCORE_QPOINTF] ''startCenterPoint'' [] (RValue QPointF) [OnObject QPinchGesture],
     Bind [TypeM ''QTWIDGETS_QSTATUSBAR''] ''statusBar'' [] RObject [OnObject QMainWindow],
     Bind [] ''stretchLastSection'' [] RBool [OnObject QHeaderView]]"

definition meth_qtwidgets_2_76 :: "binding list" where
  "meth_qtwidgets_2_76 = [
     Bind [] ''stretchSectionCount'' [] RNumber [OnObject QHeaderView],
     Bind [TypeM ''QTWIDGETS_QMDIAREA'', TypeM ''QTWIDGETS_QMDISUBWINDOW''] ''subWindowList'' [PConv ''QMdiArea::WindowOrder''] (RList IObject) [OnObject QMdiArea],
     Bind [EnumM QT_DROPACTIONS] ''supportedDragActions'' [] (RMeta Qt_DropActions) [OnObject ''QListWidget''],
     Bind [] ''swapSections'' [PInt, PInt] RVoid [OnObject QHeaderView],
     Bind [TypeM ''QTWIDGETS_QMENU''] ''systemMenu'' [] RObject [OnObject ''QMdiSubWindow''],
     Bind [] ''tabChangesFocus'' [] RBool [OnObject QPlainTextEdit],
     Bind [TypeM ''QTWIDGETS_QTABWIDGET''] ''tabPosition'' [] (RMeta ''QTabWidget::TabPosition'') [OnObject QMdiArea]]"

definition meth_qtwidgets_2_77 :: "binding list" where
  "meth_qtwidgets_2_77 = [
     Bind [EnumM ''QT_DOCKWIDGETAREA'', TypeM ''QTWIDGETS_QTABWIDGET''] ''tabPosition'' [PConv ''Qt::DockWidgetArea''] (RMeta ''QTabWidget::TabPosition'') [OnObject QMainWindow],
     Bind [TypeM ''QTWIDGETS_QTABWIDGET''] ''tabShape'' [] (RMeta ''QTabWidget::TabShape'') [OnObject QMainWindow, OnObject QMdiArea],
     Bind [] ''tabStopDistance'' [] RNumber [OnObject QPlainTextEdit],
     Bind [TypeM ''QTWIDGETS_QDOCKWIDGET''] ''tabifiedDockWidgets'' [PNonNull ''QDockWidget*''] (RList IObject) [OnObject QMainWindow],
     Bind [TypeM ''QTWIDGETS_QDOCKWIDGET''] ''tabifyDockWidget'' [PNonNull ''QDockWidget*'', PNonNull ''QDockWidget*''] RVoid [OnObject QMainWindow],
     Bind [] ''tabsClosable'' [] RBool [OnObject QMdiArea],
     Bind [] ''tabsMovable'' [] RBool [OnObject QMdiArea]]"

definition meth_qtwidgets_2_78 :: "binding list" where
  "meth_qtwidgets_2_78 = [
     Bind [TypeM QTWIDGETS_QWIDGET] ''takeCentralWidget'' [] RObject [OnObject QMainWindow],
     Bind [TypeM ''QTWIDGETS_QINPUTDIALOG''] ''testOption'' [PConv ''QInputDialog::InputDialogOption''] RBool [OnObject QInputDialog],
     Bind [TypeM ''QTWIDGETS_QMDIAREA''] ''testOption'' [PConv ''QMdiArea::AreaOption''] RBool [OnObject QMdiArea],
     Bind [TypeM ''QTWIDGETS_QMDISUBWINDOW''] ''testOption'' [PConv ''QMdiSubWindow::SubWindowOption''] RBool [OnObject ''QMdiSubWindow''],
     Bind [TypeM QTWIDGETS_QMESSAGEBOX] ''testOption'' [PConv ''QMessageBox::Option''] RBool [OnObject QMessageBox],
     Bind [] ''text'' [] RString [OnObject ''QLabel'', OnObject QLineEdit, OnObject QMessageBox, OnObject QProgressBar]]"

definition meth_qtwidgets_2_79 :: "binding list" where
  "meth_qtwidgets_2_79 = [
     Bind [ValueM QTGUI_QTEXTCURSOR] ''textCursor'' [] (RValue QTextCursor) [OnObject QPlainTextEdit],
     Bind [TypeM ''QTWIDGETS_QLINEEDIT''] ''textEchoMode'' [] (RMeta ''QLineEdit::EchoMode'') [OnObject QInputDialog],
     Bind [EnumM ''QT_TEXTFORMAT''] ''textFormat'' [] (RMeta ''Qt::TextFormat'') [OnObject ''QLabel'', OnObject QMessageBox],
     Bind [ValueM QTCORE_QMARGINS] ''textMargins'' [] (RValue QMargins) [OnObject QLineEdit],
     Bind [] ''textValue'' [] RString [OnObject QInputDialog],
     Bind [] ''tileSubWindows'' [] RVoid [OnObject QMdiArea],
     Bind [] ''title'' [] RString [OnObject ''QGroupBox'', OnObject ''QMenu'']]"

definition meth_qtwidgets_2_80 :: "binding list" where
  "meth_qtwidgets_2_80 = [
     Bind [] ''toPlainText'' [] RString [OnObject QPlainTextEdit],
     Bind [EnumM ''QT_TOOLBARAREA'', TypeM ''QTWIDGETS_QTOOLBAR''] ''toolBarArea'' [PNonNull ''QToolBar*''] (RMeta ''Qt::ToolBarArea'') [OnObject QMainWindow],
     Bind [TypeM ''QTWIDGETS_QTOOLBAR''] ''toolBarBreak'' [PNonNull ''QToolBar*''] RBool [OnObject QMainWindow],
     Bind [EnumM ''QT_TOOLBUTTONSTYLE''] ''toolButtonStyle'' [] (RMeta ''Qt::ToolButtonStyle'') [OnObject QMainWindow],
     Bind [] ''toolTipsVisible'' [] RBool [OnObject ''QMenu''],
     Bind [] ''totalHeightForWidth'' [PInt] RNumber [OnObject QLayout],
     Bind [ValueM QTCORE_QSIZE] ''totalMaximumSize'' [] (RValue QSize) [OnObject QLayout]]"

definition meth_qtwidgets_2_81 :: "binding list" where
  "meth_qtwidgets_2_81 = [
     Bind [ValueM QTCORE_QSIZE] ''totalMinimumSize'' [] (RValue QSize) [OnObject QLayout],
     Bind [] ''totalRotationAngle'' [] RNumber [OnObject QPinchGesture],
     Bind [] ''totalScaleFactor'' [] RNumber [OnObject QPinchGesture],
     Bind [ValueM QTCORE_QSIZE] ''totalSizeHint'' [] (RValue QSize) [OnObject QLayout],
     Bind [] ''undo'' [] RVoid [OnObject QLineEdit, OnObject QPlainTextEdit],
     Bind [] ''unifiedTitleAndToolBarOnMac'' [] RBool [OnObject QMainWindow],
     Bind [] ''uniformItemSizes'' [] RBool [OnObject QListView]]"

definition meth_qtwidgets_2_82 :: "binding list" where
  "meth_qtwidgets_2_82 = [
     Bind [TypeM ''QTWIDGETS_QAPPLICATION''] ''unpolish'' [PNonNull ''QApplication*''] RVoid [OnObject ''QProxyStyle''],
     Bind [TypeM QTWIDGETS_QWIDGET] ''unpolish'' [PNonNull QWidget_ptr] RVoid [OnObject ''QProxyStyle''],
     Bind [] ''unsetContentsMargins'' [] RVoid [OnObject QLayout],
     Bind [] ''update'' [] RVoid [OnObject QLayout],
     Bind [TypeM QTWIDGETS_QWIDGET, ValueM QTCORE_QMODELINDEX, ValueM QTWIDGETS_QSTYLEOPTIONVIEWITEM] ''updateEditorGeometry'' [PNonNull QWidget_ptr, PConv QStyleOptionViewItem, PConv QModelIndex] RVoid [OnObject ''QItemDelegate''],
     Bind [TypeM ''QTGUI_QVALIDATOR''] ''validator'' [] RObject [OnObject QLineEdit],
     Bind [] ''value'' [] RNumber [OnObject QLCDNumber]]"

definition meth_qtwidgets_2_83 :: "binding list" where
  "meth_qtwidgets_2_83 = [
     Bind [] ''value'' [] RNumber [OnObject QProgressBar, OnObject QProgressDialog],
     Bind [TypeM QTWIDGETS_QLAYOUT] ''verticalSizeConstraint'' [] (RMeta ''QLayout::SizeConstraint'') [OnObject QLayout],
     Bind [TypeM ''QTWIDGETS_QLISTVIEW''] ''viewMode'' [] (RMeta ''QListView::ViewMode'') [OnObject QListView],
     Bind [TypeM ''QTWIDGETS_QMDIAREA''] ''viewMode'' [] (RMeta ''QMdiArea::ViewMode'') [OnObject QMdiArea],
     Bind [] ''visualIndex'' [PInt] RNumber [OnObject QHeaderView],
     Bind [] ''visualIndexAt'' [PInt] RNumber [OnObject QHeaderView],
     Bind [ValueM QTCORE_QMODELINDEX, ValueM QTCORE_QRECT] ''visualRect'' [PConv QModelIndex] (RValue QRect) [OnObject QListView]]"

definition meth_qtwidgets_2_84 :: "binding list" where
  "meth_qtwidgets_2_84 = [
     Bind [TypeM QTWIDGETS_QMESSAGEBOX, TypeM QTWIDGETS_QWIDGET] ''warning'' [PNonNull QWidget_ptr, PString True, PString True, PConv ''QMessageBox::StandardButtons'', PConv QMessageBox_StandardButton] (RMeta QMessageBox_StandardButton) [Static QMessageBox],
     Bind [] ''wasCanceled'' [] RBool [OnObject QProgressDialog],
     Bind [TypeM QTWIDGETS_QWIDGET] ''widget'' [] RObject [OnObject ''QMdiSubWindow''],
     Bind [] ''wordWrap'' [] RBool [OnObject ''QLabel'', OnObject QListView],
     Bind [TypeM QTGUI_QTEXTOPTION] ''wordWrapMode'' [] (RMeta ''QTextOption::WrapMode'') [OnObject QPlainTextEdit],
     Bind [] ''zoomIn'' [PInt] RVoid [OnObject QPlainTextEdit],
     Bind [] ''zoomOut'' [PInt] RVoid [OnObject QPlainTextEdit]]"

definition meth_table_widgets_c :: "(string \<times> shard) list" where
  "meth_table_widgets_c = [
     (''qtwidgets_2'', \<lparr>sh_module = ''QtWidgets'', sh_slug = ''QTWIDGETS'',
        sh_bindings = concat [meth_qtwidgets_2_0, meth_qtwidgets_2_1, meth_qtwidgets_2_2, meth_qtwidgets_2_3, meth_qtwidgets_2_4, meth_qtwidgets_2_5, meth_qtwidgets_2_6, meth_qtwidgets_2_7, meth_qtwidgets_2_8, meth_qtwidgets_2_9, meth_qtwidgets_2_10, meth_qtwidgets_2_11, meth_qtwidgets_2_12, meth_qtwidgets_2_13, meth_qtwidgets_2_14, meth_qtwidgets_2_15, meth_qtwidgets_2_16, meth_qtwidgets_2_17, meth_qtwidgets_2_18, meth_qtwidgets_2_19, meth_qtwidgets_2_20, meth_qtwidgets_2_21, meth_qtwidgets_2_22, meth_qtwidgets_2_23, meth_qtwidgets_2_24, meth_qtwidgets_2_25, meth_qtwidgets_2_26, meth_qtwidgets_2_27, meth_qtwidgets_2_28, meth_qtwidgets_2_29, meth_qtwidgets_2_30, meth_qtwidgets_2_31, meth_qtwidgets_2_32, meth_qtwidgets_2_33, meth_qtwidgets_2_34, meth_qtwidgets_2_35, meth_qtwidgets_2_36, meth_qtwidgets_2_37, meth_qtwidgets_2_38, meth_qtwidgets_2_39, meth_qtwidgets_2_40, meth_qtwidgets_2_41, meth_qtwidgets_2_42, meth_qtwidgets_2_43, meth_qtwidgets_2_44, meth_qtwidgets_2_45, meth_qtwidgets_2_46, meth_qtwidgets_2_47, meth_qtwidgets_2_48, meth_qtwidgets_2_49, meth_qtwidgets_2_50, meth_qtwidgets_2_51, meth_qtwidgets_2_52, meth_qtwidgets_2_53, meth_qtwidgets_2_54, meth_qtwidgets_2_55, meth_qtwidgets_2_56, meth_qtwidgets_2_57, meth_qtwidgets_2_58, meth_qtwidgets_2_59, meth_qtwidgets_2_60, meth_qtwidgets_2_61, meth_qtwidgets_2_62, meth_qtwidgets_2_63, meth_qtwidgets_2_64, meth_qtwidgets_2_65, meth_qtwidgets_2_66, meth_qtwidgets_2_67, meth_qtwidgets_2_68, meth_qtwidgets_2_69, meth_qtwidgets_2_70, meth_qtwidgets_2_71, meth_qtwidgets_2_72, meth_qtwidgets_2_73, meth_qtwidgets_2_74, meth_qtwidgets_2_75, meth_qtwidgets_2_76, meth_qtwidgets_2_77, meth_qtwidgets_2_78, meth_qtwidgets_2_79, meth_qtwidgets_2_80, meth_qtwidgets_2_81, meth_qtwidgets_2_82, meth_qtwidgets_2_83, meth_qtwidgets_2_84]\<rparr>)]"

lemmas meth_table_widgets_c_defs =
  meth_qtwidgets_2_0_def meth_qtwidgets_2_1_def meth_qtwidgets_2_2_def meth_qtwidgets_2_3_def
  meth_qtwidgets_2_4_def meth_qtwidgets_2_5_def meth_qtwidgets_2_6_def meth_qtwidgets_2_7_def
  meth_qtwidgets_2_8_def meth_qtwidgets_2_9_def meth_qtwidgets_2_10_def meth_qtwidgets_2_11_def
  meth_qtwidgets_2_12_def meth_qtwidgets_2_13_def meth_qtwidgets_2_14_def meth_qtwidgets_2_15_def
  meth_qtwidgets_2_16_def meth_qtwidgets_2_17_def meth_qtwidgets_2_18_def meth_qtwidgets_2_19_def
  meth_qtwidgets_2_20_def meth_qtwidgets_2_21_def meth_qtwidgets_2_22_def meth_qtwidgets_2_23_def
  meth_qtwidgets_2_24_def meth_qtwidgets_2_25_def meth_qtwidgets_2_26_def meth_qtwidgets_2_27_def
  meth_qtwidgets_2_28_def meth_qtwidgets_2_29_def meth_qtwidgets_2_30_def meth_qtwidgets_2_31_def
  meth_qtwidgets_2_32_def meth_qtwidgets_2_33_def meth_qtwidgets_2_34_def meth_qtwidgets_2_35_def
  meth_qtwidgets_2_36_def meth_qtwidgets_2_37_def meth_qtwidgets_2_38_def meth_qtwidgets_2_39_def
  meth_qtwidgets_2_40_def meth_qtwidgets_2_41_def meth_qtwidgets_2_42_def meth_qtwidgets_2_43_def
  meth_qtwidgets_2_44_def meth_qtwidgets_2_45_def meth_qtwidgets_2_46_def meth_qtwidgets_2_47_def
  meth_qtwidgets_2_48_def meth_qtwidgets_2_49_def meth_qtwidgets_2_50_def meth_qtwidgets_2_51_def
  meth_qtwidgets_2_52_def meth_qtwidgets_2_53_def meth_qtwidgets_2_54_def meth_qtwidgets_2_55_def
  meth_qtwidgets_2_56_def meth_qtwidgets_2_57_def meth_qtwidgets_2_58_def meth_qtwidgets_2_59_def
  meth_qtwidgets_2_60_def meth_qtwidgets_2_61_def meth_qtwidgets_2_62_def meth_qtwidgets_2_63_def
  meth_qtwidgets_2_64_def meth_qtwidgets_2_65_def meth_qtwidgets_2_66_def meth_qtwidgets_2_67_def
  meth_qtwidgets_2_68_def meth_qtwidgets_2_69_def meth_qtwidgets_2_70_def meth_qtwidgets_2_71_def
  meth_qtwidgets_2_72_def meth_qtwidgets_2_73_def meth_qtwidgets_2_74_def meth_qtwidgets_2_75_def
  meth_qtwidgets_2_76_def meth_qtwidgets_2_77_def meth_qtwidgets_2_78_def meth_qtwidgets_2_79_def
  meth_qtwidgets_2_80_def meth_qtwidgets_2_81_def meth_qtwidgets_2_82_def meth_qtwidgets_2_83_def
  meth_qtwidgets_2_84_def

lemma meth_table_widgets_c_object_blocks: "list_all (\<lambda>(s, sh). object_blocks sh) meth_table_widgets_c"
  by (simp add: meth_table_widgets_c_def meth_table_widgets_c_defs object_blocks_def object_shard_def; (simp add: parameter_text_def qt_name_defs)?)

end
