(* ===== verification/Methods_Widgets_D.thy ===== *)
theory Methods_Widgets_D
  imports Shard_Methods Qt_Names
begin

text \<open>
  Tables of the method shards (generated\_methods): the blocks of every shard in the file's order.
\<close>

definition meth_qtwidgets_3_0 :: "binding list" where
  "meth_qtwidgets_3_0 = [
     Bind [] ''accessibleTabName'' [PInt] RString [OnObject QTabBar],
     Bind [TypeM ''QTWIDGETS_QSCROLLER''] ''activeScrollers'' [] (RList IObject) [Static ''QScroller''],
     Bind [TypeM QTWIDGETS_QWIDGET] ''addPermanentWidget'' [PNonNull QWidget_ptr, PInt] RVoid [OnObject ''QStatusBar''],
     Bind [ValueM QTGUI_QICON] ''addTab'' [PConv QIcon, PString True] RNumber [OnObject QTabBar],
     Bind [] ''addTab'' [PString True] RNumber [OnObject QTabBar],
     Bind [TypeM QTWIDGETS_QWIDGET, ValueM QTGUI_QICON] ''addTab'' [PNonNull QWidget_ptr, PConv QIcon, PString True] RNumber [OnObject QTabWidget]]"

definition meth_qtwidgets_3_1 :: "binding list" where
  "meth_qtwidgets_3_1 = [
     Bind [TypeM QTWIDGETS_QWIDGET] ''addTab'' [PNonNull QWidget_ptr, PString True] RNumber [OnObject QTabWidget],
     Bind [TypeM QTWIDGETS_QWIDGET] ''addWidget'' [PNonNull QWidget_ptr] RNumber [OnObject ''QStackedWidget''],
     Bind [TypeM QTWIDGETS_QWIDGET] ''addWidget'' [PNonNull QWidget_ptr] RVoid [OnObject QSplitter],
     Bind [TypeM QTWIDGETS_QWIDGET] ''addWidget'' [PNonNull QWidget_ptr, PInt] RVoid [OnObject ''QStatusBar''],
     Bind [] ''autoDefault'' [] RBool [OnObject ''QPushButton''],
     Bind [] ''autoHide'' [] RBool [OnObject QTabBar],
     Bind [] ''changeCurrentOnDrag'' [] RBool [OnObject QTabBar]]"

definition meth_qtwidgets_3_2 :: "binding list" where
  "meth_qtwidgets_3_2 = [
     Bind [] ''childrenCollapsible'' [] RBool [OnObject QSplitter],
     Bind [] ''cleanText'' [] RString [OnObject ''QSpinBox''],
     Bind [] ''clear'' [] RVoid [OnObject QTabWidget],
     Bind [] ''clearMessage'' [] RVoid [OnObject ''QSplashScreen'', OnObject ''QStatusBar''],
     Bind [TypeM ''QTWIDGETS_QMENU''] ''contextMenu'' [] RObject [OnObject QSystemTrayIcon],
     Bind [EnumM ''QT_CORNER'', TypeM QTWIDGETS_QWIDGET] ''cornerWidget'' [PConv ''Qt::Corner''] RObject [OnObject QTabWidget]]"

definition meth_qtwidgets_3_3 :: "binding list" where
  "meth_qtwidgets_3_3 = [
     Bind [] ''count'' [] RNumber [OnObject QSplitter, OnObject ''QStackedLayout'', OnObject ''QStackedWidget'', OnObject QTabBar, OnObject QTabWidget],
     Bind [TypeM QTWIDGETS_QSTYLE] ''create'' [PString True] RObject [Static ''QStyleFactory''],
     Bind [TypeM QTWIDGETS_QWIDGET, ValueM QTCORE_QMODELINDEX, ValueM QTWIDGETS_QSTYLEOPTIONVIEWITEM] ''createEditor'' [PNonNull QWidget_ptr, PConv QStyleOptionViewItem, PConv QModelIndex] RObject [OnObject ''QStyledItemDelegate''],
     Bind [TypeM ''QTWIDGETS_QMENU'', ValueM QTCORE_QPOINT] ''createStandardContextMenu'' [PConv QPoint] RObject [OnObject ''QScrollBar''],
     Bind [] ''currentIndex'' [] RNumber [OnObject ''QStackedLayout'', OnObject ''QStackedWidget'', OnObject QTabBar, OnObject QTabWidget]]"

definition meth_qtwidgets_3_4 :: "binding list" where
  "meth_qtwidgets_3_4 = [
     Bind [] ''currentMessage'' [] RString [OnObject ''QStatusBar''],
     Bind [TypeM QTWIDGETS_QWIDGET] ''currentWidget'' [] RObject [OnObject ''QStackedLayout'', OnObject ''QStackedWidget'', OnObject QTabWidget],
     Bind [] ''displayIntegerBase'' [] RNumber [OnObject ''QSpinBox''],
     Bind [ValueM QTCORE_QLOCALE] ''displayText'' [PVariant, PConv QLocale] RString [OnObject ''QStyledItemDelegate''],
     Bind [] ''documentMode'' [] RBool [OnObject QTabBar, OnObject QTabWidget],
     Bind [] ''drawBase'' [] RBool [OnObject QTabBar],
     Bind [EnumM ''QT_TEXTELIDEMODE''] ''elideMode'' [] (RMeta ''Qt::TextElideMode'') [OnObject QTabBar, OnObject QTabWidget]]"

definition meth_qtwidgets_3_5 :: "binding list" where
  "meth_qtwidgets_3_5 = [
     Bind [ValueM QTCORE_QRECTF] ''ensureVisible'' [PConv QRectF, PReal ''qreal'', PReal ''qreal''] RVoid [OnObject ''QScroller''],
     Bind [ValueM QTCORE_QRECTF] ''ensureVisible'' [PConv QRectF, PReal ''qreal'', PReal ''qreal'', PInt] RVoid [OnObject ''QScroller''],
     Bind [] ''ensureVisible'' [PInt, PInt, PInt, PInt] RVoid [OnObject ''QScrollArea''],
     Bind [TypeM QTWIDGETS_QWIDGET] ''ensureWidgetVisible'' [PNonNull QWidget_ptr, PInt, PInt] RVoid [OnObject ''QScrollArea''],
     Bind [] ''expanding'' [] RBool [OnObject QTabBar],
     Bind [ValueM QTCORE_QPOINTF] ''finalPosition'' [] (RValue QPointF) [OnObject ''QScroller'']]"

definition meth_qtwidgets_3_6 :: "binding list" where
  "meth_qtwidgets_3_6 = [
     Bind [TypeM QTWIDGETS_QWIDGET] ''finish'' [PNonNull QWidget_ptr] RVoid [OnObject ''QSplashScreen''],
     Bind [] ''focusNextPrevChild'' [PBool] RBool [OnObject ''QScrollArea''],
     Bind [ValueM QTCORE_QRECT] ''geometry'' [] (RValue QRect) [OnObject QSystemTrayIcon],
     Bind [EnumM ''QT_GESTURETYPE'', TypeM QTCORE_QOBJECT, TypeM ''QTWIDGETS_QSCROLLER''] ''grabGesture'' [PNonNull QObject_ptr, PConv ''QScroller::ScrollerGestureType''] (RMeta ''Qt::GestureType'') [Static ''QScroller''],
     Bind [EnumM ''QT_GESTURETYPE'', TypeM QTCORE_QOBJECT] ''grabbedGesture'' [PNonNull QObject_ptr] (RMeta ''Qt::GestureType'') [Static ''QScroller''],
     Bind [TypeM ''QTWIDGETS_QSPLITTERHANDLE''] ''handle'' [PInt] RObject [OnObject QSplitter]]"

definition meth_qtwidgets_3_7 :: "binding list" where
  "meth_qtwidgets_3_7 = [
     Bind [TypeM ''QTWIDGETS_QSCROLLER'', ValueM QTCORE_QPOINTF] ''handleInput'' [PConv ''QScroller::Input'', PConv QPointF, PWide ''qint64''] RBool [OnObject ''QScroller''],
     Bind [] ''handleWidth'' [] RNumber [OnObject QSplitter],
     Bind [] ''hasHeightForWidth'' [] RBool [OnObject ''QStackedLayout'', OnObject QTabWidget],
     Bind [TypeM QTCORE_QOBJECT] ''hasScroller'' [PNonNull QObject_ptr] RBool [Static ''QScroller''],
     Bind [] ''heightForWidth'' [PInt] RNumber [OnObject ''QStackedLayout'', OnObject QTabWidget],
     Bind [] ''hide'' [] RVoid [OnObject QSystemTrayIcon],
     Bind [TypeM ''QTWIDGETS_QSWIPEGESTURE''] ''horizontalDirection'' [] (RMeta ''QSwipeGesture::SwipeDirection'') [OnObject ''QSwipeGesture'']]"

definition meth_qtwidgets_3_8 :: "binding list" where
  "meth_qtwidgets_3_8 = [
     Bind [ValueM QTGUI_QICON] ''icon'' [] (RValue QIcon) [OnObject QSystemTrayIcon],
     Bind [ValueM QTCORE_QSIZE] ''iconSize'' [] (RValue QSize) [OnObject QTabBar, OnObject QTabWidget],
     Bind [TypeM QTWIDGETS_QWIDGET] ''indexOf'' [PNonNull QWidget_ptr] RNumber [OnObject QSplitter, OnObject ''QStackedWidget'', OnObject QTabWidget],
     Bind [TypeM QTWIDGETS_QWIDGET] ''insertPermanentWidget'' [PInt, PNonNull QWidget_ptr, PInt] RNumber [OnObject ''QStatusBar''],
     Bind [ValueM QTGUI_QICON] ''insertTab'' [PInt, PConv QIcon, PString True] RNumber [OnObject QTabBar]]"

definition meth_qtwidgets_3_9 :: "binding list" where
  "meth_qtwidgets_3_9 = [
     Bind [] ''insertTab'' [PInt, PString True] RNumber [OnObject QTabBar],
     Bind [TypeM QTWIDGETS_QWIDGET, ValueM QTGUI_QICON] ''insertTab'' [PInt, PNonNull QWidget_ptr, PConv QIcon, PString True] RNumber [OnObject QTabWidget],
     Bind [TypeM QTWIDGETS_QWIDGET] ''insertTab'' [PInt, PNonNull QWidget_ptr, PString True] RNumber [OnObject QTabWidget],
     Bind [TypeM QTWIDGETS_QWIDGET] ''insertWidget'' [PInt, PNonNull QWidget_ptr] RNumber [OnObject ''QStackedWidget''],
     Bind [TypeM QTWIDGETS_QWIDGET] ''insertWidget'' [PInt, PNonNull QWidget_ptr] RVoid [OnObject QSplitter]]"

definition meth_qtwidgets_3_10 :: "binding list" where
  "meth_qtwidgets_3_10 = [
     Bind [TypeM QTWIDGETS_QWIDGET] ''insertWidget'' [PInt, PNonNull QWidget_ptr, PInt] RNumber [OnObject ''QStatusBar''],
     Bind [] ''isCollapsible'' [PInt] RBool [OnObject QSplitter],
     Bind [] ''isDefault'' [] RBool [OnObject ''QPushButton''],
     Bind [] ''isFlat'' [] RBool [OnObject ''QPushButton''],
     Bind [] ''isMovable'' [] RBool [OnObject QTabBar, OnObject QTabWidget],
     Bind [] ''isSizeGripEnabled'' [] RBool [OnObject ''QStatusBar''],
     Bind [] ''isSystemTrayAvailable'' [] RBool [Static QSystemTrayIcon]]"

definition meth_qtwidgets_3_11 :: "binding list" where
  "meth_qtwidgets_3_11 = [
     Bind [] ''isTabEnabled'' [PInt] RBool [OnObject QTabBar, OnObject QTabWidget],
     Bind [] ''isTabVisible'' [PInt] RBool [OnObject QTabBar, OnObject QTabWidget],
     Bind [] ''isVisible'' [] RBool [OnObject QSystemTrayIcon],
     Bind [ValueM QTCORE_QRECT, ValueM QTGUI_QPIXMAP] ''itemPixmapRect'' [PConv QRect, PInt, PConv QPixmap] (RValue QRect) [OnObject ''QStyle''],
     Bind [ValueM QTCORE_QRECT, ValueM ''QTGUI_QFONTMETRICS''] ''itemTextRect'' [PConv QFontMetrics, PConv QRect, PInt, PBool, PString True] (RValue QRect) [OnObject ''QStyle''],
     Bind [] ''keys'' [] (RList (IMeta QString)) [Static ''QStyleFactory'']]"

definition meth_qtwidgets_3_12 :: "binding list" where
  "meth_qtwidgets_3_12 = [
     Bind [ValueM QTGUI_QTRANSFORM] ''levelOfDetailFromTransform'' [PConv QTransform] RNumber [Static ''QStyleOptionGraphicsItem''],
     Bind [] ''maximum'' [] RNumber [OnObject ''QSpinBox''],
     Bind [TypeM ''QTWIDGETS_QMENU''] ''menu'' [] RObject [OnObject ''QPushButton''],
     Bind [] ''message'' [] RString [OnObject ''QSplashScreen''],
     Bind [] ''minimum'' [] RNumber [OnObject ''QSpinBox''],
     Bind [ValueM QTCORE_QSIZE] ''minimumSize'' [] (RValue QSize) [OnObject ''QStackedLayout'']]"

definition meth_qtwidgets_3_13 :: "binding list" where
  "meth_qtwidgets_3_13 = [
     Bind [ValueM QTCORE_QSIZE] ''minimumSizeHint'' [] (RValue QSize) [OnObject ''QPushButton'', OnObject ''QRadioButton'', OnObject ''QSlider'', OnObject QSplitter, OnObject QTabBar, OnObject QTabWidget],
     Bind [ValueM QTCORE_QPOINT] ''move'' [PConv QPoint] RVoid [OnObject ''QRubberBand''],
     Bind [] ''move'' [PInt, PInt] RVoid [OnObject ''QRubberBand''],
     Bind [] ''moveTab'' [PInt, PInt] RVoid [OnObject QTabBar],
     Bind [] ''name'' [] RString [OnObject ''QStyle'']]"

definition meth_qtwidgets_3_14 :: "binding list" where
  "meth_qtwidgets_3_14 = [
     Bind [] ''opaqueResize'' [] RBool [OnObject QSplitter, OnObject ''QSplitterHandle''],
     Bind [EnumM QT_ORIENTATION] ''orientation'' [] (RMeta Qt_Orientation) [OnObject QSplitter, OnObject ''QSplitterHandle''],
     Bind [ValueM QTCORE_QPOINTF] ''pixelPerMeter'' [] (RValue QPointF) [OnObject ''QScroller''],
     Bind [ValueM QTGUI_QPIXMAP] ''pixmap'' [] (RValue QPixmap) [OnObject ''QSplashScreen''],
     Bind [TypeM ''QTWIDGETS_QAPPLICATION''] ''polish'' [PNonNull ''QApplication*''] RVoid [OnObject ''QStyle''],
     Bind [TypeM QTWIDGETS_QWIDGET] ''polish'' [PNonNull QWidget_ptr] RVoid [OnObject ''QStyle''],
     Bind [] ''prefix'' [] RString [OnObject ''QSpinBox'']]"

definition meth_qtwidgets_3_15 :: "binding list" where
  "meth_qtwidgets_3_15 = [
     Bind [TypeM QTWIDGETS_QSTYLE] ''proxy'' [] RObject [OnObject ''QStyle''],
     Bind [] ''refresh'' [] RVoid [OnObject QSplitter],
     Bind [] ''removeTab'' [PInt] RVoid [OnObject QTabBar, OnObject QTabWidget],
     Bind [TypeM QTWIDGETS_QWIDGET] ''removeWidget'' [PNonNull QWidget_ptr] RVoid [OnObject ''QStackedWidget'', OnObject ''QStatusBar''],
     Bind [] ''repaint'' [] RVoid [OnObject ''QSplashScreen''],
     Bind [TypeM QTWIDGETS_QWIDGET] ''replaceWidget'' [PInt, PNonNull QWidget_ptr] RObject [OnObject QSplitter]]"

definition meth_qtwidgets_3_16 :: "binding list" where
  "meth_qtwidgets_3_16 = [
     Bind [] ''resendPrepareEvent'' [] RVoid [OnObject ''QScroller''],
     Bind [ValueM QTCORE_QSIZE] ''resize'' [PConv QSize] RVoid [OnObject ''QRubberBand''],
     Bind [] ''resize'' [PInt, PInt] RVoid [OnObject ''QRubberBand''],
     Bind [ValueM QTCORE_QBYTEARRAY] ''restoreState'' [PConv QByteArray] RBool [OnObject QSplitter],
     Bind [ValueM QTCORE_QBYTEARRAY] ''saveState'' [] (RValue QByteArray) [OnObject QSplitter],
     Bind [ValueM QTCORE_QPOINTF] ''scrollTo'' [PConv QPointF] RVoid [OnObject ''QScroller''],
     Bind [ValueM QTCORE_QPOINTF] ''scrollTo'' [PConv QPointF, PInt] RVoid [OnObject ''QScroller'']]"

definition meth_qtwidgets_3_17 :: "binding list" where
  "meth_qtwidgets_3_17 = [
     Bind [TypeM QTCORE_QOBJECT, TypeM ''QTWIDGETS_QSCROLLER''] ''scroller'' [PNonNull QObject_ptr] RObject [Static ''QScroller''],
     Bind [ValueM ''QTWIDGETS_QSCROLLERPROPERTIES''] ''scrollerProperties'' [] (RValue QScrollerProperties) [OnObject ''QScroller''],
     Bind [TypeM ''QTWIDGETS_QTABBAR''] ''selectionBehaviorOnRemove'' [] (RMeta ''QTabBar::SelectionBehavior'') [OnObject QTabBar],
     Bind [] ''setAccessibleTabName'' [PInt, PString True] RVoid [OnObject QTabBar],
     Bind [] ''setAutoDefault'' [PBool] RVoid [OnObject ''QPushButton''],
     Bind [] ''setAutoHide'' [PBool] RVoid [OnObject QTabBar],
     Bind [] ''setChangeCurrentOnDrag'' [PBool] RVoid [OnObject QTabBar]]"

definition meth_qtwidgets_3_18 :: "binding list" where
  "meth_qtwidgets_3_18 = [
     Bind [] ''setChildrenCollapsible'' [PBool] RVoid [OnObject QSplitter],
     Bind [] ''setCollapsible'' [PInt, PBool] RVoid [OnObject QSplitter],
     Bind [TypeM ''QTWIDGETS_QMENU''] ''setContextMenu'' [PNonNull ''QMenu*''] RVoid [OnObject QSystemTrayIcon],
     Bind [EnumM ''QT_CORNER'', TypeM QTWIDGETS_QWIDGET] ''setCornerWidget'' [PNonNull QWidget_ptr, PConv ''Qt::Corner''] RVoid [OnObject QTabWidget],
     Bind [] ''setCurrentIndex'' [PInt] RVoid [OnObject ''QStackedLayout'', OnObject ''QStackedWidget'', OnObject QTabBar, OnObject QTabWidget]]"

definition meth_qtwidgets_3_19 :: "binding list" where
  "meth_qtwidgets_3_19 = [
     Bind [TypeM QTWIDGETS_QWIDGET] ''setCurrentWidget'' [PNonNull QWidget_ptr] RVoid [OnObject ''QStackedLayout'', OnObject ''QStackedWidget'', OnObject QTabWidget],
     Bind [] ''setDefault'' [PBool] RVoid [OnObject ''QPushButton''],
     Bind [ValueM ''QTWIDGETS_QSCROLLERPROPERTIES''] ''setDefaultScrollerProperties'' [PConv QScrollerProperties] RVoid [Static QScrollerProperties],
     Bind [] ''setDisplayIntegerBase'' [PInt] RVoid [OnObject ''QSpinBox''],
     Bind [] ''setDocumentMode'' [PBool] RVoid [OnObject QTabBar, OnObject QTabWidget],
     Bind [] ''setDrawBase'' [PBool] RVoid [OnObject QTabBar]]"

definition meth_qtwidgets_3_20 :: "binding list" where
  "meth_qtwidgets_3_20 = [
     Bind [TypeM QTWIDGETS_QWIDGET, ValueM QTCORE_QMODELINDEX] ''setEditorData'' [PNonNull QWidget_ptr, PConv QModelIndex] RVoid [OnObject ''QStyledItemDelegate''],
     Bind [EnumM ''QT_TEXTELIDEMODE''] ''setElideMode'' [PConv ''Qt::TextElideMode''] RVoid [OnObject QTabBar, OnObject QTabWidget],
     Bind [] ''setExpanding'' [PBool] RVoid [OnObject QTabBar],
     Bind [] ''setFlat'' [PBool] RVoid [OnObject ''QPushButton''],
     Bind [ValueM QTCORE_QRECT] ''setGeometry'' [PConv QRect] RVoid [OnObject ''QRubberBand'', OnObject ''QStackedLayout'']]"

definition meth_qtwidgets_3_21 :: "binding list" where
  "meth_qtwidgets_3_21 = [
     Bind [] ''setGeometry'' [PInt, PInt, PInt, PInt] RVoid [OnObject ''QRubberBand''],
     Bind [] ''setHandleWidth'' [PInt] RVoid [OnObject QSplitter],
     Bind [ValueM QTGUI_QICON] ''setIcon'' [PConv QIcon] RVoid [OnObject QSystemTrayIcon],
     Bind [ValueM QTCORE_QSIZE] ''setIconSize'' [PConv QSize] RVoid [OnObject QTabBar, OnObject QTabWidget],
     Bind [] ''setMaximum'' [PInt] RVoid [OnObject ''QSpinBox''],
     Bind [TypeM ''QTWIDGETS_QMENU''] ''setMenu'' [PNonNull ''QMenu*''] RVoid [OnObject ''QPushButton'']]"

definition meth_qtwidgets_3_22 :: "binding list" where
  "meth_qtwidgets_3_22 = [
     Bind [] ''setMinimum'' [PInt] RVoid [OnObject ''QSpinBox''],
     Bind [TypeM QTCORE_QABSTRACTITEMMODEL, TypeM QTWIDGETS_QWIDGET, ValueM QTCORE_QMODELINDEX] ''setModelData'' [PNonNull QWidget_ptr, PNonNull QAbstractItemModel_ptr, PConv QModelIndex] RVoid [OnObject ''QStyledItemDelegate''],
     Bind [] ''setMovable'' [PBool] RVoid [OnObject QTabBar, OnObject QTabWidget],
     Bind [] ''setOpaqueResize'' [PBool] RVoid [OnObject QSplitter],
     Bind [EnumM QT_ORIENTATION] ''setOrientation'' [PConv Qt_Orientation] RVoid [OnObject QSplitter, OnObject ''QSplitterHandle''],
     Bind [ValueM QTGUI_QPIXMAP] ''setPixmap'' [PConv QPixmap] RVoid [OnObject ''QSplashScreen'']]"

definition meth_qtwidgets_3_23 :: "binding list" where
  "meth_qtwidgets_3_23 = [
     Bind [] ''setPrefix'' [PString True] RVoid [OnObject ''QSpinBox''],
     Bind [] ''setRange'' [PInt, PInt] RVoid [OnObject ''QSpinBox''],
     Bind [ValueM ''QTWIDGETS_QSCROLLERPROPERTIES''] ''setScrollerProperties'' [PConv QScrollerProperties] RVoid [OnObject ''QScroller''],
     Bind [TypeM ''QTWIDGETS_QTABBAR''] ''setSelectionBehaviorOnRemove'' [PConv ''QTabBar::SelectionBehavior''] RVoid [OnObject QTabBar],
     Bind [TypeM ''QTWIDGETS_QTABBAR''] ''setShape'' [PConv ''QTabBar::Shape''] RVoid [OnObject QTabBar],
     Bind [] ''setSingleStep'' [PInt] RVoid [OnObject ''QSpinBox''],
     Bind [] ''setSizeGripEnabled'' [PBool] RVoid [OnObject ''QStatusBar'']]"

definition meth_qtwidgets_3_24 :: "binding list" where
  "meth_qtwidgets_3_24 = [
     Bind [] ''setSizes'' [PList ''int''] RVoid [OnObject QSplitter],
     Bind [] ''setSnapPositionsX'' [PList ''qreal''] RVoid [OnObject ''QScroller''],
     Bind [] ''setSnapPositionsX'' [PReal ''qreal'', PReal ''qreal''] RVoid [OnObject ''QScroller''],
     Bind [] ''setSnapPositionsY'' [PList ''qreal''] RVoid [OnObject ''QScroller''],
     Bind [] ''setSnapPositionsY'' [PReal ''qreal'', PReal ''qreal''] RVoid [OnObject ''QScroller''],
     Bind [TypeM ''QTWIDGETS_QSTACKEDLAYOUT''] ''setStackingMode'' [PConv ''QStackedLayout::StackingMode''] RVoid [OnObject ''QStackedLayout'']]"

definition meth_qtwidgets_3_25 :: "binding list" where
  "meth_qtwidgets_3_25 = [
     Bind [TypeM ''QTWIDGETS_QABSTRACTSPINBOX''] ''setStepType'' [PConv ''QAbstractSpinBox::StepType''] RVoid [OnObject ''QSpinBox''],
     Bind [] ''setStretchFactor'' [PInt, PInt] RVoid [OnObject QSplitter],
     Bind [] ''setSuffix'' [PString True] RVoid [OnObject ''QSpinBox''],
     Bind [] ''setSwipeAngle'' [PReal ''qreal''] RVoid [OnObject ''QSwipeGesture''],
     Bind [] ''setTabBarAutoHide'' [PBool] RVoid [OnObject QTabWidget],
     Bind [TypeM ''QTWIDGETS_QTABBAR'', TypeM QTWIDGETS_QWIDGET] ''setTabButton'' [PInt, PConv ''QTabBar::ButtonPosition'', PNonNull QWidget_ptr] RVoid [OnObject QTabBar]]"

definition meth_qtwidgets_3_26 :: "binding list" where
  "meth_qtwidgets_3_26 = [
     Bind [] ''setTabData'' [PInt, PVariant] RVoid [OnObject QTabBar],
     Bind [] ''setTabEnabled'' [PInt, PBool] RVoid [OnObject QTabBar, OnObject QTabWidget],
     Bind [ValueM QTGUI_QICON] ''setTabIcon'' [PInt, PConv QIcon] RVoid [OnObject QTabBar, OnObject QTabWidget],
     Bind [TypeM ''QTWIDGETS_QTABWIDGET''] ''setTabPosition'' [PConv ''QTabWidget::TabPosition''] RVoid [OnObject QTabWidget],
     Bind [TypeM ''QTWIDGETS_QTABWIDGET''] ''setTabShape'' [PConv ''QTabWidget::TabShape''] RVoid [OnObject QTabWidget]]"

definition meth_qtwidgets_3_27 :: "binding list" where
  "meth_qtwidgets_3_27 = [
     Bind [] ''setTabText'' [PInt, PString True] RVoid [OnObject QTabBar, OnObject QTabWidget],
     Bind [ValueM QTGUI_QCOLOR] ''setTabTextColor'' [PInt, PConv QColor] RVoid [OnObject QTabBar],
     Bind [] ''setTabToolTip'' [PInt, PString True] RVoid [OnObject QTabBar, OnObject QTabWidget],
     Bind [] ''setTabVisible'' [PInt, PBool] RVoid [OnObject QTabBar, OnObject QTabWidget],
     Bind [] ''setTabWhatsThis'' [PInt, PString True] RVoid [OnObject QTabBar, OnObject QTabWidget]]"

definition meth_qtwidgets_3_28 :: "binding list" where
  "meth_qtwidgets_3_28 = [
     Bind [] ''setTabsClosable'' [PBool] RVoid [OnObject QTabBar, OnObject QTabWidget],
     Bind [] ''setTickInterval'' [PInt] RVoid [OnObject ''QSlider''],
     Bind [TypeM ''QTWIDGETS_QSLIDER''] ''setTickPosition'' [PConv ''QSlider::TickPosition''] RVoid [OnObject ''QSlider''],
     Bind [] ''setToolTip'' [PString True] RVoid [OnObject QSystemTrayIcon],
     Bind [] ''setUsesScrollButtons'' [PBool] RVoid [OnObject QTabBar, OnObject QTabWidget],
     Bind [] ''setValue'' [PInt] RVoid [OnObject ''QSpinBox'']]"

definition meth_qtwidgets_3_29 :: "binding list" where
  "meth_qtwidgets_3_29 = [
     Bind [] ''setVisible'' [PBool] RVoid [OnObject ''QSizeGrip'', OnObject QSystemTrayIcon],
     Bind [TypeM QTWIDGETS_QWIDGET] ''setWidget'' [PNonNull QWidget_ptr] RVoid [OnObject ''QScrollArea''],
     Bind [] ''setWidgetResizable'' [PBool] RVoid [OnObject ''QScrollArea''],
     Bind [TypeM ''QTWIDGETS_QRUBBERBAND''] ''shape'' [] (RMeta ''QRubberBand::Shape'') [OnObject ''QRubberBand''],
     Bind [TypeM ''QTWIDGETS_QTABBAR''] ''shape'' [] (RMeta ''QTabBar::Shape'') [OnObject QTabBar],
     Bind [] ''show'' [] RVoid [OnObject QSystemTrayIcon],
     Bind [] ''showMenu'' [] RVoid [OnObject ''QPushButton'']]"

definition meth_qtwidgets_3_30 :: "binding list" where
  "meth_qtwidgets_3_30 = [
     Bind [ValueM QTGUI_QICON] ''showMessage'' [PString True, PString True, PConv QIcon, PInt] RVoid [OnObject QSystemTrayIcon],
     Bind [TypeM ''QTWIDGETS_QSYSTEMTRAYICON''] ''showMessage'' [PString True, PString True, PConv ''QSystemTrayIcon::MessageIcon'', PInt] RVoid [OnObject QSystemTrayIcon],
     Bind [] ''showMessage'' [PString True, PInt] RVoid [OnObject ''QStatusBar''],
     Bind [ValueM QTGUI_QCOLOR] ''showMessage'' [PString True, PInt, PConv QColor] RVoid [OnObject ''QSplashScreen''],
     Bind [] ''singleStep'' [] RNumber [OnObject ''QSpinBox'']]"

definition meth_qtwidgets_3_31 :: "binding list" where
  "meth_qtwidgets_3_31 = [
     Bind [ValueM QTCORE_QSIZE] ''sizeHint'' [] (RValue QSize) [OnObject ''QPushButton'', OnObject ''QRadioButton'', OnObject ''QScrollArea'', OnObject ''QScrollBar'', OnObject ''QSizeGrip'', OnObject ''QSlider'', OnObject QSplitter, OnObject ''QSplitterHandle'', OnObject ''QStackedLayout'', OnObject QTabBar, OnObject QTabWidget],
     Bind [ValueM QTCORE_QMODELINDEX, ValueM QTCORE_QSIZE, ValueM QTWIDGETS_QSTYLEOPTIONVIEWITEM] ''sizeHint'' [PConv QStyleOptionViewItem, PConv QModelIndex] (RValue QSize) [OnObject ''QStyledItemDelegate''],
     Bind [] ''sizes'' [] (RList (IMeta ''int'')) [OnObject QSplitter]]"

definition meth_qtwidgets_3_32 :: "binding list" where
  "meth_qtwidgets_3_32 = [
     Bind [] ''sliderPositionFromValue'' [PInt, PInt, PInt, PInt, PBool] RNumber [Static ''QStyle''],
     Bind [] ''sliderValueFromPosition'' [PInt, PInt, PInt, PInt, PBool] RNumber [Static ''QStyle''],
     Bind [TypeM ''QTWIDGETS_QSPLITTER''] ''splitter'' [] RObject [OnObject ''QSplitterHandle''],
     Bind [TypeM ''QTWIDGETS_QSTACKEDLAYOUT''] ''stackingMode'' [] (RMeta ''QStackedLayout::StackingMode'') [OnObject ''QStackedLayout''],
     Bind [ValueM QTGUI_QPALETTE] ''standardPalette'' [] (RValue QPalette) [OnObject ''QStyle''],
     Bind [TypeM ''QTWIDGETS_QSCROLLER''] ''state'' [] (RMeta ''QScroller::State'') [OnObject ''QScroller'']]"

definition meth_qtwidgets_3_33 :: "binding list" where
  "meth_qtwidgets_3_33 = [
     Bind [TypeM ''QTWIDGETS_QABSTRACTSPINBOX''] ''stepType'' [] (RMeta ''QAbstractSpinBox::StepType'') [OnObject ''QSpinBox''],
     Bind [] ''stop'' [] RVoid [OnObject ''QScroller''],
     Bind [] ''suffix'' [] RString [OnObject ''QSpinBox''],
     Bind [] ''supportsMessages'' [] RBool [Static QSystemTrayIcon],
     Bind [] ''swipeAngle'' [] RNumber [OnObject ''QSwipeGesture''],
     Bind [ValueM QTCORE_QPOINT] ''tabAt'' [PConv QPoint] RNumber [OnObject QTabBar],
     Bind [TypeM ''QTWIDGETS_QTABBAR''] ''tabBar'' [] RObject [OnObject QTabWidget],
     Bind [] ''tabBarAutoHide'' [] RBool [OnObject QTabWidget]]"

definition meth_qtwidgets_3_34 :: "binding list" where
  "meth_qtwidgets_3_34 = [
     Bind [TypeM ''QTWIDGETS_QTABBAR'', TypeM QTWIDGETS_QWIDGET] ''tabButton'' [PInt, PConv ''QTabBar::ButtonPosition''] RObject [OnObject QTabBar],
     Bind [] ''tabData'' [PInt] RVariant [OnObject QTabBar],
     Bind [ValueM QTGUI_QICON] ''tabIcon'' [PInt] (RValue QIcon) [OnObject QTabBar, OnObject QTabWidget],
     Bind [TypeM ''QTWIDGETS_QTABWIDGET''] ''tabPosition'' [] (RMeta ''QTabWidget::TabPosition'') [OnObject QTabWidget],
     Bind [ValueM QTCORE_QRECT] ''tabRect'' [PInt] (RValue QRect) [OnObject QTabBar],
     Bind [TypeM ''QTWIDGETS_QTABWIDGET''] ''tabShape'' [] (RMeta ''QTabWidget::TabShape'') [OnObject QTabWidget]]"

definition meth_qtwidgets_3_35 :: "binding list" where
  "meth_qtwidgets_3_35 = [
     Bind [] ''tabText'' [PInt] RString [OnObject QTabBar, OnObject QTabWidget],
     Bind [ValueM QTGUI_QCOLOR] ''tabTextColor'' [PInt] (RValue QColor) [OnObject QTabBar],
     Bind [] ''tabToolTip'' [PInt] RString [OnObject QTabBar, OnObject QTabWidget],
     Bind [] ''tabWhatsThis'' [PInt] RString [OnObject QTabBar, OnObject QTabWidget],
     Bind [] ''tabsClosable'' [] RBool [OnObject QTabBar, OnObject QTabWidget],
     Bind [TypeM QTWIDGETS_QWIDGET] ''takeWidget'' [] RObject [OnObject ''QScrollArea'']]"

definition meth_qtwidgets_3_36 :: "binding list" where
  "meth_qtwidgets_3_36 = [
     Bind [TypeM QTCORE_QOBJECT] ''target'' [] RObject [OnObject ''QScroller''],
     Bind [] ''tickInterval'' [] RNumber [OnObject ''QSlider''],
     Bind [TypeM ''QTWIDGETS_QSLIDER''] ''tickPosition'' [] (RMeta ''QSlider::TickPosition'') [OnObject ''QSlider''],
     Bind [] ''toolTip'' [] RString [OnObject QSystemTrayIcon],
     Bind [TypeM QTCORE_QOBJECT] ''ungrabGesture'' [PNonNull QObject_ptr] RVoid [Static ''QScroller''],
     Bind [TypeM ''QTWIDGETS_QAPPLICATION''] ''unpolish'' [PNonNull ''QApplication*''] RVoid [OnObject ''QStyle''],
     Bind [TypeM QTWIDGETS_QWIDGET] ''unpolish'' [PNonNull QWidget_ptr] RVoid [OnObject ''QStyle'']]"

definition meth_qtwidgets_3_37 :: "binding list" where
  "meth_qtwidgets_3_37 = [
     Bind [] ''unsetDefaultScrollerProperties'' [] RVoid [Static QScrollerProperties],
     Bind [TypeM QTWIDGETS_QWIDGET, ValueM QTCORE_QMODELINDEX, ValueM QTWIDGETS_QSTYLEOPTIONVIEWITEM] ''updateEditorGeometry'' [PNonNull QWidget_ptr, PConv QStyleOptionViewItem, PConv QModelIndex] RVoid [OnObject ''QStyledItemDelegate''],
     Bind [] ''usesScrollButtons'' [] RBool [OnObject QTabBar, OnObject QTabWidget],
     Bind [] ''value'' [] RNumber [OnObject ''QSpinBox''],
     Bind [ValueM QTCORE_QPOINTF] ''velocity'' [] (RValue QPointF) [OnObject ''QScroller''],
     Bind [TypeM ''QTWIDGETS_QSWIPEGESTURE''] ''verticalDirection'' [] (RMeta ''QSwipeGesture::SwipeDirection'') [OnObject ''QSwipeGesture'']]"

definition meth_qtwidgets_3_38 :: "binding list" where
  "meth_qtwidgets_3_38 = [
     Bind [EnumM QT_LAYOUTDIRECTION, ValueM QTCORE_QPOINT, ValueM QTCORE_QRECT] ''visualPos'' [PConv Qt_LayoutDirection, PConv QRect, PConv QPoint] (RValue QPoint) [Static ''QStyle''],
     Bind [EnumM QT_LAYOUTDIRECTION, ValueM QTCORE_QRECT] ''visualRect'' [PConv Qt_LayoutDirection, PConv QRect, PConv QRect] (RValue QRect) [Static ''QStyle''],
     Bind [TypeM QTWIDGETS_QWIDGET] ''widget'' [] RObject [OnObject ''QScrollArea''],
     Bind [TypeM QTWIDGETS_QWIDGET] ''widget'' [PInt] RObject [OnObject QSplitter, OnObject ''QStackedLayout'', OnObject ''QStackedWidget'', OnObject QTabWidget],
     Bind [] ''widgetResizable'' [] RBool [OnObject ''QScrollArea'']]"

definition meth_table_widgets_d :: "(string \<times> shard) list" where
  "meth_table_widgets_d = [
     (''qtwidgets_3'', \<lparr>sh_module = ''QtWidgets'', sh_slug = ''QTWIDGETS'',
        sh_bindings = concat [meth_qtwidgets_3_0, meth_qtwidgets_3_1, meth_qtwidgets_3_2, meth_qtwidgets_3_3, meth_qtwidgets_3_4, meth_qtwidgets_3_5, meth_qtwidgets_3_6, meth_qtwidgets_3_7, meth_qtwidgets_3_8, meth_qtwidgets_3_9, meth_qtwidgets_3_10, meth_qtwidgets_3_11, meth_qtwidgets_3_12, meth_qtwidgets_3_13, meth_qtwidgets_3_14, meth_qtwidgets_3_15, meth_qtwidgets_3_16, meth_qtwidgets_3_17, meth_qtwidgets_3_18, meth_qtwidgets_3_19, meth_qtwidgets_3_20, meth_qtwidgets_3_21, meth_qtwidgets_3_22, meth_qtwidgets_3_23, meth_qtwidgets_3_24, meth_qtwidgets_3_25, meth_qtwidgets_3_26, meth_qtwidgets_3_27, meth_qtwidgets_3_28, meth_qtwidgets_3_29, meth_qtwidgets_3_30, meth_qtwidgets_3_31, meth_qtwidgets_3_32, meth_qtwidgets_3_33, meth_qtwidgets_3_34, meth_qtwidgets_3_35, meth_qtwidgets_3_36, meth_qtwidgets_3_37, meth_qtwidgets_3_38]\<rparr>)]"

lemmas meth_table_widgets_d_defs =
  meth_qtwidgets_3_0_def meth_qtwidgets_3_1_def meth_qtwidgets_3_2_def meth_qtwidgets_3_3_def
  meth_qtwidgets_3_4_def meth_qtwidgets_3_5_def meth_qtwidgets_3_6_def meth_qtwidgets_3_7_def
  meth_qtwidgets_3_8_def meth_qtwidgets_3_9_def meth_qtwidgets_3_10_def meth_qtwidgets_3_11_def
  meth_qtwidgets_3_12_def meth_qtwidgets_3_13_def meth_qtwidgets_3_14_def meth_qtwidgets_3_15_def
  meth_qtwidgets_3_16_def meth_qtwidgets_3_17_def meth_qtwidgets_3_18_def meth_qtwidgets_3_19_def
  meth_qtwidgets_3_20_def meth_qtwidgets_3_21_def meth_qtwidgets_3_22_def meth_qtwidgets_3_23_def
  meth_qtwidgets_3_24_def meth_qtwidgets_3_25_def meth_qtwidgets_3_26_def meth_qtwidgets_3_27_def
  meth_qtwidgets_3_28_def meth_qtwidgets_3_29_def meth_qtwidgets_3_30_def meth_qtwidgets_3_31_def
  meth_qtwidgets_3_32_def meth_qtwidgets_3_33_def meth_qtwidgets_3_34_def meth_qtwidgets_3_35_def
  meth_qtwidgets_3_36_def meth_qtwidgets_3_37_def meth_qtwidgets_3_38_def

lemma meth_table_widgets_d_object_blocks: "list_all (\<lambda>(s, sh). object_blocks sh) meth_table_widgets_d"
  by (simp add: meth_table_widgets_d_def meth_table_widgets_d_defs object_blocks_def object_shard_def; (simp add: parameter_text_def qt_name_defs)?)

end
