(* ===== verification/Methods_Widgets_E.thy ===== *)
theory Methods_Widgets_E
  imports Shard_Methods Qt_Names
begin

text \<open>
  Tables of the method shards (generated\_methods): the blocks of every shard in the file's order.
\<close>

definition meth_qtwidgets_4_0 :: "binding list" where
  "meth_qtwidgets_4_0 = [
     Bind [] ''acceptDrops'' [] RBool [OnObject QWidget],
     Bind [] ''acceptRichText'' [] RBool [OnObject QTextEdit],
     Bind [] ''accessibleDescription'' [] RString [OnObject QWidget],
     Bind [] ''accessibleIdentifier'' [] RString [OnObject QWidget],
     Bind [] ''accessibleName'' [] RString [OnObject QWidget],
     Bind [] ''activateWindow'' [] RVoid [OnObject QWidget],
     Bind [TypeM QTWIDGETS_QWIDGET, ValueM QTGUI_QICON] ''addItem'' [PNonNull QWidget_ptr, PConv QIcon, PString True] RNumber [OnObject ''QToolBox''],
     Bind [TypeM QTWIDGETS_QWIDGET] ''addItem'' [PNonNull QWidget_ptr, PString True] RNumber [OnObject ''QToolBox'']]"

definition meth_qtwidgets_4_1 :: "binding list" where
  "meth_qtwidgets_4_1 = [
     Bind [TypeM ''QTWIDGETS_QWIZARDPAGE''] ''addPage'' [PNonNull ''QWizardPage*''] RNumber [OnObject QWizard],
     Bind [] ''adjustSize'' [] RVoid [OnObject QWidget],
     Bind [] ''allColumnsShowFocus'' [] RBool [OnObject QTreeView],
     Bind [EnumM ''QT_TOOLBARAREAS''] ''allowedAreas'' [] (RMeta ''Qt::ToolBarAreas'') [OnObject ''QToolBar''],
     Bind [ValueM QTCORE_QPOINT] ''anchorAt'' [PConv QPoint] RString [OnObject QTextEdit],
     Bind [] ''append'' [PString True] RVoid [OnObject QTextEdit],
     Bind [EnumM ''QT_ARROWTYPE''] ''arrowType'' [] (RMeta ''Qt::ArrowType'') [OnObject ''QToolButton''],
     Bind [] ''autoExpandDelay'' [] RNumber [OnObject QTreeView]]"

definition meth_qtwidgets_4_2 :: "binding list" where
  "meth_qtwidgets_4_2 = [
     Bind [] ''autoFillBackground'' [] RBool [OnObject QWidget],
     Bind [] ''autoRaise'' [] RBool [OnObject ''QToolButton''],
     Bind [] ''back'' [] RVoid [OnObject QWizard],
     Bind [TypeM QTGUI_QPALETTE] ''backgroundRole'' [] (RMeta QPalette_ColorRole) [OnObject QWidget],
     Bind [] ''backward'' [] RVoid [OnObject QTextBrowser],
     Bind [] ''backwardHistoryCount'' [] RNumber [OnObject QTextBrowser],
     Bind [ValueM QTCORE_QSIZE] ''baseSize'' [] (RValue QSize) [OnObject QWidget],
     Bind [TypeM QTWIDGETS_QABSTRACTBUTTON, TypeM ''QTWIDGETS_QWIZARD''] ''button'' [PConv ''QWizard::WizardButton''] RObject [OnObject QWizard]]"

definition meth_qtwidgets_4_3 :: "binding list" where
  "meth_qtwidgets_4_3 = [
     Bind [TypeM ''QTWIDGETS_QWIZARD''] ''buttonText'' [PConv ''QWizard::WizardButton''] RString [OnObject QWizard, OnObject ''QWizardPage''],
     Bind [] ''canPaste'' [] RBool [OnObject QTextEdit],
     Bind [TypeM QTWIDGETS_QWIDGET] ''cellWidget'' [PInt, PInt] RObject [OnObject QTableWidget],
     Bind [TypeM QTWIDGETS_QWIDGET, ValueM QTCORE_QPOINT] ''childAt'' [PConv QPoint] RObject [OnObject QWidget],
     Bind [TypeM QTWIDGETS_QWIDGET, ValueM QTCORE_QPOINTF] ''childAt'' [PConv QPointF] RObject [OnObject QWidget],
     Bind [TypeM QTWIDGETS_QWIDGET] ''childAt'' [PInt, PInt] RObject [OnObject QWidget]]"

definition meth_qtwidgets_4_4 :: "binding list" where
  "meth_qtwidgets_4_4 = [
     Bind [ValueM QTCORE_QRECT] ''childrenRect'' [] (RValue QRect) [OnObject QWidget],
     Bind [ValueM QTGUI_QREGION] ''childrenRegion'' [] (RValue QRegion) [OnObject QWidget],
     Bind [ValueM QTGUI_QICON] ''cleanIcon'' [] (RValue QIcon) [OnObject ''QUndoView''],
     Bind [] ''cleanupPage'' [] RVoid [OnObject ''QWizardPage''],
     Bind [] ''clear'' [] RVoid [OnObject QTableWidget, OnObject QTextEdit, OnObject ''QToolBar'', OnObject ''QTreeWidget''],
     Bind [] ''clearContents'' [] RVoid [OnObject QTableWidget],
     Bind [] ''clearFocus'' [] RVoid [OnObject QWidget]]"

definition meth_qtwidgets_4_5 :: "binding list" where
  "meth_qtwidgets_4_5 = [
     Bind [] ''clearHistory'' [] RVoid [OnObject QTextBrowser],
     Bind [] ''clearMask'' [] RVoid [OnObject QWidget],
     Bind [] ''clearSpans'' [] RVoid [OnObject QTableView],
     Bind [] ''close'' [] RBool [OnObject QWidget],
     Bind [ValueM QTCORE_QMODELINDEX] ''collapse'' [PConv QModelIndex] RVoid [OnObject QTreeView],
     Bind [] ''collapseAll'' [] RVoid [OnObject QTreeView],
     Bind [] ''columnAt'' [PInt] RNumber [OnObject QTableView, OnObject QTreeView]]"

definition meth_qtwidgets_4_6 :: "binding list" where
  "meth_qtwidgets_4_6 = [
     Bind [] ''columnCount'' [] RNumber [OnObject QTableWidget, OnObject ''QTreeWidget''],
     Bind [] ''columnSpan'' [PInt, PInt] RNumber [OnObject QTableView],
     Bind [] ''columnViewportPosition'' [PInt] RNumber [OnObject QTableView, OnObject QTreeView],
     Bind [] ''columnWidth'' [PInt] RNumber [OnObject QTableView, OnObject QTreeView],
     Bind [ValueM QTCORE_QMARGINS] ''contentsMargins'' [] (RValue QMargins) [OnObject QWidget],
     Bind [ValueM QTCORE_QRECT] ''contentsRect'' [] (RValue QRect) [OnObject QWidget]]"

definition meth_qtwidgets_4_7 :: "binding list" where
  "meth_qtwidgets_4_7 = [
     Bind [EnumM ''QT_CONTEXTMENUPOLICY''] ''contextMenuPolicy'' [] (RMeta ''Qt::ContextMenuPolicy'') [OnObject QWidget],
     Bind [] ''copy'' [] RVoid [OnObject QTextEdit],
     Bind [] ''count'' [] RNumber [OnObject ''QToolBox''],
     Bind [TypeM ''QTWIDGETS_QMENU''] ''createStandardContextMenu'' [] RObject [OnObject QTextEdit],
     Bind [TypeM ''QTWIDGETS_QMENU'', ValueM QTCORE_QPOINT] ''createStandardContextMenu'' [PConv QPoint] RObject [OnObject QTextEdit],
     Bind [ValueM QTGUI_QTEXTCHARFORMAT] ''currentCharFormat'' [] (RValue QTextCharFormat) [OnObject QTextEdit],
     Bind [] ''currentColumn'' [] RNumber [OnObject QTableWidget, OnObject ''QTreeWidget'']]"

definition meth_qtwidgets_4_8 :: "binding list" where
  "meth_qtwidgets_4_8 = [
     Bind [ValueM QTGUI_QFONT] ''currentFont'' [] (RValue QFont) [OnObject QTextEdit],
     Bind [] ''currentId'' [] RNumber [OnObject QWizard],
     Bind [] ''currentIndex'' [] RNumber [OnObject ''QToolBox''],
     Bind [TypeM ''QTWIDGETS_QWIZARDPAGE''] ''currentPage'' [] RObject [OnObject QWizard],
     Bind [] ''currentRow'' [] RNumber [OnObject QTableWidget],
     Bind [TypeM QTWIDGETS_QWIDGET] ''currentWidget'' [] RObject [OnObject ''QToolBox''],
     Bind [ValueM ''QTGUI_QCURSOR''] ''cursor'' [] (RValue QCursor) [OnObject QWidget],
     Bind [ValueM QTCORE_QPOINT, ValueM QTGUI_QTEXTCURSOR] ''cursorForPosition'' [PConv QPoint] (RValue QTextCursor) [OnObject QTextEdit]]"

definition meth_qtwidgets_4_9 :: "binding list" where
  "meth_qtwidgets_4_9 = [
     Bind [ValueM QTCORE_QRECT] ''cursorRect'' [] (RValue QRect) [OnObject QTextEdit],
     Bind [ValueM QTCORE_QRECT, ValueM QTGUI_QTEXTCURSOR] ''cursorRect'' [PConv QTextCursor] (RValue QRect) [OnObject QTextEdit],
     Bind [] ''cursorWidth'' [] RNumber [OnObject QTextEdit],
     Bind [] ''cut'' [] RVoid [OnObject QTextEdit],
     Bind [ValueM QTCORE_QMODELINDEX] ''dataChanged'' [PConv QModelIndex, PConv QModelIndex, PList ''int''] RVoid [OnObject QTreeView],
     Bind [TypeM QTWIDGETS_QWIDGET] ''defaultWidget'' [] RObject [OnObject ''QWidgetAction''],
     Bind [] ''devType'' [] RNumber [OnObject QWidget]]"

definition meth_qtwidgets_4_10 :: "binding list" where
  "meth_qtwidgets_4_10 = [
     Bind [TypeM QTGUI_QTEXTDOCUMENT] ''document'' [] RObject [OnObject QTextEdit],
     Bind [] ''documentTitle'' [] RString [OnObject QTextEdit],
     Bind [] ''emptyLabel'' [] RString [OnObject ''QUndoView''],
     Bind [] ''ensureCursorVisible'' [] RVoid [OnObject QTextEdit],
     Bind [] ''ensurePolished'' [] RVoid [OnObject QWidget],
     Bind [] ''enterWhatsThisMode'' [] RVoid [Static ''QWhatsThis''],
     Bind [ValueM QTCORE_QMODELINDEX] ''expand'' [PConv QModelIndex] RVoid [OnObject QTreeView],
     Bind [] ''expandAll'' [] RVoid [OnObject QTreeView]]"

definition meth_qtwidgets_4_11 :: "binding list" where
  "meth_qtwidgets_4_11 = [
     Bind [ValueM QTCORE_QMODELINDEX] ''expandRecursively'' [PConv QModelIndex, PInt] RVoid [OnObject QTreeView],
     Bind [] ''expandToDepth'' [PInt] RVoid [OnObject QTreeView],
     Bind [] ''expandsOnDoubleClick'' [] RBool [OnObject QTreeView],
     Bind [] ''field'' [PString True] RVariant [OnObject QWizard],
     Bind [EnumM ''QT_FOCUSPOLICY''] ''focusPolicy'' [] (RMeta ''Qt::FocusPolicy'') [OnObject QWidget],
     Bind [TypeM QTWIDGETS_QWIDGET] ''focusProxy'' [] RObject [OnObject QWidget],
     Bind [TypeM QTWIDGETS_QWIDGET] ''focusWidget'' [] RObject [OnObject QWidget]]"

definition meth_qtwidgets_4_12 :: "binding list" where
  "meth_qtwidgets_4_12 = [
     Bind [ValueM QTGUI_QFONT] ''font'' [] (RValue QFont) [OnObject QWidget],
     Bind [ValueM QTGUI_QFONT] ''font'' [] (RValue QFont) [Static ''QToolTip''],
     Bind [] ''fontFamily'' [] RString [OnObject QTextEdit],
     Bind [ValueM ''QTGUI_QFONTINFO''] ''fontInfo'' [] (RValue ''QFontInfo'') [OnObject QWidget],
     Bind [] ''fontItalic'' [] RBool [OnObject QTextEdit],
     Bind [ValueM ''QTGUI_QFONTMETRICS''] ''fontMetrics'' [] (RValue QFontMetrics) [OnObject QWidget],
     Bind [] ''fontPointSize'' [] RNumber [OnObject QTextEdit],
     Bind [] ''fontUnderline'' [] RBool [OnObject QTextEdit]]"

definition meth_qtwidgets_4_13 :: "binding list" where
  "meth_qtwidgets_4_13 = [
     Bind [] ''fontWeight'' [] RNumber [OnObject QTextEdit],
     Bind [TypeM QTGUI_QPALETTE] ''foregroundRole'' [] (RMeta QPalette_ColorRole) [OnObject QWidget],
     Bind [] ''forward'' [] RVoid [OnObject QTextBrowser],
     Bind [] ''forwardHistoryCount'' [] RNumber [OnObject QTextBrowser],
     Bind [ValueM QTCORE_QRECT] ''frameGeometry'' [] (RValue QRect) [OnObject QWidget],
     Bind [ValueM QTCORE_QSIZE] ''frameSize'' [] (RValue QSize) [OnObject QWidget],
     Bind [ValueM QTCORE_QRECT] ''geometry'' [] (RValue QRect) [OnObject QWidget],
     Bind [ValueM QTCORE_QRECT, ValueM QTGUI_QPIXMAP] ''grab'' [PConv QRect] (RValue QPixmap) [OnObject QWidget]]"

definition meth_qtwidgets_4_14 :: "binding list" where
  "meth_qtwidgets_4_14 = [
     Bind [] ''grabKeyboard'' [] RVoid [OnObject QWidget],
     Bind [] ''grabMouse'' [] RVoid [OnObject QWidget],
     Bind [ValueM ''QTGUI_QCURSOR''] ''grabMouse'' [PConv QCursor] RVoid [OnObject QWidget],
     Bind [EnumM ''QT_SHORTCUTCONTEXT'', ValueM QTGUI_QKEYSEQUENCE] ''grabShortcut'' [PConv QKeySequence, PConv ''Qt::ShortcutContext''] RNumber [OnObject QWidget],
     Bind [TypeM ''QTWIDGETS_QGRAPHICSEFFECT''] ''graphicsEffect'' [] RObject [OnObject QWidget],
     Bind [TypeM ''QTWIDGETS_QGRAPHICSPROXYWIDGET''] ''graphicsProxyWidget'' [] RObject [OnObject QWidget],
     Bind [EnumM ''QT_PENSTYLE''] ''gridStyle'' [] (RMeta ''Qt::PenStyle'') [OnObject QTableView]]"

definition meth_qtwidgets_4_15 :: "binding list" where
  "meth_qtwidgets_4_15 = [
     Bind [TypeM ''QTGUI_QUNDOGROUP''] ''group'' [] RObject [OnObject ''QUndoView''],
     Bind [] ''hasFocus'' [] RBool [OnObject QWidget],
     Bind [] ''hasHeightForWidth'' [] RBool [OnObject QWidget],
     Bind [] ''hasMouseTracking'' [] RBool [OnObject QWidget],
     Bind [] ''hasTabletTracking'' [] RBool [OnObject QWidget],
     Bind [] ''hasVisitedPage'' [PInt] RBool [OnObject QWizard],
     Bind [TypeM ''QTWIDGETS_QHEADERVIEW''] ''header'' [] RObject [OnObject QTreeView],
     Bind [] ''height'' [] RNumber [OnObject QWidget]]"

definition meth_qtwidgets_4_16 :: "binding list" where
  "meth_qtwidgets_4_16 = [
     Bind [] ''heightForWidth'' [PInt] RNumber [OnObject QWidget],
     Bind [] ''hide'' [] RVoid [OnObject QWidget],
     Bind [] ''hideColumn'' [PInt] RVoid [OnObject QTableView, OnObject QTreeView],
     Bind [] ''hideRow'' [PInt] RVoid [OnObject QTableView],
     Bind [] ''hideText'' [] RVoid [Static ''QToolTip'', Static ''QWhatsThis''],
     Bind [] ''historyTitle'' [PInt] RString [OnObject QTextBrowser],
     Bind [ValueM QTCORE_QURL] ''historyUrl'' [PInt] (RValue QUrl) [OnObject QTextBrowser]]"

definition meth_qtwidgets_4_17 :: "binding list" where
  "meth_qtwidgets_4_17 = [
     Bind [] ''home'' [] RVoid [OnObject QTextBrowser],
     Bind [TypeM ''QTWIDGETS_QHEADERVIEW''] ''horizontalHeader'' [] RObject [OnObject QTableView],
     Bind [ValueM QTCORE_QSIZE] ''iconSize'' [] (RValue QSize) [OnObject ''QToolBar''],
     Bind [] ''inWhatsThisMode'' [] RBool [Static ''QWhatsThis''],
     Bind [] ''indentation'' [] RNumber [OnObject QTreeView],
     Bind [ValueM QTCORE_QMODELINDEX] ''indexAbove'' [PConv QModelIndex] (RValue QModelIndex) [OnObject QTreeView],
     Bind [ValueM QTCORE_QMODELINDEX, ValueM QTCORE_QPOINT] ''indexAt'' [PConv QPoint] (RValue QModelIndex) [OnObject QTableView, OnObject QTreeView]]"

definition meth_qtwidgets_4_18 :: "binding list" where
  "meth_qtwidgets_4_18 = [
     Bind [ValueM QTCORE_QMODELINDEX] ''indexBelow'' [PConv QModelIndex] (RValue QModelIndex) [OnObject QTreeView],
     Bind [TypeM QTWIDGETS_QWIDGET] ''indexOf'' [PNonNull QWidget_ptr] RNumber [OnObject ''QToolBox''],
     Bind [] ''initializePage'' [] RVoid [OnObject ''QWizardPage''],
     Bind [EnumM ''QT_INPUTMETHODQUERY''] ''inputMethodQuery'' [PConv ''Qt::InputMethodQuery''] RVariant [OnObject QTextEdit, OnObject QWidget],
     Bind [EnumM ''QT_INPUTMETHODQUERY''] ''inputMethodQuery'' [PConv ''Qt::InputMethodQuery'', PVariant] RVariant [OnObject QTextEdit],
     Bind [] ''insertColumn'' [PInt] RVoid [OnObject QTableWidget]]"

definition meth_qtwidgets_4_19 :: "binding list" where
  "meth_qtwidgets_4_19 = [
     Bind [] ''insertHtml'' [PString True] RVoid [OnObject QTextEdit],
     Bind [TypeM QTWIDGETS_QWIDGET, ValueM QTGUI_QICON] ''insertItem'' [PInt, PNonNull QWidget_ptr, PConv QIcon, PString True] RNumber [OnObject ''QToolBox''],
     Bind [TypeM QTWIDGETS_QWIDGET] ''insertItem'' [PInt, PNonNull QWidget_ptr, PString True] RNumber [OnObject ''QToolBox''],
     Bind [] ''insertPlainText'' [PString True] RVoid [OnObject QTextEdit],
     Bind [] ''insertRow'' [PInt] RVoid [OnObject QTableWidget],
     Bind [] ''isActiveWindow'' [] RBool [OnObject QWidget]]"

definition meth_qtwidgets_4_20 :: "binding list" where
  "meth_qtwidgets_4_20 = [
     Bind [TypeM QTWIDGETS_QWIDGET] ''isAncestorOf'' [PNonNull QWidget_ptr] RBool [OnObject QWidget],
     Bind [] ''isAnimated'' [] RBool [OnObject QTreeView],
     Bind [EnumM ''QT_TOOLBARAREA''] ''isAreaAllowed'' [PConv ''Qt::ToolBarArea''] RBool [OnObject ''QToolBar''],
     Bind [] ''isBackwardAvailable'' [] RBool [OnObject QTextBrowser],
     Bind [] ''isColumnHidden'' [PInt] RBool [OnObject QTableView, OnObject QTreeView],
     Bind [] ''isCommitPage'' [] RBool [OnObject ''QWizardPage''],
     Bind [] ''isComplete'' [] RBool [OnObject ''QWizardPage''],
     Bind [] ''isCornerButtonEnabled'' [] RBool [OnObject QTableView]]"

definition meth_qtwidgets_4_21 :: "binding list" where
  "meth_qtwidgets_4_21 = [
     Bind [] ''isEnabled'' [] RBool [OnObject QWidget],
     Bind [TypeM QTWIDGETS_QWIDGET] ''isEnabledTo'' [PNonNull QWidget_ptr] RBool [OnObject QWidget],
     Bind [ValueM QTCORE_QMODELINDEX] ''isExpanded'' [PConv QModelIndex] RBool [OnObject QTreeView],
     Bind [] ''isFinalPage'' [] RBool [OnObject ''QWizardPage''],
     Bind [ValueM QTCORE_QMODELINDEX] ''isFirstColumnSpanned'' [PInt, PConv QModelIndex] RBool [OnObject QTreeView],
     Bind [] ''isFloatable'' [] RBool [OnObject ''QToolBar''],
     Bind [] ''isFloating'' [] RBool [OnObject ''QToolBar''],
     Bind [] ''isForwardAvailable'' [] RBool [OnObject QTextBrowser]]"

definition meth_qtwidgets_4_22 :: "binding list" where
  "meth_qtwidgets_4_22 = [
     Bind [] ''isFullScreen'' [] RBool [OnObject QWidget],
     Bind [] ''isHeaderHidden'' [] RBool [OnObject QTreeView],
     Bind [] ''isHidden'' [] RBool [OnObject QWidget],
     Bind [] ''isItemEnabled'' [PInt] RBool [OnObject ''QToolBox''],
     Bind [] ''isLeftToRight'' [] RBool [OnObject QWidget],
     Bind [] ''isMaximized'' [] RBool [OnObject QWidget],
     Bind [] ''isMinimized'' [] RBool [OnObject QWidget],
     Bind [] ''isModal'' [] RBool [OnObject QWidget],
     Bind [] ''isMovable'' [] RBool [OnObject ''QToolBar'']]"

definition meth_qtwidgets_4_23 :: "binding list" where
  "meth_qtwidgets_4_23 = [
     Bind [] ''isReadOnly'' [] RBool [OnObject QTextEdit],
     Bind [] ''isRightToLeft'' [] RBool [OnObject QWidget],
     Bind [] ''isRowHidden'' [PInt] RBool [OnObject QTableView],
     Bind [ValueM QTCORE_QMODELINDEX] ''isRowHidden'' [PInt, PConv QModelIndex] RBool [OnObject QTreeView],
     Bind [] ''isSortingEnabled'' [] RBool [OnObject QTableView, OnObject QTableWidget, OnObject QTreeView],
     Bind [] ''isUndoRedoEnabled'' [] RBool [OnObject QTextEdit],
     Bind [] ''isVisible'' [] RBool [OnObject QWidget]]"

definition meth_qtwidgets_4_24 :: "binding list" where
  "meth_qtwidgets_4_24 = [
     Bind [] ''isVisible'' [] RBool [Static ''QToolTip''],
     Bind [TypeM QTWIDGETS_QWIDGET] ''isVisibleTo'' [PNonNull QWidget_ptr] RBool [OnObject QWidget],
     Bind [] ''isWindow'' [] RBool [OnObject QWidget],
     Bind [] ''isWindowModified'' [] RBool [OnObject QWidget],
     Bind [ValueM QTGUI_QICON] ''itemIcon'' [PInt] (RValue QIcon) [OnObject ''QToolBox''],
     Bind [] ''itemText'' [PInt] RString [OnObject ''QToolBox''],
     Bind [] ''itemToolTip'' [PInt] RString [OnObject ''QToolBox''],
     Bind [] ''itemsExpandable'' [] RBool [OnObject QTreeView]]"

definition meth_qtwidgets_4_25 :: "binding list" where
  "meth_qtwidgets_4_25 = [
     Bind [TypeM QTWIDGETS_QWIDGET] ''keyboardGrabber'' [] RObject [Static QWidget],
     Bind [] ''keyboardSearch'' [PString True] RVoid [OnObject QTreeView],
     Bind [TypeM QTWIDGETS_QLAYOUT] ''layout'' [] RObject [OnObject QWidget],
     Bind [EnumM QT_LAYOUTDIRECTION] ''layoutDirection'' [] (RMeta Qt_LayoutDirection) [OnObject QWidget],
     Bind [] ''leaveWhatsThisMode'' [] RVoid [Static ''QWhatsThis''],
     Bind [] ''lineWrapColumnOrWidth'' [] RNumber [OnObject QTextEdit],
     Bind [TypeM ''QTWIDGETS_QTEXTEDIT''] ''lineWrapMode'' [] (RMeta ''QTextEdit::LineWrapMode'') [OnObject QTextEdit]]"

definition meth_qtwidgets_4_26 :: "binding list" where
  "meth_qtwidgets_4_26 = [
     Bind [ValueM QTCORE_QURL] ''loadResource'' [PInt, PConv QUrl] RVariant [OnObject QTextBrowser, OnObject QTextEdit],
     Bind [ValueM QTCORE_QLOCALE] ''locale'' [] (RValue QLocale) [OnObject QWidget],
     Bind [] ''lower'' [] RVoid [OnObject QWidget],
     Bind [TypeM QTWIDGETS_QWIDGET, ValueM QTCORE_QPOINT] ''mapFrom'' [PNonNull QWidget_ptr, PConv QPoint] (RValue QPoint) [OnObject QWidget],
     Bind [TypeM QTWIDGETS_QWIDGET, ValueM QTCORE_QPOINTF] ''mapFrom'' [PNonNull QWidget_ptr, PConv QPointF] (RValue QPointF) [OnObject QWidget],
     Bind [ValueM QTCORE_QPOINT] ''mapFromGlobal'' [PConv QPoint] (RValue QPoint) [OnObject QWidget]]"

definition meth_qtwidgets_4_27 :: "binding list" where
  "meth_qtwidgets_4_27 = [
     Bind [ValueM QTCORE_QPOINTF] ''mapFromGlobal'' [PConv QPointF] (RValue QPointF) [OnObject QWidget],
     Bind [ValueM QTCORE_QPOINT] ''mapFromParent'' [PConv QPoint] (RValue QPoint) [OnObject QWidget],
     Bind [ValueM QTCORE_QPOINTF] ''mapFromParent'' [PConv QPointF] (RValue QPointF) [OnObject QWidget],
     Bind [TypeM QTWIDGETS_QWIDGET, ValueM QTCORE_QPOINT] ''mapTo'' [PNonNull QWidget_ptr, PConv QPoint] (RValue QPoint) [OnObject QWidget],
     Bind [TypeM QTWIDGETS_QWIDGET, ValueM QTCORE_QPOINTF] ''mapTo'' [PNonNull QWidget_ptr, PConv QPointF] (RValue QPointF) [OnObject QWidget],
     Bind [ValueM QTCORE_QPOINT] ''mapToGlobal'' [PConv QPoint] (RValue QPoint) [OnObject QWidget]]"

definition meth_qtwidgets_4_28 :: "binding list" where
  "meth_qtwidgets_4_28 = [
     Bind [ValueM QTCORE_QPOINTF] ''mapToGlobal'' [PConv QPointF] (RValue QPointF) [OnObject QWidget],
     Bind [ValueM QTCORE_QPOINT] ''mapToParent'' [PConv QPoint] (RValue QPoint) [OnObject QWidget],
     Bind [ValueM QTCORE_QPOINTF] ''mapToParent'' [PConv QPointF] (RValue QPointF) [OnObject QWidget],
     Bind [ValueM QTGUI_QREGION] ''mask'' [] (RValue QRegion) [OnObject QWidget],
     Bind [] ''maximumHeight'' [] RNumber [OnObject QWidget],
     Bind [ValueM QTCORE_QSIZE] ''maximumSize'' [] (RValue QSize) [OnObject QWidget],
     Bind [] ''maximumWidth'' [] RNumber [OnObject QWidget]]"

definition meth_qtwidgets_4_29 :: "binding list" where
  "meth_qtwidgets_4_29 = [
     Bind [TypeM ''QTWIDGETS_QMENU''] ''menu'' [] RObject [OnObject ''QToolButton''],
     Bind [ValueM QTGUI_QTEXTCHARFORMAT] ''mergeCurrentCharFormat'' [PConv QTextCharFormat] RVoid [OnObject QTextEdit],
     Bind [] ''minimumHeight'' [] RNumber [OnObject QWidget],
     Bind [ValueM QTCORE_QSIZE] ''minimumSize'' [] (RValue QSize) [OnObject QWidget],
     Bind [ValueM QTCORE_QSIZE] ''minimumSizeHint'' [] (RValue QSize) [OnObject ''QToolButton'', OnObject QWidget],
     Bind [] ''minimumWidth'' [] RNumber [OnObject QWidget],
     Bind [TypeM QTWIDGETS_QWIDGET] ''mouseGrabber'' [] RObject [Static QWidget]]"

definition meth_qtwidgets_4_30 :: "binding list" where
  "meth_qtwidgets_4_30 = [
     Bind [ValueM QTCORE_QPOINT] ''move'' [PConv QPoint] RVoid [OnObject QWidget],
     Bind [] ''move'' [PInt, PInt] RVoid [OnObject QWidget],
     Bind [TypeM QTGUI_QTEXTCURSOR] ''moveCursor'' [PConv ''QTextCursor::MoveOperation'', PConv ''QTextCursor::MoveMode''] RVoid [OnObject QTextEdit],
     Bind [TypeM QTWIDGETS_QWIDGET] ''nativeParentWidget'' [] RObject [OnObject QWidget],
     Bind [] ''next'' [] RVoid [OnObject QWizard],
     Bind [] ''nextId'' [] RNumber [OnObject QWizard, OnObject ''QWizardPage''],
     Bind [TypeM QTWIDGETS_QWIDGET] ''nextInFocusChain'' [] RObject [OnObject QWidget]]"

definition meth_qtwidgets_4_31 :: "binding list" where
  "meth_qtwidgets_4_31 = [
     Bind [ValueM QTCORE_QRECT] ''normalGeometry'' [] (RValue QRect) [OnObject QWidget],
     Bind [] ''openExternalLinks'' [] RBool [OnObject QTextBrowser],
     Bind [] ''openLinks'' [] RBool [OnObject QTextBrowser],
     Bind [TypeM ''QTWIDGETS_QWIZARD''] ''options'' [] (RMeta ''QWizard::WizardOptions'') [OnObject QWizard],
     Bind [EnumM QT_ORIENTATION] ''orientation'' [] (RMeta Qt_Orientation) [OnObject ''QToolBar''],
     Bind [EnumM QT_WINDOWFLAGS] ''overrideWindowFlags'' [PConv Qt_WindowFlags] RVoid [OnObject QWidget],
     Bind [EnumM ''QT_WINDOWSTATES''] ''overrideWindowState'' [PConv ''Qt::WindowStates''] RVoid [OnObject QWidget],
     Bind [] ''overwriteMode'' [] RBool [OnObject QTextEdit]]"

definition meth_qtwidgets_4_32 :: "binding list" where
  "meth_qtwidgets_4_32 = [
     Bind [TypeM ''QTWIDGETS_QWIZARDPAGE''] ''page'' [PInt] RObject [OnObject QWizard],
     Bind [] ''pageIds'' [] (RList (IMeta ''int'')) [OnObject QWizard],
     Bind [ValueM QTGUI_QPALETTE] ''palette'' [] (RValue QPalette) [OnObject QWidget],
     Bind [ValueM QTGUI_QPALETTE] ''palette'' [] (RValue QPalette) [Static ''QToolTip''],
     Bind [TypeM QTWIDGETS_QWIDGET] ''parentWidget'' [] RObject [OnObject QWidget],
     Bind [] ''paste'' [] RVoid [OnObject QTextEdit],
     Bind [TypeM ''QTWIDGETS_QWIZARD'', ValueM QTGUI_QPIXMAP] ''pixmap'' [PConv ''QWizard::WizardPixmap''] (RValue QPixmap) [OnObject QWizard, OnObject ''QWizardPage'']]"

definition meth_qtwidgets_4_33 :: "binding list" where
  "meth_qtwidgets_4_33 = [
     Bind [] ''placeholderText'' [] RString [OnObject QTextEdit],
     Bind [TypeM ''QTWIDGETS_QTOOLBUTTON''] ''popupMode'' [] (RMeta ''QToolButton::ToolButtonPopupMode'') [OnObject ''QToolButton''],
     Bind [ValueM QTCORE_QPOINT] ''pos'' [] (RValue QPoint) [OnObject QWidget],
     Bind [ValueM QTCORE_QPOINTF] ''position'' [] (RValue QPointF) [OnObject ''QTapAndHoldGesture'', OnObject ''QTapGesture''],
     Bind [TypeM QTWIDGETS_QWIDGET] ''previousInFocusChain'' [] RObject [OnObject QWidget],
     Bind [ValueM QTCORE_QRECT] ''rect'' [] (RValue QRect) [OnObject QWidget],
     Bind [] ''redo'' [] RVoid [OnObject QTextEdit]]"

definition meth_qtwidgets_4_34 :: "binding list" where
  "meth_qtwidgets_4_34 = [
     Bind [] ''releaseKeyboard'' [] RVoid [OnObject QWidget],
     Bind [] ''releaseMouse'' [] RVoid [OnObject QWidget],
     Bind [] ''releaseShortcut'' [PInt] RVoid [OnObject QWidget],
     Bind [TypeM QTWIDGETS_QWIDGET] ''releaseWidget'' [PNonNull QWidget_ptr] RVoid [OnObject ''QWidgetAction''],
     Bind [] ''reload'' [] RVoid [OnObject QTextBrowser],
     Bind [] ''removeColumn'' [PInt] RVoid [OnObject QTableWidget],
     Bind [] ''removeItem'' [PInt] RVoid [OnObject ''QToolBox'']]"

definition meth_qtwidgets_4_35 :: "binding list" where
  "meth_qtwidgets_4_35 = [
     Bind [] ''removePage'' [PInt] RVoid [OnObject QWizard],
     Bind [] ''removeRow'' [PInt] RVoid [OnObject QTableWidget],
     Bind [] ''repaint'' [] RVoid [OnObject QWidget],
     Bind [ValueM QTCORE_QRECT] ''repaint'' [PConv QRect] RVoid [OnObject QWidget],
     Bind [ValueM QTGUI_QREGION] ''repaint'' [PConv QRegion] RVoid [OnObject QWidget],
     Bind [] ''repaint'' [PInt, PInt, PInt, PInt] RVoid [OnObject QWidget]]"

definition meth_qtwidgets_4_36 :: "binding list" where
  "meth_qtwidgets_4_36 = [
     Bind [TypeM QTWIDGETS_QWIDGET] ''requestWidget'' [PNonNull QWidget_ptr] RObject [OnObject ''QWidgetAction''],
     Bind [] ''reset'' [] RVoid [OnObject QTreeView],
     Bind [] ''resetIndentation'' [] RVoid [OnObject QTreeView],
     Bind [ValueM QTCORE_QSIZE] ''resize'' [PConv QSize] RVoid [OnObject QWidget],
     Bind [] ''resize'' [PInt, PInt] RVoid [OnObject QWidget],
     Bind [] ''resizeColumnToContents'' [PInt] RVoid [OnObject QTableView, OnObject QTreeView],
     Bind [] ''resizeColumnsToContents'' [] RVoid [OnObject QTableView]]"

definition meth_qtwidgets_4_37 :: "binding list" where
  "meth_qtwidgets_4_37 = [
     Bind [] ''resizeRowToContents'' [PInt] RVoid [OnObject QTableView],
     Bind [] ''resizeRowsToContents'' [] RVoid [OnObject QTableView],
     Bind [] ''restart'' [] RVoid [OnObject QWizard],
     Bind [ValueM QTCORE_QBYTEARRAY] ''restoreGeometry'' [PConv QByteArray] RBool [OnObject QWidget],
     Bind [] ''rootIsDecorated'' [] RBool [OnObject QTreeView],
     Bind [] ''rowAt'' [PInt] RNumber [OnObject QTableView],
     Bind [] ''rowCount'' [] RNumber [OnObject QTableWidget],
     Bind [] ''rowHeight'' [PInt] RNumber [OnObject QTableView]]"

definition meth_qtwidgets_4_38 :: "binding list" where
  "meth_qtwidgets_4_38 = [
     Bind [] ''rowSpan'' [PInt, PInt] RNumber [OnObject QTableView],
     Bind [] ''rowViewportPosition'' [PInt] RNumber [OnObject QTableView],
     Bind [ValueM QTCORE_QBYTEARRAY] ''saveGeometry'' [] (RValue QByteArray) [OnObject QWidget],
     Bind [TypeM QTGUI_QSCREEN] ''screen'' [] RObject [OnObject QWidget],
     Bind [] ''scroll'' [PInt, PInt] RVoid [OnObject QWidget],
     Bind [ValueM QTCORE_QRECT] ''scroll'' [PInt, PInt, PConv QRect] RVoid [OnObject QWidget]]"

definition meth_qtwidgets_4_39 :: "binding list" where
  "meth_qtwidgets_4_39 = [
     Bind [TypeM QTWIDGETS_QABSTRACTITEMVIEW, ValueM QTCORE_QMODELINDEX] ''scrollTo'' [PConv QModelIndex, PConv ''QAbstractItemView::ScrollHint''] RVoid [OnObject QTableView, OnObject QTreeView],
     Bind [] ''scrollToAnchor'' [PString True] RVoid [OnObject QTextEdit],
     Bind [] ''searchPaths'' [] (RList (IMeta QString)) [OnObject QTextBrowser],
     Bind [] ''selectAll'' [] RVoid [OnObject QTextEdit, OnObject QTreeView],
     Bind [] ''selectColumn'' [PInt] RVoid [OnObject QTableView],
     Bind [] ''selectRow'' [PInt] RVoid [OnObject QTableView]]"

definition meth_qtwidgets_4_40 :: "binding list" where
  "meth_qtwidgets_4_40 = [
     Bind [ValueM ''QTWIDGETS_QTABLEWIDGETSELECTIONRANGE''] ''selectedRanges'' [] (RList (IValue QTableWidgetSelectionRange)) [OnObject QTableWidget],
     Bind [] ''setAcceptDrops'' [PBool] RVoid [OnObject QWidget],
     Bind [] ''setAcceptRichText'' [PBool] RVoid [OnObject QTextEdit],
     Bind [] ''setAccessibleDescription'' [PString True] RVoid [OnObject QWidget],
     Bind [] ''setAccessibleIdentifier'' [PString True] RVoid [OnObject QWidget],
     Bind [] ''setAccessibleName'' [PString True] RVoid [OnObject QWidget],
     Bind [] ''setAllColumnsShowFocus'' [PBool] RVoid [OnObject QTreeView]]"

definition meth_qtwidgets_4_41 :: "binding list" where
  "meth_qtwidgets_4_41 = [
     Bind [EnumM ''QT_TOOLBARAREAS''] ''setAllowedAreas'' [PConv ''Qt::ToolBarAreas''] RVoid [OnObject ''QToolBar''],
     Bind [] ''setAnimated'' [PBool] RVoid [OnObject QTreeView],
     Bind [EnumM ''QT_ARROWTYPE''] ''setArrowType'' [PConv ''Qt::ArrowType''] RVoid [OnObject ''QToolButton''],
     Bind [EnumM ''QT_WIDGETATTRIBUTE''] ''setAttribute'' [PConv ''Qt::WidgetAttribute'', PBool] RVoid [OnObject QWidget],
     Bind [] ''setAutoExpandDelay'' [PInt] RVoid [OnObject QTreeView],
     Bind [] ''setAutoFillBackground'' [PBool] RVoid [OnObject QWidget],
     Bind [] ''setAutoRaise'' [PBool] RVoid [OnObject ''QToolButton'']]"

definition meth_qtwidgets_4_42 :: "binding list" where
  "meth_qtwidgets_4_42 = [
     Bind [TypeM QTGUI_QPALETTE] ''setBackgroundRole'' [PConv QPalette_ColorRole] RVoid [OnObject QWidget],
     Bind [ValueM QTCORE_QSIZE] ''setBaseSize'' [PConv QSize] RVoid [OnObject QWidget],
     Bind [] ''setBaseSize'' [PInt, PInt] RVoid [OnObject QWidget],
     Bind [TypeM QTWIDGETS_QABSTRACTBUTTON, TypeM ''QTWIDGETS_QWIZARD''] ''setButton'' [PConv ''QWizard::WizardButton'', PNonNull ''QAbstractButton*''] RVoid [OnObject QWizard],
     Bind [TypeM ''QTWIDGETS_QWIZARD''] ''setButtonLayout'' [PListV ''QWizard::WizardButton''] RVoid [OnObject QWizard],
     Bind [TypeM ''QTWIDGETS_QWIZARD''] ''setButtonText'' [PConv ''QWizard::WizardButton'', PString True] RVoid [OnObject QWizard, OnObject ''QWizardPage'']]"

definition meth_qtwidgets_4_43 :: "binding list" where
  "meth_qtwidgets_4_43 = [
     Bind [ValueM QTGUI_QICON] ''setCleanIcon'' [PConv QIcon] RVoid [OnObject ''QUndoView''],
     Bind [] ''setColumnCount'' [PInt] RVoid [OnObject QTableWidget, OnObject ''QTreeWidget''],
     Bind [] ''setColumnHidden'' [PInt, PBool] RVoid [OnObject QTableView, OnObject QTreeView],
     Bind [] ''setColumnWidth'' [PInt, PInt] RVoid [OnObject QTableView, OnObject QTreeView],
     Bind [] ''setCommitPage'' [PBool] RVoid [OnObject ''QWizardPage''],
     Bind [ValueM QTCORE_QMARGINS] ''setContentsMargins'' [PConv QMargins] RVoid [OnObject QWidget]]"

definition meth_qtwidgets_4_44 :: "binding list" where
  "meth_qtwidgets_4_44 = [
     Bind [] ''setContentsMargins'' [PInt, PInt, PInt, PInt] RVoid [OnObject QWidget],
     Bind [EnumM ''QT_CONTEXTMENUPOLICY''] ''setContextMenuPolicy'' [PConv ''Qt::ContextMenuPolicy''] RVoid [OnObject QWidget],
     Bind [] ''setCornerButtonEnabled'' [PBool] RVoid [OnObject QTableView],
     Bind [] ''setCurrentCell'' [PInt, PInt] RVoid [OnObject QTableWidget],
     Bind [ValueM QTGUI_QTEXTCHARFORMAT] ''setCurrentCharFormat'' [PConv QTextCharFormat] RVoid [OnObject QTextEdit],
     Bind [ValueM QTGUI_QFONT] ''setCurrentFont'' [PConv QFont] RVoid [OnObject QTextEdit]]"

definition meth_qtwidgets_4_45 :: "binding list" where
  "meth_qtwidgets_4_45 = [
     Bind [] ''setCurrentId'' [PInt] RVoid [OnObject QWizard],
     Bind [] ''setCurrentIndex'' [PInt] RVoid [OnObject ''QToolBox''],
     Bind [TypeM QTWIDGETS_QWIDGET] ''setCurrentWidget'' [PNonNull QWidget_ptr] RVoid [OnObject ''QToolBox''],
     Bind [ValueM ''QTGUI_QCURSOR''] ''setCursor'' [PConv QCursor] RVoid [OnObject QWidget],
     Bind [] ''setCursorWidth'' [PInt] RVoid [OnObject QTextEdit],
     Bind [TypeM QTWIDGETS_QWIDGET] ''setDefaultWidget'' [PNonNull QWidget_ptr] RVoid [OnObject ''QWidgetAction''],
     Bind [] ''setDisabled'' [PBool] RVoid [OnObject QWidget]]"

definition meth_qtwidgets_4_46 :: "binding list" where
  "meth_qtwidgets_4_46 = [
     Bind [TypeM QTGUI_QTEXTDOCUMENT] ''setDocument'' [PNonNull QTextDocument_ptr] RVoid [OnObject QTextEdit],
     Bind [] ''setDocumentTitle'' [PString True] RVoid [OnObject QTextEdit],
     Bind [] ''setEmptyLabel'' [PString True] RVoid [OnObject ''QUndoView''],
     Bind [] ''setEnabled'' [PBool] RVoid [OnObject QWidget],
     Bind [ValueM QTCORE_QMODELINDEX] ''setExpanded'' [PConv QModelIndex, PBool] RVoid [OnObject QTreeView],
     Bind [] ''setExpandsOnDoubleClick'' [PBool] RVoid [OnObject QTreeView],
     Bind [] ''setField'' [PString True, PVariant] RVoid [OnObject QWizard]]"

definition meth_qtwidgets_4_47 :: "binding list" where
  "meth_qtwidgets_4_47 = [
     Bind [] ''setFinalPage'' [PBool] RVoid [OnObject ''QWizardPage''],
     Bind [ValueM QTCORE_QMODELINDEX] ''setFirstColumnSpanned'' [PInt, PConv QModelIndex, PBool] RVoid [OnObject QTreeView],
     Bind [] ''setFixedHeight'' [PInt] RVoid [OnObject QWidget],
     Bind [ValueM QTCORE_QSIZE] ''setFixedSize'' [PConv QSize] RVoid [OnObject QWidget],
     Bind [] ''setFixedSize'' [PInt, PInt] RVoid [OnObject QWidget],
     Bind [] ''setFixedWidth'' [PInt] RVoid [OnObject QWidget],
     Bind [] ''setFloatable'' [PBool] RVoid [OnObject ''QToolBar'']]"

definition meth_qtwidgets_4_48 :: "binding list" where
  "meth_qtwidgets_4_48 = [
     Bind [] ''setFocus'' [] RVoid [OnObject QWidget],
     Bind [EnumM ''QT_FOCUSREASON''] ''setFocus'' [PConv ''Qt::FocusReason''] RVoid [OnObject QWidget],
     Bind [EnumM ''QT_FOCUSPOLICY''] ''setFocusPolicy'' [PConv ''Qt::FocusPolicy''] RVoid [OnObject QWidget],
     Bind [TypeM QTWIDGETS_QWIDGET] ''setFocusProxy'' [PNonNull QWidget_ptr] RVoid [OnObject QWidget],
     Bind [ValueM QTGUI_QFONT] ''setFont'' [PConv QFont] RVoid [OnObject QWidget],
     Bind [ValueM QTGUI_QFONT] ''setFont'' [PConv QFont] RVoid [Static ''QToolTip''],
     Bind [] ''setFontFamily'' [PString True] RVoid [OnObject QTextEdit]]"

definition meth_qtwidgets_4_49 :: "binding list" where
  "meth_qtwidgets_4_49 = [
     Bind [] ''setFontItalic'' [PBool] RVoid [OnObject QTextEdit],
     Bind [] ''setFontPointSize'' [PReal ''qreal''] RVoid [OnObject QTextEdit],
     Bind [] ''setFontUnderline'' [PBool] RVoid [OnObject QTextEdit],
     Bind [] ''setFontWeight'' [PInt] RVoid [OnObject QTextEdit],
     Bind [TypeM QTGUI_QPALETTE] ''setForegroundRole'' [PConv QPalette_ColorRole] RVoid [OnObject QWidget],
     Bind [ValueM QTCORE_QRECT] ''setGeometry'' [PConv QRect] RVoid [OnObject QWidget],
     Bind [] ''setGeometry'' [PInt, PInt, PInt, PInt] RVoid [OnObject QWidget]]"

definition meth_qtwidgets_4_50 :: "binding list" where
  "meth_qtwidgets_4_50 = [
     Bind [TypeM ''QTWIDGETS_QGRAPHICSEFFECT''] ''setGraphicsEffect'' [PNonNull ''QGraphicsEffect*''] RVoid [OnObject QWidget],
     Bind [EnumM ''QT_PENSTYLE''] ''setGridStyle'' [PConv ''Qt::PenStyle''] RVoid [OnObject QTableView],
     Bind [TypeM ''QTGUI_QUNDOGROUP''] ''setGroup'' [PNonNull ''QUndoGroup*''] RVoid [OnObject ''QUndoView''],
     Bind [TypeM ''QTWIDGETS_QHEADERVIEW''] ''setHeader'' [PNonNull ''QHeaderView*''] RVoid [OnObject QTreeView],
     Bind [] ''setHeaderHidden'' [PBool] RVoid [OnObject QTreeView],
     Bind [] ''setHeaderLabel'' [PString True] RVoid [OnObject ''QTreeWidget'']]"

definition meth_qtwidgets_4_51 :: "binding list" where
  "meth_qtwidgets_4_51 = [
     Bind [] ''setHeaderLabels'' [PStringList] RVoid [OnObject ''QTreeWidget''],
     Bind [] ''setHidden'' [PBool] RVoid [OnObject QWidget],
     Bind [TypeM ''QTWIDGETS_QHEADERVIEW''] ''setHorizontalHeader'' [PNonNull ''QHeaderView*''] RVoid [OnObject QTableView],
     Bind [] ''setHorizontalHeaderLabels'' [PStringList] RVoid [OnObject QTableWidget],
     Bind [] ''setHtml'' [PString True] RVoid [OnObject QTextEdit],
     Bind [ValueM QTCORE_QSIZE] ''setIconSize'' [PConv QSize] RVoid [OnObject ''QToolBar'']]"

definition meth_qtwidgets_4_52 :: "binding list" where
  "meth_qtwidgets_4_52 = [
     Bind [] ''setIndentation'' [PInt] RVoid [OnObject QTreeView],
     Bind [] ''setItemEnabled'' [PInt, PBool] RVoid [OnObject ''QToolBox''],
     Bind [ValueM QTGUI_QICON] ''setItemIcon'' [PInt, PConv QIcon] RVoid [OnObject ''QToolBox''],
     Bind [] ''setItemText'' [PInt, PString True] RVoid [OnObject ''QToolBox''],
     Bind [] ''setItemToolTip'' [PInt, PString True] RVoid [OnObject ''QToolBox''],
     Bind [] ''setItemsExpandable'' [PBool] RVoid [OnObject QTreeView]]"

definition meth_qtwidgets_4_53 :: "binding list" where
  "meth_qtwidgets_4_53 = [
     Bind [EnumM QT_LAYOUTDIRECTION] ''setLayoutDirection'' [PConv Qt_LayoutDirection] RVoid [OnObject QWidget],
     Bind [] ''setLineWrapColumnOrWidth'' [PInt] RVoid [OnObject QTextEdit],
     Bind [TypeM ''QTWIDGETS_QTEXTEDIT''] ''setLineWrapMode'' [PConv ''QTextEdit::LineWrapMode''] RVoid [OnObject QTextEdit],
     Bind [ValueM QTCORE_QLOCALE] ''setLocale'' [PConv QLocale] RVoid [OnObject QWidget],
     Bind [] ''setMarkdown'' [PString True] RVoid [OnObject QTextEdit],
     Bind [ValueM ''QTGUI_QBITMAP''] ''setMask'' [PConv ''QBitmap''] RVoid [OnObject QWidget],
     Bind [ValueM QTGUI_QREGION] ''setMask'' [PConv QRegion] RVoid [OnObject QWidget]]"

definition meth_qtwidgets_4_54 :: "binding list" where
  "meth_qtwidgets_4_54 = [
     Bind [] ''setMaximumHeight'' [PInt] RVoid [OnObject QWidget],
     Bind [ValueM QTCORE_QSIZE] ''setMaximumSize'' [PConv QSize] RVoid [OnObject QWidget],
     Bind [] ''setMaximumSize'' [PInt, PInt] RVoid [OnObject QWidget],
     Bind [] ''setMaximumWidth'' [PInt] RVoid [OnObject QWidget],
     Bind [TypeM ''QTWIDGETS_QMENU''] ''setMenu'' [PNonNull ''QMenu*''] RVoid [OnObject ''QToolButton''],
     Bind [] ''setMinimumHeight'' [PInt] RVoid [OnObject QWidget],
     Bind [ValueM QTCORE_QSIZE] ''setMinimumSize'' [PConv QSize] RVoid [OnObject QWidget]]"

definition meth_qtwidgets_4_55 :: "binding list" where
  "meth_qtwidgets_4_55 = [
     Bind [] ''setMinimumSize'' [PInt, PInt] RVoid [OnObject QWidget],
     Bind [] ''setMinimumWidth'' [PInt] RVoid [OnObject QWidget],
     Bind [TypeM QTCORE_QABSTRACTITEMMODEL] ''setModel'' [PNonNull QAbstractItemModel_ptr] RVoid [OnObject QTableView, OnObject QTreeView],
     Bind [] ''setMouseTracking'' [PBool] RVoid [OnObject QWidget],
     Bind [] ''setMovable'' [PBool] RVoid [OnObject ''QToolBar''],
     Bind [] ''setOpenExternalLinks'' [PBool] RVoid [OnObject QTextBrowser],
     Bind [] ''setOpenLinks'' [PBool] RVoid [OnObject QTextBrowser]]"

definition meth_qtwidgets_4_56 :: "binding list" where
  "meth_qtwidgets_4_56 = [
     Bind [TypeM ''QTWIDGETS_QWIZARD''] ''setOption'' [PConv ''QWizard::WizardOption'', PBool] RVoid [OnObject QWizard],
     Bind [TypeM ''QTWIDGETS_QWIZARD''] ''setOptions'' [PConv ''QWizard::WizardOptions''] RVoid [OnObject QWizard],
     Bind [EnumM QT_ORIENTATION] ''setOrientation'' [PConv Qt_Orientation] RVoid [OnObject ''QToolBar''],
     Bind [] ''setOverwriteMode'' [PBool] RVoid [OnObject QTextEdit],
     Bind [TypeM ''QTWIDGETS_QWIZARDPAGE''] ''setPage'' [PInt, PNonNull ''QWizardPage*''] RVoid [OnObject QWizard],
     Bind [ValueM QTGUI_QPALETTE] ''setPalette'' [PConv QPalette] RVoid [OnObject QWidget]]"

definition meth_qtwidgets_4_57 :: "binding list" where
  "meth_qtwidgets_4_57 = [
     Bind [ValueM QTGUI_QPALETTE] ''setPalette'' [PConv QPalette] RVoid [Static ''QToolTip''],
     Bind [TypeM QTWIDGETS_QWIDGET] ''setParent'' [PNonNull QWidget_ptr] RVoid [OnObject QWidget],
     Bind [EnumM QT_WINDOWFLAGS, TypeM QTWIDGETS_QWIDGET] ''setParent'' [PNonNull QWidget_ptr, PConv Qt_WindowFlags] RVoid [OnObject QWidget],
     Bind [TypeM ''QTWIDGETS_QWIZARD'', ValueM QTGUI_QPIXMAP] ''setPixmap'' [PConv ''QWizard::WizardPixmap'', PConv QPixmap] RVoid [OnObject QWizard, OnObject ''QWizardPage''],
     Bind [] ''setPlaceholderText'' [PString True] RVoid [OnObject QTextEdit],
     Bind [] ''setPlainText'' [PString True] RVoid [OnObject QTextEdit]]"

definition meth_qtwidgets_4_58 :: "binding list" where
  "meth_qtwidgets_4_58 = [
     Bind [TypeM ''QTWIDGETS_QTOOLBUTTON''] ''setPopupMode'' [PConv ''QToolButton::ToolButtonPopupMode''] RVoid [OnObject ''QToolButton''],
     Bind [ValueM QTCORE_QPOINTF] ''setPosition'' [PConv QPointF] RVoid [OnObject ''QTapAndHoldGesture'', OnObject ''QTapGesture''],
     Bind [ValueM ''QTWIDGETS_QTABLEWIDGETSELECTIONRANGE''] ''setRangeSelected'' [PConv QTableWidgetSelectionRange, PBool] RVoid [OnObject QTableWidget],
     Bind [] ''setReadOnly'' [PBool] RVoid [OnObject QTextEdit],
     Bind [ValueM QTCORE_QMODELINDEX] ''setRootIndex'' [PConv QModelIndex] RVoid [OnObject QTableView, OnObject QTreeView],
     Bind [] ''setRootIsDecorated'' [PBool] RVoid [OnObject QTreeView]]"

definition meth_qtwidgets_4_59 :: "binding list" where
  "meth_qtwidgets_4_59 = [
     Bind [] ''setRowCount'' [PInt] RVoid [OnObject QTableWidget],
     Bind [] ''setRowHeight'' [PInt, PInt] RVoid [OnObject QTableView],
     Bind [ValueM QTCORE_QMODELINDEX] ''setRowHidden'' [PInt, PConv QModelIndex, PBool] RVoid [OnObject QTreeView],
     Bind [] ''setRowHidden'' [PInt, PBool] RVoid [OnObject QTableView],
     Bind [TypeM QTGUI_QSCREEN] ''setScreen'' [PNonNull ''QScreen*''] RVoid [OnObject QWidget],
     Bind [] ''setSearchPaths'' [PStringList] RVoid [OnObject QTextBrowser]]"

definition meth_qtwidgets_4_60 :: "binding list" where
  "meth_qtwidgets_4_60 = [
     Bind [TypeM ''QTCORE_QITEMSELECTIONMODEL''] ''setSelectionModel'' [PNonNull ''QItemSelectionModel*''] RVoid [OnObject QTableView, OnObject QTreeView, OnObject ''QTreeWidget''],
     Bind [] ''setShortcutAutoRepeat'' [PInt, PBool] RVoid [OnObject QWidget],
     Bind [] ''setShortcutEnabled'' [PInt, PBool] RVoid [OnObject QWidget],
     Bind [] ''setShowGrid'' [PBool] RVoid [OnObject QTableView],
     Bind [TypeM QTWIDGETS_QWIDGET] ''setSideWidget'' [PNonNull QWidget_ptr] RVoid [OnObject QWizard],
     Bind [ValueM QTCORE_QSIZE] ''setSizeIncrement'' [PConv QSize] RVoid [OnObject QWidget]]"

definition meth_qtwidgets_4_61 :: "binding list" where
  "meth_qtwidgets_4_61 = [
     Bind [] ''setSizeIncrement'' [PInt, PInt] RVoid [OnObject QWidget],
     Bind [ValueM QTWIDGETS_QSIZEPOLICY] ''setSizePolicy'' [PConv QSizePolicy] RVoid [OnObject QWidget],
     Bind [TypeM QTWIDGETS_QSIZEPOLICY] ''setSizePolicy'' [PConv QSizePolicy_Policy, PConv QSizePolicy_Policy] RVoid [OnObject QWidget],
     Bind [] ''setSortingEnabled'' [PBool] RVoid [OnObject QTableView, OnObject QTableWidget, OnObject QTreeView],
     Bind [TypeM QTGUI_QTEXTDOCUMENT, ValueM QTCORE_QURL] ''setSource'' [PConv QUrl, PConv ''QTextDocument::ResourceType''] RVoid [OnObject QTextBrowser]]"

definition meth_qtwidgets_4_62 :: "binding list" where
  "meth_qtwidgets_4_62 = [
     Bind [] ''setSpan'' [PInt, PInt, PInt, PInt] RVoid [OnObject QTableView],
     Bind [TypeM ''QTGUI_QUNDOSTACK''] ''setStack'' [PNonNull ''QUndoStack*''] RVoid [OnObject ''QUndoView''],
     Bind [] ''setStartId'' [PInt] RVoid [OnObject QWizard],
     Bind [] ''setStatusTip'' [PString True] RVoid [OnObject QWidget],
     Bind [TypeM QTWIDGETS_QSTYLE] ''setStyle'' [PNonNull ''QStyle*''] RVoid [OnObject QWidget],
     Bind [] ''setStyleSheet'' [PString True] RVoid [OnObject QWidget]]"

definition meth_qtwidgets_4_63 :: "binding list" where
  "meth_qtwidgets_4_63 = [
     Bind [] ''setSubTitle'' [PString True] RVoid [OnObject ''QWizardPage''],
     Bind [EnumM ''QT_TEXTFORMAT''] ''setSubTitleFormat'' [PConv ''Qt::TextFormat''] RVoid [OnObject QWizard],
     Bind [EnumM QT_DROPACTIONS] ''setSupportedDragActions'' [PConv Qt_DropActions] RVoid [OnObject QTableWidget, OnObject ''QTreeWidget''],
     Bind [] ''setTabChangesFocus'' [PBool] RVoid [OnObject QTextEdit],
     Bind [TypeM QTWIDGETS_QWIDGET] ''setTabOrder'' [PNonNull QWidget_ptr, PNonNull QWidget_ptr] RVoid [Static QWidget],
     Bind [] ''setTabStopDistance'' [PReal ''qreal''] RVoid [OnObject QTextEdit]]"

definition meth_qtwidgets_4_64 :: "binding list" where
  "meth_qtwidgets_4_64 = [
     Bind [] ''setTabletTracking'' [PBool] RVoid [OnObject QWidget],
     Bind [] ''setText'' [PString True] RVoid [OnObject QTextEdit],
     Bind [ValueM QTGUI_QCOLOR] ''setTextBackgroundColor'' [PConv QColor] RVoid [OnObject QTextEdit],
     Bind [ValueM QTGUI_QCOLOR] ''setTextColor'' [PConv QColor] RVoid [OnObject QTextEdit],
     Bind [ValueM QTGUI_QTEXTCURSOR] ''setTextCursor'' [PConv QTextCursor] RVoid [OnObject QTextEdit],
     Bind [] ''setTimeout'' [PInt] RVoid [Static ''QTapAndHoldGesture''],
     Bind [] ''setTitle'' [PString True] RVoid [OnObject ''QWizardPage'']]"

definition meth_qtwidgets_4_65 :: "binding list" where
  "meth_qtwidgets_4_65 = [
     Bind [EnumM ''QT_TEXTFORMAT''] ''setTitleFormat'' [PConv ''Qt::TextFormat''] RVoid [OnObject QWizard],
     Bind [EnumM ''QT_TOOLBUTTONSTYLE''] ''setToolButtonStyle'' [PConv ''Qt::ToolButtonStyle''] RVoid [OnObject ''QToolBar'', OnObject ''QToolButton''],
     Bind [] ''setToolTip'' [PString True] RVoid [OnObject QWidget],
     Bind [] ''setToolTipDuration'' [PInt] RVoid [OnObject QWidget],
     Bind [] ''setTreePosition'' [PInt] RVoid [OnObject QTreeView],
     Bind [] ''setUndoRedoEnabled'' [PBool] RVoid [OnObject QTextEdit],
     Bind [] ''setUniformRowHeights'' [PBool] RVoid [OnObject QTreeView]]"

definition meth_qtwidgets_4_66 :: "binding list" where
  "meth_qtwidgets_4_66 = [
     Bind [] ''setUpdatesEnabled'' [PBool] RVoid [OnObject QWidget],
     Bind [TypeM ''QTWIDGETS_QHEADERVIEW''] ''setVerticalHeader'' [PNonNull ''QHeaderView*''] RVoid [OnObject QTableView],
     Bind [] ''setVerticalHeaderLabels'' [PStringList] RVoid [OnObject QTableWidget],
     Bind [] ''setVisible'' [PBool] RVoid [OnObject QWidget, OnObject QWizard],
     Bind [] ''setWhatsThis'' [PString True] RVoid [OnObject QWidget],
     Bind [] ''setWindowFilePath'' [PString True] RVoid [OnObject QWidget]]"

definition meth_qtwidgets_4_67 :: "binding list" where
  "meth_qtwidgets_4_67 = [
     Bind [EnumM ''QT_WINDOWTYPE''] ''setWindowFlag'' [PConv ''Qt::WindowType'', PBool] RVoid [OnObject QWidget],
     Bind [EnumM QT_WINDOWFLAGS] ''setWindowFlags'' [PConv Qt_WindowFlags] RVoid [OnObject QWidget],
     Bind [ValueM QTGUI_QICON] ''setWindowIcon'' [PConv QIcon] RVoid [OnObject QWidget],
     Bind [] ''setWindowIconText'' [PString True] RVoid [OnObject QWidget],
     Bind [EnumM ''QT_WINDOWMODALITY''] ''setWindowModality'' [PConv ''Qt::WindowModality''] RVoid [OnObject QWidget],
     Bind [] ''setWindowModified'' [PBool] RVoid [OnObject QWidget],
     Bind [] ''setWindowOpacity'' [PReal ''qreal''] RVoid [OnObject QWidget]]"

definition meth_qtwidgets_4_68 :: "binding list" where
  "meth_qtwidgets_4_68 = [
     Bind [] ''setWindowRole'' [PString True] RVoid [OnObject QWidget],
     Bind [EnumM ''QT_WINDOWSTATES''] ''setWindowState'' [PConv ''Qt::WindowStates''] RVoid [OnObject QWidget],
     Bind [] ''setWindowTitle'' [PString True] RVoid [OnObject QWidget],
     Bind [TypeM ''QTWIDGETS_QWIZARD''] ''setWizardStyle'' [PConv ''QWizard::WizardStyle''] RVoid [OnObject QWizard],
     Bind [] ''setWordWrap'' [PBool] RVoid [OnObject QTableView, OnObject QTreeView],
     Bind [TypeM QTGUI_QTEXTOPTION] ''setWordWrapMode'' [PConv ''QTextOption::WrapMode''] RVoid [OnObject QTextEdit],
     Bind [] ''show'' [] RVoid [OnObject QWidget]]"

definition meth_qtwidgets_4_69 :: "binding list" where
  "meth_qtwidgets_4_69 = [
     Bind [] ''showColumn'' [PInt] RVoid [OnObject QTableView, OnObject QTreeView],
     Bind [] ''showFullScreen'' [] RVoid [OnObject QWidget],
     Bind [] ''showGrid'' [] RBool [OnObject QTableView],
     Bind [] ''showMaximized'' [] RVoid [OnObject QWidget],
     Bind [] ''showMenu'' [] RVoid [OnObject ''QToolButton''],
     Bind [] ''showMinimized'' [] RVoid [OnObject QWidget],
     Bind [] ''showNormal'' [] RVoid [OnObject QWidget],
     Bind [] ''showRow'' [PInt] RVoid [OnObject QTableView]]"

definition meth_qtwidgets_4_70 :: "binding list" where
  "meth_qtwidgets_4_70 = [
     Bind [TypeM QTWIDGETS_QWIDGET, ValueM QTCORE_QPOINT] ''showText'' [PConv QPoint, PString True, PNonNull QWidget_ptr] RVoid [Static ''QWhatsThis''],
     Bind [TypeM QTWIDGETS_QWIDGET, ValueM QTCORE_QPOINT, ValueM QTCORE_QRECT] ''showText'' [PConv QPoint, PString True, PNonNull QWidget_ptr, PConv QRect, PInt] RVoid [Static ''QToolTip''],
     Bind [TypeM QTWIDGETS_QWIDGET] ''sideWidget'' [] RObject [OnObject QWizard],
     Bind [ValueM QTCORE_QSIZE] ''size'' [] (RValue QSize) [OnObject QWidget],
     Bind [ValueM QTCORE_QSIZE] ''sizeHint'' [] (RValue QSize) [OnObject ''QToolButton'', OnObject QWidget, OnObject QWizard]]"

definition meth_qtwidgets_4_71 :: "binding list" where
  "meth_qtwidgets_4_71 = [
     Bind [ValueM QTCORE_QSIZE] ''sizeIncrement'' [] (RValue QSize) [OnObject QWidget],
     Bind [ValueM QTWIDGETS_QSIZEPOLICY] ''sizePolicy'' [] (RValue QSizePolicy) [OnObject QWidget],
     Bind [EnumM ''QT_SORTORDER''] ''sortByColumn'' [PInt, PConv ''Qt::SortOrder''] RVoid [OnObject QTableView, OnObject QTreeView],
     Bind [] ''sortColumn'' [] RNumber [OnObject ''QTreeWidget''],
     Bind [EnumM ''QT_SORTORDER''] ''sortItems'' [PInt, PConv ''Qt::SortOrder''] RVoid [OnObject QTableWidget, OnObject ''QTreeWidget''],
     Bind [ValueM QTCORE_QURL] ''source'' [] (RValue QUrl) [OnObject QTextBrowser]]"

definition meth_qtwidgets_4_72 :: "binding list" where
  "meth_qtwidgets_4_72 = [
     Bind [TypeM QTGUI_QTEXTDOCUMENT] ''sourceType'' [] (RMeta ''QTextDocument::ResourceType'') [OnObject QTextBrowser],
     Bind [TypeM ''QTGUI_QUNDOSTACK''] ''stack'' [] RObject [OnObject ''QUndoView''],
     Bind [TypeM QTWIDGETS_QWIDGET] ''stackUnder'' [PNonNull QWidget_ptr] RVoid [OnObject QWidget],
     Bind [] ''startId'' [] RNumber [OnObject QWizard],
     Bind [] ''statusTip'' [] RString [OnObject QWidget],
     Bind [TypeM QTWIDGETS_QSTYLE] ''style'' [] RObject [OnObject QWidget],
     Bind [] ''styleSheet'' [] RString [OnObject QWidget],
     Bind [] ''subTitle'' [] RString [OnObject ''QWizardPage'']]"

definition meth_qtwidgets_4_73 :: "binding list" where
  "meth_qtwidgets_4_73 = [
     Bind [EnumM ''QT_TEXTFORMAT''] ''subTitleFormat'' [] (RMeta ''Qt::TextFormat'') [OnObject QWizard],
     Bind [EnumM QT_DROPACTIONS] ''supportedDragActions'' [] (RMeta Qt_DropActions) [OnObject QTableWidget, OnObject ''QTreeWidget''],
     Bind [] ''tabChangesFocus'' [] RBool [OnObject QTextEdit],
     Bind [] ''tabStopDistance'' [] RNumber [OnObject QTextEdit],
     Bind [EnumM ''QT_WIDGETATTRIBUTE''] ''testAttribute'' [PConv ''Qt::WidgetAttribute''] RBool [OnObject QWidget],
     Bind [TypeM ''QTWIDGETS_QWIZARD''] ''testOption'' [PConv ''QWizard::WizardOption''] RBool [OnObject QWizard],
     Bind [] ''text'' [] RString [Static ''QToolTip'']]"

definition meth_qtwidgets_4_74 :: "binding list" where
  "meth_qtwidgets_4_74 = [
     Bind [ValueM QTGUI_QCOLOR] ''textBackgroundColor'' [] (RValue QColor) [OnObject QTextEdit],
     Bind [ValueM QTGUI_QCOLOR] ''textColor'' [] (RValue QColor) [OnObject QTextEdit],
     Bind [ValueM QTGUI_QTEXTCURSOR] ''textCursor'' [] (RValue QTextCursor) [OnObject QTextEdit],
     Bind [] ''timeout'' [] RNumber [Static ''QTapAndHoldGesture''],
     Bind [] ''title'' [] RString [OnObject ''QWizardPage''],
     Bind [EnumM ''QT_TEXTFORMAT''] ''titleFormat'' [] (RMeta ''Qt::TextFormat'') [OnObject QWizard],
     Bind [] ''toHtml'' [] RString [OnObject QTextEdit],
     Bind [] ''toPlainText'' [] RString [OnObject QTextEdit]]"

definition meth_qtwidgets_4_75 :: "binding list" where
  "meth_qtwidgets_4_75 = [
     Bind [EnumM ''QT_TOOLBUTTONSTYLE''] ''toolButtonStyle'' [] (RMeta ''Qt::ToolButtonStyle'') [OnObject ''QToolBar'', OnObject ''QToolButton''],
     Bind [] ''toolTip'' [] RString [OnObject QWidget],
     Bind [] ''toolTipDuration'' [] RNumber [OnObject QWidget],
     Bind [] ''topLevelItemCount'' [] RNumber [OnObject ''QTreeWidget''],
     Bind [] ''treePosition'' [] RNumber [OnObject QTreeView],
     Bind [] ''underMouse'' [] RBool [OnObject QWidget],
     Bind [] ''undo'' [] RVoid [OnObject QTextEdit],
     Bind [EnumM ''QT_GESTURETYPE''] ''ungrabGesture'' [PConv ''Qt::GestureType''] RVoid [OnObject QWidget]]"

definition meth_qtwidgets_4_76 :: "binding list" where
  "meth_qtwidgets_4_76 = [
     Bind [] ''uniformRowHeights'' [] RBool [OnObject QTreeView],
     Bind [] ''unsetCursor'' [] RVoid [OnObject QWidget],
     Bind [] ''unsetLayoutDirection'' [] RVoid [OnObject QWidget],
     Bind [] ''unsetLocale'' [] RVoid [OnObject QWidget],
     Bind [] ''update'' [] RVoid [OnObject QWidget],
     Bind [ValueM QTCORE_QRECT] ''update'' [PConv QRect] RVoid [OnObject QWidget],
     Bind [ValueM QTGUI_QREGION] ''update'' [PConv QRegion] RVoid [OnObject QWidget]]"

definition meth_qtwidgets_4_77 :: "binding list" where
  "meth_qtwidgets_4_77 = [
     Bind [] ''update'' [PInt, PInt, PInt, PInt] RVoid [OnObject QWidget],
     Bind [] ''updateGeometry'' [] RVoid [OnObject QWidget],
     Bind [] ''updatesEnabled'' [] RBool [OnObject QWidget],
     Bind [] ''validateCurrentPage'' [] RBool [OnObject QWizard],
     Bind [] ''validatePage'' [] RBool [OnObject ''QWizardPage''],
     Bind [TypeM ''QTWIDGETS_QHEADERVIEW''] ''verticalHeader'' [] RObject [OnObject QTableView],
     Bind [ValueM QTGUI_QREGION] ''visibleRegion'' [] (RValue QRegion) [OnObject QWidget]]"

definition meth_qtwidgets_4_78 :: "binding list" where
  "meth_qtwidgets_4_78 = [
     Bind [] ''visitedIds'' [] (RList (IMeta ''int'')) [OnObject QWizard],
     Bind [] ''visualColumn'' [PInt] RNumber [OnObject QTableWidget],
     Bind [ValueM QTCORE_QMODELINDEX, ValueM QTCORE_QRECT] ''visualRect'' [PConv QModelIndex] (RValue QRect) [OnObject QTableView, OnObject QTreeView],
     Bind [] ''visualRow'' [PInt] RNumber [OnObject QTableWidget],
     Bind [] ''whatsThis'' [] RString [OnObject QWidget],
     Bind [TypeM QTWIDGETS_QWIDGET] ''widget'' [PInt] RObject [OnObject ''QToolBox''],
     Bind [] ''width'' [] RNumber [OnObject QWidget]]"

definition meth_qtwidgets_4_79 :: "binding list" where
  "meth_qtwidgets_4_79 = [
     Bind [TypeM QTWIDGETS_QWIDGET] ''window'' [] RObject [OnObject QWidget],
     Bind [] ''windowFilePath'' [] RString [OnObject QWidget],
     Bind [EnumM QT_WINDOWFLAGS] ''windowFlags'' [] (RMeta Qt_WindowFlags) [OnObject QWidget],
     Bind [TypeM QTGUI_QWINDOW] ''windowHandle'' [] RObject [OnObject QWidget],
     Bind [ValueM QTGUI_QICON] ''windowIcon'' [] (RValue QIcon) [OnObject QWidget],
     Bind [] ''windowIconText'' [] RString [OnObject QWidget],
     Bind [EnumM ''QT_WINDOWMODALITY''] ''windowModality'' [] (RMeta ''Qt::WindowModality'') [OnObject QWidget],
     Bind [] ''windowOpacity'' [] RNumber [OnObject QWidget]]"

definition meth_qtwidgets_4_80 :: "binding list" where
  "meth_qtwidgets_4_80 = [
     Bind [] ''windowRole'' [] RString [OnObject QWidget],
     Bind [EnumM ''QT_WINDOWSTATES''] ''windowState'' [] (RMeta ''Qt::WindowStates'') [OnObject QWidget],
     Bind [] ''windowTitle'' [] RString [OnObject QWidget],
     Bind [EnumM ''QT_WINDOWTYPE''] ''windowType'' [] (RMeta ''Qt::WindowType'') [OnObject QWidget],
     Bind [TypeM ''QTWIDGETS_QWIZARD''] ''wizardStyle'' [] (RMeta ''QWizard::WizardStyle'') [OnObject QWizard],
     Bind [] ''wordWrap'' [] RBool [OnObject QTableView, OnObject QTreeView],
     Bind [TypeM QTGUI_QTEXTOPTION] ''wordWrapMode'' [] (RMeta ''QTextOption::WrapMode'') [OnObject QTextEdit],
     Bind [] ''x'' [] RNumber [OnObject QWidget]]"

definition meth_qtwidgets_4_81 :: "binding list" where
  "meth_qtwidgets_4_81 = [
     Bind [] ''y'' [] RNumber [OnObject QWidget],
     Bind [] ''zoomIn'' [PInt] RVoid [OnObject QTextEdit],
     Bind [] ''zoomOut'' [PInt] RVoid [OnObject QTextEdit]]"

definition meth_table_widgets_e :: "(string \<times> shard) list" where
  "meth_table_widgets_e = [
     (''qtwidgets_4'', \<lparr>sh_module = ''QtWidgets'', sh_slug = ''QTWIDGETS'',
        sh_bindings = concat [meth_qtwidgets_4_0, meth_qtwidgets_4_1, meth_qtwidgets_4_2, meth_qtwidgets_4_3, meth_qtwidgets_4_4, meth_qtwidgets_4_5, meth_qtwidgets_4_6, meth_qtwidgets_4_7, meth_qtwidgets_4_8, meth_qtwidgets_4_9, meth_qtwidgets_4_10, meth_qtwidgets_4_11, meth_qtwidgets_4_12, meth_qtwidgets_4_13, meth_qtwidgets_4_14, meth_qtwidgets_4_15, meth_qtwidgets_4_16, meth_qtwidgets_4_17, meth_qtwidgets_4_18, meth_qtwidgets_4_19, meth_qtwidgets_4_20, meth_qtwidgets_4_21, meth_qtwidgets_4_22, meth_qtwidgets_4_23, meth_qtwidgets_4_24, meth_qtwidgets_4_25, meth_qtwidgets_4_26, meth_qtwidgets_4_27, meth_qtwidgets_4_28, meth_qtwidgets_4_29, meth_qtwidgets_4_30, meth_qtwidgets_4_31, meth_qtwidgets_4_32, meth_qtwidgets_4_33, meth_qtwidgets_4_34, meth_qtwidgets_4_35, meth_qtwidgets_4_36, meth_qtwidgets_4_37, meth_qtwidgets_4_38, meth_qtwidgets_4_39, meth_qtwidgets_4_40, meth_qtwidgets_4_41, meth_qtwidgets_4_42, meth_qtwidgets_4_43, meth_qtwidgets_4_44, meth_qtwidgets_4_45, meth_qtwidgets_4_46, meth_qtwidgets_4_47, meth_qtwidgets_4_48, meth_qtwidgets_4_49, meth_qtwidgets_4_50, meth_qtwidgets_4_51, meth_qtwidgets_4_52, meth_qtwidgets_4_53, meth_qtwidgets_4_54, meth_qtwidgets_4_55, meth_qtwidgets_4_56, meth_qtwidgets_4_57, meth_qtwidgets_4_58, meth_qtwidgets_4_59, meth_qtwidgets_4_60, meth_qtwidgets_4_61, meth_qtwidgets_4_62, meth_qtwidgets_4_63, meth_qtwidgets_4_64, meth_qtwidgets_4_65, meth_qtwidgets_4_66, meth_qtwidgets_4_67, meth_qtwidgets_4_68, meth_qtwidgets_4_69, meth_qtwidgets_4_70, meth_qtwidgets_4_71, meth_qtwidgets_4_72, meth_qtwidgets_4_73, meth_qtwidgets_4_74, meth_qtwidgets_4_75, meth_qtwidgets_4_76, meth_qtwidgets_4_77, meth_qtwidgets_4_78, meth_qtwidgets_4_79, meth_qtwidgets_4_80, meth_qtwidgets_4_81]\<rparr>)]"

lemmas meth_table_widgets_e_defs =
  meth_qtwidgets_4_0_def meth_qtwidgets_4_1_def meth_qtwidgets_4_2_def meth_qtwidgets_4_3_def
  meth_qtwidgets_4_4_def meth_qtwidgets_4_5_def meth_qtwidgets_4_6_def meth_qtwidgets_4_7_def
  meth_qtwidgets_4_8_def meth_qtwidgets_4_9_def meth_qtwidgets_4_10_def meth_qtwidgets_4_11_def
  meth_qtwidgets_4_12_def meth_qtwidgets_4_13_def meth_qtwidgets_4_14_def meth_qtwidgets_4_15_def
  meth_qtwidgets_4_16_def meth_qtwidgets_4_17_def meth_qtwidgets_4_18_def meth_qtwidgets_4_19_def
  meth_qtwidgets_4_20_def meth_qtwidgets_4_21_def meth_qtwidgets_4_22_def meth_qtwidgets_4_23_def
  meth_qtwidgets_4_24_def meth_qtwidgets_4_25_def meth_qtwidgets_4_26_def meth_qtwidgets_4_27_def
  meth_qtwidgets_4_28_def meth_qtwidgets_4_29_def meth_qtwidgets_4_30_def meth_qtwidgets_4_31_def
  meth_qtwidgets_4_32_def meth_qtwidgets_4_33_def meth_qtwidgets_4_34_def meth_qtwidgets_4_35_def
  meth_qtwidgets_4_36_def meth_qtwidgets_4_37_def meth_qtwidgets_4_38_def meth_qtwidgets_4_39_def
  meth_qtwidgets_4_40_def meth_qtwidgets_4_41_def meth_qtwidgets_4_42_def meth_qtwidgets_4_43_def
  meth_qtwidgets_4_44_def meth_qtwidgets_4_45_def meth_qtwidgets_4_46_def meth_qtwidgets_4_47_def
  meth_qtwidgets_4_48_def meth_qtwidgets_4_49_def meth_qtwidgets_4_50_def meth_qtwidgets_4_51_def
  meth_qtwidgets_4_52_def meth_qtwidgets_4_53_def meth_qtwidgets_4_54_def meth_qtwidgets_4_55_def
  meth_qtwidgets_4_56_def meth_qtwidgets_4_57_def meth_qtwidgets_4_58_def meth_qtwidgets_4_59_def
  meth_qtwidgets_4_60_def meth_qtwidgets_4_61_def meth_qtwidgets_4_62_def meth_qtwidgets_4_63_def
  meth_qtwidgets_4_64_def meth_qtwidgets_4_65_def meth_qtwidgets_4_66_def meth_qtwidgets_4_67_def
  meth_qtwidgets_4_68_def meth_qtwidgets_4_69_def meth_qtwidgets_4_70_def meth_qtwidgets_4_71_def
  meth_qtwidgets_4_72_def meth_qtwidgets_4_73_def meth_qtwidgets_4_74_def meth_qtwidgets_4_75_def
  meth_qtwidgets_4_76_def meth_qtwidgets_4_77_def meth_qtwidgets_4_78_def meth_qtwidgets_4_79_def
  meth_qtwidgets_4_80_def meth_qtwidgets_4_81_def

lemma meth_table_widgets_e_object_blocks: "list_all (\<lambda>(s, sh). object_blocks sh) meth_table_widgets_e"
  by (simp add: meth_table_widgets_e_def meth_table_widgets_e_defs object_blocks_def object_shard_def; (simp add: parameter_text_def qt_name_defs)?)

end
