(* ===== verification/Methods_Rest_C.thy ===== *)
theory Methods_Rest_C
  imports Shard_Methods Qt_Names
begin

text \<open>
  Tables of the method shards (generated\_methods): the blocks of every shard in the file's order.
\<close>

definition meth_qtxml_0_0 :: "binding list" where
  "meth_qtxml_0_0 = [
     Bind [TypeM ''QTXML_QDOMIMPLEMENTATION''] ''invalidDataPolicy'' [] (RMeta ''QDomImplementation::InvalidDataPolicy'') [Static QDomImplementation],
     Bind [TypeM ''QTXML_QDOMIMPLEMENTATION''] ''setInvalidDataPolicy'' [PConv ''QDomImplementation::InvalidDataPolicy''] RVoid [Static QDomImplementation]]"

definition meth_table_rest_c :: "(string \<times> shard) list" where
  "meth_table_rest_c = [
     (''qtxml_0'', \<lparr>sh_module = ''QtXml'', sh_slug = ''QTXML'',
        sh_bindings = concat [meth_qtxml_0_0]\<rparr>)]"

lemmas meth_table_rest_c_defs =
  meth_qtxml_0_0_def

lemma meth_table_rest_c_object_blocks: "list_all (\<lambda>(s, sh). object_blocks sh) meth_table_rest_c"
  by (simp add: meth_table_rest_c_def meth_table_rest_c_defs object_blocks_def object_shard_def; (simp add: parameter_text_def qt_name_defs)?)

end
