(* ===== verification/Value_Methods_Rest_A.thy ===== *)
theory Value_Methods_Rest_A
  imports Shard_Methods Qt_Names
begin

text \<open>
  Tables of the value method shards (generated\_value\_methods): the blocks of every shard in the file's order, and the
  classes it can store by value.
\<close>

definition vmeth_qaxcontainer_0_0 :: "binding list" where
  "vmeth_qaxcontainer_0_0 = [
     Bind [] ''asVariant'' [] RVariant [OnValue ''QAxBase''],
     Bind [] ''clear'' [] RVoid [OnValue ''QAxBase''],
     Bind [] ''control'' [] RString [OnValue ''QAxBase''],
     Bind [] ''disableClassInfo'' [] RVoid [OnValue ''QAxBase''],
     Bind [] ''disableEventSink'' [] RVoid [OnValue ''QAxBase''],
     Bind [] ''disableMetaObject'' [] RVoid [OnValue ''QAxBase''],
     Bind [] ''generateDocumentation'' [] RString [OnValue ''QAxBase''],
     Bind [] ''isNull'' [] RBool [OnValue ''QAxBase'']]"

definition vmeth_qaxcontainer_0_1 :: "binding list" where
  "vmeth_qaxcontainer_0_1 = [
     Bind [] ''propertyBag'' [] (RMap IVariant) [OnValue ''QAxBase''],
     Bind [] ''setControl'' [PString True] RBool [OnValue ''QAxBase''],
     Bind [] ''verbs'' [] (RList (IMeta QString)) [OnValue ''QAxBase'']]"

definition vtypes_qaxcontainer_0 :: "string list" where
  "vtypes_qaxcontainer_0 = [''QAxBase'']"

definition vmeth_qt3danimation_0_0 :: "binding list" where
  "vmeth_qt3danimation_0_0 = [
     Bind [] ''channelComponentCount'' [] RNumber [OnValue Qt3DAnimation_QChannel],
     Bind [] ''channelCount'' [] RNumber [OnValue Qt3DAnimation_QAnimationClipData],
     Bind [] ''clearChannelComponents'' [] RVoid [OnValue Qt3DAnimation_QChannel],
     Bind [] ''clearChannels'' [] RVoid [OnValue Qt3DAnimation_QAnimationClipData],
     Bind [] ''clearKeyFrames'' [] RVoid [OnValue Qt3DAnimation_QChannelComponent],
     Bind [ValueM QTGUI_QVECTOR2D] ''coordinates'' [] (RValue QVector2D) [OnValue Qt3DAnimation_QKeyFrame],
     Bind [TypeM ''QT3DANIMATION_QKEYFRAME''] ''interpolationType'' [] (RMeta ''Qt3DAnimation::QKeyFrame::InterpolationType'') [OnValue Qt3DAnimation_QKeyFrame],
     Bind [] ''isValid'' [] RBool [OnValue Qt3DAnimation_QAnimationClipData]]"

definition vmeth_qt3danimation_0_1 :: "binding list" where
  "vmeth_qt3danimation_0_1 = [
     Bind [] ''jointIndex'' [] RNumber [OnValue Qt3DAnimation_QChannel],
     Bind [] ''keyFrameCount'' [] RNumber [OnValue Qt3DAnimation_QChannelComponent],
     Bind [ValueM QTGUI_QVECTOR2D] ''leftControlPoint'' [] (RValue QVector2D) [OnValue Qt3DAnimation_QKeyFrame],
     Bind [] ''name'' [] RString [OnValue Qt3DAnimation_QAnimationClipData, OnValue Qt3DAnimation_QChannel, OnValue Qt3DAnimation_QChannelComponent],
     Bind [] ''removeChannel'' [PInt] RVoid [OnValue Qt3DAnimation_QAnimationClipData],
     Bind [] ''removeChannelComponent'' [PInt] RVoid [OnValue Qt3DAnimation_QChannel],
     Bind [] ''removeKeyFrame'' [PInt] RVoid [OnValue Qt3DAnimation_QChannelComponent]]"

definition vmeth_qt3danimation_0_2 :: "binding list" where
  "vmeth_qt3danimation_0_2 = [
     Bind [ValueM QTGUI_QVECTOR2D] ''rightControlPoint'' [] (RValue QVector2D) [OnValue Qt3DAnimation_QKeyFrame],
     Bind [ValueM QTGUI_QVECTOR2D] ''setCoordinates'' [PConv QVector2D] RVoid [OnValue Qt3DAnimation_QKeyFrame],
     Bind [TypeM ''QT3DANIMATION_QKEYFRAME''] ''setInterpolationType'' [PConv ''Qt3DAnimation::QKeyFrame::InterpolationType''] RVoid [OnValue Qt3DAnimation_QKeyFrame],
     Bind [] ''setJointIndex'' [PInt] RVoid [OnValue Qt3DAnimation_QChannel],
     Bind [ValueM QTGUI_QVECTOR2D] ''setLeftControlPoint'' [PConv QVector2D] RVoid [OnValue Qt3DAnimation_QKeyFrame],
     Bind [] ''setName'' [PString True] RVoid [OnValue Qt3DAnimation_QAnimationClipData, OnValue Qt3DAnimation_QChannel, OnValue Qt3DAnimation_QChannelComponent]]"

definition vmeth_qt3danimation_0_3 :: "binding list" where
  "vmeth_qt3danimation_0_3 = [
     Bind [ValueM QTGUI_QVECTOR2D] ''setRightControlPoint'' [PConv QVector2D] RVoid [OnValue Qt3DAnimation_QKeyFrame]]"

definition vtypes_qt3danimation_0 :: "string list" where
  "vtypes_qt3danimation_0 = [Qt3DAnimation_QAnimationClipData, Qt3DAnimation_QChannel, Qt3DAnimation_QChannelComponent, Qt3DAnimation_QKeyFrame]"

definition vmeth_qt3dcore_0_0 :: "binding list" where
  "vmeth_qt3dcore_0_0 = [
     Bind [] ''id'' [] (RMeta ''quint64'') [OnValue ''Qt3DCore::QNodeId''],
     Bind [] ''isEnabled'' [] RBool [OnValue ''Qt3DCore::QBackendNode''],
     Bind [] ''isNull'' [] RBool [OnValue ''Qt3DCore::QNodeId''],
     Bind [TypeM ''QT3DCORE_QBACKENDNODE''] ''mode'' [] (RMeta ''Qt3DCore::QBackendNode::Mode'') [OnValue ''Qt3DCore::QBackendNode''],
     Bind [] ''setEnabled'' [PBool] RVoid [OnValue ''Qt3DCore::QBackendNode''],
     Bind [TypeM QT3DCORE_QNODE] ''syncFromFrontEnd'' [PNonNull Qt3DCore_QNode_ptr, PBool] RVoid [OnValue ''Qt3DCore::QBackendNode'']]"

definition vtypes_qt3dcore_0 :: "string list" where
  "vtypes_qt3dcore_0 = [''Qt3DCore::QBackendNode'', ''Qt3DCore::QNodeId'']"

definition vmeth_qt3drender_0_0 :: "binding list" where
  "vmeth_qt3drender_0_0 = [
     Bind [] ''alignment'' [] RNumber [OnValue Qt3DRender_QTextureImageData],
     Bind [ValueM QTGUI_QVECTOR3D] ''center'' [] (RValue QVector3D) [OnValue Qt3DRender_QLevelOfDetailBoundingSphere],
     Bind [] ''cleanup'' [] RVoid [OnValue Qt3DRender_QTextureImageData],
     Bind [TypeM QT3DRENDER_QABSTRACTTEXTURE] ''comparisonFunction'' [] (RMeta ''Qt3DRender::QAbstractTexture::ComparisonFunction'') [OnValue Qt3DRender_QTextureData],
     Bind [TypeM QT3DRENDER_QABSTRACTTEXTURE] ''comparisonMode'' [] (RMeta ''Qt3DRender::QAbstractTexture::ComparisonMode'') [OnValue Qt3DRender_QTextureData],
     Bind [ValueM QTCORE_QBYTEARRAY] ''data'' [PInt, PInt, PInt] (RValue QByteArray) [OnValue Qt3DRender_QTextureImageData],
     Bind [] ''depth'' [] RNumber [OnValue Qt3DRender_QTextureData, OnValue Qt3DRender_QTextureImageData]]"

definition vmeth_qt3drender_0_1 :: "binding list" where
  "vmeth_qt3drender_0_1 = [
     Bind [] ''distance'' [] RNumber [OnValue Qt3DRender_QRayCasterHit],
     Bind [TypeM ''QT3DCORE_QENTITY''] ''entity'' [] RObject [OnValue Qt3DRender_QRayCasterHit],
     Bind [TypeM QT3DRENDER_QABSTRACTTEXTURE] ''face'' [] (RMeta ''Qt3DRender::QAbstractTexture::CubeMapFace'') [OnValue Qt3DRender_QTextureDataUpdate],
     Bind [] ''faces'' [] RNumber [OnValue Qt3DRender_QTextureImageData],
     Bind [TypeM QTOPENGL_QOPENGLTEXTURE] ''format'' [] (RMeta ''QOpenGLTexture::TextureFormat'') [OnValue Qt3DRender_QTextureImageData],
     Bind [TypeM QT3DRENDER_QABSTRACTTEXTURE] ''format'' [] (RMeta ''Qt3DRender::QAbstractTexture::TextureFormat'') [OnValue Qt3DRender_QTextureData],
     Bind [] ''height'' [] RNumber [OnValue Qt3DRender_QTextureData, OnValue Qt3DRender_QTextureImageData]]"

definition vmeth_qt3drender_0_2 :: "binding list" where
  "vmeth_qt3drender_0_2 = [
     Bind [] ''isAutoMipMapGenerationEnabled'' [] RBool [OnValue Qt3DRender_QTextureData],
     Bind [] ''isCompressed'' [] RBool [OnValue Qt3DRender_QTextureImageData],
     Bind [] ''isEmpty'' [] RBool [OnValue Qt3DRender_QLevelOfDetailBoundingSphere],
     Bind [] ''layer'' [] RNumber [OnValue Qt3DRender_QTextureDataUpdate],
     Bind [] ''layers'' [] RNumber [OnValue Qt3DRender_QTextureData, OnValue Qt3DRender_QTextureImageData],
     Bind [ValueM QTGUI_QVECTOR3D] ''localIntersection'' [] (RValue QVector3D) [OnValue Qt3DRender_QRayCasterHit],
     Bind [TypeM QT3DRENDER_QABSTRACTTEXTURE] ''magnificationFilter'' [] (RMeta Qt3DRender_QAbstractTexture_Filter) [OnValue Qt3DRender_QTextureData],
     Bind [] ''maximumAnisotropy'' [] RNumber [OnValue Qt3DRender_QTextureData]]"

definition vmeth_qt3drender_0_3 :: "binding list" where
  "vmeth_qt3drender_0_3 = [
     Bind [TypeM QT3DRENDER_QABSTRACTTEXTURE] ''minificationFilter'' [] (RMeta Qt3DRender_QAbstractTexture_Filter) [OnValue Qt3DRender_QTextureData],
     Bind [] ''mipLevel'' [] RNumber [OnValue Qt3DRender_QTextureDataUpdate],
     Bind [] ''mipLevels'' [] RNumber [OnValue Qt3DRender_QTextureImageData],
     Bind [TypeM QTOPENGL_QOPENGLTEXTURE] ''pixelFormat'' [] (RMeta ''QOpenGLTexture::PixelFormat'') [OnValue Qt3DRender_QTextureImageData],
     Bind [TypeM QTOPENGL_QOPENGLTEXTURE] ''pixelType'' [] (RMeta ''QOpenGLTexture::PixelType'') [OnValue Qt3DRender_QTextureImageData],
     Bind [] ''primitiveIndex'' [] RNumber [OnValue Qt3DRender_QRayCasterHit],
     Bind [] ''radius'' [] RNumber [OnValue Qt3DRender_QLevelOfDetailBoundingSphere],
     Bind [] ''setAlignment'' [PInt] RVoid [OnValue Qt3DRender_QTextureImageData]]"

definition vmeth_qt3drender_0_4 :: "binding list" where
  "vmeth_qt3drender_0_4 = [
     Bind [] ''setAutoMipMapGenerationEnabled'' [PBool] RVoid [OnValue Qt3DRender_QTextureData],
     Bind [TypeM QT3DRENDER_QABSTRACTTEXTURE] ''setComparisonFunction'' [PConv ''Qt3DRender::QAbstractTexture::ComparisonFunction''] RVoid [OnValue Qt3DRender_QTextureData],
     Bind [TypeM QT3DRENDER_QABSTRACTTEXTURE] ''setComparisonMode'' [PConv ''Qt3DRender::QAbstractTexture::ComparisonMode''] RVoid [OnValue Qt3DRender_QTextureData],
     Bind [ValueM QTCORE_QBYTEARRAY] ''setData'' [PConv QByteArray, PInt, PBool] RVoid [OnValue Qt3DRender_QTextureImageData],
     Bind [] ''setDepth'' [PInt] RVoid [OnValue Qt3DRender_QTextureData, OnValue Qt3DRender_QTextureImageData],
     Bind [TypeM QT3DRENDER_QABSTRACTTEXTURE] ''setFace'' [PConv ''Qt3DRender::QAbstractTexture::CubeMapFace''] RVoid [OnValue Qt3DRender_QTextureDataUpdate]]"

definition vmeth_qt3drender_0_5 :: "binding list" where
  "vmeth_qt3drender_0_5 = [
     Bind [] ''setFaces'' [PInt] RVoid [OnValue Qt3DRender_QTextureImageData],
     Bind [TypeM QTOPENGL_QOPENGLTEXTURE] ''setFormat'' [PConv ''QOpenGLTexture::TextureFormat''] RVoid [OnValue Qt3DRender_QTextureImageData],
     Bind [TypeM QT3DRENDER_QABSTRACTTEXTURE] ''setFormat'' [PConv ''Qt3DRender::QAbstractTexture::TextureFormat''] RVoid [OnValue Qt3DRender_QTextureData],
     Bind [] ''setHeight'' [PInt] RVoid [OnValue Qt3DRender_QTextureData, OnValue Qt3DRender_QTextureImageData],
     Bind [ValueM QTGUI_QIMAGE] ''setImage'' [PConv QImage] RVoid [OnValue Qt3DRender_QTextureImageData],
     Bind [] ''setLayer'' [PInt] RVoid [OnValue Qt3DRender_QTextureDataUpdate]]"

definition vmeth_qt3drender_0_6 :: "binding list" where
  "vmeth_qt3drender_0_6 = [
     Bind [] ''setLayers'' [PInt] RVoid [OnValue Qt3DRender_QTextureData, OnValue Qt3DRender_QTextureImageData],
     Bind [TypeM QT3DRENDER_QABSTRACTTEXTURE] ''setMagnificationFilter'' [PConv Qt3DRender_QAbstractTexture_Filter] RVoid [OnValue Qt3DRender_QTextureData],
     Bind [] ''setMaximumAnisotropy'' [PReal ''float''] RVoid [OnValue Qt3DRender_QTextureData],
     Bind [TypeM QT3DRENDER_QABSTRACTTEXTURE] ''setMinificationFilter'' [PConv Qt3DRender_QAbstractTexture_Filter] RVoid [OnValue Qt3DRender_QTextureData],
     Bind [] ''setMipLevel'' [PInt] RVoid [OnValue Qt3DRender_QTextureDataUpdate],
     Bind [] ''setMipLevels'' [PInt] RVoid [OnValue Qt3DRender_QTextureImageData]]"

definition vmeth_qt3drender_0_7 :: "binding list" where
  "vmeth_qt3drender_0_7 = [
     Bind [TypeM QTOPENGL_QOPENGLTEXTURE] ''setPixelFormat'' [PConv ''QOpenGLTexture::PixelFormat''] RVoid [OnValue Qt3DRender_QTextureImageData],
     Bind [TypeM QTOPENGL_QOPENGLTEXTURE] ''setPixelType'' [PConv ''QOpenGLTexture::PixelType''] RVoid [OnValue Qt3DRender_QTextureImageData],
     Bind [TypeM QTOPENGL_QOPENGLTEXTURE] ''setTarget'' [PConv ''QOpenGLTexture::Target''] RVoid [OnValue Qt3DRender_QTextureImageData],
     Bind [TypeM QT3DRENDER_QABSTRACTTEXTURE] ''setTarget'' [PConv ''Qt3DRender::QAbstractTexture::Target''] RVoid [OnValue Qt3DRender_QTextureData],
     Bind [] ''setWidth'' [PInt] RVoid [OnValue Qt3DRender_QTextureData, OnValue Qt3DRender_QTextureImageData],
     Bind [TypeM QT3DRENDER_QTEXTUREWRAPMODE] ''setWrapModeX'' [PConv Qt3DRender_QTextureWrapMode_WrapMode] RVoid [OnValue Qt3DRender_QTextureData]]"

definition vmeth_qt3drender_0_8 :: "binding list" where
  "vmeth_qt3drender_0_8 = [
     Bind [TypeM QT3DRENDER_QTEXTUREWRAPMODE] ''setWrapModeY'' [PConv Qt3DRender_QTextureWrapMode_WrapMode] RVoid [OnValue Qt3DRender_QTextureData],
     Bind [TypeM QT3DRENDER_QTEXTUREWRAPMODE] ''setWrapModeZ'' [PConv Qt3DRender_QTextureWrapMode_WrapMode] RVoid [OnValue Qt3DRender_QTextureData],
     Bind [] ''setX'' [PInt] RVoid [OnValue Qt3DRender_QTextureDataUpdate],
     Bind [] ''setY'' [PInt] RVoid [OnValue Qt3DRender_QTextureDataUpdate],
     Bind [] ''setZ'' [PInt] RVoid [OnValue Qt3DRender_QTextureDataUpdate],
     Bind [TypeM QTOPENGL_QOPENGLTEXTURE] ''target'' [] (RMeta ''QOpenGLTexture::Target'') [OnValue Qt3DRender_QTextureImageData],
     Bind [TypeM QT3DRENDER_QABSTRACTTEXTURE] ''target'' [] (RMeta ''Qt3DRender::QAbstractTexture::Target'') [OnValue Qt3DRender_QTextureData]]"

definition vmeth_qt3drender_0_9 :: "binding list" where
  "vmeth_qt3drender_0_9 = [
     Bind [TypeM ''QT3DRENDER_QRAYCASTERHIT''] ''type'' [] (RMeta ''Qt3DRender::QRayCasterHit::HitType'') [OnValue Qt3DRender_QRayCasterHit],
     Bind [] ''vertex1Index'' [] RNumber [OnValue Qt3DRender_QRayCasterHit],
     Bind [] ''vertex2Index'' [] RNumber [OnValue Qt3DRender_QRayCasterHit],
     Bind [] ''vertex3Index'' [] RNumber [OnValue Qt3DRender_QRayCasterHit],
     Bind [] ''width'' [] RNumber [OnValue Qt3DRender_QTextureData, OnValue Qt3DRender_QTextureImageData],
     Bind [ValueM QTGUI_QVECTOR3D] ''worldIntersection'' [] (RValue QVector3D) [OnValue Qt3DRender_QRayCasterHit],
     Bind [TypeM QT3DRENDER_QTEXTUREWRAPMODE] ''wrapModeX'' [] (RMeta Qt3DRender_QTextureWrapMode_WrapMode) [OnValue Qt3DRender_QTextureData]]"

definition vmeth_qt3drender_0_10 :: "binding list" where
  "vmeth_qt3drender_0_10 = [
     Bind [TypeM QT3DRENDER_QTEXTUREWRAPMODE] ''wrapModeY'' [] (RMeta Qt3DRender_QTextureWrapMode_WrapMode) [OnValue Qt3DRender_QTextureData],
     Bind [TypeM QT3DRENDER_QTEXTUREWRAPMODE] ''wrapModeZ'' [] (RMeta Qt3DRender_QTextureWrapMode_WrapMode) [OnValue Qt3DRender_QTextureData],
     Bind [] ''x'' [] RNumber [OnValue Qt3DRender_QTextureDataUpdate],
     Bind [] ''y'' [] RNumber [OnValue Qt3DRender_QTextureDataUpdate],
     Bind [] ''z'' [] RNumber [OnValue Qt3DRender_QTextureDataUpdate]]"

definition vtypes_qt3drender_0 :: "string list" where
  "vtypes_qt3drender_0 = [Qt3DRender_QLevelOfDetailBoundingSphere, Qt3DRender_QRayCasterHit, Qt3DRender_QTextureData,
     Qt3DRender_QTextureDataUpdate, Qt3DRender_QTextureImageData]"

definition vmeth_qtbluetooth_0_0 :: "binding list" where
  "vmeth_qtbluetooth_0_0 = [
     Bind [ValueM QTBLUETOOTH_QBLUETOOTHADDRESS] ''address'' [] (RValue QBluetoothAddress) [OnValue QBluetoothDeviceInfo, OnValue ''QBluetoothHostInfo''],
     Bind [] ''clear'' [] RVoid [OnValue QBluetoothAddress],
     Bind [ValueM ''QTBLUETOOTH_QLOWENERGYDESCRIPTOR''] ''clientCharacteristicConfiguration'' [] (RValue QLowEnergyDescriptor) [OnValue QLowEnergyCharacteristic],
     Bind [ValueM QTBLUETOOTH_QBLUETOOTHUUID, ValueM ''QTBLUETOOTH_QLOWENERGYDESCRIPTOR''] ''descriptor'' [PConv QBluetoothUuid] (RValue QLowEnergyDescriptor) [OnValue QLowEnergyCharacteristic],
     Bind [ValueM ''QTBLUETOOTH_QLOWENERGYDESCRIPTOR''] ''descriptors'' [] (RList (IValue QLowEnergyDescriptor)) [OnValue QLowEnergyCharacteristic],
     Bind [ValueM ''QTBLUETOOTH_QBLUETOOTHDEVICEINFO''] ''device'' [] (RValue QBluetoothDeviceInfo) [OnValue QBluetoothServiceInfo]]"

definition vmeth_qtbluetooth_0_1 :: "binding list" where
  "vmeth_qtbluetooth_0_1 = [
     Bind [ValueM QTBLUETOOTH_QBLUETOOTHUUID] ''deviceUuid'' [] (RValue QBluetoothUuid) [OnValue QBluetoothDeviceInfo],
     Bind [TypeM ''QTBLUETOOTH_QLOWENERGYADVERTISINGDATA''] ''discoverability'' [] (RMeta ''QLowEnergyAdvertisingData::Discoverability'') [OnValue QLowEnergyAdvertisingData],
     Bind [TypeM QTBLUETOOTH_QLOWENERGYADVERTISINGPARAMETERS] ''filterPolicy'' [] (RMeta ''QLowEnergyAdvertisingParameters::FilterPolicy'') [OnValue QLowEnergyAdvertisingParameters],
     Bind [] ''includePowerLevel'' [] RBool [OnValue QLowEnergyAdvertisingData],
     Bind [] ''isCached'' [] RBool [OnValue QBluetoothDeviceInfo],
     Bind [] ''isComplete'' [] RBool [OnValue QBluetoothServiceInfo],
     Bind [] ''isNull'' [] RBool [OnValue QBluetoothAddress],
     Bind [] ''isRegistered'' [] RBool [OnValue QBluetoothServiceInfo]]"

definition vmeth_qtbluetooth_0_2 :: "binding list" where
  "vmeth_qtbluetooth_0_2 = [
     Bind [] ''isValid'' [] RBool [OnValue QBluetoothDeviceInfo, OnValue QBluetoothServiceInfo, OnValue QLowEnergyCharacteristic],
     Bind [] ''localName'' [] RString [OnValue QLowEnergyAdvertisingData],
     Bind [TypeM ''QTBLUETOOTH_QBLUETOOTHDEVICEINFO''] ''majorDeviceClass'' [] (RMeta ''QBluetoothDeviceInfo::MajorDeviceClass'') [OnValue QBluetoothDeviceInfo],
     Bind [ValueM QTCORE_QBYTEARRAY] ''manufacturerData'' [] (RValue QByteArray) [OnValue QLowEnergyAdvertisingData],
     Bind [] ''maximumInterval'' [] RNumber [OnValue QLowEnergyAdvertisingParameters],
     Bind [] ''minimumInterval'' [] RNumber [OnValue QLowEnergyAdvertisingParameters],
     Bind [] ''minimumSize'' [] RNumber [OnValue QBluetoothUuid]]"

definition vmeth_qtbluetooth_0_3 :: "binding list" where
  "vmeth_qtbluetooth_0_3 = [
     Bind [TypeM QTBLUETOOTH_QLOWENERGYADVERTISINGPARAMETERS] ''mode'' [] (RMeta ''QLowEnergyAdvertisingParameters::Mode'') [OnValue QLowEnergyAdvertisingParameters],
     Bind [] ''name'' [] RString [OnValue QBluetoothDeviceInfo, OnValue ''QBluetoothHostInfo'', OnValue QLowEnergyCharacteristic],
     Bind [] ''protocolServiceMultiplexer'' [] RNumber [OnValue QBluetoothServiceInfo],
     Bind [ValueM QTCORE_QBYTEARRAY] ''rawData'' [] (RValue QByteArray) [OnValue QLowEnergyAdvertisingData],
     Bind [ValueM QTBLUETOOTH_QBLUETOOTHADDRESS] ''registerService'' [PConv QBluetoothAddress] RBool [OnValue QBluetoothServiceInfo],
     Bind [] ''serverChannel'' [] RNumber [OnValue QBluetoothServiceInfo]]"

definition vmeth_qtbluetooth_0_4 :: "binding list" where
  "vmeth_qtbluetooth_0_4 = [
     Bind [ValueM QTBLUETOOTH_QBLUETOOTHUUID] ''serviceClassUuids'' [] (RList (IValue QBluetoothUuid)) [OnValue QBluetoothServiceInfo],
     Bind [ValueM QTBLUETOOTH_QBLUETOOTHUUID, ValueM QTCORE_QBYTEARRAY] ''serviceData'' [PConv QBluetoothUuid] (RValue QByteArray) [OnValue QBluetoothDeviceInfo],
     Bind [] ''serviceDescription'' [] RString [OnValue QBluetoothServiceInfo],
     Bind [ValueM QTBLUETOOTH_QBLUETOOTHUUID] ''serviceIds'' [] (RList (IValue QBluetoothUuid)) [OnValue QBluetoothDeviceInfo],
     Bind [] ''serviceName'' [] RString [OnValue QBluetoothServiceInfo],
     Bind [] ''serviceProvider'' [] RString [OnValue QBluetoothServiceInfo],
     Bind [ValueM QTBLUETOOTH_QBLUETOOTHUUID] ''serviceUuid'' [] (RValue QBluetoothUuid) [OnValue QBluetoothServiceInfo]]"

definition vmeth_qtbluetooth_0_5 :: "binding list" where
  "vmeth_qtbluetooth_0_5 = [
     Bind [ValueM QTBLUETOOTH_QBLUETOOTHUUID] ''serviceUuids'' [] (RList (IValue QBluetoothUuid)) [OnValue QBluetoothDeviceInfo],
     Bind [ValueM QTBLUETOOTH_QBLUETOOTHUUID] ''services'' [] (RList (IValue QBluetoothUuid)) [OnValue QLowEnergyAdvertisingData],
     Bind [ValueM QTBLUETOOTH_QBLUETOOTHADDRESS] ''setAddress'' [PConv QBluetoothAddress] RVoid [OnValue ''QBluetoothHostInfo''],
     Bind [] ''setCached'' [PBool] RVoid [OnValue QBluetoothDeviceInfo],
     Bind [ValueM ''QTBLUETOOTH_QBLUETOOTHDEVICEINFO''] ''setDevice'' [PConv QBluetoothDeviceInfo] RVoid [OnValue QBluetoothServiceInfo],
     Bind [ValueM QTBLUETOOTH_QBLUETOOTHUUID] ''setDeviceUuid'' [PConv QBluetoothUuid] RVoid [OnValue QBluetoothDeviceInfo]]"

definition vmeth_qtbluetooth_0_6 :: "binding list" where
  "vmeth_qtbluetooth_0_6 = [
     Bind [TypeM ''QTBLUETOOTH_QLOWENERGYADVERTISINGDATA''] ''setDiscoverability'' [PConv ''QLowEnergyAdvertisingData::Discoverability''] RVoid [OnValue QLowEnergyAdvertisingData],
     Bind [] ''setIncludePowerLevel'' [PBool] RVoid [OnValue QLowEnergyAdvertisingData],
     Bind [] ''setLocalName'' [PString True] RVoid [OnValue QLowEnergyAdvertisingData],
     Bind [TypeM QTBLUETOOTH_QLOWENERGYADVERTISINGPARAMETERS] ''setMode'' [PConv ''QLowEnergyAdvertisingParameters::Mode''] RVoid [OnValue QLowEnergyAdvertisingParameters],
     Bind [] ''setName'' [PString True] RVoid [OnValue QBluetoothDeviceInfo, OnValue ''QBluetoothHostInfo''],
     Bind [ValueM QTCORE_QBYTEARRAY] ''setRawData'' [PConv QByteArray] RVoid [OnValue QLowEnergyAdvertisingData]]"

definition vmeth_qtbluetooth_0_7 :: "binding list" where
  "vmeth_qtbluetooth_0_7 = [
     Bind [ValueM QTBLUETOOTH_QBLUETOOTHUUID, ValueM QTCORE_QBYTEARRAY] ''setServiceData'' [PConv QBluetoothUuid, PConv QByteArray] RBool [OnValue QBluetoothDeviceInfo],
     Bind [] ''setServiceDescription'' [PString True] RVoid [OnValue QBluetoothServiceInfo],
     Bind [] ''setServiceName'' [PString True] RVoid [OnValue QBluetoothServiceInfo],
     Bind [] ''setServiceProvider'' [PString True] RVoid [OnValue QBluetoothServiceInfo],
     Bind [ValueM QTBLUETOOTH_QBLUETOOTHUUID] ''setServiceUuid'' [PConv QBluetoothUuid] RVoid [OnValue QBluetoothServiceInfo],
     Bind [ValueM QTBLUETOOTH_QBLUETOOTHUUID] ''setServiceUuids'' [PListV QBluetoothUuid] RVoid [OnValue QBluetoothDeviceInfo]]"

definition vmeth_qtbluetooth_0_8 :: "binding list" where
  "vmeth_qtbluetooth_0_8 = [
     Bind [ValueM QTBLUETOOTH_QBLUETOOTHUUID] ''setServices'' [PListV QBluetoothUuid] RVoid [OnValue QLowEnergyAdvertisingData],
     Bind [TypeM QTBLUETOOTH_QBLUETOOTHSERVICEINFO] ''socketProtocol'' [] (RMeta ''QBluetoothServiceInfo::Protocol'') [OnValue QBluetoothServiceInfo],
     Bind [ValueM ''QTBLUETOOTH_QLOWENERGYADVERTISINGDATA''] ''swap'' [PConv QLowEnergyAdvertisingData] RVoid [OnValue QLowEnergyAdvertisingData],
     Bind [ValueM QTBLUETOOTH_QLOWENERGYADVERTISINGPARAMETERS] ''swap'' [PConv QLowEnergyAdvertisingParameters] RVoid [OnValue QLowEnergyAdvertisingParameters],
     Bind [] ''toString'' [] RString [OnValue QBluetoothAddress],
     Bind [] ''toUInt64'' [] (RMeta ''quint64'') [OnValue QBluetoothAddress],
     Bind [] ''unregisterService'' [] RBool [OnValue QBluetoothServiceInfo]]"

definition vmeth_qtbluetooth_0_9 :: "binding list" where
  "vmeth_qtbluetooth_0_9 = [
     Bind [ValueM QTBLUETOOTH_QBLUETOOTHUUID] ''uuid'' [] (RValue QBluetoothUuid) [OnValue QLowEnergyCharacteristic],
     Bind [ValueM QTCORE_QBYTEARRAY] ''value'' [] (RValue QByteArray) [OnValue QLowEnergyCharacteristic]]"

definition vtypes_qtbluetooth_0 :: "string list" where
  "vtypes_qtbluetooth_0 = [QBluetoothAddress, QBluetoothDeviceInfo, ''QBluetoothHostInfo'', QBluetoothServiceInfo, QBluetoothUuid,
     QLowEnergyAdvertisingData, QLowEnergyAdvertisingParameters, QLowEnergyCharacteristic]"

definition vmeth_qtbluetooth_1_0 :: "binding list" where
  "vmeth_qtbluetooth_1_0 = [
     Bind [ValueM ''QTBLUETOOTH_QLOWENERGYCHARACTERISTICDATA''] ''addCharacteristic'' [PConv QLowEnergyCharacteristicData] RVoid [OnValue QLowEnergyServiceData],
     Bind [ValueM ''QTBLUETOOTH_QLOWENERGYDESCRIPTORDATA''] ''addDescriptor'' [PConv QLowEnergyDescriptorData] RVoid [OnValue QLowEnergyCharacteristicData],
     Bind [TypeM QTBLUETOOTH_QLOWENERGYSERVICE] ''addIncludedService'' [PNonNull ''QLowEnergyService*''] RVoid [OnValue QLowEnergyServiceData],
     Bind [ValueM ''QTBLUETOOTH_QLOWENERGYCHARACTERISTICDATA''] ''characteristics'' [] (RList (IValue QLowEnergyCharacteristicData)) [OnValue QLowEnergyServiceData],
     Bind [ValueM ''QTBLUETOOTH_QLOWENERGYDESCRIPTORDATA''] ''descriptors'' [] (RList (IValue QLowEnergyDescriptorData)) [OnValue QLowEnergyCharacteristicData],
     Bind [TypeM QTBLUETOOTH_QLOWENERGYSERVICE] ''includedServices'' [] (RList IObject) [OnValue QLowEnergyServiceData]]"

definition vmeth_qtbluetooth_1_1 :: "binding list" where
  "vmeth_qtbluetooth_1_1 = [
     Bind [] ''isReadable'' [] RBool [OnValue QLowEnergyDescriptorData],
     Bind [] ''isValid'' [] RBool [OnValue QLowEnergyCharacteristicData, OnValue QLowEnergyDescriptor, OnValue QLowEnergyDescriptorData, OnValue QLowEnergyServiceData],
     Bind [] ''isWritable'' [] RBool [OnValue QLowEnergyDescriptorData],
     Bind [] ''latency'' [] RNumber [OnValue QLowEnergyConnectionParameters],
     Bind [] ''maximumInterval'' [] RNumber [OnValue QLowEnergyConnectionParameters],
     Bind [] ''maximumValueLength'' [] RNumber [OnValue QLowEnergyCharacteristicData],
     Bind [] ''minimumInterval'' [] RNumber [OnValue QLowEnergyConnectionParameters]]"

definition vmeth_qtbluetooth_1_2 :: "binding list" where
  "vmeth_qtbluetooth_1_2 = [
     Bind [] ''minimumValueLength'' [] RNumber [OnValue QLowEnergyCharacteristicData],
     Bind [] ''name'' [] RString [OnValue QLowEnergyDescriptor],
     Bind [ValueM ''QTBLUETOOTH_QLOWENERGYCHARACTERISTICDATA''] ''setCharacteristics'' [PListV QLowEnergyCharacteristicData] RVoid [OnValue QLowEnergyServiceData],
     Bind [ValueM ''QTBLUETOOTH_QLOWENERGYDESCRIPTORDATA''] ''setDescriptors'' [PListV QLowEnergyDescriptorData] RVoid [OnValue QLowEnergyCharacteristicData],
     Bind [TypeM QTBLUETOOTH_QLOWENERGYSERVICE] ''setIncludedServices'' [PList ''QLowEnergyService*''] RVoid [OnValue QLowEnergyServiceData],
     Bind [] ''setIntervalRange'' [PReal ''double'', PReal ''double''] RVoid [OnValue QLowEnergyConnectionParameters]]"

definition vmeth_qtbluetooth_1_3 :: "binding list" where
  "vmeth_qtbluetooth_1_3 = [
     Bind [] ''setLatency'' [PInt] RVoid [OnValue QLowEnergyConnectionParameters],
     Bind [] ''setSupervisionTimeout'' [PInt] RVoid [OnValue QLowEnergyConnectionParameters],
     Bind [TypeM ''QTBLUETOOTH_QLOWENERGYSERVICEDATA''] ''setType'' [PConv ''QLowEnergyServiceData::ServiceType''] RVoid [OnValue QLowEnergyServiceData],
     Bind [ValueM QTBLUETOOTH_QBLUETOOTHUUID] ''setUuid'' [PConv QBluetoothUuid] RVoid [OnValue QLowEnergyCharacteristicData, OnValue QLowEnergyDescriptorData, OnValue QLowEnergyServiceData],
     Bind [ValueM QTCORE_QBYTEARRAY] ''setValue'' [PConv QByteArray] RVoid [OnValue QLowEnergyCharacteristicData, OnValue QLowEnergyDescriptorData]]"

definition vmeth_qtbluetooth_1_4 :: "binding list" where
  "vmeth_qtbluetooth_1_4 = [
     Bind [] ''setValueLength'' [PInt, PInt] RVoid [OnValue QLowEnergyCharacteristicData],
     Bind [] ''supervisionTimeout'' [] RNumber [OnValue QLowEnergyConnectionParameters],
     Bind [ValueM ''QTBLUETOOTH_QLOWENERGYCHARACTERISTICDATA''] ''swap'' [PConv QLowEnergyCharacteristicData] RVoid [OnValue QLowEnergyCharacteristicData],
     Bind [ValueM ''QTBLUETOOTH_QLOWENERGYCONNECTIONPARAMETERS''] ''swap'' [PConv QLowEnergyConnectionParameters] RVoid [OnValue QLowEnergyConnectionParameters],
     Bind [ValueM ''QTBLUETOOTH_QLOWENERGYDESCRIPTORDATA''] ''swap'' [PConv QLowEnergyDescriptorData] RVoid [OnValue QLowEnergyDescriptorData],
     Bind [ValueM ''QTBLUETOOTH_QLOWENERGYSERVICEDATA''] ''swap'' [PConv QLowEnergyServiceData] RVoid [OnValue QLowEnergyServiceData]]"

definition vmeth_qtbluetooth_1_5 :: "binding list" where
  "vmeth_qtbluetooth_1_5 = [
     Bind [TypeM QTBLUETOOTH_QBLUETOOTHUUID] ''type'' [] (RMeta ''QBluetoothUuid::DescriptorType'') [OnValue QLowEnergyDescriptor],
     Bind [TypeM ''QTBLUETOOTH_QLOWENERGYSERVICEDATA''] ''type'' [] (RMeta ''QLowEnergyServiceData::ServiceType'') [OnValue QLowEnergyServiceData],
     Bind [ValueM QTBLUETOOTH_QBLUETOOTHUUID] ''uuid'' [] (RValue QBluetoothUuid) [OnValue QLowEnergyCharacteristicData, OnValue QLowEnergyDescriptor, OnValue QLowEnergyDescriptorData, OnValue QLowEnergyServiceData],
     Bind [ValueM QTCORE_QBYTEARRAY] ''value'' [] (RValue QByteArray) [OnValue QLowEnergyCharacteristicData, OnValue QLowEnergyDescriptor, OnValue QLowEnergyDescriptorData]]"

definition vtypes_qtbluetooth_1 :: "string list" where
  "vtypes_qtbluetooth_1 = [QLowEnergyCharacteristicData, QLowEnergyConnectionParameters, QLowEnergyDescriptor, QLowEnergyDescriptorData,
     QLowEnergyServiceData]"

definition vmeth_qtdbus_0_0 :: "binding list" where
  "vmeth_qtdbus_0_0 = [
     Bind [] ''arguments'' [] (RList IVariant) [OnValue QDBusMessage],
     Bind [ValueM QTDBUS_QDBUSMESSAGE, ValueM ''QTDBUS_QDBUSPENDINGCALL''] ''asyncCall'' [PConv QDBusMessage, PInt] (RValue QDBusPendingCall) [OnValue QDBusConnection],
     Bind [] ''autoStartService'' [] RBool [OnValue QDBusMessage],
     Bind [] ''baseService'' [] RString [OnValue QDBusConnection],
     Bind [ValueM QTCORE_QMETATYPE] ''beginArray'' [PConv QMetaType] RVoid [OnValue QDBusArgument],
     Bind [] ''beginArray'' [PInt] RVoid [OnValue QDBusArgument]]"

definition vmeth_qtdbus_0_1 :: "binding list" where
  "vmeth_qtdbus_0_1 = [
     Bind [ValueM QTCORE_QMETATYPE] ''beginMap'' [PConv QMetaType, PConv QMetaType] RVoid [OnValue QDBusArgument],
     Bind [] ''beginMap'' [PInt, PInt] RVoid [OnValue QDBusArgument],
     Bind [] ''beginMapEntry'' [] RVoid [OnValue QDBusArgument],
     Bind [] ''beginStructure'' [] RVoid [OnValue QDBusArgument],
     Bind [ValueM ''QTDBUS_QDBUSERROR'', ValueM QTDBUS_QDBUSMESSAGE] ''createErrorReply'' [PConv ''QDBusError''] (RValue QDBusMessage) [OnValue QDBusMessage],
     Bind [TypeM ''QTDBUS_QDBUSERROR'', ValueM QTDBUS_QDBUSMESSAGE] ''createErrorReply'' [PConv ''QDBusError::ErrorType'', PString True] (RValue QDBusMessage) [OnValue QDBusMessage]]"

definition vmeth_qtdbus_0_2 :: "binding list" where
  "vmeth_qtdbus_0_2 = [
     Bind [ValueM QTDBUS_QDBUSMESSAGE] ''createErrorReply'' [PString True, PString True] (RValue QDBusMessage) [OnValue QDBusMessage],
     Bind [ValueM QTDBUS_QDBUSMESSAGE] ''createReply'' [PVariantList] (RValue QDBusMessage) [OnValue QDBusMessage],
     Bind [ValueM QTDBUS_QDBUSMESSAGE] ''createReply'' [PVariant] (RValue QDBusMessage) [OnValue QDBusMessage],
     Bind [] ''endArray'' [] RVoid [OnValue QDBusArgument],
     Bind [] ''endMap'' [] RVoid [OnValue QDBusArgument],
     Bind [] ''endMapEntry'' [] RVoid [OnValue QDBusArgument],
     Bind [] ''endStructure'' [] RVoid [OnValue QDBusArgument]]"

definition vmeth_qtdbus_0_3 :: "binding list" where
  "vmeth_qtdbus_0_3 = [
     Bind [] ''errorMessage'' [] RString [OnValue QDBusMessage],
     Bind [] ''errorName'' [] RString [OnValue QDBusMessage],
     Bind [] ''fileDescriptor'' [] RNumber [OnValue QDBusUnixFileDescriptor],
     Bind [TypeM ''QTDBUS_QDBUSCONNECTIONINTERFACE''] ''interface'' [] RObject [OnValue QDBusConnection],
     Bind [] ''interface'' [] RString [OnValue QDBusMessage],
     Bind [] ''isConnected'' [] RBool [OnValue QDBusConnection],
     Bind [] ''isDelayedReply'' [] RBool [OnValue QDBusMessage],
     Bind [] ''isInteractiveAuthorizationAllowed'' [] RBool [OnValue QDBusMessage]]"

definition vmeth_qtdbus_0_4 :: "binding list" where
  "vmeth_qtdbus_0_4 = [
     Bind [] ''isReplyRequired'' [] RBool [OnValue QDBusMessage],
     Bind [] ''isValid'' [] RBool [OnValue ''QDBusError'', OnValue QDBusUnixFileDescriptor],
     Bind [ValueM ''QTDBUS_QDBUSERROR''] ''lastError'' [] (RValue ''QDBusError'') [OnValue QDBusConnection],
     Bind [] ''member'' [] RString [OnValue QDBusMessage],
     Bind [] ''message'' [] RString [OnValue ''QDBusError''],
     Bind [] ''name'' [] RString [OnValue QDBusConnection, OnValue ''QDBusError''],
     Bind [TypeM QTCORE_QOBJECT] ''objectRegisteredAt'' [PString True] RObject [OnValue QDBusConnection]]"

definition vmeth_qtdbus_0_5 :: "binding list" where
  "vmeth_qtdbus_0_5 = [
     Bind [] ''path'' [] RString [OnValue QDBusMessage, OnValue ''QDBusObjectPath''],
     Bind [] ''registerService'' [PString True] RBool [OnValue QDBusConnection],
     Bind [ValueM QTDBUS_QDBUSMESSAGE] ''send'' [PConv QDBusMessage] RBool [OnValue QDBusConnection],
     Bind [] ''service'' [] RString [OnValue QDBusMessage],
     Bind [] ''setArguments'' [PVariantList] RVoid [OnValue QDBusMessage],
     Bind [] ''setAutoStartService'' [PBool] RVoid [OnValue QDBusMessage],
     Bind [] ''setDelayedReply'' [PBool] RVoid [OnValue QDBusMessage]]"

definition vmeth_qtdbus_0_6 :: "binding list" where
  "vmeth_qtdbus_0_6 = [
     Bind [] ''setFileDescriptor'' [PInt] RVoid [OnValue QDBusUnixFileDescriptor],
     Bind [] ''setInteractiveAuthorizationAllowed'' [PBool] RVoid [OnValue QDBusMessage],
     Bind [] ''setPath'' [PString True] RVoid [OnValue ''QDBusObjectPath''],
     Bind [] ''setSignature'' [PString True] RVoid [OnValue ''QDBusSignature''],
     Bind [] ''signature'' [] RString [OnValue QDBusMessage, OnValue ''QDBusSignature''],
     Bind [ValueM ''QTDBUS_QDBUSARGUMENT''] ''swap'' [PConv QDBusArgument] RVoid [OnValue QDBusArgument]]"

definition vmeth_qtdbus_0_7 :: "binding list" where
  "vmeth_qtdbus_0_7 = [
     Bind [ValueM QTDBUS_QDBUSCONNECTION] ''swap'' [PConv QDBusConnection] RVoid [OnValue QDBusConnection],
     Bind [ValueM ''QTDBUS_QDBUSERROR''] ''swap'' [PConv ''QDBusError''] RVoid [OnValue ''QDBusError''],
     Bind [ValueM QTDBUS_QDBUSMESSAGE] ''swap'' [PConv QDBusMessage] RVoid [OnValue QDBusMessage],
     Bind [ValueM ''QTDBUS_QDBUSOBJECTPATH''] ''swap'' [PConv ''QDBusObjectPath''] RVoid [OnValue ''QDBusObjectPath''],
     Bind [ValueM ''QTDBUS_QDBUSPENDINGCALL''] ''swap'' [PConv QDBusPendingCall] RVoid [OnValue QDBusPendingCall],
     Bind [ValueM ''QTDBUS_QDBUSSIGNATURE''] ''swap'' [PConv ''QDBusSignature''] RVoid [OnValue ''QDBusSignature'']]"

definition vmeth_qtdbus_0_8 :: "binding list" where
  "vmeth_qtdbus_0_8 = [
     Bind [ValueM ''QTDBUS_QDBUSUNIXFILEDESCRIPTOR''] ''swap'' [PConv QDBusUnixFileDescriptor] RVoid [OnValue QDBusUnixFileDescriptor],
     Bind [TypeM ''QTDBUS_QDBUSERROR''] ''type'' [] (RMeta ''QDBusError::ErrorType'') [OnValue ''QDBusError''],
     Bind [TypeM QTDBUS_QDBUSMESSAGE] ''type'' [] (RMeta ''QDBusMessage::MessageType'') [OnValue QDBusMessage],
     Bind [TypeM QTDBUS_QDBUSCONNECTION] ''unregisterObject'' [PString True, PConv ''QDBusConnection::UnregisterMode''] RVoid [OnValue QDBusConnection],
     Bind [] ''unregisterService'' [PString True] RBool [OnValue QDBusConnection]]"

definition vtypes_qtdbus_0 :: "string list" where
  "vtypes_qtdbus_0 = [QDBusArgument, QDBusConnection, ''QDBusError'', QDBusMessage, ''QDBusObjectPath'', QDBusPendingCall,
     ''QDBusSignature'', QDBusUnixFileDescriptor]"

definition vmeth_qtdbus_1_0 :: "binding list" where
  "vmeth_qtdbus_1_0 = [
     Bind [] ''setVariant'' [PVariant] RVoid [OnValue ''QDBusVariant''],
     Bind [ValueM ''QTDBUS_QDBUSVARIANT''] ''swap'' [PConv ''QDBusVariant''] RVoid [OnValue ''QDBusVariant''],
     Bind [] ''variant'' [] RVariant [OnValue ''QDBusVariant'']]"

definition vtypes_qtdbus_1 :: "string list" where
  "vtypes_qtdbus_1 = [''QDBusVariant'']"

definition vmeth_qtdesigner_0_0 :: "binding list" where
  "vmeth_qtdesigner_0_0 = [
     Bind [] ''addPluginPath'' [PString True] RVoid [OnValue ''QFormBuilder''],
     Bind [] ''clearPluginPaths'' [] RVoid [OnValue ''QFormBuilder''],
     Bind [] ''codeTemplate'' [] RString [OnValue ''QDesignerCustomWidgetInterface''],
     Bind [] ''domXml'' [] RString [OnValue ''QDesignerCustomWidgetInterface''],
     Bind [] ''errorString'' [] RString [OnValue ''QAbstractFormBuilder''],
     Bind [TypeM ''QTDESIGNER_QDESIGNERFORMEDITORINTERFACE''] ''initialize'' [PNonNull ''QDesignerFormEditorInterface*''] RVoid [OnValue ''QDesignerCustomWidgetInterface''],
     Bind [] ''isInitialized'' [] RBool [OnValue ''QDesignerCustomWidgetInterface'']]"

definition vmeth_qtdesigner_0_1 :: "binding list" where
  "vmeth_qtdesigner_0_1 = [
     Bind [TypeM QTWIDGETS_QWIDGET] ''isWidgetSelected'' [PNonNull QWidget_ptr] RBool [OnValue ''QDesignerFormWindowCursorInterface''],
     Bind [TypeM QTCORE_QIODEVICE, TypeM QTWIDGETS_QWIDGET] ''load'' [PNonNull QIODevice_ptr, PNonNull QWidget_ptr] RObject [OnValue ''QAbstractFormBuilder''],
     Bind [] ''pluginPaths'' [] (RList (IMeta QString)) [OnValue ''QFormBuilder''],
     Bind [TypeM QTCORE_QIODEVICE, TypeM QTWIDGETS_QWIDGET] ''save'' [PNonNull QIODevice_ptr, PNonNull QWidget_ptr] RVoid [OnValue ''QAbstractFormBuilder''],
     Bind [] ''setPluginPath'' [PStringList] RVoid [OnValue ''QFormBuilder''],
     Bind [ValueM QTCORE_QDIR] ''setWorkingDirectory'' [PConv QDir] RVoid [OnValue ''QAbstractFormBuilder'']]"

definition vmeth_qtdesigner_0_2 :: "binding list" where
  "vmeth_qtdesigner_0_2 = [
     Bind [ValueM QTCORE_QDIR] ''workingDirectory'' [] (RValue QDir) [OnValue ''QAbstractFormBuilder'']]"

definition vtypes_qtdesigner_0 :: "string list" where
  "vtypes_qtdesigner_0 = [''QAbstractFormBuilder'', ''QDesignerCustomWidgetInterface'', ''QDesignerFormWindowCursorInterface'', ''QFormBuilder'']"

definition vmeth_qtgraphs_0_0 :: "binding list" where
  "vmeth_qtgraphs_0_0 = [
     Bind [ValueM QTGUI_QCOLOR] ''labelTextColor'' [] (RValue QColor) [OnValue QGraphsLine],
     Bind [ValueM QTGUI_QCOLOR] ''mainColor'' [] (RValue QColor) [OnValue QGraphsLine],
     Bind [] ''mainWidth'' [] RNumber [OnValue QGraphsLine],
     Bind [ValueM QTGUI_QCOLOR] ''setLabelTextColor'' [PConv QColor] RVoid [OnValue QGraphsLine],
     Bind [ValueM QTGUI_QCOLOR] ''setMainColor'' [PConv QColor] RVoid [OnValue QGraphsLine],
     Bind [] ''setMainWidth'' [PReal ''qreal''] RVoid [OnValue QGraphsLine],
     Bind [ValueM QTGUI_QCOLOR] ''setSubColor'' [PConv QColor] RVoid [OnValue QGraphsLine]]"

definition vmeth_qtgraphs_0_1 :: "binding list" where
  "vmeth_qtgraphs_0_1 = [
     Bind [] ''setSubWidth'' [PReal ''qreal''] RVoid [OnValue QGraphsLine],
     Bind [ValueM QTGUI_QCOLOR] ''subColor'' [] (RValue QColor) [OnValue QGraphsLine],
     Bind [] ''subWidth'' [] RNumber [OnValue QGraphsLine],
     Bind [ValueM ''QTGRAPHS_QGRAPHSLINE''] ''swap'' [PConv QGraphsLine] RVoid [OnValue QGraphsLine]]"

definition vtypes_qtgraphs_0 :: "string list" where
  "vtypes_qtgraphs_0 = [QGraphsLine]"

definition vmeth_qthelp_0_0 :: "binding list" where
  "vmeth_qthelp_0_0 = [
     Bind [] ''childCount'' [] RNumber [OnValue ''QHelpContentItem''],
     Bind [] ''component'' [] RString [OnValue QCompressedHelpInfo],
     Bind [] ''components'' [] (RList (IMeta QString)) [OnValue ''QHelpFilterData''],
     Bind [] ''isNull'' [] RBool [OnValue QCompressedHelpInfo],
     Bind [] ''namespaceName'' [] RString [OnValue QCompressedHelpInfo],
     Bind [] ''row'' [] RNumber [OnValue ''QHelpContentItem''],
     Bind [] ''setComponents'' [PStringList] RVoid [OnValue ''QHelpFilterData'']]"

definition vmeth_qthelp_0_1 :: "binding list" where
  "vmeth_qthelp_0_1 = [
     Bind [ValueM ''QTCORE_QVERSIONNUMBER''] ''setVersions'' [PListV QVersionNumber] RVoid [OnValue ''QHelpFilterData''],
     Bind [] ''snippet'' [] RString [OnValue ''QHelpSearchResult''],
     Bind [ValueM ''QTHELP_QCOMPRESSEDHELPINFO''] ''swap'' [PConv QCompressedHelpInfo] RVoid [OnValue QCompressedHelpInfo],
     Bind [ValueM ''QTHELP_QHELPFILTERDATA''] ''swap'' [PConv ''QHelpFilterData''] RVoid [OnValue ''QHelpFilterData''],
     Bind [] ''title'' [] RString [OnValue ''QHelpContentItem'', OnValue ''QHelpSearchResult''],
     Bind [ValueM QTCORE_QURL] ''url'' [] (RValue QUrl) [OnValue ''QHelpContentItem'', OnValue ''QHelpSearchResult'']]"

definition vmeth_qthelp_0_2 :: "binding list" where
  "vmeth_qthelp_0_2 = [
     Bind [ValueM ''QTCORE_QVERSIONNUMBER''] ''version'' [] (RValue QVersionNumber) [OnValue QCompressedHelpInfo],
     Bind [ValueM ''QTCORE_QVERSIONNUMBER''] ''versions'' [] (RList (IValue QVersionNumber)) [OnValue ''QHelpFilterData'']]"

definition vtypes_qthelp_0 :: "string list" where
  "vtypes_qthelp_0 = [QCompressedHelpInfo, ''QHelpContentItem'', ''QHelpFilterData'', ''QHelpSearchResult'']"

definition vmeth_qtmultimedia_0_0 :: "binding list" where
  "vmeth_qtmultimedia_0_0 = [
     Bind [TypeM QTMULTIMEDIA_QMEDIAFORMAT] ''audioCodec'' [] (RMeta ''QMediaFormat::AudioCodec'') [OnValue QMediaFormat],
     Bind [] ''byteCount'' [] (RMeta ''qsizetype'') [OnValue QAudioBuffer],
     Bind [] ''bytesPerFrame'' [] RNumber [OnValue QAudioFormat],
     Bind [] ''bytesPerSample'' [] RNumber [OnValue QAudioFormat],
     Bind [TypeM QTMULTIMEDIA_QAUDIOFORMAT] ''channelConfig'' [] (RMeta ''QAudioFormat::ChannelConfig'') [OnValue QAudioFormat],
     Bind [TypeM QTMULTIMEDIA_QAUDIOFORMAT] ''channelConfiguration'' [] (RMeta ''QAudioFormat::ChannelConfig'') [OnValue QAudioDevice],
     Bind [] ''channelCount'' [] RNumber [OnValue QAudioFormat],
     Bind [TypeM QTMULTIMEDIA_QAUDIOFORMAT] ''channelOffset'' [PConv ''QAudioFormat::AudioChannelPosition''] RNumber [OnValue QAudioFormat]]"

definition vmeth_qtmultimedia_0_1 :: "binding list" where
  "vmeth_qtmultimedia_0_1 = [
     Bind [] ''description'' [] RString [OnValue QAudioDevice, OnValue QCameraDevice, OnValue QCapturableWindow],
     Bind [] ''detach'' [] RVoid [OnValue QAudioBuffer],
     Bind [] ''duration'' [] (RMeta ''qint64'') [OnValue QAudioBuffer],
     Bind [TypeM QTMULTIMEDIA_QMEDIAFORMAT] ''fileFormat'' [] (RMeta ''QMediaFormat::FileFormat'') [OnValue QMediaFormat],
     Bind [ValueM QTMULTIMEDIA_QAUDIOFORMAT] ''format'' [] (RValue QAudioFormat) [OnValue QAudioBuffer],
     Bind [] ''frameCount'' [] (RMeta ''qsizetype'') [OnValue QAudioBuffer]]"

definition vmeth_qtmultimedia_0_2 :: "binding list" where
  "vmeth_qtmultimedia_0_2 = [
     Bind [ValueM QTCORE_QBYTEARRAY] ''id'' [] (RValue QByteArray) [OnValue QAudioDevice, OnValue QCameraDevice],
     Bind [TypeM QTMULTIMEDIA_QMEDIAMETADATA] ''insert'' [PConv ''QMediaMetaData::Key'', PVariant] RVoid [OnValue ''QMediaMetaData''],
     Bind [] ''isDefault'' [] RBool [OnValue QAudioDevice, OnValue QCameraDevice],
     Bind [ValueM QTMULTIMEDIA_QAUDIOFORMAT] ''isFormatSupported'' [PConv QAudioFormat] RBool [OnValue QAudioDevice],
     Bind [] ''isNull'' [] RBool [OnValue QAudioDevice, OnValue QCameraDevice, OnValue ''QCameraFormat'']]"

definition vmeth_qtmultimedia_0_3 :: "binding list" where
  "vmeth_qtmultimedia_0_3 = [
     Bind [TypeM QTMULTIMEDIA_QMEDIAFORMAT] ''isSupported'' [PConv ''QMediaFormat::ConversionMode''] RBool [OnValue QMediaFormat],
     Bind [] ''isValid'' [] RBool [OnValue QAudioBuffer, OnValue QAudioFormat, OnValue QCapturableWindow],
     Bind [TypeM QTMULTIMEDIA_QMEDIAMETADATA] ''keys'' [] (RList (IMeta ''QMediaMetaData::Key'')) [OnValue ''QMediaMetaData''],
     Bind [] ''maxFrameRate'' [] RNumber [OnValue ''QCameraFormat''],
     Bind [] ''maximumChannelCount'' [] RNumber [OnValue QAudioDevice],
     Bind [] ''maximumSampleRate'' [] RNumber [OnValue QAudioDevice],
     Bind [ValueM ''QTCORE_QMIMETYPE''] ''mimeType'' [] (RValue QMimeType) [OnValue QMediaFormat]]"

definition vmeth_qtmultimedia_0_4 :: "binding list" where
  "vmeth_qtmultimedia_0_4 = [
     Bind [] ''minFrameRate'' [] RNumber [OnValue ''QCameraFormat''],
     Bind [] ''minimumChannelCount'' [] RNumber [OnValue QAudioDevice],
     Bind [] ''minimumSampleRate'' [] RNumber [OnValue QAudioDevice],
     Bind [TypeM QTMULTIMEDIA_QAUDIODEVICE] ''mode'' [] (RMeta ''QAudioDevice::Mode'') [OnValue QAudioDevice],
     Bind [ValueM QTCORE_QSIZE] ''photoResolutions'' [] (RList (IValue QSize)) [OnValue QCameraDevice],
     Bind [TypeM QTMULTIMEDIA_QVIDEOFRAMEFORMAT] ''pixelFormat'' [] (RMeta ''QVideoFrameFormat::PixelFormat'') [OnValue ''QCameraFormat''],
     Bind [TypeM QTMULTIMEDIA_QCAMERADEVICE] ''position'' [] (RMeta ''QCameraDevice::Position'') [OnValue QCameraDevice]]"

definition vmeth_qtmultimedia_0_5 :: "binding list" where
  "vmeth_qtmultimedia_0_5 = [
     Bind [ValueM QTMULTIMEDIA_QAUDIOFORMAT] ''preferredFormat'' [] (RValue QAudioFormat) [OnValue QAudioDevice],
     Bind [ValueM QTCORE_QSIZE] ''resolution'' [] (RValue QSize) [OnValue ''QCameraFormat''],
     Bind [TypeM QTMULTIMEDIA_QMEDIAFORMAT] ''resolveForEncoding'' [PConv ''QMediaFormat::ResolveFlags''] RVoid [OnValue QMediaFormat],
     Bind [] ''sampleCount'' [] (RMeta ''qsizetype'') [OnValue QAudioBuffer],
     Bind [TypeM QTMULTIMEDIA_QAUDIOFORMAT] ''sampleFormat'' [] (RMeta ''QAudioFormat::SampleFormat'') [OnValue QAudioFormat],
     Bind [] ''sampleRate'' [] RNumber [OnValue QAudioFormat],
     Bind [TypeM QTMULTIMEDIA_QMEDIAFORMAT] ''setAudioCodec'' [PConv ''QMediaFormat::AudioCodec''] RVoid [OnValue QMediaFormat]]"

definition vmeth_qtmultimedia_0_6 :: "binding list" where
  "vmeth_qtmultimedia_0_6 = [
     Bind [TypeM QTMULTIMEDIA_QAUDIOFORMAT] ''setChannelConfig'' [PConv ''QAudioFormat::ChannelConfig''] RVoid [OnValue QAudioFormat],
     Bind [] ''setChannelCount'' [PInt] RVoid [OnValue QAudioFormat],
     Bind [TypeM QTMULTIMEDIA_QMEDIAFORMAT] ''setFileFormat'' [PConv ''QMediaFormat::FileFormat''] RVoid [OnValue QMediaFormat],
     Bind [TypeM QTMULTIMEDIA_QAUDIOFORMAT] ''setSampleFormat'' [PConv ''QAudioFormat::SampleFormat''] RVoid [OnValue QAudioFormat],
     Bind [] ''setSampleRate'' [PInt] RVoid [OnValue QAudioFormat],
     Bind [TypeM QTMULTIMEDIA_QMEDIAFORMAT] ''setVideoCodec'' [PConv ''QMediaFormat::VideoCodec''] RVoid [OnValue QMediaFormat]]"

definition vmeth_qtmultimedia_0_7 :: "binding list" where
  "vmeth_qtmultimedia_0_7 = [
     Bind [] ''startTime'' [] (RMeta ''qint64'') [OnValue QAudioBuffer],
     Bind [TypeM QTMULTIMEDIA_QMEDIAMETADATA] ''stringValue'' [PConv ''QMediaMetaData::Key''] RString [OnValue ''QMediaMetaData''],
     Bind [TypeM QTMULTIMEDIA_QMEDIAFORMAT] ''supportedAudioCodecs'' [PConv ''QMediaFormat::ConversionMode''] (RList (IMeta ''QMediaFormat::AudioCodec'')) [OnValue QMediaFormat],
     Bind [TypeM QTMULTIMEDIA_QMEDIAFORMAT] ''supportedFileFormats'' [PConv ''QMediaFormat::ConversionMode''] (RList (IMeta ''QMediaFormat::FileFormat'')) [OnValue QMediaFormat],
     Bind [TypeM QTMULTIMEDIA_QAUDIOFORMAT] ''supportedSampleFormats'' [] (RList (IMeta ''QAudioFormat::SampleFormat'')) [OnValue QAudioDevice],
     Bind [TypeM QTMULTIMEDIA_QMEDIAFORMAT] ''supportedVideoCodecs'' [PConv ''QMediaFormat::ConversionMode''] (RList (IMeta ''QMediaFormat::VideoCodec'')) [OnValue QMediaFormat]]"

definition vmeth_qtmultimedia_0_8 :: "binding list" where
  "vmeth_qtmultimedia_0_8 = [
     Bind [ValueM ''QTMULTIMEDIA_QAUDIOBUFFER''] ''swap'' [PConv QAudioBuffer] RVoid [OnValue QAudioBuffer],
     Bind [ValueM QTMULTIMEDIA_QAUDIODEVICE] ''swap'' [PConv QAudioDevice] RVoid [OnValue QAudioDevice],
     Bind [ValueM ''QTMULTIMEDIA_QCAPTURABLEWINDOW''] ''swap'' [PConv QCapturableWindow] RVoid [OnValue QCapturableWindow],
     Bind [ValueM QTMULTIMEDIA_QMEDIAFORMAT] ''swap'' [PConv QMediaFormat] RVoid [OnValue QMediaFormat],
     Bind [TypeM QTMULTIMEDIA_QMEDIAMETADATA] ''value'' [PConv ''QMediaMetaData::Key''] RVariant [OnValue ''QMediaMetaData''],
     Bind [TypeM QTMULTIMEDIA_QMEDIAFORMAT] ''videoCodec'' [] (RMeta ''QMediaFormat::VideoCodec'') [OnValue QMediaFormat]]"

definition vmeth_qtmultimedia_0_9 :: "binding list" where
  "vmeth_qtmultimedia_0_9 = [
     Bind [ValueM ''QTMULTIMEDIA_QCAMERAFORMAT''] ''videoFormats'' [] (RList (IValue ''QCameraFormat'')) [OnValue QCameraDevice]]"

definition vtypes_qtmultimedia_0 :: "string list" where
  "vtypes_qtmultimedia_0 = [QAudioBuffer, QAudioDevice, QAudioFormat, QCameraDevice, ''QCameraFormat'', QCapturableWindow, QMediaFormat,
     ''QMediaMetaData'']"

definition vmeth_qtmultimedia_1_0 :: "binding list" where
  "vmeth_qtmultimedia_1_0 = [
     Bind [TypeM QTMULTIMEDIA_QMEDIATIMERANGE] ''addInterval'' [PConv ''QMediaTimeRange::Interval''] RVoid [OnValue QMediaTimeRange],
     Bind [] ''addInterval'' [PWide ''qint64'', PWide ''qint64''] RVoid [OnValue QMediaTimeRange],
     Bind [ValueM QTMULTIMEDIA_QMEDIATIMERANGE] ''addTimeRange'' [PConv QMediaTimeRange] RVoid [OnValue QMediaTimeRange],
     Bind [] ''bytesPerLine'' [PInt] RNumber [OnValue QVideoFrame],
     Bind [] ''clear'' [] RVoid [OnValue QMediaTimeRange],
     Bind [TypeM QTMULTIMEDIA_QVIDEOFRAMEFORMAT] ''colorRange'' [] (RMeta ''QVideoFrameFormat::ColorRange'') [OnValue QVideoFrameFormat],
     Bind [TypeM QTMULTIMEDIA_QVIDEOFRAMEFORMAT] ''colorSpace'' [] (RMeta ''QVideoFrameFormat::ColorSpace'') [OnValue QVideoFrameFormat]]"

definition vmeth_qtmultimedia_1_1 :: "binding list" where
  "vmeth_qtmultimedia_1_1 = [
     Bind [TypeM QTMULTIMEDIA_QVIDEOFRAMEFORMAT] ''colorTransfer'' [] (RMeta ''QVideoFrameFormat::ColorTransfer'') [OnValue QVideoFrameFormat],
     Bind [] ''contains'' [PWide ''qint64''] RBool [OnValue QMediaTimeRange, OnValue QMediaTimeRange],
     Bind [] ''earliestTime'' [] (RMeta ''qint64'') [OnValue QMediaTimeRange],
     Bind [] ''endTime'' [] (RMeta ''qint64'') [OnValue QVideoFrame],
     Bind [] ''frameHeight'' [] RNumber [OnValue QVideoFrameFormat],
     Bind [] ''frameRate'' [] RNumber [OnValue QVideoFrameFormat],
     Bind [ValueM QTCORE_QSIZE] ''frameSize'' [] (RValue QSize) [OnValue QVideoFrameFormat]]"

definition vmeth_qtmultimedia_1_2 :: "binding list" where
  "vmeth_qtmultimedia_1_2 = [
     Bind [] ''frameWidth'' [] RNumber [OnValue QVideoFrameFormat],
     Bind [TypeM ''QTMULTIMEDIA_QVIDEOFRAME''] ''handleType'' [] (RMeta ''QVideoFrame::HandleType'') [OnValue QVideoFrame],
     Bind [] ''height'' [] RNumber [OnValue QVideoFrame],
     Bind [TypeM QTMULTIMEDIA_QMEDIATIMERANGE] ''intervals'' [] (RList (IMeta ''QMediaTimeRange::Interval'')) [OnValue QMediaTimeRange],
     Bind [] ''isContinuous'' [] RBool [OnValue QMediaTimeRange],
     Bind [] ''isEmpty'' [] RBool [OnValue QMediaTimeRange],
     Bind [] ''isMapped'' [] RBool [OnValue QVideoFrame],
     Bind [] ''isMirrored'' [] RBool [OnValue QVideoFrameFormat]]"

definition vmeth_qtmultimedia_1_3 :: "binding list" where
  "vmeth_qtmultimedia_1_3 = [
     Bind [] ''isReadable'' [] RBool [OnValue QVideoFrame],
     Bind [] ''isValid'' [] RBool [OnValue QVideoFrame, OnValue QVideoFrameFormat],
     Bind [] ''isWritable'' [] RBool [OnValue QVideoFrame],
     Bind [] ''latestTime'' [] (RMeta ''qint64'') [OnValue QMediaTimeRange],
     Bind [TypeM ''QTMULTIMEDIA_QVIDEOFRAME''] ''map'' [PConv ''QVideoFrame::MapMode''] RBool [OnValue QVideoFrame],
     Bind [TypeM ''QTMULTIMEDIA_QVIDEOFRAME''] ''mapMode'' [] (RMeta ''QVideoFrame::MapMode'') [OnValue QVideoFrame],
     Bind [] ''mappedBytes'' [PInt] RNumber [OnValue QVideoFrame]]"

definition vmeth_qtmultimedia_1_4 :: "binding list" where
  "vmeth_qtmultimedia_1_4 = [
     Bind [] ''mirrored'' [] RBool [OnValue QVideoFrame],
     Bind [TypeM QTMULTIMEDIA_QVIDEOFRAMEFORMAT] ''pixelFormat'' [] (RMeta ''QVideoFrameFormat::PixelFormat'') [OnValue QVideoFrame, OnValue QVideoFrameFormat],
     Bind [] ''planeCount'' [] RNumber [OnValue QVideoFrame, OnValue QVideoFrameFormat],
     Bind [TypeM ''QTMULTIMEDIA_QPLAYBACKOPTIONS''] ''playbackIntent'' [] (RMeta ''QPlaybackOptions::PlaybackIntent'') [OnValue QPlaybackOptions],
     Bind [] ''probeSize'' [] (RMeta ''qsizetype'') [OnValue QPlaybackOptions],
     Bind [TypeM QTMULTIMEDIA_QMEDIATIMERANGE] ''removeInterval'' [PConv ''QMediaTimeRange::Interval''] RVoid [OnValue QMediaTimeRange],
     Bind [] ''removeInterval'' [PWide ''qint64'', PWide ''qint64''] RVoid [OnValue QMediaTimeRange]]"

definition vmeth_qtmultimedia_1_5 :: "binding list" where
  "vmeth_qtmultimedia_1_5 = [
     Bind [ValueM QTMULTIMEDIA_QMEDIATIMERANGE] ''removeTimeRange'' [PConv QMediaTimeRange] RVoid [OnValue QMediaTimeRange],
     Bind [] ''resetNetworkTimeout'' [] RVoid [OnValue QPlaybackOptions],
     Bind [] ''resetPlaybackIntent'' [] RVoid [OnValue QPlaybackOptions],
     Bind [] ''resetProbeSize'' [] RVoid [OnValue QPlaybackOptions],
     Bind [TypeM ''QTMULTIMEDIA_QVIDEOFRAME''] ''rotationAngle'' [] (RMeta ''QVideoFrame::RotationAngle'') [OnValue QVideoFrame],
     Bind [TypeM QTMULTIMEDIA_QVIDEOFRAMEFORMAT] ''scanLineDirection'' [] (RMeta ''QVideoFrameFormat::Direction'') [OnValue QVideoFrameFormat],
     Bind [TypeM QTMULTIMEDIA_QVIDEOFRAMEFORMAT] ''setColorRange'' [PConv ''QVideoFrameFormat::ColorRange''] RVoid [OnValue QVideoFrameFormat]]"

definition vmeth_qtmultimedia_1_6 :: "binding list" where
  "vmeth_qtmultimedia_1_6 = [
     Bind [TypeM QTMULTIMEDIA_QVIDEOFRAMEFORMAT] ''setColorSpace'' [PConv ''QVideoFrameFormat::ColorSpace''] RVoid [OnValue QVideoFrameFormat],
     Bind [TypeM QTMULTIMEDIA_QVIDEOFRAMEFORMAT] ''setColorTransfer'' [PConv ''QVideoFrameFormat::ColorTransfer''] RVoid [OnValue QVideoFrameFormat],
     Bind [] ''setEndTime'' [PWide ''qint64''] RVoid [OnValue QVideoFrame],
     Bind [] ''setFrameRate'' [PReal ''qreal''] RVoid [OnValue QVideoFrameFormat],
     Bind [ValueM QTCORE_QSIZE] ''setFrameSize'' [PConv QSize] RVoid [OnValue QVideoFrameFormat],
     Bind [] ''setFrameSize'' [PInt, PInt] RVoid [OnValue QVideoFrameFormat]]"

definition vmeth_qtmultimedia_1_7 :: "binding list" where
  "vmeth_qtmultimedia_1_7 = [
     Bind [] ''setMirrored'' [PBool] RVoid [OnValue QVideoFrame, OnValue QVideoFrameFormat],
     Bind [TypeM ''QTMULTIMEDIA_QPLAYBACKOPTIONS''] ''setPlaybackIntent'' [PConv ''QPlaybackOptions::PlaybackIntent''] RVoid [OnValue QPlaybackOptions],
     Bind [] ''setProbeSize'' [PWide ''qsizetype''] RVoid [OnValue QPlaybackOptions],
     Bind [TypeM ''QTMULTIMEDIA_QVIDEOFRAME''] ''setRotationAngle'' [PConv ''QVideoFrame::RotationAngle''] RVoid [OnValue QVideoFrame],
     Bind [TypeM QTMULTIMEDIA_QVIDEOFRAMEFORMAT] ''setScanLineDirection'' [PConv ''QVideoFrameFormat::Direction''] RVoid [OnValue QVideoFrameFormat],
     Bind [] ''setStartTime'' [PWide ''qint64''] RVoid [OnValue QVideoFrame]]"

definition vmeth_qtmultimedia_1_8 :: "binding list" where
  "vmeth_qtmultimedia_1_8 = [
     Bind [] ''setStreamFrameRate'' [PReal ''qreal''] RVoid [OnValue QVideoFrame, OnValue QVideoFrameFormat],
     Bind [] ''setSubtitleText'' [PString True] RVoid [OnValue QVideoFrame],
     Bind [ValueM QTCORE_QRECT] ''setViewport'' [PConv QRect] RVoid [OnValue QVideoFrameFormat],
     Bind [TypeM QTMULTIMEDIA_QVIDEOFRAMEFORMAT] ''setYCbCrColorSpace'' [PConv ''QVideoFrameFormat::YCbCrColorSpace''] RVoid [OnValue QVideoFrameFormat],
     Bind [ValueM QTCORE_QSIZE] ''size'' [] (RValue QSize) [OnValue QVideoFrame],
     Bind [] ''startTime'' [] (RMeta ''qint64'') [OnValue QVideoFrame]]"

definition vmeth_qtmultimedia_1_9 :: "binding list" where
  "vmeth_qtmultimedia_1_9 = [
     Bind [] ''streamFrameRate'' [] RNumber [OnValue QVideoFrame, OnValue QVideoFrameFormat],
     Bind [] ''subtitleText'' [] RString [OnValue QVideoFrame],
     Bind [ValueM QTMULTIMEDIA_QVIDEOFRAMEFORMAT] ''surfaceFormat'' [] (RValue QVideoFrameFormat) [OnValue QVideoFrame],
     Bind [ValueM ''QTMULTIMEDIA_QPLAYBACKOPTIONS''] ''swap'' [PConv QPlaybackOptions] RVoid [OnValue QPlaybackOptions],
     Bind [ValueM QTGUI_QIMAGE] ''toImage'' [] (RValue QImage) [OnValue QVideoFrame],
     Bind [] ''unmap'' [] RVoid [OnValue QVideoFrame],
     Bind [ValueM QTCORE_QRECT] ''viewport'' [] (RValue QRect) [OnValue QVideoFrameFormat]]"

definition vmeth_qtmultimedia_1_10 :: "binding list" where
  "vmeth_qtmultimedia_1_10 = [
     Bind [] ''width'' [] RNumber [OnValue QVideoFrame],
     Bind [TypeM QTMULTIMEDIA_QVIDEOFRAMEFORMAT] ''yCbCrColorSpace'' [] (RMeta ''QVideoFrameFormat::YCbCrColorSpace'') [OnValue QVideoFrameFormat]]"

definition vtypes_qtmultimedia_1 :: "string list" where
  "vtypes_qtmultimedia_1 = [QMediaTimeRange, QPlaybackOptions, QVideoFrame, QVideoFrameFormat]"

definition vmeth_qtnetworkauth_0_0 :: "binding list" where
  "vmeth_qtnetworkauth_0_0 = [
     Bind [ValueM ''QTCORE_QURLQUERY''] ''addRequestBody'' [PConv ''QUrlQuery''] RVoid [OnValue QOAuth1Signature],
     Bind [] ''clientSharedKey'' [] RString [OnValue QOAuth1Signature],
     Bind [ValueM QTCORE_QBYTEARRAY] ''customMethodString'' [] (RValue QByteArray) [OnValue QOAuth1Signature],
     Bind [ValueM QTCORE_QBYTEARRAY] ''hmacSha1'' [] (RValue QByteArray) [OnValue QOAuth1Signature],
     Bind [TypeM ''QTNETWORKAUTH_QOAUTH1SIGNATURE''] ''httpRequestMethod'' [] (RMeta ''QOAuth1Signature::HttpRequestMethod'') [OnValue QOAuth1Signature],
     Bind [] ''insert'' [PString True, PVariant] RVoid [OnValue QOAuth1Signature],
     Bind [] ''keys'' [] (RList (IMeta QString)) [OnValue QOAuth1Signature]]"

definition vmeth_qtnetworkauth_0_1 :: "binding list" where
  "vmeth_qtnetworkauth_0_1 = [
     Bind [ValueM QTCORE_QBYTEARRAY] ''plainText'' [] (RValue QByteArray) [OnValue QOAuth1Signature],
     Bind [ValueM QTCORE_QBYTEARRAY] ''rsaSha1'' [] (RValue QByteArray) [OnValue QOAuth1Signature],
     Bind [] ''setClientSharedKey'' [PString True] RVoid [OnValue QOAuth1Signature],
     Bind [ValueM QTCORE_QBYTEARRAY] ''setCustomMethodString'' [PConv QByteArray] RVoid [OnValue QOAuth1Signature],
     Bind [TypeM ''QTNETWORKAUTH_QOAUTH1SIGNATURE''] ''setHttpRequestMethod'' [PConv ''QOAuth1Signature::HttpRequestMethod''] RVoid [OnValue QOAuth1Signature],
     Bind [] ''setTokenSecret'' [PString True] RVoid [OnValue QOAuth1Signature]]"

definition vmeth_qtnetworkauth_0_2 :: "binding list" where
  "vmeth_qtnetworkauth_0_2 = [
     Bind [ValueM QTCORE_QURL] ''setUrl'' [PConv QUrl] RVoid [OnValue QOAuth1Signature],
     Bind [ValueM ''QTNETWORKAUTH_QOAUTH1SIGNATURE''] ''swap'' [PConv QOAuth1Signature] RVoid [OnValue QOAuth1Signature],
     Bind [] ''take'' [PString True] RVariant [OnValue QOAuth1Signature],
     Bind [] ''tokenSecret'' [] RString [OnValue QOAuth1Signature],
     Bind [ValueM QTCORE_QURL] ''url'' [] (RValue QUrl) [OnValue QOAuth1Signature],
     Bind [] ''value'' [PString True, PVariant] RVariant [OnValue QOAuth1Signature]]"

definition vtypes_qtnetworkauth_0 :: "string list" where
  "vtypes_qtnetworkauth_0 = [QOAuth1Signature]"

definition vmeth_qtnfc_0_0 :: "binding list" where
  "vmeth_qtnfc_0_0 = [
     Bind [TypeM ''QTNFC_QNDEFNFCSMARTPOSTERRECORD''] ''action'' [] (RMeta ''QNdefNfcSmartPosterRecord::Action'') [OnValue QNdefNfcSmartPosterRecord],
     Bind [ValueM QTCORE_QBYTEARRAY] ''addIcon'' [PConv QByteArray, PConv QByteArray] RVoid [OnValue QNdefNfcSmartPosterRecord],
     Bind [ValueM ''QTNFC_QNDEFNFCICONRECORD''] ''addIcon'' [PConv ''QNdefNfcIconRecord''] RVoid [OnValue QNdefNfcSmartPosterRecord],
     Bind [ValueM ''QTNFC_QNDEFNFCTEXTRECORD''] ''addTitle'' [PConv QNdefNfcTextRecord] RBool [OnValue QNdefNfcSmartPosterRecord],
     Bind [TypeM ''QTNFC_QNDEFNFCTEXTRECORD''] ''addTitle'' [PString True, PString True, PConv ''QNdefNfcTextRecord::Encoding''] RBool [OnValue QNdefNfcSmartPosterRecord],
     Bind [TypeM ''QTNFC_QNDEFFILTER''] ''appendRecord'' [PConv ''QNdefFilter::Record''] RBool [OnValue ''QNdefFilter'']]"

definition vmeth_qtnfc_0_1 :: "binding list" where
  "vmeth_qtnfc_0_1 = [
     Bind [TypeM QTNFC_QNDEFRECORD, ValueM QTCORE_QBYTEARRAY] ''appendRecord'' [PConv ''QNdefRecord::TypeNameFormat'', PConv QByteArray, PUInt, PUInt] RBool [OnValue ''QNdefFilter''],
     Bind [] ''clear'' [] RVoid [OnValue ''QNdefFilter'', OnValue QNdefRecord],
     Bind [ValueM QTCORE_QBYTEARRAY] ''data'' [] (RValue QByteArray) [OnValue ''QNdefNfcIconRecord''],
     Bind [TypeM ''QTNFC_QNDEFNFCTEXTRECORD''] ''encoding'' [] (RMeta ''QNdefNfcTextRecord::Encoding'') [OnValue QNdefNfcTextRecord],
     Bind [] ''hasAction'' [] RBool [OnValue QNdefNfcSmartPosterRecord],
     Bind [ValueM QTCORE_QBYTEARRAY] ''hasIcon'' [PConv QByteArray] RBool [OnValue QNdefNfcSmartPosterRecord]]"

definition vmeth_qtnfc_0_2 :: "binding list" where
  "vmeth_qtnfc_0_2 = [
     Bind [] ''hasSize'' [] RBool [OnValue QNdefNfcSmartPosterRecord],
     Bind [] ''hasTitle'' [PString True] RBool [OnValue QNdefNfcSmartPosterRecord],
     Bind [] ''hasTypeInfo'' [] RBool [OnValue QNdefNfcSmartPosterRecord],
     Bind [ValueM QTCORE_QBYTEARRAY] ''icon'' [PConv QByteArray] (RValue QByteArray) [OnValue QNdefNfcSmartPosterRecord],
     Bind [] ''iconCount'' [] (RMeta ''qsizetype'') [OnValue QNdefNfcSmartPosterRecord],
     Bind [ValueM ''QTNFC_QNDEFNFCICONRECORD''] ''iconRecord'' [PWide ''qsizetype''] (RValue ''QNdefNfcIconRecord'') [OnValue QNdefNfcSmartPosterRecord],
     Bind [ValueM ''QTNFC_QNDEFNFCICONRECORD''] ''iconRecords'' [] (RList (IValue ''QNdefNfcIconRecord'')) [OnValue QNdefNfcSmartPosterRecord]]"

definition vmeth_qtnfc_0_3 :: "binding list" where
  "vmeth_qtnfc_0_3 = [
     Bind [ValueM QTCORE_QBYTEARRAY] ''id'' [] (RValue QByteArray) [OnValue QNdefRecord],
     Bind [] ''isEmpty'' [] RBool [OnValue QNdefRecord],
     Bind [] ''locale'' [] RString [OnValue QNdefNfcTextRecord],
     Bind [ValueM ''QTNFC_QNDEFMESSAGE''] ''match'' [PConv ''QNdefMessage''] RBool [OnValue ''QNdefFilter''],
     Bind [] ''orderMatch'' [] RBool [OnValue ''QNdefFilter''],
     Bind [ValueM QTCORE_QBYTEARRAY] ''payload'' [] (RValue QByteArray) [OnValue QNdefRecord],
     Bind [TypeM ''QTNFC_QNDEFFILTER''] ''recordAt'' [PWide ''qsizetype''] (RMeta ''QNdefFilter::Record'') [OnValue ''QNdefFilter'']]"

definition vmeth_qtnfc_0_4 :: "binding list" where
  "vmeth_qtnfc_0_4 = [
     Bind [] ''recordCount'' [] (RMeta ''qsizetype'') [OnValue ''QNdefFilter''],
     Bind [ValueM QTCORE_QBYTEARRAY] ''removeIcon'' [PConv QByteArray] RBool [OnValue QNdefNfcSmartPosterRecord],
     Bind [ValueM ''QTNFC_QNDEFNFCICONRECORD''] ''removeIcon'' [PConv ''QNdefNfcIconRecord''] RBool [OnValue QNdefNfcSmartPosterRecord],
     Bind [ValueM ''QTNFC_QNDEFNFCTEXTRECORD''] ''removeTitle'' [PConv QNdefNfcTextRecord] RBool [OnValue QNdefNfcSmartPosterRecord],
     Bind [] ''removeTitle'' [PString True] RBool [OnValue QNdefNfcSmartPosterRecord],
     Bind [TypeM ''QTNFC_QNDEFNFCSMARTPOSTERRECORD''] ''setAction'' [PConv ''QNdefNfcSmartPosterRecord::Action''] RVoid [OnValue QNdefNfcSmartPosterRecord],
     Bind [ValueM QTCORE_QBYTEARRAY] ''setData'' [PConv QByteArray] RVoid [OnValue ''QNdefNfcIconRecord'']]"

definition vmeth_qtnfc_0_5 :: "binding list" where
  "vmeth_qtnfc_0_5 = [
     Bind [TypeM ''QTNFC_QNDEFNFCTEXTRECORD''] ''setEncoding'' [PConv ''QNdefNfcTextRecord::Encoding''] RVoid [OnValue QNdefNfcTextRecord],
     Bind [ValueM ''QTNFC_QNDEFNFCICONRECORD''] ''setIcons'' [PListV ''QNdefNfcIconRecord''] RVoid [OnValue QNdefNfcSmartPosterRecord],
     Bind [ValueM QTCORE_QBYTEARRAY] ''setId'' [PConv QByteArray] RVoid [OnValue QNdefRecord],
     Bind [] ''setLocale'' [PString True] RVoid [OnValue QNdefNfcTextRecord],
     Bind [] ''setOrderMatch'' [PBool] RVoid [OnValue ''QNdefFilter''],
     Bind [ValueM QTCORE_QBYTEARRAY] ''setPayload'' [PConv QByteArray] RVoid [OnValue QNdefNfcSmartPosterRecord, OnValue QNdefRecord]]"

definition vmeth_qtnfc_0_6 :: "binding list" where
  "vmeth_qtnfc_0_6 = [
     Bind [] ''setText'' [PString True] RVoid [OnValue QNdefNfcTextRecord],
     Bind [ValueM ''QTNFC_QNDEFNFCTEXTRECORD''] ''setTitles'' [PListV QNdefNfcTextRecord] RVoid [OnValue QNdefNfcSmartPosterRecord],
     Bind [ValueM QTCORE_QBYTEARRAY] ''setType'' [PConv QByteArray] RVoid [OnValue QNdefRecord],
     Bind [] ''setTypeInfo'' [PString True] RVoid [OnValue QNdefNfcSmartPosterRecord],
     Bind [TypeM QTNFC_QNDEFRECORD] ''setTypeNameFormat'' [PConv ''QNdefRecord::TypeNameFormat''] RVoid [OnValue QNdefRecord],
     Bind [ValueM ''QTNFC_QNDEFNFCURIRECORD''] ''setUri'' [PConv ''QNdefNfcUriRecord''] RVoid [OnValue QNdefNfcSmartPosterRecord]]"

definition vmeth_qtnfc_0_7 :: "binding list" where
  "vmeth_qtnfc_0_7 = [
     Bind [ValueM QTCORE_QURL] ''setUri'' [PConv QUrl] RVoid [OnValue QNdefNfcSmartPosterRecord, OnValue ''QNdefNfcUriRecord''],
     Bind [] ''text'' [] RString [OnValue QNdefNfcTextRecord],
     Bind [] ''title'' [PString True] RString [OnValue QNdefNfcSmartPosterRecord],
     Bind [] ''titleCount'' [] (RMeta ''qsizetype'') [OnValue QNdefNfcSmartPosterRecord],
     Bind [ValueM ''QTNFC_QNDEFNFCTEXTRECORD''] ''titleRecord'' [PWide ''qsizetype''] (RValue QNdefNfcTextRecord) [OnValue QNdefNfcSmartPosterRecord],
     Bind [ValueM ''QTNFC_QNDEFNFCTEXTRECORD''] ''titleRecords'' [] (RList (IValue QNdefNfcTextRecord)) [OnValue QNdefNfcSmartPosterRecord]]"

definition vmeth_qtnfc_0_8 :: "binding list" where
  "vmeth_qtnfc_0_8 = [
     Bind [ValueM QTCORE_QBYTEARRAY] ''toByteArray'' [] (RValue QByteArray) [OnValue ''QNdefMessage''],
     Bind [ValueM QTCORE_QBYTEARRAY] ''type'' [] (RValue QByteArray) [OnValue QNdefRecord],
     Bind [] ''typeInfo'' [] RString [OnValue QNdefNfcSmartPosterRecord],
     Bind [TypeM QTNFC_QNDEFRECORD] ''typeNameFormat'' [] (RMeta ''QNdefRecord::TypeNameFormat'') [OnValue QNdefRecord],
     Bind [ValueM QTCORE_QURL] ''uri'' [] (RValue QUrl) [OnValue QNdefNfcSmartPosterRecord, OnValue ''QNdefNfcUriRecord''],
     Bind [ValueM ''QTNFC_QNDEFNFCURIRECORD''] ''uriRecord'' [] (RValue ''QNdefNfcUriRecord'') [OnValue QNdefNfcSmartPosterRecord]]"

definition vtypes_qtnfc_0 :: "string list" where
  "vtypes_qtnfc_0 = [''QNdefFilter'', ''QNdefMessage'', ''QNdefNfcIconRecord'', QNdefNfcSmartPosterRecord, QNdefNfcTextRecord,
     ''QNdefNfcUriRecord'', QNdefRecord]"

definition vmeth_qtopengl_0_0 :: "binding list" where
  "vmeth_qtopengl_0_0 = [
     Bind [] ''allocate'' [PInt] RVoid [OnValue QOpenGLBuffer],
     Bind [TypeM ''QTOPENGL_QOPENGLFRAMEBUFFEROBJECT''] ''attachment'' [] (RMeta ''QOpenGLFramebufferObject::Attachment'') [OnValue QOpenGLFramebufferObject, OnValue QOpenGLFramebufferObjectFormat],
     Bind [] ''bind'' [] RBool [OnValue QOpenGLBuffer, OnValue QOpenGLFramebufferObject],
     Bind [TypeM QTGUI_QOPENGLCONTEXT] ''context'' [] RObject [OnValue QOpenGLPaintDevice],
     Bind [] ''create'' [] RBool [OnValue QOpenGLBuffer],
     Bind [] ''destroy'' [] RVoid [OnValue QOpenGLBuffer],
     Bind [] ''dotsPerMeterX'' [] RNumber [OnValue QOpenGLPaintDevice]]"

definition vmeth_qtopengl_0_1 :: "binding list" where
  "vmeth_qtopengl_0_1 = [
     Bind [] ''dotsPerMeterY'' [] RNumber [OnValue QOpenGLPaintDevice],
     Bind [] ''ensureActiveTarget'' [] RVoid [OnValue QOpenGLPaintDevice],
     Bind [ValueM ''QTOPENGL_QOPENGLFRAMEBUFFEROBJECTFORMAT''] ''format'' [] (RValue QOpenGLFramebufferObjectFormat) [OnValue QOpenGLFramebufferObject],
     Bind [] ''glEnd'' [] RVoid [OnValue ''QOpenGLFunctions_2_0'', OnValue ''QOpenGLFunctions_2_1''],
     Bind [] ''glEndConditionalRender'' [] RVoid [OnValue ''QOpenGLFunctions_4_1_Core''],
     Bind [] ''glEndList'' [] RVoid [OnValue ''QOpenGLFunctions_2_0'', OnValue ''QOpenGLFunctions_2_1''],
     Bind [] ''glEndTransformFeedback'' [] RVoid [OnValue ''QOpenGLFunctions_4_1_Core'']]"

definition vmeth_qtopengl_0_2 :: "binding list" where
  "vmeth_qtopengl_0_2 = [
     Bind [] ''glFinish'' [] RVoid [OnValue ''QOpenGLFunctions_2_0'', OnValue ''QOpenGLFunctions_2_1'', OnValue ''QOpenGLFunctions_4_1_Core''],
     Bind [] ''glFlush'' [] RVoid [OnValue ''QOpenGLFunctions_2_0'', OnValue ''QOpenGLFunctions_2_1'', OnValue ''QOpenGLFunctions_4_1_Core''],
     Bind [] ''glInitNames'' [] RVoid [OnValue ''QOpenGLFunctions_2_0'', OnValue ''QOpenGLFunctions_2_1''],
     Bind [] ''glLoadIdentity'' [] RVoid [OnValue ''QOpenGLFunctions_2_0'', OnValue ''QOpenGLFunctions_2_1''],
     Bind [] ''glPauseTransformFeedback'' [] RVoid [OnValue ''QOpenGLFunctions_4_1_Core'']]"

definition vmeth_qtopengl_0_3 :: "binding list" where
  "vmeth_qtopengl_0_3 = [
     Bind [] ''glPopAttrib'' [] RVoid [OnValue ''QOpenGLFunctions_2_0'', OnValue ''QOpenGLFunctions_2_1''],
     Bind [] ''glPopClientAttrib'' [] RVoid [OnValue ''QOpenGLFunctions_2_0'', OnValue ''QOpenGLFunctions_2_1''],
     Bind [] ''glPopMatrix'' [] RVoid [OnValue ''QOpenGLFunctions_2_0'', OnValue ''QOpenGLFunctions_2_1''],
     Bind [] ''glPopName'' [] RVoid [OnValue ''QOpenGLFunctions_2_0'', OnValue ''QOpenGLFunctions_2_1''],
     Bind [] ''glPushMatrix'' [] RVoid [OnValue ''QOpenGLFunctions_2_0'', OnValue ''QOpenGLFunctions_2_1''],
     Bind [] ''glReleaseShaderCompiler'' [] RVoid [OnValue ''QOpenGLFunctions_4_1_Core'']]"

definition vmeth_qtopengl_0_4 :: "binding list" where
  "vmeth_qtopengl_0_4 = [
     Bind [] ''glResumeTransformFeedback'' [] RVoid [OnValue ''QOpenGLFunctions_4_1_Core''],
     Bind [] ''height'' [] RNumber [OnValue QOpenGLFramebufferObject],
     Bind [] ''initializeOpenGLFunctions'' [] RBool [OnValue ''QOpenGLFunctions_2_0'', OnValue ''QOpenGLFunctions_2_1'', OnValue ''QOpenGLFunctions_4_1_Core''],
     Bind [] ''isBound'' [] RBool [OnValue QOpenGLFramebufferObject],
     Bind [] ''isCreated'' [] RBool [OnValue QOpenGLBuffer],
     Bind [] ''isValid'' [] RBool [OnValue QOpenGLFramebufferObject],
     Bind [] ''message'' [] RString [OnValue QOpenGLDebugMessage]]"

definition vmeth_qtopengl_0_5 :: "binding list" where
  "vmeth_qtopengl_0_5 = [
     Bind [] ''mipmap'' [] RBool [OnValue QOpenGLFramebufferObjectFormat],
     Bind [] ''paintFlipped'' [] RBool [OnValue QOpenGLPaintDevice],
     Bind [] ''release'' [] RBool [OnValue QOpenGLFramebufferObject],
     Bind [] ''release'' [] RVoid [OnValue QOpenGLBuffer],
     Bind [] ''samples'' [] RNumber [OnValue QOpenGLFramebufferObjectFormat],
     Bind [TypeM ''QTOPENGL_QOPENGLFRAMEBUFFEROBJECT''] ''setAttachment'' [PConv ''QOpenGLFramebufferObject::Attachment''] RVoid [OnValue QOpenGLFramebufferObject, OnValue QOpenGLFramebufferObjectFormat],
     Bind [] ''setDevicePixelRatio'' [PReal ''qreal''] RVoid [OnValue QOpenGLPaintDevice]]"

definition vmeth_qtopengl_0_6 :: "binding list" where
  "vmeth_qtopengl_0_6 = [
     Bind [] ''setDotsPerMeterX'' [PReal ''qreal''] RVoid [OnValue QOpenGLPaintDevice],
     Bind [] ''setDotsPerMeterY'' [PReal ''qreal''] RVoid [OnValue QOpenGLPaintDevice],
     Bind [] ''setMipmap'' [PBool] RVoid [OnValue QOpenGLFramebufferObjectFormat],
     Bind [] ''setPaintFlipped'' [PBool] RVoid [OnValue QOpenGLPaintDevice],
     Bind [] ''setSamples'' [PInt] RVoid [OnValue QOpenGLFramebufferObjectFormat],
     Bind [ValueM QTCORE_QSIZE] ''setSize'' [PConv QSize] RVoid [OnValue QOpenGLPaintDevice],
     Bind [TypeM ''QTOPENGL_QOPENGLBUFFER''] ''setUsagePattern'' [PConv ''QOpenGLBuffer::UsagePattern''] RVoid [OnValue QOpenGLBuffer]]"

definition vmeth_qtopengl_0_7 :: "binding list" where
  "vmeth_qtopengl_0_7 = [
     Bind [TypeM QTOPENGL_QOPENGLDEBUGMESSAGE] ''severity'' [] (RMeta ''QOpenGLDebugMessage::Severity'') [OnValue QOpenGLDebugMessage],
     Bind [ValueM QTCORE_QSIZE] ''size'' [] (RValue QSize) [OnValue QOpenGLFramebufferObject, OnValue QOpenGLPaintDevice],
     Bind [] ''size'' [] RNumber [OnValue QOpenGLBuffer],
     Bind [ValueM QTCORE_QSIZE] ''sizes'' [] (RList (IValue QSize)) [OnValue QOpenGLFramebufferObject],
     Bind [TypeM QTOPENGL_QOPENGLDEBUGMESSAGE] ''source'' [] (RMeta ''QOpenGLDebugMessage::Source'') [OnValue QOpenGLDebugMessage],
     Bind [ValueM ''QTOPENGL_QOPENGLBUFFER''] ''swap'' [PConv QOpenGLBuffer] RVoid [OnValue QOpenGLBuffer]]"

definition vmeth_qtopengl_0_8 :: "binding list" where
  "vmeth_qtopengl_0_8 = [
     Bind [ValueM QTOPENGL_QOPENGLDEBUGMESSAGE] ''swap'' [PConv QOpenGLDebugMessage] RVoid [OnValue QOpenGLDebugMessage],
     Bind [] ''textures'' [] (RList (IMeta ''unsigned int'')) [OnValue QOpenGLFramebufferObject],
     Bind [ValueM QTGUI_QIMAGE] ''toImage'' [PBool] (RValue QImage) [OnValue QOpenGLFramebufferObject],
     Bind [ValueM QTGUI_QIMAGE] ''toImage'' [PBool, PInt] (RValue QImage) [OnValue QOpenGLFramebufferObject],
     Bind [TypeM ''QTOPENGL_QOPENGLBUFFER''] ''type'' [] (RMeta ''QOpenGLBuffer::Type'') [OnValue QOpenGLBuffer],
     Bind [TypeM QTOPENGL_QOPENGLDEBUGMESSAGE] ''type'' [] (RMeta ''QOpenGLDebugMessage::Type'') [OnValue QOpenGLDebugMessage],
     Bind [] ''unmap'' [] RBool [OnValue QOpenGLBuffer]]"

definition vmeth_qtopengl_0_9 :: "binding list" where
  "vmeth_qtopengl_0_9 = [
     Bind [TypeM ''QTOPENGL_QOPENGLBUFFER''] ''usagePattern'' [] (RMeta ''QOpenGLBuffer::UsagePattern'') [OnValue QOpenGLBuffer],
     Bind [] ''width'' [] RNumber [OnValue QOpenGLFramebufferObject]]"

definition vtypes_qtopengl_0 :: "string list" where
  "vtypes_qtopengl_0 = [QOpenGLBuffer, QOpenGLDebugMessage, QOpenGLFramebufferObject, QOpenGLFramebufferObjectFormat,
     ''QOpenGLFunctions_2_0'', ''QOpenGLFunctions_2_1'', ''QOpenGLFunctions_4_1_Core'', QOpenGLPaintDevice]"

definition vmeth_table_rest_a :: "(string \<times> shard) list" where
  "vmeth_table_rest_a = [
     (''qaxcontainer_0'', \<lparr>sh_module = ''QAxContainer'', sh_slug = ''QAXCONTAINER'',
        sh_bindings = concat [vmeth_qaxcontainer_0_0, vmeth_qaxcontainer_0_1]\<rparr>),
     (''qt3danimation_0'', \<lparr>sh_module = ''Qt3DAnimation'', sh_slug = ''QT3DANIMATION'',
        sh_bindings = concat [vmeth_qt3danimation_0_0, vmeth_qt3danimation_0_1, vmeth_qt3danimation_0_2, vmeth_qt3danimation_0_3]\<rparr>),
     (''qt3dcore_0'', \<lparr>sh_module = ''Qt3DCore'', sh_slug = ''QT3DCORE'',
        sh_bindings = concat [vmeth_qt3dcore_0_0]\<rparr>),
     (''qt3drender_0'', \<lparr>sh_module = ''Qt3DRender'', sh_slug = ''QT3DRENDER'',
        sh_bindings = concat [vmeth_qt3drender_0_0, vmeth_qt3drender_0_1, vmeth_qt3drender_0_2, vmeth_qt3drender_0_3, vmeth_qt3drender_0_4, vmeth_qt3drender_0_5, vmeth_qt3drender_0_6, vmeth_qt3drender_0_7, vmeth_qt3drender_0_8, vmeth_qt3drender_0_9, vmeth_qt3drender_0_10]\<rparr>),
     (''qtbluetooth_0'', \<lparr>sh_module = ''QtBluetooth'', sh_slug = ''QTBLUETOOTH'',
        sh_bindings = concat [vmeth_qtbluetooth_0_0, vmeth_qtbluetooth_0_1, vmeth_qtbluetooth_0_2, vmeth_qtbluetooth_0_3, vmeth_qtbluetooth_0_4, vmeth_qtbluetooth_0_5, vmeth_qtbluetooth_0_6, vmeth_qtbluetooth_0_7, vmeth_qtbluetooth_0_8, vmeth_qtbluetooth_0_9]\<rparr>),
     (''qtbluetooth_1'', \<lparr>sh_module = ''QtBluetooth'', sh_slug = ''QTBLUETOOTH'',
        sh_bindings = concat [vmeth_qtbluetooth_1_0, vmeth_qtbluetooth_1_1, vmeth_qtbluetooth_1_2, vmeth_qtbluetooth_1_3, vmeth_qtbluetooth_1_4, vmeth_qtbluetooth_1_5]\<rparr>),
     (''qtdbus_0'', \<lparr>sh_module = ''QtDBus'', sh_slug = ''QTDBUS'',
        sh_bindings = concat [vmeth_qtdbus_0_0, vmeth_qtdbus_0_1, vmeth_qtdbus_0_2, vmeth_qtdbus_0_3, vmeth_qtdbus_0_4, vmeth_qtdbus_0_5, vmeth_qtdbus_0_6, vmeth_qtdbus_0_7, vmeth_qtdbus_0_8]\<rparr>),
     (''qtdbus_1'', \<lparr>sh_module = ''QtDBus'', sh_slug = ''QTDBUS'',
        sh_bindings = concat [vmeth_qtdbus_1_0]\<rparr>),
     (''qtdesigner_0'', \<lparr>sh_module = ''QtDesigner'', sh_slug = ''QTDESIGNER'',
        sh_bindings = concat [vmeth_qtdesigner_0_0, vmeth_qtdesigner_0_1, vmeth_qtdesigner_0_2]\<rparr>),
     (''qtgraphs_0'', \<lparr>sh_module = ''QtGraphs'', sh_slug = ''QTGRAPHS'',
        sh_bindings = concat [vmeth_qtgraphs_0_0, vmeth_qtgraphs_0_1]\<rparr>),
     (''qthelp_0'', \<lparr>sh_module = ''QtHelp'', sh_slug = ''QTHELP'',
        sh_bindings = concat [vmeth_qthelp_0_0, vmeth_qthelp_0_1, vmeth_qthelp_0_2]\<rparr>),
     (''qtmultimedia_0'', \<lparr>sh_module = ''QtMultimedia'', sh_slug = ''QTMULTIMEDIA'',
        sh_bindings = concat [vmeth_qtmultimedia_0_0, vmeth_qtmultimedia_0_1, vmeth_qtmultimedia_0_2, vmeth_qtmultimedia_0_3, vmeth_qtmultimedia_0_4, vmeth_qtmultimedia_0_5, vmeth_qtmultimedia_0_6, vmeth_qtmultimedia_0_7, vmeth_qtmultimedia_0_8, vmeth_qtmultimedia_0_9]\<rparr>),
     (''qtmultimedia_1'', \<lparr>sh_module = ''QtMultimedia'', sh_slug = ''QTMULTIMEDIA'',
        sh_bindings = concat [vmeth_qtmultimedia_1_0, vmeth_qtmultimedia_1_1, vmeth_qtmultimedia_1_2, vmeth_qtmultimedia_1_3, vmeth_qtmultimedia_1_4, vmeth_qtmultimedia_1_5, vmeth_qtmultimedia_1_6, vmeth_qtmultimedia_1_7, vmeth_qtmultimedia_1_8, vmeth_qtmultimedia_1_9, vmeth_qtmultimedia_1_10]\<rparr>),
     (''qtnetworkauth_0'', \<lparr>sh_module = ''QtNetworkAuth'', sh_slug = ''QTNETWORKAUTH'',
        sh_bindings = concat [vmeth_qtnetworkauth_0_0, vmeth_qtnetworkauth_0_1, vmeth_qtnetworkauth_0_2]\<rparr>),
     (''qtnfc_0'', \<lparr>sh_module = ''QtNfc'', sh_slug = ''QTNFC'',
        sh_bindings = concat [vmeth_qtnfc_0_0, vmeth_qtnfc_0_1, vmeth_qtnfc_0_2, vmeth_qtnfc_0_3, vmeth_qtnfc_0_4, vmeth_qtnfc_0_5, vmeth_qtnfc_0_6, vmeth_qtnfc_0_7, vmeth_qtnfc_0_8]\<rparr>),
     (''qtopengl_0'', \<lparr>sh_module = ''QtOpenGL'', sh_slug = ''QTOPENGL'',
        sh_bindings = concat [vmeth_qtopengl_0_0, vmeth_qtopengl_0_1, vmeth_qtopengl_0_2, vmeth_qtopengl_0_3, vmeth_qtopengl_0_4, vmeth_qtopengl_0_5, vmeth_qtopengl_0_6, vmeth_qtopengl_0_7, vmeth_qtopengl_0_8, vmeth_qtopengl_0_9]\<rparr>)]"

lemmas vmeth_table_rest_a_defs =
  vmeth_qaxcontainer_0_0_def vmeth_qaxcontainer_0_1_def vmeth_qt3danimation_0_0_def vmeth_qt3danimation_0_1_def
  vmeth_qt3danimation_0_2_def vmeth_qt3danimation_0_3_def vmeth_qt3dcore_0_0_def vmeth_qt3drender_0_0_def
  vmeth_qt3drender_0_1_def vmeth_qt3drender_0_2_def vmeth_qt3drender_0_3_def vmeth_qt3drender_0_4_def
  vmeth_qt3drender_0_5_def vmeth_qt3drender_0_6_def vmeth_qt3drender_0_7_def vmeth_qt3drender_0_8_def
  vmeth_qt3drender_0_9_def vmeth_qt3drender_0_10_def vmeth_qtbluetooth_0_0_def vmeth_qtbluetooth_0_1_def
  vmeth_qtbluetooth_0_2_def vmeth_qtbluetooth_0_3_def vmeth_qtbluetooth_0_4_def vmeth_qtbluetooth_0_5_def
  vmeth_qtbluetooth_0_6_def vmeth_qtbluetooth_0_7_def vmeth_qtbluetooth_0_8_def vmeth_qtbluetooth_0_9_def
  vmeth_qtbluetooth_1_0_def vmeth_qtbluetooth_1_1_def vmeth_qtbluetooth_1_2_def vmeth_qtbluetooth_1_3_def
  vmeth_qtbluetooth_1_4_def vmeth_qtbluetooth_1_5_def vmeth_qtdbus_0_0_def vmeth_qtdbus_0_1_def
  vmeth_qtdbus_0_2_def vmeth_qtdbus_0_3_def vmeth_qtdbus_0_4_def vmeth_qtdbus_0_5_def vmeth_qtdbus_0_6_def
  vmeth_qtdbus_0_7_def vmeth_qtdbus_0_8_def vmeth_qtdbus_1_0_def vmeth_qtdesigner_0_0_def
  vmeth_qtdesigner_0_1_def vmeth_qtdesigner_0_2_def vmeth_qtgraphs_0_0_def vmeth_qtgraphs_0_1_def
  vmeth_qthelp_0_0_def vmeth_qthelp_0_1_def vmeth_qthelp_0_2_def vmeth_qtmultimedia_0_0_def
  vmeth_qtmultimedia_0_1_def vmeth_qtmultimedia_0_2_def vmeth_qtmultimedia_0_3_def vmeth_qtmultimedia_0_4_def
  vmeth_qtmultimedia_0_5_def vmeth_qtmultimedia_0_6_def vmeth_qtmultimedia_0_7_def vmeth_qtmultimedia_0_8_def
  vmeth_qtmultimedia_0_9_def vmeth_qtmultimedia_1_0_def vmeth_qtmultimedia_1_1_def vmeth_qtmultimedia_1_2_def
  vmeth_qtmultimedia_1_3_def vmeth_qtmultimedia_1_4_def vmeth_qtmultimedia_1_5_def vmeth_qtmultimedia_1_6_def
  vmeth_qtmultimedia_1_7_def vmeth_qtmultimedia_1_8_def vmeth_qtmultimedia_1_9_def vmeth_qtmultimedia_1_10_def
  vmeth_qtnetworkauth_0_0_def vmeth_qtnetworkauth_0_1_def vmeth_qtnetworkauth_0_2_def vmeth_qtnfc_0_0_def
  vmeth_qtnfc_0_1_def vmeth_qtnfc_0_2_def vmeth_qtnfc_0_3_def vmeth_qtnfc_0_4_def vmeth_qtnfc_0_5_def
  vmeth_qtnfc_0_6_def vmeth_qtnfc_0_7_def vmeth_qtnfc_0_8_def vmeth_qtopengl_0_0_def vmeth_qtopengl_0_1_def
  vmeth_qtopengl_0_2_def vmeth_qtopengl_0_3_def vmeth_qtopengl_0_4_def vmeth_qtopengl_0_5_def
  vmeth_qtopengl_0_6_def vmeth_qtopengl_0_7_def vmeth_qtopengl_0_8_def vmeth_qtopengl_0_9_def

lemma vmeth_table_rest_a_value_blocks: "list_all (\<lambda>(s, sh). value_blocks sh) vmeth_table_rest_a"
  by (simp add: vmeth_table_rest_a_def vmeth_table_rest_a_defs value_blocks_def value_shard_def; (simp add: parameter_text_def qt_name_defs)?)

end
