(* ===== verification/Value_Methods_Core_A.thy ===== *)
theory Value_Methods_Core_A
  imports Shard_Methods Qt_Names
begin

text \<open>
  Tables of the value method shards (generated\_value\_methods): the blocks of every shard in the file's order, and the
  classes it can store by value.
\<close>

definition vmeth_qtcore_0_0 :: "binding list" where
  "vmeth_qtcore_0_0 = [
     Bind [TypeM ''QTCORE_QCALENDARPERMISSION''] ''accessMode'' [] (RMeta ''QCalendarPermission::AccessMode'') [OnValue ''QCalendarPermission''],
     Bind [ValueM QTCORE_QBYTEARRAY] ''addData'' [PConv QByteArray] RVoid [OnValue QCborStreamReader],
     Bind [] ''append'' [PBool] RVoid [OnValue QCborStreamWriter],
     Bind [] ''append'' [PReal ''double''] RVoid [OnValue QCborStreamWriter],
     Bind [] ''appendNull'' [] RVoid [OnValue QCborStreamWriter],
     Bind [] ''appendUndefined'' [] RVoid [OnValue QCborStreamWriter],
     Bind [] ''at'' [PWide ''qsizetype''] RBool [OnValue QBitArray]]"

definition vmeth_qtcore_0_1 :: "binding list" where
  "vmeth_qtcore_0_1 = [
     Bind [] ''capacity'' [] (RMeta ''qsizetype'') [OnValue QByteArray],
     Bind [] ''chop'' [PWide ''qsizetype''] RVoid [OnValue QByteArray],
     Bind [ValueM QTCORE_QBYTEARRAY] ''chopped'' [PWide ''qsizetype''] (RValue QByteArray) [OnValue QByteArray],
     Bind [] ''clear'' [] RVoid [OnValue QBitArray, OnValue QByteArray, OnValue QCborStreamReader],
     Bind [] ''clearBit'' [PWide ''qsizetype''] RVoid [OnValue QBitArray],
     Bind [] ''containerDepth'' [] RNumber [OnValue QCborStreamReader]]"

definition vmeth_qtcore_0_2 :: "binding list" where
  "vmeth_qtcore_0_2 = [
     Bind [] ''count'' [] (RMeta ''qsizetype'') [OnValue QBitArray, OnValue QByteArray],
     Bind [] ''count'' [PBool] (RMeta ''qsizetype'') [OnValue QBitArray],
     Bind [] ''currentOffset'' [] (RMeta ''qint64'') [OnValue QCborStreamReader],
     Bind [TypeM QTCORE_QCALENDAR, ValueM QTCORE_QDATE] ''dateFromParts'' [PConv ''QCalendar::YearMonthDay''] (RValue QDate) [OnValue QCalendar],
     Bind [ValueM QTCORE_QDATE] ''dateFromParts'' [PInt, PInt, PInt] (RValue QDate) [OnValue QCalendar],
     Bind [ValueM QTCORE_QDATE] ''dayOfWeek'' [PConv QDate] RNumber [OnValue QCalendar]]"

definition vmeth_qtcore_0_3 :: "binding list" where
  "vmeth_qtcore_0_3 = [
     Bind [] ''daysInYear'' [PInt] RNumber [OnValue QCalendar],
     Bind [] ''detach'' [] RVoid [OnValue QBitArray],
     Bind [TypeM QTCORE_QIODEVICE] ''device'' [] RObject [OnValue QCborStreamReader, OnValue QCborStreamWriter],
     Bind [] ''endArray'' [] RBool [OnValue QCborStreamWriter],
     Bind [] ''endMap'' [] RBool [OnValue QCborStreamWriter],
     Bind [] ''enterContainer'' [] RBool [OnValue QCborStreamReader],
     Bind [] ''fill'' [PBool, PWide ''qsizetype''] RBool [OnValue QBitArray]]"

definition vmeth_qtcore_0_4 :: "binding list" where
  "vmeth_qtcore_0_4 = [
     Bind [] ''fill'' [PBool, PWide ''qsizetype'', PWide ''qsizetype''] RVoid [OnValue QBitArray],
     Bind [ValueM QTCORE_QBYTEARRAY] ''first'' [PWide ''qsizetype''] (RValue QByteArray) [OnValue QByteArray],
     Bind [] ''hasNext'' [] RBool [OnValue QCborStreamReader],
     Bind [] ''hasYearZero'' [] RBool [OnValue QCalendar],
     Bind [] ''isActive'' [] RBool [OnValue ''QBasicTimer''],
     Bind [] ''isArray'' [] RBool [OnValue QCborStreamReader],
     Bind [] ''isBool'' [] RBool [OnValue QCborStreamReader]]"

definition vmeth_qtcore_0_5 :: "binding list" where
  "vmeth_qtcore_0_5 = [
     Bind [] ''isByteArray'' [] RBool [OnValue QCborStreamReader],
     Bind [] ''isContainer'' [] RBool [OnValue QCborStreamReader],
     Bind [] ''isDateValid'' [PInt, PInt, PInt] RBool [OnValue QCalendar],
     Bind [] ''isDetached'' [] RBool [OnValue QBitArray],
     Bind [] ''isDouble'' [] RBool [OnValue QCborStreamReader],
     Bind [] ''isEmpty'' [] RBool [OnValue QBitArray, OnValue QByteArray],
     Bind [] ''isFalse'' [] RBool [OnValue QCborStreamReader]]"

definition vmeth_qtcore_0_6 :: "binding list" where
  "vmeth_qtcore_0_6 = [
     Bind [] ''isFloat'' [] RBool [OnValue QCborStreamReader],
     Bind [] ''isFloat16'' [] RBool [OnValue QCborStreamReader],
     Bind [] ''isGregorian'' [] RBool [OnValue QCalendar],
     Bind [] ''isInteger'' [] RBool [OnValue QCborStreamReader],
     Bind [] ''isInvalid'' [] RBool [OnValue QCborStreamReader],
     Bind [] ''isLeapYear'' [PInt] RBool [OnValue QCalendar],
     Bind [] ''isLengthKnown'' [] RBool [OnValue QCborStreamReader],
     Bind [] ''isLower'' [] RBool [OnValue QByteArray]]"

definition vmeth_qtcore_0_7 :: "binding list" where
  "vmeth_qtcore_0_7 = [
     Bind [] ''isLunar'' [] RBool [OnValue QCalendar],
     Bind [] ''isLuniSolar'' [] RBool [OnValue QCalendar],
     Bind [] ''isMap'' [] RBool [OnValue QCborStreamReader],
     Bind [] ''isNegativeInteger'' [] RBool [OnValue QCborStreamReader],
     Bind [] ''isNull'' [] RBool [OnValue QBitArray, OnValue QByteArray, OnValue QCborStreamReader],
     Bind [] ''isProleptic'' [] RBool [OnValue QCalendar],
     Bind [] ''isSimpleType'' [] RBool [OnValue QCborStreamReader],
     Bind [] ''isSolar'' [] RBool [OnValue QCalendar]]"

definition vmeth_qtcore_0_8 :: "binding list" where
  "vmeth_qtcore_0_8 = [
     Bind [] ''isString'' [] RBool [OnValue QCborStreamReader],
     Bind [] ''isTag'' [] RBool [OnValue QCborStreamReader],
     Bind [] ''isTrue'' [] RBool [OnValue QCborStreamReader],
     Bind [] ''isUndefined'' [] RBool [OnValue QCborStreamReader],
     Bind [] ''isUnsignedInteger'' [] RBool [OnValue QCborStreamReader],
     Bind [] ''isUpper'' [] RBool [OnValue QByteArray],
     Bind [] ''isValid'' [] RBool [OnValue QCborStreamReader],
     Bind [] ''isValidUtf8'' [] RBool [OnValue QByteArray]]"

definition vmeth_qtcore_0_9 :: "binding list" where
  "vmeth_qtcore_0_9 = [
     Bind [ValueM QTCORE_QBYTEARRAY] ''last'' [PWide ''qsizetype''] (RValue QByteArray) [OnValue QByteArray],
     Bind [] ''leaveContainer'' [] RBool [OnValue QCborStreamReader],
     Bind [ValueM QTCORE_QBYTEARRAY] ''left'' [PWide ''qsizetype''] (RValue QByteArray) [OnValue QByteArray],
     Bind [] ''length'' [] (RMeta ''qsizetype'') [OnValue QByteArray],
     Bind [] ''length'' [] (RMeta ''quint64'') [OnValue QCborStreamReader],
     Bind [TypeM QTCORE_QCALENDAR, ValueM QTCORE_QDATE] ''matchCenturyToWeekday'' [PConv ''QCalendar::YearMonthDay'', PInt] (RValue QDate) [OnValue QCalendar],
     Bind [] ''max_size'' [] (RMeta ''qsizetype'') [OnValue QByteArray]]"

definition vmeth_qtcore_0_10 :: "binding list" where
  "vmeth_qtcore_0_10 = [
     Bind [] ''maximumDaysInMonth'' [] RNumber [OnValue QCalendar],
     Bind [] ''maximumMonthsInYear'' [] RNumber [OnValue QCalendar],
     Bind [ValueM QTCORE_QBYTEARRAY] ''mid'' [PWide ''qsizetype'', PWide ''qsizetype''] (RValue QByteArray) [OnValue QByteArray],
     Bind [] ''minimumDaysInMonth'' [] RNumber [OnValue QCalendar],
     Bind [TypeM QTCORE_QLOCALE, ValueM QTCORE_QLOCALE] ''monthName'' [PConv QLocale, PInt, PInt, PConv QLocale_FormatType] RString [OnValue QCalendar],
     Bind [] ''monthsInYear'' [PInt] RNumber [OnValue QCalendar],
     Bind [] ''name'' [] RString [OnValue QCalendar]]"

definition vmeth_qtcore_0_11 :: "binding list" where
  "vmeth_qtcore_0_11 = [
     Bind [] ''next'' [PInt] RBool [OnValue QCborStreamReader],
     Bind [ValueM QTCORE_QBYTEARRAY] ''nullTerminate'' [] (RValue QByteArray) [OnValue QByteArray],
     Bind [ValueM QTCORE_QBYTEARRAY] ''nullTerminated'' [] (RValue QByteArray) [OnValue QByteArray],
     Bind [TypeM ''QTCORE_QCBORSTREAMREADER''] ''parentContainerType'' [] (RMeta ''QCborStreamReader::Type'') [OnValue QCborStreamReader],
     Bind [TypeM QTCORE_QCALENDAR, ValueM QTCORE_QDATE] ''partsFromDate'' [PConv QDate] (RMeta ''QCalendar::YearMonthDay'') [OnValue QCalendar],
     Bind [ValueM QTCORE_QBYTEARRAY] ''pattern'' [] (RValue QByteArray) [OnValue ''QByteArrayMatcher''],
     Bind [ValueM QTCORE_QBYTEARRAY] ''readAllByteArray'' [] (RValue QByteArray) [OnValue QCborStreamReader]]"

definition vmeth_qtcore_0_12 :: "binding list" where
  "vmeth_qtcore_0_12 = [
     Bind [] ''readAllString'' [] RString [OnValue QCborStreamReader],
     Bind [ValueM QTCORE_QBYTEARRAY] ''readAllUtf8String'' [] (RValue QByteArray) [OnValue QCborStreamReader],
     Bind [ValueM QTCORE_QBYTEARRAY] ''readAndAppendToByteArray'' [PConv QByteArray] RBool [OnValue QCborStreamReader],
     Bind [] ''readAndAppendToString'' [PString True] RBool [OnValue QCborStreamReader],
     Bind [ValueM QTCORE_QBYTEARRAY] ''readAndAppendToUtf8String'' [PConv QByteArray] RBool [OnValue QCborStreamReader],
     Bind [ValueM QTCORE_QBYTEARRAY] ''remove'' [PWide ''qsizetype'', PWide ''qsizetype''] (RValue QByteArray) [OnValue QByteArray]]"

definition vmeth_qtcore_0_13 :: "binding list" where
  "vmeth_qtcore_0_13 = [
     Bind [ValueM QTCORE_QBYTEARRAY] ''removeAt'' [PWide ''qsizetype''] (RValue QByteArray) [OnValue QByteArray],
     Bind [ValueM QTCORE_QBYTEARRAY] ''removeFirst'' [] (RValue QByteArray) [OnValue QByteArray],
     Bind [ValueM QTCORE_QBYTEARRAY] ''removeLast'' [] (RValue QByteArray) [OnValue QByteArray],
     Bind [] ''reparse'' [] RVoid [OnValue QCborStreamReader],
     Bind [ValueM QTCORE_QBYTEARRAY] ''repeated'' [PWide ''qsizetype''] (RValue QByteArray) [OnValue QByteArray],
     Bind [] ''reserve'' [PWide ''qsizetype''] RVoid [OnValue QByteArray],
     Bind [] ''reset'' [] RVoid [OnValue QCborStreamReader]]"

definition vmeth_qtcore_0_14 :: "binding list" where
  "vmeth_qtcore_0_14 = [
     Bind [] ''resize'' [PWide ''qsizetype''] RVoid [OnValue QBitArray, OnValue QByteArray],
     Bind [ValueM QTCORE_QBYTEARRAY] ''right'' [PWide ''qsizetype''] (RValue QByteArray) [OnValue QByteArray],
     Bind [TypeM ''QTCORE_QCALENDARPERMISSION''] ''setAccessMode'' [PConv ''QCalendarPermission::AccessMode''] RVoid [OnValue ''QCalendarPermission''],
     Bind [] ''setBit'' [PWide ''qsizetype''] RVoid [OnValue QBitArray],
     Bind [] ''setBit'' [PWide ''qsizetype'', PBool] RVoid [OnValue QBitArray]]"

definition vmeth_qtcore_0_15 :: "binding list" where
  "vmeth_qtcore_0_15 = [
     Bind [TypeM QTCORE_QIODEVICE] ''setDevice'' [PNonNull QIODevice_ptr] RVoid [OnValue QCborStreamReader, OnValue QCborStreamWriter],
     Bind [ValueM QTCORE_QBYTEARRAY] ''setPattern'' [PConv QByteArray] RVoid [OnValue ''QByteArrayMatcher''],
     Bind [ValueM QTCORE_QBYTEARRAY] ''simplified'' [] (RValue QByteArray) [OnValue QByteArray],
     Bind [] ''size'' [] (RMeta ''qsizetype'') [OnValue QBitArray, OnValue QByteArray],
     Bind [ValueM QTCORE_QBYTEARRAY] ''slice'' [PWide ''qsizetype''] (RValue QByteArray) [OnValue QByteArray]]"

definition vmeth_qtcore_0_16 :: "binding list" where
  "vmeth_qtcore_0_16 = [
     Bind [ValueM QTCORE_QBYTEARRAY] ''slice'' [PWide ''qsizetype'', PWide ''qsizetype''] (RValue QByteArray) [OnValue QByteArray],
     Bind [ValueM QTCORE_QBYTEARRAY] ''sliced'' [PWide ''qsizetype''] (RValue QByteArray) [OnValue QByteArray],
     Bind [ValueM QTCORE_QBYTEARRAY] ''sliced'' [PWide ''qsizetype'', PWide ''qsizetype''] (RValue QByteArray) [OnValue QByteArray],
     Bind [] ''squeeze'' [] RVoid [OnValue QByteArray],
     Bind [TypeM QTCORE_QLOCALE, ValueM QTCORE_QLOCALE] ''standaloneMonthName'' [PConv QLocale, PInt, PInt, PConv QLocale_FormatType] RString [OnValue QCalendar]]"

definition vmeth_qtcore_0_17 :: "binding list" where
  "vmeth_qtcore_0_17 = [
     Bind [TypeM QTCORE_QLOCALE, ValueM QTCORE_QLOCALE] ''standaloneWeekDayName'' [PConv QLocale, PInt, PConv QLocale_FormatType] RString [OnValue QCalendar],
     Bind [TypeM QTCORE_QOBJECT] ''start'' [PInt, PNonNull QObject_ptr] RVoid [OnValue ''QBasicTimer''],
     Bind [EnumM ''QT_TIMERTYPE'', TypeM QTCORE_QOBJECT] ''start'' [PInt, PConv ''Qt::TimerType'', PNonNull QObject_ptr] RVoid [OnValue ''QBasicTimer''],
     Bind [] ''startArray'' [] RVoid [OnValue QCborStreamWriter],
     Bind [] ''startArray'' [PWide ''quint64''] RVoid [OnValue QCborStreamWriter],
     Bind [] ''startMap'' [] RVoid [OnValue QCborStreamWriter]]"

definition vmeth_qtcore_0_18 :: "binding list" where
  "vmeth_qtcore_0_18 = [
     Bind [] ''startMap'' [PWide ''quint64''] RVoid [OnValue QCborStreamWriter],
     Bind [] ''stop'' [] RVoid [OnValue ''QBasicTimer''],
     Bind [ValueM ''QTCORE_QBASICTIMER''] ''swap'' [PConv ''QBasicTimer''] RVoid [OnValue ''QBasicTimer''],
     Bind [ValueM ''QTCORE_QBITARRAY''] ''swap'' [PConv QBitArray] RVoid [OnValue QBitArray],
     Bind [ValueM QTCORE_QBYTEARRAY] ''swap'' [PConv QByteArray] RVoid [OnValue QByteArray],
     Bind [] ''testBit'' [PWide ''qsizetype''] RBool [OnValue QBitArray],
     Bind [] ''timerId'' [] RNumber [OnValue ''QBasicTimer'']]"

definition vmeth_qtcore_0_19 :: "binding list" where
  "vmeth_qtcore_0_19 = [
     Bind [] ''toBool'' [] RBool [OnValue QCborStreamReader],
     Bind [] ''toDouble'' [] RNumber [OnValue QCborStreamReader],
     Bind [] ''toInteger'' [] (RMeta ''qint64'') [OnValue QCborStreamReader],
     Bind [ValueM QTCORE_QBYTEARRAY] ''toLower'' [] (RValue QByteArray) [OnValue QByteArray],
     Bind [] ''toUnsignedInteger'' [] (RMeta ''quint64'') [OnValue QCborStreamReader],
     Bind [ValueM QTCORE_QBYTEARRAY] ''toUpper'' [] (RValue QByteArray) [OnValue QByteArray],
     Bind [] ''toggleBit'' [PWide ''qsizetype''] RBool [OnValue QBitArray]]"

definition vmeth_qtcore_0_20 :: "binding list" where
  "vmeth_qtcore_0_20 = [
     Bind [ValueM QTCORE_QBYTEARRAY] ''trimmed'' [] (RValue QByteArray) [OnValue QByteArray],
     Bind [] ''truncate'' [PWide ''qsizetype''] RVoid [OnValue QBitArray, OnValue QByteArray],
     Bind [TypeM ''QTCORE_QCBORSTREAMREADER''] ''type'' [] (RMeta ''QCborStreamReader::Type'') [OnValue QCborStreamReader],
     Bind [TypeM QTCORE_QLOCALE, ValueM QTCORE_QLOCALE] ''weekDayName'' [PConv QLocale, PInt, PConv QLocale_FormatType] RString [OnValue QCalendar]]"

definition vtypes_qtcore_0 :: "string list" where
  "vtypes_qtcore_0 = [''QBasicTimer'', QBitArray, QByteArray, ''QByteArrayMatcher'', QCalendar, ''QCalendarPermission'', QCborStreamReader,
     QCborStreamWriter]"

definition vmeth_qtcore_1_0 :: "binding list" where
  "vmeth_qtcore_1_0 = [
     Bind [] ''abortTransaction'' [] RVoid [OnValue QDataStream],
     Bind [TypeM ''QTCORE_QCONTACTSPERMISSION''] ''accessMode'' [] (RMeta ''QContactsPermission::AccessMode'') [OnValue ''QContactsPermission''],
     Bind [TypeM QTCORE_QIODEVICE] ''addData'' [PNonNull QIODevice_ptr] RBool [OnValue ''QCryptographicHash''],
     Bind [ValueM QTCORE_QCOMMANDLINEOPTION] ''addHelpOption'' [] (RValue QCommandLineOption) [OnValue QCommandLineParser],
     Bind [ValueM QTCORE_QCOMMANDLINEOPTION] ''addOption'' [PConv QCommandLineOption] RBool [OnValue QCommandLineParser],
     Bind [ValueM QTCORE_QCOMMANDLINEOPTION] ''addOptions'' [PListV QCommandLineOption] RBool [OnValue QCommandLineParser]]"

definition vmeth_qtcore_1_1 :: "binding list" where
  "vmeth_qtcore_1_1 = [
     Bind [] ''addPositionalArgument'' [PString True, PString True, PString True] RVoid [OnValue QCommandLineParser],
     Bind [ValueM QTCORE_QCOMMANDLINEOPTION] ''addVersionOption'' [] (RValue QCommandLineOption) [OnValue QCommandLineParser],
     Bind [] ''added'' [] RBool [OnValue ''QChildEvent''],
     Bind [TypeM ''QTCORE_QCRYPTOGRAPHICHASH''] ''algorithm'' [] (RMeta ''QCryptographicHash::Algorithm'') [OnValue ''QCryptographicHash''],
     Bind [] ''applicationDescription'' [] RString [OnValue QCommandLineParser],
     Bind [] ''atEnd'' [] RBool [OnValue QDataStream],
     Bind [TypeM QTCORE_QDATASTREAM] ''byteOrder'' [] (RMeta ''QDataStream::ByteOrder'') [OnValue QDataStream]]"

definition vmeth_qtcore_1_2 :: "binding list" where
  "vmeth_qtcore_1_2 = [
     Bind [EnumM ''QT_CASESENSITIVITY''] ''caseSensitivity'' [] (RMeta ''Qt::CaseSensitivity'') [OnValue ''QCollator''],
     Bind [TypeM QTCORE_QOBJECT] ''child'' [] RObject [OnValue ''QChildEvent''],
     Bind [] ''clearPositionalArguments'' [] RVoid [OnValue QCommandLineParser],
     Bind [] ''commitTransaction'' [] RBool [OnValue QDataStream],
     Bind [ValueM ''QTCORE_QCOLLATORSORTKEY''] ''compare'' [PConv ''QCollatorSortKey''] RNumber [OnValue ''QCollatorSortKey''],
     Bind [] ''compare'' [PString True, PString True] RNumber [OnValue ''QCollator''],
     Bind [] ''defaultValues'' [] (RList (IMeta QString)) [OnValue QCommandLineOption]]"

definition vmeth_qtcore_1_3 :: "binding list" where
  "vmeth_qtcore_1_3 = [
     Bind [] ''description'' [] RString [OnValue QCommandLineOption],
     Bind [TypeM QTCORE_QIODEVICE] ''device'' [] RObject [OnValue QDataStream],
     Bind [] ''errorText'' [] RString [OnValue QCommandLineParser],
     Bind [TypeM QTCORE_QCOMMANDLINEOPTION] ''flags'' [] (RMeta ''QCommandLineOption::Flags'') [OnValue QCommandLineOption],
     Bind [TypeM QTCORE_QDATASTREAM] ''floatingPointPrecision'' [] (RMeta ''QDataStream::FloatingPointPrecision'') [OnValue QDataStream],
     Bind [] ''helpText'' [] RString [OnValue QCommandLineParser],
     Bind [] ''ignorePunctuation'' [] RBool [OnValue ''QCollator''],
     Bind [ValueM QTCORE_QCOMMANDLINEOPTION] ''isSet'' [PConv QCommandLineOption] RBool [OnValue QCommandLineParser]]"

definition vmeth_qtcore_1_4 :: "binding list" where
  "vmeth_qtcore_1_4 = [
     Bind [] ''isSet'' [PString True] RBool [OnValue QCommandLineParser],
     Bind [ValueM QTCORE_QLOCALE] ''locale'' [] (RValue QLocale) [OnValue ''QCollator''],
     Bind [] ''names'' [] (RList (IMeta QString)) [OnValue QCommandLineOption],
     Bind [] ''numericMode'' [] RBool [OnValue ''QCollator''],
     Bind [] ''optionNames'' [] (RList (IMeta QString)) [OnValue QCommandLineParser],
     Bind [] ''parse'' [PStringList] RBool [OnValue QCommandLineParser],
     Bind [] ''polished'' [] RBool [OnValue ''QChildEvent'']]"

definition vmeth_qtcore_1_5 :: "binding list" where
  "vmeth_qtcore_1_5 = [
     Bind [] ''positionalArguments'' [] (RList (IMeta QString)) [OnValue QCommandLineParser],
     Bind [] ''process'' [PStringList] RVoid [OnValue QCommandLineParser],
     Bind [] ''removed'' [] RBool [OnValue ''QChildEvent''],
     Bind [] ''reset'' [] RVoid [OnValue ''QCryptographicHash''],
     Bind [] ''resetStatus'' [] RVoid [OnValue QDataStream],
     Bind [ValueM QTCORE_QBYTEARRAY] ''result'' [] (RValue QByteArray) [OnValue ''QCryptographicHash''],
     Bind [] ''rollbackTransaction'' [] RVoid [OnValue QDataStream]]"

definition vmeth_qtcore_1_6 :: "binding list" where
  "vmeth_qtcore_1_6 = [
     Bind [TypeM ''QTCORE_QCONTACTSPERMISSION''] ''setAccessMode'' [PConv ''QContactsPermission::AccessMode''] RVoid [OnValue ''QContactsPermission''],
     Bind [] ''setApplicationDescription'' [PString True] RVoid [OnValue QCommandLineParser],
     Bind [TypeM QTCORE_QDATASTREAM] ''setByteOrder'' [PConv ''QDataStream::ByteOrder''] RVoid [OnValue QDataStream],
     Bind [EnumM ''QT_CASESENSITIVITY''] ''setCaseSensitivity'' [PConv ''Qt::CaseSensitivity''] RVoid [OnValue ''QCollator''],
     Bind [] ''setDefaultValue'' [PString True] RVoid [OnValue QCommandLineOption],
     Bind [] ''setDefaultValues'' [PStringList] RVoid [OnValue QCommandLineOption]]"

definition vmeth_qtcore_1_7 :: "binding list" where
  "vmeth_qtcore_1_7 = [
     Bind [] ''setDescription'' [PString True] RVoid [OnValue QCommandLineOption],
     Bind [TypeM QTCORE_QIODEVICE] ''setDevice'' [PNonNull QIODevice_ptr] RVoid [OnValue QDataStream],
     Bind [TypeM QTCORE_QCOMMANDLINEOPTION] ''setFlags'' [PConv ''QCommandLineOption::Flags''] RVoid [OnValue QCommandLineOption],
     Bind [TypeM QTCORE_QDATASTREAM] ''setFloatingPointPrecision'' [PConv ''QDataStream::FloatingPointPrecision''] RVoid [OnValue QDataStream],
     Bind [] ''setIgnorePunctuation'' [PBool] RVoid [OnValue ''QCollator''],
     Bind [ValueM QTCORE_QLOCALE] ''setLocale'' [PConv QLocale] RVoid [OnValue ''QCollator'']]"

definition vmeth_qtcore_1_8 :: "binding list" where
  "vmeth_qtcore_1_8 = [
     Bind [] ''setNumericMode'' [PBool] RVoid [OnValue ''QCollator''],
     Bind [TypeM ''QTCORE_QCOMMANDLINEPARSER''] ''setOptionsAfterPositionalArgumentsMode'' [PConv ''QCommandLineParser::OptionsAfterPositionalArgumentsMode''] RVoid [OnValue QCommandLineParser],
     Bind [TypeM ''QTCORE_QCOMMANDLINEPARSER''] ''setSingleDashWordOptionMode'' [PConv ''QCommandLineParser::SingleDashWordOptionMode''] RVoid [OnValue QCommandLineParser],
     Bind [TypeM QTCORE_QDATASTREAM] ''setStatus'' [PConv ''QDataStream::Status''] RVoid [OnValue QDataStream],
     Bind [] ''setValueName'' [PString True] RVoid [OnValue QCommandLineOption],
     Bind [] ''setVersion'' [PInt] RVoid [OnValue QDataStream]]"

definition vmeth_qtcore_1_9 :: "binding list" where
  "vmeth_qtcore_1_9 = [
     Bind [] ''showHelp'' [PInt] RVoid [OnValue QCommandLineParser],
     Bind [] ''showVersion'' [] RVoid [OnValue QCommandLineParser],
     Bind [ValueM ''QTCORE_QCOLLATORSORTKEY''] ''sortKey'' [PString True] (RValue ''QCollatorSortKey'') [OnValue ''QCollator''],
     Bind [] ''startTransaction'' [] RVoid [OnValue QDataStream],
     Bind [TypeM QTCORE_QDATASTREAM] ''status'' [] (RMeta ''QDataStream::Status'') [OnValue QDataStream],
     Bind [ValueM ''QTCORE_QCOLLATOR''] ''swap'' [PConv ''QCollator''] RVoid [OnValue ''QCollator''],
     Bind [ValueM ''QTCORE_QCOLLATORSORTKEY''] ''swap'' [PConv ''QCollatorSortKey''] RVoid [OnValue ''QCollatorSortKey'']]"

definition vmeth_qtcore_1_10 :: "binding list" where
  "vmeth_qtcore_1_10 = [
     Bind [ValueM QTCORE_QCOMMANDLINEOPTION] ''swap'' [PConv QCommandLineOption] RVoid [OnValue QCommandLineOption],
     Bind [ValueM ''QTCORE_QCRYPTOGRAPHICHASH''] ''swap'' [PConv ''QCryptographicHash''] RVoid [OnValue ''QCryptographicHash''],
     Bind [] ''unknownOptionNames'' [] (RList (IMeta QString)) [OnValue QCommandLineParser],
     Bind [ValueM QTCORE_QCOMMANDLINEOPTION] ''value'' [PConv QCommandLineOption] RString [OnValue QCommandLineParser],
     Bind [] ''value'' [PString True] RString [OnValue QCommandLineParser],
     Bind [] ''valueName'' [] RString [OnValue QCommandLineOption]]"

definition vmeth_qtcore_1_11 :: "binding list" where
  "vmeth_qtcore_1_11 = [
     Bind [ValueM QTCORE_QCOMMANDLINEOPTION] ''values'' [PConv QCommandLineOption] (RList (IMeta QString)) [OnValue QCommandLineParser],
     Bind [] ''values'' [PString True] (RList (IMeta QString)) [OnValue QCommandLineParser],
     Bind [] ''version'' [] RNumber [OnValue QDataStream]]"

definition vtypes_qtcore_1 :: "string list" where
  "vtypes_qtcore_1 = [''QChildEvent'', ''QCollator'', ''QCollatorSortKey'', QCommandLineOption, QCommandLineParser,
     ''QContactsPermission'', ''QCryptographicHash'', QDataStream]"

definition vmeth_qtcore_10_0 :: "binding list" where
  "vmeth_qtcore_10_0 = [
     Bind [ValueM QTCORE_QDATETIME] ''abbreviation'' [PConv QDateTime] RString [OnValue QTimeZone],
     Bind [ValueM QTCORE_QTIME] ''addMSecs'' [PInt] (RValue QTime) [OnValue QTime],
     Bind [] ''addQueryItem'' [PString True, PString True] RVoid [OnValue ''QUrlQuery''],
     Bind [ValueM QTCORE_QTIME] ''addSecs'' [PInt] (RValue QTime) [OnValue QTime],
     Bind [ValueM QTCORE_QTIMEZONE] ''asBackendZone'' [] (RValue QTimeZone) [OnValue QTimeZone],
     Bind [] ''atEnd'' [] RBool [OnValue QTextStream],
     Bind [] ''autoDetectUnicode'' [] RBool [OnValue QTextStream]]"

definition vmeth_qtcore_10_1 :: "binding list" where
  "vmeth_qtcore_10_1 = [
     Bind [] ''clear'' [] RVoid [OnValue QUrl, OnValue ''QUrlQuery''],
     Bind [] ''comment'' [] RString [OnValue QTimeZone],
     Bind [TypeM QTCORE_QLOCALE] ''country'' [] (RMeta ''QLocale::Country'') [OnValue QTimeZone],
     Bind [ValueM QTCORE_QDATETIME] ''daylightTimeOffset'' [PConv QDateTime] RNumber [OnValue QTimeZone],
     Bind [] ''detach'' [] RVoid [OnValue QUrl],
     Bind [TypeM QTCORE_QIODEVICE] ''device'' [] RObject [OnValue QTextStream],
     Bind [TypeM QTCORE_QTIMEZONE, ValueM QTCORE_QDATETIME, ValueM QTCORE_QLOCALE] ''displayName'' [PConv QDateTime, PConv ''QTimeZone::NameType'', PConv QLocale] RString [OnValue QTimeZone]]"

definition vmeth_qtcore_10_2 :: "binding list" where
  "vmeth_qtcore_10_2 = [
     Bind [TypeM QTCORE_QTIMEZONE, ValueM QTCORE_QLOCALE] ''displayName'' [PConv ''QTimeZone::TimeType'', PConv ''QTimeZone::NameType'', PConv QLocale] RString [OnValue QTimeZone],
     Bind [TypeM ''QTCORE_QSTRINGCONVERTER''] ''encoding'' [] (RMeta ''QStringConverter::Encoding'') [OnValue QTextStream],
     Bind [] ''errorString'' [] RString [OnValue QUrl],
     Bind [TypeM ''QTCORE_QTEXTSTREAM''] ''fieldAlignment'' [] (RMeta ''QTextStream::FieldAlignment'') [OnValue QTextStream],
     Bind [] ''fieldWidth'' [] RNumber [OnValue QTextStream],
     Bind [] ''fixedSecondsAheadOfUtc'' [] RNumber [OnValue QTimeZone],
     Bind [] ''flush'' [] RVoid [OnValue QTextStream]]"

definition vmeth_qtcore_10_3 :: "binding list" where
  "vmeth_qtcore_10_3 = [
     Bind [] ''generateByteOrderMark'' [] RBool [OnValue QTextStream],
     Bind [] ''hasDaylightTime'' [] RBool [OnValue QTimeZone],
     Bind [] ''hasFragment'' [] RBool [OnValue QUrl],
     Bind [] ''hasMajorVersion'' [] RBool [OnValue ''QTypeRevision''],
     Bind [] ''hasMinorVersion'' [] RBool [OnValue ''QTypeRevision''],
     Bind [] ''hasQuery'' [] RBool [OnValue QUrl],
     Bind [] ''hasQueryItem'' [PString True] RBool [OnValue ''QUrlQuery''],
     Bind [] ''hasTransitions'' [] RBool [OnValue QTimeZone]]"

definition vmeth_qtcore_10_4 :: "binding list" where
  "vmeth_qtcore_10_4 = [
     Bind [] ''hour'' [] RNumber [OnValue QTime],
     Bind [ValueM QTCORE_QBYTEARRAY] ''id'' [] (RValue QByteArray) [OnValue QTimeZone],
     Bind [] ''integerBase'' [] RNumber [OnValue QTextStream],
     Bind [ValueM QTCORE_QDATETIME] ''isDaylightTime'' [PConv QDateTime] RBool [OnValue QTimeZone],
     Bind [] ''isDetached'' [] RBool [OnValue QUrl, OnValue ''QUrlQuery''],
     Bind [] ''isEmpty'' [] RBool [OnValue QUrl, OnValue ''QUrlQuery''],
     Bind [] ''isLocalFile'' [] RBool [OnValue QUrl]]"

definition vmeth_qtcore_10_5 :: "binding list" where
  "vmeth_qtcore_10_5 = [
     Bind [] ''isNull'' [] RBool [OnValue QTime, OnValue ''QUuid''],
     Bind [ValueM QTCORE_QURL] ''isParentOf'' [PConv QUrl] RBool [OnValue QUrl],
     Bind [] ''isRelative'' [] RBool [OnValue QUrl],
     Bind [] ''isUtcOrFixedOffset'' [] RBool [OnValue QTimeZone],
     Bind [] ''isValid'' [] RBool [OnValue QTime, OnValue QTimeZone, OnValue ''QTypeRevision'', OnValue QUrl],
     Bind [ValueM QTCORE_QLOCALE] ''locale'' [] (RValue QLocale) [OnValue QTextStream]]"

definition vmeth_qtcore_10_6 :: "binding list" where
  "vmeth_qtcore_10_6 = [
     Bind [ValueM ''QTCORE_QBASICTIMER''] ''matches'' [PConv ''QBasicTimer''] RBool [OnValue ''QTimerEvent''],
     Bind [] ''minute'' [] RNumber [OnValue QTime],
     Bind [] ''msec'' [] RNumber [OnValue QTime],
     Bind [] ''msecsSinceStartOfDay'' [] RNumber [OnValue QTime],
     Bind [ValueM QTCORE_QTIME] ''msecsTo'' [PConv QTime] RNumber [OnValue QTime],
     Bind [TypeM QTCORE_QTIMEZONE, ValueM QTCORE_QDATETIME] ''nextTransition'' [PConv QDateTime] (RMeta ''QTimeZone::OffsetData'') [OnValue QTimeZone],
     Bind [TypeM QTCORE_QTIMEZONE, ValueM QTCORE_QDATETIME] ''offsetData'' [PConv QDateTime] (RMeta ''QTimeZone::OffsetData'') [OnValue QTimeZone]]"

definition vmeth_qtcore_10_7 :: "binding list" where
  "vmeth_qtcore_10_7 = [
     Bind [ValueM QTCORE_QDATETIME] ''offsetFromUtc'' [PConv QDateTime] RNumber [OnValue QTimeZone],
     Bind [] ''port'' [PInt] RNumber [OnValue QUrl],
     Bind [] ''pos'' [] (RMeta ''qint64'') [OnValue QTextStream],
     Bind [TypeM QTCORE_QTIMEZONE, ValueM QTCORE_QDATETIME] ''previousTransition'' [PConv QDateTime] (RMeta ''QTimeZone::OffsetData'') [OnValue QTimeZone],
     Bind [] ''read'' [PWide ''qint64''] RString [OnValue QTextStream],
     Bind [] ''readAll'' [] RString [OnValue QTextStream],
     Bind [] ''readLine'' [PWide ''qint64''] RString [OnValue QTextStream]]"

definition vmeth_qtcore_10_8 :: "binding list" where
  "vmeth_qtcore_10_8 = [
     Bind [TypeM ''QTCORE_QTEXTSTREAM''] ''realNumberNotation'' [] (RMeta ''QTextStream::RealNumberNotation'') [OnValue QTextStream],
     Bind [] ''realNumberPrecision'' [] RNumber [OnValue QTextStream],
     Bind [] ''removeAllQueryItems'' [PString True] RVoid [OnValue ''QUrlQuery''],
     Bind [] ''removeQueryItem'' [PString True] RVoid [OnValue ''QUrlQuery''],
     Bind [] ''reset'' [] RVoid [OnValue QTextStream],
     Bind [] ''resetStatus'' [] RVoid [OnValue QTextStream],
     Bind [ValueM QTCORE_QURL] ''resolved'' [PConv QUrl] (RValue QUrl) [OnValue QUrl]]"

definition vmeth_qtcore_10_9 :: "binding list" where
  "vmeth_qtcore_10_9 = [
     Bind [] ''scheme'' [] RString [OnValue QUrl],
     Bind [] ''second'' [] RNumber [OnValue QTime],
     Bind [ValueM QTCORE_QTIME] ''secsTo'' [PConv QTime] RNumber [OnValue QTime],
     Bind [] ''seek'' [PWide ''qint64''] RBool [OnValue QTextStream],
     Bind [TypeM QTCORE_QURL] ''setAuthority'' [PString True, PConv ''QUrl::ParsingMode''] RVoid [OnValue QUrl],
     Bind [] ''setAutoDetectUnicode'' [PBool] RVoid [OnValue QTextStream],
     Bind [TypeM QTCORE_QIODEVICE] ''setDevice'' [PNonNull QIODevice_ptr] RVoid [OnValue QTextStream]]"

definition vmeth_qtcore_10_10 :: "binding list" where
  "vmeth_qtcore_10_10 = [
     Bind [TypeM ''QTCORE_QSTRINGCONVERTER''] ''setEncoding'' [PConv ''QStringConverter::Encoding''] RVoid [OnValue QTextStream],
     Bind [TypeM ''QTCORE_QTEXTSTREAM''] ''setFieldAlignment'' [PConv ''QTextStream::FieldAlignment''] RVoid [OnValue QTextStream],
     Bind [] ''setFieldWidth'' [PInt] RVoid [OnValue QTextStream],
     Bind [TypeM QTCORE_QURL] ''setFragment'' [PString True, PConv ''QUrl::ParsingMode''] RVoid [OnValue QUrl],
     Bind [] ''setGenerateByteOrderMark'' [PBool] RVoid [OnValue QTextStream],
     Bind [] ''setHMS'' [PInt, PInt, PInt, PInt] RBool [OnValue QTime]]"

definition vmeth_qtcore_10_11 :: "binding list" where
  "vmeth_qtcore_10_11 = [
     Bind [TypeM QTCORE_QURL] ''setHost'' [PString True, PConv ''QUrl::ParsingMode''] RVoid [OnValue QUrl],
     Bind [] ''setIntegerBase'' [PInt] RVoid [OnValue QTextStream],
     Bind [ValueM QTCORE_QLOCALE] ''setLocale'' [PConv QLocale] RVoid [OnValue QTextStream],
     Bind [TypeM QTCORE_QURL] ''setPassword'' [PString True, PConv ''QUrl::ParsingMode''] RVoid [OnValue QUrl],
     Bind [TypeM QTCORE_QURL] ''setPath'' [PString True, PConv ''QUrl::ParsingMode''] RVoid [OnValue QUrl],
     Bind [] ''setPort'' [PInt] RVoid [OnValue QUrl]]"

definition vmeth_qtcore_10_12 :: "binding list" where
  "vmeth_qtcore_10_12 = [
     Bind [] ''setQuery'' [PString True] RVoid [OnValue ''QUrlQuery''],
     Bind [TypeM QTCORE_QURL] ''setQuery'' [PString True, PConv ''QUrl::ParsingMode''] RVoid [OnValue QUrl],
     Bind [ValueM ''QTCORE_QURLQUERY''] ''setQuery'' [PConv ''QUrlQuery''] RVoid [OnValue QUrl],
     Bind [TypeM ''QTCORE_QTEXTSTREAM''] ''setRealNumberNotation'' [PConv ''QTextStream::RealNumberNotation''] RVoid [OnValue QTextStream],
     Bind [] ''setRealNumberPrecision'' [PInt] RVoid [OnValue QTextStream],
     Bind [] ''setScheme'' [PString True] RVoid [OnValue QUrl]]"

definition vmeth_qtcore_10_13 :: "binding list" where
  "vmeth_qtcore_10_13 = [
     Bind [TypeM ''QTCORE_QTEXTSTREAM''] ''setStatus'' [PConv ''QTextStream::Status''] RVoid [OnValue QTextStream],
     Bind [TypeM QTCORE_QURL] ''setUrl'' [PString True, PConv ''QUrl::ParsingMode''] RVoid [OnValue QUrl],
     Bind [TypeM QTCORE_QURL] ''setUserInfo'' [PString True, PConv ''QUrl::ParsingMode''] RVoid [OnValue QUrl],
     Bind [TypeM QTCORE_QURL] ''setUserName'' [PString True, PConv ''QUrl::ParsingMode''] RVoid [OnValue QUrl],
     Bind [] ''skipWhiteSpace'' [] RVoid [OnValue QTextStream],
     Bind [ValueM QTCORE_QDATETIME] ''standardTimeOffset'' [PConv QDateTime] RNumber [OnValue QTimeZone]]"

definition vmeth_qtcore_10_14 :: "binding list" where
  "vmeth_qtcore_10_14 = [
     Bind [TypeM ''QTCORE_QTEXTSTREAM''] ''status'' [] (RMeta ''QTextStream::Status'') [OnValue QTextStream],
     Bind [ValueM QTCORE_QTIMEZONE] ''swap'' [PConv QTimeZone] RVoid [OnValue QTimeZone],
     Bind [ValueM QTCORE_QURL] ''swap'' [PConv QUrl] RVoid [OnValue QUrl],
     Bind [ValueM ''QTCORE_QURLQUERY''] ''swap'' [PConv ''QUrlQuery''] RVoid [OnValue ''QUrlQuery''],
     Bind [TypeM QTCORE_QLOCALE] ''territory'' [] (RMeta ''QLocale::Territory'') [OnValue QTimeZone],
     Bind [EnumM ''QT_TIMESPEC''] ''timeSpec'' [] (RMeta ''Qt::TimeSpec'') [OnValue QTimeZone],
     Bind [] ''timerId'' [] RNumber [OnValue ''QTimerEvent'']]"

definition vmeth_qtcore_10_15 :: "binding list" where
  "vmeth_qtcore_10_15 = [
     Bind [TypeM ''QTCORE_QUUID'', ValueM QTCORE_QBYTEARRAY] ''toByteArray'' [PConv ''QUuid::StringFormat''] (RValue QByteArray) [OnValue ''QUuid''],
     Bind [] ''toLocalFile'' [] RString [OnValue QUrl],
     Bind [ValueM QTCORE_QBYTEARRAY] ''toRfc4122'' [] (RValue QByteArray) [OnValue ''QUuid''],
     Bind [] ''toString'' [PString True] RString [OnValue QTime],
     Bind [TypeM ''QTCORE_QUUID''] ''toString'' [PConv ''QUuid::StringFormat''] RString [OnValue ''QUuid''],
     Bind [EnumM ''QT_DATEFORMAT''] ''toString'' [PConv ''Qt::DateFormat''] RString [OnValue QTime],
     Bind [TypeM ''QTCORE_QUUID''] ''variant'' [] (RMeta ''QUuid::Variant'') [OnValue ''QUuid'']]"

definition vmeth_qtcore_10_16 :: "binding list" where
  "vmeth_qtcore_10_16 = [
     Bind [TypeM ''QTCORE_QUUID''] ''version'' [] (RMeta ''QUuid::Version'') [OnValue ''QUuid'']]"

definition vtypes_qtcore_10 :: "string list" where
  "vtypes_qtcore_10 = [QTextStream, QTime, QTimeZone, ''QTimerEvent'', ''QTypeRevision'', QUrl, ''QUrlQuery'', ''QUuid'']"

definition vmeth_qtcore_11_0 :: "binding list" where
  "vmeth_qtcore_11_0 = [
     Bind [ValueM ''QTCORE_QXMLSTREAMNAMESPACEDECLARATION''] ''addExtraNamespaceDeclaration'' [PConv ''QXmlStreamNamespaceDeclaration''] RVoid [OnValue QXmlStreamReader],
     Bind [] ''append'' [PString True, PString True] RVoid [OnValue QXmlStreamAttributes],
     Bind [] ''append'' [PString True, PString True, PString True] RVoid [OnValue QXmlStreamAttributes],
     Bind [ValueM QTCORE_QXMLSTREAMATTRIBUTE] ''append'' [PConv QXmlStreamAttribute] RVoid [OnValue QXmlStreamAttributes],
     Bind [ValueM QTCORE_QXMLSTREAMATTRIBUTE] ''at'' [PInt] (RValue QXmlStreamAttribute) [OnValue QXmlStreamAttributes],
     Bind [] ''atEnd'' [] RBool [OnValue QXmlStreamReader]]"

definition vmeth_qtcore_11_1 :: "binding list" where
  "vmeth_qtcore_11_1 = [
     Bind [ValueM ''QTCORE_QXMLSTREAMATTRIBUTES''] ''attributes'' [] (RValue QXmlStreamAttributes) [OnValue QXmlStreamReader],
     Bind [ValueM QTCORE_QMETATYPE] ''canConvert'' [PConv QMetaType] RBool [OnValue ''QVariant''],
     Bind [ValueM QTCORE_QMETATYPE] ''canView'' [PConv QMetaType] RBool [OnValue ''QVariant''],
     Bind [] ''characterOffset'' [] (RMeta ''qint64'') [OnValue QXmlStreamReader],
     Bind [] ''clear'' [] RVoid [OnValue ''QVariant'', OnValue QXmlStreamAttributes, OnValue QXmlStreamReader],
     Bind [] ''columnNumber'' [] (RMeta ''qint64'') [OnValue QXmlStreamReader]]"

definition vmeth_qtcore_11_2 :: "binding list" where
  "vmeth_qtcore_11_2 = [
     Bind [ValueM QTCORE_QXMLSTREAMATTRIBUTE] ''contains'' [PConv QXmlStreamAttribute] RBool [OnValue QXmlStreamAttributes],
     Bind [ValueM QTCORE_QMETATYPE] ''convert'' [PConv QMetaType] RBool [OnValue ''QVariant''],
     Bind [] ''count'' [] RNumber [OnValue QXmlStreamAttributes],
     Bind [ValueM QTCORE_QXMLSTREAMATTRIBUTE] ''count'' [PConv QXmlStreamAttribute] RNumber [OnValue QXmlStreamAttributes],
     Bind [TypeM QTCORE_QIODEVICE] ''device'' [] RObject [OnValue QXmlStreamReader],
     Bind [] ''entityExpansionLimit'' [] RNumber [OnValue QXmlStreamReader],
     Bind [TypeM ''QTCORE_QXMLSTREAMREADER''] ''error'' [] (RMeta ''QXmlStreamReader::Error'') [OnValue QXmlStreamReader]]"

definition vmeth_qtcore_11_3 :: "binding list" where
  "vmeth_qtcore_11_3 = [
     Bind [] ''errorString'' [] RString [OnValue QXmlStreamReader],
     Bind [ValueM QTCORE_QXMLSTREAMATTRIBUTE] ''fill'' [PConv QXmlStreamAttribute, PInt] RVoid [OnValue QXmlStreamAttributes],
     Bind [ValueM QTCORE_QXMLSTREAMATTRIBUTE] ''first'' [] (RValue QXmlStreamAttribute) [OnValue QXmlStreamAttributes],
     Bind [] ''hasError'' [] RBool [OnValue QXmlStreamReader],
     Bind [] ''hasStandaloneDeclaration'' [] RBool [OnValue QXmlStreamReader],
     Bind [ValueM QTCORE_QXMLSTREAMATTRIBUTE] ''indexOf'' [PConv QXmlStreamAttribute, PInt] RNumber [OnValue QXmlStreamAttributes],
     Bind [ValueM QTCORE_QXMLSTREAMATTRIBUTE] ''insert'' [PInt, PConv QXmlStreamAttribute] RVoid [OnValue QXmlStreamAttributes]]"

definition vmeth_qtcore_11_4 :: "binding list" where
  "vmeth_qtcore_11_4 = [
     Bind [] ''isCDATA'' [] RBool [OnValue QXmlStreamReader],
     Bind [] ''isCharacters'' [] RBool [OnValue QXmlStreamReader],
     Bind [] ''isComment'' [] RBool [OnValue QXmlStreamReader],
     Bind [] ''isDTD'' [] RBool [OnValue QXmlStreamReader],
     Bind [] ''isDefault'' [] RBool [OnValue QXmlStreamAttribute],
     Bind [] ''isEmpty'' [] RBool [OnValue QXmlStreamAttributes],
     Bind [] ''isEndDocument'' [] RBool [OnValue QXmlStreamReader],
     Bind [] ''isEndElement'' [] RBool [OnValue QXmlStreamReader]]"

definition vmeth_qtcore_11_5 :: "binding list" where
  "vmeth_qtcore_11_5 = [
     Bind [] ''isEntityReference'' [] RBool [OnValue QXmlStreamReader],
     Bind [] ''isNormalized'' [] RBool [OnValue QVersionNumber],
     Bind [] ''isNull'' [] RBool [OnValue ''QVariant'', OnValue QVersionNumber],
     Bind [ValueM ''QTCORE_QVERSIONNUMBER''] ''isPrefixOf'' [PConv QVersionNumber] RBool [OnValue QVersionNumber],
     Bind [] ''isProcessingInstruction'' [] RBool [OnValue QXmlStreamReader],
     Bind [] ''isStandaloneDocument'' [] RBool [OnValue QXmlStreamReader],
     Bind [] ''isStartDocument'' [] RBool [OnValue QXmlStreamReader],
     Bind [] ''isStartElement'' [] RBool [OnValue QXmlStreamReader]]"

definition vmeth_qtcore_11_6 :: "binding list" where
  "vmeth_qtcore_11_6 = [
     Bind [] ''isValid'' [] RBool [OnValue ''QVariant''],
     Bind [] ''isWhitespace'' [] RBool [OnValue QXmlStreamReader],
     Bind [ValueM QTCORE_QXMLSTREAMATTRIBUTE] ''last'' [] (RValue QXmlStreamAttribute) [OnValue QXmlStreamAttributes],
     Bind [ValueM QTCORE_QXMLSTREAMATTRIBUTE] ''lastIndexOf'' [PConv QXmlStreamAttribute, PInt] RNumber [OnValue QXmlStreamAttributes],
     Bind [] ''lineNumber'' [] (RMeta ''qint64'') [OnValue QXmlStreamReader],
     Bind [ValueM QTCORE_QDATASTREAM] ''load'' [PConv QDataStream] RVoid [OnValue ''QVariant''],
     Bind [] ''majorVersion'' [] RNumber [OnValue QVersionNumber]]"

definition vmeth_qtcore_11_7 :: "binding list" where
  "vmeth_qtcore_11_7 = [
     Bind [ValueM QTCORE_QMETATYPE] ''metaType'' [] (RValue QMetaType) [OnValue ''QVariant''],
     Bind [] ''microVersion'' [] RNumber [OnValue QVersionNumber],
     Bind [] ''minorVersion'' [] RNumber [OnValue QVersionNumber],
     Bind [] ''namespaceProcessing'' [] RBool [OnValue QXmlStreamReader],
     Bind [ValueM ''QTCORE_QVERSIONNUMBER''] ''normalized'' [] (RValue QVersionNumber) [OnValue QVersionNumber],
     Bind [ValueM QTCORE_QXMLSTREAMATTRIBUTE] ''prepend'' [PConv QXmlStreamAttribute] RVoid [OnValue QXmlStreamAttributes],
     Bind [] ''raiseError'' [PString True] RVoid [OnValue QXmlStreamReader]]"

definition vmeth_qtcore_11_8 :: "binding list" where
  "vmeth_qtcore_11_8 = [
     Bind [TypeM ''QTCORE_QXMLSTREAMREADER''] ''readElementText'' [PConv ''QXmlStreamReader::ReadElementTextBehaviour''] RString [OnValue QXmlStreamReader],
     Bind [TypeM ''QTCORE_QXMLSTREAMREADER''] ''readNext'' [] (RMeta ''QXmlStreamReader::TokenType'') [OnValue QXmlStreamReader],
     Bind [] ''readNextStartElement'' [] RBool [OnValue QXmlStreamReader],
     Bind [] ''readRawInnerData'' [] RString [OnValue QXmlStreamReader],
     Bind [] ''relock'' [] RVoid [OnValue ''QWriteLocker''],
     Bind [] ''remove'' [PInt] RVoid [OnValue QXmlStreamAttributes],
     Bind [] ''remove'' [PInt, PInt] RVoid [OnValue QXmlStreamAttributes]]"

definition vmeth_qtcore_11_9 :: "binding list" where
  "vmeth_qtcore_11_9 = [
     Bind [ValueM QTCORE_QXMLSTREAMATTRIBUTE] ''replace'' [PInt, PConv QXmlStreamAttribute] RVoid [OnValue QXmlStreamAttributes],
     Bind [] ''resize'' [PWide ''qsizetype''] RVoid [OnValue QXmlStreamAttributes],
     Bind [] ''resolveUndeclaredEntity'' [PString True] RString [OnValue ''QXmlStreamEntityResolver''],
     Bind [ValueM QTCORE_QDATASTREAM] ''save'' [PConv QDataStream] RVoid [OnValue ''QVariant''],
     Bind [] ''segmentAt'' [PWide ''qsizetype''] RNumber [OnValue QVersionNumber],
     Bind [] ''segmentCount'' [] (RMeta ''qsizetype'') [OnValue QVersionNumber],
     Bind [] ''segments'' [] (RList (IMeta ''int'')) [OnValue QVersionNumber]]"

definition vmeth_qtcore_11_10 :: "binding list" where
  "vmeth_qtcore_11_10 = [
     Bind [TypeM QTCORE_QIODEVICE] ''setDevice'' [PNonNull QIODevice_ptr] RVoid [OnValue QXmlStreamReader],
     Bind [] ''setEntityExpansionLimit'' [PInt] RVoid [OnValue QXmlStreamReader],
     Bind [] ''setNamespaceProcessing'' [PBool] RVoid [OnValue QXmlStreamReader],
     Bind [] ''size'' [] RNumber [OnValue QXmlStreamAttributes],
     Bind [] ''skipCurrentElement'' [] RVoid [OnValue QXmlStreamReader],
     Bind [] ''swap'' [PVariant] RVoid [OnValue ''QVariant''],
     Bind [] ''toString'' [] RString [OnValue QVersionNumber]]"

definition vmeth_qtcore_11_11 :: "binding list" where
  "vmeth_qtcore_11_11 = [
     Bind [] ''tokenString'' [] RString [OnValue QXmlStreamReader],
     Bind [TypeM ''QTCORE_QXMLSTREAMREADER''] ''tokenType'' [] (RMeta ''QXmlStreamReader::TokenType'') [OnValue QXmlStreamReader],
     Bind [] ''typeId'' [] RNumber [OnValue ''QVariant''],
     Bind [] ''unlock'' [] RVoid [OnValue ''QWriteLocker''],
     Bind [] ''userType'' [] RNumber [OnValue ''QVariant''],
     Bind [] ''wakeAll'' [] RVoid [OnValue ''QWaitCondition''],
     Bind [] ''wakeOne'' [] RVoid [OnValue ''QWaitCondition'']]"

definition vtypes_qtcore_11 :: "string list" where
  "vtypes_qtcore_11 = [''QVariant'', QVersionNumber, ''QWaitCondition'', ''QWriteLocker'', QXmlStreamAttribute, QXmlStreamAttributes,
     ''QXmlStreamEntityResolver'', QXmlStreamReader]"

definition vmeth_qtcore_12_0 :: "binding list" where
  "vmeth_qtcore_12_0 = [
     Bind [] ''autoFormatting'' [] RBool [OnValue QXmlStreamWriter],
     Bind [] ''autoFormattingIndent'' [] RNumber [OnValue QXmlStreamWriter],
     Bind [TypeM QTCORE_QIODEVICE] ''device'' [] RObject [OnValue QXmlStreamWriter],
     Bind [TypeM ''QTCORE_QXMLSTREAMWRITER''] ''error'' [] (RMeta ''QXmlStreamWriter::Error'') [OnValue QXmlStreamWriter],
     Bind [] ''errorString'' [] RString [OnValue QXmlStreamWriter],
     Bind [] ''hasError'' [] RBool [OnValue QXmlStreamWriter],
     Bind [] ''setAutoFormatting'' [PBool] RVoid [OnValue QXmlStreamWriter],
     Bind [] ''setAutoFormattingIndent'' [PInt] RVoid [OnValue QXmlStreamWriter]]"

definition vmeth_qtcore_12_1 :: "binding list" where
  "vmeth_qtcore_12_1 = [
     Bind [TypeM QTCORE_QIODEVICE] ''setDevice'' [PNonNull QIODevice_ptr] RVoid [OnValue QXmlStreamWriter],
     Bind [] ''setStopWritingOnError'' [PBool] RVoid [OnValue QXmlStreamWriter],
     Bind [] ''stopWritingOnError'' [] RBool [OnValue QXmlStreamWriter],
     Bind [ValueM QTCORE_QXMLSTREAMATTRIBUTE] ''writeAttribute'' [PConv QXmlStreamAttribute] RVoid [OnValue QXmlStreamWriter],
     Bind [ValueM ''QTCORE_QXMLSTREAMATTRIBUTES''] ''writeAttributes'' [PConv QXmlStreamAttributes] RVoid [OnValue QXmlStreamWriter],
     Bind [ValueM ''QTCORE_QXMLSTREAMREADER''] ''writeCurrentToken'' [PConv QXmlStreamReader] RVoid [OnValue QXmlStreamWriter],
     Bind [] ''writeEndDocument'' [] RVoid [OnValue QXmlStreamWriter]]"

definition vmeth_qtcore_12_2 :: "binding list" where
  "vmeth_qtcore_12_2 = [
     Bind [] ''writeEndElement'' [] RVoid [OnValue QXmlStreamWriter],
     Bind [] ''writeStartDocument'' [] RVoid [OnValue QXmlStreamWriter]]"

definition vtypes_qtcore_12 :: "string list" where
  "vtypes_qtcore_12 = [QXmlStreamWriter]"

definition vmeth_qtcore_2_0 :: "binding list" where
  "vmeth_qtcore_2_0 = [
     Bind [] ''absoluteFilePath'' [PString True] RString [OnValue QDir],
     Bind [] ''absolutePath'' [] RString [OnValue QDir],
     Bind [ValueM QTCORE_QPOINTF] ''addCubicBezierSegment'' [PConv QPointF, PConv QPointF, PConv QPointF] RVoid [OnValue QEasingCurve],
     Bind [ValueM QTCORE_QDATE] ''addDays'' [PWide ''qint64''] (RValue QDate) [OnValue QDate],
     Bind [ValueM QTCORE_QDATETIME] ''addDays'' [PWide ''qint64''] (RValue QDateTime) [OnValue QDateTime],
     Bind [ValueM QTCORE_QDATETIME] ''addMSecs'' [PWide ''qint64''] (RValue QDateTime) [OnValue QDateTime]]"

definition vmeth_qtcore_2_1 :: "binding list" where
  "vmeth_qtcore_2_1 = [
     Bind [ValueM QTCORE_QDATE] ''addMonths'' [PInt] (RValue QDate) [OnValue QDate],
     Bind [ValueM QTCORE_QDATETIME] ''addMonths'' [PInt] (RValue QDateTime) [OnValue QDateTime],
     Bind [ValueM QTCORE_QCALENDAR, ValueM QTCORE_QDATE] ''addMonths'' [PInt, PConv QCalendar] (RValue QDate) [OnValue QDate],
     Bind [ValueM QTCORE_QDATETIME] ''addSecs'' [PWide ''qint64''] (RValue QDateTime) [OnValue QDateTime],
     Bind [ValueM QTCORE_QPOINTF] ''addTCBSegment'' [PConv QPointF, PReal ''qreal'', PReal ''qreal'', PReal ''qreal''] RVoid [OnValue QEasingCurve]]"

definition vmeth_qtcore_2_2 :: "binding list" where
  "vmeth_qtcore_2_2 = [
     Bind [ValueM QTCORE_QDATE] ''addYears'' [PInt] (RValue QDate) [OnValue QDate],
     Bind [ValueM QTCORE_QDATETIME] ''addYears'' [PInt] (RValue QDateTime) [OnValue QDateTime],
     Bind [ValueM QTCORE_QCALENDAR, ValueM QTCORE_QDATE] ''addYears'' [PInt, PConv QCalendar] (RValue QDate) [OnValue QDate],
     Bind [] ''amplitude'' [] RNumber [OnValue QEasingCurve],
     Bind [] ''canonicalPath'' [] RString [OnValue QDir],
     Bind [] ''cd'' [PString True] RBool [OnValue QDir],
     Bind [] ''cdUp'' [] RBool [OnValue QDir]]"

definition vmeth_qtcore_2_3 :: "binding list" where
  "vmeth_qtcore_2_3 = [
     Bind [ValueM QTCORE_QDATE] ''date'' [] (RValue QDate) [OnValue QDateTime],
     Bind [] ''day'' [] RNumber [OnValue QDate],
     Bind [ValueM QTCORE_QCALENDAR] ''day'' [PConv QCalendar] RNumber [OnValue QDate],
     Bind [] ''dayOfWeek'' [] RNumber [OnValue QDate],
     Bind [ValueM QTCORE_QCALENDAR] ''dayOfWeek'' [PConv QCalendar] RNumber [OnValue QDate],
     Bind [] ''dayOfYear'' [] RNumber [OnValue QDate],
     Bind [ValueM QTCORE_QCALENDAR] ''dayOfYear'' [PConv QCalendar] RNumber [OnValue QDate]]"

definition vmeth_qtcore_2_4 :: "binding list" where
  "vmeth_qtcore_2_4 = [
     Bind [] ''daysInMonth'' [] RNumber [OnValue QDate],
     Bind [ValueM QTCORE_QCALENDAR] ''daysInMonth'' [PConv QCalendar] RNumber [OnValue QDate],
     Bind [] ''daysInYear'' [] RNumber [OnValue QDate],
     Bind [ValueM QTCORE_QCALENDAR] ''daysInYear'' [PConv QCalendar] RNumber [OnValue QDate],
     Bind [ValueM QTCORE_QDATE] ''daysTo'' [PConv QDate] (RMeta ''qint64'') [OnValue QDate],
     Bind [ValueM QTCORE_QDATETIME] ''daysTo'' [PConv QDateTime] (RMeta ''qint64'') [OnValue QDateTime],
     Bind [] ''deadline'' [] (RMeta ''qint64'') [OnValue QDeadlineTimer]]"

definition vmeth_qtcore_2_5 :: "binding list" where
  "vmeth_qtcore_2_5 = [
     Bind [] ''deadlineNSecs'' [] (RMeta ''qint64'') [OnValue QDeadlineTimer],
     Bind [] ''dirName'' [] RString [OnValue QDir],
     Bind [] ''elapsed'' [] (RMeta ''qint64'') [OnValue QElapsedTimer],
     Bind [ValueM QTCORE_QDATETIME, ValueM QTCORE_QTIMEZONE] ''endOfDay'' [PConv QTimeZone] (RValue QDateTime) [OnValue QDate],
     Bind [EnumM ''QT_TIMESPEC'', ValueM QTCORE_QDATETIME] ''endOfDay'' [PConv ''Qt::TimeSpec'', PInt] (RValue QDateTime) [OnValue QDate],
     Bind [] ''exists'' [] RBool [OnValue QDir],
     Bind [] ''exists'' [PString True] RBool [OnValue QDir]]"

definition vmeth_qtcore_2_6 :: "binding list" where
  "vmeth_qtcore_2_6 = [
     Bind [ValueM ''QTCORE_QFILEINFO''] ''fileInfo'' [] (RValue QFileInfo) [OnValue ''QDirIterator''],
     Bind [] ''fileName'' [] RString [OnValue ''QDirIterator''],
     Bind [] ''filePath'' [] RString [OnValue ''QDirIterator''],
     Bind [] ''filePath'' [PString True] RString [OnValue QDir],
     Bind [TypeM QTCORE_QDIR] ''filter'' [] (RMeta ''QDir::Filters'') [OnValue QDir],
     Bind [] ''hasExpired'' [] RBool [OnValue QDeadlineTimer],
     Bind [] ''hasExpired'' [PWide ''qint64''] RBool [OnValue QElapsedTimer],
     Bind [] ''hasNext'' [] RBool [OnValue ''QDirIterator'']]"

definition vmeth_qtcore_2_7 :: "binding list" where
  "vmeth_qtcore_2_7 = [
     Bind [] ''invalidate'' [] RVoid [OnValue QElapsedTimer],
     Bind [] ''isAbsolute'' [] RBool [OnValue QDir],
     Bind [] ''isDaylightTime'' [] RBool [OnValue QDateTime],
     Bind [TypeM QTCORE_QDIR] ''isEmpty'' [PConv ''QDir::Filters''] RBool [OnValue QDir],
     Bind [] ''isForever'' [] RBool [OnValue QDeadlineTimer],
     Bind [] ''isNull'' [] RBool [OnValue QDate, OnValue QDateTime],
     Bind [] ''isReadable'' [] RBool [OnValue QDir],
     Bind [] ''isRelative'' [] RBool [OnValue QDir]]"

definition vmeth_qtcore_2_8 :: "binding list" where
  "vmeth_qtcore_2_8 = [
     Bind [] ''isRoot'' [] RBool [OnValue QDir],
     Bind [] ''isValid'' [] RBool [OnValue QDate, OnValue QDateTime, OnValue QElapsedTimer],
     Bind [] ''makeAbsolute'' [] RBool [OnValue QDir],
     Bind [] ''mkdir'' [PString True] RBool [OnValue QDir],
     Bind [] ''mkpath'' [PString True] RBool [OnValue QDir],
     Bind [] ''month'' [] RNumber [OnValue QDate],
     Bind [ValueM QTCORE_QCALENDAR] ''month'' [PConv QCalendar] RNumber [OnValue QDate]]"

definition vmeth_qtcore_2_9 :: "binding list" where
  "vmeth_qtcore_2_9 = [
     Bind [] ''msecsSinceReference'' [] (RMeta ''qint64'') [OnValue QElapsedTimer],
     Bind [ValueM QTCORE_QDATETIME] ''msecsTo'' [PConv QDateTime] (RMeta ''qint64'') [OnValue QDateTime],
     Bind [ValueM ''QTCORE_QELAPSEDTIMER''] ''msecsTo'' [PConv QElapsedTimer] (RMeta ''qint64'') [OnValue QElapsedTimer],
     Bind [] ''nameFilters'' [] (RList (IMeta QString)) [OnValue QDir],
     Bind [] ''next'' [] RString [OnValue ''QDirIterator''],
     Bind [ValueM ''QTCORE_QFILEINFO''] ''nextFileInfo'' [] (RValue QFileInfo) [OnValue ''QDirIterator''],
     Bind [] ''nsecsElapsed'' [] (RMeta ''qint64'') [OnValue QElapsedTimer]]"

definition vmeth_qtcore_2_10 :: "binding list" where
  "vmeth_qtcore_2_10 = [
     Bind [] ''offsetFromUtc'' [] RNumber [OnValue QDateTime],
     Bind [] ''overshoot'' [] RNumber [OnValue QEasingCurve],
     Bind [] ''path'' [] RString [OnValue QDir, OnValue ''QDirIterator''],
     Bind [] ''period'' [] RNumber [OnValue QEasingCurve],
     Bind [ValueM QTCORE_QBYTEARRAY] ''propertyName'' [] (RValue QByteArray) [OnValue ''QDynamicPropertyChangeEvent''],
     Bind [] ''refresh'' [] RVoid [OnValue QDir],
     Bind [] ''relativeFilePath'' [PString True] RString [OnValue QDir],
     Bind [] ''remainingTime'' [] (RMeta ''qint64'') [OnValue QDeadlineTimer]]"

definition vmeth_qtcore_2_11 :: "binding list" where
  "vmeth_qtcore_2_11 = [
     Bind [] ''remainingTimeNSecs'' [] (RMeta ''qint64'') [OnValue QDeadlineTimer],
     Bind [] ''remove'' [PString True] RBool [OnValue QDir],
     Bind [] ''removeRecursively'' [] RBool [OnValue QDir],
     Bind [] ''rename'' [PString True, PString True] RBool [OnValue QDir],
     Bind [] ''restart'' [] (RMeta ''qint64'') [OnValue QElapsedTimer],
     Bind [] ''rmdir'' [PString True] RBool [OnValue QDir],
     Bind [] ''rmpath'' [PString True] RBool [OnValue QDir]]"

definition vmeth_qtcore_2_12 :: "binding list" where
  "vmeth_qtcore_2_12 = [
     Bind [ValueM QTCORE_QDATETIME] ''secsTo'' [PConv QDateTime] (RMeta ''qint64'') [OnValue QDateTime],
     Bind [ValueM ''QTCORE_QELAPSEDTIMER''] ''secsTo'' [PConv QElapsedTimer] (RMeta ''qint64'') [OnValue QElapsedTimer],
     Bind [] ''setAmplitude'' [PReal ''qreal''] RVoid [OnValue QEasingCurve],
     Bind [TypeM QTCORE_QDATETIME, ValueM QTCORE_QDATE] ''setDate'' [PConv QDate, PConv ''QDateTime::TransitionResolution''] RVoid [OnValue QDateTime],
     Bind [] ''setDate'' [PInt, PInt, PInt] RBool [OnValue QDate],
     Bind [ValueM QTCORE_QCALENDAR] ''setDate'' [PInt, PInt, PInt, PConv QCalendar] RBool [OnValue QDate]]"

definition vmeth_qtcore_2_13 :: "binding list" where
  "vmeth_qtcore_2_13 = [
     Bind [EnumM ''QT_TIMERTYPE''] ''setDeadline'' [PWide ''qint64'', PConv ''Qt::TimerType''] RVoid [OnValue QDeadlineTimer],
     Bind [TypeM QTCORE_QDIR] ''setFilter'' [PConv ''QDir::Filters''] RVoid [OnValue QDir],
     Bind [] ''setMSecsSinceEpoch'' [PWide ''qint64''] RVoid [OnValue QDateTime],
     Bind [] ''setNameFilters'' [PStringList] RVoid [OnValue QDir],
     Bind [] ''setOffsetFromUtc'' [PInt] RVoid [OnValue QDateTime],
     Bind [] ''setOvershoot'' [PReal ''qreal''] RVoid [OnValue QEasingCurve]]"

definition vmeth_qtcore_2_14 :: "binding list" where
  "vmeth_qtcore_2_14 = [
     Bind [] ''setPath'' [PString True] RVoid [OnValue QDir],
     Bind [] ''setPeriod'' [PReal ''qreal''] RVoid [OnValue QEasingCurve],
     Bind [EnumM ''QT_TIMERTYPE''] ''setPreciseDeadline'' [PWide ''qint64'', PWide ''qint64'', PConv ''Qt::TimerType''] RVoid [OnValue QDeadlineTimer],
     Bind [EnumM ''QT_TIMERTYPE''] ''setPreciseRemainingTime'' [PWide ''qint64'', PWide ''qint64'', PConv ''Qt::TimerType''] RVoid [OnValue QDeadlineTimer],
     Bind [EnumM ''QT_TIMERTYPE''] ''setRemainingTime'' [PWide ''qint64'', PConv ''Qt::TimerType''] RVoid [OnValue QDeadlineTimer],
     Bind [] ''setSecsSinceEpoch'' [PWide ''qint64''] RVoid [OnValue QDateTime]]"

definition vmeth_qtcore_2_15 :: "binding list" where
  "vmeth_qtcore_2_15 = [
     Bind [TypeM QTCORE_QDATETIME, ValueM QTCORE_QTIME] ''setTime'' [PConv QTime, PConv ''QDateTime::TransitionResolution''] RVoid [OnValue QDateTime],
     Bind [EnumM ''QT_TIMESPEC''] ''setTimeSpec'' [PConv ''Qt::TimeSpec''] RVoid [OnValue QDateTime],
     Bind [TypeM QTCORE_QDATETIME, ValueM QTCORE_QTIMEZONE] ''setTimeZone'' [PConv QTimeZone, PConv ''QDateTime::TransitionResolution''] RVoid [OnValue QDateTime],
     Bind [EnumM ''QT_TIMERTYPE''] ''setTimerType'' [PConv ''Qt::TimerType''] RVoid [OnValue QDeadlineTimer],
     Bind [TypeM QTCORE_QEASINGCURVE] ''setType'' [PConv ''QEasingCurve::Type''] RVoid [OnValue QEasingCurve],
     Bind [] ''start'' [] RVoid [OnValue QElapsedTimer]]"

definition vmeth_qtcore_2_16 :: "binding list" where
  "vmeth_qtcore_2_16 = [
     Bind [ValueM QTCORE_QDATETIME, ValueM QTCORE_QTIMEZONE] ''startOfDay'' [PConv QTimeZone] (RValue QDateTime) [OnValue QDate],
     Bind [EnumM ''QT_TIMESPEC'', ValueM QTCORE_QDATETIME] ''startOfDay'' [PConv ''Qt::TimeSpec'', PInt] (RValue QDateTime) [OnValue QDate],
     Bind [ValueM QTCORE_QDATETIME] ''swap'' [PConv QDateTime] RVoid [OnValue QDateTime],
     Bind [ValueM QTCORE_QDEADLINETIMER] ''swap'' [PConv QDeadlineTimer] RVoid [OnValue QDeadlineTimer],
     Bind [ValueM QTCORE_QDIR] ''swap'' [PConv QDir] RVoid [OnValue QDir],
     Bind [ValueM QTCORE_QEASINGCURVE] ''swap'' [PConv QEasingCurve] RVoid [OnValue QEasingCurve]]"

definition vmeth_qtcore_2_17 :: "binding list" where
  "vmeth_qtcore_2_17 = [
     Bind [ValueM QTCORE_QTIME] ''time'' [] (RValue QTime) [OnValue QDateTime],
     Bind [ValueM QTCORE_QTIMEZONE] ''timeRepresentation'' [] (RValue QTimeZone) [OnValue QDateTime],
     Bind [EnumM ''QT_TIMESPEC''] ''timeSpec'' [] (RMeta ''Qt::TimeSpec'') [OnValue QDateTime],
     Bind [ValueM QTCORE_QTIMEZONE] ''timeZone'' [] (RValue QTimeZone) [OnValue QDateTime],
     Bind [] ''timeZoneAbbreviation'' [] RString [OnValue QDateTime],
     Bind [EnumM ''QT_TIMERTYPE''] ''timerType'' [] (RMeta ''Qt::TimerType'') [OnValue QDeadlineTimer],
     Bind [ValueM QTCORE_QPOINTF] ''toCubicSpline'' [] (RList (IValue QPointF)) [OnValue QEasingCurve]]"

definition vmeth_qtcore_2_18 :: "binding list" where
  "vmeth_qtcore_2_18 = [
     Bind [] ''toJulianDay'' [] (RMeta ''qint64'') [OnValue QDate],
     Bind [ValueM QTCORE_QDATETIME] ''toLocalTime'' [] (RValue QDateTime) [OnValue QDateTime],
     Bind [] ''toMSecsSinceEpoch'' [] (RMeta ''qint64'') [OnValue QDateTime],
     Bind [ValueM QTCORE_QDATETIME] ''toOffsetFromUtc'' [PInt] (RValue QDateTime) [OnValue QDateTime],
     Bind [] ''toSecsSinceEpoch'' [] (RMeta ''qint64'') [OnValue QDateTime],
     Bind [ValueM QTCORE_QCALENDAR] ''toString'' [PString True, PConv QCalendar] RString [OnValue QDate, OnValue QDateTime]]"

definition vmeth_qtcore_2_19 :: "binding list" where
  "vmeth_qtcore_2_19 = [
     Bind [EnumM ''QT_DATEFORMAT''] ''toString'' [PConv ''Qt::DateFormat''] RString [OnValue QDate, OnValue QDateTime],
     Bind [EnumM ''QT_TIMESPEC'', ValueM QTCORE_QDATETIME] ''toTimeSpec'' [PConv ''Qt::TimeSpec''] (RValue QDateTime) [OnValue QDateTime],
     Bind [ValueM QTCORE_QDATETIME, ValueM QTCORE_QTIMEZONE] ''toTimeZone'' [PConv QTimeZone] (RValue QDateTime) [OnValue QDateTime],
     Bind [ValueM QTCORE_QDATETIME] ''toUTC'' [] (RValue QDateTime) [OnValue QDateTime],
     Bind [TypeM QTCORE_QEASINGCURVE] ''type'' [] (RMeta ''QEasingCurve::Type'') [OnValue QEasingCurve],
     Bind [] ''valueForProgress'' [PReal ''qreal''] RNumber [OnValue QEasingCurve]]"

definition vmeth_qtcore_2_20 :: "binding list" where
  "vmeth_qtcore_2_20 = [
     Bind [] ''year'' [] RNumber [OnValue QDate],
     Bind [ValueM QTCORE_QCALENDAR] ''year'' [PConv QCalendar] RNumber [OnValue QDate]]"

definition vtypes_qtcore_2 :: "string list" where
  "vtypes_qtcore_2 = [QDate, QDateTime, QDeadlineTimer, QDir, ''QDirIterator'', ''QDynamicPropertyChangeEvent'', QEasingCurve, QElapsedTimer]"

definition vmeth_qtcore_3_0 :: "binding list" where
  "vmeth_qtcore_3_0 = [
     Bind [ValueM QTCORE_QDIR] ''absoluteDir'' [] (RValue QDir) [OnValue QFileInfo],
     Bind [] ''absoluteFilePath'' [] RString [OnValue QFileInfo],
     Bind [] ''absolutePath'' [] RString [OnValue QFileInfo],
     Bind [] ''accept'' [] RVoid [OnValue ''QEvent''],
     Bind [ValueM QTCORE_QITEMSELECTIONRANGE] ''append'' [PConv QItemSelectionRange] RVoid [OnValue QItemSelection],
     Bind [] ''baseName'' [] RString [OnValue QFileInfo],
     Bind [ValueM QTCORE_QDATETIME] ''birthTime'' [] (RValue QDateTime) [OnValue QFileInfo]]"

definition vmeth_qtcore_3_1 :: "binding list" where
  "vmeth_qtcore_3_1 = [
     Bind [ValueM QTCORE_QDATETIME, ValueM QTCORE_QTIMEZONE] ''birthTime'' [PConv QTimeZone] (RValue QDateTime) [OnValue QFileInfo],
     Bind [] ''bottom'' [] RNumber [OnValue QItemSelectionRange],
     Bind [ValueM ''QTCORE_QPERSISTENTMODELINDEX''] ''bottomRight'' [] (RValue QPersistentModelIndex) [OnValue QItemSelectionRange],
     Bind [] ''bundleName'' [] RString [OnValue QFileInfo],
     Bind [] ''caching'' [] RBool [OnValue QFileInfo],
     Bind [] ''canonicalFilePath'' [] RString [OnValue QFileInfo],
     Bind [] ''canonicalPath'' [] RString [OnValue QFileInfo],
     Bind [] ''clear'' [] RVoid [OnValue QItemSelection]]"

definition vmeth_qtcore_3_2 :: "binding list" where
  "vmeth_qtcore_3_2 = [
     Bind [] ''completeBaseName'' [] RString [OnValue QFileInfo],
     Bind [] ''completeSuffix'' [] RString [OnValue QFileInfo],
     Bind [ValueM QTCORE_QMODELINDEX] ''contains'' [PConv QModelIndex] RBool [OnValue QItemSelection, OnValue QItemSelectionRange],
     Bind [ValueM QTCORE_QMODELINDEX] ''contains'' [PInt, PInt, PConv QModelIndex] RBool [OnValue QItemSelectionRange],
     Bind [] ''count'' [] RNumber [OnValue QItemSelection],
     Bind [ValueM QTCORE_QITEMSELECTIONRANGE] ''count'' [PConv QItemSelectionRange] RNumber [OnValue QItemSelection]]"

definition vmeth_qtcore_3_3 :: "binding list" where
  "vmeth_qtcore_3_3 = [
     Bind [ValueM QTCORE_QDIR] ''dir'' [] (RValue QDir) [OnValue QFileInfo],
     Bind [] ''exists'' [] RBool [OnValue QFileInfo],
     Bind [] ''fileName'' [] RString [OnValue QFileInfo],
     Bind [] ''filePath'' [] RString [OnValue QFileInfo],
     Bind [TypeM ''QTCORE_QFILEDEVICE'', ValueM QTCORE_QDATETIME] ''fileTime'' [PConv ''QFileDevice::FileTime''] (RValue QDateTime) [OnValue QFileInfo],
     Bind [TypeM ''QTCORE_QFILEDEVICE'', ValueM QTCORE_QDATETIME, ValueM QTCORE_QTIMEZONE] ''fileTime'' [PConv ''QFileDevice::FileTime'', PConv QTimeZone] (RValue QDateTime) [OnValue QFileInfo],
     Bind [ValueM QTCORE_QITEMSELECTIONRANGE] ''first'' [] (RValue QItemSelectionRange) [OnValue QItemSelection]]"

definition vmeth_qtcore_3_4 :: "binding list" where
  "vmeth_qtcore_3_4 = [
     Bind [] ''group'' [] RString [OnValue QFileInfo],
     Bind [] ''groupId'' [] RNumber [OnValue QFileInfo],
     Bind [] ''height'' [] RNumber [OnValue QItemSelectionRange],
     Bind [] ''ignore'' [] RVoid [OnValue ''QEvent''],
     Bind [ValueM QTCORE_QITEMSELECTIONRANGE] ''indexOf'' [PConv QItemSelectionRange, PInt] RNumber [OnValue QItemSelection],
     Bind [ValueM QTCORE_QITEMSELECTIONRANGE] ''insert'' [PInt, PConv QItemSelectionRange] RVoid [OnValue QItemSelection],
     Bind [ValueM QTCORE_QITEMSELECTIONRANGE] ''intersected'' [PConv QItemSelectionRange] (RValue QItemSelectionRange) [OnValue QItemSelectionRange]]"

definition vmeth_qtcore_3_5 :: "binding list" where
  "vmeth_qtcore_3_5 = [
     Bind [ValueM QTCORE_QITEMSELECTIONRANGE] ''intersects'' [PConv QItemSelectionRange] RBool [OnValue QItemSelectionRange],
     Bind [] ''isAbsolute'' [] RBool [OnValue QFileInfo],
     Bind [] ''isAccepted'' [] RBool [OnValue ''QEvent''],
     Bind [] ''isAlias'' [] RBool [OnValue QFileInfo],
     Bind [] ''isArray'' [] RBool [OnValue QJsonDocument, OnValue QJsonValue],
     Bind [] ''isBool'' [] RBool [OnValue QJsonValue],
     Bind [] ''isBundle'' [] RBool [OnValue QFileInfo],
     Bind [] ''isDir'' [] RBool [OnValue QFileInfo]]"

definition vmeth_qtcore_3_6 :: "binding list" where
  "vmeth_qtcore_3_6 = [
     Bind [] ''isDouble'' [] RBool [OnValue QJsonValue],
     Bind [] ''isEmpty'' [] RBool [OnValue QItemSelection, OnValue QItemSelectionRange, OnValue QJsonDocument],
     Bind [] ''isExecutable'' [] RBool [OnValue QFileInfo],
     Bind [] ''isFile'' [] RBool [OnValue QFileInfo],
     Bind [] ''isHidden'' [] RBool [OnValue QFileInfo],
     Bind [] ''isInputEvent'' [] RBool [OnValue ''QEvent''],
     Bind [] ''isJunction'' [] RBool [OnValue QFileInfo],
     Bind [] ''isNativePath'' [] RBool [OnValue QFileInfo]]"

definition vmeth_qtcore_3_7 :: "binding list" where
  "vmeth_qtcore_3_7 = [
     Bind [] ''isNull'' [] RBool [OnValue QJsonDocument, OnValue QJsonValue],
     Bind [] ''isObject'' [] RBool [OnValue QJsonDocument, OnValue QJsonValue],
     Bind [] ''isOther'' [] RBool [OnValue QFileInfo],
     Bind [] ''isPointerEvent'' [] RBool [OnValue ''QEvent''],
     Bind [] ''isReadable'' [] RBool [OnValue QFileInfo],
     Bind [] ''isRelative'' [] RBool [OnValue QFileInfo],
     Bind [] ''isRoot'' [] RBool [OnValue QFileInfo],
     Bind [] ''isShortcut'' [] RBool [OnValue QFileInfo]]"

definition vmeth_qtcore_3_8 :: "binding list" where
  "vmeth_qtcore_3_8 = [
     Bind [] ''isSinglePointEvent'' [] RBool [OnValue ''QEvent''],
     Bind [] ''isString'' [] RBool [OnValue QJsonValue],
     Bind [] ''isSymLink'' [] RBool [OnValue QFileInfo],
     Bind [] ''isSymbolicLink'' [] RBool [OnValue QFileInfo],
     Bind [] ''isUndefined'' [] RBool [OnValue QJsonValue],
     Bind [] ''isValid'' [] RBool [OnValue QItemSelectionRange],
     Bind [] ''isWritable'' [] RBool [OnValue QFileInfo],
     Bind [] ''junctionTarget'' [] RString [OnValue QFileInfo]]"

definition vmeth_qtcore_3_9 :: "binding list" where
  "vmeth_qtcore_3_9 = [
     Bind [EnumM ''QT_KEY''] ''key'' [] (RMeta ''Qt::Key'') [OnValue QKeyCombination],
     Bind [ValueM QTCORE_QITEMSELECTIONRANGE] ''last'' [] (RValue QItemSelectionRange) [OnValue QItemSelection],
     Bind [ValueM QTCORE_QITEMSELECTIONRANGE] ''lastIndexOf'' [PConv QItemSelectionRange, PInt] RNumber [OnValue QItemSelection],
     Bind [ValueM QTCORE_QDATETIME] ''lastModified'' [] (RValue QDateTime) [OnValue QFileInfo],
     Bind [ValueM QTCORE_QDATETIME, ValueM QTCORE_QTIMEZONE] ''lastModified'' [PConv QTimeZone] (RValue QDateTime) [OnValue QFileInfo],
     Bind [ValueM QTCORE_QDATETIME] ''lastRead'' [] (RValue QDateTime) [OnValue QFileInfo]]"

definition vmeth_qtcore_3_10 :: "binding list" where
  "vmeth_qtcore_3_10 = [
     Bind [ValueM QTCORE_QDATETIME, ValueM QTCORE_QTIMEZONE] ''lastRead'' [PConv QTimeZone] (RValue QDateTime) [OnValue QFileInfo],
     Bind [] ''left'' [] RNumber [OnValue QItemSelectionRange],
     Bind [] ''makeAbsolute'' [] RBool [OnValue QFileInfo],
     Bind [ValueM QTCORE_QDATETIME] ''metadataChangeTime'' [] (RValue QDateTime) [OnValue QFileInfo],
     Bind [ValueM QTCORE_QDATETIME, ValueM QTCORE_QTIMEZONE] ''metadataChangeTime'' [PConv QTimeZone] (RValue QDateTime) [OnValue QFileInfo],
     Bind [TypeM QTCORE_QABSTRACTITEMMODEL] ''model'' [] RObject [OnValue QItemSelectionRange],
     Bind [] ''move'' [PInt, PInt] RVoid [OnValue QItemSelection]]"

definition vmeth_qtcore_3_11 :: "binding list" where
  "vmeth_qtcore_3_11 = [
     Bind [] ''owner'' [] RString [OnValue QFileInfo],
     Bind [] ''ownerId'' [] RNumber [OnValue QFileInfo],
     Bind [ValueM QTCORE_QMODELINDEX] ''parent'' [] (RValue QModelIndex) [OnValue QItemSelectionRange],
     Bind [] ''path'' [] RString [OnValue QFileInfo],
     Bind [ValueM QTCORE_QITEMSELECTIONRANGE] ''prepend'' [PConv QItemSelectionRange] RVoid [OnValue QItemSelection],
     Bind [] ''readSymLink'' [] RString [OnValue QFileInfo],
     Bind [] ''refresh'' [] RVoid [OnValue QFileInfo]]"

definition vmeth_qtcore_3_12 :: "binding list" where
  "vmeth_qtcore_3_12 = [
     Bind [ValueM QTCORE_QITEMSELECTIONRANGE] ''removeAll'' [PConv QItemSelectionRange] RNumber [OnValue QItemSelection],
     Bind [] ''removeAt'' [PInt] RVoid [OnValue QItemSelection],
     Bind [ValueM QTCORE_QITEMSELECTIONRANGE] ''replace'' [PInt, PConv QItemSelectionRange] RVoid [OnValue QItemSelection],
     Bind [] ''right'' [] RNumber [OnValue QItemSelectionRange],
     Bind [ValueM QTCORE_QMODELINDEX] ''select'' [PConv QModelIndex, PConv QModelIndex] RVoid [OnValue QItemSelection],
     Bind [] ''setAccepted'' [PBool] RVoid [OnValue ''QEvent'']]"

definition vmeth_qtcore_3_13 :: "binding list" where
  "vmeth_qtcore_3_13 = [
     Bind [] ''setCaching'' [PBool] RVoid [OnValue QFileInfo],
     Bind [ValueM QTCORE_QDIR] ''setFile'' [PConv QDir, PString True] RVoid [OnValue QFileInfo],
     Bind [] ''setFile'' [PString True] RVoid [OnValue QFileInfo],
     Bind [] ''size'' [] (RMeta ''qint64'') [OnValue QFileInfo],
     Bind [] ''spontaneous'' [] RBool [OnValue ''QEvent''],
     Bind [] ''stat'' [] RVoid [OnValue QFileInfo],
     Bind [] ''suffix'' [] RString [OnValue QFileInfo]]"

definition vmeth_qtcore_3_14 :: "binding list" where
  "vmeth_qtcore_3_14 = [
     Bind [ValueM ''QTCORE_QEVENTLOOPLOCKER''] ''swap'' [PConv ''QEventLoopLocker''] RVoid [OnValue ''QEventLoopLocker''],
     Bind [ValueM ''QTCORE_QFILEINFO''] ''swap'' [PConv QFileInfo] RVoid [OnValue QFileInfo],
     Bind [ValueM QTCORE_QITEMSELECTIONRANGE] ''swap'' [PConv QItemSelectionRange] RVoid [OnValue QItemSelectionRange],
     Bind [ValueM ''QTCORE_QJSONDOCUMENT''] ''swap'' [PConv QJsonDocument] RVoid [OnValue QJsonDocument],
     Bind [ValueM ''QTCORE_QJSONVALUE''] ''swap'' [PConv QJsonValue] RVoid [OnValue QJsonValue],
     Bind [] ''symLinkTarget'' [] RString [OnValue QFileInfo]]"

definition vmeth_qtcore_3_15 :: "binding list" where
  "vmeth_qtcore_3_15 = [
     Bind [ValueM QTCORE_QITEMSELECTIONRANGE] ''takeAt'' [PInt] (RValue QItemSelectionRange) [OnValue QItemSelection],
     Bind [ValueM QTCORE_QITEMSELECTIONRANGE] ''takeFirst'' [] (RValue QItemSelectionRange) [OnValue QItemSelection],
     Bind [ValueM QTCORE_QITEMSELECTIONRANGE] ''takeLast'' [] (RValue QItemSelectionRange) [OnValue QItemSelection],
     Bind [] ''toBool'' [PBool] RBool [OnValue QJsonValue],
     Bind [] ''toCombined'' [] RNumber [OnValue QKeyCombination],
     Bind [] ''toDouble'' [PReal ''double''] RNumber [OnValue QJsonValue],
     Bind [] ''toInt'' [PInt] RNumber [OnValue QJsonValue]]"

definition vmeth_qtcore_3_16 :: "binding list" where
  "vmeth_qtcore_3_16 = [
     Bind [] ''toInteger'' [PWide ''qint64''] (RMeta ''qint64'') [OnValue QJsonValue],
     Bind [TypeM ''QTCORE_QJSONDOCUMENT'', ValueM QTCORE_QBYTEARRAY] ''toJson'' [PConv ''QJsonDocument::JsonFormat''] (RValue QByteArray) [OnValue QJsonDocument],
     Bind [TypeM ''QTCORE_QJSONVALUE'', ValueM QTCORE_QBYTEARRAY] ''toJson'' [PConv ''QJsonValue::JsonFormat''] (RValue QByteArray) [OnValue QJsonValue],
     Bind [] ''toString'' [] RString [OnValue QJsonValue],
     Bind [] ''toString'' [PString True] RString [OnValue QJsonValue],
     Bind [] ''toVariant'' [] RVariant [OnValue QJsonDocument, OnValue QJsonValue],
     Bind [] ''top'' [] RNumber [OnValue QItemSelectionRange]]"

definition vmeth_qtcore_3_17 :: "binding list" where
  "vmeth_qtcore_3_17 = [
     Bind [ValueM ''QTCORE_QPERSISTENTMODELINDEX''] ''topLeft'' [] (RValue QPersistentModelIndex) [OnValue QItemSelectionRange],
     Bind [TypeM QTCORE_QEVENT] ''type'' [] (RMeta QEvent_Type) [OnValue ''QEvent''],
     Bind [TypeM ''QTCORE_QJSONVALUE''] ''type'' [] (RMeta ''QJsonValue::Type'') [OnValue QJsonValue],
     Bind [] ''width'' [] RNumber [OnValue QItemSelectionRange]]"

definition vtypes_qtcore_3 :: "string list" where
  "vtypes_qtcore_3 = [''QEvent'', ''QEventLoopLocker'', QFileInfo, QItemSelection, QItemSelectionRange, QJsonDocument, QJsonValue,
     QKeyCombination]"

definition vmeth_table_core_a :: "(string \<times> shard) list" where
  "vmeth_table_core_a = [
     (''qtcore_0'', \<lparr>sh_module = ''QtCore'', sh_slug = ''QTCORE'',
        sh_bindings = concat [vmeth_qtcore_0_0, vmeth_qtcore_0_1, vmeth_qtcore_0_2, vmeth_qtcore_0_3, vmeth_qtcore_0_4, vmeth_qtcore_0_5, vmeth_qtcore_0_6, vmeth_qtcore_0_7, vmeth_qtcore_0_8, vmeth_qtcore_0_9, vmeth_qtcore_0_10, vmeth_qtcore_0_11, vmeth_qtcore_0_12, vmeth_qtcore_0_13, vmeth_qtcore_0_14, vmeth_qtcore_0_15, vmeth_qtcore_0_16, vmeth_qtcore_0_17, vmeth_qtcore_0_18, vmeth_qtcore_0_19, vmeth_qtcore_0_20]\<rparr>),
     (''qtcore_1'', \<lparr>sh_module = ''QtCore'', sh_slug = ''QTCORE'',
        sh_bindings = concat [vmeth_qtcore_1_0, vmeth_qtcore_1_1, vmeth_qtcore_1_2, vmeth_qtcore_1_3, vmeth_qtcore_1_4, vmeth_qtcore_1_5, vmeth_qtcore_1_6, vmeth_qtcore_1_7, vmeth_qtcore_1_8, vmeth_qtcore_1_9, vmeth_qtcore_1_10, vmeth_qtcore_1_11]\<rparr>),
     (''qtcore_10'', \<lparr>sh_module = ''QtCore'', sh_slug = ''QTCORE'',
        sh_bindings = concat [vmeth_qtcore_10_0, vmeth_qtcore_10_1, vmeth_qtcore_10_2, vmeth_qtcore_10_3, vmeth_qtcore_10_4, vmeth_qtcore_10_5, vmeth_qtcore_10_6, vmeth_qtcore_10_7, vmeth_qtcore_10_8, vmeth_qtcore_10_9, vmeth_qtcore_10_10, vmeth_qtcore_10_11, vmeth_qtcore_10_12, vmeth_qtcore_10_13, vmeth_qtcore_10_14, vmeth_qtcore_10_15, vmeth_qtcore_10_16]\<rparr>),
     (''qtcore_11'', \<lparr>sh_module = ''QtCore'', sh_slug = ''QTCORE'',
        sh_bindings = concat [vmeth_qtcore_11_0, vmeth_qtcore_11_1, vmeth_qtcore_11_2, vmeth_qtcore_11_3, vmeth_qtcore_11_4, vmeth_qtcore_11_5, vmeth_qtcore_11_6, vmeth_qtcore_11_7, vmeth_qtcore_11_8, vmeth_qtcore_11_9, vmeth_qtcore_11_10, vmeth_qtcore_11_11]\<rparr>),
     (''qtcore_12'', \<lparr>sh_module = ''QtCore'', sh_slug = ''QTCORE'',
        sh_bindings = concat [vmeth_qtcore_12_0, vmeth_qtcore_12_1, vmeth_qtcore_12_2]\<rparr>),
     (''qtcore_2'', \<lparr>sh_module = ''QtCore'', sh_slug = ''QTCORE'',
        sh_bindings = concat [vmeth_qtcore_2_0, vmeth_qtcore_2_1, vmeth_qtcore_2_2, vmeth_qtcore_2_3, vmeth_qtcore_2_4, vmeth_qtcore_2_5, vmeth_qtcore_2_6, vmeth_qtcore_2_7, vmeth_qtcore_2_8, vmeth_qtcore_2_9, vmeth_qtcore_2_10, vmeth_qtcore_2_11, vmeth_qtcore_2_12, vmeth_qtcore_2_13, vmeth_qtcore_2_14, vmeth_qtcore_2_15, vmeth_qtcore_2_16, vmeth_qtcore_2_17, vmeth_qtcore_2_18, vmeth_qtcore_2_19, vmeth_qtcore_2_20]\<rparr>),
     (''qtcore_3'', \<lparr>sh_module = ''QtCore'', sh_slug = ''QTCORE'',
        sh_bindings = concat [vmeth_qtcore_3_0, vmeth_qtcore_3_1, vmeth_qtcore_3_2, vmeth_qtcore_3_3, vmeth_qtcore_3_4, vmeth_qtcore_3_5, vmeth_qtcore_3_6, vmeth_qtcore_3_7, vmeth_qtcore_3_8, vmeth_qtcore_3_9, vmeth_qtcore_3_10, vmeth_qtcore_3_11, vmeth_qtcore_3_12, vmeth_qtcore_3_13, vmeth_qtcore_3_14, vmeth_qtcore_3_15, vmeth_qtcore_3_16, vmeth_qtcore_3_17]\<rparr>)]"

lemmas vmeth_table_core_a_defs =
  vmeth_qtcore_0_0_def vmeth_qtcore_0_1_def vmeth_qtcore_0_2_def vmeth_qtcore_0_3_def vmeth_qtcore_0_4_def
  vmeth_qtcore_0_5_def vmeth_qtcore_0_6_def vmeth_qtcore_0_7_def vmeth_qtcore_0_8_def vmeth_qtcore_0_9_def
  vmeth_qtcore_0_10_def vmeth_qtcore_0_11_def vmeth_qtcore_0_12_def vmeth_qtcore_0_13_def vmeth_qtcore_0_14_def
  vmeth_qtcore_0_15_def vmeth_qtcore_0_16_def vmeth_qtcore_0_17_def vmeth_qtcore_0_18_def vmeth_qtcore_0_19_def
  vmeth_qtcore_0_20_def vmeth_qtcore_1_0_def vmeth_qtcore_1_1_def vmeth_qtcore_1_2_def vmeth_qtcore_1_3_def
  vmeth_qtcore_1_4_def vmeth_qtcore_1_5_def vmeth_qtcore_1_6_def vmeth_qtcore_1_7_def vmeth_qtcore_1_8_def
  vmeth_qtcore_1_9_def vmeth_qtcore_1_10_def vmeth_qtcore_1_11_def vmeth_qtcore_10_0_def vmeth_qtcore_10_1_def
  vmeth_qtcore_10_2_def vmeth_qtcore_10_3_def vmeth_qtcore_10_4_def vmeth_qtcore_10_5_def vmeth_qtcore_10_6_def
  vmeth_qtcore_10_7_def vmeth_qtcore_10_8_def vmeth_qtcore_10_9_def vmeth_qtcore_10_10_def
  vmeth_qtcore_10_11_def vmeth_qtcore_10_12_def vmeth_qtcore_10_13_def vmeth_qtcore_10_14_def
  vmeth_qtcore_10_15_def vmeth_qtcore_10_16_def vmeth_qtcore_11_0_def vmeth_qtcore_11_1_def
  vmeth_qtcore_11_2_def vmeth_qtcore_11_3_def vmeth_qtcore_11_4_def vmeth_qtcore_11_5_def vmeth_qtcore_11_6_def
  vmeth_qtcore_11_7_def vmeth_qtcore_11_8_def vmeth_qtcore_11_9_def vmeth_qtcore_11_10_def
  vmeth_qtcore_11_11_def vmeth_qtcore_12_0_def vmeth_qtcore_12_1_def vmeth_qtcore_12_2_def vmeth_qtcore_2_0_def
  vmeth_qtcore_2_1_def vmeth_qtcore_2_2_def vmeth_qtcore_2_3_def vmeth_qtcore_2_4_def vmeth_qtcore_2_5_def
  vmeth_qtcore_2_6_def vmeth_qtcore_2_7_def vmeth_qtcore_2_8_def vmeth_qtcore_2_9_def vmeth_qtcore_2_10_def
  vmeth_qtcore_2_11_def vmeth_qtcore_2_12_def vmeth_qtcore_2_13_def vmeth_qtcore_2_14_def vmeth_qtcore_2_15_def
  vmeth_qtcore_2_16_def vmeth_qtcore_2_17_def vmeth_qtcore_2_18_def vmeth_qtcore_2_19_def vmeth_qtcore_2_20_def
  vmeth_qtcore_3_0_def vmeth_qtcore_3_1_def vmeth_qtcore_3_2_def vmeth_qtcore_3_3_def vmeth_qtcore_3_4_def
  vmeth_qtcore_3_5_def vmeth_qtcore_3_6_def vmeth_qtcore_3_7_def vmeth_qtcore_3_8_def vmeth_qtcore_3_9_def
  vmeth_qtcore_3_10_def vmeth_qtcore_3_11_def vmeth_qtcore_3_12_def vmeth_qtcore_3_13_def vmeth_qtcore_3_14_def
  vmeth_qtcore_3_15_def vmeth_qtcore_3_16_def vmeth_qtcore_3_17_def

lemma vmeth_table_core_a_value_blocks: "list_all (\<lambda>(s, sh). value_blocks sh) vmeth_table_core_a"
  by (simp add: vmeth_table_core_a_def vmeth_table_core_a_defs value_blocks_def value_shard_def; (simp add: parameter_text_def qt_name_defs)?)

end
