(* ===== verification/Value_Methods_Core_B.thy ===== *)
theory Value_Methods_Core_B
  imports Shard_Methods Qt_Names
begin

text \<open>
  Tables of the value method shards (generated\_value\_methods): the blocks of every shard in the file's order, and the
  classes it can store by value.
\<close>

definition vmeth_qtcore_4_0 :: "binding list" where
  "vmeth_qtcore_4_0 = [
     Bind [TypeM ''QTCORE_QLOCATIONPERMISSION''] ''accuracy'' [] (RMeta ''QLocationPermission::Accuracy'') [OnValue ''QLocationPermission''],
     Bind [] ''amText'' [] RString [OnValue QLocale],
     Bind [] ''angle'' [] RNumber [OnValue QLineF],
     Bind [ValueM ''QTCORE_QLINEF''] ''angleTo'' [PConv QLineF] RNumber [OnValue QLineF],
     Bind [TypeM ''QTCORE_QLOCATIONPERMISSION''] ''availability'' [] (RMeta ''QLocationPermission::Availability'') [OnValue ''QLocationPermission''],
     Bind [TypeM QTCORE_QLOCALE] ''bcp47Name'' [PConv ''QLocale::TagSeparator''] RString [OnValue QLocale],
     Bind [] ''bottom'' [] RNumber [OnValue QMargins],
     Bind [] ''bottom'' [] RNumber [OnValue QMarginsF]]"

definition vmeth_qtcore_4_1 :: "binding list" where
  "vmeth_qtcore_4_1 = [
     Bind [ValueM QTCORE_QPOINT] ''center'' [] (RValue QPoint) [OnValue ''QLine''],
     Bind [ValueM QTCORE_QPOINTF] ''center'' [] (RValue QPointF) [OnValue QLineF],
     Bind [ValueM QTCORE_QLOCALE] ''collation'' [] (RValue QLocale) [OnValue QLocale],
     Bind [TypeM QTCORE_QLOCALE] ''country'' [] (RMeta ''QLocale::Country'') [OnValue QLocale],
     Bind [] ''createSeparatedList'' [PStringList] RString [OnValue QLocale],
     Bind [TypeM QTCORE_QLOCALE] ''currencySymbol'' [PConv ''QLocale::CurrencySymbolFormat''] RString [OnValue QLocale],
     Bind [TypeM QTCORE_QLOCALE] ''dateFormat'' [PConv QLocale_FormatType] RString [OnValue QLocale]]"

definition vmeth_qtcore_4_2 :: "binding list" where
  "vmeth_qtcore_4_2 = [
     Bind [TypeM QTCORE_QLOCALE] ''dateTimeFormat'' [PConv QLocale_FormatType] RString [OnValue QLocale],
     Bind [TypeM QTCORE_QLOCALE] ''dayName'' [PInt, PConv QLocale_FormatType] RString [OnValue QLocale],
     Bind [] ''decimalPoint'' [] RString [OnValue QLocale],
     Bind [] ''dx'' [] RNumber [OnValue ''QLine''],
     Bind [] ''dx'' [] RNumber [OnValue QLineF],
     Bind [] ''dy'' [] RNumber [OnValue ''QLine''],
     Bind [] ''dy'' [] RNumber [OnValue QLineF]]"

definition vmeth_qtcore_4_3 :: "binding list" where
  "vmeth_qtcore_4_3 = [
     Bind [TypeM ''QTCORE_QLOCKFILE''] ''error'' [] (RMeta ''QLockFile::LockError'') [OnValue ''QLockFile''],
     Bind [] ''exponential'' [] RString [OnValue QLocale],
     Bind [] ''fileName'' [] RString [OnValue ''QLockFile''],
     Bind [EnumM ''QT_DAYOFWEEK''] ''firstDayOfWeek'' [] (RMeta ''Qt::DayOfWeek'') [OnValue QLocale],
     Bind [] ''groupSeparator'' [] RString [OnValue QLocale],
     Bind [] ''isCriticalEnabled'' [] RBool [OnValue ''QLoggingCategory''],
     Bind [] ''isDebugEnabled'' [] RBool [OnValue ''QLoggingCategory''],
     Bind [] ''isInfoEnabled'' [] RBool [OnValue ''QLoggingCategory'']]"

definition vmeth_qtcore_4_4 :: "binding list" where
  "vmeth_qtcore_4_4 = [
     Bind [] ''isLocked'' [] RBool [OnValue ''QLockFile''],
     Bind [] ''isNull'' [] RBool [OnValue ''QLine'', OnValue QLineF, OnValue QMargins, OnValue QMarginsF],
     Bind [] ''isWarningEnabled'' [] RBool [OnValue ''QLoggingCategory''],
     Bind [TypeM QTCORE_QLOCALE] ''language'' [] (RMeta ''QLocale::Language'') [OnValue QLocale],
     Bind [] ''left'' [] RNumber [OnValue QMargins],
     Bind [] ''left'' [] RNumber [OnValue QMarginsF],
     Bind [] ''length'' [] RNumber [OnValue QLineF]]"

definition vmeth_qtcore_4_5 :: "binding list" where
  "vmeth_qtcore_4_5 = [
     Bind [] ''lock'' [] RBool [OnValue ''QLockFile''],
     Bind [TypeM QTCORE_QLOCALE] ''measurementSystem'' [] (RMeta ''QLocale::MeasurementSystem'') [OnValue QLocale],
     Bind [TypeM QTCORE_QLOCALE] ''monthName'' [PInt, PConv QLocale_FormatType] RString [OnValue QLocale],
     Bind [TypeM QTCORE_QLOCALE] ''name'' [PConv ''QLocale::TagSeparator''] RString [OnValue QLocale],
     Bind [] ''nativeCountryName'' [] RString [OnValue QLocale],
     Bind [] ''nativeLanguageName'' [] RString [OnValue QLocale],
     Bind [] ''nativeTerritoryName'' [] RString [OnValue QLocale]]"

definition vmeth_qtcore_4_6 :: "binding list" where
  "vmeth_qtcore_4_6 = [
     Bind [] ''negativeSign'' [] RString [OnValue QLocale],
     Bind [ValueM ''QTCORE_QLINEF''] ''normalVector'' [] (RValue QLineF) [OnValue QLineF],
     Bind [ValueM QTCORE_QPOINT] ''p1'' [] (RValue QPoint) [OnValue ''QLine''],
     Bind [ValueM QTCORE_QPOINTF] ''p1'' [] (RValue QPointF) [OnValue QLineF],
     Bind [ValueM QTCORE_QPOINT] ''p2'' [] (RValue QPoint) [OnValue ''QLine''],
     Bind [ValueM QTCORE_QPOINTF] ''p2'' [] (RValue QPointF) [OnValue QLineF],
     Bind [] ''percent'' [] RString [OnValue QLocale]]"

definition vmeth_qtcore_4_7 :: "binding list" where
  "vmeth_qtcore_4_7 = [
     Bind [] ''pmText'' [] RString [OnValue QLocale],
     Bind [ValueM QTCORE_QPOINTF] ''pointAt'' [PReal ''qreal''] (RValue QPointF) [OnValue QLineF],
     Bind [] ''positiveSign'' [] RString [OnValue QLocale],
     Bind [] ''removeStaleLockFile'' [] RBool [OnValue ''QLockFile''],
     Bind [] ''right'' [] RNumber [OnValue QMargins],
     Bind [] ''right'' [] RNumber [OnValue QMarginsF],
     Bind [TypeM QTCORE_QLOCALE] ''script'' [] (RMeta ''QLocale::Script'') [OnValue QLocale],
     Bind [TypeM ''QTCORE_QLOCATIONPERMISSION''] ''setAccuracy'' [PConv ''QLocationPermission::Accuracy''] RVoid [OnValue ''QLocationPermission'']]"

definition vmeth_qtcore_4_8 :: "binding list" where
  "vmeth_qtcore_4_8 = [
     Bind [] ''setAngle'' [PReal ''qreal''] RVoid [OnValue QLineF],
     Bind [TypeM ''QTCORE_QLOCATIONPERMISSION''] ''setAvailability'' [PConv ''QLocationPermission::Availability''] RVoid [OnValue ''QLocationPermission''],
     Bind [] ''setBottom'' [PInt] RVoid [OnValue QMargins],
     Bind [] ''setBottom'' [PReal ''qreal''] RVoid [OnValue QMarginsF],
     Bind [] ''setLeft'' [PInt] RVoid [OnValue QMargins],
     Bind [] ''setLeft'' [PReal ''qreal''] RVoid [OnValue QMarginsF],
     Bind [] ''setLength'' [PReal ''qreal''] RVoid [OnValue QLineF]]"

definition vmeth_qtcore_4_9 :: "binding list" where
  "vmeth_qtcore_4_9 = [
     Bind [] ''setLine'' [PInt, PInt, PInt, PInt] RVoid [OnValue ''QLine''],
     Bind [] ''setLine'' [PReal ''qreal'', PReal ''qreal'', PReal ''qreal'', PReal ''qreal''] RVoid [OnValue QLineF],
     Bind [ValueM QTCORE_QPOINT] ''setP1'' [PConv QPoint] RVoid [OnValue ''QLine''],
     Bind [ValueM QTCORE_QPOINTF] ''setP1'' [PConv QPointF] RVoid [OnValue QLineF],
     Bind [ValueM QTCORE_QPOINT] ''setP2'' [PConv QPoint] RVoid [OnValue ''QLine''],
     Bind [ValueM QTCORE_QPOINTF] ''setP2'' [PConv QPointF] RVoid [OnValue QLineF]]"

definition vmeth_qtcore_4_10 :: "binding list" where
  "vmeth_qtcore_4_10 = [
     Bind [ValueM QTCORE_QPOINT] ''setPoints'' [PConv QPoint, PConv QPoint] RVoid [OnValue ''QLine''],
     Bind [ValueM QTCORE_QPOINTF] ''setPoints'' [PConv QPointF, PConv QPointF] RVoid [OnValue QLineF],
     Bind [] ''setRight'' [PInt] RVoid [OnValue QMargins],
     Bind [] ''setRight'' [PReal ''qreal''] RVoid [OnValue QMarginsF],
     Bind [] ''setStaleLockTime'' [PInt] RVoid [OnValue ''QLockFile''],
     Bind [] ''setTop'' [PInt] RVoid [OnValue QMargins]]"

definition vmeth_qtcore_4_11 :: "binding list" where
  "vmeth_qtcore_4_11 = [
     Bind [] ''setTop'' [PReal ''qreal''] RVoid [OnValue QMarginsF],
     Bind [] ''staleLockTime'' [] RNumber [OnValue ''QLockFile''],
     Bind [TypeM QTCORE_QLOCALE] ''standaloneDayName'' [PInt, PConv QLocale_FormatType] RString [OnValue QLocale],
     Bind [TypeM QTCORE_QLOCALE] ''standaloneMonthName'' [PInt, PConv QLocale_FormatType] RString [OnValue QLocale],
     Bind [ValueM QTCORE_QLOCALE] ''swap'' [PConv QLocale] RVoid [OnValue QLocale],
     Bind [TypeM QTCORE_QLOCALE] ''territory'' [] (RMeta ''QLocale::Territory'') [OnValue QLocale],
     Bind [EnumM QT_LAYOUTDIRECTION] ''textDirection'' [] (RMeta Qt_LayoutDirection) [OnValue QLocale]]"

definition vmeth_qtcore_4_12 :: "binding list" where
  "vmeth_qtcore_4_12 = [
     Bind [TypeM QTCORE_QLOCALE] ''timeFormat'' [PConv QLocale_FormatType] RString [OnValue QLocale],
     Bind [] ''toCurrencyString'' [PReal ''double'', PString True, PInt] RString [OnValue QLocale],
     Bind [TypeM QTCORE_QLOCALE, ValueM QTCORE_QCALENDAR, ValueM QTCORE_QDATE] ''toDate'' [PString True, PConv QLocale_FormatType, PConv QCalendar, PInt] (RValue QDate) [OnValue QLocale],
     Bind [TypeM QTCORE_QLOCALE, ValueM QTCORE_QDATE] ''toDate'' [PString True, PConv QLocale_FormatType, PInt] (RValue QDate) [OnValue QLocale],
     Bind [ValueM QTCORE_QCALENDAR, ValueM QTCORE_QDATE] ''toDate'' [PString True, PString True, PConv QCalendar, PInt] (RValue QDate) [OnValue QLocale]]"

definition vmeth_qtcore_4_13 :: "binding list" where
  "vmeth_qtcore_4_13 = [
     Bind [ValueM QTCORE_QDATE] ''toDate'' [PString True, PString True, PInt] (RValue QDate) [OnValue QLocale],
     Bind [TypeM QTCORE_QLOCALE, ValueM QTCORE_QCALENDAR, ValueM QTCORE_QDATETIME] ''toDateTime'' [PString True, PConv QLocale_FormatType, PConv QCalendar, PInt] (RValue QDateTime) [OnValue QLocale],
     Bind [TypeM QTCORE_QLOCALE, ValueM QTCORE_QDATETIME] ''toDateTime'' [PString True, PConv QLocale_FormatType, PInt] (RValue QDateTime) [OnValue QLocale],
     Bind [ValueM QTCORE_QCALENDAR, ValueM QTCORE_QDATETIME] ''toDateTime'' [PString True, PString True, PConv QCalendar, PInt] (RValue QDateTime) [OnValue QLocale],
     Bind [ValueM QTCORE_QDATETIME] ''toDateTime'' [PString True, PString True, PInt] (RValue QDateTime) [OnValue QLocale]]"

definition vmeth_qtcore_4_14 :: "binding list" where
  "vmeth_qtcore_4_14 = [
     Bind [ValueM ''QTCORE_QLINE''] ''toLine'' [] (RValue ''QLine'') [OnValue QLineF],
     Bind [ValueM ''QTCORE_QLINEF''] ''toLineF'' [] (RValue QLineF) [OnValue ''QLine''],
     Bind [] ''toLower'' [PString True] RString [OnValue QLocale],
     Bind [ValueM QTCORE_QMARGINS] ''toMargins'' [] (RValue QMargins) [OnValue QMarginsF],
     Bind [ValueM QTCORE_QMARGINSF] ''toMarginsF'' [] (RValue QMarginsF) [OnValue QMargins],
     Bind [TypeM QTCORE_QLOCALE, ValueM QTCORE_QDATE] ''toString'' [PConv QDate, PConv QLocale_FormatType] RString [OnValue QLocale]]"

definition vmeth_qtcore_4_15 :: "binding list" where
  "vmeth_qtcore_4_15 = [
     Bind [TypeM QTCORE_QLOCALE, ValueM QTCORE_QCALENDAR, ValueM QTCORE_QDATE] ''toString'' [PConv QDate, PConv QLocale_FormatType, PConv QCalendar] RString [OnValue QLocale],
     Bind [TypeM QTCORE_QLOCALE, ValueM QTCORE_QDATETIME] ''toString'' [PConv QDateTime, PConv QLocale_FormatType] RString [OnValue QLocale],
     Bind [TypeM QTCORE_QLOCALE, ValueM QTCORE_QCALENDAR, ValueM QTCORE_QDATETIME] ''toString'' [PConv QDateTime, PConv QLocale_FormatType, PConv QCalendar] RString [OnValue QLocale],
     Bind [ValueM QTCORE_QDATETIME] ''toString'' [PConv QDateTime, PString True] RString [OnValue QLocale],
     Bind [TypeM QTCORE_QLOCALE, ValueM QTCORE_QTIME] ''toString'' [PConv QTime, PConv QLocale_FormatType] RString [OnValue QLocale]]"

definition vmeth_qtcore_4_16 :: "binding list" where
  "vmeth_qtcore_4_16 = [
     Bind [TypeM QTCORE_QLOCALE, ValueM QTCORE_QTIME] ''toTime'' [PString True, PConv QLocale_FormatType] (RValue QTime) [OnValue QLocale],
     Bind [ValueM QTCORE_QTIME] ''toTime'' [PString True, PString True] (RValue QTime) [OnValue QLocale],
     Bind [] ''toUpper'' [PString True] RString [OnValue QLocale],
     Bind [] ''top'' [] RNumber [OnValue QMargins],
     Bind [] ''top'' [] RNumber [OnValue QMarginsF],
     Bind [ValueM QTCORE_QPOINT] ''translate'' [PConv QPoint] RVoid [OnValue ''QLine''],
     Bind [ValueM QTCORE_QPOINTF] ''translate'' [PConv QPointF] RVoid [OnValue QLineF]]"

definition vmeth_qtcore_4_17 :: "binding list" where
  "vmeth_qtcore_4_17 = [
     Bind [] ''translate'' [PInt, PInt] RVoid [OnValue ''QLine''],
     Bind [] ''translate'' [PReal ''qreal'', PReal ''qreal''] RVoid [OnValue QLineF],
     Bind [ValueM ''QTCORE_QLINE'', ValueM QTCORE_QPOINT] ''translated'' [PConv QPoint] (RValue ''QLine'') [OnValue ''QLine''],
     Bind [ValueM ''QTCORE_QLINEF'', ValueM QTCORE_QPOINTF] ''translated'' [PConv QPointF] (RValue QLineF) [OnValue QLineF],
     Bind [ValueM ''QTCORE_QLINE''] ''translated'' [PInt, PInt] (RValue ''QLine'') [OnValue ''QLine''],
     Bind [ValueM ''QTCORE_QLINEF''] ''translated'' [PReal ''qreal'', PReal ''qreal''] (RValue QLineF) [OnValue QLineF]]"

definition vmeth_qtcore_4_18 :: "binding list" where
  "vmeth_qtcore_4_18 = [
     Bind [] ''tryLock'' [PInt] RBool [OnValue ''QLockFile''],
     Bind [TypeM QTCORE_QLOCALE] ''uiLanguages'' [PConv ''QLocale::TagSeparator''] (RList (IMeta QString)) [OnValue QLocale],
     Bind [ValueM ''QTCORE_QLINEF''] ''unitVector'' [] (RValue QLineF) [OnValue QLineF],
     Bind [] ''unlock'' [] RVoid [OnValue ''QLockFile''],
     Bind [EnumM ''QT_DAYOFWEEK''] ''weekdays'' [] (RList (IMeta ''Qt::DayOfWeek'')) [OnValue QLocale],
     Bind [] ''x1'' [] RNumber [OnValue ''QLine''],
     Bind [] ''x1'' [] RNumber [OnValue QLineF]]"

definition vmeth_qtcore_4_19 :: "binding list" where
  "vmeth_qtcore_4_19 = [
     Bind [] ''x2'' [] RNumber [OnValue ''QLine''],
     Bind [] ''x2'' [] RNumber [OnValue QLineF],
     Bind [] ''y1'' [] RNumber [OnValue ''QLine''],
     Bind [] ''y1'' [] RNumber [OnValue QLineF],
     Bind [] ''y2'' [] RNumber [OnValue ''QLine''],
     Bind [] ''y2'' [] RNumber [OnValue QLineF],
     Bind [] ''zeroDigit'' [] RString [OnValue QLocale]]"

definition vtypes_qtcore_4 :: "string list" where
  "vtypes_qtcore_4 = [''QLine'', QLineF, QLocale, ''QLocationPermission'', ''QLockFile'', ''QLoggingCategory'', QMargins, QMarginsF]"

definition vmeth_qtcore_5_0 :: "binding list" where
  "vmeth_qtcore_5_0 = [
     Bind [TypeM ''QTCORE_QMETAMETHOD''] ''access'' [] (RMeta ''QMetaMethod::Access'') [OnValue QMetaMethod],
     Bind [] ''aliases'' [] (RList (IMeta QString)) [OnValue QMimeType],
     Bind [] ''alignOf'' [] (RMeta ''qsizetype'') [OnValue QMetaType],
     Bind [] ''allAncestors'' [] (RList (IMeta QString)) [OnValue QMimeType],
     Bind [ValueM ''QTCORE_QMIMETYPE''] ''allMimeTypes'' [] (RList (IValue QMimeType)) [OnValue ''QMimeDatabase''],
     Bind [] ''column'' [] RNumber [OnValue QModelIndex],
     Bind [] ''comment'' [] RString [OnValue QMimeType]]"

definition vmeth_qtcore_5_1 :: "binding list" where
  "vmeth_qtcore_5_1 = [
     Bind [] ''data'' [PInt] RVariant [OnValue QModelIndex],
     Bind [ValueM ''QTCORE_QMETAENUM''] ''enumerator'' [] (RValue ''QMetaEnum'') [OnValue QMetaProperty],
     Bind [] ''filterString'' [] RString [OnValue QMimeType],
     Bind [] ''genericIconName'' [] RString [OnValue QMimeType],
     Bind [] ''globPatterns'' [] (RList (IMeta QString)) [OnValue QMimeType],
     Bind [] ''hasNotifySignal'' [] RBool [OnValue QMetaProperty],
     Bind [] ''hasRegisteredDataStreamOperators'' [] RBool [OnValue QMetaType],
     Bind [] ''hasRegisteredDebugStreamOperator'' [] RBool [OnValue QMetaType]]"

definition vmeth_qtcore_5_2 :: "binding list" where
  "vmeth_qtcore_5_2 = [
     Bind [] ''hasStdCppSet'' [] RBool [OnValue QMetaProperty],
     Bind [] ''iconName'' [] RString [OnValue QMimeType],
     Bind [] ''id'' [] RNumber [OnValue QMetaType],
     Bind [] ''inherits'' [PString True] RBool [OnValue QMimeType],
     Bind [] ''is64Bit'' [] RBool [OnValue ''QMetaEnum''],
     Bind [] ''isBindable'' [] RBool [OnValue QMetaProperty],
     Bind [] ''isConst'' [] RBool [OnValue QMetaMethod],
     Bind [] ''isConstant'' [] RBool [OnValue QMetaProperty]]"

definition vmeth_qtcore_5_3 :: "binding list" where
  "vmeth_qtcore_5_3 = [
     Bind [] ''isCopyConstructible'' [] RBool [OnValue QMetaType],
     Bind [] ''isDefault'' [] RBool [OnValue QMimeType],
     Bind [] ''isDefaultConstructible'' [] RBool [OnValue QMetaType],
     Bind [] ''isDesignable'' [] RBool [OnValue QMetaProperty],
     Bind [] ''isDestructible'' [] RBool [OnValue QMetaType],
     Bind [] ''isEnumType'' [] RBool [OnValue QMetaProperty],
     Bind [] ''isEqualityComparable'' [] RBool [OnValue QMetaType],
     Bind [] ''isFinal'' [] RBool [OnValue QMetaProperty]]"

definition vmeth_qtcore_5_4 :: "binding list" where
  "vmeth_qtcore_5_4 = [
     Bind [] ''isFlag'' [] RBool [OnValue ''QMetaEnum''],
     Bind [] ''isFlagType'' [] RBool [OnValue QMetaProperty],
     Bind [] ''isMoveConstructible'' [] RBool [OnValue QMetaType],
     Bind [] ''isOrdered'' [] RBool [OnValue QMetaType],
     Bind [] ''isOverride'' [] RBool [OnValue QMetaProperty],
     Bind [] ''isReadable'' [] RBool [OnValue QMetaProperty],
     Bind [] ''isRegistered'' [] RBool [OnValue QMetaType],
     Bind [] ''isRequired'' [] RBool [OnValue QMetaProperty]]"

definition vmeth_qtcore_5_5 :: "binding list" where
  "vmeth_qtcore_5_5 = [
     Bind [] ''isResettable'' [] RBool [OnValue QMetaProperty],
     Bind [] ''isScoped'' [] RBool [OnValue ''QMetaEnum''],
     Bind [] ''isScriptable'' [] RBool [OnValue QMetaProperty],
     Bind [] ''isStored'' [] RBool [OnValue QMetaProperty],
     Bind [] ''isUser'' [] RBool [OnValue QMetaProperty],
     Bind [] ''isValid'' [] RBool [OnValue ''QMetaEnum'', OnValue QMetaMethod, OnValue QMetaProperty, OnValue QMetaType, OnValue QMimeType, OnValue QModelIndex]]"

definition vmeth_qtcore_5_6 :: "binding list" where
  "vmeth_qtcore_5_6 = [
     Bind [] ''isVirtual'' [] RBool [OnValue QMetaProperty],
     Bind [] ''isWritable'' [] RBool [OnValue QMetaProperty],
     Bind [] ''keyCount'' [] RNumber [OnValue ''QMetaEnum''],
     Bind [ValueM QTCORE_QMETATYPE] ''metaType'' [] (RValue QMetaType) [OnValue ''QMetaEnum'', OnValue QMetaProperty],
     Bind [] ''methodIndex'' [] RNumber [OnValue QMetaMethod],
     Bind [ValueM QTCORE_QBYTEARRAY] ''methodSignature'' [] (RValue QByteArray) [OnValue QMetaMethod],
     Bind [TypeM ''QTCORE_QMETAMETHOD''] ''methodType'' [] (RMeta ''QMetaMethod::MethodType'') [OnValue QMetaMethod]]"

definition vmeth_qtcore_5_7 :: "binding list" where
  "vmeth_qtcore_5_7 = [
     Bind [ValueM QTCORE_QBYTEARRAY, ValueM ''QTCORE_QMIMETYPE''] ''mimeTypeForData'' [PConv QByteArray] (RValue QMimeType) [OnValue ''QMimeDatabase''],
     Bind [TypeM QTCORE_QIODEVICE, ValueM ''QTCORE_QMIMETYPE''] ''mimeTypeForData'' [PNonNull QIODevice_ptr] (RValue QMimeType) [OnValue ''QMimeDatabase''],
     Bind [TypeM ''QTCORE_QMIMEDATABASE'', ValueM ''QTCORE_QFILEINFO'', ValueM ''QTCORE_QMIMETYPE''] ''mimeTypeForFile'' [PConv QFileInfo, PConv ''QMimeDatabase::MatchMode''] (RValue QMimeType) [OnValue ''QMimeDatabase''],
     Bind [TypeM ''QTCORE_QMIMEDATABASE'', ValueM ''QTCORE_QMIMETYPE''] ''mimeTypeForFile'' [PString True, PConv ''QMimeDatabase::MatchMode''] (RValue QMimeType) [OnValue ''QMimeDatabase''],
     Bind [ValueM QTCORE_QBYTEARRAY, ValueM ''QTCORE_QMIMETYPE''] ''mimeTypeForFileNameAndData'' [PString True, PConv QByteArray] (RValue QMimeType) [OnValue ''QMimeDatabase'']]"

definition vmeth_qtcore_5_8 :: "binding list" where
  "vmeth_qtcore_5_8 = [
     Bind [TypeM QTCORE_QIODEVICE, ValueM ''QTCORE_QMIMETYPE''] ''mimeTypeForFileNameAndData'' [PString True, PNonNull QIODevice_ptr] (RValue QMimeType) [OnValue ''QMimeDatabase''],
     Bind [ValueM ''QTCORE_QMIMETYPE''] ''mimeTypeForName'' [PString True] (RValue QMimeType) [OnValue ''QMimeDatabase''],
     Bind [ValueM ''QTCORE_QMIMETYPE'', ValueM QTCORE_QURL] ''mimeTypeForUrl'' [PConv QUrl] (RValue QMimeType) [OnValue ''QMimeDatabase''],
     Bind [ValueM ''QTCORE_QMIMETYPE''] ''mimeTypesForFileName'' [PString True] (RList (IValue QMimeType)) [OnValue ''QMimeDatabase''],
     Bind [TypeM QTCORE_QABSTRACTITEMMODEL] ''model'' [] RObject [OnValue QModelIndex],
     Bind [ValueM QTCORE_QBYTEARRAY] ''name'' [] (RValue QByteArray) [OnValue QMetaMethod]]"

definition vmeth_qtcore_5_9 :: "binding list" where
  "vmeth_qtcore_5_9 = [
     Bind [] ''name'' [] RString [OnValue QMimeType],
     Bind [ValueM ''QTCORE_QMETAMETHOD''] ''notifySignal'' [] (RValue QMetaMethod) [OnValue QMetaProperty],
     Bind [] ''notifySignalIndex'' [] RNumber [OnValue QMetaProperty],
     Bind [] ''parameterCount'' [] RNumber [OnValue QMetaMethod],
     Bind [ValueM QTCORE_QMETATYPE] ''parameterMetaType'' [PInt] (RValue QMetaType) [OnValue QMetaMethod],
     Bind [ValueM QTCORE_QBYTEARRAY] ''parameterNames'' [] (RList (IValue QByteArray)) [OnValue QMetaMethod],
     Bind [] ''parameterType'' [PInt] RNumber [OnValue QMetaMethod]]"

definition vmeth_qtcore_5_10 :: "binding list" where
  "vmeth_qtcore_5_10 = [
     Bind [ValueM QTCORE_QBYTEARRAY] ''parameterTypeName'' [PInt] (RValue QByteArray) [OnValue QMetaMethod],
     Bind [ValueM QTCORE_QBYTEARRAY] ''parameterTypes'' [] (RList (IValue QByteArray)) [OnValue QMetaMethod],
     Bind [ValueM QTCORE_QMODELINDEX] ''parent'' [] (RValue QModelIndex) [OnValue QModelIndex],
     Bind [] ''parentMimeTypes'' [] (RList (IMeta QString)) [OnValue QMimeType],
     Bind [] ''preferredSuffix'' [] RString [OnValue QMimeType],
     Bind [] ''propertyIndex'' [] RNumber [OnValue QMetaProperty],
     Bind [] ''registerType'' [] RVoid [OnValue QMetaType]]"

definition vmeth_qtcore_5_11 :: "binding list" where
  "vmeth_qtcore_5_11 = [
     Bind [] ''relativeMethodIndex'' [] RNumber [OnValue QMetaMethod],
     Bind [] ''relativePropertyIndex'' [] RNumber [OnValue QMetaProperty],
     Bind [] ''reset'' [] RVoid [OnValue ''QMessageAuthenticationCode''],
     Bind [TypeM QTCORE_QOBJECT] ''reset'' [PNonNull QObject_ptr] RBool [OnValue QMetaProperty],
     Bind [ValueM QTCORE_QBYTEARRAY] ''result'' [] (RValue QByteArray) [OnValue ''QMessageAuthenticationCode''],
     Bind [ValueM QTCORE_QMETATYPE] ''returnMetaType'' [] (RValue QMetaType) [OnValue QMetaMethod],
     Bind [] ''returnType'' [] RNumber [OnValue QMetaMethod]]"

definition vmeth_qtcore_5_12 :: "binding list" where
  "vmeth_qtcore_5_12 = [
     Bind [] ''revision'' [] RNumber [OnValue QMetaMethod, OnValue QMetaProperty],
     Bind [] ''row'' [] RNumber [OnValue QModelIndex],
     Bind [ValueM QTCORE_QMODELINDEX] ''sibling'' [PInt, PInt] (RValue QModelIndex) [OnValue QModelIndex],
     Bind [ValueM QTCORE_QMODELINDEX] ''siblingAtColumn'' [PInt] (RValue QModelIndex) [OnValue QModelIndex],
     Bind [ValueM QTCORE_QMODELINDEX] ''siblingAtRow'' [PInt] (RValue QModelIndex) [OnValue QModelIndex],
     Bind [] ''sizeOf'' [] (RMeta ''qsizetype'') [OnValue QMetaType]]"

definition vmeth_qtcore_5_13 :: "binding list" where
  "vmeth_qtcore_5_13 = [
     Bind [] ''suffixForFileName'' [PString True] RString [OnValue ''QMimeDatabase''],
     Bind [] ''suffixes'' [] (RList (IMeta QString)) [OnValue QMimeType],
     Bind [ValueM ''QTCORE_QMESSAGEAUTHENTICATIONCODE''] ''swap'' [PConv ''QMessageAuthenticationCode''] RVoid [OnValue ''QMessageAuthenticationCode''],
     Bind [ValueM ''QTCORE_QMIMETYPE''] ''swap'' [PConv QMimeType] RVoid [OnValue QMimeType],
     Bind [] ''typeId'' [] RNumber [OnValue QMetaProperty],
     Bind [ValueM QTCORE_QMETATYPE] ''underlyingType'' [] (RValue QMetaType) [OnValue QMetaType],
     Bind [] ''userType'' [] RNumber [OnValue QMetaProperty]]"

definition vmeth_qtcore_5_14 :: "binding list" where
  "vmeth_qtcore_5_14 = [
     Bind [] ''value'' [PInt] RNumber [OnValue ''QMetaEnum''],
     Bind [ValueM QTCORE_QBYTEARRAY] ''valueToKeys'' [PWide ''quint64''] (RValue QByteArray) [OnValue ''QMetaEnum'']]"

definition vtypes_qtcore_5 :: "string list" where
  "vtypes_qtcore_5 = [''QMessageAuthenticationCode'', ''QMetaEnum'', QMetaMethod, QMetaProperty, QMetaType, ''QMimeDatabase'', QMimeType,
     QModelIndex]"

definition vmeth_qtcore_6_0 :: "binding list" where
  "vmeth_qtcore_6_0 = [
     Bind [] ''clearData'' [] RVoid [OnValue ''QModelRoleData''],
     Bind [] ''column'' [] RNumber [OnValue QPersistentModelIndex],
     Bind [] ''data'' [] RVariant [OnValue ''QModelRoleData''],
     Bind [] ''data'' [PInt] RVariant [OnValue QPersistentModelIndex],
     Bind [] ''isEmpty'' [] RBool [OnValue QNativeIpcKey],
     Bind [] ''isValid'' [] RBool [OnValue QNativeIpcKey, OnValue QPersistentModelIndex],
     Bind [] ''length'' [] (RMeta ''qsizetype'') [OnValue ''QModelRoleDataSpan''],
     Bind [] ''lock'' [] RVoid [OnValue ''QMutex'']]"

definition vmeth_qtcore_6_1 :: "binding list" where
  "vmeth_qtcore_6_1 = [
     Bind [] ''majorVersion'' [] RNumber [OnValue ''QOperatingSystemVersionBase''],
     Bind [] ''microVersion'' [] RNumber [OnValue ''QOperatingSystemVersionBase''],
     Bind [] ''minorVersion'' [] RNumber [OnValue ''QOperatingSystemVersionBase''],
     Bind [TypeM QTCORE_QABSTRACTITEMMODEL] ''model'' [] RObject [OnValue QPersistentModelIndex],
     Bind [] ''name'' [] RString [OnValue ''QOperatingSystemVersionBase''],
     Bind [] ''nativeKey'' [] RString [OnValue QNativeIpcKey],
     Bind [ValueM QTCORE_QMODELINDEX] ''parent'' [] (RValue QModelIndex) [OnValue QPersistentModelIndex],
     Bind [] ''role'' [] RNumber [OnValue ''QModelRoleData'']]"

definition vmeth_qtcore_6_2 :: "binding list" where
  "vmeth_qtcore_6_2 = [
     Bind [] ''row'' [] RNumber [OnValue QPersistentModelIndex],
     Bind [] ''segmentCount'' [] RNumber [OnValue ''QOperatingSystemVersionBase''],
     Bind [] ''setData'' [PVariant] RVoid [OnValue ''QModelRoleData''],
     Bind [] ''setNativeKey'' [PString True] RVoid [OnValue QNativeIpcKey],
     Bind [TypeM QTCORE_QNATIVEIPCKEY] ''setType'' [PConv ''QNativeIpcKey::Type''] RVoid [OnValue QNativeIpcKey],
     Bind [ValueM QTCORE_QMODELINDEX] ''sibling'' [PInt, PInt] (RValue QModelIndex) [OnValue QPersistentModelIndex],
     Bind [] ''size'' [] (RMeta ''qsizetype'') [OnValue ''QModelRoleDataSpan'']]"

definition vmeth_qtcore_6_3 :: "binding list" where
  "vmeth_qtcore_6_3 = [
     Bind [EnumM ''QT_PERMISSIONSTATUS''] ''status'' [] (RMeta ''Qt::PermissionStatus'') [OnValue ''QPermission''],
     Bind [ValueM QTCORE_QNATIVEIPCKEY] ''swap'' [PConv QNativeIpcKey] RVoid [OnValue QNativeIpcKey],
     Bind [ValueM ''QTCORE_QPERSISTENTMODELINDEX''] ''swap'' [PConv QPersistentModelIndex] RVoid [OnValue QPersistentModelIndex],
     Bind [] ''toString'' [] RString [OnValue QNativeIpcKey],
     Bind [] ''tryLock'' [] RBool [OnValue ''QMutex''],
     Bind [ValueM QTCORE_QDEADLINETIMER] ''tryLock'' [PConv QDeadlineTimer] RBool [OnValue ''QMutex''],
     Bind [] ''tryLock'' [PInt] RBool [OnValue ''QMutex'']]"

definition vmeth_qtcore_6_4 :: "binding list" where
  "vmeth_qtcore_6_4 = [
     Bind [ValueM QTCORE_QMETATYPE] ''type'' [] (RValue QMetaType) [OnValue ''QPermission''],
     Bind [TypeM QTCORE_QNATIVEIPCKEY] ''type'' [] (RMeta ''QNativeIpcKey::Type'') [OnValue QNativeIpcKey],
     Bind [TypeM ''QTCORE_QOPERATINGSYSTEMVERSION''] ''type'' [] (RMeta ''QOperatingSystemVersion::OSType'') [OnValue QOperatingSystemVersion],
     Bind [] ''unlock'' [] RVoid [OnValue ''QMutex''],
     Bind [ValueM ''QTCORE_QVERSIONNUMBER''] ''version'' [] (RValue QVersionNumber) [OnValue ''QOperatingSystemVersionBase'']]"

definition vtypes_qtcore_6 :: "string list" where
  "vtypes_qtcore_6 = [''QModelRoleData'', ''QModelRoleDataSpan'', ''QMutex'', QNativeIpcKey, QOperatingSystemVersion,
     ''QOperatingSystemVersionBase'', ''QPermission'', QPersistentModelIndex]"

definition vmeth_qtcore_7_0 :: "binding list" where
  "vmeth_qtcore_7_0 = [
     Bind [] ''adjust'' [PInt, PInt, PInt, PInt] RVoid [OnValue QRect],
     Bind [] ''adjust'' [PReal ''qreal'', PReal ''qreal'', PReal ''qreal'', PReal ''qreal''] RVoid [OnValue QRectF],
     Bind [ValueM QTCORE_QRECT] ''adjusted'' [PInt, PInt, PInt, PInt] (RValue QRect) [OnValue QRect],
     Bind [ValueM QTCORE_QRECTF] ''adjusted'' [PReal ''qreal'', PReal ''qreal'', PReal ''qreal'', PReal ''qreal''] (RValue QRectF) [OnValue QRectF],
     Bind [] ''bottom'' [] RNumber [OnValue QRect]]"

definition vmeth_qtcore_7_1 :: "binding list" where
  "vmeth_qtcore_7_1 = [
     Bind [] ''bottom'' [] RNumber [OnValue QRectF],
     Bind [ValueM QTCORE_QPOINT] ''bottomLeft'' [] (RValue QPoint) [OnValue QRect],
     Bind [ValueM QTCORE_QPOINTF] ''bottomLeft'' [] (RValue QPointF) [OnValue QRectF],
     Bind [ValueM QTCORE_QPOINT] ''bottomRight'' [] (RValue QPoint) [OnValue QRect],
     Bind [ValueM QTCORE_QPOINTF] ''bottomRight'' [] (RValue QPointF) [OnValue QRectF],
     Bind [] ''bounded'' [PReal ''double''] RNumber [OnValue ''QRandomGenerator''],
     Bind [] ''bounded'' [PWide ''qint64''] (RMeta ''qint64'') [OnValue ''QRandomGenerator'']]"

definition vmeth_qtcore_7_2 :: "binding list" where
  "vmeth_qtcore_7_2 = [
     Bind [] ''bounded'' [PWide ''qint64'', PWide ''qint64''] (RMeta ''qint64'') [OnValue ''QRandomGenerator''],
     Bind [ValueM QTCORE_QPOINT] ''center'' [] (RValue QPoint) [OnValue QRect],
     Bind [ValueM QTCORE_QPOINTF] ''center'' [] (RValue QPointF) [OnValue QRectF],
     Bind [] ''clear'' [] RVoid [OnValue QProcessEnvironment],
     Bind [ValueM QTCORE_QPOINT] ''contains'' [PConv QPoint, PBool] RBool [OnValue QRect],
     Bind [ValueM QTCORE_QPOINTF] ''contains'' [PConv QPointF] RBool [OnValue QRectF]]"

definition vmeth_qtcore_7_3 :: "binding list" where
  "vmeth_qtcore_7_3 = [
     Bind [ValueM QTCORE_QRECT] ''contains'' [PConv QRect, PBool] RBool [OnValue QRect],
     Bind [ValueM QTCORE_QRECTF] ''contains'' [PConv QRectF] RBool [OnValue QRectF],
     Bind [] ''contains'' [PString True] RBool [OnValue QProcessEnvironment],
     Bind [] ''contains'' [PInt, PInt] RBool [OnValue QRect],
     Bind [] ''contains'' [PInt, PInt, PBool] RBool [OnValue QRect],
     Bind [] ''contains'' [PReal ''qreal'', PReal ''qreal''] RBool [OnValue QRectF]]"

definition vmeth_qtcore_7_4 :: "binding list" where
  "vmeth_qtcore_7_4 = [
     Bind [] ''discard'' [PWide ''quint64''] RVoid [OnValue ''QRandomGenerator''],
     Bind [] ''generate64'' [] (RMeta ''quint64'') [OnValue ''QRandomGenerator''],
     Bind [] ''generateDouble'' [] RNumber [OnValue ''QRandomGenerator''],
     Bind [] ''height'' [] RNumber [OnValue QRect],
     Bind [] ''height'' [] RNumber [OnValue QRectF],
     Bind [] ''inheritsFromParent'' [] RBool [OnValue QProcessEnvironment],
     Bind [ValueM ''QTCORE_QPROCESSENVIRONMENT''] ''insert'' [PConv QProcessEnvironment] RVoid [OnValue QProcessEnvironment]]"

definition vmeth_qtcore_7_5 :: "binding list" where
  "vmeth_qtcore_7_5 = [
     Bind [] ''insert'' [PString True, PString True] RVoid [OnValue QProcessEnvironment],
     Bind [ValueM QTCORE_QRECT] ''intersected'' [PConv QRect] (RValue QRect) [OnValue QRect],
     Bind [ValueM QTCORE_QRECTF] ''intersected'' [PConv QRectF] (RValue QRectF) [OnValue QRectF],
     Bind [ValueM QTCORE_QRECT] ''intersects'' [PConv QRect] RBool [OnValue QRect],
     Bind [ValueM QTCORE_QRECTF] ''intersects'' [PConv QRectF] RBool [OnValue QRectF],
     Bind [] ''isEmpty'' [] RBool [OnValue QProcessEnvironment, OnValue QRect, OnValue QRectF]]"

definition vmeth_qtcore_7_6 :: "binding list" where
  "vmeth_qtcore_7_6 = [
     Bind [] ''isNull'' [] RBool [OnValue QPoint, OnValue QPointF, OnValue QRect, OnValue QRectF],
     Bind [] ''isValid'' [] RBool [OnValue QRect, OnValue QRectF],
     Bind [] ''keys'' [] (RList (IMeta QString)) [OnValue QProcessEnvironment],
     Bind [] ''left'' [] RNumber [OnValue QRect],
     Bind [] ''left'' [] RNumber [OnValue QRectF],
     Bind [] ''lockForRead'' [] RVoid [OnValue ''QReadWriteLock'']]"

definition vmeth_qtcore_7_7 :: "binding list" where
  "vmeth_qtcore_7_7 = [
     Bind [] ''lockForWrite'' [] RVoid [OnValue ''QReadWriteLock''],
     Bind [] ''manhattanLength'' [] RNumber [OnValue QPoint],
     Bind [] ''manhattanLength'' [] RNumber [OnValue QPointF],
     Bind [ValueM QTCORE_QMARGINS, ValueM QTCORE_QRECT] ''marginsAdded'' [PConv QMargins] (RValue QRect) [OnValue QRect],
     Bind [ValueM QTCORE_QMARGINSF, ValueM QTCORE_QRECTF] ''marginsAdded'' [PConv QMarginsF] (RValue QRectF) [OnValue QRectF],
     Bind [ValueM QTCORE_QMARGINS, ValueM QTCORE_QRECT] ''marginsRemoved'' [PConv QMargins] (RValue QRect) [OnValue QRect],
     Bind [ValueM QTCORE_QMARGINSF, ValueM QTCORE_QRECTF] ''marginsRemoved'' [PConv QMarginsF] (RValue QRectF) [OnValue QRectF]]"

definition vmeth_qtcore_7_8 :: "binding list" where
  "vmeth_qtcore_7_8 = [
     Bind [] ''moveBottom'' [PInt] RVoid [OnValue QRect],
     Bind [] ''moveBottom'' [PReal ''qreal''] RVoid [OnValue QRectF],
     Bind [ValueM QTCORE_QPOINT] ''moveBottomLeft'' [PConv QPoint] RVoid [OnValue QRect],
     Bind [ValueM QTCORE_QPOINTF] ''moveBottomLeft'' [PConv QPointF] RVoid [OnValue QRectF],
     Bind [ValueM QTCORE_QPOINT] ''moveBottomRight'' [PConv QPoint] RVoid [OnValue QRect],
     Bind [ValueM QTCORE_QPOINTF] ''moveBottomRight'' [PConv QPointF] RVoid [OnValue QRectF]]"

definition vmeth_qtcore_7_9 :: "binding list" where
  "vmeth_qtcore_7_9 = [
     Bind [ValueM QTCORE_QPOINT] ''moveCenter'' [PConv QPoint] RVoid [OnValue QRect],
     Bind [ValueM QTCORE_QPOINTF] ''moveCenter'' [PConv QPointF] RVoid [OnValue QRectF],
     Bind [] ''moveLeft'' [PInt] RVoid [OnValue QRect],
     Bind [] ''moveLeft'' [PReal ''qreal''] RVoid [OnValue QRectF],
     Bind [] ''moveRight'' [PInt] RVoid [OnValue QRect],
     Bind [] ''moveRight'' [PReal ''qreal''] RVoid [OnValue QRectF]]"

definition vmeth_qtcore_7_10 :: "binding list" where
  "vmeth_qtcore_7_10 = [
     Bind [ValueM QTCORE_QPOINT] ''moveTo'' [PConv QPoint] RVoid [OnValue QRect],
     Bind [ValueM QTCORE_QPOINTF] ''moveTo'' [PConv QPointF] RVoid [OnValue QRectF],
     Bind [] ''moveTo'' [PInt, PInt] RVoid [OnValue QRect],
     Bind [] ''moveTo'' [PReal ''qreal'', PReal ''qreal''] RVoid [OnValue QRectF],
     Bind [] ''moveTop'' [PInt] RVoid [OnValue QRect],
     Bind [] ''moveTop'' [PReal ''qreal''] RVoid [OnValue QRectF]]"

definition vmeth_qtcore_7_11 :: "binding list" where
  "vmeth_qtcore_7_11 = [
     Bind [ValueM QTCORE_QPOINT] ''moveTopLeft'' [PConv QPoint] RVoid [OnValue QRect],
     Bind [ValueM QTCORE_QPOINTF] ''moveTopLeft'' [PConv QPointF] RVoid [OnValue QRectF],
     Bind [ValueM QTCORE_QPOINT] ''moveTopRight'' [PConv QPoint] RVoid [OnValue QRect],
     Bind [ValueM QTCORE_QPOINTF] ''moveTopRight'' [PConv QPointF] RVoid [OnValue QRectF],
     Bind [ValueM QTCORE_QRECT] ''normalized'' [] (RValue QRect) [OnValue QRect],
     Bind [ValueM QTCORE_QRECTF] ''normalized'' [] (RValue QRectF) [OnValue QRectF]]"

definition vmeth_qtcore_7_12 :: "binding list" where
  "vmeth_qtcore_7_12 = [
     Bind [] ''relock'' [] RVoid [OnValue ''QReadLocker''],
     Bind [] ''remove'' [PString True] RVoid [OnValue QProcessEnvironment],
     Bind [] ''right'' [] RNumber [OnValue QRect],
     Bind [] ''right'' [] RNumber [OnValue QRectF],
     Bind [] ''setBottom'' [PInt] RVoid [OnValue QRect],
     Bind [] ''setBottom'' [PReal ''qreal''] RVoid [OnValue QRectF],
     Bind [ValueM QTCORE_QPOINT] ''setBottomLeft'' [PConv QPoint] RVoid [OnValue QRect]]"

definition vmeth_qtcore_7_13 :: "binding list" where
  "vmeth_qtcore_7_13 = [
     Bind [ValueM QTCORE_QPOINTF] ''setBottomLeft'' [PConv QPointF] RVoid [OnValue QRectF],
     Bind [ValueM QTCORE_QPOINT] ''setBottomRight'' [PConv QPoint] RVoid [OnValue QRect],
     Bind [ValueM QTCORE_QPOINTF] ''setBottomRight'' [PConv QPointF] RVoid [OnValue QRectF],
     Bind [] ''setCoords'' [PInt, PInt, PInt, PInt] RVoid [OnValue QRect],
     Bind [] ''setCoords'' [PReal ''qreal'', PReal ''qreal'', PReal ''qreal'', PReal ''qreal''] RVoid [OnValue QRectF],
     Bind [] ''setHeight'' [PInt] RVoid [OnValue QRect]]"

definition vmeth_qtcore_7_14 :: "binding list" where
  "vmeth_qtcore_7_14 = [
     Bind [] ''setHeight'' [PReal ''qreal''] RVoid [OnValue QRectF],
     Bind [] ''setLeft'' [PInt] RVoid [OnValue QRect],
     Bind [] ''setLeft'' [PReal ''qreal''] RVoid [OnValue QRectF],
     Bind [] ''setRect'' [PInt, PInt, PInt, PInt] RVoid [OnValue QRect],
     Bind [] ''setRect'' [PReal ''qreal'', PReal ''qreal'', PReal ''qreal'', PReal ''qreal''] RVoid [OnValue QRectF],
     Bind [] ''setRight'' [PInt] RVoid [OnValue QRect]]"

definition vmeth_qtcore_7_15 :: "binding list" where
  "vmeth_qtcore_7_15 = [
     Bind [] ''setRight'' [PReal ''qreal''] RVoid [OnValue QRectF],
     Bind [ValueM QTCORE_QSIZE] ''setSize'' [PConv QSize] RVoid [OnValue QRect],
     Bind [ValueM QTCORE_QSIZEF] ''setSize'' [PConv QSizeF] RVoid [OnValue QRectF],
     Bind [] ''setTop'' [PInt] RVoid [OnValue QRect],
     Bind [] ''setTop'' [PReal ''qreal''] RVoid [OnValue QRectF],
     Bind [ValueM QTCORE_QPOINT] ''setTopLeft'' [PConv QPoint] RVoid [OnValue QRect]]"

definition vmeth_qtcore_7_16 :: "binding list" where
  "vmeth_qtcore_7_16 = [
     Bind [ValueM QTCORE_QPOINTF] ''setTopLeft'' [PConv QPointF] RVoid [OnValue QRectF],
     Bind [ValueM QTCORE_QPOINT] ''setTopRight'' [PConv QPoint] RVoid [OnValue QRect],
     Bind [ValueM QTCORE_QPOINTF] ''setTopRight'' [PConv QPointF] RVoid [OnValue QRectF],
     Bind [] ''setWidth'' [PInt] RVoid [OnValue QRect],
     Bind [] ''setWidth'' [PReal ''qreal''] RVoid [OnValue QRectF],
     Bind [] ''setX'' [PInt] RVoid [OnValue QPoint, OnValue QRect]]"

definition vmeth_qtcore_7_17 :: "binding list" where
  "vmeth_qtcore_7_17 = [
     Bind [] ''setX'' [PReal ''qreal''] RVoid [OnValue QPointF, OnValue QRectF],
     Bind [] ''setY'' [PInt] RVoid [OnValue QPoint, OnValue QRect],
     Bind [] ''setY'' [PReal ''qreal''] RVoid [OnValue QPointF, OnValue QRectF],
     Bind [ValueM QTCORE_QSIZE] ''size'' [] (RValue QSize) [OnValue QRect],
     Bind [ValueM QTCORE_QSIZEF] ''size'' [] (RValue QSizeF) [OnValue QRectF],
     Bind [ValueM ''QTCORE_QPROCESSENVIRONMENT''] ''swap'' [PConv QProcessEnvironment] RVoid [OnValue QProcessEnvironment]]"

definition vmeth_qtcore_7_18 :: "binding list" where
  "vmeth_qtcore_7_18 = [
     Bind [ValueM QTCORE_QRECT] ''toAlignedRect'' [] (RValue QRect) [OnValue QRectF],
     Bind [ValueM QTCORE_QPOINT] ''toPoint'' [] (RValue QPoint) [OnValue QPointF],
     Bind [ValueM QTCORE_QPOINTF] ''toPointF'' [] (RValue QPointF) [OnValue QPoint],
     Bind [ValueM QTCORE_QRECT] ''toRect'' [] (RValue QRect) [OnValue QRectF],
     Bind [ValueM QTCORE_QRECTF] ''toRectF'' [] (RValue QRectF) [OnValue QRect],
     Bind [] ''toStringList'' [] (RList (IMeta QString)) [OnValue QProcessEnvironment],
     Bind [] ''top'' [] RNumber [OnValue QRect]]"

definition vmeth_qtcore_7_19 :: "binding list" where
  "vmeth_qtcore_7_19 = [
     Bind [] ''top'' [] RNumber [OnValue QRectF],
     Bind [ValueM QTCORE_QPOINT] ''topLeft'' [] (RValue QPoint) [OnValue QRect],
     Bind [ValueM QTCORE_QPOINTF] ''topLeft'' [] (RValue QPointF) [OnValue QRectF],
     Bind [ValueM QTCORE_QPOINT] ''topRight'' [] (RValue QPoint) [OnValue QRect],
     Bind [ValueM QTCORE_QPOINTF] ''topRight'' [] (RValue QPointF) [OnValue QRectF],
     Bind [ValueM QTCORE_QPOINT] ''translate'' [PConv QPoint] RVoid [OnValue QRect],
     Bind [ValueM QTCORE_QPOINTF] ''translate'' [PConv QPointF] RVoid [OnValue QRectF]]"

definition vmeth_qtcore_7_20 :: "binding list" where
  "vmeth_qtcore_7_20 = [
     Bind [] ''translate'' [PInt, PInt] RVoid [OnValue QRect],
     Bind [] ''translate'' [PReal ''qreal'', PReal ''qreal''] RVoid [OnValue QRectF],
     Bind [ValueM QTCORE_QPOINT, ValueM QTCORE_QRECT] ''translated'' [PConv QPoint] (RValue QRect) [OnValue QRect],
     Bind [ValueM QTCORE_QPOINTF, ValueM QTCORE_QRECTF] ''translated'' [PConv QPointF] (RValue QRectF) [OnValue QRectF],
     Bind [ValueM QTCORE_QRECT] ''translated'' [PInt, PInt] (RValue QRect) [OnValue QRect],
     Bind [ValueM QTCORE_QRECTF] ''translated'' [PReal ''qreal'', PReal ''qreal''] (RValue QRectF) [OnValue QRectF]]"

definition vmeth_qtcore_7_21 :: "binding list" where
  "vmeth_qtcore_7_21 = [
     Bind [ValueM QTCORE_QPOINT] ''transposed'' [] (RValue QPoint) [OnValue QPoint],
     Bind [ValueM QTCORE_QPOINTF] ''transposed'' [] (RValue QPointF) [OnValue QPointF],
     Bind [ValueM QTCORE_QRECT] ''transposed'' [] (RValue QRect) [OnValue QRect],
     Bind [ValueM QTCORE_QRECTF] ''transposed'' [] (RValue QRectF) [OnValue QRectF],
     Bind [ValueM QTCORE_QDEADLINETIMER] ''tryLockForRead'' [PConv QDeadlineTimer] RBool [OnValue ''QReadWriteLock''],
     Bind [] ''tryLockForRead'' [PInt] RBool [OnValue ''QReadWriteLock''],
     Bind [ValueM QTCORE_QDEADLINETIMER] ''tryLockForWrite'' [PConv QDeadlineTimer] RBool [OnValue ''QReadWriteLock'']]"

definition vmeth_qtcore_7_22 :: "binding list" where
  "vmeth_qtcore_7_22 = [
     Bind [] ''tryLockForWrite'' [PInt] RBool [OnValue ''QReadWriteLock''],
     Bind [ValueM QTCORE_QRECT] ''united'' [PConv QRect] (RValue QRect) [OnValue QRect],
     Bind [ValueM QTCORE_QRECTF] ''united'' [PConv QRectF] (RValue QRectF) [OnValue QRectF],
     Bind [] ''unlock'' [] RVoid [OnValue ''QReadLocker'', OnValue ''QReadWriteLock''],
     Bind [] ''value'' [PString True, PString True] RString [OnValue QProcessEnvironment],
     Bind [] ''width'' [] RNumber [OnValue QRect],
     Bind [] ''width'' [] RNumber [OnValue QRectF]]"

definition vmeth_qtcore_7_23 :: "binding list" where
  "vmeth_qtcore_7_23 = [
     Bind [] ''x'' [] RNumber [OnValue QPoint, OnValue QRect],
     Bind [] ''x'' [] RNumber [OnValue QPointF, OnValue QRectF],
     Bind [] ''y'' [] RNumber [OnValue QPoint, OnValue QRect],
     Bind [] ''y'' [] RNumber [OnValue QPointF, OnValue QRectF]]"

definition vtypes_qtcore_7 :: "string list" where
  "vtypes_qtcore_7 = [QPoint, QPointF, QProcessEnvironment, ''QRandomGenerator'', ''QReadLocker'', ''QReadWriteLock'', QRect, QRectF]"

definition vmeth_qtcore_8_0 :: "binding list" where
  "vmeth_qtcore_8_0 = [
     Bind [] ''absoluteFilePath'' [] RString [OnValue ''QResource''],
     Bind [] ''acquire'' [PInt] RVoid [OnValue ''QSemaphore''],
     Bind [] ''autoDelete'' [] RBool [OnValue ''QRunnable''],
     Bind [] ''available'' [] RNumber [OnValue ''QSemaphore''],
     Bind [] ''captureCount'' [] RNumber [OnValue QRegularExpression],
     Bind [] ''captured'' [PInt] RString [OnValue QRegularExpressionMatch],
     Bind [] ''capturedEnd'' [PInt] (RMeta ''qsizetype'') [OnValue QRegularExpressionMatch],
     Bind [] ''capturedLength'' [PInt] (RMeta ''qsizetype'') [OnValue QRegularExpressionMatch]]"

definition vmeth_qtcore_8_1 :: "binding list" where
  "vmeth_qtcore_8_1 = [
     Bind [] ''capturedStart'' [PInt] (RMeta ''qsizetype'') [OnValue QRegularExpressionMatch],
     Bind [] ''capturedTexts'' [] (RList (IMeta QString)) [OnValue QRegularExpressionMatch],
     Bind [TypeM ''QTCORE_QRESOURCE''] ''compressionAlgorithm'' [] (RMeta ''QResource::Compression'') [OnValue ''QResource''],
     Bind [] ''errorString'' [] RString [OnValue QRegularExpression],
     Bind [] ''fileName'' [] RString [OnValue ''QResource''],
     Bind [] ''hasCaptured'' [PInt] RBool [OnValue QRegularExpressionMatch],
     Bind [] ''hasMatch'' [] RBool [OnValue QRegularExpressionMatch],
     Bind [] ''hasNext'' [] RBool [OnValue QRegularExpressionMatchIterator]]"

definition vmeth_qtcore_8_2 :: "binding list" where
  "vmeth_qtcore_8_2 = [
     Bind [] ''hasPartialMatch'' [] RBool [OnValue QRegularExpressionMatch],
     Bind [] ''isValid'' [] RBool [OnValue QRegularExpression, OnValue QRegularExpressionMatch, OnValue QRegularExpressionMatchIterator, OnValue ''QResource''],
     Bind [] ''lastCapturedIndex'' [] RNumber [OnValue QRegularExpressionMatch],
     Bind [ValueM QTCORE_QDATETIME] ''lastModified'' [] (RValue QDateTime) [OnValue ''QResource''],
     Bind [ValueM QTCORE_QLOCALE] ''locale'' [] (RValue QLocale) [OnValue ''QResource''],
     Bind [] ''lock'' [] RVoid [OnValue ''QRecursiveMutex'']]"

definition vmeth_qtcore_8_3 :: "binding list" where
  "vmeth_qtcore_8_3 = [
     Bind [TypeM QTCORE_QREGULAREXPRESSION] ''matchType'' [] (RMeta ''QRegularExpression::MatchType'') [OnValue QRegularExpressionMatch, OnValue QRegularExpressionMatchIterator],
     Bind [] ''namedCaptureGroups'' [] (RList (IMeta QString)) [OnValue QRegularExpression],
     Bind [ValueM ''QTCORE_QREGULAREXPRESSIONMATCH''] ''next'' [] (RValue QRegularExpressionMatch) [OnValue QRegularExpressionMatchIterator],
     Bind [] ''optimize'' [] RVoid [OnValue QRegularExpression],
     Bind [] ''pattern'' [] RString [OnValue QRegularExpression],
     Bind [] ''patternErrorOffset'' [] (RMeta ''qsizetype'') [OnValue QRegularExpression],
     Bind [ValueM ''QTCORE_QREGULAREXPRESSIONMATCH''] ''peekNext'' [] (RValue QRegularExpressionMatch) [OnValue QRegularExpressionMatchIterator]]"

definition vmeth_qtcore_8_4 :: "binding list" where
  "vmeth_qtcore_8_4 = [
     Bind [ValueM QTCORE_QREGULAREXPRESSION] ''regularExpression'' [] (RValue QRegularExpression) [OnValue QRegularExpressionMatch, OnValue QRegularExpressionMatchIterator],
     Bind [] ''release'' [PInt] RVoid [OnValue ''QSemaphore''],
     Bind [] ''setAutoDelete'' [PBool] RVoid [OnValue ''QRunnable''],
     Bind [] ''setFileName'' [PString True] RVoid [OnValue ''QResource''],
     Bind [ValueM QTCORE_QLOCALE] ''setLocale'' [PConv QLocale] RVoid [OnValue ''QResource''],
     Bind [] ''setPattern'' [PString True] RVoid [OnValue QRegularExpression]]"

definition vmeth_qtcore_8_5 :: "binding list" where
  "vmeth_qtcore_8_5 = [
     Bind [] ''size'' [] (RMeta ''qint64'') [OnValue ''QResource''],
     Bind [ValueM QTCORE_QREGULAREXPRESSION] ''swap'' [PConv QRegularExpression] RVoid [OnValue QRegularExpression],
     Bind [ValueM ''QTCORE_QREGULAREXPRESSIONMATCH''] ''swap'' [PConv QRegularExpressionMatch] RVoid [OnValue QRegularExpressionMatch],
     Bind [ValueM ''QTCORE_QREGULAREXPRESSIONMATCHITERATOR''] ''swap'' [PConv QRegularExpressionMatchIterator] RVoid [OnValue QRegularExpressionMatchIterator],
     Bind [ValueM ''QTCORE_QSEMAPHORERELEASER''] ''swap'' [PConv ''QSemaphoreReleaser''] RVoid [OnValue ''QSemaphoreReleaser''],
     Bind [] ''tryAcquire'' [PInt] RBool [OnValue ''QSemaphore'']]"

definition vmeth_qtcore_8_6 :: "binding list" where
  "vmeth_qtcore_8_6 = [
     Bind [ValueM QTCORE_QDEADLINETIMER] ''tryAcquire'' [PInt, PConv QDeadlineTimer] RBool [OnValue ''QSemaphore''],
     Bind [] ''tryAcquire'' [PInt, PInt] RBool [OnValue ''QSemaphore''],
     Bind [] ''tryLock'' [PInt] RBool [OnValue ''QRecursiveMutex''],
     Bind [ValueM QTCORE_QBYTEARRAY] ''uncompressedData'' [] (RValue QByteArray) [OnValue ''QResource''],
     Bind [] ''uncompressedSize'' [] (RMeta ''qint64'') [OnValue ''QResource''],
     Bind [] ''unlock'' [] RVoid [OnValue ''QRecursiveMutex'']]"

definition vtypes_qtcore_8 :: "string list" where
  "vtypes_qtcore_8 = [''QRecursiveMutex'', QRegularExpression, QRegularExpressionMatch, QRegularExpressionMatchIterator, ''QResource'',
     ''QRunnable'', ''QSemaphore'', ''QSemaphoreReleaser'']"

definition vmeth_qtcore_9_0 :: "binding list" where
  "vmeth_qtcore_9_0 = [
     Bind [] ''acquire'' [] RBool [OnValue QSystemSemaphore],
     Bind [] ''autoRemove'' [] RBool [OnValue ''QTemporaryDir''],
     Bind [] ''blockSize'' [] RNumber [OnValue QStorageInfo],
     Bind [ValueM QTCORE_QSIZE] ''boundedTo'' [PConv QSize] (RValue QSize) [OnValue QSize],
     Bind [ValueM QTCORE_QSIZEF] ''boundedTo'' [PConv QSizeF] (RValue QSizeF) [OnValue QSizeF],
     Bind [] ''bytesAvailable'' [] (RMeta ''qint64'') [OnValue QStorageInfo],
     Bind [] ''bytesFree'' [] (RMeta ''qint64'') [OnValue QStorageInfo],
     Bind [] ''bytesTotal'' [] (RMeta ''qint64'') [OnValue QStorageInfo]]"

definition vmeth_qtcore_9_1 :: "binding list" where
  "vmeth_qtcore_9_1 = [
     Bind [ValueM QTCORE_QBYTEARRAY] ''device'' [] (RValue QByteArray) [OnValue QStorageInfo],
     Bind [] ''dismiss'' [] RVoid [OnValue ''QSignalBlocker''],
     Bind [] ''displayName'' [] RString [OnValue QStorageInfo],
     Bind [TypeM QTCORE_QSYSTEMSEMAPHORE] ''error'' [] (RMeta ''QSystemSemaphore::SystemSemaphoreError'') [OnValue QSystemSemaphore],
     Bind [] ''errorString'' [] RString [OnValue QSystemSemaphore, OnValue ''QTemporaryDir''],
     Bind [ValueM QTCORE_QSIZE] ''expandedTo'' [PConv QSize] (RValue QSize) [OnValue QSize],
     Bind [ValueM QTCORE_QSIZEF] ''expandedTo'' [PConv QSizeF] (RValue QSizeF) [OnValue QSizeF]]"

definition vmeth_qtcore_9_2 :: "binding list" where
  "vmeth_qtcore_9_2 = [
     Bind [] ''filePath'' [PString True] RString [OnValue ''QTemporaryDir''],
     Bind [ValueM QTCORE_QBYTEARRAY] ''fileSystemType'' [] (RValue QByteArray) [OnValue QStorageInfo],
     Bind [ValueM QTCORE_QMARGINS, ValueM QTCORE_QSIZE] ''grownBy'' [PConv QMargins] (RValue QSize) [OnValue QSize],
     Bind [ValueM QTCORE_QMARGINSF, ValueM QTCORE_QSIZEF] ''grownBy'' [PConv QMarginsF] (RValue QSizeF) [OnValue QSizeF],
     Bind [] ''hasError'' [] RBool [OnValue ''QStringConverter''],
     Bind [] ''height'' [] RNumber [OnValue QSize],
     Bind [] ''height'' [] RNumber [OnValue QSizeF]]"

definition vmeth_qtcore_9_3 :: "binding list" where
  "vmeth_qtcore_9_3 = [
     Bind [] ''isAtBoundary'' [] RBool [OnValue QTextBoundaryFinder],
     Bind [] ''isEmpty'' [] RBool [OnValue QSize, OnValue QSizeF],
     Bind [] ''isNull'' [] RBool [OnValue QSize, OnValue QSizeF],
     Bind [] ''isReadOnly'' [] RBool [OnValue QStorageInfo],
     Bind [] ''isReady'' [] RBool [OnValue QStorageInfo],
     Bind [] ''isRoot'' [] RBool [OnValue QStorageInfo]]"

definition vmeth_qtcore_9_4 :: "binding list" where
  "vmeth_qtcore_9_4 = [
     Bind [] ''isValid'' [] RBool [OnValue QSize, OnValue QSizeF, OnValue QStorageInfo, OnValue ''QStringConverter'', OnValue ''QTemporaryDir'', OnValue QTextBoundaryFinder],
     Bind [] ''key'' [] RString [OnValue QSystemSemaphore],
     Bind [] ''name'' [] RString [OnValue QStorageInfo],
     Bind [ValueM QTCORE_QNATIVEIPCKEY] ''nativeIpcKey'' [] (RValue QNativeIpcKey) [OnValue QSystemSemaphore],
     Bind [] ''path'' [] RString [OnValue ''QTemporaryDir''],
     Bind [] ''position'' [] (RMeta ''qsizetype'') [OnValue QTextBoundaryFinder]]"

definition vmeth_qtcore_9_5 :: "binding list" where
  "vmeth_qtcore_9_5 = [
     Bind [] ''reblock'' [] RVoid [OnValue ''QSignalBlocker''],
     Bind [] ''refresh'' [] RVoid [OnValue QStorageInfo],
     Bind [] ''release'' [PInt] RBool [OnValue QSystemSemaphore],
     Bind [] ''remove'' [] RBool [OnValue ''QTemporaryDir''],
     Bind [] ''resetState'' [] RVoid [OnValue ''QStringConverter''],
     Bind [] ''rootPath'' [] RString [OnValue QStorageInfo],
     Bind [EnumM QT_ASPECTRATIOMODE, ValueM QTCORE_QSIZE] ''scale'' [PConv QSize, PConv Qt_AspectRatioMode] RVoid [OnValue QSize]]"

definition vmeth_qtcore_9_6 :: "binding list" where
  "vmeth_qtcore_9_6 = [
     Bind [EnumM QT_ASPECTRATIOMODE, ValueM QTCORE_QSIZEF] ''scale'' [PConv QSizeF, PConv Qt_AspectRatioMode] RVoid [OnValue QSizeF],
     Bind [EnumM QT_ASPECTRATIOMODE] ''scale'' [PInt, PInt, PConv Qt_AspectRatioMode] RVoid [OnValue QSize],
     Bind [EnumM QT_ASPECTRATIOMODE] ''scale'' [PReal ''qreal'', PReal ''qreal'', PConv Qt_AspectRatioMode] RVoid [OnValue QSizeF],
     Bind [EnumM QT_ASPECTRATIOMODE, ValueM QTCORE_QSIZE] ''scaled'' [PConv QSize, PConv Qt_AspectRatioMode] (RValue QSize) [OnValue QSize],
     Bind [EnumM QT_ASPECTRATIOMODE, ValueM QTCORE_QSIZEF] ''scaled'' [PConv QSizeF, PConv Qt_AspectRatioMode] (RValue QSizeF) [OnValue QSizeF]]"

definition vmeth_qtcore_9_7 :: "binding list" where
  "vmeth_qtcore_9_7 = [
     Bind [EnumM QT_ASPECTRATIOMODE, ValueM QTCORE_QSIZE] ''scaled'' [PInt, PInt, PConv Qt_AspectRatioMode] (RValue QSize) [OnValue QSize],
     Bind [EnumM QT_ASPECTRATIOMODE, ValueM QTCORE_QSIZEF] ''scaled'' [PReal ''qreal'', PReal ''qreal'', PConv Qt_AspectRatioMode] (RValue QSizeF) [OnValue QSizeF],
     Bind [] ''setAutoRemove'' [PBool] RVoid [OnValue ''QTemporaryDir''],
     Bind [] ''setHeight'' [PInt] RVoid [OnValue QSize],
     Bind [] ''setHeight'' [PReal ''qreal''] RVoid [OnValue QSizeF],
     Bind [TypeM QTCORE_QSYSTEMSEMAPHORE] ''setKey'' [PString True, PInt, PConv ''QSystemSemaphore::AccessMode''] RVoid [OnValue QSystemSemaphore]]"

definition vmeth_qtcore_9_8 :: "binding list" where
  "vmeth_qtcore_9_8 = [
     Bind [TypeM QTCORE_QSYSTEMSEMAPHORE, ValueM QTCORE_QNATIVEIPCKEY] ''setNativeKey'' [PConv QNativeIpcKey, PInt, PConv ''QSystemSemaphore::AccessMode''] RVoid [OnValue QSystemSemaphore],
     Bind [TypeM QTCORE_QNATIVEIPCKEY, TypeM QTCORE_QSYSTEMSEMAPHORE] ''setNativeKey'' [PString True, PInt, PConv ''QSystemSemaphore::AccessMode'', PConv ''QNativeIpcKey::Type''] RVoid [OnValue QSystemSemaphore],
     Bind [] ''setPath'' [PString True] RVoid [OnValue QStorageInfo],
     Bind [] ''setPosition'' [PWide ''qsizetype''] RVoid [OnValue QTextBoundaryFinder],
     Bind [] ''setWidth'' [PInt] RVoid [OnValue QSize],
     Bind [] ''setWidth'' [PReal ''qreal''] RVoid [OnValue QSizeF]]"

definition vmeth_qtcore_9_9 :: "binding list" where
  "vmeth_qtcore_9_9 = [
     Bind [ValueM QTCORE_QMARGINS, ValueM QTCORE_QSIZE] ''shrunkBy'' [PConv QMargins] (RValue QSize) [OnValue QSize],
     Bind [ValueM QTCORE_QMARGINSF, ValueM QTCORE_QSIZEF] ''shrunkBy'' [PConv QMarginsF] (RValue QSizeF) [OnValue QSizeF],
     Bind [] ''string'' [] RString [OnValue QTextBoundaryFinder],
     Bind [ValueM QTCORE_QBYTEARRAY] ''subvolume'' [] (RValue QByteArray) [OnValue QStorageInfo],
     Bind [ValueM ''QTCORE_QSTORAGEINFO''] ''swap'' [PConv QStorageInfo] RVoid [OnValue QStorageInfo],
     Bind [ValueM ''QTCORE_QTEMPORARYDIR''] ''swap'' [PConv ''QTemporaryDir''] RVoid [OnValue ''QTemporaryDir'']]"

definition vmeth_qtcore_9_10 :: "binding list" where
  "vmeth_qtcore_9_10 = [
     Bind [ValueM ''QTCORE_QTEXTBOUNDARYFINDER''] ''swap'' [PConv QTextBoundaryFinder] RVoid [OnValue QTextBoundaryFinder],
     Bind [] ''toEnd'' [] RVoid [OnValue QTextBoundaryFinder],
     Bind [] ''toNextBoundary'' [] (RMeta ''qsizetype'') [OnValue QTextBoundaryFinder],
     Bind [] ''toPreviousBoundary'' [] (RMeta ''qsizetype'') [OnValue QTextBoundaryFinder],
     Bind [ValueM QTCORE_QSIZE] ''toSize'' [] (RValue QSize) [OnValue QSizeF],
     Bind [ValueM QTCORE_QSIZEF] ''toSizeF'' [] (RValue QSizeF) [OnValue QSize],
     Bind [] ''toStart'' [] RVoid [OnValue QTextBoundaryFinder]]"

definition vmeth_qtcore_9_11 :: "binding list" where
  "vmeth_qtcore_9_11 = [
     Bind [] ''transpose'' [] RVoid [OnValue QSize, OnValue QSizeF],
     Bind [ValueM QTCORE_QSIZE] ''transposed'' [] (RValue QSize) [OnValue QSize],
     Bind [ValueM QTCORE_QSIZEF] ''transposed'' [] (RValue QSizeF) [OnValue QSizeF],
     Bind [TypeM ''QTCORE_QTEXTBOUNDARYFINDER''] ''type'' [] (RMeta ''QTextBoundaryFinder::BoundaryType'') [OnValue QTextBoundaryFinder],
     Bind [] ''unblock'' [] RVoid [OnValue ''QSignalBlocker''],
     Bind [] ''width'' [] RNumber [OnValue QSize],
     Bind [] ''width'' [] RNumber [OnValue QSizeF]]"

definition vtypes_qtcore_9 :: "string list" where
  "vtypes_qtcore_9 = [''QSignalBlocker'', QSize, QSizeF, QStorageInfo, ''QStringConverter'', QSystemSemaphore, ''QTemporaryDir'',
     QTextBoundaryFinder]"

definition vmeth_table_core_b :: "(string \<times> shard) list" where
  "vmeth_table_core_b = [
     (''qtcore_4'', \<lparr>sh_module = ''QtCore'', sh_slug = ''QTCORE'',
        sh_bindings = concat [vmeth_qtcore_4_0, vmeth_qtcore_4_1, vmeth_qtcore_4_2, vmeth_qtcore_4_3, vmeth_qtcore_4_4, vmeth_qtcore_4_5, vmeth_qtcore_4_6, vmeth_qtcore_4_7, vmeth_qtcore_4_8, vmeth_qtcore_4_9, vmeth_qtcore_4_10, vmeth_qtcore_4_11, vmeth_qtcore_4_12, vmeth_qtcore_4_13, vmeth_qtcore_4_14, vmeth_qtcore_4_15, vmeth_qtcore_4_16, vmeth_qtcore_4_17, vmeth_qtcore_4_18, vmeth_qtcore_4_19]\<rparr>),
     (''qtcore_5'', \<lparr>sh_module = ''QtCore'', sh_slug = ''QTCORE'',
        sh_bindings = concat [vmeth_qtcore_5_0, vmeth_qtcore_5_1, vmeth_qtcore_5_2, vmeth_qtcore_5_3, vmeth_qtcore_5_4, vmeth_qtcore_5_5, vmeth_qtcore_5_6, vmeth_qtcore_5_7, vmeth_qtcore_5_8, vmeth_qtcore_5_9, vmeth_qtcore_5_10, vmeth_qtcore_5_11, vmeth_qtcore_5_12, vmeth_qtcore_5_13, vmeth_qtcore_5_14]\<rparr>),
     (''qtcore_6'', \<lparr>sh_module = ''QtCore'', sh_slug = ''QTCORE'',
        sh_bindings = concat [vmeth_qtcore_6_0, vmeth_qtcore_6_1, vmeth_qtcore_6_2, vmeth_qtcore_6_3, vmeth_qtcore_6_4]\<rparr>),
     (''qtcore_7'', \<lparr>sh_module = ''QtCore'', sh_slug = ''QTCORE'',
        sh_bindings = concat [vmeth_qtcore_7_0, vmeth_qtcore_7_1, vmeth_qtcore_7_2, vmeth_qtcore_7_3, vmeth_qtcore_7_4, vmeth_qtcore_7_5, vmeth_qtcore_7_6, vmeth_qtcore_7_7, vmeth_qtcore_7_8, vmeth_qtcore_7_9, vmeth_qtcore_7_10, vmeth_qtcore_7_11, vmeth_qtcore_7_12, vmeth_qtcore_7_13, vmeth_qtcore_7_14, vmeth_qtcore_7_15, vmeth_qtcore_7_16, vmeth_qtcore_7_17, vmeth_qtcore_7_18, vmeth_qtcore_7_19, vmeth_qtcore_7_20, vmeth_qtcore_7_21, vmeth_qtcore_7_22, vmeth_qtcore_7_23]\<rparr>),
     (''qtcore_8'', \<lparr>sh_module = ''QtCore'', sh_slug = ''QTCORE'',
        sh_bindings = concat [vmeth_qtcore_8_0, vmeth_qtcore_8_1, vmeth_qtcore_8_2, vmeth_qtcore_8_3, vmeth_qtcore_8_4, vmeth_qtcore_8_5, vmeth_qtcore_8_6]\<rparr>),
     (''qtcore_9'', \<lparr>sh_module = ''QtCore'', sh_slug = ''QTCORE'',
        sh_bindings = concat [vmeth_qtcore_9_0, vmeth_qtcore_9_1, vmeth_qtcore_9_2, vmeth_qtcore_9_3, vmeth_qtcore_9_4, vmeth_qtcore_9_5, vmeth_qtcore_9_6, vmeth_qtcore_9_7, vmeth_qtcore_9_8, vmeth_qtcore_9_9, vmeth_qtcore_9_10, vmeth_qtcore_9_11]\<rparr>)]"

lemmas vmeth_table_core_b_defs =
  vmeth_qtcore_4_0_def vmeth_qtcore_4_1_def vmeth_qtcore_4_2_def vmeth_qtcore_4_3_def vmeth_qtcore_4_4_def
  vmeth_qtcore_4_5_def vmeth_qtcore_4_6_def vmeth_qtcore_4_7_def vmeth_qtcore_4_8_def vmeth_qtcore_4_9_def
  vmeth_qtcore_4_10_def vmeth_qtcore_4_11_def vmeth_qtcore_4_12_def vmeth_qtcore_4_13_def vmeth_qtcore_4_14_def
  vmeth_qtcore_4_15_def vmeth_qtcore_4_16_def vmeth_qtcore_4_17_def vmeth_qtcore_4_18_def vmeth_qtcore_4_19_def
  vmeth_qtcore_5_0_def vmeth_qtcore_5_1_def vmeth_qtcore_5_2_def vmeth_qtcore_5_3_def vmeth_qtcore_5_4_def
  vmeth_qtcore_5_5_def vmeth_qtcore_5_6_def vmeth_qtcore_5_7_def vmeth_qtcore_5_8_def vmeth_qtcore_5_9_def
  vmeth_qtcore_5_10_def vmeth_qtcore_5_11_def vmeth_qtcore_5_12_def vmeth_qtcore_5_13_def vmeth_qtcore_5_14_def
  vmeth_qtcore_6_0_def vmeth_qtcore_6_1_def vmeth_qtcore_6_2_def vmeth_qtcore_6_3_def vmeth_qtcore_6_4_def
  vmeth_qtcore_7_0_def vmeth_qtcore_7_1_def vmeth_qtcore_7_2_def vmeth_qtcore_7_3_def vmeth_qtcore_7_4_def
  vmeth_qtcore_7_5_def vmeth_qtcore_7_6_def vmeth_qtcore_7_7_def vmeth_qtcore_7_8_def vmeth_qtcore_7_9_def
  vmeth_qtcore_7_10_def vmeth_qtcore_7_11_def vmeth_qtcore_7_12_def vmeth_qtcore_7_13_def vmeth_qtcore_7_14_def
  vmeth_qtcore_7_15_def vmeth_qtcore_7_16_def vmeth_qtcore_7_17_def vmeth_qtcore_7_18_def vmeth_qtcore_7_19_def
  vmeth_qtcore_7_20_def vmeth_qtcore_7_21_def vmeth_qtcore_7_22_def vmeth_qtcore_7_23_def vmeth_qtcore_8_0_def
  vmeth_qtcore_8_1_def vmeth_qtcore_8_2_def vmeth_qtcore_8_3_def vmeth_qtcore_8_4_def vmeth_qtcore_8_5_def
  vmeth_qtcore_8_6_def vmeth_qtcore_9_0_def vmeth_qtcore_9_1_def vmeth_qtcore_9_2_def vmeth_qtcore_9_3_def
  vmeth_qtcore_9_4_def vmeth_qtcore_9_5_def vmeth_qtcore_9_6_def vmeth_qtcore_9_7_def vmeth_qtcore_9_8_def
  vmeth_qtcore_9_9_def vmeth_qtcore_9_10_def vmeth_qtcore_9_11_def

lemma vmeth_table_core_b_value_blocks: "list_all (\<lambda>(s, sh). value_blocks sh) vmeth_table_core_b"
  by (simp add: vmeth_table_core_b_def vmeth_table_core_b_defs value_blocks_def value_shard_def; (simp add: parameter_text_def qt_name_defs)?)

end
