(* ===== verification/Value_Methods_Gui_A.thy ===== *)
theory Value_Methods_Gui_A
  imports Shard_Methods Qt_Names
begin

text \<open>
  Tables of the value method shards (generated\_value\_methods): the blocks of every shard in the file's order, and the
  classes it can store by value.
\<close>

definition vmeth_qtgui_0_0 :: "binding list" where
  "vmeth_qtgui_0_0 = [
     Bind [TypeM ''QTGUI_QACTION''] ''action'' [] RObject [OnValue ''QActionEvent''],
     Bind [] ''alpha'' [] RNumber [OnValue QColor],
     Bind [] ''alphaF'' [] RNumber [OnValue QColor],
     Bind [TypeM ''QTGUI_QACTION''] ''before'' [] RObject [OnValue ''QActionEvent''],
     Bind [ValueM QTGUI_QREGION] ''beginPaint'' [PConv QRegion] RVoid [OnValue ''QBackingStore''],
     Bind [] ''black'' [] RNumber [OnValue QColor],
     Bind [] ''blackF'' [] RNumber [OnValue QColor],
     Bind [] ''blue'' [] RNumber [OnValue QColor]]"

definition vmeth_qtgui_0_1 :: "binding list" where
  "vmeth_qtgui_0_1 = [
     Bind [] ''blueF'' [] RNumber [OnValue QColor],
     Bind [TypeM QTGUI_QWINDOW] ''child'' [] RObject [OnValue ''QChildWindowEvent''],
     Bind [] ''clear'' [] RVoid [OnValue ''QBitmap''],
     Bind [ValueM QTGUI_QCOLOR] ''color'' [] (RValue QColor) [OnValue QBrush],
     Bind [TypeM QTGUI_QCOLORSPACE] ''colorModel'' [] (RMeta ''QColorSpace::ColorModel'') [OnValue QColorSpace],
     Bind [TypeM QTGUI_QCOLOR, ValueM QTGUI_QCOLOR] ''convertTo'' [PConv ''QColor::Spec''] (RValue QColor) [OnValue QColor],
     Bind [] ''cyan'' [] RNumber [OnValue QColor]]"

definition vmeth_qtgui_0_2 :: "binding list" where
  "vmeth_qtgui_0_2 = [
     Bind [] ''cyanF'' [] RNumber [OnValue QColor],
     Bind [ValueM QTGUI_QCOLOR] ''darker'' [PInt] (RValue QColor) [OnValue QColor],
     Bind [] ''description'' [] RString [OnValue QColorSpace],
     Bind [] ''endPaint'' [] RVoid [OnValue ''QBackingStore''],
     Bind [TypeM QTGUI_QWINDOW, ValueM QTCORE_QPOINT, ValueM QTGUI_QREGION] ''flush'' [PConv QRegion, PNonNull ''QWindow*'', PConv QPoint] RVoid [OnValue ''QBackingStore''],
     Bind [] ''gamma'' [] RNumber [OnValue QColorSpace],
     Bind [] ''green'' [] RNumber [OnValue QColor]]"

definition vmeth_qtgui_0_3 :: "binding list" where
  "vmeth_qtgui_0_3 = [
     Bind [] ''greenF'' [] RNumber [OnValue QColor],
     Bind [] ''hasStaticContents'' [] RBool [OnValue ''QBackingStore''],
     Bind [] ''hslHue'' [] RNumber [OnValue QColor],
     Bind [] ''hslHueF'' [] RNumber [OnValue QColor],
     Bind [] ''hslSaturation'' [] RNumber [OnValue QColor],
     Bind [] ''hslSaturationF'' [] RNumber [OnValue QColor],
     Bind [] ''hsvHue'' [] RNumber [OnValue QColor],
     Bind [] ''hsvHueF'' [] RNumber [OnValue QColor]]"

definition vmeth_qtgui_0_4 :: "binding list" where
  "vmeth_qtgui_0_4 = [
     Bind [] ''hsvSaturation'' [] RNumber [OnValue QColor],
     Bind [] ''hsvSaturationF'' [] RNumber [OnValue QColor],
     Bind [] ''hue'' [] RNumber [OnValue QColor],
     Bind [] ''hueF'' [] RNumber [OnValue QColor],
     Bind [ValueM QTCORE_QBYTEARRAY] ''iccProfile'' [] (RValue QByteArray) [OnValue QColorSpace],
     Bind [TypeM ''QTGUI_QABSTRACTFILEICONPROVIDER'', ValueM QTGUI_QICON] ''icon'' [PConv ''QAbstractFileIconProvider::IconType''] (RValue QIcon) [OnValue ''QAbstractFileIconProvider''],
     Bind [ValueM ''QTCORE_QFILEINFO'', ValueM QTGUI_QICON] ''icon'' [PConv QFileInfo] (RValue QIcon) [OnValue ''QAbstractFileIconProvider'']]"

definition vmeth_qtgui_0_5 :: "binding list" where
  "vmeth_qtgui_0_5 = [
     Bind [] ''isOpaque'' [] RBool [OnValue QBrush],
     Bind [] ''isValid'' [] RBool [OnValue QColor, OnValue QColorSpace, OnValue QColorSpace],
     Bind [] ''isValidTarget'' [] RBool [OnValue QColorSpace],
     Bind [ValueM QTGUI_QCOLOR] ''lighter'' [PInt] (RValue QColor) [OnValue QColor],
     Bind [] ''lightness'' [] RNumber [OnValue QColor],
     Bind [] ''lightnessF'' [] RNumber [OnValue QColor],
     Bind [] ''magenta'' [] RNumber [OnValue QColor]]"

definition vmeth_qtgui_0_6 :: "binding list" where
  "vmeth_qtgui_0_6 = [
     Bind [] ''magentaF'' [] RNumber [OnValue QColor],
     Bind [TypeM QTGUI_QCOLOR] ''name'' [PConv ''QColor::NameFormat''] RString [OnValue QColor],
     Bind [TypeM ''QTGUI_QABSTRACTFILEICONPROVIDER''] ''options'' [] (RMeta ''QAbstractFileIconProvider::Options'') [OnValue ''QAbstractFileIconProvider''],
     Bind [TypeM QTGUI_QCOLORSPACE] ''primaries'' [] (RMeta ''QColorSpace::Primaries'') [OnValue QColorSpace],
     Bind [TypeM QTGUI_QCOLORSPACE] ''primaryPoints'' [] (RMeta ''QColorSpace::PrimaryPoints'') [OnValue QColorSpace],
     Bind [] ''red'' [] RNumber [OnValue QColor],
     Bind [] ''redF'' [] RNumber [OnValue QColor]]"

definition vmeth_qtgui_0_7 :: "binding list" where
  "vmeth_qtgui_0_7 = [
     Bind [ValueM QTCORE_QSIZE] ''resize'' [PConv QSize] RVoid [OnValue ''QBackingStore''],
     Bind [ValueM ''QTGUI_QRGBA64''] ''rgba64'' [] (RValue ''QRgba64'') [OnValue QColor],
     Bind [] ''saturation'' [] RNumber [OnValue QColor],
     Bind [] ''saturationF'' [] RNumber [OnValue QColor],
     Bind [ValueM QTGUI_QREGION] ''scroll'' [PConv QRegion, PInt, PInt] RBool [OnValue ''QBackingStore''],
     Bind [] ''setAlpha'' [PInt] RVoid [OnValue QColor],
     Bind [] ''setAlphaF'' [PReal ''float''] RVoid [OnValue QColor]]"

definition vmeth_qtgui_0_8 :: "binding list" where
  "vmeth_qtgui_0_8 = [
     Bind [] ''setBlue'' [PInt] RVoid [OnValue QColor],
     Bind [] ''setBlueF'' [PReal ''float''] RVoid [OnValue QColor],
     Bind [] ''setCmyk'' [PInt, PInt, PInt, PInt, PInt] RVoid [OnValue QColor],
     Bind [] ''setCmykF'' [PReal ''float'', PReal ''float'', PReal ''float'', PReal ''float'', PReal ''float''] RVoid [OnValue QColor],
     Bind [ValueM QTGUI_QCOLOR] ''setColor'' [PConv QColor] RVoid [OnValue QBrush]]"

definition vmeth_qtgui_0_9 :: "binding list" where
  "vmeth_qtgui_0_9 = [
     Bind [EnumM ''QT_GLOBALCOLOR''] ''setColor'' [PConv ''Qt::GlobalColor''] RVoid [OnValue QBrush, OnValue QBrush],
     Bind [] ''setDescription'' [PString True] RVoid [OnValue QColorSpace],
     Bind [] ''setGreen'' [PInt] RVoid [OnValue QColor],
     Bind [] ''setGreenF'' [PReal ''float''] RVoid [OnValue QColor],
     Bind [] ''setHsl'' [PInt, PInt, PInt, PInt] RVoid [OnValue QColor],
     Bind [] ''setHslF'' [PReal ''float'', PReal ''float'', PReal ''float'', PReal ''float''] RVoid [OnValue QColor]]"

definition vmeth_qtgui_0_10 :: "binding list" where
  "vmeth_qtgui_0_10 = [
     Bind [] ''setHsv'' [PInt, PInt, PInt, PInt] RVoid [OnValue QColor],
     Bind [] ''setHsvF'' [PReal ''float'', PReal ''float'', PReal ''float'', PReal ''float''] RVoid [OnValue QColor],
     Bind [TypeM ''QTGUI_QABSTRACTFILEICONPROVIDER''] ''setOptions'' [PConv ''QAbstractFileIconProvider::Options''] RVoid [OnValue ''QAbstractFileIconProvider''],
     Bind [TypeM QTGUI_QCOLORSPACE] ''setPrimaries'' [PConv ''QColorSpace::Primaries''] RVoid [OnValue QColorSpace],
     Bind [ValueM QTCORE_QPOINTF] ''setPrimaries'' [PConv QPointF, PConv QPointF, PConv QPointF, PConv QPointF] RVoid [OnValue QColorSpace]]"

definition vmeth_qtgui_0_11 :: "binding list" where
  "vmeth_qtgui_0_11 = [
     Bind [TypeM QTGUI_QCOLORSPACE] ''setPrimaryPoints'' [PConv ''QColorSpace::PrimaryPoints''] RVoid [OnValue QColorSpace],
     Bind [] ''setRed'' [PInt] RVoid [OnValue QColor],
     Bind [] ''setRedF'' [PReal ''float''] RVoid [OnValue QColor],
     Bind [] ''setRgb'' [PInt, PInt, PInt, PInt] RVoid [OnValue QColor],
     Bind [] ''setRgbF'' [PReal ''float'', PReal ''float'', PReal ''float'', PReal ''float''] RVoid [OnValue QColor],
     Bind [ValueM ''QTGUI_QRGBA64''] ''setRgba64'' [PConv ''QRgba64''] RVoid [OnValue QColor]]"

definition vmeth_qtgui_0_12 :: "binding list" where
  "vmeth_qtgui_0_12 = [
     Bind [ValueM QTGUI_QREGION] ''setStaticContents'' [PConv QRegion] RVoid [OnValue ''QBackingStore''],
     Bind [EnumM ''QT_BRUSHSTYLE''] ''setStyle'' [PConv ''Qt::BrushStyle''] RVoid [OnValue QBrush],
     Bind [ValueM QTGUI_QPIXMAP] ''setTexture'' [PConv QPixmap] RVoid [OnValue QBrush],
     Bind [ValueM QTGUI_QIMAGE] ''setTextureImage'' [PConv QImage] RVoid [OnValue QBrush],
     Bind [TypeM QTGUI_QCOLORSPACE] ''setTransferFunction'' [PConv QColorSpace_TransferFunction, PReal ''float''] RVoid [OnValue QColorSpace],
     Bind [ValueM QTGUI_QTRANSFORM] ''setTransform'' [PConv QTransform] RVoid [OnValue QBrush]]"

definition vmeth_qtgui_0_13 :: "binding list" where
  "vmeth_qtgui_0_13 = [
     Bind [ValueM QTCORE_QPOINTF] ''setWhitePoint'' [PConv QPointF] RVoid [OnValue QColorSpace],
     Bind [ValueM QTCORE_QSIZE] ''size'' [] (RValue QSize) [OnValue ''QBackingStore''],
     Bind [TypeM QTGUI_QCOLOR] ''spec'' [] (RMeta ''QColor::Spec'') [OnValue QColor],
     Bind [ValueM QTGUI_QREGION] ''staticContents'' [] (RValue QRegion) [OnValue ''QBackingStore''],
     Bind [EnumM ''QT_BRUSHSTYLE''] ''style'' [] (RMeta ''Qt::BrushStyle'') [OnValue QBrush],
     Bind [ValueM ''QTGUI_QBITMAP''] ''swap'' [PConv ''QBitmap''] RVoid [OnValue ''QBitmap''],
     Bind [ValueM QTGUI_QBRUSH] ''swap'' [PConv QBrush] RVoid [OnValue QBrush]]"

definition vmeth_qtgui_0_14 :: "binding list" where
  "vmeth_qtgui_0_14 = [
     Bind [ValueM QTGUI_QCOLORSPACE] ''swap'' [PConv QColorSpace] RVoid [OnValue QColorSpace],
     Bind [ValueM QTGUI_QPIXMAP] ''texture'' [] (RValue QPixmap) [OnValue QBrush],
     Bind [ValueM QTGUI_QIMAGE] ''textureImage'' [] (RValue QImage) [OnValue QBrush],
     Bind [ValueM QTGUI_QCOLOR] ''toCmyk'' [] (RValue QColor) [OnValue QColor],
     Bind [ValueM QTGUI_QCOLOR] ''toExtendedRgb'' [] (RValue QColor) [OnValue QColor],
     Bind [ValueM QTGUI_QCOLOR] ''toHsl'' [] (RValue QColor) [OnValue QColor],
     Bind [ValueM QTGUI_QCOLOR] ''toHsv'' [] (RValue QColor) [OnValue QColor]]"

definition vmeth_qtgui_0_15 :: "binding list" where
  "vmeth_qtgui_0_15 = [
     Bind [ValueM QTGUI_QCOLOR] ''toRgb'' [] (RValue QColor) [OnValue QColor],
     Bind [TypeM QTGUI_QCOLORSPACE] ''transferFunction'' [] (RMeta QColorSpace_TransferFunction) [OnValue QColorSpace],
     Bind [ValueM QTGUI_QTRANSFORM] ''transform'' [] (RValue QTransform) [OnValue QBrush],
     Bind [TypeM QTGUI_QCOLORSPACE] ''transformModel'' [] (RMeta ''QColorSpace::TransformModel'') [OnValue QColorSpace],
     Bind [ValueM QTGUI_QCOLORSPACE, ValueM ''QTGUI_QCOLORTRANSFORM''] ''transformationToColorSpace'' [PConv QColorSpace] (RValue ''QColorTransform'') [OnValue QColorSpace],
     Bind [ValueM ''QTGUI_QBITMAP'', ValueM QTGUI_QTRANSFORM] ''transformed'' [PConv QTransform] (RValue ''QBitmap'') [OnValue ''QBitmap''],
     Bind [ValueM ''QTCORE_QFILEINFO''] ''type'' [PConv QFileInfo] RString [OnValue ''QAbstractFileIconProvider'']]"

definition vmeth_qtgui_0_16 :: "binding list" where
  "vmeth_qtgui_0_16 = [
     Bind [] ''value'' [] RNumber [OnValue QColor],
     Bind [] ''valueF'' [] RNumber [OnValue QColor],
     Bind [ValueM QTCORE_QPOINTF] ''whitePoint'' [] (RValue QPointF) [OnValue QColorSpace],
     Bind [TypeM QTGUI_QWINDOW] ''window'' [] RObject [OnValue ''QBackingStore''],
     Bind [TypeM QTGUI_QCOLORSPACE, ValueM QTGUI_QCOLORSPACE] ''withTransferFunction'' [PConv QColorSpace_TransferFunction, PReal ''float''] (RValue QColorSpace) [OnValue QColorSpace],
     Bind [] ''yellow'' [] RNumber [OnValue QColor],
     Bind [] ''yellowF'' [] RNumber [OnValue QColor]]"

definition vtypes_qtgui_0 :: "string list" where
  "vtypes_qtgui_0 = [''QAbstractFileIconProvider'', ''QActionEvent'', ''QBackingStore'', ''QBitmap'', QBrush, ''QChildWindowEvent'',
     QColor, QColorSpace]"

definition vmeth_qtgui_1_0 :: "binding list" where
  "vmeth_qtgui_1_0 = [
     Bind [] ''accept'' [] RVoid [OnValue ''QDragMoveEvent''],
     Bind [ValueM QTCORE_QRECT] ''accept'' [PConv QRect] RVoid [OnValue ''QDragMoveEvent''],
     Bind [] ''acceptProposedAction'' [] RVoid [OnValue ''QDropEvent''],
     Bind [] ''angle'' [] RNumber [OnValue ''QConicalGradient''],
     Bind [ValueM QTCORE_QRECT] ''answerRect'' [] (RValue QRect) [OnValue ''QDragMoveEvent''],
     Bind [ValueM ''QTGUI_QBITMAP''] ''bitmap'' [] (RValue ''QBitmap'') [OnValue QCursor],
     Bind [EnumM QT_MOUSEBUTTONS] ''buttons'' [] (RMeta Qt_MouseButtons) [OnValue ''QDropEvent'']]"

definition vmeth_qtgui_1_1 :: "binding list" where
  "vmeth_qtgui_1_1 = [
     Bind [ValueM QTCORE_QPOINTF] ''center'' [] (RValue QPointF) [OnValue ''QConicalGradient''],
     Bind [TypeM QTGUI_QPOINTINGDEVICE] ''device'' [] RObject [OnValue QEventPoint],
     Bind [EnumM QT_DROPACTION] ''dropAction'' [] (RMeta Qt_DropAction) [OnValue ''QDropEvent''],
     Bind [ValueM QTCORE_QSIZEF] ''ellipseDiameters'' [] (RValue QSizeF) [OnValue QEventPoint],
     Bind [] ''file'' [] RString [OnValue ''QFileOpenEvent''],
     Bind [ValueM QTCORE_QPOINTF] ''globalGrabPosition'' [] (RValue QPointF) [OnValue QEventPoint],
     Bind [ValueM QTCORE_QPOINTF] ''globalLastPosition'' [] (RValue QPointF) [OnValue QEventPoint]]"

definition vmeth_qtgui_1_2 :: "binding list" where
  "vmeth_qtgui_1_2 = [
     Bind [ValueM QTCORE_QPOINT] ''globalPos'' [] (RValue QPoint) [OnValue ''QContextMenuEvent''],
     Bind [ValueM QTCORE_QPOINTF] ''globalPosition'' [] (RValue QPointF) [OnValue QEventPoint],
     Bind [ValueM QTCORE_QPOINTF] ''globalPressPosition'' [] (RValue QPointF) [OnValue QEventPoint],
     Bind [] ''globalX'' [] RNumber [OnValue ''QContextMenuEvent''],
     Bind [] ''globalY'' [] RNumber [OnValue ''QContextMenuEvent''],
     Bind [ValueM QTCORE_QPOINTF] ''grabPosition'' [] (RValue QPointF) [OnValue QEventPoint],
     Bind [ValueM QTCORE_QPOINT] ''hotSpot'' [] (RValue QPoint) [OnValue QCursor]]"

definition vmeth_qtgui_1_3 :: "binding list" where
  "vmeth_qtgui_1_3 = [
     Bind [] ''id'' [] RNumber [OnValue QEventPoint],
     Bind [] ''ignore'' [] RVoid [OnValue ''QDragMoveEvent''],
     Bind [ValueM QTCORE_QRECT] ''ignore'' [PConv QRect] RVoid [OnValue ''QDragMoveEvent''],
     Bind [] ''isAccepted'' [] RBool [OnValue QEventPoint],
     Bind [] ''isIdentity'' [] RBool [OnValue ''QColorTransform''],
     Bind [ValueM QTCORE_QPOINTF] ''lastPosition'' [] (RValue QPointF) [OnValue QEventPoint],
     Bind [ValueM QTGUI_QCOLOR] ''map'' [PConv QColor] (RValue QColor) [OnValue ''QColorTransform'']]"

definition vmeth_qtgui_1_4 :: "binding list" where
  "vmeth_qtgui_1_4 = [
     Bind [ValueM ''QTGUI_QRGBA64''] ''map'' [PConv ''QRgba64''] (RValue ''QRgba64'') [OnValue ''QColorTransform''],
     Bind [ValueM ''QTGUI_QBITMAP''] ''mask'' [] (RValue ''QBitmap'') [OnValue QCursor],
     Bind [TypeM QTCORE_QMIMEDATA] ''mimeData'' [] RObject [OnValue ''QDropEvent''],
     Bind [ValueM QTCORE_QPOINTF] ''normalizedPosition'' [] (RValue QPointF) [OnValue QEventPoint],
     Bind [ValueM QTGUI_QPIXMAP] ''pixmap'' [] (RValue QPixmap) [OnValue QCursor],
     Bind [ValueM QTCORE_QPOINT] ''pos'' [] (RValue QPoint) [OnValue ''QContextMenuEvent'']]"

definition vmeth_qtgui_1_5 :: "binding list" where
  "vmeth_qtgui_1_5 = [
     Bind [ValueM QTCORE_QPOINTF] ''position'' [] (RValue QPointF) [OnValue ''QDropEvent'', OnValue QEventPoint],
     Bind [EnumM QT_DROPACTIONS] ''possibleActions'' [] (RMeta Qt_DropActions) [OnValue ''QDropEvent''],
     Bind [ValueM QTCORE_QPOINTF] ''pressPosition'' [] (RValue QPointF) [OnValue QEventPoint],
     Bind [] ''pressure'' [] RNumber [OnValue QEventPoint],
     Bind [EnumM QT_DROPACTION] ''proposedAction'' [] (RMeta Qt_DropAction) [OnValue ''QDropEvent''],
     Bind [TypeM ''QTGUI_QCONTEXTMENUEVENT''] ''reason'' [] (RMeta ''QContextMenuEvent::Reason'') [OnValue ''QContextMenuEvent''],
     Bind [] ''rotation'' [] RNumber [OnValue QEventPoint]]"

definition vmeth_qtgui_1_6 :: "binding list" where
  "vmeth_qtgui_1_6 = [
     Bind [ValueM QTCORE_QPOINTF] ''sceneGrabPosition'' [] (RValue QPointF) [OnValue QEventPoint],
     Bind [ValueM QTCORE_QPOINTF] ''sceneLastPosition'' [] (RValue QPointF) [OnValue QEventPoint],
     Bind [ValueM QTCORE_QPOINTF] ''scenePosition'' [] (RValue QPointF) [OnValue QEventPoint],
     Bind [ValueM QTCORE_QPOINTF] ''scenePressPosition'' [] (RValue QPointF) [OnValue QEventPoint],
     Bind [] ''setAccepted'' [PBool] RVoid [OnValue QEventPoint],
     Bind [] ''setAngle'' [PReal ''qreal''] RVoid [OnValue ''QConicalGradient''],
     Bind [ValueM QTCORE_QPOINTF] ''setCenter'' [PConv QPointF] RVoid [OnValue ''QConicalGradient'']]"

definition vmeth_qtgui_1_7 :: "binding list" where
  "vmeth_qtgui_1_7 = [
     Bind [] ''setCenter'' [PReal ''qreal'', PReal ''qreal''] RVoid [OnValue ''QConicalGradient''],
     Bind [EnumM QT_DROPACTION] ''setDropAction'' [PConv Qt_DropAction] RVoid [OnValue ''QDropEvent''],
     Bind [EnumM ''QT_CURSORSHAPE''] ''setShape'' [PConv ''Qt::CursorShape''] RVoid [OnValue QCursor],
     Bind [EnumM ''QT_CURSORSHAPE''] ''shape'' [] (RMeta ''Qt::CursorShape'') [OnValue QCursor],
     Bind [TypeM QTCORE_QOBJECT] ''source'' [] RObject [OnValue ''QDropEvent''],
     Bind [TypeM ''QTGUI_QEVENTPOINT''] ''state'' [] (RMeta ''QEventPoint::State'') [OnValue QEventPoint],
     Bind [ValueM ''QTGUI_QCOLORTRANSFORM''] ''swap'' [PConv ''QColorTransform''] RVoid [OnValue ''QColorTransform'']]"

definition vmeth_qtgui_1_8 :: "binding list" where
  "vmeth_qtgui_1_8 = [
     Bind [ValueM ''QTGUI_QCURSOR''] ''swap'' [PConv QCursor] RVoid [OnValue QCursor],
     Bind [ValueM ''QTGUI_QEVENTPOINT''] ''swap'' [PConv QEventPoint] RVoid [OnValue QEventPoint],
     Bind [] ''timeHeld'' [] RNumber [OnValue QEventPoint],
     Bind [ValueM ''QTGUI_QPOINTINGDEVICEUNIQUEID''] ''uniqueId'' [] (RValue QPointingDeviceUniqueId) [OnValue QEventPoint],
     Bind [ValueM QTCORE_QURL] ''url'' [] (RValue QUrl) [OnValue ''QFileOpenEvent''],
     Bind [ValueM QTGUI_QVECTOR2D] ''velocity'' [] (RValue QVector2D) [OnValue QEventPoint],
     Bind [] ''x'' [] RNumber [OnValue ''QContextMenuEvent'']]"

definition vmeth_qtgui_1_9 :: "binding list" where
  "vmeth_qtgui_1_9 = [
     Bind [] ''y'' [] RNumber [OnValue ''QContextMenuEvent'']]"

definition vtypes_qtgui_1 :: "string list" where
  "vtypes_qtgui_1 = [''QColorTransform'', ''QConicalGradient'', ''QContextMenuEvent'', QCursor, ''QDragMoveEvent'', ''QDropEvent'',
     QEventPoint, ''QFileOpenEvent'']"

definition vmeth_qtgui_10_0 :: "binding list" where
  "vmeth_qtgui_10_0 = [
     Bind [] ''accessibleDescription'' [] RString [OnValue QStandardItem],
     Bind [] ''accessibleText'' [] RString [OnValue QStandardItem],
     Bind [] ''alphaBufferSize'' [] RNumber [OnValue QSurfaceFormat],
     Bind [ValueM QTGUI_QBRUSH] ''background'' [] (RValue QBrush) [OnValue QStandardItem],
     Bind [] ''blueBufferSize'' [] RNumber [OnValue QSurfaceFormat],
     Bind [EnumM QT_MOUSEBUTTON] ''button'' [] (RMeta ''Qt::MouseButton'') [OnValue ''QSinglePointEvent''],
     Bind [EnumM QT_MOUSEBUTTONS] ''buttons'' [] (RMeta Qt_MouseButtons) [OnValue ''QSinglePointEvent''],
     Bind [EnumM ''QT_CHECKSTATE''] ''checkState'' [] (RMeta ''Qt::CheckState'') [OnValue QStandardItem]]"

definition vmeth_qtgui_10_1 :: "binding list" where
  "vmeth_qtgui_10_1 = [
     Bind [] ''clearData'' [] RVoid [OnValue QStandardItem],
     Bind [ValueM QTGUI_QCOLORSPACE] ''colorSpace'' [] (RValue QColorSpace) [OnValue QSurfaceFormat],
     Bind [] ''column'' [] RNumber [OnValue QStandardItem],
     Bind [] ''columnCount'' [] RNumber [OnValue QStandardItem],
     Bind [ValueM QTCORE_QPOINTF] ''contentPos'' [] (RValue QPointF) [OnValue ''QScrollPrepareEvent''],
     Bind [ValueM QTCORE_QRECTF] ''contentPosRange'' [] (RValue QRectF) [OnValue ''QScrollPrepareEvent''],
     Bind [] ''data'' [PInt] RVariant [OnValue QStandardItem]]"

definition vmeth_qtgui_10_2 :: "binding list" where
  "vmeth_qtgui_10_2 = [
     Bind [] ''depthBufferSize'' [] RNumber [OnValue QSurfaceFormat],
     Bind [TypeM QTCORE_QOBJECT] ''exclusivePointGrabber'' [] RObject [OnValue ''QSinglePointEvent''],
     Bind [ValueM QTGUI_QFONT] ''font'' [] (RValue QFont) [OnValue QStandardItem],
     Bind [ValueM QTGUI_QBRUSH] ''foreground'' [] (RValue QBrush) [OnValue QStandardItem],
     Bind [ValueM QTCORE_QPOINTF] ''globalPosition'' [] (RValue QPointF) [OnValue ''QSinglePointEvent''],
     Bind [] ''greenBufferSize'' [] RNumber [OnValue QSurfaceFormat],
     Bind [] ''hasAlpha'' [] RBool [OnValue QSurfaceFormat],
     Bind [] ''hasChildren'' [] RBool [OnValue QStandardItem]]"

definition vmeth_qtgui_10_3 :: "binding list" where
  "vmeth_qtgui_10_3 = [
     Bind [ValueM QTGUI_QICON] ''icon'' [] (RValue QIcon) [OnValue QStandardItem],
     Bind [ValueM QTCORE_QMODELINDEX] ''index'' [] (RValue QModelIndex) [OnValue QStandardItem],
     Bind [] ''insertColumns'' [PInt, PInt] RVoid [OnValue QStandardItem],
     Bind [] ''insertRows'' [PInt, PInt] RVoid [OnValue QStandardItem],
     Bind [] ''isAmbiguous'' [] RBool [OnValue ''QShortcutEvent''],
     Bind [] ''isAutoTristate'' [] RBool [OnValue QStandardItem],
     Bind [] ''isBeginEvent'' [] RBool [OnValue ''QSinglePointEvent'']]"

definition vmeth_qtgui_10_4 :: "binding list" where
  "vmeth_qtgui_10_4 = [
     Bind [] ''isCheckable'' [] RBool [OnValue QStandardItem],
     Bind [] ''isDragEnabled'' [] RBool [OnValue QStandardItem],
     Bind [] ''isDropEnabled'' [] RBool [OnValue QStandardItem],
     Bind [] ''isEditable'' [] RBool [OnValue QStandardItem],
     Bind [] ''isEnabled'' [] RBool [OnValue QStandardItem],
     Bind [] ''isEndEvent'' [] RBool [OnValue ''QSinglePointEvent''],
     Bind [] ''isSelectable'' [] RBool [OnValue QStandardItem],
     Bind [] ''isUpdateEvent'' [] RBool [OnValue ''QSinglePointEvent'']]"

definition vmeth_qtgui_10_5 :: "binding list" where
  "vmeth_qtgui_10_5 = [
     Bind [] ''isUserTristate'' [] RBool [OnValue QStandardItem],
     Bind [ValueM QTGUI_QKEYSEQUENCE] ''key'' [] (RValue QKeySequence) [OnValue ''QShortcutEvent''],
     Bind [] ''majorVersion'' [] RNumber [OnValue QSurfaceFormat],
     Bind [] ''minorVersion'' [] RNumber [OnValue QSurfaceFormat],
     Bind [TypeM ''QTGUI_QSTANDARDITEMMODEL''] ''model'' [] RObject [OnValue QStandardItem],
     Bind [TypeM QTGUI_QSURFACEFORMAT] ''options'' [] (RMeta ''QSurfaceFormat::FormatOptions'') [OnValue QSurfaceFormat],
     Bind [TypeM ''QTGUI_QSTATICTEXT''] ''performanceHint'' [] (RMeta ''QStaticText::PerformanceHint'') [OnValue QStaticText],
     Bind [ValueM QTCORE_QPOINTF] ''position'' [] (RValue QPointF) [OnValue ''QSinglePointEvent'']]"

definition vmeth_qtgui_10_6 :: "binding list" where
  "vmeth_qtgui_10_6 = [
     Bind [ValueM QTGUI_QFONT, ValueM QTGUI_QTRANSFORM] ''prepare'' [PConv QTransform, PConv QFont] RVoid [OnValue QStaticText],
     Bind [TypeM QTGUI_QSURFACEFORMAT] ''profile'' [] (RMeta ''QSurfaceFormat::OpenGLContextProfile'') [OnValue QSurfaceFormat],
     Bind [ValueM QTCORE_QDATASTREAM] ''read'' [PConv QDataStream] RVoid [OnValue QStandardItem],
     Bind [] ''redBufferSize'' [] RNumber [OnValue QSurfaceFormat],
     Bind [] ''removeColumn'' [PInt] RVoid [OnValue QStandardItem],
     Bind [] ''removeColumns'' [PInt, PInt] RVoid [OnValue QStandardItem]]"

definition vmeth_qtgui_10_7 :: "binding list" where
  "vmeth_qtgui_10_7 = [
     Bind [] ''removeRow'' [PInt] RVoid [OnValue QStandardItem],
     Bind [] ''removeRows'' [PInt, PInt] RVoid [OnValue QStandardItem],
     Bind [TypeM QTGUI_QSURFACEFORMAT] ''renderableType'' [] (RMeta ''QSurfaceFormat::RenderableType'') [OnValue QSurfaceFormat],
     Bind [] ''row'' [] RNumber [OnValue QStandardItem],
     Bind [] ''rowCount'' [] RNumber [OnValue QStandardItem],
     Bind [] ''samples'' [] RNumber [OnValue QSurfaceFormat],
     Bind [ValueM QTCORE_QPOINTF] ''scenePosition'' [] (RValue QPointF) [OnValue ''QSinglePointEvent'']]"

definition vmeth_qtgui_10_8 :: "binding list" where
  "vmeth_qtgui_10_8 = [
     Bind [] ''setAccessibleDescription'' [PString True] RVoid [OnValue QStandardItem],
     Bind [] ''setAccessibleText'' [PString True] RVoid [OnValue QStandardItem],
     Bind [] ''setAlphaBufferSize'' [PInt] RVoid [OnValue QSurfaceFormat],
     Bind [] ''setAutoTristate'' [PBool] RVoid [OnValue QStandardItem],
     Bind [ValueM QTGUI_QBRUSH] ''setBackground'' [PConv QBrush] RVoid [OnValue QStandardItem],
     Bind [] ''setBlueBufferSize'' [PInt] RVoid [OnValue QSurfaceFormat],
     Bind [EnumM ''QT_CHECKSTATE''] ''setCheckState'' [PConv ''Qt::CheckState''] RVoid [OnValue QStandardItem]]"

definition vmeth_qtgui_10_9 :: "binding list" where
  "vmeth_qtgui_10_9 = [
     Bind [] ''setCheckable'' [PBool] RVoid [OnValue QStandardItem],
     Bind [ValueM QTGUI_QCOLORSPACE] ''setColorSpace'' [PConv QColorSpace] RVoid [OnValue QSurfaceFormat],
     Bind [] ''setColumnCount'' [PInt] RVoid [OnValue QStandardItem],
     Bind [ValueM QTCORE_QPOINTF] ''setContentPos'' [PConv QPointF] RVoid [OnValue ''QScrollPrepareEvent''],
     Bind [ValueM QTCORE_QRECTF] ''setContentPosRange'' [PConv QRectF] RVoid [OnValue ''QScrollPrepareEvent''],
     Bind [] ''setData'' [PVariant, PInt] RVoid [OnValue QStandardItem]]"

definition vmeth_qtgui_10_10 :: "binding list" where
  "vmeth_qtgui_10_10 = [
     Bind [] ''setDepthBufferSize'' [PInt] RVoid [OnValue QSurfaceFormat],
     Bind [] ''setDragEnabled'' [PBool] RVoid [OnValue QStandardItem],
     Bind [] ''setDropEnabled'' [PBool] RVoid [OnValue QStandardItem],
     Bind [] ''setEditable'' [PBool] RVoid [OnValue QStandardItem],
     Bind [] ''setEnabled'' [PBool] RVoid [OnValue QStandardItem],
     Bind [TypeM QTCORE_QOBJECT] ''setExclusivePointGrabber'' [PNonNull QObject_ptr] RVoid [OnValue ''QSinglePointEvent''],
     Bind [ValueM QTGUI_QFONT] ''setFont'' [PConv QFont] RVoid [OnValue QStandardItem]]"

definition vmeth_qtgui_10_11 :: "binding list" where
  "vmeth_qtgui_10_11 = [
     Bind [ValueM QTGUI_QBRUSH] ''setForeground'' [PConv QBrush] RVoid [OnValue QStandardItem],
     Bind [] ''setGreenBufferSize'' [PInt] RVoid [OnValue QSurfaceFormat],
     Bind [ValueM QTGUI_QICON] ''setIcon'' [PConv QIcon] RVoid [OnValue QStandardItem],
     Bind [] ''setMajorVersion'' [PInt] RVoid [OnValue QSurfaceFormat],
     Bind [] ''setMinorVersion'' [PInt] RVoid [OnValue QSurfaceFormat],
     Bind [TypeM QTGUI_QSURFACEFORMAT] ''setOption'' [PConv ''QSurfaceFormat::FormatOption'', PBool] RVoid [OnValue QSurfaceFormat]]"

definition vmeth_qtgui_10_12 :: "binding list" where
  "vmeth_qtgui_10_12 = [
     Bind [TypeM QTGUI_QSURFACEFORMAT] ''setOptions'' [PConv ''QSurfaceFormat::FormatOptions''] RVoid [OnValue QSurfaceFormat],
     Bind [TypeM ''QTGUI_QSTATICTEXT''] ''setPerformanceHint'' [PConv ''QStaticText::PerformanceHint''] RVoid [OnValue QStaticText],
     Bind [TypeM QTGUI_QSURFACEFORMAT] ''setProfile'' [PConv ''QSurfaceFormat::OpenGLContextProfile''] RVoid [OnValue QSurfaceFormat],
     Bind [] ''setRedBufferSize'' [PInt] RVoid [OnValue QSurfaceFormat],
     Bind [TypeM QTGUI_QSURFACEFORMAT] ''setRenderableType'' [PConv ''QSurfaceFormat::RenderableType''] RVoid [OnValue QSurfaceFormat],
     Bind [] ''setRowCount'' [PInt] RVoid [OnValue QStandardItem]]"

definition vmeth_qtgui_10_13 :: "binding list" where
  "vmeth_qtgui_10_13 = [
     Bind [] ''setSamples'' [PInt] RVoid [OnValue QSurfaceFormat],
     Bind [] ''setSelectable'' [PBool] RVoid [OnValue QStandardItem],
     Bind [ValueM QTCORE_QSIZE] ''setSizeHint'' [PConv QSize] RVoid [OnValue QStandardItem],
     Bind [] ''setStatusTip'' [PString True] RVoid [OnValue QStandardItem],
     Bind [] ''setStencilBufferSize'' [PInt] RVoid [OnValue QSurfaceFormat],
     Bind [] ''setStereo'' [PBool] RVoid [OnValue QSurfaceFormat],
     Bind [TypeM QTGUI_QSURFACEFORMAT] ''setSwapBehavior'' [PConv ''QSurfaceFormat::SwapBehavior''] RVoid [OnValue QSurfaceFormat]]"

definition vmeth_qtgui_10_14 :: "binding list" where
  "vmeth_qtgui_10_14 = [
     Bind [] ''setSwapInterval'' [PInt] RVoid [OnValue QSurfaceFormat],
     Bind [] ''setText'' [PString True] RVoid [OnValue QStandardItem, OnValue QStaticText],
     Bind [EnumM ''QT_TEXTFORMAT''] ''setTextFormat'' [PConv ''Qt::TextFormat''] RVoid [OnValue QStaticText],
     Bind [ValueM QTGUI_QTEXTOPTION] ''setTextOption'' [PConv QTextOption] RVoid [OnValue QStaticText],
     Bind [] ''setTextWidth'' [PReal ''qreal''] RVoid [OnValue QStaticText],
     Bind [] ''setToolTip'' [PString True] RVoid [OnValue QStandardItem]]"

definition vmeth_qtgui_10_15 :: "binding list" where
  "vmeth_qtgui_10_15 = [
     Bind [] ''setUserTristate'' [PBool] RVoid [OnValue QStandardItem],
     Bind [] ''setVersion'' [PInt, PInt] RVoid [OnValue QSurfaceFormat],
     Bind [ValueM QTCORE_QSIZEF] ''setViewportSize'' [PConv QSizeF] RVoid [OnValue ''QScrollPrepareEvent''],
     Bind [] ''setWhatsThis'' [PString True] RVoid [OnValue QStandardItem],
     Bind [] ''shortcutId'' [] RNumber [OnValue ''QShortcutEvent''],
     Bind [ValueM QTCORE_QSIZEF] ''size'' [] (RValue QSizeF) [OnValue QStaticText],
     Bind [ValueM QTCORE_QSIZE] ''sizeHint'' [] (RValue QSize) [OnValue QStandardItem]]"

definition vmeth_qtgui_10_16 :: "binding list" where
  "vmeth_qtgui_10_16 = [
     Bind [EnumM ''QT_SORTORDER''] ''sortChildren'' [PInt, PConv ''Qt::SortOrder''] RVoid [OnValue QStandardItem],
     Bind [ValueM QTCORE_QPOINTF] ''startPos'' [] (RValue QPointF) [OnValue ''QScrollPrepareEvent''],
     Bind [] ''statusTip'' [] RString [OnValue QStandardItem],
     Bind [] ''stencilBufferSize'' [] RNumber [OnValue QSurfaceFormat],
     Bind [] ''stereo'' [] RBool [OnValue QSurfaceFormat],
     Bind [] ''supportsOpenGL'' [] RBool [OnValue ''QSurface''],
     Bind [TypeM ''QTGUI_QSURFACE''] ''surfaceClass'' [] (RMeta ''QSurface::SurfaceClass'') [OnValue ''QSurface'']]"

definition vmeth_qtgui_10_17 :: "binding list" where
  "vmeth_qtgui_10_17 = [
     Bind [ValueM ''QTGUI_QSTATICTEXT''] ''swap'' [PConv QStaticText] RVoid [OnValue QStaticText],
     Bind [TypeM QTGUI_QSURFACEFORMAT] ''swapBehavior'' [] (RMeta ''QSurfaceFormat::SwapBehavior'') [OnValue QSurfaceFormat],
     Bind [] ''swapInterval'' [] RNumber [OnValue QSurfaceFormat],
     Bind [TypeM QTGUI_QSURFACEFORMAT] ''testOption'' [PConv ''QSurfaceFormat::FormatOption''] RBool [OnValue QSurfaceFormat],
     Bind [] ''text'' [] RString [OnValue QStandardItem, OnValue QStaticText],
     Bind [EnumM ''QT_TEXTFORMAT''] ''textFormat'' [] (RMeta ''Qt::TextFormat'') [OnValue QStaticText],
     Bind [ValueM QTGUI_QTEXTOPTION] ''textOption'' [] (RValue QTextOption) [OnValue QStaticText]]"

definition vmeth_qtgui_10_18 :: "binding list" where
  "vmeth_qtgui_10_18 = [
     Bind [] ''textWidth'' [] RNumber [OnValue QStaticText],
     Bind [] ''tip'' [] RString [OnValue ''QStatusTipEvent''],
     Bind [] ''toolTip'' [] RString [OnValue QStandardItem],
     Bind [] ''type'' [] RNumber [OnValue QStandardItem],
     Bind [ValueM QTCORE_QSIZEF] ''viewportSize'' [] (RValue QSizeF) [OnValue ''QScrollPrepareEvent''],
     Bind [] ''whatsThis'' [] RString [OnValue QStandardItem],
     Bind [ValueM QTCORE_QDATASTREAM] ''write'' [PConv QDataStream] RVoid [OnValue QStandardItem]]"

definition vtypes_qtgui_10 :: "string list" where
  "vtypes_qtgui_10 = [''QScrollPrepareEvent'', ''QShortcutEvent'', ''QSinglePointEvent'', QStandardItem, QStaticText, ''QStatusTipEvent'',
     ''QSurface'', QSurfaceFormat]"

definition vmeth_qtgui_11_0 :: "binding list" where
  "vmeth_qtgui_11_0 = [
     Bind [] ''anchor'' [] RNumber [OnValue QTextCursor],
     Bind [] ''anchorHref'' [] RString [OnValue QTextCharFormat],
     Bind [] ''anchorNames'' [] (RList (IMeta QString)) [OnValue QTextCharFormat],
     Bind [] ''atBlockEnd'' [] RBool [OnValue QTextCursor],
     Bind [] ''atBlockStart'' [] RBool [OnValue QTextCursor],
     Bind [] ''atEnd'' [] RBool [OnValue QTextCursor],
     Bind [] ''atStart'' [] RBool [OnValue QTextCursor],
     Bind [ValueM QTGUI_QBRUSH] ''background'' [] (RValue QBrush) [OnValue QTextFormat]]"

definition vmeth_qtgui_11_1 :: "binding list" where
  "vmeth_qtgui_11_1 = [
     Bind [] ''baselineOffset'' [] RNumber [OnValue QTextCharFormat],
     Bind [TypeM QTGUI_QTEXTBLOCK] ''begin'' [] (RMeta ''QTextBlock::iterator'') [OnValue QTextBlock],
     Bind [] ''beginEditBlock'' [] RVoid [OnValue QTextCursor],
     Bind [ValueM QTGUI_QTEXTBLOCK] ''block'' [] (RValue QTextBlock) [OnValue QTextCursor],
     Bind [ValueM QTGUI_QTEXTCHARFORMAT] ''blockCharFormat'' [] (RValue QTextCharFormat) [OnValue QTextCursor],
     Bind [ValueM ''QTGUI_QTEXTBLOCKFORMAT''] ''blockFormat'' [] (RValue QTextBlockFormat) [OnValue QTextBlock, OnValue QTextCursor],
     Bind [] ''blockFormatIndex'' [] RNumber [OnValue QTextBlock]]"

definition vmeth_qtgui_11_2 :: "binding list" where
  "vmeth_qtgui_11_2 = [
     Bind [] ''blockNumber'' [] RNumber [OnValue QTextBlock, OnValue QTextCursor],
     Bind [] ''boolProperty'' [PInt] RBool [OnValue QTextFormat],
     Bind [] ''bottomMargin'' [] RNumber [OnValue QTextBlockFormat],
     Bind [ValueM QTGUI_QBRUSH] ''brushProperty'' [PInt] (RValue QBrush) [OnValue QTextFormat],
     Bind [ValueM QTGUI_QTEXTCHARFORMAT] ''charFormat'' [] (RValue QTextCharFormat) [OnValue QTextBlock, OnValue QTextCursor],
     Bind [] ''charFormatIndex'' [] RNumber [OnValue QTextBlock],
     Bind [] ''clearBackground'' [] RVoid [OnValue QTextFormat]]"

definition vmeth_qtgui_11_3 :: "binding list" where
  "vmeth_qtgui_11_3 = [
     Bind [] ''clearForeground'' [] RVoid [OnValue QTextFormat],
     Bind [] ''clearLayout'' [] RVoid [OnValue QTextBlock],
     Bind [] ''clearProperty'' [PInt] RVoid [OnValue QTextFormat],
     Bind [] ''clearSelection'' [] RVoid [OnValue QTextCursor],
     Bind [ValueM QTGUI_QCOLOR] ''colorProperty'' [PInt] (RValue QColor) [OnValue QTextFormat],
     Bind [] ''columnNumber'' [] RNumber [OnValue QTextCursor],
     Bind [] ''contains'' [PInt] RBool [OnValue QTextBlock]]"

definition vmeth_qtgui_11_4 :: "binding list" where
  "vmeth_qtgui_11_4 = [
     Bind [TypeM ''QTGUI_QTEXTLIST'', ValueM ''QTGUI_QTEXTLISTFORMAT''] ''createList'' [PConv QTextListFormat] RObject [OnValue QTextCursor],
     Bind [TypeM ''QTGUI_QTEXTLIST'', TypeM ''QTGUI_QTEXTLISTFORMAT''] ''createList'' [PConv ''QTextListFormat::Style''] RObject [OnValue QTextCursor],
     Bind [TypeM ''QTGUI_QTEXTFRAME''] ''currentFrame'' [] RObject [OnValue QTextCursor],
     Bind [TypeM ''QTGUI_QTEXTLIST''] ''currentList'' [] RObject [OnValue QTextCursor],
     Bind [TypeM ''QTGUI_QTEXTTABLE''] ''currentTable'' [] RObject [OnValue QTextCursor],
     Bind [] ''deleteChar'' [] RVoid [OnValue QTextCursor],
     Bind [] ''deletePreviousChar'' [] RVoid [OnValue QTextCursor]]"

definition vmeth_qtgui_11_5 :: "binding list" where
  "vmeth_qtgui_11_5 = [
     Bind [TypeM QTCORE_QIODEVICE] ''device'' [] RObject [OnValue QTextDocumentWriter],
     Bind [TypeM QTGUI_QTEXTDOCUMENT] ''document'' [] RObject [OnValue QTextBlock, OnValue QTextCursor],
     Bind [] ''doubleProperty'' [PInt] RNumber [OnValue QTextFormat],
     Bind [TypeM QTGUI_QTEXTBLOCK] ''end'' [] (RMeta ''QTextBlock::iterator'') [OnValue QTextBlock],
     Bind [] ''endEditBlock'' [] RVoid [OnValue QTextCursor],
     Bind [] ''fileName'' [] RString [OnValue QTextDocumentWriter],
     Bind [] ''firstLineNumber'' [] RNumber [OnValue QTextBlock]]"

definition vmeth_qtgui_11_6 :: "binding list" where
  "vmeth_qtgui_11_6 = [
     Bind [ValueM QTGUI_QFONT] ''font'' [] (RValue QFont) [OnValue QTextCharFormat],
     Bind [TypeM QTGUI_QFONT] ''fontCapitalization'' [] (RMeta ''QFont::Capitalization'') [OnValue QTextCharFormat],
     Bind [] ''fontFamilies'' [] RVariant [OnValue QTextCharFormat],
     Bind [] ''fontFamily'' [] RString [OnValue QTextCharFormat],
     Bind [] ''fontFixedPitch'' [] RBool [OnValue QTextCharFormat],
     Bind [TypeM QTGUI_QFONT] ''fontHintingPreference'' [] (RMeta ''QFont::HintingPreference'') [OnValue QTextCharFormat],
     Bind [] ''fontItalic'' [] RBool [OnValue QTextCharFormat],
     Bind [] ''fontKerning'' [] RBool [OnValue QTextCharFormat]]"

definition vmeth_qtgui_11_7 :: "binding list" where
  "vmeth_qtgui_11_7 = [
     Bind [] ''fontLetterSpacing'' [] RNumber [OnValue QTextCharFormat],
     Bind [TypeM QTGUI_QFONT] ''fontLetterSpacingType'' [] (RMeta ''QFont::SpacingType'') [OnValue QTextCharFormat],
     Bind [] ''fontOverline'' [] RBool [OnValue QTextCharFormat],
     Bind [] ''fontPointSize'' [] RNumber [OnValue QTextCharFormat],
     Bind [] ''fontStretch'' [] RNumber [OnValue QTextCharFormat],
     Bind [] ''fontStrikeOut'' [] RBool [OnValue QTextCharFormat],
     Bind [TypeM QTGUI_QFONT] ''fontStyleHint'' [] (RMeta ''QFont::StyleHint'') [OnValue QTextCharFormat],
     Bind [] ''fontStyleName'' [] RVariant [OnValue QTextCharFormat]]"

definition vmeth_qtgui_11_8 :: "binding list" where
  "vmeth_qtgui_11_8 = [
     Bind [TypeM QTGUI_QFONT] ''fontStyleStrategy'' [] (RMeta ''QFont::StyleStrategy'') [OnValue QTextCharFormat],
     Bind [] ''fontUnderline'' [] RBool [OnValue QTextCharFormat],
     Bind [] ''fontWeight'' [] RNumber [OnValue QTextCharFormat],
     Bind [] ''fontWordSpacing'' [] RNumber [OnValue QTextCharFormat],
     Bind [ValueM QTGUI_QBRUSH] ''foreground'' [] (RValue QBrush) [OnValue QTextFormat],
     Bind [ValueM QTCORE_QBYTEARRAY] ''format'' [] (RValue QByteArray) [OnValue QTextDocumentWriter],
     Bind [] ''hasComplexSelection'' [] RBool [OnValue QTextCursor],
     Bind [] ''hasProperty'' [PInt] RBool [OnValue QTextFormat]]"

definition vmeth_qtgui_11_9 :: "binding list" where
  "vmeth_qtgui_11_9 = [
     Bind [] ''hasSelection'' [] RBool [OnValue QTextCursor],
     Bind [] ''headingLevel'' [] RNumber [OnValue QTextBlockFormat],
     Bind [] ''indent'' [] RNumber [OnValue QTextBlockFormat],
     Bind [] ''insertBlock'' [] RVoid [OnValue QTextCursor],
     Bind [ValueM ''QTGUI_QTEXTBLOCKFORMAT''] ''insertBlock'' [PConv QTextBlockFormat] RVoid [OnValue QTextCursor],
     Bind [ValueM ''QTGUI_QTEXTBLOCKFORMAT'', ValueM QTGUI_QTEXTCHARFORMAT] ''insertBlock'' [PConv QTextBlockFormat, PConv QTextCharFormat] RVoid [OnValue QTextCursor],
     Bind [ValueM ''QTGUI_QTEXTDOCUMENTFRAGMENT''] ''insertFragment'' [PConv QTextDocumentFragment] RVoid [OnValue QTextCursor]]"

definition vmeth_qtgui_11_10 :: "binding list" where
  "vmeth_qtgui_11_10 = [
     Bind [TypeM ''QTGUI_QTEXTFRAME'', ValueM QTGUI_QTEXTFRAMEFORMAT] ''insertFrame'' [PConv QTextFrameFormat] RObject [OnValue QTextCursor],
     Bind [] ''insertHtml'' [PString True] RVoid [OnValue QTextCursor],
     Bind [ValueM QTGUI_QIMAGE] ''insertImage'' [PConv QImage, PString True] RVoid [OnValue QTextCursor],
     Bind [] ''insertImage'' [PString True] RVoid [OnValue QTextCursor],
     Bind [ValueM ''QTGUI_QTEXTIMAGEFORMAT''] ''insertImage'' [PConv QTextImageFormat] RVoid [OnValue QTextCursor],
     Bind [TypeM QTGUI_QTEXTFRAMEFORMAT, ValueM ''QTGUI_QTEXTIMAGEFORMAT''] ''insertImage'' [PConv QTextImageFormat, PConv ''QTextFrameFormat::Position''] RVoid [OnValue QTextCursor]]"

definition vmeth_qtgui_11_11 :: "binding list" where
  "vmeth_qtgui_11_11 = [
     Bind [TypeM ''QTGUI_QTEXTLIST'', ValueM ''QTGUI_QTEXTLISTFORMAT''] ''insertList'' [PConv QTextListFormat] RObject [OnValue QTextCursor],
     Bind [TypeM ''QTGUI_QTEXTLIST'', TypeM ''QTGUI_QTEXTLISTFORMAT''] ''insertList'' [PConv ''QTextListFormat::Style''] RObject [OnValue QTextCursor],
     Bind [TypeM ''QTGUI_QTEXTTABLE''] ''insertTable'' [PInt, PInt] RObject [OnValue QTextCursor],
     Bind [TypeM ''QTGUI_QTEXTTABLE'', ValueM ''QTGUI_QTEXTTABLEFORMAT''] ''insertTable'' [PInt, PInt, PConv QTextTableFormat] RObject [OnValue QTextCursor],
     Bind [] ''insertText'' [PString True] RVoid [OnValue QTextCursor],
     Bind [ValueM QTGUI_QTEXTCHARFORMAT] ''insertText'' [PString True, PConv QTextCharFormat] RVoid [OnValue QTextCursor]]"

definition vmeth_qtgui_11_12 :: "binding list" where
  "vmeth_qtgui_11_12 = [
     Bind [] ''intProperty'' [PInt] RNumber [OnValue QTextFormat],
     Bind [] ''isAnchor'' [] RBool [OnValue QTextCharFormat],
     Bind [] ''isBlockFormat'' [] RBool [OnValue QTextFormat],
     Bind [] ''isCharFormat'' [] RBool [OnValue QTextFormat],
     Bind [ValueM QTGUI_QTEXTCURSOR] ''isCopyOf'' [PConv QTextCursor] RBool [OnValue QTextCursor],
     Bind [] ''isEmpty'' [] RBool [OnValue QTextDocumentFragment, OnValue QTextFormat],
     Bind [] ''isFrameFormat'' [] RBool [OnValue QTextFormat]]"

definition vmeth_qtgui_11_13 :: "binding list" where
  "vmeth_qtgui_11_13 = [
     Bind [] ''isImageFormat'' [] RBool [OnValue QTextFormat],
     Bind [] ''isListFormat'' [] RBool [OnValue QTextFormat],
     Bind [] ''isNull'' [] RBool [OnValue QTextCursor],
     Bind [] ''isTableCellFormat'' [] RBool [OnValue QTextFormat],
     Bind [] ''isTableFormat'' [] RBool [OnValue QTextFormat],
     Bind [] ''isValid'' [] RBool [OnValue QTextBlock, OnValue QTextBlockFormat, OnValue QTextCharFormat, OnValue QTextFormat],
     Bind [] ''isVisible'' [] RBool [OnValue QTextBlock]]"

definition vmeth_qtgui_11_14 :: "binding list" where
  "vmeth_qtgui_11_14 = [
     Bind [] ''joinPreviousEditBlock'' [] RVoid [OnValue QTextCursor],
     Bind [] ''keepPositionOnInsert'' [] RBool [OnValue QTextCursor],
     Bind [EnumM QT_LAYOUTDIRECTION] ''layoutDirection'' [] (RMeta Qt_LayoutDirection) [OnValue QTextFormat],
     Bind [] ''leftMargin'' [] RNumber [OnValue QTextBlockFormat],
     Bind [] ''length'' [] RNumber [OnValue QTextBlock],
     Bind [ValueM ''QTGUI_QTEXTLENGTH''] ''lengthProperty'' [PInt] (RValue ''QTextLength'') [OnValue QTextFormat],
     Bind [ValueM ''QTGUI_QTEXTLENGTH''] ''lengthVectorProperty'' [PInt] (RList (IValue ''QTextLength'')) [OnValue QTextFormat]]"

definition vmeth_qtgui_11_15 :: "binding list" where
  "vmeth_qtgui_11_15 = [
     Bind [] ''lineCount'' [] RNumber [OnValue QTextBlock],
     Bind [] ''lineHeight'' [] RNumber [OnValue QTextBlockFormat],
     Bind [] ''lineHeight'' [PReal ''qreal'', PReal ''qreal''] RNumber [OnValue QTextBlockFormat],
     Bind [] ''lineHeightType'' [] RNumber [OnValue QTextBlockFormat],
     Bind [TypeM ''QTGUI_QTEXTBLOCKFORMAT''] ''marker'' [] (RMeta ''QTextBlockFormat::MarkerType'') [OnValue QTextBlockFormat],
     Bind [ValueM ''QTGUI_QTEXTFORMAT''] ''merge'' [PConv QTextFormat] RVoid [OnValue QTextFormat],
     Bind [ValueM QTGUI_QTEXTCHARFORMAT] ''mergeBlockCharFormat'' [PConv QTextCharFormat] RVoid [OnValue QTextCursor]]"

definition vmeth_qtgui_11_16 :: "binding list" where
  "vmeth_qtgui_11_16 = [
     Bind [ValueM ''QTGUI_QTEXTBLOCKFORMAT''] ''mergeBlockFormat'' [PConv QTextBlockFormat] RVoid [OnValue QTextCursor],
     Bind [ValueM QTGUI_QTEXTCHARFORMAT] ''mergeCharFormat'' [PConv QTextCharFormat] RVoid [OnValue QTextCursor],
     Bind [TypeM QTGUI_QTEXTCURSOR] ''movePosition'' [PConv ''QTextCursor::MoveOperation'', PConv ''QTextCursor::MoveMode'', PInt] RBool [OnValue QTextCursor],
     Bind [ValueM QTGUI_QTEXTBLOCK] ''next'' [] (RValue QTextBlock) [OnValue QTextBlock],
     Bind [] ''nonBreakableLines'' [] RBool [OnValue QTextBlockFormat],
     Bind [] ''objectIndex'' [] RNumber [OnValue QTextFormat],
     Bind [] ''objectType'' [] RNumber [OnValue QTextFormat]]"

definition vmeth_qtgui_11_17 :: "binding list" where
  "vmeth_qtgui_11_17 = [
     Bind [ValueM QTGUI_QPEN] ''penProperty'' [PInt] (RValue QPen) [OnValue QTextFormat],
     Bind [] ''position'' [] RNumber [OnValue QTextBlock, OnValue QTextCursor],
     Bind [] ''positionInBlock'' [] RNumber [OnValue QTextCursor],
     Bind [] ''pressure'' [] RNumber [OnValue ''QTabletEvent''],
     Bind [ValueM QTGUI_QTEXTBLOCK] ''previous'' [] (RValue QTextBlock) [OnValue QTextBlock],
     Bind [] ''property'' [PInt] RVariant [OnValue QTextFormat],
     Bind [] ''propertyCount'' [] RNumber [OnValue QTextFormat]]"

definition vmeth_qtgui_11_18 :: "binding list" where
  "vmeth_qtgui_11_18 = [
     Bind [] ''removeSelectedText'' [] RVoid [OnValue QTextCursor],
     Bind [] ''revision'' [] RNumber [OnValue QTextBlock],
     Bind [] ''rightMargin'' [] RNumber [OnValue QTextBlockFormat],
     Bind [] ''rotation'' [] RNumber [OnValue ''QTabletEvent''],
     Bind [TypeM QTGUI_QTEXTCURSOR] ''select'' [PConv ''QTextCursor::SelectionType''] RVoid [OnValue QTextCursor],
     Bind [] ''selectedText'' [] RString [OnValue QTextCursor],
     Bind [ValueM ''QTGUI_QTEXTDOCUMENTFRAGMENT''] ''selection'' [] (RValue QTextDocumentFragment) [OnValue QTextCursor],
     Bind [] ''selectionEnd'' [] RNumber [OnValue QTextCursor]]"

definition vmeth_qtgui_11_19 :: "binding list" where
  "vmeth_qtgui_11_19 = [
     Bind [] ''selectionStart'' [] RNumber [OnValue QTextCursor],
     Bind [] ''setAnchor'' [PBool] RVoid [OnValue QTextCharFormat],
     Bind [] ''setAnchorHref'' [PString True] RVoid [OnValue QTextCharFormat],
     Bind [] ''setAnchorNames'' [PStringList] RVoid [OnValue QTextCharFormat],
     Bind [ValueM QTGUI_QBRUSH] ''setBackground'' [PConv QBrush] RVoid [OnValue QTextFormat],
     Bind [] ''setBaselineOffset'' [PReal ''qreal''] RVoid [OnValue QTextCharFormat],
     Bind [ValueM QTGUI_QTEXTCHARFORMAT] ''setBlockCharFormat'' [PConv QTextCharFormat] RVoid [OnValue QTextCursor]]"

definition vmeth_qtgui_11_20 :: "binding list" where
  "vmeth_qtgui_11_20 = [
     Bind [ValueM ''QTGUI_QTEXTBLOCKFORMAT''] ''setBlockFormat'' [PConv QTextBlockFormat] RVoid [OnValue QTextCursor],
     Bind [] ''setBottomMargin'' [PReal ''qreal''] RVoid [OnValue QTextBlockFormat],
     Bind [ValueM QTGUI_QTEXTCHARFORMAT] ''setCharFormat'' [PConv QTextCharFormat] RVoid [OnValue QTextCursor],
     Bind [TypeM QTCORE_QIODEVICE] ''setDevice'' [PNonNull QIODevice_ptr] RVoid [OnValue QTextDocumentWriter],
     Bind [] ''setFileName'' [PString True] RVoid [OnValue QTextDocumentWriter],
     Bind [TypeM QTGUI_QTEXTCHARFORMAT, ValueM QTGUI_QFONT] ''setFont'' [PConv QFont, PConv ''QTextCharFormat::FontPropertiesInheritanceBehavior''] RVoid [OnValue QTextCharFormat]]"

definition vmeth_qtgui_11_21 :: "binding list" where
  "vmeth_qtgui_11_21 = [
     Bind [TypeM QTGUI_QFONT] ''setFontCapitalization'' [PConv ''QFont::Capitalization''] RVoid [OnValue QTextCharFormat],
     Bind [] ''setFontFamilies'' [PStringList] RVoid [OnValue QTextCharFormat],
     Bind [] ''setFontFamily'' [PString True] RVoid [OnValue QTextCharFormat],
     Bind [] ''setFontFixedPitch'' [PBool] RVoid [OnValue QTextCharFormat],
     Bind [TypeM QTGUI_QFONT] ''setFontHintingPreference'' [PConv ''QFont::HintingPreference''] RVoid [OnValue QTextCharFormat],
     Bind [] ''setFontItalic'' [PBool] RVoid [OnValue QTextCharFormat]]"

definition vmeth_qtgui_11_22 :: "binding list" where
  "vmeth_qtgui_11_22 = [
     Bind [] ''setFontKerning'' [PBool] RVoid [OnValue QTextCharFormat],
     Bind [] ''setFontLetterSpacing'' [PReal ''qreal''] RVoid [OnValue QTextCharFormat],
     Bind [TypeM QTGUI_QFONT] ''setFontLetterSpacingType'' [PConv ''QFont::SpacingType''] RVoid [OnValue QTextCharFormat],
     Bind [] ''setFontOverline'' [PBool] RVoid [OnValue QTextCharFormat],
     Bind [] ''setFontPointSize'' [PReal ''qreal''] RVoid [OnValue QTextCharFormat],
     Bind [] ''setFontStretch'' [PInt] RVoid [OnValue QTextCharFormat],
     Bind [] ''setFontStrikeOut'' [PBool] RVoid [OnValue QTextCharFormat]]"

definition vmeth_qtgui_11_23 :: "binding list" where
  "vmeth_qtgui_11_23 = [
     Bind [TypeM QTGUI_QFONT] ''setFontStyleHint'' [PConv ''QFont::StyleHint'', PConv ''QFont::StyleStrategy''] RVoid [OnValue QTextCharFormat],
     Bind [] ''setFontStyleName'' [PString True] RVoid [OnValue QTextCharFormat],
     Bind [TypeM QTGUI_QFONT] ''setFontStyleStrategy'' [PConv ''QFont::StyleStrategy''] RVoid [OnValue QTextCharFormat],
     Bind [] ''setFontUnderline'' [PBool] RVoid [OnValue QTextCharFormat],
     Bind [] ''setFontWeight'' [PInt] RVoid [OnValue QTextCharFormat],
     Bind [] ''setFontWordSpacing'' [PReal ''qreal''] RVoid [OnValue QTextCharFormat]]"

definition vmeth_qtgui_11_24 :: "binding list" where
  "vmeth_qtgui_11_24 = [
     Bind [ValueM QTGUI_QBRUSH] ''setForeground'' [PConv QBrush] RVoid [OnValue QTextFormat],
     Bind [ValueM QTCORE_QBYTEARRAY] ''setFormat'' [PConv QByteArray] RVoid [OnValue QTextDocumentWriter],
     Bind [] ''setHeadingLevel'' [PInt] RVoid [OnValue QTextBlockFormat],
     Bind [] ''setIndent'' [PInt] RVoid [OnValue QTextBlockFormat],
     Bind [] ''setKeepPositionOnInsert'' [PBool] RVoid [OnValue QTextCursor],
     Bind [EnumM QT_LAYOUTDIRECTION] ''setLayoutDirection'' [PConv Qt_LayoutDirection] RVoid [OnValue QTextFormat]]"

definition vmeth_qtgui_11_25 :: "binding list" where
  "vmeth_qtgui_11_25 = [
     Bind [] ''setLeftMargin'' [PReal ''qreal''] RVoid [OnValue QTextBlockFormat],
     Bind [] ''setLineCount'' [PInt] RVoid [OnValue QTextBlock],
     Bind [] ''setLineHeight'' [PReal ''qreal'', PInt] RVoid [OnValue QTextBlockFormat],
     Bind [TypeM ''QTGUI_QTEXTBLOCKFORMAT''] ''setMarker'' [PConv ''QTextBlockFormat::MarkerType''] RVoid [OnValue QTextBlockFormat],
     Bind [] ''setNonBreakableLines'' [PBool] RVoid [OnValue QTextBlockFormat],
     Bind [] ''setObjectIndex'' [PInt] RVoid [OnValue QTextFormat],
     Bind [] ''setObjectType'' [PInt] RVoid [OnValue QTextFormat]]"

definition vmeth_qtgui_11_26 :: "binding list" where
  "vmeth_qtgui_11_26 = [
     Bind [TypeM QTGUI_QTEXTCURSOR] ''setPosition'' [PInt, PConv ''QTextCursor::MoveMode''] RVoid [OnValue QTextCursor],
     Bind [ValueM ''QTGUI_QTEXTLENGTH''] ''setProperty'' [PInt, PListV ''QTextLength''] RVoid [OnValue QTextFormat],
     Bind [] ''setProperty'' [PInt, PVariant] RVoid [OnValue QTextFormat],
     Bind [] ''setRevision'' [PInt] RVoid [OnValue QTextBlock],
     Bind [] ''setRightMargin'' [PReal ''qreal''] RVoid [OnValue QTextBlockFormat],
     Bind [] ''setSubScriptBaseline'' [PReal ''qreal''] RVoid [OnValue QTextCharFormat]]"

definition vmeth_qtgui_11_27 :: "binding list" where
  "vmeth_qtgui_11_27 = [
     Bind [] ''setSuperScriptBaseline'' [PReal ''qreal''] RVoid [OnValue QTextCharFormat],
     Bind [] ''setTableCellColumnSpan'' [PInt] RVoid [OnValue QTextCharFormat],
     Bind [] ''setTableCellRowSpan'' [PInt] RVoid [OnValue QTextCharFormat],
     Bind [] ''setTextIndent'' [PReal ''qreal''] RVoid [OnValue QTextBlockFormat],
     Bind [ValueM QTGUI_QPEN] ''setTextOutline'' [PConv QPen] RVoid [OnValue QTextCharFormat],
     Bind [] ''setToolTip'' [PString True] RVoid [OnValue QTextCharFormat],
     Bind [] ''setTopMargin'' [PReal ''qreal''] RVoid [OnValue QTextBlockFormat]]"

definition vmeth_qtgui_11_28 :: "binding list" where
  "vmeth_qtgui_11_28 = [
     Bind [ValueM QTGUI_QCOLOR] ''setUnderlineColor'' [PConv QColor] RVoid [OnValue QTextCharFormat],
     Bind [TypeM QTGUI_QTEXTCHARFORMAT] ''setUnderlineStyle'' [PConv ''QTextCharFormat::UnderlineStyle''] RVoid [OnValue QTextCharFormat],
     Bind [] ''setUserState'' [PInt] RVoid [OnValue QTextBlock],
     Bind [TypeM QTGUI_QTEXTCHARFORMAT] ''setVerticalAlignment'' [PConv ''QTextCharFormat::VerticalAlignment''] RVoid [OnValue QTextCharFormat],
     Bind [] ''setVerticalMovementX'' [PInt] RVoid [OnValue QTextCursor],
     Bind [] ''setVisible'' [PBool] RVoid [OnValue QTextBlock]]"

definition vmeth_qtgui_11_29 :: "binding list" where
  "vmeth_qtgui_11_29 = [
     Bind [] ''setVisualNavigation'' [PBool] RVoid [OnValue QTextCursor],
     Bind [] ''stringProperty'' [PInt] RString [OnValue QTextFormat],
     Bind [] ''subScriptBaseline'' [] RNumber [OnValue QTextCharFormat],
     Bind [] ''superScriptBaseline'' [] RNumber [OnValue QTextCharFormat],
     Bind [ValueM QTGUI_QTEXTCURSOR] ''swap'' [PConv QTextCursor] RVoid [OnValue QTextCursor],
     Bind [ValueM ''QTGUI_QTEXTFORMAT''] ''swap'' [PConv QTextFormat] RVoid [OnValue QTextFormat],
     Bind [] ''tableCellColumnSpan'' [] RNumber [OnValue QTextCharFormat]]"

definition vmeth_qtgui_11_30 :: "binding list" where
  "vmeth_qtgui_11_30 = [
     Bind [] ''tableCellRowSpan'' [] RNumber [OnValue QTextCharFormat],
     Bind [] ''tangentialPressure'' [] RNumber [OnValue ''QTabletEvent''],
     Bind [] ''text'' [] RString [OnValue QTextBlock],
     Bind [EnumM QT_LAYOUTDIRECTION] ''textDirection'' [] (RMeta Qt_LayoutDirection) [OnValue QTextBlock],
     Bind [] ''textIndent'' [] RNumber [OnValue QTextBlockFormat],
     Bind [TypeM ''QTGUI_QTEXTLIST''] ''textList'' [] RObject [OnValue QTextBlock],
     Bind [ValueM QTGUI_QPEN] ''textOutline'' [] (RValue QPen) [OnValue QTextCharFormat],
     Bind [ValueM ''QTGUI_QTEXTBLOCKFORMAT''] ''toBlockFormat'' [] (RValue QTextBlockFormat) [OnValue QTextFormat]]"

definition vmeth_qtgui_11_31 :: "binding list" where
  "vmeth_qtgui_11_31 = [
     Bind [ValueM QTGUI_QTEXTCHARFORMAT] ''toCharFormat'' [] (RValue QTextCharFormat) [OnValue QTextFormat],
     Bind [ValueM QTGUI_QTEXTFRAMEFORMAT] ''toFrameFormat'' [] (RValue QTextFrameFormat) [OnValue QTextFormat],
     Bind [] ''toHtml'' [] RString [OnValue QTextDocumentFragment],
     Bind [ValueM ''QTGUI_QTEXTIMAGEFORMAT''] ''toImageFormat'' [] (RValue QTextImageFormat) [OnValue QTextFormat],
     Bind [ValueM ''QTGUI_QTEXTLISTFORMAT''] ''toListFormat'' [] (RValue QTextListFormat) [OnValue QTextFormat],
     Bind [] ''toPlainText'' [] RString [OnValue QTextDocumentFragment],
     Bind [] ''toRawText'' [] RString [OnValue QTextDocumentFragment]]"

definition vmeth_qtgui_11_32 :: "binding list" where
  "vmeth_qtgui_11_32 = [
     Bind [ValueM ''QTGUI_QTEXTTABLECELLFORMAT''] ''toTableCellFormat'' [] (RValue QTextTableCellFormat) [OnValue QTextFormat],
     Bind [ValueM ''QTGUI_QTEXTTABLEFORMAT''] ''toTableFormat'' [] (RValue QTextTableFormat) [OnValue QTextFormat],
     Bind [] ''toolTip'' [] RString [OnValue QTextCharFormat],
     Bind [] ''topMargin'' [] RNumber [OnValue QTextBlockFormat],
     Bind [] ''type'' [] RNumber [OnValue QTextFormat],
     Bind [ValueM QTGUI_QCOLOR] ''underlineColor'' [] (RValue QColor) [OnValue QTextCharFormat],
     Bind [TypeM QTGUI_QTEXTCHARFORMAT] ''underlineStyle'' [] (RMeta ''QTextCharFormat::UnderlineStyle'') [OnValue QTextCharFormat],
     Bind [] ''userState'' [] RNumber [OnValue QTextBlock]]"

definition vmeth_qtgui_11_33 :: "binding list" where
  "vmeth_qtgui_11_33 = [
     Bind [TypeM QTGUI_QTEXTCHARFORMAT] ''verticalAlignment'' [] (RMeta ''QTextCharFormat::VerticalAlignment'') [OnValue QTextCharFormat],
     Bind [] ''verticalMovementX'' [] RNumber [OnValue QTextCursor],
     Bind [] ''visualNavigation'' [] RBool [OnValue QTextCursor],
     Bind [TypeM QTGUI_QTEXTDOCUMENT] ''write'' [PNonNull QTextDocument_ptr] RBool [OnValue QTextDocumentWriter],
     Bind [ValueM ''QTGUI_QTEXTDOCUMENTFRAGMENT''] ''write'' [PConv QTextDocumentFragment] RBool [OnValue QTextDocumentWriter],
     Bind [] ''xTilt'' [] RNumber [OnValue ''QTabletEvent''],
     Bind [] ''yTilt'' [] RNumber [OnValue ''QTabletEvent''],
     Bind [] ''z'' [] RNumber [OnValue ''QTabletEvent'']]"

definition vtypes_qtgui_11 :: "string list" where
  "vtypes_qtgui_11 = [''QTabletEvent'', QTextBlock, QTextBlockFormat, QTextCharFormat, QTextCursor, QTextDocumentFragment,
     QTextDocumentWriter, QTextFormat]"

definition vmeth_qtgui_12_0 :: "binding list" where
  "vmeth_qtgui_12_0 = [
     Bind [] ''ascent'' [] RNumber [OnValue QTextInlineObject, OnValue ''QTextItem'', OnValue QTextLine],
     Bind [] ''beginLayout'' [] RVoid [OnValue QTextLayout],
     Bind [] ''border'' [] RNumber [OnValue QTextFrameFormat],
     Bind [ValueM QTGUI_QBRUSH] ''borderBrush'' [] (RValue QBrush) [OnValue QTextFrameFormat],
     Bind [TypeM QTGUI_QTEXTFRAMEFORMAT] ''borderStyle'' [] (RMeta QTextFrameFormat_BorderStyle) [OnValue QTextFrameFormat],
     Bind [] ''bottomMargin'' [] RNumber [OnValue QTextFrameFormat],
     Bind [ValueM QTCORE_QRECTF] ''boundingRect'' [] (RValue QRectF) [OnValue QTextLayout]]"

definition vmeth_qtgui_12_1 :: "binding list" where
  "vmeth_qtgui_12_1 = [
     Bind [] ''cacheEnabled'' [] RBool [OnValue QTextLayout],
     Bind [ValueM QTGUI_QTEXTCHARFORMAT] ''charFormat'' [] (RValue QTextCharFormat) [OnValue ''QTextFragment''],
     Bind [] ''charFormatIndex'' [] RNumber [OnValue ''QTextFragment''],
     Bind [] ''clearFormats'' [] RVoid [OnValue QTextLayout],
     Bind [] ''clearLayout'' [] RVoid [OnValue QTextLayout],
     Bind [] ''contains'' [PInt] RBool [OnValue ''QTextFragment''],
     Bind [ValueM ''QTGUI_QTEXTLINE''] ''createLine'' [] (RValue QTextLine) [OnValue QTextLayout]]"

definition vmeth_qtgui_12_2 :: "binding list" where
  "vmeth_qtgui_12_2 = [
     Bind [EnumM ''QT_CURSORMOVESTYLE''] ''cursorMoveStyle'' [] (RMeta ''Qt::CursorMoveStyle'') [OnValue QTextLayout],
     Bind [] ''descent'' [] RNumber [OnValue QTextInlineObject, OnValue ''QTextItem'', OnValue QTextLine],
     Bind [] ''endLayout'' [] RVoid [OnValue QTextLayout],
     Bind [ValueM QTGUI_QFONT] ''font'' [] (RValue QFont) [OnValue ''QTextItem'', OnValue QTextLayout],
     Bind [ValueM ''QTGUI_QTEXTFORMAT''] ''format'' [] (RValue QTextFormat) [OnValue QTextInlineObject],
     Bind [] ''formatIndex'' [] RNumber [OnValue QTextInlineObject]]"

definition vmeth_qtgui_12_3 :: "binding list" where
  "vmeth_qtgui_12_3 = [
     Bind [ValueM ''QTGUI_QGLYPHRUN''] ''glyphRuns'' [PInt, PInt] (RList (IValue QGlyphRun)) [OnValue ''QTextFragment'', OnValue QTextLayout, OnValue QTextLine],
     Bind [ValueM ''QTGUI_QTEXTLENGTH''] ''height'' [] (RValue ''QTextLength'') [OnValue QTextFrameFormat],
     Bind [] ''height'' [] RNumber [OnValue QTextImageFormat, OnValue QTextInlineObject, OnValue QTextLine],
     Bind [] ''horizontalAdvance'' [] RNumber [OnValue QTextLine]]"

definition vmeth_qtgui_12_4 :: "binding list" where
  "vmeth_qtgui_12_4 = [
     Bind [] ''isValid'' [] RBool [OnValue ''QTextFragment'', OnValue QTextFrameFormat, OnValue QTextImageFormat, OnValue QTextInlineObject, OnValue QTextLine],
     Bind [] ''isValidCursorPosition'' [PInt] RBool [OnValue QTextLayout],
     Bind [] ''leading'' [] RNumber [OnValue QTextLine],
     Bind [] ''leadingIncluded'' [] RBool [OnValue QTextLine],
     Bind [] ''leftCursorPosition'' [PInt] RNumber [OnValue QTextLayout],
     Bind [] ''leftMargin'' [] RNumber [OnValue QTextFrameFormat]]"

definition vmeth_qtgui_12_5 :: "binding list" where
  "vmeth_qtgui_12_5 = [
     Bind [] ''length'' [] RNumber [OnValue ''QTextFragment''],
     Bind [ValueM ''QTGUI_QTEXTLINE''] ''lineAt'' [PInt] (RValue QTextLine) [OnValue QTextLayout],
     Bind [] ''lineCount'' [] RNumber [OnValue QTextLayout],
     Bind [ValueM ''QTGUI_QTEXTLINE''] ''lineForTextPosition'' [PInt] (RValue QTextLine) [OnValue QTextLayout],
     Bind [] ''lineNumber'' [] RNumber [OnValue QTextLine],
     Bind [] ''margin'' [] RNumber [OnValue QTextFrameFormat],
     Bind [ValueM ''QTGUI_QTEXTLENGTH''] ''maximumWidth'' [] (RValue ''QTextLength'') [OnValue QTextImageFormat]]"

definition vmeth_qtgui_12_6 :: "binding list" where
  "vmeth_qtgui_12_6 = [
     Bind [] ''maximumWidth'' [] RNumber [OnValue QTextLayout],
     Bind [] ''minimumWidth'' [] RNumber [OnValue QTextLayout],
     Bind [] ''name'' [] RString [OnValue QTextImageFormat],
     Bind [ValueM QTCORE_QRECTF] ''naturalTextRect'' [] (RValue QRectF) [OnValue QTextLine],
     Bind [] ''naturalTextWidth'' [] RNumber [OnValue QTextLine],
     Bind [TypeM ''QTGUI_QTEXTLAYOUT''] ''nextCursorPosition'' [PInt, PConv ''QTextLayout::CursorMode''] RNumber [OnValue QTextLayout],
     Bind [] ''padding'' [] RNumber [OnValue QTextFrameFormat]]"

definition vmeth_qtgui_12_7 :: "binding list" where
  "vmeth_qtgui_12_7 = [
     Bind [ValueM QTCORE_QPOINTF] ''position'' [] (RValue QPointF) [OnValue QTextLayout, OnValue QTextLine],
     Bind [TypeM QTGUI_QTEXTFRAMEFORMAT] ''position'' [] (RMeta ''QTextFrameFormat::Position'') [OnValue QTextFrameFormat],
     Bind [] ''position'' [] RNumber [OnValue ''QTextFragment''],
     Bind [] ''preeditAreaPosition'' [] RNumber [OnValue QTextLayout],
     Bind [] ''preeditAreaText'' [] RString [OnValue QTextLayout],
     Bind [TypeM ''QTGUI_QTEXTLAYOUT''] ''previousCursorPosition'' [PInt, PConv ''QTextLayout::CursorMode''] RNumber [OnValue QTextLayout],
     Bind [] ''quality'' [] RNumber [OnValue QTextImageFormat]]"

definition vmeth_qtgui_12_8 :: "binding list" where
  "vmeth_qtgui_12_8 = [
     Bind [] ''rawValue'' [] RNumber [OnValue ''QTextLength''],
     Bind [ValueM QTCORE_QRECTF] ''rect'' [] (RValue QRectF) [OnValue QTextInlineObject, OnValue QTextLine],
     Bind [] ''rightCursorPosition'' [PInt] RNumber [OnValue QTextLayout],
     Bind [] ''rightMargin'' [] RNumber [OnValue QTextFrameFormat],
     Bind [] ''setAscent'' [PReal ''qreal''] RVoid [OnValue QTextInlineObject],
     Bind [] ''setBorder'' [PReal ''qreal''] RVoid [OnValue QTextFrameFormat],
     Bind [ValueM QTGUI_QBRUSH] ''setBorderBrush'' [PConv QBrush] RVoid [OnValue QTextFrameFormat]]"

definition vmeth_qtgui_12_9 :: "binding list" where
  "vmeth_qtgui_12_9 = [
     Bind [TypeM QTGUI_QTEXTFRAMEFORMAT] ''setBorderStyle'' [PConv QTextFrameFormat_BorderStyle] RVoid [OnValue QTextFrameFormat],
     Bind [] ''setBottomMargin'' [PReal ''qreal''] RVoid [OnValue QTextFrameFormat],
     Bind [] ''setCacheEnabled'' [PBool] RVoid [OnValue QTextLayout],
     Bind [EnumM ''QT_CURSORMOVESTYLE''] ''setCursorMoveStyle'' [PConv ''Qt::CursorMoveStyle''] RVoid [OnValue QTextLayout],
     Bind [] ''setDescent'' [PReal ''qreal''] RVoid [OnValue QTextInlineObject],
     Bind [ValueM QTGUI_QFONT] ''setFont'' [PConv QFont] RVoid [OnValue QTextLayout]]"

definition vmeth_qtgui_12_10 :: "binding list" where
  "vmeth_qtgui_12_10 = [
     Bind [ValueM ''QTGUI_QTEXTLENGTH''] ''setHeight'' [PConv ''QTextLength''] RVoid [OnValue QTextFrameFormat],
     Bind [] ''setHeight'' [PReal ''qreal''] RVoid [OnValue QTextFrameFormat, OnValue QTextImageFormat],
     Bind [] ''setLeadingIncluded'' [PBool] RVoid [OnValue QTextLine],
     Bind [] ''setLeftMargin'' [PReal ''qreal''] RVoid [OnValue QTextFrameFormat],
     Bind [] ''setLineWidth'' [PReal ''qreal''] RVoid [OnValue QTextLine],
     Bind [] ''setMargin'' [PReal ''qreal''] RVoid [OnValue QTextFrameFormat]]"

definition vmeth_qtgui_12_11 :: "binding list" where
  "vmeth_qtgui_12_11 = [
     Bind [ValueM ''QTGUI_QTEXTLENGTH''] ''setMaximumWidth'' [PConv ''QTextLength''] RVoid [OnValue QTextImageFormat],
     Bind [] ''setName'' [PString True] RVoid [OnValue QTextImageFormat],
     Bind [] ''setNumColumns'' [PInt] RVoid [OnValue QTextLine],
     Bind [] ''setNumColumns'' [PInt, PReal ''qreal''] RVoid [OnValue QTextLine],
     Bind [] ''setPadding'' [PReal ''qreal''] RVoid [OnValue QTextFrameFormat],
     Bind [ValueM QTCORE_QPOINTF] ''setPosition'' [PConv QPointF] RVoid [OnValue QTextLayout, OnValue QTextLine]]"

definition vmeth_qtgui_12_12 :: "binding list" where
  "vmeth_qtgui_12_12 = [
     Bind [TypeM QTGUI_QTEXTFRAMEFORMAT] ''setPosition'' [PConv ''QTextFrameFormat::Position''] RVoid [OnValue QTextFrameFormat],
     Bind [] ''setPreeditArea'' [PInt, PString True] RVoid [OnValue QTextLayout],
     Bind [] ''setQuality'' [PInt] RVoid [OnValue QTextImageFormat],
     Bind [] ''setRightMargin'' [PReal ''qreal''] RVoid [OnValue QTextFrameFormat],
     Bind [] ''setText'' [PString True] RVoid [OnValue QTextLayout],
     Bind [ValueM QTGUI_QTEXTOPTION] ''setTextOption'' [PConv QTextOption] RVoid [OnValue QTextLayout],
     Bind [] ''setTopMargin'' [PReal ''qreal''] RVoid [OnValue QTextFrameFormat]]"

definition vmeth_qtgui_12_13 :: "binding list" where
  "vmeth_qtgui_12_13 = [
     Bind [ValueM ''QTGUI_QTEXTLENGTH''] ''setWidth'' [PConv ''QTextLength''] RVoid [OnValue QTextFrameFormat],
     Bind [] ''setWidth'' [PReal ''qreal''] RVoid [OnValue QTextFrameFormat, OnValue QTextImageFormat, OnValue QTextInlineObject],
     Bind [] ''text'' [] RString [OnValue ''QTextFragment'', OnValue ''QTextItem'', OnValue QTextLayout],
     Bind [EnumM QT_LAYOUTDIRECTION] ''textDirection'' [] (RMeta Qt_LayoutDirection) [OnValue QTextInlineObject],
     Bind [] ''textLength'' [] RNumber [OnValue QTextLine],
     Bind [ValueM QTGUI_QTEXTOPTION] ''textOption'' [] (RValue QTextOption) [OnValue QTextLayout]]"

definition vmeth_qtgui_12_14 :: "binding list" where
  "vmeth_qtgui_12_14 = [
     Bind [] ''textPosition'' [] RNumber [OnValue QTextInlineObject],
     Bind [] ''textStart'' [] RNumber [OnValue QTextLine],
     Bind [] ''topMargin'' [] RNumber [OnValue QTextFrameFormat],
     Bind [TypeM ''QTGUI_QTEXTLENGTH''] ''type'' [] (RMeta ''QTextLength::Type'') [OnValue ''QTextLength''],
     Bind [] ''value'' [PReal ''qreal''] RNumber [OnValue ''QTextLength''],
     Bind [ValueM ''QTGUI_QTEXTLENGTH''] ''width'' [] (RValue ''QTextLength'') [OnValue QTextFrameFormat],
     Bind [] ''width'' [] RNumber [OnValue QTextImageFormat, OnValue QTextInlineObject, OnValue ''QTextItem'', OnValue QTextLine]]"

definition vmeth_qtgui_12_15 :: "binding list" where
  "vmeth_qtgui_12_15 = [
     Bind [] ''x'' [] RNumber [OnValue QTextLine],
     Bind [TypeM ''QTGUI_QTEXTLINE''] ''xToCursor'' [PReal ''qreal'', PConv ''QTextLine::CursorPosition''] RNumber [OnValue QTextLine],
     Bind [] ''y'' [] RNumber [OnValue QTextLine]]"

definition vtypes_qtgui_12 :: "string list" where
  "vtypes_qtgui_12 = [''QTextFragment'', QTextFrameFormat, QTextImageFormat, QTextInlineObject, ''QTextItem'', QTextLayout,
     ''QTextLength'', QTextLine]"

definition vmeth_table_gui_a :: "(string \<times> shard) list" where
  "vmeth_table_gui_a = [
     (''qtgui_0'', \<lparr>sh_module = ''QtGui'', sh_slug = ''QTGUI'',
        sh_bindings = concat [vmeth_qtgui_0_0, vmeth_qtgui_0_1, vmeth_qtgui_0_2, vmeth_qtgui_0_3, vmeth_qtgui_0_4, vmeth_qtgui_0_5, vmeth_qtgui_0_6, vmeth_qtgui_0_7, vmeth_qtgui_0_8, vmeth_qtgui_0_9, vmeth_qtgui_0_10, vmeth_qtgui_0_11, vmeth_qtgui_0_12, vmeth_qtgui_0_13, vmeth_qtgui_0_14, vmeth_qtgui_0_15, vmeth_qtgui_0_16]\<rparr>),
     (''qtgui_1'', \<lparr>sh_module = ''QtGui'', sh_slug = ''QTGUI'',
        sh_bindings = concat [vmeth_qtgui_1_0, vmeth_qtgui_1_1, vmeth_qtgui_1_2, vmeth_qtgui_1_3, vmeth_qtgui_1_4, vmeth_qtgui_1_5, vmeth_qtgui_1_6, vmeth_qtgui_1_7, vmeth_qtgui_1_8, vmeth_qtgui_1_9]\<rparr>),
     (''qtgui_10'', \<lparr>sh_module = ''QtGui'', sh_slug = ''QTGUI'',
        sh_bindings = concat [vmeth_qtgui_10_0, vmeth_qtgui_10_1, vmeth_qtgui_10_2, vmeth_qtgui_10_3, vmeth_qtgui_10_4, vmeth_qtgui_10_5, vmeth_qtgui_10_6, vmeth_qtgui_10_7, vmeth_qtgui_10_8, vmeth_qtgui_10_9, vmeth_qtgui_10_10, vmeth_qtgui_10_11, vmeth_qtgui_10_12, vmeth_qtgui_10_13, vmeth_qtgui_10_14, vmeth_qtgui_10_15, vmeth_qtgui_10_16, vmeth_qtgui_10_17, vmeth_qtgui_10_18]\<rparr>),
     (''qtgui_11'', \<lparr>sh_module = ''QtGui'', sh_slug = ''QTGUI'',
        sh_bindings = concat [vmeth_qtgui_11_0, vmeth_qtgui_11_1, vmeth_qtgui_11_2, vmeth_qtgui_11_3, vmeth_qtgui_11_4, vmeth_qtgui_11_5, vmeth_qtgui_11_6, vmeth_qtgui_11_7, vmeth_qtgui_11_8, vmeth_qtgui_11_9, vmeth_qtgui_11_10, vmeth_qtgui_11_11, vmeth_qtgui_11_12, vmeth_qtgui_11_13, vmeth_qtgui_11_14, vmeth_qtgui_11_15, vmeth_qtgui_11_16, vmeth_qtgui_11_17, vmeth_qtgui_11_18, vmeth_qtgui_11_19, vmeth_qtgui_11_20, vmeth_qtgui_11_21, vmeth_qtgui_11_22, vmeth_qtgui_11_23, vmeth_qtgui_11_24, vmeth_qtgui_11_25, vmeth_qtgui_11_26, vmeth_qtgui_11_27, vmeth_qtgui_11_28, vmeth_qtgui_11_29, vmeth_qtgui_11_30, vmeth_qtgui_11_31, vmeth_qtgui_11_32, vmeth_qtgui_11_33]\<rparr>),
     (''qtgui_12'', \<lparr>sh_module = ''QtGui'', sh_slug = ''QTGUI'',
        sh_bindings = concat [vmeth_qtgui_12_0, vmeth_qtgui_12_1, vmeth_qtgui_12_2, vmeth_qtgui_12_3, vmeth_qtgui_12_4, vmeth_qtgui_12_5, vmeth_qtgui_12_6, vmeth_qtgui_12_7, vmeth_qtgui_12_8, vmeth_qtgui_12_9, vmeth_qtgui_12_10, vmeth_qtgui_12_11, vmeth_qtgui_12_12, vmeth_qtgui_12_13, vmeth_qtgui_12_14, vmeth_qtgui_12_15]\<rparr>)]"

lemmas vmeth_table_gui_a_defs =
  vmeth_qtgui_0_0_def vmeth_qtgui_0_1_def vmeth_qtgui_0_2_def vmeth_qtgui_0_3_def vmeth_qtgui_0_4_def
  vmeth_qtgui_0_5_def vmeth_qtgui_0_6_def vmeth_qtgui_0_7_def vmeth_qtgui_0_8_def vmeth_qtgui_0_9_def
  vmeth_qtgui_0_10_def vmeth_qtgui_0_11_def vmeth_qtgui_0_12_def vmeth_qtgui_0_13_def vmeth_qtgui_0_14_def
  vmeth_qtgui_0_15_def vmeth_qtgui_0_16_def vmeth_qtgui_1_0_def vmeth_qtgui_1_1_def vmeth_qtgui_1_2_def
  vmeth_qtgui_1_3_def vmeth_qtgui_1_4_def vmeth_qtgui_1_5_def vmeth_qtgui_1_6_def vmeth_qtgui_1_7_def
  vmeth_qtgui_1_8_def vmeth_qtgui_1_9_def vmeth_qtgui_10_0_def vmeth_qtgui_10_1_def vmeth_qtgui_10_2_def
  vmeth_qtgui_10_3_def vmeth_qtgui_10_4_def vmeth_qtgui_10_5_def vmeth_qtgui_10_6_def vmeth_qtgui_10_7_def
  vmeth_qtgui_10_8_def vmeth_qtgui_10_9_def vmeth_qtgui_10_10_def vmeth_qtgui_10_11_def vmeth_qtgui_10_12_def
  vmeth_qtgui_10_13_def vmeth_qtgui_10_14_def vmeth_qtgui_10_15_def vmeth_qtgui_10_16_def vmeth_qtgui_10_17_def
  vmeth_qtgui_10_18_def vmeth_qtgui_11_0_def vmeth_qtgui_11_1_def vmeth_qtgui_11_2_def vmeth_qtgui_11_3_def
  vmeth_qtgui_11_4_def vmeth_qtgui_11_5_def vmeth_qtgui_11_6_def vmeth_qtgui_11_7_def vmeth_qtgui_11_8_def
  vmeth_qtgui_11_9_def vmeth_qtgui_11_10_def vmeth_qtgui_11_11_def vmeth_qtgui_11_12_def vmeth_qtgui_11_13_def
  vmeth_qtgui_11_14_def vmeth_qtgui_11_15_def vmeth_qtgui_11_16_def vmeth_qtgui_11_17_def vmeth_qtgui_11_18_def
  vmeth_qtgui_11_19_def vmeth_qtgui_11_20_def vmeth_qtgui_11_21_def vmeth_qtgui_11_22_def vmeth_qtgui_11_23_def
  vmeth_qtgui_11_24_def vmeth_qtgui_11_25_def vmeth_qtgui_11_26_def vmeth_qtgui_11_27_def vmeth_qtgui_11_28_def
  vmeth_qtgui_11_29_def vmeth_qtgui_11_30_def vmeth_qtgui_11_31_def vmeth_qtgui_11_32_def vmeth_qtgui_11_33_def
  vmeth_qtgui_12_0_def vmeth_qtgui_12_1_def vmeth_qtgui_12_2_def vmeth_qtgui_12_3_def vmeth_qtgui_12_4_def
  vmeth_qtgui_12_5_def vmeth_qtgui_12_6_def vmeth_qtgui_12_7_def vmeth_qtgui_12_8_def vmeth_qtgui_12_9_def
  vmeth_qtgui_12_10_def vmeth_qtgui_12_11_def vmeth_qtgui_12_12_def vmeth_qtgui_12_13_def vmeth_qtgui_12_14_def
  vmeth_qtgui_12_15_def

lemma vmeth_table_gui_a_value_blocks: "list_all (\<lambda>(s, sh). value_blocks sh) vmeth_table_gui_a"
  by (simp add: vmeth_table_gui_a_def vmeth_table_gui_a_defs value_blocks_def value_shard_def; (simp add: parameter_text_def qt_name_defs)?)

end
