(* ===== verification/Value_Methods_Gui_B.thy ===== *)
theory Value_Methods_Gui_B
  imports Shard_Methods Qt_Names
begin

text \<open>
  Tables of the value method shards (generated\_value\_methods): the blocks of every shard in the file's order, and the
  classes it can store by value.
\<close>

definition vmeth_qtgui_13_0 :: "binding list" where
  "vmeth_qtgui_13_0 = [
     Bind [] ''actionText'' [] RString [OnValue ''QUndoCommand''],
     Bind [ValueM QTGUI_QTRANSFORM] ''adjoint'' [] (RValue QTransform) [OnValue QTransform],
     Bind [] ''borderCollapse'' [] RBool [OnValue QTextTableFormat],
     Bind [] ''bottomBorder'' [] RNumber [OnValue QTextTableCellFormat],
     Bind [ValueM QTGUI_QBRUSH] ''bottomBorderBrush'' [] (RValue QBrush) [OnValue QTextTableCellFormat],
     Bind [TypeM QTGUI_QTEXTFRAMEFORMAT] ''bottomBorderStyle'' [] (RMeta QTextFrameFormat_BorderStyle) [OnValue QTextTableCellFormat],
     Bind [] ''bottomPadding'' [] RNumber [OnValue QTextTableCellFormat],
     Bind [] ''cellPadding'' [] RNumber [OnValue QTextTableFormat]]"

definition vmeth_qtgui_13_1 :: "binding list" where
  "vmeth_qtgui_13_1 = [
     Bind [] ''cellSpacing'' [] RNumber [OnValue QTextTableFormat],
     Bind [] ''childCount'' [] RNumber [OnValue ''QUndoCommand''],
     Bind [] ''clearColumnWidthConstraints'' [] RVoid [OnValue QTextTableFormat],
     Bind [] ''column'' [] RNumber [OnValue QTextTableCell],
     Bind [] ''columnSpan'' [] RNumber [OnValue QTextTableCell],
     Bind [ValueM ''QTGUI_QTEXTLENGTH''] ''columnWidthConstraints'' [] (RList (IValue ''QTextLength'')) [OnValue QTextTableFormat],
     Bind [] ''columns'' [] RNumber [OnValue QTextTableFormat],
     Bind [] ''determinant'' [] RNumber [OnValue QTransform]]"

definition vmeth_qtgui_13_2 :: "binding list" where
  "vmeth_qtgui_13_2 = [
     Bind [] ''dx'' [] RNumber [OnValue QTransform],
     Bind [] ''dy'' [] RNumber [OnValue QTransform],
     Bind [ValueM QTGUI_QTEXTCURSOR] ''firstCursorPosition'' [] (RValue QTextCursor) [OnValue QTextTableCell],
     Bind [TypeM QTGUI_QTEXTOPTION] ''flags'' [] (RMeta ''QTextOption::Flags'') [OnValue QTextOption],
     Bind [ValueM QTGUI_QTEXTCHARFORMAT] ''format'' [] (RValue QTextCharFormat) [OnValue QTextTableCell],
     Bind [] ''headerRowCount'' [] RNumber [OnValue QTextTableFormat],
     Bind [] ''id'' [] RNumber [OnValue ''QUndoCommand''],
     Bind [] ''indent'' [] RNumber [OnValue QTextListFormat]]"

definition vmeth_qtgui_13_3 :: "binding list" where
  "vmeth_qtgui_13_3 = [
     Bind [] ''isAffine'' [] RBool [OnValue QTransform],
     Bind [] ''isBeginEvent'' [] RBool [OnValue ''QTouchEvent''],
     Bind [] ''isEndEvent'' [] RBool [OnValue ''QTouchEvent''],
     Bind [] ''isIdentity'' [] RBool [OnValue QTransform],
     Bind [] ''isInvertible'' [] RBool [OnValue QTransform],
     Bind [] ''isObsolete'' [] RBool [OnValue ''QUndoCommand''],
     Bind [] ''isRotating'' [] RBool [OnValue QTransform],
     Bind [] ''isScaling'' [] RBool [OnValue QTransform]]"

definition vmeth_qtgui_13_4 :: "binding list" where
  "vmeth_qtgui_13_4 = [
     Bind [] ''isTranslating'' [] RBool [OnValue QTransform],
     Bind [] ''isUpdateEvent'' [] RBool [OnValue ''QTouchEvent''],
     Bind [] ''isValid'' [] RBool [OnValue QTextListFormat, OnValue QTextTableCell, OnValue QTextTableCellFormat, OnValue QTextTableFormat],
     Bind [ValueM QTGUI_QTEXTCURSOR] ''lastCursorPosition'' [] (RValue QTextCursor) [OnValue QTextTableCell],
     Bind [] ''leftBorder'' [] RNumber [OnValue QTextTableCellFormat],
     Bind [ValueM QTGUI_QBRUSH] ''leftBorderBrush'' [] (RValue QBrush) [OnValue QTextTableCellFormat],
     Bind [TypeM QTGUI_QTEXTFRAMEFORMAT] ''leftBorderStyle'' [] (RMeta QTextFrameFormat_BorderStyle) [OnValue QTextTableCellFormat]]"

definition vmeth_qtgui_13_5 :: "binding list" where
  "vmeth_qtgui_13_5 = [
     Bind [] ''leftPadding'' [] RNumber [OnValue QTextTableCellFormat],
     Bind [] ''m11'' [] RNumber [OnValue QTransform],
     Bind [] ''m12'' [] RNumber [OnValue QTransform],
     Bind [] ''m13'' [] RNumber [OnValue QTransform],
     Bind [] ''m21'' [] RNumber [OnValue QTransform],
     Bind [] ''m22'' [] RNumber [OnValue QTransform],
     Bind [] ''m23'' [] RNumber [OnValue QTransform],
     Bind [] ''m31'' [] RNumber [OnValue QTransform]]"

definition vmeth_qtgui_13_6 :: "binding list" where
  "vmeth_qtgui_13_6 = [
     Bind [] ''m32'' [] RNumber [OnValue QTransform],
     Bind [] ''m33'' [] RNumber [OnValue QTransform],
     Bind [ValueM ''QTCORE_QLINE''] ''map'' [PConv ''QLine''] (RValue ''QLine'') [OnValue QTransform],
     Bind [ValueM ''QTCORE_QLINEF''] ''map'' [PConv QLineF] (RValue QLineF) [OnValue QTransform],
     Bind [ValueM QTGUI_QPAINTERPATH] ''map'' [PConv QPainterPath] (RValue QPainterPath) [OnValue QTransform],
     Bind [ValueM QTCORE_QPOINT] ''map'' [PConv QPoint] (RValue QPoint) [OnValue QTransform]]"

definition vmeth_qtgui_13_7 :: "binding list" where
  "vmeth_qtgui_13_7 = [
     Bind [ValueM QTCORE_QPOINTF] ''map'' [PConv QPointF] (RValue QPointF) [OnValue QTransform],
     Bind [ValueM QTGUI_QPOLYGON] ''map'' [PConv QPolygon] (RValue QPolygon) [OnValue QTransform],
     Bind [ValueM QTGUI_QPOLYGONF] ''map'' [PConv QPolygonF] (RValue QPolygonF) [OnValue QTransform],
     Bind [ValueM QTGUI_QREGION] ''map'' [PConv QRegion] (RValue QRegion) [OnValue QTransform],
     Bind [ValueM QTCORE_QRECT] ''mapRect'' [PConv QRect] (RValue QRect) [OnValue QTransform],
     Bind [ValueM QTCORE_QRECTF] ''mapRect'' [PConv QRectF] (RValue QRectF) [OnValue QTransform]]"

definition vmeth_qtgui_13_8 :: "binding list" where
  "vmeth_qtgui_13_8 = [
     Bind [ValueM QTCORE_QRECT, ValueM QTGUI_QPOLYGON] ''mapToPolygon'' [PConv QRect] (RValue QPolygon) [OnValue QTransform],
     Bind [] ''numberPrefix'' [] RString [OnValue QTextListFormat],
     Bind [] ''numberSuffix'' [] RString [OnValue QTextListFormat],
     Bind [] ''redo'' [] RVoid [OnValue ''QUndoCommand''],
     Bind [] ''reset'' [] RVoid [OnValue QTransform],
     Bind [] ''rightBorder'' [] RNumber [OnValue QTextTableCellFormat],
     Bind [ValueM QTGUI_QBRUSH] ''rightBorderBrush'' [] (RValue QBrush) [OnValue QTextTableCellFormat]]"

definition vmeth_qtgui_13_9 :: "binding list" where
  "vmeth_qtgui_13_9 = [
     Bind [TypeM QTGUI_QTEXTFRAMEFORMAT] ''rightBorderStyle'' [] (RMeta QTextFrameFormat_BorderStyle) [OnValue QTextTableCellFormat],
     Bind [] ''rightPadding'' [] RNumber [OnValue QTextTableCellFormat],
     Bind [EnumM ''QT_AXIS'', ValueM QTGUI_QTRANSFORM] ''rotate'' [PReal ''qreal'', PConv ''Qt::Axis''] (RValue QTransform) [OnValue QTransform],
     Bind [EnumM ''QT_AXIS'', ValueM QTGUI_QTRANSFORM] ''rotate'' [PReal ''qreal'', PConv ''Qt::Axis'', PReal ''qreal''] (RValue QTransform) [OnValue QTransform],
     Bind [EnumM ''QT_AXIS'', ValueM QTGUI_QTRANSFORM] ''rotateRadians'' [PReal ''qreal'', PConv ''Qt::Axis''] (RValue QTransform) [OnValue QTransform],
     Bind [EnumM ''QT_AXIS'', ValueM QTGUI_QTRANSFORM] ''rotateRadians'' [PReal ''qreal'', PConv ''Qt::Axis'', PReal ''qreal''] (RValue QTransform) [OnValue QTransform]]"

definition vmeth_qtgui_13_10 :: "binding list" where
  "vmeth_qtgui_13_10 = [
     Bind [] ''row'' [] RNumber [OnValue QTextTableCell],
     Bind [] ''rowSpan'' [] RNumber [OnValue QTextTableCell],
     Bind [ValueM QTGUI_QTRANSFORM] ''scale'' [PReal ''qreal'', PReal ''qreal''] (RValue QTransform) [OnValue QTransform],
     Bind [] ''setBorder'' [PReal ''qreal''] RVoid [OnValue QTextTableCellFormat],
     Bind [ValueM QTGUI_QBRUSH] ''setBorderBrush'' [PConv QBrush] RVoid [OnValue QTextTableCellFormat],
     Bind [] ''setBorderCollapse'' [PBool] RVoid [OnValue QTextTableFormat],
     Bind [TypeM QTGUI_QTEXTFRAMEFORMAT] ''setBorderStyle'' [PConv QTextFrameFormat_BorderStyle] RVoid [OnValue QTextTableCellFormat]]"

definition vmeth_qtgui_13_11 :: "binding list" where
  "vmeth_qtgui_13_11 = [
     Bind [] ''setBottomBorder'' [PReal ''qreal''] RVoid [OnValue QTextTableCellFormat],
     Bind [ValueM QTGUI_QBRUSH] ''setBottomBorderBrush'' [PConv QBrush] RVoid [OnValue QTextTableCellFormat],
     Bind [TypeM QTGUI_QTEXTFRAMEFORMAT] ''setBottomBorderStyle'' [PConv QTextFrameFormat_BorderStyle] RVoid [OnValue QTextTableCellFormat],
     Bind [] ''setBottomPadding'' [PReal ''qreal''] RVoid [OnValue QTextTableCellFormat],
     Bind [] ''setCellPadding'' [PReal ''qreal''] RVoid [OnValue QTextTableFormat],
     Bind [] ''setCellSpacing'' [PReal ''qreal''] RVoid [OnValue QTextTableFormat]]"

definition vmeth_qtgui_13_12 :: "binding list" where
  "vmeth_qtgui_13_12 = [
     Bind [ValueM ''QTGUI_QTEXTLENGTH''] ''setColumnWidthConstraints'' [PListV ''QTextLength''] RVoid [OnValue QTextTableFormat],
     Bind [] ''setColumns'' [PInt] RVoid [OnValue QTextTableFormat],
     Bind [TypeM QTGUI_QTEXTOPTION] ''setFlags'' [PConv ''QTextOption::Flags''] RVoid [OnValue QTextOption],
     Bind [ValueM QTGUI_QTEXTCHARFORMAT] ''setFormat'' [PConv QTextCharFormat] RVoid [OnValue QTextTableCell],
     Bind [] ''setHeaderRowCount'' [PInt] RVoid [OnValue QTextTableFormat],
     Bind [] ''setIndent'' [PInt] RVoid [OnValue QTextListFormat]]"

definition vmeth_qtgui_13_13 :: "binding list" where
  "vmeth_qtgui_13_13 = [
     Bind [] ''setLeftBorder'' [PReal ''qreal''] RVoid [OnValue QTextTableCellFormat],
     Bind [ValueM QTGUI_QBRUSH] ''setLeftBorderBrush'' [PConv QBrush] RVoid [OnValue QTextTableCellFormat],
     Bind [TypeM QTGUI_QTEXTFRAMEFORMAT] ''setLeftBorderStyle'' [PConv QTextFrameFormat_BorderStyle] RVoid [OnValue QTextTableCellFormat],
     Bind [] ''setLeftPadding'' [PReal ''qreal''] RVoid [OnValue QTextTableCellFormat],
     Bind [] ''setMatrix'' [PReal ''qreal'', PReal ''qreal'', PReal ''qreal'', PReal ''qreal'', PReal ''qreal'', PReal ''qreal'', PReal ''qreal'', PReal ''qreal'', PReal ''qreal''] RVoid [OnValue QTransform],
     Bind [] ''setNumberPrefix'' [PString True] RVoid [OnValue QTextListFormat]]"

definition vmeth_qtgui_13_14 :: "binding list" where
  "vmeth_qtgui_13_14 = [
     Bind [] ''setNumberSuffix'' [PString True] RVoid [OnValue QTextListFormat],
     Bind [] ''setObsolete'' [PBool] RVoid [OnValue ''QUndoCommand''],
     Bind [] ''setPadding'' [PReal ''qreal''] RVoid [OnValue QTextTableCellFormat],
     Bind [] ''setRightBorder'' [PReal ''qreal''] RVoid [OnValue QTextTableCellFormat],
     Bind [ValueM QTGUI_QBRUSH] ''setRightBorderBrush'' [PConv QBrush] RVoid [OnValue QTextTableCellFormat],
     Bind [TypeM QTGUI_QTEXTFRAMEFORMAT] ''setRightBorderStyle'' [PConv QTextFrameFormat_BorderStyle] RVoid [OnValue QTextTableCellFormat],
     Bind [] ''setRightPadding'' [PReal ''qreal''] RVoid [OnValue QTextTableCellFormat]]"

definition vmeth_qtgui_13_15 :: "binding list" where
  "vmeth_qtgui_13_15 = [
     Bind [] ''setStart'' [PInt] RVoid [OnValue QTextListFormat],
     Bind [TypeM ''QTGUI_QTEXTLISTFORMAT''] ''setStyle'' [PConv ''QTextListFormat::Style''] RVoid [OnValue QTextListFormat],
     Bind [] ''setTabArray'' [PList ''qreal''] RVoid [OnValue QTextOption],
     Bind [] ''setTabStopDistance'' [PReal ''qreal''] RVoid [OnValue QTextOption],
     Bind [] ''setText'' [PString True] RVoid [OnValue ''QUndoCommand''],
     Bind [EnumM QT_LAYOUTDIRECTION] ''setTextDirection'' [PConv Qt_LayoutDirection] RVoid [OnValue QTextOption]]"

definition vmeth_qtgui_13_16 :: "binding list" where
  "vmeth_qtgui_13_16 = [
     Bind [] ''setTopBorder'' [PReal ''qreal''] RVoid [OnValue QTextTableCellFormat],
     Bind [ValueM QTGUI_QBRUSH] ''setTopBorderBrush'' [PConv QBrush] RVoid [OnValue QTextTableCellFormat],
     Bind [TypeM QTGUI_QTEXTFRAMEFORMAT] ''setTopBorderStyle'' [PConv QTextFrameFormat_BorderStyle] RVoid [OnValue QTextTableCellFormat],
     Bind [] ''setTopPadding'' [PReal ''qreal''] RVoid [OnValue QTextTableCellFormat],
     Bind [] ''setUseDesignMetrics'' [PBool] RVoid [OnValue QTextOption],
     Bind [TypeM QTGUI_QTEXTOPTION] ''setWrapMode'' [PConv ''QTextOption::WrapMode''] RVoid [OnValue QTextOption]]"

definition vmeth_qtgui_13_17 :: "binding list" where
  "vmeth_qtgui_13_17 = [
     Bind [ValueM QTGUI_QTRANSFORM] ''shear'' [PReal ''qreal'', PReal ''qreal''] (RValue QTransform) [OnValue QTransform],
     Bind [] ''start'' [] RNumber [OnValue QTextListFormat],
     Bind [TypeM ''QTGUI_QTEXTLISTFORMAT''] ''style'' [] (RMeta ''QTextListFormat::Style'') [OnValue QTextListFormat],
     Bind [] ''tabArray'' [] (RList (IMeta ''qreal'')) [OnValue QTextOption],
     Bind [] ''tabStopDistance'' [] RNumber [OnValue QTextOption],
     Bind [] ''tableCellFormatIndex'' [] RNumber [OnValue QTextTableCell],
     Bind [TypeM QTCORE_QOBJECT] ''target'' [] RObject [OnValue ''QTouchEvent'']]"

definition vmeth_qtgui_13_18 :: "binding list" where
  "vmeth_qtgui_13_18 = [
     Bind [] ''text'' [] RString [OnValue ''QUndoCommand''],
     Bind [EnumM QT_LAYOUTDIRECTION] ''textDirection'' [] (RMeta Qt_LayoutDirection) [OnValue QTextOption],
     Bind [] ''topBorder'' [] RNumber [OnValue QTextTableCellFormat],
     Bind [ValueM QTGUI_QBRUSH] ''topBorderBrush'' [] (RValue QBrush) [OnValue QTextTableCellFormat],
     Bind [TypeM QTGUI_QTEXTFRAMEFORMAT] ''topBorderStyle'' [] (RMeta QTextFrameFormat_BorderStyle) [OnValue QTextTableCellFormat],
     Bind [] ''topPadding'' [] RNumber [OnValue QTextTableCellFormat],
     Bind [TypeM ''QTGUI_QEVENTPOINT''] ''touchPointStates'' [] (RMeta ''QEventPoint::States'') [OnValue ''QTouchEvent'']]"

definition vmeth_qtgui_13_19 :: "binding list" where
  "vmeth_qtgui_13_19 = [
     Bind [ValueM QTGUI_QTRANSFORM] ''translate'' [PReal ''qreal'', PReal ''qreal''] (RValue QTransform) [OnValue QTransform],
     Bind [ValueM QTGUI_QTRANSFORM] ''transposed'' [] (RValue QTransform) [OnValue QTransform],
     Bind [TypeM QTGUI_QTRANSFORM] ''type'' [] (RMeta ''QTransform::TransformationType'') [OnValue QTransform],
     Bind [] ''undo'' [] RVoid [OnValue ''QUndoCommand''],
     Bind [] ''useDesignMetrics'' [] RBool [OnValue QTextOption],
     Bind [TypeM QTGUI_QTEXTOPTION] ''wrapMode'' [] (RMeta ''QTextOption::WrapMode'') [OnValue QTextOption]]"

definition vtypes_qtgui_13 :: "string list" where
  "vtypes_qtgui_13 = [QTextListFormat, QTextOption, QTextTableCell, QTextTableCellFormat, QTextTableFormat, ''QTouchEvent'', QTransform,
     ''QUndoCommand'']"

definition vmeth_qtgui_14_0 :: "binding list" where
  "vmeth_qtgui_14_0 = [
     Bind [ValueM QTCORE_QPOINT] ''angleDelta'' [] (RValue QPoint) [OnValue ''QWheelEvent''],
     Bind [ValueM QTGUI_QVECTOR2D] ''distanceToLine'' [PConv QVector2D, PConv QVector2D] RNumber [OnValue QVector2D],
     Bind [ValueM QTGUI_QVECTOR3D] ''distanceToLine'' [PConv QVector3D, PConv QVector3D] RNumber [OnValue QVector3D],
     Bind [ValueM QTGUI_QVECTOR3D] ''distanceToPlane'' [PConv QVector3D, PConv QVector3D] RNumber [OnValue QVector3D],
     Bind [ValueM QTGUI_QVECTOR3D] ''distanceToPlane'' [PConv QVector3D, PConv QVector3D, PConv QVector3D] RNumber [OnValue QVector3D],
     Bind [ValueM QTGUI_QVECTOR2D] ''distanceToPoint'' [PConv QVector2D] RNumber [OnValue QVector2D]]"

definition vmeth_qtgui_14_1 :: "binding list" where
  "vmeth_qtgui_14_1 = [
     Bind [ValueM QTGUI_QVECTOR3D] ''distanceToPoint'' [PConv QVector3D] RNumber [OnValue QVector3D],
     Bind [] ''href'' [] RString [OnValue ''QWhatsThisClickedEvent''],
     Bind [] ''inverted'' [] RBool [OnValue ''QWheelEvent''],
     Bind [] ''isBeginEvent'' [] RBool [OnValue ''QWheelEvent''],
     Bind [] ''isEndEvent'' [] RBool [OnValue ''QWheelEvent''],
     Bind [] ''isNull'' [] RBool [OnValue QVector2D, OnValue QVector3D, OnValue QVector4D],
     Bind [] ''isUpdateEvent'' [] RBool [OnValue ''QWheelEvent'']]"

definition vmeth_qtgui_14_2 :: "binding list" where
  "vmeth_qtgui_14_2 = [
     Bind [] ''length'' [] RNumber [OnValue QVector2D, OnValue QVector3D, OnValue QVector4D],
     Bind [] ''lengthSquared'' [] RNumber [OnValue QVector2D, OnValue QVector3D, OnValue QVector4D],
     Bind [] ''normalize'' [] RVoid [OnValue QVector2D, OnValue QVector3D, OnValue QVector4D],
     Bind [ValueM QTGUI_QVECTOR2D] ''normalized'' [] (RValue QVector2D) [OnValue QVector2D],
     Bind [ValueM QTGUI_QVECTOR3D] ''normalized'' [] (RValue QVector3D) [OnValue QVector3D]]"

definition vmeth_qtgui_14_3 :: "binding list" where
  "vmeth_qtgui_14_3 = [
     Bind [ValueM QTGUI_QVECTOR4D] ''normalized'' [] (RValue QVector4D) [OnValue QVector4D],
     Bind [EnumM ''QT_WINDOWSTATES''] ''oldState'' [] (RMeta ''Qt::WindowStates'') [OnValue ''QWindowStateChangeEvent''],
     Bind [EnumM ''QT_SCROLLPHASE''] ''phase'' [] (RMeta ''Qt::ScrollPhase'') [OnValue ''QWheelEvent''],
     Bind [ValueM QTCORE_QPOINT] ''pixelDelta'' [] (RValue QPoint) [OnValue ''QWheelEvent''],
     Bind [ValueM QTCORE_QRECT, ValueM QTGUI_QMATRIX4X4, ValueM QTGUI_QVECTOR3D] ''project'' [PConv QMatrix4x4, PConv QMatrix4x4, PConv QRect] (RValue QVector3D) [OnValue QVector3D],
     Bind [] ''setW'' [PReal ''float''] RVoid [OnValue QVector4D]]"

definition vmeth_qtgui_14_4 :: "binding list" where
  "vmeth_qtgui_14_4 = [
     Bind [] ''setX'' [PReal ''float''] RVoid [OnValue QVector2D, OnValue QVector3D, OnValue QVector4D],
     Bind [] ''setY'' [PReal ''float''] RVoid [OnValue QVector2D, OnValue QVector3D, OnValue QVector4D],
     Bind [] ''setZ'' [PReal ''float''] RVoid [OnValue QVector3D, OnValue QVector4D],
     Bind [ValueM QTCORE_QPOINT] ''toPoint'' [] (RValue QPoint) [OnValue QVector2D, OnValue QVector3D, OnValue QVector4D]]"

definition vmeth_qtgui_14_5 :: "binding list" where
  "vmeth_qtgui_14_5 = [
     Bind [ValueM QTCORE_QPOINTF] ''toPointF'' [] (RValue QPointF) [OnValue QVector2D, OnValue QVector3D, OnValue QVector4D],
     Bind [ValueM QTGUI_QVECTOR2D] ''toVector2D'' [] (RValue QVector2D) [OnValue QVector3D, OnValue QVector4D],
     Bind [ValueM QTGUI_QVECTOR2D] ''toVector2DAffine'' [] (RValue QVector2D) [OnValue QVector4D],
     Bind [ValueM QTGUI_QVECTOR3D] ''toVector3D'' [] (RValue QVector3D) [OnValue QVector2D, OnValue QVector4D],
     Bind [ValueM QTGUI_QVECTOR3D] ''toVector3DAffine'' [] (RValue QVector3D) [OnValue QVector4D]]"

definition vmeth_qtgui_14_6 :: "binding list" where
  "vmeth_qtgui_14_6 = [
     Bind [ValueM QTGUI_QVECTOR4D] ''toVector4D'' [] (RValue QVector4D) [OnValue QVector2D, OnValue QVector3D],
     Bind [ValueM QTCORE_QRECT, ValueM QTGUI_QMATRIX4X4, ValueM QTGUI_QVECTOR3D] ''unproject'' [PConv QMatrix4x4, PConv QMatrix4x4, PConv QRect] (RValue QVector3D) [OnValue QVector3D],
     Bind [] ''w'' [] RNumber [OnValue QVector4D],
     Bind [] ''x'' [] RNumber [OnValue QVector2D, OnValue QVector3D, OnValue QVector4D],
     Bind [] ''y'' [] RNumber [OnValue QVector2D, OnValue QVector3D, OnValue QVector4D]]"

definition vmeth_qtgui_14_7 :: "binding list" where
  "vmeth_qtgui_14_7 = [
     Bind [] ''z'' [] RNumber [OnValue QVector3D, OnValue QVector4D]]"

definition vtypes_qtgui_14 :: "string list" where
  "vtypes_qtgui_14 = [QVector2D, QVector3D, QVector4D, ''QWhatsThisClickedEvent'', ''QWheelEvent'', ''QWindowStateChangeEvent'']"

definition vmeth_qtgui_2_0 :: "binding list" where
  "vmeth_qtgui_2_0 = [
     Bind [] ''ascent'' [] RNumber [OnValue QFontMetrics],
     Bind [] ''ascent'' [] RNumber [OnValue QFontMetricsF],
     Bind [] ''averageCharWidth'' [] RNumber [OnValue QFontMetrics],
     Bind [] ''averageCharWidth'' [] RNumber [OnValue QFontMetricsF],
     Bind [] ''bold'' [] RBool [OnValue QFont, OnValue ''QFontInfo''],
     Bind [ValueM QTCORE_QRECTF] ''boundingRect'' [] (RValue QRectF) [OnValue QGlyphRun],
     Bind [ValueM QTCORE_QRECT] ''boundingRect'' [PString True] (RValue QRect) [OnValue QFontMetrics]]"

definition vmeth_qtgui_2_1 :: "binding list" where
  "vmeth_qtgui_2_1 = [
     Bind [ValueM QTCORE_QRECTF] ''boundingRect'' [PString True] (RValue QRectF) [OnValue QFontMetricsF],
     Bind [ValueM QTCORE_QRECT, ValueM QTGUI_QTEXTOPTION] ''boundingRect'' [PString True, PConv QTextOption] (RValue QRect) [OnValue QFontMetrics],
     Bind [ValueM QTCORE_QRECTF, ValueM QTGUI_QTEXTOPTION] ''boundingRect'' [PString True, PConv QTextOption] (RValue QRectF) [OnValue QFontMetricsF],
     Bind [] ''capHeight'' [] RNumber [OnValue QFontMetrics],
     Bind [] ''capHeight'' [] RNumber [OnValue QFontMetricsF],
     Bind [TypeM QTGUI_QFONT] ''capitalization'' [] (RMeta ''QFont::Capitalization'') [OnValue QFont],
     Bind [] ''clear'' [] RVoid [OnValue QGlyphRun]]"

definition vmeth_qtgui_2_2 :: "binding list" where
  "vmeth_qtgui_2_2 = [
     Bind [] ''clearFeatures'' [] RVoid [OnValue QFont],
     Bind [] ''clearVariableAxes'' [] RVoid [OnValue QFont],
     Bind [TypeM ''QTGUI_QGRADIENT''] ''coordinateMode'' [] (RMeta ''QGradient::CoordinateMode'') [OnValue ''QGradient''],
     Bind [] ''defaultFamily'' [] RString [OnValue QFont],
     Bind [] ''defaultValue'' [] RNumber [OnValue QFontVariableAxis],
     Bind [] ''descent'' [] RNumber [OnValue QFontMetrics],
     Bind [] ''descent'' [] RNumber [OnValue QFontMetricsF]]"

definition vmeth_qtgui_2_3 :: "binding list" where
  "vmeth_qtgui_2_3 = [
     Bind [EnumM ''QT_TEXTELIDEMODE''] ''elidedText'' [PString True, PConv ''Qt::TextElideMode'', PInt, PInt] RString [OnValue QFontMetrics],
     Bind [EnumM ''QT_TEXTELIDEMODE''] ''elidedText'' [PString True, PConv ''Qt::TextElideMode'', PReal ''qreal'', PInt] RString [OnValue QFontMetricsF],
     Bind [] ''exactMatch'' [] RBool [OnValue QFont, OnValue ''QFontInfo''],
     Bind [] ''families'' [] (RList (IMeta QString)) [OnValue QFont],
     Bind [] ''family'' [] RString [OnValue QFont, OnValue ''QFontInfo'']]"

definition vmeth_qtgui_2_4 :: "binding list" where
  "vmeth_qtgui_2_4 = [
     Bind [TypeM QTGUI_QFONT] ''featureTags'' [] (RList (IMeta ''QFont::Tag'')) [OnValue QFont],
     Bind [] ''fixedPitch'' [] RBool [OnValue QFont, OnValue ''QFontInfo''],
     Bind [TypeM ''QTGUI_QGLYPHRUN''] ''flags'' [] (RMeta ''QGlyphRun::GlyphRunFlags'') [OnValue QGlyphRun],
     Bind [] ''fontDpi'' [] RNumber [OnValue QFontMetrics, OnValue QFontMetricsF],
     Bind [] ''fromString'' [PString True] RBool [OnValue QFont],
     Bind [] ''glyphIndexes'' [] (RList (IMeta ''unsigned int'')) [OnValue QGlyphRun],
     Bind [] ''gotFocus'' [] RBool [OnValue ''QFocusEvent'']]"

definition vmeth_qtgui_2_5 :: "binding list" where
  "vmeth_qtgui_2_5 = [
     Bind [] ''height'' [] RNumber [OnValue QFontMetrics],
     Bind [] ''height'' [] RNumber [OnValue QFontMetricsF],
     Bind [TypeM QTGUI_QFONT] ''hintingPreference'' [] (RMeta ''QFont::HintingPreference'') [OnValue QFont],
     Bind [ValueM QTGUI_QTEXTOPTION] ''horizontalAdvance'' [PString True, PConv QTextOption] RNumber [OnValue QFontMetrics],
     Bind [ValueM QTGUI_QTEXTOPTION] ''horizontalAdvance'' [PString True, PConv QTextOption] RNumber [OnValue QFontMetricsF],
     Bind [] ''horizontalAdvance'' [PString True, PInt] RNumber [OnValue QFontMetrics],
     Bind [] ''horizontalAdvance'' [PString True, PInt] RNumber [OnValue QFontMetricsF]]"

definition vmeth_qtgui_2_6 :: "binding list" where
  "vmeth_qtgui_2_6 = [
     Bind [] ''inFontUcs4'' [PUInt] RBool [OnValue QFontMetrics, OnValue QFontMetricsF],
     Bind [ValueM QTGUI_QFONT] ''isCopyOf'' [PConv QFont] RBool [OnValue QFont],
     Bind [] ''isEmpty'' [] RBool [OnValue QGlyphRun],
     Bind [TypeM QTGUI_QFONT] ''isFeatureSet'' [PConv ''QFont::Tag''] RBool [OnValue QFont],
     Bind [] ''isRightToLeft'' [] RBool [OnValue QGlyphRun],
     Bind [TypeM QTGUI_QFONT] ''isVariableAxisSet'' [PConv ''QFont::Tag''] RBool [OnValue QFont],
     Bind [] ''italic'' [] RBool [OnValue QFont, OnValue ''QFontInfo'']]"

definition vmeth_qtgui_2_7 :: "binding list" where
  "vmeth_qtgui_2_7 = [
     Bind [] ''kerning'' [] RBool [OnValue QFont],
     Bind [] ''key'' [] RString [OnValue QFont],
     Bind [] ''leading'' [] RNumber [OnValue QFontMetrics],
     Bind [] ''leading'' [] RNumber [OnValue QFontMetricsF],
     Bind [] ''letterSpacing'' [] RNumber [OnValue QFont],
     Bind [TypeM QTGUI_QFONT] ''letterSpacingType'' [] (RMeta ''QFont::SpacingType'') [OnValue QFont],
     Bind [] ''lineSpacing'' [] RNumber [OnValue QFontMetrics],
     Bind [] ''lineSpacing'' [] RNumber [OnValue QFontMetricsF]]"

definition vmeth_qtgui_2_8 :: "binding list" where
  "vmeth_qtgui_2_8 = [
     Bind [] ''lineWidth'' [] RNumber [OnValue QFontMetrics],
     Bind [] ''lineWidth'' [] RNumber [OnValue QFontMetricsF],
     Bind [] ''lostFocus'' [] RBool [OnValue ''QFocusEvent''],
     Bind [] ''maxWidth'' [] RNumber [OnValue QFontMetrics],
     Bind [] ''maxWidth'' [] RNumber [OnValue QFontMetricsF],
     Bind [] ''maximumValue'' [] RNumber [OnValue QFontVariableAxis],
     Bind [] ''minLeftBearing'' [] RNumber [OnValue QFontMetrics],
     Bind [] ''minLeftBearing'' [] RNumber [OnValue QFontMetricsF]]"

definition vmeth_qtgui_2_9 :: "binding list" where
  "vmeth_qtgui_2_9 = [
     Bind [] ''minRightBearing'' [] RNumber [OnValue QFontMetrics],
     Bind [] ''minRightBearing'' [] RNumber [OnValue QFontMetricsF],
     Bind [] ''minimumValue'' [] RNumber [OnValue QFontVariableAxis],
     Bind [] ''name'' [] RString [OnValue QFontVariableAxis],
     Bind [] ''overline'' [] RBool [OnValue QFont, OnValue QGlyphRun],
     Bind [] ''overlinePos'' [] RNumber [OnValue QFontMetrics],
     Bind [] ''overlinePos'' [] RNumber [OnValue QFontMetricsF],
     Bind [] ''pixelSize'' [] RNumber [OnValue QFont, OnValue ''QFontInfo'']]"

definition vmeth_qtgui_2_10 :: "binding list" where
  "vmeth_qtgui_2_10 = [
     Bind [] ''pointSize'' [] RNumber [OnValue QFont, OnValue ''QFontInfo''],
     Bind [] ''pointSizeF'' [] RNumber [OnValue QFont, OnValue ''QFontInfo''],
     Bind [ValueM QTCORE_QPOINTF] ''positions'' [] (RList (IValue QPointF)) [OnValue QGlyphRun],
     Bind [ValueM ''QTGUI_QRAWFONT''] ''rawFont'' [] (RValue QRawFont) [OnValue QGlyphRun],
     Bind [EnumM ''QT_FOCUSREASON''] ''reason'' [] (RMeta ''Qt::FocusReason'') [OnValue ''QFocusEvent''],
     Bind [ValueM QTGUI_QFONT] ''resolve'' [PConv QFont] (RValue QFont) [OnValue QFont]]"

definition vmeth_qtgui_2_11 :: "binding list" where
  "vmeth_qtgui_2_11 = [
     Bind [] ''setBold'' [PBool] RVoid [OnValue QFont],
     Bind [ValueM QTCORE_QRECTF] ''setBoundingRect'' [PConv QRectF] RVoid [OnValue QGlyphRun],
     Bind [TypeM QTGUI_QFONT] ''setCapitalization'' [PConv ''QFont::Capitalization''] RVoid [OnValue QFont],
     Bind [ValueM QTGUI_QCOLOR] ''setColorAt'' [PReal ''qreal'', PConv QColor] RVoid [OnValue ''QGradient''],
     Bind [TypeM ''QTGUI_QGRADIENT''] ''setCoordinateMode'' [PConv ''QGradient::CoordinateMode''] RVoid [OnValue ''QGradient''],
     Bind [] ''setDefaultValue'' [PReal ''qreal''] RVoid [OnValue QFontVariableAxis]]"

definition vmeth_qtgui_2_12 :: "binding list" where
  "vmeth_qtgui_2_12 = [
     Bind [] ''setFamilies'' [PStringList] RVoid [OnValue QFont],
     Bind [] ''setFamily'' [PString True] RVoid [OnValue QFont],
     Bind [] ''setFixedPitch'' [PBool] RVoid [OnValue QFont],
     Bind [TypeM ''QTGUI_QGLYPHRUN''] ''setFlag'' [PConv ''QGlyphRun::GlyphRunFlag'', PBool] RVoid [OnValue QGlyphRun],
     Bind [TypeM ''QTGUI_QGLYPHRUN''] ''setFlags'' [PConv ''QGlyphRun::GlyphRunFlags''] RVoid [OnValue QGlyphRun],
     Bind [] ''setGlyphIndexes'' [PList ''unsigned int''] RVoid [OnValue QGlyphRun]]"

definition vmeth_qtgui_2_13 :: "binding list" where
  "vmeth_qtgui_2_13 = [
     Bind [TypeM QTGUI_QFONT] ''setHintingPreference'' [PConv ''QFont::HintingPreference''] RVoid [OnValue QFont],
     Bind [] ''setItalic'' [PBool] RVoid [OnValue QFont],
     Bind [] ''setKerning'' [PBool] RVoid [OnValue QFont],
     Bind [TypeM QTGUI_QFONT] ''setLetterSpacing'' [PConv ''QFont::SpacingType'', PReal ''qreal''] RVoid [OnValue QFont],
     Bind [] ''setMaximumValue'' [PReal ''qreal''] RVoid [OnValue QFontVariableAxis],
     Bind [] ''setMinimumValue'' [PReal ''qreal''] RVoid [OnValue QFontVariableAxis],
     Bind [] ''setName'' [PString True] RVoid [OnValue QFontVariableAxis]]"

definition vmeth_qtgui_2_14 :: "binding list" where
  "vmeth_qtgui_2_14 = [
     Bind [] ''setOverline'' [PBool] RVoid [OnValue QFont, OnValue QGlyphRun],
     Bind [] ''setPixelSize'' [PInt] RVoid [OnValue QFont],
     Bind [] ''setPointSize'' [PInt] RVoid [OnValue QFont],
     Bind [] ''setPointSizeF'' [PReal ''qreal''] RVoid [OnValue QFont],
     Bind [ValueM QTCORE_QPOINTF] ''setPositions'' [PListV QPointF] RVoid [OnValue QGlyphRun],
     Bind [ValueM ''QTGUI_QRAWFONT''] ''setRawFont'' [PConv QRawFont] RVoid [OnValue QGlyphRun]]"

definition vmeth_qtgui_2_15 :: "binding list" where
  "vmeth_qtgui_2_15 = [
     Bind [] ''setRightToLeft'' [PBool] RVoid [OnValue QGlyphRun],
     Bind [] ''setSourceString'' [PString True] RVoid [OnValue QGlyphRun],
     Bind [TypeM ''QTGUI_QGRADIENT''] ''setSpread'' [PConv ''QGradient::Spread''] RVoid [OnValue ''QGradient''],
     Bind [] ''setStretch'' [PInt] RVoid [OnValue QFont],
     Bind [] ''setStrikeOut'' [PBool] RVoid [OnValue QFont, OnValue QGlyphRun],
     Bind [] ''setStringIndexes'' [PList ''qsizetype''] RVoid [OnValue QGlyphRun]]"

definition vmeth_qtgui_2_16 :: "binding list" where
  "vmeth_qtgui_2_16 = [
     Bind [TypeM QTGUI_QFONT] ''setStyle'' [PConv ''QFont::Style''] RVoid [OnValue QFont],
     Bind [TypeM QTGUI_QFONT] ''setStyleHint'' [PConv ''QFont::StyleHint'', PConv ''QFont::StyleStrategy''] RVoid [OnValue QFont],
     Bind [] ''setStyleName'' [PString True] RVoid [OnValue QFont],
     Bind [TypeM QTGUI_QFONT] ''setStyleStrategy'' [PConv ''QFont::StyleStrategy''] RVoid [OnValue QFont],
     Bind [TypeM QTGUI_QFONT] ''setTag'' [PConv ''QFont::Tag''] RVoid [OnValue QFontVariableAxis],
     Bind [] ''setUnderline'' [PBool] RVoid [OnValue QFont, OnValue QGlyphRun]]"

definition vmeth_qtgui_2_17 :: "binding list" where
  "vmeth_qtgui_2_17 = [
     Bind [TypeM QTGUI_QFONT] ''setVariableAxis'' [PConv ''QFont::Tag'', PReal ''float''] RVoid [OnValue QFont],
     Bind [] ''setWordSpacing'' [PReal ''qreal''] RVoid [OnValue QFont],
     Bind [] ''sourceString'' [] RString [OnValue QGlyphRun],
     Bind [TypeM ''QTGUI_QGRADIENT''] ''spread'' [] (RMeta ''QGradient::Spread'') [OnValue ''QGradient''],
     Bind [] ''stretch'' [] RNumber [OnValue QFont],
     Bind [] ''strikeOut'' [] RBool [OnValue QFont, OnValue QGlyphRun],
     Bind [] ''strikeOutPos'' [] RNumber [OnValue QFontMetrics]]"

definition vmeth_qtgui_2_18 :: "binding list" where
  "vmeth_qtgui_2_18 = [
     Bind [] ''strikeOutPos'' [] RNumber [OnValue QFontMetricsF],
     Bind [] ''stringIndexes'' [] (RList (IMeta ''qsizetype'')) [OnValue QGlyphRun],
     Bind [TypeM QTGUI_QFONT] ''style'' [] (RMeta ''QFont::Style'') [OnValue QFont, OnValue ''QFontInfo''],
     Bind [TypeM QTGUI_QFONT] ''styleHint'' [] (RMeta ''QFont::StyleHint'') [OnValue QFont, OnValue ''QFontInfo''],
     Bind [] ''styleName'' [] RString [OnValue QFont, OnValue ''QFontInfo''],
     Bind [TypeM QTGUI_QFONT] ''styleStrategy'' [] (RMeta ''QFont::StyleStrategy'') [OnValue QFont]]"

definition vmeth_qtgui_2_19 :: "binding list" where
  "vmeth_qtgui_2_19 = [
     Bind [ValueM QTGUI_QFONT] ''swap'' [PConv QFont] RVoid [OnValue QFont],
     Bind [ValueM ''QTGUI_QFONTINFO''] ''swap'' [PConv ''QFontInfo''] RVoid [OnValue ''QFontInfo''],
     Bind [ValueM ''QTGUI_QFONTMETRICS''] ''swap'' [PConv QFontMetrics] RVoid [OnValue QFontMetrics],
     Bind [ValueM ''QTGUI_QFONTMETRICSF''] ''swap'' [PConv QFontMetricsF] RVoid [OnValue QFontMetricsF],
     Bind [ValueM ''QTGUI_QFONTVARIABLEAXIS''] ''swap'' [PConv QFontVariableAxis] RVoid [OnValue QFontVariableAxis],
     Bind [ValueM ''QTGUI_QGLYPHRUN''] ''swap'' [PConv QGlyphRun] RVoid [OnValue QGlyphRun]]"

definition vmeth_qtgui_2_20 :: "binding list" where
  "vmeth_qtgui_2_20 = [
     Bind [TypeM QTGUI_QFONT] ''tag'' [] (RMeta ''QFont::Tag'') [OnValue QFontVariableAxis],
     Bind [ValueM QTCORE_QRECT] ''tightBoundingRect'' [PString True] (RValue QRect) [OnValue QFontMetrics],
     Bind [ValueM QTCORE_QRECTF] ''tightBoundingRect'' [PString True] (RValue QRectF) [OnValue QFontMetricsF],
     Bind [ValueM QTCORE_QRECT, ValueM QTGUI_QTEXTOPTION] ''tightBoundingRect'' [PString True, PConv QTextOption] (RValue QRect) [OnValue QFontMetrics],
     Bind [ValueM QTCORE_QRECTF, ValueM QTGUI_QTEXTOPTION] ''tightBoundingRect'' [PString True, PConv QTextOption] (RValue QRectF) [OnValue QFontMetricsF],
     Bind [] ''toString'' [] RString [OnValue QFont]]"

definition vmeth_qtgui_2_21 :: "binding list" where
  "vmeth_qtgui_2_21 = [
     Bind [TypeM ''QTGUI_QGRADIENT''] ''type'' [] (RMeta ''QGradient::Type'') [OnValue ''QGradient''],
     Bind [] ''underline'' [] RBool [OnValue QFont, OnValue QGlyphRun],
     Bind [] ''underlinePos'' [] RNumber [OnValue QFontMetrics],
     Bind [] ''underlinePos'' [] RNumber [OnValue QFontMetricsF],
     Bind [TypeM QTGUI_QFONT] ''unsetFeature'' [PConv ''QFont::Tag''] RVoid [OnValue QFont],
     Bind [TypeM QTGUI_QFONT] ''unsetVariableAxis'' [PConv ''QFont::Tag''] RVoid [OnValue QFont],
     Bind [ValueM ''QTGUI_QFONTVARIABLEAXIS''] ''variableAxes'' [] (RList (IValue QFontVariableAxis)) [OnValue ''QFontInfo'']]"

definition vmeth_qtgui_2_22 :: "binding list" where
  "vmeth_qtgui_2_22 = [
     Bind [TypeM QTGUI_QFONT] ''variableAxisTags'' [] (RList (IMeta ''QFont::Tag'')) [OnValue QFont],
     Bind [TypeM QTGUI_QFONT] ''variableAxisValue'' [PConv ''QFont::Tag''] RNumber [OnValue QFont],
     Bind [] ''weight'' [] RNumber [OnValue ''QFontInfo''],
     Bind [] ''wordSpacing'' [] RNumber [OnValue QFont],
     Bind [] ''xHeight'' [] RNumber [OnValue QFontMetrics],
     Bind [] ''xHeight'' [] RNumber [OnValue QFontMetricsF]]"

definition vtypes_qtgui_2 :: "string list" where
  "vtypes_qtgui_2 = [''QFocusEvent'', QFont, ''QFontInfo'', QFontMetrics, QFontMetricsF, QFontVariableAxis, QGlyphRun, ''QGradient'']"

definition vmeth_qtgui_3_0 :: "binding list" where
  "vmeth_qtgui_3_0 = [
     Bind [TypeM QTGUI_QICON, ValueM QTCORE_QSIZE] ''actualSize'' [PConv QSize, PConv ''QIcon::Mode'', PConv ''QIcon::State''] (RValue QSize) [OnValue QIcon, OnValue ''QIconEngine''],
     Bind [TypeM QTGUI_QICON, ValueM QTCORE_QSIZE] ''addFile'' [PString True, PConv QSize, PConv ''QIcon::Mode'', PConv ''QIcon::State''] RVoid [OnValue QIcon, OnValue ''QIconEngine''],
     Bind [TypeM QTGUI_QICON, ValueM QTGUI_QPIXMAP] ''addPixmap'' [PConv QPixmap, PConv ''QIcon::Mode'', PConv ''QIcon::State''] RVoid [OnValue QIcon, OnValue ''QIconEngine''],
     Bind [] ''allGray'' [] RBool [OnValue QImage]]"

definition vmeth_qtgui_3_1 :: "binding list" where
  "vmeth_qtgui_3_1 = [
     Bind [ValueM ''QTGUI_QCOLORTRANSFORM''] ''applyColorTransform'' [PConv ''QColorTransform''] RVoid [OnValue QImage],
     Bind [] ''autoDetectImageFormat'' [] RBool [OnValue QImageReader],
     Bind [] ''autoTransform'' [] RBool [OnValue QImageReader],
     Bind [TypeM QTGUI_QICON, ValueM QTCORE_QSIZE] ''availableSizes'' [PConv ''QIcon::Mode'', PConv ''QIcon::State''] (RList (IValue QSize)) [OnValue QIcon, OnValue ''QIconEngine''],
     Bind [ValueM QTGUI_QCOLOR] ''backgroundColor'' [] (RValue QColor) [OnValue QImageReader],
     Bind [] ''bitPlaneCount'' [] RNumber [OnValue QImage]]"

definition vmeth_qtgui_3_2 :: "binding list" where
  "vmeth_qtgui_3_2 = [
     Bind [] ''bytesPerLine'' [] (RMeta ''qsizetype'') [OnValue QImage],
     Bind [] ''cacheKey'' [] (RMeta ''qint64'') [OnValue QIcon, OnValue QImage],
     Bind [] ''canRead'' [] RBool [OnValue QImageReader],
     Bind [] ''canWrite'' [] RBool [OnValue QImageWriter],
     Bind [ValueM QTCORE_QRECT] ''clipRect'' [] (RValue QRect) [OnValue QImageReader],
     Bind [] ''colorCount'' [] RNumber [OnValue QImage],
     Bind [ValueM QTGUI_QCOLORSPACE] ''colorSpace'' [] (RValue QColorSpace) [OnValue QImage]]"

definition vmeth_qtgui_3_3 :: "binding list" where
  "vmeth_qtgui_3_3 = [
     Bind [] ''colorTable'' [] (RList (IMeta ''unsigned int'')) [OnValue QImage],
     Bind [ValueM ''QTGUI_QCOLORTRANSFORM'', ValueM QTGUI_QIMAGE] ''colorTransformed'' [PConv ''QColorTransform''] (RValue QImage) [OnValue QImage],
     Bind [] ''compression'' [] RNumber [OnValue QImageWriter],
     Bind [ValueM QTGUI_QCOLORSPACE] ''convertToColorSpace'' [PConv QColorSpace] RVoid [OnValue QImage],
     Bind [ValueM QTGUI_QCOLORSPACE, ValueM QTGUI_QIMAGE] ''convertedToColorSpace'' [PConv QColorSpace] (RValue QImage) [OnValue QImage],
     Bind [ValueM QTCORE_QRECT, ValueM QTGUI_QIMAGE] ''copy'' [PConv QRect] (RValue QImage) [OnValue QImage]]"

definition vmeth_qtgui_3_4 :: "binding list" where
  "vmeth_qtgui_3_4 = [
     Bind [ValueM QTGUI_QIMAGE] ''copy'' [PInt, PInt, PInt, PInt] (RValue QImage) [OnValue QImage],
     Bind [ValueM QTGUI_QIMAGE] ''createHeuristicMask'' [PBool] (RValue QImage) [OnValue QImage],
     Bind [] ''currentImageNumber'' [] RNumber [OnValue QImageIOHandler, OnValue QImageReader],
     Bind [ValueM QTCORE_QRECT] ''currentImageRect'' [] (RValue QRect) [OnValue QImageIOHandler, OnValue QImageReader],
     Bind [] ''decideFormatFromContent'' [] RBool [OnValue QImageReader],
     Bind [] ''depth'' [] RNumber [OnValue QImage]]"

definition vmeth_qtgui_3_5 :: "binding list" where
  "vmeth_qtgui_3_5 = [
     Bind [TypeM QTCORE_QIODEVICE] ''device'' [] RObject [OnValue QImageIOHandler, OnValue QImageReader, OnValue QImageWriter],
     Bind [ValueM QTCORE_QSIZEF] ''deviceIndependentSize'' [] (RValue QSizeF) [OnValue QImage],
     Bind [] ''devicePixelRatio'' [] RNumber [OnValue QImage],
     Bind [] ''dotsPerMeterX'' [] RNumber [OnValue QImage],
     Bind [] ''dotsPerMeterY'' [] RNumber [OnValue QImage],
     Bind [TypeM ''QTGUI_QIMAGEREADER''] ''error'' [] (RMeta ''QImageReader::ImageReaderError'') [OnValue QImageReader],
     Bind [TypeM ''QTGUI_QIMAGEWRITER''] ''error'' [] (RMeta ''QImageWriter::ImageWriterError'') [OnValue QImageWriter]]"

definition vmeth_qtgui_3_6 :: "binding list" where
  "vmeth_qtgui_3_6 = [
     Bind [] ''errorString'' [] RString [OnValue QImageReader, OnValue QImageWriter],
     Bind [] ''fileName'' [] RString [OnValue QImageReader, OnValue QImageWriter],
     Bind [ValueM QTGUI_QCOLOR] ''fill'' [PConv QColor] RVoid [OnValue QImage],
     Bind [EnumM ''QT_GLOBALCOLOR''] ''fill'' [PConv ''Qt::GlobalColor''] RVoid [OnValue QImage, OnValue QImage],
     Bind [] ''fill'' [PUInt] RVoid [OnValue QImage, OnValue QImage]]"

definition vmeth_qtgui_3_7 :: "binding list" where
  "vmeth_qtgui_3_7 = [
     Bind [EnumM ''QT_ORIENTATIONS''] ''flip'' [PConv ''Qt::Orientations''] RVoid [OnValue QImage],
     Bind [EnumM ''QT_ORIENTATIONS'', ValueM QTGUI_QIMAGE] ''flipped'' [PConv ''Qt::Orientations''] (RValue QImage) [OnValue QImage],
     Bind [ValueM QTCORE_QBYTEARRAY] ''format'' [] (RValue QByteArray) [OnValue QImageIOHandler, OnValue QImageReader, OnValue QImageWriter],
     Bind [TypeM QTGUI_QIMAGE] ''format'' [] (RMeta ''QImage::Format'') [OnValue QImage],
     Bind [ValueM QTCORE_QPOINT] ''globalPos'' [] (RValue QPoint) [OnValue ''QHelpEvent''],
     Bind [] ''globalX'' [] RNumber [OnValue ''QHelpEvent'']]"

definition vmeth_qtgui_3_8 :: "binding list" where
  "vmeth_qtgui_3_8 = [
     Bind [] ''globalY'' [] RNumber [OnValue ''QHelpEvent''],
     Bind [] ''hasAlphaChannel'' [] RBool [OnValue QImage],
     Bind [] ''height'' [] RNumber [OnValue QImage],
     Bind [] ''iconName'' [] RString [OnValue ''QIconEngine''],
     Bind [] ''imageCount'' [] RNumber [OnValue QImageIOHandler, OnValue QImageReader],
     Bind [TypeM QTGUI_QIMAGE] ''imageFormat'' [] (RMeta ''QImage::Format'') [OnValue QImageReader],
     Bind [TypeM QTGUI_QIMAGE] ''invertPixels'' [PConv ''QImage::InvertMode''] RVoid [OnValue QImage]]"

definition vmeth_qtgui_3_9 :: "binding list" where
  "vmeth_qtgui_3_9 = [
     Bind [] ''isDetached'' [] RBool [OnValue QIcon],
     Bind [] ''isGrayscale'' [] RBool [OnValue QImage],
     Bind [] ''isMask'' [] RBool [OnValue QIcon],
     Bind [] ''isNull'' [] RBool [OnValue QIcon, OnValue ''QIconEngine'', OnValue QImage],
     Bind [] ''isUpdateEvent'' [] RBool [OnValue ''QHoverEvent''],
     Bind [] ''jumpToImage'' [PInt] RBool [OnValue QImageIOHandler, OnValue QImageReader],
     Bind [] ''jumpToNextImage'' [] RBool [OnValue QImageIOHandler, OnValue QImageReader]]"

definition vmeth_qtgui_3_10 :: "binding list" where
  "vmeth_qtgui_3_10 = [
     Bind [] ''key'' [] RString [OnValue ''QIconEngine''],
     Bind [] ''loopCount'' [] RNumber [OnValue QImageIOHandler, OnValue QImageReader],
     Bind [] ''mirror'' [PBool, PBool] RVoid [OnValue QImage],
     Bind [ValueM QTGUI_QIMAGE] ''mirrored'' [PBool, PBool] (RValue QImage) [OnValue QImage],
     Bind [] ''name'' [] RString [OnValue QIcon],
     Bind [] ''nextImageDelay'' [] RNumber [OnValue QImageIOHandler, OnValue QImageReader],
     Bind [ValueM QTCORE_QPOINT] ''offset'' [] (RValue QPoint) [OnValue QImage]]"

definition vmeth_qtgui_3_11 :: "binding list" where
  "vmeth_qtgui_3_11 = [
     Bind [ValueM QTCORE_QPOINT] ''oldPos'' [] (RValue QPoint) [OnValue ''QHoverEvent''],
     Bind [ValueM QTCORE_QPOINTF] ''oldPosF'' [] (RValue QPointF) [OnValue ''QHoverEvent''],
     Bind [] ''optimizedWrite'' [] RBool [OnValue QImageWriter],
     Bind [TypeM ''QTGUI_QIMAGEIOHANDLER''] ''option'' [PConv ''QImageIOHandler::ImageOption''] RVariant [OnValue QImageIOHandler],
     Bind [ValueM QTCORE_QPOINT, ValueM QTGUI_QCOLOR] ''pixelColor'' [PConv QPoint] (RValue QColor) [OnValue QImage],
     Bind [ValueM QTGUI_QCOLOR] ''pixelColor'' [PInt, PInt] (RValue QColor) [OnValue QImage]]"

definition vmeth_qtgui_3_12 :: "binding list" where
  "vmeth_qtgui_3_12 = [
     Bind [ValueM ''QTGUI_QPIXELFORMAT''] ''pixelFormat'' [] (RValue ''QPixelFormat'') [OnValue QImage],
     Bind [ValueM QTCORE_QPOINT] ''pixelIndex'' [PConv QPoint] RNumber [OnValue QImage],
     Bind [] ''pixelIndex'' [PInt, PInt] RNumber [OnValue QImage],
     Bind [TypeM QTGUI_QICON, ValueM QTCORE_QSIZE, ValueM QTGUI_QPIXMAP] ''pixmap'' [PConv QSize, PConv ''QIcon::Mode'', PConv ''QIcon::State''] (RValue QPixmap) [OnValue QIcon, OnValue ''QIconEngine''],
     Bind [TypeM QTGUI_QICON, ValueM QTCORE_QSIZE, ValueM QTGUI_QPIXMAP] ''pixmap'' [PConv QSize, PReal ''qreal'', PConv ''QIcon::Mode'', PConv ''QIcon::State''] (RValue QPixmap) [OnValue QIcon]]"

definition vmeth_qtgui_3_13 :: "binding list" where
  "vmeth_qtgui_3_13 = [
     Bind [TypeM QTGUI_QICON, ValueM QTGUI_QPIXMAP] ''pixmap'' [PInt, PConv ''QIcon::Mode'', PConv ''QIcon::State''] (RValue QPixmap) [OnValue QIcon],
     Bind [TypeM QTGUI_QICON, ValueM QTGUI_QPIXMAP] ''pixmap'' [PInt, PInt, PConv ''QIcon::Mode'', PConv ''QIcon::State''] (RValue QPixmap) [OnValue QIcon],
     Bind [ValueM QTCORE_QPOINT] ''pos'' [] (RValue QPoint) [OnValue ''QHelpEvent''],
     Bind [] ''progressiveScanWrite'' [] RBool [OnValue QImageWriter],
     Bind [] ''quality'' [] RNumber [OnValue QImageReader, OnValue QImageWriter],
     Bind [ValueM QTGUI_QIMAGE] ''read'' [] (RValue QImage) [OnValue QImageReader]]"

definition vmeth_qtgui_3_14 :: "binding list" where
  "vmeth_qtgui_3_14 = [
     Bind [ValueM QTCORE_QDATASTREAM] ''read'' [PConv QDataStream] RBool [OnValue ''QIconEngine''],
     Bind [ValueM QTCORE_QRECT] ''rect'' [] (RValue QRect) [OnValue QImage],
     Bind [TypeM QTGUI_QIMAGE] ''reinterpretAsFormat'' [PConv ''QImage::Format''] RBool [OnValue QImage],
     Bind [] ''rgbSwap'' [] RVoid [OnValue QImage],
     Bind [ValueM QTGUI_QIMAGE] ''rgbSwapped'' [] (RValue QImage) [OnValue QImage],
     Bind [EnumM QT_ASPECTRATIOMODE, EnumM QT_TRANSFORMATIONMODE, ValueM QTCORE_QSIZE, ValueM QTGUI_QIMAGE] ''scaled'' [PConv QSize, PConv Qt_AspectRatioMode, PConv Qt_TransformationMode] (RValue QImage) [OnValue QImage]]"

definition vmeth_qtgui_3_15 :: "binding list" where
  "vmeth_qtgui_3_15 = [
     Bind [EnumM QT_ASPECTRATIOMODE, EnumM QT_TRANSFORMATIONMODE, ValueM QTGUI_QIMAGE] ''scaled'' [PInt, PInt, PConv Qt_AspectRatioMode, PConv Qt_TransformationMode] (RValue QImage) [OnValue QImage],
     Bind [ValueM QTCORE_QRECT] ''scaledClipRect'' [] (RValue QRect) [OnValue QImageReader],
     Bind [TypeM QTGUI_QICON, ValueM QTCORE_QSIZE, ValueM QTGUI_QPIXMAP] ''scaledPixmap'' [PConv QSize, PConv ''QIcon::Mode'', PConv ''QIcon::State'', PReal ''qreal''] (RValue QPixmap) [OnValue ''QIconEngine''],
     Bind [ValueM QTCORE_QSIZE] ''scaledSize'' [] (RValue QSize) [OnValue QImageReader],
     Bind [EnumM QT_TRANSFORMATIONMODE, ValueM QTGUI_QIMAGE] ''scaledToHeight'' [PInt, PConv Qt_TransformationMode] (RValue QImage) [OnValue QImage]]"

definition vmeth_qtgui_3_16 :: "binding list" where
  "vmeth_qtgui_3_16 = [
     Bind [EnumM QT_TRANSFORMATIONMODE, ValueM QTGUI_QIMAGE] ''scaledToWidth'' [PInt, PConv Qt_TransformationMode] (RValue QImage) [OnValue QImage],
     Bind [ValueM QTGUI_QIMAGE] ''setAlphaChannel'' [PConv QImage] RVoid [OnValue QImage],
     Bind [] ''setAutoDetectImageFormat'' [PBool] RVoid [OnValue QImageReader],
     Bind [] ''setAutoTransform'' [PBool] RVoid [OnValue QImageReader],
     Bind [ValueM QTGUI_QCOLOR] ''setBackgroundColor'' [PConv QColor] RVoid [OnValue QImageReader],
     Bind [ValueM QTCORE_QRECT] ''setClipRect'' [PConv QRect] RVoid [OnValue QImageReader]]"

definition vmeth_qtgui_3_17 :: "binding list" where
  "vmeth_qtgui_3_17 = [
     Bind [] ''setColorCount'' [PInt] RVoid [OnValue QImage],
     Bind [ValueM QTGUI_QCOLORSPACE] ''setColorSpace'' [PConv QColorSpace] RVoid [OnValue QImage],
     Bind [] ''setColorTable'' [PList ''unsigned int''] RVoid [OnValue QImage],
     Bind [] ''setCompression'' [PInt] RVoid [OnValue QImageWriter],
     Bind [] ''setDecideFormatFromContent'' [PBool] RVoid [OnValue QImageReader],
     Bind [TypeM QTCORE_QIODEVICE] ''setDevice'' [PNonNull QIODevice_ptr] RVoid [OnValue QImageIOHandler, OnValue QImageReader, OnValue QImageWriter]]"

definition vmeth_qtgui_3_18 :: "binding list" where
  "vmeth_qtgui_3_18 = [
     Bind [] ''setDevicePixelRatio'' [PReal ''qreal''] RVoid [OnValue QImage],
     Bind [] ''setDotsPerMeterX'' [PInt] RVoid [OnValue QImage],
     Bind [] ''setDotsPerMeterY'' [PInt] RVoid [OnValue QImage],
     Bind [] ''setFileName'' [PString True] RVoid [OnValue QImageReader, OnValue QImageWriter],
     Bind [ValueM QTCORE_QBYTEARRAY] ''setFormat'' [PConv QByteArray] RVoid [OnValue QImageIOHandler, OnValue QImageReader, OnValue QImageWriter],
     Bind [] ''setIsMask'' [PBool] RVoid [OnValue QIcon]]"

definition vmeth_qtgui_3_19 :: "binding list" where
  "vmeth_qtgui_3_19 = [
     Bind [ValueM QTCORE_QPOINT] ''setOffset'' [PConv QPoint] RVoid [OnValue QImage],
     Bind [] ''setOptimizedWrite'' [PBool] RVoid [OnValue QImageWriter],
     Bind [TypeM ''QTGUI_QIMAGEIOHANDLER''] ''setOption'' [PConv ''QImageIOHandler::ImageOption'', PVariant] RVoid [OnValue QImageIOHandler],
     Bind [ValueM QTCORE_QPOINT] ''setPixel'' [PConv QPoint, PUInt] RVoid [OnValue QImage],
     Bind [] ''setPixel'' [PInt, PInt, PUInt] RVoid [OnValue QImage],
     Bind [ValueM QTCORE_QPOINT, ValueM QTGUI_QCOLOR] ''setPixelColor'' [PConv QPoint, PConv QColor] RVoid [OnValue QImage]]"

definition vmeth_qtgui_3_20 :: "binding list" where
  "vmeth_qtgui_3_20 = [
     Bind [ValueM QTGUI_QCOLOR] ''setPixelColor'' [PInt, PInt, PConv QColor] RVoid [OnValue QImage],
     Bind [] ''setProgressiveScanWrite'' [PBool] RVoid [OnValue QImageWriter],
     Bind [] ''setQuality'' [PInt] RVoid [OnValue QImageReader, OnValue QImageWriter],
     Bind [ValueM QTCORE_QRECT] ''setScaledClipRect'' [PConv QRect] RVoid [OnValue QImageReader],
     Bind [ValueM QTCORE_QSIZE] ''setScaledSize'' [PConv QSize] RVoid [OnValue QImageReader],
     Bind [ValueM QTCORE_QBYTEARRAY] ''setSubType'' [PConv QByteArray] RVoid [OnValue QImageWriter]]"

definition vmeth_qtgui_3_21 :: "binding list" where
  "vmeth_qtgui_3_21 = [
     Bind [] ''setText'' [PString True, PString True] RVoid [OnValue QImage, OnValue QImageWriter],
     Bind [ValueM QTCORE_QSIZE] ''size'' [] (RValue QSize) [OnValue QImage, OnValue QImageReader],
     Bind [] ''sizeInBytes'' [] (RMeta ''qsizetype'') [OnValue QImage],
     Bind [ValueM QTCORE_QBYTEARRAY] ''subType'' [] (RValue QByteArray) [OnValue QImageReader, OnValue QImageWriter],
     Bind [ValueM QTCORE_QBYTEARRAY] ''supportedSubTypes'' [] (RList (IValue QByteArray)) [OnValue QImageReader, OnValue QImageWriter]]"

definition vmeth_qtgui_3_22 :: "binding list" where
  "vmeth_qtgui_3_22 = [
     Bind [] ''supportsAnimation'' [] RBool [OnValue QImageReader],
     Bind [TypeM ''QTGUI_QIMAGEIOHANDLER''] ''supportsOption'' [PConv ''QImageIOHandler::ImageOption''] RBool [OnValue QImageIOHandler, OnValue QImageReader, OnValue QImageWriter],
     Bind [ValueM QTGUI_QICON] ''swap'' [PConv QIcon] RVoid [OnValue QIcon],
     Bind [ValueM QTGUI_QIMAGE] ''swap'' [PConv QImage] RVoid [OnValue QImage],
     Bind [] ''text'' [PString True] RString [OnValue QImage, OnValue QImageReader]]"

definition vmeth_qtgui_3_23 :: "binding list" where
  "vmeth_qtgui_3_23 = [
     Bind [] ''textKeys'' [] (RList (IMeta QString)) [OnValue QImage, OnValue QImageReader],
     Bind [EnumM QT_TRANSFORMATIONMODE, ValueM QTGUI_QIMAGE, ValueM QTGUI_QTRANSFORM] ''transformed'' [PConv QTransform, PConv Qt_TransformationMode] (RValue QImage) [OnValue QImage],
     Bind [ValueM QTCORE_QPOINT] ''valid'' [PConv QPoint] RBool [OnValue QImage],
     Bind [] ''valid'' [PInt, PInt] RBool [OnValue QImage],
     Bind [] ''width'' [] RNumber [OnValue QImage],
     Bind [ValueM QTCORE_QDATASTREAM] ''write'' [PConv QDataStream] RBool [OnValue ''QIconEngine'']]"

definition vmeth_qtgui_3_24 :: "binding list" where
  "vmeth_qtgui_3_24 = [
     Bind [ValueM QTGUI_QIMAGE] ''write'' [PConv QImage] RBool [OnValue QImageIOHandler, OnValue QImageWriter],
     Bind [] ''x'' [] RNumber [OnValue ''QHelpEvent''],
     Bind [] ''y'' [] RNumber [OnValue ''QHelpEvent'']]"

definition vtypes_qtgui_3 :: "string list" where
  "vtypes_qtgui_3 = [''QHelpEvent'', ''QHoverEvent'', QIcon, ''QIconEngine'', QImage, QImageIOHandler, QImageReader, QImageWriter]"

definition vmeth_qtgui_4_0 :: "binding list" where
  "vmeth_qtgui_4_0 = [
     Bind [TypeM ''QTGUI_QINPUTMETHODEVENT''] ''attributes'' [] (RList (IMeta ''QInputMethodEvent::Attribute'')) [OnValue ''QInputMethodEvent''],
     Bind [] ''commitString'' [] RString [OnValue ''QInputMethodEvent''],
     Bind [] ''count'' [] RNumber [OnValue ''QKeyEvent'', OnValue QKeySequence],
     Bind [TypeM QTGUI_QINPUTDEVICE] ''device'' [] RObject [OnValue ''QInputEvent''],
     Bind [TypeM QTGUI_QINPUTDEVICE] ''deviceType'' [] (RMeta ''QInputDevice::DeviceType'') [OnValue ''QInputEvent''],
     Bind [] ''fill'' [PReal ''float''] RVoid [OnValue ''QMatrix2x2'', OnValue ''QMatrix2x3'']]"

definition vmeth_qtgui_4_1 :: "binding list" where
  "vmeth_qtgui_4_1 = [
     Bind [ValueM QTCORE_QPOINTF] ''finalStop'' [] (RValue QPointF) [OnValue QLinearGradient],
     Bind [] ''isAutoRepeat'' [] RBool [OnValue ''QKeyEvent''],
     Bind [] ''isDetached'' [] RBool [OnValue QKeySequence],
     Bind [] ''isEmpty'' [] RBool [OnValue QKeySequence],
     Bind [] ''isIdentity'' [] RBool [OnValue ''QMatrix2x2'', OnValue ''QMatrix2x3''],
     Bind [] ''key'' [] RNumber [OnValue ''QKeyEvent''],
     Bind [ValueM ''QTCORE_QKEYCOMBINATION''] ''keyCombination'' [] (RValue QKeyCombination) [OnValue ''QKeyEvent'']]"

definition vmeth_qtgui_4_2 :: "binding list" where
  "vmeth_qtgui_4_2 = [
     Bind [TypeM QTGUI_QKEYSEQUENCE, ValueM QTGUI_QKEYSEQUENCE] ''matches'' [PConv QKeySequence] (RMeta ''QKeySequence::SequenceMatch'') [OnValue QKeySequence],
     Bind [TypeM QTGUI_QKEYSEQUENCE] ''matches'' [PConv ''QKeySequence::StandardKey''] RBool [OnValue ''QKeyEvent''],
     Bind [] ''preeditString'' [] RString [OnValue ''QInputMethodEvent''],
     Bind [EnumM ''QT_INPUTMETHODQUERIES''] ''queries'' [] (RMeta ''Qt::InputMethodQueries'') [OnValue ''QInputMethodQueryEvent''],
     Bind [] ''replacementLength'' [] RNumber [OnValue ''QInputMethodEvent''],
     Bind [] ''replacementStart'' [] RNumber [OnValue ''QInputMethodEvent''],
     Bind [] ''setCommitString'' [PString True, PInt, PInt] RVoid [OnValue ''QInputMethodEvent'']]"

definition vmeth_qtgui_4_3 :: "binding list" where
  "vmeth_qtgui_4_3 = [
     Bind [ValueM QTCORE_QPOINTF] ''setFinalStop'' [PConv QPointF] RVoid [OnValue QLinearGradient],
     Bind [] ''setFinalStop'' [PReal ''qreal'', PReal ''qreal''] RVoid [OnValue QLinearGradient],
     Bind [ValueM QTCORE_QPOINTF] ''setStart'' [PConv QPointF] RVoid [OnValue QLinearGradient],
     Bind [] ''setStart'' [PReal ''qreal'', PReal ''qreal''] RVoid [OnValue QLinearGradient],
     Bind [] ''setToIdentity'' [] RVoid [OnValue ''QMatrix2x2'', OnValue ''QMatrix2x3''],
     Bind [EnumM ''QT_INPUTMETHODQUERY''] ''setValue'' [PConv ''Qt::InputMethodQuery'', PVariant] RVoid [OnValue ''QInputMethodQueryEvent'']]"

definition vmeth_qtgui_4_4 :: "binding list" where
  "vmeth_qtgui_4_4 = [
     Bind [ValueM QTCORE_QPOINTF] ''start'' [] (RValue QPointF) [OnValue QLinearGradient],
     Bind [ValueM QTGUI_QKEYSEQUENCE] ''swap'' [PConv QKeySequence] RVoid [OnValue QKeySequence],
     Bind [] ''text'' [] RString [OnValue ''QKeyEvent''],
     Bind [] ''timestamp'' [] (RMeta ''quint64'') [OnValue ''QInputEvent''],
     Bind [TypeM QTGUI_QKEYSEQUENCE] ''toString'' [PConv ''QKeySequence::SequenceFormat''] RString [OnValue QKeySequence],
     Bind [ValueM ''QTGUI_QMATRIX2X2''] ''transposed'' [] (RValue ''QMatrix2x2'') [OnValue ''QMatrix2x2''],
     Bind [ValueM ''QTGUI_QMATRIX3X2''] ''transposed'' [] (RValue ''QMatrix3x2'') [OnValue ''QMatrix2x3'']]"

definition vmeth_qtgui_4_5 :: "binding list" where
  "vmeth_qtgui_4_5 = [
     Bind [EnumM ''QT_INPUTMETHODQUERY''] ''value'' [PConv ''Qt::InputMethodQuery''] RVariant [OnValue ''QInputMethodQueryEvent'']]"

definition vtypes_qtgui_4 :: "string list" where
  "vtypes_qtgui_4 = [''QInputEvent'', ''QInputMethodEvent'', ''QInputMethodQueryEvent'', ''QKeyEvent'', QKeySequence, QLinearGradient,
     ''QMatrix2x2'', ''QMatrix2x3'']"

definition vmeth_qtgui_5_0 :: "binding list" where
  "vmeth_qtgui_5_0 = [
     Bind [ValueM QTGUI_QVECTOR4D] ''column'' [PInt] (RValue QVector4D) [OnValue QMatrix4x4],
     Bind [] ''determinant'' [] RNumber [OnValue QMatrix4x4],
     Bind [] ''fill'' [PReal ''float''] RVoid [OnValue ''QMatrix2x4'', OnValue ''QMatrix3x2'', OnValue ''QMatrix3x3'', OnValue ''QMatrix3x4'', OnValue ''QMatrix4x2'', OnValue ''QMatrix4x3'', OnValue QMatrix4x4],
     Bind [] ''frustum'' [PReal ''float'', PReal ''float'', PReal ''float'', PReal ''float'', PReal ''float'', PReal ''float''] RVoid [OnValue QMatrix4x4]]"

definition vmeth_qtgui_5_1 :: "binding list" where
  "vmeth_qtgui_5_1 = [
     Bind [] ''isAffine'' [] RBool [OnValue QMatrix4x4],
     Bind [] ''isIdentity'' [] RBool [OnValue ''QMatrix2x4'', OnValue ''QMatrix3x2'', OnValue ''QMatrix3x3'', OnValue ''QMatrix3x4'', OnValue ''QMatrix4x2'', OnValue ''QMatrix4x3'', OnValue QMatrix4x4],
     Bind [ValueM QTGUI_QVECTOR3D] ''lookAt'' [PConv QVector3D, PConv QVector3D, PConv QVector3D] RVoid [OnValue QMatrix4x4],
     Bind [ValueM QTCORE_QPOINT] ''map'' [PConv QPoint] (RValue QPoint) [OnValue QMatrix4x4]]"

definition vmeth_qtgui_5_2 :: "binding list" where
  "vmeth_qtgui_5_2 = [
     Bind [ValueM QTCORE_QPOINTF] ''map'' [PConv QPointF] (RValue QPointF) [OnValue QMatrix4x4],
     Bind [ValueM QTGUI_QVECTOR3D] ''map'' [PConv QVector3D] (RValue QVector3D) [OnValue QMatrix4x4],
     Bind [ValueM QTGUI_QVECTOR4D] ''map'' [PConv QVector4D] (RValue QVector4D) [OnValue QMatrix4x4],
     Bind [ValueM QTCORE_QRECT] ''mapRect'' [PConv QRect] (RValue QRect) [OnValue QMatrix4x4],
     Bind [ValueM QTCORE_QRECTF] ''mapRect'' [PConv QRectF] (RValue QRectF) [OnValue QMatrix4x4],
     Bind [ValueM QTGUI_QVECTOR3D] ''mapVector'' [PConv QVector3D] (RValue QVector3D) [OnValue QMatrix4x4]]"

definition vmeth_qtgui_5_3 :: "binding list" where
  "vmeth_qtgui_5_3 = [
     Bind [ValueM ''QTGUI_QMATRIX3X3''] ''normalMatrix'' [] (RValue ''QMatrix3x3'') [OnValue QMatrix4x4],
     Bind [] ''optimize'' [] RVoid [OnValue QMatrix4x4],
     Bind [ValueM QTCORE_QRECT] ''ortho'' [PConv QRect] RVoid [OnValue QMatrix4x4],
     Bind [ValueM QTCORE_QRECTF] ''ortho'' [PConv QRectF] RVoid [OnValue QMatrix4x4],
     Bind [] ''ortho'' [PReal ''float'', PReal ''float'', PReal ''float'', PReal ''float'', PReal ''float'', PReal ''float''] RVoid [OnValue QMatrix4x4],
     Bind [] ''perspective'' [PReal ''float'', PReal ''float'', PReal ''float'', PReal ''float''] RVoid [OnValue QMatrix4x4]]"

definition vmeth_qtgui_5_4 :: "binding list" where
  "vmeth_qtgui_5_4 = [
     Bind [ValueM QTCORE_QPOINT] ''pos'' [] (RValue QPoint) [OnValue ''QMouseEvent''],
     Bind [ValueM QTGUI_QQUATERNION] ''rotate'' [PConv QQuaternion] RVoid [OnValue QMatrix4x4],
     Bind [ValueM QTGUI_QVECTOR3D] ''rotate'' [PReal ''float'', PConv QVector3D] RVoid [OnValue QMatrix4x4],
     Bind [] ''rotate'' [PReal ''float'', PReal ''float'', PReal ''float'', PReal ''float''] RVoid [OnValue QMatrix4x4],
     Bind [ValueM QTGUI_QVECTOR4D] ''row'' [PInt] (RValue QVector4D) [OnValue QMatrix4x4],
     Bind [ValueM QTGUI_QVECTOR3D] ''scale'' [PConv QVector3D] RVoid [OnValue QMatrix4x4]]"

definition vmeth_qtgui_5_5 :: "binding list" where
  "vmeth_qtgui_5_5 = [
     Bind [] ''scale'' [PReal ''float''] RVoid [OnValue QMatrix4x4],
     Bind [] ''scale'' [PReal ''float'', PReal ''float''] RVoid [OnValue QMatrix4x4],
     Bind [] ''scale'' [PReal ''float'', PReal ''float'', PReal ''float''] RVoid [OnValue QMatrix4x4],
     Bind [ValueM QTGUI_QVECTOR4D] ''setColumn'' [PInt, PConv QVector4D] RVoid [OnValue QMatrix4x4],
     Bind [ValueM QTGUI_QVECTOR4D] ''setRow'' [PInt, PConv QVector4D] RVoid [OnValue QMatrix4x4]]"

definition vmeth_qtgui_5_6 :: "binding list" where
  "vmeth_qtgui_5_6 = [
     Bind [] ''setToIdentity'' [] RVoid [OnValue ''QMatrix2x4'', OnValue ''QMatrix3x2'', OnValue ''QMatrix3x3'', OnValue ''QMatrix3x4'', OnValue ''QMatrix4x2'', OnValue ''QMatrix4x3'', OnValue QMatrix4x4],
     Bind [ValueM QTGUI_QTRANSFORM] ''toTransform'' [] (RValue QTransform) [OnValue QMatrix4x4],
     Bind [ValueM QTGUI_QTRANSFORM] ''toTransform'' [PReal ''float''] (RValue QTransform) [OnValue QMatrix4x4],
     Bind [ValueM QTGUI_QVECTOR3D] ''translate'' [PConv QVector3D] RVoid [OnValue QMatrix4x4]]"

definition vmeth_qtgui_5_7 :: "binding list" where
  "vmeth_qtgui_5_7 = [
     Bind [] ''translate'' [PReal ''float'', PReal ''float''] RVoid [OnValue QMatrix4x4],
     Bind [] ''translate'' [PReal ''float'', PReal ''float'', PReal ''float''] RVoid [OnValue QMatrix4x4],
     Bind [ValueM ''QTGUI_QMATRIX2X3''] ''transposed'' [] (RValue ''QMatrix2x3'') [OnValue ''QMatrix3x2''],
     Bind [ValueM ''QTGUI_QMATRIX2X4''] ''transposed'' [] (RValue ''QMatrix2x4'') [OnValue ''QMatrix4x2''],
     Bind [ValueM ''QTGUI_QMATRIX3X3''] ''transposed'' [] (RValue ''QMatrix3x3'') [OnValue ''QMatrix3x3''],
     Bind [ValueM ''QTGUI_QMATRIX3X4''] ''transposed'' [] (RValue ''QMatrix3x4'') [OnValue ''QMatrix4x3'']]"

definition vmeth_qtgui_5_8 :: "binding list" where
  "vmeth_qtgui_5_8 = [
     Bind [ValueM ''QTGUI_QMATRIX4X2''] ''transposed'' [] (RValue ''QMatrix4x2'') [OnValue ''QMatrix2x4''],
     Bind [ValueM ''QTGUI_QMATRIX4X3''] ''transposed'' [] (RValue ''QMatrix4x3'') [OnValue ''QMatrix3x4''],
     Bind [ValueM QTGUI_QMATRIX4X4] ''transposed'' [] (RValue QMatrix4x4) [OnValue QMatrix4x4],
     Bind [ValueM QTCORE_QRECTF] ''viewport'' [PConv QRectF] RVoid [OnValue QMatrix4x4],
     Bind [] ''viewport'' [PReal ''float'', PReal ''float'', PReal ''float'', PReal ''float'', PReal ''float'', PReal ''float''] RVoid [OnValue QMatrix4x4]]"

definition vtypes_qtgui_5 :: "string list" where
  "vtypes_qtgui_5 = [''QMatrix2x4'', ''QMatrix3x2'', ''QMatrix3x3'', ''QMatrix3x4'', ''QMatrix4x2'', ''QMatrix4x3'', QMatrix4x4,
     ''QMouseEvent'']"

definition vmeth_qtgui_6_0 :: "binding list" where
  "vmeth_qtgui_6_0 = [
     Bind [] ''addPage'' [PInt] RVoid [OnValue QPageRanges],
     Bind [] ''addRange'' [PInt, PInt] RVoid [OnValue QPageRanges],
     Bind [] ''clear'' [] RVoid [OnValue QPageRanges],
     Bind [] ''colorCount'' [] RNumber [OnValue ''QPaintDevice''],
     Bind [] ''contains'' [PInt] RBool [OnValue QPageRanges, OnValue QPageRanges],
     Bind [ValueM QTCORE_QSIZEF] ''definitionSize'' [] (RValue QSizeF) [OnValue QPageSize],
     Bind [TypeM QTGUI_QPAGESIZE] ''definitionUnits'' [] (RMeta ''QPageSize::Unit'') [OnValue QPageSize]]"

definition vmeth_qtgui_6_1 :: "binding list" where
  "vmeth_qtgui_6_1 = [
     Bind [ValueM QTCORE_QPOINTF] ''delta'' [] (RValue QPointF) [OnValue ''QNativeGestureEvent''],
     Bind [] ''depth'' [] RNumber [OnValue ''QPaintDevice''],
     Bind [] ''devicePixelRatio'' [] RNumber [OnValue ''QPaintDevice''],
     Bind [] ''devicePixelRatioF'' [] RNumber [OnValue ''QPaintDevice''],
     Bind [ValueM QTCORE_QRECT] ''drawEllipse'' [PConv QRect] RVoid [OnValue ''QPaintEngine''],
     Bind [ValueM QTCORE_QRECTF] ''drawEllipse'' [PConv QRectF] RVoid [OnValue ''QPaintEngine''],
     Bind [ValueM QTGUI_QPAINTERPATH] ''drawPath'' [PConv QPainterPath] RVoid [OnValue ''QPaintEngine'']]"

definition vmeth_qtgui_6_2 :: "binding list" where
  "vmeth_qtgui_6_2 = [
     Bind [ValueM QTCORE_QPOINTF, ValueM ''QTGUI_QTEXTITEM''] ''drawTextItem'' [PConv QPointF, PConv ''QTextItem''] RVoid [OnValue ''QPaintEngine''],
     Bind [ValueM QTCORE_QPOINTF, ValueM QTCORE_QRECTF, ValueM QTGUI_QPIXMAP] ''drawTiledPixmap'' [PConv QRectF, PConv QPixmap, PConv QPointF] RVoid [OnValue ''QPaintEngine''],
     Bind [] ''fingerCount'' [] RNumber [OnValue ''QNativeGestureEvent''],
     Bind [] ''firstPage'' [] RNumber [OnValue QPageRanges],
     Bind [ValueM QTCORE_QRECTF] ''fullRect'' [] (RValue QRectF) [OnValue QPageLayout],
     Bind [TypeM QTGUI_QPAGELAYOUT, ValueM QTCORE_QRECTF] ''fullRect'' [PConv ''QPageLayout::Unit''] (RValue QRectF) [OnValue QPageLayout]]"

definition vmeth_qtgui_6_3 :: "binding list" where
  "vmeth_qtgui_6_3 = [
     Bind [ValueM QTCORE_QRECT] ''fullRectPixels'' [PInt] (RValue QRect) [OnValue QPageLayout],
     Bind [ValueM QTCORE_QRECT] ''fullRectPoints'' [] (RValue QRect) [OnValue QPageLayout],
     Bind [EnumM ''QT_NATIVEGESTURETYPE''] ''gestureType'' [] (RMeta ''Qt::NativeGestureType'') [OnValue ''QNativeGestureEvent''],
     Bind [] ''height'' [] RNumber [OnValue ''QPaintDevice''],
     Bind [] ''heightMM'' [] RNumber [OnValue ''QPaintDevice''],
     Bind [TypeM QTGUI_QPAGESIZE] ''id'' [] (RMeta QPageSize_PageSizeId) [OnValue QPageSize],
     Bind [] ''isActive'' [] RBool [OnValue ''QPaintEngine'']]"

definition vmeth_qtgui_6_4 :: "binding list" where
  "vmeth_qtgui_6_4 = [
     Bind [] ''isEmpty'' [] RBool [OnValue QPageRanges],
     Bind [ValueM QTGUI_QPAGELAYOUT] ''isEquivalentTo'' [PConv QPageLayout] RBool [OnValue QPageLayout],
     Bind [ValueM QTGUI_QPAGESIZE] ''isEquivalentTo'' [PConv QPageSize] RBool [OnValue QPageSize],
     Bind [] ''isValid'' [] RBool [OnValue QPageLayout, OnValue QPageSize],
     Bind [] ''key'' [] RString [OnValue QPageSize],
     Bind [] ''lastPage'' [] RNumber [OnValue QPageRanges],
     Bind [] ''logicalDpiX'' [] RNumber [OnValue ''QPaintDevice'']]"

definition vmeth_qtgui_6_5 :: "binding list" where
  "vmeth_qtgui_6_5 = [
     Bind [] ''logicalDpiY'' [] RNumber [OnValue ''QPaintDevice''],
     Bind [ValueM QTCORE_QMARGINSF] ''margins'' [] (RValue QMarginsF) [OnValue QPageLayout],
     Bind [TypeM QTGUI_QPAGELAYOUT, ValueM QTCORE_QMARGINSF] ''margins'' [PConv ''QPageLayout::Unit''] (RValue QMarginsF) [OnValue QPageLayout],
     Bind [ValueM QTCORE_QMARGINS] ''marginsPixels'' [PInt] (RValue QMargins) [OnValue QPageLayout],
     Bind [ValueM QTCORE_QMARGINS] ''marginsPoints'' [] (RValue QMargins) [OnValue QPageLayout],
     Bind [ValueM QTCORE_QMARGINSF] ''maximumMargins'' [] (RValue QMarginsF) [OnValue QPageLayout],
     Bind [ValueM QTCORE_QMARGINSF] ''minimumMargins'' [] (RValue QMarginsF) [OnValue QPageLayout]]"

definition vmeth_qtgui_6_6 :: "binding list" where
  "vmeth_qtgui_6_6 = [
     Bind [TypeM QTGUI_QPAGELAYOUT] ''mode'' [] (RMeta ''QPageLayout::Mode'') [OnValue QPageLayout],
     Bind [] ''name'' [] RString [OnValue QPageSize],
     Bind [ValueM QTCORE_QPOINT] ''oldPos'' [] (RValue QPoint) [OnValue ''QMoveEvent''],
     Bind [TypeM QTGUI_QPAGELAYOUT] ''orientation'' [] (RMeta ''QPageLayout::Orientation'') [OnValue QPageLayout],
     Bind [ValueM QTGUI_QPAGELAYOUT] ''pageLayout'' [] (RValue QPageLayout) [OnValue ''QPagedPaintDevice''],
     Bind [ValueM ''QTGUI_QPAGERANGES''] ''pageRanges'' [] (RValue QPageRanges) [OnValue ''QPagedPaintDevice''],
     Bind [ValueM QTGUI_QPAGESIZE] ''pageSize'' [] (RValue QPageSize) [OnValue QPageLayout]]"

definition vmeth_qtgui_6_7 :: "binding list" where
  "vmeth_qtgui_6_7 = [
     Bind [ValueM QTCORE_QRECTF] ''paintRect'' [] (RValue QRectF) [OnValue QPageLayout],
     Bind [TypeM QTGUI_QPAGELAYOUT, ValueM QTCORE_QRECTF] ''paintRect'' [PConv ''QPageLayout::Unit''] (RValue QRectF) [OnValue QPageLayout],
     Bind [ValueM QTCORE_QRECT] ''paintRectPixels'' [PInt] (RValue QRect) [OnValue QPageLayout],
     Bind [ValueM QTCORE_QRECT] ''paintRectPoints'' [] (RValue QRect) [OnValue QPageLayout],
     Bind [] ''paintingActive'' [] RBool [OnValue ''QPaintDevice''],
     Bind [] ''physicalDpiX'' [] RNumber [OnValue ''QPaintDevice''],
     Bind [] ''physicalDpiY'' [] RNumber [OnValue ''QPaintDevice'']]"

definition vmeth_qtgui_6_8 :: "binding list" where
  "vmeth_qtgui_6_8 = [
     Bind [ValueM QTCORE_QPOINT] ''pos'' [] (RValue QPoint) [OnValue ''QMoveEvent''],
     Bind [TypeM QTGUI_QPAGESIZE, ValueM QTCORE_QRECTF] ''rect'' [PConv ''QPageSize::Unit''] (RValue QRectF) [OnValue QPageSize],
     Bind [ValueM QTCORE_QRECT] ''rectPixels'' [PInt] (RValue QRect) [OnValue QPageSize],
     Bind [ValueM QTCORE_QRECT] ''rectPoints'' [] (RValue QRect) [OnValue QPageSize],
     Bind [] ''setActive'' [PBool] RVoid [OnValue ''QPaintEngine''],
     Bind [TypeM QTGUI_QPAGELAYOUT] ''setBottomMargin'' [PReal ''qreal'', PConv ''QPageLayout::OutOfBoundsPolicy''] RBool [OnValue QPageLayout]]"

definition vmeth_qtgui_6_9 :: "binding list" where
  "vmeth_qtgui_6_9 = [
     Bind [TypeM QTGUI_QPAGELAYOUT] ''setLeftMargin'' [PReal ''qreal'', PConv ''QPageLayout::OutOfBoundsPolicy''] RBool [OnValue QPageLayout],
     Bind [TypeM QTGUI_QPAGELAYOUT, ValueM QTCORE_QMARGINSF] ''setMargins'' [PConv QMarginsF, PConv ''QPageLayout::OutOfBoundsPolicy''] RBool [OnValue QPageLayout],
     Bind [ValueM QTCORE_QMARGINSF] ''setMinimumMargins'' [PConv QMarginsF] RVoid [OnValue QPageLayout],
     Bind [TypeM QTGUI_QPAGELAYOUT] ''setMode'' [PConv ''QPageLayout::Mode''] RVoid [OnValue QPageLayout],
     Bind [TypeM QTGUI_QPAGELAYOUT] ''setOrientation'' [PConv ''QPageLayout::Orientation''] RVoid [OnValue QPageLayout],
     Bind [ValueM QTGUI_QPAGELAYOUT] ''setPageLayout'' [PConv QPageLayout] RBool [OnValue ''QPagedPaintDevice'']]"

definition vmeth_qtgui_6_10 :: "binding list" where
  "vmeth_qtgui_6_10 = [
     Bind [TypeM QTGUI_QPAGELAYOUT, ValueM QTCORE_QMARGINSF] ''setPageMargins'' [PConv QMarginsF, PConv ''QPageLayout::Unit''] RBool [OnValue ''QPagedPaintDevice''],
     Bind [TypeM QTGUI_QPAGELAYOUT] ''setPageOrientation'' [PConv ''QPageLayout::Orientation''] RBool [OnValue ''QPagedPaintDevice''],
     Bind [ValueM ''QTGUI_QPAGERANGES''] ''setPageRanges'' [PConv QPageRanges] RVoid [OnValue ''QPagedPaintDevice''],
     Bind [ValueM QTGUI_QPAGESIZE] ''setPageSize'' [PConv QPageSize] RBool [OnValue ''QPagedPaintDevice''],
     Bind [ValueM QTCORE_QMARGINSF, ValueM QTGUI_QPAGESIZE] ''setPageSize'' [PConv QPageSize, PConv QMarginsF] RVoid [OnValue QPageLayout],
     Bind [TypeM QTGUI_QPAGELAYOUT] ''setRightMargin'' [PReal ''qreal'', PConv ''QPageLayout::OutOfBoundsPolicy''] RBool [OnValue QPageLayout]]"

definition vmeth_qtgui_6_11 :: "binding list" where
  "vmeth_qtgui_6_11 = [
     Bind [TypeM QTGUI_QPAGELAYOUT] ''setTopMargin'' [PReal ''qreal'', PConv ''QPageLayout::OutOfBoundsPolicy''] RBool [OnValue QPageLayout],
     Bind [TypeM QTGUI_QPAGELAYOUT] ''setUnits'' [PConv ''QPageLayout::Unit''] RVoid [OnValue QPageLayout],
     Bind [TypeM QTGUI_QPAGESIZE, ValueM QTCORE_QSIZEF] ''size'' [PConv ''QPageSize::Unit''] (RValue QSizeF) [OnValue QPageSize],
     Bind [ValueM QTCORE_QSIZE] ''sizePixels'' [PInt] (RValue QSize) [OnValue QPageSize],
     Bind [ValueM QTCORE_QSIZE] ''sizePoints'' [] (RValue QSize) [OnValue QPageSize],
     Bind [ValueM QTGUI_QPAGELAYOUT] ''swap'' [PConv QPageLayout] RVoid [OnValue QPageLayout]]"

definition vmeth_qtgui_6_12 :: "binding list" where
  "vmeth_qtgui_6_12 = [
     Bind [ValueM ''QTGUI_QPAGERANGES''] ''swap'' [PConv QPageRanges] RVoid [OnValue QPageRanges],
     Bind [ValueM QTGUI_QPAGESIZE] ''swap'' [PConv QPageSize] RVoid [OnValue QPageSize],
     Bind [] ''toString'' [] RString [OnValue QPageRanges],
     Bind [TypeM QTGUI_QPAGELAYOUT] ''units'' [] (RMeta ''QPageLayout::Unit'') [OnValue QPageLayout],
     Bind [] ''value'' [] RNumber [OnValue ''QNativeGestureEvent''],
     Bind [] ''width'' [] RNumber [OnValue ''QPaintDevice''],
     Bind [] ''widthMM'' [] RNumber [OnValue ''QPaintDevice''],
     Bind [] ''windowsId'' [] RNumber [OnValue QPageSize]]"

definition vtypes_qtgui_6 :: "string list" where
  "vtypes_qtgui_6 = [''QMoveEvent'', ''QNativeGestureEvent'', QPageLayout, QPageRanges, QPageSize, ''QPagedPaintDevice'',
     ''QPaintDevice'', ''QPaintEngine'']"

definition vmeth_table_gui_b :: "(string \<times> shard) list" where
  "vmeth_table_gui_b = [
     (''qtgui_13'', \<lparr>sh_module = ''QtGui'', sh_slug = ''QTGUI'',
        sh_bindings = concat [vmeth_qtgui_13_0, vmeth_qtgui_13_1, vmeth_qtgui_13_2, vmeth_qtgui_13_3, vmeth_qtgui_13_4, vmeth_qtgui_13_5, vmeth_qtgui_13_6, vmeth_qtgui_13_7, vmeth_qtgui_13_8, vmeth_qtgui_13_9, vmeth_qtgui_13_10, vmeth_qtgui_13_11, vmeth_qtgui_13_12, vmeth_qtgui_13_13, vmeth_qtgui_13_14, vmeth_qtgui_13_15, vmeth_qtgui_13_16, vmeth_qtgui_13_17, vmeth_qtgui_13_18, vmeth_qtgui_13_19]\<rparr>),
     (''qtgui_14'', \<lparr>sh_module = ''QtGui'', sh_slug = ''QTGUI'',
        sh_bindings = concat [vmeth_qtgui_14_0, vmeth_qtgui_14_1, vmeth_qtgui_14_2, vmeth_qtgui_14_3, vmeth_qtgui_14_4, vmeth_qtgui_14_5, vmeth_qtgui_14_6, vmeth_qtgui_14_7]\<rparr>),
     (''qtgui_2'', \<lparr>sh_module = ''QtGui'', sh_slug = ''QTGUI'',
        sh_bindings = concat [vmeth_qtgui_2_0, vmeth_qtgui_2_1, vmeth_qtgui_2_2, vmeth_qtgui_2_3, vmeth_qtgui_2_4, vmeth_qtgui_2_5, vmeth_qtgui_2_6, vmeth_qtgui_2_7, vmeth_qtgui_2_8, vmeth_qtgui_2_9, vmeth_qtgui_2_10, vmeth_qtgui_2_11, vmeth_qtgui_2_12, vmeth_qtgui_2_13, vmeth_qtgui_2_14, vmeth_qtgui_2_15, vmeth_qtgui_2_16, vmeth_qtgui_2_17, vmeth_qtgui_2_18, vmeth_qtgui_2_19, vmeth_qtgui_2_20, vmeth_qtgui_2_21, vmeth_qtgui_2_22]\<rparr>),
     (''qtgui_3'', \<lparr>sh_module = ''QtGui'', sh_slug = ''QTGUI'',
        sh_bindings = concat [vmeth_qtgui_3_0, vmeth_qtgui_3_1, vmeth_qtgui_3_2, vmeth_qtgui_3_3, vmeth_qtgui_3_4, vmeth_qtgui_3_5, vmeth_qtgui_3_6, vmeth_qtgui_3_7, vmeth_qtgui_3_8, vmeth_qtgui_3_9, vmeth_qtgui_3_10, vmeth_qtgui_3_11, vmeth_qtgui_3_12, vmeth_qtgui_3_13, vmeth_qtgui_3_14, vmeth_qtgui_3_15, vmeth_qtgui_3_16, vmeth_qtgui_3_17, vmeth_qtgui_3_18, vmeth_qtgui_3_19, vmeth_qtgui_3_20, vmeth_qtgui_3_21, vmeth_qtgui_3_22, vmeth_qtgui_3_23, vmeth_qtgui_3_24]\<rparr>),
     (''qtgui_4'', \<lparr>sh_module = ''QtGui'', sh_slug = ''QTGUI'',
        sh_bindings = concat [vmeth_qtgui_4_0, vmeth_qtgui_4_1, vmeth_qtgui_4_2, vmeth_qtgui_4_3, vmeth_qtgui_4_4, vmeth_qtgui_4_5]\<rparr>),
     (''qtgui_5'', \<lparr>sh_module = ''QtGui'', sh_slug = ''QTGUI'',
        sh_bindings = concat [vmeth_qtgui_5_0, vmeth_qtgui_5_1, vmeth_qtgui_5_2, vmeth_qtgui_5_3, vmeth_qtgui_5_4, vmeth_qtgui_5_5, vmeth_qtgui_5_6, vmeth_qtgui_5_7, vmeth_qtgui_5_8]\<rparr>),
     (''qtgui_6'', \<lparr>sh_module = ''QtGui'', sh_slug = ''QTGUI'',
        sh_bindings = concat [vmeth_qtgui_6_0, vmeth_qtgui_6_1, vmeth_qtgui_6_2, vmeth_qtgui_6_3, vmeth_qtgui_6_4, vmeth_qtgui_6_5, vmeth_qtgui_6_6, vmeth_qtgui_6_7, vmeth_qtgui_6_8, vmeth_qtgui_6_9, vmeth_qtgui_6_10, vmeth_qtgui_6_11, vmeth_qtgui_6_12]\<rparr>)]"

lemmas vmeth_table_gui_b_defs =
  vmeth_qtgui_13_0_def vmeth_qtgui_13_1_def vmeth_qtgui_13_2_def vmeth_qtgui_13_3_def vmeth_qtgui_13_4_def
  vmeth_qtgui_13_5_def vmeth_qtgui_13_6_def vmeth_qtgui_13_7_def vmeth_qtgui_13_8_def vmeth_qtgui_13_9_def
  vmeth_qtgui_13_10_def vmeth_qtgui_13_11_def vmeth_qtgui_13_12_def vmeth_qtgui_13_13_def vmeth_qtgui_13_14_def
  vmeth_qtgui_13_15_def vmeth_qtgui_13_16_def vmeth_qtgui_13_17_def vmeth_qtgui_13_18_def vmeth_qtgui_13_19_def
  vmeth_qtgui_14_0_def vmeth_qtgui_14_1_def vmeth_qtgui_14_2_def vmeth_qtgui_14_3_def vmeth_qtgui_14_4_def
  vmeth_qtgui_14_5_def vmeth_qtgui_14_6_def vmeth_qtgui_14_7_def vmeth_qtgui_2_0_def vmeth_qtgui_2_1_def
  vmeth_qtgui_2_2_def vmeth_qtgui_2_3_def vmeth_qtgui_2_4_def vmeth_qtgui_2_5_def vmeth_qtgui_2_6_def
  vmeth_qtgui_2_7_def vmeth_qtgui_2_8_def vmeth_qtgui_2_9_def vmeth_qtgui_2_10_def vmeth_qtgui_2_11_def
  vmeth_qtgui_2_12_def vmeth_qtgui_2_13_def vmeth_qtgui_2_14_def vmeth_qtgui_2_15_def vmeth_qtgui_2_16_def
  vmeth_qtgui_2_17_def vmeth_qtgui_2_18_def vmeth_qtgui_2_19_def vmeth_qtgui_2_20_def vmeth_qtgui_2_21_def
  vmeth_qtgui_2_22_def vmeth_qtgui_3_0_def vmeth_qtgui_3_1_def vmeth_qtgui_3_2_def vmeth_qtgui_3_3_def
  vmeth_qtgui_3_4_def vmeth_qtgui_3_5_def vmeth_qtgui_3_6_def vmeth_qtgui_3_7_def vmeth_qtgui_3_8_def
  vmeth_qtgui_3_9_def vmeth_qtgui_3_10_def vmeth_qtgui_3_11_def vmeth_qtgui_3_12_def vmeth_qtgui_3_13_def
  vmeth_qtgui_3_14_def vmeth_qtgui_3_15_def vmeth_qtgui_3_16_def vmeth_qtgui_3_17_def vmeth_qtgui_3_18_def
  vmeth_qtgui_3_19_def vmeth_qtgui_3_20_def vmeth_qtgui_3_21_def vmeth_qtgui_3_22_def vmeth_qtgui_3_23_def
  vmeth_qtgui_3_24_def vmeth_qtgui_4_0_def vmeth_qtgui_4_1_def vmeth_qtgui_4_2_def vmeth_qtgui_4_3_def
  vmeth_qtgui_4_4_def vmeth_qtgui_4_5_def vmeth_qtgui_5_0_def vmeth_qtgui_5_1_def vmeth_qtgui_5_2_def
  vmeth_qtgui_5_3_def vmeth_qtgui_5_4_def vmeth_qtgui_5_5_def vmeth_qtgui_5_6_def vmeth_qtgui_5_7_def
  vmeth_qtgui_5_8_def vmeth_qtgui_6_0_def vmeth_qtgui_6_1_def vmeth_qtgui_6_2_def vmeth_qtgui_6_3_def
  vmeth_qtgui_6_4_def vmeth_qtgui_6_5_def vmeth_qtgui_6_6_def vmeth_qtgui_6_7_def vmeth_qtgui_6_8_def
  vmeth_qtgui_6_9_def vmeth_qtgui_6_10_def vmeth_qtgui_6_11_def vmeth_qtgui_6_12_def

lemma vmeth_table_gui_b_value_blocks: "list_all (\<lambda>(s, sh). value_blocks sh) vmeth_table_gui_b"
  by (simp add: vmeth_table_gui_b_def vmeth_table_gui_b_defs value_blocks_def value_shard_def; (simp add: parameter_text_def qt_name_defs)?)

end
