(* ===== verification/Value_Methods_Gui_C.thy ===== *)
theory Value_Methods_Gui_C
  imports Shard_Methods Qt_Names
begin

text \<open>
  Tables of the value method shards (generated\_value\_methods): the blocks of every shard in the file's order, and the
  classes it can store by value.
\<close>

definition vmeth_qtgui_7_0 :: "binding list" where
  "vmeth_qtgui_7_0 = [
     Bind [ValueM QTGUI_QBRUSH] ''accent'' [] (RValue QBrush) [OnValue QPalette],
     Bind [ValueM QTCORE_QPOINTF] ''addEllipse'' [PConv QPointF, PReal ''qreal'', PReal ''qreal''] RVoid [OnValue QPainterPath],
     Bind [ValueM QTCORE_QRECTF] ''addEllipse'' [PConv QRectF] RVoid [OnValue QPainterPath],
     Bind [] ''addEllipse'' [PReal ''qreal'', PReal ''qreal'', PReal ''qreal'', PReal ''qreal''] RVoid [OnValue QPainterPath],
     Bind [ValueM QTGUI_QPAINTERPATH] ''addPath'' [PConv QPainterPath] RVoid [OnValue QPainterPath],
     Bind [ValueM QTGUI_QPOLYGONF] ''addPolygon'' [PConv QPolygonF] RVoid [OnValue QPainterPath]]"

definition vmeth_qtgui_7_1 :: "binding list" where
  "vmeth_qtgui_7_1 = [
     Bind [ValueM QTCORE_QRECTF] ''addRect'' [PConv QRectF] RVoid [OnValue QPainterPath],
     Bind [] ''addRect'' [PReal ''qreal'', PReal ''qreal'', PReal ''qreal'', PReal ''qreal''] RVoid [OnValue QPainterPath],
     Bind [ValueM QTGUI_QREGION] ''addRegion'' [PConv QRegion] RVoid [OnValue QPainterPath],
     Bind [EnumM ''QT_SIZEMODE'', ValueM QTCORE_QRECTF] ''addRoundedRect'' [PConv QRectF, PReal ''qreal'', PReal ''qreal'', PConv ''Qt::SizeMode''] RVoid [OnValue QPainterPath],
     Bind [EnumM ''QT_SIZEMODE''] ''addRoundedRect'' [PReal ''qreal'', PReal ''qreal'', PReal ''qreal'', PReal ''qreal'', PReal ''qreal'', PReal ''qreal'', PConv ''Qt::SizeMode''] RVoid [OnValue QPainterPath]]"

definition vmeth_qtgui_7_2 :: "binding list" where
  "vmeth_qtgui_7_2 = [
     Bind [ValueM QTCORE_QPOINTF, ValueM QTGUI_QFONT] ''addText'' [PConv QPointF, PConv QFont, PString True] RVoid [OnValue QPainterPath],
     Bind [ValueM QTGUI_QFONT] ''addText'' [PReal ''qreal'', PReal ''qreal'', PConv QFont, PString True] RVoid [OnValue QPainterPath],
     Bind [ValueM QTGUI_QBRUSH] ''alternateBase'' [] (RValue QBrush) [OnValue QPalette],
     Bind [] ''angleAtPercent'' [PReal ''qreal''] RNumber [OnValue QPainterPath],
     Bind [ValueM QTCORE_QRECTF] ''arcMoveTo'' [PConv QRectF, PReal ''qreal''] RVoid [OnValue QPainterPath],
     Bind [] ''arcMoveTo'' [PReal ''qreal'', PReal ''qreal'', PReal ''qreal'', PReal ''qreal'', PReal ''qreal''] RVoid [OnValue QPainterPath]]"

definition vmeth_qtgui_7_3 :: "binding list" where
  "vmeth_qtgui_7_3 = [
     Bind [ValueM QTCORE_QRECTF] ''arcTo'' [PConv QRectF, PReal ''qreal'', PReal ''qreal''] RVoid [OnValue QPainterPath],
     Bind [] ''arcTo'' [PReal ''qreal'', PReal ''qreal'', PReal ''qreal'', PReal ''qreal'', PReal ''qreal'', PReal ''qreal''] RVoid [OnValue QPainterPath],
     Bind [ValueM QTGUI_QBRUSH] ''background'' [] (RValue QBrush) [OnValue QPainter],
     Bind [ValueM QTGUI_QBRUSH] ''backgroundBrush'' [] (RValue QBrush) [OnValue QPaintEngineState],
     Bind [EnumM ''QT_BGMODE''] ''backgroundMode'' [] (RMeta ''Qt::BGMode'') [OnValue QPaintEngineState, OnValue QPainter],
     Bind [ValueM QTGUI_QBRUSH] ''base'' [] (RValue QBrush) [OnValue QPalette]]"

definition vmeth_qtgui_7_4 :: "binding list" where
  "vmeth_qtgui_7_4 = [
     Bind [] ''beginNativePainting'' [] RVoid [OnValue QPainter],
     Bind [ValueM QTCORE_QRECTF] ''boundingRect'' [] (RValue QRectF) [OnValue QPainterPath],
     Bind [ValueM QTCORE_QRECT] ''boundingRect'' [PConv QRect, PInt, PString True] (RValue QRect) [OnValue QPainter],
     Bind [ValueM QTCORE_QRECTF, ValueM QTGUI_QTEXTOPTION] ''boundingRect'' [PConv QRectF, PString True, PConv QTextOption] (RValue QRectF) [OnValue QPainter],
     Bind [ValueM QTCORE_QRECTF] ''boundingRect'' [PConv QRectF, PInt, PString True] (RValue QRectF) [OnValue QPainter]]"

definition vmeth_qtgui_7_5 :: "binding list" where
  "vmeth_qtgui_7_5 = [
     Bind [ValueM QTCORE_QRECT] ''boundingRect'' [PInt, PInt, PInt, PInt, PInt, PString True] (RValue QRect) [OnValue QPainter],
     Bind [ValueM QTGUI_QBRUSH] ''brightText'' [] (RValue QBrush) [OnValue QPalette],
     Bind [ValueM QTGUI_QBRUSH] ''brush'' [] (RValue QBrush) [OnValue QPaintEngineState, OnValue QPainter],
     Bind [TypeM QTGUI_QPALETTE, ValueM QTGUI_QBRUSH] ''brush'' [PConv ''QPalette::ColorGroup'', PConv QPalette_ColorRole] (RValue QBrush) [OnValue QPalette],
     Bind [TypeM QTGUI_QPALETTE, ValueM QTGUI_QBRUSH] ''brush'' [PConv QPalette_ColorRole] (RValue QBrush) [OnValue QPalette]]"

definition vmeth_qtgui_7_6 :: "binding list" where
  "vmeth_qtgui_7_6 = [
     Bind [] ''brushNeedsResolving'' [] RBool [OnValue QPaintEngineState],
     Bind [ValueM QTCORE_QPOINT] ''brushOrigin'' [] (RValue QPoint) [OnValue QPainter],
     Bind [ValueM QTCORE_QPOINTF] ''brushOrigin'' [] (RValue QPointF) [OnValue QPaintEngineState],
     Bind [ValueM QTCORE_QPOINTF] ''brushOriginF'' [] (RValue QPointF) [OnValue QPainter],
     Bind [ValueM QTGUI_QBRUSH] ''button'' [] (RValue QBrush) [OnValue QPalette],
     Bind [ValueM QTGUI_QBRUSH] ''buttonText'' [] (RValue QBrush) [OnValue QPalette],
     Bind [] ''cacheKey'' [] (RMeta ''qint64'') [OnValue QPalette]]"

definition vmeth_qtgui_7_7 :: "binding list" where
  "vmeth_qtgui_7_7 = [
     Bind [EnumM ''QT_PENCAPSTYLE''] ''capStyle'' [] (RMeta ''Qt::PenCapStyle'') [OnValue QPainterPathStroker],
     Bind [] ''capacity'' [] RNumber [OnValue QPainterPath],
     Bind [] ''clear'' [] RVoid [OnValue QPainterPath],
     Bind [ValueM QTCORE_QRECTF] ''clipBoundingRect'' [] (RValue QRectF) [OnValue QPainter],
     Bind [EnumM ''QT_CLIPOPERATION''] ''clipOperation'' [] (RMeta ''Qt::ClipOperation'') [OnValue QPaintEngineState],
     Bind [ValueM QTGUI_QPAINTERPATH] ''clipPath'' [] (RValue QPainterPath) [OnValue QPaintEngineState, OnValue QPainter]]"

definition vmeth_qtgui_7_8 :: "binding list" where
  "vmeth_qtgui_7_8 = [
     Bind [ValueM QTGUI_QREGION] ''clipRegion'' [] (RValue QRegion) [OnValue QPaintEngineState, OnValue QPainter],
     Bind [] ''closeSubpath'' [] RVoid [OnValue QPainterPath],
     Bind [TypeM QTGUI_QPALETTE, ValueM QTGUI_QCOLOR] ''color'' [PConv ''QPalette::ColorGroup'', PConv QPalette_ColorRole] (RValue QColor) [OnValue QPalette],
     Bind [TypeM QTGUI_QPALETTE, ValueM QTGUI_QCOLOR] ''color'' [PConv QPalette_ColorRole] (RValue QColor) [OnValue QPalette],
     Bind [ValueM QTGUI_QTRANSFORM] ''combinedTransform'' [] (RValue QTransform) [OnValue QPainter],
     Bind [TypeM ''QTGUI_QPAINTER''] ''compositionMode'' [] (RMeta ''QPainter::CompositionMode'') [OnValue QPaintEngineState, OnValue QPainter]]"

definition vmeth_qtgui_7_9 :: "binding list" where
  "vmeth_qtgui_7_9 = [
     Bind [ValueM QTGUI_QPAINTERPATH] ''connectPath'' [PConv QPainterPath] RVoid [OnValue QPainterPath],
     Bind [ValueM QTGUI_QPAINTERPATH] ''contains'' [PConv QPainterPath] RBool [OnValue QPainterPath],
     Bind [ValueM QTCORE_QPOINTF] ''contains'' [PConv QPointF] RBool [OnValue QPainterPath],
     Bind [ValueM QTCORE_QRECTF] ''contains'' [PConv QRectF] RBool [OnValue QPainterPath],
     Bind [ValueM QTCORE_QRECTF] ''controlPointRect'' [] (RValue QRectF) [OnValue QPainterPath],
     Bind [ValueM QTGUI_QPAINTERPATH] ''createStroke'' [PConv QPainterPath] (RValue QPainterPath) [OnValue QPainterPathStroker]]"

definition vmeth_qtgui_7_10 :: "binding list" where
  "vmeth_qtgui_7_10 = [
     Bind [ValueM QTCORE_QPOINTF] ''cubicTo'' [PConv QPointF, PConv QPointF, PConv QPointF] RVoid [OnValue QPainterPath],
     Bind [] ''cubicTo'' [PReal ''qreal'', PReal ''qreal'', PReal ''qreal'', PReal ''qreal'', PReal ''qreal'', PReal ''qreal''] RVoid [OnValue QPainterPath],
     Bind [TypeM QTGUI_QPALETTE] ''currentColorGroup'' [] (RMeta ''QPalette::ColorGroup'') [OnValue QPalette],
     Bind [ValueM QTCORE_QPOINTF] ''currentPosition'' [] (RValue QPointF) [OnValue QPainterPath],
     Bind [] ''curveThreshold'' [] RNumber [OnValue QPainterPathStroker],
     Bind [ValueM QTGUI_QBRUSH] ''dark'' [] (RValue QBrush) [OnValue QPalette]]"

definition vmeth_qtgui_7_11 :: "binding list" where
  "vmeth_qtgui_7_11 = [
     Bind [] ''dashOffset'' [] RNumber [OnValue QPainterPathStroker],
     Bind [] ''dashPattern'' [] (RList (IMeta ''qreal'')) [OnValue QPainterPathStroker],
     Bind [ValueM QTGUI_QTRANSFORM] ''deviceTransform'' [] (RValue QTransform) [OnValue QPainter],
     Bind [ValueM QTCORE_QRECT] ''drawArc'' [PConv QRect, PInt, PInt] RVoid [OnValue QPainter],
     Bind [ValueM QTCORE_QRECTF] ''drawArc'' [PConv QRectF, PInt, PInt] RVoid [OnValue QPainter]]"

definition vmeth_qtgui_7_12 :: "binding list" where
  "vmeth_qtgui_7_12 = [
     Bind [] ''drawArc'' [PInt, PInt, PInt, PInt, PInt, PInt] RVoid [OnValue QPainter],
     Bind [ValueM QTCORE_QRECT] ''drawChord'' [PConv QRect, PInt, PInt] RVoid [OnValue QPainter],
     Bind [ValueM QTCORE_QRECTF] ''drawChord'' [PConv QRectF, PInt, PInt] RVoid [OnValue QPainter],
     Bind [] ''drawChord'' [PInt, PInt, PInt, PInt, PInt, PInt] RVoid [OnValue QPainter]]"

definition vmeth_qtgui_7_13 :: "binding list" where
  "vmeth_qtgui_7_13 = [
     Bind [ValueM QTGUI_QPOLYGON] ''drawConvexPolygon'' [PConv QPolygon] RVoid [OnValue QPainter],
     Bind [ValueM QTGUI_QPOLYGONF] ''drawConvexPolygon'' [PConv QPolygonF] RVoid [OnValue QPainter],
     Bind [ValueM QTCORE_QPOINT] ''drawEllipse'' [PConv QPoint, PInt, PInt] RVoid [OnValue QPainter],
     Bind [ValueM QTCORE_QPOINTF] ''drawEllipse'' [PConv QPointF, PReal ''qreal'', PReal ''qreal''] RVoid [OnValue QPainter],
     Bind [ValueM QTCORE_QRECT] ''drawEllipse'' [PConv QRect] RVoid [OnValue QPainter],
     Bind [ValueM QTCORE_QRECTF] ''drawEllipse'' [PConv QRectF] RVoid [OnValue QPainter]]"

definition vmeth_qtgui_7_14 :: "binding list" where
  "vmeth_qtgui_7_14 = [
     Bind [] ''drawEllipse'' [PInt, PInt, PInt, PInt] RVoid [OnValue QPainter],
     Bind [ValueM QTCORE_QPOINTF, ValueM ''QTGUI_QGLYPHRUN''] ''drawGlyphRun'' [PConv QPointF, PConv QGlyphRun] RVoid [OnValue QPainter],
     Bind [ValueM QTCORE_QPOINT, ValueM QTGUI_QIMAGE] ''drawImage'' [PConv QPoint, PConv QImage] RVoid [OnValue QPainter],
     Bind [ValueM QTCORE_QPOINTF, ValueM QTGUI_QIMAGE] ''drawImage'' [PConv QPointF, PConv QImage] RVoid [OnValue QPainter],
     Bind [ValueM QTCORE_QRECT, ValueM QTGUI_QIMAGE] ''drawImage'' [PConv QRect, PConv QImage] RVoid [OnValue QPainter]]"

definition vmeth_qtgui_7_15 :: "binding list" where
  "vmeth_qtgui_7_15 = [
     Bind [ValueM QTCORE_QRECTF, ValueM QTGUI_QIMAGE] ''drawImage'' [PConv QRectF, PConv QImage] RVoid [OnValue QPainter],
     Bind [ValueM ''QTCORE_QLINE''] ''drawLine'' [PConv ''QLine''] RVoid [OnValue QPainter],
     Bind [ValueM ''QTCORE_QLINEF''] ''drawLine'' [PConv QLineF] RVoid [OnValue QPainter],
     Bind [ValueM QTCORE_QPOINT] ''drawLine'' [PConv QPoint, PConv QPoint] RVoid [OnValue QPainter],
     Bind [ValueM QTCORE_QPOINTF] ''drawLine'' [PConv QPointF, PConv QPointF] RVoid [OnValue QPainter]]"

definition vmeth_qtgui_7_16 :: "binding list" where
  "vmeth_qtgui_7_16 = [
     Bind [] ''drawLine'' [PInt, PInt, PInt, PInt] RVoid [OnValue QPainter],
     Bind [ValueM QTGUI_QPAINTERPATH] ''drawPath'' [PConv QPainterPath] RVoid [OnValue QPainter],
     Bind [ValueM QTCORE_QPOINT, ValueM ''QTGUI_QPICTURE''] ''drawPicture'' [PConv QPoint, PConv ''QPicture''] RVoid [OnValue QPainter],
     Bind [ValueM QTCORE_QPOINTF, ValueM ''QTGUI_QPICTURE''] ''drawPicture'' [PConv QPointF, PConv ''QPicture''] RVoid [OnValue QPainter],
     Bind [ValueM ''QTGUI_QPICTURE''] ''drawPicture'' [PInt, PInt, PConv ''QPicture''] RVoid [OnValue QPainter]]"

definition vmeth_qtgui_7_17 :: "binding list" where
  "vmeth_qtgui_7_17 = [
     Bind [ValueM QTCORE_QRECT] ''drawPie'' [PConv QRect, PInt, PInt] RVoid [OnValue QPainter],
     Bind [ValueM QTCORE_QRECTF] ''drawPie'' [PConv QRectF, PInt, PInt] RVoid [OnValue QPainter],
     Bind [] ''drawPie'' [PInt, PInt, PInt, PInt, PInt, PInt] RVoid [OnValue QPainter],
     Bind [ValueM QTCORE_QPOINT, ValueM QTGUI_QPIXMAP] ''drawPixmap'' [PConv QPoint, PConv QPixmap] RVoid [OnValue QPainter],
     Bind [ValueM QTCORE_QPOINT, ValueM QTCORE_QRECT, ValueM QTGUI_QPIXMAP] ''drawPixmap'' [PConv QPoint, PConv QPixmap, PConv QRect] RVoid [OnValue QPainter]]"

definition vmeth_qtgui_7_18 :: "binding list" where
  "vmeth_qtgui_7_18 = [
     Bind [ValueM QTCORE_QPOINTF, ValueM QTGUI_QPIXMAP] ''drawPixmap'' [PConv QPointF, PConv QPixmap] RVoid [OnValue QPainter],
     Bind [ValueM QTCORE_QPOINTF, ValueM QTCORE_QRECTF, ValueM QTGUI_QPIXMAP] ''drawPixmap'' [PConv QPointF, PConv QPixmap, PConv QRectF] RVoid [OnValue QPainter],
     Bind [ValueM QTCORE_QRECT, ValueM QTGUI_QPIXMAP] ''drawPixmap'' [PConv QRect, PConv QPixmap] RVoid [OnValue QPainter],
     Bind [ValueM QTCORE_QRECT, ValueM QTGUI_QPIXMAP] ''drawPixmap'' [PConv QRect, PConv QPixmap, PConv QRect] RVoid [OnValue QPainter],
     Bind [ValueM QTCORE_QRECTF, ValueM QTGUI_QPIXMAP] ''drawPixmap'' [PConv QRectF, PConv QPixmap, PConv QRectF] RVoid [OnValue QPainter]]"

definition vmeth_qtgui_7_19 :: "binding list" where
  "vmeth_qtgui_7_19 = [
     Bind [ValueM QTGUI_QPIXMAP] ''drawPixmap'' [PInt, PInt, PConv QPixmap] RVoid [OnValue QPainter],
     Bind [ValueM QTGUI_QPIXMAP] ''drawPixmap'' [PInt, PInt, PConv QPixmap, PInt, PInt, PInt, PInt] RVoid [OnValue QPainter],
     Bind [ValueM QTGUI_QPIXMAP] ''drawPixmap'' [PInt, PInt, PInt, PInt, PConv QPixmap] RVoid [OnValue QPainter]]"

definition vmeth_qtgui_7_20 :: "binding list" where
  "vmeth_qtgui_7_20 = [
     Bind [ValueM QTGUI_QPIXMAP] ''drawPixmap'' [PInt, PInt, PInt, PInt, PConv QPixmap, PInt, PInt, PInt, PInt] RVoid [OnValue QPainter],
     Bind [ValueM QTCORE_QPOINT] ''drawPoint'' [PConv QPoint] RVoid [OnValue QPainter],
     Bind [ValueM QTCORE_QPOINTF] ''drawPoint'' [PConv QPointF] RVoid [OnValue QPainter],
     Bind [] ''drawPoint'' [PInt, PInt] RVoid [OnValue QPainter],
     Bind [ValueM QTGUI_QPOLYGON] ''drawPoints'' [PConv QPolygon] RVoid [OnValue QPainter]]"

definition vmeth_qtgui_7_21 :: "binding list" where
  "vmeth_qtgui_7_21 = [
     Bind [ValueM QTGUI_QPOLYGONF] ''drawPoints'' [PConv QPolygonF] RVoid [OnValue QPainter],
     Bind [EnumM ''QT_FILLRULE'', ValueM QTGUI_QPOLYGON] ''drawPolygon'' [PConv QPolygon, PConv ''Qt::FillRule''] RVoid [OnValue QPainter],
     Bind [EnumM ''QT_FILLRULE'', ValueM QTGUI_QPOLYGONF] ''drawPolygon'' [PConv QPolygonF, PConv ''Qt::FillRule''] RVoid [OnValue QPainter],
     Bind [ValueM QTGUI_QPOLYGON] ''drawPolyline'' [PConv QPolygon] RVoid [OnValue QPainter],
     Bind [ValueM QTGUI_QPOLYGONF] ''drawPolyline'' [PConv QPolygonF] RVoid [OnValue QPainter],
     Bind [ValueM QTCORE_QRECT] ''drawRect'' [PConv QRect] RVoid [OnValue QPainter]]"

definition vmeth_qtgui_7_22 :: "binding list" where
  "vmeth_qtgui_7_22 = [
     Bind [ValueM QTCORE_QRECTF] ''drawRect'' [PConv QRectF] RVoid [OnValue QPainter],
     Bind [] ''drawRect'' [PInt, PInt, PInt, PInt] RVoid [OnValue QPainter],
     Bind [EnumM ''QT_SIZEMODE'', ValueM QTCORE_QRECT] ''drawRoundedRect'' [PConv QRect, PReal ''qreal'', PReal ''qreal'', PConv ''Qt::SizeMode''] RVoid [OnValue QPainter],
     Bind [EnumM ''QT_SIZEMODE'', ValueM QTCORE_QRECTF] ''drawRoundedRect'' [PConv QRectF, PReal ''qreal'', PReal ''qreal'', PConv ''Qt::SizeMode''] RVoid [OnValue QPainter]]"

definition vmeth_qtgui_7_23 :: "binding list" where
  "vmeth_qtgui_7_23 = [
     Bind [EnumM ''QT_SIZEMODE''] ''drawRoundedRect'' [PInt, PInt, PInt, PInt, PReal ''qreal'', PReal ''qreal'', PConv ''Qt::SizeMode''] RVoid [OnValue QPainter],
     Bind [ValueM QTCORE_QPOINT, ValueM ''QTGUI_QSTATICTEXT''] ''drawStaticText'' [PConv QPoint, PConv QStaticText] RVoid [OnValue QPainter],
     Bind [ValueM QTCORE_QPOINTF, ValueM ''QTGUI_QSTATICTEXT''] ''drawStaticText'' [PConv QPointF, PConv QStaticText] RVoid [OnValue QPainter],
     Bind [ValueM ''QTGUI_QSTATICTEXT''] ''drawStaticText'' [PInt, PInt, PConv QStaticText] RVoid [OnValue QPainter],
     Bind [ValueM QTCORE_QPOINT] ''drawText'' [PConv QPoint, PString True] RVoid [OnValue QPainter]]"

definition vmeth_qtgui_7_24 :: "binding list" where
  "vmeth_qtgui_7_24 = [
     Bind [ValueM QTCORE_QPOINTF] ''drawText'' [PConv QPointF, PString True] RVoid [OnValue QPainter],
     Bind [ValueM QTCORE_QRECTF, ValueM QTGUI_QTEXTOPTION] ''drawText'' [PConv QRectF, PString True, PConv QTextOption] RVoid [OnValue QPainter],
     Bind [] ''drawText'' [PInt, PInt, PString True] RVoid [OnValue QPainter],
     Bind [ValueM QTCORE_QPOINT, ValueM QTCORE_QRECT, ValueM QTGUI_QPIXMAP] ''drawTiledPixmap'' [PConv QRect, PConv QPixmap, PConv QPoint] RVoid [OnValue QPainter],
     Bind [ValueM QTCORE_QPOINTF, ValueM QTCORE_QRECTF, ValueM QTGUI_QPIXMAP] ''drawTiledPixmap'' [PConv QRectF, PConv QPixmap, PConv QPointF] RVoid [OnValue QPainter]]"

definition vmeth_qtgui_7_25 :: "binding list" where
  "vmeth_qtgui_7_25 = [
     Bind [ValueM QTGUI_QPIXMAP] ''drawTiledPixmap'' [PInt, PInt, PInt, PInt, PConv QPixmap, PInt, PInt] RVoid [OnValue QPainter],
     Bind [TypeM QTGUI_QPAINTERPATH] ''elementAt'' [PInt] (RMeta ''QPainterPath::Element'') [OnValue QPainterPath],
     Bind [] ''elementCount'' [] RNumber [OnValue QPainterPath],
     Bind [] ''end'' [] RBool [OnValue QPainter],
     Bind [] ''endNativePainting'' [] RVoid [OnValue QPainter],
     Bind [ValueM QTCORE_QRECT] ''eraseRect'' [PConv QRect] RVoid [OnValue QPainter]]"

definition vmeth_qtgui_7_26 :: "binding list" where
  "vmeth_qtgui_7_26 = [
     Bind [ValueM QTCORE_QRECTF] ''eraseRect'' [PConv QRectF] RVoid [OnValue QPainter],
     Bind [] ''eraseRect'' [PInt, PInt, PInt, PInt] RVoid [OnValue QPainter],
     Bind [ValueM QTGUI_QBRUSH, ValueM QTGUI_QPAINTERPATH] ''fillPath'' [PConv QPainterPath, PConv QBrush] RVoid [OnValue QPainter],
     Bind [ValueM QTCORE_QRECT, ValueM QTGUI_QBRUSH] ''fillRect'' [PConv QRect, PConv QBrush] RVoid [OnValue QPainter],
     Bind [ValueM QTCORE_QRECT, ValueM QTGUI_QCOLOR] ''fillRect'' [PConv QRect, PConv QColor] RVoid [OnValue QPainter, OnValue QPainter]]"

definition vmeth_qtgui_7_27 :: "binding list" where
  "vmeth_qtgui_7_27 = [
     Bind [TypeM ''QTGUI_QGRADIENT'', ValueM QTCORE_QRECT] ''fillRect'' [PConv QRect, PConv ''QGradient::Preset''] RVoid [OnValue QPainter, OnValue QPainter, OnValue QPainter, OnValue QPainter, OnValue QPainter],
     Bind [EnumM ''QT_BRUSHSTYLE'', ValueM QTCORE_QRECT] ''fillRect'' [PConv QRect, PConv ''Qt::BrushStyle''] RVoid [OnValue QPainter, OnValue QPainter, OnValue QPainter, OnValue QPainter, OnValue QPainter]]"

definition vmeth_qtgui_7_28 :: "binding list" where
  "vmeth_qtgui_7_28 = [
     Bind [EnumM ''QT_GLOBALCOLOR'', ValueM QTCORE_QRECT] ''fillRect'' [PConv QRect, PConv ''Qt::GlobalColor''] RVoid [OnValue QPainter, OnValue QPainter, OnValue QPainter, OnValue QPainter, OnValue QPainter],
     Bind [ValueM QTCORE_QRECTF, ValueM QTGUI_QBRUSH] ''fillRect'' [PConv QRectF, PConv QBrush] RVoid [OnValue QPainter],
     Bind [ValueM QTCORE_QRECTF, ValueM QTGUI_QCOLOR] ''fillRect'' [PConv QRectF, PConv QColor] RVoid [OnValue QPainter, OnValue QPainter]]"

definition vmeth_qtgui_7_29 :: "binding list" where
  "vmeth_qtgui_7_29 = [
     Bind [TypeM ''QTGUI_QGRADIENT'', ValueM QTCORE_QRECTF] ''fillRect'' [PConv QRectF, PConv ''QGradient::Preset''] RVoid [OnValue QPainter, OnValue QPainter, OnValue QPainter, OnValue QPainter, OnValue QPainter],
     Bind [EnumM ''QT_BRUSHSTYLE'', ValueM QTCORE_QRECTF] ''fillRect'' [PConv QRectF, PConv ''Qt::BrushStyle''] RVoid [OnValue QPainter, OnValue QPainter, OnValue QPainter, OnValue QPainter, OnValue QPainter]]"

definition vmeth_qtgui_7_30 :: "binding list" where
  "vmeth_qtgui_7_30 = [
     Bind [EnumM ''QT_GLOBALCOLOR'', ValueM QTCORE_QRECTF] ''fillRect'' [PConv QRectF, PConv ''Qt::GlobalColor''] RVoid [OnValue QPainter, OnValue QPainter, OnValue QPainter, OnValue QPainter, OnValue QPainter],
     Bind [ValueM QTGUI_QBRUSH] ''fillRect'' [PInt, PInt, PInt, PInt, PConv QBrush] RVoid [OnValue QPainter],
     Bind [ValueM QTGUI_QCOLOR] ''fillRect'' [PInt, PInt, PInt, PInt, PConv QColor] RVoid [OnValue QPainter, OnValue QPainter]]"

definition vmeth_qtgui_7_31 :: "binding list" where
  "vmeth_qtgui_7_31 = [
     Bind [TypeM ''QTGUI_QGRADIENT''] ''fillRect'' [PInt, PInt, PInt, PInt, PConv ''QGradient::Preset''] RVoid [OnValue QPainter, OnValue QPainter, OnValue QPainter, OnValue QPainter, OnValue QPainter],
     Bind [EnumM ''QT_BRUSHSTYLE''] ''fillRect'' [PInt, PInt, PInt, PInt, PConv ''Qt::BrushStyle''] RVoid [OnValue QPainter, OnValue QPainter, OnValue QPainter, OnValue QPainter, OnValue QPainter]]"

definition vmeth_qtgui_7_32 :: "binding list" where
  "vmeth_qtgui_7_32 = [
     Bind [EnumM ''QT_GLOBALCOLOR''] ''fillRect'' [PInt, PInt, PInt, PInt, PConv ''Qt::GlobalColor''] RVoid [OnValue QPainter, OnValue QPainter, OnValue QPainter, OnValue QPainter, OnValue QPainter],
     Bind [EnumM ''QT_FILLRULE''] ''fillRule'' [] (RMeta ''Qt::FillRule'') [OnValue QPainterPath],
     Bind [ValueM QTGUI_QFONT] ''font'' [] (RValue QFont) [OnValue QPaintEngineState, OnValue QPainter],
     Bind [ValueM ''QTGUI_QFONTINFO''] ''fontInfo'' [] (RValue ''QFontInfo'') [OnValue QPainter]]"

definition vmeth_qtgui_7_33 :: "binding list" where
  "vmeth_qtgui_7_33 = [
     Bind [ValueM ''QTGUI_QFONTMETRICS''] ''fontMetrics'' [] (RValue QFontMetrics) [OnValue QPainter],
     Bind [] ''hasClipping'' [] RBool [OnValue QPainter],
     Bind [ValueM QTGUI_QBRUSH] ''highlight'' [] (RValue QBrush) [OnValue QPalette],
     Bind [ValueM QTGUI_QBRUSH] ''highlightedText'' [] (RValue QBrush) [OnValue QPalette],
     Bind [ValueM QTGUI_QPAINTERPATH] ''intersected'' [PConv QPainterPath] (RValue QPainterPath) [OnValue QPainterPath],
     Bind [ValueM QTGUI_QPAINTERPATH] ''intersects'' [PConv QPainterPath] RBool [OnValue QPainterPath],
     Bind [ValueM QTCORE_QRECTF] ''intersects'' [PConv QRectF] RBool [OnValue QPainterPath]]"

definition vmeth_qtgui_7_34 :: "binding list" where
  "vmeth_qtgui_7_34 = [
     Bind [] ''isActive'' [] RBool [OnValue QPainter],
     Bind [TypeM QTGUI_QPALETTE] ''isBrushSet'' [PConv ''QPalette::ColorGroup'', PConv QPalette_ColorRole] RBool [OnValue QPalette],
     Bind [] ''isCachingEnabled'' [] RBool [OnValue QPainterPath],
     Bind [] ''isClipEnabled'' [] RBool [OnValue QPaintEngineState],
     Bind [ValueM QTGUI_QPALETTE] ''isCopyOf'' [PConv QPalette] RBool [OnValue QPalette],
     Bind [] ''isEmpty'' [] RBool [OnValue QPainterPath],
     Bind [TypeM QTGUI_QPALETTE] ''isEqual'' [PConv ''QPalette::ColorGroup'', PConv ''QPalette::ColorGroup''] RBool [OnValue QPalette]]"

definition vmeth_qtgui_7_35 :: "binding list" where
  "vmeth_qtgui_7_35 = [
     Bind [EnumM ''QT_PENJOINSTYLE''] ''joinStyle'' [] (RMeta ''Qt::PenJoinStyle'') [OnValue QPainterPathStroker],
     Bind [EnumM QT_LAYOUTDIRECTION] ''layoutDirection'' [] (RMeta Qt_LayoutDirection) [OnValue QPainter],
     Bind [] ''length'' [] RNumber [OnValue QPainterPath],
     Bind [ValueM QTGUI_QBRUSH] ''light'' [] (RValue QBrush) [OnValue QPalette],
     Bind [ValueM QTCORE_QPOINTF] ''lineTo'' [PConv QPointF] RVoid [OnValue QPainterPath],
     Bind [] ''lineTo'' [PReal ''qreal'', PReal ''qreal''] RVoid [OnValue QPainterPath],
     Bind [ValueM QTGUI_QBRUSH] ''link'' [] (RValue QBrush) [OnValue QPalette]]"

definition vmeth_qtgui_7_36 :: "binding list" where
  "vmeth_qtgui_7_36 = [
     Bind [ValueM QTGUI_QBRUSH] ''linkVisited'' [] (RValue QBrush) [OnValue QPalette],
     Bind [ValueM QTGUI_QBRUSH] ''mid'' [] (RValue QBrush) [OnValue QPalette],
     Bind [ValueM QTGUI_QBRUSH] ''midlight'' [] (RValue QBrush) [OnValue QPalette],
     Bind [] ''miterLimit'' [] RNumber [OnValue QPainterPathStroker],
     Bind [ValueM QTCORE_QPOINTF] ''moveTo'' [PConv QPointF] RVoid [OnValue QPainterPath],
     Bind [] ''moveTo'' [PReal ''qreal'', PReal ''qreal''] RVoid [OnValue QPainterPath],
     Bind [] ''opacity'' [] RNumber [OnValue QPaintEngineState, OnValue QPainter]]"

definition vmeth_qtgui_7_37 :: "binding list" where
  "vmeth_qtgui_7_37 = [
     Bind [] ''outputCondition'' [] RString [OnValue QPdfOutputIntent],
     Bind [] ''outputConditionIdentifier'' [] RString [OnValue QPdfOutputIntent],
     Bind [ValueM QTGUI_QCOLORSPACE] ''outputProfile'' [] (RValue QColorSpace) [OnValue QPdfOutputIntent],
     Bind [ValueM QTGUI_QPEN] ''pen'' [] (RValue QPen) [OnValue QPaintEngineState, OnValue QPainter],
     Bind [] ''penNeedsResolving'' [] RBool [OnValue QPaintEngineState],
     Bind [] ''percentAtLength'' [PReal ''qreal''] RNumber [OnValue QPainterPath],
     Bind [ValueM QTGUI_QBRUSH] ''placeholderText'' [] (RValue QBrush) [OnValue QPalette]]"

definition vmeth_qtgui_7_38 :: "binding list" where
  "vmeth_qtgui_7_38 = [
     Bind [ValueM QTCORE_QPOINTF] ''pointAtPercent'' [PReal ''qreal''] (RValue QPointF) [OnValue QPainterPath],
     Bind [ValueM QTCORE_QPOINTF] ''quadTo'' [PConv QPointF, PConv QPointF] RVoid [OnValue QPainterPath],
     Bind [] ''quadTo'' [PReal ''qreal'', PReal ''qreal'', PReal ''qreal'', PReal ''qreal''] RVoid [OnValue QPainterPath],
     Bind [ValueM QTCORE_QRECT] ''rect'' [] (RValue QRect) [OnValue ''QPaintEvent''],
     Bind [ValueM QTGUI_QREGION] ''region'' [] (RValue QRegion) [OnValue ''QPaintEvent''],
     Bind [ValueM QTCORE_QURL] ''registryName'' [] (RValue QUrl) [OnValue QPdfOutputIntent]]"

definition vmeth_qtgui_7_39 :: "binding list" where
  "vmeth_qtgui_7_39 = [
     Bind [TypeM ''QTGUI_QPAINTER''] ''renderHints'' [] (RMeta ''QPainter::RenderHints'') [OnValue QPaintEngineState, OnValue QPainter],
     Bind [] ''reserve'' [PInt] RVoid [OnValue QPainterPath],
     Bind [] ''resetTransform'' [] RVoid [OnValue QPainter],
     Bind [ValueM QTGUI_QPALETTE] ''resolve'' [PConv QPalette] (RValue QPalette) [OnValue QPalette],
     Bind [] ''restore'' [] RVoid [OnValue QPainter, OnValue ''QPainterStateGuard''],
     Bind [] ''rotate'' [PReal ''qreal''] RVoid [OnValue QPainter]]"

definition vmeth_qtgui_7_40 :: "binding list" where
  "vmeth_qtgui_7_40 = [
     Bind [] ''save'' [] RVoid [OnValue QPainter, OnValue ''QPainterStateGuard''],
     Bind [] ''scale'' [PReal ''qreal'', PReal ''qreal''] RVoid [OnValue QPainter],
     Bind [ValueM QTGUI_QBRUSH] ''setBackground'' [PConv QBrush] RVoid [OnValue QPainter],
     Bind [EnumM ''QT_BGMODE''] ''setBackgroundMode'' [PConv ''Qt::BGMode''] RVoid [OnValue QPainter],
     Bind [ValueM QTGUI_QBRUSH] ''setBrush'' [PConv QBrush] RVoid [OnValue QPainter],
     Bind [TypeM QTGUI_QPALETTE, ValueM QTGUI_QBRUSH] ''setBrush'' [PConv ''QPalette::ColorGroup'', PConv QPalette_ColorRole, PConv QBrush] RVoid [OnValue QPalette]]"

definition vmeth_qtgui_7_41 :: "binding list" where
  "vmeth_qtgui_7_41 = [
     Bind [TypeM QTGUI_QPALETTE, ValueM QTGUI_QBRUSH] ''setBrush'' [PConv QPalette_ColorRole, PConv QBrush] RVoid [OnValue QPalette],
     Bind [EnumM ''QT_BRUSHSTYLE''] ''setBrush'' [PConv ''Qt::BrushStyle''] RVoid [OnValue QPainter, OnValue QPainter],
     Bind [ValueM QTCORE_QPOINT] ''setBrushOrigin'' [PConv QPoint] RVoid [OnValue QPainter],
     Bind [ValueM QTCORE_QPOINTF] ''setBrushOrigin'' [PConv QPointF] RVoid [OnValue QPainter],
     Bind [] ''setBrushOrigin'' [PInt, PInt] RVoid [OnValue QPainter],
     Bind [] ''setCachingEnabled'' [PBool] RVoid [OnValue QPainterPath]]"

definition vmeth_qtgui_7_42 :: "binding list" where
  "vmeth_qtgui_7_42 = [
     Bind [EnumM ''QT_PENCAPSTYLE''] ''setCapStyle'' [PConv ''Qt::PenCapStyle''] RVoid [OnValue QPainterPathStroker],
     Bind [EnumM ''QT_CLIPOPERATION'', ValueM QTGUI_QPAINTERPATH] ''setClipPath'' [PConv QPainterPath, PConv ''Qt::ClipOperation''] RVoid [OnValue QPainter],
     Bind [EnumM ''QT_CLIPOPERATION'', ValueM QTCORE_QRECT] ''setClipRect'' [PConv QRect, PConv ''Qt::ClipOperation''] RVoid [OnValue QPainter],
     Bind [EnumM ''QT_CLIPOPERATION'', ValueM QTCORE_QRECTF] ''setClipRect'' [PConv QRectF, PConv ''Qt::ClipOperation''] RVoid [OnValue QPainter],
     Bind [EnumM ''QT_CLIPOPERATION''] ''setClipRect'' [PInt, PInt, PInt, PInt, PConv ''Qt::ClipOperation''] RVoid [OnValue QPainter]]"

definition vmeth_qtgui_7_43 :: "binding list" where
  "vmeth_qtgui_7_43 = [
     Bind [EnumM ''QT_CLIPOPERATION'', ValueM QTGUI_QREGION] ''setClipRegion'' [PConv QRegion, PConv ''Qt::ClipOperation''] RVoid [OnValue QPainter],
     Bind [] ''setClipping'' [PBool] RVoid [OnValue QPainter],
     Bind [TypeM QTGUI_QPALETTE, ValueM QTGUI_QCOLOR] ''setColor'' [PConv ''QPalette::ColorGroup'', PConv QPalette_ColorRole, PConv QColor] RVoid [OnValue QPalette],
     Bind [TypeM QTGUI_QPALETTE, ValueM QTGUI_QCOLOR] ''setColor'' [PConv QPalette_ColorRole, PConv QColor] RVoid [OnValue QPalette]]"

definition vmeth_qtgui_7_44 :: "binding list" where
  "vmeth_qtgui_7_44 = [
     Bind [TypeM QTGUI_QPALETTE, ValueM QTGUI_QBRUSH] ''setColorGroup'' [PConv ''QPalette::ColorGroup'', PConv QBrush, PConv QBrush, PConv QBrush, PConv QBrush, PConv QBrush, PConv QBrush, PConv QBrush, PConv QBrush, PConv QBrush] RVoid [OnValue QPalette],
     Bind [TypeM ''QTGUI_QPAINTER''] ''setCompositionMode'' [PConv ''QPainter::CompositionMode''] RVoid [OnValue QPainter],
     Bind [TypeM QTGUI_QPALETTE] ''setCurrentColorGroup'' [PConv ''QPalette::ColorGroup''] RVoid [OnValue QPalette],
     Bind [] ''setCurveThreshold'' [PReal ''qreal''] RVoid [OnValue QPainterPathStroker],
     Bind [] ''setDashOffset'' [PReal ''qreal''] RVoid [OnValue QPainterPathStroker]]"

definition vmeth_qtgui_7_45 :: "binding list" where
  "vmeth_qtgui_7_45 = [
     Bind [] ''setDashPattern'' [PList ''qreal''] RVoid [OnValue QPainterPathStroker],
     Bind [EnumM ''QT_PENSTYLE''] ''setDashPattern'' [PConv ''Qt::PenStyle''] RVoid [OnValue QPainterPathStroker],
     Bind [] ''setElementPositionAt'' [PInt, PReal ''qreal'', PReal ''qreal''] RVoid [OnValue QPainterPath],
     Bind [EnumM ''QT_FILLRULE''] ''setFillRule'' [PConv ''Qt::FillRule''] RVoid [OnValue QPainterPath],
     Bind [ValueM QTGUI_QFONT] ''setFont'' [PConv QFont] RVoid [OnValue QPainter],
     Bind [EnumM ''QT_PENJOINSTYLE''] ''setJoinStyle'' [PConv ''Qt::PenJoinStyle''] RVoid [OnValue QPainterPathStroker]]"

definition vmeth_qtgui_7_46 :: "binding list" where
  "vmeth_qtgui_7_46 = [
     Bind [EnumM QT_LAYOUTDIRECTION] ''setLayoutDirection'' [PConv Qt_LayoutDirection] RVoid [OnValue QPainter],
     Bind [] ''setMiterLimit'' [PReal ''qreal''] RVoid [OnValue QPainterPathStroker],
     Bind [] ''setOpacity'' [PReal ''qreal''] RVoid [OnValue QPainter],
     Bind [] ''setOutputCondition'' [PString True] RVoid [OnValue QPdfOutputIntent],
     Bind [] ''setOutputConditionIdentifier'' [PString True] RVoid [OnValue QPdfOutputIntent],
     Bind [ValueM QTGUI_QCOLORSPACE] ''setOutputProfile'' [PConv QColorSpace] RVoid [OnValue QPdfOutputIntent]]"

definition vmeth_qtgui_7_47 :: "binding list" where
  "vmeth_qtgui_7_47 = [
     Bind [ValueM QTGUI_QCOLOR] ''setPen'' [PConv QColor] RVoid [OnValue QPainter, OnValue QPainter],
     Bind [ValueM QTGUI_QPEN] ''setPen'' [PConv QPen] RVoid [OnValue QPainter],
     Bind [EnumM ''QT_PENSTYLE''] ''setPen'' [PConv ''Qt::PenStyle''] RVoid [OnValue QPainter, OnValue QPainter, OnValue QPainter],
     Bind [ValueM QTCORE_QURL] ''setRegistryName'' [PConv QUrl] RVoid [OnValue QPdfOutputIntent],
     Bind [TypeM ''QTGUI_QPAINTER''] ''setRenderHint'' [PConv ''QPainter::RenderHint'', PBool] RVoid [OnValue QPainter]]"

definition vmeth_qtgui_7_48 :: "binding list" where
  "vmeth_qtgui_7_48 = [
     Bind [TypeM ''QTGUI_QPAINTER''] ''setRenderHints'' [PConv ''QPainter::RenderHints'', PBool] RVoid [OnValue QPainter],
     Bind [ValueM QTGUI_QTRANSFORM] ''setTransform'' [PConv QTransform, PBool] RVoid [OnValue QPainter],
     Bind [] ''setViewTransformEnabled'' [PBool] RVoid [OnValue QPainter],
     Bind [ValueM QTCORE_QRECT] ''setViewport'' [PConv QRect] RVoid [OnValue QPainter],
     Bind [] ''setViewport'' [PInt, PInt, PInt, PInt] RVoid [OnValue QPainter],
     Bind [] ''setWidth'' [PReal ''qreal''] RVoid [OnValue QPainterPathStroker]]"

definition vmeth_qtgui_7_49 :: "binding list" where
  "vmeth_qtgui_7_49 = [
     Bind [ValueM QTCORE_QRECT] ''setWindow'' [PConv QRect] RVoid [OnValue QPainter],
     Bind [] ''setWindow'' [PInt, PInt, PInt, PInt] RVoid [OnValue QPainter],
     Bind [] ''setWorldMatrixEnabled'' [PBool] RVoid [OnValue QPainter],
     Bind [ValueM QTGUI_QTRANSFORM] ''setWorldTransform'' [PConv QTransform, PBool] RVoid [OnValue QPainter],
     Bind [ValueM QTGUI_QBRUSH] ''shadow'' [] (RValue QBrush) [OnValue QPalette],
     Bind [] ''shear'' [PReal ''qreal'', PReal ''qreal''] RVoid [OnValue QPainter]]"

definition vmeth_qtgui_7_50 :: "binding list" where
  "vmeth_qtgui_7_50 = [
     Bind [ValueM QTGUI_QPAINTERPATH] ''simplified'' [] (RValue QPainterPath) [OnValue QPainterPath],
     Bind [] ''slopeAtPercent'' [PReal ''qreal''] RNumber [OnValue QPainterPath],
     Bind [ValueM QTGUI_QPAINTERPATH, ValueM QTGUI_QPEN] ''strokePath'' [PConv QPainterPath, PConv QPen] RVoid [OnValue QPainter],
     Bind [ValueM QTGUI_QPAINTERPATH] ''subtracted'' [PConv QPainterPath] (RValue QPainterPath) [OnValue QPainterPath],
     Bind [ValueM QTGUI_QPAINTERPATH] ''swap'' [PConv QPainterPath] RVoid [OnValue QPainterPath],
     Bind [ValueM ''QTGUI_QPAINTERSTATEGUARD''] ''swap'' [PConv ''QPainterStateGuard''] RVoid [OnValue ''QPainterStateGuard'']]"

definition vmeth_qtgui_7_51 :: "binding list" where
  "vmeth_qtgui_7_51 = [
     Bind [ValueM QTGUI_QPALETTE] ''swap'' [PConv QPalette] RVoid [OnValue QPalette],
     Bind [ValueM ''QTGUI_QPDFOUTPUTINTENT''] ''swap'' [PConv QPdfOutputIntent] RVoid [OnValue QPdfOutputIntent],
     Bind [TypeM ''QTGUI_QPAINTER''] ''testRenderHint'' [PConv ''QPainter::RenderHint''] RBool [OnValue QPainter],
     Bind [ValueM QTGUI_QBRUSH] ''text'' [] (RValue QBrush) [OnValue QPalette],
     Bind [ValueM QTGUI_QPOLYGONF, ValueM QTGUI_QTRANSFORM] ''toFillPolygon'' [PConv QTransform] (RValue QPolygonF) [OnValue QPainterPath],
     Bind [ValueM QTGUI_QPOLYGONF, ValueM QTGUI_QTRANSFORM] ''toFillPolygons'' [PConv QTransform] (RList (IValue QPolygonF)) [OnValue QPainterPath]]"

definition vmeth_qtgui_7_52 :: "binding list" where
  "vmeth_qtgui_7_52 = [
     Bind [ValueM QTGUI_QPAINTERPATH] ''toReversed'' [] (RValue QPainterPath) [OnValue QPainterPath],
     Bind [ValueM QTGUI_QPOLYGONF, ValueM QTGUI_QTRANSFORM] ''toSubpathPolygons'' [PConv QTransform] (RList (IValue QPolygonF)) [OnValue QPainterPath],
     Bind [ValueM QTGUI_QBRUSH] ''toolTipBase'' [] (RValue QBrush) [OnValue QPalette],
     Bind [ValueM QTGUI_QBRUSH] ''toolTipText'' [] (RValue QBrush) [OnValue QPalette],
     Bind [ValueM QTGUI_QTRANSFORM] ''transform'' [] (RValue QTransform) [OnValue QPaintEngineState, OnValue QPainter],
     Bind [ValueM QTCORE_QPOINT] ''translate'' [PConv QPoint] RVoid [OnValue QPainter]]"

definition vmeth_qtgui_7_53 :: "binding list" where
  "vmeth_qtgui_7_53 = [
     Bind [ValueM QTCORE_QPOINTF] ''translate'' [PConv QPointF] RVoid [OnValue QPainter, OnValue QPainterPath],
     Bind [] ''translate'' [PReal ''qreal'', PReal ''qreal''] RVoid [OnValue QPainter, OnValue QPainterPath],
     Bind [ValueM QTCORE_QPOINTF, ValueM QTGUI_QPAINTERPATH] ''translated'' [PConv QPointF] (RValue QPainterPath) [OnValue QPainterPath],
     Bind [ValueM QTGUI_QPAINTERPATH] ''translated'' [PReal ''qreal'', PReal ''qreal''] (RValue QPainterPath) [OnValue QPainterPath],
     Bind [ValueM QTGUI_QPAINTERPATH] ''trimmed'' [PReal ''qreal'', PReal ''qreal'', PReal ''qreal''] (RValue QPainterPath) [OnValue QPainterPath]]"

definition vmeth_qtgui_7_54 :: "binding list" where
  "vmeth_qtgui_7_54 = [
     Bind [ValueM QTGUI_QPAINTERPATH] ''united'' [PConv QPainterPath] (RValue QPainterPath) [OnValue QPainterPath],
     Bind [] ''viewTransformEnabled'' [] RBool [OnValue QPainter],
     Bind [ValueM QTCORE_QRECT] ''viewport'' [] (RValue QRect) [OnValue QPainter],
     Bind [] ''width'' [] RNumber [OnValue QPainterPathStroker],
     Bind [ValueM QTGUI_QBRUSH] ''window'' [] (RValue QBrush) [OnValue QPalette],
     Bind [ValueM QTCORE_QRECT] ''window'' [] (RValue QRect) [OnValue QPainter],
     Bind [ValueM QTGUI_QBRUSH] ''windowText'' [] (RValue QBrush) [OnValue QPalette]]"

definition vmeth_qtgui_7_55 :: "binding list" where
  "vmeth_qtgui_7_55 = [
     Bind [] ''worldMatrixEnabled'' [] RBool [OnValue QPainter],
     Bind [ValueM QTGUI_QTRANSFORM] ''worldTransform'' [] (RValue QTransform) [OnValue QPainter]]"

definition vtypes_qtgui_7 :: "string list" where
  "vtypes_qtgui_7 = [QPaintEngineState, ''QPaintEvent'', QPainter, QPainterPath, QPainterPathStroker, ''QPainterStateGuard'', QPalette,
     QPdfOutputIntent]"

definition vmeth_qtgui_8_0 :: "binding list" where
  "vmeth_qtgui_8_0 = [
     Bind [] ''allPointsAccepted'' [] RBool [OnValue ''QPointerEvent''],
     Bind [TypeM ''QTGUI_QPIXELFORMAT''] ''alphaPosition'' [] (RMeta ''QPixelFormat::AlphaPosition'') [OnValue ''QPixelFormat''],
     Bind [TypeM ''QTGUI_QPIXELFORMAT''] ''alphaUsage'' [] (RMeta ''QPixelFormat::AlphaUsage'') [OnValue ''QPixelFormat''],
     Bind [ValueM QTCORE_QPOINT] ''append'' [PConv QPoint] RVoid [OnValue QPolygon],
     Bind [ValueM QTCORE_QPOINT] ''at'' [PInt] (RValue QPoint) [OnValue QPolygon],
     Bind [ValueM QTCORE_QRECT] ''boundingRect'' [] (RValue QRect) [OnValue ''QPicture'', OnValue QPolygon]]"

definition vmeth_qtgui_8_1 :: "binding list" where
  "vmeth_qtgui_8_1 = [
     Bind [ValueM QTGUI_QBRUSH] ''brush'' [] (RValue QBrush) [OnValue QPen],
     Bind [TypeM ''QTGUI_QPIXELFORMAT''] ''byteOrder'' [] (RMeta ''QPixelFormat::ByteOrder'') [OnValue ''QPixelFormat''],
     Bind [] ''cacheKey'' [] (RMeta ''qint64'') [OnValue QPixmap],
     Bind [EnumM ''QT_PENCAPSTYLE''] ''capStyle'' [] (RMeta ''Qt::PenCapStyle'') [OnValue QPen],
     Bind [] ''clear'' [] RVoid [OnValue QPolygon],
     Bind [ValueM QTGUI_QCOLOR] ''color'' [] (RValue QColor) [OnValue QPen],
     Bind [TypeM ''QTGUI_QPIXELFORMAT''] ''colorModel'' [] (RMeta ''QPixelFormat::ColorModel'') [OnValue ''QPixelFormat'']]"

definition vmeth_qtgui_8_2 :: "binding list" where
  "vmeth_qtgui_8_2 = [
     Bind [ValueM QTCORE_QPOINT] ''contains'' [PConv QPoint] RBool [OnValue QPolygon],
     Bind [EnumM ''QT_FILLRULE'', ValueM QTCORE_QPOINT] ''containsPoint'' [PConv QPoint, PConv ''Qt::FillRule''] RBool [OnValue QPolygon],
     Bind [ValueM QTCORE_QRECT, ValueM QTGUI_QPIXMAP] ''copy'' [PConv QRect] (RValue QPixmap) [OnValue QPixmap],
     Bind [ValueM QTGUI_QPIXMAP] ''copy'' [PInt, PInt, PInt, PInt] (RValue QPixmap) [OnValue QPixmap],
     Bind [] ''count'' [] RNumber [OnValue QPolygon],
     Bind [ValueM QTCORE_QPOINT] ''count'' [PConv QPoint] RNumber [OnValue QPolygon]]"

definition vmeth_qtgui_8_3 :: "binding list" where
  "vmeth_qtgui_8_3 = [
     Bind [ValueM ''QTGUI_QBITMAP''] ''createHeuristicMask'' [PBool] (RValue ''QBitmap'') [OnValue QPixmap],
     Bind [EnumM ''QT_MASKMODE'', ValueM ''QTGUI_QBITMAP'', ValueM QTGUI_QCOLOR] ''createMaskFromColor'' [PConv QColor, PConv ''Qt::MaskMode''] (RValue ''QBitmap'') [OnValue QPixmap],
     Bind [] ''dashOffset'' [] RNumber [OnValue QPen],
     Bind [] ''dashPattern'' [] (RList (IMeta ''qreal'')) [OnValue QPen],
     Bind [] ''depth'' [] RNumber [OnValue QPixmap],
     Bind [] ''detach'' [] RVoid [OnValue ''QPicture'', OnValue QPixmap]]"

definition vmeth_qtgui_8_4 :: "binding list" where
  "vmeth_qtgui_8_4 = [
     Bind [] ''devType'' [] RNumber [OnValue ''QPicture'', OnValue QPixmap],
     Bind [ValueM QTCORE_QSIZEF] ''deviceIndependentSize'' [] (RValue QSizeF) [OnValue QPixmap],
     Bind [] ''devicePixelRatio'' [] RNumber [OnValue QPixmap],
     Bind [ValueM QTGUI_QCOLOR] ''fill'' [PConv QColor] RVoid [OnValue QPixmap],
     Bind [ValueM QTCORE_QPOINT] ''fill'' [PConv QPoint, PInt] RVoid [OnValue QPolygon],
     Bind [ValueM QTCORE_QPOINT] ''first'' [] (RValue QPoint) [OnValue QPolygon],
     Bind [] ''hasAlpha'' [] RBool [OnValue QPixmap]]"

definition vmeth_qtgui_8_5 :: "binding list" where
  "vmeth_qtgui_8_5 = [
     Bind [] ''hasAlphaChannel'' [] RBool [OnValue QPixmap],
     Bind [] ''height'' [] RNumber [OnValue QPixmap],
     Bind [ValueM QTCORE_QPOINT] ''indexOf'' [PConv QPoint, PInt] RNumber [OnValue QPolygon],
     Bind [ValueM QTCORE_QPOINT] ''insert'' [PInt, PConv QPoint] RVoid [OnValue QPolygon],
     Bind [ValueM QTGUI_QPOLYGON] ''intersected'' [PConv QPolygon] (RValue QPolygon) [OnValue QPolygon],
     Bind [ValueM QTGUI_QPOLYGON] ''intersects'' [PConv QPolygon] RBool [OnValue QPolygon],
     Bind [] ''isBeginEvent'' [] RBool [OnValue ''QPointerEvent'']]"

definition vmeth_qtgui_8_6 :: "binding list" where
  "vmeth_qtgui_8_6 = [
     Bind [] ''isCosmetic'' [] RBool [OnValue QPen],
     Bind [] ''isDetached'' [] RBool [OnValue ''QPicture''],
     Bind [] ''isEmpty'' [] RBool [OnValue QPolygon],
     Bind [] ''isEndEvent'' [] RBool [OnValue ''QPointerEvent''],
     Bind [] ''isNull'' [] RBool [OnValue ''QPicture'', OnValue QPixmap],
     Bind [] ''isQBitmap'' [] RBool [OnValue QPixmap],
     Bind [] ''isSolid'' [] RBool [OnValue QPen],
     Bind [] ''isUpdateEvent'' [] RBool [OnValue ''QPointerEvent'']]"

definition vmeth_qtgui_8_7 :: "binding list" where
  "vmeth_qtgui_8_7 = [
     Bind [] ''isValid'' [] RBool [OnValue QPointingDeviceUniqueId],
     Bind [EnumM ''QT_PENJOINSTYLE''] ''joinStyle'' [] (RMeta ''Qt::PenJoinStyle'') [OnValue QPen],
     Bind [ValueM QTCORE_QPOINT] ''last'' [] (RValue QPoint) [OnValue QPolygon],
     Bind [ValueM QTCORE_QPOINT] ''lastIndexOf'' [PConv QPoint, PInt] RNumber [OnValue QPolygon],
     Bind [TypeM QTCORE_QIODEVICE] ''load'' [PNonNull QIODevice_ptr] RBool [OnValue ''QPicture''],
     Bind [] ''load'' [PString True] RBool [OnValue ''QPicture''],
     Bind [ValueM ''QTGUI_QBITMAP''] ''mask'' [] (RValue ''QBitmap'') [OnValue QPixmap]]"

definition vmeth_qtgui_8_8 :: "binding list" where
  "vmeth_qtgui_8_8 = [
     Bind [ValueM QTGUI_QPOLYGON] ''mid'' [PInt, PInt] (RValue QPolygon) [OnValue QPolygon],
     Bind [] ''miterLimit'' [] RNumber [OnValue QPen],
     Bind [] ''numericId'' [] (RMeta ''qint64'') [OnValue QPointingDeviceUniqueId],
     Bind [ValueM QTCORE_QPOINT] ''point'' [PInt] (RValue QPoint) [OnValue QPolygon],
     Bind [ValueM ''QTGUI_QEVENTPOINT''] ''point'' [PWide ''qsizetype''] (RValue QEventPoint) [OnValue ''QPointerEvent''],
     Bind [] ''pointCount'' [] (RMeta ''qsizetype'') [OnValue ''QPointerEvent''],
     Bind [TypeM QTGUI_QPOINTINGDEVICE] ''pointerType'' [] (RMeta ''QPointingDevice::PointerType'') [OnValue ''QPointerEvent'']]"

definition vmeth_qtgui_8_9 :: "binding list" where
  "vmeth_qtgui_8_9 = [
     Bind [TypeM QTGUI_QPOINTINGDEVICE] ''pointingDevice'' [] RObject [OnValue ''QPointerEvent''],
     Bind [ValueM ''QTGUI_QEVENTPOINT''] ''points'' [] (RList (IValue QEventPoint)) [OnValue ''QPointerEvent''],
     Bind [TypeM ''QTGUI_QPIXELFORMAT''] ''premultiplied'' [] (RMeta ''QPixelFormat::AlphaPremultiplied'') [OnValue ''QPixelFormat''],
     Bind [ValueM QTCORE_QPOINT] ''prepend'' [PConv QPoint] RVoid [OnValue QPolygon],
     Bind [ValueM QTGUI_QPOLYGON] ''putPoints'' [PInt, PInt, PConv QPolygon, PInt] RVoid [OnValue QPolygon],
     Bind [ValueM QTCORE_QRECT] ''rect'' [] (RValue QRect) [OnValue QPixmap]]"

definition vmeth_qtgui_8_10 :: "binding list" where
  "vmeth_qtgui_8_10 = [
     Bind [] ''remove'' [PInt] RVoid [OnValue QPolygon],
     Bind [] ''remove'' [PInt, PInt] RVoid [OnValue QPolygon],
     Bind [ValueM QTCORE_QPOINT] ''replace'' [PInt, PConv QPoint] RVoid [OnValue QPolygon],
     Bind [] ''resize'' [PWide ''qsizetype''] RVoid [OnValue QPolygon],
     Bind [TypeM QTCORE_QIODEVICE] ''save'' [PNonNull QIODevice_ptr] RBool [OnValue ''QPicture''],
     Bind [] ''save'' [PString True] RBool [OnValue ''QPicture'']]"

definition vmeth_qtgui_8_11 :: "binding list" where
  "vmeth_qtgui_8_11 = [
     Bind [EnumM QT_ASPECTRATIOMODE, EnumM QT_TRANSFORMATIONMODE, ValueM QTCORE_QSIZE, ValueM QTGUI_QPIXMAP] ''scaled'' [PConv QSize, PConv Qt_AspectRatioMode, PConv Qt_TransformationMode] (RValue QPixmap) [OnValue QPixmap],
     Bind [EnumM QT_ASPECTRATIOMODE, EnumM QT_TRANSFORMATIONMODE, ValueM QTGUI_QPIXMAP] ''scaled'' [PInt, PInt, PConv Qt_AspectRatioMode, PConv Qt_TransformationMode] (RValue QPixmap) [OnValue QPixmap],
     Bind [EnumM QT_TRANSFORMATIONMODE, ValueM QTGUI_QPIXMAP] ''scaledToHeight'' [PInt, PConv Qt_TransformationMode] (RValue QPixmap) [OnValue QPixmap],
     Bind [EnumM QT_TRANSFORMATIONMODE, ValueM QTGUI_QPIXMAP] ''scaledToWidth'' [PInt, PConv Qt_TransformationMode] (RValue QPixmap) [OnValue QPixmap],
     Bind [] ''setAccepted'' [PBool] RVoid [OnValue ''QPointerEvent'']]"

definition vmeth_qtgui_8_12 :: "binding list" where
  "vmeth_qtgui_8_12 = [
     Bind [ValueM QTCORE_QRECT] ''setBoundingRect'' [PConv QRect] RVoid [OnValue ''QPicture''],
     Bind [ValueM QTGUI_QBRUSH] ''setBrush'' [PConv QBrush] RVoid [OnValue QPen],
     Bind [EnumM ''QT_PENCAPSTYLE''] ''setCapStyle'' [PConv ''Qt::PenCapStyle''] RVoid [OnValue QPen],
     Bind [ValueM QTGUI_QCOLOR] ''setColor'' [PConv QColor] RVoid [OnValue QPen],
     Bind [] ''setCosmetic'' [PBool] RVoid [OnValue QPen],
     Bind [] ''setDashOffset'' [PReal ''qreal''] RVoid [OnValue QPen]]"

definition vmeth_qtgui_8_13 :: "binding list" where
  "vmeth_qtgui_8_13 = [
     Bind [] ''setDashPattern'' [PList ''qreal''] RVoid [OnValue QPen],
     Bind [] ''setDevicePixelRatio'' [PReal ''qreal''] RVoid [OnValue QPixmap],
     Bind [EnumM ''QT_PENJOINSTYLE''] ''setJoinStyle'' [PConv ''Qt::PenJoinStyle''] RVoid [OnValue QPen],
     Bind [ValueM ''QTGUI_QBITMAP''] ''setMask'' [PConv ''QBitmap''] RVoid [OnValue QPixmap],
     Bind [] ''setMiterLimit'' [PReal ''qreal''] RVoid [OnValue QPen],
     Bind [ValueM QTCORE_QPOINT] ''setPoint'' [PInt, PConv QPoint] RVoid [OnValue QPolygon]]"

definition vmeth_qtgui_8_14 :: "binding list" where
  "vmeth_qtgui_8_14 = [
     Bind [] ''setPoint'' [PInt, PInt, PInt] RVoid [OnValue QPolygon],
     Bind [EnumM ''QT_PENSTYLE''] ''setStyle'' [PConv ''Qt::PenStyle''] RVoid [OnValue QPen],
     Bind [] ''setWidth'' [PInt] RVoid [OnValue QPen],
     Bind [] ''setWidthF'' [PReal ''qreal''] RVoid [OnValue QPen],
     Bind [ValueM QTCORE_QSIZE] ''size'' [] (RValue QSize) [OnValue QPixmap],
     Bind [] ''size'' [] RNumber [OnValue QPolygon],
     Bind [] ''size'' [] RNumber [OnValue ''QPicture'']]"

definition vmeth_qtgui_8_15 :: "binding list" where
  "vmeth_qtgui_8_15 = [
     Bind [EnumM ''QT_PENSTYLE''] ''style'' [] (RMeta ''Qt::PenStyle'') [OnValue QPen],
     Bind [ValueM QTGUI_QPOLYGON] ''subtracted'' [PConv QPolygon] (RValue QPolygon) [OnValue QPolygon],
     Bind [TypeM ''QTGUI_QPLATFORMSURFACEEVENT''] ''surfaceEventType'' [] (RMeta ''QPlatformSurfaceEvent::SurfaceEventType'') [OnValue ''QPlatformSurfaceEvent''],
     Bind [ValueM QTGUI_QPEN] ''swap'' [PConv QPen] RVoid [OnValue QPen],
     Bind [ValueM ''QTGUI_QPICTURE''] ''swap'' [PConv ''QPicture''] RVoid [OnValue ''QPicture''],
     Bind [ValueM QTGUI_QPIXMAP] ''swap'' [PConv QPixmap] RVoid [OnValue QPixmap]]"

definition vmeth_qtgui_8_16 :: "binding list" where
  "vmeth_qtgui_8_16 = [
     Bind [ValueM QTGUI_QPOLYGON] ''swap'' [PConv QPolygon] RVoid [OnValue QPolygon],
     Bind [ValueM QTGUI_QIMAGE] ''toImage'' [] (RValue QImage) [OnValue QPixmap],
     Bind [ValueM QTGUI_QPOLYGONF] ''toPolygonF'' [] (RValue QPolygonF) [OnValue QPolygon],
     Bind [EnumM QT_TRANSFORMATIONMODE, ValueM QTGUI_QPIXMAP, ValueM QTGUI_QTRANSFORM] ''transformed'' [PConv QTransform, PConv Qt_TransformationMode] (RValue QPixmap) [OnValue QPixmap],
     Bind [ValueM QTCORE_QPOINT] ''translate'' [PConv QPoint] RVoid [OnValue QPolygon],
     Bind [] ''translate'' [PInt, PInt] RVoid [OnValue QPolygon]]"

definition vmeth_qtgui_8_17 :: "binding list" where
  "vmeth_qtgui_8_17 = [
     Bind [ValueM QTCORE_QPOINT, ValueM QTGUI_QPOLYGON] ''translated'' [PConv QPoint] (RValue QPolygon) [OnValue QPolygon],
     Bind [ValueM QTGUI_QPOLYGON] ''translated'' [PInt, PInt] (RValue QPolygon) [OnValue QPolygon],
     Bind [TypeM ''QTGUI_QPIXELFORMAT''] ''typeInterpretation'' [] (RMeta ''QPixelFormat::TypeInterpretation'') [OnValue ''QPixelFormat''],
     Bind [ValueM QTGUI_QPOLYGON] ''united'' [PConv QPolygon] (RValue QPolygon) [OnValue QPolygon],
     Bind [ValueM QTCORE_QPOINT] ''value'' [PInt] (RValue QPoint) [OnValue QPolygon],
     Bind [ValueM QTCORE_QPOINT] ''value'' [PInt, PConv QPoint] (RValue QPoint) [OnValue QPolygon]]"

definition vmeth_qtgui_8_18 :: "binding list" where
  "vmeth_qtgui_8_18 = [
     Bind [] ''width'' [] RNumber [OnValue QPen, OnValue QPixmap],
     Bind [] ''widthF'' [] RNumber [OnValue QPen],
     Bind [TypeM ''QTGUI_QPIXELFORMAT''] ''yuvLayout'' [] (RMeta ''QPixelFormat::YUVLayout'') [OnValue ''QPixelFormat'']]"

definition vtypes_qtgui_8 :: "string list" where
  "vtypes_qtgui_8 = [QPen, ''QPicture'', ''QPixelFormat'', QPixmap, ''QPlatformSurfaceEvent'', ''QPointerEvent'', QPointingDeviceUniqueId,
     QPolygon]"

definition vmeth_qtgui_9_0 :: "binding list" where
  "vmeth_qtgui_9_0 = [
     Bind [ValueM QTCORE_QPOINTF] ''advancesForGlyphIndexes'' [PList ''unsigned int''] (RList (IValue QPointF)) [OnValue QRawFont],
     Bind [ValueM QTCORE_QPOINTF] ''append'' [PConv QPointF] RVoid [OnValue QPolygonF],
     Bind [] ''ascent'' [] RNumber [OnValue QRawFont],
     Bind [ValueM QTCORE_QPOINTF] ''at'' [PInt] (RValue QPointF) [OnValue QPolygonF],
     Bind [] ''averageCharWidth'' [] RNumber [OnValue QRawFont],
     Bind [ValueM QTCORE_QRECT] ''boundingRect'' [] (RValue QRect) [OnValue QRegion]]"

definition vmeth_qtgui_9_1 :: "binding list" where
  "vmeth_qtgui_9_1 = [
     Bind [ValueM QTCORE_QRECTF] ''boundingRect'' [] (RValue QRectF) [OnValue QPolygonF],
     Bind [] ''capHeight'' [] RNumber [OnValue QRawFont],
     Bind [ValueM QTCORE_QPOINTF] ''center'' [] (RValue QPointF) [OnValue QRadialGradient],
     Bind [] ''centerRadius'' [] RNumber [OnValue QRadialGradient],
     Bind [] ''clear'' [] RVoid [OnValue QPolygonF],
     Bind [ValueM QTGUI_QQUATERNION] ''conjugated'' [] (RValue QQuaternion) [OnValue QQuaternion],
     Bind [ValueM QTCORE_QPOINT] ''contains'' [PConv QPoint] RBool [OnValue QRegion]]"

definition vmeth_qtgui_9_2 :: "binding list" where
  "vmeth_qtgui_9_2 = [
     Bind [ValueM QTCORE_QPOINTF] ''contains'' [PConv QPointF] RBool [OnValue QPolygonF],
     Bind [ValueM QTCORE_QRECT] ''contains'' [PConv QRect] RBool [OnValue QRegion],
     Bind [EnumM ''QT_FILLRULE'', ValueM QTCORE_QPOINTF] ''containsPoint'' [PConv QPointF, PConv ''Qt::FillRule''] RBool [OnValue QPolygonF],
     Bind [ValueM QTCORE_QPOINTF] ''contentPos'' [] (RValue QPointF) [OnValue ''QScrollEvent''],
     Bind [] ''count'' [] RNumber [OnValue QPolygonF],
     Bind [ValueM QTCORE_QPOINTF] ''count'' [PConv QPointF] RNumber [OnValue QPolygonF],
     Bind [] ''descent'' [] RNumber [OnValue QRawFont]]"

definition vmeth_qtgui_9_3 :: "binding list" where
  "vmeth_qtgui_9_3 = [
     Bind [] ''familyName'' [] RString [OnValue QRawFont],
     Bind [ValueM QTCORE_QPOINTF] ''fill'' [PConv QPointF, PInt] RVoid [OnValue QPolygonF],
     Bind [ValueM QTCORE_QPOINTF] ''first'' [] (RValue QPointF) [OnValue QPolygonF],
     Bind [ValueM QTCORE_QPOINTF] ''focalPoint'' [] (RValue QPointF) [OnValue QRadialGradient],
     Bind [] ''focalRadius'' [] RNumber [OnValue QRadialGradient],
     Bind [TypeM QTGUI_QFONT, ValueM QTCORE_QBYTEARRAY] ''fontTable'' [PConv ''QFont::Tag''] (RValue QByteArray) [OnValue QRawFont],
     Bind [] ''glyphIndexesForString'' [PString True] (RList (IMeta ''unsigned int'')) [OnValue QRawFont]]"

definition vmeth_qtgui_9_4 :: "binding list" where
  "vmeth_qtgui_9_4 = [
     Bind [TypeM QTGUI_QFONT] ''hintingPreference'' [] (RMeta ''QFont::HintingPreference'') [OnValue QRawFont],
     Bind [ValueM QTCORE_QPOINTF] ''indexOf'' [PConv QPointF, PInt] RNumber [OnValue QPolygonF],
     Bind [ValueM QTCORE_QPOINTF] ''insert'' [PInt, PConv QPointF] RVoid [OnValue QPolygonF],
     Bind [ValueM QTGUI_QPOLYGONF] ''intersected'' [PConv QPolygonF] (RValue QPolygonF) [OnValue QPolygonF],
     Bind [ValueM QTCORE_QRECT, ValueM QTGUI_QREGION] ''intersected'' [PConv QRect] (RValue QRegion) [OnValue QRegion],
     Bind [ValueM QTGUI_QREGION] ''intersected'' [PConv QRegion] (RValue QRegion) [OnValue QRegion]]"

definition vmeth_qtgui_9_5 :: "binding list" where
  "vmeth_qtgui_9_5 = [
     Bind [ValueM QTGUI_QPOLYGONF] ''intersects'' [PConv QPolygonF] RBool [OnValue QPolygonF],
     Bind [ValueM QTCORE_QRECT] ''intersects'' [PConv QRect] RBool [OnValue QRegion],
     Bind [ValueM QTGUI_QREGION] ''intersects'' [PConv QRegion] RBool [OnValue QRegion],
     Bind [ValueM QTGUI_QQUATERNION] ''inverted'' [] (RValue QQuaternion) [OnValue QQuaternion],
     Bind [] ''isClosed'' [] RBool [OnValue QPolygonF],
     Bind [] ''isEmpty'' [] RBool [OnValue QPolygonF, OnValue QRegion],
     Bind [] ''isIdentity'' [] RBool [OnValue QQuaternion]]"

definition vmeth_qtgui_9_6 :: "binding list" where
  "vmeth_qtgui_9_6 = [
     Bind [] ''isNull'' [] RBool [OnValue QQuaternion, OnValue QRegion],
     Bind [] ''isOpaque'' [] RBool [OnValue ''QRgba64''],
     Bind [] ''isTransparent'' [] RBool [OnValue ''QRgba64''],
     Bind [] ''isValid'' [] RBool [OnValue QRawFont],
     Bind [ValueM QTCORE_QPOINTF] ''last'' [] (RValue QPointF) [OnValue QPolygonF],
     Bind [ValueM QTCORE_QPOINTF] ''lastIndexOf'' [PConv QPointF, PInt] RNumber [OnValue QPolygonF],
     Bind [] ''leading'' [] RNumber [OnValue QRawFont]]"

definition vmeth_qtgui_9_7 :: "binding list" where
  "vmeth_qtgui_9_7 = [
     Bind [] ''length'' [] RNumber [OnValue QQuaternion],
     Bind [] ''lengthSquared'' [] RNumber [OnValue QQuaternion],
     Bind [] ''lineThickness'' [] RNumber [OnValue QRawFont],
     Bind [TypeM QTGUI_QFONT, ValueM QTCORE_QBYTEARRAY] ''loadFromData'' [PConv QByteArray, PReal ''qreal'', PConv ''QFont::HintingPreference''] RVoid [OnValue QRawFont],
     Bind [TypeM QTGUI_QFONT] ''loadFromFile'' [PString True, PReal ''qreal'', PConv ''QFont::HintingPreference''] RVoid [OnValue QRawFont],
     Bind [] ''maxCharWidth'' [] RNumber [OnValue QRawFont],
     Bind [ValueM QTGUI_QPOLYGONF] ''mid'' [PInt, PInt] (RValue QPolygonF) [OnValue QPolygonF]]"

definition vmeth_qtgui_9_8 :: "binding list" where
  "vmeth_qtgui_9_8 = [
     Bind [] ''normalize'' [] RVoid [OnValue QQuaternion],
     Bind [ValueM QTGUI_QQUATERNION] ''normalized'' [] (RValue QQuaternion) [OnValue QQuaternion],
     Bind [ValueM QTCORE_QSIZE] ''oldSize'' [] (RValue QSize) [OnValue ''QResizeEvent''],
     Bind [ValueM QTCORE_QPOINTF] ''overshootDistance'' [] (RValue QPointF) [OnValue ''QScrollEvent''],
     Bind [] ''pixelSize'' [] RNumber [OnValue QRawFont],
     Bind [ValueM ''QTGUI_QRGBA64''] ''premultiplied'' [] (RValue ''QRgba64'') [OnValue ''QRgba64''],
     Bind [ValueM QTCORE_QPOINTF] ''prepend'' [PConv QPointF] RVoid [OnValue QPolygonF]]"

definition vmeth_qtgui_9_9 :: "binding list" where
  "vmeth_qtgui_9_9 = [
     Bind [] ''radius'' [] RNumber [OnValue QRadialGradient],
     Bind [] ''rectCount'' [] RNumber [OnValue QRegion],
     Bind [] ''remove'' [PInt] RVoid [OnValue QPolygonF],
     Bind [] ''remove'' [PInt, PInt] RVoid [OnValue QPolygonF],
     Bind [ValueM QTCORE_QPOINTF] ''replace'' [PInt, PConv QPointF] RVoid [OnValue QPolygonF],
     Bind [] ''resize'' [PWide ''qsizetype''] RVoid [OnValue QPolygonF],
     Bind [ValueM QTGUI_QVECTOR3D] ''rotatedVector'' [PConv QVector3D] (RValue QVector3D) [OnValue QQuaternion]]"

definition vmeth_qtgui_9_10 :: "binding list" where
  "vmeth_qtgui_9_10 = [
     Bind [] ''scalar'' [] RNumber [OnValue QQuaternion],
     Bind [TypeM ''QTGUI_QSCROLLEVENT''] ''scrollState'' [] (RMeta ''QScrollEvent::ScrollState'') [OnValue ''QScrollEvent''],
     Bind [ValueM QTCORE_QPOINTF] ''setCenter'' [PConv QPointF] RVoid [OnValue QRadialGradient],
     Bind [] ''setCenter'' [PReal ''qreal'', PReal ''qreal''] RVoid [OnValue QRadialGradient],
     Bind [] ''setCenterRadius'' [PReal ''qreal''] RVoid [OnValue QRadialGradient],
     Bind [ValueM QTCORE_QPOINTF] ''setFocalPoint'' [PConv QPointF] RVoid [OnValue QRadialGradient],
     Bind [] ''setFocalPoint'' [PReal ''qreal'', PReal ''qreal''] RVoid [OnValue QRadialGradient]]"

definition vmeth_qtgui_9_11 :: "binding list" where
  "vmeth_qtgui_9_11 = [
     Bind [] ''setFocalRadius'' [PReal ''qreal''] RVoid [OnValue QRadialGradient],
     Bind [] ''setPixelSize'' [PReal ''qreal''] RVoid [OnValue QRawFont],
     Bind [] ''setRadius'' [PReal ''qreal''] RVoid [OnValue QRadialGradient],
     Bind [] ''setScalar'' [PReal ''float''] RVoid [OnValue QQuaternion],
     Bind [ValueM QTGUI_QVECTOR3D] ''setVector'' [PConv QVector3D] RVoid [OnValue QQuaternion],
     Bind [] ''setVector'' [PReal ''float'', PReal ''float'', PReal ''float''] RVoid [OnValue QQuaternion],
     Bind [] ''setX'' [PReal ''float''] RVoid [OnValue QQuaternion]]"

definition vmeth_qtgui_9_12 :: "binding list" where
  "vmeth_qtgui_9_12 = [
     Bind [] ''setY'' [PReal ''float''] RVoid [OnValue QQuaternion],
     Bind [] ''setZ'' [PReal ''float''] RVoid [OnValue QQuaternion],
     Bind [ValueM QTCORE_QSIZE] ''size'' [] (RValue QSize) [OnValue ''QResizeEvent''],
     Bind [] ''size'' [] RNumber [OnValue QPolygonF],
     Bind [TypeM QTGUI_QFONT] ''style'' [] (RMeta ''QFont::Style'') [OnValue QRawFont],
     Bind [] ''styleName'' [] RString [OnValue QRawFont],
     Bind [ValueM QTGUI_QPOLYGONF] ''subtracted'' [PConv QPolygonF] (RValue QPolygonF) [OnValue QPolygonF]]"

definition vmeth_qtgui_9_13 :: "binding list" where
  "vmeth_qtgui_9_13 = [
     Bind [ValueM QTGUI_QREGION] ''subtracted'' [PConv QRegion] (RValue QRegion) [OnValue QRegion],
     Bind [TypeM ''QTGUI_QFONTDATABASE''] ''supportedWritingSystems'' [] (RList (IMeta QFontDatabase_WritingSystem)) [OnValue QRawFont],
     Bind [] ''supportsCharacter'' [PUInt] RBool [OnValue QRawFont],
     Bind [ValueM QTGUI_QPOLYGONF] ''swap'' [PConv QPolygonF] RVoid [OnValue QPolygonF],
     Bind [ValueM ''QTGUI_QRAWFONT''] ''swap'' [PConv QRawFont] RVoid [OnValue QRawFont],
     Bind [ValueM QTGUI_QREGION] ''swap'' [PConv QRegion] RVoid [OnValue QRegion]]"

definition vmeth_qtgui_9_14 :: "binding list" where
  "vmeth_qtgui_9_14 = [
     Bind [] ''toArgb32'' [] RNumber [OnValue ''QRgba64''],
     Bind [TypeM QTGUI_QQUATERNION] ''toAxes'' [] (RMeta ''QQuaternion::Axes'') [OnValue QQuaternion],
     Bind [ValueM QTGUI_QVECTOR3D] ''toEulerAngles'' [] (RValue QVector3D) [OnValue QQuaternion],
     Bind [ValueM QTGUI_QPOLYGON] ''toPolygon'' [] (RValue QPolygon) [OnValue QPolygonF],
     Bind [ValueM ''QTGUI_QMATRIX3X3''] ''toRotationMatrix'' [] (RValue ''QMatrix3x3'') [OnValue QQuaternion],
     Bind [ValueM QTGUI_QVECTOR4D] ''toVector4D'' [] (RValue QVector4D) [OnValue QQuaternion],
     Bind [ValueM QTCORE_QPOINT] ''translate'' [PConv QPoint] RVoid [OnValue QRegion]]"

definition vmeth_qtgui_9_15 :: "binding list" where
  "vmeth_qtgui_9_15 = [
     Bind [ValueM QTCORE_QPOINTF] ''translate'' [PConv QPointF] RVoid [OnValue QPolygonF],
     Bind [] ''translate'' [PInt, PInt] RVoid [OnValue QRegion],
     Bind [] ''translate'' [PReal ''qreal'', PReal ''qreal''] RVoid [OnValue QPolygonF],
     Bind [ValueM QTCORE_QPOINT, ValueM QTGUI_QREGION] ''translated'' [PConv QPoint] (RValue QRegion) [OnValue QRegion],
     Bind [ValueM QTCORE_QPOINTF, ValueM QTGUI_QPOLYGONF] ''translated'' [PConv QPointF] (RValue QPolygonF) [OnValue QPolygonF],
     Bind [ValueM QTGUI_QREGION] ''translated'' [PInt, PInt] (RValue QRegion) [OnValue QRegion]]"

definition vmeth_qtgui_9_16 :: "binding list" where
  "vmeth_qtgui_9_16 = [
     Bind [ValueM QTGUI_QPOLYGONF] ''translated'' [PReal ''qreal'', PReal ''qreal''] (RValue QPolygonF) [OnValue QPolygonF],
     Bind [] ''underlinePosition'' [] RNumber [OnValue QRawFont],
     Bind [ValueM QTGUI_QPOLYGONF] ''united'' [PConv QPolygonF] (RValue QPolygonF) [OnValue QPolygonF],
     Bind [ValueM QTCORE_QRECT, ValueM QTGUI_QREGION] ''united'' [PConv QRect] (RValue QRegion) [OnValue QRegion],
     Bind [ValueM QTGUI_QREGION] ''united'' [PConv QRegion] (RValue QRegion) [OnValue QRegion],
     Bind [] ''unitsPerEm'' [] RNumber [OnValue QRawFont]]"

definition vmeth_qtgui_9_17 :: "binding list" where
  "vmeth_qtgui_9_17 = [
     Bind [ValueM ''QTGUI_QRGBA64''] ''unpremultiplied'' [] (RValue ''QRgba64'') [OnValue ''QRgba64''],
     Bind [ValueM QTCORE_QPOINTF] ''value'' [PInt] (RValue QPointF) [OnValue QPolygonF],
     Bind [ValueM QTCORE_QPOINTF] ''value'' [PInt, PConv QPointF] (RValue QPointF) [OnValue QPolygonF],
     Bind [ValueM QTGUI_QVECTOR3D] ''vector'' [] (RValue QVector3D) [OnValue QQuaternion],
     Bind [] ''weight'' [] RNumber [OnValue QRawFont],
     Bind [] ''x'' [] RNumber [OnValue QQuaternion],
     Bind [] ''xHeight'' [] RNumber [OnValue QRawFont]]"

definition vmeth_qtgui_9_18 :: "binding list" where
  "vmeth_qtgui_9_18 = [
     Bind [ValueM QTGUI_QREGION] ''xored'' [PConv QRegion] (RValue QRegion) [OnValue QRegion],
     Bind [] ''y'' [] RNumber [OnValue QQuaternion],
     Bind [] ''z'' [] RNumber [OnValue QQuaternion]]"

definition vtypes_qtgui_9 :: "string list" where
  "vtypes_qtgui_9 = [QPolygonF, QQuaternion, QRadialGradient, QRawFont, QRegion, ''QResizeEvent'', ''QRgba64'', ''QScrollEvent'']"

definition vmeth_table_gui_c :: "(string \<times> shard) list" where
  "vmeth_table_gui_c = [
     (''qtgui_7'', \<lparr>sh_module = ''QtGui'', sh_slug = ''QTGUI'',
        sh_bindings = concat [vmeth_qtgui_7_0, vmeth_qtgui_7_1, vmeth_qtgui_7_2, vmeth_qtgui_7_3, vmeth_qtgui_7_4, vmeth_qtgui_7_5, vmeth_qtgui_7_6, vmeth_qtgui_7_7, vmeth_qtgui_7_8, vmeth_qtgui_7_9, vmeth_qtgui_7_10, vmeth_qtgui_7_11, vmeth_qtgui_7_12, vmeth_qtgui_7_13, vmeth_qtgui_7_14, vmeth_qtgui_7_15, vmeth_qtgui_7_16, vmeth_qtgui_7_17, vmeth_qtgui_7_18, vmeth_qtgui_7_19, vmeth_qtgui_7_20, vmeth_qtgui_7_21, vmeth_qtgui_7_22, vmeth_qtgui_7_23, vmeth_qtgui_7_24, vmeth_qtgui_7_25, vmeth_qtgui_7_26, vmeth_qtgui_7_27, vmeth_qtgui_7_28, vmeth_qtgui_7_29, vmeth_qtgui_7_30, vmeth_qtgui_7_31, vmeth_qtgui_7_32, vmeth_qtgui_7_33, vmeth_qtgui_7_34, vmeth_qtgui_7_35, vmeth_qtgui_7_36, vmeth_qtgui_7_37, vmeth_qtgui_7_38, vmeth_qtgui_7_39, vmeth_qtgui_7_40, vmeth_qtgui_7_41, vmeth_qtgui_7_42, vmeth_qtgui_7_43, vmeth_qtgui_7_44, vmeth_qtgui_7_45, vmeth_qtgui_7_46, vmeth_qtgui_7_47, vmeth_qtgui_7_48, vmeth_qtgui_7_49, vmeth_qtgui_7_50, vmeth_qtgui_7_51, vmeth_qtgui_7_52, vmeth_qtgui_7_53, vmeth_qtgui_7_54, vmeth_qtgui_7_55]\<rparr>),
     (''qtgui_8'', \<lparr>sh_module = ''QtGui'', sh_slug = ''QTGUI'',
        sh_bindings = concat [vmeth_qtgui_8_0, vmeth_qtgui_8_1, vmeth_qtgui_8_2, vmeth_qtgui_8_3, vmeth_qtgui_8_4, vmeth_qtgui_8_5, vmeth_qtgui_8_6, vmeth_qtgui_8_7, vmeth_qtgui_8_8, vmeth_qtgui_8_9, vmeth_qtgui_8_10, vmeth_qtgui_8_11, vmeth_qtgui_8_12, vmeth_qtgui_8_13, vmeth_qtgui_8_14, vmeth_qtgui_8_15, vmeth_qtgui_8_16, vmeth_qtgui_8_17, vmeth_qtgui_8_18]\<rparr>),
     (''qtgui_9'', \<lparr>sh_module = ''QtGui'', sh_slug = ''QTGUI'',
        sh_bindings = concat [vmeth_qtgui_9_0, vmeth_qtgui_9_1, vmeth_qtgui_9_2, vmeth_qtgui_9_3, vmeth_qtgui_9_4, vmeth_qtgui_9_5, vmeth_qtgui_9_6, vmeth_qtgui_9_7, vmeth_qtgui_9_8, vmeth_qtgui_9_9, vmeth_qtgui_9_10, vmeth_qtgui_9_11, vmeth_qtgui_9_12, vmeth_qtgui_9_13, vmeth_qtgui_9_14, vmeth_qtgui_9_15, vmeth_qtgui_9_16, vmeth_qtgui_9_17, vmeth_qtgui_9_18]\<rparr>)]"

lemmas vmeth_table_gui_c_defs =
  vmeth_qtgui_7_0_def vmeth_qtgui_7_1_def vmeth_qtgui_7_2_def vmeth_qtgui_7_3_def vmeth_qtgui_7_4_def
  vmeth_qtgui_7_5_def vmeth_qtgui_7_6_def vmeth_qtgui_7_7_def vmeth_qtgui_7_8_def vmeth_qtgui_7_9_def
  vmeth_qtgui_7_10_def vmeth_qtgui_7_11_def vmeth_qtgui_7_12_def vmeth_qtgui_7_13_def vmeth_qtgui_7_14_def
  vmeth_qtgui_7_15_def vmeth_qtgui_7_16_def vmeth_qtgui_7_17_def vmeth_qtgui_7_18_def vmeth_qtgui_7_19_def
  vmeth_qtgui_7_20_def vmeth_qtgui_7_21_def vmeth_qtgui_7_22_def vmeth_qtgui_7_23_def vmeth_qtgui_7_24_def
  vmeth_qtgui_7_25_def vmeth_qtgui_7_26_def vmeth_qtgui_7_27_def vmeth_qtgui_7_28_def vmeth_qtgui_7_29_def
  vmeth_qtgui_7_30_def vmeth_qtgui_7_31_def vmeth_qtgui_7_32_def vmeth_qtgui_7_33_def vmeth_qtgui_7_34_def
  vmeth_qtgui_7_35_def vmeth_qtgui_7_36_def vmeth_qtgui_7_37_def vmeth_qtgui_7_38_def vmeth_qtgui_7_39_def
  vmeth_qtgui_7_40_def vmeth_qtgui_7_41_def vmeth_qtgui_7_42_def vmeth_qtgui_7_43_def vmeth_qtgui_7_44_def
  vmeth_qtgui_7_45_def vmeth_qtgui_7_46_def vmeth_qtgui_7_47_def vmeth_qtgui_7_48_def vmeth_qtgui_7_49_def
  vmeth_qtgui_7_50_def vmeth_qtgui_7_51_def vmeth_qtgui_7_52_def vmeth_qtgui_7_53_def vmeth_qtgui_7_54_def
  vmeth_qtgui_7_55_def vmeth_qtgui_8_0_def vmeth_qtgui_8_1_def vmeth_qtgui_8_2_def vmeth_qtgui_8_3_def
  vmeth_qtgui_8_4_def vmeth_qtgui_8_5_def vmeth_qtgui_8_6_def vmeth_qtgui_8_7_def vmeth_qtgui_8_8_def
  vmeth_qtgui_8_9_def vmeth_qtgui_8_10_def vmeth_qtgui_8_11_def vmeth_qtgui_8_12_def vmeth_qtgui_8_13_def
  vmeth_qtgui_8_14_def vmeth_qtgui_8_15_def vmeth_qtgui_8_16_def vmeth_qtgui_8_17_def vmeth_qtgui_8_18_def
  vmeth_qtgui_9_0_def vmeth_qtgui_9_1_def vmeth_qtgui_9_2_def vmeth_qtgui_9_3_def vmeth_qtgui_9_4_def
  vmeth_qtgui_9_5_def vmeth_qtgui_9_6_def vmeth_qtgui_9_7_def vmeth_qtgui_9_8_def vmeth_qtgui_9_9_def
  vmeth_qtgui_9_10_def vmeth_qtgui_9_11_def vmeth_qtgui_9_12_def vmeth_qtgui_9_13_def vmeth_qtgui_9_14_def
  vmeth_qtgui_9_15_def vmeth_qtgui_9_16_def vmeth_qtgui_9_17_def vmeth_qtgui_9_18_def

lemma vmeth_table_gui_c_value_blocks: "list_all (\<lambda>(s, sh). value_blocks sh) vmeth_table_gui_c"
  by (simp add: vmeth_table_gui_c_def vmeth_table_gui_c_defs value_blocks_def value_shard_def; (simp add: parameter_text_def qt_name_defs)?)

end
