(* ===== verification/Value_Methods_Network_A.thy ===== *)
theory Value_Methods_Network_A
  imports Shard_Methods Qt_Names
begin

text \<open>
  Tables of the value method shards (generated\_value\_methods): the blocks of every shard in the file's order, and the
  classes it can store by value.
\<close>

definition vmeth_qtnetwork_0_0 :: "binding list" where
  "vmeth_qtnetwork_0_0 = [
     Bind [] ''clear'' [] RVoid [OnValue QAuthenticator],
     Bind [] ''exchange'' [] RString [OnValue QDnsMailExchangeRecord],
     Bind [] ''isNull'' [] RBool [OnValue QAuthenticator],
     Bind [TypeM ''QTNETWORK_QDNSTLSASSOCIATIONRECORD''] ''matchType'' [] (RMeta ''QDnsTlsAssociationRecord::MatchingType'') [OnValue QDnsTlsAssociationRecord],
     Bind [] ''name'' [] RString [OnValue QDnsDomainNameRecord, OnValue QDnsHostAddressRecord, OnValue QDnsMailExchangeRecord, OnValue ''QDnsServiceRecord'', OnValue ''QDnsTextRecord'', OnValue QDnsTlsAssociationRecord],
     Bind [] ''option'' [PString True] RVariant [OnValue QAuthenticator]]"

definition vmeth_qtnetwork_0_1 :: "binding list" where
  "vmeth_qtnetwork_0_1 = [
     Bind [] ''options'' [] (RMap IVariant) [OnValue QAuthenticator],
     Bind [] ''password'' [] RString [OnValue QAuthenticator],
     Bind [] ''realm'' [] RString [OnValue QAuthenticator],
     Bind [TypeM ''QTNETWORK_QDNSTLSASSOCIATIONRECORD''] ''selector'' [] (RMeta ''QDnsTlsAssociationRecord::Selector'') [OnValue QDnsTlsAssociationRecord],
     Bind [] ''setOption'' [PString True, PVariant] RVoid [OnValue QAuthenticator],
     Bind [] ''setPassword'' [PString True] RVoid [OnValue QAuthenticator],
     Bind [] ''setUser'' [PString True] RVoid [OnValue QAuthenticator]]"

definition vmeth_qtnetwork_0_2 :: "binding list" where
  "vmeth_qtnetwork_0_2 = [
     Bind [ValueM ''QTNETWORK_QDNSDOMAINNAMERECORD''] ''swap'' [PConv QDnsDomainNameRecord] RVoid [OnValue QDnsDomainNameRecord],
     Bind [ValueM ''QTNETWORK_QDNSHOSTADDRESSRECORD''] ''swap'' [PConv QDnsHostAddressRecord] RVoid [OnValue QDnsHostAddressRecord],
     Bind [ValueM ''QTNETWORK_QDNSMAILEXCHANGERECORD''] ''swap'' [PConv QDnsMailExchangeRecord] RVoid [OnValue QDnsMailExchangeRecord],
     Bind [ValueM ''QTNETWORK_QDNSSERVICERECORD''] ''swap'' [PConv ''QDnsServiceRecord''] RVoid [OnValue ''QDnsServiceRecord''],
     Bind [ValueM ''QTNETWORK_QDNSTEXTRECORD''] ''swap'' [PConv ''QDnsTextRecord''] RVoid [OnValue ''QDnsTextRecord''],
     Bind [ValueM ''QTNETWORK_QDNSTLSASSOCIATIONRECORD''] ''swap'' [PConv QDnsTlsAssociationRecord] RVoid [OnValue QDnsTlsAssociationRecord]]"

definition vmeth_qtnetwork_0_3 :: "binding list" where
  "vmeth_qtnetwork_0_3 = [
     Bind [ValueM ''QTNETWORK_QFORMDATABUILDER''] ''swap'' [PConv ''QFormDataBuilder''] RVoid [OnValue ''QFormDataBuilder''],
     Bind [] ''target'' [] RString [OnValue ''QDnsServiceRecord''],
     Bind [TypeM ''QTNETWORK_QDNSTLSASSOCIATIONRECORD''] ''usage'' [] (RMeta ''QDnsTlsAssociationRecord::CertificateUsage'') [OnValue QDnsTlsAssociationRecord],
     Bind [] ''user'' [] RString [OnValue QAuthenticator],
     Bind [ValueM QTCORE_QBYTEARRAY] ''value'' [] (RValue QByteArray) [OnValue QDnsTlsAssociationRecord],
     Bind [ValueM QTNETWORK_QHOSTADDRESS] ''value'' [] (RValue QHostAddress) [OnValue QDnsHostAddressRecord],
     Bind [] ''value'' [] RString [OnValue QDnsDomainNameRecord]]"

definition vmeth_qtnetwork_0_4 :: "binding list" where
  "vmeth_qtnetwork_0_4 = [
     Bind [ValueM QTCORE_QBYTEARRAY] ''values'' [] (RList (IValue QByteArray)) [OnValue ''QDnsTextRecord'']]"

definition vtypes_qtnetwork_0 :: "string list" where
  "vtypes_qtnetwork_0 = [QAuthenticator, QDnsDomainNameRecord, QDnsHostAddressRecord, QDnsMailExchangeRecord, ''QDnsServiceRecord'',
     ''QDnsTextRecord'', QDnsTlsAssociationRecord, ''QFormDataBuilder'']"

definition vmeth_qtnetwork_1_0 :: "binding list" where
  "vmeth_qtnetwork_1_0 = [
     Bind [ValueM QTNETWORK_QHOSTADDRESS] ''addresses'' [] (RList (IValue QHostAddress)) [OnValue ''QHostInfo''],
     Bind [] ''clear'' [] RVoid [OnValue QHostAddress, OnValue QHttpHeaders],
     Bind [TypeM QTNETWORK_QHTTPHEADERS, ValueM QTCORE_QBYTEARRAY] ''combinedValue'' [PConv ''QHttpHeaders::WellKnownHeader''] (RValue QByteArray) [OnValue QHttpHeaders],
     Bind [TypeM QTNETWORK_QHTTPHEADERS] ''contains'' [PConv ''QHttpHeaders::WellKnownHeader''] RBool [OnValue QHttpHeaders],
     Bind [TypeM ''QTNETWORK_QHOSTINFO''] ''error'' [] (RMeta ''QHostInfo::HostInfoError'') [OnValue ''QHostInfo''],
     Bind [] ''errorString'' [] RString [OnValue ''QHostInfo'']]"

definition vmeth_qtnetwork_1_1 :: "binding list" where
  "vmeth_qtnetwork_1_1 = [
     Bind [ValueM QTCORE_QDATETIME] ''expiry'' [] (RValue QDateTime) [OnValue ''QHstsPolicy''],
     Bind [] ''hostName'' [] RString [OnValue ''QHostInfo''],
     Bind [] ''huffmanCompressionEnabled'' [] RBool [OnValue QHttp2Configuration],
     Bind [] ''includesSubDomains'' [] RBool [OnValue ''QHstsPolicy''],
     Bind [] ''isBroadcast'' [] RBool [OnValue QHostAddress],
     Bind [] ''isEmpty'' [] RBool [OnValue QHttpHeaders],
     Bind [] ''isExpired'' [] RBool [OnValue ''QHstsPolicy''],
     Bind [] ''isGlobal'' [] RBool [OnValue QHostAddress]]"

definition vmeth_qtnetwork_1_2 :: "binding list" where
  "vmeth_qtnetwork_1_2 = [
     Bind [ValueM QTNETWORK_QHOSTADDRESS] ''isInSubnet'' [PConv QHostAddress, PInt] RBool [OnValue QHostAddress],
     Bind [] ''isLinkLocal'' [] RBool [OnValue QHostAddress],
     Bind [] ''isLoopback'' [] RBool [OnValue QHostAddress],
     Bind [] ''isMulticast'' [] RBool [OnValue QHostAddress],
     Bind [] ''isNull'' [] RBool [OnValue QHostAddress],
     Bind [] ''isPrivateUse'' [] RBool [OnValue QHostAddress],
     Bind [] ''isSiteLocal'' [] RBool [OnValue QHostAddress],
     Bind [] ''isUniqueLocalUnicast'' [] RBool [OnValue QHostAddress]]"

definition vmeth_qtnetwork_1_3 :: "binding list" where
  "vmeth_qtnetwork_1_3 = [
     Bind [] ''lookupId'' [] RNumber [OnValue ''QHostInfo''],
     Bind [] ''maxConcurrentStreams'' [] RNumber [OnValue QHttp2Configuration],
     Bind [] ''maxFrameSize'' [] RNumber [OnValue QHttp2Configuration],
     Bind [] ''numberOfConnectionsPerHost'' [] (RMeta ''qsizetype'') [OnValue QHttp1Configuration],
     Bind [TypeM QTNETWORK_QABSTRACTSOCKET] ''protocol'' [] (RMeta ''QAbstractSocket::NetworkLayerProtocol'') [OnValue QHostAddress],
     Bind [TypeM QTNETWORK_QHTTPHEADERS] ''removeAll'' [PConv ''QHttpHeaders::WellKnownHeader''] RVoid [OnValue QHttpHeaders],
     Bind [] ''removeAt'' [PWide ''qsizetype''] RVoid [OnValue QHttpHeaders]]"

definition vmeth_qtnetwork_1_4 :: "binding list" where
  "vmeth_qtnetwork_1_4 = [
     Bind [] ''reserve'' [PWide ''qsizetype''] RVoid [OnValue QHttpHeaders],
     Bind [] ''scopeId'' [] RString [OnValue QHostAddress],
     Bind [] ''serverPushEnabled'' [] RBool [OnValue QHttp2Configuration],
     Bind [] ''sessionReceiveWindowSize'' [] RNumber [OnValue QHttp2Configuration],
     Bind [TypeM QTNETWORK_QHOSTADDRESS] ''setAddress'' [PConv ''QHostAddress::SpecialAddress''] RVoid [OnValue QHostAddress],
     Bind [] ''setAddress'' [PString True] RBool [OnValue QHostAddress],
     Bind [ValueM QTNETWORK_QHOSTADDRESS] ''setAddresses'' [PListV QHostAddress] RVoid [OnValue ''QHostInfo'']]"

definition vmeth_qtnetwork_1_5 :: "binding list" where
  "vmeth_qtnetwork_1_5 = [
     Bind [ValueM QTCORE_QBYTEARRAY] ''setBody'' [PConv QByteArray] RVoid [OnValue ''QHttpPart''],
     Bind [TypeM QTCORE_QIODEVICE] ''setBodyDevice'' [PNonNull QIODevice_ptr] RVoid [OnValue ''QHttpPart''],
     Bind [TypeM QTNETWORK_QHTTPHEADERS, ValueM QTCORE_QDATETIME] ''setDateTimeValue'' [PConv ''QHttpHeaders::WellKnownHeader'', PConv QDateTime] RVoid [OnValue QHttpHeaders],
     Bind [TypeM ''QTNETWORK_QHOSTINFO''] ''setError'' [PConv ''QHostInfo::HostInfoError''] RVoid [OnValue ''QHostInfo''],
     Bind [] ''setErrorString'' [PString True] RVoid [OnValue ''QHostInfo''],
     Bind [ValueM QTCORE_QDATETIME] ''setExpiry'' [PConv QDateTime] RVoid [OnValue ''QHstsPolicy'']]"

definition vmeth_qtnetwork_1_6 :: "binding list" where
  "vmeth_qtnetwork_1_6 = [
     Bind [TypeM QTNETWORK_QNETWORKREQUEST] ''setHeader'' [PConv ''QNetworkRequest::KnownHeaders'', PVariant] RVoid [OnValue ''QHttpPart''],
     Bind [ValueM ''QTNETWORK_QFORMDATAPARTBUILDER'', ValueM QTNETWORK_QHTTPHEADERS] ''setHeaders'' [PConv QHttpHeaders] (RValue ''QFormDataPartBuilder'') [OnValue ''QFormDataPartBuilder''],
     Bind [TypeM QTCORE_QURL] ''setHost'' [PString True, PConv ''QUrl::ParsingMode''] RVoid [OnValue ''QHstsPolicy''],
     Bind [] ''setHostName'' [PString True] RVoid [OnValue ''QHostInfo''],
     Bind [] ''setHuffmanCompressionEnabled'' [PBool] RVoid [OnValue QHttp2Configuration],
     Bind [] ''setIncludesSubDomains'' [PBool] RVoid [OnValue ''QHstsPolicy'']]"

definition vmeth_qtnetwork_1_7 :: "binding list" where
  "vmeth_qtnetwork_1_7 = [
     Bind [] ''setLookupId'' [PInt] RVoid [OnValue ''QHostInfo''],
     Bind [] ''setMaxConcurrentStreams'' [PUInt] RVoid [OnValue QHttp2Configuration],
     Bind [] ''setMaxFrameSize'' [PUInt] RBool [OnValue QHttp2Configuration],
     Bind [] ''setNumberOfConnectionsPerHost'' [PWide ''qsizetype''] RVoid [OnValue QHttp1Configuration],
     Bind [ValueM QTCORE_QBYTEARRAY] ''setRawHeader'' [PConv QByteArray, PConv QByteArray] RVoid [OnValue ''QHttpPart''],
     Bind [] ''setScopeId'' [PString True] RVoid [OnValue QHostAddress],
     Bind [] ''setServerPushEnabled'' [PBool] RVoid [OnValue QHttp2Configuration]]"

definition vmeth_qtnetwork_1_8 :: "binding list" where
  "vmeth_qtnetwork_1_8 = [
     Bind [] ''setSessionReceiveWindowSize'' [PUInt] RBool [OnValue QHttp2Configuration],
     Bind [] ''setStreamReceiveWindowSize'' [PUInt] RBool [OnValue QHttp2Configuration],
     Bind [] ''size'' [] (RMeta ''qsizetype'') [OnValue QHttpHeaders],
     Bind [] ''streamReceiveWindowSize'' [] RNumber [OnValue QHttp2Configuration],
     Bind [ValueM ''QTNETWORK_QFORMDATAPARTBUILDER''] ''swap'' [PConv ''QFormDataPartBuilder''] RVoid [OnValue ''QFormDataPartBuilder''],
     Bind [ValueM QTNETWORK_QHOSTADDRESS] ''swap'' [PConv QHostAddress] RVoid [OnValue QHostAddress],
     Bind [ValueM ''QTNETWORK_QHOSTINFO''] ''swap'' [PConv ''QHostInfo''] RVoid [OnValue ''QHostInfo'']]"

definition vmeth_qtnetwork_1_9 :: "binding list" where
  "vmeth_qtnetwork_1_9 = [
     Bind [ValueM ''QTNETWORK_QHSTSPOLICY''] ''swap'' [PConv ''QHstsPolicy''] RVoid [OnValue ''QHstsPolicy''],
     Bind [ValueM ''QTNETWORK_QHTTP1CONFIGURATION''] ''swap'' [PConv QHttp1Configuration] RVoid [OnValue QHttp1Configuration],
     Bind [ValueM ''QTNETWORK_QHTTP2CONFIGURATION''] ''swap'' [PConv QHttp2Configuration] RVoid [OnValue QHttp2Configuration],
     Bind [ValueM QTNETWORK_QHTTPHEADERS] ''swap'' [PConv QHttpHeaders] RVoid [OnValue QHttpHeaders],
     Bind [ValueM ''QTNETWORK_QHTTPPART''] ''swap'' [PConv ''QHttpPart''] RVoid [OnValue ''QHttpPart''],
     Bind [] ''toString'' [] RString [OnValue QHostAddress]]"

definition vmeth_qtnetwork_1_10 :: "binding list" where
  "vmeth_qtnetwork_1_10 = [
     Bind [TypeM QTNETWORK_QHTTPHEADERS, ValueM QTCORE_QBYTEARRAY] ''values'' [PConv ''QHttpHeaders::WellKnownHeader''] (RList (IValue QByteArray)) [OnValue QHttpHeaders]]"

definition vtypes_qtnetwork_1 :: "string list" where
  "vtypes_qtnetwork_1 = [''QFormDataPartBuilder'', QHostAddress, ''QHostInfo'', ''QHstsPolicy'', QHttp1Configuration, QHttp2Configuration,
     QHttpHeaders, ''QHttpPart'']"

definition vmeth_qtnetwork_2_0 :: "binding list" where
  "vmeth_qtnetwork_2_0 = [
     Bind [ValueM ''QTNETWORK_QNETWORKADDRESSENTRY''] ''addressEntries'' [] (RList (IValue QNetworkAddressEntry)) [OnValue QNetworkInterface],
     Bind [TypeM QTNETWORK_QNETWORKREQUEST] ''attribute'' [PConv ''QNetworkRequest::Attribute'', PVariant] RVariant [OnValue QNetworkRequest],
     Bind [ValueM QTNETWORK_QHOSTADDRESS] ''broadcast'' [] (RValue QHostAddress) [OnValue QNetworkAddressEntry],
     Bind [TypeM QTNETWORK_QNETWORKPROXY] ''capabilities'' [] (RMeta ''QNetworkProxy::Capabilities'') [OnValue QNetworkProxy],
     Bind [] ''clear'' [] RVoid [OnValue QNetworkDatagram],
     Bind [] ''clearAddressLifetime'' [] RVoid [OnValue QNetworkAddressEntry],
     Bind [ValueM QTCORE_QBYTEARRAY] ''data'' [] (RValue QByteArray) [OnValue QNetworkDatagram]]"

definition vmeth_qtnetwork_2_1 :: "binding list" where
  "vmeth_qtnetwork_2_1 = [
     Bind [] ''decompressedSafetyCheckThreshold'' [] (RMeta ''qint64'') [OnValue QNetworkRequest],
     Bind [ValueM QTNETWORK_QHOSTADDRESS] ''destinationAddress'' [] (RValue QHostAddress) [OnValue QNetworkDatagram],
     Bind [] ''destinationPort'' [] RNumber [OnValue QNetworkDatagram],
     Bind [TypeM ''QTNETWORK_QNETWORKADDRESSENTRY''] ''dnsEligibility'' [] (RMeta ''QNetworkAddressEntry::DnsEligibilityStatus'') [OnValue QNetworkAddressEntry],
     Bind [] ''domain'' [] RString [OnValue QNetworkCookie],
     Bind [ValueM QTCORE_QDATETIME] ''expirationDate'' [] (RValue QDateTime) [OnValue QNetworkCacheMetaData, OnValue QNetworkCookie],
     Bind [] ''hardwareAddress'' [] RString [OnValue QNetworkInterface]]"

definition vmeth_qtnetwork_2_2 :: "binding list" where
  "vmeth_qtnetwork_2_2 = [
     Bind [ValueM QTCORE_QBYTEARRAY] ''hasRawHeader'' [PConv QByteArray] RBool [OnValue QNetworkProxy],
     Bind [ValueM QTNETWORK_QNETWORKCOOKIE] ''hasSameIdentifier'' [PConv QNetworkCookie] RBool [OnValue QNetworkCookie],
     Bind [TypeM QTNETWORK_QNETWORKREQUEST] ''header'' [PConv ''QNetworkRequest::KnownHeaders''] RVariant [OnValue QNetworkProxy, OnValue QNetworkRequest],
     Bind [ValueM QTNETWORK_QHTTPHEADERS] ''headers'' [] (RValue QHttpHeaders) [OnValue QNetworkCacheMetaData, OnValue QNetworkProxy, OnValue QNetworkRequest],
     Bind [] ''hopLimit'' [] RNumber [OnValue QNetworkDatagram],
     Bind [] ''hostName'' [] RString [OnValue QNetworkProxy]]"

definition vmeth_qtnetwork_2_3 :: "binding list" where
  "vmeth_qtnetwork_2_3 = [
     Bind [ValueM ''QTNETWORK_QHTTP1CONFIGURATION''] ''http1Configuration'' [] (RValue QHttp1Configuration) [OnValue QNetworkRequest],
     Bind [ValueM ''QTNETWORK_QHTTP2CONFIGURATION''] ''http2Configuration'' [] (RValue QHttp2Configuration) [OnValue QNetworkRequest],
     Bind [] ''humanReadableName'' [] RString [OnValue QNetworkInterface],
     Bind [] ''index'' [] RNumber [OnValue QNetworkInterface],
     Bind [] ''interfaceIndex'' [] RNumber [OnValue QNetworkDatagram],
     Bind [ValueM QTNETWORK_QHOSTADDRESS] ''ip'' [] (RValue QHostAddress) [OnValue QNetworkAddressEntry],
     Bind [] ''isCachingProxy'' [] RBool [OnValue QNetworkProxy],
     Bind [] ''isHttpOnly'' [] RBool [OnValue QNetworkCookie]]"

definition vmeth_qtnetwork_2_4 :: "binding list" where
  "vmeth_qtnetwork_2_4 = [
     Bind [] ''isLifetimeKnown'' [] RBool [OnValue QNetworkAddressEntry],
     Bind [] ''isNull'' [] RBool [OnValue QNetworkDatagram],
     Bind [] ''isPermanent'' [] RBool [OnValue QNetworkAddressEntry],
     Bind [] ''isSecure'' [] RBool [OnValue QNetworkCookie],
     Bind [] ''isSessionCookie'' [] RBool [OnValue QNetworkCookie],
     Bind [] ''isTemporary'' [] RBool [OnValue QNetworkAddressEntry],
     Bind [] ''isTransparentProxy'' [] RBool [OnValue QNetworkProxy],
     Bind [] ''isValid'' [] RBool [OnValue QNetworkCacheMetaData, OnValue QNetworkDatagram, OnValue QNetworkInterface]]"

definition vmeth_qtnetwork_2_5 :: "binding list" where
  "vmeth_qtnetwork_2_5 = [
     Bind [ValueM QTCORE_QDATETIME] ''lastModified'' [] (RValue QDateTime) [OnValue QNetworkCacheMetaData],
     Bind [] ''localPort'' [] RNumber [OnValue QNetworkProxyQuery],
     Bind [ValueM QTCORE_QBYTEARRAY, ValueM ''QTNETWORK_QNETWORKDATAGRAM''] ''makeReply'' [PConv QByteArray] (RValue QNetworkDatagram) [OnValue QNetworkDatagram],
     Bind [] ''maximumRedirectsAllowed'' [] RNumber [OnValue QNetworkRequest],
     Bind [] ''maximumTransmissionUnit'' [] RNumber [OnValue QNetworkInterface],
     Bind [ValueM QTCORE_QBYTEARRAY] ''name'' [] (RValue QByteArray) [OnValue QNetworkCookie],
     Bind [] ''name'' [] RString [OnValue QNetworkInterface]]"

definition vmeth_qtnetwork_2_6 :: "binding list" where
  "vmeth_qtnetwork_2_6 = [
     Bind [ValueM QTNETWORK_QHOSTADDRESS] ''netmask'' [] (RValue QHostAddress) [OnValue QNetworkAddressEntry],
     Bind [ValueM QTCORE_QURL] ''normalize'' [PConv QUrl] RVoid [OnValue QNetworkCookie],
     Bind [TypeM QTCORE_QOBJECT] ''originatingObject'' [] RObject [OnValue QNetworkRequest],
     Bind [] ''password'' [] RString [OnValue QNetworkProxy],
     Bind [] ''path'' [] RString [OnValue QNetworkCookie],
     Bind [] ''peerHostName'' [] RString [OnValue QNetworkProxyQuery],
     Bind [] ''peerPort'' [] RNumber [OnValue QNetworkProxyQuery],
     Bind [] ''peerVerifyName'' [] RString [OnValue QNetworkRequest]]"

definition vmeth_qtnetwork_2_7 :: "binding list" where
  "vmeth_qtnetwork_2_7 = [
     Bind [ValueM QTCORE_QDEADLINETIMER] ''preferredLifetime'' [] (RValue QDeadlineTimer) [OnValue QNetworkAddressEntry],
     Bind [] ''prefixLength'' [] RNumber [OnValue QNetworkAddressEntry],
     Bind [TypeM QTNETWORK_QNETWORKREQUEST] ''priority'' [] (RMeta ''QNetworkRequest::Priority'') [OnValue QNetworkRequest],
     Bind [] ''protocolTag'' [] RString [OnValue QNetworkProxyQuery],
     Bind [TypeM QTNETWORK_QNETWORKPROXYQUERY] ''queryType'' [] (RMeta ''QNetworkProxyQuery::QueryType'') [OnValue QNetworkProxyQuery],
     Bind [ValueM QTCORE_QBYTEARRAY] ''rawHeader'' [PConv QByteArray] (RValue QByteArray) [OnValue QNetworkProxy]]"

definition vmeth_qtnetwork_2_8 :: "binding list" where
  "vmeth_qtnetwork_2_8 = [
     Bind [ValueM QTCORE_QBYTEARRAY] ''rawHeaderList'' [] (RList (IValue QByteArray)) [OnValue QNetworkProxy, OnValue QNetworkRequest],
     Bind [TypeM QTNETWORK_QNETWORKCOOKIE] ''sameSitePolicy'' [] (RMeta ''QNetworkCookie::SameSite'') [OnValue QNetworkCookie],
     Bind [] ''saveToDisk'' [] RBool [OnValue QNetworkCacheMetaData],
     Bind [ValueM QTNETWORK_QHOSTADDRESS] ''senderAddress'' [] (RValue QHostAddress) [OnValue QNetworkDatagram],
     Bind [] ''senderPort'' [] RNumber [OnValue QNetworkDatagram],
     Bind [ValueM QTCORE_QDEADLINETIMER] ''setAddressLifetime'' [PConv QDeadlineTimer, PConv QDeadlineTimer] RVoid [OnValue QNetworkAddressEntry]]"

definition vmeth_qtnetwork_2_9 :: "binding list" where
  "vmeth_qtnetwork_2_9 = [
     Bind [TypeM QTNETWORK_QNETWORKREQUEST] ''setAttribute'' [PConv ''QNetworkRequest::Attribute'', PVariant] RVoid [OnValue QNetworkRequest],
     Bind [ValueM QTNETWORK_QHOSTADDRESS] ''setBroadcast'' [PConv QHostAddress] RVoid [OnValue QNetworkAddressEntry],
     Bind [TypeM QTNETWORK_QNETWORKPROXY] ''setCapabilities'' [PConv ''QNetworkProxy::Capabilities''] RVoid [OnValue QNetworkProxy],
     Bind [ValueM QTCORE_QBYTEARRAY] ''setData'' [PConv QByteArray] RVoid [OnValue QNetworkDatagram],
     Bind [] ''setDecompressedSafetyCheckThreshold'' [PWide ''qint64''] RVoid [OnValue QNetworkRequest],
     Bind [TypeM ''QTNETWORK_QNETWORKADDRESSENTRY''] ''setDnsEligibility'' [PConv ''QNetworkAddressEntry::DnsEligibilityStatus''] RVoid [OnValue QNetworkAddressEntry]]"

definition vmeth_qtnetwork_2_10 :: "binding list" where
  "vmeth_qtnetwork_2_10 = [
     Bind [] ''setDomain'' [PString True] RVoid [OnValue QNetworkCookie],
     Bind [ValueM QTCORE_QDATETIME] ''setExpirationDate'' [PConv QDateTime] RVoid [OnValue QNetworkCacheMetaData, OnValue QNetworkCookie],
     Bind [TypeM QTNETWORK_QNETWORKREQUEST] ''setHeader'' [PConv ''QNetworkRequest::KnownHeaders'', PVariant] RVoid [OnValue QNetworkProxy, OnValue QNetworkRequest],
     Bind [ValueM QTNETWORK_QHTTPHEADERS] ''setHeaders'' [PConv QHttpHeaders] RVoid [OnValue QNetworkCacheMetaData, OnValue QNetworkProxy, OnValue QNetworkRequest],
     Bind [] ''setHopLimit'' [PInt] RVoid [OnValue QNetworkDatagram]]"

definition vmeth_qtnetwork_2_11 :: "binding list" where
  "vmeth_qtnetwork_2_11 = [
     Bind [] ''setHostName'' [PString True] RVoid [OnValue QNetworkProxy],
     Bind [ValueM ''QTNETWORK_QHTTP1CONFIGURATION''] ''setHttp1Configuration'' [PConv QHttp1Configuration] RVoid [OnValue QNetworkRequest],
     Bind [ValueM ''QTNETWORK_QHTTP2CONFIGURATION''] ''setHttp2Configuration'' [PConv QHttp2Configuration] RVoid [OnValue QNetworkRequest],
     Bind [] ''setHttpOnly'' [PBool] RVoid [OnValue QNetworkCookie],
     Bind [] ''setInterfaceIndex'' [PUInt] RVoid [OnValue QNetworkDatagram],
     Bind [ValueM QTNETWORK_QHOSTADDRESS] ''setIp'' [PConv QHostAddress] RVoid [OnValue QNetworkAddressEntry]]"

definition vmeth_qtnetwork_2_12 :: "binding list" where
  "vmeth_qtnetwork_2_12 = [
     Bind [ValueM QTCORE_QDATETIME] ''setLastModified'' [PConv QDateTime] RVoid [OnValue QNetworkCacheMetaData],
     Bind [] ''setLocalPort'' [PInt] RVoid [OnValue QNetworkProxyQuery],
     Bind [] ''setMaximumRedirectsAllowed'' [PInt] RVoid [OnValue QNetworkRequest],
     Bind [ValueM QTCORE_QBYTEARRAY] ''setName'' [PConv QByteArray] RVoid [OnValue QNetworkCookie],
     Bind [ValueM QTNETWORK_QHOSTADDRESS] ''setNetmask'' [PConv QHostAddress] RVoid [OnValue QNetworkAddressEntry],
     Bind [TypeM QTCORE_QOBJECT] ''setOriginatingObject'' [PNonNull QObject_ptr] RVoid [OnValue QNetworkRequest]]"

definition vmeth_qtnetwork_2_13 :: "binding list" where
  "vmeth_qtnetwork_2_13 = [
     Bind [] ''setPassword'' [PString True] RVoid [OnValue QNetworkProxy],
     Bind [] ''setPath'' [PString True] RVoid [OnValue QNetworkCookie],
     Bind [] ''setPeerHostName'' [PString True] RVoid [OnValue QNetworkProxyQuery],
     Bind [] ''setPeerPort'' [PInt] RVoid [OnValue QNetworkProxyQuery],
     Bind [] ''setPeerVerifyName'' [PString True] RVoid [OnValue QNetworkRequest],
     Bind [] ''setPrefixLength'' [PInt] RVoid [OnValue QNetworkAddressEntry],
     Bind [TypeM QTNETWORK_QNETWORKREQUEST] ''setPriority'' [PConv ''QNetworkRequest::Priority''] RVoid [OnValue QNetworkRequest]]"

definition vmeth_qtnetwork_2_14 :: "binding list" where
  "vmeth_qtnetwork_2_14 = [
     Bind [] ''setProtocolTag'' [PString True] RVoid [OnValue QNetworkProxyQuery],
     Bind [TypeM QTNETWORK_QNETWORKPROXYQUERY] ''setQueryType'' [PConv ''QNetworkProxyQuery::QueryType''] RVoid [OnValue QNetworkProxyQuery],
     Bind [ValueM QTCORE_QBYTEARRAY] ''setRawHeader'' [PConv QByteArray, PConv QByteArray] RVoid [OnValue QNetworkProxy, OnValue QNetworkRequest],
     Bind [TypeM QTNETWORK_QNETWORKCOOKIE] ''setSameSitePolicy'' [PConv ''QNetworkCookie::SameSite''] RVoid [OnValue QNetworkCookie],
     Bind [] ''setSaveToDisk'' [PBool] RVoid [OnValue QNetworkCacheMetaData],
     Bind [] ''setSecure'' [PBool] RVoid [OnValue QNetworkCookie]]"

definition vmeth_qtnetwork_2_15 :: "binding list" where
  "vmeth_qtnetwork_2_15 = [
     Bind [ValueM QTNETWORK_QSSLCONFIGURATION] ''setSslConfiguration'' [PConv QSslConfiguration] RVoid [OnValue QNetworkRequest],
     Bind [] ''setTcpKeepAliveProbeCount'' [PInt] RVoid [OnValue QNetworkRequest],
     Bind [] ''setTransferTimeout'' [PInt] RVoid [OnValue QNetworkRequest],
     Bind [TypeM QTNETWORK_QNETWORKPROXY] ''setType'' [PConv ''QNetworkProxy::ProxyType''] RVoid [OnValue QNetworkProxy],
     Bind [ValueM QTCORE_QURL] ''setUrl'' [PConv QUrl] RVoid [OnValue QNetworkCacheMetaData, OnValue QNetworkProxyQuery, OnValue QNetworkRequest],
     Bind [] ''setUser'' [PString True] RVoid [OnValue QNetworkProxy]]"

definition vmeth_qtnetwork_2_16 :: "binding list" where
  "vmeth_qtnetwork_2_16 = [
     Bind [ValueM QTCORE_QBYTEARRAY] ''setValue'' [PConv QByteArray] RVoid [OnValue QNetworkCookie],
     Bind [ValueM QTNETWORK_QSSLCONFIGURATION] ''sslConfiguration'' [] (RValue QSslConfiguration) [OnValue QNetworkRequest],
     Bind [ValueM ''QTNETWORK_QNETWORKADDRESSENTRY''] ''swap'' [PConv QNetworkAddressEntry] RVoid [OnValue QNetworkAddressEntry],
     Bind [ValueM ''QTNETWORK_QNETWORKCACHEMETADATA''] ''swap'' [PConv QNetworkCacheMetaData] RVoid [OnValue QNetworkCacheMetaData],
     Bind [ValueM QTNETWORK_QNETWORKCOOKIE] ''swap'' [PConv QNetworkCookie] RVoid [OnValue QNetworkCookie],
     Bind [ValueM ''QTNETWORK_QNETWORKDATAGRAM''] ''swap'' [PConv QNetworkDatagram] RVoid [OnValue QNetworkDatagram]]"

definition vmeth_qtnetwork_2_17 :: "binding list" where
  "vmeth_qtnetwork_2_17 = [
     Bind [ValueM QTNETWORK_QNETWORKINTERFACE] ''swap'' [PConv QNetworkInterface] RVoid [OnValue QNetworkInterface],
     Bind [ValueM QTNETWORK_QNETWORKPROXY] ''swap'' [PConv QNetworkProxy] RVoid [OnValue QNetworkProxy],
     Bind [ValueM QTNETWORK_QNETWORKPROXYQUERY] ''swap'' [PConv QNetworkProxyQuery] RVoid [OnValue QNetworkProxyQuery],
     Bind [ValueM QTNETWORK_QNETWORKREQUEST] ''swap'' [PConv QNetworkRequest] RVoid [OnValue QNetworkRequest],
     Bind [] ''tcpKeepAliveProbeCount'' [] RNumber [OnValue QNetworkRequest],
     Bind [TypeM QTNETWORK_QNETWORKCOOKIE, ValueM QTCORE_QBYTEARRAY] ''toRawForm'' [PConv ''QNetworkCookie::RawForm''] (RValue QByteArray) [OnValue QNetworkCookie],
     Bind [] ''transferTimeout'' [] RNumber [OnValue QNetworkRequest]]"

definition vmeth_qtnetwork_2_18 :: "binding list" where
  "vmeth_qtnetwork_2_18 = [
     Bind [TypeM QTNETWORK_QNETWORKINTERFACE] ''type'' [] (RMeta ''QNetworkInterface::InterfaceType'') [OnValue QNetworkInterface],
     Bind [TypeM QTNETWORK_QNETWORKPROXY] ''type'' [] (RMeta ''QNetworkProxy::ProxyType'') [OnValue QNetworkProxy],
     Bind [ValueM QTCORE_QURL] ''url'' [] (RValue QUrl) [OnValue QNetworkCacheMetaData, OnValue QNetworkProxyQuery, OnValue QNetworkRequest],
     Bind [] ''user'' [] RString [OnValue QNetworkProxy],
     Bind [ValueM QTCORE_QDEADLINETIMER] ''validityLifetime'' [] (RValue QDeadlineTimer) [OnValue QNetworkAddressEntry],
     Bind [ValueM QTCORE_QBYTEARRAY] ''value'' [] (RValue QByteArray) [OnValue QNetworkCookie]]"

definition vtypes_qtnetwork_2 :: "string list" where
  "vtypes_qtnetwork_2 = [QNetworkAddressEntry, QNetworkCacheMetaData, QNetworkCookie, QNetworkDatagram, QNetworkInterface, QNetworkProxy,
     QNetworkProxyQuery, QNetworkRequest]"

definition vmeth_qtnetwork_3_0 :: "binding list" where
  "vmeth_qtnetwork_3_0 = [
     Bind [ValueM QTNETWORK_QSSLCERTIFICATE] ''addCaCertificate'' [PConv QSslCertificate] RVoid [OnValue QSslConfiguration],
     Bind [ValueM QTNETWORK_QSSLCERTIFICATE] ''addCaCertificates'' [PListV QSslCertificate] RVoid [OnValue QSslConfiguration],
     Bind [ValueM QTCORE_QBYTEARRAY] ''allowedNextProtocols'' [] (RList (IValue QByteArray)) [OnValue QSslConfiguration],
     Bind [TypeM QTNETWORK_QNETWORKREQUEST] ''attribute'' [PConv ''QNetworkRequest::Attribute''] RVariant [OnValue QNetworkRequestFactory],
     Bind [TypeM QTNETWORK_QNETWORKREQUEST] ''attribute'' [PConv ''QNetworkRequest::Attribute'', PVariant] RVariant [OnValue QNetworkRequestFactory],
     Bind [] ''authenticationMethod'' [] RString [OnValue ''QSslCipher'']]"

definition vmeth_qtnetwork_3_1 :: "binding list" where
  "vmeth_qtnetwork_3_1 = [
     Bind [ValueM QTCORE_QURL] ''baseUrl'' [] (RValue QUrl) [OnValue QNetworkRequestFactory],
     Bind [ValueM QTCORE_QBYTEARRAY] ''bearerToken'' [] (RValue QByteArray) [OnValue QNetworkRequestFactory],
     Bind [ValueM QTNETWORK_QSSLCERTIFICATE] ''caCertificates'' [] (RList (IValue QSslCertificate)) [OnValue QSslConfiguration],
     Bind [ValueM ''QTNETWORK_QSSLCIPHER''] ''ciphers'' [] (RList (IValue ''QSslCipher'')) [OnValue QSslConfiguration],
     Bind [] ''clear'' [] RVoid [OnValue QSslCertificate],
     Bind [TypeM QTNETWORK_QNETWORKREQUEST] ''clearAttribute'' [PConv ''QNetworkRequest::Attribute''] RVoid [OnValue QNetworkRequestFactory]]"

definition vmeth_qtnetwork_3_2 :: "binding list" where
  "vmeth_qtnetwork_3_2 = [
     Bind [] ''clearAttributes'' [] RVoid [OnValue QNetworkRequestFactory],
     Bind [] ''clearBearerToken'' [] RVoid [OnValue QNetworkRequestFactory],
     Bind [] ''clearCommonHeaders'' [] RVoid [OnValue QNetworkRequestFactory],
     Bind [] ''clearPassword'' [] RVoid [OnValue QNetworkRequestFactory],
     Bind [] ''clearQueryParameters'' [] RVoid [OnValue QNetworkRequestFactory],
     Bind [] ''clearUserName'' [] RVoid [OnValue QNetworkRequestFactory],
     Bind [ValueM QTNETWORK_QHTTPHEADERS] ''commonHeaders'' [] (RValue QHttpHeaders) [OnValue QNetworkRequestFactory],
     Bind [ValueM QTNETWORK_QNETWORKREQUEST] ''createRequest'' [] (RValue QNetworkRequest) [OnValue QNetworkRequestFactory]]"

definition vmeth_qtnetwork_3_3 :: "binding list" where
  "vmeth_qtnetwork_3_3 = [
     Bind [ValueM QTNETWORK_QNETWORKREQUEST] ''createRequest'' [PString True] (RValue QNetworkRequest) [OnValue QNetworkRequestFactory],
     Bind [ValueM ''QTCORE_QURLQUERY'', ValueM QTNETWORK_QNETWORKREQUEST] ''createRequest'' [PString True, PConv ''QUrlQuery''] (RValue QNetworkRequest) [OnValue QNetworkRequestFactory],
     Bind [ValueM ''QTCORE_QURLQUERY'', ValueM QTNETWORK_QNETWORKREQUEST] ''createRequest'' [PConv ''QUrlQuery''] (RValue QNetworkRequest) [OnValue QNetworkRequestFactory],
     Bind [ValueM ''QTNETWORK_QSSLDIFFIEHELLMANPARAMETERS''] ''diffieHellmanParameters'' [] (RValue QSslDiffieHellmanParameters) [OnValue QSslConfiguration],
     Bind [TypeM ''QTCORE_QCRYPTOGRAPHICHASH'', ValueM QTCORE_QBYTEARRAY] ''digest'' [PConv ''QCryptographicHash::Algorithm''] (RValue QByteArray) [OnValue QSslCertificate],
     Bind [] ''dtlsCookieVerificationEnabled'' [] RBool [OnValue QSslConfiguration]]"

definition vmeth_qtnetwork_3_4 :: "binding list" where
  "vmeth_qtnetwork_3_4 = [
     Bind [ValueM QTCORE_QDATETIME] ''effectiveDate'' [] (RValue QDateTime) [OnValue QSslCertificate],
     Bind [ValueM ''QTNETWORK_QSSLELLIPTICCURVE''] ''ellipticCurves'' [] (RList (IValue QSslEllipticCurve)) [OnValue QSslConfiguration],
     Bind [] ''encryptionMethod'' [] RString [OnValue ''QSslCipher''],
     Bind [ValueM ''QTNETWORK_QSSLKEY''] ''ephemeralServerKey'' [] (RValue ''QSslKey'') [OnValue QSslConfiguration],
     Bind [TypeM QTNETWORK_QNETWORKREPLY] ''error'' [] (RMeta ''QNetworkReply::NetworkError'') [OnValue ''QRestReply''],
     Bind [TypeM ''QTNETWORK_QSSLDIFFIEHELLMANPARAMETERS''] ''error'' [] (RMeta ''QSslDiffieHellmanParameters::Error'') [OnValue QSslDiffieHellmanParameters],
     Bind [] ''errorString'' [] RString [OnValue ''QRestReply'', OnValue QSslDiffieHellmanParameters]]"

definition vmeth_qtnetwork_3_5 :: "binding list" where
  "vmeth_qtnetwork_3_5 = [
     Bind [ValueM QTCORE_QDATETIME] ''expiryDate'' [] (RValue QDateTime) [OnValue QSslCertificate],
     Bind [ValueM ''QTNETWORK_QSSLCERTIFICATEEXTENSION''] ''extensions'' [] (RList (IValue QSslCertificateExtension)) [OnValue QSslCertificate],
     Bind [] ''handshakeMustInterruptOnError'' [] RBool [OnValue QSslConfiguration],
     Bind [] ''hasError'' [] RBool [OnValue ''QRestReply''],
     Bind [] ''httpStatus'' [] RNumber [OnValue ''QRestReply''],
     Bind [] ''isBlacklisted'' [] RBool [OnValue QSslCertificate],
     Bind [] ''isCritical'' [] RBool [OnValue QSslCertificateExtension],
     Bind [] ''isEmpty'' [] RBool [OnValue QSslDiffieHellmanParameters]]"

definition vmeth_qtnetwork_3_6 :: "binding list" where
  "vmeth_qtnetwork_3_6 = [
     Bind [] ''isHttpStatusSuccess'' [] RBool [OnValue ''QRestReply''],
     Bind [] ''isNull'' [] RBool [OnValue QSslCertificate, OnValue ''QSslCipher'', OnValue QSslConfiguration],
     Bind [] ''isSelfSigned'' [] RBool [OnValue QSslCertificate],
     Bind [] ''isSuccess'' [] RBool [OnValue ''QRestReply''],
     Bind [] ''isSupported'' [] RBool [OnValue QSslCertificateExtension],
     Bind [] ''isValid'' [] RBool [OnValue QSslDiffieHellmanParameters],
     Bind [] ''issuerDisplayName'' [] RString [OnValue QSslCertificate]]"

definition vmeth_qtnetwork_3_7 :: "binding list" where
  "vmeth_qtnetwork_3_7 = [
     Bind [ValueM QTCORE_QBYTEARRAY] ''issuerInfo'' [PConv QByteArray] (RList (IMeta QString)) [OnValue QSslCertificate],
     Bind [TypeM QTNETWORK_QSSLCERTIFICATE] ''issuerInfo'' [PConv ''QSslCertificate::SubjectInfo''] (RList (IMeta QString)) [OnValue QSslCertificate],
     Bind [ValueM QTCORE_QBYTEARRAY] ''issuerInfoAttributes'' [] (RList (IValue QByteArray)) [OnValue QSslCertificate],
     Bind [] ''keyExchangeMethod'' [] RString [OnValue ''QSslCipher''],
     Bind [ValueM QTNETWORK_QSSLCERTIFICATE] ''localCertificate'' [] (RValue QSslCertificate) [OnValue QSslConfiguration],
     Bind [ValueM QTNETWORK_QSSLCERTIFICATE] ''localCertificateChain'' [] (RList (IValue QSslCertificate)) [OnValue QSslConfiguration]]"

definition vmeth_qtnetwork_3_8 :: "binding list" where
  "vmeth_qtnetwork_3_8 = [
     Bind [] ''missingCertificateIsFatal'' [] RBool [OnValue QSslConfiguration],
     Bind [] ''name'' [] RString [OnValue QSslCertificateExtension, OnValue ''QSslCipher''],
     Bind [TypeM QTNETWORK_QNETWORKREPLY] ''networkReply'' [] RObject [OnValue ''QRestReply''],
     Bind [ValueM QTCORE_QBYTEARRAY] ''nextNegotiatedProtocol'' [] (RValue QByteArray) [OnValue QSslConfiguration],
     Bind [TypeM QTNETWORK_QSSLCONFIGURATION] ''nextProtocolNegotiationStatus'' [] (RMeta ''QSslConfiguration::NextProtocolNegotiationStatus'') [OnValue QSslConfiguration],
     Bind [] ''ocspStaplingEnabled'' [] RBool [OnValue QSslConfiguration],
     Bind [] ''oid'' [] RString [OnValue QSslCertificateExtension]]"

definition vmeth_qtnetwork_3_9 :: "binding list" where
  "vmeth_qtnetwork_3_9 = [
     Bind [] ''password'' [] RString [OnValue QNetworkRequestFactory],
     Bind [ValueM QTNETWORK_QSSLCERTIFICATE] ''peerCertificate'' [] (RValue QSslCertificate) [OnValue QSslConfiguration],
     Bind [ValueM QTNETWORK_QSSLCERTIFICATE] ''peerCertificateChain'' [] (RList (IValue QSslCertificate)) [OnValue QSslConfiguration],
     Bind [] ''peerVerifyDepth'' [] RNumber [OnValue QSslConfiguration],
     Bind [TypeM ''QTNETWORK_QSSLSOCKET''] ''peerVerifyMode'' [] (RMeta ''QSslSocket::PeerVerifyMode'') [OnValue QSslConfiguration],
     Bind [ValueM QTCORE_QBYTEARRAY] ''preSharedKeyIdentityHint'' [] (RValue QByteArray) [OnValue QSslConfiguration],
     Bind [TypeM QTNETWORK_QNETWORKREQUEST] ''priority'' [] (RMeta ''QNetworkRequest::Priority'') [OnValue QNetworkRequestFactory]]"

definition vmeth_qtnetwork_3_10 :: "binding list" where
  "vmeth_qtnetwork_3_10 = [
     Bind [ValueM ''QTNETWORK_QSSLKEY''] ''privateKey'' [] (RValue ''QSslKey'') [OnValue QSslConfiguration],
     Bind [] ''protocolString'' [] RString [OnValue ''QSslCipher''],
     Bind [ValueM ''QTNETWORK_QSSLKEY''] ''publicKey'' [] (RValue ''QSslKey'') [OnValue QSslCertificate],
     Bind [ValueM ''QTCORE_QURLQUERY''] ''queryParameters'' [] (RValue ''QUrlQuery'') [OnValue QNetworkRequestFactory],
     Bind [ValueM QTCORE_QBYTEARRAY] ''readBody'' [] (RValue QByteArray) [OnValue ''QRestReply''],
     Bind [] ''readText'' [] RString [OnValue ''QRestReply''],
     Bind [ValueM QTNETWORK_QSSLCERTIFICATE] ''responder'' [] (RValue QSslCertificate) [OnValue ''QOcspResponse'']]"

definition vmeth_qtnetwork_3_11 :: "binding list" where
  "vmeth_qtnetwork_3_11 = [
     Bind [ValueM QTCORE_QBYTEARRAY] ''serialNumber'' [] (RValue QByteArray) [OnValue QSslCertificate],
     Bind [ValueM ''QTNETWORK_QSSLCIPHER''] ''sessionCipher'' [] (RValue ''QSslCipher'') [OnValue QSslConfiguration],
     Bind [ValueM QTCORE_QBYTEARRAY] ''sessionTicket'' [] (RValue QByteArray) [OnValue QSslConfiguration],
     Bind [] ''sessionTicketLifeTimeHint'' [] RNumber [OnValue QSslConfiguration],
     Bind [ValueM QTCORE_QBYTEARRAY] ''setAllowedNextProtocols'' [PListV QByteArray] RVoid [OnValue QSslConfiguration],
     Bind [TypeM QTNETWORK_QNETWORKREQUEST] ''setAttribute'' [PConv ''QNetworkRequest::Attribute'', PVariant] RVoid [OnValue QNetworkRequestFactory]]"

definition vmeth_qtnetwork_3_12 :: "binding list" where
  "vmeth_qtnetwork_3_12 = [
     Bind [ValueM QTCORE_QBYTEARRAY] ''setBackendConfigurationOption'' [PConv QByteArray, PVariant] RVoid [OnValue QSslConfiguration],
     Bind [ValueM QTCORE_QURL] ''setBaseUrl'' [PConv QUrl] RVoid [OnValue QNetworkRequestFactory],
     Bind [ValueM QTCORE_QBYTEARRAY] ''setBearerToken'' [PConv QByteArray] RVoid [OnValue QNetworkRequestFactory],
     Bind [ValueM QTNETWORK_QSSLCERTIFICATE] ''setCaCertificates'' [PListV QSslCertificate] RVoid [OnValue QSslConfiguration],
     Bind [ValueM ''QTNETWORK_QSSLCIPHER''] ''setCiphers'' [PListV ''QSslCipher''] RVoid [OnValue QSslConfiguration],
     Bind [] ''setCiphers'' [PString True] RVoid [OnValue QSslConfiguration]]"

definition vmeth_qtnetwork_3_13 :: "binding list" where
  "vmeth_qtnetwork_3_13 = [
     Bind [ValueM QTNETWORK_QHTTPHEADERS] ''setCommonHeaders'' [PConv QHttpHeaders] RVoid [OnValue QNetworkRequestFactory],
     Bind [ValueM ''QTNETWORK_QSSLDIFFIEHELLMANPARAMETERS''] ''setDiffieHellmanParameters'' [PConv QSslDiffieHellmanParameters] RVoid [OnValue QSslConfiguration],
     Bind [] ''setDtlsCookieVerificationEnabled'' [PBool] RVoid [OnValue QSslConfiguration],
     Bind [ValueM ''QTNETWORK_QSSLELLIPTICCURVE''] ''setEllipticCurves'' [PListV QSslEllipticCurve] RVoid [OnValue QSslConfiguration],
     Bind [] ''setHandshakeMustInterruptOnError'' [PBool] RVoid [OnValue QSslConfiguration],
     Bind [ValueM QTNETWORK_QSSLCERTIFICATE] ''setLocalCertificate'' [PConv QSslCertificate] RVoid [OnValue QSslConfiguration]]"

definition vmeth_qtnetwork_3_14 :: "binding list" where
  "vmeth_qtnetwork_3_14 = [
     Bind [ValueM QTNETWORK_QSSLCERTIFICATE] ''setLocalCertificateChain'' [PListV QSslCertificate] RVoid [OnValue QSslConfiguration],
     Bind [] ''setMissingCertificateIsFatal'' [PBool] RVoid [OnValue QSslConfiguration],
     Bind [] ''setOcspStaplingEnabled'' [PBool] RVoid [OnValue QSslConfiguration],
     Bind [] ''setPassword'' [PString True] RVoid [OnValue QNetworkRequestFactory],
     Bind [] ''setPeerVerifyDepth'' [PInt] RVoid [OnValue QSslConfiguration],
     Bind [TypeM ''QTNETWORK_QSSLSOCKET''] ''setPeerVerifyMode'' [PConv ''QSslSocket::PeerVerifyMode''] RVoid [OnValue QSslConfiguration]]"

definition vmeth_qtnetwork_3_15 :: "binding list" where
  "vmeth_qtnetwork_3_15 = [
     Bind [ValueM QTCORE_QBYTEARRAY] ''setPreSharedKeyIdentityHint'' [PConv QByteArray] RVoid [OnValue QSslConfiguration],
     Bind [TypeM QTNETWORK_QNETWORKREQUEST] ''setPriority'' [PConv ''QNetworkRequest::Priority''] RVoid [OnValue QNetworkRequestFactory],
     Bind [ValueM ''QTNETWORK_QSSLKEY''] ''setPrivateKey'' [PConv ''QSslKey''] RVoid [OnValue QSslConfiguration],
     Bind [ValueM ''QTCORE_QURLQUERY''] ''setQueryParameters'' [PConv ''QUrlQuery''] RVoid [OnValue QNetworkRequestFactory],
     Bind [ValueM QTCORE_QBYTEARRAY] ''setSessionTicket'' [PConv QByteArray] RVoid [OnValue QSslConfiguration],
     Bind [ValueM QTNETWORK_QSSLCONFIGURATION] ''setSslConfiguration'' [PConv QSslConfiguration] RVoid [OnValue QNetworkRequestFactory]]"

definition vmeth_qtnetwork_3_16 :: "binding list" where
  "vmeth_qtnetwork_3_16 = [
     Bind [] ''setUserName'' [PString True] RVoid [OnValue QNetworkRequestFactory],
     Bind [ValueM QTNETWORK_QSSLCONFIGURATION] ''sslConfiguration'' [] (RValue QSslConfiguration) [OnValue QNetworkRequestFactory],
     Bind [ValueM QTNETWORK_QSSLCERTIFICATE] ''subject'' [] (RValue QSslCertificate) [OnValue ''QOcspResponse''],
     Bind [] ''subjectDisplayName'' [] RString [OnValue QSslCertificate],
     Bind [ValueM QTCORE_QBYTEARRAY] ''subjectInfo'' [PConv QByteArray] (RList (IMeta QString)) [OnValue QSslCertificate],
     Bind [TypeM QTNETWORK_QSSLCERTIFICATE] ''subjectInfo'' [PConv ''QSslCertificate::SubjectInfo''] (RList (IMeta QString)) [OnValue QSslCertificate]]"

definition vmeth_qtnetwork_3_17 :: "binding list" where
  "vmeth_qtnetwork_3_17 = [
     Bind [ValueM QTCORE_QBYTEARRAY] ''subjectInfoAttributes'' [] (RList (IValue QByteArray)) [OnValue QSslCertificate],
     Bind [] ''supportedBits'' [] RNumber [OnValue ''QSslCipher''],
     Bind [ValueM ''QTNETWORK_QNETWORKREQUESTFACTORY''] ''swap'' [PConv QNetworkRequestFactory] RVoid [OnValue QNetworkRequestFactory],
     Bind [ValueM ''QTNETWORK_QOCSPRESPONSE''] ''swap'' [PConv ''QOcspResponse''] RVoid [OnValue ''QOcspResponse''],
     Bind [ValueM ''QTNETWORK_QRESTREPLY''] ''swap'' [PConv ''QRestReply''] RVoid [OnValue ''QRestReply''],
     Bind [ValueM QTNETWORK_QSSLCERTIFICATE] ''swap'' [PConv QSslCertificate] RVoid [OnValue QSslCertificate]]"

definition vmeth_qtnetwork_3_18 :: "binding list" where
  "vmeth_qtnetwork_3_18 = [
     Bind [ValueM ''QTNETWORK_QSSLCERTIFICATEEXTENSION''] ''swap'' [PConv QSslCertificateExtension] RVoid [OnValue QSslCertificateExtension],
     Bind [ValueM ''QTNETWORK_QSSLCIPHER''] ''swap'' [PConv ''QSslCipher''] RVoid [OnValue ''QSslCipher''],
     Bind [ValueM QTNETWORK_QSSLCONFIGURATION] ''swap'' [PConv QSslConfiguration] RVoid [OnValue QSslConfiguration],
     Bind [ValueM ''QTNETWORK_QSSLDIFFIEHELLMANPARAMETERS''] ''swap'' [PConv QSslDiffieHellmanParameters] RVoid [OnValue QSslDiffieHellmanParameters],
     Bind [ValueM QTCORE_QBYTEARRAY] ''toDer'' [] (RValue QByteArray) [OnValue QSslCertificate],
     Bind [ValueM QTCORE_QBYTEARRAY] ''toPem'' [] (RValue QByteArray) [OnValue QSslCertificate]]"

definition vmeth_qtnetwork_3_19 :: "binding list" where
  "vmeth_qtnetwork_3_19 = [
     Bind [] ''toText'' [] RString [OnValue QSslCertificate],
     Bind [] ''usedBits'' [] RNumber [OnValue ''QSslCipher''],
     Bind [] ''userName'' [] RString [OnValue QNetworkRequestFactory],
     Bind [] ''value'' [] RVariant [OnValue QSslCertificateExtension],
     Bind [ValueM QTCORE_QBYTEARRAY] ''version'' [] (RValue QByteArray) [OnValue QSslCertificate]]"

definition vtypes_qtnetwork_3 :: "string list" where
  "vtypes_qtnetwork_3 = [QNetworkRequestFactory, ''QOcspResponse'', ''QRestReply'', QSslCertificate, QSslCertificateExtension, ''QSslCipher'',
     QSslConfiguration, QSslDiffieHellmanParameters]"

definition vmeth_qtnetwork_4_0 :: "binding list" where
  "vmeth_qtnetwork_4_0 = [
     Bind [ValueM QTNETWORK_QSSLCERTIFICATE] ''certificate'' [] (RValue QSslCertificate) [OnValue ''QSslError''],
     Bind [] ''clear'' [] RVoid [OnValue ''QSslKey''],
     Bind [TypeM ''QTNETWORK_QSSLERROR''] ''error'' [] (RMeta ''QSslError::SslError'') [OnValue ''QSslError''],
     Bind [] ''errorString'' [] RString [OnValue ''QSslError''],
     Bind [ValueM QTCORE_QBYTEARRAY] ''identity'' [] (RValue QByteArray) [OnValue QSslPreSharedKeyAuthenticator],
     Bind [ValueM QTCORE_QBYTEARRAY] ''identityHint'' [] (RValue QByteArray) [OnValue QSslPreSharedKeyAuthenticator],
     Bind [] ''isNull'' [] RBool [OnValue ''QSslKey'']]"

definition vmeth_qtnetwork_4_1 :: "binding list" where
  "vmeth_qtnetwork_4_1 = [
     Bind [] ''isTlsNamedCurve'' [] RBool [OnValue QSslEllipticCurve],
     Bind [] ''isValid'' [] RBool [OnValue QSslEllipticCurve],
     Bind [] ''length'' [] RNumber [OnValue ''QSslKey''],
     Bind [] ''longName'' [] RString [OnValue QSslEllipticCurve],
     Bind [] ''maximumIdentityLength'' [] RNumber [OnValue QSslPreSharedKeyAuthenticator],
     Bind [] ''maximumPreSharedKeyLength'' [] RNumber [OnValue QSslPreSharedKeyAuthenticator],
     Bind [ValueM QTCORE_QBYTEARRAY] ''preSharedKey'' [] (RValue QByteArray) [OnValue QSslPreSharedKeyAuthenticator],
     Bind [ValueM QTCORE_QBYTEARRAY] ''setIdentity'' [PConv QByteArray] RVoid [OnValue QSslPreSharedKeyAuthenticator]]"

definition vmeth_qtnetwork_4_2 :: "binding list" where
  "vmeth_qtnetwork_4_2 = [
     Bind [ValueM QTCORE_QBYTEARRAY] ''setPreSharedKey'' [PConv QByteArray] RVoid [OnValue QSslPreSharedKeyAuthenticator],
     Bind [] ''shortName'' [] RString [OnValue QSslEllipticCurve],
     Bind [ValueM ''QTNETWORK_QSSLERROR''] ''swap'' [PConv ''QSslError''] RVoid [OnValue ''QSslError''],
     Bind [ValueM ''QTNETWORK_QSSLKEY''] ''swap'' [PConv ''QSslKey''] RVoid [OnValue ''QSslKey''],
     Bind [ValueM ''QTNETWORK_QSSLPRESHAREDKEYAUTHENTICATOR''] ''swap'' [PConv QSslPreSharedKeyAuthenticator] RVoid [OnValue QSslPreSharedKeyAuthenticator],
     Bind [ValueM QTCORE_QBYTEARRAY] ''toDer'' [PConv QByteArray] (RValue QByteArray) [OnValue ''QSslKey'']]"

definition vmeth_qtnetwork_4_3 :: "binding list" where
  "vmeth_qtnetwork_4_3 = [
     Bind [ValueM QTCORE_QBYTEARRAY] ''toPem'' [PConv QByteArray] (RValue QByteArray) [OnValue ''QSslKey'']]"

definition vtypes_qtnetwork_4 :: "string list" where
  "vtypes_qtnetwork_4 = [QSslEllipticCurve, ''QSslError'', ''QSslKey'', QSslPreSharedKeyAuthenticator]"

definition vmeth_table_network_a :: "(string \<times> shard) list" where
  "vmeth_table_network_a = [
     (''qtnetwork_0'', \<lparr>sh_module = ''QtNetwork'', sh_slug = ''QTNETWORK'',
        sh_bindings = concat [vmeth_qtnetwork_0_0, vmeth_qtnetwork_0_1, vmeth_qtnetwork_0_2, vmeth_qtnetwork_0_3, vmeth_qtnetwork_0_4]\<rparr>),
     (''qtnetwork_1'', \<lparr>sh_module = ''QtNetwork'', sh_slug = ''QTNETWORK'',
        sh_bindings = concat [vmeth_qtnetwork_1_0, vmeth_qtnetwork_1_1, vmeth_qtnetwork_1_2, vmeth_qtnetwork_1_3, vmeth_qtnetwork_1_4, vmeth_qtnetwork_1_5, vmeth_qtnetwork_1_6, vmeth_qtnetwork_1_7, vmeth_qtnetwork_1_8, vmeth_qtnetwork_1_9, vmeth_qtnetwork_1_10]\<rparr>),
     (''qtnetwork_2'', \<lparr>sh_module = ''QtNetwork'', sh_slug = ''QTNETWORK'',
        sh_bindings = concat [vmeth_qtnetwork_2_0, vmeth_qtnetwork_2_1, vmeth_qtnetwork_2_2, vmeth_qtnetwork_2_3, vmeth_qtnetwork_2_4, vmeth_qtnetwork_2_5, vmeth_qtnetwork_2_6, vmeth_qtnetwork_2_7, vmeth_qtnetwork_2_8, vmeth_qtnetwork_2_9, vmeth_qtnetwork_2_10, vmeth_qtnetwork_2_11, vmeth_qtnetwork_2_12, vmeth_qtnetwork_2_13, vmeth_qtnetwork_2_14, vmeth_qtnetwork_2_15, vmeth_qtnetwork_2_16, vmeth_qtnetwork_2_17, vmeth_qtnetwork_2_18]\<rparr>),
     (''qtnetwork_3'', \<lparr>sh_module = ''QtNetwork'', sh_slug = ''QTNETWORK'',
        sh_bindings = concat [vmeth_qtnetwork_3_0, vmeth_qtnetwork_3_1, vmeth_qtnetwork_3_2, vmeth_qtnetwork_3_3, vmeth_qtnetwork_3_4, vmeth_qtnetwork_3_5, vmeth_qtnetwork_3_6, vmeth_qtnetwork_3_7, vmeth_qtnetwork_3_8, vmeth_qtnetwork_3_9, vmeth_qtnetwork_3_10, vmeth_qtnetwork_3_11, vmeth_qtnetwork_3_12, vmeth_qtnetwork_3_13, vmeth_qtnetwork_3_14, vmeth_qtnetwork_3_15, vmeth_qtnetwork_3_16, vmeth_qtnetwork_3_17, vmeth_qtnetwork_3_18, vmeth_qtnetwork_3_19]\<rparr>),
     (''qtnetwork_4'', \<lparr>sh_module = ''QtNetwork'', sh_slug = ''QTNETWORK'',
        sh_bindings = concat [vmeth_qtnetwork_4_0, vmeth_qtnetwork_4_1, vmeth_qtnetwork_4_2, vmeth_qtnetwork_4_3]\<rparr>)]"

lemmas vmeth_table_network_a_defs =
  vmeth_qtnetwork_0_0_def vmeth_qtnetwork_0_1_def vmeth_qtnetwork_0_2_def vmeth_qtnetwork_0_3_def
  vmeth_qtnetwork_0_4_def vmeth_qtnetwork_1_0_def vmeth_qtnetwork_1_1_def vmeth_qtnetwork_1_2_def
  vmeth_qtnetwork_1_3_def vmeth_qtnetwork_1_4_def vmeth_qtnetwork_1_5_def vmeth_qtnetwork_1_6_def
  vmeth_qtnetwork_1_7_def vmeth_qtnetwork_1_8_def vmeth_qtnetwork_1_9_def vmeth_qtnetwork_1_10_def
  vmeth_qtnetwork_2_0_def vmeth_qtnetwork_2_1_def vmeth_qtnetwork_2_2_def vmeth_qtnetwork_2_3_def
  vmeth_qtnetwork_2_4_def vmeth_qtnetwork_2_5_def vmeth_qtnetwork_2_6_def vmeth_qtnetwork_2_7_def
  vmeth_qtnetwork_2_8_def vmeth_qtnetwork_2_9_def vmeth_qtnetwork_2_10_def vmeth_qtnetwork_2_11_def
  vmeth_qtnetwork_2_12_def vmeth_qtnetwork_2_13_def vmeth_qtnetwork_2_14_def vmeth_qtnetwork_2_15_def
  vmeth_qtnetwork_2_16_def vmeth_qtnetwork_2_17_def vmeth_qtnetwork_2_18_def vmeth_qtnetwork_3_0_def
  vmeth_qtnetwork_3_1_def vmeth_qtnetwork_3_2_def vmeth_qtnetwork_3_3_def vmeth_qtnetwork_3_4_def
  vmeth_qtnetwork_3_5_def vmeth_qtnetwork_3_6_def vmeth_qtnetwork_3_7_def vmeth_qtnetwork_3_8_def
  vmeth_qtnetwork_3_9_def vmeth_qtnetwork_3_10_def vmeth_qtnetwork_3_11_def vmeth_qtnetwork_3_12_def
  vmeth_qtnetwork_3_13_def vmeth_qtnetwork_3_14_def vmeth_qtnetwork_3_15_def vmeth_qtnetwork_3_16_def
  vmeth_qtnetwork_3_17_def vmeth_qtnetwork_3_18_def vmeth_qtnetwork_3_19_def vmeth_qtnetwork_4_0_def
  vmeth_qtnetwork_4_1_def vmeth_qtnetwork_4_2_def vmeth_qtnetwork_4_3_def

lemma vmeth_table_network_a_value_blocks: "list_all (\<lambda>(s, sh). value_blocks sh) vmeth_table_network_a"
  by (simp add: vmeth_table_network_a_def vmeth_table_network_a_defs value_blocks_def value_shard_def; (simp add: parameter_text_def qt_name_defs)?)

end
