(* ===== verification/Value_Methods_Rest_B.thy ===== *)
theory Value_Methods_Rest_B
  imports Shard_Methods Qt_Names
begin

text \<open>
  Tables of the value method shards (generated\_value\_methods): the blocks of every shard in the file's order, and the
  classes it can store by value.
\<close>

definition vmeth_qtopengl_1_0 :: "binding list" where
  "vmeth_qtopengl_1_0 = [
     Bind [] ''alignment'' [] RNumber [OnValue QOpenGLPixelTransferOptions],
     Bind [] ''allocateStorage'' [] RVoid [OnValue QOpenGLTexture],
     Bind [TypeM QTOPENGL_QOPENGLTEXTURE] ''allocateStorage'' [PConv ''QOpenGLTexture::PixelFormat'', PConv ''QOpenGLTexture::PixelType''] RVoid [OnValue QOpenGLTexture],
     Bind [] ''bind'' [] RVoid [OnValue QOpenGLTexture],
     Bind [TypeM QTOPENGL_QOPENGLTEXTURE] ''bind'' [PUInt, PConv ''QOpenGLTexture::TextureUnitReset''] RVoid [OnValue QOpenGLTexture],
     Bind [ValueM QTGUI_QCOLOR] ''borderColor'' [] (RValue QColor) [OnValue QOpenGLTexture],
     Bind [TypeM QTOPENGL_QOPENGLTEXTURE] ''comparisonFunction'' [] (RMeta ''QOpenGLTexture::ComparisonFunction'') [OnValue QOpenGLTexture]]"

definition vmeth_qtopengl_1_1 :: "binding list" where
  "vmeth_qtopengl_1_1 = [
     Bind [TypeM QTOPENGL_QOPENGLTEXTURE] ''comparisonMode'' [] (RMeta ''QOpenGLTexture::ComparisonMode'') [OnValue QOpenGLTexture],
     Bind [] ''create'' [] RBool [OnValue QOpenGLTexture, OnValue QOpenGLTextureBlitter],
     Bind [] ''depth'' [] RNumber [OnValue QOpenGLTexture],
     Bind [TypeM QTOPENGL_QOPENGLTEXTURE] ''depthStencilMode'' [] (RMeta ''QOpenGLTexture::DepthStencilMode'') [OnValue QOpenGLTexture],
     Bind [] ''destroy'' [] RVoid [OnValue QOpenGLTexture, OnValue QOpenGLTextureBlitter],
     Bind [] ''faces'' [] RNumber [OnValue QOpenGLTexture],
     Bind [TypeM QTOPENGL_QOPENGLTEXTURE] ''format'' [] (RMeta ''QOpenGLTexture::TextureFormat'') [OnValue QOpenGLTexture]]"

definition vmeth_qtopengl_1_2 :: "binding list" where
  "vmeth_qtopengl_1_2 = [
     Bind [] ''generateMipMaps'' [] RVoid [OnValue QOpenGLTexture],
     Bind [] ''generateMipMaps'' [PInt, PBool] RVoid [OnValue QOpenGLTexture],
     Bind [] ''hasProfiles'' [] RBool [OnValue QOpenGLVersionProfile],
     Bind [] ''height'' [] RNumber [OnValue QOpenGLTexture],
     Bind [] ''imageHeight'' [] RNumber [OnValue QOpenGLPixelTransferOptions],
     Bind [] ''isAutoMipMapGenerationEnabled'' [] RBool [OnValue QOpenGLTexture],
     Bind [] ''isBound'' [] RBool [OnValue QOpenGLTexture],
     Bind [] ''isBound'' [PUInt] RBool [OnValue QOpenGLTexture]]"

definition vmeth_qtopengl_1_3 :: "binding list" where
  "vmeth_qtopengl_1_3 = [
     Bind [] ''isCreated'' [] RBool [OnValue QOpenGLTexture, OnValue QOpenGLTextureBlitter],
     Bind [] ''isFixedSamplePositions'' [] RBool [OnValue QOpenGLTexture],
     Bind [] ''isLeastSignificantBitFirst'' [] RBool [OnValue QOpenGLPixelTransferOptions],
     Bind [] ''isLegacyVersion'' [] RBool [OnValue QOpenGLVersionProfile],
     Bind [] ''isStorageAllocated'' [] RBool [OnValue QOpenGLTexture],
     Bind [] ''isSwapBytesEnabled'' [] RBool [OnValue QOpenGLPixelTransferOptions],
     Bind [] ''isTextureView'' [] RBool [OnValue QOpenGLTexture],
     Bind [] ''isValid'' [] RBool [OnValue QOpenGLVersionProfile]]"

definition vmeth_qtopengl_1_4 :: "binding list" where
  "vmeth_qtopengl_1_4 = [
     Bind [] ''layers'' [] RNumber [OnValue QOpenGLTexture],
     Bind [] ''levelofDetailBias'' [] RNumber [OnValue QOpenGLTexture],
     Bind [TypeM QTOPENGL_QOPENGLTEXTURE] ''magnificationFilter'' [] (RMeta ''QOpenGLTexture::Filter'') [OnValue QOpenGLTexture],
     Bind [] ''maximumAnisotropy'' [] RNumber [OnValue QOpenGLTexture],
     Bind [] ''maximumLevelOfDetail'' [] RNumber [OnValue QOpenGLTexture],
     Bind [] ''maximumMipLevels'' [] RNumber [OnValue QOpenGLTexture],
     Bind [TypeM QTOPENGL_QOPENGLTEXTURE] ''minificationFilter'' [] (RMeta ''QOpenGLTexture::Filter'') [OnValue QOpenGLTexture],
     Bind [] ''minimumLevelOfDetail'' [] RNumber [OnValue QOpenGLTexture]]"

definition vmeth_qtopengl_1_5 :: "binding list" where
  "vmeth_qtopengl_1_5 = [
     Bind [] ''mipBaseLevel'' [] RNumber [OnValue QOpenGLTexture],
     Bind [] ''mipLevels'' [] RNumber [OnValue QOpenGLTexture],
     Bind [] ''mipMaxLevel'' [] RNumber [OnValue QOpenGLTexture],
     Bind [TypeM QTGUI_QSURFACEFORMAT] ''profile'' [] (RMeta ''QSurfaceFormat::OpenGLContextProfile'') [OnValue QOpenGLVersionProfile],
     Bind [] ''release'' [] RVoid [OnValue QOpenGLTexture, OnValue QOpenGLTextureBlitter],
     Bind [TypeM QTOPENGL_QOPENGLTEXTURE] ''release'' [PUInt, PConv ''QOpenGLTexture::TextureUnitReset''] RVoid [OnValue QOpenGLTexture],
     Bind [] ''rowLength'' [] RNumber [OnValue QOpenGLPixelTransferOptions]]"

definition vmeth_qtopengl_1_6 :: "binding list" where
  "vmeth_qtopengl_1_6 = [
     Bind [] ''samples'' [] RNumber [OnValue QOpenGLTexture],
     Bind [] ''setAlignment'' [PInt] RVoid [OnValue QOpenGLPixelTransferOptions],
     Bind [] ''setAutoMipMapGenerationEnabled'' [PBool] RVoid [OnValue QOpenGLTexture],
     Bind [ValueM QTGUI_QCOLOR] ''setBorderColor'' [PConv QColor] RVoid [OnValue QOpenGLTexture],
     Bind [TypeM QTOPENGL_QOPENGLTEXTURE] ''setComparisonFunction'' [PConv ''QOpenGLTexture::ComparisonFunction''] RVoid [OnValue QOpenGLTexture],
     Bind [TypeM QTOPENGL_QOPENGLTEXTURE] ''setComparisonMode'' [PConv ''QOpenGLTexture::ComparisonMode''] RVoid [OnValue QOpenGLTexture]]"

definition vmeth_qtopengl_1_7 :: "binding list" where
  "vmeth_qtopengl_1_7 = [
     Bind [TypeM QTOPENGL_QOPENGLTEXTURE, ValueM QTGUI_QIMAGE] ''setData'' [PConv QImage, PConv ''QOpenGLTexture::MipMapGeneration''] RVoid [OnValue QOpenGLTexture],
     Bind [TypeM QTOPENGL_QOPENGLTEXTURE] ''setDepthStencilMode'' [PConv ''QOpenGLTexture::DepthStencilMode''] RVoid [OnValue QOpenGLTexture],
     Bind [] ''setFixedSamplePositions'' [PBool] RVoid [OnValue QOpenGLTexture],
     Bind [TypeM QTOPENGL_QOPENGLTEXTURE] ''setFormat'' [PConv ''QOpenGLTexture::TextureFormat''] RVoid [OnValue QOpenGLTexture],
     Bind [] ''setImageHeight'' [PInt] RVoid [OnValue QOpenGLPixelTransferOptions],
     Bind [] ''setLayers'' [PInt] RVoid [OnValue QOpenGLTexture]]"

definition vmeth_qtopengl_1_8 :: "binding list" where
  "vmeth_qtopengl_1_8 = [
     Bind [] ''setLeastSignificantByteFirst'' [PBool] RVoid [OnValue QOpenGLPixelTransferOptions],
     Bind [] ''setLevelOfDetailRange'' [PReal ''float'', PReal ''float''] RVoid [OnValue QOpenGLTexture],
     Bind [] ''setLevelofDetailBias'' [PReal ''float''] RVoid [OnValue QOpenGLTexture],
     Bind [TypeM QTOPENGL_QOPENGLTEXTURE] ''setMagnificationFilter'' [PConv ''QOpenGLTexture::Filter''] RVoid [OnValue QOpenGLTexture],
     Bind [] ''setMaximumAnisotropy'' [PReal ''float''] RVoid [OnValue QOpenGLTexture],
     Bind [] ''setMaximumLevelOfDetail'' [PReal ''float''] RVoid [OnValue QOpenGLTexture]]"

definition vmeth_qtopengl_1_9 :: "binding list" where
  "vmeth_qtopengl_1_9 = [
     Bind [TypeM QTOPENGL_QOPENGLTEXTURE] ''setMinMagFilters'' [PConv ''QOpenGLTexture::Filter'', PConv ''QOpenGLTexture::Filter''] RVoid [OnValue QOpenGLTexture],
     Bind [TypeM QTOPENGL_QOPENGLTEXTURE] ''setMinificationFilter'' [PConv ''QOpenGLTexture::Filter''] RVoid [OnValue QOpenGLTexture],
     Bind [] ''setMinimumLevelOfDetail'' [PReal ''float''] RVoid [OnValue QOpenGLTexture],
     Bind [] ''setMipBaseLevel'' [PInt] RVoid [OnValue QOpenGLTexture],
     Bind [] ''setMipLevelRange'' [PInt, PInt] RVoid [OnValue QOpenGLTexture],
     Bind [] ''setMipLevels'' [PInt] RVoid [OnValue QOpenGLTexture]]"

definition vmeth_qtopengl_1_10 :: "binding list" where
  "vmeth_qtopengl_1_10 = [
     Bind [] ''setMipMaxLevel'' [PInt] RVoid [OnValue QOpenGLTexture],
     Bind [] ''setOpacity'' [PReal ''float''] RVoid [OnValue QOpenGLTextureBlitter],
     Bind [TypeM QTGUI_QSURFACEFORMAT] ''setProfile'' [PConv ''QSurfaceFormat::OpenGLContextProfile''] RVoid [OnValue QOpenGLVersionProfile],
     Bind [] ''setRedBlueSwizzle'' [PBool] RVoid [OnValue QOpenGLTextureBlitter],
     Bind [] ''setRowLength'' [PInt] RVoid [OnValue QOpenGLPixelTransferOptions],
     Bind [] ''setSamples'' [PInt] RVoid [OnValue QOpenGLTexture]]"

definition vmeth_qtopengl_1_11 :: "binding list" where
  "vmeth_qtopengl_1_11 = [
     Bind [] ''setSize'' [PInt, PInt, PInt] RVoid [OnValue QOpenGLTexture],
     Bind [] ''setSkipImages'' [PInt] RVoid [OnValue QOpenGLPixelTransferOptions],
     Bind [] ''setSkipPixels'' [PInt] RVoid [OnValue QOpenGLPixelTransferOptions],
     Bind [] ''setSkipRows'' [PInt] RVoid [OnValue QOpenGLPixelTransferOptions],
     Bind [] ''setSwapBytesEnabled'' [PBool] RVoid [OnValue QOpenGLPixelTransferOptions],
     Bind [TypeM QTOPENGL_QOPENGLTEXTURE] ''setSwizzleMask'' [PConv ''QOpenGLTexture::SwizzleComponent'', PConv ''QOpenGLTexture::SwizzleValue''] RVoid [OnValue QOpenGLTexture]]"

definition vmeth_qtopengl_1_12 :: "binding list" where
  "vmeth_qtopengl_1_12 = [
     Bind [TypeM QTOPENGL_QOPENGLTEXTURE] ''setSwizzleMask'' [PConv ''QOpenGLTexture::SwizzleValue'', PConv ''QOpenGLTexture::SwizzleValue'', PConv ''QOpenGLTexture::SwizzleValue'', PConv ''QOpenGLTexture::SwizzleValue''] RVoid [OnValue QOpenGLTexture],
     Bind [] ''setVersion'' [PInt, PInt] RVoid [OnValue QOpenGLVersionProfile],
     Bind [TypeM QTOPENGL_QOPENGLTEXTURE] ''setWrapMode'' [PConv ''QOpenGLTexture::CoordinateDirection'', PConv ''QOpenGLTexture::WrapMode''] RVoid [OnValue QOpenGLTexture],
     Bind [TypeM QTOPENGL_QOPENGLTEXTURE] ''setWrapMode'' [PConv ''QOpenGLTexture::WrapMode''] RVoid [OnValue QOpenGLTexture],
     Bind [] ''skipImages'' [] RNumber [OnValue QOpenGLPixelTransferOptions],
     Bind [] ''skipPixels'' [] RNumber [OnValue QOpenGLPixelTransferOptions]]"

definition vmeth_qtopengl_1_13 :: "binding list" where
  "vmeth_qtopengl_1_13 = [
     Bind [] ''skipRows'' [] RNumber [OnValue QOpenGLPixelTransferOptions],
     Bind [] ''supportsExternalOESTarget'' [] RBool [OnValue QOpenGLTextureBlitter],
     Bind [] ''supportsRectangleTarget'' [] RBool [OnValue QOpenGLTextureBlitter],
     Bind [ValueM ''QTOPENGL_QOPENGLPIXELTRANSFEROPTIONS''] ''swap'' [PConv QOpenGLPixelTransferOptions] RVoid [OnValue QOpenGLPixelTransferOptions],
     Bind [TypeM QTOPENGL_QOPENGLTEXTURE] ''swizzleMask'' [PConv ''QOpenGLTexture::SwizzleComponent''] (RMeta ''QOpenGLTexture::SwizzleValue'') [OnValue QOpenGLTexture],
     Bind [TypeM QTOPENGL_QOPENGLTEXTURE] ''target'' [] (RMeta ''QOpenGLTexture::Target'') [OnValue QOpenGLTexture],
     Bind [] ''width'' [] RNumber [OnValue QOpenGLTexture]]"

definition vmeth_qtopengl_1_14 :: "binding list" where
  "vmeth_qtopengl_1_14 = [
     Bind [TypeM QTOPENGL_QOPENGLTEXTURE] ''wrapMode'' [PConv ''QOpenGLTexture::CoordinateDirection''] (RMeta ''QOpenGLTexture::WrapMode'') [OnValue QOpenGLTexture]]"

definition vtypes_qtopengl_1 :: "string list" where
  "vtypes_qtopengl_1 = [QOpenGLPixelTransferOptions, QOpenGLTexture, QOpenGLTextureBlitter, QOpenGLVersionProfile]"

definition vmeth_qtpdf_0_0 :: "binding list" where
  "vmeth_qtpdf_0_0 = [
     Bind [ValueM QTCORE_QRECTF] ''boundingRectangle'' [] (RValue QRectF) [OnValue QPdfSelection],
     Bind [ValueM QTGUI_QPOLYGONF] ''bounds'' [] (RList (IValue QPolygonF)) [OnValue QPdfSelection],
     Bind [] ''contextAfter'' [] RString [OnValue ''QPdfLink''],
     Bind [] ''contextBefore'' [] RString [OnValue ''QPdfLink''],
     Bind [TypeM ''QTGUI_QCLIPBOARD''] ''copyToClipboard'' [PConv ''QClipboard::Mode''] RVoid [OnValue ''QPdfLink'', OnValue QPdfSelection],
     Bind [] ''endIndex'' [] RNumber [OnValue QPdfSelection]]"

definition vmeth_qtpdf_0_1 :: "binding list" where
  "vmeth_qtpdf_0_1 = [
     Bind [] ''isValid'' [] RBool [OnValue ''QPdfLink'', OnValue QPdfSelection],
     Bind [ValueM QTCORE_QPOINTF] ''location'' [] (RValue QPointF) [OnValue ''QPdfLink''],
     Bind [] ''page'' [] RNumber [OnValue ''QPdfLink''],
     Bind [ValueM QTCORE_QRECTF] ''rectangles'' [] (RList (IValue QRectF)) [OnValue ''QPdfLink''],
     Bind [TypeM ''QTPDF_QPDFDOCUMENTRENDEROPTIONS''] ''rotation'' [] (RMeta ''QPdfDocumentRenderOptions::Rotation'') [OnValue QPdfDocumentRenderOptions],
     Bind [ValueM QTCORE_QRECT] ''scaledClipRect'' [] (RValue QRect) [OnValue QPdfDocumentRenderOptions],
     Bind [ValueM QTCORE_QSIZE] ''scaledSize'' [] (RValue QSize) [OnValue QPdfDocumentRenderOptions]]"

definition vmeth_qtpdf_0_2 :: "binding list" where
  "vmeth_qtpdf_0_2 = [
     Bind [TypeM ''QTPDF_QPDFDOCUMENTRENDEROPTIONS''] ''setRotation'' [PConv ''QPdfDocumentRenderOptions::Rotation''] RVoid [OnValue QPdfDocumentRenderOptions],
     Bind [ValueM QTCORE_QRECT] ''setScaledClipRect'' [PConv QRect] RVoid [OnValue QPdfDocumentRenderOptions],
     Bind [ValueM QTCORE_QSIZE] ''setScaledSize'' [PConv QSize] RVoid [OnValue QPdfDocumentRenderOptions],
     Bind [] ''startIndex'' [] RNumber [OnValue QPdfSelection],
     Bind [ValueM ''QTPDF_QPDFLINK''] ''swap'' [PConv ''QPdfLink''] RVoid [OnValue ''QPdfLink''],
     Bind [ValueM ''QTPDF_QPDFSELECTION''] ''swap'' [PConv QPdfSelection] RVoid [OnValue QPdfSelection],
     Bind [] ''text'' [] RString [OnValue QPdfSelection]]"

definition vmeth_qtpdf_0_3 :: "binding list" where
  "vmeth_qtpdf_0_3 = [
     Bind [] ''toString'' [] RString [OnValue ''QPdfLink''],
     Bind [ValueM QTCORE_QURL] ''url'' [] (RValue QUrl) [OnValue ''QPdfLink''],
     Bind [] ''zoom'' [] RNumber [OnValue ''QPdfLink'']]"

definition vtypes_qtpdf_0 :: "string list" where
  "vtypes_qtpdf_0 = [QPdfDocumentRenderOptions, ''QPdfLink'', QPdfSelection]"

definition vmeth_qtpositioning_0_0 :: "binding list" where
  "vmeth_qtpositioning_0_0 = [
     Bind [ValueM QTPOSITIONING_QGEOCOORDINATE] ''addCoordinate'' [PConv QGeoCoordinate] RVoid [OnValue ''QGeoPath'', OnValue QGeoPolygon],
     Bind [ValueM QTPOSITIONING_QGEOCOORDINATE] ''addHole'' [PListV QGeoCoordinate] RVoid [OnValue QGeoPolygon],
     Bind [] ''addHole'' [PVariant] RVoid [OnValue QGeoPolygon],
     Bind [ValueM ''QTPOSITIONING_QGEOADDRESS''] ''address'' [] (RValue QGeoAddress) [OnValue ''QGeoLocation''],
     Bind [] ''altitude'' [] RNumber [OnValue QGeoCoordinate],
     Bind [ValueM QTPOSITIONING_QGEOSHAPE] ''area'' [] (RValue QGeoShape) [OnValue QGeoAreaMonitorInfo]]"

definition vmeth_qtpositioning_0_1 :: "binding list" where
  "vmeth_qtpositioning_0_1 = [
     Bind [ValueM QTPOSITIONING_QGEOCOORDINATE] ''atDistanceAndAzimuth'' [PReal ''qreal'', PReal ''qreal'', PReal ''qreal''] (RValue QGeoCoordinate) [OnValue QGeoCoordinate],
     Bind [TypeM ''QTPOSITIONING_QGEOPOSITIONINFO''] ''attribute'' [PConv ''QGeoPositionInfo::Attribute''] RNumber [OnValue QGeoPositionInfo],
     Bind [ValueM QTPOSITIONING_QGEOCOORDINATE] ''azimuthTo'' [PConv QGeoCoordinate] RNumber [OnValue QGeoCoordinate],
     Bind [ValueM QTPOSITIONING_QGEOSHAPE] ''boundingShape'' [] (RValue QGeoShape) [OnValue ''QGeoLocation''],
     Bind [ValueM QTPOSITIONING_QGEOCOORDINATE] ''center'' [] (RValue QGeoCoordinate) [OnValue ''QGeoCircle''],
     Bind [] ''city'' [] RString [OnValue QGeoAddress],
     Bind [] ''clear'' [] RVoid [OnValue QGeoAddress]]"

definition vmeth_qtpositioning_0_2 :: "binding list" where
  "vmeth_qtpositioning_0_2 = [
     Bind [] ''clearPath'' [] RVoid [OnValue ''QGeoPath''],
     Bind [ValueM QTPOSITIONING_QGEOCOORDINATE] ''containsCoordinate'' [PConv QGeoCoordinate] RBool [OnValue ''QGeoPath'', OnValue QGeoPolygon],
     Bind [ValueM QTPOSITIONING_QGEOCOORDINATE] ''coordinate'' [] (RValue QGeoCoordinate) [OnValue ''QGeoLocation'', OnValue QGeoPositionInfo],
     Bind [ValueM QTPOSITIONING_QGEOCOORDINATE] ''coordinateAt'' [PWide ''qsizetype''] (RValue QGeoCoordinate) [OnValue ''QGeoPath'', OnValue QGeoPolygon],
     Bind [] ''country'' [] RString [OnValue QGeoAddress],
     Bind [] ''countryCode'' [] RString [OnValue QGeoAddress]]"

definition vmeth_qtpositioning_0_3 :: "binding list" where
  "vmeth_qtpositioning_0_3 = [
     Bind [] ''county'' [] RString [OnValue QGeoAddress],
     Bind [ValueM QTPOSITIONING_QGEOCOORDINATE] ''distanceTo'' [PConv QGeoCoordinate] RNumber [OnValue QGeoCoordinate],
     Bind [] ''district'' [] RString [OnValue QGeoAddress],
     Bind [ValueM QTCORE_QDATETIME] ''expiration'' [] (RValue QDateTime) [OnValue QGeoAreaMonitorInfo],
     Bind [ValueM QTPOSITIONING_QGEOCOORDINATE] ''extendCircle'' [PConv QGeoCoordinate] RVoid [OnValue ''QGeoCircle''],
     Bind [] ''extendedAttributes'' [] (RMap IVariant) [OnValue ''QGeoLocation''],
     Bind [TypeM ''QTPOSITIONING_QGEOPOSITIONINFO''] ''hasAttribute'' [PConv ''QGeoPositionInfo::Attribute''] RBool [OnValue QGeoPositionInfo]]"

definition vmeth_qtpositioning_0_4 :: "binding list" where
  "vmeth_qtpositioning_0_4 = [
     Bind [ValueM QTPOSITIONING_QGEOCOORDINATE] ''holePath'' [PWide ''qsizetype''] (RList (IValue QGeoCoordinate)) [OnValue QGeoPolygon],
     Bind [] ''holesCount'' [] (RMeta ''qsizetype'') [OnValue QGeoPolygon],
     Bind [] ''identifier'' [] RString [OnValue QGeoAreaMonitorInfo],
     Bind [ValueM QTPOSITIONING_QGEOCOORDINATE] ''insertCoordinate'' [PWide ''qsizetype'', PConv QGeoCoordinate] RVoid [OnValue ''QGeoPath'', OnValue QGeoPolygon],
     Bind [] ''isEmpty'' [] RBool [OnValue QGeoAddress, OnValue ''QGeoLocation''],
     Bind [] ''isPersistent'' [] RBool [OnValue QGeoAreaMonitorInfo]]"

definition vmeth_qtpositioning_0_5 :: "binding list" where
  "vmeth_qtpositioning_0_5 = [
     Bind [] ''isTextGenerated'' [] RBool [OnValue QGeoAddress],
     Bind [] ''isValid'' [] RBool [OnValue QGeoAreaMonitorInfo, OnValue QGeoCoordinate, OnValue QGeoPositionInfo],
     Bind [] ''latitude'' [] RNumber [OnValue QGeoCoordinate],
     Bind [] ''length'' [PWide ''qsizetype'', PWide ''qsizetype''] RNumber [OnValue ''QGeoPath'', OnValue QGeoPolygon],
     Bind [] ''longitude'' [] RNumber [OnValue QGeoCoordinate],
     Bind [] ''name'' [] RString [OnValue QGeoAreaMonitorInfo]]"

definition vmeth_qtpositioning_0_6 :: "binding list" where
  "vmeth_qtpositioning_0_6 = [
     Bind [] ''notificationParameters'' [] (RMap IVariant) [OnValue QGeoAreaMonitorInfo],
     Bind [ValueM QTPOSITIONING_QGEOCOORDINATE] ''path'' [] (RList (IValue QGeoCoordinate)) [OnValue ''QGeoPath''],
     Bind [ValueM QTPOSITIONING_QGEOCOORDINATE] ''perimeter'' [] (RList (IValue QGeoCoordinate)) [OnValue QGeoPolygon],
     Bind [] ''postalCode'' [] RString [OnValue QGeoAddress],
     Bind [] ''radius'' [] RNumber [OnValue ''QGeoCircle''],
     Bind [TypeM ''QTPOSITIONING_QGEOPOSITIONINFO''] ''removeAttribute'' [PConv ''QGeoPositionInfo::Attribute''] RVoid [OnValue QGeoPositionInfo]]"

definition vmeth_qtpositioning_0_7 :: "binding list" where
  "vmeth_qtpositioning_0_7 = [
     Bind [ValueM QTPOSITIONING_QGEOCOORDINATE] ''removeCoordinate'' [PConv QGeoCoordinate] RVoid [OnValue ''QGeoPath'', OnValue QGeoPolygon],
     Bind [] ''removeCoordinate'' [PWide ''qsizetype''] RVoid [OnValue ''QGeoPath'', OnValue QGeoPolygon],
     Bind [] ''removeHole'' [PWide ''qsizetype''] RVoid [OnValue QGeoPolygon],
     Bind [ValueM QTPOSITIONING_QGEOCOORDINATE] ''replaceCoordinate'' [PWide ''qsizetype'', PConv QGeoCoordinate] RVoid [OnValue ''QGeoPath'', OnValue QGeoPolygon],
     Bind [ValueM ''QTPOSITIONING_QGEOADDRESS''] ''setAddress'' [PConv QGeoAddress] RVoid [OnValue ''QGeoLocation'']]"

definition vmeth_qtpositioning_0_8 :: "binding list" where
  "vmeth_qtpositioning_0_8 = [
     Bind [] ''setAltitude'' [PReal ''double''] RVoid [OnValue QGeoCoordinate],
     Bind [ValueM QTPOSITIONING_QGEOSHAPE] ''setArea'' [PConv QGeoShape] RVoid [OnValue QGeoAreaMonitorInfo],
     Bind [TypeM ''QTPOSITIONING_QGEOPOSITIONINFO''] ''setAttribute'' [PConv ''QGeoPositionInfo::Attribute'', PReal ''qreal''] RVoid [OnValue QGeoPositionInfo],
     Bind [ValueM QTPOSITIONING_QGEOSHAPE] ''setBoundingShape'' [PConv QGeoShape] RVoid [OnValue ''QGeoLocation''],
     Bind [ValueM QTPOSITIONING_QGEOCOORDINATE] ''setCenter'' [PConv QGeoCoordinate] RVoid [OnValue ''QGeoCircle''],
     Bind [] ''setCity'' [PString True] RVoid [OnValue QGeoAddress]]"

definition vmeth_qtpositioning_0_9 :: "binding list" where
  "vmeth_qtpositioning_0_9 = [
     Bind [ValueM QTPOSITIONING_QGEOCOORDINATE] ''setCoordinate'' [PConv QGeoCoordinate] RVoid [OnValue ''QGeoLocation'', OnValue QGeoPositionInfo],
     Bind [] ''setCountry'' [PString True] RVoid [OnValue QGeoAddress],
     Bind [] ''setCountryCode'' [PString True] RVoid [OnValue QGeoAddress],
     Bind [] ''setCounty'' [PString True] RVoid [OnValue QGeoAddress],
     Bind [] ''setDistrict'' [PString True] RVoid [OnValue QGeoAddress],
     Bind [ValueM QTCORE_QDATETIME] ''setExpiration'' [PConv QDateTime] RVoid [OnValue QGeoAreaMonitorInfo]]"

definition vmeth_qtpositioning_0_10 :: "binding list" where
  "vmeth_qtpositioning_0_10 = [
     Bind [] ''setLatitude'' [PReal ''double''] RVoid [OnValue QGeoCoordinate],
     Bind [] ''setLongitude'' [PReal ''double''] RVoid [OnValue QGeoCoordinate],
     Bind [] ''setName'' [PString True] RVoid [OnValue QGeoAreaMonitorInfo],
     Bind [ValueM QTPOSITIONING_QGEOCOORDINATE] ''setPath'' [PListV QGeoCoordinate] RVoid [OnValue ''QGeoPath''],
     Bind [ValueM QTPOSITIONING_QGEOCOORDINATE] ''setPerimeter'' [PListV QGeoCoordinate] RVoid [OnValue QGeoPolygon],
     Bind [] ''setPersistent'' [PBool] RVoid [OnValue QGeoAreaMonitorInfo]]"

definition vmeth_qtpositioning_0_11 :: "binding list" where
  "vmeth_qtpositioning_0_11 = [
     Bind [] ''setPostalCode'' [PString True] RVoid [OnValue QGeoAddress],
     Bind [] ''setRadius'' [PReal ''qreal''] RVoid [OnValue ''QGeoCircle''],
     Bind [] ''setState'' [PString True] RVoid [OnValue QGeoAddress],
     Bind [] ''setStreet'' [PString True] RVoid [OnValue QGeoAddress],
     Bind [] ''setStreetNumber'' [PString True] RVoid [OnValue QGeoAddress],
     Bind [] ''setText'' [PString True] RVoid [OnValue QGeoAddress],
     Bind [ValueM QTCORE_QDATETIME] ''setTimestamp'' [PConv QDateTime] RVoid [OnValue QGeoPositionInfo]]"

definition vmeth_qtpositioning_0_12 :: "binding list" where
  "vmeth_qtpositioning_0_12 = [
     Bind [] ''setWidth'' [PReal ''qreal''] RVoid [OnValue ''QGeoPath''],
     Bind [] ''size'' [] (RMeta ''qsizetype'') [OnValue ''QGeoPath'', OnValue QGeoPolygon],
     Bind [] ''state'' [] RString [OnValue QGeoAddress],
     Bind [] ''street'' [] RString [OnValue QGeoAddress],
     Bind [] ''streetNumber'' [] RString [OnValue QGeoAddress],
     Bind [ValueM ''QTPOSITIONING_QGEOADDRESS''] ''swap'' [PConv QGeoAddress] RVoid [OnValue QGeoAddress],
     Bind [ValueM ''QTPOSITIONING_QGEOAREAMONITORINFO''] ''swap'' [PConv QGeoAreaMonitorInfo] RVoid [OnValue QGeoAreaMonitorInfo]]"

definition vmeth_qtpositioning_0_13 :: "binding list" where
  "vmeth_qtpositioning_0_13 = [
     Bind [ValueM QTPOSITIONING_QGEOCOORDINATE] ''swap'' [PConv QGeoCoordinate] RVoid [OnValue QGeoCoordinate],
     Bind [ValueM ''QTPOSITIONING_QGEOLOCATION''] ''swap'' [PConv ''QGeoLocation''] RVoid [OnValue ''QGeoLocation''],
     Bind [ValueM ''QTPOSITIONING_QGEOPOSITIONINFO''] ''swap'' [PConv QGeoPositionInfo] RVoid [OnValue QGeoPositionInfo],
     Bind [] ''text'' [] RString [OnValue QGeoAddress],
     Bind [ValueM QTCORE_QDATETIME] ''timestamp'' [] (RValue QDateTime) [OnValue QGeoPositionInfo],
     Bind [] ''toString'' [] RString [OnValue ''QGeoCircle'', OnValue ''QGeoPath'', OnValue QGeoPolygon]]"

definition vmeth_qtpositioning_0_14 :: "binding list" where
  "vmeth_qtpositioning_0_14 = [
     Bind [TypeM QTPOSITIONING_QGEOCOORDINATE] ''toString'' [PConv ''QGeoCoordinate::CoordinateFormat''] RString [OnValue QGeoCoordinate],
     Bind [] ''translate'' [PReal ''double'', PReal ''double''] RVoid [OnValue ''QGeoCircle'', OnValue ''QGeoPath'', OnValue QGeoPolygon],
     Bind [ValueM ''QTPOSITIONING_QGEOCIRCLE''] ''translated'' [PReal ''double'', PReal ''double''] (RValue ''QGeoCircle'') [OnValue ''QGeoCircle''],
     Bind [ValueM ''QTPOSITIONING_QGEOPATH''] ''translated'' [PReal ''double'', PReal ''double''] (RValue ''QGeoPath'') [OnValue ''QGeoPath''],
     Bind [ValueM ''QTPOSITIONING_QGEOPOLYGON''] ''translated'' [PReal ''double'', PReal ''double''] (RValue QGeoPolygon) [OnValue QGeoPolygon]]"

definition vmeth_qtpositioning_0_15 :: "binding list" where
  "vmeth_qtpositioning_0_15 = [
     Bind [TypeM QTPOSITIONING_QGEOCOORDINATE] ''type'' [] (RMeta ''QGeoCoordinate::CoordinateType'') [OnValue QGeoCoordinate],
     Bind [] ''width'' [] RNumber [OnValue ''QGeoPath'']]"

definition vtypes_qtpositioning_0 :: "string list" where
  "vtypes_qtpositioning_0 = [QGeoAddress, QGeoAreaMonitorInfo, ''QGeoCircle'', QGeoCoordinate, ''QGeoLocation'', ''QGeoPath'', QGeoPolygon,
     QGeoPositionInfo]"

definition vmeth_qtpositioning_1_0 :: "binding list" where
  "vmeth_qtpositioning_1_0 = [
     Bind [TypeM QTPOSITIONING_QGEOSATELLITEINFO] ''attribute'' [PConv ''QGeoSatelliteInfo::Attribute''] RNumber [OnValue QGeoSatelliteInfo],
     Bind [ValueM QTPOSITIONING_QGEOCOORDINATE] ''bottomLeft'' [] (RValue QGeoCoordinate) [OnValue QGeoRectangle],
     Bind [ValueM QTPOSITIONING_QGEOCOORDINATE] ''bottomRight'' [] (RValue QGeoCoordinate) [OnValue QGeoRectangle],
     Bind [ValueM ''QTPOSITIONING_QGEORECTANGLE''] ''boundingGeoRectangle'' [] (RValue QGeoRectangle) [OnValue QGeoShape],
     Bind [ValueM QTPOSITIONING_QGEOCOORDINATE] ''center'' [] (RValue QGeoCoordinate) [OnValue QGeoRectangle, OnValue QGeoShape],
     Bind [ValueM QTPOSITIONING_QGEOCOORDINATE] ''contains'' [PConv QGeoCoordinate] RBool [OnValue QGeoShape]]"

definition vmeth_qtpositioning_1_1 :: "binding list" where
  "vmeth_qtpositioning_1_1 = [
     Bind [ValueM ''QTPOSITIONING_QGEORECTANGLE''] ''contains'' [PConv QGeoRectangle] RBool [OnValue QGeoRectangle],
     Bind [ValueM QTPOSITIONING_QGEOCOORDINATE] ''extendRectangle'' [PConv QGeoCoordinate] RVoid [OnValue QGeoRectangle],
     Bind [TypeM QTPOSITIONING_QGEOSATELLITEINFO] ''hasAttribute'' [PConv ''QGeoSatelliteInfo::Attribute''] RBool [OnValue QGeoSatelliteInfo],
     Bind [] ''height'' [] RNumber [OnValue QGeoRectangle],
     Bind [ValueM ''QTPOSITIONING_QGEORECTANGLE''] ''intersects'' [PConv QGeoRectangle] RBool [OnValue QGeoRectangle],
     Bind [] ''isEmpty'' [] RBool [OnValue QGeoShape],
     Bind [] ''isValid'' [] RBool [OnValue QGeoShape]]"

definition vmeth_qtpositioning_1_2 :: "binding list" where
  "vmeth_qtpositioning_1_2 = [
     Bind [TypeM QTPOSITIONING_QGEOSATELLITEINFO] ''removeAttribute'' [PConv ''QGeoSatelliteInfo::Attribute''] RVoid [OnValue QGeoSatelliteInfo],
     Bind [] ''satelliteIdentifier'' [] RNumber [OnValue QGeoSatelliteInfo],
     Bind [TypeM QTPOSITIONING_QGEOSATELLITEINFO] ''satelliteSystem'' [] (RMeta ''QGeoSatelliteInfo::SatelliteSystem'') [OnValue QGeoSatelliteInfo],
     Bind [TypeM QTPOSITIONING_QGEOSATELLITEINFO] ''setAttribute'' [PConv ''QGeoSatelliteInfo::Attribute'', PReal ''qreal''] RVoid [OnValue QGeoSatelliteInfo],
     Bind [ValueM QTPOSITIONING_QGEOCOORDINATE] ''setBottomLeft'' [PConv QGeoCoordinate] RVoid [OnValue QGeoRectangle],
     Bind [ValueM QTPOSITIONING_QGEOCOORDINATE] ''setBottomRight'' [PConv QGeoCoordinate] RVoid [OnValue QGeoRectangle]]"

definition vmeth_qtpositioning_1_3 :: "binding list" where
  "vmeth_qtpositioning_1_3 = [
     Bind [ValueM QTPOSITIONING_QGEOCOORDINATE] ''setCenter'' [PConv QGeoCoordinate] RVoid [OnValue QGeoRectangle],
     Bind [] ''setHeight'' [PReal ''double''] RVoid [OnValue QGeoRectangle],
     Bind [] ''setSatelliteIdentifier'' [PInt] RVoid [OnValue QGeoSatelliteInfo],
     Bind [TypeM QTPOSITIONING_QGEOSATELLITEINFO] ''setSatelliteSystem'' [PConv ''QGeoSatelliteInfo::SatelliteSystem''] RVoid [OnValue QGeoSatelliteInfo],
     Bind [] ''setSignalStrength'' [PInt] RVoid [OnValue QGeoSatelliteInfo],
     Bind [ValueM QTPOSITIONING_QGEOCOORDINATE] ''setTopLeft'' [PConv QGeoCoordinate] RVoid [OnValue QGeoRectangle]]"

definition vmeth_qtpositioning_1_4 :: "binding list" where
  "vmeth_qtpositioning_1_4 = [
     Bind [ValueM QTPOSITIONING_QGEOCOORDINATE] ''setTopRight'' [PConv QGeoCoordinate] RVoid [OnValue QGeoRectangle],
     Bind [] ''setWidth'' [PReal ''double''] RVoid [OnValue QGeoRectangle],
     Bind [] ''signalStrength'' [] RNumber [OnValue QGeoSatelliteInfo],
     Bind [ValueM QTPOSITIONING_QGEOSATELLITEINFO] ''swap'' [PConv QGeoSatelliteInfo] RVoid [OnValue QGeoSatelliteInfo],
     Bind [] ''toString'' [] RString [OnValue QGeoRectangle, OnValue QGeoShape],
     Bind [ValueM QTPOSITIONING_QGEOCOORDINATE] ''topLeft'' [] (RValue QGeoCoordinate) [OnValue QGeoRectangle],
     Bind [ValueM QTPOSITIONING_QGEOCOORDINATE] ''topRight'' [] (RValue QGeoCoordinate) [OnValue QGeoRectangle]]"

definition vmeth_qtpositioning_1_5 :: "binding list" where
  "vmeth_qtpositioning_1_5 = [
     Bind [] ''translate'' [PReal ''double'', PReal ''double''] RVoid [OnValue QGeoRectangle],
     Bind [ValueM ''QTPOSITIONING_QGEORECTANGLE''] ''translated'' [PReal ''double'', PReal ''double''] (RValue QGeoRectangle) [OnValue QGeoRectangle],
     Bind [TypeM QTPOSITIONING_QGEOSHAPE] ''type'' [] (RMeta ''QGeoShape::ShapeType'') [OnValue QGeoShape],
     Bind [ValueM ''QTPOSITIONING_QGEORECTANGLE''] ''united'' [PConv QGeoRectangle] (RValue QGeoRectangle) [OnValue QGeoRectangle],
     Bind [] ''width'' [] RNumber [OnValue QGeoRectangle]]"

definition vtypes_qtpositioning_1 :: "string list" where
  "vtypes_qtpositioning_1 = [QGeoRectangle, QGeoSatelliteInfo, QGeoShape]"

definition vmeth_qtprintsupport_0_0 :: "binding list" where
  "vmeth_qtprintsupport_0_0 = [
     Bind [] ''abort'' [] RBool [OnValue QPrinter],
     Bind [] ''collateCopies'' [] RBool [OnValue QPrinter],
     Bind [TypeM QTPRINTSUPPORT_QPRINTER] ''colorMode'' [] (RMeta ''QPrinter::ColorMode'') [OnValue QPrinter],
     Bind [] ''copyCount'' [] RNumber [OnValue QPrinter],
     Bind [] ''creator'' [] RString [OnValue QPrinter],
     Bind [TypeM QTPRINTSUPPORT_QPRINTER] ''defaultColorMode'' [] (RMeta ''QPrinter::ColorMode'') [OnValue QPrinterInfo],
     Bind [TypeM QTPRINTSUPPORT_QPRINTER] ''defaultDuplexMode'' [] (RMeta ''QPrinter::DuplexMode'') [OnValue QPrinterInfo],
     Bind [ValueM QTGUI_QPAGESIZE] ''defaultPageSize'' [] (RValue QPageSize) [OnValue QPrinterInfo]]"

definition vmeth_qtprintsupport_0_1 :: "binding list" where
  "vmeth_qtprintsupport_0_1 = [
     Bind [] ''description'' [] RString [OnValue QPrinterInfo],
     Bind [] ''docName'' [] RString [OnValue QPrinter],
     Bind [TypeM QTPRINTSUPPORT_QPRINTER] ''duplex'' [] (RMeta ''QPrinter::DuplexMode'') [OnValue QPrinter],
     Bind [] ''fontEmbeddingEnabled'' [] RBool [OnValue QPrinter],
     Bind [] ''fromPage'' [] RNumber [OnValue QPrinter],
     Bind [] ''fullPage'' [] RBool [OnValue QPrinter],
     Bind [] ''isDefault'' [] RBool [OnValue QPrinterInfo],
     Bind [] ''isNull'' [] RBool [OnValue QPrinterInfo]]"

definition vmeth_qtprintsupport_0_2 :: "binding list" where
  "vmeth_qtprintsupport_0_2 = [
     Bind [] ''isRemote'' [] RBool [OnValue QPrinterInfo],
     Bind [] ''isValid'' [] RBool [OnValue QPrinter],
     Bind [] ''location'' [] RString [OnValue QPrinterInfo],
     Bind [] ''makeAndModel'' [] RString [OnValue QPrinterInfo],
     Bind [ValueM QTGUI_QPAGESIZE] ''maximumPhysicalPageSize'' [] (RValue QPageSize) [OnValue QPrinterInfo],
     Bind [ValueM QTGUI_QPAGESIZE] ''minimumPhysicalPageSize'' [] (RValue QPageSize) [OnValue QPrinterInfo],
     Bind [] ''newPage'' [] RBool [OnValue QPrinter],
     Bind [] ''outputFileName'' [] RString [OnValue QPrinter]]"

definition vmeth_qtprintsupport_0_3 :: "binding list" where
  "vmeth_qtprintsupport_0_3 = [
     Bind [TypeM QTPRINTSUPPORT_QPRINTER] ''outputFormat'' [] (RMeta ''QPrinter::OutputFormat'') [OnValue QPrinter],
     Bind [TypeM QTPRINTSUPPORT_QPRINTER] ''pageOrder'' [] (RMeta ''QPrinter::PageOrder'') [OnValue QPrinter],
     Bind [TypeM QTPRINTSUPPORT_QPRINTER, ValueM QTCORE_QRECTF] ''pageRect'' [PConv ''QPrinter::Unit''] (RValue QRectF) [OnValue QPrinter],
     Bind [TypeM QTPRINTSUPPORT_QPRINTER, ValueM QTCORE_QRECTF] ''paperRect'' [PConv ''QPrinter::Unit''] (RValue QRectF) [OnValue QPrinter],
     Bind [TypeM QTPRINTSUPPORT_QPRINTER] ''paperSource'' [] (RMeta ''QPrinter::PaperSource'') [OnValue QPrinter],
     Bind [TypeM ''QTGUI_QPAGEDPAINTDEVICE''] ''pdfVersion'' [] (RMeta ''QPagedPaintDevice::PdfVersion'') [OnValue QPrinter],
     Bind [] ''printProgram'' [] RString [OnValue QPrinter]]"

definition vmeth_qtprintsupport_0_4 :: "binding list" where
  "vmeth_qtprintsupport_0_4 = [
     Bind [TypeM QTPRINTSUPPORT_QPRINTER] ''printRange'' [] (RMeta ''QPrinter::PrintRange'') [OnValue QPrinter],
     Bind [] ''printerName'' [] RString [OnValue QPrinter, OnValue QPrinterInfo],
     Bind [TypeM QTPRINTSUPPORT_QPRINTER] ''printerState'' [] (RMeta ''QPrinter::PrinterState'') [OnValue QPrinter],
     Bind [] ''resolution'' [] RNumber [OnValue QPrinter],
     Bind [] ''setCollateCopies'' [PBool] RVoid [OnValue QPrinter],
     Bind [TypeM QTPRINTSUPPORT_QPRINTER] ''setColorMode'' [PConv ''QPrinter::ColorMode''] RVoid [OnValue QPrinter],
     Bind [] ''setCopyCount'' [PInt] RVoid [OnValue QPrinter]]"

definition vmeth_qtprintsupport_0_5 :: "binding list" where
  "vmeth_qtprintsupport_0_5 = [
     Bind [] ''setCreator'' [PString True] RVoid [OnValue QPrinter],
     Bind [] ''setDocName'' [PString True] RVoid [OnValue QPrinter],
     Bind [TypeM QTPRINTSUPPORT_QPRINTER] ''setDuplex'' [PConv ''QPrinter::DuplexMode''] RVoid [OnValue QPrinter],
     Bind [] ''setFontEmbeddingEnabled'' [PBool] RVoid [OnValue QPrinter],
     Bind [] ''setFromTo'' [PInt, PInt] RVoid [OnValue QPrinter],
     Bind [] ''setFullPage'' [PBool] RVoid [OnValue QPrinter],
     Bind [] ''setOutputFileName'' [PString True] RVoid [OnValue QPrinter]]"

definition vmeth_qtprintsupport_0_6 :: "binding list" where
  "vmeth_qtprintsupport_0_6 = [
     Bind [TypeM QTPRINTSUPPORT_QPRINTER] ''setOutputFormat'' [PConv ''QPrinter::OutputFormat''] RVoid [OnValue QPrinter],
     Bind [TypeM QTPRINTSUPPORT_QPRINTER] ''setPageOrder'' [PConv ''QPrinter::PageOrder''] RVoid [OnValue QPrinter],
     Bind [TypeM QTPRINTSUPPORT_QPRINTER] ''setPaperSource'' [PConv ''QPrinter::PaperSource''] RVoid [OnValue QPrinter],
     Bind [TypeM ''QTGUI_QPAGEDPAINTDEVICE''] ''setPdfVersion'' [PConv ''QPagedPaintDevice::PdfVersion''] RVoid [OnValue QPrinter],
     Bind [] ''setPrintProgram'' [PString True] RVoid [OnValue QPrinter],
     Bind [TypeM QTPRINTSUPPORT_QPRINTER] ''setPrintRange'' [PConv ''QPrinter::PrintRange''] RVoid [OnValue QPrinter]]"

definition vmeth_qtprintsupport_0_7 :: "binding list" where
  "vmeth_qtprintsupport_0_7 = [
     Bind [] ''setPrinterName'' [PString True] RVoid [OnValue QPrinter],
     Bind [] ''setResolution'' [PInt] RVoid [OnValue QPrinter],
     Bind [TypeM QTPRINTSUPPORT_QPRINTER] ''state'' [] (RMeta ''QPrinter::PrinterState'') [OnValue QPrinterInfo],
     Bind [TypeM QTPRINTSUPPORT_QPRINTER] ''supportedColorModes'' [] (RList (IMeta ''QPrinter::ColorMode'')) [OnValue QPrinterInfo],
     Bind [TypeM QTPRINTSUPPORT_QPRINTER] ''supportedDuplexModes'' [] (RList (IMeta ''QPrinter::DuplexMode'')) [OnValue QPrinterInfo],
     Bind [ValueM QTGUI_QPAGESIZE] ''supportedPageSizes'' [] (RList (IValue QPageSize)) [OnValue QPrinterInfo]]"

definition vmeth_qtprintsupport_0_8 :: "binding list" where
  "vmeth_qtprintsupport_0_8 = [
     Bind [] ''supportedResolutions'' [] (RList (IMeta ''int'')) [OnValue QPrinter, OnValue QPrinterInfo],
     Bind [] ''supportsCustomPageSizes'' [] RBool [OnValue QPrinterInfo],
     Bind [] ''supportsMultipleCopies'' [] RBool [OnValue QPrinter],
     Bind [] ''toPage'' [] RNumber [OnValue QPrinter]]"

definition vtypes_qtprintsupport_0 :: "string list" where
  "vtypes_qtprintsupport_0 = [QPrinter, QPrinterInfo]"

definition vmeth_qtqml_0_0 :: "binding list" where
  "vmeth_qtqml_0_0 = [
     Bind [TypeM QTCORE_QOBJECT] ''append'' [PNonNull QObject_ptr] RBool [OnValue QQmlListReference],
     Bind [TypeM QTCORE_QOBJECT] ''at'' [PWide ''qsizetype''] RObject [OnValue QQmlListReference],
     Bind [] ''canAppend'' [] RBool [OnValue QQmlListReference],
     Bind [] ''canAt'' [] RBool [OnValue QQmlListReference],
     Bind [] ''canClear'' [] RBool [OnValue QQmlListReference],
     Bind [] ''canCount'' [] RBool [OnValue QQmlListReference],
     Bind [] ''canRemoveLast'' [] RBool [OnValue QQmlListReference],
     Bind [] ''canReplace'' [] RBool [OnValue QQmlListReference]]"

definition vmeth_qtqml_0_1 :: "binding list" where
  "vmeth_qtqml_0_1 = [
     Bind [] ''clear'' [] RBool [OnValue QQmlListReference],
     Bind [] ''clear'' [] RVoid [OnValue ''QQmlIncubator''],
     Bind [] ''column'' [] RNumber [OnValue QQmlError],
     Bind [] ''count'' [] (RMeta ''qsizetype'') [OnValue QQmlListReference],
     Bind [] ''deleteProperty'' [PString True] RBool [OnValue QJSManagedValue, OnValue QJSValue],
     Bind [] ''description'' [] RString [OnValue QQmlError],
     Bind [TypeM ''QTQML_QJSENGINE''] ''engine'' [] RObject [OnValue QJSManagedValue],
     Bind [TypeM QTQML_QQMLENGINE] ''engine'' [] RObject [OnValue ''QQmlIncubationController'']]"

definition vmeth_qtqml_0_2 :: "binding list" where
  "vmeth_qtqml_0_2 = [
     Bind [ValueM ''QTQML_QJSMANAGEDVALUE''] ''equals'' [PConv QJSManagedValue] RBool [OnValue QJSManagedValue],
     Bind [ValueM ''QTQML_QJSPRIMITIVEVALUE''] ''equals'' [PConv QJSPrimitiveValue] RBool [OnValue QJSPrimitiveValue],
     Bind [ValueM QTQML_QJSVALUE] ''equals'' [PConv QJSValue] RBool [OnValue QJSValue],
     Bind [TypeM QTQML_QJSVALUE] ''errorType'' [] (RMeta ''QJSValue::ErrorType'') [OnValue QJSValue],
     Bind [ValueM ''QTQML_QQMLERROR''] ''errors'' [] (RList (IValue QQmlError)) [OnValue ''QQmlIncubator''],
     Bind [] ''forceCompletion'' [] RVoid [OnValue ''QQmlIncubator''],
     Bind [] ''hasNext'' [] RBool [OnValue ''QJSValueIterator'']]"

definition vmeth_qtqml_0_3 :: "binding list" where
  "vmeth_qtqml_0_3 = [
     Bind [] ''hasOwnProperty'' [PString True] RBool [OnValue QJSManagedValue, OnValue QJSValue],
     Bind [] ''hasProperty'' [PString True] RBool [OnValue QJSManagedValue, OnValue QJSValue],
     Bind [] ''incubateFor'' [PInt] RVoid [OnValue ''QQmlIncubationController''],
     Bind [] ''incubatingObjectCount'' [] RNumber [OnValue ''QQmlIncubationController''],
     Bind [TypeM ''QTQML_QQMLINCUBATOR''] ''incubationMode'' [] (RMeta ''QQmlIncubator::IncubationMode'') [OnValue ''QQmlIncubator''],
     Bind [] ''isArray'' [] RBool [OnValue QJSManagedValue, OnValue QJSValue],
     Bind [] ''isBool'' [] RBool [OnValue QJSValue]]"

definition vmeth_qtqml_0_4 :: "binding list" where
  "vmeth_qtqml_0_4 = [
     Bind [] ''isBoolean'' [] RBool [OnValue QJSManagedValue],
     Bind [] ''isCallable'' [] RBool [OnValue QJSValue],
     Bind [] ''isDate'' [] RBool [OnValue QJSManagedValue, OnValue QJSValue],
     Bind [] ''isError'' [] RBool [OnValue QJSManagedValue, OnValue QJSValue, OnValue ''QQmlIncubator''],
     Bind [] ''isFunction'' [] RBool [OnValue QJSManagedValue],
     Bind [] ''isInteger'' [] RBool [OnValue QJSManagedValue],
     Bind [] ''isLoading'' [] RBool [OnValue ''QQmlIncubator'']]"

definition vmeth_qtqml_0_5 :: "binding list" where
  "vmeth_qtqml_0_5 = [
     Bind [] ''isManipulable'' [] RBool [OnValue QQmlListReference],
     Bind [] ''isNull'' [] RBool [OnValue QJSManagedValue, OnValue QJSValue, OnValue ''QQmlIncubator''],
     Bind [] ''isNumber'' [] RBool [OnValue QJSManagedValue, OnValue QJSValue],
     Bind [] ''isObject'' [] RBool [OnValue QJSManagedValue, OnValue QJSValue],
     Bind [] ''isQMetaObject'' [] RBool [OnValue QJSManagedValue],
     Bind [] ''isQObject'' [] RBool [OnValue QJSManagedValue, OnValue QJSValue]]"

definition vmeth_qtqml_0_6 :: "binding list" where
  "vmeth_qtqml_0_6 = [
     Bind [] ''isReadable'' [] RBool [OnValue QQmlListReference],
     Bind [] ''isReady'' [] RBool [OnValue ''QQmlIncubator''],
     Bind [] ''isRegExp'' [] RBool [OnValue QJSValue],
     Bind [] ''isRegularExpression'' [] RBool [OnValue QJSManagedValue],
     Bind [] ''isString'' [] RBool [OnValue QJSManagedValue, OnValue QJSValue],
     Bind [] ''isSymbol'' [] RBool [OnValue QJSManagedValue],
     Bind [] ''isUndefined'' [] RBool [OnValue QJSManagedValue, OnValue QJSValue]]"

definition vmeth_qtqml_0_7 :: "binding list" where
  "vmeth_qtqml_0_7 = [
     Bind [] ''isUrl'' [] RBool [OnValue QJSManagedValue, OnValue QJSValue],
     Bind [] ''isValid'' [] RBool [OnValue QQmlError, OnValue QQmlListReference],
     Bind [] ''isVariant'' [] RBool [OnValue QJSManagedValue, OnValue QJSValue],
     Bind [] ''line'' [] RNumber [OnValue QQmlError],
     Bind [ValueM QTCORE_QMETATYPE] ''metaType'' [] (RValue QMetaType) [OnValue QJSPrimitiveValue],
     Bind [] ''name'' [] RString [OnValue ''QJSValueIterator''],
     Bind [] ''next'' [] RBool [OnValue ''QJSValueIterator'']]"

definition vmeth_qtqml_0_8 :: "binding list" where
  "vmeth_qtqml_0_8 = [
     Bind [TypeM QTCORE_QOBJECT] ''object'' [] RObject [OnValue QQmlError, OnValue ''QQmlIncubator'', OnValue QQmlListReference],
     Bind [ValueM QTQML_QJSVALUE] ''property'' [PString True] (RValue QJSValue) [OnValue QJSManagedValue, OnValue QJSValue],
     Bind [ValueM ''QTQML_QJSMANAGEDVALUE''] ''prototype'' [] (RValue QJSManagedValue) [OnValue QJSManagedValue],
     Bind [ValueM QTQML_QJSVALUE] ''prototype'' [] (RValue QJSValue) [OnValue QJSValue],
     Bind [] ''removeLast'' [] RBool [OnValue QQmlListReference],
     Bind [TypeM QTCORE_QOBJECT] ''replace'' [PWide ''qsizetype'', PNonNull QObject_ptr] RBool [OnValue QQmlListReference]]"

definition vmeth_qtqml_0_9 :: "binding list" where
  "vmeth_qtqml_0_9 = [
     Bind [] ''setColumn'' [PInt] RVoid [OnValue QQmlError],
     Bind [] ''setDescription'' [PString True] RVoid [OnValue QQmlError],
     Bind [] ''setLine'' [PInt] RVoid [OnValue QQmlError],
     Bind [TypeM QTCORE_QOBJECT] ''setObject'' [PNonNull QObject_ptr] RVoid [OnValue QQmlError],
     Bind [ValueM QTQML_QJSVALUE] ''setProperty'' [PString True, PConv QJSValue] RVoid [OnValue QJSManagedValue, OnValue QJSValue],
     Bind [ValueM ''QTQML_QJSMANAGEDVALUE''] ''setPrototype'' [PConv QJSManagedValue] RVoid [OnValue QJSManagedValue]]"

definition vmeth_qtqml_0_10 :: "binding list" where
  "vmeth_qtqml_0_10 = [
     Bind [ValueM QTQML_QJSVALUE] ''setPrototype'' [PConv QJSValue] RVoid [OnValue QJSValue],
     Bind [ValueM QTCORE_QURL] ''setUrl'' [PConv QUrl] RVoid [OnValue QQmlError],
     Bind [TypeM ''QTQML_QQMLINCUBATOR''] ''status'' [] (RMeta ''QQmlIncubator::Status'') [OnValue ''QQmlIncubator''],
     Bind [ValueM ''QTQML_QJSMANAGEDVALUE''] ''strictlyEquals'' [PConv QJSManagedValue] RBool [OnValue QJSManagedValue],
     Bind [ValueM ''QTQML_QJSPRIMITIVEVALUE''] ''strictlyEquals'' [PConv QJSPrimitiveValue] RBool [OnValue QJSPrimitiveValue],
     Bind [ValueM QTQML_QJSVALUE] ''strictlyEquals'' [PConv QJSValue] RBool [OnValue QJSValue]]"

definition vmeth_qtqml_0_11 :: "binding list" where
  "vmeth_qtqml_0_11 = [
     Bind [ValueM ''QTQML_QQMLERROR''] ''swap'' [PConv QQmlError] RVoid [OnValue QQmlError],
     Bind [] ''toBool'' [] RBool [OnValue QJSValue],
     Bind [] ''toBoolean'' [] RBool [OnValue QJSManagedValue, OnValue QJSPrimitiveValue],
     Bind [ValueM QTCORE_QDATETIME] ''toDateTime'' [] (RValue QDateTime) [OnValue QJSManagedValue, OnValue QJSValue],
     Bind [] ''toDouble'' [] RNumber [OnValue QJSPrimitiveValue],
     Bind [] ''toInteger'' [] RNumber [OnValue QJSManagedValue, OnValue QJSPrimitiveValue]]"

definition vmeth_qtqml_0_12 :: "binding list" where
  "vmeth_qtqml_0_12 = [
     Bind [ValueM QTQML_QJSVALUE] ''toJSValue'' [] (RValue QJSValue) [OnValue QJSManagedValue],
     Bind [] ''toNumber'' [] RNumber [OnValue QJSManagedValue, OnValue QJSValue],
     Bind [ValueM ''QTQML_QJSPRIMITIVEVALUE''] ''toPrimitive'' [] (RValue QJSPrimitiveValue) [OnValue QJSManagedValue, OnValue QJSValue],
     Bind [TypeM QTCORE_QOBJECT] ''toQObject'' [] RObject [OnValue QJSManagedValue, OnValue QJSValue],
     Bind [ValueM QTCORE_QREGULAREXPRESSION] ''toRegularExpression'' [] (RValue QRegularExpression) [OnValue QJSManagedValue]]"

definition vmeth_qtqml_0_13 :: "binding list" where
  "vmeth_qtqml_0_13 = [
     Bind [] ''toString'' [] RString [OnValue QJSManagedValue, OnValue QJSPrimitiveValue, OnValue QJSValue, OnValue QQmlError],
     Bind [ValueM QTCORE_QURL] ''toUrl'' [] (RValue QUrl) [OnValue QJSManagedValue],
     Bind [] ''toVariant'' [] RVariant [OnValue QJSManagedValue, OnValue QJSValue],
     Bind [TypeM QTQML_QJSVALUE] ''toVariant'' [PConv ''QJSValue::ObjectConversionBehavior''] RVariant [OnValue QJSValue],
     Bind [TypeM ''QTQML_QJSMANAGEDVALUE''] ''type'' [] (RMeta ''QJSManagedValue::Type'') [OnValue QJSManagedValue],
     Bind [TypeM ''QTQML_QJSPRIMITIVEVALUE''] ''type'' [] (RMeta ''QJSPrimitiveValue::Type'') [OnValue QJSPrimitiveValue]]"

definition vmeth_qtqml_0_14 :: "binding list" where
  "vmeth_qtqml_0_14 = [
     Bind [ValueM QTCORE_QURL] ''url'' [] (RValue QUrl) [OnValue QQmlError],
     Bind [ValueM QTQML_QJSVALUE] ''value'' [] (RValue QJSValue) [OnValue ''QJSValueIterator'']]"

definition vtypes_qtqml_0 :: "string list" where
  "vtypes_qtqml_0 = [QJSManagedValue, QJSPrimitiveValue, QJSValue, ''QJSValueIterator'', QQmlError, ''QQmlIncubationController'',
     ''QQmlIncubator'', QQmlListReference]"

definition vmeth_qtqml_1_0 :: "binding list" where
  "vmeth_qtqml_1_0 = [
     Bind [TypeM QTCORE_QOBJECT] ''connectNotifySignal'' [PNonNull QObject_ptr, PInt] RBool [OnValue QQmlProperty],
     Bind [] ''hasNotifySignal'' [] RBool [OnValue QQmlProperty],
     Bind [] ''index'' [] RNumber [OnValue QQmlProperty],
     Bind [] ''isBindable'' [] RBool [OnValue QQmlProperty],
     Bind [] ''isDesignable'' [] RBool [OnValue QQmlProperty],
     Bind [] ''isEmpty'' [] RBool [OnValue ''QQmlScriptString''],
     Bind [] ''isNullLiteral'' [] RBool [OnValue ''QQmlScriptString''],
     Bind [] ''isProperty'' [] RBool [OnValue QQmlProperty]]"

definition vmeth_qtqml_1_1 :: "binding list" where
  "vmeth_qtqml_1_1 = [
     Bind [] ''isResettable'' [] RBool [OnValue QQmlProperty],
     Bind [] ''isSignalProperty'' [] RBool [OnValue QQmlProperty],
     Bind [] ''isUndefinedLiteral'' [] RBool [OnValue ''QQmlScriptString''],
     Bind [] ''isValid'' [] RBool [OnValue QQmlProperty],
     Bind [] ''isWritable'' [] RBool [OnValue QQmlProperty],
     Bind [ValueM ''QTCORE_QMETAMETHOD''] ''method'' [] (RValue QMetaMethod) [OnValue QQmlProperty],
     Bind [] ''name'' [] RString [OnValue QQmlProperty],
     Bind [] ''needsNotifySignal'' [] RBool [OnValue QQmlProperty]]"

definition vmeth_qtqml_1_2 :: "binding list" where
  "vmeth_qtqml_1_2 = [
     Bind [TypeM QTCORE_QOBJECT] ''object'' [] RObject [OnValue QQmlProperty],
     Bind [ValueM ''QTCORE_QMETAPROPERTY''] ''property'' [] (RValue QMetaProperty) [OnValue QQmlProperty],
     Bind [ValueM QTCORE_QMETATYPE] ''propertyMetaType'' [] (RValue QMetaType) [OnValue QQmlProperty],
     Bind [] ''propertyType'' [] RNumber [OnValue QQmlProperty],
     Bind [TypeM ''QTQML_QQMLPROPERTY''] ''propertyTypeCategory'' [] (RMeta ''QQmlProperty::PropertyTypeCategory'') [OnValue QQmlProperty],
     Bind [] ''read'' [] RVariant [OnValue QQmlProperty],
     Bind [] ''reset'' [] RBool [OnValue QQmlProperty],
     Bind [] ''stringLiteral'' [] RString [OnValue ''QQmlScriptString'']]"

definition vmeth_qtqml_1_3 :: "binding list" where
  "vmeth_qtqml_1_3 = [
     Bind [ValueM ''QTQML_QQMLPROPERTY''] ''swap'' [PConv QQmlProperty] RVoid [OnValue QQmlProperty],
     Bind [TypeM ''QTQML_QQMLPROPERTY''] ''type'' [] (RMeta ''QQmlProperty::Type'') [OnValue QQmlProperty],
     Bind [] ''write'' [PVariant] RBool [OnValue QQmlProperty]]"

definition vtypes_qtqml_1 :: "string list" where
  "vtypes_qtqml_1 = [QQmlProperty, ''QQmlScriptString'']"

definition vmeth_qtquick_0_0 :: "binding list" where
  "vmeth_qtquick_0_0 = [
     Bind [] ''allocate'' [PInt, PInt] RVoid [OnValue QSGGeometry],
     Bind [] ''attributeCount'' [] RNumber [OnValue QSGGeometry],
     Bind [ValueM QTCORE_QRECTF] ''clipRect'' [] (RValue QRectF) [OnValue ''QSGClipNode''],
     Bind [ValueM QTGUI_QCOLOR] ''color'' [] (RValue QColor) [OnValue ''QSGFlatColorMaterial''],
     Bind [] ''devicePixelRatio'' [] RNumber [OnValue QQuickRenderTarget],
     Bind [] ''drawingMode'' [] RNumber [OnValue QSGGeometry],
     Bind [TypeM ''QTQUICK_QSGMATERIAL''] ''flags'' [] (RMeta ''QSGMaterial::Flags'') [OnValue ''QSGMaterial'']]"

definition vmeth_qtquick_0_1 :: "binding list" where
  "vmeth_qtquick_0_1 = [
     Bind [] ''indexCount'' [] RNumber [OnValue QSGGeometry],
     Bind [TypeM ''QTQUICK_QSGGEOMETRY''] ''indexDataPattern'' [] (RMeta ''QSGGeometry::DataPattern'') [OnValue QSGGeometry],
     Bind [] ''indexType'' [] RNumber [OnValue QSGGeometry],
     Bind [] ''isAutomaticPipelineCacheEnabled'' [] RBool [OnValue QQuickGraphicsConfiguration],
     Bind [] ''isDebugLayerEnabled'' [] RBool [OnValue QQuickGraphicsConfiguration],
     Bind [] ''isDebugMarkersEnabled'' [] RBool [OnValue QQuickGraphicsConfiguration],
     Bind [] ''isDepthBufferEnabledFor2D'' [] RBool [OnValue QQuickGraphicsConfiguration],
     Bind [] ''isNull'' [] RBool [OnValue QQuickGraphicsDevice, OnValue QQuickRenderTarget]]"

definition vmeth_qtquick_0_2 :: "binding list" where
  "vmeth_qtquick_0_2 = [
     Bind [] ''isRectangular'' [] RBool [OnValue ''QSGClipNode''],
     Bind [] ''lineWidth'' [] RNumber [OnValue QSGGeometry],
     Bind [] ''markIndexDataDirty'' [] RVoid [OnValue QSGGeometry],
     Bind [] ''markVertexDataDirty'' [] RVoid [OnValue QSGGeometry],
     Bind [] ''mirrorVertically'' [] RBool [OnValue QQuickRenderTarget],
     Bind [] ''pipelineCacheLoadFile'' [] RString [OnValue QQuickGraphicsConfiguration],
     Bind [] ''pipelineCacheSaveFile'' [] RString [OnValue QQuickGraphicsConfiguration],
     Bind [] ''prefersSoftwareDevice'' [] RBool [OnValue QQuickGraphicsConfiguration]]"

definition vmeth_qtquick_0_3 :: "binding list" where
  "vmeth_qtquick_0_3 = [
     Bind [] ''setAutomaticPipelineCache'' [PBool] RVoid [OnValue QQuickGraphicsConfiguration],
     Bind [ValueM QTCORE_QRECTF] ''setClipRect'' [PConv QRectF] RVoid [OnValue ''QSGClipNode''],
     Bind [ValueM QTGUI_QCOLOR] ''setColor'' [PConv QColor] RVoid [OnValue ''QSGFlatColorMaterial''],
     Bind [] ''setDebugLayer'' [PBool] RVoid [OnValue QQuickGraphicsConfiguration],
     Bind [] ''setDebugMarkers'' [PBool] RVoid [OnValue QQuickGraphicsConfiguration],
     Bind [] ''setDepthBufferFor2D'' [PBool] RVoid [OnValue QQuickGraphicsConfiguration],
     Bind [] ''setDevicePixelRatio'' [PReal ''qreal''] RVoid [OnValue QQuickRenderTarget]]"

definition vmeth_qtquick_0_4 :: "binding list" where
  "vmeth_qtquick_0_4 = [
     Bind [] ''setDrawingMode'' [PUInt] RVoid [OnValue QSGGeometry],
     Bind [TypeM ''QTQUICK_QSGMATERIAL''] ''setFlag'' [PConv ''QSGMaterial::Flags'', PBool] RVoid [OnValue ''QSGMaterial''],
     Bind [] ''setIndexCount'' [PInt] RVoid [OnValue QSGGeometry],
     Bind [TypeM ''QTQUICK_QSGGEOMETRY''] ''setIndexDataPattern'' [PConv ''QSGGeometry::DataPattern''] RVoid [OnValue QSGGeometry],
     Bind [] ''setIsRectangular'' [PBool] RVoid [OnValue ''QSGClipNode''],
     Bind [] ''setLineWidth'' [PReal ''float''] RVoid [OnValue QSGGeometry],
     Bind [] ''setMirrorVertically'' [PBool] RVoid [OnValue QQuickRenderTarget]]"

definition vmeth_qtquick_0_5 :: "binding list" where
  "vmeth_qtquick_0_5 = [
     Bind [] ''setPipelineCacheLoadFile'' [PString True] RVoid [OnValue QQuickGraphicsConfiguration],
     Bind [] ''setPipelineCacheSaveFile'' [PString True] RVoid [OnValue QQuickGraphicsConfiguration],
     Bind [] ''setPreferSoftwareDevice'' [PBool] RVoid [OnValue QQuickGraphicsConfiguration],
     Bind [] ''setRect'' [PReal ''qreal'', PReal ''qreal'', PReal ''qreal'', PReal ''qreal''] RVoid [OnValue ''QSGImageNode''],
     Bind [] ''setSourceRect'' [PReal ''qreal'', PReal ''qreal'', PReal ''qreal'', PReal ''qreal''] RVoid [OnValue ''QSGImageNode''],
     Bind [] ''setTimestamps'' [PBool] RVoid [OnValue QQuickGraphicsConfiguration]]"

definition vmeth_qtquick_0_6 :: "binding list" where
  "vmeth_qtquick_0_6 = [
     Bind [] ''setVertexCount'' [PInt] RVoid [OnValue QSGGeometry],
     Bind [TypeM ''QTQUICK_QSGGEOMETRY''] ''setVertexDataPattern'' [PConv ''QSGGeometry::DataPattern''] RVoid [OnValue QSGGeometry],
     Bind [] ''sizeOfIndex'' [] RNumber [OnValue QSGGeometry],
     Bind [] ''sizeOfVertex'' [] RNumber [OnValue QSGGeometry],
     Bind [] ''timestampsEnabled'' [] RBool [OnValue QQuickGraphicsConfiguration],
     Bind [] ''vertexCount'' [] RNumber [OnValue QSGGeometry],
     Bind [TypeM ''QTQUICK_QSGGEOMETRY''] ''vertexDataPattern'' [] (RMeta ''QSGGeometry::DataPattern'') [OnValue QSGGeometry],
     Bind [] ''viewCount'' [] RNumber [OnValue ''QSGMaterial'']]"

definition vtypes_qtquick_0 :: "string list" where
  "vtypes_qtquick_0 = [QQuickGraphicsConfiguration, QQuickGraphicsDevice, QQuickRenderTarget, ''QSGClipNode'', ''QSGFlatColorMaterial'',
     QSGGeometry, ''QSGImageNode'', ''QSGMaterial'']"

definition vmeth_qtquick_1_0 :: "binding list" where
  "vmeth_qtquick_1_0 = [
     Bind [TypeM QTQUICK_QSGTEXTURE] ''anisotropyLevel'' [] (RMeta ''QSGTexture::AnisotropyLevel'') [OnValue QSGOpaqueTextureMaterial],
     Bind [] ''childCount'' [] RNumber [OnValue ''QSGNode''],
     Bind [ValueM QTGUI_QCOLOR] ''color'' [] (RValue QColor) [OnValue ''QSGSimpleRectNode''],
     Bind [] ''combinedImageSamplerCount'' [PInt] RNumber [OnValue ''QSGMaterialShader''],
     Bind [TypeM QTQUICK_QSGTEXTURE] ''filtering'' [] (RMeta ''QSGTexture::Filtering'') [OnValue QSGOpaqueTextureMaterial, OnValue QSGSimpleTextureNode],
     Bind [TypeM ''QTQUICK_QSGMATERIALSHADER''] ''flags'' [] (RMeta ''QSGMaterialShader::Flags'') [OnValue ''QSGMaterialShader''],
     Bind [TypeM ''QTQUICK_QSGNODE''] ''flags'' [] (RMeta ''QSGNode::Flags'') [OnValue ''QSGNode'']]"

definition vmeth_qtquick_1_1 :: "binding list" where
  "vmeth_qtquick_1_1 = [
     Bind [TypeM QTQUICK_QSGTEXTURE] ''horizontalWrapMode'' [] (RMeta ''QSGTexture::WrapMode'') [OnValue QSGOpaqueTextureMaterial],
     Bind [] ''inheritedOpacity'' [] RNumber [OnValue ''QSGRenderNode''],
     Bind [] ''isSubtreeBlocked'' [] RBool [OnValue ''QSGNode''],
     Bind [TypeM QTQUICK_QSGTEXTURE] ''mipmapFiltering'' [] (RMeta ''QSGTexture::Filtering'') [OnValue QSGOpaqueTextureMaterial],
     Bind [] ''opacity'' [] RNumber [OnValue ''QSGOpacityNode''],
     Bind [] ''ownsTexture'' [] RBool [OnValue QSGSimpleTextureNode],
     Bind [] ''prepare'' [] RVoid [OnValue ''QSGRenderNode''],
     Bind [] ''preprocess'' [] RVoid [OnValue ''QSGNode'']]"

definition vmeth_qtquick_1_2 :: "binding list" where
  "vmeth_qtquick_1_2 = [
     Bind [ValueM QTCORE_QRECTF] ''rect'' [] (RValue QRectF) [OnValue ''QSGRenderNode'', OnValue ''QSGSimpleRectNode'', OnValue QSGSimpleTextureNode],
     Bind [] ''releaseResources'' [] RVoid [OnValue ''QSGRenderNode''],
     Bind [] ''removeAllChildNodes'' [] RVoid [OnValue ''QSGNode''],
     Bind [TypeM QTQUICK_QSGTEXTURE] ''setAnisotropyLevel'' [PConv ''QSGTexture::AnisotropyLevel''] RVoid [OnValue QSGOpaqueTextureMaterial],
     Bind [ValueM QTGUI_QCOLOR] ''setColor'' [PConv QColor] RVoid [OnValue ''QSGSimpleRectNode'']]"

definition vmeth_qtquick_1_3 :: "binding list" where
  "vmeth_qtquick_1_3 = [
     Bind [TypeM QTQUICK_QSGTEXTURE] ''setFiltering'' [PConv ''QSGTexture::Filtering''] RVoid [OnValue QSGOpaqueTextureMaterial, OnValue QSGSimpleTextureNode],
     Bind [TypeM ''QTQUICK_QSGMATERIALSHADER''] ''setFlag'' [PConv ''QSGMaterialShader::Flags'', PBool] RVoid [OnValue ''QSGMaterialShader''],
     Bind [TypeM ''QTQUICK_QSGMATERIALSHADER''] ''setFlags'' [PConv ''QSGMaterialShader::Flags''] RVoid [OnValue ''QSGMaterialShader''],
     Bind [TypeM ''QTQUICK_QSGNODE''] ''setFlags'' [PConv ''QSGNode::Flags'', PBool] RVoid [OnValue ''QSGNode''],
     Bind [TypeM QTQUICK_QSGTEXTURE] ''setHorizontalWrapMode'' [PConv ''QSGTexture::WrapMode''] RVoid [OnValue QSGOpaqueTextureMaterial],
     Bind [TypeM QTQUICK_QSGTEXTURE] ''setMipmapFiltering'' [PConv ''QSGTexture::Filtering''] RVoid [OnValue QSGOpaqueTextureMaterial]]"

definition vmeth_qtquick_1_4 :: "binding list" where
  "vmeth_qtquick_1_4 = [
     Bind [] ''setOpacity'' [PReal ''qreal''] RVoid [OnValue ''QSGOpacityNode''],
     Bind [] ''setOwnsTexture'' [PBool] RVoid [OnValue QSGSimpleTextureNode],
     Bind [ValueM QTCORE_QRECTF] ''setRect'' [PConv QRectF] RVoid [OnValue ''QSGSimpleRectNode'', OnValue QSGSimpleTextureNode],
     Bind [] ''setRect'' [PReal ''qreal'', PReal ''qreal'', PReal ''qreal'', PReal ''qreal''] RVoid [OnValue ''QSGRectangleNode'', OnValue ''QSGSimpleRectNode'', OnValue QSGSimpleTextureNode],
     Bind [ValueM QTCORE_QRECTF] ''setSourceRect'' [PConv QRectF] RVoid [OnValue QSGSimpleTextureNode]]"

definition vmeth_qtquick_1_5 :: "binding list" where
  "vmeth_qtquick_1_5 = [
     Bind [] ''setSourceRect'' [PReal ''qreal'', PReal ''qreal'', PReal ''qreal'', PReal ''qreal''] RVoid [OnValue QSGSimpleTextureNode],
     Bind [TypeM QTQUICK_QSGTEXTURE] ''setTexture'' [PNonNull ''QSGTexture*''] RVoid [OnValue QSGOpaqueTextureMaterial, OnValue QSGSimpleTextureNode],
     Bind [TypeM QTQUICK_QSGTEXTURE] ''setVerticalWrapMode'' [PConv ''QSGTexture::WrapMode''] RVoid [OnValue QSGOpaqueTextureMaterial],
     Bind [ValueM QTCORE_QRECTF] ''sourceRect'' [] (RValue QRectF) [OnValue QSGSimpleTextureNode],
     Bind [TypeM QTQUICK_QSGTEXTURE] ''texture'' [] RObject [OnValue QSGOpaqueTextureMaterial, OnValue QSGSimpleTextureNode],
     Bind [TypeM ''QTQUICK_QSGNODE''] ''type'' [] (RMeta ''QSGNode::NodeType'') [OnValue ''QSGNode'']]"

definition vmeth_qtquick_1_6 :: "binding list" where
  "vmeth_qtquick_1_6 = [
     Bind [TypeM QTQUICK_QSGTEXTURE] ''verticalWrapMode'' [] (RMeta ''QSGTexture::WrapMode'') [OnValue QSGOpaqueTextureMaterial]]"

definition vtypes_qtquick_1 :: "string list" where
  "vtypes_qtquick_1 = [''QSGMaterialShader'', ''QSGNode'', ''QSGOpacityNode'', QSGOpaqueTextureMaterial, ''QSGRectangleNode'',
     ''QSGRenderNode'', ''QSGSimpleRectNode'', QSGSimpleTextureNode]"

definition vmeth_qtquick_2_0 :: "binding list" where
  "vmeth_qtquick_2_0 = [
     Bind [TypeM QTGUI_QTEXTDOCUMENT, ValueM QTCORE_QPOINTF] ''addTextDocument'' [PConv QPointF, PNonNull QTextDocument_ptr, PInt, PInt] RVoid [OnValue ''QSGTextNode''],
     Bind [ValueM QTGUI_QMATRIX4X4] ''matrix'' [] (RValue QMatrix4x4) [OnValue ''QSGTransformNode''],
     Bind [ValueM QTGUI_QMATRIX4X4] ''setMatrix'' [PConv QMatrix4x4] RVoid [OnValue ''QSGTransformNode'']]"

definition vtypes_qtquick_2 :: "string list" where
  "vtypes_qtquick_2 = [''QSGTextNode'', ''QSGTransformNode'']"

definition vmeth_qtserialport_0_0 :: "binding list" where
  "vmeth_qtserialport_0_0 = [
     Bind [] ''description'' [] RString [OnValue QSerialPortInfo],
     Bind [] ''hasProductIdentifier'' [] RBool [OnValue QSerialPortInfo],
     Bind [] ''hasVendorIdentifier'' [] RBool [OnValue QSerialPortInfo],
     Bind [] ''isNull'' [] RBool [OnValue QSerialPortInfo],
     Bind [] ''manufacturer'' [] RString [OnValue QSerialPortInfo],
     Bind [] ''portName'' [] RString [OnValue QSerialPortInfo],
     Bind [] ''serialNumber'' [] RString [OnValue QSerialPortInfo],
     Bind [ValueM ''QTSERIALPORT_QSERIALPORTINFO''] ''swap'' [PConv QSerialPortInfo] RVoid [OnValue QSerialPortInfo]]"

definition vmeth_qtserialport_0_1 :: "binding list" where
  "vmeth_qtserialport_0_1 = [
     Bind [] ''systemLocation'' [] RString [OnValue QSerialPortInfo]]"

definition vtypes_qtserialport_0 :: "string list" where
  "vtypes_qtserialport_0 = [QSerialPortInfo]"

definition vmeth_qtsql_0_0 :: "binding list" where
  "vmeth_qtsql_0_0 = [
     Bind [ValueM ''QTSQL_QSQLFIELD''] ''append'' [PConv QSqlField] RVoid [OnValue ''QSqlIndex'', OnValue QSqlRecord],
     Bind [ValueM ''QTSQL_QSQLFIELD''] ''append'' [PConv QSqlField, PBool] RVoid [OnValue ''QSqlIndex''],
     Bind [] ''at'' [] RNumber [OnValue QSqlQuery],
     Bind [] ''boundValue'' [PString True] RVariant [OnValue QSqlQuery],
     Bind [] ''boundValue'' [PInt] RVariant [OnValue QSqlQuery],
     Bind [] ''boundValueName'' [PInt] RString [OnValue QSqlQuery]]"

definition vmeth_qtsql_0_1 :: "binding list" where
  "vmeth_qtsql_0_1 = [
     Bind [] ''boundValueNames'' [] (RList (IMeta QString)) [OnValue QSqlQuery],
     Bind [] ''clear'' [] RVoid [OnValue QSqlField, OnValue QSqlQuery, OnValue QSqlRecord],
     Bind [] ''clearValues'' [] RVoid [OnValue QSqlRecord],
     Bind [] ''close'' [] RVoid [OnValue QSqlDatabase],
     Bind [] ''commit'' [] RBool [OnValue QSqlDatabase],
     Bind [] ''connectOptions'' [] RString [OnValue QSqlDatabase],
     Bind [] ''connectionName'' [] RString [OnValue QSqlDatabase]]"

definition vmeth_qtsql_0_2 :: "binding list" where
  "vmeth_qtsql_0_2 = [
     Bind [] ''count'' [] RNumber [OnValue QSqlRecord],
     Bind [] ''cursorName'' [] RString [OnValue ''QSqlIndex''],
     Bind [] ''databaseName'' [] RString [OnValue QSqlDatabase],
     Bind [] ''databaseText'' [] RString [OnValue ''QSqlError''],
     Bind [] ''defaultValue'' [] RVariant [OnValue QSqlField],
     Bind [] ''displayColumn'' [] RString [OnValue ''QSqlRelation''],
     Bind [TypeM ''QTSQL_QSQLDRIVER''] ''driver'' [] RObject [OnValue QSqlDatabase, OnValue QSqlQuery],
     Bind [] ''driverName'' [] RString [OnValue QSqlDatabase]]"

definition vmeth_qtsql_0_3 :: "binding list" where
  "vmeth_qtsql_0_3 = [
     Bind [] ''driverText'' [] RString [OnValue ''QSqlError''],
     Bind [] ''exec'' [] RBool [OnValue QSqlQuery],
     Bind [ValueM ''QTSQL_QSQLQUERY''] ''exec'' [PString True] (RValue QSqlQuery) [OnValue QSqlDatabase],
     Bind [] ''exec'' [PString True] RBool [OnValue QSqlQuery],
     Bind [TypeM ''QTSQL_QSQLQUERY''] ''execBatch'' [PConv ''QSqlQuery::BatchExecutionMode''] RBool [OnValue QSqlQuery],
     Bind [] ''executedQuery'' [] RString [OnValue QSqlQuery],
     Bind [ValueM ''QTSQL_QSQLFIELD''] ''field'' [PInt] (RValue QSqlField) [OnValue QSqlRecord]]"

definition vmeth_qtsql_0_4 :: "binding list" where
  "vmeth_qtsql_0_4 = [
     Bind [] ''fieldName'' [PInt] RString [OnValue QSqlRecord],
     Bind [] ''finish'' [] RVoid [OnValue QSqlQuery],
     Bind [] ''first'' [] RBool [OnValue QSqlQuery],
     Bind [] ''handle'' [] RVariant [OnValue ''QSqlResult''],
     Bind [] ''hostName'' [] RString [OnValue QSqlDatabase],
     Bind [] ''indexColumn'' [] RString [OnValue ''QSqlRelation''],
     Bind [ValueM ''QTSQL_QSQLFIELD''] ''insert'' [PInt, PConv QSqlField] RVoid [OnValue QSqlRecord],
     Bind [] ''isActive'' [] RBool [OnValue QSqlQuery]]"

definition vmeth_qtsql_0_5 :: "binding list" where
  "vmeth_qtsql_0_5 = [
     Bind [] ''isAutoValue'' [] RBool [OnValue QSqlField],
     Bind [] ''isDescending'' [PInt] RBool [OnValue ''QSqlIndex''],
     Bind [] ''isEmpty'' [] RBool [OnValue QSqlRecord],
     Bind [] ''isForwardOnly'' [] RBool [OnValue QSqlQuery],
     Bind [] ''isGenerated'' [] RBool [OnValue QSqlField],
     Bind [] ''isGenerated'' [PInt] RBool [OnValue QSqlRecord],
     Bind [] ''isNull'' [] RBool [OnValue QSqlField]]"

definition vmeth_qtsql_0_6 :: "binding list" where
  "vmeth_qtsql_0_6 = [
     Bind [] ''isNull'' [PInt] RBool [OnValue QSqlQuery, OnValue QSqlRecord],
     Bind [] ''isOpen'' [] RBool [OnValue QSqlDatabase],
     Bind [] ''isOpenError'' [] RBool [OnValue QSqlDatabase],
     Bind [] ''isPositionalBindingEnabled'' [] RBool [OnValue QSqlQuery],
     Bind [] ''isReadOnly'' [] RBool [OnValue QSqlField],
     Bind [] ''isSelect'' [] RBool [OnValue QSqlQuery]]"

definition vmeth_qtsql_0_7 :: "binding list" where
  "vmeth_qtsql_0_7 = [
     Bind [] ''isValid'' [] RBool [OnValue QSqlDatabase, OnValue ''QSqlError'', OnValue QSqlField, OnValue QSqlQuery, OnValue ''QSqlRelation''],
     Bind [ValueM ''QTSQL_QSQLRECORD''] ''keyValues'' [PConv QSqlRecord] (RValue QSqlRecord) [OnValue QSqlRecord],
     Bind [] ''last'' [] RBool [OnValue QSqlQuery],
     Bind [ValueM ''QTSQL_QSQLERROR''] ''lastError'' [] (RValue ''QSqlError'') [OnValue QSqlDatabase, OnValue QSqlQuery],
     Bind [] ''lastInsertId'' [] RVariant [OnValue QSqlQuery],
     Bind [] ''lastQuery'' [] RString [OnValue QSqlQuery]]"

definition vmeth_qtsql_0_8 :: "binding list" where
  "vmeth_qtsql_0_8 = [
     Bind [] ''length'' [] RNumber [OnValue QSqlField],
     Bind [ValueM QTCORE_QMETATYPE] ''metaType'' [] (RValue QMetaType) [OnValue QSqlField],
     Bind [TypeM ''QTCORE_QTHREAD''] ''moveToThread'' [PNonNull ''QThread*''] RBool [OnValue QSqlDatabase],
     Bind [] ''name'' [] RString [OnValue QSqlField, OnValue ''QSqlIndex''],
     Bind [] ''nativeErrorCode'' [] RString [OnValue ''QSqlError''],
     Bind [] ''next'' [] RBool [OnValue QSqlQuery],
     Bind [] ''nextResult'' [] RBool [OnValue QSqlQuery]]"

definition vmeth_qtsql_0_9 :: "binding list" where
  "vmeth_qtsql_0_9 = [
     Bind [] ''numRowsAffected'' [] RNumber [OnValue QSqlQuery],
     Bind [] ''open'' [] RBool [OnValue QSqlDatabase],
     Bind [] ''open'' [PString True, PString True] RBool [OnValue QSqlDatabase],
     Bind [] ''password'' [] RString [OnValue QSqlDatabase],
     Bind [] ''port'' [] RNumber [OnValue QSqlDatabase],
     Bind [] ''precision'' [] RNumber [OnValue QSqlField],
     Bind [] ''prepare'' [PString True] RBool [OnValue QSqlQuery],
     Bind [] ''previous'' [] RBool [OnValue QSqlQuery]]"

definition vmeth_qtsql_0_10 :: "binding list" where
  "vmeth_qtsql_0_10 = [
     Bind [ValueM ''QTSQL_QSQLINDEX''] ''primaryIndex'' [PString True] (RValue ''QSqlIndex'') [OnValue QSqlDatabase],
     Bind [ValueM ''QTSQL_QSQLRECORD''] ''record'' [] (RValue QSqlRecord) [OnValue QSqlQuery],
     Bind [ValueM ''QTSQL_QSQLRECORD''] ''record'' [PString True] (RValue QSqlRecord) [OnValue QSqlDatabase],
     Bind [] ''remove'' [PInt] RVoid [OnValue QSqlRecord],
     Bind [ValueM ''QTSQL_QSQLFIELD''] ''replace'' [PInt, PConv QSqlField] RVoid [OnValue QSqlRecord],
     Bind [TypeM ''QTSQL_QSQLFIELD''] ''requiredStatus'' [] (RMeta ''QSqlField::RequiredStatus'') [OnValue QSqlField],
     Bind [] ''rollback'' [] RBool [OnValue QSqlDatabase]]"

definition vmeth_qtsql_0_11 :: "binding list" where
  "vmeth_qtsql_0_11 = [
     Bind [] ''seek'' [PInt, PBool] RBool [OnValue QSqlQuery],
     Bind [] ''setAutoValue'' [PBool] RVoid [OnValue QSqlField],
     Bind [] ''setConnectOptions'' [PString True] RVoid [OnValue QSqlDatabase],
     Bind [] ''setCursorName'' [PString True] RVoid [OnValue ''QSqlIndex''],
     Bind [] ''setDatabaseName'' [PString True] RVoid [OnValue QSqlDatabase],
     Bind [] ''setDefaultValue'' [PVariant] RVoid [OnValue QSqlField],
     Bind [] ''setDescending'' [PInt, PBool] RVoid [OnValue ''QSqlIndex'']]"

definition vmeth_qtsql_0_12 :: "binding list" where
  "vmeth_qtsql_0_12 = [
     Bind [] ''setForwardOnly'' [PBool] RVoid [OnValue QSqlQuery],
     Bind [] ''setGenerated'' [PBool] RVoid [OnValue QSqlField],
     Bind [] ''setGenerated'' [PInt, PBool] RVoid [OnValue QSqlRecord],
     Bind [] ''setHostName'' [PString True] RVoid [OnValue QSqlDatabase],
     Bind [] ''setLength'' [PInt] RVoid [OnValue QSqlField],
     Bind [ValueM QTCORE_QMETATYPE] ''setMetaType'' [PConv QMetaType] RVoid [OnValue QSqlField]]"

definition vmeth_qtsql_0_13 :: "binding list" where
  "vmeth_qtsql_0_13 = [
     Bind [] ''setName'' [PString True] RVoid [OnValue QSqlField, OnValue ''QSqlIndex''],
     Bind [] ''setNull'' [PInt] RVoid [OnValue QSqlRecord],
     Bind [] ''setPassword'' [PString True] RVoid [OnValue QSqlDatabase],
     Bind [] ''setPort'' [PInt] RVoid [OnValue QSqlDatabase],
     Bind [] ''setPositionalBindingEnabled'' [PBool] RVoid [OnValue QSqlQuery],
     Bind [] ''setPrecision'' [PInt] RVoid [OnValue QSqlField]]"

definition vmeth_qtsql_0_14 :: "binding list" where
  "vmeth_qtsql_0_14 = [
     Bind [] ''setReadOnly'' [PBool] RVoid [OnValue QSqlField],
     Bind [] ''setRequired'' [PBool] RVoid [OnValue QSqlField],
     Bind [TypeM ''QTSQL_QSQLFIELD''] ''setRequiredStatus'' [PConv ''QSqlField::RequiredStatus''] RVoid [OnValue QSqlField],
     Bind [] ''setSqlType'' [PInt] RVoid [OnValue QSqlField],
     Bind [] ''setTableName'' [PString True] RVoid [OnValue QSqlField],
     Bind [] ''setUserName'' [PString True] RVoid [OnValue QSqlDatabase],
     Bind [] ''setValue'' [PVariant] RVoid [OnValue QSqlField]]"

definition vmeth_qtsql_0_15 :: "binding list" where
  "vmeth_qtsql_0_15 = [
     Bind [] ''setValue'' [PInt, PVariant] RVoid [OnValue QSqlRecord],
     Bind [] ''size'' [] RNumber [OnValue QSqlQuery],
     Bind [ValueM ''QTSQL_QSQLERROR''] ''swap'' [PConv ''QSqlError''] RVoid [OnValue ''QSqlError''],
     Bind [ValueM ''QTSQL_QSQLFIELD''] ''swap'' [PConv QSqlField] RVoid [OnValue QSqlField],
     Bind [ValueM ''QTSQL_QSQLINDEX''] ''swap'' [PConv ''QSqlIndex''] RVoid [OnValue ''QSqlIndex''],
     Bind [ValueM ''QTSQL_QSQLQUERY''] ''swap'' [PConv QSqlQuery] RVoid [OnValue QSqlQuery]]"

definition vmeth_qtsql_0_16 :: "binding list" where
  "vmeth_qtsql_0_16 = [
     Bind [ValueM ''QTSQL_QSQLRECORD''] ''swap'' [PConv QSqlRecord] RVoid [OnValue QSqlRecord],
     Bind [ValueM ''QTSQL_QSQLRELATION''] ''swap'' [PConv ''QSqlRelation''] RVoid [OnValue ''QSqlRelation''],
     Bind [] ''tableName'' [] RString [OnValue QSqlField, OnValue ''QSqlRelation''],
     Bind [] ''text'' [] RString [OnValue ''QSqlError''],
     Bind [TypeM ''QTCORE_QTHREAD''] ''thread'' [] RObject [OnValue QSqlDatabase],
     Bind [] ''transaction'' [] RBool [OnValue QSqlDatabase],
     Bind [TypeM ''QTSQL_QSQLERROR''] ''type'' [] (RMeta ''QSqlError::ErrorType'') [OnValue ''QSqlError'']]"

definition vmeth_qtsql_0_17 :: "binding list" where
  "vmeth_qtsql_0_17 = [
     Bind [] ''typeID'' [] RNumber [OnValue QSqlField],
     Bind [] ''userName'' [] RString [OnValue QSqlDatabase],
     Bind [] ''value'' [] RVariant [OnValue QSqlField],
     Bind [] ''value'' [PInt] RVariant [OnValue QSqlQuery, OnValue QSqlRecord]]"

definition vtypes_qtsql_0 :: "string list" where
  "vtypes_qtsql_0 = [QSqlDatabase, ''QSqlError'', QSqlField, ''QSqlIndex'', QSqlQuery, QSqlRecord, ''QSqlRelation'', ''QSqlResult'']"

definition vmeth_table_rest_b :: "(string \<times> shard) list" where
  "vmeth_table_rest_b = [
     (''qtopengl_1'', \<lparr>sh_module = ''QtOpenGL'', sh_slug = ''QTOPENGL'',
        sh_bindings = concat [vmeth_qtopengl_1_0, vmeth_qtopengl_1_1, vmeth_qtopengl_1_2, vmeth_qtopengl_1_3, vmeth_qtopengl_1_4, vmeth_qtopengl_1_5, vmeth_qtopengl_1_6, vmeth_qtopengl_1_7, vmeth_qtopengl_1_8, vmeth_qtopengl_1_9, vmeth_qtopengl_1_10, vmeth_qtopengl_1_11, vmeth_qtopengl_1_12, vmeth_qtopengl_1_13, vmeth_qtopengl_1_14]\<rparr>),
     (''qtpdf_0'', \<lparr>sh_module = ''QtPdf'', sh_slug = ''QTPDF'',
        sh_bindings = concat [vmeth_qtpdf_0_0, vmeth_qtpdf_0_1, vmeth_qtpdf_0_2, vmeth_qtpdf_0_3]\<rparr>),
     (''qtpositioning_0'', \<lparr>sh_module = ''QtPositioning'', sh_slug = ''QTPOSITIONING'',
        sh_bindings = concat [vmeth_qtpositioning_0_0, vmeth_qtpositioning_0_1, vmeth_qtpositioning_0_2, vmeth_qtpositioning_0_3, vmeth_qtpositioning_0_4, vmeth_qtpositioning_0_5, vmeth_qtpositioning_0_6, vmeth_qtpositioning_0_7, vmeth_qtpositioning_0_8, vmeth_qtpositioning_0_9, vmeth_qtpositioning_0_10, vmeth_qtpositioning_0_11, vmeth_qtpositioning_0_12, vmeth_qtpositioning_0_13, vmeth_qtpositioning_0_14, vmeth_qtpositioning_0_15]\<rparr>),
     (''qtpositioning_1'', \<lparr>sh_module = ''QtPositioning'', sh_slug = ''QTPOSITIONING'',
        sh_bindings = concat [vmeth_qtpositioning_1_0, vmeth_qtpositioning_1_1, vmeth_qtpositioning_1_2, vmeth_qtpositioning_1_3, vmeth_qtpositioning_1_4, vmeth_qtpositioning_1_5]\<rparr>),
     (''qtprintsupport_0'', \<lparr>sh_module = ''QtPrintSupport'', sh_slug = ''QTPRINTSUPPORT'',
        sh_bindings = concat [vmeth_qtprintsupport_0_0, vmeth_qtprintsupport_0_1, vmeth_qtprintsupport_0_2, vmeth_qtprintsupport_0_3, vmeth_qtprintsupport_0_4, vmeth_qtprintsupport_0_5, vmeth_qtprintsupport_0_6, vmeth_qtprintsupport_0_7, vmeth_qtprintsupport_0_8]\<rparr>),
     (''qtqml_0'', \<lparr>sh_module = ''QtQml'', sh_slug = ''QTQML'',
        sh_bindings = concat [vmeth_qtqml_0_0, vmeth_qtqml_0_1, vmeth_qtqml_0_2, vmeth_qtqml_0_3, vmeth_qtqml_0_4, vmeth_qtqml_0_5, vmeth_qtqml_0_6, vmeth_qtqml_0_7, vmeth_qtqml_0_8, vmeth_qtqml_0_9, vmeth_qtqml_0_10, vmeth_qtqml_0_11, vmeth_qtqml_0_12, vmeth_qtqml_0_13, vmeth_qtqml_0_14]\<rparr>),
     (''qtqml_1'', \<lparr>sh_module = ''QtQml'', sh_slug = ''QTQML'',
        sh_bindings = concat [vmeth_qtqml_1_0, vmeth_qtqml_1_1, vmeth_qtqml_1_2, vmeth_qtqml_1_3]\<rparr>),
     (''qtquick_0'', \<lparr>sh_module = ''QtQuick'', sh_slug = ''QTQUICK'',
        sh_bindings = concat [vmeth_qtquick_0_0, vmeth_qtquick_0_1, vmeth_qtquick_0_2, vmeth_qtquick_0_3, vmeth_qtquick_0_4, vmeth_qtquick_0_5, vmeth_qtquick_0_6]\<rparr>),
     (''qtquick_1'', \<lparr>sh_module = ''QtQuick'', sh_slug = ''QTQUICK'',
        sh_bindings = concat [vmeth_qtquick_1_0, vmeth_qtquick_1_1, vmeth_qtquick_1_2, vmeth_qtquick_1_3, vmeth_qtquick_1_4, vmeth_qtquick_1_5, vmeth_qtquick_1_6]\<rparr>),
     (''qtquick_2'', \<lparr>sh_module = ''QtQuick'', sh_slug = ''QTQUICK'',
        sh_bindings = concat [vmeth_qtquick_2_0]\<rparr>),
     (''qtserialport_0'', \<lparr>sh_module = ''QtSerialPort'', sh_slug = ''QTSERIALPORT'',
        sh_bindings = concat [vmeth_qtserialport_0_0, vmeth_qtserialport_0_1]\<rparr>),
     (''qtsql_0'', \<lparr>sh_module = ''QtSql'', sh_slug = ''QTSQL'',
        sh_bindings = concat [vmeth_qtsql_0_0, vmeth_qtsql_0_1, vmeth_qtsql_0_2, vmeth_qtsql_0_3, vmeth_qtsql_0_4, vmeth_qtsql_0_5, vmeth_qtsql_0_6, vmeth_qtsql_0_7, vmeth_qtsql_0_8, vmeth_qtsql_0_9, vmeth_qtsql_0_10, vmeth_qtsql_0_11, vmeth_qtsql_0_12, vmeth_qtsql_0_13, vmeth_qtsql_0_14, vmeth_qtsql_0_15, vmeth_qtsql_0_16, vmeth_qtsql_0_17]\<rparr>)]"

lemmas vmeth_table_rest_b_defs =
  vmeth_qtopengl_1_0_def vmeth_qtopengl_1_1_def vmeth_qtopengl_1_2_def vmeth_qtopengl_1_3_def
  vmeth_qtopengl_1_4_def vmeth_qtopengl_1_5_def vmeth_qtopengl_1_6_def vmeth_qtopengl_1_7_def
  vmeth_qtopengl_1_8_def vmeth_qtopengl_1_9_def vmeth_qtopengl_1_10_def vmeth_qtopengl_1_11_def
  vmeth_qtopengl_1_12_def vmeth_qtopengl_1_13_def vmeth_qtopengl_1_14_def vmeth_qtpdf_0_0_def
  vmeth_qtpdf_0_1_def vmeth_qtpdf_0_2_def vmeth_qtpdf_0_3_def vmeth_qtpositioning_0_0_def
  vmeth_qtpositioning_0_1_def vmeth_qtpositioning_0_2_def vmeth_qtpositioning_0_3_def
  vmeth_qtpositioning_0_4_def vmeth_qtpositioning_0_5_def vmeth_qtpositioning_0_6_def
  vmeth_qtpositioning_0_7_def vmeth_qtpositioning_0_8_def vmeth_qtpositioning_0_9_def
  vmeth_qtpositioning_0_10_def vmeth_qtpositioning_0_11_def vmeth_qtpositioning_0_12_def
  vmeth_qtpositioning_0_13_def vmeth_qtpositioning_0_14_def vmeth_qtpositioning_0_15_def
  vmeth_qtpositioning_1_0_def vmeth_qtpositioning_1_1_def vmeth_qtpositioning_1_2_def
  vmeth_qtpositioning_1_3_def vmeth_qtpositioning_1_4_def vmeth_qtpositioning_1_5_def
  vmeth_qtprintsupport_0_0_def vmeth_qtprintsupport_0_1_def vmeth_qtprintsupport_0_2_def
  vmeth_qtprintsupport_0_3_def vmeth_qtprintsupport_0_4_def vmeth_qtprintsupport_0_5_def
  vmeth_qtprintsupport_0_6_def vmeth_qtprintsupport_0_7_def vmeth_qtprintsupport_0_8_def vmeth_qtqml_0_0_def
  vmeth_qtqml_0_1_def vmeth_qtqml_0_2_def vmeth_qtqml_0_3_def vmeth_qtqml_0_4_def vmeth_qtqml_0_5_def
  vmeth_qtqml_0_6_def vmeth_qtqml_0_7_def vmeth_qtqml_0_8_def vmeth_qtqml_0_9_def vmeth_qtqml_0_10_def
  vmeth_qtqml_0_11_def vmeth_qtqml_0_12_def vmeth_qtqml_0_13_def vmeth_qtqml_0_14_def vmeth_qtqml_1_0_def
  vmeth_qtqml_1_1_def vmeth_qtqml_1_2_def vmeth_qtqml_1_3_def vmeth_qtquick_0_0_def vmeth_qtquick_0_1_def
  vmeth_qtquick_0_2_def vmeth_qtquick_0_3_def vmeth_qtquick_0_4_def vmeth_qtquick_0_5_def vmeth_qtquick_0_6_def
  vmeth_qtquick_1_0_def vmeth_qtquick_1_1_def vmeth_qtquick_1_2_def vmeth_qtquick_1_3_def vmeth_qtquick_1_4_def
  vmeth_qtquick_1_5_def vmeth_qtquick_1_6_def vmeth_qtquick_2_0_def vmeth_qtserialport_0_0_def
  vmeth_qtserialport_0_1_def vmeth_qtsql_0_0_def vmeth_qtsql_0_1_def vmeth_qtsql_0_2_def vmeth_qtsql_0_3_def
  vmeth_qtsql_0_4_def vmeth_qtsql_0_5_def vmeth_qtsql_0_6_def vmeth_qtsql_0_7_def vmeth_qtsql_0_8_def
  vmeth_qtsql_0_9_def vmeth_qtsql_0_10_def vmeth_qtsql_0_11_def vmeth_qtsql_0_12_def vmeth_qtsql_0_13_def
  vmeth_qtsql_0_14_def vmeth_qtsql_0_15_def vmeth_qtsql_0_16_def vmeth_qtsql_0_17_def

lemma vmeth_table_rest_b_value_blocks: "list_all (\<lambda>(s, sh). value_blocks sh) vmeth_table_rest_b"
  by (simp add: vmeth_table_rest_b_def vmeth_table_rest_b_defs value_blocks_def value_shard_def; (simp add: parameter_text_def qt_name_defs)?)

end
