(* ===== verification/Value_Methods_Rest_C.thy ===== *)
theory Value_Methods_Rest_C
  imports Shard_Methods Qt_Names
begin

text \<open>
  Tables of the value method shards (generated\_value\_methods): the blocks of every shard in the file's order, and the
  classes it can store by value.
\<close>

definition vmeth_qtsvg_0_0 :: "binding list" where
  "vmeth_qtsvg_0_0 = [
     Bind [] ''description'' [] RString [OnValue QSvgGenerator],
     Bind [] ''fileName'' [] RString [OnValue QSvgGenerator],
     Bind [TypeM QTCORE_QIODEVICE] ''outputDevice'' [] RObject [OnValue QSvgGenerator],
     Bind [] ''resolution'' [] RNumber [OnValue QSvgGenerator],
     Bind [] ''setDescription'' [PString True] RVoid [OnValue QSvgGenerator],
     Bind [] ''setFileName'' [PString True] RVoid [OnValue QSvgGenerator],
     Bind [TypeM QTCORE_QIODEVICE] ''setOutputDevice'' [PNonNull QIODevice_ptr] RVoid [OnValue QSvgGenerator]]"

definition vmeth_qtsvg_0_1 :: "binding list" where
  "vmeth_qtsvg_0_1 = [
     Bind [] ''setResolution'' [PInt] RVoid [OnValue QSvgGenerator],
     Bind [ValueM QTCORE_QSIZE] ''setSize'' [PConv QSize] RVoid [OnValue QSvgGenerator],
     Bind [] ''setTitle'' [PString True] RVoid [OnValue QSvgGenerator],
     Bind [ValueM QTCORE_QRECT] ''setViewBox'' [PConv QRect] RVoid [OnValue QSvgGenerator],
     Bind [ValueM QTCORE_QRECTF] ''setViewBox'' [PConv QRectF] RVoid [OnValue QSvgGenerator],
     Bind [ValueM QTCORE_QSIZE] ''size'' [] (RValue QSize) [OnValue QSvgGenerator],
     Bind [TypeM ''QTSVG_QSVGGENERATOR''] ''svgVersion'' [] (RMeta ''QSvgGenerator::SvgVersion'') [OnValue QSvgGenerator]]"

definition vmeth_qtsvg_0_2 :: "binding list" where
  "vmeth_qtsvg_0_2 = [
     Bind [] ''title'' [] RString [OnValue QSvgGenerator],
     Bind [ValueM QTCORE_QRECT] ''viewBox'' [] (RValue QRect) [OnValue QSvgGenerator],
     Bind [ValueM QTCORE_QRECTF] ''viewBoxF'' [] (RValue QRectF) [OnValue QSvgGenerator]]"

definition vtypes_qtsvg_0 :: "string list" where
  "vtypes_qtsvg_0 = [QSvgGenerator]"

definition vmeth_qttest_0_0 :: "binding list" where
  "vmeth_qttest_0_0 = [
     Bind [] ''isValid'' [] RBool [OnValue ''QSignalSpy''],
     Bind [ValueM QTCORE_QBYTEARRAY] ''signal'' [] (RValue QByteArray) [OnValue ''QSignalSpy''],
     Bind [] ''wait'' [PInt] RBool [OnValue ''QSignalSpy'']]"

definition vtypes_qttest_0 :: "string list" where
  "vtypes_qttest_0 = [''QSignalSpy'']"

definition vmeth_qttexttospeech_0_0 :: "binding list" where
  "vmeth_qttexttospeech_0_0 = [
     Bind [TypeM ''QTTEXTTOSPEECH_QVOICE''] ''age'' [] (RMeta ''QVoice::Age'') [OnValue ''QVoice''],
     Bind [TypeM ''QTTEXTTOSPEECH_QVOICE''] ''gender'' [] (RMeta ''QVoice::Gender'') [OnValue ''QVoice''],
     Bind [TypeM QTCORE_QLOCALE] ''language'' [] (RMeta ''QLocale::Language'') [OnValue ''QVoice''],
     Bind [ValueM QTCORE_QLOCALE] ''locale'' [] (RValue QLocale) [OnValue ''QVoice''],
     Bind [] ''name'' [] RString [OnValue ''QVoice''],
     Bind [ValueM ''QTTEXTTOSPEECH_QVOICE''] ''swap'' [PConv ''QVoice''] RVoid [OnValue ''QVoice'']]"

definition vtypes_qttexttospeech_0 :: "string list" where
  "vtypes_qttexttospeech_0 = [''QVoice'']"

definition vmeth_qtwebenginecore_0_0 :: "binding list" where
  "vmeth_qtwebenginecore_0_0 = [
     Bind [] ''accept'' [] RVoid [OnValue QWebEngineFullScreenRequest],
     Bind [] ''acceptCertificate'' [] RVoid [OnValue QWebEngineCertificateError],
     Bind [] ''activeMatch'' [] RNumber [OnValue ''QWebEngineFindTextResult''],
     Bind [ValueM QTNETWORK_QSSLCERTIFICATE, ValueM ''QTNETWORK_QSSLKEY''] ''add'' [PConv QSslCertificate, PConv ''QSslKey''] RVoid [OnValue ''QWebEngineClientCertificateStore''],
     Bind [ValueM QTNETWORK_QSSLCERTIFICATE] ''certificateChain'' [] (RList (IValue QSslCertificate)) [OnValue QWebEngineCertificateError],
     Bind [ValueM QTNETWORK_QSSLCERTIFICATE] ''certificates'' [] (RList (IValue QSslCertificate)) [OnValue QWebEngineClientCertificateSelection, OnValue ''QWebEngineClientCertificateStore'']]"

definition vmeth_qtwebenginecore_0_1 :: "binding list" where
  "vmeth_qtwebenginecore_0_1 = [
     Bind [] ''clear'' [] RVoid [OnValue ''QWebEngineClientCertificateStore''],
     Bind [] ''defer'' [] RVoid [OnValue QWebEngineCertificateError],
     Bind [] ''description'' [] RString [OnValue QWebEngineCertificateError],
     Bind [] ''errorCode'' [] RNumber [OnValue QWebEngineLoadingInfo],
     Bind [TypeM ''QTWEBENGINECORE_QWEBENGINELOADINGINFO''] ''errorDomain'' [] (RMeta ''QWebEngineLoadingInfo::ErrorDomain'') [OnValue QWebEngineLoadingInfo],
     Bind [] ''errorString'' [] RString [OnValue QWebEngineLoadingInfo],
     Bind [ValueM QTCORE_QBYTEARRAY] ''hasHeader'' [PConv QByteArray] RBool [OnValue QWebEngineHttpRequest]]"

definition vmeth_qtwebenginecore_0_2 :: "binding list" where
  "vmeth_qtwebenginecore_0_2 = [
     Bind [ValueM QTCORE_QBYTEARRAY] ''header'' [PConv QByteArray] (RValue QByteArray) [OnValue QWebEngineHttpRequest],
     Bind [ValueM QTCORE_QBYTEARRAY] ''headers'' [] (RList (IValue QByteArray)) [OnValue QWebEngineHttpRequest],
     Bind [ValueM QTCORE_QURL] ''host'' [] (RValue QUrl) [OnValue QWebEngineClientCertificateSelection],
     Bind [ValueM QTCORE_QURL] ''iconUrl'' [] (RValue QUrl) [OnValue QWebEngineHistoryItem],
     Bind [] ''isErrorPage'' [] RBool [OnValue QWebEngineLoadingInfo],
     Bind [] ''isOverridable'' [] RBool [OnValue QWebEngineCertificateError],
     Bind [] ''isValid'' [] RBool [OnValue QWebEngineHistoryItem]]"

definition vmeth_qtwebenginecore_0_3 :: "binding list" where
  "vmeth_qtwebenginecore_0_3 = [
     Bind [ValueM QTCORE_QDATETIME] ''lastVisited'' [] (RValue QDateTime) [OnValue QWebEngineHistoryItem],
     Bind [TypeM QTWEBENGINECORE_QWEBENGINEHTTPREQUEST] ''method'' [] (RMeta ''QWebEngineHttpRequest::Method'') [OnValue QWebEngineHttpRequest],
     Bind [] ''numberOfMatches'' [] RNumber [OnValue ''QWebEngineFindTextResult''],
     Bind [ValueM QTCORE_QURL] ''origin'' [] (RValue QUrl) [OnValue QWebEngineFullScreenRequest],
     Bind [ValueM QTCORE_QURL] ''originalUrl'' [] (RValue QUrl) [OnValue QWebEngineHistoryItem],
     Bind [ValueM QTCORE_QBYTEARRAY] ''postData'' [] (RValue QByteArray) [OnValue QWebEngineHttpRequest],
     Bind [] ''reject'' [] RVoid [OnValue QWebEngineFullScreenRequest]]"

definition vmeth_qtwebenginecore_0_4 :: "binding list" where
  "vmeth_qtwebenginecore_0_4 = [
     Bind [] ''rejectCertificate'' [] RVoid [OnValue QWebEngineCertificateError],
     Bind [ValueM QTNETWORK_QSSLCERTIFICATE] ''remove'' [PConv QSslCertificate] RVoid [OnValue ''QWebEngineClientCertificateStore''],
     Bind [ValueM QTNETWORK_QSSLCERTIFICATE] ''select'' [PConv QSslCertificate] RVoid [OnValue QWebEngineClientCertificateSelection],
     Bind [] ''selectNone'' [] RVoid [OnValue QWebEngineClientCertificateSelection],
     Bind [ValueM QTCORE_QBYTEARRAY] ''setHeader'' [PConv QByteArray, PConv QByteArray] RVoid [OnValue QWebEngineHttpRequest],
     Bind [TypeM QTWEBENGINECORE_QWEBENGINEHTTPREQUEST] ''setMethod'' [PConv ''QWebEngineHttpRequest::Method''] RVoid [OnValue QWebEngineHttpRequest]]"

definition vmeth_qtwebenginecore_0_5 :: "binding list" where
  "vmeth_qtwebenginecore_0_5 = [
     Bind [ValueM QTCORE_QBYTEARRAY] ''setPostData'' [PConv QByteArray] RVoid [OnValue QWebEngineHttpRequest],
     Bind [ValueM QTCORE_QURL] ''setUrl'' [PConv QUrl] RVoid [OnValue QWebEngineHttpRequest],
     Bind [TypeM ''QTWEBENGINECORE_QWEBENGINELOADINGINFO''] ''status'' [] (RMeta ''QWebEngineLoadingInfo::LoadStatus'') [OnValue QWebEngineLoadingInfo],
     Bind [ValueM QTWEBENGINECORE_QWEBENGINEHISTORYITEM] ''swap'' [PConv QWebEngineHistoryItem] RVoid [OnValue QWebEngineHistoryItem],
     Bind [ValueM QTWEBENGINECORE_QWEBENGINEHTTPREQUEST] ''swap'' [PConv QWebEngineHttpRequest] RVoid [OnValue QWebEngineHttpRequest],
     Bind [] ''title'' [] RString [OnValue QWebEngineHistoryItem],
     Bind [] ''toggleOn'' [] RBool [OnValue QWebEngineFullScreenRequest]]"

definition vmeth_qtwebenginecore_0_6 :: "binding list" where
  "vmeth_qtwebenginecore_0_6 = [
     Bind [TypeM ''QTWEBENGINECORE_QWEBENGINECERTIFICATEERROR''] ''type'' [] (RMeta ''QWebEngineCertificateError::Type'') [OnValue QWebEngineCertificateError],
     Bind [ValueM QTCORE_QBYTEARRAY] ''unsetHeader'' [PConv QByteArray] RVoid [OnValue QWebEngineHttpRequest],
     Bind [ValueM QTCORE_QURL] ''url'' [] (RValue QUrl) [OnValue QWebEngineCertificateError, OnValue QWebEngineHistoryItem, OnValue QWebEngineHttpRequest, OnValue QWebEngineLoadingInfo]]"

definition vtypes_qtwebenginecore_0 :: "string list" where
  "vtypes_qtwebenginecore_0 = [QWebEngineCertificateError, QWebEngineClientCertificateSelection, ''QWebEngineClientCertificateStore'',
     ''QWebEngineFindTextResult'', QWebEngineFullScreenRequest, QWebEngineHistoryItem, QWebEngineHttpRequest,
     QWebEngineLoadingInfo]"

definition vmeth_qtwebenginecore_1_0 :: "binding list" where
  "vmeth_qtwebenginecore_1_0 = [
     Bind [] ''accept'' [] RVoid [OnValue ''QWebEngineQuotaRequest'', OnValue QWebEngineRegisterProtocolHandlerRequest],
     Bind [] ''block'' [PBool] RVoid [OnValue QWebEngineUrlRequestInfo],
     Bind [] ''clear'' [] RVoid [OnValue QWebEngineScriptCollection],
     Bind [ValueM QTWEBENGINECORE_QWEBENGINESCRIPT] ''contains'' [PConv QWebEngineScript] RBool [OnValue QWebEngineScriptCollection],
     Bind [] ''count'' [] RNumber [OnValue QWebEngineScriptCollection],
     Bind [] ''defaultPort'' [] RNumber [OnValue QWebEngineUrlScheme],
     Bind [] ''defaultTextEncoding'' [] RString [OnValue QWebEngineSettings]]"

definition vmeth_qtwebenginecore_1_1 :: "binding list" where
  "vmeth_qtwebenginecore_1_1 = [
     Bind [ValueM QTWEBENGINECORE_QWEBENGINESCRIPT] ''find'' [PString True] (RList (IValue QWebEngineScript)) [OnValue QWebEngineScriptCollection],
     Bind [ValueM QTCORE_QURL] ''firstPartyUrl'' [] (RValue QUrl) [OnValue QWebEngineUrlRequestInfo],
     Bind [TypeM QTWEBENGINECORE_QWEBENGINEURLSCHEME] ''flags'' [] (RMeta ''QWebEngineUrlScheme::Flags'') [OnValue QWebEngineUrlScheme],
     Bind [TypeM QTWEBENGINECORE_QWEBENGINESETTINGS] ''fontFamily'' [PConv ''QWebEngineSettings::FontFamily''] RString [OnValue QWebEngineSettings],
     Bind [TypeM QTWEBENGINECORE_QWEBENGINESETTINGS] ''fontSize'' [PConv ''QWebEngineSettings::FontSize''] RNumber [OnValue QWebEngineSettings],
     Bind [ValueM QTCORE_QURL] ''initiator'' [] (RValue QUrl) [OnValue QWebEngineUrlRequestInfo]]"

definition vmeth_qtwebenginecore_1_2 :: "binding list" where
  "vmeth_qtwebenginecore_1_2 = [
     Bind [TypeM QTWEBENGINECORE_QWEBENGINESCRIPT] ''injectionPoint'' [] (RMeta ''QWebEngineScript::InjectionPoint'') [OnValue QWebEngineScript],
     Bind [ValueM QTWEBENGINECORE_QWEBENGINESCRIPT] ''insert'' [PListV QWebEngineScript] RVoid [OnValue QWebEngineScriptCollection],
     Bind [ValueM QTWEBENGINECORE_QWEBENGINESCRIPT] ''insert'' [PConv QWebEngineScript] RVoid [OnValue QWebEngineScriptCollection],
     Bind [] ''isEmpty'' [] RBool [OnValue QWebEngineScriptCollection],
     Bind [ValueM QTCORE_QBYTEARRAY] ''name'' [] (RValue QByteArray) [OnValue QWebEngineUrlScheme],
     Bind [] ''name'' [] RString [OnValue QWebEngineScript],
     Bind [TypeM ''QTWEBENGINECORE_QWEBENGINEURLREQUESTINFO''] ''navigationType'' [] (RMeta ''QWebEngineUrlRequestInfo::NavigationType'') [OnValue QWebEngineUrlRequestInfo]]"

definition vmeth_qtwebenginecore_1_3 :: "binding list" where
  "vmeth_qtwebenginecore_1_3 = [
     Bind [ValueM QTCORE_QURL] ''origin'' [] (RValue QUrl) [OnValue ''QWebEngineQuotaRequest'', OnValue QWebEngineRegisterProtocolHandlerRequest],
     Bind [ValueM QTCORE_QURL] ''redirect'' [PConv QUrl] RVoid [OnValue QWebEngineUrlRequestInfo],
     Bind [] ''reject'' [] RVoid [OnValue ''QWebEngineQuotaRequest'', OnValue QWebEngineRegisterProtocolHandlerRequest],
     Bind [ValueM QTWEBENGINECORE_QWEBENGINESCRIPT] ''remove'' [PConv QWebEngineScript] RBool [OnValue QWebEngineScriptCollection],
     Bind [ValueM QTCORE_QBYTEARRAY] ''requestMethod'' [] (RValue QByteArray) [OnValue QWebEngineUrlRequestInfo],
     Bind [ValueM QTCORE_QURL] ''requestUrl'' [] (RValue QUrl) [OnValue QWebEngineUrlRequestInfo]]"

definition vmeth_qtwebenginecore_1_4 :: "binding list" where
  "vmeth_qtwebenginecore_1_4 = [
     Bind [] ''requestedSize'' [] (RMeta ''qint64'') [OnValue ''QWebEngineQuotaRequest''],
     Bind [TypeM QTWEBENGINECORE_QWEBENGINESETTINGS] ''resetAttribute'' [PConv ''QWebEngineSettings::WebAttribute''] RVoid [OnValue QWebEngineSettings],
     Bind [TypeM QTWEBENGINECORE_QWEBENGINESETTINGS] ''resetFontFamily'' [PConv ''QWebEngineSettings::FontFamily''] RVoid [OnValue QWebEngineSettings],
     Bind [TypeM QTWEBENGINECORE_QWEBENGINESETTINGS] ''resetFontSize'' [PConv ''QWebEngineSettings::FontSize''] RVoid [OnValue QWebEngineSettings],
     Bind [] ''resetUnknownUrlSchemePolicy'' [] RVoid [OnValue QWebEngineSettings],
     Bind [TypeM ''QTWEBENGINECORE_QWEBENGINEURLREQUESTINFO''] ''resourceType'' [] (RMeta ''QWebEngineUrlRequestInfo::ResourceType'') [OnValue QWebEngineUrlRequestInfo],
     Bind [] ''runsOnSubFrames'' [] RBool [OnValue QWebEngineScript]]"

definition vmeth_qtwebenginecore_1_5 :: "binding list" where
  "vmeth_qtwebenginecore_1_5 = [
     Bind [] ''scheme'' [] RString [OnValue QWebEngineRegisterProtocolHandlerRequest],
     Bind [TypeM QTWEBENGINECORE_QWEBENGINESETTINGS] ''setAttribute'' [PConv ''QWebEngineSettings::WebAttribute'', PBool] RVoid [OnValue QWebEngineSettings],
     Bind [] ''setDefaultPort'' [PInt] RVoid [OnValue QWebEngineUrlScheme],
     Bind [] ''setDefaultTextEncoding'' [PString True] RVoid [OnValue QWebEngineSettings],
     Bind [TypeM QTWEBENGINECORE_QWEBENGINEURLSCHEME] ''setFlags'' [PConv ''QWebEngineUrlScheme::Flags''] RVoid [OnValue QWebEngineUrlScheme],
     Bind [TypeM QTWEBENGINECORE_QWEBENGINESETTINGS] ''setFontFamily'' [PConv ''QWebEngineSettings::FontFamily'', PString True] RVoid [OnValue QWebEngineSettings]]"

definition vmeth_qtwebenginecore_1_6 :: "binding list" where
  "vmeth_qtwebenginecore_1_6 = [
     Bind [TypeM QTWEBENGINECORE_QWEBENGINESETTINGS] ''setFontSize'' [PConv ''QWebEngineSettings::FontSize'', PInt] RVoid [OnValue QWebEngineSettings],
     Bind [ValueM QTCORE_QBYTEARRAY] ''setHttpHeader'' [PConv QByteArray, PConv QByteArray] RVoid [OnValue QWebEngineUrlRequestInfo],
     Bind [TypeM QTWEBENGINECORE_QWEBENGINESCRIPT] ''setInjectionPoint'' [PConv ''QWebEngineScript::InjectionPoint''] RVoid [OnValue QWebEngineScript],
     Bind [ValueM QTCORE_QBYTEARRAY] ''setName'' [PConv QByteArray] RVoid [OnValue QWebEngineUrlScheme],
     Bind [] ''setName'' [PString True] RVoid [OnValue QWebEngineScript],
     Bind [] ''setRunsOnSubFrames'' [PBool] RVoid [OnValue QWebEngineScript]]"

definition vmeth_qtwebenginecore_1_7 :: "binding list" where
  "vmeth_qtwebenginecore_1_7 = [
     Bind [] ''setSourceCode'' [PString True] RVoid [OnValue QWebEngineScript],
     Bind [ValueM QTCORE_QURL] ''setSourceUrl'' [PConv QUrl] RVoid [OnValue QWebEngineScript],
     Bind [TypeM QTWEBENGINECORE_QWEBENGINEURLSCHEME] ''setSyntax'' [PConv ''QWebEngineUrlScheme::Syntax''] RVoid [OnValue QWebEngineUrlScheme],
     Bind [TypeM QTWEBENGINECORE_QWEBENGINESETTINGS] ''setUnknownUrlSchemePolicy'' [PConv ''QWebEngineSettings::UnknownUrlSchemePolicy''] RVoid [OnValue QWebEngineSettings],
     Bind [] ''sourceCode'' [] RString [OnValue QWebEngineScript],
     Bind [ValueM QTCORE_QURL] ''sourceUrl'' [] (RValue QUrl) [OnValue QWebEngineScript],
     Bind [ValueM QTWEBENGINECORE_QWEBENGINESCRIPT] ''swap'' [PConv QWebEngineScript] RVoid [OnValue QWebEngineScript]]"

definition vmeth_qtwebenginecore_1_8 :: "binding list" where
  "vmeth_qtwebenginecore_1_8 = [
     Bind [TypeM QTWEBENGINECORE_QWEBENGINEURLSCHEME] ''syntax'' [] (RMeta ''QWebEngineUrlScheme::Syntax'') [OnValue QWebEngineUrlScheme],
     Bind [TypeM QTWEBENGINECORE_QWEBENGINESETTINGS] ''testAttribute'' [PConv ''QWebEngineSettings::WebAttribute''] RBool [OnValue QWebEngineSettings],
     Bind [ValueM QTWEBENGINECORE_QWEBENGINESCRIPT] ''toList'' [] (RList (IValue QWebEngineScript)) [OnValue QWebEngineScriptCollection],
     Bind [TypeM QTWEBENGINECORE_QWEBENGINESETTINGS] ''unknownUrlSchemePolicy'' [] (RMeta ''QWebEngineSettings::UnknownUrlSchemePolicy'') [OnValue QWebEngineSettings]]"

definition vtypes_qtwebenginecore_1 :: "string list" where
  "vtypes_qtwebenginecore_1 = [''QWebEngineQuotaRequest'', QWebEngineRegisterProtocolHandlerRequest, QWebEngineScript, QWebEngineScriptCollection,
     QWebEngineSettings, QWebEngineUrlRequestInfo, QWebEngineUrlScheme]"

definition vmeth_qtwebsockets_0_0 :: "binding list" where
  "vmeth_qtwebsockets_0_0 = [
     Bind [] ''allowed'' [] RBool [OnValue QWebSocketCorsAuthenticator],
     Bind [] ''origin'' [] RString [OnValue QWebSocketCorsAuthenticator],
     Bind [] ''setAllowed'' [PBool] RVoid [OnValue QWebSocketCorsAuthenticator],
     Bind [] ''setSubprotocols'' [PStringList] RVoid [OnValue QWebSocketHandshakeOptions],
     Bind [] ''subprotocols'' [] (RList (IMeta QString)) [OnValue QWebSocketHandshakeOptions],
     Bind [ValueM ''QTWEBSOCKETS_QWEBSOCKETCORSAUTHENTICATOR''] ''swap'' [PConv QWebSocketCorsAuthenticator] RVoid [OnValue QWebSocketCorsAuthenticator],
     Bind [ValueM ''QTWEBSOCKETS_QWEBSOCKETHANDSHAKEOPTIONS''] ''swap'' [PConv QWebSocketHandshakeOptions] RVoid [OnValue QWebSocketHandshakeOptions]]"

definition vtypes_qtwebsockets_0 :: "string list" where
  "vtypes_qtwebsockets_0 = [QWebSocketCorsAuthenticator, QWebSocketHandshakeOptions]"

definition vmeth_qtxml_0_0 :: "binding list" where
  "vmeth_qtxml_0_0 = [
     Bind [] ''appendData'' [PString True] RVoid [OnValue ''QDomCharacterData''],
     Bind [] ''attribute'' [PString True, PString True] RString [OnValue QDomElement],
     Bind [] ''attributeNS'' [PString True, PString True, PString True] RString [OnValue QDomElement],
     Bind [ValueM ''QTXML_QDOMATTR''] ''attributeNode'' [PString True] (RValue ''QDomAttr'') [OnValue QDomElement],
     Bind [ValueM ''QTXML_QDOMATTR''] ''attributeNodeNS'' [PString True, PString True] (RValue ''QDomAttr'') [OnValue QDomElement],
     Bind [ValueM ''QTXML_QDOMNAMEDNODEMAP''] ''attributes'' [] (RValue QDomNamedNodeMap) [OnValue QDomElement]]"

definition vmeth_qtxml_0_1 :: "binding list" where
  "vmeth_qtxml_0_1 = [
     Bind [ValueM ''QTXML_QDOMATTR''] ''createAttribute'' [PString True] (RValue ''QDomAttr'') [OnValue QDomDocument],
     Bind [ValueM ''QTXML_QDOMATTR''] ''createAttributeNS'' [PString True, PString True] (RValue ''QDomAttr'') [OnValue QDomDocument],
     Bind [ValueM ''QTXML_QDOMCDATASECTION''] ''createCDATASection'' [PString True] (RValue ''QDomCDATASection'') [OnValue QDomDocument],
     Bind [ValueM ''QTXML_QDOMCOMMENT''] ''createComment'' [PString True] (RValue ''QDomComment'') [OnValue QDomDocument],
     Bind [ValueM ''QTXML_QDOMDOCUMENTFRAGMENT''] ''createDocumentFragment'' [] (RValue ''QDomDocumentFragment'') [OnValue QDomDocument],
     Bind [ValueM ''QTXML_QDOMELEMENT''] ''createElement'' [PString True] (RValue QDomElement) [OnValue QDomDocument]]"

definition vmeth_qtxml_0_2 :: "binding list" where
  "vmeth_qtxml_0_2 = [
     Bind [ValueM ''QTXML_QDOMELEMENT''] ''createElementNS'' [PString True, PString True] (RValue QDomElement) [OnValue QDomDocument],
     Bind [ValueM ''QTXML_QDOMENTITYREFERENCE''] ''createEntityReference'' [PString True] (RValue ''QDomEntityReference'') [OnValue QDomDocument],
     Bind [ValueM ''QTXML_QDOMPROCESSINGINSTRUCTION''] ''createProcessingInstruction'' [PString True, PString True] (RValue QDomProcessingInstruction) [OnValue QDomDocument],
     Bind [ValueM ''QTXML_QDOMTEXT''] ''createTextNode'' [PString True] (RValue ''QDomText'') [OnValue QDomDocument],
     Bind [] ''data'' [] RString [OnValue ''QDomCharacterData''],
     Bind [ValueM ''QTXML_QDOMDOCUMENTTYPE''] ''doctype'' [] (RValue QDomDocumentType) [OnValue QDomDocument]]"

definition vmeth_qtxml_0_3 :: "binding list" where
  "vmeth_qtxml_0_3 = [
     Bind [ValueM ''QTXML_QDOMELEMENT''] ''documentElement'' [] (RValue QDomElement) [OnValue QDomDocument],
     Bind [ValueM ''QTXML_QDOMELEMENT''] ''elementById'' [PString True] (RValue QDomElement) [OnValue QDomDocument],
     Bind [ValueM ''QTXML_QDOMNODELIST''] ''elementsByTagName'' [PString True] (RValue ''QDomNodeList'') [OnValue QDomDocument, OnValue QDomElement],
     Bind [ValueM ''QTXML_QDOMNODELIST''] ''elementsByTagNameNS'' [PString True, PString True] (RValue ''QDomNodeList'') [OnValue QDomDocument, OnValue QDomElement],
     Bind [ValueM ''QTXML_QDOMNAMEDNODEMAP''] ''entities'' [] (RValue QDomNamedNodeMap) [OnValue QDomDocumentType],
     Bind [] ''hasAttribute'' [PString True] RBool [OnValue QDomElement]]"

definition vmeth_qtxml_0_4 :: "binding list" where
  "vmeth_qtxml_0_4 = [
     Bind [] ''hasAttributeNS'' [PString True, PString True] RBool [OnValue QDomElement],
     Bind [ValueM ''QTXML_QDOMIMPLEMENTATION''] ''implementation'' [] (RValue QDomImplementation) [OnValue QDomDocument],
     Bind [ValueM QTXML_QDOMNODE] ''importNode'' [PConv QDomNode, PBool] (RValue QDomNode) [OnValue QDomDocument],
     Bind [] ''internalSubset'' [] RString [OnValue QDomDocumentType],
     Bind [] ''length'' [] RNumber [OnValue ''QDomCharacterData''],
     Bind [] ''name'' [] RString [OnValue ''QDomAttr'', OnValue QDomDocumentType]]"

definition vmeth_qtxml_0_5 :: "binding list" where
  "vmeth_qtxml_0_5 = [
     Bind [TypeM QTXML_QDOMNODE] ''nodeType'' [] (RMeta ''QDomNode::NodeType'') [OnValue ''QDomAttr'', OnValue ''QDomCDATASection'', OnValue ''QDomCharacterData'', OnValue ''QDomComment'', OnValue QDomDocument, OnValue ''QDomDocumentFragment'', OnValue QDomDocumentType, OnValue QDomElement],
     Bind [ValueM ''QTXML_QDOMNAMEDNODEMAP''] ''notations'' [] (RValue QDomNamedNodeMap) [OnValue QDomDocumentType],
     Bind [ValueM ''QTXML_QDOMELEMENT''] ''ownerElement'' [] (RValue QDomElement) [OnValue ''QDomAttr''],
     Bind [] ''publicId'' [] RString [OnValue QDomDocumentType],
     Bind [] ''removeAttribute'' [PString True] RVoid [OnValue QDomElement]]"

definition vmeth_qtxml_0_6 :: "binding list" where
  "vmeth_qtxml_0_6 = [
     Bind [] ''removeAttributeNS'' [PString True, PString True] RVoid [OnValue QDomElement],
     Bind [ValueM ''QTXML_QDOMATTR''] ''removeAttributeNode'' [PConv ''QDomAttr''] (RValue ''QDomAttr'') [OnValue QDomElement],
     Bind [] ''setAttribute'' [PString True, PString True] RVoid [OnValue QDomElement],
     Bind [] ''setAttribute'' [PString True, PReal ''double''] RVoid [OnValue QDomElement],
     Bind [] ''setAttribute'' [PString True, PInt] RVoid [OnValue QDomElement, OnValue QDomElement, OnValue QDomElement]]"

definition vmeth_qtxml_0_7 :: "binding list" where
  "vmeth_qtxml_0_7 = [
     Bind [] ''setAttribute'' [PString True, PWide ''qint64''] RVoid [OnValue QDomElement, OnValue QDomElement, OnValue QDomElement],
     Bind [] ''setAttribute'' [PString True, PWide ''quint64''] RVoid [OnValue QDomElement, OnValue QDomElement, OnValue QDomElement],
     Bind [] ''setAttributeNS'' [PString True, PString True, PString True] RVoid [OnValue QDomElement],
     Bind [] ''setAttributeNS'' [PString True, PString True, PReal ''double''] RVoid [OnValue QDomElement],
     Bind [ValueM ''QTXML_QDOMATTR''] ''setAttributeNode'' [PConv ''QDomAttr''] (RValue ''QDomAttr'') [OnValue QDomElement]]"

definition vmeth_qtxml_0_8 :: "binding list" where
  "vmeth_qtxml_0_8 = [
     Bind [ValueM ''QTXML_QDOMATTR''] ''setAttributeNodeNS'' [PConv ''QDomAttr''] (RValue ''QDomAttr'') [OnValue QDomElement],
     Bind [] ''setData'' [PString True] RVoid [OnValue ''QDomCharacterData''],
     Bind [] ''setTagName'' [PString True] RVoid [OnValue QDomElement],
     Bind [] ''setValue'' [PString True] RVoid [OnValue ''QDomAttr''],
     Bind [] ''specified'' [] RBool [OnValue ''QDomAttr''],
     Bind [] ''systemId'' [] RString [OnValue QDomDocumentType],
     Bind [] ''tagName'' [] RString [OnValue QDomElement]]"

definition vmeth_qtxml_0_9 :: "binding list" where
  "vmeth_qtxml_0_9 = [
     Bind [] ''text'' [] RString [OnValue QDomElement],
     Bind [ValueM QTCORE_QBYTEARRAY] ''toByteArray'' [PInt] (RValue QByteArray) [OnValue QDomDocument],
     Bind [] ''toString'' [PInt] RString [OnValue QDomDocument],
     Bind [] ''value'' [] RString [OnValue ''QDomAttr'']]"

definition vtypes_qtxml_0 :: "string list" where
  "vtypes_qtxml_0 = [''QDomAttr'', ''QDomCDATASection'', ''QDomCharacterData'', ''QDomComment'', QDomDocument, ''QDomDocumentFragment'',
     QDomDocumentType, QDomElement]"

definition vmeth_qtxml_1_0 :: "binding list" where
  "vmeth_qtxml_1_0 = [
     Bind [ValueM QTXML_QDOMNODE] ''appendChild'' [PConv QDomNode] (RValue QDomNode) [OnValue QDomNode],
     Bind [ValueM QTXML_QDOMNODE] ''at'' [PInt] (RValue QDomNode) [OnValue ''QDomNodeList''],
     Bind [ValueM ''QTXML_QDOMNAMEDNODEMAP''] ''attributes'' [] (RValue QDomNamedNodeMap) [OnValue QDomNode],
     Bind [ValueM ''QTXML_QDOMNODELIST''] ''childNodes'' [] (RValue ''QDomNodeList'') [OnValue QDomNode],
     Bind [] ''clear'' [] RVoid [OnValue QDomNode],
     Bind [ValueM QTXML_QDOMNODE] ''cloneNode'' [PBool] (RValue QDomNode) [OnValue QDomNode],
     Bind [] ''columnNumber'' [] RNumber [OnValue QDomNode]]"

definition vmeth_qtxml_1_1 :: "binding list" where
  "vmeth_qtxml_1_1 = [
     Bind [] ''contains'' [PString True] RBool [OnValue QDomNamedNodeMap],
     Bind [] ''count'' [] RNumber [OnValue QDomNamedNodeMap, OnValue ''QDomNodeList''],
     Bind [ValueM ''QTXML_QDOMDOCUMENT'', ValueM ''QTXML_QDOMDOCUMENTTYPE''] ''createDocument'' [PString True, PString True, PConv QDomDocumentType] (RValue QDomDocument) [OnValue QDomImplementation],
     Bind [ValueM ''QTXML_QDOMDOCUMENTTYPE''] ''createDocumentType'' [PString True, PString True, PString True] (RValue QDomDocumentType) [OnValue QDomImplementation],
     Bind [] ''data'' [] RString [OnValue QDomProcessingInstruction],
     Bind [ValueM QTXML_QDOMNODE] ''firstChild'' [] (RValue QDomNode) [OnValue QDomNode]]"

definition vmeth_qtxml_1_2 :: "binding list" where
  "vmeth_qtxml_1_2 = [
     Bind [ValueM ''QTXML_QDOMELEMENT''] ''firstChildElement'' [PString True, PString True] (RValue QDomElement) [OnValue QDomNode],
     Bind [] ''hasAttributes'' [] RBool [OnValue QDomNode],
     Bind [] ''hasChildNodes'' [] RBool [OnValue QDomNode],
     Bind [] ''hasFeature'' [PString True, PString True] RBool [OnValue QDomImplementation],
     Bind [ValueM QTXML_QDOMNODE] ''insertAfter'' [PConv QDomNode, PConv QDomNode] (RValue QDomNode) [OnValue QDomNode],
     Bind [ValueM QTXML_QDOMNODE] ''insertBefore'' [PConv QDomNode, PConv QDomNode] (RValue QDomNode) [OnValue QDomNode]]"

definition vmeth_qtxml_1_3 :: "binding list" where
  "vmeth_qtxml_1_3 = [
     Bind [] ''isAttr'' [] RBool [OnValue QDomNode],
     Bind [] ''isCDATASection'' [] RBool [OnValue QDomNode],
     Bind [] ''isCharacterData'' [] RBool [OnValue QDomNode],
     Bind [] ''isComment'' [] RBool [OnValue QDomNode],
     Bind [] ''isDocument'' [] RBool [OnValue QDomNode],
     Bind [] ''isDocumentFragment'' [] RBool [OnValue QDomNode],
     Bind [] ''isDocumentType'' [] RBool [OnValue QDomNode],
     Bind [] ''isElement'' [] RBool [OnValue QDomNode]]"

definition vmeth_qtxml_1_4 :: "binding list" where
  "vmeth_qtxml_1_4 = [
     Bind [] ''isEmpty'' [] RBool [OnValue QDomNamedNodeMap, OnValue ''QDomNodeList''],
     Bind [] ''isEntity'' [] RBool [OnValue QDomNode],
     Bind [] ''isEntityReference'' [] RBool [OnValue QDomNode],
     Bind [] ''isNotation'' [] RBool [OnValue QDomNode],
     Bind [] ''isNull'' [] RBool [OnValue QDomImplementation, OnValue QDomNode],
     Bind [] ''isProcessingInstruction'' [] RBool [OnValue QDomNode],
     Bind [] ''isSupported'' [PString True, PString True] RBool [OnValue QDomNode]]"

definition vmeth_qtxml_1_5 :: "binding list" where
  "vmeth_qtxml_1_5 = [
     Bind [] ''isText'' [] RBool [OnValue QDomNode],
     Bind [ValueM QTXML_QDOMNODE] ''item'' [PInt] (RValue QDomNode) [OnValue QDomNamedNodeMap, OnValue ''QDomNodeList''],
     Bind [ValueM QTXML_QDOMNODE] ''lastChild'' [] (RValue QDomNode) [OnValue QDomNode],
     Bind [ValueM ''QTXML_QDOMELEMENT''] ''lastChildElement'' [PString True, PString True] (RValue QDomElement) [OnValue QDomNode],
     Bind [] ''length'' [] RNumber [OnValue QDomNamedNodeMap, OnValue ''QDomNodeList''],
     Bind [] ''lineNumber'' [] RNumber [OnValue QDomNode]]"

definition vmeth_qtxml_1_6 :: "binding list" where
  "vmeth_qtxml_1_6 = [
     Bind [] ''localName'' [] RString [OnValue QDomNode],
     Bind [ValueM QTXML_QDOMNODE] ''namedItem'' [PString True] (RValue QDomNode) [OnValue QDomNamedNodeMap, OnValue QDomNode],
     Bind [ValueM QTXML_QDOMNODE] ''namedItemNS'' [PString True, PString True] (RValue QDomNode) [OnValue QDomNamedNodeMap],
     Bind [] ''namespaceURI'' [] RString [OnValue QDomNode],
     Bind [ValueM QTXML_QDOMNODE] ''nextSibling'' [] (RValue QDomNode) [OnValue QDomNode],
     Bind [ValueM ''QTXML_QDOMELEMENT''] ''nextSiblingElement'' [PString True, PString True] (RValue QDomElement) [OnValue QDomNode]]"

definition vmeth_qtxml_1_7 :: "binding list" where
  "vmeth_qtxml_1_7 = [
     Bind [] ''nodeName'' [] RString [OnValue QDomNode],
     Bind [TypeM QTXML_QDOMNODE] ''nodeType'' [] (RMeta ''QDomNode::NodeType'') [OnValue ''QDomEntity'', OnValue ''QDomEntityReference'', OnValue QDomNode, OnValue ''QDomNotation'', OnValue QDomProcessingInstruction],
     Bind [] ''nodeValue'' [] RString [OnValue QDomNode],
     Bind [] ''normalize'' [] RVoid [OnValue QDomNode],
     Bind [] ''notationName'' [] RString [OnValue ''QDomEntity''],
     Bind [ValueM ''QTXML_QDOMDOCUMENT''] ''ownerDocument'' [] (RValue QDomDocument) [OnValue QDomNode]]"

definition vmeth_qtxml_1_8 :: "binding list" where
  "vmeth_qtxml_1_8 = [
     Bind [ValueM QTXML_QDOMNODE] ''parentNode'' [] (RValue QDomNode) [OnValue QDomNode],
     Bind [] ''prefix'' [] RString [OnValue QDomNode],
     Bind [ValueM QTXML_QDOMNODE] ''previousSibling'' [] (RValue QDomNode) [OnValue QDomNode],
     Bind [ValueM ''QTXML_QDOMELEMENT''] ''previousSiblingElement'' [PString True, PString True] (RValue QDomElement) [OnValue QDomNode],
     Bind [] ''publicId'' [] RString [OnValue ''QDomEntity'', OnValue ''QDomNotation''],
     Bind [ValueM QTXML_QDOMNODE] ''removeChild'' [PConv QDomNode] (RValue QDomNode) [OnValue QDomNode]]"

definition vmeth_qtxml_1_9 :: "binding list" where
  "vmeth_qtxml_1_9 = [
     Bind [ValueM QTXML_QDOMNODE] ''removeNamedItem'' [PString True] (RValue QDomNode) [OnValue QDomNamedNodeMap],
     Bind [ValueM QTXML_QDOMNODE] ''removeNamedItemNS'' [PString True, PString True] (RValue QDomNode) [OnValue QDomNamedNodeMap],
     Bind [ValueM QTXML_QDOMNODE] ''replaceChild'' [PConv QDomNode, PConv QDomNode] (RValue QDomNode) [OnValue QDomNode],
     Bind [TypeM QTXML_QDOMNODE, ValueM ''QTCORE_QTEXTSTREAM''] ''save'' [PConv QTextStream, PInt, PConv ''QDomNode::EncodingPolicy''] RVoid [OnValue QDomNode],
     Bind [] ''setData'' [PString True] RVoid [OnValue QDomProcessingInstruction],
     Bind [ValueM QTXML_QDOMNODE] ''setNamedItem'' [PConv QDomNode] (RValue QDomNode) [OnValue QDomNamedNodeMap]]"

definition vmeth_qtxml_1_10 :: "binding list" where
  "vmeth_qtxml_1_10 = [
     Bind [ValueM QTXML_QDOMNODE] ''setNamedItemNS'' [PConv QDomNode] (RValue QDomNode) [OnValue QDomNamedNodeMap],
     Bind [] ''setNodeValue'' [PString True] RVoid [OnValue QDomNode],
     Bind [] ''setPrefix'' [PString True] RVoid [OnValue QDomNode],
     Bind [] ''size'' [] RNumber [OnValue QDomNamedNodeMap, OnValue ''QDomNodeList''],
     Bind [] ''systemId'' [] RString [OnValue ''QDomEntity'', OnValue ''QDomNotation''],
     Bind [] ''target'' [] RString [OnValue QDomProcessingInstruction],
     Bind [ValueM ''QTXML_QDOMATTR''] ''toAttr'' [] (RValue ''QDomAttr'') [OnValue QDomNode]]"

definition vmeth_qtxml_1_11 :: "binding list" where
  "vmeth_qtxml_1_11 = [
     Bind [ValueM ''QTXML_QDOMCDATASECTION''] ''toCDATASection'' [] (RValue ''QDomCDATASection'') [OnValue QDomNode],
     Bind [ValueM ''QTXML_QDOMCHARACTERDATA''] ''toCharacterData'' [] (RValue ''QDomCharacterData'') [OnValue QDomNode],
     Bind [ValueM ''QTXML_QDOMCOMMENT''] ''toComment'' [] (RValue ''QDomComment'') [OnValue QDomNode],
     Bind [ValueM ''QTXML_QDOMDOCUMENT''] ''toDocument'' [] (RValue QDomDocument) [OnValue QDomNode],
     Bind [ValueM ''QTXML_QDOMDOCUMENTFRAGMENT''] ''toDocumentFragment'' [] (RValue ''QDomDocumentFragment'') [OnValue QDomNode],
     Bind [ValueM ''QTXML_QDOMDOCUMENTTYPE''] ''toDocumentType'' [] (RValue QDomDocumentType) [OnValue QDomNode],
     Bind [ValueM ''QTXML_QDOMELEMENT''] ''toElement'' [] (RValue QDomElement) [OnValue QDomNode]]"

definition vmeth_qtxml_1_12 :: "binding list" where
  "vmeth_qtxml_1_12 = [
     Bind [ValueM ''QTXML_QDOMENTITY''] ''toEntity'' [] (RValue ''QDomEntity'') [OnValue QDomNode],
     Bind [ValueM ''QTXML_QDOMENTITYREFERENCE''] ''toEntityReference'' [] (RValue ''QDomEntityReference'') [OnValue QDomNode],
     Bind [ValueM ''QTXML_QDOMNOTATION''] ''toNotation'' [] (RValue ''QDomNotation'') [OnValue QDomNode],
     Bind [ValueM ''QTXML_QDOMPROCESSINGINSTRUCTION''] ''toProcessingInstruction'' [] (RValue QDomProcessingInstruction) [OnValue QDomNode],
     Bind [ValueM ''QTXML_QDOMTEXT''] ''toText'' [] (RValue ''QDomText'') [OnValue QDomNode]]"

definition vtypes_qtxml_1 :: "string list" where
  "vtypes_qtxml_1 = [''QDomEntity'', ''QDomEntityReference'', QDomImplementation, QDomNamedNodeMap, QDomNode, ''QDomNodeList'',
     ''QDomNotation'', QDomProcessingInstruction]"

definition vmeth_qtxml_2_0 :: "binding list" where
  "vmeth_qtxml_2_0 = [
     Bind [TypeM QTXML_QDOMNODE] ''nodeType'' [] (RMeta ''QDomNode::NodeType'') [OnValue ''QDomText''],
     Bind [ValueM ''QTXML_QDOMTEXT''] ''splitText'' [PInt] (RValue ''QDomText'') [OnValue ''QDomText'']]"

definition vtypes_qtxml_2 :: "string list" where
  "vtypes_qtxml_2 = [''QDomText'']"

definition vmeth_table_rest_c :: "(string \<times> shard) list" where
  "vmeth_table_rest_c = [
     (''qtsvg_0'', \<lparr>sh_module = ''QtSvg'', sh_slug = ''QTSVG'',
        sh_bindings = concat [vmeth_qtsvg_0_0, vmeth_qtsvg_0_1, vmeth_qtsvg_0_2]\<rparr>),
     (''qttest_0'', \<lparr>sh_module = ''QtTest'', sh_slug = ''QTTEST'',
        sh_bindings = concat [vmeth_qttest_0_0]\<rparr>),
     (''qttexttospeech_0'', \<lparr>sh_module = ''QtTextToSpeech'', sh_slug = ''QTTEXTTOSPEECH'',
        sh_bindings = concat [vmeth_qttexttospeech_0_0]\<rparr>),
     (''qtwebenginecore_0'', \<lparr>sh_module = ''QtWebEngineCore'', sh_slug = ''QTWEBENGINECORE'',
        sh_bindings = concat [vmeth_qtwebenginecore_0_0, vmeth_qtwebenginecore_0_1, vmeth_qtwebenginecore_0_2, vmeth_qtwebenginecore_0_3, vmeth_qtwebenginecore_0_4, vmeth_qtwebenginecore_0_5, vmeth_qtwebenginecore_0_6]\<rparr>),
     (''qtwebenginecore_1'', \<lparr>sh_module = ''QtWebEngineCore'', sh_slug = ''QTWEBENGINECORE'',
        sh_bindings = concat [vmeth_qtwebenginecore_1_0, vmeth_qtwebenginecore_1_1, vmeth_qtwebenginecore_1_2, vmeth_qtwebenginecore_1_3, vmeth_qtwebenginecore_1_4, vmeth_qtwebenginecore_1_5, vmeth_qtwebenginecore_1_6, vmeth_qtwebenginecore_1_7, vmeth_qtwebenginecore_1_8]\<rparr>),
     (''qtwebsockets_0'', \<lparr>sh_module = ''QtWebSockets'', sh_slug = ''QTWEBSOCKETS'',
        sh_bindings = concat [vmeth_qtwebsockets_0_0]\<rparr>),
     (''qtxml_0'', \<lparr>sh_module = ''QtXml'', sh_slug = ''QTXML'',
        sh_bindings = concat [vmeth_qtxml_0_0, vmeth_qtxml_0_1, vmeth_qtxml_0_2, vmeth_qtxml_0_3, vmeth_qtxml_0_4, vmeth_qtxml_0_5, vmeth_qtxml_0_6, vmeth_qtxml_0_7, vmeth_qtxml_0_8, vmeth_qtxml_0_9]\<rparr>),
     (''qtxml_1'', \<lparr>sh_module = ''QtXml'', sh_slug = ''QTXML'',
        sh_bindings = concat [vmeth_qtxml_1_0, vmeth_qtxml_1_1, vmeth_qtxml_1_2, vmeth_qtxml_1_3, vmeth_qtxml_1_4, vmeth_qtxml_1_5, vmeth_qtxml_1_6, vmeth_qtxml_1_7, vmeth_qtxml_1_8, vmeth_qtxml_1_9, vmeth_qtxml_1_10, vmeth_qtxml_1_11, vmeth_qtxml_1_12]\<rparr>),
     (''qtxml_2'', \<lparr>sh_module = ''QtXml'', sh_slug = ''QTXML'',
        sh_bindings = concat [vmeth_qtxml_2_0]\<rparr>)]"

lemmas vmeth_table_rest_c_defs =
  vmeth_qtsvg_0_0_def vmeth_qtsvg_0_1_def vmeth_qtsvg_0_2_def vmeth_qttest_0_0_def vmeth_qttexttospeech_0_0_def
  vmeth_qtwebenginecore_0_0_def vmeth_qtwebenginecore_0_1_def vmeth_qtwebenginecore_0_2_def
  vmeth_qtwebenginecore_0_3_def vmeth_qtwebenginecore_0_4_def vmeth_qtwebenginecore_0_5_def
  vmeth_qtwebenginecore_0_6_def vmeth_qtwebenginecore_1_0_def vmeth_qtwebenginecore_1_1_def
  vmeth_qtwebenginecore_1_2_def vmeth_qtwebenginecore_1_3_def vmeth_qtwebenginecore_1_4_def
  vmeth_qtwebenginecore_1_5_def vmeth_qtwebenginecore_1_6_def vmeth_qtwebenginecore_1_7_def
  vmeth_qtwebenginecore_1_8_def vmeth_qtwebsockets_0_0_def vmeth_qtxml_0_0_def vmeth_qtxml_0_1_def
  vmeth_qtxml_0_2_def vmeth_qtxml_0_3_def vmeth_qtxml_0_4_def vmeth_qtxml_0_5_def vmeth_qtxml_0_6_def
  vmeth_qtxml_0_7_def vmeth_qtxml_0_8_def vmeth_qtxml_0_9_def vmeth_qtxml_1_0_def vmeth_qtxml_1_1_def
  vmeth_qtxml_1_2_def vmeth_qtxml_1_3_def vmeth_qtxml_1_4_def vmeth_qtxml_1_5_def vmeth_qtxml_1_6_def
  vmeth_qtxml_1_7_def vmeth_qtxml_1_8_def vmeth_qtxml_1_9_def vmeth_qtxml_1_10_def vmeth_qtxml_1_11_def
  vmeth_qtxml_1_12_def vmeth_qtxml_2_0_def

lemma vmeth_table_rest_c_value_blocks: "list_all (\<lambda>(s, sh). value_blocks sh) vmeth_table_rest_c"
  by (simp add: vmeth_table_rest_c_def vmeth_table_rest_c_defs value_blocks_def value_shard_def; (simp add: parameter_text_def qt_name_defs)?)

end
