(* ===== verification/Value_Methods_Widgets_A.thy ===== *)
theory Value_Methods_Widgets_A
  imports Shard_Methods Qt_Names
begin

text \<open>
  Tables of the value method shards (generated\_value\_methods): the blocks of every shard in the file's order, and the
  classes it can store by value.
\<close>

definition vmeth_qtwidgets_0_0 :: "binding list" where
  "vmeth_qtwidgets_0_0 = [
     Bind [] ''accept'' [] RVoid [OnValue QGestureEvent],
     Bind [TypeM QTWIDGETS_QGESTURE] ''accept'' [PNonNull ''QGesture*''] RVoid [OnValue QGestureEvent],
     Bind [EnumM ''QT_GESTURETYPE''] ''accept'' [PConv ''Qt::GestureType''] RVoid [OnValue QGestureEvent],
     Bind [] ''acceptDrops'' [] RBool [OnValue QGraphicsItem],
     Bind [] ''acceptHoverEvents'' [] RBool [OnValue QGraphicsItem],
     Bind [] ''acceptTouchEvents'' [] RBool [OnValue QGraphicsItem],
     Bind [EnumM QT_MOUSEBUTTONS] ''acceptedMouseButtons'' [] (RMeta Qt_MouseButtons) [OnValue QGraphicsItem]]"

definition vmeth_qtwidgets_0_1 :: "binding list" where
  "vmeth_qtwidgets_0_1 = [
     Bind [TypeM QTWIDGETS_QGESTURE] ''activeGestures'' [] (RList IObject) [OnValue QGestureEvent],
     Bind [] ''advance'' [PInt] RVoid [OnValue QGraphicsItem],
     Bind [ValueM QTCORE_QRECTF] ''boundingRect'' [] (RValue QRectF) [OnValue QGraphicsEllipseItem],
     Bind [ValueM QTGUI_QREGION, ValueM QTGUI_QTRANSFORM] ''boundingRegion'' [PConv QTransform] (RValue QRegion) [OnValue QGraphicsItem],
     Bind [] ''boundingRegionGranularity'' [] RNumber [OnValue QGraphicsItem],
     Bind [ValueM QTGUI_QBRUSH] ''brush'' [] (RValue QBrush) [OnValue ''QAbstractGraphicsShapeItem''],
     Bind [TypeM ''QTWIDGETS_QGRAPHICSITEM''] ''cacheMode'' [] (RMeta ''QGraphicsItem::CacheMode'') [OnValue QGraphicsItem]]"

definition vmeth_qtwidgets_0_2 :: "binding list" where
  "vmeth_qtwidgets_0_2 = [
     Bind [TypeM QTWIDGETS_QGESTURE] ''canceledGestures'' [] (RList IObject) [OnValue QGestureEvent],
     Bind [ValueM QTCORE_QRECTF] ''childrenBoundingRect'' [] (RValue QRectF) [OnValue QGraphicsItem],
     Bind [] ''clearFocus'' [] RVoid [OnValue QGraphicsItem],
     Bind [ValueM QTGUI_QPAINTERPATH] ''clipPath'' [] (RValue QPainterPath) [OnValue QGraphicsItem],
     Bind [EnumM ''QT_ITEMSELECTIONMODE'', ValueM QTGUI_QPAINTERPATH] ''collidesWithPath'' [PConv QPainterPath, PConv ''Qt::ItemSelectionMode''] RBool [OnValue QGraphicsItem],
     Bind [] ''columnCount'' [] RNumber [OnValue QGraphicsGridLayout],
     Bind [] ''columnMaximumWidth'' [PInt] RNumber [OnValue QGraphicsGridLayout]]"

definition vmeth_qtwidgets_0_3 :: "binding list" where
  "vmeth_qtwidgets_0_3 = [
     Bind [] ''columnMinimumWidth'' [PInt] RNumber [OnValue QGraphicsGridLayout],
     Bind [] ''columnPreferredWidth'' [PInt] RNumber [OnValue QGraphicsGridLayout],
     Bind [] ''columnSpacing'' [PInt] RNumber [OnValue QGraphicsGridLayout],
     Bind [] ''columnStretchFactor'' [PInt] RNumber [OnValue QGraphicsGridLayout],
     Bind [ValueM QTCORE_QPOINTF] ''contains'' [PConv QPointF] RBool [OnValue QGraphicsEllipseItem, OnValue QGraphicsItem],
     Bind [] ''count'' [] RNumber [OnValue QGraphicsAnchorLayout, OnValue QGraphicsGridLayout]]"

definition vmeth_qtwidgets_0_4 :: "binding list" where
  "vmeth_qtwidgets_0_4 = [
     Bind [TypeM QTCORE_QOBJECT, TypeM QTWIDGETS_QGESTURE] ''create'' [PNonNull QObject_ptr] RObject [OnValue ''QGestureRecognizer''],
     Bind [ValueM ''QTGUI_QCURSOR''] ''cursor'' [] (RValue QCursor) [OnValue QGraphicsItem],
     Bind [] ''data'' [PInt] RVariant [OnValue QGraphicsItem],
     Bind [ValueM QTGUI_QTRANSFORM] ''deviceTransform'' [PConv QTransform] (RValue QTransform) [OnValue QGraphicsItem],
     Bind [] ''effectiveOpacity'' [] RNumber [OnValue QGraphicsItem],
     Bind [ValueM QTCORE_QRECTF] ''ensureVisible'' [PConv QRectF, PInt, PInt] RVoid [OnValue QGraphicsItem]]"

definition vmeth_qtwidgets_0_5 :: "binding list" where
  "vmeth_qtwidgets_0_5 = [
     Bind [] ''ensureVisible'' [PReal ''qreal'', PReal ''qreal'', PReal ''qreal'', PReal ''qreal'', PInt, PInt] RVoid [OnValue QGraphicsItem],
     Bind [] ''filtersChildEvents'' [] RBool [OnValue QGraphicsItem],
     Bind [TypeM ''QTWIDGETS_QGRAPHICSITEM''] ''flags'' [] (RMeta ''QGraphicsItem::GraphicsItemFlags'') [OnValue QGraphicsItem],
     Bind [EnumM ''QT_GESTURETYPE'', TypeM QTWIDGETS_QGESTURE] ''gesture'' [PConv ''Qt::GestureType''] RObject [OnValue QGestureEvent],
     Bind [TypeM QTWIDGETS_QGESTURE] ''gestures'' [] (RList IObject) [OnValue QGestureEvent],
     Bind [] ''grabKeyboard'' [] RVoid [OnValue QGraphicsItem],
     Bind [] ''grabMouse'' [] RVoid [OnValue QGraphicsItem]]"

definition vmeth_qtwidgets_0_6 :: "binding list" where
  "vmeth_qtwidgets_0_6 = [
     Bind [TypeM ''QTWIDGETS_QGRAPHICSEFFECT''] ''graphicsEffect'' [] RObject [OnValue QGraphicsItem],
     Bind [] ''hasCursor'' [] RBool [OnValue QGraphicsItem],
     Bind [] ''hasFocus'' [] RBool [OnValue QGraphicsItem],
     Bind [] ''hide'' [] RVoid [OnValue QGraphicsItem],
     Bind [] ''horizontalSpacing'' [] RNumber [OnValue QGraphicsAnchorLayout, OnValue QGraphicsGridLayout],
     Bind [TypeM ''QTGUI_QABSTRACTFILEICONPROVIDER'', ValueM QTGUI_QICON] ''icon'' [PConv ''QAbstractFileIconProvider::IconType''] (RValue QIcon) [OnValue ''QFileIconProvider''],
     Bind [ValueM ''QTCORE_QFILEINFO'', ValueM QTGUI_QICON] ''icon'' [PConv QFileInfo] (RValue QIcon) [OnValue ''QFileIconProvider'']]"

definition vmeth_qtwidgets_0_7 :: "binding list" where
  "vmeth_qtwidgets_0_7 = [
     Bind [] ''ignore'' [] RVoid [OnValue QGestureEvent],
     Bind [TypeM QTWIDGETS_QGESTURE] ''ignore'' [PNonNull ''QGesture*''] RVoid [OnValue QGestureEvent],
     Bind [EnumM ''QT_GESTURETYPE''] ''ignore'' [PConv ''Qt::GestureType''] RVoid [OnValue QGestureEvent],
     Bind [] ''invalidate'' [] RVoid [OnValue QGraphicsAnchorLayout, OnValue QGraphicsGridLayout],
     Bind [] ''isAccepted'' [] RBool [OnValue QGestureEvent],
     Bind [TypeM QTWIDGETS_QGESTURE] ''isAccepted'' [PNonNull ''QGesture*''] RBool [OnValue QGestureEvent]]"

definition vmeth_qtwidgets_0_8 :: "binding list" where
  "vmeth_qtwidgets_0_8 = [
     Bind [EnumM ''QT_GESTURETYPE''] ''isAccepted'' [PConv ''Qt::GestureType''] RBool [OnValue QGestureEvent],
     Bind [] ''isActive'' [] RBool [OnValue QGraphicsItem],
     Bind [] ''isClipped'' [] RBool [OnValue QGraphicsItem],
     Bind [] ''isEnabled'' [] RBool [OnValue QGraphicsItem],
     Bind [ValueM QTCORE_QRECTF] ''isObscured'' [PConv QRectF] RBool [OnValue QGraphicsItem],
     Bind [] ''isObscured'' [PReal ''qreal'', PReal ''qreal'', PReal ''qreal'', PReal ''qreal''] RBool [OnValue QGraphicsItem],
     Bind [] ''isPanel'' [] RBool [OnValue QGraphicsItem]]"

definition vmeth_qtwidgets_0_9 :: "binding list" where
  "vmeth_qtwidgets_0_9 = [
     Bind [] ''isSelected'' [] RBool [OnValue QGraphicsItem],
     Bind [] ''isUnderMouse'' [] RBool [OnValue QGraphicsItem],
     Bind [] ''isVisible'' [] RBool [OnValue QGraphicsItem],
     Bind [] ''isWidget'' [] RBool [OnValue QGraphicsItem],
     Bind [] ''isWindow'' [] RBool [OnValue QGraphicsItem],
     Bind [ValueM QTGUI_QPAINTERPATH] ''mapFromParent'' [PConv QPainterPath] (RValue QPainterPath) [OnValue QGraphicsItem],
     Bind [ValueM QTCORE_QPOINTF] ''mapFromParent'' [PConv QPointF] (RValue QPointF) [OnValue QGraphicsItem]]"

definition vmeth_qtwidgets_0_10 :: "binding list" where
  "vmeth_qtwidgets_0_10 = [
     Bind [ValueM QTGUI_QPOLYGONF] ''mapFromParent'' [PConv QPolygonF] (RValue QPolygonF) [OnValue QGraphicsItem],
     Bind [ValueM QTCORE_QRECTF, ValueM QTGUI_QPOLYGONF] ''mapFromParent'' [PConv QRectF] (RValue QPolygonF) [OnValue QGraphicsItem],
     Bind [ValueM QTCORE_QPOINTF] ''mapFromParent'' [PReal ''qreal'', PReal ''qreal''] (RValue QPointF) [OnValue QGraphicsItem],
     Bind [ValueM QTGUI_QPOLYGONF] ''mapFromParent'' [PReal ''qreal'', PReal ''qreal'', PReal ''qreal'', PReal ''qreal''] (RValue QPolygonF) [OnValue QGraphicsItem],
     Bind [ValueM QTGUI_QPAINTERPATH] ''mapFromScene'' [PConv QPainterPath] (RValue QPainterPath) [OnValue QGraphicsItem],
     Bind [ValueM QTCORE_QPOINTF] ''mapFromScene'' [PConv QPointF] (RValue QPointF) [OnValue QGraphicsItem]]"

definition vmeth_qtwidgets_0_11 :: "binding list" where
  "vmeth_qtwidgets_0_11 = [
     Bind [ValueM QTGUI_QPOLYGONF] ''mapFromScene'' [PConv QPolygonF] (RValue QPolygonF) [OnValue QGraphicsItem],
     Bind [ValueM QTCORE_QRECTF, ValueM QTGUI_QPOLYGONF] ''mapFromScene'' [PConv QRectF] (RValue QPolygonF) [OnValue QGraphicsItem],
     Bind [ValueM QTCORE_QPOINTF] ''mapFromScene'' [PReal ''qreal'', PReal ''qreal''] (RValue QPointF) [OnValue QGraphicsItem],
     Bind [ValueM QTGUI_QPOLYGONF] ''mapFromScene'' [PReal ''qreal'', PReal ''qreal'', PReal ''qreal'', PReal ''qreal''] (RValue QPolygonF) [OnValue QGraphicsItem],
     Bind [ValueM QTCORE_QRECTF] ''mapRectFromParent'' [PConv QRectF] (RValue QRectF) [OnValue QGraphicsItem]]"

definition vmeth_qtwidgets_0_12 :: "binding list" where
  "vmeth_qtwidgets_0_12 = [
     Bind [ValueM QTCORE_QRECTF] ''mapRectFromParent'' [PReal ''qreal'', PReal ''qreal'', PReal ''qreal'', PReal ''qreal''] (RValue QRectF) [OnValue QGraphicsItem],
     Bind [ValueM QTCORE_QRECTF] ''mapRectFromScene'' [PConv QRectF] (RValue QRectF) [OnValue QGraphicsItem],
     Bind [ValueM QTCORE_QRECTF] ''mapRectFromScene'' [PReal ''qreal'', PReal ''qreal'', PReal ''qreal'', PReal ''qreal''] (RValue QRectF) [OnValue QGraphicsItem],
     Bind [ValueM QTCORE_QRECTF] ''mapRectToParent'' [PConv QRectF] (RValue QRectF) [OnValue QGraphicsItem],
     Bind [ValueM QTCORE_QRECTF] ''mapRectToParent'' [PReal ''qreal'', PReal ''qreal'', PReal ''qreal'', PReal ''qreal''] (RValue QRectF) [OnValue QGraphicsItem]]"

definition vmeth_qtwidgets_0_13 :: "binding list" where
  "vmeth_qtwidgets_0_13 = [
     Bind [ValueM QTCORE_QRECTF] ''mapRectToScene'' [PConv QRectF] (RValue QRectF) [OnValue QGraphicsItem],
     Bind [ValueM QTCORE_QRECTF] ''mapRectToScene'' [PReal ''qreal'', PReal ''qreal'', PReal ''qreal'', PReal ''qreal''] (RValue QRectF) [OnValue QGraphicsItem],
     Bind [ValueM QTCORE_QPOINTF] ''mapToGraphicsScene'' [PConv QPointF] (RValue QPointF) [OnValue QGestureEvent],
     Bind [ValueM QTGUI_QPAINTERPATH] ''mapToParent'' [PConv QPainterPath] (RValue QPainterPath) [OnValue QGraphicsItem],
     Bind [ValueM QTCORE_QPOINTF] ''mapToParent'' [PConv QPointF] (RValue QPointF) [OnValue QGraphicsItem],
     Bind [ValueM QTGUI_QPOLYGONF] ''mapToParent'' [PConv QPolygonF] (RValue QPolygonF) [OnValue QGraphicsItem]]"

definition vmeth_qtwidgets_0_14 :: "binding list" where
  "vmeth_qtwidgets_0_14 = [
     Bind [ValueM QTCORE_QRECTF, ValueM QTGUI_QPOLYGONF] ''mapToParent'' [PConv QRectF] (RValue QPolygonF) [OnValue QGraphicsItem],
     Bind [ValueM QTCORE_QPOINTF] ''mapToParent'' [PReal ''qreal'', PReal ''qreal''] (RValue QPointF) [OnValue QGraphicsItem],
     Bind [ValueM QTGUI_QPOLYGONF] ''mapToParent'' [PReal ''qreal'', PReal ''qreal'', PReal ''qreal'', PReal ''qreal''] (RValue QPolygonF) [OnValue QGraphicsItem],
     Bind [ValueM QTGUI_QPAINTERPATH] ''mapToScene'' [PConv QPainterPath] (RValue QPainterPath) [OnValue QGraphicsItem],
     Bind [ValueM QTCORE_QPOINTF] ''mapToScene'' [PConv QPointF] (RValue QPointF) [OnValue QGraphicsItem],
     Bind [ValueM QTGUI_QPOLYGONF] ''mapToScene'' [PConv QPolygonF] (RValue QPolygonF) [OnValue QGraphicsItem]]"

definition vmeth_qtwidgets_0_15 :: "binding list" where
  "vmeth_qtwidgets_0_15 = [
     Bind [ValueM QTCORE_QRECTF, ValueM QTGUI_QPOLYGONF] ''mapToScene'' [PConv QRectF] (RValue QPolygonF) [OnValue QGraphicsItem],
     Bind [ValueM QTCORE_QPOINTF] ''mapToScene'' [PReal ''qreal'', PReal ''qreal''] (RValue QPointF) [OnValue QGraphicsItem],
     Bind [ValueM QTGUI_QPOLYGONF] ''mapToScene'' [PReal ''qreal'', PReal ''qreal'', PReal ''qreal'', PReal ''qreal''] (RValue QPolygonF) [OnValue QGraphicsItem],
     Bind [] ''moveBy'' [PReal ''qreal'', PReal ''qreal''] RVoid [OnValue QGraphicsItem],
     Bind [] ''opacity'' [] RNumber [OnValue QGraphicsItem]]"

definition vmeth_qtwidgets_0_16 :: "binding list" where
  "vmeth_qtwidgets_0_16 = [
     Bind [ValueM QTGUI_QPAINTERPATH] ''opaqueArea'' [] (RValue QPainterPath) [OnValue ''QAbstractGraphicsShapeItem'', OnValue QGraphicsEllipseItem, OnValue QGraphicsItem],
     Bind [TypeM ''QTWIDGETS_QGRAPHICSITEM''] ''panelModality'' [] (RMeta ''QGraphicsItem::PanelModality'') [OnValue QGraphicsItem],
     Bind [TypeM ''QTWIDGETS_QGRAPHICSOBJECT''] ''parentObject'' [] RObject [OnValue QGraphicsItem],
     Bind [TypeM ''QTWIDGETS_QGRAPHICSWIDGET''] ''parentWidget'' [] RObject [OnValue QGraphicsItem],
     Bind [ValueM QTGUI_QPEN] ''pen'' [] (RValue QPen) [OnValue ''QAbstractGraphicsShapeItem''],
     Bind [ValueM QTCORE_QPOINTF] ''pos'' [] (RValue QPointF) [OnValue QGraphicsItem]]"

definition vmeth_qtwidgets_0_17 :: "binding list" where
  "vmeth_qtwidgets_0_17 = [
     Bind [ValueM QTCORE_QRECTF] ''rect'' [] (RValue QRectF) [OnValue QGraphicsEllipseItem],
     Bind [] ''removeAt'' [PInt] RVoid [OnValue QGraphicsAnchorLayout],
     Bind [TypeM QTWIDGETS_QGESTURE] ''reset'' [PNonNull ''QGesture*''] RVoid [OnValue ''QGestureRecognizer''],
     Bind [] ''resetTransform'' [] RVoid [OnValue QGraphicsItem],
     Bind [] ''rotation'' [] RNumber [OnValue QGraphicsItem],
     Bind [] ''rowCount'' [] RNumber [OnValue QGraphicsGridLayout],
     Bind [] ''rowMaximumHeight'' [PInt] RNumber [OnValue QGraphicsGridLayout]]"

definition vmeth_qtwidgets_0_18 :: "binding list" where
  "vmeth_qtwidgets_0_18 = [
     Bind [] ''rowMinimumHeight'' [PInt] RNumber [OnValue QGraphicsGridLayout],
     Bind [] ''rowPreferredHeight'' [PInt] RNumber [OnValue QGraphicsGridLayout],
     Bind [] ''rowSpacing'' [PInt] RNumber [OnValue QGraphicsGridLayout],
     Bind [] ''rowStretchFactor'' [PInt] RNumber [OnValue QGraphicsGridLayout],
     Bind [] ''scale'' [] RNumber [OnValue QGraphicsItem],
     Bind [TypeM ''QTWIDGETS_QGRAPHICSSCENE''] ''scene'' [] RObject [OnValue QGraphicsItem],
     Bind [ValueM QTCORE_QRECTF] ''sceneBoundingRect'' [] (RValue QRectF) [OnValue QGraphicsItem]]"

definition vmeth_qtwidgets_0_19 :: "binding list" where
  "vmeth_qtwidgets_0_19 = [
     Bind [ValueM QTCORE_QPOINTF] ''scenePos'' [] (RValue QPointF) [OnValue QGraphicsItem],
     Bind [ValueM QTGUI_QTRANSFORM] ''sceneTransform'' [] (RValue QTransform) [OnValue QGraphicsItem],
     Bind [ValueM QTCORE_QRECTF] ''scroll'' [PReal ''qreal'', PReal ''qreal'', PConv QRectF] RVoid [OnValue QGraphicsItem],
     Bind [] ''setAcceptDrops'' [PBool] RVoid [OnValue QGraphicsItem],
     Bind [] ''setAcceptHoverEvents'' [PBool] RVoid [OnValue QGraphicsItem],
     Bind [] ''setAcceptTouchEvents'' [PBool] RVoid [OnValue QGraphicsItem]]"

definition vmeth_qtwidgets_0_20 :: "binding list" where
  "vmeth_qtwidgets_0_20 = [
     Bind [TypeM QTWIDGETS_QGESTURE] ''setAccepted'' [PNonNull ''QGesture*'', PBool] RVoid [OnValue QGestureEvent],
     Bind [EnumM ''QT_GESTURETYPE''] ''setAccepted'' [PConv ''Qt::GestureType'', PBool] RVoid [OnValue QGestureEvent],
     Bind [] ''setAccepted'' [PBool] RVoid [OnValue QGestureEvent],
     Bind [EnumM QT_MOUSEBUTTONS] ''setAcceptedMouseButtons'' [PConv Qt_MouseButtons] RVoid [OnValue QGraphicsItem],
     Bind [] ''setActive'' [PBool] RVoid [OnValue QGraphicsItem],
     Bind [] ''setBoundingRegionGranularity'' [PReal ''qreal''] RVoid [OnValue QGraphicsItem]]"

definition vmeth_qtwidgets_0_21 :: "binding list" where
  "vmeth_qtwidgets_0_21 = [
     Bind [ValueM QTGUI_QBRUSH] ''setBrush'' [PConv QBrush] RVoid [OnValue ''QAbstractGraphicsShapeItem''],
     Bind [TypeM ''QTWIDGETS_QGRAPHICSITEM'', ValueM QTCORE_QSIZE] ''setCacheMode'' [PConv ''QGraphicsItem::CacheMode'', PConv QSize] RVoid [OnValue QGraphicsItem],
     Bind [] ''setColumnFixedWidth'' [PInt, PReal ''qreal''] RVoid [OnValue QGraphicsGridLayout],
     Bind [] ''setColumnMaximumWidth'' [PInt, PReal ''qreal''] RVoid [OnValue QGraphicsGridLayout],
     Bind [] ''setColumnMinimumWidth'' [PInt, PReal ''qreal''] RVoid [OnValue QGraphicsGridLayout],
     Bind [] ''setColumnPreferredWidth'' [PInt, PReal ''qreal''] RVoid [OnValue QGraphicsGridLayout]]"

definition vmeth_qtwidgets_0_22 :: "binding list" where
  "vmeth_qtwidgets_0_22 = [
     Bind [] ''setColumnSpacing'' [PInt, PReal ''qreal''] RVoid [OnValue QGraphicsGridLayout],
     Bind [] ''setColumnStretchFactor'' [PInt, PInt] RVoid [OnValue QGraphicsGridLayout],
     Bind [ValueM ''QTGUI_QCURSOR''] ''setCursor'' [PConv QCursor] RVoid [OnValue QGraphicsItem],
     Bind [] ''setData'' [PInt, PVariant] RVoid [OnValue QGraphicsItem],
     Bind [] ''setEnabled'' [PBool] RVoid [OnValue QGraphicsItem],
     Bind [] ''setFiltersChildEvents'' [PBool] RVoid [OnValue QGraphicsItem]]"

definition vmeth_qtwidgets_0_23 :: "binding list" where
  "vmeth_qtwidgets_0_23 = [
     Bind [TypeM ''QTWIDGETS_QGRAPHICSITEM''] ''setFlag'' [PConv ''QGraphicsItem::GraphicsItemFlag'', PBool] RVoid [OnValue QGraphicsItem],
     Bind [TypeM ''QTWIDGETS_QGRAPHICSITEM''] ''setFlags'' [PConv ''QGraphicsItem::GraphicsItemFlags''] RVoid [OnValue QGraphicsItem],
     Bind [EnumM ''QT_FOCUSREASON''] ''setFocus'' [PConv ''Qt::FocusReason''] RVoid [OnValue QGraphicsItem],
     Bind [ValueM QTCORE_QRECTF] ''setGeometry'' [PConv QRectF] RVoid [OnValue QGraphicsAnchorLayout, OnValue QGraphicsGridLayout],
     Bind [TypeM ''QTWIDGETS_QGRAPHICSEFFECT''] ''setGraphicsEffect'' [PNonNull ''QGraphicsEffect*''] RVoid [OnValue QGraphicsItem]]"

definition vmeth_qtwidgets_0_24 :: "binding list" where
  "vmeth_qtwidgets_0_24 = [
     Bind [] ''setHorizontalSpacing'' [PReal ''qreal''] RVoid [OnValue QGraphicsAnchorLayout, OnValue QGraphicsGridLayout],
     Bind [] ''setOpacity'' [PReal ''qreal''] RVoid [OnValue QGraphicsItem],
     Bind [TypeM ''QTWIDGETS_QGRAPHICSITEM''] ''setPanelModality'' [PConv ''QGraphicsItem::PanelModality''] RVoid [OnValue QGraphicsItem],
     Bind [ValueM QTGUI_QPEN] ''setPen'' [PConv QPen] RVoid [OnValue ''QAbstractGraphicsShapeItem''],
     Bind [ValueM QTCORE_QPOINTF] ''setPos'' [PConv QPointF] RVoid [OnValue QGraphicsItem],
     Bind [] ''setPos'' [PReal ''qreal'', PReal ''qreal''] RVoid [OnValue QGraphicsItem]]"

definition vmeth_qtwidgets_0_25 :: "binding list" where
  "vmeth_qtwidgets_0_25 = [
     Bind [ValueM QTCORE_QRECTF] ''setRect'' [PConv QRectF] RVoid [OnValue QGraphicsEllipseItem],
     Bind [] ''setRect'' [PReal ''qreal'', PReal ''qreal'', PReal ''qreal'', PReal ''qreal''] RVoid [OnValue QGraphicsEllipseItem],
     Bind [] ''setRotation'' [PReal ''qreal''] RVoid [OnValue QGraphicsItem],
     Bind [] ''setRowFixedHeight'' [PInt, PReal ''qreal''] RVoid [OnValue QGraphicsGridLayout],
     Bind [] ''setRowMaximumHeight'' [PInt, PReal ''qreal''] RVoid [OnValue QGraphicsGridLayout],
     Bind [] ''setRowMinimumHeight'' [PInt, PReal ''qreal''] RVoid [OnValue QGraphicsGridLayout]]"

definition vmeth_qtwidgets_0_26 :: "binding list" where
  "vmeth_qtwidgets_0_26 = [
     Bind [] ''setRowPreferredHeight'' [PInt, PReal ''qreal''] RVoid [OnValue QGraphicsGridLayout],
     Bind [] ''setRowSpacing'' [PInt, PReal ''qreal''] RVoid [OnValue QGraphicsGridLayout],
     Bind [] ''setRowStretchFactor'' [PInt, PInt] RVoid [OnValue QGraphicsGridLayout],
     Bind [] ''setScale'' [PReal ''qreal''] RVoid [OnValue QGraphicsItem],
     Bind [] ''setSelected'' [PBool] RVoid [OnValue QGraphicsItem],
     Bind [] ''setSpacing'' [PReal ''qreal''] RVoid [OnValue QGraphicsAnchorLayout, OnValue QGraphicsGridLayout]]"

definition vmeth_qtwidgets_0_27 :: "binding list" where
  "vmeth_qtwidgets_0_27 = [
     Bind [] ''setSpanAngle'' [PInt] RVoid [OnValue QGraphicsEllipseItem],
     Bind [] ''setStartAngle'' [PInt] RVoid [OnValue QGraphicsEllipseItem],
     Bind [] ''setToolTip'' [PString True] RVoid [OnValue QGraphicsItem],
     Bind [ValueM QTGUI_QTRANSFORM] ''setTransform'' [PConv QTransform, PBool] RVoid [OnValue QGraphicsItem],
     Bind [ValueM QTCORE_QPOINTF] ''setTransformOriginPoint'' [PConv QPointF] RVoid [OnValue QGraphicsItem],
     Bind [] ''setTransformOriginPoint'' [PReal ''qreal'', PReal ''qreal''] RVoid [OnValue QGraphicsItem]]"

definition vmeth_qtwidgets_0_28 :: "binding list" where
  "vmeth_qtwidgets_0_28 = [
     Bind [TypeM ''QTWIDGETS_QGRAPHICSTRANSFORM''] ''setTransformations'' [PList ''QGraphicsTransform*''] RVoid [OnValue QGraphicsItem],
     Bind [] ''setVerticalSpacing'' [PReal ''qreal''] RVoid [OnValue QGraphicsAnchorLayout, OnValue QGraphicsGridLayout],
     Bind [] ''setVisible'' [PBool] RVoid [OnValue QGraphicsItem],
     Bind [] ''setX'' [PReal ''qreal''] RVoid [OnValue QGraphicsItem],
     Bind [] ''setY'' [PReal ''qreal''] RVoid [OnValue QGraphicsItem],
     Bind [] ''setZValue'' [PReal ''qreal''] RVoid [OnValue QGraphicsItem]]"

definition vmeth_qtwidgets_0_29 :: "binding list" where
  "vmeth_qtwidgets_0_29 = [
     Bind [ValueM QTGUI_QPAINTERPATH] ''shape'' [] (RValue QPainterPath) [OnValue QGraphicsEllipseItem, OnValue QGraphicsItem],
     Bind [] ''show'' [] RVoid [OnValue QGraphicsItem],
     Bind [EnumM ''QT_SIZEHINT'', ValueM QTCORE_QSIZEF] ''sizeHint'' [PConv ''Qt::SizeHint'', PConv QSizeF] (RValue QSizeF) [OnValue QGraphicsGridLayout],
     Bind [] ''spanAngle'' [] RNumber [OnValue QGraphicsEllipseItem],
     Bind [] ''startAngle'' [] RNumber [OnValue QGraphicsEllipseItem],
     Bind [TypeM ''QTWIDGETS_QGRAPHICSOBJECT''] ''toGraphicsObject'' [] RObject [OnValue QGraphicsItem],
     Bind [] ''toolTip'' [] RString [OnValue QGraphicsItem]]"

definition vmeth_qtwidgets_0_30 :: "binding list" where
  "vmeth_qtwidgets_0_30 = [
     Bind [TypeM ''QTWIDGETS_QGRAPHICSWIDGET''] ''topLevelWidget'' [] RObject [OnValue QGraphicsItem],
     Bind [ValueM QTGUI_QTRANSFORM] ''transform'' [] (RValue QTransform) [OnValue QGraphicsItem],
     Bind [ValueM QTCORE_QPOINTF] ''transformOriginPoint'' [] (RValue QPointF) [OnValue QGraphicsItem],
     Bind [TypeM ''QTWIDGETS_QGRAPHICSTRANSFORM''] ''transformations'' [] (RList IObject) [OnValue QGraphicsItem],
     Bind [] ''type'' [] RNumber [OnValue QGraphicsEllipseItem, OnValue QGraphicsItem],
     Bind [] ''ungrabKeyboard'' [] RVoid [OnValue QGraphicsItem],
     Bind [] ''ungrabMouse'' [] RVoid [OnValue QGraphicsItem]]"

definition vmeth_qtwidgets_0_31 :: "binding list" where
  "vmeth_qtwidgets_0_31 = [
     Bind [] ''unsetCursor'' [] RVoid [OnValue QGraphicsItem],
     Bind [ValueM QTCORE_QRECTF] ''update'' [PConv QRectF] RVoid [OnValue QGraphicsItem],
     Bind [] ''update'' [PReal ''qreal'', PReal ''qreal'', PReal ''qreal'', PReal ''qreal''] RVoid [OnValue QGraphicsItem],
     Bind [] ''verticalSpacing'' [] RNumber [OnValue QGraphicsAnchorLayout, OnValue QGraphicsGridLayout],
     Bind [TypeM QTWIDGETS_QWIDGET] ''widget'' [] RObject [OnValue QGestureEvent],
     Bind [TypeM ''QTWIDGETS_QGRAPHICSWIDGET''] ''window'' [] RObject [OnValue QGraphicsItem],
     Bind [] ''x'' [] RNumber [OnValue QGraphicsItem]]"

definition vmeth_qtwidgets_0_32 :: "binding list" where
  "vmeth_qtwidgets_0_32 = [
     Bind [] ''y'' [] RNumber [OnValue QGraphicsItem],
     Bind [] ''zValue'' [] RNumber [OnValue QGraphicsItem]]"

definition vtypes_qtwidgets_0 :: "string list" where
  "vtypes_qtwidgets_0 = [''QAbstractGraphicsShapeItem'', ''QFileIconProvider'', QGestureEvent, ''QGestureRecognizer'', QGraphicsAnchorLayout,
     QGraphicsEllipseItem, QGraphicsGridLayout, QGraphicsItem]"

definition vmeth_qtwidgets_1_0 :: "binding list" where
  "vmeth_qtwidgets_1_0 = [
     Bind [] ''activate'' [] RVoid [OnValue ''QGraphicsLayout''],
     Bind [] ''addStretch'' [PInt] RVoid [OnValue QGraphicsLinearLayout],
     Bind [ValueM QTCORE_QRECTF] ''boundingRect'' [] (RValue QRectF) [OnValue ''QGraphicsItemGroup'', OnValue ''QGraphicsLineItem'', OnValue ''QGraphicsPathItem'', OnValue QGraphicsPixmapItem, OnValue ''QGraphicsPolygonItem''],
     Bind [ValueM QTCORE_QPOINTF] ''contains'' [PConv QPointF] RBool [OnValue ''QGraphicsLineItem'', OnValue ''QGraphicsPathItem'', OnValue QGraphicsPixmapItem, OnValue ''QGraphicsPolygonItem'']]"

definition vmeth_qtwidgets_1_1 :: "binding list" where
  "vmeth_qtwidgets_1_1 = [
     Bind [ValueM QTCORE_QRECTF] ''contentsRect'' [] (RValue QRectF) [OnValue QGraphicsLayoutItem],
     Bind [] ''count'' [] RNumber [OnValue QGraphicsLinearLayout],
     Bind [EnumM ''QT_SIZEHINT'', ValueM QTCORE_QSIZEF] ''effectiveSizeHint'' [PConv ''Qt::SizeHint'', PConv QSizeF] (RValue QSizeF) [OnValue QGraphicsLayoutItem],
     Bind [EnumM ''QT_FILLRULE''] ''fillRule'' [] (RMeta ''Qt::FillRule'') [OnValue ''QGraphicsPolygonItem''],
     Bind [ValueM QTCORE_QRECTF] ''geometry'' [] (RValue QRectF) [OnValue QGraphicsLayoutItem],
     Bind [] ''insertStretch'' [PInt, PInt] RVoid [OnValue QGraphicsLinearLayout]]"

definition vmeth_qtwidgets_1_2 :: "binding list" where
  "vmeth_qtwidgets_1_2 = [
     Bind [] ''invalidate'' [] RVoid [OnValue ''QGraphicsLayout'', OnValue QGraphicsLinearLayout],
     Bind [] ''isActivated'' [] RBool [OnValue ''QGraphicsLayout''],
     Bind [] ''isEmpty'' [] RBool [OnValue QGraphicsLayoutItem],
     Bind [] ''isLayout'' [] RBool [OnValue QGraphicsLayoutItem],
     Bind [] ''itemSpacing'' [PInt] RNumber [OnValue QGraphicsLinearLayout],
     Bind [ValueM ''QTCORE_QLINEF''] ''line'' [] (RValue QLineF) [OnValue ''QGraphicsLineItem''],
     Bind [] ''maximumHeight'' [] RNumber [OnValue QGraphicsLayoutItem]]"

definition vmeth_qtwidgets_1_3 :: "binding list" where
  "vmeth_qtwidgets_1_3 = [
     Bind [ValueM QTCORE_QSIZEF] ''maximumSize'' [] (RValue QSizeF) [OnValue QGraphicsLayoutItem],
     Bind [] ''maximumWidth'' [] RNumber [OnValue QGraphicsLayoutItem],
     Bind [] ''minimumHeight'' [] RNumber [OnValue QGraphicsLayoutItem],
     Bind [ValueM QTCORE_QSIZEF] ''minimumSize'' [] (RValue QSizeF) [OnValue QGraphicsLayoutItem],
     Bind [] ''minimumWidth'' [] RNumber [OnValue QGraphicsLayoutItem],
     Bind [ValueM QTCORE_QPOINTF] ''offset'' [] (RValue QPointF) [OnValue QGraphicsPixmapItem]]"

definition vmeth_qtwidgets_1_4 :: "binding list" where
  "vmeth_qtwidgets_1_4 = [
     Bind [ValueM QTGUI_QPAINTERPATH] ''opaqueArea'' [] (RValue QPainterPath) [OnValue ''QGraphicsItemGroup'', OnValue ''QGraphicsLineItem'', OnValue ''QGraphicsPathItem'', OnValue QGraphicsPixmapItem, OnValue ''QGraphicsPolygonItem''],
     Bind [EnumM QT_ORIENTATION] ''orientation'' [] (RMeta Qt_Orientation) [OnValue QGraphicsLinearLayout],
     Bind [] ''ownedByLayout'' [] RBool [OnValue QGraphicsLayoutItem],
     Bind [ValueM QTGUI_QPAINTERPATH] ''path'' [] (RValue QPainterPath) [OnValue ''QGraphicsPathItem''],
     Bind [ValueM QTGUI_QPEN] ''pen'' [] (RValue QPen) [OnValue ''QGraphicsLineItem'']]"

definition vmeth_qtwidgets_1_5 :: "binding list" where
  "vmeth_qtwidgets_1_5 = [
     Bind [ValueM QTGUI_QPIXMAP] ''pixmap'' [] (RValue QPixmap) [OnValue QGraphicsPixmapItem],
     Bind [ValueM QTGUI_QPOLYGONF] ''polygon'' [] (RValue QPolygonF) [OnValue ''QGraphicsPolygonItem''],
     Bind [] ''preferredHeight'' [] RNumber [OnValue QGraphicsLayoutItem],
     Bind [ValueM QTCORE_QSIZEF] ''preferredSize'' [] (RValue QSizeF) [OnValue QGraphicsLayoutItem],
     Bind [] ''preferredWidth'' [] RNumber [OnValue QGraphicsLayoutItem],
     Bind [] ''setContentsMargins'' [PReal ''qreal'', PReal ''qreal'', PReal ''qreal'', PReal ''qreal''] RVoid [OnValue ''QGraphicsLayout''],
     Bind [EnumM ''QT_FILLRULE''] ''setFillRule'' [PConv ''Qt::FillRule''] RVoid [OnValue ''QGraphicsPolygonItem'']]"

definition vmeth_qtwidgets_1_6 :: "binding list" where
  "vmeth_qtwidgets_1_6 = [
     Bind [ValueM QTCORE_QRECTF] ''setGeometry'' [PConv QRectF] RVoid [OnValue QGraphicsLayoutItem, OnValue QGraphicsLinearLayout],
     Bind [] ''setItemSpacing'' [PInt, PReal ''qreal''] RVoid [OnValue QGraphicsLinearLayout],
     Bind [ValueM ''QTCORE_QLINEF''] ''setLine'' [PConv QLineF] RVoid [OnValue ''QGraphicsLineItem''],
     Bind [] ''setLine'' [PReal ''qreal'', PReal ''qreal'', PReal ''qreal'', PReal ''qreal''] RVoid [OnValue ''QGraphicsLineItem''],
     Bind [] ''setMaximumHeight'' [PReal ''qreal''] RVoid [OnValue QGraphicsLayoutItem],
     Bind [ValueM QTCORE_QSIZEF] ''setMaximumSize'' [PConv QSizeF] RVoid [OnValue QGraphicsLayoutItem]]"

definition vmeth_qtwidgets_1_7 :: "binding list" where
  "vmeth_qtwidgets_1_7 = [
     Bind [] ''setMaximumSize'' [PReal ''qreal'', PReal ''qreal''] RVoid [OnValue QGraphicsLayoutItem],
     Bind [] ''setMaximumWidth'' [PReal ''qreal''] RVoid [OnValue QGraphicsLayoutItem],
     Bind [] ''setMinimumHeight'' [PReal ''qreal''] RVoid [OnValue QGraphicsLayoutItem],
     Bind [ValueM QTCORE_QSIZEF] ''setMinimumSize'' [PConv QSizeF] RVoid [OnValue QGraphicsLayoutItem],
     Bind [] ''setMinimumSize'' [PReal ''qreal'', PReal ''qreal''] RVoid [OnValue QGraphicsLayoutItem],
     Bind [] ''setMinimumWidth'' [PReal ''qreal''] RVoid [OnValue QGraphicsLayoutItem],
     Bind [ValueM QTCORE_QPOINTF] ''setOffset'' [PConv QPointF] RVoid [OnValue QGraphicsPixmapItem]]"

definition vmeth_qtwidgets_1_8 :: "binding list" where
  "vmeth_qtwidgets_1_8 = [
     Bind [] ''setOffset'' [PReal ''qreal'', PReal ''qreal''] RVoid [OnValue QGraphicsPixmapItem],
     Bind [EnumM QT_ORIENTATION] ''setOrientation'' [PConv Qt_Orientation] RVoid [OnValue QGraphicsLinearLayout],
     Bind [ValueM QTGUI_QPAINTERPATH] ''setPath'' [PConv QPainterPath] RVoid [OnValue ''QGraphicsPathItem''],
     Bind [ValueM QTGUI_QPEN] ''setPen'' [PConv QPen] RVoid [OnValue ''QGraphicsLineItem''],
     Bind [ValueM QTGUI_QPIXMAP] ''setPixmap'' [PConv QPixmap] RVoid [OnValue QGraphicsPixmapItem],
     Bind [ValueM QTGUI_QPOLYGONF] ''setPolygon'' [PConv QPolygonF] RVoid [OnValue ''QGraphicsPolygonItem'']]"

definition vmeth_qtwidgets_1_9 :: "binding list" where
  "vmeth_qtwidgets_1_9 = [
     Bind [] ''setPreferredHeight'' [PReal ''qreal''] RVoid [OnValue QGraphicsLayoutItem],
     Bind [ValueM QTCORE_QSIZEF] ''setPreferredSize'' [PConv QSizeF] RVoid [OnValue QGraphicsLayoutItem],
     Bind [] ''setPreferredSize'' [PReal ''qreal'', PReal ''qreal''] RVoid [OnValue QGraphicsLayoutItem],
     Bind [] ''setPreferredWidth'' [PReal ''qreal''] RVoid [OnValue QGraphicsLayoutItem],
     Bind [TypeM ''QTWIDGETS_QGRAPHICSPIXMAPITEM''] ''setShapeMode'' [PConv ''QGraphicsPixmapItem::ShapeMode''] RVoid [OnValue QGraphicsPixmapItem],
     Bind [ValueM QTWIDGETS_QSIZEPOLICY] ''setSizePolicy'' [PConv QSizePolicy] RVoid [OnValue QGraphicsLayoutItem]]"

definition vmeth_qtwidgets_1_10 :: "binding list" where
  "vmeth_qtwidgets_1_10 = [
     Bind [TypeM QTWIDGETS_QSIZEPOLICY] ''setSizePolicy'' [PConv QSizePolicy_Policy, PConv QSizePolicy_Policy, PConv ''QSizePolicy::ControlType''] RVoid [OnValue QGraphicsLayoutItem],
     Bind [] ''setSpacing'' [PReal ''qreal''] RVoid [OnValue QGraphicsLinearLayout],
     Bind [EnumM QT_TRANSFORMATIONMODE] ''setTransformationMode'' [PConv Qt_TransformationMode] RVoid [OnValue QGraphicsPixmapItem],
     Bind [ValueM QTGUI_QPAINTERPATH] ''shape'' [] (RValue QPainterPath) [OnValue ''QGraphicsLineItem'', OnValue ''QGraphicsPathItem'', OnValue QGraphicsPixmapItem, OnValue ''QGraphicsPolygonItem''],
     Bind [TypeM ''QTWIDGETS_QGRAPHICSPIXMAPITEM''] ''shapeMode'' [] (RMeta ''QGraphicsPixmapItem::ShapeMode'') [OnValue QGraphicsPixmapItem]]"

definition vmeth_qtwidgets_1_11 :: "binding list" where
  "vmeth_qtwidgets_1_11 = [
     Bind [EnumM ''QT_SIZEHINT'', ValueM QTCORE_QSIZEF] ''sizeHint'' [PConv ''Qt::SizeHint'', PConv QSizeF] (RValue QSizeF) [OnValue QGraphicsLinearLayout],
     Bind [ValueM QTWIDGETS_QSIZEPOLICY] ''sizePolicy'' [] (RValue QSizePolicy) [OnValue QGraphicsLayoutItem],
     Bind [] ''spacing'' [] RNumber [OnValue QGraphicsLinearLayout],
     Bind [EnumM QT_TRANSFORMATIONMODE] ''transformationMode'' [] (RMeta Qt_TransformationMode) [OnValue QGraphicsPixmapItem],
     Bind [] ''type'' [] RNumber [OnValue ''QGraphicsItemGroup'', OnValue ''QGraphicsLineItem'', OnValue ''QGraphicsPathItem'', OnValue QGraphicsPixmapItem, OnValue ''QGraphicsPolygonItem'']]"

definition vmeth_qtwidgets_1_12 :: "binding list" where
  "vmeth_qtwidgets_1_12 = [
     Bind [] ''updateGeometry'' [] RVoid [OnValue ''QGraphicsLayout'', OnValue QGraphicsLayoutItem]]"

definition vtypes_qtwidgets_1 :: "string list" where
  "vtypes_qtwidgets_1 = [''QGraphicsItemGroup'', ''QGraphicsLayout'', QGraphicsLayoutItem, ''QGraphicsLineItem'', QGraphicsLinearLayout,
     ''QGraphicsPathItem'', QGraphicsPixmapItem, ''QGraphicsPolygonItem'']"

definition vmeth_qtwidgets_2_0 :: "binding list" where
  "vmeth_qtwidgets_2_0 = [
     Bind [] ''acceptProposedAction'' [] RVoid [OnValue QGraphicsSceneDragDropEvent],
     Bind [ValueM QTCORE_QRECTF] ''boundingRect'' [] (RValue QRectF) [OnValue ''QGraphicsRectItem''],
     Bind [EnumM QT_MOUSEBUTTON] ''button'' [] (RMeta ''Qt::MouseButton'') [OnValue QGraphicsSceneMouseEvent],
     Bind [EnumM QT_MOUSEBUTTON, ValueM QTCORE_QPOINTF] ''buttonDownPos'' [PConv ''Qt::MouseButton''] (RValue QPointF) [OnValue QGraphicsSceneMouseEvent],
     Bind [EnumM QT_MOUSEBUTTON, ValueM QTCORE_QPOINTF] ''buttonDownScenePos'' [PConv ''Qt::MouseButton''] (RValue QPointF) [OnValue QGraphicsSceneMouseEvent],
     Bind [EnumM QT_MOUSEBUTTON, ValueM QTCORE_QPOINT] ''buttonDownScreenPos'' [PConv ''Qt::MouseButton''] (RValue QPoint) [OnValue QGraphicsSceneMouseEvent]]"

definition vmeth_qtwidgets_2_1 :: "binding list" where
  "vmeth_qtwidgets_2_1 = [
     Bind [EnumM QT_MOUSEBUTTONS] ''buttons'' [] (RMeta Qt_MouseButtons) [OnValue QGraphicsSceneDragDropEvent, OnValue QGraphicsSceneMouseEvent],
     Bind [ValueM QTCORE_QPOINTF] ''contains'' [PConv QPointF] RBool [OnValue ''QGraphicsRectItem''],
     Bind [EnumM QT_DROPACTION] ''dropAction'' [] (RMeta Qt_DropAction) [OnValue QGraphicsSceneDragDropEvent],
     Bind [ValueM QTCORE_QPOINTF] ''lastPos'' [] (RValue QPointF) [OnValue ''QGraphicsSceneHoverEvent'', OnValue QGraphicsSceneMouseEvent],
     Bind [ValueM QTCORE_QPOINTF] ''lastScenePos'' [] (RValue QPointF) [OnValue ''QGraphicsSceneHoverEvent'', OnValue QGraphicsSceneMouseEvent]]"

definition vmeth_qtwidgets_2_2 :: "binding list" where
  "vmeth_qtwidgets_2_2 = [
     Bind [ValueM QTCORE_QPOINT] ''lastScreenPos'' [] (RValue QPoint) [OnValue ''QGraphicsSceneHoverEvent'', OnValue QGraphicsSceneMouseEvent],
     Bind [TypeM QTCORE_QMIMEDATA] ''mimeData'' [] RObject [OnValue QGraphicsSceneDragDropEvent],
     Bind [ValueM QTCORE_QPOINTF] ''newPos'' [] (RValue QPointF) [OnValue ''QGraphicsSceneMoveEvent''],
     Bind [ValueM QTCORE_QPOINTF] ''oldPos'' [] (RValue QPointF) [OnValue ''QGraphicsSceneMoveEvent''],
     Bind [ValueM QTGUI_QPAINTERPATH] ''opaqueArea'' [] (RValue QPainterPath) [OnValue ''QGraphicsRectItem'']]"

definition vmeth_qtwidgets_2_3 :: "binding list" where
  "vmeth_qtwidgets_2_3 = [
     Bind [ValueM QTCORE_QPOINTF] ''pos'' [] (RValue QPointF) [OnValue ''QGraphicsSceneContextMenuEvent'', OnValue QGraphicsSceneDragDropEvent, OnValue ''QGraphicsSceneHoverEvent'', OnValue QGraphicsSceneMouseEvent],
     Bind [EnumM QT_DROPACTIONS] ''possibleActions'' [] (RMeta Qt_DropActions) [OnValue QGraphicsSceneDragDropEvent],
     Bind [EnumM QT_DROPACTION] ''proposedAction'' [] (RMeta Qt_DropAction) [OnValue QGraphicsSceneDragDropEvent],
     Bind [TypeM ''QTWIDGETS_QGRAPHICSSCENECONTEXTMENUEVENT''] ''reason'' [] (RMeta ''QGraphicsSceneContextMenuEvent::Reason'') [OnValue ''QGraphicsSceneContextMenuEvent''],
     Bind [ValueM QTCORE_QRECTF] ''rect'' [] (RValue QRectF) [OnValue ''QGraphicsRectItem'']]"

definition vmeth_qtwidgets_2_4 :: "binding list" where
  "vmeth_qtwidgets_2_4 = [
     Bind [ValueM QTCORE_QPOINTF] ''scenePos'' [] (RValue QPointF) [OnValue ''QGraphicsSceneContextMenuEvent'', OnValue QGraphicsSceneDragDropEvent, OnValue ''QGraphicsSceneHelpEvent'', OnValue ''QGraphicsSceneHoverEvent'', OnValue QGraphicsSceneMouseEvent],
     Bind [ValueM QTCORE_QPOINT] ''screenPos'' [] (RValue QPoint) [OnValue ''QGraphicsSceneContextMenuEvent'', OnValue QGraphicsSceneDragDropEvent, OnValue ''QGraphicsSceneHelpEvent'', OnValue ''QGraphicsSceneHoverEvent'', OnValue QGraphicsSceneMouseEvent],
     Bind [EnumM QT_DROPACTION] ''setDropAction'' [PConv Qt_DropAction] RVoid [OnValue QGraphicsSceneDragDropEvent]]"

definition vmeth_qtwidgets_2_5 :: "binding list" where
  "vmeth_qtwidgets_2_5 = [
     Bind [ValueM QTCORE_QRECTF] ''setRect'' [PConv QRectF] RVoid [OnValue ''QGraphicsRectItem''],
     Bind [] ''setRect'' [PReal ''qreal'', PReal ''qreal'', PReal ''qreal'', PReal ''qreal''] RVoid [OnValue ''QGraphicsRectItem''],
     Bind [ValueM QTGUI_QPAINTERPATH] ''shape'' [] (RValue QPainterPath) [OnValue ''QGraphicsRectItem''],
     Bind [TypeM QTWIDGETS_QWIDGET] ''source'' [] RObject [OnValue QGraphicsSceneDragDropEvent],
     Bind [EnumM ''QT_MOUSEEVENTSOURCE''] ''source'' [] (RMeta ''Qt::MouseEventSource'') [OnValue QGraphicsSceneMouseEvent],
     Bind [] ''timestamp'' [] (RMeta ''quint64'') [OnValue ''QGraphicsSceneEvent''],
     Bind [] ''type'' [] RNumber [OnValue ''QGraphicsRectItem'']]"

definition vmeth_qtwidgets_2_6 :: "binding list" where
  "vmeth_qtwidgets_2_6 = [
     Bind [TypeM QTWIDGETS_QWIDGET] ''widget'' [] RObject [OnValue ''QGraphicsSceneEvent'']]"

definition vtypes_qtwidgets_2 :: "string list" where
  "vtypes_qtwidgets_2 = [''QGraphicsRectItem'', ''QGraphicsSceneContextMenuEvent'', QGraphicsSceneDragDropEvent, ''QGraphicsSceneEvent'',
     ''QGraphicsSceneHelpEvent'', ''QGraphicsSceneHoverEvent'', QGraphicsSceneMouseEvent, ''QGraphicsSceneMoveEvent'']"

definition vmeth_qtwidgets_3_0 :: "binding list" where
  "vmeth_qtwidgets_3_0 = [
     Bind [ValueM QTGUI_QBRUSH] ''background'' [] (RValue QBrush) [OnValue QListWidgetItem],
     Bind [ValueM QTCORE_QRECTF] ''boundingRect'' [] (RValue QRectF) [OnValue QGraphicsSimpleTextItem],
     Bind [EnumM QT_MOUSEBUTTONS] ''buttons'' [] (RMeta Qt_MouseButtons) [OnValue QGraphicsSceneWheelEvent],
     Bind [EnumM ''QT_CHECKSTATE''] ''checkState'' [] (RMeta ''Qt::CheckState'') [OnValue QListWidgetItem],
     Bind [ValueM QTCORE_QPOINTF] ''contains'' [PConv QPointF] RBool [OnValue QGraphicsSimpleTextItem],
     Bind [TypeM QTWIDGETS_QSIZEPOLICY] ''controlType'' [] (RMeta ''QSizePolicy::ControlType'') [OnValue QSizePolicy],
     Bind [TypeM QTWIDGETS_QSIZEPOLICY] ''controlTypes'' [] (RMeta ''QSizePolicy::ControlTypes'') [OnValue ''QLayoutItem'']]"

definition vmeth_qtwidgets_3_1 :: "binding list" where
  "vmeth_qtwidgets_3_1 = [
     Bind [TypeM QTWIDGETS_QWIDGET] ''createEditor'' [PInt, PNonNull QWidget_ptr] RObject [OnValue ''QItemEditorFactory''],
     Bind [] ''data'' [PInt] RVariant [OnValue QListWidgetItem],
     Bind [] ''delta'' [] RNumber [OnValue QGraphicsSceneWheelEvent],
     Bind [EnumM ''QT_ORIENTATIONS''] ''expandingDirections'' [] (RMeta ''Qt::Orientations'') [OnValue QSizePolicy],
     Bind [ValueM QTGUI_QFONT] ''font'' [] (RValue QFont) [OnValue QGraphicsSimpleTextItem, OnValue QListWidgetItem],
     Bind [ValueM QTGUI_QBRUSH] ''foreground'' [] (RValue QBrush) [OnValue QListWidgetItem]]"

definition vmeth_qtwidgets_3_2 :: "binding list" where
  "vmeth_qtwidgets_3_2 = [
     Bind [] ''hasHeightForWidth'' [] RBool [OnValue ''QLayoutItem'', OnValue QSizePolicy],
     Bind [] ''hasWidthForHeight'' [] RBool [OnValue QSizePolicy],
     Bind [] ''heightForWidth'' [PInt] RNumber [OnValue ''QLayoutItem''],
     Bind [TypeM QTWIDGETS_QSIZEPOLICY] ''horizontalPolicy'' [] (RMeta QSizePolicy_Policy) [OnValue QSizePolicy],
     Bind [] ''horizontalStretch'' [] RNumber [OnValue QSizePolicy],
     Bind [ValueM QTGUI_QICON] ''icon'' [] (RValue QIcon) [OnValue QListWidgetItem],
     Bind [] ''invalidate'' [] RVoid [OnValue ''QLayoutItem'']]"

definition vmeth_qtwidgets_3_3 :: "binding list" where
  "vmeth_qtwidgets_3_3 = [
     Bind [] ''isHidden'' [] RBool [OnValue QListWidgetItem],
     Bind [] ''isInverted'' [] RBool [OnValue QGraphicsSceneWheelEvent],
     Bind [] ''isSelected'' [] RBool [OnValue QListWidgetItem],
     Bind [TypeM QTWIDGETS_QLAYOUT] ''layout'' [] RObject [OnValue ''QLayoutItem''],
     Bind [TypeM ''QTWIDGETS_QLISTWIDGET''] ''listWidget'' [] RObject [OnValue QListWidgetItem],
     Bind [] ''minimumHeightForWidth'' [PInt] RNumber [OnValue ''QLayoutItem''],
     Bind [ValueM QTCORE_QSIZEF] ''newSize'' [] (RValue QSizeF) [OnValue ''QGraphicsSceneResizeEvent'']]"

definition vmeth_qtwidgets_3_4 :: "binding list" where
  "vmeth_qtwidgets_3_4 = [
     Bind [ValueM QTCORE_QSIZEF] ''oldSize'' [] (RValue QSizeF) [OnValue ''QGraphicsSceneResizeEvent''],
     Bind [ValueM QTGUI_QPAINTERPATH] ''opaqueArea'' [] (RValue QPainterPath) [OnValue QGraphicsSimpleTextItem],
     Bind [EnumM QT_ORIENTATION] ''orientation'' [] (RMeta Qt_Orientation) [OnValue QGraphicsSceneWheelEvent],
     Bind [EnumM ''QT_SCROLLPHASE''] ''phase'' [] (RMeta ''Qt::ScrollPhase'') [OnValue QGraphicsSceneWheelEvent],
     Bind [ValueM QTCORE_QPOINT] ''pixelDelta'' [] (RValue QPoint) [OnValue QGraphicsSceneWheelEvent],
     Bind [ValueM QTCORE_QPOINTF] ''pos'' [] (RValue QPointF) [OnValue QGraphicsSceneWheelEvent],
     Bind [ValueM QTCORE_QDATASTREAM] ''read'' [PConv QDataStream] RVoid [OnValue QListWidgetItem]]"

definition vmeth_qtwidgets_3_5 :: "binding list" where
  "vmeth_qtwidgets_3_5 = [
     Bind [] ''retainSizeWhenHidden'' [] RBool [OnValue QSizePolicy],
     Bind [ValueM QTCORE_QPOINTF] ''scenePos'' [] (RValue QPointF) [OnValue QGraphicsSceneWheelEvent],
     Bind [ValueM QTCORE_QPOINT] ''screenPos'' [] (RValue QPoint) [OnValue QGraphicsSceneWheelEvent],
     Bind [TypeM ''QTWIDGETS_QSCROLLERPROPERTIES''] ''scrollMetric'' [PConv ''QScrollerProperties::ScrollMetric''] RVariant [OnValue QScrollerProperties],
     Bind [ValueM QTGUI_QBRUSH] ''setBackground'' [PConv QBrush] RVoid [OnValue QListWidgetItem],
     Bind [EnumM ''QT_CHECKSTATE''] ''setCheckState'' [PConv ''Qt::CheckState''] RVoid [OnValue QListWidgetItem],
     Bind [TypeM QTWIDGETS_QSIZEPOLICY] ''setControlType'' [PConv ''QSizePolicy::ControlType''] RVoid [OnValue QSizePolicy]]"

definition vmeth_qtwidgets_3_6 :: "binding list" where
  "vmeth_qtwidgets_3_6 = [
     Bind [] ''setData'' [PInt, PVariant] RVoid [OnValue QListWidgetItem],
     Bind [ValueM QTGUI_QFONT] ''setFont'' [PConv QFont] RVoid [OnValue QGraphicsSimpleTextItem, OnValue QListWidgetItem],
     Bind [ValueM QTGUI_QBRUSH] ''setForeground'' [PConv QBrush] RVoid [OnValue QListWidgetItem],
     Bind [] ''setHeightForWidth'' [PBool] RVoid [OnValue QSizePolicy],
     Bind [] ''setHidden'' [PBool] RVoid [OnValue QListWidgetItem],
     Bind [TypeM QTWIDGETS_QSIZEPOLICY] ''setHorizontalPolicy'' [PConv QSizePolicy_Policy] RVoid [OnValue QSizePolicy]]"

definition vmeth_qtwidgets_3_7 :: "binding list" where
  "vmeth_qtwidgets_3_7 = [
     Bind [] ''setHorizontalStretch'' [PInt] RVoid [OnValue QSizePolicy],
     Bind [ValueM QTGUI_QICON] ''setIcon'' [PConv QIcon] RVoid [OnValue QListWidgetItem],
     Bind [] ''setRetainSizeWhenHidden'' [PBool] RVoid [OnValue QSizePolicy],
     Bind [TypeM ''QTWIDGETS_QSCROLLERPROPERTIES''] ''setScrollMetric'' [PConv ''QScrollerProperties::ScrollMetric'', PVariant] RVoid [OnValue QScrollerProperties],
     Bind [] ''setSelected'' [PBool] RVoid [OnValue QListWidgetItem],
     Bind [ValueM QTCORE_QSIZE] ''setSizeHint'' [PConv QSize] RVoid [OnValue QListWidgetItem]]"

definition vmeth_qtwidgets_3_8 :: "binding list" where
  "vmeth_qtwidgets_3_8 = [
     Bind [] ''setStatusTip'' [PString True] RVoid [OnValue QListWidgetItem],
     Bind [] ''setText'' [PString True] RVoid [OnValue QGraphicsSimpleTextItem, OnValue QListWidgetItem],
     Bind [] ''setTextAlignment'' [PInt] RVoid [OnValue QListWidgetItem],
     Bind [] ''setToolTip'' [PString True] RVoid [OnValue QListWidgetItem],
     Bind [TypeM QTWIDGETS_QSIZEPOLICY] ''setVerticalPolicy'' [PConv QSizePolicy_Policy] RVoid [OnValue QSizePolicy],
     Bind [] ''setVerticalStretch'' [PInt] RVoid [OnValue QSizePolicy]]"

definition vmeth_qtwidgets_3_9 :: "binding list" where
  "vmeth_qtwidgets_3_9 = [
     Bind [] ''setWhatsThis'' [PString True] RVoid [OnValue QListWidgetItem],
     Bind [] ''setWidthForHeight'' [PBool] RVoid [OnValue QSizePolicy],
     Bind [ValueM QTGUI_QPAINTERPATH] ''shape'' [] (RValue QPainterPath) [OnValue QGraphicsSimpleTextItem],
     Bind [ValueM QTCORE_QSIZE] ''sizeHint'' [] (RValue QSize) [OnValue QListWidgetItem],
     Bind [] ''statusTip'' [] RString [OnValue QListWidgetItem],
     Bind [] ''text'' [] RString [OnValue QGraphicsSimpleTextItem, OnValue QListWidgetItem],
     Bind [] ''textAlignment'' [] RNumber [OnValue QListWidgetItem]]"

definition vmeth_qtwidgets_3_10 :: "binding list" where
  "vmeth_qtwidgets_3_10 = [
     Bind [] ''toolTip'' [] RString [OnValue QListWidgetItem],
     Bind [] ''transpose'' [] RVoid [OnValue QSizePolicy],
     Bind [ValueM QTWIDGETS_QSIZEPOLICY] ''transposed'' [] (RValue QSizePolicy) [OnValue QSizePolicy],
     Bind [] ''type'' [] RNumber [OnValue QGraphicsSimpleTextItem, OnValue QListWidgetItem],
     Bind [ValueM QTCORE_QBYTEARRAY] ''valuePropertyName'' [PInt] (RValue QByteArray) [OnValue ''QItemEditorFactory''],
     Bind [TypeM QTWIDGETS_QSIZEPOLICY] ''verticalPolicy'' [] (RMeta QSizePolicy_Policy) [OnValue QSizePolicy],
     Bind [] ''verticalStretch'' [] RNumber [OnValue QSizePolicy]]"

definition vmeth_qtwidgets_3_11 :: "binding list" where
  "vmeth_qtwidgets_3_11 = [
     Bind [] ''whatsThis'' [] RString [OnValue QListWidgetItem],
     Bind [TypeM QTWIDGETS_QWIDGET] ''widget'' [] RObject [OnValue ''QLayoutItem''],
     Bind [ValueM QTCORE_QDATASTREAM] ''write'' [PConv QDataStream] RVoid [OnValue QListWidgetItem]]"

definition vtypes_qtwidgets_3 :: "string list" where
  "vtypes_qtwidgets_3 = [''QGraphicsSceneResizeEvent'', QGraphicsSceneWheelEvent, QGraphicsSimpleTextItem, ''QItemEditorFactory'',
     ''QLayoutItem'', QListWidgetItem, QScrollerProperties, QSizePolicy]"

definition vmeth_qtwidgets_4_0 :: "binding list" where
  "vmeth_qtwidgets_4_0 = [
     Bind [ValueM QTGUI_QBRUSH] ''background'' [] (RValue QBrush) [OnValue QTableWidgetItem],
     Bind [ValueM QTGUI_QBRUSH] ''background'' [PInt] (RValue QBrush) [OnValue QTreeWidgetItem],
     Bind [TypeM QTWIDGETS_QWIDGET] ''begin'' [PNonNull QWidget_ptr] RBool [OnValue ''QStylePainter''],
     Bind [] ''bottomRow'' [] RNumber [OnValue QTableWidgetSelectionRange],
     Bind [TypeM QTWIDGETS_QSIZEPOLICY] ''changeSize'' [PInt, PInt, PConv QSizePolicy_Policy, PConv QSizePolicy_Policy] RVoid [OnValue ''QSpacerItem''],
     Bind [EnumM ''QT_CHECKSTATE''] ''checkState'' [] (RMeta ''Qt::CheckState'') [OnValue QTableWidgetItem]]"

definition vmeth_qtwidgets_4_1 :: "binding list" where
  "vmeth_qtwidgets_4_1 = [
     Bind [EnumM ''QT_CHECKSTATE''] ''checkState'' [PInt] (RMeta ''Qt::CheckState'') [OnValue QTreeWidgetItem],
     Bind [] ''childCount'' [] RNumber [OnValue QTreeWidgetItem],
     Bind [TypeM ''QTWIDGETS_QTREEWIDGETITEM''] ''childIndicatorPolicy'' [] (RMeta ''QTreeWidgetItem::ChildIndicatorPolicy'') [OnValue QTreeWidgetItem],
     Bind [] ''column'' [] RNumber [OnValue QTableWidgetItem],
     Bind [] ''columnCount'' [] RNumber [OnValue QTableWidgetSelectionRange, OnValue QTreeWidgetItem],
     Bind [TypeM QTWIDGETS_QSIZEPOLICY] ''controlTypes'' [] (RMeta ''QSizePolicy::ControlTypes'') [OnValue ''QWidgetItem''],
     Bind [] ''data'' [PInt] RVariant [OnValue QTableWidgetItem]]"

definition vmeth_qtwidgets_4_2 :: "binding list" where
  "vmeth_qtwidgets_4_2 = [
     Bind [] ''data'' [PInt, PInt] RVariant [OnValue QTreeWidgetItem],
     Bind [TypeM QTWIDGETS_QSTYLE, ValueM ''QTWIDGETS_QSTYLEOPTIONCOMPLEX''] ''drawComplexControl'' [PConv ''QStyle::ComplexControl'', PConv ''QStyleOptionComplex''] RVoid [OnValue ''QStylePainter''],
     Bind [TypeM QTWIDGETS_QSTYLE, ValueM ''QTWIDGETS_QSTYLEOPTION''] ''drawControl'' [PConv ''QStyle::ControlElement'', PConv ''QStyleOption''] RVoid [OnValue ''QStylePainter''],
     Bind [ValueM QTCORE_QRECT, ValueM QTGUI_QPIXMAP] ''drawItemPixmap'' [PConv QRect, PInt, PConv QPixmap] RVoid [OnValue ''QStylePainter''],
     Bind [TypeM QTGUI_QPALETTE, ValueM QTCORE_QRECT, ValueM QTGUI_QPALETTE] ''drawItemText'' [PConv QRect, PInt, PConv QPalette, PBool, PString True, PConv QPalette_ColorRole] RVoid [OnValue ''QStylePainter'']]"

definition vmeth_qtwidgets_4_3 :: "binding list" where
  "vmeth_qtwidgets_4_3 = [
     Bind [TypeM QTWIDGETS_QSTYLE, ValueM ''QTWIDGETS_QSTYLEOPTION''] ''drawPrimitive'' [PConv ''QStyle::PrimitiveElement'', PConv ''QStyleOption''] RVoid [OnValue ''QStylePainter''],
     Bind [EnumM ''QT_ORIENTATIONS''] ''expandingDirections'' [] (RMeta ''Qt::Orientations'') [OnValue ''QSpacerItem'', OnValue ''QWidgetItem''],
     Bind [ValueM QTGUI_QFONT] ''font'' [] (RValue QFont) [OnValue QTableWidgetItem],
     Bind [ValueM QTGUI_QFONT] ''font'' [PInt] (RValue QFont) [OnValue QTreeWidgetItem],
     Bind [ValueM QTGUI_QBRUSH] ''foreground'' [] (RValue QBrush) [OnValue QTableWidgetItem],
     Bind [ValueM QTGUI_QBRUSH] ''foreground'' [PInt] (RValue QBrush) [OnValue QTreeWidgetItem]]"

definition vmeth_qtwidgets_4_4 :: "binding list" where
  "vmeth_qtwidgets_4_4 = [
     Bind [ValueM QTCORE_QRECT] ''geometry'' [] (RValue QRect) [OnValue ''QSpacerItem'', OnValue ''QWidgetItem''],
     Bind [] ''hasHeightForWidth'' [] RBool [OnValue ''QWidgetItem''],
     Bind [] ''heightForWidth'' [PInt] RNumber [OnValue ''QWidgetItem''],
     Bind [ValueM QTGUI_QICON] ''icon'' [] (RValue QIcon) [OnValue QTableWidgetItem],
     Bind [ValueM QTGUI_QICON] ''icon'' [PInt] (RValue QIcon) [OnValue QTreeWidgetItem],
     Bind [TypeM QTWIDGETS_QWIDGET] ''initFrom'' [PNonNull QWidget_ptr] RVoid [OnValue ''QStyleOption'']]"

definition vmeth_qtwidgets_4_5 :: "binding list" where
  "vmeth_qtwidgets_4_5 = [
     Bind [] ''isDisabled'' [] RBool [OnValue QTreeWidgetItem],
     Bind [] ''isEmpty'' [] RBool [OnValue ''QSpacerItem'', OnValue ''QWidgetItem''],
     Bind [] ''isExpanded'' [] RBool [OnValue QTreeWidgetItem],
     Bind [] ''isFirstColumnSpanned'' [] RBool [OnValue QTreeWidgetItem],
     Bind [] ''isHidden'' [] RBool [OnValue QTreeWidgetItem],
     Bind [] ''isSelected'' [] RBool [OnValue QTableWidgetItem, OnValue QTreeWidgetItem],
     Bind [] ''leftColumn'' [] RNumber [OnValue QTableWidgetSelectionRange]]"

definition vmeth_qtwidgets_4_6 :: "binding list" where
  "vmeth_qtwidgets_4_6 = [
     Bind [ValueM QTCORE_QSIZE] ''maximumSize'' [] (RValue QSize) [OnValue ''QSpacerItem'', OnValue ''QWidgetItem''],
     Bind [] ''minimumHeightForWidth'' [PInt] RNumber [OnValue ''QWidgetItem''],
     Bind [ValueM QTCORE_QSIZE] ''minimumSize'' [] (RValue QSize) [OnValue ''QSpacerItem'', OnValue ''QWidgetItem''],
     Bind [ValueM QTCORE_QDATASTREAM] ''read'' [PConv QDataStream] RVoid [OnValue QTableWidgetItem, OnValue QTreeWidgetItem],
     Bind [] ''rightColumn'' [] RNumber [OnValue QTableWidgetSelectionRange],
     Bind [] ''row'' [] RNumber [OnValue QTableWidgetItem]]"

definition vmeth_qtwidgets_4_7 :: "binding list" where
  "vmeth_qtwidgets_4_7 = [
     Bind [] ''rowCount'' [] RNumber [OnValue QTableWidgetSelectionRange],
     Bind [ValueM QTGUI_QBRUSH] ''setBackground'' [PConv QBrush] RVoid [OnValue QTableWidgetItem],
     Bind [ValueM QTGUI_QBRUSH] ''setBackground'' [PInt, PConv QBrush] RVoid [OnValue QTreeWidgetItem],
     Bind [EnumM ''QT_CHECKSTATE''] ''setCheckState'' [PConv ''Qt::CheckState''] RVoid [OnValue QTableWidgetItem],
     Bind [EnumM ''QT_CHECKSTATE''] ''setCheckState'' [PInt, PConv ''Qt::CheckState''] RVoid [OnValue QTreeWidgetItem],
     Bind [TypeM ''QTWIDGETS_QTREEWIDGETITEM''] ''setChildIndicatorPolicy'' [PConv ''QTreeWidgetItem::ChildIndicatorPolicy''] RVoid [OnValue QTreeWidgetItem]]"

definition vmeth_qtwidgets_4_8 :: "binding list" where
  "vmeth_qtwidgets_4_8 = [
     Bind [] ''setData'' [PInt, PVariant] RVoid [OnValue QTableWidgetItem],
     Bind [] ''setData'' [PInt, PInt, PVariant] RVoid [OnValue QTreeWidgetItem],
     Bind [] ''setDisabled'' [PBool] RVoid [OnValue QTreeWidgetItem],
     Bind [] ''setExpanded'' [PBool] RVoid [OnValue QTreeWidgetItem],
     Bind [] ''setFirstColumnSpanned'' [PBool] RVoid [OnValue QTreeWidgetItem],
     Bind [ValueM QTGUI_QFONT] ''setFont'' [PConv QFont] RVoid [OnValue QTableWidgetItem]]"

definition vmeth_qtwidgets_4_9 :: "binding list" where
  "vmeth_qtwidgets_4_9 = [
     Bind [ValueM QTGUI_QFONT] ''setFont'' [PInt, PConv QFont] RVoid [OnValue QTreeWidgetItem],
     Bind [ValueM QTGUI_QBRUSH] ''setForeground'' [PConv QBrush] RVoid [OnValue QTableWidgetItem],
     Bind [ValueM QTGUI_QBRUSH] ''setForeground'' [PInt, PConv QBrush] RVoid [OnValue QTreeWidgetItem],
     Bind [ValueM QTCORE_QRECT] ''setGeometry'' [PConv QRect] RVoid [OnValue ''QSpacerItem'', OnValue ''QWidgetItem''],
     Bind [] ''setHidden'' [PBool] RVoid [OnValue QTreeWidgetItem],
     Bind [ValueM QTGUI_QICON] ''setIcon'' [PConv QIcon] RVoid [OnValue QTableWidgetItem]]"

definition vmeth_qtwidgets_4_10 :: "binding list" where
  "vmeth_qtwidgets_4_10 = [
     Bind [ValueM QTGUI_QICON] ''setIcon'' [PInt, PConv QIcon] RVoid [OnValue QTreeWidgetItem],
     Bind [] ''setSelected'' [PBool] RVoid [OnValue QTableWidgetItem, OnValue QTreeWidgetItem],
     Bind [ValueM QTCORE_QSIZE] ''setSizeHint'' [PConv QSize] RVoid [OnValue QTableWidgetItem],
     Bind [ValueM QTCORE_QSIZE] ''setSizeHint'' [PInt, PConv QSize] RVoid [OnValue QTreeWidgetItem],
     Bind [] ''setStatusTip'' [PString True] RVoid [OnValue QTableWidgetItem],
     Bind [] ''setStatusTip'' [PInt, PString True] RVoid [OnValue QTreeWidgetItem]]"

definition vmeth_qtwidgets_4_11 :: "binding list" where
  "vmeth_qtwidgets_4_11 = [
     Bind [] ''setText'' [PString True] RVoid [OnValue QTableWidgetItem],
     Bind [] ''setText'' [PInt, PString True] RVoid [OnValue QTreeWidgetItem],
     Bind [] ''setTextAlignment'' [PInt] RVoid [OnValue QTableWidgetItem],
     Bind [] ''setTextAlignment'' [PInt, PInt] RVoid [OnValue QTreeWidgetItem],
     Bind [] ''setToolTip'' [PString True] RVoid [OnValue QTableWidgetItem],
     Bind [] ''setToolTip'' [PInt, PString True] RVoid [OnValue QTreeWidgetItem]]"

definition vmeth_qtwidgets_4_12 :: "binding list" where
  "vmeth_qtwidgets_4_12 = [
     Bind [] ''setWhatsThis'' [PString True] RVoid [OnValue QTableWidgetItem],
     Bind [] ''setWhatsThis'' [PInt, PString True] RVoid [OnValue QTreeWidgetItem],
     Bind [ValueM QTCORE_QSIZE] ''sizeHint'' [] (RValue QSize) [OnValue ''QSpacerItem'', OnValue QTableWidgetItem, OnValue ''QWidgetItem''],
     Bind [ValueM QTCORE_QSIZE] ''sizeHint'' [PInt] (RValue QSize) [OnValue QTreeWidgetItem],
     Bind [ValueM QTWIDGETS_QSIZEPOLICY] ''sizePolicy'' [] (RValue QSizePolicy) [OnValue ''QSpacerItem'']]"

definition vmeth_qtwidgets_4_13 :: "binding list" where
  "vmeth_qtwidgets_4_13 = [
     Bind [EnumM ''QT_SORTORDER''] ''sortChildren'' [PInt, PConv ''Qt::SortOrder''] RVoid [OnValue QTreeWidgetItem],
     Bind [] ''statusTip'' [] RString [OnValue QTableWidgetItem],
     Bind [] ''statusTip'' [PInt] RString [OnValue QTreeWidgetItem],
     Bind [TypeM QTWIDGETS_QSTYLE] ''style'' [] RObject [OnValue ''QStylePainter''],
     Bind [TypeM ''QTWIDGETS_QTABLEWIDGET''] ''tableWidget'' [] RObject [OnValue QTableWidgetItem],
     Bind [] ''text'' [] RString [OnValue QTableWidgetItem],
     Bind [] ''text'' [PInt] RString [OnValue QTreeWidgetItem]]"

definition vmeth_qtwidgets_4_14 :: "binding list" where
  "vmeth_qtwidgets_4_14 = [
     Bind [] ''textAlignment'' [] RNumber [OnValue QTableWidgetItem],
     Bind [] ''textAlignment'' [PInt] RNumber [OnValue QTreeWidgetItem],
     Bind [] ''toolTip'' [] RString [OnValue QTableWidgetItem],
     Bind [] ''toolTip'' [PInt] RString [OnValue QTreeWidgetItem],
     Bind [] ''topRow'' [] RNumber [OnValue QTableWidgetSelectionRange],
     Bind [TypeM ''QTWIDGETS_QTREEWIDGET''] ''treeWidget'' [] RObject [OnValue QTreeWidgetItem],
     Bind [] ''type'' [] RNumber [OnValue QTableWidgetItem, OnValue QTreeWidgetItem]]"

definition vmeth_qtwidgets_4_15 :: "binding list" where
  "vmeth_qtwidgets_4_15 = [
     Bind [] ''whatsThis'' [] RString [OnValue QTableWidgetItem],
     Bind [] ''whatsThis'' [PInt] RString [OnValue QTreeWidgetItem],
     Bind [TypeM QTWIDGETS_QWIDGET] ''widget'' [] RObject [OnValue ''QWidgetItem''],
     Bind [ValueM QTCORE_QDATASTREAM] ''write'' [PConv QDataStream] RVoid [OnValue QTableWidgetItem, OnValue QTreeWidgetItem]]"

definition vtypes_qtwidgets_4 :: "string list" where
  "vtypes_qtwidgets_4 = [''QSpacerItem'', ''QStyleOption'', ''QStylePainter'', QTableWidgetItem, QTableWidgetSelectionRange, QTreeWidgetItem,
     ''QWidgetItem'']"

definition vmeth_table_widgets_a :: "(string \<times> shard) list" where
  "vmeth_table_widgets_a = [
     (''qtwidgets_0'', \<lparr>sh_module = ''QtWidgets'', sh_slug = ''QTWIDGETS'',
        sh_bindings = concat [vmeth_qtwidgets_0_0, vmeth_qtwidgets_0_1, vmeth_qtwidgets_0_2, vmeth_qtwidgets_0_3, vmeth_qtwidgets_0_4, vmeth_qtwidgets_0_5, vmeth_qtwidgets_0_6, vmeth_qtwidgets_0_7, vmeth_qtwidgets_0_8, vmeth_qtwidgets_0_9, vmeth_qtwidgets_0_10, vmeth_qtwidgets_0_11, vmeth_qtwidgets_0_12, vmeth_qtwidgets_0_13, vmeth_qtwidgets_0_14, vmeth_qtwidgets_0_15, vmeth_qtwidgets_0_16, vmeth_qtwidgets_0_17, vmeth_qtwidgets_0_18, vmeth_qtwidgets_0_19, vmeth_qtwidgets_0_20, vmeth_qtwidgets_0_21, vmeth_qtwidgets_0_22, vmeth_qtwidgets_0_23, vmeth_qtwidgets_0_24, vmeth_qtwidgets_0_25, vmeth_qtwidgets_0_26, vmeth_qtwidgets_0_27, vmeth_qtwidgets_0_28, vmeth_qtwidgets_0_29, vmeth_qtwidgets_0_30, vmeth_qtwidgets_0_31, vmeth_qtwidgets_0_32]\<rparr>),
     (''qtwidgets_1'', \<lparr>sh_module = ''QtWidgets'', sh_slug = ''QTWIDGETS'',
        sh_bindings = concat [vmeth_qtwidgets_1_0, vmeth_qtwidgets_1_1, vmeth_qtwidgets_1_2, vmeth_qtwidgets_1_3, vmeth_qtwidgets_1_4, vmeth_qtwidgets_1_5, vmeth_qtwidgets_1_6, vmeth_qtwidgets_1_7, vmeth_qtwidgets_1_8, vmeth_qtwidgets_1_9, vmeth_qtwidgets_1_10, vmeth_qtwidgets_1_11, vmeth_qtwidgets_1_12]\<rparr>),
     (''qtwidgets_2'', \<lparr>sh_module = ''QtWidgets'', sh_slug = ''QTWIDGETS'',
        sh_bindings = concat [vmeth_qtwidgets_2_0, vmeth_qtwidgets_2_1, vmeth_qtwidgets_2_2, vmeth_qtwidgets_2_3, vmeth_qtwidgets_2_4, vmeth_qtwidgets_2_5, vmeth_qtwidgets_2_6]\<rparr>),
     (''qtwidgets_3'', \<lparr>sh_module = ''QtWidgets'', sh_slug = ''QTWIDGETS'',
        sh_bindings = concat [vmeth_qtwidgets_3_0, vmeth_qtwidgets_3_1, vmeth_qtwidgets_3_2, vmeth_qtwidgets_3_3, vmeth_qtwidgets_3_4, vmeth_qtwidgets_3_5, vmeth_qtwidgets_3_6, vmeth_qtwidgets_3_7, vmeth_qtwidgets_3_8, vmeth_qtwidgets_3_9, vmeth_qtwidgets_3_10, vmeth_qtwidgets_3_11]\<rparr>),
     (''qtwidgets_4'', \<lparr>sh_module = ''QtWidgets'', sh_slug = ''QTWIDGETS'',
        sh_bindings = concat [vmeth_qtwidgets_4_0, vmeth_qtwidgets_4_1, vmeth_qtwidgets_4_2, vmeth_qtwidgets_4_3, vmeth_qtwidgets_4_4, vmeth_qtwidgets_4_5, vmeth_qtwidgets_4_6, vmeth_qtwidgets_4_7, vmeth_qtwidgets_4_8, vmeth_qtwidgets_4_9, vmeth_qtwidgets_4_10, vmeth_qtwidgets_4_11, vmeth_qtwidgets_4_12, vmeth_qtwidgets_4_13, vmeth_qtwidgets_4_14, vmeth_qtwidgets_4_15]\<rparr>)]"

lemmas vmeth_table_widgets_a_defs =
  vmeth_qtwidgets_0_0_def vmeth_qtwidgets_0_1_def vmeth_qtwidgets_0_2_def vmeth_qtwidgets_0_3_def
  vmeth_qtwidgets_0_4_def vmeth_qtwidgets_0_5_def vmeth_qtwidgets_0_6_def vmeth_qtwidgets_0_7_def
  vmeth_qtwidgets_0_8_def vmeth_qtwidgets_0_9_def vmeth_qtwidgets_0_10_def vmeth_qtwidgets_0_11_def
  vmeth_qtwidgets_0_12_def vmeth_qtwidgets_0_13_def vmeth_qtwidgets_0_14_def vmeth_qtwidgets_0_15_def
  vmeth_qtwidgets_0_16_def vmeth_qtwidgets_0_17_def vmeth_qtwidgets_0_18_def vmeth_qtwidgets_0_19_def
  vmeth_qtwidgets_0_20_def vmeth_qtwidgets_0_21_def vmeth_qtwidgets_0_22_def vmeth_qtwidgets_0_23_def
  vmeth_qtwidgets_0_24_def vmeth_qtwidgets_0_25_def vmeth_qtwidgets_0_26_def vmeth_qtwidgets_0_27_def
  vmeth_qtwidgets_0_28_def vmeth_qtwidgets_0_29_def vmeth_qtwidgets_0_30_def vmeth_qtwidgets_0_31_def
  vmeth_qtwidgets_0_32_def vmeth_qtwidgets_1_0_def vmeth_qtwidgets_1_1_def vmeth_qtwidgets_1_2_def
  vmeth_qtwidgets_1_3_def vmeth_qtwidgets_1_4_def vmeth_qtwidgets_1_5_def vmeth_qtwidgets_1_6_def
  vmeth_qtwidgets_1_7_def vmeth_qtwidgets_1_8_def vmeth_qtwidgets_1_9_def vmeth_qtwidgets_1_10_def
  vmeth_qtwidgets_1_11_def vmeth_qtwidgets_1_12_def vmeth_qtwidgets_2_0_def vmeth_qtwidgets_2_1_def
  vmeth_qtwidgets_2_2_def vmeth_qtwidgets_2_3_def vmeth_qtwidgets_2_4_def vmeth_qtwidgets_2_5_def
  vmeth_qtwidgets_2_6_def vmeth_qtwidgets_3_0_def vmeth_qtwidgets_3_1_def vmeth_qtwidgets_3_2_def
  vmeth_qtwidgets_3_3_def vmeth_qtwidgets_3_4_def vmeth_qtwidgets_3_5_def vmeth_qtwidgets_3_6_def
  vmeth_qtwidgets_3_7_def vmeth_qtwidgets_3_8_def vmeth_qtwidgets_3_9_def vmeth_qtwidgets_3_10_def
  vmeth_qtwidgets_3_11_def vmeth_qtwidgets_4_0_def vmeth_qtwidgets_4_1_def vmeth_qtwidgets_4_2_def
  vmeth_qtwidgets_4_3_def vmeth_qtwidgets_4_4_def vmeth_qtwidgets_4_5_def vmeth_qtwidgets_4_6_def
  vmeth_qtwidgets_4_7_def vmeth_qtwidgets_4_8_def vmeth_qtwidgets_4_9_def vmeth_qtwidgets_4_10_def
  vmeth_qtwidgets_4_11_def vmeth_qtwidgets_4_12_def vmeth_qtwidgets_4_13_def vmeth_qtwidgets_4_14_def
  vmeth_qtwidgets_4_15_def

lemma vmeth_table_widgets_a_value_blocks: "list_all (\<lambda>(s, sh). value_blocks sh) vmeth_table_widgets_a"
  by (simp add: vmeth_table_widgets_a_def vmeth_table_widgets_a_defs value_blocks_def value_shard_def; (simp add: parameter_text_def qt_name_defs)?)

end
