(* ===== verification/Generated_Tables.thy ===== *)
theory Generated_Tables
  imports Shard_Laws
    Modules_A Modules_B Described_Types Constructors_A Constructors_B Value_Constructors_Rest
    Value_Constructors_Core Value_Constructors_Gui Value_Constructors_Widgets Methods_Rest_A Methods_Qt3D_A
    Methods_Qt3D_B Methods_Devices_A Methods_Charts_A Methods_Core_A Methods_Core_B Methods_Charts_B
    Methods_Charts_C Methods_Charts_D Methods_Gui_A Methods_Gui_B Methods_Network_A Methods_Rest_B
    Methods_Widgets_A Methods_Widgets_B Methods_Widgets_C Methods_Widgets_D Methods_Widgets_E Methods_Rest_C
    Value_Methods_Rest_A Value_Methods_Core_A Value_Methods_Core_B Value_Methods_Gui_A Value_Methods_Gui_B
    Value_Methods_Gui_C Value_Methods_Network_A Value_Methods_Rest_B Value_Methods_Rest_C Value_Methods_Widgets_A
begin

text \<open>
  The generated units together: the tables of all modules and shards, \<open>link\<close>, which puts their
  interpreters into the place of the parameter \<open>G\<close>, and \<open>program\<close>, the generated code of a build with
  nothing left open.
\<close>

definition module_table :: "('w, 'o) qt \<Rightarrow> ('w, 'o) build \<Rightarrow> (string \<times> ('w, 'o) qmodule) list" where
  "module_table Q B = [
     (''QAxContainer'', module_qaxcontainer Q B), (''Qt3DAnimation'', module_qt3danimation Q B),
     (''Qt3DCore'', module_qt3dcore Q B), (''Qt3DExtras'', module_qt3dextras Q B), (''Qt3DInput'', module_qt3dinput Q B),
     (''Qt3DLogic'', module_qt3dlogic Q B), (''Qt3DRender'', module_qt3drender Q B),
     (''QtBluetooth'', module_qtbluetooth Q B), (''QtCharts'', module_qtcharts Q B), (''QtCore'', module_qtcore Q B),
     (''QtDataVisualization'', module_qtdatavisualization Q B), (''QtDBus'', module_qtdbus Q B),
     (''QtDesigner'', module_qtdesigner Q B), (''QtGraphs'', module_qtgraphs Q B),
     (''QtGraphsWidgets'', module_qtgraphswidgets Q B), (''QtGui'', module_qtgui Q B), (''QtHelp'', module_qthelp Q B),
     (''QtMultimedia'', module_qtmultimedia Q B), (''QtMultimediaWidgets'', module_qtmultimediawidgets Q B),
     (''QtNetwork'', module_qtnetwork Q B), (''QtNetworkAuth'', module_qtnetworkauth Q B), (''QtNfc'', module_qtnfc Q B),
     (''QtOpenGL'', module_qtopengl Q B), (''QtOpenGLWidgets'', module_qtopenglwidgets Q B),
     (''QtPdf'', module_qtpdf Q B), (''QtPdfWidgets'', module_qtpdfwidgets Q B),
     (''QtPositioning'', module_qtpositioning Q B), (''QtPrintSupport'', module_qtprintsupport Q B),
     (''QtQml'', module_qtqml Q B), (''QtQuick'', module_qtquick Q B), (''QtQuick3D'', module_qtquick3d Q B),
     (''QtQuickWidgets'', module_qtquickwidgets Q B), (''QtRemoteObjects'', module_qtremoteobjects Q B),
     (''QtSensors'', module_qtsensors Q B), (''QtSerialPort'', module_qtserialport Q B),
     (''QtSpatialAudio'', module_qtspatialaudio Q B), (''QtSql'', module_qtsql Q B),
     (''QtStateMachine'', module_qtstatemachine Q B), (''QtSvg'', module_qtsvg Q B),
     (''QtSvgWidgets'', module_qtsvgwidgets Q B), (''QtTest'', module_qttest Q B),
     (''QtTextToSpeech'', module_qttexttospeech Q B), (''QtWebChannel'', module_qtwebchannel Q B),
     (''QtWebEngineCore'', module_qtwebenginecore Q B), (''QtWebEngineQuick'', module_qtwebenginequick Q B),
     (''QtWebEngineWidgets'', module_qtwebenginewidgets Q B), (''QtWebSockets'', module_qtwebsockets Q B),
     (''QtWidgets'', module_qtwidgets Q B), (''QtXml'', module_qtxml Q B)]"


definition ctor_table :: "(string \<times> ctor_shard) list" where
  "ctor_table = ctor_table_a @ ctor_table_b"

definition vctor_table :: "(string \<times> ctor_shard) list" where
  "vctor_table =
     vctor_table_rest @ vctor_table_core @ vctor_table_gui @ vctor_table_widgets"

definition method_table :: "(string \<times> shard) list" where
  "method_table =
     meth_table_rest_a @ meth_table_qt3d_a @ meth_table_qt3d_b @ meth_table_devices_a @ meth_table_charts_a @
     meth_table_core_a @ meth_table_core_b @ meth_table_charts_b @ meth_table_charts_c @
     meth_table_charts_d @ meth_table_gui_a @ meth_table_gui_b @ meth_table_network_a @ meth_table_rest_b @
     meth_table_widgets_a @ meth_table_widgets_b @ meth_table_widgets_c @ meth_table_widgets_d @
     meth_table_widgets_e @ meth_table_rest_c"

definition value_method_table :: "(string \<times> shard) list" where
  "value_method_table =
     vmeth_table_rest_a @ vmeth_table_core_a @ vmeth_table_core_b @ vmeth_table_gui_a @ vmeth_table_gui_b @
     vmeth_table_gui_c @ vmeth_table_network_a @ vmeth_table_rest_b @ vmeth_table_rest_c @
     vmeth_table_widgets_a"

definition value_types_table :: "(string \<times> string \<times> string list) list" where
  "value_types_table = [
     (''qaxcontainer_0'', ''QAXCONTAINER'', vtypes_qaxcontainer_0),
     (''qt3danimation_0'', ''QT3DANIMATION'', vtypes_qt3danimation_0),
     (''qt3dcore_0'', ''QT3DCORE'', vtypes_qt3dcore_0), (''qt3drender_0'', ''QT3DRENDER'', vtypes_qt3drender_0),
     (''qtbluetooth_0'', ''QTBLUETOOTH'', vtypes_qtbluetooth_0),
     (''qtbluetooth_1'', ''QTBLUETOOTH'', vtypes_qtbluetooth_1), (''qtcore_0'', ''QTCORE'', vtypes_qtcore_0),
     (''qtcore_1'', ''QTCORE'', vtypes_qtcore_1), (''qtcore_10'', ''QTCORE'', vtypes_qtcore_10),
     (''qtcore_11'', ''QTCORE'', vtypes_qtcore_11), (''qtcore_12'', ''QTCORE'', vtypes_qtcore_12),
     (''qtcore_2'', ''QTCORE'', vtypes_qtcore_2), (''qtcore_3'', ''QTCORE'', vtypes_qtcore_3),
     (''qtcore_4'', ''QTCORE'', vtypes_qtcore_4), (''qtcore_5'', ''QTCORE'', vtypes_qtcore_5),
     (''qtcore_6'', ''QTCORE'', vtypes_qtcore_6), (''qtcore_7'', ''QTCORE'', vtypes_qtcore_7),
     (''qtcore_8'', ''QTCORE'', vtypes_qtcore_8), (''qtcore_9'', ''QTCORE'', vtypes_qtcore_9),
     (''qtdbus_0'', ''QTDBUS'', vtypes_qtdbus_0), (''qtdbus_1'', ''QTDBUS'', vtypes_qtdbus_1),
     (''qtdesigner_0'', ''QTDESIGNER'', vtypes_qtdesigner_0), (''qtgraphs_0'', ''QTGRAPHS'', vtypes_qtgraphs_0),
     (''qtgui_0'', ''QTGUI'', vtypes_qtgui_0), (''qtgui_1'', ''QTGUI'', vtypes_qtgui_1),
     (''qtgui_10'', ''QTGUI'', vtypes_qtgui_10), (''qtgui_11'', ''QTGUI'', vtypes_qtgui_11),
     (''qtgui_12'', ''QTGUI'', vtypes_qtgui_12), (''qtgui_13'', ''QTGUI'', vtypes_qtgui_13),
     (''qtgui_14'', ''QTGUI'', vtypes_qtgui_14), (''qtgui_2'', ''QTGUI'', vtypes_qtgui_2),
     (''qtgui_3'', ''QTGUI'', vtypes_qtgui_3), (''qtgui_4'', ''QTGUI'', vtypes_qtgui_4),
     (''qtgui_5'', ''QTGUI'', vtypes_qtgui_5), (''qtgui_6'', ''QTGUI'', vtypes_qtgui_6),
     (''qtgui_7'', ''QTGUI'', vtypes_qtgui_7), (''qtgui_8'', ''QTGUI'', vtypes_qtgui_8),
     (''qtgui_9'', ''QTGUI'', vtypes_qtgui_9), (''qthelp_0'', ''QTHELP'', vtypes_qthelp_0),
     (''qtmultimedia_0'', ''QTMULTIMEDIA'', vtypes_qtmultimedia_0),
     (''qtmultimedia_1'', ''QTMULTIMEDIA'', vtypes_qtmultimedia_1),
     (''qtnetwork_0'', ''QTNETWORK'', vtypes_qtnetwork_0), (''qtnetwork_1'', ''QTNETWORK'', vtypes_qtnetwork_1),
     (''qtnetwork_2'', ''QTNETWORK'', vtypes_qtnetwork_2), (''qtnetwork_3'', ''QTNETWORK'', vtypes_qtnetwork_3),
     (''qtnetwork_4'', ''QTNETWORK'', vtypes_qtnetwork_4),
     (''qtnetworkauth_0'', ''QTNETWORKAUTH'', vtypes_qtnetworkauth_0), (''qtnfc_0'', ''QTNFC'', vtypes_qtnfc_0),
     (''qtopengl_0'', ''QTOPENGL'', vtypes_qtopengl_0), (''qtopengl_1'', ''QTOPENGL'', vtypes_qtopengl_1),
     (''qtpdf_0'', ''QTPDF'', vtypes_qtpdf_0), (''qtpositioning_0'', ''QTPOSITIONING'', vtypes_qtpositioning_0),
     (''qtpositioning_1'', ''QTPOSITIONING'', vtypes_qtpositioning_1),
     (''qtprintsupport_0'', ''QTPRINTSUPPORT'', vtypes_qtprintsupport_0), (''qtqml_0'', ''QTQML'', vtypes_qtqml_0),
     (''qtqml_1'', ''QTQML'', vtypes_qtqml_1), (''qtquick_0'', ''QTQUICK'', vtypes_qtquick_0),
     (''qtquick_1'', ''QTQUICK'', vtypes_qtquick_1), (''qtquick_2'', ''QTQUICK'', vtypes_qtquick_2),
     (''qtserialport_0'', ''QTSERIALPORT'', vtypes_qtserialport_0), (''qtsql_0'', ''QTSQL'', vtypes_qtsql_0),
     (''qtsvg_0'', ''QTSVG'', vtypes_qtsvg_0), (''qttest_0'', ''QTTEST'', vtypes_qttest_0),
     (''qttexttospeech_0'', ''QTTEXTTOSPEECH'', vtypes_qttexttospeech_0),
     (''qtwebenginecore_0'', ''QTWEBENGINECORE'', vtypes_qtwebenginecore_0),
     (''qtwebenginecore_1'', ''QTWEBENGINECORE'', vtypes_qtwebenginecore_1),
     (''qtwebsockets_0'', ''QTWEBSOCKETS'', vtypes_qtwebsockets_0),
     (''qtwidgets_0'', ''QTWIDGETS'', vtypes_qtwidgets_0), (''qtwidgets_1'', ''QTWIDGETS'', vtypes_qtwidgets_1),
     (''qtwidgets_2'', ''QTWIDGETS'', vtypes_qtwidgets_2), (''qtwidgets_3'', ''QTWIDGETS'', vtypes_qtwidgets_3),
     (''qtwidgets_4'', ''QTWIDGETS'', vtypes_qtwidgets_4), (''qtxml_0'', ''QTXML'', vtypes_qtxml_0),
     (''qtxml_1'', ''QTXML'', vtypes_qtxml_1), (''qtxml_2'', ''QTXML'', vtypes_qtxml_2)]"

subsection \<open>Linking\<close>

definition from_table :: "(string \<times> 'a) list \<Rightarrow> ('a \<Rightarrow> 'b) \<Rightarrow> (string \<Rightarrow> 'b) \<Rightarrow> string \<Rightarrow> 'b" where
  "from_table table run other s = (case map_of table s of Some x \<Rightarrow> run x | None \<Rightarrow> other s)"

text \<open>First the modules and the name lists, which \<^verbatim>\<open>toJson\<close> reads.\<close>

definition described :: "qstring \<Rightarrow> qstring list option" where
  "described className = map_option (\<lambda>(_, methods). map qs methods) (List.find (\<lambda>(t, _). className = qs t) described_types)"

definition link_names :: "('w, 'o) qt \<Rightarrow> ('w, 'o) build \<Rightarrow> ('w, 'o) gen \<Rightarrow> ('w, 'o) gen" where
  "link_names Q B G = G\<lparr>
     g_module := from_table (module_table Q B) (\<lambda>m. m) (g_module G),
     constructor_classes := from_table ctor_table (run_ctor_classes B) (constructor_classes G),
     value_constructor_classes := from_table vctor_table (run_value_ctor_classes B) (value_constructor_classes G),
     direct_value_types := from_table value_types_table (\<lambda>(slug, cpps). run_value_types B slug cpps) (direct_value_types G),
     direct_methods := described\<rparr>"

text \<open>Then the shards, whose results go through \<^verbatim>\<open>toJson\<close>.\<close>

definition link :: "('w, 'o) qt \<Rightarrow> ('w, 'o) build \<Rightarrow> ('w, 'o) gen \<Rightarrow> ('w, 'o) gen" where
  "link Q B G =
     (let N = link_names Q B G in N\<lparr>
        construct_shard := from_table ctor_table (run_ctor_shard Q B) (construct_shard G),
        construct_value_shard := from_table vctor_table (\<lambda>sh m c args st. run_value_ctor_shard Q B sh m c args st) (construct_value_shard G),
        invoke_shard := from_table method_table (run_method_shard Q N B) (invoke_shard G),
        invoke_value_shard := from_table value_method_table (run_value_shard Q N B) (invoke_value_shard G)\<rparr>)"

text \<open>
  The generated code of a build: the tables, and nothing else. The dispatchers call only the units
  of the tables, so what stands here for other names is never asked for; \<open>ax\<close> is the macro
  \<^verbatim>\<open>KRY_QT6_HAS_AXCONTAINER\<close>.
\<close>

definition no_module :: "('w, 'o) qmodule" where
  "no_module = \<lparr>m_name = [], m_hasClass = (\<lambda>_. False), m_construct = (\<lambda>_ _ w. ((nullptr, None), w)),
     m_constructorNames = [], m_valueType = (\<lambda>_. MtInvalid), m_valueTypeNames = [], m_metaObject = (\<lambda>_. None),
     m_metaObjectNames = []\<rparr>"

definition no_gen :: "bool \<Rightarrow> ('w, 'o) gen" where
  "no_gen ax = \<lparr>g_module = (\<lambda>_. no_module), construct_shard = (\<lambda>_ _ _ _ _ out. (False, out)), constructor_classes = (\<lambda>_. []),
     construct_value_shard = (\<lambda>_ _ _ _ _ out. (False, out)), value_constructor_classes = (\<lambda>_. []),
     invoke_shard = (\<lambda>_ _ _ _ _ out. (False, out)), invoke_value_shard = (\<lambda>_ _ _ _ out. (False, out)),
     direct_value_types = (\<lambda>_. []), direct_methods = (\<lambda>_. None), has_axcontainer = ax\<rparr>"

definition program :: "('w, 'o) qt \<Rightarrow> ('w, 'o) build \<Rightarrow> bool \<Rightarrow> ('w, 'o) gen" where
  "program Q B ax = link Q B (no_gen ax)"

subsection \<open>What the linked program keeps\<close>

text \<open>Whatever a table entry and the fallback have in common holds of the linked function.\<close>

lemma from_table_cases:
  assumes "\<And>x. P (run x)" "P (other s)"
  shows "P (from_table table run other s)"
  using assms by (simp add: from_table_def split: option.splits)

lemma run_method_shard_reg_step:
  "reg_step (snd (snd out)) (snd (snd (snd (run_method_shard Q G B sh object className signature args out))))"
  using run_shard_reg_step [of "(VInvalid, out)" Q G B sh object className signature args]
  by (auto simp: run_method_shard_def Let_def split: prod.splits)

lemma run_value_shard_reg_step:
  "reg_step (snd (snd (snd out))) (snd (snd (snd (snd (run_value_shard Q G B sh className signature args out)))))"
  unfolding run_value_shard_def by (rule run_shard_reg_step)

lemma link_fields:
  "construct_shard (link Q B G) = from_table ctor_table (run_ctor_shard Q B) (construct_shard G)"
  "construct_value_shard (link Q B G) = from_table vctor_table (run_value_ctor_shard Q B) (construct_value_shard G)"
  "invoke_shard (link Q B G) = from_table method_table (run_method_shard Q (link_names Q B G) B) (invoke_shard G)"
  "invoke_value_shard (link Q B G) = from_table value_method_table (run_value_shard Q (link_names Q B G) B) (invoke_value_shard G)"
  by (simp_all add: link_def link_names_def Let_def)

lemma gen_okD:
  assumes "gen_ok G"
  shows "reg_step (snd (snd cout)) (snd (snd (snd (construct_shard G s m n p args cout))))"
    and "reg_step (snd (snd iout)) (snd (snd (snd (invoke_shard G s p c sig args iout))))"
    and "reg_step (snd (snd (snd vout))) (snd (snd (snd (snd (invoke_value_shard G s c sig args vout)))))"
  using assms unfolding gen_ok_def by blast+

lemma link_gen_ok:
  assumes "gen_ok G"
  shows "gen_ok (link Q B G)"
  unfolding gen_ok_def link_fields
proof (intro conjI allI)
  fix s m c p args out
  show "reg_step (snd (snd out)) (snd (snd (snd (from_table ctor_table (run_ctor_shard Q B) (construct_shard G) s m c p args out))))"
    by (rule from_table_cases [where P = "\<lambda>f. reg_step (snd (snd out)) (snd (snd (snd (f m c p args out))))"])
       (rule run_ctor_shard_reg_step, rule gen_okD(1) [OF assms])
next
  fix s p c sig args out
  show "reg_step (snd (snd out)) (snd (snd (snd
      (from_table method_table (run_method_shard Q (link_names Q B G) B) (invoke_shard G) s p c sig args out))))"
    by (rule from_table_cases [where P = "\<lambda>f. reg_step (snd (snd out)) (snd (snd (snd (f p c sig args out))))"])
       (rule run_method_shard_reg_step, rule gen_okD(2) [OF assms])
next
  fix s c sig args out
  show "reg_step (snd (snd (snd out))) (snd (snd (snd (snd
      (from_table value_method_table (run_value_shard Q (link_names Q B G) B) (invoke_value_shard G) s c sig args out)))))"
    by (rule from_table_cases [where P = "\<lambda>f. reg_step (snd (snd (snd out))) (snd (snd (snd (snd (f c sig args out)))))"])
       (rule run_value_shard_reg_step, rule gen_okD(3) [OF assms])
qed

lemma no_gen_ok: "gen_ok (no_gen ax)"
  by (simp add: gen_ok_def no_gen_def)

lemma program_ok: "gen_ok (program Q B ax)"
  unfolding program_def by (rule link_gen_ok [OF no_gen_ok])

text \<open>The conversions see of \<open>G\<close> only the name lists, which linking fixes before the shards.\<close>

lemma toJson_names:
  assumes "availableDirectValueTypes G = availableDirectValueTypes G'"
    and "availableDirectValueConstructors G = availableDirectValueConstructors G'"
  shows "toJson Q G v st = toJson Q G' v st" and "toJson_entries Q G es st = toJson_entries Q G' es st"
proof -
  have rest: "toJson_rest Q G v st = toJson_rest Q G' v st" for v st
    unfolding toJson_rest_def assms ..
  show "toJson Q G v st = toJson Q G' v st" and "toJson_entries Q G es st = toJson_entries Q G' es st"
    using rest
  proof (induction Q G v st and Q G es st rule: toJson_toJson_entries.induct)
    case (1 Q G v st)
    show ?case
    proof (cases "toJson_first Q v st")
      case None
      note first = None
      show ?thesis
      proof (cases "\<exists>es. v = VMap es \<or> v = VHash es")
        case True
        then obtain es where es: "v = VMap es \<or> v = VHash es" ..
        then have "toJson_entries Q G es st = toJson_entries Q G' es st" using 1 first by blast
        with es first show ?thesis by (auto simp: toJson.simps)
      next
        case False
        then show ?thesis using 1 toJson_step [OF first] by metis
      qed
    qed (simp add: toJson.simps)
  next
    case (3 Q G k e es st)
    obtain j st1 where "toJson Q G e st = (j, st1)" by (metis prod.collapse)
    then show ?case using 3 by simp
  qed simp
qed

lemma link_toJson: "toJson Q (link Q B G) v st = toJson Q (link_names Q B G) v st"
  by (rule toJson_names(1))
     (simp_all add: link_def Let_def availableDirectValueTypes_def availableDirectValueConstructors_def)

end
