(* ===== verification/Demo_Build.thy ===== *)
theory Demo_Build
  imports Shard_Laws Operation_Properties
begin

text \<open>
  A concrete build over the example of Qt in \<open>Demo\<close>: every class compiled in but one, objects that
  are numbers never used before. The witnesses of the shard properties evaluate in it.
\<close>

definition demo_new :: "string \<Rightarrow> unit qvariant list \<Rightarrow> demo \<Rightarrow> ptr \<times> demo" where
  "demo_new cpp xs w =
     (let p = Suc (sum_list (map fst (d_objects w)) + sum_list (map snd (d_objects w)))
      in (p, w\<lparr>d_objects := (p, 0) # d_objects w\<rparr>))"

definition demo_metatype :: "string \<Rightarrow> metatype" where
  "demo_metatype T =
     (if T = ''QColor'' then MtQColor else if T = ''qint64'' then MtLongLong else if T = ''QString'' then MtQString else MtOther T)"

definition demo_build :: "(demo, unit) build" where
  "demo_build = \<lparr>
     has_include = (\<lambda>h. False), macro_defined = (\<lambda>m. m \<noteq> TypeM ''QTCORE_QCALENDAR''), metatype_of = demo_metatype,
     copyable = (\<lambda>T. True), default_ok = (\<lambda>T. True), is_complete = (\<lambda>T. True), is_abstract = (\<lambda>T. False),
     base_of = (\<lambda>C T. C = ''QObject''), static_meta = (\<lambda>T. demo_object), is_gadget = (\<lambda>T. False),
     type_default = (\<lambda>t. True), constructible = (\<lambda>T ts. True), accepts = (\<lambda>T ps parent. True),
     static_call = (\<lambda>f xs w. (VInt 1, w)), value_call = (\<lambda>f v xs w. ((VInt 1, v), w\<lparr>d_calls := d_calls w @ [f]\<rparr>)),
     make_value = (\<lambda>T xs. VOpaque (demo_metatype T) ()), new_object = demo_new\<rparr>"

lemma demo_build_simps [simp]:
  "macro_defined demo_build = (\<lambda>m. m \<noteq> TypeM ''QTCORE_QCALENDAR'')" "metatype_of demo_build = demo_metatype"
  "copyable demo_build = (\<lambda>T. True)" "default_ok demo_build = (\<lambda>T. True)" "is_abstract demo_build = (\<lambda>T. False)"
  "accepts demo_build = (\<lambda>T ps parent. True)" "new_object demo_build = demo_new" "has_include demo_build = (\<lambda>h. False)"
  "value_call demo_build = (\<lambda>f v xs w. ((VInt 1, v), w\<lparr>d_calls := d_calls w @ [f]\<rparr>))"
  by (simp_all add: demo_build_def)

lemma demo_below_leaf: "a \<notin> snd ` set es \<Longrightarrow> demo_below es n p a \<Longrightarrow> p = a"
proof (induction n arbitrary: p)
  case (Suc n)
  show ?case
  proof (rule ccontr)
    assume "p \<noteq> a"
    then obtain q where q: "map_of es p = Some q" "demo_below es n q a" using Suc.prems(2) by (auto split: option.splits)
    then have "q = a" using Suc.IH Suc.prems(1) by blast
    then show False using q(1) Suc.prems(1) by (force dest: map_of_SomeD)
  qed
qed simp

lemma member_below_sum: "k \<in> set ks \<Longrightarrow> k \<le> sum_list ks" for k :: nat
  by (induction ks) auto

lemma demo_delete_fresh:
  assumes "\<forall>k\<in>fst ` set os \<union> snd ` set os. k < p" "p \<noteq> 0"
  shows "filter (\<lambda>(k, _). \<not> demo_below ((p, 0) # os) (Suc n) k p) ((p, 0) # os) = os"
proof -
  have "p \<notin> snd ` set ((p, 0) # os)" using assms by auto
  from demo_below_leaf [OF this] have "demo_below ((p, 0) # os) (Suc n) k p \<Longrightarrow> k = p" for k .
  moreover have "demo_below ((p, 0) # os) (Suc n) p p" by simp
  ultimately have leaf: "demo_below ((p, 0) # os) (Suc n) k p \<longleftrightarrow> k = p" for k by metis
  have "\<forall>x\<in>set os. (case x of (k, _) \<Rightarrow> k \<noteq> p)" using assms(1) by force
  then show ?thesis unfolding leaf by (simp add: filter_True)
qed

lemma demo_build_ok: "build_ok demo_qt demo_build"
proof -
  have "length (d_objects (demo_delete (fst (demo_new cpp xs w)) (snd (demo_new cpp xs w)))) = length (d_objects w)" for cpp xs w
  proof -
    define p where "p = Suc (sum_list (map fst (d_objects w)) + sum_list (map snd (d_objects w)))"
    have "k < p" if "k \<in> fst ` set (d_objects w) \<union> snd ` set (d_objects w)" for k
    proof -
      have "k \<in> set (map fst (d_objects w)) \<or> k \<in> set (map snd (d_objects w))" using that by simp
      then have "k \<le> sum_list (map fst (d_objects w)) \<or> k \<le> sum_list (map snd (d_objects w))" by (blast dest: member_below_sum)
      then show ?thesis unfolding p_def by linarith
    qed
    moreover have "demo_new cpp xs w = (p, w\<lparr>d_objects := (p, 0) # d_objects w\<rparr>)" unfolding demo_new_def p_def Let_def ..
    ultimately show ?thesis using demo_delete_fresh [of "d_objects w" p "Suc (length (d_objects w))"] p_def
      by (simp add: demo_delete_def)
  qed
  then show ?thesis by (simp add: build_ok_def) (simp add: demo_new_def Let_def)
qed

end
