(* ===== verification/Shard_Properties.thy ===== *)
theory Shard_Properties
  imports Generated_Tables Demo_Build Conversion_Properties
begin

text \<open>
  Properties of the generated shards: what they promise the rest of the bridge, when a call reaches
  Qt, how values travel between two bound methods, and what the tables themselves satisfy.
\<close>

subsection \<open>The contract of the generated code\<close>

text \<open>
  C13: The generated shards meet the contract the other properties assume of them: linking the
  modelled modules and shards into any program that meets it keeps it. So a constructor, method or
  value shard of the tables never closes or redirects a handle, never touches the application or
  the subscriptions, and only adds fresh handles.
\<close>

theorem linked_shards_meet_contract:
  assumes "gen_ok G"
  shows "gen_ok (link Q B G)"
  using assms by (rule link_gen_ok)

theorem linked_shards_meet_contract_witness: "gen_ok (link demo_qt demo_build demo_gen)"
  by (rule linked_shards_meet_contract [OF demo_gen_ok])

subsection \<open>When a call reaches Qt\<close>

text \<open>
  C10: A method or value shard changes something (Qt's world, the registry, the stored value) only
  when one of its blocks is compiled in, answers to exactly this signature, got as many arguments as
  it has parameters, every argument was converted to a value of its parameter's shape, and the
  target is of a class the block is bound to. Otherwise the call is refused or passed on and nothing
  has changed.
\<close>

theorem shard_effect_justified:
  fixes Q :: "('w, 'o) qt"
  assumes "run_shard Q G B sh object className signature args (v, j, err, st) = (h, v', j', err', st')"
    and "v' \<noteq> v \<or> st' \<noteq> st"
  shows "\<exists>b\<in>set (sh_bindings sh). \<exists>c xs e.
      compiled B (b_guards b) (b_params b) \<and> signature = qs (b_signature b) \<and> length args = length (b_params b)
      \<and> snd (convert_args Q B st 0 (b_params b) args e) = Some xs \<and> list_all2 arg_shape_ok (b_params b) xs
      \<and> c \<in> set (b_candidates b) \<and> candidate_matches Q B sh object className (world st) v c"
proof -
  have "call_state (v', j', err', st') \<noteq> call_state (v, j, err, st)" using assms(2) by simp
  from try_blocks_untouched [OF assms(1) [unfolded run_shard_def] this] show ?thesis
    unfolding takes_call_def call_state_simps fst_conv snd_conv by blast
qed

definition websocket_values :: shard where
  "websocket_values = \<lparr>sh_module = ''QtWebSockets'', sh_slug = ''QTWEBSOCKETS'', sh_bindings = concat [vmeth_qtwebsockets_0_0]\<rparr>"

definition cors_value :: "unit qvariant" where
  "cors_value = VOpaque (MtOther ''QWebSocketCorsAuthenticator'') ()"

lemmas shard_eval =
  run_shard_def run_binding_def run_candidates_def b_signature_def compiled_def traits_hold_def unscoped_def arg_at_def
  member_def method_macro_def

lemma websocket_call:
  "run_shard demo_qt demo_gen demo_build websocket_values nullptr (qs ''QWebSocketCorsAuthenticator'') (qs ''setAllowed(bool)'')
     [JBool True] (cors_value, JNull, None, bridge_init demo_init)
   = (True, cors_value, JNull, None,
      set_world (demo_init\<lparr>d_calls := [''QWebSocketCorsAuthenticator::setAllowed'']\<rparr>) (bridge_init demo_init))"
  by (simp add: shard_eval websocket_values_def vmeth_qtwebsockets_0_0_def qt_name_defs demo_metatype_def cors_value_def
      bridge_init_def demo_init_def)

theorem shard_effect_justified_witness:
  "\<exists>b\<in>set (sh_bindings websocket_values). \<exists>c xs e.
      compiled demo_build (b_guards b) (b_params b) \<and> qs ''setAllowed(bool)'' = qs (b_signature b)
      \<and> length [JBool True] = length (b_params b)
      \<and> snd (convert_args demo_qt demo_build (bridge_init demo_init) 0 (b_params b) [JBool True] e) = Some xs
      \<and> list_all2 arg_shape_ok (b_params b) xs
      \<and> c \<in> set (b_candidates b)
      \<and> candidate_matches demo_qt demo_build websocket_values nullptr (qs ''QWebSocketCorsAuthenticator'') demo_init cors_value c"
proof -
  have "set_world (demo_init\<lparr>d_calls := [''QWebSocketCorsAuthenticator::setAllowed'']\<rparr>) (bridge_init demo_init) \<noteq> bridge_init demo_init"
    by (simp add: set_world_def bridge_init_def demo_init_def)
  from shard_effect_justified [OF websocket_call disjI2, OF this]
  show ?thesis unfolding bridge_init_def by simp
qed

subsection \<open>Construction\<close>

text \<open>
  C12: A constructor shard that answers without an object has left nothing behind: whatever it built
  on the way was deleted again, so Qt has as many objects as before, and the bridge is untouched
  but for Qt's world.
\<close>

theorem failed_construction_leaks_nothing:
  assumes "build_ok Q B" and "run_ctor_shard Q B sh m n parent args (nullptr, e, st) = (h, nullptr, e', st')"
  shows "\<exists>w. st' = set_world w st \<and> object_count Q w = object_count Q (world st)"
proof -
  from run_ctor_shard_world [OF assms(2)] obtain w where "st' = set_world w st" unfolding world_step_def ..
  then show ?thesis using run_ctor_shard_no_leak [OF assms] by (auto simp: set_world_def)
qed

definition svg_constructors :: ctor_shard where
  "svg_constructors = \<lparr>cs_module = ''QtSvgWidgets'', cs_slug = ''QTSVGWIDGETS'', cs_blocks = ctor_qtsvgwidgets_0_0,
     cs_classes = ctor_classes_qtsvgwidgets_0\<rparr>"

lemma svg_refused:
  "run_ctor_shard demo_qt demo_build svg_constructors [] (qs ''QSvgWidget'') 99 [] (nullptr, None, bridge_init demo_init)
   = (True, nullptr, Some (Msg ''widget constructors require a QWidget parent'' []), bridge_init demo_init)"
  by (simp add: svg_constructors_def ctor_qtsvgwidgets_0_0_def run_ctor_shard_def run_ctor_block_def block_matches_def
      unscoped_def overload_compiled_def compiled_def traits_hold_def ctor_macro_def construct_candidate_def
      parent_argument_def makeQObject_def demo_new_def adopt_def demo_cast_def demo_parent_def demo_init_def
      bridge_init_def set_world_def demo_delete_def qt_name_defs)

theorem failed_construction_leaks_nothing_witness:
  "\<exists>w. (bridge_init demo_init :: (demo, unit) bridge) = set_world w (bridge_init demo_init)
     \<and> object_count demo_qt w = object_count demo_qt (world (bridge_init demo_init :: (demo, unit) bridge))"
  by (rule failed_construction_leaks_nothing [OF demo_build_ok svg_refused])

subsection \<open>Values between calls\<close>

text \<open>
  \<open>carries Q B r p x\<close>: the value \<open>x\<close>, returned by a method whose result is written as \<open>r\<close>, is one the
  parameter \<open>p\<close> of another method is for. 64-bit integers travel under the registered name of their
  type, provided Qt reads back the decimal text it wrote.
\<close>

inductive carries :: "('w, 'o) qt \<Rightarrow> ('w, 'o) build \<Rightarrow> result \<Rightarrow> param \<Rightarrow> 'o qvariant \<Rightarrow> bool"
  for Q :: "('w, 'o) qt" and B :: "('w, 'o) build" where
  bool: "carries Q B RBool PBool (VBool b)"
| int: "carries Q B RNumber PInt (VInt n)"
| uint: "carries Q B RNumber PUInt (VUInt n)"
| double: "dbl_isfinite d \<Longrightarrow> carries Q B RNumber (PReal ''double'') (VDouble d)"
| string: "carries Q B RString (PString nullable) (VString s)"
| long: "metatype_of B T = MtLongLong \<Longrightarrow> plain_type Q MtLongLong \<Longrightarrow> toLongLong Q (number Q (sint n)) = Some (sint n) \<Longrightarrow>
    carries Q B (RMeta T) (PWide T) (VLongLong n)"
| ulong: "metatype_of B T = MtULongLong \<Longrightarrow> plain_type Q MtULongLong \<Longrightarrow> toULongLong Q (number Q (uint n)) = Some (uint n) \<Longrightarrow>
    carries Q B (RMeta T) (PWide T) (VULongLong n)"

lemma int_bounds: "int_min \<le> sint (n :: i32)" "sint n \<le> int_max" "0 \<le> uint n" "uint n \<le> uint_max"
  using sint_range_size [of n] uint_range_size [of n]
  by (simp_all add: word_size int_min_def int_max_def uint_max_def)

lemma int_to_dbl_32: "int_to_dbl (sint (n :: i32)) = DFin (of_int (sint n))" "int_to_dbl (uint n) = DFin (of_int (uint n))"
  by (rule int_to_dbl_exact, use int_bounds [of n] in \<open>simp add: int_min_def int_max_def uint_max_def\<close>)+

lemma convert_int_back:
  "convert_arg Q B st i PInt (JDouble (int_to_dbl (sint n))) e = (e, Some (VInt n))"
  "convert_arg Q B st i PUInt (JDouble (int_to_dbl (uint n))) e = (e, Some (VUInt n))"
proof -
  have "dbl_in_range int_min int_max (DFin (of_int (sint n)))" "dbl_in_range 0 uint_max (DFin (of_int (uint n)))"
    using int_bounds [of n] unfolding dbl_in_range_of_int by blast+
  then show "convert_arg Q B st i PInt (JDouble (int_to_dbl (sint n))) e = (e, Some (VInt n))"
    "convert_arg Q B st i PUInt (JDouble (int_to_dbl (uint n))) e = (e, Some (VUInt n))"
    unfolding int_to_dbl_32 convert_arg.simps toDouble.simps dbl_trunc_of_int by (simp_all add: word_of_int_uint del: of_int_sint of_int_uint)
qed

text \<open>
  C16: A value one generated method answers is received unchanged by the next one it is passed to:
  booleans, 32-bit and 64-bit integers of either sign, finite doubles and strings survive being
  written as the result of a call and read back as an argument.
\<close>

theorem result_is_accepted_as_argument:
  assumes "carries Q B r p x" and "emit_result Q G B r x (j, err, st) = (j', err', st')"
  shows "convert_arg Q B st'' i p j' e = (e, Some x)"
  using assms(1)
proof cases
  case (long T n)
  from longlong_trip [OF long(5,6), of G st st''] obtain j1 where "toJson Q G (VLongLong n) st = (j1, st)"
    "fromJson Q st'' j1 MtLongLong = Inr (VLongLong n)" by blast
  then show ?thesis using long assms(2) by (auto simp: convert_value_def from_json_def)
next
  case (ulong T n)
  from ulonglong_trip [OF ulong(5,6), of G st st''] obtain j1 where "toJson Q G (VULongLong n) st = (j1, st)"
    "fromJson Q st'' j1 MtULongLong = Inr (VULongLong n)" by blast
  then show ?thesis using ulong assms(2) by (auto simp: convert_value_def from_json_def)
next
  case (int n)
  then have "j' = JDouble (int_to_dbl (sint n))" using assms(2) by simp
  then show ?thesis unfolding int by (simp only: convert_int_back)
next
  case (uint n)
  then have "j' = JDouble (int_to_dbl (uint n))" using assms(2) by simp
  then show ?thesis unfolding uint by (simp only: convert_int_back)
qed (use assms(2) in auto)

theorem result_is_accepted_as_argument_witness:
  "convert_arg demo_qt demo_build (bridge_init demo_init) 0 (PWide ''qint64'')
     (fst (emit_result demo_qt demo_gen demo_build (RMeta ''qint64'') (VLongLong (- 9007199254740993)) (JNull, None, bridge_init demo_init)))
     None = (None, Some (VLongLong (- 9007199254740993)))"
proof -
  let ?out = "emit_result demo_qt demo_gen demo_build (RMeta ''qint64'') (VLongLong (- 9007199254740993)) (JNull, None, bridge_init demo_init)"
  have "carries demo_qt demo_build (RMeta ''qint64'') (PWide ''qint64'') (VLongLong (- 9007199254740993))"
    by (rule carries.long) (simp_all add: demo_metatype_def plain_type_def demo_number_inverse)
  moreover have "?out = (fst ?out, fst (snd ?out), snd (snd ?out))" by simp
  ultimately show ?thesis by (rule result_is_accepted_as_argument)
qed

end
