(* ===== verification/Build_Properties.thy ===== *)
theory Build_Properties
  imports Shard_Properties
begin

text \<open>
  Properties that hold of the generated tables themselves: what every block, shard and module of a
  build satisfies, the reference dispatch of every method shard among it, and the constructors a build
  advertises without having them.
\<close>

subsection \<open>What the tables satisfy\<close>

lemma ctor_tables_fit: "list_all (\<lambda>(s, sh). fitting_shard sh) (ctor_table @ vctor_table)"
  by (simp add: ctor_table_def vctor_table_def ctor_table_a_fitting_shard ctor_table_b_fitting_shard
      vctor_table_rest_fitting_shard vctor_table_core_fitting_shard vctor_table_gui_fitting_shard
      vctor_table_widgets_fitting_shard)

text \<open>
  C18: In every constructor shard, of objects and of values, a block that takes a call has only
  overloads with exactly as many parameters as arguments were passed, so the unchecked reads
  \<^verbatim>\<open>args.at(i)\<close> of its conversions all stay inside the array.
\<close>

theorem constructor_arguments_in_range:
  assumes "(s, sh) \<in> set (ctor_table @ vctor_table)" "b \<in> set (cs_blocks sh)" "block_matches sh m n args b"
    and "c \<in> set (cb_overloads b)"
  shows "length (o_params c) = length args \<and> (\<forall>i<length (o_params c). arg_at args i = args ! i)"
proof -
  have "fitting_shard sh" using ctor_tables_fit assms(1) unfolding list_all_iff by blast
  then have "length (o_params c) = length args"
    using assms(2-4) by (auto simp: fitting_shard_def list_all_iff block_matches_def)
  then show ?thesis by (simp add: arg_at_def)
qed

lemma qttest_block:
  "(''qttest_0'', \<lparr>cs_module = ''QtTest'', cs_slug = ''QTTEST'', cs_blocks = concat [ctor_qttest_0_0],
      cs_classes = ctor_classes_qttest_0\<rparr>) \<in> set (ctor_table @ vctor_table)"
  by (simp add: ctor_table_def ctor_table_b_def)

theorem constructor_arguments_in_range_witness:
  "length (o_params (hd (cb_overloads (ctor_qttest_0_0 ! 0)))) = length [JNull] \<and> arg_at [JNull] 0 = JNull"
proof -
  have "cb_overloads (ctor_qttest_0_0 ! 0) \<noteq> []" "block_matches \<lparr>cs_module = ''QtTest'', cs_slug = ''QTTEST'',
      cs_blocks = concat [ctor_qttest_0_0], cs_classes = ctor_classes_qttest_0\<rparr> (qs ''QtTest'') (qs ''QAbstractItemModelTester'')
      [JNull] (ctor_qttest_0_0 ! 0)" "ctor_qttest_0_0 ! 0 \<in> set (concat [ctor_qttest_0_0])"
    by (simp_all add: ctor_qttest_0_0_def block_matches_def unscoped_def)
  then show ?thesis
    using constructor_arguments_in_range [OF qttest_block, of "ctor_qttest_0_0 ! 0" "qs ''QtTest''" "qs ''QAbstractItemModelTester''"
        "[JNull]" "hd (cb_overloads (ctor_qttest_0_0 ! 0))"] by simp
qed

lemma value_table_blocks: "list_all (\<lambda>(s, sh). value_blocks sh) value_method_table"
  by (simp add: value_method_table_def vmeth_table_rest_a_value_blocks vmeth_table_core_a_value_blocks
      vmeth_table_core_b_value_blocks vmeth_table_gui_a_value_blocks vmeth_table_gui_b_value_blocks
      vmeth_table_gui_c_value_blocks vmeth_table_network_a_value_blocks vmeth_table_rest_b_value_blocks
      vmeth_table_rest_c_value_blocks vmeth_table_widgets_a_value_blocks)

lemma object_table_blocks: "list_all (\<lambda>(s, sh). object_blocks sh) method_table"
  by (simp add: method_table_def meth_table_rest_a_object_blocks meth_table_core_a_object_blocks
      meth_table_core_b_object_blocks meth_table_gui_a_object_blocks meth_table_gui_b_object_blocks
      meth_table_network_a_object_blocks meth_table_rest_b_object_blocks meth_table_widgets_a_object_blocks
      meth_table_widgets_b_object_blocks meth_table_widgets_c_object_blocks meth_table_widgets_d_object_blocks
      meth_table_widgets_e_object_blocks meth_table_rest_c_object_blocks meth_table_qt3d_a_object_blocks
      meth_table_qt3d_b_object_blocks meth_table_devices_a_object_blocks meth_table_charts_a_object_blocks
      meth_table_charts_b_object_blocks meth_table_charts_c_object_blocks meth_table_charts_d_object_blocks)

lemma value_table_shards: "list_all (\<lambda>(s, sh). value_shard sh) value_method_table"
  using value_table_blocks by (rule list.pred_mono_strong) (auto simp: value_blocks_def)

lemma object_table_shards: "list_all (\<lambda>(s, sh). object_shard sh) method_table"
  using object_table_blocks by (rule list.pred_mono_strong) (auto simp: object_blocks_def)

lemma tables_in_order: "list_all (\<lambda>(s, sh). in_order (sh_bindings sh)) (method_table @ value_method_table)"
proof -
  have "list_all (\<lambda>(s, sh). in_order (sh_bindings sh)) method_table"
    using object_table_blocks by (rule list.pred_mono_strong) (auto simp: object_blocks_def)
  moreover have "list_all (\<lambda>(s, sh). in_order (sh_bindings sh)) value_method_table"
    using value_table_blocks by (rule list.pred_mono_strong) (auto simp: value_blocks_def)
  ultimately show ?thesis by simp
qed

text \<open>
  C6: The chain of lambdas of every generated method shard computes the reference dispatch: the
  arguments are checked and converted once, with the parameters of the signature, and the first block
  with a candidate for the target makes the call; a signature no block answers to is passed on as it
  came. Several blocks of one signature, as for \<open>currentTime()\<close> of QTime and QTimeLine, do not disturb
  each other.
\<close>

theorem shard_refines_dispatch:
  assumes "(s, sh) \<in> set (method_table @ value_method_table)"
  shows "run_shard Q G B sh object className signature args out = dispatch_spec Q G B sh object className signature args out"
proof -
  have "in_order (sh_bindings sh)" using tables_in_order assms unfolding list_all_iff by blast
  then show ?thesis by (intro dispatch_reference in_order_same_params)
qed

text \<open>
  C17: A generated value method touches a stored value, or anything else, only when the value's
  meta-type is the one registered for a class the method is bound to and the class is named in the
  request; a value of another type is never handed to the C++ code as that class.
\<close>

theorem value_calls_type_safe:
  fixes Q :: "('w, 'o) qt"
  assumes "(s, sh) \<in> set value_method_table"
    and "run_value_shard Q G B sh className signature args (v, j, err, st) = (h, v', j', err', st')"
    and "v' \<noteq> v \<or> st' \<noteq> st"
  shows "\<exists>b\<in>set (sh_bindings sh). \<exists>cpp. OnValue cpp \<in> set (b_candidates b) \<and> signature = qs (b_signature b)
    \<and> className = qs (unscoped cpp) \<and> variant_type v = metatype_of B cpp"
proof -
  have "call_state (v', j', err', st') \<noteq> call_state (v, j, err, st)" using assms(3) by simp
  from try_blocks_untouched [OF assms(2) [unfolded run_value_shard_def run_shard_def] this]
  obtain b c xs where b: "b \<in> set (sh_bindings sh)" and t: "takes_call Q B sh nullptr className signature args v st b c xs"
    by auto
  have "value_shard sh" using value_table_shards assms(1) unfolding list_all_iff by blast
  then have "on_value c" using b t by (auto simp: value_shard_def list_all_iff takes_call_def)
  then obtain cpp where "c = OnValue cpp" by (cases c) auto
  then show ?thesis using b t unfolding takes_call_def by auto
qed

lemma websocket_in_table: "(''qtwebsockets_0'', websocket_values) \<in> set value_method_table"
  by (simp add: value_method_table_def vmeth_table_rest_c_def websocket_values_def)

theorem shard_refines_dispatch_witness:
  "run_shard demo_qt demo_gen demo_build websocket_values nullptr (qs ''QWebSocketCorsAuthenticator'') (qs ''setAllowed(bool)'')
     [JBool True, JNull] (cors_value, JNull, None, bridge_init demo_init)
   = dispatch_spec demo_qt demo_gen demo_build websocket_values nullptr (qs ''QWebSocketCorsAuthenticator'') (qs ''setAllowed(bool)'')
     [JBool True, JNull] (cors_value, JNull, None, bridge_init demo_init)"
  by (rule shard_refines_dispatch [where s = "''qtwebsockets_0''"]) (simp add: websocket_in_table)

theorem value_calls_type_safe_witness:
  "\<exists>b\<in>set (sh_bindings websocket_values). \<exists>cpp. OnValue cpp \<in> set (b_candidates b) \<and> qs ''setAllowed(bool)'' = qs (b_signature b)
    \<and> qs ''QWebSocketCorsAuthenticator'' = qs (unscoped cpp) \<and> variant_type cors_value = metatype_of demo_build cpp"
proof -
  have "run_value_shard demo_qt demo_gen demo_build websocket_values (qs ''QWebSocketCorsAuthenticator'') (qs ''setAllowed(bool)'')
      [JBool True] (cors_value, JNull, None, bridge_init demo_init)
    = (True, cors_value, JNull, None, set_world (demo_init\<lparr>d_calls := [''QWebSocketCorsAuthenticator::setAllowed'']\<rparr>) (bridge_init demo_init))"
    unfolding run_value_shard_def by (rule websocket_call)
  moreover have "set_world (demo_init\<lparr>d_calls := [''QWebSocketCorsAuthenticator::setAllowed'']\<rparr>) (bridge_init demo_init) \<noteq> bridge_init demo_init"
    by (simp add: set_world_def bridge_init_def demo_init_def)
  ultimately show ?thesis using value_calls_type_safe [OF websocket_in_table] by blast
qed

subsection \<open>A build without ActiveQt\<close>

text \<open>
  The headers \<^verbatim>\<open>QtAxContainer/QAxObject\<close> and \<^verbatim>\<open>QtAxContainer/QAxWidget\<close> decide about the two classes of
  the module and, through \<^verbatim>\<open>KRY_QT6_NATIVE_CONSTRUCTORS_QAXCONTAINER_QAxObject\<close> and its relative, about
  their constructor shard.
\<close>

definition ax_classes :: "string set" where
  "ax_classes = {''QAxObject'', ''QAxWidget''}"

definition no_activeqt :: "('w, 'o) build \<Rightarrow> ('w, 'o) gen \<Rightarrow> bool" where
  "no_activeqt B G \<longleftrightarrow> \<not> has_axcontainer G
     \<and> (\<forall>c\<in>ax_classes. \<not> has_include B (''QtAxContainer/'' @ c)
          \<and> \<not> macro_defined B (ClassM ''CONSTRUCTORS'' ''QAXCONTAINER'' c))"

lemma no_activeqtD:
  assumes "no_activeqt B G"
  shows "\<not> has_include B ''QtAxContainer/QAxObject''" "\<not> has_include B ''QtAxContainer/QAxWidget''" "\<not> has_axcontainer G"
    "c \<in> ax_classes \<Longrightarrow> \<not> macro_defined B (ClassM ''CONSTRUCTORS'' ''QAXCONTAINER'' c)"
  using assms unfolding no_activeqt_def ax_classes_def by auto

lemma link_module:
  "g_module (link Q B G) = from_table (module_table Q B) (\<lambda>m. m) (g_module G)"
  "has_axcontainer (link Q B G) = has_axcontainer G"
  by (simp_all add: link_def link_names_def Let_def)

lemma qaxcontainer_linked: "g_module (link Q B G) ''QAxContainer'' = module_qaxcontainer Q B"
  by (simp add: link_module from_table_def module_table_def)

lemma qaxcontainer_fields:
  "m_hasClass (module_qaxcontainer Q B) = has_in B ''QAxContainer'' classes_qaxcontainer always_qaxcontainer"
  "m_construct (module_qaxcontainer Q B) = construct_in Q B ''QAxContainer'' classes_qaxcontainer"
  "m_constructorNames (module_qaxcontainer Q B) = constructors_in Q B ''QAxContainer'' classes_qaxcontainer always_qaxcontainer"
  "m_metaObject (module_qaxcontainer Q B) = meta_object_in Q B ''QAxContainer'' classes_qaxcontainer"
  by (simp_all add: module_qaxcontainer_def)

text \<open>The module a qualified name selects is the one of that name.\<close>

lemma filter_module:
  assumes "n \<in> set module_names"
  shows "filter (\<lambda>m. in_module (qs n) m \<and> P m) (modules G) = (let m = (g_module G n)\<lparr>m_name := n\<rparr> in if P m then [m] else [])"
proof -
  obtain xs ys where split: "module_names = xs @ n # ys" using assms by (metis split_list)
  have "distinct (xs @ n # ys)" using module_names_distinct unfolding split .
  then have away: "n \<notin> set xs" "n \<notin> set ys" by auto
  have "filter (\<lambda>k. n = k \<and> P ((g_module G k)\<lparr>m_name := k\<rparr>)) zs = []" if "n \<notin> set zs" for zs
    using that by (auto simp: filter_empty_conv)
  moreover have "n \<noteq> []" using assms by (auto simp: module_names_def)
  ultimately show ?thesis using away
    by (auto simp: modules_def split filter_map comp_def in_module_def Let_def)
qed

definition ax_name :: "string \<Rightarrow> qstring" where
  "ax_name c = qs (''QAxContainer.'' @ c)"

lemma qax_name: "ax_name c = qs ''QAxContainer'' @ qch CHR ''.'' # qs c"
  by (simp add: ax_name_def qs_def)

lemma qax_split: "split_qualified (ax_name c) = (qs ''QAxContainer'', qs c)"
  unfolding qax_name by (rule split_qualified_dot) (simp add: qs_def qch_def)

lemma qax_absent:
  "no_activeqt B G \<Longrightarrow> c \<in> ax_classes \<Longrightarrow> find_class B ''QAxContainer'' classes_qaxcontainer ok (qs c) = None"
  unfolding find_class_None classes_qaxcontainer_def ax_classes_def
  by (auto simp: class_name_def unscoped_def present_def class_header_def dest: no_activeqtD)

lemma qax_advertised:
  assumes "c \<in> ax_classes"
  shows "ax_name c \<in> set (availableConstructors (link Q B G))"
proof -
  let ?m = "(module_qaxcontainer Q B)\<lparr>m_name := ''QAxContainer''\<rparr>"
  have "?m \<in> set (modules (link Q B G))"
    unfolding modules_def using qaxcontainer_linked [of Q B G] by (force simp: module_names_def)
  moreover have "qs c \<in> set (m_constructorNames ?m)"
    using assms by (auto simp: ax_classes_def qaxcontainer_fields constructors_in_def always_qaxcontainer_def)
  ultimately show ?thesis
    unfolding availableConstructors_def Let_def set_sorted_unique qax_name
    unfolding set_append set_concat set_map
    by (intro UnI1 UN_I [OF imageI]) (auto simp: qualify_name_def)
qed

text \<open>No constructor shard builds it: the shards of other modules decline, its own is not compiled.\<close>

lemma try_overloads_uncompiled:
  "\<forall>c\<in>set cs. \<not> overload_compiled B ''CONSTRUCTORS'' sh cpp c \<Longrightarrow>
    try_overloads Q B sh cpp parent args cs lastError st = ((lastError, nullptr), st)"
  by (induction cs) simp_all

definition leaves_empty :: "(('w, 'o) ctor_out \<Rightarrow> bool \<times> ('w, 'o) ctor_out) \<Rightarrow> bool" where
  "leaves_empty f \<longleftrightarrow> (\<forall>st. snd (f (nullptr, None, st)) = (nullptr, None, st))"

lemma try_shards_leaves_empty: "\<forall>f\<in>set fs. leaves_empty f \<Longrightarrow> leaves_empty (try_shards fs)"
proof (induction fs)
  case (Cons f fs)
  show ?case unfolding leaves_empty_def
  proof
    fix st
    have "snd (f (nullptr, None, st)) = (nullptr, None, st)" "snd (try_shards fs (nullptr, None, st)) = (nullptr, None, st)"
      using Cons unfolding leaves_empty_def by auto
    then show "snd (try_shards (f # fs) (nullptr, None, st)) = (nullptr, None, st)"
      by (cases "f (nullptr, None, st)") (simp add: Let_def)
  qed
qed (simp add: leaves_empty_def)

lemma qax_block_empty:
  assumes "no_activeqt B G" "c \<in> ax_classes" "cs_module sh = ''QAxContainer'' \<longrightarrow> cs_slug sh = ''QAXCONTAINER''"
  shows "leaves_empty (run_ctor_block Q B sh (qs ''QAxContainer'') (qs c) parent args b)"
proof -
  have "try_overloads Q B sh (cb_cpp b) parent args (cb_overloads b) None st = ((None, nullptr), st)"
    if "block_matches sh (qs ''QAxContainer'') (qs c) args b" for st
  proof (rule try_overloads_uncompiled)
    have "ctor_macro ''CONSTRUCTORS'' sh (cb_cpp b) = ClassM ''CONSTRUCTORS'' ''QAXCONTAINER'' c"
      using that assms(3) by (auto simp: block_matches_def ctor_macro_def)
    then show "\<forall>ov\<in>set (cb_overloads b). \<not> overload_compiled B ''CONSTRUCTORS'' sh (cb_cpp b) ov"
      using no_activeqtD(4) [OF assms(1,2)] by (simp add: overload_compiled_def compiled_def)
  qed
  then show ?thesis by (simp add: leaves_empty_def run_ctor_block_def)
qed

lemma ctor_table_names: "map (\<lambda>(s, sh). (s, cs_module sh)) ctor_table = constructor_shards"
  by (simp add: constructor_shards_def ctor_table_def ctor_table_a_def ctor_table_b_def)

lemma ctor_table_slugs: "list_all (\<lambda>(s, sh). cs_module sh = ''QAxContainer'' \<longrightarrow> cs_slug sh = ''QAXCONTAINER'') ctor_table"
  by (simp add: ctor_table_def ctor_table_a_def ctor_table_b_def)

lemma constructor_shards_distinct: "distinct (map fst constructor_shards)"
  by (simp add: constructor_shards_def)

lemma ctor_table_lookup:
  assumes "(s, m) \<in> set constructor_shards"
  obtains sh where "map_of ctor_table s = Some sh" "(s, sh) \<in> set ctor_table" "cs_module sh = m"
proof -
  from assms obtain sh where "(s, sh) \<in> set ctor_table" "cs_module sh = m"
    unfolding ctor_table_names [symmetric] by auto
  moreover have "map fst ctor_table = map fst constructor_shards"
    unfolding ctor_table_names [symmetric] by (simp add: comp_def case_prod_unfold)
  ultimately show thesis using that constructor_shards_distinct by (metis map_of_is_SomeI)
qed

lemma qax_not_built:
  assumes "no_activeqt B G" "c \<in> ax_classes"
  shows "snd (constructArguments (link Q B G) (qs ''QAxContainer'') (qs c) parent args None st) = (nullptr, None, st)"
proof -
  let ?run = "\<lambda>s. construct_shard (link Q B G) s (qs ''QAxContainer'') (qs c) parent args"
  have "leaves_empty (?run s)" if sm: "(s, m) \<in> set constructor_shards" for s m
  proof -
    from ctor_table_lookup [OF sm] obtain sh where sh: "map_of ctor_table s = Some sh" "(s, sh) \<in> set ctor_table" .
    have "cs_module sh = ''QAxContainer'' \<longrightarrow> cs_slug sh = ''QAXCONTAINER''"
      using ctor_table_slugs sh(2) by (auto simp: list_all_iff)
    then have "leaves_empty (run_ctor_shard Q B sh (qs ''QAxContainer'') (qs c) parent args)"
      unfolding run_ctor_shard_def using qax_block_empty [OF assms] by (intro try_shards_leaves_empty) auto
    then show ?thesis by (simp add: link_fields from_table_def sh(1))
  qed
  then have "leaves_empty (try_shards (map (\<lambda>(s, _). ?run s) constructor_shards))"
    by (intro try_shards_leaves_empty) auto
  then show ?thesis unfolding constructArguments_def leaves_empty_def by blast
qed

lemma qax_resolved:
  assumes "c \<in> ax_classes"
  shows "resolve_class (link Q B G) (ax_name c) = Inr (qs ''QAxContainer'', qs c)"
proof -
  have at: "indexOf (ax_name c) (qch CHR ''.'') = Some 12"
    unfolding qax_name by (subst indexOf_append_dot) (simp_all add: qs_def)
  have "hasClass (link Q B G) (ax_name c)"
    using assms unfolding hasClass_def modules_def module_names_def at ax_classes_def ax_name_def insert_iff empty_iff
    by (elim disjE FalseE; hypsubst)
      (simp_all add: qaxcontainer_linked qaxcontainer_fields module_has_def has_in_def always_qaxcontainer_def qs_def)
  moreover have "qch CHR ''.'' \<in> set (ax_name c)" by (simp add: qax_name)
  ultimately show ?thesis unfolding resolve_class_def qax_split by simp
qed

lemma qax_explicit:
  assumes "no_activeqt B G" "c \<in> ax_classes"
  shows "explicit_new Q (link Q B G) (qs c) args parent widgetParent st = None"
  using assms(2) unfolding ax_classes_def insert_iff empty_iff
  by (elim disjE FalseE; hypsubst)
    (simp_all add: explicit_new_def explicit_lookup_def link_module no_activeqtD(3) [OF assms(1)] explicit_widgets_def
      explicit_objects_def special_new_def)

lemma qax_filter:
  "filter (\<lambda>m. in_module (qs ''QAxContainer'') m \<and> P m) (modules (link Q B G)) =
    (let m = (module_qaxcontainer Q B)\<lparr>m_name := ''QAxContainer''\<rparr> in if P m then [m] else [])"
proof -
  have "''QAxContainer'' \<in> set module_names" by (simp add: module_names_def)
  from filter_module [OF this] show ?thesis unfolding qaxcontainer_linked [of Q B G, symmetric] .
qed

lemma qax_default:
  assumes "no_activeqt B G" "c \<in> ax_classes"
  shows "fst (construct_default (link Q B G) (ax_name c) parent args st) = None"
proof -
  have "construct (link Q B G) (ax_name c) parent (world st) = ((nullptr, None), world st)"
    unfolding construct_def qax_split
    by (simp add: select_module_spec Let_def qax_filter qaxcontainer_fields construct_in_def qax_absent [OF assms])
  then show ?thesis by (simp add: construct_default_def)
qed

lemma qax_no_meta:
  assumes "no_activeqt B G" "c \<in> ax_classes"
  shows "classMetaObject (link Q B G) (ax_name c) = Inr None"
  unfolding classMetaObject_def qax_split
  by (simp add: select_module_spec Let_def qax_filter qaxcontainer_fields meta_object_in_def qax_absent [OF assms])

lemma qax_generated:
  assumes "no_activeqt B G" "c \<in> ax_classes"
  shows "fst (construct_generated Q (link Q B G) (ax_name c) (qs ''QAxContainer'') (qs c) parent args st)
    = Inl (Msg ''class %1 has no native constructor binding yet'' [AStr (qs c)])"
proof -
  obtain st1 where def: "construct_default (link Q B G) (ax_name c) parent args st = (None, st1)"
    using qax_default [OF assms, of Q parent args st] by (metis prod.collapse)
  obtain h p e st2 where made: "constructArguments (link Q B G) (qs ''QAxContainer'') (qs c) parent args None st1 = (h, p, e, st2)"
    by (metis prod.collapse)
  then have "p = nullptr" "e = None" using qax_not_built [OF assms, of Q parent args st1] by simp_all
  then show ?thesis by (simp add: construct_generated_def construct_reflective_def def made qax_no_meta [OF assms])
qed

text \<open>
  C40: In a build without ActiveQt the classes QAxObject and QAxWidget of the module QAxContainer are
  still listed among the constructors, and every attempt to make one of them by its qualified name,
  with any parent and any arguments, is refused: a QAxWidget with a parent that is no widget for its
  parent, everything else with the error that there is no native constructor binding.
\<close>

theorem activeqt_advertised_without_binding:
  assumes "no_activeqt B G" "c \<in> ax_classes"
  shows "ax_name c \<in> set (availableConstructors (link Q B G))
    \<and> fst (createObject Q (link Q B G) (ax_name c) parent args st)
        = Inl (if c = ''QAxWidget'' \<and> parent \<noteq> nullptr \<and> \<not> qobject_cast Q ''QWidget'' (world st) parent
               then Msg ''class %1 requires a QWidget parent'' [AStr (qs c)]
               else Msg ''class %1 has no native constructor binding yet'' [AStr (qs c)])"
proof
  show "ax_name c \<in> set (availableConstructors (link Q B G))" by (rule qax_advertised [OF assms(2)])
  have check: "check_widget_parent Q (world st) (qs c) p wp =
      (if c = ''QAxWidget'' \<and> p \<noteq> nullptr \<and> wp = nullptr then Some (Msg ''class %1 requires a QWidget parent'' [AStr (qs c)]) else None)" for p wp
    using assms(2) by (auto simp: ax_classes_def check_widget_parent_def createsWidgetLayout_def widgetClasses_def)
  show "fst (createObject Q (link Q B G) (ax_name c) parent args st)
        = Inl (if c = ''QAxWidget'' \<and> parent \<noteq> nullptr \<and> \<not> qobject_cast Q ''QWidget'' (world st) parent
               then Msg ''class %1 requires a QWidget parent'' [AStr (qs c)]
               else Msg ''class %1 has no native constructor binding yet'' [AStr (qs c)])"
    unfolding createObject_def qax_resolved [OF assms(2)]
    by (simp add: Let_def check qax_explicit [OF assms] qax_generated [OF assms])
qed

theorem activeqt_advertised_without_binding_witness:
  "qs ''QAxContainer.QAxObject'' \<in> set (availableConstructors (link demo_qt (demo_build\<lparr>macro_defined := \<lambda>m. False\<rparr>) (demo_gen\<lparr>has_axcontainer := False\<rparr>)))
   \<and> fst (createObject demo_qt (link demo_qt (demo_build\<lparr>macro_defined := \<lambda>m. False\<rparr>) (demo_gen\<lparr>has_axcontainer := False\<rparr>))
         (qs ''QAxContainer.QAxObject'') nullptr [JString (qs ''Word.Application'')] (bridge_init demo_init))
     = Inl (Msg ''class %1 has no native constructor binding yet'' [AStr (qs ''QAxObject'')])"
proof -
  have "no_activeqt (demo_build\<lparr>macro_defined := \<lambda>m. False\<rparr>) (demo_gen\<lparr>has_axcontainer := False\<rparr>)" by (simp add: no_activeqt_def)
  moreover have "''QAxObject'' \<in> ax_classes" by (simp add: ax_classes_def)
  ultimately show ?thesis
    using activeqt_advertised_without_binding [of _ _ "''QAxObject''" demo_qt nullptr "[JString (qs ''Word.Application'')]" "bridge_init demo_init"]
    by (fastforce simp: ax_name_def)
qed

end
