(* ===== verification/Program_Properties.thy ===== *)
theory Program_Properties
  imports Build_Properties Registry_Properties
begin

text \<open>
  Properties of the generated code as a whole: the tables hold every unit the dispatchers call, so a
  linked program leaves nothing open, a call that is dispatched over all shards reaches Qt only
  through one of their blocks, and the errors the blocks report do not reach the caller of \<^verbatim>\<open>value_call\<close>.
\<close>

subsection \<open>Nothing is left open\<close>

lemma value_table_names: "set (map fst value_constructor_shards) \<subseteq> set (map fst vctor_table)"
  by (simp add: value_constructor_shards_def vctor_table_def vctor_table_rest_def vctor_table_core_def vctor_table_gui_def
      vctor_table_widgets_def)

lemma method_table_names: "set method_shards \<subseteq> set (map fst method_table)"
  by (simp add: method_shards_def method_table_def meth_table_rest_a_def meth_table_qt3d_a_def meth_table_qt3d_b_def
      meth_table_devices_a_def meth_table_charts_a_def meth_table_core_a_def meth_table_core_b_def meth_table_charts_b_def
      meth_table_charts_c_def meth_table_charts_d_def meth_table_gui_a_def meth_table_gui_b_def meth_table_network_a_def
      meth_table_rest_b_def meth_table_widgets_a_def meth_table_widgets_b_def meth_table_widgets_c_def
      meth_table_widgets_d_def meth_table_widgets_e_def meth_table_rest_c_def)

lemma value_method_table_names: "set value_method_shards \<subseteq> set (map fst value_method_table)"
  by (simp add: value_method_shards_def value_method_table_def vmeth_table_rest_a_def vmeth_table_core_a_def
      vmeth_table_core_b_def vmeth_table_gui_a_def vmeth_table_gui_b_def vmeth_table_gui_c_def vmeth_table_network_a_def
      vmeth_table_rest_b_def vmeth_table_rest_c_def vmeth_table_widgets_a_def)

lemma value_types_table_names: "set value_method_shards \<subseteq> set (map fst value_types_table)"
  by (simp add: value_method_shards_def value_types_table_def)

lemma module_table_names: "map fst (module_table Q B) = module_names"
  by (simp add: module_table_def module_names_def)

lemma from_table_in: "s \<in> set (map fst table) \<Longrightarrow> from_table table run other s = from_table table run other' s"
  by (auto simp: from_table_def map_of_eq_None_iff split: option.splits)

lemma from_table_entry:
  assumes "s \<in> set (map fst table)"
  obtains x where "(s, x) \<in> set table" "from_table table run other s = run x"
proof -
  from assms obtain x where "map_of table s = Some x" by (cases "map_of table s") (auto simp: map_of_eq_None_iff)
  then show thesis using that [of x] by (auto simp: from_table_def dest: map_of_SomeD)
qed

text \<open>
  So the dispatchers of a linked program ask the tables only: what \<open>G\<close> has for other names, and what it
  has for the names of the tables, makes no difference.
\<close>

lemma link_list_functions:
  "constructor_classes (link Q B G) = from_table ctor_table (run_ctor_classes B) (constructor_classes G)"
  "value_constructor_classes (link Q B G) = from_table vctor_table (run_value_ctor_classes B) (value_constructor_classes G)"
  "direct_value_types (link Q B G) = from_table value_types_table (\<lambda>(slug, cpps). run_value_types B slug cpps) (direct_value_types G)"
  "direct_methods (link Q B G) = described"
  by (simp_all add: link_def link_names_def Let_def)

lemma map_from_table:
  assumes "set ss \<subseteq> set (map fst table)"
  shows "map (\<lambda>s. f s (from_table table run other s)) ss = map (\<lambda>s. f s (from_table table run other' s)) ss"
proof (rule map_cong [OF refl])
  fix s assume "s \<in> set ss"
  with assms have "s \<in> set (map fst table)" by blast
  then show "f s (from_table table run other s) = f s (from_table table run other' s)"
    by (rule arg_cong [OF from_table_in])
qed

lemma modules_closed: "modules (link Q B G) = modules (link Q B G')"
  unfolding modules_def link_module(1) by (rule map_from_table) (simp add: module_table_names)

lemma value_types_closed:
  "availableDirectValueTypes (link_names Q B G) = availableDirectValueTypes (link_names Q B G')"
proof -
  have "map (direct_value_types (link_names Q B G)) value_method_shards = map (direct_value_types (link_names Q B G')) value_method_shards"
    using map_from_table [OF value_types_table_names, of "\<lambda>_ x. x"] by (simp add: link_names_def)
  then show ?thesis unfolding availableDirectValueTypes_def by (simp only:)
qed

lemma value_constructors_closed:
  "availableDirectValueConstructors (link_names Q B G) = availableDirectValueConstructors (link_names Q B G')"
proof -
  have "map (\<lambda>(s, m). value_constructor_classes (link_names Q B G) s) value_constructor_shards
      = map (\<lambda>(s, m). value_constructor_classes (link_names Q B G') s) value_constructor_shards"
    using map_from_table [OF value_table_names, of "\<lambda>_ x. x"] by (simp add: link_names_def case_prod_unfold comp_def)
  then show ?thesis unfolding availableDirectValueConstructors_def by (simp only:)
qed

lemma toJson_closed: "toJson Q (link_names Q B G) = toJson Q (link_names Q B G')"
  by (intro ext toJson_names(1) [OF value_types_closed value_constructors_closed])

text \<open>The interpreters of the shards read of \<open>G\<close> no more than \<^verbatim>\<open>toJson\<close> does.\<close>

lemma run_shard_names:
  assumes "toJson Q G = toJson Q G'"
  shows "run_shard Q G B = run_shard Q G' B"
proof -
  have item: "emit_item Q G B it x st = emit_item Q G' B it x st" for it x st
    by (cases it) (simp_all only: emit_item.simps assms)
  have items: "emit_items Q G B it xs st = emit_items Q G' B it xs st" for it xs st
  proof (induction xs arbitrary: st)
    case (Cons x xs) show ?case unfolding emit_items.simps item Cons.IH ..
  qed simp
  have "emit_result Q G B r x out = emit_result Q G' B r x out" for r x out
  proof -
    obtain j err st where "out = (j, err, st)" by (cases out) auto
    then show ?thesis by (cases r) (simp_all only: emit_result.simps items assms)
  qed
  then have result: "emit_result Q G B = emit_result Q G' B" by (intro ext)
  have "run_candidates Q G B = run_candidates Q G' B" unfolding run_candidates_def result ..
  then have "run_binding Q G B = run_binding Q G' B" unfolding run_binding_def by (simp only:)
  then show ?thesis unfolding run_shard_def by (simp only:)
qed

lemma shards_closed:
  "run_method_shard Q (link_names Q B G) B = run_method_shard Q (link_names Q B G') B"
  "run_value_shard Q (link_names Q B G) B = run_value_shard Q (link_names Q B G') B"
  unfolding run_method_shard_def run_value_shard_def run_shard_names [OF toJson_closed [of Q B G G']] by (rule refl)+

lemma invoke_closed: "invoke (link Q B G) object className signature args st = invoke (link Q B G') object className signature args st"
  unfolding invoke_def link_fields shards_closed [of Q B G G'] 
    map_from_table [OF method_table_names, of "\<lambda>_ r. r object className signature args" _ "invoke_shard G" "invoke_shard G'"] ..

lemma invokeValue_closed: "invokeValue (link Q B G) v className signature args st = invokeValue (link Q B G') v className signature args st"
  unfolding invokeValue_def link_fields shards_closed [of Q B G G']
    map_from_table [OF value_method_table_names, of "\<lambda>_ r. r className signature args" _ "invoke_value_shard G" "invoke_value_shard G'"] ..

lemma construct_closed:
  "constructArguments (link Q B G) m n parent args e st = constructArguments (link Q B G') m n parent args e st"
proof -
  have "set (map fst constructor_shards) \<subseteq> set (map fst ctor_table)"
    unfolding ctor_table_names [symmetric] by force
  from map_from_table [OF this, of "\<lambda>_ r. r m n parent args" "run_ctor_shard Q B" "construct_shard G" "construct_shard G'"]
  show ?thesis unfolding constructArguments_def link_fields by (simp add: case_prod_unfold comp_def cong: map_cong)
qed

lemma describe_closed: "describeDirectValueType (link Q B G) c = describeDirectValueType (link Q B G') c"
  by (simp add: describeDirectValueType_def link_list_functions)

text \<open>In particular the program of a build is what every linked program is.\<close>

lemma program_closed:
  "modules (link Q B G) = modules (program Q B ax)"
  "invoke (link Q B G) object className signature args st = invoke (program Q B ax) object className signature args st"
  "invokeValue (link Q B G) v className signature args st = invokeValue (program Q B ax) v className signature args st"
  "constructArguments (link Q B G) m n parent cargs e st = constructArguments (program Q B ax) m n parent cargs e st"
  "describeDirectValueType (link Q B G) c = describeDirectValueType (program Q B ax) c"
  unfolding program_def by (rule modules_closed invoke_closed invokeValue_closed construct_closed describe_closed)+

subsection \<open>A call over all shards\<close>

text \<open>A part of the state the shards change together is changed by one of them, which found it as it was.\<close>

lemma try_shards_change:
  assumes "try_shards (map F ss) x = (h, x')" "f x' \<noteq> f x"
  obtains s y h' y' where "s \<in> set ss" "f y = f x" "F s y = (h', y')" "f y' \<noteq> f x"
  using assms
proof (induction ss arbitrary: x thesis)
  case (Cons s ss)
  obtain h1 y where g: "F s x = (h1, y)" by (metis prod.collapse)
  show ?case
  proof (cases "f y = f x")
    case False
    then show ?thesis using Cons.prems(1) [of s x h1 y] g by simp
  next
    case True
    then have "\<not> h1" using Cons.prems(2,3) g by (auto split: if_splits)
    then have "try_shards (map F ss) y = (h, x')" using Cons.prems(2) g by simp
    from Cons.IH [OF _ this] obtain k z h2 z' where "k \<in> set ss" "f z = f y" "F k z = (h2, z')" "f z' \<noteq> f y"
      using Cons.prems(3) True by metis
    then show ?thesis using Cons.prems(1) [of k z h2 z'] True by simp
  qed
qed simp

lemma run_method_shard_touches:
  assumes "run_method_shard Q G B sh object className signature args (j, err, st) = (h, j', err', st')" "st' \<noteq> st"
  obtains b c xs where "b \<in> set (sh_bindings sh)" "takes_call Q B sh object className signature args VInvalid st b c xs"
proof -
  obtain v where "run_shard Q G B sh object className signature args (VInvalid, j, err, st) = (h, v, j', err', st')"
    using assms(1) by (auto simp: run_method_shard_def Let_def split: prod.splits)
  from try_blocks_untouched [OF this [unfolded run_shard_def]] show thesis using that assms(2) by auto
qed

text \<open>
  C11: A request's method call, dispatched over the shards of all modules, changes anything only
  through a block of one of them that is compiled in, answers to exactly this signature, has as many
  parameters as arguments were passed, got every argument converted, and is bound to a class the
  object really is of, or to the class the request names when the method is static.
\<close>

theorem program_call_justified:
  assumes "invoke (program Q B ax) object className signature args st = (h, j, err, st')" and "st' \<noteq> st"
  shows "\<exists>s sh b xs e. (s, sh) \<in> set method_table \<and> b \<in> set (sh_bindings sh)
      \<and> compiled B (b_guards b) (b_params b) \<and> signature = qs (b_signature b) \<and> length args = length (b_params b)
      \<and> snd (convert_args Q B st 0 (b_params b) args e) = Some xs
      \<and> (\<exists>cpp. macro_defined B (method_macro sh cpp)
          \<and> (OnObject cpp \<in> set (b_candidates b) \<and> dynamic_cast Q cpp (world st) object
             \<or> Static cpp \<in> set (b_candidates b) \<and> className = qualify_name (sh_module sh) (qs (unscoped cpp))))"
proof -
  let ?N = "link_names Q B (no_gen ax)" and ?state = "\<lambda>out :: ('a, 'b) call_out. snd (snd out)"
  have run: "try_shards (map (\<lambda>s. from_table method_table (run_method_shard Q ?N B) (invoke_shard (no_gen ax)) s
      object className signature args) method_shards) (JNull, None, st) = (h, j, err, st')"
    using assms(1) by (simp add: program_def invoke_def link_fields)
  obtain s y h' y' where s: "s \<in> set method_shards" and y: "?state y = st"
    and t: "from_table method_table (run_method_shard Q ?N B) (invoke_shard (no_gen ax)) s object className signature args y = (h', y')"
    and ch: "?state y' \<noteq> st"
    by (rule try_shards_change [OF run, of ?state]) (use assms(2) in simp_all)
  from s method_table_names have "s \<in> set (map fst method_table)" by blast
  then obtain sh where sh: "(s, sh) \<in> set method_table"
    and e: "from_table method_table (run_method_shard Q ?N B) (invoke_shard (no_gen ax)) s = run_method_shard Q ?N B sh"
    by (rule from_table_entry)
  obtain j1 e1 j2 e2 st2 where yy: "y = (j1, e1, st)" "y' = (j2, e2, st2)" using y by (cases y, cases y') auto
  obtain b c xs where b: "b \<in> set (sh_bindings sh)" and tc: "takes_call Q B sh object className signature args VInvalid st b c xs"
    by (rule run_method_shard_touches [OF t [unfolded e yy]]) (use ch yy in simp_all)
  have "object_shard sh" using object_table_shards sh unfolding list_all_iff by blast
  then have "\<not> on_value c" using b tc by (auto simp: object_shard_def list_all_iff takes_call_def)
  then have "\<exists>cpp. macro_defined B (method_macro sh cpp)
      \<and> (OnObject cpp \<in> set (b_candidates b) \<and> dynamic_cast Q cpp (world st) object
         \<or> Static cpp \<in> set (b_candidates b) \<and> className = qualify_name (sh_module sh) (qs (unscoped cpp)))"
    using tc by (cases c) (auto simp: takes_call_def)
  then show ?thesis using sh b tc unfolding takes_call_def by blast
qed

text \<open>A build with ActiveQt, and one \<^verbatim>\<open>QAxObject\<close>.\<close>

definition ax_qt :: "(demo, unit) qt" where
  "ax_qt = demo_qt\<lparr>qobject_cast := \<lambda>c w p. c = ''QAxObject'' \<and> p = 1\<rparr>"

lemma ax_qt_simps: "qobject_cast ax_qt = (\<lambda>c w p. c = ''QAxObject'' \<and> p = 1)" "qt_call ax_qt = demo_call"
  by (simp_all add: ax_qt_def)

lemma ax_first: "method_shards = ''qaxcontainer_0'' # tl method_shards"
  by (simp add: method_shards_def)

lemma ax_entry: "map_of method_table ''qaxcontainer_0'' = Some \<lparr>sh_module = ''QAxContainer'', sh_slug = ''QAXCONTAINER'',
    sh_bindings = concat [meth_qaxcontainer_0_0, meth_qaxcontainer_0_1]\<rparr>"
  by (simp add: method_table_def meth_table_rest_a_def)

lemma ax_clear:
  "invoke (program ax_qt demo_build True) 1 (qs ''QAxObject'') (qs ''clear()'') [] (bridge_init demo_init)
   = (True, JNull, None, set_world (demo_init\<lparr>d_calls := [''QAxObject::clear'']\<rparr>) (bridge_init demo_init))"
  unfolding program_def invoke_def link_fields
  by (subst ax_first)
     (simp add: from_table_def ax_entry run_method_shard_def shard_eval meth_qaxcontainer_0_0_def dynamic_cast_def
      ax_qt_simps demo_call_def bridge_init_def demo_init_def)

theorem program_call_justified_witness:
  "\<exists>s sh b xs e. (s, sh) \<in> set method_table \<and> b \<in> set (sh_bindings sh)
      \<and> compiled demo_build (b_guards b) (b_params b) \<and> qs ''clear()'' = qs (b_signature b) \<and> length ([] :: json list) = length (b_params b)
      \<and> snd (convert_args ax_qt demo_build (bridge_init demo_init) 0 (b_params b) [] e) = Some xs
      \<and> (\<exists>cpp. macro_defined demo_build (method_macro sh cpp)
          \<and> (OnObject cpp \<in> set (b_candidates b) \<and> dynamic_cast ax_qt cpp demo_init 1
             \<or> Static cpp \<in> set (b_candidates b) \<and> qs ''QAxObject'' = qualify_name (sh_module sh) (qs (unscoped cpp))))"
proof -
  have "set_world (demo_init\<lparr>d_calls := [''QAxObject::clear'']\<rparr>) (bridge_init demo_init) \<noteq> bridge_init demo_init"
    by (simp add: set_world_def bridge_init_def demo_init_def)
  from program_call_justified [OF ax_clear this] show ?thesis unfolding bridge_init_def by simp
qed

subsection \<open>Refused value calls\<close>

text \<open>The blocks of all value shards, in the order in which a call tries them, and the first that answers.\<close>

definition shard_blocks :: "string \<Rightarrow> binding list" where
  "shard_blocks s = (case map_of value_method_table s of None \<Rightarrow> [] | Some sh \<Rightarrow> sh_bindings sh)"

definition first_value_block :: "('w, 'o) build \<Rightarrow> qstring \<Rightarrow> binding option" where
  "first_value_block B signature = List.find (answers B signature) (concat (map shard_blocks value_method_shards))"

lemma find_append: "List.find P (xs @ ys) = (case List.find P xs of None \<Rightarrow> List.find P ys | Some x \<Rightarrow> Some x)"
  by (induction xs) simp_all

lemma try_blocks_first:
  "List.find (answers B signature) bs = None \<Longrightarrow>
     try_shards (map (run_binding Q G B sh object className signature args) bs) out = (False, out)"
  "List.find (answers B signature) bs = Some b \<Longrightarrow> run_binding Q G B sh object className signature args b out = (True, out') \<Longrightarrow>
     try_shards (map (run_binding Q G B sh object className signature args) bs) out = (True, out')"
  by (induction bs) (auto simp: run_binding_other split: if_splits)

lemma try_tables_first:
  assumes "\<And>sh. run_binding Q G B sh nullptr className signature args b out = (True, out')"
  shows "set ss \<subseteq> set (map fst value_method_table) \<Longrightarrow>
    List.find (answers B signature) (concat (map shard_blocks ss)) = Some b \<Longrightarrow>
    try_shards (map (\<lambda>s. from_table value_method_table (run_value_shard Q G B) other s className signature args) ss) out = (True, out')"
proof (induction ss)
  case (Cons s ss)
  then obtain sh where sh: "map_of value_method_table s = Some sh"
    by (cases "map_of value_method_table s") (auto simp: map_of_eq_None_iff)
  then have run: "from_table value_method_table (run_value_shard Q G B) other s className signature args out
      = try_shards (map (run_binding Q G B sh nullptr className signature args) (sh_bindings sh)) out"
    and blocks: "shard_blocks s = sh_bindings sh"
    by (simp_all add: from_table_def run_value_shard_def run_shard_def shard_blocks_def)
  show ?case
  proof (cases "List.find (answers B signature) (sh_bindings sh)")
    case None
    then show ?thesis using Cons run try_blocks_first(1) [OF None] by (simp add: find_append blocks)
  next
    case (Some c)
    then have "c = b" using Cons.prems(2) by (simp add: find_append blocks)
    then show ?thesis using run try_blocks_first(2) [OF Some] assms by simp
  qed
qed simp

text \<open>What a block reports itself: a wrong number of arguments, or an argument it cannot convert.\<close>

definition refuses :: "('w, 'o) qt \<Rightarrow> ('w, 'o) build \<Rightarrow> ('w, 'o) bridge \<Rightarrow> binding \<Rightarrow> json list \<Rightarrow> bool" where
  "refuses Q B st b args \<longleftrightarrow>
     length args \<noteq> length (b_params b) \<or> snd (convert_args Q B st 0 (b_params b) args None) = None"

lemma refusing_block:
  assumes "answers B signature b" "refuses Q B st b args"
  shows "\<exists>e. \<forall>sh. run_binding Q G B sh nullptr className signature args b (v, JNull, None, st) = (True, (v, JNull, e, st))"
proof -
  obtain e r where c: "convert_args Q B st 0 (b_params b) args None = (e, r)" by force
  then show ?thesis using assms
    by (cases "length args = length (b_params b)") (auto simp: run_binding_def answers_def refuses_def)
qed

text \<open>
  C38: \<^verbatim>\<open>value_call\<close> hides the errors of the generated value methods. When reflection did not answer the
  call, because the type of the stored value has no meta-object or its reflective call failed, and the
  first compiled block of the value shards with the requested signature gets a wrong number of
  arguments or one it cannot convert, the request still answers success with null, and the value is
  as reflection left it. The class of the value does not matter: a block of another class refuses the
  arguments just the same.
\<close>

theorem value_call_hides_errors:
  assumes "first_value_block B (toString (jvalue request ''method'')) = Some b"
    and "refuses Q B st1 b (toArray (jvalue request ''args''))" "\<not> bad_args_field (jvalue request ''args'')"
    and "(mt_metaObject Q (variant_type v) = None \<and> st1 = st)
      \<or> (\<exists>mo e. mt_metaObject Q (variant_type v) = Some mo
           \<and> invokeMethod Q (program Q B ax) mo (OnGadget h) (toString (jvalue request ''method'')) (toArray (jvalue request ''args'')) st
             = (Inl e, st1))"
    and "valueForId st1 h = Some v1"
  shows "op_value_call Q (program Q B ax) request h v st = (Success JNull, store_value h v1 st1)"
proof -
  let ?sig = "toString (jvalue request ''method'')" and ?args = "toArray (jvalue request ''args'')"
  have "answers B ?sig b" using assms(1) by (auto simp: first_value_block_def find_Some_iff)
  from refusing_block [OF this assms(2)] obtain e where
    e: "run_binding Q (link_names Q B (no_gen ax)) B sh nullptr (mt_qname Q (variant_type v)) ?sig ?args b (v1, JNull, None, st1)
        = (True, (v1, JNull, e, st1))" for sh
    by metis
  have "invokeValue (program Q B ax) v1 (mt_qname Q (variant_type v)) ?sig ?args st1 = (True, v1, JNull, e, st1)"
    unfolding invokeValue_def program_def link_fields
    using try_tables_first [OF e value_method_table_names] assms(1) by (simp add: first_value_block_def)
  then show ?thesis using assms(3-5) by (auto simp: op_value_call_def success_def Let_def)
qed

lemma qax_value_entry: "map_of value_method_table ''qaxcontainer_0'' = Some \<lparr>sh_module = ''QAxContainer'', sh_slug = ''QAXCONTAINER'',
    sh_bindings = concat [vmeth_qaxcontainer_0_0, vmeth_qaxcontainer_0_1]\<rparr>"
  by (simp add: value_method_table_def vmeth_table_rest_a_def)

lemma ax_value_first: "value_method_shards = ''qaxcontainer_0'' # tl value_method_shards"
  by (simp add: value_method_shards_def)

lemma qax_value_block: "first_value_block demo_build (qs ''clear()'') = Some (Bind [] ''clear'' [] RVoid [OnValue ''QAxBase''])"
proof -
  have "first_value_block demo_build (qs ''clear()'') = List.find (answers demo_build (qs ''clear()''))
      (shard_blocks ''qaxcontainer_0'' @ concat (map shard_blocks (tl value_method_shards)))"
    unfolding first_value_block_def by (subst ax_value_first) (simp only: list.simps(9) concat.simps(2))
  also have "shard_blocks ''qaxcontainer_0'' = vmeth_qaxcontainer_0_0 @ vmeth_qaxcontainer_0_1"
    by (simp add: shard_blocks_def qax_value_entry)
  finally show ?thesis
    by (simp add: vmeth_qaxcontainer_0_0_def answers_def compiled_def traits_hold_def b_signature_def)
qed

theorem value_call_hides_errors_witness:
  "\<exists>st'. op_value_call demo_qt (program demo_qt demo_build True)
      [(qs ''args'', JArray [JBool True]), (qs ''method'', JString (qs ''clear()''))] 1 (VInt 5) demo_valued = (Success JNull, st')"
proof -
  let ?req = "[(qs ''args'', JArray [JBool True]), (qs ''method'', JString (qs ''clear()''))]"
  have r: "toArray (jvalue ?req ''args'') = [JBool True]" "jvalue ?req ''args'' = JArray [JBool True]" "toString (jvalue ?req ''method'') = qs ''clear()''"
    by (simp_all add: jvalue_def smap_find_def)
  have v: "valueForId demo_valued 1 = Some (VInt 5)" by (simp add: demo_valued_def valueForId_def smap_find_def)
  have m: "mt_metaObject demo_qt (variant_type (VInt 5 :: unit qvariant)) = None" by simp
  have refuse: "refuses demo_qt demo_build demo_valued (Bind [] ''clear'' [] RVoid [OnValue ''QAxBase'']) [JBool True]"
    by (simp add: refuses_def)
  have ok: "\<not> bad_args_field (jvalue ?req ''args'')" unfolding r by (simp add: bad_args_field_def)
  from value_call_hides_errors [of demo_build ?req, unfolded r(1,3), OF qax_value_block refuse ok _ v] m show ?thesis by blast
qed

subsection \<open>Objects between calls\<close>

text \<open>
  C20: An object one generated method returns can be passed to the next one: the handle written as the
  result of the call, for an object seen for the first time or known already, is converted back to
  the same pointer for every parameter whose class the object is of.
\<close>

theorem object_result_is_accepted:
  assumes "running st" "p \<noteq> nullptr" "alive Q (world st) p" "nextObjectId st \<le> max_exact"
    and "emit_result Q G B RObject (VPointer t0 p) (j, err, st) = (j', err', st')"
    and "mt_isPointer Q (metatype_of B T)" "mt_metaObject Q (metatype_of B T) = Some targetClass"
    and "meta_cast Q targetClass (world st) p" "metatype_of B T \<noteq> MtInvalid" "metatype_of B T \<noteq> MtQVariant"
  shows "convert_arg Q B st' i (PNonNull T) j' e = (e, Some (VPointer (metatype_of B T) p))"
proof -
  have o: "objectHandleValue Q p st = (j', st')"
    using assms(2,5) by (auto simp: objectHandle_def split: prod.splits)
  from objectHandleValue_reads [OF assms(1-4) o] obtain h where h: "registerObject Q p st = (h, st')"
    "j' = jobj [(''object_id'', jint h)]" "objectForId Q st' h = p" "1 \<le> h" "h \<le> max_exact" by metis
  have "world st' = world st" using h(1) by (rule registerObject_frame)
  moreover have "parseObjectId (jint h) = Inr h" by (rule parseObjectId_jint [OF h(4,5)])
  moreover have "\<not> isNull j'" by (simp add: h(2) jobj_def)
  ultimately have "fromJson_branch Q st' j' (metatype_of B T) = Inr (VPointer (metatype_of B T) p)"
    using assms(2,6-8) h(3) by (simp add: fromJson_branch_def fromJson_pointer_def h(2))
  then have "fromJson Q st' j' (metatype_of B T) = Inr (VPointer (metatype_of B T) p)"
    by (rule fromJson_branch_done) (simp_all add: assms(9,10))
  then show ?thesis using assms(9) by (simp add: h(2) jobj_def convert_value_def from_json_def v_isValid_def)
qed

text \<open>Two objects of the family of \<open>family_state\<close>, with the meta-object of \<^verbatim>\<open>QObject *\<close> known.\<close>

definition pointer_qt :: "(demo, unit) qt" where
  "pointer_qt = demo_qt\<lparr>mt_metaObject := \<lambda>t. Some demo_object\<rparr>"

definition pointer_build :: "(demo, unit) build" where
  "pointer_build = demo_build\<lparr>metatype_of := \<lambda>T. MtQObjectStar\<rparr>"

lemma pointer_simps: "metatype_of pointer_build T = MtQObjectStar" "mt_isPointer pointer_qt MtQObjectStar"
  "mt_metaObject pointer_qt MtQObjectStar = Some demo_object" "meta_cast pointer_qt demo_object w p"
  by (simp_all add: pointer_qt_def pointer_build_def demo_qt_def)

theorem object_result_is_accepted_witness:
  "\<exists>j st'. emit_result pointer_qt demo_gen pointer_build RObject (VPointer MtQObjectStar 2) (JNull, None, family_state) = (j, None, st')
     \<and> convert_arg pointer_qt pointer_build st' 0 (PNonNull ''QObject *'') j None = (None, Some (VPointer MtQObjectStar 2))"
proof -
  obtain j e st' where o: "emit_result pointer_qt demo_gen pointer_build RObject (VPointer MtQObjectStar 2) (JNull, None, family_state) = (j, e, st')"
    by (metis prod.collapse)
  then have e: "e = None" by (auto simp: Let_def split: prod.splits)
  have "running family_state" using family_inv(1) by (simp add: running_def family_state_def)
  moreover have "nextObjectId family_state \<le> max_exact" by (simp add: family_state_def)
  moreover have "alive pointer_qt (world family_state) 2" by (simp add: family_inv demo_family_def pointer_qt_def)
  moreover have "convert_arg pointer_qt pointer_build st' 0 (PNonNull ''QObject *'') j None
      = (None, Some (VPointer (metatype_of pointer_build ''QObject *'') 2))"
    by (rule object_result_is_accepted [OF calculation(1) _ calculation(3,2) o, where targetClass = demo_object])
       (simp_all add: pointer_simps pointer_simps(4) [of "world family_state" 2, simplified])
  ultimately show ?thesis using o unfolding e pointer_simps by blast
qed

end
