(* ===== verification/Event_Queue.thy ===== *)
theory Event_Queue
  imports Operation_Properties
begin

text \<open>
  The event queue a client sees. The emissions that wait in the spies of open objects form one list,
  in the order of the handles, the subscriptions and the emissions; a poll reads a prefix of it.
\<close>

subsection \<open>The pending events\<close>

text \<open>Documented: every \<^verbatim>\<open>QSignalSpy\<close> has its own queue, and emptying or destroying one leaves the others alone.\<close>

definition spies_independent :: "('w, 'o) qt \<Rightarrow> bool" where
  "spies_independent Q \<longleftrightarrow>
     (\<forall>w s t. s \<noteq> t \<longrightarrow> spy_queue Q (spy_takeFirst Q s w) t = spy_queue Q w t
        \<and> spy_queue Q (spy_delete Q s w) t = spy_queue Q w t \<and> spy_isValid Q (spy_delete Q s w) t = spy_isValid Q w t)
     \<and> (\<forall>w s. spy_isValid Q (spy_takeFirst Q s w) = spy_isValid Q w)"

type_synonym 'o pending_event = "subscription \<times> 'o qvariant list"

definition pending_sub :: "('w, 'o) qt \<Rightarrow> 'w \<Rightarrow> subscription \<Rightarrow> 'o pending_event list" where
  "pending_sub Q w s = (if spy_isValid Q w (sub_spy s) then map (Pair s) (spy_queue Q w (sub_spy s)) else [])"

definition pending_subs :: "('w, 'o) qt \<Rightarrow> 'w \<Rightarrow> subscription list \<Rightarrow> 'o pending_event list" where
  "pending_subs Q w subs = concat (map (pending_sub Q w) subs)"

definition pending_groups :: "('w, 'o) qt \<Rightarrow> ('w, 'o) bridge \<Rightarrow> (handle, subscription list) smap \<Rightarrow> 'o pending_event list" where
  "pending_groups Q st gs =
     concat (map (\<lambda>(oid, subs). if objectForId Q st oid = nullptr then [] else pending_subs Q (world st) subs) gs)"

definition pending :: "('w, 'o) qt \<Rightarrow> ('w, 'o) bridge \<Rightarrow> 'o pending_event list" where
  "pending Q st = pending_groups Q st (subscriptions st)"

text \<open>The JSON event answered for a pending one: its subscription and its arguments.\<close>

definition answers_event :: "('w, 'o) qt \<Rightarrow> ('w, 'o) gen \<Rightarrow> json \<Rightarrow> 'o pending_event \<Rightarrow> bool" where
  "answers_event Q G e p \<longleftrightarrow> (\<exists>sti. e = event_json (fst p) (fst (toJson_list Q G (snd p) sti)))"

text \<open>Each subscription owns a spy of its own (a \<^verbatim>\<open>std::unique_ptr\<close> to the spy made for it).\<close>

definition distinct_spies :: "(handle, subscription list) smap \<Rightarrow> bool" where
  "distinct_spies gs \<longleftrightarrow> distinct (map sub_spy (concat (map snd gs)))"

lemma pending_subs_simps [simp]:
  "pending_subs Q w [] = []" "pending_subs Q w (s # subs) = pending_sub Q w s @ pending_subs Q w subs"
  by (simp_all add: pending_subs_def)

lemma pending_groups_simps [simp]:
  "pending_groups Q st [] = []"
  "pending_groups Q st ((oid, subs) # gs) =
     (if objectForId Q st oid = nullptr then [] else pending_subs Q (world st) subs) @ pending_groups Q st gs"
  by (simp_all add: pending_groups_def)

subsection \<open>What draining leaves alone\<close>

text \<open>\<open>spy_frame Q A w w'\<close>: outside \<open>A\<close> the spies are in \<open>w'\<close> what they are in \<open>w\<close>.\<close>

definition spy_frame :: "('w, 'o) qt \<Rightarrow> nat set \<Rightarrow> 'w \<Rightarrow> 'w \<Rightarrow> bool" where
  "spy_frame Q A w w' \<longleftrightarrow>
     (\<forall>t. t \<notin> A \<longrightarrow> spy_queue Q w' t = spy_queue Q w t \<and> spy_isValid Q w' t = spy_isValid Q w t)"

lemma spy_frame_refl [simp]: "spy_frame Q A w w"
  by (simp add: spy_frame_def)

lemma spy_frame_trans: "spy_frame Q A w1 w2 \<Longrightarrow> spy_frame Q B w2 w3 \<Longrightarrow> spy_frame Q (A \<union> B) w1 w3"
  by (simp add: spy_frame_def)

lemma spy_frame_pending_subs:
  assumes "spy_frame Q A w w'" "sub_spy ` set subs \<inter> A = {}"
  shows "pending_subs Q w' subs = pending_subs Q w subs"
  using assms by (induction subs) (auto simp: pending_sub_def spy_frame_def)

lemma spy_frame_pending_groups:
  assumes "spy_frame Q A (world st) (world st')" "sub_spy ` set (concat (map snd gs)) \<inter> A = {}"
    and "objectForId Q st' = objectForId Q st"
  shows "pending_groups Q st' gs = pending_groups Q st gs"
  using assms(2)
proof (induction gs)
  case (Cons g gs)
  obtain oid subs where g: "g = (oid, subs)" by force
  have "sub_spy ` set subs \<inter> A = {}" using Cons.prems by (auto simp: g)
  from spy_frame_pending_subs [OF assms(1) this] Cons show ?case by (auto simp: g assms(3))
qed simp

lemma drop_spies_frame:
  assumes "spies_independent Q"
  shows "spy_frame Q (sub_spy ` set subs) w (drop_spies Q subs w)"
proof (induction subs arbitrary: w)
  case (Cons s subs)
  have "spy_frame Q {sub_spy s} w (spy_delete Q (sub_spy s) w)"
    using assms unfolding spies_independent_def spy_frame_def by (metis singletonI)
  from spy_frame_trans [OF this Cons.IH] show ?case by (simp add: drop_spies_def)
qed (simp add: drop_spies_def)

lemma drain_spy_frame:
  assumes "spies_independent Q"
  shows "drain_spy Q G s n st = (es, left, st') \<Longrightarrow>
    spy_frame Q {sub_spy s} (world st) (world st') \<and> spy_isValid Q (world st') = spy_isValid Q (world st)"
proof (induction n arbitrary: st es left st')
  case (Suc n)
  show ?case
  proof (cases "spy_queue Q (world st) (sub_spy s)")
    case Nil with Suc.prems show ?thesis by simp
  next
    case (Cons args q)
    define w1 where "w1 = spy_takeFirst Q (sub_spy s) (world st)"
    obtain js st1 where j: "toJson_list Q G args (set_world w1 st) = (js, st1)" by force
    obtain es1 l1 st2 where d: "drain_spy Q G s n st1 = (es1, l1, st2)" by (metis prod.exhaust)
    have w: "world st1 = w1" using toJson_list_ext [OF j] by (simp add: value_ext_def)
    have r: "st' = st2" using Suc.prems Cons j d by (simp add: w1_def)
    have v: "spy_isValid Q w1 = spy_isValid Q (world st)" using assms by (simp add: spies_independent_def w1_def)
    have "spy_frame Q {sub_spy s} (world st) w1"
      using assms v unfolding spies_independent_def spy_frame_def w1_def by (metis singletonI)
    from spy_frame_trans [OF this, of "{sub_spy s}" "world st'"] Suc.IH [OF d] w v r show ?thesis by simp
  qed
qed simp

subsection \<open>Draining reads a prefix\<close>

text \<open>
  \<open>reads Q G es n p p'\<close>: of the pending events \<open>p\<close> the first \<open>n\<close> were answered as \<open>es\<close> and the others are \<open>p'\<close>.
\<close>

definition reads :: "('w, 'o) qt \<Rightarrow> ('w, 'o) gen \<Rightarrow> json list \<Rightarrow> nat \<Rightarrow> 'o pending_event list \<Rightarrow> 'o pending_event list \<Rightarrow> bool" where
  "reads Q G es n p p' \<longleftrightarrow> list_all2 (answers_event Q G) es (take n p) \<and> p' = drop n p"

lemma reads_length: "reads Q G es n p p' \<Longrightarrow> length es = min n (length p)"
  by (auto simp: reads_def dest: list_all2_lengthD)

lemma reads_append:
  assumes "reads Q G es1 n p1 p1'" "reads Q G es2 (n - length p1) p2 p2'"
  shows "reads Q G (es1 @ es2) n (p1 @ p2) (p1' @ p2')"
  using assms by (auto simp: reads_def intro: list_all2_appendI)

lemma reads_full: "reads Q G es n p p' \<Longrightarrow> n \<le> length p \<Longrightarrow> reads Q G es n (p @ rest) (p' @ rest)"
  by (simp add: reads_def)

lemma drain_spy_reads:
  assumes "spy_ok Q" "spies_independent Q" "spy_isValid Q (world st) (sub_spy s)" "drain_spy Q G s n st = (es, left, st')"
  shows "left = n - length (pending_sub Q (world st) s)
    \<and> reads Q G es n (pending_sub Q (world st) s) (pending_sub Q (world st') s)"
proof -
  have v: "spy_isValid Q (world st') (sub_spy s)" using drain_spy_frame [OF assms(2,4)] assms(3) by simp
  from drain_spy_fifo [OF assms(1,4)] show ?thesis
    using assms(3) v
    by (auto simp: pending_sub_def reads_def answers_event_def take_map drop_map list.rel_map)
qed

lemma drain_subscriptions_reads:
  assumes "spy_ok Q" "spies_independent Q" "distinct (map sub_spy subs)" "drain_subscriptions Q G subs n st = (es, left, st')"
  shows "left = n - length (pending_subs Q (world st) subs)
    \<and> reads Q G es n (pending_subs Q (world st) subs) (pending_subs Q (world st') subs)
    \<and> spy_frame Q (sub_spy ` set subs) (world st) (world st')"
  using assms(3,4)
proof (induction subs arbitrary: n st es left)
  case Nil then show ?case by (simp add: reads_def)
next
  case (Cons s subs)
  note ok = assms(1,2)
  have s_new: "sub_spy s \<notin> sub_spy ` set subs" and dist: "distinct (map sub_spy subs)" using Cons.prems(1) by auto
  show ?case
  proof (cases "spy_isValid Q (world st) (sub_spy s)")
    case False
    then have d: "drain_subscriptions Q G subs n st = (es, left, st')" using Cons.prems(2) by simp
    note IH = Cons.IH [OF dist d]
    have "spy_isValid Q (world st') (sub_spy s) = spy_isValid Q (world st) (sub_spy s)"
      using IH s_new by (simp add: spy_frame_def)
    then show ?thesis using IH False by (auto simp: pending_sub_def spy_frame_def)
  next
    case True
    obtain es1 l1 st1 where d: "drain_spy Q G s n st = (es1, l1, st1)" by (metis prod.exhaust)
    note r1 = drain_spy_reads [OF ok True d] and f1 = conjunct1 [OF drain_spy_frame [OF ok(2) d]]
    have rest: "pending_subs Q (world st1) subs = pending_subs Q (world st) subs"
      by (rule spy_frame_pending_subs [OF f1]) (use s_new in simp)
    show ?thesis
    proof (cases "l1 = 0")
      case full: True
      then have "es = es1" "left = 0" "st' = st1" using Cons.prems(2) True d by simp_all
      moreover have "n \<le> length (pending_sub Q (world st) s)" using full r1 by simp
      ultimately show ?thesis
        using r1 f1 reads_full by (auto simp: rest spy_frame_def)
    next
      case False
      obtain es2 l2 where r: "drain_subscriptions Q G subs l1 st1 = (es2, l2, st')" "es = es1 @ es2" "left = l2"
        using Cons.prems(2) True False d by (auto split: prod.splits)
      note IH = Cons.IH [OF dist r(1)]
      have "pending_sub Q (world st') s = pending_sub Q (world st1) s"
        using IH s_new by (simp add: pending_sub_def spy_frame_def)
      moreover have "spy_frame Q ({sub_spy s} \<union> sub_spy ` set subs) (world st) (world st')"
        using IH f1 by (blast intro: spy_frame_trans)
      ultimately show ?thesis
        using r1 IH r by (auto simp: rest intro: reads_append)
    qed
  qed
qed

lemma drain_subscriptions_resolves:
  assumes "spies_inert Q" "drain_subscriptions Q G subs n st = (es, left, st')"
  shows "objectForId Q st' = objectForId Q st"
  using drain_subscriptions_objects [OF assms] by (blast intro: same_objects_resolve)

lemma drop_spies_resolves: "spies_inert Q \<Longrightarrow> objectForId Q (set_world (drop_spies Q subs (world st)) st) = objectForId Q st"
  by (rule same_objects_resolve) (simp add: same_objects_def inert_drop)

lemma drain_groups_reads:
  assumes "spy_ok Q" "spies_independent Q" "spies_inert Q" "distinct_spies gs" "drain_groups Q G gs n st = (es, kept, st')"
  shows "reads Q G es n (pending_groups Q st gs) (pending_groups Q st' kept)
    \<and> spy_frame Q (sub_spy ` set (concat (map snd gs))) (world st) (world st')
    \<and> objectForId Q st' = objectForId Q st"
  using assms(4,5)
proof (induction gs arbitrary: n st es kept)
  case Nil then show ?case by (simp add: reads_def)
next
  case (Cons g gs)
  note ok = assms(1,2,3)
  obtain oid subs where g: "g = (oid, subs)" by force
  have dist: "distinct (map sub_spy subs)" "distinct_spies gs"
    and apart: "sub_spy ` set (concat (map snd gs)) \<inter> sub_spy ` set subs = {}"
    using Cons.prems(1) by (auto simp: g distinct_spies_def)
  show ?case
  proof (cases "objectForId Q st oid = nullptr")
    case True
    define st1 where "st1 = set_world (drop_spies Q subs (world st)) st"
    have f1: "spy_frame Q (sub_spy ` set subs) (world st) (world st1)" and o1: "objectForId Q st1 = objectForId Q st"
      using drop_spies_frame [OF ok(2)] drop_spies_resolves [OF ok(3)] by (simp_all add: st1_def)
    have d: "drain_groups Q G gs n st1 = (es, kept, st')" using Cons.prems(2) True by (simp add: g st1_def)
    have "pending_groups Q st1 gs = pending_groups Q st gs" by (rule spy_frame_pending_groups [OF f1 apart o1])
    then show ?thesis
      using Cons.IH [OF dist(2) d] spy_frame_trans [OF f1] True o1 by (auto simp: g image_Un)
  next
    case False
    obtain es1 l1 st1 where d: "drain_subscriptions Q G subs n st = (es1, l1, st1)" by (metis prod.exhaust)
    note r1 = drain_subscriptions_reads [OF ok(1,2) dist(1) d] and o1 = drain_subscriptions_resolves [OF ok(3) d]
    have rest: "pending_groups Q st1 gs = pending_groups Q st gs"
      using r1 by (intro spy_frame_pending_groups [OF _ apart o1]) blast
    show ?thesis
    proof (cases "l1 = 0")
      case full: True
      then have "es = es1" "kept = (oid, subs) # gs" "st' = st1" using Cons.prems(2) False d by (simp_all add: g)
      moreover have "n \<le> length (pending_subs Q (world st) subs)" using full r1 by simp
      ultimately show ?thesis
        using r1 False reads_full by (auto simp: g rest o1 spy_frame_def)
    next
      case l: False
      obtain es2 k2 where r: "drain_groups Q G gs l1 st1 = (es2, k2, st')" "es = es1 @ es2" "kept = (oid, subs) # k2"
        using Cons.prems(2) False l d by (auto simp: g split: prod.splits)
      note IH = Cons.IH [OF dist(2) r(1)]
      have "pending_subs Q (world st') subs = pending_subs Q (world st1) subs"
        using IH apart by (intro spy_frame_pending_subs [of Q "sub_spy ` set (concat (map snd gs))"]) blast+
      then show ?thesis
        using r1 IH False o1 spy_frame_trans [of Q "sub_spy ` set subs" "world st" "world st1"]
        by (auto simp: g r rest image_Un intro!: reads_append)
    qed
  qed
qed

text \<open>
  C5: A poll is a read of one first-in-first-out queue. The emissions that wait in the spies of open
  objects after the event loop ran, over all objects and subscriptions, are one list; the reply has
  the events of its first \<open>max\<close> elements, in order and with their arguments, and the rest is what
  the next poll finds: no event is lost, answered twice or overtaken.
\<close>

theorem poll_reads_queue:
  assumes "spy_ok Q" "spies_independent Q" "spies_inert Q" "distinct_spies (subscriptions st)"
    and "op_events Q G request st = (Success (JArray es), st')"
  shows "list_all2 (answers_event Q G) es (take (nat (toInt (jvalue request ''max'') 64)) (pending Q (poll_world Q request st)))
    \<and> pending Q st' = drop (nat (toInt (jvalue request ''max'') 64)) (pending Q (poll_world Q request st))"
proof -
  define n where "n = nat (toInt (jvalue request ''max'') 64)"
  have "wait_ok (jvalue request ''wait_ms'')" "max_ok (jvalue request ''max'')"
    using op_events_invalid [of request Q G st] assms(5) by auto
  from op_events_valid [OF this, of Q G st] obtain kept st2
    where d: "drain_groups Q G (subscriptions st) n (poll_world Q request st) = (es, kept, st2)" and s: "st' = st2\<lparr>subscriptions := kept\<rparr>"
    using assms(5) by (auto simp: n_def Let_def split: prod.splits)
  have "pending Q st' = pending_groups Q st2 kept"
    by (simp add: s pending_def pending_groups_def objectForId_def cong: if_cong option.case_cong)
  then show ?thesis
    using drain_groups_reads [OF assms(1-4) d] unfolding n_def reads_def pending_def
    by (simp add: poll_world_def)
qed

lemma map_of_others:
  "s \<noteq> t \<Longrightarrow> map_of (map (\<lambda>(k, q). if k = s then (k, f q) else (k, q)) m) t = map_of m t"
  "s \<noteq> t \<Longrightarrow> map_of (filter (\<lambda>(k, _). k \<noteq> s) m) t = map_of m t"
  by (induction m) auto

lemma demo_independent: "spies_independent demo_qt"
proof -
  have "fst ` set (map (\<lambda>(k, q). if k = s then (k, tl q) else (k, q)) m) = fst ` set m" for s :: nat and m :: "(nat \<times> unit qvariant list list) list"
    by (induction m) auto
  then show ?thesis
    unfolding spies_independent_def demo_qt_simps2 demo_queue_def
    by (auto simp del: set_map simp: map_of_others)
qed

lemma demo_spied_spies: "distinct_spies (subscriptions demo_spied)"
  by (simp add: distinct_spies_def demo_spied_def)

theorem poll_reads_queue_witness:
  "\<exists>es st'. op_events demo_qt demo_gen [(qs ''max'', jint 2)] demo_spied = (Success (JArray es), st')
     \<and> length es = 2 \<and> length (pending demo_qt st') = 3"
proof -
  let ?r = "[(qs ''max'', jint 2)]"
  have m: "jvalue ?r ''max'' = JDouble (DFin (of_int 2))" and w: "jvalue ?r ''wait_ms'' = JUndefined"
    by (simp_all add: jvalue_def smap_find_def jint_exact)
  have t: "nat (toInt (jvalue ?r ''max'') 64) = 2" using toInt_of_int [of 2 64] unfolding m by (simp add: int_max_def)
  have "wait_ok (jvalue ?r ''wait_ms'')" by (simp add: wait_ok_def w)
  moreover have "max_ok (jvalue ?r ''max'')" unfolding m max_ok_def by (rule disjI2, rule exI [of _ 2], simp)
  ultimately obtain es st' where e: "op_events demo_qt demo_gen ?r demo_spied = (Success (JArray es), st')"
    using op_events_valid [of ?r demo_qt demo_gen demo_spied] by (auto simp: Let_def split: prod.splits)
  have "length (pending demo_qt (poll_world demo_qt ?r demo_spied)) = 5"
    by (simp add: poll_world_def w set_world_def demo_spied_def bridge_init_def demo_run_def pending_def pending_sub_def
        objectForId_def smap_find_def qpointer_data_def demo_queue_def)
  then show ?thesis
    using poll_reads_queue [OF demo_spy_ok demo_independent demo_inert demo_spied_spies e] e unfolding t
    by (auto dest: list_all2_lengthD)
qed

end
