(* ===== verification/Lifetime_Properties.thy ===== *)
theory Lifetime_Properties
  imports Registry_Properties
begin

text \<open>
  What a client can rely on over a whole session: a handle that was deleted is refused by every later
  request, and the two handle tables refine one abstract table whose handles are opened with the
  next number, keep what they denote, and are closed for good.
\<close>

subsection \<open>Use after delete\<close>

definition object_operations :: "qstring set" where
  "object_operations = qs ` {''describe'', ''get'', ''set'', ''call'', ''connect'', ''delete''}"

definition value_operations :: "qstring set" where
  "value_operations = qs ` {''value_get'', ''value_set'', ''value_call'', ''value_describe'', ''value_delete''}"

lemma take_qs: "take n (qs s) = qs (take n s)"
  by (simp add: qs_def take_map)

text \<open>A request of these operations on a handle that denotes nothing is refused, whoever sends it.\<close>

lemma closed_object_refused:
  assumes "toString (jvalue request ''op'') \<in> object_operations" "parseObjectId (jvalue request ''object_id'') = Inr h"
    and "objectForId Q st h = nullptr"
  shows "\<exists>e. handleRequest Q G t request st = (Failure e, st)"
proof -
  have "\<exists>e. application_operation Q G (toString (jvalue request ''op'')) request st = (Failure e, st)"
    using assms
    by (auto simp: object_operations_def application_operation_def object_operation_def op_describe_def need_def fail_def failure_def
        take_qs)
  then show ?thesis
    using assms(1)
    by (auto simp: object_operations_def handleRequest_def package_query_def failure_def Let_def split: option.splits)
qed

lemma closed_value_refused:
  assumes "toString (jvalue request ''op'') \<in> value_operations" "parse_value_id (jvalue request ''value_id'') = Some h"
    and "valueForId st h = None"
  shows "\<exists>e. handleRequest Q G t request st = (Failure e, st)"
proof -
  have "op_value Q G (toString (jvalue request ''op'')) request st
      = (Failure (Msg ''Qt value handle is closed or unknown'' []), st)"
    using assms(2,3) by (simp add: op_value_def fail_def failure_def)
  then have "\<exists>e. application_operation Q G (toString (jvalue request ''op'')) request st = (Failure e, st)"
    using assms(1) by (auto simp: value_operations_def application_operation_def take_qs)
  then show ?thesis
    using assms(1)
    by (auto simp: value_operations_def handleRequest_def package_query_def failure_def Let_def split: option.splits)
qed

text \<open>A handle closed now is closed after any further calls.\<close>

lemma closed_later:
  assumes "gen_ok G" "reg_inv st" "h < nextObjectId st"
  shows "smap_find (objects st) h = None \<Longrightarrow> objectForId Q (snd (sequential Q G calls st)) h = nullptr"
    and "valueForId st h = None \<Longrightarrow> valueForId (snd (sequential Q G calls st)) h = None"
  using sequential_ok [OF assms(1,2), of Q calls] assms(3) by (auto simp: handle_step_def objectForId_def)

lemma handleRequest_object_operation:
  assumes "toString (jvalue request ''op'') = qs ''delete''" "handleRequest Q G t request st = (Success j, st')"
  shows "object_operation Q G (qs ''delete'') request st = (Success j, st')"
  using assms
  by (auto simp: handleRequest_def package_query_def application_operation_def take_qs failure_def fail_def Let_def split: option.splits if_splits)

lemma handleRequest_value_operation:
  assumes "toString (jvalue request ''op'') = qs ''value_delete''" "handleRequest Q G t request st = (Success j, st')"
  shows "op_value Q G (qs ''value_delete'') request st = (Success j, st')"
  using assms
  by (auto simp: handleRequest_def package_query_def application_operation_def take_qs failure_def fail_def Let_def split: option.splits if_splits)

lemma op_delete_closes:
  assumes "objectForId Q st h = p" "p \<noteq> nullptr" "op_delete Q p st = (r, st')"
  shows "smap_find (objects st') h = None"
proof -
  have f: "smap_find (objects st) h = Some p" "qpointer_data Q (world st) p = p"
    using assms(1,2) by (auto simp: objectForId_def qpointer_data_def split: option.splits if_splits)
  then have "h \<in> set (invalidated Q p st)" by (force simp: invalidated_def Let_def dest: smap_find_Some_in)
  moreover have "objects st' = fold smap_erase (invalidated Q p st) (objects st)"
    using assms(3) by (auto simp: op_delete_def Let_def)
  ultimately have "h \<notin> fst ` set (objects st')" by (auto simp: smap_erase_all_set)
  then show ?thesis by (simp add: smap_find_None_iff)
qed

lemma issued_object: "reg_inv st \<Longrightarrow> smap_find (objects st) h = Some p \<Longrightarrow> h < nextObjectId st"
  by (force simp: reg_inv_def dest: smap_find_Some_in)

lemma issued_value: "reg_inv st \<Longrightarrow> valueForId st h = Some v \<Longrightarrow> h < nextObjectId st"
  by (force simp: reg_inv_def valueForId_def dest: smap_find_Some_in)

text \<open>
  C9: Use after delete is refused. Once \<^verbatim>\<open>delete\<close> was answered with success, every later request that
  names the same handle as its object, on whatever thread and after whatever calls, among them a
  restart of the application, fails and changes nothing.
\<close>

theorem deleted_object_refused:
  assumes "gen_ok G" "reg_inv st" "toString (jvalue request ''op'') = qs ''delete''"
    and "handleRequest Q G t request st = (Success j, st')"
    and "toString (jvalue later ''op'') \<in> object_operations" "jvalue later ''object_id'' = jvalue request ''object_id''"
  shows "\<exists>e. handleRequest Q G t' later (snd (sequential Q G calls st')) = (Failure e, snd (sequential Q G calls st'))"
proof -
  have d: "object_operation Q G (qs ''delete'') request st = (Success j, st')"
    by (rule handleRequest_object_operation [OF assms(3,4)])
  then obtain h where h: "parseObjectId (jvalue request ''object_id'') = Inr h" and p: "objectForId Q st h \<noteq> nullptr"
    and o: "op_delete Q (objectForId Q st h) st = (Success j, st')"
    by (auto simp: object_operation_def failure_def fail_def Let_def split: sum.splits if_splits)
  have inv: "reg_inv st'" "nextObjectId st \<le> nextObjectId st'"
    using handleRequest_ok [OF assms(1,2), of Q t request] assms(4) by (simp_all add: request_ok_def handle_step_def)
  obtain q where "smap_find (objects st) h = Some q" using p by (auto simp: objectForId_def split: option.splits)
  then have "h < nextObjectId st'" using issued_object [OF assms(2)] inv(2) by fastforce
  from closed_later(1) [OF assms(1) inv(1) this op_delete_closes [OF refl p o]]
  have "objectForId Q (snd (sequential Q G calls st')) h = nullptr" .
  with h show ?thesis unfolding assms(6) [symmetric] by (rule closed_object_refused [OF assms(5)])
qed

lemma family_delete:
  "\<exists>st'. handleRequest demo_qt demo_gen 1 [(qs ''object_id'', jint 2), (qs ''op'', JString (qs ''delete''))] family_state = (Success JNull, st')"
  (is "\<exists>st'. handleRequest _ _ _ ?r _ = _")
proof -
  have r: "toString (jvalue ?r ''op'') = qs ''delete''" "jvalue ?r ''object_id'' = jint 2"
    by (simp_all add: jvalue_def smap_find_def)
  have "application family_state" "app_instance demo_qt (world family_state)" "applicationThread family_state = 1"
    by (simp_all add: family_state_def bridge_init_def demo_family_def)
  then have "handleRequest demo_qt demo_gen 1 ?r family_state = application_operation demo_qt demo_gen (qs ''delete'') ?r family_state"
    by (simp add: handleRequest_def r package_query_def guard_failure_def Let_def)
  also have "\<dots> = op_delete demo_qt 2 family_state"
    by (simp add: application_operation_def take_qs object_operation_def r parseObjectId_jint family_find)
  finally show ?thesis by (auto simp: op_delete_def success_def Let_def)
qed

theorem deleted_object_refused_witness:
  "\<exists>e st'. handleRequest demo_qt demo_gen 1 [(qs ''object_id'', jint 2), (qs ''op'', JString (qs ''delete''))] family_state = (Success JNull, st')
     \<and> handleRequest demo_qt demo_gen 1 [(qs ''object_id'', jint 2), (qs ''op'', JString (qs ''get''))] st' = (Failure e, st')"
proof -
  obtain st' where d: "handleRequest demo_qt demo_gen 1 [(qs ''object_id'', jint 2), (qs ''op'', JString (qs ''delete''))] family_state = (Success JNull, st')"
    using family_delete by blast
  moreover have "toString (jvalue [(qs ''object_id'', jint 2), (qs ''op'', JString (qs ''get''))] ''op'') \<in> object_operations"
    by (simp add: jvalue_def smap_find_def object_operations_def)
  ultimately have "\<exists>e. handleRequest demo_qt demo_gen 1 [(qs ''object_id'', jint 2), (qs ''op'', JString (qs ''get''))] (snd (sequential demo_qt demo_gen [] st'))
      = (Failure e, snd (sequential demo_qt demo_gen [] st'))"
    by (intro deleted_object_refused [OF demo_gen_ok family_inv(1) _ d]) (simp_all add: jvalue_def smap_find_def)
  with d show ?thesis by auto
qed

text \<open>
  C29: The same of stored values: once \<^verbatim>\<open>value_delete\<close> was answered with success, every later value
  operation on the handle fails and changes nothing, whatever calls came between.
\<close>

theorem deleted_value_refused:
  assumes "gen_ok G" "reg_inv st" "toString (jvalue request ''op'') = qs ''value_delete''"
    and "handleRequest Q G t request st = (Success j, st')"
    and "toString (jvalue later ''op'') \<in> value_operations" "jvalue later ''value_id'' = jvalue request ''value_id''"
  shows "\<exists>e. handleRequest Q G t' later (snd (sequential Q G calls st')) = (Failure e, snd (sequential Q G calls st'))"
proof -
  have d: "op_value Q G (qs ''value_delete'') request st = (Success j, st')"
    by (rule handleRequest_value_operation [OF assms(3,4)])
  then obtain h v where h: "parse_value_id (jvalue request ''value_id'') = Some h" and v: "valueForId st h = Some v"
    and st': "st' = st\<lparr>bvalues := smap_erase h (bvalues st)\<rparr>"
    by (auto simp: op_value_def failure_def fail_def split: option.splits)
  have inv: "reg_inv st'" using handleRequest_ok [OF assms(1,2), of Q t request] assms(4) by (simp add: request_ok_def)
  have "h < nextObjectId st'" using issued_value [OF assms(2) v] by (simp add: st')
  moreover have "valueForId st' h = None" by (auto simp: valueForId_def st' smap_find_None_iff smap_erase_def)
  ultimately have "valueForId (snd (sequential Q G calls st')) h = None" by (intro closed_later(2) [OF assms(1) inv])
  with h show ?thesis unfolding assms(6) [symmetric] by (rule closed_value_refused [OF assms(5)])
qed

definition kept_value :: "(demo, unit) bridge" where
  "kept_value = (bridge_init (demo_init\<lparr>d_app := True\<rparr>))\<lparr>application := True, applicationThread := 1,
     bvalues := [(1, VString (qs ''a''))], nextObjectId := 2\<rparr>"

lemma kept_value_inv: "reg_inv kept_value"
  by (auto simp: kept_value_def reg_inv_def bridge_init_def smap_ok_Cons)

lemma kept_value_delete:
  "\<exists>st'. handleRequest demo_qt demo_gen 1 [(qs ''op'', JString (qs ''value_delete'')), (qs ''value_id'', jint 1)] kept_value = (Success JNull, st')"
  (is "\<exists>st'. handleRequest _ _ _ ?r _ = _")
proof -
  have r: "toString (jvalue ?r ''op'') = qs ''value_delete''" "parse_value_id (jvalue ?r ''value_id'') = Some 1"
    by (simp_all add: jvalue_def smap_find_def parse_value_id_iff parseObjectId_jint)
  have "application kept_value" "app_instance demo_qt (world kept_value)" "applicationThread kept_value = 1"
    "valueForId kept_value 1 = Some (VString (qs ''a''))"
    by (simp_all add: kept_value_def bridge_init_def valueForId_def smap_find_def)
  then show ?thesis
    by (simp add: handleRequest_def r package_query_def guard_failure_def application_operation_def take_qs op_value_def success_def Let_def)
qed

theorem deleted_value_refused_witness:
  "\<exists>e st'. handleRequest demo_qt demo_gen 1 [(qs ''op'', JString (qs ''value_delete'')), (qs ''value_id'', jint 1)] kept_value = (Success JNull, st')
     \<and> handleRequest demo_qt demo_gen 1 [(qs ''op'', JString (qs ''value_get'')), (qs ''value_id'', jint 1)] st' = (Failure e, st')"
proof -
  obtain st' where d: "handleRequest demo_qt demo_gen 1 [(qs ''op'', JString (qs ''value_delete'')), (qs ''value_id'', jint 1)] kept_value = (Success JNull, st')"
    using kept_value_delete by blast
  moreover have "toString (jvalue [(qs ''op'', JString (qs ''value_get'')), (qs ''value_id'', jint 1)] ''op'') \<in> value_operations"
    by (simp add: jvalue_def smap_find_def value_operations_def)
  ultimately have "\<exists>e. handleRequest demo_qt demo_gen 1 [(qs ''op'', JString (qs ''value_get'')), (qs ''value_id'', jint 1)] (snd (sequential demo_qt demo_gen [] st'))
      = (Failure e, snd (sequential demo_qt demo_gen [] st'))"
    by (intro deleted_value_refused [OF demo_gen_ok kept_value_inv _ d]) (simp_all add: jvalue_def smap_find_def)
  with d show ?thesis by auto
qed

subsection \<open>One abstract handle table\<close>

text \<open>
  The specification of the two handle tables: which handles are open, what the object handles
  denote, and the number of the next one. A handle is opened with that number, never changed, and
  can only be closed.
\<close>

record handle_table =
  open_objects :: "handle \<Rightarrow> ptr option"
  open_values :: "handle set"
  next_handle :: handle

inductive table_step :: "handle_table \<Rightarrow> handle_table \<Rightarrow> bool" where
  open_object: "table_step A (A\<lparr>open_objects := (open_objects A)(next_handle A \<mapsto> p), next_handle := next_handle A + 1\<rparr>)"
| open_value: "table_step A (A\<lparr>open_values := insert (next_handle A) (open_values A), next_handle := next_handle A + 1\<rparr>)"
| close: "table_step A (A\<lparr>open_objects := open_objects A |` K, open_values := open_values A \<inter> V\<rparr>)"

definition table_of :: "('w, 'o) bridge \<Rightarrow> handle_table" where
  "table_of st = \<lparr>open_objects = smap_find (objects st), open_values = {k. valueForId st k \<noteq> None}, next_handle = nextObjectId st\<rparr>"

text \<open>\<open>table_below st n\<close>: the table of \<open>st\<close> as far as it was when \<open>n\<close> was the next number.\<close>

definition table_below :: "('w, 'o) bridge \<Rightarrow> handle \<Rightarrow> handle_table" where
  "table_below st n = \<lparr>open_objects = smap_find (objects st) |` {..<n}, open_values = {k. valueForId st k \<noteq> None} \<inter> {..<n}, next_handle = n\<rparr>"

lemma table_below_next:
  assumes "reg_inv st"
  shows "table_below st (nextObjectId st) = table_of st"
proof -
  have "smap_find (objects st) |` {..<nextObjectId st} = smap_find (objects st)"
  proof (rule ext)
    fix k
    show "(smap_find (objects st) |` {..<nextObjectId st}) k = smap_find (objects st) k"
      using issued_object [OF assms, of k] by (cases "smap_find (objects st) k") (auto simp: restrict_map_def)
  qed
  moreover have "{k. valueForId st k \<noteq> None} \<subseteq> {..<nextObjectId st}"
    using issued_value [OF assms] by auto
  ultimately show ?thesis by (auto simp: table_below_def table_of_def)
qed

lemma table_below_close:
  assumes "handle_step st st'"
  shows "table_step (table_of st) (table_below st' (nextObjectId st))"
proof -
  let ?n = "nextObjectId st" and ?o = "smap_find (objects st')" and ?v = "{k. valueForId st' k \<noteq> None}"
  have "?o k = None \<or> ?o k = smap_find (objects st) k" if "k < ?n" for k
    using assms that by (simp add: handle_step_def)
  then have "smap_find (objects st) |` {k. k < ?n \<and> ?o k \<noteq> None} = ?o |` {..<?n}"
    by (fastforce simp: restrict_map_def fun_eq_iff)
  moreover have "{k. valueForId st k \<noteq> None} \<inter> (?v \<inter> {..<?n}) = ?v \<inter> {..<?n}"
    using assms by (auto simp: handle_step_def)
  ultimately show ?thesis
    using table_step.close [where A = "table_of st" and K = "{k. k < ?n \<and> ?o k \<noteq> None}" and V = "?v \<inter> {..<?n}"]
    by (simp add: table_of_def table_below_def)
qed

text \<open>One number more: the handle is an object's, or a value's, or was closed again.\<close>

lemma table_below_open:
  assumes "reg_inv st"
  shows "table_step\<^sup>*\<^sup>* (table_below st n) (table_below st (n + 1))"
proof -
  let ?o = "smap_find (objects st)" and ?v = "{k. valueForId st k \<noteq> None}" and ?A = "table_below st n"
  have below: "{..<n + 1} = insert n {..<n}" by auto
  consider (object) p where "?o n = Some p" | (other) "?o n = None" by (cases "?o n") auto
  then show ?thesis
  proof cases
    case object
    have "n \<in> fst ` set (objects st)" using smap_find_Some_in [OF object] by force
    then have "n \<notin> fst ` set (bvalues st)" using assms by (auto simp: reg_inv_def)
    then have "n \<notin> ?v" by (simp add: valueForId_def smap_find_None_iff)
    then have "table_below st (n + 1) = ?A\<lparr>open_objects := (open_objects ?A)(next_handle ?A \<mapsto> p), next_handle := next_handle ?A + 1\<rparr>"
      using object by (auto simp: table_below_def below restrict_map_insert)
    then show ?thesis using table_step.open_object [of ?A p] by simp
  next
    case other
    define B where "B = ?A\<lparr>open_values := insert (next_handle ?A) (open_values ?A), next_handle := next_handle ?A + 1\<rparr>"
    have "table_below st (n + 1) = B\<lparr>open_objects := open_objects B |` UNIV, open_values := open_values B \<inter> ?v\<rparr>"
      using other by (auto simp: table_below_def B_def below restrict_map_insert restrict_map_def fun_eq_iff)
    then have "table_step B (table_below st (n + 1))" using table_step.close [where A = B and K = UNIV and V = ?v] by simp
    moreover have "table_step ?A B" unfolding B_def by (rule table_step.open_value)
    ultimately show ?thesis by simp
  qed
qed

lemma handle_step_refines:
  assumes "handle_step st st'" "reg_inv st'"
  shows "table_step\<^sup>*\<^sup>* (table_of st) (table_of st')"
proof -
  have "table_step\<^sup>*\<^sup>* (table_of st) (table_below st' (nextObjectId st + int m))" for m
  proof (induction m)
    case 0 show ?case using table_below_close [OF assms(1)] by simp
  next
    case (Suc m)
    have "nextObjectId st + int (Suc m) = nextObjectId st + int m + 1" by simp
    with Suc table_below_open [OF assms(2)] show ?case by (metis rtranclp_trans)
  qed
  from this [of "nat (nextObjectId st' - nextObjectId st)"] show ?thesis
    using assms(1) table_below_next [OF assms(2)] by (simp add: handle_step_def)
qed

text \<open>
  C4: The requests refine the abstract table. Whatever the request, its outcome and the thread, what it
  does to the two tables it finds is a sequence of opening the next handle, for an object or a value, and
  of closing handles: objects and values share one numbering, a number below the next one is never
  opened again, and an open handle keeps its object.
\<close>

theorem request_refines_handle_table:
  assumes "gen_ok G" "reg_inv st" "handleRequest Q G t request st = (r, st')"
  shows "table_step\<^sup>*\<^sup>* (table_of st) (table_of st')"
proof -
  have "reg_inv st' \<and> handle_step st st'"
    using handleRequest_ok [OF assms(1,2), of Q t request] assms(3) by (simp add: request_ok_def)
  then show ?thesis using handle_step_refines by blast
qed

theorem request_refines_handle_table_witness:
  "\<exists>st'. handleRequest demo_qt demo_gen 1 [(qs ''object_id'', jint 2), (qs ''op'', JString (qs ''delete''))] family_state = (Success JNull, st')
     \<and> table_step\<^sup>*\<^sup>* (table_of family_state) (table_of st') \<and> table_of family_state \<noteq> table_of st'"
proof -
  obtain st' where d: "handleRequest demo_qt demo_gen 1 [(qs ''object_id'', jint 2), (qs ''op'', JString (qs ''delete''))] family_state = (Success JNull, st')"
    using family_delete by blast
  then have "object_operation demo_qt demo_gen (qs ''delete'') [(qs ''object_id'', jint 2), (qs ''op'', JString (qs ''delete''))] family_state
      = (Success JNull, st')"
    by (intro handleRequest_object_operation) (simp_all add: jvalue_def smap_find_def)
  then have "op_delete demo_qt 2 family_state = (Success JNull, st')"
    by (simp add: object_operation_def jvalue_def smap_find_def parseObjectId_jint family_find)
  then have "smap_find (objects st') 2 = None"
    by (intro op_delete_closes [where p = 2]) (simp_all add: family_find)
  moreover have "smap_find (objects family_state) 2 \<noteq> None" by (simp add: family_state_def smap_find_def)
  ultimately have "table_of family_state \<noteq> table_of st'" by (auto simp: table_of_def)
  with d request_refines_handle_table [OF demo_gen_ok family_inv(1) d] show ?thesis by blast
qed

text \<open>So a session of concurrent callers is a sequence of such steps, from any of its states to any later one.\<close>

lemma session_refines_handle_table:
  assumes "gen_ok G" "reachable Q G w s" "(session_step Q G)\<^sup>*\<^sup>* s s'"
  shows "reachable Q G w s' \<and> table_step\<^sup>*\<^sup>* (table_of (shared s)) (table_of (shared s'))"
  using assms(3)
proof (induction rule: rtranclp_induct)
  case (step y z)
  then have ry: "reachable Q G w y" by blast
  then have rz: "reachable Q G w z" using step.hyps(2) by (rule reachable.step)
  have inv: "reg_inv (shared y)"
    using sequential_ok [OF assms(1) reg_inv_init, of Q "map fst (history y)" w] session_invD(4) [OF reachable_session_inv [OF ry]] by simp
  from step.hyps(2) have "table_step\<^sup>*\<^sup>* (table_of (shared y)) (table_of (shared z))"
  proof cases
    case (release t c st out st')
    have "st = shared y" using session_invD(1) [OF reachable_session_inv [OF ry]] release by blast
    then have "snd (sequential Q G [(t, c)] (shared y)) = st'" using release by simp
    then show ?thesis
      using sequential_ok [OF assms(1) inv, of Q "[(t, c)]"] handle_step_refines [of "shared y" st'] release by simp
  qed simp_all
  with step.IH rz show ?case by (meson rtranclp_trans)
qed (use assms(2) in simp)

end
