(* ===== verification/Spec2Isabelle.thy ===== *)
theory Spec2Isabelle
  imports Wire_Properties Program_Properties Event_Queue Lifetime_Properties
begin

text \<open>
  A verification library for the native Qt 6 adapter of Kryndel
  (src/packages/qt6/native). The adapter is a C library with one entry point,
  \<^verbatim>\<open>kry_qt6_request\<close>: the Kryndel runtime sends a JSON request, the adapter carries it out on Qt
  and answers base64 of a JSON reply. Requests create QObjects, call their methods, read and
  write properties, subscribe to signals, and store Qt values; objects and values travel as
  integer handles. Qt itself is not modelled but taken as a record of functions \<open>Q\<close>
  (\<open>Qt_Library\<close>) over an unknown world, and what a particular build knows at compile time (headers,
  type traits, constructors) as the record \<open>B\<close> (\<open>Shard_Arguments\<close>); what the properties need of
  them is a named hypothesis (\<open>lifetime_ok\<close>, \<open>tree_ok\<close>, \<open>forest_ok\<close>, \<open>spy_ok\<close>, \<open>spies_independent\<close>, \<open>spies_inert\<close>, \<open>convert_ok\<close>, \<open>base64_ok\<close>,
  \<open>new_ok\<close>, \<open>build_ok\<close>), which states documented behaviour of that code. The hand-written code
  is modelled over a third record \<open>G\<close> (\<open>Generated_Dispatch\<close>), the generated units it calls, with the
  contract \<open>gen_ok\<close>; \<open>link Q B G\<close> (\<open>Generated_Tables\<close>) puts the modelled units into it, and
  \<open>program Q B ax\<close> is the generated code of a build, with no unit left open.

  The theories, in the order of the code (C++ names are functions of qt6\_bridge.cpp unless another
  file is given):

  \<^item> \<open>Prelude\<close>, \<open>Std_Map\<close>, \<open>Machine_Numbers\<close>, \<open>Qt_Json\<close>, \<open>Qt_Library\<close>: strings, messages,
    \<^verbatim>\<open>std::map\<close> as a sorted association list with its contract as the locale \<open>key_map\<close>, \<^verbatim>\<open>double\<close> as a
    rational or an infinity or NaN with the rounding of \<^verbatim>\<open>static_cast<double>\<close>, \<^verbatim>\<open>QJsonValue\<close>,
    \<^verbatim>\<open>success\<close> and \<^verbatim>\<open>failure\<close>, and the interface to Qt.
  \<^item> \<open>Registry\<close>: the adapter's global state as the record \<open>bridge\<close>, \<^verbatim>\<open>objectForId\<close>, \<^verbatim>\<open>idForObject\<close>,
    \<^verbatim>\<open>registerObject\<close>, \<^verbatim>\<open>registerValue\<close>, \<^verbatim>\<open>isDescendantOf\<close>, the invariant \<open>reg_inv\<close>, and the contract of
    a handle table (locale \<open>handle_registry\<close>) with its two interpretations.
  \<^item> \<open>Arguments\<close>, \<open>From_Json\<close>, \<open>To_Json\<close>, \<open>Conversion_Laws\<close>: \<^verbatim>\<open>parseObjectId\<close>, the number readers,
    \<^verbatim>\<open>fromJson\<close> and \<^verbatim>\<open>toJson\<close>, one definition per branch.
  \<^item> \<open>Generated_Dispatch\<close>: generated\_default\_constructors.h (module table and lookups) and the four
    generated dispatchers, with the shards as a parameter.
  \<^item> \<open>Module_Factories\<close>: the templates of generated\_default\_constructors.h and the seven functions of
    a unit of generated\_modules; \<open>Modules_A\<close> and \<open>Modules_B\<close> hold the class tables of its 49 units.
  \<^item> \<open>Shard_Arguments\<close>, \<open>Shard_Methods\<close>, \<open>Shard_Constructors\<close>: interpreters for the generated shards. A
    generated block is a datum (\<open>binding\<close>, \<open>overload\<close>) that names what varies from block to block: build
    macros, signature, parameter conversions, result, bound classes; \<open>run_binding\<close>,
    \<open>construct_candidate\<close> and their relatives are the code all blocks share.
  \<^item> \<open>Constructors_*\<close>, \<open>Value_Constructors_*\<close>, \<open>Methods_*\<close>, \<open>Value_Methods_*\<close>: the blocks of
    generated\_constructors, generated\_value\_constructors, generated\_methods and
    generated\_value\_methods as tables, in the order of the code, one definition per run of blocks
    (\<open>meth_qtcore_3_1\<close> is the second run of qt6\_methods\_qtcore\_3.cpp); \<open>Qt_Names\<close> holds the type
    names that occur often. Every table of methods is checked for the kind of its candidates and for the
    order of its signatures (\<open>object_blocks\<close>, \<open>value_blocks\<close>). The object methods of the modules for 3D, charts, graphs and data
    visualization are in \<open>Methods_Qt3D_*\<close> and \<open>Methods_Charts_*\<close>, those for devices, sensors, OpenGL and
    web pages in \<open>Methods_Devices_A\<close>. \<open>Described_Types\<close> is the table of \<^verbatim>\<open>describeDirectValueType\<close>.
    \<open>Generated_Tables\<close> joins the tables and defines \<open>link\<close> and \<open>program\<close>.
  \<^item> \<open>Shard_Laws\<close>, \<open>Shard_Properties\<close>, \<open>Build_Properties\<close>, \<open>Program_Properties\<close>: the reference dispatch of a
    shard, what a call may change before it reaches Qt, construction without leaks, the facts about
    the tables, and the generated code as a whole: the tables hold every unit the dispatchers name
    (\<open>program_closed\<close>), a call over all shards reaches Qt only through a fitting block, and
    \<^verbatim>\<open>value_call\<close> loses the error of a block that refuses its arguments.
    \<open>Demo_Build\<close> is a concrete build for the witnesses.
  \<^item> \<open>Registry_Steps\<close>, \<open>Reflection\<close>, \<open>Create_Object\<close>: what an operation may do to the registry
    (\<open>reg_step\<close>); \<^verbatim>\<open>buildArguments\<close>, \<^verbatim>\<open>constructInvokable\<close>, \<^verbatim>\<open>invokeMethod\<close>, \<^verbatim>\<open>setProperty\<close>,
    \<^verbatim>\<open>metaObjectDescription\<close>; \<^verbatim>\<open>createObject\<close> with its table of hand-written constructors, and \<^verbatim>\<open>adopt\<close>.
  \<^item> \<open>Call_Support\<close>, \<open>Call_Widgets\<close>, \<open>Call_Containers\<close>: the hand-written method bindings of the
    \<^verbatim>\<open>call\<close> operation, each a function to \<open>option\<close> that is \<open>None\<close> when its condition fails.
  \<^item> \<open>Value_Ops\<close>, \<open>Object_Ops\<close>, \<open>Handle_Request\<close>: every operation of \<^verbatim>\<open>handleRequest\<close> and the dispatch.
  \<^item> \<open>Wire\<close>: \<^verbatim>\<open>writeResponse\<close>, \<^verbatim>\<open>kry_qt6_request\<close> with its catch blocks, and the callers of several
    threads around \<^verbatim>\<open>stateMutex\<close> as the step relation \<open>session_step\<close>.
  \<^item> \<open>Request_Invariant\<close>, \<open>Registry_Properties\<close>, \<open>Conversion_Properties\<close>, \<open>Operation_Properties\<close>,
    \<open>Wire_Properties\<close> and this theory: the properties. \<open>Event_Queue\<close> states what a poll does as a read
    of one abstract queue (\<open>pending\<close>), \<open>Lifetime_Properties\<close> what a request or a session does to handles as
    steps of one abstract table (\<open>table_step\<close>), and that a deleted handle stays refused. \<open>Demo\<close> is a small concrete Qt that satisfies
    the hypotheses; the witnesses run on it.

  What is proved: every request keeps the registry invariant and handles are never reused or
  redirected; deleting an object closes exactly the handles of its subtree, with their subscriptions;
  \<^verbatim>\<open>isDescendantOf\<close> is the transitive parent relation, and its loop ends; a conversion yields a value of
  the wanted type, a pointer only for a live object of the wanted class; finite geometry, 64-bit integers,
  small enums and object handles survive the round trip through JSON; a reflective call or a
  property write reaches Qt only with what the request converts to for the declared types; polling reads
  one queue of pending events in order, within its bound, and only from open objects; a deleted
  handle is refused for ever; every request refines an abstract handle table; the response buffer is never
  overrun and a retry receives the whole response; concurrent callers see a sequential history
  and each gets its answer in at most three steps. Of the generated units: linking them keeps the contract \<open>gen_ok\<close>, and the
  \<open>program\<close> of any build meets it (\<open>program_ok\<close>), so that what is proved under \<open>gen_ok\<close> holds of it; the chain of
  blocks of every shard computes a one-pass dispatch by signature and target; a call changes something
  only after its arguments were checked and the target has the bound type; a failed construction
  leaves no object behind; a result of one method, a scalar or an object, is accepted unchanged as
  argument of another.

  Bounds and fuel: the parent walk of \<^verbatim>\<open>isDescendantOf\<close> has Qt's number of live objects plus one as
  fuel, which \<open>tree_ok\<close> makes enough. That the loop itself, which has no bound (\<open>parent_loop\<close>, a partial
  function), returns is proved apart, from finitely many live objects none of which is above itself
  (\<open>forest_ok\<close>, \<open>parent_loop_returns\<close>). All other recursion is structural. Handles are integers:
  the counter grows by one per registration and does not reach 2^63. Sizes, rows and argument
  integers are 32-bit words, \<^verbatim>\<open>qint64\<close> arguments 64-bit words. The handler is taken to return: a Qt
  call that blocks forever, a nested event loop that re-enters the adapter and running out of
  memory are outside the model, except that an exception of the handler is modelled where
  \<^verbatim>\<open>kry_qt6_request\<close> catches it.

  The interpreters represent every C++ value by a \<open>qvariant\<close>; a list by its elements, and a null
  QString by the empty one. The calls into Qt are \<open>qt_call\<close>, \<open>static_call\<close>, \<open>value_call\<close>,
  \<open>make_value\<close> and \<open>new_object\<close> by the C++ name of the member or class.

  Not modelled: the Python generator of the generated files, which does not run in the program; the
  Kryndel compiler and runtime (Go) and the other packages, which are not C++. All functions of the
  C++ files are modelled; what they call in Qt is not, and neither is how the compiler answers the
  questions of a build (\<open>B\<close>: which headers there are, which types are complete or can be copied).
\<close>

subsection \<open>The session of several callers\<close>

text \<open>
  C3: Whatever the callers of several threads do, at most one of them is inside the handler, every
  answer and the state of the bridge are those of the same calls made one after the other in
  the order they released the lock, every finished caller has its answer from that sequence,
  and the registry invariant holds.
\<close>

theorem session_linearizable:
  assumes "gen_ok G" "reachable Q G w s"
  shows "(\<forall>t1 t2 c1 c2 st1 st2. pcs s t1 = Critical c1 st1 \<longrightarrow> pcs s t2 = Critical c2 st2 \<longrightarrow> t1 = t2)
     \<and> sequential Q G (map fst (history s)) (bridge_init w) = (map snd (history s), shared s)
     \<and> (\<forall>t out. pcs s t = Finished out \<longrightarrow> (\<exists>c. ((t, c), out) \<in> set (history s)))
     \<and> reg_inv (shared s)"
proof -
  note inv = session_invD [OF reachable_session_inv [OF assms(2)]]
  have "pcs s t1 = Critical c1 st1 \<Longrightarrow> pcs s t2 = Critical c2 st2 \<Longrightarrow> t1 = t2" for t1 t2 c1 c2 st1 st2
    by (drule inv(1))+ simp
  moreover have "reg_inv (shared s)"
    using sequential_ok [OF assms(1) reg_inv_init, where Q = Q and w1 = w and calls = "map fst (history s)"] inv(4) by simp
  ultimately show ?thesis using inv(3,4) by blast
qed

definition demo_waiting :: "(demo, unit) session" where
  "demo_waiting = (session_init demo_init)\<lparr>pcs := (\<lambda>_. Idle)(1 := Waiting demo_wire_call)\<rparr>"

lemma demo_waiting_reachable: "reachable demo_qt demo_gen demo_init demo_waiting"
proof -
  have "session_step demo_qt demo_gen (session_init demo_init)
      ((session_init demo_init)\<lparr>pcs := (pcs (session_init demo_init))(1 := Waiting demo_wire_call)\<rparr>)"
    by (rule enter) (simp add: session_init_def)
  then have "session_step demo_qt demo_gen (session_init demo_init) demo_waiting"
    by (simp add: demo_waiting_def session_init_def)
  then show ?thesis by (rule reachable.step [OF reachable.start])
qed

theorem session_linearizable_witness: "reg_inv (shared demo_waiting)"
  using session_linearizable [OF demo_gen_ok demo_waiting_reachable] by blast

text \<open>
  C26: No caller is ever stuck behind the lock: from every reachable state a waiting caller reaches
  the answer to its own call in at most three steps, of itself and of the caller that holds the lock.
\<close>

theorem session_progress:
  assumes "reachable Q G w s" "pcs s t = Waiting c"
  shows "\<exists>n s' out. n \<le> 3 \<and> (session_step Q G ^^ n) s s' \<and> pcs s' t = Finished out \<and> last (history s') = ((t, c), out)"
proof (cases "stateMutex s")
  case None
  from waiting_finishes [OF assms(2) None, of Q G] obtain s1 s2 out where
    st: "session_step Q G s s1" "session_step Q G s1 s2" and s2: "pcs s2 t = Finished out" "last (history s2) = ((t, c), out)" by blast
  have "(session_step Q G ^^ 2) s s2" using st by (auto simp: numeral_2_eq_2)
  with s2 show ?thesis by (intro exI [of _ 2] exI [of _ s2] exI [of _ out]) simp
next
  case (Some t2)
  then obtain c2 where c2: "pcs s t2 = Critical c2 (shared s)"
    using session_invD(2) [OF reachable_session_inv [OF assms(1)]] by blast
  with assms(2) have "t \<noteq> t2" by auto
  with critical_finishes [OF c2] obtain s1 where s1: "session_step Q G s s1" "stateMutex s1 = None" "pcs s1 t = Waiting c"
    using assms(2) by metis
  from waiting_finishes [OF s1(3,2), of Q G] obtain s2 s3 out where
    st: "session_step Q G s1 s2" "session_step Q G s2 s3" and s3: "pcs s3 t = Finished out" "last (history s3) = ((t, c), out)" by blast
  have "(session_step Q G ^^ 3) s s3" using s1(1) st by (auto simp: numeral_3_eq_3)
  with s3 show ?thesis by (intro exI [of _ 3] exI [of _ s3] exI [of _ out]) simp
qed

theorem session_progress_witness:
  "\<exists>n s' out. n \<le> 3 \<and> (session_step demo_qt demo_gen ^^ n) demo_waiting s' \<and> pcs s' 1 = Finished out"
proof -
  have "pcs demo_waiting 1 = Waiting demo_wire_call" by (simp add: demo_waiting_def)
  from session_progress [OF demo_waiting_reachable this] show ?thesis by blast
qed

end
